(* ===== verification/Sim_Prelude.thy ===== *)
theory Sim_Prelude
  imports Main "HOL-Library.Word"
begin

text \<open>
  Shared vocabulary of the development: machine integers, results that may be an
  error, the search for the first element of a vector, and loops run on fuel with the
  interface that says when the fuel is enough.
\<close>

unbundle bit_operations_syntax

named_theorems sim_simps \<open>evaluation rules of the error results\<close>

section \<open>Machine integers\<close>

type_synonym u64 = "64 word"
type_synonym u32 = "32 word"

text \<open>C's conversions between \<open>int\<close> (32 bits) and \<open>unsigned long long\<close>.\<close>

definition to_c_int :: "u64 \<Rightarrow> int" where
  "to_c_int x = sint (ucast x :: u32)"

definition of_c_int :: "int \<Rightarrow> u64" where
  "of_c_int i = word_of_int i"

lemma to_c_int_small:
  assumes "x < 2 ^ 31"
  shows "to_c_int x = uint x"
proof -
  from assms have "uint x < 2 ^ 31"
    by (simp add: word_less_def)
  then show ?thesis
    by (simp add: to_c_int_def signed_ucast_eq signed_take_bit_int_eq_self_iff
        order_trans [OF _ uint_ge_0])
qed

section \<open>Results that may be an error\<close>

text \<open>
  The C++ code has no error returns of its own: what can go wrong is undefined behaviour or
  an exception of the standard library. Each becomes a value.
\<close>

datatype sim_error =
    Uninitialised_index \<comment> \<open>an index variable is read before it was assigned\<close>
  | Out_of_range        \<comment> \<open>a vector is read outside its bounds\<close>
  | Null_dereference    \<comment> \<open>a null pointer is dereferenced\<close>
  | Empty_queue         \<comment> \<open>front or pop of an empty queue\<close>

type_synonym 'a result = "sim_error + 'a"

definition andthen :: "'e + 'a \<Rightarrow> ('a \<Rightarrow> 'e + 'b) \<Rightarrow> 'e + 'b" where
  "andthen r f = (case r of Inl e \<Rightarrow> Inl e | Inr x \<Rightarrow> f x)"

lemma andthen_simps [simp, sim_simps]:
  "andthen (Inl e) f = Inl e"
  "andthen (Inr x) f = f x"
  by (simp_all add: andthen_def)

lemma andthen_Inr_iff [sim_simps]:
  "andthen r f = Inr y \<longleftrightarrow> (\<exists>x. r = Inr x \<and> f x = Inr y)"
  by (cases r) auto

lemma andthen_cong [fundef_cong]:
  "r = r' \<Longrightarrow> (\<And>x. r' = Inr x \<Longrightarrow> f x = f' x) \<Longrightarrow> andthen r f = andthen r' f'"
  by (cases r') auto

section \<open>Vectors\<close>

text \<open>Index of the first element with a property, as the linear scans of the code find it.\<close>

fun find_index :: "('a \<Rightarrow> bool) \<Rightarrow> 'a list \<Rightarrow> nat option" where
  "find_index P [] = None"
| "find_index P (x # xs) = (if P x then Some 0 else map_option Suc (find_index P xs))"

lemma find_index_None_iff: "find_index P xs = None \<longleftrightarrow> (\<forall>x \<in> set xs. \<not> P x)"
  by (induction xs) auto

lemma find_index_SomeD:
  "find_index P xs = Some i \<Longrightarrow> i < length xs \<and> P (xs ! i) \<and> (\<forall>j < i. \<not> P (xs ! j))"
proof (induction xs arbitrary: i)
  case Nil
  then show ?case by simp
next
  case (Cons x xs)
  then show ?case
    by (auto split: if_splits simp: nth_Cons split: nat.splits)
qed

lemma find_index_cong_map:
  "map f xs = map g ys \<Longrightarrow> find_index (P \<circ> f) xs = find_index (P \<circ> g) ys"
proof (induction xs arbitrary: ys)
  case Nil
  then show ?case by simp
next
  case (Cons x xs)
  then show ?case by (cases ys) auto
qed

lemma find_index_append:
  "find_index P (xs @ ys) =
     (case find_index P xs of Some i \<Rightarrow> Some i
      | None \<Rightarrow> map_option (\<lambda>i. i + length xs) (find_index P ys))"
proof (induction xs)
  case Nil
  then show ?case by (simp add: option.map_ident)
next
  case (Cons x xs)
  then show ?case by (auto split: option.splits simp: option.map_comp comp_def)
qed

lemma list_all_update: "list_all P xs \<Longrightarrow> P x \<Longrightarrow> list_all P (xs[i := x])"
  by (auto simp: list_all_iff dest!: set_update_subset_insert [THEN subsetD])

text \<open>Vector erase at a position.\<close>

definition erase_at :: "nat \<Rightarrow> 'a list \<Rightarrow> 'a list" where
  "erase_at i xs = take i xs @ drop (Suc i) xs"

lemma length_erase_at [simp]: "i < length xs \<Longrightarrow> length (erase_at i xs) = length xs - 1"
  by (simp add: erase_at_def)

lemma set_erase_at_subset: "set (erase_at i xs) \<subseteq> set xs"
  by (auto simp: erase_at_def dest: in_set_takeD in_set_dropD)

lemma map_erase_at: "map f (erase_at i xs) = erase_at i (map f xs)"
  by (simp add: erase_at_def take_map drop_map)

lemma distinct_erase_at: "distinct xs \<Longrightarrow> distinct (erase_at i xs)"
  by (auto simp: erase_at_def set_take_disj_set_drop_if_distinct)

lemma set_erase_at_distinct:
  "distinct xs \<Longrightarrow> i < length xs \<Longrightarrow> set (erase_at i xs) = set xs - {xs ! i}"
proof -
  assume d: "distinct xs" and i: "i < length xs"
  have "set xs = set (take i xs @ xs ! i # drop (Suc i) xs)"
    by (simp only: id_take_nth_drop [OF i, symmetric])
  moreover have "distinct (take i xs @ xs ! i # drop (Suc i) xs)"
    using d by (simp only: id_take_nth_drop [OF i, symmetric])
  ultimately show ?thesis by (auto simp: erase_at_def)
qed

section \<open>Loops on fuel\<close>

text \<open>
  A \<open>while\<close> loop whose body may fail. \<open>None\<close>: the fuel ran out before the guard became
  false; \<open>Some\<close>: the loop stopped, with an error or a state.
\<close>

fun run_loop :: "('s \<Rightarrow> bool) \<Rightarrow> ('s \<Rightarrow> 'e + 's) \<Rightarrow> nat \<Rightarrow> 's \<Rightarrow> ('e + 's) option" where
  "run_loop guard step 0 s = (if guard s then None else Some (Inr s))"
| "run_loop guard step (Suc n) s =
     (if guard s
      then (case step s of Inl e \<Rightarrow> Some (Inl e) | Inr s' \<Rightarrow> run_loop guard step n s')
      else Some (Inr s))"

lemma run_loop_more_fuel:
  "run_loop g f n s = Some r \<Longrightarrow> n \<le> m \<Longrightarrow> run_loop g f m s = Some r"
proof (induction n arbitrary: s m)
  case 0
  then show ?case by (cases m) (auto split: if_splits)
next
  case (Suc n)
  from Suc.prems(2) obtain m' where m: "m = Suc m'" and "n \<le> m'"
    by (cases m) auto
  with Suc.prems(1) Suc.IH show ?case
    by (auto split: if_splits sum.splits)
qed

text \<open>
  The interface of a terminating loop: an invariant that each iteration keeps without an
  error, and a measure that each iteration decreases.
\<close>

locale bounded_loop =
  fixes guard :: "'s \<Rightarrow> bool"
    and step :: "'s \<Rightarrow> 'e + 's"
    and inv :: "'s \<Rightarrow> bool"
    and meas :: "'s \<Rightarrow> nat"
  assumes step_ok: "inv s \<Longrightarrow> guard s \<Longrightarrow> \<exists>s'. step s = Inr s' \<and> inv s' \<and> meas s' < meas s"
begin

lemma loop_returns:
  assumes "inv s" and "meas s \<le> n"
  shows "\<exists>s'. run_loop guard step n s = Some (Inr s') \<and> inv s' \<and> \<not> guard s'"
  using assms
proof (induction n arbitrary: s)
  case 0
  then have "\<not> guard s"
    using step_ok by fastforce
  with 0 show ?case by auto
next
  case (Suc n)
  show ?case
  proof (cases "guard s")
    case True
    with Suc.prems(1) obtain s' where s': "step s = Inr s'" "inv s'" "meas s' < meas s"
      using step_ok by blast
    with Suc.prems(2) have "meas s' \<le> n" by simp
    with Suc.IH s'(2) obtain s'' where
      "run_loop guard step n s' = Some (Inr s'')" "inv s''" "\<not> guard s''" by blast
    with True s'(1) show ?thesis by auto
  next
    case False
    with Suc.prems show ?thesis by auto
  qed
qed

end

text \<open>A fact that each iteration keeps holds when the loop stops without an error.\<close>

lemma run_loop_invariant:
  assumes "run_loop g f n s = Some (Inr s')"
    and "\<And>s s'. I s \<Longrightarrow> g s \<Longrightarrow> f s = Inr s' \<Longrightarrow> I s'"
    and "I s"
  shows "I s' \<and> \<not> g s'"
  using assms(1,3)
proof (induction n arbitrary: s)
  case 0
  then show ?case by (auto split: if_splits)
next
  case (Suc n)
  then show ?case
    using assms(2) by (auto split: if_splits sum.splits)
qed

end
