(* ===== verification/Constants.thy ===== *)
theory Constants
  imports Sim_Prelude
begin

text \<open>
  CacheConstants.h and CacheConstants.cpp: the parameters of the simulated machine, and the
  clock. In the code they are global variables that every \<open>CacheConstants\<close> object
  shares; only \<open>cycles\<close> changes after construction, so the model keeps the clock in
  the state of the simulation and passes the rest around as a record.
\<close>

datatype protocol_kind = MSI | MESI | MOESI

text \<open>
  \<open>shl_beyond_int\<close> is not a variable of the code. \<open>Cache::decode_address\<close> computes
  \<open>1 << numTagBits\<close> with \<open>numTagBits = 36\<close> on a 32-bit \<open>int\<close>, which C++ leaves
  undefined; the field says what the target computes for a shift of the \<open>int\<close> 1 by an
  amount outside 0 to 30, so that every theorem that does not mention it holds on any target.
\<close>

record constants =
  cacheHitCycleCost :: int
  memoryResponseCycleCost :: int
  cacheResponseCycleCost :: int
  numProcessors :: int
  numSets :: int
  numSetBits :: int
  numLinesInSet :: int
  numBytesInLine :: int
  numBytesBits :: int
  numAddressBits :: int
  numCacheSize :: int
  protocol :: protocol_kind
  shl_beyond_int :: "int \<Rightarrow> int"

text \<open>The values the constructor gives them.\<close>

definition CacheConstants :: "(int \<Rightarrow> int) \<Rightarrow> constants" where
  "CacheConstants shl =
     \<lparr>cacheHitCycleCost = 4,
      memoryResponseCycleCost = 100,
      cacheResponseCycleCost = 20,
      numProcessors = 8,
      numSets = 64,
      numSetBits = 6,
      numLinesInSet = 8,
      numBytesInLine = 64,
      numBytesBits = 6,
      numAddressBits = 48,
      numCacheSize = 64 * 8 * 64,
      protocol = MESI,
      shl_beyond_int = shl\<rparr>"

text \<open>The clock: \<open>cycles\<close> is set to 0 by the constructor and advanced by \<open>tick\<close>.\<close>

definition initial_cycle :: u64 where
  "initial_cycle = 0"

definition clock_tick :: "u64 \<Rightarrow> u64" where
  "clock_tick cycles = cycles + 1"

text \<open>
  The three simulators the repository is about differ in one line of the constructor, the
  protocol.
\<close>

definition configured :: "protocol_kind \<Rightarrow> (int \<Rightarrow> int) \<Rightarrow> constants" where
  "configured p shl = (CacheConstants shl)\<lparr>protocol := p\<rparr>"

lemmas configured_simps [simp] = configured_def CacheConstants_def

lemma configured_MESI: "configured MESI shl = CacheConstants shl"
  by simp

text \<open>The left shift of the \<open>int\<close> 1.\<close>

definition shl_one :: "constants \<Rightarrow> int \<Rightarrow> int" where
  "shl_one k n = (if 0 \<le> n \<and> n < 31 then 2 ^ nat n else shl_beyond_int k n)"

text \<open>
  What an x86 processor computes: the shift amount is taken modulo 32. It is the only
  target behaviour that any theorem of the development assumes, and only where it says so.
\<close>

definition x86_shl_one :: "int \<Rightarrow> int" where
  "x86_shl_one n = to_c_int (2 ^ nat (n mod 32))"

lemma x86_shl_one_36: "x86_shl_one 36 = 16"
  by (simp add: x86_shl_one_def to_c_int_def)

end
