(* ===== verification/Cache_Set.thy ===== *)
theory Cache_Set
  imports Constants
begin

text \<open>
  CacheLine and CacheSet: the lines of one set of one cache, the search by tag, the
  eviction of the least recently used line.
\<close>

section \<open>CacheLine\<close>

datatype line_state = invalid | shared | modified | exclusive | owned

record cache_line =
  rawAddress :: u64
  setIndex :: int
  myTag :: int
  myState :: line_state
  lastUsedCycle :: u64

definition CacheLine :: "u64 \<Rightarrow> int \<Rightarrow> int \<Rightarrow> cache_line" where
  "CacheLine adr set_index tag =
     \<lparr>rawAddress = adr, setIndex = set_index, myTag = tag, myState = invalid, lastUsedCycle = 0\<rparr>"

definition setState :: "line_state \<Rightarrow> cache_line \<Rightarrow> cache_line" where
  "setState st l = l\<lparr>myState := st\<rparr>"

section \<open>CacheSet\<close>

text \<open>
  The vector holds pointers to lines that only this set refers to and that are never
  null, so a line is its value; a pointer that \<open>getLine\<close> returns is the position of the
  line, and a write through it is \<open>update_line\<close>.
\<close>

record cache_set =
  allLines :: "cache_line list"

definition empty_set_of_lines :: cache_set where
  "empty_set_of_lines = \<lparr>allLines = []\<rparr>"

definition update_line :: "nat \<Rightarrow> (cache_line \<Rightarrow> cache_line) \<Rightarrow> cache_set \<Rightarrow> cache_set" where
  "update_line i f s = s\<lparr>allLines := (allLines s)[i := f (allLines s ! i)]\<rparr>"

definition isFull :: "constants \<Rightarrow> cache_set \<Rightarrow> bool" where
  "isFull k s =
     (if int (length (allLines s)) < numLinesInSet k then False
      else list_all (\<lambda>l. myState l = modified) (allLines s))"

definition hasLine :: "cache_set \<Rightarrow> int \<Rightarrow> bool" where
  "hasLine s tag = list_ex (\<lambda>l. myTag l = tag) (allLines s)"

text \<open>\<open>getLine\<close> also marks the line as used now.\<close>

definition getLine :: "u64 \<Rightarrow> cache_set \<Rightarrow> int \<Rightarrow> cache_set \<times> nat option" where
  "getLine now s tag =
     (case find_index (\<lambda>l. myTag l = tag) (allLines s) of
        None \<Rightarrow> (s, None)
      | Some i \<Rightarrow> (update_line i (\<lambda>l. l\<lparr>lastUsedCycle := now\<rparr>) s, Some i))"

text \<open>
  The scan for the least recently used line: \<open>best\<close> starts as \<open>ULLONG_MAX\<close>, and
  \<open>choice\<close> is the variable \<open>lineToEvict\<close>, \<open>None\<close> while it is unassigned.
\<close>

definition ULLONG_MAX :: u64 where
  "ULLONG_MAX = - 1"

fun lru_scan :: "nat \<Rightarrow> cache_line list \<Rightarrow> u64 \<Rightarrow> nat option \<Rightarrow> nat option" where
  "lru_scan i [] best choice = choice"
| "lru_scan i (l # ls) best choice =
     (if lastUsedCycle l < best then lru_scan (Suc i) ls (lastUsedCycle l) (Some i)
      else lru_scan (Suc i) ls best choice)"

text \<open>Here \<open>lineToEvict\<close> starts as 0, and the line is only looked at.\<close>

definition evictLineModified :: "constants \<Rightarrow> cache_set \<Rightarrow> bool result" where
  "evictLineModified k s =
     (if int (length (allLines s)) \<noteq> numLinesInSet k then Inr False
      else (case lru_scan 0 (allLines s) ULLONG_MAX (Some 0) of
              None \<Rightarrow> Inl Uninitialised_index
            | Some i \<Rightarrow>
                if i < length (allLines s) then Inr (myState (allLines s ! i) = modified)
                else Inl Out_of_range))"

text \<open>Here \<open>lineToEvict\<close> starts unassigned, and the line is removed.\<close>

definition evictLRULine :: "cache_set \<Rightarrow> cache_set result" where
  "evictLRULine s =
     (case lru_scan 0 (allLines s) ULLONG_MAX None of
        None \<Rightarrow> Inl Uninitialised_index
      | Some i \<Rightarrow> Inr (s\<lparr>allLines := erase_at i (allLines s)\<rparr>))"

definition addLine :: "constants \<Rightarrow> cache_line \<Rightarrow> cache_set \<Rightarrow> cache_set result" where
  "addLine k line s =
     andthen (if int (length (allLines s)) = numLinesInSet k then evictLRULine s else Inr s)
       (\<lambda>s. Inr (s\<lparr>allLines := allLines s @ [line]\<rparr>))"

section \<open>What a set holds\<close>

text \<open>
  The abstraction the proofs use: a set maps a tag to the state of the first line with this
  tag, and to \<open>None\<close> where no line has it.
\<close>

definition line_at :: "cache_set \<Rightarrow> int \<Rightarrow> line_state option" where
  "line_at s tag =
     map_option (\<lambda>i. myState (allLines s ! i)) (find_index (\<lambda>l. myTag l = tag) (allLines s))"

definition tags_of :: "cache_set \<Rightarrow> int list" where
  "tags_of s = map myTag (allLines s)"

text \<open>No tag occurs twice, no set holds more lines than it has ways.\<close>

definition wf_set :: "constants \<Rightarrow> cache_set \<Rightarrow> bool" where
  "wf_set k s \<longleftrightarrow> distinct (tags_of s) \<and> int (length (tags_of s)) \<le> numLinesInSet k"

text \<open>Every line was used at \<open>now\<close> or before.\<close>

definition used_by :: "u64 \<Rightarrow> cache_set \<Rightarrow> bool" where
  "used_by now s \<longleftrightarrow> (\<forall>l \<in> set (allLines s). lastUsedCycle l \<le> now)"

lemma length_tags_of [simp]: "length (tags_of s) = length (allLines s)"
  by (simp add: tags_of_def)

lemma used_by_mono: "used_by m s \<Longrightarrow> m \<le> n \<Longrightarrow> used_by n s"
  by (fastforce simp: used_by_def)

lemma used_by_update_line:
  "used_by now s \<Longrightarrow> (\<And>l. lastUsedCycle l \<le> now \<Longrightarrow> lastUsedCycle (f l) \<le> now) \<Longrightarrow>
     i < length (allLines s) \<Longrightarrow> used_by now (update_line i f s)"
  by (auto simp: used_by_def update_line_def dest!: set_update_subset_insert [THEN subsetD])

lemma hasLine_iff: "hasLine s tag \<longleftrightarrow> tag \<in> set (tags_of s)"
  by (auto simp: hasLine_def tags_of_def list_ex_iff)

lemma find_tag_None_iff:
  "find_index (\<lambda>l. myTag l = tag) (allLines s) = None \<longleftrightarrow> \<not> hasLine s tag"
  by (auto simp: find_index_None_iff hasLine_iff tags_of_def)

lemma find_tag_SomeE:
  assumes "hasLine s tag"
  obtains i where "find_index (\<lambda>l. myTag l = tag) (allLines s) = Some i"
    and "i < length (allLines s)" and "myTag (allLines s ! i) = tag"
proof -
  from assms find_tag_None_iff [of tag s]
  obtain i where i: "find_index (\<lambda>l. myTag l = tag) (allLines s) = Some i" by auto
  with that find_index_SomeD [OF i] show thesis by blast
qed

lemma line_at_None_iff: "line_at s tag = None \<longleftrightarrow> \<not> hasLine s tag"
  by (simp add: line_at_def find_tag_None_iff)

lemma line_at_absent: "\<not> hasLine s tag \<Longrightarrow> line_at s tag = None"
  by (simp add: line_at_None_iff)

lemma hasLine_line_at: "hasLine s tag \<longleftrightarrow> line_at s tag \<noteq> None"
  by (simp add: line_at_None_iff)

lemma line_at_first:
  "find_index (\<lambda>l. myTag l = tag) (allLines s) = Some i \<Longrightarrow>
     line_at s tag = Some (myState (allLines s ! i))"
  by (simp add: line_at_def)

lemma find_index_cong:
  "(\<And>x. x \<in> set xs \<Longrightarrow> P x = Q x) \<Longrightarrow> find_index P xs = find_index Q xs"
  by (induction xs) auto

lemma find_index_tags:
  "find_index (\<lambda>l. myTag l = tag) ls = find_index (\<lambda>t. t = tag) (map myTag ls)"
  by (induction ls) auto

text \<open>An update that keeps the tag of the line keeps the tags of the set.\<close>

lemma tags_update_line:
  "(\<And>l. myTag (f l) = myTag l) \<Longrightarrow> i < length (allLines s) \<Longrightarrow>
     tags_of (update_line i f s) = tags_of s"
  by (simp add: update_line_def tags_of_def map_update list_update_same_conv)

lemma length_update_line [simp]:
  "length (allLines (update_line i f s)) = length (allLines s)"
  by (simp add: update_line_def)

lemma line_at_update_line:
  assumes tag: "\<And>l. myTag (f l) = myTag l" and i: "i < length (allLines s)"
    and first: "find_index (\<lambda>l. myTag l = tag) (allLines s) = Some i"
  shows "line_at (update_line i f s) t =
           (if t = tag then Some (myState (f (allLines s ! i))) else line_at s t)"
proof -
  have tags: "find_index (\<lambda>l. myTag l = t) (allLines (update_line i f s)) =
      find_index (\<lambda>l. myTag l = t) (allLines s)"
    using tags_update_line [of f i s, OF tag i] by (simp add: find_index_tags tags_of_def)
  show ?thesis
  proof (cases "t = tag")
    case True
    with tags first i show ?thesis by (simp add: line_at_def update_line_def)
  next
    case False
    have "j \<noteq> i" if "find_index (\<lambda>l. myTag l = t) (allLines s) = Some j" for j
      using find_index_SomeD [OF that] find_index_SomeD [OF first] False by auto
    with tags False show ?thesis
      by (cases "find_index (\<lambda>l. myTag l = t) (allLines s)")
        (auto simp: line_at_def update_line_def)
  qed
qed

lemma getLine_present:
  assumes "hasLine s tag"
  obtains i where "find_index (\<lambda>l. myTag l = tag) (allLines s) = Some i"
    and "i < length (allLines s)"
    and "getLine now s tag = (update_line i (\<lambda>l. l\<lparr>lastUsedCycle := now\<rparr>) s, Some i)"
proof -
  from assms obtain i where i: "find_index (\<lambda>l. myTag l = tag) (allLines s) = Some i"
    "i < length (allLines s)" by (rule find_tag_SomeE)
  with that show thesis by (simp add: getLine_def)
qed

lemma getLine_absent: "\<not> hasLine s tag \<Longrightarrow> getLine now s tag = (s, None)"
  by (simp add: getLine_def find_tag_None_iff [THEN iffD2])

lemma getLine_tags [simp]: "tags_of (fst (getLine now s tag)) = tags_of s"
proof (cases "hasLine s tag")
  case True
  then obtain i where "i < length (allLines s)"
    "getLine now s tag = (update_line i (\<lambda>l. l\<lparr>lastUsedCycle := now\<rparr>) s, Some i)"
    by (rule getLine_present)
  then show ?thesis by (simp add: tags_update_line)
qed (simp add: getLine_absent)

lemma getLine_length [simp]: "length (allLines (fst (getLine now s tag))) = length (allLines s)"
  using getLine_tags [of now s tag] by (metis length_map tags_of_def)

lemma getLine_used_by:
  assumes "used_by now s"
  shows "used_by now (fst (getLine now s tag))"
proof (cases "hasLine s tag")
  case True
  then obtain i where "i < length (allLines s)"
    "getLine now s tag = (update_line i (\<lambda>l. l\<lparr>lastUsedCycle := now\<rparr>) s, Some i)"
    by (rule getLine_present)
  with assms show ?thesis by (simp add: used_by_update_line)
qed (simp add: getLine_absent assms)

lemma getLine_lines [simp]: "line_at (fst (getLine now s tag)) t = line_at s t"
proof (cases "hasLine s tag")
  case True
  then obtain i where i: "find_index (\<lambda>l. myTag l = tag) (allLines s) = Some i"
    "i < length (allLines s)"
    "getLine now s tag = (update_line i (\<lambda>l. l\<lparr>lastUsedCycle := now\<rparr>) s, Some i)"
    by (rule getLine_present)
  then show ?thesis
    by (simp add: line_at_update_line [OF _ i(2,1)] line_at_first)
qed (simp add: getLine_absent)

section \<open>Eviction\<close>

text \<open>
  The scan finds the first position whose last use is the least, provided some line was
  used before cycle \<open>ULLONG_MAX\<close>.
\<close>

lemma lru_scan_spec:
  "lru_scan i ls best choice =
     (if \<exists>l \<in> set ls. lastUsedCycle l < best
      then map_option (\<lambda>j. j + i)
             (find_index (\<lambda>l. lastUsedCycle l = Min (lastUsedCycle ` set ls)) ls)
      else choice)"
proof (induction ls arbitrary: i best choice)
  case Nil
  then show ?case by simp
next
  case (Cons l ls)
  let ?m = "Min (lastUsedCycle ` set ls)"
  show ?case
  proof (cases "ls = []")
    case True
    then show ?thesis by simp
  next
    case False
    then have m: "Min (lastUsedCycle ` set (l # ls)) = min (lastUsedCycle l) ?m"
      by simp
    have less: "(\<exists>x \<in> set ls. lastUsedCycle x < b) \<longleftrightarrow> ?m < b" for b
      using False by (simp add: Min_less_iff)
    show ?thesis
      unfolding m lru_scan.simps Cons.IH less
      using less [of best]
      by (auto simp: option.map_comp comp_def min_def
          intro!: arg_cong [where f = "\<lambda>P. map_option _ (find_index P ls)"])
  qed
qed

lemma ULLONG_MAX_greatest: "x \<le> ULLONG_MAX"
  by (simp add: ULLONG_MAX_def)

text \<open>The position the code evicts, and when there is one.\<close>

definition lru_position :: "cache_set \<Rightarrow> nat option" where
  "lru_position s = lru_scan 0 (allLines s) ULLONG_MAX None"

definition used_before_max :: "cache_set \<Rightarrow> bool" where
  "used_before_max s \<longleftrightarrow> list_ex (\<lambda>l. lastUsedCycle l < ULLONG_MAX) (allLines s)"

lemma lru_position_SomeE:
  assumes "used_before_max s"
  obtains i where "lru_position s = Some i" and "i < length (allLines s)"
    and "\<forall>l \<in> set (allLines s). lastUsedCycle (allLines s ! i) \<le> lastUsedCycle l"
    and "\<forall>j < i. lastUsedCycle (allLines s ! i) < lastUsedCycle (allLines s ! j)"
proof -
  let ?m = "Min (lastUsedCycle ` set (allLines s))"
  have ex: "\<exists>l \<in> set (allLines s). lastUsedCycle l < ULLONG_MAX"
    using assms by (simp add: used_before_max_def list_ex_iff)
  then have "?m \<in> lastUsedCycle ` set (allLines s)"
    by (intro Min_in) auto
  then have "find_index (\<lambda>l. lastUsedCycle l = ?m) (allLines s) \<noteq> None"
    by (auto simp: find_index_None_iff)
  then obtain i where i: "find_index (\<lambda>l. lastUsedCycle l = ?m) (allLines s) = Some i"
    by blast
  note D = find_index_SomeD [OF i]
  have least: "\<forall>l \<in> set (allLines s). ?m \<le> lastUsedCycle l"
    by simp
  have "\<forall>j < i. ?m < lastUsedCycle (allLines s ! j)"
  proof (intro allI impI)
    fix j assume "j < i"
    with D have "lastUsedCycle (allLines s ! j) \<noteq> ?m" "allLines s ! j \<in> set (allLines s)"
      by auto
    with least show "?m < lastUsedCycle (allLines s ! j)"
      by (metis order_le_imp_less_or_eq)
  qed
  with that [of i] D least ex i show thesis
    by (simp add: lru_position_def lru_scan_spec)
qed

lemma evictLRULine_Inr:
  assumes "evictLRULine s = Inr s'"
  obtains i where "lru_position s = Some i" and "i < length (allLines s)"
    and "allLines s' = erase_at i (allLines s)"
proof -
  from assms obtain i where i: "lru_position s = Some i"
    and s': "s' = s\<lparr>allLines := erase_at i (allLines s)\<rparr>"
    by (auto simp: evictLRULine_def lru_position_def split: option.splits)
  from i have "used_before_max s"
    by (auto simp: lru_position_def lru_scan_spec used_before_max_def list_ex_iff
        split: if_splits)
  then have "i < length (allLines s)"
    using i by (auto elim: lru_position_SomeE)
  with that i s' show thesis by simp
qed

lemma evictLRULine_ok: "used_before_max s \<Longrightarrow> \<exists>s'. evictLRULine s = Inr s'"
  by (erule lru_position_SomeE) (simp add: evictLRULine_def lru_position_def)

text \<open>With distinct tags, erasing a line makes its tag absent and leaves every other tag.\<close>

lemma line_at_alt:
  "line_at s t = map_of (map (\<lambda>l. (myTag l, myState l)) (allLines s)) t"
proof -
  have "map_option (\<lambda>i. myState (ls ! i)) (find_index (\<lambda>l. myTag l = t) ls) =
      map_of (map (\<lambda>l. (myTag l, myState l)) ls) t" for ls
    by (induction ls) (auto simp: option.map_comp comp_def)
  then show ?thesis by (simp add: line_at_def)
qed

lemma map_of_erase_at:
  "distinct (map fst xs) \<Longrightarrow> i < length xs \<Longrightarrow>
     map_of (erase_at i xs) = (map_of xs)(fst (xs ! i) := None)"
proof (induction xs arbitrary: i)
  case Nil
  then show ?case by simp
next
  case (Cons x xs)
  show ?case
  proof (cases i)
    case 0
    with Cons.prems have "map_of xs (fst x) = None"
      by (simp add: map_of_eq_None_iff)
    with 0 show ?thesis by (cases x) (simp add: erase_at_def fun_eq_iff)
  next
    case (Suc j)
    with Cons.prems have "fst (xs ! j) \<noteq> fst x"
      by (metis Suc_less_eq distinct.simps(2) image_eqI list.simps(9) list.set_map
          length_Cons nth_mem)
    moreover have "erase_at i (x # xs) = x # erase_at j xs"
      using Suc by (simp add: erase_at_def)
    ultimately show ?thesis
      using Suc Cons.IH [of j] Cons.prems by (cases x) (auto simp: fun_eq_iff)
  qed
qed

lemma evictLRULine_effect:
  assumes "distinct (tags_of s)" and "evictLRULine s = Inr s'"
  obtains i where "lru_position s = Some i" and "i < length (allLines s)"
    and "tags_of s' = erase_at i (tags_of s)"
    and "line_at s' = (line_at s)(myTag (allLines s ! i) := None)"
proof -
  from assms(2) obtain i where i: "lru_position s = Some i" "i < length (allLines s)"
    and s': "allLines s' = erase_at i (allLines s)" by (rule evictLRULine_Inr)
  then have tags: "tags_of s' = erase_at i (tags_of s)"
    by (simp add: tags_of_def map_erase_at)
  have "line_at s' = (line_at s)(myTag (allLines s ! i) := None)"
    using assms(1) i(2) s'
    by (simp add: fun_eq_iff line_at_alt map_erase_at map_of_erase_at tags_of_def comp_def)
  with that i tags show thesis by blast
qed

lemma addLine_ok:
  "used_before_max s \<or> int (length (allLines s)) \<noteq> numLinesInSet k \<Longrightarrow>
     \<exists>s'. addLine k l s = Inr s'"
  using evictLRULine_ok [of s] by (auto simp: addLine_def)

lemma line_at_append:
  "line_at (s\<lparr>allLines := allLines s @ [l]\<rparr>) =
     (if hasLine s (myTag l) then line_at s else (line_at s)(myTag l \<mapsto> myState l))"
proof -
  have "line_at (s\<lparr>allLines := allLines s @ [l]\<rparr>) t =
      (case line_at s t of Some st \<Rightarrow> Some st
       | None \<Rightarrow> if t = myTag l then Some (myState l) else None)" for t
    by (simp add: line_at_alt map_add_def split: option.split)
  then show ?thesis
    by (auto simp: fun_eq_iff hasLine_line_at split: option.split)
qed

end
