(* ===== verification/Jobs.thy ===== *)
theory Jobs
  imports Sim_Prelude
begin

text \<open>
  CacheJob, BusRequest and CacheStats: the small data classes that the caches, the bus and
  the controller exchange.
\<close>

section \<open>CacheJob\<close>

record cache_job =
  rW :: char
  address :: u64
  threadId :: int

definition CacheJob :: "char \<Rightarrow> u64 \<Rightarrow> int \<Rightarrow> cache_job" where
  "CacheJob readWrite addr tId = \<lparr>rW = readWrite, address = addr, threadId = tId\<rparr>"

definition isRead :: "cache_job \<Rightarrow> bool" where
  "isRead j \<longleftrightarrow> rW j = CHR ''R''"

definition isWrite :: "cache_job \<Rightarrow> bool" where
  "isWrite j \<longleftrightarrow> rW j = CHR ''W''"

lemma isRead_not_isWrite: "isRead j \<Longrightarrow> \<not> isWrite j"
  by (simp add: isRead_def isWrite_def)

section \<open>BusRequest\<close>

datatype bus_message = BusRd | BusRdX

record bus_request =
  command :: bus_message
  lineSet :: int
  lineTag :: int
  cycleCost :: int
  req_address :: u64

definition BusRequest :: "bus_message \<Rightarrow> int \<Rightarrow> int \<Rightarrow> int \<Rightarrow> u64 \<Rightarrow> bus_request" where
  "BusRequest busCommand set_index tag jobCycleCost adr =
     \<lparr>command = busCommand, lineSet = set_index, lineTag = tag, cycleCost = jobCycleCost,
      req_address = adr\<rparr>"

section \<open>CacheStats\<close>

record cache_stats =
  numHit :: u64
  numMiss :: u64
  numFlush :: u64
  numEvict :: u64
  numCacheShare :: u64
  numMainMemoryUses :: u64
  numExclusiveToModifiedTransitions :: u64
  numBusRequests :: u64

definition CacheStats :: cache_stats where
  "CacheStats =
     \<lparr>numHit = 0, numMiss = 0, numFlush = 0, numEvict = 0, numCacheShare = 0,
      numMainMemoryUses = 0, numExclusiveToModifiedTransitions = 0, numBusRequests = 0\<rparr>"

text \<open>The increments the handlers perform.\<close>

abbreviation count_hit :: "cache_stats \<Rightarrow> cache_stats" where
  "count_hit st \<equiv> st\<lparr>numHit := numHit st + 1\<rparr>"

abbreviation count_miss :: "cache_stats \<Rightarrow> cache_stats" where
  "count_miss st \<equiv> st\<lparr>numMiss := numMiss st + 1\<rparr>"

abbreviation count_flush :: "cache_stats \<Rightarrow> cache_stats" where
  "count_flush st \<equiv> st\<lparr>numFlush := numFlush st + 1\<rparr>"

abbreviation count_evict :: "cache_stats \<Rightarrow> cache_stats" where
  "count_evict st \<equiv> st\<lparr>numEvict := numEvict st + 1\<rparr>"

abbreviation count_share :: "cache_stats \<Rightarrow> cache_stats" where
  "count_share st \<equiv> st\<lparr>numCacheShare := numCacheShare st + 1\<rparr>"

abbreviation count_memory :: "cache_stats \<Rightarrow> cache_stats" where
  "count_memory st \<equiv> st\<lparr>numMainMemoryUses := numMainMemoryUses st + 1\<rparr>"

abbreviation count_ex2mod :: "cache_stats \<Rightarrow> cache_stats" where
  "count_ex2mod st \<equiv>
     st\<lparr>numExclusiveToModifiedTransitions := numExclusiveToModifiedTransitions st + 1\<rparr>"

abbreviation count_bus :: "cache_stats \<Rightarrow> cache_stats" where
  "count_bus st \<equiv> st\<lparr>numBusRequests := numBusRequests st + 1\<rparr>"

end
