(* ===== verification/Cache.thy ===== *)
theory Cache
  imports Cache_Set Jobs
begin

text \<open>
  Cache.cpp, the processor side: construction, address decoding, the lookups over the local
  sets, the handlers of a processor's reads and writes, and the clock tick.
  The handlers of bus traffic are in the theory Snoop.
\<close>

record cache =
  localCache :: "cache_set list"
  pendingJobs :: "cache_job list"
  currentJob :: "cache_job option"
  busRequest :: "bus_request option"
  processorId :: int
  haveBusRequest :: bool
  busy :: bool
  busRequestBeingServiced :: bool
  startServiceCycle :: u64
  jobCycleCost :: u64

definition new_cache :: "constants \<Rightarrow> int \<Rightarrow> cache_job list \<Rightarrow> cache" where
  "new_cache k pId jobQueue =
     \<lparr>localCache = replicate (nat (numSets k)) empty_set_of_lines,
      pendingJobs = jobQueue,
      currentJob = None,
      busRequest = None,
      processorId = pId,
      haveBusRequest = False,
      busy = False,
      busRequestBeingServiced = False,
      startServiceCycle = 0,
      jobCycleCost = 0\<rparr>"

definition setPId :: "int \<Rightarrow> cache \<Rightarrow> cache" where
  "setPId pid c = c\<lparr>processorId := pid\<rparr>"

section \<open>Addresses and sets\<close>

text \<open>Set number and tag of an address.\<close>

definition decode_address :: "constants \<Rightarrow> u64 \<Rightarrow> int \<times> int" where
  "decode_address k adr =
     (let numTagBits = numAddressBits k - (numSetBits k + numBytesBits k);
          currSet = to_c_int (drop_bit (nat (numBytesBits k)) adr
                              AND of_c_int (shl_one k (numSetBits k) - 1));
          currTag = to_c_int (drop_bit (nat (numSetBits k + numBytesBits k)) adr
                              AND of_c_int (shl_one k numTagBits - 1))
      in (currSet, currTag))"

text \<open>\<open>localCache[i]\<close>, and the write of a set back to its place.\<close>

definition set_at :: "cache \<Rightarrow> int \<Rightarrow> cache_set result" where
  "set_at c i =
     (if 0 \<le> i \<and> nat i < length (localCache c) then Inr (localCache c ! nat i)
      else Inl Out_of_range)"

definition store_set :: "int \<Rightarrow> cache_set \<Rightarrow> cache \<Rightarrow> cache" where
  "store_set i s c = c\<lparr>localCache := (localCache c)[nat i := s]\<rparr>"

text \<open>
  Cycles a write miss costs: a second memory access is paid, and a flush counted, when a
  modified line has to go first.
\<close>

definition getTotalMemoryCost ::
    "constants \<Rightarrow> int \<Rightarrow> int \<Rightarrow> cache \<Rightarrow> cache_stats \<Rightarrow> (u64 \<times> cache_stats) result" where
  "getTotalMemoryCost k set_index tag c st =
     (let result = of_c_int (memoryResponseCycleCost k) in
      andthen (set_at c set_index) (\<lambda>currSet.
        if \<not> hasLine currSet tag \<and> isFull k currSet then
          andthen (evictLineModified k currSet) (\<lambda>evictModified.
            if evictModified then Inr (result * 2, count_flush st) else Inr (result, st))
        else Inr (result, st)))"

section \<open>Looking a line up\<close>

text \<open>
  The loops run over every set of the cache, not only over the set of the address; a line
  of any set with the tag of the job is looked at, and marked as used.
\<close>

fun lineInState_loop ::
    "u64 \<Rightarrow> int \<Rightarrow> line_state \<Rightarrow> cache_set list \<Rightarrow> bool \<times> cache_set list" where
  "lineInState_loop now tag state [] = (False, [])"
| "lineInState_loop now tag state (s # ss) =
     (case (if hasLine s tag then getLine now s tag else (s, None)) of
        (s', Some i) \<Rightarrow>
          if myState (allLines s' ! i) = state then (True, s' # ss)
          else (let (found, ss') = lineInState_loop now tag state ss in (found, s' # ss'))
      | (s', None) \<Rightarrow>
          (let (found, ss') = lineInState_loop now tag state ss in (found, s' # ss')))"

definition lineInState ::
    "constants \<Rightarrow> u64 \<Rightarrow> cache_job \<Rightarrow> line_state \<Rightarrow> cache \<Rightarrow> bool \<times> cache" where
  "lineInState k now job state c =
     (let tag = snd (decode_address k (address job));
          (found, sets) = lineInState_loop now tag state (localCache c)
      in (found, c\<lparr>localCache := sets\<rparr>))"

definition set_line_state :: "u64 \<Rightarrow> int \<Rightarrow> line_state \<Rightarrow> cache_set \<Rightarrow> cache_set" where
  "set_line_state now tag state s =
     (case getLine now s tag of
        (s', None) \<Rightarrow> s'
      | (s', Some i) \<Rightarrow> update_line i (setState state) s')"

definition setLineState ::
    "constants \<Rightarrow> u64 \<Rightarrow> cache_job \<Rightarrow> line_state \<Rightarrow> cache \<Rightarrow> cache" where
  "setLineState k now job state c =
     (let tag = snd (decode_address k (address job))
      in c\<lparr>localCache :=
             map (\<lambda>s. if hasLine s tag then set_line_state now tag state s else s) (localCache c)\<rparr>)"

definition updateCurrentJobLineCycle :: "constants \<Rightarrow> u64 \<Rightarrow> cache \<Rightarrow> cache" where
  "updateCurrentJobLineCycle k now c =
     (case currentJob c of
        None \<Rightarrow> c
      | Some job \<Rightarrow>
          let tag = snd (decode_address k (address job))
          in c\<lparr>localCache :=
                 map (\<lambda>s. if hasLine s tag then fst (getLine now s tag) else s) (localCache c)\<rparr>)"

section \<open>Requests of the processor\<close>

text \<open>
  The handlers run with \<open>currentJob\<close> set to the job they are given. Each returns whether
  it served the request, the cache, and the statistics.
\<close>

definition serve_locally :: "constants \<Rightarrow> u64 \<Rightarrow> cache \<Rightarrow> cache" where
  "serve_locally k now c =
     c\<lparr>startServiceCycle := now, jobCycleCost := of_c_int (cacheHitCycleCost k),
       busy := True, haveBusRequest := False\<rparr>"

definition handleWriteModified ::
    "constants \<Rightarrow> u64 \<Rightarrow> cache_job \<Rightarrow> cache \<times> cache_stats \<Rightarrow> bool \<times> cache \<times> cache_stats" where
  "handleWriteModified k now job = (\<lambda>(c, st).
     let (hit, c) = lineInState k now job modified c in
     if hit then (True, serve_locally k now c, count_hit st) else (False, c, st))"

definition handleWriteExclusive ::
    "constants \<Rightarrow> u64 \<Rightarrow> cache_job \<Rightarrow> cache \<times> cache_stats \<Rightarrow> bool \<times> cache \<times> cache_stats" where
  "handleWriteExclusive k now job = (\<lambda>(c, st).
     let (hit, c) = lineInState k now job exclusive c in
     if hit then
       (True, setLineState k now job modified (serve_locally k now c),
        count_ex2mod (count_hit st))
     else (False, c, st))"

definition handleWriteSharedInvalid ::
    "constants \<Rightarrow> cache_job \<Rightarrow> cache \<times> cache_stats \<Rightarrow> (cache \<times> cache_stats) result" where
  "handleWriteSharedInvalid k job = (\<lambda>(c, st).
     let c = c\<lparr>haveBusRequest := True, busy := True\<rparr>;
         (set_index, tag) = decode_address k (address job) in
     andthen (getTotalMemoryCost k set_index tag c st) (\<lambda>(memoryCost, st).
       Inr (c\<lparr>busRequest := Some (BusRequest BusRdX set_index tag (to_c_int memoryCost)
                                    (address job)),
              jobCycleCost := memoryCost\<rparr>,
            count_miss st)))"

definition handleWriteRequestMESI ::
    "constants \<Rightarrow> u64 \<Rightarrow> cache_job \<Rightarrow> cache \<times> cache_stats \<Rightarrow> (cache \<times> cache_stats) result" where
  "handleWriteRequestMESI k now job cs =
     (let (hit, cs) = handleWriteModified k now job cs in
      if hit then Inr cs
      else let (hit, cs) = handleWriteExclusive k now job cs in
           if hit then Inr cs else handleWriteSharedInvalid k job cs)"

definition handleWriteRequestMSI ::
    "constants \<Rightarrow> u64 \<Rightarrow> cache_job \<Rightarrow> cache \<times> cache_stats \<Rightarrow> (cache \<times> cache_stats) result" where
  "handleWriteRequestMSI k now job cs =
     (let (hit, cs) = handleWriteModified k now job cs in
      if hit then Inr cs else handleWriteSharedInvalid k job cs)"

text \<open>The disjunction of the code evaluates its lookups from the left until one succeeds.\<close>

fun lineInStates ::
    "constants \<Rightarrow> u64 \<Rightarrow> cache_job \<Rightarrow> line_state list \<Rightarrow> cache \<Rightarrow> bool \<times> cache" where
  "lineInStates k now job [] c = (False, c)"
| "lineInStates k now job (state # states) c =
     (let (found, c) = lineInState k now job state c in
      if found then (True, c) else lineInStates k now job states c)"

definition handleReadHit ::
    "constants \<Rightarrow> u64 \<Rightarrow> cache_job \<Rightarrow> cache \<times> cache_stats \<Rightarrow> bool \<times> cache \<times> cache_stats" where
  "handleReadHit k now job = (\<lambda>(c, st).
     let (hit, c) = lineInStates k now job [modified, shared, exclusive, owned] c in
     if hit then (True, serve_locally k now c, count_hit st) else (False, c, st))"

definition handleReadMiss ::
    "constants \<Rightarrow> cache_job \<Rightarrow> cache \<times> cache_stats \<Rightarrow> cache \<times> cache_stats" where
  "handleReadMiss k job = (\<lambda>(c, st).
     let (set_index, tag) = decode_address k (address job) in
     (c\<lparr>haveBusRequest := True, busy := True,
        busRequest := Some (BusRequest BusRd set_index tag (memoryResponseCycleCost k)
                              (address job)),
        jobCycleCost := of_c_int (memoryResponseCycleCost k)\<rparr>,
      count_miss st))"

definition handleReadRequestMESI ::
    "constants \<Rightarrow> u64 \<Rightarrow> cache_job \<Rightarrow> cache \<times> cache_stats \<Rightarrow> cache \<times> cache_stats" where
  "handleReadRequestMESI k now job cs =
     (let (hit, cs) = handleReadHit k now job cs in
      if hit then cs else handleReadMiss k job cs)"

definition handleReadRequestMSI ::
    "constants \<Rightarrow> u64 \<Rightarrow> cache_job \<Rightarrow> cache \<times> cache_stats \<Rightarrow> cache \<times> cache_stats" where
  "handleReadRequestMSI k now job cs =
     (let (hit, cs) = handleReadHit k now job cs in
      if hit then cs else handleReadMiss k job cs)"

text \<open>The two MOESI branches of \<open>handleRequest\<close>, which the code writes inline.\<close>

definition upgrade_owned ::
    "constants \<Rightarrow> u64 \<Rightarrow> cache_job \<Rightarrow> cache \<times> cache_stats \<Rightarrow> cache \<times> cache_stats" where
  "upgrade_owned k now job = (\<lambda>(c, st).
     let (set_index, tag) = decode_address k (address job);
         memoryCost = of_c_int (cacheHitCycleCost k) in
     (setLineState k now job modified
        (c\<lparr>haveBusRequest := True, busy := True,
           busRequest := Some (BusRequest BusRdX set_index tag (to_c_int memoryCost)
                                 (address job)),
           jobCycleCost := of_c_int (cacheHitCycleCost k)\<rparr>),
      count_hit st))"

definition handleWriteRequestMOESI ::
    "constants \<Rightarrow> u64 \<Rightarrow> cache_job \<Rightarrow> cache \<times> cache_stats \<Rightarrow> (cache \<times> cache_stats) result" where
  "handleWriteRequestMOESI k now job = (\<lambda>(c, st).
     let (found, c) = lineInStates k now job [invalid, shared] c in
     if found then handleWriteSharedInvalid k job (c, st)
     else let (found, c) = lineInState k now job exclusive c in
     if found then Inr (snd (handleWriteExclusive k now job (c, st)))
     else let (found, c) = lineInState k now job modified c in
     if found then Inr (snd (handleWriteModified k now job (c, st)))
     else let (found, c) = lineInState k now job owned c in
     if found then Inr (upgrade_owned k now job (c, st))
     else handleWriteSharedInvalid k job (c, st))"

definition handleReadRequestMOESI ::
    "constants \<Rightarrow> u64 \<Rightarrow> cache_job \<Rightarrow> cache \<times> cache_stats \<Rightarrow> cache \<times> cache_stats" where
  "handleReadRequestMOESI k now job cs =
     (let (hit, cs) = handleReadHit k now job cs in
      if hit then cs else handleReadMiss k job cs)"

text \<open>The dispatch on the kind of job and the protocol.\<close>

definition dispatch_job ::
    "constants \<Rightarrow> u64 \<Rightarrow> cache_job \<Rightarrow> cache \<times> cache_stats \<Rightarrow> (cache \<times> cache_stats) result" where
  "dispatch_job k now job cs =
     (if isWrite job then
        (case protocol k of
           MSI \<Rightarrow> handleWriteRequestMSI k now job cs
         | MESI \<Rightarrow> handleWriteRequestMESI k now job cs
         | MOESI \<Rightarrow> handleWriteRequestMOESI k now job cs)
      else if isRead job then
        Inr (case protocol k of
               MSI \<Rightarrow> handleReadRequestMSI k now job cs
             | MESI \<Rightarrow> handleReadRequestMESI k now job cs
             | MOESI \<Rightarrow> handleReadRequestMOESI k now job cs)
      else Inr cs)"

definition handleRequest ::
    "constants \<Rightarrow> u64 \<Rightarrow> cache \<times> cache_stats \<Rightarrow> (cache \<times> cache_stats) result" where
  "handleRequest k now = (\<lambda>(c, st).
     if busy c then Inr (c, st)
     else (case pendingJobs c of
             [] \<Rightarrow> Inr (c, st)
           | job # jobs \<Rightarrow>
               dispatch_job k now job (c\<lparr>currentJob := Some job, pendingJobs := jobs\<rparr>, st)))"

section \<open>Talking to the bus, and the tick\<close>

definition hasBusRequest :: "cache \<Rightarrow> bool" where
  "hasBusRequest c = haveBusRequest c"

text \<open>The message \<open>getBusRequest\<close> prints dereferences the current job.\<close>

definition getBusRequest :: "u64 \<Rightarrow> cache \<Rightarrow> (bus_request option \<times> cache) result" where
  "getBusRequest now c =
     (case currentJob c of
        None \<Rightarrow> Inl Null_dereference
      | Some _ \<Rightarrow>
          Inr (busRequest c, c\<lparr>startServiceCycle := now, busRequestBeingServiced := True\<rparr>))"

definition updateEndCycleTime :: "u64 \<Rightarrow> cache \<Rightarrow> cache" where
  "updateEndCycleTime extraCycleCost c = c\<lparr>jobCycleCost := jobCycleCost c + extraCycleCost\<rparr>"

definition newEndCycleTime :: "u64 \<Rightarrow> cache \<Rightarrow> cache" where
  "newEndCycleTime decrease c = c\<lparr>jobCycleCost := decrease\<rparr>"

definition cache_tick ::
    "constants \<Rightarrow> u64 \<Rightarrow> cache \<times> cache_stats \<Rightarrow> (cache \<times> cache_stats) result" where
  "cache_tick k now = (\<lambda>(c, st).
     if busRequestBeingServiced c then Inr (c, st)
     else
       let c = (if startServiceCycle c + jobCycleCost c \<le> now
                then (updateCurrentJobLineCycle k now c)\<lparr>busy := False\<rparr> else c)
       in if \<not> busy c \<and> pendingJobs c \<noteq> [] then handleRequest k now (c, st) else Inr (c, st))"

end
