(* ===== verification/Cache_Facts.thy ===== *)
theory Cache_Facts
  imports Cache
begin

text \<open>
  The view of a cache: which lines it holds, and in which state. Every operation of the
  processor side is described by what it does to the view, and keeps the cache well formed.
\<close>

type_synonym view = "int \<times> int \<Rightarrow> line_state option"

definition cache_view :: "cache \<Rightarrow> view" where
  "cache_view c = (\<lambda>(i, t).
     if 0 \<le> i \<and> nat i < length (localCache c) then line_at (localCache c ! nat i) t else None)"

definition wf_cache :: "constants \<Rightarrow> u64 \<Rightarrow> cache \<Rightarrow> bool" where
  "wf_cache k now c \<longleftrightarrow>
     length (localCache c) = nat (numSets k) \<and>
     (\<forall>s \<in> set (localCache c). wf_set k s \<and> used_by now s)"

lemma wf_cache_later: "wf_cache k m c \<Longrightarrow> m \<le> n \<Longrightarrow> wf_cache k n c"
  by (auto simp: wf_cache_def intro: used_by_mono)

text \<open>
  Only the sets of a cache matter to its view and its well-formedness; each handler of the
  code writes the other fields freely.
\<close>

lemma cache_view_cong: "localCache c = localCache d \<Longrightarrow> cache_view c = cache_view d"
  by (auto simp: cache_view_def fun_eq_iff)

lemma wf_cache_cong: "localCache c = localCache d \<Longrightarrow> wf_cache k now c = wf_cache k now d"
  by (simp add: wf_cache_def)

lemma cache_view_fields [simp]:
  "cache_view (c\<lparr>pendingJobs := js\<rparr>) = cache_view c"
  "cache_view (c\<lparr>currentJob := j\<rparr>) = cache_view c"
  "cache_view (c\<lparr>busRequest := r\<rparr>) = cache_view c"
  "cache_view (c\<lparr>haveBusRequest := b\<rparr>) = cache_view c"
  "cache_view (c\<lparr>busy := b\<rparr>) = cache_view c"
  "cache_view (c\<lparr>busRequestBeingServiced := b\<rparr>) = cache_view c"
  "cache_view (c\<lparr>startServiceCycle := n\<rparr>) = cache_view c"
  "cache_view (c\<lparr>jobCycleCost := n\<rparr>) = cache_view c"
  by (rule cache_view_cong, simp)+

lemma wf_cache_fields [simp]:
  "wf_cache k now (c\<lparr>pendingJobs := js\<rparr>) = wf_cache k now c"
  "wf_cache k now (c\<lparr>currentJob := j\<rparr>) = wf_cache k now c"
  "wf_cache k now (c\<lparr>busRequest := r\<rparr>) = wf_cache k now c"
  "wf_cache k now (c\<lparr>haveBusRequest := b\<rparr>) = wf_cache k now c"
  "wf_cache k now (c\<lparr>busy := b\<rparr>) = wf_cache k now c"
  "wf_cache k now (c\<lparr>busRequestBeingServiced := b\<rparr>) = wf_cache k now c"
  "wf_cache k now (c\<lparr>startServiceCycle := n\<rparr>) = wf_cache k now c"
  "wf_cache k now (c\<lparr>jobCycleCost := n\<rparr>) = wf_cache k now c"
  by (rule wf_cache_cong, simp)+

section \<open>Constants the program can be run with\<close>

text \<open>
  At least one processor and one line per set; one set for every value of the set bits; the
  costs ordered as the bus needs them and small enough for the \<open>int\<close> of a bus request.
\<close>

definition wf_constants :: "constants \<Rightarrow> bool" where
  "wf_constants k \<longleftrightarrow>
     0 < numProcessors k \<and> numProcessors k \<le> 2 ^ 10 \<and>
     0 < numLinesInSet k \<and>
     0 \<le> numSetBits k \<and> numSetBits k < 31 \<and> numSets k = 2 ^ nat (numSetBits k) \<and>
     0 \<le> cacheHitCycleCost k \<and> cacheHitCycleCost k \<le> 2 ^ 20 \<and>
     0 \<le> cacheResponseCycleCost k \<and>
     cacheResponseCycleCost k \<le> memoryResponseCycleCost k \<and>
     memoryResponseCycleCost k \<le> 2 ^ 20"

lemma wf_configured: "wf_constants (configured p shl)"
  by (simp add: wf_constants_def)

section \<open>Decoding an address\<close>

lemma decode_set_range:
  assumes "wf_constants k"
  shows "0 \<le> fst (decode_address k a) \<and> fst (decode_address k a) < numSets k"
proof -
  let ?n = "nat (numSetBits k)"
  let ?x = "drop_bit (nat (numBytesBits k)) a AND of_c_int (2 ^ ?n - 1)"
  from assms have n: "?n < 31" and one: "shl_one k (numSetBits k) = 2 ^ ?n"
    by (auto simp: wf_constants_def shl_one_def)
  have mask: "of_c_int (2 ^ ?n - 1) = (mask ?n :: u64)"
    by (simp add: of_c_int_def mask_eq_exp_minus_1)
  have bound: "uint ?x < 2 ^ ?n"
    unfolding mask by (simp add: take_bit_eq_mask [symmetric] unsigned_take_bit_eq)
  also have "(2::int) ^ ?n \<le> 2 ^ 31"
    using n by (intro power_increasing) auto
  finally have "?x < 2 ^ 31"
    by (simp add: word_less_def)
  then have "to_c_int ?x = uint ?x"
    by (rule to_c_int_small)
  with bound assms show ?thesis
    by (simp add: decode_address_def Let_def one wf_constants_def)
qed

lemma set_at_decoded:
  assumes "wf_constants k" and "wf_cache k now c"
  shows "set_at c (fst (decode_address k a))
           = Inr (localCache c ! nat (fst (decode_address k a)))"
    and "nat (fst (decode_address k a)) < length (localCache c)"
  using decode_set_range [OF assms(1), of a] assms(2)
  by (auto simp: set_at_def wf_cache_def)

section \<open>Operations that only mark lines as used\<close>

text \<open>The sets differ in their last-use cycles only.\<close>

definition retouched :: "u64 \<Rightarrow> cache_set \<Rightarrow> cache_set \<Rightarrow> bool" where
  "retouched now s s' \<longleftrightarrow>
     tags_of s' = tags_of s \<and> line_at s' = line_at s \<and> (used_by now s \<longrightarrow> used_by now s')"

lemma retouched_refl: "retouched now s s"
  by (simp add: retouched_def)

lemma retouched_getLine: "retouched now s (fst (getLine now s tag))"
  by (auto simp: retouched_def getLine_used_by)

lemma view_retouched:
  assumes "list_all2 (retouched now) (localCache c) (localCache d)"
  shows "cache_view d = cache_view c"
  using assms
  by (auto simp: cache_view_def fun_eq_iff list_all2_conv_all_nth retouched_def)

lemma wf_retouched:
  assumes "list_all2 (retouched now) (localCache c) (localCache d)" and "wf_cache k now c"
  shows "wf_cache k now d"
  using assms
  by (auto simp: wf_cache_def list_all2_conv_all_nth retouched_def wf_set_def in_set_conv_nth)
    (metis length_tags_of nth_mem)+

lemma lineInState_loop_retouched:
  "list_all2 (retouched now) ss (snd (lineInState_loop now tag state ss))"
proof (induction ss)
  case Nil
  then show ?case by simp
next
  case (Cons s ss)
  then show ?case
    using retouched_getLine [of now s tag]
    by (auto simp: retouched_refl list_all2_refl split: prod.splits option.splits)
qed

text \<open>The loop finds the state iff some set holds the tag in this state.\<close>

lemma lineInState_loop_found:
  "fst (lineInState_loop now tag state ss) \<longleftrightarrow> (\<exists>s \<in> set ss. line_at s tag = Some state)"
proof (induction ss)
  case Nil
  then show ?case by simp
next
  case (Cons s ss)
  show ?case
  proof (cases "hasLine s tag")
    case True
    then obtain i where i: "find_index (\<lambda>l. myTag l = tag) (allLines s) = Some i"
      "i < length (allLines s)"
      "getLine now s tag = (update_line i (\<lambda>l. l\<lparr>lastUsedCycle := now\<rparr>) s, Some i)"
      by (rule getLine_present)
    then show ?thesis
      using True Cons
      by (auto simp: line_at_first update_line_def split: prod.splits)
  next
    case False
    then show ?thesis
      using Cons by (auto simp: line_at_absent split: prod.splits)
  qed
qed

definition refreshed :: "u64 \<Rightarrow> cache \<Rightarrow> cache \<Rightarrow> bool" where
  "refreshed now c d \<longleftrightarrow>
     d = c\<lparr>localCache := localCache d\<rparr> \<and> list_all2 (retouched now) (localCache c) (localCache d)"

lemma refreshed_refl [simp]: "refreshed now c c"
  by (simp add: refreshed_def list_all2_refl retouched_refl)

lemma retouched_trans: "retouched now s t \<Longrightarrow> retouched now t u \<Longrightarrow> retouched now s u"
  by (simp add: retouched_def)

lemma refreshed_trans:
  assumes "refreshed now c d" and "refreshed now d e"
  shows "refreshed now c e"
proof -
  have "list_all2 (retouched now) (localCache c) (localCache e)"
    using assms by (auto simp: refreshed_def intro: list_all2_trans retouched_trans)
  moreover have "e = c\<lparr>localCache := localCache e\<rparr>"
  proof -
    from assms have d: "d = c\<lparr>localCache := localCache d\<rparr>" and e: "e = d\<lparr>localCache := localCache e\<rparr>"
      by (simp_all add: refreshed_def)
    show ?thesis by (subst e, subst d) simp
  qed
  ultimately show ?thesis by (simp add: refreshed_def)
qed

lemma refreshed_view: "refreshed now c d \<Longrightarrow> cache_view d = cache_view c"
  by (auto simp: refreshed_def intro: view_retouched)

lemma refreshed_wf: "refreshed now c d \<Longrightarrow> wf_cache k now c \<Longrightarrow> wf_cache k now d"
  by (auto simp: refreshed_def intro: wf_retouched)

lemma refreshed_fields:
  assumes "refreshed now c d"
  shows "pendingJobs d = pendingJobs c" "currentJob d = currentJob c"
    "busRequest d = busRequest c" "processorId d = processorId c"
    "haveBusRequest d = haveBusRequest c" "busy d = busy c"
    "busRequestBeingServiced d = busRequestBeingServiced c"
    "startServiceCycle d = startServiceCycle c" "jobCycleCost d = jobCycleCost c"
proof -
  from assms have d: "d = c\<lparr>localCache := localCache d\<rparr>"
    by (simp add: refreshed_def)
  show "pendingJobs d = pendingJobs c" "currentJob d = currentJob c"
    "busRequest d = busRequest c" "processorId d = processorId c"
    "haveBusRequest d = haveBusRequest c" "busy d = busy c"
    "busRequestBeingServiced d = busRequestBeingServiced c"
    "startServiceCycle d = startServiceCycle c" "jobCycleCost d = jobCycleCost c"
    by (subst d, simp)+
qed

text \<open>Is the tag in some set of the cache, in this state?\<close>

definition tag_in :: "constants \<Rightarrow> view \<Rightarrow> int \<Rightarrow> line_state \<Rightarrow> bool" where
  "tag_in k v tag state = list_ex (\<lambda>i. v (i, tag) = Some state) [0..numSets k - 1]"

lemma tag_in_sets:
  assumes "length (localCache c) = nat (numSets k)"
  shows "tag_in k (cache_view c) tag state \<longleftrightarrow> (\<exists>s \<in> set (localCache c). line_at s tag = Some state)"
proof
  assume "tag_in k (cache_view c) tag state"
  then show "\<exists>s \<in> set (localCache c). line_at s tag = Some state"
    by (auto simp: tag_in_def list_ex_iff cache_view_def split: if_splits)
next
  assume "\<exists>s \<in> set (localCache c). line_at s tag = Some state"
  then obtain n where n: "n < length (localCache c)" "line_at (localCache c ! n) tag = Some state"
    by (auto simp: in_set_conv_nth)
  with assms have "int n \<in> set [0..numSets k - 1]"
    by auto
  with n show "tag_in k (cache_view c) tag state"
    by (auto simp: tag_in_def list_ex_iff cache_view_def intro!: bexI [of _ "int n"])
qed

lemma lineInState_spec:
  assumes "wf_cache k now c"
  shows "fst (lineInState k now job state c) \<longleftrightarrow>
           tag_in k (cache_view c) (snd (decode_address k (address job))) state"
    and "refreshed now c (snd (lineInState k now job state c))"
proof -
  let ?tag = "snd (decode_address k (address job))"
  from assms have "length (localCache c) = nat (numSets k)"
    by (simp add: wf_cache_def)
  note sets = tag_in_sets [OF this]
  show "fst (lineInState k now job state c) \<longleftrightarrow> tag_in k (cache_view c) ?tag state"
    using lineInState_loop_found [of now ?tag state "localCache c"]
    by (simp add: sets lineInState_def Let_def case_prod_unfold)
  show "refreshed now c (snd (lineInState k now job state c))"
    using lineInState_loop_retouched [of now "localCache c" ?tag state]
    by (simp add: refreshed_def lineInState_def Let_def case_prod_unfold)
qed

lemma lineInStates_spec:
  assumes "wf_cache k now c"
  shows "fst (lineInStates k now job states c) \<longleftrightarrow>
           (\<exists>state \<in> set states.
              tag_in k (cache_view c) (snd (decode_address k (address job))) state)"
    and "refreshed now c (snd (lineInStates k now job states c))"
proof -
  have "(fst (lineInStates k now job states c) \<longleftrightarrow>
           (\<exists>state \<in> set states.
              tag_in k (cache_view c) (snd (decode_address k (address job))) state)) \<and>
        refreshed now c (snd (lineInStates k now job states c))"
    using assms
  proof (induction states arbitrary: c)
    case Nil
    then show ?case by simp
  next
    case (Cons state states)
    obtain found d where d: "lineInState k now job state c = (found, d)"
      by (cases "lineInState k now job state c")
    with lineInState_spec [OF Cons.prems, of job state]
    have r: "refreshed now c d" and found:
      "found \<longleftrightarrow> tag_in k (cache_view c) (snd (decode_address k (address job))) state"
      by simp_all
    note wf = refreshed_wf [OF r Cons.prems]
    show ?case
      using Cons.IH [OF wf] r found by (auto simp: d refreshed_view [OF r] intro: refreshed_trans)
  qed
  then show "fst (lineInStates k now job states c) \<longleftrightarrow>
           (\<exists>state \<in> set states.
              tag_in k (cache_view c) (snd (decode_address k (address job))) state)"
    and "refreshed now c (snd (lineInStates k now job states c))" by blast+
qed

lemma updateCurrentJobLineCycle_refreshed:
  "refreshed now c (updateCurrentJobLineCycle k now c)"
  by (auto simp: updateCurrentJobLineCycle_def refreshed_def Let_def list_all2_map2
      intro!: list_all2_refl retouched_refl retouched_getLine split: option.split)

section \<open>Setting the state of a tag\<close>

definition set_tag :: "int \<Rightarrow> line_state \<Rightarrow> view \<Rightarrow> view" where
  "set_tag tag state v = (\<lambda>(i, t). if t = tag \<and> v (i, t) \<noteq> None then Some state else v (i, t))"

lemma set_line_state_spec:
  assumes "hasLine s tag"
  shows "tags_of (set_line_state now tag state s) = tags_of s"
    and "line_at (set_line_state now tag state s) = (line_at s)(tag \<mapsto> state)"
    and "used_by now s \<Longrightarrow> used_by now (set_line_state now tag state s)"
proof -
  let ?g = "fst (getLine now s tag)"
  from assms obtain i where i: "i < length (allLines s)"
    "find_index (\<lambda>l. myTag l = tag) (allLines s) = Some i" "getLine now s tag = (?g, Some i)"
    by (metis getLine_present fst_conv)
  then have first: "find_index (\<lambda>l. myTag l = tag) (allLines ?g) = Some i"
    using getLine_tags [of now s tag] by (simp add: find_index_tags tags_of_def)
  have tag: "\<And>l. myTag (setState state l) = myTag l"
    by (simp add: setState_def)
  have eq: "set_line_state now tag state s = update_line i (setState state) ?g"
    using i(3) [THEN arg_cong, of snd] by (simp add: set_line_state_def case_prod_unfold)
  show "tags_of (set_line_state now tag state s) = tags_of s"
    using i(1) by (simp add: eq tags_update_line tag)
  show "line_at (set_line_state now tag state s) = (line_at s)(tag \<mapsto> state)"
    using i(1) line_at_update_line [OF tag _ first]
    by (simp add: eq fun_eq_iff) (simp add: setState_def)
  show "used_by now (set_line_state now tag state s)" if "used_by now s"
    using i(1) that by (simp add: eq used_by_update_line getLine_used_by setState_def)
qed

lemma setLineState_view:
  assumes "length (localCache c) = nat (numSets k)"
  shows "cache_view (setLineState k now job state c) =
           set_tag (snd (decode_address k (address job))) state (cache_view c)"
  using assms
  by (auto simp: cache_view_def setLineState_def set_tag_def Let_def fun_eq_iff
      set_line_state_spec hasLine_line_at)

lemma setLineState_wf:
  assumes "wf_cache k now c"
  shows "wf_cache k now (setLineState k now job state c)"
  using assms
  by (auto simp: wf_cache_def setLineState_def Let_def wf_set_def set_line_state_spec
      simp flip: length_tags_of)

lemma setLineState_fields [simp]:
  "pendingJobs (setLineState k now job state c) = pendingJobs c"
  "currentJob (setLineState k now job state c) = currentJob c"
  "busRequest (setLineState k now job state c) = busRequest c"
  "processorId (setLineState k now job state c) = processorId c"
  "haveBusRequest (setLineState k now job state c) = haveBusRequest c"
  "busy (setLineState k now job state c) = busy c"
  "busRequestBeingServiced (setLineState k now job state c) = busRequestBeingServiced c"
  "startServiceCycle (setLineState k now job state c) = startServiceCycle c"
  "jobCycleCost (setLineState k now job state c) = jobCycleCost c"
  by (simp_all add: setLineState_def Let_def)

end
