(* ===== verification/Snoop.thy ===== *)
theory Snoop
  imports Cache
begin

text \<open>
  Cache.cpp, the bus side: what a cache does with a request another cache put on the bus,
  and how it stores the line when its own request is done.
\<close>

datatype snoop_result =
    SHARED | FLUSH_MODIFIED_TO_SHARED | FLUSH_MODIFIED_TO_INVALID
  | EXCLUSIVE | OWNED | MODIFIED | NONE

text \<open>
  A handler gets the snooped line (\<open>tempLine\<close>) and the statistics and returns its result,
  the line as it leaves it, and the statistics. The request, set and tag arguments of the
  code only feed its messages.
\<close>

type_synonym snooped = "snoop_result \<times> cache_line \<times> cache_stats"

section \<open>MESI and MSI\<close>

definition handleBusRdShared :: "cache_line \<times> cache_stats \<Rightarrow> snooped" where
  "handleBusRdShared = (\<lambda>(tempLine, st). (SHARED, tempLine, st))"

definition handleBusRdModified :: "cache_line \<times> cache_stats \<Rightarrow> snooped" where
  "handleBusRdModified = (\<lambda>(tempLine, st).
     (FLUSH_MODIFIED_TO_SHARED, setState shared tempLine, count_flush st))"

definition handleBusRdInvalid :: "cache_line \<times> cache_stats \<Rightarrow> snooped" where
  "handleBusRdInvalid = (\<lambda>(tempLine, st). (NONE, tempLine, st))"

definition handleBusRdMESI :: "cache_line \<times> cache_stats \<Rightarrow> snooped" where
  "handleBusRdMESI = (\<lambda>(tempLine, st).
     if myState tempLine = shared then handleBusRdShared (tempLine, st)
     else if myState tempLine = modified then handleBusRdModified (tempLine, st)
     else if myState tempLine = exclusive then (SHARED, setState shared tempLine, st)
     else handleBusRdInvalid (tempLine, st))"

definition handleBusRdXInvalid :: "cache_line \<times> cache_stats \<Rightarrow> snooped" where
  "handleBusRdXInvalid = (\<lambda>(tempLine, st). (NONE, tempLine, st))"

definition handleBusRdXModified :: "cache_line \<times> cache_stats \<Rightarrow> snooped" where
  "handleBusRdXModified = (\<lambda>(tempLine, st).
     (FLUSH_MODIFIED_TO_INVALID, setState invalid tempLine, count_flush st))"

definition handleBusRdXSharedExclusive :: "cache_line \<times> cache_stats \<Rightarrow> snooped" where
  "handleBusRdXSharedExclusive = (\<lambda>(tempLine, st).
     (SHARED, setState invalid tempLine, st))"

definition handleBusRdXMESI :: "cache_line \<times> cache_stats \<Rightarrow> snooped" where
  "handleBusRdXMESI = (\<lambda>(tempLine, st).
     if myState tempLine = shared \<or> myState tempLine = exclusive
     then handleBusRdXSharedExclusive (tempLine, st)
     else if myState tempLine = modified then handleBusRdXModified (tempLine, st)
     else handleBusRdXInvalid (tempLine, st))"

definition handleSnoopMESI :: "bus_message \<Rightarrow> cache_line \<times> cache_stats \<Rightarrow> snooped" where
  "handleSnoopMESI cmd ls =
     (case cmd of BusRd \<Rightarrow> handleBusRdMESI ls | BusRdX \<Rightarrow> handleBusRdXMESI ls)"

definition handleBusRdXMSI :: "cache_line \<times> cache_stats \<Rightarrow> snooped" where
  "handleBusRdXMSI = (\<lambda>(tempLine, st).
     if myState tempLine = shared then handleBusRdXSharedExclusive (tempLine, st)
     else if myState tempLine = modified then handleBusRdXModified (tempLine, st)
     else handleBusRdXInvalid (tempLine, st))"

definition handleBusRdMSI :: "cache_line \<times> cache_stats \<Rightarrow> snooped" where
  "handleBusRdMSI = (\<lambda>(tempLine, st).
     if myState tempLine = shared then handleBusRdShared (tempLine, st)
     else if myState tempLine = modified then handleBusRdModified (tempLine, st)
     else handleBusRdInvalid (tempLine, st))"

definition handleSnoopMSI :: "bus_message \<Rightarrow> cache_line \<times> cache_stats \<Rightarrow> snooped" where
  "handleSnoopMSI cmd ls =
     (case cmd of BusRd \<Rightarrow> handleBusRdMSI ls | BusRdX \<Rightarrow> handleBusRdXMSI ls)"

section \<open>MOESI\<close>

definition handleSnoopMOESI :: "bus_message \<Rightarrow> cache_line \<times> cache_stats \<Rightarrow> snooped" where
  "handleSnoopMOESI cmd = (\<lambda>(tempLine, st).
     case cmd of
       BusRd \<Rightarrow>
         (if myState tempLine = owned then (OWNED, tempLine, count_share st)
          else if myState tempLine = modified then
            (MODIFIED, setState owned tempLine, count_share st)
          else if myState tempLine = shared then (SHARED, tempLine, st)
          else if myState tempLine = exclusive then
            (EXCLUSIVE, setState shared tempLine, count_share st)
          else (NONE, tempLine, st))
     | BusRdX \<Rightarrow>
         (if myState tempLine = owned then (OWNED, setState invalid tempLine, count_share st)
          else if myState tempLine = modified then
            (MODIFIED, setState invalid tempLine, count_share st)
          else if myState tempLine = exclusive then
            (EXCLUSIVE, setState invalid tempLine, count_share st)
          else if myState tempLine = shared then (NONE, setState invalid tempLine, st)
          else (NONE, tempLine, st)))"

section \<open>Snooping a request\<close>

definition snoop_line ::
    "protocol_kind \<Rightarrow> bus_message \<Rightarrow> cache_line \<times> cache_stats \<Rightarrow> snooped" where
  "snoop_line p cmd ls =
     (case p of
        MESI \<Rightarrow> handleSnoopMESI cmd ls
      | MSI \<Rightarrow> handleSnoopMSI cmd ls
      | MOESI \<Rightarrow> handleSnoopMOESI cmd ls)"

definition snoopBusRequest ::
    "constants \<Rightarrow> u64 \<Rightarrow> bus_request \<Rightarrow> cache \<times> cache_stats
       \<Rightarrow> (snoop_result \<times> cache \<times> cache_stats) result" where
  "snoopBusRequest k now request = (\<lambda>(c, st).
     andthen (set_at c (lineSet request)) (\<lambda>tempSet.
       if hasLine tempSet (lineTag request) then
         (case getLine now tempSet (lineTag request) of
            (tempSet, None) \<Rightarrow> Inl Null_dereference
          | (tempSet, Some i) \<Rightarrow>
              let (result, tempLine, st) =
                    snoop_line (protocol k) (command request) (allLines tempSet ! i, st)
              in Inr (result, store_set (lineSet request) (update_line i (\<lambda>_. tempLine) tempSet) c,
                      st))
       else Inr (NONE, c, st)))"

section \<open>Storing the line when the bus is done\<close>

text \<open>The new state of the line, and the statistics, once the line is in its set.\<close>

definition finish_write ::
    "constants \<Rightarrow> bool \<Rightarrow> cache_line \<times> cache_stats \<Rightarrow> cache_line \<times> cache_stats" where
  "finish_write k isShared = (\<lambda>(currLine, st).
     let (currLine, st) =
       (if isShared \<and> protocol k = MOESI then (setState modified currLine, st)
        else if protocol k = MOESI \<and> myState currLine \<noteq> owned then
          (setState modified currLine, count_memory st)
        else if isShared \<and> protocol k = MESI then (currLine, count_share st)
        else if protocol k = MSI then (currLine, count_memory st)
        else (currLine, st))
     in (setState modified currLine, st))"

definition finish_read ::
    "constants \<Rightarrow> bool \<Rightarrow> cache_line \<times> cache_stats \<Rightarrow> cache_line \<times> cache_stats" where
  "finish_read k isShared = (\<lambda>(currLine, st).
     case protocol k of
       MOESI \<Rightarrow>
         (if isShared then (setState shared currLine, st)
          else (setState exclusive currLine, count_memory st))
     | MESI \<Rightarrow>
         (if \<not> isShared then (setState exclusive currLine, count_memory st)
          else (setState shared currLine, count_share st))
     | MSI \<Rightarrow> (setState shared currLine, count_memory st))"

definition finish_line ::
    "constants \<Rightarrow> cache_job \<Rightarrow> bool \<Rightarrow> cache_line \<times> cache_stats \<Rightarrow> cache_line \<times> cache_stats" where
  "finish_line k job isShared ls =
     (let ls = (if isWrite job then finish_write k isShared ls else ls)
      in if isRead job then finish_read k isShared ls else ls)"

definition store_line ::
    "constants \<Rightarrow> u64 \<Rightarrow> cache_job \<Rightarrow> bool \<Rightarrow> int \<Rightarrow> int \<Rightarrow> cache \<Rightarrow> cache_set \<times> cache_stats
       \<Rightarrow> (cache \<times> cache_stats) result" where
  "store_line k now job isShared currJobSet currJobTag c = (\<lambda>(currSet, st).
     case getLine now currSet currJobTag of
       (currSet, None) \<Rightarrow> Inl Null_dereference
     | (currSet, Some i) \<Rightarrow>
         let (currLine, st) =
               finish_line k job isShared ((allLines currSet ! i)\<lparr>lastUsedCycle := now\<rparr>, st)
         in Inr (store_set currJobSet (update_line i (\<lambda>_. currLine) currSet) c, st))"

definition busJobDone ::
    "constants \<Rightarrow> u64 \<Rightarrow> bool \<Rightarrow> cache \<times> cache_stats \<Rightarrow> (cache \<times> cache_stats) result" where
  "busJobDone k now isShared = (\<lambda>(c, st).
     case currentJob c of
       None \<Rightarrow> Inl Null_dereference
     | Some job \<Rightarrow>
         let jobAddr = address job;
             (currJobSet, currJobTag) = decode_address k jobAddr;
             c = c\<lparr>haveBusRequest := False, busy := False, busRequestBeingServiced := False\<rparr>
         in
         andthen (set_at c currJobSet) (\<lambda>currSet.
         let needToEvict = isFull k currSet \<and> \<not> hasLine currSet currJobTag in
         andthen (if needToEvict
                  then andthen (evictLRULine currSet) (\<lambda>s. Inr (s, count_evict st))
                  else Inr (currSet, st)) (\<lambda>(currSet, st).
         andthen (if \<not> hasLine currSet currJobTag
                  then addLine k (CacheLine jobAddr currJobSet currJobTag) currSet
                  else Inr currSet) (\<lambda>currSet.
         store_line k now job isShared currJobSet currJobTag c (currSet, st)))))"

end
