(* ===== verification/Protocol.thy ===== *)
theory Protocol
  imports Cache_Facts Snoop
begin

text \<open>
  The protocols as tables, and the proof that the handlers of the code follow them:
  what a cache does with a processor request, how it answers a snooped request, and the
  state in which it stores the line when the bus is done.
\<close>

section \<open>Requests of the processor\<close>

datatype action =
    Ignore              \<comment> \<open>neither a read nor a write\<close>
  | Hit                 \<comment> \<open>served locally\<close>
  | Silent_upgrade      \<comment> \<open>exclusive to modified, served locally\<close>
  | Ask bus_message     \<comment> \<open>needs the bus\<close>
  | Owner_upgrade       \<comment> \<open>owned to modified, then the bus\<close>

definition write_action :: "protocol_kind \<Rightarrow> (line_state \<Rightarrow> bool) \<Rightarrow> action" where
  "write_action p has =
     (case p of
        MSI \<Rightarrow> if has modified then Hit else Ask BusRdX
      | MESI \<Rightarrow> if has modified then Hit else if has exclusive then Silent_upgrade else Ask BusRdX
      | MOESI \<Rightarrow>
          if has invalid \<or> has shared then Ask BusRdX
          else if has exclusive then Silent_upgrade
          else if has modified then Hit
          else if has owned then Owner_upgrade
          else Ask BusRdX)"

definition read_action :: "(line_state \<Rightarrow> bool) \<Rightarrow> action" where
  "read_action has =
     (if has modified \<or> has shared \<or> has exclusive \<or> has owned then Hit else Ask BusRd)"

definition job_action :: "constants \<Rightarrow> cache_job \<Rightarrow> view \<Rightarrow> action" where
  "job_action k job v =
     (let has = tag_in k v (snd (decode_address k (address job))) in
      if isWrite job then write_action (protocol k) has
      else if isRead job then read_action has
      else Ignore)"

definition action_view :: "int \<Rightarrow> action \<Rightarrow> view \<Rightarrow> view" where
  "action_view tag act v =
     (if act = Silent_upgrade \<or> act = Owner_upgrade then set_tag tag modified v else v)"

definition action_stats :: "action \<Rightarrow> cache_stats \<Rightarrow> cache_stats" where
  "action_stats act st =
     (case act of
        Ignore \<Rightarrow> st
      | Hit \<Rightarrow> count_hit st
      | Silent_upgrade \<Rightarrow> count_ex2mod (count_hit st)
      | Ask _ \<Rightarrow> count_miss st
      | Owner_upgrade \<Rightarrow> count_hit st)"

definition action_message :: "action \<Rightarrow> bus_message option" where
  "action_message act =
     (case act of Ask m \<Rightarrow> Some m | Owner_upgrade \<Rightarrow> Some BusRdX | _ \<Rightarrow> None)"

text \<open>A modified line must go before the line of the job can come.\<close>

definition write_back_needed :: "constants \<Rightarrow> cache \<Rightarrow> int \<times> int \<Rightarrow> bool" where
  "write_back_needed k c = (\<lambda>(i, t).
     \<not> hasLine (localCache c ! nat i) t \<and> isFull k (localCache c ! nat i))"

definition request_cost :: "constants \<Rightarrow> cache \<Rightarrow> int \<times> int \<Rightarrow> action \<Rightarrow> int" where
  "request_cost k c x act =
     (case act of
        Ask BusRdX \<Rightarrow> (if write_back_needed k c x then 2 * memoryResponseCycleCost k
                       else memoryResponseCycleCost k)
      | Ask BusRd \<Rightarrow> memoryResponseCycleCost k
      | _ \<Rightarrow> cacheHitCycleCost k)"

text \<open>The cache after a request, in terms of the action.\<close>

definition after_request ::
    "constants \<Rightarrow> u64 \<Rightarrow> cache_job \<Rightarrow> action \<Rightarrow> int \<Rightarrow> cache \<Rightarrow> cache \<Rightarrow> bool" where
  "after_request k now job act cost c d \<longleftrightarrow>
     wf_cache k now d \<and>
     cache_view d = action_view (snd (decode_address k (address job))) act (cache_view c) \<and>
     pendingJobs d = pendingJobs c \<and> currentJob d = currentJob c \<and>
     busRequestBeingServiced d = busRequestBeingServiced c \<and>
     (case action_message act of
        Some m \<Rightarrow>
          busy d \<and> haveBusRequest d \<and>
          busRequest d = Some (case decode_address k (address job) of
                                 (i, t) \<Rightarrow> BusRequest m i t cost (address job))
      | None \<Rightarrow>
          (if act = Ignore then d = c
           else busy d \<and> \<not> haveBusRequest d \<and> startServiceCycle d = now \<and>
                jobCycleCost d = of_c_int (cacheHitCycleCost k)))"

section \<open>Costs\<close>

lemma isFull_alt:
  assumes "distinct (tags_of s)"
  shows "isFull k s \<longleftrightarrow>
     numLinesInSet k \<le> int (length (tags_of s)) \<and>
     (\<forall>t \<in> set (tags_of s). line_at s t = Some modified)"
proof -
  have "map_of (map (\<lambda>l. (myTag l, myState l)) (allLines s)) (myTag l) = Some (myState l)"
    if "l \<in> set (allLines s)" for l
    using assms that by (intro map_of_is_SomeI) (auto simp: tags_of_def comp_def)
  then show ?thesis
    by (auto simp: isFull_def list_all_iff line_at_alt tags_of_def not_less)
qed

lemma isFull_retouched:
  assumes "retouched now s s'" and "wf_set k s"
  shows "isFull k s' = isFull k s" and "hasLine s' t = hasLine s t"
  using assms by (auto simp: retouched_def wf_set_def isFull_alt hasLine_iff)

lemma write_back_refreshed:
  assumes "refreshed now c d" and "wf_cache k now c" and "nat i < length (localCache c)"
  shows "write_back_needed k d (i, t) = write_back_needed k c (i, t)"
proof -
  have "retouched now (localCache c ! nat i) (localCache d ! nat i)"
    using assms by (simp add: refreshed_def list_all2_conv_all_nth)
  moreover have "wf_set k (localCache c ! nat i)"
    using assms by (simp add: wf_cache_def)
  ultimately show ?thesis
    by (simp add: write_back_needed_def isFull_retouched)
qed

lemma of_c_int_small:
  "0 \<le> i \<Longrightarrow> i < 2 ^ 31 \<Longrightarrow> to_c_int (of_c_int i) = i"
  by (subst to_c_int_small) (auto simp: of_c_int_def word_less_def uint_word_of_int)

lemma of_c_int_double: "of_c_int i * 2 = of_c_int (2 * i)"
  by (simp add: of_c_int_def)

lemma full_of_modified_evicts:
  assumes "isFull k s" and "wf_set k s" and "0 < numLinesInSet k"
  shows "evictLineModified k s = Inr True"
proof -
  have len: "int (length (allLines s)) = numLinesInSet k"
    using assms by (auto simp: isFull_def wf_set_def split: if_splits)
  let ?m = "Min (lastUsedCycle ` set (allLines s))"
  obtain i where scan: "lru_scan 0 (allLines s) ULLONG_MAX (Some 0) = Some i"
    and i: "i < length (allLines s)"
  proof (cases "used_before_max s")
    case True
    then obtain i where "lru_position s = Some i" "i < length (allLines s)"
      by (rule lru_position_SomeE)
    with True that show thesis
      by (auto simp: lru_position_def lru_scan_spec used_before_max_def list_ex_iff)
  next
    case False
    moreover have "allLines s \<noteq> []"
      using len assms(3) by auto
    ultimately show thesis
      using that by (auto simp: lru_scan_spec used_before_max_def list_ex_iff)
  qed
  have "myState (allLines s ! i) = modified"
    using assms(1) i by (auto simp: isFull_def list_all_iff split: if_splits)
  with scan i len show ?thesis
    by (simp add: evictLineModified_def)
qed

lemma getTotalMemoryCost_spec:
  assumes "wf_constants k" and "wf_cache k now c" and "decode_address k a = (i, t)"
  shows "getTotalMemoryCost k i t c st =
     Inr (if write_back_needed k c (i, t)
          then (of_c_int (2 * memoryResponseCycleCost k), count_flush st)
          else (of_c_int (memoryResponseCycleCost k), st))"
proof -
  note at = set_at_decoded [OF assms(1,2), of a]
  have "wf_set k (localCache c ! nat i)"
    using assms at(2) by (auto simp: wf_cache_def)
  with assms at show ?thesis
    by (auto simp: getTotalMemoryCost_def write_back_needed_def full_of_modified_evicts
        wf_constants_def of_c_int_double Let_def)
qed

section \<open>The handlers of the processor follow the table\<close>

definition request_served ::
    "constants \<Rightarrow> u64 \<Rightarrow> cache_job \<Rightarrow> action \<Rightarrow> cache \<times> cache_stats \<Rightarrow> cache \<times> cache_stats \<Rightarrow> bool" where
  "request_served k now job act = (\<lambda>(c, st) (d, st').
     let x = decode_address k (address job) in
     after_request k now job act (request_cost k c x act) c d \<and>
     st' = action_stats act (if act = Ask BusRdX \<and> write_back_needed k c x
                             then count_flush st else st))"

lemma request_served_refreshed:
  assumes r: "refreshed now c e" and wf: "wf_cache k now c" "wf_constants k"
    and act: "act \<noteq> Ignore" and served: "request_served k now job act (e, st) ds"
  shows "request_served k now job act (c, st) ds"
proof -
  obtain i t where x: "decode_address k (address job) = (i, t)"
    by (cases "decode_address k (address job)")
  have "nat i < length (localCache c)"
    using set_at_decoded(2) [OF wf(2,1), of "address job"] by (simp add: x)
  then have wb: "write_back_needed k e (i, t) = write_back_needed k c (i, t)"
    by (rule write_back_refreshed [OF r wf(1)])
  then have "request_cost k e (i, t) act = request_cost k c (i, t) act"
    by (simp add: request_cost_def split: action.split bus_message.split)
  then show ?thesis
    using served act
    by (cases ds; cases "action_message act")
      (simp_all add: request_served_def after_request_def x wb Let_def
        refreshed_view [OF r] refreshed_fields [OF r])
qed

text \<open>The fields a handler writes, when the sets are those of \<open>c\<close> or have the tag set.\<close>

lemma serve_locally_sets [simp]:
  "wf_cache k now (serve_locally k now' c) = wf_cache k now c"
  "cache_view (serve_locally k now' c) = cache_view c"
  by (simp_all add: serve_locally_def)

lemma wf_length: "wf_cache k now c \<Longrightarrow> length (localCache c) = nat (numSets k)"
  by (simp add: wf_cache_def)

lemma handleWriteModified_spec:
  assumes wf: "wf_cache k now c" "wf_constants k"
    and "handleWriteModified k now job (c, st) = (hit, ds)"
  shows "hit \<longleftrightarrow> tag_in k (cache_view c) (snd (decode_address k (address job))) modified"
    and "hit \<Longrightarrow> request_served k now job Hit (c, st) ds"
    and "\<not> hit \<Longrightarrow> \<exists>d. ds = (d, st) \<and> refreshed now c d"
proof -
  obtain found e where e: "lineInState k now job modified c = (found, e)"
    by (cases "lineInState k now job modified c")
  note L = lineInState_spec [OF wf(1), of job modified, unfolded e]
  note r = L(2) [simplified]
  show "hit \<longleftrightarrow> tag_in k (cache_view c) (snd (decode_address k (address job))) modified"
    using assms(3) L(1) by (auto simp: handleWriteModified_def e split: if_splits)
  show "\<exists>d. ds = (d, st) \<and> refreshed now c d" if "\<not> hit"
    using assms(3) that r by (auto simp: handleWriteModified_def e split: if_splits)
  show "request_served k now job Hit (c, st) ds" if hit
  proof (rule request_served_refreshed [OF r wf])
    show "request_served k now job Hit (e, st) ds"
      using assms(3) that refreshed_wf [OF r wf(1)]
      by (auto simp: handleWriteModified_def e request_served_def after_request_def
          action_view_def action_message_def action_stats_def Let_def split: if_splits)
        (simp_all add: serve_locally_def)
  qed simp
qed

lemma handleWriteExclusive_spec:
  assumes wf: "wf_cache k now c" "wf_constants k"
    and "handleWriteExclusive k now job (c, st) = (hit, ds)"
  shows "hit \<longleftrightarrow> tag_in k (cache_view c) (snd (decode_address k (address job))) exclusive"
    and "hit \<Longrightarrow> request_served k now job Silent_upgrade (c, st) ds"
    and "\<not> hit \<Longrightarrow> \<exists>d. ds = (d, st) \<and> refreshed now c d"
proof -
  obtain found e where e: "lineInState k now job exclusive c = (found, e)"
    by (cases "lineInState k now job exclusive c")
  note L = lineInState_spec [OF wf(1), of job exclusive, unfolded e]
  note r = L(2) [simplified]
  show "hit \<longleftrightarrow> tag_in k (cache_view c) (snd (decode_address k (address job))) exclusive"
    using assms(3) L(1) by (auto simp: handleWriteExclusive_def e split: if_splits)
  show "\<exists>d. ds = (d, st) \<and> refreshed now c d" if "\<not> hit"
    using assms(3) that r by (auto simp: handleWriteExclusive_def e split: if_splits)
  show "request_served k now job Silent_upgrade (c, st) ds" if hit
  proof (rule request_served_refreshed [OF r wf])
    have wfe: "wf_cache k now (serve_locally k now e)"
      using refreshed_wf [OF r wf(1)] by simp
    show "request_served k now job Silent_upgrade (e, st) ds"
      using assms(3) that setLineState_wf [OF wfe] setLineState_view [OF wf_length [OF wfe]]
      by (auto simp: handleWriteExclusive_def e request_served_def after_request_def
          action_view_def action_message_def action_stats_def Let_def split: if_splits)
        (simp_all add: serve_locally_def)
  qed simp
qed

lemma handleWriteSharedInvalid_spec:
  assumes wf: "wf_cache k now c" "wf_constants k"
  shows "\<exists>ds. handleWriteSharedInvalid k job (c, st) = Inr ds \<and>
              request_served k now job (Ask BusRdX) (c, st) ds"
proof -
  obtain i t where x: "decode_address k (address job) = (i, t)"
    by (cases "decode_address k (address job)")
  let ?c = "c\<lparr>haveBusRequest := True, busy := True\<rparr>"
  have wfc: "wf_cache k now ?c"
    using wf(1) by simp
  have wb: "write_back_needed k ?c (i, t) = write_back_needed k c (i, t)"
    by (simp add: write_back_needed_def)
  have cost: "to_c_int (of_c_int (memoryResponseCycleCost k)) = memoryResponseCycleCost k"
    "to_c_int (of_c_int (2 * memoryResponseCycleCost k)) = 2 * memoryResponseCycleCost k"
    using wf(2) by (auto simp: wf_constants_def intro!: of_c_int_small)
  show ?thesis
    using wf(1)
    by (simp add: handleWriteSharedInvalid_def x Let_def cost wb
        getTotalMemoryCost_spec [OF wf(2) wfc x] request_served_def after_request_def
        action_view_def action_message_def action_stats_def request_cost_def)
qed

lemma handleReadHit_spec:
  assumes wf: "wf_cache k now c" "wf_constants k"
    and "handleReadHit k now job (c, st) = (hit, ds)"
  shows "hit \<longleftrightarrow>
      read_action (tag_in k (cache_view c) (snd (decode_address k (address job)))) = Hit"
    and "hit \<Longrightarrow> request_served k now job Hit (c, st) ds"
    and "\<not> hit \<Longrightarrow> \<exists>d. ds = (d, st) \<and> refreshed now c d"
proof -
  let ?states = "[modified, shared, exclusive, owned]"
  obtain found e where e: "lineInStates k now job ?states c = (found, e)"
    by (cases "lineInStates k now job ?states c")
  note L = lineInStates_spec [OF wf(1), of job ?states, unfolded e]
  note r = L(2) [unfolded snd_conv]
  show "hit \<longleftrightarrow>
      read_action (tag_in k (cache_view c) (snd (decode_address k (address job)))) = Hit"
    using assms(3) L(1)
    by (auto simp: handleReadHit_def e read_action_def simp del: lineInStates.simps
        split: if_splits)
  show "\<exists>d. ds = (d, st) \<and> refreshed now c d" if "\<not> hit"
    using assms(3) that r
    by (auto simp: handleReadHit_def e simp del: lineInStates.simps split: if_splits)
  show "request_served k now job Hit (c, st) ds" if hit
  proof (rule request_served_refreshed [OF r wf])
    show "request_served k now job Hit (e, st) ds"
      using assms(3) that refreshed_wf [OF r wf(1)]
      by (auto simp: handleReadHit_def e request_served_def after_request_def
          action_view_def action_message_def action_stats_def Let_def
          simp del: lineInStates.simps split: if_splits)
        (simp_all add: serve_locally_def)
  qed simp
qed

lemma handleReadMiss_spec:
  assumes "wf_cache k now c"
  shows "request_served k now job (Ask BusRd) (c, st) (handleReadMiss k job (c, st))"
  using assms
  by (simp add: handleReadMiss_def request_served_def after_request_def action_view_def
      action_message_def action_stats_def request_cost_def Let_def split: prod.split)

text \<open>The three read handlers have the same body.\<close>

lemma read_handlers:
  "handleReadRequestMSI = handleReadRequestMESI" "handleReadRequestMOESI = handleReadRequestMESI"
  by (simp_all add: fun_eq_iff handleReadRequestMSI_def handleReadRequestMESI_def
      handleReadRequestMOESI_def)

lemma handleReadRequest_spec:
  assumes wf: "wf_cache k now c" "wf_constants k"
  shows "request_served k now job
      (read_action (tag_in k (cache_view c) (snd (decode_address k (address job)))))
      (c, st) (handleReadRequestMESI k now job (c, st))"
proof -
  obtain hit ds where ds: "handleReadHit k now job (c, st) = (hit, ds)"
    by (cases "handleReadHit k now job (c, st)")
  note H = handleReadHit_spec [OF wf ds]
  show ?thesis
  proof (cases hit)
    case True
    with H(1,2) ds show ?thesis
      by (simp add: handleReadRequestMESI_def)
  next
    case False
    with H(3) obtain d where d: "ds = (d, st)" "refreshed now c d" by blast
    have act: "read_action (tag_in k (cache_view c) (snd (decode_address k (address job))))
        = Ask BusRd"
      using H(1) False by (auto simp: read_action_def split: if_splits)
    have "request_served k now job (Ask BusRd) (c, st) (handleReadMiss k job (d, st))"
      by (rule request_served_refreshed [OF d(2) wf])
        (simp_all add: handleReadMiss_spec refreshed_wf [OF d(2) wf(1)])
    with False ds d(1) act show ?thesis
      by (simp add: handleReadRequestMESI_def)
  qed
qed

lemma ask_for_write:
  assumes wf: "wf_cache k now c" "wf_constants k" and r: "refreshed now c d"
  shows "\<exists>ds. handleWriteSharedInvalid k job (d, st) = Inr ds \<and>
              request_served k now job (Ask BusRdX) (c, st) ds"
  using handleWriteSharedInvalid_spec [OF refreshed_wf [OF r wf(1)] wf(2), of job st]
    request_served_refreshed [OF r wf] by blast

lemma handleWriteRequestMSI_spec:
  assumes wf: "wf_cache k now c" "wf_constants k"
  shows "\<exists>ds. handleWriteRequestMSI k now job (c, st) = Inr ds \<and>
    request_served k now job
      (write_action MSI (tag_in k (cache_view c) (snd (decode_address k (address job)))))
      (c, st) ds"
proof -
  obtain hit ds where ds: "handleWriteModified k now job (c, st) = (hit, ds)"
    by (cases "handleWriteModified k now job (c, st)")
  note H = handleWriteModified_spec [OF wf ds]
  show ?thesis
  proof (cases hit)
    case True
    with H(1,2) ds show ?thesis
      by (simp add: handleWriteRequestMSI_def write_action_def)
  next
    case False
    with H(3) obtain d where d: "ds = (d, st)" "refreshed now c d" by blast
    with ask_for_write [OF wf d(2), of job st] False H(1) ds show ?thesis
      by (simp add: handleWriteRequestMSI_def write_action_def)
  qed
qed

lemma handleWriteRequestMESI_spec:
  assumes wf: "wf_cache k now c" "wf_constants k"
  shows "\<exists>ds. handleWriteRequestMESI k now job (c, st) = Inr ds \<and>
    request_served k now job
      (write_action MESI (tag_in k (cache_view c) (snd (decode_address k (address job)))))
      (c, st) ds"
proof -
  obtain hit ds where ds: "handleWriteModified k now job (c, st) = (hit, ds)"
    by (cases "handleWriteModified k now job (c, st)")
  note H = handleWriteModified_spec [OF wf ds]
  show ?thesis
  proof (cases hit)
    case True
    with H(1,2) ds show ?thesis
      by (simp add: handleWriteRequestMESI_def write_action_def)
  next
    case False
    with H(3) obtain d where d: "ds = (d, st)" "refreshed now c d" by blast
    obtain hit' es where es: "handleWriteExclusive k now job (d, st) = (hit', es)"
      by (cases "handleWriteExclusive k now job (d, st)")
    note E = handleWriteExclusive_spec [OF refreshed_wf [OF d(2) wf(1)] wf(2) es]
    show ?thesis
    proof (cases hit')
      case True
      with E(1,2) request_served_refreshed [OF d(2) wf] refreshed_view [OF d(2)]
        False H(1) ds d(1) es show ?thesis
        by (simp add: handleWriteRequestMESI_def write_action_def)
    next
      case False
      with E(3) obtain e where e: "es = (e, st)" "refreshed now d e" by blast
      with ask_for_write [OF wf refreshed_trans [OF d(2) e(2)], of job st] E(1) \<open>\<not> hit\<close> False H(1)
        refreshed_view [OF d(2)] ds d(1) es
      show ?thesis
        by (simp add: handleWriteRequestMESI_def write_action_def)
    qed
  qed
qed

lemma upgrade_owned_spec:
  assumes wf: "wf_cache k now c" "wf_constants k"
  shows "request_served k now job Owner_upgrade (c, st) (upgrade_owned k now job (c, st))"
proof -
  have cost: "to_c_int (of_c_int (cacheHitCycleCost k)) = cacheHitCycleCost k"
    using wf(2) by (auto simp: wf_constants_def intro!: of_c_int_small)
  have "cache_view (setLineState k now job modified (c\<lparr>haveBusRequest := True, busy := True,
          busRequest := r, jobCycleCost := n\<rparr>)) =
        set_tag (snd (decode_address k (address job))) modified (cache_view c)" for r n
    by (subst setLineState_view) (simp_all add: wf_length [OF wf(1)])
  then show ?thesis
    using wf(1)
    by (simp add: upgrade_owned_def request_served_def after_request_def action_view_def
        action_message_def action_stats_def request_cost_def cost setLineState_wf Let_def
        case_prod_unfold)
qed

lemma handleWriteRequestMOESI_spec:
  assumes wf: "wf_cache k now c" "wf_constants k"
  shows "\<exists>ds. handleWriteRequestMOESI k now job (c, st) = Inr ds \<and>
    request_served k now job
      (write_action MOESI (tag_in k (cache_view c) (snd (decode_address k (address job)))))
      (c, st) ds"
proof -
  let ?has = "tag_in k (cache_view c) (snd (decode_address k (address job)))"
  obtain b1 c1 where c1: "lineInStates k now job [invalid, shared] c = (b1, c1)"
    by (cases "lineInStates k now job [invalid, shared] c")
  note L1 = lineInStates_spec [OF wf(1), of job "[invalid, shared]", unfolded c1 fst_conv snd_conv]
  note wf1 = refreshed_wf [OF L1(2) wf(1)]
  obtain b2 c2 where c2: "lineInState k now job exclusive c1 = (b2, c2)"
    by (cases "lineInState k now job exclusive c1")
  note L2 = lineInState_spec [OF wf1, of job exclusive, unfolded c2 fst_conv snd_conv]
  note r2 = refreshed_trans [OF L1(2) L2(2)] and wf2 = refreshed_wf [OF L2(2) wf1]
  obtain b3 c3 where c3: "lineInState k now job modified c2 = (b3, c3)"
    by (cases "lineInState k now job modified c2")
  note L3 = lineInState_spec [OF wf2, of job modified, unfolded c3 fst_conv snd_conv]
  note r3 = refreshed_trans [OF r2 L3(2)] and wf3 = refreshed_wf [OF L3(2) wf2]
  obtain b4 c4 where c4: "lineInState k now job owned c3 = (b4, c4)"
    by (cases "lineInState k now job owned c3")
  note L4 = lineInState_spec [OF wf3, of job owned, unfolded c4 fst_conv snd_conv]
  note r4 = refreshed_trans [OF r3 L4(2)] and wf4 = refreshed_wf [OF L4(2) wf3]
  note views = refreshed_view [OF L1(2)] refreshed_view [OF r2] refreshed_view [OF r3]
  have b: "b1 \<longleftrightarrow> ?has invalid \<or> ?has shared" "b2 \<longleftrightarrow> ?has exclusive"
    "b3 \<longleftrightarrow> ?has modified" "b4 \<longleftrightarrow> ?has owned"
    using L1(1) L2(1) L3(1) L4(1) by (simp_all add: views)
  note unfold = handleWriteRequestMOESI_def write_action_def c1 c2 c3 c4
  consider "b1" | "\<not> b1" "b2" | "\<not> b1" "\<not> b2" "b3" | "\<not> b1" "\<not> b2" "\<not> b3" "b4"
    | "\<not> b1" "\<not> b2" "\<not> b3" "\<not> b4" by blast
  then show ?thesis
  proof cases
    case 1
    with ask_for_write [OF wf L1(2), of job st] b(1) show ?thesis
      by (auto simp: unfold simp del: lineInStates.simps)
  next
    case 2
    obtain hit es where es: "handleWriteExclusive k now job (c2, st) = (hit, es)"
      by (cases "handleWriteExclusive k now job (c2, st)")
    note E = handleWriteExclusive_spec [OF wf2 wf(2) es]
    have "request_served k now job Silent_upgrade (c, st) es"
      using E(1,2) 2 b(2) request_served_refreshed [OF r2 wf] by (simp add: views)
    with 2 b es show ?thesis
      by (auto simp: unfold simp del: lineInStates.simps)
  next
    case 3
    obtain hit es where es: "handleWriteModified k now job (c3, st) = (hit, es)"
      by (cases "handleWriteModified k now job (c3, st)")
    note E = handleWriteModified_spec [OF wf3 wf(2) es]
    have "request_served k now job Hit (c, st) es"
      using E(1,2) 3 b(3) request_served_refreshed [OF r3 wf] by (simp add: views)
    with 3 b es show ?thesis
      by (auto simp: unfold simp del: lineInStates.simps)
  next
    case 4
    have "request_served k now job Owner_upgrade (c, st) (upgrade_owned k now job (c4, st))"
      by (rule request_served_refreshed [OF r4 wf]) (simp_all add: upgrade_owned_spec wf4 wf(2))
    with 4 b show ?thesis
      by (auto simp: unfold simp del: lineInStates.simps)
  next
    case 5
    with ask_for_write [OF wf r4, of job st] b show ?thesis
      by (auto simp: unfold simp del: lineInStates.simps)
  qed
qed

text \<open>The dispatch: every request of the processor follows the table, and none fails.\<close>

lemma dispatch_job_spec:
  assumes wf: "wf_cache k now c" "wf_constants k"
  shows "\<exists>ds. dispatch_job k now job (c, st) = Inr ds \<and>
    request_served k now job (job_action k job (cache_view c)) (c, st) ds"
proof -
  have ignore: "request_served k now job Ignore (c, st) (c, st)"
    using wf(1)
    by (simp add: request_served_def after_request_def action_view_def action_message_def
        action_stats_def Let_def)
  show ?thesis
    using handleWriteRequestMSI_spec [OF wf, of job st] handleWriteRequestMESI_spec [OF wf, of job st]
      handleWriteRequestMOESI_spec [OF wf, of job st] handleReadRequest_spec [OF wf, of job st] ignore
    by (cases "handleReadRequestMESI k now job (c, st)"; cases "protocol k")
      (simp_all add: dispatch_job_def job_action_def read_handlers Let_def)
qed

section \<open>Answers to a snooped request\<close>

fun snoop_next :: "protocol_kind \<Rightarrow> bus_message \<Rightarrow> line_state \<Rightarrow> line_state" where
  "snoop_next p BusRdX s =
     (if p \<noteq> MOESI \<and> s = owned \<or> p = MSI \<and> s = exclusive then s else invalid)"
| "snoop_next MSI BusRd s = (if s = modified then shared else s)"
| "snoop_next MESI BusRd s = (if s = modified \<or> s = exclusive then shared else s)"
| "snoop_next MOESI BusRd s =
     (if s = modified then owned else if s = exclusive then shared else s)"

fun snoop_reply :: "protocol_kind \<Rightarrow> bus_message \<Rightarrow> line_state \<Rightarrow> snoop_result" where
  "snoop_reply MOESI m s =
     (case s of
        owned \<Rightarrow> OWNED | modified \<Rightarrow> MODIFIED | exclusive \<Rightarrow> EXCLUSIVE
      | shared \<Rightarrow> (if m = BusRd then SHARED else NONE) | invalid \<Rightarrow> NONE)"
| "snoop_reply p m s =
     (if s = modified then (if m = BusRd then FLUSH_MODIFIED_TO_SHARED else FLUSH_MODIFIED_TO_INVALID)
      else if s = shared \<or> s = exclusive \<and> p = MESI then SHARED
      else NONE)"

fun snoop_stats :: "protocol_kind \<Rightarrow> line_state \<Rightarrow> cache_stats \<Rightarrow> cache_stats" where
  "snoop_stats MOESI s st =
     (if s = owned \<or> s = modified \<or> s = exclusive then count_share st else st)"
| "snoop_stats p s st = (if s = modified then count_flush st else st)"

lemma snoop_line_table:
  "snoop_line p m (l, st) =
     (snoop_reply p m (myState l), setState (snoop_next p m (myState l)) l,
      snoop_stats p (myState l) st)"
  by (cases p; cases m; cases "myState l")
    (simp_all add: snoop_line_def handleSnoopMESI_def handleSnoopMSI_def handleSnoopMOESI_def
      handleBusRdMESI_def handleBusRdXMESI_def handleBusRdMSI_def handleBusRdXMSI_def
      handleBusRdShared_def handleBusRdModified_def handleBusRdInvalid_def
      handleBusRdXInvalid_def handleBusRdXModified_def handleBusRdXSharedExclusive_def
      setState_def)

end
