(* ===== verification/Bus_Side.thy ===== *)
theory Bus_Side
  imports Protocol
begin

text \<open>
  What snooping a request, and storing the line at its end, do to the view of a cache.
\<close>

section \<open>Snooping\<close>

lemma view_store_set:
  assumes "nat i < length (localCache c)" and "0 \<le> i"
  shows "cache_view (store_set i s c) = (\<lambda>(j, t). if j = i then line_at s t else cache_view c (j, t))"
  using assms by (auto simp: cache_view_def store_set_def fun_eq_iff nth_list_update)

lemma wf_store_set:
  assumes "wf_cache k now c" and "wf_set k s" and "used_by now s"
  shows "wf_cache k now (store_set i s c)"
  using assms by (auto simp: wf_cache_def store_set_def dest!: set_update_subset_insert [THEN subsetD])

lemma store_set_fields [simp]:
  "pendingJobs (store_set i s c) = pendingJobs c"
  "currentJob (store_set i s c) = currentJob c"
  "busRequest (store_set i s c) = busRequest c"
  "processorId (store_set i s c) = processorId c"
  "haveBusRequest (store_set i s c) = haveBusRequest c"
  "busy (store_set i s c) = busy c"
  "busRequestBeingServiced (store_set i s c) = busRequestBeingServiced c"
  "startServiceCycle (store_set i s c) = startServiceCycle c"
  "jobCycleCost (store_set i s c) = jobCycleCost c"
  by (simp_all add: store_set_def)

text \<open>Replacing the line that \<open>getLine\<close> returns by one with the same tag.\<close>

lemma replace_line:
  assumes "hasLine s tag" and "wf_set k s" and "used_by now s"
  obtains i where "getLine now s tag = (fst (getLine now s tag), Some i)"
    and "i < length (allLines s)"
    and "myTag (allLines (fst (getLine now s tag)) ! i) = tag"
    and "line_at s tag = Some (myState (allLines (fst (getLine now s tag)) ! i))"
    and "lastUsedCycle (allLines (fst (getLine now s tag)) ! i) = now"
    and "\<And>l. myTag l = tag \<Longrightarrow> lastUsedCycle l \<le> now \<Longrightarrow>
           wf_set k (update_line i (\<lambda>_. l) (fst (getLine now s tag))) \<and>
           used_by now (update_line i (\<lambda>_. l) (fst (getLine now s tag))) \<and>
           line_at (update_line i (\<lambda>_. l) (fst (getLine now s tag))) = (line_at s)(tag \<mapsto> myState l)"
proof -
  let ?g = "fst (getLine now s tag)"
  from assms(1) obtain i where i: "find_index (\<lambda>l. myTag l = tag) (allLines s) = Some i"
    "i < length (allLines s)"
    "getLine now s tag = (update_line i (\<lambda>l. l\<lparr>lastUsedCycle := now\<rparr>) s, Some i)"
    by (rule getLine_present)
  then have g: "?g = update_line i (\<lambda>l. l\<lparr>lastUsedCycle := now\<rparr>) s" by simp
  have tag: "myTag (allLines s ! i) = tag"
    using find_index_SomeD [OF i(1)] by simp
  have at: "allLines ?g ! i = (allLines s ! i)\<lparr>lastUsedCycle := now\<rparr>"
    using i(2) by (simp add: g update_line_def)
  have first: "find_index (\<lambda>l. myTag l = tag) (allLines ?g) = Some i"
    using i(1) getLine_tags [of now s tag] by (simp add: find_index_tags tags_of_def)
  have "wf_set k (update_line i (\<lambda>_. l) ?g) \<and> used_by now (update_line i (\<lambda>_. l) ?g) \<and>
        line_at (update_line i (\<lambda>_. l) ?g) = (line_at s)(tag \<mapsto> myState l)"
    if l: "myTag l = tag" "lastUsedCycle l \<le> now" for l
  proof -
    let ?u = "update_line i (\<lambda>_. l) ?g"
    have eq: "?u = update_line i (\<lambda>l'. if myTag l' = tag then l else l') ?g"
      using tag at by (simp add: update_line_def)
    have keep: "\<And>l'. myTag (if myTag l' = tag then l else l') = myTag l'"
      using l(1) by simp
    have tags: "tags_of ?u = tags_of s"
      unfolding eq using i(2) by (subst tags_update_line [OF keep]) simp_all
    have "line_at ?u = (line_at s)(tag \<mapsto> myState l)"
      unfolding eq using i(2) line_at_update_line [OF keep _ first] tag at
      by (auto simp: fun_eq_iff)
    moreover have "used_by now ?u"
      using i(2) l(2) by (intro used_by_update_line getLine_used_by assms(3)) simp_all
    ultimately show ?thesis
      using tags assms(2) by (simp add: wf_set_def del: length_tags_of)
  qed
  with that [of i] i tag at show thesis
    by (simp add: line_at_first)
qed

definition snoop_effect ::
    "protocol_kind \<Rightarrow> bus_message \<Rightarrow> int \<times> int \<Rightarrow> view \<Rightarrow> view" where
  "snoop_effect p m x v = v(x := map_option (snoop_next p m) (v x))"

lemma snoopBusRequest_spec:
  assumes wf: "wf_cache k now c" "wf_constants k"
    and x: "decode_address k a = (lineSet r, lineTag r)"
  obtains d where
    "snoopBusRequest k now r (c, st) =
       Inr (case cache_view c (lineSet r, lineTag r) of
              None \<Rightarrow> (NONE, d, st)
            | Some s \<Rightarrow> (snoop_reply (protocol k) (command r) s, d, snoop_stats (protocol k) s st))"
    and "wf_cache k now d"
    and "cache_view d = snoop_effect (protocol k) (command r) (lineSet r, lineTag r) (cache_view c)"
    and "d = c\<lparr>localCache := localCache d\<rparr>"
proof -
  let ?i = "lineSet r" and ?t = "lineTag r"
  let ?s = "localCache c ! nat ?i"
  note at = set_at_decoded [OF wf(2,1), of a, unfolded x fst_conv]
  have i0: "0 \<le> ?i"
    using decode_set_range [OF wf(2), of a] by (simp add: x)
  have ws: "wf_set k ?s" "used_by now ?s"
    using wf(1) at(2) by (auto simp: wf_cache_def)
  have vx: "cache_view c (?i, t) = line_at ?s t" for t
    using at(2) i0 by (simp add: cache_view_def)
  show thesis
  proof (cases "hasLine ?s ?t")
    case False
    with that [of c] at vx wf(1) show thesis
      by (simp add: snoopBusRequest_def line_at_absent snoop_effect_def fun_upd_idem)
  next
    case True
    let ?g = "fst (getLine now ?s ?t)"
    from True ws obtain j where j: "getLine now ?s ?t = (?g, Some j)" "j < length (allLines ?s)"
      "myTag (allLines ?g ! j) = ?t" "line_at ?s ?t = Some (myState (allLines ?g ! j))"
      "lastUsedCycle (allLines ?g ! j) = now"
      and upd: "\<And>l. myTag l = ?t \<Longrightarrow> lastUsedCycle l \<le> now \<Longrightarrow>
           wf_set k (update_line j (\<lambda>_. l) ?g) \<and> used_by now (update_line j (\<lambda>_. l) ?g) \<and>
           line_at (update_line j (\<lambda>_. l) ?g) = (line_at ?s)(?t \<mapsto> myState l)"
      by (rule replace_line) blast
    let ?l = "setState (snoop_next (protocol k) (command r) (myState (allLines ?g ! j))) (allLines ?g ! j)"
    have u: "wf_set k (update_line j (\<lambda>_. ?l) ?g) \<and> used_by now (update_line j (\<lambda>_. ?l) ?g) \<and>
           line_at (update_line j (\<lambda>_. ?l) ?g) = (line_at ?s)(?t \<mapsto> myState ?l)"
      by (rule upd) (simp_all add: setState_def j(3,5))
    let ?d = "store_set ?i (update_line j (\<lambda>_. ?l) ?g) c"
    show thesis
    proof (rule that [of ?d])
      show "snoopBusRequest k now r (c, st) =
          Inr (case cache_view c (?i, ?t) of
              None \<Rightarrow> (NONE, ?d, st)
            | Some s \<Rightarrow> (snoop_reply (protocol k) (command r) s, ?d, snoop_stats (protocol k) s st))"
        by (simp add: snoopBusRequest_def at(1) True vx j(4)) (subst j(1), simp add: snoop_line_table)
      show "wf_cache k now ?d"
        using u by (simp add: wf_store_set wf(1))
      show "cache_view ?d = snoop_effect (protocol k) (command r) (?i, ?t) (cache_view c)"
      proof (rule ext, clarify)
        fix i' t'
        have "line_at (update_line j (\<lambda>_. ?l) ?g) t' = ((line_at ?s)(?t \<mapsto> myState ?l)) t'"
          using u by simp
        then show "cache_view ?d (i', t') =
            snoop_effect (protocol k) (command r) (?i, ?t) (cache_view c) (i', t')"
          using at(2) i0
          by (cases "t' = ?t") (simp_all add: view_store_set snoop_effect_def vx j(4) setState_def)
      qed
      show "?d = c\<lparr>localCache := localCache ?d\<rparr>"
        by (simp add: store_set_def)
    qed
  qed
qed

section \<open>Storing a line\<close>

lemma used_before_max:
  assumes "used_by now s" and "now < ULLONG_MAX" and "allLines s \<noteq> []"
  shows "used_before_max s"
  using assms by (cases "allLines s") (auto simp: used_before_max_def used_by_def)

text \<open>What eviction may take away from a full set to make room for an absent tag.\<close>

definition makes_room ::
    "constants \<Rightarrow> cache_set \<Rightarrow> (int \<Rightarrow> line_state option) \<Rightarrow> bool" where
  "makes_room k s v \<longleftrightarrow>
     v = line_at s \<and> int (length (allLines s)) < numLinesInSet k \<or>
     int (length (allLines s)) = numLinesInSet k \<and>
     (\<exists>i < length (allLines s).
        lru_position s = Some i \<and> v = (line_at s)(myTag (allLines s ! i) := None))"

lemma evictLRULine_wf:
  assumes "wf_set k s" and "used_by now s" and "now < ULLONG_MAX"
    and full: "int (length (allLines s)) = numLinesInSet k" "0 < numLinesInSet k"
  obtains s' where "evictLRULine s = Inr s'" and "wf_set k s'" and "used_by now s'"
    and "set (tags_of s') \<subseteq> set (tags_of s)"
    and "int (length (allLines s')) = numLinesInSet k - 1"
    and "makes_room k s (line_at s')"
proof -
  have "allLines s \<noteq> []"
    using full by auto
  with assms have "used_before_max s"
    by (simp add: used_before_max)
  then obtain s' where s': "evictLRULine s = Inr s'"
    using evictLRULine_ok by blast
  have d: "distinct (tags_of s)"
    using assms(1) by (simp add: wf_set_def)
  from evictLRULine_effect [OF d s'] obtain i where i: "lru_position s = Some i"
    "i < length (allLines s)" "tags_of s' = erase_at i (tags_of s)"
    "line_at s' = (line_at s)(myTag (allLines s ! i) := None)" by blast
  have lines: "allLines s' = erase_at i (allLines s)"
    using s' i(1) by (auto simp: evictLRULine_def lru_position_def)
  show thesis
  proof (rule that [OF s'])
    show "wf_set k s'"
      using d i full by (simp add: wf_set_def distinct_erase_at lines)
    show "used_by now s'"
      using assms(2) set_erase_at_subset [of i "allLines s"] by (auto simp: used_by_def lines)
    show "set (tags_of s') \<subseteq> set (tags_of s)"
      using i(3) by (simp add: set_erase_at_subset)
    show "int (length (allLines s')) = numLinesInSet k - 1"
      using i(2) full by (simp add: lines of_nat_diff)
    show "makes_room k s (line_at s')"
      using i full by (auto simp: makes_room_def)
  qed
qed

lemma append_line:
  assumes "wf_set k s" and "used_by now s" and "\<not> hasLine s (myTag l)"
    and "lastUsedCycle l \<le> now" and "int (length (allLines s)) < numLinesInSet k"
  shows "wf_set k (s\<lparr>allLines := allLines s @ [l]\<rparr>)"
    and "used_by now (s\<lparr>allLines := allLines s @ [l]\<rparr>)"
  using assms by (auto simp: wf_set_def used_by_def tags_of_def hasLine_iff)

lemma room_for_line:
  assumes "wf_set k s" and "used_by now s" and "now < ULLONG_MAX" and "0 < numLinesInSet k"
    and absent: "\<not> hasLine s (myTag l)" and "lastUsedCycle l \<le> now"
  obtains s1 s2 v where
    "(if isFull k s then evictLRULine s else Inr s) = Inr s1" and "\<not> hasLine s1 (myTag l)"
    and "addLine k l s1 = Inr s2" and "wf_set k s2" and "used_by now s2"
    and "line_at s2 = v(myTag l \<mapsto> myState l)" and "makes_room k s v"
proof -
  let ?n = "int (length (allLines s))"
  have room: "addLine k l s1 = Inr (s1\<lparr>allLines := allLines s1 @ [l]\<rparr>)"
    if "int (length (allLines s1)) \<noteq> numLinesInSet k" for s1
    using that by (simp add: addLine_def)
  show thesis
  proof (cases "?n < numLinesInSet k")
    case True
    let ?s2 = "s\<lparr>allLines := allLines s @ [l]\<rparr>"
    show thesis
    proof (rule that [of s ?s2 "line_at s"])
      show "(if isFull k s then evictLRULine s else Inr s) = Inr s"
        using True by (simp add: isFull_def)
      show "addLine k l s = Inr ?s2"
        using True by (simp add: room)
      show "line_at ?s2 = (line_at s)(myTag l \<mapsto> myState l)"
        using absent by (simp add: line_at_append)
    qed (use assms True append_line in \<open>auto simp: makes_room_def\<close>)
  next
    case False
    with assms(1) have full: "?n = numLinesInSet k"
      by (simp add: wf_set_def)
    from evictLRULine_wf [OF assms(1-3) full assms(4)] obtain s' where
      s': "evictLRULine s = Inr s'" "wf_set k s'" "used_by now s'"
        "set (tags_of s') \<subseteq> set (tags_of s)" "int (length (allLines s')) = numLinesInSet k - 1"
        "makes_room k s (line_at s')" .
    let ?s2 = "s'\<lparr>allLines := allLines s' @ [l]\<rparr>"
    have absent': "\<not> hasLine s' (myTag l)"
      using absent s'(4) by (auto simp: hasLine_iff)
    have s2: "wf_set k ?s2" "used_by now ?s2" "line_at ?s2 = (line_at s')(myTag l \<mapsto> myState l)"
      using append_line [OF s'(2,3) absent' assms(6)] s'(5) absent' by (simp_all add: line_at_append)
    show thesis
    proof (cases "isFull k s")
      case True
      then show thesis
        using that [of s' ?s2 "line_at s'"] s' s2 absent' by (simp add: room)
    next
      case False
      then show thesis
        using that [of s ?s2 "line_at s'"] s' s2 absent full by (simp add: addLine_def)
    qed
  qed
qed

section \<open>The end of a request\<close>

definition fill_state :: "constants \<Rightarrow> cache_job \<Rightarrow> bool \<Rightarrow> line_state \<Rightarrow> line_state" where
  "fill_state k job sh s =
     (if isWrite job then modified
      else if isRead job then
        (case protocol k of
           MSI \<Rightarrow> shared
         | _ \<Rightarrow> if sh then shared else exclusive)
      else s)"

definition fill_stats ::
    "constants \<Rightarrow> cache_job \<Rightarrow> bool \<Rightarrow> line_state \<Rightarrow> cache_stats \<Rightarrow> cache_stats" where
  "fill_stats k job sh s st =
     (if isWrite job then
        (case protocol k of
           MSI \<Rightarrow> count_memory st
         | MESI \<Rightarrow> if sh then count_share st else st
         | MOESI \<Rightarrow> if sh \<or> s = owned then st else count_memory st)
      else if isRead job then
        (case protocol k of
           MSI \<Rightarrow> count_memory st
         | MESI \<Rightarrow> if sh then count_share st else count_memory st
         | MOESI \<Rightarrow> if sh then st else count_memory st)
      else st)"

lemma finish_table:
  "finish_line k job sh (l, st) =
     (setState (fill_state k job sh (myState l)) l, fill_stats k job sh (myState l) st)"
  by (cases "protocol k"; cases "isWrite job"; cases "isRead job")
    (simp_all add: finish_line_def finish_write_def finish_read_def fill_state_def
      fill_stats_def setState_def isRead_def isWrite_def Let_def)

text \<open>The view once the line of the job may have displaced another one.\<close>

definition room_made :: "constants \<Rightarrow> cache \<Rightarrow> int \<times> int \<Rightarrow> view \<Rightarrow> bool" where
  "room_made k c = (\<lambda>(i, t) v.
     if cache_view c (i, t) \<noteq> None then v = cache_view c
     else makes_room k (localCache c ! nat i) (\<lambda>t'. v (i, t')) \<and>
          (\<forall>j t'. j \<noteq> i \<longrightarrow> v (j, t') = cache_view c (j, t')))"

definition old_state :: "view \<Rightarrow> int \<times> int \<Rightarrow> line_state" where
  "old_state v x = (case v x of None \<Rightarrow> invalid | Some s \<Rightarrow> s)"

definition finished :: "cache \<Rightarrow> cache" where
  "finished c = c\<lparr>haveBusRequest := False, busy := False, busRequestBeingServiced := False\<rparr>"

lemma store_line_spec:
  assumes "hasLine s t" and "wf_set k s" and "used_by now s"
  obtains l where
    "\<And>st. store_line k now job sh i t c (s, st) =
            Inr (store_set i l c, fill_stats k job sh (the (line_at s t)) st)"
    and "wf_set k l" and "used_by now l"
    and "line_at l = (line_at s)(t \<mapsto> fill_state k job sh (the (line_at s t)))"
proof -
  let ?g = "fst (getLine now s t)"
  obtain j where j: "getLine now s t = (?g, Some j)" "j < length (allLines s)"
    "myTag (allLines ?g ! j) = t" "line_at s t = Some (myState (allLines ?g ! j))"
    "lastUsedCycle (allLines ?g ! j) = now"
    and upd: "\<And>l. myTag l = t \<Longrightarrow> lastUsedCycle l \<le> now \<Longrightarrow>
         wf_set k (update_line j (\<lambda>_. l) ?g) \<and> used_by now (update_line j (\<lambda>_. l) ?g) \<and>
         line_at (update_line j (\<lambda>_. l) ?g) = (line_at s)(t \<mapsto> myState l)"
    using replace_line [OF assms] by blast
  let ?l0 = "(allLines ?g ! j)\<lparr>lastUsedCycle := now\<rparr>"
  let ?l = "setState (fill_state k job sh (myState ?l0)) ?l0"
  have u: "wf_set k (update_line j (\<lambda>_. ?l) ?g) \<and> used_by now (update_line j (\<lambda>_. ?l) ?g) \<and>
       line_at (update_line j (\<lambda>_. ?l) ?g) = (line_at s)(t \<mapsto> myState ?l)"
    by (rule upd) (simp_all add: setState_def j(3))
  show thesis
  proof (rule that [of "update_line j (\<lambda>_. ?l) ?g"])
    show "store_line k now job sh i t c (s, st) =
        Inr (store_set i (update_line j (\<lambda>_. ?l) ?g) c, fill_stats k job sh (the (line_at s t)) st)"
      for st
      unfolding store_line_def case_prod_conv j(4)
      by (subst j(1)) (simp add: finish_table)
  qed (use u j(4) in \<open>simp_all add: setState_def\<close>)
qed

text \<open>What follows from a set that has been written back.\<close>

lemma stored_set_view:
  assumes "nat i < length (localCache c)" and "0 \<le> i"
    and "line_at l = w(t \<mapsto> s)"
    and "\<And>t'. w t' = v (i, t')" and "\<And>j t'. j \<noteq> i \<Longrightarrow> v (j, t') = cache_view c (j, t')"
  shows "cache_view (store_set i l c) = v((i, t) \<mapsto> s)"
  using assms by (auto simp: view_store_set fun_eq_iff)

lemma busJobDone_spec:
  assumes wf: "wf_cache k now c" "wf_constants k" and now: "now < ULLONG_MAX"
    and job: "currentJob c = Some job" and x: "decode_address k (address job) = x"
  obtains d v where
    "busJobDone k now sh (c, st) =
       Inr (d, fill_stats k job sh (old_state (cache_view c) x)
                 (if write_back_needed k c x then count_evict st else st))"
    and "wf_cache k now d" and "room_made k c x v"
    and "cache_view d = v(x \<mapsto> fill_state k job sh (old_state (cache_view c) x))"
    and "d = (finished c)\<lparr>localCache := localCache d\<rparr>"
proof -
  obtain i t where it: "x = (i, t)" by (cases x)
  let ?s = "localCache c ! nat i" and ?c = "finished c"
  note at = set_at_decoded [OF wf(2,1), of "address job", unfolded x it fst_conv]
  have i0: "0 \<le> i"
    using decode_set_range [OF wf(2), of "address job"] by (simp add: x it)
  have ws: "wf_set k ?s" "used_by now ?s"
    using wf(1) at(2) by (auto simp: wf_cache_def)
  have vi: "cache_view c (i, t') = line_at ?s t'" for t'
    using at(2) i0 by (simp add: cache_view_def)
  have fin: "set_at ?c i = Inr ?s" "nat i < length (localCache ?c)"
    "wf_cache k now ?c" "cache_view ?c = cache_view c"
    using at wf(1) by (simp_all add: set_at_def finished_def split: if_splits)
  note body = busJobDone_def job x it Let_def finished_def [symmetric] fin(1)
  show thesis
  proof (cases "hasLine ?s t")
    case True
    then obtain s0 where s0: "line_at ?s t = Some s0"
      by (auto simp: hasLine_line_at)
    obtain l where l: "\<And>st. store_line k now job sh i t ?c (?s, st) =
        Inr (store_set i l ?c, fill_stats k job sh (the (line_at ?s t)) st)"
      "wf_set k l" "used_by now l"
      "line_at l = (line_at ?s)(t \<mapsto> fill_state k job sh (the (line_at ?s t)))"
      by (rule store_line_spec [OF True ws, of job sh i ?c]) blast
    show thesis
    proof (rule that [of "store_set i l ?c" "cache_view c"])
      show "room_made k c x (cache_view c)"
        by (simp add: room_made_def it vi s0)
      show "cache_view (store_set i l ?c) =
          (cache_view c)(x \<mapsto> fill_state k job sh (old_state (cache_view c) x))"
        unfolding it by (rule stored_set_view [OF fin(2) i0])
          (use l(4) s0 in \<open>simp_all add: fin(4) vi old_state_def\<close>)
      show "wf_cache k now (store_set i l ?c)"
        by (rule wf_store_set [OF fin(3) l(2,3)])
      show "store_set i l ?c = ?c\<lparr>localCache := localCache (store_set i l ?c)\<rparr>"
        by (simp add: store_set_def)
    qed (use l True s0 in \<open>simp add: body vi old_state_def write_back_needed_def\<close>)
  next
    case False
    let ?new = "CacheLine (address job) i t"
    obtain s1 s2 w where
      s1: "(if isFull k ?s then evictLRULine ?s else Inr ?s) = Inr s1" "\<not> hasLine s1 (myTag ?new)"
      and s2: "addLine k ?new s1 = Inr s2" "wf_set k s2" "used_by now s2"
        "line_at s2 = w(myTag ?new \<mapsto> myState ?new)" and room: "makes_room k ?s w"
      by (rule room_for_line [OF ws now, of ?new])
        (use wf(2) False in \<open>auto simp: wf_constants_def CacheLine_def\<close>)
    have new: "myTag ?new = t" "myState ?new = invalid"
      by (simp_all add: CacheLine_def)
    have "hasLine s2 t"
      using s2(4) by (simp add: hasLine_line_at new)
    then obtain l where l: "\<And>st. store_line k now job sh i t ?c (s2, st) =
        Inr (store_set i l ?c, fill_stats k job sh (the (line_at s2 t)) st)"
      "wf_set k l" "used_by now l"
      "line_at l = (line_at s2)(t \<mapsto> fill_state k job sh (the (line_at s2 t)))"
      by (rule store_line_spec [OF _ s2(2,3), where job = job and sh = sh and i = i and c = "?c"])
        blast
    let ?v = "\<lambda>(j, t'). if j = i then w t' else cache_view c (j, t')"
    have absent: "cache_view c (i, t) = None"
      using False by (simp add: vi line_at_absent)
    show thesis
    proof (rule that [of "store_set i l ?c" ?v])
      show "room_made k c x ?v"
        using room by (simp add: room_made_def it absent)
      show "cache_view (store_set i l ?c) = ?v(x \<mapsto> fill_state k job sh (old_state (cache_view c) x))"
        unfolding it by (rule stored_set_view [OF fin(2) i0, where w = w])
          (use l(4) s2(4) in \<open>simp_all add: fin(4) absent old_state_def new\<close>)
      show "busJobDone k now sh (c, st) =
          Inr (store_set i l ?c, fill_stats k job sh (old_state (cache_view c) x)
                 (if write_back_needed k c x then count_evict st else st))"
        using s1 s2(1,4) l(1) False
        by (auto simp: body absent old_state_def write_back_needed_def new split: if_splits)
      show "wf_cache k now (store_set i l ?c)"
        by (rule wf_store_set [OF fin(3) l(2,3)])
      show "store_set i l ?c = ?c\<lparr>localCache := localCache (store_set i l ?c)\<rparr>"
        by (simp add: store_set_def)
    qed
  qed
qed

end
