(* ===== verification/Bus.thy ===== *)
theory Bus
  imports Snoop
begin

text \<open>
  AtomicBusManager: the bus serves one request at a time. Its tick finishes the request in
  service when its time has come, picks the next one, and broadcasts it.
\<close>

record bus_manager =
  currentCache :: int
  currentRequest :: "bus_request option"
  inUse :: bool
  startCycle :: u64
  endCycle :: u64
  isShared :: bool

definition AtomicBusManager :: bus_manager where
  "AtomicBusManager =
     \<lparr>currentCache = 0, currentRequest = None, inUse = False, startCycle = 0, endCycle = 0,
      isShared = False\<rparr>"

text \<open>\<open>caches.at(i)\<close>, which throws outside the vector.\<close>

definition cache_at :: "cache list \<Rightarrow> int \<Rightarrow> cache result" where
  "cache_at cs i = (if 0 \<le> i \<and> nat i < length cs then Inr (cs ! nat i) else Inl Out_of_range)"

section \<open>Broadcasting a request\<close>

text \<open>
  What one answer does to the request in service: \<open>(bus, requester, foundShared, stats)\<close>.
\<close>

type_synonym answer_state = "bus_manager \<times> cache \<times> bool \<times> cache_stats"

definition answer_MSI :: "constants \<Rightarrow> snoop_result \<Rightarrow> answer_state \<Rightarrow> answer_state" where
  "answer_MSI k result = (\<lambda>(b, c, foundShared, st).
     let mem = of_c_int (memoryResponseCycleCost k) in
     if result = FLUSH_MODIFIED_TO_SHARED \<or> result = FLUSH_MODIFIED_TO_INVALID then
       (b\<lparr>endCycle := endCycle b + mem\<rparr>, updateEndCycleTime mem c, foundShared, count_memory st)
     else (b, c, foundShared, st))"

definition answer_MOESI ::
    "constants \<Rightarrow> bus_request \<Rightarrow> snoop_result \<Rightarrow> answer_state \<Rightarrow> answer_state" where
  "answer_MOESI k request result = (\<lambda>(b, c, foundShared, st).
     if result = MODIFIED \<or> result = EXCLUSIVE \<or> result = OWNED then
       (if cycleCost request = cacheHitCycleCost k then
          (b\<lparr>isShared := True\<rparr>, c, foundShared, st)
        else
          (b\<lparr>endCycle := endCycle b
               - of_c_int (memoryResponseCycleCost k - cacheResponseCycleCost k),
             isShared := True\<rparr>,
           newEndCycleTime (of_c_int (cacheResponseCycleCost k)) c, foundShared, st))
     else (b, c, foundShared, st))"

definition answer_MESI :: "constants \<Rightarrow> snoop_result \<Rightarrow> answer_state \<Rightarrow> answer_state" where
  "answer_MESI k result = (\<lambda>(b, c, foundShared, st).
     let resp = of_c_int (cacheResponseCycleCost k) in
     if result = FLUSH_MODIFIED_TO_INVALID then
       (b\<lparr>endCycle := endCycle b + resp, isShared := True\<rparr>, updateEndCycleTime resp c,
        foundShared, count_memory st)
     else if result = FLUSH_MODIFIED_TO_SHARED then
       (b\<lparr>endCycle := endCycle b + resp, isShared := True\<rparr>, updateEndCycleTime resp c,
        foundShared, count_memory st)
     else if result = SHARED then
       (if \<not> foundShared then
          (b\<lparr>endCycle := endCycle b
               - of_c_int (memoryResponseCycleCost k - cacheResponseCycleCost k),
             isShared := True\<rparr>,
           newEndCycleTime resp c, True, st)
        else (b\<lparr>isShared := True\<rparr>, c, foundShared, st))
     else (b, c, foundShared, st))"

definition answer :: "constants \<Rightarrow> bus_request \<Rightarrow> snoop_result \<Rightarrow> answer_state \<Rightarrow> answer_state" where
  "answer k request result a =
     (case protocol k of
        MSI \<Rightarrow> answer_MSI k result a
      | MOESI \<Rightarrow> answer_MOESI k request result a
      | MESI \<Rightarrow> answer_MESI k result a)"

text \<open>The loop over the processors \<open>i, i + 1, \<dots>\<close>, every one but the requester snooping.\<close>

type_synonym broadcast_state = "bus_manager \<times> cache list \<times> bool \<times> cache_stats"

definition broadcast_one ::
    "constants \<Rightarrow> u64 \<Rightarrow> bus_request \<Rightarrow> int \<Rightarrow> broadcast_state \<Rightarrow> broadcast_state result" where
  "broadcast_one k now request i = (\<lambda>(b, cs, foundShared, st).
     if i = currentCache b then Inr (b, cs, foundShared, st)
     else
       andthen (cache_at cs i) (\<lambda>c.
       andthen (snoopBusRequest k now request (c, st)) (\<lambda>(result, c, st).
       let cs = cs[nat i := c] in
       andthen (cache_at cs (currentCache b)) (\<lambda>requester.
       let (b', requester, foundShared, st) =
             answer k request result (b, requester, foundShared, st)
       in Inr (b', cs[nat (currentCache b) := requester], foundShared, st)))))"

fun broadcast ::
    "constants \<Rightarrow> u64 \<Rightarrow> bus_request \<Rightarrow> int list \<Rightarrow> broadcast_state \<Rightarrow> broadcast_state result" where
  "broadcast k now request [] s = Inr s"
| "broadcast k now request (i # is) s =
     andthen (broadcast_one k now request i s) (broadcast k now request is)"

section \<open>The tick\<close>

definition processors :: "constants \<Rightarrow> int list" where
  "processors k = map int [0..<nat (numProcessors k)]"

text \<open>
  First part: \<open>True\<close> says that the bus is free for a next request, \<open>False\<close> that the
  function returns because the request in service is not finished.
\<close>

type_synonym bus_state = "bus_manager \<times> cache list \<times> cache_stats"

definition finish_request ::
    "constants \<Rightarrow> u64 \<Rightarrow> bus_state \<Rightarrow> (bool \<times> bus_state) result" where
  "finish_request k now = (\<lambda>(b, cs, st).
     if inUse b then
       (if endCycle b \<le> now then
          andthen (cache_at cs (currentCache b)) (\<lambda>c.
          andthen (busJobDone k now (isShared b) (c, st)) (\<lambda>(c, st).
          Inr (True, b\<lparr>currentCache := -1, inUse := False, isShared := False\<rparr>,
               cs[nat (currentCache b) := c], st)))
        else Inr (False, b, cs, st))
     else Inr (True, b, cs, st))"

text \<open>The first cache, from 0, with an outstanding request.\<close>

fun next_request :: "cache list \<Rightarrow> int list \<Rightarrow> int option result" where
  "next_request cs [] = Inr None"
| "next_request cs (i # is) =
     andthen (cache_at cs i) (\<lambda>c.
       if hasBusRequest c then Inr (Some i) else next_request cs is)"

definition start_request ::
    "constants \<Rightarrow> u64 \<Rightarrow> int \<Rightarrow> bus_state \<Rightarrow> bus_state result" where
  "start_request k now i = (\<lambda>(b, cs, st).
     andthen (cache_at cs i) (\<lambda>c.
     andthen (getBusRequest now c) (\<lambda>(request, c).
     case request of
       None \<Rightarrow> Inl Null_dereference
     | Some request \<Rightarrow>
         let cs = cs[nat i := c];
             b = b\<lparr>currentRequest := Some request, currentCache := i, startCycle := now,
                    endCycle := now + of_c_int (cycleCost request), inUse := True\<rparr>
         in
         andthen (broadcast k now request (processors k) (b, cs, False, count_bus st))
           (\<lambda>(b, cs, foundShared, st).
             Inr (b, cs,
                  if \<not> foundShared \<and> protocol k = MESI then count_memory st else st)))))"

definition bus_tick :: "constants \<Rightarrow> u64 \<Rightarrow> bus_state \<Rightarrow> bus_state result" where
  "bus_tick k now s =
     andthen (finish_request k now s) (\<lambda>(free, b, cs, st).
     if \<not> free then Inr (b, cs, st)
     else
       andthen (next_request cs (processors k)) (\<lambda>next.
       case next of
         None \<Rightarrow> Inr (b\<lparr>inUse := False, isShared := False\<rparr>, cs, st)
       | Some i \<Rightarrow> start_request k now i (b, cs, st)))"

end
