(* ===== verification/Atomic.thy ===== *)
theory Atomic
  imports Bus_Side Bus
begin

text \<open>
  The abstract machine: each job of the trace is one atomic step on the views of the caches,
  the statistics and the clock. It knows nothing of queues, ticks, the bus or the flags that
  the code uses to interleave them; that the simulation implements it is proved in the
  theories Activity and Refinement.
\<close>

section \<open>One answer on the bus\<close>

definition reply_shared :: "protocol_kind \<Rightarrow> snoop_result \<Rightarrow> bool" where
  "reply_shared p r =
     (case p of
        MSI \<Rightarrow> False
      | MESI \<Rightarrow> r = SHARED \<or> r = FLUSH_MODIFIED_TO_SHARED \<or> r = FLUSH_MODIFIED_TO_INVALID
      | MOESI \<Rightarrow> r = MODIFIED \<or> r = EXCLUSIVE \<or> r = OWNED)"

definition reply_memory :: "protocol_kind \<Rightarrow> snoop_result \<Rightarrow> bool" where
  "reply_memory p r \<longleftrightarrow>
     p \<noteq> MOESI \<and> (r = FLUSH_MODIFIED_TO_SHARED \<or> r = FLUSH_MODIFIED_TO_INVALID)"

definition reply_found :: "protocol_kind \<Rightarrow> snoop_result \<Rightarrow> bool" where
  "reply_found p r \<longleftrightarrow> p = MESI \<and> r = SHARED"

text \<open>
  What the answer adds to the cycles of the request: a flush delays it, the first cache that
  can give the line saves the difference between memory and cache.
\<close>

definition reply_delay :: "constants \<Rightarrow> int \<Rightarrow> bool \<Rightarrow> snoop_result \<Rightarrow> int" where
  "reply_delay k cost found r =
     (let saved = memoryResponseCycleCost k - cacheResponseCycleCost k in
      case protocol k of
        MSI \<Rightarrow> if reply_memory MSI r then memoryResponseCycleCost k else 0
      | MESI \<Rightarrow> if reply_memory MESI r then cacheResponseCycleCost k
                else if r = SHARED \<and> \<not> found then - saved else 0
      | MOESI \<Rightarrow> if reply_shared MOESI r \<and> cost \<noteq> cacheHitCycleCost k then - saved else 0)"

section \<open>A request on the bus\<close>

record transaction =
  t_views :: "view list"
  t_shared :: bool
  t_found :: bool
  t_delay :: int
  t_stats :: cache_stats

definition snoop_one ::
    "constants \<Rightarrow> bus_message \<Rightarrow> int \<times> int \<Rightarrow> int \<Rightarrow> nat \<Rightarrow> transaction \<Rightarrow> transaction" where
  "snoop_one k m x cost i t =
     (case (t_views t ! i) x of
        None \<Rightarrow> t
      | Some s \<Rightarrow>
          let p = protocol k; r = snoop_reply p m s in
          \<lparr>t_views = (t_views t)[i := snoop_effect p m x (t_views t ! i)],
           t_shared = (t_shared t \<or> reply_shared p r),
           t_found = (t_found t \<or> reply_found p r),
           t_delay = t_delay t + reply_delay k cost (t_found t) r,
           t_stats = (if reply_memory p r then count_memory (snoop_stats p s (t_stats t))
                      else snoop_stats p s (t_stats t))\<rparr>)"

text \<open>Every processor but the requester, in order.\<close>

fun snoop_all ::
    "constants \<Rightarrow> bus_message \<Rightarrow> int \<times> int \<Rightarrow> int \<Rightarrow> nat \<Rightarrow> nat list \<Rightarrow> transaction \<Rightarrow> transaction" where
  "snoop_all k m x cost p [] t = t"
| "snoop_all k m x cost p (i # is) t =
     snoop_all k m x cost p is (if i = p then t else snoop_one k m x cost i t)"

definition others :: "constants \<Rightarrow> nat list" where
  "others k = [0..<nat (numProcessors k)]"

definition transact ::
    "constants \<Rightarrow> bus_message \<Rightarrow> int \<times> int \<Rightarrow> int \<Rightarrow> nat \<Rightarrow> view list \<Rightarrow> cache_stats \<Rightarrow> transaction" where
  "transact k m x cost p vs st =
     (let t = snoop_all k m x cost p (others k)
                \<lparr>t_views = vs, t_shared = False, t_found = False, t_delay = cost,
                 t_stats = count_bus st\<rparr>
      in if \<not> t_found t \<and> protocol k = MESI then t\<lparr>t_stats := count_memory (t_stats t)\<rparr> else t)"

section \<open>The two halves of a job\<close>

text \<open>
  A phase is what the machine is waiting for: nothing, a hit of processor \<open>p\<close>, or a request
  of processor \<open>p\<close> on the bus; with the cycles from the start of the job to the end.
\<close>

datatype phase = Idle | Local nat int | On_bus nat cache_job bool int

definition action_cost :: "constants \<Rightarrow> bool \<Rightarrow> action \<Rightarrow> int" where
  "action_cost k wb act =
     (case act of
        Ask BusRdX \<Rightarrow> (if wb then 2 * memoryResponseCycleCost k else memoryResponseCycleCost k)
      | Ask BusRd \<Rightarrow> memoryResponseCycleCost k
      | _ \<Rightarrow> cacheHitCycleCost k)"

definition start_job ::
    "constants \<Rightarrow> bool \<Rightarrow> cache_job \<Rightarrow> view list \<times> cache_stats \<Rightarrow> phase \<times> view list \<times> cache_stats" where
  "start_job k wb job = (\<lambda>(vs, st).
     let p = nat (threadId job);
         x = decode_address k (address job);
         act = job_action k job (vs ! p);
         vs = vs[p := action_view (snd x) act (vs ! p)];
         st = action_stats act (if act = Ask BusRdX \<and> wb then count_flush st else st)
     in case action_message act of
          None \<Rightarrow> (if act = Ignore then Idle else Local p (cacheHitCycleCost k), vs, st)
        | Some m \<Rightarrow>
            let t = transact k m x (action_cost k wb act) p vs st
            in (On_bus p job (t_shared t) (t_delay t), t_views t, t_stats t))"

definition finish_job ::
    "constants \<Rightarrow> bool \<Rightarrow> nat \<Rightarrow> cache_job \<Rightarrow> bool \<Rightarrow> view \<Rightarrow> view list \<times> cache_stats
       \<Rightarrow> view list \<times> cache_stats" where
  "finish_job k wb p job sh v = (\<lambda>(vs, st).
     let x = decode_address k (address job); s = old_state (vs ! p) x
     in (vs[p := v(x \<mapsto> fill_state k job sh s)],
         fill_stats k job sh s (if wb then count_evict st else st)))"

section \<open>A job, when no line has to be evicted\<close>

definition abs_job ::
    "constants \<Rightarrow> cache_job \<Rightarrow> (view list \<times> cache_stats) \<times> int \<Rightarrow> (view list \<times> cache_stats) \<times> int" where
  "abs_job k job = (\<lambda>(m, clock).
     case start_job k False job m of
       (Idle, m) \<Rightarrow> (m, clock + 1)
     | (Local p d, m) \<Rightarrow> (m, clock + 1 + max d 1)
     | (On_bus p job sh d, m) \<Rightarrow>
         (finish_job k False p job sh (fst m ! p) m, clock + 1 + max d 1))"

definition abs_initial :: "constants \<Rightarrow> (view list \<times> cache_stats) \<times> int" where
  "abs_initial k = ((replicate (nat (numProcessors k)) (\<lambda>_. None), CacheStats), 0)"

definition abs_run :: "constants \<Rightarrow> cache_job list \<Rightarrow> (view list \<times> cache_stats) \<times> int" where
  "abs_run k jobs = fold (abs_job k) jobs (abs_initial k)"

end
