(* ===== verification/Controller.thy ===== *)
theory Controller
  imports Bus
begin

text \<open>
  CacheController.cpp: the simulation loop of \<open>main\<close>. The scheduler hands out one job at
  a time, when no cache is busy.
\<close>

record sim =
  cycles :: u64
  caches :: "cache list"
  bus :: bus_manager
  stats :: cache_stats
  outstandingRequests :: "cache_job list"

definition queuesEmpty :: "cache list \<Rightarrow> bool" where
  "queuesEmpty cs = list_all (\<lambda>c. pendingJobs c = []) cs"

definition noJobs :: "cache list \<Rightarrow> bool" where
  "noJobs cs = list_all (\<lambda>c. \<not> busy c) cs"

text \<open>The state when the loop starts, for the jobs read from the trace.\<close>

definition initial_sim :: "constants \<Rightarrow> cache_job list \<Rightarrow> sim" where
  "initial_sim k jobs =
     \<lparr>cycles = initial_cycle,
      caches = map (\<lambda>i. new_cache k i []) (processors k),
      bus = AtomicBusManager,
      stats = CacheStats,
      outstandingRequests = jobs\<rparr>"

definition more_work :: "sim \<Rightarrow> bool" where
  "more_work s \<longleftrightarrow> \<not> noJobs (caches s) \<or> outstandingRequests s \<noteq> []"

text \<open>The body of the loop: clock, scheduler, every cache in order, the bus.\<close>

definition schedule :: "sim \<Rightarrow> sim result" where
  "schedule s =
     (if noJobs (caches s) then
        (case outstandingRequests s of
           [] \<Rightarrow> Inl Empty_queue
         | currJob # jobs \<Rightarrow>
             andthen (cache_at (caches s) (threadId currJob)) (\<lambda>c.
             Inr (s\<lparr>outstandingRequests := jobs,
                    caches := (caches s)[nat (threadId currJob) :=
                                 c\<lparr>pendingJobs := pendingJobs c @ [currJob]\<rparr>]\<rparr>)))
      else Inr s)"

fun tick_caches ::
    "constants \<Rightarrow> u64 \<Rightarrow> int list \<Rightarrow> cache list \<times> cache_stats \<Rightarrow> (cache list \<times> cache_stats) result" where
  "tick_caches k now [] s = Inr s"
| "tick_caches k now (j # js) s =
     (case s of (cs, st) \<Rightarrow>
        andthen (cache_at cs j) (\<lambda>c.
        andthen (cache_tick k now (c, st)) (\<lambda>(c, st).
        tick_caches k now js (cs[nat j := c], st))))"

definition main_step :: "constants \<Rightarrow> sim \<Rightarrow> sim result" where
  "main_step k s =
     andthen (schedule (s\<lparr>cycles := clock_tick (cycles s)\<rparr>)) (\<lambda>s.
     andthen (tick_caches k (cycles s) (processors k) (caches s, stats s)) (\<lambda>(cs, st).
     andthen (bus_tick k (cycles s) (bus s, cs, st)) (\<lambda>(b, cs, st).
     Inr (s\<lparr>caches := cs, stats := st, bus := b\<rparr>))))"

definition main_loop :: "constants \<Rightarrow> nat \<Rightarrow> sim \<Rightarrow> sim result option" where
  "main_loop k fuel s = run_loop more_work (main_step k) fuel s"

text \<open>The whole simulation of a list of jobs.\<close>

definition simulate :: "constants \<Rightarrow> nat \<Rightarrow> cache_job list \<Rightarrow> sim result option" where
  "simulate k fuel jobs = main_loop k fuel (initial_sim k jobs)"

end
