(* ===== verification/Activity.thy ===== *)
theory Activity
  imports Atomic Controller
begin

text \<open>
  What each iteration of the main loop does, in terms of the abstract machine: the loop is
  always in one of three phases, a phase is left after a known number of cycles, and the
  views and statistics change as the abstract machine says.
\<close>

section \<open>The broadcast\<close>

lemma of_c_int_diff: "of_c_int (i - j) = of_c_int i - of_c_int j"
  by (simp add: of_c_int_def)

lemma answer_table:
  "\<exists>n. answer k r res (b, c, found, st) =
     (b\<lparr>endCycle := endCycle b + of_c_int (reply_delay k (cycleCost r) found res),
        isShared := isShared b \<or> reply_shared (protocol k) res\<rparr>,
      c\<lparr>jobCycleCost := n\<rparr>,
      found \<or> reply_found (protocol k) res,
      if reply_memory (protocol k) res then count_memory st else st)"
proof -
  have same: "b = b\<lparr>endCycle := endCycle b, isShared := isShared b\<rparr>"
    "c = c\<lparr>jobCycleCost := jobCycleCost c\<rparr>" by simp_all
  have zero: "of_c_int 0 = 0" by (simp add: of_c_int_def)
  show ?thesis
  proof (cases "protocol k")
    case MSI
    then show ?thesis
      by (auto simp: answer_def answer_MSI_def reply_delay_def reply_shared_def reply_memory_def
          reply_found_def updateEndCycleTime_def zero Let_def
          intro: exI [of _ "jobCycleCost c"])
  next
    case MESI
    then show ?thesis
      by (cases res)
        (auto simp: answer_def answer_MESI_def reply_delay_def reply_shared_def reply_memory_def
          reply_found_def updateEndCycleTime_def newEndCycleTime_def zero of_c_int_diff algebra_simps Let_def
          intro: exI [of _ "jobCycleCost c"])
  next
    case MOESI
    then show ?thesis
      by (cases res)
        (auto simp: answer_def answer_MOESI_def reply_delay_def reply_shared_def
          reply_memory_def reply_found_def newEndCycleTime_def zero of_c_int_diff algebra_simps Let_def
          intro: exI [of _ "jobCycleCost c"])
  qed
qed

text \<open>The fields of a cache that the bus side and the touches leave alone.\<close>

definition kept :: "cache \<Rightarrow> cache \<Rightarrow> bool" where
  "kept c d \<longleftrightarrow>
     pendingJobs d = pendingJobs c \<and> currentJob d = currentJob c \<and>
     busRequest d = busRequest c \<and> haveBusRequest d = haveBusRequest c \<and> busy d = busy c \<and>
     busRequestBeingServiced d = busRequestBeingServiced c \<and>
     startServiceCycle d = startServiceCycle c"

lemma kept_refl [simp]: "kept c c"
  by (simp add: kept_def)

lemma kept_trans: "kept c d \<Longrightarrow> kept d e \<Longrightarrow> kept c e"
  by (simp add: kept_def)

lemma kept_sets: "d = c\<lparr>localCache := ss\<rparr> \<Longrightarrow> kept c d"
  by (simp add: kept_def)

lemma refreshed_kept: "refreshed now c d \<Longrightarrow> kept c d"
  by (simp add: kept_def refreshed_fields)

text \<open>The relation between the loop of the code and the abstract transaction.\<close>

definition same_transaction ::
    "constants \<Rightarrow> u64 \<Rightarrow> nat \<Rightarrow> bus_request \<Rightarrow> cache list \<Rightarrow> broadcast_state \<Rightarrow> transaction \<Rightarrow> bool" where
  "same_transaction k now p r cs0 = (\<lambda>(b, cs, found, st) t.
     list_all2 kept cs0 cs \<and> list_all (wf_cache k now) cs \<and>
     currentCache b = int p \<and> inUse b \<and> currentRequest b = Some r \<and>
     endCycle b = now + of_c_int (t_delay t) \<and> isShared b = t_shared t \<and>
     t_views t = map cache_view cs \<and> found = t_found t \<and> st = t_stats t)"

lemma broadcast_one_spec:
  assumes rel: "same_transaction k now p r cs0 (b, cs, found, st) t"
    and wf: "wf_constants k" and x: "decode_address k a = (lineSet r, lineTag r)"
    and p: "p < length cs" and i: "i < length cs"
  obtains s' where "broadcast_one k now r (int i) (b, cs, found, st) = Inr s'"
    and "same_transaction k now p r cs0 s'
           (if i = p then t
            else snoop_one k (command r) (lineSet r, lineTag r) (cycleCost r) i t)"
proof (cases "i = p")
  case True
  with rel that [of "(b, cs, found, st)"] show thesis
    by (simp add: broadcast_one_def same_transaction_def)
next
  case False
  let ?x = "(lineSet r, lineTag r)" and ?p = "protocol k"
  have R: "list_all2 kept cs0 cs" "list_all (wf_cache k now) cs" "currentCache b = int p"
    "inUse b" "currentRequest b = Some r" "endCycle b = now + of_c_int (t_delay t)"
    "isShared b = t_shared t" "t_views t = map cache_view cs" "found = t_found t" "st = t_stats t"
    using rel by (simp_all add: same_transaction_def)
  have wfi: "wf_cache k now (cs ! i)"
    using R(2) i by (simp add: list_all_length)
  define res where "res = (case cache_view (cs ! i) ?x of
      None \<Rightarrow> NONE | Some s \<Rightarrow> snoop_reply ?p (command r) s)"
  define st1 where "st1 = (case cache_view (cs ! i) ?x of
      None \<Rightarrow> st | Some s \<Rightarrow> snoop_stats ?p s st)"
  from snoopBusRequest_spec [OF wfi wf x, of st] obtain d where
    d: "snoopBusRequest k now r (cs ! i, st) = Inr (res, d, st1)" "wf_cache k now d"
      "cache_view d = snoop_effect ?p (command r) ?x (cache_view (cs ! i))"
      "d = (cs ! i)\<lparr>localCache := localCache d\<rparr>"
    by (force simp: res_def st1_def split: option.splits)
  let ?cs = "cs[i := d]"
  have req: "?cs ! p = cs ! p" using False by simp
  from answer_table [of k r res b "cs ! p" found st1] obtain n where
    ans: "answer k r res (b, cs ! p, found, st1) =
      (b\<lparr>endCycle := endCycle b + of_c_int (reply_delay k (cycleCost r) found res),
         isShared := isShared b \<or> reply_shared ?p res\<rparr>,
       (cs ! p)\<lparr>jobCycleCost := n\<rparr>, found \<or> reply_found ?p res,
       if reply_memory ?p res then count_memory st1 else st1)" by blast
  let ?b = "b\<lparr>endCycle := endCycle b + of_c_int (reply_delay k (cycleCost r) found res),
         isShared := isShared b \<or> reply_shared ?p res\<rparr>"
  let ?cs' = "?cs[p := (cs ! p)\<lparr>jobCycleCost := n\<rparr>]"
  show thesis
  proof (rule that)
    show "broadcast_one k now r (int i) (b, cs, found, st) =
        Inr (?b, ?cs', found \<or> reply_found ?p res,
             if reply_memory ?p res then count_memory st1 else st1)"
      using False R(3) i p d(1) ans by (simp add: broadcast_one_def cache_at_def)
    have kd: "kept (cs ! i) d" "kept (cs ! p) ((cs ! p)\<lparr>jobCycleCost := n\<rparr>)"
      using kept_sets [OF d(4)] by (simp_all add: kept_def)
    have kept: "list_all2 kept cs0 ?cs'"
      using R(1) i p kd
      by (auto simp: list_all2_conv_all_nth nth_list_update intro: kept_trans)
    have wfs: "list_all (wf_cache k now) ?cs'"
      using R(2) i p d(2) by (auto simp: list_all_length nth_list_update)
    have views: "map cache_view ?cs' = (map cache_view cs)[i := cache_view d]"
      using False p by (auto simp: map_update list_update_swap intro!: nth_equalityI simp: nth_list_update)
    have zero: "reply_shared ?p NONE = False" "reply_memory ?p NONE = False"
      "reply_found ?p NONE = False" "\<And>f. reply_delay k (cycleCost r) f NONE = 0"
      by (simp_all add: reply_shared_def reply_memory_def reply_found_def reply_delay_def
          Let_def split: protocol_kind.split)
    show "same_transaction k now p r cs0
        (?b, ?cs', found \<or> reply_found ?p res,
             if reply_memory ?p res then count_memory st1 else st1)
        (if i = p then t else snoop_one k (command r) ?x (cycleCost r) i t)"
    proof (cases "cache_view (cs ! i) ?x")
      case None
      then have "cache_view d = cache_view (cs ! i)"
        using d(3) by (simp add: snoop_effect_def fun_upd_idem)
      then have "map cache_view ?cs' = map cache_view cs"
        using i by (simp add: views list_update_same_conv)
      then show ?thesis
        using None False kept wfs R i
        by (simp add: same_transaction_def snoop_one_def res_def st1_def zero of_c_int_def)
    next
      case (Some s)
      then show ?thesis
        using False kept wfs R i views d(3)
        by (simp add: same_transaction_def snoop_one_def res_def st1_def Let_def of_c_int_def)
    qed
  qed
qed

lemma broadcast_spec:
  assumes "same_transaction k now p r cs0 s t"
    and wf: "wf_constants k" and x: "decode_address k a = (lineSet r, lineTag r)"
    and p: "p < length cs0" and "\<forall>i \<in> set is. i < length cs0"
  shows "\<exists>s'. broadcast k now r (map int is) s = Inr s' \<and>
    same_transaction k now p r cs0 s'
      (snoop_all k (command r) (lineSet r, lineTag r) (cycleCost r) p is t)"
  using assms(1,5)
proof (induction "is" arbitrary: s t)
  case Nil
  then show ?case by simp
next
  case (Cons i "is")
  obtain b cs found st where s: "s = (b, cs, found, st)"
    by (cases s)
  have len: "length cs = length cs0"
    using Cons.prems(1) by (auto simp: s same_transaction_def dest: list_all2_lengthD)
  obtain s1 where s1: "broadcast_one k now r (int i) s = Inr s1"
    "same_transaction k now p r cs0 s1
       (if i = p then t else snoop_one k (command r) (lineSet r, lineTag r) (cycleCost r) i t)"
    unfolding s
    by (rule broadcast_one_spec [OF Cons.prems(1) [unfolded s] wf x, of i])
      (use p Cons.prems(2) len in auto)
  with Cons.IH [OF s1(2)] Cons.prems(2) show ?case by simp
qed

section \<open>The ticks of the caches\<close>

text \<open>A cache that is waiting for work.\<close>

definition quiet :: "cache \<Rightarrow> bool" where
  "quiet c \<longleftrightarrow>
     \<not> busy c \<and> \<not> haveBusRequest c \<and> \<not> busRequestBeingServiced c \<and> pendingJobs c = []"

lemma quiet_kept: "kept c d \<Longrightarrow> quiet d = quiet c"
  by (simp add: quiet_def kept_def)

text \<open>
  A tick that ends the job in service, if its time has come, and starts none.
\<close>

definition expired :: "u64 \<Rightarrow> cache \<Rightarrow> bool" where
  "expired now c \<longleftrightarrow> startServiceCycle c + jobCycleCost c \<le> now"

definition settled :: "constants \<Rightarrow> u64 \<Rightarrow> cache \<Rightarrow> cache" where
  "settled k now c =
     (if expired now c then (updateCurrentJobLineCycle k now c)\<lparr>busy := False\<rparr> else c)"

lemma settled_props:
  shows "cache_view (settled k now c) = cache_view c"
    and "wf_cache k now c \<Longrightarrow> wf_cache k now (settled k now c)"
    and "pendingJobs (settled k now c) = pendingJobs c"
    and "haveBusRequest (settled k now c) = haveBusRequest c"
    and "busRequestBeingServiced (settled k now c) = busRequestBeingServiced c"
    and "currentJob (settled k now c) = currentJob c"
    and "startServiceCycle (settled k now c) = startServiceCycle c"
    and "jobCycleCost (settled k now c) = jobCycleCost c"
    and "busy (settled k now c) \<longleftrightarrow> busy c \<and> \<not> expired now c"
  using updateCurrentJobLineCycle_refreshed [of now c k]
  by (simp_all add: settled_def refreshed_view refreshed_wf refreshed_fields)

lemma cache_tick_alt:
  "cache_tick k now (c, st) =
     (if busRequestBeingServiced c then Inr (c, st)
      else if \<not> busy (settled k now c) \<and> pendingJobs c \<noteq> []
           then handleRequest k now (settled k now c, st)
           else Inr (settled k now c, st))"
  by (simp add: cache_tick_def settled_def expired_def Let_def
      refreshed_fields [OF updateCurrentJobLineCycle_refreshed])

lemma cache_tick_quiet:
  assumes "quiet c" and "wf_cache k now c"
  obtains d where "cache_tick k now (c, st) = Inr (d, st)" and "quiet d"
    and "wf_cache k now d" and "cache_view d = cache_view c"
proof -
  from assms have "cache_tick k now (c, st) = Inr (settled k now c, st)"
    by (simp add: cache_tick_alt quiet_def)
  with that [of "settled k now c"] assms show thesis
    by (simp add: quiet_def settled_props)
qed

text \<open>
  The loop over the caches: when every cache but \<open>p\<close> is quiet, it comes down to the tick of
  \<open>p\<close>.
\<close>

definition quiet_but :: "nat \<Rightarrow> cache list \<Rightarrow> bool" where
  "quiet_but p cs \<longleftrightarrow> (\<forall>q < length cs. q \<noteq> p \<longrightarrow> quiet (cs ! q))"

lemma tick_caches_map_append:
  "tick_caches k now (js @ js') s = andthen (tick_caches k now js s) (tick_caches k now js')"
  by (induction js arbitrary: s) (auto simp: andthen_def split: prod.splits sum.splits)

lemma tick_caches_quiet:
  assumes "\<forall>j \<in> set js. j < length cs \<and> quiet (cs ! j)" and "list_all (wf_cache k now) cs"
  shows "\<exists>cs'. tick_caches k now (map int js) (cs, st) = Inr (cs', st) \<and>
    length cs' = length cs \<and> list_all (wf_cache k now) cs' \<and>
    map cache_view cs' = map cache_view cs \<and>
    (\<forall>q < length cs. quiet (cs ! q) \<longrightarrow> quiet (cs' ! q)) \<and>
    (\<forall>q. q \<notin> set js \<longrightarrow> cs' ! q = cs ! q)"
  using assms
proof (induction js arbitrary: cs)
  case Nil
  then show ?case by simp
next
  case (Cons j js)
  have j: "j < length cs" "quiet (cs ! j)" "wf_cache k now (cs ! j)"
    using Cons.prems by (auto simp: list_all_length)
  obtain d where d: "cache_tick k now (cs ! j, st) = Inr (d, st)" "quiet d"
    "wf_cache k now d" "cache_view d = cache_view (cs ! j)"
    by (rule cache_tick_quiet [OF j(2,3), of st])
  let ?cs = "cs[j := d]"
  have "\<forall>i \<in> set js. i < length ?cs \<and> quiet (?cs ! i)"
    using Cons.prems(1) d(2) by (auto simp: nth_list_update)
  moreover have "list_all (wf_cache k now) ?cs"
    using Cons.prems(2) d(3) by (rule list_all_update)
  ultimately obtain cs' where cs': "tick_caches k now (map int js) (?cs, st) = Inr (cs', st)"
    "length cs' = length ?cs" "list_all (wf_cache k now) cs'"
    "map cache_view cs' = map cache_view ?cs"
    "\<forall>q < length ?cs. quiet (?cs ! q) \<longrightarrow> quiet (cs' ! q)"
    "\<forall>q. q \<notin> set js \<longrightarrow> cs' ! q = ?cs ! q"
    using Cons.IH [of ?cs] by blast
  have "map cache_view ?cs = map cache_view cs"
    using d(4) j(1) by (simp add: map_update list_update_same_conv)
  with cs' d j show ?case
    by (intro exI [of _ cs']) (auto simp: cache_at_def nth_list_update)
qed

lemma processors_split:
  assumes "p < nat (numProcessors k)"
  shows "processors k = map int [0..<p] @ int p # map int [Suc p..<nat (numProcessors k)]"
proof -
  have "[0..<nat (numProcessors k)] = [0..<p] @ p # [Suc p..<nat (numProcessors k)]"
    using assms upt_add_eq_append [of 0 p "nat (numProcessors k) - p"]
    by (simp add: upt_conv_Cons)
  then show ?thesis by (simp add: processors_def)
qed

lemma tick_caches_busy:
  assumes len: "length cs = nat (numProcessors k)" and p: "p < length cs"
    and q: "quiet_but p cs" and wf: "list_all (wf_cache k now) cs"
    and tick: "cache_tick k now (cs ! p, st) = Inr (d, st')" "wf_cache k now d"
  obtains cs' where "tick_caches k now (processors k) (cs, st) = Inr (cs', st')"
    and "length cs' = length cs" and "list_all (wf_cache k now) cs'" and "quiet_but p cs'"
    and "cs' ! p = d" and "map cache_view cs' = (map cache_view cs)[p := cache_view d]"
proof -
  have "\<forall>j \<in> set [0..<p]. j < length cs \<and> quiet (cs ! j)"
    using q p by (auto simp: quiet_but_def)
  from tick_caches_quiet [OF this wf, of st] obtain cs1 where
    cs1: "tick_caches k now (map int [0..<p]) (cs, st) = Inr (cs1, st)"
      "length cs1 = length cs" "list_all (wf_cache k now) cs1"
      "map cache_view cs1 = map cache_view cs"
      "\<forall>q < length cs. quiet (cs ! q) \<longrightarrow> quiet (cs1 ! q)"
      "\<forall>q. q \<notin> set [0..<p] \<longrightarrow> cs1 ! q = cs ! q" by blast
  let ?cs2 = "cs1[p := d]"
  have "\<forall>j \<in> set [Suc p..<length cs]. j < length ?cs2 \<and> quiet (?cs2 ! j)"
    using q cs1(2,5) by (auto simp: quiet_but_def)
  moreover have "list_all (wf_cache k now) ?cs2"
    using cs1(3) tick(2) by (rule list_all_update)
  ultimately obtain cs3 where
    cs3: "tick_caches k now (map int [Suc p..<length cs]) (?cs2, st') = Inr (cs3, st')"
      "length cs3 = length ?cs2" "list_all (wf_cache k now) cs3"
      "map cache_view cs3 = map cache_view ?cs2"
      "\<forall>q < length ?cs2. quiet (?cs2 ! q) \<longrightarrow> quiet (cs3 ! q)"
      "\<forall>q. q \<notin> set [Suc p..<length cs] \<longrightarrow> cs3 ! q = ?cs2 ! q"
    using tick_caches_quiet [of "[Suc p..<length cs]" ?cs2 k now st'] by blast
  show thesis
  proof (rule that [of cs3])
    have "cs1 ! p = cs ! p"
      using cs1(6) by simp
    then show "tick_caches k now (processors k) (cs, st) = Inr (cs3, st')"
      using cs1(1,2) cs3(1) tick(1) p len
      by (simp add: processors_split tick_caches_map_append cache_at_def)
    show "quiet_but p cs3"
      using q cs1(2,5) cs3(2,5) by (auto simp: quiet_but_def nth_list_update)
    show "map cache_view cs3 = (map cache_view cs)[p := cache_view d]"
      using cs3(4) cs1(4) by (simp add: map_update)
  qed (use cs1(2) cs3 p in simp_all)
qed

section \<open>The bus when at most one cache is active\<close>

lemma next_request_none:
  "\<forall>j \<in> set js. j < length cs \<and> \<not> haveBusRequest (cs ! j) \<Longrightarrow>
     next_request cs (map int js @ is) = next_request cs is"
  by (induction js) (auto simp: cache_at_def hasBusRequest_def)

lemma next_request_quiet:
  assumes "quiet_but p cs" and "length cs = nat (numProcessors k)" and "p < length cs"
  shows "next_request cs (processors k) =
           Inr (if haveBusRequest (cs ! p) then Some (int p) else None)"
proof -
  have "\<forall>j \<in> set [0..<p]. j < length cs \<and> \<not> haveBusRequest (cs ! j)"
    "\<forall>j \<in> set [Suc p..<length cs]. j < length cs \<and> \<not> haveBusRequest (cs ! j)"
    using assms(1,3) by (auto simp: quiet_but_def quiet_def)
  then show ?thesis
    using assms next_request_none [of "[Suc p..<length cs]" cs "[]"]
    by (simp add: processors_split next_request_none cache_at_def hasBusRequest_def)
qed

section \<open>Phases of the main loop\<close>

text \<open>The same phase with the cycle of its end instead of its length.\<close>

fun at_time :: "int \<Rightarrow> phase \<Rightarrow> phase" where
  "at_time n Idle = Idle"
| "at_time n (Local p d) = Local p (n + d)"
| "at_time n (On_bus p job sh d) = On_bus p job sh (n + d)"

definition time_fits :: "int \<Rightarrow> bool" where
  "time_fits e \<longleftrightarrow> 0 \<le> e \<and> e < 2 ^ 64"

fun phase_fits :: "int \<Rightarrow> phase \<Rightarrow> bool" where
  "phase_fits n Idle = True"
| "phase_fits n (Local p d) = time_fits (n + d)"
| "phase_fits n (On_bus p job sh d) = time_fits (n + d)"

definition working :: "cache \<Rightarrow> bool \<Rightarrow> bool" where
  "working c on_bus \<longleftrightarrow>
     busy c \<and> haveBusRequest c = on_bus \<and> busRequestBeingServiced c = on_bus \<and> pendingJobs c = []"

definition in_phase :: "constants \<Rightarrow> sim \<Rightarrow> phase \<Rightarrow> bool" where
  "in_phase k s ph \<longleftrightarrow>
     length (caches s) = nat (numProcessors k) \<and>
     list_all (wf_cache k (cycles s)) (caches s) \<and>
     (case ph of
        Idle \<Rightarrow> (\<forall>c \<in> set (caches s). quiet c) \<and> \<not> inUse (bus s) \<and> \<not> isShared (bus s)
      | Local p e \<Rightarrow>
          p < length (caches s) \<and> quiet_but p (caches s) \<and> working (caches s ! p) False \<and>
          startServiceCycle (caches s ! p) + jobCycleCost (caches s ! p) = of_c_int e \<and>
          time_fits e \<and> \<not> inUse (bus s) \<and> \<not> isShared (bus s)
      | On_bus p job sh e \<Rightarrow>
          p < length (caches s) \<and> quiet_but p (caches s) \<and> working (caches s ! p) True \<and>
          currentJob (caches s ! p) = Some job \<and>
          inUse (bus s) \<and> currentCache (bus s) = int p \<and> isShared (bus s) = sh \<and>
          endCycle (bus s) = of_c_int e \<and> time_fits e)"

definition clock_fits :: "sim \<Rightarrow> bool" where
  "clock_fits s \<longleftrightarrow> uint (cycles s) + 2 < 2 ^ 64"

lemma clock_fits_tick:
  assumes "clock_fits s"
  shows "uint (cycles s + 1) = uint (cycles s) + 1" and "cycles s + 1 < ULLONG_MAX"
    and "cycles s \<le> cycles s + 1"
proof -
  show eq: "uint (cycles s + 1) = uint (cycles s) + 1"
    using assms by (simp add: clock_fits_def uint_plus_if_size word_size)
  have "uint ULLONG_MAX = 2 ^ 64 - 1"
    by (simp add: ULLONG_MAX_def unsigned_minus_1_eq_mask mask_eq_exp_minus_1)
  with eq assms show "cycles s + 1 < ULLONG_MAX"
    by (simp add: word_less_def clock_fits_def)
  from eq show "cycles s \<le> cycles s + 1"
    by (simp add: word_le_def)
qed

lemma time_le_iff: "time_fits e \<Longrightarrow> of_c_int e \<le> (w :: u64) \<longleftrightarrow> e \<le> uint w"
  by (simp add: time_fits_def of_c_int_def word_le_def uint_word_of_int)

lemma quiet_but_all: "\<forall>c \<in> set cs. quiet c \<Longrightarrow> quiet_but p cs"
  by (simp add: quiet_but_def)

lemma all_quiet: "quiet_but p cs \<Longrightarrow> p < length cs \<Longrightarrow> quiet (cs ! p) \<Longrightarrow> \<forall>c \<in> set cs. quiet c"
  by (auto simp: quiet_but_def in_set_conv_nth)

lemma noJobs_busy: "p < length cs \<Longrightarrow> busy (cs ! p) \<Longrightarrow> \<not> noJobs cs"
  by (auto simp: noJobs_def list_all_length)

lemma noJobs_quiet: "\<forall>c \<in> set cs. quiet c \<Longrightarrow> noJobs cs"
  by (auto simp: noJobs_def list_all_iff quiet_def)

lemma wf_caches_later:
  "list_all (wf_cache k m) cs \<Longrightarrow> m \<le> n \<Longrightarrow> list_all (wf_cache k n) cs"
  by (auto simp: list_all_iff intro: wf_cache_later)

text \<open>A hit of processor \<open>p\<close> being served.\<close>

lemma main_step_local:
  assumes ph: "in_phase k s (Local p e)" and fits: "clock_fits s"
  obtains s' where "main_step k s = Inr s'"
    and "in_phase k s' (if e \<le> uint (cycles s) + 1 then Idle else Local p e)"
    and "map cache_view (caches s') = map cache_view (caches s)" and "stats s' = stats s"
    and "outstandingRequests s' = outstandingRequests s" and "cycles s' = cycles s + 1"
proof -
  let ?now = "cycles s + 1" and ?c = "caches s ! p"
  have P: "length (caches s) = nat (numProcessors k)" "p < length (caches s)"
    "quiet_but p (caches s)" "working ?c False"
    "startServiceCycle ?c + jobCycleCost ?c = of_c_int e" "time_fits e"
    "\<not> inUse (bus s)" "\<not> isShared (bus s)"
    using ph by (simp_all add: in_phase_def)
  have wf: "list_all (wf_cache k ?now) (caches s)"
    using ph clock_fits_tick(3) [OF fits] by (auto simp: in_phase_def intro: wf_caches_later)
  let ?d = "settled k ?now ?c"
  have exp: "expired ?now ?c \<longleftrightarrow> e \<le> uint (cycles s) + 1"
    using P(5,6) clock_fits_tick(1) [OF fits] by (simp add: expired_def time_le_iff)
  have tick: "cache_tick k ?now (?c, stats s) = Inr (?d, stats s)" "wf_cache k ?now ?d"
    using P(4) wf P(2) by (simp_all add: cache_tick_alt working_def settled_props list_all_length)
  obtain cs' where cs': "tick_caches k ?now (processors k) (caches s, stats s) = Inr (cs', stats s)"
    "length cs' = length (caches s)" "list_all (wf_cache k ?now) cs'" "quiet_but p cs'"
    "cs' ! p = ?d" "map cache_view cs' = (map cache_view (caches s))[p := cache_view ?d]"
    by (rule tick_caches_busy [OF P(1,2,3) wf tick])
  have none: "next_request cs' (processors k) = Inr None"
    using next_request_quiet [OF cs'(4)] cs'(2,5) P(1,2,4)
    by (simp add: settled_props working_def)
  let ?b = "bus s"
  have bus: "bus_tick k ?now (?b, cs', stats s) = Inr (?b\<lparr>inUse := False, isShared := False\<rparr>, cs', stats s)"
    using P(7) none by (simp add: bus_tick_def finish_request_def)
  let ?s' = "s\<lparr>cycles := ?now, caches := cs', stats := stats s,
                bus := ?b\<lparr>inUse := False, isShared := False\<rparr>\<rparr>"
  have step: "main_step k s = Inr ?s'"
    using noJobs_busy [OF P(2)] P(4) cs'(1) bus
    by (simp add: main_step_def schedule_def clock_tick_def working_def)
  show thesis
  proof (rule that [OF step])
    show "in_phase k ?s' (if e \<le> uint (cycles s) + 1 then Idle else Local p e)"
    proof (cases "e \<le> uint (cycles s) + 1")
      case True
      then have "quiet (cs' ! p)"
        using P(4) by (simp add: cs'(5) quiet_def settled_props working_def exp)
      with True show ?thesis
        using all_quiet [OF cs'(4)] cs'(2,3) P(1,2) by (simp add: in_phase_def)
    next
      case False
      then show ?thesis
        using P cs'(2-5) by (simp add: in_phase_def working_def settled_props exp)
    qed
    show "map cache_view (caches ?s') = map cache_view (caches s)"
      using cs'(6) P(2) by (simp add: settled_props list_update_same_conv)
  qed simp_all
qed

text \<open>A request of processor \<open>p\<close> in service on the bus.\<close>

lemma main_step_on_bus:
  assumes ph: "in_phase k s (On_bus p job sh e)" and fits: "clock_fits s" and wfk: "wf_constants k"
  obtains (waiting) s' where "uint (cycles s) + 1 < e" and "main_step k s = Inr s'"
    and "in_phase k s' (On_bus p job sh e)"
    and "map cache_view (caches s') = map cache_view (caches s)" and "stats s' = stats s"
    and "outstandingRequests s' = outstandingRequests s" and "cycles s' = cycles s + 1"
  | (completed) s' v where "e \<le> uint (cycles s) + 1" and "main_step k s = Inr s'"
    and "in_phase k s' Idle"
    and "room_made k (caches s ! p) (decode_address k (address job)) v"
    and "(map cache_view (caches s'), stats s') =
           finish_job k (write_back_needed k (caches s ! p) (decode_address k (address job)))
             p job sh v (map cache_view (caches s), stats s)"
    and "outstandingRequests s' = outstandingRequests s" and "cycles s' = cycles s + 1"
proof -
  let ?now = "cycles s + 1" and ?c = "caches s ! p" and ?x = "decode_address k (address job)"
  let ?b = "bus s"
  have P: "length (caches s) = nat (numProcessors k)" "p < length (caches s)"
    "quiet_but p (caches s)" "working ?c True" "currentJob ?c = Some job"
    "inUse ?b" "currentCache ?b = int p" "isShared ?b = sh" "endCycle ?b = of_c_int e" "time_fits e"
    using ph by (simp_all add: in_phase_def)
  have wf: "list_all (wf_cache k ?now) (caches s)"
    using ph clock_fits_tick(3) [OF fits] by (auto simp: in_phase_def intro: wf_caches_later)
  have wfc: "wf_cache k ?now ?c"
    using wf P(2) by (simp add: list_all_length)
  have tick: "cache_tick k ?now (?c, stats s) = Inr (?c, stats s)"
    using P(4) by (simp add: cache_tick_alt working_def)
  obtain cs' where cs': "tick_caches k ?now (processors k) (caches s, stats s) = Inr (cs', stats s)"
    "length cs' = length (caches s)" "list_all (wf_cache k ?now) cs'" "quiet_but p cs'"
    "cs' ! p = ?c" "map cache_view cs' = (map cache_view (caches s))[p := cache_view ?c]"
    by (rule tick_caches_busy [OF P(1,2,3) wf tick wfc])
  have views: "map cache_view cs' = map cache_view (caches s)"
    using cs'(6) P(2) by (simp add: list_update_same_conv)
  have busy: "\<not> noJobs (caches s)"
    using noJobs_busy [OF P(2)] P(4) by (simp add: working_def)
  have le: "endCycle ?b \<le> ?now \<longleftrightarrow> e \<le> uint (cycles s) + 1"
    using P(9,10) clock_fits_tick(1) [OF fits] by (simp add: time_le_iff)
  show thesis
  proof (cases "e \<le> uint (cycles s) + 1")
    case False
    let ?s' = "s\<lparr>cycles := ?now, caches := cs'\<rparr>"
    have step: "main_step k s = Inr ?s'"
      using busy cs'(1) False le P(6)
      by (simp add: main_step_def schedule_def clock_tick_def bus_tick_def finish_request_def)
    show thesis
      by (rule waiting [OF _ step])
        (use False P cs'(2-5) views in \<open>simp_all add: in_phase_def\<close>)
  next
    case True
    obtain d v where d: "busJobDone k ?now sh (?c, stats s) =
        Inr (d, fill_stats k job sh (old_state (cache_view ?c) ?x)
                  (if write_back_needed k ?c ?x then count_evict (stats s) else stats s))"
      "wf_cache k ?now d" "room_made k ?c ?x v"
      "cache_view d = v(?x \<mapsto> fill_state k job sh (old_state (cache_view ?c) ?x))"
      "d = (finished ?c)\<lparr>localCache := localCache d\<rparr>"
      by (rule busJobDone_spec [OF wfc wfk clock_fits_tick(2) [OF fits] P(5) refl, of sh "stats s"])
    let ?st = "fill_stats k job sh (old_state (cache_view ?c) ?x)
                  (if write_back_needed k ?c ?x then count_evict (stats s) else stats s)"
    let ?cs = "cs'[p := d]"
    have quiet: "quiet d"
      using P(4) by (subst d(5)) (simp add: quiet_def working_def finished_def)
    have qb: "quiet_but p ?cs"
      using cs'(4) by (simp add: quiet_but_def)
    have "next_request ?cs (processors k) = Inr None"
      using next_request_quiet [OF qb] quiet cs'(2) P(1,2) by (simp add: quiet_def)
    then have bus: "bus_tick k ?now (?b, cs', stats s) =
        Inr (?b\<lparr>currentCache := -1, inUse := False, isShared := False\<rparr>, ?cs, ?st)"
      using True le P(2,6-8) cs'(2,5) d(1)
      by (simp add: bus_tick_def finish_request_def cache_at_def)
    let ?s' = "s\<lparr>cycles := ?now, caches := ?cs, stats := ?st,
                  bus := ?b\<lparr>currentCache := -1, inUse := False, isShared := False\<rparr>\<rparr>"
    have step: "main_step k s = Inr ?s'"
      using busy cs'(1) bus by (simp add: main_step_def schedule_def clock_tick_def)
    show thesis
    proof (rule completed [OF True step _ d(3)])
      show "in_phase k ?s' Idle"
        using all_quiet [OF qb] quiet cs'(2,3) P(1,2) d(2)
        by (simp add: in_phase_def list_all_update)
      show "(map cache_view (caches ?s'), stats ?s') =
          finish_job k (write_back_needed k ?c ?x) p job sh v (map cache_view (caches s), stats s)"
        using P(2) views d(4) by (simp add: finish_job_def map_update Let_def)
    qed simp_all
  qed
qed

section \<open>The start of a job\<close>

lemma write_back_sets:
  "localCache d = localCache c \<Longrightarrow> write_back_needed k d x = write_back_needed k c x"
  by (simp add: write_back_needed_def case_prod_unfold)

lemma request_cost_action:
  "request_cost k c x act = action_cost k (write_back_needed k c x) act"
  by (simp add: request_cost_def action_cost_def)

lemma settled_refreshed:
  "refreshed now c (if expired now c then updateCurrentJobLineCycle k now c else c)"
  by (simp add: updateCurrentJobLineCycle_refreshed)

lemma settled_write_back:
  assumes "wf_cache k now c" and "nat i < length (localCache c)"
  shows "write_back_needed k (settled k now c) (i, t) = write_back_needed k c (i, t)"
proof -
  have "write_back_needed k (settled k now c) (i, t) =
        write_back_needed k (if expired now c then updateCurrentJobLineCycle k now c else c) (i, t)"
    by (rule write_back_sets) (simp add: settled_def)
  then show ?thesis
    using write_back_refreshed [OF settled_refreshed assms] by simp
qed

text \<open>The tick in which a quiet cache takes the job it was handed.\<close>

lemma tick_takes_job:
  fixes job :: cache_job
  defines "x \<equiv> \<lambda>k. decode_address k (address job)"
  assumes quiet: "quiet c" and wf: "wf_cache k now c" and wfk: "wf_constants k"
    and act: "act = job_action k job (cache_view c)" and wb: "wb = write_back_needed k c (x k)"
  obtains d where
    "cache_tick k now (c\<lparr>pendingJobs := [job]\<rparr>, st) =
       Inr (d, action_stats act (if act = Ask BusRdX \<and> wb then count_flush st else st))"
    and "wf_cache k now d" and "cache_view d = action_view (snd (x k)) act (cache_view c)"
    and "pendingJobs d = []" and "currentJob d = Some job" and "\<not> busRequestBeingServiced d"
    and "busy d \<longleftrightarrow> act \<noteq> Ignore" and "haveBusRequest d \<longleftrightarrow> action_message act \<noteq> None"
    and "\<And>m. action_message act = Some m \<Longrightarrow>
           busRequest d = Some (BusRequest m (fst (x k)) (snd (x k)) (action_cost k wb act) (address job))"
    and "action_message act = None \<Longrightarrow> act \<noteq> Ignore \<Longrightarrow>
           startServiceCycle d = now \<and> jobCycleCost d = of_c_int (cacheHitCycleCost k)"
proof -
  let ?c = "c\<lparr>pendingJobs := [job]\<rparr>"
  let ?e = "(settled k now ?c)\<lparr>currentJob := Some job, pendingJobs := []\<rparr>"
  have fits: "nat (fst (x k)) < length (localCache ?c)"
    using set_at_decoded(2) [OF wfk wf, of "address job"] by (simp add: x_def)
  have wfe: "wf_cache k now ?e" and viewe: "cache_view ?e = cache_view c"
    using wf by (simp_all add: settled_props)
  have "write_back_needed k ?e (x k) = write_back_needed k (settled k now ?c) (x k)"
    by (rule write_back_sets) simp
  also have "\<dots> = write_back_needed k ?c (x k)"
    using settled_write_back [OF _ fits, of k now "snd (x k)"] wf by simp
  also have "\<dots> = wb"
    unfolding wb by (rule write_back_sets) simp
  finally have wbe: "write_back_needed k ?e (x k) = wb" .
  have tick: "cache_tick k now (?c, st) = dispatch_job k now job (?e, st)"
    using quiet by (simp add: cache_tick_alt settled_props quiet_def handleRequest_def)
  obtain d st' where d: "dispatch_job k now job (?e, st) = Inr (d, st')"
    and served: "request_served k now job act (?e, st) (d, st')"
    using dispatch_job_spec [OF wfe wfk, of job st] by (auto simp: settled_props act)
  from served have st': "st' = action_stats act (if act = Ask BusRdX \<and> wb then count_flush st else st)"
    and after: "after_request k now job act (action_cost k wb act) ?e d"
    by (simp_all add: request_served_def wbe [unfolded x_def] request_cost_action Let_def)
  have idle: "\<not> busy ?e" "\<not> haveBusRequest ?e" "\<not> busRequestBeingServiced ?e"
    using quiet by (simp_all add: settled_props quiet_def)
  show thesis
  proof (rule that [of d])
    show "cache_tick k now (?c, st) =
        Inr (d, action_stats act (if act = Ask BusRdX \<and> wb then count_flush st else st))"
      using tick d st' by simp
  qed (use after idle in
      \<open>auto simp: after_request_def viewe x_def case_prod_unfold settled_props action_message_def
         split: option.splits if_splits action.splits\<close>)
qed

text \<open>The bus tick in which the request of \<open>p\<close> is broadcast.\<close>

lemma bus_tick_request:
  fixes job :: cache_job
  defines "x \<equiv> \<lambda>k. decode_address k (address job)"
  assumes len: "length cs = nat (numProcessors k)" and p: "p < length cs"
    and q: "quiet_but p cs" and wf: "list_all (wf_cache k now) cs" and wfk: "wf_constants k"
    and free: "\<not> inUse b" "\<not> isShared b"
    and c: "haveBusRequest (cs ! p)" "currentJob (cs ! p) = Some job"
      "busRequest (cs ! p) = Some (BusRequest m (fst (x k)) (snd (x k)) cost (address job))"
    and t: "t = transact k m (x k) cost p (map cache_view cs) st"
  obtains b' cs' where "bus_tick k now (b, cs, st) = Inr (b', cs', t_stats t)"
    and "length cs' = length cs" and "list_all (wf_cache k now) cs'"
    and "list_all2 kept (cs[p := (cs ! p)\<lparr>startServiceCycle := now, busRequestBeingServiced := True\<rparr>]) cs'"
    and "map cache_view cs' = t_views t"
    and "inUse b'" and "currentCache b' = int p" and "isShared b' = t_shared t"
    and "endCycle b' = now + of_c_int (t_delay t)"
proof -
  let ?r = "BusRequest m (fst (x k)) (snd (x k)) cost (address job)"
  let ?c = "(cs ! p)\<lparr>startServiceCycle := now, busRequestBeingServiced := True\<rparr>"
  let ?cs = "cs[p := ?c]"
  let ?b = "b\<lparr>currentRequest := Some ?r, currentCache := int p, startCycle := now,
              endCycle := now + of_c_int cost, inUse := True\<rparr>"
  let ?init = "\<lparr>t_views = map cache_view cs, t_shared = False, t_found = False, t_delay = cost,
              t_stats = count_bus st\<rparr>"
  let ?t = "snoop_all k m (x k) cost p (others k) ?init"
  have r: "command ?r = m" "lineSet ?r = fst (x k)" "lineTag ?r = snd (x k)" "cycleCost ?r = cost"
    by (simp_all add: BusRequest_def)
  have wfc: "wf_cache k now ?c"
    using wf p by (simp add: list_all_length)
  have "map cache_view ?cs = map cache_view cs"
    using p by (simp add: map_update list_update_same_conv)
  then have rel: "same_transaction k now p ?r ?cs (?b, ?cs, False, count_bus st) ?init"
    using free(2) list_all_update [OF wf wfc]
    by (auto simp: same_transaction_def intro: list_all2_refl)
  have dec: "decode_address k (address job) = (lineSet ?r, lineTag ?r)"
    by (simp add: BusRequest_def x_def)
  have "\<exists>s'. broadcast k now ?r (map int (others k)) (?b, ?cs, False, count_bus st) = Inr s' \<and>
      same_transaction k now p ?r ?cs s'
        (snoop_all k (command ?r) (lineSet ?r, lineTag ?r) (cycleCost ?r) p (others k) ?init)"
    by (rule broadcast_spec [OF rel wfk dec]) (use p len in \<open>auto simp: others_def\<close>)
  then obtain b' cs' found st' where bc:
    "broadcast k now ?r (processors k) (?b, ?cs, False, count_bus st) = Inr (b', cs', found, st')"
    "same_transaction k now p ?r ?cs (b', cs', found, st') ?t"
    by (metis prod_cases4 r prod.collapse processors_def others_def)
  have found: "next_request cs (processors k) = Inr (Some (int p))"
    using next_request_quiet [OF q len p] c(1) by simp
  have req: "getBusRequest now (cs ! p) = Inr (Some ?r, ?c)"
    using c(2,3) by (simp add: getBusRequest_def)
  have tick: "bus_tick k now (b, cs, st) =
      Inr (b', cs', if \<not> found \<and> protocol k = MESI then count_memory st' else st')"
    using free(1) found req bc(1) p
    by (simp add: bus_tick_def finish_request_def start_request_def cache_at_def BusRequest_def)
  have T: "t = (if \<not> t_found ?t \<and> protocol k = MESI
                then ?t\<lparr>t_stats := count_memory (t_stats ?t)\<rparr> else ?t)"
    by (simp add: t transact_def Let_def)
  have B: "list_all2 kept ?cs cs'" "list_all (wf_cache k now) cs'" "currentCache b' = int p"
    "inUse b'" "endCycle b' = now + of_c_int (t_delay ?t)" "isShared b' = t_shared ?t"
    "t_views ?t = map cache_view cs'" "found = t_found ?t" "st' = t_stats ?t"
    using bc(2) by (simp_all add: same_transaction_def)
  have fields: "t_views t = t_views ?t" "t_shared t = t_shared ?t" "t_delay t = t_delay ?t"
    by (simp_all add: T)
  show thesis
  proof (rule that [of b' cs'])
    show "bus_tick k now (b, cs, st) = Inr (b', cs', t_stats t)"
      using tick B(8,9) by (simp add: T)
    show "length cs' = length cs"
      using B(1) by (auto dest: list_all2_lengthD)
  qed (use B fields in simp_all)
qed

lemma of_c_int_later: "of_c_int (uint w + 1 + i) = w + 1 + of_c_int i"
  by (simp add: of_c_int_def)

text \<open>The scheduler hands out a job when every cache is quiet.\<close>

lemma schedule_quiet:
  assumes "\<forall>c \<in> set (caches s). quiet c" and "outstandingRequests s = job # jobs"
    and "0 \<le> threadId job" and "nat (threadId job) < length (caches s)"
  shows "schedule s = Inr (s\<lparr>outstandingRequests := jobs,
           caches := (caches s)[nat (threadId job) :=
                       (caches s ! nat (threadId job))\<lparr>pendingJobs := [job]\<rparr>]\<rparr>)"
proof -
  have "pendingJobs (caches s ! nat (threadId job)) = []"
    using assms(1,4) by (auto simp: quiet_def)
  with assms show ?thesis
    by (simp add: schedule_def noJobs_quiet cache_at_def)
qed

lemma action_cases:
  obtains (ignored) "act = Ignore" | (local) "action_message act = None" "act \<noteq> Ignore"
  | (asks) m where "action_message act = Some m" "act \<noteq> Ignore"
  by (cases act) (auto simp: action_message_def)

lemma main_step_idle:
  assumes ph: "in_phase k s Idle" and fits: "clock_fits s" and wfk: "wf_constants k"
    and out: "outstandingRequests s = job # jobs"
    and tid: "0 \<le> threadId job" "threadId job < numProcessors k"
    and start: "start_job k
        (write_back_needed k (caches s ! nat (threadId job)) (decode_address k (address job)))
        job (map cache_view (caches s), stats s) = (ph', vs, st)"
    and pf: "phase_fits (uint (cycles s) + 1) ph'"
  obtains s' where "main_step k s = Inr s'"
    and "in_phase k s' (at_time (uint (cycles s) + 1) ph')"
    and "map cache_view (caches s') = vs" and "stats s' = st"
    and "outstandingRequests s' = jobs" and "cycles s' = cycles s + 1"
proof -
  let ?now = "cycles s + 1" and ?p = "nat (threadId job)" and ?b = "bus s"
  let ?c = "caches s ! ?p" and ?x = "decode_address k (address job)"
  define wb where "wb = write_back_needed k ?c ?x"
  define act where "act = job_action k job (cache_view ?c)"
  define st1 where "st1 = action_stats act (if act = Ask BusRdX \<and> wb then count_flush (stats s) else stats s)"
  have P: "length (caches s) = nat (numProcessors k)" "\<forall>c \<in> set (caches s). quiet c"
    "\<not> inUse ?b" "\<not> isShared ?b"
    using ph by (simp_all add: in_phase_def)
  have p: "?p < length (caches s)"
    using tid P(1) by simp
  have wf: "list_all (wf_cache k ?now) (caches s)"
    using ph clock_fits_tick(3) [OF fits] by (auto simp: in_phase_def intro: wf_caches_later)
  have wfc: "wf_cache k ?now ?c" and qc: "quiet ?c"
    using wf p P(2) by (simp_all add: list_all_length)
  obtain d where d: "cache_tick k ?now (?c\<lparr>pendingJobs := [job]\<rparr>, stats s) = Inr (d, st1)"
    "wf_cache k ?now d" "cache_view d = action_view (snd ?x) act (cache_view ?c)"
    "pendingJobs d = []" "currentJob d = Some job" "\<not> busRequestBeingServiced d"
    "busy d \<longleftrightarrow> act \<noteq> Ignore" "haveBusRequest d \<longleftrightarrow> action_message act \<noteq> None"
    "\<And>m. action_message act = Some m \<Longrightarrow>
       busRequest d = Some (BusRequest m (fst ?x) (snd ?x) (action_cost k wb act) (address job))"
    "action_message act = None \<Longrightarrow> act \<noteq> Ignore \<Longrightarrow>
       startServiceCycle d = ?now \<and> jobCycleCost d = of_c_int (cacheHitCycleCost k)"
    using tick_takes_job [OF qc wfc wfk act_def wb_def, of "stats s"] unfolding st1_def by blast
  let ?cs = "(caches s)[?p := ?c\<lparr>pendingJobs := [job]\<rparr>]"
  have qb: "quiet_but ?p ?cs" and wfs: "list_all (wf_cache k ?now) ?cs"
    using quiet_but_all [OF P(2)] wfc list_all_update [OF wf] by (simp_all add: quiet_but_def)
  obtain cs' where cs': "tick_caches k ?now (processors k) (?cs, stats s) = Inr (cs', st1)"
    "length cs' = length ?cs" "list_all (wf_cache k ?now) cs'" "quiet_but ?p cs'"
    "cs' ! ?p = d" "map cache_view cs' = (map cache_view ?cs)[?p := cache_view d]"
    by (rule tick_caches_busy [OF _ _ qb wfs, where d = d and st = "stats s"])
      (use P(1) p d(1,2) in auto)
  have views: "map cache_view cs' =
      (map cache_view (caches s))[?p := action_view (snd ?x) act (cache_view ?c)]"
    using cs'(6) d(3) by (simp add: map_update)
  have step: "main_step k s = andthen (bus_tick k ?now (?b, cs', st1)) (\<lambda>(b, cs, st).
      Inr (s\<lparr>cycles := ?now, outstandingRequests := jobs, caches := cs, stats := st, bus := b\<rparr>))"
    using schedule_quiet [of "s\<lparr>cycles := ?now\<rparr>" job jobs] P(2) out tid p cs'(1)
    by (simp add: main_step_def clock_tick_def)
  have nth_p: "map cache_view (caches s) ! ?p = cache_view ?c"
    using p by simp
  have start': "(case action_message act of
          None \<Rightarrow> (if act = Ignore then Idle else Local ?p (cacheHitCycleCost k), map cache_view cs', st1)
        | Some m \<Rightarrow>
            let t = transact k m ?x (action_cost k wb act) ?p (map cache_view cs') st1
            in (On_bus ?p job (t_shared t) (t_delay t), t_views t, t_stats t)) = (ph', vs, st)"
    using start unfolding start_job_def Let_def case_prod_conv nth_p views st1_def act_def wb_def .
  have nextr: "next_request cs' (processors k) = Inr (if haveBusRequest d then Some (int ?p) else None)"
    using next_request_quiet [OF cs'(4)] cs'(2,5) P(1) p by simp
  let ?freed = "?b\<lparr>inUse := False, isShared := False\<rparr>"
  have free: "bus_tick k ?now (?b, cs', st1) = Inr (?freed, cs', st1)" if "\<not> haveBusRequest d"
    using that P(3) nextr by (simp add: bus_tick_def finish_request_def)
  let ?next = "s\<lparr>cycles := ?now, outstandingRequests := jobs, caches := cs', stats := st1, bus := ?freed\<rparr>"
  have step0: "main_step k s = Inr ?next" if "\<not> haveBusRequest d"
    unfolding step free [OF that] by simp
  show thesis
  proof (cases act rule: action_cases)
    case ignored
    then have m: "action_message act = None" by (simp add: action_message_def)
    have "quiet d"
      using d(4,6,7,8) m ignored by (simp add: quiet_def)
    then have "in_phase k ?next Idle"
      using all_quiet [OF cs'(4)] cs'(2,3,5) p P(1) by (simp add: in_phase_def)
    then show thesis
      using d(8) m start' ignored by (intro that [OF step0]) auto
  next
    case local
    then have ph': "ph' = Local ?p (cacheHitCycleCost k)" "vs = map cache_view cs'" "st = st1"
      using start' by auto
    have "in_phase k ?next (Local ?p (uint (cycles s) + 1 + cacheHitCycleCost k))"
      using d(4,6-8) d(10) local cs'(2-5) p P(1) pf clock_fits_tick(1) [OF fits]
      by (auto simp: in_phase_def working_def ph' of_c_int_later)
    then show thesis
      using d(8) local ph' by (intro that [OF step0]) auto
  next
    case (asks m)
    define t where "t = transact k m ?x (action_cost k wb act) ?p (map cache_view cs') st1"
    have ph': "ph' = On_bus ?p job (t_shared t) (t_delay t)" "vs = t_views t" "st = t_stats t"
      using start' asks(1) by (simp_all add: t_def Let_def)
    obtain b' cs2 where bus: "bus_tick k ?now (?b, cs', st1) = Inr (b', cs2, t_stats t)"
      "length cs2 = length cs'" "list_all (wf_cache k ?now) cs2"
      "list_all2 kept (cs'[?p := d\<lparr>startServiceCycle := ?now, busRequestBeingServiced := True\<rparr>]) cs2"
      "map cache_view cs2 = t_views t"
      "inUse b'" "currentCache b' = int ?p" "isShared b' = t_shared t"
      "endCycle b' = ?now + of_c_int (t_delay t)"
      by (rule bus_tick_request [OF _ _ cs'(4,3) wfk P(3,4), of job m "action_cost k wb act" t st1])
        (use cs'(2,5) p P(1) d(5,8) d(9) [OF asks(1)] asks(1) in \<open>auto simp: t_def\<close>)
    have kept: "kept (d\<lparr>startServiceCycle := ?now, busRequestBeingServiced := True\<rparr>) (cs2 ! ?p)"
      using bus(4) cs'(2) p by (auto simp: list_all2_conv_all_nth dest: spec [of _ ?p])
    have "quiet (cs2 ! q)" if "q < length cs2" "q \<noteq> ?p" for q
      using that cs'(4) bus(2,4) quiet_kept [of "cs' ! q" "cs2 ! q"]
      by (auto simp: list_all2_conv_all_nth quiet_but_def)
    then have q2: "quiet_but ?p cs2"
      by (simp add: quiet_but_def)
    let ?s = "s\<lparr>cycles := ?now, outstandingRequests := jobs, caches := cs2, stats := t_stats t, bus := b'\<rparr>"
    have "in_phase k ?s (On_bus ?p job (t_shared t) (uint (cycles s) + 1 + t_delay t))"
      using kept d(4,5,7,8) asks bus cs'(2) q2 p P(1) pf
      by (auto simp: in_phase_def working_def kept_def ph' of_c_int_later)
    then show thesis
      using step bus(1,5) ph' by (intro that [of ?s]) auto
  qed
qed

text \<open>The simulation starts in the phase in which nothing happens.\<close>

lemma initial_in_phase:
  assumes "wf_constants k"
  shows "in_phase k (initial_sim k jobs) Idle"
  using assms
  by (auto simp: in_phase_def initial_sim_def processors_def AtomicBusManager_def quiet_def
      new_cache_def wf_cache_def list_all_iff wf_set_def used_by_def tags_of_def
      empty_set_of_lines_def wf_constants_def)

end
