(* ===== verification/Machine.thy ===== *)
theory Machine
  imports Atomic Activity
begin

text \<open>
  The abstract machine with replacement: the views of the caches, the statistics, the clock,
  the jobs to come and the phase, changed by a step relation that leaves open only which
  line of a full set is replaced. The main loop of the code implements it step by step.
\<close>

section \<open>What a request on the bus does\<close>

lemma snoop_one_views:
  "t_views (snoop_one k m x cost i t) =
     (t_views t)[i := snoop_effect (protocol k) m x (t_views t ! i)]"
  by (cases "(t_views t ! i) x")
    (simp_all add: snoop_one_def snoop_effect_def Let_def fun_upd_idem)

lemma snoop_one_elsewhere:
  "j \<noteq> i \<Longrightarrow> t_views (snoop_one k m x cost i t) ! j = t_views t ! j"
  by (simp add: snoop_one_views)

lemma snoop_one_shared:
  "t_shared (snoop_one k m x cost i t) \<longleftrightarrow> t_shared t \<or>
     (\<exists>s. (t_views t ! i) x = Some s \<and>
          reply_shared (protocol k) (snoop_reply (protocol k) m s))"
  by (auto simp: snoop_one_def Let_def split: option.splits)

lemma snoop_all_views:
  assumes "distinct is"
  shows "t_views (snoop_all k m x cost p is t) =
     map (\<lambda>i. if i \<in> set is \<and> i \<noteq> p then snoop_effect (protocol k) m x (t_views t ! i)
              else t_views t ! i) [0..<length (t_views t)]"
  using assms
proof (induction "is" arbitrary: t)
  case Nil
  then show ?case by (simp add: map_nth)
next
  case (Cons i "is")
  show ?case
  proof (rule nth_equalityI)
    fix j
    assume "j < length (t_views (snoop_all k m x cost p (i # is) t))"
    with Cons show "t_views (snoop_all k m x cost p (i # is) t) ! j =
        map (\<lambda>j. if j \<in> set (i # is) \<and> j \<noteq> p
                 then snoop_effect (protocol k) m x (t_views t ! j)
                 else t_views t ! j) [0..<length (t_views t)] ! j"
      by (cases "j = i") (auto simp: snoop_one_views)
  qed (use Cons in \<open>simp add: snoop_one_views\<close>)
qed

lemma snoop_all_shared:
  assumes "distinct is"
  shows "t_shared (snoop_all k m x cost p is t) \<longleftrightarrow> t_shared t \<or>
     (\<exists>i \<in> set is. i \<noteq> p \<and> (\<exists>s. (t_views t ! i) x = Some s \<and>
          reply_shared (protocol k) (snoop_reply (protocol k) m s)))"
  using assms
proof (induction "is" arbitrary: t)
  case Nil
  then show ?case by simp
next
  case (Cons i "is")
  have "t_views (if i = p then t else snoop_one k m x cost i t) ! j = t_views t ! j"
    if "j \<in> set is" for j
    using that Cons.prems by (cases "j = i") (auto simp: snoop_one_elsewhere)
  with Cons show ?case
    by (auto simp: snoop_one_shared)
qed

lemma transact_views:
  assumes "length vs = nat (numProcessors k)"
  shows "t_views (transact k m x cost p vs st) =
     map (\<lambda>i. if i \<noteq> p then snoop_effect (protocol k) m x (vs ! i) else vs ! i) [0..<length vs]"
proof -
  have "distinct (others k)" by (simp add: others_def)
  then show ?thesis
    using assms by (simp add: transact_def Let_def snoop_all_views others_def)
qed

lemma transact_shared:
  assumes "length vs = nat (numProcessors k)"
  shows "t_shared (transact k m x cost p vs st) \<longleftrightarrow>
     (\<exists>i < length vs. i \<noteq> p \<and> (\<exists>s. (vs ! i) x = Some s \<and>
          reply_shared (protocol k) (snoop_reply (protocol k) m s)))"
proof -
  have "distinct (others k)" by (simp add: others_def)
  then show ?thesis
    using assms by (auto simp: transact_def Let_def snoop_all_shared others_def)
qed

section \<open>How long a request takes\<close>

lemma reply_delay_upper:
  assumes "wf_constants k"
  shows "reply_delay k cost found r \<le> memoryResponseCycleCost k"
  using assms by (auto simp: reply_delay_def wf_constants_def Let_def split: protocol_kind.split)

lemma snoop_one_delay_upper:
  assumes "wf_constants k"
  shows "t_delay (snoop_one k m x cost i t) \<le> t_delay t + memoryResponseCycleCost k"
  using reply_delay_upper [OF assms] assms
  by (auto simp: snoop_one_def wf_constants_def Let_def split: option.split)

lemma snoop_all_delay_upper:
  assumes wf: "wf_constants k"
  shows "t_delay (snoop_all k m x cost p is t) \<le>
           t_delay t + int (length is) * memoryResponseCycleCost k"
proof (induction "is" arbitrary: t)
  case Nil
  then show ?case by simp
next
  case (Cons i "is")
  let ?t = "if i = p then t else snoop_one k m x cost i t"
  have "0 \<le> memoryResponseCycleCost k"
    using wf by (simp add: wf_constants_def)
  then have "t_delay ?t \<le> t_delay t + memoryResponseCycleCost k"
    using snoop_one_delay_upper [OF wf] by simp
  with Cons.IH [of ?t] show ?case
    by (simp add: algebra_simps)
qed

text \<open>What a request may save: the first sharer in MESI, every owner in MOESI.\<close>

definition is_owner :: "line_state \<Rightarrow> bool" where
  "is_owner s \<longleftrightarrow> s = modified \<or> s = exclusive \<or> s = owned"

definition savers :: "protocol_kind \<Rightarrow> int \<times> int \<Rightarrow> nat \<Rightarrow> nat list \<Rightarrow> transaction \<Rightarrow> nat" where
  "savers P x p is t =
     (case P of
        MSI \<Rightarrow> 0
      | MESI \<Rightarrow> if t_found t then 0 else 1
      | MOESI \<Rightarrow> length (filter (\<lambda>i. i \<noteq> p \<and> (\<exists>s. (t_views t ! i) x = Some s \<and> is_owner s)) is))"

lemma reply_delay_lower:
  assumes "wf_constants k"
  shows "- (if reply_found (protocol k) r \<and> \<not> found \<or> protocol k = MOESI \<and> reply_shared MOESI r
            then memoryResponseCycleCost k - cacheResponseCycleCost k else 0)
           \<le> reply_delay k cost found r"
  using assms
  by (cases "protocol k")
    (auto simp: reply_delay_def reply_found_def wf_constants_def Let_def reply_memory_def)

lemma MOESI_reply_shared: "reply_shared MOESI (snoop_reply MOESI m s) \<longleftrightarrow> is_owner s"
  by (cases s) (simp_all add: reply_shared_def is_owner_def)

lemma snoop_all_delay_lower:
  assumes wf: "wf_constants k" and "distinct is"
  shows "t_delay t - int (savers (protocol k) x p is t)
             * (memoryResponseCycleCost k - cacheResponseCycleCost k)
           \<le> t_delay (snoop_all k m x cost p is t)"
  using assms(2)
proof (induction "is" arbitrary: t)
  case Nil
  show ?case
    using wf by (simp add: savers_def wf_constants_def split: protocol_kind.split)
next
  case (Cons i "is")
  let ?saved = "memoryResponseCycleCost k - cacheResponseCycleCost k"
  have saved: "0 \<le> ?saved" using wf by (simp add: wf_constants_def)
  let ?t = "if i = p then t else snoop_one k m x cost i t"
  have same: "t_views ?t ! j = t_views t ! j" if "j \<in> set is" for j
    using that Cons.prems by (cases "j = i") (auto simp: snoop_one_elsewhere)
  have filters: "filter (\<lambda>i. i \<noteq> p \<and> (\<exists>s. (t_views ?t ! i) x = Some s \<and> is_owner s)) is =
      filter (\<lambda>i. i \<noteq> p \<and> (\<exists>s. (t_views t ! i) x = Some s \<and> is_owner s)) is"
    using same by (intro filter_cong) auto
  have "t_delay t - int (savers (protocol k) x p (i # is) t) * ?saved
      \<le> t_delay ?t - int (savers (protocol k) x p is ?t) * ?saved"
  proof (cases "i = p \<or> (t_views t ! i) x = None")
    case True
    then have "?t = t" by (auto simp: snoop_one_def)
    with True show ?thesis
      by (auto simp: savers_def split: protocol_kind.split)
  next
    case False
    then obtain s where s: "(t_views t ! i) x = Some s" "i \<noteq> p" by auto
    let ?r = "snoop_reply (protocol k) m s"
    let ?t' = "snoop_one k m x cost i t"
    have t: "?t = ?t'" "t_delay ?t' = t_delay t + reply_delay k cost (t_found t) ?r"
      "t_found ?t' \<longleftrightarrow> t_found t \<or> reply_found (protocol k) ?r"
      using s by (simp_all add: snoop_one_def Let_def)
    note lower = reply_delay_lower [OF wf, of ?r "t_found t" cost]
    show ?thesis
    proof (cases "protocol k")
      case MSI
      then show ?thesis
        using lower unfolding t by (simp add: savers_def reply_found_def)
    next
      case MESI
      then show ?thesis
        using lower saved unfolding t by (auto simp: savers_def t(2,3) simp del: snoop_reply.simps)
    next
      case MOESI
      then have "reply_shared MOESI ?r \<longleftrightarrow> is_owner s"
        by (simp only: MOESI_reply_shared)
      with MOESI show ?thesis
        using lower s saved filters unfolding t
        by (auto simp: savers_def reply_found_def algebra_simps simp del: snoop_reply.simps)
    qed
  qed
  with Cons.IH [of ?t] Cons.prems show ?case by simp
qed

section \<open>Actions of the processor\<close>

lemma action_message_SomeD:
  "action_message act = Some m \<Longrightarrow> act = Ask m \<or> act = Owner_upgrade \<and> m = BusRdX"
  by (auto simp: action_message_def split: action.splits)

lemma Owner_upgrade_MOESI: "job_action k job v = Owner_upgrade \<Longrightarrow> protocol k = MOESI"
  by (auto simp: job_action_def write_action_def read_action_def Let_def
      split: if_splits protocol_kind.splits)

text \<open>A processor asks for a line to write it with BusRdX, and to read it with BusRd.\<close>

lemma job_action_write:
  "action_message (job_action k job v) = Some BusRdX \<longleftrightarrow>
     isWrite job \<and> job_action k job v \<noteq> Hit \<and> job_action k job v \<noteq> Silent_upgrade"
  by (auto simp: job_action_def write_action_def read_action_def action_message_def Let_def
      split: if_splits protocol_kind.splits)

lemma job_action_read:
  "action_message (job_action k job v) = Some BusRd \<Longrightarrow> \<not> isWrite job \<and> isRead job"
  by (auto simp: job_action_def write_action_def read_action_def action_message_def Let_def
      split: if_splits protocol_kind.splits)

lemma job_action_upgrade:
  assumes "job_action k job v = Silent_upgrade \<or> job_action k job v = Owner_upgrade"
  shows "isWrite job"
    and "write_action (protocol k) (tag_in k v (snd (decode_address k (address job)))) = job_action k job v"
  using assms
  by (auto simp: job_action_def read_action_def Let_def split: if_splits)

section \<open>The machine\<close>

text \<open>The lines of one set of a cache, and when they leave no room for another.\<close>

definition set_full :: "constants \<Rightarrow> view \<Rightarrow> int \<Rightarrow> bool" where
  "set_full k v i \<longleftrightarrow> int (card {t. v (i, t) \<noteq> None}) = numLinesInSet k"

text \<open>
  Making room for the line \<open>x\<close>: nothing goes when the line is present or its set is not
  full, otherwise one line of the set goes.
\<close>

definition must_replace :: "constants \<Rightarrow> view \<Rightarrow> int \<times> int \<Rightarrow> bool" where
  "must_replace k v x \<longleftrightarrow> v x = None \<and> set_full k v (fst x)"

definition room_for :: "constants \<Rightarrow> view \<Rightarrow> int \<times> int \<Rightarrow> view \<Rightarrow> bool" where
  "room_for k v x w \<longleftrightarrow>
     (if must_replace k v x then \<exists>t. v (fst x, t) \<noteq> None \<and> w = v((fst x, t) := None)
      else w = v)"

record machine =
  m_phase :: phase
  m_views :: "view list"
  m_stats :: cache_stats
  m_jobs :: "cache_job list"
  m_clock :: int

inductive machine_step :: "constants \<Rightarrow> machine \<Rightarrow> machine \<Rightarrow> bool" for k where
  start:
    "start_job k wb job (vs, st) = (ph, vs', st') \<Longrightarrow>
     wb \<longrightarrow> must_replace k (vs ! nat (threadId job)) (decode_address k (address job)) \<Longrightarrow>
     machine_step k
       \<lparr>m_phase = Idle, m_views = vs, m_stats = st, m_jobs = job # jobs, m_clock = n\<rparr>
       \<lparr>m_phase = at_time (n + 1) ph, m_views = vs', m_stats = st', m_jobs = jobs, m_clock = n + 1\<rparr>"
| serve:
    "machine_step k
       \<lparr>m_phase = Local p e, m_views = vs, m_stats = st, m_jobs = jobs, m_clock = n\<rparr>
       \<lparr>m_phase = (if e \<le> n + 1 then Idle else Local p e), m_views = vs, m_stats = st,
        m_jobs = jobs, m_clock = n + 1\<rparr>"
| wait:
    "n + 1 < e \<Longrightarrow>
     machine_step k
       \<lparr>m_phase = On_bus p job sh e, m_views = vs, m_stats = st, m_jobs = jobs, m_clock = n\<rparr>
       \<lparr>m_phase = On_bus p job sh e, m_views = vs, m_stats = st, m_jobs = jobs, m_clock = n + 1\<rparr>"
| finish:
    "e \<le> n + 1 \<Longrightarrow>
     room_for k (vs ! p) (decode_address k (address job)) v \<Longrightarrow>
     wb \<longrightarrow> must_replace k (vs ! p) (decode_address k (address job)) \<Longrightarrow>
     (vs', st') = finish_job k wb p job sh v (vs, st) \<Longrightarrow>
     machine_step k
       \<lparr>m_phase = On_bus p job sh e, m_views = vs, m_stats = st, m_jobs = jobs, m_clock = n\<rparr>
       \<lparr>m_phase = Idle, m_views = vs', m_stats = st', m_jobs = jobs, m_clock = n + 1\<rparr>"

inductive_cases machine_stepE: "machine_step k m m'"

definition machine_start :: "constants \<Rightarrow> cache_job list \<Rightarrow> machine" where
  "machine_start k jobs =
     \<lparr>m_phase = Idle, m_views = fst (fst (abs_initial k)), m_stats = snd (fst (abs_initial k)),
      m_jobs = jobs, m_clock = 0\<rparr>"

end
