(* ===== verification/Coherence.thy ===== *)
theory Coherence
  imports Machine
begin

text \<open>
  Coherence, once for all protocols: a locale states what a protocol table must satisfy for
  a relation between the copies of a line to hold at every step, and is interpreted on the
  tables of MSI, MESI and MOESI that the handlers of the code were proved to follow.
\<close>

section \<open>The invariant\<close>

definition compatible :: "(line_state \<Rightarrow> line_state \<Rightarrow> bool) \<Rightarrow> view list \<Rightarrow> bool" where
  "compatible agree vs \<longleftrightarrow>
     (\<forall>p < length vs. \<forall>q < length vs. p \<noteq> q \<longrightarrow>
        (\<forall>x s s'. (vs ! p) x = Some s \<longrightarrow> (vs ! q) x = Some s' \<longrightarrow> agree s s'))"

definition all_legal :: "(line_state \<Rightarrow> bool) \<Rightarrow> view list \<Rightarrow> bool" where
  "all_legal legal vs \<longleftrightarrow> (\<forall>v \<in> set vs. \<forall>x s. v x = Some s \<longrightarrow> legal s)"

definition within :: "(int \<times> int) set \<Rightarrow> view list \<Rightarrow> bool" where
  "within X vs \<longleftrightarrow> (\<forall>v \<in> set vs. dom v \<subseteq> X)"

lemma compatibleD:
  "compatible agree vs \<Longrightarrow> p < length vs \<Longrightarrow> q < length vs \<Longrightarrow> p \<noteq> q \<Longrightarrow>
     (vs ! p) x = Some s \<Longrightarrow> (vs ! q) x = Some s' \<Longrightarrow> agree s s'"
  unfolding compatible_def by blast

lemma compatibleI:
  "(\<And>p q x s s'. p < length vs \<Longrightarrow> q < length vs \<Longrightarrow> p \<noteq> q \<Longrightarrow>
     (vs ! p) x = Some s \<Longrightarrow> (vs ! q) x = Some s' \<Longrightarrow> agree s s') \<Longrightarrow> compatible agree vs"
  unfolding compatible_def by blast

lemma all_legalD:
  "all_legal legal vs \<Longrightarrow> p < length vs \<Longrightarrow> (vs ! p) x = Some s \<Longrightarrow> legal s"
  unfolding all_legal_def using nth_mem by blast

lemma all_legalI:
  "(\<And>p x s. p < length vs \<Longrightarrow> (vs ! p) x = Some s \<Longrightarrow> legal s) \<Longrightarrow> all_legal legal vs"
  unfolding all_legal_def by (metis in_set_conv_nth)

lemma all_legal_update:
  "all_legal legal vs \<Longrightarrow> (\<And>x s. v x = Some s \<Longrightarrow> legal s) \<Longrightarrow> all_legal legal (vs[p := v])"
  unfolding all_legal_def using set_update_subset_insert [of vs p v] by blast

lemma withinD: "within X vs \<Longrightarrow> p < length vs \<Longrightarrow> dom (vs ! p) \<subseteq> X"
  by (simp add: within_def)

lemma withinI: "(\<And>p. p < length vs \<Longrightarrow> dom (vs ! p) \<subseteq> X) \<Longrightarrow> within X vs"
  unfolding within_def by (metis in_set_conv_nth)

lemma within_update: "within X vs \<Longrightarrow> dom v \<subseteq> X \<Longrightarrow> within X (vs[p := v])"
  unfolding within_def using set_update_subset_insert [of vs p v] by blast

lemma dom_snoop_effect [simp]: "dom (snoop_effect P m x v) = dom v"
  by (auto simp: snoop_effect_def)

text \<open>The other copies are ready for the line that the request in service will bring.\<close>

definition others_ready ::
    "(line_state \<Rightarrow> line_state \<Rightarrow> bool) \<Rightarrow> constants \<Rightarrow> nat \<Rightarrow> cache_job \<Rightarrow> bool \<Rightarrow> view list \<Rightarrow> bool" where
  "others_ready agree k p job sh vs \<longleftrightarrow>
     (\<forall>q < length vs. q \<noteq> p \<longrightarrow>
        (\<forall>s. (vs ! q) (decode_address k (address job)) = Some s \<longrightarrow>
             agree (fill_state k job sh invalid) s))"

fun phase_ready ::
    "(line_state \<Rightarrow> line_state \<Rightarrow> bool) \<Rightarrow> constants \<Rightarrow> (int \<times> int) set \<Rightarrow> phase \<Rightarrow> view list \<Rightarrow> bool" where
  "phase_ready agree k X (On_bus p job sh e) vs \<longleftrightarrow>
     p < length vs \<and> (isWrite job \<or> isRead job) \<and> decode_address k (address job) \<in> X \<and>
     others_ready agree k p job sh vs"
| "phase_ready agree k X _ vs \<longleftrightarrow> True"

definition coherent_machine ::
    "(line_state \<Rightarrow> line_state \<Rightarrow> bool) \<Rightarrow> (line_state \<Rightarrow> bool) \<Rightarrow> constants \<Rightarrow>
     (int \<times> int) set \<Rightarrow> machine \<Rightarrow> bool" where
  "coherent_machine agree legal k X m \<longleftrightarrow>
     length (m_views m) = nat (numProcessors k) \<and>
     compatible agree (m_views m) \<and> all_legal legal (m_views m) \<and> within X (m_views m) \<and>
     phase_ready agree k X (m_phase m) (m_views m) \<and>
     (\<forall>job \<in> set (m_jobs m). decode_address k (address job) \<in> X \<and>
        0 \<le> threadId job \<and> threadId job < numProcessors k)"

text \<open>No two lines of the trace have the same tag in different sets.\<close>

definition tags_separate :: "(int \<times> int) set \<Rightarrow> bool" where
  "tags_separate X \<longleftrightarrow> (\<forall>(i, t) \<in> X. \<forall>(j, t') \<in> X. t = t' \<longrightarrow> i = j)"

definition in_sets :: "constants \<Rightarrow> (int \<times> int) set \<Rightarrow> bool" where
  "in_sets k X \<longleftrightarrow> (\<forall>(i, t) \<in> X. 0 \<le> i \<and> i < numSets k)"

text \<open>What the lookup of a tag may find: one state only, where the protocol needs it.\<close>

definition lookup_ok :: "bool \<Rightarrow> (line_state \<Rightarrow> bool) \<Rightarrow> bool" where
  "lookup_ok strict has \<longleftrightarrow> (strict \<longrightarrow> (\<forall>s s'. has s \<longrightarrow> has s' \<longrightarrow> s = s'))"

definition read_state :: "protocol_kind \<Rightarrow> bool \<Rightarrow> line_state" where
  "read_state P sh = (case P of MSI \<Rightarrow> shared | _ \<Rightarrow> if sh then shared else exclusive)"

lemma fill_state_cases:
  "isWrite job \<Longrightarrow> fill_state k job sh s = modified"
  "\<not> isWrite job \<Longrightarrow> isRead job \<Longrightarrow> fill_state k job sh s = read_state (protocol k) sh"
  by (simp_all add: fill_state_def read_state_def)

lemma tag_in_found: "0 \<le> i \<Longrightarrow> i < numSets k \<Longrightarrow> v (i, t) = Some s \<Longrightarrow> tag_in k v t s"
  by (force simp: tag_in_def list_ex_iff)

lemma tag_in_lookup_ok:
  assumes "dom v \<subseteq> X" and "strict \<longrightarrow> tags_separate X"
  shows "lookup_ok strict (tag_in k v t)"
proof -
  have "s = s'" if sep: "tags_separate X" and "tag_in k v t s" "tag_in k v t s'" for s s'
  proof -
    from that(2,3) obtain i j where ij: "v (i, t) = Some s" "v (j, t) = Some s'"
      by (auto simp: tag_in_def list_ex_iff)
    with assms(1) have "(i, t) \<in> X" "(j, t) \<in> X" by auto
    with sep have "i = j" by (force simp: tags_separate_def)
    with ij show ?thesis by simp
  qed
  with assms(2) show ?thesis by (auto simp: lookup_ok_def)
qed

section \<open>The interface\<close>

locale coherence =
  fixes P :: protocol_kind
    and strict :: bool
    and agree :: "line_state \<Rightarrow> line_state \<Rightarrow> bool"
    and legal :: "line_state \<Rightarrow> bool"
  assumes agree_sym: "agree s s' \<Longrightarrow> agree s' s"
    and legal_modified: "legal modified"
    and legal_read: "legal (read_state P sh)"
    and snoop_legal: "legal s \<Longrightarrow> legal (snoop_next P m s)"
    and snoop_agree:
      "legal s \<Longrightarrow> legal s' \<Longrightarrow> agree s s' \<Longrightarrow> agree s (snoop_next P m s')"
    and write_agree: "legal s \<Longrightarrow> agree modified (snoop_next P BusRdX s)"
    and read_agree:
      "legal s \<Longrightarrow> sh \<or> \<not> reply_shared P (snoop_reply P BusRd s) \<Longrightarrow>
         agree (read_state P sh) (snoop_next P BusRd s)"
    and upgrade_agree:
      "lookup_ok strict has \<Longrightarrow> write_action P has = Silent_upgrade \<or> write_action P has = Owner_upgrade \<Longrightarrow>
         has s \<Longrightarrow> agree s s' \<Longrightarrow> agree modified s'"
begin

lemma compatible_update:
  assumes "compatible agree vs"
    and "\<And>q x s s'. q < length vs \<Longrightarrow> q \<noteq> p \<Longrightarrow> v x = Some s \<Longrightarrow> (vs ! q) x = Some s' \<Longrightarrow>
           agree s s'"
  shows "compatible agree (vs[p := v])"
proof (rule compatibleI)
  fix i j x s s'
  assume ij: "i < length (vs[p := v])" "j < length (vs[p := v])" "i \<noteq> j"
    and s: "(vs[p := v] ! i) x = Some s" "(vs[p := v] ! j) x = Some s'"
  consider "i \<noteq> p" "j \<noteq> p" | "i = p" "j \<noteq> p" | "i \<noteq> p" "j = p"
    using ij(3) by blast
  then show "agree s s'"
  proof cases
    case 1
    then show ?thesis
      using compatibleD [OF assms(1)] ij s by (metis length_list_update nth_list_update_neq)
  next
    case 2
    then show ?thesis using assms(2) ij s by simp
  next
    case 3
    then show ?thesis using assms(2) [THEN agree_sym] ij s by simp
  qed
qed

lemma upgrade_keeps:
  assumes "compatible agree vs" and "all_legal legal vs" and "within X vs"
    and k: "protocol k = P" and X: "in_sets k X" "strict \<longrightarrow> tags_separate X"
    and p: "p < length vs"
    and act: "act = job_action k job (vs ! p)" and t: "t = snd (decode_address k (address job))"
  shows "compatible agree (vs[p := action_view t act (vs ! p)])"
    and "all_legal legal (vs[p := action_view t act (vs ! p)])"
    and "within X (vs[p := action_view t act (vs ! p)])"
proof -
  let ?v = "vs ! p" and ?v' = "action_view t act (vs ! p)"
  have dom: "dom ?v \<subseteq> X" using withinD [OF assms(3) p] .
  have new: "s = modified \<or> ?v x = Some s" if "?v' x = Some s" for x s
    using that by (auto simp: action_view_def set_tag_def split: if_splits prod.splits)
  have dom': "dom ?v' = dom ?v"
    by (auto simp: action_view_def set_tag_def split: if_splits prod.splits)
  show "all_legal legal (vs[p := ?v'])"
    using new all_legalD [OF assms(2) p] legal_modified by (blast intro: all_legal_update [OF assms(2)])
  show "within X (vs[p := ?v'])"
    using within_update [OF assms(3)] dom dom' by simp
  show "compatible agree (vs[p := ?v'])"
  proof (rule compatible_update [OF assms(1)])
    fix q x s s'
    assume q: "q < length vs" "q \<noteq> p" and s: "?v' x = Some s" "(vs ! q) x = Some s'"
    obtain i u where x: "x = (i, u)" by (cases x)
    show "agree s s'"
    proof (cases "?v x = Some s")
      case True
      with compatibleD [OF assms(1) p q(1)] q s(2) show ?thesis by blast
    next
      case False
      with s(1) have upg: "act = Silent_upgrade \<or> act = Owner_upgrade"
        by (auto simp: action_view_def split: if_splits)
      with s(1) False obtain s0 where s0: "?v x = Some s0" "u = t" "s = modified"
        by (auto simp: action_view_def set_tag_def x split: if_splits)
      have "agree s0 s'"
        using compatibleD [OF assms(1) p q(1)] q(2) s(2) s0(1) by blast
      moreover have "tag_in k ?v t s0"
        using X(1) dom s0 by (intro tag_in_found [of i]) (auto simp: in_sets_def x)
      moreover have "lookup_ok strict (tag_in k ?v t)"
        using tag_in_lookup_ok [OF dom X(2)] .
      moreover have "write_action P (tag_in k ?v t) = act"
        using job_action_upgrade(2) [of k job ?v] upg k by (simp add: act t)
      ultimately show ?thesis
        using upgrade_agree [of "tag_in k ?v t" s0 s'] upg s0(3) by simp
    qed
  qed
qed

lemma transact_keeps:
  assumes comp: "compatible agree vs" and legal: "all_legal legal vs" and "within X vs"
    and k: "protocol k = P" and len: "length vs = nat (numProcessors k)"
  shows "compatible agree (t_views (transact k m x cost p vs st))"
    and "all_legal legal (t_views (transact k m x cost p vs st))"
    and "within X (t_views (transact k m x cost p vs st))"
proof -
  let ?vs = "t_views (transact k m x cost p vs st)"
  have vs: "?vs = map (\<lambda>i. if i \<noteq> p then snoop_effect P m x (vs ! i) else vs ! i) [0..<length vs]"
    by (simp add: transact_views [OF len] k)
  have at: "\<exists>s0. (vs ! i) y = Some s0 \<and> (s = s0 \<or> s = snoop_next P m s0)"
    if "i < length vs" "(?vs ! i) y = Some s" for i y s
    using that by (auto simp: vs snoop_effect_def split: if_splits)
  have L: "legal s" if "i < length vs" "(vs ! i) y = Some s" for i y s
    using all_legalD [OF legal] that .
  show "all_legal legal ?vs"
  proof (rule all_legalI)
    fix i y s
    assume "i < length ?vs" "(?vs ! i) y = Some s"
    moreover from this have "i < length vs" by (simp add: vs)
    ultimately show "legal s" using at L snoop_legal by blast
  qed
  show "within X ?vs"
    using withinD [OF assms(3)] by (intro withinI) (simp add: vs)
  have "agree s s'" if "i < length vs" "j < length vs" "i \<noteq> j" "(?vs ! i) y = Some s"
    "(?vs ! j) y = Some s'" for i j y s s'
  proof -
    note at' = at [OF that(1,4)] at [OF that(2,5)]
    obtain s0 s1 where s0: "(vs ! i) y = Some s0" "s = s0 \<or> s = snoop_next P m s0"
      and s1: "(vs ! j) y = Some s1" "s' = s1 \<or> s' = snoop_next P m s1"
      using at' by blast
    have "agree s0 s1"
      using compatibleD [OF comp that(1-3)] s0(1) s1(1) .
    with L [OF that(1) s0(1)] L [OF that(2) s1(1)] s0(2) s1(2) show ?thesis
      by (metis agree_sym snoop_agree snoop_legal)
  qed
  then show "compatible agree ?vs"
    by (auto simp: vs intro!: compatibleI)
qed

text \<open>After the request, the copies of the others are ready for the line.\<close>

lemma transact_ready:
  assumes "all_legal legal vs" and k: "protocol k = P" and len: "length vs = nat (numProcessors k)"
    and t: "t = transact k m (decode_address k (address job)) cost p vs st"
    and m: "m = BusRdX \<and> isWrite job \<or> m = BusRd \<and> \<not> isWrite job \<and> isRead job"
  shows "others_ready agree k p job (t_shared t) (t_views t)"
proof -
  let ?x = "decode_address k (address job)"
  have vs: "t_views t = map (\<lambda>i. if i \<noteq> p then snoop_effect P m ?x (vs ! i) else vs ! i) [0..<length vs]"
    by (simp add: t transact_views [OF len] k)
  have sh: "t_shared t \<longleftrightarrow> (\<exists>i < length vs. i \<noteq> p \<and> (\<exists>s. (vs ! i) ?x = Some s \<and>
          reply_shared P (snoop_reply P m s)))"
    unfolding t transact_shared [OF len] k ..
  have "agree (fill_state k job (t_shared t) invalid) (snoop_next P m s)"
    if q: "q < length vs" "q \<noteq> p" "(vs ! q) ?x = Some s" for q s
  proof -
    have L: "legal s" using all_legalD [OF assms(1) q(1,3)] .
    from m show ?thesis
    proof
      assume "m = BusRdX \<and> isWrite job"
      then show ?thesis using write_agree [OF L] by (simp add: fill_state_cases)
    next
      assume rd: "m = BusRd \<and> \<not> isWrite job \<and> isRead job"
      moreover have "t_shared t \<or> \<not> reply_shared P (snoop_reply P BusRd s)"
        using rd q unfolding sh by blast
      ultimately show ?thesis using read_agree [OF L] k by (simp add: fill_state_cases)
    qed
  qed
  then show ?thesis
    by (auto simp: others_ready_def vs snoop_effect_def)
qed

text \<open>The start of a job, and the end of a request.\<close>

lemma start_keeps:
  assumes start: "start_job k wb job (vs, st) = (ph, vs', st')"
    and inv: "compatible agree vs" "all_legal legal vs" "within X vs"
    and k: "protocol k = P" and X: "in_sets k X" "strict \<longrightarrow> tags_separate X"
    and len: "length vs = nat (numProcessors k)"
    and p: "nat (threadId job) < length vs" and x: "decode_address k (address job) \<in> X"
  shows "compatible agree vs' \<and> all_legal legal vs' \<and> within X vs' \<and> length vs' = length vs \<and>
    phase_ready agree k X (at_time n ph) vs'"
proof -
  let ?p = "nat (threadId job)" and ?x = "decode_address k (address job)"
  define act where "act = job_action k job (vs ! ?p)"
  let ?vs = "vs[?p := action_view (snd ?x) act (vs ! ?p)]"
  define st1 where "st1 = action_stats act (if act = Ask BusRdX \<and> wb then count_flush st else st)"
  note up = upgrade_keeps [OF inv k X p act_def refl]
  have len': "length ?vs = nat (numProcessors k)" using len by simp
  have S: "(case action_message act of
          None \<Rightarrow> (if act = Ignore then Idle else Local ?p (cacheHitCycleCost k), ?vs, st1)
        | Some m \<Rightarrow>
            let t = transact k m ?x (action_cost k wb act) ?p ?vs st1
            in (On_bus ?p job (t_shared t) (t_delay t), t_views t, t_stats t)) = (ph, vs', st')"
    using start unfolding start_job_def Let_def case_prod_conv act_def st1_def .
  show ?thesis
  proof (cases "action_message act")
    case None
    with S up show ?thesis by (auto split: if_splits)
  next
    case (Some m)
    define t where "t = transact k m ?x (action_cost k wb act) ?p ?vs st1"
    have eq: "ph = On_bus ?p job (t_shared t) (t_delay t)" "vs' = t_views t"
      using S Some by (simp_all add: t_def Let_def)
    have kind: "m = BusRdX \<and> isWrite job \<or> m = BusRd \<and> \<not> isWrite job \<and> isRead job"
      using Some job_action_write [of k job "vs ! ?p"] job_action_read [of k job "vs ! ?p"]
      by (cases m) (simp_all add: act_def)
    have "length vs' = length vs"
      by (simp add: eq t_def transact_views [OF len'])
    moreover note transact_keeps [OF up k len', of m ?x "action_cost k wb act" ?p st1]
      transact_ready [OF up(2) k len' t_def kind]
    ultimately show ?thesis
      using kind p x by (auto simp: eq t_def [symmetric])
  qed
qed

lemma finish_keeps:
  assumes inv: "compatible agree vs" "all_legal legal vs" "within X vs"
    and ready: "phase_ready agree k X (On_bus p job sh e) vs" and k: "protocol k = P"
    and room: "room_for k (vs ! p) (decode_address k (address job)) v"
    and fin: "(vs', st') = finish_job k wb p job sh v (vs, st)"
  shows "compatible agree vs' \<and> all_legal legal vs' \<and> within X vs' \<and> length vs' = length vs"
proof -
  let ?x = "decode_address k (address job)"
  have R: "p < length vs" "isWrite job \<or> isRead job" "?x \<in> X" "others_ready agree k p job sh vs"
    using ready by simp_all
  have fill: "fill_state k job sh s = fill_state k job sh invalid" for s
    using R(2) by (auto simp: fill_state_def)
  let ?f = "fill_state k job sh invalid"
  have vs': "vs' = vs[p := v(?x \<mapsto> ?f)]"
    using fin by (simp add: finish_job_def Let_def fill [of "old_state (vs ! p) ?x"])
  have sub: "v y = Some s \<Longrightarrow> (vs ! p) y = Some s" for y s
    using room by (auto simp: room_for_def split: if_splits)
  have "legal ?f"
    using R(2) k legal_modified legal_read by (cases "isWrite job") (simp_all add: fill_state_cases)
  then have L: "all_legal legal vs'"
    unfolding vs' by (intro all_legal_update [OF inv(2)])
      (auto split: if_splits dest: sub all_legalD [OF inv(2) R(1)])
  have W: "within X vs'"
    unfolding vs' using R(3) sub withinD [OF inv(3) R(1)] by (intro within_update [OF inv(3)]) auto
  have "compatible agree vs'"
    unfolding vs'
  proof (rule compatible_update [OF inv(1)])
    fix q y s s'
    assume q: "q < length vs" "q \<noteq> p" and s: "(v(?x \<mapsto> ?f)) y = Some s" "(vs ! q) y = Some s'"
    show "agree s s'"
    proof (cases "y = ?x")
      case True
      with q s R(4) show ?thesis by (auto simp: others_ready_def)
    next
      case False
      with s(1) have "(vs ! p) y = Some s" by (simp add: sub)
      then show ?thesis
        using compatibleD [OF inv(1) R(1) q(1)] q(2) s(2) by blast
    qed
  qed
  with L W show ?thesis by (simp add: vs')
qed

theorem step_keeps:
  assumes "machine_step k m m'" and inv: "coherent_machine agree legal k X m"
    and k: "protocol k = P" and X: "in_sets k X" "strict \<longrightarrow> tags_separate X"
  shows "coherent_machine agree legal k X m'"
  using assms(1)
proof cases
  case (start wb job vs st ph vs' st' jobs n)
  with inv start_keeps [OF start(3) _ _ _ k X, of "n + 1"] show ?thesis
    by (auto simp: coherent_machine_def)
next
  case (serve p e vs st jobs n)
  with inv show ?thesis by (auto simp: coherent_machine_def)
next
  case (wait n e p job sh vs st jobs)
  with inv show ?thesis by (auto simp: coherent_machine_def)
next
  case (finish e n vs p job v wb vs' st' sh st jobs)
  have "compatible agree vs' \<and> all_legal legal vs' \<and> within X vs' \<and> length vs' = length vs"
    by (rule finish_keeps [OF _ _ _ _ k finish(4,6), where e = e])
      (use inv finish(1) in \<open>simp_all add: coherent_machine_def\<close>)
  with inv finish(1,2) show ?thesis
    by (auto simp: coherent_machine_def)
qed

lemma start_coherent:
  assumes "\<forall>job \<in> set jobs. decode_address k (address job) \<in> X \<and>
        0 \<le> threadId job \<and> threadId job < numProcessors k"
  shows "coherent_machine agree legal k X (machine_start k jobs)"
  using assms
  by (auto simp: coherent_machine_def machine_start_def abs_initial_def compatible_def
      all_legal_def within_def)

end

section \<open>The protocols of the code\<close>

text \<open>MSI: a modified copy is the only one.\<close>

definition MSI_agree :: "line_state \<Rightarrow> line_state \<Rightarrow> bool" where
  "MSI_agree s s' \<longleftrightarrow> (s = modified \<longrightarrow> s' = invalid) \<and> (s' = modified \<longrightarrow> s = invalid)"

definition MSI_legal :: "line_state \<Rightarrow> bool" where
  "MSI_legal s \<longleftrightarrow> s \<in> {invalid, shared, modified}"

interpretation msi: coherence MSI False MSI_agree MSI_legal
proof unfold_locales
  fix s s' m
  assume "MSI_legal s" "MSI_legal s'" "MSI_agree s s'"
  then show "MSI_agree s (snoop_next MSI m s')"
    by (cases m; cases s; cases s') (simp_all add: MSI_agree_def MSI_legal_def)
next
  fix s m assume "MSI_legal s"
  then show "MSI_legal (snoop_next MSI m s)"
    by (cases m) (auto simp: MSI_legal_def)
qed (auto simp: MSI_agree_def MSI_legal_def read_state_def write_action_def split: if_splits)

text \<open>MESI: a modified or exclusive copy is the only one.\<close>

definition MESI_agree :: "line_state \<Rightarrow> line_state \<Rightarrow> bool" where
  "MESI_agree s s' \<longleftrightarrow>
     (s = modified \<or> s = exclusive \<longrightarrow> s' = invalid) \<and>
     (s' = modified \<or> s' = exclusive \<longrightarrow> s = invalid)"

definition MESI_legal :: "line_state \<Rightarrow> bool" where
  "MESI_legal s \<longleftrightarrow> s \<noteq> owned"

interpretation mesi: coherence MESI True MESI_agree MESI_legal
proof unfold_locales
  fix s s' m
  assume "MESI_legal s" "MESI_legal s'" "MESI_agree s s'"
  then show "MESI_agree s (snoop_next MESI m s')"
    by (cases m; cases s; cases s') (simp_all add: MESI_agree_def MESI_legal_def)
next
  fix s m assume "MESI_legal s"
  then show "MESI_legal (snoop_next MESI m s)"
    by (cases m) (auto simp: MESI_legal_def)
next
  fix s sh assume "MESI_legal s" "sh \<or> \<not> reply_shared MESI (snoop_reply MESI BusRd s)"
  then show "MESI_agree (read_state MESI sh) (snoop_next MESI BusRd s)"
    by (cases s) (auto simp: MESI_agree_def MESI_legal_def read_state_def reply_shared_def)
next
  fix "has" :: "line_state \<Rightarrow> bool" and s s'
  assume one: "lookup_ok True has" and s: "has s" "MESI_agree s s'"
    and "write_action MESI has = Silent_upgrade \<or> write_action MESI has = Owner_upgrade"
  then have "has exclusive"
    by (simp add: write_action_def split: if_splits)
  with one s(1) have "s = exclusive"
    unfolding lookup_ok_def by blast
  with s(2) show "MESI_agree modified s'"
    by (simp add: MESI_agree_def)
next
  fix s show "MESI_agree modified (snoop_next MESI BusRdX s)" if "MESI_legal s"
    using that by (cases s) (simp_all add: MESI_agree_def MESI_legal_def)
next
  fix s s' show "MESI_agree s' s" if "MESI_agree s s'"
    using that by (cases s; cases s') (simp_all add: MESI_agree_def)
qed (simp_all add: MESI_legal_def read_state_def)

text \<open>
  Every protocol: at most one copy is modified, exclusive or owned where the bus relies on a
  single owner, which is MOESI.
\<close>

definition owner_agree :: "protocol_kind \<Rightarrow> line_state \<Rightarrow> line_state \<Rightarrow> bool" where
  "owner_agree P s s' \<longleftrightarrow> P = MOESI \<longrightarrow> \<not> (is_owner s \<and> is_owner s')"

definition any_state :: "line_state \<Rightarrow> bool" where
  "any_state s \<longleftrightarrow> True"

interpretation owner: coherence P False "owner_agree P" any_state for P
proof unfold_locales
  fix s s' m
  assume "owner_agree P s s'"
  then show "owner_agree P s (snoop_next P m s')"
    by (cases P; cases m; cases s') (auto simp: owner_agree_def is_owner_def)
next
  fix s
  show "owner_agree P modified (snoop_next P BusRdX s)"
    by (auto simp: owner_agree_def is_owner_def)
next
  fix s sh assume "sh \<or> \<not> reply_shared P (snoop_reply P BusRd s)"
  then show "owner_agree P (read_state P sh) (snoop_next P BusRd s)"
    by (cases P; cases s) (auto simp: owner_agree_def is_owner_def read_state_def reply_shared_def)
next
  fix "has" :: "line_state \<Rightarrow> bool" and s s'
  assume "write_action P has = Silent_upgrade \<or> write_action P has = Owner_upgrade"
    and "has s" "owner_agree P s s'"
  then show "owner_agree P modified s'"
    by (cases s) (auto simp: owner_agree_def is_owner_def write_action_def split: if_splits)
qed (auto simp: owner_agree_def any_state_def)

end
