(* ===== verification/Progress.thy ===== *)
theory Progress
  imports Coherence
begin

text \<open>
  The main loop implements the abstract machine step by step, without an error of the
  model, and ends: each job is served within a bounded number of cycles.
\<close>

section \<open>Replacement, seen from the views\<close>

lemma line_count:
  assumes "wf_set k s"
  shows "card {t. line_at s t \<noteq> None} = length (allLines s)"
proof -
  have "{t. line_at s t \<noteq> None} = set (tags_of s)"
    by (auto simp: line_at_None_iff hasLine_iff)
  with assms show ?thesis
    by (simp add: wf_set_def distinct_card)
qed

lemma decoded_set:
  assumes "wf_cache k now c" and "wf_constants k" and x: "decode_address k a = (i, t)"
  shows "0 \<le> i" and "nat i < length (localCache c)" and "wf_set k (localCache c ! nat i)"
    and "cache_view c (i, t') = line_at (localCache c ! nat i) t'"
    and "set_full k (cache_view c) i \<longleftrightarrow>
           int (length (allLines (localCache c ! nat i))) = numLinesInSet k"
proof -
  show i: "0 \<le> i" "nat i < length (localCache c)"
    using decode_set_range [OF assms(2), of a] set_at_decoded(2) [OF assms(2,1), of a]
    by (simp_all add: x)
  show view: "cache_view c (i, t') = line_at (localCache c ! nat i) t'" for t'
    using i by (simp add: cache_view_def)
  show wf: "wf_set k (localCache c ! nat i)"
    using assms(1) i(2) by (simp add: wf_cache_def)
  show "set_full k (cache_view c) i \<longleftrightarrow>
      int (length (allLines (localCache c ! nat i))) = numLinesInSet k"
    by (simp only: set_full_def view line_count [OF wf])
qed

lemma write_back_must_replace:
  assumes "wf_cache k now c" and "wf_constants k" and "decode_address k a = x"
    and "write_back_needed k c x"
  shows "must_replace k (cache_view c) x"
proof -
  obtain i t where x: "x = (i, t)" by (cases x)
  note D = decoded_set [OF assms(1,2), of a i t, unfolded assms(3), OF x]
  have "\<not> hasLine (localCache c ! nat i) t"
    and full: "isFull k (localCache c ! nat i)"
    using assms(4) by (simp_all add: write_back_needed_def x)
  then have "cache_view c (i, t) = None"
    using D(4) by (simp add: line_at_absent)
  moreover have "int (length (allLines (localCache c ! nat i))) = numLinesInSet k"
    using D(3) full by (auto simp: isFull_def wf_set_def split: if_splits)
  ultimately show ?thesis
    using D(5) by (simp add: must_replace_def x)
qed

lemma room_made_room_for:
  assumes "wf_cache k now c" and "wf_constants k" and "decode_address k a = x"
    and room: "room_made k c x v"
  shows "room_for k (cache_view c) x v"
proof -
  obtain i t where x: "x = (i, t)" by (cases x)
  let ?s = "localCache c ! nat i"
  note D = decoded_set [OF assms(1,2), of a i t, unfolded assms(3), OF x]
  show ?thesis
  proof (cases "cache_view c x = None")
    case False
    with room show ?thesis
      by (auto simp: room_made_def room_for_def must_replace_def x)
  next
    case True
    have rest: "v (j, t') = cache_view c (j, t')" if "j \<noteq> i" for j t'
      using room True that by (simp add: room_made_def x)
    have "makes_room k ?s (\<lambda>t'. v (i, t'))"
      using room True by (simp add: room_made_def x)
    then show ?thesis
      unfolding makes_room_def
    proof
      assume A: "(\<lambda>t'. v (i, t')) = line_at ?s \<and> int (length (allLines ?s)) < numLinesInSet k"
      then have "v (j, t') = cache_view c (j, t')" for j t'
        using rest D(4) by (cases "j = i") (auto dest: fun_cong [of _ _ t'])
      then have "v = cache_view c" by auto
      with A show ?thesis
        using D(5) by (simp add: room_for_def must_replace_def x)
    next
      assume A: "int (length (allLines ?s)) = numLinesInSet k \<and>
        (\<exists>n < length (allLines ?s).
           lru_position ?s = Some n \<and> (\<lambda>t'. v (i, t')) = (line_at ?s)(myTag (allLines ?s ! n) := None))"
      then obtain n where n: "n < length (allLines ?s)"
        "(\<lambda>t'. v (i, t')) = (line_at ?s)(myTag (allLines ?s ! n) := None)" by blast
      let ?u = "myTag (allLines ?s ! n)"
      have "v (j, t') = ((cache_view c)((i, ?u) := None)) (j, t')" for j t'
        using rest D(4) n(2) by (cases "j = i") (auto dest: fun_cong [of _ _ t'])
      then have "v = (cache_view c)((i, ?u) := None)" by auto
      moreover have "cache_view c (i, ?u) \<noteq> None"
        using n(1) by (auto simp: D(4) line_at_None_iff hasLine_iff tags_of_def)
      moreover have "must_replace k (cache_view c) x"
        using A True D(5) by (simp add: must_replace_def x)
      ultimately show ?thesis
        unfolding room_for_def x fst_conv by auto
    qed
  qed
qed

section \<open>How long a job takes\<close>

text \<open>The longest wait: a hit's cost, or two memory accesses and one more for each flush.\<close>

definition service_bound :: "constants \<Rightarrow> int" where
  "service_bound k = cacheHitCycleCost k + (numProcessors k + 2) * memoryResponseCycleCost k"

lemma service_bound_pos: "wf_constants k \<Longrightarrow> 0 \<le> service_bound k"
  by (simp add: service_bound_def wf_constants_def)

lemma action_cost_bounds:
  assumes "wf_constants k"
  shows "0 \<le> action_cost k wb act"
    and "action_cost k wb act \<le> cacheHitCycleCost k + 2 * memoryResponseCycleCost k"
    and "act = Ask m \<Longrightarrow> memoryResponseCycleCost k \<le> action_cost k wb act"
    and "act = Owner_upgrade \<Longrightarrow> action_cost k wb act = cacheHitCycleCost k"
  using assms
  by (auto simp: action_cost_def wf_constants_def split: action.split bus_message.split)

text \<open>In MOESI an upgrade by the owner is not made cheaper by another owner.\<close>

lemma snoop_all_hit_delay:
  assumes "protocol k = MOESI" and "cost = cacheHitCycleCost k"
  shows "t_delay (snoop_all k m x cost p is t) = t_delay t"
proof (induction "is" arbitrary: t)
  case Nil
  then show ?case by simp
next
  case (Cons i "is")
  have "t_delay (snoop_one k m x cost i t) = t_delay t"
    using assms by (auto simp: snoop_one_def reply_delay_def Let_def split: option.split)
  with Cons show ?case by simp
qed

lemma one_saver:
  assumes "distinct is" and "\<forall>i \<in> set is. i < length (t_views t)"
    and "compatible (owner_agree MOESI) (t_views t)"
  shows "savers P x p is t \<le> 1"
proof -
  let ?Q = "\<lambda>i. i \<noteq> p \<and> (\<exists>s. (t_views t ! i) x = Some s \<and> is_owner s)"
  have "i = j" if ij: "i \<in> set is" "?Q i" "j \<in> set is" "?Q j" for i j
  proof (rule ccontr)
    assume "i \<noteq> j"
    from ij obtain s s' where s: "(t_views t ! i) x = Some s" "(t_views t ! j) x = Some s'"
      "is_owner s" "is_owner s'" by blast
    with compatibleD [OF assms(3) _ _ \<open>i \<noteq> j\<close>, of x s s'] assms(2) ij
    show False by (auto simp: owner_agree_def)
  qed
  then have "card (set (filter ?Q is)) \<le> 1"
    by (auto simp: card_le_Suc0_iff_eq)
  moreover have "card (set (filter ?Q is)) = length (filter ?Q is)"
    using assms(1) by (intro distinct_card distinct_filter)
  ultimately show ?thesis
    by (simp add: savers_def split: protocol_kind.split)
qed

lemma transact_delay:
  assumes wf: "wf_constants k" and len: "length vs = nat (numProcessors k)"
    and owner: "compatible (owner_agree (protocol k)) vs"
    and act: "action_message act = Some m" "act = Owner_upgrade \<Longrightarrow> protocol k = MOESI"
    and t: "t = transact k m x (action_cost k wb act) p vs st"
  shows "0 \<le> t_delay t" and "t_delay t \<le> service_bound k"
proof -
  let ?init = "\<lparr>t_views = vs, t_shared = False, t_found = False, t_delay = action_cost k wb act,
                t_stats = count_bus st\<rparr>"
  let ?all = "snoop_all k m x (action_cost k wb act) p (others k) ?init"
  let ?saved = "memoryResponseCycleCost k - cacheResponseCycleCost k"
  have delay: "t_delay t = t_delay ?all"
    by (simp add: t transact_def Let_def)
  have n: "length (others k) = nat (numProcessors k)" "0 < numProcessors k" "distinct (others k)"
    using wf by (simp_all add: others_def wf_constants_def)
  have costs: "0 \<le> cacheResponseCycleCost k" "0 \<le> ?saved" "0 \<le> cacheHitCycleCost k"
    using wf by (simp_all add: wf_constants_def)
  have "t_delay t \<le> action_cost k wb act + numProcessors k * memoryResponseCycleCost k"
    using snoop_all_delay_upper [OF wf, of m x "action_cost k wb act" p "others k" ?init] n
    by (simp add: delay)
  also have "\<dots> \<le> service_bound k"
    using action_cost_bounds(2) [OF wf, of wb act] by (simp add: service_bound_def algebra_simps)
  finally show "t_delay t \<le> service_bound k" .
  show "0 \<le> t_delay t"
  proof (cases "act = Owner_upgrade")
    case True
    then show ?thesis
      using act(2) action_cost_bounds(4) [OF wf] costs(3)
      by (simp add: delay snoop_all_hit_delay)
  next
    case False
    with act(1) have ask: "act = Ask m"
      by (auto dest: action_message_SomeD)
    have "savers (protocol k) x p (others k) ?init \<le> 1"
    proof (cases "protocol k = MOESI")
      case True
      then show ?thesis
        using one_saver [of "others k" ?init] n(3) owner len by (simp add: others_def)
    next
      case False
      then show ?thesis by (simp add: savers_def split: protocol_kind.split)
    qed
    then have "int (savers (protocol k) x p (others k) ?init) * ?saved \<le> ?saved"
      using costs(2) mult_right_mono [of "int (savers (protocol k) x p (others k) ?init)" 1 ?saved]
      by simp
    moreover have "action_cost k wb act - int (savers (protocol k) x p (others k) ?init) * ?saved
        \<le> t_delay t"
      using snoop_all_delay_lower [OF wf n(3), of ?init x p m "action_cost k wb act"]
      by (simp add: delay)
    ultimately show ?thesis
      using action_cost_bounds(3) [OF wf ask, of wb] costs(1) by simp
  qed
qed

fun phase_length :: "phase \<Rightarrow> int" where
  "phase_length Idle = 0"
| "phase_length (Local p d) = d"
| "phase_length (On_bus p job sh d) = d"

lemma start_length:
  assumes start: "start_job k wb job (vs, st) = (ph, vs', st')"
    and wf: "wf_constants k" and len: "length vs = nat (numProcessors k)"
    and owner: "compatible (owner_agree (protocol k)) vs" "within X vs" "in_sets k X"
    and p: "nat (threadId job) < length vs"
  shows "0 \<le> phase_length ph \<and> phase_length ph \<le> service_bound k"
proof -
  let ?p = "nat (threadId job)" and ?x = "decode_address k (address job)"
  define act where "act = job_action k job (vs ! ?p)"
  let ?vs = "vs[?p := action_view (snd ?x) act (vs ! ?p)]"
  define st1 where "st1 = action_stats act (if act = Ask BusRdX \<and> wb then count_flush st else st)"
  have S: "(case action_message act of
          None \<Rightarrow> (if act = Ignore then Idle else Local ?p (cacheHitCycleCost k), ?vs, st1)
        | Some m \<Rightarrow>
            let t = transact k m ?x (action_cost k wb act) ?p ?vs st1
            in (On_bus ?p job (t_shared t) (t_delay t), t_views t, t_stats t)) = (ph, vs', st')"
    using start unfolding start_job_def Let_def case_prod_conv act_def st1_def .
  have any: "all_legal any_state vs"
    by (simp add: all_legal_def any_state_def)
  show ?thesis
  proof (cases "action_message act")
    case None
    with S wf show ?thesis
      by (auto simp: service_bound_def wf_constants_def split: if_splits)
  next
    case (Some m)
    define t where "t = transact k m ?x (action_cost k wb act) ?p ?vs st1"
    have ph: "ph = On_bus ?p job (t_shared t) (t_delay t)"
      using S Some by (simp add: t_def Let_def)
    have comp: "compatible (owner_agree (protocol k)) ?vs"
      by (rule owner.upgrade_keeps(1) [OF owner(1) any owner(2) refl owner(3) _ p act_def refl]) simp
    have "length ?vs = nat (numProcessors k)" using len by simp
    note transact_delay [OF wf this comp Some _ t_def]
    then show ?thesis
      using Owner_upgrade_MOESI [of k job "vs ! ?p"] by (simp add: ph act_def)
  qed
qed

section \<open>The main loop implements the machine\<close>

definition implements :: "constants \<Rightarrow> sim \<Rightarrow> machine \<Rightarrow> bool" where
  "implements k s m \<longleftrightarrow>
     in_phase k s (m_phase m) \<and> m_views m = map cache_view (caches s) \<and> m_stats m = stats s \<and>
     m_jobs m = outstandingRequests s \<and> m_clock m = uint (cycles s)"

text \<open>The cycles that the machine still needs, at most.\<close>

definition phase_work :: "int \<Rightarrow> phase \<Rightarrow> int" where
  "phase_work n ph = (case ph of Idle \<Rightarrow> 0 | Local p e \<Rightarrow> max 1 (e - n) | On_bus p job sh e \<Rightarrow> max 1 (e - n))"

definition work_left :: "constants \<Rightarrow> machine \<Rightarrow> int" where
  "work_left k m = int (length (m_jobs m)) * (service_bound k + 2) + phase_work (m_clock m) (m_phase m)"

lemma phase_work_start:
  "0 \<le> phase_length ph \<Longrightarrow> phase_work (n + 1) (at_time (n + 1) ph) \<le> max 1 (phase_length ph)"
  by (cases ph) (simp_all add: phase_work_def)

lemma phase_work_nonneg: "0 \<le> phase_work n ph"
  by (cases ph) (simp_all add: phase_work_def)

lemma phase_fits_length:
  "0 \<le> n \<Longrightarrow> 0 \<le> phase_length ph \<Longrightarrow> n + phase_length ph < 2 ^ 64 \<Longrightarrow> phase_fits n ph"
  by (cases ph) (simp_all add: time_fits_def)

definition good :: "constants \<Rightarrow> (int \<times> int) set \<Rightarrow> machine \<Rightarrow> bool" where
  "good k X m \<longleftrightarrow> coherent_machine (owner_agree (protocol k)) any_state k X m"

lemma machine_work_decreases:
  assumes "machine_step k m m'" and "wf_constants k" and "good k X m" and "in_sets k X"
  shows "m_clock m' = m_clock m + 1 \<and> work_left k m' < work_left k m"
  using assms(1)
proof cases
  case (start wb job vs st ph vs' st' jobs n)
  have len: "length vs = nat (numProcessors k)" "compatible (owner_agree (protocol k)) vs"
    "within X vs" "nat (threadId job) < length vs"
    using assms(3) by (auto simp: good_def coherent_machine_def start(1))
  have "0 \<le> phase_length ph \<and> phase_length ph \<le> service_bound k"
    by (rule start_length [OF start(3) assms(2) len(1-3) assms(4) len(4)])
  with phase_work_start [of ph n] service_bound_pos [OF assms(2)] start(1,2) show ?thesis
    by (auto simp: work_left_def algebra_simps phase_work_def)
qed (auto simp: work_left_def phase_work_def)

text \<open>One iteration of the loop is one step of the machine.\<close>

lemma main_step_implements:
  assumes imp: "implements k s m" and wfk: "wf_constants k" and good: "good k X m"
    and X: "in_sets k X" and more: "more_work s"
    and time: "m_clock m + work_left k m + 2 < 2 ^ 64"
  obtains s' m' where "main_step k s = Inr s'" and "machine_step k m m'" and "implements k s' m'"
proof -
  have I: "in_phase k s (m_phase m)" "m_views m = map cache_view (caches s)" "m_stats m = stats s"
    "m_jobs m = outstandingRequests s" "m_clock m = uint (cycles s)"
    using imp by (simp_all add: implements_def)
  have work: "0 \<le> work_left k m"
    using service_bound_pos [OF wfk] phase_work_nonneg [of "m_clock m" "m_phase m"]
    by (simp add: work_left_def)
  have fits: "clock_fits s"
    using time work I(5) by (simp add: clock_fits_def)
  note clock = clock_fits_tick(1) [OF fits]
  obtain ph vs st jobs n where m: "m = \<lparr>m_phase = ph, m_views = vs, m_stats = st, m_jobs = jobs, m_clock = n\<rparr>"
    by (cases m)
  show thesis
  proof (cases ph)
    case Idle
    have ph: "in_phase k s Idle" using I(1) m Idle by simp
    then have "noJobs (caches s)"
      by (simp add: in_phase_def noJobs_quiet)
    with more obtain job rest where out: "outstandingRequests s = job # rest"
      by (auto simp: more_work_def neq_Nil_conv)
    let ?p = "nat (threadId job)" and ?x = "decode_address k (address job)"
    let ?wb = "write_back_needed k (caches s ! ?p) ?x"
    obtain ph' vs' st' where start: "start_job k ?wb job (map cache_view (caches s), stats s) = (ph', vs', st')"
      by (cases "start_job k ?wb job (map cache_view (caches s), stats s)") auto
    have G: "length (map cache_view (caches s)) = nat (numProcessors k)" "0 \<le> threadId job"
      "threadId job < numProcessors k" "compatible (owner_agree (protocol k)) (map cache_view (caches s))"
      "within X (map cache_view (caches s))"
      using good I out by (auto simp: good_def coherent_machine_def)
    have p: "?p < length (map cache_view (caches s))" using G(1-3) by simp
    have len: "0 \<le> phase_length ph' \<and> phase_length ph' \<le> service_bound k"
      by (rule start_length [OF start wfk G(1,4,5) X p])
    have "0 \<le> service_bound k * int (length rest)"
      using service_bound_pos [OF wfk] by simp
    moreover have "work_left k m = service_bound k * int (length rest) + 2 * int (length rest) +
        service_bound k + 2 + phase_work (m_clock m) (m_phase m)"
      using I(4) out by (simp add: work_left_def algebra_simps)
    ultimately have "uint (cycles s) + 1 + phase_length ph' < 2 ^ 64"
      using len time I(5) phase_work_nonneg [of "m_clock m" "m_phase m"] by linarith
    then have "phase_fits (uint (cycles s) + 1) ph'"
      using len by (intro phase_fits_length) simp_all
    from main_step_idle [OF ph fits wfk out G(2,3) start this] obtain s' where
      s': "main_step k s = Inr s'" "in_phase k s' (at_time (uint (cycles s) + 1) ph')"
        "map cache_view (caches s') = vs'" "stats s' = st'" "outstandingRequests s' = rest"
        "cycles s' = cycles s + 1" .
    have "wf_cache k (cycles s) (caches s ! ?p)"
      using ph p by (simp add: in_phase_def list_all_length)
    then have wb: "?wb \<longrightarrow> must_replace k (map cache_view (caches s) ! ?p) ?x"
      using write_back_must_replace [OF _ wfk refl] p by simp
    show thesis
    proof (rule that [OF s'(1)])
      show "machine_step k m
          \<lparr>m_phase = at_time (n + 1) ph', m_views = vs', m_stats = st', m_jobs = rest, m_clock = n + 1\<rparr>"
        using machine_step.start [OF start wb, of rest n] I out by (simp add: m Idle)
      show "implements k s'
          \<lparr>m_phase = at_time (n + 1) ph', m_views = vs', m_stats = st', m_jobs = rest, m_clock = n + 1\<rparr>"
        using I s' clock by (simp add: implements_def m)
    qed
  next
    case (Local p e)
    have ph: "in_phase k s (Local p e)" using I(1) m Local by simp
    from main_step_local [OF ph fits] obtain s' where
      s': "main_step k s = Inr s'" "in_phase k s' (if e \<le> uint (cycles s) + 1 then Idle else Local p e)"
        "map cache_view (caches s') = map cache_view (caches s)" "stats s' = stats s"
        "outstandingRequests s' = outstandingRequests s" "cycles s' = cycles s + 1" .
    have "machine_step k m (m\<lparr>m_phase := if e \<le> n + 1 then Idle else Local p e, m_clock := n + 1\<rparr>)"
      using machine_step.serve [of k p e vs st jobs n] by (simp add: m Local)
    moreover have "implements k s' (m\<lparr>m_phase := if e \<le> n + 1 then Idle else Local p e, m_clock := n + 1\<rparr>)"
      using I s' clock by (simp add: implements_def m)
    ultimately show thesis using that s'(1) by blast
  next
    case (On_bus p job sh e)
    have ph: "in_phase k s (On_bus p job sh e)" using I(1) m On_bus by simp
    have p: "p < length (caches s)" "wf_cache k (cycles s) (caches s ! p)"
      using ph by (auto simp: in_phase_def list_all_length)
    let ?x = "decode_address k (address job)"
    from ph fits wfk show thesis
    proof (cases rule: main_step_on_bus)
      case (waiting s')
      have "machine_step k m (m\<lparr>m_clock := n + 1\<rparr>)"
        using machine_step.wait [of n e k p job sh vs st jobs] waiting(1) I(5)
        by (simp add: m On_bus)
      moreover have "implements k s' (m\<lparr>m_clock := n + 1\<rparr>)"
        using I waiting clock by (simp add: implements_def m On_bus)
      ultimately show thesis using that waiting(2) by blast
    next
      case (completed s' v)
      let ?m = "m\<lparr>m_phase := Idle, m_views := map cache_view (caches s'), m_stats := stats s', m_clock := n + 1\<rparr>"
      have "room_for k (vs ! p) ?x v"
        using room_made_room_for [OF p(2) wfk refl completed(4)] p(1) I(2) by (simp add: m)
      moreover have "write_back_needed k (caches s ! p) ?x \<longrightarrow> must_replace k (vs ! p) ?x"
        using write_back_must_replace [OF p(2) wfk refl] p(1) I(2) by (simp add: m)
      ultimately have "machine_step k m ?m"
        using machine_step.finish [of e n k vs p job v] completed(1,5) I by (simp add: m On_bus)
      moreover have "implements k s' ?m"
        using I completed clock by (simp add: implements_def m)
      ultimately show thesis using that completed(2) by blast
    qed
  qed
qed

section \<open>The whole run\<close>

definition lines_of :: "constants \<Rightarrow> cache_job list \<Rightarrow> (int \<times> int) list" where
  "lines_of k jobs = map (\<lambda>job. decode_address k (address job)) jobs"

text \<open>Every job is for a processor of the machine, and the clock cannot overflow.\<close>

definition run_bound :: "constants \<Rightarrow> cache_job list \<Rightarrow> int" where
  "run_bound k jobs = int (length jobs) * (service_bound k + 2)"

definition trace_ok :: "constants \<Rightarrow> cache_job list \<Rightarrow> bool" where
  "trace_ok k jobs \<longleftrightarrow>
     list_all (\<lambda>job. 0 \<le> threadId job \<and> threadId job < numProcessors k) jobs \<and>
     run_bound k jobs + 2 < 2 ^ 64"

lemma lines_in_sets: "wf_constants k \<Longrightarrow> in_sets k (set (lines_of k jobs))"
  using decode_set_range [of k] by (simp add: in_sets_def lines_of_def case_prod_unfold)

text \<open>What holds of the simulation at every iteration.\<close>

definition sim_inv :: "constants \<Rightarrow> cache_job list \<Rightarrow> sim \<Rightarrow> bool" where
  "sim_inv k jobs s \<longleftrightarrow>
     wf_constants k \<and> run_bound k jobs + 2 < 2 ^ 64 \<and>
     (\<exists>m. (machine_step k)\<^sup>*\<^sup>* (machine_start k jobs) m \<and> implements k s m \<and>
          good k (set (lines_of k jobs)) m \<and> m_clock m + work_left k m \<le> run_bound k jobs)"

lemma sim_invE:
  assumes "sim_inv k jobs s"
  obtains m where "(machine_step k)\<^sup>*\<^sup>* (machine_start k jobs) m" and "implements k s m"
    and "good k (set (lines_of k jobs)) m" and "m_clock m + work_left k m \<le> run_bound k jobs"
  using assms unfolding sim_inv_def by blast

lemma initial_sim_inv:
  assumes "wf_constants k" and "trace_ok k jobs"
  shows "sim_inv k jobs (initial_sim k jobs)"
proof -
  have "implements k (initial_sim k jobs) (machine_start k jobs)"
  proof -
    have "cache_view (new_cache k i []) = (\<lambda>_. None)" for i
      by (auto simp: cache_view_def new_cache_def line_at_def empty_set_of_lines_def fun_eq_iff)
    then show ?thesis
      using initial_in_phase [OF assms(1)]
      by (simp add: implements_def machine_start_def abs_initial_def initial_sim_def
          processors_def initial_cycle_def comp_def map_replicate_const)
  qed
  moreover have "good k (set (lines_of k jobs)) (machine_start k jobs)"
    unfolding good_def by (rule owner.start_coherent)
      (use assms(2) in \<open>auto simp: trace_ok_def lines_of_def list_all_iff\<close>)
  moreover have "m_clock (machine_start k jobs) + work_left k (machine_start k jobs) \<le> run_bound k jobs"
    by (simp add: machine_start_def work_left_def phase_work_def run_bound_def)
  ultimately show ?thesis
    using assms unfolding sim_inv_def trace_ok_def by blast
qed

lemma sim_inv_step:
  assumes inv: "sim_inv k jobs s" and more: "more_work s"
  shows "\<exists>s'. main_step k s = Inr s' \<and> sim_inv k jobs s' \<and> uint (cycles s') = uint (cycles s) + 1 \<and>
    uint (cycles s) < run_bound k jobs"
proof -
  have wfk: "wf_constants k" and bound: "run_bound k jobs + 2 < 2 ^ 64"
    using inv by (simp_all add: sim_inv_def)
  let ?X = "set (lines_of k jobs)"
  obtain m where m: "(machine_step k)\<^sup>*\<^sup>* (machine_start k jobs) m" "implements k s m"
    "good k ?X m" "m_clock m + work_left k m \<le> run_bound k jobs"
    using inv by (rule sim_invE)
  note X = lines_in_sets [OF wfk, of jobs]
  obtain s' m' where step: "main_step k s = Inr s'" "machine_step k m m'" "implements k s' m'"
    by (rule main_step_implements [OF m(2) wfk m(3) X more]) (use m(4) bound in linarith)
  note less = machine_work_decreases [OF step(2) wfk m(3) X]
  have "good k ?X m'"
    using owner.step_keeps [OF step(2) _ refl X] m(3) by (simp add: good_def)
  moreover have "(machine_step k)\<^sup>*\<^sup>* (machine_start k jobs) m'"
    using m(1) step(2) by (rule rtranclp.rtrancl_into_rtrancl)
  moreover have "m_clock m' + work_left k m' \<le> run_bound k jobs"
    using less m(4) by simp
  ultimately have "sim_inv k jobs s'"
    unfolding sim_inv_def using wfk bound step(3) by (intro conjI exI [of _ m'])
  moreover have "uint (cycles s') = uint (cycles s) + 1"
    using less m(2) step(3) by (simp add: implements_def)
  moreover have "0 \<le> work_left k m'"
    using service_bound_pos [OF wfk] phase_work_nonneg [of "m_clock m'" "m_phase m'"]
    by (simp add: work_left_def)
  then have "uint (cycles s) < run_bound k jobs"
    using less m(2,4) by (simp add: implements_def)
  ultimately show ?thesis using step(1) by blast
qed

interpretation main: bounded_loop more_work "main_step k" "sim_inv k jobs"
  "\<lambda>s. nat (run_bound k jobs - uint (cycles s))" for k jobs
proof
  fix s
  assume "sim_inv k jobs s" and "more_work s"
  from sim_inv_step [OF this]
  show "\<exists>s'. main_step k s = Inr s' \<and> sim_inv k jobs s' \<and>
      nat (run_bound k jobs - uint (cycles s')) < nat (run_bound k jobs - uint (cycles s))" by auto
qed

text \<open>The states the loop goes through.\<close>

inductive reached :: "constants \<Rightarrow> cache_job list \<Rightarrow> sim \<Rightarrow> bool" for k jobs where
  first: "reached k jobs (initial_sim k jobs)"
| iterate: "reached k jobs s \<Longrightarrow> more_work s \<Longrightarrow> main_step k s = Inr s' \<Longrightarrow> reached k jobs s'"

lemma reached_inv:
  assumes "reached k jobs s" and "wf_constants k" and "trace_ok k jobs"
  shows "sim_inv k jobs s"
  using assms(1)
proof induction
  case first
  show ?case by (rule initial_sim_inv [OF assms(2,3)])
next
  case (iterate s s')
  with sim_inv_step [OF iterate.IH iterate.hyps(2)] show ?case by auto
qed

lemma main_loop_reached:
  assumes "reached k jobs s" and "main_loop k fuel s = Some (Inr s')"
  shows "reached k jobs s' \<and> \<not> more_work s'"
proof -
  from assms(2) have "run_loop more_work (main_step k) fuel s = Some (Inr s')"
    by (simp add: main_loop_def)
  then show ?thesis
    by (rule run_loop_invariant [where I = "reached k jobs"]) (auto intro: assms(1) reached.iterate)
qed

lemma simulate_returns:
  assumes "wf_constants k" and "trace_ok k jobs" and "run_bound k jobs \<le> int fuel"
  obtains s where "simulate k fuel jobs = Some (Inr s)" and "sim_inv k jobs s" and "\<not> more_work s"
    and "reached k jobs s"
proof -
  have "nat (run_bound k jobs - uint (cycles (initial_sim k jobs))) \<le> fuel"
    using assms(3) by (simp add: initial_sim_def initial_cycle_def)
  from main.loop_returns [OF initial_sim_inv [OF assms(1,2)] this]
  obtain s where s: "simulate k fuel jobs = Some (Inr s)" "sim_inv k jobs s" "\<not> more_work s"
    by (auto simp: simulate_def main_loop_def)
  have "reached k jobs s"
    using main_loop_reached [OF reached.first] s(1) unfolding simulate_def by blast
  with s that show thesis by blast
qed

end
