(* ===== verification/Refinement.thy ===== *)
theory Refinement
  imports Progress
begin

text \<open>
  When every set has room for the lines of the trace, the replacement of lines plays no part
  and the simulation computes a function: the jobs one after the other, each in one step on
  the views, the statistics and the clock. Counting facts hold with or without room.
\<close>

section \<open>Invariants of the machine\<close>

lemma machine_invariant:
  assumes "(machine_step k)\<^sup>*\<^sup>* (machine_start k jobs) m"
    and wfk: "wf_constants k" and ok: "trace_ok k jobs"
    and start: "I (machine_start k jobs)"
    and step: "\<And>m m'. good k (set (lines_of k jobs)) m \<Longrightarrow> I m \<Longrightarrow> machine_step k m m' \<Longrightarrow> I m'"
  shows "I m \<and> good k (set (lines_of k jobs)) m"
  using assms(1)
proof (induction rule: rtranclp_induct)
  case base
  have "good k (set (lines_of k jobs)) (machine_start k jobs)"
    unfolding good_def by (rule owner.start_coherent)
      (use ok in \<open>auto simp: trace_ok_def lines_of_def list_all_iff\<close>)
  with start show ?case by simp
next
  case (step m m')
  moreover have "good k (set (lines_of k jobs)) m'"
    using owner.step_keeps [OF step(2) _ refl lines_in_sets [OF wfk]] step.IH
    by (simp add: good_def)
  ultimately show ?case
    using assms(5) by blast
qed

text \<open>At the end of the loop the machine is idle, with no job left.\<close>

lemma finished_machine:
  assumes "implements k s m" and "\<not> more_work s"
  shows "m_phase m = Idle" and "m_jobs m = []"
proof -
  have quiet: "noJobs (caches s)" and none: "outstandingRequests s = []"
    using assms(2) by (simp_all add: more_work_def)
  show "m_jobs m = []"
    using assms(1) none by (simp add: implements_def)
  have "in_phase k s (m_phase m)"
    using assms(1) by (simp add: implements_def)
  then show "m_phase m = Idle"
    using noJobs_busy [of _ "caches s"] quiet
    by (cases "m_phase m") (auto simp: in_phase_def working_def)
qed

section \<open>A run without replacement\<close>

text \<open>No set is asked to hold more lines than it has ways.\<close>

definition lines_fit :: "constants \<Rightarrow> (int \<times> int) list \<Rightarrow> bool" where
  "lines_fit k xs \<longleftrightarrow>
     list_all (\<lambda>x. int (card (set (map snd (filter (\<lambda>y. fst y = fst x) xs)))) \<le> numLinesInSet k) xs"

lemma lines_fit_no_replacement:
  assumes "lines_fit k xs" and "dom v \<subseteq> set xs" and "x \<in> set xs"
  shows "\<not> must_replace k v x"
proof
  assume "must_replace k v x"
  then have x: "v x = None" and full: "int (card {t. v (fst x, t) \<noteq> None}) = numLinesInSet k"
    by (simp_all add: must_replace_def set_full_def)
  let ?T = "set (map snd (filter (\<lambda>y. fst y = fst x) xs))"
  have T: "?T = {t. (fst x, t) \<in> set xs}" by force
  have "{t. v (fst x, t) \<noteq> None} \<subseteq> ?T - {snd x}"
    unfolding T using assms(2) x by auto
  then have "card {t. v (fst x, t) \<noteq> None} \<le> card (?T - {snd x})"
    by (intro card_mono) simp_all
  also have "\<dots> < card ?T"
  proof (rule card_Diff1_less)
    show "snd x \<in> ?T" unfolding T using assms(3) by simp
  qed simp
  also have "int \<dots> \<le> numLinesInSet k"
    using assms(1,3) by (auto simp: lines_fit_def list_all_iff)
  finally show False using full by simp
qed

text \<open>The state and the clock when the phase in progress is over.\<close>

definition settle :: "constants \<Rightarrow> machine \<Rightarrow> (view list \<times> cache_stats) \<times> int" where
  "settle k m =
     (case m_phase m of
        Idle \<Rightarrow> ((m_views m, m_stats m), m_clock m)
      | Local p e \<Rightarrow> ((m_views m, m_stats m), max e (m_clock m + 1))
      | On_bus p job sh e \<Rightarrow>
          (finish_job k False p job sh (m_views m ! p) (m_views m, m_stats m), max e (m_clock m + 1)))"

lemma settle_start:
  assumes "start_job k False job (vs, st) = (ph, vs', st')"
  shows "settle k \<lparr>m_phase = at_time (n + 1) ph, m_views = vs', m_stats = st', m_jobs = js, m_clock = n + 1\<rparr>
           = abs_job k job ((vs, st), n)"
  using assms by (cases ph) (auto simp: settle_def abs_job_def)

lemma machine_step_settle:
  assumes "machine_step k m m'" and good: "good k (set xs) m" and fit: "lines_fit k xs"
  shows "fold (abs_job k) (m_jobs m') (settle k m') = fold (abs_job k) (m_jobs m) (settle k m)"
  using assms(1)
proof cases
  case (start wb job vs st ph vs' st' jobs n)
  have "dom (vs ! nat (threadId job)) \<subseteq> set xs" "decode_address k (address job) \<in> set xs"
    using good withinD [of "set xs" vs] by (auto simp: good_def coherent_machine_def start(1))
  then have "\<not> wb"
    using start(4) lines_fit_no_replacement [OF fit] by blast
  then have "start_job k False job (vs, st) = (ph, vs', st')"
    using start(3) by simp
  from settle_start [OF this, of n jobs] show ?thesis
    by (simp add: start(1,2) settle_def)
next
  case (serve p e vs st jobs n)
  then show ?thesis by (simp add: settle_def)
next
  case (wait n e p job sh vs st jobs)
  then show ?thesis by (simp add: settle_def)
next
  case (finish e n vs p job v wb vs' st' sh st jobs)
  have "dom (vs ! p) \<subseteq> set xs" "decode_address k (address job) \<in> set xs"
    using good withinD [of "set xs" vs] by (auto simp: good_def coherent_machine_def finish(1))
  then have "\<not> must_replace k (vs ! p) (decode_address k (address job))"
    using lines_fit_no_replacement [OF fit] by blast
  then have "\<not> wb" "v = vs ! p"
    using finish(4,5) by (simp_all add: room_for_def)
  with finish show ?thesis
    by (simp add: settle_def)
qed

lemma run_without_replacement:
  assumes "(machine_step k)\<^sup>*\<^sup>* (machine_start k jobs) m"
    and "wf_constants k" and "trace_ok k jobs" and "lines_fit k (lines_of k jobs)"
  shows "fold (abs_job k) (m_jobs m) (settle k m) = abs_run k jobs"
proof -
  have "fold (abs_job k) (m_jobs m) (settle k m) = abs_run k jobs \<and> good k (set (lines_of k jobs)) m"
  proof (rule machine_invariant [OF assms(1-3)])
    show "fold (abs_job k) (m_jobs (machine_start k jobs)) (settle k (machine_start k jobs)) =
        abs_run k jobs"
      by (simp add: machine_start_def settle_def abs_run_def abs_initial_def)
  qed (simp add: machine_step_settle [OF _ _ assms(4)])
  then show ?thesis ..
qed

text \<open>The refinement: the simulation ends as the abstract run does.\<close>

lemma simulate_refines:
  assumes "wf_constants k" and "trace_ok k jobs" and "lines_fit k (lines_of k jobs)"
    and "run_bound k jobs \<le> int fuel"
  obtains s where "simulate k fuel jobs = Some (Inr s)" and "reached k jobs s"
    and "((map cache_view (caches s), stats s), uint (cycles s)) = abs_run k jobs"
proof -
  obtain s where s: "simulate k fuel jobs = Some (Inr s)" "sim_inv k jobs s" "\<not> more_work s"
    "reached k jobs s"
    by (rule simulate_returns [OF assms(1,2,4)])
  obtain m where m: "(machine_step k)\<^sup>*\<^sup>* (machine_start k jobs) m" "implements k s m"
    using s(2) by (rule sim_invE)
  note idle = finished_machine [OF m(2) s(3)]
  have "((map cache_view (caches s), stats s), uint (cycles s)) = settle k m"
    using m(2) idle(1) by (simp add: settle_def implements_def)
  also have "\<dots> = abs_run k jobs"
    using run_without_replacement [OF m(1) assms(1-3)] idle(2) by simp
  finally show thesis
    using that s(1,4) by blast
qed

section \<open>Counting\<close>

definition is_access :: "cache_job \<Rightarrow> bool" where
  "is_access job \<longleftrightarrow> isRead job \<or> isWrite job"

definition accesses :: "cache_job list \<Rightarrow> nat" where
  "accesses jobs = length (filter is_access jobs)"

lemma snoop_all_accesses:
  "numHit (t_stats (snoop_all k m x cost p is t)) = numHit (t_stats t)
   \<and> numMiss (t_stats (snoop_all k m x cost p is t)) = numMiss (t_stats t)
   \<and> numBusRequests (t_stats (snoop_all k m x cost p is t)) = numBusRequests (t_stats t)"
proof (induction "is" arbitrary: t)
  case Nil
  then show ?case by simp
next
  case (Cons i "is")
  have "numHit (t_stats (snoop_one k m x cost i t)) = numHit (t_stats t) \<and>
    numMiss (t_stats (snoop_one k m x cost i t)) = numMiss (t_stats t) \<and>
    numBusRequests (t_stats (snoop_one k m x cost i t)) = numBusRequests (t_stats t)"
    by (cases "protocol k") (simp_all add: snoop_one_def Let_def split: option.split)
  with Cons show ?case by simp
qed

lemma transact_counts:
  "numHit (t_stats (transact k m x cost p vs st)) = numHit st"
  "numMiss (t_stats (transact k m x cost p vs st)) = numMiss st"
  "numBusRequests (t_stats (transact k m x cost p vs st)) = numBusRequests st + 1"
  by (simp_all add: transact_def Let_def snoop_all_accesses)

text \<open>The counters at the start of a job, by its action.\<close>

lemma start_action:
  assumes "start_job k wb job (vs, st) = (ph, vs', st')"
  obtains act where "act = job_action k job (vs ! nat (threadId job))"
    and "numHit st' = numHit (action_stats act st)" and "numMiss st' = numMiss (action_stats act st)"
    and "numBusRequests st' = numBusRequests st + (if action_message act = None then 0 else 1)"
proof -
  define act where "act = job_action k job (vs ! nat (threadId job))"
  define st1 where "st1 = action_stats act (if act = Ask BusRdX \<and> wb then count_flush st else st)"
  have st1: "numHit st1 = numHit (action_stats act st)" "numMiss st1 = numMiss (action_stats act st)"
    "numBusRequests st1 = numBusRequests st"
    by (simp_all add: st1_def action_stats_def split: action.split)
  show thesis
  proof (rule that [OF act_def])
    show "numHit st' = numHit (action_stats act st)" "numMiss st' = numMiss (action_stats act st)"
      "numBusRequests st' = numBusRequests st + (if action_message act = None then 0 else 1)"
      using assms st1 unfolding start_job_def Let_def case_prod_conv act_def [symmetric] st1_def [symmetric]
      by (cases "action_message act"; auto simp: transact_counts)+
  qed
qed

lemma start_counts:
  assumes "start_job k wb job (vs, st) = (ph, vs', st')"
  shows "numHit st' + numMiss st' = numHit st + numMiss st + (if is_access job then 1 else 0)"
    and "protocol k \<noteq> MOESI \<Longrightarrow> numBusRequests st = numMiss st \<Longrightarrow> numBusRequests st' = numMiss st'"
proof -
  obtain act where act: "act = job_action k job (vs ! nat (threadId job))"
    "numHit st' = numHit (action_stats act st)" "numMiss st' = numMiss (action_stats act st)"
    "numBusRequests st' = numBusRequests st + (if action_message act = None then 0 else 1)"
    by (rule start_action [OF assms])
  have "act = Ignore \<longleftrightarrow> \<not> is_access job"
    by (auto simp: act(1) job_action_def write_action_def read_action_def is_access_def Let_def
        split: protocol_kind.split)
  then show "numHit st' + numMiss st' = numHit st + numMiss st + (if is_access job then 1 else 0)"
    by (cases act) (simp_all add: act(2,3) action_stats_def)
  show "numBusRequests st' = numMiss st'" if "protocol k \<noteq> MOESI" "numBusRequests st = numMiss st"
  proof -
    have "act \<noteq> Owner_upgrade"
      using that(1) Owner_upgrade_MOESI [of k job "vs ! nat (threadId job)"] act(1) by auto
    with that(2) act(2-4) show ?thesis
      by (cases act) (simp_all add: action_stats_def action_message_def)
  qed
qed

lemma fill_counts:
  "numHit (fill_stats k job sh s st) = numHit st"
  "numMiss (fill_stats k job sh s st) = numMiss st"
  "numBusRequests (fill_stats k job sh s st) = numBusRequests st"
  by (simp_all add: fill_stats_def split: protocol_kind.split)

lemma finish_counts:
  assumes "(vs', st') = finish_job k wb p job sh v (vs, st)"
  shows "numHit st' = numHit st" and "numMiss st' = numMiss st"
    and "numBusRequests st' = numBusRequests st"
  using assms by (simp_all add: finish_job_def Let_def fill_counts)

lemma machine_step_counts:
  assumes "machine_step k m m'"
  shows "numHit (m_stats m') + numMiss (m_stats m') + of_nat (accesses (m_jobs m')) =
           numHit (m_stats m) + numMiss (m_stats m) + of_nat (accesses (m_jobs m))"
    and "protocol k \<noteq> MOESI \<Longrightarrow> numBusRequests (m_stats m) = numMiss (m_stats m) \<Longrightarrow>
           numBusRequests (m_stats m') = numMiss (m_stats m')"
  using assms
  by (cases; auto simp: accesses_def start_counts finish_counts)+

section \<open>Coherence of every state of the loop\<close>

lemma trace_ok_threads:
  "trace_ok k jobs \<Longrightarrow> \<forall>job \<in> set jobs. decode_address k (address job) \<in> set (lines_of k jobs) \<and>
     0 \<le> threadId job \<and> threadId job < numProcessors k"
  by (auto simp: trace_ok_def lines_of_def list_all_iff)

context coherence
begin

lemma path_coherent:
  assumes "(machine_step k)\<^sup>*\<^sup>* (machine_start k jobs) m"
    and "wf_constants k" and "trace_ok k jobs"
    and P: "protocol k = P" and sep: "strict \<longrightarrow> tags_separate (set (lines_of k jobs))"
  shows "coherent_machine agree legal k (set (lines_of k jobs)) m"
proof -
  let ?X = "set (lines_of k jobs)"
  note X = lines_in_sets [OF assms(2), of jobs]
  have "coherent_machine agree legal k ?X m \<and> good k ?X m"
  proof (rule machine_invariant [OF assms(1-3)])
    show "coherent_machine agree legal k ?X (machine_start k jobs)"
      by (rule start_coherent [OF trace_ok_threads [OF assms(3)]])
  qed (rule step_keeps [OF _ _ P X sep])
  then show ?thesis ..
qed

lemma reached_agree:
  assumes "reached k jobs s" and "wf_constants k" and "trace_ok k jobs"
    and P: "protocol k = P" and sep: "strict \<longrightarrow> tags_separate (set (lines_of k jobs))"
    and p: "p < length (caches s)" "q < length (caches s)" "p \<noteq> q"
    and x: "cache_view (caches s ! p) x = Some st" "cache_view (caches s ! q) x = Some st'"
  shows "agree st st'"
proof -
  obtain m where m: "(machine_step k)\<^sup>*\<^sup>* (machine_start k jobs) m" "implements k s m"
    using reached_inv [OF assms(1-3)] by (rule sim_invE)
  have "coherent_machine agree legal k (set (lines_of k jobs)) m"
    by (rule path_coherent [OF m(1) assms(2,3) P sep])
  then have "compatible agree (map cache_view (caches s))"
    using m(2) by (simp add: coherent_machine_def implements_def)
  from compatibleD [OF this, of p q x st st'] p x show ?thesis by simp
qed

end

lemma reached_in_phase:
  assumes "reached k jobs s" and "wf_constants k" and "trace_ok k jobs"
  obtains ph where "in_phase k s ph"
proof -
  obtain m where "implements k s m"
    using reached_inv [OF assms] by (rule sim_invE)
  then show thesis using that [of "m_phase m"] by (simp add: implements_def)
qed

text \<open>The counters at the end of the loop.\<close>

lemma final_counts:
  assumes "wf_constants k" and "trace_ok k jobs" and "simulate k fuel jobs = Some (Inr s)"
  shows "numHit (stats s) + numMiss (stats s) = of_nat (accesses jobs)"
    and "protocol k \<noteq> MOESI \<Longrightarrow> numBusRequests (stats s) = numMiss (stats s)"
proof -
  have r: "reached k jobs s" "\<not> more_work s"
    using main_loop_reached [OF reached.first] assms(3) by (auto simp: simulate_def)
  obtain m where m: "(machine_step k)\<^sup>*\<^sup>* (machine_start k jobs) m" "implements k s m"
    using reached_inv [OF r(1) assms(1,2)] by (rule sim_invE)
  let ?total = "\<lambda>m. numHit (m_stats m) + numMiss (m_stats m) + of_nat (accesses (m_jobs m))"
  have start: "m_stats (machine_start k jobs) = CacheStats" "m_jobs (machine_start k jobs) = jobs"
    by (simp_all add: machine_start_def abs_initial_def)
  have "?total m = of_nat (accesses jobs) \<and> good k (set (lines_of k jobs)) m"
    by (rule machine_invariant [OF m(1) assms(1,2)])
      (use machine_step_counts(1) in \<open>auto simp: start CacheStats_def\<close>)
  then show "numHit (stats s) + numMiss (stats s) = of_nat (accesses jobs)"
    using m(2) finished_machine(2) [OF m(2) r(2)] by (simp add: implements_def accesses_def)
  show "numBusRequests (stats s) = numMiss (stats s)" if "protocol k \<noteq> MOESI"
  proof -
    have "numBusRequests (m_stats m) = numMiss (m_stats m) \<and> good k (set (lines_of k jobs)) m"
      by (rule machine_invariant [OF m(1) assms(1,2)])
        (use machine_step_counts(2) that in \<open>auto simp: start CacheStats_def\<close>)
    then show ?thesis using m(2) by (simp add: implements_def)
  qed
qed

section \<open>Arbitration\<close>

lemma next_request_first:
  assumes "\<forall>j \<in> set js. j < length cs"
  shows "next_request cs (map int js) =
           Inr (map_option (\<lambda>n. int (js ! n)) (find_index (\<lambda>j. haveBusRequest (cs ! j)) js))"
  using assms
proof (induction js)
  case Nil
  then show ?case by simp
next
  case (Cons j js)
  then show ?case
    by (auto simp: cache_at_def hasBusRequest_def option.map_comp comp_def)
qed

end
