(* ===== verification/Departures.thy ===== *)
theory Departures
  imports Refinement
begin

text \<open>
  Where the simulator departs from the protocols it simulates: reachable states in which two
  caches disagree about a line, accesses and evictions counted wrongly, and the tags of an x86
  build. The runs are evaluated on the abstract machine and carried over by the refinement.
\<close>

section \<open>Where the code departs from the protocols\<close>

text \<open>The state in which the loop ends, for a trace without replacement.\<close>

lemma run_reached:
  assumes "wf_constants k" and "trace_ok k jobs" and "lines_fit k (lines_of k jobs)"
    and "abs_run k jobs = ((vs, st), n)"
  shows "\<exists>s. reached k jobs s \<and> map cache_view (caches s) = vs \<and> stats s = st \<and> uint (cycles s) = n"
proof -
  have "run_bound k jobs \<le> int (nat (run_bound k jobs))" by simp
  from simulate_refines [OF assms(1-3) this] assms(4) show ?thesis
    by (metis fst_conv snd_conv)
qed

text \<open>Lines of the caches and statistics of a run, in a form that evaluates.\<close>

definition run_lines :: "constants \<Rightarrow> cache_job list \<Rightarrow> int \<times> int \<Rightarrow> line_state option list" where
  "run_lines k jobs x = map (\<lambda>v. v x) (fst (fst (abs_run k jobs)))"

definition run_stats :: "constants \<Rightarrow> cache_job list \<Rightarrow> cache_stats" where
  "run_stats k jobs = snd (fst (abs_run k jobs))"

lemma run_lines_reached:
  assumes "wf_constants k" and "trace_ok k jobs" and "lines_fit k (lines_of k jobs)"
  shows "\<exists>s. reached k jobs s \<and> stats s = run_stats k jobs \<and>
           (\<forall>x. map (\<lambda>c. cache_view c x) (caches s) = run_lines k jobs x)"
proof -
  obtain vs st n where run: "abs_run k jobs = ((vs, st), n)"
    by (metis prod.collapse)
  from run_reached [OF assms run] obtain s where
    s: "reached k jobs s" "map cache_view (caches s) = vs" "stats s = st" by blast
  have "map (\<lambda>c. cache_view c x) (caches s) = run_lines k jobs x" for x
    unfolding run_lines_def run fst_conv s(2) [symmetric] by (simp add: comp_def)
  with s show ?thesis by (auto simp: run_stats_def run)
qed

text \<open>
  C17: under MOESI a cache gets a line exclusive, and then modified, while others keep shared
  copies of it: only owners answer as sharers. After three reads of a line by three processors
  and a write by the third, the first still holds the line as shared.
\<close>

definition moesi_jobs :: "cache_job list" where
  "moesi_jobs = [CacheJob CHR ''R'' 0x40 0, CacheJob CHR ''R'' 0x40 1, CacheJob CHR ''R'' 0x40 2,
                 CacheJob CHR ''W'' 0x40 2]"

theorem moesi_modified_beside_shared:
  "\<exists>s. reached (configured MOESI x86_shl_one) moesi_jobs s \<and>
     map (\<lambda>c. cache_view c (1, 0)) (caches s) =
       [Some shared, Some shared, Some modified, None, None, None, None, None]"
proof -
  have ok: "trace_ok (configured MOESI x86_shl_one) moesi_jobs"
    by (simp add: trace_ok_def moesi_jobs_def run_bound_def service_bound_def CacheJob_def)
  have fit: "lines_fit (configured MOESI x86_shl_one) (lines_of (configured MOESI x86_shl_one) moesi_jobs)"
    by code_simp
  have "run_lines (configured MOESI x86_shl_one) moesi_jobs (1, 0) =
      [Some shared, Some shared, Some modified, None, None, None, None, None]"
    by code_simp
  with run_lines_reached [OF wf_configured ok fit] show ?thesis by metis
qed

text \<open>
  C18: under MESI, two caches can both hold a line modified: the upgrade on a write sets every
  line of the cache with the tag of the address, in whatever set.
\<close>

definition mesi_jobs :: "cache_job list" where
  "mesi_jobs = [CacheJob CHR ''R'' 0x40 0, CacheJob CHR ''W'' 0x40 1, CacheJob CHR ''R'' 0 0,
                CacheJob CHR ''W'' 0 0]"

theorem mesi_two_modified_copies:
  "\<exists>s. reached (configured MESI x86_shl_one) mesi_jobs s \<and>
     cache_view (caches s ! 0) (1, 0) = Some modified \<and>
     cache_view (caches s ! 1) (1, 0) = Some modified"
proof -
  let ?k = "configured MESI x86_shl_one"
  have ok: "trace_ok ?k mesi_jobs"
    by (simp add: trace_ok_def mesi_jobs_def run_bound_def service_bound_def CacheJob_def)
  have fit: "lines_fit (configured MESI x86_shl_one) (lines_of (configured MESI x86_shl_one) mesi_jobs)"
    by code_simp
  have lines: "run_lines (configured MESI x86_shl_one) mesi_jobs (1, 0) =
      [Some modified, Some modified, None, None, None, None, None, None]"
    by code_simp
  from run_lines_reached [OF wf_configured ok fit] obtain s where
    s: "reached ?k mesi_jobs s" "map (\<lambda>c. cache_view c (1, 0)) (caches s) =
      [Some modified, Some modified, None, None, None, None, None, None]"
    unfolding lines [symmetric] by blast
  have "length (caches s) = 8"
    using arg_cong [OF s(2), of length] by simp
  then have "cache_view (caches s ! 0) (1, 0) = Some modified"
    "cache_view (caches s ! 1) (1, 0) = Some modified"
    using arg_cong [OF s(2), of "\<lambda>l. l ! 0"] arg_cong [OF s(2), of "\<lambda>l. l ! 1"] by simp_all
  with s(1) show ?thesis by blast
qed

text \<open>
  C19: a read of a line that no cache holds is counted as a hit, in every protocol, when the
  reader holds a line of another set with the same tag.
\<close>

definition other_set_jobs :: "cache_job list" where
  "other_set_jobs = [CacheJob CHR ''R'' 0x40 0, CacheJob CHR ''R'' 0x80 0]"

theorem hit_on_absent_line:
  "\<exists>s. reached (configured p x86_shl_one) other_set_jobs s \<and>
     numHit (stats s) = 1 \<and> numMiss (stats s) = 1 \<and>
     decode_address (configured p x86_shl_one) 0x80 = (2, 0) \<and>
     map (\<lambda>c. cache_view c (2, 0)) (caches s) = replicate 8 None"
proof -
  let ?k = "configured p x86_shl_one"
  have ok: "trace_ok ?k other_set_jobs"
    by (simp add: trace_ok_def other_set_jobs_def run_bound_def service_bound_def CacheJob_def)
  have eval: "lines_fit (configured q x86_shl_one) (lines_of (configured q x86_shl_one) other_set_jobs)"
    "run_lines (configured q x86_shl_one) other_set_jobs (2, 0) = replicate 8 None"
    "numHit (run_stats (configured q x86_shl_one) other_set_jobs) = 1"
    "numMiss (run_stats (configured q x86_shl_one) other_set_jobs) = 1"
    "decode_address (configured q x86_shl_one) 0x80 = (2, 0)" if "q \<in> {MSI, MESI, MOESI}" for q
    using that by (elim insertE emptyE; hypsubst; code_simp)+
  have "p \<in> {MSI, MESI, MOESI}" by (cases p) simp_all
  note E = eval [OF this]
  from run_lines_reached [OF wf_configured ok E(1)] obtain s where
    s: "reached ?k other_set_jobs s" "stats s = run_stats ?k other_set_jobs"
      "map (\<lambda>c. cache_view c (2, 0)) (caches s) = replicate 8 None"
    unfolding E(2) [symmetric] by blast
  with E(3-5) show ?thesis by metis
qed

text \<open>
  C20: on an x86 target, where \<open>1 << 36\<close> on an \<open>int\<close> is 16, the tag has 4 bits:
  addresses that agree in their low 16 bits are one line to the simulator.
\<close>

theorem x86_tags_have_four_bits:
  assumes "take_bit 16 a = take_bit 16 b"
  shows "decode_address (configured p x86_shl_one) a = decode_address (configured p x86_shl_one) b"
proof -
  have masks: "of_c_int (shl_one (configured p x86_shl_one) 6 - 1) = (mask 6 :: u64)"
    "of_c_int (shl_one (configured p x86_shl_one) 36 - 1) = (mask 4 :: u64)"
    by (simp_all add: shl_one_def x86_shl_one_36 of_c_int_def mask_eq_exp_minus_1)
  have low: "drop_bit m a AND mask n = drop_bit m b AND mask n" if "m + n \<le> 16" for m n
  proof -
    have F: "take_bit n (drop_bit m x) = drop_bit m (take_bit (m + n) (take_bit 16 x))" for x :: u64
      using that by (simp add: take_bit_drop_bit min_def add.commute)
    have "take_bit n (drop_bit m a) = take_bit n (drop_bit m b)"
      by (simp only: F assms)
    then show ?thesis by (simp add: take_bit_eq_mask)
  qed
  have sizes: "numAddressBits (configured p x86_shl_one) = 48" "numSetBits (configured p x86_shl_one) = 6"
    "numBytesBits (configured p x86_shl_one) = 6" by simp_all
  show ?thesis
    unfolding decode_address_def Let_def sizes
    using masks low [of 6 6] low [of 12 4] by (simp del: configured_simps)
qed

theorem x86_tags_have_four_bits_witness:
  "decode_address (configured MESI x86_shl_one) 0x106074800
     = decode_address (configured MESI x86_shl_one) 0x7fff5ed94800"
proof -
  have "take_bit 16 (0x106074800 :: u64) = take_bit 16 0x7fff5ed94800" by code_simp
  then show ?thesis by (rule x86_tags_have_four_bits)
qed

text \<open>
  Under MESI, a read miss that memory serves is counted as two uses of main memory, one by
  the bus and one by the cache; under MSI and MOESI it is counted once.
\<close>

theorem mesi_counts_memory_twice:
  "\<exists>s. reached (configured p x86_shl_one) [CacheJob CHR ''R'' 0x40 0] s \<and>
     outstandingRequests s = [] \<and> noJobs (caches s) \<and> numMiss (stats s) = 1 \<and>
     numMainMemoryUses (stats s) = (if p = MESI then 2 else 1)"
proof -
  let ?k = "configured p x86_shl_one" and ?jobs = "[CacheJob CHR ''R'' 0x40 0]"
  have ok: "trace_ok ?k ?jobs"
    by (simp add: trace_ok_def run_bound_def service_bound_def CacheJob_def)
  have eval: "lines_fit (configured q x86_shl_one) (lines_of (configured q x86_shl_one) [CacheJob CHR ''R'' 0x40 0])"
    "numMiss (run_stats (configured q x86_shl_one) [CacheJob CHR ''R'' 0x40 0]) = 1"
    "numMainMemoryUses (run_stats (configured q x86_shl_one) [CacheJob CHR ''R'' 0x40 0]) =
       (if q = MESI then 2 else 1)" if "q \<in> {MSI, MESI, MOESI}" for q
    using that by (elim insertE emptyE; hypsubst; code_simp)+
  have "p \<in> {MSI, MESI, MOESI}" by (cases p) simp_all
  note E = eval [OF this]
  have "run_bound ?k ?jobs \<le> int (nat (run_bound ?k ?jobs))" by simp
  then obtain s where s: "simulate ?k (nat (run_bound ?k ?jobs)) ?jobs = Some (Inr s)"
    "reached ?k ?jobs s" "((map cache_view (caches s), stats s), uint (cycles s)) = abs_run ?k ?jobs"
    by (rule simulate_refines [OF wf_configured ok E(1)])
  have st: "stats s = run_stats ?k ?jobs"
    by (simp only: run_stats_def fst_conv snd_conv flip: s(3))
  have "\<not> more_work s"
    using main_loop_reached [OF reached.first] s(1) unfolding simulate_def by blast
  with s(2) st E show ?thesis unfolding more_work_def by metis
qed

text \<open>
  C22: a line that is replaced in a full set of lines that are not all modified is not counted
  as evicted.
\<close>

theorem eviction_not_counted:
  assumes "wf_cache k now c" and "wf_constants k" and "now < ULLONG_MAX"
    and "currentJob c = Some job" and "decode_address k (address job) = x"
    and "must_replace k (cache_view c) x"
    and "cache_view c (fst x, t) = Some s" and "s \<noteq> modified"
  shows "\<exists>d st' y. busJobDone k now sh (c, st) = Inr (d, st') \<and> numEvict st' = numEvict st \<and>
    cache_view c y \<noteq> None \<and> cache_view d y = None"
proof -
  obtain d v where d: "busJobDone k now sh (c, st) =
        Inr (d, fill_stats k job sh (old_state (cache_view c) x)
                  (if write_back_needed k c x then count_evict st else st))"
    "room_made k c x v"
    "cache_view d = v(x \<mapsto> fill_state k job sh (old_state (cache_view c) x))"
    by (rule busJobDone_spec [OF assms(1-5), of sh st])
  obtain i u where x: "x = (i, u)" by (cases x)
  note D = decoded_set [OF assms(1,2), of "address job" i u, unfolded assms(5), OF x]
  have "line_at (localCache c ! nat i) t = Some s"
    using assms(7) D(4) by (simp add: x)
  moreover from this have "t \<in> set (tags_of (localCache c ! nat i))"
    by (metis hasLine_iff hasLine_line_at option.distinct(1))
  ultimately have "\<not> isFull k (localCache c ! nat i)"
    using assms(8) D(3) isFull_alt [of "localCache c ! nat i" k] unfolding wf_set_def by fastforce
  then have "\<not> write_back_needed k c x"
    by (simp add: write_back_needed_def x)
  then have evict: "numEvict (fill_stats k job sh (old_state (cache_view c) x)
      (if write_back_needed k c x then count_evict st else st)) = numEvict st"
    by (simp add: fill_stats_def split: protocol_kind.split)
  have "room_for k (cache_view c) x v"
    by (rule room_made_room_for [OF assms(1,2,5) d(2)])
  then obtain w where w: "cache_view c (fst x, w) \<noteq> None" "v = (cache_view c)((fst x, w) := None)"
    using assms(6) by (auto simp: room_for_def)
  have "(fst x, w) \<noteq> x"
    using w(1) assms(6) by (auto simp: must_replace_def)
  then have "cache_view d (fst x, w) = None"
    using d(3) w(2) by simp
  with d(1) evict w(1) show ?thesis by blast
qed

definition direct_mapped :: constants where
  "direct_mapped = (configured MESI x86_shl_one)\<lparr>numLinesInSet := 1\<rparr>"

definition full_cache :: cache where
  "full_cache = (new_cache direct_mapped 0 [])\<lparr>
     localCache := (replicate 64 empty_set_of_lines)[1 := \<lparr>allLines = [setState shared (CacheLine 0x40 1 0)]\<rparr>],
     currentJob := Some (CacheJob CHR ''R'' 0x1040 0)\<rparr>"

lemma full_cache_views:
  "cache_view full_cache (1, t) = (if t = 0 then Some shared else None)"
  by (simp add: cache_view_def full_cache_def line_at_def setState_def CacheLine_def)

lemma direct_mapped_wf: "wf_constants direct_mapped"
  by (simp add: direct_mapped_def wf_constants_def)

lemma full_cache_wf: "wf_cache direct_mapped 1 full_cache"
  by (auto simp: wf_cache_def full_cache_def direct_mapped_def wf_set_def used_by_def tags_of_def
      empty_set_of_lines_def setState_def CacheLine_def dest!: set_update_subset_insert [THEN subsetD])

theorem eviction_not_counted_witness:
  "\<exists>d st' y. busJobDone direct_mapped 1 False (full_cache, CacheStats) = Inr (d, st') \<and>
     numEvict st' = 0 \<and> cache_view full_cache y \<noteq> None \<and> cache_view d y = None"
proof -
  have x: "decode_address direct_mapped (address (CacheJob CHR ''R'' 0x1040 0)) = (1, 1)"
    by code_simp
  have "{t. cache_view full_cache (1, t) \<noteq> None} = {0}"
    by (auto simp: full_cache_views)
  then have must: "must_replace direct_mapped (cache_view full_cache) (1, 1)"
    by (simp add: must_replace_def set_full_def full_cache_views direct_mapped_def)
  have "currentJob full_cache = Some (CacheJob CHR ''R'' 0x1040 0)"
    by (simp add: full_cache_def)
  moreover have "(1 :: u64) < ULLONG_MAX" by code_simp
  moreover have "cache_view full_cache (fst (1, 1 :: int), 0) = Some shared"
    by (simp add: full_cache_views)
  moreover have "numEvict CacheStats = 0" by (simp add: CacheStats_def)
  ultimately show ?thesis
    using eviction_not_counted [OF full_cache_wf direct_mapped_wf _ _ x must, of 0 shared False CacheStats]
    by auto
qed

end
