(* ===== verification/Liveness.thy ===== *)
theory Liveness
  imports Progress
begin

text \<open>
  Every wait ends: a busy cache is served within the time of one service, before the next job is
  handed out.
\<close>

section \<open>Waiting\<close>

text \<open>One more iteration of the main loop.\<close>

definition iteration :: "constants \<Rightarrow> sim \<Rightarrow> sim \<Rightarrow> bool" where
  "iteration k s s' \<longleftrightarrow> more_work s \<and> main_step k s = Inr s'"

lemma phase_work_pos: "ph \<noteq> Idle \<Longrightarrow> 0 < phase_work n ph"
  by (cases ph) (simp_all add: phase_work_def)

lemma machine_wait_decreases:
  assumes "machine_step k m m'" and "m_phase m \<noteq> Idle"
  shows "m_jobs m' = m_jobs m"
    and "phase_work (m_clock m') (m_phase m') < phase_work (m_clock m) (m_phase m)"
  using assms by (auto elim!: machine_stepE simp: phase_work_def)

lemma machine_wait_starts:
  assumes "machine_step k m m'" and "m_phase m = Idle" and "wf_constants k" and "good k X m"
    and "in_sets k X"
  shows "m_jobs m' = tl (m_jobs m) \<and> phase_work (m_clock m') (m_phase m') \<le> service_bound k + 1"
  using assms(1)
proof cases
  case (start wb job vs st ph vs' st' jobs n)
  have len: "length vs = nat (numProcessors k)" "compatible (owner_agree (protocol k)) vs"
    "within X vs" "nat (threadId job) < length vs"
    using assms(4) by (auto simp: good_def coherent_machine_def start(1))
  have "0 \<le> phase_length ph \<and> phase_length ph \<le> service_bound k"
    by (rule start_length [OF start(3) assms(3) len(1-3) assms(5) len(4)])
  with phase_work_start [of ph n] service_bound_pos [OF assms(3)]
  have "phase_work (n + 1) (at_time (n + 1) ph) \<le> service_bound k + 1" by linarith
  then show ?thesis by (simp add: start(1,2))
qed (use assms(2) in simp_all)

lemma busy_phase: "in_phase k s ph \<Longrightarrow> ph \<noteq> Idle \<Longrightarrow> \<not> noJobs (caches s)"
  by (cases ph) (auto simp: in_phase_def noJobs_def working_def list_all_length)

text \<open>A machine that the state implements, and whose service has some time left.\<close>

definition waits :: "constants \<Rightarrow> cache_job list \<Rightarrow> int \<Rightarrow> sim \<Rightarrow> bool" where
  "waits k jobs n s \<longleftrightarrow>
     (\<exists>m. implements k s m \<and> good k (set (lines_of k jobs)) m \<and>
          m_clock m + work_left k m \<le> run_bound k jobs \<and> phase_work (m_clock m) (m_phase m) \<le> n)"

lemma waits_step:
  assumes "waits k jobs n s" and more: "more_work s" and wfk: "wf_constants k"
    and bound: "run_bound k jobs + 2 < 2 ^ 64"
  shows "\<exists>s'. iteration k s s' \<and>
    (if noJobs (caches s)
     then waits k jobs (service_bound k + 1) s' \<and> outstandingRequests s' = tl (outstandingRequests s)
     else 0 < n \<and> waits k jobs (n - 1) s' \<and> outstandingRequests s' = outstandingRequests s)"
proof -
  let ?X = "set (lines_of k jobs)"
  obtain m where m: "implements k s m" "good k ?X m" "m_clock m + work_left k m \<le> run_bound k jobs"
    "phase_work (m_clock m) (m_phase m) \<le> n"
    using assms(1) unfolding waits_def by blast
  note X = lines_in_sets [OF wfk, of jobs]
  obtain s' m' where step: "main_step k s = Inr s'" "machine_step k m m'" "implements k s' m'"
    by (rule main_step_implements [OF m(1) wfk m(2) X more]) (use m(3) bound in linarith)
  have keep: "good k ?X m'" "m_clock m' + work_left k m' \<le> run_bound k jobs"
    using owner.step_keeps [OF step(2) _ refl X] machine_work_decreases [OF step(2) wfk m(2) X] m(2,3)
    by (simp_all add: good_def)
  have jobs: "m_jobs m = outstandingRequests s" "m_jobs m' = outstandingRequests s'"
    using m(1) step(3) by (simp_all add: implements_def)
  have it: "iteration k s s'"
    using more step(1) by (simp add: iteration_def)
  show ?thesis
  proof (cases "m_phase m = Idle")
    case True
    then have "noJobs (caches s)"
      using m(1) by (simp add: implements_def in_phase_def noJobs_quiet)
    with it machine_wait_starts [OF step(2) True wfk m(2) X] step(3) keep jobs show ?thesis
      unfolding waits_def by auto
  next
    case False
    then have "\<not> noJobs (caches s)"
      using m(1) busy_phase [of k s "m_phase m"] by (simp add: implements_def)
    moreover have "phase_work (m_clock m') (m_phase m') \<le> n - 1"
      using machine_wait_decreases(2) [OF step(2) False] m(4) by simp
    then have "waits k jobs (n - 1) s'"
      using step(3) keep unfolding waits_def by blast
    moreover have "0 < n"
      using phase_work_pos [OF False, of "m_clock m"] m(4) by simp
    moreover have "outstandingRequests s' = outstandingRequests s"
      using machine_wait_decreases(1) [OF step(2) False] jobs by simp
    ultimately show ?thesis using it by auto
  qed
qed

lemma waits_initial:
  assumes "wf_constants k" and "trace_ok k jobs"
  shows "waits k jobs (service_bound k + 1) (initial_sim k jobs)"
proof -
  obtain m where m: "implements k (initial_sim k jobs) m" "good k (set (lines_of k jobs)) m"
    "m_clock m + work_left k m \<le> run_bound k jobs"
    using initial_sim_inv [OF assms] by (rule sim_invE)
  have "noJobs (caches (initial_sim k jobs))"
    by (auto simp: noJobs_def initial_sim_def new_cache_def list_all_iff)
  then have "m_phase m = Idle"
    using m(1) busy_phase [of k "initial_sim k jobs" "m_phase m"] by (auto simp: implements_def)
  with m service_bound_pos [OF assms(1)] show ?thesis
    unfolding waits_def by (intro exI [of _ m]) (simp add: phase_work_def)
qed

lemma reached_waits:
  assumes "reached k jobs s" and wfk: "wf_constants k" and ok: "trace_ok k jobs"
  shows "waits k jobs (service_bound k + 1) s"
  using assms(1)
proof induction
  case first
  show ?case by (rule waits_initial [OF wfk ok])
next
  case (iterate s s')
  have "run_bound k jobs + 2 < 2 ^ 64" using ok by (simp add: trace_ok_def)
  from waits_step [OF iterate.IH iterate.hyps(2) wfk this] iterate.hyps(3)
  show ?case by (auto simp: iteration_def waits_def split: if_splits)
qed

lemma waits_mono: "waits k jobs n s \<Longrightarrow> n \<le> n' \<Longrightarrow> waits k jobs n' s"
  unfolding waits_def by (meson order_trans)

text \<open>The caches come to rest before the next job is handed out.\<close>

lemma comes_to_rest:
  assumes "waits k jobs (int d) s" and wfk: "wf_constants k" and bound: "run_bound k jobs + 2 < 2 ^ 64"
    and "int d \<le> service_bound k + 1"
  shows "\<exists>i s'. i \<le> d \<and> (iteration k ^^ i) s s' \<and> noJobs (caches s') \<and>
    waits k jobs (service_bound k + 1) s' \<and> outstandingRequests s' = outstandingRequests s"
  using assms(1,4)
proof (induction d arbitrary: s)
  case 0
  have "noJobs (caches s)"
  proof (rule ccontr)
    assume "\<not> noJobs (caches s)"
    moreover from this have "more_work s" by (simp add: more_work_def)
    ultimately show False
      using waits_step [OF 0(1) _ wfk bound] by auto
  qed
  with 0 waits_mono [OF 0(1)] show ?case
    by (intro exI [of _ 0] exI [of _ s]) simp
next
  case (Suc d)
  show ?case
  proof (cases "noJobs (caches s)")
    case True
    with waits_mono [OF Suc.prems] show ?thesis
      by (intro exI [of _ 0] exI [of _ s]) simp
  next
    case False
    then have "more_work s" by (simp add: more_work_def)
    from waits_step [OF Suc.prems(1) this wfk bound] False
    obtain s1 where s1: "iteration k s s1" "waits k jobs (int d) s1"
      "outstandingRequests s1 = outstandingRequests s" by auto
    moreover have "int d \<le> service_bound k + 1" using Suc.prems(2) by simp
    ultimately obtain i s' where "i \<le> d" "(iteration k ^^ i) s1 s'" "noJobs (caches s')"
      "waits k jobs (service_bound k + 1) s'" "outstandingRequests s' = outstandingRequests s1"
      using Suc.IH by blast
    with s1 relpowp_Suc_I2 [where P = "iteration k", OF s1(1), of i s'] show ?thesis
      by (intro exI [of _ "Suc i"] exI [of _ s']) (simp del: relpowp.simps)
  qed
qed

lemma comes_to_rest_from:
  assumes "waits k jobs (service_bound k + 1) s" and "wf_constants k" and "run_bound k jobs + 2 < 2 ^ 64"
  obtains i s' where "int i \<le> service_bound k + 1" and "(iteration k ^^ i) s s'" and "noJobs (caches s')"
    and "waits k jobs (service_bound k + 1) s'" and "outstandingRequests s' = outstandingRequests s"
proof -
  have n: "int (nat (service_bound k + 1)) = service_bound k + 1"
    using service_bound_pos [OF assms(2)] by simp
  have w: "waits k jobs (int (nat (service_bound k + 1))) s" "int (nat (service_bound k + 1)) \<le> service_bound k + 1"
    by (simp_all only: n assms(1))
  obtain i s' where *: "i \<le> nat (service_bound k + 1)" "(iteration k ^^ i) s s'" "noJobs (caches s')"
    "waits k jobs (service_bound k + 1) s'" "outstandingRequests s' = outstandingRequests s"
    by (rule exE [OF comes_to_rest [OF w(1) assms(2,3) w(2)]], elim exE conjE)
  from *(1) have "int i \<le> service_bound k + 1" using n by linarith
  from that [OF this *(2-5)] show thesis .
qed

text \<open>The first jobs of the queue are handed out and served one after the other.\<close>

lemma served_in_turn:
  assumes "waits k jobs (service_bound k + 1) s" and wfk: "wf_constants k"
    and bound: "run_bound k jobs + 2 < 2 ^ 64" and "i \<le> length (outstandingRequests s)"
  shows "\<exists>n s'. int n \<le> int i * (service_bound k + 2) + service_bound k + 1 \<and>
    (iteration k ^^ n) s s' \<and> noJobs (caches s') \<and> waits k jobs (service_bound k + 1) s' \<and>
    outstandingRequests s' = drop i (outstandingRequests s)"
  using assms(4)
proof (induction i)
  case 0
  obtain n s' where "int n \<le> service_bound k + 1" "(iteration k ^^ n) s s'" "noJobs (caches s')"
    "waits k jobs (service_bound k + 1) s'" "outstandingRequests s' = outstandingRequests s"
    by (rule comes_to_rest_from [OF assms(1) wfk bound])
  then show ?case by (intro exI [of _ n] exI [of _ s']) simp
next
  case (Suc i)
  then obtain n s1 where s1: "int n \<le> int i * (service_bound k + 2) + service_bound k + 1"
    "(iteration k ^^ n) s s1" "noJobs (caches s1)" "waits k jobs (service_bound k + 1) s1"
    "outstandingRequests s1 = drop i (outstandingRequests s)" by auto
  have "more_work s1"
    using s1(5) Suc.prems by (auto simp: more_work_def)
  from waits_step [OF s1(4) this wfk bound] s1(3) obtain s2 where s2: "iteration k s1 s2"
    "waits k jobs (service_bound k + 1) s2" "outstandingRequests s2 = tl (outstandingRequests s1)" by auto
  obtain j s' where s': "int j \<le> service_bound k + 1" "(iteration k ^^ j) s2 s'" "noJobs (caches s')"
    "waits k jobs (service_bound k + 1) s'" "outstandingRequests s' = outstandingRequests s2"
    by (rule comes_to_rest_from [OF s2(2) wfk bound])
  have "(iteration k ^^ (n + Suc j)) s s'"
    using s1(2) relpowp_Suc_I2 [where P = "iteration k", OF s2(1) s'(2)] by (auto simp: relpowp_add)
  moreover have "int (n + Suc j) \<le> int (Suc i) * (service_bound k + 2) + service_bound k + 1"
    using s1(1) s'(1) by (simp add: algebra_simps)
  moreover have "outstandingRequests s' = drop (Suc i) (outstandingRequests s)"
    using s'(5) s2(3) s1(5) by (simp add: drop_Suc tl_drop)
  ultimately show ?case using s'(3,4) by blast
qed

text \<open>
  C16: every job is served in its turn. From any state of the main loop, the caches come to rest
  with the first \<open>i\<close> jobs of the queue handed out and served, and no other, within \<open>i\<close> times the
  longest service, one more for what is under way.
\<close>

theorem jobs_served_in_turn:
  assumes "wf_constants k" and "trace_ok k jobs" and "reached k jobs s"
    and "i \<le> length (outstandingRequests s)"
  shows "\<exists>n s'. int n \<le> int i * (service_bound k + 2) + service_bound k + 1 \<and>
    (iteration k ^^ n) s s' \<and> noJobs (caches s') \<and>
    outstandingRequests s' = drop i (outstandingRequests s)"
proof -
  have "run_bound k jobs + 2 < 2 ^ 64" using assms(2) by (simp add: trace_ok_def)
  from served_in_turn [OF reached_waits [OF assms(3,1,2)] assms(1) this assms(4)]
  show ?thesis by (elim exE conjE) (intro exI conjI)
qed

theorem jobs_served_in_turn_witness:
  "\<exists>n s'. int n \<le> 2011 \<and>
     (iteration (configured MESI x86_shl_one) ^^ n)
       (initial_sim (configured MESI x86_shl_one) [CacheJob CHR ''W'' 0x40 3]) s' \<and>
     noJobs (caches s') \<and> outstandingRequests s' = []"
proof -
  have "trace_ok (configured MESI x86_shl_one) [CacheJob CHR ''W'' 0x40 3]"
    by (simp add: trace_ok_def run_bound_def service_bound_def CacheJob_def)
  from jobs_served_in_turn [OF wf_configured this reached.first, of 1] show ?thesis
    by (simp add: initial_sim_def service_bound_def)
qed

end
