(* ===== verification/State_Types.thy ===== *)
theory State_Types
  imports Refinement
begin

text \<open>
  The types that the code does not declare: a line is only ever in one of the states of its
  protocol, though \<open>CacheLine::State\<close> has five, and the vectors keep their sizes.
\<close>

definition protocol_state :: "protocol_kind \<Rightarrow> line_state \<Rightarrow> bool" where
  "protocol_state P s =
     (case P of MSI \<Rightarrow> s \<in> {invalid, shared, modified}
      | MESI \<Rightarrow> s \<in> {invalid, shared, modified, exclusive}
      | MOESI \<Rightarrow> True)"

lemma protocol_state_legal:
  "protocol_state MSI s \<longleftrightarrow> MSI_legal s" "protocol_state MESI s \<longleftrightarrow> MESI_legal s" "protocol_state MOESI s"
  by (cases s; simp add: protocol_state_def MSI_legal_def MESI_legal_def)+

context coherence
begin

lemma reached_legal:
  assumes "reached k jobs s" and "wf_constants k" and "trace_ok k jobs"
    and P: "protocol k = P" and sep: "strict \<longrightarrow> tags_separate (set (lines_of k jobs))"
    and p: "p < length (caches s)" and x: "cache_view (caches s ! p) x = Some st"
  shows "legal st"
proof -
  obtain m where m: "(machine_step k)\<^sup>*\<^sup>* (machine_start k jobs) m" "implements k s m"
    using reached_inv [OF assms(1-3)] by (rule sim_invE)
  have "coherent_machine agree legal k (set (lines_of k jobs)) m"
    by (rule path_coherent [OF m(1) assms(2,3) P sep])
  then have "all_legal legal (map cache_view (caches s))"
    using m(2) by (simp add: coherent_machine_def implements_def)
  from all_legalD [OF this, of p x st] p x show ?thesis by simp
qed

end

interpretation typed: coherence P False "\<lambda>_ _. True" "protocol_state P" for P
proof unfold_locales
  fix s m
  assume "protocol_state P s"
  then show "protocol_state P (snoop_next P m s)"
    using msi.snoop_legal [of s m] mesi.snoop_legal [of s m]
    by (cases P) (simp_all add: protocol_state_legal)
next
  fix sh
  show "protocol_state P (read_state P sh)"
    by (cases P) (simp_all add: protocol_state_def read_state_def)
next
  show "protocol_state P modified"
    by (cases P) (simp_all add: protocol_state_def)
qed simp_all

lemma line_at_member:
  assumes "distinct (tags_of s)" and "l \<in> set (allLines s)"
  shows "line_at s (myTag l) = Some (myState l)"
proof (cases "line_at s (myTag l)")
  case None
  with assms(2) show ?thesis
    by (auto simp: line_at_def find_index_None_iff)
next
  case (Some st)
  then obtain i where i: "find_index (\<lambda>l'. myTag l' = myTag l) (allLines s) = Some i"
    "st = myState (allLines s ! i)" by (auto simp: line_at_def)
  obtain j where j: "j < length (allLines s)" "allLines s ! j = l"
    using assms(2) by (auto simp: in_set_conv_nth)
  have "i < length (allLines s)" "myTag (allLines s ! i) = myTag l"
    using find_index_SomeD [OF i(1)] by simp_all
  with j assms(1) have "i = j"
    by (simp add: tags_of_def distinct_conv_nth) (metis (no_types))
  with i j Some show ?thesis by simp
qed

text \<open>
  C12: at every iteration each cache has its number of sets, each set at most its number of lines
  with distinct tags, and each line a state of the protocol: under MSI never exclusive or owned,
  under MESI never owned.
\<close>

theorem lines_have_protocol_states:
  assumes "wf_constants k" and "trace_ok k jobs" and "reached k jobs s"
    and "c \<in> set (caches s)" and "cs \<in> set (localCache c)"
  shows "length (caches s) = nat (numProcessors k) \<and> length (localCache c) = nat (numSets k) \<and>
    int (length (allLines cs)) \<le> numLinesInSet k \<and> distinct (map myTag (allLines cs)) \<and>
    list_all (\<lambda>l. protocol_state (protocol k) (myState l)) (allLines cs)"
proof -
  obtain ph where ph: "in_phase k s ph" by (rule reached_in_phase [OF assms(3,1,2)])
  then have wf: "wf_cache k (cycles s) c" "length (caches s) = nat (numProcessors k)"
    using assms(4) by (simp_all add: in_phase_def list_all_iff)
  then have cs: "wf_set k cs" "length (localCache c) = nat (numSets k)"
    using assms(5) by (simp_all add: wf_cache_def)
  obtain p where p: "p < length (caches s)" "caches s ! p = c"
    using assms(4) by (auto simp: in_set_conv_nth)
  obtain i where i: "i < length (localCache c)" "localCache c ! i = cs"
    using assms(5) by (auto simp: in_set_conv_nth)
  have "protocol_state (protocol k) (myState l)" if "l \<in> set (allLines cs)" for l
  proof (rule typed.reached_legal [OF assms(3,1,2) refl _ p(1)])
    show "cache_view (caches s ! p) (int i, myTag l) = Some (myState l)"
      using line_at_member [OF _ that] cs(1) i by (simp add: p(2) cache_view_def wf_set_def)
  qed simp
  with wf cs show ?thesis
    by (simp add: wf_set_def tags_of_def list_all_iff)
qed

theorem lines_have_protocol_states_witness:
  "list_all (\<lambda>c. list_all (\<lambda>cs. list_all (\<lambda>l. protocol_state MSI (myState l)) (allLines cs)) (localCache c))
     (caches (initial_sim (configured MSI x86_shl_one) [CacheJob CHR ''R'' 0x40 0]))"
proof -
  have "trace_ok (configured MSI x86_shl_one) [CacheJob CHR ''R'' 0x40 0]"
    by (simp add: trace_ok_def run_bound_def service_bound_def CacheJob_def)
  from lines_have_protocol_states [OF wf_configured this reached.first] show ?thesis
    by (simp add: list_all_iff)
qed

end
