(* ===== verification/Numerals.thy ===== *)
theory Numerals
  imports Main
begin

text \<open>
  Numbers in the notation of a base up to 16, as \<open>printf\<close>, \<open>sscanf\<close> and
  JavaScript's \<open>toString\<close> write and read them.
\<close>

definition digit_value :: "nat \<Rightarrow> char \<Rightarrow> nat option" where
  "digit_value base c =
     (let n = of_char c :: nat;
          v = (if 48 \<le> n \<and> n \<le> 57 then n - 48
               else if 97 \<le> n \<and> n \<le> 102 then n - 87
               else if 65 \<le> n \<and> n \<le> 70 then n - 55
               else base)
      in if v < base then Some v else None)"

definition is_digit :: "nat \<Rightarrow> char \<Rightarrow> bool" where
  "is_digit base c \<longleftrightarrow> digit_value base c \<noteq> None"

definition number_of :: "nat \<Rightarrow> string \<Rightarrow> int" where
  "number_of base s = foldl (\<lambda>n c. n * int base + int (the (digit_value base c))) 0 s"

definition digit_char :: "nat \<Rightarrow> char" where
  "digit_char n = char_of (if n < 10 then 48 + n else 87 + n)"

function digits :: "nat \<Rightarrow> nat \<Rightarrow> string" where
  "digits base n =
     (if n < base \<or> base < 2 then [digit_char n] else digits base (n div base) @ [digit_char (n mod base)])"
  by pat_completeness auto
termination
  by (relation "measure snd") (auto simp: div_less_dividend)

declare digits.simps [simp del]

section \<open>Reading what was written\<close>

lemma digit_value_char: "n < base \<Longrightarrow> base \<le> 16 \<Longrightarrow> digit_value base (digit_char n) = Some n"
  by (auto simp: digit_value_def digit_char_def Let_def)

lemma is_digit_char: "n < base \<Longrightarrow> base \<le> 16 \<Longrightarrow> is_digit base (digit_char n)"
  by (simp add: is_digit_def digit_value_char)

lemma digits_are_digits:
  assumes "2 \<le> base" and "base \<le> 16"
  shows "list_all (is_digit base) (digits base n)"
proof (induction n rule: less_induct)
  case (less n)
  show ?case
  proof (cases "n < base")
    case True
    then show ?thesis
      using assms by (subst digits.simps) (simp add: is_digit_char)
  next
    case False
    then have "n div base < n"
      using assms by simp
    with less.IH [of "n div base"] False show ?thesis
      using assms by (subst digits.simps) (simp add: is_digit_char)
  qed
qed

lemma number_of_digits:
  assumes "2 \<le> base" and "base \<le> 16"
  shows "number_of base (digits base n) = int n"
proof (induction n rule: less_induct)
  case (less n)
  show ?case
  proof (cases "n < base")
    case True
    then show ?thesis
      using assms by (subst digits.simps) (simp add: number_of_def digit_value_char)
  next
    case False
    then have "n div base < n"
      using assms by simp
    from less.IH [OF this] have "number_of base (digits base n) =
        int (n div base) * int base + int (n mod base)"
      using False assms by (subst digits.simps) (simp add: number_of_def digit_value_char)
    also have "\<dots> = int n"
      by (simp flip: of_nat_mult of_nat_add)
    finally show ?thesis .
  qed
qed

lemma digits_not_empty: "digits base n \<noteq> []"
  by (subst digits.simps) simp

lemma digits_inject:
  assumes "2 \<le> base" and "base \<le> 16" and "digits base m = digits base n"
  shows "m = n"
  using assms by (metis number_of_digits of_nat_eq_iff)

end
