(* ===== verification/Trace_Format.thy ===== *)
theory Trace_Format
  imports Jobs Constants Numerals
begin

text \<open>
  The trace file: the loop of \<open>main\<close> in CacheController.cpp that reads it with
  \<open>getline\<close> and \<open>sscanf\<close>, and the two functions of the pin tool that write its
  lines. The conversions of \<open>sscanf\<close> are those of the C standard; what the standard
  leaves undefined, a number that does not fit its type, is a value of its own.
\<close>

section \<open>The conversions of sscanf\<close>

datatype 'a scan =
    Matched 'a string   \<comment> \<open>the value, and the input that is left\<close>
  | Mismatch            \<comment> \<open>the directive fails: sscanf returns\<close>
  | Undefined           \<comment> \<open>the value does not fit the object\<close>

definition is_space :: "char \<Rightarrow> bool" where
  "is_space c = (let n = of_char c :: nat in n = 32 \<or> 9 \<le> n \<and> n \<le> 13)"

text \<open>White space, an optional sign, for base 16 an optional prefix, and digits.\<close>

definition strip_sign :: "string \<Rightarrow> bool \<times> string" where
  "strip_sign s =
     (case s of
        [] \<Rightarrow> (False, s)
      | c # r \<Rightarrow> if c = CHR ''-'' then (True, r) else if c = CHR ''+'' then (False, r) else (False, s))"

definition strip_prefix :: "nat \<Rightarrow> string \<Rightarrow> string" where
  "strip_prefix base s =
     (if base = 16 \<and> (take 2 s = ''0x'' \<or> take 2 s = ''0X'') then drop 2 s else s)"

definition scan_number :: "nat \<Rightarrow> string \<Rightarrow> (bool \<times> int) scan" where
  "scan_number base s =
     (let (negative, s) = strip_sign (dropWhile is_space s);
          s = strip_prefix base s;
          digits = takeWhile (is_digit base) s
      in if digits = [] then Mismatch
         else Matched (negative, number_of base digits) (dropWhile (is_digit base) s))"

text \<open>\<open>%llx\<close>, where a minus sign negates, and \<open>%u\<close>, where it leaves the type.\<close>

definition scan_llx :: "string \<Rightarrow> u64 scan" where
  "scan_llx s =
     (case scan_number 16 s of
        Matched (negative, n) rest \<Rightarrow>
          if n < 2 ^ 64 then Matched (word_of_int (if negative then - n else n)) rest else Undefined
      | Mismatch \<Rightarrow> Mismatch
      | Undefined \<Rightarrow> Undefined)"

definition scan_u :: "string \<Rightarrow> u32 scan" where
  "scan_u s =
     (case scan_number 10 s of
        Matched (negative, n) rest \<Rightarrow>
          if n < 2 ^ 32 \<and> (negative \<longrightarrow> n = 0) then Matched (word_of_int n) rest else Undefined
      | Mismatch \<Rightarrow> Mismatch
      | Undefined \<Rightarrow> Undefined)"

section \<open>The loop over the lines\<close>

text \<open>
  The variables that \<open>sscanf\<close> assigns keep their values from line to line. It reads a line as
  a C string, up to the first null character.
\<close>

type_synonym trace_vars = "char \<times> u64 \<times> u32"

definition initial_vars :: trace_vars where
  "initial_vars = (CHR '' '', 0, 0)"

definition c_str :: "string \<Rightarrow> string" where
  "c_str line = takeWhile (\<lambda>c. c \<noteq> CHR 0x00) line"

definition scan_line :: "trace_vars \<Rightarrow> string \<Rightarrow> trace_vars option" where
  "scan_line = (\<lambda>(c, a, t) line.
     case c_str line of
       [] \<Rightarrow> Some (c, a, t)
     | c # s \<Rightarrow>
         (case scan_llx s of
            Mismatch \<Rightarrow> Some (c, a, t)
          | Undefined \<Rightarrow> None
          | Matched a s \<Rightarrow>
              (case scan_u s of
                 Mismatch \<Rightarrow> Some (c, a, t)
               | Undefined \<Rightarrow> None
               | Matched t _ \<Rightarrow> Some (c, a, t))))"

definition job_of :: "constants \<Rightarrow> trace_vars \<Rightarrow> cache_job" where
  "job_of k = (\<lambda>(c, a, t). CacheJob c a (uint (t mod word_of_int (numProcessors k))))"

fun read_lines :: "constants \<Rightarrow> trace_vars \<Rightarrow> string list \<Rightarrow> cache_job list option" where
  "read_lines k vars [] = Some []"
| "read_lines k vars (line # lines) =
     (case scan_line vars line of
        None \<Rightarrow> None
      | Some vars \<Rightarrow> map_option ((#) (job_of k vars)) (read_lines k vars lines))"

definition newline :: char where
  "newline = CHR 0x0A"

text \<open>\<open>getline\<close>: the text up to each newline, and what follows the last one, if anything.\<close>

fun getlines :: "string \<Rightarrow> string list" where
  "getlines [] = []"
| "getlines (c # s) =
     (if c = newline then [] # getlines s
      else (case getlines s of [] \<Rightarrow> [[c]] | l # ls \<Rightarrow> (c # l) # ls))"

definition read_trace :: "constants \<Rightarrow> string \<Rightarrow> cache_job list option" where
  "read_trace k file = read_lines k initial_vars (getlines file)"

text \<open>The numbers at the places of a line where \<open>sscanf\<close> looks for them fit their types.\<close>

definition line_fits :: "string \<Rightarrow> bool" where
  "line_fits line =
     (case scan_number 16 (drop 1 (c_str line)) of
        Matched (_, addr) rest \<Rightarrow> addr < 2 ^ 64 \<and>
          (case scan_number 10 rest of
             Matched (negative, tid) _ \<Rightarrow> tid < 2 ^ 32 \<and> (negative \<longrightarrow> tid = 0)
           | _ \<Rightarrow> True)
      | _ \<Rightarrow> True)"

section \<open>The lines of the pin tool\<close>

text \<open>
  \<open>%p\<close> prints an address as the traces of the repository show it, \<open>0x\<close> and digits; the C
  library of Linux prints the null pointer as \<open>(nil)\<close>.
\<close>

definition pointer_text :: "u64 \<Rightarrow> string" where
  "pointer_text addr = (if addr = 0 then ''(nil)'' else ''0x'' @ digits 16 (unat addr))"

definition record_line :: "char \<Rightarrow> u64 \<Rightarrow> nat \<Rightarrow> string" where
  "record_line c addr tid =
     [c] @ '' '' @ pointer_text addr @ '' '' @ digits 10 tid @ [newline]"

definition RecordMemRead :: "u64 \<Rightarrow> nat \<Rightarrow> string" where
  "RecordMemRead addr tid = record_line CHR ''R'' addr tid"

definition RecordMemWrite :: "u64 \<Rightarrow> nat \<Rightarrow> string" where
  "RecordMemWrite addr tid = record_line CHR ''W'' addr tid"

text \<open>A run of the tool: the accesses \<open>(write, address, thread)\<close> in the order recorded.\<close>

definition record_all :: "(bool \<times> u64 \<times> nat) list \<Rightarrow> string" where
  "record_all accs =
     concat (map (\<lambda>(w, a, t). if w then RecordMemWrite a t else RecordMemRead a t) accs)"

section \<open>Every job read is for a processor of the machine\<close>

lemma job_of_processor:
  assumes "0 < numProcessors k" and "numProcessors k < 2 ^ 32"
  shows "0 \<le> threadId (job_of k vars)" and "threadId (job_of k vars) < numProcessors k"
proof -
  obtain c a t where vars: "vars = (c, a, t)" by (cases vars)
  have n: "uint (word_of_int (numProcessors k) :: u32) = numProcessors k"
    using assms by (simp add: uint_word_of_int)
  have t: "threadId (job_of k vars) = uint t mod numProcessors k"
    by (simp add: vars job_of_def CacheJob_def uint_mod_distrib n)
  show "0 \<le> threadId (job_of k vars)" "threadId (job_of k vars) < numProcessors k"
    using assms by (simp_all add: t)
qed

lemma read_lines_processors:
  assumes "0 < numProcessors k" and "numProcessors k < 2 ^ 32"
  shows "read_lines k vars lines = Some jobs \<Longrightarrow>
    list_all (\<lambda>job. 0 \<le> threadId job \<and> threadId job < numProcessors k) jobs"
proof (induction lines arbitrary: vars jobs)
  case Nil
  then show ?case by simp
next
  case (Cons line lines)
  then show ?case
    using job_of_processor [OF assms] by (auto split: option.splits)
qed

lemma read_lines_length: "read_lines k vars lines = Some jobs \<Longrightarrow> length jobs = length lines"
proof (induction lines arbitrary: vars jobs)
  case Nil
  then show ?case by simp
next
  case (Cons line lines)
  then show ?case by (auto split: option.splits)
qed

text \<open>A file is read exactly when the numbers of all its lines fit.\<close>

lemma scan_number_not_Undefined: "scan_number base s \<noteq> Undefined"
  by (simp add: scan_number_def Let_def split: prod.split)

lemma scan_line_None_iff: "scan_line vars line = None \<longleftrightarrow> \<not> line_fits line"
proof (cases "c_str line")
  case Nil
  then show ?thesis
    by (cases vars) (simp add: scan_line_def line_fits_def scan_number_def strip_sign_def strip_prefix_def Let_def)
next
  case (Cons c s)
  then show ?thesis
    by (cases vars) (auto simp: scan_line_def line_fits_def scan_llx_def scan_u_def scan_number_not_Undefined
        split: scan.split)
qed

lemma read_lines_None_iff: "read_lines k vars lines = None \<longleftrightarrow> \<not> list_all line_fits lines"
proof (induction lines arbitrary: vars)
  case Nil
  then show ?case by simp
next
  case (Cons line lines)
  then show ?case
    using scan_line_None_iff [of vars line] by (cases "scan_line vars line") auto
qed

lemma span_digits:
  assumes "list_all P ds" and "rest = [] \<or> \<not> P (hd rest)"
  shows "takeWhile P (ds @ rest) = ds" and "dropWhile P (ds @ rest) = rest"
proof -
  have all: "\<forall>d \<in> set ds. P d" using assms(1) by (simp add: list_all_iff)
  have "takeWhile P rest = []" "dropWhile P rest = rest"
    using assms(2) by (cases rest; simp)+
  with all show "takeWhile P (ds @ rest) = ds" "dropWhile P (ds @ rest) = rest"
    by (simp_all add: takeWhile_append2 dropWhile_append2)
qed

lemma digit_not_special:
  "is_digit 10 c \<Longrightarrow> \<not> is_space c \<and> c \<noteq> CHR ''-'' \<and> c \<noteq> CHR ''+''"
  by (auto simp: is_digit_def digit_value_def is_space_def Let_def split: if_splits)

lemma scan_llx_record:
  assumes "rest = [] \<or> \<not> is_digit 16 (hd rest)"
  shows "scan_llx ('' 0x'' @ digits 16 (unat a) @ rest) = Matched a rest"
proof -
  let ?ds = "digits 16 (unat a)"
  have ds: "takeWhile (is_digit 16) (?ds @ rest) = ?ds" "dropWhile (is_digit 16) (?ds @ rest) = rest"
    using span_digits [OF digits_are_digits assms, of "unat a"] by simp_all
  have skip: "dropWhile is_space ('' 0x'' @ ?ds @ rest) = ''0x'' @ ?ds @ rest"
    by (simp add: is_space_def Let_def)
  have "scan_number 16 ('' 0x'' @ ?ds @ rest) = Matched (False, int (unat a)) rest"
    unfolding scan_number_def skip
    using ds digits_not_empty [of 16 "unat a"]
    by (simp add: strip_sign_def strip_prefix_def number_of_digits)
  moreover have "uint a < 2 ^ 64"
    using uint_bounded [of a] by simp
  ultimately show ?thesis
    by (simp add: scan_llx_def)
qed

lemma scan_u_record:
  assumes "t < 2 ^ 32"
  shows "scan_u ('' '' @ digits 10 t) = Matched (of_nat t) []"
proof -
  obtain c r where cr: "digits 10 t = c # r"
    using digits_not_empty [of 10 t] by (cases "digits 10 t") auto
  have all: "list_all (is_digit 10) (digits 10 t)"
    by (rule digits_are_digits) simp_all
  then have "\<not> is_space c \<and> c \<noteq> CHR ''-'' \<and> c \<noteq> CHR ''+''"
    by (intro digit_not_special) (simp add: cr)
  then have skip: "dropWhile is_space ('' '' @ digits 10 t) = digits 10 t"
    "strip_sign (digits 10 t) = (False, digits 10 t)"
    by (simp_all add: cr is_space_def strip_sign_def)
  have span: "takeWhile (is_digit 10) (digits 10 t) = digits 10 t"
    "dropWhile (is_digit 10) (digits 10 t) = []"
    using span_digits [OF all, of "[]"] by simp_all
  have "strip_prefix 10 (digits 10 t) = digits 10 t"
    by (simp add: strip_prefix_def)
  then have "scan_number 10 ('' '' @ digits 10 t) = Matched (False, int t) []"
    unfolding scan_number_def skip Let_def case_prod_conv span
    using digits_not_empty [of 10 t] by (simp add: span number_of_digits)
  with assms show ?thesis
    by (simp add: scan_u_def)
qed

section \<open>Reading back what was recorded\<close>

lemma scan_line_record:
  assumes "t < 2 ^ 32" and "c \<noteq> CHR 0x00"
  shows "scan_line vars (c # '' 0x'' @ digits 16 (unat a) @ '' '' @ digits 10 t) = Some (c, a, of_nat t)"
proof -
  have "is_digit 10 d \<Longrightarrow> d \<noteq> CHR 0x00" "is_digit 16 d \<Longrightarrow> d \<noteq> CHR 0x00" for d
    by (auto simp: is_digit_def digit_value_def)
  then have "CHR 0x00 \<notin> set (digits 16 (unat a))" "CHR 0x00 \<notin> set (digits 10 t)"
    using digits_are_digits [of 16 "unat a"] digits_are_digits [of 10 t] by (auto simp: list_all_iff)
  with assms(2) have "c_str (c # '' 0x'' @ digits 16 (unat a) @ '' '' @ digits 10 t) =
      c # '' 0x'' @ digits 16 (unat a) @ '' '' @ digits 10 t"
    unfolding c_str_def takeWhile_eq_all_conv by auto
  moreover have "\<not> is_digit 16 (CHR '' '')"
    by (simp add: is_digit_def digit_value_def)
  then have "scan_llx ('' 0x'' @ digits 16 (unat a) @ '' '' @ digits 10 t) =
      Matched a ('' '' @ digits 10 t)"
    by (intro scan_llx_record) simp
  ultimately show ?thesis
    using scan_u_record [OF assms(1)] by (cases vars) (simp add: scan_line_def)
qed

lemma getlines_line: "newline \<notin> set l \<Longrightarrow> getlines (l @ newline # s) = l # getlines s"
  by (induction l) auto

lemma newline_not_digit: "list_all (is_digit base) s \<Longrightarrow> base \<le> 16 \<Longrightarrow> newline \<notin> set s"
  by (auto simp: list_all_iff is_digit_def digit_value_def newline_def Let_def split: if_splits)

lemma getlines_record:
  assumes "c \<noteq> newline" and "a \<noteq> 0"
  shows "getlines (record_line c a t @ s) =
           (c # '' 0x'' @ digits 16 (unat a) @ '' '' @ digits 10 t) # getlines s"
proof -
  have "newline \<notin> set (c # '' 0x'' @ digits 16 (unat a) @ '' '' @ digits 10 t)"
    using assms(1) newline_not_digit [OF digits_are_digits, of 16 "unat a"]
      newline_not_digit [OF digits_are_digits, of 10 t]
    by (simp add: newline_def)
  from getlines_line [OF this, of s] show ?thesis
    using assms(2) by (simp add: record_line_def pointer_text_def)
qed

definition recorded_job :: "constants \<Rightarrow> bool \<times> u64 \<times> nat \<Rightarrow> cache_job" where
  "recorded_job k = (\<lambda>(w, a, t).
     CacheJob (if w then CHR ''W'' else CHR ''R'') a (int t mod numProcessors k))"

lemma job_of_recorded:
  assumes "0 < numProcessors k" and "numProcessors k < 2 ^ 32" and "t < 2 ^ 32"
  shows "job_of k (if w then CHR ''W'' else CHR ''R'', a, of_nat t) = recorded_job k (w, a, t)"
proof -
  have "uint (word_of_int (numProcessors k) :: u32) = numProcessors k" "uint (of_nat t :: u32) = int t"
    using assms by (simp_all add: uint_word_of_int unsigned_of_nat take_bit_nat_eq_self)
  then show ?thesis
    by (simp add: job_of_def recorded_job_def uint_mod_distrib)
qed

lemma read_lines_recorded:
  assumes "0 < numProcessors k" and "numProcessors k < 2 ^ 32"
    and "list_all (\<lambda>(w, a, t). a \<noteq> 0 \<and> t < 2 ^ 31) accs"
  shows "read_lines k vars (getlines (record_all accs)) = Some (map (recorded_job k) accs)"
  using assms(3)
proof (induction accs arbitrary: vars)
  case Nil
  then show ?case by (simp add: record_all_def)
next
  case (Cons acc accs)
  obtain w a t where acc: "acc = (w, a, t)" by (cases acc)
  let ?c = "if w then CHR ''W'' else CHR ''R''"
  have t: "t < 2 ^ 32" and a: "a \<noteq> 0" using Cons.prems by (simp_all add: acc)
  have "record_all (acc # accs) = record_line ?c a t @ record_all accs"
    by (simp add: record_all_def acc RecordMemRead_def RecordMemWrite_def)
  moreover have neq: "?c \<noteq> newline" and nul: "?c \<noteq> CHR 0x00" by (simp_all add: newline_def)
  ultimately have "getlines (record_all (acc # accs)) =
      (?c # '' 0x'' @ digits 16 (unat a) @ '' '' @ digits 10 t) # getlines (record_all accs)"
    by (simp only: getlines_record [OF neq a])
  moreover have "read_lines k vars' (getlines (record_all accs)) = Some (map (recorded_job k) accs)" for vars'
    using Cons by simp
  ultimately show ?case
    using scan_line_record [OF t nul, of vars a] job_of_recorded [OF assms(1,2) t, of w a]
    by (simp only: read_lines.simps acc option.case option.map list.map)
qed

end
