(* ===== verification/Recorder.thy ===== *)
theory Recorder
  imports Trace_Format "HOL-Library.Sublist"
begin

text \<open>
  pinatrace.cpp, the pin tool that records a trace: which instructions of a program it
  instruments, and what the running program then writes, for any interleaving of its threads.
  The Pin library is not part of the repository's code: the answers of its functions are a
  record that every definition takes as an argument.
\<close>

section \<open>The answers of Pin\<close>

text \<open>
  The undecorated name of a routine and its instructions, and for an instruction its memory
  operands. Instructions are told apart by their addresses.
\<close>

record ('rtn, 'ins) pin =
  undecorated_name :: "'rtn \<Rightarrow> string"
  instructions :: "'rtn \<Rightarrow> 'ins list"
  memoryOperandCount :: "'ins \<Rightarrow> nat"
  isStackRead :: "'ins \<Rightarrow> bool"
  isStackWrite :: "'ins \<Rightarrow> bool"
  memoryOperandIsRead :: "'ins \<Rightarrow> nat \<Rightarrow> bool"
  memoryOperandIsWritten :: "'ins \<Rightarrow> nat \<Rightarrow> bool"

text \<open>A call inserted before an instruction: the function, and the memory operand it is told.\<close>

datatype analysis =
    Call_RecordMemRead nat
  | Call_RecordMemWrite nat

type_synonym 'ins inserted = "('ins \<times> analysis) list"

section \<open>Routine\<close>

text \<open>\<open>std::string::find\<close>: the first position of the pattern, or \<open>npos\<close>.\<close>

definition find_text :: "string \<Rightarrow> string \<Rightarrow> nat option" where
  "find_text pat s = find_index (\<lambda>i. prefix pat (drop i s)) [0..<Suc (length s)]"

definition insert_call :: "'ins \<Rightarrow> analysis \<Rightarrow> 'ins inserted \<Rightarrow> 'ins inserted" where
  "insert_call ins c calls = calls @ [(ins, c)]"

text \<open>The loop over the memory operands, which a stack access leaves at once.\<close>

fun operand_loop :: "('rtn, 'ins) pin \<Rightarrow> 'ins \<Rightarrow> nat list \<Rightarrow> 'ins inserted \<Rightarrow> 'ins inserted" where
  "operand_loop pin ins [] calls = calls"
| "operand_loop pin ins (memOp # memOps) calls =
     (if isStackRead pin ins \<or> isStackWrite pin ins then calls
      else
        let calls = (if memoryOperandIsRead pin ins memOp
                     then insert_call ins (Call_RecordMemRead memOp) calls else calls);
            calls = (if memoryOperandIsWritten pin ins memOp
                     then insert_call ins (Call_RecordMemWrite memOp) calls else calls)
        in operand_loop pin ins memOps calls)"

definition instrument_instruction ::
    "('rtn, 'ins) pin \<Rightarrow> 'ins \<Rightarrow> 'ins inserted \<Rightarrow> 'ins inserted" where
  "instrument_instruction pin ins = operand_loop pin ins [0..<memoryOperandCount pin ins]"

text \<open>The loop over the configured names: every name found in the routine's instruments it.\<close>

fun Routine :: "('rtn, 'ins) pin \<Rightarrow> 'rtn \<Rightarrow> string list \<Rightarrow> 'ins inserted \<Rightarrow> 'ins inserted" where
  "Routine pin rtn [] calls = calls"
| "Routine pin rtn (userFunc # userFuncs) calls =
     (if find_text userFunc (undecorated_name pin rtn) = None then Routine pin rtn userFuncs calls
      else Routine pin rtn userFuncs (fold (instrument_instruction pin) (instructions pin rtn) calls))"

section \<open>main and Fini\<close>

text \<open>The lines of userfuncs.in; a file that cannot be opened gives none.\<close>

definition read_userFuncs :: "string option \<Rightarrow> string list" where
  "read_userFuncs config = (case config of None \<Rightarrow> [] | Some s \<Rightarrow> getlines s)"

text \<open>
  The tool while the program runs: the text written to user.trace, or None when it could not
  be opened, which the code does not test; the inserted calls; for each thread the calls that
  are still to be made before its current instruction; and the instructions executed so far,
  with their threads, predicates and effective addresses.
\<close>

type_synonym 'ins execution = "nat \<times> 'ins \<times> bool \<times> (nat \<Rightarrow> u64)"

record 'ins tool =
  trace_text :: "string option"
  calls :: "'ins inserted"
  pending :: "nat \<Rightarrow> (analysis \<times> (nat \<Rightarrow> u64)) list"
  executed :: "'ins execution list"
  closed :: bool

text \<open>When \<open>main\<close> has started the program, each of whose routines Pin has passed to \<open>Routine\<close>.\<close>

definition pintool_main :: "('rtn, 'ins) pin \<Rightarrow> 'rtn list \<Rightarrow> string option \<Rightarrow> bool \<Rightarrow> 'ins tool" where
  "pintool_main pin rtns config opened =
     \<lparr>trace_text = (if opened then Some [] else None),
      calls = fold (\<lambda>rtn. Routine pin rtn (read_userFuncs config)) rtns [],
      pending = (\<lambda>_. []), executed = [], closed = False\<rparr>"

definition calls_before :: "'ins inserted \<Rightarrow> 'ins \<Rightarrow> analysis list" where
  "calls_before cs ins = map snd (filter (\<lambda>(i, _). i = ins) cs)"

definition analysis_line :: "nat \<Rightarrow> analysis \<times> (nat \<Rightarrow> u64) \<Rightarrow> string" where
  "analysis_line tid = (\<lambda>(c, ea).
     case c of Call_RecordMemRead memOp \<Rightarrow> RecordMemRead (ea memOp) tid
     | Call_RecordMemWrite memOp \<Rightarrow> RecordMemWrite (ea memOp) tid)"

text \<open>
  What can happen next. A thread comes to an instruction, whose predicated calls become
  pending when its predicate holds; a thread makes its next call, as one step since the call
  holds the lock; the program exits and \<open>Fini\<close> closes the file. None: this event cannot
  happen now.
\<close>

datatype 'ins event =
    Executes nat 'ins bool "nat \<Rightarrow> u64"
  | Records nat
  | Exits

fun tool_event :: "'ins event \<Rightarrow> 'ins tool \<Rightarrow> 'ins tool result option" where
  "tool_event (Executes tid ins pr ea) s =
     (if closed s \<or> pending s tid \<noteq> [] then None
      else Some (Inr (s\<lparr>pending := (pending s)(tid :=
                          if pr then map (\<lambda>c. (c, ea)) (calls_before (calls s) ins) else []),
                        executed := executed s @ [(tid, ins, pr, ea)]\<rparr>)))"
| "tool_event (Records tid) s =
     (case pending s tid of
        [] \<Rightarrow> None
      | c # cs \<Rightarrow>
          if closed s then None
          else Some (case trace_text s of
                 None \<Rightarrow> Inl Null_dereference
               | Some txt \<Rightarrow> Inr (s\<lparr>trace_text := Some (txt @ analysis_line tid c),
                                    pending := (pending s)(tid := cs)\<rparr>)))"
| "tool_event Exits s = (if closed s then None else Some (Inr (s\<lparr>closed := True\<rparr>)))"

text \<open>The states that a run of the program goes through.\<close>

inductive tool_runs :: "'ins tool \<Rightarrow> 'ins tool \<Rightarrow> bool" for s0 where
  started: "tool_runs s0 s0"
| happens: "tool_runs s0 s \<Longrightarrow> tool_event e s = Some (Inr s') \<Longrightarrow> tool_runs s0 s'"

text \<open>A run as the list of its events.\<close>

fun run_events :: "'ins event list \<Rightarrow> 'ins tool \<Rightarrow> 'ins tool result option" where
  "run_events [] s = Some (Inr s)"
| "run_events (e # es) s =
     (case tool_event e s of Some (Inr s) \<Rightarrow> run_events es s | r \<Rightarrow> r)"

lemma run_events_runs:
  "run_events es s = Some (Inr s') \<Longrightarrow> tool_runs s0 s \<Longrightarrow> tool_runs s0 s'"
proof (induction es arbitrary: s)
  case Nil
  then show ?case by simp
next
  case (Cons e es)
  then show ?case by (auto split: option.splits sum.splits intro: tool_runs.happens)
qed

section \<open>The accesses of an instruction\<close>

text \<open>
  What should be recorded: nothing for an instruction that uses the stack, else its operands
  in order, a read before a write of the same operand.
\<close>

definition operand_calls :: "('rtn, 'ins) pin \<Rightarrow> 'ins \<Rightarrow> analysis list" where
  "operand_calls pin ins =
     (if isStackRead pin ins \<or> isStackWrite pin ins then []
      else concat (map (\<lambda>i. (if memoryOperandIsRead pin ins i then [Call_RecordMemRead i] else []) @
                            (if memoryOperandIsWritten pin ins i then [Call_RecordMemWrite i] else []))
                     [0..<memoryOperandCount pin ins]))"

definition call_access :: "nat \<Rightarrow> analysis \<times> (nat \<Rightarrow> u64) \<Rightarrow> bool \<times> u64 \<times> nat" where
  "call_access tid = (\<lambda>(c, ea).
     case c of Call_RecordMemRead i \<Rightarrow> (False, ea i, tid) | Call_RecordMemWrite i \<Rightarrow> (True, ea i, tid))"

text \<open>How often a routine is instrumented: the number of configured names found in its name.\<close>

definition times_matched :: "('rtn, 'ins) pin \<Rightarrow> string list \<Rightarrow> 'rtn \<Rightarrow> nat" where
  "times_matched pin userFuncs rtn =
     length (filter (\<lambda>f. sublist f (undecorated_name pin rtn)) userFuncs)"

definition calls_of_instruction ::
    "('rtn, 'ins) pin \<Rightarrow> string list \<Rightarrow> 'rtn list \<Rightarrow> 'ins \<Rightarrow> analysis list" where
  "calls_of_instruction pin userFuncs rtns ins =
     concat (map (\<lambda>rtn. if ins \<in> set (instructions pin rtn)
                        then concat (replicate (times_matched pin userFuncs rtn) (operand_calls pin ins))
                        else []) rtns)"

definition accesses_of ::
    "('rtn, 'ins) pin \<Rightarrow> string list \<Rightarrow> 'rtn list \<Rightarrow> 'ins execution \<Rightarrow> (bool \<times> u64 \<times> nat) list" where
  "accesses_of pin userFuncs rtns = (\<lambda>(tid, ins, pr, ea).
     if pr then map (\<lambda>c. call_access tid (c, ea)) (calls_of_instruction pin userFuncs rtns ins) else [])"

section \<open>What Routine inserts\<close>

lemma find_text_None_iff: "find_text pat s = None \<longleftrightarrow> \<not> sublist pat s"
proof -
  have "(\<exists>i \<in> set [0..<Suc (length s)]. prefix pat (drop i s)) \<longleftrightarrow> sublist pat s"
  proof
    assume "sublist pat s"
    then obtain ps ss where s: "s = ps @ pat @ ss" by (auto simp: sublist_def)
    then have "prefix pat (drop (length ps) s)" "length ps < Suc (length s)" by simp_all
    then show "\<exists>i \<in> set [0..<Suc (length s)]. prefix pat (drop i s)" by force
  next
    assume "\<exists>i \<in> set [0..<Suc (length s)]. prefix pat (drop i s)"
    then obtain i where "prefix pat (drop i s)" by blast
    then obtain ss where "drop i s = pat @ ss" by (auto simp: prefix_def)
    then have "s = take i s @ pat @ ss" by (metis append_take_drop_id)
    then show "sublist pat s" unfolding sublist_def by blast
  qed
  then show ?thesis
    by (simp only: find_text_def find_index_None_iff) blast
qed

lemma operand_loop_calls:
  "operand_loop pin ins ops cs = cs @ map (Pair ins)
     (if isStackRead pin ins \<or> isStackWrite pin ins then []
      else concat (map (\<lambda>i. (if memoryOperandIsRead pin ins i then [Call_RecordMemRead i] else []) @
                            (if memoryOperandIsWritten pin ins i then [Call_RecordMemWrite i] else [])) ops))"
  by (induction ops arbitrary: cs) (simp_all add: insert_call_def Let_def)

lemma instrument_instruction_calls:
  "instrument_instruction pin ins cs = cs @ map (Pair ins) (operand_calls pin ins)"
  by (simp add: instrument_instruction_def operand_calls_def operand_loop_calls)

lemma instrument_all_calls:
  "fold (instrument_instruction pin) inss cs =
     cs @ concat (map (\<lambda>ins. map (Pair ins) (operand_calls pin ins)) inss)"
  by (induction inss arbitrary: cs) (simp_all add: instrument_instruction_calls)

lemma Routine_calls:
  "Routine pin rtn fs cs = cs @ concat (replicate (times_matched pin fs rtn)
     (concat (map (\<lambda>ins. map (Pair ins) (operand_calls pin ins)) (instructions pin rtn))))"
  by (induction fs arbitrary: cs)
    (simp_all add: find_text_None_iff instrument_all_calls times_matched_def)

lemma calls_before_append [simp]:
  "calls_before (xs @ ys) ins = calls_before xs ins @ calls_before ys ins"
  by (simp add: calls_before_def)

lemma calls_before_Nil [simp]: "calls_before [] ins = []"
  by (simp add: calls_before_def)

lemma calls_before_replicate:
  "calls_before (concat (replicate n xs)) ins = concat (replicate n (calls_before xs ins))"
  by (induction n) simp_all

lemma calls_before_one:
  "calls_before (map (Pair i) cs) ins = (if i = ins then cs else [])"
  by (simp add: calls_before_def filter_map comp_def)

lemma calls_before_instructions:
  "distinct inss \<Longrightarrow>
     calls_before (concat (map (\<lambda>i. map (Pair i) (operand_calls pin i)) inss)) ins =
       (if ins \<in> set inss then operand_calls pin ins else [])"
  by (induction inss) (auto simp: calls_before_one)

lemma calls_before_Routines:
  assumes "\<forall>rtn \<in> set rtns. distinct (instructions pin rtn)"
  shows "calls_before (fold (\<lambda>rtn. Routine pin rtn fs) rtns cs) ins =
    calls_before cs ins @ calls_of_instruction pin fs rtns ins"
  using assms
proof (induction rtns arbitrary: cs)
  case Nil
  then show ?case by (simp add: calls_of_instruction_def)
next
  case (Cons rtn rtns)
  then show ?case
    by (simp add: Routine_calls calls_before_replicate calls_before_instructions
        calls_of_instruction_def)
qed

section \<open>What a run records\<close>

lemma analysis_line_access: "analysis_line tid c = record_all [call_access tid c]"
  by (cases c) (simp add: analysis_line_def call_access_def record_all_def split: analysis.split)

lemma call_access_thread: "call_access tid c = (w, a, t) \<Longrightarrow> t = tid"
  by (cases c) (auto simp: call_access_def split: analysis.splits)

abbreviation of_thread :: "nat \<Rightarrow> (bool \<times> u64 \<times> nat) list \<Rightarrow> (bool \<times> u64 \<times> nat) list" where
  "of_thread tid \<equiv> filter (\<lambda>(w, a, t). t = tid)"

abbreviation executed_by :: "nat \<Rightarrow> 'ins execution list \<Rightarrow> 'ins execution list" where
  "executed_by tid \<equiv> filter (\<lambda>(t, ins, pr, ea). t = tid)"

text \<open>Every call is written or pending, in the order in which its thread came to it.\<close>

definition recorded_so_far ::
    "('rtn, 'ins) pin \<Rightarrow> string list \<Rightarrow> 'rtn list \<Rightarrow> 'ins tool \<Rightarrow> (bool \<times> u64 \<times> nat) list \<Rightarrow> bool" where
  "recorded_so_far pin fs rtns s accs \<longleftrightarrow>
     (\<forall>ins. calls_before (calls s) ins = calls_of_instruction pin fs rtns ins) \<and>
     trace_text s = Some (record_all accs) \<and>
     (\<forall>tid. of_thread tid accs @ map (call_access tid) (pending s tid) =
        concat (map (accesses_of pin fs rtns) (executed_by tid (executed s))))"

lemma tool_event_records:
  assumes "recorded_so_far pin fs rtns s accs" and "tool_event e s = Some (Inr s')"
  shows "\<exists>accs'. recorded_so_far pin fs rtns s' accs'"
proof (cases e)
  case (Executes tid ins pr ea)
  then have s': "s' = s\<lparr>pending := (pending s)(tid :=
        if pr then map (\<lambda>c. (c, ea)) (calls_before (calls s) ins) else []),
      executed := executed s @ [(tid, ins, pr, ea)]\<rparr>" and "pending s tid = []"
    using assms(2) by (simp_all split: if_splits)
  have "of_thread t accs @ map (call_access t) (pending s' t) =
      concat (map (accesses_of pin fs rtns) (executed_by t (executed s')))" for t
    using assms(1) \<open>pending s tid = []\<close>
    by (cases "t = tid")
      (auto simp: s' recorded_so_far_def accesses_of_def comp_def dest: spec [of _ tid])
  with assms(1) have "recorded_so_far pin fs rtns s' accs"
    by (simp add: recorded_so_far_def s')
  then show ?thesis ..
next
  case (Records tid)
  with assms obtain c cs where c: "pending s tid = c # cs"
    and s': "s' = s\<lparr>trace_text := Some (record_all accs @ analysis_line tid c),
      pending := (pending s)(tid := cs)\<rparr>"
    by (auto simp: recorded_so_far_def split: list.splits if_splits)
  obtain w a where acc: "call_access tid c = (w, a, tid)"
    using call_access_thread by (cases "call_access tid c") blast
  have "of_thread t (accs @ [call_access tid c]) @ map (call_access t) (pending s' t) =
      of_thread t accs @ map (call_access t) (pending s t)" for t
    using c acc by (cases "t = tid") (simp_all add: s')
  with assms(1) have "recorded_so_far pin fs rtns s' (accs @ [call_access tid c])"
    by (simp add: recorded_so_far_def s' analysis_line_access record_all_def)
  then show ?thesis ..
next
  case Exits
  with assms have "recorded_so_far pin fs rtns s' accs"
    by (auto simp: recorded_so_far_def split: if_splits)
  then show ?thesis ..
qed

lemma tool_runs_record:
  assumes "tool_runs (pintool_main pin rtns config True) s"
    and "\<forall>rtn \<in> set rtns. distinct (instructions pin rtn)"
  shows "\<exists>accs. recorded_so_far pin (read_userFuncs config) rtns s accs"
  using assms(1)
proof induction
  case started
  have "recorded_so_far pin (read_userFuncs config) rtns (pintool_main pin rtns config True) []"
    by (simp add: recorded_so_far_def pintool_main_def record_all_def calls_before_Routines [OF assms(2)])
  then show ?case ..
next
  case (happens s e s')
  then show ?case using tool_event_records by blast
qed

lemma recorded_finished:
  assumes "recorded_so_far pin fs rtns s accs" and "pending s tid = []"
  shows "of_thread tid accs = concat (map (accesses_of pin fs rtns) (executed_by tid (executed s)))"
  using assms unfolding recorded_so_far_def by (metis append_Nil2 list.map_disc_iff)

lemma operand_calls_in_range:
  "Call_RecordMemRead i \<in> set (operand_calls pin ins) \<or>
   Call_RecordMemWrite i \<in> set (operand_calls pin ins) \<Longrightarrow> i < memoryOperandCount pin ins"
  by (auto simp: operand_calls_def split: if_splits)

lemma accesses_of_range:
  assumes "(w, a, t) \<in> set (accesses_of pin fs rtns (tid, ins, pr, ea))"
  shows "t = tid" and "\<exists>i < memoryOperandCount pin ins. a = ea i"
proof -
  obtain c where c: "c \<in> set (calls_of_instruction pin fs rtns ins)" "(w, a, t) = call_access tid (c, ea)"
    using assms by (auto simp: accesses_of_def split: if_splits)
  then have "c \<in> set (operand_calls pin ins)"
    by (auto simp: calls_of_instruction_def split: if_splits)
  with c(2) show "t = tid" "\<exists>i < memoryOperandCount pin ins. a = ea i"
    using operand_calls_in_range [of _ pin ins]
    by (auto simp: call_access_def split: analysis.splits)
qed

lemma recorded_printable:
  assumes "recorded_so_far pin fs rtns s accs" and "\<forall>tid. pending s tid = []"
    and "list_all (\<lambda>(tid, ins, pr, ea). tid < 2 ^ 31 \<and> (\<forall>i < memoryOperandCount pin ins. ea i \<noteq> 0)) (executed s)"
  shows "list_all (\<lambda>(w, a, t). a \<noteq> 0 \<and> t < 2 ^ 31) accs"
  unfolding list_all_iff
proof (clarify, goal_cases)
  case (1 w a t)
  then have "(w, a, t) \<in> set (of_thread t accs)" by simp
  then obtain x where x: "x \<in> set (executed_by t (executed s))" "(w, a, t) \<in> set (accesses_of pin fs rtns x)"
    unfolding recorded_finished [OF assms(1) spec [OF assms(2)]] by auto
  obtain tid ins pr ea where "x = (tid, ins, pr, ea)" by (cases x)
  with x assms(3) accesses_of_range [of w a t pin fs rtns tid ins pr ea] show ?case
    by (fastforce simp: list_all_iff)
qed

section \<open>From the program to the jobs of the simulator\<close>

text \<open>
  C23: whatever the interleaving of the threads, the simulator reads from user.trace, for every
  thread and in the order of its execution, the memory operands of the executed instructions of
  the configured routines that do not touch the stack, each as often as configured names are
  found in the name of its routine. The null address is left out, which is printed otherwise.
\<close>

theorem recorded_program_is_read:
  assumes "0 < numProcessors k" and "numProcessors k < 2 ^ 32"
    and "tool_runs (pintool_main pin rtns config True) s" and "\<forall>tid. pending s tid = []"
    and "\<forall>rtn \<in> set rtns. distinct (instructions pin rtn)"
    and "list_all (\<lambda>(tid, ins, pr, ea). tid < 2 ^ 31 \<and> (\<forall>i < memoryOperandCount pin ins. ea i \<noteq> 0)) (executed s)"
  shows "\<exists>out accs. trace_text s = Some out \<and>
    read_trace k out = Some (map (\<lambda>(w, a, t).
      CacheJob (if w then CHR ''W'' else CHR ''R'') a (int t mod numProcessors k)) accs) \<and>
    (\<forall>tid. filter (\<lambda>(w, a, t). t = tid) accs =
       concat (map (accesses_of pin (read_userFuncs config) rtns)
         (filter (\<lambda>(t, ins, pr, ea). t = tid) (executed s))))"
proof -
  obtain accs where accs: "recorded_so_far pin (read_userFuncs config) rtns s accs"
    using tool_runs_record [OF assms(3,5)] ..
  have "trace_text s = Some (record_all accs)"
    using accs by (simp add: recorded_so_far_def)
  moreover have "read_trace k (record_all accs) = Some (map (recorded_job k) accs)"
    unfolding read_trace_def
    by (rule read_lines_recorded [OF assms(1,2) recorded_printable [OF accs assms(4,6)]])
  ultimately show ?thesis
    using recorded_finished [OF accs spec [OF assms(4)]] unfolding recorded_job_def by blast
qed

text \<open>
  A routine of four instructions: one that reads, one that uses the stack, one that reads and
  writes the same operand, and one that reads two operands.
\<close>

definition demo_pin :: "(string, nat) pin" where
  "demo_pin = \<lparr>undecorated_name = (\<lambda>name. name), instructions = (\<lambda>_. [0, 1, 2, 3]),
     memoryOperandCount = (\<lambda>ins. if ins = 3 then 2 else 1),
     isStackRead = (\<lambda>ins. ins = 1), isStackWrite = (\<lambda>_. False),
     memoryOperandIsRead = (\<lambda>_ _. True), memoryOperandIsWritten = (\<lambda>ins _. ins = 2)\<rparr>"

definition demo_events :: "nat event list" where
  "demo_events = [Executes 0 0 True (\<lambda>_. 0x7000), Executes 1 2 True (\<lambda>_. 0x8000), Records 1,
     Records 0, Executes 0 1 True (\<lambda>_. 0x9000), Records 1, Exits]"

lemma demo_calls:
  "calls (pintool_main demo_pin [''swap'', ''main''] (Some (''swap'' @ [newline])) True) =
     [(0, Call_RecordMemRead 0), (2, Call_RecordMemRead 0), (2, Call_RecordMemWrite 0),
      (3, Call_RecordMemRead 0), (3, Call_RecordMemRead 1)]"
  by code_simp

lemma demo_run:
  obtains s where
    "tool_runs (pintool_main demo_pin [''swap'', ''main''] (Some (''swap'' @ [newline])) True) s"
    and "\<forall>tid. pending s tid = []"
    and "executed s = [(0, 0, True, \<lambda>_. 0x7000), (1, 2, True, \<lambda>_. 0x8000), (0, 1, True, \<lambda>_. 0x9000)]"
proof -
  define s0 where "s0 = pintool_main demo_pin [''swap'', ''main''] (Some (''swap'' @ [newline])) True"
  have s0: "calls s0 = [(0, Call_RecordMemRead 0), (2, Call_RecordMemRead 0),
      (2, Call_RecordMemWrite 0), (3, Call_RecordMemRead 0), (3, Call_RecordMemRead 1)]"
    "trace_text s0 = Some []" "pending s0 = (\<lambda>_. [])" "executed s0 = []" "\<not> closed s0"
    unfolding s0_def by (rule demo_calls) (simp_all add: pintool_main_def)
  then have "\<exists>s. run_events demo_events s0 = Some (Inr s) \<and> (\<forall>tid. pending s tid = []) \<and>
      executed s = [(0, 0, True, \<lambda>_. 0x7000), (1, 2, True, \<lambda>_. 0x8000), (0, 1, True, \<lambda>_. 0x9000)]"
    by (simp add: demo_events_def calls_before_def)
  then show thesis
    using run_events_runs [OF _ tool_runs.started] that unfolding s0_def by blast
qed

lemma demo_accesses:
  "concat (map (accesses_of demo_pin (read_userFuncs (Some (''swap'' @ [newline]))) [''swap'', ''main''])
     [(1, 2, True, \<lambda>_. 0x8000)]) = [(False, 0x8000, 1), (True, 0x8000, 1)]"
  by code_simp

theorem recorded_program_is_read_witness:
  "\<exists>s out accs.
     tool_runs (pintool_main demo_pin [''swap'', ''main''] (Some (''swap'' @ [newline])) True) s \<and>
     trace_text s = Some out \<and>
     read_trace (CacheConstants x86_shl_one) out = Some (map (\<lambda>(w, a, t).
       CacheJob (if w then CHR ''W'' else CHR ''R'') a (int t mod 8)) accs) \<and>
     filter (\<lambda>(w, a, t). t = 1) accs = [(False, 0x8000, 1), (True, 0x8000, 1)]"
proof -
  obtain s where s: "tool_runs (pintool_main demo_pin [''swap'', ''main''] (Some (''swap'' @ [newline])) True) s"
    "\<forall>tid. pending s tid = []"
    "executed s = [(0, 0, True, \<lambda>_. 0x7000), (1, 2, True, \<lambda>_. 0x8000), (0, 1, True, \<lambda>_. 0x9000)]"
    by (rule demo_run)
  have n: "0 < numProcessors (CacheConstants x86_shl_one)" "numProcessors (CacheConstants x86_shl_one) < 2 ^ 32"
    by simp_all
  have d: "\<forall>rtn \<in> set [''swap'', ''main'']. distinct (instructions demo_pin rtn)"
    by (simp add: demo_pin_def)
  have e: "list_all (\<lambda>(tid, ins, pr, ea). tid < 2 ^ 31 \<and> (\<forall>i < memoryOperandCount demo_pin ins. ea i \<noteq> 0)) (executed s)"
    by (simp add: s(3))
  obtain out accs where R: "trace_text s = Some out"
    "read_trace (CacheConstants x86_shl_one) out = Some (map (\<lambda>(w, a, t).
       CacheJob (if w then CHR ''W'' else CHR ''R'') a (int t mod numProcessors (CacheConstants x86_shl_one))) accs)"
    "\<forall>tid. filter (\<lambda>(w, a, t). t = tid) accs =
       concat (map (accesses_of demo_pin (read_userFuncs (Some (''swap'' @ [newline]))) [''swap'', ''main''])
         (filter (\<lambda>(t, ins, pr, ea). t = tid) (executed s)))"
    using recorded_program_is_read [OF n s(1,2) d e] by (elim exE conjE)
  have "filter (\<lambda>(t, ins, pr, ea). t = 1) (executed s) = [(1, 2, True, \<lambda>_. 0x8000)]"
    by (simp add: s(3))
  then have "filter (\<lambda>(w, a, t). t = 1) accs = [(False, 0x8000, 1), (True, 0x8000, 1)]"
    by (simp only: R(3) [rule_format, of 1] demo_accesses)
  moreover have "numProcessors (CacheConstants x86_shl_one) = 8" by simp
  ultimately show ?thesis using s(1) R(1,2) by metis
qed

text \<open>The two userfuncs.in of the repository: beside the pin tool, and beside the script that runs it.\<close>

definition repo_userfuncs :: string where
  "repo_userfuncs = concat (map (\<lambda>l. l @ [newline])
     [''make_array_and_return_value'', ''PrintHello'', ''parallelQuicksort'', ''parallelQuicksortHelper'',
      ''swap'', ''partition'', ''quicksortHelper'', ''quicksort'', ''isSorted'', ''access_array'',
      ''compute_bi'', ''trace_ray'', ''trace_pixel'']) @ ''raytrace''"

definition scripts_userfuncs :: string where
  "scripts_userfuncs = concat (map (\<lambda>l. l @ [newline])
     [''make_array_and_return_value'', ''PrintHello'', ''parallelQuicksort'', ''parallelQuicksortHelper'',
      ''swap'', ''partition'', ''quicksortHelper'', ''quicksort'', ''isSorted'', ''access_array'']) @
     ''updateStudent''"

lemma helper_matched:
  assumes "undecorated_name pin rtn \<in> {''parallelQuicksortHelper'', ''quicksortHelper''}"
    and "config \<in> {repo_userfuncs, scripts_userfuncs}"
  shows "times_matched pin (read_userFuncs (Some config)) rtn = 2"
proof -
  have "length (filter (\<lambda>f. find_text f name \<noteq> None) (read_userFuncs (Some repo_userfuncs))) = 2"
    "length (filter (\<lambda>f. find_text f name \<noteq> None) (read_userFuncs (Some scripts_userfuncs))) = 2"
    if "name \<in> {''parallelQuicksortHelper'', ''quicksortHelper''}" for name
    using that by (elim insertE emptyE; hypsubst; code_simp)+
  with assms show ?thesis
    by (auto simp: times_matched_def find_text_None_iff)
qed

lemma calls_of_own_instruction:
  assumes "distinct rtns" and "rtn \<in> set rtns" and "ins \<in> set (instructions pin rtn)"
    and "\<forall>r \<in> set rtns. r \<noteq> rtn \<longrightarrow> ins \<notin> set (instructions pin r)"
  shows "calls_of_instruction pin fs rtns ins =
    concat (replicate (times_matched pin fs rtn) (operand_calls pin ins))"
proof -
  obtain xs ys where rtns: "rtns = xs @ rtn # ys"
    using split_list [OF assms(2)] by blast
  have none: "calls_of_instruction pin fs zs ins = []" if "\<forall>r \<in> set zs. ins \<notin> set (instructions pin r)" for zs
    using that by (simp add: calls_of_instruction_def)
  have "\<forall>r \<in> set xs. ins \<notin> set (instructions pin r)" "\<forall>r \<in> set ys. ins \<notin> set (instructions pin r)"
    using assms(1,4) by (auto simp: rtns)
  then have "calls_of_instruction pin fs xs ins = []" "calls_of_instruction pin fs ys ins = []"
    using none by blast+
  then show ?thesis
    using assms(3) unfolding calls_of_instruction_def rtns by (simp del: concat_eq_Nil_conv)
qed

text \<open>
  C21: with either userfuncs.in of the repository, in a program with any other routines, every
  memory operand of an instruction of \<open>parallelQuicksortHelper\<close> or \<open>quicksortHelper\<close> that does
  not use the stack is recorded twice each time the instruction is executed, since two of the
  configured names are found in each name. The other instructions are recorded as C23 says.
\<close>

theorem helper_recorded_twice:
  assumes "config \<in> {repo_userfuncs, scripts_userfuncs}"
    and "undecorated_name pin rtn \<in> {''parallelQuicksortHelper'', ''quicksortHelper''}"
    and "distinct rtns" and "rtn \<in> set rtns"
    and "\<forall>r \<in> set rtns. distinct (instructions pin r)"
    and "\<forall>r \<in> set rtns. r \<noteq> rtn \<longrightarrow> set (instructions pin r) \<inter> set (instructions pin rtn) = {}"
    and "tool_runs (pintool_main pin rtns (Some config) True) s" and "\<forall>tid. pending s tid = []"
  shows "\<exists>accs. trace_text s = Some (record_all accs) \<and>
    (\<forall>tid. filter (\<lambda>(w, a, t). t = tid) accs =
       concat (map (\<lambda>(t, ins, pr, ea).
                  if ins \<in> set (instructions pin rtn)
                  then (if pr then concat (replicate 2 (map (\<lambda>c. call_access t (c, ea)) (operand_calls pin ins)))
                        else [])
                  else accesses_of pin (read_userFuncs (Some config)) rtns (t, ins, pr, ea))
         (filter (\<lambda>(t, ins, pr, ea). t = tid) (executed s))))"
proof -
  let ?fs = "read_userFuncs (Some config)"
  obtain accs where accs: "recorded_so_far pin ?fs rtns s accs"
    using tool_runs_record [OF assms(7,5)] by auto
  have "calls_of_instruction pin ?fs rtns ins = concat (replicate 2 (operand_calls pin ins))"
    if "ins \<in> set (instructions pin rtn)" for ins
    using calls_of_own_instruction [OF assms(3,4) that, of ?fs] assms(6) that helper_matched [OF assms(2,1)]
    by fastforce
  then have "accesses_of pin ?fs rtns = (\<lambda>(t, ins, pr, ea).
      if ins \<in> set (instructions pin rtn)
      then (if pr then concat (replicate 2 (map (\<lambda>c. call_access t (c, ea)) (operand_calls pin ins))) else [])
      else accesses_of pin ?fs rtns (t, ins, pr, ea))"
    by (auto simp: accesses_of_def numeral_2_eq_2)
  with recorded_finished [OF accs spec [OF assms(8)]] accs show ?thesis
    unfolding recorded_so_far_def by metis
qed

text \<open>A program of two routines, of which \<open>swap\<close> is configured once.\<close>

definition helper_pin :: "(string, nat) pin" where
  "helper_pin = demo_pin\<lparr>instructions := (\<lambda>name. if name = ''swap'' then [4] else [0, 1, 2, 3])\<rparr>"

definition helper_events :: "nat event list" where
  "helper_events = [Executes 0 2 True (\<lambda>_. 0x7000), Records 0, Records 0, Records 0, Records 0,
     Executes 0 4 True (\<lambda>_. 0x9000), Records 0]"

lemma helper_calls:
  "calls (pintool_main helper_pin [''quicksortHelper'', ''swap''] (Some scripts_userfuncs) True) =
     [(0, Call_RecordMemRead 0), (2, Call_RecordMemRead 0), (2, Call_RecordMemWrite 0),
      (3, Call_RecordMemRead 0), (3, Call_RecordMemRead 1),
      (0, Call_RecordMemRead 0), (2, Call_RecordMemRead 0), (2, Call_RecordMemWrite 0),
      (3, Call_RecordMemRead 0), (3, Call_RecordMemRead 1), (4, Call_RecordMemRead 0)]"
  by code_simp

lemma helper_run:
  obtains s where "tool_runs (pintool_main helper_pin [''quicksortHelper'', ''swap''] (Some scripts_userfuncs) True) s"
    and "\<forall>tid. pending s tid = []" and "executed s = [(0, 2, True, \<lambda>_. 0x7000), (0, 4, True, \<lambda>_. 0x9000)]"
proof -
  define s0 where "s0 = pintool_main helper_pin [''quicksortHelper'', ''swap''] (Some scripts_userfuncs) True"
  have s0: "trace_text s0 = Some []" "pending s0 = (\<lambda>_. [])" "executed s0 = []" "\<not> closed s0"
    unfolding s0_def by (simp_all add: pintool_main_def)
  moreover have "calls_before (calls s0) 2 =
      [Call_RecordMemRead 0, Call_RecordMemWrite 0, Call_RecordMemRead 0, Call_RecordMemWrite 0]"
    "calls_before (calls s0) 4 = [Call_RecordMemRead 0]"
    unfolding s0_def helper_calls by (simp_all add: calls_before_def)
  ultimately have "\<exists>s. run_events helper_events s0 = Some (Inr s) \<and> (\<forall>tid. pending s tid = []) \<and>
      executed s = [(0, 2, True, \<lambda>_. 0x7000), (0, 4, True, \<lambda>_. 0x9000)]"
    by (simp add: helper_events_def)
  then show thesis
    using run_events_runs [OF _ tool_runs.started] that unfolding s0_def by blast
qed

lemma swap_accesses:
  "accesses_of helper_pin (read_userFuncs (Some scripts_userfuncs)) [''quicksortHelper'', ''swap'']
     (0, 4, True, \<lambda>_. 0x9000) = [(False, 0x9000, 0)]"
  by code_simp

theorem helper_recorded_twice_witness:
  "\<exists>s accs. tool_runs (pintool_main helper_pin [''quicksortHelper'', ''swap''] (Some scripts_userfuncs) True) s \<and>
     trace_text s = Some (record_all accs) \<and>
     filter (\<lambda>(w, a, t). t = 0) accs =
       [(False, 0x7000, 0), (True, 0x7000, 0), (False, 0x7000, 0), (True, 0x7000, 0), (False, 0x9000, 0)]"
proof -
  let ?rtns = "[''quicksortHelper'', ''swap'']"
  obtain s where s: "tool_runs (pintool_main helper_pin ?rtns (Some scripts_userfuncs) True) s"
    "\<forall>tid. pending s tid = []" "executed s = [(0, 2, True, \<lambda>_. 0x7000), (0, 4, True, \<lambda>_. 0x9000)]"
    by (rule helper_run)
  have h: "scripts_userfuncs \<in> {repo_userfuncs, scripts_userfuncs}"
    "undecorated_name helper_pin ''quicksortHelper'' \<in> {''parallelQuicksortHelper'', ''quicksortHelper''}"
    "distinct ?rtns" "''quicksortHelper'' \<in> set ?rtns"
    "\<forall>r \<in> set ?rtns. distinct (instructions helper_pin r)"
    "\<forall>r \<in> set ?rtns. r \<noteq> ''quicksortHelper'' \<longrightarrow>
       set (instructions helper_pin r) \<inter> set (instructions helper_pin ''quicksortHelper'') = {}"
    by (simp_all add: helper_pin_def demo_pin_def)
  have "operand_calls helper_pin 2 = [Call_RecordMemRead 0, Call_RecordMemWrite 0]" by code_simp
  moreover have "2 \<in> set (instructions helper_pin ''quicksortHelper'')"
    "4 \<notin> set (instructions helper_pin ''quicksortHelper'')"
    by (simp_all add: helper_pin_def)
  moreover obtain accs where "trace_text s = Some (record_all accs)"
    and "filter (\<lambda>(w, a, t). t = 0) accs =
       concat (map (\<lambda>(t, ins, pr, ea).
                  if ins \<in> set (instructions helper_pin ''quicksortHelper'')
                  then (if pr then concat (replicate 2 (map (\<lambda>c. call_access t (c, ea)) (operand_calls helper_pin ins)))
                        else [])
                  else accesses_of helper_pin (read_userFuncs (Some scripts_userfuncs)) ?rtns (t, ins, pr, ea))
         (filter (\<lambda>(t, ins, pr, ea). t = 0) (executed s)))"
    using helper_recorded_twice [OF h s(1,2)] by blast
  ultimately show ?thesis
    using s(1) swap_accesses by (intro exI [of _ s] exI [of _ accs]) (simp add: s(3) call_access_def numeral_2_eq_2)
qed

end
