(* ===== verification/Search_Text.thy ===== *)
theory Search_Text
  imports Numerals "HOL-Library.Sublist"
begin

text \<open>
  The text side of search.js, the search engine of the manuals: strings of UTF-16 code units,
  the tables of the indexed sections, and \<open>convertToId\<close>, which turns a search term into the
  form in which the rows of the result pages are named.
\<close>

section \<open>Strings\<close>

text \<open>
  A JavaScript string is a sequence of code units; \<open>js\<close> gives that of a literal. The case
  tables of Unicode are not part of the repository: \<open>uni\<close> says what \<open>toLowerCase\<close> makes of
  a string that is not all ASCII.
\<close>

type_synonym jstring = "nat list"

definition js :: "string \<Rightarrow> jstring" where
  "js s = map of_char s"

definition ascii_lower :: "nat \<Rightarrow> nat" where
  "ascii_lower c = (if 65 \<le> c \<and> c \<le> 90 then c + 32 else c)"

definition toLowerCase :: "(jstring \<Rightarrow> jstring) \<Rightarrow> jstring \<Rightarrow> jstring" where
  "toLowerCase uni s = (if list_all (\<lambda>c. c < 128) s then map ascii_lower s else uni s)"

text \<open>\<open>replace(/^ +/,"")\<close>, \<open>replace(/ +$/,"")\<close> and \<open>replace(/ +/g,"")\<close>.\<close>

definition strip_leading :: "jstring \<Rightarrow> jstring" where
  "strip_leading s = dropWhile (\<lambda>c. c = 32) s"

definition strip_trailing :: "jstring \<Rightarrow> jstring" where
  "strip_trailing s = rev (dropWhile (\<lambda>c. c = 32) (rev s))"

definition strip_all :: "jstring \<Rightarrow> jstring" where
  "strip_all s = filter (\<lambda>c. c \<noteq> 32) s"

text \<open>\<open>n.toString(16)\<close>.\<close>

definition hex_string :: "nat \<Rightarrow> jstring" where
  "hex_string n = js (digits 16 n)"

section \<open>The sections of the index\<close>

definition indexSectionsWithContent :: "jstring list" where
  "indexSectionsWithContent =
     [js ''_abcdefghilmnopqrstuvwxz'',
      js ''x'',
      js ''x'',
      js ''sx'',
      js ''_abcdefhilmnopqrstuvwxz'',
      js ''x'',
      js ''x'',
      js ''x'',
      js ''x'',
      js ''adefghioprsx'',
      js ''x'']"

definition indexSectionNames :: "jstring list" where
  "indexSectionNames =
     [js ''all'', js ''classes'', js ''files'', js ''functions'', js ''variables'', js ''typedefs'',
      js ''enums'', js ''enumvalues'', js ''defines'', js ''groups'', js ''pages'']"

section \<open>convertToId\<close>

text \<open>The test \<open>c.match(/[a-z0-9\u0080-\uFFFF]/)\<close> on a code unit.\<close>

definition keeps_unit :: "nat \<Rightarrow> bool" where
  "keeps_unit c \<longleftrightarrow> 97 \<le> c \<and> c \<le> 122 \<or> 48 \<le> c \<and> c \<le> 57 \<or> 0x80 \<le> c \<and> c \<le> 0xFFFF"

definition unit_id :: "nat \<Rightarrow> jstring" where
  "unit_id c =
     (if keeps_unit c then [c]
      else if c < 16 then js ''_0'' @ hex_string c
      else js ''_'' @ hex_string c)"

fun convertToId :: "jstring \<Rightarrow> jstring" where
  "convertToId [] = []"
| "convertToId (c # s) = unit_id c @ convertToId s"

section \<open>The code is a prefix code\<close>

definition is_units :: "jstring \<Rightarrow> bool" where
  "is_units s \<longleftrightarrow> list_all (\<lambda>c. c < 0x10000) s"

lemma of_char_digit: "of_char (digit_char n) = (if n < 10 then 48 + n else 87 + n)" if "n < 16"
  using that by (simp add: digit_char_def)

lemma hex_two:
  assumes "16 \<le> c" and "c < 256"
  shows "hex_string c = [of_char (digit_char (c div 16)), of_char (digit_char (c mod 16))]"
proof -
  have "c div 16 < 16" using assms by simp
  then have "digits 16 (c div 16) = [digit_char (c div 16)]"
    by (subst digits.simps) simp
  then have "digits 16 c = [digit_char (c div 16), digit_char (c mod 16)]"
    using assms by (subst digits.simps) simp
  then show ?thesis by (simp add: hex_string_def js_def)
qed

lemma hex_one: "c < 16 \<Longrightarrow> hex_string c = [of_char (digit_char c)]"
  unfolding hex_string_def js_def by (subst digits.simps) simp

text \<open>Every unit that is not kept becomes an underscore and its two hexadecimal digits.\<close>

lemma unit_id_escape:
  assumes "\<not> keeps_unit c" and "c < 0x10000"
  shows "unit_id c = [95, of_char (digit_char (c div 16)), of_char (digit_char (c mod 16))]"
    and "c < 128"
proof -
  show c: "c < 128" using assms by (auto simp: keeps_unit_def)
  show "unit_id c = [95, of_char (digit_char (c div 16)), of_char (digit_char (c mod 16))]"
    using assms(1) c by (cases "c < 16") (simp_all add: unit_id_def hex_one hex_two js_def digit_char_def)
qed

lemma digit_unit_inject:
  "m < 16 \<Longrightarrow> n < 16 \<Longrightarrow> (of_char (digit_char m) :: nat) = of_char (digit_char n) \<Longrightarrow> m = n"
  by (auto simp: of_char_digit split: if_splits)

lemma unit_id_prefix_code:
  assumes "c < 0x10000" and "d < 0x10000"
    and "prefix (unit_id c @ u) (unit_id d @ v)"
  shows "c = d \<and> prefix u v"
proof -
  have under: "\<not> keeps_unit 95" by (simp add: keeps_unit_def)
  show ?thesis
  proof (cases "keeps_unit c"; cases "keeps_unit d")
    assume "keeps_unit c" "keeps_unit d"
    with assms(3) show ?thesis by (simp add: unit_id_def)
  next
    assume "keeps_unit c" "\<not> keeps_unit d"
    with assms(3) unit_id_escape(1) [OF _ assms(2)] under show ?thesis
      by (auto simp: unit_id_def [of c])
  next
    assume "\<not> keeps_unit c" "keeps_unit d"
    with assms(3) unit_id_escape(1) [OF _ assms(1)] under show ?thesis
      by (auto simp: unit_id_def [of d])
  next
    assume nc: "\<not> keeps_unit c" and nd: "\<not> keeps_unit d"
    note C = unit_id_escape [OF nc assms(1)] and D = unit_id_escape [OF nd assms(2)]
    have eq: "c div 16 = d div 16" "c mod 16 = d mod 16" and pre: "prefix u v"
      using assms(3) C D by (auto simp: C(1) D(1) intro: digit_unit_inject)
    have "c = d"
      using eq by (metis div_mult_mod_eq)
    with pre show ?thesis by simp
  qed
qed

lemma unit_id_not_empty: "unit_id c \<noteq> []"
  by (simp add: unit_id_def js_def)

lemma convertToId_prefix:
  assumes "is_units s" and "is_units t"
  shows "prefix (convertToId s) (convertToId t) \<longleftrightarrow> prefix s t"
  using assms
proof (induction s arbitrary: t)
  case Nil
  then show ?case by simp
next
  case (Cons c s)
  show ?case
  proof (cases t)
    case Nil
    then show ?thesis by (simp add: unit_id_not_empty)
  next
    case (Cons d t')
    have u: "c < 0x10000" "d < 0x10000" "is_units s" "is_units t'"
      using Cons.prems Cons by (simp_all add: is_units_def)
    then have IH: "prefix (convertToId s) (convertToId t') \<longleftrightarrow> prefix s t'"
      using Cons.IH by blast
    have "prefix (unit_id c @ convertToId s) (unit_id d @ convertToId t') \<longleftrightarrow> c = d \<and> prefix s t'"
    proof
      assume "prefix (unit_id c @ convertToId s) (unit_id d @ convertToId t')"
      from unit_id_prefix_code [OF u(1,2) this] IH show "c = d \<and> prefix s t'" by blast
    next
      assume "c = d \<and> prefix s t'"
      with IH show "prefix (unit_id c @ convertToId s) (unit_id d @ convertToId t')"
        by (simp only: same_prefix_prefix)
    qed
    then show ?thesis by (simp only: Cons convertToId.simps Cons_prefix_Cons)
  qed
qed

end
