(* ===== verification/Search_Box.thy ===== *)
theory Search_Box
  imports Search_Text Sim_Prelude
begin

text \<open>
  The SearchBox object of search.js: the search field of a manual page, its menu of sections,
  its timers, and the window in which the results appear. A method is a function on the object
  and the page; what makes the code throw is a value.
\<close>

section \<open>The page around the object\<close>

text \<open>
  The layout of an element: its size, and the offsets of the element, its offset parent, and so
  on up to the body.
\<close>

record layout =
  offsetWidth :: int
  offsetHeight :: int
  offsets :: "(int \<times> int) list"

fun sum_offsets :: "((int \<times> int) \<Rightarrow> int) \<Rightarrow> (int \<times> int) list \<Rightarrow> int \<Rightarrow> int" where
  "sum_offsets f [] x = x"
| "sum_offsets f (item # parents) x = sum_offsets f parents (x + f item)"

definition getXPos :: "layout \<Rightarrow> int" where
  "getXPos item = (if offsetWidth item \<noteq> 0 then sum_offsets fst (offsets item) 0 else 0)"

definition getYPos :: "layout \<Rightarrow> int" where
  "getYPos item = (if offsetWidth item \<noteq> 0 then sum_offsets snd (offsets item) 0 else 0)"

text \<open>A child of the menu: its class is \<open>SelectItem\<close> or not, and the mark of its first child.\<close>

record menu_child =
  is_item :: bool
  mark :: jstring

datatype callback = Call_Search | Call_CloseSelectionWindow

datatype focus = Nowhere | On_field | On_menu nat | On_result nat

record page =
  field_value :: jstring
  focused :: focus
  menu :: "menu_child list"
  menu_display :: jstring
  menu_left :: int
  menu_top :: int
  results_display :: jstring
  results_position :: jstring
  results_width :: int
  results_left :: int
  results_top :: int
  results_location :: jstring
  close_display :: jstring
  box_class :: jstring
  timers :: "(nat \<times> callback) list"
  next_timer :: nat
  select_layout :: layout       \<comment> \<open>of the element MSearchSelect\<close>
  box_layout :: layout          \<comment> \<open>of the element MSearchBox\<close>
  menu_width :: int             \<comment> \<open>offsetWidth of MSearchSelectWindow\<close>
  results_offsetWidth :: int    \<comment> \<open>offsetWidth of MSearchResults\<close>
  body_width :: int             \<comment> \<open>document.body.clientWidth\<close>

text \<open>\<open>setTimeout\<close> gives a new positive number; \<open>clearTimeout\<close> forgets the timer.\<close>

definition setTimeout :: "callback \<Rightarrow> page \<Rightarrow> nat \<times> page" where
  "setTimeout f p =
     (next_timer p, p\<lparr>timers := timers p @ [(next_timer p, f)], next_timer := next_timer p + 1\<rparr>)"

definition clearTimeout :: "nat \<Rightarrow> page \<Rightarrow> page" where
  "clearTimeout n p = p\<lparr>timers := filter (\<lambda>t. fst t \<noteq> n) (timers p)\<rparr>"

section \<open>The object\<close>

record search_box =
  resultsPath :: jstring
  keyTimeout :: nat
  lastSearchValue :: jstring
  lastResultsPage :: jstring
  hideTimeout :: nat
  searchIndex :: int
  searchActive :: bool
  insideFrame :: bool
  searchLabel :: jstring

definition SearchBox :: "jstring \<Rightarrow> bool \<Rightarrow> jstring \<Rightarrow> search_box" where
  "SearchBox path inFrame label =
     \<lparr>resultsPath = path, keyTimeout = 0, lastSearchValue = [], lastResultsPage = [],
      hideTimeout = 0, searchIndex = 0, searchActive = False, insideFrame = inFrame,
      searchLabel = label\<rparr>"

datatype js_error = TypeError

type_synonym box_state = "search_box \<times> page"
type_synonym box_result = "js_error + search_box \<times> page"

section \<open>Activation\<close>

definition Activate :: "bool \<Rightarrow> box_state \<Rightarrow> box_state" where
  "Activate isActive = (\<lambda>(b, p).
     if isActive \<or> results_display p = js ''block'' then
       (let p = p\<lparr>box_class := js ''MSearchBoxActive''\<rparr> in
        if field_value p = searchLabel b
        then (b\<lparr>searchActive := True\<rparr>, p\<lparr>field_value := []\<rparr>)
        else (b, p))
     else
       (b\<lparr>searchActive := False, lastSearchValue := [], lastResultsPage := []\<rparr>,
        p\<lparr>box_class := js ''MSearchBoxInactive'', field_value := searchLabel b\<rparr>))"

definition OnSearchFieldFocus :: "bool \<Rightarrow> box_state \<Rightarrow> box_state" where
  "OnSearchFieldFocus isActive s = Activate isActive s"

section \<open>Searching\<close>

text \<open>\<open>s.indexOf(t)\<close>.\<close>

fun index_of :: "jstring \<Rightarrow> jstring \<Rightarrow> nat option" where
  "index_of t [] = (if t = [] then Some 0 else None)"
| "index_of t (c # s) = (if prefix t (c # s) then Some 0 else map_option Suc (index_of t s))"

text \<open>
  The number that the comparison \<open>searchValue > 1\<close> makes of a string; \<open>None\<close> is NaN. The
  comparison is reached only for strings that start with a surrogate, which are no numerals, so
  that numerals other than sequences of digits play no part.
\<close>

definition to_number :: "jstring \<Rightarrow> int option" where
  "to_number s =
     (if s \<noteq> [] \<and> list_all (\<lambda>c. 48 \<le> c \<and> c \<le> 57) s
      then Some (foldl (\<lambda>n c. 10 * n + (int c - 48)) 0 s) else None)"

definition greater_than_one :: "jstring \<Rightarrow> bool" where
  "greater_than_one s = (case to_number s of None \<Rightarrow> False | Some n \<Rightarrow> n > 1)"

definition idx_char :: "(jstring \<Rightarrow> jstring) \<Rightarrow> jstring \<Rightarrow> jstring" where
  "idx_char uni searchValue =
     (let surrogate = (case toLowerCase uni searchValue of
                         [] \<Rightarrow> False
                       | code # _ \<Rightarrow> 0xD800 \<le> code \<and> code \<le> 0xDBFF \<and> greater_than_one searchValue)
      in if surrogate then take 2 searchValue else toLowerCase uni (take 1 searchValue))"

text \<open>The global function \<open>escape\<close>.\<close>

definition upper_hex :: "nat \<Rightarrow> nat \<Rightarrow> jstring" where
  "upper_hex width n =
     (let h = map (\<lambda>c. if 97 \<le> c then c - 32 else c) (hex_string n)
      in replicate (width - length h) 48 @ h)"

definition escape_unit :: "nat \<Rightarrow> jstring" where
  "escape_unit c =
     (if 65 \<le> c \<and> c \<le> 90 \<or> 97 \<le> c \<and> c \<le> 122 \<or> 48 \<le> c \<and> c \<le> 57 \<or> c \<in> set (js ''@*_+-./'')
      then [c]
      else if c < 256 then js ''%'' @ upper_hex 2 c
      else js ''%u'' @ upper_hex 4 c)"

definition escape :: "jstring \<Rightarrow> jstring" where
  "escape s = concat (map escape_unit s)"

text \<open>The page of results for a search value, without and with the query.\<close>

definition results_pages ::
    "(jstring \<Rightarrow> jstring) \<Rightarrow> search_box \<Rightarrow> jstring \<Rightarrow> js_error + jstring \<times> jstring" where
  "results_pages uni b searchValue =
     (if \<not> (0 \<le> searchIndex b \<and> nat (searchIndex b) < length indexSectionsWithContent)
      then Inl TypeError
      else
        (case index_of (idx_char uni searchValue) (indexSectionsWithContent ! nat (searchIndex b)) of
           Some idx \<Rightarrow>
             let resultsPage = resultsPath b @ js ''/'' @ indexSectionNames ! nat (searchIndex b)
                                 @ js ''_'' @ hex_string idx @ js ''.html''
             in Inr (resultsPage, resultsPage @ js ''?'' @ escape searchValue)
         | None \<Rightarrow>
             let resultsPage = resultsPath b @ js ''/nomatches.html''
             in Inr (resultsPage, resultsPage)))"

text \<open>Showing the window of results.\<close>

definition show_results :: "box_state \<Rightarrow> page" where
  "show_results = (\<lambda>(b, p).
     if results_display p \<noteq> js ''block'' then
       (let p = p\<lparr>close_display := js ''inline''\<rparr> in
        if insideFrame b then
          p\<lparr>results_position := js ''relative'', results_display := js ''block'',
             results_width := body_width p - 8\<rparr>
        else
          p\<lparr>results_display := js ''block'',
             results_top := getYPos (box_layout p) + 20,
             results_left := getXPos (box_layout p) + 150 - results_offsetWidth p\<rparr>)
     else p)"

definition SearchBox_Search :: "(jstring \<Rightarrow> jstring) \<Rightarrow> box_state \<Rightarrow> box_result" where
  "SearchBox_Search uni = (\<lambda>(b, p).
     let b = b\<lparr>keyTimeout := 0\<rparr>;
         searchValue = strip_leading (field_value p)
     in andthen (results_pages uni b searchValue) (\<lambda>(resultsPage, withSearch).
          let p = show_results (b, p\<lparr>results_location := withSearch\<rparr>)
          in Inr (b\<lparr>lastSearchValue := searchValue, lastResultsPage := resultsPage\<rparr>, p)))"

section \<open>The menu of sections\<close>

definition OnSearchSelectShow :: "box_state \<Rightarrow> box_state" where
  "OnSearchSelectShow = (\<lambda>(b, p).
     let field = select_layout p;
         left = getXPos field;
         top = getYPos field;
         p = (if insideFrame b then
                p\<lparr>menu_display := js ''block'',
                   menu_left := left + (offsetWidth field + 6) - menu_width p,
                   menu_top := top + offsetHeight field\<rparr>
              else
                p\<lparr>menu_display := js ''block'', menu_left := left,
                   menu_top := top + offsetHeight field\<rparr>)
     in if hideTimeout b \<noteq> 0
        then (b\<lparr>hideTimeout := 0\<rparr>, clearTimeout (hideTimeout b) p)
        else (b, p))"

definition OnSearchSelectHide :: "box_state \<Rightarrow> box_state" where
  "OnSearchSelectHide = (\<lambda>(b, p).
     let (n, p) = setTimeout Call_CloseSelectionWindow p in (b\<lparr>hideTimeout := n\<rparr>, p))"

definition CloseSelectionWindow :: "box_state \<Rightarrow> box_state" where
  "CloseSelectionWindow = (\<lambda>(b, p). (b, p\<lparr>menu_display := js ''none''\<rparr>))"

definition SelectItemCount :: "page \<Rightarrow> nat" where
  "SelectItemCount p = length (filter is_item (menu p))"

text \<open>The loop of \<open>SelectItemSet\<close>: the \<open>id\<close>-th item gets the bullet, every other a space.\<close>

fun mark_items :: "int \<Rightarrow> int \<Rightarrow> menu_child list \<Rightarrow> menu_child list" where
  "mark_items ident j [] = []"
| "mark_items ident j (child # children) =
     (if is_item child
      then child\<lparr>mark := (if j = ident then js ''&#8226;'' else js ''&#160;'')\<rparr> # mark_items ident (j + 1) children
      else child # mark_items ident j children)"

definition SelectItemSet :: "int \<Rightarrow> page \<Rightarrow> page" where
  "SelectItemSet ident p = p\<lparr>menu := mark_items ident 0 (menu p)\<rparr>"

definition OnSelectItem :: "(jstring \<Rightarrow> jstring) \<Rightarrow> int \<Rightarrow> box_state \<Rightarrow> box_result" where
  "OnSelectItem uni ident = (\<lambda>(b, p).
     let b = b\<lparr>searchIndex := ident\<rparr>;
         p = SelectItemSet ident p;
         searchValue = strip_all (field_value p)
     in if searchValue \<noteq> [] \<and> searchActive b then SearchBox_Search uni (b, p) else Inr (b, p))"

definition OnSearchSelectKey :: "(jstring \<Rightarrow> jstring) \<Rightarrow> nat \<Rightarrow> box_state \<Rightarrow> box_result" where
  "OnSearchSelectKey uni keyCode = (\<lambda>(b, p).
     if keyCode = 40 \<and> searchIndex b < int (SelectItemCount p) then
       OnSelectItem uni (searchIndex b + 1) (b\<lparr>searchIndex := searchIndex b + 1\<rparr>, p)
     else if keyCode = 38 \<and> searchIndex b > 0 then
       OnSelectItem uni (searchIndex b - 1) (b\<lparr>searchIndex := searchIndex b - 1\<rparr>, p)
     else if keyCode = 13 \<or> keyCode = 27 then
       andthen (OnSelectItem uni (searchIndex b) (b, p)) (\<lambda>s.
       let (b, p) = CloseSelectionWindow s in Inr (b, p\<lparr>focused := On_field\<rparr>))
     else Inr (b, p))"

section \<open>The search field\<close>

definition CloseResultsWindow :: "box_state \<Rightarrow> box_state" where
  "CloseResultsWindow = (\<lambda>(b, p).
     Activate False (b, p\<lparr>results_display := js ''none'', close_display := js ''none''\<rparr>))"

text \<open>
  A key event: its code and whether the shift key is down. \<open>frame\<close> is what
  \<open>searchResults.NavNext(0)\<close> gives in the frame of results, \<open>None\<close> when there is no such object.
\<close>

definition first_item :: "menu_child list \<Rightarrow> nat option" where
  "first_item children = find_index is_item children"

text \<open>The end of \<open>OnSearchFieldChange\<close>: a changed search value sets the timer of a search.\<close>

definition field_changed :: "box_state \<Rightarrow> box_state" where
  "field_changed = (\<lambda>(b, p).
     let searchValue = strip_all (field_value p) in
     if searchValue \<noteq> lastSearchValue b then
       (if searchValue \<noteq> [] then
          (let (n, p) = setTimeout Call_Search p in (b\<lparr>keyTimeout := n\<rparr>, p))
        else
          (b\<lparr>lastSearchValue := []\<rparr>,
           p\<lparr>results_display := js ''none'', close_display := js ''none''\<rparr>))
     else (b, p))"

text \<open>The start: the running timer is killed.\<close>

definition kill_search_timer :: "box_state \<Rightarrow> box_state" where
  "kill_search_timer = (\<lambda>(b, p).
     if keyTimeout b \<noteq> 0 then (b\<lparr>keyTimeout := 0\<rparr>, clearTimeout (keyTimeout b) p) else (b, p))"

definition OnSearchFieldChange ::
    "nat option option \<Rightarrow> nat \<Rightarrow> bool \<Rightarrow> box_state \<Rightarrow> box_state" where
  "OnSearchFieldChange frame keyCode shiftKey s =
     (let (b, p) = kill_search_timer s
      in if keyCode = 40 \<or> keyCode = 13 then
           (if shiftKey then
              (let (b, p) = OnSearchSelectShow (b, p) in
               case first_item (menu p) of
                 None \<Rightarrow> (b, p)
               | Some i \<Rightarrow> (b, p\<lparr>focused := On_menu i\<rparr>))
            else
              (case frame of
                 Some (Some item) \<Rightarrow> field_changed (b, p\<lparr>focused := On_result item\<rparr>)
               | _ \<Rightarrow> field_changed (b, p)))
         else if keyCode = 27 then
           (let p = p\<lparr>focused := Nowhere, results_display := js ''none'', close_display := js ''none''\<rparr>
            in Activate False (b\<lparr>lastSearchValue := []\<rparr>, p))
         else field_changed (b, p))"

section \<open>Timers\<close>

text \<open>A timer that is pending goes off.\<close>

definition timer_fires :: "(jstring \<Rightarrow> jstring) \<Rightarrow> nat \<times> callback \<Rightarrow> box_state \<Rightarrow> box_result" where
  "timer_fires uni t = (\<lambda>(b, p).
     let p = p\<lparr>timers := filter (\<lambda>u. u \<noteq> t) (timers p)\<rparr> in
     case snd t of
       Call_Search \<Rightarrow> SearchBox_Search uni (b, p)
     | Call_CloseSelectionWindow \<Rightarrow> Inr (CloseSelectionWindow (b, p)))"

text \<open>A key that is no command, after which the text of the field is another, sets the timer anew.\<close>

lemma change_sets_timer:
  assumes "keyCode \<notin> {13, 27, 40}" and "strip_all (field_value p) \<notin> {[], lastSearchValue b}"
  shows "OnSearchFieldChange frame keyCode shiftKey (b, p) =
    (b\<lparr>keyTimeout := next_timer p\<rparr>,
     p\<lparr>timers := (if keyTimeout b = 0 then timers p else filter (\<lambda>t. fst t \<noteq> keyTimeout b) (timers p)) @
                  [(next_timer p, Call_Search)],
       next_timer := next_timer p + 1\<rparr>)"
  using assms
  by (simp add: OnSearchFieldChange_def kill_search_timer_def field_changed_def setTimeout_def clearTimeout_def)

lemma Search_shows:
  assumes "SearchBox_Search uni (b, p) = Inr (b', p')"
  shows "lastSearchValue b' = strip_leading (field_value p)" and "results_display p' = js ''block''"
  using assms by (auto simp: SearchBox_Search_def show_results_def Let_def andthen_Inr_iff)

section \<open>The menu keeps its items, the index stays near them\<close>

lemma marked_length [simp]: "length (mark_items ident j children) = length children"
  by (induction children arbitrary: j) auto

lemma marked_items [simp]: "map is_item (mark_items ident j children) = map is_item children"
  by (induction children arbitrary: j) auto

text \<open>The marks of the items, in order: a bullet at \<open>ident\<close>, a space elsewhere.\<close>

lemma marks_of_items:
  "map mark (filter is_item (mark_items ident j children)) =
     map (\<lambda>n. if j + int n = ident then js ''&#8226;'' else js ''&#160;'')
       [0..<length (filter is_item children)]"
proof (induction children arbitrary: j)
  case Nil
  then show ?case by simp
next
  case (Cons child children)
  show ?case
  proof (cases "is_item child")
    case True
    have "map (\<lambda>n. if j + int n = ident then js ''&#8226;'' else js ''&#160;'')
        [0..<Suc (length (filter is_item children))] =
      (if j = ident then js ''&#8226;'' else js ''&#160;'') #
      map (\<lambda>n. if j + 1 + int n = ident then js ''&#8226;'' else js ''&#160;'')
        [0..<length (filter is_item children)]"
      by (simp add: map_upt_Suc del: upt_Suc)
    with True Cons.IH [of "j + 1"] show ?thesis by simp
  next
    case False
    with Cons.IH [of j] show ?thesis by simp
  qed
qed

lemma length_filter_map: "length (filter P xs) = length (filter id (map P xs))"
  by (induction xs) auto

lemma SelectItemCount_set [simp]: "SelectItemCount (SelectItemSet ident p) = SelectItemCount p"
  unfolding SelectItemCount_def
  by (subst (1 2) length_filter_map) (simp add: SelectItemSet_def)

lemma show_results_fields [simp]:
  "menu (show_results (b, p)) = menu p" "timers (show_results (b, p)) = timers p"
  "next_timer (show_results (b, p)) = next_timer p" "field_value (show_results (b, p)) = field_value p"
  "results_location (show_results (b, p)) = results_location p"
  by (simp_all add: show_results_def Let_def)

lemma Search_fields:
  assumes "SearchBox_Search uni (b, p) = Inr (b', p')"
  shows "searchIndex b' = searchIndex b" and "menu p' = menu p" and "timers p' = timers p"
    and "next_timer p' = next_timer p" and "keyTimeout b' = 0" and "field_value p' = field_value p"
    and "searchActive b' = searchActive b" and "hideTimeout b' = hideTimeout b"
  using assms by (auto simp: SearchBox_Search_def Let_def andthen_Inr_iff)

lemma OnSelectItem_fields:
  assumes "OnSelectItem uni ident (b, p) = Inr (b', p')"
  shows "searchIndex b' = ident" and "SelectItemCount p' = SelectItemCount p"
    and "menu p' = mark_items ident 0 (menu p)"
proof -
  have "searchIndex b' = ident \<and> menu p' = menu (SelectItemSet ident p)"
    using assms Search_fields(1,2) [of uni "b\<lparr>searchIndex := ident\<rparr>" "SelectItemSet ident p" b' p']
    by (auto simp: OnSelectItem_def Let_def split: if_splits)
  then show "searchIndex b' = ident" "menu p' = mark_items ident 0 (menu p)"
    "SelectItemCount p' = SelectItemCount p"
    using SelectItemCount_set [of ident p] by (simp_all add: SelectItemCount_def SelectItemSet_def)
qed

lemma select_key_range:
  assumes "OnSearchSelectKey uni keyCode (b, p) = Inr (b', p')"
    and "0 \<le> searchIndex b" and "searchIndex b \<le> int (SelectItemCount p)"
  shows "0 \<le> searchIndex b' \<and> searchIndex b' \<le> int (SelectItemCount p') \<and>
    SelectItemCount p' = SelectItemCount p"
proof -
  have closed: "SelectItemCount (p\<lparr>menu_display := d, focused := f\<rparr>) = SelectItemCount p" for p d f
    by (simp add: SelectItemCount_def)
  consider "keyCode = 40" "searchIndex b < int (SelectItemCount p)"
      "OnSelectItem uni (searchIndex b + 1) (b\<lparr>searchIndex := searchIndex b + 1\<rparr>, p) = Inr (b', p')"
    | "searchIndex b > 0"
      "OnSelectItem uni (searchIndex b - 1) (b\<lparr>searchIndex := searchIndex b - 1\<rparr>, p) = Inr (b', p')"
    | p1 where "OnSelectItem uni (searchIndex b) (b, p) = Inr (b', p1)"
      "p' = p1\<lparr>menu_display := js ''none'', focused := On_field\<rparr>"
    | "b' = b" "p' = p"
    using assms(1)
    by (auto simp: OnSearchSelectKey_def CloseSelectionWindow_def andthen_Inr_iff split: if_splits)
  then show ?thesis
  proof cases
    case 1
    then show ?thesis using OnSelectItem_fields(1,2) [OF 1(3)] assms(2) by simp
  next
    case 2
    then show ?thesis using OnSelectItem_fields(1,2) [OF 2(2)] assms(3) by simp
  next
    case 3
    then show ?thesis using OnSelectItem_fields(1,2) [OF 3(1)] assms(2,3) closed by simp
  qed (use assms in simp)
qed

end
