(* ===== verification/Search_Page.thy ===== *)
theory Search_Page
  imports Search_Box
begin

text \<open>
  The page of search results: the part of the document object model that search.js uses, the
  function \<open>createResults\<close> that fills the page from its table of rows, and the SearchResults
  object with its search, its visible items and its keys.
\<close>

section \<open>Elements\<close>

text \<open>
  An element has a node name, attributes, a display style and a text; \<open>id\<close> and
  \<open>className\<close> are the values of two attributes, empty when absent.
\<close>

record elem_data =
  nodeName :: jstring
  attributes :: "(jstring \<times> jstring) list"
  style_display :: jstring
  innerHTML :: jstring

datatype elem = Elem (elem_data: elem_data) (childNodes: "elem list")

definition attribute :: "jstring \<Rightarrow> elem_data \<Rightarrow> jstring" where
  "attribute name d = (case map_of (attributes d) name of None \<Rightarrow> [] | Some v \<Rightarrow> v)"

abbreviation ident_of :: "elem_data \<Rightarrow> jstring" where
  "ident_of d \<equiv> attribute (js ''id'') d"

abbreviation class_of :: "elem_data \<Rightarrow> jstring" where
  "class_of d \<equiv> attribute (js ''class'') d"

definition createElement :: "jstring \<Rightarrow> elem_data" where
  "createElement name = \<lparr>nodeName = name, attributes = [], style_display = [], innerHTML = []\<rparr>"

definition setAttribute :: "jstring \<Rightarrow> jstring \<Rightarrow> elem_data \<Rightarrow> elem_data" where
  "setAttribute name v d = d\<lparr>attributes := (name, v) # attributes d\<rparr>"

definition setKeyActions :: "jstring \<Rightarrow> elem_data \<Rightarrow> elem_data" where
  "setKeyActions action d =
     setAttribute (js ''onkeyup'') action
       (setAttribute (js ''onkeypress'') action (setAttribute (js ''onkeydown'') action d))"

definition setClassAttr :: "jstring \<Rightarrow> elem_data \<Rightarrow> elem_data" where
  "setClassAttr attr d = setAttribute (js ''className'') attr (setAttribute (js ''class'') attr d)"

section \<open>Positions in a document\<close>

text \<open>
  A position is the list of child numbers that leads from the element up to the root of the
  document: \<open>i # r\<close> is child \<open>i\<close> of the element at \<open>r\<close>, which is its \<open>parentNode\<close>.
\<close>

type_synonym position = "nat list"

fun node_at :: "elem \<Rightarrow> position \<Rightarrow> elem option" where
  "node_at e [] = Some e"
| "node_at e (i # r) =
     (case node_at e r of
        None \<Rightarrow> None
      | Some n \<Rightarrow> if i < length (childNodes n) then Some (childNodes n ! i) else None)"

definition data_at :: "elem \<Rightarrow> position \<Rightarrow> elem_data option" where
  "data_at e p = map_option elem_data (node_at e p)"

text \<open>Changing the data, or the children, of the element at a path from the root.\<close>

fun update_path :: "nat list \<Rightarrow> (elem \<Rightarrow> elem) \<Rightarrow> elem \<Rightarrow> elem" where
  "update_path [] f e = f e"
| "update_path (i # path) f (Elem d es) =
     Elem d (if i < length es then es[i := update_path path f (es ! i)] else es)"

definition update_data :: "position \<Rightarrow> (elem_data \<Rightarrow> elem_data) \<Rightarrow> elem \<Rightarrow> elem" where
  "update_data p f e = update_path (rev p) (\<lambda>n. Elem (f (elem_data n)) (childNodes n)) e"

definition appendChildren :: "position \<Rightarrow> elem list \<Rightarrow> elem \<Rightarrow> elem" where
  "appendChildren p es e = update_path (rev p) (\<lambda>n. Elem (elem_data n) (childNodes n @ es)) e"

definition set_display :: "jstring \<Rightarrow> elem_data \<Rightarrow> elem_data" where
  "set_display v d = d\<lparr>style_display := v\<rparr>"

text \<open>
  The elements of a forest in document order, with their positions; \<open>into\<close> says whose
  children are visited.
\<close>

fun walk :: "(elem_data \<Rightarrow> bool) \<Rightarrow> position \<Rightarrow> nat \<Rightarrow> elem list \<Rightarrow> (position \<times> elem_data) list" where
  "walk into r i [] = []"
| "walk into r i (Elem d es # rest) =
     (i # r, d) # (if into d then walk into (i # r) 0 es else []) @ walk into r (Suc i) rest"

definition all_elements :: "elem \<Rightarrow> (position \<times> elem_data) list" where
  "all_elements doc = walk (\<lambda>_. True) [] 0 (childNodes doc)"

definition getElementById :: "jstring \<Rightarrow> elem \<Rightarrow> position option" where
  "getElementById ident doc =
     map_option fst (List.find (\<lambda>(p, d). ident_of d = ident) (all_elements doc))"

section \<open>createResults\<close>

text \<open>
  A row of \<open>searchData\<close>: its id, its name, and its links, each with an address, whether it
  replaces the parent page, and its scope.
\<close>

record search_link =
  link_href :: jstring
  link_parent :: bool
  link_scope :: jstring

record search_row =
  row_id :: jstring
  row_name :: jstring
  row_links :: "search_link list"

definition number_string :: "nat \<Rightarrow> jstring" where
  "number_string n = js (digits 10 n)"

definition with_target :: "search_link \<Rightarrow> elem_data \<Rightarrow> elem_data" where
  "with_target l d = (if link_parent l then setAttribute (js ''target'') (js ''_parent'') d else d)"

definition result_child :: "nat \<Rightarrow> nat \<Rightarrow> search_link \<Rightarrow> elem" where
  "result_child e c l =
     (let srChild = createElement (js ''A'');
          srChild = setAttribute (js ''id'') (js ''Item'' @ number_string e @ js ''_c'' @ number_string c) srChild;
          srChild = setKeyActions (js ''return searchResults.NavChild(event,'' @ number_string e
                                    @ js '','' @ number_string c @ js '')'') srChild;
          srChild = setClassAttr (js ''SRScope'') srChild;
          srChild = setAttribute (js ''href'') (link_href l) srChild;
          srChild = with_target l srChild
      in Elem (srChild\<lparr>innerHTML := link_scope l\<rparr>) [])"

fun result_children :: "nat \<Rightarrow> nat \<Rightarrow> search_link list \<Rightarrow> elem list" where
  "result_children e c [] = []"
| "result_children e c (l # ls) = result_child e c l # result_children e (Suc c) ls"

definition result_link :: "nat \<Rightarrow> search_row \<Rightarrow> elem_data" where
  "result_link e row =
     (let srLink = createElement (js ''A'');
          srLink = setAttribute (js ''id'') (js ''Item'' @ number_string e) srLink;
          srLink = setKeyActions (js ''return searchResults.Nav(event,'' @ number_string e @ js '')'') srLink;
          srLink = setClassAttr (js ''SRSymbol'') srLink
      in srLink\<lparr>innerHTML := row_name row\<rparr>)"

definition result_entry :: "nat \<Rightarrow> search_row \<Rightarrow> elem" where
  "result_entry e row =
     Elem (setClassAttr (js ''SREntry'') (createElement (js ''DIV'')))
       (case row_links row of
          [l] \<Rightarrow>
            [Elem (with_target l (setAttribute (js ''href'') (link_href l) (result_link e row))) [],
             Elem ((setClassAttr (js ''SRScope'') (createElement (js ''SPAN'')))\<lparr>innerHTML := link_scope l\<rparr>) []]
        | ls \<Rightarrow>
            [Elem (setAttribute (js ''href'')
                     (js ''javascript:searchResults.Toggle('' @ [34] @ js ''SR_'' @ row_id row @ [34] @ js '')'')
                     (result_link e row)) [],
             Elem (setClassAttr (js ''SRChildren'') (createElement (js ''DIV'')))
               (result_children e 0 ls)])"

definition result_row :: "nat \<Rightarrow> search_row \<Rightarrow> elem" where
  "result_row e row =
     Elem (setClassAttr (js ''SRResult'')
             (setAttribute (js ''id'') (js ''SR_'' @ row_id row) (createElement (js ''DIV''))))
       [result_entry e row]"

fun result_rows :: "nat \<Rightarrow> search_row list \<Rightarrow> elem list" where
  "result_rows e [] = []"
| "result_rows e (row # searchData) = result_row e row # result_rows (Suc e) searchData"

definition createResults :: "search_row list \<Rightarrow> elem \<Rightarrow> js_error + elem" where
  "createResults searchData doc =
     (case getElementById (js ''SRResults'') doc of
        None \<Rightarrow> if searchData = [] then Inr doc else Inl TypeError
      | Some p \<Rightarrow> Inr (appendChildren p (result_rows 0 searchData) doc))"

section \<open>Searching the rows\<close>

text \<open>The global function \<open>unescape\<close>.\<close>

definition hex_value :: "nat \<Rightarrow> nat option" where
  "hex_value c =
     (if 48 \<le> c \<and> c \<le> 57 then Some (c - 48)
      else if 65 \<le> c \<and> c \<le> 70 then Some (c - 55)
      else if 97 \<le> c \<and> c \<le> 102 then Some (c - 87) else None)"

fun hex_number :: "jstring \<Rightarrow> nat option" where
  "hex_number [] = Some 0"
| "hex_number (c # s) =
     (case (hex_value c, hex_number s) of
        (Some d, Some n) \<Rightarrow> Some (d * 16 ^ length s + n) | _ \<Rightarrow> None)"

function unescape :: "jstring \<Rightarrow> jstring" where
  "unescape s =
     (case s of
        [] \<Rightarrow> []
      | c # r \<Rightarrow>
          (let wide = (if c = 37 \<and> 5 \<le> length r \<and> hd r = 117 then hex_number (take 4 (tl r)) else None);
               narrow = (if c = 37 \<and> 2 \<le> length r then hex_number (take 2 r) else None)
           in case wide of
                Some n \<Rightarrow> n # unescape (drop 5 r)
              | None \<Rightarrow>
                  (case narrow of Some n \<Rightarrow> n # unescape (drop 2 r) | None \<Rightarrow> c # unescape r)))"
  by pat_completeness auto
termination by (relation "measure length") auto

declare unescape.simps [simp del]

text \<open>\<open>replace(/^sr\d*_/, '')\<close>.\<close>

definition strip_sr :: "jstring \<Rightarrow> jstring" where
  "strip_sr s =
     (if take 2 s = js ''sr'' then
        (case dropWhile (\<lambda>c. 48 \<le> c \<and> c \<le> 57) (drop 2 s) of
           c # r \<Rightarrow> if c = 95 then r else s
         | [] \<Rightarrow> s)
      else s)"

definition row_matches :: "(jstring \<Rightarrow> jstring) \<Rightarrow> jstring \<Rightarrow> elem_data \<Rightarrow> bool" where
  "row_matches uni search row =
     (let rowMatchName = strip_sr (toLowerCase uni (ident_of row))
      in length search \<le> length rowMatchName \<and> take (length search) rowMatchName = search)"

definition is_result :: "elem_data \<Rightarrow> bool" where
  "is_result d \<longleftrightarrow> nodeName d = js ''DIV'' \<and> class_of d = js ''SRResult''"

text \<open>The loop over the divisions of the document, and the number of rows it shows.\<close>

fun search_rows ::
    "(jstring \<Rightarrow> jstring) \<Rightarrow> jstring \<Rightarrow> (position \<times> elem_data) list \<Rightarrow> elem \<times> nat \<Rightarrow> elem \<times> nat" where
  "search_rows uni search [] s = s"
| "search_rows uni search ((p, row) # rows) (doc, matches) =
     search_rows uni search rows
       (if is_result row then
          (if row_matches uni search row
           then (update_data p (set_display (js ''block'')) doc, Suc matches)
           else (update_data p (set_display (js ''none'')) doc, matches))
        else (doc, matches))"

definition show_element :: "jstring \<Rightarrow> jstring \<Rightarrow> elem \<Rightarrow> js_error + elem" where
  "show_element ident v doc =
     (case getElementById ident doc of
        None \<Rightarrow> Inl TypeError
      | Some p \<Rightarrow> Inr (update_data p (set_display v) doc))"

definition search_term :: "(jstring \<Rightarrow> jstring) \<Rightarrow> jstring \<Rightarrow> jstring \<Rightarrow> jstring" where
  "search_term uni location_search search =
     (let search = (if search = [] then unescape (drop 1 location_search) else search)
      in convertToId (toLowerCase uni (strip_trailing (strip_leading search))))"

definition SearchResults_Search ::
    "(jstring \<Rightarrow> jstring) \<Rightarrow> jstring \<Rightarrow> jstring \<Rightarrow> elem \<Rightarrow> js_error + elem \<times> nat" where
  "SearchResults_Search uni location_search search doc =
     (let search = search_term uni location_search search;
          (doc, matches) = search_rows uni search (all_elements doc) (doc, 0)
      in andthen (show_element (js ''Searching'') (js ''none'') doc) (\<lambda>doc.
         andthen (show_element (js ''NoMatches'') (if matches = 0 then js ''block'' else js ''none'') doc) (\<lambda>doc.
         Inr (doc, matches))))"

end
