(* ===== verification/Search_Document.thy ===== *)
theory Search_Document
  imports Search_Page
begin

text \<open>
  Facts on documents: what changing the data of one element does to the data at the other
  positions, and the elements of a document in document order.
\<close>

named_theorems document_simps

section \<open>Paths from the root\<close>

fun follow :: "elem \<Rightarrow> nat list \<Rightarrow> elem option" where
  "follow e [] = Some e"
| "follow e (i # path) =
     (if i < length (childNodes e) then follow (childNodes e ! i) path else None)"

lemma follow_append:
  "follow e (path @ [i]) =
     (case follow e path of
        None \<Rightarrow> None
      | Some n \<Rightarrow> if i < length (childNodes n) then Some (childNodes n ! i) else None)"
  by (induction path arbitrary: e) auto

lemma node_at_follow: "node_at e p = follow e (rev p)"
  by (induction p) (simp_all add: follow_append split: option.split)

lemma follow_update:
  assumes "\<And>n. g n = Elem (f (elem_data n)) (childNodes n)"
  shows "map_option elem_data (follow (update_path path g e) q) =
    (if q = path then map_option (f \<circ> elem_data) (follow e q)
     else map_option elem_data (follow e q))"
proof (induction path arbitrary: e q)
  case Nil
  show ?case by (cases q) (simp_all add: assms)
next
  case (Cons i path)
  obtain d es where e: "e = Elem d es" by (cases e)
  show ?case
  proof (cases q)
    case Nil
    with e show ?thesis by simp
  next
    case (Cons j q')
    with e Cons.IH [of "es ! i" q'] show ?thesis
      by (cases "i < length es"; cases "i = j") auto
  qed
qed

lemma data_at_update [document_simps]:
  "data_at (update_data p f e) q = (if q = p then map_option f (data_at e q) else data_at e q)"
  unfolding data_at_def update_data_def node_at_follow
  by (subst follow_update [of _ f]) (auto simp: option.map_comp comp_def)

section \<open>The elements in document order\<close>

lemma walk_append: "walk into r i (es @ fs) = walk into r i es @ walk into r (i + length es) fs"
proof (induction es arbitrary: i)
  case (Cons e es)
  then show ?case by (cases e) simp
qed simp

lemma walk_below:
  "(q, d) \<in> set (walk into r i es) \<Longrightarrow> \<exists>w j. q = w @ j # r \<and> i \<le> j"
proof (induction into r i es rule: walk.induct)
  case (2 into r i d' es rest)
  then consider "q = i # r" | "into d'" "(q, d) \<in> set (walk into (i # r) 0 es)"
    | "(q, d) \<in> set (walk into r (Suc i) rest)"
    by (auto split: if_splits)
  then show ?case
  proof cases
    case 1
    then show ?thesis by auto
  next
    case 2
    with 2(1) "2.IH"(1) obtain w j where "q = w @ j # i # r" by blast
    then have "q = (w @ [j]) @ i # r" by simp
    then show ?thesis by blast
  next
    case 3
    with "2.IH"(2) show ?thesis by (meson Suc_leD)
  qed
qed simp

lemma walk_distinct: "distinct (map fst (walk into r i es))"
proof (induction into r i es rule: walk.induct)
  case (2 into r i d es rest)
  let ?inner = "if into d then walk into (i # r) 0 es else []"
  have inner: "\<exists>w j. q = w @ j # i # r" if "(q, c) \<in> set ?inner" for q c
    using that walk_below [of q c into "i # r" 0 es] by (auto split: if_splits)
  have outer: "\<exists>w j. q = w @ j # r \<and> Suc i \<le> j" if "(q, c) \<in> set (walk into r (Suc i) rest)" for q c
    using that by (rule walk_below)
  have "fst x \<noteq> fst y" if x: "x \<in> set ?inner" and y: "y \<in> set (walk into r (Suc i) rest)" for x y
  proof
    assume eq: "fst x = fst y"
    obtain w j where "fst x = w @ j # i # r" using inner [of "fst x" "snd x"] x by auto
    moreover obtain w' j' where "fst y = w' @ j' # r" "Suc i \<le> j'"
      using outer [of "fst y" "snd y"] y by auto
    ultimately have "(w @ [j]) @ (i # r) = w' @ (j' # r)" "Suc i \<le> j'" using eq by auto
    then show False by (subst (asm) append_eq_append_conv) auto
  qed
  moreover have "i # r \<notin> fst ` set ?inner" "i # r \<notin> fst ` set (walk into r (Suc i) rest)"
    using inner outer by (fastforce simp: append_eq_Cons_conv)+
  moreover have "distinct (map fst ?inner)" using 2 by simp
  ultimately show ?case using 2 by (auto simp: image_iff)
qed simp

lemma walk_data:
  assumes "node_at e r = Some n" and "(q, d) \<in> set (walk into r i (drop i (childNodes n)))"
  shows "data_at e q = Some d"
  using assms
proof (induction "drop i (childNodes n)" arbitrary: r n i rule: measure_induct_rule [where f = "size_list size"])
  case less
  show ?case
  proof (cases "drop i (childNodes n)")
    case Nil
    with less.prems show ?thesis by simp
  next
    case (Cons c rest)
    obtain d' es where c: "c = Elem d' es" by (cases c)
    have i: "i < length (childNodes n)" "childNodes n ! i = c" "rest = drop (Suc i) (childNodes n)"
      using Cons by (metis drop_eq_Nil leI list.distinct(1), metis nth_via_drop,
          metis drop_Suc list.sel(3) tl_drop)
    have here: "node_at e (i # r) = Some c" using less.prems(1) i by simp
    consider "q = i # r" "d = d'" | "(q, d) \<in> set (walk into (i # r) 0 (drop 0 (childNodes c)))"
      | "(q, d) \<in> set (walk into r (Suc i) (drop (Suc i) (childNodes n)))"
      using less.prems(2) unfolding Cons c i(3) by (auto split: if_splits)
    then show ?thesis
    proof cases
      case 1
      with here c show ?thesis by (simp add: data_at_def)
    next
      case 2
      show ?thesis by (rule less.hyps [OF _ here 2]) (simp add: Cons c)
    next
      case 3
      show ?thesis by (rule less.hyps [OF _ less.prems(1) 3]) (simp add: Cons i(3) [symmetric])
    qed
  qed
qed

lemma all_elements_data: "(q, d) \<in> set (all_elements e) \<Longrightarrow> data_at e q = Some d"
  using walk_data [of e "[]" e q d _ 0] by (simp add: all_elements_def)

lemma all_elements_distinct: "distinct (map fst (all_elements e))"
  by (simp add: all_elements_def walk_distinct)

lemma walk_update_one:
  assumes "k < length es" and "map fst (walk into r (i + k) [c]) = map fst (walk into r (i + k) [es ! k])"
  shows "map fst (walk into r i (es[k := c])) = map fst (walk into r i es)"
proof -
  have split: "map fst (walk into r i (take k es @ x # drop (Suc k) es)) =
      map fst (walk into r i (take k es)) @ map fst (walk into r (i + k) [x]) @
      map fst (walk into r (Suc (i + k)) (drop (Suc k) es))" for x
    using assms(1) walk_append [of into r "i + k" "[x]" "drop (Suc k) es"] by (simp add: walk_append)
  have "map fst (walk into r i (es[k := c])) = map fst (walk into r i (take k es @ es ! k # drop (Suc k) es))"
    unfolding upd_conv_take_nth_drop [OF assms(1)] split assms(2) ..
  then show ?thesis by (simp only: flip: id_take_nth_drop [OF assms(1)])
qed

lemma walk_positions_update:
  assumes "\<And>n. childNodes (g n) = childNodes n"
  shows "map fst (walk (\<lambda>_. True) r i
           (if k < length es then es[k := update_path path g (es ! k)] else es)) =
         map fst (walk (\<lambda>_. True) r i es)"
proof (induction path arbitrary: r i k es)
  case Nil
  have "map fst (walk (\<lambda>_. True) r i [g c]) = map fst (walk (\<lambda>_. True) r i [c])" for i c
    using assms [of c] by (cases "g c"; cases c) simp
  then show ?case by (simp add: walk_update_one)
next
  case (Cons j path)
  have "map fst (walk (\<lambda>_. True) r i [update_path (j # path) g c]) = map fst (walk (\<lambda>_. True) r i [c])"
    for i c using Cons.IH [of "i # r" 0 j "childNodes c"] by (cases c) (auto split: if_splits)
  then show ?case by (simp add: walk_update_one del: update_path.simps)
qed

lemma all_positions_update:
  "map fst (all_elements (update_data p f e)) = map fst (all_elements e)"
proof (cases "rev p")
  case Nil
  then show ?thesis by (simp add: all_elements_def update_data_def)
next
  case (Cons k path)
  obtain d es where "e = Elem d es" by (cases e)
  with Cons walk_positions_update [of "\<lambda>n. Elem (f (elem_data n)) (childNodes n)" "[]" 0 k es path]
  show ?thesis by (simp add: all_elements_def update_data_def)
qed

lemma all_elements_from_positions:
  "all_elements e = map (\<lambda>q. (q, the (data_at e q))) (map fst (all_elements e))"
proof -
  have "(fst x, the (data_at e (fst x))) = x" if "x \<in> set (all_elements e)" for x
    using all_elements_data [of "fst x" "snd x" e] that by simp
  then show ?thesis by (simp add: map_idI)
qed

lemma all_elements_update [document_simps]:
  "all_elements (update_data p f e) =
     map (\<lambda>(q, d). (q, if q = p then f d else d)) (all_elements e)"
proof -
  have "all_elements (update_data p f e) =
      map (\<lambda>q. (q, the (data_at (update_data p f e) q))) (map fst (all_elements e))"
    by (subst all_elements_from_positions) (simp only: all_positions_update)
  also have "\<dots> = map (\<lambda>(q, d). (q, if q = p then f d else d)) (all_elements e)"
    by (auto simp: data_at_update dest: all_elements_data)
  finally show ?thesis .
qed

section \<open>Elements by their ids\<close>

lemma find_map: "List.find P (map f xs) = map_option f (List.find (P \<circ> f) xs)"
  by (induction xs) auto

lemma getElementById_update [document_simps]:
  assumes "\<And>d. attribute (js ''id'') (f d) = attribute (js ''id'') d"
  shows "getElementById ident (update_data p f e) = getElementById ident e"
proof -
  have "((\<lambda>(p, d). ident_of d = ident) \<circ> (\<lambda>(q, d). (q, if q = p then f d else d))) =
      (\<lambda>(p, d). ident_of d = ident)"
    using assms by (auto simp: fun_eq_iff)
  then show ?thesis
    by (simp add: getElementById_def all_elements_update find_map option.map_comp comp_def case_prod_beta)
qed

lemma set_display_attributes [simp]:
  "attribute name (set_display v d) = attribute name d" "nodeName (set_display v d) = nodeName d"
  by (simp_all add: set_display_def attribute_def)

lemma getElementById_display [simp]:
  "getElementById ident (update_data p (set_display v) e) = getElementById ident e"
  by (rule getElementById_update) simp

lemma getElementById_data:
  assumes "getElementById ident e = Some p"
  shows "\<exists>d. data_at e p = Some d \<and> ident_of d = ident"
proof -
  obtain d where "List.find (\<lambda>(p, d). ident_of d = ident) (all_elements e) = Some (p, d)"
    using assms by (auto simp: getElementById_def)
  then have "(p, d) \<in> set (all_elements e)" "ident_of d = ident"
    by (auto simp: find_Some_iff) (metis nth_mem)
  then show ?thesis using all_elements_data by blast
qed

end
