(* ===== verification/Search_Keys.thy ===== *)
theory Search_Keys
  imports Search_Page
begin

text \<open>
  The keyboard side of the SearchResults object: finding the children of a row, the next and the
  previous visible item, and the handlers of the keys. A loop that might not end is an option,
  \<open>None\<close> standing for a loop that does not.
\<close>

section \<open>FindChildElement\<close>

definition is_div :: "elem_data \<Rightarrow> bool" where
  "is_div d \<longleftrightarrow> nodeName d = js ''DIV''"

definition is_children :: "elem_data \<Rightarrow> bool" where
  "is_children d \<longleftrightarrow> is_div d \<and> class_of d = js ''SRChildren''"

text \<open>Positions are relative to \<open>parentElement\<close>, which is at \<open>[]\<close>.\<close>

definition has_next :: "elem \<Rightarrow> position \<Rightarrow> bool" where
  "has_next parentElement p =
     (case p of [] \<Rightarrow> False | i # r \<Rightarrow> node_at parentElement (Suc i # r) \<noteq> None)"

fun next_sibling :: "position \<Rightarrow> position" where
  "next_sibling [] = []"
| "next_sibling (i # r) = Suc i # r"

text \<open>The inner loop, which climbs to an ancestor with a next sibling or to \<open>parentElement\<close>.\<close>

fun climb :: "elem \<Rightarrow> position \<Rightarrow> position" where
  "climb parentElement [] = []"
| "climb parentElement (i # r) =
     (if r = [] \<or> has_next parentElement r then r else climb parentElement r)"

definition next_element :: "elem \<Rightarrow> position \<Rightarrow> position" where
  "next_element parentElement p =
     (case node_at parentElement p of
        None \<Rightarrow> []
      | Some e \<Rightarrow>
          if is_div (elem_data e) \<and> childNodes e \<noteq> [] then 0 # p
          else if has_next parentElement p then next_sibling p
          else (let q = climb parentElement p in if q = [] then [] else next_sibling q))"

partial_function (option) find_loop :: "elem \<Rightarrow> position \<Rightarrow> position option option" where
  "find_loop parentElement p =
     (case p of
        [] \<Rightarrow> Some None
      | _ # _ \<Rightarrow>
          (case data_at parentElement p of
             None \<Rightarrow> Some None
           | Some d \<Rightarrow>
               if is_children d then Some (Some p)
               else find_loop parentElement (next_element parentElement p)))"

declare find_loop.simps [code]

text \<open>A result of a handler: the loop may not end, the code may throw.\<close>

type_synonym 'a outcome = "(js_error + 'a) option"

definition after :: "'a outcome \<Rightarrow> ('a \<Rightarrow> 'b outcome) \<Rightarrow> 'b outcome" where
  "after x f = (case x of None \<Rightarrow> None | Some (Inl e) \<Rightarrow> Some (Inl e) | Some (Inr a) \<Rightarrow> f a)"

definition FindChildElement :: "jstring \<Rightarrow> elem \<Rightarrow> position option outcome" where
  "FindChildElement ident doc =
     (case getElementById ident doc of
        None \<Rightarrow> Some (Inl TypeError)
      | Some base \<Rightarrow>
          (case node_at doc base of
             None \<Rightarrow> Some (Inl TypeError)
           | Some parentElement \<Rightarrow>
               map_option (\<lambda>found. Inr (map_option (\<lambda>p. p @ base) found)) (find_loop parentElement [0])))"

definition display_at :: "elem \<Rightarrow> position \<Rightarrow> jstring" where
  "display_at doc p = (case data_at doc p of None \<Rightarrow> [] | Some d \<Rightarrow> style_display d)"

definition Toggle :: "jstring \<Rightarrow> elem \<Rightarrow> elem outcome" where
  "Toggle ident doc =
     after (FindChildElement ident doc) (\<lambda>element.
       case element of
         None \<Rightarrow> Some (Inr doc)
       | Some p \<Rightarrow>
           Some (Inr (update_data p
             (set_display (if display_at doc p = js ''block'' then js ''none'' else js ''block'')) doc)))"

section \<open>Items\<close>

definition int_string :: "int \<Rightarrow> jstring" where
  "int_string i = (if i < 0 then js ''-'' @ number_string (nat (- i)) else number_string (nat i))"

definition item_name :: "int \<Rightarrow> jstring" where
  "item_name index = js ''Item'' @ int_string index"

definition child_name :: "int \<Rightarrow> nat \<Rightarrow> jstring" where
  "child_name index n = item_name index @ js ''_c'' @ number_string n"

partial_function (option) NavNext :: "elem \<Rightarrow> int \<Rightarrow> position option outcome" where
  "NavNext doc index =
     (case getElementById (item_name index) doc of
        None \<Rightarrow> Some (Inr None)
      | Some p \<Rightarrow>
          (if length p < 2 then Some (Inl TypeError)
           else if display_at doc (drop 2 p) = js ''block'' then Some (Inr (Some p))
           else NavNext doc (index + 1)))"

partial_function (option) NavPrev :: "elem \<Rightarrow> int \<Rightarrow> position option outcome" where
  "NavPrev doc index =
     (case getElementById (item_name index) doc of
        None \<Rightarrow> Some (Inr None)
      | Some p \<Rightarrow>
          (if length p < 2 then Some (Inl TypeError)
           else if display_at doc (drop 2 p) = js ''block'' then Some (Inr (Some p))
           else NavPrev doc (index - 1)))"

declare NavNext.simps [code] NavPrev.simps [code]

text \<open>The loop that looks for the last child of an item, from child \<open>n\<close> on.\<close>

partial_function (option) last_child :: "elem \<Rightarrow> int \<Rightarrow> nat \<Rightarrow> position \<Rightarrow> position option" where
  "last_child doc newIndex n focusItem =
     (case getElementById (child_name newIndex n) doc of
        None \<Rightarrow> Some focusItem
      | Some tmpElem \<Rightarrow> last_child doc newIndex (n + 1) tmpElem)"

declare last_child.simps [code]

section \<open>Keys\<close>

datatype key_event = keydown | keypress | keyup

text \<open>
  The state: the frame with its document, what \<open>SearchResults\<close> remembers, the element of the
  frame that has the focus, and the search box of the parent page.
\<close>

record results_page =
  document :: elem
  lastMatchCount :: nat
  lastKey :: nat
  repeatOn :: bool
  frame_focus :: "position option"
  parent_box :: box_state

definition ProcessKeys :: "key_event \<Rightarrow> nat \<Rightarrow> results_page \<Rightarrow> bool \<times> results_page" where
  "ProcessKeys kind keyCode s =
     (case kind of
        keydown \<Rightarrow> (let s = s\<lparr>repeatOn := False, lastKey := keyCode\<rparr> in (lastKey s \<noteq> 0, s))
      | keypress \<Rightarrow>
          (if \<not> repeatOn s
           then (False, if lastKey s \<noteq> 0 then s\<lparr>repeatOn := True\<rparr> else s)
           else (lastKey s \<noteq> 0, s))
      | keyup \<Rightarrow> (let s = s\<lparr>lastKey := 0, repeatOn := False\<rparr> in (lastKey s \<noteq> 0, s)))"

definition focus_item :: "position \<Rightarrow> results_page \<Rightarrow> results_page" where
  "focus_item p s = s\<lparr>frame_focus := Some p\<rparr>"

text \<open>\<open>parent.document.getElementById("MSearchField").focus()\<close>.\<close>

definition focus_search_field :: "results_page \<Rightarrow> results_page" where
  "focus_search_field s =
     (let (b, p) = parent_box s
      in s\<lparr>frame_focus := None, parent_box := (b, p\<lparr>focused := On_field\<rparr>)\<rparr>)"

definition escape_results :: "results_page \<Rightarrow> results_page" where
  "escape_results s = focus_search_field (s\<lparr>parent_box := CloseResultsWindow (parent_box s)\<rparr>)"

text \<open>The id of the row of an item, two elements up.\<close>

definition row_ident :: "elem \<Rightarrow> position \<Rightarrow> jstring outcome" where
  "row_ident doc p =
     (if length p < 2 then Some (Inl TypeError)
      else case data_at doc (drop 2 p) of
             None \<Rightarrow> Some (Inl TypeError)
           | Some d \<Rightarrow> Some (Inr (ident_of d)))"

text \<open>The children of the row of item \<open>itemIndex\<close>.\<close>

definition children_of_item :: "elem \<Rightarrow> int \<Rightarrow> position option outcome" where
  "children_of_item doc itemIndex =
     (case getElementById (item_name itemIndex) doc of
        None \<Rightarrow> Some (Inl TypeError)
      | Some item \<Rightarrow> after (row_ident doc item) (\<lambda>ident. FindChildElement ident doc))"

definition nav_up :: "int \<Rightarrow> results_page \<Rightarrow> results_page outcome" where
  "nav_up itemIndex s =
     (let doc = document s; newIndex = itemIndex - 1 in
      after (NavPrev doc newIndex) (\<lambda>focusItem.
        case focusItem of
          None \<Rightarrow> Some (Inr (focus_search_field s))
        | Some p \<Rightarrow>
            after (row_ident doc p) (\<lambda>ident.
            after (FindChildElement ident doc) (\<lambda>child.
              if (case child of None \<Rightarrow> False | Some c \<Rightarrow> display_at doc c = js ''block'')
              then map_option (\<lambda>q. Inr (focus_item q s)) (last_child doc newIndex 0 p)
              else Some (Inr (focus_item p s))))))"

definition nav_down :: "int \<Rightarrow> results_page \<Rightarrow> results_page outcome" where
  "nav_down itemIndex s =
     (let doc = document s in
      after (children_of_item doc itemIndex) (\<lambda>child.
        let first = (if (case child of None \<Rightarrow> False | Some c \<Rightarrow> display_at doc c = js ''block'')
                     then getElementById (child_name itemIndex 0) doc else None)
        in case first of
             Some p \<Rightarrow> Some (Inr (focus_item p s))
           | None \<Rightarrow>
               after (NavNext doc (itemIndex + 1)) (\<lambda>focusItem.
                 Some (Inr (case focusItem of None \<Rightarrow> s | Some p \<Rightarrow> focus_item p s)))))"

definition nav_show :: "int \<Rightarrow> jstring \<Rightarrow> results_page \<Rightarrow> results_page outcome" where
  "nav_show itemIndex v s =
     after (children_of_item (document s) itemIndex) (\<lambda>child.
       Some (Inr (case child of
                    None \<Rightarrow> s
                  | Some c \<Rightarrow> s\<lparr>document := update_data c (set_display v) (document s)\<rparr>)))"

definition Nav :: "key_event \<Rightarrow> nat \<Rightarrow> int \<Rightarrow> results_page \<Rightarrow> (bool \<times> results_page) outcome" where
  "Nav kind keyCode itemIndex s =
     (if keyCode = 13 then Some (Inr (True, s))
      else
        (let (go, s) = ProcessKeys kind keyCode s in
         if \<not> go then Some (Inr (False, s))
         else if lastKey s = 38 then after (nav_up itemIndex s) (\<lambda>s. Some (Inr (False, s)))
         else if lastKey s = 40 then after (nav_down itemIndex s) (\<lambda>s. Some (Inr (False, s)))
         else if lastKey s = 39 then after (nav_show itemIndex (js ''block'') s) (\<lambda>s. Some (Inr (False, s)))
         else if lastKey s = 37 then after (nav_show itemIndex (js ''none'') s) (\<lambda>s. Some (Inr (False, s)))
         else if lastKey s = 27 then Some (Inr (False, escape_results s))
         else if lastKey s = 13 then Some (Inr (True, s))
         else Some (Inr (False, s))))"

definition child_up :: "int \<Rightarrow> nat \<Rightarrow> results_page \<Rightarrow> results_page outcome" where
  "child_up itemIndex childIndex s =
     (case getElementById (if childIndex > 0 then child_name itemIndex (childIndex - 1)
                           else item_name itemIndex) (document s) of
        None \<Rightarrow> Some (Inl TypeError)
      | Some p \<Rightarrow> Some (Inr (focus_item p s)))"

definition child_down :: "int \<Rightarrow> nat \<Rightarrow> results_page \<Rightarrow> results_page outcome" where
  "child_down itemIndex childIndex s =
     (case getElementById (child_name itemIndex (childIndex + 1)) (document s) of
        Some p \<Rightarrow> Some (Inr (focus_item p s))
      | None \<Rightarrow>
          after (NavNext (document s) (itemIndex + 1)) (\<lambda>elem.
            Some (Inr (case elem of None \<Rightarrow> s | Some p \<Rightarrow> focus_item p s))))"

definition NavChild ::
    "key_event \<Rightarrow> nat \<Rightarrow> int \<Rightarrow> nat \<Rightarrow> results_page \<Rightarrow> (bool \<times> results_page) outcome" where
  "NavChild kind keyCode itemIndex childIndex s =
     (if keyCode = 13 then Some (Inr (True, s))
      else
        (let (go, s) = ProcessKeys kind keyCode s in
         if \<not> go then Some (Inr (False, s))
         else if lastKey s = 38 then after (child_up itemIndex childIndex s) (\<lambda>s. Some (Inr (False, s)))
         else if lastKey s = 40 then after (child_down itemIndex childIndex s) (\<lambda>s. Some (Inr (False, s)))
         else if lastKey s = 27 then Some (Inr (False, escape_results s))
         else if lastKey s = 13 then Some (Inr (True, s))
         else Some (Inr (False, s))))"

end
