(* ===== verification/Search_Children.thy ===== *)
theory Search_Children
  imports Search_Keys
begin

text \<open>
  The pointer walk of \<open>FindChildElement\<close> is a depth-first search: it ends on every
  document, and finds the first element for the children of a row, in document order, that is
  reached through divisions only.
\<close>

section \<open>What the walk has still to visit\<close>

fun rests :: "elem \<Rightarrow> position \<Rightarrow> (position \<times> elem_data) list" where
  "rests e [] = []"
| "rests e (i # r) =
     (case node_at e r of
        None \<Rightarrow> []
      | Some n \<Rightarrow> walk is_div r (Suc i) (drop (Suc i) (childNodes n))) @ rests e r"

definition following :: "elem \<Rightarrow> position \<Rightarrow> (position \<times> elem_data) list" where
  "following e p =
     (case node_at e p of
        None \<Rightarrow> []
      | Some n \<Rightarrow> if is_div (elem_data n) then walk is_div p 0 (childNodes n) else []) @ rests e p"

text \<open>The elements from position \<open>q\<close> on; none when the walk is back at the top.\<close>

definition visits_from :: "elem \<Rightarrow> position \<Rightarrow> (position \<times> elem_data) list" where
  "visits_from e q =
     (case q of
        [] \<Rightarrow> []
      | _ # _ \<Rightarrow> (case node_at e q of None \<Rightarrow> [] | Some n \<Rightarrow> (q, elem_data n) # following e q))"

lemma visits_from_top [simp]: "visits_from e [] = []"
  by (simp add: visits_from_def)

lemma visits_from_child:
  "node_at e (i # r) = Some n \<Longrightarrow> visits_from e (i # r) = (i # r, elem_data n) # following e (i # r)"
  by (simp add: visits_from_def)

lemma node_at_parent: "node_at e (i # r) = Some n \<Longrightarrow> \<exists>m. node_at e r = Some m"
  by (cases "node_at e r") simp_all

lemma walk_children:
  assumes "node_at e r = Some n" and "i < length (childNodes n)"
  shows "walk is_div r i (drop i (childNodes n)) @ rests e r = visits_from e (i # r)"
proof -
  obtain d es where c: "childNodes n ! i = Elem d es" by (cases "childNodes n ! i")
  have "drop i (childNodes n) = Elem d es # drop (Suc i) (childNodes n)"
    using assms(2) c by (metis Cons_nth_drop_Suc)
  with assms c show ?thesis by (simp add: visits_from_def following_def)
qed

lemma rests_next:
  assumes "has_next e (i # r)"
  shows "rests e (i # r) = visits_from e (Suc i # r)"
proof -
  obtain m where "node_at e (Suc i # r) = Some m"
    using assms by (auto simp: has_next_def)
  then obtain n where n: "node_at e r = Some n" "Suc i < length (childNodes n)"
    by (auto split: option.splits if_splits)
  from walk_children [OF this] show ?thesis using n(1) by simp
qed

lemma rests_last:
  assumes "node_at e (i # r) = Some n" and "\<not> has_next e (i # r)"
  shows "rests e (i # r) = rests e r"
proof -
  obtain m where m: "node_at e r = Some m" using node_at_parent [OF assms(1)] by blast
  with assms(2) have "drop (Suc i) (childNodes m) = []"
    by (auto simp: has_next_def split: if_splits)
  with m show ?thesis by simp
qed

lemma rests_climb:
  assumes "node_at e (i # r) = Some n" and "\<not> has_next e (i # r)"
  shows "rests e (i # r) = visits_from e (next_sibling (climb e (i # r)))"
  using assms
proof (induction r arbitrary: i n)
  case Nil
  from rests_last [OF Nil] show ?case by simp
next
  case (Cons j r)
  obtain m where m: "node_at e (j # r) = Some m" using node_at_parent [OF Cons.prems(1)] by blast
  have *: "rests e (i # j # r) = rests e (j # r)" by (rule rests_last [OF Cons.prems])
  show ?case
  proof (cases "has_next e (j # r)")
    case True
    then have "climb e (i # j # r) = j # r" by simp
    with * rests_next [OF True] show ?thesis by (simp only: next_sibling.simps)
  next
    case False
    then have "climb e (i # j # r) = climb e (j # r)" by simp
    with * Cons.IH [OF m False] show ?thesis by (simp only:)
  qed
qed

text \<open>One step of the walk goes to the next element of the search.\<close>

lemma next_element_visits:
  assumes "node_at e (i # r) = Some n"
  shows "following e (i # r) = visits_from e (next_element e (i # r))"
proof -
  consider "is_div (elem_data n)" "childNodes n \<noteq> []" | "\<not> (is_div (elem_data n) \<and> childNodes n \<noteq> [])"
    by blast
  then show ?thesis
  proof cases
    case 1
    then have "next_element e (i # r) = 0 # i # r"
      using assms by (simp add: next_element_def)
    moreover have "following e (i # r) = walk is_div (i # r) 0 (childNodes n) @ rests e (i # r)"
      using assms 1(1) by (simp add: following_def)
    ultimately show ?thesis
      using walk_children [OF assms, of 0] 1(2) by simp
  next
    case 2
    then have "following e (i # r) = rests e (i # r)"
      using assms by (cases "is_div (elem_data n)") (simp_all add: following_def)
    moreover have "next_element e (i # r) =
        (if has_next e (i # r) then Suc i # r else next_sibling (climb e (i # r)))"
      using assms 2 by (auto simp: next_element_def Let_def)
    ultimately show ?thesis
      using rests_next [of e i r] rests_climb [OF assms] by (simp split: if_splits)
  qed
qed

section \<open>The loop finds the first\<close>

lemma find_loop_visits:
  "find_loop e p = Some (map_option fst (List.find (\<lambda>(q, d). is_children d) (visits_from e p)))"
proof (induction "length (visits_from e p)" arbitrary: p rule: less_induct)
  case less
  show ?case
  proof (cases p)
    case Nil
    then show ?thesis by (subst find_loop.simps) simp
  next
    case (Cons i r)
    show ?thesis
    proof (cases "node_at e p")
      case None
      with Cons show ?thesis
        by (subst find_loop.simps) (simp add: data_at_def visits_from_def)
    next
      case (Some n)
      have visits: "visits_from e p = (p, elem_data n) # visits_from e (next_element e p)"
        using Some Cons visits_from_child next_element_visits by metis
      have step: "find_loop e p =
          (if is_children (elem_data n) then Some (Some p) else find_loop e (next_element e p))"
        using Some Cons by (subst find_loop.simps) (simp add: data_at_def)
      have "find_loop e (next_element e p) =
          Some (map_option fst (List.find (\<lambda>(q, d). is_children d) (visits_from e (next_element e p))))"
        by (rule less) (simp add: visits)
      then show ?thesis by (simp add: step visits)
    qed
  qed
qed

lemma find_loop_first:
  "find_loop e [0] =
     Some (map_option fst (List.find (\<lambda>(q, d). is_children d) (walk is_div [] 0 (childNodes e))))"
proof (cases "childNodes e")
  case Nil
  then have "visits_from e [0] = []" by (simp add: visits_from_def)
  with Nil show ?thesis by (simp add: find_loop_visits)
next
  case (Cons c cs)
  then have "visits_from e [0] = walk is_div [] 0 (childNodes e)"
    using walk_children [of e "[]" e 0] by simp
  then show ?thesis by (simp add: find_loop_visits)
qed

end
