(* ===== verification/Search_Results.thy ===== *)
theory Search_Results
  imports Search_Document Search_Children
begin

text \<open>
  What a search does to a page of results: the page that createResults builds, the rows that
  the search shows, and the items that the keys reach.
\<close>

section \<open>The effect of the search\<close>

definition found_display :: "(jstring \<Rightarrow> jstring) \<Rightarrow> jstring \<Rightarrow> elem_data \<Rightarrow> elem_data" where
  "found_display uni search d =
     (if is_result d
      then set_display (if row_matches uni search d then js ''block'' else js ''none'') d else d)"

definition found_rows :: "(jstring \<Rightarrow> jstring) \<Rightarrow> jstring \<Rightarrow> elem \<Rightarrow> (position \<times> elem_data) list" where
  "found_rows uni search doc =
     filter (\<lambda>(q, d). is_result d \<and> row_matches uni search d) (all_elements doc)"

lemma search_rows_count:
  "snd (search_rows uni search rows (doc, m)) =
     m + length (filter (\<lambda>(q, d). is_result d \<and> row_matches uni search d) rows)"
  by (induction rows arbitrary: doc m) (auto split: if_splits)

lemma search_rows_ids:
  "getElementById ident (fst (search_rows uni search rows (doc, m))) = getElementById ident doc"
  by (induction rows arbitrary: doc m) auto

lemma search_rows_data:
  assumes "distinct (map fst rows)"
  shows "data_at (fst (search_rows uni search rows (doc, m))) q =
    (case map_of rows q of
       None \<Rightarrow> data_at doc q
     | Some row \<Rightarrow>
         if is_result row
         then map_option (set_display (if row_matches uni search row then js ''block'' else js ''none''))
                (data_at doc q)
         else data_at doc q)"
  using assms
proof (induction rows arbitrary: doc m)
  case (Cons x rows)
  obtain p row where x: "x = (p, row)" by (cases x)
  have "map_of rows p = None" using Cons.prems x by (simp add: map_of_eq_None_iff)
  then show ?case
    using Cons.IH Cons.prems x by (cases "q = p") (simp_all add: data_at_update split: option.split)
qed simp

lemma searched_data:
  "(q, d) \<in> set (all_elements doc) \<Longrightarrow>
     data_at (fst (search_rows uni search (all_elements doc) (doc, m))) q =
       Some (found_display uni search d)"
  by (simp add: search_rows_data all_elements_distinct found_display_def all_elements_data)

section \<open>The page\<close>

text \<open>
  The document of a page of results, as the page has it before its script runs: the division
  SRIndex with the status lines and the empty SRResults.
\<close>

definition with_id :: "jstring \<Rightarrow> elem_data" where
  "with_id ident = setAttribute (js ''id'') ident (createElement (js ''DIV''))"

definition status_line :: "jstring \<Rightarrow> elem_data" where
  "status_line ident = setAttribute (js ''class'') (js ''SRStatus'') (with_id ident)"

definition results_document :: "elem list \<Rightarrow> elem" where
  "results_document rows =
     Elem (createElement (js ''#document''))
       [Elem (createElement (js ''HTML''))
          [Elem (createElement (js ''HEAD'')) [],
           Elem (setAttribute (js ''class'') (js ''SRPage'') (createElement (js ''BODY'')))
             [Elem (with_id (js ''SRIndex''))
                [Elem (status_line (js ''Loading'')) [],
                 Elem (with_id (js ''SRResults'')) rows,
                 Elem (createElement (js ''SCRIPT'')) [],
                 Elem (status_line (js ''Searching'')) [],
                 Elem (status_line (js ''NoMatches'')) [],
                 Elem (createElement (js ''SCRIPT'')) []]]]]"

text \<open>The scripts of the page, in order; \<open>query\<close> is the part of its address from the \<open>?\<close>.\<close>

definition load_results ::
    "(jstring \<Rightarrow> jstring) \<Rightarrow> jstring \<Rightarrow> search_row list \<Rightarrow> js_error + elem \<times> nat" where
  "load_results uni query searchData =
     andthen (createResults searchData (results_document [])) (\<lambda>doc.
     andthen (show_element (js ''Loading'') (js ''none'') doc) (\<lambda>doc.
     andthen (show_element (js ''NoMatches'') (js ''none'') doc) (\<lambda>doc.
     SearchResults_Search uni query [] doc)))"

definition results_at :: position where
  "results_at = [1, 0, 1, 0]"

lemma js_inject [simp]: "js s = js t \<longleftrightarrow> s = t"
  by (auto simp: js_def inj_map_eq_map inj_def)

lemma js_Nil [simp]: "js [] = []" "js s = [] \<longleftrightarrow> s = []" "[] = js s \<longleftrightarrow> s = []"
  by (auto simp: js_def)

lemma attribute_set [simp]:
  "attribute name (setAttribute m v d) = (if name = m then v else attribute name d)"
  by (simp add: attribute_def setAttribute_def)

lemma attribute_create [simp]: "attribute name (createElement n) = []"
  by (simp add: attribute_def createElement_def)

lemma attribute_text [simp]: "attribute name (d\<lparr>innerHTML := t\<rparr>) = attribute name d"
  by (simp add: attribute_def)

lemma nodeName_set [simp]:
  "nodeName (setAttribute m v d) = nodeName d" "nodeName (createElement n) = n"
  by (simp_all add: setAttribute_def createElement_def)

lemmas element_defs = with_id_def status_line_def setKeyActions_def setClassAttr_def

lemma document_elements:
  "all_elements (results_document rows) =
     [([0], createElement (js ''HTML'')), ([0, 0], createElement (js ''HEAD'')),
      ([1, 0], setAttribute (js ''class'') (js ''SRPage'') (createElement (js ''BODY''))),
      ([0, 1, 0], with_id (js ''SRIndex'')), ([0, 0, 1, 0], status_line (js ''Loading'')),
      ([1, 0, 1, 0], with_id (js ''SRResults''))]
     @ walk (\<lambda>_. True) results_at 0 rows @
     [([2, 0, 1, 0], createElement (js ''SCRIPT'')), ([3, 0, 1, 0], status_line (js ''Searching'')),
      ([4, 0, 1, 0], status_line (js ''NoMatches'')), ([5, 0, 1, 0], createElement (js ''SCRIPT''))]"
  by (simp add: all_elements_def results_document_def results_at_def)

lemma createResults_page:
  "createResults searchData (results_document []) = Inr (results_document (result_rows 0 searchData))"
proof -
  have "getElementById (js ''SRResults'') (results_document []) = Some results_at"
    by (simp add: getElementById_def document_elements element_defs results_at_def)
  then show ?thesis
    by (simp add: createResults_def appendChildren_def results_at_def results_document_def)
qed

section \<open>The rows of the page\<close>

lemma number_string_inject [simp]: "number_string m = number_string n \<longleftrightarrow> m = n"
  using digits_inject [of 10 m n] by (auto simp: number_string_def)

lemma underscore_not_in_number: "95 \<notin> set (number_string n)"
proof -
  have "list_all (is_digit 10) (digits 10 n)" by (rule digits_are_digits) simp_all
  then show ?thesis
    by (auto simp: number_string_def js_def list_all_iff is_digit_def digit_value_def Let_def split: if_splits)
qed

lemma numbers_differ: "number_string m \<noteq> number_string n @ js ''_c'' @ s"
proof
  assume "number_string m = number_string n @ js ''_c'' @ s"
  then have "95 \<in> set (number_string m)" by (simp add: js_def)
  with underscore_not_in_number show False by blast
qed

text \<open>The elements of one row: its division, its entry, its link, and what follows the link.\<close>

definition row_div :: "search_row \<Rightarrow> elem_data" where
  "row_div row = elem_data (result_row 0 row)"

definition child_item :: "nat \<Rightarrow> elem_data \<Rightarrow> bool" where
  "child_item e d \<longleftrightarrow> ident_of d = [] \<or>
     (\<exists>c. ident_of d = js ''Item'' @ number_string e @ js ''_c'' @ number_string c)"

lemma result_children_walk:
  "(q, d) \<in> set (walk into r i (result_children e c ls)) \<Longrightarrow> child_item e d \<and> nodeName d = js ''A''"
  by (induction ls arbitrary: i c)
    (auto simp: result_child_def child_item_def element_defs with_target_def Let_def)

lemma row_walk:
  "\<exists>link below. walk (\<lambda>_. True) r i [result_row e row] =
     (i # r, row_div row) # (0 # i # r, setClassAttr (js ''SREntry'') (createElement (js ''DIV''))) #
       (0 # 0 # i # r, link) # below \<and>
     ident_of link = js ''Item'' @ number_string e \<and> nodeName link = js ''A'' \<and>
     list_all (\<lambda>(q, d). child_item e d \<and> \<not> is_result d) below"
proof (cases "\<exists>l. row_links row = [l]")
  case True
  then obtain l where "row_links row = [l]" by blast
  then show ?thesis
    by (auto simp: result_row_def row_div_def result_entry_def result_link_def element_defs Let_def
        child_item_def is_result_def with_target_def)
next
  case False
  let ?below = "walk (\<lambda>_. True) (Suc 0 # 0 # i # r) 0 (result_children e 0 (row_links row))"
  have entry: "result_entry e row =
      Elem (setClassAttr (js ''SREntry'') (createElement (js ''DIV'')))
        [Elem (setAttribute (js ''href'')
                 (js ''javascript:searchResults.Toggle('' @ [34] @ js ''SR_'' @ row_id row @ [34] @ js '')'')
                 (result_link e row)) [],
         Elem (setClassAttr (js ''SRChildren'') (createElement (js ''DIV'')))
           (result_children e 0 (row_links row))]"
    using False by (auto simp: result_entry_def split: list.split)
  have "list_all (\<lambda>(q, d). child_item e d \<and> \<not> is_result d) ?below"
    by (auto simp: list_all_iff is_result_def dest: result_children_walk)
  then show ?thesis
    by (auto simp: result_row_def row_div_def entry result_link_def element_defs Let_def
        child_item_def is_result_def)
qed

lemma row_div_facts [simp]:
  "ident_of (row_div row) = js ''SR_'' @ row_id row" "is_result (row_div row)"
  by (simp_all add: row_div_def result_row_def element_defs is_result_def)

text \<open>Adding the rows one after the other.\<close>

lemma walk_rows:
  "walk into r i (result_rows e (row # rows)) =
     walk into r i [result_row e row] @ walk into r (Suc i) (result_rows (Suc e) rows)"
  using walk_append [of into r i "[result_row e row]" "result_rows (Suc e) rows"] by simp

lemma items_differ:
  "js ''SR_'' @ s \<noteq> js ''Item'' @ t" "[] \<noteq> js ''Item'' @ t"
  "js ''Item'' @ number_string k = js ''Item'' @ number_string e \<longleftrightarrow> k = e"
  "js ''Item'' @ number_string e @ js ''_c'' @ s \<noteq> js ''Item'' @ number_string k"
  using numbers_differ [of k e s] by (auto simp: js_def)

definition item_at :: "nat \<Rightarrow> position" where
  "item_at k = 0 # 0 # k # results_at"

lemma find_item_below:
  assumes "list_all (\<lambda>(q, d). child_item e d \<and> \<not> is_result d) below"
  shows "List.find (\<lambda>(p, d). ident_of d = js ''Item'' @ number_string k) below = None"
  using assms items_differ by (fastforce simp: find_None_iff list_all_iff child_item_def)

lemma find_append: "List.find P (xs @ ys) = (case List.find P xs of None \<Rightarrow> List.find P ys | Some x \<Rightarrow> Some x)"
  by (induction xs) auto

lemma find_item_rows:
  "map_option fst (List.find (\<lambda>(p, d). ident_of d = js ''Item'' @ number_string k)
       (walk (\<lambda>_. True) results_at i (result_rows i rows))) =
     (if i \<le> k \<and> k < i + length rows then Some (item_at k) else None)"
proof (induction rows arbitrary: i)
  case (Cons row rows)
  obtain link below where w: "walk (\<lambda>_. True) results_at i [result_row i row] =
      (i # results_at, row_div row) # (0 # i # results_at, setClassAttr (js ''SREntry'') (createElement (js ''DIV''))) #
       (0 # 0 # i # results_at, link) # below"
    "ident_of link = js ''Item'' @ number_string i"
    "list_all (\<lambda>(q, d). child_item i d \<and> \<not> is_result d) below"
    using row_walk by blast
  have entry: "ident_of (setClassAttr (js ''SREntry'') (createElement (js ''DIV''))) = []"
    by (simp add: setClassAttr_def)
  show ?case
    unfolding walk_rows w(1)
    using Cons.IH [of "Suc i"] find_item_below [OF w(3), of k] w(2) entry items_differ
    by (auto simp: find_append item_at_def)
qed simp

lemma item_in_page:
  "getElementById (js ''Item'' @ number_string k) (results_document (result_rows 0 searchData)) =
     (if k < length searchData then Some (item_at k) else None)"
proof -
  have "map_option fst (List.find (\<lambda>(p, d). ident_of d = js ''Item'' @ number_string k)
      (walk (\<lambda>_. True) results_at 0 (result_rows 0 searchData))) =
      (if k < length searchData then Some (item_at k) else None)"
    using find_item_rows [of k 0 searchData] by simp
  then show ?thesis
    unfolding getElementById_def document_elements
    by (cases "k < length searchData")
      (auto simp: find_append element_defs js_def split: option.splits)
qed

end
