(* ===== verification/Search_Found.thy ===== *)
theory Search_Found
  imports Search_Results
begin

text \<open>
  From the query in the address of a page of results to the rows it shows: the search compares
  ids, and the coding of the ids makes this a comparison of names.
\<close>

section \<open>The elements of a loaded page\<close>

lemma row_elements:
  "k < length rows \<Longrightarrow> ((i + k) # results_at, row_div (rows ! k)) \<in>
     set (walk (\<lambda>_. True) results_at i (result_rows i rows))"
proof (induction rows arbitrary: i k)
  case (Cons row rows)
  obtain link below where w: "walk (\<lambda>_. True) results_at i [result_row i row] =
      (i # results_at, row_div row) # (0 # i # results_at, setClassAttr (js ''SREntry'') (createElement (js ''DIV''))) #
       (0 # 0 # i # results_at, link) # below"
    using row_walk by blast
  show ?case
  proof (cases k)
    case 0
    then show ?thesis unfolding walk_rows w by simp
  next
    case (Suc j)
    with Cons.IH [of j "Suc i"] Cons.prems show ?thesis unfolding walk_rows w by simp
  qed
qed simp

lemma row_in_page:
  "k < length searchData \<Longrightarrow> (k # results_at, row_div (searchData ! k)) \<in>
     set (all_elements (results_document (result_rows 0 searchData)))"
  using row_elements [of k searchData 0] by (simp add: document_elements)

lemma filter_rows:
  "map snd (filter (\<lambda>(q, d). is_result d \<and> M d) (walk (\<lambda>_. True) results_at i (result_rows i rows))) =
     filter M (map row_div rows)"
proof (induction rows arbitrary: i)
  case (Cons row rows)
  obtain link below where w: "walk (\<lambda>_. True) results_at i [result_row i row] =
      (i # results_at, row_div row) # (0 # i # results_at, setClassAttr (js ''SREntry'') (createElement (js ''DIV''))) #
       (0 # 0 # i # results_at, link) # below"
    "nodeName link = js ''A''" "list_all (\<lambda>(q, d). child_item i d \<and> \<not> is_result d) below"
    using row_walk by blast
  have "filter (\<lambda>(q, d). is_result d \<and> M d) below = []"
    using w(3) by (auto simp: list_all_iff filter_empty_conv)
  moreover have "\<not> is_result link" "\<not> is_result (setClassAttr (js ''SREntry'') (createElement (js ''DIV'')))"
    using w(2) by (simp_all add: is_result_def setClassAttr_def)
  ultimately show ?case unfolding walk_rows w(1) using Cons.IH [of "Suc i"] by simp
qed simp

lemma filter_page:
  "length (filter (\<lambda>(q, d). is_result d \<and> M d) (all_elements (results_document (result_rows 0 searchData)))) =
     length (filter (\<lambda>row. M (row_div row)) searchData)"
proof -
  have "filter (\<lambda>(q, d). is_result d \<and> M d) (all_elements (results_document (result_rows 0 searchData))) =
      filter (\<lambda>(q, d). is_result d \<and> M d) (walk (\<lambda>_. True) results_at 0 (result_rows 0 searchData))"
    by (simp add: document_elements is_result_def element_defs)
  then have "length (filter (\<lambda>(q, d). is_result d \<and> M d) (all_elements (results_document (result_rows 0 searchData)))) =
      length (map snd (filter (\<lambda>(q, d). is_result d \<and> M d) (walk (\<lambda>_. True) results_at 0 (result_rows 0 searchData))))"
    by simp
  then show ?thesis by (simp only: filter_rows) (simp add: filter_map comp_def)
qed

lemma find_status_rows:
  assumes "\<And>s. ident \<noteq> js ''SR_'' @ s" and "\<And>s. ident \<noteq> js ''Item'' @ s" and "ident \<noteq> []"
  shows "List.find (\<lambda>(p, d). ident_of d = ident) (walk (\<lambda>_. True) r i (result_rows i rows)) = None"
proof (induction rows arbitrary: i)
  case (Cons row rows)
  obtain link below where w: "walk (\<lambda>_. True) r i [result_row i row] =
      (i # r, row_div row) # (0 # i # r, setClassAttr (js ''SREntry'') (createElement (js ''DIV''))) #
       (0 # 0 # i # r, link) # below"
    "ident_of link = js ''Item'' @ number_string i"
    "list_all (\<lambda>(q, d). child_item i d \<and> \<not> is_result d) below"
    using row_walk by blast
  have "List.find (\<lambda>(p, d). ident_of d = ident) below = None"
    using w(3) assms(2,3) by (fastforce simp: find_None_iff list_all_iff child_item_def)
  then show ?case unfolding walk_rows w(1)
    using Cons.IH [of "Suc i"] w(2) assms by (auto simp: find_append setClassAttr_def)
qed simp

lemma status_in_page:
  "getElementById (js ''Loading'') (results_document (result_rows 0 rows)) = Some [0, 0, 1, 0]"
  "getElementById (js ''Searching'') (results_document (result_rows 0 rows)) = Some [3, 0, 1, 0]"
  "getElementById (js ''NoMatches'') (results_document (result_rows 0 rows)) = Some [4, 0, 1, 0]"
proof -
  have "js ''Searching'' \<noteq> js ''SR_'' @ s" "js ''Searching'' \<noteq> js ''Item'' @ s"
    "js ''NoMatches'' \<noteq> js ''SR_'' @ s" "js ''NoMatches'' \<noteq> js ''Item'' @ s" for s
    by (simp_all add: js_def)
  note none = find_status_rows [OF this(1,2)] find_status_rows [OF this(3,4)]
  show "getElementById (js ''Loading'') (results_document (result_rows 0 rows)) = Some [0, 0, 1, 0]"
    by (simp add: getElementById_def document_elements element_defs)
  show "getElementById (js ''Searching'') (results_document (result_rows 0 rows)) = Some [3, 0, 1, 0]"
    "getElementById (js ''NoMatches'') (results_document (result_rows 0 rows)) = Some [4, 0, 1, 0]"
    using none by (simp_all add: getElementById_def document_elements find_append element_defs)
qed

section \<open>The search of a loaded page\<close>

definition term_of_query :: "(jstring \<Rightarrow> jstring) \<Rightarrow> jstring \<Rightarrow> jstring" where
  "term_of_query uni query = search_term uni query []"

definition row_found :: "(jstring \<Rightarrow> jstring) \<Rightarrow> jstring \<Rightarrow> search_row \<Rightarrow> bool" where
  "row_found uni query row \<longleftrightarrow> row_matches uni (term_of_query uni query) (row_div row)"

lemma found_display_shown [simp]:
  "is_result (set_display v d) = is_result d" "row_matches uni s (set_display v d) = row_matches uni s d"
  by (simp_all add: is_result_def row_matches_def)

lemma count_update:
  assumes "\<And>d. P (f d) = P d"
  shows "length (filter (\<lambda>(q, d). P d) (all_elements (update_data p f e))) =
    length (filter (\<lambda>(q, d). P d) (all_elements e))"
proof -
  have "(\<lambda>(q, d). P d) \<circ> (\<lambda>(q, d). (q, if q = p then f d else d)) = (\<lambda>(q, d). P d)"
    using assms by (auto simp: fun_eq_iff)
  then show ?thesis by (simp only: all_elements_update filter_map length_map)
qed

lemma load_results_page:
  "\<exists>doc. load_results uni query searchData =
        Inr (doc, length (filter (row_found uni query) searchData)) \<and>
    (\<forall>ident. getElementById ident doc =
        getElementById ident (results_document (result_rows 0 searchData))) \<and>
    (\<forall>k < length searchData. display_at doc (k # results_at) =
       (if row_found uni query (searchData ! k) then js ''block'' else js ''none'')) \<and>
    display_at doc [4, 0, 1, 0] =
       (if list_ex (row_found uni query) searchData then js ''none'' else js ''block'')"
proof -
  define P where "P = results_document (result_rows 0 searchData)"
  define sought where "sought = term_of_query uni query"
  define doc1 where "doc1 = update_data [4, 0, 1, 0] (set_display (js ''none''))
                 (update_data [0, 0, 1, 0] (set_display (js ''none'')) P)"
  define doc2 where "doc2 = fst (search_rows uni sought (all_elements doc1) (doc1, 0))"
  define n where "n = length (filter (row_found uni query) searchData)"
  define doc3 where "doc3 = update_data [4, 0, 1, 0] (set_display (if n = 0 then js ''block'' else js ''none''))
                 (update_data [3, 0, 1, 0] (set_display (js ''none'')) doc2)"
  have "snd (search_rows uni sought (all_elements doc1) (doc1, 0)) =
      length (filter (\<lambda>(q, d). is_result d \<and> row_matches uni sought d) (all_elements P))"
    by (simp only: search_rows_count count_update found_display_shown add_0_left doc1_def)
  also have "\<dots> = n"
    by (simp only: P_def filter_page n_def row_found_def [abs_def] sought_def)
  finally have searched: "search_rows uni sought (all_elements doc1) (doc1, 0) = (doc2, n)"
    by (simp add: doc2_def prod_eq_iff)
  have ids1: "getElementById ident doc1 = getElementById ident P" for ident
    by (simp add: doc1_def)
  have ids: "getElementById ident doc2 = getElementById ident P" for ident
    by (simp add: search_rows_ids ids1 doc2_def)
  note status = status_in_page [of searchData, folded P_def]
  have "SearchResults_Search uni query [] doc1 = Inr (doc3, n)"
    unfolding SearchResults_Search_def term_of_query_def [symmetric] sought_def [symmetric] searched Let_def prod.case
    by (simp add: show_element_def ids status doc3_def)
  then have load: "load_results uni query searchData = Inr (doc3, n)"
    by (simp add: load_results_def createResults_page show_element_def status P_def [symmetric] doc1_def)
  have row: "data_at doc2 (k # results_at) = Some (found_display uni sought (row_div (searchData ! k)))"
    if "k < length searchData" for k
  proof -
    have "(k # results_at, row_div (searchData ! k)) \<in> set (all_elements doc1)"
      using row_in_page [OF that] by (force simp: all_elements_update results_at_def doc1_def P_def)
    then show ?thesis unfolding doc2_def by (rule searched_data)
  qed
  have "([4, 0, 1, 0], status_line (js ''NoMatches'')) \<in> set (all_elements P)"
    by (simp add: document_elements P_def)
  then have "([4, 0, 1, 0], set_display (js ''none'') (status_line (js ''NoMatches''))) \<in> set (all_elements doc1)"
    unfolding doc1_def by (force simp: all_elements_update)
  then obtain d where no: "data_at doc2 [4, 0, 1, 0] = Some d"
    unfolding doc2_def using searched_data by blast
  show ?thesis
  proof (intro exI conjI allI impI)
    show "load_results uni query searchData = Inr (doc3, length (filter (row_found uni query) searchData))"
      using load by (simp add: n_def)
    show "getElementById ident doc3 = getElementById ident (results_document (result_rows 0 searchData))" for ident
      by (simp add: ids doc3_def P_def)
    show "display_at doc3 (k # results_at) =
        (if row_found uni query (searchData ! k) then js ''block'' else js ''none'')"
      if "k < length searchData" for k
      using row [OF that] by (simp add: display_at_def data_at_update results_at_def found_display_def
          row_found_def set_display_def doc3_def sought_def)
    show "display_at doc3 [4, 0, 1, 0] =
        (if list_ex (row_found uni query) searchData then js ''none'' else js ''block'')"
      using no by (auto simp: display_at_def data_at_update set_display_def list_ex_iff filter_empty_conv
          doc3_def n_def)
  qed
qed

end
