(* ===== verification/Search_Query.thy ===== *)
theory Search_Query
  imports Search_Found
begin

text \<open>
  The query that the search box puts in the address of the page of results, as the page reads
  it, and the rows it finds, in terms of the names of the rows.
\<close>

section \<open>unescape is the inverse of escape\<close>

lemma hex_number_append:
  "hex_number (s @ [c]) =
     (case (hex_number s, hex_value c) of (Some n, Some d) \<Rightarrow> Some (16 * n + d) | _ \<Rightarrow> None)"
  by (induction s) (auto simp: algebra_simps split: option.split)

lemma hex_number_zeros: "hex_number (replicate k 48 @ s) = hex_number s"
  by (induction k) (auto simp: hex_value_def split: option.split)

abbreviation upper_unit :: "nat \<Rightarrow> nat" where
  "upper_unit c \<equiv> (if 97 \<le> c then c - 32 else c)"

lemma hex_value_digit:
  assumes "n < 16"
  shows "hex_value (upper_unit (of_char (digit_char n))) = Some n"
proof -
  have "(of_char (digit_char n) :: nat) = (if n < 10 then 48 + n else 87 + n)"
    by (rule of_char_digit [OF assms])
  then show ?thesis using assms by (auto simp: hex_value_def)
qed

lemma hex_number_string: "hex_number (map upper_unit (hex_string n)) = Some n"
proof (induction n rule: less_induct)
  case (less n)
  show ?case
  proof (cases "n < 16")
    case True
    then show ?thesis by (simp add: hex_one hex_value_digit)
  next
    case False
    then have "hex_string n = hex_string (n div 16) @ [of_char (digit_char (n mod 16))]"
      by (subst hex_string_def, subst digits.simps) (simp add: js_def hex_string_def)
    with less [of "n div 16"] False show ?thesis
      by (simp add: hex_number_append hex_value_digit)
  qed
qed

lemma hex_string_length: "n < 16 ^ Suc w \<Longrightarrow> length (hex_string n) \<le> Suc w"
proof (induction w arbitrary: n)
  case 0
  then show ?case by (simp add: hex_one)
next
  case (Suc w)
  show ?case
  proof (cases "n < 16")
    case True
    then show ?thesis by (simp add: hex_one)
  next
    case False
    then have "hex_string n = hex_string (n div 16) @ [of_char (digit_char (n mod 16))]"
      by (subst hex_string_def, subst digits.simps) (simp add: js_def hex_string_def)
    moreover have "n div 16 < 16 ^ Suc w" using Suc.prems by (simp add: less_mult_imp_div_less)
    ultimately show ?thesis using Suc.IH [of "n div 16"] by simp
  qed
qed

lemma upper_hex:
  "hex_number (upper_hex w n) = Some n"
  "0 < w \<Longrightarrow> n < 16 ^ w \<Longrightarrow> length (upper_hex w n) = w"
  using hex_string_length [of n "w - 1"]
  by (simp_all add: upper_hex_def hex_number_zeros hex_number_string Let_def)

lemma upper_hex_not_u: "upper_hex w n \<noteq> [] \<Longrightarrow> hd (upper_hex w n) \<noteq> 117"
proof
  assume "upper_hex w n \<noteq> []" and "hd (upper_hex w n) = 117"
  then have "hex_number (upper_hex w n) = None"
    by (cases "upper_hex w n") (simp_all add: hex_value_def)
  then show False by (simp add: upper_hex(1))
qed

lemma unescape_unit:
  assumes "c < 0x10000"
  shows "unescape (escape_unit c @ s) = c # unescape s"
proof -
  have "escape_unit c = [c] \<and> c \<noteq> 37 \<or> escape_unit c = 37 # upper_hex 2 c \<and> c < 256 \<or>
      escape_unit c = 37 # 117 # upper_hex 4 c"
    by (simp add: escape_unit_def js_def)
  then consider "escape_unit c = [c]" "c \<noteq> 37"
    | "escape_unit c = 37 # upper_hex 2 c" "c < 256"
    | "escape_unit c = 37 # 117 # upper_hex 4 c"
    by blast
  then show ?thesis
  proof cases
    case 1
    then show ?thesis by (subst unescape.simps) simp
  next
    case 2
    then have len: "length (upper_hex 2 c) = 2" using upper_hex(2) [of 2 c] by simp
    then have "hd (upper_hex 2 c @ s) \<noteq> 117" using upper_hex_not_u [of 2 c]
      by (cases "upper_hex 2 c") auto
    with 2 len show ?thesis by (subst unescape.simps) (simp add: upper_hex(1))
  next
    case 3
    have "length (upper_hex 4 c) = 4" using upper_hex(2) [of 4 c] assms by simp
    with 3 show ?thesis by (subst unescape.simps) (simp add: upper_hex(1))
  qed
qed

lemma unescape_Nil [simp]: "unescape [] = []"
  by (subst unescape.simps) simp

lemma unescape_escape_units: "is_units s \<Longrightarrow> unescape (escape s) = s"
proof (induction s)
  case Nil
  show ?case by (subst unescape.simps) (simp add: escape_def)
next
  case (Cons c s)
  then show ?case using unescape_unit [of c "escape s"] by (simp add: escape_def is_units_def)
qed

section \<open>The query in the address of a page\<close>

text \<open>\<open>window.location.search\<close>: from the first \<open>?\<close> up to the anchor, or nothing.\<close>

definition location_search :: "jstring \<Rightarrow> jstring" where
  "location_search url =
     (let q = dropWhile (\<lambda>c. c \<noteq> 63) (takeWhile (\<lambda>c. c \<noteq> 35) url) in if length q \<le> 1 then [] else q)"

text \<open>A text in which a \<open>?\<close> or a \<open>#\<close> would end a part of the address.\<close>

definition plain_part :: "jstring \<Rightarrow> bool" where
  "plain_part s \<longleftrightarrow> list_all (\<lambda>c. c \<noteq> 63 \<and> c \<noteq> 35) s"

lemma plain_part_append [simp]: "plain_part (s @ t) \<longleftrightarrow> plain_part s \<and> plain_part t"
  by (simp add: plain_part_def)

lemma hex_number_digits: "hex_number s = Some n \<Longrightarrow> list_all (\<lambda>c. hex_value c \<noteq> None) s"
  by (induction s arbitrary: n) (auto split: option.splits)

lemma upper_hex_plain: "plain_part (upper_hex w n)"
proof -
  have "list_all (\<lambda>c. hex_value c \<noteq> None) (upper_hex w n)"
    by (rule hex_number_digits [OF upper_hex(1)])
  then show ?thesis by (auto simp: plain_part_def list_all_iff hex_value_def)
qed

lemma hex_string_plain: "plain_part (hex_string n)"
proof -
  have "list_all (\<lambda>c. hex_value c \<noteq> None) (map upper_unit (hex_string n))"
    by (rule hex_number_digits [OF hex_number_string])
  then have "hex_value (upper_unit c) \<noteq> None" if "c \<in> set (hex_string n)" for c
    using that by (auto simp: list_all_iff)
  from this [of 63] this [of 35] show ?thesis
    by (auto simp: plain_part_def list_all_iff hex_value_def)
qed

lemma escape_plain: "plain_part (escape s)"
proof -
  have "plain_part (escape_unit c)" for c
    using upper_hex_plain by (auto simp: escape_unit_def plain_part_def js_def)
  then show ?thesis by (induction s) (simp_all add: escape_def plain_part_def)
qed

lemma location_search_query:
  assumes "plain_part page" and "plain_part query"
  shows "location_search (page @ js ''?'' @ query) = (if query = [] then [] else js ''?'' @ query)"
    and "takeWhile (\<lambda>c. c \<noteq> 63) (page @ js ''?'' @ query) = page"
proof -
  have "takeWhile (\<lambda>c. c \<noteq> 35) (page @ js ''?'' @ query) = page @ js ''?'' @ query"
    using assms by (auto simp: takeWhile_eq_all_conv plain_part_def list_all_iff js_def)
  moreover have "dropWhile (\<lambda>c. c \<noteq> 63) (page @ js ''?'' @ query) = js ''?'' @ query"
    using assms(1) by (subst dropWhile_append2) (auto simp: plain_part_def list_all_iff js_def)
  ultimately have "location_search (page @ js ''?'' @ query) =
      (if length (js ''?'' @ query) \<le> 1 then [] else js ''?'' @ query)"
    unfolding location_search_def by (simp only: Let_def)
  then show "location_search (page @ js ''?'' @ query) = (if query = [] then [] else js ''?'' @ query)"
    by (simp add: js_def)
  show "takeWhile (\<lambda>c. c \<noteq> 63) (page @ js ''?'' @ query) = page"
    using assms(1) by (subst takeWhile_append2) (auto simp: plain_part_def list_all_iff js_def)
qed

text \<open>What a search puts in the address of the page of results, and what the page reads of it.\<close>

lemma section_names_plain: "list_all plain_part indexSectionNames"
  by (simp add: indexSectionNames_def plain_part_def js_def)

lemma results_page_plain:
  assumes "results_pages uni b v = Inr (page, address)" and "plain_part (resultsPath b)"
  shows "plain_part page" and "page = resultsPath b @ js ''/nomatches.html'' \<or> address = page @ js ''?'' @ escape v"
proof -
  let ?s = "nat (searchIndex b)"
  have "?s < length indexSectionNames" if "?s < length indexSectionsWithContent"
    using that by (simp add: indexSectionsWithContent_def indexSectionNames_def)
  then have name: "plain_part (indexSectionNames ! ?s)" if "?s < length indexSectionsWithContent"
    using section_names_plain that by (simp add: list_all_length)
  have fixed: "plain_part (js ''/'')" "plain_part (js ''_'')" "plain_part (js ''.html'')" "plain_part (js ''/nomatches.html'')"
    by (simp_all add: plain_part_def js_def)
  show "plain_part page"
    using assms name fixed hex_string_plain
    by (auto simp: results_pages_def Let_def split: if_splits option.splits)
  show "page = resultsPath b @ js ''/nomatches.html'' \<or> address = page @ js ''?'' @ escape v"
    using assms(1) by (auto simp: results_pages_def Let_def split: if_splits option.splits)
qed

lemma escape_Nil_iff [simp]: "escape v = [] \<longleftrightarrow> v = []"
proof -
  have "escape_unit c \<noteq> []" for c by (simp add: escape_unit_def js_def)
  then show ?thesis by (cases v) (simp_all add: escape_def)
qed

section \<open>Rows and their names\<close>

text \<open>
  The rows of the tables are named in lower case, and their ids are the coded names.
\<close>

definition plain_name :: "jstring \<Rightarrow> bool" where
  "plain_name s \<longleftrightarrow> list_all (\<lambda>c. c < 128 \<and> \<not> (65 \<le> c \<and> c \<le> 90)) s"

definition named :: "search_row \<Rightarrow> jstring \<Rightarrow> bool" where
  "named row name \<longleftrightarrow> row_id row = convertToId name \<and> plain_name name"

lemma plain_id: "plain_name s \<Longrightarrow> plain_name (convertToId s)"
proof (induction s)
  case (Cons c s)
  have "plain_name (unit_id c)"
  proof (cases "keeps_unit c")
    case True
    with Cons.prems show ?thesis by (simp add: unit_id_def plain_name_def)
  next
    case False
    moreover have "c < 0x10000" using Cons.prems by (simp add: plain_name_def)
    ultimately show ?thesis using unit_id_escape [of c] of_char_digit [of "c mod 16"] of_char_digit [of "c div 16"]
      by (simp add: plain_name_def split: if_splits)
  qed
  with Cons show ?case by (simp add: plain_name_def)
qed simp

lemma lower_plain: "plain_name s \<Longrightarrow> toLowerCase uni (js ''SR_'' @ s) = js ''sr_'' @ s"
  by (auto simp: toLowerCase_def plain_name_def list_all_iff js_def ascii_lower_def intro: map_idI)

lemma strip_sr_row: "strip_sr (js ''sr_'' @ s) = s"
  by (simp add: strip_sr_def js_def)

lemma take_prefix: "length s \<le> length t \<and> take (length s) t = s \<longleftrightarrow> prefix s t"
  by (auto simp: prefix_def) (metis append_take_drop_id)

text \<open>What the search box makes of a search value, and the page of it.\<close>

definition sought_name :: "(jstring \<Rightarrow> jstring) \<Rightarrow> jstring \<Rightarrow> jstring" where
  "sought_name uni v = toLowerCase uni (strip_trailing (strip_leading v))"

lemma row_found_name:
  assumes "named row name" and "is_units v" and "is_units (sought_name uni v)"
  shows "row_found uni (js ''?'' @ escape v) row \<longleftrightarrow> prefix (sought_name uni v) name"
proof -
  have "drop 1 (js ''?'' @ escape v) = escape v" by (simp add: js_def)
  then have "term_of_query uni (js ''?'' @ escape v) = convertToId (sought_name uni v)"
    by (simp add: term_of_query_def search_term_def unescape_escape_units [OF assms(2)] sought_name_def Let_def)
  moreover have "toLowerCase uni (ident_of (row_div row)) = js ''sr_'' @ convertToId name"
    using assms(1) by (simp add: named_def lower_plain plain_id)
  moreover have "is_units name"
    using assms(1) by (auto simp: named_def plain_name_def is_units_def list_all_iff)
  ultimately show ?thesis
    by (simp add: row_found_def row_matches_def strip_sr_row take_prefix convertToId_prefix [OF assms(3)] Let_def)
qed

lemma rows_found_names:
  assumes "list_all2 named searchData names" and "is_units v" and "is_units (sought_name uni v)"
    and "k < length searchData"
  shows "row_found uni (js ''?'' @ escape v) (searchData ! k) \<longleftrightarrow> prefix (sought_name uni v) (names ! k)"
  by (rule row_found_name [OF list_all2_nthD [OF assms(1,4)] assms(2,3)])

lemma count_found_names:
  assumes "list_all2 named searchData names" and "is_units v" and "is_units (sought_name uni v)"
  shows "length (filter (row_found uni (js ''?'' @ escape v)) searchData) =
    length (filter (prefix (sought_name uni v)) names)"
  using assms(1)
  by (induction rule: list_all2_induct) (simp_all add: row_found_name [OF _ assms(2,3)])

section \<open>The items that are visible\<close>

lemma item_name_number: "item_name (int k) = js ''Item'' @ number_string k"
  by (simp add: item_name_def int_string_def)

lemma item_row: "drop 2 (item_at k) = k # results_at"
  by (simp add: item_at_def)

lemma NavNext_page:
  assumes "\<And>ident. getElementById ident doc = getElementById ident (results_document (result_rows 0 searchData))"
    and "\<And>k. k < length searchData \<Longrightarrow> display_at doc (k # results_at) = js ''block'' \<longleftrightarrow> shown k"
  shows "NavNext doc (int k) =
    Some (Inr (map_option item_at (List.find shown [k..<length searchData])))"
proof (induction "length searchData - k" arbitrary: k)
  case 0
  then have "\<not> k < length searchData" by simp
  then show ?case
    by (subst NavNext.simps) (simp add: item_name_number assms(1) item_in_page)
next
  case (Suc j)
  then have k: "k < length searchData" by simp
  have "length (item_at k) \<ge> 2" by (simp add: item_at_def)
  moreover have "NavNext doc (int k + 1) =
      Some (Inr (map_option item_at (List.find shown [Suc k..<length searchData])))"
    using Suc.hyps(1) [of "Suc k"] Suc.hyps(2) by (simp add: add.commute)
  ultimately show ?case using k
    by (subst NavNext.simps)
      (simp add: item_name_number assms item_in_page item_row upt_conv_Cons not_less)
qed

text \<open>Downwards the search for a visible item ends at item 0, since no item is numbered -1.\<close>

lemma no_item_below: "getElementById (item_name (- 1)) (results_document (result_rows 0 searchData)) = None"
proof -
  have "List.find (\<lambda>(p, d). ident_of d = js ''Item-1'') (walk (\<lambda>_. True) results_at i (result_rows i rows)) = None"
    for i rows
  proof (induction rows arbitrary: i)
    case (Cons row rows)
    obtain link below where w: "walk (\<lambda>_. True) results_at i [result_row i row] =
        (i # results_at, row_div row) # (0 # i # results_at, setClassAttr (js ''SREntry'') (createElement (js ''DIV''))) #
         (0 # 0 # i # results_at, link) # below"
      "ident_of link = js ''Item'' @ number_string i"
      "list_all (\<lambda>(q, d). child_item i d \<and> \<not> is_result d) below"
      using row_walk by blast
    have num: "number_string i @ s \<noteq> 45 # t" for s t
      using digits_not_empty [of 10 i] digits_are_digits [of 10 i]
      by (cases "digits 10 i") (auto simp: number_string_def js_def is_digit_def digit_value_def Let_def split: if_splits)
    have "List.find (\<lambda>(p, d). ident_of d = js ''Item-1'') below = None"
      using w(3) num by (fastforce simp: find_None_iff list_all_iff child_item_def js_def)
    moreover have "ident_of (row_div row) \<noteq> js ''Item-1''" "ident_of link \<noteq> js ''Item-1''"
      unfolding row_div_facts(1) w(2) using num [of "[]"] by (simp_all add: js_def)
    ultimately show ?case unfolding walk_rows w(1)
      using Cons.IH [of "Suc i"] by (simp add: find_append setClassAttr_def)
  qed simp
  moreover have "item_name (- 1) = js ''Item-1''"
    by (subst item_name_def, subst int_string_def) (simp add: number_string_def digits.simps js_def digit_char_def)
  ultimately show ?thesis
    by (simp add: getElementById_def document_elements find_append element_defs)
qed

lemma NavPrev_page:
  assumes "\<And>ident. getElementById ident doc = getElementById ident (results_document (result_rows 0 searchData))"
    and "\<And>k. k < length searchData \<Longrightarrow> display_at doc (k # results_at) = js ''block'' \<longleftrightarrow> shown k"
    and "k \<le> length searchData"
  shows "NavPrev doc (int k - 1) =
    Some (Inr (map_option item_at (List.find shown (rev [0..<k]))))"
  using assms(3)
proof (induction k)
  case 0
  then show ?case by (subst NavPrev.simps) (simp add: assms(1) no_item_below)
next
  case (Suc k)
  have "length (item_at k) \<ge> 2" by (simp add: item_at_def)
  moreover have "NavPrev doc (int k - 1) = Some (Inr (map_option item_at (List.find shown (rev [0..<k]))))"
    using Suc by simp
  ultimately show ?case using Suc.prems
    by (subst NavPrev.simps) (simp add: item_name_number assms(1,2) item_in_page item_row not_less)
qed

end
