(* ===== verification/Search_Rows.thy ===== *)
theory Search_Rows
  imports Search_Query
begin

text \<open>
  The rows of the pages of the search index, as the tables write them, and a check of a row that
  goes through its name once, character by character.
\<close>

section \<open>Rows\<close>

definition row :: "string \<Rightarrow> string \<Rightarrow> (string \<times> bool \<times> string) list \<Rightarrow> search_row" where
  "row ident name links =
     \<lparr>row_id = js ident, row_name = js name,
      row_links = map (\<lambda>(h, p, s). \<lparr>link_href = js h, link_parent = p, link_scope = js s\<rparr>) links\<rparr>"

definition lower_name :: "search_row \<Rightarrow> jstring" where
  "lower_name r = map ascii_lower (row_name r)"

definition row_letter :: "search_row \<Rightarrow> nat option" where
  "row_letter r = (case lower_name r of [] \<Rightarrow> None | c # _ \<Rightarrow> Some c)"

text \<open>
  A row of the page of a letter: its name is ASCII and starts with the letter, in either case,
  and its id is the coded name in lower case.
\<close>

definition row_ok :: "nat \<Rightarrow> search_row \<Rightarrow> bool" where
  "row_ok letter r \<longleftrightarrow> list_all (\<lambda>c. c < 128) (row_name r) \<and> named r (lower_name r) \<and>
     row_letter r = Some letter"

section \<open>Checking a row\<close>

definition code_char :: "char \<Rightarrow> string option" where
  "code_char c =
     (if (of_char c :: nat) < 128 then Some (map char_of (unit_id (ascii_lower (of_char c)))) else None)"

fun coded :: "string \<Rightarrow> string option" where
  "coded [] = Some []"
| "coded (c # s) =
     (case code_char c of None \<Rightarrow> None | Some u \<Rightarrow> map_option ((@) u) (coded s))"

definition starts :: "nat \<Rightarrow> string \<Rightarrow> bool" where
  "starts letter s \<longleftrightarrow> (case s of [] \<Rightarrow> False | c # _ \<Rightarrow> ascii_lower (of_char c) = letter)"

lemma lower_unit: "(c :: nat) < 128 \<Longrightarrow> plain_name [ascii_lower c]"
  by (simp add: plain_name_def ascii_lower_def)

lemma code_char_units:
  assumes "code_char c = Some u"
  shows "js u = unit_id (ascii_lower (of_char c))" and "(of_char c :: nat) < 128"
proof -
  show c: "(of_char c :: nat) < 128" using assms by (simp add: code_char_def split: if_splits)
  have "plain_name (convertToId [ascii_lower (of_char c)])"
    by (rule plain_id [OF lower_unit [OF c]])
  then have "list_all (\<lambda>u. u < 256) (unit_id (ascii_lower (of_char c)))"
    by (auto simp: plain_name_def list_all_iff)
  with assms c show "js u = unit_id (ascii_lower (of_char c))"
    by (auto simp: code_char_def js_def list_all_iff intro!: map_idI)
qed

lemma coded_units:
  "coded s = Some u \<Longrightarrow> js u = convertToId (map ascii_lower (js s)) \<and>
     list_all (\<lambda>c. c < 128) (js s) \<and> plain_name (map ascii_lower (js s))"
proof (induction s arbitrary: u)
  case (Cons c s)
  then obtain v w where v: "code_char c = Some v" and w: "coded s = Some w" "u = v @ w"
    by (auto split: option.splits)
  have "plain_name [ascii_lower (of_char c)]" by (rule lower_unit [OF code_char_units(2) [OF v]])
  with Cons.IH [OF w(1)] code_char_units [OF v] w(2) show ?case
    by (simp add: js_def plain_name_def)
qed (simp add: plain_name_def)

lemma row_check:
  assumes "coded name = Some ident" and "starts letter name"
  shows "row_ok letter (row ident name links) = True"
  using coded_units [OF assms(1)] assms(2)
  by (auto simp: row_ok_def row_def lower_name_def row_letter_def named_def starts_def js_def split: list.splits)

lemma code_table:
  "code_char CHR '' '' = Some ''_20''"
  "code_char CHR ''('' = Some ''_28''"
  "code_char CHR '')'' = Some ''_29''"
  "code_char CHR ''-'' = Some ''_2d''"
  "code_char CHR ''.'' = Some ''_2e''"
  "code_char CHR ''/'' = Some ''_2f''"
  "code_char CHR ''0'' = Some ''0''"
  "code_char CHR ''1'' = Some ''1''"
  "code_char CHR ''2'' = Some ''2''"
  "code_char CHR ''3'' = Some ''3''"
  "code_char CHR ''4'' = Some ''4''"
  "code_char CHR ''5'' = Some ''5''"
  "code_char CHR ''6'' = Some ''6''"
  "code_char CHR ''7'' = Some ''7''"
  "code_char CHR ''8'' = Some ''8''"
  "code_char CHR ''9'' = Some ''9''"
  "code_char CHR ''A'' = Some ''a''"
  "code_char CHR ''B'' = Some ''b''"
  "code_char CHR ''C'' = Some ''c''"
  "code_char CHR ''D'' = Some ''d''"
  "code_char CHR ''E'' = Some ''e''"
  "code_char CHR ''F'' = Some ''f''"
  "code_char CHR ''G'' = Some ''g''"
  "code_char CHR ''H'' = Some ''h''"
  "code_char CHR ''I'' = Some ''i''"
  "code_char CHR ''J'' = Some ''j''"
  "code_char CHR ''K'' = Some ''k''"
  "code_char CHR ''L'' = Some ''l''"
  "code_char CHR ''M'' = Some ''m''"
  "code_char CHR ''N'' = Some ''n''"
  "code_char CHR ''O'' = Some ''o''"
  "code_char CHR ''P'' = Some ''p''"
  "code_char CHR ''Q'' = Some ''q''"
  "code_char CHR ''R'' = Some ''r''"
  "code_char CHR ''S'' = Some ''s''"
  "code_char CHR ''T'' = Some ''t''"
  "code_char CHR ''U'' = Some ''u''"
  "code_char CHR ''V'' = Some ''v''"
  "code_char CHR ''W'' = Some ''w''"
  "code_char CHR ''X'' = Some ''x''"
  "code_char CHR ''Y'' = Some ''y''"
  "code_char CHR ''Z'' = Some ''z''"
  "code_char CHR ''_'' = Some ''_5f''"
  "code_char CHR ''a'' = Some ''a''"
  "code_char CHR ''b'' = Some ''b''"
  "code_char CHR ''c'' = Some ''c''"
  "code_char CHR ''d'' = Some ''d''"
  "code_char CHR ''e'' = Some ''e''"
  "code_char CHR ''f'' = Some ''f''"
  "code_char CHR ''g'' = Some ''g''"
  "code_char CHR ''h'' = Some ''h''"
  "code_char CHR ''i'' = Some ''i''"
  "code_char CHR ''j'' = Some ''j''"
  "code_char CHR ''k'' = Some ''k''"
  "code_char CHR ''l'' = Some ''l''"
  "code_char CHR ''m'' = Some ''m''"
  "code_char CHR ''n'' = Some ''n''"
  "code_char CHR ''o'' = Some ''o''"
  "code_char CHR ''p'' = Some ''p''"
  "code_char CHR ''q'' = Some ''q''"
  "code_char CHR ''r'' = Some ''r''"
  "code_char CHR ''s'' = Some ''s''"
  "code_char CHR ''t'' = Some ''t''"
  "code_char CHR ''u'' = Some ''u''"
  "code_char CHR ''v'' = Some ''v''"
  "code_char CHR ''w'' = Some ''w''"
  "code_char CHR ''x'' = Some ''x''"
  "code_char CHR ''y'' = Some ''y''"
  "code_char CHR ''z'' = Some ''z''"
  by (simp_all add: code_char_def unit_id_def keeps_unit_def ascii_lower_def js_def hex_string_def
      digits.simps digit_char_def char_of_eq_iff take_bit_eq_mod)

lemma starts_table:
  "starts 95 (CHR ''_'' # s)"
  "starts 97 (CHR ''a'' # s)"
  "starts 97 (CHR ''A'' # s)"
  "starts 98 (CHR ''b'' # s)"
  "starts 98 (CHR ''B'' # s)"
  "starts 99 (CHR ''c'' # s)"
  "starts 99 (CHR ''C'' # s)"
  "starts 100 (CHR ''d'' # s)"
  "starts 100 (CHR ''D'' # s)"
  "starts 101 (CHR ''e'' # s)"
  "starts 101 (CHR ''E'' # s)"
  "starts 102 (CHR ''f'' # s)"
  "starts 102 (CHR ''F'' # s)"
  "starts 103 (CHR ''g'' # s)"
  "starts 103 (CHR ''G'' # s)"
  "starts 104 (CHR ''h'' # s)"
  "starts 104 (CHR ''H'' # s)"
  "starts 105 (CHR ''i'' # s)"
  "starts 105 (CHR ''I'' # s)"
  "starts 106 (CHR ''j'' # s)"
  "starts 106 (CHR ''J'' # s)"
  "starts 107 (CHR ''k'' # s)"
  "starts 107 (CHR ''K'' # s)"
  "starts 108 (CHR ''l'' # s)"
  "starts 108 (CHR ''L'' # s)"
  "starts 109 (CHR ''m'' # s)"
  "starts 109 (CHR ''M'' # s)"
  "starts 110 (CHR ''n'' # s)"
  "starts 110 (CHR ''N'' # s)"
  "starts 111 (CHR ''o'' # s)"
  "starts 111 (CHR ''O'' # s)"
  "starts 112 (CHR ''p'' # s)"
  "starts 112 (CHR ''P'' # s)"
  "starts 113 (CHR ''q'' # s)"
  "starts 113 (CHR ''Q'' # s)"
  "starts 114 (CHR ''r'' # s)"
  "starts 114 (CHR ''R'' # s)"
  "starts 115 (CHR ''s'' # s)"
  "starts 115 (CHR ''S'' # s)"
  "starts 116 (CHR ''t'' # s)"
  "starts 116 (CHR ''T'' # s)"
  "starts 117 (CHR ''u'' # s)"
  "starts 117 (CHR ''U'' # s)"
  "starts 118 (CHR ''v'' # s)"
  "starts 118 (CHR ''V'' # s)"
  "starts 119 (CHR ''w'' # s)"
  "starts 119 (CHR ''W'' # s)"
  "starts 120 (CHR ''x'' # s)"
  "starts 120 (CHR ''X'' # s)"
  "starts 121 (CHR ''y'' # s)"
  "starts 121 (CHR ''Y'' # s)"
  "starts 122 (CHR ''z'' # s)"
  "starts 122 (CHR ''Z'' # s)"
  by (simp_all add: starts_def ascii_lower_def)

lemmas row_checks = list.pred_inject row_check coded.simps code_table option.case option.map append.simps
  starts_table refl simp_thms

end
