(* ===== verification/Search_Tables_1.thy ===== *)
theory Search_Tables_1
  imports Search_Rows
begin

text \<open>
  The pages of the search index, without those of all names and of enumerators: for each
  page its rows, and the check that their ids are the coded names and start with the letter
  of the page.
\<close>

text \<open>\<open>search/classes_0.js\<close>\<close>

definition classes_0 :: "search_row list" where
  "classes_0 = [
    row ''xed_5fattributes_5ft'' ''xed_attributes_t'' [(''../structxed__attributes__t.html'', True, '''')],
    row ''xed_5fconvert_5ftable_5ft'' ''xed_convert_table_t'' [(''../structxed__convert__table__t.html'', True, '''')],
    row ''xed_5fdecoded_5finst_5fs'' ''xed_decoded_inst_s'' [(''../structxed__decoded__inst__s.html'', True, '''')],
    row ''xed_5fenc_5fdisplacement_5ft'' ''xed_enc_displacement_t'' [(''../structxed__enc__displacement__t.html'', True, '''')],
    row ''xed_5fencoder_5fiforms_5fs'' ''xed_encoder_iforms_s'' [(''../structxed__encoder__iforms__s.html'', True, '''')],
    row ''xed_5fencoder_5finstruction_5ft'' ''xed_encoder_instruction_t'' [(''../structxed__encoder__instruction__t.html'', True, '''')],
    row ''xed_5fencoder_5foperand_5ft'' ''xed_encoder_operand_t'' [(''../structxed__encoder__operand__t.html'', True, '''')],
    row ''xed_5fencoder_5fprefixes_5ft'' ''xed_encoder_prefixes_t'' [(''../unionxed__encoder__prefixes__t.html'', True, '''')],
    row ''xed_5fflag_5fenum_5fs'' ''xed_flag_enum_s'' [(''../structxed__flag__enum__s.html'', True, '''')],
    row ''xed_5fflag_5fset_5fs'' ''xed_flag_set_s'' [(''../unionxed__flag__set__s.html'', True, '''')],
    row ''xed_5fformat_5foptions_5ft'' ''xed_format_options_t'' [(''../structxed__format__options__t.html'', True, '''')],
    row ''xed_5fiform_5finfo_5fs'' ''xed_iform_info_s'' [(''../structxed__iform__info__s.html'', True, '''')],
    row ''xed_5fimmdis_5fs'' ''xed_immdis_s'' [(''../structxed__immdis__s.html'', True, '''')],
    row ''xed_5fimmdis_5fvalues_5ft'' ''xed_immdis_values_t'' [(''../unionxed__immdis__values__t.html'', True, '''')],
    row ''xed_5finst_5fs'' ''xed_inst_s'' [(''../structxed__inst__s.html'', True, '''')],
    row ''xed_5fmemop_5ft'' ''xed_memop_t'' [(''../structxed__memop__t.html'', True, '''')],
    row ''xed_5foperand_5fs'' ''xed_operand_s'' [(''../structxed__operand__s.html'', True, '''')],
    row ''xed_5foperand_5fstorage_5fs'' ''xed_operand_storage_s'' [(''../structxed__operand__storage__s.html'', True, '''')],
    row ''xed_5fprint_5finfo_5ft'' ''xed_print_info_t'' [(''../structxed__print__info__t.html'', True, '''')],
    row ''xed_5fsimple_5fflag_5fs'' ''xed_simple_flag_s'' [(''../structxed__simple__flag__s.html'', True, '''')],
    row ''xed_5fstate_5fs'' ''xed_state_s'' [(''../structxed__state__s.html'', True, '''')],
    row ''xed_5funion16_5ft'' ''xed_union16_t'' [(''../unionxed__union16__t.html'', True, '''')],
    row ''xed_5funion32_5ft'' ''xed_union32_t'' [(''../unionxed__union32__t.html'', True, '''')],
    row ''xed_5funion64_5ft'' ''xed_union64_t'' [(''../unionxed__union64__t.html'', True, '''')]]"

lemma classes_0_ok: "list_all (row_ok 120) classes_0"
  by (simp only: classes_0_def row_checks)

text \<open>\<open>search/files_0.js\<close>\<close>

definition files_0 :: "search_row list" where
  "files_0 = [
    row ''xed_2daddress_2dwidth_2denum_2eh'' ''xed-address-width-enum.h'' [(''../xed-address-width-enum_8h.html'', True, '''')],
    row ''xed_2dagen_2eh'' ''xed-agen.h'' [(''../xed-agen_8h.html'', True, '''')],
    row ''xed_2dattribute_2denum_2eh'' ''xed-attribute-enum.h'' [(''../xed-attribute-enum_8h.html'', True, '''')],
    row ''xed_2dattributes_2eh'' ''xed-attributes.h'' [(''../xed-attributes_8h.html'', True, '''')],
    row ''xed_2dbuild_2ddefines_2eh'' ''xed-build-defines.h'' [(''../xed-build-defines_8h.html'', True, '''')],
    row ''xed_2dcategory_2denum_2eh'' ''xed-category-enum.h'' [(''../xed-category-enum_8h.html'', True, '''')],
    row ''xed_2dchip_2denum_2eh'' ''xed-chip-enum.h'' [(''../xed-chip-enum_8h.html'', True, '''')],
    row ''xed_2dcommon_2ddefs_2eh'' ''xed-common-defs.h'' [(''../xed-common-defs_8h.html'', True, '''')],
    row ''xed_2dcommon_2dhdrs_2eh'' ''xed-common-hdrs.h'' [(''../xed-common-hdrs_8h.html'', True, '''')],
    row ''xed_2dconvert_2dtable_2dinit_2eh'' ''xed-convert-table-init.h'' [(''../xed-convert-table-init_8h.html'', True, '''')],
    row ''xed_2ddecode_2eh'' ''xed-decode.h'' [(''../xed-decode_8h.html'', True, '''')],
    row ''xed_2ddecoded_2dinst_2dapi_2eh'' ''xed-decoded-inst-api.h'' [(''../xed-decoded-inst-api_8h.html'', True, '''')],
    row ''xed_2ddecoded_2dinst_2eh'' ''xed-decoded-inst.h'' [(''../xed-decoded-inst_8h.html'', True, '''')],
    row ''xed_2ddisas_2eh'' ''xed-disas.h'' [(''../xed-disas_8h.html'', True, '''')],
    row ''xed_2ddoc_2dtop_2etxt'' ''xed-doc-top.txt'' [(''../xed-doc-top_8txt.html'', True, '''')],
    row ''xed_2dencode_2eh'' ''xed-encode.h'' [(''../xed-encode_8h.html'', True, '''')],
    row ''xed_2dencoder_2dgen_2ddefs_2eh'' ''xed-encoder-gen-defs.h'' [(''../xed-encoder-gen-defs_8h.html'', True, '''')],
    row ''xed_2dencoder_2dhl_2eh'' ''xed-encoder-hl.h'' [(''../xed-encoder-hl_8h.html'', True, '''')],
    row ''xed_2dencoder_2diforms_2eh'' ''xed-encoder-iforms.h'' [(''../xed-encoder-iforms_8h.html'', True, '''')],
    row ''xed_2derror_2denum_2eh'' ''xed-error-enum.h'' [(''../xed-error-enum_8h.html'', True, '''')],
    row ''xed_2dexception_2denum_2eh'' ''xed-exception-enum.h'' [(''../xed-exception-enum_8h.html'', True, '''')],
    row ''xed_2dextension_2denum_2eh'' ''xed-extension-enum.h'' [(''../xed-extension-enum_8h.html'', True, '''')],
    row ''xed_2dflag_2daction_2denum_2eh'' ''xed-flag-action-enum.h'' [(''../xed-flag-action-enum_8h.html'', True, '''')],
    row ''xed_2dflag_2denum_2eh'' ''xed-flag-enum.h'' [(''../xed-flag-enum_8h.html'', True, '''')],
    row ''xed_2dflags_2eh'' ''xed-flags.h'' [(''../xed-flags_8h.html'', True, '''')],
    row ''xed_2dformat_2doptions_2eh'' ''xed-format-options.h'' [(''../xed-format-options_8h.html'', True, '''')],
    row ''xed_2dgen_2dtable_2ddefs_2eh'' ''xed-gen-table-defs.h'' [(''../xed-gen-table-defs_8h.html'', True, '''')],
    row ''xed_2dget_2dtime_2eh'' ''xed-get-time.h'' [(''../xed-get-time_8h.html'', True, '''')],
    row ''xed_2diclass_2denum_2eh'' ''xed-iclass-enum.h'' [(''../xed-iclass-enum_8h.html'', True, '''')],
    row ''xed_2diform_2denum_2eh'' ''xed-iform-enum.h'' [(''../xed-iform-enum_8h.html'', True, '''')],
    row ''xed_2diform_2dmap_2eh'' ''xed-iform-map.h'' [(''../xed-iform-map_8h.html'', True, '''')],
    row ''xed_2diformfl_2denum_2eh'' ''xed-iformfl-enum.h'' [(''../xed-iformfl-enum_8h.html'', True, '''')],
    row ''xed_2dild_2eh'' ''xed-ild.h'' [(''../xed-ild_8h.html'', True, '''')],
    row ''xed_2dimmdis_2eh'' ''xed-immdis.h'' [(''../xed-immdis_8h.html'', True, '''')],
    row ''xed_2dimmed_2eh'' ''xed-immed.h'' [(''../xed-immed_8h.html'', True, '''')],
    row ''xed_2dinit_2dpointer_2dnames_2eh'' ''xed-init-pointer-names.h'' [(''../xed-init-pointer-names_8h.html'', True, '''')],
    row ''xed_2dinit_2eh'' ''xed-init.h'' [(''../xed-init_8h.html'', True, '''')],
    row ''xed_2dinst_2eh'' ''xed-inst.h'' [(''../xed-inst_8h.html'', True, '''')],
    row ''xed_2dinterface_2eh'' ''xed-interface.h'' [(''../xed-interface_8h.html'', True, '''')],
    row ''xed_2disa_2dset_2denum_2eh'' ''xed-isa-set-enum.h'' [(''../xed-isa-set-enum_8h.html'', True, '''')],
    row ''xed_2disa_2dset_2eh'' ''xed-isa-set.h'' [(''../xed-isa-set_8h.html'', True, '''')],
    row ''xed_2dmachine_2dmode_2denum_2eh'' ''xed-machine-mode-enum.h'' [(''../xed-machine-mode-enum_8h.html'', True, '''')],
    row ''xed_2dnonterminal_2denum_2eh'' ''xed-nonterminal-enum.h'' [(''../xed-nonterminal-enum_8h.html'', True, '''')],
    row ''xed_2doperand_2daccessors_2eh'' ''xed-operand-accessors.h'' [(''../xed-operand-accessors_8h.html'', True, '''')],
    row ''xed_2doperand_2daction_2denum_2eh'' ''xed-operand-action-enum.h'' [(''../xed-operand-action-enum_8h.html'', True, '''')],
    row ''xed_2doperand_2daction_2eh'' ''xed-operand-action.h'' [(''../xed-operand-action_8h.html'', True, '''')],
    row ''xed_2doperand_2dconvert_2denum_2eh'' ''xed-operand-convert-enum.h'' [(''../xed-operand-convert-enum_8h.html'', True, '''')],
    row ''xed_2doperand_2dctype_2denum_2eh'' ''xed-operand-ctype-enum.h'' [(''../xed-operand-ctype-enum_8h.html'', True, '''')],
    row ''xed_2doperand_2dctype_2dmap_2eh'' ''xed-operand-ctype-map.h'' [(''../xed-operand-ctype-map_8h.html'', True, '''')],
    row ''xed_2doperand_2delement_2dtype_2denum_2eh'' ''xed-operand-element-type-enum.h'' [(''../xed-operand-element-type-enum_8h.html'', True, '''')],
    row ''xed_2doperand_2delement_2dxtype_2denum_2eh'' ''xed-operand-element-xtype-enum.h'' [(''../xed-operand-element-xtype-enum_8h.html'', True, '''')],
    row ''xed_2doperand_2denum_2eh'' ''xed-operand-enum.h'' [(''../xed-operand-enum_8h.html'', True, '''')],
    row ''xed_2doperand_2dstorage_2eh'' ''xed-operand-storage.h'' [(''../xed-operand-storage_8h.html'', True, '''')],
    row ''xed_2doperand_2dtype_2denum_2eh'' ''xed-operand-type-enum.h'' [(''../xed-operand-type-enum_8h.html'', True, '''')],
    row ''xed_2doperand_2dvalues_2dinterface_2eh'' ''xed-operand-values-interface.h'' [(''../xed-operand-values-interface_8h.html'', True, '''')],
    row ''xed_2doperand_2dvisibility_2denum_2eh'' ''xed-operand-visibility-enum.h'' [(''../xed-operand-visibility-enum_8h.html'', True, '''')],
    row ''xed_2doperand_2dwidth_2denum_2eh'' ''xed-operand-width-enum.h'' [(''../xed-operand-width-enum_8h.html'', True, '''')],
    row ''xed_2dportability_2eh'' ''xed-portability.h'' [(''../xed-portability_8h.html'', True, '''')],
    row ''xed_2dprint_2dinfo_2eh'' ''xed-print-info.h'' [(''../xed-print-info_8h.html'', True, '''')],
    row ''xed_2dreg_2dclass_2denum_2eh'' ''xed-reg-class-enum.h'' [(''../xed-reg-class-enum_8h.html'', True, '''')],
    row ''xed_2dreg_2dclass_2eh'' ''xed-reg-class.h'' [(''../xed-reg-class_8h.html'', True, '''')],
    row ''xed_2dreg_2denum_2eh'' ''xed-reg-enum.h'' [(''../xed-reg-enum_8h.html'', True, '''')],
    row ''xed_2dreg_2drole_2denum_2eh'' ''xed-reg-role-enum.h'' [(''../xed-reg-role-enum_8h.html'', True, '''')],
    row ''xed_2dstate_2eh'' ''xed-state.h'' [(''../xed-state_8h.html'', True, '''')],
    row ''xed_2dsyntax_2denum_2eh'' ''xed-syntax-enum.h'' [(''../xed-syntax-enum_8h.html'', True, '''')],
    row ''xed_2dtypes_2eh'' ''xed-types.h'' [(''../xed-types_8h.html'', True, '''')],
    row ''xed_2dutil_2eh'' ''xed-util.h'' [(''../xed-util_8h.html'', True, '''')],
    row ''xed_2dversion_2eh'' ''xed-version.h'' [(''../xed-version_8h.html'', True, '''')]]"

lemma files_0_ok: "list_all (row_ok 120) files_0"
  by (simp only: files_0_def row_checks)

text \<open>\<open>search/functions_0.js\<close>\<close>

definition functions_0 :: "search_row list" where
  "functions_0 = [
    row ''str2xed_5faddress_5fwidth_5fenum_5ft'' ''str2xed_address_width_enum_t'' [(''../group__ENUM.html#ga8fd9a4f1ade05aaf01cd94178a18e643'', True, ''xed-address-width-enum.h'')],
    row ''str2xed_5fattribute_5fenum_5ft'' ''str2xed_attribute_enum_t'' [(''../group__ENUM.html#ga81b5de8d76c2801a6b1cbca58beb270b'', True, ''xed-attribute-enum.h'')],
    row ''str2xed_5fcategory_5fenum_5ft'' ''str2xed_category_enum_t'' [(''../group__ENUM.html#gac610a6c96eedfac9cc046bafdf24d2bd'', True, ''xed-category-enum.h'')],
    row ''str2xed_5fchip_5fenum_5ft'' ''str2xed_chip_enum_t'' [(''../group__ENUM.html#ga173110605dc1e32525e9df181f2f761f'', True, ''xed-chip-enum.h'')],
    row ''str2xed_5ferror_5fenum_5ft'' ''str2xed_error_enum_t'' [(''../group__ENUM.html#ga203bb495b7c49e34ef3e83c25024775b'', True, ''xed-error-enum.h'')],
    row ''str2xed_5fexception_5fenum_5ft'' ''str2xed_exception_enum_t'' [(''../group__ENUM.html#ga7f97deb562fc5e4d308cedc814e1bce7'', True, ''xed-exception-enum.h'')],
    row ''str2xed_5fextension_5fenum_5ft'' ''str2xed_extension_enum_t'' [(''../group__ENUM.html#ga1c44135eaf6d653eccd237520b55dfb7'', True, ''xed-extension-enum.h'')],
    row ''str2xed_5fflag_5faction_5fenum_5ft'' ''str2xed_flag_action_enum_t'' [(''../group__ENUM.html#gaf0163bfa8ac51705924b9a4c2b5e9a6b'', True, ''xed-flag-action-enum.h'')],
    row ''str2xed_5fflag_5fenum_5ft'' ''str2xed_flag_enum_t'' [(''../group__ENUM.html#ga44725b8b3c08e8ca5d59ca11f07513f2'', True, ''xed-flag-enum.h'')],
    row ''str2xed_5ficlass_5fenum_5ft'' ''str2xed_iclass_enum_t'' [(''../group__ENUM.html#gac4b76adf6ede75bbc5754866187fcfa2'', True, ''xed-iclass-enum.h'')],
    row ''str2xed_5fiform_5fenum_5ft'' ''str2xed_iform_enum_t'' [(''../group__ENUM.html#gaaa33ff1896c1ecbda8cbf5875edd8563'', True, ''xed-iform-enum.h'')],
    row ''str2xed_5fisa_5fset_5fenum_5ft'' ''str2xed_isa_set_enum_t'' [(''../group__ENUM.html#ga4ac337dee7f8244b938c8f8968fff863'', True, ''xed-isa-set-enum.h'')],
    row ''str2xed_5fmachine_5fmode_5fenum_5ft'' ''str2xed_machine_mode_enum_t'' [(''../group__ENUM.html#gaa6229dc875554ab07fbb2b1bdd18bb65'', True, ''xed-machine-mode-enum.h'')],
    row ''str2xed_5fnonterminal_5fenum_5ft'' ''str2xed_nonterminal_enum_t'' [(''../group__ENUM.html#gabe8ef68d543f1bda1075eaf53a15d09f'', True, ''xed-nonterminal-enum.h'')],
    row ''str2xed_5foperand_5faction_5fenum_5ft'' ''str2xed_operand_action_enum_t'' [(''../group__ENUM.html#ga58675ccc52549df6fb0439df1a5f220d'', True, ''xed-operand-action-enum.h'')],
    row ''str2xed_5foperand_5fconvert_5fenum_5ft'' ''str2xed_operand_convert_enum_t'' [(''../group__ENUM.html#gaff3cfcae6a879b77bff27c370f29551c'', True, ''xed-operand-convert-enum.h'')],
    row ''str2xed_5foperand_5fctype_5fenum_5ft'' ''str2xed_operand_ctype_enum_t'' [(''../group__ENUM.html#ga27724ce0d3b1c14cf5f6b2bca94b62e5'', True, ''xed-operand-ctype-enum.h'')],
    row ''str2xed_5foperand_5felement_5ftype_5fenum_5ft'' ''str2xed_operand_element_type_enum_t'' [(''../group__ENUM.html#gafbbf731b710c483159c6537de39341bd'', True, ''xed-operand-element-type-enum.h'')],
    row ''str2xed_5foperand_5felement_5fxtype_5fenum_5ft'' ''str2xed_operand_element_xtype_enum_t'' [(''../group__ENUM.html#ga14b6c0205cd965831f992f5b51e390a7'', True, ''xed-operand-element-xtype-enum.h'')],
    row ''str2xed_5foperand_5fenum_5ft'' ''str2xed_operand_enum_t'' [(''../group__ENUM.html#ga5171a8e9ed0f5bd702649ab74c6c7f26'', True, ''xed-operand-enum.h'')],
    row ''str2xed_5foperand_5ftype_5fenum_5ft'' ''str2xed_operand_type_enum_t'' [(''../group__ENUM.html#ga2442452a830a0f64d1763c56508d3912'', True, ''xed-operand-type-enum.h'')],
    row ''str2xed_5foperand_5fvisibility_5fenum_5ft'' ''str2xed_operand_visibility_enum_t'' [(''../group__ENUM.html#gaee0641e8722891769a673d945fdbd32b'', True, ''xed-operand-visibility-enum.h'')],
    row ''str2xed_5foperand_5fwidth_5fenum_5ft'' ''str2xed_operand_width_enum_t'' [(''../group__ENUM.html#ga0924246b32d361e6c996ce1fe103abf3'', True, ''xed-operand-width-enum.h'')],
    row ''str2xed_5freg_5fclass_5fenum_5ft'' ''str2xed_reg_class_enum_t'' [(''../group__ENUM.html#ga42de53e0622823b27dfbc1b0bcab381b'', True, ''xed-reg-class-enum.h'')],
    row ''str2xed_5freg_5fenum_5ft'' ''str2xed_reg_enum_t'' [(''../group__ENUM.html#ga48dc3d086b469ae580ca47917043c2fd'', True, ''xed-reg-enum.h'')],
    row ''str2xed_5freg_5frole_5fenum_5ft'' ''str2xed_reg_role_enum_t'' [(''../group__ENUM.html#ga3fde56fafd5fbe4c642c0566e0e84f28'', True, ''xed-reg-role-enum.h'')],
    row ''str2xed_5fsyntax_5fenum_5ft'' ''str2xed_syntax_enum_t'' [(''../group__ENUM.html#ga6eeeb05296af70a796524487d483400e'', True, ''xed-syntax-enum.h'')]]"

lemma functions_0_ok: "list_all (row_ok 115) functions_0"
  by (simp only: functions_0_def row_checks)

text \<open>\<open>search/variables_0.js\<close>\<close>

definition variables_0 :: "search_row list" where
  "variables_0 = [
    row ''_5fattributes'' ''_attributes'' [(''../structxed__inst__s.html#a03367ba1ec117dbfbd2f1f09e9a9b510'', True, ''xed_inst_s'')],
    row ''_5fbyte_5farray'' ''_byte_array'' [(''../structxed__decoded__inst__s.html#a38b03be58fb05fab25bb86995a92e5fe'', True, ''xed_decoded_inst_s'')],
    row ''_5fcpl'' ''_cpl'' [(''../structxed__inst__s.html#a28c6d88881677fb400e4090e1870b572'', True, ''xed_inst_s'')],
    row ''_5fcvt_5fidx'' ''_cvt_idx'' [(''../structxed__operand__s.html#aeaa9312334b505ca705b317a153dfe8e'', True, ''xed_operand_s'')],
    row ''_5fdec'' ''_dec'' [(''../structxed__decoded__inst__s.html#a412cdad60af0a1b6764572bd1e06341a'', True, ''xed_decoded_inst_s'')],
    row ''_5fdecoded_5flength'' ''_decoded_length'' [(''../structxed__decoded__inst__s.html#a1fab5a1da476258bf447ee424db583da'', True, ''xed_decoded_inst_s'')],
    row ''_5fenc'' ''_enc'' [(''../structxed__decoded__inst__s.html#acd3a82f4a7db2f2d84e13b80953fe5a1'', True, ''xed_decoded_inst_s'')],
    row ''_5fexceptions'' ''_exceptions'' [(''../structxed__inst__s.html#aa3c2bcd18be8815cd9de0d3674bfc1c2'', True, ''xed_inst_s'')],
    row ''_5fflag_5fcomplex'' ''_flag_complex'' [(''../structxed__inst__s.html#aeef213bf1a5d21d2bf11bcf56c709b19'', True, ''xed_inst_s'')],
    row ''_5fflag_5finfo_5findex'' ''_flag_info_index'' [(''../structxed__inst__s.html#a75158b2726e38f4a99e2b211e0e400dc'', True, ''xed_inst_s'')],
    row ''_5fif'' ''_if'' [(''../unionxed__flag__set__s.html#a215d00bbdb63524a71e545fda8dfc329'', True, ''xed_flag_set_s'')],
    row ''_5fiform_5fenum'' ''_iform_enum'' [(''../structxed__inst__s.html#a56d07f8f78f5be97310c3b250643a0cc'', True, ''xed_inst_s'')],
    row ''_5fimm'' ''_imm'' [(''../structxed__operand__s.html#aadbfe169117889af4a00b8e66ad8d577'', True, ''xed_operand_s'')],
    row ''_5finst'' ''_inst'' [(''../structxed__decoded__inst__s.html#ab08a8c51fc2965d6bd2f741281375145'', True, ''xed_decoded_inst_s'')],
    row ''_5fn_5foperand_5forder'' ''_n_operand_order'' [(''../structxed__decoded__inst__s.html#a18dfd5080b21ef3e0dbdb4ee25eb607c'', True, ''xed_decoded_inst_s'')],
    row ''_5fname'' ''_name'' [(''../structxed__operand__s.html#a5648d7311aa0ac212d1d791ae77d61ca'', True, ''xed_operand_s'')],
    row ''_5fnoperands'' ''_noperands'' [(''../structxed__inst__s.html#acb846ead9a58e1648b7df7b3ca3e2f3d'', True, ''xed_inst_s'')],
    row ''_5fnt'' ''_nt'' [(''../structxed__operand__s.html#af00fef3dfbd9105b34b58d36c96a07a5'', True, ''xed_operand_s'')],
    row ''_5foc2'' ''_oc2'' [(''../structxed__operand__s.html#a2e68845abb787426ebe6c4329a81907a'', True, ''xed_operand_s'')],
    row ''_5foperand_5fbase'' ''_operand_base'' [(''../structxed__inst__s.html#adcc7107673acf5c5329f75d9fbe23c9b'', True, ''xed_inst_s'')],
    row ''_5foperand_5forder'' ''_operand_order'' [(''../structxed__decoded__inst__s.html#a39fccfddf6af7f038aa90aa643ae0a88'', True, ''xed_decoded_inst_s'')],
    row ''_5foperand_5fvisibility'' ''_operand_visibility'' [(''../structxed__operand__s.html#aad61b6c9cff8c15a210b713249a62223'', True, ''xed_operand_s'')],
    row ''_5foperands'' ''_operands'' [(''../structxed__decoded__inst__s.html#a88eb93f955acddf8676b8758954de21f'', True, ''xed_decoded_inst_s'')],
    row ''_5freg'' ''_reg'' [(''../structxed__operand__s.html#aecf0d39932822f1a79838ec7ff5d591a'', True, ''xed_operand_s'')],
    row ''_5frw'' ''_rw'' [(''../structxed__operand__s.html#aa9ecf1d105b566b58e4a9fd7aabb1ab6'', True, ''xed_operand_s'')],
    row ''_5ftype'' ''_type'' [(''../structxed__operand__s.html#ad35e0891736807e22e0697801984b1ad'', True, ''xed_operand_s'')],
    row ''_5fu'' ''_u'' [(''../structxed__operand__s.html#aba714ff6405430b4e14121c21c50d8dc'', True, ''xed_operand_s'')],
    row ''_5fxtype'' ''_xtype'' [(''../structxed__operand__s.html#aa5179eb52a878085bb4a4201e941993a'', True, ''xed_operand_s'')]]"

lemma variables_0_ok: "list_all (row_ok 95) variables_0"
  by (simp only: variables_0_def row_checks)

text \<open>\<open>search/variables_1.js\<close>\<close>

definition variables_1 :: "search_row list" where
  "variables_1 = [
    row ''a1'' ''a1'' [(''../structxed__attributes__t.html#a1bafa860e7ff56ad4f9fa29396c409da'', True, ''xed_attributes_t'')],
    row ''a2'' ''a2'' [(''../structxed__attributes__t.html#a1f975556af5a9fb9fd4b91bb10d6674e'', True, ''xed_attributes_t'')],
    row ''ac'' ''ac'' [(''../unionxed__flag__set__s.html#ac862456049fbaa8118a6747fc51ae6da'', True, ''xed_flag_set_s'')],
    row ''action'' ''action'' [(''../structxed__flag__enum__s.html#a6ff90d561a1023be5c27bc5ba1da6a83'', True, ''xed_flag_enum_s'')],
    row ''af'' ''af'' [(''../unionxed__flag__set__s.html#ab4abcec0d4a5b52f337a38e40f15caac'', True, ''xed_flag_set_s'')],
    row ''agen'' ''agen'' [(''../structxed__operand__storage__s.html#aa98814ea0c9dc7d120c6154c40cd2082'', True, ''xed_operand_storage_s'')],
    row ''amd3dnow'' ''amd3dnow'' [(''../structxed__operand__storage__s.html#a45b2c0ac61e1490670bab0e744c81f98'', True, ''xed_operand_storage_s'')],
    row ''asz'' ''asz'' [(''../structxed__operand__storage__s.html#a6b35796e7ba1792792ab31d714a60761'', True, ''xed_operand_storage_s'')]]"

lemma variables_1_ok: "list_all (row_ok 97) variables_1"
  by (simp only: variables_1_def row_checks)

text \<open>\<open>search/variables_2.js\<close>\<close>

definition variables_2 :: "search_row list" where
  "variables_2 = [
    row ''b'' ''b'' [(''../unionxed__union16__t.html#a665df71aa139396f2c832d48f9fcc028'', True, ''xed_union16_t::b()''), (''../unionxed__union32__t.html#a867bd110bec9ddac4e9e0bf273badd29'', True, ''xed_union32_t::b()''), (''../unionxed__union64__t.html#a3a13f512c139879899361247621b57af'', True, ''xed_union64_t::b()'')],
    row ''b0'' ''b0'' [(''../unionxed__union16__t.html#acb86d526e89cb518772978efe94d58c8'', True, ''xed_union16_t::b0()''), (''../unionxed__union32__t.html#acb86d526e89cb518772978efe94d58c8'', True, ''xed_union32_t::b0()''), (''../unionxed__union64__t.html#acb86d526e89cb518772978efe94d58c8'', True, ''xed_union64_t::b0()'')],
    row ''b1'' ''b1'' [(''../unionxed__union16__t.html#a748564b5caace463f8b03b29e475f79b'', True, ''xed_union16_t::b1()''), (''../unionxed__union32__t.html#a748564b5caace463f8b03b29e475f79b'', True, ''xed_union32_t::b1()''), (''../unionxed__union64__t.html#a748564b5caace463f8b03b29e475f79b'', True, ''xed_union64_t::b1()'')],
    row ''b2'' ''b2'' [(''../unionxed__union32__t.html#a936816140a5ea6d363add02237995a35'', True, ''xed_union32_t::b2()''), (''../unionxed__union64__t.html#a936816140a5ea6d363add02237995a35'', True, ''xed_union64_t::b2()'')],
    row ''b3'' ''b3'' [(''../unionxed__union32__t.html#ac3e5ac0cb9041190d349d854c5d83d48'', True, ''xed_union32_t::b3()''), (''../unionxed__union64__t.html#ac3e5ac0cb9041190d349d854c5d83d48'', True, ''xed_union64_t::b3()'')],
    row ''b4'' ''b4'' [(''../unionxed__union64__t.html#a0ca2ece37c2a141300af11ffe6dd9357'', True, ''xed_union64_t'')],
    row ''b5'' ''b5'' [(''../unionxed__union64__t.html#a59238c4741d26fc832d52bae06402272'', True, ''xed_union64_t'')],
    row ''b6'' ''b6'' [(''../unionxed__union64__t.html#ac593293a5634c05f9f6d632d471aa11a'', True, ''xed_union64_t'')],
    row ''b7'' ''b7'' [(''../unionxed__union64__t.html#ae37baee0e845593d408a21f95fc2314f'', True, ''xed_union64_t'')],
    row ''base'' ''base'' [(''../structxed__memop__t.html#a47dd9d08fd6c6c01240bc0016c53388b'', True, ''xed_memop_t'')],
    row ''base0'' ''base0'' [(''../structxed__operand__storage__s.html#a7bd8238e8e1827a3c47abd5c4e27030d'', True, ''xed_operand_storage_s'')],
    row ''base1'' ''base1'' [(''../structxed__operand__storage__s.html#a7c9e48459acd2573dcce2441dd1d93f6'', True, ''xed_operand_storage_s'')],
    row ''bcast'' ''bcast'' [(''../structxed__operand__storage__s.html#a0ea80f2ed39719051f41c0d11b389135'', True, ''xed_operand_storage_s'')],
    row ''bcrc'' ''bcrc'' [(''../structxed__operand__storage__s.html#a56a7f38bf7471f038869c06a07bec946'', True, ''xed_operand_storage_s'')],
    row ''blen'' ''blen'' [(''../structxed__print__info__t.html#abf478535d20cf92ccdba662a135e6c1b'', True, ''xed_print_info_t'')],
    row ''br_5fhint_5fnot_5ftaken'' ''br_hint_not_taken'' [(''../unionxed__encoder__prefixes__t.html#aa386ca0a8e018f195d93dc2225c53e05'', True, ''xed_encoder_prefixes_t'')],
    row ''br_5fhint_5ftaken'' ''br_hint_taken'' [(''../unionxed__encoder__prefixes__t.html#a9bf442830763f089c6fbb8bb561f27a7'', True, ''xed_encoder_prefixes_t'')],
    row ''brdisp'' ''brdisp'' [(''../structxed__encoder__operand__t.html#ab99e88a8252108f8512877a9e88a4ea0'', True, ''xed_encoder_operand_t'')],
    row ''brdisp_5fwidth'' ''brdisp_width'' [(''../structxed__operand__storage__s.html#ab478458d9396b979753e55264b924933'', True, ''xed_operand_storage_s'')],
    row ''buf'' ''buf'' [(''../structxed__print__info__t.html#a1fe855c208bc17a51a4d34fefdb2d5b1'', True, ''xed_print_info_t'')],
    row ''byte'' ''byte'' [(''../unionxed__union16__t.html#abd19c3fc4f5aaaaf5374b5c784949c57'', True, ''xed_union16_t::byte()''), (''../unionxed__union32__t.html#a3eb919dcc67788f259fa65b445c3cd4c'', True, ''xed_union32_t::byte()''), (''../unionxed__union64__t.html#ac7826cf2704190096f03e88fdd7207dd'', True, ''xed_union64_t::byte()'')]]"

lemma variables_2_ok: "list_all (row_ok 98) variables_2"
  by (simp only: variables_2_def row_checks)

text \<open>\<open>search/variables_3.js\<close>\<close>

definition variables_3 :: "search_row list" where
  "variables_3 = [
    row ''category'' ''category'' [(''../structxed__iform__info__s.html#abe0e7654223c86df2c33d2fec7e3b5cf'', True, ''xed_iform_info_s'')],
    row ''cf'' ''cf'' [(''../unionxed__flag__set__s.html#a651259e24a24a1f9f40e9bedac0ad560'', True, ''xed_flag_set_s'')],
    row ''chip'' ''chip'' [(''../structxed__operand__storage__s.html#a522f16922869deae0f982f6277470b14'', True, ''xed_operand_storage_s'')],
    row ''context'' ''context'' [(''../structxed__print__info__t.html#ae376f130b17d169ee51be68077a89ed0'', True, ''xed_print_info_t'')],
    row ''currently_5fused_5fspace'' ''currently_used_space'' [(''../structxed__immdis__s.html#aa5fa898615728484b9153ffcedcabdd3'', True, ''xed_immdis_s'')]]"

lemma variables_3_ok: "list_all (row_ok 99) variables_3"
  by (simp only: variables_3_def row_checks)

text \<open>\<open>search/variables_4.js\<close>\<close>

definition variables_4 :: "search_row list" where
  "variables_4 = [
    row ''default_5fseg'' ''default_seg'' [(''../structxed__operand__storage__s.html#a2d00d3a834e152cb4fd3507ba340f3e4'', True, ''xed_operand_storage_s'')],
    row ''df'' ''df'' [(''../unionxed__flag__set__s.html#af8d13777f6ab108bafae72363039ce3c'', True, ''xed_flag_set_s'')],
    row ''df32'' ''df32'' [(''../structxed__operand__storage__s.html#afa174ee6680e7dbeb613855c585aa071'', True, ''xed_operand_storage_s'')],
    row ''df64'' ''df64'' [(''../structxed__operand__storage__s.html#a4c0fe3d295763cd48147a572071c2037'', True, ''xed_operand_storage_s'')],
    row ''disassembly_5fcallback'' ''disassembly_callback'' [(''../structxed__print__info__t.html#a2b39e838ee753fb0c2f9c95a793c689f'', True, ''xed_print_info_t'')],
    row ''disp'' ''disp'' [(''../structxed__memop__t.html#a62574ae50e6dc5819e7ca1a8319ff606'', True, ''xed_memop_t::disp()''), (''../structxed__operand__storage__s.html#ab52f482f625a662b1cb47127dc41d19a'', True, ''xed_operand_storage_s::disp()'')],
    row ''disp_5fwidth'' ''disp_width'' [(''../structxed__operand__storage__s.html#a8aec9335704d9db6e4fc47567ab194b0'', True, ''xed_operand_storage_s'')],
    row ''displacement'' ''displacement'' [(''../structxed__enc__displacement__t.html#afa8ff12ae5e87cef3fca11b518b27d3f'', True, ''xed_enc_displacement_t'')],
    row ''displacement_5fwidth'' ''displacement_width'' [(''../structxed__enc__displacement__t.html#ade836c69944bc231aa61f34317d337cf'', True, ''xed_enc_displacement_t'')],
    row ''dummy'' ''dummy'' [(''../structxed__operand__storage__s.html#a45d0895b1839a19b845db046507a92ab'', True, ''xed_operand_storage_s'')],
    row ''dword'' ''dword'' [(''../unionxed__union64__t.html#a051add75892a4457b58fcbc334410158'', True, ''xed_union64_t'')]]"

lemma variables_4_ok: "list_all (row_ok 100) variables_4"
  by (simp only: variables_4_def row_checks)

text \<open>\<open>search/variables_5.js\<close>\<close>

definition variables_5 :: "search_row list" where
  "variables_5 = [
    row ''easz'' ''easz'' [(''../structxed__operand__storage__s.html#a103d68a096555ba6eb27e26022247779'', True, ''xed_operand_storage_s'')],
    row ''effective_5faddress_5fwidth'' ''effective_address_width'' [(''../structxed__encoder__instruction__t.html#a3e97f12dc2c89d421934d6f8d83d3e67'', True, ''xed_encoder_instruction_t'')],
    row ''effective_5foperand_5fwidth'' ''effective_operand_width'' [(''../structxed__encoder__instruction__t.html#a8ef9ec3964c45a1614d417370eb04723'', True, ''xed_encoder_instruction_t'')],
    row ''element_5fsize'' ''element_size'' [(''../structxed__operand__storage__s.html#acbce437fe6914af047fae06df2368a1c'', True, ''xed_operand_storage_s'')],
    row ''emitted'' ''emitted'' [(''../structxed__print__info__t.html#a426697c198943f37470982f3f956c35d'', True, ''xed_print_info_t'')],
    row ''encoder_5fpreferred'' ''encoder_preferred'' [(''../structxed__operand__storage__s.html#ab7e563efae89e5704821c195cb5a45c6'', True, ''xed_operand_storage_s'')],
    row ''eosz'' ''eosz'' [(''../structxed__operand__storage__s.html#aafc351c98a02647c7eb4d38ae1c8a490'', True, ''xed_operand_storage_s'')],
    row ''error'' ''error'' [(''../structxed__operand__storage__s.html#a2fc902b0aea6394f8fbb0e3e26895f2b'', True, ''xed_operand_storage_s'')],
    row ''esrc'' ''esrc'' [(''../structxed__operand__storage__s.html#ad19b924b8cdb03442958e235399947e3'', True, ''xed_operand_storage_s'')],
    row ''esrc3'' ''esrc3'' [(''../structxed__operand__storage__s.html#a97f748c3c8a6e9fc1e06d9d8c348cc32'', True, ''xed_operand_storage_s'')],
    row ''ev'' ''ev'' [(''../structxed__decoded__inst__s.html#a970cf4df570b46c91bcda570f9e909cc'', True, ''xed_decoded_inst_s'')],
    row ''evexrr'' ''evexrr'' [(''../structxed__operand__storage__s.html#a9abfab0954ca339a10ac089959534155'', True, ''xed_operand_storage_s'')],
    row ''extension'' ''extension'' [(''../structxed__iform__info__s.html#abc6055dea33b5ce30146fb6a826e3b1a'', True, ''xed_iform_info_s'')],
    row ''extra_5findex_5foperand'' ''extra_index_operand'' [(''../structxed__print__info__t.html#ab333e6d2b6d6beab5dbcea01a55ffaf0'', True, ''xed_print_info_t'')]]"

lemma variables_5_ok: "list_all (row_ok 101) variables_5"
  by (simp only: variables_5_def row_checks)

text \<open>\<open>search/variables_6.js\<close>\<close>

definition variables_6 :: "search_row list" where
  "variables_6 = [
    row ''fa_5findex'' ''fa_index'' [(''../structxed__simple__flag__s.html#a6ca9e07f3c737f6f07deb0678f4c5d8c'', True, ''xed_simple_flag_s'')],
    row ''fc0'' ''fc0'' [(''../unionxed__flag__set__s.html#ac60b72c28c13fe3e184f3c71d1f767ee'', True, ''xed_flag_set_s'')],
    row ''fc1'' ''fc1'' [(''../unionxed__flag__set__s.html#a851f879c9a85dcf2d8a1a131e4153c05'', True, ''xed_flag_set_s'')],
    row ''fc2'' ''fc2'' [(''../unionxed__flag__set__s.html#aac00c3bfcc52f47af14c161cfb4268e9'', True, ''xed_flag_set_s'')],
    row ''fc3'' ''fc3'' [(''../unionxed__flag__set__s.html#a77423a46de3049dd586ad46614a83fcb'', True, ''xed_flag_set_s'')],
    row ''first_5ff2f3'' ''first_f2f3'' [(''../structxed__operand__storage__s.html#a5c5ec581efbfb93f64ea4acc5ad97673'', True, ''xed_operand_storage_s'')],
    row ''flag'' ''flag'' [(''../structxed__flag__enum__s.html#a0c855e9832d9215abbeee4d8c4611f76'', True, ''xed_flag_enum_s'')],
    row ''flat'' ''flat'' [(''../unionxed__flag__set__s.html#a712498840cfac2cb767e9c8457edbf7b'', True, ''xed_flag_set_s'')],
    row ''format_5foptions'' ''format_options'' [(''../structxed__print__info__t.html#a5cbeeb747b1d5700b4c25546c6b02713'', True, ''xed_print_info_t'')],
    row ''format_5foptions_5fvalid'' ''format_options_valid'' [(''../structxed__print__info__t.html#a809dd76e54efbe7033f0bd5eedf802af'', True, ''xed_print_info_t'')]]"

lemma variables_6_ok: "list_all (row_ok 102) variables_6"
  by (simp only: variables_6_def row_checks)

text \<open>\<open>search/variables_7.js\<close>\<close>

definition variables_7 :: "search_row list" where
  "variables_7 = [
    row ''has_5fmodrm'' ''has_modrm'' [(''../structxed__operand__storage__s.html#a5e1b914cf33a996de380ab2b84a6eff4'', True, ''xed_operand_storage_s'')],
    row ''has_5fsib'' ''has_sib'' [(''../structxed__operand__storage__s.html#ae60ed464f49cf38771c67a6d32121340'', True, ''xed_operand_storage_s'')],
    row ''hex_5faddress_5fbefore_5fsymbolic_5fname'' ''hex_address_before_symbolic_name'' [(''../structxed__format__options__t.html#a9859337bb1e80b9406ef029e2e88a388'', True, ''xed_format_options_t'')],
    row ''hi32'' ''hi32'' [(''../unionxed__union64__t.html#a3e14c09b37cc7f2ada4210fb6374b3d5'', True, ''xed_union64_t'')],
    row ''hint'' ''hint'' [(''../structxed__operand__storage__s.html#a3390c38d47d6aff23814ae37b503666a'', True, ''xed_operand_storage_s'')],
    row ''hsw'' ''hsw'' [(''../structxed__operand__storage__s.html#ab6dd726aca628551b71b156314d1eeb0'', True, ''xed_operand_storage_s'')]]"

lemma variables_7_ok: "list_all (row_ok 104) variables_7"
  by (simp only: variables_7_def row_checks)

text \<open>\<open>search/variables_8.js\<close>\<close>

definition variables_8 :: "search_row list" where
  "variables_8 = [
    row ''i'' ''i'' [(''../unionxed__encoder__prefixes__t.html#a4604e9bca1cf029d6c794f094ff15138'', True, ''xed_encoder_prefixes_t'')],
    row ''i16'' ''i16'' [(''../unionxed__union16__t.html#a9edcde8be991063b08eaf65f662bab03'', True, ''xed_union16_t'')],
    row ''i32'' ''i32'' [(''../unionxed__union32__t.html#a17cb6e550d9a799ed4ad2feda6c234a5'', True, ''xed_union32_t'')],
    row ''i64'' ''i64'' [(''../unionxed__union64__t.html#a56b05ceeaf0a4899294c2bd89381452f'', True, ''xed_union64_t'')],
    row ''iclass'' ''iclass'' [(''../structxed__encoder__instruction__t.html#a73e305f28d726fb5b44173d7e08f7fb4'', True, ''xed_encoder_instruction_t::iclass()''), (''../structxed__iform__info__s.html#a73e305f28d726fb5b44173d7e08f7fb4'', True, ''xed_iform_info_s::iclass()''), (''../structxed__operand__storage__s.html#a839074130fe4117198c2bf1e272c7335'', True, ''xed_operand_storage_s::iclass()'')],
    row ''id'' ''id'' [(''../unionxed__flag__set__s.html#a6d199860b7956324c5a4f5c6c71fd2ef'', True, ''xed_flag_set_s'')],
    row ''ild_5ff2'' ''ild_f2'' [(''../structxed__operand__storage__s.html#ac57a7ddb914e1a186da00bc469e521fb'', True, ''xed_operand_storage_s'')],
    row ''ild_5ff3'' ''ild_f3'' [(''../structxed__operand__storage__s.html#abf010802f0bac1cc77681c7b9debd86c'', True, ''xed_operand_storage_s'')],
    row ''ild_5fseg'' ''ild_seg'' [(''../structxed__operand__storage__s.html#a91ca03fd2581444b22beeeac9da6f4a3'', True, ''xed_operand_storage_s'')],
    row ''imm0'' ''imm0'' [(''../structxed__encoder__operand__t.html#aa995ad55cbcb06f834e37293c4466023'', True, ''xed_encoder_operand_t::imm0()''), (''../structxed__operand__storage__s.html#a0f05d3fb7c449ef405bc4dcef47c2cc5'', True, ''xed_operand_storage_s::imm0()'')],
    row ''imm0signed'' ''imm0signed'' [(''../structxed__operand__storage__s.html#ade5891995ec8fa7d320c29b189af52b7'', True, ''xed_operand_storage_s'')],
    row ''imm1'' ''imm1'' [(''../structxed__encoder__operand__t.html#aecb9ee77844be3e93e81216cc4709146'', True, ''xed_encoder_operand_t::imm1()''), (''../structxed__operand__storage__s.html#aecb9ee77844be3e93e81216cc4709146'', True, ''xed_operand_storage_s::imm1()'')],
    row ''imm1_5fbytes'' ''imm1_bytes'' [(''../structxed__operand__storage__s.html#a12c120e0916fa7aacf2bd5f83fe89a57'', True, ''xed_operand_storage_s'')],
    row ''imm_5fwidth'' ''imm_width'' [(''../structxed__operand__storage__s.html#aef22ce89bc0c9c1b8e6629a258b3e0a5'', True, ''xed_operand_storage_s'')],
    row ''immediate_5fis_5funsigned'' ''immediate_is_unsigned'' [(''../structxed__immdis__s.html#aeea5eb8193030afdeeda7b6dfa640fd9'', True, ''xed_immdis_s'')],
    row ''index'' ''index'' [(''../structxed__memop__t.html#a6538179aeb901a9f34af5e7861a38038'', True, ''xed_memop_t::index()''), (''../structxed__operand__storage__s.html#a5f2371b709c5fa56ad0c4f61450d965c'', True, ''xed_operand_storage_s::index()'')],
    row ''iopl'' ''iopl'' [(''../unionxed__flag__set__s.html#a41c4b59f50e4ac20c6d81e8379691e8e'', True, ''xed_flag_set_s'')],
    row ''isa_5fset'' ''isa_set'' [(''../structxed__iform__info__s.html#aed57fa5486f387f7f2a5d470785fd82b'', True, ''xed_iform_info_s'')]]"

lemma variables_8_ok: "list_all (row_ok 105) variables_8"
  by (simp only: variables_8_def row_checks)

text \<open>\<open>search/variables_9.js\<close>\<close>

definition variables_9 :: "search_row list" where
  "variables_9 = [
    row ''last_5ff2f3'' ''last_f2f3'' [(''../structxed__operand__storage__s.html#a28bb0610f07cea2b017db8e6475a1f2c'', True, ''xed_operand_storage_s'')],
    row ''limit'' ''limit'' [(''../structxed__convert__table__t.html#ad881b1b412cdb9bc8d851726a73c0e5f'', True, ''xed_convert_table_t'')],
    row ''llrc'' ''llrc'' [(''../structxed__operand__storage__s.html#a4770166a134a40fad2101f19765c8545'', True, ''xed_operand_storage_s'')],
    row ''lo32'' ''lo32'' [(''../unionxed__union64__t.html#ab7de348b87fff28cf1e9faa4364d0b5a'', True, ''xed_union64_t'')],
    row ''lock'' ''lock'' [(''../unionxed__encoder__prefixes__t.html#ade34f221316c3df93f99960707f80116'', True, ''xed_encoder_prefixes_t::lock()''), (''../structxed__operand__storage__s.html#a0c34bff866110c915db87e13520aa931'', True, ''xed_operand_storage_s::lock()'')],
    row ''lockable'' ''lockable'' [(''../structxed__operand__storage__s.html#a0f195aa408a315baa67a739ed1cf5314'', True, ''xed_operand_storage_s'')]]"

lemma variables_9_ok: "list_all (row_ok 108) variables_9"
  by (simp only: variables_9_def row_checks)

text \<open>\<open>search/variables_a.js\<close>\<close>

definition variables_a :: "search_row list" where
  "variables_a = [
    row ''map'' ''map'' [(''../structxed__operand__storage__s.html#ae52b027517d94275119faee655e4376d'', True, ''xed_operand_storage_s'')],
    row ''mask'' ''mask'' [(''../structxed__operand__storage__s.html#a3f89a94262b4663bbd668d109b3746c8'', True, ''xed_operand_storage_s'')],
    row ''max_5fallocated_5fspace'' ''max_allocated_space'' [(''../structxed__immdis__s.html#ac8efd53d2590c1248ae58931dee0e89d'', True, ''xed_immdis_s'')],
    row ''max_5fbytes'' ''max_bytes'' [(''../structxed__operand__storage__s.html#a9cbf31314eedd73850087bebf2de1033'', True, ''xed_operand_storage_s'')],
    row ''may_5fwrite'' ''may_write'' [(''../structxed__simple__flag__s.html#a644147e6c8a633e8e13cda7b3a974910'', True, ''xed_simple_flag_s'')],
    row ''mem'' ''mem'' [(''../structxed__encoder__operand__t.html#a61d286cb2d8cddcdc7bbadbab9759aa5'', True, ''xed_encoder_operand_t'')],
    row ''mem0'' ''mem0'' [(''../structxed__operand__storage__s.html#a19e441620a0f38fed11a3dd8f6ddfa31'', True, ''xed_operand_storage_s'')],
    row ''mem1'' ''mem1'' [(''../structxed__operand__storage__s.html#ad9660dcaebb7f45fda43217ecdf7b574'', True, ''xed_operand_storage_s'')],
    row ''mem_5fwidth'' ''mem_width'' [(''../structxed__operand__storage__s.html#ad6a412a223ec5b57efa75fb320a54f69'', True, ''xed_operand_storage_s'')],
    row ''mmode'' ''mmode'' [(''../structxed__state__s.html#acedcfb0936b7c302087ad7fe5de5cb10'', True, ''xed_state_s'')],
    row ''mod'' ''mod'' [(''../structxed__operand__storage__s.html#a9d610ece02244602e64fe376d914a7ae'', True, ''xed_operand_storage_s'')],
    row ''mode'' ''mode'' [(''../structxed__encoder__instruction__t.html#a329fcce026ff63907ea18427b436bc67'', True, ''xed_encoder_instruction_t::mode()''), (''../structxed__operand__storage__s.html#af76beeb9c32516b575dc68f64176333d'', True, ''xed_operand_storage_s::mode()'')],
    row ''mode_5ffirst_5fprefix'' ''mode_first_prefix'' [(''../structxed__operand__storage__s.html#a1f980d6704ace761de9edc06c4598923'', True, ''xed_operand_storage_s'')],
    row ''modep5'' ''modep5'' [(''../structxed__operand__storage__s.html#a25b2f50484ecb1a89c51d52562bebda0'', True, ''xed_operand_storage_s'')],
    row ''modep55c'' ''modep55c'' [(''../structxed__operand__storage__s.html#afd4899f12b95a02a93132b27d161039e'', True, ''xed_operand_storage_s'')],
    row ''modrm'' ''modrm'' [(''../structxed__operand__storage__s.html#ac868edaab6f0253f1e84c2a892130e9e'', True, ''xed_operand_storage_s'')],
    row ''modrm_5fbyte'' ''modrm_byte'' [(''../structxed__operand__storage__s.html#a215275504dbfe6703eefc0ef4c26829c'', True, ''xed_operand_storage_s'')],
    row ''mpxmode'' ''mpxmode'' [(''../structxed__operand__storage__s.html#a190ebdd8a7269db139971f3ff6f56c5c'', True, ''xed_operand_storage_s'')],
    row ''must_5fbe_5f0a'' ''must_be_0a'' [(''../unionxed__flag__set__s.html#a23108990a6959f5f26751773749547fa'', True, ''xed_flag_set_s'')],
    row ''must_5fbe_5f0b'' ''must_be_0b'' [(''../unionxed__flag__set__s.html#ae4ce751f0785b6016219882fb21d9a6a'', True, ''xed_flag_set_s'')],
    row ''must_5fbe_5f0c'' ''must_be_0c'' [(''../unionxed__flag__set__s.html#aa1d56c6e0e84da7e02053c50ed31dbab'', True, ''xed_flag_set_s'')],
    row ''must_5fbe_5f0d'' ''must_be_0d'' [(''../unionxed__flag__set__s.html#ad0e986162be817612d6e228d0c239d9c'', True, ''xed_flag_set_s'')],
    row ''must_5fbe_5f0e'' ''must_be_0e'' [(''../unionxed__flag__set__s.html#a61a62d2e73c190bdb70f212cdfc162bf'', True, ''xed_flag_set_s'')],
    row ''must_5fbe_5f1'' ''must_be_1'' [(''../unionxed__flag__set__s.html#a72b663d5bccd430b4d688cc6429b088f'', True, ''xed_flag_set_s'')],
    row ''must_5fwrite'' ''must_write'' [(''../structxed__simple__flag__s.html#ac5157c9b63bf12f8e1b6e1824f6e398b'', True, ''xed_simple_flag_s'')]]"

lemma variables_a_ok: "list_all (row_ok 109) variables_a"
  by (simp only: variables_a_def row_checks)

text \<open>\<open>search/variables_b.js\<close>\<close>

definition variables_b :: "search_row list" where
  "variables_b = [
    row ''need_5fmemdisp'' ''need_memdisp'' [(''../structxed__operand__storage__s.html#a639c395abbaed39e9b7c3072eb92064d'', True, ''xed_operand_storage_s'')],
    row ''needrex'' ''needrex'' [(''../structxed__operand__storage__s.html#a1b892a8c0b4a0870ebb665499d4cd48b'', True, ''xed_operand_storage_s'')],
    row ''nelem'' ''nelem'' [(''../structxed__operand__storage__s.html#aaba9037a2338078081e98e30c0318251'', True, ''xed_operand_storage_s'')],
    row ''nflags'' ''nflags'' [(''../structxed__simple__flag__s.html#a8adf988b444df44631430dce32912463'', True, ''xed_simple_flag_s'')],
    row ''no_5fscale_5fdisp8'' ''no_scale_disp8'' [(''../structxed__operand__storage__s.html#a11cdb7d6abbb9ea6f74f472ccde91f50'', True, ''xed_operand_storage_s'')],
    row ''no_5fsign_5fextend_5fsigned_5fimmediates'' ''no_sign_extend_signed_immediates'' [(''../structxed__format__options__t.html#a52f1af3c6153aea31d80aa837d8fd075'', True, ''xed_format_options_t'')],
    row ''nominal_5fopcode'' ''nominal_opcode'' [(''../structxed__operand__storage__s.html#a20113dd806992cb61a9edcc4de58ec5b'', True, ''xed_operand_storage_s'')],
    row ''noperands'' ''noperands'' [(''../structxed__encoder__instruction__t.html#a9bb1e6a43001997963da687e816ebdf9'', True, ''xed_encoder_instruction_t'')],
    row ''norex'' ''norex'' [(''../structxed__operand__storage__s.html#a456f9de3efd3a0e9bbcbb29e3f0d95a2'', True, ''xed_operand_storage_s'')],
    row ''nprefixes'' ''nprefixes'' [(''../structxed__operand__storage__s.html#a55cfd9ca586500f39f5ce5cc12401e22'', True, ''xed_operand_storage_s'')],
    row ''nrexes'' ''nrexes'' [(''../structxed__operand__storage__s.html#a40a8da00806f200307ab6a94ef14c11f'', True, ''xed_operand_storage_s'')],
    row ''nseg_5fprefixes'' ''nseg_prefixes'' [(''../structxed__operand__storage__s.html#a99f2348b52a79a2c12a92a6c0118bf17'', True, ''xed_operand_storage_s'')],
    row ''nt'' ''nt'' [(''../unionxed__flag__set__s.html#a8d117fdc3b5690c315d83fead390ab08'', True, ''xed_flag_set_s'')]]"

lemma variables_b_ok: "list_all (row_ok 110) variables_b"
  by (simp only: variables_b_def row_checks)

text \<open>\<open>search/variables_c.js\<close>\<close>

definition variables_c :: "search_row list" where
  "variables_c = [
    row ''of'' ''of'' [(''../unionxed__flag__set__s.html#a785e5f20a19d10fce1ec7549d3a2ee6a'', True, ''xed_flag_set_s'')],
    row ''omit_5funit_5fscale'' ''omit_unit_scale'' [(''../structxed__format__options__t.html#a376259c6f83ac22702c42fe1adbab400'', True, ''xed_format_options_t'')],
    row ''operand_5findx'' ''operand_indx'' [(''../structxed__print__info__t.html#a4337c4b316e91d8ed38fb21c929760d2'', True, ''xed_print_info_t'')],
    row ''operand_5fname'' ''operand_name'' [(''../structxed__encoder__operand__t.html#aba1b2678090e74eb5faa198cf49d5730'', True, ''xed_encoder_operand_t'')],
    row ''operands'' ''operands'' [(''../structxed__encoder__instruction__t.html#a33d5130bbbb68262f0748a59812a70cb'', True, ''xed_encoder_instruction_t'')],
    row ''opnd'' ''opnd'' [(''../structxed__convert__table__t.html#a5b30b844e7c5f76eb32c1a779789a983'', True, ''xed_convert_table_t'')],
    row ''osz'' ''osz'' [(''../structxed__operand__storage__s.html#a1e9faa26506012593bba0a1e244e3859'', True, ''xed_operand_storage_s'')],
    row ''out_5fof_5fbytes'' ''out_of_bytes'' [(''../structxed__operand__storage__s.html#aba0de59dc02264ece3d21a97198b8119'', True, ''xed_operand_storage_s'')],
    row ''outreg'' ''outreg'' [(''../structxed__operand__storage__s.html#ae3f10720d98fa3620ac51343010bb582'', True, ''xed_operand_storage_s'')]]"

lemma variables_c_ok: "list_all (row_ok 111) variables_c"
  by (simp only: variables_c_def row_checks)

text \<open>\<open>search/variables_d.js\<close>\<close>

definition variables_d :: "search_row list" where
  "variables_d = [
    row ''p'' ''p'' [(''../structxed__print__info__t.html#ab975d6795638986ea3d0ac52cd6b0e27'', True, ''xed_print_info_t'')],
    row ''p4'' ''p4'' [(''../structxed__operand__storage__s.html#a55d77f127dbb4395e66b457e2c018122'', True, ''xed_operand_storage_s'')],
    row ''pf'' ''pf'' [(''../unionxed__flag__set__s.html#a67dee0986ec87026ca20dd3f77431d38'', True, ''xed_flag_set_s'')],
    row ''pos_5fdisp'' ''pos_disp'' [(''../structxed__operand__storage__s.html#a9974476cb28d4137fb6f0e8804847f21'', True, ''xed_operand_storage_s'')],
    row ''pos_5fimm'' ''pos_imm'' [(''../structxed__operand__storage__s.html#a07bee7ac5b67d0f2835387b8b86f2866'', True, ''xed_operand_storage_s'')],
    row ''pos_5fimm1'' ''pos_imm1'' [(''../structxed__operand__storage__s.html#a439c496a4efdf4ed13fe68966d313d18'', True, ''xed_operand_storage_s'')],
    row ''pos_5fmodrm'' ''pos_modrm'' [(''../structxed__operand__storage__s.html#a2fe53e70bbcd4bc7db35f068db072aeb'', True, ''xed_operand_storage_s'')],
    row ''pos_5fnominal_5fopcode'' ''pos_nominal_opcode'' [(''../structxed__operand__storage__s.html#a4836abdbb079a84bc521aff6527ab621'', True, ''xed_operand_storage_s'')],
    row ''pos_5fsib'' ''pos_sib'' [(''../structxed__operand__storage__s.html#a6099a8f5b10db2721aeda92bb64a643d'', True, ''xed_operand_storage_s'')],
    row ''prefix66'' ''prefix66'' [(''../structxed__operand__storage__s.html#af772e398dcf935d941241c2b2d110a14'', True, ''xed_operand_storage_s'')],
    row ''prefixes'' ''prefixes'' [(''../structxed__encoder__instruction__t.html#ae33c87ef34abd74d94abc032fd90f542'', True, ''xed_encoder_instruction_t'')],
    row ''present'' ''present'' [(''../structxed__immdis__s.html#a4c49954576278c551ba8b22539f0e971'', True, ''xed_immdis_s'')],
    row ''ptr'' ''ptr'' [(''../structxed__operand__storage__s.html#a675c0f69087e229a121b266e0ded893b'', True, ''xed_operand_storage_s'')]]"

lemma variables_d_ok: "list_all (row_ok 112) variables_d"
  by (simp only: variables_d_def row_checks)

text \<open>\<open>search/variables_e.js\<close>\<close>

definition variables_e :: "search_row list" where
  "variables_e = [
    row ''q'' ''q'' [(''../unionxed__immdis__values__t.html#a368fd87154c55abe8265024df846953b'', True, ''xed_immdis_values_t'')]]"

lemma variables_e_ok: "list_all (row_ok 113) variables_e"
  by (simp only: variables_e_def row_checks)

text \<open>\<open>search/variables_f.js\<close>\<close>

definition variables_f :: "search_row list" where
  "variables_f = [
    row ''read'' ''read'' [(''../structxed__simple__flag__s.html#a722858b8b07e26ef8229e6b8df791f2f'', True, ''xed_simple_flag_s'')],
    row ''realmode'' ''realmode'' [(''../structxed__operand__storage__s.html#afe29558821b787a225360319fe7fa1f9'', True, ''xed_operand_storage_s'')],
    row ''refining'' ''refining'' [(''../structxed__operand__storage__s.html#a63eb9c0f3142191d6b32772bf09dbbc0'', True, ''xed_operand_storage_s'')],
    row ''reg'' ''reg'' [(''../structxed__encoder__operand__t.html#affc78afe4f18c8d806e91949f223ec6d'', True, ''xed_encoder_operand_t::reg()''), (''../structxed__operand__storage__s.html#a1d28582d63a7ed4338a2659360837481'', True, ''xed_operand_storage_s::reg()'')],
    row ''reg0'' ''reg0'' [(''../structxed__operand__storage__s.html#aefd4a87649a20c827a60c09fe06c37c2'', True, ''xed_operand_storage_s'')],
    row ''reg1'' ''reg1'' [(''../structxed__operand__storage__s.html#a463b7102df380fdbf71e94456cb8881e'', True, ''xed_operand_storage_s'')],
    row ''reg2'' ''reg2'' [(''../structxed__operand__storage__s.html#a92a6727cf333338c33275bf90672dc84'', True, ''xed_operand_storage_s'')],
    row ''reg3'' ''reg3'' [(''../structxed__operand__storage__s.html#a59a5cc5ff3520de2d17c3528f2211cb8'', True, ''xed_operand_storage_s'')],
    row ''reg4'' ''reg4'' [(''../structxed__operand__storage__s.html#aded5beb7056277fa4bd8a8a3ddae8e04'', True, ''xed_operand_storage_s'')],
    row ''reg5'' ''reg5'' [(''../structxed__operand__storage__s.html#ae2ac88244378a5dc6a3f44dd537d9185'', True, ''xed_operand_storage_s'')],
    row ''reg6'' ''reg6'' [(''../structxed__operand__storage__s.html#a70aa8222e96a5c84d14cf7b725aa9762'', True, ''xed_operand_storage_s'')],
    row ''reg7'' ''reg7'' [(''../structxed__operand__storage__s.html#aa0d51147e81b40ccb3b379bfbf51db5f'', True, ''xed_operand_storage_s'')],
    row ''reg8'' ''reg8'' [(''../structxed__operand__storage__s.html#a1703bcddf42c08d9c5f7761f860988d9'', True, ''xed_operand_storage_s'')],
    row ''relbr'' ''relbr'' [(''../structxed__operand__storage__s.html#a44123f7407b064e6c9372efb2140b1f1'', True, ''xed_operand_storage_s'')],
    row ''rep'' ''rep'' [(''../unionxed__encoder__prefixes__t.html#aec0a195f8c65332931922e60304f72ad'', True, ''xed_encoder_prefixes_t::rep()''), (''../structxed__operand__storage__s.html#a78286715259195dc4fe2d2cdbe7cb269'', True, ''xed_operand_storage_s::rep()'')],
    row ''rep_5fable'' ''rep_able'' [(''../structxed__operand__storage__s.html#abfa59bf16ad022db7a3b723abe8022eb'', True, ''xed_operand_storage_s'')],
    row ''repne'' ''repne'' [(''../unionxed__encoder__prefixes__t.html#a7808aa5a29f1964b18def98281b448dd'', True, ''xed_encoder_prefixes_t'')],
    row ''rex'' ''rex'' [(''../structxed__operand__storage__s.html#ad019db09a9d2843b5f2f2e7ed4e079dc'', True, ''xed_operand_storage_s'')],
    row ''rexb'' ''rexb'' [(''../structxed__operand__storage__s.html#a2971060e90db085c130b46d62057177b'', True, ''xed_operand_storage_s'')],
    row ''rexr'' ''rexr'' [(''../structxed__operand__storage__s.html#a5c1b6a0ac2d97a8e77a2e977ebfcddd2'', True, ''xed_operand_storage_s'')],
    row ''rexrr'' ''rexrr'' [(''../structxed__operand__storage__s.html#acfa0e8b80de4a34fce85f65fe14ef088'', True, ''xed_operand_storage_s'')],
    row ''rexw'' ''rexw'' [(''../structxed__operand__storage__s.html#a91241c9bb5b525dca2c8c9d1df643091'', True, ''xed_operand_storage_s'')],
    row ''rexx'' ''rexx'' [(''../structxed__operand__storage__s.html#a6c418347a9988669ee378ed8f7054303'', True, ''xed_operand_storage_s'')],
    row ''rf'' ''rf'' [(''../unionxed__flag__set__s.html#ac6ab00c5d37abe6db8280ea2c6e2e6e2'', True, ''xed_flag_set_s'')],
    row ''rm'' ''rm'' [(''../structxed__operand__storage__s.html#ab7e27ae87067dc00b69453abbff59e44'', True, ''xed_operand_storage_s'')],
    row ''roundc'' ''roundc'' [(''../structxed__operand__storage__s.html#ac7924e52422996baa086a362e35a02f8'', True, ''xed_operand_storage_s'')],
    row ''runtime_5faddress'' ''runtime_address'' [(''../structxed__print__info__t.html#a8da4bce641493ceb76bacec824630184'', True, ''xed_print_info_t'')]]"

lemma variables_f_ok: "list_all (row_ok 114) variables_f"
  by (simp only: variables_f_def row_checks)

text \<open>\<open>search/variables_10.js\<close>\<close>

definition variables_10 :: "search_row list" where
  "variables_10 = [
    row ''s'' ''s'' [(''../structxed__encoder__operand__t.html#aea0fc9de9981537aa1eeac7fa56af305'', True, ''xed_encoder_operand_t::s()''), (''../unionxed__encoder__prefixes__t.html#a17e46718b7ea9fa441204e8f5c9c2cd0'', True, ''xed_encoder_prefixes_t::s()''), (''../unionxed__flag__set__s.html#a8a590ae27f639ed8d3d3e0cc8612debe'', True, ''xed_flag_set_s::s()''), (''../unionxed__union64__t.html#a0d81e3e7820e93fe8356a22c8e745046'', True, ''xed_union64_t::s()'')],
    row ''s_5fbyte'' ''s_byte'' [(''../unionxed__union16__t.html#aec079c6d7f871d47708564b23b1ff4b5'', True, ''xed_union16_t::s_byte()''), (''../unionxed__union32__t.html#ad4fb3e29bcca9bde5ca505655fc1db61'', True, ''xed_union32_t::s_byte()''), (''../unionxed__union64__t.html#a6af3f380a0ae50526ebda3bcb64acbea'', True, ''xed_union64_t::s_byte()'')],
    row ''s_5fdword'' ''s_dword'' [(''../unionxed__union64__t.html#ad4e529c3ecaffaf9b0a596267c42680d'', True, ''xed_union64_t'')],
    row ''s_5fword'' ''s_word'' [(''../unionxed__union32__t.html#a26127ad406709be2c4cd69cdc2065e52'', True, ''xed_union32_t::s_word()''), (''../unionxed__union64__t.html#a45aa10d78b97e7753e3a4cfecc38f8db'', True, ''xed_union64_t::s_word()'')],
    row ''sae'' ''sae'' [(''../structxed__operand__storage__s.html#ab38fdfbc02657b0f4f8c3d34f327e9ec'', True, ''xed_operand_storage_s'')],
    row ''scale'' ''scale'' [(''../structxed__memop__t.html#aa4578f59f16b24c91beb2752bfb50ad0'', True, ''xed_memop_t::scale()''), (''../structxed__operand__storage__s.html#a7ea43b55f869a6a22a3abd4a111d369b'', True, ''xed_operand_storage_s::scale()'')],
    row ''seg'' ''seg'' [(''../structxed__memop__t.html#ad6e5dcd3c1ceaf99a0f66215d653ec63'', True, ''xed_memop_t'')],
    row ''seg0'' ''seg0'' [(''../structxed__operand__storage__s.html#a677e512824d6b4f04abce4509831bc19'', True, ''xed_operand_storage_s'')],
    row ''seg1'' ''seg1'' [(''../structxed__operand__storage__s.html#ab552475d42ef41ee80d71cf4d6a4966b'', True, ''xed_operand_storage_s'')],
    row ''seg_5fovd'' ''seg_ovd'' [(''../structxed__operand__storage__s.html#a6036b16b9a0afa9120d9346309af22fc'', True, ''xed_operand_storage_s'')],
    row ''sf'' ''sf'' [(''../unionxed__flag__set__s.html#ac10d3332027d6bd9685c1165f994ca76'', True, ''xed_flag_set_s'')],
    row ''sib'' ''sib'' [(''../structxed__operand__storage__s.html#a09dbe857f4548b7212050c8b78e5be74'', True, ''xed_operand_storage_s'')],
    row ''sibbase'' ''sibbase'' [(''../structxed__operand__storage__s.html#a25589fcfde391eb8b5195fd81774f6cc'', True, ''xed_operand_storage_s'')],
    row ''sibindex'' ''sibindex'' [(''../structxed__operand__storage__s.html#af6d7c92360c3352fa1ec027859c8ff55'', True, ''xed_operand_storage_s'')],
    row ''sibscale'' ''sibscale'' [(''../structxed__operand__storage__s.html#aa6fd7d3930e50bb158aaf51a0931ad4b'', True, ''xed_operand_storage_s'')],
    row ''skip_5foperand'' ''skip_operand'' [(''../structxed__print__info__t.html#a909b439e9e2cdfaf67bb5e53b69c69ad'', True, ''xed_print_info_t'')],
    row ''skip_5fosz'' ''skip_osz'' [(''../structxed__operand__storage__s.html#a07c39bea562237bd4e9d86626581fb92'', True, ''xed_operand_storage_s'')],
    row ''smode'' ''smode'' [(''../structxed__operand__storage__s.html#a89f36a662d4d34db109be0988540e8b2'', True, ''xed_operand_storage_s'')],
    row ''sreg'' ''sreg'' [(''../structxed__operand__storage__s.html#afd1bd0cb9abf322ec826c2d220a454cc'', True, ''xed_operand_storage_s'')],
    row ''srm'' ''srm'' [(''../structxed__operand__storage__s.html#a069477621f91b6f03d866af397df3b0b'', True, ''xed_operand_storage_s'')],
    row ''stack_5faddr_5fwidth'' ''stack_addr_width'' [(''../structxed__state__s.html#a202e530cc6f872ce7744b4bdddcb49ba'', True, ''xed_state_s'')],
    row ''string_5ftable_5fidx'' ''string_table_idx'' [(''../structxed__iform__info__s.html#a34770b1c687b081d466e3a05b2a9a8a6'', True, ''xed_iform_info_s'')],
    row ''syntax'' ''syntax'' [(''../structxed__print__info__t.html#aade5b0550443918f13c25f1589adbb70'', True, ''xed_print_info_t'')]]"

lemma variables_10_ok: "list_all (row_ok 115) variables_10"
  by (simp only: variables_10_def row_checks)

text \<open>\<open>search/variables_11.js\<close>\<close>

definition variables_11 :: "search_row list" where
  "variables_11 = [
    row ''table_5fname'' ''table_name'' [(''../structxed__convert__table__t.html#a793e42830b662982224085e82e4a4238'', True, ''xed_convert_table_t'')],
    row ''tf'' ''tf'' [(''../unionxed__flag__set__s.html#a3674598aac3f0fe791f47ac79f0c37eb'', True, ''xed_flag_set_s'')],
    row ''type'' ''type'' [(''../structxed__encoder__operand__t.html#af8d096f5b2bf8e6c6752035db7501430'', True, ''xed_encoder_operand_t::type()''), (''../structxed__operand__storage__s.html#a4318d50f36d74b9ae3185bcdb0603368'', True, ''xed_operand_storage_s::type()'')]]"

lemma variables_11_ok: "list_all (row_ok 116) variables_11"
  by (simp only: variables_11_def row_checks)

text \<open>\<open>search/variables_12.js\<close>\<close>

definition variables_12 :: "search_row list" where
  "variables_12 = [
    row ''u'' ''u'' [(''../structxed__decoded__inst__s.html#a0db7e2fe9fff38507c45bc83a19eece0'', True, ''xed_decoded_inst_s::u()''), (''../structxed__encoder__operand__t.html#a02a44953301d1bc2567512f754861f8a'', True, ''xed_encoder_operand_t::u()'')],
    row ''u16'' ''u16'' [(''../unionxed__union16__t.html#ad4d80d062baebbab7db8d9fdd4d761d8'', True, ''xed_union16_t'')],
    row ''u32'' ''u32'' [(''../unionxed__union32__t.html#a87b0780ee50a66aff08beb44d4884d37'', True, ''xed_union32_t'')],
    row ''u64'' ''u64'' [(''../unionxed__union64__t.html#a760537d841266354fcd9cc97b41cbeb1'', True, ''xed_union64_t'')],
    row ''ubit'' ''ubit'' [(''../structxed__operand__storage__s.html#a17efd81e6c815c79e2cdf4b40adc3adc'', True, ''xed_operand_storage_s'')],
    row ''uimm0'' ''uimm0'' [(''../structxed__operand__storage__s.html#a27342d6ed806e9075a1d274bd80d32b4'', True, ''xed_operand_storage_s'')],
    row ''uimm1'' ''uimm1'' [(''../structxed__operand__storage__s.html#a39ec9ef64786ce9ed76bfe0a0a1642fe'', True, ''xed_operand_storage_s'')],
    row ''undefined'' ''undefined'' [(''../structxed__simple__flag__s.html#aebe46fb7d51bdbdec6037b48417bb8f0'', True, ''xed_simple_flag_s'')],
    row ''user_5fdata'' ''user_data'' [(''../structxed__decoded__inst__s.html#a76dd7c3749de4ea740c3ae490bc53cce'', True, ''xed_decoded_inst_s'')],
    row ''using_5fdefault_5fsegment0'' ''using_default_segment0'' [(''../structxed__operand__storage__s.html#a720d3b2187836507b81547408f35433e'', True, ''xed_operand_storage_s'')],
    row ''using_5fdefault_5fsegment1'' ''using_default_segment1'' [(''../structxed__operand__storage__s.html#a4d1bdcd690d2cd6bd5d4a1a29085f76e'', True, ''xed_operand_storage_s'')]]"

lemma variables_12_ok: "list_all (row_ok 117) variables_12"
  by (simp only: variables_12_def row_checks)

text \<open>\<open>search/variables_13.js\<close>\<close>

definition variables_13 :: "search_row list" where
  "variables_13 = [
    row ''value'' ''value'' [(''../structxed__encoder__operand__t.html#a0593727d33d6d01b5f6539d69b6b94f2'', True, ''xed_encoder_operand_t::value()''), (''../structxed__immdis__s.html#ac2171072c92ed1511fb37e3f7fbfad16'', True, ''xed_immdis_s::value()'')],
    row ''vex_5fc4'' ''vex_c4'' [(''../structxed__operand__storage__s.html#aab83b9b17c9e7db17aadb02f819b331e'', True, ''xed_operand_storage_s'')],
    row ''vex_5fprefix'' ''vex_prefix'' [(''../structxed__operand__storage__s.html#a2dfb8112d085b135132f08c91a4ae1c1'', True, ''xed_operand_storage_s'')],
    row ''vexdest210'' ''vexdest210'' [(''../structxed__operand__storage__s.html#a4f151b021dc9532a98b3d9a7391693ce'', True, ''xed_operand_storage_s'')],
    row ''vexdest3'' ''vexdest3'' [(''../structxed__operand__storage__s.html#a3d0b9044183a89e49188694613c597c8'', True, ''xed_operand_storage_s'')],
    row ''vexdest4'' ''vexdest4'' [(''../structxed__operand__storage__s.html#a6a5028d180274c4aa23fc9306715a348'', True, ''xed_operand_storage_s'')],
    row ''vexvalid'' ''vexvalid'' [(''../structxed__operand__storage__s.html#a0dbff530f195371c35c71da2c5feb2d1'', True, ''xed_operand_storage_s'')],
    row ''vif'' ''vif'' [(''../unionxed__flag__set__s.html#a607ecb9cdd15dfb2a132a4fc593fe0b6'', True, ''xed_flag_set_s'')],
    row ''vip'' ''vip'' [(''../unionxed__flag__set__s.html#a94862c6f42f4070dcbf5e90863b11fec'', True, ''xed_flag_set_s'')],
    row ''vl'' ''vl'' [(''../structxed__operand__storage__s.html#a27ce99975034d1b474a089b7e008be62'', True, ''xed_operand_storage_s'')],
    row ''vm'' ''vm'' [(''../unionxed__flag__set__s.html#a4e085097fe04e9a4ef0b8f48880c94dd'', True, ''xed_flag_set_s'')]]"

lemma variables_13_ok: "list_all (row_ok 118) variables_13"
  by (simp only: variables_13_def row_checks)

text \<open>\<open>search/variables_14.js\<close>\<close>

definition variables_14 :: "search_row list" where
  "variables_14 = [
    row ''w'' ''w'' [(''../unionxed__union32__t.html#a41b45d67e413da52883fc0d6eab393ed'', True, ''xed_union32_t::w()''), (''../unionxed__union64__t.html#a801d12d547dd53a71b9ffe3b42ccdd5e'', True, ''xed_union64_t::w()'')],
    row ''w0'' ''w0'' [(''../unionxed__union32__t.html#aef7e233f5b49a9e91891acf28e7c45bc'', True, ''xed_union32_t::w0()''), (''../unionxed__union64__t.html#aef7e233f5b49a9e91891acf28e7c45bc'', True, ''xed_union64_t::w0()'')],
    row ''w1'' ''w1'' [(''../unionxed__union32__t.html#ac85d184c00bc048d4b951261acf96213'', True, ''xed_union32_t::w1()''), (''../unionxed__union64__t.html#ac85d184c00bc048d4b951261acf96213'', True, ''xed_union64_t::w1()'')],
    row ''w2'' ''w2'' [(''../unionxed__union64__t.html#ad2ea7ba6301ebd2585e964f5fc9f497c'', True, ''xed_union64_t'')],
    row ''w3'' ''w3'' [(''../unionxed__union64__t.html#adef5946c81032b371d5b0c5afa999e4f'', True, ''xed_union64_t'')],
    row ''width'' ''width'' [(''../structxed__encoder__operand__t.html#afc62b1b2b0225f006a24483b846f266c'', True, ''xed_encoder_operand_t'')],
    row ''word'' ''word'' [(''../unionxed__union32__t.html#a45c9140c07110940d145fe8895d7b967'', True, ''xed_union32_t::word()''), (''../unionxed__union64__t.html#a652f0fbf9432ba5125eebf86f0c3ce01'', True, ''xed_union64_t::word()'')],
    row ''write_5fmask_5fcurly_5fk0'' ''write_mask_curly_k0'' [(''../structxed__format__options__t.html#aa3d5959c28ee81aa7e72e6042ffafc1e'', True, ''xed_format_options_t'')],
    row ''written'' ''written'' [(''../structxed__simple__flag__s.html#adfa93f6dc27a5ed9554b4da06fe316eb'', True, ''xed_simple_flag_s'')]]"

lemma variables_14_ok: "list_all (row_ok 119) variables_14"
  by (simp only: variables_14_def row_checks)

text \<open>\<open>search/variables_15.js\<close>\<close>

definition variables_15 :: "search_row list" where
  "variables_15 = [
    row ''x'' ''x'' [(''../unionxed__immdis__values__t.html#a1dd1c9243a65efbbbc33cd0a4b0732c1'', True, ''xed_immdis_values_t'')],
    row ''x_5favx512_5fevex_5fbyte3_5fenc'' ''x_AVX512_EVEX_BYTE3_ENC'' [(''../structxed__encoder__iforms__s.html#a3820e96212ec0b483907199b63eb086a'', True, ''xed_encoder_iforms_s'')],
    row ''x_5fbrdisp32'' ''x_BRDISP32'' [(''../structxed__encoder__iforms__s.html#afff400756c25201d13b5495c03257ca3'', True, ''xed_encoder_iforms_s'')],
    row ''x_5fbrdisp8'' ''x_BRDISP8'' [(''../structxed__encoder__iforms__s.html#aa8aa7299d15fc317aaed24685ab17db5'', True, ''xed_encoder_iforms_s'')],
    row ''x_5fbrdispz'' ''x_BRDISPz'' [(''../structxed__encoder__iforms__s.html#a2b7e8b95a46a0e523224b202f71e8831'', True, ''xed_encoder_iforms_s'')],
    row ''x_5fdisp_5fnt'' ''x_DISP_NT'' [(''../structxed__encoder__iforms__s.html#a152a2063eb97c37cecd9937bd7bd6c28'', True, ''xed_encoder_iforms_s'')],
    row ''x_5fevex_5f62_5frexr_5fenc'' ''x_EVEX_62_REXR_ENC'' [(''../structxed__encoder__iforms__s.html#a14e96596e3e59ea2b4136b48a6b93641'', True, ''xed_encoder_iforms_s'')],
    row ''x_5fevex_5fmap_5fenc'' ''x_EVEX_MAP_ENC'' [(''../structxed__encoder__iforms__s.html#ab8d89b51f6bb76d4c998d9af8ea9da05'', True, ''xed_encoder_iforms_s'')],
    row ''x_5fevex_5frexb_5fenc'' ''x_EVEX_REXB_ENC'' [(''../structxed__encoder__iforms__s.html#a342e618076287b55fb8e5f2f29f1e8af'', True, ''xed_encoder_iforms_s'')],
    row ''x_5fevex_5frexrr_5fenc'' ''x_EVEX_REXRR_ENC'' [(''../structxed__encoder__iforms__s.html#acf8c6c7bf9201838ae4bc3ce1cff9ac1'', True, ''xed_encoder_iforms_s'')],
    row ''x_5fevex_5frexw_5fvvvv_5fenc'' ''x_EVEX_REXW_VVVV_ENC'' [(''../structxed__encoder__iforms__s.html#aa45b74d4e4a2de5a62431febfa726815'', True, ''xed_encoder_iforms_s'')],
    row ''x_5fevex_5frexx_5fenc'' ''x_EVEX_REXX_ENC'' [(''../structxed__encoder__iforms__s.html#aa5df24f9eade9dc7eee61d89402b72d8'', True, ''xed_encoder_iforms_s'')],
    row ''x_5fevex_5fupp_5fenc'' ''x_EVEX_UPP_ENC'' [(''../structxed__encoder__iforms__s.html#a78ef74182c4c307f443faf95a5b1f438'', True, ''xed_encoder_iforms_s'')],
    row ''x_5fmemdisp'' ''x_MEMDISP'' [(''../structxed__encoder__iforms__s.html#aecf552a6d0053c428a5a45ab9a3bb40e'', True, ''xed_encoder_iforms_s'')],
    row ''x_5fmemdisp16'' ''x_MEMDISP16'' [(''../structxed__encoder__iforms__s.html#af4ba52e40d39f6941c20c307bc78a752'', True, ''xed_encoder_iforms_s'')],
    row ''x_5fmemdisp32'' ''x_MEMDISP32'' [(''../structxed__encoder__iforms__s.html#aa29614089511a1d167826e4863822506'', True, ''xed_encoder_iforms_s'')],
    row ''x_5fmemdisp8'' ''x_MEMDISP8'' [(''../structxed__encoder__iforms__s.html#aa0c8b2549f6582253528f54e35be86fe'', True, ''xed_encoder_iforms_s'')],
    row ''x_5fmemdispv'' ''x_MEMDISPv'' [(''../structxed__encoder__iforms__s.html#ad6dae0c9381705ec18fd901edae84396'', True, ''xed_encoder_iforms_s'')],
    row ''x_5fmodrm_5fmod_5fencode'' ''x_MODRM_MOD_ENCODE'' [(''../structxed__encoder__iforms__s.html#a6922f370d3cd4c40a27a0aa7bbbede26'', True, ''xed_encoder_iforms_s'')],
    row ''x_5fmodrm_5frm_5fencode'' ''x_MODRM_RM_ENCODE'' [(''../structxed__encoder__iforms__s.html#adbb4c4a997a3b30ac03967078b99310a'', True, ''xed_encoder_iforms_s'')],
    row ''x_5fmodrm_5frm_5fencode_5fea16_5fsib0'' ''x_MODRM_RM_ENCODE_EA16_SIB0'' [(''../structxed__encoder__iforms__s.html#ab9ea4adab24b31ebeb1236082f4c45ad'', True, ''xed_encoder_iforms_s'')],
    row ''x_5fmodrm_5frm_5fencode_5fea32_5fsib0'' ''x_MODRM_RM_ENCODE_EA32_SIB0'' [(''../structxed__encoder__iforms__s.html#a41b892eee1a69e58eee5ef62e21a0610'', True, ''xed_encoder_iforms_s'')],
    row ''x_5fmodrm_5frm_5fencode_5fea64_5fsib0'' ''x_MODRM_RM_ENCODE_EA64_SIB0'' [(''../structxed__encoder__iforms__s.html#ac63f974638dfea517b739c95d4b2a2a8'', True, ''xed_encoder_iforms_s'')],
    row ''x_5fprefix_5fenc'' ''x_PREFIX_ENC'' [(''../structxed__encoder__iforms__s.html#a9ea7eccf4fab4b339f46dc5292b26b62'', True, ''xed_encoder_iforms_s'')],
    row ''x_5fremove_5fsegment'' ''x_REMOVE_SEGMENT'' [(''../structxed__encoder__iforms__s.html#ae7c343e115afb5891444a6d465c30cd9'', True, ''xed_encoder_iforms_s'')],
    row ''x_5frex_5fprefix_5fenc'' ''x_REX_PREFIX_ENC'' [(''../structxed__encoder__iforms__s.html#a70bfd7e87f9c4eacb457aab9191d69b2'', True, ''xed_encoder_iforms_s'')],
    row ''x_5fse_5fimm8'' ''x_SE_IMM8'' [(''../structxed__encoder__iforms__s.html#a1f46a70b1b1fc1b78bf3bf7fcb78763a'', True, ''xed_encoder_iforms_s'')],
    row ''x_5fsib_5fnt'' ''x_SIB_NT'' [(''../structxed__encoder__iforms__s.html#a651dd98e71e5bd13635af003e3576924'', True, ''xed_encoder_iforms_s'')],
    row ''x_5fsibbase_5fencode'' ''x_SIBBASE_ENCODE'' [(''../structxed__encoder__iforms__s.html#a7cf6146b5d3e94fecff409226ca5401c'', True, ''xed_encoder_iforms_s'')],
    row ''x_5fsibbase_5fencode_5fsib1'' ''x_SIBBASE_ENCODE_SIB1'' [(''../structxed__encoder__iforms__s.html#a40059c6b45c7376acf57ae39ec12fd7b'', True, ''xed_encoder_iforms_s'')],
    row ''x_5fsibindex_5fencode'' ''x_SIBINDEX_ENCODE'' [(''../structxed__encoder__iforms__s.html#a6aaeec0bd98806332e6ef56521ce40d2'', True, ''xed_encoder_iforms_s'')],
    row ''x_5fsimm8'' ''x_SIMM8'' [(''../structxed__encoder__iforms__s.html#afb61ecb93c8e429eaec8514cd2a1e9a3'', True, ''xed_encoder_iforms_s'')],
    row ''x_5fsimmz'' ''x_SIMMz'' [(''../structxed__encoder__iforms__s.html#ac940fb64740cab964309b07c5e7b9ff3'', True, ''xed_encoder_iforms_s'')],
    row ''x_5fuimm16'' ''x_UIMM16'' [(''../structxed__encoder__iforms__s.html#a3feedd483567ef9667d3bdad0661cffe'', True, ''xed_encoder_iforms_s'')],
    row ''x_5fuimm32'' ''x_UIMM32'' [(''../structxed__encoder__iforms__s.html#a7a0b47b6a2e04437a1c2587b66bee7e0'', True, ''xed_encoder_iforms_s'')],
    row ''x_5fuimm8'' ''x_UIMM8'' [(''../structxed__encoder__iforms__s.html#a5533f378f8139fc2f320e7ccbd010d1d'', True, ''xed_encoder_iforms_s'')],
    row ''x_5fuimm8_5f1'' ''x_UIMM8_1'' [(''../structxed__encoder__iforms__s.html#a910f7d149786b92a451ec3a84bd484dc'', True, ''xed_encoder_iforms_s'')],
    row ''x_5fuimmv'' ''x_UIMMv'' [(''../structxed__encoder__iforms__s.html#a7c7d636e1a287e882b94082ca1f158be'', True, ''xed_encoder_iforms_s'')],
    row ''x_5fuisa_5fse_5fimm8'' ''x_UISA_SE_IMM8'' [(''../structxed__encoder__iforms__s.html#a333a8d9c00dced8f8e0f8168b33a0fa7'', True, ''xed_encoder_iforms_s'')],
    row ''x_5fvex_5fescvl_5fenc'' ''x_VEX_ESCVL_ENC'' [(''../structxed__encoder__iforms__s.html#a0e3bafbdfad96e067ec02665273eb8ab'', True, ''xed_encoder_iforms_s'')],
    row ''x_5fvex_5fmap_5fenc'' ''x_VEX_MAP_ENC'' [(''../structxed__encoder__iforms__s.html#a15f4b472f94f8a2738bc6e5d340fcc2e'', True, ''xed_encoder_iforms_s'')],
    row ''x_5fvex_5freg_5fenc'' ''x_VEX_REG_ENC'' [(''../structxed__encoder__iforms__s.html#a8f1a2b2c552141dd1a9b284f7d7b4021'', True, ''xed_encoder_iforms_s'')],
    row ''x_5fvex_5frexr_5fenc'' ''x_VEX_REXR_ENC'' [(''../structxed__encoder__iforms__s.html#a7aea255eacbdcfe740a5d0c8c52412c6'', True, ''xed_encoder_iforms_s'')],
    row ''x_5fvex_5frexxb_5fenc'' ''x_VEX_REXXB_ENC'' [(''../structxed__encoder__iforms__s.html#a0ae8567614749060dc983ae2d23736fd'', True, ''xed_encoder_iforms_s'')],
    row ''x_5fvex_5ftype_5fenc'' ''x_VEX_TYPE_ENC'' [(''../structxed__encoder__iforms__s.html#a38b72d5b7c1c2e5f8b5a25cc65ce9266'', True, ''xed_encoder_iforms_s'')],
    row ''x_5fvexed_5frex'' ''x_VEXED_REX'' [(''../structxed__encoder__iforms__s.html#a83f90e925872b1359b897ccf13bb986d'', True, ''xed_encoder_iforms_s'')],
    row ''x_5fvsib_5fenc'' ''x_VSIB_ENC'' [(''../structxed__encoder__iforms__s.html#a833d01bc325826ece7bc4bcfd911f97a'', True, ''xed_encoder_iforms_s'')],
    row ''x_5fvsib_5fenc_5fbase'' ''x_VSIB_ENC_BASE'' [(''../structxed__encoder__iforms__s.html#a8061ba452f864e8974d5777a9d81ecdb'', True, ''xed_encoder_iforms_s'')],
    row ''x_5fxop_5fmap_5fenc'' ''x_XOP_MAP_ENC'' [(''../structxed__encoder__iforms__s.html#aee10718c13beef409d09c91fc7d17656'', True, ''xed_encoder_iforms_s'')],
    row ''x_5fxop_5frexxb_5fenc'' ''x_XOP_REXXB_ENC'' [(''../structxed__encoder__iforms__s.html#a5a6cd2d90d6b02a4cbc2d3475a9e6223'', True, ''xed_encoder_iforms_s'')],
    row ''x_5fxop_5ftype_5fenc'' ''x_XOP_TYPE_ENC'' [(''../structxed__encoder__iforms__s.html#a790359e12a4d11cb16e459975d46d1c3'', True, ''xed_encoder_iforms_s'')],
    row ''xed_5fconvert_5ftable'' ''xed_convert_table'' [(''../xed-convert-table-init_8h.html#ab9e34a9584ff954370021cade9f65b46'', True, ''xed-convert-table-init.h'')],
    row ''xed_5fverbose'' ''xed_verbose'' [(''../xed-util_8h.html#a0113585b6ec05b9e2fb348c063808dde'', True, ''xed-util.h'')],
    row ''xml_5fa'' ''xml_a'' [(''../structxed__format__options__t.html#a2f5e99db0d3f8d9aaec57cf03c404dc3'', True, ''xed_format_options_t'')],
    row ''xml_5ff'' ''xml_f'' [(''../structxed__format__options__t.html#a96bc47f93e4cded00e6b1d5406ca08a0'', True, ''xed_format_options_t'')]]"

lemma variables_15_ok: "list_all (row_ok 120) variables_15"
  by (simp only: variables_15_def row_checks)

text \<open>\<open>search/variables_16.js\<close>\<close>

definition variables_16 :: "search_row list" where
  "variables_16 = [
    row ''zeroing'' ''zeroing'' [(''../structxed__operand__storage__s.html#a5c250aa1fde976f1a64b169930d888a3'', True, ''xed_operand_storage_s'')],
    row ''zf'' ''zf'' [(''../unionxed__flag__set__s.html#a96fcc2f1ad7f3b08c058b13b7c433fdb'', True, ''xed_flag_set_s'')]]"

lemma variables_16_ok: "list_all (row_ok 122) variables_16"
  by (simp only: variables_16_def row_checks)

text \<open>\<open>search/typedefs_0.js\<close>\<close>

definition typedefs_0 :: "search_row list" where
  "typedefs_0 = [
    row ''xed_5fbits_5ft'' ''xed_bits_t'' [(''../xed-types_8h.html#ad8e5425203890e5c0028827b19649375'', True, ''xed-types.h'')],
    row ''xed_5fbool_5ft'' ''xed_bool_t'' [(''../xed-types_8h.html#ad355c921b747945a82d62233a599c7b5'', True, ''xed-types.h'')],
    row ''xed_5fdecoded_5finst_5ft'' ''xed_decoded_inst_t'' [(''../group__DEC.html#gac566768d37da62eafbbda459f6fec3ac'', True, ''xed-decoded-inst.h'')],
    row ''xed_5fdisassembly_5fcallback_5ffn_5ft'' ''xed_disassembly_callback_fn_t'' [(''../group__PRINT.html#ga79b7bb018669c5099de0881289eb0abf'', True, ''xed-disas.h'')],
    row ''xed_5fencoder_5fiforms_5ft'' ''xed_encoder_iforms_t'' [(''../xed-encoder-iforms_8h.html#a9574db6513403da4dc1f2e7788b95116'', True, ''xed-encoder-iforms.h'')],
    row ''xed_5fencoder_5frequest_5fs'' ''xed_encoder_request_s'' [(''../group__ENC.html#ga56df34e455c5fa7524ff651017ef87fe'', True, ''xed-encode.h'')],
    row ''xed_5fencoder_5frequest_5ft'' ''xed_encoder_request_t'' [(''../group__ENC.html#ga6f914541ddfa1ffe609acebff72d0b5f'', True, ''xed-encode.h'')],
    row ''xed_5fflag_5faction_5ft'' ''xed_flag_action_t'' [(''../group__FLAGS.html#ga67dbae01ff01d7385fc0b932bea016a1'', True, ''xed-flags.h'')],
    row ''xed_5fflag_5fset_5ft'' ''xed_flag_set_t'' [(''../xed-flags_8h.html#af3e34e5a4ce4fd34c47599c63314ce66'', True, ''xed-flags.h'')],
    row ''xed_5fiform_5finfo_5ft'' ''xed_iform_info_t'' [(''../group__IFORM.html#ga0822d2c323a2dc6f3c8d7568b32c3d37'', True, ''xed-iform-map.h'')],
    row ''xed_5fimmdis_5ft'' ''xed_immdis_t'' [(''../xed-immdis_8h.html#a781179e646ad2e23fa6f9551ecb5d282'', True, ''xed-immdis.h'')],
    row ''xed_5finst_5ft'' ''xed_inst_t'' [(''../group__DEC.html#ga4410c86154ad601e0440a075864f9c4b'', True, ''xed-inst.h'')],
    row ''xed_5fint_5ft'' ''xed_int_t'' [(''../xed-types_8h.html#a349b1a771c4078c6828d9000243752a1'', True, ''xed-types.h'')],
    row ''xed_5foperand_5fextractor_5ffn_5ft'' ''xed_operand_extractor_fn_t'' [(''../xed-inst_8h.html#ab42ac4782b59a5c7ec3718d56e7530c0'', True, ''xed-inst.h'')],
    row ''xed_5foperand_5fstorage_5ft'' ''xed_operand_storage_t'' [(''../xed-operand-storage_8h.html#a825b6f392b298a9898e5d82a3b161d6b'', True, ''xed-operand-storage.h'')],
    row ''xed_5foperand_5ft'' ''xed_operand_t'' [(''../group__DEC.html#ga507554fe5435fe99bf6a85df3d40645a'', True, ''xed-inst.h'')],
    row ''xed_5foperand_5fvalues_5ft'' ''xed_operand_values_t'' [(''../xed-decoded-inst_8h.html#acc5f47a6c962e198ec5df935002f34e6'', True, ''xed-decoded-inst.h'')],
    row ''xed_5fregister_5fcallback_5ffn_5ft'' ''xed_register_callback_fn_t'' [(''../group__AGEN.html#gaa82047e0144a3bdc8b7bbc589ea1b525'', True, ''xed-agen.h'')],
    row ''xed_5fsegment_5fbase_5fcallback_5ffn_5ft'' ''xed_segment_base_callback_fn_t'' [(''../group__AGEN.html#gaafd062b3704e1d83484ea54e6e4ffb0f'', True, ''xed-agen.h'')],
    row ''xed_5fsimple_5fflag_5ft'' ''xed_simple_flag_t'' [(''../group__FLAGS.html#ga002ba726d6a37baddb92f95535f87329'', True, ''xed-flags.h'')],
    row ''xed_5fstate_5ft'' ''xed_state_t'' [(''../group__INIT.html#gada6bf6c5b88022528bea9b648e356504'', True, ''xed-state.h'')],
    row ''xed_5fuint_5ft'' ''xed_uint_t'' [(''../xed-types_8h.html#a0c92e8263b7ca02d8e4826ae5b79bb30'', True, ''xed-types.h'')],
    row ''xed_5fuser_5fabort_5ffunction_5ft'' ''xed_user_abort_function_t'' [(''../xed-util_8h.html#aed11d7a3601c1c6e076d5285145c4aba'', True, ''xed-util.h'')]]"

lemma typedefs_0_ok: "list_all (row_ok 120) typedefs_0"
  by (simp only: typedefs_0_def row_checks)

text \<open>\<open>search/enums_0.js\<close>\<close>

definition enums_0 :: "search_row list" where
  "enums_0 = [
    row ''xed_5faddress_5fwidth_5fenum_5ft'' ''xed_address_width_enum_t'' [(''../xed-address-width-enum_8h.html#a2fe76cf1d3e62a77190798dc87c0a865'', True, ''xed-address-width-enum.h'')],
    row ''xed_5fattribute_5fenum_5ft'' ''xed_attribute_enum_t'' [(''../xed-attribute-enum_8h.html#a848d4cf396be5a647413e94bc6f0a383'', True, ''xed-attribute-enum.h'')],
    row ''xed_5fcategory_5fenum_5ft'' ''xed_category_enum_t'' [(''../xed-category-enum_8h.html#a3e6e23a35a7ad463e2422d7db98e49f5'', True, ''xed-category-enum.h'')],
    row ''xed_5fchip_5fenum_5ft'' ''xed_chip_enum_t'' [(''../xed-chip-enum_8h.html#ae77c7c405380680ef2414d50d67f1301'', True, ''xed-chip-enum.h'')],
    row ''xed_5fencoder_5foperand_5ftype_5ft'' ''xed_encoder_operand_type_t'' [(''../xed-encoder-hl_8h.html#a7621255aeac26b5e78f7a0dc72d12638'', True, ''xed-encoder-hl.h'')],
    row ''xed_5ferror_5fenum_5ft'' ''xed_error_enum_t'' [(''../xed-error-enum_8h.html#a2611877aa5e8b566c1c2be45aa89c792'', True, ''xed-error-enum.h'')],
    row ''xed_5fexception_5fenum_5ft'' ''xed_exception_enum_t'' [(''../xed-exception-enum_8h.html#a49126b5e9b22f54161f21c31248faf4d'', True, ''xed-exception-enum.h'')],
    row ''xed_5fextension_5fenum_5ft'' ''xed_extension_enum_t'' [(''../xed-extension-enum_8h.html#ae7b9f64cdf123c5fda22bd10d5db9916'', True, ''xed-extension-enum.h'')],
    row ''xed_5fflag_5faction_5fenum_5ft'' ''xed_flag_action_enum_t'' [(''../xed-flag-action-enum_8h.html#a773a73e698efc788d2e9e7cf908ba147'', True, ''xed-flag-action-enum.h'')],
    row ''xed_5fflag_5fenum_5ft'' ''xed_flag_enum_t'' [(''../xed-flag-enum_8h.html#adeb40402942b755ccf3761c7e1804286'', True, ''xed-flag-enum.h'')],
    row ''xed_5ficlass_5fenum_5ft'' ''xed_iclass_enum_t'' [(''../xed-iclass-enum_8h.html#ad318511ae9cc50f102251b3c91a1ab9f'', True, ''xed-iclass-enum.h'')],
    row ''xed_5fiform_5fenum_5ft'' ''xed_iform_enum_t'' [(''../xed-iform-enum_8h.html#af48986d6e090a75f7ab50e6d4a182e21'', True, ''xed-iform-enum.h'')],
    row ''xed_5fiformfl_5fenum_5ft'' ''xed_iformfl_enum_t'' [(''../xed-iformfl-enum_8h.html#a261aba9f055ef9754e8152bf28debe36'', True, ''xed-iformfl-enum.h'')],
    row ''xed_5fisa_5fset_5fenum_5ft'' ''xed_isa_set_enum_t'' [(''../xed-isa-set-enum_8h.html#a4a1095357d6e9552d94418d2bd9f5681'', True, ''xed-isa-set-enum.h'')],
    row ''xed_5fmachine_5fmode_5fenum_5ft'' ''xed_machine_mode_enum_t'' [(''../xed-machine-mode-enum_8h.html#a754db9d73c5365644094cd161fe570a7'', True, ''xed-machine-mode-enum.h'')],
    row ''xed_5fnonterminal_5fenum_5ft'' ''xed_nonterminal_enum_t'' [(''../xed-nonterminal-enum_8h.html#ae0eb8f71a8f89cddf0df4b1a6a2b27af'', True, ''xed-nonterminal-enum.h'')],
    row ''xed_5foperand_5faction_5fenum_5ft'' ''xed_operand_action_enum_t'' [(''../xed-operand-action-enum_8h.html#a6bf8113365b84b9d6ab549fdfef2643f'', True, ''xed-operand-action-enum.h'')],
    row ''xed_5foperand_5fconvert_5fenum_5ft'' ''xed_operand_convert_enum_t'' [(''../xed-operand-convert-enum_8h.html#a08b83dd2a6ef2188efb833bd5b0d7d9f'', True, ''xed-operand-convert-enum.h'')],
    row ''xed_5foperand_5fctype_5fenum_5ft'' ''xed_operand_ctype_enum_t'' [(''../xed-operand-ctype-enum_8h.html#a0b2cec39e2812706b0bf62b761543318'', True, ''xed-operand-ctype-enum.h'')],
    row ''xed_5foperand_5felement_5ftype_5fenum_5ft'' ''xed_operand_element_type_enum_t'' [(''../xed-operand-element-type-enum_8h.html#a6942f19fe2b1943a9a98d6598ff2c9d5'', True, ''xed-operand-element-type-enum.h'')],
    row ''xed_5foperand_5felement_5fxtype_5fenum_5ft'' ''xed_operand_element_xtype_enum_t'' [(''../xed-operand-element-xtype-enum_8h.html#a2df598e1a20ef98a15d7b1f8f844c413'', True, ''xed-operand-element-xtype-enum.h'')],
    row ''xed_5foperand_5fenum_5ft'' ''xed_operand_enum_t'' [(''../xed-operand-enum_8h.html#a09c2a35d8bb7bfe68bb3d34b0a5e011a'', True, ''xed-operand-enum.h'')],
    row ''xed_5foperand_5ftype_5fenum_5ft'' ''xed_operand_type_enum_t'' [(''../xed-operand-type-enum_8h.html#a7f9198331fe1015a2df65f7b42aa43a8'', True, ''xed-operand-type-enum.h'')],
    row ''xed_5foperand_5fvisibility_5fenum_5ft'' ''xed_operand_visibility_enum_t'' [(''../xed-operand-visibility-enum_8h.html#ae678c6279a7ba50bf58f2e357242b58d'', True, ''xed-operand-visibility-enum.h'')],
    row ''xed_5foperand_5fwidth_5fenum_5ft'' ''xed_operand_width_enum_t'' [(''../xed-operand-width-enum_8h.html#a4bc2ed96b8433c06c363d614a2fa1676'', True, ''xed-operand-width-enum.h'')],
    row ''xed_5freg_5fclass_5fenum_5ft'' ''xed_reg_class_enum_t'' [(''../xed-reg-class-enum_8h.html#a8ac6bf3f9f78208385c46ea25324ea76'', True, ''xed-reg-class-enum.h'')],
    row ''xed_5freg_5fenum_5ft'' ''xed_reg_enum_t'' [(''../xed-reg-enum_8h.html#af05c33c5a68e9304d1d8ac0408ae3f61'', True, ''xed-reg-enum.h'')],
    row ''xed_5freg_5frole_5fenum_5ft'' ''xed_reg_role_enum_t'' [(''../xed-reg-role-enum_8h.html#a0f47d808cc158100cda543079bd484d8'', True, ''xed-reg-role-enum.h'')],
    row ''xed_5fsyntax_5fenum_5ft'' ''xed_syntax_enum_t'' [(''../xed-syntax-enum_8h.html#a226c37dc9f1af9e61dad79dc5f65bc9f'', True, ''xed-syntax-enum.h'')]]"

lemma enums_0_ok: "list_all (row_ok 120) enums_0"
  by (simp only: enums_0_def row_checks)

text \<open>\<open>search/defines_0.js\<close>\<close>

definition defines_0 :: "search_row list" where
  "defines_0 = [
    row ''xed2die'' ''XED2DIE'' [(''../xed-util_8h.html#ae9644a4aa92c87b2adae4c1e8bf963c7'', True, ''xed-util.h'')],
    row ''xed2imsg'' ''XED2IMSG'' [(''../xed-util_8h.html#a760385c6d83d5fc71d4c024f683c8486'', True, ''xed-util.h'')],
    row ''xed2tmsg'' ''XED2TMSG'' [(''../xed-util_8h.html#ad5f7160aa01ef065e178d2a94f3160a5'', True, ''xed-util.h'')],
    row ''xed2vmsg'' ''XED2VMSG'' [(''../xed-util_8h.html#aebae4bce033aa7ce3d17e2d6fe4ee5f5'', True, ''xed-util.h'')],
    row ''xed_5famd_5fenabled'' ''XED_AMD_ENABLED'' [(''../xed-build-defines_8h.html#af5657cebfa3a6cc8af616ee02019e044'', True, ''xed-build-defines.h'')],
    row ''xed_5fassert'' ''xed_assert'' [(''../xed-util_8h.html#a14e6b8d2d319061ff7e517323aa4776f'', True, ''xed-util.h'')],
    row ''xed_5favx'' ''XED_AVX'' [(''../xed-build-defines_8h.html#a15be773b13b8f2512466af13cefa88c8'', True, ''xed-build-defines.h'')],
    row ''xed_5fbit_5ffield_5fpseudo_5fwidth4'' ''XED_BIT_FIELD_PSEUDO_WIDTH4'' [(''../xed-common-defs_8h.html#aa69f44ab2bb9f5b539a2ec4481e55861'', True, ''xed-common-defs.h'')],
    row ''xed_5fbit_5ffield_5fpseudo_5fwidth8'' ''XED_BIT_FIELD_PSEUDO_WIDTH8'' [(''../xed-common-defs_8h.html#ad63f3c2e5d31b6e53ec9025fa1790436'', True, ''xed-common-defs.h'')],
    row ''xed_5fbyte_5fcast'' ''XED_BYTE_CAST'' [(''../xed-common-defs_8h.html#a243a8c4c8b3cd7f5658455c10dc28777'', True, ''xed-common-defs.h'')],
    row ''xed_5fbyte_5fmask'' ''XED_BYTE_MASK'' [(''../xed-common-defs_8h.html#a8a127f35f53251f46b438a1fea0cb08c'', True, ''xed-common-defs.h'')],
    row ''xed_5fcast'' ''XED_CAST'' [(''../xed-portability_8h.html#a3fb2e11b3d32594f913f5b80849133e1'', True, ''xed-portability.h'')],
    row ''xed_5fdecoder'' ''XED_DECODER'' [(''../xed-common-hdrs_8h.html#a1ad3a672dab53d7dbdf9a6b834a6b832'', True, ''xed-common-hdrs.h'')],
    row ''xed_5fdll_5fexport'' ''XED_DLL_EXPORT'' [(''../xed-common-hdrs_8h.html#a029d5ee2957ac2af5e2b75ec09f1daf9'', True, ''xed-common-hdrs.h'')],
    row ''xed_5fdll_5fglobal'' ''XED_DLL_GLOBAL'' [(''../xed-common-hdrs_8h.html#ab2f4d3edd3fffb591ec6ed21e39880e1'', True, ''xed-common-hdrs.h'')],
    row ''xed_5fdll_5fimport'' ''XED_DLL_IMPORT'' [(''../xed-common-hdrs_8h.html#a2583ef08eb61790bfa69686a93ffcf15'', True, ''xed-common-hdrs.h'')],
    row ''xed_5femit_5fmessages'' ''XED_EMIT_MESSAGES'' [(''../xed-util_8h.html#a0fe518e08dcb412b3489e56e924f1801'', True, ''xed-util.h'')],
    row ''xed_5fenc_5fgroups'' ''XED_ENC_GROUPS'' [(''../xed-encoder-gen-defs_8h.html#a28ab7e9db7676622c7e96ce19266b1a0'', True, ''xed-encoder-gen-defs.h'')],
    row ''xed_5fencode_5ffb_5fvalues_5ftable_5fsize'' ''XED_ENCODE_FB_VALUES_TABLE_SIZE'' [(''../xed-encoder-gen-defs_8h.html#a87e9382edd5c7c42f6e8b1f3fd4f78b0'', True, ''xed-encoder-gen-defs.h'')],
    row ''xed_5fencode_5fmax_5femit_5fpatterns'' ''XED_ENCODE_MAX_EMIT_PATTERNS'' [(''../xed-encoder-gen-defs_8h.html#ab2e3308cb9b647bfb5e717c1f7db1428'', True, ''xed-encoder-gen-defs.h'')],
    row ''xed_5fencode_5fmax_5ffb_5fpatterns'' ''XED_ENCODE_MAX_FB_PATTERNS'' [(''../xed-encoder-gen-defs_8h.html#a1414f1f5a75ab8694f24774ad8fcf099'', True, ''xed-encoder-gen-defs.h'')],
    row ''xed_5fencode_5fmax_5fiforms'' ''XED_ENCODE_MAX_IFORMS'' [(''../xed-encoder-gen-defs_8h.html#a8a951785aa07d11148423e935d361076'', True, ''xed-encoder-gen-defs.h'')],
    row ''xed_5fencode_5forder_5fmax_5fentries'' ''XED_ENCODE_ORDER_MAX_ENTRIES'' [(''../xed-encoder-gen-defs_8h.html#aa1be5a05e4a9d169a48051426aaf1b77'', True, ''xed-encoder-gen-defs.h'')],
    row ''xed_5fencode_5forder_5fmax_5foperands'' ''XED_ENCODE_ORDER_MAX_OPERANDS'' [(''../xed-encoder-gen-defs_8h.html#ac9e3cf5b72e8a21c5200b97cf998bde9'', True, ''xed-encoder-gen-defs.h'')],
    row ''xed_5fencoder'' ''XED_ENCODER'' [(''../xed-common-hdrs_8h.html#a3925943d185a09ad9e32ed8637ccb533'', True, ''xed-common-hdrs.h'')],
    row ''xed_5fencoder_5foperands_5fmax'' ''XED_ENCODER_OPERANDS_MAX'' [(''../xed-encoder-hl_8h.html#abfeb6b3bab64107ecb69a1276aaa14ed'', True, ''xed-encoder-hl.h'')],
    row ''xed_5ffmt_5f08x'' ''XED_FMT_08X'' [(''../xed-portability_8h.html#a7b5dfdc21ac79bffa49e270eeea3bbd8'', True, ''xed-portability.h'')],
    row ''xed_5ffmt_5f9u'' ''XED_FMT_9U'' [(''../xed-portability_8h.html#a1ecf37c3fce9bc7a6d5a93796201a717'', True, ''xed-portability.h'')],
    row ''xed_5ffmt_5fd'' ''XED_FMT_D'' [(''../xed-portability_8h.html#a211602c0bb4707cd286a12f6b0c691a6'', True, ''xed-portability.h'')],
    row ''xed_5ffmt_5fld'' ''XED_FMT_LD'' [(''../xed-portability_8h.html#afe3b22b7a9d0ee3cfa8c4444712817de'', True, ''xed-portability.h'')],
    row ''xed_5ffmt_5flu'' ''XED_FMT_LU'' [(''../xed-portability_8h.html#a500a254d86561714340bf8d15fd437ac'', True, ''xed-portability.h'')],
    row ''xed_5ffmt_5flu12'' ''XED_FMT_LU12'' [(''../xed-portability_8h.html#a502a5a3a7bd80743328f48509c49182a'', True, ''xed-portability.h'')],
    row ''xed_5ffmt_5flx'' ''XED_FMT_LX'' [(''../xed-portability_8h.html#a99b93e37a937348afa3e458fb1e04fb1'', True, ''xed-portability.h'')],
    row ''xed_5ffmt_5flx16'' ''XED_FMT_LX16'' [(''../xed-portability_8h.html#a583a1f21fca7a5e3661e1aba2113dc86'', True, ''xed-portability.h'')],
    row ''xed_5ffmt_5fsizet'' ''XED_FMT_SIZET'' [(''../xed-portability_8h.html#aaac2b09389f1793b25308ee898975880'', True, ''xed-portability.h'')],
    row ''xed_5ffmt_5fu'' ''XED_FMT_U'' [(''../xed-portability_8h.html#a9091b96f5482bcfd24989443027cf922'', True, ''xed-portability.h'')],
    row ''xed_5ffmt_5fx'' ''XED_FMT_X'' [(''../xed-portability_8h.html#a3f66da3cffe0d2027cc7d6023a43083a'', True, ''xed-portability.h'')],
    row ''xed_5ffuncname'' ''XED_FUNCNAME'' [(''../xed-util_8h.html#a035d564cf1140b1f6cfdb6d5bf937600'', True, ''xed-util.h'')],
    row ''xed_5fgit_5fversion'' ''XED_GIT_VERSION'' [(''../xed-build-defines_8h.html#a03f2bf411a0fc8184a3c5474ae86f3ec'', True, ''xed-build-defines.h'')],
    row ''xed_5ficlass_5fname_5fstr_5fmax'' ''XED_ICLASS_NAME_STR_MAX'' [(''../xed-gen-table-defs_8h.html#a32d7af3613a6ebb74b3f9017b52e0c5a'', True, ''xed-gen-table-defs.h'')],
    row ''xed_5finfo2_5fverbose'' ''XED_INFO2_VERBOSE'' [(''../xed-util_8h.html#ab75fedd1551a7e2ba9e913285e5f5bb7'', True, ''xed-util.h'')],
    row ''xed_5finfo_5fverbose'' ''XED_INFO_VERBOSE'' [(''../xed-util_8h.html#a0ceb0261de1db908824c51600dc6a89e'', True, ''xed-util.h'')],
    row ''xed_5finline'' ''XED_INLINE'' [(''../xed-portability_8h.html#a816cca0d95c86100144b556e68e836b7'', True, ''xed-portability.h'')],
    row ''xed_5fmax'' ''XED_MAX'' [(''../xed-portability_8h.html#a8499c57dc1efb0ccd46add885bba7f11'', True, ''xed-portability.h'')],
    row ''xed_5fmax_5fattribute_5fcount'' ''XED_MAX_ATTRIBUTE_COUNT'' [(''../xed-gen-table-defs_8h.html#a547c85cb4ac2dc72d40533f59d403d88'', True, ''xed-gen-table-defs.h'')],
    row ''xed_5fmax_5fconvert_5fpatterns'' ''XED_MAX_CONVERT_PATTERNS'' [(''../xed-gen-table-defs_8h.html#aac86ab9f7813f6e999b2732c8540ecfe'', True, ''xed-gen-table-defs.h'')],
    row ''xed_5fmax_5fdecorations_5fper_5foperand'' ''XED_MAX_DECORATIONS_PER_OPERAND'' [(''../xed-gen-table-defs_8h.html#aa05b1a46a729bbbf3210e20d8cfb2967'', True, ''xed-gen-table-defs.h'')],
    row ''xed_5fmax_5fdisplacement_5fbytes'' ''XED_MAX_DISPLACEMENT_BYTES'' [(''../xed-common-defs_8h.html#a70d7ef4cb7b3c083e3c7e036dc5b6846'', True, ''xed-common-defs.h'')],
    row ''xed_5fmax_5fglobal_5fflag_5factions'' ''XED_MAX_GLOBAL_FLAG_ACTIONS'' [(''../xed-gen-table-defs_8h.html#a8d88303d74a44fb2a0f063b5c83dc1b1'', True, ''xed-gen-table-defs.h'')],
    row ''xed_5fmax_5fiforms_5fper_5ficlass'' ''XED_MAX_IFORMS_PER_ICLASS'' [(''../xed-gen-table-defs_8h.html#a9e437d2b3d1e19f37194f5d905b558f6'', True, ''xed-gen-table-defs.h'')],
    row ''xed_5fmax_5fimmdis_5fbytes'' ''XED_MAX_IMMDIS_BYTES'' [(''../xed-immdis_8h.html#ac24112540bbcc8fa68f707909a90f5b7'', True, ''xed-immdis.h'')],
    row ''xed_5fmax_5fimmediate_5fbytes'' ''XED_MAX_IMMEDIATE_BYTES'' [(''../xed-common-defs_8h.html#a77804e53f494e2623103f337f30ec3bf'', True, ''xed-common-defs.h'')],
    row ''xed_5fmax_5finst_5ftable_5fnodes'' ''XED_MAX_INST_TABLE_NODES'' [(''../xed-gen-table-defs_8h.html#a72087c6d05f34b616acca54f62583063'', True, ''xed-gen-table-defs.h'')],
    row ''xed_5fmax_5finstruction_5fbytes'' ''XED_MAX_INSTRUCTION_BYTES'' [(''../xed-common-defs_8h.html#a214b18e98040dbace0d9e0a0a7937484'', True, ''xed-common-defs.h'')],
    row ''xed_5fmax_5fnonterminals_5fper_5finstruction'' ''XED_MAX_NONTERMINALS_PER_INSTRUCTION'' [(''../xed-common-defs_8h.html#a0c045071ff88f644f56baad439a8a79d'', True, ''xed-common-defs.h'')],
    row ''xed_5fmax_5foperand_5fsequences'' ''XED_MAX_OPERAND_SEQUENCES'' [(''../xed-gen-table-defs_8h.html#a259f03e7fc44d7bc5a7e8fc49155fb89'', True, ''xed-gen-table-defs.h'')],
    row ''xed_5fmax_5foperand_5ftable_5fnodes'' ''XED_MAX_OPERAND_TABLE_NODES'' [(''../xed-gen-table-defs_8h.html#a96d71be5db3f232663b4cfc5057a84f9'', True, ''xed-gen-table-defs.h'')],
    row ''xed_5fmax_5foperands'' ''XED_MAX_OPERANDS'' [(''../xed-common-defs_8h.html#a85ccc37573feb213b4e236440bb83ff0'', True, ''xed-common-defs.h'')],
    row ''xed_5fmax_5fpointer_5fnames'' ''XED_MAX_POINTER_NAMES'' [(''../xed-init-pointer-names_8h.html#a43d04300923d6317e30a3505cf592cc1'', True, ''xed-init-pointer-names.h'')],
    row ''xed_5fmax_5frequired_5fattributes'' ''XED_MAX_REQUIRED_ATTRIBUTES'' [(''../xed-gen-table-defs_8h.html#acdb91b4722887be17e24e66cd05d53db'', True, ''xed-gen-table-defs.h'')],
    row ''xed_5fmax_5frequired_5fcomplex_5fflags_5fentries'' ''XED_MAX_REQUIRED_COMPLEX_FLAGS_ENTRIES'' [(''../xed-gen-table-defs_8h.html#a12b324dad0715806de1ced7c00e3764e'', True, ''xed-gen-table-defs.h'')],
    row ''xed_5fmax_5frequired_5fsimple_5fflags_5fentries'' ''XED_MAX_REQUIRED_SIMPLE_FLAGS_ENTRIES'' [(''../xed-gen-table-defs_8h.html#a5c16764977bba145c577eeeac0d06683'', True, ''xed-gen-table-defs.h'')],
    row ''xed_5fmin'' ''XED_MIN'' [(''../xed-portability_8h.html#a504c2e338f6bc12ec1514ddafbedc536'', True, ''xed-portability.h'')],
    row ''xed_5fmore_5fverbose'' ''XED_MORE_VERBOSE'' [(''../xed-util_8h.html#acba81509bc4097e48123fc8f0f1e9023'', True, ''xed-util.h'')],
    row ''xed_5fmpx'' ''XED_MPX'' [(''../xed-build-defines_8h.html#a1371000eebf7e948d73de2afbd2b3cd4'', True, ''xed-build-defines.h'')],
    row ''xed_5fnoinline'' ''XED_NOINLINE'' [(''../xed-portability_8h.html#aa17d383f3ff705b0f205bd24d3ce3111'', True, ''xed-portability.h'')],
    row ''xed_5fnoreturn'' ''XED_NORETURN'' [(''../xed-portability_8h.html#ab2323cbcda21a00e53ff85633ac27c34'', True, ''xed-portability.h'')],
    row ''xed_5freinterpret_5fcast'' ''XED_REINTERPRET_CAST'' [(''../xed-portability_8h.html#a1694fb494e53c3bbf09919c412c3034a'', True, ''xed-portability.h'')],
    row ''xed_5fstatic_5fcast'' ''XED_STATIC_CAST'' [(''../xed-portability_8h.html#ae0cdf0e8a0284d011be1a08e8a4e3094'', True, ''xed-portability.h'')],
    row ''xed_5fsupports_5favx512'' ''XED_SUPPORTS_AVX512'' [(''../xed-build-defines_8h.html#ad814bc316b47add9888ac9c9a52b660c'', True, ''xed-build-defines.h'')],
    row ''xed_5fverbose'' ''XED_VERBOSE'' [(''../xed-util_8h.html#a3f5db43cb695b01d7f69c7c080b61c5a'', True, ''xed-util.h'')],
    row ''xed_5fvery_5fverbose'' ''XED_VERY_VERBOSE'' [(''../xed-util_8h.html#a50f75a29830559433eb138c0f06cb1d2'', True, ''xed-util.h'')]]"

lemma defines_0_ok: "list_all (row_ok 120) defines_0"
  by (simp only: defines_0_def row_checks)

text \<open>\<open>search/groups_0.js\<close>\<close>

definition groups_0 :: "search_row list" where
  "groups_0 = [
    row ''address_20generation_20calculation_20support'' ''Address generation calculation support'' [(''../group__AGEN.html'', True, '''')]]"

lemma groups_0_ok: "list_all (row_ok 97) groups_0"
  by (simp only: groups_0_def row_checks)

text \<open>\<open>search/groups_1.js\<close>\<close>

definition groups_1 :: "search_row list" where
  "groups_1 = [
    row ''decoding_20instructions'' ''Decoding Instructions'' [(''../group__DEC.html'', True, '''')]]"

lemma groups_1_ok: "list_all (row_ok 100) groups_1"
  by (simp only: groups_1_def row_checks)

text \<open>\<open>search/groups_2.js\<close>\<close>

definition groups_2 :: "search_row list" where
  "groups_2 = [
    row ''encoding_20instructions'' ''Encoding Instructions'' [(''../group__ENC.html'', True, '''')],
    row ''examples_20of_20using_20xed'' ''Examples of using XED'' [(''../group__EXAMPLES.html'', True, '''')]]"

lemma groups_2_ok: "list_all (row_ok 101) groups_2"
  by (simp only: groups_2_def row_checks)

text \<open>\<open>search/groups_3.js\<close>\<close>

definition groups_3 :: "search_row list" where
  "groups_3 = [
    row ''flags_20interface'' ''Flags Interface'' [(''../group__FLAGS.html'', True, '''')]]"

lemma groups_3_ok: "list_all (row_ok 102) groups_3"
  by (simp only: groups_3_def row_checks)

text \<open>\<open>search/groups_4.js\<close>\<close>

definition groups_4 :: "search_row list" where
  "groups_4 = [
    row ''groupings_20of_20features_20for_20chips'' ''Groupings of features for chips'' [(''../group__ISASET.html'', True, '''')]]"

lemma groups_4_ok: "list_all (row_ok 103) groups_4"
  by (simp only: groups_4_def row_checks)

text \<open>\<open>search/groups_5.js\<close>\<close>

definition groups_5 :: "search_row list" where
  "groups_5 = [
    row ''high_20level_20api_20for_20encoding_20instructions'' ''High Level API for Encoding Instructions'' [(''../group__ENCHL.html'', True, '''')]]"

lemma groups_5_ok: "list_all (row_ok 104) groups_5"
  by (simp only: groups_5_def row_checks)

text \<open>\<open>search/groups_6.js\<close>\<close>

definition groups_6 :: "search_row list" where
  "groups_6 = [
    row ''iforms'' ''Iforms'' [(''../group__IFORM.html'', True, '''')]]"

lemma groups_6_ok: "list_all (row_ok 105) groups_6"
  by (simp only: groups_6_def row_checks)

text \<open>\<open>search/groups_7.js\<close>\<close>

definition groups_7 :: "search_row list" where
  "groups_7 = [
    row ''operand_20storage_20fields'' ''Operand storage fields'' [(''../group__OPERANDS.html'', True, '''')]]"

lemma groups_7_ok: "list_all (row_ok 111) groups_7"
  by (simp only: groups_7_def row_checks)

text \<open>\<open>search/groups_8.js\<close>\<close>

definition groups_8 :: "search_row list" where
  "groups_8 = [
    row ''printing_20_28disassembling_29_20instructions'' ''Printing (disassembling) Instructions'' [(''../group__PRINT.html'', True, '''')]]"

lemma groups_8_ok: "list_all (row_ok 112) groups_8"
  by (simp only: groups_8_def row_checks)

text \<open>\<open>search/groups_9.js\<close>\<close>

definition groups_9 :: "search_row list" where
  "groups_9 = [
    row ''register_20interface'' ''Register Interface'' [(''../group__REGINTFC.html'', True, '''')]]"

lemma groups_9_ok: "list_all (row_ok 114) groups_9"
  by (simp only: groups_9_def row_checks)

text \<open>\<open>search/groups_a.js\<close>\<close>

definition groups_a :: "search_row list" where
  "groups_a = [
    row ''small_20examples_20of_20using_20xed'' ''Small Examples of using XED'' [(''../group__SMALLEXAMPLES.html'', True, '''')]]"

lemma groups_a_ok: "list_all (row_ok 115) groups_a"
  by (simp only: groups_a_def row_checks)

text \<open>\<open>search/groups_b.js\<close>\<close>

definition groups_b :: "search_row list" where
  "groups_b = [
    row ''xed_20command_20interface'' ''XED command interface'' [(''../group__CMDLINE.html'', True, '''')],
    row ''xed_20enumerations'' ''XED enumerations'' [(''../group__ENUM.html'', True, '''')],
    row ''xed_20initialization'' ''XED initialization'' [(''../group__INIT.html'', True, '''')]]"

lemma groups_b_ok: "list_all (row_ok 120) groups_b"
  by (simp only: groups_b_def row_checks)

text \<open>\<open>search/pages_0.js\<close>\<close>

definition pages_0 :: "search_row list" where
  "pages_0 = [
    row ''xed_20user_20guide'' ''XED User Guide'' [(''../index.html'', True, '''')]]"

lemma pages_0_ok: "list_all (row_ok 120) pages_0"
  by (simp only: pages_0_def row_checks)

end
