(* ===== verification/Search_Tables_2.thy ===== *)
theory Search_Tables_2
  imports Search_Rows
begin

text \<open>
  The page of the search index with the functions that start with an x.
\<close>

text \<open>\<open>search/functions_1.js\<close>\<close>

definition functions_1_part1 :: "search_row list" where
  "functions_1_part1 = [
    row ''xed3_5fget_5fgeneric_5foperand'' ''xed3_get_generic_operand'' [(''../xed-operand-accessors_8h.html#aabc6827901f2ea1153988ec991ab5ed7'', True, ''xed-operand-accessors.h'')],
    row ''xed3_5foperand_5fget_5fagen'' ''xed3_operand_get_agen'' [(''../xed-operand-accessors_8h.html#a96a081698f1eac90bdd248c8a74a480b'', True, ''xed-operand-accessors.h'')],
    row ''xed3_5foperand_5fget_5famd3dnow'' ''xed3_operand_get_amd3dnow'' [(''../xed-operand-accessors_8h.html#adc269ebd74fd6c13839690796b8646d3'', True, ''xed-operand-accessors.h'')],
    row ''xed3_5foperand_5fget_5fasz'' ''xed3_operand_get_asz'' [(''../xed-operand-accessors_8h.html#aa5fcd87b8bbd558dd1923a738ecdc818'', True, ''xed-operand-accessors.h'')],
    row ''xed3_5foperand_5fget_5fbase0'' ''xed3_operand_get_base0'' [(''../xed-operand-accessors_8h.html#ab1586251caad1892753b57a44d9354ed'', True, ''xed-operand-accessors.h'')],
    row ''xed3_5foperand_5fget_5fbase1'' ''xed3_operand_get_base1'' [(''../xed-operand-accessors_8h.html#a64550385a97ab0eed0501eaa2dcdff2c'', True, ''xed-operand-accessors.h'')],
    row ''xed3_5foperand_5fget_5fbcast'' ''xed3_operand_get_bcast'' [(''../xed-operand-accessors_8h.html#a42f798f21ee6ce138cea33cd77cb9e03'', True, ''xed-operand-accessors.h'')],
    row ''xed3_5foperand_5fget_5fbcrc'' ''xed3_operand_get_bcrc'' [(''../xed-operand-accessors_8h.html#a0e85b687e4ae214dfa6cc7693c351cea'', True, ''xed-operand-accessors.h'')],
    row ''xed3_5foperand_5fget_5fbrdisp_5fwidth'' ''xed3_operand_get_brdisp_width'' [(''../xed-operand-accessors_8h.html#a87cba03ff75ae16e7631e705b3a81936'', True, ''xed-operand-accessors.h'')],
    row ''xed3_5foperand_5fget_5fchip'' ''xed3_operand_get_chip'' [(''../xed-operand-accessors_8h.html#a7eb7a6e42e95fe167779fef803454b36'', True, ''xed-operand-accessors.h'')],
    row ''xed3_5foperand_5fget_5fdefault_5fseg'' ''xed3_operand_get_default_seg'' [(''../xed-operand-accessors_8h.html#a5715b155234687415f476b8262202656'', True, ''xed-operand-accessors.h'')],
    row ''xed3_5foperand_5fget_5fdf32'' ''xed3_operand_get_df32'' [(''../xed-operand-accessors_8h.html#a84904b8531aaa35ed4b0e7d4b7c37738'', True, ''xed-operand-accessors.h'')],
    row ''xed3_5foperand_5fget_5fdf64'' ''xed3_operand_get_df64'' [(''../xed-operand-accessors_8h.html#ac4f7ad33d3a51a8e4ffa8eee53217d59'', True, ''xed-operand-accessors.h'')],
    row ''xed3_5foperand_5fget_5fdisp'' ''xed3_operand_get_disp'' [(''../xed-operand-accessors_8h.html#ac331c3422369554138648cd84b3772cd'', True, ''xed-operand-accessors.h'')],
    row ''xed3_5foperand_5fget_5fdisp_5fwidth'' ''xed3_operand_get_disp_width'' [(''../xed-operand-accessors_8h.html#a82d8ada3ae2c0d537fb7005d5bfb7cbc'', True, ''xed-operand-accessors.h'')],
    row ''xed3_5foperand_5fget_5fdummy'' ''xed3_operand_get_dummy'' [(''../xed-operand-accessors_8h.html#abbe369253fe82a40eaa06cd57b707287'', True, ''xed-operand-accessors.h'')],
    row ''xed3_5foperand_5fget_5feasz'' ''xed3_operand_get_easz'' [(''../xed-operand-accessors_8h.html#acff0f54ef0adf5e447f16257f10d7f06'', True, ''xed-operand-accessors.h'')],
    row ''xed3_5foperand_5fget_5felement_5fsize'' ''xed3_operand_get_element_size'' [(''../xed-operand-accessors_8h.html#a271343bd8d1fa178cf2b2ac62ef9b25a'', True, ''xed-operand-accessors.h'')],
    row ''xed3_5foperand_5fget_5fencoder_5fpreferred'' ''xed3_operand_get_encoder_preferred'' [(''../xed-operand-accessors_8h.html#a8e370ab285fda5e3442e331a1cd75673'', True, ''xed-operand-accessors.h'')],
    row ''xed3_5foperand_5fget_5feosz'' ''xed3_operand_get_eosz'' [(''../xed-operand-accessors_8h.html#acad2a7fef287c0409444ac633179f477'', True, ''xed-operand-accessors.h'')],
    row ''xed3_5foperand_5fget_5ferror'' ''xed3_operand_get_error'' [(''../xed-operand-accessors_8h.html#aa02389e3c741173787a94372e145fe6f'', True, ''xed-operand-accessors.h'')],
    row ''xed3_5foperand_5fget_5fesrc'' ''xed3_operand_get_esrc'' [(''../xed-operand-accessors_8h.html#a234c0e97635eca63ee4b2c13e6b9fc59'', True, ''xed-operand-accessors.h'')],
    row ''xed3_5foperand_5fget_5fesrc3'' ''xed3_operand_get_esrc3'' [(''../xed-operand-accessors_8h.html#ad0f5539665f391130415e218c2f7c602'', True, ''xed-operand-accessors.h'')],
    row ''xed3_5foperand_5fget_5fevexrr'' ''xed3_operand_get_evexrr'' [(''../xed-operand-accessors_8h.html#a0a36cf7564a5f99c6c921ae7975946f9'', True, ''xed-operand-accessors.h'')],
    row ''xed3_5foperand_5fget_5ffirst_5ff2f3'' ''xed3_operand_get_first_f2f3'' [(''../xed-operand-accessors_8h.html#a9e299395dd1f80001b0e24f0644a37d7'', True, ''xed-operand-accessors.h'')],
    row ''xed3_5foperand_5fget_5fhas_5fmodrm'' ''xed3_operand_get_has_modrm'' [(''../xed-operand-accessors_8h.html#aaf8469069564e4ccb58f3eb593469913'', True, ''xed-operand-accessors.h'')],
    row ''xed3_5foperand_5fget_5fhas_5fsib'' ''xed3_operand_get_has_sib'' [(''../xed-operand-accessors_8h.html#aeb1e3aac69d51321a819b1f46ac20012'', True, ''xed-operand-accessors.h'')],
    row ''xed3_5foperand_5fget_5fhint'' ''xed3_operand_get_hint'' [(''../xed-operand-accessors_8h.html#aae7d8d46c5cb3dec401bb382a499b356'', True, ''xed-operand-accessors.h'')],
    row ''xed3_5foperand_5fget_5fhsw'' ''xed3_operand_get_hsw'' [(''../xed-operand-accessors_8h.html#a3d7c5e810a229e55f304d1923e282dc6'', True, ''xed-operand-accessors.h'')],
    row ''xed3_5foperand_5fget_5ficlass'' ''xed3_operand_get_iclass'' [(''../xed-operand-accessors_8h.html#a5e43b17a7b2a531822dc9c16ea654269'', True, ''xed-operand-accessors.h'')],
    row ''xed3_5foperand_5fget_5fild_5ff2'' ''xed3_operand_get_ild_f2'' [(''../xed-operand-accessors_8h.html#ac008d55a19689aa4f5cec239f8e1a7d6'', True, ''xed-operand-accessors.h'')],
    row ''xed3_5foperand_5fget_5fild_5ff3'' ''xed3_operand_get_ild_f3'' [(''../xed-operand-accessors_8h.html#a36235606eb1a02464c429adfa506757c'', True, ''xed-operand-accessors.h'')],
    row ''xed3_5foperand_5fget_5fild_5fseg'' ''xed3_operand_get_ild_seg'' [(''../xed-operand-accessors_8h.html#a92bb6c6b2a5c426f24fde0d10bee1639'', True, ''xed-operand-accessors.h'')],
    row ''xed3_5foperand_5fget_5fimm0'' ''xed3_operand_get_imm0'' [(''../xed-operand-accessors_8h.html#ad275a5cd11c2a51e15b716565b62ce88'', True, ''xed-operand-accessors.h'')],
    row ''xed3_5foperand_5fget_5fimm0signed'' ''xed3_operand_get_imm0signed'' [(''../xed-operand-accessors_8h.html#a37c0fa4d9c4236d8b9eb28ce2f7901da'', True, ''xed-operand-accessors.h'')],
    row ''xed3_5foperand_5fget_5fimm1'' ''xed3_operand_get_imm1'' [(''../xed-operand-accessors_8h.html#a815c76b8686994ed62064788ca441153'', True, ''xed-operand-accessors.h'')],
    row ''xed3_5foperand_5fget_5fimm1_5fbytes'' ''xed3_operand_get_imm1_bytes'' [(''../xed-operand-accessors_8h.html#ad7297cada6c635fd835bab9e137ef49e'', True, ''xed-operand-accessors.h'')],
    row ''xed3_5foperand_5fget_5fimm_5fwidth'' ''xed3_operand_get_imm_width'' [(''../xed-operand-accessors_8h.html#a3ba9b5e298244896005fa3cb34f1d174'', True, ''xed-operand-accessors.h'')],
    row ''xed3_5foperand_5fget_5findex'' ''xed3_operand_get_index'' [(''../xed-operand-accessors_8h.html#af75f4107ff2c592fa732977121d599b4'', True, ''xed-operand-accessors.h'')],
    row ''xed3_5foperand_5fget_5flast_5ff2f3'' ''xed3_operand_get_last_f2f3'' [(''../xed-operand-accessors_8h.html#a28afb8f07f09fc3291b0b7dc39c41ca7'', True, ''xed-operand-accessors.h'')],
    row ''xed3_5foperand_5fget_5fllrc'' ''xed3_operand_get_llrc'' [(''../xed-operand-accessors_8h.html#a9ac6ce41f09e38bf263a5f78b25e013b'', True, ''xed-operand-accessors.h'')],
    row ''xed3_5foperand_5fget_5flock'' ''xed3_operand_get_lock'' [(''../xed-operand-accessors_8h.html#a6db8886b88c9d8efd9302fec37a11c62'', True, ''xed-operand-accessors.h'')],
    row ''xed3_5foperand_5fget_5flockable'' ''xed3_operand_get_lockable'' [(''../xed-operand-accessors_8h.html#ae56b3efecb2b4b1fb94c1e4085cf5e18'', True, ''xed-operand-accessors.h'')],
    row ''xed3_5foperand_5fget_5fmap'' ''xed3_operand_get_map'' [(''../xed-operand-accessors_8h.html#a0d35eeb4b83bf04750c9e003ec418f7e'', True, ''xed-operand-accessors.h'')],
    row ''xed3_5foperand_5fget_5fmask'' ''xed3_operand_get_mask'' [(''../xed-operand-accessors_8h.html#ae0293a29a16478a1cb80a37326d7a84d'', True, ''xed-operand-accessors.h'')],
    row ''xed3_5foperand_5fget_5fmax_5fbytes'' ''xed3_operand_get_max_bytes'' [(''../xed-operand-accessors_8h.html#a244acd729503cc3f426a4d124297e4f7'', True, ''xed-operand-accessors.h'')],
    row ''xed3_5foperand_5fget_5fmem0'' ''xed3_operand_get_mem0'' [(''../xed-operand-accessors_8h.html#af3187b45a44263dcc07b9bdf4fda7f2f'', True, ''xed-operand-accessors.h'')],
    row ''xed3_5foperand_5fget_5fmem1'' ''xed3_operand_get_mem1'' [(''../xed-operand-accessors_8h.html#a0c35332700656f2402fa35d52e153fe3'', True, ''xed-operand-accessors.h'')],
    row ''xed3_5foperand_5fget_5fmem_5fwidth'' ''xed3_operand_get_mem_width'' [(''../xed-operand-accessors_8h.html#a9727f01beaeea4343a45470d1fdac77c'', True, ''xed-operand-accessors.h'')],
    row ''xed3_5foperand_5fget_5fmod'' ''xed3_operand_get_mod'' [(''../xed-operand-accessors_8h.html#aaf8b171d07948550292f7a1a00fc503a'', True, ''xed-operand-accessors.h'')],
    row ''xed3_5foperand_5fget_5fmode'' ''xed3_operand_get_mode'' [(''../xed-operand-accessors_8h.html#aea6f73ef3f034868727657f01059aea2'', True, ''xed-operand-accessors.h'')],
    row ''xed3_5foperand_5fget_5fmode_5ffirst_5fprefix'' ''xed3_operand_get_mode_first_prefix'' [(''../xed-operand-accessors_8h.html#a377e47b141fd99e938d7c386f50c59aa'', True, ''xed-operand-accessors.h'')],
    row ''xed3_5foperand_5fget_5fmodep5'' ''xed3_operand_get_modep5'' [(''../xed-operand-accessors_8h.html#ae783040602077a81f577b43d190c0f4d'', True, ''xed-operand-accessors.h'')],
    row ''xed3_5foperand_5fget_5fmodep55c'' ''xed3_operand_get_modep55c'' [(''../xed-operand-accessors_8h.html#ab11891efda1646d500ea7a3ee4208653'', True, ''xed-operand-accessors.h'')],
    row ''xed3_5foperand_5fget_5fmodrm'' ''xed3_operand_get_modrm'' [(''../xed-operand-accessors_8h.html#aad5fbdb639f7d2e496ad9e0d929510d4'', True, ''xed-operand-accessors.h'')],
    row ''xed3_5foperand_5fget_5fmodrm_5fbyte'' ''xed3_operand_get_modrm_byte'' [(''../xed-operand-accessors_8h.html#a268ae01346e4a17206d8d9047f380919'', True, ''xed-operand-accessors.h'')],
    row ''xed3_5foperand_5fget_5fmpxmode'' ''xed3_operand_get_mpxmode'' [(''../xed-operand-accessors_8h.html#a0e6b76dc2c7a45355431f2182bd7a5eb'', True, ''xed-operand-accessors.h'')],
    row ''xed3_5foperand_5fget_5fneed_5fmemdisp'' ''xed3_operand_get_need_memdisp'' [(''../xed-operand-accessors_8h.html#aa5755ef0fdd02efda928b50bfd440740'', True, ''xed-operand-accessors.h'')],
    row ''xed3_5foperand_5fget_5fneedrex'' ''xed3_operand_get_needrex'' [(''../xed-operand-accessors_8h.html#a01fee88550e01efdc778dcfbb31bf858'', True, ''xed-operand-accessors.h'')],
    row ''xed3_5foperand_5fget_5fnelem'' ''xed3_operand_get_nelem'' [(''../xed-operand-accessors_8h.html#a448e98a4171b620e908a8161013b6109'', True, ''xed-operand-accessors.h'')],
    row ''xed3_5foperand_5fget_5fno_5fscale_5fdisp8'' ''xed3_operand_get_no_scale_disp8'' [(''../xed-operand-accessors_8h.html#ab897c934dbb1abfdd54128121eaf2652'', True, ''xed-operand-accessors.h'')],
    row ''xed3_5foperand_5fget_5fnominal_5fopcode'' ''xed3_operand_get_nominal_opcode'' [(''../xed-operand-accessors_8h.html#ae0cc6375d2f33485b4f11f6ccc82cd6c'', True, ''xed-operand-accessors.h'')],
    row ''xed3_5foperand_5fget_5fnorex'' ''xed3_operand_get_norex'' [(''../xed-operand-accessors_8h.html#a240c67d856ed2f186493c76bb8fe2d48'', True, ''xed-operand-accessors.h'')],
    row ''xed3_5foperand_5fget_5fnprefixes'' ''xed3_operand_get_nprefixes'' [(''../xed-operand-accessors_8h.html#a670b4aedd299fd9e9f9ce00d55800d24'', True, ''xed-operand-accessors.h'')],
    row ''xed3_5foperand_5fget_5fnrexes'' ''xed3_operand_get_nrexes'' [(''../xed-operand-accessors_8h.html#ae1ece181755d843f86efc5d636ab292d'', True, ''xed-operand-accessors.h'')],
    row ''xed3_5foperand_5fget_5fnseg_5fprefixes'' ''xed3_operand_get_nseg_prefixes'' [(''../xed-operand-accessors_8h.html#a73c8aafccf37043e6784dabd896a30e8'', True, ''xed-operand-accessors.h'')],
    row ''xed3_5foperand_5fget_5fosz'' ''xed3_operand_get_osz'' [(''../xed-operand-accessors_8h.html#acf2cdc31ce9b2f7d57fde7285268e9e2'', True, ''xed-operand-accessors.h'')],
    row ''xed3_5foperand_5fget_5fout_5fof_5fbytes'' ''xed3_operand_get_out_of_bytes'' [(''../xed-operand-accessors_8h.html#a0b9305ae1c78655499e56c13234a5c1b'', True, ''xed-operand-accessors.h'')],
    row ''xed3_5foperand_5fget_5foutreg'' ''xed3_operand_get_outreg'' [(''../xed-operand-accessors_8h.html#a38ad85795b5e640fe36c5766fa269e8d'', True, ''xed-operand-accessors.h'')],
    row ''xed3_5foperand_5fget_5fp4'' ''xed3_operand_get_p4'' [(''../xed-operand-accessors_8h.html#a9397cee6ad48ed059a7823f16196aeb2'', True, ''xed-operand-accessors.h'')],
    row ''xed3_5foperand_5fget_5fpos_5fdisp'' ''xed3_operand_get_pos_disp'' [(''../xed-operand-accessors_8h.html#a5e88a3da61cf7514dcae4297c8c5ac48'', True, ''xed-operand-accessors.h'')],
    row ''xed3_5foperand_5fget_5fpos_5fimm'' ''xed3_operand_get_pos_imm'' [(''../xed-operand-accessors_8h.html#a45db5abddd2997b39ea9c5461ba6234d'', True, ''xed-operand-accessors.h'')],
    row ''xed3_5foperand_5fget_5fpos_5fimm1'' ''xed3_operand_get_pos_imm1'' [(''../xed-operand-accessors_8h.html#a257a0e5dfef1357c588aadb99ff2b257'', True, ''xed-operand-accessors.h'')],
    row ''xed3_5foperand_5fget_5fpos_5fmodrm'' ''xed3_operand_get_pos_modrm'' [(''../xed-operand-accessors_8h.html#a56ca74fdad7d3a62a090ab47b6fc1118'', True, ''xed-operand-accessors.h'')],
    row ''xed3_5foperand_5fget_5fpos_5fnominal_5fopcode'' ''xed3_operand_get_pos_nominal_opcode'' [(''../xed-operand-accessors_8h.html#a552cac84763e2a58b9350c37365c2f06'', True, ''xed-operand-accessors.h'')],
    row ''xed3_5foperand_5fget_5fpos_5fsib'' ''xed3_operand_get_pos_sib'' [(''../xed-operand-accessors_8h.html#a9fd3d5ab9f647716b2fb0a0bdbdb2463'', True, ''xed-operand-accessors.h'')],
    row ''xed3_5foperand_5fget_5fprefix66'' ''xed3_operand_get_prefix66'' [(''../xed-operand-accessors_8h.html#a7eaf511c85b96d2bc914c2a14777c4ce'', True, ''xed-operand-accessors.h'')],
    row ''xed3_5foperand_5fget_5fptr'' ''xed3_operand_get_ptr'' [(''../xed-operand-accessors_8h.html#aa6bbc1287229577d966a855998433f80'', True, ''xed-operand-accessors.h'')],
    row ''xed3_5foperand_5fget_5frealmode'' ''xed3_operand_get_realmode'' [(''../xed-operand-accessors_8h.html#af7f36aed0dfa6c1f1579afa01c71692a'', True, ''xed-operand-accessors.h'')],
    row ''xed3_5foperand_5fget_5frefining'' ''xed3_operand_get_refining'' [(''../xed-operand-accessors_8h.html#a6f38f3997c708140b7d84d4bc3b928f7'', True, ''xed-operand-accessors.h'')],
    row ''xed3_5foperand_5fget_5freg'' ''xed3_operand_get_reg'' [(''../xed-operand-accessors_8h.html#a838fe91a317f225c71333aa3578ccda7'', True, ''xed-operand-accessors.h'')],
    row ''xed3_5foperand_5fget_5freg0'' ''xed3_operand_get_reg0'' [(''../xed-operand-accessors_8h.html#aaec035ce1e612250727d4d7de22d753e'', True, ''xed-operand-accessors.h'')],
    row ''xed3_5foperand_5fget_5freg1'' ''xed3_operand_get_reg1'' [(''../xed-operand-accessors_8h.html#a43c3e9e703d34592c21d1b9321c5f3a3'', True, ''xed-operand-accessors.h'')],
    row ''xed3_5foperand_5fget_5freg2'' ''xed3_operand_get_reg2'' [(''../xed-operand-accessors_8h.html#aaa2776fba92f7bf2da38b5aa084d5a49'', True, ''xed-operand-accessors.h'')],
    row ''xed3_5foperand_5fget_5freg3'' ''xed3_operand_get_reg3'' [(''../xed-operand-accessors_8h.html#a65906e01f649f5b63a73c993c8ebe3ac'', True, ''xed-operand-accessors.h'')],
    row ''xed3_5foperand_5fget_5freg4'' ''xed3_operand_get_reg4'' [(''../xed-operand-accessors_8h.html#ad754465270d63ed17740b6ce3a99f582'', True, ''xed-operand-accessors.h'')],
    row ''xed3_5foperand_5fget_5freg5'' ''xed3_operand_get_reg5'' [(''../xed-operand-accessors_8h.html#a61a8dc6adbab50bdce04d235afe72f87'', True, ''xed-operand-accessors.h'')],
    row ''xed3_5foperand_5fget_5freg6'' ''xed3_operand_get_reg6'' [(''../xed-operand-accessors_8h.html#afc6e30ce13bcd4b6b1a37177b249e85e'', True, ''xed-operand-accessors.h'')],
    row ''xed3_5foperand_5fget_5freg7'' ''xed3_operand_get_reg7'' [(''../xed-operand-accessors_8h.html#a20a264e9c8601e8e14f2ca5999b9ba53'', True, ''xed-operand-accessors.h'')],
    row ''xed3_5foperand_5fget_5freg8'' ''xed3_operand_get_reg8'' [(''../xed-operand-accessors_8h.html#a62ebfc7ac28a3acc7012cf30d6e4036a'', True, ''xed-operand-accessors.h'')],
    row ''xed3_5foperand_5fget_5frelbr'' ''xed3_operand_get_relbr'' [(''../xed-operand-accessors_8h.html#a8e0bd8cfe8318fe374b59cb9f31f3173'', True, ''xed-operand-accessors.h'')],
    row ''xed3_5foperand_5fget_5frep'' ''xed3_operand_get_rep'' [(''../xed-operand-accessors_8h.html#aac52a7bde85743dd67cbe6e82b73d4c3'', True, ''xed-operand-accessors.h'')],
    row ''xed3_5foperand_5fget_5frep_5fable'' ''xed3_operand_get_rep_able'' [(''../xed-operand-accessors_8h.html#a6ea75918a1e7d02f6f08c5fee6a51c41'', True, ''xed-operand-accessors.h'')],
    row ''xed3_5foperand_5fget_5frex'' ''xed3_operand_get_rex'' [(''../xed-operand-accessors_8h.html#a29c75ccadb55ec28868638bd95f95962'', True, ''xed-operand-accessors.h'')],
    row ''xed3_5foperand_5fget_5frexb'' ''xed3_operand_get_rexb'' [(''../xed-operand-accessors_8h.html#a60c7d821605a405b50b8fc6b4c59b2a7'', True, ''xed-operand-accessors.h'')],
    row ''xed3_5foperand_5fget_5frexr'' ''xed3_operand_get_rexr'' [(''../xed-operand-accessors_8h.html#a362b24bd6d070e4b22780ef53fcda177'', True, ''xed-operand-accessors.h'')],
    row ''xed3_5foperand_5fget_5frexrr'' ''xed3_operand_get_rexrr'' [(''../xed-operand-accessors_8h.html#a5fb4ea9b17243c26458695a300146337'', True, ''xed-operand-accessors.h'')],
    row ''xed3_5foperand_5fget_5frexw'' ''xed3_operand_get_rexw'' [(''../xed-operand-accessors_8h.html#a22f139cc2a2c3cdfc2383f71becd694d'', True, ''xed-operand-accessors.h'')],
    row ''xed3_5foperand_5fget_5frexx'' ''xed3_operand_get_rexx'' [(''../xed-operand-accessors_8h.html#ac0f41361a82c26d1e6ff887deaebea39'', True, ''xed-operand-accessors.h'')],
    row ''xed3_5foperand_5fget_5frm'' ''xed3_operand_get_rm'' [(''../xed-operand-accessors_8h.html#a84c14d5b2e8c55a3e91fd2a2849db37e'', True, ''xed-operand-accessors.h'')],
    row ''xed3_5foperand_5fget_5froundc'' ''xed3_operand_get_roundc'' [(''../xed-operand-accessors_8h.html#a1c947c178d9ad0665fbed045e7b20a4e'', True, ''xed-operand-accessors.h'')],
    row ''xed3_5foperand_5fget_5fsae'' ''xed3_operand_get_sae'' [(''../xed-operand-accessors_8h.html#a276aa7573e9045f6c6555234479f5978'', True, ''xed-operand-accessors.h'')],
    row ''xed3_5foperand_5fget_5fscale'' ''xed3_operand_get_scale'' [(''../xed-operand-accessors_8h.html#a9e936b682cf66085095cb151d8a0faf5'', True, ''xed-operand-accessors.h'')],
    row ''xed3_5foperand_5fget_5fseg0'' ''xed3_operand_get_seg0'' [(''../xed-operand-accessors_8h.html#a9cb0b61385c7bce565ca6b3c56343f36'', True, ''xed-operand-accessors.h'')],
    row ''xed3_5foperand_5fget_5fseg1'' ''xed3_operand_get_seg1'' [(''../xed-operand-accessors_8h.html#af4b3fc44a6d346f0d70ece968f3b04df'', True, ''xed-operand-accessors.h'')],
    row ''xed3_5foperand_5fget_5fseg_5fovd'' ''xed3_operand_get_seg_ovd'' [(''../xed-operand-accessors_8h.html#a61983ed9ac6bd7f78d33800a006a3054'', True, ''xed-operand-accessors.h'')],
    row ''xed3_5foperand_5fget_5fsib'' ''xed3_operand_get_sib'' [(''../xed-operand-accessors_8h.html#a1e5380a740d1f1ca6d8a544b1b2b87c6'', True, ''xed-operand-accessors.h'')],
    row ''xed3_5foperand_5fget_5fsibbase'' ''xed3_operand_get_sibbase'' [(''../xed-operand-accessors_8h.html#ac41aaeac270af9b68ca096606a2e5e9b'', True, ''xed-operand-accessors.h'')],
    row ''xed3_5foperand_5fget_5fsibindex'' ''xed3_operand_get_sibindex'' [(''../xed-operand-accessors_8h.html#aa7e7737ac99780c34bbd58cbcfad5ecf'', True, ''xed-operand-accessors.h'')],
    row ''xed3_5foperand_5fget_5fsibscale'' ''xed3_operand_get_sibscale'' [(''../xed-operand-accessors_8h.html#a2cdcbf08f2a98ddcaf1f4c39c4d28988'', True, ''xed-operand-accessors.h'')],
    row ''xed3_5foperand_5fget_5fskip_5fosz'' ''xed3_operand_get_skip_osz'' [(''../xed-operand-accessors_8h.html#a83bac4dc25ca382248c9459aa1e6c2a8'', True, ''xed-operand-accessors.h'')],
    row ''xed3_5foperand_5fget_5fsmode'' ''xed3_operand_get_smode'' [(''../xed-operand-accessors_8h.html#a07653bc6daf42c83414878f75ecd2cb5'', True, ''xed-operand-accessors.h'')],
    row ''xed3_5foperand_5fget_5fsreg'' ''xed3_operand_get_sreg'' [(''../xed-operand-accessors_8h.html#abd73050e8621ec2911313be94e38e155'', True, ''xed-operand-accessors.h'')],
    row ''xed3_5foperand_5fget_5fsrm'' ''xed3_operand_get_srm'' [(''../xed-operand-accessors_8h.html#afbc86da6cfc675b3f287b87eb6edbfe6'', True, ''xed-operand-accessors.h'')],
    row ''xed3_5foperand_5fget_5ftype'' ''xed3_operand_get_type'' [(''../xed-operand-accessors_8h.html#a8e1c6fb03eae8ecc9a7ccab6ebe4e659'', True, ''xed-operand-accessors.h'')],
    row ''xed3_5foperand_5fget_5fubit'' ''xed3_operand_get_ubit'' [(''../xed-operand-accessors_8h.html#ab6588d305024611a061c9af79c1f1ca5'', True, ''xed-operand-accessors.h'')],
    row ''xed3_5foperand_5fget_5fuimm0'' ''xed3_operand_get_uimm0'' [(''../xed-operand-accessors_8h.html#abe6795d0ed348a9c8f028ccad03ffbd7'', True, ''xed-operand-accessors.h'')],
    row ''xed3_5foperand_5fget_5fuimm1'' ''xed3_operand_get_uimm1'' [(''../xed-operand-accessors_8h.html#aa1246728714136b953cc7fd1eb83608f'', True, ''xed-operand-accessors.h'')],
    row ''xed3_5foperand_5fget_5fusing_5fdefault_5fsegment0'' ''xed3_operand_get_using_default_segment0'' [(''../xed-operand-accessors_8h.html#ab8c1185e3e7efe7b0c49cb92b7eacdc9'', True, ''xed-operand-accessors.h'')],
    row ''xed3_5foperand_5fget_5fusing_5fdefault_5fsegment1'' ''xed3_operand_get_using_default_segment1'' [(''../xed-operand-accessors_8h.html#af44b4bb1cceb7cbe6cf84503f16292a1'', True, ''xed-operand-accessors.h'')],
    row ''xed3_5foperand_5fget_5fvex_5fc4'' ''xed3_operand_get_vex_c4'' [(''../xed-operand-accessors_8h.html#a7049ebbdb943cd2e9ebcd7e81b886455'', True, ''xed-operand-accessors.h'')],
    row ''xed3_5foperand_5fget_5fvex_5fprefix'' ''xed3_operand_get_vex_prefix'' [(''../xed-operand-accessors_8h.html#a853e3c7ed4d6584b62b37cf65e25e82e'', True, ''xed-operand-accessors.h'')],
    row ''xed3_5foperand_5fget_5fvexdest210'' ''xed3_operand_get_vexdest210'' [(''../xed-operand-accessors_8h.html#a322f0591b7daef6dfa674d594784138f'', True, ''xed-operand-accessors.h'')],
    row ''xed3_5foperand_5fget_5fvexdest3'' ''xed3_operand_get_vexdest3'' [(''../xed-operand-accessors_8h.html#aee06648d3826aa13165298cb4ce14793'', True, ''xed-operand-accessors.h'')],
    row ''xed3_5foperand_5fget_5fvexdest4'' ''xed3_operand_get_vexdest4'' [(''../xed-operand-accessors_8h.html#a040044145d187dd583addb68ad7cde4e'', True, ''xed-operand-accessors.h'')],
    row ''xed3_5foperand_5fget_5fvexvalid'' ''xed3_operand_get_vexvalid'' [(''../xed-operand-accessors_8h.html#a86b0c3a65894cc594fea2adcf2036d21'', True, ''xed-operand-accessors.h'')],
    row ''xed3_5foperand_5fget_5fvl'' ''xed3_operand_get_vl'' [(''../xed-operand-accessors_8h.html#a4d08319933fa41df36c8e1e5b350980d'', True, ''xed-operand-accessors.h'')],
    row ''xed3_5foperand_5fget_5fzeroing'' ''xed3_operand_get_zeroing'' [(''../xed-operand-accessors_8h.html#a9249c99df833309c7321ceab53e20822'', True, ''xed-operand-accessors.h'')],
    row ''xed3_5foperand_5fset_5fagen'' ''xed3_operand_set_agen'' [(''../xed-operand-accessors_8h.html#aa928287fe07b682a80cd6d6c5cc906ca'', True, ''xed-operand-accessors.h'')],
    row ''xed3_5foperand_5fset_5famd3dnow'' ''xed3_operand_set_amd3dnow'' [(''../xed-operand-accessors_8h.html#ac4119040487b704cbca826dac87a1287'', True, ''xed-operand-accessors.h'')],
    row ''xed3_5foperand_5fset_5fasz'' ''xed3_operand_set_asz'' [(''../xed-operand-accessors_8h.html#add6ca8cc8e648b0213b1af546882e1b4'', True, ''xed-operand-accessors.h'')],
    row ''xed3_5foperand_5fset_5fbase0'' ''xed3_operand_set_base0'' [(''../xed-operand-accessors_8h.html#adc28caf5812e769d65c299330c04b0fe'', True, ''xed-operand-accessors.h'')],
    row ''xed3_5foperand_5fset_5fbase1'' ''xed3_operand_set_base1'' [(''../xed-operand-accessors_8h.html#a54294ae17268f5a9ec350fc7ff4cddd1'', True, ''xed-operand-accessors.h'')],
    row ''xed3_5foperand_5fset_5fbcast'' ''xed3_operand_set_bcast'' [(''../xed-operand-accessors_8h.html#abd90284b99f0d9a22fa1fcb5a770fbde'', True, ''xed-operand-accessors.h'')],
    row ''xed3_5foperand_5fset_5fbcrc'' ''xed3_operand_set_bcrc'' [(''../xed-operand-accessors_8h.html#a552dae3aa4003e6d87795e1d37b566f7'', True, ''xed-operand-accessors.h'')],
    row ''xed3_5foperand_5fset_5fbrdisp_5fwidth'' ''xed3_operand_set_brdisp_width'' [(''../xed-operand-accessors_8h.html#a91c1f7c7b84d817f345e12431f0730c1'', True, ''xed-operand-accessors.h'')],
    row ''xed3_5foperand_5fset_5fchip'' ''xed3_operand_set_chip'' [(''../xed-operand-accessors_8h.html#a5811acb7234721f70ea7f5dd544d7069'', True, ''xed-operand-accessors.h'')],
    row ''xed3_5foperand_5fset_5fdefault_5fseg'' ''xed3_operand_set_default_seg'' [(''../xed-operand-accessors_8h.html#a2c4b24e8ad190bab6ceb6279dfb00e8c'', True, ''xed-operand-accessors.h'')],
    row ''xed3_5foperand_5fset_5fdf32'' ''xed3_operand_set_df32'' [(''../xed-operand-accessors_8h.html#a416c3bf780552e636296ba8e0d4fafc1'', True, ''xed-operand-accessors.h'')],
    row ''xed3_5foperand_5fset_5fdf64'' ''xed3_operand_set_df64'' [(''../xed-operand-accessors_8h.html#a02bf9924665e17b4171eec62588dcad1'', True, ''xed-operand-accessors.h'')],
    row ''xed3_5foperand_5fset_5fdisp'' ''xed3_operand_set_disp'' [(''../xed-operand-accessors_8h.html#a70c3ff664ea619e792ced9523297d78d'', True, ''xed-operand-accessors.h'')],
    row ''xed3_5foperand_5fset_5fdisp_5fwidth'' ''xed3_operand_set_disp_width'' [(''../xed-operand-accessors_8h.html#a1f43cf847e4f8457fdf83c990398cfb3'', True, ''xed-operand-accessors.h'')],
    row ''xed3_5foperand_5fset_5fdummy'' ''xed3_operand_set_dummy'' [(''../xed-operand-accessors_8h.html#afc0ebe6f5dbcebeefdb2b4a4ee1d6b39'', True, ''xed-operand-accessors.h'')],
    row ''xed3_5foperand_5fset_5feasz'' ''xed3_operand_set_easz'' [(''../xed-operand-accessors_8h.html#ae2cfcab3184111f30850c4e261355bff'', True, ''xed-operand-accessors.h'')],
    row ''xed3_5foperand_5fset_5felement_5fsize'' ''xed3_operand_set_element_size'' [(''../xed-operand-accessors_8h.html#adf564e69fec05fcde029fd66e79d9d76'', True, ''xed-operand-accessors.h'')],
    row ''xed3_5foperand_5fset_5fencoder_5fpreferred'' ''xed3_operand_set_encoder_preferred'' [(''../xed-operand-accessors_8h.html#a1db2131e30ea811b55a956ff9086d493'', True, ''xed-operand-accessors.h'')],
    row ''xed3_5foperand_5fset_5feosz'' ''xed3_operand_set_eosz'' [(''../xed-operand-accessors_8h.html#a317cae92839bfe6b4eb6a68d5e792f1b'', True, ''xed-operand-accessors.h'')]]"

lemma functions_1_part1_ok: "list_all (row_ok 120) functions_1_part1"
  by (simp only: functions_1_part1_def row_checks)

definition functions_1_part2 :: "search_row list" where
  "functions_1_part2 = [
    row ''xed3_5foperand_5fset_5ferror'' ''xed3_operand_set_error'' [(''../xed-operand-accessors_8h.html#ab92413f46320f7d0b0fb2d407b9610c6'', True, ''xed-operand-accessors.h'')],
    row ''xed3_5foperand_5fset_5fesrc'' ''xed3_operand_set_esrc'' [(''../xed-operand-accessors_8h.html#aa7c827bfce86d8a64a1ba0d34bc839c9'', True, ''xed-operand-accessors.h'')],
    row ''xed3_5foperand_5fset_5fesrc3'' ''xed3_operand_set_esrc3'' [(''../xed-operand-accessors_8h.html#a6f6579a4db6ce61c6c9c99726d3e8a84'', True, ''xed-operand-accessors.h'')],
    row ''xed3_5foperand_5fset_5fevexrr'' ''xed3_operand_set_evexrr'' [(''../xed-operand-accessors_8h.html#aa1a59fb819f6a36c0034b7dc12a1dc00'', True, ''xed-operand-accessors.h'')],
    row ''xed3_5foperand_5fset_5ffirst_5ff2f3'' ''xed3_operand_set_first_f2f3'' [(''../xed-operand-accessors_8h.html#a70404f30eb0adfaa08ebcf51e799a126'', True, ''xed-operand-accessors.h'')],
    row ''xed3_5foperand_5fset_5fhas_5fmodrm'' ''xed3_operand_set_has_modrm'' [(''../xed-operand-accessors_8h.html#a74df0ea758722a75818cbd004103a87b'', True, ''xed-operand-accessors.h'')],
    row ''xed3_5foperand_5fset_5fhas_5fsib'' ''xed3_operand_set_has_sib'' [(''../xed-operand-accessors_8h.html#a373f4f8bdf89c3d932ac217e2fbe62ac'', True, ''xed-operand-accessors.h'')],
    row ''xed3_5foperand_5fset_5fhint'' ''xed3_operand_set_hint'' [(''../xed-operand-accessors_8h.html#a36a497b8cbef18c212600464b5f397e3'', True, ''xed-operand-accessors.h'')],
    row ''xed3_5foperand_5fset_5fhsw'' ''xed3_operand_set_hsw'' [(''../xed-operand-accessors_8h.html#a022bdff2979018f59a78329359e28f5a'', True, ''xed-operand-accessors.h'')],
    row ''xed3_5foperand_5fset_5ficlass'' ''xed3_operand_set_iclass'' [(''../xed-operand-accessors_8h.html#a2225c3afeb326dc6f8fa8f1d14435b0b'', True, ''xed-operand-accessors.h'')],
    row ''xed3_5foperand_5fset_5fild_5ff2'' ''xed3_operand_set_ild_f2'' [(''../xed-operand-accessors_8h.html#a299e881075b5e126598faae5bbcddc73'', True, ''xed-operand-accessors.h'')],
    row ''xed3_5foperand_5fset_5fild_5ff3'' ''xed3_operand_set_ild_f3'' [(''../xed-operand-accessors_8h.html#ab92b094e3093a6f581f30f8360430225'', True, ''xed-operand-accessors.h'')],
    row ''xed3_5foperand_5fset_5fild_5fseg'' ''xed3_operand_set_ild_seg'' [(''../xed-operand-accessors_8h.html#a5ff4fa74028fd60ace51565338e53237'', True, ''xed-operand-accessors.h'')],
    row ''xed3_5foperand_5fset_5fimm0'' ''xed3_operand_set_imm0'' [(''../xed-operand-accessors_8h.html#adc843b74f5d12af1dc458c008eb7b637'', True, ''xed-operand-accessors.h'')],
    row ''xed3_5foperand_5fset_5fimm0signed'' ''xed3_operand_set_imm0signed'' [(''../xed-operand-accessors_8h.html#ae5f14d1646dac0afa43e5784fa1b1ef0'', True, ''xed-operand-accessors.h'')],
    row ''xed3_5foperand_5fset_5fimm1'' ''xed3_operand_set_imm1'' [(''../xed-operand-accessors_8h.html#a5d28f0d9447d2e42ce7106f149cc8816'', True, ''xed-operand-accessors.h'')],
    row ''xed3_5foperand_5fset_5fimm1_5fbytes'' ''xed3_operand_set_imm1_bytes'' [(''../xed-operand-accessors_8h.html#a1c84ca7d757cc028a295227a2d98fe34'', True, ''xed-operand-accessors.h'')],
    row ''xed3_5foperand_5fset_5fimm_5fwidth'' ''xed3_operand_set_imm_width'' [(''../xed-operand-accessors_8h.html#a9a747813e6ff77e8c47d0c57c4be8494'', True, ''xed-operand-accessors.h'')],
    row ''xed3_5foperand_5fset_5findex'' ''xed3_operand_set_index'' [(''../xed-operand-accessors_8h.html#a7663667cd43b35aaccb670ff0d242c0e'', True, ''xed-operand-accessors.h'')],
    row ''xed3_5foperand_5fset_5flast_5ff2f3'' ''xed3_operand_set_last_f2f3'' [(''../xed-operand-accessors_8h.html#a8a63ecdf1b3deeb77acdd4d4a134143c'', True, ''xed-operand-accessors.h'')],
    row ''xed3_5foperand_5fset_5fllrc'' ''xed3_operand_set_llrc'' [(''../xed-operand-accessors_8h.html#a442eeb82b77db5bdafb4ae63744b84db'', True, ''xed-operand-accessors.h'')],
    row ''xed3_5foperand_5fset_5flock'' ''xed3_operand_set_lock'' [(''../xed-operand-accessors_8h.html#a4affc4b8a3cb6bf55037a3d51bc9cb00'', True, ''xed-operand-accessors.h'')],
    row ''xed3_5foperand_5fset_5flockable'' ''xed3_operand_set_lockable'' [(''../xed-operand-accessors_8h.html#aa1417d4e0972a3dbd289015832e3b61b'', True, ''xed-operand-accessors.h'')],
    row ''xed3_5foperand_5fset_5fmap'' ''xed3_operand_set_map'' [(''../xed-operand-accessors_8h.html#af712f2e85262d1eeb7a113617f31d6c8'', True, ''xed-operand-accessors.h'')],
    row ''xed3_5foperand_5fset_5fmask'' ''xed3_operand_set_mask'' [(''../xed-operand-accessors_8h.html#ad04f6988543433b0658efb8b6eb6e5d9'', True, ''xed-operand-accessors.h'')],
    row ''xed3_5foperand_5fset_5fmax_5fbytes'' ''xed3_operand_set_max_bytes'' [(''../xed-operand-accessors_8h.html#ac20779940f54e15b4567b1037c65e939'', True, ''xed-operand-accessors.h'')],
    row ''xed3_5foperand_5fset_5fmem0'' ''xed3_operand_set_mem0'' [(''../xed-operand-accessors_8h.html#a5b0e163aed68c3f708dfda38b04971ac'', True, ''xed-operand-accessors.h'')],
    row ''xed3_5foperand_5fset_5fmem1'' ''xed3_operand_set_mem1'' [(''../xed-operand-accessors_8h.html#a8137ff9f71c2804a241b5275aac45566'', True, ''xed-operand-accessors.h'')],
    row ''xed3_5foperand_5fset_5fmem_5fwidth'' ''xed3_operand_set_mem_width'' [(''../xed-operand-accessors_8h.html#a9963d4e0318c075233810c0c60b18fcd'', True, ''xed-operand-accessors.h'')],
    row ''xed3_5foperand_5fset_5fmod'' ''xed3_operand_set_mod'' [(''../xed-operand-accessors_8h.html#a07ce5c0b5762d21034869f8bed2ba244'', True, ''xed-operand-accessors.h'')],
    row ''xed3_5foperand_5fset_5fmode'' ''xed3_operand_set_mode'' [(''../xed-operand-accessors_8h.html#ab43172ad9ccbdc9f9c6b977584ea67ef'', True, ''xed-operand-accessors.h'')],
    row ''xed3_5foperand_5fset_5fmode_5ffirst_5fprefix'' ''xed3_operand_set_mode_first_prefix'' [(''../xed-operand-accessors_8h.html#a955f6d7c8590a8fbf33bc9f9a6e86584'', True, ''xed-operand-accessors.h'')],
    row ''xed3_5foperand_5fset_5fmodep5'' ''xed3_operand_set_modep5'' [(''../xed-operand-accessors_8h.html#a95c4b13a9306b3d5d0a3f97062f261b1'', True, ''xed-operand-accessors.h'')],
    row ''xed3_5foperand_5fset_5fmodep55c'' ''xed3_operand_set_modep55c'' [(''../xed-operand-accessors_8h.html#a452dfaaca4c9ed692bd0ea0b06ff4a14'', True, ''xed-operand-accessors.h'')],
    row ''xed3_5foperand_5fset_5fmodrm'' ''xed3_operand_set_modrm'' [(''../xed-operand-accessors_8h.html#a9ee3256649845e66df72e6cf9ffdd483'', True, ''xed-operand-accessors.h'')],
    row ''xed3_5foperand_5fset_5fmodrm_5fbyte'' ''xed3_operand_set_modrm_byte'' [(''../xed-operand-accessors_8h.html#a76cd6c9f32c601f16ab03424dd5ab8b4'', True, ''xed-operand-accessors.h'')],
    row ''xed3_5foperand_5fset_5fmpxmode'' ''xed3_operand_set_mpxmode'' [(''../xed-operand-accessors_8h.html#a2cab05654ad5c4018faf2be46909614a'', True, ''xed-operand-accessors.h'')],
    row ''xed3_5foperand_5fset_5fneed_5fmemdisp'' ''xed3_operand_set_need_memdisp'' [(''../xed-operand-accessors_8h.html#a4025503a2c0a2ac5c49124297f31ba9a'', True, ''xed-operand-accessors.h'')],
    row ''xed3_5foperand_5fset_5fneedrex'' ''xed3_operand_set_needrex'' [(''../xed-operand-accessors_8h.html#ad91fb7e2901f0c35911b9f96965efe48'', True, ''xed-operand-accessors.h'')],
    row ''xed3_5foperand_5fset_5fnelem'' ''xed3_operand_set_nelem'' [(''../xed-operand-accessors_8h.html#a97ddfc53ca7f54cd8dfed65a444a7e33'', True, ''xed-operand-accessors.h'')],
    row ''xed3_5foperand_5fset_5fno_5fscale_5fdisp8'' ''xed3_operand_set_no_scale_disp8'' [(''../xed-operand-accessors_8h.html#a4b6d70829d5d4c8f8c4495abea69e1a5'', True, ''xed-operand-accessors.h'')],
    row ''xed3_5foperand_5fset_5fnominal_5fopcode'' ''xed3_operand_set_nominal_opcode'' [(''../xed-operand-accessors_8h.html#aef2ac5c021f1b8db4b512c44e0fee447'', True, ''xed-operand-accessors.h'')],
    row ''xed3_5foperand_5fset_5fnorex'' ''xed3_operand_set_norex'' [(''../xed-operand-accessors_8h.html#ad8471d48832d69bb8ba6138472958466'', True, ''xed-operand-accessors.h'')],
    row ''xed3_5foperand_5fset_5fnprefixes'' ''xed3_operand_set_nprefixes'' [(''../xed-operand-accessors_8h.html#aa9a0595b8c1990cab591c3554fc5a71a'', True, ''xed-operand-accessors.h'')],
    row ''xed3_5foperand_5fset_5fnrexes'' ''xed3_operand_set_nrexes'' [(''../xed-operand-accessors_8h.html#a675bf8e3072ac2a75e670143cfde950d'', True, ''xed-operand-accessors.h'')],
    row ''xed3_5foperand_5fset_5fnseg_5fprefixes'' ''xed3_operand_set_nseg_prefixes'' [(''../xed-operand-accessors_8h.html#a2d9056e9a1aa716d93df691d294c41b3'', True, ''xed-operand-accessors.h'')],
    row ''xed3_5foperand_5fset_5fosz'' ''xed3_operand_set_osz'' [(''../xed-operand-accessors_8h.html#a2b140c9eeaeb83ff540f7421c789ebbc'', True, ''xed-operand-accessors.h'')],
    row ''xed3_5foperand_5fset_5fout_5fof_5fbytes'' ''xed3_operand_set_out_of_bytes'' [(''../xed-operand-accessors_8h.html#ab4dda0174a28aac3d57580cf93905d24'', True, ''xed-operand-accessors.h'')],
    row ''xed3_5foperand_5fset_5foutreg'' ''xed3_operand_set_outreg'' [(''../xed-operand-accessors_8h.html#ae7887498b8ddc29bc282ff9f767d4c0b'', True, ''xed-operand-accessors.h'')],
    row ''xed3_5foperand_5fset_5fp4'' ''xed3_operand_set_p4'' [(''../xed-operand-accessors_8h.html#a665c50ec7837b6844463359b9801ed15'', True, ''xed-operand-accessors.h'')],
    row ''xed3_5foperand_5fset_5fpos_5fdisp'' ''xed3_operand_set_pos_disp'' [(''../xed-operand-accessors_8h.html#a9572e04a38766145b8e2c8eaa5560696'', True, ''xed-operand-accessors.h'')],
    row ''xed3_5foperand_5fset_5fpos_5fimm'' ''xed3_operand_set_pos_imm'' [(''../xed-operand-accessors_8h.html#a42669e341995f3b1dbf7a92065f5073b'', True, ''xed-operand-accessors.h'')],
    row ''xed3_5foperand_5fset_5fpos_5fimm1'' ''xed3_operand_set_pos_imm1'' [(''../xed-operand-accessors_8h.html#a8d668f8e29595ded49fda74330db3f19'', True, ''xed-operand-accessors.h'')],
    row ''xed3_5foperand_5fset_5fpos_5fmodrm'' ''xed3_operand_set_pos_modrm'' [(''../xed-operand-accessors_8h.html#a8472e2fd21f38a4037597c185ee6da8b'', True, ''xed-operand-accessors.h'')],
    row ''xed3_5foperand_5fset_5fpos_5fnominal_5fopcode'' ''xed3_operand_set_pos_nominal_opcode'' [(''../xed-operand-accessors_8h.html#a778bb69be6d7009eb479e09db7fc8075'', True, ''xed-operand-accessors.h'')],
    row ''xed3_5foperand_5fset_5fpos_5fsib'' ''xed3_operand_set_pos_sib'' [(''../xed-operand-accessors_8h.html#a6dd57e1ebe271449b4b6d033b8be192e'', True, ''xed-operand-accessors.h'')],
    row ''xed3_5foperand_5fset_5fprefix66'' ''xed3_operand_set_prefix66'' [(''../xed-operand-accessors_8h.html#a71bf5ce673717e38de38f94967c2530c'', True, ''xed-operand-accessors.h'')],
    row ''xed3_5foperand_5fset_5fptr'' ''xed3_operand_set_ptr'' [(''../xed-operand-accessors_8h.html#af19199cba21a3a69f8858a787a9aac17'', True, ''xed-operand-accessors.h'')],
    row ''xed3_5foperand_5fset_5frealmode'' ''xed3_operand_set_realmode'' [(''../xed-operand-accessors_8h.html#aac46544f2e8367158713b8fb10bf0797'', True, ''xed-operand-accessors.h'')],
    row ''xed3_5foperand_5fset_5frefining'' ''xed3_operand_set_refining'' [(''../xed-operand-accessors_8h.html#a2dd0ce18965ca1b3e9bd4468783ca9dc'', True, ''xed-operand-accessors.h'')],
    row ''xed3_5foperand_5fset_5freg'' ''xed3_operand_set_reg'' [(''../xed-operand-accessors_8h.html#a959cd4aa5e64134d5554798caa73eb91'', True, ''xed-operand-accessors.h'')],
    row ''xed3_5foperand_5fset_5freg0'' ''xed3_operand_set_reg0'' [(''../xed-operand-accessors_8h.html#adf74786ea03c5c8c61f6e041c2d5f901'', True, ''xed-operand-accessors.h'')],
    row ''xed3_5foperand_5fset_5freg1'' ''xed3_operand_set_reg1'' [(''../xed-operand-accessors_8h.html#ae47085cf6a0b0dbde06856e377f7b392'', True, ''xed-operand-accessors.h'')],
    row ''xed3_5foperand_5fset_5freg2'' ''xed3_operand_set_reg2'' [(''../xed-operand-accessors_8h.html#ad521d5deafd4c77abbb9925e22994e34'', True, ''xed-operand-accessors.h'')],
    row ''xed3_5foperand_5fset_5freg3'' ''xed3_operand_set_reg3'' [(''../xed-operand-accessors_8h.html#ad41af15e098b98824f6cb23374098d46'', True, ''xed-operand-accessors.h'')],
    row ''xed3_5foperand_5fset_5freg4'' ''xed3_operand_set_reg4'' [(''../xed-operand-accessors_8h.html#ab6a2667fa478e1e9fa248c89c7c65f33'', True, ''xed-operand-accessors.h'')],
    row ''xed3_5foperand_5fset_5freg5'' ''xed3_operand_set_reg5'' [(''../xed-operand-accessors_8h.html#a8ec47a267187f2625ce8abc960bd7e87'', True, ''xed-operand-accessors.h'')],
    row ''xed3_5foperand_5fset_5freg6'' ''xed3_operand_set_reg6'' [(''../xed-operand-accessors_8h.html#aa894f82274a3d02c254f09505e37fd15'', True, ''xed-operand-accessors.h'')],
    row ''xed3_5foperand_5fset_5freg7'' ''xed3_operand_set_reg7'' [(''../xed-operand-accessors_8h.html#ac9f8fe96774cda4b9328397801663f00'', True, ''xed-operand-accessors.h'')],
    row ''xed3_5foperand_5fset_5freg8'' ''xed3_operand_set_reg8'' [(''../xed-operand-accessors_8h.html#a7891a6294eea24a2c296e2bf51d460d9'', True, ''xed-operand-accessors.h'')],
    row ''xed3_5foperand_5fset_5frelbr'' ''xed3_operand_set_relbr'' [(''../xed-operand-accessors_8h.html#a39d97a60b13500f02e39d1fea922b2a0'', True, ''xed-operand-accessors.h'')],
    row ''xed3_5foperand_5fset_5frep'' ''xed3_operand_set_rep'' [(''../xed-operand-accessors_8h.html#af9b63ae414f8b7eeded047d94c4e13a2'', True, ''xed-operand-accessors.h'')],
    row ''xed3_5foperand_5fset_5frep_5fable'' ''xed3_operand_set_rep_able'' [(''../xed-operand-accessors_8h.html#a13fa4255d0249095595cfbb6e5d37167'', True, ''xed-operand-accessors.h'')],
    row ''xed3_5foperand_5fset_5frex'' ''xed3_operand_set_rex'' [(''../xed-operand-accessors_8h.html#a871b8b13b0e704514a0f5b5dddd9ff6a'', True, ''xed-operand-accessors.h'')],
    row ''xed3_5foperand_5fset_5frexb'' ''xed3_operand_set_rexb'' [(''../xed-operand-accessors_8h.html#abad54dd6dfc3ebd2b1e6963d65de3c6e'', True, ''xed-operand-accessors.h'')],
    row ''xed3_5foperand_5fset_5frexr'' ''xed3_operand_set_rexr'' [(''../xed-operand-accessors_8h.html#af8f4b061987cd72eb036496bc1851d70'', True, ''xed-operand-accessors.h'')],
    row ''xed3_5foperand_5fset_5frexrr'' ''xed3_operand_set_rexrr'' [(''../xed-operand-accessors_8h.html#a33a98a4fe75b3640fd2d8805ae56d571'', True, ''xed-operand-accessors.h'')],
    row ''xed3_5foperand_5fset_5frexw'' ''xed3_operand_set_rexw'' [(''../xed-operand-accessors_8h.html#a3e7ced6a21ac72c9e92a2d12c3573d49'', True, ''xed-operand-accessors.h'')],
    row ''xed3_5foperand_5fset_5frexx'' ''xed3_operand_set_rexx'' [(''../xed-operand-accessors_8h.html#a48a8eab6d7ca5e26ba03a138d0720845'', True, ''xed-operand-accessors.h'')],
    row ''xed3_5foperand_5fset_5frm'' ''xed3_operand_set_rm'' [(''../xed-operand-accessors_8h.html#abf37e59c4e44a0e41b193d045d021475'', True, ''xed-operand-accessors.h'')],
    row ''xed3_5foperand_5fset_5froundc'' ''xed3_operand_set_roundc'' [(''../xed-operand-accessors_8h.html#ab3b4fbe90eeed66432adaf2d56242e80'', True, ''xed-operand-accessors.h'')],
    row ''xed3_5foperand_5fset_5fsae'' ''xed3_operand_set_sae'' [(''../xed-operand-accessors_8h.html#a291438d2b0281295f578ffd4b6154dd7'', True, ''xed-operand-accessors.h'')],
    row ''xed3_5foperand_5fset_5fscale'' ''xed3_operand_set_scale'' [(''../xed-operand-accessors_8h.html#ac600460bc7adc8654423e3d53a7c4005'', True, ''xed-operand-accessors.h'')],
    row ''xed3_5foperand_5fset_5fseg0'' ''xed3_operand_set_seg0'' [(''../xed-operand-accessors_8h.html#a63806d11bd448fd26c15f0eda6ca2896'', True, ''xed-operand-accessors.h'')],
    row ''xed3_5foperand_5fset_5fseg1'' ''xed3_operand_set_seg1'' [(''../xed-operand-accessors_8h.html#a088c51b726ba30247c5742411fbbe361'', True, ''xed-operand-accessors.h'')],
    row ''xed3_5foperand_5fset_5fseg_5fovd'' ''xed3_operand_set_seg_ovd'' [(''../xed-operand-accessors_8h.html#a47d714371be1de64be6df7206fc0cb89'', True, ''xed-operand-accessors.h'')],
    row ''xed3_5foperand_5fset_5fsib'' ''xed3_operand_set_sib'' [(''../xed-operand-accessors_8h.html#acf0c4a9201d8cde76a5881beb7219226'', True, ''xed-operand-accessors.h'')],
    row ''xed3_5foperand_5fset_5fsibbase'' ''xed3_operand_set_sibbase'' [(''../xed-operand-accessors_8h.html#a213c5ffd78b0938a45eb3b9c719ea0f7'', True, ''xed-operand-accessors.h'')],
    row ''xed3_5foperand_5fset_5fsibindex'' ''xed3_operand_set_sibindex'' [(''../xed-operand-accessors_8h.html#ad98313f98dd2c134013fae18819b3dcd'', True, ''xed-operand-accessors.h'')],
    row ''xed3_5foperand_5fset_5fsibscale'' ''xed3_operand_set_sibscale'' [(''../xed-operand-accessors_8h.html#a62ad89ed5453a6088d7e779d834f93d7'', True, ''xed-operand-accessors.h'')],
    row ''xed3_5foperand_5fset_5fskip_5fosz'' ''xed3_operand_set_skip_osz'' [(''../xed-operand-accessors_8h.html#a651c02cf031239da9b8a6939c064f2d6'', True, ''xed-operand-accessors.h'')],
    row ''xed3_5foperand_5fset_5fsmode'' ''xed3_operand_set_smode'' [(''../xed-operand-accessors_8h.html#ab0665b23e9af73ef7c7c8ad455081b8c'', True, ''xed-operand-accessors.h'')],
    row ''xed3_5foperand_5fset_5fsreg'' ''xed3_operand_set_sreg'' [(''../xed-operand-accessors_8h.html#ab11ee8a35badc93b5bd13f9d92d92666'', True, ''xed-operand-accessors.h'')],
    row ''xed3_5foperand_5fset_5fsrm'' ''xed3_operand_set_srm'' [(''../xed-operand-accessors_8h.html#a5b73be9683ab063b2f693be60f4f465c'', True, ''xed-operand-accessors.h'')],
    row ''xed3_5foperand_5fset_5ftype'' ''xed3_operand_set_type'' [(''../xed-operand-accessors_8h.html#a73797dc0256bd0b66b4e1474a97510c9'', True, ''xed-operand-accessors.h'')],
    row ''xed3_5foperand_5fset_5fubit'' ''xed3_operand_set_ubit'' [(''../xed-operand-accessors_8h.html#a3963bcbfe7401531d7376e793714ea3c'', True, ''xed-operand-accessors.h'')],
    row ''xed3_5foperand_5fset_5fuimm0'' ''xed3_operand_set_uimm0'' [(''../xed-operand-accessors_8h.html#a61e53d4a10377cfb1c7cbca536148d94'', True, ''xed-operand-accessors.h'')],
    row ''xed3_5foperand_5fset_5fuimm1'' ''xed3_operand_set_uimm1'' [(''../xed-operand-accessors_8h.html#aad1faef5fa04cd3df209fe98558a01ae'', True, ''xed-operand-accessors.h'')],
    row ''xed3_5foperand_5fset_5fusing_5fdefault_5fsegment0'' ''xed3_operand_set_using_default_segment0'' [(''../xed-operand-accessors_8h.html#af415993718223e62c8cdb95e67e22cd6'', True, ''xed-operand-accessors.h'')],
    row ''xed3_5foperand_5fset_5fusing_5fdefault_5fsegment1'' ''xed3_operand_set_using_default_segment1'' [(''../xed-operand-accessors_8h.html#a032a88b4e1543cdaaf2dafff6ad8be6b'', True, ''xed-operand-accessors.h'')],
    row ''xed3_5foperand_5fset_5fvex_5fc4'' ''xed3_operand_set_vex_c4'' [(''../xed-operand-accessors_8h.html#a09b46367a42f779a4665bebce40ec25e'', True, ''xed-operand-accessors.h'')],
    row ''xed3_5foperand_5fset_5fvex_5fprefix'' ''xed3_operand_set_vex_prefix'' [(''../xed-operand-accessors_8h.html#a1ed4ad11c81396c6312b65cc6c9b1717'', True, ''xed-operand-accessors.h'')],
    row ''xed3_5foperand_5fset_5fvexdest210'' ''xed3_operand_set_vexdest210'' [(''../xed-operand-accessors_8h.html#abca41056b33128d01345e1878b9f7bc8'', True, ''xed-operand-accessors.h'')],
    row ''xed3_5foperand_5fset_5fvexdest3'' ''xed3_operand_set_vexdest3'' [(''../xed-operand-accessors_8h.html#aecbb70bbb7f155ce5ea0b1aff7e91a9b'', True, ''xed-operand-accessors.h'')],
    row ''xed3_5foperand_5fset_5fvexdest4'' ''xed3_operand_set_vexdest4'' [(''../xed-operand-accessors_8h.html#adc1b5598d30bdce375d4f723fc5e096e'', True, ''xed-operand-accessors.h'')],
    row ''xed3_5foperand_5fset_5fvexvalid'' ''xed3_operand_set_vexvalid'' [(''../xed-operand-accessors_8h.html#a3a5d326c44ace45e0e759f782ae09765'', True, ''xed-operand-accessors.h'')],
    row ''xed3_5foperand_5fset_5fvl'' ''xed3_operand_set_vl'' [(''../xed-operand-accessors_8h.html#adcaebd214aa9b9d18d2929b3cd44f340'', True, ''xed-operand-accessors.h'')],
    row ''xed3_5foperand_5fset_5fzeroing'' ''xed3_operand_set_zeroing'' [(''../xed-operand-accessors_8h.html#a05d5213e556ff6323a80004a6806a674'', True, ''xed-operand-accessors.h'')],
    row ''xed3_5fset_5fgeneric_5foperand'' ''xed3_set_generic_operand'' [(''../xed-operand-accessors_8h.html#a4efc9e254953e44135389490ba8a7b49'', True, ''xed-operand-accessors.h'')],
    row ''xed_5faddr'' ''xed_addr'' [(''../group__ENCHL.html#ga45d3dcf13214e284b37e182d6881ce92'', True, ''xed-encoder-hl.h'')],
    row ''xed_5faddress_5fwidth_5fenum_5ft2str'' ''xed_address_width_enum_t2str'' [(''../group__ENUM.html#gac32c87e79674c2eec82fc534fc510473'', True, ''xed-address-width-enum.h'')],
    row ''xed_5faddress_5fwidth_5fenum_5ft_5flast'' ''xed_address_width_enum_t_last'' [(''../group__ENUM.html#ga33a055078a60078e6995fe42d2590dc7'', True, ''xed-address-width-enum.h'')],
    row ''xed_5fagen'' ''xed_agen'' [(''../group__AGEN.html#ga5d9563bb7dbe87e21914fb59ac4e2476'', True, ''xed-agen.h'')],
    row ''xed_5fagen_5fregister_5fcallback'' ''xed_agen_register_callback'' [(''../group__AGEN.html#gaa111cc1eca35094f34c4349f9dec5668'', True, ''xed-agen.h'')],
    row ''xed_5fattribute'' ''xed_attribute'' [(''../group__DEC.html#ga38f0b100d724d97d80a8291a494dde06'', True, ''xed-inst.h'')],
    row ''xed_5fattribute_5fenum_5ft2str'' ''xed_attribute_enum_t2str'' [(''../group__ENUM.html#ga46e1e07daead7a33e8704bc684fe795c'', True, ''xed-attribute-enum.h'')],
    row ''xed_5fattribute_5fenum_5ft_5flast'' ''xed_attribute_enum_t_last'' [(''../group__ENUM.html#ga0fd9c06747c9755c0e631746acbd5661'', True, ''xed-attribute-enum.h'')],
    row ''xed_5fattribute_5fmax'' ''xed_attribute_max'' [(''../group__DEC.html#ga69fd7ed52eedd5fc2811050ab51903a4'', True, ''xed-inst.h'')],
    row ''xed_5fcategory_5fenum_5ft2str'' ''xed_category_enum_t2str'' [(''../group__ENUM.html#ga14cc11e45d2f7ef8af382c8304682216'', True, ''xed-category-enum.h'')],
    row ''xed_5fcategory_5fenum_5ft_5flast'' ''xed_category_enum_t_last'' [(''../group__ENUM.html#ga97cf2ec4b3a8616cd8ac347d18624bf7'', True, ''xed-category-enum.h'')],
    row ''xed_5fchip_5fenum_5ft2str'' ''xed_chip_enum_t2str'' [(''../group__ENUM.html#gacdf25ff28bf589d92c8d7740fbca9902'', True, ''xed-chip-enum.h'')],
    row ''xed_5fchip_5fenum_5ft_5flast'' ''xed_chip_enum_t_last'' [(''../group__ENUM.html#gae1493f95f3c18922653568a787eae70e'', True, ''xed-chip-enum.h'')],
    row ''xed_5fconvert_5fto_5fencoder_5frequest'' ''xed_convert_to_encoder_request'' [(''../group__ENCHL.html#gac53594aeb5688c348000a7424d559aac'', True, ''xed-encoder-hl.h'')],
    row ''xed_5fdecode'' ''xed_decode'' [(''../group__DEC.html#ga9a27c2bb97caf98a6024567b261d0652'', True, ''xed-decode.h'')],
    row ''xed_5fdecoded_5finst_5fconditionally_5fwrites_5fregisters'' ''xed_decoded_inst_conditionally_writes_registers'' [(''../group__DEC.html#gad267d2d08e002b027915248689d1defe'', True, ''xed-decoded-inst-api.h'')],
    row ''xed_5fdecoded_5finst_5fdump'' ''xed_decoded_inst_dump'' [(''../group__PRINT.html#ga988943de2c61305278f50a26bb9945bc'', True, ''xed-decoded-inst-api.h'')],
    row ''xed_5fdecoded_5finst_5fdump_5fxed_5fformat'' ''xed_decoded_inst_dump_xed_format'' [(''../group__PRINT.html#gafc335b6bbcbfaadcf3b4c5174c9e9444'', True, ''xed-decoded-inst-api.h'')],
    row ''xed_5fdecoded_5finst_5fget_5fattribute'' ''xed_decoded_inst_get_attribute'' [(''../group__DEC.html#gaca8af81eeb8a2613a3710f2163674bf7'', True, ''xed-decoded-inst-api.h'')],
    row ''xed_5fdecoded_5finst_5fget_5fattributes'' ''xed_decoded_inst_get_attributes'' [(''../group__DEC.html#ga909d5dd4b05d60a655e9412283bb700f'', True, ''xed-decoded-inst-api.h'')],
    row ''xed_5fdecoded_5finst_5fget_5fbase_5freg'' ''xed_decoded_inst_get_base_reg'' [(''../group__DEC.html#gaef27a2e2c7c6cb84d8e6ba239267172a'', True, ''xed-decoded-inst-api.h'')],
    row ''xed_5fdecoded_5finst_5fget_5fbranch_5fdisplacement'' ''xed_decoded_inst_get_branch_displacement'' [(''../group__DEC.html#gaada9b13de03dfeefff70f2d219504aae'', True, ''xed-decoded-inst-api.h'')],
    row ''xed_5fdecoded_5finst_5fget_5fbranch_5fdisplacement_5fwidth'' ''xed_decoded_inst_get_branch_displacement_width'' [(''../group__DEC.html#ga6ce6a33dea91f1cb846c78cf2848be58'', True, ''xed-decoded-inst-api.h'')],
    row ''xed_5fdecoded_5finst_5fget_5fbranch_5fdisplacement_5fwidth_5fbits'' ''xed_decoded_inst_get_branch_displacement_width_bits'' [(''../group__DEC.html#ga6983743d83d51517bae4404d3345b865'', True, ''xed-decoded-inst-api.h'')],
    row ''xed_5fdecoded_5finst_5fget_5fbyte'' ''xed_decoded_inst_get_byte'' [(''../group__DEC.html#ga89defb76a530889fb56b00ed2094d569'', True, ''xed-decoded-inst-api.h'')],
    row ''xed_5fdecoded_5finst_5fget_5fcategory'' ''xed_decoded_inst_get_category'' [(''../group__DEC.html#gadb8cfb26a825d8a8d8dcbf49857eab63'', True, ''xed-decoded-inst-api.h'')],
    row ''xed_5fdecoded_5finst_5fget_5fextension'' ''xed_decoded_inst_get_extension'' [(''../group__DEC.html#ga2ad01ffd078ac7166c8a2bc1be1b6d4d'', True, ''xed-decoded-inst-api.h'')],
    row ''xed_5fdecoded_5finst_5fget_5ficlass'' ''xed_decoded_inst_get_iclass'' [(''../group__DEC.html#ga2bc965a8dc2a1fee79b80b2c45d4329c'', True, ''xed-decoded-inst-api.h'')],
    row ''xed_5fdecoded_5finst_5fget_5fiform_5fenum'' ''xed_decoded_inst_get_iform_enum'' [(''../group__DEC.html#gaf51f3a8153bdedec0d8864cc0e89b5c7'', True, ''xed-decoded-inst-api.h'')],
    row ''xed_5fdecoded_5finst_5fget_5fiform_5fenum_5fdispatch'' ''xed_decoded_inst_get_iform_enum_dispatch'' [(''../group__DEC.html#ga8c85bf31ee09bde1bb5b957699a38f71'', True, ''xed-decoded-inst-api.h'')],
    row ''xed_5fdecoded_5finst_5fget_5fimmediate_5fis_5fsigned'' ''xed_decoded_inst_get_immediate_is_signed'' [(''../group__DEC.html#ga7c752cb527745114566367dfa0bb176c'', True, ''xed-decoded-inst-api.h'')],
    row ''xed_5fdecoded_5finst_5fget_5fimmediate_5fwidth'' ''xed_decoded_inst_get_immediate_width'' [(''../group__DEC.html#ga91e972de2b4dfd4edac004d2cdf2768c'', True, ''xed-decoded-inst-api.h'')],
    row ''xed_5fdecoded_5finst_5fget_5fimmediate_5fwidth_5fbits'' ''xed_decoded_inst_get_immediate_width_bits'' [(''../group__DEC.html#gad34f78b3aa239ec07a7d1b5537f7a12a'', True, ''xed-decoded-inst-api.h'')],
    row ''xed_5fdecoded_5finst_5fget_5findex_5freg'' ''xed_decoded_inst_get_index_reg'' [(''../group__DEC.html#gad39ecfe4d1c3d95161f291e4d9a18280'', True, ''xed-decoded-inst-api.h'')],
    row ''xed_5fdecoded_5finst_5fget_5finput_5fchip'' ''xed_decoded_inst_get_input_chip'' [(''../group__DEC.html#ga506a9e92a55f3bc9aa60c223f86aca98'', True, ''xed-decoded-inst-api.h'')],
    row ''xed_5fdecoded_5finst_5fget_5fisa_5fset'' ''xed_decoded_inst_get_isa_set'' [(''../group__DEC.html#ga085ca25ab4513e982c563b30927dffc9'', True, ''xed-decoded-inst-api.h'')],
    row ''xed_5fdecoded_5finst_5fget_5flength'' ''xed_decoded_inst_get_length'' [(''../group__DEC.html#gad1051f7b86c94d5670f684a6ea79fcdf'', True, ''xed-decoded-inst-api.h'')],
    row ''xed_5fdecoded_5finst_5fget_5fmachine_5fmode_5fbits'' ''xed_decoded_inst_get_machine_mode_bits'' [(''../group__DEC.html#ga851d9b2b496b1af5fe79a15d325aa523'', True, ''xed-decoded-inst-api.h'')]]"

lemma functions_1_part2_ok: "list_all (row_ok 120) functions_1_part2"
  by (simp only: functions_1_part2_def row_checks)

definition functions_1_part3 :: "search_row list" where
  "functions_1_part3 = [
    row ''xed_5fdecoded_5finst_5fget_5fmemop_5faddress_5fwidth'' ''xed_decoded_inst_get_memop_address_width'' [(''../group__DEC.html#ga2e9a843ced57a9e4c655428da7ecb9f0'', True, ''xed-decoded-inst-api.h'')],
    row ''xed_5fdecoded_5finst_5fget_5fmemory_5fdisplacement'' ''xed_decoded_inst_get_memory_displacement'' [(''../group__DEC.html#gaa8d22454961035b0fa6121c5f419817d'', True, ''xed-decoded-inst-api.h'')],
    row ''xed_5fdecoded_5finst_5fget_5fmemory_5fdisplacement_5fwidth'' ''xed_decoded_inst_get_memory_displacement_width'' [(''../group__DEC.html#ga275efe423fe90a10a674da18f3265bd4'', True, ''xed-decoded-inst-api.h'')],
    row ''xed_5fdecoded_5finst_5fget_5fmemory_5fdisplacement_5fwidth_5fbits'' ''xed_decoded_inst_get_memory_displacement_width_bits'' [(''../group__DEC.html#ga1dbd440bd1bde01bd35d01ec1e518fb5'', True, ''xed-decoded-inst-api.h'')],
    row ''xed_5fdecoded_5finst_5fget_5fmemory_5foperand_5flength'' ''xed_decoded_inst_get_memory_operand_length'' [(''../group__DEC.html#gaecce1ea119eb21d3569ee0058d5ce084'', True, ''xed-decoded-inst-api.h'')],
    row ''xed_5fdecoded_5finst_5fget_5fmodrm'' ''xed_decoded_inst_get_modrm'' [(''../group__DEC.html#ga21740dee629a5b07e630f95604f6b649'', True, ''xed-decoded-inst-api.h'')],
    row ''xed_5fdecoded_5finst_5fget_5fnprefixes'' ''xed_decoded_inst_get_nprefixes'' [(''../group__DEC.html#ga736415e126f916c307ca2580dda96266'', True, ''xed-decoded-inst-api.h'')],
    row ''xed_5fdecoded_5finst_5fget_5foperand_5fwidth'' ''xed_decoded_inst_get_operand_width'' [(''../group__DEC.html#gad4d75490247559d47fa417c71bd76722'', True, ''xed-decoded-inst-api.h'')],
    row ''xed_5fdecoded_5finst_5fget_5freg'' ''xed_decoded_inst_get_reg'' [(''../group__DEC.html#ga16d972d293abe583a1caffb472b71418'', True, ''xed-decoded-inst-api.h'')],
    row ''xed_5fdecoded_5finst_5fget_5frflags_5finfo'' ''xed_decoded_inst_get_rflags_info'' [(''../group__DEC.html#ga275353ead71e5915f810ef06c4149b68'', True, ''xed-decoded-inst-api.h'')],
    row ''xed_5fdecoded_5finst_5fget_5fscale'' ''xed_decoded_inst_get_scale'' [(''../group__DEC.html#ga77a570e03d56cd31e50f4bc54104b0f9'', True, ''xed-decoded-inst-api.h'')],
    row ''xed_5fdecoded_5finst_5fget_5fsecond_5fimmediate'' ''xed_decoded_inst_get_second_immediate'' [(''../group__DEC.html#gad1d32b618885f9d22aa75101664497e4'', True, ''xed-decoded-inst-api.h'')],
    row ''xed_5fdecoded_5finst_5fget_5fseg_5freg'' ''xed_decoded_inst_get_seg_reg'' [(''../group__DEC.html#ga1451e49df729a4fe1e650db6cb3343d2'', True, ''xed-decoded-inst-api.h'')],
    row ''xed_5fdecoded_5finst_5fget_5fsigned_5fimmediate'' ''xed_decoded_inst_get_signed_immediate'' [(''../group__DEC.html#gabbc8dec2bddec619bfe8f9a39c7ffdf4'', True, ''xed-decoded-inst-api.h'')],
    row ''xed_5fdecoded_5finst_5fget_5fstack_5faddress_5fmode_5fbits'' ''xed_decoded_inst_get_stack_address_mode_bits'' [(''../group__DEC.html#ga25a74858d19b72bb44721b2e6427a5fe'', True, ''xed-decoded-inst-api.h'')],
    row ''xed_5fdecoded_5finst_5fget_5funsigned_5fimmediate'' ''xed_decoded_inst_get_unsigned_immediate'' [(''../group__DEC.html#ga79461981ed1722ab09a094915fb72428'', True, ''xed-decoded-inst-api.h'')],
    row ''xed_5fdecoded_5finst_5fget_5fuser_5fdata'' ''xed_decoded_inst_get_user_data'' [(''../group__DEC.html#ga6d902e3364c9393c5f3b42a3f30442a0'', True, ''xed-decoded-inst-api.h'')],
    row ''xed_5fdecoded_5finst_5fhas_5fmpx_5fprefix'' ''xed_decoded_inst_has_mpx_prefix'' [(''../group__DEC.html#gac6648aa96058086b1624655a1718a184'', True, ''xed-decoded-inst-api.h'')],
    row ''xed_5fdecoded_5finst_5finst'' ''xed_decoded_inst_inst'' [(''../group__DEC.html#gae507752abfa509bd72ee0903e873fe9e'', True, ''xed-decoded-inst-api.h'')],
    row ''xed_5fdecoded_5finst_5fis_5fprefetch'' ''xed_decoded_inst_is_prefetch'' [(''../group__DEC.html#gae8c0841f1b56911c50531e1fff2abb58'', True, ''xed-decoded-inst-api.h'')],
    row ''xed_5fdecoded_5finst_5fis_5fxacquire'' ''xed_decoded_inst_is_xacquire'' [(''../group__DEC.html#gaee7b54f292b0f74cd9feda1e0cdcb36a'', True, ''xed-decoded-inst-api.h'')],
    row ''xed_5fdecoded_5finst_5fis_5fxrelease'' ''xed_decoded_inst_is_xrelease'' [(''../group__DEC.html#ga18da6bb98a4cd12a2e5bf5db0df7206b'', True, ''xed-decoded-inst-api.h'')],
    row ''xed_5fdecoded_5finst_5fmasked_5fvector_5foperation'' ''xed_decoded_inst_masked_vector_operation'' [(''../group__DEC.html#ga585cc1c3bcba8bc89997133442ddd99d'', True, ''xed-decoded-inst-api.h'')],
    row ''xed_5fdecoded_5finst_5fmasking'' ''xed_decoded_inst_masking'' [(''../group__DEC.html#ga2930e4343c9bf41d39c906733fc4c895'', True, ''xed-decoded-inst-api.h'')],
    row ''xed_5fdecoded_5finst_5fmem_5fread'' ''xed_decoded_inst_mem_read'' [(''../group__DEC.html#ga1d1b81a6e49ae396bdad946439794b5f'', True, ''xed-decoded-inst-api.h'')],
    row ''xed_5fdecoded_5finst_5fmem_5fwritten'' ''xed_decoded_inst_mem_written'' [(''../group__DEC.html#gaeda7bba6faea14f777752fbab269d425'', True, ''xed-decoded-inst-api.h'')],
    row ''xed_5fdecoded_5finst_5fmem_5fwritten_5fonly'' ''xed_decoded_inst_mem_written_only'' [(''../group__DEC.html#ga7dff98e10cc2432084fd5528f834bc35'', True, ''xed-decoded-inst-api.h'')],
    row ''xed_5fdecoded_5finst_5fmerging'' ''xed_decoded_inst_merging'' [(''../group__DEC.html#ga17858b485e8094f852c0ff54926aebf9'', True, ''xed-decoded-inst-api.h'')],
    row ''xed_5fdecoded_5finst_5fnoperands'' ''xed_decoded_inst_noperands'' [(''../group__DEC.html#gaa8cca4acafb5dee2b4ecfafee1cca7b8'', True, ''xed-decoded-inst-api.h'')],
    row ''xed_5fdecoded_5finst_5fnumber_5fof_5fmemory_5foperands'' ''xed_decoded_inst_number_of_memory_operands'' [(''../group__DEC.html#gac093ecf9904ce025bafa8e7318ded0ec'', True, ''xed-decoded-inst-api.h'')],
    row ''xed_5fdecoded_5finst_5foperand_5faction'' ''xed_decoded_inst_operand_action'' [(''../group__DEC.html#ga5540113a3dfdf1472de90fdf7953cb5d'', True, ''xed-decoded-inst-api.h'')],
    row ''xed_5fdecoded_5finst_5foperand_5felement_5fsize_5fbits'' ''xed_decoded_inst_operand_element_size_bits'' [(''../group__DEC.html#ga156b957524c16e319ea7a610b0edde8b'', True, ''xed-decoded-inst-api.h'')],
    row ''xed_5fdecoded_5finst_5foperand_5felement_5ftype'' ''xed_decoded_inst_operand_element_type'' [(''../group__DEC.html#gaf8bd2fcc7a694587c2d9b37e1267966b'', True, ''xed-decoded-inst-api.h'')],
    row ''xed_5fdecoded_5finst_5foperand_5felements'' ''xed_decoded_inst_operand_elements'' [(''../group__DEC.html#gaab1c722037d8a0ed755bc9f3672be6be'', True, ''xed-decoded-inst-api.h'')],
    row ''xed_5fdecoded_5finst_5foperand_5flength'' ''xed_decoded_inst_operand_length'' [(''../group__DEC.html#gaa030199ba499d2bcb67cbf7740d8d4c6'', True, ''xed-decoded-inst-api.h'')],
    row ''xed_5fdecoded_5finst_5foperand_5flength_5fbits'' ''xed_decoded_inst_operand_length_bits'' [(''../group__DEC.html#ga89c92d9d1aeb47d1e77a86c3e82b097a'', True, ''xed-decoded-inst-api.h'')],
    row ''xed_5fdecoded_5finst_5foperands'' ''xed_decoded_inst_operands'' [(''../group__DEC.html#ga698e5a357d20e47f32ba155963526abd'', True, ''xed-decoded-inst-api.h'')],
    row ''xed_5fdecoded_5finst_5foperands_5fconst'' ''xed_decoded_inst_operands_const'' [(''../group__DEC.html#ga38e372d3227817713159035cb47ad1fd'', True, ''xed-decoded-inst-api.h'')],
    row ''xed_5fdecoded_5finst_5fset_5fbranch_5fdisplacement'' ''xed_decoded_inst_set_branch_displacement'' [(''../group__DEC.html#gab34c7c4ac7369256b6b57b015a9490af'', True, ''xed-decoded-inst-api.h'')],
    row ''xed_5fdecoded_5finst_5fset_5fbranch_5fdisplacement_5fbits'' ''xed_decoded_inst_set_branch_displacement_bits'' [(''../group__DEC.html#ga1b46a3f333598d21438849fb03867702'', True, ''xed-decoded-inst-api.h'')],
    row ''xed_5fdecoded_5finst_5fset_5fimmediate_5fsigned'' ''xed_decoded_inst_set_immediate_signed'' [(''../group__DEC.html#gaab164e3abdbd0902ced002923ded7c0a'', True, ''xed-decoded-inst-api.h'')],
    row ''xed_5fdecoded_5finst_5fset_5fimmediate_5fsigned_5fbits'' ''xed_decoded_inst_set_immediate_signed_bits'' [(''../group__DEC.html#ga6654d373b4122309cb985a90baea2ec0'', True, ''xed-decoded-inst-api.h'')],
    row ''xed_5fdecoded_5finst_5fset_5fimmediate_5funsigned'' ''xed_decoded_inst_set_immediate_unsigned'' [(''../group__DEC.html#ga7ad3c8a1764288cab0c02a035c8aec1c'', True, ''xed-decoded-inst-api.h'')],
    row ''xed_5fdecoded_5finst_5fset_5fimmediate_5funsigned_5fbits'' ''xed_decoded_inst_set_immediate_unsigned_bits'' [(''../group__DEC.html#ga3048427ba43f4978b291a36acea2eaae'', True, ''xed-decoded-inst-api.h'')],
    row ''xed_5fdecoded_5finst_5fset_5finput_5fchip'' ''xed_decoded_inst_set_input_chip'' [(''../group__DEC.html#gac5d7c9f47adfdfb31d45fa72c0dd7b84'', True, ''xed-decoded-inst-api.h'')],
    row ''xed_5fdecoded_5finst_5fset_5fmemory_5fdisplacement'' ''xed_decoded_inst_set_memory_displacement'' [(''../group__DEC.html#ga6a4b96d0db7e35adb4fa7e4eaed79c30'', True, ''xed-decoded-inst-api.h'')],
    row ''xed_5fdecoded_5finst_5fset_5fmemory_5fdisplacement_5fbits'' ''xed_decoded_inst_set_memory_displacement_bits'' [(''../group__DEC.html#gac3c2f46de48f69534b4634b00e25e44d'', True, ''xed-decoded-inst-api.h'')],
    row ''xed_5fdecoded_5finst_5fset_5fmode'' ''xed_decoded_inst_set_mode'' [(''../group__DEC.html#ga05a09aff67ff9713d7dbf31fcbf0409b'', True, ''xed-decoded-inst-api.h'')],
    row ''xed_5fdecoded_5finst_5fset_5fscale'' ''xed_decoded_inst_set_scale'' [(''../group__DEC.html#gae568590fb678b524e5e1068d085d76dc'', True, ''xed-decoded-inst-api.h'')],
    row ''xed_5fdecoded_5finst_5fset_5fuser_5fdata'' ''xed_decoded_inst_set_user_data'' [(''../group__DEC.html#ga87bdd1f7a9c5893a546351f205fed067'', True, ''xed-decoded-inst-api.h'')],
    row ''xed_5fdecoded_5finst_5fuses_5frflags'' ''xed_decoded_inst_uses_rflags'' [(''../group__DEC.html#ga6922f0d03774f1d9ec1d402fb70e5c63'', True, ''xed-decoded-inst-api.h'')],
    row ''xed_5fdecoded_5finst_5fvalid'' ''xed_decoded_inst_valid'' [(''../group__DEC.html#ga61f6182ded3ebf9d95c25116278d370d'', True, ''xed-decoded-inst-api.h'')],
    row ''xed_5fdecoded_5finst_5fvalid_5ffor_5fchip'' ''xed_decoded_inst_valid_for_chip'' [(''../group__DEC.html#gaa85a69942c9d021eb47a8eace1ccf84e'', True, ''xed-decoded-inst-api.h'')],
    row ''xed_5fdecoded_5finst_5fvector_5flength_5fbits'' ''xed_decoded_inst_vector_length_bits'' [(''../group__DEC.html#gab3f8aad7cae7a6289fe33389ceaa7bd6'', True, ''xed-decoded-inst-api.h'')],
    row ''xed_5fdecoded_5finst_5fzero'' ''xed_decoded_inst_zero'' [(''../group__DEC.html#ga187a0e161873242e9989a186466a06b6'', True, ''xed-decoded-inst-api.h'')],
    row ''xed_5fdecoded_5finst_5fzero_5fkeep_5fmode'' ''xed_decoded_inst_zero_keep_mode'' [(''../group__DEC.html#ga02b8ece2f304b476494db4cf6d5b73d8'', True, ''xed-decoded-inst-api.h'')],
    row ''xed_5fdecoded_5finst_5fzero_5fkeep_5fmode_5ffrom_5foperands'' ''xed_decoded_inst_zero_keep_mode_from_operands'' [(''../group__DEC.html#ga15acf476d5d7d3b3fffa12e8ce4892aa'', True, ''xed-decoded-inst-api.h'')],
    row ''xed_5fdecoded_5finst_5fzero_5fset_5fmode'' ''xed_decoded_inst_zero_set_mode'' [(''../group__DEC.html#gae32686224b685dfc7be3f13504e0a0df'', True, ''xed-decoded-inst-api.h'')],
    row ''xed_5fdecoded_5finst_5fzeroing'' ''xed_decoded_inst_zeroing'' [(''../group__DEC.html#ga1599729669bad560fb6ae6e11187bea8'', True, ''xed-decoded-inst-api.h'')],
    row ''xed_5fderror'' ''xed_derror'' [(''../xed-util_8h.html#a91998102d1e5e33ab1bd11556e69b593'', True, ''xed-util.h'')],
    row ''xed_5fdisp'' ''xed_disp'' [(''../group__ENCHL.html#gadb243e077dc38b6d3d1572db82cb0f26'', True, ''xed-encoder-hl.h'')],
    row ''xed_5fdowncase_5fbuf'' ''xed_downcase_buf'' [(''../xed-util_8h.html#ab56caa731b871e1f6f1129966089a8c4'', True, ''xed-util.h'')],
    row ''xed_5fdwarn'' ''xed_dwarn'' [(''../xed-util_8h.html#a8519ee4e76a5bdffe1b43097662a78bf'', True, ''xed-util.h'')],
    row ''xed_5fencode'' ''xed_encode'' [(''../group__ENC.html#ga7c30222e2144a177903ce02beacb1996'', True, ''xed-encode.h'')],
    row ''xed_5fencode_5fnop'' ''xed_encode_nop'' [(''../group__ENC.html#ga7d0d452bdd6f1cc20ab5c7cc14fe79e8'', True, ''xed-encode.h'')],
    row ''xed_5fencode_5frequest_5fprint'' ''xed_encode_request_print'' [(''../group__ENC.html#gaf69b263c9882f189c5a6c6992d0f6fe7'', True, ''xed-encode.h'')],
    row ''xed_5fencoder_5frequest_5fclear_5frep'' ''xed_encoder_request_clear_rep'' [(''../group__ENC.html#ga4c58b2cb01c560f3eb7ea9472ffd1201'', True, ''xed-encode.h'')],
    row ''xed_5fencoder_5frequest_5fget_5ficlass'' ''xed_encoder_request_get_iclass'' [(''../group__ENC.html#gafb170645a9deebb7b3a74edae4de5e89'', True, ''xed-encode.h'')],
    row ''xed_5fencoder_5frequest_5fget_5foperand_5forder'' ''xed_encoder_request_get_operand_order'' [(''../group__ENC.html#ga0a0e2a6e3de6d372c938b14277db0eea'', True, ''xed-encode.h'')],
    row ''xed_5fencoder_5frequest_5finit_5ffrom_5fdecode'' ''xed_encoder_request_init_from_decode'' [(''../group__ENC.html#ga6c6a723c9a89d72d3ad51705cb6b8836'', True, ''xed-encode.h'')],
    row ''xed_5fencoder_5frequest_5foperand_5forder_5fentries'' ''xed_encoder_request_operand_order_entries'' [(''../group__ENC.html#gacfe5f5016d026ba1944e434a74e35345'', True, ''xed-encode.h'')],
    row ''xed_5fencoder_5frequest_5foperands'' ''xed_encoder_request_operands'' [(''../group__ENC.html#ga8411194f443b2bbfe5fbb23c1896dc74'', True, ''xed-encode.h'')],
    row ''xed_5fencoder_5frequest_5foperands_5fconst'' ''xed_encoder_request_operands_const'' [(''../group__ENC.html#gabaed3d3191f648f4289ff8dcb43464b1'', True, ''xed-encode.h'')],
    row ''xed_5fencoder_5frequest_5fset_5fagen'' ''xed_encoder_request_set_agen'' [(''../group__ENC.html#gaac846d407fd6537461a6efaccff7609d'', True, ''xed-encode.h'')],
    row ''xed_5fencoder_5frequest_5fset_5fbase0'' ''xed_encoder_request_set_base0'' [(''../group__ENC.html#ga9002c58e013af93550df7bd9b37e13ed'', True, ''xed-encode.h'')],
    row ''xed_5fencoder_5frequest_5fset_5fbase1'' ''xed_encoder_request_set_base1'' [(''../group__ENC.html#gaf109d486d1eadf5c8b86d1cba8387d29'', True, ''xed-encode.h'')],
    row ''xed_5fencoder_5frequest_5fset_5fbranch_5fdisplacement'' ''xed_encoder_request_set_branch_displacement'' [(''../group__ENC.html#ga3594acbdb2001a816da28b7554b2ae4c'', True, ''xed-encode.h'')],
    row ''xed_5fencoder_5frequest_5fset_5feffective_5faddress_5fsize'' ''xed_encoder_request_set_effective_address_size'' [(''../group__ENC.html#gab416edcadb0d2b59fb62cfcd93991c3d'', True, ''xed-encode.h'')],
    row ''xed_5fencoder_5frequest_5fset_5feffective_5foperand_5fwidth'' ''xed_encoder_request_set_effective_operand_width'' [(''../group__ENC.html#ga53b937905ca110c4dd4b20e5695d8937'', True, ''xed-encode.h'')],
    row ''xed_5fencoder_5frequest_5fset_5ficlass'' ''xed_encoder_request_set_iclass'' [(''../group__ENC.html#gaff030e16b97deae21b1f7613684c54c7'', True, ''xed-encode.h'')],
    row ''xed_5fencoder_5frequest_5fset_5findex'' ''xed_encoder_request_set_index'' [(''../group__ENC.html#gad436ed3d253f15e11f4c943e0308db06'', True, ''xed-encode.h'')],
    row ''xed_5fencoder_5frequest_5fset_5flock'' ''xed_encoder_request_set_lock'' [(''../group__ENC.html#ga14ab62a6407df15f864fde3d4f81b7fe'', True, ''xed-encode.h'')],
    row ''xed_5fencoder_5frequest_5fset_5fmem0'' ''xed_encoder_request_set_mem0'' [(''../group__ENC.html#ga7b4e446882bcc615e917132f3fbb16b3'', True, ''xed-encode.h'')],
    row ''xed_5fencoder_5frequest_5fset_5fmem1'' ''xed_encoder_request_set_mem1'' [(''../group__ENC.html#gafe70e5db7dc59e9880f2db3ec7e71d9d'', True, ''xed-encode.h'')],
    row ''xed_5fencoder_5frequest_5fset_5fmemory_5fdisplacement'' ''xed_encoder_request_set_memory_displacement'' [(''../group__ENC.html#gaf745dfb40af1361b8a9b9f1ecb4f0228'', True, ''xed-encode.h'')],
    row ''xed_5fencoder_5frequest_5fset_5fmemory_5foperand_5flength'' ''xed_encoder_request_set_memory_operand_length'' [(''../group__ENC.html#ga03790a14a625c544edcbda559e359f14'', True, ''xed-encode.h'')],
    row ''xed_5fencoder_5frequest_5fset_5foperand_5forder'' ''xed_encoder_request_set_operand_order'' [(''../group__ENC.html#ga1e46ce602263f0de591b3ebc268cc12e'', True, ''xed-encode.h'')],
    row ''xed_5fencoder_5frequest_5fset_5fptr'' ''xed_encoder_request_set_ptr'' [(''../group__ENC.html#ga7be1c7da28a5d88f485f7e80b67959b4'', True, ''xed-encode.h'')],
    row ''xed_5fencoder_5frequest_5fset_5freg'' ''xed_encoder_request_set_reg'' [(''../group__ENC.html#gaba22ae36cab0f632d5461830cc9a3133'', True, ''xed-encode.h'')],
    row ''xed_5fencoder_5frequest_5fset_5frelbr'' ''xed_encoder_request_set_relbr'' [(''../group__ENC.html#gad447fb779e58b7eaae0dd54e51af6066'', True, ''xed-encode.h'')],
    row ''xed_5fencoder_5frequest_5fset_5frep'' ''xed_encoder_request_set_rep'' [(''../group__ENC.html#ga71d03e9d694f56fc362974f2d81e5464'', True, ''xed-encode.h'')],
    row ''xed_5fencoder_5frequest_5fset_5frepne'' ''xed_encoder_request_set_repne'' [(''../group__ENC.html#gaf651a483ec90cbf4495f87b114facc0b'', True, ''xed-encode.h'')],
    row ''xed_5fencoder_5frequest_5fset_5fscale'' ''xed_encoder_request_set_scale'' [(''../group__ENC.html#gaca791f284c852c6ae4c071ba5751d257'', True, ''xed-encode.h'')],
    row ''xed_5fencoder_5frequest_5fset_5fseg0'' ''xed_encoder_request_set_seg0'' [(''../group__ENC.html#ga72a43d42aa1c15bba69bcab84439471a'', True, ''xed-encode.h'')],
    row ''xed_5fencoder_5frequest_5fset_5fseg1'' ''xed_encoder_request_set_seg1'' [(''../group__ENC.html#gafb3db0b671837fab077f4db357c7fe04'', True, ''xed-encode.h'')],
    row ''xed_5fencoder_5frequest_5fset_5fsimm'' ''xed_encoder_request_set_simm'' [(''../group__ENC.html#gaf2477dc50a13ec112d7cf3f3fa5c9178'', True, ''xed-encode.h'')],
    row ''xed_5fencoder_5frequest_5fset_5fuimm0'' ''xed_encoder_request_set_uimm0'' [(''../group__ENC.html#ga3f3721bb20e64524b475bd5f3d7bd1e0'', True, ''xed-encode.h'')],
    row ''xed_5fencoder_5frequest_5fset_5fuimm0_5fbits'' ''xed_encoder_request_set_uimm0_bits'' [(''../group__ENC.html#ga5dcaec413dfefdd6ca2ad179e5a181c9'', True, ''xed-encode.h'')],
    row ''xed_5fencoder_5frequest_5fset_5fuimm1'' ''xed_encoder_request_set_uimm1'' [(''../group__ENC.html#ga4edd1347ebaceee3811584123b4daa9b'', True, ''xed-encode.h'')],
    row ''xed_5fencoder_5frequest_5fzero'' ''xed_encoder_request_zero'' [(''../group__ENC.html#ga1125aa21681440d97ff3bb9736b0b9ed'', True, ''xed-encode.h'')],
    row ''xed_5fencoder_5frequest_5fzero_5foperand_5forder'' ''xed_encoder_request_zero_operand_order'' [(''../group__ENC.html#ga483f4ee86b11b94a8d79f309b5388e49'', True, ''xed-encode.h'')],
    row ''xed_5fencoder_5frequest_5fzero_5fset_5fmode'' ''xed_encoder_request_zero_set_mode'' [(''../group__ENC.html#ga8a379853ad688ff61de9e73862617e40'', True, ''xed-encode.h'')],
    row ''xed_5ferror_5fenum_5ft2str'' ''xed_error_enum_t2str'' [(''../group__ENUM.html#ga3a44865dce1b468619bc95ad8593b0bf'', True, ''xed-error-enum.h'')],
    row ''xed_5ferror_5fenum_5ft_5flast'' ''xed_error_enum_t_last'' [(''../group__ENUM.html#gab58a666af2254a23031d8e0ce4b255b3'', True, ''xed-error-enum.h'')],
    row ''xed_5fexception_5fenum_5ft2str'' ''xed_exception_enum_t2str'' [(''../group__ENUM.html#gae2a3f205539390ed30f22f2bbb56b7d7'', True, ''xed-exception-enum.h'')],
    row ''xed_5fexception_5fenum_5ft_5flast'' ''xed_exception_enum_t_last'' [(''../group__ENUM.html#ga5ea8256fd31ec5fc132b22d7090f4cc6'', True, ''xed-exception-enum.h'')],
    row ''xed_5fextension_5fenum_5ft2str'' ''xed_extension_enum_t2str'' [(''../group__ENUM.html#gaabb91fa22dcd7e51662b50b7c7488ee7'', True, ''xed-extension-enum.h'')],
    row ''xed_5fextension_5fenum_5ft_5flast'' ''xed_extension_enum_t_last'' [(''../group__ENUM.html#ga19b17461c117cb7802afb941e838db37'', True, ''xed-extension-enum.h'')],
    row ''xed_5fflag_5faction_5faction_5finvalid'' ''xed_flag_action_action_invalid'' [(''../group__FLAGS.html#ga21cc087c3f007cc0944c7acf286f504c'', True, ''xed-flags.h'')],
    row ''xed_5fflag_5faction_5fenum_5ft2str'' ''xed_flag_action_enum_t2str'' [(''../group__ENUM.html#gaf405ca2c54dc2fca2dad9e567528aad3'', True, ''xed-flag-action-enum.h'')],
    row ''xed_5fflag_5faction_5fenum_5ft_5flast'' ''xed_flag_action_enum_t_last'' [(''../group__ENUM.html#gac37fef1f31349c9ed9e1cfdf395da50a'', True, ''xed-flag-action-enum.h'')],
    row ''xed_5fflag_5faction_5fget_5faction'' ''xed_flag_action_get_action'' [(''../group__FLAGS.html#ga80abcc15e609878f1daaac1b988fc0fe'', True, ''xed-flags.h'')],
    row ''xed_5fflag_5faction_5fget_5fflag_5fname'' ''xed_flag_action_get_flag_name'' [(''../group__FLAGS.html#gabbffcc50db4e54b40a57a5427320c2a9'', True, ''xed-flags.h'')],
    row ''xed_5fflag_5faction_5fprint'' ''xed_flag_action_print'' [(''../group__FLAGS.html#gaabc09792128a39245636f4b0aab77f42'', True, ''xed-flags.h'')],
    row ''xed_5fflag_5faction_5fread_5faction'' ''xed_flag_action_read_action'' [(''../group__FLAGS.html#ga8be4c3f2c1860838463073f8cccb9e02'', True, ''xed-flags.h'')],
    row ''xed_5fflag_5faction_5fread_5fflag'' ''xed_flag_action_read_flag'' [(''../group__FLAGS.html#ga08e4a4c4eea80dc85f569ca1a4b7f614'', True, ''xed-flags.h'')],
    row ''xed_5fflag_5faction_5fwrite_5faction'' ''xed_flag_action_write_action'' [(''../group__FLAGS.html#ga93ce4bd708adffe1ec0c5c3a884802cc'', True, ''xed-flags.h'')],
    row ''xed_5fflag_5faction_5fwrites_5fflag'' ''xed_flag_action_writes_flag'' [(''../group__FLAGS.html#gae17824babf697205b4ec3ea1547e6f95'', True, ''xed-flags.h'')],
    row ''xed_5fflag_5fenum_5ft2str'' ''xed_flag_enum_t2str'' [(''../group__ENUM.html#gae4da58f64748390a11bd84b0588a4c1d'', True, ''xed-flag-enum.h'')],
    row ''xed_5fflag_5fenum_5ft_5flast'' ''xed_flag_enum_t_last'' [(''../group__ENUM.html#gaedae7e6e529bf1f04346ddae172b23bd'', True, ''xed-flag-enum.h'')],
    row ''xed_5fflag_5fset_5fis_5fsubset_5fof'' ''xed_flag_set_is_subset_of'' [(''../group__FLAGS.html#ga1beb49469f104f6e92147b0522fb7cc0'', True, ''xed-flags.h'')],
    row ''xed_5fflag_5fset_5fmask'' ''xed_flag_set_mask'' [(''../group__FLAGS.html#gaa51e48465bdabfb43983cbc887cf6c51'', True, ''xed-flags.h'')],
    row ''xed_5fflag_5fset_5fprint'' ''xed_flag_set_print'' [(''../group__FLAGS.html#ga7f7a68d1f3d02a08b60205a96e025bb2'', True, ''xed-flags.h'')],
    row ''xed_5fformat_5fcontext'' ''xed_format_context'' [(''../group__PRINT.html#gac09057f278cb90a5faefb39aaf4431e0'', True, ''xed-decoded-inst-api.h'')],
    row ''xed_5fformat_5fgeneric'' ''xed_format_generic'' [(''../group__PRINT.html#gaf353624c80f5c7d770bbdfc95a54acba'', True, ''xed-decoded-inst-api.h'')],
    row ''xed_5fformat_5fset_5foptions'' ''xed_format_set_options'' [(''../group__PRINT.html#ga3c3cafaba9b3bd494f7a908f9e5af1b7'', True, ''xed-format-options.h'')],
    row ''xed_5fget_5fbyte'' ''xed_get_byte'' [(''../xed-util_8h.html#ad28359fdc8cf4aeefefb26c3233d4a83'', True, ''xed-util.h'')],
    row ''xed_5fget_5fcopyright'' ''xed_get_copyright'' [(''../group__INIT.html#gab8d9c7a109a7e0d1cd483e68e3033cc4'', True, ''xed-version.h'')],
    row ''xed_5fget_5flargest_5fenclosing_5fregister'' ''xed_get_largest_enclosing_register'' [(''../group__REGINTFC.html#ga4aafa33b4e372727668f604d5d38d9a9'', True, ''xed-reg-class.h'')],
    row ''xed_5fget_5flargest_5fenclosing_5fregister32'' ''xed_get_largest_enclosing_register32'' [(''../group__REGINTFC.html#gaa43fa9b706bbe48af394931fac22df95'', True, ''xed-reg-class.h'')],
    row ''xed_5fget_5fregister_5fwidth_5fbits'' ''xed_get_register_width_bits'' [(''../group__REGINTFC.html#ga51ca65b0230e4385db6700ce1a73b662'', True, ''xed-reg-class.h'')],
    row ''xed_5fget_5fregister_5fwidth_5fbits64'' ''xed_get_register_width_bits64'' [(''../group__REGINTFC.html#ga780a1eb5c93d90e3f68bf6d523ab4af0'', True, ''xed-reg-class.h'')],
    row ''xed_5fget_5ftime'' ''xed_get_time'' [(''../xed-get-time_8h.html#a0e766ae137a0ada8ef9631955fc3f012'', True, ''xed-get-time.h'')],
    row ''xed_5fget_5fversion'' ''xed_get_version'' [(''../group__INIT.html#ga884629a9ddd4db55da6aa0b012423108'', True, ''xed-version.h'')],
    row ''xed_5fgpr_5freg_5fclass'' ''xed_gpr_reg_class'' [(''../group__REGINTFC.html#ga46208c55a69fb76e42f1b5755aa4923e'', True, ''xed-reg-class.h'')],
    row ''xed_5ficlass_5fenum_5ft2str'' ''xed_iclass_enum_t2str'' [(''../group__ENUM.html#ga97f9a6174db43637bf0af371441fde97'', True, ''xed-iclass-enum.h'')],
    row ''xed_5ficlass_5fenum_5ft_5flast'' ''xed_iclass_enum_t_last'' [(''../group__ENUM.html#ga4b45795087bdf67b8480d2f79bdae42b'', True, ''xed-iclass-enum.h'')],
    row ''xed_5fiform_5fenum_5ft2str'' ''xed_iform_enum_t2str'' [(''../group__ENUM.html#gaa5982ee859cf508d10f1fe5c7e0d2f61'', True, ''xed-iform-enum.h'')],
    row ''xed_5fiform_5fenum_5ft_5flast'' ''xed_iform_enum_t_last'' [(''../group__ENUM.html#ga13215687a9806aba452c6c35caaf52dd'', True, ''xed-iform-enum.h'')],
    row ''xed_5fiform_5ffirst_5fper_5ficlass'' ''xed_iform_first_per_iclass'' [(''../group__IFORM.html#gacc68b1eaf1ddd6236b8d3210ec6637fc'', True, ''xed-iform-map.h'')],
    row ''xed_5fiform_5fmap'' ''xed_iform_map'' [(''../group__IFORM.html#ga76674b9c9b05d71e4c048483cfcc88ba'', True, ''xed-iform-map.h'')],
    row ''xed_5fiform_5fmax_5fper_5ficlass'' ''xed_iform_max_per_iclass'' [(''../group__IFORM.html#ga7b2e9c4095bddf90c3679c9fdd54b20c'', True, ''xed-iform-map.h'')],
    row ''xed_5fiform_5fto_5fcategory'' ''xed_iform_to_category'' [(''../group__IFORM.html#ga65a96f3830f48855fe7f89886376c9ed'', True, ''xed-iform-map.h'')],
    row ''xed_5fiform_5fto_5fextension'' ''xed_iform_to_extension'' [(''../group__IFORM.html#ga4f356310abbef3ed1d4ba4271476b2d2'', True, ''xed-iform-map.h'')],
    row ''xed_5fiform_5fto_5ficlass'' ''xed_iform_to_iclass'' [(''../group__IFORM.html#ga62721742b284835364ef1bc1fd027c24'', True, ''xed-iform-map.h'')],
    row ''xed_5fiform_5fto_5ficlass_5fstring_5fatt'' ''xed_iform_to_iclass_string_att'' [(''../group__IFORM.html#gab02f8cf120505862ae9fdd2f17217bb8'', True, ''xed-iform-map.h'')],
    row ''xed_5fiform_5fto_5ficlass_5fstring_5fintel'' ''xed_iform_to_iclass_string_intel'' [(''../group__IFORM.html#ga880fbf55253bc8ac7c2a566bf01f213b'', True, ''xed-iform-map.h'')]]"

lemma functions_1_part3_ok: "list_all (row_ok 120) functions_1_part3"
  by (simp only: functions_1_part3_def row_checks)

definition functions_1_part4 :: "search_row list" where
  "functions_1_part4 = [
    row ''xed_5fiform_5fto_5fisa_5fset'' ''xed_iform_to_isa_set'' [(''../group__IFORM.html#ga79c172050cd22eac5175f6981ca314ef'', True, ''xed-iform-map.h'')],
    row ''xed_5fiformfl_5fenum_5ft_5flast'' ''xed_iformfl_enum_t_last'' [(''../group__ENUM.html#gae36c8b2534426cc39fe01b2c135613e4'', True, ''xed-iformfl-enum.h'')],
    row ''xed_5fild_5fdecode'' ''xed_ild_decode'' [(''../group__DEC.html#ga4bef6152f61997a47c4e0fe4327a3254'', True, ''xed-ild.h'')],
    row ''xed_5fimm0'' ''xed_imm0'' [(''../group__ENCHL.html#ga407c5520bb7306fd28048facc97d4f3d'', True, ''xed-encoder-hl.h'')],
    row ''xed_5fimm1'' ''xed_imm1'' [(''../group__ENCHL.html#gaca114d4a9178d126b76772a22779aa23'', True, ''xed-encoder-hl.h'')],
    row ''xed_5fimmdis_5f_5fcheck'' ''xed_immdis__check'' [(''../xed-immdis_8h.html#a7cd715d7113d1b97181783491364c673'', True, ''xed-immdis.h'')],
    row ''xed_5fimmdis_5f_5fprint_5fptr'' ''xed_immdis__print_ptr'' [(''../xed-immdis_8h.html#a881a008921d1efcd08bb94ae02ca9ade'', True, ''xed-immdis.h'')],
    row ''xed_5fimmdis_5fadd16'' ''xed_immdis_add16'' [(''../xed-immdis_8h.html#a4aba92c75a2790ec5c58d8f9b4624d6e'', True, ''xed-immdis.h'')],
    row ''xed_5fimmdis_5fadd32'' ''xed_immdis_add32'' [(''../xed-immdis_8h.html#a58b5fa6f2d5b90172e24e92ec5bb6e67'', True, ''xed-immdis.h'')],
    row ''xed_5fimmdis_5fadd64'' ''xed_immdis_add64'' [(''../xed-immdis_8h.html#ae042967b326bda13845e01f6833e495c'', True, ''xed-immdis.h'')],
    row ''xed_5fimmdis_5fadd8'' ''xed_immdis_add8'' [(''../xed-immdis_8h.html#a7c007e868ffb401c0a4eb21c22d9c67c'', True, ''xed-immdis.h'')],
    row ''xed_5fimmdis_5fadd_5fbyte'' ''xed_immdis_add_byte'' [(''../xed-immdis_8h.html#adcbfb46803986fc54676211f33f47fa9'', True, ''xed-immdis.h'')],
    row ''xed_5fimmdis_5fadd_5fbyte_5farray'' ''xed_immdis_add_byte_array'' [(''../xed-immdis_8h.html#a09715f91212c3dd59b359e7c92c2f7c7'', True, ''xed-immdis.h'')],
    row ''xed_5fimmdis_5fadd_5fshortest_5fwidth_5fsigned'' ''xed_immdis_add_shortest_width_signed'' [(''../xed-immdis_8h.html#ab3e0e6243c6950ea4b0cf679f2db504a'', True, ''xed-immdis.h'')],
    row ''xed_5fimmdis_5fadd_5fshortest_5fwidth_5funsigned'' ''xed_immdis_add_shortest_width_unsigned'' [(''../xed-immdis_8h.html#ade19d918e2f622210e9489ad44c45fb7'', True, ''xed-immdis.h'')],
    row ''xed_5fimmdis_5fget_5fbyte'' ''xed_immdis_get_byte'' [(''../xed-immdis_8h.html#ac9a5e17e32f55b3cef78ee79d9f74b8b'', True, ''xed-immdis.h'')],
    row ''xed_5fimmdis_5fget_5fbytes'' ''xed_immdis_get_bytes'' [(''../xed-immdis_8h.html#a7ba763c2150e4af7e707110f0f652f3f'', True, ''xed-immdis.h'')],
    row ''xed_5fimmdis_5fget_5fmax_5flength'' ''xed_immdis_get_max_length'' [(''../xed-immdis_8h.html#a080f7760ed59c575127c916d69f744c8'', True, ''xed-immdis.h'')],
    row ''xed_5fimmdis_5fget_5fsigned64'' ''xed_immdis_get_signed64'' [(''../xed-immdis_8h.html#a1bff44b0ca30c12563825ddcec37f78b'', True, ''xed-immdis.h'')],
    row ''xed_5fimmdis_5fget_5funsigned64'' ''xed_immdis_get_unsigned64'' [(''../xed-immdis_8h.html#afe3967ac09cbb8ad05ddd129497b1c4d'', True, ''xed-immdis.h'')],
    row ''xed_5fimmdis_5finit'' ''xed_immdis_init'' [(''../xed-immdis_8h.html#a4859cf5e21466fa6901ac22e8beae61d'', True, ''xed-immdis.h'')],
    row ''xed_5fimmdis_5fis_5fone'' ''xed_immdis_is_one'' [(''../xed-immdis_8h.html#af5b69e09505844a5d9d5658593f58c5f'', True, ''xed-immdis.h'')],
    row ''xed_5fimmdis_5fis_5fpresent'' ''xed_immdis_is_present'' [(''../xed-immdis_8h.html#a35f17051ebfbdf7a0444ac8ec1ab68c0'', True, ''xed-immdis.h'')],
    row ''xed_5fimmdis_5fis_5fsigned'' ''xed_immdis_is_signed'' [(''../xed-immdis_8h.html#ac3fc38384a98d3225bbba3e99e156821'', True, ''xed-immdis.h'')],
    row ''xed_5fimmdis_5fis_5funsigned'' ''xed_immdis_is_unsigned'' [(''../xed-immdis_8h.html#aeb0b0470ead4d7954b7a43787e92329a'', True, ''xed-immdis.h'')],
    row ''xed_5fimmdis_5fis_5fzero'' ''xed_immdis_is_zero'' [(''../xed-immdis_8h.html#a9b7cdb1e53c5f2b9bdb820746a470000'', True, ''xed-immdis.h'')],
    row ''xed_5fimmdis_5fprint'' ''xed_immdis_print'' [(''../xed-immdis_8h.html#a2c87a0bf677815bf5ceb28d867ec2724'', True, ''xed-immdis.h'')],
    row ''xed_5fimmdis_5fprint_5fsigned_5for_5funsigned'' ''xed_immdis_print_signed_or_unsigned'' [(''../xed-immdis_8h.html#a5c7be9651737f169081ce5effce16a75'', True, ''xed-immdis.h'')],
    row ''xed_5fimmdis_5fprint_5fvalue_5fsigned'' ''xed_immdis_print_value_signed'' [(''../xed-immdis_8h.html#a1050a0165c958cf65f8305b55d601935'', True, ''xed-immdis.h'')],
    row ''xed_5fimmdis_5fprint_5fvalue_5funsigned'' ''xed_immdis_print_value_unsigned'' [(''../xed-immdis_8h.html#af0ffb75b68187b71fa1ecb9f70147cb0'', True, ''xed-immdis.h'')],
    row ''xed_5fimmdis_5fset_5fmax_5flen'' ''xed_immdis_set_max_len'' [(''../xed-immdis_8h.html#a077f0a257bae6a6c6fc8f3acd5ccbd46'', True, ''xed-immdis.h'')],
    row ''xed_5fimmdis_5fset_5fpresent'' ''xed_immdis_set_present'' [(''../xed-immdis_8h.html#a52caa513281d320cfd60ff7e6108191f'', True, ''xed-immdis.h'')],
    row ''xed_5fimmdis_5fset_5fsigned'' ''xed_immdis_set_signed'' [(''../xed-immdis_8h.html#a8d3377b643eb6a4193cb4e1be2198286'', True, ''xed-immdis.h'')],
    row ''xed_5fimmdis_5fset_5funsigned'' ''xed_immdis_set_unsigned'' [(''../xed-immdis_8h.html#a53444944f075c3fdce2410506fb8e6bd'', True, ''xed-immdis.h'')],
    row ''xed_5fimmdis_5fzero'' ''xed_immdis_zero'' [(''../xed-immdis_8h.html#a0edf6a8a2b843bfecdc2f004aace6425'', True, ''xed-immdis.h'')],
    row ''xed_5fimmed_5ffrom_5fbytes'' ''xed_immed_from_bytes'' [(''../xed-immed_8h.html#a04c8a647107fb7affbf1e6b51613a8ec'', True, ''xed-immed.h'')],
    row ''xed_5finit_5fprint_5finfo'' ''xed_init_print_info'' [(''../group__PRINT.html#gabbb091822def59d7cf56b123a60f2439'', True, ''xed-print-info.h'')],
    row ''xed_5finst'' ''xed_inst'' [(''../group__ENCHL.html#ga0b2f5d72a7c89397c9eb011280d4b001'', True, ''xed-encoder-hl.h'')],
    row ''xed_5finst0'' ''xed_inst0'' [(''../group__ENCHL.html#ga8d463fe5834dfc1dd4e4664fbf897528'', True, ''xed-encoder-hl.h'')],
    row ''xed_5finst1'' ''xed_inst1'' [(''../group__ENCHL.html#ga605a860a788e8ba6d7342783be23a093'', True, ''xed-encoder-hl.h'')],
    row ''xed_5finst2'' ''xed_inst2'' [(''../group__ENCHL.html#gad2669ef272ad5c97d0e5070b50cce5ec'', True, ''xed-encoder-hl.h'')],
    row ''xed_5finst3'' ''xed_inst3'' [(''../group__ENCHL.html#ga5bf8b6ae6bb2bfd07725c1acfea2ac2b'', True, ''xed-encoder-hl.h'')],
    row ''xed_5finst4'' ''xed_inst4'' [(''../group__ENCHL.html#ga49825c9af03114c82b10b61aefa8ce93'', True, ''xed-encoder-hl.h'')],
    row ''xed_5finst5'' ''xed_inst5'' [(''../group__ENCHL.html#ga3a745d122221c6039c4aad0c2e61bc68'', True, ''xed-encoder-hl.h'')],
    row ''xed_5finst_5fcategory'' ''xed_inst_category'' [(''../group__DEC.html#gab81b14e6d31cc013d3a0c414ee185093'', True, ''xed-inst.h'')],
    row ''xed_5finst_5fcpl'' ''xed_inst_cpl'' [(''../group__DEC.html#gaaf47d56bea81c3f7f815fab8cbc64a50'', True, ''xed-inst.h'')],
    row ''xed_5finst_5fexception'' ''xed_inst_exception'' [(''../group__DEC.html#gabce6438e2c44a48490b169c27c4ffd48'', True, ''xed-inst.h'')],
    row ''xed_5finst_5fextension'' ''xed_inst_extension'' [(''../group__DEC.html#ga561a6688c1f8666cef9d2182f299f5bc'', True, ''xed-inst.h'')],
    row ''xed_5finst_5fflag_5finfo_5findex'' ''xed_inst_flag_info_index'' [(''../group__DEC.html#ga00e6626154ca2a0e8f3f839149123650'', True, ''xed-inst.h'')],
    row ''xed_5finst_5fget_5fattribute'' ''xed_inst_get_attribute'' [(''../group__DEC.html#ga891edc51dbcf2a3282fdffa7e72be74c'', True, ''xed-inst.h'')],
    row ''xed_5finst_5fget_5fattributes'' ''xed_inst_get_attributes'' [(''../group__DEC.html#gaaab71faec458c04599977e003df8ad42'', True, ''xed-inst.h'')],
    row ''xed_5finst_5ficlass'' ''xed_inst_iclass'' [(''../group__DEC.html#ga301a5ea38e37d72d3b2623392908d1b9'', True, ''xed-inst.h'')],
    row ''xed_5finst_5fiform_5fenum'' ''xed_inst_iform_enum'' [(''../group__DEC.html#gab13c4e9442dfe6624ed492f1c6521286'', True, ''xed-inst.h'')],
    row ''xed_5finst_5fisa_5fset'' ''xed_inst_isa_set'' [(''../group__DEC.html#ga6db12b2be0153b8cc8fffba00e4d3eaa'', True, ''xed-inst.h'')],
    row ''xed_5finst_5fnoperands'' ''xed_inst_noperands'' [(''../group__DEC.html#ga5808f0c3992221777a51c9356bbfc1cf'', True, ''xed-inst.h'')],
    row ''xed_5finst_5foperand'' ''xed_inst_operand'' [(''../group__DEC.html#ga6d9f85b730ee9800e311663b0ac2e2f9'', True, ''xed-inst.h'')],
    row ''xed_5finst_5ftable_5fbase'' ''xed_inst_table_base'' [(''../group__DEC.html#ga4213e284206b24be503bde043ff4bb43'', True, ''xed-inst.h'')],
    row ''xed_5finternal_5fassert'' ''xed_internal_assert'' [(''../xed-util_8h.html#a8ad52f4a3721b0210ab44f9b81f75fb7'', True, ''xed-util.h'')],
    row ''xed_5fisa_5fset_5fenum_5ft2str'' ''xed_isa_set_enum_t2str'' [(''../group__ENUM.html#ga41b861ab0cc8eccb30268f51d93520a0'', True, ''xed-isa-set-enum.h'')],
    row ''xed_5fisa_5fset_5fenum_5ft_5flast'' ''xed_isa_set_enum_t_last'' [(''../group__ENUM.html#gaed97a92fece0324076645c35fb181ec0'', True, ''xed-isa-set-enum.h'')],
    row ''xed_5fisa_5fset_5fis_5fvalid_5ffor_5fchip'' ''xed_isa_set_is_valid_for_chip'' [(''../group__ISASET.html#ga84dd41dd65bce8f8daabc8ce69c4d043'', True, ''xed-isa-set.h'')],
    row ''xed_5fitoa'' ''xed_itoa'' [(''../xed-util_8h.html#ace29fb2a5586630ee42bbd63a837fa86'', True, ''xed-util.h'')],
    row ''xed_5fitoa_5fhex'' ''xed_itoa_hex'' [(''../xed-util_8h.html#a8c6a44ba029f3333351fce0b435ddae3'', True, ''xed-util.h'')],
    row ''xed_5fitoa_5fhex_5fzeros'' ''xed_itoa_hex_zeros'' [(''../xed-util_8h.html#a32c05e96bf26ca47c234b10044e595f8'', True, ''xed-util.h'')],
    row ''xed_5fitoa_5fsigned'' ''xed_itoa_signed'' [(''../xed-util_8h.html#aa7d7fc6feef0022817d019fbde521315'', True, ''xed-util.h'')],
    row ''xed_5flock'' ''xed_lock'' [(''../group__ENCHL.html#gac1bba432cb4092aa20a2b5522fc82167'', True, ''xed-encoder-hl.h'')],
    row ''xed_5fmachine_5fmode_5fenum_5ft2str'' ''xed_machine_mode_enum_t2str'' [(''../group__ENUM.html#ga1d0f063ce142ae7b52fff306c1a5fd75'', True, ''xed-machine-mode-enum.h'')],
    row ''xed_5fmachine_5fmode_5fenum_5ft_5flast'' ''xed_machine_mode_enum_t_last'' [(''../group__ENUM.html#ga0da5a2732f8dc5cdd043f920ea6a9416'', True, ''xed-machine-mode-enum.h'')],
    row ''xed_5fmake_5fint64'' ''xed_make_int64'' [(''../xed-util_8h.html#abe89f482452e09f725ff14e5ed2ad4f5'', True, ''xed-util.h'')],
    row ''xed_5fmake_5fuint64'' ''xed_make_uint64'' [(''../xed-util_8h.html#a62473090ce59e7287428a455916ae676'', True, ''xed-util.h'')],
    row ''xed_5fmem_5fb'' ''xed_mem_b'' [(''../group__ENCHL.html#ga12d795879dde3ff299dfba095a357819'', True, ''xed-encoder-hl.h'')],
    row ''xed_5fmem_5fbd'' ''xed_mem_bd'' [(''../group__ENCHL.html#ga6af7811bd7972dee5ca232752e596376'', True, ''xed-encoder-hl.h'')],
    row ''xed_5fmem_5fbisd'' ''xed_mem_bisd'' [(''../group__ENCHL.html#ga5e411967c48c49c9d270c63200b4b80c'', True, ''xed-encoder-hl.h'')],
    row ''xed_5fmem_5fgb'' ''xed_mem_gb'' [(''../group__ENCHL.html#ga0d5f46ad4e46cceed2b539746ebc811c'', True, ''xed-encoder-hl.h'')],
    row ''xed_5fmem_5fgbd'' ''xed_mem_gbd'' [(''../group__ENCHL.html#ga2f5146b1eb5f74b5df21143a38419efb'', True, ''xed-encoder-hl.h'')],
    row ''xed_5fmem_5fgbisd'' ''xed_mem_gbisd'' [(''../group__ENCHL.html#gab91fb1d18445402fa396b294222d9777'', True, ''xed-encoder-hl.h'')],
    row ''xed_5fmem_5fgd'' ''xed_mem_gd'' [(''../group__ENCHL.html#ga4cbea27a37a82aac73b221916a1bdcf2'', True, ''xed-encoder-hl.h'')],
    row ''xed_5fnonterminal_5fenum_5ft2str'' ''xed_nonterminal_enum_t2str'' [(''../group__ENUM.html#ga8da46cb4512cc73c88a7a80f3ed07aef'', True, ''xed-nonterminal-enum.h'')],
    row ''xed_5fnonterminal_5fenum_5ft_5flast'' ''xed_nonterminal_enum_t_last'' [(''../group__ENUM.html#ga405ca1a9c5cb7c87d38d3d49be5a75d4'', True, ''xed-nonterminal-enum.h'')],
    row ''xed_5foperand_5faction_5fconditional_5fread'' ''xed_operand_action_conditional_read'' [(''../xed-operand-action_8h.html#aa0b6ad50c1b23f9f3df4a0a3663d5bcf'', True, ''xed-operand-action.h'')],
    row ''xed_5foperand_5faction_5fconditional_5fwrite'' ''xed_operand_action_conditional_write'' [(''../xed-operand-action_8h.html#afb95ec4719fcb9ebec1f6828f2f4fb07'', True, ''xed-operand-action.h'')],
    row ''xed_5foperand_5faction_5fenum_5ft2str'' ''xed_operand_action_enum_t2str'' [(''../group__ENUM.html#gac4a01bed223e067779f08893924836dc'', True, ''xed-operand-action-enum.h'')],
    row ''xed_5foperand_5faction_5fenum_5ft_5flast'' ''xed_operand_action_enum_t_last'' [(''../group__ENUM.html#gafee0e2b2c340b16d909f3c0987a41b27'', True, ''xed-operand-action-enum.h'')],
    row ''xed_5foperand_5faction_5fread'' ''xed_operand_action_read'' [(''../xed-operand-action_8h.html#a09910458f9c0c5ec1417ff337907daa7'', True, ''xed-operand-action.h'')],
    row ''xed_5foperand_5faction_5fread_5fand_5fwritten'' ''xed_operand_action_read_and_written'' [(''../xed-operand-action_8h.html#ac8be8cae934c23aba473333c6a2d1717'', True, ''xed-operand-action.h'')],
    row ''xed_5foperand_5faction_5fread_5fonly'' ''xed_operand_action_read_only'' [(''../xed-operand-action_8h.html#a0978e9802aa6911d7c0e5c0b35cbe580'', True, ''xed-operand-action.h'')],
    row ''xed_5foperand_5faction_5fwritten'' ''xed_operand_action_written'' [(''../xed-operand-action_8h.html#a0d4402eae9261688a0c4f0132e3fd46f'', True, ''xed-operand-action.h'')],
    row ''xed_5foperand_5faction_5fwritten_5fonly'' ''xed_operand_action_written_only'' [(''../xed-operand-action_8h.html#ae3af4cc87dd1ceaf1c4d7e6dad931d11'', True, ''xed-operand-action.h'')],
    row ''xed_5foperand_5fconditional_5fread'' ''xed_operand_conditional_read'' [(''../group__DEC.html#gae7b820b7db6c7437f1e0c6bb11510b10'', True, ''xed-inst.h'')],
    row ''xed_5foperand_5fconditional_5fwrite'' ''xed_operand_conditional_write'' [(''../group__DEC.html#gad6b80021a33c772fa74a038f17343562'', True, ''xed-inst.h'')],
    row ''xed_5foperand_5fconvert_5fenum_5ft2str'' ''xed_operand_convert_enum_t2str'' [(''../group__ENUM.html#ga5a33de30043b049cf62638369cd84071'', True, ''xed-operand-convert-enum.h'')],
    row ''xed_5foperand_5fconvert_5fenum_5ft_5flast'' ''xed_operand_convert_enum_t_last'' [(''../group__ENUM.html#ga4457b5e416e0f2a52e67af75638c5f27'', True, ''xed-operand-convert-enum.h'')],
    row ''xed_5foperand_5fctype_5fenum_5ft2str'' ''xed_operand_ctype_enum_t2str'' [(''../group__ENUM.html#ga9ddc4d63a31aca655e1cd1d0dd0f9da8'', True, ''xed-operand-ctype-enum.h'')],
    row ''xed_5foperand_5fctype_5fenum_5ft_5flast'' ''xed_operand_ctype_enum_t_last'' [(''../group__ENUM.html#ga120755cc315d0af290eaa97a2d2c8d48'', True, ''xed-operand-ctype-enum.h'')],
    row ''xed_5foperand_5fdecider_5fget_5fwidth'' ''xed_operand_decider_get_width'' [(''../xed-operand-ctype-map_8h.html#a959a6b5e5b21106fb8c83a7a12b1a6f3'', True, ''xed-operand-ctype-map.h'')],
    row ''xed_5foperand_5felement_5ftype_5fenum_5ft2str'' ''xed_operand_element_type_enum_t2str'' [(''../group__ENUM.html#ga6a3a3cdfae25d288e348a5271046fd14'', True, ''xed-operand-element-type-enum.h'')],
    row ''xed_5foperand_5felement_5ftype_5fenum_5ft_5flast'' ''xed_operand_element_type_enum_t_last'' [(''../group__ENUM.html#gac3f800fb363fbd6d06a9bdeba545158f'', True, ''xed-operand-element-type-enum.h'')],
    row ''xed_5foperand_5felement_5fxtype_5fenum_5ft2str'' ''xed_operand_element_xtype_enum_t2str'' [(''../group__ENUM.html#ga4d8c1f238b8fecf0786b91d7ca2b35b8'', True, ''xed-operand-element-xtype-enum.h'')],
    row ''xed_5foperand_5felement_5fxtype_5fenum_5ft_5flast'' ''xed_operand_element_xtype_enum_t_last'' [(''../group__ENUM.html#gaac9d10d1c6bd525013df34fd982d2d6e'', True, ''xed-operand-element-xtype-enum.h'')],
    row ''xed_5foperand_5fenum_5ft2str'' ''xed_operand_enum_t2str'' [(''../group__ENUM.html#ga2e1b95b3b4b059703a3be3780a990ade'', True, ''xed-operand-enum.h'')],
    row ''xed_5foperand_5fenum_5ft_5flast'' ''xed_operand_enum_t_last'' [(''../group__ENUM.html#ga06cb1fd18627777b7858fd895b61c49b'', True, ''xed-operand-enum.h'')],
    row ''xed_5foperand_5fget_5fctype'' ''xed_operand_get_ctype'' [(''../xed-operand-ctype-map_8h.html#a1caa2ab3867b0914778b62c5c6e316d4'', True, ''xed-operand-ctype-map.h'')],
    row ''xed_5foperand_5fimm'' ''xed_operand_imm'' [(''../group__DEC.html#ga15cd2fdc19d6e7e9864df7b56e9235f0'', True, ''xed-inst.h'')],
    row ''xed_5foperand_5fis_5fmemory_5faddressing_5fregister'' ''xed_operand_is_memory_addressing_register'' [(''../group__DEC.html#ga336d0e245e83f1b90f609f72b136a2aa'', True, ''xed-inst.h'')],
    row ''xed_5foperand_5fis_5fregister'' ''xed_operand_is_register'' [(''../group__DEC.html#gab506c3ac00ee5350d9b5ab55270c392c'', True, ''xed-inst.h'')],
    row ''xed_5foperand_5fname'' ''xed_operand_name'' [(''../group__DEC.html#ga57209697b0dfb3e9ed4f694ca7cc16a4'', True, ''xed-inst.h'')],
    row ''xed_5foperand_5fnonterminal_5fname'' ''xed_operand_nonterminal_name'' [(''../group__DEC.html#gaf690022f17c39fbc270373f013034b5b'', True, ''xed-inst.h'')],
    row ''xed_5foperand_5foperand_5fvisibility'' ''xed_operand_operand_visibility'' [(''../group__DEC.html#ga2e8b5df9fc68c6aa7fbeb98735e1d4a9'', True, ''xed-inst.h'')],
    row ''xed_5foperand_5fprint'' ''xed_operand_print'' [(''../group__DEC.html#gab5528945cff3a8531a58103fffdcee97'', True, ''xed-inst.h'')],
    row ''xed_5foperand_5fread'' ''xed_operand_read'' [(''../group__DEC.html#ga549f3a156257abb9979df806b436ad85'', True, ''xed-inst.h'')],
    row ''xed_5foperand_5fread_5fand_5fwritten'' ''xed_operand_read_and_written'' [(''../group__DEC.html#ga53d4f48a25de19a158ac617bd2302fcd'', True, ''xed-inst.h'')],
    row ''xed_5foperand_5fread_5fonly'' ''xed_operand_read_only'' [(''../group__DEC.html#ga9cb66680c46f2ba09edbf63a8df3b52b'', True, ''xed-inst.h'')],
    row ''xed_5foperand_5freg'' ''xed_operand_reg'' [(''../group__DEC.html#gac7b6d553eb70c5eeda751a20fe8ed1a4'', True, ''xed-inst.h'')],
    row ''xed_5foperand_5frw'' ''xed_operand_rw'' [(''../group__DEC.html#gae5299214951891952401b5061e48a6ca'', True, ''xed-inst.h'')],
    row ''xed_5foperand_5ftemplate_5fis_5fregister'' ''xed_operand_template_is_register'' [(''../group__DEC.html#gafea07afe6bade70f2ebfe3b491b99d41'', True, ''xed-inst.h'')],
    row ''xed_5foperand_5ftype'' ''xed_operand_type'' [(''../group__DEC.html#gacaf67b54704bacb6b47f5f2afcf2a4b1'', True, ''xed-inst.h'')],
    row ''xed_5foperand_5ftype_5fenum_5ft2str'' ''xed_operand_type_enum_t2str'' [(''../group__ENUM.html#gab340d23d201e7ce54cbd32d32f3286a1'', True, ''xed-operand-type-enum.h'')],
    row ''xed_5foperand_5ftype_5fenum_5ft_5flast'' ''xed_operand_type_enum_t_last'' [(''../group__ENUM.html#ga1cfa27d03ddc76f1464284b2a061b738'', True, ''xed-operand-type-enum.h'')],
    row ''xed_5foperand_5fvalues_5faccesses_5fmemory'' ''xed_operand_values_accesses_memory'' [(''../group__OPERANDS.html#ga7446b6ed1f1b2a5fd48c560dfb6c36eb'', True, ''xed-operand-values-interface.h'')],
    row ''xed_5foperand_5fvalues_5fbranch_5fnot_5ftaken_5fhint'' ''xed_operand_values_branch_not_taken_hint'' [(''../group__OPERANDS.html#gade4582b0028d43cfda503ec80201e6a1'', True, ''xed-operand-values-interface.h'')],
    row ''xed_5foperand_5fvalues_5fbranch_5ftaken_5fhint'' ''xed_operand_values_branch_taken_hint'' [(''../group__OPERANDS.html#gad0fcb6cb22c8eee00b71907561bd04b6'', True, ''xed-operand-values-interface.h'')],
    row ''xed_5foperand_5fvalues_5fclear_5frep'' ''xed_operand_values_clear_rep'' [(''../group__OPERANDS.html#gad798d7e2a94b0065354b670632c5a1e2'', True, ''xed-operand-values-interface.h'')],
    row ''xed_5foperand_5fvalues_5fdump'' ''xed_operand_values_dump'' [(''../group__OPERANDS.html#gaafb2245a51e09ae288b486e1a9bcd4e1'', True, ''xed-operand-values-interface.h'')],
    row ''xed_5foperand_5fvalues_5fget_5fatomic'' ''xed_operand_values_get_atomic'' [(''../group__OPERANDS.html#gabf55daa84f65bc0ea191dd68af642566'', True, ''xed-operand-values-interface.h'')],
    row ''xed_5foperand_5fvalues_5fget_5fbase_5freg'' ''xed_operand_values_get_base_reg'' [(''../group__OPERANDS.html#gae2c88835a866db70500063f54e7728ea'', True, ''xed-operand-values-interface.h'')],
    row ''xed_5foperand_5fvalues_5fget_5fbranch_5fdisplacement_5fbyte'' ''xed_operand_values_get_branch_displacement_byte'' [(''../group__OPERANDS.html#ga68c8fc13f1b3c6c1bf3474f4f0ccf538'', True, ''xed-operand-values-interface.h'')],
    row ''xed_5foperand_5fvalues_5fget_5fbranch_5fdisplacement_5fint32'' ''xed_operand_values_get_branch_displacement_int32'' [(''../group__OPERANDS.html#gaf90260ad3d09b26e2327d4bda1215a77'', True, ''xed-operand-values-interface.h'')],
    row ''xed_5foperand_5fvalues_5fget_5fbranch_5fdisplacement_5flength'' ''xed_operand_values_get_branch_displacement_length'' [(''../group__OPERANDS.html#gaca9ed92c001fb063e1387c0a4503f4c5'', True, ''xed-operand-values-interface.h'')],
    row ''xed_5foperand_5fvalues_5fget_5fbranch_5fdisplacement_5flength_5fbits'' ''xed_operand_values_get_branch_displacement_length_bits'' [(''../group__OPERANDS.html#ga70b2f8efa4972909df5229b129b85a91'', True, ''xed-operand-values-interface.h'')],
    row ''xed_5foperand_5fvalues_5fget_5fdisplacement_5ffor_5fmemop'' ''xed_operand_values_get_displacement_for_memop'' [(''../group__OPERANDS.html#gaa2a59be8c12ab84b7b5b11851cef7535'', True, ''xed-operand-values-interface.h'')],
    row ''xed_5foperand_5fvalues_5fget_5feffective_5faddress_5fwidth'' ''xed_operand_values_get_effective_address_width'' [(''../group__OPERANDS.html#ga179da221c07e9bc7d86b6a23f668677c'', True, ''xed-operand-values-interface.h'')],
    row ''xed_5foperand_5fvalues_5fget_5feffective_5foperand_5fwidth'' ''xed_operand_values_get_effective_operand_width'' [(''../group__OPERANDS.html#gad3d1c499fb13d8906bea608f9be2375b'', True, ''xed-operand-values-interface.h'')],
    row ''xed_5foperand_5fvalues_5fget_5ficlass'' ''xed_operand_values_get_iclass'' [(''../group__OPERANDS.html#gaf75ccaffa5c472ae8578e2c7408c2fca'', True, ''xed-operand-values-interface.h'')],
    row ''xed_5foperand_5fvalues_5fget_5fimmediate_5fbyte'' ''xed_operand_values_get_immediate_byte'' [(''../group__OPERANDS.html#ga8adc1af4161b0890c87fa92c65c5ccb5'', True, ''xed-operand-values-interface.h'')],
    row ''xed_5foperand_5fvalues_5fget_5fimmediate_5fint64'' ''xed_operand_values_get_immediate_int64'' [(''../group__OPERANDS.html#ga36fee6de00dc4452870fcf3b12ed061f'', True, ''xed-operand-values-interface.h'')],
    row ''xed_5foperand_5fvalues_5fget_5fimmediate_5fis_5fsigned'' ''xed_operand_values_get_immediate_is_signed'' [(''../group__OPERANDS.html#ga57046975be8167d3c853eb69d2b400d9'', True, ''xed-operand-values-interface.h'')],
    row ''xed_5foperand_5fvalues_5fget_5fimmediate_5fuint64'' ''xed_operand_values_get_immediate_uint64'' [(''../group__OPERANDS.html#gac9a56268cfe26b80aef5ed27a8e89022'', True, ''xed-operand-values-interface.h'')],
    row ''xed_5foperand_5fvalues_5fget_5findex_5freg'' ''xed_operand_values_get_index_reg'' [(''../group__OPERANDS.html#ga4d17965ee523dbb8b59debad2480f536'', True, ''xed-operand-values-interface.h'')],
    row ''xed_5foperand_5fvalues_5fget_5flong_5fmode'' ''xed_operand_values_get_long_mode'' [(''../group__OPERANDS.html#ga0f1312a0bf168f19e474fbbbb493674d'', True, ''xed-operand-values-interface.h'')],
    row ''xed_5foperand_5fvalues_5fget_5fmemory_5fdisplacement_5fbyte'' ''xed_operand_values_get_memory_displacement_byte'' [(''../group__OPERANDS.html#gaca029098d85517308601e22ff162b227'', True, ''xed-operand-values-interface.h'')],
    row ''xed_5foperand_5fvalues_5fget_5fmemory_5fdisplacement_5fint64'' ''xed_operand_values_get_memory_displacement_int64'' [(''../group__OPERANDS.html#ga733d58f6b2023654929bd21e3a4f7825'', True, ''xed-operand-values-interface.h'')],
    row ''xed_5foperand_5fvalues_5fget_5fmemory_5fdisplacement_5fint64_5fraw'' ''xed_operand_values_get_memory_displacement_int64_raw'' [(''../group__OPERANDS.html#ga68aca8fea184d7aaf224ac0380704325'', True, ''xed-operand-values-interface.h'')],
    row ''xed_5foperand_5fvalues_5fget_5fmemory_5fdisplacement_5flength'' ''xed_operand_values_get_memory_displacement_length'' [(''../group__OPERANDS.html#gaac677e1d55c7769c91bd2aa935b4ccc6'', True, ''xed-operand-values-interface.h'')],
    row ''xed_5foperand_5fvalues_5fget_5fmemory_5fdisplacement_5flength_5fbits'' ''xed_operand_values_get_memory_displacement_length_bits'' [(''../group__OPERANDS.html#gab4b82a223d1471502b9ca0ac2dd446fc'', True, ''xed-operand-values-interface.h'')],
    row ''xed_5foperand_5fvalues_5fget_5fmemory_5fdisplacement_5flength_5fbits_5fraw'' ''xed_operand_values_get_memory_displacement_length_bits_raw'' [(''../group__OPERANDS.html#ga02ddda3d043de87ea8b2954659d2a2d2'', True, ''xed-operand-values-interface.h'')],
    row ''xed_5foperand_5fvalues_5fget_5fmemory_5foperand_5flength'' ''xed_operand_values_get_memory_operand_length'' [(''../group__OPERANDS.html#ga0c7b4b987b9cd50456590e88a4d011bc'', True, ''xed-operand-values-interface.h'')],
    row ''xed_5foperand_5fvalues_5fget_5freal_5fmode'' ''xed_operand_values_get_real_mode'' [(''../group__OPERANDS.html#ga667d5c84639131456a6353fd7d3da1f7'', True, ''xed-operand-values-interface.h'')]]"

lemma functions_1_part4_ok: "list_all (row_ok 120) functions_1_part4"
  by (simp only: functions_1_part4_def row_checks)

definition functions_1_part5 :: "search_row list" where
  "functions_1_part5 = [
    row ''xed_5foperand_5fvalues_5fget_5fscale'' ''xed_operand_values_get_scale'' [(''../group__OPERANDS.html#ga1d99c5cc74ce04f2be6a99004d1003e8'', True, ''xed-operand-values-interface.h'')],
    row ''xed_5foperand_5fvalues_5fget_5fsecond_5fimmediate'' ''xed_operand_values_get_second_immediate'' [(''../group__OPERANDS.html#ga1a99c5b46023775feac575ae23fb3824'', True, ''xed-operand-values-interface.h'')],
    row ''xed_5foperand_5fvalues_5fget_5fseg_5freg'' ''xed_operand_values_get_seg_reg'' [(''../group__OPERANDS.html#ga32a9e772249d82b2b3583a5b075f10e0'', True, ''xed-operand-values-interface.h'')],
    row ''xed_5foperand_5fvalues_5fget_5fstack_5faddress_5fwidth'' ''xed_operand_values_get_stack_address_width'' [(''../group__OPERANDS.html#gaacf6a2885f3012b0b655838fc0ef6cc0'', True, ''xed-operand-values-interface.h'')],
    row ''xed_5foperand_5fvalues_5fhas_5f66_5fprefix'' ''xed_operand_values_has_66_prefix'' [(''../group__OPERANDS.html#gab0dbe428e16fea4d11c2498ce23eb489'', True, ''xed-operand-values-interface.h'')],
    row ''xed_5foperand_5fvalues_5fhas_5faddress_5fsize_5fprefix'' ''xed_operand_values_has_address_size_prefix'' [(''../group__OPERANDS.html#gae3a5a7fec6f106c2f00029920cc5fa27'', True, ''xed-operand-values-interface.h'')],
    row ''xed_5foperand_5fvalues_5fhas_5fbranch_5fdisplacement'' ''xed_operand_values_has_branch_displacement'' [(''../group__OPERANDS.html#ga4ad34793ee0b41476c742182fa625caa'', True, ''xed-operand-values-interface.h'')],
    row ''xed_5foperand_5fvalues_5fhas_5fdisp'' ''xed_operand_values_has_disp'' [(''../group__OPERANDS.html#gab0d49de82df18773d120efd1b5facb96'', True, ''xed-operand-values-interface.h'')],
    row ''xed_5foperand_5fvalues_5fhas_5fdisplacement'' ''xed_operand_values_has_displacement'' [(''../group__OPERANDS.html#ga35cc443e8ea463cfe087ed5ad3287de5'', True, ''xed-operand-values-interface.h'')],
    row ''xed_5foperand_5fvalues_5fhas_5fimmediate'' ''xed_operand_values_has_immediate'' [(''../group__OPERANDS.html#ga7be044800ef408c7043e7c443c8c9702'', True, ''xed-operand-values-interface.h'')],
    row ''xed_5foperand_5fvalues_5fhas_5flock_5fprefix'' ''xed_operand_values_has_lock_prefix'' [(''../group__OPERANDS.html#gaa2538c59d88956f3eb10a67ee935f468'', True, ''xed-operand-values-interface.h'')],
    row ''xed_5foperand_5fvalues_5fhas_5fmemory_5fdisplacement'' ''xed_operand_values_has_memory_displacement'' [(''../group__OPERANDS.html#gab6a6effe1bbf439f960f8d9b8a383853'', True, ''xed-operand-values-interface.h'')],
    row ''xed_5foperand_5fvalues_5fhas_5fmodrm_5fbyte'' ''xed_operand_values_has_modrm_byte'' [(''../group__OPERANDS.html#gaef78b1391f4b8a0794cf1aa8f9d9d078'', True, ''xed-operand-values-interface.h'')],
    row ''xed_5foperand_5fvalues_5fhas_5foperand_5fsize_5fprefix'' ''xed_operand_values_has_operand_size_prefix'' [(''../group__OPERANDS.html#ga6deaeebd7683e763676f95439d9682f6'', True, ''xed-operand-values-interface.h'')],
    row ''xed_5foperand_5fvalues_5fhas_5freal_5frep'' ''xed_operand_values_has_real_rep'' [(''../group__OPERANDS.html#ga0bcce90b8c597ccd99594402ec96e0eb'', True, ''xed-operand-values-interface.h'')],
    row ''xed_5foperand_5fvalues_5fhas_5frep_5fprefix'' ''xed_operand_values_has_rep_prefix'' [(''../group__OPERANDS.html#ga3966c5b2903a8749111e17c684aaf8f8'', True, ''xed-operand-values-interface.h'')],
    row ''xed_5foperand_5fvalues_5fhas_5frepne_5fprefix'' ''xed_operand_values_has_repne_prefix'' [(''../group__OPERANDS.html#ga096c1eb2836bbf4d1add684b8933763c'', True, ''xed-operand-values-interface.h'')],
    row ''xed_5foperand_5fvalues_5fhas_5frexw_5fprefix'' ''xed_operand_values_has_rexw_prefix'' [(''../group__OPERANDS.html#gaf2906d60081b02aa491198720295dae4'', True, ''xed-operand-values-interface.h'')],
    row ''xed_5foperand_5fvalues_5fhas_5fsegment_5fprefix'' ''xed_operand_values_has_segment_prefix'' [(''../group__OPERANDS.html#ga83152cba3e67d2753d01bff505012c6e'', True, ''xed-operand-values-interface.h'')],
    row ''xed_5foperand_5fvalues_5fhas_5fsib_5fbyte'' ''xed_operand_values_has_sib_byte'' [(''../group__OPERANDS.html#ga87e7a1bf6ad7fc739d57334c60da30f3'', True, ''xed-operand-values-interface.h'')],
    row ''xed_5foperand_5fvalues_5finit'' ''xed_operand_values_init'' [(''../group__OPERANDS.html#ga5b6cd7ad6c5c853c8ae1179df71fe6d1'', True, ''xed-operand-values-interface.h'')],
    row ''xed_5foperand_5fvalues_5finit_5fkeep_5fmode'' ''xed_operand_values_init_keep_mode'' [(''../group__OPERANDS.html#gae001db086cdf4d03d81301448133bbb1'', True, ''xed-operand-values-interface.h'')],
    row ''xed_5foperand_5fvalues_5finit_5fset_5fmode'' ''xed_operand_values_init_set_mode'' [(''../group__OPERANDS.html#ga6eb60207e9dc46671fc89b83c10071aa'', True, ''xed-operand-values-interface.h'')],
    row ''xed_5foperand_5fvalues_5fis_5fnop'' ''xed_operand_values_is_nop'' [(''../group__OPERANDS.html#ga1e19112db73aea4cb91a8682cf7c1dac'', True, ''xed-operand-values-interface.h'')],
    row ''xed_5foperand_5fvalues_5fis_5fprefetch'' ''xed_operand_values_is_prefetch'' [(''../group__OPERANDS.html#gaf1b7e94aa1e7bc4a75d707d31ca66254'', True, ''xed-operand-values-interface.h'')],
    row ''xed_5foperand_5fvalues_5fmemop_5fwithout_5fmodrm'' ''xed_operand_values_memop_without_modrm'' [(''../group__OPERANDS.html#ga85403c1bc57896f0cc1f0c5d9abd2274'', True, ''xed-operand-values-interface.h'')],
    row ''xed_5foperand_5fvalues_5fnumber_5fof_5fmemory_5foperands'' ''xed_operand_values_number_of_memory_operands'' [(''../group__OPERANDS.html#ga2ff2163fe076e8a42b6ef103c8e40cbb'', True, ''xed-operand-values-interface.h'')],
    row ''xed_5foperand_5fvalues_5fprint_5fshort'' ''xed_operand_values_print_short'' [(''../group__OPERANDS.html#gadb275817ff6e4ba6c5564bfe1e08baed'', True, ''xed-operand-values-interface.h'')],
    row ''xed_5foperand_5fvalues_5fsegment_5fprefix'' ''xed_operand_values_segment_prefix'' [(''../group__OPERANDS.html#ga00b4273f4b2bc5c7fd8e3d411933f8f8'', True, ''xed-operand-values-interface.h'')],
    row ''xed_5foperand_5fvalues_5fset_5fbase_5freg'' ''xed_operand_values_set_base_reg'' [(''../group__OPERANDS.html#gadf2be76edca3f39bafab94d24e222a71'', True, ''xed-operand-values-interface.h'')],
    row ''xed_5foperand_5fvalues_5fset_5fbranch_5fdisplacement'' ''xed_operand_values_set_branch_displacement'' [(''../group__OPERANDS.html#ga12d966bebe7958e90b66748fb450f395'', True, ''xed-operand-values-interface.h'')],
    row ''xed_5foperand_5fvalues_5fset_5fbranch_5fdisplacement_5fbits'' ''xed_operand_values_set_branch_displacement_bits'' [(''../group__OPERANDS.html#gabbfc1e1043fe9cbbd5b2c28e175bca14'', True, ''xed-operand-values-interface.h'')],
    row ''xed_5foperand_5fvalues_5fset_5feffective_5faddress_5fwidth'' ''xed_operand_values_set_effective_address_width'' [(''../group__OPERANDS.html#gad95d746cbd35df5d5c7f8b83c210d6af'', True, ''xed-operand-values-interface.h'')],
    row ''xed_5foperand_5fvalues_5fset_5feffective_5foperand_5fwidth'' ''xed_operand_values_set_effective_operand_width'' [(''../group__OPERANDS.html#ga8119fa724cf57405a7add41dded6d4f9'', True, ''xed-operand-values-interface.h'')],
    row ''xed_5foperand_5fvalues_5fset_5ficlass'' ''xed_operand_values_set_iclass'' [(''../group__OPERANDS.html#ga7f3b5c59703a37501db7d05da5e6f77c'', True, ''xed-operand-values-interface.h'')],
    row ''xed_5foperand_5fvalues_5fset_5fimmediate_5fsigned'' ''xed_operand_values_set_immediate_signed'' [(''../group__OPERANDS.html#gae400dbb088178fa9f337b9d38f5a7948'', True, ''xed-operand-values-interface.h'')],
    row ''xed_5foperand_5fvalues_5fset_5fimmediate_5fsigned_5fbits'' ''xed_operand_values_set_immediate_signed_bits'' [(''../group__OPERANDS.html#ga7be830dd0257413a74ffbad8dc23dba6'', True, ''xed-operand-values-interface.h'')],
    row ''xed_5foperand_5fvalues_5fset_5fimmediate_5funsigned'' ''xed_operand_values_set_immediate_unsigned'' [(''../group__OPERANDS.html#ga1260936e977bf0482d3f39ccdf4cc3a1'', True, ''xed-operand-values-interface.h'')],
    row ''xed_5foperand_5fvalues_5fset_5fimmediate_5funsigned_5fbits'' ''xed_operand_values_set_immediate_unsigned_bits'' [(''../group__OPERANDS.html#gab383c9302d616845f5fd2d18d82de41d'', True, ''xed-operand-values-interface.h'')],
    row ''xed_5foperand_5fvalues_5fset_5findex_5freg'' ''xed_operand_values_set_index_reg'' [(''../group__OPERANDS.html#ga0db1850a20688c49a58dc3c58a22d10e'', True, ''xed-operand-values-interface.h'')],
    row ''xed_5foperand_5fvalues_5fset_5flock'' ''xed_operand_values_set_lock'' [(''../group__OPERANDS.html#ga3c9128293103c5f0b95950ff1236ff88'', True, ''xed-operand-values-interface.h'')],
    row ''xed_5foperand_5fvalues_5fset_5fmemory_5fdisplacement'' ''xed_operand_values_set_memory_displacement'' [(''../group__OPERANDS.html#gaedee3cb7286c75315509b134df059a74'', True, ''xed-operand-values-interface.h'')],
    row ''xed_5foperand_5fvalues_5fset_5fmemory_5fdisplacement_5fbits'' ''xed_operand_values_set_memory_displacement_bits'' [(''../group__OPERANDS.html#ga05bf6c2fa49a834f70a94963b17cde22'', True, ''xed-operand-values-interface.h'')],
    row ''xed_5foperand_5fvalues_5fset_5fmemory_5foperand_5flength'' ''xed_operand_values_set_memory_operand_length'' [(''../group__OPERANDS.html#gad32325d0d429ae72339716ac127e39d5'', True, ''xed-operand-values-interface.h'')],
    row ''xed_5foperand_5fvalues_5fset_5fmode'' ''xed_operand_values_set_mode'' [(''../group__OPERANDS.html#ga025ea6aee9f168f8cb5ef46fff246f9f'', True, ''xed-operand-values-interface.h'')],
    row ''xed_5foperand_5fvalues_5fset_5foperand_5freg'' ''xed_operand_values_set_operand_reg'' [(''../group__OPERANDS.html#ga744645903f7039889af77b3508564cfd'', True, ''xed-operand-values-interface.h'')],
    row ''xed_5foperand_5fvalues_5fset_5frelbr'' ''xed_operand_values_set_relbr'' [(''../group__OPERANDS.html#ga537bed3747058bcd6ad9b7a4b1aa08eb'', True, ''xed-operand-values-interface.h'')],
    row ''xed_5foperand_5fvalues_5fset_5frep'' ''xed_operand_values_set_rep'' [(''../group__OPERANDS.html#ga59341fd57d04399e63d2fc0a4b3b775e'', True, ''xed-operand-values-interface.h'')],
    row ''xed_5foperand_5fvalues_5fset_5frepne'' ''xed_operand_values_set_repne'' [(''../group__OPERANDS.html#gac2d44c5a34d1fb71c16b0d9dd74b3ca5'', True, ''xed-operand-values-interface.h'')],
    row ''xed_5foperand_5fvalues_5fset_5fscale'' ''xed_operand_values_set_scale'' [(''../group__OPERANDS.html#gaaaf50a712ca8744b8cd691eafb86c4a4'', True, ''xed-operand-values-interface.h'')],
    row ''xed_5foperand_5fvalues_5fset_5fseg_5freg'' ''xed_operand_values_set_seg_reg'' [(''../group__OPERANDS.html#ga42042ac303bf40349f16f86067136003'', True, ''xed-operand-values-interface.h'')],
    row ''xed_5foperand_5fvalues_5fusing_5fdefault_5fsegment'' ''xed_operand_values_using_default_segment'' [(''../group__OPERANDS.html#ga2df559dd7d1351acd695d465e5abe744'', True, ''xed-operand-values-interface.h'')],
    row ''xed_5foperand_5fvalues_5fzero_5fbranch_5fdisplacement'' ''xed_operand_values_zero_branch_displacement'' [(''../group__OPERANDS.html#ga1fac876f3845367744e310c73a58e6d3'', True, ''xed-operand-values-interface.h'')],
    row ''xed_5foperand_5fvalues_5fzero_5fimmediate'' ''xed_operand_values_zero_immediate'' [(''../group__OPERANDS.html#ga4c37d06cb63579682167121fc8eb0d7f'', True, ''xed-operand-values-interface.h'')],
    row ''xed_5foperand_5fvalues_5fzero_5fmemory_5fdisplacement'' ''xed_operand_values_zero_memory_displacement'' [(''../group__OPERANDS.html#ga82f62b105b9dc21218a39a967ce0ae51'', True, ''xed-operand-values-interface.h'')],
    row ''xed_5foperand_5fvalues_5fzero_5fsegment_5foverride'' ''xed_operand_values_zero_segment_override'' [(''../group__OPERANDS.html#ga84fc9b76ed30ec24823678cf6e326447'', True, ''xed-operand-values-interface.h'')],
    row ''xed_5foperand_5fvisibility_5fenum_5ft2str'' ''xed_operand_visibility_enum_t2str'' [(''../group__ENUM.html#ga1599399c8155e07c2eb230bb6875aa8a'', True, ''xed-operand-visibility-enum.h'')],
    row ''xed_5foperand_5fvisibility_5fenum_5ft_5flast'' ''xed_operand_visibility_enum_t_last'' [(''../group__ENUM.html#ga34c4bf3df5a3cea65aba5e13c9d5bbd5'', True, ''xed-operand-visibility-enum.h'')],
    row ''xed_5foperand_5fwidth'' ''xed_operand_width'' [(''../group__DEC.html#ga1159569c734bf712a40a2a88542d549d'', True, ''xed-inst.h'')],
    row ''xed_5foperand_5fwidth_5fbits'' ''xed_operand_width_bits'' [(''../group__DEC.html#gadbb0e75ea7e966e901ac37ab8956bd62'', True, ''xed-inst.h'')],
    row ''xed_5foperand_5fwidth_5fenum_5ft2str'' ''xed_operand_width_enum_t2str'' [(''../group__ENUM.html#ga0b6efac075c3dda631990ba013a5bbfb'', True, ''xed-operand-width-enum.h'')],
    row ''xed_5foperand_5fwidth_5fenum_5ft_5flast'' ''xed_operand_width_enum_t_last'' [(''../group__ENUM.html#gac622486650aee8e8980a67350dfea1cb'', True, ''xed-operand-width-enum.h'')],
    row ''xed_5foperand_5fwritten'' ''xed_operand_written'' [(''../group__DEC.html#gaadb2fcc833f5245dcbfd80dd0499694d'', True, ''xed-inst.h'')],
    row ''xed_5foperand_5fwritten_5fonly'' ''xed_operand_written_only'' [(''../group__DEC.html#ga7463fa65b041fb66790532ba6ea3ca50'', True, ''xed-inst.h'')],
    row ''xed_5foperand_5fxtype'' ''xed_operand_xtype'' [(''../group__DEC.html#ga22c8091a766086dccc3e753a9963b737'', True, ''xed-inst.h'')],
    row ''xed_5fother'' ''xed_other'' [(''../group__ENCHL.html#ga8dfc6dc0b9cca1352df254cf6734d63e'', True, ''xed-encoder-hl.h'')],
    row ''xed_5fptr'' ''xed_ptr'' [(''../group__ENCHL.html#gae25e2c2e66c0c7b9b743b1f3ccc0e1d9'', True, ''xed-encoder-hl.h'')],
    row ''xed_5freg'' ''xed_reg'' [(''../group__ENCHL.html#ga663a78dc655589c9de346948d4be5163'', True, ''xed-encoder-hl.h'')],
    row ''xed_5freg_5fclass'' ''xed_reg_class'' [(''../group__REGINTFC.html#ga9003309edac48c9c1dfca2187497c613'', True, ''xed-reg-class.h'')],
    row ''xed_5freg_5fclass_5fenum_5ft2str'' ''xed_reg_class_enum_t2str'' [(''../group__ENUM.html#ga316b262608066a946aaa86cde7b1debb'', True, ''xed-reg-class-enum.h'')],
    row ''xed_5freg_5fclass_5fenum_5ft_5flast'' ''xed_reg_class_enum_t_last'' [(''../group__ENUM.html#ga1a6bbdc6f91152faa4705c360ad8b0d0'', True, ''xed-reg-class-enum.h'')],
    row ''xed_5freg_5fenum_5ft2str'' ''xed_reg_enum_t2str'' [(''../group__ENUM.html#ga2219331ccd4d809d431e81fe5e857e95'', True, ''xed-reg-enum.h'')],
    row ''xed_5freg_5fenum_5ft_5flast'' ''xed_reg_enum_t_last'' [(''../group__ENUM.html#gad2255166d37ffe04cbf52650a2fd27f2'', True, ''xed-reg-enum.h'')],
    row ''xed_5freg_5frole_5fenum_5ft2str'' ''xed_reg_role_enum_t2str'' [(''../group__ENUM.html#gad0f6f3c21707dc5b89c9c370017cbdc6'', True, ''xed-reg-role-enum.h'')],
    row ''xed_5freg_5frole_5fenum_5ft_5flast'' ''xed_reg_role_enum_t_last'' [(''../group__ENUM.html#ga30015569197d490a9b6afa9ff9826089'', True, ''xed-reg-role-enum.h'')],
    row ''xed_5fregister_5fabort_5ffunction'' ''xed_register_abort_function'' [(''../group__INIT.html#ga017b6fcac483ea9f1621c4cdd0af84bd'', True, ''xed-util.h'')],
    row ''xed_5frelbr'' ''xed_relbr'' [(''../group__ENCHL.html#ga6995703f202763c8e48c543a7f595caa'', True, ''xed-encoder-hl.h'')],
    row ''xed_5frep'' ''xed_rep'' [(''../group__ENCHL.html#gafae142401bdf92a7c2678acb2cdb48ef'', True, ''xed-encoder-hl.h'')],
    row ''xed_5frepne'' ''xed_repne'' [(''../group__ENCHL.html#ga1ee942b4e09f224c6c1591ddac5268ad'', True, ''xed-encoder-hl.h'')],
    row ''xed_5fseg0'' ''xed_seg0'' [(''../group__ENCHL.html#gab997d13c4f651142bfeb826b0025cb2a'', True, ''xed-encoder-hl.h'')],
    row ''xed_5fseg1'' ''xed_seg1'' [(''../group__ENCHL.html#gad9010db708e95c0fb31bab087c8a64ba'', True, ''xed-encoder-hl.h'')],
    row ''xed_5fset_5flog_5ffile'' ''xed_set_log_file'' [(''../xed-util_8h.html#a0d6317007b747c86b9f0640777091f2e'', True, ''xed-util.h'')],
    row ''xed_5fset_5fverbosity'' ''xed_set_verbosity'' [(''../xed-util_8h.html#af7649c62a890faa6cd42c63dc359754d'', True, ''xed-util.h'')],
    row ''xed_5fshortest_5fwidth_5fsigned'' ''xed_shortest_width_signed'' [(''../xed-util_8h.html#ae76adb41ea8c5db787fd9ed547361dab'', True, ''xed-util.h'')],
    row ''xed_5fshortest_5fwidth_5funsigned'' ''xed_shortest_width_unsigned'' [(''../xed-util_8h.html#afc3f527af321fcf0c92d75312043c522'', True, ''xed-util.h'')],
    row ''xed_5fsign_5fextend16_5f32'' ''xed_sign_extend16_32'' [(''../xed-util_8h.html#a8e2e41703c88eed38172abd6fd66689b'', True, ''xed-util.h'')],
    row ''xed_5fsign_5fextend16_5f64'' ''xed_sign_extend16_64'' [(''../xed-util_8h.html#a11ce8adb47394961e0963153f905a8c0'', True, ''xed-util.h'')],
    row ''xed_5fsign_5fextend32_5f64'' ''xed_sign_extend32_64'' [(''../xed-util_8h.html#a18389860c680a9845b9b5045f3306089'', True, ''xed-util.h'')],
    row ''xed_5fsign_5fextend8_5f16'' ''xed_sign_extend8_16'' [(''../xed-util_8h.html#a7aa20e3418952ab2fce8d0a25984a4d3'', True, ''xed-util.h'')],
    row ''xed_5fsign_5fextend8_5f32'' ''xed_sign_extend8_32'' [(''../xed-util_8h.html#ae8dfa33a61adf2fb28ed97fbfc01c2f4'', True, ''xed-util.h'')],
    row ''xed_5fsign_5fextend8_5f64'' ''xed_sign_extend8_64'' [(''../xed-util_8h.html#a29a8c7d15c7bed2f34e174764b7532c6'', True, ''xed-util.h'')],
    row ''xed_5fsign_5fextend_5farbitrary_5fto_5f32'' ''xed_sign_extend_arbitrary_to_32'' [(''../xed-util_8h.html#ac6a8e80115d193121a70f02f0fe49d0c'', True, ''xed-util.h'')],
    row ''xed_5fsign_5fextend_5farbitrary_5fto_5f64'' ''xed_sign_extend_arbitrary_to_64'' [(''../xed-util_8h.html#a8aef82b956778a0556f2a5f3346d19bd'', True, ''xed-util.h'')],
    row ''xed_5fsimm0'' ''xed_simm0'' [(''../group__ENCHL.html#ga74bf9195171da8314620547761475398'', True, ''xed-encoder-hl.h'')],
    row ''xed_5fsimple_5fflag_5fget_5fflag_5faction'' ''xed_simple_flag_get_flag_action'' [(''../group__FLAGS.html#ga1db7706b1121de4f70e82fc85e3988c1'', True, ''xed-flags.h'')],
    row ''xed_5fsimple_5fflag_5fget_5fmay_5fwrite'' ''xed_simple_flag_get_may_write'' [(''../group__FLAGS.html#ga7ef6569c3ed439bc8987307492a59281'', True, ''xed-flags.h'')],
    row ''xed_5fsimple_5fflag_5fget_5fmust_5fwrite'' ''xed_simple_flag_get_must_write'' [(''../group__FLAGS.html#gab8e5992bf7dc342a056c4f57c80c01ed'', True, ''xed-flags.h'')],
    row ''xed_5fsimple_5fflag_5fget_5fnflags'' ''xed_simple_flag_get_nflags'' [(''../group__FLAGS.html#ga786dd6f5adb1f8d6aa47f53c1531473c'', True, ''xed-flags.h'')],
    row ''xed_5fsimple_5fflag_5fget_5fread_5fflag_5fset'' ''xed_simple_flag_get_read_flag_set'' [(''../group__FLAGS.html#ga0ae38bd952ce6da5eac4dac97c943caa'', True, ''xed-flags.h'')],
    row ''xed_5fsimple_5fflag_5fget_5fundefined_5fflag_5fset'' ''xed_simple_flag_get_undefined_flag_set'' [(''../group__FLAGS.html#ga9428b5e072f9d0ccbf325b9e3e84cbf8'', True, ''xed-flags.h'')],
    row ''xed_5fsimple_5fflag_5fget_5fwritten_5fflag_5fset'' ''xed_simple_flag_get_written_flag_set'' [(''../group__FLAGS.html#gafd8226ec18ea804e5abbe9e6fef0c526'', True, ''xed-flags.h'')],
    row ''xed_5fsimple_5fflag_5fprint'' ''xed_simple_flag_print'' [(''../group__FLAGS.html#gaee816a433d9b1d87036165ac530c2a41'', True, ''xed-flags.h'')],
    row ''xed_5fsimple_5fflag_5freads_5fflags'' ''xed_simple_flag_reads_flags'' [(''../group__FLAGS.html#ga9aca7e505fe7962aa715528f32b18784'', True, ''xed-flags.h'')],
    row ''xed_5fsimple_5fflag_5fwrites_5fflags'' ''xed_simple_flag_writes_flags'' [(''../group__FLAGS.html#ga6bf79b1d9e94986b06db3977172ceeff'', True, ''xed-flags.h'')],
    row ''xed_5fsprintf_5fint16'' ''xed_sprintf_int16'' [(''../xed-util_8h.html#a615376eb148369f0ebbd36c48c73f7c4'', True, ''xed-util.h'')],
    row ''xed_5fsprintf_5fint32'' ''xed_sprintf_int32'' [(''../xed-util_8h.html#af872b81ba0f8dde6a4aa0923d8a2088b'', True, ''xed-util.h'')],
    row ''xed_5fsprintf_5fint64'' ''xed_sprintf_int64'' [(''../xed-util_8h.html#a9ea8aad4089d50cace44fe84fc03ca62'', True, ''xed-util.h'')],
    row ''xed_5fsprintf_5fint8'' ''xed_sprintf_int8'' [(''../xed-util_8h.html#a1be3df2575c8efb193408b387585f7a9'', True, ''xed-util.h'')],
    row ''xed_5fsprintf_5fuint16'' ''xed_sprintf_uint16'' [(''../xed-util_8h.html#a55c55777b364ec77206eaae3d48be85b'', True, ''xed-util.h'')],
    row ''xed_5fsprintf_5fuint16_5fhex'' ''xed_sprintf_uint16_hex'' [(''../xed-util_8h.html#a598cbc7d35f8c31e454ee7c44757e39c'', True, ''xed-util.h'')],
    row ''xed_5fsprintf_5fuint32'' ''xed_sprintf_uint32'' [(''../xed-util_8h.html#a2fde471ac6296872487d5c4883aa7e22'', True, ''xed-util.h'')],
    row ''xed_5fsprintf_5fuint32_5fhex'' ''xed_sprintf_uint32_hex'' [(''../xed-util_8h.html#a65f110d7c4a2f4b3d5a875a5f139ca12'', True, ''xed-util.h'')],
    row ''xed_5fsprintf_5fuint64'' ''xed_sprintf_uint64'' [(''../xed-util_8h.html#a3f2386bbe7041d1dc0df84922b4c1603'', True, ''xed-util.h'')],
    row ''xed_5fsprintf_5fuint64_5fhex'' ''xed_sprintf_uint64_hex'' [(''../xed-util_8h.html#a4e13d14e2e538ba6da0acead0a893b84'', True, ''xed-util.h'')],
    row ''xed_5fsprintf_5fuint8'' ''xed_sprintf_uint8'' [(''../xed-util_8h.html#aa3edeba63dbacf69b346400ee5be05f3'', True, ''xed-util.h'')],
    row ''xed_5fsprintf_5fuint8_5fhex'' ''xed_sprintf_uint8_hex'' [(''../xed-util_8h.html#a77a69d90f191190effbb512f080d236e'', True, ''xed-util.h'')],
    row ''xed_5fstate_5fget_5faddress_5fwidth'' ''xed_state_get_address_width'' [(''../group__INIT.html#gaa5df14c6b5a97bd9f9ee4c50ab790a85'', True, ''xed-state.h'')],
    row ''xed_5fstate_5fget_5fmachine_5fmode'' ''xed_state_get_machine_mode'' [(''../group__INIT.html#ga8b1fc00b95c50fd54959889d72dc569a'', True, ''xed-state.h'')],
    row ''xed_5fstate_5fget_5fstack_5faddress_5fwidth'' ''xed_state_get_stack_address_width'' [(''../group__INIT.html#ga4fb992e21a8f9f9f39e8fa36f22de96c'', True, ''xed-state.h'')],
    row ''xed_5fstate_5finit'' ''xed_state_init'' [(''../group__INIT.html#gaa181c6c7162e8851a786dbdd94c77dd3'', True, ''xed-state.h'')],
    row ''xed_5fstate_5finit2'' ''xed_state_init2'' [(''../group__INIT.html#ga9e767a03896bae8167b85510fdb661ce'', True, ''xed-state.h'')],
    row ''xed_5fstate_5flong64_5fmode'' ''xed_state_long64_mode'' [(''../group__INIT.html#ga8d32c7696d58a4a4aa103de13f7de577'', True, ''xed-state.h'')],
    row ''xed_5fstate_5fmode_5fwidth_5f16'' ''xed_state_mode_width_16'' [(''../group__INIT.html#ga15a9c2418fa6909fc7eeebea045722e6'', True, ''xed-state.h'')],
    row ''xed_5fstate_5fmode_5fwidth_5f32'' ''xed_state_mode_width_32'' [(''../group__INIT.html#gaa2f13457567fea6468967cde050eefdf'', True, ''xed-state.h'')],
    row ''xed_5fstate_5fprint'' ''xed_state_print'' [(''../group__INIT.html#ga0910f14ae574d3cca7e4cfcc7bc2e0e5'', True, ''xed-state.h'')],
    row ''xed_5fstate_5freal_5fmode'' ''xed_state_real_mode'' [(''../group__INIT.html#ga8b3b369cad18a5a71ff9c068878377ce'', True, ''xed-state.h'')],
    row ''xed_5fstate_5fset_5fmachine_5fmode'' ''xed_state_set_machine_mode'' [(''../group__INIT.html#gabb8aa407f1664d9cee6201bb69e638f7'', True, ''xed-state.h'')],
    row ''xed_5fstate_5fset_5fstack_5faddress_5fwidth'' ''xed_state_set_stack_address_width'' [(''../group__INIT.html#ga724e2158223d6c97bd8fb619af042cf7'', True, ''xed-state.h'')],
    row ''xed_5fstate_5fzero'' ''xed_state_zero'' [(''../group__INIT.html#ga8eea80ff7aa0fc77c3c3e90ce3e1fd64'', True, ''xed-state.h'')],
    row ''xed_5fstrcat'' ''xed_strcat'' [(''../xed-portability_8h.html#aef437ca60686a8ee23d323894cf3b299'', True, ''xed-portability.h'')],
    row ''xed_5fstrcpy'' ''xed_strcpy'' [(''../xed-portability_8h.html#a1a21b3b9fd75dbfee213ee62e6b7dc30'', True, ''xed-portability.h'')],
    row ''xed_5fstrlen'' ''xed_strlen'' [(''../xed-portability_8h.html#a7bb6c2f4c722b4f7357ecf13eb7e4b07'', True, ''xed-portability.h'')],
    row ''xed_5fstrncat'' ''xed_strncat'' [(''../xed-portability_8h.html#ac73eaae0d7b44c569076170c8edb9f0c'', True, ''xed-portability.h'')],
    row ''xed_5fstrncat_5flower'' ''xed_strncat_lower'' [(''../xed-util_8h.html#aa819f5a2381e4511576a33578587e6f1'', True, ''xed-util.h'')],
    row ''xed_5fstrncpy'' ''xed_strncpy'' [(''../xed-portability_8h.html#a4eab1affb8a1c6e1db4c0e6585cbd120'', True, ''xed-portability.h'')],
    row ''xed_5fsyntax_5fenum_5ft2str'' ''xed_syntax_enum_t2str'' [(''../group__ENUM.html#ga803092dbbebc22786f8b974efbe97ca8'', True, ''xed-syntax-enum.h'')],
    row ''xed_5fsyntax_5fenum_5ft_5flast'' ''xed_syntax_enum_t_last'' [(''../group__ENUM.html#gaee6d6cc72a43e967fcd2c4879aa469dc'', True, ''xed-syntax-enum.h'')],
    row ''xed_5ftables_5finit'' ''xed_tables_init'' [(''../group__INIT.html#gacc180d75159533eb63e61611004d4512'', True, ''xed-init.h'')],
    row ''xed_5fto_5fascii_5fhex_5fnibble'' ''xed_to_ascii_hex_nibble'' [(''../xed-util_8h.html#ad1f9074520d38e32f68443c302b88098'', True, ''xed-util.h'')],
    row ''xed_5fzero_5fextend16_5f32'' ''xed_zero_extend16_32'' [(''../xed-util_8h.html#a4f79aeaa6a48f0826e9e240330e132d4'', True, ''xed-util.h'')],
    row ''xed_5fzero_5fextend16_5f64'' ''xed_zero_extend16_64'' [(''../xed-util_8h.html#ad335dae20729e39dccdf7fa5e0374322'', True, ''xed-util.h'')],
    row ''xed_5fzero_5fextend32_5f64'' ''xed_zero_extend32_64'' [(''../xed-util_8h.html#afdb98a2e7f24d812c4d8d43f70dcb63c'', True, ''xed-util.h'')],
    row ''xed_5fzero_5fextend8_5f16'' ''xed_zero_extend8_16'' [(''../xed-util_8h.html#ae44fb14e3152737d082c95eacb8146a3'', True, ''xed-util.h'')],
    row ''xed_5fzero_5fextend8_5f32'' ''xed_zero_extend8_32'' [(''../xed-util_8h.html#af223ef6ee50235d961a2bf9b1b9e267d'', True, ''xed-util.h'')],
    row ''xed_5fzero_5fextend8_5f64'' ''xed_zero_extend8_64'' [(''../xed-util_8h.html#a1cb3d379f310e2bc3961fcfba835b081'', True, ''xed-util.h'')]]"

lemma functions_1_part5_ok: "list_all (row_ok 120) functions_1_part5"
  by (simp only: functions_1_part5_def row_checks)

definition functions_1 :: "search_row list" where
  "functions_1 = functions_1_part1 @ functions_1_part2 @ functions_1_part3 @ functions_1_part4 @ functions_1_part5"

lemma functions_1_ok: "list_all (row_ok 120) functions_1"
  by (simp only: functions_1_def list_all_append functions_1_part1_ok functions_1_part2_ok functions_1_part3_ok functions_1_part4_ok functions_1_part5_ok simp_thms)

end
