(* ===== verification/Search_Tables_3.thy ===== *)
theory Search_Tables_3
  imports Search_Rows
begin

text \<open>
  The pages of the search index for all names, without that of the names that start with an x.
\<close>

text \<open>\<open>search/all_0.js\<close>\<close>

definition all_0 :: "search_row list" where
  "all_0 = [
    row ''_5fattributes'' ''_attributes'' [(''../structxed__inst__s.html#a03367ba1ec117dbfbd2f1f09e9a9b510'', True, ''xed_inst_s'')],
    row ''_5fbyte_5farray'' ''_byte_array'' [(''../structxed__decoded__inst__s.html#a38b03be58fb05fab25bb86995a92e5fe'', True, ''xed_decoded_inst_s'')],
    row ''_5fcpl'' ''_cpl'' [(''../structxed__inst__s.html#a28c6d88881677fb400e4090e1870b572'', True, ''xed_inst_s'')],
    row ''_5fcvt_5fidx'' ''_cvt_idx'' [(''../structxed__operand__s.html#aeaa9312334b505ca705b317a153dfe8e'', True, ''xed_operand_s'')],
    row ''_5fdec'' ''_dec'' [(''../structxed__decoded__inst__s.html#a412cdad60af0a1b6764572bd1e06341a'', True, ''xed_decoded_inst_s'')],
    row ''_5fdecoded_5flength'' ''_decoded_length'' [(''../structxed__decoded__inst__s.html#a1fab5a1da476258bf447ee424db583da'', True, ''xed_decoded_inst_s'')],
    row ''_5fenc'' ''_enc'' [(''../structxed__decoded__inst__s.html#acd3a82f4a7db2f2d84e13b80953fe5a1'', True, ''xed_decoded_inst_s'')],
    row ''_5fexceptions'' ''_exceptions'' [(''../structxed__inst__s.html#aa3c2bcd18be8815cd9de0d3674bfc1c2'', True, ''xed_inst_s'')],
    row ''_5fflag_5fcomplex'' ''_flag_complex'' [(''../structxed__inst__s.html#aeef213bf1a5d21d2bf11bcf56c709b19'', True, ''xed_inst_s'')],
    row ''_5fflag_5finfo_5findex'' ''_flag_info_index'' [(''../structxed__inst__s.html#a75158b2726e38f4a99e2b211e0e400dc'', True, ''xed_inst_s'')],
    row ''_5fif'' ''_if'' [(''../unionxed__flag__set__s.html#a215d00bbdb63524a71e545fda8dfc329'', True, ''xed_flag_set_s'')],
    row ''_5fiform_5fenum'' ''_iform_enum'' [(''../structxed__inst__s.html#a56d07f8f78f5be97310c3b250643a0cc'', True, ''xed_inst_s'')],
    row ''_5fimm'' ''_imm'' [(''../structxed__operand__s.html#aadbfe169117889af4a00b8e66ad8d577'', True, ''xed_operand_s'')],
    row ''_5finst'' ''_inst'' [(''../structxed__decoded__inst__s.html#ab08a8c51fc2965d6bd2f741281375145'', True, ''xed_decoded_inst_s'')],
    row ''_5fn_5foperand_5forder'' ''_n_operand_order'' [(''../structxed__decoded__inst__s.html#a18dfd5080b21ef3e0dbdb4ee25eb607c'', True, ''xed_decoded_inst_s'')],
    row ''_5fname'' ''_name'' [(''../structxed__operand__s.html#a5648d7311aa0ac212d1d791ae77d61ca'', True, ''xed_operand_s'')],
    row ''_5fnoperands'' ''_noperands'' [(''../structxed__inst__s.html#acb846ead9a58e1648b7df7b3ca3e2f3d'', True, ''xed_inst_s'')],
    row ''_5fnt'' ''_nt'' [(''../structxed__operand__s.html#af00fef3dfbd9105b34b58d36c96a07a5'', True, ''xed_operand_s'')],
    row ''_5foc2'' ''_oc2'' [(''../structxed__operand__s.html#a2e68845abb787426ebe6c4329a81907a'', True, ''xed_operand_s'')],
    row ''_5foperand_5fbase'' ''_operand_base'' [(''../structxed__inst__s.html#adcc7107673acf5c5329f75d9fbe23c9b'', True, ''xed_inst_s'')],
    row ''_5foperand_5forder'' ''_operand_order'' [(''../structxed__decoded__inst__s.html#a39fccfddf6af7f038aa90aa643ae0a88'', True, ''xed_decoded_inst_s'')],
    row ''_5foperand_5fvisibility'' ''_operand_visibility'' [(''../structxed__operand__s.html#aad61b6c9cff8c15a210b713249a62223'', True, ''xed_operand_s'')],
    row ''_5foperands'' ''_operands'' [(''../structxed__decoded__inst__s.html#a88eb93f955acddf8676b8758954de21f'', True, ''xed_decoded_inst_s'')],
    row ''_5freg'' ''_reg'' [(''../structxed__operand__s.html#aecf0d39932822f1a79838ec7ff5d591a'', True, ''xed_operand_s'')],
    row ''_5frw'' ''_rw'' [(''../structxed__operand__s.html#aa9ecf1d105b566b58e4a9fd7aabb1ab6'', True, ''xed_operand_s'')],
    row ''_5ftype'' ''_type'' [(''../structxed__operand__s.html#ad35e0891736807e22e0697801984b1ad'', True, ''xed_operand_s'')],
    row ''_5fu'' ''_u'' [(''../structxed__operand__s.html#aba714ff6405430b4e14121c21c50d8dc'', True, ''xed_operand_s'')],
    row ''_5fxtype'' ''_xtype'' [(''../structxed__operand__s.html#aa5179eb52a878085bb4a4201e941993a'', True, ''xed_operand_s'')]]"

lemma all_0_ok: "list_all (row_ok 95) all_0"
  by (simp only: all_0_def row_checks)

text \<open>\<open>search/all_1.js\<close>\<close>

definition all_1 :: "search_row list" where
  "all_1 = [
    row ''a1'' ''a1'' [(''../structxed__attributes__t.html#a1bafa860e7ff56ad4f9fa29396c409da'', True, ''xed_attributes_t'')],
    row ''a2'' ''a2'' [(''../structxed__attributes__t.html#a1f975556af5a9fb9fd4b91bb10d6674e'', True, ''xed_attributes_t'')],
    row ''ac'' ''ac'' [(''../unionxed__flag__set__s.html#ac862456049fbaa8118a6747fc51ae6da'', True, ''xed_flag_set_s'')],
    row ''action'' ''action'' [(''../structxed__flag__enum__s.html#a6ff90d561a1023be5c27bc5ba1da6a83'', True, ''xed_flag_enum_s'')],
    row ''af'' ''af'' [(''../unionxed__flag__set__s.html#ab4abcec0d4a5b52f337a38e40f15caac'', True, ''xed_flag_set_s'')],
    row ''agen'' ''agen'' [(''../structxed__operand__storage__s.html#aa98814ea0c9dc7d120c6154c40cd2082'', True, ''xed_operand_storage_s::agen()''), (''../group__AGEN.html'', True, ''(Global Namespace)'')],
    row ''amd3dnow'' ''amd3dnow'' [(''../structxed__operand__storage__s.html#a45b2c0ac61e1490670bab0e744c81f98'', True, ''xed_operand_storage_s'')],
    row ''asz'' ''asz'' [(''../structxed__operand__storage__s.html#a6b35796e7ba1792792ab31d714a60761'', True, ''xed_operand_storage_s'')]]"

lemma all_1_ok: "list_all (row_ok 97) all_1"
  by (simp only: all_1_def row_checks)

text \<open>\<open>search/all_2.js\<close>\<close>

definition all_2 :: "search_row list" where
  "all_2 = [
    row ''b'' ''b'' [(''../unionxed__union16__t.html#a665df71aa139396f2c832d48f9fcc028'', True, ''xed_union16_t::b()''), (''../unionxed__union32__t.html#a867bd110bec9ddac4e9e0bf273badd29'', True, ''xed_union32_t::b()''), (''../unionxed__union64__t.html#a3a13f512c139879899361247621b57af'', True, ''xed_union64_t::b()'')],
    row ''b0'' ''b0'' [(''../unionxed__union16__t.html#acb86d526e89cb518772978efe94d58c8'', True, ''xed_union16_t::b0()''), (''../unionxed__union32__t.html#acb86d526e89cb518772978efe94d58c8'', True, ''xed_union32_t::b0()''), (''../unionxed__union64__t.html#acb86d526e89cb518772978efe94d58c8'', True, ''xed_union64_t::b0()'')],
    row ''b1'' ''b1'' [(''../unionxed__union16__t.html#a748564b5caace463f8b03b29e475f79b'', True, ''xed_union16_t::b1()''), (''../unionxed__union32__t.html#a748564b5caace463f8b03b29e475f79b'', True, ''xed_union32_t::b1()''), (''../unionxed__union64__t.html#a748564b5caace463f8b03b29e475f79b'', True, ''xed_union64_t::b1()'')],
    row ''b2'' ''b2'' [(''../unionxed__union32__t.html#a936816140a5ea6d363add02237995a35'', True, ''xed_union32_t::b2()''), (''../unionxed__union64__t.html#a936816140a5ea6d363add02237995a35'', True, ''xed_union64_t::b2()'')],
    row ''b3'' ''b3'' [(''../unionxed__union32__t.html#ac3e5ac0cb9041190d349d854c5d83d48'', True, ''xed_union32_t::b3()''), (''../unionxed__union64__t.html#ac3e5ac0cb9041190d349d854c5d83d48'', True, ''xed_union64_t::b3()'')],
    row ''b4'' ''b4'' [(''../unionxed__union64__t.html#a0ca2ece37c2a141300af11ffe6dd9357'', True, ''xed_union64_t'')],
    row ''b5'' ''b5'' [(''../unionxed__union64__t.html#a59238c4741d26fc832d52bae06402272'', True, ''xed_union64_t'')],
    row ''b6'' ''b6'' [(''../unionxed__union64__t.html#ac593293a5634c05f9f6d632d471aa11a'', True, ''xed_union64_t'')],
    row ''b7'' ''b7'' [(''../unionxed__union64__t.html#ae37baee0e845593d408a21f95fc2314f'', True, ''xed_union64_t'')],
    row ''base'' ''base'' [(''../structxed__memop__t.html#a47dd9d08fd6c6c01240bc0016c53388b'', True, ''xed_memop_t'')],
    row ''base0'' ''base0'' [(''../structxed__operand__storage__s.html#a7bd8238e8e1827a3c47abd5c4e27030d'', True, ''xed_operand_storage_s'')],
    row ''base1'' ''base1'' [(''../structxed__operand__storage__s.html#a7c9e48459acd2573dcce2441dd1d93f6'', True, ''xed_operand_storage_s'')],
    row ''bcast'' ''bcast'' [(''../structxed__operand__storage__s.html#a0ea80f2ed39719051f41c0d11b389135'', True, ''xed_operand_storage_s'')],
    row ''bcrc'' ''bcrc'' [(''../structxed__operand__storage__s.html#a56a7f38bf7471f038869c06a07bec946'', True, ''xed_operand_storage_s'')],
    row ''blen'' ''blen'' [(''../structxed__print__info__t.html#abf478535d20cf92ccdba662a135e6c1b'', True, ''xed_print_info_t'')],
    row ''br_5fhint_5fnot_5ftaken'' ''br_hint_not_taken'' [(''../unionxed__encoder__prefixes__t.html#aa386ca0a8e018f195d93dc2225c53e05'', True, ''xed_encoder_prefixes_t'')],
    row ''br_5fhint_5ftaken'' ''br_hint_taken'' [(''../unionxed__encoder__prefixes__t.html#a9bf442830763f089c6fbb8bb561f27a7'', True, ''xed_encoder_prefixes_t'')],
    row ''brdisp'' ''brdisp'' [(''../structxed__encoder__operand__t.html#ab99e88a8252108f8512877a9e88a4ea0'', True, ''xed_encoder_operand_t'')],
    row ''brdisp_5fwidth'' ''brdisp_width'' [(''../structxed__operand__storage__s.html#ab478458d9396b979753e55264b924933'', True, ''xed_operand_storage_s'')],
    row ''buf'' ''buf'' [(''../structxed__print__info__t.html#a1fe855c208bc17a51a4d34fefdb2d5b1'', True, ''xed_print_info_t'')],
    row ''byte'' ''byte'' [(''../unionxed__union16__t.html#abd19c3fc4f5aaaaf5374b5c784949c57'', True, ''xed_union16_t::byte()''), (''../unionxed__union32__t.html#a3eb919dcc67788f259fa65b445c3cd4c'', True, ''xed_union32_t::byte()''), (''../unionxed__union64__t.html#ac7826cf2704190096f03e88fdd7207dd'', True, ''xed_union64_t::byte()'')]]"

lemma all_2_ok: "list_all (row_ok 98) all_2"
  by (simp only: all_2_def row_checks)

text \<open>\<open>search/all_3.js\<close>\<close>

definition all_3 :: "search_row list" where
  "all_3 = [
    row ''category'' ''category'' [(''../structxed__iform__info__s.html#abe0e7654223c86df2c33d2fec7e3b5cf'', True, ''xed_iform_info_s'')],
    row ''cf'' ''cf'' [(''../unionxed__flag__set__s.html#a651259e24a24a1f9f40e9bedac0ad560'', True, ''xed_flag_set_s'')],
    row ''chip'' ''chip'' [(''../structxed__operand__storage__s.html#a522f16922869deae0f982f6277470b14'', True, ''xed_operand_storage_s'')],
    row ''context'' ''context'' [(''../structxed__print__info__t.html#ae376f130b17d169ee51be68077a89ed0'', True, ''xed_print_info_t'')],
    row ''currently_5fused_5fspace'' ''currently_used_space'' [(''../structxed__immdis__s.html#aa5fa898615728484b9153ffcedcabdd3'', True, ''xed_immdis_s'')]]"

lemma all_3_ok: "list_all (row_ok 99) all_3"
  by (simp only: all_3_def row_checks)

text \<open>\<open>search/all_4.js\<close>\<close>

definition all_4 :: "search_row list" where
  "all_4 = [
    row ''decoding_20instructions'' ''Decoding Instructions'' [(''../group__DEC.html'', True, '''')],
    row ''default_5fseg'' ''default_seg'' [(''../structxed__operand__storage__s.html#a2d00d3a834e152cb4fd3507ba340f3e4'', True, ''xed_operand_storage_s'')],
    row ''df'' ''df'' [(''../unionxed__flag__set__s.html#af8d13777f6ab108bafae72363039ce3c'', True, ''xed_flag_set_s'')],
    row ''df32'' ''df32'' [(''../structxed__operand__storage__s.html#afa174ee6680e7dbeb613855c585aa071'', True, ''xed_operand_storage_s'')],
    row ''df64'' ''df64'' [(''../structxed__operand__storage__s.html#a4c0fe3d295763cd48147a572071c2037'', True, ''xed_operand_storage_s'')],
    row ''disassembly_5fcallback'' ''disassembly_callback'' [(''../structxed__print__info__t.html#a2b39e838ee753fb0c2f9c95a793c689f'', True, ''xed_print_info_t'')],
    row ''disp'' ''disp'' [(''../structxed__memop__t.html#a62574ae50e6dc5819e7ca1a8319ff606'', True, ''xed_memop_t::disp()''), (''../structxed__operand__storage__s.html#ab52f482f625a662b1cb47127dc41d19a'', True, ''xed_operand_storage_s::disp()'')],
    row ''disp_5fwidth'' ''disp_width'' [(''../structxed__operand__storage__s.html#a8aec9335704d9db6e4fc47567ab194b0'', True, ''xed_operand_storage_s'')],
    row ''displacement'' ''displacement'' [(''../structxed__enc__displacement__t.html#afa8ff12ae5e87cef3fca11b518b27d3f'', True, ''xed_enc_displacement_t'')],
    row ''displacement_5fwidth'' ''displacement_width'' [(''../structxed__enc__displacement__t.html#ade836c69944bc231aa61f34317d337cf'', True, ''xed_enc_displacement_t'')],
    row ''dummy'' ''dummy'' [(''../structxed__operand__storage__s.html#a45d0895b1839a19b845db046507a92ab'', True, ''xed_operand_storage_s'')],
    row ''dword'' ''dword'' [(''../unionxed__union64__t.html#a051add75892a4457b58fcbc334410158'', True, ''xed_union64_t'')]]"

lemma all_4_ok: "list_all (row_ok 100) all_4"
  by (simp only: all_4_def row_checks)

text \<open>\<open>search/all_5.js\<close>\<close>

definition all_5 :: "search_row list" where
  "all_5 = [
    row ''easz'' ''easz'' [(''../structxed__operand__storage__s.html#a103d68a096555ba6eb27e26022247779'', True, ''xed_operand_storage_s'')],
    row ''effective_5faddress_5fwidth'' ''effective_address_width'' [(''../structxed__encoder__instruction__t.html#a3e97f12dc2c89d421934d6f8d83d3e67'', True, ''xed_encoder_instruction_t'')],
    row ''effective_5foperand_5fwidth'' ''effective_operand_width'' [(''../structxed__encoder__instruction__t.html#a8ef9ec3964c45a1614d417370eb04723'', True, ''xed_encoder_instruction_t'')],
    row ''element_5fsize'' ''element_size'' [(''../structxed__operand__storage__s.html#acbce437fe6914af047fae06df2368a1c'', True, ''xed_operand_storage_s'')],
    row ''emitted'' ''emitted'' [(''../structxed__print__info__t.html#a426697c198943f37470982f3f956c35d'', True, ''xed_print_info_t'')],
    row ''encoding_20instructions'' ''Encoding Instructions'' [(''../group__ENC.html'', True, '''')],
    row ''encoder_5fpreferred'' ''encoder_preferred'' [(''../structxed__operand__storage__s.html#ab7e563efae89e5704821c195cb5a45c6'', True, ''xed_operand_storage_s'')],
    row ''eosz'' ''eosz'' [(''../structxed__operand__storage__s.html#aafc351c98a02647c7eb4d38ae1c8a490'', True, ''xed_operand_storage_s'')],
    row ''error'' ''error'' [(''../structxed__operand__storage__s.html#a2fc902b0aea6394f8fbb0e3e26895f2b'', True, ''xed_operand_storage_s'')],
    row ''esrc'' ''esrc'' [(''../structxed__operand__storage__s.html#ad19b924b8cdb03442958e235399947e3'', True, ''xed_operand_storage_s'')],
    row ''esrc3'' ''esrc3'' [(''../structxed__operand__storage__s.html#a97f748c3c8a6e9fc1e06d9d8c348cc32'', True, ''xed_operand_storage_s'')],
    row ''ev'' ''ev'' [(''../structxed__decoded__inst__s.html#a970cf4df570b46c91bcda570f9e909cc'', True, ''xed_decoded_inst_s'')],
    row ''evexrr'' ''evexrr'' [(''../structxed__operand__storage__s.html#a9abfab0954ca339a10ac089959534155'', True, ''xed_operand_storage_s'')],
    row ''examples_20of_20using_20xed'' ''Examples of using XED'' [(''../group__EXAMPLES.html'', True, '''')],
    row ''extension'' ''extension'' [(''../structxed__iform__info__s.html#abc6055dea33b5ce30146fb6a826e3b1a'', True, ''xed_iform_info_s'')],
    row ''extra_5findex_5foperand'' ''extra_index_operand'' [(''../structxed__print__info__t.html#ab333e6d2b6d6beab5dbcea01a55ffaf0'', True, ''xed_print_info_t'')]]"

lemma all_5_ok: "list_all (row_ok 101) all_5"
  by (simp only: all_5_def row_checks)

text \<open>\<open>search/all_6.js\<close>\<close>

definition all_6 :: "search_row list" where
  "all_6 = [
    row ''fa_5findex'' ''fa_index'' [(''../structxed__simple__flag__s.html#a6ca9e07f3c737f6f07deb0678f4c5d8c'', True, ''xed_simple_flag_s'')],
    row ''fc0'' ''fc0'' [(''../unionxed__flag__set__s.html#ac60b72c28c13fe3e184f3c71d1f767ee'', True, ''xed_flag_set_s'')],
    row ''fc1'' ''fc1'' [(''../unionxed__flag__set__s.html#a851f879c9a85dcf2d8a1a131e4153c05'', True, ''xed_flag_set_s'')],
    row ''fc2'' ''fc2'' [(''../unionxed__flag__set__s.html#aac00c3bfcc52f47af14c161cfb4268e9'', True, ''xed_flag_set_s'')],
    row ''fc3'' ''fc3'' [(''../unionxed__flag__set__s.html#a77423a46de3049dd586ad46614a83fcb'', True, ''xed_flag_set_s'')],
    row ''first_5ff2f3'' ''first_f2f3'' [(''../structxed__operand__storage__s.html#a5c5ec581efbfb93f64ea4acc5ad97673'', True, ''xed_operand_storage_s'')],
    row ''flag'' ''flag'' [(''../structxed__flag__enum__s.html#a0c855e9832d9215abbeee4d8c4611f76'', True, ''xed_flag_enum_s'')],
    row ''flags_20interface'' ''Flags Interface'' [(''../group__FLAGS.html'', True, '''')],
    row ''flat'' ''flat'' [(''../unionxed__flag__set__s.html#a712498840cfac2cb767e9c8457edbf7b'', True, ''xed_flag_set_s'')],
    row ''format_5foptions'' ''format_options'' [(''../structxed__print__info__t.html#a5cbeeb747b1d5700b4c25546c6b02713'', True, ''xed_print_info_t'')],
    row ''format_5foptions_5fvalid'' ''format_options_valid'' [(''../structxed__print__info__t.html#a809dd76e54efbe7033f0bd5eedf802af'', True, ''xed_print_info_t'')]]"

lemma all_6_ok: "list_all (row_ok 102) all_6"
  by (simp only: all_6_def row_checks)

text \<open>\<open>search/all_7.js\<close>\<close>

definition all_7 :: "search_row list" where
  "all_7 = [
    row ''groupings_20of_20features_20for_20chips'' ''Groupings of features for chips'' [(''../group__ISASET.html'', True, '''')]]"

lemma all_7_ok: "list_all (row_ok 103) all_7"
  by (simp only: all_7_def row_checks)

text \<open>\<open>search/all_8.js\<close>\<close>

definition all_8 :: "search_row list" where
  "all_8 = [
    row ''high_20level_20api_20for_20encoding_20instructions'' ''High Level API for Encoding Instructions'' [(''../group__ENCHL.html'', True, '''')],
    row ''has_5fmodrm'' ''has_modrm'' [(''../structxed__operand__storage__s.html#a5e1b914cf33a996de380ab2b84a6eff4'', True, ''xed_operand_storage_s'')],
    row ''has_5fsib'' ''has_sib'' [(''../structxed__operand__storage__s.html#ae60ed464f49cf38771c67a6d32121340'', True, ''xed_operand_storage_s'')],
    row ''hex_5faddress_5fbefore_5fsymbolic_5fname'' ''hex_address_before_symbolic_name'' [(''../structxed__format__options__t.html#a9859337bb1e80b9406ef029e2e88a388'', True, ''xed_format_options_t'')],
    row ''hi32'' ''hi32'' [(''../unionxed__union64__t.html#a3e14c09b37cc7f2ada4210fb6374b3d5'', True, ''xed_union64_t'')],
    row ''hint'' ''hint'' [(''../structxed__operand__storage__s.html#a3390c38d47d6aff23814ae37b503666a'', True, ''xed_operand_storage_s'')],
    row ''hsw'' ''hsw'' [(''../structxed__operand__storage__s.html#ab6dd726aca628551b71b156314d1eeb0'', True, ''xed_operand_storage_s'')]]"

lemma all_8_ok: "list_all (row_ok 104) all_8"
  by (simp only: all_8_def row_checks)

text \<open>\<open>search/all_9.js\<close>\<close>

definition all_9 :: "search_row list" where
  "all_9 = [
    row ''i'' ''i'' [(''../unionxed__encoder__prefixes__t.html#a4604e9bca1cf029d6c794f094ff15138'', True, ''xed_encoder_prefixes_t'')],
    row ''i16'' ''i16'' [(''../unionxed__union16__t.html#a9edcde8be991063b08eaf65f662bab03'', True, ''xed_union16_t'')],
    row ''i32'' ''i32'' [(''../unionxed__union32__t.html#a17cb6e550d9a799ed4ad2feda6c234a5'', True, ''xed_union32_t'')],
    row ''i64'' ''i64'' [(''../unionxed__union64__t.html#a56b05ceeaf0a4899294c2bd89381452f'', True, ''xed_union64_t'')],
    row ''iclass'' ''iclass'' [(''../structxed__encoder__instruction__t.html#a73e305f28d726fb5b44173d7e08f7fb4'', True, ''xed_encoder_instruction_t::iclass()''), (''../structxed__iform__info__s.html#a73e305f28d726fb5b44173d7e08f7fb4'', True, ''xed_iform_info_s::iclass()''), (''../structxed__operand__storage__s.html#a839074130fe4117198c2bf1e272c7335'', True, ''xed_operand_storage_s::iclass()'')],
    row ''id'' ''id'' [(''../unionxed__flag__set__s.html#a6d199860b7956324c5a4f5c6c71fd2ef'', True, ''xed_flag_set_s'')],
    row ''iforms'' ''Iforms'' [(''../group__IFORM.html'', True, '''')],
    row ''ild_5ff2'' ''ild_f2'' [(''../structxed__operand__storage__s.html#ac57a7ddb914e1a186da00bc469e521fb'', True, ''xed_operand_storage_s'')],
    row ''ild_5ff3'' ''ild_f3'' [(''../structxed__operand__storage__s.html#abf010802f0bac1cc77681c7b9debd86c'', True, ''xed_operand_storage_s'')],
    row ''ild_5fseg'' ''ild_seg'' [(''../structxed__operand__storage__s.html#a91ca03fd2581444b22beeeac9da6f4a3'', True, ''xed_operand_storage_s'')],
    row ''imm0'' ''imm0'' [(''../structxed__encoder__operand__t.html#aa995ad55cbcb06f834e37293c4466023'', True, ''xed_encoder_operand_t::imm0()''), (''../structxed__operand__storage__s.html#a0f05d3fb7c449ef405bc4dcef47c2cc5'', True, ''xed_operand_storage_s::imm0()'')],
    row ''imm0signed'' ''imm0signed'' [(''../structxed__operand__storage__s.html#ade5891995ec8fa7d320c29b189af52b7'', True, ''xed_operand_storage_s'')],
    row ''imm1'' ''imm1'' [(''../structxed__encoder__operand__t.html#aecb9ee77844be3e93e81216cc4709146'', True, ''xed_encoder_operand_t::imm1()''), (''../structxed__operand__storage__s.html#aecb9ee77844be3e93e81216cc4709146'', True, ''xed_operand_storage_s::imm1()'')],
    row ''imm1_5fbytes'' ''imm1_bytes'' [(''../structxed__operand__storage__s.html#a12c120e0916fa7aacf2bd5f83fe89a57'', True, ''xed_operand_storage_s'')],
    row ''imm_5fwidth'' ''imm_width'' [(''../structxed__operand__storage__s.html#aef22ce89bc0c9c1b8e6629a258b3e0a5'', True, ''xed_operand_storage_s'')],
    row ''immediate_5fis_5funsigned'' ''immediate_is_unsigned'' [(''../structxed__immdis__s.html#aeea5eb8193030afdeeda7b6dfa640fd9'', True, ''xed_immdis_s'')],
    row ''index'' ''index'' [(''../structxed__memop__t.html#a6538179aeb901a9f34af5e7861a38038'', True, ''xed_memop_t::index()''), (''../structxed__operand__storage__s.html#a5f2371b709c5fa56ad0c4f61450d965c'', True, ''xed_operand_storage_s::index()'')],
    row ''iopl'' ''iopl'' [(''../unionxed__flag__set__s.html#a41c4b59f50e4ac20c6d81e8379691e8e'', True, ''xed_flag_set_s'')],
    row ''isa_5fset'' ''isa_set'' [(''../structxed__iform__info__s.html#aed57fa5486f387f7f2a5d470785fd82b'', True, ''xed_iform_info_s'')]]"

lemma all_9_ok: "list_all (row_ok 105) all_9"
  by (simp only: all_9_def row_checks)

text \<open>\<open>search/all_a.js\<close>\<close>

definition all_a :: "search_row list" where
  "all_a = [
    row ''last_5ff2f3'' ''last_f2f3'' [(''../structxed__operand__storage__s.html#a28bb0610f07cea2b017db8e6475a1f2c'', True, ''xed_operand_storage_s'')],
    row ''limit'' ''limit'' [(''../structxed__convert__table__t.html#ad881b1b412cdb9bc8d851726a73c0e5f'', True, ''xed_convert_table_t'')],
    row ''llrc'' ''llrc'' [(''../structxed__operand__storage__s.html#a4770166a134a40fad2101f19765c8545'', True, ''xed_operand_storage_s'')],
    row ''lo32'' ''lo32'' [(''../unionxed__union64__t.html#ab7de348b87fff28cf1e9faa4364d0b5a'', True, ''xed_union64_t'')],
    row ''lock'' ''lock'' [(''../unionxed__encoder__prefixes__t.html#ade34f221316c3df93f99960707f80116'', True, ''xed_encoder_prefixes_t::lock()''), (''../structxed__operand__storage__s.html#a0c34bff866110c915db87e13520aa931'', True, ''xed_operand_storage_s::lock()'')],
    row ''lockable'' ''lockable'' [(''../structxed__operand__storage__s.html#a0f195aa408a315baa67a739ed1cf5314'', True, ''xed_operand_storage_s'')]]"

lemma all_a_ok: "list_all (row_ok 108) all_a"
  by (simp only: all_a_def row_checks)

text \<open>\<open>search/all_b.js\<close>\<close>

definition all_b :: "search_row list" where
  "all_b = [
    row ''map'' ''map'' [(''../structxed__operand__storage__s.html#ae52b027517d94275119faee655e4376d'', True, ''xed_operand_storage_s'')],
    row ''mask'' ''mask'' [(''../structxed__operand__storage__s.html#a3f89a94262b4663bbd668d109b3746c8'', True, ''xed_operand_storage_s'')],
    row ''max_5fallocated_5fspace'' ''max_allocated_space'' [(''../structxed__immdis__s.html#ac8efd53d2590c1248ae58931dee0e89d'', True, ''xed_immdis_s'')],
    row ''max_5fbytes'' ''max_bytes'' [(''../structxed__operand__storage__s.html#a9cbf31314eedd73850087bebf2de1033'', True, ''xed_operand_storage_s'')],
    row ''may_5fwrite'' ''may_write'' [(''../structxed__simple__flag__s.html#a644147e6c8a633e8e13cda7b3a974910'', True, ''xed_simple_flag_s'')],
    row ''mem'' ''mem'' [(''../structxed__encoder__operand__t.html#a61d286cb2d8cddcdc7bbadbab9759aa5'', True, ''xed_encoder_operand_t'')],
    row ''mem0'' ''mem0'' [(''../structxed__operand__storage__s.html#a19e441620a0f38fed11a3dd8f6ddfa31'', True, ''xed_operand_storage_s'')],
    row ''mem1'' ''mem1'' [(''../structxed__operand__storage__s.html#ad9660dcaebb7f45fda43217ecdf7b574'', True, ''xed_operand_storage_s'')],
    row ''mem_5fwidth'' ''mem_width'' [(''../structxed__operand__storage__s.html#ad6a412a223ec5b57efa75fb320a54f69'', True, ''xed_operand_storage_s'')],
    row ''mmode'' ''mmode'' [(''../structxed__state__s.html#acedcfb0936b7c302087ad7fe5de5cb10'', True, ''xed_state_s'')],
    row ''mod'' ''mod'' [(''../structxed__operand__storage__s.html#a9d610ece02244602e64fe376d914a7ae'', True, ''xed_operand_storage_s'')],
    row ''mode'' ''mode'' [(''../structxed__encoder__instruction__t.html#a329fcce026ff63907ea18427b436bc67'', True, ''xed_encoder_instruction_t::mode()''), (''../structxed__operand__storage__s.html#af76beeb9c32516b575dc68f64176333d'', True, ''xed_operand_storage_s::mode()'')],
    row ''mode_5ffirst_5fprefix'' ''mode_first_prefix'' [(''../structxed__operand__storage__s.html#a1f980d6704ace761de9edc06c4598923'', True, ''xed_operand_storage_s'')],
    row ''modep5'' ''modep5'' [(''../structxed__operand__storage__s.html#a25b2f50484ecb1a89c51d52562bebda0'', True, ''xed_operand_storage_s'')],
    row ''modep55c'' ''modep55c'' [(''../structxed__operand__storage__s.html#afd4899f12b95a02a93132b27d161039e'', True, ''xed_operand_storage_s'')],
    row ''modrm'' ''modrm'' [(''../structxed__operand__storage__s.html#ac868edaab6f0253f1e84c2a892130e9e'', True, ''xed_operand_storage_s'')],
    row ''modrm_5fbyte'' ''modrm_byte'' [(''../structxed__operand__storage__s.html#a215275504dbfe6703eefc0ef4c26829c'', True, ''xed_operand_storage_s'')],
    row ''mpxmode'' ''mpxmode'' [(''../structxed__operand__storage__s.html#a190ebdd8a7269db139971f3ff6f56c5c'', True, ''xed_operand_storage_s'')],
    row ''must_5fbe_5f0a'' ''must_be_0a'' [(''../unionxed__flag__set__s.html#a23108990a6959f5f26751773749547fa'', True, ''xed_flag_set_s'')],
    row ''must_5fbe_5f0b'' ''must_be_0b'' [(''../unionxed__flag__set__s.html#ae4ce751f0785b6016219882fb21d9a6a'', True, ''xed_flag_set_s'')],
    row ''must_5fbe_5f0c'' ''must_be_0c'' [(''../unionxed__flag__set__s.html#aa1d56c6e0e84da7e02053c50ed31dbab'', True, ''xed_flag_set_s'')],
    row ''must_5fbe_5f0d'' ''must_be_0d'' [(''../unionxed__flag__set__s.html#ad0e986162be817612d6e228d0c239d9c'', True, ''xed_flag_set_s'')],
    row ''must_5fbe_5f0e'' ''must_be_0e'' [(''../unionxed__flag__set__s.html#a61a62d2e73c190bdb70f212cdfc162bf'', True, ''xed_flag_set_s'')],
    row ''must_5fbe_5f1'' ''must_be_1'' [(''../unionxed__flag__set__s.html#a72b663d5bccd430b4d688cc6429b088f'', True, ''xed_flag_set_s'')],
    row ''must_5fwrite'' ''must_write'' [(''../structxed__simple__flag__s.html#ac5157c9b63bf12f8e1b6e1824f6e398b'', True, ''xed_simple_flag_s'')]]"

lemma all_b_ok: "list_all (row_ok 109) all_b"
  by (simp only: all_b_def row_checks)

text \<open>\<open>search/all_c.js\<close>\<close>

definition all_c :: "search_row list" where
  "all_c = [
    row ''need_5fmemdisp'' ''need_memdisp'' [(''../structxed__operand__storage__s.html#a639c395abbaed39e9b7c3072eb92064d'', True, ''xed_operand_storage_s'')],
    row ''needrex'' ''needrex'' [(''../structxed__operand__storage__s.html#a1b892a8c0b4a0870ebb665499d4cd48b'', True, ''xed_operand_storage_s'')],
    row ''nelem'' ''nelem'' [(''../structxed__operand__storage__s.html#aaba9037a2338078081e98e30c0318251'', True, ''xed_operand_storage_s'')],
    row ''nflags'' ''nflags'' [(''../structxed__simple__flag__s.html#a8adf988b444df44631430dce32912463'', True, ''xed_simple_flag_s'')],
    row ''no_5fscale_5fdisp8'' ''no_scale_disp8'' [(''../structxed__operand__storage__s.html#a11cdb7d6abbb9ea6f74f472ccde91f50'', True, ''xed_operand_storage_s'')],
    row ''no_5fsign_5fextend_5fsigned_5fimmediates'' ''no_sign_extend_signed_immediates'' [(''../structxed__format__options__t.html#a52f1af3c6153aea31d80aa837d8fd075'', True, ''xed_format_options_t'')],
    row ''nominal_5fopcode'' ''nominal_opcode'' [(''../structxed__operand__storage__s.html#a20113dd806992cb61a9edcc4de58ec5b'', True, ''xed_operand_storage_s'')],
    row ''noperands'' ''noperands'' [(''../structxed__encoder__instruction__t.html#a9bb1e6a43001997963da687e816ebdf9'', True, ''xed_encoder_instruction_t'')],
    row ''norex'' ''norex'' [(''../structxed__operand__storage__s.html#a456f9de3efd3a0e9bbcbb29e3f0d95a2'', True, ''xed_operand_storage_s'')],
    row ''nprefixes'' ''nprefixes'' [(''../structxed__operand__storage__s.html#a55cfd9ca586500f39f5ce5cc12401e22'', True, ''xed_operand_storage_s'')],
    row ''nrexes'' ''nrexes'' [(''../structxed__operand__storage__s.html#a40a8da00806f200307ab6a94ef14c11f'', True, ''xed_operand_storage_s'')],
    row ''nseg_5fprefixes'' ''nseg_prefixes'' [(''../structxed__operand__storage__s.html#a99f2348b52a79a2c12a92a6c0118bf17'', True, ''xed_operand_storage_s'')],
    row ''nt'' ''nt'' [(''../unionxed__flag__set__s.html#a8d117fdc3b5690c315d83fead390ab08'', True, ''xed_flag_set_s'')]]"

lemma all_c_ok: "list_all (row_ok 110) all_c"
  by (simp only: all_c_def row_checks)

text \<open>\<open>search/all_d.js\<close>\<close>

definition all_d :: "search_row list" where
  "all_d = [
    row ''of'' ''of'' [(''../unionxed__flag__set__s.html#a785e5f20a19d10fce1ec7549d3a2ee6a'', True, ''xed_flag_set_s'')],
    row ''omit_5funit_5fscale'' ''omit_unit_scale'' [(''../structxed__format__options__t.html#a376259c6f83ac22702c42fe1adbab400'', True, ''xed_format_options_t'')],
    row ''operand_5findx'' ''operand_indx'' [(''../structxed__print__info__t.html#a4337c4b316e91d8ed38fb21c929760d2'', True, ''xed_print_info_t'')],
    row ''operand_5fname'' ''operand_name'' [(''../structxed__encoder__operand__t.html#aba1b2678090e74eb5faa198cf49d5730'', True, ''xed_encoder_operand_t'')],
    row ''operands'' ''operands'' [(''../structxed__encoder__instruction__t.html#a33d5130bbbb68262f0748a59812a70cb'', True, ''xed_encoder_instruction_t::operands()''), (''../group__OPERANDS.html'', True, ''(Global Namespace)'')],
    row ''opnd'' ''opnd'' [(''../structxed__convert__table__t.html#a5b30b844e7c5f76eb32c1a779789a983'', True, ''xed_convert_table_t'')],
    row ''osz'' ''osz'' [(''../structxed__operand__storage__s.html#a1e9faa26506012593bba0a1e244e3859'', True, ''xed_operand_storage_s'')],
    row ''out_5fof_5fbytes'' ''out_of_bytes'' [(''../structxed__operand__storage__s.html#aba0de59dc02264ece3d21a97198b8119'', True, ''xed_operand_storage_s'')],
    row ''outreg'' ''outreg'' [(''../structxed__operand__storage__s.html#ae3f10720d98fa3620ac51343010bb582'', True, ''xed_operand_storage_s'')]]"

lemma all_d_ok: "list_all (row_ok 111) all_d"
  by (simp only: all_d_def row_checks)

text \<open>\<open>search/all_e.js\<close>\<close>

definition all_e :: "search_row list" where
  "all_e = [
    row ''p'' ''p'' [(''../structxed__print__info__t.html#ab975d6795638986ea3d0ac52cd6b0e27'', True, ''xed_print_info_t'')],
    row ''p4'' ''p4'' [(''../structxed__operand__storage__s.html#a55d77f127dbb4395e66b457e2c018122'', True, ''xed_operand_storage_s'')],
    row ''pf'' ''pf'' [(''../unionxed__flag__set__s.html#a67dee0986ec87026ca20dd3f77431d38'', True, ''xed_flag_set_s'')],
    row ''pos_5fdisp'' ''pos_disp'' [(''../structxed__operand__storage__s.html#a9974476cb28d4137fb6f0e8804847f21'', True, ''xed_operand_storage_s'')],
    row ''pos_5fimm'' ''pos_imm'' [(''../structxed__operand__storage__s.html#a07bee7ac5b67d0f2835387b8b86f2866'', True, ''xed_operand_storage_s'')],
    row ''pos_5fimm1'' ''pos_imm1'' [(''../structxed__operand__storage__s.html#a439c496a4efdf4ed13fe68966d313d18'', True, ''xed_operand_storage_s'')],
    row ''pos_5fmodrm'' ''pos_modrm'' [(''../structxed__operand__storage__s.html#a2fe53e70bbcd4bc7db35f068db072aeb'', True, ''xed_operand_storage_s'')],
    row ''pos_5fnominal_5fopcode'' ''pos_nominal_opcode'' [(''../structxed__operand__storage__s.html#a4836abdbb079a84bc521aff6527ab621'', True, ''xed_operand_storage_s'')],
    row ''pos_5fsib'' ''pos_sib'' [(''../structxed__operand__storage__s.html#a6099a8f5b10db2721aeda92bb64a643d'', True, ''xed_operand_storage_s'')],
    row ''prefix66'' ''prefix66'' [(''../structxed__operand__storage__s.html#af772e398dcf935d941241c2b2d110a14'', True, ''xed_operand_storage_s'')],
    row ''prefixes'' ''prefixes'' [(''../structxed__encoder__instruction__t.html#ae33c87ef34abd74d94abc032fd90f542'', True, ''xed_encoder_instruction_t'')],
    row ''present'' ''present'' [(''../structxed__immdis__s.html#a4c49954576278c551ba8b22539f0e971'', True, ''xed_immdis_s'')],
    row ''printing_20_28disassembling_29_20instructions'' ''Printing (disassembling) Instructions'' [(''../group__PRINT.html'', True, '''')],
    row ''ptr'' ''ptr'' [(''../structxed__operand__storage__s.html#a675c0f69087e229a121b266e0ded893b'', True, ''xed_operand_storage_s'')]]"

lemma all_e_ok: "list_all (row_ok 112) all_e"
  by (simp only: all_e_def row_checks)

text \<open>\<open>search/all_f.js\<close>\<close>

definition all_f :: "search_row list" where
  "all_f = [
    row ''q'' ''q'' [(''../unionxed__immdis__values__t.html#a368fd87154c55abe8265024df846953b'', True, ''xed_immdis_values_t'')]]"

lemma all_f_ok: "list_all (row_ok 113) all_f"
  by (simp only: all_f_def row_checks)

text \<open>\<open>search/all_10.js\<close>\<close>

definition all_10 :: "search_row list" where
  "all_10 = [
    row ''read'' ''read'' [(''../structxed__simple__flag__s.html#a722858b8b07e26ef8229e6b8df791f2f'', True, ''xed_simple_flag_s'')],
    row ''realmode'' ''realmode'' [(''../structxed__operand__storage__s.html#afe29558821b787a225360319fe7fa1f9'', True, ''xed_operand_storage_s'')],
    row ''refining'' ''refining'' [(''../structxed__operand__storage__s.html#a63eb9c0f3142191d6b32772bf09dbbc0'', True, ''xed_operand_storage_s'')],
    row ''reg'' ''reg'' [(''../structxed__encoder__operand__t.html#affc78afe4f18c8d806e91949f223ec6d'', True, ''xed_encoder_operand_t::reg()''), (''../structxed__operand__storage__s.html#a1d28582d63a7ed4338a2659360837481'', True, ''xed_operand_storage_s::reg()'')],
    row ''reg0'' ''reg0'' [(''../structxed__operand__storage__s.html#aefd4a87649a20c827a60c09fe06c37c2'', True, ''xed_operand_storage_s'')],
    row ''reg1'' ''reg1'' [(''../structxed__operand__storage__s.html#a463b7102df380fdbf71e94456cb8881e'', True, ''xed_operand_storage_s'')],
    row ''reg2'' ''reg2'' [(''../structxed__operand__storage__s.html#a92a6727cf333338c33275bf90672dc84'', True, ''xed_operand_storage_s'')],
    row ''reg3'' ''reg3'' [(''../structxed__operand__storage__s.html#a59a5cc5ff3520de2d17c3528f2211cb8'', True, ''xed_operand_storage_s'')],
    row ''reg4'' ''reg4'' [(''../structxed__operand__storage__s.html#aded5beb7056277fa4bd8a8a3ddae8e04'', True, ''xed_operand_storage_s'')],
    row ''reg5'' ''reg5'' [(''../structxed__operand__storage__s.html#ae2ac88244378a5dc6a3f44dd537d9185'', True, ''xed_operand_storage_s'')],
    row ''reg6'' ''reg6'' [(''../structxed__operand__storage__s.html#a70aa8222e96a5c84d14cf7b725aa9762'', True, ''xed_operand_storage_s'')],
    row ''reg7'' ''reg7'' [(''../structxed__operand__storage__s.html#aa0d51147e81b40ccb3b379bfbf51db5f'', True, ''xed_operand_storage_s'')],
    row ''reg8'' ''reg8'' [(''../structxed__operand__storage__s.html#a1703bcddf42c08d9c5f7761f860988d9'', True, ''xed_operand_storage_s'')],
    row ''register_20interface'' ''Register Interface'' [(''../group__REGINTFC.html'', True, '''')],
    row ''relbr'' ''relbr'' [(''../structxed__operand__storage__s.html#a44123f7407b064e6c9372efb2140b1f1'', True, ''xed_operand_storage_s'')],
    row ''rep'' ''rep'' [(''../unionxed__encoder__prefixes__t.html#aec0a195f8c65332931922e60304f72ad'', True, ''xed_encoder_prefixes_t::rep()''), (''../structxed__operand__storage__s.html#a78286715259195dc4fe2d2cdbe7cb269'', True, ''xed_operand_storage_s::rep()'')],
    row ''rep_5fable'' ''rep_able'' [(''../structxed__operand__storage__s.html#abfa59bf16ad022db7a3b723abe8022eb'', True, ''xed_operand_storage_s'')],
    row ''repne'' ''repne'' [(''../unionxed__encoder__prefixes__t.html#a7808aa5a29f1964b18def98281b448dd'', True, ''xed_encoder_prefixes_t'')],
    row ''rex'' ''rex'' [(''../structxed__operand__storage__s.html#ad019db09a9d2843b5f2f2e7ed4e079dc'', True, ''xed_operand_storage_s'')],
    row ''rexb'' ''rexb'' [(''../structxed__operand__storage__s.html#a2971060e90db085c130b46d62057177b'', True, ''xed_operand_storage_s'')],
    row ''rexr'' ''rexr'' [(''../structxed__operand__storage__s.html#a5c1b6a0ac2d97a8e77a2e977ebfcddd2'', True, ''xed_operand_storage_s'')],
    row ''rexrr'' ''rexrr'' [(''../structxed__operand__storage__s.html#acfa0e8b80de4a34fce85f65fe14ef088'', True, ''xed_operand_storage_s'')],
    row ''rexw'' ''rexw'' [(''../structxed__operand__storage__s.html#a91241c9bb5b525dca2c8c9d1df643091'', True, ''xed_operand_storage_s'')],
    row ''rexx'' ''rexx'' [(''../structxed__operand__storage__s.html#a6c418347a9988669ee378ed8f7054303'', True, ''xed_operand_storage_s'')],
    row ''rf'' ''rf'' [(''../unionxed__flag__set__s.html#ac6ab00c5d37abe6db8280ea2c6e2e6e2'', True, ''xed_flag_set_s'')],
    row ''rm'' ''rm'' [(''../structxed__operand__storage__s.html#ab7e27ae87067dc00b69453abbff59e44'', True, ''xed_operand_storage_s'')],
    row ''roundc'' ''roundc'' [(''../structxed__operand__storage__s.html#ac7924e52422996baa086a362e35a02f8'', True, ''xed_operand_storage_s'')],
    row ''runtime_5faddress'' ''runtime_address'' [(''../structxed__print__info__t.html#a8da4bce641493ceb76bacec824630184'', True, ''xed_print_info_t'')]]"

lemma all_10_ok: "list_all (row_ok 114) all_10"
  by (simp only: all_10_def row_checks)

text \<open>\<open>search/all_11.js\<close>\<close>

definition all_11 :: "search_row list" where
  "all_11 = [
    row ''s'' ''s'' [(''../structxed__encoder__operand__t.html#aea0fc9de9981537aa1eeac7fa56af305'', True, ''xed_encoder_operand_t::s()''), (''../unionxed__encoder__prefixes__t.html#a17e46718b7ea9fa441204e8f5c9c2cd0'', True, ''xed_encoder_prefixes_t::s()''), (''../unionxed__flag__set__s.html#a8a590ae27f639ed8d3d3e0cc8612debe'', True, ''xed_flag_set_s::s()''), (''../unionxed__union64__t.html#a0d81e3e7820e93fe8356a22c8e745046'', True, ''xed_union64_t::s()'')],
    row ''s_5fbyte'' ''s_byte'' [(''../unionxed__union16__t.html#aec079c6d7f871d47708564b23b1ff4b5'', True, ''xed_union16_t::s_byte()''), (''../unionxed__union32__t.html#ad4fb3e29bcca9bde5ca505655fc1db61'', True, ''xed_union32_t::s_byte()''), (''../unionxed__union64__t.html#a6af3f380a0ae50526ebda3bcb64acbea'', True, ''xed_union64_t::s_byte()'')],
    row ''s_5fdword'' ''s_dword'' [(''../unionxed__union64__t.html#ad4e529c3ecaffaf9b0a596267c42680d'', True, ''xed_union64_t'')],
    row ''s_5fword'' ''s_word'' [(''../unionxed__union32__t.html#a26127ad406709be2c4cd69cdc2065e52'', True, ''xed_union32_t::s_word()''), (''../unionxed__union64__t.html#a45aa10d78b97e7753e3a4cfecc38f8db'', True, ''xed_union64_t::s_word()'')],
    row ''sae'' ''sae'' [(''../structxed__operand__storage__s.html#ab38fdfbc02657b0f4f8c3d34f327e9ec'', True, ''xed_operand_storage_s'')],
    row ''scale'' ''scale'' [(''../structxed__memop__t.html#aa4578f59f16b24c91beb2752bfb50ad0'', True, ''xed_memop_t::scale()''), (''../structxed__operand__storage__s.html#a7ea43b55f869a6a22a3abd4a111d369b'', True, ''xed_operand_storage_s::scale()'')],
    row ''seg'' ''seg'' [(''../structxed__memop__t.html#ad6e5dcd3c1ceaf99a0f66215d653ec63'', True, ''xed_memop_t'')],
    row ''seg0'' ''seg0'' [(''../structxed__operand__storage__s.html#a677e512824d6b4f04abce4509831bc19'', True, ''xed_operand_storage_s'')],
    row ''seg1'' ''seg1'' [(''../structxed__operand__storage__s.html#ab552475d42ef41ee80d71cf4d6a4966b'', True, ''xed_operand_storage_s'')],
    row ''seg_5fovd'' ''seg_ovd'' [(''../structxed__operand__storage__s.html#a6036b16b9a0afa9120d9346309af22fc'', True, ''xed_operand_storage_s'')],
    row ''sf'' ''sf'' [(''../unionxed__flag__set__s.html#ac10d3332027d6bd9685c1165f994ca76'', True, ''xed_flag_set_s'')],
    row ''sib'' ''sib'' [(''../structxed__operand__storage__s.html#a09dbe857f4548b7212050c8b78e5be74'', True, ''xed_operand_storage_s'')],
    row ''sibbase'' ''sibbase'' [(''../structxed__operand__storage__s.html#a25589fcfde391eb8b5195fd81774f6cc'', True, ''xed_operand_storage_s'')],
    row ''sibindex'' ''sibindex'' [(''../structxed__operand__storage__s.html#af6d7c92360c3352fa1ec027859c8ff55'', True, ''xed_operand_storage_s'')],
    row ''sibscale'' ''sibscale'' [(''../structxed__operand__storage__s.html#aa6fd7d3930e50bb158aaf51a0931ad4b'', True, ''xed_operand_storage_s'')],
    row ''skip_5foperand'' ''skip_operand'' [(''../structxed__print__info__t.html#a909b439e9e2cdfaf67bb5e53b69c69ad'', True, ''xed_print_info_t'')],
    row ''skip_5fosz'' ''skip_osz'' [(''../structxed__operand__storage__s.html#a07c39bea562237bd4e9d86626581fb92'', True, ''xed_operand_storage_s'')],
    row ''small_20examples_20of_20using_20xed'' ''Small Examples of using XED'' [(''../group__SMALLEXAMPLES.html'', True, '''')],
    row ''smode'' ''smode'' [(''../structxed__operand__storage__s.html#a89f36a662d4d34db109be0988540e8b2'', True, ''xed_operand_storage_s'')],
    row ''sreg'' ''sreg'' [(''../structxed__operand__storage__s.html#afd1bd0cb9abf322ec826c2d220a454cc'', True, ''xed_operand_storage_s'')],
    row ''srm'' ''srm'' [(''../structxed__operand__storage__s.html#a069477621f91b6f03d866af397df3b0b'', True, ''xed_operand_storage_s'')],
    row ''stack_5faddr_5fwidth'' ''stack_addr_width'' [(''../structxed__state__s.html#a202e530cc6f872ce7744b4bdddcb49ba'', True, ''xed_state_s'')],
    row ''str2xed_5faddress_5fwidth_5fenum_5ft'' ''str2xed_address_width_enum_t'' [(''../group__ENUM.html#ga8fd9a4f1ade05aaf01cd94178a18e643'', True, ''xed-address-width-enum.h'')],
    row ''str2xed_5fattribute_5fenum_5ft'' ''str2xed_attribute_enum_t'' [(''../group__ENUM.html#ga81b5de8d76c2801a6b1cbca58beb270b'', True, ''xed-attribute-enum.h'')],
    row ''str2xed_5fcategory_5fenum_5ft'' ''str2xed_category_enum_t'' [(''../group__ENUM.html#gac610a6c96eedfac9cc046bafdf24d2bd'', True, ''xed-category-enum.h'')],
    row ''str2xed_5fchip_5fenum_5ft'' ''str2xed_chip_enum_t'' [(''../group__ENUM.html#ga173110605dc1e32525e9df181f2f761f'', True, ''xed-chip-enum.h'')],
    row ''str2xed_5ferror_5fenum_5ft'' ''str2xed_error_enum_t'' [(''../group__ENUM.html#ga203bb495b7c49e34ef3e83c25024775b'', True, ''xed-error-enum.h'')],
    row ''str2xed_5fexception_5fenum_5ft'' ''str2xed_exception_enum_t'' [(''../group__ENUM.html#ga7f97deb562fc5e4d308cedc814e1bce7'', True, ''xed-exception-enum.h'')],
    row ''str2xed_5fextension_5fenum_5ft'' ''str2xed_extension_enum_t'' [(''../group__ENUM.html#ga1c44135eaf6d653eccd237520b55dfb7'', True, ''xed-extension-enum.h'')],
    row ''str2xed_5fflag_5faction_5fenum_5ft'' ''str2xed_flag_action_enum_t'' [(''../group__ENUM.html#gaf0163bfa8ac51705924b9a4c2b5e9a6b'', True, ''xed-flag-action-enum.h'')],
    row ''str2xed_5fflag_5fenum_5ft'' ''str2xed_flag_enum_t'' [(''../group__ENUM.html#ga44725b8b3c08e8ca5d59ca11f07513f2'', True, ''xed-flag-enum.h'')],
    row ''str2xed_5ficlass_5fenum_5ft'' ''str2xed_iclass_enum_t'' [(''../group__ENUM.html#gac4b76adf6ede75bbc5754866187fcfa2'', True, ''xed-iclass-enum.h'')],
    row ''str2xed_5fiform_5fenum_5ft'' ''str2xed_iform_enum_t'' [(''../group__ENUM.html#gaaa33ff1896c1ecbda8cbf5875edd8563'', True, ''xed-iform-enum.h'')],
    row ''str2xed_5fisa_5fset_5fenum_5ft'' ''str2xed_isa_set_enum_t'' [(''../group__ENUM.html#ga4ac337dee7f8244b938c8f8968fff863'', True, ''xed-isa-set-enum.h'')],
    row ''str2xed_5fmachine_5fmode_5fenum_5ft'' ''str2xed_machine_mode_enum_t'' [(''../group__ENUM.html#gaa6229dc875554ab07fbb2b1bdd18bb65'', True, ''xed-machine-mode-enum.h'')],
    row ''str2xed_5fnonterminal_5fenum_5ft'' ''str2xed_nonterminal_enum_t'' [(''../group__ENUM.html#gabe8ef68d543f1bda1075eaf53a15d09f'', True, ''xed-nonterminal-enum.h'')],
    row ''str2xed_5foperand_5faction_5fenum_5ft'' ''str2xed_operand_action_enum_t'' [(''../group__ENUM.html#ga58675ccc52549df6fb0439df1a5f220d'', True, ''xed-operand-action-enum.h'')],
    row ''str2xed_5foperand_5fconvert_5fenum_5ft'' ''str2xed_operand_convert_enum_t'' [(''../group__ENUM.html#gaff3cfcae6a879b77bff27c370f29551c'', True, ''xed-operand-convert-enum.h'')],
    row ''str2xed_5foperand_5fctype_5fenum_5ft'' ''str2xed_operand_ctype_enum_t'' [(''../group__ENUM.html#ga27724ce0d3b1c14cf5f6b2bca94b62e5'', True, ''xed-operand-ctype-enum.h'')],
    row ''str2xed_5foperand_5felement_5ftype_5fenum_5ft'' ''str2xed_operand_element_type_enum_t'' [(''../group__ENUM.html#gafbbf731b710c483159c6537de39341bd'', True, ''xed-operand-element-type-enum.h'')],
    row ''str2xed_5foperand_5felement_5fxtype_5fenum_5ft'' ''str2xed_operand_element_xtype_enum_t'' [(''../group__ENUM.html#ga14b6c0205cd965831f992f5b51e390a7'', True, ''xed-operand-element-xtype-enum.h'')],
    row ''str2xed_5foperand_5fenum_5ft'' ''str2xed_operand_enum_t'' [(''../group__ENUM.html#ga5171a8e9ed0f5bd702649ab74c6c7f26'', True, ''xed-operand-enum.h'')],
    row ''str2xed_5foperand_5ftype_5fenum_5ft'' ''str2xed_operand_type_enum_t'' [(''../group__ENUM.html#ga2442452a830a0f64d1763c56508d3912'', True, ''xed-operand-type-enum.h'')],
    row ''str2xed_5foperand_5fvisibility_5fenum_5ft'' ''str2xed_operand_visibility_enum_t'' [(''../group__ENUM.html#gaee0641e8722891769a673d945fdbd32b'', True, ''xed-operand-visibility-enum.h'')],
    row ''str2xed_5foperand_5fwidth_5fenum_5ft'' ''str2xed_operand_width_enum_t'' [(''../group__ENUM.html#ga0924246b32d361e6c996ce1fe103abf3'', True, ''xed-operand-width-enum.h'')],
    row ''str2xed_5freg_5fclass_5fenum_5ft'' ''str2xed_reg_class_enum_t'' [(''../group__ENUM.html#ga42de53e0622823b27dfbc1b0bcab381b'', True, ''xed-reg-class-enum.h'')],
    row ''str2xed_5freg_5fenum_5ft'' ''str2xed_reg_enum_t'' [(''../group__ENUM.html#ga48dc3d086b469ae580ca47917043c2fd'', True, ''xed-reg-enum.h'')],
    row ''str2xed_5freg_5frole_5fenum_5ft'' ''str2xed_reg_role_enum_t'' [(''../group__ENUM.html#ga3fde56fafd5fbe4c642c0566e0e84f28'', True, ''xed-reg-role-enum.h'')],
    row ''str2xed_5fsyntax_5fenum_5ft'' ''str2xed_syntax_enum_t'' [(''../group__ENUM.html#ga6eeeb05296af70a796524487d483400e'', True, ''xed-syntax-enum.h'')],
    row ''string_5ftable_5fidx'' ''string_table_idx'' [(''../structxed__iform__info__s.html#a34770b1c687b081d466e3a05b2a9a8a6'', True, ''xed_iform_info_s'')],
    row ''syntax'' ''syntax'' [(''../structxed__print__info__t.html#aade5b0550443918f13c25f1589adbb70'', True, ''xed_print_info_t'')]]"

lemma all_11_ok: "list_all (row_ok 115) all_11"
  by (simp only: all_11_def row_checks)

text \<open>\<open>search/all_12.js\<close>\<close>

definition all_12 :: "search_row list" where
  "all_12 = [
    row ''table_5fname'' ''table_name'' [(''../structxed__convert__table__t.html#a793e42830b662982224085e82e4a4238'', True, ''xed_convert_table_t'')],
    row ''tf'' ''tf'' [(''../unionxed__flag__set__s.html#a3674598aac3f0fe791f47ac79f0c37eb'', True, ''xed_flag_set_s'')],
    row ''type'' ''type'' [(''../structxed__encoder__operand__t.html#af8d096f5b2bf8e6c6752035db7501430'', True, ''xed_encoder_operand_t::type()''), (''../structxed__operand__storage__s.html#a4318d50f36d74b9ae3185bcdb0603368'', True, ''xed_operand_storage_s::type()'')]]"

lemma all_12_ok: "list_all (row_ok 116) all_12"
  by (simp only: all_12_def row_checks)

text \<open>\<open>search/all_13.js\<close>\<close>

definition all_13 :: "search_row list" where
  "all_13 = [
    row ''u'' ''u'' [(''../structxed__decoded__inst__s.html#a0db7e2fe9fff38507c45bc83a19eece0'', True, ''xed_decoded_inst_s::u()''), (''../structxed__encoder__operand__t.html#a02a44953301d1bc2567512f754861f8a'', True, ''xed_encoder_operand_t::u()'')],
    row ''u16'' ''u16'' [(''../unionxed__union16__t.html#ad4d80d062baebbab7db8d9fdd4d761d8'', True, ''xed_union16_t'')],
    row ''u32'' ''u32'' [(''../unionxed__union32__t.html#a87b0780ee50a66aff08beb44d4884d37'', True, ''xed_union32_t'')],
    row ''u64'' ''u64'' [(''../unionxed__union64__t.html#a760537d841266354fcd9cc97b41cbeb1'', True, ''xed_union64_t'')],
    row ''ubit'' ''ubit'' [(''../structxed__operand__storage__s.html#a17efd81e6c815c79e2cdf4b40adc3adc'', True, ''xed_operand_storage_s'')],
    row ''uimm0'' ''uimm0'' [(''../structxed__operand__storage__s.html#a27342d6ed806e9075a1d274bd80d32b4'', True, ''xed_operand_storage_s'')],
    row ''uimm1'' ''uimm1'' [(''../structxed__operand__storage__s.html#a39ec9ef64786ce9ed76bfe0a0a1642fe'', True, ''xed_operand_storage_s'')],
    row ''undefined'' ''undefined'' [(''../structxed__simple__flag__s.html#aebe46fb7d51bdbdec6037b48417bb8f0'', True, ''xed_simple_flag_s'')],
    row ''user_5fdata'' ''user_data'' [(''../structxed__decoded__inst__s.html#a76dd7c3749de4ea740c3ae490bc53cce'', True, ''xed_decoded_inst_s'')],
    row ''using_5fdefault_5fsegment0'' ''using_default_segment0'' [(''../structxed__operand__storage__s.html#a720d3b2187836507b81547408f35433e'', True, ''xed_operand_storage_s'')],
    row ''using_5fdefault_5fsegment1'' ''using_default_segment1'' [(''../structxed__operand__storage__s.html#a4d1bdcd690d2cd6bd5d4a1a29085f76e'', True, ''xed_operand_storage_s'')]]"

lemma all_13_ok: "list_all (row_ok 117) all_13"
  by (simp only: all_13_def row_checks)

text \<open>\<open>search/all_14.js\<close>\<close>

definition all_14 :: "search_row list" where
  "all_14 = [
    row ''value'' ''value'' [(''../structxed__encoder__operand__t.html#a0593727d33d6d01b5f6539d69b6b94f2'', True, ''xed_encoder_operand_t::value()''), (''../structxed__immdis__s.html#ac2171072c92ed1511fb37e3f7fbfad16'', True, ''xed_immdis_s::value()'')],
    row ''vex_5fc4'' ''vex_c4'' [(''../structxed__operand__storage__s.html#aab83b9b17c9e7db17aadb02f819b331e'', True, ''xed_operand_storage_s'')],
    row ''vex_5fprefix'' ''vex_prefix'' [(''../structxed__operand__storage__s.html#a2dfb8112d085b135132f08c91a4ae1c1'', True, ''xed_operand_storage_s'')],
    row ''vexdest210'' ''vexdest210'' [(''../structxed__operand__storage__s.html#a4f151b021dc9532a98b3d9a7391693ce'', True, ''xed_operand_storage_s'')],
    row ''vexdest3'' ''vexdest3'' [(''../structxed__operand__storage__s.html#a3d0b9044183a89e49188694613c597c8'', True, ''xed_operand_storage_s'')],
    row ''vexdest4'' ''vexdest4'' [(''../structxed__operand__storage__s.html#a6a5028d180274c4aa23fc9306715a348'', True, ''xed_operand_storage_s'')],
    row ''vexvalid'' ''vexvalid'' [(''../structxed__operand__storage__s.html#a0dbff530f195371c35c71da2c5feb2d1'', True, ''xed_operand_storage_s'')],
    row ''vif'' ''vif'' [(''../unionxed__flag__set__s.html#a607ecb9cdd15dfb2a132a4fc593fe0b6'', True, ''xed_flag_set_s'')],
    row ''vip'' ''vip'' [(''../unionxed__flag__set__s.html#a94862c6f42f4070dcbf5e90863b11fec'', True, ''xed_flag_set_s'')],
    row ''vl'' ''vl'' [(''../structxed__operand__storage__s.html#a27ce99975034d1b474a089b7e008be62'', True, ''xed_operand_storage_s'')],
    row ''vm'' ''vm'' [(''../unionxed__flag__set__s.html#a4e085097fe04e9a4ef0b8f48880c94dd'', True, ''xed_flag_set_s'')]]"

lemma all_14_ok: "list_all (row_ok 118) all_14"
  by (simp only: all_14_def row_checks)

text \<open>\<open>search/all_15.js\<close>\<close>

definition all_15 :: "search_row list" where
  "all_15 = [
    row ''w'' ''w'' [(''../unionxed__union32__t.html#a41b45d67e413da52883fc0d6eab393ed'', True, ''xed_union32_t::w()''), (''../unionxed__union64__t.html#a801d12d547dd53a71b9ffe3b42ccdd5e'', True, ''xed_union64_t::w()'')],
    row ''w0'' ''w0'' [(''../unionxed__union32__t.html#aef7e233f5b49a9e91891acf28e7c45bc'', True, ''xed_union32_t::w0()''), (''../unionxed__union64__t.html#aef7e233f5b49a9e91891acf28e7c45bc'', True, ''xed_union64_t::w0()'')],
    row ''w1'' ''w1'' [(''../unionxed__union32__t.html#ac85d184c00bc048d4b951261acf96213'', True, ''xed_union32_t::w1()''), (''../unionxed__union64__t.html#ac85d184c00bc048d4b951261acf96213'', True, ''xed_union64_t::w1()'')],
    row ''w2'' ''w2'' [(''../unionxed__union64__t.html#ad2ea7ba6301ebd2585e964f5fc9f497c'', True, ''xed_union64_t'')],
    row ''w3'' ''w3'' [(''../unionxed__union64__t.html#adef5946c81032b371d5b0c5afa999e4f'', True, ''xed_union64_t'')],
    row ''width'' ''width'' [(''../structxed__encoder__operand__t.html#afc62b1b2b0225f006a24483b846f266c'', True, ''xed_encoder_operand_t'')],
    row ''word'' ''word'' [(''../unionxed__union32__t.html#a45c9140c07110940d145fe8895d7b967'', True, ''xed_union32_t::word()''), (''../unionxed__union64__t.html#a652f0fbf9432ba5125eebf86f0c3ce01'', True, ''xed_union64_t::word()'')],
    row ''write_5fmask_5fcurly_5fk0'' ''write_mask_curly_k0'' [(''../structxed__format__options__t.html#aa3d5959c28ee81aa7e72e6042ffafc1e'', True, ''xed_format_options_t'')],
    row ''written'' ''written'' [(''../structxed__simple__flag__s.html#adfa93f6dc27a5ed9554b4da06fe316eb'', True, ''xed_simple_flag_s'')]]"

lemma all_15_ok: "list_all (row_ok 119) all_15"
  by (simp only: all_15_def row_checks)

text \<open>\<open>search/all_17.js\<close>\<close>

definition all_17 :: "search_row list" where
  "all_17 = [
    row ''zeroing'' ''zeroing'' [(''../structxed__operand__storage__s.html#a5c250aa1fde976f1a64b169930d888a3'', True, ''xed_operand_storage_s'')],
    row ''zf'' ''zf'' [(''../unionxed__flag__set__s.html#a96fcc2f1ad7f3b08c058b13b7c433fdb'', True, ''xed_flag_set_s'')]]"

lemma all_17_ok: "list_all (row_ok 122) all_17"
  by (simp only: all_17_def row_checks)

end
