(* ===== verification/Search_Pages.thy ===== *)
theory Search_Pages
  imports Search_Tables_1 Search_Tables_2 Search_Tables_3
begin

text \<open>
  The pages of the index by section, in the order of the letters of the section. Two pages are
  not transcribed, those of all names and of enumerators that start with an x.
\<close>

definition section_pages :: "nat \<Rightarrow> search_row list option list" where
  "section_pages s = (if s = 0 then [Some all_0, Some all_1, Some all_2, Some all_3, Some all_4, Some all_5, Some all_6, Some all_7, Some all_8, Some all_9, Some all_a, Some all_b, Some all_c, Some all_d, Some all_e, Some all_f, Some all_10, Some all_11, Some all_12, Some all_13, Some all_14, Some all_15, None, Some all_17]
     else if s = 1 then [Some classes_0]
     else if s = 2 then [Some files_0]
     else if s = 3 then [Some functions_0, Some functions_1]
     else if s = 4 then [Some variables_0, Some variables_1, Some variables_2, Some variables_3, Some variables_4, Some variables_5, Some variables_6, Some variables_7, Some variables_8, Some variables_9, Some variables_a, Some variables_b, Some variables_c, Some variables_d, Some variables_e, Some variables_f, Some variables_10, Some variables_11, Some variables_12, Some variables_13, Some variables_14, Some variables_15, Some variables_16]
     else if s = 5 then [Some typedefs_0]
     else if s = 6 then [Some enums_0]
     else if s = 7 then [None]
     else if s = 8 then [Some defines_0]
     else if s = 9 then [Some groups_0, Some groups_1, Some groups_2, Some groups_3, Some groups_4, Some groups_5, Some groups_6, Some groups_7, Some groups_8, Some groups_9, Some groups_a, Some groups_b]
     else if s = 10 then [Some pages_0]
     else [])"

text \<open>
  What is checked of a section: each transcribed page holds the rows of its letter.
\<close>

definition page_ok :: "nat \<Rightarrow> search_row list option \<Rightarrow> bool" where
  "page_ok c page \<longleftrightarrow> (case page of None \<Rightarrow> True | Some rows \<Rightarrow> list_all (row_ok c) rows)"

definition section_ok :: "nat \<Rightarrow> bool" where
  "section_ok s \<longleftrightarrow> list_all2 page_ok (indexSectionsWithContent ! s) (section_pages s)"

lemmas page_checks =
  all_0_ok
  all_1_ok
  all_2_ok
  all_3_ok
  all_4_ok
  all_5_ok
  all_6_ok
  all_7_ok
  all_8_ok
  all_9_ok
  all_a_ok
  all_b_ok
  all_c_ok
  all_d_ok
  all_e_ok
  all_f_ok
  all_10_ok
  all_11_ok
  all_12_ok
  all_13_ok
  all_14_ok
  all_15_ok
  all_17_ok
  classes_0_ok
  files_0_ok
  functions_0_ok
  functions_1_ok
  variables_0_ok
  variables_1_ok
  variables_2_ok
  variables_3_ok
  variables_4_ok
  variables_5_ok
  variables_6_ok
  variables_7_ok
  variables_8_ok
  variables_9_ok
  variables_a_ok
  variables_b_ok
  variables_c_ok
  variables_d_ok
  variables_e_ok
  variables_f_ok
  variables_10_ok
  variables_11_ok
  variables_12_ok
  variables_13_ok
  variables_14_ok
  variables_15_ok
  variables_16_ok
  typedefs_0_ok
  enums_0_ok
  defines_0_ok
  groups_0_ok
  groups_1_ok
  groups_2_ok
  groups_3_ok
  groups_4_ok
  groups_5_ok
  groups_6_ok
  groups_7_ok
  groups_8_ok
  groups_9_ok
  groups_a_ok
  groups_b_ok
  pages_0_ok

lemma section_0_ok: "section_ok 0"
  by (simp add: section_ok_def page_ok_def section_pages_def indexSectionsWithContent_def js_def page_checks)

lemma section_1_ok: "section_ok 1"
  by (simp add: section_ok_def page_ok_def section_pages_def indexSectionsWithContent_def js_def page_checks)

lemma section_2_ok: "section_ok 2"
  by (simp add: section_ok_def page_ok_def section_pages_def indexSectionsWithContent_def js_def page_checks)

lemma section_3_ok: "section_ok 3"
  by (simp add: section_ok_def page_ok_def section_pages_def indexSectionsWithContent_def js_def page_checks)

lemma section_4_ok: "section_ok 4"
  by (simp add: section_ok_def page_ok_def section_pages_def indexSectionsWithContent_def js_def page_checks)

lemma section_5_ok: "section_ok 5"
  by (simp add: section_ok_def page_ok_def section_pages_def indexSectionsWithContent_def js_def page_checks)

lemma section_6_ok: "section_ok 6"
  by (simp add: section_ok_def page_ok_def section_pages_def indexSectionsWithContent_def js_def page_checks)

lemma section_7_ok: "section_ok 7"
  by (simp add: section_ok_def page_ok_def section_pages_def indexSectionsWithContent_def js_def page_checks)

lemma section_8_ok: "section_ok 8"
  by (simp add: section_ok_def page_ok_def section_pages_def indexSectionsWithContent_def js_def page_checks)

lemma section_9_ok: "section_ok 9"
  by (simp add: section_ok_def page_ok_def section_pages_def indexSectionsWithContent_def js_def page_checks)

lemma section_10_ok: "section_ok 10"
  by (simp add: section_ok_def page_ok_def section_pages_def indexSectionsWithContent_def js_def page_checks)

end
