(* ===== verification/Search_Behaviour.thy ===== *)
theory Search_Behaviour
  imports Search_Rows
begin

text \<open>
  The behaviour of the search, for any table of rows: the rows a query shows, the walk to the
  children of a row, the keys, the menu of sections, and the searches that are pending.
\<close>

section \<open>A page for the examples\<close>

definition demo_layout :: layout where
  "demo_layout = \<lparr>offsetWidth = 20, offsetHeight = 19, offsets = [(600, 30)]\<rparr>"

definition demo_menu :: "menu_child list" where
  "demo_menu = replicate 11 \<lparr>is_item = True, mark = js ''&#160;''\<rparr>"

definition demo_page :: page where
  "demo_page = \<lparr>field_value = js ''XED User Guide'', focused = On_field, menu = demo_menu, menu_display = [],
     menu_left = 0, menu_top = 0, results_display = [], results_position = [], results_width = 0,
     results_left = 0, results_top = 0, results_location = [], close_display = [], box_class = [],
     timers = [], next_timer = 1, select_layout = demo_layout, box_layout = demo_layout, menu_width = 130,
     results_offsetWidth = 200, body_width = 1000\<rparr>"

definition demo_box :: search_box where
  "demo_box = (SearchBox (js ''search'') False (js ''Search''))\<lparr>searchIndex := 10, searchActive := True\<rparr>"

definition demo_rows :: "search_row list" where
  "demo_rows =
     [row ''ab'' ''ab'' [(''p.html#1'', True, ''s''), (''p.html#2'', True, ''t'')],
      row ''b'' ''b'' [(''p.html#3'', True, ''s''), (''p.html#4'', True, ''t'')],
      row ''a_20c'' ''a c'' [(''p.html#5'', True, ''u'')]]"

lemma named_row:
  "coded name = Some ident \<Longrightarrow> map ascii_lower (js name) = js name \<Longrightarrow> named (row ident name links) (js name)"
  using coded_units [of name ident] by (simp add: named_def row_def)

lemma demo_rows_named: "list_all2 named demo_rows [js ''ab'', js ''b'', js ''a c'']"
  unfolding demo_rows_def
proof (intro list.rel_intros named_row)
  show "coded ''ab'' = Some ''ab''" "coded ''b'' = Some ''b''" "coded ''a c'' = Some ''a_20c''"
    by (simp_all only: row_checks)
qed (simp_all add: js_def ascii_lower_def)

lemma demo_sought:
  "sought_name uni (js ''A'') = js ''a''" "sought_name uni (js ''a'') = js ''a''"
  "is_units (js ''A'')" "is_units (js ''a'')"
  by (simp_all add: is_units_def js_def sought_name_def toLowerCase_def strip_leading_def strip_trailing_def
      ascii_lower_def)

lemma demo_prefixes:
  "prefix (js ''a'') (js ''ab'')" "\<not> prefix (js ''a'') (js ''b'')" "prefix (js ''a'') (js ''a c'')"
  by (simp_all add: js_def)

section \<open>Searching\<close>

text \<open>
  C26: on a page whose rows have the coded names as ids, a query shows exactly the rows whose
  names start with the search value, without regard to case and to the spaces around it; the
  count is the number of these names, and the line \<open>No Matches\<close> shows when there is none.
\<close>

theorem search_shows_prefix_matches:
  assumes "list_all2 named searchData names" and "is_units v" and "is_units (sought_name uni v)"
  shows "\<exists>doc. load_results uni (js ''?'' @ escape v) searchData =
        Inr (doc, length (filter (prefix (sought_name uni v)) names)) \<and>
    (\<forall>k < length names. display_at doc (k # results_at) =
       (if prefix (sought_name uni v) (names ! k) then js ''block'' else js ''none'')) \<and>
    display_at doc [4, 0, 1, 0] =
       (if list_ex (prefix (sought_name uni v)) names then js ''none'' else js ''block'')"
proof -
  let ?q = "js ''?'' @ escape v"
  have len: "length searchData = length names" by (rule list_all2_lengthD [OF assms(1)])
  obtain doc where load: "load_results uni ?q searchData =
        Inr (doc, length (filter (row_found uni ?q) searchData))"
    and ids: "\<And>ident. getElementById ident doc =
        getElementById ident (results_document (result_rows 0 searchData))"
    and rows: "\<And>k. k < length searchData \<Longrightarrow> display_at doc (k # results_at) =
       (if row_found uni ?q (searchData ! k) then js ''block'' else js ''none'')"
    and status: "display_at doc [4, 0, 1, 0] =
       (if list_ex (row_found uni ?q) searchData then js ''none'' else js ''block'')"
    using load_results_page [of uni ?q searchData] by blast
  have "list_ex (row_found uni ?q) searchData = list_ex (prefix (sought_name uni v)) names"
    using assms(1)
    by (induction rule: list_all2_induct) (simp_all add: row_found_name [OF _ assms(2,3)])
  with load rows status count_found_names [OF assms] rows_found_names [OF assms] len
  show ?thesis by auto
qed

theorem search_shows_prefix_matches_witness:
  "\<exists>doc. load_results (\<lambda>s. s) (js ''?'' @ escape (js ''A'')) demo_rows = Inr (doc, 2) \<and>
     display_at doc (0 # results_at) = js ''block'' \<and> display_at doc (1 # results_at) = js ''none'' \<and>
     display_at doc [4, 0, 1, 0] = js ''none''"
proof -
  have "is_units (sought_name (\<lambda>s. s) (js ''A''))" by (simp only: demo_sought)
  then obtain doc where doc: "load_results (\<lambda>s. s) (js ''?'' @ escape (js ''A'')) demo_rows =
        Inr (doc, length (filter (prefix (js ''a'')) [js ''ab'', js ''b'', js ''a c'']))"
    "\<forall>k < length [js ''ab'', js ''b'', js ''a c'']. display_at doc (k # results_at) =
       (if prefix (js ''a'') ([js ''ab'', js ''b'', js ''a c''] ! k) then js ''block'' else js ''none'')"
    "display_at doc [4, 0, 1, 0] =
       (if list_ex (prefix (js ''a'')) [js ''ab'', js ''b'', js ''a c''] then js ''none'' else js ''block'')"
    using search_shows_prefix_matches [OF demo_rows_named demo_sought(3), of "\<lambda>s. s"]
    unfolding demo_sought by blast
  have "display_at doc (0 # results_at) = js ''block''" "display_at doc (1 # results_at) = js ''none''"
    using doc(2) [rule_format, of 0] doc(2) [rule_format, of 1] demo_prefixes by simp_all
  with doc(1,3) demo_prefixes show ?thesis by simp
qed

text \<open>
  C27: the code compares as the text does: the code of a string is a prefix of the code of
  another exactly when the string is a prefix of the other.
\<close>

theorem code_compares_as_text:
  assumes "is_units s" and "is_units t"
  shows "prefix (convertToId s) (convertToId t) \<longleftrightarrow> prefix s t"
  by (rule convertToId_prefix [OF assms])

theorem code_compares_as_text_witness:
  "prefix (convertToId (js ''xed_'')) (convertToId (js ''xed_decode'')) \<and>
   \<not> prefix (convertToId (js ''_'')) (convertToId (js ''5f''))"
proof -
  have "is_units (js ''xed_'')" "is_units (js ''xed_decode'')" "is_units (js ''_'')" "is_units (js ''5f'')"
    by (simp_all add: is_units_def js_def)
  moreover have "prefix (js ''xed_'') (js ''xed_decode'')" "\<not> prefix (js ''_'') (js ''5f'')"
    by (simp_all add: js_def)
  ultimately show ?thesis using code_compares_as_text by blast
qed

text \<open>
  C28: what is typed comes through the address. After a search of the box that opens a page of
  results, the address in its frame is this page with a query, and the term that the page
  searches for, which it reads from its address, is the coded text of the field in lower case
  and without the spaces around it, whatever characters were typed. The path of the pages must
  hold no \<open>?\<close> and no \<open>#\<close>, as that of the manual.
\<close>

theorem query_round_trip:
  assumes "SearchBox_Search uni (b, p) = Inr (b', p')" and "is_units (field_value p)"
    and "plain_part (resultsPath b)"
    and "lastResultsPage b' \<noteq> resultsPath b @ js ''/nomatches.html''"
  shows "takeWhile (\<lambda>c. c \<noteq> 63) (results_location p') = lastResultsPage b' \<and>
    search_term uni (location_search (results_location p')) [] = convertToId (sought_name uni (field_value p))"
proof -
  let ?v = "strip_leading (field_value p)"
  obtain page address where pages: "results_pages uni (b\<lparr>keyTimeout := 0\<rparr>) ?v = Inr (page, address)"
    and b': "lastResultsPage b' = page" and p': "results_location p' = address"
    using assms(1) by (auto simp: SearchBox_Search_def Let_def andthen_Inr_iff)
  have "plain_part (resultsPath (b\<lparr>keyTimeout := 0\<rparr>))" using assms(3) by simp
  note page = results_page_plain [OF pages this]
  have address: "address = page @ js ''?'' @ escape ?v"
    using page(2) assms(4) b' by simp
  have "is_units ?v"
    using assms(2) by (auto simp: is_units_def strip_leading_def list_all_iff dest: set_dropWhileD)
  then have "unescape (drop 1 (location_search address)) = ?v"
    using location_search_query(1) [OF page(1) escape_plain, of ?v] unescape_escape_units [of ?v]
    by (cases "?v = []") (simp_all add: address js_def)
  moreover have "strip_leading ?v = ?v" by (simp add: strip_leading_def dropWhile_idem)
  ultimately show ?thesis
    using location_search_query(2) [OF page(1) escape_plain, of ?v]
    by (simp add: p' b' address search_term_def sought_name_def Let_def)
qed

text \<open>An example: a search value with the characters that the address gives a meaning.\<close>

definition hash_page :: page where
  "hash_page = demo_page\<lparr>field_value := js ''x%23?#'' @ [0x20AC, 32]\<rparr>"

lemma hash_search:
  "\<exists>b' p'. SearchBox_Search (\<lambda>s. s) (demo_box\<lparr>searchIndex := 0\<rparr>, hash_page) = Inr (b', p') \<and>
     lastResultsPage b' = js ''search/all_16.html''"
proof -
  have v: "strip_leading (field_value hash_page) = js ''x%23?#'' @ [0x20AC, 32]"
    by (simp add: hash_page_def strip_leading_def js_def)
  have "idx_char (\<lambda>s. s) (js ''x%23?#'' @ [0x20AC, 32]) = js ''x''"
    by (simp add: idx_char_def toLowerCase_def js_def ascii_lower_def Let_def)
  then have "index_of (idx_char (\<lambda>s. s) (js ''x%23?#'' @ [0x20AC, 32])) (indexSectionsWithContent ! 0) = Some 22"
    by (simp add: indexSectionsWithContent_def js_def)
  moreover have "hex_string 22 = js ''16''" by code_simp
  moreover have "indexSectionNames ! 0 = js ''all''" "0 < length indexSectionsWithContent"
    by (simp_all add: indexSectionNames_def indexSectionsWithContent_def)
  ultimately show ?thesis
    by (simp add: SearchBox_Search_def results_pages_def v demo_box_def SearchBox_def Let_def js_def)
qed

theorem query_round_trip_witness:
  "\<exists>b' p'. SearchBox_Search (\<lambda>s. s) (demo_box\<lparr>searchIndex := 0\<rparr>, hash_page) = Inr (b', p') \<and>
     takeWhile (\<lambda>c. c \<noteq> 63) (results_location p') = js ''search/all_16.html'' \<and>
     search_term (\<lambda>s. s) (location_search (results_location p')) [] = convertToId (js ''x%23?#'' @ [0x20AC])"
proof -
  obtain b' p' where found: "SearchBox_Search (\<lambda>s. s) (demo_box\<lparr>searchIndex := 0\<rparr>, hash_page) = Inr (b', p')"
    "lastResultsPage b' = js ''search/all_16.html''"
    using hash_search by blast
  have "is_units (field_value hash_page)" "plain_part (resultsPath (demo_box\<lparr>searchIndex := 0\<rparr>))"
    "lastResultsPage b' \<noteq> resultsPath (demo_box\<lparr>searchIndex := 0\<rparr>) @ js ''/nomatches.html''"
    by (simp_all add: found(2) hash_page_def demo_box_def SearchBox_def is_units_def plain_part_def js_def)
  moreover have "sought_name (\<lambda>s. s) (field_value hash_page) = js ''x%23?#'' @ [0x20AC]"
    by (simp add: hash_page_def sought_name_def strip_leading_def strip_trailing_def toLowerCase_def js_def ascii_lower_def)
  ultimately show ?thesis
    using query_round_trip [OF found(1)] found by simp
qed

section \<open>Moving in the results\<close>

text \<open>
  C29: the pointer walk of \<open>FindChildElement\<close> ends on every document, and finds the first
  division for children, in document order, among the elements below the row that are reached
  through divisions.
\<close>

theorem find_child_is_first:
  "find_loop parentElement [0] =
     Some (map_option fst (List.find (\<lambda>(p, d). is_children d) (walk is_div [] 0 (childNodes parentElement))))"
  by (rule find_loop_first)

text \<open>
  C30: on a page of results, \<open>NavNext\<close> from an item returns the first shown item from there
  on, \<open>NavPrev\<close> the last shown item before it, and both return null when there is none.
\<close>

theorem next_and_previous_item:
  assumes "load_results uni query searchData = Inr (doc, n)" and "k \<le> length searchData"
  shows "NavNext doc (int k) =
      Some (Inr (map_option item_at
        (List.find (\<lambda>j. row_found uni query (searchData ! j)) [k..<length searchData]))) \<and>
    NavPrev doc (int k - 1) =
      Some (Inr (map_option item_at (List.find (\<lambda>j. row_found uni query (searchData ! j)) (rev [0..<k]))))"
proof -
  obtain doc' where load: "load_results uni query searchData =
        Inr (doc', length (filter (row_found uni query) searchData))"
    and ids: "\<And>ident. getElementById ident doc' =
        getElementById ident (results_document (result_rows 0 searchData))"
    and rows: "\<And>k. k < length searchData \<Longrightarrow> display_at doc' (k # results_at) =
       (if row_found uni query (searchData ! k) then js ''block'' else js ''none'')"
    using load_results_page [of uni query searchData] by blast
  have doc: "doc' = doc" using load assms(1) by simp
  have shown: "display_at doc (k # results_at) = js ''block'' \<longleftrightarrow> row_found uni query (searchData ! k)"
    if "k < length searchData" for k using rows [OF that] doc by simp
  show ?thesis
    using NavNext_page [OF ids [unfolded doc] shown] NavPrev_page [OF ids [unfolded doc] shown assms(2)]
    by blast
qed

theorem next_and_previous_item_witness:
  "\<exists>doc n. load_results (\<lambda>s. s) (js ''?'' @ escape (js ''a'')) demo_rows = Inr (doc, n) \<and>
     NavNext doc 1 = Some (Inr (Some (item_at 2))) \<and> NavPrev doc 1 = Some (Inr (Some (item_at 0)))"
proof -
  let ?q = "js ''?'' @ escape (js ''a'')" and ?names = "[js ''ab'', js ''b'', js ''a c'']"
  obtain doc n where load: "load_results (\<lambda>s. s) ?q demo_rows = Inr (doc, n)"
    using load_results_page [of "\<lambda>s. s" ?q demo_rows] by blast
  have len: "length demo_rows = 3" by (simp add: demo_rows_def)
  have "row_found (\<lambda>s. s) ?q (demo_rows ! k) \<longleftrightarrow> prefix (js ''a'') (?names ! k)" if "k < 3" for k
    using rows_found_names [OF demo_rows_named demo_sought(4), of "\<lambda>s. s" k] that len
    unfolding demo_sought by (simp only: demo_sought)
  from this [of 0] this [of 1] this [of 2] have "row_found (\<lambda>s. s) ?q (demo_rows ! 0)"
    "\<not> row_found (\<lambda>s. s) ?q (demo_rows ! 1)" "row_found (\<lambda>s. s) ?q (demo_rows ! 2)"
    using demo_prefixes by simp_all
  then have "List.find (\<lambda>j. row_found (\<lambda>s. s) ?q (demo_rows ! j)) [1..<3] = Some 2"
    "List.find (\<lambda>j. row_found (\<lambda>s. s) ?q (demo_rows ! j)) (rev [0..<2]) = Some 0"
    by (simp_all add: upt_conv_Cons numeral_2_eq_2)
  with next_and_previous_item [OF load, of 1] next_and_previous_item [OF load, of 2] load
  show ?thesis by (auto simp: len)
qed

end
