(* ===== verification/Search_Claims.thy ===== *)
theory Search_Claims
  imports Search_Pages Search_Behaviour
begin

text \<open>
  What the search of the manuals promises, from the search value in the field of a page to the
  rows of the page of results and the keys that move among them.
\<close>

section \<open>From a name to its row\<close>

lemma index_of_single:
  "distinct s \<Longrightarrow> i < length s \<Longrightarrow> index_of [s ! i] s = Some i"
proof (induction s arbitrary: i)
  case (Cons c s)
  then show ?case by (cases i) (auto simp: in_set_conv_nth)
qed simp

lemma sections_distinct: "list_all distinct indexSectionsWithContent"
  by code_simp

lemma sections_letters: "list_all (list_all (\<lambda>c. c \<noteq> 32)) indexSectionsWithContent"
  by code_simp

lemma lower_not_space: "ascii_lower c \<noteq> 32 \<Longrightarrow> c \<noteq> 32"
  by (auto simp: ascii_lower_def)

text \<open>A name that starts with a letter of the section goes to the page of this letter.\<close>

lemma idx_char_letter:
  assumes "list_all (\<lambda>c. c < 128) (c # v)"
  shows "idx_char uni (c # v) = [ascii_lower c]"
  using assms by (auto simp: idx_char_def toLowerCase_def ascii_lower_def Let_def)

lemma name_of_row:
  assumes "row_ok letter r" and "letter \<noteq> 32"
  obtains c v where "row_name r = c # v" "ascii_lower c = letter" "strip_leading (row_name r) = row_name r"
    "list_all (\<lambda>c. c < 128) (c # v)"
proof -
  obtain c v where v: "row_name r = c # v" "ascii_lower c = letter"
    using assms(1) by (cases "row_name r") (auto simp: row_ok_def row_letter_def lower_name_def)
  have "c \<noteq> 32" using v(2) assms(2) lower_not_space by blast
  then have "strip_leading (row_name r) = row_name r" by (simp add: strip_leading_def v)
  moreover have "list_all (\<lambda>c. c < 128) (c # v)"
    using assms(1) by (simp only: row_ok_def v)
  ultimately show thesis by (rule that [OF v])
qed

lemma sought_name_row:
  assumes "row_ok letter r" and "letter \<noteq> 32"
  shows "prefix (sought_name uni (row_name r)) (lower_name r)" and "is_units (sought_name uni (row_name r))"
    and "is_units (row_name r)"
proof -
  obtain c v where v: "row_name r = c # v" "strip_leading (row_name r) = row_name r"
    "list_all (\<lambda>c. c < 128) (row_name r)"
    by (rule name_of_row [OF assms]) simp
  have "prefix (strip_trailing s) s" for s
    unfolding strip_trailing_def by (metis rev_rev_ident suffix_dropWhile suffix_to_prefix)
  then obtain t where t: "row_name r = strip_trailing (row_name r) @ t" by (auto simp: prefix_def)
  then have "list_all (\<lambda>c. c < 128) (strip_trailing (row_name r))"
    using v(3) by (metis list_all_append)
  then have low: "sought_name uni (row_name r) = map ascii_lower (strip_trailing (row_name r))"
    by (simp add: sought_name_def v(2) toLowerCase_def)
  then show "prefix (sought_name uni (row_name r)) (lower_name r)"
    using t by (metis lower_name_def map_append prefixI)
  have "list_all (\<lambda>c. c < 128) s \<Longrightarrow> is_units s" "list_all (\<lambda>c. c < 128) s \<Longrightarrow> is_units (map ascii_lower s)" for s
    by (auto simp: is_units_def list_all_iff ascii_lower_def)
  then show "is_units (sought_name uni (row_name r))" "is_units (row_name r)"
    using v(3) low \<open>list_all (\<lambda>c. c < 128) (strip_trailing (row_name r))\<close> by auto
qed

lemma sections_checked: "s < length indexSectionsWithContent \<Longrightarrow> section_ok s"
proof -
  assume "s < length indexSectionsWithContent"
  moreover have "length indexSectionsWithContent = 11"
    by (simp add: indexSectionsWithContent_def)
  ultimately have "s \<in> {0, 1, 2, 3, 4, 5, 6, 7, 8, 9, 10}"
    by (simp only: insert_iff empty_iff) presburger
  then show ?thesis
    using section_0_ok section_1_ok section_2_ok section_3_ok section_4_ok section_5_ok section_6_ok
      section_7_ok section_8_ok section_9_ok section_10_ok by blast
qed

lemma page_rows_named:
  assumes "list_all (row_ok letter) rows"
  shows "list_all2 named rows (map lower_name rows)"
  using assms by (induction rows) (simp_all add: row_ok_def)

text \<open>
  The rows of page \<open>i\<close> of a section. Of the two pages that are not transcribed all that is known
  is the form of their rows: the id is the coded name in lower case, and the name starts with the
  letter of the page.
\<close>

definition index_page :: "nat \<Rightarrow> nat \<Rightarrow> search_row list \<Rightarrow> bool" where
  "index_page s i rows \<longleftrightarrow> i < length (section_pages s) \<and>
     (case section_pages s ! i of
        Some page \<Rightarrow> rows = page
      | None \<Rightarrow> list_all (row_ok (indexSectionsWithContent ! s ! i)) rows)"

lemma index_page_rows:
  assumes "index_page s i rows" and "s < length indexSectionsWithContent"
  shows "list_all (row_ok (indexSectionsWithContent ! s ! i)) rows"
    and "i < length (indexSectionsWithContent ! s)"
proof -
  have sec: "list_all2 page_ok (indexSectionsWithContent ! s) (section_pages s)"
    using sections_checked [OF assms(2)] by (simp add: section_ok_def)
  have i: "i < length (section_pages s)" using assms(1) by (simp add: index_page_def)
  with list_all2_lengthD [OF sec] show "i < length (indexSectionsWithContent ! s)" by simp
  with list_all2_nthD [OF sec] assms(1) show "list_all (row_ok (indexSectionsWithContent ! s ! i)) rows"
    by (fastforce simp: index_page_def page_ok_def split: option.splits)
qed

text \<open>The page that a search for the name of a row opens.\<close>

lemma name_opens_page:
  assumes "s < length indexSectionsWithContent" and "index_page s i rows" and "r \<in> set rows"
    and "searchIndex b = int s" and "field_value p = row_name r"
  shows "\<exists>b' p'. SearchBox_Search uni (b, p) = Inr (b', p') \<and>
    results_location p' = (resultsPath b @ js ''/'' @ indexSectionNames ! s @ js ''_'' @ hex_string i @ js ''.html'')
      @ js ''?'' @ escape (row_name r)"
    and "escape (row_name r) \<noteq> []" and "strip_all (row_name r) \<noteq> []"
    and "row_found uni (js ''?'' @ escape (row_name r)) r"
proof -
  define letters where "letters = indexSectionsWithContent ! s"
  note rows = index_page_rows [OF assms(2,1), folded letters_def]
  have letters: "distinct letters" "list_all (\<lambda>c. c \<noteq> 32) letters"
    using sections_distinct sections_letters assms(1) by (auto simp: list_all_iff letters_def)
  have ok: "row_ok (letters ! i) r" "letters ! i \<noteq> 32"
    using rows letters(2) assms(3) by (auto simp: list_all_iff)
  obtain c v where cv: "row_name r = c # v" "ascii_lower c = letters ! i"
      "strip_leading (row_name r) = row_name r" "list_all (\<lambda>c. c < 128) (c # v)"
    by (rule name_of_row [OF ok])
  then show "escape (row_name r) \<noteq> []" by simp
  have "c \<noteq> 32" using cv(2) ok(2) lower_not_space by metis
  then show "strip_all (row_name r) \<noteq> []" by (simp add: cv(1) strip_all_def)
  have "index_of (idx_char uni (row_name r)) letters = Some i"
    using index_of_single [OF letters(1) rows(2)] cv idx_char_letter [OF cv(4), of uni] by simp
  then have "results_pages uni (b\<lparr>keyTimeout := 0\<rparr>) (row_name r) =
      Inr (resultsPath b @ js ''/'' @ indexSectionNames ! s @ js ''_'' @ hex_string i @ js ''.html'',
           (resultsPath b @ js ''/'' @ indexSectionNames ! s @ js ''_'' @ hex_string i @ js ''.html'')
              @ js ''?'' @ escape (row_name r))"
    using assms(1,4) by (simp add: results_pages_def letters_def Let_def)
  then show "\<exists>b' p'. SearchBox_Search uni (b, p) = Inr (b', p') \<and>
    results_location p' = (resultsPath b @ js ''/'' @ indexSectionNames ! s @ js ''_'' @ hex_string i @ js ''.html'')
      @ js ''?'' @ escape (row_name r)"
    using assms(5) cv(3) by (simp add: SearchBox_Search_def Let_def)
  show "row_found uni (js ''?'' @ escape (row_name r)) r"
    using row_found_name [of r "lower_name r" "row_name r" uni] sought_name_row(1,2) [OF ok, of uni]
      sought_name_row(3) [OF ok] ok(1)
    by (simp add: row_ok_def)
qed

text \<open>
  C25: a name of the index is typed. With the text of the field a name that page \<open>i\<close> of the
  selected section lists (at the start that is the section of all names), and not searched for
  just before, the handler of the key sets a timer; when it goes off, the page of results is
  shown, it is page \<open>i\<close> of the section, and this page, from what it reads in its address, shows
  the row of the name. This is for every page of every section; of the rows of the two pages that
  are not transcribed, those of All and of Enumerator for names that start with an x, it assumes
  that they have the form of the others, which \<open>index_page\<close> states.
\<close>

theorem typed_name_is_found:
  assumes "s < length indexSectionsWithContent" and "index_page s i rows" and "j < length rows" and "r = rows ! j"
    and "searchIndex b = int s" and "field_value p = row_name r" and "strip_all (row_name r) \<noteq> lastSearchValue b"
    and "keyCode \<notin> {13, 27, 40}" and "OnSearchFieldChange frame keyCode shiftKey (b, p) = (b1, p1)"
    and "plain_part (resultsPath b)"
  shows "\<exists>b2 p2 doc m.
    (keyTimeout b1, Call_Search) \<in> set (timers p1) \<and>
    timer_fires uni (keyTimeout b1, Call_Search) (b1, p1) = Inr (b2, p2) \<and> results_display p2 = js ''block'' \<and>
    takeWhile (\<lambda>c. c \<noteq> 63) (results_location p2) =
      resultsPath b @ js ''/'' @ indexSectionNames ! s @ js ''_'' @ hex_string i @ js ''.html'' \<and>
    load_results uni (location_search (results_location p2)) rows = Inr (doc, m) \<and> 0 < m \<and>
    display_at doc (j # results_at) = js ''block''"
proof -
  have r: "r \<in> set rows" using assms(3,4) by simp
  note opens = name_opens_page [OF assms(1,2) r]
  have "strip_all (field_value p) \<notin> {[], lastSearchValue b}"
    using opens(3) [OF assms(5,6)] assms(6,7) by simp
  from change_sets_timer [OF assms(8) this, of frame shiftKey] assms(9)
  have s1: "b1 = b\<lparr>keyTimeout := next_timer p\<rparr>" "(next_timer p, Call_Search) \<in> set (timers p1)"
    "field_value p1 = field_value p"
    by auto
  define p3 where "p3 = p1\<lparr>timers := filter (\<lambda>u. u \<noteq> (next_timer p, Call_Search)) (timers p1)\<rparr>"
  let ?page = "resultsPath b @ js ''/'' @ indexSectionNames ! s @ js ''_'' @ hex_string i @ js ''.html''"
  have "searchIndex b1 = int s" "field_value p3 = row_name r" "resultsPath b1 = resultsPath b"
    using assms(5,6) s1 by (simp_all add: p3_def)
  then obtain b2 p2 where search: "SearchBox_Search uni (b1, p3) = Inr (b2, p2)"
    and location: "results_location p2 = ?page @ js ''?'' @ escape (row_name r)"
    using opens(1) [of b1 p3 uni] by auto
  have fires: "timer_fires uni (keyTimeout b1, Call_Search) (b1, p1) = Inr (b2, p2)"
    using search by (simp add: timer_fires_def s1(1) p3_def)
  have "plain_part ?page"
  proof -
    have "s < length indexSectionNames"
      using assms(1) by (simp add: indexSectionNames_def indexSectionsWithContent_def)
    then have "plain_part (indexSectionNames ! s)" using section_names_plain by (simp add: list_all_length)
    moreover have "plain_part (js ''/'')" "plain_part (js ''_'')" "plain_part (js ''.html'')"
      by (simp_all add: plain_part_def js_def)
    ultimately show ?thesis using assms(10) hex_string_plain by simp
  qed
  note query = location_search_query [OF this escape_plain, of "row_name r", folded location]
  let ?q = "js ''?'' @ escape (row_name r)"
  have found: "row_found uni ?q r" using opens(4) [OF assms(5,6)] .
  obtain doc where doc: "load_results uni ?q rows = Inr (doc, length (filter (row_found uni ?q) rows))"
      "display_at doc (j # results_at) = (if row_found uni ?q (rows ! j) then js ''block'' else js ''none'')"
    using load_results_page [of uni ?q rows] assms(3) by blast
  have "0 < length (filter (row_found uni ?q) rows)"
    using found r by (auto simp: filter_empty_conv)
  moreover have "location_search (results_location p2) = ?q"
    using query(1) opens(2) [OF assms(5,6)] by simp
  ultimately show ?thesis
    using s1(1,2) fires Search_shows(2) [OF search] query(2) doc found assms(4) by auto
qed

text \<open>Examples: the one page of the section Pages, and a row of a page that is not transcribed.\<close>

definition enumerator_row :: search_row where
  "enumerator_row = row ''xed_5faddress_5fwidth_5f16b'' ''XED_ADDRESS_WIDTH_16b''
     [(''../xed-address-width-enum_8h.html#a2fe76cf1d3e62a77190798dc87c0a865a4fe56a1242b850bdd9df31fc0ccf15ad'', True, ''xed-address-width-enum.h'')]"

lemma enumerator_page: "index_page 7 0 [enumerator_row]"
proof -
  have "coded ''XED_ADDRESS_WIDTH_16b'' = Some ''xed_5faddress_5fwidth_5f16b''"
    by (simp only: row_checks)
  moreover have "starts 120 ''XED_ADDRESS_WIDTH_16b''" by (simp add: starts_table)
  ultimately have "row_ok 120 enumerator_row"
    unfolding enumerator_row_def by (simp add: row_check)
  then show ?thesis
    by (simp add: index_page_def section_pages_def indexSectionsWithContent_def js_def)
qed

theorem typed_name_is_found_witness:
  "(\<exists>b2 p2 doc m.
     timer_fires (\<lambda>s. s) (1, Call_Search) (OnSearchFieldChange None 101 False (demo_box, demo_page)) = Inr (b2, p2) \<and>
     takeWhile (\<lambda>c. c \<noteq> 63) (results_location p2) = js ''search/pages_0.html'' \<and>
     load_results (\<lambda>s. s) (location_search (results_location p2)) pages_0 = Inr (doc, m) \<and> 0 < m \<and>
     display_at doc (0 # results_at) = js ''block'')"
proof -
  obtain b1 p1 where change: "OnSearchFieldChange None 101 False (demo_box, demo_page) = (b1, p1)" by fastforce
  have "index_page 10 0 pages_0" by (simp add: index_page_def section_pages_def)
  moreover have "10 < length indexSectionsWithContent" by (simp add: indexSectionsWithContent_def)
  moreover have row: "0 < length pages_0" "row_name (pages_0 ! 0) = js ''XED User Guide''"
    by (simp_all add: pages_0_def row_def)
  moreover have "searchIndex demo_box = int 10" "field_value demo_page = row_name (pages_0 ! 0)"
    "plain_part (resultsPath demo_box)"
    by (simp_all add: demo_box_def SearchBox_def demo_page_def row plain_part_def js_def)
  moreover have last: "strip_all (row_name (pages_0 ! 0)) \<noteq> lastSearchValue demo_box"
    by (simp add: row demo_box_def SearchBox_def strip_all_def js_def)
  moreover have "(101::nat) \<notin> {13, 27, 40}" by simp
  ultimately obtain b2 p2 doc m where found:
    "timer_fires (\<lambda>s. s) (keyTimeout b1, Call_Search) (b1, p1) = Inr (b2, p2)"
    "takeWhile (\<lambda>c. c \<noteq> 63) (results_location p2) =
       resultsPath demo_box @ js ''/'' @ indexSectionNames ! 10 @ js ''_'' @ hex_string 0 @ js ''.html''"
    "load_results (\<lambda>s. s) (location_search (results_location p2)) pages_0 = Inr (doc, m)" "0 < m"
    "display_at doc (0 # results_at) = js ''block''"
    using typed_name_is_found [OF _ _ _ refl _ _ _ _ change, of 10 0 pages_0 0 "\<lambda>s. s"] by blast
  have "strip_all (field_value demo_page) \<notin> {[], lastSearchValue demo_box}"
    by (simp add: demo_page_def demo_box_def SearchBox_def strip_all_def js_def)
  then have "keyTimeout b1 = 1"
    using change by (auto simp: change_sets_timer) (simp add: demo_page_def)
  moreover have "resultsPath demo_box @ js ''/'' @ indexSectionNames ! 10 @ js ''_'' @ hex_string 0 @ js ''.html'' =
      js ''search/pages_0.html''"
    by (simp add: demo_box_def SearchBox_def indexSectionNames_def hex_string_def digits.simps digit_char_def js_def)
  ultimately show ?thesis using found change by metis
qed

end
