(* ===== verification/Search_Menu.thy ===== *)
theory Search_Menu
  imports Search_Behaviour
begin

text \<open>
  The search box over time: the searches that are pending while the user types, the menu of
  sections, and the places where the code goes wrong.
\<close>

section \<open>Pending searches\<close>

definition pending_searches :: "page \<Rightarrow> nat list" where
  "pending_searches p = map fst (filter (\<lambda>t. snd t = Call_Search) (timers p))"

text \<open>
  The timers have numbers given out before; the only pending search, if any, is the one whose
  timer the object remembers, and the timer of the menu is another.
\<close>

definition timers_ok :: "box_state \<Rightarrow> bool" where
  "timers_ok = (\<lambda>(b, p).
     0 < next_timer p \<and> list_all (\<lambda>t. 0 < fst t \<and> fst t < next_timer p) (timers p) \<and>
     pending_searches p = (if keyTimeout b = 0 then [] else [keyTimeout b]) \<and>
     keyTimeout b < next_timer p \<and> hideTimeout b < next_timer p \<and>
     (hideTimeout b = 0 \<or> hideTimeout b \<noteq> keyTimeout b))"

lemma pending_filter: "pending_searches (p\<lparr>timers := filter (\<lambda>t. fst t \<noteq> n) (timers p)\<rparr>) =
    filter (\<lambda>m. m \<noteq> n) (pending_searches p)"
  by (simp add: pending_searches_def filter_map comp_def conj_commute)

lemma pending_append [simp]:
  "pending_searches (p\<lparr>timers := timers p @ [(n, f)], next_timer := m\<rparr>) =
     pending_searches p @ (if f = Call_Search then [n] else [])"
  by (simp add: pending_searches_def)

lemma pending_cong: "timers p' = timers p \<Longrightarrow> pending_searches p' = pending_searches p"
  by (simp add: pending_searches_def)

lemma timers_ok_keep:
  "timers_ok (b, p) \<Longrightarrow> timers p' = timers p \<Longrightarrow> next_timer p' = next_timer p \<Longrightarrow>
     keyTimeout b' = keyTimeout b \<Longrightarrow> hideTimeout b' = hideTimeout b \<Longrightarrow> timers_ok (b', p')"
  using pending_cong [of p' p] by (simp add: timers_ok_def)

lemma timers_ok_clear_search:
  "timers_ok (b, p) \<Longrightarrow> timers_ok (b\<lparr>keyTimeout := 0\<rparr>, clearTimeout (keyTimeout b) p)"
  using pending_filter [where p = p and n = "keyTimeout b"]
  by (auto simp: timers_ok_def clearTimeout_def list_all_iff split: if_splits)

lemma timers_ok_clear_hide:
  "timers_ok (b, p) \<Longrightarrow> hideTimeout b \<noteq> 0 \<Longrightarrow>
     timers_ok (b\<lparr>hideTimeout := 0\<rparr>, clearTimeout (hideTimeout b) p)"
  using pending_filter [where p = p and n = "hideTimeout b"]
  by (auto simp: timers_ok_def clearTimeout_def list_all_iff split: if_splits)

lemma timers_ok_set_search:
  "timers_ok (b, p) \<Longrightarrow> keyTimeout b = 0 \<Longrightarrow> setTimeout Call_Search p = (n, p') \<Longrightarrow>
     timers_ok (b\<lparr>keyTimeout := n\<rparr>, p')"
  by (fastforce simp: timers_ok_def setTimeout_def list_all_iff intro: less_SucI)

lemma timers_ok_set_hide:
  "timers_ok (b, p) \<Longrightarrow> setTimeout Call_CloseSelectionWindow p = (n, p') \<Longrightarrow>
     timers_ok (b\<lparr>hideTimeout := n\<rparr>, p')"
  by (fastforce simp: timers_ok_def setTimeout_def list_all_iff intro: less_SucI)

lemma timers_ok_activate: "timers_ok (b, p) \<Longrightarrow> timers_ok (Activate isActive (b, p))"
  by (auto simp: Activate_def Let_def elim!: timers_ok_keep)

lemma timers_ok_show:
  assumes "timers_ok (b, p)"
  shows "timers_ok (OnSearchSelectShow (b, p))"
proof -
  have "timers_ok (b, p')" if "timers p' = timers p" "next_timer p' = next_timer p" for p'
    by (rule timers_ok_keep [OF assms that]) simp_all
  then show ?thesis
    using timers_ok_clear_hide by (simp add: OnSearchSelectShow_def Let_def)
qed

lemma show_menu: "menu (snd (OnSearchSelectShow (b, p))) = menu p"
  by (simp add: OnSearchSelectShow_def Let_def clearTimeout_def)

lemma timers_ok_hide: "timers_ok (b, p) \<Longrightarrow> timers_ok (OnSearchSelectHide (b, p))"
  using timers_ok_set_hide by (auto simp: OnSearchSelectHide_def Let_def split: prod.split)

lemma timers_ok_close: "timers_ok (b, p) \<Longrightarrow> timers_ok (CloseResultsWindow (b, p))"
  unfolding CloseResultsWindow_def prod.case
  by (rule timers_ok_activate) (erule timers_ok_keep, simp_all)

lemma timers_ok_focus: "timers_ok (b, p) \<Longrightarrow> timers_ok (b, p\<lparr>focused := f\<rparr>)"
  by (erule timers_ok_keep) simp_all

lemma timers_ok_kill:
  assumes "timers_ok (b, p)" and "kill_search_timer (b, p) = (b', p')"
  shows "timers_ok (b', p')" and "keyTimeout b' = 0"
  using assms timers_ok_clear_search by (auto simp: kill_search_timer_def split: if_splits)

lemma timers_ok_changed:
  assumes "timers_ok (b, p)" and "keyTimeout b = 0"
  shows "timers_ok (field_changed (b, p))"
proof -
  have "timers_ok (b\<lparr>lastSearchValue := []\<rparr>, p\<lparr>results_display := v, close_display := w\<rparr>)" for v w
    by (rule timers_ok_keep [OF assms(1)]) simp_all
  then show ?thesis
    using assms timers_ok_set_search [OF assms] by (auto simp: field_changed_def Let_def split: prod.split)
qed

lemma timers_ok_escape:
  "timers_ok (b, p) \<Longrightarrow> timers_ok (Activate False (b\<lparr>lastSearchValue := []\<rparr>,
     p\<lparr>focused := Nowhere, results_display := v, close_display := w\<rparr>))"
  by (rule timers_ok_activate) (erule timers_ok_keep, simp_all)

lemma timers_ok_menu_focus:
  assumes "timers_ok (b, p)"
  shows "timers_ok (case OnSearchSelectShow (b, p) of (b, p) \<Rightarrow>
      case first_item (menu p) of None \<Rightarrow> (b, p) | Some i \<Rightarrow> (b, p\<lparr>focused := On_menu i\<rparr>))"
  using timers_ok_show [OF assms] timers_ok_focus by (auto split: prod.split option.split)

lemma timers_ok_change:
  assumes "timers_ok (b, p)"
  shows "timers_ok (OnSearchFieldChange frame keyCode shiftKey (b, p))"
proof -
  obtain b1 p1 where s1: "kill_search_timer (b, p) = (b1, p1)" by fastforce
  note ok = timers_ok_kill [OF assms s1]
  show ?thesis
    unfolding OnSearchFieldChange_def s1 Let_def prod.case
    using timers_ok_changed [OF ok] timers_ok_changed [OF timers_ok_focus [OF ok(1)] ok(2)]
      timers_ok_escape [OF ok(1)] timers_ok_menu_focus [OF ok(1)]
    by (simp split: option.split)
qed

lemma pending_fire:
  assumes "pending_searches p = (if k = 0 then [] else [k])" and "(n, Call_Search) \<in> set (timers p)"
  shows "n = k" and "pending_searches (p\<lparr>timers := filter (\<lambda>u. u \<noteq> (n, Call_Search)) (timers p)\<rparr>) = []"
proof -
  have mem: "m \<in> set (pending_searches p) \<longleftrightarrow> (m, Call_Search) \<in> set (timers p)" for m
    by (force simp: pending_searches_def)
  show n: "n = k" using mem [of n] assms by (simp split: if_splits)
  have "m = n" if "(m, Call_Search) \<in> set (timers p)" for m
    using mem [of m] that assms(1) n by (simp split: if_splits)
  then show "pending_searches (p\<lparr>timers := filter (\<lambda>u. u \<noteq> (n, Call_Search)) (timers p)\<rparr>) = []"
    by (auto simp: pending_searches_def filter_empty_conv)
qed

lemma timers_ok_fire:
  assumes "timers_ok (b, p)" and "t \<in> set (timers p)" and "timer_fires uni t (b, p) = Inr (b', p')"
  shows "timers_ok (b', p')"
proof -
  obtain n f where t: "t = (n, f)" by (cases t)
  let ?p = "p\<lparr>timers := filter (\<lambda>u. u \<noteq> t) (timers p)\<rparr>"
  show ?thesis
  proof (cases f)
    case Call_Search
    then have "SearchBox_Search uni (b, ?p) = Inr (b', p')"
      using assms(3) t by (simp add: timer_fires_def)
    note fields = Search_fields [OF this]
    have "pending_searches ?p = []"
      using pending_fire(2) [of p "keyTimeout b" n] assms(1,2) t Call_Search by (simp add: timers_ok_def)
    then have "pending_searches p' = []" using pending_cong [OF fields(3)] by simp
    with fields assms(1) show ?thesis by (auto simp: timers_ok_def list_all_iff)
  next
    case Call_CloseSelectionWindow
    then have "b' = b" "p' = ?p\<lparr>menu_display := js ''none''\<rparr>"
      using assms(3) t by (simp_all add: timer_fires_def CloseSelectionWindow_def)
    moreover have "pending_searches (?p\<lparr>menu_display := js ''none''\<rparr>) = pending_searches p"
      using t Call_CloseSelectionWindow by (auto simp: pending_searches_def intro!: arg_cong [where f = "map fst"] filter_cong)
    ultimately show ?thesis using assms(1) by (auto simp: timers_ok_def list_all_iff)
  qed
qed

text \<open>
  What can happen between two selections in the menu: the field is edited, its change, its
  focus and the mouse over the menu are handled, the results are closed, a timer goes off.
\<close>

inductive typing :: "(jstring \<Rightarrow> jstring) \<Rightarrow> box_state \<Rightarrow> box_state \<Rightarrow> bool" for uni where
  started: "timers p = [] \<Longrightarrow> 0 < next_timer p \<Longrightarrow>
    typing uni (SearchBox path inFrame label, p) (SearchBox path inFrame label, p)"
| edited: "typing uni s (b, p) \<Longrightarrow> typing uni s (b, p\<lparr>field_value := v\<rparr>)"
| changed: "typing uni s (b, p) \<Longrightarrow> typing uni s (OnSearchFieldChange frame keyCode shiftKey (b, p))"
| menu_shown: "typing uni s (b, p) \<Longrightarrow> typing uni s (OnSearchSelectShow (b, p))"
| menu_hidden: "typing uni s (b, p) \<Longrightarrow> typing uni s (OnSearchSelectHide (b, p))"
| field_focus: "typing uni s (b, p) \<Longrightarrow> typing uni s (OnSearchFieldFocus isActive (b, p))"
| closed: "typing uni s (b, p) \<Longrightarrow> typing uni s (CloseResultsWindow (b, p))"
| fired: "typing uni s (b, p) \<Longrightarrow> t \<in> set (timers p) \<Longrightarrow> timer_fires uni t (b, p) = Inr (b', p') \<Longrightarrow>
    typing uni s (b', p')"

lemma typing_timers_ok: "typing uni s s' \<Longrightarrow> timers_ok s'"
proof (induction rule: typing.induct)
  case (started p path inFrame label)
  then show ?case by (simp add: timers_ok_def SearchBox_def pending_searches_def)
next
  case (edited s b p v)
  show ?case by (rule timers_ok_keep [OF edited.IH]) simp_all
next
  case (field_focus s b p isActive)
  then show ?case by (simp only: OnSearchFieldFocus_def timers_ok_activate)
next
  case fired
  then show ?case using timers_ok_fire by blast
qed (simp_all only: timers_ok_change timers_ok_show timers_ok_hide timers_ok_close)

text \<open>
  C31: as long as no section is selected in the menu, at most one search is pending, and it is
  the one that the next change of the field will cancel.
\<close>

theorem one_pending_search:
  assumes "typing uni (SearchBox path inFrame label, p0) (b, p)"
  shows "pending_searches p = (if keyTimeout b = 0 then [] else [keyTimeout b]) \<and>
    length (pending_searches (snd (OnSearchFieldChange frame keyCode shiftKey (b, p)))) \<le> 1"
proof -
  have "timers_ok (b, p)" "timers_ok (OnSearchFieldChange frame keyCode shiftKey (b, p))"
    using typing_timers_ok [OF assms] timers_ok_change by blast+
  then show ?thesis by (auto simp: timers_ok_def split: prod.splits)
qed

theorem one_pending_search_witness:
  "pending_searches demo_page = [] \<and>
     length (pending_searches (snd (OnSearchFieldChange None 65 False
       (SearchBox (js ''search'') False (js ''Search''), demo_page)))) \<le> 1"
proof -
  have "typing (\<lambda>s. s) (SearchBox (js ''search'') False (js ''Search''), demo_page)
      (SearchBox (js ''search'') False (js ''Search''), demo_page)"
    by (rule typing.started) (simp_all add: demo_page_def)
  from one_pending_search [OF this] show ?thesis by (auto simp: SearchBox_def)
qed

text \<open>
  C32: a selection in the menu breaks this. From any state that typing leads to, with a search
  pending, the box active and a search value in the field: the selection searches at once and
  forgets the timer of the pending search, which stays; after the next change of the field to
  another value two searches are pending.
\<close>

theorem two_pending_searches:
  assumes "typing uni (SearchBox path inFrame label, p0) (b, p)" and "pending_searches p \<noteq> []"
    and "searchActive b" and "strip_all (field_value p) \<noteq> []"
    and "OnSelectItem uni ident (b, p) = Inr (b1, p1)"
    and "keyCode \<notin> {13, 27, 40}" and "strip_all v \<notin> {[], strip_leading (field_value p)}"
  shows "\<exists>m n. m \<noteq> n \<and> pending_searches p = [m] \<and> pending_searches p1 = [m] \<and> keyTimeout b1 = 0 \<and>
    pending_searches (snd (OnSearchFieldChange frame keyCode shiftKey (b1, p1\<lparr>field_value := v\<rparr>))) = [m, n]"
proof -
  have ok: "timers_ok (b, p)" by (rule typing_timers_ok [OF assms(1)])
  then have pending: "pending_searches p = [keyTimeout b]" and new: "keyTimeout b < next_timer p"
    using assms(2) by (auto simp: timers_ok_def split: if_splits)
  have search: "SearchBox_Search uni (b\<lparr>searchIndex := ident\<rparr>, SelectItemSet ident p) = Inr (b1, p1)"
    using assms(3-5) by (simp add: OnSelectItem_def SelectItemSet_def Let_def)
  have same: "timers (SelectItemSet ident p) = timers p" "next_timer (SelectItemSet ident p) = next_timer p"
    "field_value (SelectItemSet ident p) = field_value p"
    by (simp_all add: SelectItemSet_def)
  note fields = Search_fields(3-5) [OF search] Search_shows(1) [OF search]
  have "OnSearchFieldChange frame keyCode shiftKey (b1, p1\<lparr>field_value := v\<rparr>) =
      (b1\<lparr>keyTimeout := next_timer p\<rparr>, p1\<lparr>field_value := v, timers := timers p @ [(next_timer p, Call_Search)],
         next_timer := next_timer p + 1\<rparr>)"
    using assms(6,7) fields by (subst change_sets_timer) (simp_all add: same)
  moreover have "pending_searches p1 = pending_searches p"
    using fields(1) same(1) by (simp add: pending_searches_def)
  ultimately show ?thesis
    using pending new fields(3)
    by (intro exI [of _ "keyTimeout b"] exI [of _ "next_timer p"]) (simp add: pending_searches_def)
qed

text \<open>An example: the field gets the focus, something is typed, a section is selected, and typing goes on.\<close>

definition label_page :: page where
  "label_page = demo_page\<lparr>field_value := js ''Search''\<rparr>"

definition typed_state :: box_state where
  "typed_state = OnSearchFieldChange None 68 False
     (case OnSearchFieldFocus True (SearchBox (js ''search'') False (js ''Search''), label_page) of
        (b, p) \<Rightarrow> (b, p\<lparr>field_value := js ''xed''\<rparr>))"

lemma typed_state_reached:
  "typing uni (SearchBox (js ''search'') False (js ''Search''), label_page) typed_state"
proof -
  let ?s = "(SearchBox (js ''search'') False (js ''Search''), label_page)"
  have "typing uni ?s ?s"
    by (rule typing.started) (simp_all add: label_page_def demo_page_def)
  then have focus: "typing uni ?s (OnSearchFieldFocus True ?s)" by (rule typing.field_focus)
  obtain b p where bp: "OnSearchFieldFocus True ?s = (b, p)" by fastforce
  show ?thesis
    using typing.changed [OF typing.edited [OF focus [unfolded bp]]] by (simp add: typed_state_def bp)
qed

lemma typed_state_fields:
  obtains b p where "typed_state = (b, p)" and "pending_searches p = [1]" and "searchActive b"
    and "field_value p = js ''xed''" and "resultsPath b = js ''search''"
proof -
  let ?b = "SearchBox (js ''search'') False (js ''Search'')"
  have "OnSearchFieldFocus True (?b, label_page) =
      (?b\<lparr>searchActive := True\<rparr>, label_page\<lparr>box_class := js ''MSearchBoxActive'', field_value := []\<rparr>)"
    by (simp add: OnSearchFieldFocus_def Activate_def label_page_def SearchBox_def)
  moreover have "strip_all (js ''xed'') = js ''xed''" "js ''xed'' \<noteq> []"
    by (simp_all add: strip_all_def js_def)
  ultimately have "typed_state = (?b\<lparr>searchActive := True, keyTimeout := 1\<rparr>,
      label_page\<lparr>box_class := js ''MSearchBoxActive'', field_value := js ''xed'', timers := [(1, Call_Search)],
        next_timer := 2\<rparr>)"
    unfolding typed_state_def
    by (simp add: change_sets_timer SearchBox_def label_page_def demo_page_def)
  then show thesis
    by (rule that) (simp_all add: pending_searches_def SearchBox_def)
qed

lemma select_variables:
  assumes "searchActive b" and "field_value p = js ''xed''"
  shows "\<exists>b1 p1. OnSelectItem (\<lambda>s. s) 4 (b, p) = Inr (b1, p1)"
proof -
  have "strip_leading (js ''xed'') = js ''xed''" "strip_all (js ''xed'') \<noteq> []"
    by (simp_all add: strip_leading_def strip_all_def js_def)
  moreover have "4 < length indexSectionsWithContent" by (simp add: indexSectionsWithContent_def)
  ultimately show ?thesis
    using assms
    by (auto simp: OnSelectItem_def SelectItemSet_def SearchBox_Search_def results_pages_def Let_def split: option.split)
qed

theorem two_pending_searches_witness:
  "\<exists>b p b1 p1 m n. typing (\<lambda>s. s) (SearchBox (js ''search'') False (js ''Search''), label_page) (b, p) \<and>
     pending_searches p = [m] \<and> OnSelectItem (\<lambda>s. s) 4 (b, p) = Inr (b1, p1) \<and> m \<noteq> n \<and>
     pending_searches (snd (OnSearchFieldChange None 68 False (b1, p1\<lparr>field_value := js ''xed_d''\<rparr>))) = [m, n]"
proof -
  obtain b p where s: "typed_state = (b, p)" "pending_searches p = [1]" "searchActive b"
    "field_value p = js ''xed''"
    by (rule typed_state_fields)
  have typed: "typing (\<lambda>s. s) (SearchBox (js ''search'') False (js ''Search''), label_page) (b, p)"
    using typed_state_reached s(1) by metis
  obtain b1 p1 where select: "OnSelectItem (\<lambda>s. s) 4 (b, p) = Inr (b1, p1)"
    using select_variables [OF s(3,4)] by blast
  have "pending_searches p \<noteq> []" "strip_all (field_value p) \<noteq> []" "(68::nat) \<notin> {13, 27, 40}"
    "strip_all (js ''xed_d'') \<notin> {[], strip_leading (field_value p)}"
    by (simp_all add: s(2,4) strip_all_def strip_leading_def js_def)
  from two_pending_searches [OF typed this(1) s(3) this(2) select this(3,4), of None False]
  show ?thesis using typed select by blast
qed

section \<open>The menu\<close>

text \<open>
  C33: selecting item \<open>ident\<close> marks it, and it only, and remembers it; the keys of the menu
  keep the index between 0 and the number of items, which they do not change.
\<close>

theorem menu_selection:
  assumes "OnSearchSelectKey uni keyCode (b, p) = Inr (b', p')"
    and "0 \<le> searchIndex b" and "searchIndex b \<le> int (SelectItemCount p)"
    and "OnSelectItem uni ident (b', p') = Inr (b'', p'')"
  shows "0 \<le> searchIndex b' \<and> searchIndex b' \<le> int (SelectItemCount p') \<and>
    SelectItemCount p' = SelectItemCount p \<and> SelectItemCount p'' = SelectItemCount p \<and> searchIndex b'' = ident \<and>
    map mark (filter is_item (menu p'')) =
      map (\<lambda>n. if int n = ident then js ''&#8226;'' else js ''&#160;'') [0..<SelectItemCount p]"
  using select_key_range [OF assms(1-3)] OnSelectItem_fields [OF assms(4)] marks_of_items [of ident 0 "menu p'"]
  by (simp add: SelectItemCount_def)

lemma demo_empty_field: "OnSelectItem uni i (b, demo_page\<lparr>field_value := [], menu := m\<rparr>) =
    Inr (b\<lparr>searchIndex := i\<rparr>, demo_page\<lparr>field_value := [], menu := mark_items i 0 m\<rparr>)"
  by (simp add: OnSelectItem_def strip_all_def SelectItemSet_def Let_def)

theorem menu_selection_witness:
  "\<exists>b' p' b'' p''. OnSearchSelectKey (\<lambda>s. s) 40 (demo_box, demo_page\<lparr>field_value := [], menu := demo_menu\<rparr>) = Inr (b', p') \<and>
     searchIndex b' = 11 \<and> OnSelectItem (\<lambda>s. s) 2 (b', p') = Inr (b'', p'') \<and> searchIndex b'' = 2 \<and>
     map mark (filter is_item (menu p'')) =
       map (\<lambda>n. if int n = 2 then js ''&#8226;'' else js ''&#160;'') [0..<11]"
proof -
  let ?p = "demo_page\<lparr>field_value := [], menu := demo_menu\<rparr>"
  let ?p' = "demo_page\<lparr>field_value := [], menu := mark_items 11 0 demo_menu\<rparr>"
  have count: "SelectItemCount ?p = 11" by (simp add: SelectItemCount_def demo_menu_def)
  have index: "searchIndex demo_box = 10" by (simp add: demo_box_def)
  have key: "OnSearchSelectKey (\<lambda>s. s) 40 (demo_box, ?p) = Inr (demo_box\<lparr>searchIndex := 11\<rparr>, ?p')"
    using count index by (simp add: OnSearchSelectKey_def demo_empty_field)
  from menu_selection [OF key _ _ demo_empty_field] key index count demo_empty_field show ?thesis by force
qed

text \<open>
  C34: on the last item the key Down goes on to an item that is not there, and with a search
  value this looks into a section that does not exist: the code throws.
\<close>

theorem down_past_last_item:
  assumes "SelectItemCount p = length indexSectionsWithContent"
    and "searchIndex b = int (SelectItemCount p) - 1"
    and "searchActive b" and "strip_all (field_value p) \<noteq> []"
  shows "OnSearchSelectKey uni 40 (b, p) = Inl TypeError"
proof -
  have "SearchBox_Search uni (b\<lparr>searchIndex := searchIndex b + 1\<rparr>, SelectItemSet (searchIndex b + 1) p) = Inl TypeError"
    using assms(1,2) by (simp add: SearchBox_Search_def results_pages_def Let_def)
  then show ?thesis
    using assms by (simp add: OnSearchSelectKey_def OnSelectItem_def SelectItemSet_def Let_def)
qed

theorem down_past_last_item_witness: "OnSearchSelectKey (\<lambda>s. s) 40 (demo_box, demo_page) = Inl TypeError"
proof (rule down_past_last_item)
  show "SelectItemCount demo_page = length indexSectionsWithContent"
    by (simp add: SelectItemCount_def demo_page_def demo_menu_def indexSectionsWithContent_def)
  show "searchIndex demo_box = int (SelectItemCount demo_page) - 1"
    by (simp add: SelectItemCount_def demo_page_def demo_menu_def demo_box_def)
  show "searchActive demo_box" "strip_all (field_value demo_page) \<noteq> []"
    by (simp_all add: demo_box_def demo_page_def strip_all_def js_def)
qed

end
