(* ===== verification/Nav_Data.thy ===== *)
theory Nav_Data
  imports Main
begin

text \<open>
  navtree.js, the data at its head: the top of the navigation tree of the XED manual, and the
  table that says which index file knows which urls. (The files of the copies of the manual
  under xed-ia32 and xed-intel64 are the same; the theories name the first.)
\<close>


text \<open>
  A node of the navigation tree is an array of three in the code: the text, the link or null,
  and the children: null, the name of the script that defines them, or an array of nodes.
\<close>

datatype nav_node = Nav_node (nav_text: string) (nav_link: "string option") (nav_children: nav_data)
  and nav_data = Null | Script string | Nodes "nav_node list"

text \<open>\<open>var NAVTREE\<close>\<close>

definition NAVTREE :: "nav_node list" where
  "NAVTREE = [
    Nav_node ''XED'' (Some ''index.html'') (Nodes [
      Nav_node ''XED User Guide'' (Some ''index.html'') (Nodes [
        Nav_node ''Introduction'' (Some ''index.html#INTRO'') Null,
        Nav_node ''Table of Contents'' (Some ''index.html#TOC'') Null,
        Nav_node ''Building your program using XED.'' (Some ''index.html#BUILD'') Null,
        Nav_node ''External Requirements'' (Some ''index.html#EXTERN'') Null,
        Nav_node ''Terminology'' (Some ''index.html#TERMS'') Null,
        Nav_node ''Overview of XED approach'' (Some ''index.html#OVERVIEW'') Null,
        Nav_node ''Instruction classes'' (Some ''index.html#ICLASS'') (Nodes [
          Nav_node ''Special Cases'' (Some ''index.html#SPECIAL'') Null,
          Nav_node ''NOPs'' (Some ''index.html#NOPs'') Null]),
        Nav_node ''Operands'' (Some ''index.html#X86-OPERANDS'') (Nodes [
          Nav_node ''AVX512 Operands'' (Some ''index.html#AVX512_OPERANDS'') Null,
          Nav_node ''Operand Resource Visibilities'' (Some ''index.html#OPERAND_VISIBILITY'') Null,
          Nav_node ''x87 Register stack popping'' (Some ''index.html#X87_REG_STACK'') Null,
          Nav_node ''Pseudo Resources'' (Some ''index.html#PSEUDO_RESOURCES'') Null,
          Nav_node ''Immediates and Displacements'' (Some ''index.html#IMM_DIS'') Null]),
        Nav_node ''API Reference'' (Some ''index.html#API_REF'') Null,
        Nav_node ''Questions? Bugs?'' (Some ''index.html#FEEDBACK'') Null,
        Nav_node ''Disclaimer and Legal Information'' (Some ''index.html#LEGAL'') Null]),
      Nav_node ''Modules'' (Some ''modules.html'') (Script ''modules''),
      Nav_node ''Data Structures'' None (Nodes [
        Nav_node ''Data Structures'' (Some ''annotated.html'') (Script ''annotated''),
        Nav_node ''Data Structure Index'' (Some ''classes.html'') Null,
        Nav_node ''Data Fields'' (Some ''functions.html'') (Nodes [
          Nav_node ''All'' (Some ''functions.html'') (Script ''functions_dup''),
          Nav_node ''Variables'' (Some ''functions_vars.html'') (Script ''functions_vars'')])]),
      Nav_node ''Files'' None (Nodes [
        Nav_node ''File List'' (Some ''files.html'') (Script ''files''),
        Nav_node ''Globals'' (Some ''globals.html'') (Nodes [
          Nav_node ''All'' (Some ''globals.html'') (Script ''globals_dup''),
          Nav_node ''Functions'' (Some ''globals_func.html'') (Script ''globals_func''),
          Nav_node ''Variables'' (Some ''globals_vars.html'') Null,
          Nav_node ''Typedefs'' (Some ''globals_type.html'') Null,
          Nav_node ''Enumerations'' (Some ''globals_enum.html'') Null,
          Nav_node ''Enumerator'' (Some ''globals_eval.html'') (Script ''globals_eval''),
          Nav_node ''Macros'' (Some ''globals_defs.html'') Null])])])]"

text \<open>\<open>var NAVTREEINDEX\<close>: the first url of each index file.\<close>

definition NAVTREEINDEX :: "string list" where
  "NAVTREEINDEX = [
    ''annotated.html'',
    ''group__DEC.html#gabbc8dec2bddec619bfe8f9a39c7ffdf4'',
    ''group__ENUM.html#ga2e1b95b3b4b059703a3be3780a990ade'',
    ''group__OPERANDS.html#ga0f1312a0bf168f19e474fbbbb493674d'',
    ''structxed__encoder__iforms__s.html#a7aea255eacbdcfe740a5d0c8c52412c6'',
    ''unionxed__encoder__prefixes__t.html#a17e46718b7ea9fa441204e8f5c9c2cd0'',
    ''xed-category-enum_8h.html#a3e6e23a35a7ad463e2422d7db98e49f5a99c9bccdb53a91f7b634643c994a5948'',
    ''xed-extension-enum_8h.html#ae7b9f64cdf123c5fda22bd10d5db9916ada8c5e2856ff780c9c3453e2ee73e815'',
    ''xed-iclass-enum_8h.html#ad318511ae9cc50f102251b3c91a1ab9fa1de0ebfbc69643779e1c6985cc7af881'',
    ''xed-iclass-enum_8h.html#ad318511ae9cc50f102251b3c91a1ab9fa4c146195dad85a63ae853b379c7eb968'',
    ''xed-iclass-enum_8h.html#ad318511ae9cc50f102251b3c91a1ab9fa7768b421a697cb39d70a00a14d292cbe'',
    ''xed-iclass-enum_8h.html#ad318511ae9cc50f102251b3c91a1ab9faa050c7adec90385356eb48c252ef2dc9'',
    ''xed-iclass-enum_8h.html#ad318511ae9cc50f102251b3c91a1ab9facd3c4d2b445446a747a8a59bec0fd1a4'',
    ''xed-iclass-enum_8h.html#ad318511ae9cc50f102251b3c91a1ab9fafb4610cb7f54a303423e111c00505008'',
    ''xed-iform-enum_8h.html#af48986d6e090a75f7ab50e6d4a182e21a08bab46e413d19931e5514ed9c7c2356'',
    ''xed-iform-enum_8h.html#af48986d6e090a75f7ab50e6d4a182e21a133ecbe0d28b69abe309eb45d9d518d7'',
    ''xed-iform-enum_8h.html#af48986d6e090a75f7ab50e6d4a182e21a1db118e5b085f7b5bbbf3240510cbe20'',
    ''xed-iform-enum_8h.html#af48986d6e090a75f7ab50e6d4a182e21a2820e2857f009550cb7aef9f7b62d516'',
    ''xed-iform-enum_8h.html#af48986d6e090a75f7ab50e6d4a182e21a31cc537bf2cddb2b5f1b247a1fdf6809'',
    ''xed-iform-enum_8h.html#af48986d6e090a75f7ab50e6d4a182e21a3c8552d32e0a1fac934f420d1eebe9b4'',
    ''xed-iform-enum_8h.html#af48986d6e090a75f7ab50e6d4a182e21a474c9ac52388e12d3e128497aacdf937'',
    ''xed-iform-enum_8h.html#af48986d6e090a75f7ab50e6d4a182e21a525e50ab7838a4d503d95a32cc68194b'',
    ''xed-iform-enum_8h.html#af48986d6e090a75f7ab50e6d4a182e21a5d93cf834c75e9281782ee2fd8453949'',
    ''xed-iform-enum_8h.html#af48986d6e090a75f7ab50e6d4a182e21a68ca0bdc8c6c7ab6b0f7651689d068d1'',
    ''xed-iform-enum_8h.html#af48986d6e090a75f7ab50e6d4a182e21a736e48b96bdd4fa104c7668f66685f2f'',
    ''xed-iform-enum_8h.html#af48986d6e090a75f7ab50e6d4a182e21a7d797b49c43566d965f2746c9e044077'',
    ''xed-iform-enum_8h.html#af48986d6e090a75f7ab50e6d4a182e21a8844872e8b75a43803e989f373c3945b'',
    ''xed-iform-enum_8h.html#af48986d6e090a75f7ab50e6d4a182e21a942619eac260fa45396e7723e33c4ece'',
    ''xed-iform-enum_8h.html#af48986d6e090a75f7ab50e6d4a182e21a9fe5551d420e8aacaeda332ae6464fb4'',
    ''xed-iform-enum_8h.html#af48986d6e090a75f7ab50e6d4a182e21aa9d89e67ba9ee30e01f4fc08042df765'',
    ''xed-iform-enum_8h.html#af48986d6e090a75f7ab50e6d4a182e21ab55d4e5e73eefbd4598a7508dfec04a8'',
    ''xed-iform-enum_8h.html#af48986d6e090a75f7ab50e6d4a182e21ac117d84f78befbed29658afd846f347e'',
    ''xed-iform-enum_8h.html#af48986d6e090a75f7ab50e6d4a182e21acbfcc213f0ac1b4a5eaaaaa2f1d9af9f'',
    ''xed-iform-enum_8h.html#af48986d6e090a75f7ab50e6d4a182e21ad6b09f17342de904adcbcec797697508'',
    ''xed-iform-enum_8h.html#af48986d6e090a75f7ab50e6d4a182e21ae2b1cce64168b366fe904238bb4a0fc4'',
    ''xed-iform-enum_8h.html#af48986d6e090a75f7ab50e6d4a182e21aed474a5d90c18a8eac7148c8bd2689dd'',
    ''xed-iform-enum_8h.html#af48986d6e090a75f7ab50e6d4a182e21af77eb283fee322bb110b3f5d43d82ef7'',
    ''xed-iformfl-enum_8h.html#a261aba9f055ef9754e8152bf28debe36a06ee7cbe1f89cb8e284f34321dfa9d44'',
    ''xed-iformfl-enum_8h.html#a261aba9f055ef9754e8152bf28debe36a1c2c85b63d4286afdc3745569b0bb533'',
    ''xed-iformfl-enum_8h.html#a261aba9f055ef9754e8152bf28debe36a31f59a1486e9751c64d36ca4b4cc2e31'',
    ''xed-iformfl-enum_8h.html#a261aba9f055ef9754e8152bf28debe36a479a37db30e354265d27b130b347209c'',
    ''xed-iformfl-enum_8h.html#a261aba9f055ef9754e8152bf28debe36a5e290bb9214171bb5da1fa694365127d'',
    ''xed-iformfl-enum_8h.html#a261aba9f055ef9754e8152bf28debe36a745c13d84b2c8c2ac4112186a03fa7e2'',
    ''xed-iformfl-enum_8h.html#a261aba9f055ef9754e8152bf28debe36a89e6eb80e43de553a605aa8e160d73e8'',
    ''xed-iformfl-enum_8h.html#a261aba9f055ef9754e8152bf28debe36a9ed0d5626b6ae7548ab146087809cb6f'',
    ''xed-iformfl-enum_8h.html#a261aba9f055ef9754e8152bf28debe36ab493668d2e7957b59ea1fc6f1ee49f2e'',
    ''xed-iformfl-enum_8h.html#a261aba9f055ef9754e8152bf28debe36acd094f7edbc8f87f2f12b8df1b94e026'',
    ''xed-iformfl-enum_8h.html#a261aba9f055ef9754e8152bf28debe36ae3f10e39a2bbe1bffe7b3b4599529fc9'',
    ''xed-iformfl-enum_8h.html#a261aba9f055ef9754e8152bf28debe36afa64896a158ebba3c0ea38745df92296'',
    ''xed-nonterminal-enum_8h.html#ae0eb8f71a8f89cddf0df4b1a6a2b27afa21fdfb3b402e91dd4ec7fe7623ace0d7'',
    ''xed-operand-accessors_8h.html#a1e5380a740d1f1ca6d8a544b1b2b87c6'',
    ''xed-operand-action_8h.html#a0978e9802aa6911d7c0e5c0b35cbe580'',
    ''xed-operand-width-enum_8h.html#a4bc2ed96b8433c06c363d614a2fa1676a1b7efccd3095d73de5e689a7b4e1021e'',
    ''xed-reg-enum_8h.html#af05c33c5a68e9304d1d8ac0408ae3f61a51160147b681fe30a1be7bea652d9a0c'',
    ''xed-syntax-enum_8h.html#a226c37dc9f1af9e61dad79dc5f65bc9fa627bdee9fd81c454a2fd83ce0088e3a4'']"

end
