(* ===== verification/Nav_Tree.thy ===== *)
theory Nav_Tree
  imports Nav_Data
begin

text \<open>
  navtree.js, the code: the tree of nodes that the page builds from the navigation data, opened
  and filled on demand, and the choice of the node for the page that is shown. Scripts that the
  page loads are a parameter: \<open>scripts\<close> gives the value of the variable a child script
  defines, \<open>indices\<close> that of an index script, \<open>None\<close> when the file does not load. The
  function that waits for a script runs when it has loaded.
\<close>

section \<open>Strings\<close>

definition starts_with :: "string \<Rightarrow> string \<Rightarrow> bool" where
  "starts_with s t \<longleftrightarrow> take (length t) s = t"

definition ends_with :: "string \<Rightarrow> string \<Rightarrow> bool" where
  "ends_with s t \<longleftrightarrow> length t \<le> length s \<and> drop (length s - length t) s = t"

text \<open>What follows the last slash, or everything.\<close>

definition stripPath :: "string \<Rightarrow> string" where
  "stripPath uri = rev (takeWhile (\<lambda>c. c \<noteq> CHR ''/'') (rev uri))"

definition dashes_to_underscores :: "string \<Rightarrow> string" where
  "dashes_to_underscores s = map (\<lambda>c. if c = CHR ''-'' then CHR ''_'' else c) s"

text \<open>\<open>split('#')\<close>: the part before the first \<open>#\<close>, and that between the first and the second.\<close>

definition before_hash :: "string \<Rightarrow> string" where
  "before_hash s = takeWhile (\<lambda>c. c \<noteq> CHR ''#'') s"

definition after_hash :: "string \<Rightarrow> string" where
  "after_hash s = takeWhile (\<lambda>c. c \<noteq> CHR ''#'') (drop (Suc (length (before_hash s))) s)"

definition has_hash :: "string \<Rightarrow> bool" where
  "has_hash s \<longleftrightarrow> CHR ''#'' \<in> set s"

text \<open>\<open>replace('#',':')\<close> replaces the first one.\<close>

fun hash_to_colon :: "string \<Rightarrow> string" where
  "hash_to_colon [] = []"
| "hash_to_colon (c # s) = (if c = CHR ''#'' then CHR '':'' # s else c # hash_to_colon s)"

definition is_word :: "char \<Rightarrow> bool" where
  "is_word c = (let n = of_char c :: nat in
     48 \<le> n \<and> n \<le> 57 \<or> 65 \<le> n \<and> n \<le> 90 \<or> n = 95 \<or> 97 \<le> n \<and> n \<le> 122)"

text \<open>\<open>replace(/[^\w\-]/g,'')\<close>.\<close>

definition keep_words :: "string \<Rightarrow> string" where
  "keep_words s = filter (\<lambda>c. is_word c \<or> c = CHR ''-'') s"

definition getData :: "(string \<Rightarrow> nav_node list option) \<Rightarrow> string \<Rightarrow> nav_node list option" where
  "getData scripts varName = scripts (dashes_to_underscores (stripPath varName))"

section \<open>Nodes of the page\<close>

text \<open>
  What the page keeps of a node: its data, where it stands, its label and link, whether it is
  open, filled and selected, and the image of its toggle (empty when it has none).
\<close>

record node_info =
  childrenData :: nav_data
  depth :: nat
  isLast :: bool
  node_label :: string
  a_class :: string
  a_href :: string
  ul_display :: string
  plus_src :: string
  indent :: nat
  expanded :: bool
  childrenVisited :: bool
  selected :: bool

datatype tree_node = Tree_node (node_info: node_info) (node_children: "tree_node list")

text \<open>The page: the path to the root of the manual, and the path of the page itself.\<close>

record nav_page =
  relpath :: string
  pathName :: string
  toroot :: string

definition has_children :: "nav_data \<Rightarrow> bool" where
  "has_children d \<longleftrightarrow> d \<noteq> Null \<and> d \<noteq> Script []"

text \<open>\<open>createIndent\<close>: the toggle of a node with children, or a space; \<open>level\<close> counts its ancestors.\<close>

definition createIndent :: "nav_page \<Rightarrow> nat \<Rightarrow> node_info \<Rightarrow> node_info" where
  "createIndent pg level node =
     (if has_children (childrenData node)
      then node\<lparr>indent := 16 * level, plus_src := relpath pg @ ''ftv2pnode.png''\<rparr>
      else node\<lparr>indent := 16 * (level + 1), plus_src := []\<rparr>)"

definition link_target :: "nav_page \<Rightarrow> string \<Rightarrow> string \<times> string" where
  "link_target pg link =
     (if starts_with link ''^'' then (drop 1 link, drop 1 link) else (link, relpath pg @ link))"

definition newNode :: "nav_page \<Rightarrow> node_info \<Rightarrow> nav_node \<Rightarrow> bool \<Rightarrow> tree_node" where
  "newNode pg po nodeData lastNode =
     (let node = \<lparr>childrenData = nav_children nodeData, depth = depth po + 1, isLast = lastNode,
                  node_label = nav_text nodeData, a_class = [], a_href = [], ul_display = ''none'',
                  plus_src = [], indent = 0, expanded = False, childrenVisited = False, selected = False\<rparr>;
          node = createIndent pg (depth po) node
      in case nav_link nodeData of
           Some link \<Rightarrow>
             if link = [] then
               Tree_node (if nav_children nodeData \<noteq> Null
                          then node\<lparr>a_class := ''nolink'', a_href := ''javascript:void(0)''\<rparr> else node) []
             else
               (let (link, url) = link_target pg link;
                    node = node\<lparr>a_class := stripPath (hash_to_colon link)\<rparr>
                in if has_hash link
                   then Tree_node (node\<lparr>a_href :=
                          (if stripPath (pathName pg) \<noteq> stripPath (before_hash link) then url
                           else ''javascript:void(0)'')\<rparr>) []
                   else Tree_node (node\<lparr>a_href := url\<rparr>) [])
         | None \<Rightarrow>
             Tree_node (if nav_children nodeData \<noteq> Null
                        then node\<lparr>a_class := ''nolink'', a_href := ''javascript:void(0)''\<rparr> else node) [])"

text \<open>\<open>getNode\<close>: the children of a node, of which the last knows that it is the last.\<close>

fun new_nodes :: "nav_page \<Rightarrow> node_info \<Rightarrow> nav_node list \<Rightarrow> tree_node list" where
  "new_nodes pg po [] = []"
| "new_nodes pg po (d # ds) = newNode pg po d (ds = []) # new_nodes pg po ds"

definition getNode :: "nav_page \<Rightarrow> nav_node list \<Rightarrow> tree_node \<Rightarrow> tree_node" where
  "getNode pg ds po =
     Tree_node ((node_info po)\<lparr>childrenVisited := True\<rparr>) (new_nodes pg (node_info po) ds)"

definition open_image :: "nav_page \<Rightarrow> node_info \<Rightarrow> node_info" where
  "open_image pg node =
     node\<lparr>plus_src := relpath pg @ (if isLast node then ''ftv2mlastnode.png'' else ''ftv2mnode.png''),
          expanded := True\<rparr>"

text \<open>Filling a node whose children are at hand, and showing them.\<close>

definition open_node :: "nav_page \<Rightarrow> nav_node list \<Rightarrow> tree_node \<Rightarrow> tree_node" where
  "open_node pg ds node =
     (let node = (if childrenVisited (node_info node) then node else getNode pg ds node)
      in Tree_node (open_image pg ((node_info node)\<lparr>ul_display := ''block''\<rparr>)) (node_children node))"

text \<open>The children of a node, loaded if they are in a script: \<open>None\<close> when there are none yet.\<close>

definition load_children :: "(string \<Rightarrow> nav_node list option) \<Rightarrow> tree_node \<Rightarrow> (nav_node list \<times> tree_node) option" where
  "load_children scripts node =
     (case childrenData (node_info node) of
        Null \<Rightarrow> None
      | Nodes ds \<Rightarrow> Some (ds, node)
      | Script varName \<Rightarrow>
          map_option (\<lambda>ds. (ds, Tree_node ((node_info node)\<lparr>childrenData := Nodes ds\<rparr>) (node_children node)))
            (getData scripts varName))"

definition expandNode :: "nav_page \<Rightarrow> (string \<Rightarrow> nav_node list option) \<Rightarrow> tree_node \<Rightarrow> tree_node" where
  "expandNode pg scripts node =
     (if has_children (childrenData (node_info node)) \<and> \<not> expanded (node_info node)
      then (case load_children scripts node of None \<Rightarrow> node | Some (ds, node) \<Rightarrow> open_node pg ds node)
      else node)"

text \<open>The toggle of a node.\<close>

definition toggle_node :: "nav_page \<Rightarrow> (string \<Rightarrow> nav_node list option) \<Rightarrow> tree_node \<Rightarrow> tree_node" where
  "toggle_node pg scripts node =
     (if expanded (node_info node)
      then Tree_node ((node_info node)\<lparr>ul_display := ''none'', plus_src := relpath pg @ ''ftv2pnode.png'',
                        expanded := False\<rparr>) (node_children node)
      else expandNode pg scripts node)"

section \<open>Showing a node\<close>

text \<open>
  How \<open>showNode\<close> ends: it selects the node at a path of child numbers, or goes on without a
  node, or waits for a script that does not load, or throws. Its path is never empty: it starts
  with the 0 of the root.
\<close>

datatype show_end = Select "nat list" | Select_nothing | Waiting | Throws

fun below :: "nat \<Rightarrow> show_end \<Rightarrow> show_end" where
  "below i (Select p) = Select (i # p)"
| "below i e = e"

definition opens_selected :: "nav_page \<Rightarrow> bool" where
  "opens_selected pg =
     (let t = toroot pg;
          base = (case dropWhile (\<lambda>c. c \<noteq> CHR ''.'') t of
                    _ # _ # _ \<Rightarrow> takeWhile (\<lambda>c. c \<noteq> CHR ''.'') t | _ \<Rightarrow> t);
          rootBase = stripPath base
      in rootBase = ''index'' \<or> rootBase = ''pages'' \<or> rootBase = ''search'')"

definition set_child :: "nat \<Rightarrow> tree_node \<Rightarrow> tree_node \<Rightarrow> tree_node" where
  "set_child i n node = Tree_node (node_info node) ((node_children node)[i := n])"

text \<open>The node at the end of the path: loaded, and opened on the pages that list everything.\<close>

definition show_last :: "nav_page \<Rightarrow> (string \<Rightarrow> nav_node list option) \<Rightarrow> tree_node \<Rightarrow> tree_node option" where
  "show_last pg scripts n =
     (case childrenData (node_info n) of
        Script varName \<Rightarrow>
          (case load_children scripts n of
             None \<Rightarrow> None
           | Some (ds, n) \<Rightarrow> Some (if opens_selected pg then expandNode pg scripts n else n))
      | _ \<Rightarrow> Some (if opens_selected pg then expandNode pg scripts n else n))"

fun showNode ::
    "nav_page \<Rightarrow> (string \<Rightarrow> nav_node list option) \<Rightarrow> tree_node \<Rightarrow> nat list \<Rightarrow> tree_node \<times> show_end" where
  "showNode pg scripts node [] = (node, Throws)"
| "showNode pg scripts node (i # breadcrumbs) =
     (if \<not> has_children (childrenData (node_info node)) then (node, Select_nothing)
      else case load_children scripts node of
        None \<Rightarrow> (node, Waiting)
      | Some (ds, node) \<Rightarrow>
          (let node = open_node pg ds node in
           if \<not> i < length (node_children node)
           then (node, if breadcrumbs = [] then Throws else Select_nothing)
           else
             (let n = node_children node ! i in
              if breadcrumbs \<noteq> []
              then (let (n, fin) = showNode pg scripts n breadcrumbs in (set_child i n node, below i fin))
              else (case show_last pg scripts n of
                      None \<Rightarrow> (node, Waiting)
                    | Some n \<Rightarrow> (set_child i n node, Select [i])))))"

section \<open>Selecting\<close>

text \<open>The items whose link has a class that ends in the page and anchor, or the node found.\<close>

fun map_nodes :: "(node_info \<Rightarrow> node_info) \<Rightarrow> tree_node \<Rightarrow> tree_node" where
  "map_nodes f (Tree_node d ns) = Tree_node (f d) (map (map_nodes f) ns)"

fun some_node :: "(node_info \<Rightarrow> bool) \<Rightarrow> tree_node \<Rightarrow> bool" where
  "some_node P (Tree_node d ns) = (P d \<or> list_ex (some_node P) ns)"

fun update_node :: "nat list \<Rightarrow> (node_info \<Rightarrow> node_info) \<Rightarrow> tree_node \<Rightarrow> tree_node" where
  "update_node [] f (Tree_node d ns) = Tree_node (f d) ns"
| "update_node (i # p) f (Tree_node d ns) =
     Tree_node d (if i < length ns then ns[i := update_node p f (ns ! i)] else ns)"

definition selectAndHighlight :: "nav_page \<Rightarrow> string \<Rightarrow> nat list option \<Rightarrow> tree_node \<Rightarrow> tree_node" where
  "selectAndHighlight pg hash n tree =
     (let link = stripPath (pathName pg) @ '':'' @ drop 1 hash;
          found = (\<lambda>d. hash \<noteq> [] \<and> ends_with (a_class d) link)
      in if list_ex (some_node found) (node_children tree)
         then Tree_node (node_info tree)
                (map (map_nodes (\<lambda>d. if found d then d\<lparr>selected := True\<rparr> else d)) (node_children tree))
         else case n of None \<Rightarrow> tree | Some p \<Rightarrow> update_node p (\<lambda>d. d\<lparr>selected := True\<rparr>) tree)"

section \<open>Going to a page\<close>

text \<open>The value of a key that an object literal repeats is the last one.\<close>

definition last_value :: "('a \<times> 'b) list \<Rightarrow> 'a \<Rightarrow> 'b option" where
  "last_value entries key = map_of (rev entries) key"

text \<open>
  \<open>$.extend(true, [], x)\<close> is an array also when \<open>x\<close> is undefined, the empty one; so the test
  \<open>!o.breadcrumbs\<close> never succeeds.
\<close>

definition breadcrumbs_of :: "(string \<times> nat list) list \<Rightarrow> string \<Rightarrow> string \<Rightarrow> nat list" where
  "breadcrumbs_of index root hash =
     0 # (case last_value index (root @ hash) of
            Some nti \<Rightarrow> nti
          | None \<Rightarrow> (case last_value index root of Some nti \<Rightarrow> nti | None \<Rightarrow> []))"

definition gotoNode ::
    "nav_page \<Rightarrow> (string \<Rightarrow> nav_node list option) \<Rightarrow> (string \<times> nat list) list \<Rightarrow> string \<Rightarrow> string \<Rightarrow>
       tree_node \<Rightarrow> tree_node \<times> show_end" where
  "gotoNode pg scripts index root hash tree =
     (let (tree, fin) = showNode pg scripts tree (breadcrumbs_of index root hash)
      in (case fin of
            Select p \<Rightarrow> selectAndHighlight pg hash (Some p) tree
          | Select_nothing \<Rightarrow> selectAndHighlight pg hash None tree
          | _ \<Rightarrow> tree, fin))"

text \<open>The comparison of strings by their characters.\<close>

fun string_le :: "string \<Rightarrow> string \<Rightarrow> bool" where
  "string_le [] t = True"
| "string_le (c # s) [] = False"
| "string_le (c # s) (d # t) =
     (if c = d then string_le s t else (of_char c :: nat) < of_char d)"

text \<open>The number of the last entry, from the start, that is not above the url, plus one.\<close>

fun index_loop :: "string \<Rightarrow> string list \<Rightarrow> nat" where
  "index_loop url [] = 0"
| "index_loop url (first # rest) = (if string_le first url then Suc (index_loop url rest) else 0)"

definition is_line_anchor :: "string \<Rightarrow> bool" where
  "is_line_anchor hash \<longleftrightarrow>
     (case hash of
        h # l # ds \<Rightarrow> h = CHR ''#'' \<and> l = CHR ''l'' \<and> ds \<noteq> [] \<and>
          list_all (\<lambda>c. 48 \<le> (of_char c :: nat) \<and> (of_char c :: nat) \<le> 57) ds
      | _ \<Rightarrow> False)"

definition cached_target :: "string \<Rightarrow> string \<Rightarrow> string \<Rightarrow> string \<times> string" where
  "cached_target cachedLink root hash =
     (if cachedLink = [] then (root, hash)
      else (before_hash cachedLink,
            if has_hash cachedLink then ''#'' @ keep_words (after_hash cachedLink) else []))"

text \<open>The index file and the target of a page; before the first entry it is the root of the tree.\<close>

definition nav_target :: "string \<Rightarrow> string \<Rightarrow> string \<Rightarrow> nat \<times> string \<times> string" where
  "nav_target cachedLink root hash =
     (let (root, hash) = cached_target cachedLink root hash;
          hash = (if is_line_anchor hash then [] else hash);
          i = index_loop (root @ hash) NAVTREEINDEX
      in if i = 0 then (0, the (nav_link (NAVTREE ! 0)), hash) else (i - 1, root, hash))"

definition navTo ::
    "nav_page \<Rightarrow> (string \<Rightarrow> nav_node list option) \<Rightarrow> (nat \<Rightarrow> (string \<times> nat list) list option) \<Rightarrow>
       string \<Rightarrow> string \<Rightarrow> string \<Rightarrow> tree_node \<Rightarrow> tree_node \<times> show_end" where
  "navTo pg scripts indices cachedLink root hash tree =
     (let (i, root, hash) = nav_target cachedLink root hash
      in case indices i of
           None \<Rightarrow> (tree, Waiting)
         | Some index \<Rightarrow> gotoNode pg scripts index root hash tree)"

section \<open>The start\<close>

definition root_node :: "nav_page \<Rightarrow> tree_node" where
  "root_node pg =
     Tree_node \<lparr>childrenData = Nodes NAVTREE, depth = 0, isLast = True, node_label = [], a_class = [],
                a_href = [], ul_display = [], plus_src = relpath pg @ ''ftv2pnode.png'', indent = 0,
                expanded = False, childrenVisited = False, selected = False\<rparr> []"

end
