(* ===== verification/Nav_Page.thy ===== *)
theory Nav_Page
  imports Nav_Tree
begin

text \<open>
  navtree.js, the events: the page is loaded, its anchor changes, a node is toggled, its link is
  followed, the button that keeps the tree in step with the pages is pressed. The last link
  followed while the button is off is kept in the local storage, and shown instead of the page.
\<close>

section \<open>The address\<close>

text \<open>\<open>hashValue\<close> and \<open>hashUrl\<close>, of the fragment of the address with its \<open>#\<close>.\<close>

definition hashValue :: "string \<Rightarrow> string" where
  "hashValue fragment = keep_words (drop 1 fragment)"

definition hashUrl :: "string \<Rightarrow> string" where
  "hashUrl fragment = CHR ''#'' # hashValue fragment"

text \<open>
  \<open>stripPath2\<close>: the page, with its directories when they are those of a manual in
  subdirectories, \<open>/dX/dXX/\<close>. The argument of \<open>subdirectories\<close> is read from its end.
\<close>

definition subdirectories :: "string \<Rightarrow> bool" where
  "subdirectories s \<longleftrightarrow>
     (case rev s of
        s1 # c1 # c2 # d1 # s2 # c3 # d2 # s3 # _ \<Rightarrow>
          s1 = CHR ''/'' \<and> s2 = CHR ''/'' \<and> s3 = CHR ''/'' \<and> d1 = CHR ''d'' \<and> d2 = CHR ''d'' \<and>
          is_word c1 \<and> is_word c2 \<and> is_word c3
      | _ \<Rightarrow> False)"

definition stripPath2 :: "string \<Rightarrow> string" where
  "stripPath2 uri =
     (let s = stripPath uri; front = take (length uri - length s) uri
      in if subdirectories front then drop (length front - 7) uri else s)"

section \<open>The state of the page\<close>

text \<open>
  \<open>navpath\<close> is empty when the storage has no link; \<open>synced\<close> is the class of the button, and
  \<open>sync_html\<close> its picture.
\<close>

record nav_state =
  nav_tree :: tree_node
  navpath :: string
  synced :: bool
  sync_html :: string

definition SYNCONMSG :: string where
  "SYNCONMSG = ''click to disable panel synchronisation''"

definition SYNCOFFMSG :: string where
  "SYNCOFFMSG = ''click to enable panel synchronisation''"

text \<open>The two pictures, and the functions that put them in.\<close>

definition sync_off :: "nav_page \<Rightarrow> string" where
  "sync_off pg = ''<img src=\"'' @ relpath pg @ ''sync_off.png\" title=\"'' @ SYNCOFFMSG @ ''\"/>''"

definition sync_on :: "nav_page \<Rightarrow> string" where
  "sync_on pg = ''<img src=\"'' @ relpath pg @ ''sync_on.png\" title=\"'' @ SYNCONMSG @ ''\"/>''"

definition showSyncOff :: "nav_page \<Rightarrow> nav_state \<Rightarrow> nav_state" where
  "showSyncOff pg s = s\<lparr>sync_html := sync_off pg\<rparr>"

definition showSyncOn :: "nav_page \<Rightarrow> nav_state \<Rightarrow> nav_state" where
  "showSyncOn pg s = s\<lparr>sync_html := sync_on pg\<rparr>"

definition storeLink :: "bool \<Rightarrow> string \<Rightarrow> nav_state \<Rightarrow> nav_state" where
  "storeLink supported link s = (if \<not> synced s \<and> supported then s\<lparr>navpath := link\<rparr> else s)"

definition deleteLink :: "bool \<Rightarrow> nav_state \<Rightarrow> nav_state" where
  "deleteLink supported s = (if supported then s\<lparr>navpath := []\<rparr> else s)"

definition cachedLink :: "bool \<Rightarrow> nav_state \<Rightarrow> string" where
  "cachedLink supported s = (if supported then navpath s else [])"

definition toggleSyncButton :: "nav_page \<Rightarrow> bool \<Rightarrow> string \<Rightarrow> nav_state \<Rightarrow> nav_state" where
  "toggleSyncButton pg supported fragment s =
     (if synced s
      then storeLink supported (stripPath2 (pathName pg) @ hashUrl fragment)
             (showSyncOff pg (s\<lparr>synced := False\<rparr>))
      else deleteLink supported (showSyncOn pg (s\<lparr>synced := True\<rparr>)))"

definition initNavTree :: "nav_page \<Rightarrow> bool \<Rightarrow> string \<Rightarrow> nav_state" where
  "initNavTree pg supported stored =
     (let s = \<lparr>nav_tree = root_node pg, navpath = stored, synced = True, sync_html = []\<rparr>
      in if supported then
           (if cachedLink supported s \<noteq> [] then (showSyncOff pg s)\<lparr>synced := False\<rparr> else showSyncOn pg s)
         else s)"

section \<open>The events\<close>

definition clear_selection :: "tree_node \<Rightarrow> tree_node" where
  "clear_selection tree =
     Tree_node (node_info tree) (map (map_nodes (\<lambda>d. d\<lparr>selected := False\<rparr>)) (node_children tree))"

text \<open>A node by its path, if the path leads to one.\<close>

fun tree_at :: "tree_node \<Rightarrow> nat list \<Rightarrow> tree_node option" where
  "tree_at t [] = Some t"
| "tree_at t (i # p) = (if i < length (node_children t) then tree_at (node_children t ! i) p else None)"

fun replace_at :: "nat list \<Rightarrow> (tree_node \<Rightarrow> tree_node) \<Rightarrow> tree_node \<Rightarrow> tree_node" where
  "replace_at [] f t = f t"
| "replace_at (i # p) f t =
     (if i < length (node_children t) then set_child i (replace_at p f (node_children t ! i)) t else t)"

text \<open>
  A link of the tree is followed: it is stored, and one to an anchor selects its item, unless it
  is selected already. The link is told from its node's data, which the closure keeps.
\<close>

definition follow_link :: "bool \<Rightarrow> nat list \<Rightarrow> string \<Rightarrow> nav_state \<Rightarrow> nav_state" where
  "follow_link supported p link s =
     (let link = (if starts_with link ''^'' then drop 1 link else link);
          s = storeLink supported link s
      in case tree_at (nav_tree s) p of
           None \<Rightarrow> s
         | Some n \<Rightarrow>
             if has_hash link \<and> \<not> selected (node_info n)
             then s\<lparr>nav_tree := update_node p (\<lambda>d. d\<lparr>selected := True\<rparr>) (clear_selection (nav_tree s))\<rparr>
             else s)"

definition go_to ::
    "nav_page \<Rightarrow> (string \<Rightarrow> nav_node list option) \<Rightarrow> (nat \<Rightarrow> (string \<times> nat list) list option) \<Rightarrow> bool \<Rightarrow>
       string \<Rightarrow> string \<Rightarrow> nav_state \<Rightarrow> nav_state" where
  "go_to pg scripts indices supported root hash s =
     s\<lparr>nav_tree := fst (navTo pg scripts indices (cachedLink supported s) root hash (nav_tree s))\<rparr>"

text \<open>The handler of a change of the fragment; \<open>idle\<close>: no animation is in progress.\<close>

definition hash_changed ::
    "nav_page \<Rightarrow> (string \<Rightarrow> nav_node list option) \<Rightarrow> (nat \<Rightarrow> (string \<times> nat list) list option) \<Rightarrow> bool \<Rightarrow>
       bool \<Rightarrow> string \<Rightarrow> nav_state \<Rightarrow> nav_state" where
  "hash_changed pg scripts indices supported idle fragment s =
     (if 1 < length fragment then
        (let clslink = stripPath (pathName pg) @ '':'' @ hashValue fragment;
             kept = list_ex (some_node (\<lambda>d. ends_with (a_class d) clslink \<and> selected d)) (node_children (nav_tree s));
             s = (if kept then s else s\<lparr>nav_tree := clear_selection (nav_tree s)\<rparr>)
         in go_to pg scripts indices supported (stripPath2 (pathName pg)) (hashUrl fragment) s)
      else if idle then
        go_to pg scripts indices supported (toroot pg) (hashUrl fragment)
          (s\<lparr>nav_tree := clear_selection (nav_tree s)\<rparr>)
      else s)"

datatype nav_event =
    Loaded string
  | Hash_changed bool string
  | Toggled "nat list"
  | Followed "nat list" string
  | Sync_pressed string

text \<open>
  One event. The toggle is there only for a node with children, and the button works only when
  the storage is supported.
\<close>

definition nav_step ::
    "nav_page \<Rightarrow> (string \<Rightarrow> nav_node list option) \<Rightarrow> (nat \<Rightarrow> (string \<times> nat list) list option) \<Rightarrow> bool \<Rightarrow>
       nav_event \<Rightarrow> nav_state \<Rightarrow> nav_state" where
  "nav_step pg scripts indices supported e s =
     (case e of
        Loaded fragment \<Rightarrow> go_to pg scripts indices supported (toroot pg) (hashUrl fragment) s
      | Hash_changed idle fragment \<Rightarrow> hash_changed pg scripts indices supported idle fragment s
      | Toggled p \<Rightarrow>
          (if p = [] then s else s\<lparr>nav_tree := replace_at p (toggle_node pg scripts) (nav_tree s)\<rparr>)
      | Followed p link \<Rightarrow> if p = [] \<or> link = [] then s else follow_link supported p link s
      | Sync_pressed fragment \<Rightarrow> if supported then toggleSyncButton pg supported fragment s else s)"

definition nav_run ::
    "nav_page \<Rightarrow> (string \<Rightarrow> nav_node list option) \<Rightarrow> (nat \<Rightarrow> (string \<times> nat list) list option) \<Rightarrow> bool \<Rightarrow>
       nav_event list \<Rightarrow> nav_state \<Rightarrow> nav_state" where
  "nav_run pg scripts indices supported es s =
     fold (nav_step pg scripts indices supported) es s"

section \<open>Scrolling to an anchor\<close>

text \<open>
  Where an anchor stands: the classes of its parent, whether the parent is a heading, and the
  distance of each from the top, \<open>None\<close> for an anchor that is not on the page. The contents of the
  page: their offset, the height of what there is to scroll and of what is shown, the scrolling.
\<close>

record anchor_place =
  parent_classes :: "string list"
  parent_header :: bool
  parent_top :: int
  anchor_top :: "int option"

record doc_content =
  offset_top :: int
  scroll_height :: int
  shown_height :: int
  scroll_top :: int

definition anchor_pos :: "anchor_place \<Rightarrow> int option" where
  "anchor_pos a =
     (if ''memItemLeft'' \<in> set (parent_classes a) \<or> ''fieldname'' \<in> set (parent_classes a) \<or>
         ''fieldtype'' \<in> set (parent_classes a) \<or> parent_header a
      then Some (parent_top a) else anchor_top a)"

text \<open>The scrolling to which the contents are moved, and for how long; nothing when it is 0.\<close>

definition gotoAnchor :: "anchor_place \<Rightarrow> doc_content \<Rightarrow> (int \<times> int) option" where
  "gotoAnchor a d =
     (case anchor_pos a of
        None \<Rightarrow> None
      | Some pos \<Rightarrow>
          if pos = 0 then None
          else (let dist = \<bar>min (pos - offset_top d) (scroll_height d - shown_height d - scroll_top d)\<bar>
                in Some (pos + scroll_top d - offset_top d, max 50 (min 500 dist))))"

text \<open>What glows, for how long: rows of members without details, the entry of a field, or what follows.\<close>

datatype glow = Member_rows | Grandparent | Parent | Following

definition highlightAnchor :: "string option \<Rightarrow> bool \<Rightarrow> glow \<times> nat" where
  "highlightAnchor parent_class header =
     (if parent_class = Some ''memItemLeft'' then (Member_rows, 300)
      else if parent_class = Some ''fieldname'' then (Grandparent, 1000)
      else if parent_class = Some ''fieldtype'' then (Grandparent, 1000)
      else if header then (Parent, 1000) else (Following, 1000))"

lemma gotoAnchor_duration: "gotoAnchor a d = Some (t, ms) \<Longrightarrow> 50 \<le> ms \<and> ms \<le> 500"
  by (auto simp: gotoAnchor_def Let_def split: option.splits if_splits)

end
