(* ===== verification/Nav_Show.thy ===== *)
theory Nav_Show
  imports Nav_Page
begin

text \<open>
  What the tree of the page has to do with the navigation data. A path of child numbers leads to
  a node of the data (\<open>node_at\<close>), and to a node of the tree once those above it are filled
  (\<open>tree_at\<close>). \<open>represents\<close> says that a tree shows a node of the data: every operation keeps it,
  and \<open>showNode\<close> ends at the node of its path, with all nodes above it open.
\<close>

section \<open>The data\<close>

definition children_of :: "(string \<Rightarrow> nav_node list option) \<Rightarrow> nav_data \<Rightarrow> nav_node list option" where
  "children_of scripts c =
     (case c of Null \<Rightarrow> None | Script s \<Rightarrow> (if s = [] then None else getData scripts s) | Nodes ns \<Rightarrow> Some ns)"

text \<open>The node at the end of a path from a list of nodes, when every script on the way loads.\<close>

fun node_at :: "(string \<Rightarrow> nav_node list option) \<Rightarrow> nav_node list \<Rightarrow> nat list \<Rightarrow> nav_node option" where
  "node_at scripts ns [] = None"
| "node_at scripts ns [i] = (if i < length ns then Some (ns ! i) else None)"
| "node_at scripts ns (i # j # p) =
     (if i < length ns
      then (case children_of scripts (nav_children (ns ! i)) of
              None \<Rightarrow> None | Some ms \<Rightarrow> node_at scripts ms (j # p))
      else None)"

section \<open>Trees that show the data\<close>

text \<open>The class and the target of the link of a node.\<close>

definition link_fields :: "nav_page \<Rightarrow> nav_node \<Rightarrow> string \<times> string" where
  "link_fields pg n =
     (case nav_link n of
        Some (c # cs) \<Rightarrow>
          (let (link, url) = link_target pg (c # cs)
           in (stripPath (hash_to_colon link),
               if has_hash link \<and> stripPath (pathName pg) = stripPath (before_hash link)
               then ''javascript:void(0)'' else url))
      | _ \<Rightarrow> if nav_children n \<noteq> Null then (''nolink'', ''javascript:void(0)'') else ([], []))"

definition item_of :: "nav_page \<Rightarrow> nav_node \<Rightarrow> node_info \<Rightarrow> bool" where
  "item_of pg n d \<longleftrightarrow> node_label d = nav_text n \<and> (a_class d, a_href d) = link_fields pg n"

text \<open>The children are those of the data, or what their script gives.\<close>

definition loaded :: "(string \<Rightarrow> nav_node list option) \<Rightarrow> nav_data \<Rightarrow> nav_data \<Rightarrow> bool" where
  "loaded scripts c d \<longleftrightarrow>
     d = c \<or> (\<exists>s ns. c = Script s \<and> getData scripts s = Some ns \<and> d = Nodes ns)"

text \<open>A node shows a node of the data; what it holds below it are the children \<open>c\<close> of the data.\<close>

inductive represents :: "nav_page \<Rightarrow> (string \<Rightarrow> nav_node list option) \<Rightarrow> nav_node \<Rightarrow> tree_node \<Rightarrow> bool"
  and holds :: "nav_page \<Rightarrow> (string \<Rightarrow> nav_node list option) \<Rightarrow> nav_data \<Rightarrow> tree_node \<Rightarrow> bool"
  for pg scripts where
  "item_of pg n (node_info t) \<Longrightarrow> holds pg scripts (nav_children n) t \<Longrightarrow> represents pg scripts n t"
| "loaded scripts c (childrenData d) \<Longrightarrow> \<not> childrenVisited d \<Longrightarrow> \<not> expanded d \<Longrightarrow>
     holds pg scripts c (Tree_node d [])"
| "loaded scripts c (Nodes ns) \<Longrightarrow> childrenData d = Nodes ns \<Longrightarrow> childrenVisited d \<Longrightarrow>
     list_all2 (represents pg scripts) ns ts \<Longrightarrow> holds pg scripts c (Tree_node d ts)"

inductive_simps represents_iff: "represents pg scripts n t"
inductive_simps holds_iff: "holds pg scripts c (Tree_node d ts)"

lemma holds_cong:
  assumes "holds pg scripts c (Tree_node d ts)"
    and "childrenData d' = childrenData d" "childrenVisited d' = childrenVisited d"
    and "expanded d' \<longrightarrow> expanded d \<or> childrenVisited d"
  shows "holds pg scripts c (Tree_node d' ts)"
  using assms unfolding holds_iff by auto

section \<open>Every operation keeps it\<close>

lemma newNode_item: "item_of pg n (node_info (newNode pg po n l))"
  by (auto simp: newNode_def item_of_def link_fields_def createIndent_def Let_def
      split: option.splits list.splits prod.splits)

lemma newNode_fields:
  "childrenData (node_info (newNode pg po n l)) = nav_children n"
  "childrenVisited (node_info (newNode pg po n l)) = False"
  "expanded (node_info (newNode pg po n l)) = False"
  "node_children (newNode pg po n l) = []"
  by (auto simp: newNode_def createIndent_def Let_def split: option.splits list.splits prod.splits)

lemma newNode_represents: "represents pg scripts n (newNode pg po n l)"
proof -
  have "holds pg scripts (nav_children n) (Tree_node (node_info (newNode pg po n l)) [])"
    by (simp add: holds_iff newNode_fields loaded_def)
  then show ?thesis
    using newNode_fields(4) [of pg po n l] by (simp add: represents_iff newNode_item) (metis tree_node.collapse)
qed

lemma new_nodes_represent: "list_all2 (represents pg scripts) ns (new_nodes pg po ns)"
  by (induction ns) (simp_all add: newNode_represents)

lemma loaded_children:
  assumes "loaded scripts c d" and "has_children d"
  shows "children_of scripts c = Some ms \<Longrightarrow> children_of scripts d = Some ms"
    and "children_of scripts d = Some ns \<Longrightarrow> loaded scripts c (Nodes ns)"
  using assms
  by (auto simp: loaded_def children_of_def has_children_def split: nav_data.splits if_splits)

lemma load_children_alt:
  "has_children (childrenData d) \<Longrightarrow>
     load_children scripts (Tree_node d ts) =
       map_option (\<lambda>ns. (ns, Tree_node (d\<lparr>childrenData := Nodes ns\<rparr>) ts)) (children_of scripts (childrenData d))"
  by (auto simp: load_children_def children_of_def has_children_def split: nav_data.split)

lemma children_loaded:
  assumes holds: "holds pg scripts c (Tree_node d ts)" and children: "has_children (childrenData d)"
    and load: "load_children scripts (Tree_node d ts) = Some (ns, t')"
  shows "holds pg scripts c t'" "\<And>ms. children_of scripts c = Some ms \<Longrightarrow> ms = ns"
    and "t' = Tree_node (d\<lparr>childrenData := Nodes ns\<rparr>) ts"
proof -
  show t': "t' = Tree_node (d\<lparr>childrenData := Nodes ns\<rparr>) ts"
    using load children by (auto simp: load_children_alt)
  have ns: "children_of scripts (childrenData d) = Some ns"
    using load children by (auto simp: load_children_alt)
  have c: "loaded scripts c (childrenData d)"
    using holds by (auto simp: holds_iff)
  show "ms = ns" if "children_of scripts c = Some ms" for ms
    using loaded_children(1) [OF c children that] ns by simp
  show "holds pg scripts c t'"
    using holds loaded_children(2) [OF c children ns] ns
    by (auto simp: holds_iff t' children_of_def)
qed

lemma open_node_holds:
  assumes "holds pg scripts c t" and "childrenData (node_info t) = Nodes ns"
  shows "holds pg scripts c (open_node pg ns t)"
    and "childrenVisited (node_info (open_node pg ns t))"
    and "expanded (node_info (open_node pg ns t))"
    and "list_all2 (represents pg scripts) ns (node_children (open_node pg ns t))"
  using assms
  by (cases t; auto simp: holds_iff open_node_def open_image_def getNode_def Let_def new_nodes_represent)+

lemma load_and_open:
  assumes "holds pg scripts c t" and "has_children (childrenData (node_info t))"
    and "load_children scripts t = Some (ns, t')"
  shows "holds pg scripts c (open_node pg ns t')"
    and "list_all2 (represents pg scripts) ns (node_children (open_node pg ns t'))"
    and "childrenData (node_info (open_node pg ns t')) = Nodes ns"
    and "childrenVisited (node_info (open_node pg ns t'))"
    and "expanded (node_info (open_node pg ns t'))"
    and "\<And>ms. children_of scripts c = Some ms \<Longrightarrow> ms = ns"
proof -
  obtain d ts where t: "t = Tree_node d ts" by (cases t)
  note opened = children_loaded [OF assms(1) [unfolded t] assms(2) [unfolded t, simplified] assms(3) [unfolded t]]
  have data: "childrenData (node_info t') = Nodes ns"
    using opened(3) by simp
  show "holds pg scripts c (open_node pg ns t')"
    and "list_all2 (represents pg scripts) ns (node_children (open_node pg ns t'))"
    and "childrenVisited (node_info (open_node pg ns t'))"
    and "expanded (node_info (open_node pg ns t'))"
    using open_node_holds [OF opened(1) data] by simp_all
  show "childrenData (node_info (open_node pg ns t')) = Nodes ns"
    by (simp add: opened(3) open_node_def open_image_def getNode_def Let_def)
  show "\<And>ms. children_of scripts c = Some ms \<Longrightarrow> ms = ns"
    by (rule opened(2))
qed

lemma expandNode_holds: "holds pg scripts c t \<Longrightarrow> holds pg scripts c (expandNode pg scripts t)"
  by (auto simp: expandNode_def split: option.splits intro: load_and_open)

lemma toggle_node_holds: "holds pg scripts c t \<Longrightarrow> holds pg scripts c (toggle_node pg scripts t)"
  by (cases t) (auto simp: toggle_node_def expandNode_holds elim: holds_cong)

section \<open>Showing a node\<close>

text \<open>The nodes above the end of a path are open, and show their children.\<close>

fun open_down :: "tree_node \<Rightarrow> nat list \<Rightarrow> bool" where
  "open_down t [] = True"
| "open_down t (i # p) \<longleftrightarrow>
     expanded (node_info t) \<and> ul_display (node_info t) = ''block'' \<and>
     i < length (node_children t) \<and> open_down (node_children t ! i) p"

text \<open>The operations change nothing of the label and the link.\<close>

definition item_fields :: "tree_node \<Rightarrow> string \<times> string \<times> string" where
  "item_fields t = (node_label (node_info t), a_class (node_info t), a_href (node_info t))"

lemma item_of_fields: "item_fields t = item_fields t' \<Longrightarrow> item_of pg n (node_info t) = item_of pg n (node_info t')"
  by (simp add: item_of_def item_fields_def)

lemma represents_same_item:
  assumes "represents pg scripts n t" and "item_fields t' = item_fields t"
    and "holds pg scripts (nav_children n) t'"
  shows "represents pg scripts n t'"
  using assms item_of_fields [OF assms(2)] by (simp add: represents_iff)

lemma load_fields: "load_children scripts t = Some (ns, t') \<Longrightarrow> item_fields t' = item_fields t"
  by (cases t) (auto simp: load_children_def item_fields_def split: nav_data.splits)

lemma open_fields: "item_fields (open_node pg ns t) = item_fields t"
  by (simp add: open_node_def open_image_def getNode_def item_fields_def Let_def)

lemma expand_fields: "item_fields (expandNode pg scripts t) = item_fields t"
  by (auto simp: expandNode_def open_fields load_fields split: option.splits)

lemma set_child_fields: "item_fields (set_child i n t) = item_fields t"
  by (simp add: set_child_def item_fields_def)

lemma showNode_fields: "item_fields (fst (showNode pg scripts t p)) = item_fields t"
  by (cases p) (auto simp: Let_def open_fields load_fields set_child_fields split: option.splits prod.splits)

lemma show_last_fields: "show_last pg scripts t = Some t' \<Longrightarrow> item_fields t' = item_fields t"
  by (auto simp: show_last_def expand_fields load_fields split: nav_data.splits option.splits if_splits)

lemma set_child_holds:
  assumes "holds pg scripts c t" and "childrenData (node_info t) = Nodes ns"
    and "childrenVisited (node_info t)" and "represents pg scripts (ns ! i) n" and "i < length ns"
  shows "holds pg scripts c (set_child i n t)"
proof -
  obtain d ts where t: "t = Tree_node d ts" by (cases t)
  have all: "list_all2 (represents pg scripts) ns ts"
    using assms(1,2,3) by (auto simp: t holds_iff)
  have "list_all2 (represents pg scripts) (ns[i := ns ! i]) (ts[i := n])"
    using all assms(4) by (rule list_all2_update_cong)
  then show ?thesis
    using assms by (auto simp: t holds_iff set_child_def)
qed

lemma load_script_holds:
  assumes "holds pg scripts c t" and "childrenData (node_info t) = Script s"
    and "load_children scripts t = Some (ns, t')"
  shows "holds pg scripts c t'"
  using assms by (cases t) (auto simp: holds_iff load_children_def loaded_def)

lemma show_last_holds:
  "holds pg scripts c t \<Longrightarrow> show_last pg scripts t = Some t' \<Longrightarrow> holds pg scripts c t'"
  by (auto simp: show_last_def expandNode_holds load_script_holds
      split: nav_data.splits option.splits if_splits)

lemma show_last_represents:
  "represents pg scripts n t \<Longrightarrow> show_last pg scripts t = Some t' \<Longrightarrow> represents pg scripts n t'"
  by (rule represents_same_item [OF _ show_last_fields show_last_holds])
    (auto simp: represents_iff)

text \<open>One step of \<open>showNode\<close>.\<close>

lemma showNode_stuck:
  "\<not> has_children (childrenData (node_info t)) \<or> load_children scripts t = None \<Longrightarrow>
     fst (showNode pg scripts t (i # p)) = t"
  by auto

lemma showNode_step:
  assumes "has_children (childrenData (node_info t))" and "load_children scripts t = Some (ns, t')"
    and "u = open_node pg ns t'"
  shows "showNode pg scripts t (i # p) =
    (if \<not> i < length (node_children u) then (u, if p = [] then Throws else Select_nothing)
     else if p \<noteq> [] then
       (set_child i (fst (showNode pg scripts (node_children u ! i) p)) u,
        below i (snd (showNode pg scripts (node_children u ! i) p)))
     else case show_last pg scripts (node_children u ! i) of
            None \<Rightarrow> (u, Waiting) | Some n \<Rightarrow> (set_child i n u, Select [i]))"
  by (simp add: Let_def assms split: prod.split option.split)

lemma showNode_holds: "holds pg scripts c t \<Longrightarrow> holds pg scripts c (fst (showNode pg scripts t p))"
proof (induction p arbitrary: t c)
  case Nil
  then show ?case by simp
next
  case (Cons i p)
  show ?case
  proof (cases "has_children (childrenData (node_info t)) \<and> load_children scripts t \<noteq> None")
    case False
    then have "fst (showNode pg scripts t (i # p)) = t"
      by (intro showNode_stuck) blast
    then show ?thesis
      using Cons.prems by (simp only:)
  next
    case True
    then obtain ns t' where load: "load_children scripts t = Some (ns, t')" by auto
    define u where "u = open_node pg ns t'"
    note opened = load_and_open [OF Cons.prems conjunct1 [OF True] load, folded u_def]
    have lengths: "length (node_children u) = length ns"
      using opened(2) by (simp add: list_all2_lengthD)
    have replaced: "holds pg scripts c (set_child i n u)"
      if "i < length ns" "item_fields n = item_fields (node_children u ! i)"
        "\<And>c. holds pg scripts c (node_children u ! i) \<Longrightarrow> holds pg scripts c n" for n
    proof (rule set_child_holds [OF opened(1,3,4) _ that(1)])
      have "represents pg scripts (ns ! i) (node_children u ! i)"
        using opened(2) that(1) by (rule list_all2_nthD)
      then show "represents pg scripts (ns ! i) n"
        using represents_same_item [OF _ that(2) that(3)] by (auto simp: represents_iff)
    qed
    show ?thesis
      unfolding showNode_step [OF conjunct1 [OF True] load u_def]
      using opened(1) replaced lengths
      by (auto simp: showNode_fields Cons.IH show_last_fields show_last_holds simp del: showNode.simps split: option.split)
  qed
qed

text \<open>
  A path of the data ends at the node that shows its node, with everything above it open, if the
  script of that node loads.
\<close>

definition script_loads :: "(string \<Rightarrow> nav_node list option) \<Rightarrow> nav_data \<Rightarrow> bool" where
  "script_loads scripts c = (case c of Script s \<Rightarrow> getData scripts s \<noteq> None | _ \<Rightarrow> True)"

lemma holds_has_children:
  assumes "holds pg scripts c t" and "children_of scripts c = Some ns"
  shows "has_children (childrenData (node_info t))" and "load_children scripts t \<noteq> None"
  using assms
  by (cases t; auto simp: holds_iff loaded_def children_of_def has_children_def load_children_def
      split: nav_data.splits if_splits)+

lemma show_last_Some:
  assumes "represents pg scripts n t" and "script_loads scripts (nav_children n)"
  obtains t' where "show_last pg scripts t = Some t'"
  using assms
  by (cases t; cases "nav_children n")
    (auto simp: represents_iff holds_iff loaded_def script_loads_def show_last_def load_children_def
      split: nav_data.splits option.splits)

lemma showNode_path:
  assumes "holds pg scripts c t" and "children_of scripts c = Some ns" and "node_at scripts ns p = Some n"
    and "script_loads scripts (nav_children n)"
  shows "\<exists>t' v. showNode pg scripts t p = (t', Select p) \<and> tree_at t' p = Some v \<and>
    represents pg scripts n v \<and> open_down t' p"
  using assms
proof (induction p arbitrary: t c ns)
  case Nil
  then show ?case by simp
next
  case (Cons i p)
  note has = holds_has_children [OF Cons.prems(1,2)]
  obtain ns' t' where load: "load_children scripts t = Some (ns', t')" using has(2) by auto
  define u where "u = open_node pg ns' t'"
  note opened = load_and_open [OF Cons.prems(1) has(1) load, folded u_def]
  have ns': "ns' = ns" using opened(6) [OF Cons.prems(2)] by simp
  have i: "i < length ns" using Cons.prems(3) by (cases p) (simp_all split: if_splits)
  have lengths: "length (node_children u) = length ns"
    using opened(2) by (simp add: list_all2_lengthD ns')
  have shown: "represents pg scripts (ns ! i) (node_children u ! i)"
    using opened(2) i by (simp add: list_all2_nthD ns')
  have u_open: "ul_display (node_info u) = ''block''"
    by (simp add: u_def open_node_def open_image_def Let_def)
  note step = showNode_step [OF has(1) load u_def, of i p]
  show ?case
  proof (cases p)
    case Nil
    then have n: "n = ns ! i" using Cons.prems(3) i by simp
    obtain v where v: "show_last pg scripts (node_children u ! i) = Some v"
      using show_last_Some [OF shown] Cons.prems(4) n by auto
    have "represents pg scripts n v"
      using show_last_represents [OF shown v] n by simp
    then show ?thesis
      using step v Nil i lengths opened(5) u_open by (auto simp: set_child_def)
  next
    case (Cons j q)
    obtain ms where ms: "children_of scripts (nav_children (ns ! i)) = Some ms"
      and rest: "node_at scripts ms p = Some n"
      using Cons.prems(3) Cons i by (auto split: option.splits)
    have below: "holds pg scripts (nav_children (ns ! i)) (node_children u ! i)"
      using shown by (simp add: represents_iff)
    obtain t'' v where "showNode pg scripts (node_children u ! i) p = (t'', Select p)"
      and "tree_at t'' p = Some v" "represents pg scripts n v" "open_down t'' p"
      using Cons.IH [OF below ms rest Cons.prems(4)] by blast
    then show ?thesis
      using step Cons i lengths opened(5) u_open by (auto simp: set_child_def)
  qed
qed

end
