(* ===== verification/Page_Events.thy ===== *)
theory Page_Events
  imports Main
begin

text \<open>
  Pages that live by events: what every step keeps is kept through every sequence of steps. Once
  for steps that are a relation, and for handlers that are a function of the event.
\<close>

locale kept_by_steps =
  fixes takes :: "'s \<Rightarrow> 's \<Rightarrow> bool" and inv :: "'s \<Rightarrow> bool"
  assumes step_keeps: "takes s t \<Longrightarrow> inv s \<Longrightarrow> inv t"
begin

lemma steps_keep: "takes\<^sup>*\<^sup>* s t \<Longrightarrow> inv s \<Longrightarrow> inv t"
  by (induction rule: rtranclp_induct) (auto intro: step_keeps)

end

locale kept_by_events =
  fixes handle :: "'e \<Rightarrow> 's \<Rightarrow> 's" and inv :: "'s \<Rightarrow> bool"
  assumes event_keeps: "inv s \<Longrightarrow> inv (handle e s)"
begin

lemma events_step: "(\<lambda>s t. \<exists>e. t = handle e s)\<^sup>*\<^sup>* s (fold handle es s)"
proof (induction es arbitrary: s)
  case (Cons e es)
  show ?case
    using Cons.IH [of "handle e s"] by (auto intro: converse_rtranclp_into_rtranclp)
qed simp

end

sublocale kept_by_events \<subseteq> steps: kept_by_steps "\<lambda>s t. \<exists>e. t = handle e s" inv
  by unfold_locales (auto intro: event_keeps)

context kept_by_events
begin

lemma events_keep: "inv s \<Longrightarrow> inv (fold handle es s)"
  using steps.steps_keep [OF events_step] .

end

end
