(* ===== verification/Nav_Events.thy ===== *)
theory Nav_Events
  imports Nav_Show Page_Events
begin

text \<open>
  Selecting changes nothing but the selection, so the tree goes on showing the data; and so do
  all events of the page.
\<close>

section \<open>Changes of the selection\<close>

definition only_selects :: "(node_info \<Rightarrow> node_info) \<Rightarrow> bool" where
  "only_selects f \<longleftrightarrow> (\<forall>d. \<exists>b. f d = d\<lparr>selected := b\<rparr>)"

lemma only_selects_fields:
  assumes "only_selects f"
  shows "childrenData (f d) = childrenData d" "childrenVisited (f d) = childrenVisited d"
    "expanded (f d) = expanded d" "ul_display (f d) = ul_display d" "node_label (f d) = node_label d"
    "a_class (f d) = a_class d" "a_href (f d) = a_href d"
proof -
  obtain b where "f d = d\<lparr>selected := b\<rparr>"
    using assms unfolding only_selects_def by blast
  then show "childrenData (f d) = childrenData d" "childrenVisited (f d) = childrenVisited d"
    "expanded (f d) = expanded d" "ul_display (f d) = ul_display d" "node_label (f d) = node_label d"
    "a_class (f d) = a_class d" "a_href (f d) = a_href d"
    by simp_all
qed

lemma selecting:
  "only_selects (\<lambda>d. if Q d then d\<lparr>selected := b\<rparr> else d)"
  "only_selects (\<lambda>d. d\<lparr>selected := b\<rparr>)"
  unfolding only_selects_def by (metis node_info.surjective node_info.update_convs(12))+

lemma item_of_selects: "only_selects f \<Longrightarrow> item_of pg n (f d) = item_of pg n d"
  by (simp add: item_of_def only_selects_fields)

lemma holds_selects:
  "only_selects f \<Longrightarrow> holds pg scripts c (Tree_node (f d) ts) = holds pg scripts c (Tree_node d ts)"
  by (simp add: holds_iff only_selects_fields)

lemma map_nodes_shows:
  assumes f: "only_selects f"
  shows "represents pg scripts n t \<Longrightarrow> represents pg scripts n (map_nodes f t)"
    and "holds pg scripts c t \<Longrightarrow> holds pg scripts c (map_nodes f t)"
proof (induction rule: represents_holds.inducts)
  case (1 n t)
  then show ?case
    by (cases t) (simp add: represents_iff item_of_selects [OF f])
next
  case (2 c d)
  then show ?case by (simp add: holds_iff only_selects_fields [OF f])
next
  case (3 c ns d ts)
  have "list_all2 (represents pg scripts) ns (map (map_nodes f) ts)"
    using 3 by (auto simp: list_all2_conv_all_nth)
  then show ?case using 3 by (simp add: holds_iff only_selects_fields [OF f])
qed

lemma map_children_holds:
  assumes "only_selects f" and "holds pg scripts c (Tree_node d ts)"
  shows "holds pg scripts c (Tree_node d (map (map_nodes f) ts))"
  using map_nodes_shows(2) [OF assms] by (simp add: holds_selects [OF assms(1)])

text \<open>Replacing one node of the tree.\<close>

lemma replace_at_shows:
  assumes f: "\<And>t. item_fields (f t) = item_fields t"
    "\<And>c t. holds pg scripts c t \<Longrightarrow> holds pg scripts c (f t)"
  shows "item_fields (replace_at p f t) = item_fields t \<and>
    (holds pg scripts c t \<longrightarrow> holds pg scripts c (replace_at p f t))"
proof (induction p arbitrary: t c)
  case Nil
  then show ?case using f by simp
next
  case (Cons i p)
  have "holds pg scripts c (set_child i (replace_at p f (node_children t ! i)) t)"
    if holds: "holds pg scripts c t" and i: "i < length (node_children t)"
  proof -
    obtain d ts where t: "t = Tree_node d ts" by (cases t)
    obtain ns where ns: "childrenData d = Nodes ns" "childrenVisited d"
      and all: "list_all2 (represents pg scripts) ns ts"
      using holds i by (auto simp: t holds_iff)
    have shown: "represents pg scripts (ns ! i) (ts ! i)"
      using all i by (simp add: t list_all2_nthD2)
    show ?thesis
    proof (rule set_child_holds [OF holds])
      show "represents pg scripts (ns ! i) (replace_at p f (node_children t ! i))"
        using shown Cons.IH by (simp add: t represents_iff item_of_fields [OF conjunct1 [OF Cons.IH]])
      show "i < length ns" using all i by (simp add: t list_all2_lengthD)
    qed (simp_all add: t ns)
  qed
  then show ?case by (simp add: set_child_fields)
qed

lemma update_node_replace:
  "update_node p f t = replace_at p (\<lambda>t. Tree_node (f (node_info t)) (node_children t)) t"
  by (induction p f t rule: update_node.induct) (simp_all add: set_child_def)

lemma update_node_holds:
  assumes "only_selects f" and "holds pg scripts c t"
  shows "holds pg scripts c (update_node p f t)"
proof -
  have "item_fields (replace_at p (\<lambda>t. Tree_node (f (node_info t)) (node_children t)) t) = item_fields t \<and>
    (holds pg scripts c t \<longrightarrow> holds pg scripts c (replace_at p (\<lambda>t. Tree_node (f (node_info t)) (node_children t)) t))"
  proof (rule replace_at_shows)
    show "holds pg scripts c (Tree_node (f (node_info t)) (node_children t))"
      if "holds pg scripts c t" for c t
      using that by (cases t) (simp add: holds_selects [OF assms(1)])
  qed (simp add: item_fields_def only_selects_fields [OF assms(1)])
  then show ?thesis using assms(2) by (simp add: update_node_replace)
qed

section \<open>The operations of the page\<close>

lemma selectAndHighlight_holds:
  "holds pg scripts c t \<Longrightarrow> holds pg scripts c (selectAndHighlight pg hash n t)"
  by (cases t) (auto simp: selectAndHighlight_def Let_def map_children_holds selecting update_node_holds
      split: option.split)

lemma gotoNode_holds:
  "holds pg scripts c t \<Longrightarrow> holds pg scripts c (fst (gotoNode pg scripts index root hash t))"
  using showNode_holds [of pg scripts c t "breadcrumbs_of index root hash"]
  by (auto simp: gotoNode_def selectAndHighlight_holds split: prod.splits show_end.splits)

lemma navTo_holds:
  "holds pg scripts c t \<Longrightarrow> holds pg scripts c (fst (navTo pg scripts indices link root hash t))"
  by (auto simp: navTo_def gotoNode_holds split: prod.splits option.splits)

lemma clear_selection_holds: "holds pg scripts c t \<Longrightarrow> holds pg scripts c (clear_selection t)"
  by (cases t) (simp add: clear_selection_def map_children_holds selecting)

lemma toggle_fields: "item_fields (toggle_node pg scripts t) = item_fields t"
  by (cases "expanded (node_info t)") (simp_all add: toggle_node_def expand_fields, simp add: item_fields_def)

lemma toggle_at_holds:
  "holds pg scripts c t \<Longrightarrow> holds pg scripts c (replace_at p (toggle_node pg scripts) t)"
  using replace_at_shows [of "toggle_node pg scripts", OF toggle_fields toggle_node_holds] by blast

text \<open>
  The tree shows the data, a stored link is used only when the button is off, and the picture of
  the button tells whether it is.
\<close>

lemmas sync_defs = showSyncOn_def showSyncOff_def

definition nav_ok :: "nav_page \<Rightarrow> (string \<Rightarrow> nav_node list option) \<Rightarrow> bool \<Rightarrow> nav_state \<Rightarrow> bool" where
  "nav_ok pg scripts supported s \<longleftrightarrow>
     holds pg scripts (Nodes NAVTREE) (nav_tree s) \<and>
     (synced s \<longrightarrow> cachedLink supported s = []) \<and> (\<not> supported \<longrightarrow> synced s) \<and>
     (supported \<longrightarrow> sync_html s = (if synced s then sync_on pg else sync_off pg))"

lemma nav_ok_tree:
  "nav_ok pg scripts supported s \<Longrightarrow> holds pg scripts (Nodes NAVTREE) t \<Longrightarrow>
     nav_ok pg scripts supported (s\<lparr>nav_tree := t\<rparr>)"
  by (auto simp: nav_ok_def cachedLink_def split: if_splits)

lemma nav_ok_go_to: "nav_ok pg scripts supported s \<Longrightarrow> nav_ok pg scripts supported (go_to pg scripts indices supported root hash s)"
  unfolding go_to_def by (rule nav_ok_tree) (auto simp: nav_ok_def navTo_holds)

lemma nav_ok_clear: "nav_ok pg scripts supported s \<Longrightarrow> nav_ok pg scripts supported (s\<lparr>nav_tree := clear_selection (nav_tree s)\<rparr>)"
  by (rule nav_ok_tree) (auto simp: nav_ok_def clear_selection_holds)

lemma root_node_holds: "holds pg scripts (Nodes NAVTREE) (root_node pg)"
  by (simp add: root_node_def holds_iff loaded_def)

lemma nav_ok_init: "nav_ok pg scripts supported (initNavTree pg supported stored)"
  by (simp add: nav_ok_def initNavTree_def root_node_holds cachedLink_def sync_defs Let_def)

lemma nav_ok_store: "nav_ok pg scripts supported s \<Longrightarrow> nav_ok pg scripts supported (storeLink supported link s)"
  by (auto simp: nav_ok_def storeLink_def cachedLink_def split: if_splits)

lemma nav_ok_select:
  "nav_ok pg scripts supported s \<Longrightarrow>
     nav_ok pg scripts supported
       (s\<lparr>nav_tree := update_node p (\<lambda>d. d\<lparr>selected := True\<rparr>) (clear_selection (nav_tree s))\<rparr>)"
  by (rule nav_ok_tree) (simp_all add: nav_ok_def update_node_holds selecting clear_selection_holds)

lemma nav_ok_follow: "nav_ok pg scripts supported s \<Longrightarrow> nav_ok pg scripts supported (follow_link supported p link s)"
  unfolding follow_link_def Let_def
  by (auto split: option.split intro: nav_ok_store nav_ok_select)

lemma nav_ok_sync:
  "nav_ok pg scripts True s \<Longrightarrow> nav_ok pg scripts True (toggleSyncButton pg True fragment s)"
  by (simp add: nav_ok_def toggleSyncButton_def sync_defs storeLink_def deleteLink_def cachedLink_def)

lemma nav_ok_hash:
  "nav_ok pg scripts supported s \<Longrightarrow>
     nav_ok pg scripts supported (hash_changed pg scripts indices supported idle fragment s)"
  by (auto simp: hash_changed_def Let_def intro: nav_ok_go_to nav_ok_clear)

lemma nav_ok_step:
  "nav_ok pg scripts supported s \<Longrightarrow> nav_ok pg scripts supported (nav_step pg scripts indices supported e s)"
proof (cases e)
  case (Toggled p)
  assume "nav_ok pg scripts supported s"
  then show ?thesis
    using nav_ok_tree [of pg scripts supported s "replace_at p (toggle_node pg scripts) (nav_tree s)"]
    by (auto simp: Toggled nav_step_def toggle_at_holds nav_ok_def)
qed (auto simp: nav_step_def nav_ok_go_to nav_ok_hash nav_ok_follow nav_ok_sync)

interpretation nav: kept_by_events "nav_step pg scripts indices supported" "nav_ok pg scripts supported"
  for pg scripts indices supported
  by unfold_locales (rule nav_ok_step)

lemma nav_ok_run:
  "nav_ok pg scripts supported s \<Longrightarrow> nav_ok pg scripts supported (nav_run pg scripts indices supported es s)"
  unfolding nav_run_def by (rule nav.events_keep)

end
