(* ===== verification/Nav_Select.thy ===== *)
theory Nav_Select
  imports Nav_Events "HOL-Library.Char_ord" "HOL-Library.List_Lexorder"
begin

text \<open>
  What a page selects: the index file of its url is the one between whose first entries the url
  lies, the path that the file gives for it is followed, and the node at its end is selected, or
  the items whose class is the page with its anchor.
\<close>

section \<open>The index file of a url\<close>

text \<open>The comparison is the lexicographic order of the library.\<close>

lemma string_le_lexorder: "string_le s t \<longleftrightarrow> s \<le> t"
  by (induction s t rule: string_le.induct) (auto simp: less_char_def)

lemma string_le_refl [simp]: "string_le s s"
  by (simp add: string_le_lexorder)

lemma string_le_trans: "string_le s t \<Longrightarrow> string_le t u \<Longrightarrow> string_le s u"
  unfolding string_le_lexorder by (rule order.trans)

text \<open>The first entries are in order.\<close>

fun ascending :: "string list \<Rightarrow> bool" where
  "ascending (s # t # us) \<longleftrightarrow> string_le s t \<and> ascending (t # us)"
| "ascending us = True"

lemma ascending_first: "ascending (s # us) \<Longrightarrow> u \<in> set us \<Longrightarrow> string_le s u"
proof (induction us arbitrary: s)
  case (Cons t us)
  then show ?case by (auto intro: string_le_trans)
qed simp

lemma ascending_tail: "ascending (s # us) \<Longrightarrow> ascending us"
  by (cases us) simp_all

lemma index_loop_counts: "index_loop url us \<le> length us"
  by (induction us) simp_all

lemma index_loop_below: "i < index_loop url us \<Longrightarrow> string_le (us ! i) url"
  by (induction us arbitrary: i) (auto simp: nth_Cons split: if_splits nat.splits)

lemma index_loop_next: "index_loop url us < length us \<Longrightarrow> \<not> string_le (us ! index_loop url us) url"
  by (induction us) (auto split: if_splits)

lemma index_loop_between:
  assumes "ascending us" and "i < length us"
  shows "i < index_loop url us \<longleftrightarrow> string_le (us ! i) url"
  using assms
proof (induction us arbitrary: i)
  case Nil
  then show ?case by simp
next
  case (Cons s us)
  have first: "string_le s url" if "j < length us" "string_le (us ! j) url" for j
    using ascending_first [OF Cons.prems(1) nth_mem [OF that(1)]] that(2) by (rule string_le_trans)
  show ?case
    using Cons.IH [OF ascending_tail [OF Cons.prems(1)]] Cons.prems(2) first by (cases i) auto
qed

text \<open>An anchor of nothing does not move the url into another file.\<close>

fun plain_url :: "string \<Rightarrow> bool" where
  "plain_url [] = True"
| "plain_url (c # s) =
     (if c = CHR ''#'' then (case s of [] \<Rightarrow> False | d # _ \<Rightarrow> d \<noteq> CHR ''l'') else plain_url s)"

lemma string_le_append: "string_le s t \<Longrightarrow> string_le s (t @ u)"
  by (induction s t rule: string_le.induct) (auto split: if_splits)

lemma plain_not_hash: "CHR ''#'' \<notin> set root \<Longrightarrow> \<not> plain_url (root @ ''#'')"
  by (induction root) auto

lemma string_le_hash:
  assumes "\<not> string_le s t" and "plain_url s" and "list_all (\<lambda>c. 35 \<le> (of_char c :: nat)) s"
    and "CHR ''#'' \<notin> set t"
  shows "\<not> string_le s (t @ ''#'')"
  using assms
proof (induction s t rule: string_le.induct)
  case (2 c s)
  have "of_char CHR ''#'' = (35 :: nat)" by simp
  then show ?case
    using 2 by (cases s) auto
next
  case (3 c s d t)
  then show ?case by (auto split: if_splits)
qed simp

text \<open>What follows the first \<open>#\<close>.\<close>

lemma plain_append: "CHR ''#'' \<notin> set root \<Longrightarrow> plain_url (root @ hash) = plain_url hash"
  by (induction root) auto

lemma line_anchor_not_plain: "is_line_anchor hash \<Longrightarrow> \<not> plain_url hash"
proof -
  assume "is_line_anchor hash"
  then obtain ds where "hash = CHR ''#'' # CHR ''l'' # ds"
    unfolding is_line_anchor_def by (cases hash; cases "tl hash") simp_all
  then show ?thesis by (simp only: plain_url.simps) simp
qed

section \<open>The node of a page\<close>

lemma tree_at_map:
  "tree_at (map_nodes f t) p = map_option (map_nodes f) (tree_at t p)"
proof (induction p arbitrary: t)
  case (Cons i p)
  then show ?case by (cases t) simp
qed simp

lemma tree_at_map_children:
  "p \<noteq> [] \<Longrightarrow> tree_at (Tree_node d (map (map_nodes f) ts)) p = map_option (map_nodes f) (tree_at (Tree_node d ts) p)"
  by (cases p) (simp_all add: tree_at_map)

lemma open_down_map:
  assumes "only_selects f"
  shows "open_down (map_nodes f t) p = open_down t p"
proof (induction p arbitrary: t)
  case (Cons i p)
  then show ?case
    by (cases t) (simp add: only_selects_fields [OF assms] cong: conj_cong)
qed simp

lemma open_down_map_children:
  "only_selects f \<Longrightarrow> open_down (Tree_node d (map (map_nodes f) ts)) p = open_down (Tree_node d ts) p"
  by (cases p) (auto simp: open_down_map)

lemma tree_at_update:
  "tree_at t p = Some v \<Longrightarrow> tree_at (update_node p f t) p = Some (Tree_node (f (node_info v)) (node_children v))"
  by (induction p f t rule: update_node.induct) (auto split: if_splits)

lemma open_down_update:
  assumes "only_selects f"
  shows "open_down t p \<Longrightarrow> open_down (update_node p f t) p"
  by (induction p f t rule: update_node.induct)
    (auto simp: only_selects_fields [OF assms])

lemma map_nodes_info: "node_info (map_nodes f t) = f (node_info t)"
  by (cases t) simp

text \<open>Where the selection ends: \<open>found\<close> are the items with the class of the page and anchor.\<close>

definition link_of_page :: "nav_page \<Rightarrow> string \<Rightarrow> string" where
  "link_of_page pg hash = stripPath (pathName pg) @ '':'' @ drop 1 hash"

definition has_item :: "nav_page \<Rightarrow> string \<Rightarrow> tree_node \<Rightarrow> bool" where
  "has_item pg hash t \<longleftrightarrow>
     hash \<noteq> [] \<and> list_ex (some_node (\<lambda>d. ends_with (a_class d) (link_of_page pg hash))) (node_children t)"

definition items_selected :: "nav_page \<Rightarrow> string \<Rightarrow> tree_node \<Rightarrow> bool" where
  "items_selected pg hash t \<longleftrightarrow> has_item pg hash t \<and>
     \<not> list_ex (some_node (\<lambda>d. ends_with (a_class d) (link_of_page pg hash) \<and> \<not> selected d)) (node_children t)"

text \<open>Selecting does not change the classes.\<close>

lemma some_node_map: "some_node P (map_nodes f t) = some_node (\<lambda>d. P (f d)) t"
  by (induction t) (simp add: list_ex_iff)

lemma some_node_False [simp]: "\<not> some_node (\<lambda>d. False) t"
  by (induction t) (auto simp: list_ex_iff)

lemma has_item_map:
  assumes "only_selects f"
  shows "has_item pg hash (Tree_node d (map (map_nodes f) ts)) = has_item pg hash (Tree_node d ts)"
  by (simp add: has_item_def list_ex_iff some_node_map only_selects_fields [OF assms])

lemma list_ex_update: "i < length ts \<Longrightarrow> Q u = Q (ts ! i) \<Longrightarrow> list_ex Q (ts[i := u]) = list_ex Q ts"
proof (induction ts arbitrary: i)
  case (Cons t ts)
  then show ?case by (cases i) auto
qed simp

lemma some_node_update:
  "(\<And>d. P (f d) = P d) \<Longrightarrow> some_node P (update_node p f t) = some_node P t"
proof (induction p f t rule: update_node.induct)
  case (1 f d ns)
  show ?case by (simp add: 1)
next
  case (2 i p f d ns)
  then show ?case by (simp add: list_ex_update)
qed

lemma has_item_update:
  assumes "only_selects f" and "p \<noteq> []"
  shows "has_item pg hash (update_node p f t) = has_item pg hash t"
proof -
  obtain i q where p: "p = i # q" using assms(2) by (cases p) simp_all
  obtain d ts where t: "t = Tree_node d ts" by (cases t)
  have "some_node (\<lambda>d. ends_with (a_class d) c) (update_node q f u) = some_node (\<lambda>d. ends_with (a_class d) c) u" for u c
    by (rule some_node_update) (simp add: only_selects_fields [OF assms(1)])
  then show ?thesis by (simp add: has_item_def p t list_ex_update)
qed

lemma all_selected:
  assumes "\<And>d b. found (d\<lparr>selected := b\<rparr>) = found d"
  shows "\<not> some_node (\<lambda>d. found d \<and> \<not> selected d) (map_nodes (\<lambda>d. if found d then d\<lparr>selected := True\<rparr> else d) t)"
proof -
  let ?f = "\<lambda>d. if found d then d\<lparr>selected := True\<rparr> else d"
  have "(\<lambda>d. found (?f d) \<and> \<not> selected (?f d)) = (\<lambda>d. False)"
    using assms by auto
  then show ?thesis by (simp only: some_node_map some_node_False not_False_eq_True)
qed

lemma selected_at:
  assumes at: "tree_at t p = Some v" and p: "p \<noteq> []" and shown: "represents pg scripts n v" and down: "open_down t p"
    and t': "t' = selectAndHighlight pg hash (Some p) t"
  shows "\<exists>w. tree_at t' p = Some w \<and> represents pg scripts n w \<and> open_down t' p \<and>
    (if has_item pg hash t' then items_selected pg hash t' else selected (node_info w)) \<and>
    (hash \<noteq> [] \<and> ends_with (a_class (node_info v)) (link_of_page pg hash) \<longrightarrow> selected (node_info w))"
proof -
  obtain d ts where t: "t = Tree_node d ts" by (cases t)
  define found :: "node_info \<Rightarrow> bool" where "found = (\<lambda>d. hash \<noteq> [] \<and> ends_with (a_class d) (link_of_page pg hash))"
  define f :: "node_info \<Rightarrow> node_info" where "f = (\<lambda>d. if found d then d\<lparr>selected := True\<rparr> else d)"
  have f: "only_selects f" unfolding f_def by (rule selecting)
  have keeps: "found (d\<lparr>selected := b\<rparr>) = found d" for d b by (simp add: found_def)
  have has_found: "has_item pg hash t \<longleftrightarrow> list_ex (some_node found) ts"
    by (cases "hash = []") (simp_all add: has_item_def found_def t list_ex_iff)
  show ?thesis
  proof (cases "list_ex (some_node found) ts")
    case True
    then have t'_map: "t' = Tree_node d (map (map_nodes f) ts)"
      by (simp add: t' selectAndHighlight_def link_of_page_def found_def f_def t)
    have item: "has_item pg hash t'"
      using has_found True has_item_map [OF f] by (simp add: t'_map t)
    then have "hash \<noteq> []" by (simp add: has_item_def)
    then have "(\<lambda>d. ends_with (a_class d) (link_of_page pg hash) \<and> \<not> selected d) = (\<lambda>d. found d \<and> \<not> selected d)"
      by (simp add: found_def)
    with item have "items_selected pg hash t'"
      using all_selected [of found, OF keeps] by (simp add: items_selected_def t'_map list_ex_iff f_def)
    moreover have "tree_at t' p = Some (map_nodes f v)"
      using tree_at_map_children [OF p, of d f ts] at by (simp add: t t'_map)
    moreover have "open_down t' p"
      using down by (simp add: open_down_map_children [OF f] t t'_map)
    moreover have "represents pg scripts n (map_nodes f v)"
      by (rule map_nodes_shows(1) [OF f shown])
    moreover have "found (node_info v) \<longrightarrow> selected (node_info (map_nodes f v))"
      by (simp add: f_def map_nodes_info)
    ultimately show ?thesis
      using item by (auto simp: found_def)
  next
    case False
    then have t'_upd: "t' = update_node p (\<lambda>d. d\<lparr>selected := True\<rparr>) t"
      by (simp add: t' selectAndHighlight_def link_of_page_def found_def t)
    have none: "\<not> has_item pg hash t'"
      using has_found False has_item_update [OF selecting(2) p] by (simp add: t'_upd)
    have "represents pg scripts n (Tree_node ((node_info v)\<lparr>selected := True\<rparr>) (node_children v))"
    proof (rule represents_same_item [OF shown])
      show "holds pg scripts (nav_children n) (Tree_node ((node_info v)\<lparr>selected := True\<rparr>) (node_children v))"
        using shown holds_selects [OF selecting(2) [of True], of pg scripts "nav_children n" "node_info v"]
        by (simp add: represents_iff)
    qed (simp add: item_fields_def)
    then show ?thesis
      using none tree_at_update [OF at, of "\<lambda>d. d\<lparr>selected := True\<rparr>"] open_down_update [OF selecting(2) [of True] down]
      by (simp add: t'_upd)
  qed
qed

section \<open>Going to a page\<close>

text \<open>The page of \<open>k\<close>'s file: its url is not below the first of the file, and below that of the next.\<close>

definition in_file :: "nat \<Rightarrow> string \<Rightarrow> bool" where
  "in_file k url \<longleftrightarrow>
     k < length NAVTREEINDEX \<and> string_le (NAVTREEINDEX ! k) url \<and>
     (Suc k < length NAVTREEINDEX \<longrightarrow> \<not> string_le (NAVTREEINDEX ! Suc k) url)"

lemma blocked_strings:
  "list_all P xs = list_all P xs" "string_le s t = string_le s t" "plain_url s = plain_url s"
  "starts_with s t = starts_with s t" "ascending us = ascending us"
  by simp_all

lemma NAVTREEINDEX_ascending: "ascending NAVTREEINDEX"
  unfolding NAVTREEINDEX_def by (simp cong: blocked_strings)

lemma NAVTREEINDEX_plain: "list_all plain_url NAVTREEINDEX"
  unfolding NAVTREEINDEX_def by (simp cong: blocked_strings)

lemma NAVTREEINDEX_chars: "list_all (list_all (\<lambda>c. 35 \<le> (of_char c :: nat))) NAVTREEINDEX"
  unfolding NAVTREEINDEX_def by (simp cong: blocked_strings)

lemma index_loop_in_file: "index_loop url NAVTREEINDEX = Suc k \<longleftrightarrow> in_file k url"
proof -
  note between = index_loop_between [OF NAVTREEINDEX_ascending, of _ url]
  have "index_loop url NAVTREEINDEX \<le> length NAVTREEINDEX" by (rule index_loop_counts)
  then show ?thesis
    using between [of k] between [of "Suc k"] unfolding in_file_def by linarith
qed

lemma in_file_hash:
  assumes "in_file k root" and "CHR ''#'' \<notin> set root"
  shows "in_file k (root @ ''#'')"
proof -
  have "\<not> string_le (NAVTREEINDEX ! Suc k) (root @ ''#'')" if "Suc k < length NAVTREEINDEX"
  proof (rule string_le_hash)
    show "\<not> string_le (NAVTREEINDEX ! Suc k) root" using assms(1) that by (simp add: in_file_def)
    show "plain_url (NAVTREEINDEX ! Suc k)"
      using NAVTREEINDEX_plain that by (simp add: list_all_length)
    show "list_all (\<lambda>c. 35 \<le> (of_char c :: nat)) (NAVTREEINDEX ! Suc k)"
      using NAVTREEINDEX_chars that by (simp add: list_all_length)
  qed (rule assms(2))
  then show ?thesis
    using assms(1) string_le_append by (simp add: in_file_def)
qed

end
