(* ===== verification/Nav_Goto.thy ===== *)
theory Nav_Goto
  imports Nav_Select
begin

text \<open>
  Going to a page: the class of the link of its node, and what is selected.
\<close>

section \<open>Paths and classes\<close>

lemma stripPath_append_class:
  assumes "CHR ''/'' \<notin> set a"
  shows "stripPath (s @ a) = stripPath s @ a"
proof -
  have "takeWhile (\<lambda>c. c \<noteq> CHR ''/'') (rev a @ rev s) = rev a @ takeWhile (\<lambda>c. c \<noteq> CHR ''/'') (rev s)"
    using assms by (intro takeWhile_append2) auto
  then show ?thesis by (simp add: stripPath_def)
qed

lemma hash_to_colon_first: "CHR ''#'' \<notin> set root \<Longrightarrow> hash_to_colon (root @ CHR ''#'' # a) = root @ CHR '':'' # a"
  by (induction root) auto

lemma hashValue_no_slash: "CHR ''/'' \<notin> set (hashValue fragment)"
proof -
  have "\<not> is_word CHR ''/''" by (simp add: is_word_def)
  then show ?thesis by (auto simp: hashValue_def keep_words_def)
qed

lemma class_of_page:
  assumes "CHR ''#'' \<notin> set root" and "\<not> starts_with (root @ hashUrl fragment) ''^''"
    and "stripPath (pathName pg) = stripPath root" and "nav_link n = Some (root @ hashUrl fragment)"
    and "item_of pg n d"
  shows "ends_with (a_class d) (link_of_page pg (hashUrl fragment))"
proof -
  let ?link = "root @ hashUrl fragment"
  obtain c cs where link: "?link = c # cs" by (cases root) (simp_all add: hashUrl_def)
  have "link_target pg ?link = (?link, relpath pg @ ?link)"
    using assms(2) by (simp add: link_target_def)
  then have "a_class d = stripPath (hash_to_colon ?link)"
    using assms(4,5) by (simp add: item_of_def link_fields_def link)
  also have "\<dots> = stripPath root @ CHR '':'' # hashValue fragment"
  proof -
    have "hash_to_colon ?link = (root @ '':'') @ hashValue fragment"
      using hash_to_colon_first [OF assms(1)] by (simp add: hashUrl_def)
    then show ?thesis
      using stripPath_append_class [of "'':''" root] stripPath_append_class [OF hashValue_no_slash, of "root @ '':''" fragment]
      by simp
  qed
  finally show ?thesis
    by (simp add: link_of_page_def ends_with_def hashUrl_def assms(3))
qed

section \<open>Going to a page\<close>

lemma last_value_key:
  assumes "url \<in> fst ` set index"
  obtains p where "last_value index url = Some p" "(url, p) \<in> set index"
proof -
  have "map_of (rev index) url \<noteq> None"
    using assms by (simp add: map_of_eq_None_iff)
  then show ?thesis
    using that map_of_SomeD by (fastforce simp: last_value_def)
qed

lemma last_value_None: "url \<notin> fst ` set index \<Longrightarrow> last_value index url = None"
  by (simp add: last_value_def map_of_eq_None_iff)

lemma navTo_target:
  assumes "in_file k (root @ hash)" and "\<not> is_line_anchor hash" and "indices k = Some index"
  shows "navTo pg scripts indices [] root hash tree = gotoNode pg scripts index root hash tree"
  using index_loop_in_file [of "root @ hash" k] assms
  by (simp add: navTo_def nav_target_def cached_target_def Let_def)

lemma gotoNode_selects:
  assumes "holds pg scripts (Nodes NAVTREE) tree" and "breadcrumbs_of index root hash = p"
    and "node_at scripts NAVTREE p = Some n" and "script_loads scripts (nav_children n)"
  shows "\<exists>t' v. gotoNode pg scripts index root hash tree = (t', Select p) \<and> tree_at t' p = Some v \<and>
    represents pg scripts n v \<and> open_down t' p \<and>
    (if has_item pg hash t' then items_selected pg hash t' else selected (node_info v)) \<and>
    (hash \<noteq> [] \<and> (\<forall>d. item_of pg n d \<longrightarrow> ends_with (a_class d) (link_of_page pg hash)) \<longrightarrow>
       selected (node_info v))"
proof -
  have p: "p \<noteq> []" using assms(2) by (auto simp: breadcrumbs_of_def)
  have ns: "children_of scripts (Nodes NAVTREE) = Some NAVTREE" by (simp add: children_of_def)
  obtain t v where show_p: "showNode pg scripts tree p = (t, Select p)" and at: "tree_at t p = Some v"
    and shown: "represents pg scripts n v" and down: "open_down t p"
    using showNode_path [OF assms(1) ns assms(3,4)] by blast
  have item: "item_of pg n (node_info v)" using shown by (simp add: represents_iff)
  have "gotoNode pg scripts index root hash tree = (selectAndHighlight pg hash (Some p) t, Select p)"
    by (simp add: gotoNode_def assms(2) show_p)
  then show ?thesis
    using selected_at [OF at p shown down refl, of hash] item by blast
qed

end
