(* ===== verification/Nav_Tables_1.thy ===== *)
theory Nav_Tables_1
  imports Nav_Data
begin

text \<open>
  Child tables of the navigation tree, one definition for each script, or several where the
  script is long: the nodes that the scripts put below the nodes that name them.
\<close>

definition functions_dup :: "nav_node list" where
  "functions_dup = [
    Nav_node ''_'' (Some ''functions.html'') Null,
    Nav_node ''a'' (Some ''functions_a.html'') Null,
    Nav_node ''b'' (Some ''functions_b.html'') Null,
    Nav_node ''c'' (Some ''functions_c.html'') Null,
    Nav_node ''d'' (Some ''functions_d.html'') Null,
    Nav_node ''e'' (Some ''functions_e.html'') Null,
    Nav_node ''f'' (Some ''functions_f.html'') Null,
    Nav_node ''h'' (Some ''functions_h.html'') Null,
    Nav_node ''i'' (Some ''functions_i.html'') Null,
    Nav_node ''l'' (Some ''functions_l.html'') Null,
    Nav_node ''m'' (Some ''functions_m.html'') Null,
    Nav_node ''n'' (Some ''functions_n.html'') Null,
    Nav_node ''o'' (Some ''functions_o.html'') Null,
    Nav_node ''p'' (Some ''functions_p.html'') Null,
    Nav_node ''q'' (Some ''functions_q.html'') Null,
    Nav_node ''r'' (Some ''functions_r.html'') Null,
    Nav_node ''s'' (Some ''functions_s.html'') Null,
    Nav_node ''t'' (Some ''functions_t.html'') Null,
    Nav_node ''u'' (Some ''functions_u.html'') Null,
    Nav_node ''v'' (Some ''functions_v.html'') Null,
    Nav_node ''w'' (Some ''functions_w.html'') Null,
    Nav_node ''x'' (Some ''functions_x.html'') Null,
    Nav_node ''z'' (Some ''functions_z.html'') Null]"

definition functions_vars :: "nav_node list" where
  "functions_vars = [
    Nav_node ''_'' (Some ''functions_vars.html'') Null,
    Nav_node ''a'' (Some ''functions_vars_a.html'') Null,
    Nav_node ''b'' (Some ''functions_vars_b.html'') Null,
    Nav_node ''c'' (Some ''functions_vars_c.html'') Null,
    Nav_node ''d'' (Some ''functions_vars_d.html'') Null,
    Nav_node ''e'' (Some ''functions_vars_e.html'') Null,
    Nav_node ''f'' (Some ''functions_vars_f.html'') Null,
    Nav_node ''h'' (Some ''functions_vars_h.html'') Null,
    Nav_node ''i'' (Some ''functions_vars_i.html'') Null,
    Nav_node ''l'' (Some ''functions_vars_l.html'') Null,
    Nav_node ''m'' (Some ''functions_vars_m.html'') Null,
    Nav_node ''n'' (Some ''functions_vars_n.html'') Null,
    Nav_node ''o'' (Some ''functions_vars_o.html'') Null,
    Nav_node ''p'' (Some ''functions_vars_p.html'') Null,
    Nav_node ''q'' (Some ''functions_vars_q.html'') Null,
    Nav_node ''r'' (Some ''functions_vars_r.html'') Null,
    Nav_node ''s'' (Some ''functions_vars_s.html'') Null,
    Nav_node ''t'' (Some ''functions_vars_t.html'') Null,
    Nav_node ''u'' (Some ''functions_vars_u.html'') Null,
    Nav_node ''v'' (Some ''functions_vars_v.html'') Null,
    Nav_node ''w'' (Some ''functions_vars_w.html'') Null,
    Nav_node ''x'' (Some ''functions_vars_x.html'') Null,
    Nav_node ''z'' (Some ''functions_vars_z.html'') Null]"

definition globals_dup :: "nav_node list" where
  "globals_dup = [
    Nav_node ''s'' (Some ''globals.html'') Null,
    Nav_node ''x'' (Some ''globals_x.html'') Null]"

definition globals_eval :: "nav_node list" where
  "globals_eval = [
    Nav_node ''x'' (Some ''globals_eval.html'') Null]"

definition globals_func :: "nav_node list" where
  "globals_func = [
    Nav_node ''s'' (Some ''globals_func.html'') Null,
    Nav_node ''x'' (Some ''globals_func_x.html'') Null]"

definition modules :: "nav_node list" where
  "modules = [
    Nav_node ''Decoding Instructions'' (Some ''group__DEC.html'') (Script ''group__DEC''),
    Nav_node ''Encoding Instructions'' (Some ''group__ENC.html'') (Script ''group__ENC''),
    Nav_node ''High Level API for Encoding Instructions'' (Some ''group__ENCHL.html'') (Script ''group__ENCHL''),
    Nav_node ''Operand storage fields'' (Some ''group__OPERANDS.html'') (Script ''group__OPERANDS''),
    Nav_node ''Iforms'' (Some ''group__IFORM.html'') (Script ''group__IFORM''),
    Nav_node ''Groupings of features for chips'' (Some ''group__ISASET.html'') (Script ''group__ISASET''),
    Nav_node ''Printing (disassembling) Instructions'' (Some ''group__PRINT.html'') (Script ''group__PRINT''),
    Nav_node ''Register Interface'' (Some ''group__REGINTFC.html'') (Script ''group__REGINTFC''),
    Nav_node ''Flags Interface'' (Some ''group__FLAGS.html'') (Script ''group__FLAGS''),
    Nav_node ''Address generation calculation support'' (Some ''group__AGEN.html'') (Script ''group__AGEN''),
    Nav_node ''XED enumerations'' (Some ''group__ENUM.html'') (Script ''group__ENUM''),
    Nav_node ''XED initialization'' (Some ''group__INIT.html'') (Script ''group__INIT''),
    Nav_node ''XED command interface'' (Some ''group__CMDLINE.html'') Null,
    Nav_node ''Examples of using XED'' (Some ''group__EXAMPLES.html'') Null,
    Nav_node ''Small Examples of using XED'' (Some ''group__SMALLEXAMPLES.html'') Null]"

definition group__AGEN :: "nav_node list" where
  "group__AGEN = [
    Nav_node ''xed_register_callback_fn_t'' (Some ''group__AGEN.html#gaa82047e0144a3bdc8b7bbc589ea1b525'') Null,
    Nav_node ''xed_segment_base_callback_fn_t'' (Some ''group__AGEN.html#gaafd062b3704e1d83484ea54e6e4ffb0f'') Null,
    Nav_node ''xed_agen'' (Some ''group__AGEN.html#ga5d9563bb7dbe87e21914fb59ac4e2476'') Null,
    Nav_node ''xed_agen_register_callback'' (Some ''group__AGEN.html#gaa111cc1eca35094f34c4349f9dec5668'') Null]"

definition files :: "nav_node list" where
  "files = [
    Nav_node ''xed-address-width-enum.h'' (Some ''xed-address-width-enum_8h.html'') (Script ''xed-address-width-enum_8h''),
    Nav_node ''xed-agen.h'' (Some ''xed-agen_8h.html'') (Script ''xed-agen_8h''),
    Nav_node ''xed-attribute-enum.h'' (Some ''xed-attribute-enum_8h.html'') (Script ''xed-attribute-enum_8h''),
    Nav_node ''xed-attributes.h'' (Some ''xed-attributes_8h.html'') (Nodes [
      Nav_node ''xed_attributes_t'' (Some ''structxed__attributes__t.html'') (Script ''structxed__attributes__t'')]),
    Nav_node ''xed-build-defines.h'' (Some ''xed-build-defines_8h.html'') (Script ''xed-build-defines_8h''),
    Nav_node ''xed-category-enum.h'' (Some ''xed-category-enum_8h.html'') (Script ''xed-category-enum_8h''),
    Nav_node ''xed-chip-enum.h'' (Some ''xed-chip-enum_8h.html'') (Script ''xed-chip-enum_8h''),
    Nav_node ''xed-common-defs.h'' (Some ''xed-common-defs_8h.html'') (Script ''xed-common-defs_8h''),
    Nav_node ''xed-common-hdrs.h'' (Some ''xed-common-hdrs_8h.html'') (Script ''xed-common-hdrs_8h''),
    Nav_node ''xed-convert-table-init.h'' (Some ''xed-convert-table-init_8h.html'') (Script ''xed-convert-table-init_8h''),
    Nav_node ''xed-decode.h'' (Some ''xed-decode_8h.html'') (Script ''xed-decode_8h''),
    Nav_node ''xed-decoded-inst-api.h'' (Some ''xed-decoded-inst-api_8h.html'') (Script ''xed-decoded-inst-api_8h''),
    Nav_node ''xed-decoded-inst.h'' (Some ''xed-decoded-inst_8h.html'') (Script ''xed-decoded-inst_8h''),
    Nav_node ''xed-disas.h'' (Some ''xed-disas_8h.html'') (Script ''xed-disas_8h''),
    Nav_node ''xed-encode.h'' (Some ''xed-encode_8h.html'') (Script ''xed-encode_8h''),
    Nav_node ''xed-encoder-gen-defs.h'' (Some ''xed-encoder-gen-defs_8h.html'') (Script ''xed-encoder-gen-defs_8h''),
    Nav_node ''xed-encoder-hl.h'' (Some ''xed-encoder-hl_8h.html'') (Script ''xed-encoder-hl_8h''),
    Nav_node ''xed-encoder-iforms.h'' (Some ''xed-encoder-iforms_8h.html'') (Script ''xed-encoder-iforms_8h''),
    Nav_node ''xed-error-enum.h'' (Some ''xed-error-enum_8h.html'') (Script ''xed-error-enum_8h''),
    Nav_node ''xed-exception-enum.h'' (Some ''xed-exception-enum_8h.html'') (Script ''xed-exception-enum_8h''),
    Nav_node ''xed-extension-enum.h'' (Some ''xed-extension-enum_8h.html'') (Script ''xed-extension-enum_8h''),
    Nav_node ''xed-flag-action-enum.h'' (Some ''xed-flag-action-enum_8h.html'') (Script ''xed-flag-action-enum_8h''),
    Nav_node ''xed-flag-enum.h'' (Some ''xed-flag-enum_8h.html'') (Script ''xed-flag-enum_8h''),
    Nav_node ''xed-flags.h'' (Some ''xed-flags_8h.html'') (Script ''xed-flags_8h''),
    Nav_node ''xed-format-options.h'' (Some ''xed-format-options_8h.html'') (Script ''xed-format-options_8h''),
    Nav_node ''xed-gen-table-defs.h'' (Some ''xed-gen-table-defs_8h.html'') (Script ''xed-gen-table-defs_8h''),
    Nav_node ''xed-get-time.h'' (Some ''xed-get-time_8h.html'') (Script ''xed-get-time_8h''),
    Nav_node ''xed-iclass-enum.h'' (Some ''xed-iclass-enum_8h.html'') (Script ''xed-iclass-enum_8h''),
    Nav_node ''xed-iform-enum.h'' (Some ''xed-iform-enum_8h.html'') (Script ''xed-iform-enum_8h''),
    Nav_node ''xed-iform-map.h'' (Some ''xed-iform-map_8h.html'') (Script ''xed-iform-map_8h''),
    Nav_node ''xed-iformfl-enum.h'' (Some ''xed-iformfl-enum_8h.html'') (Script ''xed-iformfl-enum_8h''),
    Nav_node ''xed-ild.h'' (Some ''xed-ild_8h.html'') (Script ''xed-ild_8h''),
    Nav_node ''xed-immdis.h'' (Some ''xed-immdis_8h.html'') (Script ''xed-immdis_8h''),
    Nav_node ''xed-immed.h'' (Some ''xed-immed_8h.html'') (Script ''xed-immed_8h''),
    Nav_node ''xed-init-pointer-names.h'' (Some ''xed-init-pointer-names_8h.html'') (Script ''xed-init-pointer-names_8h''),
    Nav_node ''xed-init.h'' (Some ''xed-init_8h.html'') (Script ''xed-init_8h''),
    Nav_node ''xed-inst.h'' (Some ''xed-inst_8h.html'') (Script ''xed-inst_8h''),
    Nav_node ''xed-interface.h'' (Some ''xed-interface_8h.html'') Null,
    Nav_node ''xed-isa-set-enum.h'' (Some ''xed-isa-set-enum_8h.html'') (Script ''xed-isa-set-enum_8h''),
    Nav_node ''xed-isa-set.h'' (Some ''xed-isa-set_8h.html'') (Script ''xed-isa-set_8h''),
    Nav_node ''xed-machine-mode-enum.h'' (Some ''xed-machine-mode-enum_8h.html'') (Script ''xed-machine-mode-enum_8h''),
    Nav_node ''xed-nonterminal-enum.h'' (Some ''xed-nonterminal-enum_8h.html'') (Script ''xed-nonterminal-enum_8h''),
    Nav_node ''xed-operand-accessors.h'' (Some ''xed-operand-accessors_8h.html'') (Script ''xed-operand-accessors_8h''),
    Nav_node ''xed-operand-action-enum.h'' (Some ''xed-operand-action-enum_8h.html'') (Script ''xed-operand-action-enum_8h''),
    Nav_node ''xed-operand-action.h'' (Some ''xed-operand-action_8h.html'') (Script ''xed-operand-action_8h''),
    Nav_node ''xed-operand-convert-enum.h'' (Some ''xed-operand-convert-enum_8h.html'') (Script ''xed-operand-convert-enum_8h''),
    Nav_node ''xed-operand-ctype-enum.h'' (Some ''xed-operand-ctype-enum_8h.html'') (Script ''xed-operand-ctype-enum_8h''),
    Nav_node ''xed-operand-ctype-map.h'' (Some ''xed-operand-ctype-map_8h.html'') (Script ''xed-operand-ctype-map_8h''),
    Nav_node ''xed-operand-element-type-enum.h'' (Some ''xed-operand-element-type-enum_8h.html'') (Script ''xed-operand-element-type-enum_8h''),
    Nav_node ''xed-operand-element-xtype-enum.h'' (Some ''xed-operand-element-xtype-enum_8h.html'') (Script ''xed-operand-element-xtype-enum_8h''),
    Nav_node ''xed-operand-enum.h'' (Some ''xed-operand-enum_8h.html'') (Script ''xed-operand-enum_8h''),
    Nav_node ''xed-operand-storage.h'' (Some ''xed-operand-storage_8h.html'') (Script ''xed-operand-storage_8h''),
    Nav_node ''xed-operand-type-enum.h'' (Some ''xed-operand-type-enum_8h.html'') (Script ''xed-operand-type-enum_8h''),
    Nav_node ''xed-operand-values-interface.h'' (Some ''xed-operand-values-interface_8h.html'') (Script ''xed-operand-values-interface_8h''),
    Nav_node ''xed-operand-visibility-enum.h'' (Some ''xed-operand-visibility-enum_8h.html'') (Script ''xed-operand-visibility-enum_8h''),
    Nav_node ''xed-operand-width-enum.h'' (Some ''xed-operand-width-enum_8h.html'') (Script ''xed-operand-width-enum_8h''),
    Nav_node ''xed-portability.h'' (Some ''xed-portability_8h.html'') (Script ''xed-portability_8h''),
    Nav_node ''xed-print-info.h'' (Some ''xed-print-info_8h.html'') (Script ''xed-print-info_8h''),
    Nav_node ''xed-reg-class-enum.h'' (Some ''xed-reg-class-enum_8h.html'') (Script ''xed-reg-class-enum_8h''),
    Nav_node ''xed-reg-class.h'' (Some ''xed-reg-class_8h.html'') (Script ''xed-reg-class_8h''),
    Nav_node ''xed-reg-enum.h'' (Some ''xed-reg-enum_8h.html'') (Script ''xed-reg-enum_8h''),
    Nav_node ''xed-reg-role-enum.h'' (Some ''xed-reg-role-enum_8h.html'') (Script ''xed-reg-role-enum_8h''),
    Nav_node ''xed-state.h'' (Some ''xed-state_8h.html'') (Script ''xed-state_8h''),
    Nav_node ''xed-syntax-enum.h'' (Some ''xed-syntax-enum_8h.html'') (Script ''xed-syntax-enum_8h''),
    Nav_node ''xed-types.h'' (Some ''xed-types_8h.html'') (Script ''xed-types_8h''),
    Nav_node ''xed-util.h'' (Some ''xed-util_8h.html'') (Script ''xed-util_8h''),
    Nav_node ''xed-version.h'' (Some ''xed-version_8h.html'') (Script ''xed-version_8h'')]"

definition xed_agen_8h :: "nav_node list" where
  "xed_agen_8h = [
    Nav_node ''xed_register_callback_fn_t'' (Some ''group__AGEN.html#gaa82047e0144a3bdc8b7bbc589ea1b525'') Null,
    Nav_node ''xed_segment_base_callback_fn_t'' (Some ''group__AGEN.html#gaafd062b3704e1d83484ea54e6e4ffb0f'') Null,
    Nav_node ''xed_agen'' (Some ''group__AGEN.html#ga5d9563bb7dbe87e21914fb59ac4e2476'') Null,
    Nav_node ''xed_agen_register_callback'' (Some ''group__AGEN.html#gaa111cc1eca35094f34c4349f9dec5668'') Null]"

definition group__DEC_1 :: "nav_node list" where
  "group__DEC_1 = [
    Nav_node ''xed_decoded_inst_s'' (Some ''structxed__decoded__inst__s.html'') (Nodes [
      Nav_node ''_byte_array'' (Some ''structxed__decoded__inst__s.html#a38b03be58fb05fab25bb86995a92e5fe'') Null,
      Nav_node ''_dec'' (Some ''structxed__decoded__inst__s.html#a412cdad60af0a1b6764572bd1e06341a'') Null,
      Nav_node ''_decoded_length'' (Some ''structxed__decoded__inst__s.html#a1fab5a1da476258bf447ee424db583da'') Null,
      Nav_node ''_enc'' (Some ''structxed__decoded__inst__s.html#acd3a82f4a7db2f2d84e13b80953fe5a1'') Null,
      Nav_node ''_inst'' (Some ''structxed__decoded__inst__s.html#ab08a8c51fc2965d6bd2f741281375145'') Null,
      Nav_node ''_n_operand_order'' (Some ''structxed__decoded__inst__s.html#a18dfd5080b21ef3e0dbdb4ee25eb607c'') Null,
      Nav_node ''_operand_order'' (Some ''structxed__decoded__inst__s.html#a39fccfddf6af7f038aa90aa643ae0a88'') Null,
      Nav_node ''_operands'' (Some ''structxed__decoded__inst__s.html#a88eb93f955acddf8676b8758954de21f'') Null,
      Nav_node ''ev'' (Some ''structxed__decoded__inst__s.html#a970cf4df570b46c91bcda570f9e909cc'') Null,
      Nav_node ''u'' (Some ''structxed__decoded__inst__s.html#a0db7e2fe9fff38507c45bc83a19eece0'') Null,
      Nav_node ''user_data'' (Some ''structxed__decoded__inst__s.html#a76dd7c3749de4ea740c3ae490bc53cce'') Null]),
    Nav_node ''xed_inst_s'' (Some ''structxed__inst__s.html'') (Nodes [
      Nav_node ''_attributes'' (Some ''structxed__inst__s.html#a03367ba1ec117dbfbd2f1f09e9a9b510'') Null,
      Nav_node ''_cpl'' (Some ''structxed__inst__s.html#a28c6d88881677fb400e4090e1870b572'') Null,
      Nav_node ''_exceptions'' (Some ''structxed__inst__s.html#aa3c2bcd18be8815cd9de0d3674bfc1c2'') Null,
      Nav_node ''_flag_complex'' (Some ''structxed__inst__s.html#aeef213bf1a5d21d2bf11bcf56c709b19'') Null,
      Nav_node ''_flag_info_index'' (Some ''structxed__inst__s.html#a75158b2726e38f4a99e2b211e0e400dc'') Null,
      Nav_node ''_iform_enum'' (Some ''structxed__inst__s.html#a56d07f8f78f5be97310c3b250643a0cc'') Null,
      Nav_node ''_noperands'' (Some ''structxed__inst__s.html#acb846ead9a58e1648b7df7b3ca3e2f3d'') Null,
      Nav_node ''_operand_base'' (Some ''structxed__inst__s.html#adcc7107673acf5c5329f75d9fbe23c9b'') Null]),
    Nav_node ''xed_operand_s'' (Some ''structxed__operand__s.html'') (Nodes [
      Nav_node ''_cvt_idx'' (Some ''structxed__operand__s.html#aeaa9312334b505ca705b317a153dfe8e'') Null,
      Nav_node ''_imm'' (Some ''structxed__operand__s.html#aadbfe169117889af4a00b8e66ad8d577'') Null,
      Nav_node ''_name'' (Some ''structxed__operand__s.html#a5648d7311aa0ac212d1d791ae77d61ca'') Null,
      Nav_node ''_nt'' (Some ''structxed__operand__s.html#af00fef3dfbd9105b34b58d36c96a07a5'') Null,
      Nav_node ''_oc2'' (Some ''structxed__operand__s.html#a2e68845abb787426ebe6c4329a81907a'') Null,
      Nav_node ''_operand_visibility'' (Some ''structxed__operand__s.html#aad61b6c9cff8c15a210b713249a62223'') Null,
      Nav_node ''_reg'' (Some ''structxed__operand__s.html#aecf0d39932822f1a79838ec7ff5d591a'') Null,
      Nav_node ''_rw'' (Some ''structxed__operand__s.html#aa9ecf1d105b566b58e4a9fd7aabb1ab6'') Null,
      Nav_node ''_type'' (Some ''structxed__operand__s.html#ad35e0891736807e22e0697801984b1ad'') Null,
      Nav_node ''_u'' (Some ''structxed__operand__s.html#aba714ff6405430b4e14121c21c50d8dc'') Null,
      Nav_node ''_xtype'' (Some ''structxed__operand__s.html#aa5179eb52a878085bb4a4201e941993a'') Null]),
    Nav_node ''xed_decoded_inst_t'' (Some ''group__DEC.html#gac566768d37da62eafbbda459f6fec3ac'') Null,
    Nav_node ''xed_inst_t'' (Some ''group__DEC.html#ga4410c86154ad601e0440a075864f9c4b'') Null,
    Nav_node ''xed_operand_t'' (Some ''group__DEC.html#ga507554fe5435fe99bf6a85df3d40645a'') Null,
    Nav_node ''xed_attribute'' (Some ''group__DEC.html#ga38f0b100d724d97d80a8291a494dde06'') Null,
    Nav_node ''xed_attribute_max'' (Some ''group__DEC.html#ga69fd7ed52eedd5fc2811050ab51903a4'') Null,
    Nav_node ''xed_decode'' (Some ''group__DEC.html#ga9a27c2bb97caf98a6024567b261d0652'') Null,
    Nav_node ''xed_decoded_inst_conditionally_writes_registers'' (Some ''group__DEC.html#gad267d2d08e002b027915248689d1defe'') Null,
    Nav_node ''xed_decoded_inst_get_attribute'' (Some ''group__DEC.html#gaca8af81eeb8a2613a3710f2163674bf7'') Null,
    Nav_node ''xed_decoded_inst_get_attributes'' (Some ''group__DEC.html#ga909d5dd4b05d60a655e9412283bb700f'') Null,
    Nav_node ''xed_decoded_inst_get_base_reg'' (Some ''group__DEC.html#gaef27a2e2c7c6cb84d8e6ba239267172a'') Null,
    Nav_node ''xed_decoded_inst_get_branch_displacement'' (Some ''group__DEC.html#gaada9b13de03dfeefff70f2d219504aae'') Null,
    Nav_node ''xed_decoded_inst_get_branch_displacement_width'' (Some ''group__DEC.html#ga6ce6a33dea91f1cb846c78cf2848be58'') Null,
    Nav_node ''xed_decoded_inst_get_branch_displacement_width_bits'' (Some ''group__DEC.html#ga6983743d83d51517bae4404d3345b865'') Null,
    Nav_node ''xed_decoded_inst_get_byte'' (Some ''group__DEC.html#ga89defb76a530889fb56b00ed2094d569'') Null,
    Nav_node ''xed_decoded_inst_get_category'' (Some ''group__DEC.html#gadb8cfb26a825d8a8d8dcbf49857eab63'') Null,
    Nav_node ''xed_decoded_inst_get_extension'' (Some ''group__DEC.html#ga2ad01ffd078ac7166c8a2bc1be1b6d4d'') Null,
    Nav_node ''xed_decoded_inst_get_iclass'' (Some ''group__DEC.html#ga2bc965a8dc2a1fee79b80b2c45d4329c'') Null,
    Nav_node ''xed_decoded_inst_get_iform_enum'' (Some ''group__DEC.html#gaf51f3a8153bdedec0d8864cc0e89b5c7'') Null,
    Nav_node ''xed_decoded_inst_get_iform_enum_dispatch'' (Some ''group__DEC.html#ga8c85bf31ee09bde1bb5b957699a38f71'') Null,
    Nav_node ''xed_decoded_inst_get_immediate_is_signed'' (Some ''group__DEC.html#ga7c752cb527745114566367dfa0bb176c'') Null,
    Nav_node ''xed_decoded_inst_get_immediate_width'' (Some ''group__DEC.html#ga91e972de2b4dfd4edac004d2cdf2768c'') Null,
    Nav_node ''xed_decoded_inst_get_immediate_width_bits'' (Some ''group__DEC.html#gad34f78b3aa239ec07a7d1b5537f7a12a'') Null,
    Nav_node ''xed_decoded_inst_get_index_reg'' (Some ''group__DEC.html#gad39ecfe4d1c3d95161f291e4d9a18280'') Null,
    Nav_node ''xed_decoded_inst_get_input_chip'' (Some ''group__DEC.html#ga506a9e92a55f3bc9aa60c223f86aca98'') Null,
    Nav_node ''xed_decoded_inst_get_isa_set'' (Some ''group__DEC.html#ga085ca25ab4513e982c563b30927dffc9'') Null,
    Nav_node ''xed_decoded_inst_get_length'' (Some ''group__DEC.html#gad1051f7b86c94d5670f684a6ea79fcdf'') Null,
    Nav_node ''xed_decoded_inst_get_machine_mode_bits'' (Some ''group__DEC.html#ga851d9b2b496b1af5fe79a15d325aa523'') Null,
    Nav_node ''xed_decoded_inst_get_memop_address_width'' (Some ''group__DEC.html#ga2e9a843ced57a9e4c655428da7ecb9f0'') Null,
    Nav_node ''xed_decoded_inst_get_memory_displacement'' (Some ''group__DEC.html#gaa8d22454961035b0fa6121c5f419817d'') Null,
    Nav_node ''xed_decoded_inst_get_memory_displacement_width'' (Some ''group__DEC.html#ga275efe423fe90a10a674da18f3265bd4'') Null,
    Nav_node ''xed_decoded_inst_get_memory_displacement_width_bits'' (Some ''group__DEC.html#ga1dbd440bd1bde01bd35d01ec1e518fb5'') Null,
    Nav_node ''xed_decoded_inst_get_memory_operand_length'' (Some ''group__DEC.html#gaecce1ea119eb21d3569ee0058d5ce084'') Null,
    Nav_node ''xed_decoded_inst_get_modrm'' (Some ''group__DEC.html#ga21740dee629a5b07e630f95604f6b649'') Null,
    Nav_node ''xed_decoded_inst_get_nprefixes'' (Some ''group__DEC.html#ga736415e126f916c307ca2580dda96266'') Null,
    Nav_node ''xed_decoded_inst_get_operand_width'' (Some ''group__DEC.html#gad4d75490247559d47fa417c71bd76722'') Null,
    Nav_node ''xed_decoded_inst_get_reg'' (Some ''group__DEC.html#ga16d972d293abe583a1caffb472b71418'') Null,
    Nav_node ''xed_decoded_inst_get_rflags_info'' (Some ''group__DEC.html#ga275353ead71e5915f810ef06c4149b68'') Null,
    Nav_node ''xed_decoded_inst_get_scale'' (Some ''group__DEC.html#ga77a570e03d56cd31e50f4bc54104b0f9'') Null,
    Nav_node ''xed_decoded_inst_get_second_immediate'' (Some ''group__DEC.html#gad1d32b618885f9d22aa75101664497e4'') Null,
    Nav_node ''xed_decoded_inst_get_seg_reg'' (Some ''group__DEC.html#ga1451e49df729a4fe1e650db6cb3343d2'') Null,
    Nav_node ''xed_decoded_inst_get_signed_immediate'' (Some ''group__DEC.html#gabbc8dec2bddec619bfe8f9a39c7ffdf4'') Null,
    Nav_node ''xed_decoded_inst_get_stack_address_mode_bits'' (Some ''group__DEC.html#ga25a74858d19b72bb44721b2e6427a5fe'') Null,
    Nav_node ''xed_decoded_inst_get_unsigned_immediate'' (Some ''group__DEC.html#ga79461981ed1722ab09a094915fb72428'') Null,
    Nav_node ''xed_decoded_inst_get_user_data'' (Some ''group__DEC.html#ga6d902e3364c9393c5f3b42a3f30442a0'') Null,
    Nav_node ''xed_decoded_inst_has_mpx_prefix'' (Some ''group__DEC.html#gac6648aa96058086b1624655a1718a184'') Null,
    Nav_node ''xed_decoded_inst_inst'' (Some ''group__DEC.html#gae507752abfa509bd72ee0903e873fe9e'') Null,
    Nav_node ''xed_decoded_inst_is_prefetch'' (Some ''group__DEC.html#gae8c0841f1b56911c50531e1fff2abb58'') Null,
    Nav_node ''xed_decoded_inst_is_xacquire'' (Some ''group__DEC.html#gaee7b54f292b0f74cd9feda1e0cdcb36a'') Null,
    Nav_node ''xed_decoded_inst_is_xrelease'' (Some ''group__DEC.html#ga18da6bb98a4cd12a2e5bf5db0df7206b'') Null,
    Nav_node ''xed_decoded_inst_masked_vector_operation'' (Some ''group__DEC.html#ga585cc1c3bcba8bc89997133442ddd99d'') Null,
    Nav_node ''xed_decoded_inst_masking'' (Some ''group__DEC.html#ga2930e4343c9bf41d39c906733fc4c895'') Null,
    Nav_node ''xed_decoded_inst_mem_read'' (Some ''group__DEC.html#ga1d1b81a6e49ae396bdad946439794b5f'') Null,
    Nav_node ''xed_decoded_inst_mem_written'' (Some ''group__DEC.html#gaeda7bba6faea14f777752fbab269d425'') Null,
    Nav_node ''xed_decoded_inst_mem_written_only'' (Some ''group__DEC.html#ga7dff98e10cc2432084fd5528f834bc35'') Null,
    Nav_node ''xed_decoded_inst_merging'' (Some ''group__DEC.html#ga17858b485e8094f852c0ff54926aebf9'') Null,
    Nav_node ''xed_decoded_inst_noperands'' (Some ''group__DEC.html#gaa8cca4acafb5dee2b4ecfafee1cca7b8'') Null,
    Nav_node ''xed_decoded_inst_number_of_memory_operands'' (Some ''group__DEC.html#gac093ecf9904ce025bafa8e7318ded0ec'') Null,
    Nav_node ''xed_decoded_inst_operand_action'' (Some ''group__DEC.html#ga5540113a3dfdf1472de90fdf7953cb5d'') Null,
    Nav_node ''xed_decoded_inst_operand_element_size_bits'' (Some ''group__DEC.html#ga156b957524c16e319ea7a610b0edde8b'') Null,
    Nav_node ''xed_decoded_inst_operand_element_type'' (Some ''group__DEC.html#gaf8bd2fcc7a694587c2d9b37e1267966b'') Null,
    Nav_node ''xed_decoded_inst_operand_elements'' (Some ''group__DEC.html#gaab1c722037d8a0ed755bc9f3672be6be'') Null,
    Nav_node ''xed_decoded_inst_operand_length'' (Some ''group__DEC.html#gaa030199ba499d2bcb67cbf7740d8d4c6'') Null,
    Nav_node ''xed_decoded_inst_operand_length_bits'' (Some ''group__DEC.html#ga89c92d9d1aeb47d1e77a86c3e82b097a'') Null,
    Nav_node ''xed_decoded_inst_operands'' (Some ''group__DEC.html#ga698e5a357d20e47f32ba155963526abd'') Null,
    Nav_node ''xed_decoded_inst_operands_const'' (Some ''group__DEC.html#ga38e372d3227817713159035cb47ad1fd'') Null,
    Nav_node ''xed_decoded_inst_set_branch_displacement'' (Some ''group__DEC.html#gab34c7c4ac7369256b6b57b015a9490af'') Null,
    Nav_node ''xed_decoded_inst_set_branch_displacement_bits'' (Some ''group__DEC.html#ga1b46a3f333598d21438849fb03867702'') Null,
    Nav_node ''xed_decoded_inst_set_immediate_signed'' (Some ''group__DEC.html#gaab164e3abdbd0902ced002923ded7c0a'') Null,
    Nav_node ''xed_decoded_inst_set_immediate_signed_bits'' (Some ''group__DEC.html#ga6654d373b4122309cb985a90baea2ec0'') Null,
    Nav_node ''xed_decoded_inst_set_immediate_unsigned'' (Some ''group__DEC.html#ga7ad3c8a1764288cab0c02a035c8aec1c'') Null,
    Nav_node ''xed_decoded_inst_set_immediate_unsigned_bits'' (Some ''group__DEC.html#ga3048427ba43f4978b291a36acea2eaae'') Null,
    Nav_node ''xed_decoded_inst_set_input_chip'' (Some ''group__DEC.html#gac5d7c9f47adfdfb31d45fa72c0dd7b84'') Null,
    Nav_node ''xed_decoded_inst_set_memory_displacement'' (Some ''group__DEC.html#ga6a4b96d0db7e35adb4fa7e4eaed79c30'') Null,
    Nav_node ''xed_decoded_inst_set_memory_displacement_bits'' (Some ''group__DEC.html#gac3c2f46de48f69534b4634b00e25e44d'') Null,
    Nav_node ''xed_decoded_inst_set_mode'' (Some ''group__DEC.html#ga05a09aff67ff9713d7dbf31fcbf0409b'') Null,
    Nav_node ''xed_decoded_inst_set_scale'' (Some ''group__DEC.html#gae568590fb678b524e5e1068d085d76dc'') Null,
    Nav_node ''xed_decoded_inst_set_user_data'' (Some ''group__DEC.html#ga87bdd1f7a9c5893a546351f205fed067'') Null,
    Nav_node ''xed_decoded_inst_uses_rflags'' (Some ''group__DEC.html#ga6922f0d03774f1d9ec1d402fb70e5c63'') Null,
    Nav_node ''xed_decoded_inst_valid'' (Some ''group__DEC.html#ga61f6182ded3ebf9d95c25116278d370d'') Null,
    Nav_node ''xed_decoded_inst_valid_for_chip'' (Some ''group__DEC.html#gaa85a69942c9d021eb47a8eace1ccf84e'') Null,
    Nav_node ''xed_decoded_inst_vector_length_bits'' (Some ''group__DEC.html#gab3f8aad7cae7a6289fe33389ceaa7bd6'') Null,
    Nav_node ''xed_decoded_inst_zero'' (Some ''group__DEC.html#ga187a0e161873242e9989a186466a06b6'') Null,
    Nav_node ''xed_decoded_inst_zero_keep_mode'' (Some ''group__DEC.html#ga02b8ece2f304b476494db4cf6d5b73d8'') Null,
    Nav_node ''xed_decoded_inst_zero_keep_mode_from_operands'' (Some ''group__DEC.html#ga15acf476d5d7d3b3fffa12e8ce4892aa'') Null,
    Nav_node ''xed_decoded_inst_zero_set_mode'' (Some ''group__DEC.html#gae32686224b685dfc7be3f13504e0a0df'') Null,
    Nav_node ''xed_decoded_inst_zeroing'' (Some ''group__DEC.html#ga1599729669bad560fb6ae6e11187bea8'') Null,
    Nav_node ''xed_ild_decode'' (Some ''group__DEC.html#ga4bef6152f61997a47c4e0fe4327a3254'') Null,
    Nav_node ''xed_inst_category'' (Some ''group__DEC.html#gab81b14e6d31cc013d3a0c414ee185093'') Null,
    Nav_node ''xed_inst_cpl'' (Some ''group__DEC.html#gaaf47d56bea81c3f7f815fab8cbc64a50'') Null,
    Nav_node ''xed_inst_exception'' (Some ''group__DEC.html#gabce6438e2c44a48490b169c27c4ffd48'') Null,
    Nav_node ''xed_inst_extension'' (Some ''group__DEC.html#ga561a6688c1f8666cef9d2182f299f5bc'') Null,
    Nav_node ''xed_inst_flag_info_index'' (Some ''group__DEC.html#ga00e6626154ca2a0e8f3f839149123650'') Null,
    Nav_node ''xed_inst_get_attribute'' (Some ''group__DEC.html#ga891edc51dbcf2a3282fdffa7e72be74c'') Null,
    Nav_node ''xed_inst_get_attributes'' (Some ''group__DEC.html#gaaab71faec458c04599977e003df8ad42'') Null,
    Nav_node ''xed_inst_iclass'' (Some ''group__DEC.html#ga301a5ea38e37d72d3b2623392908d1b9'') Null,
    Nav_node ''xed_inst_iform_enum'' (Some ''group__DEC.html#gab13c4e9442dfe6624ed492f1c6521286'') Null,
    Nav_node ''xed_inst_isa_set'' (Some ''group__DEC.html#ga6db12b2be0153b8cc8fffba00e4d3eaa'') Null,
    Nav_node ''xed_inst_noperands'' (Some ''group__DEC.html#ga5808f0c3992221777a51c9356bbfc1cf'') Null,
    Nav_node ''xed_inst_operand'' (Some ''group__DEC.html#ga6d9f85b730ee9800e311663b0ac2e2f9'') Null,
    Nav_node ''xed_inst_table_base'' (Some ''group__DEC.html#ga4213e284206b24be503bde043ff4bb43'') Null,
    Nav_node ''xed_operand_conditional_read'' (Some ''group__DEC.html#gae7b820b7db6c7437f1e0c6bb11510b10'') Null,
    Nav_node ''xed_operand_conditional_write'' (Some ''group__DEC.html#gad6b80021a33c772fa74a038f17343562'') Null,
    Nav_node ''xed_operand_imm'' (Some ''group__DEC.html#ga15cd2fdc19d6e7e9864df7b56e9235f0'') Null,
    Nav_node ''xed_operand_is_memory_addressing_register'' (Some ''group__DEC.html#ga336d0e245e83f1b90f609f72b136a2aa'') Null]"

definition group__DEC_2 :: "nav_node list" where
  "group__DEC_2 = [
    Nav_node ''xed_operand_is_register'' (Some ''group__DEC.html#gab506c3ac00ee5350d9b5ab55270c392c'') Null,
    Nav_node ''xed_operand_name'' (Some ''group__DEC.html#ga57209697b0dfb3e9ed4f694ca7cc16a4'') Null,
    Nav_node ''xed_operand_nonterminal_name'' (Some ''group__DEC.html#gaf690022f17c39fbc270373f013034b5b'') Null,
    Nav_node ''xed_operand_operand_visibility'' (Some ''group__DEC.html#ga2e8b5df9fc68c6aa7fbeb98735e1d4a9'') Null,
    Nav_node ''xed_operand_print'' (Some ''group__DEC.html#gab5528945cff3a8531a58103fffdcee97'') Null,
    Nav_node ''xed_operand_read'' (Some ''group__DEC.html#ga549f3a156257abb9979df806b436ad85'') Null,
    Nav_node ''xed_operand_read_and_written'' (Some ''group__DEC.html#ga53d4f48a25de19a158ac617bd2302fcd'') Null,
    Nav_node ''xed_operand_read_only'' (Some ''group__DEC.html#ga9cb66680c46f2ba09edbf63a8df3b52b'') Null,
    Nav_node ''xed_operand_reg'' (Some ''group__DEC.html#gac7b6d553eb70c5eeda751a20fe8ed1a4'') Null,
    Nav_node ''xed_operand_rw'' (Some ''group__DEC.html#gae5299214951891952401b5061e48a6ca'') Null,
    Nav_node ''xed_operand_template_is_register'' (Some ''group__DEC.html#gafea07afe6bade70f2ebfe3b491b99d41'') Null,
    Nav_node ''xed_operand_type'' (Some ''group__DEC.html#gacaf67b54704bacb6b47f5f2afcf2a4b1'') Null,
    Nav_node ''xed_operand_width'' (Some ''group__DEC.html#ga1159569c734bf712a40a2a88542d549d'') Null,
    Nav_node ''xed_operand_width_bits'' (Some ''group__DEC.html#gadbb0e75ea7e966e901ac37ab8956bd62'') Null,
    Nav_node ''xed_operand_written'' (Some ''group__DEC.html#gaadb2fcc833f5245dcbfd80dd0499694d'') Null,
    Nav_node ''xed_operand_written_only'' (Some ''group__DEC.html#ga7463fa65b041fb66790532ba6ea3ca50'') Null,
    Nav_node ''xed_operand_xtype'' (Some ''group__DEC.html#ga22c8091a766086dccc3e753a9963b737'') Null]"

definition group__DEC :: "nav_node list" where
  "group__DEC = group__DEC_1 @ group__DEC_2"

definition xed_inst_8h :: "nav_node list" where
  "xed_inst_8h = [
    Nav_node ''xed_inst_t'' (Some ''group__DEC.html#ga4410c86154ad601e0440a075864f9c4b'') Null,
    Nav_node ''xed_operand_extractor_fn_t'' (Some ''xed-inst_8h.html#ab42ac4782b59a5c7ec3718d56e7530c0'') Null,
    Nav_node ''xed_operand_t'' (Some ''group__DEC.html#ga507554fe5435fe99bf6a85df3d40645a'') Null,
    Nav_node ''xed_attribute'' (Some ''group__DEC.html#ga38f0b100d724d97d80a8291a494dde06'') Null,
    Nav_node ''xed_attribute_max'' (Some ''group__DEC.html#ga69fd7ed52eedd5fc2811050ab51903a4'') Null,
    Nav_node ''xed_inst_category'' (Some ''group__DEC.html#gab81b14e6d31cc013d3a0c414ee185093'') Null,
    Nav_node ''xed_inst_cpl'' (Some ''group__DEC.html#gaaf47d56bea81c3f7f815fab8cbc64a50'') Null,
    Nav_node ''xed_inst_exception'' (Some ''group__DEC.html#gabce6438e2c44a48490b169c27c4ffd48'') Null,
    Nav_node ''xed_inst_extension'' (Some ''group__DEC.html#ga561a6688c1f8666cef9d2182f299f5bc'') Null,
    Nav_node ''xed_inst_flag_info_index'' (Some ''group__DEC.html#ga00e6626154ca2a0e8f3f839149123650'') Null,
    Nav_node ''xed_inst_get_attribute'' (Some ''group__DEC.html#ga891edc51dbcf2a3282fdffa7e72be74c'') Null,
    Nav_node ''xed_inst_get_attributes'' (Some ''group__DEC.html#gaaab71faec458c04599977e003df8ad42'') Null,
    Nav_node ''xed_inst_iclass'' (Some ''group__DEC.html#ga301a5ea38e37d72d3b2623392908d1b9'') Null,
    Nav_node ''xed_inst_iform_enum'' (Some ''group__DEC.html#gab13c4e9442dfe6624ed492f1c6521286'') Null,
    Nav_node ''xed_inst_isa_set'' (Some ''group__DEC.html#ga6db12b2be0153b8cc8fffba00e4d3eaa'') Null,
    Nav_node ''xed_inst_noperands'' (Some ''group__DEC.html#ga5808f0c3992221777a51c9356bbfc1cf'') Null,
    Nav_node ''xed_inst_operand'' (Some ''group__DEC.html#ga6d9f85b730ee9800e311663b0ac2e2f9'') Null,
    Nav_node ''xed_inst_table_base'' (Some ''group__DEC.html#ga4213e284206b24be503bde043ff4bb43'') Null,
    Nav_node ''xed_operand_conditional_read'' (Some ''group__DEC.html#gae7b820b7db6c7437f1e0c6bb11510b10'') Null,
    Nav_node ''xed_operand_conditional_write'' (Some ''group__DEC.html#gad6b80021a33c772fa74a038f17343562'') Null,
    Nav_node ''xed_operand_imm'' (Some ''group__DEC.html#ga15cd2fdc19d6e7e9864df7b56e9235f0'') Null,
    Nav_node ''xed_operand_is_memory_addressing_register'' (Some ''group__DEC.html#ga336d0e245e83f1b90f609f72b136a2aa'') Null,
    Nav_node ''xed_operand_is_register'' (Some ''group__DEC.html#gab506c3ac00ee5350d9b5ab55270c392c'') Null,
    Nav_node ''xed_operand_name'' (Some ''group__DEC.html#ga57209697b0dfb3e9ed4f694ca7cc16a4'') Null,
    Nav_node ''xed_operand_nonterminal_name'' (Some ''group__DEC.html#gaf690022f17c39fbc270373f013034b5b'') Null,
    Nav_node ''xed_operand_operand_visibility'' (Some ''group__DEC.html#ga2e8b5df9fc68c6aa7fbeb98735e1d4a9'') Null,
    Nav_node ''xed_operand_print'' (Some ''group__DEC.html#gab5528945cff3a8531a58103fffdcee97'') Null,
    Nav_node ''xed_operand_read'' (Some ''group__DEC.html#ga549f3a156257abb9979df806b436ad85'') Null,
    Nav_node ''xed_operand_read_and_written'' (Some ''group__DEC.html#ga53d4f48a25de19a158ac617bd2302fcd'') Null,
    Nav_node ''xed_operand_read_only'' (Some ''group__DEC.html#ga9cb66680c46f2ba09edbf63a8df3b52b'') Null,
    Nav_node ''xed_operand_reg'' (Some ''group__DEC.html#gac7b6d553eb70c5eeda751a20fe8ed1a4'') Null,
    Nav_node ''xed_operand_rw'' (Some ''group__DEC.html#gae5299214951891952401b5061e48a6ca'') Null,
    Nav_node ''xed_operand_template_is_register'' (Some ''group__DEC.html#gafea07afe6bade70f2ebfe3b491b99d41'') Null,
    Nav_node ''xed_operand_type'' (Some ''group__DEC.html#gacaf67b54704bacb6b47f5f2afcf2a4b1'') Null,
    Nav_node ''xed_operand_width'' (Some ''group__DEC.html#ga1159569c734bf712a40a2a88542d549d'') Null,
    Nav_node ''xed_operand_width_bits'' (Some ''group__DEC.html#gadbb0e75ea7e966e901ac37ab8956bd62'') Null,
    Nav_node ''xed_operand_written'' (Some ''group__DEC.html#gaadb2fcc833f5245dcbfd80dd0499694d'') Null,
    Nav_node ''xed_operand_written_only'' (Some ''group__DEC.html#ga7463fa65b041fb66790532ba6ea3ca50'') Null,
    Nav_node ''xed_operand_xtype'' (Some ''group__DEC.html#ga22c8091a766086dccc3e753a9963b737'') Null]"

definition xed_decoded_inst_api_8h :: "nav_node list" where
  "xed_decoded_inst_api_8h = [
    Nav_node ''xed_decoded_inst_conditionally_writes_registers'' (Some ''group__DEC.html#gad267d2d08e002b027915248689d1defe'') Null,
    Nav_node ''xed_decoded_inst_dump'' (Some ''group__PRINT.html#ga988943de2c61305278f50a26bb9945bc'') Null,
    Nav_node ''xed_decoded_inst_dump_xed_format'' (Some ''group__PRINT.html#gafc335b6bbcbfaadcf3b4c5174c9e9444'') Null,
    Nav_node ''xed_decoded_inst_get_attribute'' (Some ''group__DEC.html#gaca8af81eeb8a2613a3710f2163674bf7'') Null,
    Nav_node ''xed_decoded_inst_get_attributes'' (Some ''group__DEC.html#ga909d5dd4b05d60a655e9412283bb700f'') Null,
    Nav_node ''xed_decoded_inst_get_base_reg'' (Some ''group__DEC.html#gaef27a2e2c7c6cb84d8e6ba239267172a'') Null,
    Nav_node ''xed_decoded_inst_get_branch_displacement'' (Some ''group__DEC.html#gaada9b13de03dfeefff70f2d219504aae'') Null,
    Nav_node ''xed_decoded_inst_get_branch_displacement_width'' (Some ''group__DEC.html#ga6ce6a33dea91f1cb846c78cf2848be58'') Null,
    Nav_node ''xed_decoded_inst_get_branch_displacement_width_bits'' (Some ''group__DEC.html#ga6983743d83d51517bae4404d3345b865'') Null,
    Nav_node ''xed_decoded_inst_get_byte'' (Some ''group__DEC.html#ga89defb76a530889fb56b00ed2094d569'') Null,
    Nav_node ''xed_decoded_inst_get_category'' (Some ''group__DEC.html#gadb8cfb26a825d8a8d8dcbf49857eab63'') Null,
    Nav_node ''xed_decoded_inst_get_extension'' (Some ''group__DEC.html#ga2ad01ffd078ac7166c8a2bc1be1b6d4d'') Null,
    Nav_node ''xed_decoded_inst_get_iclass'' (Some ''group__DEC.html#ga2bc965a8dc2a1fee79b80b2c45d4329c'') Null,
    Nav_node ''xed_decoded_inst_get_iform_enum'' (Some ''group__DEC.html#gaf51f3a8153bdedec0d8864cc0e89b5c7'') Null,
    Nav_node ''xed_decoded_inst_get_iform_enum_dispatch'' (Some ''group__DEC.html#ga8c85bf31ee09bde1bb5b957699a38f71'') Null,
    Nav_node ''xed_decoded_inst_get_immediate_is_signed'' (Some ''group__DEC.html#ga7c752cb527745114566367dfa0bb176c'') Null,
    Nav_node ''xed_decoded_inst_get_immediate_width'' (Some ''group__DEC.html#ga91e972de2b4dfd4edac004d2cdf2768c'') Null,
    Nav_node ''xed_decoded_inst_get_immediate_width_bits'' (Some ''group__DEC.html#gad34f78b3aa239ec07a7d1b5537f7a12a'') Null,
    Nav_node ''xed_decoded_inst_get_index_reg'' (Some ''group__DEC.html#gad39ecfe4d1c3d95161f291e4d9a18280'') Null,
    Nav_node ''xed_decoded_inst_get_input_chip'' (Some ''group__DEC.html#ga506a9e92a55f3bc9aa60c223f86aca98'') Null,
    Nav_node ''xed_decoded_inst_get_isa_set'' (Some ''group__DEC.html#ga085ca25ab4513e982c563b30927dffc9'') Null,
    Nav_node ''xed_decoded_inst_get_length'' (Some ''group__DEC.html#gad1051f7b86c94d5670f684a6ea79fcdf'') Null,
    Nav_node ''xed_decoded_inst_get_machine_mode_bits'' (Some ''group__DEC.html#ga851d9b2b496b1af5fe79a15d325aa523'') Null,
    Nav_node ''xed_decoded_inst_get_memop_address_width'' (Some ''group__DEC.html#ga2e9a843ced57a9e4c655428da7ecb9f0'') Null,
    Nav_node ''xed_decoded_inst_get_memory_displacement'' (Some ''group__DEC.html#gaa8d22454961035b0fa6121c5f419817d'') Null,
    Nav_node ''xed_decoded_inst_get_memory_displacement_width'' (Some ''group__DEC.html#ga275efe423fe90a10a674da18f3265bd4'') Null,
    Nav_node ''xed_decoded_inst_get_memory_displacement_width_bits'' (Some ''group__DEC.html#ga1dbd440bd1bde01bd35d01ec1e518fb5'') Null,
    Nav_node ''xed_decoded_inst_get_memory_operand_length'' (Some ''group__DEC.html#gaecce1ea119eb21d3569ee0058d5ce084'') Null,
    Nav_node ''xed_decoded_inst_get_modrm'' (Some ''group__DEC.html#ga21740dee629a5b07e630f95604f6b649'') Null,
    Nav_node ''xed_decoded_inst_get_nprefixes'' (Some ''group__DEC.html#ga736415e126f916c307ca2580dda96266'') Null,
    Nav_node ''xed_decoded_inst_get_operand_width'' (Some ''group__DEC.html#gad4d75490247559d47fa417c71bd76722'') Null,
    Nav_node ''xed_decoded_inst_get_reg'' (Some ''group__DEC.html#ga16d972d293abe583a1caffb472b71418'') Null,
    Nav_node ''xed_decoded_inst_get_rflags_info'' (Some ''group__DEC.html#ga275353ead71e5915f810ef06c4149b68'') Null,
    Nav_node ''xed_decoded_inst_get_scale'' (Some ''group__DEC.html#ga77a570e03d56cd31e50f4bc54104b0f9'') Null,
    Nav_node ''xed_decoded_inst_get_second_immediate'' (Some ''group__DEC.html#gad1d32b618885f9d22aa75101664497e4'') Null,
    Nav_node ''xed_decoded_inst_get_seg_reg'' (Some ''group__DEC.html#ga1451e49df729a4fe1e650db6cb3343d2'') Null,
    Nav_node ''xed_decoded_inst_get_signed_immediate'' (Some ''group__DEC.html#gabbc8dec2bddec619bfe8f9a39c7ffdf4'') Null,
    Nav_node ''xed_decoded_inst_get_stack_address_mode_bits'' (Some ''group__DEC.html#ga25a74858d19b72bb44721b2e6427a5fe'') Null,
    Nav_node ''xed_decoded_inst_get_unsigned_immediate'' (Some ''group__DEC.html#ga79461981ed1722ab09a094915fb72428'') Null,
    Nav_node ''xed_decoded_inst_get_user_data'' (Some ''group__DEC.html#ga6d902e3364c9393c5f3b42a3f30442a0'') Null,
    Nav_node ''xed_decoded_inst_has_mpx_prefix'' (Some ''group__DEC.html#gac6648aa96058086b1624655a1718a184'') Null,
    Nav_node ''xed_decoded_inst_inst'' (Some ''group__DEC.html#gae507752abfa509bd72ee0903e873fe9e'') Null,
    Nav_node ''xed_decoded_inst_is_prefetch'' (Some ''group__DEC.html#gae8c0841f1b56911c50531e1fff2abb58'') Null,
    Nav_node ''xed_decoded_inst_is_xacquire'' (Some ''group__DEC.html#gaee7b54f292b0f74cd9feda1e0cdcb36a'') Null,
    Nav_node ''xed_decoded_inst_is_xrelease'' (Some ''group__DEC.html#ga18da6bb98a4cd12a2e5bf5db0df7206b'') Null,
    Nav_node ''xed_decoded_inst_masked_vector_operation'' (Some ''group__DEC.html#ga585cc1c3bcba8bc89997133442ddd99d'') Null,
    Nav_node ''xed_decoded_inst_masking'' (Some ''group__DEC.html#ga2930e4343c9bf41d39c906733fc4c895'') Null,
    Nav_node ''xed_decoded_inst_mem_read'' (Some ''group__DEC.html#ga1d1b81a6e49ae396bdad946439794b5f'') Null,
    Nav_node ''xed_decoded_inst_mem_written'' (Some ''group__DEC.html#gaeda7bba6faea14f777752fbab269d425'') Null,
    Nav_node ''xed_decoded_inst_mem_written_only'' (Some ''group__DEC.html#ga7dff98e10cc2432084fd5528f834bc35'') Null,
    Nav_node ''xed_decoded_inst_merging'' (Some ''group__DEC.html#ga17858b485e8094f852c0ff54926aebf9'') Null,
    Nav_node ''xed_decoded_inst_noperands'' (Some ''group__DEC.html#gaa8cca4acafb5dee2b4ecfafee1cca7b8'') Null,
    Nav_node ''xed_decoded_inst_number_of_memory_operands'' (Some ''group__DEC.html#gac093ecf9904ce025bafa8e7318ded0ec'') Null,
    Nav_node ''xed_decoded_inst_operand_action'' (Some ''group__DEC.html#ga5540113a3dfdf1472de90fdf7953cb5d'') Null,
    Nav_node ''xed_decoded_inst_operand_element_size_bits'' (Some ''group__DEC.html#ga156b957524c16e319ea7a610b0edde8b'') Null,
    Nav_node ''xed_decoded_inst_operand_element_type'' (Some ''group__DEC.html#gaf8bd2fcc7a694587c2d9b37e1267966b'') Null,
    Nav_node ''xed_decoded_inst_operand_elements'' (Some ''group__DEC.html#gaab1c722037d8a0ed755bc9f3672be6be'') Null,
    Nav_node ''xed_decoded_inst_operand_length'' (Some ''group__DEC.html#gaa030199ba499d2bcb67cbf7740d8d4c6'') Null,
    Nav_node ''xed_decoded_inst_operand_length_bits'' (Some ''group__DEC.html#ga89c92d9d1aeb47d1e77a86c3e82b097a'') Null,
    Nav_node ''xed_decoded_inst_operands'' (Some ''group__DEC.html#ga698e5a357d20e47f32ba155963526abd'') Null,
    Nav_node ''xed_decoded_inst_operands_const'' (Some ''group__DEC.html#ga38e372d3227817713159035cb47ad1fd'') Null,
    Nav_node ''xed_decoded_inst_set_branch_displacement'' (Some ''group__DEC.html#gab34c7c4ac7369256b6b57b015a9490af'') Null,
    Nav_node ''xed_decoded_inst_set_branch_displacement_bits'' (Some ''group__DEC.html#ga1b46a3f333598d21438849fb03867702'') Null,
    Nav_node ''xed_decoded_inst_set_immediate_signed'' (Some ''group__DEC.html#gaab164e3abdbd0902ced002923ded7c0a'') Null,
    Nav_node ''xed_decoded_inst_set_immediate_signed_bits'' (Some ''group__DEC.html#ga6654d373b4122309cb985a90baea2ec0'') Null,
    Nav_node ''xed_decoded_inst_set_immediate_unsigned'' (Some ''group__DEC.html#ga7ad3c8a1764288cab0c02a035c8aec1c'') Null,
    Nav_node ''xed_decoded_inst_set_immediate_unsigned_bits'' (Some ''group__DEC.html#ga3048427ba43f4978b291a36acea2eaae'') Null,
    Nav_node ''xed_decoded_inst_set_input_chip'' (Some ''group__DEC.html#gac5d7c9f47adfdfb31d45fa72c0dd7b84'') Null,
    Nav_node ''xed_decoded_inst_set_memory_displacement'' (Some ''group__DEC.html#ga6a4b96d0db7e35adb4fa7e4eaed79c30'') Null,
    Nav_node ''xed_decoded_inst_set_memory_displacement_bits'' (Some ''group__DEC.html#gac3c2f46de48f69534b4634b00e25e44d'') Null,
    Nav_node ''xed_decoded_inst_set_mode'' (Some ''group__DEC.html#ga05a09aff67ff9713d7dbf31fcbf0409b'') Null,
    Nav_node ''xed_decoded_inst_set_scale'' (Some ''group__DEC.html#gae568590fb678b524e5e1068d085d76dc'') Null,
    Nav_node ''xed_decoded_inst_set_user_data'' (Some ''group__DEC.html#ga87bdd1f7a9c5893a546351f205fed067'') Null,
    Nav_node ''xed_decoded_inst_uses_rflags'' (Some ''group__DEC.html#ga6922f0d03774f1d9ec1d402fb70e5c63'') Null,
    Nav_node ''xed_decoded_inst_valid'' (Some ''group__DEC.html#ga61f6182ded3ebf9d95c25116278d370d'') Null,
    Nav_node ''xed_decoded_inst_valid_for_chip'' (Some ''group__DEC.html#gaa85a69942c9d021eb47a8eace1ccf84e'') Null,
    Nav_node ''xed_decoded_inst_vector_length_bits'' (Some ''group__DEC.html#gab3f8aad7cae7a6289fe33389ceaa7bd6'') Null,
    Nav_node ''xed_decoded_inst_zero'' (Some ''group__DEC.html#ga187a0e161873242e9989a186466a06b6'') Null,
    Nav_node ''xed_decoded_inst_zero_keep_mode'' (Some ''group__DEC.html#ga02b8ece2f304b476494db4cf6d5b73d8'') Null,
    Nav_node ''xed_decoded_inst_zero_keep_mode_from_operands'' (Some ''group__DEC.html#ga15acf476d5d7d3b3fffa12e8ce4892aa'') Null,
    Nav_node ''xed_decoded_inst_zero_set_mode'' (Some ''group__DEC.html#gae32686224b685dfc7be3f13504e0a0df'') Null,
    Nav_node ''xed_decoded_inst_zeroing'' (Some ''group__DEC.html#ga1599729669bad560fb6ae6e11187bea8'') Null,
    Nav_node ''xed_format_context'' (Some ''group__PRINT.html#gac09057f278cb90a5faefb39aaf4431e0'') Null,
    Nav_node ''xed_format_generic'' (Some ''group__PRINT.html#gaf353624c80f5c7d770bbdfc95a54acba'') Null]"

definition xed_ild_8h :: "nav_node list" where
  "xed_ild_8h = [
    Nav_node ''xed_ild_decode'' (Some ''group__DEC.html#ga4bef6152f61997a47c4e0fe4327a3254'') Null]"

definition xed_decode_8h :: "nav_node list" where
  "xed_decode_8h = [
    Nav_node ''xed_decode'' (Some ''group__DEC.html#ga9a27c2bb97caf98a6024567b261d0652'') Null]"

definition annotated :: "nav_node list" where
  "annotated = [
    Nav_node ''xed_attributes_t'' (Some ''structxed__attributes__t.html'') (Script ''structxed__attributes__t''),
    Nav_node ''xed_convert_table_t'' (Some ''structxed__convert__table__t.html'') (Script ''structxed__convert__table__t''),
    Nav_node ''xed_decoded_inst_s'' (Some ''structxed__decoded__inst__s.html'') (Script ''structxed__decoded__inst__s''),
    Nav_node ''xed_enc_displacement_t'' (Some ''structxed__enc__displacement__t.html'') (Script ''structxed__enc__displacement__t''),
    Nav_node ''xed_encoder_iforms_s'' (Some ''structxed__encoder__iforms__s.html'') (Script ''structxed__encoder__iforms__s''),
    Nav_node ''xed_encoder_instruction_t'' (Some ''structxed__encoder__instruction__t.html'') (Script ''structxed__encoder__instruction__t''),
    Nav_node ''xed_encoder_operand_t'' (Some ''structxed__encoder__operand__t.html'') (Script ''structxed__encoder__operand__t''),
    Nav_node ''xed_encoder_prefixes_t'' (Some ''unionxed__encoder__prefixes__t.html'') (Script ''unionxed__encoder__prefixes__t''),
    Nav_node ''xed_flag_enum_s'' (Some ''structxed__flag__enum__s.html'') (Script ''structxed__flag__enum__s''),
    Nav_node ''xed_flag_set_s'' (Some ''unionxed__flag__set__s.html'') (Script ''unionxed__flag__set__s''),
    Nav_node ''xed_format_options_t'' (Some ''structxed__format__options__t.html'') (Script ''structxed__format__options__t''),
    Nav_node ''xed_iform_info_s'' (Some ''structxed__iform__info__s.html'') (Script ''structxed__iform__info__s''),
    Nav_node ''xed_immdis_s'' (Some ''structxed__immdis__s.html'') (Script ''structxed__immdis__s''),
    Nav_node ''xed_immdis_values_t'' (Some ''unionxed__immdis__values__t.html'') (Script ''unionxed__immdis__values__t''),
    Nav_node ''xed_inst_s'' (Some ''structxed__inst__s.html'') (Script ''structxed__inst__s''),
    Nav_node ''xed_memop_t'' (Some ''structxed__memop__t.html'') (Script ''structxed__memop__t''),
    Nav_node ''xed_operand_s'' (Some ''structxed__operand__s.html'') (Script ''structxed__operand__s''),
    Nav_node ''xed_operand_storage_s'' (Some ''structxed__operand__storage__s.html'') (Script ''structxed__operand__storage__s''),
    Nav_node ''xed_print_info_t'' (Some ''structxed__print__info__t.html'') (Script ''structxed__print__info__t''),
    Nav_node ''xed_simple_flag_s'' (Some ''structxed__simple__flag__s.html'') (Script ''structxed__simple__flag__s''),
    Nav_node ''xed_state_s'' (Some ''structxed__state__s.html'') (Script ''structxed__state__s''),
    Nav_node ''xed_union16_t'' (Some ''unionxed__union16__t.html'') (Script ''unionxed__union16__t''),
    Nav_node ''xed_union32_t'' (Some ''unionxed__union32__t.html'') (Script ''unionxed__union32__t''),
    Nav_node ''xed_union64_t'' (Some ''unionxed__union64__t.html'') (Script ''unionxed__union64__t'')]"

definition structxed__encoder__iforms__s :: "nav_node list" where
  "structxed__encoder__iforms__s = [
    Nav_node ''x_AVX512_EVEX_BYTE3_ENC'' (Some ''structxed__encoder__iforms__s.html#a3820e96212ec0b483907199b63eb086a'') Null,
    Nav_node ''x_BRDISP32'' (Some ''structxed__encoder__iforms__s.html#afff400756c25201d13b5495c03257ca3'') Null,
    Nav_node ''x_BRDISP8'' (Some ''structxed__encoder__iforms__s.html#aa8aa7299d15fc317aaed24685ab17db5'') Null,
    Nav_node ''x_BRDISPz'' (Some ''structxed__encoder__iforms__s.html#a2b7e8b95a46a0e523224b202f71e8831'') Null,
    Nav_node ''x_DISP_NT'' (Some ''structxed__encoder__iforms__s.html#a152a2063eb97c37cecd9937bd7bd6c28'') Null,
    Nav_node ''x_EVEX_62_REXR_ENC'' (Some ''structxed__encoder__iforms__s.html#a14e96596e3e59ea2b4136b48a6b93641'') Null,
    Nav_node ''x_EVEX_MAP_ENC'' (Some ''structxed__encoder__iforms__s.html#ab8d89b51f6bb76d4c998d9af8ea9da05'') Null,
    Nav_node ''x_EVEX_REXB_ENC'' (Some ''structxed__encoder__iforms__s.html#a342e618076287b55fb8e5f2f29f1e8af'') Null,
    Nav_node ''x_EVEX_REXRR_ENC'' (Some ''structxed__encoder__iforms__s.html#acf8c6c7bf9201838ae4bc3ce1cff9ac1'') Null,
    Nav_node ''x_EVEX_REXW_VVVV_ENC'' (Some ''structxed__encoder__iforms__s.html#aa45b74d4e4a2de5a62431febfa726815'') Null,
    Nav_node ''x_EVEX_REXX_ENC'' (Some ''structxed__encoder__iforms__s.html#aa5df24f9eade9dc7eee61d89402b72d8'') Null,
    Nav_node ''x_EVEX_UPP_ENC'' (Some ''structxed__encoder__iforms__s.html#a78ef74182c4c307f443faf95a5b1f438'') Null,
    Nav_node ''x_MEMDISP'' (Some ''structxed__encoder__iforms__s.html#aecf552a6d0053c428a5a45ab9a3bb40e'') Null,
    Nav_node ''x_MEMDISP16'' (Some ''structxed__encoder__iforms__s.html#af4ba52e40d39f6941c20c307bc78a752'') Null,
    Nav_node ''x_MEMDISP32'' (Some ''structxed__encoder__iforms__s.html#aa29614089511a1d167826e4863822506'') Null,
    Nav_node ''x_MEMDISP8'' (Some ''structxed__encoder__iforms__s.html#aa0c8b2549f6582253528f54e35be86fe'') Null,
    Nav_node ''x_MEMDISPv'' (Some ''structxed__encoder__iforms__s.html#ad6dae0c9381705ec18fd901edae84396'') Null,
    Nav_node ''x_MODRM_MOD_ENCODE'' (Some ''structxed__encoder__iforms__s.html#a6922f370d3cd4c40a27a0aa7bbbede26'') Null,
    Nav_node ''x_MODRM_RM_ENCODE'' (Some ''structxed__encoder__iforms__s.html#adbb4c4a997a3b30ac03967078b99310a'') Null,
    Nav_node ''x_MODRM_RM_ENCODE_EA16_SIB0'' (Some ''structxed__encoder__iforms__s.html#ab9ea4adab24b31ebeb1236082f4c45ad'') Null,
    Nav_node ''x_MODRM_RM_ENCODE_EA32_SIB0'' (Some ''structxed__encoder__iforms__s.html#a41b892eee1a69e58eee5ef62e21a0610'') Null,
    Nav_node ''x_MODRM_RM_ENCODE_EA64_SIB0'' (Some ''structxed__encoder__iforms__s.html#ac63f974638dfea517b739c95d4b2a2a8'') Null,
    Nav_node ''x_PREFIX_ENC'' (Some ''structxed__encoder__iforms__s.html#a9ea7eccf4fab4b339f46dc5292b26b62'') Null,
    Nav_node ''x_REMOVE_SEGMENT'' (Some ''structxed__encoder__iforms__s.html#ae7c343e115afb5891444a6d465c30cd9'') Null,
    Nav_node ''x_REX_PREFIX_ENC'' (Some ''structxed__encoder__iforms__s.html#a70bfd7e87f9c4eacb457aab9191d69b2'') Null,
    Nav_node ''x_SE_IMM8'' (Some ''structxed__encoder__iforms__s.html#a1f46a70b1b1fc1b78bf3bf7fcb78763a'') Null,
    Nav_node ''x_SIB_NT'' (Some ''structxed__encoder__iforms__s.html#a651dd98e71e5bd13635af003e3576924'') Null,
    Nav_node ''x_SIBBASE_ENCODE'' (Some ''structxed__encoder__iforms__s.html#a7cf6146b5d3e94fecff409226ca5401c'') Null,
    Nav_node ''x_SIBBASE_ENCODE_SIB1'' (Some ''structxed__encoder__iforms__s.html#a40059c6b45c7376acf57ae39ec12fd7b'') Null,
    Nav_node ''x_SIBINDEX_ENCODE'' (Some ''structxed__encoder__iforms__s.html#a6aaeec0bd98806332e6ef56521ce40d2'') Null,
    Nav_node ''x_SIMM8'' (Some ''structxed__encoder__iforms__s.html#afb61ecb93c8e429eaec8514cd2a1e9a3'') Null,
    Nav_node ''x_SIMMz'' (Some ''structxed__encoder__iforms__s.html#ac940fb64740cab964309b07c5e7b9ff3'') Null,
    Nav_node ''x_UIMM16'' (Some ''structxed__encoder__iforms__s.html#a3feedd483567ef9667d3bdad0661cffe'') Null,
    Nav_node ''x_UIMM32'' (Some ''structxed__encoder__iforms__s.html#a7a0b47b6a2e04437a1c2587b66bee7e0'') Null,
    Nav_node ''x_UIMM8'' (Some ''structxed__encoder__iforms__s.html#a5533f378f8139fc2f320e7ccbd010d1d'') Null,
    Nav_node ''x_UIMM8_1'' (Some ''structxed__encoder__iforms__s.html#a910f7d149786b92a451ec3a84bd484dc'') Null,
    Nav_node ''x_UIMMv'' (Some ''structxed__encoder__iforms__s.html#a7c7d636e1a287e882b94082ca1f158be'') Null,
    Nav_node ''x_UISA_SE_IMM8'' (Some ''structxed__encoder__iforms__s.html#a333a8d9c00dced8f8e0f8168b33a0fa7'') Null,
    Nav_node ''x_VEX_ESCVL_ENC'' (Some ''structxed__encoder__iforms__s.html#a0e3bafbdfad96e067ec02665273eb8ab'') Null,
    Nav_node ''x_VEX_MAP_ENC'' (Some ''structxed__encoder__iforms__s.html#a15f4b472f94f8a2738bc6e5d340fcc2e'') Null,
    Nav_node ''x_VEX_REG_ENC'' (Some ''structxed__encoder__iforms__s.html#a8f1a2b2c552141dd1a9b284f7d7b4021'') Null,
    Nav_node ''x_VEX_REXR_ENC'' (Some ''structxed__encoder__iforms__s.html#a7aea255eacbdcfe740a5d0c8c52412c6'') Null,
    Nav_node ''x_VEX_REXXB_ENC'' (Some ''structxed__encoder__iforms__s.html#a0ae8567614749060dc983ae2d23736fd'') Null,
    Nav_node ''x_VEX_TYPE_ENC'' (Some ''structxed__encoder__iforms__s.html#a38b72d5b7c1c2e5f8b5a25cc65ce9266'') Null,
    Nav_node ''x_VEXED_REX'' (Some ''structxed__encoder__iforms__s.html#a83f90e925872b1359b897ccf13bb986d'') Null,
    Nav_node ''x_VSIB_ENC'' (Some ''structxed__encoder__iforms__s.html#a833d01bc325826ece7bc4bcfd911f97a'') Null,
    Nav_node ''x_VSIB_ENC_BASE'' (Some ''structxed__encoder__iforms__s.html#a8061ba452f864e8974d5777a9d81ecdb'') Null,
    Nav_node ''x_XOP_MAP_ENC'' (Some ''structxed__encoder__iforms__s.html#aee10718c13beef409d09c91fc7d17656'') Null,
    Nav_node ''x_XOP_REXXB_ENC'' (Some ''structxed__encoder__iforms__s.html#a5a6cd2d90d6b02a4cbc2d3475a9e6223'') Null,
    Nav_node ''x_XOP_TYPE_ENC'' (Some ''structxed__encoder__iforms__s.html#a790359e12a4d11cb16e459975d46d1c3'') Null]"

end
