(* ===== verification/Nav_Tables_2.thy ===== *)
theory Nav_Tables_2
  imports Nav_Data
begin

text \<open>
  Child tables of the navigation tree, one definition for each script, or several where the
  script is long: the nodes that the scripts put below the nodes that name them.
\<close>

definition structxed__encoder__instruction__t :: "nav_node list" where
  "structxed__encoder__instruction__t = [
    Nav_node ''effective_address_width'' (Some ''structxed__encoder__instruction__t.html#a3e97f12dc2c89d421934d6f8d83d3e67'') Null,
    Nav_node ''effective_operand_width'' (Some ''structxed__encoder__instruction__t.html#a8ef9ec3964c45a1614d417370eb04723'') Null,
    Nav_node ''iclass'' (Some ''structxed__encoder__instruction__t.html#a73e305f28d726fb5b44173d7e08f7fb4'') Null,
    Nav_node ''mode'' (Some ''structxed__encoder__instruction__t.html#a329fcce026ff63907ea18427b436bc67'') Null,
    Nav_node ''noperands'' (Some ''structxed__encoder__instruction__t.html#a9bb1e6a43001997963da687e816ebdf9'') Null,
    Nav_node ''operands'' (Some ''structxed__encoder__instruction__t.html#a33d5130bbbb68262f0748a59812a70cb'') Null,
    Nav_node ''prefixes'' (Some ''structxed__encoder__instruction__t.html#ae33c87ef34abd74d94abc032fd90f542'') Null]"

definition structxed__encoder__operand__t :: "nav_node list" where
  "structxed__encoder__operand__t = [
    Nav_node ''brdisp'' (Some ''structxed__encoder__operand__t.html#ab99e88a8252108f8512877a9e88a4ea0'') Null,
    Nav_node ''imm0'' (Some ''structxed__encoder__operand__t.html#aa995ad55cbcb06f834e37293c4466023'') Null,
    Nav_node ''imm1'' (Some ''structxed__encoder__operand__t.html#aecb9ee77844be3e93e81216cc4709146'') Null,
    Nav_node ''mem'' (Some ''structxed__encoder__operand__t.html#a61d286cb2d8cddcdc7bbadbab9759aa5'') Null,
    Nav_node ''operand_name'' (Some ''structxed__encoder__operand__t.html#aba1b2678090e74eb5faa198cf49d5730'') Null,
    Nav_node ''reg'' (Some ''structxed__encoder__operand__t.html#affc78afe4f18c8d806e91949f223ec6d'') Null,
    Nav_node ''s'' (Some ''structxed__encoder__operand__t.html#aea0fc9de9981537aa1eeac7fa56af305'') Null,
    Nav_node ''type'' (Some ''structxed__encoder__operand__t.html#af8d096f5b2bf8e6c6752035db7501430'') Null,
    Nav_node ''u'' (Some ''structxed__encoder__operand__t.html#a02a44953301d1bc2567512f754861f8a'') Null,
    Nav_node ''value'' (Some ''structxed__encoder__operand__t.html#a0593727d33d6d01b5f6539d69b6b94f2'') Null,
    Nav_node ''width'' (Some ''structxed__encoder__operand__t.html#afc62b1b2b0225f006a24483b846f266c'') Null]"

definition group__FLAGS :: "nav_node list" where
  "group__FLAGS = [
    Nav_node ''xed_flag_enum_s'' (Some ''structxed__flag__enum__s.html'') (Nodes [
      Nav_node ''action'' (Some ''structxed__flag__enum__s.html#a6ff90d561a1023be5c27bc5ba1da6a83'') Null,
      Nav_node ''flag'' (Some ''structxed__flag__enum__s.html#a0c855e9832d9215abbeee4d8c4611f76'') Null]),
    Nav_node ''xed_flag_set_s'' (Some ''unionxed__flag__set__s.html'') (Nodes [
      Nav_node ''_if'' (Some ''unionxed__flag__set__s.html#a215d00bbdb63524a71e545fda8dfc329'') Null,
      Nav_node ''ac'' (Some ''unionxed__flag__set__s.html#ac862456049fbaa8118a6747fc51ae6da'') Null,
      Nav_node ''af'' (Some ''unionxed__flag__set__s.html#ab4abcec0d4a5b52f337a38e40f15caac'') Null,
      Nav_node ''cf'' (Some ''unionxed__flag__set__s.html#a651259e24a24a1f9f40e9bedac0ad560'') Null,
      Nav_node ''df'' (Some ''unionxed__flag__set__s.html#af8d13777f6ab108bafae72363039ce3c'') Null,
      Nav_node ''fc0'' (Some ''unionxed__flag__set__s.html#ac60b72c28c13fe3e184f3c71d1f767ee'') Null,
      Nav_node ''fc1'' (Some ''unionxed__flag__set__s.html#a851f879c9a85dcf2d8a1a131e4153c05'') Null,
      Nav_node ''fc2'' (Some ''unionxed__flag__set__s.html#aac00c3bfcc52f47af14c161cfb4268e9'') Null,
      Nav_node ''fc3'' (Some ''unionxed__flag__set__s.html#a77423a46de3049dd586ad46614a83fcb'') Null,
      Nav_node ''flat'' (Some ''unionxed__flag__set__s.html#a712498840cfac2cb767e9c8457edbf7b'') Null,
      Nav_node ''id'' (Some ''unionxed__flag__set__s.html#a6d199860b7956324c5a4f5c6c71fd2ef'') Null,
      Nav_node ''iopl'' (Some ''unionxed__flag__set__s.html#a41c4b59f50e4ac20c6d81e8379691e8e'') Null,
      Nav_node ''must_be_0a'' (Some ''unionxed__flag__set__s.html#a23108990a6959f5f26751773749547fa'') Null,
      Nav_node ''must_be_0b'' (Some ''unionxed__flag__set__s.html#ae4ce751f0785b6016219882fb21d9a6a'') Null,
      Nav_node ''must_be_0c'' (Some ''unionxed__flag__set__s.html#aa1d56c6e0e84da7e02053c50ed31dbab'') Null,
      Nav_node ''must_be_0d'' (Some ''unionxed__flag__set__s.html#ad0e986162be817612d6e228d0c239d9c'') Null,
      Nav_node ''must_be_0e'' (Some ''unionxed__flag__set__s.html#a61a62d2e73c190bdb70f212cdfc162bf'') Null,
      Nav_node ''must_be_1'' (Some ''unionxed__flag__set__s.html#a72b663d5bccd430b4d688cc6429b088f'') Null,
      Nav_node ''nt'' (Some ''unionxed__flag__set__s.html#a8d117fdc3b5690c315d83fead390ab08'') Null,
      Nav_node ''of'' (Some ''unionxed__flag__set__s.html#a785e5f20a19d10fce1ec7549d3a2ee6a'') Null,
      Nav_node ''pf'' (Some ''unionxed__flag__set__s.html#a67dee0986ec87026ca20dd3f77431d38'') Null,
      Nav_node ''rf'' (Some ''unionxed__flag__set__s.html#ac6ab00c5d37abe6db8280ea2c6e2e6e2'') Null,
      Nav_node ''s'' (Some ''unionxed__flag__set__s.html#a8a590ae27f639ed8d3d3e0cc8612debe'') Null,
      Nav_node ''sf'' (Some ''unionxed__flag__set__s.html#ac10d3332027d6bd9685c1165f994ca76'') Null,
      Nav_node ''tf'' (Some ''unionxed__flag__set__s.html#a3674598aac3f0fe791f47ac79f0c37eb'') Null,
      Nav_node ''vif'' (Some ''unionxed__flag__set__s.html#a607ecb9cdd15dfb2a132a4fc593fe0b6'') Null,
      Nav_node ''vip'' (Some ''unionxed__flag__set__s.html#a94862c6f42f4070dcbf5e90863b11fec'') Null,
      Nav_node ''vm'' (Some ''unionxed__flag__set__s.html#a4e085097fe04e9a4ef0b8f48880c94dd'') Null,
      Nav_node ''zf'' (Some ''unionxed__flag__set__s.html#a96fcc2f1ad7f3b08c058b13b7c433fdb'') Null]),
    Nav_node ''xed_simple_flag_s'' (Some ''structxed__simple__flag__s.html'') (Nodes [
      Nav_node ''fa_index'' (Some ''structxed__simple__flag__s.html#a6ca9e07f3c737f6f07deb0678f4c5d8c'') Null,
      Nav_node ''may_write'' (Some ''structxed__simple__flag__s.html#a644147e6c8a633e8e13cda7b3a974910'') Null,
      Nav_node ''must_write'' (Some ''structxed__simple__flag__s.html#ac5157c9b63bf12f8e1b6e1824f6e398b'') Null,
      Nav_node ''nflags'' (Some ''structxed__simple__flag__s.html#a8adf988b444df44631430dce32912463'') Null,
      Nav_node ''read'' (Some ''structxed__simple__flag__s.html#a722858b8b07e26ef8229e6b8df791f2f'') Null,
      Nav_node ''undefined'' (Some ''structxed__simple__flag__s.html#aebe46fb7d51bdbdec6037b48417bb8f0'') Null,
      Nav_node ''written'' (Some ''structxed__simple__flag__s.html#adfa93f6dc27a5ed9554b4da06fe316eb'') Null]),
    Nav_node ''xed_flag_action_t'' (Some ''group__FLAGS.html#ga67dbae01ff01d7385fc0b932bea016a1'') Null,
    Nav_node ''xed_simple_flag_t'' (Some ''group__FLAGS.html#ga002ba726d6a37baddb92f95535f87329'') Null,
    Nav_node ''xed_flag_action_action_invalid'' (Some ''group__FLAGS.html#ga21cc087c3f007cc0944c7acf286f504c'') Null,
    Nav_node ''xed_flag_action_get_action'' (Some ''group__FLAGS.html#ga80abcc15e609878f1daaac1b988fc0fe'') Null,
    Nav_node ''xed_flag_action_get_flag_name'' (Some ''group__FLAGS.html#gabbffcc50db4e54b40a57a5427320c2a9'') Null,
    Nav_node ''xed_flag_action_print'' (Some ''group__FLAGS.html#gaabc09792128a39245636f4b0aab77f42'') Null,
    Nav_node ''xed_flag_action_read_action'' (Some ''group__FLAGS.html#ga8be4c3f2c1860838463073f8cccb9e02'') Null,
    Nav_node ''xed_flag_action_read_flag'' (Some ''group__FLAGS.html#ga08e4a4c4eea80dc85f569ca1a4b7f614'') Null,
    Nav_node ''xed_flag_action_write_action'' (Some ''group__FLAGS.html#ga93ce4bd708adffe1ec0c5c3a884802cc'') Null,
    Nav_node ''xed_flag_action_writes_flag'' (Some ''group__FLAGS.html#gae17824babf697205b4ec3ea1547e6f95'') Null,
    Nav_node ''xed_flag_set_is_subset_of'' (Some ''group__FLAGS.html#ga1beb49469f104f6e92147b0522fb7cc0'') Null,
    Nav_node ''xed_flag_set_mask'' (Some ''group__FLAGS.html#gaa51e48465bdabfb43983cbc887cf6c51'') Null,
    Nav_node ''xed_flag_set_print'' (Some ''group__FLAGS.html#ga7f7a68d1f3d02a08b60205a96e025bb2'') Null,
    Nav_node ''xed_simple_flag_get_flag_action'' (Some ''group__FLAGS.html#ga1db7706b1121de4f70e82fc85e3988c1'') Null,
    Nav_node ''xed_simple_flag_get_may_write'' (Some ''group__FLAGS.html#ga7ef6569c3ed439bc8987307492a59281'') Null,
    Nav_node ''xed_simple_flag_get_must_write'' (Some ''group__FLAGS.html#gab8e5992bf7dc342a056c4f57c80c01ed'') Null,
    Nav_node ''xed_simple_flag_get_nflags'' (Some ''group__FLAGS.html#ga786dd6f5adb1f8d6aa47f53c1531473c'') Null,
    Nav_node ''xed_simple_flag_get_read_flag_set'' (Some ''group__FLAGS.html#ga0ae38bd952ce6da5eac4dac97c943caa'') Null,
    Nav_node ''xed_simple_flag_get_undefined_flag_set'' (Some ''group__FLAGS.html#ga9428b5e072f9d0ccbf325b9e3e84cbf8'') Null,
    Nav_node ''xed_simple_flag_get_written_flag_set'' (Some ''group__FLAGS.html#gafd8226ec18ea804e5abbe9e6fef0c526'') Null,
    Nav_node ''xed_simple_flag_print'' (Some ''group__FLAGS.html#gaee816a433d9b1d87036165ac530c2a41'') Null,
    Nav_node ''xed_simple_flag_reads_flags'' (Some ''group__FLAGS.html#ga9aca7e505fe7962aa715528f32b18784'') Null,
    Nav_node ''xed_simple_flag_writes_flags'' (Some ''group__FLAGS.html#ga6bf79b1d9e94986b06db3977172ceeff'') Null]"

definition group__PRINT :: "nav_node list" where
  "group__PRINT = [
    Nav_node ''xed_format_options_t'' (Some ''structxed__format__options__t.html'') (Nodes [
      Nav_node ''hex_address_before_symbolic_name'' (Some ''structxed__format__options__t.html#a9859337bb1e80b9406ef029e2e88a388'') Null,
      Nav_node ''no_sign_extend_signed_immediates'' (Some ''structxed__format__options__t.html#a52f1af3c6153aea31d80aa837d8fd075'') Null,
      Nav_node ''omit_unit_scale'' (Some ''structxed__format__options__t.html#a376259c6f83ac22702c42fe1adbab400'') Null,
      Nav_node ''write_mask_curly_k0'' (Some ''structxed__format__options__t.html#aa3d5959c28ee81aa7e72e6042ffafc1e'') Null,
      Nav_node ''xml_a'' (Some ''structxed__format__options__t.html#a2f5e99db0d3f8d9aaec57cf03c404dc3'') Null,
      Nav_node ''xml_f'' (Some ''structxed__format__options__t.html#a96bc47f93e4cded00e6b1d5406ca08a0'') Null]),
    Nav_node ''xed_print_info_t'' (Some ''structxed__print__info__t.html'') (Nodes [
      Nav_node ''blen'' (Some ''structxed__print__info__t.html#abf478535d20cf92ccdba662a135e6c1b'') Null,
      Nav_node ''buf'' (Some ''structxed__print__info__t.html#a1fe855c208bc17a51a4d34fefdb2d5b1'') Null,
      Nav_node ''context'' (Some ''structxed__print__info__t.html#ae376f130b17d169ee51be68077a89ed0'') Null,
      Nav_node ''disassembly_callback'' (Some ''structxed__print__info__t.html#a2b39e838ee753fb0c2f9c95a793c689f'') Null,
      Nav_node ''emitted'' (Some ''structxed__print__info__t.html#a426697c198943f37470982f3f956c35d'') Null,
      Nav_node ''extra_index_operand'' (Some ''structxed__print__info__t.html#ab333e6d2b6d6beab5dbcea01a55ffaf0'') Null,
      Nav_node ''format_options'' (Some ''structxed__print__info__t.html#a5cbeeb747b1d5700b4c25546c6b02713'') Null,
      Nav_node ''format_options_valid'' (Some ''structxed__print__info__t.html#a809dd76e54efbe7033f0bd5eedf802af'') Null,
      Nav_node ''operand_indx'' (Some ''structxed__print__info__t.html#a4337c4b316e91d8ed38fb21c929760d2'') Null,
      Nav_node ''p'' (Some ''structxed__print__info__t.html#ab975d6795638986ea3d0ac52cd6b0e27'') Null,
      Nav_node ''runtime_address'' (Some ''structxed__print__info__t.html#a8da4bce641493ceb76bacec824630184'') Null,
      Nav_node ''skip_operand'' (Some ''structxed__print__info__t.html#a909b439e9e2cdfaf67bb5e53b69c69ad'') Null,
      Nav_node ''syntax'' (Some ''structxed__print__info__t.html#aade5b0550443918f13c25f1589adbb70'') Null]),
    Nav_node ''xed_disassembly_callback_fn_t'' (Some ''group__PRINT.html#ga79b7bb018669c5099de0881289eb0abf'') Null,
    Nav_node ''xed_decoded_inst_dump'' (Some ''group__PRINT.html#ga988943de2c61305278f50a26bb9945bc'') Null,
    Nav_node ''xed_decoded_inst_dump_xed_format'' (Some ''group__PRINT.html#gafc335b6bbcbfaadcf3b4c5174c9e9444'') Null,
    Nav_node ''xed_format_context'' (Some ''group__PRINT.html#gac09057f278cb90a5faefb39aaf4431e0'') Null,
    Nav_node ''xed_format_generic'' (Some ''group__PRINT.html#gaf353624c80f5c7d770bbdfc95a54acba'') Null,
    Nav_node ''xed_format_set_options'' (Some ''group__PRINT.html#ga3c3cafaba9b3bd494f7a908f9e5af1b7'') Null,
    Nav_node ''xed_init_print_info'' (Some ''group__PRINT.html#gabbb091822def59d7cf56b123a60f2439'') Null]"

definition group__IFORM :: "nav_node list" where
  "group__IFORM = [
    Nav_node ''xed_iform_info_s'' (Some ''structxed__iform__info__s.html'') (Nodes [
      Nav_node ''category'' (Some ''structxed__iform__info__s.html#abe0e7654223c86df2c33d2fec7e3b5cf'') Null,
      Nav_node ''extension'' (Some ''structxed__iform__info__s.html#abc6055dea33b5ce30146fb6a826e3b1a'') Null,
      Nav_node ''iclass'' (Some ''structxed__iform__info__s.html#a73e305f28d726fb5b44173d7e08f7fb4'') Null,
      Nav_node ''isa_set'' (Some ''structxed__iform__info__s.html#aed57fa5486f387f7f2a5d470785fd82b'') Null,
      Nav_node ''string_table_idx'' (Some ''structxed__iform__info__s.html#a34770b1c687b081d466e3a05b2a9a8a6'') Null]),
    Nav_node ''xed_iform_info_t'' (Some ''group__IFORM.html#ga0822d2c323a2dc6f3c8d7568b32c3d37'') Null,
    Nav_node ''xed_iform_first_per_iclass'' (Some ''group__IFORM.html#gacc68b1eaf1ddd6236b8d3210ec6637fc'') Null,
    Nav_node ''xed_iform_map'' (Some ''group__IFORM.html#ga76674b9c9b05d71e4c048483cfcc88ba'') Null,
    Nav_node ''xed_iform_max_per_iclass'' (Some ''group__IFORM.html#ga7b2e9c4095bddf90c3679c9fdd54b20c'') Null,
    Nav_node ''xed_iform_to_category'' (Some ''group__IFORM.html#ga65a96f3830f48855fe7f89886376c9ed'') Null,
    Nav_node ''xed_iform_to_extension'' (Some ''group__IFORM.html#ga4f356310abbef3ed1d4ba4271476b2d2'') Null,
    Nav_node ''xed_iform_to_iclass'' (Some ''group__IFORM.html#ga62721742b284835364ef1bc1fd027c24'') Null,
    Nav_node ''xed_iform_to_iclass_string_att'' (Some ''group__IFORM.html#gab02f8cf120505862ae9fdd2f17217bb8'') Null,
    Nav_node ''xed_iform_to_iclass_string_intel'' (Some ''group__IFORM.html#ga880fbf55253bc8ac7c2a566bf01f213b'') Null,
    Nav_node ''xed_iform_to_isa_set'' (Some ''group__IFORM.html#ga79c172050cd22eac5175f6981ca314ef'') Null]"

definition structxed__immdis__s :: "nav_node list" where
  "structxed__immdis__s = [
    Nav_node ''currently_used_space'' (Some ''structxed__immdis__s.html#aa5fa898615728484b9153ffcedcabdd3'') Null,
    Nav_node ''immediate_is_unsigned'' (Some ''structxed__immdis__s.html#aeea5eb8193030afdeeda7b6dfa640fd9'') Null,
    Nav_node ''max_allocated_space'' (Some ''structxed__immdis__s.html#ac8efd53d2590c1248ae58931dee0e89d'') Null,
    Nav_node ''present'' (Some ''structxed__immdis__s.html#a4c49954576278c551ba8b22539f0e971'') Null,
    Nav_node ''value'' (Some ''structxed__immdis__s.html#ac2171072c92ed1511fb37e3f7fbfad16'') Null]"

definition structxed__memop__t :: "nav_node list" where
  "structxed__memop__t = [
    Nav_node ''base'' (Some ''structxed__memop__t.html#a47dd9d08fd6c6c01240bc0016c53388b'') Null,
    Nav_node ''disp'' (Some ''structxed__memop__t.html#a62574ae50e6dc5819e7ca1a8319ff606'') Null,
    Nav_node ''index'' (Some ''structxed__memop__t.html#a6538179aeb901a9f34af5e7861a38038'') Null,
    Nav_node ''scale'' (Some ''structxed__memop__t.html#aa4578f59f16b24c91beb2752bfb50ad0'') Null,
    Nav_node ''seg'' (Some ''structxed__memop__t.html#ad6e5dcd3c1ceaf99a0f66215d653ec63'') Null]"

definition structxed__operand__storage__s :: "nav_node list" where
  "structxed__operand__storage__s = [
    Nav_node ''agen'' (Some ''structxed__operand__storage__s.html#aa98814ea0c9dc7d120c6154c40cd2082'') Null,
    Nav_node ''amd3dnow'' (Some ''structxed__operand__storage__s.html#a45b2c0ac61e1490670bab0e744c81f98'') Null,
    Nav_node ''asz'' (Some ''structxed__operand__storage__s.html#a6b35796e7ba1792792ab31d714a60761'') Null,
    Nav_node ''base0'' (Some ''structxed__operand__storage__s.html#a7bd8238e8e1827a3c47abd5c4e27030d'') Null,
    Nav_node ''base1'' (Some ''structxed__operand__storage__s.html#a7c9e48459acd2573dcce2441dd1d93f6'') Null,
    Nav_node ''bcast'' (Some ''structxed__operand__storage__s.html#a0ea80f2ed39719051f41c0d11b389135'') Null,
    Nav_node ''bcrc'' (Some ''structxed__operand__storage__s.html#a56a7f38bf7471f038869c06a07bec946'') Null,
    Nav_node ''brdisp_width'' (Some ''structxed__operand__storage__s.html#ab478458d9396b979753e55264b924933'') Null,
    Nav_node ''chip'' (Some ''structxed__operand__storage__s.html#a522f16922869deae0f982f6277470b14'') Null,
    Nav_node ''default_seg'' (Some ''structxed__operand__storage__s.html#a2d00d3a834e152cb4fd3507ba340f3e4'') Null,
    Nav_node ''df32'' (Some ''structxed__operand__storage__s.html#afa174ee6680e7dbeb613855c585aa071'') Null,
    Nav_node ''df64'' (Some ''structxed__operand__storage__s.html#a4c0fe3d295763cd48147a572071c2037'') Null,
    Nav_node ''disp'' (Some ''structxed__operand__storage__s.html#ab52f482f625a662b1cb47127dc41d19a'') Null,
    Nav_node ''disp_width'' (Some ''structxed__operand__storage__s.html#a8aec9335704d9db6e4fc47567ab194b0'') Null,
    Nav_node ''dummy'' (Some ''structxed__operand__storage__s.html#a45d0895b1839a19b845db046507a92ab'') Null,
    Nav_node ''easz'' (Some ''structxed__operand__storage__s.html#a103d68a096555ba6eb27e26022247779'') Null,
    Nav_node ''element_size'' (Some ''structxed__operand__storage__s.html#acbce437fe6914af047fae06df2368a1c'') Null,
    Nav_node ''encoder_preferred'' (Some ''structxed__operand__storage__s.html#ab7e563efae89e5704821c195cb5a45c6'') Null,
    Nav_node ''eosz'' (Some ''structxed__operand__storage__s.html#aafc351c98a02647c7eb4d38ae1c8a490'') Null,
    Nav_node ''error'' (Some ''structxed__operand__storage__s.html#a2fc902b0aea6394f8fbb0e3e26895f2b'') Null,
    Nav_node ''esrc'' (Some ''structxed__operand__storage__s.html#ad19b924b8cdb03442958e235399947e3'') Null,
    Nav_node ''esrc3'' (Some ''structxed__operand__storage__s.html#a97f748c3c8a6e9fc1e06d9d8c348cc32'') Null,
    Nav_node ''evexrr'' (Some ''structxed__operand__storage__s.html#a9abfab0954ca339a10ac089959534155'') Null,
    Nav_node ''first_f2f3'' (Some ''structxed__operand__storage__s.html#a5c5ec581efbfb93f64ea4acc5ad97673'') Null,
    Nav_node ''has_modrm'' (Some ''structxed__operand__storage__s.html#a5e1b914cf33a996de380ab2b84a6eff4'') Null,
    Nav_node ''has_sib'' (Some ''structxed__operand__storage__s.html#ae60ed464f49cf38771c67a6d32121340'') Null,
    Nav_node ''hint'' (Some ''structxed__operand__storage__s.html#a3390c38d47d6aff23814ae37b503666a'') Null,
    Nav_node ''hsw'' (Some ''structxed__operand__storage__s.html#ab6dd726aca628551b71b156314d1eeb0'') Null,
    Nav_node ''iclass'' (Some ''structxed__operand__storage__s.html#a839074130fe4117198c2bf1e272c7335'') Null,
    Nav_node ''ild_f2'' (Some ''structxed__operand__storage__s.html#ac57a7ddb914e1a186da00bc469e521fb'') Null,
    Nav_node ''ild_f3'' (Some ''structxed__operand__storage__s.html#abf010802f0bac1cc77681c7b9debd86c'') Null,
    Nav_node ''ild_seg'' (Some ''structxed__operand__storage__s.html#a91ca03fd2581444b22beeeac9da6f4a3'') Null,
    Nav_node ''imm0'' (Some ''structxed__operand__storage__s.html#a0f05d3fb7c449ef405bc4dcef47c2cc5'') Null,
    Nav_node ''imm0signed'' (Some ''structxed__operand__storage__s.html#ade5891995ec8fa7d320c29b189af52b7'') Null,
    Nav_node ''imm1'' (Some ''structxed__operand__storage__s.html#aecb9ee77844be3e93e81216cc4709146'') Null,
    Nav_node ''imm1_bytes'' (Some ''structxed__operand__storage__s.html#a12c120e0916fa7aacf2bd5f83fe89a57'') Null,
    Nav_node ''imm_width'' (Some ''structxed__operand__storage__s.html#aef22ce89bc0c9c1b8e6629a258b3e0a5'') Null,
    Nav_node ''index'' (Some ''structxed__operand__storage__s.html#a5f2371b709c5fa56ad0c4f61450d965c'') Null,
    Nav_node ''last_f2f3'' (Some ''structxed__operand__storage__s.html#a28bb0610f07cea2b017db8e6475a1f2c'') Null,
    Nav_node ''llrc'' (Some ''structxed__operand__storage__s.html#a4770166a134a40fad2101f19765c8545'') Null,
    Nav_node ''lock'' (Some ''structxed__operand__storage__s.html#a0c34bff866110c915db87e13520aa931'') Null,
    Nav_node ''lockable'' (Some ''structxed__operand__storage__s.html#a0f195aa408a315baa67a739ed1cf5314'') Null,
    Nav_node ''map'' (Some ''structxed__operand__storage__s.html#ae52b027517d94275119faee655e4376d'') Null,
    Nav_node ''mask'' (Some ''structxed__operand__storage__s.html#a3f89a94262b4663bbd668d109b3746c8'') Null,
    Nav_node ''max_bytes'' (Some ''structxed__operand__storage__s.html#a9cbf31314eedd73850087bebf2de1033'') Null,
    Nav_node ''mem0'' (Some ''structxed__operand__storage__s.html#a19e441620a0f38fed11a3dd8f6ddfa31'') Null,
    Nav_node ''mem1'' (Some ''structxed__operand__storage__s.html#ad9660dcaebb7f45fda43217ecdf7b574'') Null,
    Nav_node ''mem_width'' (Some ''structxed__operand__storage__s.html#ad6a412a223ec5b57efa75fb320a54f69'') Null,
    Nav_node ''mod'' (Some ''structxed__operand__storage__s.html#a9d610ece02244602e64fe376d914a7ae'') Null,
    Nav_node ''mode'' (Some ''structxed__operand__storage__s.html#af76beeb9c32516b575dc68f64176333d'') Null,
    Nav_node ''mode_first_prefix'' (Some ''structxed__operand__storage__s.html#a1f980d6704ace761de9edc06c4598923'') Null,
    Nav_node ''modep5'' (Some ''structxed__operand__storage__s.html#a25b2f50484ecb1a89c51d52562bebda0'') Null,
    Nav_node ''modep55c'' (Some ''structxed__operand__storage__s.html#afd4899f12b95a02a93132b27d161039e'') Null,
    Nav_node ''modrm'' (Some ''structxed__operand__storage__s.html#ac868edaab6f0253f1e84c2a892130e9e'') Null,
    Nav_node ''modrm_byte'' (Some ''structxed__operand__storage__s.html#a215275504dbfe6703eefc0ef4c26829c'') Null,
    Nav_node ''mpxmode'' (Some ''structxed__operand__storage__s.html#a190ebdd8a7269db139971f3ff6f56c5c'') Null,
    Nav_node ''need_memdisp'' (Some ''structxed__operand__storage__s.html#a639c395abbaed39e9b7c3072eb92064d'') Null,
    Nav_node ''needrex'' (Some ''structxed__operand__storage__s.html#a1b892a8c0b4a0870ebb665499d4cd48b'') Null,
    Nav_node ''nelem'' (Some ''structxed__operand__storage__s.html#aaba9037a2338078081e98e30c0318251'') Null,
    Nav_node ''no_scale_disp8'' (Some ''structxed__operand__storage__s.html#a11cdb7d6abbb9ea6f74f472ccde91f50'') Null,
    Nav_node ''nominal_opcode'' (Some ''structxed__operand__storage__s.html#a20113dd806992cb61a9edcc4de58ec5b'') Null,
    Nav_node ''norex'' (Some ''structxed__operand__storage__s.html#a456f9de3efd3a0e9bbcbb29e3f0d95a2'') Null,
    Nav_node ''nprefixes'' (Some ''structxed__operand__storage__s.html#a55cfd9ca586500f39f5ce5cc12401e22'') Null,
    Nav_node ''nrexes'' (Some ''structxed__operand__storage__s.html#a40a8da00806f200307ab6a94ef14c11f'') Null,
    Nav_node ''nseg_prefixes'' (Some ''structxed__operand__storage__s.html#a99f2348b52a79a2c12a92a6c0118bf17'') Null,
    Nav_node ''osz'' (Some ''structxed__operand__storage__s.html#a1e9faa26506012593bba0a1e244e3859'') Null,
    Nav_node ''out_of_bytes'' (Some ''structxed__operand__storage__s.html#aba0de59dc02264ece3d21a97198b8119'') Null,
    Nav_node ''outreg'' (Some ''structxed__operand__storage__s.html#ae3f10720d98fa3620ac51343010bb582'') Null,
    Nav_node ''p4'' (Some ''structxed__operand__storage__s.html#a55d77f127dbb4395e66b457e2c018122'') Null,
    Nav_node ''pos_disp'' (Some ''structxed__operand__storage__s.html#a9974476cb28d4137fb6f0e8804847f21'') Null,
    Nav_node ''pos_imm'' (Some ''structxed__operand__storage__s.html#a07bee7ac5b67d0f2835387b8b86f2866'') Null,
    Nav_node ''pos_imm1'' (Some ''structxed__operand__storage__s.html#a439c496a4efdf4ed13fe68966d313d18'') Null,
    Nav_node ''pos_modrm'' (Some ''structxed__operand__storage__s.html#a2fe53e70bbcd4bc7db35f068db072aeb'') Null,
    Nav_node ''pos_nominal_opcode'' (Some ''structxed__operand__storage__s.html#a4836abdbb079a84bc521aff6527ab621'') Null,
    Nav_node ''pos_sib'' (Some ''structxed__operand__storage__s.html#a6099a8f5b10db2721aeda92bb64a643d'') Null,
    Nav_node ''prefix66'' (Some ''structxed__operand__storage__s.html#af772e398dcf935d941241c2b2d110a14'') Null,
    Nav_node ''ptr'' (Some ''structxed__operand__storage__s.html#a675c0f69087e229a121b266e0ded893b'') Null,
    Nav_node ''realmode'' (Some ''structxed__operand__storage__s.html#afe29558821b787a225360319fe7fa1f9'') Null,
    Nav_node ''refining'' (Some ''structxed__operand__storage__s.html#a63eb9c0f3142191d6b32772bf09dbbc0'') Null,
    Nav_node ''reg'' (Some ''structxed__operand__storage__s.html#a1d28582d63a7ed4338a2659360837481'') Null,
    Nav_node ''reg0'' (Some ''structxed__operand__storage__s.html#aefd4a87649a20c827a60c09fe06c37c2'') Null,
    Nav_node ''reg1'' (Some ''structxed__operand__storage__s.html#a463b7102df380fdbf71e94456cb8881e'') Null,
    Nav_node ''reg2'' (Some ''structxed__operand__storage__s.html#a92a6727cf333338c33275bf90672dc84'') Null,
    Nav_node ''reg3'' (Some ''structxed__operand__storage__s.html#a59a5cc5ff3520de2d17c3528f2211cb8'') Null,
    Nav_node ''reg4'' (Some ''structxed__operand__storage__s.html#aded5beb7056277fa4bd8a8a3ddae8e04'') Null,
    Nav_node ''reg5'' (Some ''structxed__operand__storage__s.html#ae2ac88244378a5dc6a3f44dd537d9185'') Null,
    Nav_node ''reg6'' (Some ''structxed__operand__storage__s.html#a70aa8222e96a5c84d14cf7b725aa9762'') Null,
    Nav_node ''reg7'' (Some ''structxed__operand__storage__s.html#aa0d51147e81b40ccb3b379bfbf51db5f'') Null,
    Nav_node ''reg8'' (Some ''structxed__operand__storage__s.html#a1703bcddf42c08d9c5f7761f860988d9'') Null,
    Nav_node ''relbr'' (Some ''structxed__operand__storage__s.html#a44123f7407b064e6c9372efb2140b1f1'') Null,
    Nav_node ''rep'' (Some ''structxed__operand__storage__s.html#a78286715259195dc4fe2d2cdbe7cb269'') Null,
    Nav_node ''rep_able'' (Some ''structxed__operand__storage__s.html#abfa59bf16ad022db7a3b723abe8022eb'') Null,
    Nav_node ''rex'' (Some ''structxed__operand__storage__s.html#ad019db09a9d2843b5f2f2e7ed4e079dc'') Null,
    Nav_node ''rexb'' (Some ''structxed__operand__storage__s.html#a2971060e90db085c130b46d62057177b'') Null,
    Nav_node ''rexr'' (Some ''structxed__operand__storage__s.html#a5c1b6a0ac2d97a8e77a2e977ebfcddd2'') Null,
    Nav_node ''rexrr'' (Some ''structxed__operand__storage__s.html#acfa0e8b80de4a34fce85f65fe14ef088'') Null,
    Nav_node ''rexw'' (Some ''structxed__operand__storage__s.html#a91241c9bb5b525dca2c8c9d1df643091'') Null,
    Nav_node ''rexx'' (Some ''structxed__operand__storage__s.html#a6c418347a9988669ee378ed8f7054303'') Null,
    Nav_node ''rm'' (Some ''structxed__operand__storage__s.html#ab7e27ae87067dc00b69453abbff59e44'') Null,
    Nav_node ''roundc'' (Some ''structxed__operand__storage__s.html#ac7924e52422996baa086a362e35a02f8'') Null,
    Nav_node ''sae'' (Some ''structxed__operand__storage__s.html#ab38fdfbc02657b0f4f8c3d34f327e9ec'') Null,
    Nav_node ''scale'' (Some ''structxed__operand__storage__s.html#a7ea43b55f869a6a22a3abd4a111d369b'') Null,
    Nav_node ''seg0'' (Some ''structxed__operand__storage__s.html#a677e512824d6b4f04abce4509831bc19'') Null,
    Nav_node ''seg1'' (Some ''structxed__operand__storage__s.html#ab552475d42ef41ee80d71cf4d6a4966b'') Null,
    Nav_node ''seg_ovd'' (Some ''structxed__operand__storage__s.html#a6036b16b9a0afa9120d9346309af22fc'') Null,
    Nav_node ''sib'' (Some ''structxed__operand__storage__s.html#a09dbe857f4548b7212050c8b78e5be74'') Null,
    Nav_node ''sibbase'' (Some ''structxed__operand__storage__s.html#a25589fcfde391eb8b5195fd81774f6cc'') Null,
    Nav_node ''sibindex'' (Some ''structxed__operand__storage__s.html#af6d7c92360c3352fa1ec027859c8ff55'') Null,
    Nav_node ''sibscale'' (Some ''structxed__operand__storage__s.html#aa6fd7d3930e50bb158aaf51a0931ad4b'') Null,
    Nav_node ''skip_osz'' (Some ''structxed__operand__storage__s.html#a07c39bea562237bd4e9d86626581fb92'') Null,
    Nav_node ''smode'' (Some ''structxed__operand__storage__s.html#a89f36a662d4d34db109be0988540e8b2'') Null,
    Nav_node ''sreg'' (Some ''structxed__operand__storage__s.html#afd1bd0cb9abf322ec826c2d220a454cc'') Null,
    Nav_node ''srm'' (Some ''structxed__operand__storage__s.html#a069477621f91b6f03d866af397df3b0b'') Null,
    Nav_node ''type'' (Some ''structxed__operand__storage__s.html#a4318d50f36d74b9ae3185bcdb0603368'') Null,
    Nav_node ''ubit'' (Some ''structxed__operand__storage__s.html#a17efd81e6c815c79e2cdf4b40adc3adc'') Null,
    Nav_node ''uimm0'' (Some ''structxed__operand__storage__s.html#a27342d6ed806e9075a1d274bd80d32b4'') Null,
    Nav_node ''uimm1'' (Some ''structxed__operand__storage__s.html#a39ec9ef64786ce9ed76bfe0a0a1642fe'') Null,
    Nav_node ''using_default_segment0'' (Some ''structxed__operand__storage__s.html#a720d3b2187836507b81547408f35433e'') Null,
    Nav_node ''using_default_segment1'' (Some ''structxed__operand__storage__s.html#a4d1bdcd690d2cd6bd5d4a1a29085f76e'') Null,
    Nav_node ''vex_c4'' (Some ''structxed__operand__storage__s.html#aab83b9b17c9e7db17aadb02f819b331e'') Null,
    Nav_node ''vex_prefix'' (Some ''structxed__operand__storage__s.html#a2dfb8112d085b135132f08c91a4ae1c1'') Null,
    Nav_node ''vexdest210'' (Some ''structxed__operand__storage__s.html#a4f151b021dc9532a98b3d9a7391693ce'') Null,
    Nav_node ''vexdest3'' (Some ''structxed__operand__storage__s.html#a3d0b9044183a89e49188694613c597c8'') Null,
    Nav_node ''vexdest4'' (Some ''structxed__operand__storage__s.html#a6a5028d180274c4aa23fc9306715a348'') Null,
    Nav_node ''vexvalid'' (Some ''structxed__operand__storage__s.html#a0dbff530f195371c35c71da2c5feb2d1'') Null,
    Nav_node ''vl'' (Some ''structxed__operand__storage__s.html#a27ce99975034d1b474a089b7e008be62'') Null,
    Nav_node ''zeroing'' (Some ''structxed__operand__storage__s.html#a5c250aa1fde976f1a64b169930d888a3'') Null]"

definition group__INIT :: "nav_node list" where
  "group__INIT = [
    Nav_node ''xed_state_s'' (Some ''structxed__state__s.html'') (Nodes [
      Nav_node ''mmode'' (Some ''structxed__state__s.html#acedcfb0936b7c302087ad7fe5de5cb10'') Null,
      Nav_node ''stack_addr_width'' (Some ''structxed__state__s.html#a202e530cc6f872ce7744b4bdddcb49ba'') Null]),
    Nav_node ''xed_state_t'' (Some ''group__INIT.html#gada6bf6c5b88022528bea9b648e356504'') Null,
    Nav_node ''xed_get_copyright'' (Some ''group__INIT.html#gab8d9c7a109a7e0d1cd483e68e3033cc4'') Null,
    Nav_node ''xed_get_version'' (Some ''group__INIT.html#ga884629a9ddd4db55da6aa0b012423108'') Null,
    Nav_node ''xed_register_abort_function'' (Some ''group__INIT.html#ga017b6fcac483ea9f1621c4cdd0af84bd'') Null,
    Nav_node ''xed_state_get_address_width'' (Some ''group__INIT.html#gaa5df14c6b5a97bd9f9ee4c50ab790a85'') Null,
    Nav_node ''xed_state_get_machine_mode'' (Some ''group__INIT.html#ga8b1fc00b95c50fd54959889d72dc569a'') Null,
    Nav_node ''xed_state_get_stack_address_width'' (Some ''group__INIT.html#ga4fb992e21a8f9f9f39e8fa36f22de96c'') Null,
    Nav_node ''xed_state_init'' (Some ''group__INIT.html#gaa181c6c7162e8851a786dbdd94c77dd3'') Null,
    Nav_node ''xed_state_init2'' (Some ''group__INIT.html#ga9e767a03896bae8167b85510fdb661ce'') Null,
    Nav_node ''xed_state_long64_mode'' (Some ''group__INIT.html#ga8d32c7696d58a4a4aa103de13f7de577'') Null,
    Nav_node ''xed_state_mode_width_16'' (Some ''group__INIT.html#ga15a9c2418fa6909fc7eeebea045722e6'') Null,
    Nav_node ''xed_state_mode_width_32'' (Some ''group__INIT.html#gaa2f13457567fea6468967cde050eefdf'') Null,
    Nav_node ''xed_state_print'' (Some ''group__INIT.html#ga0910f14ae574d3cca7e4cfcc7bc2e0e5'') Null,
    Nav_node ''xed_state_real_mode'' (Some ''group__INIT.html#ga8b3b369cad18a5a71ff9c068878377ce'') Null,
    Nav_node ''xed_state_set_machine_mode'' (Some ''group__INIT.html#gabb8aa407f1664d9cee6201bb69e638f7'') Null,
    Nav_node ''xed_state_set_stack_address_width'' (Some ''group__INIT.html#ga724e2158223d6c97bd8fb619af042cf7'') Null,
    Nav_node ''xed_state_zero'' (Some ''group__INIT.html#ga8eea80ff7aa0fc77c3c3e90ce3e1fd64'') Null,
    Nav_node ''xed_tables_init'' (Some ''group__INIT.html#gacc180d75159533eb63e61611004d4512'') Null]"

definition unionxed__encoder__prefixes__t :: "nav_node list" where
  "unionxed__encoder__prefixes__t = [
    Nav_node ''br_hint_not_taken'' (Some ''unionxed__encoder__prefixes__t.html#aa386ca0a8e018f195d93dc2225c53e05'') Null,
    Nav_node ''br_hint_taken'' (Some ''unionxed__encoder__prefixes__t.html#a9bf442830763f089c6fbb8bb561f27a7'') Null,
    Nav_node ''i'' (Some ''unionxed__encoder__prefixes__t.html#a4604e9bca1cf029d6c794f094ff15138'') Null,
    Nav_node ''lock'' (Some ''unionxed__encoder__prefixes__t.html#ade34f221316c3df93f99960707f80116'') Null,
    Nav_node ''rep'' (Some ''unionxed__encoder__prefixes__t.html#aec0a195f8c65332931922e60304f72ad'') Null,
    Nav_node ''repne'' (Some ''unionxed__encoder__prefixes__t.html#a7808aa5a29f1964b18def98281b448dd'') Null,
    Nav_node ''s'' (Some ''unionxed__encoder__prefixes__t.html#a17e46718b7ea9fa441204e8f5c9c2cd0'') Null]"

definition unionxed__immdis__values__t :: "nav_node list" where
  "unionxed__immdis__values__t = [
    Nav_node ''q'' (Some ''unionxed__immdis__values__t.html#a368fd87154c55abe8265024df846953b'') Null,
    Nav_node ''x'' (Some ''unionxed__immdis__values__t.html#a1dd1c9243a65efbbbc33cd0a4b0732c1'') Null]"

definition unionxed__union16__t :: "nav_node list" where
  "unionxed__union16__t = [
    Nav_node ''b'' (Some ''unionxed__union16__t.html#a665df71aa139396f2c832d48f9fcc028'') Null,
    Nav_node ''b0'' (Some ''unionxed__union16__t.html#acb86d526e89cb518772978efe94d58c8'') Null,
    Nav_node ''b1'' (Some ''unionxed__union16__t.html#a748564b5caace463f8b03b29e475f79b'') Null,
    Nav_node ''byte'' (Some ''unionxed__union16__t.html#abd19c3fc4f5aaaaf5374b5c784949c57'') Null,
    Nav_node ''i16'' (Some ''unionxed__union16__t.html#a9edcde8be991063b08eaf65f662bab03'') Null,
    Nav_node ''s_byte'' (Some ''unionxed__union16__t.html#aec079c6d7f871d47708564b23b1ff4b5'') Null,
    Nav_node ''u16'' (Some ''unionxed__union16__t.html#ad4d80d062baebbab7db8d9fdd4d761d8'') Null]"

definition unionxed__union32__t :: "nav_node list" where
  "unionxed__union32__t = [
    Nav_node ''b'' (Some ''unionxed__union32__t.html#a867bd110bec9ddac4e9e0bf273badd29'') Null,
    Nav_node ''b0'' (Some ''unionxed__union32__t.html#acb86d526e89cb518772978efe94d58c8'') Null,
    Nav_node ''b1'' (Some ''unionxed__union32__t.html#a748564b5caace463f8b03b29e475f79b'') Null,
    Nav_node ''b2'' (Some ''unionxed__union32__t.html#a936816140a5ea6d363add02237995a35'') Null,
    Nav_node ''b3'' (Some ''unionxed__union32__t.html#ac3e5ac0cb9041190d349d854c5d83d48'') Null,
    Nav_node ''byte'' (Some ''unionxed__union32__t.html#a3eb919dcc67788f259fa65b445c3cd4c'') Null,
    Nav_node ''i32'' (Some ''unionxed__union32__t.html#a17cb6e550d9a799ed4ad2feda6c234a5'') Null,
    Nav_node ''s_byte'' (Some ''unionxed__union32__t.html#ad4fb3e29bcca9bde5ca505655fc1db61'') Null,
    Nav_node ''s_word'' (Some ''unionxed__union32__t.html#a26127ad406709be2c4cd69cdc2065e52'') Null,
    Nav_node ''u32'' (Some ''unionxed__union32__t.html#a87b0780ee50a66aff08beb44d4884d37'') Null,
    Nav_node ''w'' (Some ''unionxed__union32__t.html#a41b45d67e413da52883fc0d6eab393ed'') Null,
    Nav_node ''w0'' (Some ''unionxed__union32__t.html#aef7e233f5b49a9e91891acf28e7c45bc'') Null,
    Nav_node ''w1'' (Some ''unionxed__union32__t.html#ac85d184c00bc048d4b951261acf96213'') Null,
    Nav_node ''word'' (Some ''unionxed__union32__t.html#a45c9140c07110940d145fe8895d7b967'') Null]"

definition unionxed__union64__t :: "nav_node list" where
  "unionxed__union64__t = [
    Nav_node ''b'' (Some ''unionxed__union64__t.html#a3a13f512c139879899361247621b57af'') Null,
    Nav_node ''b0'' (Some ''unionxed__union64__t.html#acb86d526e89cb518772978efe94d58c8'') Null,
    Nav_node ''b1'' (Some ''unionxed__union64__t.html#a748564b5caace463f8b03b29e475f79b'') Null,
    Nav_node ''b2'' (Some ''unionxed__union64__t.html#a936816140a5ea6d363add02237995a35'') Null,
    Nav_node ''b3'' (Some ''unionxed__union64__t.html#ac3e5ac0cb9041190d349d854c5d83d48'') Null,
    Nav_node ''b4'' (Some ''unionxed__union64__t.html#a0ca2ece37c2a141300af11ffe6dd9357'') Null,
    Nav_node ''b5'' (Some ''unionxed__union64__t.html#a59238c4741d26fc832d52bae06402272'') Null,
    Nav_node ''b6'' (Some ''unionxed__union64__t.html#ac593293a5634c05f9f6d632d471aa11a'') Null,
    Nav_node ''b7'' (Some ''unionxed__union64__t.html#ae37baee0e845593d408a21f95fc2314f'') Null,
    Nav_node ''byte'' (Some ''unionxed__union64__t.html#ac7826cf2704190096f03e88fdd7207dd'') Null,
    Nav_node ''dword'' (Some ''unionxed__union64__t.html#a051add75892a4457b58fcbc334410158'') Null,
    Nav_node ''hi32'' (Some ''unionxed__union64__t.html#a3e14c09b37cc7f2ada4210fb6374b3d5'') Null,
    Nav_node ''i64'' (Some ''unionxed__union64__t.html#a56b05ceeaf0a4899294c2bd89381452f'') Null,
    Nav_node ''lo32'' (Some ''unionxed__union64__t.html#ab7de348b87fff28cf1e9faa4364d0b5a'') Null,
    Nav_node ''s'' (Some ''unionxed__union64__t.html#a0d81e3e7820e93fe8356a22c8e745046'') Null,
    Nav_node ''s_byte'' (Some ''unionxed__union64__t.html#a6af3f380a0ae50526ebda3bcb64acbea'') Null,
    Nav_node ''s_dword'' (Some ''unionxed__union64__t.html#ad4e529c3ecaffaf9b0a596267c42680d'') Null,
    Nav_node ''s_word'' (Some ''unionxed__union64__t.html#a45aa10d78b97e7753e3a4cfecc38f8db'') Null,
    Nav_node ''u64'' (Some ''unionxed__union64__t.html#a760537d841266354fcd9cc97b41cbeb1'') Null,
    Nav_node ''w'' (Some ''unionxed__union64__t.html#a801d12d547dd53a71b9ffe3b42ccdd5e'') Null,
    Nav_node ''w0'' (Some ''unionxed__union64__t.html#aef7e233f5b49a9e91891acf28e7c45bc'') Null,
    Nav_node ''w1'' (Some ''unionxed__union64__t.html#ac85d184c00bc048d4b951261acf96213'') Null,
    Nav_node ''w2'' (Some ''unionxed__union64__t.html#ad2ea7ba6301ebd2585e964f5fc9f497c'') Null,
    Nav_node ''w3'' (Some ''unionxed__union64__t.html#adef5946c81032b371d5b0c5afa999e4f'') Null,
    Nav_node ''word'' (Some ''unionxed__union64__t.html#a652f0fbf9432ba5125eebf86f0c3ce01'') Null]"

definition xed_address_width_enum_8h :: "nav_node list" where
  "xed_address_width_enum_8h = [
    Nav_node ''xed_address_width_enum_t'' (Some ''xed-address-width-enum_8h.html#a2fe76cf1d3e62a77190798dc87c0a865'') (Nodes [
      Nav_node ''XED_ADDRESS_WIDTH_INVALID'' (Some ''xed-address-width-enum_8h.html#a2fe76cf1d3e62a77190798dc87c0a865af77459182fc585c4267ec88755f5ea06'') Null,
      Nav_node ''XED_ADDRESS_WIDTH_16b'' (Some ''xed-address-width-enum_8h.html#a2fe76cf1d3e62a77190798dc87c0a865a4fe56a1242b850bdd9df31fc0ccf15ad'') Null,
      Nav_node ''XED_ADDRESS_WIDTH_32b'' (Some ''xed-address-width-enum_8h.html#a2fe76cf1d3e62a77190798dc87c0a865a1d4c2a3aeffa1872b2f24730e4c83d02'') Null,
      Nav_node ''XED_ADDRESS_WIDTH_64b'' (Some ''xed-address-width-enum_8h.html#a2fe76cf1d3e62a77190798dc87c0a865af682b19c3b67968ad1e45ae794b34e12'') Null,
      Nav_node ''XED_ADDRESS_WIDTH_LAST'' (Some ''xed-address-width-enum_8h.html#a2fe76cf1d3e62a77190798dc87c0a865a6ab14f7ce07e0a997bf8685c255c33d6'') Null]),
    Nav_node ''str2xed_address_width_enum_t'' (Some ''group__ENUM.html#ga8fd9a4f1ade05aaf01cd94178a18e643'') Null,
    Nav_node ''xed_address_width_enum_t2str'' (Some ''group__ENUM.html#gac32c87e79674c2eec82fc534fc510473'') Null,
    Nav_node ''xed_address_width_enum_t_last'' (Some ''group__ENUM.html#ga33a055078a60078e6995fe42d2590dc7'') Null]"

definition xed_attribute_enum_8h :: "nav_node list" where
  "xed_attribute_enum_8h = [
    Nav_node ''xed_attribute_enum_t'' (Some ''xed-attribute-enum_8h.html#a848d4cf396be5a647413e94bc6f0a383'') (Nodes [
      Nav_node ''XED_ATTRIBUTE_INVALID'' (Some ''xed-attribute-enum_8h.html#a848d4cf396be5a647413e94bc6f0a383ab67ff570191b2960f11837ceccd3ce6c'') Null,
      Nav_node ''XED_ATTRIBUTE_ANY_REP_ABLE'' (Some ''xed-attribute-enum_8h.html#a848d4cf396be5a647413e94bc6f0a383a8da22246d5cd2b8d207eb2c3b741e113'') Null,
      Nav_node ''XED_ATTRIBUTE_ATT_OPERAND_ORDER_EXCEPTION'' (Some ''xed-attribute-enum_8h.html#a848d4cf396be5a647413e94bc6f0a383a14c1a546e2f8b96f269105839de22f8e'') Null,
      Nav_node ''XED_ATTRIBUTE_AVX_REQUIRES_ALIGNMENT'' (Some ''xed-attribute-enum_8h.html#a848d4cf396be5a647413e94bc6f0a383ab6e453a6e38ae1f30e36c369d3627fc6'') Null,
      Nav_node ''XED_ATTRIBUTE_BROADCAST_ENABLED'' (Some ''xed-attribute-enum_8h.html#a848d4cf396be5a647413e94bc6f0a383aa047364646346b2667f0611a55cf4f76'') Null,
      Nav_node ''XED_ATTRIBUTE_BYTEOP'' (Some ''xed-attribute-enum_8h.html#a848d4cf396be5a647413e94bc6f0a383a2f4dbc3f0ea12b385dccb125095a77ef'') Null,
      Nav_node ''XED_ATTRIBUTE_DISP8_EIGHTHMEM'' (Some ''xed-attribute-enum_8h.html#a848d4cf396be5a647413e94bc6f0a383a681a2d97af9db930afad1059b5ea399a'') Null,
      Nav_node ''XED_ATTRIBUTE_DISP8_FULL'' (Some ''xed-attribute-enum_8h.html#a848d4cf396be5a647413e94bc6f0a383a7b46d2a70c6b12b2a3556526ca592f05'') Null,
      Nav_node ''XED_ATTRIBUTE_DISP8_FULLMEM'' (Some ''xed-attribute-enum_8h.html#a848d4cf396be5a647413e94bc6f0a383a4ff8726953dfef7ac6d017cf6ab154a2'') Null,
      Nav_node ''XED_ATTRIBUTE_DISP8_GPR_READER'' (Some ''xed-attribute-enum_8h.html#a848d4cf396be5a647413e94bc6f0a383a6e419b0e5f002cd3ad0c63fc7b0cc5c6'') Null,
      Nav_node ''XED_ATTRIBUTE_DISP8_GPR_READER_BYTE'' (Some ''xed-attribute-enum_8h.html#a848d4cf396be5a647413e94bc6f0a383a88669721399a226e794542ba4bfe45ad'') Null,
      Nav_node ''XED_ATTRIBUTE_DISP8_GPR_READER_WORD'' (Some ''xed-attribute-enum_8h.html#a848d4cf396be5a647413e94bc6f0a383a921b65c2a7109a64bc72f77548c3b3e9'') Null,
      Nav_node ''XED_ATTRIBUTE_DISP8_GPR_WRITER_LDOP_D'' (Some ''xed-attribute-enum_8h.html#a848d4cf396be5a647413e94bc6f0a383af125b0115fac2d63b66de13365d9e8f3'') Null,
      Nav_node ''XED_ATTRIBUTE_DISP8_GPR_WRITER_LDOP_Q'' (Some ''xed-attribute-enum_8h.html#a848d4cf396be5a647413e94bc6f0a383a1155e7a1a8590875571386630335de4b'') Null,
      Nav_node ''XED_ATTRIBUTE_DISP8_GPR_WRITER_STORE'' (Some ''xed-attribute-enum_8h.html#a848d4cf396be5a647413e94bc6f0a383a2c32d2722c5cb13cc32b3e7375c0187d'') Null,
      Nav_node ''XED_ATTRIBUTE_DISP8_GPR_WRITER_STORE_BYTE'' (Some ''xed-attribute-enum_8h.html#a848d4cf396be5a647413e94bc6f0a383a63b493dbf8f12a3ceaad1c7effc6ca7e'') Null,
      Nav_node ''XED_ATTRIBUTE_DISP8_GPR_WRITER_STORE_WORD'' (Some ''xed-attribute-enum_8h.html#a848d4cf396be5a647413e94bc6f0a383a96bd1f14f71d7bad4a39dd4b64d73aa1'') Null,
      Nav_node ''XED_ATTRIBUTE_DISP8_GSCAT'' (Some ''xed-attribute-enum_8h.html#a848d4cf396be5a647413e94bc6f0a383a93a18e7291ebc583c920008a924fa969'') Null,
      Nav_node ''XED_ATTRIBUTE_DISP8_HALF'' (Some ''xed-attribute-enum_8h.html#a848d4cf396be5a647413e94bc6f0a383a4d9f4fe0a906dff4a6d3e2e11e1ecac1'') Null,
      Nav_node ''XED_ATTRIBUTE_DISP8_HALFMEM'' (Some ''xed-attribute-enum_8h.html#a848d4cf396be5a647413e94bc6f0a383aa065103c43446459041e6cdf5c301e30'') Null,
      Nav_node ''XED_ATTRIBUTE_DISP8_MEM128'' (Some ''xed-attribute-enum_8h.html#a848d4cf396be5a647413e94bc6f0a383a5d158a0adc02d0b5a8798e8c39d27ed5'') Null,
      Nav_node ''XED_ATTRIBUTE_DISP8_MOVDDUP'' (Some ''xed-attribute-enum_8h.html#a848d4cf396be5a647413e94bc6f0a383a19c930e8f6b1fb5ea4f749f4bf6e3fc2'') Null,
      Nav_node ''XED_ATTRIBUTE_DISP8_QUARTERMEM'' (Some ''xed-attribute-enum_8h.html#a848d4cf396be5a647413e94bc6f0a383abaa5b28995282be6260ec8830bb31ab6'') Null,
      Nav_node ''XED_ATTRIBUTE_DISP8_SCALAR'' (Some ''xed-attribute-enum_8h.html#a848d4cf396be5a647413e94bc6f0a383a2c32acd332e805a5725a15684ad138d8'') Null,
      Nav_node ''XED_ATTRIBUTE_DISP8_TUPLE1'' (Some ''xed-attribute-enum_8h.html#a848d4cf396be5a647413e94bc6f0a383ab118caa217c79efd32f83f42adbd4369'') Null,
      Nav_node ''XED_ATTRIBUTE_DISP8_TUPLE1_BYTE'' (Some ''xed-attribute-enum_8h.html#a848d4cf396be5a647413e94bc6f0a383abcfcb62d156c16ec0fe44cbe5685ab56'') Null,
      Nav_node ''XED_ATTRIBUTE_DISP8_TUPLE1_WORD'' (Some ''xed-attribute-enum_8h.html#a848d4cf396be5a647413e94bc6f0a383a44fabc5d0687858ed98818825ec8993f'') Null,
      Nav_node ''XED_ATTRIBUTE_DISP8_TUPLE2'' (Some ''xed-attribute-enum_8h.html#a848d4cf396be5a647413e94bc6f0a383a6d3b77d42f82872b0d0ea3ae039754e1'') Null,
      Nav_node ''XED_ATTRIBUTE_DISP8_TUPLE4'' (Some ''xed-attribute-enum_8h.html#a848d4cf396be5a647413e94bc6f0a383acc0de1b8c0b11e82275f06fbb905aafb'') Null,
      Nav_node ''XED_ATTRIBUTE_DISP8_TUPLE8'' (Some ''xed-attribute-enum_8h.html#a848d4cf396be5a647413e94bc6f0a383a8f85648652c85eec70d8efbb50760794'') Null,
      Nav_node ''XED_ATTRIBUTE_DOUBLE_WIDE_MEMOP'' (Some ''xed-attribute-enum_8h.html#a848d4cf396be5a647413e94bc6f0a383ae3271f0fb666756bc49bd4ed775a5923'') Null,
      Nav_node ''XED_ATTRIBUTE_DOUBLE_WIDE_OUTPUT'' (Some ''xed-attribute-enum_8h.html#a848d4cf396be5a647413e94bc6f0a383a6c10e5e2ef22dbcd39adb959d93b3c01'') Null,
      Nav_node ''XED_ATTRIBUTE_DWORD_INDICES'' (Some ''xed-attribute-enum_8h.html#a848d4cf396be5a647413e94bc6f0a383a291331d77d93c783e368abe946666ae1'') Null,
      Nav_node ''XED_ATTRIBUTE_ELEMENT_SIZE_D'' (Some ''xed-attribute-enum_8h.html#a848d4cf396be5a647413e94bc6f0a383a3cb28ce437980a6ced785089779fb5d1'') Null,
      Nav_node ''XED_ATTRIBUTE_ELEMENT_SIZE_Q'' (Some ''xed-attribute-enum_8h.html#a848d4cf396be5a647413e94bc6f0a383a3d08a19924b26a41cde498b67bc5ee5c'') Null,
      Nav_node ''XED_ATTRIBUTE_EXCEPTION_BR'' (Some ''xed-attribute-enum_8h.html#a848d4cf396be5a647413e94bc6f0a383ad9d7df427e883711d668788e709e423b'') Null,
      Nav_node ''XED_ATTRIBUTE_FAR_XFER'' (Some ''xed-attribute-enum_8h.html#a848d4cf396be5a647413e94bc6f0a383afd5b6bef99ab5e3b1bef4601a4bea9ae'') Null,
      Nav_node ''XED_ATTRIBUTE_FIXED_BASE0'' (Some ''xed-attribute-enum_8h.html#a848d4cf396be5a647413e94bc6f0a383a96c210dcac0a515a6159501c2089d758'') Null,
      Nav_node ''XED_ATTRIBUTE_FIXED_BASE1'' (Some ''xed-attribute-enum_8h.html#a848d4cf396be5a647413e94bc6f0a383a7f41e2e9604118c4b0c0c36a5e5ff138'') Null,
      Nav_node ''XED_ATTRIBUTE_GATHER'' (Some ''xed-attribute-enum_8h.html#a848d4cf396be5a647413e94bc6f0a383a988c6b53345ce4c80972c5f8375e47fa'') Null,
      Nav_node ''XED_ATTRIBUTE_HALF_WIDE_OUTPUT'' (Some ''xed-attribute-enum_8h.html#a848d4cf396be5a647413e94bc6f0a383ab7c857b8d4f6f7501a6b44a95af6a8d8'') Null,
      Nav_node ''XED_ATTRIBUTE_HLE_ACQ_ABLE'' (Some ''xed-attribute-enum_8h.html#a848d4cf396be5a647413e94bc6f0a383a242cdeb39cfd76fcbbfc881477d659b9'') Null,
      Nav_node ''XED_ATTRIBUTE_HLE_REL_ABLE'' (Some ''xed-attribute-enum_8h.html#a848d4cf396be5a647413e94bc6f0a383a9a0da45a34b4860114cb4ebdf31b60f7'') Null,
      Nav_node ''XED_ATTRIBUTE_IGNORES_OSFXSR'' (Some ''xed-attribute-enum_8h.html#a848d4cf396be5a647413e94bc6f0a383a5ae048ac31887e1974e978b0d34cb782'') Null,
      Nav_node ''XED_ATTRIBUTE_IMPLICIT_ONE'' (Some ''xed-attribute-enum_8h.html#a848d4cf396be5a647413e94bc6f0a383a7599cef87a987ada34f05a4b0965ea80'') Null,
      Nav_node ''XED_ATTRIBUTE_INDEX_REG_IS_POINTER'' (Some ''xed-attribute-enum_8h.html#a848d4cf396be5a647413e94bc6f0a383ab6b730dfa9bc88cb05087e3b9fb3c83d'') Null,
      Nav_node ''XED_ATTRIBUTE_KMASK'' (Some ''xed-attribute-enum_8h.html#a848d4cf396be5a647413e94bc6f0a383a91c27bd0930e7aafd5ba65dde2fca8fa'') Null,
      Nav_node ''XED_ATTRIBUTE_LOCKABLE'' (Some ''xed-attribute-enum_8h.html#a848d4cf396be5a647413e94bc6f0a383adcd1de159d96e5e3d923fa34d838bce7'') Null,
      Nav_node ''XED_ATTRIBUTE_MASKOP'' (Some ''xed-attribute-enum_8h.html#a848d4cf396be5a647413e94bc6f0a383a08f5b93f562ae785fa72f4072e03a732'') Null,
      Nav_node ''XED_ATTRIBUTE_MASKOP_EVEX'' (Some ''xed-attribute-enum_8h.html#a848d4cf396be5a647413e94bc6f0a383a93ed48abaa59427b2a0bfbb1c09c6a04'') Null,
      Nav_node ''XED_ATTRIBUTE_MASK_AS_CONTROL'' (Some ''xed-attribute-enum_8h.html#a848d4cf396be5a647413e94bc6f0a383a8ea0a16ff54ad1c079963d1178c2f4bd'') Null,
      Nav_node ''XED_ATTRIBUTE_MASK_VARIABLE_MEMOP'' (Some ''xed-attribute-enum_8h.html#a848d4cf396be5a647413e94bc6f0a383aef4c4fac1f9b841f7adf87be843d6b59'') Null,
      Nav_node ''XED_ATTRIBUTE_MEMORY_FAULT_SUPPRESSION'' (Some ''xed-attribute-enum_8h.html#a848d4cf396be5a647413e94bc6f0a383a8180175a8fc78094246622c298061c42'') Null,
      Nav_node ''XED_ATTRIBUTE_MMX_EXCEPT'' (Some ''xed-attribute-enum_8h.html#a848d4cf396be5a647413e94bc6f0a383abf8518611c3d3f932908b81fe7ef07c7'') Null,
      Nav_node ''XED_ATTRIBUTE_MPX_PREFIX_ABLE'' (Some ''xed-attribute-enum_8h.html#a848d4cf396be5a647413e94bc6f0a383a006a57277b0700b2a2e63cd93a9e5941'') Null,
      Nav_node ''XED_ATTRIBUTE_MXCSR'' (Some ''xed-attribute-enum_8h.html#a848d4cf396be5a647413e94bc6f0a383acbbc9625c471161b322dbcf8096762ff'') Null,
      Nav_node ''XED_ATTRIBUTE_MXCSR_RD'' (Some ''xed-attribute-enum_8h.html#a848d4cf396be5a647413e94bc6f0a383aa0597a7aa93ee47c32ca2c94134ab0d3'') Null,
      Nav_node ''XED_ATTRIBUTE_NOP'' (Some ''xed-attribute-enum_8h.html#a848d4cf396be5a647413e94bc6f0a383ace11280204295daec8a0abf893803616'') Null,
      Nav_node ''XED_ATTRIBUTE_NOTSX'' (Some ''xed-attribute-enum_8h.html#a848d4cf396be5a647413e94bc6f0a383a128128c71a841ef7358e160594c3d3e8'') Null,
      Nav_node ''XED_ATTRIBUTE_NOTSX_COND'' (Some ''xed-attribute-enum_8h.html#a848d4cf396be5a647413e94bc6f0a383a940081c3221431c8fa2492fa41004bfc'') Null,
      Nav_node ''XED_ATTRIBUTE_NO_RIP_REL'' (Some ''xed-attribute-enum_8h.html#a848d4cf396be5a647413e94bc6f0a383a6ca62e6b335684b8d8f1e52bd1848267'') Null,
      Nav_node ''XED_ATTRIBUTE_PREFETCH'' (Some ''xed-attribute-enum_8h.html#a848d4cf396be5a647413e94bc6f0a383ac0e4bceb32b8a8f362723d7882c59fc1'') Null,
      Nav_node ''XED_ATTRIBUTE_PROTECTED_MODE'' (Some ''xed-attribute-enum_8h.html#a848d4cf396be5a647413e94bc6f0a383abca8f3e88ecf469682373e49a375e366'') Null,
      Nav_node ''XED_ATTRIBUTE_QWORD_INDICES'' (Some ''xed-attribute-enum_8h.html#a848d4cf396be5a647413e94bc6f0a383aa9bb71f723256863327baffa9d40322e'') Null,
      Nav_node ''XED_ATTRIBUTE_REQUIRES_ALIGNMENT'' (Some ''xed-attribute-enum_8h.html#a848d4cf396be5a647413e94bc6f0a383ae350d7b473df0820faf1f881b7af558e'') Null,
      Nav_node ''XED_ATTRIBUTE_RING0'' (Some ''xed-attribute-enum_8h.html#a848d4cf396be5a647413e94bc6f0a383ae7f5e88c625df3171b47da32eacf8350'') Null,
      Nav_node ''XED_ATTRIBUTE_SCALABLE'' (Some ''xed-attribute-enum_8h.html#a848d4cf396be5a647413e94bc6f0a383a28c4a9c33a51657388eb02feca4de33a'') Null,
      Nav_node ''XED_ATTRIBUTE_SCATTER'' (Some ''xed-attribute-enum_8h.html#a848d4cf396be5a647413e94bc6f0a383ac9e0605fc42200b9be0f837c085b2ae1'') Null,
      Nav_node ''XED_ATTRIBUTE_SIMD_PACKED_ALIGNMENT'' (Some ''xed-attribute-enum_8h.html#a848d4cf396be5a647413e94bc6f0a383a4789613c8662284a88a7dab640ae3b9c'') Null,
      Nav_node ''XED_ATTRIBUTE_SIMD_SCALAR'' (Some ''xed-attribute-enum_8h.html#a848d4cf396be5a647413e94bc6f0a383ac05a8912c03c356e06f92c44ab0e5507'') Null,
      Nav_node ''XED_ATTRIBUTE_SKIPLOW32'' (Some ''xed-attribute-enum_8h.html#a848d4cf396be5a647413e94bc6f0a383a9d62e0804b1c0a3e5bba75d9a7f125cb'') Null,
      Nav_node ''XED_ATTRIBUTE_SKIPLOW64'' (Some ''xed-attribute-enum_8h.html#a848d4cf396be5a647413e94bc6f0a383a0d51b35e1c295c4505e0bfaead0220df'') Null,
      Nav_node ''XED_ATTRIBUTE_SPECIAL_AGEN_REQUIRED'' (Some ''xed-attribute-enum_8h.html#a848d4cf396be5a647413e94bc6f0a383ab5d702a62f38d6ab32e02f4b4d74401e'') Null,
      Nav_node ''XED_ATTRIBUTE_STACKPOP0'' (Some ''xed-attribute-enum_8h.html#a848d4cf396be5a647413e94bc6f0a383aad2b46bc6d06b112d40f36eb5a4703f1'') Null,
      Nav_node ''XED_ATTRIBUTE_STACKPOP1'' (Some ''xed-attribute-enum_8h.html#a848d4cf396be5a647413e94bc6f0a383a002ca3beb2bed4b3d89dd4dd9265097f'') Null,
      Nav_node ''XED_ATTRIBUTE_STACKPUSH0'' (Some ''xed-attribute-enum_8h.html#a848d4cf396be5a647413e94bc6f0a383a3a26504f1ac1847b7f7d7066d4f49f80'') Null,
      Nav_node ''XED_ATTRIBUTE_STACKPUSH1'' (Some ''xed-attribute-enum_8h.html#a848d4cf396be5a647413e94bc6f0a383a310d9ebd299b025dedf6a12cf18c8748'') Null,
      Nav_node ''XED_ATTRIBUTE_UNALIGNED'' (Some ''xed-attribute-enum_8h.html#a848d4cf396be5a647413e94bc6f0a383a7831b7bc9f89b8c25b1dab1a56b8a371'') Null,
      Nav_node ''XED_ATTRIBUTE_X87_CONTROL'' (Some ''xed-attribute-enum_8h.html#a848d4cf396be5a647413e94bc6f0a383ac5df59117826565d78f667151748bf18'') Null,
      Nav_node ''XED_ATTRIBUTE_X87_MMX_STATE_CW'' (Some ''xed-attribute-enum_8h.html#a848d4cf396be5a647413e94bc6f0a383a093f7f3c3644e75a3194bb85d4df1004'') Null,
      Nav_node ''XED_ATTRIBUTE_X87_MMX_STATE_R'' (Some ''xed-attribute-enum_8h.html#a848d4cf396be5a647413e94bc6f0a383ae7bc51797c812a0bbe4f0189f605e290'') Null,
      Nav_node ''XED_ATTRIBUTE_X87_MMX_STATE_W'' (Some ''xed-attribute-enum_8h.html#a848d4cf396be5a647413e94bc6f0a383aca0e8efbeff6234d844f6be83aa5bbd5'') Null,
      Nav_node ''XED_ATTRIBUTE_X87_NOWAIT'' (Some ''xed-attribute-enum_8h.html#a848d4cf396be5a647413e94bc6f0a383a7a467e86f446876577d378f4af665549'') Null,
      Nav_node ''XED_ATTRIBUTE_XMM_STATE_CW'' (Some ''xed-attribute-enum_8h.html#a848d4cf396be5a647413e94bc6f0a383a8bf42247c1e57ebd68168a617ae9e0dd'') Null,
      Nav_node ''XED_ATTRIBUTE_XMM_STATE_R'' (Some ''xed-attribute-enum_8h.html#a848d4cf396be5a647413e94bc6f0a383a22012459a281158645347bb3ab9d1558'') Null,
      Nav_node ''XED_ATTRIBUTE_XMM_STATE_W'' (Some ''xed-attribute-enum_8h.html#a848d4cf396be5a647413e94bc6f0a383a0dcfe911279d50d0b65f221dcbafe93c'') Null,
      Nav_node ''XED_ATTRIBUTE_LAST'' (Some ''xed-attribute-enum_8h.html#a848d4cf396be5a647413e94bc6f0a383a938e0359670348622c6a9c8ecf083ef4'') Null]),
    Nav_node ''str2xed_attribute_enum_t'' (Some ''group__ENUM.html#ga81b5de8d76c2801a6b1cbca58beb270b'') Null,
    Nav_node ''xed_attribute_enum_t2str'' (Some ''group__ENUM.html#ga46e1e07daead7a33e8704bc684fe795c'') Null,
    Nav_node ''xed_attribute_enum_t_last'' (Some ''group__ENUM.html#ga0fd9c06747c9755c0e631746acbd5661'') Null]"

definition xed_build_defines_8h :: "nav_node list" where
  "xed_build_defines_8h = [
    Nav_node ''XED_AMD_ENABLED'' (Some ''xed-build-defines_8h.html#af5657cebfa3a6cc8af616ee02019e044'') Null,
    Nav_node ''XED_AVX'' (Some ''xed-build-defines_8h.html#a15be773b13b8f2512466af13cefa88c8'') Null,
    Nav_node ''XED_GIT_VERSION'' (Some ''xed-build-defines_8h.html#a03f2bf411a0fc8184a3c5474ae86f3ec'') Null,
    Nav_node ''XED_MPX'' (Some ''xed-build-defines_8h.html#a1371000eebf7e948d73de2afbd2b3cd4'') Null,
    Nav_node ''XED_SUPPORTS_AVX512'' (Some ''xed-build-defines_8h.html#ad814bc316b47add9888ac9c9a52b660c'') Null]"

definition xed_category_enum_8h :: "nav_node list" where
  "xed_category_enum_8h = [
    Nav_node ''xed_category_enum_t'' (Some ''xed-category-enum_8h.html#a3e6e23a35a7ad463e2422d7db98e49f5'') (Nodes [
      Nav_node ''XED_CATEGORY_INVALID'' (Some ''xed-category-enum_8h.html#a3e6e23a35a7ad463e2422d7db98e49f5a749d105ef9739a26dbbe0fdf377fce21'') Null,
      Nav_node ''XED_CATEGORY_3DNOW'' (Some ''xed-category-enum_8h.html#a3e6e23a35a7ad463e2422d7db98e49f5ad453329934de701723715cdbe60597fa'') Null,
      Nav_node ''XED_CATEGORY_AES'' (Some ''xed-category-enum_8h.html#a3e6e23a35a7ad463e2422d7db98e49f5a121a2e054086057dca4ed3e86229bfdc'') Null,
      Nav_node ''XED_CATEGORY_AVX'' (Some ''xed-category-enum_8h.html#a3e6e23a35a7ad463e2422d7db98e49f5a32c6a4d623a7311ac74588b19a77478f'') Null,
      Nav_node ''XED_CATEGORY_AVX2'' (Some ''xed-category-enum_8h.html#a3e6e23a35a7ad463e2422d7db98e49f5a87a0c8299bfb92de42d65d49fb6b3c41'') Null,
      Nav_node ''XED_CATEGORY_AVX2GATHER'' (Some ''xed-category-enum_8h.html#a3e6e23a35a7ad463e2422d7db98e49f5af3ace99013b2741d9341fc4a4408cee9'') Null,
      Nav_node ''XED_CATEGORY_AVX512'' (Some ''xed-category-enum_8h.html#a3e6e23a35a7ad463e2422d7db98e49f5a94e63ce39664f52881c36af33e354e29'') Null,
      Nav_node ''XED_CATEGORY_AVX512VBMI'' (Some ''xed-category-enum_8h.html#a3e6e23a35a7ad463e2422d7db98e49f5a1521c5b817113515d366c87f90db2b0c'') Null,
      Nav_node ''XED_CATEGORY_BDW'' (Some ''xed-category-enum_8h.html#a3e6e23a35a7ad463e2422d7db98e49f5a7911a58519df866a49815335c046f4ea'') Null,
      Nav_node ''XED_CATEGORY_BINARY'' (Some ''xed-category-enum_8h.html#a3e6e23a35a7ad463e2422d7db98e49f5a39e4f50213019e0500729c124a4ad54c'') Null,
      Nav_node ''XED_CATEGORY_BITBYTE'' (Some ''xed-category-enum_8h.html#a3e6e23a35a7ad463e2422d7db98e49f5ab34fd13767fbe4cf0c2357c167db0ab5'') Null,
      Nav_node ''XED_CATEGORY_BLEND'' (Some ''xed-category-enum_8h.html#a3e6e23a35a7ad463e2422d7db98e49f5a606cd85ef46bb1fbdf1b22643f4fed07'') Null,
      Nav_node ''XED_CATEGORY_BMI1'' (Some ''xed-category-enum_8h.html#a3e6e23a35a7ad463e2422d7db98e49f5a1a6a73d3f927ded13e2310c10db1f71d'') Null,
      Nav_node ''XED_CATEGORY_BMI2'' (Some ''xed-category-enum_8h.html#a3e6e23a35a7ad463e2422d7db98e49f5a6ca830e3c9cd8f5524134eed546f1ce9'') Null,
      Nav_node ''XED_CATEGORY_BROADCAST'' (Some ''xed-category-enum_8h.html#a3e6e23a35a7ad463e2422d7db98e49f5a32af974d6f386840e0febfae732409bd'') Null,
      Nav_node ''XED_CATEGORY_CALL'' (Some ''xed-category-enum_8h.html#a3e6e23a35a7ad463e2422d7db98e49f5adda9cef9d2c2e9a73ff5050ceec5d47f'') Null,
      Nav_node ''XED_CATEGORY_CLFLUSHOPT'' (Some ''xed-category-enum_8h.html#a3e6e23a35a7ad463e2422d7db98e49f5aa2aaa498afbcc9b8013144eb352e1f24'') Null,
      Nav_node ''XED_CATEGORY_CLWB'' (Some ''xed-category-enum_8h.html#a3e6e23a35a7ad463e2422d7db98e49f5a1557a1d178fc7a9fcd9622bb4c95ad5d'') Null,
      Nav_node ''XED_CATEGORY_CMOV'' (Some ''xed-category-enum_8h.html#a3e6e23a35a7ad463e2422d7db98e49f5a34643bf5aea7896ba82f69d064d6979b'') Null,
      Nav_node ''XED_CATEGORY_COMPRESS'' (Some ''xed-category-enum_8h.html#a3e6e23a35a7ad463e2422d7db98e49f5a10ef32d46ce0e72076db99eabdf1e182'') Null,
      Nav_node ''XED_CATEGORY_COND_BR'' (Some ''xed-category-enum_8h.html#a3e6e23a35a7ad463e2422d7db98e49f5a883ee8a305a6d5ca6447c29290827ba7'') Null,
      Nav_node ''XED_CATEGORY_CONFLICT'' (Some ''xed-category-enum_8h.html#a3e6e23a35a7ad463e2422d7db98e49f5a612280c6ecce68537f077cf9e33cd0b1'') Null,
      Nav_node ''XED_CATEGORY_CONVERT'' (Some ''xed-category-enum_8h.html#a3e6e23a35a7ad463e2422d7db98e49f5ad0baf9aa213fbe78ed27e4d563e2931b'') Null,
      Nav_node ''XED_CATEGORY_DATAXFER'' (Some ''xed-category-enum_8h.html#a3e6e23a35a7ad463e2422d7db98e49f5a7445bc16a271292d464d84ba89951d6b'') Null,
      Nav_node ''XED_CATEGORY_DECIMAL'' (Some ''xed-category-enum_8h.html#a3e6e23a35a7ad463e2422d7db98e49f5ab829bf7612fa0b222c6e75235e7b0fba'') Null,
      Nav_node ''XED_CATEGORY_EXPAND'' (Some ''xed-category-enum_8h.html#a3e6e23a35a7ad463e2422d7db98e49f5a228c134851e1b3e068430eb9b93d9b27'') Null,
      Nav_node ''XED_CATEGORY_FCMOV'' (Some ''xed-category-enum_8h.html#a3e6e23a35a7ad463e2422d7db98e49f5a7c3085a4bd7b9c51f142da1c65521e4d'') Null,
      Nav_node ''XED_CATEGORY_FLAGOP'' (Some ''xed-category-enum_8h.html#a3e6e23a35a7ad463e2422d7db98e49f5aafeb9114ddb0ea7d584f4681fcfd6e85'') Null,
      Nav_node ''XED_CATEGORY_FMA4'' (Some ''xed-category-enum_8h.html#a3e6e23a35a7ad463e2422d7db98e49f5a96e9d4b2782a1ac1ef5da5c75051bdc2'') Null,
      Nav_node ''XED_CATEGORY_GATHER'' (Some ''xed-category-enum_8h.html#a3e6e23a35a7ad463e2422d7db98e49f5ae562f76ed3de23cfde9e663c0aeb8938'') Null,
      Nav_node ''XED_CATEGORY_IFMA'' (Some ''xed-category-enum_8h.html#a3e6e23a35a7ad463e2422d7db98e49f5a6e85229bc13025f25a09d5fadd2ae277'') Null,
      Nav_node ''XED_CATEGORY_INTERRUPT'' (Some ''xed-category-enum_8h.html#a3e6e23a35a7ad463e2422d7db98e49f5ac8f55eeb2646d352f1709fdd9735d08a'') Null,
      Nav_node ''XED_CATEGORY_IO'' (Some ''xed-category-enum_8h.html#a3e6e23a35a7ad463e2422d7db98e49f5a63b06a6e085364d0458aa9e3f975841d'') Null,
      Nav_node ''XED_CATEGORY_IOSTRINGOP'' (Some ''xed-category-enum_8h.html#a3e6e23a35a7ad463e2422d7db98e49f5a7fe6d69f22607c854a7d2e68bb05f75b'') Null,
      Nav_node ''XED_CATEGORY_KMASK'' (Some ''xed-category-enum_8h.html#a3e6e23a35a7ad463e2422d7db98e49f5a720290a120257c219ccc468578710572'') Null,
      Nav_node ''XED_CATEGORY_KNL'' (Some ''xed-category-enum_8h.html#a3e6e23a35a7ad463e2422d7db98e49f5a12cc044916d45f4949d7cbdd8a37d6e0'') Null,
      Nav_node ''XED_CATEGORY_LOGICAL'' (Some ''xed-category-enum_8h.html#a3e6e23a35a7ad463e2422d7db98e49f5a234aad4cc0a404d8c19c50f52babaf3f'') Null,
      Nav_node ''XED_CATEGORY_LOGICAL_FP'' (Some ''xed-category-enum_8h.html#a3e6e23a35a7ad463e2422d7db98e49f5ae815db166b3043d51d1a583509a25f3c'') Null,
      Nav_node ''XED_CATEGORY_LZCNT'' (Some ''xed-category-enum_8h.html#a3e6e23a35a7ad463e2422d7db98e49f5af421b561775bc9878d120bda9d0a9889'') Null,
      Nav_node ''XED_CATEGORY_MISC'' (Some ''xed-category-enum_8h.html#a3e6e23a35a7ad463e2422d7db98e49f5a02a7414a78a862f8f6aa3528e9b65635'') Null,
      Nav_node ''XED_CATEGORY_MMX'' (Some ''xed-category-enum_8h.html#a3e6e23a35a7ad463e2422d7db98e49f5acf134e67ba448a66a7a913934eff933b'') Null,
      Nav_node ''XED_CATEGORY_MPX'' (Some ''xed-category-enum_8h.html#a3e6e23a35a7ad463e2422d7db98e49f5a1b35527e61d82286ac0903ab02b3069a'') Null,
      Nav_node ''XED_CATEGORY_NOP'' (Some ''xed-category-enum_8h.html#a3e6e23a35a7ad463e2422d7db98e49f5a3daf234ebb436b3036f5118f9ab4950a'') Null,
      Nav_node ''XED_CATEGORY_PCLMULQDQ'' (Some ''xed-category-enum_8h.html#a3e6e23a35a7ad463e2422d7db98e49f5af44d15a81c020ef3f11744e0ded3bd75'') Null,
      Nav_node ''XED_CATEGORY_PCOMMIT'' (Some ''xed-category-enum_8h.html#a3e6e23a35a7ad463e2422d7db98e49f5a0347f3e6c46b64361a429492f6ea37bf'') Null,
      Nav_node ''XED_CATEGORY_POP'' (Some ''xed-category-enum_8h.html#a3e6e23a35a7ad463e2422d7db98e49f5a752fdbd4160fdbd1cb8b3502134554a4'') Null,
      Nav_node ''XED_CATEGORY_PREFETCH'' (Some ''xed-category-enum_8h.html#a3e6e23a35a7ad463e2422d7db98e49f5a57bf9af3076e92642d65a68ebacb6ab3'') Null,
      Nav_node ''XED_CATEGORY_PUSH'' (Some ''xed-category-enum_8h.html#a3e6e23a35a7ad463e2422d7db98e49f5a15d32522b8ae825c957c8babbd926acf'') Null,
      Nav_node ''XED_CATEGORY_RDRAND'' (Some ''xed-category-enum_8h.html#a3e6e23a35a7ad463e2422d7db98e49f5a548a79191b9b30be5e90f7f368615612'') Null,
      Nav_node ''XED_CATEGORY_RDSEED'' (Some ''xed-category-enum_8h.html#a3e6e23a35a7ad463e2422d7db98e49f5a3b52d77a2eb1120b840ab860f6767ea6'') Null,
      Nav_node ''XED_CATEGORY_RDWRFSGS'' (Some ''xed-category-enum_8h.html#a3e6e23a35a7ad463e2422d7db98e49f5a64439f33b413342775c49f2541cfa0bb'') Null,
      Nav_node ''XED_CATEGORY_RET'' (Some ''xed-category-enum_8h.html#a3e6e23a35a7ad463e2422d7db98e49f5a9f1356d851017acf05f460b577022640'') Null,
      Nav_node ''XED_CATEGORY_ROTATE'' (Some ''xed-category-enum_8h.html#a3e6e23a35a7ad463e2422d7db98e49f5aa96ee24015b86cb2f158113db3a37668'') Null,
      Nav_node ''XED_CATEGORY_SCATTER'' (Some ''xed-category-enum_8h.html#a3e6e23a35a7ad463e2422d7db98e49f5a06a95073b06d846866b8603a34bb6c94'') Null,
      Nav_node ''XED_CATEGORY_SEGOP'' (Some ''xed-category-enum_8h.html#a3e6e23a35a7ad463e2422d7db98e49f5afbe7e957048acb4cd256f88fadc8a530'') Null,
      Nav_node ''XED_CATEGORY_SEMAPHORE'' (Some ''xed-category-enum_8h.html#a3e6e23a35a7ad463e2422d7db98e49f5a1057eb786a28ca86c2127d4797649110'') Null,
      Nav_node ''XED_CATEGORY_SETCC'' (Some ''xed-category-enum_8h.html#a3e6e23a35a7ad463e2422d7db98e49f5a32ea37a9e78763dbb3e597c5df7b304d'') Null,
      Nav_node ''XED_CATEGORY_SGX'' (Some ''xed-category-enum_8h.html#a3e6e23a35a7ad463e2422d7db98e49f5a1fdc18a57bea9404566abfbe270a5dca'') Null,
      Nav_node ''XED_CATEGORY_SHA'' (Some ''xed-category-enum_8h.html#a3e6e23a35a7ad463e2422d7db98e49f5a39c1ece99ee8cd1961cf36dc1a099f97'') Null,
      Nav_node ''XED_CATEGORY_SHIFT'' (Some ''xed-category-enum_8h.html#a3e6e23a35a7ad463e2422d7db98e49f5afb2cb9df48e0d470fa33179d767b938f'') Null,
      Nav_node ''XED_CATEGORY_SMAP'' (Some ''xed-category-enum_8h.html#a3e6e23a35a7ad463e2422d7db98e49f5aa8e0dbcc631321dcafe260db24f30864'') Null,
      Nav_node ''XED_CATEGORY_SSE'' (Some ''xed-category-enum_8h.html#a3e6e23a35a7ad463e2422d7db98e49f5ab74d0065a62293154afba55bf7a2738a'') Null,
      Nav_node ''XED_CATEGORY_STRINGOP'' (Some ''xed-category-enum_8h.html#a3e6e23a35a7ad463e2422d7db98e49f5ad96137ea5130940e1c4513d3ee453350'') Null,
      Nav_node ''XED_CATEGORY_STTNI'' (Some ''xed-category-enum_8h.html#a3e6e23a35a7ad463e2422d7db98e49f5a9a8882cfab19d28799781994a03a7fa3'') Null,
      Nav_node ''XED_CATEGORY_SYSCALL'' (Some ''xed-category-enum_8h.html#a3e6e23a35a7ad463e2422d7db98e49f5ac5719b1f07506ff7879673dbbcfbee09'') Null,
      Nav_node ''XED_CATEGORY_SYSRET'' (Some ''xed-category-enum_8h.html#a3e6e23a35a7ad463e2422d7db98e49f5aba87548425b6cd204a3e11cffce990ea'') Null,
      Nav_node ''XED_CATEGORY_SYSTEM'' (Some ''xed-category-enum_8h.html#a3e6e23a35a7ad463e2422d7db98e49f5a6b2874a7fafee99fb25352462d8bfd13'') Null,
      Nav_node ''XED_CATEGORY_TBM'' (Some ''xed-category-enum_8h.html#a3e6e23a35a7ad463e2422d7db98e49f5ad40525ef516422efd9890172396e1c6f'') Null,
      Nav_node ''XED_CATEGORY_UNCOND_BR'' (Some ''xed-category-enum_8h.html#a3e6e23a35a7ad463e2422d7db98e49f5a99c9bccdb53a91f7b634643c994a5948'') Null,
      Nav_node ''XED_CATEGORY_VFMA'' (Some ''xed-category-enum_8h.html#a3e6e23a35a7ad463e2422d7db98e49f5a0a0f0a511ec4604f69d8d4d2b0b4bb57'') Null,
      Nav_node ''XED_CATEGORY_VTX'' (Some ''xed-category-enum_8h.html#a3e6e23a35a7ad463e2422d7db98e49f5a7602470ea5489adf15fe8ef7e4a2533f'') Null,
      Nav_node ''XED_CATEGORY_WIDENOP'' (Some ''xed-category-enum_8h.html#a3e6e23a35a7ad463e2422d7db98e49f5a43b685645e51458742d7c11ad595d80f'') Null,
      Nav_node ''XED_CATEGORY_X87_ALU'' (Some ''xed-category-enum_8h.html#a3e6e23a35a7ad463e2422d7db98e49f5a0715b1a8e57f8c767a4ea7b953aa3c35'') Null,
      Nav_node ''XED_CATEGORY_XOP'' (Some ''xed-category-enum_8h.html#a3e6e23a35a7ad463e2422d7db98e49f5abb76f69af50b86b6ef6b4f2f8a735338'') Null,
      Nav_node ''XED_CATEGORY_XSAVE'' (Some ''xed-category-enum_8h.html#a3e6e23a35a7ad463e2422d7db98e49f5a839a4ba1f104cc925eee9ac72bf26627'') Null,
      Nav_node ''XED_CATEGORY_XSAVEOPT'' (Some ''xed-category-enum_8h.html#a3e6e23a35a7ad463e2422d7db98e49f5a83352105735795e1fc265b81744702df'') Null,
      Nav_node ''XED_CATEGORY_LAST'' (Some ''xed-category-enum_8h.html#a3e6e23a35a7ad463e2422d7db98e49f5a05331113355163706eb8f226b8da42c2'') Null]),
    Nav_node ''str2xed_category_enum_t'' (Some ''group__ENUM.html#gac610a6c96eedfac9cc046bafdf24d2bd'') Null,
    Nav_node ''xed_category_enum_t2str'' (Some ''group__ENUM.html#ga14cc11e45d2f7ef8af382c8304682216'') Null,
    Nav_node ''xed_category_enum_t_last'' (Some ''group__ENUM.html#ga97cf2ec4b3a8616cd8ac347d18624bf7'') Null]"

end
