(* ===== verification/Nav_Tables_3.thy ===== *)
theory Nav_Tables_3
  imports Nav_Data
begin

text \<open>
  Child tables of the navigation tree, one definition for each script, or several where the
  script is long: the nodes that the scripts put below the nodes that name them.
\<close>

definition xed_operand_action_8h :: "nav_node list" where
  "xed_operand_action_8h = [
    Nav_node ''xed_operand_action_conditional_read'' (Some ''xed-operand-action_8h.html#aa0b6ad50c1b23f9f3df4a0a3663d5bcf'') Null,
    Nav_node ''xed_operand_action_conditional_write'' (Some ''xed-operand-action_8h.html#afb95ec4719fcb9ebec1f6828f2f4fb07'') Null,
    Nav_node ''xed_operand_action_read'' (Some ''xed-operand-action_8h.html#a09910458f9c0c5ec1417ff337907daa7'') Null,
    Nav_node ''xed_operand_action_read_and_written'' (Some ''xed-operand-action_8h.html#ac8be8cae934c23aba473333c6a2d1717'') Null,
    Nav_node ''xed_operand_action_read_only'' (Some ''xed-operand-action_8h.html#a0978e9802aa6911d7c0e5c0b35cbe580'') Null,
    Nav_node ''xed_operand_action_written'' (Some ''xed-operand-action_8h.html#a0d4402eae9261688a0c4f0132e3fd46f'') Null,
    Nav_node ''xed_operand_action_written_only'' (Some ''xed-operand-action_8h.html#ae3af4cc87dd1ceaf1c4d7e6dad931d11'') Null]"

definition xed_operand_convert_enum_8h :: "nav_node list" where
  "xed_operand_convert_enum_8h = [
    Nav_node ''xed_operand_convert_enum_t'' (Some ''xed-operand-convert-enum_8h.html#a08b83dd2a6ef2188efb833bd5b0d7d9f'') (Nodes [
      Nav_node ''XED_OPERAND_CONVERT_INVALID'' (Some ''xed-operand-convert-enum_8h.html#a08b83dd2a6ef2188efb833bd5b0d7d9fabc6b02a62eceb93fd19b9ae4d9447d5f'') Null,
      Nav_node ''XED_OPERAND_CONVERT_ZEROSTR'' (Some ''xed-operand-convert-enum_8h.html#a08b83dd2a6ef2188efb833bd5b0d7d9fa6fee5c9cf1e211b7b38bece450b5c4e1'') Null,
      Nav_node ''XED_OPERAND_CONVERT_SAESTR'' (Some ''xed-operand-convert-enum_8h.html#a08b83dd2a6ef2188efb833bd5b0d7d9fa6961f4382c00f8bccf61a585590236d6'') Null,
      Nav_node ''XED_OPERAND_CONVERT_ROUNDC'' (Some ''xed-operand-convert-enum_8h.html#a08b83dd2a6ef2188efb833bd5b0d7d9fa64dd1cbbeb25b835fd07ba47c9e886bf'') Null,
      Nav_node ''XED_OPERAND_CONVERT_BCASTSTR'' (Some ''xed-operand-convert-enum_8h.html#a08b83dd2a6ef2188efb833bd5b0d7d9fa7fc74f85c4a60317ea0466b75d5bd3cf'') Null,
      Nav_node ''XED_OPERAND_CONVERT_LAST'' (Some ''xed-operand-convert-enum_8h.html#a08b83dd2a6ef2188efb833bd5b0d7d9fa31bba6c5dafa9661913a2917446516d5'') Null]),
    Nav_node ''str2xed_operand_convert_enum_t'' (Some ''group__ENUM.html#gaff3cfcae6a879b77bff27c370f29551c'') Null,
    Nav_node ''xed_operand_convert_enum_t2str'' (Some ''group__ENUM.html#ga5a33de30043b049cf62638369cd84071'') Null,
    Nav_node ''xed_operand_convert_enum_t_last'' (Some ''group__ENUM.html#ga4457b5e416e0f2a52e67af75638c5f27'') Null]"

definition xed_operand_ctype_enum_8h :: "nav_node list" where
  "xed_operand_ctype_enum_8h = [
    Nav_node ''xed_operand_ctype_enum_t'' (Some ''xed-operand-ctype-enum_8h.html#a0b2cec39e2812706b0bf62b761543318'') (Nodes [
      Nav_node ''XED_OPERAND_CTYPE_INVALID'' (Some ''xed-operand-ctype-enum_8h.html#a0b2cec39e2812706b0bf62b761543318a99fd9bb8fdee0852538c1d9686cdae77'') Null,
      Nav_node ''XED_OPERAND_CTYPE_XED_BITS_T'' (Some ''xed-operand-ctype-enum_8h.html#a0b2cec39e2812706b0bf62b761543318a15964bc1410aaccce9a885a81f34cb63'') Null,
      Nav_node ''XED_OPERAND_CTYPE_XED_CHIP_ENUM_T'' (Some ''xed-operand-ctype-enum_8h.html#a0b2cec39e2812706b0bf62b761543318a1e55131996d3b257266e864689ca10ea'') Null,
      Nav_node ''XED_OPERAND_CTYPE_XED_ERROR_ENUM_T'' (Some ''xed-operand-ctype-enum_8h.html#a0b2cec39e2812706b0bf62b761543318a2d43fa247b35a16f70754247614495a2'') Null,
      Nav_node ''XED_OPERAND_CTYPE_XED_ICLASS_ENUM_T'' (Some ''xed-operand-ctype-enum_8h.html#a0b2cec39e2812706b0bf62b761543318a666ee8acb82fffc34c697eb88044a36a'') Null,
      Nav_node ''XED_OPERAND_CTYPE_XED_INT64_T'' (Some ''xed-operand-ctype-enum_8h.html#a0b2cec39e2812706b0bf62b761543318a7d5ed1d605c20419ae2cbb79be843c6b'') Null,
      Nav_node ''XED_OPERAND_CTYPE_XED_OPERAND_ELEMENT_TYPE_ENUM_T'' (Some ''xed-operand-ctype-enum_8h.html#a0b2cec39e2812706b0bf62b761543318a009be7f7ceafb9273c7f023ed3ed8f4a'') Null,
      Nav_node ''XED_OPERAND_CTYPE_XED_REG_ENUM_T'' (Some ''xed-operand-ctype-enum_8h.html#a0b2cec39e2812706b0bf62b761543318aff84e7f86488a4287b5d32d5b22810cd'') Null,
      Nav_node ''XED_OPERAND_CTYPE_XED_UINT16_T'' (Some ''xed-operand-ctype-enum_8h.html#a0b2cec39e2812706b0bf62b761543318aa811bb27288bbe23144a687c9c7d9a3e'') Null,
      Nav_node ''XED_OPERAND_CTYPE_XED_UINT64_T'' (Some ''xed-operand-ctype-enum_8h.html#a0b2cec39e2812706b0bf62b761543318a5ae882b0d128f3db586bcd8f6a35fe53'') Null,
      Nav_node ''XED_OPERAND_CTYPE_XED_UINT8_T'' (Some ''xed-operand-ctype-enum_8h.html#a0b2cec39e2812706b0bf62b761543318a9a255d3f647ece1d03c1490937310594'') Null,
      Nav_node ''XED_OPERAND_CTYPE_LAST'' (Some ''xed-operand-ctype-enum_8h.html#a0b2cec39e2812706b0bf62b761543318a8ebeb4ab65dfa87dc75c527d5bc61362'') Null]),
    Nav_node ''str2xed_operand_ctype_enum_t'' (Some ''group__ENUM.html#ga27724ce0d3b1c14cf5f6b2bca94b62e5'') Null,
    Nav_node ''xed_operand_ctype_enum_t2str'' (Some ''group__ENUM.html#ga9ddc4d63a31aca655e1cd1d0dd0f9da8'') Null,
    Nav_node ''xed_operand_ctype_enum_t_last'' (Some ''group__ENUM.html#ga120755cc315d0af290eaa97a2d2c8d48'') Null]"

definition xed_operand_ctype_map_8h :: "nav_node list" where
  "xed_operand_ctype_map_8h = [
    Nav_node ''xed_operand_decider_get_width'' (Some ''xed-operand-ctype-map_8h.html#a959a6b5e5b21106fb8c83a7a12b1a6f3'') Null,
    Nav_node ''xed_operand_get_ctype'' (Some ''xed-operand-ctype-map_8h.html#a1caa2ab3867b0914778b62c5c6e316d4'') Null]"

definition xed_operand_element_type_enum_8h :: "nav_node list" where
  "xed_operand_element_type_enum_8h = [
    Nav_node ''xed_operand_element_type_enum_t'' (Some ''xed-operand-element-type-enum_8h.html#a6942f19fe2b1943a9a98d6598ff2c9d5'') (Nodes [
      Nav_node ''XED_OPERAND_ELEMENT_TYPE_INVALID'' (Some ''xed-operand-element-type-enum_8h.html#a6942f19fe2b1943a9a98d6598ff2c9d5a89a5af30bc797e0b91c3cf4918261eba'') Null,
      Nav_node ''XED_OPERAND_ELEMENT_TYPE_UINT'' (Some ''xed-operand-element-type-enum_8h.html#a6942f19fe2b1943a9a98d6598ff2c9d5a4864a4fbc7cca19aea2f4e2ee58b72dc'') Null,
      Nav_node ''XED_OPERAND_ELEMENT_TYPE_INT'' (Some ''xed-operand-element-type-enum_8h.html#a6942f19fe2b1943a9a98d6598ff2c9d5ab3bc495f68cc90047149c7f3c5a487b5'') Null,
      Nav_node ''XED_OPERAND_ELEMENT_TYPE_SINGLE'' (Some ''xed-operand-element-type-enum_8h.html#a6942f19fe2b1943a9a98d6598ff2c9d5afd733c0b1867e6a2c9661cf12e9601f8'') Null,
      Nav_node ''XED_OPERAND_ELEMENT_TYPE_DOUBLE'' (Some ''xed-operand-element-type-enum_8h.html#a6942f19fe2b1943a9a98d6598ff2c9d5ac24e84cff266116a4eff3162f1116e2e'') Null,
      Nav_node ''XED_OPERAND_ELEMENT_TYPE_LONGDOUBLE'' (Some ''xed-operand-element-type-enum_8h.html#a6942f19fe2b1943a9a98d6598ff2c9d5a9a40866c6b0af66f614f062d086300ac'') Null,
      Nav_node ''XED_OPERAND_ELEMENT_TYPE_LONGBCD'' (Some ''xed-operand-element-type-enum_8h.html#a6942f19fe2b1943a9a98d6598ff2c9d5a6bed91176c16d4f491d174ba862ea372'') Null,
      Nav_node ''XED_OPERAND_ELEMENT_TYPE_STRUCT'' (Some ''xed-operand-element-type-enum_8h.html#a6942f19fe2b1943a9a98d6598ff2c9d5a85616d2c4c05637b1eb07098f2718d32'') Null,
      Nav_node ''XED_OPERAND_ELEMENT_TYPE_VARIABLE'' (Some ''xed-operand-element-type-enum_8h.html#a6942f19fe2b1943a9a98d6598ff2c9d5ae91732a43e1ab1830b63bcb01c3ce6d1'') Null,
      Nav_node ''XED_OPERAND_ELEMENT_TYPE_FLOAT16'' (Some ''xed-operand-element-type-enum_8h.html#a6942f19fe2b1943a9a98d6598ff2c9d5afff623b411920b0dd8d53fe5439901b0'') Null,
      Nav_node ''XED_OPERAND_ELEMENT_TYPE_LAST'' (Some ''xed-operand-element-type-enum_8h.html#a6942f19fe2b1943a9a98d6598ff2c9d5ad54ac5f4faa48b32f7e5d4ba0879c803'') Null]),
    Nav_node ''str2xed_operand_element_type_enum_t'' (Some ''group__ENUM.html#gafbbf731b710c483159c6537de39341bd'') Null,
    Nav_node ''xed_operand_element_type_enum_t2str'' (Some ''group__ENUM.html#ga6a3a3cdfae25d288e348a5271046fd14'') Null,
    Nav_node ''xed_operand_element_type_enum_t_last'' (Some ''group__ENUM.html#gac3f800fb363fbd6d06a9bdeba545158f'') Null]"

definition xed_operand_element_xtype_enum_8h :: "nav_node list" where
  "xed_operand_element_xtype_enum_8h = [
    Nav_node ''xed_operand_element_xtype_enum_t'' (Some ''xed-operand-element-xtype-enum_8h.html#a2df598e1a20ef98a15d7b1f8f844c413'') (Nodes [
      Nav_node ''XED_OPERAND_XTYPE_INVALID'' (Some ''xed-operand-element-xtype-enum_8h.html#a2df598e1a20ef98a15d7b1f8f844c413aa6716d05dbc35d0e384739bf1a7e09b0'') Null,
      Nav_node ''XED_OPERAND_XTYPE_B80'' (Some ''xed-operand-element-xtype-enum_8h.html#a2df598e1a20ef98a15d7b1f8f844c413a466d64664df90d2eb5a7a29d535f4abe'') Null,
      Nav_node ''XED_OPERAND_XTYPE_F16'' (Some ''xed-operand-element-xtype-enum_8h.html#a2df598e1a20ef98a15d7b1f8f844c413a46fab1cca84fcf362af8b79b2b0f2198'') Null,
      Nav_node ''XED_OPERAND_XTYPE_F32'' (Some ''xed-operand-element-xtype-enum_8h.html#a2df598e1a20ef98a15d7b1f8f844c413a50e38169ae7cc86f8a5c33c7eead5ded'') Null,
      Nav_node ''XED_OPERAND_XTYPE_F64'' (Some ''xed-operand-element-xtype-enum_8h.html#a2df598e1a20ef98a15d7b1f8f844c413af85243fa9edb3a2c364f48490fb198fe'') Null,
      Nav_node ''XED_OPERAND_XTYPE_F80'' (Some ''xed-operand-element-xtype-enum_8h.html#a2df598e1a20ef98a15d7b1f8f844c413a49607544525ae37e9bba8b2013569a64'') Null,
      Nav_node ''XED_OPERAND_XTYPE_I1'' (Some ''xed-operand-element-xtype-enum_8h.html#a2df598e1a20ef98a15d7b1f8f844c413a3dc280bc527efbd15d4235f466ebf889'') Null,
      Nav_node ''XED_OPERAND_XTYPE_I16'' (Some ''xed-operand-element-xtype-enum_8h.html#a2df598e1a20ef98a15d7b1f8f844c413a3e43c0a0f0cf3221a93b70911d19c9d5'') Null,
      Nav_node ''XED_OPERAND_XTYPE_I32'' (Some ''xed-operand-element-xtype-enum_8h.html#a2df598e1a20ef98a15d7b1f8f844c413afe933698106d394ebc1dce4c9852121f'') Null,
      Nav_node ''XED_OPERAND_XTYPE_I64'' (Some ''xed-operand-element-xtype-enum_8h.html#a2df598e1a20ef98a15d7b1f8f844c413a305a9ea51d86793893b4447ca08c869d'') Null,
      Nav_node ''XED_OPERAND_XTYPE_I8'' (Some ''xed-operand-element-xtype-enum_8h.html#a2df598e1a20ef98a15d7b1f8f844c413ac8a0eda33ad0b22a7f0f5297125e45c0'') Null,
      Nav_node ''XED_OPERAND_XTYPE_INT'' (Some ''xed-operand-element-xtype-enum_8h.html#a2df598e1a20ef98a15d7b1f8f844c413ada1862a7dc0ccd4b2544826cb2d5862b'') Null,
      Nav_node ''XED_OPERAND_XTYPE_STRUCT'' (Some ''xed-operand-element-xtype-enum_8h.html#a2df598e1a20ef98a15d7b1f8f844c413a1213650312297b43928e050dfb265886'') Null,
      Nav_node ''XED_OPERAND_XTYPE_U128'' (Some ''xed-operand-element-xtype-enum_8h.html#a2df598e1a20ef98a15d7b1f8f844c413a1c38bed5bcf9ddc0b0b38dc8689ef41c'') Null,
      Nav_node ''XED_OPERAND_XTYPE_U16'' (Some ''xed-operand-element-xtype-enum_8h.html#a2df598e1a20ef98a15d7b1f8f844c413a196573f888c81c5bbe14adb8da531f65'') Null,
      Nav_node ''XED_OPERAND_XTYPE_U256'' (Some ''xed-operand-element-xtype-enum_8h.html#a2df598e1a20ef98a15d7b1f8f844c413abe669593fe0374477b930bfb71287856'') Null,
      Nav_node ''XED_OPERAND_XTYPE_U32'' (Some ''xed-operand-element-xtype-enum_8h.html#a2df598e1a20ef98a15d7b1f8f844c413a4f1dc0cbc08270bf9b600bae99ea4c31'') Null,
      Nav_node ''XED_OPERAND_XTYPE_U64'' (Some ''xed-operand-element-xtype-enum_8h.html#a2df598e1a20ef98a15d7b1f8f844c413a5bd0515c7635de61df2f885c1e938d37'') Null,
      Nav_node ''XED_OPERAND_XTYPE_U8'' (Some ''xed-operand-element-xtype-enum_8h.html#a2df598e1a20ef98a15d7b1f8f844c413abb8a3a3568cfca2b2d956999db518d5a'') Null,
      Nav_node ''XED_OPERAND_XTYPE_UINT'' (Some ''xed-operand-element-xtype-enum_8h.html#a2df598e1a20ef98a15d7b1f8f844c413a9e156b50f4333b5795bd01e22dbdf04d'') Null,
      Nav_node ''XED_OPERAND_XTYPE_VAR'' (Some ''xed-operand-element-xtype-enum_8h.html#a2df598e1a20ef98a15d7b1f8f844c413a44f5564406c2314d731d209c9cf37418'') Null,
      Nav_node ''XED_OPERAND_XTYPE_LAST'' (Some ''xed-operand-element-xtype-enum_8h.html#a2df598e1a20ef98a15d7b1f8f844c413a54de5a192f38f7b0064348532d615851'') Null]),
    Nav_node ''str2xed_operand_element_xtype_enum_t'' (Some ''group__ENUM.html#ga14b6c0205cd965831f992f5b51e390a7'') Null,
    Nav_node ''xed_operand_element_xtype_enum_t2str'' (Some ''group__ENUM.html#ga4d8c1f238b8fecf0786b91d7ca2b35b8'') Null,
    Nav_node ''xed_operand_element_xtype_enum_t_last'' (Some ''group__ENUM.html#gaac9d10d1c6bd525013df34fd982d2d6e'') Null]"

definition xed_operand_enum_8h :: "nav_node list" where
  "xed_operand_enum_8h = [
    Nav_node ''xed_operand_enum_t'' (Some ''xed-operand-enum_8h.html#a09c2a35d8bb7bfe68bb3d34b0a5e011a'') (Nodes [
      Nav_node ''XED_OPERAND_INVALID'' (Some ''xed-operand-enum_8h.html#a09c2a35d8bb7bfe68bb3d34b0a5e011aae16227577a01a603ade62737e7919c83'') Null,
      Nav_node ''XED_OPERAND_AGEN'' (Some ''xed-operand-enum_8h.html#a09c2a35d8bb7bfe68bb3d34b0a5e011aa3ce839ecfbe4f991f6c46b7cb767a703'') Null,
      Nav_node ''XED_OPERAND_AMD3DNOW'' (Some ''xed-operand-enum_8h.html#a09c2a35d8bb7bfe68bb3d34b0a5e011aa0de7273ccc4fc501e84540ffb6315f22'') Null,
      Nav_node ''XED_OPERAND_ASZ'' (Some ''xed-operand-enum_8h.html#a09c2a35d8bb7bfe68bb3d34b0a5e011aad37422913f181d9acefe340fe81bb465'') Null,
      Nav_node ''XED_OPERAND_BASE0'' (Some ''xed-operand-enum_8h.html#a09c2a35d8bb7bfe68bb3d34b0a5e011aa241d8ddb2a06d1b612a213d454b9b0c3'') Null,
      Nav_node ''XED_OPERAND_BASE1'' (Some ''xed-operand-enum_8h.html#a09c2a35d8bb7bfe68bb3d34b0a5e011aaed6a7ce1599b30b7c15dbf57f2001121'') Null,
      Nav_node ''XED_OPERAND_BCAST'' (Some ''xed-operand-enum_8h.html#a09c2a35d8bb7bfe68bb3d34b0a5e011aa1a05b24c21632b39af541cb83c3cd553'') Null,
      Nav_node ''XED_OPERAND_BCRC'' (Some ''xed-operand-enum_8h.html#a09c2a35d8bb7bfe68bb3d34b0a5e011aae9dcb27fab1e77c179396f60822ab2d5'') Null,
      Nav_node ''XED_OPERAND_BRDISP_WIDTH'' (Some ''xed-operand-enum_8h.html#a09c2a35d8bb7bfe68bb3d34b0a5e011aa7eeeaf2a5d4ea78589ca4a38f31f1406'') Null,
      Nav_node ''XED_OPERAND_CHIP'' (Some ''xed-operand-enum_8h.html#a09c2a35d8bb7bfe68bb3d34b0a5e011aaeae0d99329757499b8b02c29242639fd'') Null,
      Nav_node ''XED_OPERAND_DEFAULT_SEG'' (Some ''xed-operand-enum_8h.html#a09c2a35d8bb7bfe68bb3d34b0a5e011aafb7ee99bfa799de5ede496e9cb29926d'') Null,
      Nav_node ''XED_OPERAND_DF32'' (Some ''xed-operand-enum_8h.html#a09c2a35d8bb7bfe68bb3d34b0a5e011aaac29f94c88efa6ef8267b6e4b6fb9a60'') Null,
      Nav_node ''XED_OPERAND_DF64'' (Some ''xed-operand-enum_8h.html#a09c2a35d8bb7bfe68bb3d34b0a5e011aa29c4366da567a0e4aeefc3cb8c66f7bd'') Null,
      Nav_node ''XED_OPERAND_DISP_WIDTH'' (Some ''xed-operand-enum_8h.html#a09c2a35d8bb7bfe68bb3d34b0a5e011aa48a28b1a42b42d6317bf4fc2a48d2303'') Null,
      Nav_node ''XED_OPERAND_DISP'' (Some ''xed-operand-enum_8h.html#a09c2a35d8bb7bfe68bb3d34b0a5e011aa81a296e6c4d794b35a0ebdb26febaea9'') Null,
      Nav_node ''XED_OPERAND_DUMMY'' (Some ''xed-operand-enum_8h.html#a09c2a35d8bb7bfe68bb3d34b0a5e011aaf09d197b1b9d79b46a1a0f2f40662273'') Null,
      Nav_node ''XED_OPERAND_EASZ'' (Some ''xed-operand-enum_8h.html#a09c2a35d8bb7bfe68bb3d34b0a5e011aa2bd84016a0ac7a0e9277833a2f4bd41a'') Null,
      Nav_node ''XED_OPERAND_ELEMENT_SIZE'' (Some ''xed-operand-enum_8h.html#a09c2a35d8bb7bfe68bb3d34b0a5e011aa0d3717a7ccf09fad59044b9713790d0d'') Null,
      Nav_node ''XED_OPERAND_ENCODER_PREFERRED'' (Some ''xed-operand-enum_8h.html#a09c2a35d8bb7bfe68bb3d34b0a5e011aa11600341aa2d907fd50dbb8a7d733cc5'') Null,
      Nav_node ''XED_OPERAND_EOSZ'' (Some ''xed-operand-enum_8h.html#a09c2a35d8bb7bfe68bb3d34b0a5e011aa46fd183fc795f858498f2ab6ef45004a'') Null,
      Nav_node ''XED_OPERAND_ERROR'' (Some ''xed-operand-enum_8h.html#a09c2a35d8bb7bfe68bb3d34b0a5e011aa7dc42669b06c5ae7075935a81b226a02'') Null,
      Nav_node ''XED_OPERAND_ESRC'' (Some ''xed-operand-enum_8h.html#a09c2a35d8bb7bfe68bb3d34b0a5e011aabb173224c4b74214a7ec9f174bb7262e'') Null,
      Nav_node ''XED_OPERAND_ESRC3'' (Some ''xed-operand-enum_8h.html#a09c2a35d8bb7bfe68bb3d34b0a5e011aaf52101464110c791e16c8fc73b6c7614'') Null,
      Nav_node ''XED_OPERAND_EVEXRR'' (Some ''xed-operand-enum_8h.html#a09c2a35d8bb7bfe68bb3d34b0a5e011aa679d6839b4173fc63b04364761a6d398'') Null,
      Nav_node ''XED_OPERAND_FIRST_F2F3'' (Some ''xed-operand-enum_8h.html#a09c2a35d8bb7bfe68bb3d34b0a5e011aa6746b8ca3ef3b0bfa8c238e39170a451'') Null,
      Nav_node ''XED_OPERAND_HAS_SIB'' (Some ''xed-operand-enum_8h.html#a09c2a35d8bb7bfe68bb3d34b0a5e011aa55007779d09f44d6529afb0a360b9ed5'') Null,
      Nav_node ''XED_OPERAND_HAS_MODRM'' (Some ''xed-operand-enum_8h.html#a09c2a35d8bb7bfe68bb3d34b0a5e011aa40cfcb19cb70fa466b03e9c4d8469050'') Null,
      Nav_node ''XED_OPERAND_HINT'' (Some ''xed-operand-enum_8h.html#a09c2a35d8bb7bfe68bb3d34b0a5e011aa8519235dc5d90fb627691b1a125ec324'') Null,
      Nav_node ''XED_OPERAND_HSW'' (Some ''xed-operand-enum_8h.html#a09c2a35d8bb7bfe68bb3d34b0a5e011aade73003ffa3e89ecf4e70256a026b12c'') Null,
      Nav_node ''XED_OPERAND_ICLASS'' (Some ''xed-operand-enum_8h.html#a09c2a35d8bb7bfe68bb3d34b0a5e011aa7950980cf1f3e6fa003aff39c8c292f2'') Null,
      Nav_node ''XED_OPERAND_ILD_F2'' (Some ''xed-operand-enum_8h.html#a09c2a35d8bb7bfe68bb3d34b0a5e011aa003fa8b52c41e380bae9a280a17d63af'') Null,
      Nav_node ''XED_OPERAND_ILD_F3'' (Some ''xed-operand-enum_8h.html#a09c2a35d8bb7bfe68bb3d34b0a5e011aad039e4371b6523f8bff1a5fd5f43e981'') Null,
      Nav_node ''XED_OPERAND_ILD_SEG'' (Some ''xed-operand-enum_8h.html#a09c2a35d8bb7bfe68bb3d34b0a5e011aa35f58dd9ec87e149883a363df4c41219'') Null,
      Nav_node ''XED_OPERAND_IMM_WIDTH'' (Some ''xed-operand-enum_8h.html#a09c2a35d8bb7bfe68bb3d34b0a5e011aa0ea28e8235ea7774b846aaef8879e822'') Null,
      Nav_node ''XED_OPERAND_IMM0SIGNED'' (Some ''xed-operand-enum_8h.html#a09c2a35d8bb7bfe68bb3d34b0a5e011aa10e38da9cad99e4543a9c64bb2bd90dc'') Null,
      Nav_node ''XED_OPERAND_IMM0'' (Some ''xed-operand-enum_8h.html#a09c2a35d8bb7bfe68bb3d34b0a5e011aa7cfee5454147cd3ea586172facd26f30'') Null,
      Nav_node ''XED_OPERAND_IMM1_BYTES'' (Some ''xed-operand-enum_8h.html#a09c2a35d8bb7bfe68bb3d34b0a5e011aa403aa71f824d13e99bf40f7d44aa22a0'') Null,
      Nav_node ''XED_OPERAND_IMM1'' (Some ''xed-operand-enum_8h.html#a09c2a35d8bb7bfe68bb3d34b0a5e011aaecf4b40f8ec183182501a80b93b5b4dc'') Null,
      Nav_node ''XED_OPERAND_INDEX'' (Some ''xed-operand-enum_8h.html#a09c2a35d8bb7bfe68bb3d34b0a5e011aa5a03e2a2b5ff9fd31d4ff7ba2ee255f2'') Null,
      Nav_node ''XED_OPERAND_LAST_F2F3'' (Some ''xed-operand-enum_8h.html#a09c2a35d8bb7bfe68bb3d34b0a5e011aa0206d64c39da9ff9025f643aa415ed1c'') Null,
      Nav_node ''XED_OPERAND_LLRC'' (Some ''xed-operand-enum_8h.html#a09c2a35d8bb7bfe68bb3d34b0a5e011aa45d8ba4736d7a6bdd2f92c4e1f616125'') Null,
      Nav_node ''XED_OPERAND_LOCK'' (Some ''xed-operand-enum_8h.html#a09c2a35d8bb7bfe68bb3d34b0a5e011aaefa721334ede4e773b9277c91949fff8'') Null,
      Nav_node ''XED_OPERAND_LOCKABLE'' (Some ''xed-operand-enum_8h.html#a09c2a35d8bb7bfe68bb3d34b0a5e011aab06c74c2678398c3af98ea393b9d4c86'') Null,
      Nav_node ''XED_OPERAND_MAP'' (Some ''xed-operand-enum_8h.html#a09c2a35d8bb7bfe68bb3d34b0a5e011aac36c34c3c157c52206a83b154695a03c'') Null,
      Nav_node ''XED_OPERAND_MASK'' (Some ''xed-operand-enum_8h.html#a09c2a35d8bb7bfe68bb3d34b0a5e011aa4c82c0faab211eba3fbee5932df0d5e2'') Null,
      Nav_node ''XED_OPERAND_MAX_BYTES'' (Some ''xed-operand-enum_8h.html#a09c2a35d8bb7bfe68bb3d34b0a5e011aa4be9f6dd518d467ad3aff8bb4005f239'') Null,
      Nav_node ''XED_OPERAND_MEM_WIDTH'' (Some ''xed-operand-enum_8h.html#a09c2a35d8bb7bfe68bb3d34b0a5e011aaaf03802760db000afe76f384b8d7f8c3'') Null,
      Nav_node ''XED_OPERAND_MEM0'' (Some ''xed-operand-enum_8h.html#a09c2a35d8bb7bfe68bb3d34b0a5e011aa17757f8f75fb149d6a9ceff628403994'') Null,
      Nav_node ''XED_OPERAND_MEM1'' (Some ''xed-operand-enum_8h.html#a09c2a35d8bb7bfe68bb3d34b0a5e011aabe26987877ba7bfe6b67c7106fd77286'') Null,
      Nav_node ''XED_OPERAND_MOD'' (Some ''xed-operand-enum_8h.html#a09c2a35d8bb7bfe68bb3d34b0a5e011aa80e43db0f0d2b87413d94a9507af485a'') Null,
      Nav_node ''XED_OPERAND_MODE_FIRST_PREFIX'' (Some ''xed-operand-enum_8h.html#a09c2a35d8bb7bfe68bb3d34b0a5e011aaefe200444c00eca19c846b5a95714835'') Null,
      Nav_node ''XED_OPERAND_MODE'' (Some ''xed-operand-enum_8h.html#a09c2a35d8bb7bfe68bb3d34b0a5e011aa09a4deadbcb18f4194e684327f476595'') Null,
      Nav_node ''XED_OPERAND_MODEP5'' (Some ''xed-operand-enum_8h.html#a09c2a35d8bb7bfe68bb3d34b0a5e011aaf7d86871bfa8e5c890e9b60825b67e07'') Null,
      Nav_node ''XED_OPERAND_MODEP55C'' (Some ''xed-operand-enum_8h.html#a09c2a35d8bb7bfe68bb3d34b0a5e011aad247a2f17f35d8c80e914b317f98d85b'') Null,
      Nav_node ''XED_OPERAND_MODRM'' (Some ''xed-operand-enum_8h.html#a09c2a35d8bb7bfe68bb3d34b0a5e011aaa0b0dd782ce2f2547a7fa1b50db56068'') Null,
      Nav_node ''XED_OPERAND_MODRM_BYTE'' (Some ''xed-operand-enum_8h.html#a09c2a35d8bb7bfe68bb3d34b0a5e011aad1ff6b5bfd8a27d95560c495ebf7ab70'') Null,
      Nav_node ''XED_OPERAND_MPXMODE'' (Some ''xed-operand-enum_8h.html#a09c2a35d8bb7bfe68bb3d34b0a5e011aa26e336646645acbd8292f1383f86b51b'') Null,
      Nav_node ''XED_OPERAND_NEED_MEMDISP'' (Some ''xed-operand-enum_8h.html#a09c2a35d8bb7bfe68bb3d34b0a5e011aa9bee3ea59d9ad25c6847fc1be78fa4e5'') Null,
      Nav_node ''XED_OPERAND_NEEDREX'' (Some ''xed-operand-enum_8h.html#a09c2a35d8bb7bfe68bb3d34b0a5e011aaa2569dae603f93ead17bd5b7b6608156'') Null,
      Nav_node ''XED_OPERAND_NELEM'' (Some ''xed-operand-enum_8h.html#a09c2a35d8bb7bfe68bb3d34b0a5e011aa8b551ec9c2f5e446a83f612e1fa201b9'') Null,
      Nav_node ''XED_OPERAND_NO_SCALE_DISP8'' (Some ''xed-operand-enum_8h.html#a09c2a35d8bb7bfe68bb3d34b0a5e011aa78f4191d762d0abdeb935f5e8ad0d328'') Null,
      Nav_node ''XED_OPERAND_NOMINAL_OPCODE'' (Some ''xed-operand-enum_8h.html#a09c2a35d8bb7bfe68bb3d34b0a5e011aa1809b9cef4fbedb50bf5300c5daa0313'') Null,
      Nav_node ''XED_OPERAND_NOREX'' (Some ''xed-operand-enum_8h.html#a09c2a35d8bb7bfe68bb3d34b0a5e011aac375783101f79c1827043242130ce776'') Null,
      Nav_node ''XED_OPERAND_NPREFIXES'' (Some ''xed-operand-enum_8h.html#a09c2a35d8bb7bfe68bb3d34b0a5e011aaf8896b014c4e77b2ce47703183c55a9f'') Null,
      Nav_node ''XED_OPERAND_NREXES'' (Some ''xed-operand-enum_8h.html#a09c2a35d8bb7bfe68bb3d34b0a5e011aa06cc5ce1edebd9491d71a689df27af2c'') Null,
      Nav_node ''XED_OPERAND_NSEG_PREFIXES'' (Some ''xed-operand-enum_8h.html#a09c2a35d8bb7bfe68bb3d34b0a5e011aae4253e5cf254ee42cb18bc4f140c7473'') Null,
      Nav_node ''XED_OPERAND_OSZ'' (Some ''xed-operand-enum_8h.html#a09c2a35d8bb7bfe68bb3d34b0a5e011aa66e2a773751d32adc308d7503e25929e'') Null,
      Nav_node ''XED_OPERAND_OUT_OF_BYTES'' (Some ''xed-operand-enum_8h.html#a09c2a35d8bb7bfe68bb3d34b0a5e011aa7f179dcdf62cb9265e16aa94f5264cdc'') Null,
      Nav_node ''XED_OPERAND_OUTREG'' (Some ''xed-operand-enum_8h.html#a09c2a35d8bb7bfe68bb3d34b0a5e011aab394cd5a17feeb8de03c9146344dddb4'') Null,
      Nav_node ''XED_OPERAND_P4'' (Some ''xed-operand-enum_8h.html#a09c2a35d8bb7bfe68bb3d34b0a5e011aa309588e0c864333a2ae15f75e386afb5'') Null,
      Nav_node ''XED_OPERAND_POS_SIB'' (Some ''xed-operand-enum_8h.html#a09c2a35d8bb7bfe68bb3d34b0a5e011aa9d1d68cd9ac461a8209cc709677c4985'') Null,
      Nav_node ''XED_OPERAND_POS_DISP'' (Some ''xed-operand-enum_8h.html#a09c2a35d8bb7bfe68bb3d34b0a5e011aad312c0aec77e8de7c0c6d86ff4033ba9'') Null,
      Nav_node ''XED_OPERAND_POS_IMM'' (Some ''xed-operand-enum_8h.html#a09c2a35d8bb7bfe68bb3d34b0a5e011aa22e7a47c2da1762300ee50dfec8bbe86'') Null,
      Nav_node ''XED_OPERAND_POS_NOMINAL_OPCODE'' (Some ''xed-operand-enum_8h.html#a09c2a35d8bb7bfe68bb3d34b0a5e011aa645b6f5ea575cfd5c0266c58c37514c9'') Null,
      Nav_node ''XED_OPERAND_POS_IMM1'' (Some ''xed-operand-enum_8h.html#a09c2a35d8bb7bfe68bb3d34b0a5e011aa29d33c4e2f07c35b12d97337fbad1a51'') Null,
      Nav_node ''XED_OPERAND_POS_MODRM'' (Some ''xed-operand-enum_8h.html#a09c2a35d8bb7bfe68bb3d34b0a5e011aa1611b3556e48bf7fcb7aa0476f06133a'') Null,
      Nav_node ''XED_OPERAND_PREFIX66'' (Some ''xed-operand-enum_8h.html#a09c2a35d8bb7bfe68bb3d34b0a5e011aa78ad247570e1af30539e90887a15d906'') Null,
      Nav_node ''XED_OPERAND_PTR'' (Some ''xed-operand-enum_8h.html#a09c2a35d8bb7bfe68bb3d34b0a5e011aaf84141b5908fd0d494f446a66f3eeef3'') Null,
      Nav_node ''XED_OPERAND_REALMODE'' (Some ''xed-operand-enum_8h.html#a09c2a35d8bb7bfe68bb3d34b0a5e011aa136ddb09fff36fd7d9d6f3a47188f6d4'') Null,
      Nav_node ''XED_OPERAND_REFINING'' (Some ''xed-operand-enum_8h.html#a09c2a35d8bb7bfe68bb3d34b0a5e011aa90fd738dacca4e940fae8a837bfe3212'') Null,
      Nav_node ''XED_OPERAND_REG'' (Some ''xed-operand-enum_8h.html#a09c2a35d8bb7bfe68bb3d34b0a5e011aa93baad65e0e521658de3bdeac00ca7ce'') Null,
      Nav_node ''XED_OPERAND_REG0'' (Some ''xed-operand-enum_8h.html#a09c2a35d8bb7bfe68bb3d34b0a5e011aa4a8a5c45ea6041f25d7b98e3892bb389'') Null,
      Nav_node ''XED_OPERAND_REG1'' (Some ''xed-operand-enum_8h.html#a09c2a35d8bb7bfe68bb3d34b0a5e011aaf28c17e44b1cec75cbc35eaf230002cb'') Null,
      Nav_node ''XED_OPERAND_REG2'' (Some ''xed-operand-enum_8h.html#a09c2a35d8bb7bfe68bb3d34b0a5e011aabbe83849a642b40143efdeea44fa0497'') Null,
      Nav_node ''XED_OPERAND_REG3'' (Some ''xed-operand-enum_8h.html#a09c2a35d8bb7bfe68bb3d34b0a5e011aad0c2b5884293abd53b930c1793382db1'') Null,
      Nav_node ''XED_OPERAND_REG4'' (Some ''xed-operand-enum_8h.html#a09c2a35d8bb7bfe68bb3d34b0a5e011aa41eccb1a0eed942d3c1ce94d4932e6a7'') Null,
      Nav_node ''XED_OPERAND_REG5'' (Some ''xed-operand-enum_8h.html#a09c2a35d8bb7bfe68bb3d34b0a5e011aa7deb7d4548980dee2208d9d5fde56fb6'') Null,
      Nav_node ''XED_OPERAND_REG6'' (Some ''xed-operand-enum_8h.html#a09c2a35d8bb7bfe68bb3d34b0a5e011aaacd4abc0766200998483d7d87ff12928'') Null,
      Nav_node ''XED_OPERAND_REG7'' (Some ''xed-operand-enum_8h.html#a09c2a35d8bb7bfe68bb3d34b0a5e011aabeb51b32bc8f34c0656208db36b05396'') Null,
      Nav_node ''XED_OPERAND_REG8'' (Some ''xed-operand-enum_8h.html#a09c2a35d8bb7bfe68bb3d34b0a5e011aabff9f6414b9de3a43c845721de9f97f4'') Null,
      Nav_node ''XED_OPERAND_RELBR'' (Some ''xed-operand-enum_8h.html#a09c2a35d8bb7bfe68bb3d34b0a5e011aa6f36302cd147e020b2662b75fa314c17'') Null,
      Nav_node ''XED_OPERAND_REP_ABLE'' (Some ''xed-operand-enum_8h.html#a09c2a35d8bb7bfe68bb3d34b0a5e011aa6dc3027b3acc7fb704d556b68918052a'') Null,
      Nav_node ''XED_OPERAND_REP'' (Some ''xed-operand-enum_8h.html#a09c2a35d8bb7bfe68bb3d34b0a5e011aa576efe10d8388f7da4f83fb2b67f8d00'') Null,
      Nav_node ''XED_OPERAND_REX'' (Some ''xed-operand-enum_8h.html#a09c2a35d8bb7bfe68bb3d34b0a5e011aaba4b38b6ae9309e0656e40a4b0713c0f'') Null,
      Nav_node ''XED_OPERAND_REXB'' (Some ''xed-operand-enum_8h.html#a09c2a35d8bb7bfe68bb3d34b0a5e011aa537b5b279f260a83c4a15baefaca29e5'') Null,
      Nav_node ''XED_OPERAND_REXR'' (Some ''xed-operand-enum_8h.html#a09c2a35d8bb7bfe68bb3d34b0a5e011aa71c5958d448ed491b86dda45b567ef24'') Null,
      Nav_node ''XED_OPERAND_REXRR'' (Some ''xed-operand-enum_8h.html#a09c2a35d8bb7bfe68bb3d34b0a5e011aa256114fb1f83a604d1145743d390d3a9'') Null,
      Nav_node ''XED_OPERAND_REXW'' (Some ''xed-operand-enum_8h.html#a09c2a35d8bb7bfe68bb3d34b0a5e011aabc3e6aec9a09eebf61a5c011d81c633c'') Null,
      Nav_node ''XED_OPERAND_REXX'' (Some ''xed-operand-enum_8h.html#a09c2a35d8bb7bfe68bb3d34b0a5e011aadb915ed9c03dfdb332a721e56c52e915'') Null,
      Nav_node ''XED_OPERAND_RM'' (Some ''xed-operand-enum_8h.html#a09c2a35d8bb7bfe68bb3d34b0a5e011aa1d95dc8dba83ea6e5090978173cf5da6'') Null,
      Nav_node ''XED_OPERAND_ROUNDC'' (Some ''xed-operand-enum_8h.html#a09c2a35d8bb7bfe68bb3d34b0a5e011aa3823ca62ab7e5b22283346650e968304'') Null,
      Nav_node ''XED_OPERAND_SAE'' (Some ''xed-operand-enum_8h.html#a09c2a35d8bb7bfe68bb3d34b0a5e011aa135b97e20001208206967687fa869f71'') Null,
      Nav_node ''XED_OPERAND_SCALE'' (Some ''xed-operand-enum_8h.html#a09c2a35d8bb7bfe68bb3d34b0a5e011aae524def5361d73f6f24ceba6eb5e1334'') Null,
      Nav_node ''XED_OPERAND_SEG_OVD'' (Some ''xed-operand-enum_8h.html#a09c2a35d8bb7bfe68bb3d34b0a5e011aabec353b665048050f2c400a96dd1abcc'') Null,
      Nav_node ''XED_OPERAND_SEG0'' (Some ''xed-operand-enum_8h.html#a09c2a35d8bb7bfe68bb3d34b0a5e011aa2c3c0c5a73438245c6d52fc0f1e4ea1d'') Null,
      Nav_node ''XED_OPERAND_SEG1'' (Some ''xed-operand-enum_8h.html#a09c2a35d8bb7bfe68bb3d34b0a5e011aa5276ed715de910f416b8c389732e879f'') Null,
      Nav_node ''XED_OPERAND_SIB'' (Some ''xed-operand-enum_8h.html#a09c2a35d8bb7bfe68bb3d34b0a5e011aa5ab8fa4c883752fd3907277592eb19ab'') Null,
      Nav_node ''XED_OPERAND_SIBBASE'' (Some ''xed-operand-enum_8h.html#a09c2a35d8bb7bfe68bb3d34b0a5e011aa1252cc84614bf9018d5156b860b452cc'') Null,
      Nav_node ''XED_OPERAND_SIBINDEX'' (Some ''xed-operand-enum_8h.html#a09c2a35d8bb7bfe68bb3d34b0a5e011aa0019a16a323d48cab2b19e9567b87f8f'') Null,
      Nav_node ''XED_OPERAND_SIBSCALE'' (Some ''xed-operand-enum_8h.html#a09c2a35d8bb7bfe68bb3d34b0a5e011aa79145b7008dde1b56afbb5cec1aa53d8'') Null,
      Nav_node ''XED_OPERAND_SKIP_OSZ'' (Some ''xed-operand-enum_8h.html#a09c2a35d8bb7bfe68bb3d34b0a5e011aad3746cb0167b321f9d26bce49cf26e2a'') Null,
      Nav_node ''XED_OPERAND_SMODE'' (Some ''xed-operand-enum_8h.html#a09c2a35d8bb7bfe68bb3d34b0a5e011aa55c7014490c4ad2f151ed375afff0863'') Null,
      Nav_node ''XED_OPERAND_SREG'' (Some ''xed-operand-enum_8h.html#a09c2a35d8bb7bfe68bb3d34b0a5e011aae892001d59a0d0547d8e7612a3f6eeeb'') Null,
      Nav_node ''XED_OPERAND_SRM'' (Some ''xed-operand-enum_8h.html#a09c2a35d8bb7bfe68bb3d34b0a5e011aab5a8c259a18d86f62ea13d63a3740172'') Null,
      Nav_node ''XED_OPERAND_TYPE'' (Some ''xed-operand-enum_8h.html#a09c2a35d8bb7bfe68bb3d34b0a5e011aabebadf81fd6e5f385be962e961adcdec'') Null,
      Nav_node ''XED_OPERAND_UBIT'' (Some ''xed-operand-enum_8h.html#a09c2a35d8bb7bfe68bb3d34b0a5e011aafcd7139fc501f9996855d5e08cc71cc5'') Null,
      Nav_node ''XED_OPERAND_UIMM0'' (Some ''xed-operand-enum_8h.html#a09c2a35d8bb7bfe68bb3d34b0a5e011aa51ea68b2b2912502de1d2c4598bda472'') Null,
      Nav_node ''XED_OPERAND_UIMM1'' (Some ''xed-operand-enum_8h.html#a09c2a35d8bb7bfe68bb3d34b0a5e011aaa42d2f9c0c320266158b5126ca8608d3'') Null,
      Nav_node ''XED_OPERAND_USING_DEFAULT_SEGMENT0'' (Some ''xed-operand-enum_8h.html#a09c2a35d8bb7bfe68bb3d34b0a5e011aa1bea146fe5845f175ea67fdc3bc403f7'') Null,
      Nav_node ''XED_OPERAND_USING_DEFAULT_SEGMENT1'' (Some ''xed-operand-enum_8h.html#a09c2a35d8bb7bfe68bb3d34b0a5e011aae383f1ae1ce46927562e6394b56307ea'') Null,
      Nav_node ''XED_OPERAND_VEX_C4'' (Some ''xed-operand-enum_8h.html#a09c2a35d8bb7bfe68bb3d34b0a5e011aa125ab494e5cb4ff672e2215c726de3fb'') Null,
      Nav_node ''XED_OPERAND_VEX_PREFIX'' (Some ''xed-operand-enum_8h.html#a09c2a35d8bb7bfe68bb3d34b0a5e011aa37cf9fb0324a544013770d348101be13'') Null,
      Nav_node ''XED_OPERAND_VEXDEST3'' (Some ''xed-operand-enum_8h.html#a09c2a35d8bb7bfe68bb3d34b0a5e011aa430bb1a44aee2bc89e1601afd09d99a9'') Null,
      Nav_node ''XED_OPERAND_VEXDEST4'' (Some ''xed-operand-enum_8h.html#a09c2a35d8bb7bfe68bb3d34b0a5e011aaeac17aab640e315095518a1a4cad3d94'') Null,
      Nav_node ''XED_OPERAND_VEXDEST210'' (Some ''xed-operand-enum_8h.html#a09c2a35d8bb7bfe68bb3d34b0a5e011aa00607a7042a1f10dbbf2fb64edade81b'') Null,
      Nav_node ''XED_OPERAND_VEXVALID'' (Some ''xed-operand-enum_8h.html#a09c2a35d8bb7bfe68bb3d34b0a5e011aa1402e14b1aea98289dd048869a395d19'') Null,
      Nav_node ''XED_OPERAND_VL'' (Some ''xed-operand-enum_8h.html#a09c2a35d8bb7bfe68bb3d34b0a5e011aae8f5c3f6067ff768f31c28c1c592e69c'') Null,
      Nav_node ''XED_OPERAND_ZEROING'' (Some ''xed-operand-enum_8h.html#a09c2a35d8bb7bfe68bb3d34b0a5e011aab84fdc4253567bbd5980b29944447f99'') Null,
      Nav_node ''XED_OPERAND_LAST'' (Some ''xed-operand-enum_8h.html#a09c2a35d8bb7bfe68bb3d34b0a5e011aa6558448a12b7ce8bf00d73cf3e45dafd'') Null]),
    Nav_node ''str2xed_operand_enum_t'' (Some ''group__ENUM.html#ga5171a8e9ed0f5bd702649ab74c6c7f26'') Null,
    Nav_node ''xed_operand_enum_t2str'' (Some ''group__ENUM.html#ga2e1b95b3b4b059703a3be3780a990ade'') Null,
    Nav_node ''xed_operand_enum_t_last'' (Some ''group__ENUM.html#ga06cb1fd18627777b7858fd895b61c49b'') Null]"

definition xed_operand_storage_8h :: "nav_node list" where
  "xed_operand_storage_8h = [
    Nav_node ''xed_operand_storage_s'' (Some ''structxed__operand__storage__s.html'') (Script ''structxed__operand__storage__s''),
    Nav_node ''xed_operand_storage_t'' (Some ''xed-operand-storage_8h.html#a825b6f392b298a9898e5d82a3b161d6b'') Null]"

definition xed_operand_type_enum_8h :: "nav_node list" where
  "xed_operand_type_enum_8h = [
    Nav_node ''xed_operand_type_enum_t'' (Some ''xed-operand-type-enum_8h.html#a7f9198331fe1015a2df65f7b42aa43a8'') (Nodes [
      Nav_node ''XED_OPERAND_TYPE_INVALID'' (Some ''xed-operand-type-enum_8h.html#a7f9198331fe1015a2df65f7b42aa43a8a2cd16e8e7492e49abd369c8705abdd77'') Null,
      Nav_node ''XED_OPERAND_TYPE_ERROR'' (Some ''xed-operand-type-enum_8h.html#a7f9198331fe1015a2df65f7b42aa43a8add206aaa0b3699acb87a3b75253154f7'') Null,
      Nav_node ''XED_OPERAND_TYPE_IMM'' (Some ''xed-operand-type-enum_8h.html#a7f9198331fe1015a2df65f7b42aa43a8ad2d298daef05bf33e7736582a060a648'') Null,
      Nav_node ''XED_OPERAND_TYPE_IMM_CONST'' (Some ''xed-operand-type-enum_8h.html#a7f9198331fe1015a2df65f7b42aa43a8a21ed09c263b2e9c080688c20367eb7ca'') Null,
      Nav_node ''XED_OPERAND_TYPE_NT_LOOKUP_FN'' (Some ''xed-operand-type-enum_8h.html#a7f9198331fe1015a2df65f7b42aa43a8a6c08de43a20229d27939a21afbd5e364'') Null,
      Nav_node ''XED_OPERAND_TYPE_REG'' (Some ''xed-operand-type-enum_8h.html#a7f9198331fe1015a2df65f7b42aa43a8aecfe0b5963563029b01712a8eb6e56e5'') Null,
      Nav_node ''XED_OPERAND_TYPE_LAST'' (Some ''xed-operand-type-enum_8h.html#a7f9198331fe1015a2df65f7b42aa43a8a7973023a05605602afb1a59a3f8c8238'') Null]),
    Nav_node ''str2xed_operand_type_enum_t'' (Some ''group__ENUM.html#ga2442452a830a0f64d1763c56508d3912'') Null,
    Nav_node ''xed_operand_type_enum_t2str'' (Some ''group__ENUM.html#gab340d23d201e7ce54cbd32d32f3286a1'') Null,
    Nav_node ''xed_operand_type_enum_t_last'' (Some ''group__ENUM.html#ga1cfa27d03ddc76f1464284b2a061b738'') Null]"

definition xed_operand_visibility_enum_8h :: "nav_node list" where
  "xed_operand_visibility_enum_8h = [
    Nav_node ''xed_operand_visibility_enum_t'' (Some ''xed-operand-visibility-enum_8h.html#ae678c6279a7ba50bf58f2e357242b58d'') (Nodes [
      Nav_node ''XED_OPVIS_INVALID'' (Some ''xed-operand-visibility-enum_8h.html#ae678c6279a7ba50bf58f2e357242b58da0c11cb94af603ecdcafe24d5336c1169'') Null,
      Nav_node ''XED_OPVIS_EXPLICIT'' (Some ''xed-operand-visibility-enum_8h.html#ae678c6279a7ba50bf58f2e357242b58da7e6fd7ca302d2af744be1f5cda7ac85a'') Null,
      Nav_node ''XED_OPVIS_IMPLICIT'' (Some ''xed-operand-visibility-enum_8h.html#ae678c6279a7ba50bf58f2e357242b58dabf87ecc204d79c79bd45a94d7c8d7b13'') Null,
      Nav_node ''XED_OPVIS_SUPPRESSED'' (Some ''xed-operand-visibility-enum_8h.html#ae678c6279a7ba50bf58f2e357242b58dae7a120f7fc5f89a4888b6d0e71d9305c'') Null,
      Nav_node ''XED_OPVIS_LAST'' (Some ''xed-operand-visibility-enum_8h.html#ae678c6279a7ba50bf58f2e357242b58da03ae73fc4d8e27bd7316a577ded26e26'') Null]),
    Nav_node ''str2xed_operand_visibility_enum_t'' (Some ''group__ENUM.html#gaee0641e8722891769a673d945fdbd32b'') Null,
    Nav_node ''xed_operand_visibility_enum_t2str'' (Some ''group__ENUM.html#ga1599399c8155e07c2eb230bb6875aa8a'') Null,
    Nav_node ''xed_operand_visibility_enum_t_last'' (Some ''group__ENUM.html#ga34c4bf3df5a3cea65aba5e13c9d5bbd5'') Null]"

definition xed_operand_width_enum_8h :: "nav_node list" where
  "xed_operand_width_enum_8h = [
    Nav_node ''xed_operand_width_enum_t'' (Some ''xed-operand-width-enum_8h.html#a4bc2ed96b8433c06c363d614a2fa1676'') (Nodes [
      Nav_node ''XED_OPERAND_WIDTH_INVALID'' (Some ''xed-operand-width-enum_8h.html#a4bc2ed96b8433c06c363d614a2fa1676a15795e1e40ae3279de29ed1d408f36d1'') Null,
      Nav_node ''XED_OPERAND_WIDTH_ASZ'' (Some ''xed-operand-width-enum_8h.html#a4bc2ed96b8433c06c363d614a2fa1676a8ae937b3ed595aee895830b81b5dc0e4'') Null,
      Nav_node ''XED_OPERAND_WIDTH_SSZ'' (Some ''xed-operand-width-enum_8h.html#a4bc2ed96b8433c06c363d614a2fa1676a14122d92b936991ceaf59409c72b7a31'') Null,
      Nav_node ''XED_OPERAND_WIDTH_PSEUDO'' (Some ''xed-operand-width-enum_8h.html#a4bc2ed96b8433c06c363d614a2fa1676a127d0316dc0b8e611b6671924f8bcfd8'') Null,
      Nav_node ''XED_OPERAND_WIDTH_PSEUDOX87'' (Some ''xed-operand-width-enum_8h.html#a4bc2ed96b8433c06c363d614a2fa1676a7d4b1234514ed8a879f40c7da5a4a341'') Null,
      Nav_node ''XED_OPERAND_WIDTH_A16'' (Some ''xed-operand-width-enum_8h.html#a4bc2ed96b8433c06c363d614a2fa1676a2ca1e8490c93324f445f0fd8d3414977'') Null,
      Nav_node ''XED_OPERAND_WIDTH_A32'' (Some ''xed-operand-width-enum_8h.html#a4bc2ed96b8433c06c363d614a2fa1676a47fdaae9b71537c524ba469cfd580b6f'') Null,
      Nav_node ''XED_OPERAND_WIDTH_B'' (Some ''xed-operand-width-enum_8h.html#a4bc2ed96b8433c06c363d614a2fa1676ac755e0f42c2e5e76f8ca4aba055ad4f8'') Null,
      Nav_node ''XED_OPERAND_WIDTH_D'' (Some ''xed-operand-width-enum_8h.html#a4bc2ed96b8433c06c363d614a2fa1676a9c0bcc84327f668f21d24cd3593104ca'') Null,
      Nav_node ''XED_OPERAND_WIDTH_DQ'' (Some ''xed-operand-width-enum_8h.html#a4bc2ed96b8433c06c363d614a2fa1676a365a12bf04ad6846a7d42ef0f0b28948'') Null,
      Nav_node ''XED_OPERAND_WIDTH_XUB'' (Some ''xed-operand-width-enum_8h.html#a4bc2ed96b8433c06c363d614a2fa1676a3581bd8b045bced813eae272e1122af5'') Null,
      Nav_node ''XED_OPERAND_WIDTH_XUW'' (Some ''xed-operand-width-enum_8h.html#a4bc2ed96b8433c06c363d614a2fa1676afbb6a1a6df9d9e4d3ac642f8233aab92'') Null,
      Nav_node ''XED_OPERAND_WIDTH_XUD'' (Some ''xed-operand-width-enum_8h.html#a4bc2ed96b8433c06c363d614a2fa1676a7cc5dac01c8afe38475780f3d640a086'') Null,
      Nav_node ''XED_OPERAND_WIDTH_XUQ'' (Some ''xed-operand-width-enum_8h.html#a4bc2ed96b8433c06c363d614a2fa1676a16b2386310ce9630c72bff874e5e769c'') Null,
      Nav_node ''XED_OPERAND_WIDTH_X128'' (Some ''xed-operand-width-enum_8h.html#a4bc2ed96b8433c06c363d614a2fa1676aebe28ff0640328ee3f288b43463045eb'') Null,
      Nav_node ''XED_OPERAND_WIDTH_XB'' (Some ''xed-operand-width-enum_8h.html#a4bc2ed96b8433c06c363d614a2fa1676a147c3a6f72a997e2340b58a5fd849de1'') Null,
      Nav_node ''XED_OPERAND_WIDTH_XW'' (Some ''xed-operand-width-enum_8h.html#a4bc2ed96b8433c06c363d614a2fa1676a93f1735b962007a074cdbabc98ffaf61'') Null,
      Nav_node ''XED_OPERAND_WIDTH_XD'' (Some ''xed-operand-width-enum_8h.html#a4bc2ed96b8433c06c363d614a2fa1676a0672d558542cbfab5d6fde9aa9428cab'') Null,
      Nav_node ''XED_OPERAND_WIDTH_XQ'' (Some ''xed-operand-width-enum_8h.html#a4bc2ed96b8433c06c363d614a2fa1676a770c38baca4ce8a5c802a014e79226fa'') Null,
      Nav_node ''XED_OPERAND_WIDTH_MB'' (Some ''xed-operand-width-enum_8h.html#a4bc2ed96b8433c06c363d614a2fa1676a610c6ddbec2eea9dd6585329efd18d78'') Null,
      Nav_node ''XED_OPERAND_WIDTH_MW'' (Some ''xed-operand-width-enum_8h.html#a4bc2ed96b8433c06c363d614a2fa1676a59833edebf71c4689fdfc377eb258df2'') Null,
      Nav_node ''XED_OPERAND_WIDTH_MD'' (Some ''xed-operand-width-enum_8h.html#a4bc2ed96b8433c06c363d614a2fa1676a3145cc19a69531fb705de3aa24013bc2'') Null,
      Nav_node ''XED_OPERAND_WIDTH_MQ'' (Some ''xed-operand-width-enum_8h.html#a4bc2ed96b8433c06c363d614a2fa1676aeea10d81a1efbe887f643aac360e733d'') Null,
      Nav_node ''XED_OPERAND_WIDTH_M64INT'' (Some ''xed-operand-width-enum_8h.html#a4bc2ed96b8433c06c363d614a2fa1676a117ccb0b87c6a957ae9eaba9b7812131'') Null,
      Nav_node ''XED_OPERAND_WIDTH_M64REAL'' (Some ''xed-operand-width-enum_8h.html#a4bc2ed96b8433c06c363d614a2fa1676a789fac921e4764e456524d45fb7caf33'') Null,
      Nav_node ''XED_OPERAND_WIDTH_MEM108'' (Some ''xed-operand-width-enum_8h.html#a4bc2ed96b8433c06c363d614a2fa1676a8a99235ab274821bd630a7199f6b6a4a'') Null,
      Nav_node ''XED_OPERAND_WIDTH_MEM14'' (Some ''xed-operand-width-enum_8h.html#a4bc2ed96b8433c06c363d614a2fa1676a427012eee5fec50e84d760ba4ab89b03'') Null,
      Nav_node ''XED_OPERAND_WIDTH_MEM16'' (Some ''xed-operand-width-enum_8h.html#a4bc2ed96b8433c06c363d614a2fa1676af7e95331ed6c0d5fa3e59337b38f25ad'') Null,
      Nav_node ''XED_OPERAND_WIDTH_MEM16INT'' (Some ''xed-operand-width-enum_8h.html#a4bc2ed96b8433c06c363d614a2fa1676a0843efe3fe09fff018f5d4a04385337d'') Null,
      Nav_node ''XED_OPERAND_WIDTH_MEM28'' (Some ''xed-operand-width-enum_8h.html#a4bc2ed96b8433c06c363d614a2fa1676ad6e49cc1afc31128b8abb3198d633f14'') Null,
      Nav_node ''XED_OPERAND_WIDTH_MEM32INT'' (Some ''xed-operand-width-enum_8h.html#a4bc2ed96b8433c06c363d614a2fa1676a24042be9a6aff54979ddd6e3f511f0ae'') Null,
      Nav_node ''XED_OPERAND_WIDTH_MEM32REAL'' (Some ''xed-operand-width-enum_8h.html#a4bc2ed96b8433c06c363d614a2fa1676adb093910ce967ce3b06b2b758416abda'') Null,
      Nav_node ''XED_OPERAND_WIDTH_MEM80DEC'' (Some ''xed-operand-width-enum_8h.html#a4bc2ed96b8433c06c363d614a2fa1676a5471139c362daf617a85ffbcc32a6ea5'') Null,
      Nav_node ''XED_OPERAND_WIDTH_MEM80REAL'' (Some ''xed-operand-width-enum_8h.html#a4bc2ed96b8433c06c363d614a2fa1676a0aacc854e84894f6d4b0d5f1b4bd6913'') Null,
      Nav_node ''XED_OPERAND_WIDTH_F80'' (Some ''xed-operand-width-enum_8h.html#a4bc2ed96b8433c06c363d614a2fa1676a9894baa78342a445ba2800a8df0fdb09'') Null,
      Nav_node ''XED_OPERAND_WIDTH_MEM94'' (Some ''xed-operand-width-enum_8h.html#a4bc2ed96b8433c06c363d614a2fa1676a9bc30c28ec780a5c1f2b84b331211adf'') Null,
      Nav_node ''XED_OPERAND_WIDTH_MFPXENV'' (Some ''xed-operand-width-enum_8h.html#a4bc2ed96b8433c06c363d614a2fa1676a5581a8858bd0e1e72e73e09204f9a75f'') Null,
      Nav_node ''XED_OPERAND_WIDTH_MXSAVE'' (Some ''xed-operand-width-enum_8h.html#a4bc2ed96b8433c06c363d614a2fa1676a1038fa41dec2c79d32d58aac125d0770'') Null,
      Nav_node ''XED_OPERAND_WIDTH_MPREFETCH'' (Some ''xed-operand-width-enum_8h.html#a4bc2ed96b8433c06c363d614a2fa1676a77be3dfd574a5b052c403968a20428ce'') Null,
      Nav_node ''XED_OPERAND_WIDTH_P'' (Some ''xed-operand-width-enum_8h.html#a4bc2ed96b8433c06c363d614a2fa1676a20632ec112f8af26284d5fb47390da1b'') Null,
      Nav_node ''XED_OPERAND_WIDTH_P2'' (Some ''xed-operand-width-enum_8h.html#a4bc2ed96b8433c06c363d614a2fa1676a625f81685497b2f229da24b18b9f38a7'') Null,
      Nav_node ''XED_OPERAND_WIDTH_PD'' (Some ''xed-operand-width-enum_8h.html#a4bc2ed96b8433c06c363d614a2fa1676a3b4dc59dd2de30887b49ddc47bf90994'') Null,
      Nav_node ''XED_OPERAND_WIDTH_PS'' (Some ''xed-operand-width-enum_8h.html#a4bc2ed96b8433c06c363d614a2fa1676a9fc548dcbc00e94bf4e49a07fe1932d4'') Null,
      Nav_node ''XED_OPERAND_WIDTH_PI'' (Some ''xed-operand-width-enum_8h.html#a4bc2ed96b8433c06c363d614a2fa1676a7f1fb09f8b80c8bbac5d6571931f3da2'') Null,
      Nav_node ''XED_OPERAND_WIDTH_Q'' (Some ''xed-operand-width-enum_8h.html#a4bc2ed96b8433c06c363d614a2fa1676a45a357018bf3a0d72024b4cf06c0b91b'') Null,
      Nav_node ''XED_OPERAND_WIDTH_S'' (Some ''xed-operand-width-enum_8h.html#a4bc2ed96b8433c06c363d614a2fa1676a8afcd6b5aa15853bcfefe649ea7c4678'') Null,
      Nav_node ''XED_OPERAND_WIDTH_S64'' (Some ''xed-operand-width-enum_8h.html#a4bc2ed96b8433c06c363d614a2fa1676a190212842325bc2bc51612aba8ec06f5'') Null,
      Nav_node ''XED_OPERAND_WIDTH_SD'' (Some ''xed-operand-width-enum_8h.html#a4bc2ed96b8433c06c363d614a2fa1676ae73f65955bcdbd6383597b98ed29fd8a'') Null,
      Nav_node ''XED_OPERAND_WIDTH_SI'' (Some ''xed-operand-width-enum_8h.html#a4bc2ed96b8433c06c363d614a2fa1676adf2012d1e939a3c32c55bb84ddae0fa2'') Null,
      Nav_node ''XED_OPERAND_WIDTH_SS'' (Some ''xed-operand-width-enum_8h.html#a4bc2ed96b8433c06c363d614a2fa1676a42d2cca5c674af034cdfbdc214f99185'') Null,
      Nav_node ''XED_OPERAND_WIDTH_V'' (Some ''xed-operand-width-enum_8h.html#a4bc2ed96b8433c06c363d614a2fa1676a26ae83e0a87d535b1acfa3f326d56785'') Null,
      Nav_node ''XED_OPERAND_WIDTH_Y'' (Some ''xed-operand-width-enum_8h.html#a4bc2ed96b8433c06c363d614a2fa1676a8cfa7cbc71fb2cd9edb45d9f6a16ebb5'') Null,
      Nav_node ''XED_OPERAND_WIDTH_W'' (Some ''xed-operand-width-enum_8h.html#a4bc2ed96b8433c06c363d614a2fa1676aaeffa75891ff447cfecca634f6362b69'') Null,
      Nav_node ''XED_OPERAND_WIDTH_Z'' (Some ''xed-operand-width-enum_8h.html#a4bc2ed96b8433c06c363d614a2fa1676a61b7122ec41dc0bf0c879f656c22af8a'') Null,
      Nav_node ''XED_OPERAND_WIDTH_SPW8'' (Some ''xed-operand-width-enum_8h.html#a4bc2ed96b8433c06c363d614a2fa1676a127387bb8021be4cbf522a2b76d2bef6'') Null,
      Nav_node ''XED_OPERAND_WIDTH_SPW'' (Some ''xed-operand-width-enum_8h.html#a4bc2ed96b8433c06c363d614a2fa1676a663b44d895f2231413ac3d90963f9a2a'') Null,
      Nav_node ''XED_OPERAND_WIDTH_SPW3'' (Some ''xed-operand-width-enum_8h.html#a4bc2ed96b8433c06c363d614a2fa1676abe83835f75f98930c997eddd50d45e0d'') Null,
      Nav_node ''XED_OPERAND_WIDTH_SPW2'' (Some ''xed-operand-width-enum_8h.html#a4bc2ed96b8433c06c363d614a2fa1676aa650a8ce1a529dab407cd93ad21d758b'') Null,
      Nav_node ''XED_OPERAND_WIDTH_I1'' (Some ''xed-operand-width-enum_8h.html#a4bc2ed96b8433c06c363d614a2fa1676a0e595d5c254cbb0cd491341d15a8f070'') Null,
      Nav_node ''XED_OPERAND_WIDTH_I2'' (Some ''xed-operand-width-enum_8h.html#a4bc2ed96b8433c06c363d614a2fa1676a955daa0bbf594d18b5c04e7429363f26'') Null,
      Nav_node ''XED_OPERAND_WIDTH_I3'' (Some ''xed-operand-width-enum_8h.html#a4bc2ed96b8433c06c363d614a2fa1676aefed84bf864f80438e3998f7410948ab'') Null,
      Nav_node ''XED_OPERAND_WIDTH_I4'' (Some ''xed-operand-width-enum_8h.html#a4bc2ed96b8433c06c363d614a2fa1676afb0a06ccbdf91d0ae7707938e58fef44'') Null,
      Nav_node ''XED_OPERAND_WIDTH_I5'' (Some ''xed-operand-width-enum_8h.html#a4bc2ed96b8433c06c363d614a2fa1676a250201572f93f5cf82f0c023c6c8af72'') Null,
      Nav_node ''XED_OPERAND_WIDTH_I6'' (Some ''xed-operand-width-enum_8h.html#a4bc2ed96b8433c06c363d614a2fa1676a2a98a2cec2e103b6b0acf3945aec75d6'') Null,
      Nav_node ''XED_OPERAND_WIDTH_I7'' (Some ''xed-operand-width-enum_8h.html#a4bc2ed96b8433c06c363d614a2fa1676a0951f2141a109df180eb049691bbbbcb'') Null,
      Nav_node ''XED_OPERAND_WIDTH_I8'' (Some ''xed-operand-width-enum_8h.html#a4bc2ed96b8433c06c363d614a2fa1676a91f56b1fa90ad08d3235d0ee7c283098'') Null,
      Nav_node ''XED_OPERAND_WIDTH_VAR'' (Some ''xed-operand-width-enum_8h.html#a4bc2ed96b8433c06c363d614a2fa1676a1b7efccd3095d73de5e689a7b4e1021e'') Null,
      Nav_node ''XED_OPERAND_WIDTH_BND32'' (Some ''xed-operand-width-enum_8h.html#a4bc2ed96b8433c06c363d614a2fa1676a80b2c1adb2ac7279ee28037e16bc0235'') Null,
      Nav_node ''XED_OPERAND_WIDTH_BND64'' (Some ''xed-operand-width-enum_8h.html#a4bc2ed96b8433c06c363d614a2fa1676a61f26b8ccda4d1a45c1346b4e8230242'') Null,
      Nav_node ''XED_OPERAND_WIDTH_QQ'' (Some ''xed-operand-width-enum_8h.html#a4bc2ed96b8433c06c363d614a2fa1676a04af42dcb157f8f5624c6db15f60095d'') Null,
      Nav_node ''XED_OPERAND_WIDTH_YUB'' (Some ''xed-operand-width-enum_8h.html#a4bc2ed96b8433c06c363d614a2fa1676adc9f716617fc83345b7b9996c74e86f9'') Null,
      Nav_node ''XED_OPERAND_WIDTH_YUW'' (Some ''xed-operand-width-enum_8h.html#a4bc2ed96b8433c06c363d614a2fa1676a7f51e026d670e03cf27646819e662187'') Null,
      Nav_node ''XED_OPERAND_WIDTH_YUD'' (Some ''xed-operand-width-enum_8h.html#a4bc2ed96b8433c06c363d614a2fa1676a515a596f34dc920268b0602ccc1709c6'') Null,
      Nav_node ''XED_OPERAND_WIDTH_YUQ'' (Some ''xed-operand-width-enum_8h.html#a4bc2ed96b8433c06c363d614a2fa1676a2c2e8a5d10d5a4c77d99f5380522e5a6'') Null,
      Nav_node ''XED_OPERAND_WIDTH_Y128'' (Some ''xed-operand-width-enum_8h.html#a4bc2ed96b8433c06c363d614a2fa1676aa24febd9bba3f8ac58f88fdfdc030a2e'') Null,
      Nav_node ''XED_OPERAND_WIDTH_YB'' (Some ''xed-operand-width-enum_8h.html#a4bc2ed96b8433c06c363d614a2fa1676a073ef99d7a81913489737815c7d248c0'') Null,
      Nav_node ''XED_OPERAND_WIDTH_YW'' (Some ''xed-operand-width-enum_8h.html#a4bc2ed96b8433c06c363d614a2fa1676a503516c3e732fb9fd34ff36922f1523b'') Null,
      Nav_node ''XED_OPERAND_WIDTH_YD'' (Some ''xed-operand-width-enum_8h.html#a4bc2ed96b8433c06c363d614a2fa1676ae26c025896321d86ff41b59593b9a0b8'') Null,
      Nav_node ''XED_OPERAND_WIDTH_YQ'' (Some ''xed-operand-width-enum_8h.html#a4bc2ed96b8433c06c363d614a2fa1676ad0794ac1dd09fffd6a87cab0d02f0ff3'') Null,
      Nav_node ''XED_OPERAND_WIDTH_YPS'' (Some ''xed-operand-width-enum_8h.html#a4bc2ed96b8433c06c363d614a2fa1676a79b48d58d4529aa1e5c22b503d3f2ed9'') Null,
      Nav_node ''XED_OPERAND_WIDTH_YPD'' (Some ''xed-operand-width-enum_8h.html#a4bc2ed96b8433c06c363d614a2fa1676a3a24873bd04c05564baa8923c9e983ad'') Null,
      Nav_node ''XED_OPERAND_WIDTH_VV'' (Some ''xed-operand-width-enum_8h.html#a4bc2ed96b8433c06c363d614a2fa1676a2661bec15597d28ae183f2a2dcbbc125'') Null,
      Nav_node ''XED_OPERAND_WIDTH_ZV'' (Some ''xed-operand-width-enum_8h.html#a4bc2ed96b8433c06c363d614a2fa1676aa060c4c16a9bb9443d20e3fa9bfe78aa'') Null,
      Nav_node ''XED_OPERAND_WIDTH_WRD'' (Some ''xed-operand-width-enum_8h.html#a4bc2ed96b8433c06c363d614a2fa1676a04b1bc895a70e37f2351e6e7f6ddc0d8'') Null,
      Nav_node ''XED_OPERAND_WIDTH_MSKW'' (Some ''xed-operand-width-enum_8h.html#a4bc2ed96b8433c06c363d614a2fa1676a1f3261f893b019ab451d1cf9c17e4ba3'') Null,
      Nav_node ''XED_OPERAND_WIDTH_ZMSKW'' (Some ''xed-operand-width-enum_8h.html#a4bc2ed96b8433c06c363d614a2fa1676a4b2d0a2043d6ecd0b65c041c139ddfb7'') Null,
      Nav_node ''XED_OPERAND_WIDTH_ZF32'' (Some ''xed-operand-width-enum_8h.html#a4bc2ed96b8433c06c363d614a2fa1676a41e20ef68a61bd37cd25018fe333e7f9'') Null,
      Nav_node ''XED_OPERAND_WIDTH_ZF64'' (Some ''xed-operand-width-enum_8h.html#a4bc2ed96b8433c06c363d614a2fa1676af58bd06c16f6ca98644b3ed877cf4061'') Null,
      Nav_node ''XED_OPERAND_WIDTH_ZB'' (Some ''xed-operand-width-enum_8h.html#a4bc2ed96b8433c06c363d614a2fa1676a7528ed8cb50003b9528a78222ccea35f'') Null,
      Nav_node ''XED_OPERAND_WIDTH_ZW'' (Some ''xed-operand-width-enum_8h.html#a4bc2ed96b8433c06c363d614a2fa1676af642cb9d3734b98ed0a2fe37067796c2'') Null,
      Nav_node ''XED_OPERAND_WIDTH_ZD'' (Some ''xed-operand-width-enum_8h.html#a4bc2ed96b8433c06c363d614a2fa1676abfc09a04600dcbcfa29ac248f304fe1e'') Null,
      Nav_node ''XED_OPERAND_WIDTH_ZQ'' (Some ''xed-operand-width-enum_8h.html#a4bc2ed96b8433c06c363d614a2fa1676ace903e03423276715437c4f1e5f49f65'') Null,
      Nav_node ''XED_OPERAND_WIDTH_ZUB'' (Some ''xed-operand-width-enum_8h.html#a4bc2ed96b8433c06c363d614a2fa1676a2668dd0660be6a5fc32ce058e2c1d9e0'') Null,
      Nav_node ''XED_OPERAND_WIDTH_ZUW'' (Some ''xed-operand-width-enum_8h.html#a4bc2ed96b8433c06c363d614a2fa1676afa2341586548b05b100a442cd7252c88'') Null,
      Nav_node ''XED_OPERAND_WIDTH_ZUD'' (Some ''xed-operand-width-enum_8h.html#a4bc2ed96b8433c06c363d614a2fa1676aad2e5f143aac8a789494d2ffdc36e4a9'') Null,
      Nav_node ''XED_OPERAND_WIDTH_ZUQ'' (Some ''xed-operand-width-enum_8h.html#a4bc2ed96b8433c06c363d614a2fa1676a66ae1301cb13ad3000b02b49b05c4bc5'') Null,
      Nav_node ''XED_OPERAND_WIDTH_ZI8'' (Some ''xed-operand-width-enum_8h.html#a4bc2ed96b8433c06c363d614a2fa1676ae625b7e3eed67e73e6d6e8b5dcf3b397'') Null,
      Nav_node ''XED_OPERAND_WIDTH_ZI16'' (Some ''xed-operand-width-enum_8h.html#a4bc2ed96b8433c06c363d614a2fa1676a11a95df068e35d3c6d3b37e9043cb6f2'') Null,
      Nav_node ''XED_OPERAND_WIDTH_ZI32'' (Some ''xed-operand-width-enum_8h.html#a4bc2ed96b8433c06c363d614a2fa1676a8e0805c08123a4ba461660f979bf0565'') Null,
      Nav_node ''XED_OPERAND_WIDTH_ZI64'' (Some ''xed-operand-width-enum_8h.html#a4bc2ed96b8433c06c363d614a2fa1676a7b795867800f2ff4b58c57f7ed5dc47b'') Null,
      Nav_node ''XED_OPERAND_WIDTH_ZU8'' (Some ''xed-operand-width-enum_8h.html#a4bc2ed96b8433c06c363d614a2fa1676ac61b48d9e1de69fa5bbe1a32f860e10d'') Null,
      Nav_node ''XED_OPERAND_WIDTH_ZU16'' (Some ''xed-operand-width-enum_8h.html#a4bc2ed96b8433c06c363d614a2fa1676a2fbb3b0fa686bbd6c2fb2a31561f97bb'') Null,
      Nav_node ''XED_OPERAND_WIDTH_ZU32'' (Some ''xed-operand-width-enum_8h.html#a4bc2ed96b8433c06c363d614a2fa1676a7cefe791cd76d1a276d9216f967304e5'') Null,
      Nav_node ''XED_OPERAND_WIDTH_ZU64'' (Some ''xed-operand-width-enum_8h.html#a4bc2ed96b8433c06c363d614a2fa1676aba9fd013eecf06d1fbe59cc87852c8c7'') Null,
      Nav_node ''XED_OPERAND_WIDTH_ZU128'' (Some ''xed-operand-width-enum_8h.html#a4bc2ed96b8433c06c363d614a2fa1676a5a3d72e2427086142c631ac1e7cfac76'') Null,
      Nav_node ''XED_OPERAND_WIDTH_LAST'' (Some ''xed-operand-width-enum_8h.html#a4bc2ed96b8433c06c363d614a2fa1676a61fadbaa8155dbd2544f8170e1802b23'') Null]),
    Nav_node ''str2xed_operand_width_enum_t'' (Some ''group__ENUM.html#ga0924246b32d361e6c996ce1fe103abf3'') Null,
    Nav_node ''xed_operand_width_enum_t2str'' (Some ''group__ENUM.html#ga0b6efac075c3dda631990ba013a5bbfb'') Null,
    Nav_node ''xed_operand_width_enum_t_last'' (Some ''group__ENUM.html#gac622486650aee8e8980a67350dfea1cb'') Null]"

end
