(* ===== verification/Nav_Scripts.thy ===== *)
theory Nav_Scripts
  imports Nav_Show Nav_Tables_1 Nav_Tables_2 Nav_Tables_3
begin

text \<open>
  The scripts of the navigation tree by name, and what an entry of an index must lead to.
\<close>


text \<open>
  What a script defines, by the name of its variable. The scripts that are not in the list are
  left to the argument \<open>rest\<close>, about which nothing is assumed.
\<close>

definition script_list :: "(string \<times> nav_node list) list" where
  "script_list = [
    (''functions_dup'', functions_dup),
    (''functions_vars'', functions_vars),
    (''globals_dup'', globals_dup),
    (''globals_eval'', globals_eval),
    (''globals_func'', globals_func),
    (''modules'', modules),
    (''group__AGEN'', group__AGEN),
    (''files'', files),
    (''xed_agen_8h'', xed_agen_8h),
    (''group__DEC'', group__DEC),
    (''xed_inst_8h'', xed_inst_8h),
    (''xed_decoded_inst_api_8h'', xed_decoded_inst_api_8h),
    (''xed_ild_8h'', xed_ild_8h),
    (''xed_decode_8h'', xed_decode_8h),
    (''annotated'', annotated),
    (''structxed__encoder__iforms__s'', structxed__encoder__iforms__s),
    (''structxed__encoder__instruction__t'', structxed__encoder__instruction__t),
    (''structxed__encoder__operand__t'', structxed__encoder__operand__t),
    (''group__FLAGS'', group__FLAGS),
    (''group__PRINT'', group__PRINT),
    (''group__IFORM'', group__IFORM),
    (''structxed__immdis__s'', structxed__immdis__s),
    (''structxed__memop__t'', structxed__memop__t),
    (''structxed__operand__storage__s'', structxed__operand__storage__s),
    (''group__INIT'', group__INIT),
    (''unionxed__encoder__prefixes__t'', unionxed__encoder__prefixes__t),
    (''unionxed__immdis__values__t'', unionxed__immdis__values__t),
    (''unionxed__union16__t'', unionxed__union16__t),
    (''unionxed__union32__t'', unionxed__union32__t),
    (''unionxed__union64__t'', unionxed__union64__t),
    (''xed_address_width_enum_8h'', xed_address_width_enum_8h),
    (''xed_attribute_enum_8h'', xed_attribute_enum_8h),
    (''xed_build_defines_8h'', xed_build_defines_8h),
    (''xed_category_enum_8h'', xed_category_enum_8h),
    (''xed_operand_action_8h'', xed_operand_action_8h),
    (''xed_operand_convert_enum_8h'', xed_operand_convert_enum_8h),
    (''xed_operand_ctype_enum_8h'', xed_operand_ctype_enum_8h),
    (''xed_operand_ctype_map_8h'', xed_operand_ctype_map_8h),
    (''xed_operand_element_type_enum_8h'', xed_operand_element_type_enum_8h),
    (''xed_operand_element_xtype_enum_8h'', xed_operand_element_xtype_enum_8h),
    (''xed_operand_enum_8h'', xed_operand_enum_8h),
    (''xed_operand_storage_8h'', xed_operand_storage_8h),
    (''xed_operand_type_enum_8h'', xed_operand_type_enum_8h),
    (''xed_operand_visibility_enum_8h'', xed_operand_visibility_enum_8h),
    (''xed_operand_width_enum_8h'', xed_operand_width_enum_8h)]"

definition script_table ::
    "(string \<Rightarrow> nav_node list option) \<Rightarrow> string \<Rightarrow> nav_node list option" where
  "script_table rest name =
     (case map_of script_list name of Some ns \<Rightarrow> Some ns | None \<Rightarrow> rest name)"

lemma script_table_loads: "rest name \<noteq> None \<Longrightarrow> script_table rest name \<noteq> None"
  by (simp add: script_table_def split: option.split)

text \<open>The url of a source page names the page of the file it shows.\<close>

definition source_page :: "string \<Rightarrow> string \<Rightarrow> bool" where
  "source_page url link \<longleftrightarrow> url = take (length link - 5) link @ ''_source.html''"

text \<open>An entry of an index leads, from the root of the tree, to a node for its url.\<close>

definition entry_ok :: "(string \<Rightarrow> nav_node list option) \<Rightarrow> string \<times> nat list \<Rightarrow> bool" where
  "entry_ok scripts = (\<lambda>(url, path).
     case node_at scripts NAVTREE (0 # path) of
       None \<Rightarrow> False
     | Some n \<Rightarrow>
         (case nav_link n of None \<Rightarrow> False | Some link \<Rightarrow> url = link \<or> source_page url link))"

section \<open>Following a path without opening the tables\<close>

text \<open>
  The tables are long, and only one node of each is needed. The rules below take a node out of
  a table without rewriting the rest; the congruence rules keep the simplifier out of it.
\<close>

fun pick :: "'a list \<Rightarrow> nat \<Rightarrow> 'a option" where
  "pick [] i = None"
| "pick (x # xs) i = (if i = 0 then Some x else pick xs (i - 1))"

lemma pick_nth: "pick xs i = (if i < length xs then Some (xs ! i) else None)"
  by (induction xs arbitrary: i) (auto simp: nth_Cons split: nat.splits)

text \<open>Long steps first.\<close>

lemma pick_steps:
  "16 \<le> i \<Longrightarrow> pick (x0 # x1 # x2 # x3 # x4 # x5 # x6 # x7 # x8 # x9 # x10 # x11 # x12 # x13 # x14 # x15 # xs) i = pick xs (i - 16)"
  "4 \<le> i \<Longrightarrow> i < 16 \<Longrightarrow> pick (x0 # x1 # x2 # x3 # xs) i = pick xs (i - 4)"
  "pick (x0 # xs) 0 = Some x0"
  "pick (x0 # x1 # xs) (Suc 0) = Some x1"
  "pick (x0 # x1 # xs) 1 = Some x1"
  "pick (x0 # x1 # x2 # xs) 2 = Some x2"
  "pick (x0 # x1 # x2 # x3 # xs) 3 = Some x3"
  by (simp_all add: eval_nat_numeral)

declare pick.simps(2) [simp del]

lemma pick_append: "pick (xs @ ys) i = (if i < length xs then pick xs i else pick ys (i - length xs))"
  by (auto simp: pick_nth nth_append)

fun path_end :: "(string \<Rightarrow> nav_node list option) \<Rightarrow> nat list \<Rightarrow> nav_node option \<Rightarrow> nav_node option" where
  "path_end scripts p None = None"
| "path_end scripts [] (Some n) = Some n"
| "path_end scripts (i # p) (Some n) =
     (case children_of scripts (nav_children n) of None \<Rightarrow> None | Some ms \<Rightarrow> path_end scripts p (pick ms i))"

lemma node_at_path: "node_at scripts ns (i # p) = path_end scripts p (pick ns i)"
proof (induction p arbitrary: ns i)
  case Nil
  then show ?case by (simp add: pick_nth)
next
  case (Cons j p)
  then show ?case by (simp add: pick_nth split: option.split)
qed

text \<open>One step down, for each form of the children.\<close>

lemma path_end_steps:
  "path_end scripts (i # p) (Some (Nav_node t l (Nodes ns))) = path_end scripts p (pick ns i)"
  "getData scripts s = Some ns \<Longrightarrow> s \<noteq> [] \<Longrightarrow>
     path_end scripts (i # p) (Some (Nav_node t l (Script s))) = path_end scripts p (pick ns i)"
  by (simp_all add: children_of_def)

declare path_end.simps(3) [simp del] node_at.simps [simp del]

definition arrives :: "nav_node option \<Rightarrow> string \<Rightarrow> bool" where
  "arrives n url = (case n of None \<Rightarrow> False
     | Some n \<Rightarrow> (case nav_link n of None \<Rightarrow> False | Some link \<Rightarrow> url = link \<or> source_page url link))"

lemma entry_ok_path:
  "entry_ok scripts (url, path) = arrives (path_end scripts path (pick NAVTREE 0)) url"
  by (simp add: entry_ok_def arrives_def node_at_path)

lemma arrives_here: "arrives (Some (Nav_node t (Some url) c)) url = True"
  by (simp add: arrives_def)

lemma arrives_source:
  "arrives (Some (Nav_node t (Some link) c)) url = (url = link \<or> source_page url link)"
  by (simp add: arrives_def)

lemma path_cong: "x = y \<Longrightarrow> path_end scripts p x = path_end scripts p y"
  by simp

lemma pick_cong: "i = j \<Longrightarrow> pick xs i = pick xs j"
  by simp

lemma some_cong: "Some x = Some x"
  by simp

lemma arrives_cong: "x = y \<Longrightarrow> arrives x u = arrives y u"
  by simp

lemma list_all_blocked: "list_all P xs = list_all P xs"
  by simp

text \<open>The lookup of each script, found by going down the list.\<close>

lemma script_names_distinct: "distinct (map fst script_list)"
  by (simp add: script_list_def)

lemma getData_listed:
  assumes "(dashes_to_underscores (stripPath s), ns) \<in> set script_list"
  shows "getData (script_table rest) s = Some ns"
  using map_of_is_SomeI [OF script_names_distinct assms] by (simp add: getData_def script_table_def)

lemma script_lookups:
  "getData (script_table rest) ''functions_dup'' = Some functions_dup"
  "getData (script_table rest) ''functions_vars'' = Some functions_vars"
  "getData (script_table rest) ''globals_dup'' = Some globals_dup"
  "getData (script_table rest) ''globals_eval'' = Some globals_eval"
  "getData (script_table rest) ''globals_func'' = Some globals_func"
  "getData (script_table rest) ''modules'' = Some modules"
  "getData (script_table rest) ''group__AGEN'' = Some group__AGEN"
  "getData (script_table rest) ''files'' = Some files"
  "getData (script_table rest) ''xed-agen_8h'' = Some xed_agen_8h"
  "getData (script_table rest) ''group__DEC'' = Some group__DEC"
  "getData (script_table rest) ''xed-inst_8h'' = Some xed_inst_8h"
  "getData (script_table rest) ''xed-decoded-inst-api_8h'' = Some xed_decoded_inst_api_8h"
  "getData (script_table rest) ''xed-ild_8h'' = Some xed_ild_8h"
  "getData (script_table rest) ''xed-decode_8h'' = Some xed_decode_8h"
  "getData (script_table rest) ''annotated'' = Some annotated"
  "getData (script_table rest) ''structxed__encoder__iforms__s'' = Some structxed__encoder__iforms__s"
  "getData (script_table rest) ''structxed__encoder__instruction__t'' = Some structxed__encoder__instruction__t"
  "getData (script_table rest) ''structxed__encoder__operand__t'' = Some structxed__encoder__operand__t"
  "getData (script_table rest) ''group__FLAGS'' = Some group__FLAGS"
  "getData (script_table rest) ''group__PRINT'' = Some group__PRINT"
  "getData (script_table rest) ''group__IFORM'' = Some group__IFORM"
  "getData (script_table rest) ''structxed__immdis__s'' = Some structxed__immdis__s"
  "getData (script_table rest) ''structxed__memop__t'' = Some structxed__memop__t"
  "getData (script_table rest) ''structxed__operand__storage__s'' = Some structxed__operand__storage__s"
  "getData (script_table rest) ''group__INIT'' = Some group__INIT"
  "getData (script_table rest) ''unionxed__encoder__prefixes__t'' = Some unionxed__encoder__prefixes__t"
  "getData (script_table rest) ''unionxed__immdis__values__t'' = Some unionxed__immdis__values__t"
  "getData (script_table rest) ''unionxed__union16__t'' = Some unionxed__union16__t"
  "getData (script_table rest) ''unionxed__union32__t'' = Some unionxed__union32__t"
  "getData (script_table rest) ''unionxed__union64__t'' = Some unionxed__union64__t"
  "getData (script_table rest) ''xed-address-width-enum_8h'' = Some xed_address_width_enum_8h"
  "getData (script_table rest) ''xed-attribute-enum_8h'' = Some xed_attribute_enum_8h"
  "getData (script_table rest) ''xed-build-defines_8h'' = Some xed_build_defines_8h"
  "getData (script_table rest) ''xed-category-enum_8h'' = Some xed_category_enum_8h"
  "getData (script_table rest) ''xed-operand-action_8h'' = Some xed_operand_action_8h"
  "getData (script_table rest) ''xed-operand-convert-enum_8h'' = Some xed_operand_convert_enum_8h"
  "getData (script_table rest) ''xed-operand-ctype-enum_8h'' = Some xed_operand_ctype_enum_8h"
  "getData (script_table rest) ''xed-operand-ctype-map_8h'' = Some xed_operand_ctype_map_8h"
  "getData (script_table rest) ''xed-operand-element-type-enum_8h'' = Some xed_operand_element_type_enum_8h"
  "getData (script_table rest) ''xed-operand-element-xtype-enum_8h'' = Some xed_operand_element_xtype_enum_8h"
  "getData (script_table rest) ''xed-operand-enum_8h'' = Some xed_operand_enum_8h"
  "getData (script_table rest) ''xed-operand-storage_8h'' = Some xed_operand_storage_8h"
  "getData (script_table rest) ''xed-operand-type-enum_8h'' = Some xed_operand_type_enum_8h"
  "getData (script_table rest) ''xed-operand-visibility-enum_8h'' = Some xed_operand_visibility_enum_8h"
  "getData (script_table rest) ''xed-operand-width-enum_8h'' = Some xed_operand_width_enum_8h"
  by (rule getData_listed, simp only: stripPath_def, simp add: dashes_to_underscores_def, unfold script_list_def,
      (rule list.set_intros(1) | rule list.set_intros(2))+)+

lemmas table_picks =
  NAVTREE_def [THEN arg_cong [where f = pick], THEN fun_cong]
  functions_dup_def [THEN arg_cong [where f = pick], THEN fun_cong]
  functions_vars_def [THEN arg_cong [where f = pick], THEN fun_cong]
  globals_dup_def [THEN arg_cong [where f = pick], THEN fun_cong]
  globals_eval_def [THEN arg_cong [where f = pick], THEN fun_cong]
  globals_func_def [THEN arg_cong [where f = pick], THEN fun_cong]
  modules_def [THEN arg_cong [where f = pick], THEN fun_cong]
  group__AGEN_def [THEN arg_cong [where f = pick], THEN fun_cong]
  files_def [THEN arg_cong [where f = pick], THEN fun_cong]
  xed_agen_8h_def [THEN arg_cong [where f = pick], THEN fun_cong]
  group__DEC_1_def [THEN arg_cong [where f = pick], THEN fun_cong]
  group__DEC_2_def [THEN arg_cong [where f = pick], THEN fun_cong]
  group__DEC_def [THEN arg_cong [where f = pick], THEN fun_cong]
  xed_inst_8h_def [THEN arg_cong [where f = pick], THEN fun_cong]
  xed_decoded_inst_api_8h_def [THEN arg_cong [where f = pick], THEN fun_cong]
  xed_ild_8h_def [THEN arg_cong [where f = pick], THEN fun_cong]
  xed_decode_8h_def [THEN arg_cong [where f = pick], THEN fun_cong]
  annotated_def [THEN arg_cong [where f = pick], THEN fun_cong]
  structxed__encoder__iforms__s_def [THEN arg_cong [where f = pick], THEN fun_cong]
  structxed__encoder__instruction__t_def [THEN arg_cong [where f = pick], THEN fun_cong]
  structxed__encoder__operand__t_def [THEN arg_cong [where f = pick], THEN fun_cong]
  group__FLAGS_def [THEN arg_cong [where f = pick], THEN fun_cong]
  group__PRINT_def [THEN arg_cong [where f = pick], THEN fun_cong]
  group__IFORM_def [THEN arg_cong [where f = pick], THEN fun_cong]
  structxed__immdis__s_def [THEN arg_cong [where f = pick], THEN fun_cong]
  structxed__memop__t_def [THEN arg_cong [where f = pick], THEN fun_cong]
  structxed__operand__storage__s_def [THEN arg_cong [where f = pick], THEN fun_cong]
  group__INIT_def [THEN arg_cong [where f = pick], THEN fun_cong]
  unionxed__encoder__prefixes__t_def [THEN arg_cong [where f = pick], THEN fun_cong]
  unionxed__immdis__values__t_def [THEN arg_cong [where f = pick], THEN fun_cong]
  unionxed__union16__t_def [THEN arg_cong [where f = pick], THEN fun_cong]
  unionxed__union32__t_def [THEN arg_cong [where f = pick], THEN fun_cong]
  unionxed__union64__t_def [THEN arg_cong [where f = pick], THEN fun_cong]
  xed_address_width_enum_8h_def [THEN arg_cong [where f = pick], THEN fun_cong]
  xed_attribute_enum_8h_def [THEN arg_cong [where f = pick], THEN fun_cong]
  xed_build_defines_8h_def [THEN arg_cong [where f = pick], THEN fun_cong]
  xed_category_enum_8h_def [THEN arg_cong [where f = pick], THEN fun_cong]
  xed_operand_action_8h_def [THEN arg_cong [where f = pick], THEN fun_cong]
  xed_operand_convert_enum_8h_def [THEN arg_cong [where f = pick], THEN fun_cong]
  xed_operand_ctype_enum_8h_def [THEN arg_cong [where f = pick], THEN fun_cong]
  xed_operand_ctype_map_8h_def [THEN arg_cong [where f = pick], THEN fun_cong]
  xed_operand_element_type_enum_8h_def [THEN arg_cong [where f = pick], THEN fun_cong]
  xed_operand_element_xtype_enum_8h_def [THEN arg_cong [where f = pick], THEN fun_cong]
  xed_operand_enum_8h_def [THEN arg_cong [where f = pick], THEN fun_cong]
  xed_operand_storage_8h_def [THEN arg_cong [where f = pick], THEN fun_cong]
  xed_operand_type_enum_8h_def [THEN arg_cong [where f = pick], THEN fun_cong]
  xed_operand_visibility_enum_8h_def [THEN arg_cong [where f = pick], THEN fun_cong]
  xed_operand_width_enum_8h_def [THEN arg_cong [where f = pick], THEN fun_cong]

lemma part_lengths:
  "length group__DEC_1 = 107"
  "length group__DEC_2 = 17"
  by (simp_all only: group__DEC_1_def group__DEC_2_def list.size add_0_left add_Suc_right One_nat_def)

lemmas path_rules = list.pred_inject entry_ok_path path_end.simps(2) path_end_steps pick_steps script_lookups
  table_picks pick_append part_lengths arrives_here simp_thms refl if_True if_False

end
