(* ===== verification/Nav_Index_0.thy ===== *)
theory Nav_Index_0
  imports Nav_Scripts
begin

text \<open>
  navtreeindex0.js: the urls of one index file of the navigation tree, each with the path of
  its node, and the check that the path leads to it.
\<close>

definition navtreeindex0_1 :: "(string \<times> nat list) list" where
  "navtreeindex0_1 = [
    (''annotated.html'', [2,0]),
    (''classes.html'', [2,1]),
    (''files.html'', [3,0]),
    (''functions.html'', [2,2,0]),
    (''functions.html'', [2,2,0,0]),
    (''functions_a.html'', [2,2,0,1]),
    (''functions_b.html'', [2,2,0,2]),
    (''functions_c.html'', [2,2,0,3]),
    (''functions_d.html'', [2,2,0,4]),
    (''functions_e.html'', [2,2,0,5]),
    (''functions_f.html'', [2,2,0,6]),
    (''functions_h.html'', [2,2,0,7]),
    (''functions_i.html'', [2,2,0,8]),
    (''functions_l.html'', [2,2,0,9]),
    (''functions_m.html'', [2,2,0,10]),
    (''functions_n.html'', [2,2,0,11]),
    (''functions_o.html'', [2,2,0,12]),
    (''functions_p.html'', [2,2,0,13]),
    (''functions_q.html'', [2,2,0,14]),
    (''functions_r.html'', [2,2,0,15]),
    (''functions_s.html'', [2,2,0,16]),
    (''functions_t.html'', [2,2,0,17]),
    (''functions_u.html'', [2,2,0,18]),
    (''functions_v.html'', [2,2,0,19]),
    (''functions_vars.html'', [2,2,1]),
    (''functions_vars.html'', [2,2,1,0]),
    (''functions_vars_a.html'', [2,2,1,1]),
    (''functions_vars_b.html'', [2,2,1,2]),
    (''functions_vars_c.html'', [2,2,1,3]),
    (''functions_vars_d.html'', [2,2,1,4]),
    (''functions_vars_e.html'', [2,2,1,5]),
    (''functions_vars_f.html'', [2,2,1,6]),
    (''functions_vars_h.html'', [2,2,1,7]),
    (''functions_vars_i.html'', [2,2,1,8]),
    (''functions_vars_l.html'', [2,2,1,9]),
    (''functions_vars_m.html'', [2,2,1,10]),
    (''functions_vars_n.html'', [2,2,1,11]),
    (''functions_vars_o.html'', [2,2,1,12]),
    (''functions_vars_p.html'', [2,2,1,13]),
    (''functions_vars_q.html'', [2,2,1,14]),
    (''functions_vars_r.html'', [2,2,1,15]),
    (''functions_vars_s.html'', [2,2,1,16]),
    (''functions_vars_t.html'', [2,2,1,17]),
    (''functions_vars_u.html'', [2,2,1,18]),
    (''functions_vars_v.html'', [2,2,1,19]),
    (''functions_vars_w.html'', [2,2,1,20]),
    (''functions_vars_x.html'', [2,2,1,21]),
    (''functions_vars_z.html'', [2,2,1,22]),
    (''functions_w.html'', [2,2,0,20]),
    (''functions_x.html'', [2,2,0,21]),
    (''functions_z.html'', [2,2,0,22]),
    (''globals.html'', [3,1,0]),
    (''globals.html'', [3,1,0,0]),
    (''globals_defs.html'', [3,1,6]),
    (''globals_enum.html'', [3,1,4]),
    (''globals_eval.html'', [3,1,5]),
    (''globals_eval.html'', [3,1,5,0]),
    (''globals_func.html'', [3,1,1]),
    (''globals_func.html'', [3,1,1,0]),
    (''globals_func_x.html'', [3,1,1,1]),
    (''globals_type.html'', [3,1,3]),
    (''globals_vars.html'', [3,1,2]),
    (''globals_x.html'', [3,1,0,1]),
    (''group__AGEN.html'', [1,9]),
    (''group__AGEN.html#ga5d9563bb7dbe87e21914fb59ac4e2476'', [1,9,2]),
    (''group__AGEN.html#ga5d9563bb7dbe87e21914fb59ac4e2476'', [3,0,1,2]),
    (''group__AGEN.html#gaa111cc1eca35094f34c4349f9dec5668'', [1,9,3]),
    (''group__AGEN.html#gaa111cc1eca35094f34c4349f9dec5668'', [3,0,1,3]),
    (''group__AGEN.html#gaa82047e0144a3bdc8b7bbc589ea1b525'', [1,9,0]),
    (''group__AGEN.html#gaa82047e0144a3bdc8b7bbc589ea1b525'', [3,0,1,0]),
    (''group__AGEN.html#gaafd062b3704e1d83484ea54e6e4ffb0f'', [1,9,1]),
    (''group__AGEN.html#gaafd062b3704e1d83484ea54e6e4ffb0f'', [3,0,1,1]),
    (''group__CMDLINE.html'', [1,12]),
    (''group__DEC.html'', [1,0]),
    (''group__DEC.html#ga00e6626154ca2a0e8f3f839149123650'', [1,0,94]),
    (''group__DEC.html#ga00e6626154ca2a0e8f3f839149123650'', [3,0,36,9]),
    (''group__DEC.html#ga02b8ece2f304b476494db4cf6d5b73d8'', [1,0,85]),
    (''group__DEC.html#ga02b8ece2f304b476494db4cf6d5b73d8'', [3,0,11,78]),
    (''group__DEC.html#ga05a09aff67ff9713d7dbf31fcbf0409b'', [1,0,77]),
    (''group__DEC.html#ga05a09aff67ff9713d7dbf31fcbf0409b'', [3,0,11,70]),
    (''group__DEC.html#ga085ca25ab4513e982c563b30927dffc9'', [1,0,27]),
    (''group__DEC.html#ga085ca25ab4513e982c563b30927dffc9'', [3,0,11,20]),
    (''group__DEC.html#ga1159569c734bf712a40a2a88542d549d'', [1,0,119]),
    (''group__DEC.html#ga1159569c734bf712a40a2a88542d549d'', [3,0,36,34]),
    (''group__DEC.html#ga1451e49df729a4fe1e650db6cb3343d2'', [3,0,11,35]),
    (''group__DEC.html#ga1451e49df729a4fe1e650db6cb3343d2'', [1,0,42]),
    (''group__DEC.html#ga156b957524c16e319ea7a610b0edde8b'', [3,0,11,54]),
    (''group__DEC.html#ga156b957524c16e319ea7a610b0edde8b'', [1,0,61]),
    (''group__DEC.html#ga1599729669bad560fb6ae6e11187bea8'', [1,0,88]),
    (''group__DEC.html#ga1599729669bad560fb6ae6e11187bea8'', [3,0,11,81]),
    (''group__DEC.html#ga15acf476d5d7d3b3fffa12e8ce4892aa'', [1,0,86]),
    (''group__DEC.html#ga15acf476d5d7d3b3fffa12e8ce4892aa'', [3,0,11,79]),
    (''group__DEC.html#ga15cd2fdc19d6e7e9864df7b56e9235f0'', [1,0,105]),
    (''group__DEC.html#ga15cd2fdc19d6e7e9864df7b56e9235f0'', [3,0,36,20]),
    (''group__DEC.html#ga16d972d293abe583a1caffb472b71418'', [3,0,11,31]),
    (''group__DEC.html#ga16d972d293abe583a1caffb472b71418'', [1,0,38]),
    (''group__DEC.html#ga17858b485e8094f852c0ff54926aebf9'', [3,0,11,50]),
    (''group__DEC.html#ga17858b485e8094f852c0ff54926aebf9'', [1,0,57]),
    (''group__DEC.html#ga187a0e161873242e9989a186466a06b6'', [1,0,84]),
    (''group__DEC.html#ga187a0e161873242e9989a186466a06b6'', [3,0,11,77]),
    (''group__DEC.html#ga18da6bb98a4cd12a2e5bf5db0df7206b'', [3,0,11,44]),
    (''group__DEC.html#ga18da6bb98a4cd12a2e5bf5db0df7206b'', [1,0,51]),
    (''group__DEC.html#ga1b46a3f333598d21438849fb03867702'', [3,0,11,62]),
    (''group__DEC.html#ga1b46a3f333598d21438849fb03867702'', [1,0,69]),
    (''group__DEC.html#ga1d1b81a6e49ae396bdad946439794b5f'', [3,0,11,47]),
    (''group__DEC.html#ga1d1b81a6e49ae396bdad946439794b5f'', [1,0,54]),
    (''group__DEC.html#ga1dbd440bd1bde01bd35d01ec1e518fb5'', [3,0,11,26]),
    (''group__DEC.html#ga1dbd440bd1bde01bd35d01ec1e518fb5'', [1,0,33]),
    (''group__DEC.html#ga21740dee629a5b07e630f95604f6b649'', [3,0,11,28]),
    (''group__DEC.html#ga21740dee629a5b07e630f95604f6b649'', [1,0,35]),
    (''group__DEC.html#ga22c8091a766086dccc3e753a9963b737'', [1,0,123]),
    (''group__DEC.html#ga22c8091a766086dccc3e753a9963b737'', [3,0,36,38]),
    (''group__DEC.html#ga25a74858d19b72bb44721b2e6427a5fe'', [3,0,11,37]),
    (''group__DEC.html#ga25a74858d19b72bb44721b2e6427a5fe'', [1,0,44]),
    (''group__DEC.html#ga275353ead71e5915f810ef06c4149b68'', [3,0,11,32]),
    (''group__DEC.html#ga275353ead71e5915f810ef06c4149b68'', [1,0,39]),
    (''group__DEC.html#ga275efe423fe90a10a674da18f3265bd4'', [3,0,11,25]),
    (''group__DEC.html#ga275efe423fe90a10a674da18f3265bd4'', [1,0,32]),
    (''group__DEC.html#ga2930e4343c9bf41d39c906733fc4c895'', [3,0,11,46]),
    (''group__DEC.html#ga2930e4343c9bf41d39c906733fc4c895'', [1,0,53]),
    (''group__DEC.html#ga2ad01ffd078ac7166c8a2bc1be1b6d4d'', [3,0,11,11]),
    (''group__DEC.html#ga2ad01ffd078ac7166c8a2bc1be1b6d4d'', [1,0,18]),
    (''group__DEC.html#ga2bc965a8dc2a1fee79b80b2c45d4329c'', [1,0,19]),
    (''group__DEC.html#ga2bc965a8dc2a1fee79b80b2c45d4329c'', [3,0,11,12]),
    (''group__DEC.html#ga2e8b5df9fc68c6aa7fbeb98735e1d4a9'', [1,0,110]),
    (''group__DEC.html#ga2e8b5df9fc68c6aa7fbeb98735e1d4a9'', [3,0,36,25])]"

definition navtreeindex0_2 :: "(string \<times> nat list) list" where
  "navtreeindex0_2 = [
    (''group__DEC.html#ga2e9a843ced57a9e4c655428da7ecb9f0'', [3,0,11,23]),
    (''group__DEC.html#ga2e9a843ced57a9e4c655428da7ecb9f0'', [1,0,30]),
    (''group__DEC.html#ga301a5ea38e37d72d3b2623392908d1b9'', [1,0,97]),
    (''group__DEC.html#ga301a5ea38e37d72d3b2623392908d1b9'', [3,0,36,12]),
    (''group__DEC.html#ga3048427ba43f4978b291a36acea2eaae'', [3,0,11,66]),
    (''group__DEC.html#ga3048427ba43f4978b291a36acea2eaae'', [1,0,73]),
    (''group__DEC.html#ga336d0e245e83f1b90f609f72b136a2aa'', [1,0,106]),
    (''group__DEC.html#ga336d0e245e83f1b90f609f72b136a2aa'', [3,0,36,21]),
    (''group__DEC.html#ga38e372d3227817713159035cb47ad1fd'', [3,0,11,60]),
    (''group__DEC.html#ga38e372d3227817713159035cb47ad1fd'', [1,0,67]),
    (''group__DEC.html#ga38f0b100d724d97d80a8291a494dde06'', [3,0,36,3]),
    (''group__DEC.html#ga38f0b100d724d97d80a8291a494dde06'', [1,0,6]),
    (''group__DEC.html#ga4213e284206b24be503bde043ff4bb43'', [1,0,102]),
    (''group__DEC.html#ga4213e284206b24be503bde043ff4bb43'', [3,0,36,17]),
    (''group__DEC.html#ga4410c86154ad601e0440a075864f9c4b'', [3,0,36,0]),
    (''group__DEC.html#ga4410c86154ad601e0440a075864f9c4b'', [1,0,4]),
    (''group__DEC.html#ga4bef6152f61997a47c4e0fe4327a3254'', [1,0,89]),
    (''group__DEC.html#ga4bef6152f61997a47c4e0fe4327a3254'', [3,0,31,0]),
    (''group__DEC.html#ga506a9e92a55f3bc9aa60c223f86aca98'', [3,0,11,19]),
    (''group__DEC.html#ga506a9e92a55f3bc9aa60c223f86aca98'', [1,0,26]),
    (''group__DEC.html#ga507554fe5435fe99bf6a85df3d40645a'', [3,0,36,2]),
    (''group__DEC.html#ga507554fe5435fe99bf6a85df3d40645a'', [1,0,5]),
    (''group__DEC.html#ga53d4f48a25de19a158ac617bd2302fcd'', [1,0,113]),
    (''group__DEC.html#ga53d4f48a25de19a158ac617bd2302fcd'', [3,0,36,28]),
    (''group__DEC.html#ga549f3a156257abb9979df806b436ad85'', [1,0,112]),
    (''group__DEC.html#ga549f3a156257abb9979df806b436ad85'', [3,0,36,27]),
    (''group__DEC.html#ga5540113a3dfdf1472de90fdf7953cb5d'', [3,0,11,53]),
    (''group__DEC.html#ga5540113a3dfdf1472de90fdf7953cb5d'', [1,0,60]),
    (''group__DEC.html#ga561a6688c1f8666cef9d2182f299f5bc'', [1,0,93]),
    (''group__DEC.html#ga561a6688c1f8666cef9d2182f299f5bc'', [3,0,36,8]),
    (''group__DEC.html#ga57209697b0dfb3e9ed4f694ca7cc16a4'', [1,0,108]),
    (''group__DEC.html#ga57209697b0dfb3e9ed4f694ca7cc16a4'', [3,0,36,23]),
    (''group__DEC.html#ga5808f0c3992221777a51c9356bbfc1cf'', [1,0,100]),
    (''group__DEC.html#ga5808f0c3992221777a51c9356bbfc1cf'', [3,0,36,15]),
    (''group__DEC.html#ga585cc1c3bcba8bc89997133442ddd99d'', [3,0,11,45]),
    (''group__DEC.html#ga585cc1c3bcba8bc89997133442ddd99d'', [1,0,52]),
    (''group__DEC.html#ga61f6182ded3ebf9d95c25116278d370d'', [1,0,81]),
    (''group__DEC.html#ga61f6182ded3ebf9d95c25116278d370d'', [3,0,11,74]),
    (''group__DEC.html#ga6654d373b4122309cb985a90baea2ec0'', [3,0,11,64]),
    (''group__DEC.html#ga6654d373b4122309cb985a90baea2ec0'', [1,0,71]),
    (''group__DEC.html#ga6922f0d03774f1d9ec1d402fb70e5c63'', [1,0,80]),
    (''group__DEC.html#ga6922f0d03774f1d9ec1d402fb70e5c63'', [3,0,11,73]),
    (''group__DEC.html#ga6983743d83d51517bae4404d3345b865'', [3,0,11,8]),
    (''group__DEC.html#ga6983743d83d51517bae4404d3345b865'', [1,0,15]),
    (''group__DEC.html#ga698e5a357d20e47f32ba155963526abd'', [3,0,11,59]),
    (''group__DEC.html#ga698e5a357d20e47f32ba155963526abd'', [1,0,66]),
    (''group__DEC.html#ga69fd7ed52eedd5fc2811050ab51903a4'', [3,0,36,4]),
    (''group__DEC.html#ga69fd7ed52eedd5fc2811050ab51903a4'', [1,0,7]),
    (''group__DEC.html#ga6a4b96d0db7e35adb4fa7e4eaed79c30'', [1,0,75]),
    (''group__DEC.html#ga6a4b96d0db7e35adb4fa7e4eaed79c30'', [3,0,11,68]),
    (''group__DEC.html#ga6ce6a33dea91f1cb846c78cf2848be58'', [1,0,14]),
    (''group__DEC.html#ga6ce6a33dea91f1cb846c78cf2848be58'', [3,0,11,7]),
    (''group__DEC.html#ga6d902e3364c9393c5f3b42a3f30442a0'', [3,0,11,39]),
    (''group__DEC.html#ga6d902e3364c9393c5f3b42a3f30442a0'', [1,0,46]),
    (''group__DEC.html#ga6d9f85b730ee9800e311663b0ac2e2f9'', [1,0,101]),
    (''group__DEC.html#ga6d9f85b730ee9800e311663b0ac2e2f9'', [3,0,36,16]),
    (''group__DEC.html#ga6db12b2be0153b8cc8fffba00e4d3eaa'', [1,0,99]),
    (''group__DEC.html#ga6db12b2be0153b8cc8fffba00e4d3eaa'', [3,0,36,14]),
    (''group__DEC.html#ga736415e126f916c307ca2580dda96266'', [3,0,11,29]),
    (''group__DEC.html#ga736415e126f916c307ca2580dda96266'', [1,0,36]),
    (''group__DEC.html#ga7463fa65b041fb66790532ba6ea3ca50'', [1,0,122]),
    (''group__DEC.html#ga7463fa65b041fb66790532ba6ea3ca50'', [3,0,36,37]),
    (''group__DEC.html#ga77a570e03d56cd31e50f4bc54104b0f9'', [3,0,11,33]),
    (''group__DEC.html#ga77a570e03d56cd31e50f4bc54104b0f9'', [1,0,40]),
    (''group__DEC.html#ga79461981ed1722ab09a094915fb72428'', [3,0,11,38]),
    (''group__DEC.html#ga79461981ed1722ab09a094915fb72428'', [1,0,45]),
    (''group__DEC.html#ga7ad3c8a1764288cab0c02a035c8aec1c'', [3,0,11,65]),
    (''group__DEC.html#ga7ad3c8a1764288cab0c02a035c8aec1c'', [1,0,72]),
    (''group__DEC.html#ga7c752cb527745114566367dfa0bb176c'', [3,0,11,15]),
    (''group__DEC.html#ga7c752cb527745114566367dfa0bb176c'', [1,0,22]),
    (''group__DEC.html#ga7dff98e10cc2432084fd5528f834bc35'', [3,0,11,49]),
    (''group__DEC.html#ga7dff98e10cc2432084fd5528f834bc35'', [1,0,56]),
    (''group__DEC.html#ga851d9b2b496b1af5fe79a15d325aa523'', [3,0,11,22]),
    (''group__DEC.html#ga851d9b2b496b1af5fe79a15d325aa523'', [1,0,29]),
    (''group__DEC.html#ga87bdd1f7a9c5893a546351f205fed067'', [1,0,79]),
    (''group__DEC.html#ga87bdd1f7a9c5893a546351f205fed067'', [3,0,11,72]),
    (''group__DEC.html#ga891edc51dbcf2a3282fdffa7e72be74c'', [1,0,95]),
    (''group__DEC.html#ga891edc51dbcf2a3282fdffa7e72be74c'', [3,0,36,10]),
    (''group__DEC.html#ga89c92d9d1aeb47d1e77a86c3e82b097a'', [3,0,11,58]),
    (''group__DEC.html#ga89c92d9d1aeb47d1e77a86c3e82b097a'', [1,0,65]),
    (''group__DEC.html#ga89defb76a530889fb56b00ed2094d569'', [1,0,16]),
    (''group__DEC.html#ga89defb76a530889fb56b00ed2094d569'', [3,0,11,9]),
    (''group__DEC.html#ga8c85bf31ee09bde1bb5b957699a38f71'', [1,0,21]),
    (''group__DEC.html#ga8c85bf31ee09bde1bb5b957699a38f71'', [3,0,11,14]),
    (''group__DEC.html#ga909d5dd4b05d60a655e9412283bb700f'', [1,0,11]),
    (''group__DEC.html#ga909d5dd4b05d60a655e9412283bb700f'', [3,0,11,4]),
    (''group__DEC.html#ga91e972de2b4dfd4edac004d2cdf2768c'', [3,0,11,16]),
    (''group__DEC.html#ga91e972de2b4dfd4edac004d2cdf2768c'', [1,0,23]),
    (''group__DEC.html#ga9a27c2bb97caf98a6024567b261d0652'', [3,0,10,0]),
    (''group__DEC.html#ga9a27c2bb97caf98a6024567b261d0652'', [1,0,8]),
    (''group__DEC.html#ga9cb66680c46f2ba09edbf63a8df3b52b'', [1,0,114]),
    (''group__DEC.html#ga9cb66680c46f2ba09edbf63a8df3b52b'', [3,0,36,29]),
    (''group__DEC.html#gaa030199ba499d2bcb67cbf7740d8d4c6'', [3,0,11,57]),
    (''group__DEC.html#gaa030199ba499d2bcb67cbf7740d8d4c6'', [1,0,64]),
    (''group__DEC.html#gaa85a69942c9d021eb47a8eace1ccf84e'', [1,0,82]),
    (''group__DEC.html#gaa85a69942c9d021eb47a8eace1ccf84e'', [3,0,11,75]),
    (''group__DEC.html#gaa8cca4acafb5dee2b4ecfafee1cca7b8'', [3,0,11,51]),
    (''group__DEC.html#gaa8cca4acafb5dee2b4ecfafee1cca7b8'', [1,0,58]),
    (''group__DEC.html#gaa8d22454961035b0fa6121c5f419817d'', [3,0,11,24]),
    (''group__DEC.html#gaa8d22454961035b0fa6121c5f419817d'', [1,0,31]),
    (''group__DEC.html#gaaab71faec458c04599977e003df8ad42'', [1,0,96]),
    (''group__DEC.html#gaaab71faec458c04599977e003df8ad42'', [3,0,36,11]),
    (''group__DEC.html#gaab164e3abdbd0902ced002923ded7c0a'', [3,0,11,63]),
    (''group__DEC.html#gaab164e3abdbd0902ced002923ded7c0a'', [1,0,70]),
    (''group__DEC.html#gaab1c722037d8a0ed755bc9f3672be6be'', [3,0,11,56]),
    (''group__DEC.html#gaab1c722037d8a0ed755bc9f3672be6be'', [1,0,63]),
    (''group__DEC.html#gaada9b13de03dfeefff70f2d219504aae'', [1,0,13]),
    (''group__DEC.html#gaada9b13de03dfeefff70f2d219504aae'', [3,0,11,6]),
    (''group__DEC.html#gaadb2fcc833f5245dcbfd80dd0499694d'', [1,0,121]),
    (''group__DEC.html#gaadb2fcc833f5245dcbfd80dd0499694d'', [3,0,36,36]),
    (''group__DEC.html#gaaf47d56bea81c3f7f815fab8cbc64a50'', [1,0,91]),
    (''group__DEC.html#gaaf47d56bea81c3f7f815fab8cbc64a50'', [3,0,36,6]),
    (''group__DEC.html#gab13c4e9442dfe6624ed492f1c6521286'', [1,0,98]),
    (''group__DEC.html#gab13c4e9442dfe6624ed492f1c6521286'', [3,0,36,13]),
    (''group__DEC.html#gab34c7c4ac7369256b6b57b015a9490af'', [3,0,11,61]),
    (''group__DEC.html#gab34c7c4ac7369256b6b57b015a9490af'', [1,0,68]),
    (''group__DEC.html#gab3f8aad7cae7a6289fe33389ceaa7bd6'', [1,0,83]),
    (''group__DEC.html#gab3f8aad7cae7a6289fe33389ceaa7bd6'', [3,0,11,76]),
    (''group__DEC.html#gab506c3ac00ee5350d9b5ab55270c392c'', [1,0,107]),
    (''group__DEC.html#gab506c3ac00ee5350d9b5ab55270c392c'', [3,0,36,22]),
    (''group__DEC.html#gab5528945cff3a8531a58103fffdcee97'', [1,0,111]),
    (''group__DEC.html#gab5528945cff3a8531a58103fffdcee97'', [3,0,36,26]),
    (''group__DEC.html#gab81b14e6d31cc013d3a0c414ee185093'', [1,0,90]),
    (''group__DEC.html#gab81b14e6d31cc013d3a0c414ee185093'', [3,0,36,5])]"

definition NAVTREEINDEX0 :: "(string \<times> nat list) list" where
  "NAVTREEINDEX0 = navtreeindex0_1 @ navtreeindex0_2"

lemma navtreeindex0_1_ok: "list_all (entry_ok (script_table rest)) navtreeindex0_1"
  unfolding navtreeindex0_1_def
  by (simp add: path_rules arrives_source cong: path_cong pick_cong some_cong arrives_cong list_all_blocked)
    (simp add: source_page_def)?

lemma navtreeindex0_2_ok: "list_all (entry_ok (script_table rest)) navtreeindex0_2"
  unfolding navtreeindex0_2_def
  by (simp add: path_rules arrives_source cong: path_cong pick_cong some_cong arrives_cong list_all_blocked)
    (simp add: source_page_def)?


end
