(* ===== verification/Nav_Index_4.thy ===== *)
theory Nav_Index_4
  imports Nav_Scripts
begin

text \<open>
  navtreeindex4.js: the urls of one index file of the navigation tree, each with the path of
  its node, and the check that the path leads to it.
\<close>

definition navtreeindex4_1 :: "(string \<times> nat list) list" where
  "navtreeindex4_1 = [
    (''structxed__encoder__iforms__s.html#a7aea255eacbdcfe740a5d0c8c52412c6'', [2,0,4,41]),
    (''structxed__encoder__iforms__s.html#a7c7d636e1a287e882b94082ca1f158be'', [2,0,4,36]),
    (''structxed__encoder__iforms__s.html#a7cf6146b5d3e94fecff409226ca5401c'', [2,0,4,27]),
    (''structxed__encoder__iforms__s.html#a8061ba452f864e8974d5777a9d81ecdb'', [2,0,4,46]),
    (''structxed__encoder__iforms__s.html#a833d01bc325826ece7bc4bcfd911f97a'', [2,0,4,45]),
    (''structxed__encoder__iforms__s.html#a83f90e925872b1359b897ccf13bb986d'', [2,0,4,44]),
    (''structxed__encoder__iforms__s.html#a8f1a2b2c552141dd1a9b284f7d7b4021'', [2,0,4,40]),
    (''structxed__encoder__iforms__s.html#a910f7d149786b92a451ec3a84bd484dc'', [2,0,4,35]),
    (''structxed__encoder__iforms__s.html#a9ea7eccf4fab4b339f46dc5292b26b62'', [2,0,4,22]),
    (''structxed__encoder__iforms__s.html#aa0c8b2549f6582253528f54e35be86fe'', [2,0,4,15]),
    (''structxed__encoder__iforms__s.html#aa29614089511a1d167826e4863822506'', [2,0,4,14]),
    (''structxed__encoder__iforms__s.html#aa45b74d4e4a2de5a62431febfa726815'', [2,0,4,9]),
    (''structxed__encoder__iforms__s.html#aa5df24f9eade9dc7eee61d89402b72d8'', [2,0,4,10]),
    (''structxed__encoder__iforms__s.html#aa8aa7299d15fc317aaed24685ab17db5'', [2,0,4,2]),
    (''structxed__encoder__iforms__s.html#ab8d89b51f6bb76d4c998d9af8ea9da05'', [2,0,4,6]),
    (''structxed__encoder__iforms__s.html#ab9ea4adab24b31ebeb1236082f4c45ad'', [2,0,4,19]),
    (''structxed__encoder__iforms__s.html#ac63f974638dfea517b739c95d4b2a2a8'', [2,0,4,21]),
    (''structxed__encoder__iforms__s.html#ac940fb64740cab964309b07c5e7b9ff3'', [2,0,4,31]),
    (''structxed__encoder__iforms__s.html#acf8c6c7bf9201838ae4bc3ce1cff9ac1'', [2,0,4,8]),
    (''structxed__encoder__iforms__s.html#ad6dae0c9381705ec18fd901edae84396'', [2,0,4,16]),
    (''structxed__encoder__iforms__s.html#adbb4c4a997a3b30ac03967078b99310a'', [2,0,4,18]),
    (''structxed__encoder__iforms__s.html#ae7c343e115afb5891444a6d465c30cd9'', [2,0,4,23]),
    (''structxed__encoder__iforms__s.html#aecf552a6d0053c428a5a45ab9a3bb40e'', [2,0,4,12]),
    (''structxed__encoder__iforms__s.html#aee10718c13beef409d09c91fc7d17656'', [2,0,4,47]),
    (''structxed__encoder__iforms__s.html#af4ba52e40d39f6941c20c307bc78a752'', [2,0,4,13]),
    (''structxed__encoder__iforms__s.html#afb61ecb93c8e429eaec8514cd2a1e9a3'', [2,0,4,30]),
    (''structxed__encoder__iforms__s.html#afff400756c25201d13b5495c03257ca3'', [2,0,4,1]),
    (''structxed__encoder__instruction__t.html'', [2,0,5]),
    (''structxed__encoder__instruction__t.html#a329fcce026ff63907ea18427b436bc67'', [2,0,5,3]),
    (''structxed__encoder__instruction__t.html#a33d5130bbbb68262f0748a59812a70cb'', [2,0,5,5]),
    (''structxed__encoder__instruction__t.html#a3e97f12dc2c89d421934d6f8d83d3e67'', [2,0,5,0]),
    (''structxed__encoder__instruction__t.html#a73e305f28d726fb5b44173d7e08f7fb4'', [2,0,5,2]),
    (''structxed__encoder__instruction__t.html#a8ef9ec3964c45a1614d417370eb04723'', [2,0,5,1]),
    (''structxed__encoder__instruction__t.html#a9bb1e6a43001997963da687e816ebdf9'', [2,0,5,4]),
    (''structxed__encoder__instruction__t.html#ae33c87ef34abd74d94abc032fd90f542'', [2,0,5,6]),
    (''structxed__encoder__operand__t.html'', [2,0,6]),
    (''structxed__encoder__operand__t.html#a02a44953301d1bc2567512f754861f8a'', [2,0,6,8]),
    (''structxed__encoder__operand__t.html#a0593727d33d6d01b5f6539d69b6b94f2'', [2,0,6,9]),
    (''structxed__encoder__operand__t.html#a61d286cb2d8cddcdc7bbadbab9759aa5'', [2,0,6,3]),
    (''structxed__encoder__operand__t.html#aa995ad55cbcb06f834e37293c4466023'', [2,0,6,1]),
    (''structxed__encoder__operand__t.html#ab99e88a8252108f8512877a9e88a4ea0'', [2,0,6,0]),
    (''structxed__encoder__operand__t.html#aba1b2678090e74eb5faa198cf49d5730'', [2,0,6,4]),
    (''structxed__encoder__operand__t.html#aea0fc9de9981537aa1eeac7fa56af305'', [2,0,6,6]),
    (''structxed__encoder__operand__t.html#aecb9ee77844be3e93e81216cc4709146'', [2,0,6,2]),
    (''structxed__encoder__operand__t.html#af8d096f5b2bf8e6c6752035db7501430'', [2,0,6,7]),
    (''structxed__encoder__operand__t.html#afc62b1b2b0225f006a24483b846f266c'', [2,0,6,10]),
    (''structxed__encoder__operand__t.html#affc78afe4f18c8d806e91949f223ec6d'', [2,0,6,5]),
    (''structxed__flag__enum__s.html'', [1,8,0]),
    (''structxed__flag__enum__s.html#a0c855e9832d9215abbeee4d8c4611f76'', [1,8,0,1]),
    (''structxed__flag__enum__s.html#a6ff90d561a1023be5c27bc5ba1da6a83'', [1,8,0,0]),
    (''structxed__format__options__t.html'', [1,6,0]),
    (''structxed__format__options__t.html#a2f5e99db0d3f8d9aaec57cf03c404dc3'', [1,6,0,4]),
    (''structxed__format__options__t.html#a376259c6f83ac22702c42fe1adbab400'', [1,6,0,2]),
    (''structxed__format__options__t.html#a52f1af3c6153aea31d80aa837d8fd075'', [1,6,0,1]),
    (''structxed__format__options__t.html#a96bc47f93e4cded00e6b1d5406ca08a0'', [1,6,0,5]),
    (''structxed__format__options__t.html#a9859337bb1e80b9406ef029e2e88a388'', [1,6,0,0]),
    (''structxed__format__options__t.html#aa3d5959c28ee81aa7e72e6042ffafc1e'', [1,6,0,3]),
    (''structxed__iform__info__s.html'', [1,4,0]),
    (''structxed__iform__info__s.html#a34770b1c687b081d466e3a05b2a9a8a6'', [1,4,0,4]),
    (''structxed__iform__info__s.html#a73e305f28d726fb5b44173d7e08f7fb4'', [1,4,0,2]),
    (''structxed__iform__info__s.html#abc6055dea33b5ce30146fb6a826e3b1a'', [1,4,0,1]),
    (''structxed__iform__info__s.html#abe0e7654223c86df2c33d2fec7e3b5cf'', [1,4,0,0]),
    (''structxed__iform__info__s.html#aed57fa5486f387f7f2a5d470785fd82b'', [1,4,0,3]),
    (''structxed__immdis__s.html'', [2,0,12]),
    (''structxed__immdis__s.html#a4c49954576278c551ba8b22539f0e971'', [2,0,12,3]),
    (''structxed__immdis__s.html#aa5fa898615728484b9153ffcedcabdd3'', [2,0,12,0]),
    (''structxed__immdis__s.html#ac2171072c92ed1511fb37e3f7fbfad16'', [2,0,12,4]),
    (''structxed__immdis__s.html#ac8efd53d2590c1248ae58931dee0e89d'', [2,0,12,2]),
    (''structxed__immdis__s.html#aeea5eb8193030afdeeda7b6dfa640fd9'', [2,0,12,1]),
    (''structxed__inst__s.html'', [1,0,1]),
    (''structxed__inst__s.html#a03367ba1ec117dbfbd2f1f09e9a9b510'', [1,0,1,0]),
    (''structxed__inst__s.html#a28c6d88881677fb400e4090e1870b572'', [1,0,1,1]),
    (''structxed__inst__s.html#a56d07f8f78f5be97310c3b250643a0cc'', [1,0,1,5]),
    (''structxed__inst__s.html#a75158b2726e38f4a99e2b211e0e400dc'', [1,0,1,4]),
    (''structxed__inst__s.html#aa3c2bcd18be8815cd9de0d3674bfc1c2'', [1,0,1,2]),
    (''structxed__inst__s.html#acb846ead9a58e1648b7df7b3ca3e2f3d'', [1,0,1,6]),
    (''structxed__inst__s.html#adcc7107673acf5c5329f75d9fbe23c9b'', [1,0,1,7]),
    (''structxed__inst__s.html#aeef213bf1a5d21d2bf11bcf56c709b19'', [1,0,1,3]),
    (''structxed__memop__t.html'', [2,0,15]),
    (''structxed__memop__t.html#a47dd9d08fd6c6c01240bc0016c53388b'', [2,0,15,0]),
    (''structxed__memop__t.html#a62574ae50e6dc5819e7ca1a8319ff606'', [2,0,15,1]),
    (''structxed__memop__t.html#a6538179aeb901a9f34af5e7861a38038'', [2,0,15,2]),
    (''structxed__memop__t.html#aa4578f59f16b24c91beb2752bfb50ad0'', [2,0,15,3]),
    (''structxed__memop__t.html#ad6e5dcd3c1ceaf99a0f66215d653ec63'', [2,0,15,4]),
    (''structxed__operand__s.html'', [1,0,2]),
    (''structxed__operand__s.html#a2e68845abb787426ebe6c4329a81907a'', [1,0,2,4]),
    (''structxed__operand__s.html#a5648d7311aa0ac212d1d791ae77d61ca'', [1,0,2,2]),
    (''structxed__operand__s.html#aa5179eb52a878085bb4a4201e941993a'', [1,0,2,10]),
    (''structxed__operand__s.html#aa9ecf1d105b566b58e4a9fd7aabb1ab6'', [1,0,2,7]),
    (''structxed__operand__s.html#aad61b6c9cff8c15a210b713249a62223'', [1,0,2,5]),
    (''structxed__operand__s.html#aadbfe169117889af4a00b8e66ad8d577'', [1,0,2,1]),
    (''structxed__operand__s.html#aba714ff6405430b4e14121c21c50d8dc'', [1,0,2,9]),
    (''structxed__operand__s.html#ad35e0891736807e22e0697801984b1ad'', [1,0,2,8]),
    (''structxed__operand__s.html#aeaa9312334b505ca705b317a153dfe8e'', [1,0,2,0]),
    (''structxed__operand__s.html#aecf0d39932822f1a79838ec7ff5d591a'', [1,0,2,6]),
    (''structxed__operand__s.html#af00fef3dfbd9105b34b58d36c96a07a5'', [1,0,2,3]),
    (''structxed__operand__storage__s.html'', [2,0,17]),
    (''structxed__operand__storage__s.html#a069477621f91b6f03d866af397df3b0b'', [2,0,17,112]),
    (''structxed__operand__storage__s.html#a07bee7ac5b67d0f2835387b8b86f2866'', [2,0,17,70]),
    (''structxed__operand__storage__s.html#a07c39bea562237bd4e9d86626581fb92'', [2,0,17,109]),
    (''structxed__operand__storage__s.html#a09dbe857f4548b7212050c8b78e5be74'', [2,0,17,105]),
    (''structxed__operand__storage__s.html#a0c34bff866110c915db87e13520aa931'', [2,0,17,40]),
    (''structxed__operand__storage__s.html#a0dbff530f195371c35c71da2c5feb2d1'', [2,0,17,124]),
    (''structxed__operand__storage__s.html#a0ea80f2ed39719051f41c0d11b389135'', [2,0,17,5]),
    (''structxed__operand__storage__s.html#a0f05d3fb7c449ef405bc4dcef47c2cc5'', [2,0,17,32]),
    (''structxed__operand__storage__s.html#a0f195aa408a315baa67a739ed1cf5314'', [2,0,17,41]),
    (''structxed__operand__storage__s.html#a103d68a096555ba6eb27e26022247779'', [2,0,17,15]),
    (''structxed__operand__storage__s.html#a11cdb7d6abbb9ea6f74f472ccde91f50'', [2,0,17,59]),
    (''structxed__operand__storage__s.html#a12c120e0916fa7aacf2bd5f83fe89a57'', [2,0,17,35]),
    (''structxed__operand__storage__s.html#a1703bcddf42c08d9c5f7761f860988d9'', [2,0,17,88]),
    (''structxed__operand__storage__s.html#a17efd81e6c815c79e2cdf4b40adc3adc'', [2,0,17,114]),
    (''structxed__operand__storage__s.html#a190ebdd8a7269db139971f3ff6f56c5c'', [2,0,17,55]),
    (''structxed__operand__storage__s.html#a19e441620a0f38fed11a3dd8f6ddfa31'', [2,0,17,45]),
    (''structxed__operand__storage__s.html#a1b892a8c0b4a0870ebb665499d4cd48b'', [2,0,17,57]),
    (''structxed__operand__storage__s.html#a1d28582d63a7ed4338a2659360837481'', [2,0,17,79]),
    (''structxed__operand__storage__s.html#a1e9faa26506012593bba0a1e244e3859'', [2,0,17,65]),
    (''structxed__operand__storage__s.html#a1f980d6704ace761de9edc06c4598923'', [2,0,17,50]),
    (''structxed__operand__storage__s.html#a20113dd806992cb61a9edcc4de58ec5b'', [2,0,17,60]),
    (''structxed__operand__storage__s.html#a215275504dbfe6703eefc0ef4c26829c'', [2,0,17,54]),
    (''structxed__operand__storage__s.html#a25589fcfde391eb8b5195fd81774f6cc'', [2,0,17,106]),
    (''structxed__operand__storage__s.html#a25b2f50484ecb1a89c51d52562bebda0'', [2,0,17,51]),
    (''structxed__operand__storage__s.html#a27342d6ed806e9075a1d274bd80d32b4'', [2,0,17,115]),
    (''structxed__operand__storage__s.html#a27ce99975034d1b474a089b7e008be62'', [2,0,17,125]),
    (''structxed__operand__storage__s.html#a28bb0610f07cea2b017db8e6475a1f2c'', [2,0,17,38]),
    (''structxed__operand__storage__s.html#a2971060e90db085c130b46d62057177b'', [2,0,17,93]),
    (''structxed__operand__storage__s.html#a2d00d3a834e152cb4fd3507ba340f3e4'', [2,0,17,9])]"

definition navtreeindex4_2 :: "(string \<times> nat list) list" where
  "navtreeindex4_2 = [
    (''structxed__operand__storage__s.html#a2dfb8112d085b135132f08c91a4ae1c1'', [2,0,17,120]),
    (''structxed__operand__storage__s.html#a2fc902b0aea6394f8fbb0e3e26895f2b'', [2,0,17,19]),
    (''structxed__operand__storage__s.html#a2fe53e70bbcd4bc7db35f068db072aeb'', [2,0,17,72]),
    (''structxed__operand__storage__s.html#a3390c38d47d6aff23814ae37b503666a'', [2,0,17,26]),
    (''structxed__operand__storage__s.html#a39ec9ef64786ce9ed76bfe0a0a1642fe'', [2,0,17,116]),
    (''structxed__operand__storage__s.html#a3d0b9044183a89e49188694613c597c8'', [2,0,17,122]),
    (''structxed__operand__storage__s.html#a3f89a94262b4663bbd668d109b3746c8'', [2,0,17,43]),
    (''structxed__operand__storage__s.html#a40a8da00806f200307ab6a94ef14c11f'', [2,0,17,63]),
    (''structxed__operand__storage__s.html#a4318d50f36d74b9ae3185bcdb0603368'', [2,0,17,113]),
    (''structxed__operand__storage__s.html#a439c496a4efdf4ed13fe68966d313d18'', [2,0,17,71]),
    (''structxed__operand__storage__s.html#a44123f7407b064e6c9372efb2140b1f1'', [2,0,17,89]),
    (''structxed__operand__storage__s.html#a456f9de3efd3a0e9bbcbb29e3f0d95a2'', [2,0,17,61]),
    (''structxed__operand__storage__s.html#a45b2c0ac61e1490670bab0e744c81f98'', [2,0,17,1]),
    (''structxed__operand__storage__s.html#a45d0895b1839a19b845db046507a92ab'', [2,0,17,14]),
    (''structxed__operand__storage__s.html#a463b7102df380fdbf71e94456cb8881e'', [2,0,17,81]),
    (''structxed__operand__storage__s.html#a4770166a134a40fad2101f19765c8545'', [2,0,17,39]),
    (''structxed__operand__storage__s.html#a4836abdbb079a84bc521aff6527ab621'', [2,0,17,73]),
    (''structxed__operand__storage__s.html#a4c0fe3d295763cd48147a572071c2037'', [2,0,17,11]),
    (''structxed__operand__storage__s.html#a4d1bdcd690d2cd6bd5d4a1a29085f76e'', [2,0,17,118]),
    (''structxed__operand__storage__s.html#a4f151b021dc9532a98b3d9a7391693ce'', [2,0,17,121]),
    (''structxed__operand__storage__s.html#a522f16922869deae0f982f6277470b14'', [2,0,17,8]),
    (''structxed__operand__storage__s.html#a55cfd9ca586500f39f5ce5cc12401e22'', [2,0,17,62]),
    (''structxed__operand__storage__s.html#a55d77f127dbb4395e66b457e2c018122'', [2,0,17,68]),
    (''structxed__operand__storage__s.html#a56a7f38bf7471f038869c06a07bec946'', [2,0,17,6]),
    (''structxed__operand__storage__s.html#a59a5cc5ff3520de2d17c3528f2211cb8'', [2,0,17,83]),
    (''structxed__operand__storage__s.html#a5c1b6a0ac2d97a8e77a2e977ebfcddd2'', [2,0,17,94]),
    (''structxed__operand__storage__s.html#a5c250aa1fde976f1a64b169930d888a3'', [2,0,17,126]),
    (''structxed__operand__storage__s.html#a5c5ec581efbfb93f64ea4acc5ad97673'', [2,0,17,23]),
    (''structxed__operand__storage__s.html#a5e1b914cf33a996de380ab2b84a6eff4'', [2,0,17,24]),
    (''structxed__operand__storage__s.html#a5f2371b709c5fa56ad0c4f61450d965c'', [2,0,17,37]),
    (''structxed__operand__storage__s.html#a6036b16b9a0afa9120d9346309af22fc'', [2,0,17,104]),
    (''structxed__operand__storage__s.html#a6099a8f5b10db2721aeda92bb64a643d'', [2,0,17,74]),
    (''structxed__operand__storage__s.html#a639c395abbaed39e9b7c3072eb92064d'', [2,0,17,56]),
    (''structxed__operand__storage__s.html#a63eb9c0f3142191d6b32772bf09dbbc0'', [2,0,17,78]),
    (''structxed__operand__storage__s.html#a675c0f69087e229a121b266e0ded893b'', [2,0,17,76]),
    (''structxed__operand__storage__s.html#a677e512824d6b4f04abce4509831bc19'', [2,0,17,102]),
    (''structxed__operand__storage__s.html#a6a5028d180274c4aa23fc9306715a348'', [2,0,17,123]),
    (''structxed__operand__storage__s.html#a6b35796e7ba1792792ab31d714a60761'', [2,0,17,2]),
    (''structxed__operand__storage__s.html#a6c418347a9988669ee378ed8f7054303'', [2,0,17,97]),
    (''structxed__operand__storage__s.html#a70aa8222e96a5c84d14cf7b725aa9762'', [2,0,17,86]),
    (''structxed__operand__storage__s.html#a720d3b2187836507b81547408f35433e'', [2,0,17,117]),
    (''structxed__operand__storage__s.html#a78286715259195dc4fe2d2cdbe7cb269'', [2,0,17,90]),
    (''structxed__operand__storage__s.html#a7bd8238e8e1827a3c47abd5c4e27030d'', [2,0,17,3]),
    (''structxed__operand__storage__s.html#a7c9e48459acd2573dcce2441dd1d93f6'', [2,0,17,4]),
    (''structxed__operand__storage__s.html#a7ea43b55f869a6a22a3abd4a111d369b'', [2,0,17,101]),
    (''structxed__operand__storage__s.html#a839074130fe4117198c2bf1e272c7335'', [2,0,17,28]),
    (''structxed__operand__storage__s.html#a89f36a662d4d34db109be0988540e8b2'', [2,0,17,110]),
    (''structxed__operand__storage__s.html#a8aec9335704d9db6e4fc47567ab194b0'', [2,0,17,13]),
    (''structxed__operand__storage__s.html#a91241c9bb5b525dca2c8c9d1df643091'', [2,0,17,96]),
    (''structxed__operand__storage__s.html#a91ca03fd2581444b22beeeac9da6f4a3'', [2,0,17,31]),
    (''structxed__operand__storage__s.html#a92a6727cf333338c33275bf90672dc84'', [2,0,17,82]),
    (''structxed__operand__storage__s.html#a97f748c3c8a6e9fc1e06d9d8c348cc32'', [2,0,17,21]),
    (''structxed__operand__storage__s.html#a9974476cb28d4137fb6f0e8804847f21'', [2,0,17,69]),
    (''structxed__operand__storage__s.html#a99f2348b52a79a2c12a92a6c0118bf17'', [2,0,17,64]),
    (''structxed__operand__storage__s.html#a9abfab0954ca339a10ac089959534155'', [2,0,17,22]),
    (''structxed__operand__storage__s.html#a9cbf31314eedd73850087bebf2de1033'', [2,0,17,44]),
    (''structxed__operand__storage__s.html#a9d610ece02244602e64fe376d914a7ae'', [2,0,17,48]),
    (''structxed__operand__storage__s.html#aa0d51147e81b40ccb3b379bfbf51db5f'', [2,0,17,87]),
    (''structxed__operand__storage__s.html#aa6fd7d3930e50bb158aaf51a0931ad4b'', [2,0,17,108]),
    (''structxed__operand__storage__s.html#aa98814ea0c9dc7d120c6154c40cd2082'', [2,0,17,0]),
    (''structxed__operand__storage__s.html#aab83b9b17c9e7db17aadb02f819b331e'', [2,0,17,119]),
    (''structxed__operand__storage__s.html#aaba9037a2338078081e98e30c0318251'', [2,0,17,58]),
    (''structxed__operand__storage__s.html#aafc351c98a02647c7eb4d38ae1c8a490'', [2,0,17,18]),
    (''structxed__operand__storage__s.html#ab38fdfbc02657b0f4f8c3d34f327e9ec'', [2,0,17,100]),
    (''structxed__operand__storage__s.html#ab478458d9396b979753e55264b924933'', [2,0,17,7]),
    (''structxed__operand__storage__s.html#ab52f482f625a662b1cb47127dc41d19a'', [2,0,17,12]),
    (''structxed__operand__storage__s.html#ab552475d42ef41ee80d71cf4d6a4966b'', [2,0,17,103]),
    (''structxed__operand__storage__s.html#ab6dd726aca628551b71b156314d1eeb0'', [2,0,17,27]),
    (''structxed__operand__storage__s.html#ab7e27ae87067dc00b69453abbff59e44'', [2,0,17,98]),
    (''structxed__operand__storage__s.html#ab7e563efae89e5704821c195cb5a45c6'', [2,0,17,17]),
    (''structxed__operand__storage__s.html#aba0de59dc02264ece3d21a97198b8119'', [2,0,17,66]),
    (''structxed__operand__storage__s.html#abf010802f0bac1cc77681c7b9debd86c'', [2,0,17,30]),
    (''structxed__operand__storage__s.html#abfa59bf16ad022db7a3b723abe8022eb'', [2,0,17,91]),
    (''structxed__operand__storage__s.html#ac57a7ddb914e1a186da00bc469e521fb'', [2,0,17,29]),
    (''structxed__operand__storage__s.html#ac7924e52422996baa086a362e35a02f8'', [2,0,17,99]),
    (''structxed__operand__storage__s.html#ac868edaab6f0253f1e84c2a892130e9e'', [2,0,17,53]),
    (''structxed__operand__storage__s.html#acbce437fe6914af047fae06df2368a1c'', [2,0,17,16]),
    (''structxed__operand__storage__s.html#acfa0e8b80de4a34fce85f65fe14ef088'', [2,0,17,95]),
    (''structxed__operand__storage__s.html#ad019db09a9d2843b5f2f2e7ed4e079dc'', [2,0,17,92]),
    (''structxed__operand__storage__s.html#ad19b924b8cdb03442958e235399947e3'', [2,0,17,20]),
    (''structxed__operand__storage__s.html#ad6a412a223ec5b57efa75fb320a54f69'', [2,0,17,47]),
    (''structxed__operand__storage__s.html#ad9660dcaebb7f45fda43217ecdf7b574'', [2,0,17,46]),
    (''structxed__operand__storage__s.html#ade5891995ec8fa7d320c29b189af52b7'', [2,0,17,33]),
    (''structxed__operand__storage__s.html#aded5beb7056277fa4bd8a8a3ddae8e04'', [2,0,17,84]),
    (''structxed__operand__storage__s.html#ae2ac88244378a5dc6a3f44dd537d9185'', [2,0,17,85]),
    (''structxed__operand__storage__s.html#ae3f10720d98fa3620ac51343010bb582'', [2,0,17,67]),
    (''structxed__operand__storage__s.html#ae52b027517d94275119faee655e4376d'', [2,0,17,42]),
    (''structxed__operand__storage__s.html#ae60ed464f49cf38771c67a6d32121340'', [2,0,17,25]),
    (''structxed__operand__storage__s.html#aecb9ee77844be3e93e81216cc4709146'', [2,0,17,34]),
    (''structxed__operand__storage__s.html#aef22ce89bc0c9c1b8e6629a258b3e0a5'', [2,0,17,36]),
    (''structxed__operand__storage__s.html#aefd4a87649a20c827a60c09fe06c37c2'', [2,0,17,80]),
    (''structxed__operand__storage__s.html#af6d7c92360c3352fa1ec027859c8ff55'', [2,0,17,107]),
    (''structxed__operand__storage__s.html#af76beeb9c32516b575dc68f64176333d'', [2,0,17,49]),
    (''structxed__operand__storage__s.html#af772e398dcf935d941241c2b2d110a14'', [2,0,17,75]),
    (''structxed__operand__storage__s.html#afa174ee6680e7dbeb613855c585aa071'', [2,0,17,10]),
    (''structxed__operand__storage__s.html#afd1bd0cb9abf322ec826c2d220a454cc'', [2,0,17,111]),
    (''structxed__operand__storage__s.html#afd4899f12b95a02a93132b27d161039e'', [2,0,17,52]),
    (''structxed__operand__storage__s.html#afe29558821b787a225360319fe7fa1f9'', [2,0,17,77]),
    (''structxed__print__info__t.html'', [1,6,1]),
    (''structxed__print__info__t.html#a1fe855c208bc17a51a4d34fefdb2d5b1'', [1,6,1,1]),
    (''structxed__print__info__t.html#a2b39e838ee753fb0c2f9c95a793c689f'', [1,6,1,3]),
    (''structxed__print__info__t.html#a426697c198943f37470982f3f956c35d'', [1,6,1,4]),
    (''structxed__print__info__t.html#a4337c4b316e91d8ed38fb21c929760d2'', [1,6,1,8]),
    (''structxed__print__info__t.html#a5cbeeb747b1d5700b4c25546c6b02713'', [1,6,1,6]),
    (''structxed__print__info__t.html#a809dd76e54efbe7033f0bd5eedf802af'', [1,6,1,7]),
    (''structxed__print__info__t.html#a8da4bce641493ceb76bacec824630184'', [1,6,1,10]),
    (''structxed__print__info__t.html#a909b439e9e2cdfaf67bb5e53b69c69ad'', [1,6,1,11]),
    (''structxed__print__info__t.html#aade5b0550443918f13c25f1589adbb70'', [1,6,1,12]),
    (''structxed__print__info__t.html#ab333e6d2b6d6beab5dbcea01a55ffaf0'', [1,6,1,5]),
    (''structxed__print__info__t.html#ab975d6795638986ea3d0ac52cd6b0e27'', [1,6,1,9]),
    (''structxed__print__info__t.html#abf478535d20cf92ccdba662a135e6c1b'', [1,6,1,0]),
    (''structxed__print__info__t.html#ae376f130b17d169ee51be68077a89ed0'', [1,6,1,2]),
    (''structxed__simple__flag__s.html'', [1,8,2]),
    (''structxed__simple__flag__s.html#a644147e6c8a633e8e13cda7b3a974910'', [1,8,2,1]),
    (''structxed__simple__flag__s.html#a6ca9e07f3c737f6f07deb0678f4c5d8c'', [1,8,2,0]),
    (''structxed__simple__flag__s.html#a722858b8b07e26ef8229e6b8df791f2f'', [1,8,2,4]),
    (''structxed__simple__flag__s.html#a8adf988b444df44631430dce32912463'', [1,8,2,3]),
    (''structxed__simple__flag__s.html#ac5157c9b63bf12f8e1b6e1824f6e398b'', [1,8,2,2]),
    (''structxed__simple__flag__s.html#adfa93f6dc27a5ed9554b4da06fe316eb'', [1,8,2,6]),
    (''structxed__simple__flag__s.html#aebe46fb7d51bdbdec6037b48417bb8f0'', [1,8,2,5]),
    (''structxed__state__s.html'', [1,11,0]),
    (''structxed__state__s.html#a202e530cc6f872ce7744b4bdddcb49ba'', [1,11,0,1]),
    (''structxed__state__s.html#acedcfb0936b7c302087ad7fe5de5cb10'', [1,11,0,0]),
    (''unionxed__encoder__prefixes__t.html'', [2,0,7])]"

definition NAVTREEINDEX4 :: "(string \<times> nat list) list" where
  "NAVTREEINDEX4 = navtreeindex4_1 @ navtreeindex4_2"

lemma navtreeindex4_1_ok: "list_all (entry_ok (script_table rest)) navtreeindex4_1"
  unfolding navtreeindex4_1_def
  by (simp add: path_rules arrives_source cong: path_cong pick_cong some_cong arrives_cong list_all_blocked)
    (simp add: source_page_def)?

lemma navtreeindex4_2_ok: "list_all (entry_ok (script_table rest)) navtreeindex4_2"
  unfolding navtreeindex4_2_def
  by (simp add: path_rules arrives_source cong: path_cong pick_cong some_cong arrives_cong list_all_blocked)
    (simp add: source_page_def)?


end
