(* ===== verification/Nav_Index_5.thy ===== *)
theory Nav_Index_5
  imports Nav_Scripts
begin

text \<open>
  navtreeindex5.js: the urls of one index file of the navigation tree, each with the path of
  its node, and the check that the path leads to it.
\<close>

definition navtreeindex5_1 :: "(string \<times> nat list) list" where
  "navtreeindex5_1 = [
    (''unionxed__encoder__prefixes__t.html#a17e46718b7ea9fa441204e8f5c9c2cd0'', [2,0,7,6]),
    (''unionxed__encoder__prefixes__t.html#a4604e9bca1cf029d6c794f094ff15138'', [2,0,7,2]),
    (''unionxed__encoder__prefixes__t.html#a7808aa5a29f1964b18def98281b448dd'', [2,0,7,5]),
    (''unionxed__encoder__prefixes__t.html#a9bf442830763f089c6fbb8bb561f27a7'', [2,0,7,1]),
    (''unionxed__encoder__prefixes__t.html#aa386ca0a8e018f195d93dc2225c53e05'', [2,0,7,0]),
    (''unionxed__encoder__prefixes__t.html#ade34f221316c3df93f99960707f80116'', [2,0,7,3]),
    (''unionxed__encoder__prefixes__t.html#aec0a195f8c65332931922e60304f72ad'', [2,0,7,4]),
    (''unionxed__flag__set__s.html'', [1,8,1]),
    (''unionxed__flag__set__s.html#a215d00bbdb63524a71e545fda8dfc329'', [1,8,1,0]),
    (''unionxed__flag__set__s.html#a23108990a6959f5f26751773749547fa'', [1,8,1,12]),
    (''unionxed__flag__set__s.html#a3674598aac3f0fe791f47ac79f0c37eb'', [1,8,1,24]),
    (''unionxed__flag__set__s.html#a41c4b59f50e4ac20c6d81e8379691e8e'', [1,8,1,11]),
    (''unionxed__flag__set__s.html#a4e085097fe04e9a4ef0b8f48880c94dd'', [1,8,1,27]),
    (''unionxed__flag__set__s.html#a607ecb9cdd15dfb2a132a4fc593fe0b6'', [1,8,1,25]),
    (''unionxed__flag__set__s.html#a61a62d2e73c190bdb70f212cdfc162bf'', [1,8,1,16]),
    (''unionxed__flag__set__s.html#a651259e24a24a1f9f40e9bedac0ad560'', [1,8,1,3]),
    (''unionxed__flag__set__s.html#a67dee0986ec87026ca20dd3f77431d38'', [1,8,1,20]),
    (''unionxed__flag__set__s.html#a6d199860b7956324c5a4f5c6c71fd2ef'', [1,8,1,10]),
    (''unionxed__flag__set__s.html#a712498840cfac2cb767e9c8457edbf7b'', [1,8,1,9]),
    (''unionxed__flag__set__s.html#a72b663d5bccd430b4d688cc6429b088f'', [1,8,1,17]),
    (''unionxed__flag__set__s.html#a77423a46de3049dd586ad46614a83fcb'', [1,8,1,8]),
    (''unionxed__flag__set__s.html#a785e5f20a19d10fce1ec7549d3a2ee6a'', [1,8,1,19]),
    (''unionxed__flag__set__s.html#a851f879c9a85dcf2d8a1a131e4153c05'', [1,8,1,6]),
    (''unionxed__flag__set__s.html#a8a590ae27f639ed8d3d3e0cc8612debe'', [1,8,1,22]),
    (''unionxed__flag__set__s.html#a8d117fdc3b5690c315d83fead390ab08'', [1,8,1,18]),
    (''unionxed__flag__set__s.html#a94862c6f42f4070dcbf5e90863b11fec'', [1,8,1,26]),
    (''unionxed__flag__set__s.html#a96fcc2f1ad7f3b08c058b13b7c433fdb'', [1,8,1,28]),
    (''unionxed__flag__set__s.html#aa1d56c6e0e84da7e02053c50ed31dbab'', [1,8,1,14]),
    (''unionxed__flag__set__s.html#aac00c3bfcc52f47af14c161cfb4268e9'', [1,8,1,7]),
    (''unionxed__flag__set__s.html#ab4abcec0d4a5b52f337a38e40f15caac'', [1,8,1,2]),
    (''unionxed__flag__set__s.html#ac10d3332027d6bd9685c1165f994ca76'', [1,8,1,23]),
    (''unionxed__flag__set__s.html#ac60b72c28c13fe3e184f3c71d1f767ee'', [1,8,1,5]),
    (''unionxed__flag__set__s.html#ac6ab00c5d37abe6db8280ea2c6e2e6e2'', [1,8,1,21]),
    (''unionxed__flag__set__s.html#ac862456049fbaa8118a6747fc51ae6da'', [1,8,1,1]),
    (''unionxed__flag__set__s.html#ad0e986162be817612d6e228d0c239d9c'', [1,8,1,15]),
    (''unionxed__flag__set__s.html#ae4ce751f0785b6016219882fb21d9a6a'', [1,8,1,13]),
    (''unionxed__flag__set__s.html#af8d13777f6ab108bafae72363039ce3c'', [1,8,1,4]),
    (''unionxed__immdis__values__t.html'', [2,0,13]),
    (''unionxed__immdis__values__t.html#a1dd1c9243a65efbbbc33cd0a4b0732c1'', [2,0,13,1]),
    (''unionxed__immdis__values__t.html#a368fd87154c55abe8265024df846953b'', [2,0,13,0]),
    (''unionxed__union16__t.html'', [2,0,21]),
    (''unionxed__union16__t.html#a665df71aa139396f2c832d48f9fcc028'', [2,0,21,0]),
    (''unionxed__union16__t.html#a748564b5caace463f8b03b29e475f79b'', [2,0,21,2]),
    (''unionxed__union16__t.html#a9edcde8be991063b08eaf65f662bab03'', [2,0,21,4]),
    (''unionxed__union16__t.html#abd19c3fc4f5aaaaf5374b5c784949c57'', [2,0,21,3]),
    (''unionxed__union16__t.html#acb86d526e89cb518772978efe94d58c8'', [2,0,21,1]),
    (''unionxed__union16__t.html#ad4d80d062baebbab7db8d9fdd4d761d8'', [2,0,21,6]),
    (''unionxed__union16__t.html#aec079c6d7f871d47708564b23b1ff4b5'', [2,0,21,5]),
    (''unionxed__union32__t.html'', [2,0,22]),
    (''unionxed__union32__t.html#a17cb6e550d9a799ed4ad2feda6c234a5'', [2,0,22,6]),
    (''unionxed__union32__t.html#a26127ad406709be2c4cd69cdc2065e52'', [2,0,22,8]),
    (''unionxed__union32__t.html#a3eb919dcc67788f259fa65b445c3cd4c'', [2,0,22,5]),
    (''unionxed__union32__t.html#a41b45d67e413da52883fc0d6eab393ed'', [2,0,22,10]),
    (''unionxed__union32__t.html#a45c9140c07110940d145fe8895d7b967'', [2,0,22,13]),
    (''unionxed__union32__t.html#a748564b5caace463f8b03b29e475f79b'', [2,0,22,2]),
    (''unionxed__union32__t.html#a867bd110bec9ddac4e9e0bf273badd29'', [2,0,22,0]),
    (''unionxed__union32__t.html#a87b0780ee50a66aff08beb44d4884d37'', [2,0,22,9]),
    (''unionxed__union32__t.html#a936816140a5ea6d363add02237995a35'', [2,0,22,3]),
    (''unionxed__union32__t.html#ac3e5ac0cb9041190d349d854c5d83d48'', [2,0,22,4]),
    (''unionxed__union32__t.html#ac85d184c00bc048d4b951261acf96213'', [2,0,22,12]),
    (''unionxed__union32__t.html#acb86d526e89cb518772978efe94d58c8'', [2,0,22,1]),
    (''unionxed__union32__t.html#ad4fb3e29bcca9bde5ca505655fc1db61'', [2,0,22,7]),
    (''unionxed__union32__t.html#aef7e233f5b49a9e91891acf28e7c45bc'', [2,0,22,11]),
    (''unionxed__union64__t.html'', [2,0,23]),
    (''unionxed__union64__t.html#a051add75892a4457b58fcbc334410158'', [2,0,23,10]),
    (''unionxed__union64__t.html#a0ca2ece37c2a141300af11ffe6dd9357'', [2,0,23,5]),
    (''unionxed__union64__t.html#a0d81e3e7820e93fe8356a22c8e745046'', [2,0,23,14]),
    (''unionxed__union64__t.html#a3a13f512c139879899361247621b57af'', [2,0,23,0]),
    (''unionxed__union64__t.html#a3e14c09b37cc7f2ada4210fb6374b3d5'', [2,0,23,11]),
    (''unionxed__union64__t.html#a45aa10d78b97e7753e3a4cfecc38f8db'', [2,0,23,17]),
    (''unionxed__union64__t.html#a56b05ceeaf0a4899294c2bd89381452f'', [2,0,23,12]),
    (''unionxed__union64__t.html#a59238c4741d26fc832d52bae06402272'', [2,0,23,6]),
    (''unionxed__union64__t.html#a652f0fbf9432ba5125eebf86f0c3ce01'', [2,0,23,24]),
    (''unionxed__union64__t.html#a6af3f380a0ae50526ebda3bcb64acbea'', [2,0,23,15]),
    (''unionxed__union64__t.html#a748564b5caace463f8b03b29e475f79b'', [2,0,23,2]),
    (''unionxed__union64__t.html#a760537d841266354fcd9cc97b41cbeb1'', [2,0,23,18]),
    (''unionxed__union64__t.html#a801d12d547dd53a71b9ffe3b42ccdd5e'', [2,0,23,19]),
    (''unionxed__union64__t.html#a936816140a5ea6d363add02237995a35'', [2,0,23,3]),
    (''unionxed__union64__t.html#ab7de348b87fff28cf1e9faa4364d0b5a'', [2,0,23,13]),
    (''unionxed__union64__t.html#ac3e5ac0cb9041190d349d854c5d83d48'', [2,0,23,4]),
    (''unionxed__union64__t.html#ac593293a5634c05f9f6d632d471aa11a'', [2,0,23,7]),
    (''unionxed__union64__t.html#ac7826cf2704190096f03e88fdd7207dd'', [2,0,23,9]),
    (''unionxed__union64__t.html#ac85d184c00bc048d4b951261acf96213'', [2,0,23,21]),
    (''unionxed__union64__t.html#acb86d526e89cb518772978efe94d58c8'', [2,0,23,1]),
    (''unionxed__union64__t.html#ad2ea7ba6301ebd2585e964f5fc9f497c'', [2,0,23,22]),
    (''unionxed__union64__t.html#ad4e529c3ecaffaf9b0a596267c42680d'', [2,0,23,16]),
    (''unionxed__union64__t.html#adef5946c81032b371d5b0c5afa999e4f'', [2,0,23,23]),
    (''unionxed__union64__t.html#ae37baee0e845593d408a21f95fc2314f'', [2,0,23,8]),
    (''unionxed__union64__t.html#aef7e233f5b49a9e91891acf28e7c45bc'', [2,0,23,20]),
    (''xed-address-width-enum_8h.html'', [3,0,0]),
    (''xed-address-width-enum_8h.html#a2fe76cf1d3e62a77190798dc87c0a865'', [3,0,0,0]),
    (''xed-address-width-enum_8h.html#a2fe76cf1d3e62a77190798dc87c0a865a1d4c2a3aeffa1872b2f24730e4c83d02'', [3,0,0,0,2]),
    (''xed-address-width-enum_8h.html#a2fe76cf1d3e62a77190798dc87c0a865a4fe56a1242b850bdd9df31fc0ccf15ad'', [3,0,0,0,1]),
    (''xed-address-width-enum_8h.html#a2fe76cf1d3e62a77190798dc87c0a865a6ab14f7ce07e0a997bf8685c255c33d6'', [3,0,0,0,4]),
    (''xed-address-width-enum_8h.html#a2fe76cf1d3e62a77190798dc87c0a865af682b19c3b67968ad1e45ae794b34e12'', [3,0,0,0,3]),
    (''xed-address-width-enum_8h.html#a2fe76cf1d3e62a77190798dc87c0a865af77459182fc585c4267ec88755f5ea06'', [3,0,0,0,0]),
    (''xed-address-width-enum_8h_source.html'', [3,0,0]),
    (''xed-agen_8h.html'', [3,0,1]),
    (''xed-agen_8h_source.html'', [3,0,1]),
    (''xed-attribute-enum_8h.html'', [3,0,2]),
    (''xed-attribute-enum_8h.html#a848d4cf396be5a647413e94bc6f0a383'', [3,0,2,0]),
    (''xed-attribute-enum_8h.html#a848d4cf396be5a647413e94bc6f0a383a002ca3beb2bed4b3d89dd4dd9265097f'', [3,0,2,0,74]),
    (''xed-attribute-enum_8h.html#a848d4cf396be5a647413e94bc6f0a383a006a57277b0700b2a2e63cd93a9e5941'', [3,0,2,0,54]),
    (''xed-attribute-enum_8h.html#a848d4cf396be5a647413e94bc6f0a383a08f5b93f562ae785fa72f4072e03a732'', [3,0,2,0,48]),
    (''xed-attribute-enum_8h.html#a848d4cf396be5a647413e94bc6f0a383a093f7f3c3644e75a3194bb85d4df1004'', [3,0,2,0,79]),
    (''xed-attribute-enum_8h.html#a848d4cf396be5a647413e94bc6f0a383a0d51b35e1c295c4505e0bfaead0220df'', [3,0,2,0,71]),
    (''xed-attribute-enum_8h.html#a848d4cf396be5a647413e94bc6f0a383a0dcfe911279d50d0b65f221dcbafe93c'', [3,0,2,0,85]),
    (''xed-attribute-enum_8h.html#a848d4cf396be5a647413e94bc6f0a383a1155e7a1a8590875571386630335de4b'', [3,0,2,0,13]),
    (''xed-attribute-enum_8h.html#a848d4cf396be5a647413e94bc6f0a383a128128c71a841ef7358e160594c3d3e8'', [3,0,2,0,58]),
    (''xed-attribute-enum_8h.html#a848d4cf396be5a647413e94bc6f0a383a14c1a546e2f8b96f269105839de22f8e'', [3,0,2,0,2]),
    (''xed-attribute-enum_8h.html#a848d4cf396be5a647413e94bc6f0a383a19c930e8f6b1fb5ea4f749f4bf6e3fc2'', [3,0,2,0,21]),
    (''xed-attribute-enum_8h.html#a848d4cf396be5a647413e94bc6f0a383a22012459a281158645347bb3ab9d1558'', [3,0,2,0,84]),
    (''xed-attribute-enum_8h.html#a848d4cf396be5a647413e94bc6f0a383a242cdeb39cfd76fcbbfc881477d659b9'', [3,0,2,0,41]),
    (''xed-attribute-enum_8h.html#a848d4cf396be5a647413e94bc6f0a383a28c4a9c33a51657388eb02feca4de33a'', [3,0,2,0,66]),
    (''xed-attribute-enum_8h.html#a848d4cf396be5a647413e94bc6f0a383a291331d77d93c783e368abe946666ae1'', [3,0,2,0,32]),
    (''xed-attribute-enum_8h.html#a848d4cf396be5a647413e94bc6f0a383a2c32acd332e805a5725a15684ad138d8'', [3,0,2,0,23]),
    (''xed-attribute-enum_8h.html#a848d4cf396be5a647413e94bc6f0a383a2c32d2722c5cb13cc32b3e7375c0187d'', [3,0,2,0,14]),
    (''xed-attribute-enum_8h.html#a848d4cf396be5a647413e94bc6f0a383a2f4dbc3f0ea12b385dccb125095a77ef'', [3,0,2,0,5]),
    (''xed-attribute-enum_8h.html#a848d4cf396be5a647413e94bc6f0a383a310d9ebd299b025dedf6a12cf18c8748'', [3,0,2,0,76]),
    (''xed-attribute-enum_8h.html#a848d4cf396be5a647413e94bc6f0a383a3a26504f1ac1847b7f7d7066d4f49f80'', [3,0,2,0,75]),
    (''xed-attribute-enum_8h.html#a848d4cf396be5a647413e94bc6f0a383a3cb28ce437980a6ced785089779fb5d1'', [3,0,2,0,33]),
    (''xed-attribute-enum_8h.html#a848d4cf396be5a647413e94bc6f0a383a3d08a19924b26a41cde498b67bc5ee5c'', [3,0,2,0,34]),
    (''xed-attribute-enum_8h.html#a848d4cf396be5a647413e94bc6f0a383a44fabc5d0687858ed98818825ec8993f'', [3,0,2,0,26]),
    (''xed-attribute-enum_8h.html#a848d4cf396be5a647413e94bc6f0a383a4789613c8662284a88a7dab640ae3b9c'', [3,0,2,0,68]),
    (''xed-attribute-enum_8h.html#a848d4cf396be5a647413e94bc6f0a383a4d9f4fe0a906dff4a6d3e2e11e1ecac1'', [3,0,2,0,18]),
    (''xed-attribute-enum_8h.html#a848d4cf396be5a647413e94bc6f0a383a4ff8726953dfef7ac6d017cf6ab154a2'', [3,0,2,0,8])]"

definition navtreeindex5_2 :: "(string \<times> nat list) list" where
  "navtreeindex5_2 = [
    (''xed-attribute-enum_8h.html#a848d4cf396be5a647413e94bc6f0a383a5ae048ac31887e1974e978b0d34cb782'', [3,0,2,0,43]),
    (''xed-attribute-enum_8h.html#a848d4cf396be5a647413e94bc6f0a383a5d158a0adc02d0b5a8798e8c39d27ed5'', [3,0,2,0,20]),
    (''xed-attribute-enum_8h.html#a848d4cf396be5a647413e94bc6f0a383a63b493dbf8f12a3ceaad1c7effc6ca7e'', [3,0,2,0,15]),
    (''xed-attribute-enum_8h.html#a848d4cf396be5a647413e94bc6f0a383a681a2d97af9db930afad1059b5ea399a'', [3,0,2,0,6]),
    (''xed-attribute-enum_8h.html#a848d4cf396be5a647413e94bc6f0a383a6c10e5e2ef22dbcd39adb959d93b3c01'', [3,0,2,0,31]),
    (''xed-attribute-enum_8h.html#a848d4cf396be5a647413e94bc6f0a383a6ca62e6b335684b8d8f1e52bd1848267'', [3,0,2,0,60]),
    (''xed-attribute-enum_8h.html#a848d4cf396be5a647413e94bc6f0a383a6d3b77d42f82872b0d0ea3ae039754e1'', [3,0,2,0,27]),
    (''xed-attribute-enum_8h.html#a848d4cf396be5a647413e94bc6f0a383a6e419b0e5f002cd3ad0c63fc7b0cc5c6'', [3,0,2,0,9]),
    (''xed-attribute-enum_8h.html#a848d4cf396be5a647413e94bc6f0a383a7599cef87a987ada34f05a4b0965ea80'', [3,0,2,0,44]),
    (''xed-attribute-enum_8h.html#a848d4cf396be5a647413e94bc6f0a383a7831b7bc9f89b8c25b1dab1a56b8a371'', [3,0,2,0,77]),
    (''xed-attribute-enum_8h.html#a848d4cf396be5a647413e94bc6f0a383a7a467e86f446876577d378f4af665549'', [3,0,2,0,82]),
    (''xed-attribute-enum_8h.html#a848d4cf396be5a647413e94bc6f0a383a7b46d2a70c6b12b2a3556526ca592f05'', [3,0,2,0,7]),
    (''xed-attribute-enum_8h.html#a848d4cf396be5a647413e94bc6f0a383a7f41e2e9604118c4b0c0c36a5e5ff138'', [3,0,2,0,38]),
    (''xed-attribute-enum_8h.html#a848d4cf396be5a647413e94bc6f0a383a8180175a8fc78094246622c298061c42'', [3,0,2,0,52]),
    (''xed-attribute-enum_8h.html#a848d4cf396be5a647413e94bc6f0a383a88669721399a226e794542ba4bfe45ad'', [3,0,2,0,10]),
    (''xed-attribute-enum_8h.html#a848d4cf396be5a647413e94bc6f0a383a8bf42247c1e57ebd68168a617ae9e0dd'', [3,0,2,0,83]),
    (''xed-attribute-enum_8h.html#a848d4cf396be5a647413e94bc6f0a383a8da22246d5cd2b8d207eb2c3b741e113'', [3,0,2,0,1]),
    (''xed-attribute-enum_8h.html#a848d4cf396be5a647413e94bc6f0a383a8ea0a16ff54ad1c079963d1178c2f4bd'', [3,0,2,0,50]),
    (''xed-attribute-enum_8h.html#a848d4cf396be5a647413e94bc6f0a383a8f85648652c85eec70d8efbb50760794'', [3,0,2,0,29]),
    (''xed-attribute-enum_8h.html#a848d4cf396be5a647413e94bc6f0a383a91c27bd0930e7aafd5ba65dde2fca8fa'', [3,0,2,0,46]),
    (''xed-attribute-enum_8h.html#a848d4cf396be5a647413e94bc6f0a383a921b65c2a7109a64bc72f77548c3b3e9'', [3,0,2,0,11]),
    (''xed-attribute-enum_8h.html#a848d4cf396be5a647413e94bc6f0a383a938e0359670348622c6a9c8ecf083ef4'', [3,0,2,0,86]),
    (''xed-attribute-enum_8h.html#a848d4cf396be5a647413e94bc6f0a383a93a18e7291ebc583c920008a924fa969'', [3,0,2,0,17]),
    (''xed-attribute-enum_8h.html#a848d4cf396be5a647413e94bc6f0a383a93ed48abaa59427b2a0bfbb1c09c6a04'', [3,0,2,0,49]),
    (''xed-attribute-enum_8h.html#a848d4cf396be5a647413e94bc6f0a383a940081c3221431c8fa2492fa41004bfc'', [3,0,2,0,59]),
    (''xed-attribute-enum_8h.html#a848d4cf396be5a647413e94bc6f0a383a96bd1f14f71d7bad4a39dd4b64d73aa1'', [3,0,2,0,16]),
    (''xed-attribute-enum_8h.html#a848d4cf396be5a647413e94bc6f0a383a96c210dcac0a515a6159501c2089d758'', [3,0,2,0,37]),
    (''xed-attribute-enum_8h.html#a848d4cf396be5a647413e94bc6f0a383a988c6b53345ce4c80972c5f8375e47fa'', [3,0,2,0,39]),
    (''xed-attribute-enum_8h.html#a848d4cf396be5a647413e94bc6f0a383a9a0da45a34b4860114cb4ebdf31b60f7'', [3,0,2,0,42]),
    (''xed-attribute-enum_8h.html#a848d4cf396be5a647413e94bc6f0a383a9d62e0804b1c0a3e5bba75d9a7f125cb'', [3,0,2,0,70]),
    (''xed-attribute-enum_8h.html#a848d4cf396be5a647413e94bc6f0a383aa047364646346b2667f0611a55cf4f76'', [3,0,2,0,4]),
    (''xed-attribute-enum_8h.html#a848d4cf396be5a647413e94bc6f0a383aa0597a7aa93ee47c32ca2c94134ab0d3'', [3,0,2,0,56]),
    (''xed-attribute-enum_8h.html#a848d4cf396be5a647413e94bc6f0a383aa065103c43446459041e6cdf5c301e30'', [3,0,2,0,19]),
    (''xed-attribute-enum_8h.html#a848d4cf396be5a647413e94bc6f0a383aa9bb71f723256863327baffa9d40322e'', [3,0,2,0,63]),
    (''xed-attribute-enum_8h.html#a848d4cf396be5a647413e94bc6f0a383aad2b46bc6d06b112d40f36eb5a4703f1'', [3,0,2,0,73]),
    (''xed-attribute-enum_8h.html#a848d4cf396be5a647413e94bc6f0a383ab118caa217c79efd32f83f42adbd4369'', [3,0,2,0,24]),
    (''xed-attribute-enum_8h.html#a848d4cf396be5a647413e94bc6f0a383ab5d702a62f38d6ab32e02f4b4d74401e'', [3,0,2,0,72]),
    (''xed-attribute-enum_8h.html#a848d4cf396be5a647413e94bc6f0a383ab67ff570191b2960f11837ceccd3ce6c'', [3,0,2,0,0]),
    (''xed-attribute-enum_8h.html#a848d4cf396be5a647413e94bc6f0a383ab6b730dfa9bc88cb05087e3b9fb3c83d'', [3,0,2,0,45]),
    (''xed-attribute-enum_8h.html#a848d4cf396be5a647413e94bc6f0a383ab6e453a6e38ae1f30e36c369d3627fc6'', [3,0,2,0,3]),
    (''xed-attribute-enum_8h.html#a848d4cf396be5a647413e94bc6f0a383ab7c857b8d4f6f7501a6b44a95af6a8d8'', [3,0,2,0,40]),
    (''xed-attribute-enum_8h.html#a848d4cf396be5a647413e94bc6f0a383abaa5b28995282be6260ec8830bb31ab6'', [3,0,2,0,22]),
    (''xed-attribute-enum_8h.html#a848d4cf396be5a647413e94bc6f0a383abca8f3e88ecf469682373e49a375e366'', [3,0,2,0,62]),
    (''xed-attribute-enum_8h.html#a848d4cf396be5a647413e94bc6f0a383abcfcb62d156c16ec0fe44cbe5685ab56'', [3,0,2,0,25]),
    (''xed-attribute-enum_8h.html#a848d4cf396be5a647413e94bc6f0a383abf8518611c3d3f932908b81fe7ef07c7'', [3,0,2,0,53]),
    (''xed-attribute-enum_8h.html#a848d4cf396be5a647413e94bc6f0a383ac05a8912c03c356e06f92c44ab0e5507'', [3,0,2,0,69]),
    (''xed-attribute-enum_8h.html#a848d4cf396be5a647413e94bc6f0a383ac0e4bceb32b8a8f362723d7882c59fc1'', [3,0,2,0,61]),
    (''xed-attribute-enum_8h.html#a848d4cf396be5a647413e94bc6f0a383ac5df59117826565d78f667151748bf18'', [3,0,2,0,78]),
    (''xed-attribute-enum_8h.html#a848d4cf396be5a647413e94bc6f0a383ac9e0605fc42200b9be0f837c085b2ae1'', [3,0,2,0,67]),
    (''xed-attribute-enum_8h.html#a848d4cf396be5a647413e94bc6f0a383aca0e8efbeff6234d844f6be83aa5bbd5'', [3,0,2,0,81]),
    (''xed-attribute-enum_8h.html#a848d4cf396be5a647413e94bc6f0a383acbbc9625c471161b322dbcf8096762ff'', [3,0,2,0,55]),
    (''xed-attribute-enum_8h.html#a848d4cf396be5a647413e94bc6f0a383acc0de1b8c0b11e82275f06fbb905aafb'', [3,0,2,0,28]),
    (''xed-attribute-enum_8h.html#a848d4cf396be5a647413e94bc6f0a383ace11280204295daec8a0abf893803616'', [3,0,2,0,57]),
    (''xed-attribute-enum_8h.html#a848d4cf396be5a647413e94bc6f0a383ad9d7df427e883711d668788e709e423b'', [3,0,2,0,35]),
    (''xed-attribute-enum_8h.html#a848d4cf396be5a647413e94bc6f0a383adcd1de159d96e5e3d923fa34d838bce7'', [3,0,2,0,47]),
    (''xed-attribute-enum_8h.html#a848d4cf396be5a647413e94bc6f0a383ae3271f0fb666756bc49bd4ed775a5923'', [3,0,2,0,30]),
    (''xed-attribute-enum_8h.html#a848d4cf396be5a647413e94bc6f0a383ae350d7b473df0820faf1f881b7af558e'', [3,0,2,0,64]),
    (''xed-attribute-enum_8h.html#a848d4cf396be5a647413e94bc6f0a383ae7bc51797c812a0bbe4f0189f605e290'', [3,0,2,0,80]),
    (''xed-attribute-enum_8h.html#a848d4cf396be5a647413e94bc6f0a383ae7f5e88c625df3171b47da32eacf8350'', [3,0,2,0,65]),
    (''xed-attribute-enum_8h.html#a848d4cf396be5a647413e94bc6f0a383aef4c4fac1f9b841f7adf87be843d6b59'', [3,0,2,0,51]),
    (''xed-attribute-enum_8h.html#a848d4cf396be5a647413e94bc6f0a383af125b0115fac2d63b66de13365d9e8f3'', [3,0,2,0,12]),
    (''xed-attribute-enum_8h.html#a848d4cf396be5a647413e94bc6f0a383afd5b6bef99ab5e3b1bef4601a4bea9ae'', [3,0,2,0,36]),
    (''xed-attribute-enum_8h_source.html'', [3,0,2]),
    (''xed-attributes_8h.html'', [3,0,3]),
    (''xed-attributes_8h_source.html'', [3,0,3]),
    (''xed-build-defines_8h.html'', [3,0,4]),
    (''xed-build-defines_8h.html#a03f2bf411a0fc8184a3c5474ae86f3ec'', [3,0,4,2]),
    (''xed-build-defines_8h.html#a1371000eebf7e948d73de2afbd2b3cd4'', [3,0,4,3]),
    (''xed-build-defines_8h.html#a15be773b13b8f2512466af13cefa88c8'', [3,0,4,1]),
    (''xed-build-defines_8h.html#ad814bc316b47add9888ac9c9a52b660c'', [3,0,4,4]),
    (''xed-build-defines_8h.html#af5657cebfa3a6cc8af616ee02019e044'', [3,0,4,0]),
    (''xed-build-defines_8h_source.html'', [3,0,4]),
    (''xed-category-enum_8h.html'', [3,0,5]),
    (''xed-category-enum_8h.html#a3e6e23a35a7ad463e2422d7db98e49f5'', [3,0,5,0]),
    (''xed-category-enum_8h.html#a3e6e23a35a7ad463e2422d7db98e49f5a02a7414a78a862f8f6aa3528e9b65635'', [3,0,5,0,39]),
    (''xed-category-enum_8h.html#a3e6e23a35a7ad463e2422d7db98e49f5a0347f3e6c46b64361a429492f6ea37bf'', [3,0,5,0,44]),
    (''xed-category-enum_8h.html#a3e6e23a35a7ad463e2422d7db98e49f5a05331113355163706eb8f226b8da42c2'', [3,0,5,0,76]),
    (''xed-category-enum_8h.html#a3e6e23a35a7ad463e2422d7db98e49f5a06a95073b06d846866b8603a34bb6c94'', [3,0,5,0,53]),
    (''xed-category-enum_8h.html#a3e6e23a35a7ad463e2422d7db98e49f5a0715b1a8e57f8c767a4ea7b953aa3c35'', [3,0,5,0,72]),
    (''xed-category-enum_8h.html#a3e6e23a35a7ad463e2422d7db98e49f5a0a0f0a511ec4604f69d8d4d2b0b4bb57'', [3,0,5,0,69]),
    (''xed-category-enum_8h.html#a3e6e23a35a7ad463e2422d7db98e49f5a1057eb786a28ca86c2127d4797649110'', [3,0,5,0,55]),
    (''xed-category-enum_8h.html#a3e6e23a35a7ad463e2422d7db98e49f5a10ef32d46ce0e72076db99eabdf1e182'', [3,0,5,0,19]),
    (''xed-category-enum_8h.html#a3e6e23a35a7ad463e2422d7db98e49f5a121a2e054086057dca4ed3e86229bfdc'', [3,0,5,0,2]),
    (''xed-category-enum_8h.html#a3e6e23a35a7ad463e2422d7db98e49f5a12cc044916d45f4949d7cbdd8a37d6e0'', [3,0,5,0,35]),
    (''xed-category-enum_8h.html#a3e6e23a35a7ad463e2422d7db98e49f5a1521c5b817113515d366c87f90db2b0c'', [3,0,5,0,7]),
    (''xed-category-enum_8h.html#a3e6e23a35a7ad463e2422d7db98e49f5a1557a1d178fc7a9fcd9622bb4c95ad5d'', [3,0,5,0,17]),
    (''xed-category-enum_8h.html#a3e6e23a35a7ad463e2422d7db98e49f5a15d32522b8ae825c957c8babbd926acf'', [3,0,5,0,47]),
    (''xed-category-enum_8h.html#a3e6e23a35a7ad463e2422d7db98e49f5a1a6a73d3f927ded13e2310c10db1f71d'', [3,0,5,0,12]),
    (''xed-category-enum_8h.html#a3e6e23a35a7ad463e2422d7db98e49f5a1b35527e61d82286ac0903ab02b3069a'', [3,0,5,0,41]),
    (''xed-category-enum_8h.html#a3e6e23a35a7ad463e2422d7db98e49f5a1fdc18a57bea9404566abfbe270a5dca'', [3,0,5,0,57]),
    (''xed-category-enum_8h.html#a3e6e23a35a7ad463e2422d7db98e49f5a228c134851e1b3e068430eb9b93d9b27'', [3,0,5,0,25]),
    (''xed-category-enum_8h.html#a3e6e23a35a7ad463e2422d7db98e49f5a234aad4cc0a404d8c19c50f52babaf3f'', [3,0,5,0,36]),
    (''xed-category-enum_8h.html#a3e6e23a35a7ad463e2422d7db98e49f5a32af974d6f386840e0febfae732409bd'', [3,0,5,0,14]),
    (''xed-category-enum_8h.html#a3e6e23a35a7ad463e2422d7db98e49f5a32c6a4d623a7311ac74588b19a77478f'', [3,0,5,0,3]),
    (''xed-category-enum_8h.html#a3e6e23a35a7ad463e2422d7db98e49f5a32ea37a9e78763dbb3e597c5df7b304d'', [3,0,5,0,56]),
    (''xed-category-enum_8h.html#a3e6e23a35a7ad463e2422d7db98e49f5a34643bf5aea7896ba82f69d064d6979b'', [3,0,5,0,18]),
    (''xed-category-enum_8h.html#a3e6e23a35a7ad463e2422d7db98e49f5a39c1ece99ee8cd1961cf36dc1a099f97'', [3,0,5,0,58]),
    (''xed-category-enum_8h.html#a3e6e23a35a7ad463e2422d7db98e49f5a39e4f50213019e0500729c124a4ad54c'', [3,0,5,0,9]),
    (''xed-category-enum_8h.html#a3e6e23a35a7ad463e2422d7db98e49f5a3b52d77a2eb1120b840ab860f6767ea6'', [3,0,5,0,49]),
    (''xed-category-enum_8h.html#a3e6e23a35a7ad463e2422d7db98e49f5a3daf234ebb436b3036f5118f9ab4950a'', [3,0,5,0,42]),
    (''xed-category-enum_8h.html#a3e6e23a35a7ad463e2422d7db98e49f5a43b685645e51458742d7c11ad595d80f'', [3,0,5,0,71]),
    (''xed-category-enum_8h.html#a3e6e23a35a7ad463e2422d7db98e49f5a548a79191b9b30be5e90f7f368615612'', [3,0,5,0,48]),
    (''xed-category-enum_8h.html#a3e6e23a35a7ad463e2422d7db98e49f5a57bf9af3076e92642d65a68ebacb6ab3'', [3,0,5,0,46]),
    (''xed-category-enum_8h.html#a3e6e23a35a7ad463e2422d7db98e49f5a606cd85ef46bb1fbdf1b22643f4fed07'', [3,0,5,0,11]),
    (''xed-category-enum_8h.html#a3e6e23a35a7ad463e2422d7db98e49f5a612280c6ecce68537f077cf9e33cd0b1'', [3,0,5,0,21]),
    (''xed-category-enum_8h.html#a3e6e23a35a7ad463e2422d7db98e49f5a63b06a6e085364d0458aa9e3f975841d'', [3,0,5,0,32]),
    (''xed-category-enum_8h.html#a3e6e23a35a7ad463e2422d7db98e49f5a64439f33b413342775c49f2541cfa0bb'', [3,0,5,0,50]),
    (''xed-category-enum_8h.html#a3e6e23a35a7ad463e2422d7db98e49f5a6b2874a7fafee99fb25352462d8bfd13'', [3,0,5,0,66]),
    (''xed-category-enum_8h.html#a3e6e23a35a7ad463e2422d7db98e49f5a6ca830e3c9cd8f5524134eed546f1ce9'', [3,0,5,0,13]),
    (''xed-category-enum_8h.html#a3e6e23a35a7ad463e2422d7db98e49f5a6e85229bc13025f25a09d5fadd2ae277'', [3,0,5,0,30]),
    (''xed-category-enum_8h.html#a3e6e23a35a7ad463e2422d7db98e49f5a720290a120257c219ccc468578710572'', [3,0,5,0,34]),
    (''xed-category-enum_8h.html#a3e6e23a35a7ad463e2422d7db98e49f5a7445bc16a271292d464d84ba89951d6b'', [3,0,5,0,23]),
    (''xed-category-enum_8h.html#a3e6e23a35a7ad463e2422d7db98e49f5a749d105ef9739a26dbbe0fdf377fce21'', [3,0,5,0,0]),
    (''xed-category-enum_8h.html#a3e6e23a35a7ad463e2422d7db98e49f5a752fdbd4160fdbd1cb8b3502134554a4'', [3,0,5,0,45]),
    (''xed-category-enum_8h.html#a3e6e23a35a7ad463e2422d7db98e49f5a7602470ea5489adf15fe8ef7e4a2533f'', [3,0,5,0,70]),
    (''xed-category-enum_8h.html#a3e6e23a35a7ad463e2422d7db98e49f5a7911a58519df866a49815335c046f4ea'', [3,0,5,0,8]),
    (''xed-category-enum_8h.html#a3e6e23a35a7ad463e2422d7db98e49f5a7c3085a4bd7b9c51f142da1c65521e4d'', [3,0,5,0,26]),
    (''xed-category-enum_8h.html#a3e6e23a35a7ad463e2422d7db98e49f5a7fe6d69f22607c854a7d2e68bb05f75b'', [3,0,5,0,33]),
    (''xed-category-enum_8h.html#a3e6e23a35a7ad463e2422d7db98e49f5a83352105735795e1fc265b81744702df'', [3,0,5,0,75]),
    (''xed-category-enum_8h.html#a3e6e23a35a7ad463e2422d7db98e49f5a839a4ba1f104cc925eee9ac72bf26627'', [3,0,5,0,74]),
    (''xed-category-enum_8h.html#a3e6e23a35a7ad463e2422d7db98e49f5a87a0c8299bfb92de42d65d49fb6b3c41'', [3,0,5,0,4]),
    (''xed-category-enum_8h.html#a3e6e23a35a7ad463e2422d7db98e49f5a883ee8a305a6d5ca6447c29290827ba7'', [3,0,5,0,20]),
    (''xed-category-enum_8h.html#a3e6e23a35a7ad463e2422d7db98e49f5a94e63ce39664f52881c36af33e354e29'', [3,0,5,0,6]),
    (''xed-category-enum_8h.html#a3e6e23a35a7ad463e2422d7db98e49f5a96e9d4b2782a1ac1ef5da5c75051bdc2'', [3,0,5,0,28])]"

definition NAVTREEINDEX5 :: "(string \<times> nat list) list" where
  "NAVTREEINDEX5 = navtreeindex5_1 @ navtreeindex5_2"

lemma navtreeindex5_1_ok: "list_all (entry_ok (script_table rest)) navtreeindex5_1"
  unfolding navtreeindex5_1_def
  by (simp add: path_rules arrives_source cong: path_cong pick_cong some_cong arrives_cong list_all_blocked)
    (simp add: source_page_def)?

lemma navtreeindex5_2_ok: "list_all (entry_ok (script_table rest)) navtreeindex5_2"
  unfolding navtreeindex5_2_def
  by (simp add: path_rules arrives_source cong: path_cong pick_cong some_cong arrives_cong list_all_blocked)
    (simp add: source_page_def)?


end
