(* ===== verification/Nav_Index_51.thy ===== *)
theory Nav_Index_51
  imports Nav_Scripts
begin

text \<open>
  navtreeindex51.js: the urls of one index file of the navigation tree, each with the path of
  its node, and the check that the path leads to it.
\<close>

definition navtreeindex51_1 :: "(string \<times> nat list) list" where
  "navtreeindex51_1 = [
    (''xed-operand-action_8h.html#a0978e9802aa6911d7c0e5c0b35cbe580'', [3,0,44,4]),
    (''xed-operand-action_8h.html#a09910458f9c0c5ec1417ff337907daa7'', [3,0,44,2]),
    (''xed-operand-action_8h.html#a0d4402eae9261688a0c4f0132e3fd46f'', [3,0,44,5]),
    (''xed-operand-action_8h.html#aa0b6ad50c1b23f9f3df4a0a3663d5bcf'', [3,0,44,0]),
    (''xed-operand-action_8h.html#ac8be8cae934c23aba473333c6a2d1717'', [3,0,44,3]),
    (''xed-operand-action_8h.html#ae3af4cc87dd1ceaf1c4d7e6dad931d11'', [3,0,44,6]),
    (''xed-operand-action_8h.html#afb95ec4719fcb9ebec1f6828f2f4fb07'', [3,0,44,1]),
    (''xed-operand-action_8h_source.html'', [3,0,44]),
    (''xed-operand-convert-enum_8h.html'', [3,0,45]),
    (''xed-operand-convert-enum_8h.html#a08b83dd2a6ef2188efb833bd5b0d7d9f'', [3,0,45,0]),
    (''xed-operand-convert-enum_8h.html#a08b83dd2a6ef2188efb833bd5b0d7d9fa31bba6c5dafa9661913a2917446516d5'', [3,0,45,0,5]),
    (''xed-operand-convert-enum_8h.html#a08b83dd2a6ef2188efb833bd5b0d7d9fa64dd1cbbeb25b835fd07ba47c9e886bf'', [3,0,45,0,3]),
    (''xed-operand-convert-enum_8h.html#a08b83dd2a6ef2188efb833bd5b0d7d9fa6961f4382c00f8bccf61a585590236d6'', [3,0,45,0,2]),
    (''xed-operand-convert-enum_8h.html#a08b83dd2a6ef2188efb833bd5b0d7d9fa6fee5c9cf1e211b7b38bece450b5c4e1'', [3,0,45,0,1]),
    (''xed-operand-convert-enum_8h.html#a08b83dd2a6ef2188efb833bd5b0d7d9fa7fc74f85c4a60317ea0466b75d5bd3cf'', [3,0,45,0,4]),
    (''xed-operand-convert-enum_8h.html#a08b83dd2a6ef2188efb833bd5b0d7d9fabc6b02a62eceb93fd19b9ae4d9447d5f'', [3,0,45,0,0]),
    (''xed-operand-convert-enum_8h_source.html'', [3,0,45]),
    (''xed-operand-ctype-enum_8h.html'', [3,0,46]),
    (''xed-operand-ctype-enum_8h.html#a0b2cec39e2812706b0bf62b761543318'', [3,0,46,0]),
    (''xed-operand-ctype-enum_8h.html#a0b2cec39e2812706b0bf62b761543318a009be7f7ceafb9273c7f023ed3ed8f4a'', [3,0,46,0,6]),
    (''xed-operand-ctype-enum_8h.html#a0b2cec39e2812706b0bf62b761543318a15964bc1410aaccce9a885a81f34cb63'', [3,0,46,0,1]),
    (''xed-operand-ctype-enum_8h.html#a0b2cec39e2812706b0bf62b761543318a1e55131996d3b257266e864689ca10ea'', [3,0,46,0,2]),
    (''xed-operand-ctype-enum_8h.html#a0b2cec39e2812706b0bf62b761543318a2d43fa247b35a16f70754247614495a2'', [3,0,46,0,3]),
    (''xed-operand-ctype-enum_8h.html#a0b2cec39e2812706b0bf62b761543318a5ae882b0d128f3db586bcd8f6a35fe53'', [3,0,46,0,9]),
    (''xed-operand-ctype-enum_8h.html#a0b2cec39e2812706b0bf62b761543318a666ee8acb82fffc34c697eb88044a36a'', [3,0,46,0,4]),
    (''xed-operand-ctype-enum_8h.html#a0b2cec39e2812706b0bf62b761543318a7d5ed1d605c20419ae2cbb79be843c6b'', [3,0,46,0,5]),
    (''xed-operand-ctype-enum_8h.html#a0b2cec39e2812706b0bf62b761543318a8ebeb4ab65dfa87dc75c527d5bc61362'', [3,0,46,0,11]),
    (''xed-operand-ctype-enum_8h.html#a0b2cec39e2812706b0bf62b761543318a99fd9bb8fdee0852538c1d9686cdae77'', [3,0,46,0,0]),
    (''xed-operand-ctype-enum_8h.html#a0b2cec39e2812706b0bf62b761543318a9a255d3f647ece1d03c1490937310594'', [3,0,46,0,10]),
    (''xed-operand-ctype-enum_8h.html#a0b2cec39e2812706b0bf62b761543318aa811bb27288bbe23144a687c9c7d9a3e'', [3,0,46,0,8]),
    (''xed-operand-ctype-enum_8h.html#a0b2cec39e2812706b0bf62b761543318aff84e7f86488a4287b5d32d5b22810cd'', [3,0,46,0,7]),
    (''xed-operand-ctype-enum_8h_source.html'', [3,0,46]),
    (''xed-operand-ctype-map_8h.html'', [3,0,47]),
    (''xed-operand-ctype-map_8h.html#a1caa2ab3867b0914778b62c5c6e316d4'', [3,0,47,1]),
    (''xed-operand-ctype-map_8h.html#a959a6b5e5b21106fb8c83a7a12b1a6f3'', [3,0,47,0]),
    (''xed-operand-ctype-map_8h_source.html'', [3,0,47]),
    (''xed-operand-element-type-enum_8h.html'', [3,0,48]),
    (''xed-operand-element-type-enum_8h.html#a6942f19fe2b1943a9a98d6598ff2c9d5'', [3,0,48,0]),
    (''xed-operand-element-type-enum_8h.html#a6942f19fe2b1943a9a98d6598ff2c9d5a4864a4fbc7cca19aea2f4e2ee58b72dc'', [3,0,48,0,1]),
    (''xed-operand-element-type-enum_8h.html#a6942f19fe2b1943a9a98d6598ff2c9d5a6bed91176c16d4f491d174ba862ea372'', [3,0,48,0,6]),
    (''xed-operand-element-type-enum_8h.html#a6942f19fe2b1943a9a98d6598ff2c9d5a85616d2c4c05637b1eb07098f2718d32'', [3,0,48,0,7]),
    (''xed-operand-element-type-enum_8h.html#a6942f19fe2b1943a9a98d6598ff2c9d5a89a5af30bc797e0b91c3cf4918261eba'', [3,0,48,0,0]),
    (''xed-operand-element-type-enum_8h.html#a6942f19fe2b1943a9a98d6598ff2c9d5a9a40866c6b0af66f614f062d086300ac'', [3,0,48,0,5]),
    (''xed-operand-element-type-enum_8h.html#a6942f19fe2b1943a9a98d6598ff2c9d5ab3bc495f68cc90047149c7f3c5a487b5'', [3,0,48,0,2]),
    (''xed-operand-element-type-enum_8h.html#a6942f19fe2b1943a9a98d6598ff2c9d5ac24e84cff266116a4eff3162f1116e2e'', [3,0,48,0,4]),
    (''xed-operand-element-type-enum_8h.html#a6942f19fe2b1943a9a98d6598ff2c9d5ad54ac5f4faa48b32f7e5d4ba0879c803'', [3,0,48,0,10]),
    (''xed-operand-element-type-enum_8h.html#a6942f19fe2b1943a9a98d6598ff2c9d5ae91732a43e1ab1830b63bcb01c3ce6d1'', [3,0,48,0,8]),
    (''xed-operand-element-type-enum_8h.html#a6942f19fe2b1943a9a98d6598ff2c9d5afd733c0b1867e6a2c9661cf12e9601f8'', [3,0,48,0,3]),
    (''xed-operand-element-type-enum_8h.html#a6942f19fe2b1943a9a98d6598ff2c9d5afff623b411920b0dd8d53fe5439901b0'', [3,0,48,0,9]),
    (''xed-operand-element-type-enum_8h_source.html'', [3,0,48]),
    (''xed-operand-element-xtype-enum_8h.html'', [3,0,49]),
    (''xed-operand-element-xtype-enum_8h.html#a2df598e1a20ef98a15d7b1f8f844c413'', [3,0,49,0]),
    (''xed-operand-element-xtype-enum_8h.html#a2df598e1a20ef98a15d7b1f8f844c413a1213650312297b43928e050dfb265886'', [3,0,49,0,12]),
    (''xed-operand-element-xtype-enum_8h.html#a2df598e1a20ef98a15d7b1f8f844c413a196573f888c81c5bbe14adb8da531f65'', [3,0,49,0,14]),
    (''xed-operand-element-xtype-enum_8h.html#a2df598e1a20ef98a15d7b1f8f844c413a1c38bed5bcf9ddc0b0b38dc8689ef41c'', [3,0,49,0,13]),
    (''xed-operand-element-xtype-enum_8h.html#a2df598e1a20ef98a15d7b1f8f844c413a305a9ea51d86793893b4447ca08c869d'', [3,0,49,0,9]),
    (''xed-operand-element-xtype-enum_8h.html#a2df598e1a20ef98a15d7b1f8f844c413a3dc280bc527efbd15d4235f466ebf889'', [3,0,49,0,6]),
    (''xed-operand-element-xtype-enum_8h.html#a2df598e1a20ef98a15d7b1f8f844c413a3e43c0a0f0cf3221a93b70911d19c9d5'', [3,0,49,0,7]),
    (''xed-operand-element-xtype-enum_8h.html#a2df598e1a20ef98a15d7b1f8f844c413a44f5564406c2314d731d209c9cf37418'', [3,0,49,0,20]),
    (''xed-operand-element-xtype-enum_8h.html#a2df598e1a20ef98a15d7b1f8f844c413a466d64664df90d2eb5a7a29d535f4abe'', [3,0,49,0,1]),
    (''xed-operand-element-xtype-enum_8h.html#a2df598e1a20ef98a15d7b1f8f844c413a46fab1cca84fcf362af8b79b2b0f2198'', [3,0,49,0,2]),
    (''xed-operand-element-xtype-enum_8h.html#a2df598e1a20ef98a15d7b1f8f844c413a49607544525ae37e9bba8b2013569a64'', [3,0,49,0,5]),
    (''xed-operand-element-xtype-enum_8h.html#a2df598e1a20ef98a15d7b1f8f844c413a4f1dc0cbc08270bf9b600bae99ea4c31'', [3,0,49,0,16]),
    (''xed-operand-element-xtype-enum_8h.html#a2df598e1a20ef98a15d7b1f8f844c413a50e38169ae7cc86f8a5c33c7eead5ded'', [3,0,49,0,3]),
    (''xed-operand-element-xtype-enum_8h.html#a2df598e1a20ef98a15d7b1f8f844c413a54de5a192f38f7b0064348532d615851'', [3,0,49,0,21]),
    (''xed-operand-element-xtype-enum_8h.html#a2df598e1a20ef98a15d7b1f8f844c413a5bd0515c7635de61df2f885c1e938d37'', [3,0,49,0,17]),
    (''xed-operand-element-xtype-enum_8h.html#a2df598e1a20ef98a15d7b1f8f844c413a9e156b50f4333b5795bd01e22dbdf04d'', [3,0,49,0,19]),
    (''xed-operand-element-xtype-enum_8h.html#a2df598e1a20ef98a15d7b1f8f844c413aa6716d05dbc35d0e384739bf1a7e09b0'', [3,0,49,0,0]),
    (''xed-operand-element-xtype-enum_8h.html#a2df598e1a20ef98a15d7b1f8f844c413abb8a3a3568cfca2b2d956999db518d5a'', [3,0,49,0,18]),
    (''xed-operand-element-xtype-enum_8h.html#a2df598e1a20ef98a15d7b1f8f844c413abe669593fe0374477b930bfb71287856'', [3,0,49,0,15]),
    (''xed-operand-element-xtype-enum_8h.html#a2df598e1a20ef98a15d7b1f8f844c413ac8a0eda33ad0b22a7f0f5297125e45c0'', [3,0,49,0,10]),
    (''xed-operand-element-xtype-enum_8h.html#a2df598e1a20ef98a15d7b1f8f844c413ada1862a7dc0ccd4b2544826cb2d5862b'', [3,0,49,0,11]),
    (''xed-operand-element-xtype-enum_8h.html#a2df598e1a20ef98a15d7b1f8f844c413af85243fa9edb3a2c364f48490fb198fe'', [3,0,49,0,4]),
    (''xed-operand-element-xtype-enum_8h.html#a2df598e1a20ef98a15d7b1f8f844c413afe933698106d394ebc1dce4c9852121f'', [3,0,49,0,8]),
    (''xed-operand-element-xtype-enum_8h_source.html'', [3,0,49]),
    (''xed-operand-enum_8h.html'', [3,0,50]),
    (''xed-operand-enum_8h.html#a09c2a35d8bb7bfe68bb3d34b0a5e011a'', [3,0,50,0]),
    (''xed-operand-enum_8h.html#a09c2a35d8bb7bfe68bb3d34b0a5e011aa0019a16a323d48cab2b19e9567b87f8f'', [3,0,50,0,108]),
    (''xed-operand-enum_8h.html#a09c2a35d8bb7bfe68bb3d34b0a5e011aa003fa8b52c41e380bae9a280a17d63af'', [3,0,50,0,30]),
    (''xed-operand-enum_8h.html#a09c2a35d8bb7bfe68bb3d34b0a5e011aa00607a7042a1f10dbbf2fb64edade81b'', [3,0,50,0,124]),
    (''xed-operand-enum_8h.html#a09c2a35d8bb7bfe68bb3d34b0a5e011aa0206d64c39da9ff9025f643aa415ed1c'', [3,0,50,0,39]),
    (''xed-operand-enum_8h.html#a09c2a35d8bb7bfe68bb3d34b0a5e011aa06cc5ce1edebd9491d71a689df27af2c'', [3,0,50,0,64]),
    (''xed-operand-enum_8h.html#a09c2a35d8bb7bfe68bb3d34b0a5e011aa09a4deadbcb18f4194e684327f476595'', [3,0,50,0,51]),
    (''xed-operand-enum_8h.html#a09c2a35d8bb7bfe68bb3d34b0a5e011aa0d3717a7ccf09fad59044b9713790d0d'', [3,0,50,0,17]),
    (''xed-operand-enum_8h.html#a09c2a35d8bb7bfe68bb3d34b0a5e011aa0de7273ccc4fc501e84540ffb6315f22'', [3,0,50,0,2]),
    (''xed-operand-enum_8h.html#a09c2a35d8bb7bfe68bb3d34b0a5e011aa0ea28e8235ea7774b846aaef8879e822'', [3,0,50,0,33]),
    (''xed-operand-enum_8h.html#a09c2a35d8bb7bfe68bb3d34b0a5e011aa10e38da9cad99e4543a9c64bb2bd90dc'', [3,0,50,0,34]),
    (''xed-operand-enum_8h.html#a09c2a35d8bb7bfe68bb3d34b0a5e011aa11600341aa2d907fd50dbb8a7d733cc5'', [3,0,50,0,18]),
    (''xed-operand-enum_8h.html#a09c2a35d8bb7bfe68bb3d34b0a5e011aa1252cc84614bf9018d5156b860b452cc'', [3,0,50,0,107]),
    (''xed-operand-enum_8h.html#a09c2a35d8bb7bfe68bb3d34b0a5e011aa125ab494e5cb4ff672e2215c726de3fb'', [3,0,50,0,120]),
    (''xed-operand-enum_8h.html#a09c2a35d8bb7bfe68bb3d34b0a5e011aa135b97e20001208206967687fa869f71'', [3,0,50,0,101]),
    (''xed-operand-enum_8h.html#a09c2a35d8bb7bfe68bb3d34b0a5e011aa136ddb09fff36fd7d9d6f3a47188f6d4'', [3,0,50,0,78]),
    (''xed-operand-enum_8h.html#a09c2a35d8bb7bfe68bb3d34b0a5e011aa1402e14b1aea98289dd048869a395d19'', [3,0,50,0,125]),
    (''xed-operand-enum_8h.html#a09c2a35d8bb7bfe68bb3d34b0a5e011aa1611b3556e48bf7fcb7aa0476f06133a'', [3,0,50,0,75]),
    (''xed-operand-enum_8h.html#a09c2a35d8bb7bfe68bb3d34b0a5e011aa17757f8f75fb149d6a9ceff628403994'', [3,0,50,0,47]),
    (''xed-operand-enum_8h.html#a09c2a35d8bb7bfe68bb3d34b0a5e011aa1809b9cef4fbedb50bf5300c5daa0313'', [3,0,50,0,61]),
    (''xed-operand-enum_8h.html#a09c2a35d8bb7bfe68bb3d34b0a5e011aa1a05b24c21632b39af541cb83c3cd553'', [3,0,50,0,6]),
    (''xed-operand-enum_8h.html#a09c2a35d8bb7bfe68bb3d34b0a5e011aa1bea146fe5845f175ea67fdc3bc403f7'', [3,0,50,0,118]),
    (''xed-operand-enum_8h.html#a09c2a35d8bb7bfe68bb3d34b0a5e011aa1d95dc8dba83ea6e5090978173cf5da6'', [3,0,50,0,99]),
    (''xed-operand-enum_8h.html#a09c2a35d8bb7bfe68bb3d34b0a5e011aa22e7a47c2da1762300ee50dfec8bbe86'', [3,0,50,0,72]),
    (''xed-operand-enum_8h.html#a09c2a35d8bb7bfe68bb3d34b0a5e011aa241d8ddb2a06d1b612a213d454b9b0c3'', [3,0,50,0,4]),
    (''xed-operand-enum_8h.html#a09c2a35d8bb7bfe68bb3d34b0a5e011aa256114fb1f83a604d1145743d390d3a9'', [3,0,50,0,96]),
    (''xed-operand-enum_8h.html#a09c2a35d8bb7bfe68bb3d34b0a5e011aa26e336646645acbd8292f1383f86b51b'', [3,0,50,0,56]),
    (''xed-operand-enum_8h.html#a09c2a35d8bb7bfe68bb3d34b0a5e011aa29c4366da567a0e4aeefc3cb8c66f7bd'', [3,0,50,0,12]),
    (''xed-operand-enum_8h.html#a09c2a35d8bb7bfe68bb3d34b0a5e011aa29d33c4e2f07c35b12d97337fbad1a51'', [3,0,50,0,74]),
    (''xed-operand-enum_8h.html#a09c2a35d8bb7bfe68bb3d34b0a5e011aa2bd84016a0ac7a0e9277833a2f4bd41a'', [3,0,50,0,16]),
    (''xed-operand-enum_8h.html#a09c2a35d8bb7bfe68bb3d34b0a5e011aa2c3c0c5a73438245c6d52fc0f1e4ea1d'', [3,0,50,0,104]),
    (''xed-operand-enum_8h.html#a09c2a35d8bb7bfe68bb3d34b0a5e011aa309588e0c864333a2ae15f75e386afb5'', [3,0,50,0,69]),
    (''xed-operand-enum_8h.html#a09c2a35d8bb7bfe68bb3d34b0a5e011aa35f58dd9ec87e149883a363df4c41219'', [3,0,50,0,32]),
    (''xed-operand-enum_8h.html#a09c2a35d8bb7bfe68bb3d34b0a5e011aa37cf9fb0324a544013770d348101be13'', [3,0,50,0,121]),
    (''xed-operand-enum_8h.html#a09c2a35d8bb7bfe68bb3d34b0a5e011aa3823ca62ab7e5b22283346650e968304'', [3,0,50,0,100]),
    (''xed-operand-enum_8h.html#a09c2a35d8bb7bfe68bb3d34b0a5e011aa3ce839ecfbe4f991f6c46b7cb767a703'', [3,0,50,0,1]),
    (''xed-operand-enum_8h.html#a09c2a35d8bb7bfe68bb3d34b0a5e011aa403aa71f824d13e99bf40f7d44aa22a0'', [3,0,50,0,36]),
    (''xed-operand-enum_8h.html#a09c2a35d8bb7bfe68bb3d34b0a5e011aa40cfcb19cb70fa466b03e9c4d8469050'', [3,0,50,0,26]),
    (''xed-operand-enum_8h.html#a09c2a35d8bb7bfe68bb3d34b0a5e011aa41eccb1a0eed942d3c1ce94d4932e6a7'', [3,0,50,0,85]),
    (''xed-operand-enum_8h.html#a09c2a35d8bb7bfe68bb3d34b0a5e011aa430bb1a44aee2bc89e1601afd09d99a9'', [3,0,50,0,122]),
    (''xed-operand-enum_8h.html#a09c2a35d8bb7bfe68bb3d34b0a5e011aa45d8ba4736d7a6bdd2f92c4e1f616125'', [3,0,50,0,40]),
    (''xed-operand-enum_8h.html#a09c2a35d8bb7bfe68bb3d34b0a5e011aa46fd183fc795f858498f2ab6ef45004a'', [3,0,50,0,19]),
    (''xed-operand-enum_8h.html#a09c2a35d8bb7bfe68bb3d34b0a5e011aa48a28b1a42b42d6317bf4fc2a48d2303'', [3,0,50,0,13]),
    (''xed-operand-enum_8h.html#a09c2a35d8bb7bfe68bb3d34b0a5e011aa4a8a5c45ea6041f25d7b98e3892bb389'', [3,0,50,0,81]),
    (''xed-operand-enum_8h.html#a09c2a35d8bb7bfe68bb3d34b0a5e011aa4be9f6dd518d467ad3aff8bb4005f239'', [3,0,50,0,45]),
    (''xed-operand-enum_8h.html#a09c2a35d8bb7bfe68bb3d34b0a5e011aa4c82c0faab211eba3fbee5932df0d5e2'', [3,0,50,0,44]),
    (''xed-operand-enum_8h.html#a09c2a35d8bb7bfe68bb3d34b0a5e011aa51ea68b2b2912502de1d2c4598bda472'', [3,0,50,0,116]),
    (''xed-operand-enum_8h.html#a09c2a35d8bb7bfe68bb3d34b0a5e011aa5276ed715de910f416b8c389732e879f'', [3,0,50,0,105]),
    (''xed-operand-enum_8h.html#a09c2a35d8bb7bfe68bb3d34b0a5e011aa537b5b279f260a83c4a15baefaca29e5'', [3,0,50,0,94]),
    (''xed-operand-enum_8h.html#a09c2a35d8bb7bfe68bb3d34b0a5e011aa55007779d09f44d6529afb0a360b9ed5'', [3,0,50,0,25])]"

definition navtreeindex51_2 :: "(string \<times> nat list) list" where
  "navtreeindex51_2 = [
    (''xed-operand-enum_8h.html#a09c2a35d8bb7bfe68bb3d34b0a5e011aa55c7014490c4ad2f151ed375afff0863'', [3,0,50,0,111]),
    (''xed-operand-enum_8h.html#a09c2a35d8bb7bfe68bb3d34b0a5e011aa576efe10d8388f7da4f83fb2b67f8d00'', [3,0,50,0,92]),
    (''xed-operand-enum_8h.html#a09c2a35d8bb7bfe68bb3d34b0a5e011aa5a03e2a2b5ff9fd31d4ff7ba2ee255f2'', [3,0,50,0,38]),
    (''xed-operand-enum_8h.html#a09c2a35d8bb7bfe68bb3d34b0a5e011aa5ab8fa4c883752fd3907277592eb19ab'', [3,0,50,0,106]),
    (''xed-operand-enum_8h.html#a09c2a35d8bb7bfe68bb3d34b0a5e011aa645b6f5ea575cfd5c0266c58c37514c9'', [3,0,50,0,73]),
    (''xed-operand-enum_8h.html#a09c2a35d8bb7bfe68bb3d34b0a5e011aa6558448a12b7ce8bf00d73cf3e45dafd'', [3,0,50,0,128]),
    (''xed-operand-enum_8h.html#a09c2a35d8bb7bfe68bb3d34b0a5e011aa66e2a773751d32adc308d7503e25929e'', [3,0,50,0,66]),
    (''xed-operand-enum_8h.html#a09c2a35d8bb7bfe68bb3d34b0a5e011aa6746b8ca3ef3b0bfa8c238e39170a451'', [3,0,50,0,24]),
    (''xed-operand-enum_8h.html#a09c2a35d8bb7bfe68bb3d34b0a5e011aa679d6839b4173fc63b04364761a6d398'', [3,0,50,0,23]),
    (''xed-operand-enum_8h.html#a09c2a35d8bb7bfe68bb3d34b0a5e011aa6dc3027b3acc7fb704d556b68918052a'', [3,0,50,0,91]),
    (''xed-operand-enum_8h.html#a09c2a35d8bb7bfe68bb3d34b0a5e011aa6f36302cd147e020b2662b75fa314c17'', [3,0,50,0,90]),
    (''xed-operand-enum_8h.html#a09c2a35d8bb7bfe68bb3d34b0a5e011aa71c5958d448ed491b86dda45b567ef24'', [3,0,50,0,95]),
    (''xed-operand-enum_8h.html#a09c2a35d8bb7bfe68bb3d34b0a5e011aa78ad247570e1af30539e90887a15d906'', [3,0,50,0,76]),
    (''xed-operand-enum_8h.html#a09c2a35d8bb7bfe68bb3d34b0a5e011aa78f4191d762d0abdeb935f5e8ad0d328'', [3,0,50,0,60]),
    (''xed-operand-enum_8h.html#a09c2a35d8bb7bfe68bb3d34b0a5e011aa79145b7008dde1b56afbb5cec1aa53d8'', [3,0,50,0,109]),
    (''xed-operand-enum_8h.html#a09c2a35d8bb7bfe68bb3d34b0a5e011aa7950980cf1f3e6fa003aff39c8c292f2'', [3,0,50,0,29]),
    (''xed-operand-enum_8h.html#a09c2a35d8bb7bfe68bb3d34b0a5e011aa7cfee5454147cd3ea586172facd26f30'', [3,0,50,0,35]),
    (''xed-operand-enum_8h.html#a09c2a35d8bb7bfe68bb3d34b0a5e011aa7dc42669b06c5ae7075935a81b226a02'', [3,0,50,0,20]),
    (''xed-operand-enum_8h.html#a09c2a35d8bb7bfe68bb3d34b0a5e011aa7deb7d4548980dee2208d9d5fde56fb6'', [3,0,50,0,86]),
    (''xed-operand-enum_8h.html#a09c2a35d8bb7bfe68bb3d34b0a5e011aa7eeeaf2a5d4ea78589ca4a38f31f1406'', [3,0,50,0,8]),
    (''xed-operand-enum_8h.html#a09c2a35d8bb7bfe68bb3d34b0a5e011aa7f179dcdf62cb9265e16aa94f5264cdc'', [3,0,50,0,67]),
    (''xed-operand-enum_8h.html#a09c2a35d8bb7bfe68bb3d34b0a5e011aa80e43db0f0d2b87413d94a9507af485a'', [3,0,50,0,49]),
    (''xed-operand-enum_8h.html#a09c2a35d8bb7bfe68bb3d34b0a5e011aa81a296e6c4d794b35a0ebdb26febaea9'', [3,0,50,0,14]),
    (''xed-operand-enum_8h.html#a09c2a35d8bb7bfe68bb3d34b0a5e011aa8519235dc5d90fb627691b1a125ec324'', [3,0,50,0,27]),
    (''xed-operand-enum_8h.html#a09c2a35d8bb7bfe68bb3d34b0a5e011aa8b551ec9c2f5e446a83f612e1fa201b9'', [3,0,50,0,59]),
    (''xed-operand-enum_8h.html#a09c2a35d8bb7bfe68bb3d34b0a5e011aa90fd738dacca4e940fae8a837bfe3212'', [3,0,50,0,79]),
    (''xed-operand-enum_8h.html#a09c2a35d8bb7bfe68bb3d34b0a5e011aa93baad65e0e521658de3bdeac00ca7ce'', [3,0,50,0,80]),
    (''xed-operand-enum_8h.html#a09c2a35d8bb7bfe68bb3d34b0a5e011aa9bee3ea59d9ad25c6847fc1be78fa4e5'', [3,0,50,0,57]),
    (''xed-operand-enum_8h.html#a09c2a35d8bb7bfe68bb3d34b0a5e011aa9d1d68cd9ac461a8209cc709677c4985'', [3,0,50,0,70]),
    (''xed-operand-enum_8h.html#a09c2a35d8bb7bfe68bb3d34b0a5e011aaa0b0dd782ce2f2547a7fa1b50db56068'', [3,0,50,0,54]),
    (''xed-operand-enum_8h.html#a09c2a35d8bb7bfe68bb3d34b0a5e011aaa2569dae603f93ead17bd5b7b6608156'', [3,0,50,0,58]),
    (''xed-operand-enum_8h.html#a09c2a35d8bb7bfe68bb3d34b0a5e011aaa42d2f9c0c320266158b5126ca8608d3'', [3,0,50,0,117]),
    (''xed-operand-enum_8h.html#a09c2a35d8bb7bfe68bb3d34b0a5e011aaac29f94c88efa6ef8267b6e4b6fb9a60'', [3,0,50,0,11]),
    (''xed-operand-enum_8h.html#a09c2a35d8bb7bfe68bb3d34b0a5e011aaacd4abc0766200998483d7d87ff12928'', [3,0,50,0,87]),
    (''xed-operand-enum_8h.html#a09c2a35d8bb7bfe68bb3d34b0a5e011aaaf03802760db000afe76f384b8d7f8c3'', [3,0,50,0,46]),
    (''xed-operand-enum_8h.html#a09c2a35d8bb7bfe68bb3d34b0a5e011aab06c74c2678398c3af98ea393b9d4c86'', [3,0,50,0,42]),
    (''xed-operand-enum_8h.html#a09c2a35d8bb7bfe68bb3d34b0a5e011aab394cd5a17feeb8de03c9146344dddb4'', [3,0,50,0,68]),
    (''xed-operand-enum_8h.html#a09c2a35d8bb7bfe68bb3d34b0a5e011aab5a8c259a18d86f62ea13d63a3740172'', [3,0,50,0,113]),
    (''xed-operand-enum_8h.html#a09c2a35d8bb7bfe68bb3d34b0a5e011aab84fdc4253567bbd5980b29944447f99'', [3,0,50,0,127]),
    (''xed-operand-enum_8h.html#a09c2a35d8bb7bfe68bb3d34b0a5e011aaba4b38b6ae9309e0656e40a4b0713c0f'', [3,0,50,0,93]),
    (''xed-operand-enum_8h.html#a09c2a35d8bb7bfe68bb3d34b0a5e011aabb173224c4b74214a7ec9f174bb7262e'', [3,0,50,0,21]),
    (''xed-operand-enum_8h.html#a09c2a35d8bb7bfe68bb3d34b0a5e011aabbe83849a642b40143efdeea44fa0497'', [3,0,50,0,83]),
    (''xed-operand-enum_8h.html#a09c2a35d8bb7bfe68bb3d34b0a5e011aabc3e6aec9a09eebf61a5c011d81c633c'', [3,0,50,0,97]),
    (''xed-operand-enum_8h.html#a09c2a35d8bb7bfe68bb3d34b0a5e011aabe26987877ba7bfe6b67c7106fd77286'', [3,0,50,0,48]),
    (''xed-operand-enum_8h.html#a09c2a35d8bb7bfe68bb3d34b0a5e011aabeb51b32bc8f34c0656208db36b05396'', [3,0,50,0,88]),
    (''xed-operand-enum_8h.html#a09c2a35d8bb7bfe68bb3d34b0a5e011aabebadf81fd6e5f385be962e961adcdec'', [3,0,50,0,114]),
    (''xed-operand-enum_8h.html#a09c2a35d8bb7bfe68bb3d34b0a5e011aabec353b665048050f2c400a96dd1abcc'', [3,0,50,0,103]),
    (''xed-operand-enum_8h.html#a09c2a35d8bb7bfe68bb3d34b0a5e011aabff9f6414b9de3a43c845721de9f97f4'', [3,0,50,0,89]),
    (''xed-operand-enum_8h.html#a09c2a35d8bb7bfe68bb3d34b0a5e011aac36c34c3c157c52206a83b154695a03c'', [3,0,50,0,43]),
    (''xed-operand-enum_8h.html#a09c2a35d8bb7bfe68bb3d34b0a5e011aac375783101f79c1827043242130ce776'', [3,0,50,0,62]),
    (''xed-operand-enum_8h.html#a09c2a35d8bb7bfe68bb3d34b0a5e011aad039e4371b6523f8bff1a5fd5f43e981'', [3,0,50,0,31]),
    (''xed-operand-enum_8h.html#a09c2a35d8bb7bfe68bb3d34b0a5e011aad0c2b5884293abd53b930c1793382db1'', [3,0,50,0,84]),
    (''xed-operand-enum_8h.html#a09c2a35d8bb7bfe68bb3d34b0a5e011aad1ff6b5bfd8a27d95560c495ebf7ab70'', [3,0,50,0,55]),
    (''xed-operand-enum_8h.html#a09c2a35d8bb7bfe68bb3d34b0a5e011aad247a2f17f35d8c80e914b317f98d85b'', [3,0,50,0,53]),
    (''xed-operand-enum_8h.html#a09c2a35d8bb7bfe68bb3d34b0a5e011aad312c0aec77e8de7c0c6d86ff4033ba9'', [3,0,50,0,71]),
    (''xed-operand-enum_8h.html#a09c2a35d8bb7bfe68bb3d34b0a5e011aad37422913f181d9acefe340fe81bb465'', [3,0,50,0,3]),
    (''xed-operand-enum_8h.html#a09c2a35d8bb7bfe68bb3d34b0a5e011aad3746cb0167b321f9d26bce49cf26e2a'', [3,0,50,0,110]),
    (''xed-operand-enum_8h.html#a09c2a35d8bb7bfe68bb3d34b0a5e011aadb915ed9c03dfdb332a721e56c52e915'', [3,0,50,0,98]),
    (''xed-operand-enum_8h.html#a09c2a35d8bb7bfe68bb3d34b0a5e011aade73003ffa3e89ecf4e70256a026b12c'', [3,0,50,0,28]),
    (''xed-operand-enum_8h.html#a09c2a35d8bb7bfe68bb3d34b0a5e011aae16227577a01a603ade62737e7919c83'', [3,0,50,0,0]),
    (''xed-operand-enum_8h.html#a09c2a35d8bb7bfe68bb3d34b0a5e011aae383f1ae1ce46927562e6394b56307ea'', [3,0,50,0,119]),
    (''xed-operand-enum_8h.html#a09c2a35d8bb7bfe68bb3d34b0a5e011aae4253e5cf254ee42cb18bc4f140c7473'', [3,0,50,0,65]),
    (''xed-operand-enum_8h.html#a09c2a35d8bb7bfe68bb3d34b0a5e011aae524def5361d73f6f24ceba6eb5e1334'', [3,0,50,0,102]),
    (''xed-operand-enum_8h.html#a09c2a35d8bb7bfe68bb3d34b0a5e011aae892001d59a0d0547d8e7612a3f6eeeb'', [3,0,50,0,112]),
    (''xed-operand-enum_8h.html#a09c2a35d8bb7bfe68bb3d34b0a5e011aae8f5c3f6067ff768f31c28c1c592e69c'', [3,0,50,0,126]),
    (''xed-operand-enum_8h.html#a09c2a35d8bb7bfe68bb3d34b0a5e011aae9dcb27fab1e77c179396f60822ab2d5'', [3,0,50,0,7]),
    (''xed-operand-enum_8h.html#a09c2a35d8bb7bfe68bb3d34b0a5e011aaeac17aab640e315095518a1a4cad3d94'', [3,0,50,0,123]),
    (''xed-operand-enum_8h.html#a09c2a35d8bb7bfe68bb3d34b0a5e011aaeae0d99329757499b8b02c29242639fd'', [3,0,50,0,9]),
    (''xed-operand-enum_8h.html#a09c2a35d8bb7bfe68bb3d34b0a5e011aaecf4b40f8ec183182501a80b93b5b4dc'', [3,0,50,0,37]),
    (''xed-operand-enum_8h.html#a09c2a35d8bb7bfe68bb3d34b0a5e011aaed6a7ce1599b30b7c15dbf57f2001121'', [3,0,50,0,5]),
    (''xed-operand-enum_8h.html#a09c2a35d8bb7bfe68bb3d34b0a5e011aaefa721334ede4e773b9277c91949fff8'', [3,0,50,0,41]),
    (''xed-operand-enum_8h.html#a09c2a35d8bb7bfe68bb3d34b0a5e011aaefe200444c00eca19c846b5a95714835'', [3,0,50,0,50]),
    (''xed-operand-enum_8h.html#a09c2a35d8bb7bfe68bb3d34b0a5e011aaf09d197b1b9d79b46a1a0f2f40662273'', [3,0,50,0,15]),
    (''xed-operand-enum_8h.html#a09c2a35d8bb7bfe68bb3d34b0a5e011aaf28c17e44b1cec75cbc35eaf230002cb'', [3,0,50,0,82]),
    (''xed-operand-enum_8h.html#a09c2a35d8bb7bfe68bb3d34b0a5e011aaf52101464110c791e16c8fc73b6c7614'', [3,0,50,0,22]),
    (''xed-operand-enum_8h.html#a09c2a35d8bb7bfe68bb3d34b0a5e011aaf7d86871bfa8e5c890e9b60825b67e07'', [3,0,50,0,52]),
    (''xed-operand-enum_8h.html#a09c2a35d8bb7bfe68bb3d34b0a5e011aaf84141b5908fd0d494f446a66f3eeef3'', [3,0,50,0,77]),
    (''xed-operand-enum_8h.html#a09c2a35d8bb7bfe68bb3d34b0a5e011aaf8896b014c4e77b2ce47703183c55a9f'', [3,0,50,0,63]),
    (''xed-operand-enum_8h.html#a09c2a35d8bb7bfe68bb3d34b0a5e011aafb7ee99bfa799de5ede496e9cb29926d'', [3,0,50,0,10]),
    (''xed-operand-enum_8h.html#a09c2a35d8bb7bfe68bb3d34b0a5e011aafcd7139fc501f9996855d5e08cc71cc5'', [3,0,50,0,115]),
    (''xed-operand-enum_8h_source.html'', [3,0,50]),
    (''xed-operand-storage_8h.html'', [3,0,51]),
    (''xed-operand-storage_8h.html#a825b6f392b298a9898e5d82a3b161d6b'', [3,0,51,1]),
    (''xed-operand-storage_8h_source.html'', [3,0,51]),
    (''xed-operand-type-enum_8h.html'', [3,0,52]),
    (''xed-operand-type-enum_8h.html#a7f9198331fe1015a2df65f7b42aa43a8'', [3,0,52,0]),
    (''xed-operand-type-enum_8h.html#a7f9198331fe1015a2df65f7b42aa43a8a21ed09c263b2e9c080688c20367eb7ca'', [3,0,52,0,3]),
    (''xed-operand-type-enum_8h.html#a7f9198331fe1015a2df65f7b42aa43a8a2cd16e8e7492e49abd369c8705abdd77'', [3,0,52,0,0]),
    (''xed-operand-type-enum_8h.html#a7f9198331fe1015a2df65f7b42aa43a8a6c08de43a20229d27939a21afbd5e364'', [3,0,52,0,4]),
    (''xed-operand-type-enum_8h.html#a7f9198331fe1015a2df65f7b42aa43a8a7973023a05605602afb1a59a3f8c8238'', [3,0,52,0,6]),
    (''xed-operand-type-enum_8h.html#a7f9198331fe1015a2df65f7b42aa43a8ad2d298daef05bf33e7736582a060a648'', [3,0,52,0,2]),
    (''xed-operand-type-enum_8h.html#a7f9198331fe1015a2df65f7b42aa43a8add206aaa0b3699acb87a3b75253154f7'', [3,0,52,0,1]),
    (''xed-operand-type-enum_8h.html#a7f9198331fe1015a2df65f7b42aa43a8aecfe0b5963563029b01712a8eb6e56e5'', [3,0,52,0,5]),
    (''xed-operand-type-enum_8h_source.html'', [3,0,52]),
    (''xed-operand-values-interface_8h.html'', [3,0,53]),
    (''xed-operand-values-interface_8h_source.html'', [3,0,53]),
    (''xed-operand-visibility-enum_8h.html'', [3,0,54]),
    (''xed-operand-visibility-enum_8h.html#ae678c6279a7ba50bf58f2e357242b58d'', [3,0,54,0]),
    (''xed-operand-visibility-enum_8h.html#ae678c6279a7ba50bf58f2e357242b58da03ae73fc4d8e27bd7316a577ded26e26'', [3,0,54,0,4]),
    (''xed-operand-visibility-enum_8h.html#ae678c6279a7ba50bf58f2e357242b58da0c11cb94af603ecdcafe24d5336c1169'', [3,0,54,0,0]),
    (''xed-operand-visibility-enum_8h.html#ae678c6279a7ba50bf58f2e357242b58da7e6fd7ca302d2af744be1f5cda7ac85a'', [3,0,54,0,1]),
    (''xed-operand-visibility-enum_8h.html#ae678c6279a7ba50bf58f2e357242b58dabf87ecc204d79c79bd45a94d7c8d7b13'', [3,0,54,0,2]),
    (''xed-operand-visibility-enum_8h.html#ae678c6279a7ba50bf58f2e357242b58dae7a120f7fc5f89a4888b6d0e71d9305c'', [3,0,54,0,3]),
    (''xed-operand-visibility-enum_8h_source.html'', [3,0,54]),
    (''xed-operand-width-enum_8h.html'', [3,0,55]),
    (''xed-operand-width-enum_8h.html#a4bc2ed96b8433c06c363d614a2fa1676'', [3,0,55,0]),
    (''xed-operand-width-enum_8h.html#a4bc2ed96b8433c06c363d614a2fa1676a04af42dcb157f8f5624c6db15f60095d'', [3,0,55,0,69]),
    (''xed-operand-width-enum_8h.html#a4bc2ed96b8433c06c363d614a2fa1676a04b1bc895a70e37f2351e6e7f6ddc0d8'', [3,0,55,0,83]),
    (''xed-operand-width-enum_8h.html#a4bc2ed96b8433c06c363d614a2fa1676a0672d558542cbfab5d6fde9aa9428cab'', [3,0,55,0,17]),
    (''xed-operand-width-enum_8h.html#a4bc2ed96b8433c06c363d614a2fa1676a073ef99d7a81913489737815c7d248c0'', [3,0,55,0,75]),
    (''xed-operand-width-enum_8h.html#a4bc2ed96b8433c06c363d614a2fa1676a0843efe3fe09fff018f5d4a04385337d'', [3,0,55,0,28]),
    (''xed-operand-width-enum_8h.html#a4bc2ed96b8433c06c363d614a2fa1676a0951f2141a109df180eb049691bbbbcb'', [3,0,55,0,64]),
    (''xed-operand-width-enum_8h.html#a4bc2ed96b8433c06c363d614a2fa1676a0aacc854e84894f6d4b0d5f1b4bd6913'', [3,0,55,0,33]),
    (''xed-operand-width-enum_8h.html#a4bc2ed96b8433c06c363d614a2fa1676a0e595d5c254cbb0cd491341d15a8f070'', [3,0,55,0,58]),
    (''xed-operand-width-enum_8h.html#a4bc2ed96b8433c06c363d614a2fa1676a1038fa41dec2c79d32d58aac125d0770'', [3,0,55,0,37]),
    (''xed-operand-width-enum_8h.html#a4bc2ed96b8433c06c363d614a2fa1676a117ccb0b87c6a957ae9eaba9b7812131'', [3,0,55,0,23]),
    (''xed-operand-width-enum_8h.html#a4bc2ed96b8433c06c363d614a2fa1676a11a95df068e35d3c6d3b37e9043cb6f2'', [3,0,55,0,97]),
    (''xed-operand-width-enum_8h.html#a4bc2ed96b8433c06c363d614a2fa1676a127387bb8021be4cbf522a2b76d2bef6'', [3,0,55,0,54]),
    (''xed-operand-width-enum_8h.html#a4bc2ed96b8433c06c363d614a2fa1676a127d0316dc0b8e611b6671924f8bcfd8'', [3,0,55,0,3]),
    (''xed-operand-width-enum_8h.html#a4bc2ed96b8433c06c363d614a2fa1676a14122d92b936991ceaf59409c72b7a31'', [3,0,55,0,2]),
    (''xed-operand-width-enum_8h.html#a4bc2ed96b8433c06c363d614a2fa1676a147c3a6f72a997e2340b58a5fd849de1'', [3,0,55,0,15]),
    (''xed-operand-width-enum_8h.html#a4bc2ed96b8433c06c363d614a2fa1676a15795e1e40ae3279de29ed1d408f36d1'', [3,0,55,0,0]),
    (''xed-operand-width-enum_8h.html#a4bc2ed96b8433c06c363d614a2fa1676a16b2386310ce9630c72bff874e5e769c'', [3,0,55,0,13]),
    (''xed-operand-width-enum_8h.html#a4bc2ed96b8433c06c363d614a2fa1676a190212842325bc2bc51612aba8ec06f5'', [3,0,55,0,46])]"

definition NAVTREEINDEX51 :: "(string \<times> nat list) list" where
  "NAVTREEINDEX51 = navtreeindex51_1 @ navtreeindex51_2"

lemma navtreeindex51_1_ok: "list_all (entry_ok (script_table rest)) navtreeindex51_1"
  unfolding navtreeindex51_1_def
  by (simp add: path_rules arrives_source cong: path_cong pick_cong some_cong arrives_cong list_all_blocked)
    (simp add: source_page_def)?

lemma navtreeindex51_2_ok: "list_all (entry_ok (script_table rest)) navtreeindex51_2"
  unfolding navtreeindex51_2_def
  by (simp add: path_rules arrives_source cong: path_cong pick_cong some_cong arrives_cong list_all_blocked)
    (simp add: source_page_def)?


end
