(* ===== verification/Nav_Keys.thy ===== *)
theory Nav_Keys
  imports Nav_Select Nav_Index_0 Nav_Index_4 Nav_Index_5 Nav_Index_51
begin

text \<open>
  The transcribed index files: every url of a file lies between the first url of the file and
  that of the next one, so that the page looks for it in this file; and it leads to its node.
\<close>

text \<open>The value of \<open>NAVTREEINDEXk\<close>, for the files that are transcribed.\<close>

definition index_table :: "nat \<Rightarrow> (string \<times> nat list) list option" where
  "index_table k =
     (if k = 0 then Some NAVTREEINDEX0 else if k = 4 then Some NAVTREEINDEX4
      else if k = 5 then Some NAVTREEINDEX5 else if k = 51 then Some NAVTREEINDEX51 else None)"

definition key_ok :: "string \<Rightarrow> string \<Rightarrow> string \<times> nat list \<Rightarrow> bool" where
  "key_ok first next_first = (\<lambda>(url, _).
     string_le first url \<and> \<not> string_le next_first url \<and> \<not> starts_with url ''^'' \<and> plain_url url)"

lemma key_ok_pair:
  "key_ok first next_first (url, p) \<longleftrightarrow>
     string_le first url \<and> \<not> string_le next_first url \<and> \<not> starts_with url ''^'' \<and> plain_url url"
  by (simp add: key_ok_def)

lemma no_caret: "starts_with (c # s) ''^'' \<longleftrightarrow> c = CHR ''^''"
  by (simp add: starts_with_def)

lemma blocked_keys: "key_ok first next_first e = key_ok first next_first e"
  by simp

lemma keys_0_1: "list_all (key_ok ''annotated.html'' ''group__DEC.html#gabbc8dec2bddec619bfe8f9a39c7ffdf4'') navtreeindex0_1"
  unfolding navtreeindex0_1_def by (simp add: key_ok_pair no_caret cong: blocked_strings blocked_keys)

lemma keys_0_2: "list_all (key_ok ''annotated.html'' ''group__DEC.html#gabbc8dec2bddec619bfe8f9a39c7ffdf4'') navtreeindex0_2"
  unfolding navtreeindex0_2_def by (simp add: key_ok_pair no_caret cong: blocked_strings blocked_keys)

lemma keys_4_1: "list_all (key_ok ''structxed__encoder__iforms__s.html#a7aea255eacbdcfe740a5d0c8c52412c6'' ''unionxed__encoder__prefixes__t.html#a17e46718b7ea9fa441204e8f5c9c2cd0'') navtreeindex4_1"
  unfolding navtreeindex4_1_def by (simp add: key_ok_pair no_caret cong: blocked_strings blocked_keys)

lemma keys_4_2: "list_all (key_ok ''structxed__encoder__iforms__s.html#a7aea255eacbdcfe740a5d0c8c52412c6'' ''unionxed__encoder__prefixes__t.html#a17e46718b7ea9fa441204e8f5c9c2cd0'') navtreeindex4_2"
  unfolding navtreeindex4_2_def by (simp add: key_ok_pair no_caret cong: blocked_strings blocked_keys)

lemma keys_5_1: "list_all (key_ok ''unionxed__encoder__prefixes__t.html#a17e46718b7ea9fa441204e8f5c9c2cd0'' ''xed-category-enum_8h.html#a3e6e23a35a7ad463e2422d7db98e49f5a99c9bccdb53a91f7b634643c994a5948'') navtreeindex5_1"
  unfolding navtreeindex5_1_def by (simp add: key_ok_pair no_caret cong: blocked_strings blocked_keys)

lemma keys_5_2: "list_all (key_ok ''unionxed__encoder__prefixes__t.html#a17e46718b7ea9fa441204e8f5c9c2cd0'' ''xed-category-enum_8h.html#a3e6e23a35a7ad463e2422d7db98e49f5a99c9bccdb53a91f7b634643c994a5948'') navtreeindex5_2"
  unfolding navtreeindex5_2_def by (simp add: key_ok_pair no_caret cong: blocked_strings blocked_keys)

lemma keys_51_1: "list_all (key_ok ''xed-operand-action_8h.html#a0978e9802aa6911d7c0e5c0b35cbe580'' ''xed-operand-width-enum_8h.html#a4bc2ed96b8433c06c363d614a2fa1676a1b7efccd3095d73de5e689a7b4e1021e'') navtreeindex51_1"
  unfolding navtreeindex51_1_def by (simp add: key_ok_pair no_caret cong: blocked_strings blocked_keys)

lemma keys_51_2: "list_all (key_ok ''xed-operand-action_8h.html#a0978e9802aa6911d7c0e5c0b35cbe580'' ''xed-operand-width-enum_8h.html#a4bc2ed96b8433c06c363d614a2fa1676a1b7efccd3095d73de5e689a7b4e1021e'') navtreeindex51_2"
  unfolding navtreeindex51_2_def by (simp add: key_ok_pair no_caret cong: blocked_strings blocked_keys)

lemma first_urls:
  "NAVTREEINDEX ! 0 = ''annotated.html''"
  "NAVTREEINDEX ! Suc 0 = ''group__DEC.html#gabbc8dec2bddec619bfe8f9a39c7ffdf4''"
  "NAVTREEINDEX ! 4 = ''structxed__encoder__iforms__s.html#a7aea255eacbdcfe740a5d0c8c52412c6''"
  "NAVTREEINDEX ! 5 = ''unionxed__encoder__prefixes__t.html#a17e46718b7ea9fa441204e8f5c9c2cd0''"
  "NAVTREEINDEX ! 6 = ''xed-category-enum_8h.html#a3e6e23a35a7ad463e2422d7db98e49f5a99c9bccdb53a91f7b634643c994a5948''"
  "NAVTREEINDEX ! 51 = ''xed-operand-action_8h.html#a0978e9802aa6911d7c0e5c0b35cbe580''"
  "NAVTREEINDEX ! 52 = ''xed-operand-width-enum_8h.html#a4bc2ed96b8433c06c363d614a2fa1676a1b7efccd3095d73de5e689a7b4e1021e''"
  "length NAVTREEINDEX = 55"
  by (simp_all add: NAVTREEINDEX_def)

lemma index_table_keys:
  assumes "index_table k = Some index" and "(url, p) \<in> set index"
  shows "in_file k url" "\<not> starts_with url ''^''" "plain_url url" "entry_ok (script_table rest) (url, p)"
proof -
  have "list_all (key_ok (NAVTREEINDEX ! k) (NAVTREEINDEX ! Suc k)) index \<and>
    list_all (entry_ok (script_table rest)) index \<and> k < length NAVTREEINDEX"
    using assms(1)
    by (auto simp: index_table_def first_urls NAVTREEINDEX0_def NAVTREEINDEX4_def NAVTREEINDEX5_def NAVTREEINDEX51_def
        keys_0_1 keys_0_2 keys_4_1 keys_4_2 keys_5_1 keys_5_2 keys_51_1 keys_51_2
        navtreeindex0_1_ok navtreeindex0_2_ok navtreeindex4_1_ok navtreeindex4_2_ok
        navtreeindex5_1_ok navtreeindex5_2_ok navtreeindex51_1_ok navtreeindex51_2_ok
        split: if_splits)
  then show "in_file k url" "\<not> starts_with url ''^''" "plain_url url" "entry_ok (script_table rest) (url, p)"
    using assms(2) by (auto simp: list_all_iff key_ok_def in_file_def)
qed

end
