(* ===== verification/Nav_Closed.thy ===== *)
theory Nav_Closed
  imports Nav_Tree
begin

text \<open>
  When the scripts that a node and the nodes below it name are all there: with this, a tree of
  data has no node that cannot be opened.
\<close>

fun closed_node :: "(string \<Rightarrow> nav_node list option) \<Rightarrow> nav_node \<Rightarrow> bool"
  and closed_data :: "(string \<Rightarrow> nav_node list option) \<Rightarrow> nav_data \<Rightarrow> bool" where
  "closed_node scripts (Nav_node t l c) = closed_data scripts c"
| "closed_data scripts Null = True"
| "closed_data scripts (Script s) = (getData scripts s \<noteq> None)"
| "closed_data scripts (Nodes ns) = list_all (closed_node scripts) ns"

lemma closed_leaf: "closed_node scripts (Nav_node t l Null) = True"
  by simp

lemma closed_append:
  "list_all (closed_node scripts) (xs @ ys) = (list_all (closed_node scripts) xs \<and> list_all (closed_node scripts) ys)"
  by simp

lemmas closed_rules = list.pred_inject closed_leaf closed_node.simps closed_data.simps closed_append
  simp_thms

end
