(* ===== verification/Nav_Tables_4.thy ===== *)
theory Nav_Tables_4
  imports Nav_Closed
begin

text \<open>
  Child tables of the navigation tree, one definition for each script, or several where the
  script is long: the nodes that the scripts put below the nodes that name them.
\<close>

definition group__ENC :: "nav_node list" where
  "group__ENC = [
    Nav_node ''xed_encoder_request_s'' (Some ''group__ENC.html#ga56df34e455c5fa7524ff651017ef87fe'') Null,
    Nav_node ''xed_encoder_request_t'' (Some ''group__ENC.html#ga6f914541ddfa1ffe609acebff72d0b5f'') Null,
    Nav_node ''xed_encode'' (Some ''group__ENC.html#ga7c30222e2144a177903ce02beacb1996'') Null,
    Nav_node ''xed_encode_nop'' (Some ''group__ENC.html#ga7d0d452bdd6f1cc20ab5c7cc14fe79e8'') Null,
    Nav_node ''xed_encode_request_print'' (Some ''group__ENC.html#gaf69b263c9882f189c5a6c6992d0f6fe7'') Null,
    Nav_node ''xed_encoder_request_clear_rep'' (Some ''group__ENC.html#ga4c58b2cb01c560f3eb7ea9472ffd1201'') Null,
    Nav_node ''xed_encoder_request_get_iclass'' (Some ''group__ENC.html#gafb170645a9deebb7b3a74edae4de5e89'') Null,
    Nav_node ''xed_encoder_request_get_operand_order'' (Some ''group__ENC.html#ga0a0e2a6e3de6d372c938b14277db0eea'') Null,
    Nav_node ''xed_encoder_request_init_from_decode'' (Some ''group__ENC.html#ga6c6a723c9a89d72d3ad51705cb6b8836'') Null,
    Nav_node ''xed_encoder_request_operand_order_entries'' (Some ''group__ENC.html#gacfe5f5016d026ba1944e434a74e35345'') Null,
    Nav_node ''xed_encoder_request_operands'' (Some ''group__ENC.html#ga8411194f443b2bbfe5fbb23c1896dc74'') Null,
    Nav_node ''xed_encoder_request_operands_const'' (Some ''group__ENC.html#gabaed3d3191f648f4289ff8dcb43464b1'') Null,
    Nav_node ''xed_encoder_request_set_agen'' (Some ''group__ENC.html#gaac846d407fd6537461a6efaccff7609d'') Null,
    Nav_node ''xed_encoder_request_set_base0'' (Some ''group__ENC.html#ga9002c58e013af93550df7bd9b37e13ed'') Null,
    Nav_node ''xed_encoder_request_set_base1'' (Some ''group__ENC.html#gaf109d486d1eadf5c8b86d1cba8387d29'') Null,
    Nav_node ''xed_encoder_request_set_branch_displacement'' (Some ''group__ENC.html#ga3594acbdb2001a816da28b7554b2ae4c'') Null,
    Nav_node ''xed_encoder_request_set_effective_address_size'' (Some ''group__ENC.html#gab416edcadb0d2b59fb62cfcd93991c3d'') Null,
    Nav_node ''xed_encoder_request_set_effective_operand_width'' (Some ''group__ENC.html#ga53b937905ca110c4dd4b20e5695d8937'') Null,
    Nav_node ''xed_encoder_request_set_iclass'' (Some ''group__ENC.html#gaff030e16b97deae21b1f7613684c54c7'') Null,
    Nav_node ''xed_encoder_request_set_index'' (Some ''group__ENC.html#gad436ed3d253f15e11f4c943e0308db06'') Null,
    Nav_node ''xed_encoder_request_set_lock'' (Some ''group__ENC.html#ga14ab62a6407df15f864fde3d4f81b7fe'') Null,
    Nav_node ''xed_encoder_request_set_mem0'' (Some ''group__ENC.html#ga7b4e446882bcc615e917132f3fbb16b3'') Null,
    Nav_node ''xed_encoder_request_set_mem1'' (Some ''group__ENC.html#gafe70e5db7dc59e9880f2db3ec7e71d9d'') Null,
    Nav_node ''xed_encoder_request_set_memory_displacement'' (Some ''group__ENC.html#gaf745dfb40af1361b8a9b9f1ecb4f0228'') Null,
    Nav_node ''xed_encoder_request_set_memory_operand_length'' (Some ''group__ENC.html#ga03790a14a625c544edcbda559e359f14'') Null,
    Nav_node ''xed_encoder_request_set_operand_order'' (Some ''group__ENC.html#ga1e46ce602263f0de591b3ebc268cc12e'') Null,
    Nav_node ''xed_encoder_request_set_ptr'' (Some ''group__ENC.html#ga7be1c7da28a5d88f485f7e80b67959b4'') Null,
    Nav_node ''xed_encoder_request_set_reg'' (Some ''group__ENC.html#gaba22ae36cab0f632d5461830cc9a3133'') Null,
    Nav_node ''xed_encoder_request_set_relbr'' (Some ''group__ENC.html#gad447fb779e58b7eaae0dd54e51af6066'') Null,
    Nav_node ''xed_encoder_request_set_rep'' (Some ''group__ENC.html#ga71d03e9d694f56fc362974f2d81e5464'') Null,
    Nav_node ''xed_encoder_request_set_repne'' (Some ''group__ENC.html#gaf651a483ec90cbf4495f87b114facc0b'') Null,
    Nav_node ''xed_encoder_request_set_scale'' (Some ''group__ENC.html#gaca791f284c852c6ae4c071ba5751d257'') Null,
    Nav_node ''xed_encoder_request_set_seg0'' (Some ''group__ENC.html#ga72a43d42aa1c15bba69bcab84439471a'') Null,
    Nav_node ''xed_encoder_request_set_seg1'' (Some ''group__ENC.html#gafb3db0b671837fab077f4db357c7fe04'') Null,
    Nav_node ''xed_encoder_request_set_simm'' (Some ''group__ENC.html#gaf2477dc50a13ec112d7cf3f3fa5c9178'') Null,
    Nav_node ''xed_encoder_request_set_uimm0'' (Some ''group__ENC.html#ga3f3721bb20e64524b475bd5f3d7bd1e0'') Null,
    Nav_node ''xed_encoder_request_set_uimm0_bits'' (Some ''group__ENC.html#ga5dcaec413dfefdd6ca2ad179e5a181c9'') Null,
    Nav_node ''xed_encoder_request_set_uimm1'' (Some ''group__ENC.html#ga4edd1347ebaceee3811584123b4daa9b'') Null,
    Nav_node ''xed_encoder_request_zero'' (Some ''group__ENC.html#ga1125aa21681440d97ff3bb9736b0b9ed'') Null,
    Nav_node ''xed_encoder_request_zero_operand_order'' (Some ''group__ENC.html#ga483f4ee86b11b94a8d79f309b5388e49'') Null,
    Nav_node ''xed_encoder_request_zero_set_mode'' (Some ''group__ENC.html#ga8a379853ad688ff61de9e73862617e40'') Null]"

lemma group__ENC_closed: "list_all (closed_node scripts) group__ENC"
  by (simp only: group__ENC_def closed_rules)

definition group__ENCHL :: "nav_node list" where
  "group__ENCHL = [
    Nav_node ''xed_addr'' (Some ''group__ENCHL.html#ga45d3dcf13214e284b37e182d6881ce92'') Null,
    Nav_node ''xed_convert_to_encoder_request'' (Some ''group__ENCHL.html#gac53594aeb5688c348000a7424d559aac'') Null,
    Nav_node ''xed_disp'' (Some ''group__ENCHL.html#gadb243e077dc38b6d3d1572db82cb0f26'') Null,
    Nav_node ''xed_imm0'' (Some ''group__ENCHL.html#ga407c5520bb7306fd28048facc97d4f3d'') Null,
    Nav_node ''xed_imm1'' (Some ''group__ENCHL.html#gaca114d4a9178d126b76772a22779aa23'') Null,
    Nav_node ''xed_inst'' (Some ''group__ENCHL.html#ga0b2f5d72a7c89397c9eb011280d4b001'') Null,
    Nav_node ''xed_inst0'' (Some ''group__ENCHL.html#ga8d463fe5834dfc1dd4e4664fbf897528'') Null,
    Nav_node ''xed_inst1'' (Some ''group__ENCHL.html#ga605a860a788e8ba6d7342783be23a093'') Null,
    Nav_node ''xed_inst2'' (Some ''group__ENCHL.html#gad2669ef272ad5c97d0e5070b50cce5ec'') Null,
    Nav_node ''xed_inst3'' (Some ''group__ENCHL.html#ga5bf8b6ae6bb2bfd07725c1acfea2ac2b'') Null,
    Nav_node ''xed_inst4'' (Some ''group__ENCHL.html#ga49825c9af03114c82b10b61aefa8ce93'') Null,
    Nav_node ''xed_inst5'' (Some ''group__ENCHL.html#ga3a745d122221c6039c4aad0c2e61bc68'') Null,
    Nav_node ''xed_lock'' (Some ''group__ENCHL.html#gac1bba432cb4092aa20a2b5522fc82167'') Null,
    Nav_node ''xed_mem_b'' (Some ''group__ENCHL.html#ga12d795879dde3ff299dfba095a357819'') Null,
    Nav_node ''xed_mem_bd'' (Some ''group__ENCHL.html#ga6af7811bd7972dee5ca232752e596376'') Null,
    Nav_node ''xed_mem_bisd'' (Some ''group__ENCHL.html#ga5e411967c48c49c9d270c63200b4b80c'') Null,
    Nav_node ''xed_mem_gb'' (Some ''group__ENCHL.html#ga0d5f46ad4e46cceed2b539746ebc811c'') Null,
    Nav_node ''xed_mem_gbd'' (Some ''group__ENCHL.html#ga2f5146b1eb5f74b5df21143a38419efb'') Null,
    Nav_node ''xed_mem_gbisd'' (Some ''group__ENCHL.html#gab91fb1d18445402fa396b294222d9777'') Null,
    Nav_node ''xed_mem_gd'' (Some ''group__ENCHL.html#ga4cbea27a37a82aac73b221916a1bdcf2'') Null,
    Nav_node ''xed_other'' (Some ''group__ENCHL.html#ga8dfc6dc0b9cca1352df254cf6734d63e'') Null,
    Nav_node ''xed_ptr'' (Some ''group__ENCHL.html#gae25e2c2e66c0c7b9b743b1f3ccc0e1d9'') Null,
    Nav_node ''xed_reg'' (Some ''group__ENCHL.html#ga663a78dc655589c9de346948d4be5163'') Null,
    Nav_node ''xed_relbr'' (Some ''group__ENCHL.html#ga6995703f202763c8e48c543a7f595caa'') Null,
    Nav_node ''xed_rep'' (Some ''group__ENCHL.html#gafae142401bdf92a7c2678acb2cdb48ef'') Null,
    Nav_node ''xed_repne'' (Some ''group__ENCHL.html#ga1ee942b4e09f224c6c1591ddac5268ad'') Null,
    Nav_node ''xed_seg0'' (Some ''group__ENCHL.html#gab997d13c4f651142bfeb826b0025cb2a'') Null,
    Nav_node ''xed_seg1'' (Some ''group__ENCHL.html#gad9010db708e95c0fb31bab087c8a64ba'') Null,
    Nav_node ''xed_simm0'' (Some ''group__ENCHL.html#ga74bf9195171da8314620547761475398'') Null]"

lemma group__ENCHL_closed: "list_all (closed_node scripts) group__ENCHL"
  by (simp only: group__ENCHL_def closed_rules)

definition group__ENUM :: "nav_node list" where
  "group__ENUM = [
    Nav_node ''str2xed_address_width_enum_t'' (Some ''group__ENUM.html#ga8fd9a4f1ade05aaf01cd94178a18e643'') Null,
    Nav_node ''str2xed_attribute_enum_t'' (Some ''group__ENUM.html#ga81b5de8d76c2801a6b1cbca58beb270b'') Null,
    Nav_node ''str2xed_category_enum_t'' (Some ''group__ENUM.html#gac610a6c96eedfac9cc046bafdf24d2bd'') Null,
    Nav_node ''str2xed_chip_enum_t'' (Some ''group__ENUM.html#ga173110605dc1e32525e9df181f2f761f'') Null,
    Nav_node ''str2xed_error_enum_t'' (Some ''group__ENUM.html#ga203bb495b7c49e34ef3e83c25024775b'') Null,
    Nav_node ''str2xed_exception_enum_t'' (Some ''group__ENUM.html#ga7f97deb562fc5e4d308cedc814e1bce7'') Null,
    Nav_node ''str2xed_extension_enum_t'' (Some ''group__ENUM.html#ga1c44135eaf6d653eccd237520b55dfb7'') Null,
    Nav_node ''str2xed_flag_action_enum_t'' (Some ''group__ENUM.html#gaf0163bfa8ac51705924b9a4c2b5e9a6b'') Null,
    Nav_node ''str2xed_flag_enum_t'' (Some ''group__ENUM.html#ga44725b8b3c08e8ca5d59ca11f07513f2'') Null,
    Nav_node ''str2xed_iclass_enum_t'' (Some ''group__ENUM.html#gac4b76adf6ede75bbc5754866187fcfa2'') Null,
    Nav_node ''str2xed_iform_enum_t'' (Some ''group__ENUM.html#gaaa33ff1896c1ecbda8cbf5875edd8563'') Null,
    Nav_node ''str2xed_isa_set_enum_t'' (Some ''group__ENUM.html#ga4ac337dee7f8244b938c8f8968fff863'') Null,
    Nav_node ''str2xed_machine_mode_enum_t'' (Some ''group__ENUM.html#gaa6229dc875554ab07fbb2b1bdd18bb65'') Null,
    Nav_node ''str2xed_nonterminal_enum_t'' (Some ''group__ENUM.html#gabe8ef68d543f1bda1075eaf53a15d09f'') Null,
    Nav_node ''str2xed_operand_action_enum_t'' (Some ''group__ENUM.html#ga58675ccc52549df6fb0439df1a5f220d'') Null,
    Nav_node ''str2xed_operand_convert_enum_t'' (Some ''group__ENUM.html#gaff3cfcae6a879b77bff27c370f29551c'') Null,
    Nav_node ''str2xed_operand_ctype_enum_t'' (Some ''group__ENUM.html#ga27724ce0d3b1c14cf5f6b2bca94b62e5'') Null,
    Nav_node ''str2xed_operand_element_type_enum_t'' (Some ''group__ENUM.html#gafbbf731b710c483159c6537de39341bd'') Null,
    Nav_node ''str2xed_operand_element_xtype_enum_t'' (Some ''group__ENUM.html#ga14b6c0205cd965831f992f5b51e390a7'') Null,
    Nav_node ''str2xed_operand_enum_t'' (Some ''group__ENUM.html#ga5171a8e9ed0f5bd702649ab74c6c7f26'') Null,
    Nav_node ''str2xed_operand_type_enum_t'' (Some ''group__ENUM.html#ga2442452a830a0f64d1763c56508d3912'') Null,
    Nav_node ''str2xed_operand_visibility_enum_t'' (Some ''group__ENUM.html#gaee0641e8722891769a673d945fdbd32b'') Null,
    Nav_node ''str2xed_operand_width_enum_t'' (Some ''group__ENUM.html#ga0924246b32d361e6c996ce1fe103abf3'') Null,
    Nav_node ''str2xed_reg_class_enum_t'' (Some ''group__ENUM.html#ga42de53e0622823b27dfbc1b0bcab381b'') Null,
    Nav_node ''str2xed_reg_enum_t'' (Some ''group__ENUM.html#ga48dc3d086b469ae580ca47917043c2fd'') Null,
    Nav_node ''str2xed_reg_role_enum_t'' (Some ''group__ENUM.html#ga3fde56fafd5fbe4c642c0566e0e84f28'') Null,
    Nav_node ''str2xed_syntax_enum_t'' (Some ''group__ENUM.html#ga6eeeb05296af70a796524487d483400e'') Null,
    Nav_node ''xed_address_width_enum_t2str'' (Some ''group__ENUM.html#gac32c87e79674c2eec82fc534fc510473'') Null,
    Nav_node ''xed_address_width_enum_t_last'' (Some ''group__ENUM.html#ga33a055078a60078e6995fe42d2590dc7'') Null,
    Nav_node ''xed_attribute_enum_t2str'' (Some ''group__ENUM.html#ga46e1e07daead7a33e8704bc684fe795c'') Null,
    Nav_node ''xed_attribute_enum_t_last'' (Some ''group__ENUM.html#ga0fd9c06747c9755c0e631746acbd5661'') Null,
    Nav_node ''xed_category_enum_t2str'' (Some ''group__ENUM.html#ga14cc11e45d2f7ef8af382c8304682216'') Null,
    Nav_node ''xed_category_enum_t_last'' (Some ''group__ENUM.html#ga97cf2ec4b3a8616cd8ac347d18624bf7'') Null,
    Nav_node ''xed_chip_enum_t2str'' (Some ''group__ENUM.html#gacdf25ff28bf589d92c8d7740fbca9902'') Null,
    Nav_node ''xed_chip_enum_t_last'' (Some ''group__ENUM.html#gae1493f95f3c18922653568a787eae70e'') Null,
    Nav_node ''xed_error_enum_t2str'' (Some ''group__ENUM.html#ga3a44865dce1b468619bc95ad8593b0bf'') Null,
    Nav_node ''xed_error_enum_t_last'' (Some ''group__ENUM.html#gab58a666af2254a23031d8e0ce4b255b3'') Null,
    Nav_node ''xed_exception_enum_t2str'' (Some ''group__ENUM.html#gae2a3f205539390ed30f22f2bbb56b7d7'') Null,
    Nav_node ''xed_exception_enum_t_last'' (Some ''group__ENUM.html#ga5ea8256fd31ec5fc132b22d7090f4cc6'') Null,
    Nav_node ''xed_extension_enum_t2str'' (Some ''group__ENUM.html#gaabb91fa22dcd7e51662b50b7c7488ee7'') Null,
    Nav_node ''xed_extension_enum_t_last'' (Some ''group__ENUM.html#ga19b17461c117cb7802afb941e838db37'') Null,
    Nav_node ''xed_flag_action_enum_t2str'' (Some ''group__ENUM.html#gaf405ca2c54dc2fca2dad9e567528aad3'') Null,
    Nav_node ''xed_flag_action_enum_t_last'' (Some ''group__ENUM.html#gac37fef1f31349c9ed9e1cfdf395da50a'') Null,
    Nav_node ''xed_flag_enum_t2str'' (Some ''group__ENUM.html#gae4da58f64748390a11bd84b0588a4c1d'') Null,
    Nav_node ''xed_flag_enum_t_last'' (Some ''group__ENUM.html#gaedae7e6e529bf1f04346ddae172b23bd'') Null,
    Nav_node ''xed_iclass_enum_t2str'' (Some ''group__ENUM.html#ga97f9a6174db43637bf0af371441fde97'') Null,
    Nav_node ''xed_iclass_enum_t_last'' (Some ''group__ENUM.html#ga4b45795087bdf67b8480d2f79bdae42b'') Null,
    Nav_node ''xed_iform_enum_t2str'' (Some ''group__ENUM.html#gaa5982ee859cf508d10f1fe5c7e0d2f61'') Null,
    Nav_node ''xed_iform_enum_t_last'' (Some ''group__ENUM.html#ga13215687a9806aba452c6c35caaf52dd'') Null,
    Nav_node ''xed_iformfl_enum_t_last'' (Some ''group__ENUM.html#gae36c8b2534426cc39fe01b2c135613e4'') Null,
    Nav_node ''xed_isa_set_enum_t2str'' (Some ''group__ENUM.html#ga41b861ab0cc8eccb30268f51d93520a0'') Null,
    Nav_node ''xed_isa_set_enum_t_last'' (Some ''group__ENUM.html#gaed97a92fece0324076645c35fb181ec0'') Null,
    Nav_node ''xed_machine_mode_enum_t2str'' (Some ''group__ENUM.html#ga1d0f063ce142ae7b52fff306c1a5fd75'') Null,
    Nav_node ''xed_machine_mode_enum_t_last'' (Some ''group__ENUM.html#ga0da5a2732f8dc5cdd043f920ea6a9416'') Null,
    Nav_node ''xed_nonterminal_enum_t2str'' (Some ''group__ENUM.html#ga8da46cb4512cc73c88a7a80f3ed07aef'') Null,
    Nav_node ''xed_nonterminal_enum_t_last'' (Some ''group__ENUM.html#ga405ca1a9c5cb7c87d38d3d49be5a75d4'') Null,
    Nav_node ''xed_operand_action_enum_t2str'' (Some ''group__ENUM.html#gac4a01bed223e067779f08893924836dc'') Null,
    Nav_node ''xed_operand_action_enum_t_last'' (Some ''group__ENUM.html#gafee0e2b2c340b16d909f3c0987a41b27'') Null,
    Nav_node ''xed_operand_convert_enum_t2str'' (Some ''group__ENUM.html#ga5a33de30043b049cf62638369cd84071'') Null,
    Nav_node ''xed_operand_convert_enum_t_last'' (Some ''group__ENUM.html#ga4457b5e416e0f2a52e67af75638c5f27'') Null,
    Nav_node ''xed_operand_ctype_enum_t2str'' (Some ''group__ENUM.html#ga9ddc4d63a31aca655e1cd1d0dd0f9da8'') Null,
    Nav_node ''xed_operand_ctype_enum_t_last'' (Some ''group__ENUM.html#ga120755cc315d0af290eaa97a2d2c8d48'') Null,
    Nav_node ''xed_operand_element_type_enum_t2str'' (Some ''group__ENUM.html#ga6a3a3cdfae25d288e348a5271046fd14'') Null,
    Nav_node ''xed_operand_element_type_enum_t_last'' (Some ''group__ENUM.html#gac3f800fb363fbd6d06a9bdeba545158f'') Null,
    Nav_node ''xed_operand_element_xtype_enum_t2str'' (Some ''group__ENUM.html#ga4d8c1f238b8fecf0786b91d7ca2b35b8'') Null,
    Nav_node ''xed_operand_element_xtype_enum_t_last'' (Some ''group__ENUM.html#gaac9d10d1c6bd525013df34fd982d2d6e'') Null,
    Nav_node ''xed_operand_enum_t2str'' (Some ''group__ENUM.html#ga2e1b95b3b4b059703a3be3780a990ade'') Null,
    Nav_node ''xed_operand_enum_t_last'' (Some ''group__ENUM.html#ga06cb1fd18627777b7858fd895b61c49b'') Null,
    Nav_node ''xed_operand_type_enum_t2str'' (Some ''group__ENUM.html#gab340d23d201e7ce54cbd32d32f3286a1'') Null,
    Nav_node ''xed_operand_type_enum_t_last'' (Some ''group__ENUM.html#ga1cfa27d03ddc76f1464284b2a061b738'') Null,
    Nav_node ''xed_operand_visibility_enum_t2str'' (Some ''group__ENUM.html#ga1599399c8155e07c2eb230bb6875aa8a'') Null,
    Nav_node ''xed_operand_visibility_enum_t_last'' (Some ''group__ENUM.html#ga34c4bf3df5a3cea65aba5e13c9d5bbd5'') Null,
    Nav_node ''xed_operand_width_enum_t2str'' (Some ''group__ENUM.html#ga0b6efac075c3dda631990ba013a5bbfb'') Null,
    Nav_node ''xed_operand_width_enum_t_last'' (Some ''group__ENUM.html#gac622486650aee8e8980a67350dfea1cb'') Null,
    Nav_node ''xed_reg_class_enum_t2str'' (Some ''group__ENUM.html#ga316b262608066a946aaa86cde7b1debb'') Null,
    Nav_node ''xed_reg_class_enum_t_last'' (Some ''group__ENUM.html#ga1a6bbdc6f91152faa4705c360ad8b0d0'') Null,
    Nav_node ''xed_reg_enum_t2str'' (Some ''group__ENUM.html#ga2219331ccd4d809d431e81fe5e857e95'') Null,
    Nav_node ''xed_reg_enum_t_last'' (Some ''group__ENUM.html#gad2255166d37ffe04cbf52650a2fd27f2'') Null,
    Nav_node ''xed_reg_role_enum_t2str'' (Some ''group__ENUM.html#gad0f6f3c21707dc5b89c9c370017cbdc6'') Null,
    Nav_node ''xed_reg_role_enum_t_last'' (Some ''group__ENUM.html#ga30015569197d490a9b6afa9ff9826089'') Null,
    Nav_node ''xed_syntax_enum_t2str'' (Some ''group__ENUM.html#ga803092dbbebc22786f8b974efbe97ca8'') Null,
    Nav_node ''xed_syntax_enum_t_last'' (Some ''group__ENUM.html#gaee6d6cc72a43e967fcd2c4879aa469dc'') Null]"

lemma group__ENUM_closed: "list_all (closed_node scripts) group__ENUM"
  by (simp only: group__ENUM_def closed_rules)

definition group__ISASET :: "nav_node list" where
  "group__ISASET = [
    Nav_node ''xed_isa_set_is_valid_for_chip'' (Some ''group__ISASET.html#ga84dd41dd65bce8f8daabc8ce69c4d043'') Null]"

lemma group__ISASET_closed: "list_all (closed_node scripts) group__ISASET"
  by (simp only: group__ISASET_def closed_rules)

definition group__OPERANDS :: "nav_node list" where
  "group__OPERANDS = [
    Nav_node ''xed_operand_values_accesses_memory'' (Some ''group__OPERANDS.html#ga7446b6ed1f1b2a5fd48c560dfb6c36eb'') Null,
    Nav_node ''xed_operand_values_branch_not_taken_hint'' (Some ''group__OPERANDS.html#gade4582b0028d43cfda503ec80201e6a1'') Null,
    Nav_node ''xed_operand_values_branch_taken_hint'' (Some ''group__OPERANDS.html#gad0fcb6cb22c8eee00b71907561bd04b6'') Null,
    Nav_node ''xed_operand_values_clear_rep'' (Some ''group__OPERANDS.html#gad798d7e2a94b0065354b670632c5a1e2'') Null,
    Nav_node ''xed_operand_values_dump'' (Some ''group__OPERANDS.html#gaafb2245a51e09ae288b486e1a9bcd4e1'') Null,
    Nav_node ''xed_operand_values_get_atomic'' (Some ''group__OPERANDS.html#gabf55daa84f65bc0ea191dd68af642566'') Null,
    Nav_node ''xed_operand_values_get_base_reg'' (Some ''group__OPERANDS.html#gae2c88835a866db70500063f54e7728ea'') Null,
    Nav_node ''xed_operand_values_get_branch_displacement_byte'' (Some ''group__OPERANDS.html#ga68c8fc13f1b3c6c1bf3474f4f0ccf538'') Null,
    Nav_node ''xed_operand_values_get_branch_displacement_int32'' (Some ''group__OPERANDS.html#gaf90260ad3d09b26e2327d4bda1215a77'') Null,
    Nav_node ''xed_operand_values_get_branch_displacement_length'' (Some ''group__OPERANDS.html#gaca9ed92c001fb063e1387c0a4503f4c5'') Null,
    Nav_node ''xed_operand_values_get_branch_displacement_length_bits'' (Some ''group__OPERANDS.html#ga70b2f8efa4972909df5229b129b85a91'') Null,
    Nav_node ''xed_operand_values_get_displacement_for_memop'' (Some ''group__OPERANDS.html#gaa2a59be8c12ab84b7b5b11851cef7535'') Null,
    Nav_node ''xed_operand_values_get_effective_address_width'' (Some ''group__OPERANDS.html#ga179da221c07e9bc7d86b6a23f668677c'') Null,
    Nav_node ''xed_operand_values_get_effective_operand_width'' (Some ''group__OPERANDS.html#gad3d1c499fb13d8906bea608f9be2375b'') Null,
    Nav_node ''xed_operand_values_get_iclass'' (Some ''group__OPERANDS.html#gaf75ccaffa5c472ae8578e2c7408c2fca'') Null,
    Nav_node ''xed_operand_values_get_immediate_byte'' (Some ''group__OPERANDS.html#ga8adc1af4161b0890c87fa92c65c5ccb5'') Null,
    Nav_node ''xed_operand_values_get_immediate_int64'' (Some ''group__OPERANDS.html#ga36fee6de00dc4452870fcf3b12ed061f'') Null,
    Nav_node ''xed_operand_values_get_immediate_is_signed'' (Some ''group__OPERANDS.html#ga57046975be8167d3c853eb69d2b400d9'') Null,
    Nav_node ''xed_operand_values_get_immediate_uint64'' (Some ''group__OPERANDS.html#gac9a56268cfe26b80aef5ed27a8e89022'') Null,
    Nav_node ''xed_operand_values_get_index_reg'' (Some ''group__OPERANDS.html#ga4d17965ee523dbb8b59debad2480f536'') Null,
    Nav_node ''xed_operand_values_get_long_mode'' (Some ''group__OPERANDS.html#ga0f1312a0bf168f19e474fbbbb493674d'') Null,
    Nav_node ''xed_operand_values_get_memory_displacement_byte'' (Some ''group__OPERANDS.html#gaca029098d85517308601e22ff162b227'') Null,
    Nav_node ''xed_operand_values_get_memory_displacement_int64'' (Some ''group__OPERANDS.html#ga733d58f6b2023654929bd21e3a4f7825'') Null,
    Nav_node ''xed_operand_values_get_memory_displacement_int64_raw'' (Some ''group__OPERANDS.html#ga68aca8fea184d7aaf224ac0380704325'') Null,
    Nav_node ''xed_operand_values_get_memory_displacement_length'' (Some ''group__OPERANDS.html#gaac677e1d55c7769c91bd2aa935b4ccc6'') Null,
    Nav_node ''xed_operand_values_get_memory_displacement_length_bits'' (Some ''group__OPERANDS.html#gab4b82a223d1471502b9ca0ac2dd446fc'') Null,
    Nav_node ''xed_operand_values_get_memory_displacement_length_bits_raw'' (Some ''group__OPERANDS.html#ga02ddda3d043de87ea8b2954659d2a2d2'') Null,
    Nav_node ''xed_operand_values_get_memory_operand_length'' (Some ''group__OPERANDS.html#ga0c7b4b987b9cd50456590e88a4d011bc'') Null,
    Nav_node ''xed_operand_values_get_real_mode'' (Some ''group__OPERANDS.html#ga667d5c84639131456a6353fd7d3da1f7'') Null,
    Nav_node ''xed_operand_values_get_scale'' (Some ''group__OPERANDS.html#ga1d99c5cc74ce04f2be6a99004d1003e8'') Null,
    Nav_node ''xed_operand_values_get_second_immediate'' (Some ''group__OPERANDS.html#ga1a99c5b46023775feac575ae23fb3824'') Null,
    Nav_node ''xed_operand_values_get_seg_reg'' (Some ''group__OPERANDS.html#ga32a9e772249d82b2b3583a5b075f10e0'') Null,
    Nav_node ''xed_operand_values_get_stack_address_width'' (Some ''group__OPERANDS.html#gaacf6a2885f3012b0b655838fc0ef6cc0'') Null,
    Nav_node ''xed_operand_values_has_66_prefix'' (Some ''group__OPERANDS.html#gab0dbe428e16fea4d11c2498ce23eb489'') Null,
    Nav_node ''xed_operand_values_has_address_size_prefix'' (Some ''group__OPERANDS.html#gae3a5a7fec6f106c2f00029920cc5fa27'') Null,
    Nav_node ''xed_operand_values_has_branch_displacement'' (Some ''group__OPERANDS.html#ga4ad34793ee0b41476c742182fa625caa'') Null,
    Nav_node ''xed_operand_values_has_disp'' (Some ''group__OPERANDS.html#gab0d49de82df18773d120efd1b5facb96'') Null,
    Nav_node ''xed_operand_values_has_displacement'' (Some ''group__OPERANDS.html#ga35cc443e8ea463cfe087ed5ad3287de5'') Null,
    Nav_node ''xed_operand_values_has_immediate'' (Some ''group__OPERANDS.html#ga7be044800ef408c7043e7c443c8c9702'') Null,
    Nav_node ''xed_operand_values_has_lock_prefix'' (Some ''group__OPERANDS.html#gaa2538c59d88956f3eb10a67ee935f468'') Null,
    Nav_node ''xed_operand_values_has_memory_displacement'' (Some ''group__OPERANDS.html#gab6a6effe1bbf439f960f8d9b8a383853'') Null,
    Nav_node ''xed_operand_values_has_modrm_byte'' (Some ''group__OPERANDS.html#gaef78b1391f4b8a0794cf1aa8f9d9d078'') Null,
    Nav_node ''xed_operand_values_has_operand_size_prefix'' (Some ''group__OPERANDS.html#ga6deaeebd7683e763676f95439d9682f6'') Null,
    Nav_node ''xed_operand_values_has_real_rep'' (Some ''group__OPERANDS.html#ga0bcce90b8c597ccd99594402ec96e0eb'') Null,
    Nav_node ''xed_operand_values_has_rep_prefix'' (Some ''group__OPERANDS.html#ga3966c5b2903a8749111e17c684aaf8f8'') Null,
    Nav_node ''xed_operand_values_has_repne_prefix'' (Some ''group__OPERANDS.html#ga096c1eb2836bbf4d1add684b8933763c'') Null,
    Nav_node ''xed_operand_values_has_rexw_prefix'' (Some ''group__OPERANDS.html#gaf2906d60081b02aa491198720295dae4'') Null,
    Nav_node ''xed_operand_values_has_segment_prefix'' (Some ''group__OPERANDS.html#ga83152cba3e67d2753d01bff505012c6e'') Null,
    Nav_node ''xed_operand_values_has_sib_byte'' (Some ''group__OPERANDS.html#ga87e7a1bf6ad7fc739d57334c60da30f3'') Null,
    Nav_node ''xed_operand_values_init'' (Some ''group__OPERANDS.html#ga5b6cd7ad6c5c853c8ae1179df71fe6d1'') Null,
    Nav_node ''xed_operand_values_init_keep_mode'' (Some ''group__OPERANDS.html#gae001db086cdf4d03d81301448133bbb1'') Null,
    Nav_node ''xed_operand_values_init_set_mode'' (Some ''group__OPERANDS.html#ga6eb60207e9dc46671fc89b83c10071aa'') Null,
    Nav_node ''xed_operand_values_is_nop'' (Some ''group__OPERANDS.html#ga1e19112db73aea4cb91a8682cf7c1dac'') Null,
    Nav_node ''xed_operand_values_is_prefetch'' (Some ''group__OPERANDS.html#gaf1b7e94aa1e7bc4a75d707d31ca66254'') Null,
    Nav_node ''xed_operand_values_memop_without_modrm'' (Some ''group__OPERANDS.html#ga85403c1bc57896f0cc1f0c5d9abd2274'') Null,
    Nav_node ''xed_operand_values_number_of_memory_operands'' (Some ''group__OPERANDS.html#ga2ff2163fe076e8a42b6ef103c8e40cbb'') Null,
    Nav_node ''xed_operand_values_print_short'' (Some ''group__OPERANDS.html#gadb275817ff6e4ba6c5564bfe1e08baed'') Null,
    Nav_node ''xed_operand_values_segment_prefix'' (Some ''group__OPERANDS.html#ga00b4273f4b2bc5c7fd8e3d411933f8f8'') Null,
    Nav_node ''xed_operand_values_set_base_reg'' (Some ''group__OPERANDS.html#gadf2be76edca3f39bafab94d24e222a71'') Null,
    Nav_node ''xed_operand_values_set_branch_displacement'' (Some ''group__OPERANDS.html#ga12d966bebe7958e90b66748fb450f395'') Null,
    Nav_node ''xed_operand_values_set_branch_displacement_bits'' (Some ''group__OPERANDS.html#gabbfc1e1043fe9cbbd5b2c28e175bca14'') Null,
    Nav_node ''xed_operand_values_set_effective_address_width'' (Some ''group__OPERANDS.html#gad95d746cbd35df5d5c7f8b83c210d6af'') Null,
    Nav_node ''xed_operand_values_set_effective_operand_width'' (Some ''group__OPERANDS.html#ga8119fa724cf57405a7add41dded6d4f9'') Null,
    Nav_node ''xed_operand_values_set_iclass'' (Some ''group__OPERANDS.html#ga7f3b5c59703a37501db7d05da5e6f77c'') Null,
    Nav_node ''xed_operand_values_set_immediate_signed'' (Some ''group__OPERANDS.html#gae400dbb088178fa9f337b9d38f5a7948'') Null,
    Nav_node ''xed_operand_values_set_immediate_signed_bits'' (Some ''group__OPERANDS.html#ga7be830dd0257413a74ffbad8dc23dba6'') Null,
    Nav_node ''xed_operand_values_set_immediate_unsigned'' (Some ''group__OPERANDS.html#ga1260936e977bf0482d3f39ccdf4cc3a1'') Null,
    Nav_node ''xed_operand_values_set_immediate_unsigned_bits'' (Some ''group__OPERANDS.html#gab383c9302d616845f5fd2d18d82de41d'') Null,
    Nav_node ''xed_operand_values_set_index_reg'' (Some ''group__OPERANDS.html#ga0db1850a20688c49a58dc3c58a22d10e'') Null,
    Nav_node ''xed_operand_values_set_lock'' (Some ''group__OPERANDS.html#ga3c9128293103c5f0b95950ff1236ff88'') Null,
    Nav_node ''xed_operand_values_set_memory_displacement'' (Some ''group__OPERANDS.html#gaedee3cb7286c75315509b134df059a74'') Null,
    Nav_node ''xed_operand_values_set_memory_displacement_bits'' (Some ''group__OPERANDS.html#ga05bf6c2fa49a834f70a94963b17cde22'') Null,
    Nav_node ''xed_operand_values_set_memory_operand_length'' (Some ''group__OPERANDS.html#gad32325d0d429ae72339716ac127e39d5'') Null,
    Nav_node ''xed_operand_values_set_mode'' (Some ''group__OPERANDS.html#ga025ea6aee9f168f8cb5ef46fff246f9f'') Null,
    Nav_node ''xed_operand_values_set_operand_reg'' (Some ''group__OPERANDS.html#ga744645903f7039889af77b3508564cfd'') Null,
    Nav_node ''xed_operand_values_set_relbr'' (Some ''group__OPERANDS.html#ga537bed3747058bcd6ad9b7a4b1aa08eb'') Null,
    Nav_node ''xed_operand_values_set_rep'' (Some ''group__OPERANDS.html#ga59341fd57d04399e63d2fc0a4b3b775e'') Null,
    Nav_node ''xed_operand_values_set_repne'' (Some ''group__OPERANDS.html#gac2d44c5a34d1fb71c16b0d9dd74b3ca5'') Null,
    Nav_node ''xed_operand_values_set_scale'' (Some ''group__OPERANDS.html#gaaaf50a712ca8744b8cd691eafb86c4a4'') Null,
    Nav_node ''xed_operand_values_set_seg_reg'' (Some ''group__OPERANDS.html#ga42042ac303bf40349f16f86067136003'') Null,
    Nav_node ''xed_operand_values_using_default_segment'' (Some ''group__OPERANDS.html#ga2df559dd7d1351acd695d465e5abe744'') Null,
    Nav_node ''xed_operand_values_zero_branch_displacement'' (Some ''group__OPERANDS.html#ga1fac876f3845367744e310c73a58e6d3'') Null,
    Nav_node ''xed_operand_values_zero_immediate'' (Some ''group__OPERANDS.html#ga4c37d06cb63579682167121fc8eb0d7f'') Null,
    Nav_node ''xed_operand_values_zero_memory_displacement'' (Some ''group__OPERANDS.html#ga82f62b105b9dc21218a39a967ce0ae51'') Null,
    Nav_node ''xed_operand_values_zero_segment_override'' (Some ''group__OPERANDS.html#ga84fc9b76ed30ec24823678cf6e326447'') Null]"

lemma group__OPERANDS_closed: "list_all (closed_node scripts) group__OPERANDS"
  by (simp only: group__OPERANDS_def closed_rules)

definition group__REGINTFC :: "nav_node list" where
  "group__REGINTFC = [
    Nav_node ''xed_get_largest_enclosing_register'' (Some ''group__REGINTFC.html#ga4aafa33b4e372727668f604d5d38d9a9'') Null,
    Nav_node ''xed_get_largest_enclosing_register32'' (Some ''group__REGINTFC.html#gaa43fa9b706bbe48af394931fac22df95'') Null,
    Nav_node ''xed_get_register_width_bits'' (Some ''group__REGINTFC.html#ga51ca65b0230e4385db6700ce1a73b662'') Null,
    Nav_node ''xed_get_register_width_bits64'' (Some ''group__REGINTFC.html#ga780a1eb5c93d90e3f68bf6d523ab4af0'') Null,
    Nav_node ''xed_gpr_reg_class'' (Some ''group__REGINTFC.html#ga46208c55a69fb76e42f1b5755aa4923e'') Null,
    Nav_node ''xed_reg_class'' (Some ''group__REGINTFC.html#ga9003309edac48c9c1dfca2187497c613'') Null]"

lemma group__REGINTFC_closed: "list_all (closed_node scripts) group__REGINTFC"
  by (simp only: group__REGINTFC_def closed_rules)

definition structxed__attributes__t :: "nav_node list" where
  "structxed__attributes__t = [
    Nav_node ''a1'' (Some ''structxed__attributes__t.html#a1bafa860e7ff56ad4f9fa29396c409da'') Null,
    Nav_node ''a2'' (Some ''structxed__attributes__t.html#a1f975556af5a9fb9fd4b91bb10d6674e'') Null]"

lemma structxed__attributes__t_closed: "list_all (closed_node scripts) structxed__attributes__t"
  by (simp only: structxed__attributes__t_def closed_rules)

definition structxed__convert__table__t :: "nav_node list" where
  "structxed__convert__table__t = [
    Nav_node ''limit'' (Some ''structxed__convert__table__t.html#ad881b1b412cdb9bc8d851726a73c0e5f'') Null,
    Nav_node ''opnd'' (Some ''structxed__convert__table__t.html#a5b30b844e7c5f76eb32c1a779789a983'') Null,
    Nav_node ''table_name'' (Some ''structxed__convert__table__t.html#a793e42830b662982224085e82e4a4238'') Null]"

lemma structxed__convert__table__t_closed: "list_all (closed_node scripts) structxed__convert__table__t"
  by (simp only: structxed__convert__table__t_def closed_rules)

definition structxed__decoded__inst__s :: "nav_node list" where
  "structxed__decoded__inst__s = [
    Nav_node ''_byte_array'' (Some ''structxed__decoded__inst__s.html#a38b03be58fb05fab25bb86995a92e5fe'') Null,
    Nav_node ''_dec'' (Some ''structxed__decoded__inst__s.html#a412cdad60af0a1b6764572bd1e06341a'') Null,
    Nav_node ''_decoded_length'' (Some ''structxed__decoded__inst__s.html#a1fab5a1da476258bf447ee424db583da'') Null,
    Nav_node ''_enc'' (Some ''structxed__decoded__inst__s.html#acd3a82f4a7db2f2d84e13b80953fe5a1'') Null,
    Nav_node ''_inst'' (Some ''structxed__decoded__inst__s.html#ab08a8c51fc2965d6bd2f741281375145'') Null,
    Nav_node ''_n_operand_order'' (Some ''structxed__decoded__inst__s.html#a18dfd5080b21ef3e0dbdb4ee25eb607c'') Null,
    Nav_node ''_operand_order'' (Some ''structxed__decoded__inst__s.html#a39fccfddf6af7f038aa90aa643ae0a88'') Null,
    Nav_node ''_operands'' (Some ''structxed__decoded__inst__s.html#a88eb93f955acddf8676b8758954de21f'') Null,
    Nav_node ''ev'' (Some ''structxed__decoded__inst__s.html#a970cf4df570b46c91bcda570f9e909cc'') Null,
    Nav_node ''u'' (Some ''structxed__decoded__inst__s.html#a0db7e2fe9fff38507c45bc83a19eece0'') Null,
    Nav_node ''user_data'' (Some ''structxed__decoded__inst__s.html#a76dd7c3749de4ea740c3ae490bc53cce'') Null]"

lemma structxed__decoded__inst__s_closed: "list_all (closed_node scripts) structxed__decoded__inst__s"
  by (simp only: structxed__decoded__inst__s_def closed_rules)

definition structxed__enc__displacement__t :: "nav_node list" where
  "structxed__enc__displacement__t = [
    Nav_node ''displacement'' (Some ''structxed__enc__displacement__t.html#afa8ff12ae5e87cef3fca11b518b27d3f'') Null,
    Nav_node ''displacement_width'' (Some ''structxed__enc__displacement__t.html#ade836c69944bc231aa61f34317d337cf'') Null]"

lemma structxed__enc__displacement__t_closed: "list_all (closed_node scripts) structxed__enc__displacement__t"
  by (simp only: structxed__enc__displacement__t_def closed_rules)

definition structxed__flag__enum__s :: "nav_node list" where
  "structxed__flag__enum__s = [
    Nav_node ''action'' (Some ''structxed__flag__enum__s.html#a6ff90d561a1023be5c27bc5ba1da6a83'') Null,
    Nav_node ''flag'' (Some ''structxed__flag__enum__s.html#a0c855e9832d9215abbeee4d8c4611f76'') Null]"

lemma structxed__flag__enum__s_closed: "list_all (closed_node scripts) structxed__flag__enum__s"
  by (simp only: structxed__flag__enum__s_def closed_rules)

definition structxed__format__options__t :: "nav_node list" where
  "structxed__format__options__t = [
    Nav_node ''hex_address_before_symbolic_name'' (Some ''structxed__format__options__t.html#a9859337bb1e80b9406ef029e2e88a388'') Null,
    Nav_node ''no_sign_extend_signed_immediates'' (Some ''structxed__format__options__t.html#a52f1af3c6153aea31d80aa837d8fd075'') Null,
    Nav_node ''omit_unit_scale'' (Some ''structxed__format__options__t.html#a376259c6f83ac22702c42fe1adbab400'') Null,
    Nav_node ''write_mask_curly_k0'' (Some ''structxed__format__options__t.html#aa3d5959c28ee81aa7e72e6042ffafc1e'') Null,
    Nav_node ''xml_a'' (Some ''structxed__format__options__t.html#a2f5e99db0d3f8d9aaec57cf03c404dc3'') Null,
    Nav_node ''xml_f'' (Some ''structxed__format__options__t.html#a96bc47f93e4cded00e6b1d5406ca08a0'') Null]"

lemma structxed__format__options__t_closed: "list_all (closed_node scripts) structxed__format__options__t"
  by (simp only: structxed__format__options__t_def closed_rules)

definition structxed__iform__info__s :: "nav_node list" where
  "structxed__iform__info__s = [
    Nav_node ''category'' (Some ''structxed__iform__info__s.html#abe0e7654223c86df2c33d2fec7e3b5cf'') Null,
    Nav_node ''extension'' (Some ''structxed__iform__info__s.html#abc6055dea33b5ce30146fb6a826e3b1a'') Null,
    Nav_node ''iclass'' (Some ''structxed__iform__info__s.html#a73e305f28d726fb5b44173d7e08f7fb4'') Null,
    Nav_node ''isa_set'' (Some ''structxed__iform__info__s.html#aed57fa5486f387f7f2a5d470785fd82b'') Null,
    Nav_node ''string_table_idx'' (Some ''structxed__iform__info__s.html#a34770b1c687b081d466e3a05b2a9a8a6'') Null]"

lemma structxed__iform__info__s_closed: "list_all (closed_node scripts) structxed__iform__info__s"
  by (simp only: structxed__iform__info__s_def closed_rules)

definition structxed__inst__s :: "nav_node list" where
  "structxed__inst__s = [
    Nav_node ''_attributes'' (Some ''structxed__inst__s.html#a03367ba1ec117dbfbd2f1f09e9a9b510'') Null,
    Nav_node ''_cpl'' (Some ''structxed__inst__s.html#a28c6d88881677fb400e4090e1870b572'') Null,
    Nav_node ''_exceptions'' (Some ''structxed__inst__s.html#aa3c2bcd18be8815cd9de0d3674bfc1c2'') Null,
    Nav_node ''_flag_complex'' (Some ''structxed__inst__s.html#aeef213bf1a5d21d2bf11bcf56c709b19'') Null,
    Nav_node ''_flag_info_index'' (Some ''structxed__inst__s.html#a75158b2726e38f4a99e2b211e0e400dc'') Null,
    Nav_node ''_iform_enum'' (Some ''structxed__inst__s.html#a56d07f8f78f5be97310c3b250643a0cc'') Null,
    Nav_node ''_noperands'' (Some ''structxed__inst__s.html#acb846ead9a58e1648b7df7b3ca3e2f3d'') Null,
    Nav_node ''_operand_base'' (Some ''structxed__inst__s.html#adcc7107673acf5c5329f75d9fbe23c9b'') Null]"

lemma structxed__inst__s_closed: "list_all (closed_node scripts) structxed__inst__s"
  by (simp only: structxed__inst__s_def closed_rules)

definition structxed__operand__s :: "nav_node list" where
  "structxed__operand__s = [
    Nav_node ''_cvt_idx'' (Some ''structxed__operand__s.html#aeaa9312334b505ca705b317a153dfe8e'') Null,
    Nav_node ''_imm'' (Some ''structxed__operand__s.html#aadbfe169117889af4a00b8e66ad8d577'') Null,
    Nav_node ''_name'' (Some ''structxed__operand__s.html#a5648d7311aa0ac212d1d791ae77d61ca'') Null,
    Nav_node ''_nt'' (Some ''structxed__operand__s.html#af00fef3dfbd9105b34b58d36c96a07a5'') Null,
    Nav_node ''_oc2'' (Some ''structxed__operand__s.html#a2e68845abb787426ebe6c4329a81907a'') Null,
    Nav_node ''_operand_visibility'' (Some ''structxed__operand__s.html#aad61b6c9cff8c15a210b713249a62223'') Null,
    Nav_node ''_reg'' (Some ''structxed__operand__s.html#aecf0d39932822f1a79838ec7ff5d591a'') Null,
    Nav_node ''_rw'' (Some ''structxed__operand__s.html#aa9ecf1d105b566b58e4a9fd7aabb1ab6'') Null,
    Nav_node ''_type'' (Some ''structxed__operand__s.html#ad35e0891736807e22e0697801984b1ad'') Null,
    Nav_node ''_u'' (Some ''structxed__operand__s.html#aba714ff6405430b4e14121c21c50d8dc'') Null,
    Nav_node ''_xtype'' (Some ''structxed__operand__s.html#aa5179eb52a878085bb4a4201e941993a'') Null]"

lemma structxed__operand__s_closed: "list_all (closed_node scripts) structxed__operand__s"
  by (simp only: structxed__operand__s_def closed_rules)

definition structxed__print__info__t :: "nav_node list" where
  "structxed__print__info__t = [
    Nav_node ''blen'' (Some ''structxed__print__info__t.html#abf478535d20cf92ccdba662a135e6c1b'') Null,
    Nav_node ''buf'' (Some ''structxed__print__info__t.html#a1fe855c208bc17a51a4d34fefdb2d5b1'') Null,
    Nav_node ''context'' (Some ''structxed__print__info__t.html#ae376f130b17d169ee51be68077a89ed0'') Null,
    Nav_node ''disassembly_callback'' (Some ''structxed__print__info__t.html#a2b39e838ee753fb0c2f9c95a793c689f'') Null,
    Nav_node ''emitted'' (Some ''structxed__print__info__t.html#a426697c198943f37470982f3f956c35d'') Null,
    Nav_node ''extra_index_operand'' (Some ''structxed__print__info__t.html#ab333e6d2b6d6beab5dbcea01a55ffaf0'') Null,
    Nav_node ''format_options'' (Some ''structxed__print__info__t.html#a5cbeeb747b1d5700b4c25546c6b02713'') Null,
    Nav_node ''format_options_valid'' (Some ''structxed__print__info__t.html#a809dd76e54efbe7033f0bd5eedf802af'') Null,
    Nav_node ''operand_indx'' (Some ''structxed__print__info__t.html#a4337c4b316e91d8ed38fb21c929760d2'') Null,
    Nav_node ''p'' (Some ''structxed__print__info__t.html#ab975d6795638986ea3d0ac52cd6b0e27'') Null,
    Nav_node ''runtime_address'' (Some ''structxed__print__info__t.html#a8da4bce641493ceb76bacec824630184'') Null,
    Nav_node ''skip_operand'' (Some ''structxed__print__info__t.html#a909b439e9e2cdfaf67bb5e53b69c69ad'') Null,
    Nav_node ''syntax'' (Some ''structxed__print__info__t.html#aade5b0550443918f13c25f1589adbb70'') Null]"

lemma structxed__print__info__t_closed: "list_all (closed_node scripts) structxed__print__info__t"
  by (simp only: structxed__print__info__t_def closed_rules)

definition structxed__simple__flag__s :: "nav_node list" where
  "structxed__simple__flag__s = [
    Nav_node ''fa_index'' (Some ''structxed__simple__flag__s.html#a6ca9e07f3c737f6f07deb0678f4c5d8c'') Null,
    Nav_node ''may_write'' (Some ''structxed__simple__flag__s.html#a644147e6c8a633e8e13cda7b3a974910'') Null,
    Nav_node ''must_write'' (Some ''structxed__simple__flag__s.html#ac5157c9b63bf12f8e1b6e1824f6e398b'') Null,
    Nav_node ''nflags'' (Some ''structxed__simple__flag__s.html#a8adf988b444df44631430dce32912463'') Null,
    Nav_node ''read'' (Some ''structxed__simple__flag__s.html#a722858b8b07e26ef8229e6b8df791f2f'') Null,
    Nav_node ''undefined'' (Some ''structxed__simple__flag__s.html#aebe46fb7d51bdbdec6037b48417bb8f0'') Null,
    Nav_node ''written'' (Some ''structxed__simple__flag__s.html#adfa93f6dc27a5ed9554b4da06fe316eb'') Null]"

lemma structxed__simple__flag__s_closed: "list_all (closed_node scripts) structxed__simple__flag__s"
  by (simp only: structxed__simple__flag__s_def closed_rules)

definition structxed__state__s :: "nav_node list" where
  "structxed__state__s = [
    Nav_node ''mmode'' (Some ''structxed__state__s.html#acedcfb0936b7c302087ad7fe5de5cb10'') Null,
    Nav_node ''stack_addr_width'' (Some ''structxed__state__s.html#a202e530cc6f872ce7744b4bdddcb49ba'') Null]"

lemma structxed__state__s_closed: "list_all (closed_node scripts) structxed__state__s"
  by (simp only: structxed__state__s_def closed_rules)

definition unionxed__flag__set__s :: "nav_node list" where
  "unionxed__flag__set__s = [
    Nav_node ''_if'' (Some ''unionxed__flag__set__s.html#a215d00bbdb63524a71e545fda8dfc329'') Null,
    Nav_node ''ac'' (Some ''unionxed__flag__set__s.html#ac862456049fbaa8118a6747fc51ae6da'') Null,
    Nav_node ''af'' (Some ''unionxed__flag__set__s.html#ab4abcec0d4a5b52f337a38e40f15caac'') Null,
    Nav_node ''cf'' (Some ''unionxed__flag__set__s.html#a651259e24a24a1f9f40e9bedac0ad560'') Null,
    Nav_node ''df'' (Some ''unionxed__flag__set__s.html#af8d13777f6ab108bafae72363039ce3c'') Null,
    Nav_node ''fc0'' (Some ''unionxed__flag__set__s.html#ac60b72c28c13fe3e184f3c71d1f767ee'') Null,
    Nav_node ''fc1'' (Some ''unionxed__flag__set__s.html#a851f879c9a85dcf2d8a1a131e4153c05'') Null,
    Nav_node ''fc2'' (Some ''unionxed__flag__set__s.html#aac00c3bfcc52f47af14c161cfb4268e9'') Null,
    Nav_node ''fc3'' (Some ''unionxed__flag__set__s.html#a77423a46de3049dd586ad46614a83fcb'') Null,
    Nav_node ''flat'' (Some ''unionxed__flag__set__s.html#a712498840cfac2cb767e9c8457edbf7b'') Null,
    Nav_node ''id'' (Some ''unionxed__flag__set__s.html#a6d199860b7956324c5a4f5c6c71fd2ef'') Null,
    Nav_node ''iopl'' (Some ''unionxed__flag__set__s.html#a41c4b59f50e4ac20c6d81e8379691e8e'') Null,
    Nav_node ''must_be_0a'' (Some ''unionxed__flag__set__s.html#a23108990a6959f5f26751773749547fa'') Null,
    Nav_node ''must_be_0b'' (Some ''unionxed__flag__set__s.html#ae4ce751f0785b6016219882fb21d9a6a'') Null,
    Nav_node ''must_be_0c'' (Some ''unionxed__flag__set__s.html#aa1d56c6e0e84da7e02053c50ed31dbab'') Null,
    Nav_node ''must_be_0d'' (Some ''unionxed__flag__set__s.html#ad0e986162be817612d6e228d0c239d9c'') Null,
    Nav_node ''must_be_0e'' (Some ''unionxed__flag__set__s.html#a61a62d2e73c190bdb70f212cdfc162bf'') Null,
    Nav_node ''must_be_1'' (Some ''unionxed__flag__set__s.html#a72b663d5bccd430b4d688cc6429b088f'') Null,
    Nav_node ''nt'' (Some ''unionxed__flag__set__s.html#a8d117fdc3b5690c315d83fead390ab08'') Null,
    Nav_node ''of'' (Some ''unionxed__flag__set__s.html#a785e5f20a19d10fce1ec7549d3a2ee6a'') Null,
    Nav_node ''pf'' (Some ''unionxed__flag__set__s.html#a67dee0986ec87026ca20dd3f77431d38'') Null,
    Nav_node ''rf'' (Some ''unionxed__flag__set__s.html#ac6ab00c5d37abe6db8280ea2c6e2e6e2'') Null,
    Nav_node ''s'' (Some ''unionxed__flag__set__s.html#a8a590ae27f639ed8d3d3e0cc8612debe'') Null,
    Nav_node ''sf'' (Some ''unionxed__flag__set__s.html#ac10d3332027d6bd9685c1165f994ca76'') Null,
    Nav_node ''tf'' (Some ''unionxed__flag__set__s.html#a3674598aac3f0fe791f47ac79f0c37eb'') Null,
    Nav_node ''vif'' (Some ''unionxed__flag__set__s.html#a607ecb9cdd15dfb2a132a4fc593fe0b6'') Null,
    Nav_node ''vip'' (Some ''unionxed__flag__set__s.html#a94862c6f42f4070dcbf5e90863b11fec'') Null,
    Nav_node ''vm'' (Some ''unionxed__flag__set__s.html#a4e085097fe04e9a4ef0b8f48880c94dd'') Null,
    Nav_node ''zf'' (Some ''unionxed__flag__set__s.html#a96fcc2f1ad7f3b08c058b13b7c433fdb'') Null]"

lemma unionxed__flag__set__s_closed: "list_all (closed_node scripts) unionxed__flag__set__s"
  by (simp only: unionxed__flag__set__s_def closed_rules)

definition xed_chip_enum_8h :: "nav_node list" where
  "xed_chip_enum_8h = [
    Nav_node ''xed_chip_enum_t'' (Some ''xed-chip-enum_8h.html#ae77c7c405380680ef2414d50d67f1301'') (Nodes [
      Nav_node ''XED_CHIP_INVALID'' (Some ''xed-chip-enum_8h.html#ae77c7c405380680ef2414d50d67f1301ac27b0cb0257fe7d1d925fa9de0d01713'') Null,
      Nav_node ''XED_CHIP_I86'' (Some ''xed-chip-enum_8h.html#ae77c7c405380680ef2414d50d67f1301a47303f0f9b265d47fa28c47fc9866b16'') Null,
      Nav_node ''XED_CHIP_I86FP'' (Some ''xed-chip-enum_8h.html#ae77c7c405380680ef2414d50d67f1301a56454bf4213459139245468505e134f4'') Null,
      Nav_node ''XED_CHIP_I186'' (Some ''xed-chip-enum_8h.html#ae77c7c405380680ef2414d50d67f1301a86a4f0be6f36e3d1ca5693622db819bc'') Null,
      Nav_node ''XED_CHIP_I186FP'' (Some ''xed-chip-enum_8h.html#ae77c7c405380680ef2414d50d67f1301a4f2e7d67c0b4af0b91e06a1968ea5f47'') Null,
      Nav_node ''XED_CHIP_I286REAL'' (Some ''xed-chip-enum_8h.html#ae77c7c405380680ef2414d50d67f1301a76b7c65fd7a2370d5c450375f52218d0'') Null,
      Nav_node ''XED_CHIP_I286'' (Some ''xed-chip-enum_8h.html#ae77c7c405380680ef2414d50d67f1301a27a7c1e32fd549f290dd0d894983e808'') Null,
      Nav_node ''XED_CHIP_I2186FP'' (Some ''xed-chip-enum_8h.html#ae77c7c405380680ef2414d50d67f1301ac1bad498c8352ce5c396cb66a4b1c578'') Null,
      Nav_node ''XED_CHIP_I386REAL'' (Some ''xed-chip-enum_8h.html#ae77c7c405380680ef2414d50d67f1301a7e380479459646c31a567b1fab8fdac2'') Null,
      Nav_node ''XED_CHIP_I386'' (Some ''xed-chip-enum_8h.html#ae77c7c405380680ef2414d50d67f1301aef3f17b2b139aa0995113c1689379a9a'') Null,
      Nav_node ''XED_CHIP_I386FP'' (Some ''xed-chip-enum_8h.html#ae77c7c405380680ef2414d50d67f1301ac68de58c057dab3be6c245a05fe38222'') Null,
      Nav_node ''XED_CHIP_I486REAL'' (Some ''xed-chip-enum_8h.html#ae77c7c405380680ef2414d50d67f1301a2fab212f14c3885b4fd8f0ee4f9124de'') Null,
      Nav_node ''XED_CHIP_I486'' (Some ''xed-chip-enum_8h.html#ae77c7c405380680ef2414d50d67f1301a62830eb99e788add798941bc0c4715ff'') Null,
      Nav_node ''XED_CHIP_PENTIUMREAL'' (Some ''xed-chip-enum_8h.html#ae77c7c405380680ef2414d50d67f1301a6f16b2ac4085e4853786c55b470fd841'') Null,
      Nav_node ''XED_CHIP_PENTIUM'' (Some ''xed-chip-enum_8h.html#ae77c7c405380680ef2414d50d67f1301a4afc7a6f768d1b49ccc9c97a853cdc4d'') Null,
      Nav_node ''XED_CHIP_QUARK'' (Some ''xed-chip-enum_8h.html#ae77c7c405380680ef2414d50d67f1301acd934a3e8ad69ecc41ce68c364e1d179'') Null,
      Nav_node ''XED_CHIP_PENTIUMMMXREAL'' (Some ''xed-chip-enum_8h.html#ae77c7c405380680ef2414d50d67f1301a8658601c133526260939d7ea840443b4'') Null,
      Nav_node ''XED_CHIP_PENTIUMMMX'' (Some ''xed-chip-enum_8h.html#ae77c7c405380680ef2414d50d67f1301a968a7c4e2f61ccd1f7050e0daecff2b9'') Null,
      Nav_node ''XED_CHIP_ALLREAL'' (Some ''xed-chip-enum_8h.html#ae77c7c405380680ef2414d50d67f1301a149a7be79d36226309ff7ed44a8b0236'') Null,
      Nav_node ''XED_CHIP_PENTIUMPRO'' (Some ''xed-chip-enum_8h.html#ae77c7c405380680ef2414d50d67f1301a5c9d59813b962784f2a2cf3004a7adb4'') Null,
      Nav_node ''XED_CHIP_PENTIUM2'' (Some ''xed-chip-enum_8h.html#ae77c7c405380680ef2414d50d67f1301a044856e778c70bf6a05737f9ebab30a9'') Null,
      Nav_node ''XED_CHIP_PENTIUM3'' (Some ''xed-chip-enum_8h.html#ae77c7c405380680ef2414d50d67f1301a6a2fe6983f5ee6820f077e6f2971eb0e'') Null,
      Nav_node ''XED_CHIP_PENTIUM4'' (Some ''xed-chip-enum_8h.html#ae77c7c405380680ef2414d50d67f1301a35b825abd1e1e2a090805d903413e994'') Null,
      Nav_node ''XED_CHIP_P4PRESCOTT'' (Some ''xed-chip-enum_8h.html#ae77c7c405380680ef2414d50d67f1301a7e0d0bf54ae78cc547b27ef6d067b6b3'') Null,
      Nav_node ''XED_CHIP_P4PRESCOTT_NOLAHF'' (Some ''xed-chip-enum_8h.html#ae77c7c405380680ef2414d50d67f1301a82666404e1b3714f8915ec7cac58477b'') Null,
      Nav_node ''XED_CHIP_P4PRESCOTT_VTX'' (Some ''xed-chip-enum_8h.html#ae77c7c405380680ef2414d50d67f1301aabe0e450b38de9bf6b4aaef9964165ed'') Null,
      Nav_node ''XED_CHIP_CORE2'' (Some ''xed-chip-enum_8h.html#ae77c7c405380680ef2414d50d67f1301a59493bc4c695a2ce59cfb46d36795c5c'') Null,
      Nav_node ''XED_CHIP_PENRYN'' (Some ''xed-chip-enum_8h.html#ae77c7c405380680ef2414d50d67f1301a31e145c36a1cdbafef5897230d494f03'') Null,
      Nav_node ''XED_CHIP_PENRYN_E'' (Some ''xed-chip-enum_8h.html#ae77c7c405380680ef2414d50d67f1301ad1a4fc680238ce1b020b39a178b2fa29'') Null,
      Nav_node ''XED_CHIP_NEHALEM'' (Some ''xed-chip-enum_8h.html#ae77c7c405380680ef2414d50d67f1301af313381c0e81c3bb39a5c7e666538096'') Null,
      Nav_node ''XED_CHIP_WESTMERE'' (Some ''xed-chip-enum_8h.html#ae77c7c405380680ef2414d50d67f1301a45c6356370b7ba4ced02cefbe7906f21'') Null,
      Nav_node ''XED_CHIP_BONNELL'' (Some ''xed-chip-enum_8h.html#ae77c7c405380680ef2414d50d67f1301afda84eec399d739cf0dbfa6585d8f6f8'') Null,
      Nav_node ''XED_CHIP_SALTWELL'' (Some ''xed-chip-enum_8h.html#ae77c7c405380680ef2414d50d67f1301a89d91dbb60b14c3fb184b3e6f151119f'') Null,
      Nav_node ''XED_CHIP_SILVERMONT'' (Some ''xed-chip-enum_8h.html#ae77c7c405380680ef2414d50d67f1301aa722cbc5736ad4f5b34b8d312b3667a9'') Null,
      Nav_node ''XED_CHIP_AMD'' (Some ''xed-chip-enum_8h.html#ae77c7c405380680ef2414d50d67f1301aa43b9b881a32ad880526b7f0f6c0eced'') Null,
      Nav_node ''XED_CHIP_GOLDMONT'' (Some ''xed-chip-enum_8h.html#ae77c7c405380680ef2414d50d67f1301a8fb5ce07f2a86459c130d6bdc0a47cfa'') Null,
      Nav_node ''XED_CHIP_SANDYBRIDGE'' (Some ''xed-chip-enum_8h.html#ae77c7c405380680ef2414d50d67f1301a5bcf22c2b1597ece5567754e228affbc'') Null,
      Nav_node ''XED_CHIP_IVYBRIDGE'' (Some ''xed-chip-enum_8h.html#ae77c7c405380680ef2414d50d67f1301abdcab7f7a17af9c615fe19f28cc59373'') Null,
      Nav_node ''XED_CHIP_HASWELL'' (Some ''xed-chip-enum_8h.html#ae77c7c405380680ef2414d50d67f1301ab5081754a0498c1148ec803bb851b5ae'') Null,
      Nav_node ''XED_CHIP_BROADWELL'' (Some ''xed-chip-enum_8h.html#ae77c7c405380680ef2414d50d67f1301a694737a46c74ecf9d667ac93863a79b5'') Null,
      Nav_node ''XED_CHIP_SKYLAKE'' (Some ''xed-chip-enum_8h.html#ae77c7c405380680ef2414d50d67f1301a54e6ad0a2b474dee48365fcfb607b9ff'') Null,
      Nav_node ''XED_CHIP_SKYLAKE_SERVER'' (Some ''xed-chip-enum_8h.html#ae77c7c405380680ef2414d50d67f1301aac3a7db653eeeeb7fe3cdc76851751dd'') Null,
      Nav_node ''XED_CHIP_MEMORY_FUTURE'' (Some ''xed-chip-enum_8h.html#ae77c7c405380680ef2414d50d67f1301a64b71412b606101a0803280ffe9c325d'') Null,
      Nav_node ''XED_CHIP_KNL'' (Some ''xed-chip-enum_8h.html#ae77c7c405380680ef2414d50d67f1301abf6f3bee2a730ade6b37add79a25aa67'') Null,
      Nav_node ''XED_CHIP_AVX512_FUTURE'' (Some ''xed-chip-enum_8h.html#ae77c7c405380680ef2414d50d67f1301ad212dcb50553cbaaa15309f1ccc695d2'') Null,
      Nav_node ''XED_CHIP_ALL'' (Some ''xed-chip-enum_8h.html#ae77c7c405380680ef2414d50d67f1301a79f8e9ed1124b446bab6b173f95342d3'') Null,
      Nav_node ''XED_CHIP_LAST'' (Some ''xed-chip-enum_8h.html#ae77c7c405380680ef2414d50d67f1301a3c10391b9dea59a079998e4570b58eda'') Null]),
    Nav_node ''str2xed_chip_enum_t'' (Some ''group__ENUM.html#ga173110605dc1e32525e9df181f2f761f'') Null,
    Nav_node ''xed_chip_enum_t2str'' (Some ''group__ENUM.html#gacdf25ff28bf589d92c8d7740fbca9902'') Null,
    Nav_node ''xed_chip_enum_t_last'' (Some ''group__ENUM.html#gae1493f95f3c18922653568a787eae70e'') Null]"

lemma xed_chip_enum_8h_closed: "list_all (closed_node scripts) xed_chip_enum_8h"
  by (simp only: xed_chip_enum_8h_def closed_rules)

definition xed_common_defs_8h :: "nav_node list" where
  "xed_common_defs_8h = [
    Nav_node ''XED_BIT_FIELD_PSEUDO_WIDTH4'' (Some ''xed-common-defs_8h.html#aa69f44ab2bb9f5b539a2ec4481e55861'') Null,
    Nav_node ''XED_BIT_FIELD_PSEUDO_WIDTH8'' (Some ''xed-common-defs_8h.html#ad63f3c2e5d31b6e53ec9025fa1790436'') Null,
    Nav_node ''XED_BYTE_CAST'' (Some ''xed-common-defs_8h.html#a243a8c4c8b3cd7f5658455c10dc28777'') Null,
    Nav_node ''XED_BYTE_MASK'' (Some ''xed-common-defs_8h.html#a8a127f35f53251f46b438a1fea0cb08c'') Null,
    Nav_node ''XED_MAX_DISPLACEMENT_BYTES'' (Some ''xed-common-defs_8h.html#a70d7ef4cb7b3c083e3c7e036dc5b6846'') Null,
    Nav_node ''XED_MAX_IMMEDIATE_BYTES'' (Some ''xed-common-defs_8h.html#a77804e53f494e2623103f337f30ec3bf'') Null,
    Nav_node ''XED_MAX_INSTRUCTION_BYTES'' (Some ''xed-common-defs_8h.html#a214b18e98040dbace0d9e0a0a7937484'') Null,
    Nav_node ''XED_MAX_NONTERMINALS_PER_INSTRUCTION'' (Some ''xed-common-defs_8h.html#a0c045071ff88f644f56baad439a8a79d'') Null,
    Nav_node ''XED_MAX_OPERANDS'' (Some ''xed-common-defs_8h.html#a85ccc37573feb213b4e236440bb83ff0'') Null]"

lemma xed_common_defs_8h_closed: "list_all (closed_node scripts) xed_common_defs_8h"
  by (simp only: xed_common_defs_8h_def closed_rules)

definition xed_common_hdrs_8h :: "nav_node list" where
  "xed_common_hdrs_8h = [
    Nav_node ''XED_DECODER'' (Some ''xed-common-hdrs_8h.html#a1ad3a672dab53d7dbdf9a6b834a6b832'') Null,
    Nav_node ''XED_DLL_EXPORT'' (Some ''xed-common-hdrs_8h.html#a029d5ee2957ac2af5e2b75ec09f1daf9'') Null,
    Nav_node ''XED_DLL_GLOBAL'' (Some ''xed-common-hdrs_8h.html#ab2f4d3edd3fffb591ec6ed21e39880e1'') Null,
    Nav_node ''XED_DLL_IMPORT'' (Some ''xed-common-hdrs_8h.html#a2583ef08eb61790bfa69686a93ffcf15'') Null,
    Nav_node ''XED_ENCODER'' (Some ''xed-common-hdrs_8h.html#a3925943d185a09ad9e32ed8637ccb533'') Null]"

lemma xed_common_hdrs_8h_closed: "list_all (closed_node scripts) xed_common_hdrs_8h"
  by (simp only: xed_common_hdrs_8h_def closed_rules)

definition xed_convert_table_init_8h :: "nav_node list" where
  "xed_convert_table_init_8h = [
    Nav_node ''xed_convert_table_t'' (Some ''structxed__convert__table__t.html'') (Script ''structxed__convert__table__t''),
    Nav_node ''xed_convert_table'' (Some ''xed-convert-table-init_8h.html#ab9e34a9584ff954370021cade9f65b46'') Null]"

definition xed_decoded_inst_8h :: "nav_node list" where
  "xed_decoded_inst_8h = [
    Nav_node ''xed_decoded_inst_t'' (Some ''group__DEC.html#gac566768d37da62eafbbda459f6fec3ac'') Null,
    Nav_node ''xed_operand_values_t'' (Some ''xed-decoded-inst_8h.html#acc5f47a6c962e198ec5df935002f34e6'') Null]"

lemma xed_decoded_inst_8h_closed: "list_all (closed_node scripts) xed_decoded_inst_8h"
  by (simp only: xed_decoded_inst_8h_def closed_rules)

definition xed_disas_8h :: "nav_node list" where
  "xed_disas_8h = [
    Nav_node ''xed_disassembly_callback_fn_t'' (Some ''group__PRINT.html#ga79b7bb018669c5099de0881289eb0abf'') Null]"

lemma xed_disas_8h_closed: "list_all (closed_node scripts) xed_disas_8h"
  by (simp only: xed_disas_8h_def closed_rules)

definition xed_encode_8h :: "nav_node list" where
  "xed_encode_8h = [
    Nav_node ''xed_encoder_request_s'' (Some ''group__ENC.html#ga56df34e455c5fa7524ff651017ef87fe'') Null,
    Nav_node ''xed_encoder_request_t'' (Some ''group__ENC.html#ga6f914541ddfa1ffe609acebff72d0b5f'') Null,
    Nav_node ''xed_encode'' (Some ''group__ENC.html#ga7c30222e2144a177903ce02beacb1996'') Null,
    Nav_node ''xed_encode_nop'' (Some ''group__ENC.html#ga7d0d452bdd6f1cc20ab5c7cc14fe79e8'') Null,
    Nav_node ''xed_encode_request_print'' (Some ''group__ENC.html#gaf69b263c9882f189c5a6c6992d0f6fe7'') Null,
    Nav_node ''xed_encoder_request_clear_rep'' (Some ''group__ENC.html#ga4c58b2cb01c560f3eb7ea9472ffd1201'') Null,
    Nav_node ''xed_encoder_request_get_iclass'' (Some ''group__ENC.html#gafb170645a9deebb7b3a74edae4de5e89'') Null,
    Nav_node ''xed_encoder_request_get_operand_order'' (Some ''group__ENC.html#ga0a0e2a6e3de6d372c938b14277db0eea'') Null,
    Nav_node ''xed_encoder_request_init_from_decode'' (Some ''group__ENC.html#ga6c6a723c9a89d72d3ad51705cb6b8836'') Null,
    Nav_node ''xed_encoder_request_operand_order_entries'' (Some ''group__ENC.html#gacfe5f5016d026ba1944e434a74e35345'') Null,
    Nav_node ''xed_encoder_request_operands'' (Some ''group__ENC.html#ga8411194f443b2bbfe5fbb23c1896dc74'') Null,
    Nav_node ''xed_encoder_request_operands_const'' (Some ''group__ENC.html#gabaed3d3191f648f4289ff8dcb43464b1'') Null,
    Nav_node ''xed_encoder_request_set_agen'' (Some ''group__ENC.html#gaac846d407fd6537461a6efaccff7609d'') Null,
    Nav_node ''xed_encoder_request_set_base0'' (Some ''group__ENC.html#ga9002c58e013af93550df7bd9b37e13ed'') Null,
    Nav_node ''xed_encoder_request_set_base1'' (Some ''group__ENC.html#gaf109d486d1eadf5c8b86d1cba8387d29'') Null,
    Nav_node ''xed_encoder_request_set_branch_displacement'' (Some ''group__ENC.html#ga3594acbdb2001a816da28b7554b2ae4c'') Null,
    Nav_node ''xed_encoder_request_set_effective_address_size'' (Some ''group__ENC.html#gab416edcadb0d2b59fb62cfcd93991c3d'') Null,
    Nav_node ''xed_encoder_request_set_effective_operand_width'' (Some ''group__ENC.html#ga53b937905ca110c4dd4b20e5695d8937'') Null,
    Nav_node ''xed_encoder_request_set_iclass'' (Some ''group__ENC.html#gaff030e16b97deae21b1f7613684c54c7'') Null,
    Nav_node ''xed_encoder_request_set_index'' (Some ''group__ENC.html#gad436ed3d253f15e11f4c943e0308db06'') Null,
    Nav_node ''xed_encoder_request_set_lock'' (Some ''group__ENC.html#ga14ab62a6407df15f864fde3d4f81b7fe'') Null,
    Nav_node ''xed_encoder_request_set_mem0'' (Some ''group__ENC.html#ga7b4e446882bcc615e917132f3fbb16b3'') Null,
    Nav_node ''xed_encoder_request_set_mem1'' (Some ''group__ENC.html#gafe70e5db7dc59e9880f2db3ec7e71d9d'') Null,
    Nav_node ''xed_encoder_request_set_memory_displacement'' (Some ''group__ENC.html#gaf745dfb40af1361b8a9b9f1ecb4f0228'') Null,
    Nav_node ''xed_encoder_request_set_memory_operand_length'' (Some ''group__ENC.html#ga03790a14a625c544edcbda559e359f14'') Null,
    Nav_node ''xed_encoder_request_set_operand_order'' (Some ''group__ENC.html#ga1e46ce602263f0de591b3ebc268cc12e'') Null,
    Nav_node ''xed_encoder_request_set_ptr'' (Some ''group__ENC.html#ga7be1c7da28a5d88f485f7e80b67959b4'') Null,
    Nav_node ''xed_encoder_request_set_reg'' (Some ''group__ENC.html#gaba22ae36cab0f632d5461830cc9a3133'') Null,
    Nav_node ''xed_encoder_request_set_relbr'' (Some ''group__ENC.html#gad447fb779e58b7eaae0dd54e51af6066'') Null,
    Nav_node ''xed_encoder_request_set_rep'' (Some ''group__ENC.html#ga71d03e9d694f56fc362974f2d81e5464'') Null,
    Nav_node ''xed_encoder_request_set_repne'' (Some ''group__ENC.html#gaf651a483ec90cbf4495f87b114facc0b'') Null,
    Nav_node ''xed_encoder_request_set_scale'' (Some ''group__ENC.html#gaca791f284c852c6ae4c071ba5751d257'') Null,
    Nav_node ''xed_encoder_request_set_seg0'' (Some ''group__ENC.html#ga72a43d42aa1c15bba69bcab84439471a'') Null,
    Nav_node ''xed_encoder_request_set_seg1'' (Some ''group__ENC.html#gafb3db0b671837fab077f4db357c7fe04'') Null,
    Nav_node ''xed_encoder_request_set_simm'' (Some ''group__ENC.html#gaf2477dc50a13ec112d7cf3f3fa5c9178'') Null,
    Nav_node ''xed_encoder_request_set_uimm0'' (Some ''group__ENC.html#ga3f3721bb20e64524b475bd5f3d7bd1e0'') Null,
    Nav_node ''xed_encoder_request_set_uimm0_bits'' (Some ''group__ENC.html#ga5dcaec413dfefdd6ca2ad179e5a181c9'') Null,
    Nav_node ''xed_encoder_request_set_uimm1'' (Some ''group__ENC.html#ga4edd1347ebaceee3811584123b4daa9b'') Null,
    Nav_node ''xed_encoder_request_zero'' (Some ''group__ENC.html#ga1125aa21681440d97ff3bb9736b0b9ed'') Null,
    Nav_node ''xed_encoder_request_zero_operand_order'' (Some ''group__ENC.html#ga483f4ee86b11b94a8d79f309b5388e49'') Null,
    Nav_node ''xed_encoder_request_zero_set_mode'' (Some ''group__ENC.html#ga8a379853ad688ff61de9e73862617e40'') Null]"

lemma xed_encode_8h_closed: "list_all (closed_node scripts) xed_encode_8h"
  by (simp only: xed_encode_8h_def closed_rules)

end
