(* ===== verification/Nav_Tables_5.thy ===== *)
theory Nav_Tables_5
  imports Nav_Closed
begin

text \<open>
  Child tables of the navigation tree, one definition for each script, or several where the
  script is long: the nodes that the scripts put below the nodes that name them.
\<close>

definition xed_encoder_gen_defs_8h :: "nav_node list" where
  "xed_encoder_gen_defs_8h = [
    Nav_node ''XED_ENC_GROUPS'' (Some ''xed-encoder-gen-defs_8h.html#a28ab7e9db7676622c7e96ce19266b1a0'') Null,
    Nav_node ''XED_ENCODE_FB_VALUES_TABLE_SIZE'' (Some ''xed-encoder-gen-defs_8h.html#a87e9382edd5c7c42f6e8b1f3fd4f78b0'') Null,
    Nav_node ''XED_ENCODE_MAX_EMIT_PATTERNS'' (Some ''xed-encoder-gen-defs_8h.html#ab2e3308cb9b647bfb5e717c1f7db1428'') Null,
    Nav_node ''XED_ENCODE_MAX_FB_PATTERNS'' (Some ''xed-encoder-gen-defs_8h.html#a1414f1f5a75ab8694f24774ad8fcf099'') Null,
    Nav_node ''XED_ENCODE_MAX_IFORMS'' (Some ''xed-encoder-gen-defs_8h.html#a8a951785aa07d11148423e935d361076'') Null,
    Nav_node ''XED_ENCODE_ORDER_MAX_ENTRIES'' (Some ''xed-encoder-gen-defs_8h.html#aa1be5a05e4a9d169a48051426aaf1b77'') Null,
    Nav_node ''XED_ENCODE_ORDER_MAX_OPERANDS'' (Some ''xed-encoder-gen-defs_8h.html#ac9e3cf5b72e8a21c5200b97cf998bde9'') Null]"

lemma xed_encoder_gen_defs_8h_closed: "list_all (closed_node scripts) xed_encoder_gen_defs_8h"
  by (simp only: xed_encoder_gen_defs_8h_def closed_rules)

definition xed_encoder_hl_8h :: "nav_node list" where
  "xed_encoder_hl_8h = [
    Nav_node ''xed_enc_displacement_t'' (Some ''structxed__enc__displacement__t.html'') (Script ''structxed__enc__displacement__t''),
    Nav_node ''xed_encoder_instruction_t'' (Some ''structxed__encoder__instruction__t.html'') (Script ''structxed__encoder__instruction__t''),
    Nav_node ''xed_encoder_operand_t'' (Some ''structxed__encoder__operand__t.html'') (Script ''structxed__encoder__operand__t''),
    Nav_node ''xed_encoder_prefixes_t'' (Some ''unionxed__encoder__prefixes__t.html'') (Script ''unionxed__encoder__prefixes__t''),
    Nav_node ''xed_memop_t'' (Some ''structxed__memop__t.html'') (Script ''structxed__memop__t''),
    Nav_node ''XED_ENCODER_OPERANDS_MAX'' (Some ''xed-encoder-hl_8h.html#abfeb6b3bab64107ecb69a1276aaa14ed'') Null,
    Nav_node ''xed_encoder_operand_type_t'' (Some ''xed-encoder-hl_8h.html#a7621255aeac26b5e78f7a0dc72d12638'') (Nodes [
      Nav_node ''XED_ENCODER_OPERAND_TYPE_INVALID'' (Some ''xed-encoder-hl_8h.html#a7621255aeac26b5e78f7a0dc72d12638acbc8d93653c02e76eac8d019f449d88b'') Null,
      Nav_node ''XED_ENCODER_OPERAND_TYPE_BRDISP'' (Some ''xed-encoder-hl_8h.html#a7621255aeac26b5e78f7a0dc72d12638a3bea84e3495457e582cd5533b3b67b43'') Null,
      Nav_node ''XED_ENCODER_OPERAND_TYPE_REG'' (Some ''xed-encoder-hl_8h.html#a7621255aeac26b5e78f7a0dc72d12638ac7e137bec55ec1ebaf1b3269cbf8d35b'') Null,
      Nav_node ''XED_ENCODER_OPERAND_TYPE_IMM0'' (Some ''xed-encoder-hl_8h.html#a7621255aeac26b5e78f7a0dc72d12638aec1aab94e9a39cad7281722d72f4c074'') Null,
      Nav_node ''XED_ENCODER_OPERAND_TYPE_SIMM0'' (Some ''xed-encoder-hl_8h.html#a7621255aeac26b5e78f7a0dc72d12638a6010b70490d8deb87248988db4851991'') Null,
      Nav_node ''XED_ENCODER_OPERAND_TYPE_IMM1'' (Some ''xed-encoder-hl_8h.html#a7621255aeac26b5e78f7a0dc72d12638a39d2ecbd06732c86c9be27e5697513e4'') Null,
      Nav_node ''XED_ENCODER_OPERAND_TYPE_MEM'' (Some ''xed-encoder-hl_8h.html#a7621255aeac26b5e78f7a0dc72d12638afb6bee5a0fcf154e71397defed76ed88'') Null,
      Nav_node ''XED_ENCODER_OPERAND_TYPE_PTR'' (Some ''xed-encoder-hl_8h.html#a7621255aeac26b5e78f7a0dc72d12638a617ca23d3a043d05c07435199e768b88'') Null,
      Nav_node ''XED_ENCODER_OPERAND_TYPE_SEG0'' (Some ''xed-encoder-hl_8h.html#a7621255aeac26b5e78f7a0dc72d12638a5a7a43348b1552de102211c4d76ca72d'') Null,
      Nav_node ''XED_ENCODER_OPERAND_TYPE_SEG1'' (Some ''xed-encoder-hl_8h.html#a7621255aeac26b5e78f7a0dc72d12638aacd0df30646ec7115ac403e2dc7bf2ff'') Null,
      Nav_node ''XED_ENCODER_OPERAND_TYPE_OTHER'' (Some ''xed-encoder-hl_8h.html#a7621255aeac26b5e78f7a0dc72d12638a263eeedf98d73a93dd619bc0b2359d79'') Null]),
    Nav_node ''xed_addr'' (Some ''group__ENCHL.html#ga45d3dcf13214e284b37e182d6881ce92'') Null,
    Nav_node ''xed_convert_to_encoder_request'' (Some ''group__ENCHL.html#gac53594aeb5688c348000a7424d559aac'') Null,
    Nav_node ''xed_disp'' (Some ''group__ENCHL.html#gadb243e077dc38b6d3d1572db82cb0f26'') Null,
    Nav_node ''xed_imm0'' (Some ''group__ENCHL.html#ga407c5520bb7306fd28048facc97d4f3d'') Null,
    Nav_node ''xed_imm1'' (Some ''group__ENCHL.html#gaca114d4a9178d126b76772a22779aa23'') Null,
    Nav_node ''xed_inst'' (Some ''group__ENCHL.html#ga0b2f5d72a7c89397c9eb011280d4b001'') Null,
    Nav_node ''xed_inst0'' (Some ''group__ENCHL.html#ga8d463fe5834dfc1dd4e4664fbf897528'') Null,
    Nav_node ''xed_inst1'' (Some ''group__ENCHL.html#ga605a860a788e8ba6d7342783be23a093'') Null,
    Nav_node ''xed_inst2'' (Some ''group__ENCHL.html#gad2669ef272ad5c97d0e5070b50cce5ec'') Null,
    Nav_node ''xed_inst3'' (Some ''group__ENCHL.html#ga5bf8b6ae6bb2bfd07725c1acfea2ac2b'') Null,
    Nav_node ''xed_inst4'' (Some ''group__ENCHL.html#ga49825c9af03114c82b10b61aefa8ce93'') Null,
    Nav_node ''xed_inst5'' (Some ''group__ENCHL.html#ga3a745d122221c6039c4aad0c2e61bc68'') Null,
    Nav_node ''xed_lock'' (Some ''group__ENCHL.html#gac1bba432cb4092aa20a2b5522fc82167'') Null,
    Nav_node ''xed_mem_b'' (Some ''group__ENCHL.html#ga12d795879dde3ff299dfba095a357819'') Null,
    Nav_node ''xed_mem_bd'' (Some ''group__ENCHL.html#ga6af7811bd7972dee5ca232752e596376'') Null,
    Nav_node ''xed_mem_bisd'' (Some ''group__ENCHL.html#ga5e411967c48c49c9d270c63200b4b80c'') Null,
    Nav_node ''xed_mem_gb'' (Some ''group__ENCHL.html#ga0d5f46ad4e46cceed2b539746ebc811c'') Null,
    Nav_node ''xed_mem_gbd'' (Some ''group__ENCHL.html#ga2f5146b1eb5f74b5df21143a38419efb'') Null,
    Nav_node ''xed_mem_gbisd'' (Some ''group__ENCHL.html#gab91fb1d18445402fa396b294222d9777'') Null,
    Nav_node ''xed_mem_gd'' (Some ''group__ENCHL.html#ga4cbea27a37a82aac73b221916a1bdcf2'') Null,
    Nav_node ''xed_other'' (Some ''group__ENCHL.html#ga8dfc6dc0b9cca1352df254cf6734d63e'') Null,
    Nav_node ''xed_ptr'' (Some ''group__ENCHL.html#gae25e2c2e66c0c7b9b743b1f3ccc0e1d9'') Null,
    Nav_node ''xed_reg'' (Some ''group__ENCHL.html#ga663a78dc655589c9de346948d4be5163'') Null,
    Nav_node ''xed_relbr'' (Some ''group__ENCHL.html#ga6995703f202763c8e48c543a7f595caa'') Null,
    Nav_node ''xed_rep'' (Some ''group__ENCHL.html#gafae142401bdf92a7c2678acb2cdb48ef'') Null,
    Nav_node ''xed_repne'' (Some ''group__ENCHL.html#ga1ee942b4e09f224c6c1591ddac5268ad'') Null,
    Nav_node ''xed_seg0'' (Some ''group__ENCHL.html#gab997d13c4f651142bfeb826b0025cb2a'') Null,
    Nav_node ''xed_seg1'' (Some ''group__ENCHL.html#gad9010db708e95c0fb31bab087c8a64ba'') Null,
    Nav_node ''xed_simm0'' (Some ''group__ENCHL.html#ga74bf9195171da8314620547761475398'') Null]"

definition xed_encoder_iforms_8h :: "nav_node list" where
  "xed_encoder_iforms_8h = [
    Nav_node ''xed_encoder_iforms_s'' (Some ''structxed__encoder__iforms__s.html'') (Script ''structxed__encoder__iforms__s''),
    Nav_node ''xed_encoder_iforms_t'' (Some ''xed-encoder-iforms_8h.html#a9574db6513403da4dc1f2e7788b95116'') Null]"

definition xed_error_enum_8h :: "nav_node list" where
  "xed_error_enum_8h = [
    Nav_node ''xed_error_enum_t'' (Some ''xed-error-enum_8h.html#a2611877aa5e8b566c1c2be45aa89c792'') (Nodes [
      Nav_node ''XED_ERROR_NONE'' (Some ''xed-error-enum_8h.html#a2611877aa5e8b566c1c2be45aa89c792ad9f5736eacb4d9dedd9aadf1d75b9de6'') Null,
      Nav_node ''XED_ERROR_BUFFER_TOO_SHORT'' (Some ''xed-error-enum_8h.html#a2611877aa5e8b566c1c2be45aa89c792a4e1f9ac48c70bc8ff830829266e6d10a'') Null,
      Nav_node ''XED_ERROR_GENERAL_ERROR'' (Some ''xed-error-enum_8h.html#a2611877aa5e8b566c1c2be45aa89c792a2ade7c52f8c2eb9b6ae4c6e4cb4bd0d5'') Null,
      Nav_node ''XED_ERROR_INVALID_FOR_CHIP'' (Some ''xed-error-enum_8h.html#a2611877aa5e8b566c1c2be45aa89c792aa48d40c28ed66c43335e09f8acf16679'') Null,
      Nav_node ''XED_ERROR_BAD_REGISTER'' (Some ''xed-error-enum_8h.html#a2611877aa5e8b566c1c2be45aa89c792a7dc33c8b6abc37de0b5e0754127da620'') Null,
      Nav_node ''XED_ERROR_BAD_LOCK_PREFIX'' (Some ''xed-error-enum_8h.html#a2611877aa5e8b566c1c2be45aa89c792a85dea33186927a79852fce42945c0f23'') Null,
      Nav_node ''XED_ERROR_BAD_REP_PREFIX'' (Some ''xed-error-enum_8h.html#a2611877aa5e8b566c1c2be45aa89c792a4395705c02fc4ff2cacd2b5a961c8f1b'') Null,
      Nav_node ''XED_ERROR_BAD_LEGACY_PREFIX'' (Some ''xed-error-enum_8h.html#a2611877aa5e8b566c1c2be45aa89c792a5319bd151826b44808cf443b5ba7fc73'') Null,
      Nav_node ''XED_ERROR_BAD_REX_PREFIX'' (Some ''xed-error-enum_8h.html#a2611877aa5e8b566c1c2be45aa89c792a4eba199376d5cd67f45fbd5d62050af0'') Null,
      Nav_node ''XED_ERROR_BAD_EVEX_UBIT'' (Some ''xed-error-enum_8h.html#a2611877aa5e8b566c1c2be45aa89c792a3c3af7c9a910f0ae0449ee99236c24d7'') Null,
      Nav_node ''XED_ERROR_BAD_MAP'' (Some ''xed-error-enum_8h.html#a2611877aa5e8b566c1c2be45aa89c792a9ebe6ef3e9ce67e99305ac17ba880fb3'') Null,
      Nav_node ''XED_ERROR_NO_OUTPUT_POINTER'' (Some ''xed-error-enum_8h.html#a2611877aa5e8b566c1c2be45aa89c792ae02c63efe2f10fecefe0748f5a510247'') Null,
      Nav_node ''XED_ERROR_NO_AGEN_CALL_BACK_REGISTERED'' (Some ''xed-error-enum_8h.html#a2611877aa5e8b566c1c2be45aa89c792a4c0cd6f70aa81d919057f068c116402a'') Null,
      Nav_node ''XED_ERROR_BAD_MEMOP_INDEX'' (Some ''xed-error-enum_8h.html#a2611877aa5e8b566c1c2be45aa89c792a6f634b571b7f101e875143297320b056'') Null,
      Nav_node ''XED_ERROR_CALLBACK_PROBLEM'' (Some ''xed-error-enum_8h.html#a2611877aa5e8b566c1c2be45aa89c792a00155aaa8e3a18914209e6d046903f37'') Null,
      Nav_node ''XED_ERROR_GATHER_REGS'' (Some ''xed-error-enum_8h.html#a2611877aa5e8b566c1c2be45aa89c792a6327cdfdcce54c8319e87b98a6804ccc'') Null,
      Nav_node ''XED_ERROR_INSTR_TOO_LONG'' (Some ''xed-error-enum_8h.html#a2611877aa5e8b566c1c2be45aa89c792a2b0a5cc7a32c06af437f7bb1e5368eb6'') Null,
      Nav_node ''XED_ERROR_LAST'' (Some ''xed-error-enum_8h.html#a2611877aa5e8b566c1c2be45aa89c792a31699d329b9d3c4d12980d3605428a8f'') Null]),
    Nav_node ''str2xed_error_enum_t'' (Some ''group__ENUM.html#ga203bb495b7c49e34ef3e83c25024775b'') Null,
    Nav_node ''xed_error_enum_t2str'' (Some ''group__ENUM.html#ga3a44865dce1b468619bc95ad8593b0bf'') Null,
    Nav_node ''xed_error_enum_t_last'' (Some ''group__ENUM.html#gab58a666af2254a23031d8e0ce4b255b3'') Null]"

lemma xed_error_enum_8h_closed: "list_all (closed_node scripts) xed_error_enum_8h"
  by (simp only: xed_error_enum_8h_def closed_rules)

definition xed_exception_enum_8h :: "nav_node list" where
  "xed_exception_enum_8h = [
    Nav_node ''xed_exception_enum_t'' (Some ''xed-exception-enum_8h.html#a49126b5e9b22f54161f21c31248faf4d'') (Nodes [
      Nav_node ''XED_EXCEPTION_INVALID'' (Some ''xed-exception-enum_8h.html#a49126b5e9b22f54161f21c31248faf4dac46edbcf63abdf12eb19682d92a7825f'') Null,
      Nav_node ''XED_EXCEPTION_AVX512_E1'' (Some ''xed-exception-enum_8h.html#a49126b5e9b22f54161f21c31248faf4da1ffe8995c0627e98009eb009596bcc3c'') Null,
      Nav_node ''XED_EXCEPTION_AVX512_E10'' (Some ''xed-exception-enum_8h.html#a49126b5e9b22f54161f21c31248faf4dafbb791d3fec3a65431a5874346b361cd'') Null,
      Nav_node ''XED_EXCEPTION_AVX512_E10NF'' (Some ''xed-exception-enum_8h.html#a49126b5e9b22f54161f21c31248faf4da5f8252299254b24ac2e04440270150a7'') Null,
      Nav_node ''XED_EXCEPTION_AVX512_E11'' (Some ''xed-exception-enum_8h.html#a49126b5e9b22f54161f21c31248faf4da3618f36f5a5eb21023a67b40af64b3d0'') Null,
      Nav_node ''XED_EXCEPTION_AVX512_E11NF'' (Some ''xed-exception-enum_8h.html#a49126b5e9b22f54161f21c31248faf4da4e55a6b07a68c3d98bb0b8ecc4d5f7cb'') Null,
      Nav_node ''XED_EXCEPTION_AVX512_E12'' (Some ''xed-exception-enum_8h.html#a49126b5e9b22f54161f21c31248faf4daaff62585c9187bc698a9e0c686b32860'') Null,
      Nav_node ''XED_EXCEPTION_AVX512_E12NP'' (Some ''xed-exception-enum_8h.html#a49126b5e9b22f54161f21c31248faf4da5bc86b6846abe34a00890ce6243c85d7'') Null,
      Nav_node ''XED_EXCEPTION_AVX512_E1NF'' (Some ''xed-exception-enum_8h.html#a49126b5e9b22f54161f21c31248faf4dac028f21546bd3085d295adca8ac9e61e'') Null,
      Nav_node ''XED_EXCEPTION_AVX512_E2'' (Some ''xed-exception-enum_8h.html#a49126b5e9b22f54161f21c31248faf4da5ff0af870372b1c288b775393e73b929'') Null,
      Nav_node ''XED_EXCEPTION_AVX512_E3'' (Some ''xed-exception-enum_8h.html#a49126b5e9b22f54161f21c31248faf4dacaf675a87987cc33a972d111746f1d19'') Null,
      Nav_node ''XED_EXCEPTION_AVX512_E3NF'' (Some ''xed-exception-enum_8h.html#a49126b5e9b22f54161f21c31248faf4da79eb1d5b80e0e0c7b0c3355663a074c1'') Null,
      Nav_node ''XED_EXCEPTION_AVX512_E4'' (Some ''xed-exception-enum_8h.html#a49126b5e9b22f54161f21c31248faf4da2207c9965603f1aec64fa29f817303e1'') Null,
      Nav_node ''XED_EXCEPTION_AVX512_E4NF'' (Some ''xed-exception-enum_8h.html#a49126b5e9b22f54161f21c31248faf4daaa0c56849304bd89122af200828c8fe3'') Null,
      Nav_node ''XED_EXCEPTION_AVX512_E5'' (Some ''xed-exception-enum_8h.html#a49126b5e9b22f54161f21c31248faf4dab437a69681aa0b62f5085116f1a3a0aa'') Null,
      Nav_node ''XED_EXCEPTION_AVX512_E5NF'' (Some ''xed-exception-enum_8h.html#a49126b5e9b22f54161f21c31248faf4dab18a765ac7ae5bbdcd4eaca3974a8d5b'') Null,
      Nav_node ''XED_EXCEPTION_AVX512_E6'' (Some ''xed-exception-enum_8h.html#a49126b5e9b22f54161f21c31248faf4da900dba48f08c9d9e7d78688bc248c4bf'') Null,
      Nav_node ''XED_EXCEPTION_AVX512_E6NF'' (Some ''xed-exception-enum_8h.html#a49126b5e9b22f54161f21c31248faf4da3128e2fda0a09ca6bd9dfdce3ca02fda'') Null,
      Nav_node ''XED_EXCEPTION_AVX512_E7NM'' (Some ''xed-exception-enum_8h.html#a49126b5e9b22f54161f21c31248faf4da1f72213ed6701abbb4124fb21220283b'') Null,
      Nav_node ''XED_EXCEPTION_AVX512_E7NM128'' (Some ''xed-exception-enum_8h.html#a49126b5e9b22f54161f21c31248faf4dae893752357af55e8606900ea7dc42f65'') Null,
      Nav_node ''XED_EXCEPTION_AVX512_E9NF'' (Some ''xed-exception-enum_8h.html#a49126b5e9b22f54161f21c31248faf4daa07680fd8d590bf5db419c238158e0a4'') Null,
      Nav_node ''XED_EXCEPTION_AVX512_K20'' (Some ''xed-exception-enum_8h.html#a49126b5e9b22f54161f21c31248faf4daddc7d848a93d38207916b64138c109fe'') Null,
      Nav_node ''XED_EXCEPTION_AVX512_K21'' (Some ''xed-exception-enum_8h.html#a49126b5e9b22f54161f21c31248faf4da20eb066fd344d02282a4c3f2e664e62b'') Null,
      Nav_node ''XED_EXCEPTION_AVX_TYPE_1'' (Some ''xed-exception-enum_8h.html#a49126b5e9b22f54161f21c31248faf4daaa1c38e8c41eac0a40f020fcd6303ae6'') Null,
      Nav_node ''XED_EXCEPTION_AVX_TYPE_2'' (Some ''xed-exception-enum_8h.html#a49126b5e9b22f54161f21c31248faf4da3ffa519b098cbbbb45ce7318c0457a30'') Null,
      Nav_node ''XED_EXCEPTION_AVX_TYPE_2D'' (Some ''xed-exception-enum_8h.html#a49126b5e9b22f54161f21c31248faf4dabe2c667938fe05946ad492d9ade0ff81'') Null,
      Nav_node ''XED_EXCEPTION_AVX_TYPE_3'' (Some ''xed-exception-enum_8h.html#a49126b5e9b22f54161f21c31248faf4da4c643e03ed0869875b3a9b6402930761'') Null,
      Nav_node ''XED_EXCEPTION_AVX_TYPE_4'' (Some ''xed-exception-enum_8h.html#a49126b5e9b22f54161f21c31248faf4da81a1faf2ea7b1af6b81f966a656f3dac'') Null,
      Nav_node ''XED_EXCEPTION_AVX_TYPE_4M'' (Some ''xed-exception-enum_8h.html#a49126b5e9b22f54161f21c31248faf4da255818fc081e93ca6a7e4f27ee56927a'') Null,
      Nav_node ''XED_EXCEPTION_AVX_TYPE_5'' (Some ''xed-exception-enum_8h.html#a49126b5e9b22f54161f21c31248faf4da0ec03ac40e1bc5b938dad595b25d734e'') Null,
      Nav_node ''XED_EXCEPTION_AVX_TYPE_6'' (Some ''xed-exception-enum_8h.html#a49126b5e9b22f54161f21c31248faf4da77ffc22ac13cb3ba7aebf2a7a4344fa1'') Null,
      Nav_node ''XED_EXCEPTION_AVX_TYPE_7'' (Some ''xed-exception-enum_8h.html#a49126b5e9b22f54161f21c31248faf4dab354d162a5b646c4d7f202bf62ca78bd'') Null,
      Nav_node ''XED_EXCEPTION_AVX_TYPE_8'' (Some ''xed-exception-enum_8h.html#a49126b5e9b22f54161f21c31248faf4dae8e27600a3ccffefc4de3027a0627660'') Null,
      Nav_node ''XED_EXCEPTION_AVX_TYPE_9'' (Some ''xed-exception-enum_8h.html#a49126b5e9b22f54161f21c31248faf4da1b561fd40d886687cbfc108ccc846c23'') Null,
      Nav_node ''XED_EXCEPTION_AVX_TYPE_9L'' (Some ''xed-exception-enum_8h.html#a49126b5e9b22f54161f21c31248faf4dae4248cd237a1bc3076321fda2a176368'') Null,
      Nav_node ''XED_EXCEPTION_SSE_TYPE_1'' (Some ''xed-exception-enum_8h.html#a49126b5e9b22f54161f21c31248faf4dabba934609f4d869bf86c488162ad3d4f'') Null,
      Nav_node ''XED_EXCEPTION_SSE_TYPE_2'' (Some ''xed-exception-enum_8h.html#a49126b5e9b22f54161f21c31248faf4dab8a0bd648a322f9f14ca979eb04310fa'') Null,
      Nav_node ''XED_EXCEPTION_SSE_TYPE_2D'' (Some ''xed-exception-enum_8h.html#a49126b5e9b22f54161f21c31248faf4da74273754d2cd71feb730233c1a0c52fa'') Null,
      Nav_node ''XED_EXCEPTION_SSE_TYPE_3'' (Some ''xed-exception-enum_8h.html#a49126b5e9b22f54161f21c31248faf4da41428c45353dfb903f305e3549fa893c'') Null,
      Nav_node ''XED_EXCEPTION_SSE_TYPE_4'' (Some ''xed-exception-enum_8h.html#a49126b5e9b22f54161f21c31248faf4da020dce93ef21cfcbb553dbc902fd849f'') Null,
      Nav_node ''XED_EXCEPTION_SSE_TYPE_4M'' (Some ''xed-exception-enum_8h.html#a49126b5e9b22f54161f21c31248faf4da03480fc546b534c5df235afb99e04405'') Null,
      Nav_node ''XED_EXCEPTION_SSE_TYPE_5'' (Some ''xed-exception-enum_8h.html#a49126b5e9b22f54161f21c31248faf4da532f1d71d1f83dc7a851327a58cd4f8e'') Null,
      Nav_node ''XED_EXCEPTION_SSE_TYPE_7'' (Some ''xed-exception-enum_8h.html#a49126b5e9b22f54161f21c31248faf4da8ccc67cb4a5cd9f8bb8cf5938dfc4c88'') Null,
      Nav_node ''XED_EXCEPTION_LAST'' (Some ''xed-exception-enum_8h.html#a49126b5e9b22f54161f21c31248faf4da418443a779ba5fd7ba6897f80e7b524f'') Null]),
    Nav_node ''str2xed_exception_enum_t'' (Some ''group__ENUM.html#ga7f97deb562fc5e4d308cedc814e1bce7'') Null,
    Nav_node ''xed_exception_enum_t2str'' (Some ''group__ENUM.html#gae2a3f205539390ed30f22f2bbb56b7d7'') Null,
    Nav_node ''xed_exception_enum_t_last'' (Some ''group__ENUM.html#ga5ea8256fd31ec5fc132b22d7090f4cc6'') Null]"

lemma xed_exception_enum_8h_closed: "list_all (closed_node scripts) xed_exception_enum_8h"
  by (simp only: xed_exception_enum_8h_def closed_rules)

definition xed_extension_enum_8h :: "nav_node list" where
  "xed_extension_enum_8h = [
    Nav_node ''xed_extension_enum_t'' (Some ''xed-extension-enum_8h.html#ae7b9f64cdf123c5fda22bd10d5db9916'') (Nodes [
      Nav_node ''XED_EXTENSION_INVALID'' (Some ''xed-extension-enum_8h.html#ae7b9f64cdf123c5fda22bd10d5db9916a3ea1695b0c0ef81c2803d02149c7e434'') Null,
      Nav_node ''XED_EXTENSION_3DNOW'' (Some ''xed-extension-enum_8h.html#ae7b9f64cdf123c5fda22bd10d5db9916a851e5df8c401aa7ec3567afe14d72bd0'') Null,
      Nav_node ''XED_EXTENSION_AES'' (Some ''xed-extension-enum_8h.html#ae7b9f64cdf123c5fda22bd10d5db9916a68fa9836626c9bb2e77f8fad70e89ff2'') Null,
      Nav_node ''XED_EXTENSION_AVX'' (Some ''xed-extension-enum_8h.html#ae7b9f64cdf123c5fda22bd10d5db9916a72d2d2b7e45d19caa6fe3bc346551609'') Null,
      Nav_node ''XED_EXTENSION_AVX2'' (Some ''xed-extension-enum_8h.html#ae7b9f64cdf123c5fda22bd10d5db9916a9020c8fe9ea1eef3a5b422f0936883fa'') Null,
      Nav_node ''XED_EXTENSION_AVX2GATHER'' (Some ''xed-extension-enum_8h.html#ae7b9f64cdf123c5fda22bd10d5db9916a5cc67cdb7b030ca1e2581f8d09dddb04'') Null,
      Nav_node ''XED_EXTENSION_AVX512EVEX'' (Some ''xed-extension-enum_8h.html#ae7b9f64cdf123c5fda22bd10d5db9916a94a0b6362671887de812ebb2c6f1edfe'') Null,
      Nav_node ''XED_EXTENSION_AVX512VEX'' (Some ''xed-extension-enum_8h.html#ae7b9f64cdf123c5fda22bd10d5db9916a05316a214e5d759c406d3f53de100454'') Null,
      Nav_node ''XED_EXTENSION_BASE'' (Some ''xed-extension-enum_8h.html#ae7b9f64cdf123c5fda22bd10d5db9916a2978def486375d86a596b108180b21f9'') Null,
      Nav_node ''XED_EXTENSION_BDW'' (Some ''xed-extension-enum_8h.html#ae7b9f64cdf123c5fda22bd10d5db9916aeba47576a7c1d2a2db64e921c769f3fa'') Null,
      Nav_node ''XED_EXTENSION_BMI1'' (Some ''xed-extension-enum_8h.html#ae7b9f64cdf123c5fda22bd10d5db9916a36f8af71b1df74e3edb1b8adda1a60be'') Null,
      Nav_node ''XED_EXTENSION_BMI2'' (Some ''xed-extension-enum_8h.html#ae7b9f64cdf123c5fda22bd10d5db9916aee6d499620aff9ebbace08b0d53359be'') Null,
      Nav_node ''XED_EXTENSION_CLFLUSHOPT'' (Some ''xed-extension-enum_8h.html#ae7b9f64cdf123c5fda22bd10d5db9916a0ee9efed269d1d469517968cef4061a9'') Null,
      Nav_node ''XED_EXTENSION_CLFSH'' (Some ''xed-extension-enum_8h.html#ae7b9f64cdf123c5fda22bd10d5db9916a6265943bb1d3d8e26c025e9b329ac338'') Null,
      Nav_node ''XED_EXTENSION_CLWB'' (Some ''xed-extension-enum_8h.html#ae7b9f64cdf123c5fda22bd10d5db9916a725827d4897b2f5eb1b5901d8234097c'') Null,
      Nav_node ''XED_EXTENSION_F16C'' (Some ''xed-extension-enum_8h.html#ae7b9f64cdf123c5fda22bd10d5db9916a9f28134d30bb67679e4c5f59254aeb86'') Null,
      Nav_node ''XED_EXTENSION_FMA'' (Some ''xed-extension-enum_8h.html#ae7b9f64cdf123c5fda22bd10d5db9916a9fb0bd61cec20074cc5d8f09e0d4f86b'') Null,
      Nav_node ''XED_EXTENSION_FMA4'' (Some ''xed-extension-enum_8h.html#ae7b9f64cdf123c5fda22bd10d5db9916a29006d4f7e4ea021b3f584f4e42bafd9'') Null,
      Nav_node ''XED_EXTENSION_INVPCID'' (Some ''xed-extension-enum_8h.html#ae7b9f64cdf123c5fda22bd10d5db9916a3728d8b5a94715a3dae4ca97ce294715'') Null,
      Nav_node ''XED_EXTENSION_LONGMODE'' (Some ''xed-extension-enum_8h.html#ae7b9f64cdf123c5fda22bd10d5db9916a7b499cbacfc0fb44efc208feac87ccca'') Null,
      Nav_node ''XED_EXTENSION_LZCNT'' (Some ''xed-extension-enum_8h.html#ae7b9f64cdf123c5fda22bd10d5db9916ada8c5e2856ff780c9c3453e2ee73e815'') Null,
      Nav_node ''XED_EXTENSION_MMX'' (Some ''xed-extension-enum_8h.html#ae7b9f64cdf123c5fda22bd10d5db9916a9a209ff20e28cbb4420520b6e1481d6b'') Null,
      Nav_node ''XED_EXTENSION_MOVBE'' (Some ''xed-extension-enum_8h.html#ae7b9f64cdf123c5fda22bd10d5db9916a4530b677a64ddce4a726500b4d06392f'') Null,
      Nav_node ''XED_EXTENSION_MPX'' (Some ''xed-extension-enum_8h.html#ae7b9f64cdf123c5fda22bd10d5db9916ab487da25cf712a96e09ae7ea886d8e57'') Null,
      Nav_node ''XED_EXTENSION_PAUSE'' (Some ''xed-extension-enum_8h.html#ae7b9f64cdf123c5fda22bd10d5db9916a23c26baffc2a862c75d8d65d19dfcfc1'') Null,
      Nav_node ''XED_EXTENSION_PCLMULQDQ'' (Some ''xed-extension-enum_8h.html#ae7b9f64cdf123c5fda22bd10d5db9916ae5ac045f137f483be8f5356abc16f728'') Null,
      Nav_node ''XED_EXTENSION_PCOMMIT'' (Some ''xed-extension-enum_8h.html#ae7b9f64cdf123c5fda22bd10d5db9916a66fbf9e8095fa9ca82c98cd9a9df5e98'') Null,
      Nav_node ''XED_EXTENSION_PREFETCHWT1'' (Some ''xed-extension-enum_8h.html#ae7b9f64cdf123c5fda22bd10d5db9916a1ed3fd5bb1f528cf18c61ebea57ffd37'') Null,
      Nav_node ''XED_EXTENSION_RDRAND'' (Some ''xed-extension-enum_8h.html#ae7b9f64cdf123c5fda22bd10d5db9916a1f4fcb3d2b7906ee0aec8889754cbb04'') Null,
      Nav_node ''XED_EXTENSION_RDSEED'' (Some ''xed-extension-enum_8h.html#ae7b9f64cdf123c5fda22bd10d5db9916aef55f34fc48c25c35f64e5ef73cd3d40'') Null,
      Nav_node ''XED_EXTENSION_RDTSCP'' (Some ''xed-extension-enum_8h.html#ae7b9f64cdf123c5fda22bd10d5db9916a8523f2c7fb059c25726b8cbdca2b8db1'') Null,
      Nav_node ''XED_EXTENSION_RDWRFSGS'' (Some ''xed-extension-enum_8h.html#ae7b9f64cdf123c5fda22bd10d5db9916a3c2612c1ef4a7f3bd1f4b9ff722c0a64'') Null,
      Nav_node ''XED_EXTENSION_RTM'' (Some ''xed-extension-enum_8h.html#ae7b9f64cdf123c5fda22bd10d5db9916af4965151565c1da9fb9fdb5143d1b120'') Null,
      Nav_node ''XED_EXTENSION_SGX'' (Some ''xed-extension-enum_8h.html#ae7b9f64cdf123c5fda22bd10d5db9916a4c53f2e5e7b5a6a6da4de799f9c802b5'') Null,
      Nav_node ''XED_EXTENSION_SHA'' (Some ''xed-extension-enum_8h.html#ae7b9f64cdf123c5fda22bd10d5db9916ae78d771e078a11758caa58ba35b00467'') Null,
      Nav_node ''XED_EXTENSION_SMAP'' (Some ''xed-extension-enum_8h.html#ae7b9f64cdf123c5fda22bd10d5db9916a649d52cd1a2e22890669260b2929c572'') Null,
      Nav_node ''XED_EXTENSION_SMX'' (Some ''xed-extension-enum_8h.html#ae7b9f64cdf123c5fda22bd10d5db9916af161d9dbf1c620de4bd9da5eea00fe60'') Null,
      Nav_node ''XED_EXTENSION_SSE'' (Some ''xed-extension-enum_8h.html#ae7b9f64cdf123c5fda22bd10d5db9916a0e2894559255def5fa0e5bb9aa28bd48'') Null,
      Nav_node ''XED_EXTENSION_SSE2'' (Some ''xed-extension-enum_8h.html#ae7b9f64cdf123c5fda22bd10d5db9916af88a9b8e799b8f045f1dd13fa20b6960'') Null,
      Nav_node ''XED_EXTENSION_SSE3'' (Some ''xed-extension-enum_8h.html#ae7b9f64cdf123c5fda22bd10d5db9916af21361ac9f9d494579b5a8005f26b9e5'') Null,
      Nav_node ''XED_EXTENSION_SSE4'' (Some ''xed-extension-enum_8h.html#ae7b9f64cdf123c5fda22bd10d5db9916ab22a85d61ef3990dceb8bbd4fb324f23'') Null,
      Nav_node ''XED_EXTENSION_SSE4A'' (Some ''xed-extension-enum_8h.html#ae7b9f64cdf123c5fda22bd10d5db9916a54f5a81f84f0c94c1b20ceb9ca2dc82c'') Null,
      Nav_node ''XED_EXTENSION_SSSE3'' (Some ''xed-extension-enum_8h.html#ae7b9f64cdf123c5fda22bd10d5db9916ac98ad8d046eed924d914c3cd797df9a8'') Null,
      Nav_node ''XED_EXTENSION_SVM'' (Some ''xed-extension-enum_8h.html#ae7b9f64cdf123c5fda22bd10d5db9916a7322983d64247744f8533d1da982d38e'') Null,
      Nav_node ''XED_EXTENSION_TBM'' (Some ''xed-extension-enum_8h.html#ae7b9f64cdf123c5fda22bd10d5db9916a7adbf5c65ecb11985503a2d5cb5b78a8'') Null,
      Nav_node ''XED_EXTENSION_VMFUNC'' (Some ''xed-extension-enum_8h.html#ae7b9f64cdf123c5fda22bd10d5db9916a3b6ee1d70dae406a7c544f644666c63e'') Null,
      Nav_node ''XED_EXTENSION_VTX'' (Some ''xed-extension-enum_8h.html#ae7b9f64cdf123c5fda22bd10d5db9916a5e4ae730cba4441496634f2e62b1fc02'') Null,
      Nav_node ''XED_EXTENSION_X87'' (Some ''xed-extension-enum_8h.html#ae7b9f64cdf123c5fda22bd10d5db9916a63f62f597e5aaaa78d5f725dac36d182'') Null,
      Nav_node ''XED_EXTENSION_XOP'' (Some ''xed-extension-enum_8h.html#ae7b9f64cdf123c5fda22bd10d5db9916a1be96bc285e799b8a51d96180c327602'') Null,
      Nav_node ''XED_EXTENSION_XSAVE'' (Some ''xed-extension-enum_8h.html#ae7b9f64cdf123c5fda22bd10d5db9916a610446d67005821aed790b9f05be9125'') Null,
      Nav_node ''XED_EXTENSION_XSAVEC'' (Some ''xed-extension-enum_8h.html#ae7b9f64cdf123c5fda22bd10d5db9916a848f30b6df4034950cb90705e5f03149'') Null,
      Nav_node ''XED_EXTENSION_XSAVEOPT'' (Some ''xed-extension-enum_8h.html#ae7b9f64cdf123c5fda22bd10d5db9916ac5329257cf828a697c08dd1c891f2c83'') Null,
      Nav_node ''XED_EXTENSION_XSAVES'' (Some ''xed-extension-enum_8h.html#ae7b9f64cdf123c5fda22bd10d5db9916a084d672acc3995affc58ccbfd99a3ed9'') Null,
      Nav_node ''XED_EXTENSION_LAST'' (Some ''xed-extension-enum_8h.html#ae7b9f64cdf123c5fda22bd10d5db9916af2497c2387bb0356fa931d8410d2e514'') Null]),
    Nav_node ''str2xed_extension_enum_t'' (Some ''group__ENUM.html#ga1c44135eaf6d653eccd237520b55dfb7'') Null,
    Nav_node ''xed_extension_enum_t2str'' (Some ''group__ENUM.html#gaabb91fa22dcd7e51662b50b7c7488ee7'') Null,
    Nav_node ''xed_extension_enum_t_last'' (Some ''group__ENUM.html#ga19b17461c117cb7802afb941e838db37'') Null]"

lemma xed_extension_enum_8h_closed: "list_all (closed_node scripts) xed_extension_enum_8h"
  by (simp only: xed_extension_enum_8h_def closed_rules)

definition xed_flag_action_enum_8h :: "nav_node list" where
  "xed_flag_action_enum_8h = [
    Nav_node ''xed_flag_action_enum_t'' (Some ''xed-flag-action-enum_8h.html#a773a73e698efc788d2e9e7cf908ba147'') (Nodes [
      Nav_node ''XED_FLAG_ACTION_INVALID'' (Some ''xed-flag-action-enum_8h.html#a773a73e698efc788d2e9e7cf908ba147a7d23e59a2e41d19d47789e7853dd4864'') Null,
      Nav_node ''XED_FLAG_ACTION_u'' (Some ''xed-flag-action-enum_8h.html#a773a73e698efc788d2e9e7cf908ba147af0e1ba3b9c2f90ab904ad28f573b8f79'') Null,
      Nav_node ''XED_FLAG_ACTION_tst'' (Some ''xed-flag-action-enum_8h.html#a773a73e698efc788d2e9e7cf908ba147a721fd420ba24be5778323604047dbb3a'') Null,
      Nav_node ''XED_FLAG_ACTION_mod'' (Some ''xed-flag-action-enum_8h.html#a773a73e698efc788d2e9e7cf908ba147ade77a91ea2e5abf9c2771e8a44072ec5'') Null,
      Nav_node ''XED_FLAG_ACTION_0'' (Some ''xed-flag-action-enum_8h.html#a773a73e698efc788d2e9e7cf908ba147a4deb7405c7fac6a87a27baeec7f7060d'') Null,
      Nav_node ''XED_FLAG_ACTION_pop'' (Some ''xed-flag-action-enum_8h.html#a773a73e698efc788d2e9e7cf908ba147a31f720e536d3b6e362dcfd7251c9bb97'') Null,
      Nav_node ''XED_FLAG_ACTION_ah'' (Some ''xed-flag-action-enum_8h.html#a773a73e698efc788d2e9e7cf908ba147a72230266ff2bbe3431bef25841e8e2f7'') Null,
      Nav_node ''XED_FLAG_ACTION_1'' (Some ''xed-flag-action-enum_8h.html#a773a73e698efc788d2e9e7cf908ba147adb6da6c8638cd32146bded89b2bc48eb'') Null,
      Nav_node ''XED_FLAG_ACTION_LAST'' (Some ''xed-flag-action-enum_8h.html#a773a73e698efc788d2e9e7cf908ba147aa2cac01f0f0768f0c57a23ea1ef34a48'') Null]),
    Nav_node ''str2xed_flag_action_enum_t'' (Some ''group__ENUM.html#gaf0163bfa8ac51705924b9a4c2b5e9a6b'') Null,
    Nav_node ''xed_flag_action_enum_t2str'' (Some ''group__ENUM.html#gaf405ca2c54dc2fca2dad9e567528aad3'') Null,
    Nav_node ''xed_flag_action_enum_t_last'' (Some ''group__ENUM.html#gac37fef1f31349c9ed9e1cfdf395da50a'') Null]"

lemma xed_flag_action_enum_8h_closed: "list_all (closed_node scripts) xed_flag_action_enum_8h"
  by (simp only: xed_flag_action_enum_8h_def closed_rules)

definition xed_flag_enum_8h :: "nav_node list" where
  "xed_flag_enum_8h = [
    Nav_node ''xed_flag_enum_t'' (Some ''xed-flag-enum_8h.html#adeb40402942b755ccf3761c7e1804286'') (Nodes [
      Nav_node ''XED_FLAG_INVALID'' (Some ''xed-flag-enum_8h.html#adeb40402942b755ccf3761c7e1804286aa8bfc3616f8924295c9e0e9da2e4d40d'') Null,
      Nav_node ''XED_FLAG_of'' (Some ''xed-flag-enum_8h.html#adeb40402942b755ccf3761c7e1804286a2788057d6b4d85d66dd8180c09b6c7a9'') Null,
      Nav_node ''XED_FLAG_sf'' (Some ''xed-flag-enum_8h.html#adeb40402942b755ccf3761c7e1804286aa5daba7db45826c1e9c0aa8ccb0b8571'') Null,
      Nav_node ''XED_FLAG_zf'' (Some ''xed-flag-enum_8h.html#adeb40402942b755ccf3761c7e1804286a6c33547942a7e98304fd668cd119d760'') Null,
      Nav_node ''XED_FLAG_af'' (Some ''xed-flag-enum_8h.html#adeb40402942b755ccf3761c7e1804286a1875fd551d067ab89434f57199b1643e'') Null,
      Nav_node ''XED_FLAG_pf'' (Some ''xed-flag-enum_8h.html#adeb40402942b755ccf3761c7e1804286ab541cf3b145cbe80dbd7f704634755ce'') Null,
      Nav_node ''XED_FLAG_cf'' (Some ''xed-flag-enum_8h.html#adeb40402942b755ccf3761c7e1804286a361b336dae1374357916546b00c7844d'') Null,
      Nav_node ''XED_FLAG_df'' (Some ''xed-flag-enum_8h.html#adeb40402942b755ccf3761c7e1804286afe2ffadf0d39a23c97ba47a5188c90f6'') Null,
      Nav_node ''XED_FLAG_vif'' (Some ''xed-flag-enum_8h.html#adeb40402942b755ccf3761c7e1804286aa0608722d28a6761ec3d3a58ddca3c01'') Null,
      Nav_node ''XED_FLAG_iopl'' (Some ''xed-flag-enum_8h.html#adeb40402942b755ccf3761c7e1804286aa1b7ec6af41dc651f7569fd999380500'') Null,
      Nav_node ''XED_FLAG_if'' (Some ''xed-flag-enum_8h.html#adeb40402942b755ccf3761c7e1804286a6d3b945b954081e255b23132c390fe07'') Null,
      Nav_node ''XED_FLAG_ac'' (Some ''xed-flag-enum_8h.html#adeb40402942b755ccf3761c7e1804286a382a6eab1e5d0b45861be93b8e44cee6'') Null,
      Nav_node ''XED_FLAG_vm'' (Some ''xed-flag-enum_8h.html#adeb40402942b755ccf3761c7e1804286a8a0f10066187d9271b67756d5f2d98b9'') Null,
      Nav_node ''XED_FLAG_rf'' (Some ''xed-flag-enum_8h.html#adeb40402942b755ccf3761c7e1804286acbb63fb3d98ab496ef1b224af4c12139'') Null,
      Nav_node ''XED_FLAG_nt'' (Some ''xed-flag-enum_8h.html#adeb40402942b755ccf3761c7e1804286a97d43d533b2f42782005a86b33151b7a'') Null,
      Nav_node ''XED_FLAG_tf'' (Some ''xed-flag-enum_8h.html#adeb40402942b755ccf3761c7e1804286a480b5d6c10c1ea9160b30aa302fc8526'') Null,
      Nav_node ''XED_FLAG_id'' (Some ''xed-flag-enum_8h.html#adeb40402942b755ccf3761c7e1804286a255a980975b256ab987d81523d77dfd6'') Null,
      Nav_node ''XED_FLAG_vip'' (Some ''xed-flag-enum_8h.html#adeb40402942b755ccf3761c7e1804286a3a89ffce3cfcaaa20aa3f7dc61050dac'') Null,
      Nav_node ''XED_FLAG_fc0'' (Some ''xed-flag-enum_8h.html#adeb40402942b755ccf3761c7e1804286a403b48dd4db49716d67330629ab428f4'') Null,
      Nav_node ''XED_FLAG_fc1'' (Some ''xed-flag-enum_8h.html#adeb40402942b755ccf3761c7e1804286af5a8d3f8f1dd7731962546860d18612c'') Null,
      Nav_node ''XED_FLAG_fc2'' (Some ''xed-flag-enum_8h.html#adeb40402942b755ccf3761c7e1804286a403178d0e773ae89c0492ebf4a0a2e3e'') Null,
      Nav_node ''XED_FLAG_fc3'' (Some ''xed-flag-enum_8h.html#adeb40402942b755ccf3761c7e1804286a5c6a89d154a2924d5d9cc2780a703005'') Null,
      Nav_node ''XED_FLAG_LAST'' (Some ''xed-flag-enum_8h.html#adeb40402942b755ccf3761c7e1804286ade692c0fff6f563a25dbccd58aff1919'') Null]),
    Nav_node ''str2xed_flag_enum_t'' (Some ''group__ENUM.html#ga44725b8b3c08e8ca5d59ca11f07513f2'') Null,
    Nav_node ''xed_flag_enum_t2str'' (Some ''group__ENUM.html#gae4da58f64748390a11bd84b0588a4c1d'') Null,
    Nav_node ''xed_flag_enum_t_last'' (Some ''group__ENUM.html#gaedae7e6e529bf1f04346ddae172b23bd'') Null]"

lemma xed_flag_enum_8h_closed: "list_all (closed_node scripts) xed_flag_enum_8h"
  by (simp only: xed_flag_enum_8h_def closed_rules)

definition xed_flags_8h :: "nav_node list" where
  "xed_flags_8h = [
    Nav_node ''xed_flag_action_t'' (Some ''group__FLAGS.html#ga67dbae01ff01d7385fc0b932bea016a1'') Null,
    Nav_node ''xed_flag_set_t'' (Some ''xed-flags_8h.html#af3e34e5a4ce4fd34c47599c63314ce66'') Null,
    Nav_node ''xed_simple_flag_t'' (Some ''group__FLAGS.html#ga002ba726d6a37baddb92f95535f87329'') Null,
    Nav_node ''xed_flag_action_action_invalid'' (Some ''group__FLAGS.html#ga21cc087c3f007cc0944c7acf286f504c'') Null,
    Nav_node ''xed_flag_action_get_action'' (Some ''group__FLAGS.html#ga80abcc15e609878f1daaac1b988fc0fe'') Null,
    Nav_node ''xed_flag_action_get_flag_name'' (Some ''group__FLAGS.html#gabbffcc50db4e54b40a57a5427320c2a9'') Null,
    Nav_node ''xed_flag_action_print'' (Some ''group__FLAGS.html#gaabc09792128a39245636f4b0aab77f42'') Null,
    Nav_node ''xed_flag_action_read_action'' (Some ''group__FLAGS.html#ga8be4c3f2c1860838463073f8cccb9e02'') Null,
    Nav_node ''xed_flag_action_read_flag'' (Some ''group__FLAGS.html#ga08e4a4c4eea80dc85f569ca1a4b7f614'') Null,
    Nav_node ''xed_flag_action_write_action'' (Some ''group__FLAGS.html#ga93ce4bd708adffe1ec0c5c3a884802cc'') Null,
    Nav_node ''xed_flag_action_writes_flag'' (Some ''group__FLAGS.html#gae17824babf697205b4ec3ea1547e6f95'') Null,
    Nav_node ''xed_flag_set_is_subset_of'' (Some ''group__FLAGS.html#ga1beb49469f104f6e92147b0522fb7cc0'') Null,
    Nav_node ''xed_flag_set_mask'' (Some ''group__FLAGS.html#gaa51e48465bdabfb43983cbc887cf6c51'') Null,
    Nav_node ''xed_flag_set_print'' (Some ''group__FLAGS.html#ga7f7a68d1f3d02a08b60205a96e025bb2'') Null,
    Nav_node ''xed_simple_flag_get_flag_action'' (Some ''group__FLAGS.html#ga1db7706b1121de4f70e82fc85e3988c1'') Null,
    Nav_node ''xed_simple_flag_get_may_write'' (Some ''group__FLAGS.html#ga7ef6569c3ed439bc8987307492a59281'') Null,
    Nav_node ''xed_simple_flag_get_must_write'' (Some ''group__FLAGS.html#gab8e5992bf7dc342a056c4f57c80c01ed'') Null,
    Nav_node ''xed_simple_flag_get_nflags'' (Some ''group__FLAGS.html#ga786dd6f5adb1f8d6aa47f53c1531473c'') Null,
    Nav_node ''xed_simple_flag_get_read_flag_set'' (Some ''group__FLAGS.html#ga0ae38bd952ce6da5eac4dac97c943caa'') Null,
    Nav_node ''xed_simple_flag_get_undefined_flag_set'' (Some ''group__FLAGS.html#ga9428b5e072f9d0ccbf325b9e3e84cbf8'') Null,
    Nav_node ''xed_simple_flag_get_written_flag_set'' (Some ''group__FLAGS.html#gafd8226ec18ea804e5abbe9e6fef0c526'') Null,
    Nav_node ''xed_simple_flag_print'' (Some ''group__FLAGS.html#gaee816a433d9b1d87036165ac530c2a41'') Null,
    Nav_node ''xed_simple_flag_reads_flags'' (Some ''group__FLAGS.html#ga9aca7e505fe7962aa715528f32b18784'') Null,
    Nav_node ''xed_simple_flag_writes_flags'' (Some ''group__FLAGS.html#ga6bf79b1d9e94986b06db3977172ceeff'') Null]"

lemma xed_flags_8h_closed: "list_all (closed_node scripts) xed_flags_8h"
  by (simp only: xed_flags_8h_def closed_rules)

definition xed_format_options_8h :: "nav_node list" where
  "xed_format_options_8h = [
    Nav_node ''xed_format_set_options'' (Some ''group__PRINT.html#ga3c3cafaba9b3bd494f7a908f9e5af1b7'') Null]"

lemma xed_format_options_8h_closed: "list_all (closed_node scripts) xed_format_options_8h"
  by (simp only: xed_format_options_8h_def closed_rules)

definition xed_gen_table_defs_8h :: "nav_node list" where
  "xed_gen_table_defs_8h = [
    Nav_node ''XED_ICLASS_NAME_STR_MAX'' (Some ''xed-gen-table-defs_8h.html#a32d7af3613a6ebb74b3f9017b52e0c5a'') Null,
    Nav_node ''XED_MAX_ATTRIBUTE_COUNT'' (Some ''xed-gen-table-defs_8h.html#a547c85cb4ac2dc72d40533f59d403d88'') Null,
    Nav_node ''XED_MAX_CONVERT_PATTERNS'' (Some ''xed-gen-table-defs_8h.html#aac86ab9f7813f6e999b2732c8540ecfe'') Null,
    Nav_node ''XED_MAX_DECORATIONS_PER_OPERAND'' (Some ''xed-gen-table-defs_8h.html#aa05b1a46a729bbbf3210e20d8cfb2967'') Null,
    Nav_node ''XED_MAX_GLOBAL_FLAG_ACTIONS'' (Some ''xed-gen-table-defs_8h.html#a8d88303d74a44fb2a0f063b5c83dc1b1'') Null,
    Nav_node ''XED_MAX_IFORMS_PER_ICLASS'' (Some ''xed-gen-table-defs_8h.html#a9e437d2b3d1e19f37194f5d905b558f6'') Null,
    Nav_node ''XED_MAX_INST_TABLE_NODES'' (Some ''xed-gen-table-defs_8h.html#a72087c6d05f34b616acca54f62583063'') Null,
    Nav_node ''XED_MAX_OPERAND_SEQUENCES'' (Some ''xed-gen-table-defs_8h.html#a259f03e7fc44d7bc5a7e8fc49155fb89'') Null,
    Nav_node ''XED_MAX_OPERAND_TABLE_NODES'' (Some ''xed-gen-table-defs_8h.html#a96d71be5db3f232663b4cfc5057a84f9'') Null,
    Nav_node ''XED_MAX_REQUIRED_ATTRIBUTES'' (Some ''xed-gen-table-defs_8h.html#acdb91b4722887be17e24e66cd05d53db'') Null,
    Nav_node ''XED_MAX_REQUIRED_COMPLEX_FLAGS_ENTRIES'' (Some ''xed-gen-table-defs_8h.html#a12b324dad0715806de1ced7c00e3764e'') Null,
    Nav_node ''XED_MAX_REQUIRED_SIMPLE_FLAGS_ENTRIES'' (Some ''xed-gen-table-defs_8h.html#a5c16764977bba145c577eeeac0d06683'') Null]"

lemma xed_gen_table_defs_8h_closed: "list_all (closed_node scripts) xed_gen_table_defs_8h"
  by (simp only: xed_gen_table_defs_8h_def closed_rules)

definition xed_get_time_8h :: "nav_node list" where
  "xed_get_time_8h = [
    Nav_node ''xed_get_time'' (Some ''xed-get-time_8h.html#a0e766ae137a0ada8ef9631955fc3f012'') Null]"

lemma xed_get_time_8h_closed: "list_all (closed_node scripts) xed_get_time_8h"
  by (simp only: xed_get_time_8h_def closed_rules)

definition xed_iform_map_8h :: "nav_node list" where
  "xed_iform_map_8h = [
    Nav_node ''xed_iform_info_t'' (Some ''group__IFORM.html#ga0822d2c323a2dc6f3c8d7568b32c3d37'') Null,
    Nav_node ''xed_iform_first_per_iclass'' (Some ''group__IFORM.html#gacc68b1eaf1ddd6236b8d3210ec6637fc'') Null,
    Nav_node ''xed_iform_map'' (Some ''group__IFORM.html#ga76674b9c9b05d71e4c048483cfcc88ba'') Null,
    Nav_node ''xed_iform_max_per_iclass'' (Some ''group__IFORM.html#ga7b2e9c4095bddf90c3679c9fdd54b20c'') Null,
    Nav_node ''xed_iform_to_category'' (Some ''group__IFORM.html#ga65a96f3830f48855fe7f89886376c9ed'') Null,
    Nav_node ''xed_iform_to_extension'' (Some ''group__IFORM.html#ga4f356310abbef3ed1d4ba4271476b2d2'') Null,
    Nav_node ''xed_iform_to_iclass'' (Some ''group__IFORM.html#ga62721742b284835364ef1bc1fd027c24'') Null,
    Nav_node ''xed_iform_to_iclass_string_att'' (Some ''group__IFORM.html#gab02f8cf120505862ae9fdd2f17217bb8'') Null,
    Nav_node ''xed_iform_to_iclass_string_intel'' (Some ''group__IFORM.html#ga880fbf55253bc8ac7c2a566bf01f213b'') Null,
    Nav_node ''xed_iform_to_isa_set'' (Some ''group__IFORM.html#ga79c172050cd22eac5175f6981ca314ef'') Null]"

lemma xed_iform_map_8h_closed: "list_all (closed_node scripts) xed_iform_map_8h"
  by (simp only: xed_iform_map_8h_def closed_rules)

definition xed_immdis_8h :: "nav_node list" where
  "xed_immdis_8h = [
    Nav_node ''xed_immdis_s'' (Some ''structxed__immdis__s.html'') (Script ''structxed__immdis__s''),
    Nav_node ''xed_immdis_values_t'' (Some ''unionxed__immdis__values__t.html'') (Script ''unionxed__immdis__values__t''),
    Nav_node ''XED_MAX_IMMDIS_BYTES'' (Some ''xed-immdis_8h.html#ac24112540bbcc8fa68f707909a90f5b7'') Null,
    Nav_node ''xed_immdis_t'' (Some ''xed-immdis_8h.html#a781179e646ad2e23fa6f9551ecb5d282'') Null,
    Nav_node ''xed_immdis__check'' (Some ''xed-immdis_8h.html#a7cd715d7113d1b97181783491364c673'') Null,
    Nav_node ''xed_immdis__print_ptr'' (Some ''xed-immdis_8h.html#a881a008921d1efcd08bb94ae02ca9ade'') Null,
    Nav_node ''xed_immdis_add16'' (Some ''xed-immdis_8h.html#a4aba92c75a2790ec5c58d8f9b4624d6e'') Null,
    Nav_node ''xed_immdis_add32'' (Some ''xed-immdis_8h.html#a58b5fa6f2d5b90172e24e92ec5bb6e67'') Null,
    Nav_node ''xed_immdis_add64'' (Some ''xed-immdis_8h.html#ae042967b326bda13845e01f6833e495c'') Null,
    Nav_node ''xed_immdis_add8'' (Some ''xed-immdis_8h.html#a7c007e868ffb401c0a4eb21c22d9c67c'') Null,
    Nav_node ''xed_immdis_add_byte'' (Some ''xed-immdis_8h.html#adcbfb46803986fc54676211f33f47fa9'') Null,
    Nav_node ''xed_immdis_add_byte_array'' (Some ''xed-immdis_8h.html#a09715f91212c3dd59b359e7c92c2f7c7'') Null,
    Nav_node ''xed_immdis_add_shortest_width_signed'' (Some ''xed-immdis_8h.html#ab3e0e6243c6950ea4b0cf679f2db504a'') Null,
    Nav_node ''xed_immdis_add_shortest_width_unsigned'' (Some ''xed-immdis_8h.html#ade19d918e2f622210e9489ad44c45fb7'') Null,
    Nav_node ''xed_immdis_get_byte'' (Some ''xed-immdis_8h.html#ac9a5e17e32f55b3cef78ee79d9f74b8b'') Null,
    Nav_node ''xed_immdis_get_bytes'' (Some ''xed-immdis_8h.html#a7ba763c2150e4af7e707110f0f652f3f'') Null,
    Nav_node ''xed_immdis_get_max_length'' (Some ''xed-immdis_8h.html#a080f7760ed59c575127c916d69f744c8'') Null,
    Nav_node ''xed_immdis_get_signed64'' (Some ''xed-immdis_8h.html#a1bff44b0ca30c12563825ddcec37f78b'') Null,
    Nav_node ''xed_immdis_get_unsigned64'' (Some ''xed-immdis_8h.html#afe3967ac09cbb8ad05ddd129497b1c4d'') Null,
    Nav_node ''xed_immdis_init'' (Some ''xed-immdis_8h.html#a4859cf5e21466fa6901ac22e8beae61d'') Null,
    Nav_node ''xed_immdis_is_one'' (Some ''xed-immdis_8h.html#af5b69e09505844a5d9d5658593f58c5f'') Null,
    Nav_node ''xed_immdis_is_present'' (Some ''xed-immdis_8h.html#a35f17051ebfbdf7a0444ac8ec1ab68c0'') Null,
    Nav_node ''xed_immdis_is_signed'' (Some ''xed-immdis_8h.html#ac3fc38384a98d3225bbba3e99e156821'') Null,
    Nav_node ''xed_immdis_is_unsigned'' (Some ''xed-immdis_8h.html#aeb0b0470ead4d7954b7a43787e92329a'') Null,
    Nav_node ''xed_immdis_is_zero'' (Some ''xed-immdis_8h.html#a9b7cdb1e53c5f2b9bdb820746a470000'') Null,
    Nav_node ''xed_immdis_print'' (Some ''xed-immdis_8h.html#a2c87a0bf677815bf5ceb28d867ec2724'') Null,
    Nav_node ''xed_immdis_print_signed_or_unsigned'' (Some ''xed-immdis_8h.html#a5c7be9651737f169081ce5effce16a75'') Null,
    Nav_node ''xed_immdis_print_value_signed'' (Some ''xed-immdis_8h.html#a1050a0165c958cf65f8305b55d601935'') Null,
    Nav_node ''xed_immdis_print_value_unsigned'' (Some ''xed-immdis_8h.html#af0ffb75b68187b71fa1ecb9f70147cb0'') Null,
    Nav_node ''xed_immdis_set_max_len'' (Some ''xed-immdis_8h.html#a077f0a257bae6a6c6fc8f3acd5ccbd46'') Null,
    Nav_node ''xed_immdis_set_present'' (Some ''xed-immdis_8h.html#a52caa513281d320cfd60ff7e6108191f'') Null,
    Nav_node ''xed_immdis_set_signed'' (Some ''xed-immdis_8h.html#a8d3377b643eb6a4193cb4e1be2198286'') Null,
    Nav_node ''xed_immdis_set_unsigned'' (Some ''xed-immdis_8h.html#a53444944f075c3fdce2410506fb8e6bd'') Null,
    Nav_node ''xed_immdis_zero'' (Some ''xed-immdis_8h.html#a0edf6a8a2b843bfecdc2f004aace6425'') Null]"

definition xed_immed_8h :: "nav_node list" where
  "xed_immed_8h = [
    Nav_node ''xed_immed_from_bytes'' (Some ''xed-immed_8h.html#a04c8a647107fb7affbf1e6b51613a8ec'') Null]"

lemma xed_immed_8h_closed: "list_all (closed_node scripts) xed_immed_8h"
  by (simp only: xed_immed_8h_def closed_rules)

definition xed_init_8h :: "nav_node list" where
  "xed_init_8h = [
    Nav_node ''xed_tables_init'' (Some ''group__INIT.html#gacc180d75159533eb63e61611004d4512'') Null]"

lemma xed_init_8h_closed: "list_all (closed_node scripts) xed_init_8h"
  by (simp only: xed_init_8h_def closed_rules)

definition xed_init_pointer_names_8h :: "nav_node list" where
  "xed_init_pointer_names_8h = [
    Nav_node ''XED_MAX_POINTER_NAMES'' (Some ''xed-init-pointer-names_8h.html#a43d04300923d6317e30a3505cf592cc1'') Null]"

lemma xed_init_pointer_names_8h_closed: "list_all (closed_node scripts) xed_init_pointer_names_8h"
  by (simp only: xed_init_pointer_names_8h_def closed_rules)

definition xed_isa_set_8h :: "nav_node list" where
  "xed_isa_set_8h = [
    Nav_node ''xed_isa_set_is_valid_for_chip'' (Some ''group__ISASET.html#ga84dd41dd65bce8f8daabc8ce69c4d043'') Null]"

lemma xed_isa_set_8h_closed: "list_all (closed_node scripts) xed_isa_set_8h"
  by (simp only: xed_isa_set_8h_def closed_rules)

definition xed_isa_set_enum_8h :: "nav_node list" where
  "xed_isa_set_enum_8h = [
    Nav_node ''xed_isa_set_enum_t'' (Some ''xed-isa-set-enum_8h.html#a4a1095357d6e9552d94418d2bd9f5681'') (Nodes [
      Nav_node ''XED_ISA_SET_INVALID'' (Some ''xed-isa-set-enum_8h.html#a4a1095357d6e9552d94418d2bd9f5681a31ec834b2aeef81e95536a8b1b99f23f'') Null,
      Nav_node ''XED_ISA_SET_3DNOW'' (Some ''xed-isa-set-enum_8h.html#a4a1095357d6e9552d94418d2bd9f5681add59103faebda02771e558b014407950'') Null,
      Nav_node ''XED_ISA_SET_AES'' (Some ''xed-isa-set-enum_8h.html#a4a1095357d6e9552d94418d2bd9f5681a8cb4db2ee6a7392d6c280bf2cdd88eb9'') Null,
      Nav_node ''XED_ISA_SET_AMD'' (Some ''xed-isa-set-enum_8h.html#a4a1095357d6e9552d94418d2bd9f5681a50c55586b616e78614dc6165f03fa593'') Null,
      Nav_node ''XED_ISA_SET_AVX'' (Some ''xed-isa-set-enum_8h.html#a4a1095357d6e9552d94418d2bd9f5681af5a2abf9f0b749fc8a079ca31e979486'') Null,
      Nav_node ''XED_ISA_SET_AVX2'' (Some ''xed-isa-set-enum_8h.html#a4a1095357d6e9552d94418d2bd9f5681a313932dd1e69788fddceb7d077659258'') Null,
      Nav_node ''XED_ISA_SET_AVX2GATHER'' (Some ''xed-isa-set-enum_8h.html#a4a1095357d6e9552d94418d2bd9f5681aa42b0c59ebfcaa0af1f571dc50c11463'') Null,
      Nav_node ''XED_ISA_SET_AVX512BW_128'' (Some ''xed-isa-set-enum_8h.html#a4a1095357d6e9552d94418d2bd9f5681a951b6647cc10be568aab72aad7230708'') Null,
      Nav_node ''XED_ISA_SET_AVX512BW_128N'' (Some ''xed-isa-set-enum_8h.html#a4a1095357d6e9552d94418d2bd9f5681a0afc5ff2804052341e31f40024b60a7d'') Null,
      Nav_node ''XED_ISA_SET_AVX512BW_256'' (Some ''xed-isa-set-enum_8h.html#a4a1095357d6e9552d94418d2bd9f5681a4c44c9913d38f9ef5c6e587115fc840a'') Null,
      Nav_node ''XED_ISA_SET_AVX512BW_512'' (Some ''xed-isa-set-enum_8h.html#a4a1095357d6e9552d94418d2bd9f5681ab2bf586b7e2035d8c676a5fae1303a3d'') Null,
      Nav_node ''XED_ISA_SET_AVX512BW_KOP'' (Some ''xed-isa-set-enum_8h.html#a4a1095357d6e9552d94418d2bd9f5681a298a0dc383c301fbe2a4d8284a29df3e'') Null,
      Nav_node ''XED_ISA_SET_AVX512CD_128'' (Some ''xed-isa-set-enum_8h.html#a4a1095357d6e9552d94418d2bd9f5681a6f23bf8edbfbe355f22c427707ed678d'') Null,
      Nav_node ''XED_ISA_SET_AVX512CD_256'' (Some ''xed-isa-set-enum_8h.html#a4a1095357d6e9552d94418d2bd9f5681abc349fb869929ab820355736175a3772'') Null,
      Nav_node ''XED_ISA_SET_AVX512CD_512'' (Some ''xed-isa-set-enum_8h.html#a4a1095357d6e9552d94418d2bd9f5681aa9d1646cb8b23252d5b602620e313397'') Null,
      Nav_node ''XED_ISA_SET_AVX512DQ_128'' (Some ''xed-isa-set-enum_8h.html#a4a1095357d6e9552d94418d2bd9f5681a7873219d63b0c2baf8d05c443fab2720'') Null,
      Nav_node ''XED_ISA_SET_AVX512DQ_128N'' (Some ''xed-isa-set-enum_8h.html#a4a1095357d6e9552d94418d2bd9f5681a3df4f338ca4b4fd70aadc0c7087a20b9'') Null,
      Nav_node ''XED_ISA_SET_AVX512DQ_256'' (Some ''xed-isa-set-enum_8h.html#a4a1095357d6e9552d94418d2bd9f5681a6be374b150110f1c583d1818faf598ec'') Null,
      Nav_node ''XED_ISA_SET_AVX512DQ_512'' (Some ''xed-isa-set-enum_8h.html#a4a1095357d6e9552d94418d2bd9f5681a8d884b97df29f69e884255aa978fc248'') Null,
      Nav_node ''XED_ISA_SET_AVX512DQ_KOP'' (Some ''xed-isa-set-enum_8h.html#a4a1095357d6e9552d94418d2bd9f5681a970d33c0db44b68574ebc36cd0f04025'') Null,
      Nav_node ''XED_ISA_SET_AVX512DQ_SCALAR'' (Some ''xed-isa-set-enum_8h.html#a4a1095357d6e9552d94418d2bd9f5681a65774921949dbaba4939afbbd34078c5'') Null,
      Nav_node ''XED_ISA_SET_AVX512ER_512'' (Some ''xed-isa-set-enum_8h.html#a4a1095357d6e9552d94418d2bd9f5681a10fc1d748588bf5ae6c9559d94c971b5'') Null,
      Nav_node ''XED_ISA_SET_AVX512ER_SCALAR'' (Some ''xed-isa-set-enum_8h.html#a4a1095357d6e9552d94418d2bd9f5681ab82faaf43a547ed9a8f91712f792a5e1'') Null,
      Nav_node ''XED_ISA_SET_AVX512F_128'' (Some ''xed-isa-set-enum_8h.html#a4a1095357d6e9552d94418d2bd9f5681aea2362c4b28b9ac1179aaed09dfc4ff1'') Null,
      Nav_node ''XED_ISA_SET_AVX512F_128N'' (Some ''xed-isa-set-enum_8h.html#a4a1095357d6e9552d94418d2bd9f5681ad5e55da90753426c0e3c6d26c4921070'') Null,
      Nav_node ''XED_ISA_SET_AVX512F_256'' (Some ''xed-isa-set-enum_8h.html#a4a1095357d6e9552d94418d2bd9f5681a5bfa0cf0ec84d9067330cbf8a34014f1'') Null,
      Nav_node ''XED_ISA_SET_AVX512F_512'' (Some ''xed-isa-set-enum_8h.html#a4a1095357d6e9552d94418d2bd9f5681a25988b0deef9359e5fe18689c64775d8'') Null,
      Nav_node ''XED_ISA_SET_AVX512F_KOP'' (Some ''xed-isa-set-enum_8h.html#a4a1095357d6e9552d94418d2bd9f5681a5df4fe693523bf600d6250de16d9cff7'') Null,
      Nav_node ''XED_ISA_SET_AVX512F_SCALAR'' (Some ''xed-isa-set-enum_8h.html#a4a1095357d6e9552d94418d2bd9f5681aaf1fbfe6eb2a62febe5f5b5a789c296b'') Null,
      Nav_node ''XED_ISA_SET_AVX512IFMA_128'' (Some ''xed-isa-set-enum_8h.html#a4a1095357d6e9552d94418d2bd9f5681a06f48f014beedc86240c60091bd359bd'') Null,
      Nav_node ''XED_ISA_SET_AVX512IFMA_256'' (Some ''xed-isa-set-enum_8h.html#a4a1095357d6e9552d94418d2bd9f5681a734e780a4768cbd2289363e2611493bf'') Null,
      Nav_node ''XED_ISA_SET_AVX512IFMA_512'' (Some ''xed-isa-set-enum_8h.html#a4a1095357d6e9552d94418d2bd9f5681a2a3b68e9a6fdd3e4e9c2e878cb3b7c25'') Null,
      Nav_node ''XED_ISA_SET_AVX512PF_512'' (Some ''xed-isa-set-enum_8h.html#a4a1095357d6e9552d94418d2bd9f5681a5d2ed24a350f219a0fdb58106f277a3c'') Null,
      Nav_node ''XED_ISA_SET_AVX512VBMI_128'' (Some ''xed-isa-set-enum_8h.html#a4a1095357d6e9552d94418d2bd9f5681aa18076e2e13c06efafabf2d1fd4b8efd'') Null,
      Nav_node ''XED_ISA_SET_AVX512VBMI_256'' (Some ''xed-isa-set-enum_8h.html#a4a1095357d6e9552d94418d2bd9f5681a690e6c10cb45588e01db86b6919c4b68'') Null,
      Nav_node ''XED_ISA_SET_AVX512VBMI_512'' (Some ''xed-isa-set-enum_8h.html#a4a1095357d6e9552d94418d2bd9f5681ac7b82296eb35a1ad8d0448f9826f644c'') Null,
      Nav_node ''XED_ISA_SET_BDW'' (Some ''xed-isa-set-enum_8h.html#a4a1095357d6e9552d94418d2bd9f5681aa6f759934cdd20ab940b4cb98e359be1'') Null,
      Nav_node ''XED_ISA_SET_BMI1'' (Some ''xed-isa-set-enum_8h.html#a4a1095357d6e9552d94418d2bd9f5681a10f359365fbc7e1f8449f8a37d277d01'') Null,
      Nav_node ''XED_ISA_SET_BMI2'' (Some ''xed-isa-set-enum_8h.html#a4a1095357d6e9552d94418d2bd9f5681a827cac90e691bb012ff010405a161c36'') Null,
      Nav_node ''XED_ISA_SET_CLFLUSHOPT'' (Some ''xed-isa-set-enum_8h.html#a4a1095357d6e9552d94418d2bd9f5681a17bb213ae700e93e05bf873799483734'') Null,
      Nav_node ''XED_ISA_SET_CLFSH'' (Some ''xed-isa-set-enum_8h.html#a4a1095357d6e9552d94418d2bd9f5681abd526346b724d7464e7a2fd876616aed'') Null,
      Nav_node ''XED_ISA_SET_CLWB'' (Some ''xed-isa-set-enum_8h.html#a4a1095357d6e9552d94418d2bd9f5681ab0f7dde3e1859edd96c443041bfc8aef'') Null,
      Nav_node ''XED_ISA_SET_CMPXCHG16B'' (Some ''xed-isa-set-enum_8h.html#a4a1095357d6e9552d94418d2bd9f5681a0255fe2b4bf06bb74c62b2773b974352'') Null,
      Nav_node ''XED_ISA_SET_F16C'' (Some ''xed-isa-set-enum_8h.html#a4a1095357d6e9552d94418d2bd9f5681aedce66c318a681f9e9660de79e8d3855'') Null,
      Nav_node ''XED_ISA_SET_FMA'' (Some ''xed-isa-set-enum_8h.html#a4a1095357d6e9552d94418d2bd9f5681a44979b9bf6d48d6ad14dc4ec16e37ac4'') Null,
      Nav_node ''XED_ISA_SET_FMA4'' (Some ''xed-isa-set-enum_8h.html#a4a1095357d6e9552d94418d2bd9f5681a387361671f8b84ca6c68e9436ce62398'') Null,
      Nav_node ''XED_ISA_SET_FXSAVE'' (Some ''xed-isa-set-enum_8h.html#a4a1095357d6e9552d94418d2bd9f5681a0dd1ef44c9306ae8bf7129c830342be7'') Null,
      Nav_node ''XED_ISA_SET_FXSAVE64'' (Some ''xed-isa-set-enum_8h.html#a4a1095357d6e9552d94418d2bd9f5681ad9cfe4e27f35fedf3158b3a9f9806fb9'') Null,
      Nav_node ''XED_ISA_SET_I186'' (Some ''xed-isa-set-enum_8h.html#a4a1095357d6e9552d94418d2bd9f5681af033b1beffda1376b7cd95cead7c3b1c'') Null,
      Nav_node ''XED_ISA_SET_I286PROTECTED'' (Some ''xed-isa-set-enum_8h.html#a4a1095357d6e9552d94418d2bd9f5681a7cf4edb252a5a23371664998986824a7'') Null,
      Nav_node ''XED_ISA_SET_I286REAL'' (Some ''xed-isa-set-enum_8h.html#a4a1095357d6e9552d94418d2bd9f5681ac7bb624f8a0695bd87c721bcf3804544'') Null,
      Nav_node ''XED_ISA_SET_I386'' (Some ''xed-isa-set-enum_8h.html#a4a1095357d6e9552d94418d2bd9f5681a35eb6188b78c704663faa74ba4e5d0a4'') Null,
      Nav_node ''XED_ISA_SET_I486'' (Some ''xed-isa-set-enum_8h.html#a4a1095357d6e9552d94418d2bd9f5681a01360b8f67c74ba1e9f2a343b41fe907'') Null,
      Nav_node ''XED_ISA_SET_I486REAL'' (Some ''xed-isa-set-enum_8h.html#a4a1095357d6e9552d94418d2bd9f5681a282de1ecd3f5bf7c38e73ef4b45503cc'') Null,
      Nav_node ''XED_ISA_SET_I86'' (Some ''xed-isa-set-enum_8h.html#a4a1095357d6e9552d94418d2bd9f5681a597e5b3d0e1a876acdf835e6334c642d'') Null,
      Nav_node ''XED_ISA_SET_INVPCID'' (Some ''xed-isa-set-enum_8h.html#a4a1095357d6e9552d94418d2bd9f5681afb599bbd97c549c88745380565d7899b'') Null,
      Nav_node ''XED_ISA_SET_LAHF'' (Some ''xed-isa-set-enum_8h.html#a4a1095357d6e9552d94418d2bd9f5681a7371b2ed01f48c02b592d36bef8fcf5f'') Null,
      Nav_node ''XED_ISA_SET_LONGMODE'' (Some ''xed-isa-set-enum_8h.html#a4a1095357d6e9552d94418d2bd9f5681a39f3f07e0a080bf760c17cd274497439'') Null,
      Nav_node ''XED_ISA_SET_LZCNT'' (Some ''xed-isa-set-enum_8h.html#a4a1095357d6e9552d94418d2bd9f5681a26deddf9c1e59a9651eac91d04287f41'') Null,
      Nav_node ''XED_ISA_SET_MOVBE'' (Some ''xed-isa-set-enum_8h.html#a4a1095357d6e9552d94418d2bd9f5681aa50c0c2fbf4f9bbb6879124bd756011f'') Null,
      Nav_node ''XED_ISA_SET_MPX'' (Some ''xed-isa-set-enum_8h.html#a4a1095357d6e9552d94418d2bd9f5681afa18e3b6cd3c1c41a828b63e3877cc57'') Null,
      Nav_node ''XED_ISA_SET_PAUSE'' (Some ''xed-isa-set-enum_8h.html#a4a1095357d6e9552d94418d2bd9f5681afb98395618bad43203c4ef14d6e04375'') Null,
      Nav_node ''XED_ISA_SET_PCLMULQDQ'' (Some ''xed-isa-set-enum_8h.html#a4a1095357d6e9552d94418d2bd9f5681ae0d00cc9de6169a18a826df9b703847f'') Null,
      Nav_node ''XED_ISA_SET_PCOMMIT'' (Some ''xed-isa-set-enum_8h.html#a4a1095357d6e9552d94418d2bd9f5681a3c3d92abb06d074b797a091d0b34bde0'') Null,
      Nav_node ''XED_ISA_SET_PENTIUMMMX'' (Some ''xed-isa-set-enum_8h.html#a4a1095357d6e9552d94418d2bd9f5681a2ef694973bffc66740604ad284ab32ab'') Null,
      Nav_node ''XED_ISA_SET_PENTIUMREAL'' (Some ''xed-isa-set-enum_8h.html#a4a1095357d6e9552d94418d2bd9f5681a61f52e077aff9b6dcb6b48d6548185ff'') Null,
      Nav_node ''XED_ISA_SET_POPCNT'' (Some ''xed-isa-set-enum_8h.html#a4a1095357d6e9552d94418d2bd9f5681aeaa68465e0f18c5813c44e650d0dd7da'') Null,
      Nav_node ''XED_ISA_SET_PPRO'' (Some ''xed-isa-set-enum_8h.html#a4a1095357d6e9552d94418d2bd9f5681af723f2176b44c38b2a1bcca74cb8c0a9'') Null,
      Nav_node ''XED_ISA_SET_PREFETCHW'' (Some ''xed-isa-set-enum_8h.html#a4a1095357d6e9552d94418d2bd9f5681a487d1757c011275501ff404837a13679'') Null,
      Nav_node ''XED_ISA_SET_PREFETCHWT1'' (Some ''xed-isa-set-enum_8h.html#a4a1095357d6e9552d94418d2bd9f5681a63930187ca01bee50585d7719dd7c72f'') Null,
      Nav_node ''XED_ISA_SET_PREFETCH_NOP'' (Some ''xed-isa-set-enum_8h.html#a4a1095357d6e9552d94418d2bd9f5681af73fc7efc078e43842a50ea8287dec03'') Null,
      Nav_node ''XED_ISA_SET_RDPMC'' (Some ''xed-isa-set-enum_8h.html#a4a1095357d6e9552d94418d2bd9f5681afb5abcb2cfc2203b826edaa90e22db38'') Null,
      Nav_node ''XED_ISA_SET_RDRAND'' (Some ''xed-isa-set-enum_8h.html#a4a1095357d6e9552d94418d2bd9f5681a0e67c0359b322ef4507977429668bc06'') Null,
      Nav_node ''XED_ISA_SET_RDSEED'' (Some ''xed-isa-set-enum_8h.html#a4a1095357d6e9552d94418d2bd9f5681a212e9eacce293b7c7a507acdc6d57d27'') Null,
      Nav_node ''XED_ISA_SET_RDTSCP'' (Some ''xed-isa-set-enum_8h.html#a4a1095357d6e9552d94418d2bd9f5681a787e658768bfe8b00c3cf2038e5ba9f9'') Null,
      Nav_node ''XED_ISA_SET_RDWRFSGS'' (Some ''xed-isa-set-enum_8h.html#a4a1095357d6e9552d94418d2bd9f5681ab404ec73552cb86d6bca16f01889f63f'') Null,
      Nav_node ''XED_ISA_SET_RTM'' (Some ''xed-isa-set-enum_8h.html#a4a1095357d6e9552d94418d2bd9f5681a520dd5acd979ff682ce0f0a545ab511f'') Null,
      Nav_node ''XED_ISA_SET_SGX'' (Some ''xed-isa-set-enum_8h.html#a4a1095357d6e9552d94418d2bd9f5681ab787653d6a19390d6e885aea6b7f1912'') Null,
      Nav_node ''XED_ISA_SET_SHA'' (Some ''xed-isa-set-enum_8h.html#a4a1095357d6e9552d94418d2bd9f5681a4c9040f9509dc4acb01e4faa3c154bcf'') Null,
      Nav_node ''XED_ISA_SET_SMAP'' (Some ''xed-isa-set-enum_8h.html#a4a1095357d6e9552d94418d2bd9f5681ab4702464efb481c29c9693fcd6b7e3f9'') Null,
      Nav_node ''XED_ISA_SET_SMX'' (Some ''xed-isa-set-enum_8h.html#a4a1095357d6e9552d94418d2bd9f5681afd1a287b6b0c66906a0270e7b4622871'') Null,
      Nav_node ''XED_ISA_SET_SSE'' (Some ''xed-isa-set-enum_8h.html#a4a1095357d6e9552d94418d2bd9f5681a96f0084547d32d4b063e2bbc50ad5bce'') Null,
      Nav_node ''XED_ISA_SET_SSE2'' (Some ''xed-isa-set-enum_8h.html#a4a1095357d6e9552d94418d2bd9f5681a67948e6dd02deac351d6869b10e14ca6'') Null,
      Nav_node ''XED_ISA_SET_SSE3'' (Some ''xed-isa-set-enum_8h.html#a4a1095357d6e9552d94418d2bd9f5681a20a1be93a2e9f7cc5dc9c79f1fe1e8b1'') Null,
      Nav_node ''XED_ISA_SET_SSE4'' (Some ''xed-isa-set-enum_8h.html#a4a1095357d6e9552d94418d2bd9f5681a7e5fda9a861ae6cca913693e922332fe'') Null,
      Nav_node ''XED_ISA_SET_SSE42'' (Some ''xed-isa-set-enum_8h.html#a4a1095357d6e9552d94418d2bd9f5681ab8e2742f5742eac35b5c785d257bec28'') Null,
      Nav_node ''XED_ISA_SET_SSE4A'' (Some ''xed-isa-set-enum_8h.html#a4a1095357d6e9552d94418d2bd9f5681a7d8f5d476f3d4efe5945664eed5ff5e4'') Null,
      Nav_node ''XED_ISA_SET_SSEMXCSR'' (Some ''xed-isa-set-enum_8h.html#a4a1095357d6e9552d94418d2bd9f5681aa657cf4cd8689fddecd05f24428696ee'') Null,
      Nav_node ''XED_ISA_SET_SSSE3'' (Some ''xed-isa-set-enum_8h.html#a4a1095357d6e9552d94418d2bd9f5681a6ac6422fed459a32dc6d4f08b90e497d'') Null,
      Nav_node ''XED_ISA_SET_SVM'' (Some ''xed-isa-set-enum_8h.html#a4a1095357d6e9552d94418d2bd9f5681a2bb17fb028b17b3661cced4f8bab58f5'') Null,
      Nav_node ''XED_ISA_SET_TBM'' (Some ''xed-isa-set-enum_8h.html#a4a1095357d6e9552d94418d2bd9f5681a67e5cb58e432bb05c65ca99beb41ddf7'') Null,
      Nav_node ''XED_ISA_SET_VMFUNC'' (Some ''xed-isa-set-enum_8h.html#a4a1095357d6e9552d94418d2bd9f5681aa82060c068d9b1ac91ef9e0e3d2c894a'') Null,
      Nav_node ''XED_ISA_SET_VTX'' (Some ''xed-isa-set-enum_8h.html#a4a1095357d6e9552d94418d2bd9f5681a3b0589dda0dda7ae02fdd1656578005a'') Null,
      Nav_node ''XED_ISA_SET_X87'' (Some ''xed-isa-set-enum_8h.html#a4a1095357d6e9552d94418d2bd9f5681a448183b8ca5264e23bea5a337fc1d1c1'') Null,
      Nav_node ''XED_ISA_SET_XOP'' (Some ''xed-isa-set-enum_8h.html#a4a1095357d6e9552d94418d2bd9f5681ac6ffcfd32dac9e43693a692530b0fb72'') Null,
      Nav_node ''XED_ISA_SET_XSAVE'' (Some ''xed-isa-set-enum_8h.html#a4a1095357d6e9552d94418d2bd9f5681a2477c3aa7866afb6e7c48697458522e1'') Null,
      Nav_node ''XED_ISA_SET_XSAVEC'' (Some ''xed-isa-set-enum_8h.html#a4a1095357d6e9552d94418d2bd9f5681a80662c55b3acb80e109e3e28366c9390'') Null,
      Nav_node ''XED_ISA_SET_XSAVEOPT'' (Some ''xed-isa-set-enum_8h.html#a4a1095357d6e9552d94418d2bd9f5681a87df66c1776b096c1b9b7d26b030aa11'') Null,
      Nav_node ''XED_ISA_SET_XSAVES'' (Some ''xed-isa-set-enum_8h.html#a4a1095357d6e9552d94418d2bd9f5681a176a801066871cb2dc0b2d6b5329a93e'') Null,
      Nav_node ''XED_ISA_SET_LAST'' (Some ''xed-isa-set-enum_8h.html#a4a1095357d6e9552d94418d2bd9f5681a00b01ece0688a7010d979d72f1a940fd'') Null]),
    Nav_node ''str2xed_isa_set_enum_t'' (Some ''group__ENUM.html#ga4ac337dee7f8244b938c8f8968fff863'') Null,
    Nav_node ''xed_isa_set_enum_t2str'' (Some ''group__ENUM.html#ga41b861ab0cc8eccb30268f51d93520a0'') Null,
    Nav_node ''xed_isa_set_enum_t_last'' (Some ''group__ENUM.html#gaed97a92fece0324076645c35fb181ec0'') Null]"

lemma xed_isa_set_enum_8h_closed: "list_all (closed_node scripts) xed_isa_set_enum_8h"
  by (simp only: xed_isa_set_enum_8h_def closed_rules)

definition xed_machine_mode_enum_8h :: "nav_node list" where
  "xed_machine_mode_enum_8h = [
    Nav_node ''xed_machine_mode_enum_t'' (Some ''xed-machine-mode-enum_8h.html#a754db9d73c5365644094cd161fe570a7'') (Nodes [
      Nav_node ''XED_MACHINE_MODE_INVALID'' (Some ''xed-machine-mode-enum_8h.html#a754db9d73c5365644094cd161fe570a7a3f27b5c4953ac16143c8c15c71b9ff00'') Null,
      Nav_node ''XED_MACHINE_MODE_LONG_64'' (Some ''xed-machine-mode-enum_8h.html#a754db9d73c5365644094cd161fe570a7a708dc25876ca1910c387c0a4f2f066cb'') Null,
      Nav_node ''XED_MACHINE_MODE_LONG_COMPAT_32'' (Some ''xed-machine-mode-enum_8h.html#a754db9d73c5365644094cd161fe570a7a1f0b512a8836f22da0b51bee9c656cd2'') Null,
      Nav_node ''XED_MACHINE_MODE_LONG_COMPAT_16'' (Some ''xed-machine-mode-enum_8h.html#a754db9d73c5365644094cd161fe570a7a4cfc0a828f9fce37f07d0764d49a0976'') Null,
      Nav_node ''XED_MACHINE_MODE_LEGACY_32'' (Some ''xed-machine-mode-enum_8h.html#a754db9d73c5365644094cd161fe570a7aa96a9d517621e28100e179eff7c92458'') Null,
      Nav_node ''XED_MACHINE_MODE_LEGACY_16'' (Some ''xed-machine-mode-enum_8h.html#a754db9d73c5365644094cd161fe570a7a389547057da410225afe20064b3a4c0e'') Null,
      Nav_node ''XED_MACHINE_MODE_REAL_16'' (Some ''xed-machine-mode-enum_8h.html#a754db9d73c5365644094cd161fe570a7a42b4d1fea99e7128a28e001b0caf6e5b'') Null,
      Nav_node ''XED_MACHINE_MODE_LAST'' (Some ''xed-machine-mode-enum_8h.html#a754db9d73c5365644094cd161fe570a7a97414d3e1b22e5bb1f62ce7d98465966'') Null]),
    Nav_node ''str2xed_machine_mode_enum_t'' (Some ''group__ENUM.html#gaa6229dc875554ab07fbb2b1bdd18bb65'') Null,
    Nav_node ''xed_machine_mode_enum_t2str'' (Some ''group__ENUM.html#ga1d0f063ce142ae7b52fff306c1a5fd75'') Null,
    Nav_node ''xed_machine_mode_enum_t_last'' (Some ''group__ENUM.html#ga0da5a2732f8dc5cdd043f920ea6a9416'') Null]"

lemma xed_machine_mode_enum_8h_closed: "list_all (closed_node scripts) xed_machine_mode_enum_8h"
  by (simp only: xed_machine_mode_enum_8h_def closed_rules)

definition xed_nonterminal_enum_8h_values_1 :: "nav_node list" where
  "xed_nonterminal_enum_8h_values_1 = [
    Nav_node ''XED_NONTERMINAL_INVALID'' (Some ''xed-nonterminal-enum_8h.html#ae0eb8f71a8f89cddf0df4b1a6a2b27afa904da4ffddfdfc5c9ecd9154ac6099e3'') Null,
    Nav_node ''XED_NONTERMINAL_AR10'' (Some ''xed-nonterminal-enum_8h.html#ae0eb8f71a8f89cddf0df4b1a6a2b27aface645694a8769afbbb3c09e0ed53615c'') Null,
    Nav_node ''XED_NONTERMINAL_AR11'' (Some ''xed-nonterminal-enum_8h.html#ae0eb8f71a8f89cddf0df4b1a6a2b27afae794ef63f48d8fbdcec3348cc6e9d088'') Null,
    Nav_node ''XED_NONTERMINAL_AR12'' (Some ''xed-nonterminal-enum_8h.html#ae0eb8f71a8f89cddf0df4b1a6a2b27afa7a29ac6160ece2532ab3360f1e617baa'') Null,
    Nav_node ''XED_NONTERMINAL_AR13'' (Some ''xed-nonterminal-enum_8h.html#ae0eb8f71a8f89cddf0df4b1a6a2b27afa7470aba6c4ecc3d98370eb39cbc30772'') Null,
    Nav_node ''XED_NONTERMINAL_AR14'' (Some ''xed-nonterminal-enum_8h.html#ae0eb8f71a8f89cddf0df4b1a6a2b27afaea124a14412c24c02d613a904e9b75a1'') Null,
    Nav_node ''XED_NONTERMINAL_AR15'' (Some ''xed-nonterminal-enum_8h.html#ae0eb8f71a8f89cddf0df4b1a6a2b27afab53034dd4f54c84f006d843effbfd24e'') Null,
    Nav_node ''XED_NONTERMINAL_AR8'' (Some ''xed-nonterminal-enum_8h.html#ae0eb8f71a8f89cddf0df4b1a6a2b27afa86e845b22ceeda5b2e4d52e6ce758b56'') Null,
    Nav_node ''XED_NONTERMINAL_AR9'' (Some ''xed-nonterminal-enum_8h.html#ae0eb8f71a8f89cddf0df4b1a6a2b27afae08a8429be4da2572875016c79d7f247'') Null,
    Nav_node ''XED_NONTERMINAL_ARAX'' (Some ''xed-nonterminal-enum_8h.html#ae0eb8f71a8f89cddf0df4b1a6a2b27afaa253a71b5875d3fe1ec828b88ca7ef48'') Null,
    Nav_node ''XED_NONTERMINAL_ARBP'' (Some ''xed-nonterminal-enum_8h.html#ae0eb8f71a8f89cddf0df4b1a6a2b27afa3b5c122712034d5327b5a05045afc5dc'') Null,
    Nav_node ''XED_NONTERMINAL_ARBX'' (Some ''xed-nonterminal-enum_8h.html#ae0eb8f71a8f89cddf0df4b1a6a2b27afae0c1665baf7b39ba01004dc27b94a7c7'') Null,
    Nav_node ''XED_NONTERMINAL_ARCX'' (Some ''xed-nonterminal-enum_8h.html#ae0eb8f71a8f89cddf0df4b1a6a2b27afaaab83e51ffe383631b3e984a38efaaa2'') Null,
    Nav_node ''XED_NONTERMINAL_ARDI'' (Some ''xed-nonterminal-enum_8h.html#ae0eb8f71a8f89cddf0df4b1a6a2b27afad204756c6b1779681f374ce5ed3b033a'') Null,
    Nav_node ''XED_NONTERMINAL_ARDX'' (Some ''xed-nonterminal-enum_8h.html#ae0eb8f71a8f89cddf0df4b1a6a2b27afa77d3db6c77cb4e62e0ba1ddc4d40411e'') Null,
    Nav_node ''XED_NONTERMINAL_ARSI'' (Some ''xed-nonterminal-enum_8h.html#ae0eb8f71a8f89cddf0df4b1a6a2b27afaa2b39ccb4ed78f22e1ad87fc5badea84'') Null,
    Nav_node ''XED_NONTERMINAL_ARSP'' (Some ''xed-nonterminal-enum_8h.html#ae0eb8f71a8f89cddf0df4b1a6a2b27afa64ae43c8f43ebcc287b3bf9a5ee92204'') Null,
    Nav_node ''XED_NONTERMINAL_ASZ_NONTERM'' (Some ''xed-nonterminal-enum_8h.html#ae0eb8f71a8f89cddf0df4b1a6a2b27afad83870dc49177fefabc81c974bd64de7'') Null,
    Nav_node ''XED_NONTERMINAL_AVX512_ROUND'' (Some ''xed-nonterminal-enum_8h.html#ae0eb8f71a8f89cddf0df4b1a6a2b27afaf46c998211957eff09ce3a96b511c9d7'') Null,
    Nav_node ''XED_NONTERMINAL_AVX_INSTRUCTIONS'' (Some ''xed-nonterminal-enum_8h.html#ae0eb8f71a8f89cddf0df4b1a6a2b27afa39fe66bc05b9b63d3c9077d7536265b9'') Null,
    Nav_node ''XED_NONTERMINAL_AVX_SPLITTER'' (Some ''xed-nonterminal-enum_8h.html#ae0eb8f71a8f89cddf0df4b1a6a2b27afa00a78f9c88897469cda1fbeb36a94b57'') Null,
    Nav_node ''XED_NONTERMINAL_BND_B'' (Some ''xed-nonterminal-enum_8h.html#ae0eb8f71a8f89cddf0df4b1a6a2b27afaebaf0d0552587fa441cfd0c0eb8d7102'') Null,
    Nav_node ''XED_NONTERMINAL_BND_B_CHECK'' (Some ''xed-nonterminal-enum_8h.html#ae0eb8f71a8f89cddf0df4b1a6a2b27afabcb663adf42c3f882c308194bf955836'') Null,
    Nav_node ''XED_NONTERMINAL_BND_R'' (Some ''xed-nonterminal-enum_8h.html#ae0eb8f71a8f89cddf0df4b1a6a2b27afaddec0d5c987571da960fae2dfac928fc'') Null,
    Nav_node ''XED_NONTERMINAL_BND_R_CHECK'' (Some ''xed-nonterminal-enum_8h.html#ae0eb8f71a8f89cddf0df4b1a6a2b27afa38950386cac2d02c701fa06a55284015'') Null,
    Nav_node ''XED_NONTERMINAL_BRANCH_HINT'' (Some ''xed-nonterminal-enum_8h.html#ae0eb8f71a8f89cddf0df4b1a6a2b27afa5acf8a0303f5dc6da7880a2c4d8d159b'') Null,
    Nav_node ''XED_NONTERMINAL_BRDISP32'' (Some ''xed-nonterminal-enum_8h.html#ae0eb8f71a8f89cddf0df4b1a6a2b27afa3c5a336d6e206139285a1bacd681d78a'') Null,
    Nav_node ''XED_NONTERMINAL_BRDISP8'' (Some ''xed-nonterminal-enum_8h.html#ae0eb8f71a8f89cddf0df4b1a6a2b27afa947ba84c9e74f6c3987ccc0e116d56a8'') Null,
    Nav_node ''XED_NONTERMINAL_BRDISPZ'' (Some ''xed-nonterminal-enum_8h.html#ae0eb8f71a8f89cddf0df4b1a6a2b27afa1c204fc0922067f3d2ee50f37a8d6e74'') Null,
    Nav_node ''XED_NONTERMINAL_CR_B'' (Some ''xed-nonterminal-enum_8h.html#ae0eb8f71a8f89cddf0df4b1a6a2b27afa1ff07815cfd540b6d90a79f245203397'') Null,
    Nav_node ''XED_NONTERMINAL_CR_R'' (Some ''xed-nonterminal-enum_8h.html#ae0eb8f71a8f89cddf0df4b1a6a2b27afaa7e93e05af376ed1c6af655e9438c103'') Null,
    Nav_node ''XED_NONTERMINAL_CR_WIDTH'' (Some ''xed-nonterminal-enum_8h.html#ae0eb8f71a8f89cddf0df4b1a6a2b27afa1cdd8c6c6f1dd75bac5878b7d529f3e6'') Null,
    Nav_node ''XED_NONTERMINAL_DF64'' (Some ''xed-nonterminal-enum_8h.html#ae0eb8f71a8f89cddf0df4b1a6a2b27afa4cdf5fbce81f85cfba9ff49f66b3d288'') Null,
    Nav_node ''XED_NONTERMINAL_DR_B'' (Some ''xed-nonterminal-enum_8h.html#ae0eb8f71a8f89cddf0df4b1a6a2b27afa80edd36694994e6aa24d45b7f3479383'') Null,
    Nav_node ''XED_NONTERMINAL_DR_R'' (Some ''xed-nonterminal-enum_8h.html#ae0eb8f71a8f89cddf0df4b1a6a2b27afadfc6dc8999ea1bfa202cc147af0344fd'') Null,
    Nav_node ''XED_NONTERMINAL_ESIZE_128_BITS'' (Some ''xed-nonterminal-enum_8h.html#ae0eb8f71a8f89cddf0df4b1a6a2b27afafab180d717e4bae107cb265caf0d00c9'') Null,
    Nav_node ''XED_NONTERMINAL_ESIZE_16_BITS'' (Some ''xed-nonterminal-enum_8h.html#ae0eb8f71a8f89cddf0df4b1a6a2b27afa3d564b917d24bb6754de3e891d3daea5'') Null,
    Nav_node ''XED_NONTERMINAL_ESIZE_1_BITS'' (Some ''xed-nonterminal-enum_8h.html#ae0eb8f71a8f89cddf0df4b1a6a2b27afabc4d33c6d63cca1fc278c07879062de3'') Null,
    Nav_node ''XED_NONTERMINAL_ESIZE_2_BITS'' (Some ''xed-nonterminal-enum_8h.html#ae0eb8f71a8f89cddf0df4b1a6a2b27afa80832297bd6d4cb78a769120b7cd7e8e'') Null,
    Nav_node ''XED_NONTERMINAL_ESIZE_32_BITS'' (Some ''xed-nonterminal-enum_8h.html#ae0eb8f71a8f89cddf0df4b1a6a2b27afaf4eacf98477d4d1f049e3b11693dd723'') Null,
    Nav_node ''XED_NONTERMINAL_ESIZE_4_BITS'' (Some ''xed-nonterminal-enum_8h.html#ae0eb8f71a8f89cddf0df4b1a6a2b27afaba85e6d7a205cfd4f72438c63c49cde1'') Null,
    Nav_node ''XED_NONTERMINAL_ESIZE_64_BITS'' (Some ''xed-nonterminal-enum_8h.html#ae0eb8f71a8f89cddf0df4b1a6a2b27afa276e7e6065d97073fd5f17060febbac4'') Null,
    Nav_node ''XED_NONTERMINAL_ESIZE_8_BITS'' (Some ''xed-nonterminal-enum_8h.html#ae0eb8f71a8f89cddf0df4b1a6a2b27afa80b9ed28a91b225935e8c3370a180d25'') Null,
    Nav_node ''XED_NONTERMINAL_EVEX_INSTRUCTIONS'' (Some ''xed-nonterminal-enum_8h.html#ae0eb8f71a8f89cddf0df4b1a6a2b27afa81d3ae138c4dd5e5b99b133ae09fe20f'') Null,
    Nav_node ''XED_NONTERMINAL_EVEX_SPLITTER'' (Some ''xed-nonterminal-enum_8h.html#ae0eb8f71a8f89cddf0df4b1a6a2b27afa594f871889131d1dd0fcc44f8128273c'') Null,
    Nav_node ''XED_NONTERMINAL_FINAL_DSEG'' (Some ''xed-nonterminal-enum_8h.html#ae0eb8f71a8f89cddf0df4b1a6a2b27afaaccf2df23fe367947bf52c604c1e2c7e'') Null,
    Nav_node ''XED_NONTERMINAL_FINAL_DSEG1'' (Some ''xed-nonterminal-enum_8h.html#ae0eb8f71a8f89cddf0df4b1a6a2b27afa7c39f749ee46039157d7f84c272ffe07'') Null,
    Nav_node ''XED_NONTERMINAL_FINAL_DSEG1_MODE64'' (Some ''xed-nonterminal-enum_8h.html#ae0eb8f71a8f89cddf0df4b1a6a2b27afaa1ef12c8f942cc7d6f74197d8c2256a6'') Null,
    Nav_node ''XED_NONTERMINAL_FINAL_DSEG1_NOT64'' (Some ''xed-nonterminal-enum_8h.html#ae0eb8f71a8f89cddf0df4b1a6a2b27afa05d2fd62a821ec6622473e3e424f2b64'') Null,
    Nav_node ''XED_NONTERMINAL_FINAL_DSEG_MODE64'' (Some ''xed-nonterminal-enum_8h.html#ae0eb8f71a8f89cddf0df4b1a6a2b27afa73f9f0075b27b7c03bb7aecf93323a68'') Null,
    Nav_node ''XED_NONTERMINAL_FINAL_DSEG_NOT64'' (Some ''xed-nonterminal-enum_8h.html#ae0eb8f71a8f89cddf0df4b1a6a2b27afa685cf1bcbb8c361d210be30451f54bd3'') Null,
    Nav_node ''XED_NONTERMINAL_FINAL_ESEG'' (Some ''xed-nonterminal-enum_8h.html#ae0eb8f71a8f89cddf0df4b1a6a2b27afa201e0ad68869b843eceb029472b52613'') Null,
    Nav_node ''XED_NONTERMINAL_FINAL_ESEG1'' (Some ''xed-nonterminal-enum_8h.html#ae0eb8f71a8f89cddf0df4b1a6a2b27afa285c45adf7f23a92a0fbb04e9862e65f'') Null,
    Nav_node ''XED_NONTERMINAL_FINAL_SSEG'' (Some ''xed-nonterminal-enum_8h.html#ae0eb8f71a8f89cddf0df4b1a6a2b27afa5f6c5cf17862e0dd6a4a95c0e12e56f9'') Null,
    Nav_node ''XED_NONTERMINAL_FINAL_SSEG0'' (Some ''xed-nonterminal-enum_8h.html#ae0eb8f71a8f89cddf0df4b1a6a2b27afafd57a1490a38be08260242c7cc1d29bf'') Null,
    Nav_node ''XED_NONTERMINAL_FINAL_SSEG1'' (Some ''xed-nonterminal-enum_8h.html#ae0eb8f71a8f89cddf0df4b1a6a2b27afad8074b83e9016bb622f59a0f0b287306'') Null,
    Nav_node ''XED_NONTERMINAL_FINAL_SSEG_MODE64'' (Some ''xed-nonterminal-enum_8h.html#ae0eb8f71a8f89cddf0df4b1a6a2b27afaa122167af243e330addb8e46c9e29928'') Null,
    Nav_node ''XED_NONTERMINAL_FINAL_SSEG_NOT64'' (Some ''xed-nonterminal-enum_8h.html#ae0eb8f71a8f89cddf0df4b1a6a2b27afae2dea8c22b0f966776aed0fe203adde1'') Null,
    Nav_node ''XED_NONTERMINAL_FIX_ROUND_LEN128'' (Some ''xed-nonterminal-enum_8h.html#ae0eb8f71a8f89cddf0df4b1a6a2b27afae21f249d4f7adef00fe717a9ebf02a95'') Null,
    Nav_node ''XED_NONTERMINAL_FIX_ROUND_LEN512'' (Some ''xed-nonterminal-enum_8h.html#ae0eb8f71a8f89cddf0df4b1a6a2b27afa36c8c4f600125d171e1c9f003f70e873'') Null,
    Nav_node ''XED_NONTERMINAL_FORCE64'' (Some ''xed-nonterminal-enum_8h.html#ae0eb8f71a8f89cddf0df4b1a6a2b27afa12b4f89956d7d449b67163d48c0b1ad0'') Null,
    Nav_node ''XED_NONTERMINAL_GPR16_B'' (Some ''xed-nonterminal-enum_8h.html#ae0eb8f71a8f89cddf0df4b1a6a2b27afade391eb1708e69b81260a0681e62b424'') Null,
    Nav_node ''XED_NONTERMINAL_GPR16_R'' (Some ''xed-nonterminal-enum_8h.html#ae0eb8f71a8f89cddf0df4b1a6a2b27afadcdbaeadaef45b4f13dd072ab098ed47'') Null,
    Nav_node ''XED_NONTERMINAL_GPR16_SB'' (Some ''xed-nonterminal-enum_8h.html#ae0eb8f71a8f89cddf0df4b1a6a2b27afabe6594ee94cf24870310049443ce19e8'') Null,
    Nav_node ''XED_NONTERMINAL_GPR16_SR'' (Some ''xed-nonterminal-enum_8h.html#ae0eb8f71a8f89cddf0df4b1a6a2b27afaa0ab4407fe0db1c7946e148c5eaf2626'') Null,
    Nav_node ''XED_NONTERMINAL_GPR32_B'' (Some ''xed-nonterminal-enum_8h.html#ae0eb8f71a8f89cddf0df4b1a6a2b27afa297f85522486a2be4b2fd8b90a59b31a'') Null,
    Nav_node ''XED_NONTERMINAL_GPR32_R'' (Some ''xed-nonterminal-enum_8h.html#ae0eb8f71a8f89cddf0df4b1a6a2b27afa754df7fe821f875e93d83818e1b84f94'') Null,
    Nav_node ''XED_NONTERMINAL_GPR32_SB'' (Some ''xed-nonterminal-enum_8h.html#ae0eb8f71a8f89cddf0df4b1a6a2b27afa479e0e10201800c6591a486aca938bb5'') Null,
    Nav_node ''XED_NONTERMINAL_GPR32_SR'' (Some ''xed-nonterminal-enum_8h.html#ae0eb8f71a8f89cddf0df4b1a6a2b27afa960b0dc1d74a4a2f123b0131747dba85'') Null,
    Nav_node ''XED_NONTERMINAL_GPR32_X'' (Some ''xed-nonterminal-enum_8h.html#ae0eb8f71a8f89cddf0df4b1a6a2b27afac1c3418dad876598a85566b7bd1920b4'') Null,
    Nav_node ''XED_NONTERMINAL_GPR64_B'' (Some ''xed-nonterminal-enum_8h.html#ae0eb8f71a8f89cddf0df4b1a6a2b27afa053bdc20587feec8f96d53e82728b726'') Null,
    Nav_node ''XED_NONTERMINAL_GPR64_R'' (Some ''xed-nonterminal-enum_8h.html#ae0eb8f71a8f89cddf0df4b1a6a2b27afa1c0c134e598de1f34b8e4c1d4f70f4dc'') Null,
    Nav_node ''XED_NONTERMINAL_GPR64_SB'' (Some ''xed-nonterminal-enum_8h.html#ae0eb8f71a8f89cddf0df4b1a6a2b27afa072a711962915312393a6063ce39be28'') Null,
    Nav_node ''XED_NONTERMINAL_GPR64_SR'' (Some ''xed-nonterminal-enum_8h.html#ae0eb8f71a8f89cddf0df4b1a6a2b27afa78d443eedf98a4552b07f59daf79fb79'') Null,
    Nav_node ''XED_NONTERMINAL_GPR64_X'' (Some ''xed-nonterminal-enum_8h.html#ae0eb8f71a8f89cddf0df4b1a6a2b27afaf32ff5dfdb640fbd0ae5b8bf5b9cc33e'') Null,
    Nav_node ''XED_NONTERMINAL_GPR8_B'' (Some ''xed-nonterminal-enum_8h.html#ae0eb8f71a8f89cddf0df4b1a6a2b27afaebd6e83354c1fbd2f163b85b92b06f1a'') Null,
    Nav_node ''XED_NONTERMINAL_GPR8_R'' (Some ''xed-nonterminal-enum_8h.html#ae0eb8f71a8f89cddf0df4b1a6a2b27afa7ded0c4736d2a1e11ba2940a11d4a2d4'') Null,
    Nav_node ''XED_NONTERMINAL_GPR8_SB'' (Some ''xed-nonterminal-enum_8h.html#ae0eb8f71a8f89cddf0df4b1a6a2b27afa6562141c4b2e168ea804e099a9575543'') Null,
    Nav_node ''XED_NONTERMINAL_GPR8_SR'' (Some ''xed-nonterminal-enum_8h.html#ae0eb8f71a8f89cddf0df4b1a6a2b27afad4ffe908ff62261059d73d61c4aa5a3e'') Null,
    Nav_node ''XED_NONTERMINAL_GPRM_B'' (Some ''xed-nonterminal-enum_8h.html#ae0eb8f71a8f89cddf0df4b1a6a2b27afa4da49253d4d4283475d906cc7648d883'') Null,
    Nav_node ''XED_NONTERMINAL_GPRM_R'' (Some ''xed-nonterminal-enum_8h.html#ae0eb8f71a8f89cddf0df4b1a6a2b27afaf4147243d2193c1fccf2839a1c3b606f'') Null,
    Nav_node ''XED_NONTERMINAL_GPRV_B'' (Some ''xed-nonterminal-enum_8h.html#ae0eb8f71a8f89cddf0df4b1a6a2b27afa5f838de303be65e714c41c4b1132f5c1'') Null,
    Nav_node ''XED_NONTERMINAL_GPRV_R'' (Some ''xed-nonterminal-enum_8h.html#ae0eb8f71a8f89cddf0df4b1a6a2b27afa34eeb2ac57db037d1d1030e118c58650'') Null,
    Nav_node ''XED_NONTERMINAL_GPRV_SB'' (Some ''xed-nonterminal-enum_8h.html#ae0eb8f71a8f89cddf0df4b1a6a2b27afa53774864583949d981ce53ad9fad69a9'') Null,
    Nav_node ''XED_NONTERMINAL_GPRV_SR'' (Some ''xed-nonterminal-enum_8h.html#ae0eb8f71a8f89cddf0df4b1a6a2b27afa6c1fba74dc9613dd969b5cdee50e1357'') Null,
    Nav_node ''XED_NONTERMINAL_GPRY_B'' (Some ''xed-nonterminal-enum_8h.html#ae0eb8f71a8f89cddf0df4b1a6a2b27afaa4a314a88b7c98936bd414cbe20e873c'') Null,
    Nav_node ''XED_NONTERMINAL_GPRY_N'' (Some ''xed-nonterminal-enum_8h.html#ae0eb8f71a8f89cddf0df4b1a6a2b27afa2b151ad3f870a06260ecc5a41a37cc9c'') Null,
    Nav_node ''XED_NONTERMINAL_GPRY_R'' (Some ''xed-nonterminal-enum_8h.html#ae0eb8f71a8f89cddf0df4b1a6a2b27afadcbb925c98e7f2f192620b48f6a292df'') Null,
    Nav_node ''XED_NONTERMINAL_GPRZ_B'' (Some ''xed-nonterminal-enum_8h.html#ae0eb8f71a8f89cddf0df4b1a6a2b27afa103272b94fa6c588a22c4854948412a2'') Null,
    Nav_node ''XED_NONTERMINAL_GPRZ_R'' (Some ''xed-nonterminal-enum_8h.html#ae0eb8f71a8f89cddf0df4b1a6a2b27afab5fb186e44189ba5f775d1d5c85c82af'') Null,
    Nav_node ''XED_NONTERMINAL_IGNORE66'' (Some ''xed-nonterminal-enum_8h.html#ae0eb8f71a8f89cddf0df4b1a6a2b27afa74a086237540aa6e5959077a8ddf2203'') Null,
    Nav_node ''XED_NONTERMINAL_IMMUNE66'' (Some ''xed-nonterminal-enum_8h.html#ae0eb8f71a8f89cddf0df4b1a6a2b27afaf09b35ef1214c0af04ca5cbfe83aee0f'') Null,
    Nav_node ''XED_NONTERMINAL_IMMUNE66_LOOP64'' (Some ''xed-nonterminal-enum_8h.html#ae0eb8f71a8f89cddf0df4b1a6a2b27afadc744d93686bc6f84a8028acd314f75e'') Null,
    Nav_node ''XED_NONTERMINAL_IMMUNE_REXW'' (Some ''xed-nonterminal-enum_8h.html#ae0eb8f71a8f89cddf0df4b1a6a2b27afa7f5d3dab9eb931350e9aa018799d3b72'') Null,
    Nav_node ''XED_NONTERMINAL_INSTRUCTIONS'' (Some ''xed-nonterminal-enum_8h.html#ae0eb8f71a8f89cddf0df4b1a6a2b27afaa6a28908f6d54a173a662b04c35e1bc4'') Null,
    Nav_node ''XED_NONTERMINAL_ISA'' (Some ''xed-nonterminal-enum_8h.html#ae0eb8f71a8f89cddf0df4b1a6a2b27afaaaca8ff29d81c6deb1bfce1f9cb5a8e1'') Null,
    Nav_node ''XED_NONTERMINAL_MASK1'' (Some ''xed-nonterminal-enum_8h.html#ae0eb8f71a8f89cddf0df4b1a6a2b27afa27adc3fa5fb3ba1a1e58cae42c032fc3'') Null,
    Nav_node ''XED_NONTERMINAL_MASK_B'' (Some ''xed-nonterminal-enum_8h.html#ae0eb8f71a8f89cddf0df4b1a6a2b27afaa7bd70895c764147f41ffe9822510cd2'') Null,
    Nav_node ''XED_NONTERMINAL_MASK_I3'' (Some ''xed-nonterminal-enum_8h.html#ae0eb8f71a8f89cddf0df4b1a6a2b27afa38f0781cec81021de0d69a5fe3c06b1e'') Null,
    Nav_node ''XED_NONTERMINAL_MASK_N'' (Some ''xed-nonterminal-enum_8h.html#ae0eb8f71a8f89cddf0df4b1a6a2b27afab3ae130ae7cc222a2fc7355a4438bb38'') Null,
    Nav_node ''XED_NONTERMINAL_MASK_R'' (Some ''xed-nonterminal-enum_8h.html#ae0eb8f71a8f89cddf0df4b1a6a2b27afa9407a48ac2106275d1c89e2b5199d734'') Null,
    Nav_node ''XED_NONTERMINAL_MEMDISP'' (Some ''xed-nonterminal-enum_8h.html#ae0eb8f71a8f89cddf0df4b1a6a2b27afa97bc2f4379b0f7246a3479c797f1676b'') Null,
    Nav_node ''XED_NONTERMINAL_MEMDISP16'' (Some ''xed-nonterminal-enum_8h.html#ae0eb8f71a8f89cddf0df4b1a6a2b27afa2e0d974aa1157fac081a53039ef4799d'') Null,
    Nav_node ''XED_NONTERMINAL_MEMDISP32'' (Some ''xed-nonterminal-enum_8h.html#ae0eb8f71a8f89cddf0df4b1a6a2b27afa6db340d2c8d6622ac5c5df62727d24d0'') Null,
    Nav_node ''XED_NONTERMINAL_MEMDISP8'' (Some ''xed-nonterminal-enum_8h.html#ae0eb8f71a8f89cddf0df4b1a6a2b27afaf6592a488ddb707b772c0d4254cf7d6b'') Null,
    Nav_node ''XED_NONTERMINAL_MEMDISPV'' (Some ''xed-nonterminal-enum_8h.html#ae0eb8f71a8f89cddf0df4b1a6a2b27afa9be42168a088b826cf8a6f616b52f757'') Null,
    Nav_node ''XED_NONTERMINAL_MMX_B'' (Some ''xed-nonterminal-enum_8h.html#ae0eb8f71a8f89cddf0df4b1a6a2b27afa8a0c3fbb44d0de865266ff2d5c034f64'') Null,
    Nav_node ''XED_NONTERMINAL_MMX_R'' (Some ''xed-nonterminal-enum_8h.html#ae0eb8f71a8f89cddf0df4b1a6a2b27afa6cf72f2dd91a488044f6b04721cca6cc'') Null,
    Nav_node ''XED_NONTERMINAL_MODRM'' (Some ''xed-nonterminal-enum_8h.html#ae0eb8f71a8f89cddf0df4b1a6a2b27afa72c6d195ca32141fd9eb601ce907fad6'') Null,
    Nav_node ''XED_NONTERMINAL_MODRM16'' (Some ''xed-nonterminal-enum_8h.html#ae0eb8f71a8f89cddf0df4b1a6a2b27afa64cbfa730d449989025898fa9f5a104b'') Null,
    Nav_node ''XED_NONTERMINAL_MODRM32'' (Some ''xed-nonterminal-enum_8h.html#ae0eb8f71a8f89cddf0df4b1a6a2b27afacc88dc6f44281ba3e1bb90f5e2af9e95'') Null,
    Nav_node ''XED_NONTERMINAL_MODRM64ALT32'' (Some ''xed-nonterminal-enum_8h.html#ae0eb8f71a8f89cddf0df4b1a6a2b27afa8d192ce106dcf64ce13e39478bc8035f'') Null,
    Nav_node ''XED_NONTERMINAL_NELEM_EIGHTHMEM'' (Some ''xed-nonterminal-enum_8h.html#ae0eb8f71a8f89cddf0df4b1a6a2b27afa9224b76da14e6df470566d41658d01b1'') Null,
    Nav_node ''XED_NONTERMINAL_NELEM_FULL'' (Some ''xed-nonterminal-enum_8h.html#ae0eb8f71a8f89cddf0df4b1a6a2b27afab386aa1596fe198007a274324dd424b9'') Null,
    Nav_node ''XED_NONTERMINAL_NELEM_FULLMEM'' (Some ''xed-nonterminal-enum_8h.html#ae0eb8f71a8f89cddf0df4b1a6a2b27afa9452ea5a4d2c3f68ac8a1300a5ad2554'') Null,
    Nav_node ''XED_NONTERMINAL_NELEM_GPR_READER'' (Some ''xed-nonterminal-enum_8h.html#ae0eb8f71a8f89cddf0df4b1a6a2b27afabb05c7d68079274228e55e29d5236b72'') Null,
    Nav_node ''XED_NONTERMINAL_NELEM_GPR_READER_BYTE'' (Some ''xed-nonterminal-enum_8h.html#ae0eb8f71a8f89cddf0df4b1a6a2b27afaee15faa53e0e00097b76ef734a1ae845'') Null,
    Nav_node ''XED_NONTERMINAL_NELEM_GPR_READER_SUBDWORD'' (Some ''xed-nonterminal-enum_8h.html#ae0eb8f71a8f89cddf0df4b1a6a2b27afa5727fd7040bed87173519b763c0fd170'') Null,
    Nav_node ''XED_NONTERMINAL_NELEM_GPR_READER_WORD'' (Some ''xed-nonterminal-enum_8h.html#ae0eb8f71a8f89cddf0df4b1a6a2b27afa592ba32a47f65dbd6596ca78cb5fa780'') Null,
    Nav_node ''XED_NONTERMINAL_NELEM_GPR_WRITER_LDOP'' (Some ''xed-nonterminal-enum_8h.html#ae0eb8f71a8f89cddf0df4b1a6a2b27afa7375a175995e2d1804e48246706bc165'') Null,
    Nav_node ''XED_NONTERMINAL_NELEM_GPR_WRITER_LDOP_D'' (Some ''xed-nonterminal-enum_8h.html#ae0eb8f71a8f89cddf0df4b1a6a2b27afaa29f1cec4f8007fd52a22eeb2115ae8a'') Null,
    Nav_node ''XED_NONTERMINAL_NELEM_GPR_WRITER_LDOP_Q'' (Some ''xed-nonterminal-enum_8h.html#ae0eb8f71a8f89cddf0df4b1a6a2b27afa23dc0615a510c9cbbf15012bc01f43d0'') Null,
    Nav_node ''XED_NONTERMINAL_NELEM_GPR_WRITER_STORE'' (Some ''xed-nonterminal-enum_8h.html#ae0eb8f71a8f89cddf0df4b1a6a2b27afa1de5d8238910280cf984e2e3a0e6fc2a'') Null,
    Nav_node ''XED_NONTERMINAL_NELEM_GPR_WRITER_STORE_BYTE'' (Some ''xed-nonterminal-enum_8h.html#ae0eb8f71a8f89cddf0df4b1a6a2b27afab3ccf33ae37efd2e6001ab8c05655972'') Null,
    Nav_node ''XED_NONTERMINAL_NELEM_GPR_WRITER_STORE_SUBDWORD'' (Some ''xed-nonterminal-enum_8h.html#ae0eb8f71a8f89cddf0df4b1a6a2b27afaed670acd85834a9864031b92b071eaa7'') Null,
    Nav_node ''XED_NONTERMINAL_NELEM_GPR_WRITER_STORE_WORD'' (Some ''xed-nonterminal-enum_8h.html#ae0eb8f71a8f89cddf0df4b1a6a2b27afa53a26a8486f7f24b9c57e0c86651a95b'') Null,
    Nav_node ''XED_NONTERMINAL_NELEM_GSCAT'' (Some ''xed-nonterminal-enum_8h.html#ae0eb8f71a8f89cddf0df4b1a6a2b27afa9a1aae758626443d44cb0a84226b4c8e'') Null,
    Nav_node ''XED_NONTERMINAL_NELEM_HALF'' (Some ''xed-nonterminal-enum_8h.html#ae0eb8f71a8f89cddf0df4b1a6a2b27afa514223d10a3859be6fec2123aa5b7289'') Null,
    Nav_node ''XED_NONTERMINAL_NELEM_HALFMEM'' (Some ''xed-nonterminal-enum_8h.html#ae0eb8f71a8f89cddf0df4b1a6a2b27afa4a234263542a96c57439b83aab8541cb'') Null,
    Nav_node ''XED_NONTERMINAL_NELEM_MEM128'' (Some ''xed-nonterminal-enum_8h.html#ae0eb8f71a8f89cddf0df4b1a6a2b27afac2652731e89de762eb915e50de9609f4'') Null,
    Nav_node ''XED_NONTERMINAL_NELEM_MOVDDUP'' (Some ''xed-nonterminal-enum_8h.html#ae0eb8f71a8f89cddf0df4b1a6a2b27afa78a5de7ab5c96f20398c3cd8d91ba434'') Null,
    Nav_node ''XED_NONTERMINAL_NELEM_QUARTERMEM'' (Some ''xed-nonterminal-enum_8h.html#ae0eb8f71a8f89cddf0df4b1a6a2b27afaa685ca2fce832ad071b2bd73f639299b'') Null,
    Nav_node ''XED_NONTERMINAL_NELEM_SCALAR'' (Some ''xed-nonterminal-enum_8h.html#ae0eb8f71a8f89cddf0df4b1a6a2b27afa7c308f9dbc8a0718849ac887497982e3'') Null,
    Nav_node ''XED_NONTERMINAL_NELEM_TUPLE1'' (Some ''xed-nonterminal-enum_8h.html#ae0eb8f71a8f89cddf0df4b1a6a2b27afaf7f57ea91361e45d2dc8eb73d7931704'') Null,
    Nav_node ''XED_NONTERMINAL_NELEM_TUPLE1_BYTE'' (Some ''xed-nonterminal-enum_8h.html#ae0eb8f71a8f89cddf0df4b1a6a2b27afad7b0b7d42b6255d19f331e31f5a32ddf'') Null,
    Nav_node ''XED_NONTERMINAL_NELEM_TUPLE1_SUBDWORD'' (Some ''xed-nonterminal-enum_8h.html#ae0eb8f71a8f89cddf0df4b1a6a2b27afa41e18ff54f73d4740afa0cd1508a450c'') Null,
    Nav_node ''XED_NONTERMINAL_NELEM_TUPLE1_WORD'' (Some ''xed-nonterminal-enum_8h.html#ae0eb8f71a8f89cddf0df4b1a6a2b27afa8d1c90ddd143d8894f427996b11449c9'') Null,
    Nav_node ''XED_NONTERMINAL_NELEM_TUPLE2'' (Some ''xed-nonterminal-enum_8h.html#ae0eb8f71a8f89cddf0df4b1a6a2b27afa01a24d3027e848900b584b977a2c6203'') Null,
    Nav_node ''XED_NONTERMINAL_NELEM_TUPLE4'' (Some ''xed-nonterminal-enum_8h.html#ae0eb8f71a8f89cddf0df4b1a6a2b27afaf905deb9e41aa4f01309d04e804c01a2'') Null,
    Nav_node ''XED_NONTERMINAL_NELEM_TUPLE8'' (Some ''xed-nonterminal-enum_8h.html#ae0eb8f71a8f89cddf0df4b1a6a2b27afa704662ca930bed3f4e58592ed1f1003c'') Null]"

lemma xed_nonterminal_enum_8h_values_1_closed: "list_all (closed_node scripts) xed_nonterminal_enum_8h_values_1"
  by (simp only: xed_nonterminal_enum_8h_values_1_def closed_rules)

definition xed_nonterminal_enum_8h_values_2 :: "nav_node list" where
  "xed_nonterminal_enum_8h_values_2 = [
    Nav_node ''XED_NONTERMINAL_OEAX'' (Some ''xed-nonterminal-enum_8h.html#ae0eb8f71a8f89cddf0df4b1a6a2b27afa40df0af727e139b6d35c9efdf1ab6d87'') Null,
    Nav_node ''XED_NONTERMINAL_ONE'' (Some ''xed-nonterminal-enum_8h.html#ae0eb8f71a8f89cddf0df4b1a6a2b27afabc770d125abec353adb6fce01726a341'') Null,
    Nav_node ''XED_NONTERMINAL_ORAX'' (Some ''xed-nonterminal-enum_8h.html#ae0eb8f71a8f89cddf0df4b1a6a2b27afa077918ddec7ed1c5c937ba4252a6311c'') Null,
    Nav_node ''XED_NONTERMINAL_ORBP'' (Some ''xed-nonterminal-enum_8h.html#ae0eb8f71a8f89cddf0df4b1a6a2b27afa8df90b0fdd8598d3e97df5147e64e826'') Null,
    Nav_node ''XED_NONTERMINAL_ORDX'' (Some ''xed-nonterminal-enum_8h.html#ae0eb8f71a8f89cddf0df4b1a6a2b27afa5ae18e0694b309a6f6386b5fbe38c890'') Null,
    Nav_node ''XED_NONTERMINAL_ORSP'' (Some ''xed-nonterminal-enum_8h.html#ae0eb8f71a8f89cddf0df4b1a6a2b27afa412a78e2897acb78651dc4ab79f6985d'') Null,
    Nav_node ''XED_NONTERMINAL_OSZ_NONTERM'' (Some ''xed-nonterminal-enum_8h.html#ae0eb8f71a8f89cddf0df4b1a6a2b27afa5c40dd492275e28a87ac0aa241f1dd31'') Null,
    Nav_node ''XED_NONTERMINAL_OVERRIDE_SEG0'' (Some ''xed-nonterminal-enum_8h.html#ae0eb8f71a8f89cddf0df4b1a6a2b27afa51ca469f14859bcd2714f0c65c92da60'') Null,
    Nav_node ''XED_NONTERMINAL_OVERRIDE_SEG1'' (Some ''xed-nonterminal-enum_8h.html#ae0eb8f71a8f89cddf0df4b1a6a2b27afa6ad1841aaaa3d08e0d410fc98c0d2a99'') Null,
    Nav_node ''XED_NONTERMINAL_PREFIXES'' (Some ''xed-nonterminal-enum_8h.html#ae0eb8f71a8f89cddf0df4b1a6a2b27afaf8e4ad1dad1c5ec799fd21411240c6da'') Null,
    Nav_node ''XED_NONTERMINAL_REFINING66'' (Some ''xed-nonterminal-enum_8h.html#ae0eb8f71a8f89cddf0df4b1a6a2b27afadd641f852dbd37022d2fd236f9ed92e3'') Null,
    Nav_node ''XED_NONTERMINAL_REMOVE_SEGMENT'' (Some ''xed-nonterminal-enum_8h.html#ae0eb8f71a8f89cddf0df4b1a6a2b27afa85001099a6e0d093bb641d7f21f7054f'') Null,
    Nav_node ''XED_NONTERMINAL_RFLAGS'' (Some ''xed-nonterminal-enum_8h.html#ae0eb8f71a8f89cddf0df4b1a6a2b27afa84cd4762f433584af08c80496f53a495'') Null,
    Nav_node ''XED_NONTERMINAL_RIP'' (Some ''xed-nonterminal-enum_8h.html#ae0eb8f71a8f89cddf0df4b1a6a2b27afa41f88a7299659cdf1b63baeefd320260'') Null,
    Nav_node ''XED_NONTERMINAL_SAE'' (Some ''xed-nonterminal-enum_8h.html#ae0eb8f71a8f89cddf0df4b1a6a2b27afa61d35a90dd00571fd870ca7b5892dc2c'') Null,
    Nav_node ''XED_NONTERMINAL_SEG'' (Some ''xed-nonterminal-enum_8h.html#ae0eb8f71a8f89cddf0df4b1a6a2b27afa555d9858907eedc2d3789e038b359284'') Null,
    Nav_node ''XED_NONTERMINAL_SE_IMM8'' (Some ''xed-nonterminal-enum_8h.html#ae0eb8f71a8f89cddf0df4b1a6a2b27afa601381268ac4d96e50c3ceee25778b67'') Null,
    Nav_node ''XED_NONTERMINAL_SIB'' (Some ''xed-nonterminal-enum_8h.html#ae0eb8f71a8f89cddf0df4b1a6a2b27afae7ce2e9b76e8473b88876d5f54ff396c'') Null,
    Nav_node ''XED_NONTERMINAL_SIB_BASE0'' (Some ''xed-nonterminal-enum_8h.html#ae0eb8f71a8f89cddf0df4b1a6a2b27afa31c5c9880fed10fc3e789676da818c2f'') Null,
    Nav_node ''XED_NONTERMINAL_SIMM8'' (Some ''xed-nonterminal-enum_8h.html#ae0eb8f71a8f89cddf0df4b1a6a2b27afa5bdbeaf1f17e6e6ecf4fb069a017a9cf'') Null,
    Nav_node ''XED_NONTERMINAL_SIMMZ'' (Some ''xed-nonterminal-enum_8h.html#ae0eb8f71a8f89cddf0df4b1a6a2b27afafac7e7f7f6d816959fe8993bc76227dd'') Null,
    Nav_node ''XED_NONTERMINAL_SRBP'' (Some ''xed-nonterminal-enum_8h.html#ae0eb8f71a8f89cddf0df4b1a6a2b27afa4f1e53a0e2d1e084a22c9843faade57c'') Null,
    Nav_node ''XED_NONTERMINAL_SRSP'' (Some ''xed-nonterminal-enum_8h.html#ae0eb8f71a8f89cddf0df4b1a6a2b27afa9675bf5e74ac0b1d829c9632841affd2'') Null,
    Nav_node ''XED_NONTERMINAL_UIMM16'' (Some ''xed-nonterminal-enum_8h.html#ae0eb8f71a8f89cddf0df4b1a6a2b27afabe77a0fd31e068115e07c8c3fffbec7f'') Null,
    Nav_node ''XED_NONTERMINAL_UIMM32'' (Some ''xed-nonterminal-enum_8h.html#ae0eb8f71a8f89cddf0df4b1a6a2b27afac4969dec31bb3cbf08e431778f22c590'') Null,
    Nav_node ''XED_NONTERMINAL_UIMM8'' (Some ''xed-nonterminal-enum_8h.html#ae0eb8f71a8f89cddf0df4b1a6a2b27afab7b978efc8abe12d6a15811d48ebbec2'') Null,
    Nav_node ''XED_NONTERMINAL_UIMM8_1'' (Some ''xed-nonterminal-enum_8h.html#ae0eb8f71a8f89cddf0df4b1a6a2b27afa3f072c0e1eb5b0cfa272ad25ad5a58d7'') Null,
    Nav_node ''XED_NONTERMINAL_UIMMV'' (Some ''xed-nonterminal-enum_8h.html#ae0eb8f71a8f89cddf0df4b1a6a2b27afa34b2092b9ef76b49160f7902dc3f2889'') Null,
    Nav_node ''XED_NONTERMINAL_UISA_SE_IMM8'' (Some ''xed-nonterminal-enum_8h.html#ae0eb8f71a8f89cddf0df4b1a6a2b27afac57f40329b3d06a86ea1622882cb9e46'') Null,
    Nav_node ''XED_NONTERMINAL_UISA_VMODRM_XMM'' (Some ''xed-nonterminal-enum_8h.html#ae0eb8f71a8f89cddf0df4b1a6a2b27afac4472ec2463620f29f7b5fc6171658de'') Null,
    Nav_node ''XED_NONTERMINAL_UISA_VMODRM_YMM'' (Some ''xed-nonterminal-enum_8h.html#ae0eb8f71a8f89cddf0df4b1a6a2b27afa6f40e766182ca18e3787b1c78f867b82'') Null,
    Nav_node ''XED_NONTERMINAL_UISA_VMODRM_ZMM'' (Some ''xed-nonterminal-enum_8h.html#ae0eb8f71a8f89cddf0df4b1a6a2b27afac35f6fa34a56cb0c7a2890b520547a97'') Null,
    Nav_node ''XED_NONTERMINAL_UISA_VSIB_BASE'' (Some ''xed-nonterminal-enum_8h.html#ae0eb8f71a8f89cddf0df4b1a6a2b27afa28941661d0c2d60ca75c1d6f450f0e5d'') Null,
    Nav_node ''XED_NONTERMINAL_UISA_VSIB_INDEX_XMM'' (Some ''xed-nonterminal-enum_8h.html#ae0eb8f71a8f89cddf0df4b1a6a2b27afac6ad018b0e1ac64db081e09554321e66'') Null,
    Nav_node ''XED_NONTERMINAL_UISA_VSIB_INDEX_YMM'' (Some ''xed-nonterminal-enum_8h.html#ae0eb8f71a8f89cddf0df4b1a6a2b27afa9caf2d276b302e270aa10d04bb4eb0d5'') Null,
    Nav_node ''XED_NONTERMINAL_UISA_VSIB_INDEX_ZMM'' (Some ''xed-nonterminal-enum_8h.html#ae0eb8f71a8f89cddf0df4b1a6a2b27afa517f06e7897ada3b97e09b3b0d0c4991'') Null,
    Nav_node ''XED_NONTERMINAL_UISA_VSIB_XMM'' (Some ''xed-nonterminal-enum_8h.html#ae0eb8f71a8f89cddf0df4b1a6a2b27afad762627069406e10aa17c5a8f6723017'') Null,
    Nav_node ''XED_NONTERMINAL_UISA_VSIB_YMM'' (Some ''xed-nonterminal-enum_8h.html#ae0eb8f71a8f89cddf0df4b1a6a2b27afaeec5ca69c0840951cc91f22d205757f1'') Null,
    Nav_node ''XED_NONTERMINAL_UISA_VSIB_ZMM'' (Some ''xed-nonterminal-enum_8h.html#ae0eb8f71a8f89cddf0df4b1a6a2b27afa935a876fe2cd10041728aa6fb26d6e9e'') Null,
    Nav_node ''XED_NONTERMINAL_VGPR32_B'' (Some ''xed-nonterminal-enum_8h.html#ae0eb8f71a8f89cddf0df4b1a6a2b27afabf3913b26ce0bba9a1da7669daf452ce'') Null,
    Nav_node ''XED_NONTERMINAL_VGPR32_B_32'' (Some ''xed-nonterminal-enum_8h.html#ae0eb8f71a8f89cddf0df4b1a6a2b27afa2354aef1149baa245742cd8b36175cbf'') Null,
    Nav_node ''XED_NONTERMINAL_VGPR32_B_64'' (Some ''xed-nonterminal-enum_8h.html#ae0eb8f71a8f89cddf0df4b1a6a2b27afa2f059148eba5607438d3108b1f5a8dd7'') Null,
    Nav_node ''XED_NONTERMINAL_VGPR32_N'' (Some ''xed-nonterminal-enum_8h.html#ae0eb8f71a8f89cddf0df4b1a6a2b27afa19c5561904bcb3c7f45c48b2a1fd4603'') Null,
    Nav_node ''XED_NONTERMINAL_VGPR32_N_32'' (Some ''xed-nonterminal-enum_8h.html#ae0eb8f71a8f89cddf0df4b1a6a2b27afa45f6305586e632427d5f35cc33ad02fe'') Null,
    Nav_node ''XED_NONTERMINAL_VGPR32_N_64'' (Some ''xed-nonterminal-enum_8h.html#ae0eb8f71a8f89cddf0df4b1a6a2b27afac2c8a8b6c1a49b65b089c9478e2e5b3f'') Null,
    Nav_node ''XED_NONTERMINAL_VGPR32_R'' (Some ''xed-nonterminal-enum_8h.html#ae0eb8f71a8f89cddf0df4b1a6a2b27afae64319c0cee63311bbe1f88ba0b780bc'') Null,
    Nav_node ''XED_NONTERMINAL_VGPR32_R_32'' (Some ''xed-nonterminal-enum_8h.html#ae0eb8f71a8f89cddf0df4b1a6a2b27afae3b7415639839104dd1f2ae2f8a5f932'') Null,
    Nav_node ''XED_NONTERMINAL_VGPR32_R_64'' (Some ''xed-nonterminal-enum_8h.html#ae0eb8f71a8f89cddf0df4b1a6a2b27afad84762ce76442dad0f5f03efb8b831fb'') Null,
    Nav_node ''XED_NONTERMINAL_VGPR64_B'' (Some ''xed-nonterminal-enum_8h.html#ae0eb8f71a8f89cddf0df4b1a6a2b27afadf6143eeda393075a7a12e6ff9832ffc'') Null,
    Nav_node ''XED_NONTERMINAL_VGPR64_N'' (Some ''xed-nonterminal-enum_8h.html#ae0eb8f71a8f89cddf0df4b1a6a2b27afa218f862ca99287d06ecc3e604b8db996'') Null,
    Nav_node ''XED_NONTERMINAL_VGPR64_R'' (Some ''xed-nonterminal-enum_8h.html#ae0eb8f71a8f89cddf0df4b1a6a2b27afadd3c88fd1a603d31217bc29b64b0663a'') Null,
    Nav_node ''XED_NONTERMINAL_VGPRV_N'' (Some ''xed-nonterminal-enum_8h.html#ae0eb8f71a8f89cddf0df4b1a6a2b27afa49a89883db761eaf857afe984f9a51c2'') Null,
    Nav_node ''XED_NONTERMINAL_VMODRM_XMM'' (Some ''xed-nonterminal-enum_8h.html#ae0eb8f71a8f89cddf0df4b1a6a2b27afa21fdfb3b402e91dd4ec7fe7623ace0d7'') Null,
    Nav_node ''XED_NONTERMINAL_VMODRM_YMM'' (Some ''xed-nonterminal-enum_8h.html#ae0eb8f71a8f89cddf0df4b1a6a2b27afab33f32784ef2504c858207115be50b2d'') Null,
    Nav_node ''XED_NONTERMINAL_VSIB_BASE'' (Some ''xed-nonterminal-enum_8h.html#ae0eb8f71a8f89cddf0df4b1a6a2b27afaae83e567b193f99184e2fe93709fd5d8'') Null,
    Nav_node ''XED_NONTERMINAL_VSIB_INDEX_XMM'' (Some ''xed-nonterminal-enum_8h.html#ae0eb8f71a8f89cddf0df4b1a6a2b27afa283a2ae581f8386815675103dd2ec851'') Null,
    Nav_node ''XED_NONTERMINAL_VSIB_INDEX_YMM'' (Some ''xed-nonterminal-enum_8h.html#ae0eb8f71a8f89cddf0df4b1a6a2b27afaddf22f91b021de7757797816f52423cf'') Null,
    Nav_node ''XED_NONTERMINAL_VSIB_XMM'' (Some ''xed-nonterminal-enum_8h.html#ae0eb8f71a8f89cddf0df4b1a6a2b27afa3cb10081dabb6733806e137c957bb526'') Null,
    Nav_node ''XED_NONTERMINAL_VSIB_YMM'' (Some ''xed-nonterminal-enum_8h.html#ae0eb8f71a8f89cddf0df4b1a6a2b27afa1f37c1dcc0f23eb4de71e62a85fbdf6f'') Null,
    Nav_node ''XED_NONTERMINAL_X87'' (Some ''xed-nonterminal-enum_8h.html#ae0eb8f71a8f89cddf0df4b1a6a2b27afa186a3652449949662ba2e1b40a58816d'') Null,
    Nav_node ''XED_NONTERMINAL_XMM_B'' (Some ''xed-nonterminal-enum_8h.html#ae0eb8f71a8f89cddf0df4b1a6a2b27afac4656ccac3cf6094c3bba6b74b8222fe'') Null,
    Nav_node ''XED_NONTERMINAL_XMM_B3'' (Some ''xed-nonterminal-enum_8h.html#ae0eb8f71a8f89cddf0df4b1a6a2b27afaed3805526cd92e4dfbca3e4742b0a9d3'') Null,
    Nav_node ''XED_NONTERMINAL_XMM_B_32'' (Some ''xed-nonterminal-enum_8h.html#ae0eb8f71a8f89cddf0df4b1a6a2b27afa184b20f367688d2c5ce22b8dd107cee8'') Null,
    Nav_node ''XED_NONTERMINAL_XMM_B_64'' (Some ''xed-nonterminal-enum_8h.html#ae0eb8f71a8f89cddf0df4b1a6a2b27afab60ed67b940066c1812a779d0e036d53'') Null,
    Nav_node ''XED_NONTERMINAL_XMM_I3'' (Some ''xed-nonterminal-enum_8h.html#ae0eb8f71a8f89cddf0df4b1a6a2b27afa1f14040804c3f94f071008f7a9b2016a'') Null,
    Nav_node ''XED_NONTERMINAL_XMM_N'' (Some ''xed-nonterminal-enum_8h.html#ae0eb8f71a8f89cddf0df4b1a6a2b27afa0f908ab1796f6ea898235676790c4f59'') Null,
    Nav_node ''XED_NONTERMINAL_XMM_N3'' (Some ''xed-nonterminal-enum_8h.html#ae0eb8f71a8f89cddf0df4b1a6a2b27afaf7cd436a061392b9acd8d6377f51cf9d'') Null,
    Nav_node ''XED_NONTERMINAL_XMM_N3_32'' (Some ''xed-nonterminal-enum_8h.html#ae0eb8f71a8f89cddf0df4b1a6a2b27afaa8c6fbb917f7136d862d35c041f14354'') Null,
    Nav_node ''XED_NONTERMINAL_XMM_N3_64'' (Some ''xed-nonterminal-enum_8h.html#ae0eb8f71a8f89cddf0df4b1a6a2b27afaf3ec9562af24865a74bcd6cea4a90864'') Null,
    Nav_node ''XED_NONTERMINAL_XMM_N_32'' (Some ''xed-nonterminal-enum_8h.html#ae0eb8f71a8f89cddf0df4b1a6a2b27afaf5ea063cf48c6c739283d5c54e55c123'') Null,
    Nav_node ''XED_NONTERMINAL_XMM_N_64'' (Some ''xed-nonterminal-enum_8h.html#ae0eb8f71a8f89cddf0df4b1a6a2b27afacf861647ba248b034958e967059e6959'') Null,
    Nav_node ''XED_NONTERMINAL_XMM_R'' (Some ''xed-nonterminal-enum_8h.html#ae0eb8f71a8f89cddf0df4b1a6a2b27afa60cdd279756f5a44ae27aba215a102c7'') Null,
    Nav_node ''XED_NONTERMINAL_XMM_R3'' (Some ''xed-nonterminal-enum_8h.html#ae0eb8f71a8f89cddf0df4b1a6a2b27afad0cca242637ce60a7af10524053ca9af'') Null,
    Nav_node ''XED_NONTERMINAL_XMM_R3_32'' (Some ''xed-nonterminal-enum_8h.html#ae0eb8f71a8f89cddf0df4b1a6a2b27afa98f50ea9e0e1c9e0e72a09eb1424d799'') Null,
    Nav_node ''XED_NONTERMINAL_XMM_R3_64'' (Some ''xed-nonterminal-enum_8h.html#ae0eb8f71a8f89cddf0df4b1a6a2b27afa411dcf2eb0b3a850990b8aa081418cbd'') Null,
    Nav_node ''XED_NONTERMINAL_XMM_R_32'' (Some ''xed-nonterminal-enum_8h.html#ae0eb8f71a8f89cddf0df4b1a6a2b27afa46417f5764ba81b2cebdc69d99276c26'') Null,
    Nav_node ''XED_NONTERMINAL_XMM_R_64'' (Some ''xed-nonterminal-enum_8h.html#ae0eb8f71a8f89cddf0df4b1a6a2b27afad8107cec5b6e06eb9575930db2b493f8'') Null,
    Nav_node ''XED_NONTERMINAL_XMM_SE'' (Some ''xed-nonterminal-enum_8h.html#ae0eb8f71a8f89cddf0df4b1a6a2b27afafe79e0ee1a62af0bb1e67955788a7bee'') Null,
    Nav_node ''XED_NONTERMINAL_XMM_SE32'' (Some ''xed-nonterminal-enum_8h.html#ae0eb8f71a8f89cddf0df4b1a6a2b27afafce7e305df67b63fee29ab689e60a4a1'') Null,
    Nav_node ''XED_NONTERMINAL_XMM_SE64'' (Some ''xed-nonterminal-enum_8h.html#ae0eb8f71a8f89cddf0df4b1a6a2b27afad1f7cf6fa1d1c60d2c36a392260d369b'') Null,
    Nav_node ''XED_NONTERMINAL_XOP_INSTRUCTIONS'' (Some ''xed-nonterminal-enum_8h.html#ae0eb8f71a8f89cddf0df4b1a6a2b27afacd6d28a3e1d4c8771baaea36ab03f093'') Null,
    Nav_node ''XED_NONTERMINAL_YMM_B'' (Some ''xed-nonterminal-enum_8h.html#ae0eb8f71a8f89cddf0df4b1a6a2b27afaebe3a9fd81e581a0a24b37a9360086a2'') Null,
    Nav_node ''XED_NONTERMINAL_YMM_B3'' (Some ''xed-nonterminal-enum_8h.html#ae0eb8f71a8f89cddf0df4b1a6a2b27afa4514f83a6d08cbfb0268e6a5fc02db80'') Null,
    Nav_node ''XED_NONTERMINAL_YMM_B_32'' (Some ''xed-nonterminal-enum_8h.html#ae0eb8f71a8f89cddf0df4b1a6a2b27afaf6bfab44a05faa0fe99c4ded68cf3ce3'') Null,
    Nav_node ''XED_NONTERMINAL_YMM_B_64'' (Some ''xed-nonterminal-enum_8h.html#ae0eb8f71a8f89cddf0df4b1a6a2b27afa8fa7fb278e0935d7449e4245d3fae842'') Null,
    Nav_node ''XED_NONTERMINAL_YMM_I3'' (Some ''xed-nonterminal-enum_8h.html#ae0eb8f71a8f89cddf0df4b1a6a2b27afa797e03cf7353115c76e96ccdec2a588c'') Null,
    Nav_node ''XED_NONTERMINAL_YMM_N'' (Some ''xed-nonterminal-enum_8h.html#ae0eb8f71a8f89cddf0df4b1a6a2b27afa7b50bf13afc4c04e871a97ccedec5bfa'') Null,
    Nav_node ''XED_NONTERMINAL_YMM_N3'' (Some ''xed-nonterminal-enum_8h.html#ae0eb8f71a8f89cddf0df4b1a6a2b27afa54d19cff96f2a96bb52bfd230414b000'') Null,
    Nav_node ''XED_NONTERMINAL_YMM_N3_32'' (Some ''xed-nonterminal-enum_8h.html#ae0eb8f71a8f89cddf0df4b1a6a2b27afa7039d192d2a58b4879a7cb7b999b9b79'') Null,
    Nav_node ''XED_NONTERMINAL_YMM_N3_64'' (Some ''xed-nonterminal-enum_8h.html#ae0eb8f71a8f89cddf0df4b1a6a2b27afa3563caf483fb88fa28a28481c512f42f'') Null,
    Nav_node ''XED_NONTERMINAL_YMM_N_32'' (Some ''xed-nonterminal-enum_8h.html#ae0eb8f71a8f89cddf0df4b1a6a2b27afa1d0c19405279d8c4368658ffc83eedf6'') Null,
    Nav_node ''XED_NONTERMINAL_YMM_N_64'' (Some ''xed-nonterminal-enum_8h.html#ae0eb8f71a8f89cddf0df4b1a6a2b27afa0206b774d34b72ab7e76ac2b1bc1adcf'') Null,
    Nav_node ''XED_NONTERMINAL_YMM_R'' (Some ''xed-nonterminal-enum_8h.html#ae0eb8f71a8f89cddf0df4b1a6a2b27afa8a1b4cb45f5474ceea2644970c9ab54e'') Null,
    Nav_node ''XED_NONTERMINAL_YMM_R3'' (Some ''xed-nonterminal-enum_8h.html#ae0eb8f71a8f89cddf0df4b1a6a2b27afa721b425c45d8c7cd9be94c13ec74847c'') Null,
    Nav_node ''XED_NONTERMINAL_YMM_R3_32'' (Some ''xed-nonterminal-enum_8h.html#ae0eb8f71a8f89cddf0df4b1a6a2b27afaf6078454fd524c6415cb311b7d6cc386'') Null,
    Nav_node ''XED_NONTERMINAL_YMM_R3_64'' (Some ''xed-nonterminal-enum_8h.html#ae0eb8f71a8f89cddf0df4b1a6a2b27afa98bf8ef657d97ca91217b60624928f11'') Null,
    Nav_node ''XED_NONTERMINAL_YMM_R_32'' (Some ''xed-nonterminal-enum_8h.html#ae0eb8f71a8f89cddf0df4b1a6a2b27aface7b6ec692747e1ff346947279422607'') Null,
    Nav_node ''XED_NONTERMINAL_YMM_R_64'' (Some ''xed-nonterminal-enum_8h.html#ae0eb8f71a8f89cddf0df4b1a6a2b27afaee355e55851ead8dc5bafc034d1bb0e6'') Null,
    Nav_node ''XED_NONTERMINAL_YMM_SE'' (Some ''xed-nonterminal-enum_8h.html#ae0eb8f71a8f89cddf0df4b1a6a2b27afadfe81fcff712562aecfc2b1c2328bdeb'') Null,
    Nav_node ''XED_NONTERMINAL_YMM_SE32'' (Some ''xed-nonterminal-enum_8h.html#ae0eb8f71a8f89cddf0df4b1a6a2b27afa0b265c6c5167319a562932089c8dcb75'') Null,
    Nav_node ''XED_NONTERMINAL_YMM_SE64'' (Some ''xed-nonterminal-enum_8h.html#ae0eb8f71a8f89cddf0df4b1a6a2b27afa549ea9531fb4420ef828d2b857e1936f'') Null,
    Nav_node ''XED_NONTERMINAL_ZMM_B3'' (Some ''xed-nonterminal-enum_8h.html#ae0eb8f71a8f89cddf0df4b1a6a2b27afa71d54b4a2384921cb35694ead61ab0e8'') Null,
    Nav_node ''XED_NONTERMINAL_ZMM_B3_32'' (Some ''xed-nonterminal-enum_8h.html#ae0eb8f71a8f89cddf0df4b1a6a2b27afa3521d9881f3810ce5bb4b96f9e618854'') Null,
    Nav_node ''XED_NONTERMINAL_ZMM_B3_64'' (Some ''xed-nonterminal-enum_8h.html#ae0eb8f71a8f89cddf0df4b1a6a2b27afa48ed9fd1536eeb73c57c4b1ca6b19059'') Null,
    Nav_node ''XED_NONTERMINAL_ZMM_I3'' (Some ''xed-nonterminal-enum_8h.html#ae0eb8f71a8f89cddf0df4b1a6a2b27afa704639a2403d4f2e3798bfdc10b17f8e'') Null,
    Nav_node ''XED_NONTERMINAL_ZMM_N3'' (Some ''xed-nonterminal-enum_8h.html#ae0eb8f71a8f89cddf0df4b1a6a2b27afa823740ec84e861327462bebfb7ace8ef'') Null,
    Nav_node ''XED_NONTERMINAL_ZMM_N3_32'' (Some ''xed-nonterminal-enum_8h.html#ae0eb8f71a8f89cddf0df4b1a6a2b27afacada2f712306a0c63ee3394a4a171aae'') Null,
    Nav_node ''XED_NONTERMINAL_ZMM_N3_64'' (Some ''xed-nonterminal-enum_8h.html#ae0eb8f71a8f89cddf0df4b1a6a2b27afa82dce682ff7928e0f78c187089aba6c8'') Null,
    Nav_node ''XED_NONTERMINAL_ZMM_R3'' (Some ''xed-nonterminal-enum_8h.html#ae0eb8f71a8f89cddf0df4b1a6a2b27afa5dcfd80703cee65919d34aef6940b6b5'') Null,
    Nav_node ''XED_NONTERMINAL_ZMM_R3_32'' (Some ''xed-nonterminal-enum_8h.html#ae0eb8f71a8f89cddf0df4b1a6a2b27afa3fd6d0a84e7144a6ef5466a6fac6d26e'') Null,
    Nav_node ''XED_NONTERMINAL_ZMM_R3_64'' (Some ''xed-nonterminal-enum_8h.html#ae0eb8f71a8f89cddf0df4b1a6a2b27afacb3e22f5a1734ab35ef8bc9c360f98e6'') Null,
    Nav_node ''XED_NONTERMINAL_LAST'' (Some ''xed-nonterminal-enum_8h.html#ae0eb8f71a8f89cddf0df4b1a6a2b27afa5292799c7b361c388820e1e462e09698'') Null]"

lemma xed_nonterminal_enum_8h_values_2_closed: "list_all (closed_node scripts) xed_nonterminal_enum_8h_values_2"
  by (simp only: xed_nonterminal_enum_8h_values_2_def closed_rules)

definition xed_nonterminal_enum_8h_1 :: "nav_node list" where
  "xed_nonterminal_enum_8h_1 = [
    Nav_node ''xed_nonterminal_enum_t'' (Some ''xed-nonterminal-enum_8h.html#ae0eb8f71a8f89cddf0df4b1a6a2b27af'') (Nodes (xed_nonterminal_enum_8h_values_1 @ xed_nonterminal_enum_8h_values_2))]"

lemma xed_nonterminal_enum_8h_1_closed: "list_all (closed_node scripts) xed_nonterminal_enum_8h_1"
  by (simp only: xed_nonterminal_enum_8h_1_def closed_rules xed_nonterminal_enum_8h_values_1_closed xed_nonterminal_enum_8h_values_2_closed)

definition xed_nonterminal_enum_8h_2 :: "nav_node list" where
  "xed_nonterminal_enum_8h_2 = [
    Nav_node ''str2xed_nonterminal_enum_t'' (Some ''group__ENUM.html#gabe8ef68d543f1bda1075eaf53a15d09f'') Null,
    Nav_node ''xed_nonterminal_enum_t2str'' (Some ''group__ENUM.html#ga8da46cb4512cc73c88a7a80f3ed07aef'') Null,
    Nav_node ''xed_nonterminal_enum_t_last'' (Some ''group__ENUM.html#ga405ca1a9c5cb7c87d38d3d49be5a75d4'') Null]"

lemma xed_nonterminal_enum_8h_2_closed: "list_all (closed_node scripts) xed_nonterminal_enum_8h_2"
  by (simp only: xed_nonterminal_enum_8h_2_def closed_rules)

definition xed_nonterminal_enum_8h :: "nav_node list" where
  "xed_nonterminal_enum_8h = xed_nonterminal_enum_8h_1 @ xed_nonterminal_enum_8h_2"

lemma xed_nonterminal_enum_8h_closed: "list_all (closed_node scripts) xed_nonterminal_enum_8h"
  by (simp only: xed_nonterminal_enum_8h_def closed_rules xed_nonterminal_enum_8h_1_closed xed_nonterminal_enum_8h_2_closed)

end
