(* ===== verification/Nav_Tables_6.thy ===== *)
theory Nav_Tables_6
  imports Nav_Closed
begin

text \<open>
  Child tables of the navigation tree, one definition for each script, or several where the
  script is long: the nodes that the scripts put below the nodes that name them.
\<close>

definition xed_operand_accessors_8h_1 :: "nav_node list" where
  "xed_operand_accessors_8h_1 = [
    Nav_node ''xed3_get_generic_operand'' (Some ''xed-operand-accessors_8h.html#aabc6827901f2ea1153988ec991ab5ed7'') Null,
    Nav_node ''xed3_operand_get_agen'' (Some ''xed-operand-accessors_8h.html#a96a081698f1eac90bdd248c8a74a480b'') Null,
    Nav_node ''xed3_operand_get_amd3dnow'' (Some ''xed-operand-accessors_8h.html#adc269ebd74fd6c13839690796b8646d3'') Null,
    Nav_node ''xed3_operand_get_asz'' (Some ''xed-operand-accessors_8h.html#aa5fcd87b8bbd558dd1923a738ecdc818'') Null,
    Nav_node ''xed3_operand_get_base0'' (Some ''xed-operand-accessors_8h.html#ab1586251caad1892753b57a44d9354ed'') Null,
    Nav_node ''xed3_operand_get_base1'' (Some ''xed-operand-accessors_8h.html#a64550385a97ab0eed0501eaa2dcdff2c'') Null,
    Nav_node ''xed3_operand_get_bcast'' (Some ''xed-operand-accessors_8h.html#a42f798f21ee6ce138cea33cd77cb9e03'') Null,
    Nav_node ''xed3_operand_get_bcrc'' (Some ''xed-operand-accessors_8h.html#a0e85b687e4ae214dfa6cc7693c351cea'') Null,
    Nav_node ''xed3_operand_get_brdisp_width'' (Some ''xed-operand-accessors_8h.html#a87cba03ff75ae16e7631e705b3a81936'') Null,
    Nav_node ''xed3_operand_get_chip'' (Some ''xed-operand-accessors_8h.html#a7eb7a6e42e95fe167779fef803454b36'') Null,
    Nav_node ''xed3_operand_get_default_seg'' (Some ''xed-operand-accessors_8h.html#a5715b155234687415f476b8262202656'') Null,
    Nav_node ''xed3_operand_get_df32'' (Some ''xed-operand-accessors_8h.html#a84904b8531aaa35ed4b0e7d4b7c37738'') Null,
    Nav_node ''xed3_operand_get_df64'' (Some ''xed-operand-accessors_8h.html#ac4f7ad33d3a51a8e4ffa8eee53217d59'') Null,
    Nav_node ''xed3_operand_get_disp'' (Some ''xed-operand-accessors_8h.html#ac331c3422369554138648cd84b3772cd'') Null,
    Nav_node ''xed3_operand_get_disp_width'' (Some ''xed-operand-accessors_8h.html#a82d8ada3ae2c0d537fb7005d5bfb7cbc'') Null,
    Nav_node ''xed3_operand_get_dummy'' (Some ''xed-operand-accessors_8h.html#abbe369253fe82a40eaa06cd57b707287'') Null,
    Nav_node ''xed3_operand_get_easz'' (Some ''xed-operand-accessors_8h.html#acff0f54ef0adf5e447f16257f10d7f06'') Null,
    Nav_node ''xed3_operand_get_element_size'' (Some ''xed-operand-accessors_8h.html#a271343bd8d1fa178cf2b2ac62ef9b25a'') Null,
    Nav_node ''xed3_operand_get_encoder_preferred'' (Some ''xed-operand-accessors_8h.html#a8e370ab285fda5e3442e331a1cd75673'') Null,
    Nav_node ''xed3_operand_get_eosz'' (Some ''xed-operand-accessors_8h.html#acad2a7fef287c0409444ac633179f477'') Null,
    Nav_node ''xed3_operand_get_error'' (Some ''xed-operand-accessors_8h.html#aa02389e3c741173787a94372e145fe6f'') Null,
    Nav_node ''xed3_operand_get_esrc'' (Some ''xed-operand-accessors_8h.html#a234c0e97635eca63ee4b2c13e6b9fc59'') Null,
    Nav_node ''xed3_operand_get_esrc3'' (Some ''xed-operand-accessors_8h.html#ad0f5539665f391130415e218c2f7c602'') Null,
    Nav_node ''xed3_operand_get_evexrr'' (Some ''xed-operand-accessors_8h.html#a0a36cf7564a5f99c6c921ae7975946f9'') Null,
    Nav_node ''xed3_operand_get_first_f2f3'' (Some ''xed-operand-accessors_8h.html#a9e299395dd1f80001b0e24f0644a37d7'') Null,
    Nav_node ''xed3_operand_get_has_modrm'' (Some ''xed-operand-accessors_8h.html#aaf8469069564e4ccb58f3eb593469913'') Null,
    Nav_node ''xed3_operand_get_has_sib'' (Some ''xed-operand-accessors_8h.html#aeb1e3aac69d51321a819b1f46ac20012'') Null,
    Nav_node ''xed3_operand_get_hint'' (Some ''xed-operand-accessors_8h.html#aae7d8d46c5cb3dec401bb382a499b356'') Null,
    Nav_node ''xed3_operand_get_hsw'' (Some ''xed-operand-accessors_8h.html#a3d7c5e810a229e55f304d1923e282dc6'') Null,
    Nav_node ''xed3_operand_get_iclass'' (Some ''xed-operand-accessors_8h.html#a5e43b17a7b2a531822dc9c16ea654269'') Null,
    Nav_node ''xed3_operand_get_ild_f2'' (Some ''xed-operand-accessors_8h.html#ac008d55a19689aa4f5cec239f8e1a7d6'') Null,
    Nav_node ''xed3_operand_get_ild_f3'' (Some ''xed-operand-accessors_8h.html#a36235606eb1a02464c429adfa506757c'') Null,
    Nav_node ''xed3_operand_get_ild_seg'' (Some ''xed-operand-accessors_8h.html#a92bb6c6b2a5c426f24fde0d10bee1639'') Null,
    Nav_node ''xed3_operand_get_imm0'' (Some ''xed-operand-accessors_8h.html#ad275a5cd11c2a51e15b716565b62ce88'') Null,
    Nav_node ''xed3_operand_get_imm0signed'' (Some ''xed-operand-accessors_8h.html#a37c0fa4d9c4236d8b9eb28ce2f7901da'') Null,
    Nav_node ''xed3_operand_get_imm1'' (Some ''xed-operand-accessors_8h.html#a815c76b8686994ed62064788ca441153'') Null,
    Nav_node ''xed3_operand_get_imm1_bytes'' (Some ''xed-operand-accessors_8h.html#ad7297cada6c635fd835bab9e137ef49e'') Null,
    Nav_node ''xed3_operand_get_imm_width'' (Some ''xed-operand-accessors_8h.html#a3ba9b5e298244896005fa3cb34f1d174'') Null,
    Nav_node ''xed3_operand_get_index'' (Some ''xed-operand-accessors_8h.html#af75f4107ff2c592fa732977121d599b4'') Null,
    Nav_node ''xed3_operand_get_last_f2f3'' (Some ''xed-operand-accessors_8h.html#a28afb8f07f09fc3291b0b7dc39c41ca7'') Null,
    Nav_node ''xed3_operand_get_llrc'' (Some ''xed-operand-accessors_8h.html#a9ac6ce41f09e38bf263a5f78b25e013b'') Null,
    Nav_node ''xed3_operand_get_lock'' (Some ''xed-operand-accessors_8h.html#a6db8886b88c9d8efd9302fec37a11c62'') Null,
    Nav_node ''xed3_operand_get_lockable'' (Some ''xed-operand-accessors_8h.html#ae56b3efecb2b4b1fb94c1e4085cf5e18'') Null,
    Nav_node ''xed3_operand_get_map'' (Some ''xed-operand-accessors_8h.html#a0d35eeb4b83bf04750c9e003ec418f7e'') Null,
    Nav_node ''xed3_operand_get_mask'' (Some ''xed-operand-accessors_8h.html#ae0293a29a16478a1cb80a37326d7a84d'') Null,
    Nav_node ''xed3_operand_get_max_bytes'' (Some ''xed-operand-accessors_8h.html#a244acd729503cc3f426a4d124297e4f7'') Null,
    Nav_node ''xed3_operand_get_mem0'' (Some ''xed-operand-accessors_8h.html#af3187b45a44263dcc07b9bdf4fda7f2f'') Null,
    Nav_node ''xed3_operand_get_mem1'' (Some ''xed-operand-accessors_8h.html#a0c35332700656f2402fa35d52e153fe3'') Null,
    Nav_node ''xed3_operand_get_mem_width'' (Some ''xed-operand-accessors_8h.html#a9727f01beaeea4343a45470d1fdac77c'') Null,
    Nav_node ''xed3_operand_get_mod'' (Some ''xed-operand-accessors_8h.html#aaf8b171d07948550292f7a1a00fc503a'') Null,
    Nav_node ''xed3_operand_get_mode'' (Some ''xed-operand-accessors_8h.html#aea6f73ef3f034868727657f01059aea2'') Null,
    Nav_node ''xed3_operand_get_mode_first_prefix'' (Some ''xed-operand-accessors_8h.html#a377e47b141fd99e938d7c386f50c59aa'') Null,
    Nav_node ''xed3_operand_get_modep5'' (Some ''xed-operand-accessors_8h.html#ae783040602077a81f577b43d190c0f4d'') Null,
    Nav_node ''xed3_operand_get_modep55c'' (Some ''xed-operand-accessors_8h.html#ab11891efda1646d500ea7a3ee4208653'') Null,
    Nav_node ''xed3_operand_get_modrm'' (Some ''xed-operand-accessors_8h.html#aad5fbdb639f7d2e496ad9e0d929510d4'') Null,
    Nav_node ''xed3_operand_get_modrm_byte'' (Some ''xed-operand-accessors_8h.html#a268ae01346e4a17206d8d9047f380919'') Null,
    Nav_node ''xed3_operand_get_mpxmode'' (Some ''xed-operand-accessors_8h.html#a0e6b76dc2c7a45355431f2182bd7a5eb'') Null,
    Nav_node ''xed3_operand_get_need_memdisp'' (Some ''xed-operand-accessors_8h.html#aa5755ef0fdd02efda928b50bfd440740'') Null,
    Nav_node ''xed3_operand_get_needrex'' (Some ''xed-operand-accessors_8h.html#a01fee88550e01efdc778dcfbb31bf858'') Null,
    Nav_node ''xed3_operand_get_nelem'' (Some ''xed-operand-accessors_8h.html#a448e98a4171b620e908a8161013b6109'') Null,
    Nav_node ''xed3_operand_get_no_scale_disp8'' (Some ''xed-operand-accessors_8h.html#ab897c934dbb1abfdd54128121eaf2652'') Null,
    Nav_node ''xed3_operand_get_nominal_opcode'' (Some ''xed-operand-accessors_8h.html#ae0cc6375d2f33485b4f11f6ccc82cd6c'') Null,
    Nav_node ''xed3_operand_get_norex'' (Some ''xed-operand-accessors_8h.html#a240c67d856ed2f186493c76bb8fe2d48'') Null,
    Nav_node ''xed3_operand_get_nprefixes'' (Some ''xed-operand-accessors_8h.html#a670b4aedd299fd9e9f9ce00d55800d24'') Null,
    Nav_node ''xed3_operand_get_nrexes'' (Some ''xed-operand-accessors_8h.html#ae1ece181755d843f86efc5d636ab292d'') Null,
    Nav_node ''xed3_operand_get_nseg_prefixes'' (Some ''xed-operand-accessors_8h.html#a73c8aafccf37043e6784dabd896a30e8'') Null,
    Nav_node ''xed3_operand_get_osz'' (Some ''xed-operand-accessors_8h.html#acf2cdc31ce9b2f7d57fde7285268e9e2'') Null,
    Nav_node ''xed3_operand_get_out_of_bytes'' (Some ''xed-operand-accessors_8h.html#a0b9305ae1c78655499e56c13234a5c1b'') Null,
    Nav_node ''xed3_operand_get_outreg'' (Some ''xed-operand-accessors_8h.html#a38ad85795b5e640fe36c5766fa269e8d'') Null,
    Nav_node ''xed3_operand_get_p4'' (Some ''xed-operand-accessors_8h.html#a9397cee6ad48ed059a7823f16196aeb2'') Null,
    Nav_node ''xed3_operand_get_pos_disp'' (Some ''xed-operand-accessors_8h.html#a5e88a3da61cf7514dcae4297c8c5ac48'') Null,
    Nav_node ''xed3_operand_get_pos_imm'' (Some ''xed-operand-accessors_8h.html#a45db5abddd2997b39ea9c5461ba6234d'') Null,
    Nav_node ''xed3_operand_get_pos_imm1'' (Some ''xed-operand-accessors_8h.html#a257a0e5dfef1357c588aadb99ff2b257'') Null,
    Nav_node ''xed3_operand_get_pos_modrm'' (Some ''xed-operand-accessors_8h.html#a56ca74fdad7d3a62a090ab47b6fc1118'') Null,
    Nav_node ''xed3_operand_get_pos_nominal_opcode'' (Some ''xed-operand-accessors_8h.html#a552cac84763e2a58b9350c37365c2f06'') Null,
    Nav_node ''xed3_operand_get_pos_sib'' (Some ''xed-operand-accessors_8h.html#a9fd3d5ab9f647716b2fb0a0bdbdb2463'') Null,
    Nav_node ''xed3_operand_get_prefix66'' (Some ''xed-operand-accessors_8h.html#a7eaf511c85b96d2bc914c2a14777c4ce'') Null,
    Nav_node ''xed3_operand_get_ptr'' (Some ''xed-operand-accessors_8h.html#aa6bbc1287229577d966a855998433f80'') Null,
    Nav_node ''xed3_operand_get_realmode'' (Some ''xed-operand-accessors_8h.html#af7f36aed0dfa6c1f1579afa01c71692a'') Null,
    Nav_node ''xed3_operand_get_refining'' (Some ''xed-operand-accessors_8h.html#a6f38f3997c708140b7d84d4bc3b928f7'') Null,
    Nav_node ''xed3_operand_get_reg'' (Some ''xed-operand-accessors_8h.html#a838fe91a317f225c71333aa3578ccda7'') Null,
    Nav_node ''xed3_operand_get_reg0'' (Some ''xed-operand-accessors_8h.html#aaec035ce1e612250727d4d7de22d753e'') Null,
    Nav_node ''xed3_operand_get_reg1'' (Some ''xed-operand-accessors_8h.html#a43c3e9e703d34592c21d1b9321c5f3a3'') Null,
    Nav_node ''xed3_operand_get_reg2'' (Some ''xed-operand-accessors_8h.html#aaa2776fba92f7bf2da38b5aa084d5a49'') Null,
    Nav_node ''xed3_operand_get_reg3'' (Some ''xed-operand-accessors_8h.html#a65906e01f649f5b63a73c993c8ebe3ac'') Null,
    Nav_node ''xed3_operand_get_reg4'' (Some ''xed-operand-accessors_8h.html#ad754465270d63ed17740b6ce3a99f582'') Null,
    Nav_node ''xed3_operand_get_reg5'' (Some ''xed-operand-accessors_8h.html#a61a8dc6adbab50bdce04d235afe72f87'') Null,
    Nav_node ''xed3_operand_get_reg6'' (Some ''xed-operand-accessors_8h.html#afc6e30ce13bcd4b6b1a37177b249e85e'') Null,
    Nav_node ''xed3_operand_get_reg7'' (Some ''xed-operand-accessors_8h.html#a20a264e9c8601e8e14f2ca5999b9ba53'') Null,
    Nav_node ''xed3_operand_get_reg8'' (Some ''xed-operand-accessors_8h.html#a62ebfc7ac28a3acc7012cf30d6e4036a'') Null,
    Nav_node ''xed3_operand_get_relbr'' (Some ''xed-operand-accessors_8h.html#a8e0bd8cfe8318fe374b59cb9f31f3173'') Null,
    Nav_node ''xed3_operand_get_rep'' (Some ''xed-operand-accessors_8h.html#aac52a7bde85743dd67cbe6e82b73d4c3'') Null,
    Nav_node ''xed3_operand_get_rep_able'' (Some ''xed-operand-accessors_8h.html#a6ea75918a1e7d02f6f08c5fee6a51c41'') Null,
    Nav_node ''xed3_operand_get_rex'' (Some ''xed-operand-accessors_8h.html#a29c75ccadb55ec28868638bd95f95962'') Null,
    Nav_node ''xed3_operand_get_rexb'' (Some ''xed-operand-accessors_8h.html#a60c7d821605a405b50b8fc6b4c59b2a7'') Null,
    Nav_node ''xed3_operand_get_rexr'' (Some ''xed-operand-accessors_8h.html#a362b24bd6d070e4b22780ef53fcda177'') Null,
    Nav_node ''xed3_operand_get_rexrr'' (Some ''xed-operand-accessors_8h.html#a5fb4ea9b17243c26458695a300146337'') Null,
    Nav_node ''xed3_operand_get_rexw'' (Some ''xed-operand-accessors_8h.html#a22f139cc2a2c3cdfc2383f71becd694d'') Null,
    Nav_node ''xed3_operand_get_rexx'' (Some ''xed-operand-accessors_8h.html#ac0f41361a82c26d1e6ff887deaebea39'') Null,
    Nav_node ''xed3_operand_get_rm'' (Some ''xed-operand-accessors_8h.html#a84c14d5b2e8c55a3e91fd2a2849db37e'') Null,
    Nav_node ''xed3_operand_get_roundc'' (Some ''xed-operand-accessors_8h.html#a1c947c178d9ad0665fbed045e7b20a4e'') Null,
    Nav_node ''xed3_operand_get_sae'' (Some ''xed-operand-accessors_8h.html#a276aa7573e9045f6c6555234479f5978'') Null,
    Nav_node ''xed3_operand_get_scale'' (Some ''xed-operand-accessors_8h.html#a9e936b682cf66085095cb151d8a0faf5'') Null,
    Nav_node ''xed3_operand_get_seg0'' (Some ''xed-operand-accessors_8h.html#a9cb0b61385c7bce565ca6b3c56343f36'') Null,
    Nav_node ''xed3_operand_get_seg1'' (Some ''xed-operand-accessors_8h.html#af4b3fc44a6d346f0d70ece968f3b04df'') Null,
    Nav_node ''xed3_operand_get_seg_ovd'' (Some ''xed-operand-accessors_8h.html#a61983ed9ac6bd7f78d33800a006a3054'') Null,
    Nav_node ''xed3_operand_get_sib'' (Some ''xed-operand-accessors_8h.html#a1e5380a740d1f1ca6d8a544b1b2b87c6'') Null,
    Nav_node ''xed3_operand_get_sibbase'' (Some ''xed-operand-accessors_8h.html#ac41aaeac270af9b68ca096606a2e5e9b'') Null,
    Nav_node ''xed3_operand_get_sibindex'' (Some ''xed-operand-accessors_8h.html#aa7e7737ac99780c34bbd58cbcfad5ecf'') Null,
    Nav_node ''xed3_operand_get_sibscale'' (Some ''xed-operand-accessors_8h.html#a2cdcbf08f2a98ddcaf1f4c39c4d28988'') Null,
    Nav_node ''xed3_operand_get_skip_osz'' (Some ''xed-operand-accessors_8h.html#a83bac4dc25ca382248c9459aa1e6c2a8'') Null,
    Nav_node ''xed3_operand_get_smode'' (Some ''xed-operand-accessors_8h.html#a07653bc6daf42c83414878f75ecd2cb5'') Null,
    Nav_node ''xed3_operand_get_sreg'' (Some ''xed-operand-accessors_8h.html#abd73050e8621ec2911313be94e38e155'') Null,
    Nav_node ''xed3_operand_get_srm'' (Some ''xed-operand-accessors_8h.html#afbc86da6cfc675b3f287b87eb6edbfe6'') Null,
    Nav_node ''xed3_operand_get_type'' (Some ''xed-operand-accessors_8h.html#a8e1c6fb03eae8ecc9a7ccab6ebe4e659'') Null,
    Nav_node ''xed3_operand_get_ubit'' (Some ''xed-operand-accessors_8h.html#ab6588d305024611a061c9af79c1f1ca5'') Null,
    Nav_node ''xed3_operand_get_uimm0'' (Some ''xed-operand-accessors_8h.html#abe6795d0ed348a9c8f028ccad03ffbd7'') Null,
    Nav_node ''xed3_operand_get_uimm1'' (Some ''xed-operand-accessors_8h.html#aa1246728714136b953cc7fd1eb83608f'') Null,
    Nav_node ''xed3_operand_get_using_default_segment0'' (Some ''xed-operand-accessors_8h.html#ab8c1185e3e7efe7b0c49cb92b7eacdc9'') Null,
    Nav_node ''xed3_operand_get_using_default_segment1'' (Some ''xed-operand-accessors_8h.html#af44b4bb1cceb7cbe6cf84503f16292a1'') Null,
    Nav_node ''xed3_operand_get_vex_c4'' (Some ''xed-operand-accessors_8h.html#a7049ebbdb943cd2e9ebcd7e81b886455'') Null,
    Nav_node ''xed3_operand_get_vex_prefix'' (Some ''xed-operand-accessors_8h.html#a853e3c7ed4d6584b62b37cf65e25e82e'') Null,
    Nav_node ''xed3_operand_get_vexdest210'' (Some ''xed-operand-accessors_8h.html#a322f0591b7daef6dfa674d594784138f'') Null,
    Nav_node ''xed3_operand_get_vexdest3'' (Some ''xed-operand-accessors_8h.html#aee06648d3826aa13165298cb4ce14793'') Null,
    Nav_node ''xed3_operand_get_vexdest4'' (Some ''xed-operand-accessors_8h.html#a040044145d187dd583addb68ad7cde4e'') Null,
    Nav_node ''xed3_operand_get_vexvalid'' (Some ''xed-operand-accessors_8h.html#a86b0c3a65894cc594fea2adcf2036d21'') Null,
    Nav_node ''xed3_operand_get_vl'' (Some ''xed-operand-accessors_8h.html#a4d08319933fa41df36c8e1e5b350980d'') Null,
    Nav_node ''xed3_operand_get_zeroing'' (Some ''xed-operand-accessors_8h.html#a9249c99df833309c7321ceab53e20822'') Null,
    Nav_node ''xed3_operand_set_agen'' (Some ''xed-operand-accessors_8h.html#aa928287fe07b682a80cd6d6c5cc906ca'') Null,
    Nav_node ''xed3_operand_set_amd3dnow'' (Some ''xed-operand-accessors_8h.html#ac4119040487b704cbca826dac87a1287'') Null,
    Nav_node ''xed3_operand_set_asz'' (Some ''xed-operand-accessors_8h.html#add6ca8cc8e648b0213b1af546882e1b4'') Null,
    Nav_node ''xed3_operand_set_base0'' (Some ''xed-operand-accessors_8h.html#adc28caf5812e769d65c299330c04b0fe'') Null,
    Nav_node ''xed3_operand_set_base1'' (Some ''xed-operand-accessors_8h.html#a54294ae17268f5a9ec350fc7ff4cddd1'') Null,
    Nav_node ''xed3_operand_set_bcast'' (Some ''xed-operand-accessors_8h.html#abd90284b99f0d9a22fa1fcb5a770fbde'') Null,
    Nav_node ''xed3_operand_set_bcrc'' (Some ''xed-operand-accessors_8h.html#a552dae3aa4003e6d87795e1d37b566f7'') Null,
    Nav_node ''xed3_operand_set_brdisp_width'' (Some ''xed-operand-accessors_8h.html#a91c1f7c7b84d817f345e12431f0730c1'') Null,
    Nav_node ''xed3_operand_set_chip'' (Some ''xed-operand-accessors_8h.html#a5811acb7234721f70ea7f5dd544d7069'') Null,
    Nav_node ''xed3_operand_set_default_seg'' (Some ''xed-operand-accessors_8h.html#a2c4b24e8ad190bab6ceb6279dfb00e8c'') Null,
    Nav_node ''xed3_operand_set_df32'' (Some ''xed-operand-accessors_8h.html#a416c3bf780552e636296ba8e0d4fafc1'') Null,
    Nav_node ''xed3_operand_set_df64'' (Some ''xed-operand-accessors_8h.html#a02bf9924665e17b4171eec62588dcad1'') Null]"

lemma xed_operand_accessors_8h_1_closed: "list_all (closed_node scripts) xed_operand_accessors_8h_1"
  by (simp only: xed_operand_accessors_8h_1_def closed_rules)

definition xed_operand_accessors_8h_2 :: "nav_node list" where
  "xed_operand_accessors_8h_2 = [
    Nav_node ''xed3_operand_set_disp'' (Some ''xed-operand-accessors_8h.html#a70c3ff664ea619e792ced9523297d78d'') Null,
    Nav_node ''xed3_operand_set_disp_width'' (Some ''xed-operand-accessors_8h.html#a1f43cf847e4f8457fdf83c990398cfb3'') Null,
    Nav_node ''xed3_operand_set_dummy'' (Some ''xed-operand-accessors_8h.html#afc0ebe6f5dbcebeefdb2b4a4ee1d6b39'') Null,
    Nav_node ''xed3_operand_set_easz'' (Some ''xed-operand-accessors_8h.html#ae2cfcab3184111f30850c4e261355bff'') Null,
    Nav_node ''xed3_operand_set_element_size'' (Some ''xed-operand-accessors_8h.html#adf564e69fec05fcde029fd66e79d9d76'') Null,
    Nav_node ''xed3_operand_set_encoder_preferred'' (Some ''xed-operand-accessors_8h.html#a1db2131e30ea811b55a956ff9086d493'') Null,
    Nav_node ''xed3_operand_set_eosz'' (Some ''xed-operand-accessors_8h.html#a317cae92839bfe6b4eb6a68d5e792f1b'') Null,
    Nav_node ''xed3_operand_set_error'' (Some ''xed-operand-accessors_8h.html#ab92413f46320f7d0b0fb2d407b9610c6'') Null,
    Nav_node ''xed3_operand_set_esrc'' (Some ''xed-operand-accessors_8h.html#aa7c827bfce86d8a64a1ba0d34bc839c9'') Null,
    Nav_node ''xed3_operand_set_esrc3'' (Some ''xed-operand-accessors_8h.html#a6f6579a4db6ce61c6c9c99726d3e8a84'') Null,
    Nav_node ''xed3_operand_set_evexrr'' (Some ''xed-operand-accessors_8h.html#aa1a59fb819f6a36c0034b7dc12a1dc00'') Null,
    Nav_node ''xed3_operand_set_first_f2f3'' (Some ''xed-operand-accessors_8h.html#a70404f30eb0adfaa08ebcf51e799a126'') Null,
    Nav_node ''xed3_operand_set_has_modrm'' (Some ''xed-operand-accessors_8h.html#a74df0ea758722a75818cbd004103a87b'') Null,
    Nav_node ''xed3_operand_set_has_sib'' (Some ''xed-operand-accessors_8h.html#a373f4f8bdf89c3d932ac217e2fbe62ac'') Null,
    Nav_node ''xed3_operand_set_hint'' (Some ''xed-operand-accessors_8h.html#a36a497b8cbef18c212600464b5f397e3'') Null,
    Nav_node ''xed3_operand_set_hsw'' (Some ''xed-operand-accessors_8h.html#a022bdff2979018f59a78329359e28f5a'') Null,
    Nav_node ''xed3_operand_set_iclass'' (Some ''xed-operand-accessors_8h.html#a2225c3afeb326dc6f8fa8f1d14435b0b'') Null,
    Nav_node ''xed3_operand_set_ild_f2'' (Some ''xed-operand-accessors_8h.html#a299e881075b5e126598faae5bbcddc73'') Null,
    Nav_node ''xed3_operand_set_ild_f3'' (Some ''xed-operand-accessors_8h.html#ab92b094e3093a6f581f30f8360430225'') Null,
    Nav_node ''xed3_operand_set_ild_seg'' (Some ''xed-operand-accessors_8h.html#a5ff4fa74028fd60ace51565338e53237'') Null,
    Nav_node ''xed3_operand_set_imm0'' (Some ''xed-operand-accessors_8h.html#adc843b74f5d12af1dc458c008eb7b637'') Null,
    Nav_node ''xed3_operand_set_imm0signed'' (Some ''xed-operand-accessors_8h.html#ae5f14d1646dac0afa43e5784fa1b1ef0'') Null,
    Nav_node ''xed3_operand_set_imm1'' (Some ''xed-operand-accessors_8h.html#a5d28f0d9447d2e42ce7106f149cc8816'') Null,
    Nav_node ''xed3_operand_set_imm1_bytes'' (Some ''xed-operand-accessors_8h.html#a1c84ca7d757cc028a295227a2d98fe34'') Null,
    Nav_node ''xed3_operand_set_imm_width'' (Some ''xed-operand-accessors_8h.html#a9a747813e6ff77e8c47d0c57c4be8494'') Null,
    Nav_node ''xed3_operand_set_index'' (Some ''xed-operand-accessors_8h.html#a7663667cd43b35aaccb670ff0d242c0e'') Null,
    Nav_node ''xed3_operand_set_last_f2f3'' (Some ''xed-operand-accessors_8h.html#a8a63ecdf1b3deeb77acdd4d4a134143c'') Null,
    Nav_node ''xed3_operand_set_llrc'' (Some ''xed-operand-accessors_8h.html#a442eeb82b77db5bdafb4ae63744b84db'') Null,
    Nav_node ''xed3_operand_set_lock'' (Some ''xed-operand-accessors_8h.html#a4affc4b8a3cb6bf55037a3d51bc9cb00'') Null,
    Nav_node ''xed3_operand_set_lockable'' (Some ''xed-operand-accessors_8h.html#aa1417d4e0972a3dbd289015832e3b61b'') Null,
    Nav_node ''xed3_operand_set_map'' (Some ''xed-operand-accessors_8h.html#af712f2e85262d1eeb7a113617f31d6c8'') Null,
    Nav_node ''xed3_operand_set_mask'' (Some ''xed-operand-accessors_8h.html#ad04f6988543433b0658efb8b6eb6e5d9'') Null,
    Nav_node ''xed3_operand_set_max_bytes'' (Some ''xed-operand-accessors_8h.html#ac20779940f54e15b4567b1037c65e939'') Null,
    Nav_node ''xed3_operand_set_mem0'' (Some ''xed-operand-accessors_8h.html#a5b0e163aed68c3f708dfda38b04971ac'') Null,
    Nav_node ''xed3_operand_set_mem1'' (Some ''xed-operand-accessors_8h.html#a8137ff9f71c2804a241b5275aac45566'') Null,
    Nav_node ''xed3_operand_set_mem_width'' (Some ''xed-operand-accessors_8h.html#a9963d4e0318c075233810c0c60b18fcd'') Null,
    Nav_node ''xed3_operand_set_mod'' (Some ''xed-operand-accessors_8h.html#a07ce5c0b5762d21034869f8bed2ba244'') Null,
    Nav_node ''xed3_operand_set_mode'' (Some ''xed-operand-accessors_8h.html#ab43172ad9ccbdc9f9c6b977584ea67ef'') Null,
    Nav_node ''xed3_operand_set_mode_first_prefix'' (Some ''xed-operand-accessors_8h.html#a955f6d7c8590a8fbf33bc9f9a6e86584'') Null,
    Nav_node ''xed3_operand_set_modep5'' (Some ''xed-operand-accessors_8h.html#a95c4b13a9306b3d5d0a3f97062f261b1'') Null,
    Nav_node ''xed3_operand_set_modep55c'' (Some ''xed-operand-accessors_8h.html#a452dfaaca4c9ed692bd0ea0b06ff4a14'') Null,
    Nav_node ''xed3_operand_set_modrm'' (Some ''xed-operand-accessors_8h.html#a9ee3256649845e66df72e6cf9ffdd483'') Null,
    Nav_node ''xed3_operand_set_modrm_byte'' (Some ''xed-operand-accessors_8h.html#a76cd6c9f32c601f16ab03424dd5ab8b4'') Null,
    Nav_node ''xed3_operand_set_mpxmode'' (Some ''xed-operand-accessors_8h.html#a2cab05654ad5c4018faf2be46909614a'') Null,
    Nav_node ''xed3_operand_set_need_memdisp'' (Some ''xed-operand-accessors_8h.html#a4025503a2c0a2ac5c49124297f31ba9a'') Null,
    Nav_node ''xed3_operand_set_needrex'' (Some ''xed-operand-accessors_8h.html#ad91fb7e2901f0c35911b9f96965efe48'') Null,
    Nav_node ''xed3_operand_set_nelem'' (Some ''xed-operand-accessors_8h.html#a97ddfc53ca7f54cd8dfed65a444a7e33'') Null,
    Nav_node ''xed3_operand_set_no_scale_disp8'' (Some ''xed-operand-accessors_8h.html#a4b6d70829d5d4c8f8c4495abea69e1a5'') Null,
    Nav_node ''xed3_operand_set_nominal_opcode'' (Some ''xed-operand-accessors_8h.html#aef2ac5c021f1b8db4b512c44e0fee447'') Null,
    Nav_node ''xed3_operand_set_norex'' (Some ''xed-operand-accessors_8h.html#ad8471d48832d69bb8ba6138472958466'') Null,
    Nav_node ''xed3_operand_set_nprefixes'' (Some ''xed-operand-accessors_8h.html#aa9a0595b8c1990cab591c3554fc5a71a'') Null,
    Nav_node ''xed3_operand_set_nrexes'' (Some ''xed-operand-accessors_8h.html#a675bf8e3072ac2a75e670143cfde950d'') Null,
    Nav_node ''xed3_operand_set_nseg_prefixes'' (Some ''xed-operand-accessors_8h.html#a2d9056e9a1aa716d93df691d294c41b3'') Null,
    Nav_node ''xed3_operand_set_osz'' (Some ''xed-operand-accessors_8h.html#a2b140c9eeaeb83ff540f7421c789ebbc'') Null,
    Nav_node ''xed3_operand_set_out_of_bytes'' (Some ''xed-operand-accessors_8h.html#ab4dda0174a28aac3d57580cf93905d24'') Null,
    Nav_node ''xed3_operand_set_outreg'' (Some ''xed-operand-accessors_8h.html#ae7887498b8ddc29bc282ff9f767d4c0b'') Null,
    Nav_node ''xed3_operand_set_p4'' (Some ''xed-operand-accessors_8h.html#a665c50ec7837b6844463359b9801ed15'') Null,
    Nav_node ''xed3_operand_set_pos_disp'' (Some ''xed-operand-accessors_8h.html#a9572e04a38766145b8e2c8eaa5560696'') Null,
    Nav_node ''xed3_operand_set_pos_imm'' (Some ''xed-operand-accessors_8h.html#a42669e341995f3b1dbf7a92065f5073b'') Null,
    Nav_node ''xed3_operand_set_pos_imm1'' (Some ''xed-operand-accessors_8h.html#a8d668f8e29595ded49fda74330db3f19'') Null,
    Nav_node ''xed3_operand_set_pos_modrm'' (Some ''xed-operand-accessors_8h.html#a8472e2fd21f38a4037597c185ee6da8b'') Null,
    Nav_node ''xed3_operand_set_pos_nominal_opcode'' (Some ''xed-operand-accessors_8h.html#a778bb69be6d7009eb479e09db7fc8075'') Null,
    Nav_node ''xed3_operand_set_pos_sib'' (Some ''xed-operand-accessors_8h.html#a6dd57e1ebe271449b4b6d033b8be192e'') Null,
    Nav_node ''xed3_operand_set_prefix66'' (Some ''xed-operand-accessors_8h.html#a71bf5ce673717e38de38f94967c2530c'') Null,
    Nav_node ''xed3_operand_set_ptr'' (Some ''xed-operand-accessors_8h.html#af19199cba21a3a69f8858a787a9aac17'') Null,
    Nav_node ''xed3_operand_set_realmode'' (Some ''xed-operand-accessors_8h.html#aac46544f2e8367158713b8fb10bf0797'') Null,
    Nav_node ''xed3_operand_set_refining'' (Some ''xed-operand-accessors_8h.html#a2dd0ce18965ca1b3e9bd4468783ca9dc'') Null,
    Nav_node ''xed3_operand_set_reg'' (Some ''xed-operand-accessors_8h.html#a959cd4aa5e64134d5554798caa73eb91'') Null,
    Nav_node ''xed3_operand_set_reg0'' (Some ''xed-operand-accessors_8h.html#adf74786ea03c5c8c61f6e041c2d5f901'') Null,
    Nav_node ''xed3_operand_set_reg1'' (Some ''xed-operand-accessors_8h.html#ae47085cf6a0b0dbde06856e377f7b392'') Null,
    Nav_node ''xed3_operand_set_reg2'' (Some ''xed-operand-accessors_8h.html#ad521d5deafd4c77abbb9925e22994e34'') Null,
    Nav_node ''xed3_operand_set_reg3'' (Some ''xed-operand-accessors_8h.html#ad41af15e098b98824f6cb23374098d46'') Null,
    Nav_node ''xed3_operand_set_reg4'' (Some ''xed-operand-accessors_8h.html#ab6a2667fa478e1e9fa248c89c7c65f33'') Null,
    Nav_node ''xed3_operand_set_reg5'' (Some ''xed-operand-accessors_8h.html#a8ec47a267187f2625ce8abc960bd7e87'') Null,
    Nav_node ''xed3_operand_set_reg6'' (Some ''xed-operand-accessors_8h.html#aa894f82274a3d02c254f09505e37fd15'') Null,
    Nav_node ''xed3_operand_set_reg7'' (Some ''xed-operand-accessors_8h.html#ac9f8fe96774cda4b9328397801663f00'') Null,
    Nav_node ''xed3_operand_set_reg8'' (Some ''xed-operand-accessors_8h.html#a7891a6294eea24a2c296e2bf51d460d9'') Null,
    Nav_node ''xed3_operand_set_relbr'' (Some ''xed-operand-accessors_8h.html#a39d97a60b13500f02e39d1fea922b2a0'') Null,
    Nav_node ''xed3_operand_set_rep'' (Some ''xed-operand-accessors_8h.html#af9b63ae414f8b7eeded047d94c4e13a2'') Null,
    Nav_node ''xed3_operand_set_rep_able'' (Some ''xed-operand-accessors_8h.html#a13fa4255d0249095595cfbb6e5d37167'') Null,
    Nav_node ''xed3_operand_set_rex'' (Some ''xed-operand-accessors_8h.html#a871b8b13b0e704514a0f5b5dddd9ff6a'') Null,
    Nav_node ''xed3_operand_set_rexb'' (Some ''xed-operand-accessors_8h.html#abad54dd6dfc3ebd2b1e6963d65de3c6e'') Null,
    Nav_node ''xed3_operand_set_rexr'' (Some ''xed-operand-accessors_8h.html#af8f4b061987cd72eb036496bc1851d70'') Null,
    Nav_node ''xed3_operand_set_rexrr'' (Some ''xed-operand-accessors_8h.html#a33a98a4fe75b3640fd2d8805ae56d571'') Null,
    Nav_node ''xed3_operand_set_rexw'' (Some ''xed-operand-accessors_8h.html#a3e7ced6a21ac72c9e92a2d12c3573d49'') Null,
    Nav_node ''xed3_operand_set_rexx'' (Some ''xed-operand-accessors_8h.html#a48a8eab6d7ca5e26ba03a138d0720845'') Null,
    Nav_node ''xed3_operand_set_rm'' (Some ''xed-operand-accessors_8h.html#abf37e59c4e44a0e41b193d045d021475'') Null,
    Nav_node ''xed3_operand_set_roundc'' (Some ''xed-operand-accessors_8h.html#ab3b4fbe90eeed66432adaf2d56242e80'') Null,
    Nav_node ''xed3_operand_set_sae'' (Some ''xed-operand-accessors_8h.html#a291438d2b0281295f578ffd4b6154dd7'') Null,
    Nav_node ''xed3_operand_set_scale'' (Some ''xed-operand-accessors_8h.html#ac600460bc7adc8654423e3d53a7c4005'') Null,
    Nav_node ''xed3_operand_set_seg0'' (Some ''xed-operand-accessors_8h.html#a63806d11bd448fd26c15f0eda6ca2896'') Null,
    Nav_node ''xed3_operand_set_seg1'' (Some ''xed-operand-accessors_8h.html#a088c51b726ba30247c5742411fbbe361'') Null,
    Nav_node ''xed3_operand_set_seg_ovd'' (Some ''xed-operand-accessors_8h.html#a47d714371be1de64be6df7206fc0cb89'') Null,
    Nav_node ''xed3_operand_set_sib'' (Some ''xed-operand-accessors_8h.html#acf0c4a9201d8cde76a5881beb7219226'') Null,
    Nav_node ''xed3_operand_set_sibbase'' (Some ''xed-operand-accessors_8h.html#a213c5ffd78b0938a45eb3b9c719ea0f7'') Null,
    Nav_node ''xed3_operand_set_sibindex'' (Some ''xed-operand-accessors_8h.html#ad98313f98dd2c134013fae18819b3dcd'') Null,
    Nav_node ''xed3_operand_set_sibscale'' (Some ''xed-operand-accessors_8h.html#a62ad89ed5453a6088d7e779d834f93d7'') Null,
    Nav_node ''xed3_operand_set_skip_osz'' (Some ''xed-operand-accessors_8h.html#a651c02cf031239da9b8a6939c064f2d6'') Null,
    Nav_node ''xed3_operand_set_smode'' (Some ''xed-operand-accessors_8h.html#ab0665b23e9af73ef7c7c8ad455081b8c'') Null,
    Nav_node ''xed3_operand_set_sreg'' (Some ''xed-operand-accessors_8h.html#ab11ee8a35badc93b5bd13f9d92d92666'') Null,
    Nav_node ''xed3_operand_set_srm'' (Some ''xed-operand-accessors_8h.html#a5b73be9683ab063b2f693be60f4f465c'') Null,
    Nav_node ''xed3_operand_set_type'' (Some ''xed-operand-accessors_8h.html#a73797dc0256bd0b66b4e1474a97510c9'') Null,
    Nav_node ''xed3_operand_set_ubit'' (Some ''xed-operand-accessors_8h.html#a3963bcbfe7401531d7376e793714ea3c'') Null,
    Nav_node ''xed3_operand_set_uimm0'' (Some ''xed-operand-accessors_8h.html#a61e53d4a10377cfb1c7cbca536148d94'') Null,
    Nav_node ''xed3_operand_set_uimm1'' (Some ''xed-operand-accessors_8h.html#aad1faef5fa04cd3df209fe98558a01ae'') Null,
    Nav_node ''xed3_operand_set_using_default_segment0'' (Some ''xed-operand-accessors_8h.html#af415993718223e62c8cdb95e67e22cd6'') Null,
    Nav_node ''xed3_operand_set_using_default_segment1'' (Some ''xed-operand-accessors_8h.html#a032a88b4e1543cdaaf2dafff6ad8be6b'') Null,
    Nav_node ''xed3_operand_set_vex_c4'' (Some ''xed-operand-accessors_8h.html#a09b46367a42f779a4665bebce40ec25e'') Null,
    Nav_node ''xed3_operand_set_vex_prefix'' (Some ''xed-operand-accessors_8h.html#a1ed4ad11c81396c6312b65cc6c9b1717'') Null,
    Nav_node ''xed3_operand_set_vexdest210'' (Some ''xed-operand-accessors_8h.html#abca41056b33128d01345e1878b9f7bc8'') Null,
    Nav_node ''xed3_operand_set_vexdest3'' (Some ''xed-operand-accessors_8h.html#aecbb70bbb7f155ce5ea0b1aff7e91a9b'') Null,
    Nav_node ''xed3_operand_set_vexdest4'' (Some ''xed-operand-accessors_8h.html#adc1b5598d30bdce375d4f723fc5e096e'') Null,
    Nav_node ''xed3_operand_set_vexvalid'' (Some ''xed-operand-accessors_8h.html#a3a5d326c44ace45e0e759f782ae09765'') Null,
    Nav_node ''xed3_operand_set_vl'' (Some ''xed-operand-accessors_8h.html#adcaebd214aa9b9d18d2929b3cd44f340'') Null,
    Nav_node ''xed3_operand_set_zeroing'' (Some ''xed-operand-accessors_8h.html#a05d5213e556ff6323a80004a6806a674'') Null,
    Nav_node ''xed3_set_generic_operand'' (Some ''xed-operand-accessors_8h.html#a4efc9e254953e44135389490ba8a7b49'') Null]"

lemma xed_operand_accessors_8h_2_closed: "list_all (closed_node scripts) xed_operand_accessors_8h_2"
  by (simp only: xed_operand_accessors_8h_2_def closed_rules)

definition xed_operand_accessors_8h :: "nav_node list" where
  "xed_operand_accessors_8h = xed_operand_accessors_8h_1 @ xed_operand_accessors_8h_2"

lemma xed_operand_accessors_8h_closed: "list_all (closed_node scripts) xed_operand_accessors_8h"
  by (simp only: xed_operand_accessors_8h_def closed_rules xed_operand_accessors_8h_1_closed xed_operand_accessors_8h_2_closed)

definition xed_operand_action_enum_8h :: "nav_node list" where
  "xed_operand_action_enum_8h = [
    Nav_node ''xed_operand_action_enum_t'' (Some ''xed-operand-action-enum_8h.html#a6bf8113365b84b9d6ab549fdfef2643f'') (Nodes [
      Nav_node ''XED_OPERAND_ACTION_INVALID'' (Some ''xed-operand-action-enum_8h.html#a6bf8113365b84b9d6ab549fdfef2643fa7cba75cd3385b96ff23dd44fad1a22c4'') Null,
      Nav_node ''XED_OPERAND_ACTION_RW'' (Some ''xed-operand-action-enum_8h.html#a6bf8113365b84b9d6ab549fdfef2643fa23f9a8208428e9f4190883e35787c27a'') Null,
      Nav_node ''XED_OPERAND_ACTION_R'' (Some ''xed-operand-action-enum_8h.html#a6bf8113365b84b9d6ab549fdfef2643fac8fef737c0d84132915fee3a224ffd7f'') Null,
      Nav_node ''XED_OPERAND_ACTION_W'' (Some ''xed-operand-action-enum_8h.html#a6bf8113365b84b9d6ab549fdfef2643fa32357b2602b02c17aff5d7d99b0a95e0'') Null,
      Nav_node ''XED_OPERAND_ACTION_RCW'' (Some ''xed-operand-action-enum_8h.html#a6bf8113365b84b9d6ab549fdfef2643fa1b32ec4a08cbaf564a1e06c14186e0c9'') Null,
      Nav_node ''XED_OPERAND_ACTION_CW'' (Some ''xed-operand-action-enum_8h.html#a6bf8113365b84b9d6ab549fdfef2643fa81dc11bd382bf1bbe46235a49f471837'') Null,
      Nav_node ''XED_OPERAND_ACTION_CRW'' (Some ''xed-operand-action-enum_8h.html#a6bf8113365b84b9d6ab549fdfef2643fa9f7a9dff009f3479c92dde22117cadbf'') Null,
      Nav_node ''XED_OPERAND_ACTION_CR'' (Some ''xed-operand-action-enum_8h.html#a6bf8113365b84b9d6ab549fdfef2643fa822c8f9c1b2ff93e7760a154bf1f05df'') Null,
      Nav_node ''XED_OPERAND_ACTION_LAST'' (Some ''xed-operand-action-enum_8h.html#a6bf8113365b84b9d6ab549fdfef2643fa795e1dcfec6087cb0730ff16398ae28b'') Null]),
    Nav_node ''str2xed_operand_action_enum_t'' (Some ''group__ENUM.html#ga58675ccc52549df6fb0439df1a5f220d'') Null,
    Nav_node ''xed_operand_action_enum_t2str'' (Some ''group__ENUM.html#gac4a01bed223e067779f08893924836dc'') Null,
    Nav_node ''xed_operand_action_enum_t_last'' (Some ''group__ENUM.html#gafee0e2b2c340b16d909f3c0987a41b27'') Null]"

lemma xed_operand_action_enum_8h_closed: "list_all (closed_node scripts) xed_operand_action_enum_8h"
  by (simp only: xed_operand_action_enum_8h_def closed_rules)

definition xed_operand_values_interface_8h :: "nav_node list" where
  "xed_operand_values_interface_8h = [
    Nav_node ''xed_operand_values_accesses_memory'' (Some ''group__OPERANDS.html#ga7446b6ed1f1b2a5fd48c560dfb6c36eb'') Null,
    Nav_node ''xed_operand_values_branch_not_taken_hint'' (Some ''group__OPERANDS.html#gade4582b0028d43cfda503ec80201e6a1'') Null,
    Nav_node ''xed_operand_values_branch_taken_hint'' (Some ''group__OPERANDS.html#gad0fcb6cb22c8eee00b71907561bd04b6'') Null,
    Nav_node ''xed_operand_values_clear_rep'' (Some ''group__OPERANDS.html#gad798d7e2a94b0065354b670632c5a1e2'') Null,
    Nav_node ''xed_operand_values_dump'' (Some ''group__OPERANDS.html#gaafb2245a51e09ae288b486e1a9bcd4e1'') Null,
    Nav_node ''xed_operand_values_get_atomic'' (Some ''group__OPERANDS.html#gabf55daa84f65bc0ea191dd68af642566'') Null,
    Nav_node ''xed_operand_values_get_base_reg'' (Some ''group__OPERANDS.html#gae2c88835a866db70500063f54e7728ea'') Null,
    Nav_node ''xed_operand_values_get_branch_displacement_byte'' (Some ''group__OPERANDS.html#ga68c8fc13f1b3c6c1bf3474f4f0ccf538'') Null,
    Nav_node ''xed_operand_values_get_branch_displacement_int32'' (Some ''group__OPERANDS.html#gaf90260ad3d09b26e2327d4bda1215a77'') Null,
    Nav_node ''xed_operand_values_get_branch_displacement_length'' (Some ''group__OPERANDS.html#gaca9ed92c001fb063e1387c0a4503f4c5'') Null,
    Nav_node ''xed_operand_values_get_branch_displacement_length_bits'' (Some ''group__OPERANDS.html#ga70b2f8efa4972909df5229b129b85a91'') Null,
    Nav_node ''xed_operand_values_get_displacement_for_memop'' (Some ''group__OPERANDS.html#gaa2a59be8c12ab84b7b5b11851cef7535'') Null,
    Nav_node ''xed_operand_values_get_effective_address_width'' (Some ''group__OPERANDS.html#ga179da221c07e9bc7d86b6a23f668677c'') Null,
    Nav_node ''xed_operand_values_get_effective_operand_width'' (Some ''group__OPERANDS.html#gad3d1c499fb13d8906bea608f9be2375b'') Null,
    Nav_node ''xed_operand_values_get_iclass'' (Some ''group__OPERANDS.html#gaf75ccaffa5c472ae8578e2c7408c2fca'') Null,
    Nav_node ''xed_operand_values_get_immediate_byte'' (Some ''group__OPERANDS.html#ga8adc1af4161b0890c87fa92c65c5ccb5'') Null,
    Nav_node ''xed_operand_values_get_immediate_int64'' (Some ''group__OPERANDS.html#ga36fee6de00dc4452870fcf3b12ed061f'') Null,
    Nav_node ''xed_operand_values_get_immediate_is_signed'' (Some ''group__OPERANDS.html#ga57046975be8167d3c853eb69d2b400d9'') Null,
    Nav_node ''xed_operand_values_get_immediate_uint64'' (Some ''group__OPERANDS.html#gac9a56268cfe26b80aef5ed27a8e89022'') Null,
    Nav_node ''xed_operand_values_get_index_reg'' (Some ''group__OPERANDS.html#ga4d17965ee523dbb8b59debad2480f536'') Null,
    Nav_node ''xed_operand_values_get_long_mode'' (Some ''group__OPERANDS.html#ga0f1312a0bf168f19e474fbbbb493674d'') Null,
    Nav_node ''xed_operand_values_get_memory_displacement_byte'' (Some ''group__OPERANDS.html#gaca029098d85517308601e22ff162b227'') Null,
    Nav_node ''xed_operand_values_get_memory_displacement_int64'' (Some ''group__OPERANDS.html#ga733d58f6b2023654929bd21e3a4f7825'') Null,
    Nav_node ''xed_operand_values_get_memory_displacement_int64_raw'' (Some ''group__OPERANDS.html#ga68aca8fea184d7aaf224ac0380704325'') Null,
    Nav_node ''xed_operand_values_get_memory_displacement_length'' (Some ''group__OPERANDS.html#gaac677e1d55c7769c91bd2aa935b4ccc6'') Null,
    Nav_node ''xed_operand_values_get_memory_displacement_length_bits'' (Some ''group__OPERANDS.html#gab4b82a223d1471502b9ca0ac2dd446fc'') Null,
    Nav_node ''xed_operand_values_get_memory_displacement_length_bits_raw'' (Some ''group__OPERANDS.html#ga02ddda3d043de87ea8b2954659d2a2d2'') Null,
    Nav_node ''xed_operand_values_get_memory_operand_length'' (Some ''group__OPERANDS.html#ga0c7b4b987b9cd50456590e88a4d011bc'') Null,
    Nav_node ''xed_operand_values_get_real_mode'' (Some ''group__OPERANDS.html#ga667d5c84639131456a6353fd7d3da1f7'') Null,
    Nav_node ''xed_operand_values_get_scale'' (Some ''group__OPERANDS.html#ga1d99c5cc74ce04f2be6a99004d1003e8'') Null,
    Nav_node ''xed_operand_values_get_second_immediate'' (Some ''group__OPERANDS.html#ga1a99c5b46023775feac575ae23fb3824'') Null,
    Nav_node ''xed_operand_values_get_seg_reg'' (Some ''group__OPERANDS.html#ga32a9e772249d82b2b3583a5b075f10e0'') Null,
    Nav_node ''xed_operand_values_get_stack_address_width'' (Some ''group__OPERANDS.html#gaacf6a2885f3012b0b655838fc0ef6cc0'') Null,
    Nav_node ''xed_operand_values_has_66_prefix'' (Some ''group__OPERANDS.html#gab0dbe428e16fea4d11c2498ce23eb489'') Null,
    Nav_node ''xed_operand_values_has_address_size_prefix'' (Some ''group__OPERANDS.html#gae3a5a7fec6f106c2f00029920cc5fa27'') Null,
    Nav_node ''xed_operand_values_has_branch_displacement'' (Some ''group__OPERANDS.html#ga4ad34793ee0b41476c742182fa625caa'') Null,
    Nav_node ''xed_operand_values_has_disp'' (Some ''group__OPERANDS.html#gab0d49de82df18773d120efd1b5facb96'') Null,
    Nav_node ''xed_operand_values_has_displacement'' (Some ''group__OPERANDS.html#ga35cc443e8ea463cfe087ed5ad3287de5'') Null,
    Nav_node ''xed_operand_values_has_immediate'' (Some ''group__OPERANDS.html#ga7be044800ef408c7043e7c443c8c9702'') Null,
    Nav_node ''xed_operand_values_has_lock_prefix'' (Some ''group__OPERANDS.html#gaa2538c59d88956f3eb10a67ee935f468'') Null,
    Nav_node ''xed_operand_values_has_memory_displacement'' (Some ''group__OPERANDS.html#gab6a6effe1bbf439f960f8d9b8a383853'') Null,
    Nav_node ''xed_operand_values_has_modrm_byte'' (Some ''group__OPERANDS.html#gaef78b1391f4b8a0794cf1aa8f9d9d078'') Null,
    Nav_node ''xed_operand_values_has_operand_size_prefix'' (Some ''group__OPERANDS.html#ga6deaeebd7683e763676f95439d9682f6'') Null,
    Nav_node ''xed_operand_values_has_real_rep'' (Some ''group__OPERANDS.html#ga0bcce90b8c597ccd99594402ec96e0eb'') Null,
    Nav_node ''xed_operand_values_has_rep_prefix'' (Some ''group__OPERANDS.html#ga3966c5b2903a8749111e17c684aaf8f8'') Null,
    Nav_node ''xed_operand_values_has_repne_prefix'' (Some ''group__OPERANDS.html#ga096c1eb2836bbf4d1add684b8933763c'') Null,
    Nav_node ''xed_operand_values_has_rexw_prefix'' (Some ''group__OPERANDS.html#gaf2906d60081b02aa491198720295dae4'') Null,
    Nav_node ''xed_operand_values_has_segment_prefix'' (Some ''group__OPERANDS.html#ga83152cba3e67d2753d01bff505012c6e'') Null,
    Nav_node ''xed_operand_values_has_sib_byte'' (Some ''group__OPERANDS.html#ga87e7a1bf6ad7fc739d57334c60da30f3'') Null,
    Nav_node ''xed_operand_values_init'' (Some ''group__OPERANDS.html#ga5b6cd7ad6c5c853c8ae1179df71fe6d1'') Null,
    Nav_node ''xed_operand_values_init_keep_mode'' (Some ''group__OPERANDS.html#gae001db086cdf4d03d81301448133bbb1'') Null,
    Nav_node ''xed_operand_values_init_set_mode'' (Some ''group__OPERANDS.html#ga6eb60207e9dc46671fc89b83c10071aa'') Null,
    Nav_node ''xed_operand_values_is_nop'' (Some ''group__OPERANDS.html#ga1e19112db73aea4cb91a8682cf7c1dac'') Null,
    Nav_node ''xed_operand_values_is_prefetch'' (Some ''group__OPERANDS.html#gaf1b7e94aa1e7bc4a75d707d31ca66254'') Null,
    Nav_node ''xed_operand_values_memop_without_modrm'' (Some ''group__OPERANDS.html#ga85403c1bc57896f0cc1f0c5d9abd2274'') Null,
    Nav_node ''xed_operand_values_number_of_memory_operands'' (Some ''group__OPERANDS.html#ga2ff2163fe076e8a42b6ef103c8e40cbb'') Null,
    Nav_node ''xed_operand_values_print_short'' (Some ''group__OPERANDS.html#gadb275817ff6e4ba6c5564bfe1e08baed'') Null,
    Nav_node ''xed_operand_values_segment_prefix'' (Some ''group__OPERANDS.html#ga00b4273f4b2bc5c7fd8e3d411933f8f8'') Null,
    Nav_node ''xed_operand_values_set_base_reg'' (Some ''group__OPERANDS.html#gadf2be76edca3f39bafab94d24e222a71'') Null,
    Nav_node ''xed_operand_values_set_branch_displacement'' (Some ''group__OPERANDS.html#ga12d966bebe7958e90b66748fb450f395'') Null,
    Nav_node ''xed_operand_values_set_branch_displacement_bits'' (Some ''group__OPERANDS.html#gabbfc1e1043fe9cbbd5b2c28e175bca14'') Null,
    Nav_node ''xed_operand_values_set_effective_address_width'' (Some ''group__OPERANDS.html#gad95d746cbd35df5d5c7f8b83c210d6af'') Null,
    Nav_node ''xed_operand_values_set_effective_operand_width'' (Some ''group__OPERANDS.html#ga8119fa724cf57405a7add41dded6d4f9'') Null,
    Nav_node ''xed_operand_values_set_iclass'' (Some ''group__OPERANDS.html#ga7f3b5c59703a37501db7d05da5e6f77c'') Null,
    Nav_node ''xed_operand_values_set_immediate_signed'' (Some ''group__OPERANDS.html#gae400dbb088178fa9f337b9d38f5a7948'') Null,
    Nav_node ''xed_operand_values_set_immediate_signed_bits'' (Some ''group__OPERANDS.html#ga7be830dd0257413a74ffbad8dc23dba6'') Null,
    Nav_node ''xed_operand_values_set_immediate_unsigned'' (Some ''group__OPERANDS.html#ga1260936e977bf0482d3f39ccdf4cc3a1'') Null,
    Nav_node ''xed_operand_values_set_immediate_unsigned_bits'' (Some ''group__OPERANDS.html#gab383c9302d616845f5fd2d18d82de41d'') Null,
    Nav_node ''xed_operand_values_set_index_reg'' (Some ''group__OPERANDS.html#ga0db1850a20688c49a58dc3c58a22d10e'') Null,
    Nav_node ''xed_operand_values_set_lock'' (Some ''group__OPERANDS.html#ga3c9128293103c5f0b95950ff1236ff88'') Null,
    Nav_node ''xed_operand_values_set_memory_displacement'' (Some ''group__OPERANDS.html#gaedee3cb7286c75315509b134df059a74'') Null,
    Nav_node ''xed_operand_values_set_memory_displacement_bits'' (Some ''group__OPERANDS.html#ga05bf6c2fa49a834f70a94963b17cde22'') Null,
    Nav_node ''xed_operand_values_set_memory_operand_length'' (Some ''group__OPERANDS.html#gad32325d0d429ae72339716ac127e39d5'') Null,
    Nav_node ''xed_operand_values_set_mode'' (Some ''group__OPERANDS.html#ga025ea6aee9f168f8cb5ef46fff246f9f'') Null,
    Nav_node ''xed_operand_values_set_operand_reg'' (Some ''group__OPERANDS.html#ga744645903f7039889af77b3508564cfd'') Null,
    Nav_node ''xed_operand_values_set_relbr'' (Some ''group__OPERANDS.html#ga537bed3747058bcd6ad9b7a4b1aa08eb'') Null,
    Nav_node ''xed_operand_values_set_rep'' (Some ''group__OPERANDS.html#ga59341fd57d04399e63d2fc0a4b3b775e'') Null,
    Nav_node ''xed_operand_values_set_repne'' (Some ''group__OPERANDS.html#gac2d44c5a34d1fb71c16b0d9dd74b3ca5'') Null,
    Nav_node ''xed_operand_values_set_scale'' (Some ''group__OPERANDS.html#gaaaf50a712ca8744b8cd691eafb86c4a4'') Null,
    Nav_node ''xed_operand_values_set_seg_reg'' (Some ''group__OPERANDS.html#ga42042ac303bf40349f16f86067136003'') Null,
    Nav_node ''xed_operand_values_using_default_segment'' (Some ''group__OPERANDS.html#ga2df559dd7d1351acd695d465e5abe744'') Null,
    Nav_node ''xed_operand_values_zero_branch_displacement'' (Some ''group__OPERANDS.html#ga1fac876f3845367744e310c73a58e6d3'') Null,
    Nav_node ''xed_operand_values_zero_immediate'' (Some ''group__OPERANDS.html#ga4c37d06cb63579682167121fc8eb0d7f'') Null,
    Nav_node ''xed_operand_values_zero_memory_displacement'' (Some ''group__OPERANDS.html#ga82f62b105b9dc21218a39a967ce0ae51'') Null,
    Nav_node ''xed_operand_values_zero_segment_override'' (Some ''group__OPERANDS.html#ga84fc9b76ed30ec24823678cf6e326447'') Null]"

lemma xed_operand_values_interface_8h_closed: "list_all (closed_node scripts) xed_operand_values_interface_8h"
  by (simp only: xed_operand_values_interface_8h_def closed_rules)

definition xed_portability_8h :: "nav_node list" where
  "xed_portability_8h = [
    Nav_node ''XED_CAST'' (Some ''xed-portability_8h.html#a3fb2e11b3d32594f913f5b80849133e1'') Null,
    Nav_node ''XED_FMT_08X'' (Some ''xed-portability_8h.html#a7b5dfdc21ac79bffa49e270eeea3bbd8'') Null,
    Nav_node ''XED_FMT_9U'' (Some ''xed-portability_8h.html#a1ecf37c3fce9bc7a6d5a93796201a717'') Null,
    Nav_node ''XED_FMT_D'' (Some ''xed-portability_8h.html#a211602c0bb4707cd286a12f6b0c691a6'') Null,
    Nav_node ''XED_FMT_LD'' (Some ''xed-portability_8h.html#afe3b22b7a9d0ee3cfa8c4444712817de'') Null,
    Nav_node ''XED_FMT_LU'' (Some ''xed-portability_8h.html#a500a254d86561714340bf8d15fd437ac'') Null,
    Nav_node ''XED_FMT_LU12'' (Some ''xed-portability_8h.html#a502a5a3a7bd80743328f48509c49182a'') Null,
    Nav_node ''XED_FMT_LX'' (Some ''xed-portability_8h.html#a99b93e37a937348afa3e458fb1e04fb1'') Null,
    Nav_node ''XED_FMT_LX16'' (Some ''xed-portability_8h.html#a583a1f21fca7a5e3661e1aba2113dc86'') Null,
    Nav_node ''XED_FMT_SIZET'' (Some ''xed-portability_8h.html#aaac2b09389f1793b25308ee898975880'') Null,
    Nav_node ''XED_FMT_U'' (Some ''xed-portability_8h.html#a9091b96f5482bcfd24989443027cf922'') Null,
    Nav_node ''XED_FMT_X'' (Some ''xed-portability_8h.html#a3f66da3cffe0d2027cc7d6023a43083a'') Null,
    Nav_node ''XED_INLINE'' (Some ''xed-portability_8h.html#a816cca0d95c86100144b556e68e836b7'') Null,
    Nav_node ''XED_MAX'' (Some ''xed-portability_8h.html#a8499c57dc1efb0ccd46add885bba7f11'') Null,
    Nav_node ''XED_MIN'' (Some ''xed-portability_8h.html#a504c2e338f6bc12ec1514ddafbedc536'') Null,
    Nav_node ''XED_NOINLINE'' (Some ''xed-portability_8h.html#aa17d383f3ff705b0f205bd24d3ce3111'') Null,
    Nav_node ''XED_NORETURN'' (Some ''xed-portability_8h.html#ab2323cbcda21a00e53ff85633ac27c34'') Null,
    Nav_node ''XED_REINTERPRET_CAST'' (Some ''xed-portability_8h.html#a1694fb494e53c3bbf09919c412c3034a'') Null,
    Nav_node ''XED_STATIC_CAST'' (Some ''xed-portability_8h.html#ae0cdf0e8a0284d011be1a08e8a4e3094'') Null,
    Nav_node ''xed_strcat'' (Some ''xed-portability_8h.html#aef437ca60686a8ee23d323894cf3b299'') Null,
    Nav_node ''xed_strcpy'' (Some ''xed-portability_8h.html#a1a21b3b9fd75dbfee213ee62e6b7dc30'') Null,
    Nav_node ''xed_strlen'' (Some ''xed-portability_8h.html#a7bb6c2f4c722b4f7357ecf13eb7e4b07'') Null,
    Nav_node ''xed_strncat'' (Some ''xed-portability_8h.html#ac73eaae0d7b44c569076170c8edb9f0c'') Null,
    Nav_node ''xed_strncpy'' (Some ''xed-portability_8h.html#a4eab1affb8a1c6e1db4c0e6585cbd120'') Null]"

lemma xed_portability_8h_closed: "list_all (closed_node scripts) xed_portability_8h"
  by (simp only: xed_portability_8h_def closed_rules)

definition xed_print_info_8h :: "nav_node list" where
  "xed_print_info_8h = [
    Nav_node ''xed_init_print_info'' (Some ''group__PRINT.html#gabbb091822def59d7cf56b123a60f2439'') Null]"

lemma xed_print_info_8h_closed: "list_all (closed_node scripts) xed_print_info_8h"
  by (simp only: xed_print_info_8h_def closed_rules)

definition xed_reg_class_8h :: "nav_node list" where
  "xed_reg_class_8h = [
    Nav_node ''xed_get_largest_enclosing_register'' (Some ''group__REGINTFC.html#ga4aafa33b4e372727668f604d5d38d9a9'') Null,
    Nav_node ''xed_get_largest_enclosing_register32'' (Some ''group__REGINTFC.html#gaa43fa9b706bbe48af394931fac22df95'') Null,
    Nav_node ''xed_get_register_width_bits'' (Some ''group__REGINTFC.html#ga51ca65b0230e4385db6700ce1a73b662'') Null,
    Nav_node ''xed_get_register_width_bits64'' (Some ''group__REGINTFC.html#ga780a1eb5c93d90e3f68bf6d523ab4af0'') Null,
    Nav_node ''xed_gpr_reg_class'' (Some ''group__REGINTFC.html#ga46208c55a69fb76e42f1b5755aa4923e'') Null,
    Nav_node ''xed_reg_class'' (Some ''group__REGINTFC.html#ga9003309edac48c9c1dfca2187497c613'') Null]"

lemma xed_reg_class_8h_closed: "list_all (closed_node scripts) xed_reg_class_8h"
  by (simp only: xed_reg_class_8h_def closed_rules)

definition xed_reg_class_enum_8h :: "nav_node list" where
  "xed_reg_class_enum_8h = [
    Nav_node ''xed_reg_class_enum_t'' (Some ''xed-reg-class-enum_8h.html#a8ac6bf3f9f78208385c46ea25324ea76'') (Nodes [
      Nav_node ''XED_REG_CLASS_INVALID'' (Some ''xed-reg-class-enum_8h.html#a8ac6bf3f9f78208385c46ea25324ea76ae913260759e30f32c4553ad763c3db76'') Null,
      Nav_node ''XED_REG_CLASS_BNDCFG'' (Some ''xed-reg-class-enum_8h.html#a8ac6bf3f9f78208385c46ea25324ea76a72c46b1fc59bf81a1814047e0b809bf1'') Null,
      Nav_node ''XED_REG_CLASS_BNDSTAT'' (Some ''xed-reg-class-enum_8h.html#a8ac6bf3f9f78208385c46ea25324ea76ac9354850804383ecb390a92dd24cde89'') Null,
      Nav_node ''XED_REG_CLASS_BOUND'' (Some ''xed-reg-class-enum_8h.html#a8ac6bf3f9f78208385c46ea25324ea76aa2f0446a1626cb97caddfcf94c406d43'') Null,
      Nav_node ''XED_REG_CLASS_CR'' (Some ''xed-reg-class-enum_8h.html#a8ac6bf3f9f78208385c46ea25324ea76af38f0f6b9ef2537543bc78dd8b4d9c45'') Null,
      Nav_node ''XED_REG_CLASS_DR'' (Some ''xed-reg-class-enum_8h.html#a8ac6bf3f9f78208385c46ea25324ea76a31fb10fd91aef286c0ea7ce7ca470bd6'') Null,
      Nav_node ''XED_REG_CLASS_FLAGS'' (Some ''xed-reg-class-enum_8h.html#a8ac6bf3f9f78208385c46ea25324ea76ac0034a83a994e9409676cf3035392165'') Null,
      Nav_node ''XED_REG_CLASS_GPR'' (Some ''xed-reg-class-enum_8h.html#a8ac6bf3f9f78208385c46ea25324ea76a15878ce5d0c53431688fa8cf47b41863'') Null,
      Nav_node ''XED_REG_CLASS_GPR16'' (Some ''xed-reg-class-enum_8h.html#a8ac6bf3f9f78208385c46ea25324ea76a1a30b5648fb9dd4f8d9052cbe113f791'') Null,
      Nav_node ''XED_REG_CLASS_GPR32'' (Some ''xed-reg-class-enum_8h.html#a8ac6bf3f9f78208385c46ea25324ea76aaca8356f5ea67683de3d49fb3de4583f'') Null,
      Nav_node ''XED_REG_CLASS_GPR64'' (Some ''xed-reg-class-enum_8h.html#a8ac6bf3f9f78208385c46ea25324ea76a4b38262d5964ea32ff908573477d4508'') Null,
      Nav_node ''XED_REG_CLASS_GPR8'' (Some ''xed-reg-class-enum_8h.html#a8ac6bf3f9f78208385c46ea25324ea76ac8f4b25e5db3bc8d8cc2c59d8a42e34b'') Null,
      Nav_node ''XED_REG_CLASS_IP'' (Some ''xed-reg-class-enum_8h.html#a8ac6bf3f9f78208385c46ea25324ea76aaa425979e99361662c5870b663c246f5'') Null,
      Nav_node ''XED_REG_CLASS_MASK'' (Some ''xed-reg-class-enum_8h.html#a8ac6bf3f9f78208385c46ea25324ea76aee6f9480d5ac0881718caa442fb4b15a'') Null,
      Nav_node ''XED_REG_CLASS_MMX'' (Some ''xed-reg-class-enum_8h.html#a8ac6bf3f9f78208385c46ea25324ea76af52dc1ada2fe3e2e97a79fc662ca1067'') Null,
      Nav_node ''XED_REG_CLASS_MXCSR'' (Some ''xed-reg-class-enum_8h.html#a8ac6bf3f9f78208385c46ea25324ea76a6f3bcdea30666c7ada2c6a21e8ecc867'') Null,
      Nav_node ''XED_REG_CLASS_PSEUDO'' (Some ''xed-reg-class-enum_8h.html#a8ac6bf3f9f78208385c46ea25324ea76a2947bd7fa2f8798733d3f79aa85fa675'') Null,
      Nav_node ''XED_REG_CLASS_PSEUDOX87'' (Some ''xed-reg-class-enum_8h.html#a8ac6bf3f9f78208385c46ea25324ea76aaace4711e201fd8358343c11c4f955ae'') Null,
      Nav_node ''XED_REG_CLASS_SR'' (Some ''xed-reg-class-enum_8h.html#a8ac6bf3f9f78208385c46ea25324ea76ab02b323ba71ce251bca0ac4206b7d028'') Null,
      Nav_node ''XED_REG_CLASS_TMP'' (Some ''xed-reg-class-enum_8h.html#a8ac6bf3f9f78208385c46ea25324ea76a3a05492e833c5e6cb6e64ebcfc06bad5'') Null,
      Nav_node ''XED_REG_CLASS_X87'' (Some ''xed-reg-class-enum_8h.html#a8ac6bf3f9f78208385c46ea25324ea76ae36ae3923e9083b427e33176d3920520'') Null,
      Nav_node ''XED_REG_CLASS_XCR'' (Some ''xed-reg-class-enum_8h.html#a8ac6bf3f9f78208385c46ea25324ea76a6a964bcf6e7f2efcb33513966ac551a5'') Null,
      Nav_node ''XED_REG_CLASS_XMM'' (Some ''xed-reg-class-enum_8h.html#a8ac6bf3f9f78208385c46ea25324ea76a348c67420521d6089161d147b36565c2'') Null,
      Nav_node ''XED_REG_CLASS_YMM'' (Some ''xed-reg-class-enum_8h.html#a8ac6bf3f9f78208385c46ea25324ea76a48f1d7eaa9f38ea082107f49f301a821'') Null,
      Nav_node ''XED_REG_CLASS_ZMM'' (Some ''xed-reg-class-enum_8h.html#a8ac6bf3f9f78208385c46ea25324ea76a27c9341e557282c73d2e94f4b65c8222'') Null,
      Nav_node ''XED_REG_CLASS_LAST'' (Some ''xed-reg-class-enum_8h.html#a8ac6bf3f9f78208385c46ea25324ea76ae232c1338f3d7874d6eb029b1bbc58d4'') Null]),
    Nav_node ''str2xed_reg_class_enum_t'' (Some ''group__ENUM.html#ga42de53e0622823b27dfbc1b0bcab381b'') Null,
    Nav_node ''xed_reg_class_enum_t2str'' (Some ''group__ENUM.html#ga316b262608066a946aaa86cde7b1debb'') Null,
    Nav_node ''xed_reg_class_enum_t_last'' (Some ''group__ENUM.html#ga1a6bbdc6f91152faa4705c360ad8b0d0'') Null]"

lemma xed_reg_class_enum_8h_closed: "list_all (closed_node scripts) xed_reg_class_enum_8h"
  by (simp only: xed_reg_class_enum_8h_def closed_rules)

definition xed_reg_enum_8h_values_1 :: "nav_node list" where
  "xed_reg_enum_8h_values_1 = [
    Nav_node ''XED_REG_INVALID'' (Some ''xed-reg-enum_8h.html#af05c33c5a68e9304d1d8ac0408ae3f61afac474058f0819d415285511086bf219'') Null,
    Nav_node ''XED_REG_BNDCFGU'' (Some ''xed-reg-enum_8h.html#af05c33c5a68e9304d1d8ac0408ae3f61a45ca11fe5e12b7291d43e471e6b95421'') Null,
    Nav_node ''XED_REG_BNDSTATUS'' (Some ''xed-reg-enum_8h.html#af05c33c5a68e9304d1d8ac0408ae3f61a26fc674e46f99c069e37d15027c0bcb5'') Null,
    Nav_node ''XED_REG_BND0'' (Some ''xed-reg-enum_8h.html#af05c33c5a68e9304d1d8ac0408ae3f61a31c54e5db5faf121a4c685ed92c94b39'') Null,
    Nav_node ''XED_REG_BND1'' (Some ''xed-reg-enum_8h.html#af05c33c5a68e9304d1d8ac0408ae3f61ad50197f92a5d62a1c3e46c82cbd79915'') Null,
    Nav_node ''XED_REG_BND2'' (Some ''xed-reg-enum_8h.html#af05c33c5a68e9304d1d8ac0408ae3f61a560ae18b058ecae99b65e0e8d6d772a0'') Null,
    Nav_node ''XED_REG_BND3'' (Some ''xed-reg-enum_8h.html#af05c33c5a68e9304d1d8ac0408ae3f61a5bacb33e19b741f637fe161bcbef965f'') Null,
    Nav_node ''XED_REG_CR0'' (Some ''xed-reg-enum_8h.html#af05c33c5a68e9304d1d8ac0408ae3f61ab97686f04a93a6a7a1b4e01d658f9b86'') Null,
    Nav_node ''XED_REG_CR1'' (Some ''xed-reg-enum_8h.html#af05c33c5a68e9304d1d8ac0408ae3f61abbbec276097987bc3397fe4e91d6f691'') Null,
    Nav_node ''XED_REG_CR2'' (Some ''xed-reg-enum_8h.html#af05c33c5a68e9304d1d8ac0408ae3f61a436ec44effb10daa8b3942770f0ede6f'') Null,
    Nav_node ''XED_REG_CR3'' (Some ''xed-reg-enum_8h.html#af05c33c5a68e9304d1d8ac0408ae3f61a640a70ce0e7a7f1ea53f872f9ee5e4a1'') Null,
    Nav_node ''XED_REG_CR4'' (Some ''xed-reg-enum_8h.html#af05c33c5a68e9304d1d8ac0408ae3f61a1afbef284620dbf951fb87ba986f22dd'') Null,
    Nav_node ''XED_REG_CR5'' (Some ''xed-reg-enum_8h.html#af05c33c5a68e9304d1d8ac0408ae3f61a171377d7702b40271d6cf78648f7ff69'') Null,
    Nav_node ''XED_REG_CR6'' (Some ''xed-reg-enum_8h.html#af05c33c5a68e9304d1d8ac0408ae3f61a4a52f80f9c9ed57a5ecfdd0e9c51358a'') Null,
    Nav_node ''XED_REG_CR7'' (Some ''xed-reg-enum_8h.html#af05c33c5a68e9304d1d8ac0408ae3f61a46d53eccd5313309ad5e6b51ccfeb2f8'') Null,
    Nav_node ''XED_REG_CR8'' (Some ''xed-reg-enum_8h.html#af05c33c5a68e9304d1d8ac0408ae3f61aa04fdbe44ce47c3137e8c5569fdef932'') Null,
    Nav_node ''XED_REG_CR9'' (Some ''xed-reg-enum_8h.html#af05c33c5a68e9304d1d8ac0408ae3f61a24778d001f33bf5036bd3c73be059250'') Null,
    Nav_node ''XED_REG_CR10'' (Some ''xed-reg-enum_8h.html#af05c33c5a68e9304d1d8ac0408ae3f61acff049f3fba47f1c9595e39c93febbb5'') Null,
    Nav_node ''XED_REG_CR11'' (Some ''xed-reg-enum_8h.html#af05c33c5a68e9304d1d8ac0408ae3f61a2e29118589422f0d8d09966bea0c9c9f'') Null,
    Nav_node ''XED_REG_CR12'' (Some ''xed-reg-enum_8h.html#af05c33c5a68e9304d1d8ac0408ae3f61a44458844968e6d5912f2a86de6d2dc15'') Null,
    Nav_node ''XED_REG_CR13'' (Some ''xed-reg-enum_8h.html#af05c33c5a68e9304d1d8ac0408ae3f61a51160147b681fe30a1be7bea652d9a0c'') Null,
    Nav_node ''XED_REG_CR14'' (Some ''xed-reg-enum_8h.html#af05c33c5a68e9304d1d8ac0408ae3f61ac9107b679c33179435d91877c00b2bdb'') Null,
    Nav_node ''XED_REG_CR15'' (Some ''xed-reg-enum_8h.html#af05c33c5a68e9304d1d8ac0408ae3f61ace0ce7c319c070d7366b8f78fbc21b0b'') Null,
    Nav_node ''XED_REG_DR0'' (Some ''xed-reg-enum_8h.html#af05c33c5a68e9304d1d8ac0408ae3f61a86a8136a22402de3eb0fe09026f8d08a'') Null,
    Nav_node ''XED_REG_DR1'' (Some ''xed-reg-enum_8h.html#af05c33c5a68e9304d1d8ac0408ae3f61aa4ba34196a8c019b20ab44b1cbecaa3d'') Null,
    Nav_node ''XED_REG_DR2'' (Some ''xed-reg-enum_8h.html#af05c33c5a68e9304d1d8ac0408ae3f61add4b0c752b6649f12bb0cd690dfc2f61'') Null,
    Nav_node ''XED_REG_DR3'' (Some ''xed-reg-enum_8h.html#af05c33c5a68e9304d1d8ac0408ae3f61ae968993e520a164c57b6d1932d7e03f2'') Null,
    Nav_node ''XED_REG_DR4'' (Some ''xed-reg-enum_8h.html#af05c33c5a68e9304d1d8ac0408ae3f61aba664fbb22325e16b750dc2ae8575f74'') Null,
    Nav_node ''XED_REG_DR5'' (Some ''xed-reg-enum_8h.html#af05c33c5a68e9304d1d8ac0408ae3f61aa9839623040b37aae86c8cb04f90c5e1'') Null,
    Nav_node ''XED_REG_DR6'' (Some ''xed-reg-enum_8h.html#af05c33c5a68e9304d1d8ac0408ae3f61af5f7acc684d80eab77ca41b34678e7b8'') Null,
    Nav_node ''XED_REG_DR7'' (Some ''xed-reg-enum_8h.html#af05c33c5a68e9304d1d8ac0408ae3f61a05ad46bafd16302f4306f0c76ad5f61e'') Null,
    Nav_node ''XED_REG_DR8'' (Some ''xed-reg-enum_8h.html#af05c33c5a68e9304d1d8ac0408ae3f61a6ebeb3ef2d3b5c73d3f814cf004fee2f'') Null,
    Nav_node ''XED_REG_DR9'' (Some ''xed-reg-enum_8h.html#af05c33c5a68e9304d1d8ac0408ae3f61a1d95c9e0a73373a592c10bbe1210898c'') Null,
    Nav_node ''XED_REG_DR10'' (Some ''xed-reg-enum_8h.html#af05c33c5a68e9304d1d8ac0408ae3f61ad1026df1ab0499245b86eccf5759a1a1'') Null,
    Nav_node ''XED_REG_DR11'' (Some ''xed-reg-enum_8h.html#af05c33c5a68e9304d1d8ac0408ae3f61a09b85d6ceb47dd6bbf149a86182ea49b'') Null,
    Nav_node ''XED_REG_DR12'' (Some ''xed-reg-enum_8h.html#af05c33c5a68e9304d1d8ac0408ae3f61a53cc14dfcd154a40ba20381c8480bb1d'') Null,
    Nav_node ''XED_REG_DR13'' (Some ''xed-reg-enum_8h.html#af05c33c5a68e9304d1d8ac0408ae3f61a1ff5a8a7e179133d56aaed8835f6d75a'') Null,
    Nav_node ''XED_REG_DR14'' (Some ''xed-reg-enum_8h.html#af05c33c5a68e9304d1d8ac0408ae3f61a09704b3dd39c2ccb32a55bec184081e4'') Null,
    Nav_node ''XED_REG_DR15'' (Some ''xed-reg-enum_8h.html#af05c33c5a68e9304d1d8ac0408ae3f61a1ce812330684646771139f2dab2e48d0'') Null,
    Nav_node ''XED_REG_FLAGS'' (Some ''xed-reg-enum_8h.html#af05c33c5a68e9304d1d8ac0408ae3f61a92842ba65179c1e94e54ac6b4d080c30'') Null,
    Nav_node ''XED_REG_EFLAGS'' (Some ''xed-reg-enum_8h.html#af05c33c5a68e9304d1d8ac0408ae3f61a22002e25c29dd27ef8953096caa6c8be'') Null,
    Nav_node ''XED_REG_RFLAGS'' (Some ''xed-reg-enum_8h.html#af05c33c5a68e9304d1d8ac0408ae3f61afc6f4a09c7e35930a3e8d2f4adb9f4bb'') Null,
    Nav_node ''XED_REG_AX'' (Some ''xed-reg-enum_8h.html#af05c33c5a68e9304d1d8ac0408ae3f61a68452c4d689ad82e4f626759bbe777f3'') Null,
    Nav_node ''XED_REG_CX'' (Some ''xed-reg-enum_8h.html#af05c33c5a68e9304d1d8ac0408ae3f61a77e0dab6c9e916d94c1b37354e09011b'') Null,
    Nav_node ''XED_REG_DX'' (Some ''xed-reg-enum_8h.html#af05c33c5a68e9304d1d8ac0408ae3f61ade6f308768b30231e2dd1f5725b6b1ba'') Null,
    Nav_node ''XED_REG_BX'' (Some ''xed-reg-enum_8h.html#af05c33c5a68e9304d1d8ac0408ae3f61a580e439724a2b66d7ebbc506116e3f8d'') Null,
    Nav_node ''XED_REG_SP'' (Some ''xed-reg-enum_8h.html#af05c33c5a68e9304d1d8ac0408ae3f61af00c312f30ad707848feae3ab4131d9d'') Null,
    Nav_node ''XED_REG_BP'' (Some ''xed-reg-enum_8h.html#af05c33c5a68e9304d1d8ac0408ae3f61a888217f9482a0438b5c4819d3a575a72'') Null,
    Nav_node ''XED_REG_SI'' (Some ''xed-reg-enum_8h.html#af05c33c5a68e9304d1d8ac0408ae3f61a4c76e63a2bbff83a07eb15c49319f101'') Null,
    Nav_node ''XED_REG_DI'' (Some ''xed-reg-enum_8h.html#af05c33c5a68e9304d1d8ac0408ae3f61a9c43c4f477d486d60f88dc314725a560'') Null,
    Nav_node ''XED_REG_R8W'' (Some ''xed-reg-enum_8h.html#af05c33c5a68e9304d1d8ac0408ae3f61ac6acc260682044714d82ed2bc92e0741'') Null,
    Nav_node ''XED_REG_R9W'' (Some ''xed-reg-enum_8h.html#af05c33c5a68e9304d1d8ac0408ae3f61a490ff26ecd818ac521d51cc46a557ad6'') Null,
    Nav_node ''XED_REG_R10W'' (Some ''xed-reg-enum_8h.html#af05c33c5a68e9304d1d8ac0408ae3f61ae27465ab6de9c5e0efc9c8413c933e20'') Null,
    Nav_node ''XED_REG_R11W'' (Some ''xed-reg-enum_8h.html#af05c33c5a68e9304d1d8ac0408ae3f61a906784698a1cebeab04e928f4942f7e3'') Null,
    Nav_node ''XED_REG_R12W'' (Some ''xed-reg-enum_8h.html#af05c33c5a68e9304d1d8ac0408ae3f61ae6f85ea1087a2ac92d1562758d1e101e'') Null,
    Nav_node ''XED_REG_R13W'' (Some ''xed-reg-enum_8h.html#af05c33c5a68e9304d1d8ac0408ae3f61a5ef3de988225ddedde2c8d5f575d05af'') Null,
    Nav_node ''XED_REG_R14W'' (Some ''xed-reg-enum_8h.html#af05c33c5a68e9304d1d8ac0408ae3f61a6941d4deae597463e3082d101a03a2d9'') Null,
    Nav_node ''XED_REG_R15W'' (Some ''xed-reg-enum_8h.html#af05c33c5a68e9304d1d8ac0408ae3f61ac28c670eddeb87a17e38244a7f9c3b64'') Null,
    Nav_node ''XED_REG_EAX'' (Some ''xed-reg-enum_8h.html#af05c33c5a68e9304d1d8ac0408ae3f61aa03446d3ec353efe6abe5b25fa8d6955'') Null,
    Nav_node ''XED_REG_ECX'' (Some ''xed-reg-enum_8h.html#af05c33c5a68e9304d1d8ac0408ae3f61a76604a497fb9027f269e8b5d5e37bf75'') Null,
    Nav_node ''XED_REG_EDX'' (Some ''xed-reg-enum_8h.html#af05c33c5a68e9304d1d8ac0408ae3f61aa49209c7f5ac1d6b05cb2bb5bc042ac4'') Null,
    Nav_node ''XED_REG_EBX'' (Some ''xed-reg-enum_8h.html#af05c33c5a68e9304d1d8ac0408ae3f61af85b9ff0ddd15556677dea3ce42b6138'') Null,
    Nav_node ''XED_REG_ESP'' (Some ''xed-reg-enum_8h.html#af05c33c5a68e9304d1d8ac0408ae3f61a7267b70490cc97d0752fd6c75d43afa0'') Null,
    Nav_node ''XED_REG_EBP'' (Some ''xed-reg-enum_8h.html#af05c33c5a68e9304d1d8ac0408ae3f61aad58e2585df3e6b7b0ce2f4626718338'') Null,
    Nav_node ''XED_REG_ESI'' (Some ''xed-reg-enum_8h.html#af05c33c5a68e9304d1d8ac0408ae3f61a0441c9a56af638aa95a10a2de0b110a8'') Null,
    Nav_node ''XED_REG_EDI'' (Some ''xed-reg-enum_8h.html#af05c33c5a68e9304d1d8ac0408ae3f61acd0524c97e005c826a49be80e20d9b9b'') Null,
    Nav_node ''XED_REG_R8D'' (Some ''xed-reg-enum_8h.html#af05c33c5a68e9304d1d8ac0408ae3f61a4b6d928b012b52e1d3d3494409ac4486'') Null,
    Nav_node ''XED_REG_R9D'' (Some ''xed-reg-enum_8h.html#af05c33c5a68e9304d1d8ac0408ae3f61aa7848ea7850e80b439fb6bde0d12fcfd'') Null,
    Nav_node ''XED_REG_R10D'' (Some ''xed-reg-enum_8h.html#af05c33c5a68e9304d1d8ac0408ae3f61a273451566f38b75de1e4ba11599e30f2'') Null,
    Nav_node ''XED_REG_R11D'' (Some ''xed-reg-enum_8h.html#af05c33c5a68e9304d1d8ac0408ae3f61a4acf9a840f454c4b61ba4e1034e78ac1'') Null,
    Nav_node ''XED_REG_R12D'' (Some ''xed-reg-enum_8h.html#af05c33c5a68e9304d1d8ac0408ae3f61aaf2d27734071aa14c1ac504ed09c59ae'') Null,
    Nav_node ''XED_REG_R13D'' (Some ''xed-reg-enum_8h.html#af05c33c5a68e9304d1d8ac0408ae3f61af6a1be28f3237497da24a039a5bd5098'') Null,
    Nav_node ''XED_REG_R14D'' (Some ''xed-reg-enum_8h.html#af05c33c5a68e9304d1d8ac0408ae3f61ab94d5dce607ac00a81688d33d7dc6c80'') Null,
    Nav_node ''XED_REG_R15D'' (Some ''xed-reg-enum_8h.html#af05c33c5a68e9304d1d8ac0408ae3f61aea6cf0de96aacadb671cf01b70636257'') Null,
    Nav_node ''XED_REG_RAX'' (Some ''xed-reg-enum_8h.html#af05c33c5a68e9304d1d8ac0408ae3f61a26c72dca60f6c9a9e6137a86951953d9'') Null,
    Nav_node ''XED_REG_RCX'' (Some ''xed-reg-enum_8h.html#af05c33c5a68e9304d1d8ac0408ae3f61a9df33f642fbe8fd41042b3999012763c'') Null,
    Nav_node ''XED_REG_RDX'' (Some ''xed-reg-enum_8h.html#af05c33c5a68e9304d1d8ac0408ae3f61a59c0a9fb54fcde06df42a77903f431ff'') Null,
    Nav_node ''XED_REG_RBX'' (Some ''xed-reg-enum_8h.html#af05c33c5a68e9304d1d8ac0408ae3f61af98944562c94f7648e0809f18a348997'') Null,
    Nav_node ''XED_REG_RSP'' (Some ''xed-reg-enum_8h.html#af05c33c5a68e9304d1d8ac0408ae3f61a70871c480518d60dd7410330b606dc2a'') Null,
    Nav_node ''XED_REG_RBP'' (Some ''xed-reg-enum_8h.html#af05c33c5a68e9304d1d8ac0408ae3f61af8c9d5bb69018674bcc463222e67cb13'') Null,
    Nav_node ''XED_REG_RSI'' (Some ''xed-reg-enum_8h.html#af05c33c5a68e9304d1d8ac0408ae3f61a3654642bc9ee1ddc24d1e768144625c2'') Null,
    Nav_node ''XED_REG_RDI'' (Some ''xed-reg-enum_8h.html#af05c33c5a68e9304d1d8ac0408ae3f61a3772f984e537d94fcb712802d2303dbc'') Null,
    Nav_node ''XED_REG_R8'' (Some ''xed-reg-enum_8h.html#af05c33c5a68e9304d1d8ac0408ae3f61a4a9b7787174e9c7b8b595923ae9c61eb'') Null,
    Nav_node ''XED_REG_R9'' (Some ''xed-reg-enum_8h.html#af05c33c5a68e9304d1d8ac0408ae3f61a98cfa5408843d883df1c5cd8b18cd56a'') Null,
    Nav_node ''XED_REG_R10'' (Some ''xed-reg-enum_8h.html#af05c33c5a68e9304d1d8ac0408ae3f61afb614aaecd0477caa0d1c1628b4e9ca3'') Null,
    Nav_node ''XED_REG_R11'' (Some ''xed-reg-enum_8h.html#af05c33c5a68e9304d1d8ac0408ae3f61a90a2234d6335563e43ebd20d977ad511'') Null,
    Nav_node ''XED_REG_R12'' (Some ''xed-reg-enum_8h.html#af05c33c5a68e9304d1d8ac0408ae3f61a4e51b85831171d94d65befe0cce6f6ff'') Null,
    Nav_node ''XED_REG_R13'' (Some ''xed-reg-enum_8h.html#af05c33c5a68e9304d1d8ac0408ae3f61a44314a74dfcaaf41621b32cfc3a0ee8e'') Null,
    Nav_node ''XED_REG_R14'' (Some ''xed-reg-enum_8h.html#af05c33c5a68e9304d1d8ac0408ae3f61ab398dad674ceb7a393bf2559e167f39e'') Null,
    Nav_node ''XED_REG_R15'' (Some ''xed-reg-enum_8h.html#af05c33c5a68e9304d1d8ac0408ae3f61a8303635fa7d83f88db1cb848787fdaee'') Null,
    Nav_node ''XED_REG_AL'' (Some ''xed-reg-enum_8h.html#af05c33c5a68e9304d1d8ac0408ae3f61acc9292acd36b7128428adba777a3737d'') Null,
    Nav_node ''XED_REG_CL'' (Some ''xed-reg-enum_8h.html#af05c33c5a68e9304d1d8ac0408ae3f61a93561d36113e959edb8dc6a90a2edb1c'') Null,
    Nav_node ''XED_REG_DL'' (Some ''xed-reg-enum_8h.html#af05c33c5a68e9304d1d8ac0408ae3f61a7b0477f29d3e3ab9eb917ac9e92b8cbf'') Null,
    Nav_node ''XED_REG_BL'' (Some ''xed-reg-enum_8h.html#af05c33c5a68e9304d1d8ac0408ae3f61ab64113d4b3afddf0bfdd92526f06adec'') Null,
    Nav_node ''XED_REG_SPL'' (Some ''xed-reg-enum_8h.html#af05c33c5a68e9304d1d8ac0408ae3f61ad6c133bbbecb808e5319355f6c422c25'') Null,
    Nav_node ''XED_REG_BPL'' (Some ''xed-reg-enum_8h.html#af05c33c5a68e9304d1d8ac0408ae3f61a5ba64887142416e7a0eb012220d6027c'') Null,
    Nav_node ''XED_REG_SIL'' (Some ''xed-reg-enum_8h.html#af05c33c5a68e9304d1d8ac0408ae3f61a96dbea34f2eefe6c944f5fac9ef55dc6'') Null,
    Nav_node ''XED_REG_DIL'' (Some ''xed-reg-enum_8h.html#af05c33c5a68e9304d1d8ac0408ae3f61a230de5f9718ee37117d83f61bcbe5f46'') Null,
    Nav_node ''XED_REG_R8B'' (Some ''xed-reg-enum_8h.html#af05c33c5a68e9304d1d8ac0408ae3f61a3ba2b158fcf27a876753a980b4d480c8'') Null,
    Nav_node ''XED_REG_R9B'' (Some ''xed-reg-enum_8h.html#af05c33c5a68e9304d1d8ac0408ae3f61ad438b1451f92c54ad5e067ad32f19667'') Null,
    Nav_node ''XED_REG_R10B'' (Some ''xed-reg-enum_8h.html#af05c33c5a68e9304d1d8ac0408ae3f61a62253fea8d37cfa2377c20b2d58bba7d'') Null,
    Nav_node ''XED_REG_R11B'' (Some ''xed-reg-enum_8h.html#af05c33c5a68e9304d1d8ac0408ae3f61a973bf705d3b303e9dd879c82be6668b8'') Null,
    Nav_node ''XED_REG_R12B'' (Some ''xed-reg-enum_8h.html#af05c33c5a68e9304d1d8ac0408ae3f61a9c694cab0c0c020b8ff629dc3751d27f'') Null,
    Nav_node ''XED_REG_R13B'' (Some ''xed-reg-enum_8h.html#af05c33c5a68e9304d1d8ac0408ae3f61a763eff56655954b90dc05bc9e25892f5'') Null,
    Nav_node ''XED_REG_R14B'' (Some ''xed-reg-enum_8h.html#af05c33c5a68e9304d1d8ac0408ae3f61a358bcdfea2b3e6be92ceac5c66b49f09'') Null,
    Nav_node ''XED_REG_R15B'' (Some ''xed-reg-enum_8h.html#af05c33c5a68e9304d1d8ac0408ae3f61a9706fb098634dbd9a356b7404d5d54a8'') Null,
    Nav_node ''XED_REG_AH'' (Some ''xed-reg-enum_8h.html#af05c33c5a68e9304d1d8ac0408ae3f61a81f05746476898f29fee4119631a0abd'') Null,
    Nav_node ''XED_REG_CH'' (Some ''xed-reg-enum_8h.html#af05c33c5a68e9304d1d8ac0408ae3f61a6477aed5858de44588c3b63b056b3960'') Null,
    Nav_node ''XED_REG_DH'' (Some ''xed-reg-enum_8h.html#af05c33c5a68e9304d1d8ac0408ae3f61afbe8ba7b85de786277437b17027a7547'') Null,
    Nav_node ''XED_REG_BH'' (Some ''xed-reg-enum_8h.html#af05c33c5a68e9304d1d8ac0408ae3f61a5ce0a6be2fa4626df0d8869b1a603a3b'') Null,
    Nav_node ''XED_REG_ERROR'' (Some ''xed-reg-enum_8h.html#af05c33c5a68e9304d1d8ac0408ae3f61af43c6d3091644680368ef467cf7e7cc0'') Null,
    Nav_node ''XED_REG_RIP'' (Some ''xed-reg-enum_8h.html#af05c33c5a68e9304d1d8ac0408ae3f61a82d0685783c79c18e3a5984298ea8207'') Null,
    Nav_node ''XED_REG_EIP'' (Some ''xed-reg-enum_8h.html#af05c33c5a68e9304d1d8ac0408ae3f61a964b335e035bb710e28c91215102bce2'') Null,
    Nav_node ''XED_REG_IP'' (Some ''xed-reg-enum_8h.html#af05c33c5a68e9304d1d8ac0408ae3f61a77084aa6fe5347095e6c5931c8dd9a5f'') Null,
    Nav_node ''XED_REG_K0'' (Some ''xed-reg-enum_8h.html#af05c33c5a68e9304d1d8ac0408ae3f61a7715dab223f51b3b1f80da4e7b322a48'') Null,
    Nav_node ''XED_REG_K1'' (Some ''xed-reg-enum_8h.html#af05c33c5a68e9304d1d8ac0408ae3f61a22cf81d3264f3df771637c696cfab7f4'') Null,
    Nav_node ''XED_REG_K2'' (Some ''xed-reg-enum_8h.html#af05c33c5a68e9304d1d8ac0408ae3f61ab0a5fd15ae4963120c5bf0c07cbae7c4'') Null,
    Nav_node ''XED_REG_K3'' (Some ''xed-reg-enum_8h.html#af05c33c5a68e9304d1d8ac0408ae3f61aeb9c7c54d6d482b1c61a13f0b573aba6'') Null,
    Nav_node ''XED_REG_K4'' (Some ''xed-reg-enum_8h.html#af05c33c5a68e9304d1d8ac0408ae3f61aacf89e82ba28405511b6c36001bdc0d3'') Null,
    Nav_node ''XED_REG_K5'' (Some ''xed-reg-enum_8h.html#af05c33c5a68e9304d1d8ac0408ae3f61acee247ed60c421ca2f0323a9cdd7f18e'') Null,
    Nav_node ''XED_REG_K6'' (Some ''xed-reg-enum_8h.html#af05c33c5a68e9304d1d8ac0408ae3f61afc374c73f2b869442643a695049c27dc'') Null,
    Nav_node ''XED_REG_K7'' (Some ''xed-reg-enum_8h.html#af05c33c5a68e9304d1d8ac0408ae3f61a58844a023c828d38fc4f30a5b0106779'') Null,
    Nav_node ''XED_REG_MMX0'' (Some ''xed-reg-enum_8h.html#af05c33c5a68e9304d1d8ac0408ae3f61ad7001a2a338909a4351cb949a56750dd'') Null,
    Nav_node ''XED_REG_MMX1'' (Some ''xed-reg-enum_8h.html#af05c33c5a68e9304d1d8ac0408ae3f61a54d3d806c70dcee7d1cca2b63aabe9c3'') Null,
    Nav_node ''XED_REG_MMX2'' (Some ''xed-reg-enum_8h.html#af05c33c5a68e9304d1d8ac0408ae3f61a241532cff3393f901323912b19fe0c3f'') Null,
    Nav_node ''XED_REG_MMX3'' (Some ''xed-reg-enum_8h.html#af05c33c5a68e9304d1d8ac0408ae3f61a0bbaee98af08d66ce6c8625ce0a842ba'') Null,
    Nav_node ''XED_REG_MMX4'' (Some ''xed-reg-enum_8h.html#af05c33c5a68e9304d1d8ac0408ae3f61a574ab50867d532cacb47ad22dcec3d3e'') Null,
    Nav_node ''XED_REG_MMX5'' (Some ''xed-reg-enum_8h.html#af05c33c5a68e9304d1d8ac0408ae3f61a73a4f693690071e52ce4f00da10ad2fa'') Null,
    Nav_node ''XED_REG_MMX6'' (Some ''xed-reg-enum_8h.html#af05c33c5a68e9304d1d8ac0408ae3f61afef5253f1088b43b7841f06fc2f822bd'') Null,
    Nav_node ''XED_REG_MMX7'' (Some ''xed-reg-enum_8h.html#af05c33c5a68e9304d1d8ac0408ae3f61a71543a71772b3bb5ef5cd47e12279b8d'') Null,
    Nav_node ''XED_REG_MXCSR'' (Some ''xed-reg-enum_8h.html#af05c33c5a68e9304d1d8ac0408ae3f61a6e913657eb540732b00a5ac6af16619c'') Null,
    Nav_node ''XED_REG_STACKPUSH'' (Some ''xed-reg-enum_8h.html#af05c33c5a68e9304d1d8ac0408ae3f61a9fdff9595cccf3a521d8b0f4778bb109'') Null,
    Nav_node ''XED_REG_STACKPOP'' (Some ''xed-reg-enum_8h.html#af05c33c5a68e9304d1d8ac0408ae3f61a8e764cc875d6627c4fba0f677ea4b5f7'') Null,
    Nav_node ''XED_REG_GDTR'' (Some ''xed-reg-enum_8h.html#af05c33c5a68e9304d1d8ac0408ae3f61a312db4b172d357621e4be677f0c040de'') Null,
    Nav_node ''XED_REG_LDTR'' (Some ''xed-reg-enum_8h.html#af05c33c5a68e9304d1d8ac0408ae3f61a1b14b0ba03263a0b830773cffcb0776f'') Null,
    Nav_node ''XED_REG_IDTR'' (Some ''xed-reg-enum_8h.html#af05c33c5a68e9304d1d8ac0408ae3f61a86feb036979d48d983ba75d7d83ea9dc'') Null,
    Nav_node ''XED_REG_TR'' (Some ''xed-reg-enum_8h.html#af05c33c5a68e9304d1d8ac0408ae3f61af96f039188fa2ce437e1a797c37865f6'') Null,
    Nav_node ''XED_REG_TSC'' (Some ''xed-reg-enum_8h.html#af05c33c5a68e9304d1d8ac0408ae3f61a74d1ef7d7a6bc906bc4bec9b30b1ece1'') Null,
    Nav_node ''XED_REG_TSCAUX'' (Some ''xed-reg-enum_8h.html#af05c33c5a68e9304d1d8ac0408ae3f61a96b713c507adbe4e4cebd3a7818eb818'') Null,
    Nav_node ''XED_REG_MSRS'' (Some ''xed-reg-enum_8h.html#af05c33c5a68e9304d1d8ac0408ae3f61a4564aa0f90f06c3bb6220dac644ca305'') Null]"

lemma xed_reg_enum_8h_values_1_closed: "list_all (closed_node scripts) xed_reg_enum_8h_values_1"
  by (simp only: xed_reg_enum_8h_values_1_def closed_rules)

definition xed_reg_enum_8h_values_2 :: "nav_node list" where
  "xed_reg_enum_8h_values_2 = [
    Nav_node ''XED_REG_FSBASE'' (Some ''xed-reg-enum_8h.html#af05c33c5a68e9304d1d8ac0408ae3f61a964f6af2bc8d22bce7a2ac7bf3b8e100'') Null,
    Nav_node ''XED_REG_GSBASE'' (Some ''xed-reg-enum_8h.html#af05c33c5a68e9304d1d8ac0408ae3f61a091a1d5a538f1a143d598c498466e314'') Null,
    Nav_node ''XED_REG_X87CONTROL'' (Some ''xed-reg-enum_8h.html#af05c33c5a68e9304d1d8ac0408ae3f61a85e9380a781b38209b6ea7e616ccd872'') Null,
    Nav_node ''XED_REG_X87STATUS'' (Some ''xed-reg-enum_8h.html#af05c33c5a68e9304d1d8ac0408ae3f61aa2bcad2140c60812654e2a46e380c2e9'') Null,
    Nav_node ''XED_REG_X87TAG'' (Some ''xed-reg-enum_8h.html#af05c33c5a68e9304d1d8ac0408ae3f61abe1498274f6c478a81f4009e2dbd8afa'') Null,
    Nav_node ''XED_REG_X87PUSH'' (Some ''xed-reg-enum_8h.html#af05c33c5a68e9304d1d8ac0408ae3f61ac706d5160df32f60bd40379fade53afa'') Null,
    Nav_node ''XED_REG_X87POP'' (Some ''xed-reg-enum_8h.html#af05c33c5a68e9304d1d8ac0408ae3f61a2a6b6cf5b50f489c5952e3f1b1348c2a'') Null,
    Nav_node ''XED_REG_X87POP2'' (Some ''xed-reg-enum_8h.html#af05c33c5a68e9304d1d8ac0408ae3f61a6a11cf57a3700de7e16a66cf42e96bfb'') Null,
    Nav_node ''XED_REG_X87OPCODE'' (Some ''xed-reg-enum_8h.html#af05c33c5a68e9304d1d8ac0408ae3f61a401726f22017c24f923d0e93827d01a2'') Null,
    Nav_node ''XED_REG_X87LASTCS'' (Some ''xed-reg-enum_8h.html#af05c33c5a68e9304d1d8ac0408ae3f61a1b71d0136dad0098e4eb636de3958d29'') Null,
    Nav_node ''XED_REG_X87LASTIP'' (Some ''xed-reg-enum_8h.html#af05c33c5a68e9304d1d8ac0408ae3f61a246a2d2a8ca1d1ea15e338c55d1d862c'') Null,
    Nav_node ''XED_REG_X87LASTDS'' (Some ''xed-reg-enum_8h.html#af05c33c5a68e9304d1d8ac0408ae3f61a6ee3811abf5222ad1e1296458422127a'') Null,
    Nav_node ''XED_REG_X87LASTDP'' (Some ''xed-reg-enum_8h.html#af05c33c5a68e9304d1d8ac0408ae3f61a0df3db9524ed8f140a75d681ac0c6b52'') Null,
    Nav_node ''XED_REG_CS'' (Some ''xed-reg-enum_8h.html#af05c33c5a68e9304d1d8ac0408ae3f61a1ad0683bfaa13e2ec4c6207edb820445'') Null,
    Nav_node ''XED_REG_DS'' (Some ''xed-reg-enum_8h.html#af05c33c5a68e9304d1d8ac0408ae3f61a7ddc8af4382189f8a175693ae555ddb1'') Null,
    Nav_node ''XED_REG_ES'' (Some ''xed-reg-enum_8h.html#af05c33c5a68e9304d1d8ac0408ae3f61af290e749499e75bf4148a055960487a5'') Null,
    Nav_node ''XED_REG_SS'' (Some ''xed-reg-enum_8h.html#af05c33c5a68e9304d1d8ac0408ae3f61a5f0b19ea11ed73118623bef11e3fb033'') Null,
    Nav_node ''XED_REG_FS'' (Some ''xed-reg-enum_8h.html#af05c33c5a68e9304d1d8ac0408ae3f61a88f231efaf4d81cfb3fbbde6b42dd88b'') Null,
    Nav_node ''XED_REG_GS'' (Some ''xed-reg-enum_8h.html#af05c33c5a68e9304d1d8ac0408ae3f61a072a2ed8c66c5e82476615b604168415'') Null,
    Nav_node ''XED_REG_TMP0'' (Some ''xed-reg-enum_8h.html#af05c33c5a68e9304d1d8ac0408ae3f61a51fc55f8c3535f135afabadfbc866d09'') Null,
    Nav_node ''XED_REG_TMP1'' (Some ''xed-reg-enum_8h.html#af05c33c5a68e9304d1d8ac0408ae3f61a4c979ffc84435c6a448df6f27b61e42a'') Null,
    Nav_node ''XED_REG_TMP2'' (Some ''xed-reg-enum_8h.html#af05c33c5a68e9304d1d8ac0408ae3f61a4e8f9e4033128d233531b2ec4fced612'') Null,
    Nav_node ''XED_REG_TMP3'' (Some ''xed-reg-enum_8h.html#af05c33c5a68e9304d1d8ac0408ae3f61a002275474321c5db21b8409112f8edc3'') Null,
    Nav_node ''XED_REG_TMP4'' (Some ''xed-reg-enum_8h.html#af05c33c5a68e9304d1d8ac0408ae3f61ace8a8c83c596123e36e50e40124c84f6'') Null,
    Nav_node ''XED_REG_TMP5'' (Some ''xed-reg-enum_8h.html#af05c33c5a68e9304d1d8ac0408ae3f61a295d44e5c74fbabce1fef536a240d245'') Null,
    Nav_node ''XED_REG_TMP6'' (Some ''xed-reg-enum_8h.html#af05c33c5a68e9304d1d8ac0408ae3f61aaf00fc37e7a05a231be659751dde7577'') Null,
    Nav_node ''XED_REG_TMP7'' (Some ''xed-reg-enum_8h.html#af05c33c5a68e9304d1d8ac0408ae3f61a1a8528f8b26130bacecc64dd8c878d7b'') Null,
    Nav_node ''XED_REG_TMP8'' (Some ''xed-reg-enum_8h.html#af05c33c5a68e9304d1d8ac0408ae3f61adea96f634c7afaaf71da9202a0466085'') Null,
    Nav_node ''XED_REG_TMP9'' (Some ''xed-reg-enum_8h.html#af05c33c5a68e9304d1d8ac0408ae3f61a744cafe1267ad7b8c11af06e3df8381d'') Null,
    Nav_node ''XED_REG_TMP10'' (Some ''xed-reg-enum_8h.html#af05c33c5a68e9304d1d8ac0408ae3f61a39328057ea50327320f6d126e3399c7b'') Null,
    Nav_node ''XED_REG_TMP11'' (Some ''xed-reg-enum_8h.html#af05c33c5a68e9304d1d8ac0408ae3f61a45b2fe3afafddaf659e123e7d1fed02d'') Null,
    Nav_node ''XED_REG_TMP12'' (Some ''xed-reg-enum_8h.html#af05c33c5a68e9304d1d8ac0408ae3f61a781315fba1263d46c62b0a27c58c16f3'') Null,
    Nav_node ''XED_REG_TMP13'' (Some ''xed-reg-enum_8h.html#af05c33c5a68e9304d1d8ac0408ae3f61a133624bd3e8831fa00743f14b5a4192e'') Null,
    Nav_node ''XED_REG_TMP14'' (Some ''xed-reg-enum_8h.html#af05c33c5a68e9304d1d8ac0408ae3f61afc3250660e80593049d0e8ebdbd5c929'') Null,
    Nav_node ''XED_REG_TMP15'' (Some ''xed-reg-enum_8h.html#af05c33c5a68e9304d1d8ac0408ae3f61a643f345f14c62af82a45af8a67e2185e'') Null,
    Nav_node ''XED_REG_ST0'' (Some ''xed-reg-enum_8h.html#af05c33c5a68e9304d1d8ac0408ae3f61a1cb4e9f822922f70b2a5fbd9ec122e9e'') Null,
    Nav_node ''XED_REG_ST1'' (Some ''xed-reg-enum_8h.html#af05c33c5a68e9304d1d8ac0408ae3f61a644952480920028e0c048be229e35d33'') Null,
    Nav_node ''XED_REG_ST2'' (Some ''xed-reg-enum_8h.html#af05c33c5a68e9304d1d8ac0408ae3f61a2be2808515c3b86ec634da0a8ffc6de5'') Null,
    Nav_node ''XED_REG_ST3'' (Some ''xed-reg-enum_8h.html#af05c33c5a68e9304d1d8ac0408ae3f61a25fb29d6624a0283b20b82ca9cb23484'') Null,
    Nav_node ''XED_REG_ST4'' (Some ''xed-reg-enum_8h.html#af05c33c5a68e9304d1d8ac0408ae3f61ab130786222d421740d8adbe80063ee7d'') Null,
    Nav_node ''XED_REG_ST5'' (Some ''xed-reg-enum_8h.html#af05c33c5a68e9304d1d8ac0408ae3f61a9ef97848c56c53c95eb2ba56f7b15005'') Null,
    Nav_node ''XED_REG_ST6'' (Some ''xed-reg-enum_8h.html#af05c33c5a68e9304d1d8ac0408ae3f61ae3e4cacaa12cbbb050f40e95df94a54e'') Null,
    Nav_node ''XED_REG_ST7'' (Some ''xed-reg-enum_8h.html#af05c33c5a68e9304d1d8ac0408ae3f61a309207a384947d2271018a92ab676936'') Null,
    Nav_node ''XED_REG_XCR0'' (Some ''xed-reg-enum_8h.html#af05c33c5a68e9304d1d8ac0408ae3f61a3872671f5e1903c169807fd14d7e3788'') Null,
    Nav_node ''XED_REG_XMM0'' (Some ''xed-reg-enum_8h.html#af05c33c5a68e9304d1d8ac0408ae3f61ae5b116ae524651bbb9e9f48d2653124f'') Null,
    Nav_node ''XED_REG_XMM1'' (Some ''xed-reg-enum_8h.html#af05c33c5a68e9304d1d8ac0408ae3f61a77923133caf0ef7b031c24c21f180544'') Null,
    Nav_node ''XED_REG_XMM2'' (Some ''xed-reg-enum_8h.html#af05c33c5a68e9304d1d8ac0408ae3f61a9731e33a26f6535bb8570c12cc61abe5'') Null,
    Nav_node ''XED_REG_XMM3'' (Some ''xed-reg-enum_8h.html#af05c33c5a68e9304d1d8ac0408ae3f61afb46a7601ed731eb850e17f6b620b971'') Null,
    Nav_node ''XED_REG_XMM4'' (Some ''xed-reg-enum_8h.html#af05c33c5a68e9304d1d8ac0408ae3f61adb9957e698d4dfc98d6fdac68d3b19c6'') Null,
    Nav_node ''XED_REG_XMM5'' (Some ''xed-reg-enum_8h.html#af05c33c5a68e9304d1d8ac0408ae3f61adcc92efdeee5e980a371e549d64f92f3'') Null,
    Nav_node ''XED_REG_XMM6'' (Some ''xed-reg-enum_8h.html#af05c33c5a68e9304d1d8ac0408ae3f61a49822900d3537423504aac8400bbd031'') Null,
    Nav_node ''XED_REG_XMM7'' (Some ''xed-reg-enum_8h.html#af05c33c5a68e9304d1d8ac0408ae3f61a87c27545414b1e2272f909fc3be6f90b'') Null,
    Nav_node ''XED_REG_XMM8'' (Some ''xed-reg-enum_8h.html#af05c33c5a68e9304d1d8ac0408ae3f61ad45bb933907453051b09092a5531ab07'') Null,
    Nav_node ''XED_REG_XMM9'' (Some ''xed-reg-enum_8h.html#af05c33c5a68e9304d1d8ac0408ae3f61a1a155351cda8feb55eb40b4c611ea9e5'') Null,
    Nav_node ''XED_REG_XMM10'' (Some ''xed-reg-enum_8h.html#af05c33c5a68e9304d1d8ac0408ae3f61ad46f0feb01b58716aec860f09ff329f3'') Null,
    Nav_node ''XED_REG_XMM11'' (Some ''xed-reg-enum_8h.html#af05c33c5a68e9304d1d8ac0408ae3f61ac4819441f383f6cef515818fc0eac250'') Null,
    Nav_node ''XED_REG_XMM12'' (Some ''xed-reg-enum_8h.html#af05c33c5a68e9304d1d8ac0408ae3f61a389a792798a496a65cc0df26dec248f6'') Null,
    Nav_node ''XED_REG_XMM13'' (Some ''xed-reg-enum_8h.html#af05c33c5a68e9304d1d8ac0408ae3f61a1ad1fba2861f5e6267ab56164ef796cc'') Null,
    Nav_node ''XED_REG_XMM14'' (Some ''xed-reg-enum_8h.html#af05c33c5a68e9304d1d8ac0408ae3f61ace5710a2e1de901bddcc00187a46e2b5'') Null,
    Nav_node ''XED_REG_XMM15'' (Some ''xed-reg-enum_8h.html#af05c33c5a68e9304d1d8ac0408ae3f61a37602dafbff6bff79b11d2bf14a38ffb'') Null,
    Nav_node ''XED_REG_XMM16'' (Some ''xed-reg-enum_8h.html#af05c33c5a68e9304d1d8ac0408ae3f61a90cf7d9929358e6a9f3a07c3aae95b1a'') Null,
    Nav_node ''XED_REG_XMM17'' (Some ''xed-reg-enum_8h.html#af05c33c5a68e9304d1d8ac0408ae3f61abe0d2eedaf4edec31396fd1f11592491'') Null,
    Nav_node ''XED_REG_XMM18'' (Some ''xed-reg-enum_8h.html#af05c33c5a68e9304d1d8ac0408ae3f61ae36f4936a47e5b435a6f56da03ce27da'') Null,
    Nav_node ''XED_REG_XMM19'' (Some ''xed-reg-enum_8h.html#af05c33c5a68e9304d1d8ac0408ae3f61abf1aa9ddc517e89d2996005db5ebd958'') Null,
    Nav_node ''XED_REG_XMM20'' (Some ''xed-reg-enum_8h.html#af05c33c5a68e9304d1d8ac0408ae3f61afce0d834cb98a3df72d870f2ef01908c'') Null,
    Nav_node ''XED_REG_XMM21'' (Some ''xed-reg-enum_8h.html#af05c33c5a68e9304d1d8ac0408ae3f61a746817076257644b786d9535eaa50c0a'') Null,
    Nav_node ''XED_REG_XMM22'' (Some ''xed-reg-enum_8h.html#af05c33c5a68e9304d1d8ac0408ae3f61aff20f2a21433e09369c40836b9fe6a16'') Null,
    Nav_node ''XED_REG_XMM23'' (Some ''xed-reg-enum_8h.html#af05c33c5a68e9304d1d8ac0408ae3f61a8f9b6fc49187643e692b6751305b1196'') Null,
    Nav_node ''XED_REG_XMM24'' (Some ''xed-reg-enum_8h.html#af05c33c5a68e9304d1d8ac0408ae3f61a5de1217f7d04bf2280f64ebab8dcc850'') Null,
    Nav_node ''XED_REG_XMM25'' (Some ''xed-reg-enum_8h.html#af05c33c5a68e9304d1d8ac0408ae3f61aad3c6a4ce59e9dabb31156b2be17f9dd'') Null,
    Nav_node ''XED_REG_XMM26'' (Some ''xed-reg-enum_8h.html#af05c33c5a68e9304d1d8ac0408ae3f61a162741ca4c88fec795262c8c7af59e84'') Null,
    Nav_node ''XED_REG_XMM27'' (Some ''xed-reg-enum_8h.html#af05c33c5a68e9304d1d8ac0408ae3f61a28814d215d76a1b1078c29b9b20d9720'') Null,
    Nav_node ''XED_REG_XMM28'' (Some ''xed-reg-enum_8h.html#af05c33c5a68e9304d1d8ac0408ae3f61abc386422591c4c64770656f8799956cd'') Null,
    Nav_node ''XED_REG_XMM29'' (Some ''xed-reg-enum_8h.html#af05c33c5a68e9304d1d8ac0408ae3f61a47f2610784a2a67772157580d168608e'') Null,
    Nav_node ''XED_REG_XMM30'' (Some ''xed-reg-enum_8h.html#af05c33c5a68e9304d1d8ac0408ae3f61a6541e11af5b63e5fa0f5f1d19f9ec56a'') Null,
    Nav_node ''XED_REG_XMM31'' (Some ''xed-reg-enum_8h.html#af05c33c5a68e9304d1d8ac0408ae3f61a3ca65a70f3e8870b47b1365a8cd706f2'') Null,
    Nav_node ''XED_REG_YMM0'' (Some ''xed-reg-enum_8h.html#af05c33c5a68e9304d1d8ac0408ae3f61af5149f0216fe6bd368b96291ed62d983'') Null,
    Nav_node ''XED_REG_YMM1'' (Some ''xed-reg-enum_8h.html#af05c33c5a68e9304d1d8ac0408ae3f61a0a85665fc18aa347a1d8e3d13efa56f4'') Null,
    Nav_node ''XED_REG_YMM2'' (Some ''xed-reg-enum_8h.html#af05c33c5a68e9304d1d8ac0408ae3f61aef2b98814b2aeeeacb134f0ba10bd25a'') Null,
    Nav_node ''XED_REG_YMM3'' (Some ''xed-reg-enum_8h.html#af05c33c5a68e9304d1d8ac0408ae3f61a712df4bd702fe5cbe95cb579b1acbd59'') Null,
    Nav_node ''XED_REG_YMM4'' (Some ''xed-reg-enum_8h.html#af05c33c5a68e9304d1d8ac0408ae3f61aa3a4655a234b478d5908343cd2fd87b7'') Null,
    Nav_node ''XED_REG_YMM5'' (Some ''xed-reg-enum_8h.html#af05c33c5a68e9304d1d8ac0408ae3f61a2decc1893fbf1978ee2a96d8c9d0640a'') Null,
    Nav_node ''XED_REG_YMM6'' (Some ''xed-reg-enum_8h.html#af05c33c5a68e9304d1d8ac0408ae3f61a21b0c0d6788f43e4b086ac00ed788b3a'') Null,
    Nav_node ''XED_REG_YMM7'' (Some ''xed-reg-enum_8h.html#af05c33c5a68e9304d1d8ac0408ae3f61a7b661ab2a26b89fea9cea6a8902e14c0'') Null,
    Nav_node ''XED_REG_YMM8'' (Some ''xed-reg-enum_8h.html#af05c33c5a68e9304d1d8ac0408ae3f61ac1e817ffde81a2af7f5d6f5e9f04e1fe'') Null,
    Nav_node ''XED_REG_YMM9'' (Some ''xed-reg-enum_8h.html#af05c33c5a68e9304d1d8ac0408ae3f61aa1ecfd5e57f7c9b29fc50030cbfc4791'') Null,
    Nav_node ''XED_REG_YMM10'' (Some ''xed-reg-enum_8h.html#af05c33c5a68e9304d1d8ac0408ae3f61a1991f170936e7009b9b708e224f00b04'') Null,
    Nav_node ''XED_REG_YMM11'' (Some ''xed-reg-enum_8h.html#af05c33c5a68e9304d1d8ac0408ae3f61a296917ca9525936bc89425a76a14c42d'') Null,
    Nav_node ''XED_REG_YMM12'' (Some ''xed-reg-enum_8h.html#af05c33c5a68e9304d1d8ac0408ae3f61a0fd33bd468acad24f9faad6dc15546f7'') Null,
    Nav_node ''XED_REG_YMM13'' (Some ''xed-reg-enum_8h.html#af05c33c5a68e9304d1d8ac0408ae3f61a08af20edc6e8dd20a4f03a13789c8762'') Null,
    Nav_node ''XED_REG_YMM14'' (Some ''xed-reg-enum_8h.html#af05c33c5a68e9304d1d8ac0408ae3f61af1bce9ede24da5bd0a4ecd50d8f032df'') Null,
    Nav_node ''XED_REG_YMM15'' (Some ''xed-reg-enum_8h.html#af05c33c5a68e9304d1d8ac0408ae3f61a990d7646d468968c49940fc25f73150a'') Null,
    Nav_node ''XED_REG_YMM16'' (Some ''xed-reg-enum_8h.html#af05c33c5a68e9304d1d8ac0408ae3f61a023fb7917a250f7407aabcc92ba7bbe2'') Null,
    Nav_node ''XED_REG_YMM17'' (Some ''xed-reg-enum_8h.html#af05c33c5a68e9304d1d8ac0408ae3f61aa2fd9b6c316fb3a175b6bb452f8c6d7a'') Null,
    Nav_node ''XED_REG_YMM18'' (Some ''xed-reg-enum_8h.html#af05c33c5a68e9304d1d8ac0408ae3f61a3d754698a9a302c2ebf655a4b7e8a2ab'') Null,
    Nav_node ''XED_REG_YMM19'' (Some ''xed-reg-enum_8h.html#af05c33c5a68e9304d1d8ac0408ae3f61ad1eefcfd4e8d094d6bef93fa3733f6ba'') Null,
    Nav_node ''XED_REG_YMM20'' (Some ''xed-reg-enum_8h.html#af05c33c5a68e9304d1d8ac0408ae3f61aff13de7ce96bc6e1840ca0b6817d6138'') Null,
    Nav_node ''XED_REG_YMM21'' (Some ''xed-reg-enum_8h.html#af05c33c5a68e9304d1d8ac0408ae3f61a84ac0600ee7861603376d942228ebadb'') Null,
    Nav_node ''XED_REG_YMM22'' (Some ''xed-reg-enum_8h.html#af05c33c5a68e9304d1d8ac0408ae3f61a91cf0064b1e5d5502ae4abf5254aa6dd'') Null,
    Nav_node ''XED_REG_YMM23'' (Some ''xed-reg-enum_8h.html#af05c33c5a68e9304d1d8ac0408ae3f61a9cd2cd96d0d036519e7b0ccbcc282d35'') Null,
    Nav_node ''XED_REG_YMM24'' (Some ''xed-reg-enum_8h.html#af05c33c5a68e9304d1d8ac0408ae3f61a1ca21505cf8f3fa939741b2ed9f37208'') Null,
    Nav_node ''XED_REG_YMM25'' (Some ''xed-reg-enum_8h.html#af05c33c5a68e9304d1d8ac0408ae3f61af4db75aa981f69755acb54278f1505d3'') Null,
    Nav_node ''XED_REG_YMM26'' (Some ''xed-reg-enum_8h.html#af05c33c5a68e9304d1d8ac0408ae3f61a0ccdb7dc49a64cda19600fb134dbb4d0'') Null,
    Nav_node ''XED_REG_YMM27'' (Some ''xed-reg-enum_8h.html#af05c33c5a68e9304d1d8ac0408ae3f61a2a41bfc5ce01c17337447bf1e02ba51d'') Null,
    Nav_node ''XED_REG_YMM28'' (Some ''xed-reg-enum_8h.html#af05c33c5a68e9304d1d8ac0408ae3f61ab396df00841abaadd07f08a33c80837a'') Null,
    Nav_node ''XED_REG_YMM29'' (Some ''xed-reg-enum_8h.html#af05c33c5a68e9304d1d8ac0408ae3f61acc996ccba0fb754364af179ea055631d'') Null,
    Nav_node ''XED_REG_YMM30'' (Some ''xed-reg-enum_8h.html#af05c33c5a68e9304d1d8ac0408ae3f61a6054cb38ed1db8b9aa5618767f24a03f'') Null,
    Nav_node ''XED_REG_YMM31'' (Some ''xed-reg-enum_8h.html#af05c33c5a68e9304d1d8ac0408ae3f61a9f6b3f09527e35c465ec8fc0fa4a7b3b'') Null,
    Nav_node ''XED_REG_ZMM0'' (Some ''xed-reg-enum_8h.html#af05c33c5a68e9304d1d8ac0408ae3f61a152fa8f3e0ea176f7973e46580def881'') Null,
    Nav_node ''XED_REG_ZMM1'' (Some ''xed-reg-enum_8h.html#af05c33c5a68e9304d1d8ac0408ae3f61a750b8fd621b40b1176a77cdac9413669'') Null,
    Nav_node ''XED_REG_ZMM2'' (Some ''xed-reg-enum_8h.html#af05c33c5a68e9304d1d8ac0408ae3f61a7d9feac0f3824cef6e3d6b92e193f28f'') Null,
    Nav_node ''XED_REG_ZMM3'' (Some ''xed-reg-enum_8h.html#af05c33c5a68e9304d1d8ac0408ae3f61ad2b65cc4944497969024f7cbf74dc525'') Null,
    Nav_node ''XED_REG_ZMM4'' (Some ''xed-reg-enum_8h.html#af05c33c5a68e9304d1d8ac0408ae3f61a1fd6af740a0ef9636dae143eaafdfa44'') Null,
    Nav_node ''XED_REG_ZMM5'' (Some ''xed-reg-enum_8h.html#af05c33c5a68e9304d1d8ac0408ae3f61a680faed067488a52eb5df4c3c4b77539'') Null,
    Nav_node ''XED_REG_ZMM6'' (Some ''xed-reg-enum_8h.html#af05c33c5a68e9304d1d8ac0408ae3f61ae304a666b744a4ae991c40a610be9ab3'') Null,
    Nav_node ''XED_REG_ZMM7'' (Some ''xed-reg-enum_8h.html#af05c33c5a68e9304d1d8ac0408ae3f61acc8c49ec868fd09cbcec3972e6444659'') Null,
    Nav_node ''XED_REG_ZMM8'' (Some ''xed-reg-enum_8h.html#af05c33c5a68e9304d1d8ac0408ae3f61a3ad43f2f84700e775a627941675bf78c'') Null,
    Nav_node ''XED_REG_ZMM9'' (Some ''xed-reg-enum_8h.html#af05c33c5a68e9304d1d8ac0408ae3f61a5fdf32378a226aa4a7b3fbdf9ed7fda8'') Null,
    Nav_node ''XED_REG_ZMM10'' (Some ''xed-reg-enum_8h.html#af05c33c5a68e9304d1d8ac0408ae3f61afb27577fd784f08feb365e529ad7f220'') Null,
    Nav_node ''XED_REG_ZMM11'' (Some ''xed-reg-enum_8h.html#af05c33c5a68e9304d1d8ac0408ae3f61a5518610449d7b42633730a6b58a6fbba'') Null,
    Nav_node ''XED_REG_ZMM12'' (Some ''xed-reg-enum_8h.html#af05c33c5a68e9304d1d8ac0408ae3f61a944a1ec4c4bb95c6134d77e3d79d3f13'') Null,
    Nav_node ''XED_REG_ZMM13'' (Some ''xed-reg-enum_8h.html#af05c33c5a68e9304d1d8ac0408ae3f61a615780fd98cd7a64a1adaaf0d45fbaf5'') Null,
    Nav_node ''XED_REG_ZMM14'' (Some ''xed-reg-enum_8h.html#af05c33c5a68e9304d1d8ac0408ae3f61ac7bf56f8af5f9a90a56e9ac299aa27cf'') Null,
    Nav_node ''XED_REG_ZMM15'' (Some ''xed-reg-enum_8h.html#af05c33c5a68e9304d1d8ac0408ae3f61ae76d12cb0d71dcf086504a4610712d79'') Null,
    Nav_node ''XED_REG_ZMM16'' (Some ''xed-reg-enum_8h.html#af05c33c5a68e9304d1d8ac0408ae3f61ac5657803daf264d89a0b8a56c37e6dac'') Null,
    Nav_node ''XED_REG_ZMM17'' (Some ''xed-reg-enum_8h.html#af05c33c5a68e9304d1d8ac0408ae3f61a16884d423f08b8013659af10d2d37de8'') Null,
    Nav_node ''XED_REG_ZMM18'' (Some ''xed-reg-enum_8h.html#af05c33c5a68e9304d1d8ac0408ae3f61af6936af33992fca508e45a4fadd4a341'') Null,
    Nav_node ''XED_REG_ZMM19'' (Some ''xed-reg-enum_8h.html#af05c33c5a68e9304d1d8ac0408ae3f61a1fb0c944109c89c30d3bc019e09a0d62'') Null,
    Nav_node ''XED_REG_ZMM20'' (Some ''xed-reg-enum_8h.html#af05c33c5a68e9304d1d8ac0408ae3f61a445ce04bc834ef56464dbb0109a02502'') Null,
    Nav_node ''XED_REG_ZMM21'' (Some ''xed-reg-enum_8h.html#af05c33c5a68e9304d1d8ac0408ae3f61afc1e3841badbdab69b984f8b8a989926'') Null,
    Nav_node ''XED_REG_ZMM22'' (Some ''xed-reg-enum_8h.html#af05c33c5a68e9304d1d8ac0408ae3f61acee11206107221ff9d522334a3970920'') Null,
    Nav_node ''XED_REG_ZMM23'' (Some ''xed-reg-enum_8h.html#af05c33c5a68e9304d1d8ac0408ae3f61a0fb291425481a91177fa9f26d7da8d12'') Null,
    Nav_node ''XED_REG_ZMM24'' (Some ''xed-reg-enum_8h.html#af05c33c5a68e9304d1d8ac0408ae3f61ace2341ee196aff6576bfb6e062bec225'') Null,
    Nav_node ''XED_REG_ZMM25'' (Some ''xed-reg-enum_8h.html#af05c33c5a68e9304d1d8ac0408ae3f61a2ebae50d15272ba5ef6257783a4e4bb6'') Null,
    Nav_node ''XED_REG_ZMM26'' (Some ''xed-reg-enum_8h.html#af05c33c5a68e9304d1d8ac0408ae3f61a8cdc2fe74a080d61d37cf5bcefef8455'') Null,
    Nav_node ''XED_REG_ZMM27'' (Some ''xed-reg-enum_8h.html#af05c33c5a68e9304d1d8ac0408ae3f61af6e999c7e89d6a5a44b835edcb57e3f7'') Null,
    Nav_node ''XED_REG_ZMM28'' (Some ''xed-reg-enum_8h.html#af05c33c5a68e9304d1d8ac0408ae3f61aead459a6903d9c7bae3e4adc51f070a4'') Null,
    Nav_node ''XED_REG_ZMM29'' (Some ''xed-reg-enum_8h.html#af05c33c5a68e9304d1d8ac0408ae3f61a51a94fda95d92788ec2e98ba2051c41d'') Null,
    Nav_node ''XED_REG_ZMM30'' (Some ''xed-reg-enum_8h.html#af05c33c5a68e9304d1d8ac0408ae3f61abd73d5cb3bb3f7d48bf36bae84e96914'') Null,
    Nav_node ''XED_REG_ZMM31'' (Some ''xed-reg-enum_8h.html#af05c33c5a68e9304d1d8ac0408ae3f61a91cde4a4735a3018bf2df05925b1e18b'') Null]"

lemma xed_reg_enum_8h_values_2_closed: "list_all (closed_node scripts) xed_reg_enum_8h_values_2"
  by (simp only: xed_reg_enum_8h_values_2_def closed_rules)

definition xed_reg_enum_8h_values_3 :: "nav_node list" where
  "xed_reg_enum_8h_values_3 = [
    Nav_node ''XED_REG_LAST'' (Some ''xed-reg-enum_8h.html#af05c33c5a68e9304d1d8ac0408ae3f61a617555cc68d7dc67de57516f3c773b30'') Null,
    Nav_node ''XED_REG_BNDCFG_FIRST'' (Some ''xed-reg-enum_8h.html#af05c33c5a68e9304d1d8ac0408ae3f61a0b033081be5b2b8c8adf4015f4468186'') Null,
    Nav_node ''XED_REG_BNDCFG_LAST'' (Some ''xed-reg-enum_8h.html#af05c33c5a68e9304d1d8ac0408ae3f61aaf5a5712854be7ed02d1e772f346eb28'') Null,
    Nav_node ''XED_REG_BNDSTAT_FIRST'' (Some ''xed-reg-enum_8h.html#af05c33c5a68e9304d1d8ac0408ae3f61a2b8bed881cbf91dfe863dc62dec208de'') Null,
    Nav_node ''XED_REG_BNDSTAT_LAST'' (Some ''xed-reg-enum_8h.html#af05c33c5a68e9304d1d8ac0408ae3f61ac2f7b3d688f94508b7bf271aed1e4e9b'') Null,
    Nav_node ''XED_REG_BOUND_FIRST'' (Some ''xed-reg-enum_8h.html#af05c33c5a68e9304d1d8ac0408ae3f61ab4a40eeab0ede643ccdb43566d825486'') Null,
    Nav_node ''XED_REG_BOUND_LAST'' (Some ''xed-reg-enum_8h.html#af05c33c5a68e9304d1d8ac0408ae3f61affda634edd6943b5ea19a71eb02c7700'') Null,
    Nav_node ''XED_REG_CR_FIRST'' (Some ''xed-reg-enum_8h.html#af05c33c5a68e9304d1d8ac0408ae3f61adaa13bfff49ccd3e0f85b59e795e5b8b'') Null,
    Nav_node ''XED_REG_CR_LAST'' (Some ''xed-reg-enum_8h.html#af05c33c5a68e9304d1d8ac0408ae3f61a58699eb10744482dcc1437d39c6e3bf2'') Null,
    Nav_node ''XED_REG_DR_FIRST'' (Some ''xed-reg-enum_8h.html#af05c33c5a68e9304d1d8ac0408ae3f61a200fa82afea32f521685416b6e45a968'') Null,
    Nav_node ''XED_REG_DR_LAST'' (Some ''xed-reg-enum_8h.html#af05c33c5a68e9304d1d8ac0408ae3f61a70ca97652885f7e653c42037f51c654d'') Null,
    Nav_node ''XED_REG_FLAGS_FIRST'' (Some ''xed-reg-enum_8h.html#af05c33c5a68e9304d1d8ac0408ae3f61a9c866c396a834920f297e8fb87235c00'') Null,
    Nav_node ''XED_REG_FLAGS_LAST'' (Some ''xed-reg-enum_8h.html#af05c33c5a68e9304d1d8ac0408ae3f61a9872cfebab470a5dbbbc2f418ac90b53'') Null,
    Nav_node ''XED_REG_GPR16_FIRST'' (Some ''xed-reg-enum_8h.html#af05c33c5a68e9304d1d8ac0408ae3f61a573f9d1fb84afff9d321040fd2bc0afe'') Null,
    Nav_node ''XED_REG_GPR16_LAST'' (Some ''xed-reg-enum_8h.html#af05c33c5a68e9304d1d8ac0408ae3f61a7bfdfae1d6651a0592cec9da3c16adf0'') Null,
    Nav_node ''XED_REG_GPR32_FIRST'' (Some ''xed-reg-enum_8h.html#af05c33c5a68e9304d1d8ac0408ae3f61a10a5b452bedff37fec6e7bf8138fdd23'') Null,
    Nav_node ''XED_REG_GPR32_LAST'' (Some ''xed-reg-enum_8h.html#af05c33c5a68e9304d1d8ac0408ae3f61a765d654c17fa72f29b0f1ee9ce1a04f2'') Null,
    Nav_node ''XED_REG_GPR64_FIRST'' (Some ''xed-reg-enum_8h.html#af05c33c5a68e9304d1d8ac0408ae3f61aad76f44e1e8cbd967fc45092688b1ae8'') Null,
    Nav_node ''XED_REG_GPR64_LAST'' (Some ''xed-reg-enum_8h.html#af05c33c5a68e9304d1d8ac0408ae3f61a5f6f18444f4f19c2265fbe30407843cf'') Null,
    Nav_node ''XED_REG_GPR8_FIRST'' (Some ''xed-reg-enum_8h.html#af05c33c5a68e9304d1d8ac0408ae3f61ab416beaed79724b2357ed4ebdb398a48'') Null,
    Nav_node ''XED_REG_GPR8_LAST'' (Some ''xed-reg-enum_8h.html#af05c33c5a68e9304d1d8ac0408ae3f61a11319a80248b8849ecea9527ed9648a1'') Null,
    Nav_node ''XED_REG_GPR8H_FIRST'' (Some ''xed-reg-enum_8h.html#af05c33c5a68e9304d1d8ac0408ae3f61a047178347d21f8bf6244143a09946a75'') Null,
    Nav_node ''XED_REG_GPR8H_LAST'' (Some ''xed-reg-enum_8h.html#af05c33c5a68e9304d1d8ac0408ae3f61af5b81bdc330c85729b473a6d28b45590'') Null,
    Nav_node ''XED_REG_INVALID_FIRST'' (Some ''xed-reg-enum_8h.html#af05c33c5a68e9304d1d8ac0408ae3f61a8acc71a2cb7272bdb28952c17535ddd9'') Null,
    Nav_node ''XED_REG_INVALID_LAST'' (Some ''xed-reg-enum_8h.html#af05c33c5a68e9304d1d8ac0408ae3f61a162b4f5aa9a068d952ce598dc133da3d'') Null,
    Nav_node ''XED_REG_IP_FIRST'' (Some ''xed-reg-enum_8h.html#af05c33c5a68e9304d1d8ac0408ae3f61a6cf7c6e263a177cef0177be391b1acbd'') Null,
    Nav_node ''XED_REG_IP_LAST'' (Some ''xed-reg-enum_8h.html#af05c33c5a68e9304d1d8ac0408ae3f61a9f98fdb59a72aeec9b65c2bcf121e267'') Null,
    Nav_node ''XED_REG_MASK_FIRST'' (Some ''xed-reg-enum_8h.html#af05c33c5a68e9304d1d8ac0408ae3f61a6e3a422cda2e3ee824d349009d8a117c'') Null,
    Nav_node ''XED_REG_MASK_LAST'' (Some ''xed-reg-enum_8h.html#af05c33c5a68e9304d1d8ac0408ae3f61abb687c2db8e6cdf74607ed6c9122e6a4'') Null,
    Nav_node ''XED_REG_MMX_FIRST'' (Some ''xed-reg-enum_8h.html#af05c33c5a68e9304d1d8ac0408ae3f61afe736bfa0021e5565cc25180bf4857c1'') Null,
    Nav_node ''XED_REG_MMX_LAST'' (Some ''xed-reg-enum_8h.html#af05c33c5a68e9304d1d8ac0408ae3f61af2e4f80fc62d4b9981dcb43ef18aeed0'') Null,
    Nav_node ''XED_REG_MXCSR_FIRST'' (Some ''xed-reg-enum_8h.html#af05c33c5a68e9304d1d8ac0408ae3f61aff142c081a911cc79144bcd0c6099e0b'') Null,
    Nav_node ''XED_REG_MXCSR_LAST'' (Some ''xed-reg-enum_8h.html#af05c33c5a68e9304d1d8ac0408ae3f61af83e2f0cf7b05406f86edbed80a53f6d'') Null,
    Nav_node ''XED_REG_PSEUDO_FIRST'' (Some ''xed-reg-enum_8h.html#af05c33c5a68e9304d1d8ac0408ae3f61afdcd04ad6ee6a0e2e1f8089c89651365'') Null,
    Nav_node ''XED_REG_PSEUDO_LAST'' (Some ''xed-reg-enum_8h.html#af05c33c5a68e9304d1d8ac0408ae3f61ad8a61b93c3d6273d4e9d6ea637553884'') Null,
    Nav_node ''XED_REG_PSEUDOX87_FIRST'' (Some ''xed-reg-enum_8h.html#af05c33c5a68e9304d1d8ac0408ae3f61aff704eec3f5ff61766f2ea6325b19ad0'') Null,
    Nav_node ''XED_REG_PSEUDOX87_LAST'' (Some ''xed-reg-enum_8h.html#af05c33c5a68e9304d1d8ac0408ae3f61aa8fb4a3677f4f50e80018102a7f4b327'') Null,
    Nav_node ''XED_REG_SR_FIRST'' (Some ''xed-reg-enum_8h.html#af05c33c5a68e9304d1d8ac0408ae3f61adb31ebfcaba665137153904160ea7929'') Null,
    Nav_node ''XED_REG_SR_LAST'' (Some ''xed-reg-enum_8h.html#af05c33c5a68e9304d1d8ac0408ae3f61aa5a27eed8113c47f8d7b4df94c2c8fdc'') Null,
    Nav_node ''XED_REG_TMP_FIRST'' (Some ''xed-reg-enum_8h.html#af05c33c5a68e9304d1d8ac0408ae3f61a7a66902e014c9899e73485ccf27f6224'') Null,
    Nav_node ''XED_REG_TMP_LAST'' (Some ''xed-reg-enum_8h.html#af05c33c5a68e9304d1d8ac0408ae3f61a59b9911384c2ee4b16583da24ceddbd0'') Null,
    Nav_node ''XED_REG_X87_FIRST'' (Some ''xed-reg-enum_8h.html#af05c33c5a68e9304d1d8ac0408ae3f61a008fdf6022b759f65e891cd98c56a82e'') Null,
    Nav_node ''XED_REG_X87_LAST'' (Some ''xed-reg-enum_8h.html#af05c33c5a68e9304d1d8ac0408ae3f61a1cc2f51e4bc9ac7479d4a6f65ce1790a'') Null,
    Nav_node ''XED_REG_XCR_FIRST'' (Some ''xed-reg-enum_8h.html#af05c33c5a68e9304d1d8ac0408ae3f61a27bef7901ec439e4f5da36cf645fed11'') Null,
    Nav_node ''XED_REG_XCR_LAST'' (Some ''xed-reg-enum_8h.html#af05c33c5a68e9304d1d8ac0408ae3f61aec31259def404056d4b9b2f0befcd2ce'') Null,
    Nav_node ''XED_REG_XMM_FIRST'' (Some ''xed-reg-enum_8h.html#af05c33c5a68e9304d1d8ac0408ae3f61a7cff9b0fbf388842dbf798172741f073'') Null,
    Nav_node ''XED_REG_XMM_LAST'' (Some ''xed-reg-enum_8h.html#af05c33c5a68e9304d1d8ac0408ae3f61acd327e9cc110c0cff94e3c6017befed1'') Null,
    Nav_node ''XED_REG_YMM_FIRST'' (Some ''xed-reg-enum_8h.html#af05c33c5a68e9304d1d8ac0408ae3f61ab2eee7b9fed3391a8cbf67a232da93ae'') Null,
    Nav_node ''XED_REG_YMM_LAST'' (Some ''xed-reg-enum_8h.html#af05c33c5a68e9304d1d8ac0408ae3f61a8f427333b50e80d598968e238b4449d3'') Null,
    Nav_node ''XED_REG_ZMM_FIRST'' (Some ''xed-reg-enum_8h.html#af05c33c5a68e9304d1d8ac0408ae3f61a649ae0ce8ce8a6645cb1d94f9c37329d'') Null,
    Nav_node ''XED_REG_ZMM_LAST'' (Some ''xed-reg-enum_8h.html#af05c33c5a68e9304d1d8ac0408ae3f61a43e6bb45a207ea67279aaad74c9bca14'') Null]"

lemma xed_reg_enum_8h_values_3_closed: "list_all (closed_node scripts) xed_reg_enum_8h_values_3"
  by (simp only: xed_reg_enum_8h_values_3_def closed_rules)

definition xed_reg_enum_8h_1 :: "nav_node list" where
  "xed_reg_enum_8h_1 = [
    Nav_node ''xed_reg_enum_t'' (Some ''xed-reg-enum_8h.html#af05c33c5a68e9304d1d8ac0408ae3f61'') (Nodes (xed_reg_enum_8h_values_1 @ xed_reg_enum_8h_values_2 @ xed_reg_enum_8h_values_3))]"

lemma xed_reg_enum_8h_1_closed: "list_all (closed_node scripts) xed_reg_enum_8h_1"
  by (simp only: xed_reg_enum_8h_1_def closed_rules xed_reg_enum_8h_values_1_closed xed_reg_enum_8h_values_2_closed xed_reg_enum_8h_values_3_closed)

definition xed_reg_enum_8h_2 :: "nav_node list" where
  "xed_reg_enum_8h_2 = [
    Nav_node ''str2xed_reg_enum_t'' (Some ''group__ENUM.html#ga48dc3d086b469ae580ca47917043c2fd'') Null,
    Nav_node ''xed_reg_enum_t2str'' (Some ''group__ENUM.html#ga2219331ccd4d809d431e81fe5e857e95'') Null,
    Nav_node ''xed_reg_enum_t_last'' (Some ''group__ENUM.html#gad2255166d37ffe04cbf52650a2fd27f2'') Null]"

lemma xed_reg_enum_8h_2_closed: "list_all (closed_node scripts) xed_reg_enum_8h_2"
  by (simp only: xed_reg_enum_8h_2_def closed_rules)

definition xed_reg_enum_8h :: "nav_node list" where
  "xed_reg_enum_8h = xed_reg_enum_8h_1 @ xed_reg_enum_8h_2"

lemma xed_reg_enum_8h_closed: "list_all (closed_node scripts) xed_reg_enum_8h"
  by (simp only: xed_reg_enum_8h_def closed_rules xed_reg_enum_8h_1_closed xed_reg_enum_8h_2_closed)

end
