(* ===== verification/Nav_Tables_7.thy ===== *)
theory Nav_Tables_7
  imports Nav_Closed
begin

text \<open>
  Child tables of the navigation tree, one definition for each script, or several where the
  script is long: the nodes that the scripts put below the nodes that name them.
\<close>

definition xed_reg_role_enum_8h :: "nav_node list" where
  "xed_reg_role_enum_8h = [
    Nav_node ''xed_reg_role_enum_t'' (Some ''xed-reg-role-enum_8h.html#a0f47d808cc158100cda543079bd484d8'') (Nodes [
      Nav_node ''XED_REG_ROLE_INVALID'' (Some ''xed-reg-role-enum_8h.html#a0f47d808cc158100cda543079bd484d8a2370a1776ed6595fcfb10b3aeb91fb14'') Null,
      Nav_node ''XED_REG_ROLE_NORMAL'' (Some ''xed-reg-role-enum_8h.html#a0f47d808cc158100cda543079bd484d8a3cbc4755512d15d50957713939d0a71c'') Null,
      Nav_node ''XED_REG_ROLE_SEGREG0'' (Some ''xed-reg-role-enum_8h.html#a0f47d808cc158100cda543079bd484d8a0ff34372775573c70997d9dda3285c9a'') Null,
      Nav_node ''XED_REG_ROLE_SEGREG1'' (Some ''xed-reg-role-enum_8h.html#a0f47d808cc158100cda543079bd484d8a4124e5b3433c7b756e3b46767e524c77'') Null,
      Nav_node ''XED_REG_ROLE_BASE0'' (Some ''xed-reg-role-enum_8h.html#a0f47d808cc158100cda543079bd484d8aad4d35249b61b0511eeeeb12c4a51b1e'') Null,
      Nav_node ''XED_REG_ROLE_BASE1'' (Some ''xed-reg-role-enum_8h.html#a0f47d808cc158100cda543079bd484d8a829647f4156f90b9e07239fbe904aa70'') Null,
      Nav_node ''XED_REG_ROLE_INDEX'' (Some ''xed-reg-role-enum_8h.html#a0f47d808cc158100cda543079bd484d8a103c491c14ed9a72834eb7195ac815d7'') Null,
      Nav_node ''XED_REG_ROLE_LAST'' (Some ''xed-reg-role-enum_8h.html#a0f47d808cc158100cda543079bd484d8aeeb967b14152c1bb1572dc10dbdf4493'') Null]),
    Nav_node ''str2xed_reg_role_enum_t'' (Some ''group__ENUM.html#ga3fde56fafd5fbe4c642c0566e0e84f28'') Null,
    Nav_node ''xed_reg_role_enum_t2str'' (Some ''group__ENUM.html#gad0f6f3c21707dc5b89c9c370017cbdc6'') Null,
    Nav_node ''xed_reg_role_enum_t_last'' (Some ''group__ENUM.html#ga30015569197d490a9b6afa9ff9826089'') Null]"

lemma xed_reg_role_enum_8h_closed: "list_all (closed_node scripts) xed_reg_role_enum_8h"
  by (simp only: xed_reg_role_enum_8h_def closed_rules)

definition xed_state_8h :: "nav_node list" where
  "xed_state_8h = [
    Nav_node ''xed_state_t'' (Some ''group__INIT.html#gada6bf6c5b88022528bea9b648e356504'') Null,
    Nav_node ''xed_state_get_address_width'' (Some ''group__INIT.html#gaa5df14c6b5a97bd9f9ee4c50ab790a85'') Null,
    Nav_node ''xed_state_get_machine_mode'' (Some ''group__INIT.html#ga8b1fc00b95c50fd54959889d72dc569a'') Null,
    Nav_node ''xed_state_get_stack_address_width'' (Some ''group__INIT.html#ga4fb992e21a8f9f9f39e8fa36f22de96c'') Null,
    Nav_node ''xed_state_init'' (Some ''group__INIT.html#gaa181c6c7162e8851a786dbdd94c77dd3'') Null,
    Nav_node ''xed_state_init2'' (Some ''group__INIT.html#ga9e767a03896bae8167b85510fdb661ce'') Null,
    Nav_node ''xed_state_long64_mode'' (Some ''group__INIT.html#ga8d32c7696d58a4a4aa103de13f7de577'') Null,
    Nav_node ''xed_state_mode_width_16'' (Some ''group__INIT.html#ga15a9c2418fa6909fc7eeebea045722e6'') Null,
    Nav_node ''xed_state_mode_width_32'' (Some ''group__INIT.html#gaa2f13457567fea6468967cde050eefdf'') Null,
    Nav_node ''xed_state_print'' (Some ''group__INIT.html#ga0910f14ae574d3cca7e4cfcc7bc2e0e5'') Null,
    Nav_node ''xed_state_real_mode'' (Some ''group__INIT.html#ga8b3b369cad18a5a71ff9c068878377ce'') Null,
    Nav_node ''xed_state_set_machine_mode'' (Some ''group__INIT.html#gabb8aa407f1664d9cee6201bb69e638f7'') Null,
    Nav_node ''xed_state_set_stack_address_width'' (Some ''group__INIT.html#ga724e2158223d6c97bd8fb619af042cf7'') Null,
    Nav_node ''xed_state_zero'' (Some ''group__INIT.html#ga8eea80ff7aa0fc77c3c3e90ce3e1fd64'') Null]"

lemma xed_state_8h_closed: "list_all (closed_node scripts) xed_state_8h"
  by (simp only: xed_state_8h_def closed_rules)

definition xed_syntax_enum_8h :: "nav_node list" where
  "xed_syntax_enum_8h = [
    Nav_node ''xed_syntax_enum_t'' (Some ''xed-syntax-enum_8h.html#a226c37dc9f1af9e61dad79dc5f65bc9f'') (Nodes [
      Nav_node ''XED_SYNTAX_INVALID'' (Some ''xed-syntax-enum_8h.html#a226c37dc9f1af9e61dad79dc5f65bc9fa160f893e3872c0ed06171ce02ae4d1a4'') Null,
      Nav_node ''XED_SYNTAX_XED'' (Some ''xed-syntax-enum_8h.html#a226c37dc9f1af9e61dad79dc5f65bc9fa1cb49eb16d1472dbb839bf64966bc36b'') Null,
      Nav_node ''XED_SYNTAX_ATT'' (Some ''xed-syntax-enum_8h.html#a226c37dc9f1af9e61dad79dc5f65bc9fa627bdee9fd81c454a2fd83ce0088e3a4'') Null,
      Nav_node ''XED_SYNTAX_INTEL'' (Some ''xed-syntax-enum_8h.html#a226c37dc9f1af9e61dad79dc5f65bc9fa508a89902725439e2cebc875b68f05a2'') Null,
      Nav_node ''XED_SYNTAX_LAST'' (Some ''xed-syntax-enum_8h.html#a226c37dc9f1af9e61dad79dc5f65bc9fadac9335a5ea5fdbd019ac2290cae9857'') Null]),
    Nav_node ''str2xed_syntax_enum_t'' (Some ''group__ENUM.html#ga6eeeb05296af70a796524487d483400e'') Null,
    Nav_node ''xed_syntax_enum_t2str'' (Some ''group__ENUM.html#ga803092dbbebc22786f8b974efbe97ca8'') Null,
    Nav_node ''xed_syntax_enum_t_last'' (Some ''group__ENUM.html#gaee6d6cc72a43e967fcd2c4879aa469dc'') Null]"

lemma xed_syntax_enum_8h_closed: "list_all (closed_node scripts) xed_syntax_enum_8h"
  by (simp only: xed_syntax_enum_8h_def closed_rules)

definition xed_types_8h :: "nav_node list" where
  "xed_types_8h = [
    Nav_node ''xed_union16_t'' (Some ''unionxed__union16__t.html'') (Script ''unionxed__union16__t''),
    Nav_node ''xed_union32_t'' (Some ''unionxed__union32__t.html'') (Script ''unionxed__union32__t''),
    Nav_node ''xed_union64_t'' (Some ''unionxed__union64__t.html'') (Script ''unionxed__union64__t''),
    Nav_node ''xed_bits_t'' (Some ''xed-types_8h.html#ad8e5425203890e5c0028827b19649375'') Null,
    Nav_node ''xed_bool_t'' (Some ''xed-types_8h.html#ad355c921b747945a82d62233a599c7b5'') Null,
    Nav_node ''xed_int_t'' (Some ''xed-types_8h.html#a349b1a771c4078c6828d9000243752a1'') Null,
    Nav_node ''xed_uint_t'' (Some ''xed-types_8h.html#a0c92e8263b7ca02d8e4826ae5b79bb30'') Null]"

definition xed_util_8h :: "nav_node list" where
  "xed_util_8h = [
    Nav_node ''XED2DIE'' (Some ''xed-util_8h.html#ae9644a4aa92c87b2adae4c1e8bf963c7'') Null,
    Nav_node ''XED2IMSG'' (Some ''xed-util_8h.html#a760385c6d83d5fc71d4c024f683c8486'') Null,
    Nav_node ''XED2TMSG'' (Some ''xed-util_8h.html#ad5f7160aa01ef065e178d2a94f3160a5'') Null,
    Nav_node ''XED2VMSG'' (Some ''xed-util_8h.html#aebae4bce033aa7ce3d17e2d6fe4ee5f5'') Null,
    Nav_node ''xed_assert'' (Some ''xed-util_8h.html#a14e6b8d2d319061ff7e517323aa4776f'') Null,
    Nav_node ''XED_EMIT_MESSAGES'' (Some ''xed-util_8h.html#a0fe518e08dcb412b3489e56e924f1801'') Null,
    Nav_node ''XED_FUNCNAME'' (Some ''xed-util_8h.html#a035d564cf1140b1f6cfdb6d5bf937600'') Null,
    Nav_node ''XED_INFO2_VERBOSE'' (Some ''xed-util_8h.html#ab75fedd1551a7e2ba9e913285e5f5bb7'') Null,
    Nav_node ''XED_INFO_VERBOSE'' (Some ''xed-util_8h.html#a0ceb0261de1db908824c51600dc6a89e'') Null,
    Nav_node ''XED_MORE_VERBOSE'' (Some ''xed-util_8h.html#acba81509bc4097e48123fc8f0f1e9023'') Null,
    Nav_node ''XED_VERBOSE'' (Some ''xed-util_8h.html#a3f5db43cb695b01d7f69c7c080b61c5a'') Null,
    Nav_node ''XED_VERY_VERBOSE'' (Some ''xed-util_8h.html#a50f75a29830559433eb138c0f06cb1d2'') Null,
    Nav_node ''xed_user_abort_function_t'' (Some ''xed-util_8h.html#aed11d7a3601c1c6e076d5285145c4aba'') Null,
    Nav_node ''xed_derror'' (Some ''xed-util_8h.html#a91998102d1e5e33ab1bd11556e69b593'') Null,
    Nav_node ''xed_downcase_buf'' (Some ''xed-util_8h.html#ab56caa731b871e1f6f1129966089a8c4'') Null,
    Nav_node ''xed_dwarn'' (Some ''xed-util_8h.html#a8519ee4e76a5bdffe1b43097662a78bf'') Null,
    Nav_node ''xed_get_byte'' (Some ''xed-util_8h.html#ad28359fdc8cf4aeefefb26c3233d4a83'') Null,
    Nav_node ''xed_internal_assert'' (Some ''xed-util_8h.html#a8ad52f4a3721b0210ab44f9b81f75fb7'') Null,
    Nav_node ''xed_itoa'' (Some ''xed-util_8h.html#ace29fb2a5586630ee42bbd63a837fa86'') Null,
    Nav_node ''xed_itoa_hex'' (Some ''xed-util_8h.html#a8c6a44ba029f3333351fce0b435ddae3'') Null,
    Nav_node ''xed_itoa_hex_zeros'' (Some ''xed-util_8h.html#a32c05e96bf26ca47c234b10044e595f8'') Null,
    Nav_node ''xed_itoa_signed'' (Some ''xed-util_8h.html#aa7d7fc6feef0022817d019fbde521315'') Null,
    Nav_node ''xed_make_int64'' (Some ''xed-util_8h.html#abe89f482452e09f725ff14e5ed2ad4f5'') Null,
    Nav_node ''xed_make_uint64'' (Some ''xed-util_8h.html#a62473090ce59e7287428a455916ae676'') Null,
    Nav_node ''xed_register_abort_function'' (Some ''group__INIT.html#ga017b6fcac483ea9f1621c4cdd0af84bd'') Null,
    Nav_node ''xed_set_log_file'' (Some ''xed-util_8h.html#a0d6317007b747c86b9f0640777091f2e'') Null,
    Nav_node ''xed_set_verbosity'' (Some ''xed-util_8h.html#af7649c62a890faa6cd42c63dc359754d'') Null,
    Nav_node ''xed_shortest_width_signed'' (Some ''xed-util_8h.html#ae76adb41ea8c5db787fd9ed547361dab'') Null,
    Nav_node ''xed_shortest_width_unsigned'' (Some ''xed-util_8h.html#afc3f527af321fcf0c92d75312043c522'') Null,
    Nav_node ''xed_sign_extend16_32'' (Some ''xed-util_8h.html#a8e2e41703c88eed38172abd6fd66689b'') Null,
    Nav_node ''xed_sign_extend16_64'' (Some ''xed-util_8h.html#a11ce8adb47394961e0963153f905a8c0'') Null,
    Nav_node ''xed_sign_extend32_64'' (Some ''xed-util_8h.html#a18389860c680a9845b9b5045f3306089'') Null,
    Nav_node ''xed_sign_extend8_16'' (Some ''xed-util_8h.html#a7aa20e3418952ab2fce8d0a25984a4d3'') Null,
    Nav_node ''xed_sign_extend8_32'' (Some ''xed-util_8h.html#ae8dfa33a61adf2fb28ed97fbfc01c2f4'') Null,
    Nav_node ''xed_sign_extend8_64'' (Some ''xed-util_8h.html#a29a8c7d15c7bed2f34e174764b7532c6'') Null,
    Nav_node ''xed_sign_extend_arbitrary_to_32'' (Some ''xed-util_8h.html#ac6a8e80115d193121a70f02f0fe49d0c'') Null,
    Nav_node ''xed_sign_extend_arbitrary_to_64'' (Some ''xed-util_8h.html#a8aef82b956778a0556f2a5f3346d19bd'') Null,
    Nav_node ''xed_sprintf_int16'' (Some ''xed-util_8h.html#a615376eb148369f0ebbd36c48c73f7c4'') Null,
    Nav_node ''xed_sprintf_int32'' (Some ''xed-util_8h.html#af872b81ba0f8dde6a4aa0923d8a2088b'') Null,
    Nav_node ''xed_sprintf_int64'' (Some ''xed-util_8h.html#a9ea8aad4089d50cace44fe84fc03ca62'') Null,
    Nav_node ''xed_sprintf_int8'' (Some ''xed-util_8h.html#a1be3df2575c8efb193408b387585f7a9'') Null,
    Nav_node ''xed_sprintf_uint16'' (Some ''xed-util_8h.html#a55c55777b364ec77206eaae3d48be85b'') Null,
    Nav_node ''xed_sprintf_uint16_hex'' (Some ''xed-util_8h.html#a598cbc7d35f8c31e454ee7c44757e39c'') Null,
    Nav_node ''xed_sprintf_uint32'' (Some ''xed-util_8h.html#a2fde471ac6296872487d5c4883aa7e22'') Null,
    Nav_node ''xed_sprintf_uint32_hex'' (Some ''xed-util_8h.html#a65f110d7c4a2f4b3d5a875a5f139ca12'') Null,
    Nav_node ''xed_sprintf_uint64'' (Some ''xed-util_8h.html#a3f2386bbe7041d1dc0df84922b4c1603'') Null,
    Nav_node ''xed_sprintf_uint64_hex'' (Some ''xed-util_8h.html#a4e13d14e2e538ba6da0acead0a893b84'') Null,
    Nav_node ''xed_sprintf_uint8'' (Some ''xed-util_8h.html#aa3edeba63dbacf69b346400ee5be05f3'') Null,
    Nav_node ''xed_sprintf_uint8_hex'' (Some ''xed-util_8h.html#a77a69d90f191190effbb512f080d236e'') Null,
    Nav_node ''xed_strncat_lower'' (Some ''xed-util_8h.html#aa819f5a2381e4511576a33578587e6f1'') Null,
    Nav_node ''xed_to_ascii_hex_nibble'' (Some ''xed-util_8h.html#ad1f9074520d38e32f68443c302b88098'') Null,
    Nav_node ''xed_zero_extend16_32'' (Some ''xed-util_8h.html#a4f79aeaa6a48f0826e9e240330e132d4'') Null,
    Nav_node ''xed_zero_extend16_64'' (Some ''xed-util_8h.html#ad335dae20729e39dccdf7fa5e0374322'') Null,
    Nav_node ''xed_zero_extend32_64'' (Some ''xed-util_8h.html#afdb98a2e7f24d812c4d8d43f70dcb63c'') Null,
    Nav_node ''xed_zero_extend8_16'' (Some ''xed-util_8h.html#ae44fb14e3152737d082c95eacb8146a3'') Null,
    Nav_node ''xed_zero_extend8_32'' (Some ''xed-util_8h.html#af223ef6ee50235d961a2bf9b1b9e267d'') Null,
    Nav_node ''xed_zero_extend8_64'' (Some ''xed-util_8h.html#a1cb3d379f310e2bc3961fcfba835b081'') Null,
    Nav_node ''xed_verbose'' (Some ''xed-util_8h.html#a0113585b6ec05b9e2fb348c063808dde'') Null]"

lemma xed_util_8h_closed: "list_all (closed_node scripts) xed_util_8h"
  by (simp only: xed_util_8h_def closed_rules)

definition xed_version_8h :: "nav_node list" where
  "xed_version_8h = [
    Nav_node ''xed_get_copyright'' (Some ''group__INIT.html#gab8d9c7a109a7e0d1cd483e68e3033cc4'') Null,
    Nav_node ''xed_get_version'' (Some ''group__INIT.html#ga884629a9ddd4db55da6aa0b012423108'') Null]"

lemma xed_version_8h_closed: "list_all (closed_node scripts) xed_version_8h"
  by (simp only: xed_version_8h_def closed_rules)

end
