(* ===== verification/Nav_Iclass.thy ===== *)
theory Nav_Iclass
  imports Nav_Closed
begin

text \<open>
  xed-iclass-enum_8h.js: the form of the nodes of this enumeration.
\<close>

text \<open>A node of \<open>xed-iclass-enum_8h.js\<close>: the names and the links of its nodes start alike.\<close>

definition iclass :: "string \<Rightarrow> string \<Rightarrow> nav_node" where
  "iclass name anchor = Nav_node (''XED_ICLASS_'' @ name)
     (Some (''xed-iclass-enum_8h.html#ad318511ae9cc50f102251b3c91a1ab9f'' @ anchor)) Null"

lemma iclass_closed: "closed_node scripts (iclass name anchor) = True"
  by (simp add: iclass_def)

end
