(* ===== verification/Nav_Iclass_1.thy ===== *)
theory Nav_Iclass_1
  imports Nav_Iclass
begin

text \<open>
  xed-iclass-enum_8h.js: the child table of an enumeration of instruction forms or classes.
\<close>

definition xed_iclass_enum_8h_values_1 :: "nav_node list" where
  "xed_iclass_enum_8h_values_1 = [
    iclass ''INVALID'' ''a2c77d475f97998fe763062db09fd15de'',
    iclass ''AAA'' ''a7fb9225b7f2f04b28ebde61c9e6ccad8'',
    iclass ''AAD'' ''a0f9ee2b065174b643404314d070ca94a'',
    iclass ''AAM'' ''a999ffa4e358ebee134dc24f5af894130'',
    iclass ''AAS'' ''a9c55a2d2d588e86aff8e911e14e4050b'',
    iclass ''ADC'' ''aa356cf67e73b117f601eef2a81511230'',
    iclass ''ADCX'' ''a9ba027619c4276d71860379bb45aaabb'',
    iclass ''ADD'' ''aaa55ceac7b68db5fff0596e538e0fdeb'',
    iclass ''ADDPD'' ''a1b414b9bfb420f7ac7662352b38df30d'',
    iclass ''ADDPS'' ''a3aec591928760d0e9cb0a6eab2c2f4c8'',
    iclass ''ADDSD'' ''a03765c8fa983d7e0fae36dff1d21644f'',
    iclass ''ADDSS'' ''a0427f3cd129130c5c8ab736e2be1ae0e'',
    iclass ''ADDSUBPD'' ''adb195078cb3f8864a1ea0097df9315a3'',
    iclass ''ADDSUBPS'' ''adebd165593c800eb1e75ffb6287ba67b'',
    iclass ''ADOX'' ''a89549d5afcbd8adab154bcd8cb99565e'',
    iclass ''AESDEC'' ''aa85e504a5e04f29b1bd0db2bf0cf317f'',
    iclass ''AESDECLAST'' ''a680e459675de3e10e5c3c35648bbd834'',
    iclass ''AESENC'' ''a8b1db824faf193d0b3ada999972c8ce9'',
    iclass ''AESENCLAST'' ''ac95727fdc582c771547f1807e8bf3671'',
    iclass ''AESIMC'' ''a9cf926aa6ec647918e73f57bbd880edc'',
    iclass ''AESKEYGENASSIST'' ''a8cabf62db6996ef0126e27766c4da7b3'',
    iclass ''AND'' ''afda827415ecac27ad00ead8f2a7ce684'',
    iclass ''ANDN'' ''ae608f66e93cee81de6678f87938bc71a'',
    iclass ''ANDNPD'' ''aa592b5f5829c17989936cda2affafc22'',
    iclass ''ANDNPS'' ''a2820466cd1f77ed397b442f5bfd19578'',
    iclass ''ANDPD'' ''a2f43adbaeae94e7660348841a2d694e0'',
    iclass ''ANDPS'' ''a255cc471eb74aa571b999d7a0d34151a'',
    iclass ''ARPL'' ''a145de03b88989379936887cb04fc4c61'',
    iclass ''BEXTR'' ''a82b559f5f8febcea0bb4d5665da19670'',
    iclass ''BEXTR_XOP'' ''ab545651d8cb03e3deaed97562b7ce626'',
    iclass ''BLCFILL'' ''a9e06cefb11f0d2ca1352a3e09536f99d'',
    iclass ''BLCI'' ''a54776f4db98317e6ae5d08452b78bc07'',
    iclass ''BLCIC'' ''acc3e19a08916079180bf9664c1d09c82'',
    iclass ''BLCMSK'' ''a5315a22300026f060983553fa550ada2'',
    iclass ''BLCS'' ''a987f52b34a9d97f7528ee739cc265069'',
    iclass ''BLENDPD'' ''af228d3c8fea9168f942091f3b4ae6f0b'',
    iclass ''BLENDPS'' ''aa49bcb730f1422f11b88c730f69c3e84'',
    iclass ''BLENDVPD'' ''a506d2a1cb54e897b7a384937fccd0394'',
    iclass ''BLENDVPS'' ''a8442f5f93080c4affad229f9ea79b83d'',
    iclass ''BLSFILL'' ''aee2eb6025c1cb2c0a262ecfe5ab1d679'',
    iclass ''BLSI'' ''ab2099bf55d01b23b044382be50ff712c'',
    iclass ''BLSIC'' ''a94d8be4a23ce5a1eb573944b3845129b'',
    iclass ''BLSMSK'' ''a5d0146d2fd2aa9e8e1e96db7e45dea91'',
    iclass ''BLSR'' ''af5a090a9a17e34b696d3a6abe6a677d6'',
    iclass ''BNDCL'' ''a638fcac1bbb36083811d267a4ce5f59b'',
    iclass ''BNDCN'' ''a74bc52bfc506cdb3eee1a6f7deb342e5'',
    iclass ''BNDCU'' ''a333acba5a4dd930ae95c1ed7c28d2018'',
    iclass ''BNDLDX'' ''aa85a270a8fc24fd599712b06eb510271'',
    iclass ''BNDMK'' ''a0d6544ac1ddc8c600abdb5712209bfe8'',
    iclass ''BNDMOV'' ''a3d0b6d0f97062f70486dc9877eab241f'',
    iclass ''BNDSTX'' ''afbe58787400c280e60cc50e6c9893a44'',
    iclass ''BOUND'' ''a1a339f176a44da10dfdce223eae4b10c'',
    iclass ''BSF'' ''a38a2c6557293ca09d1adad9841c683eb'',
    iclass ''BSR'' ''a67ce46232f9a7b3d9e1ed5eef5827c81'',
    iclass ''BSWAP'' ''a93ad864345dd8d98ccf3160afcfc25d3'',
    iclass ''BT'' ''acd3c4d2b445446a747a8a59bec0fd1a4'',
    iclass ''BTC'' ''aad6243122ebaef93d7e120187f07efec'',
    iclass ''BTR'' ''a51172fa812a9b20d87552e633b0980df'',
    iclass ''BTS'' ''aeb384e38fc7e97b05403e02a810af7e4'',
    iclass ''BZHI'' ''a6fa2f92aa31e9ab1e5658d74257ce2a4'',
    iclass ''CALL_FAR'' ''a20aaef17e9f9125dfeb0e972779226dc'',
    iclass ''CALL_NEAR'' ''a15f52b37e7d698ae8e43f9308c2e28f2'',
    iclass ''CBW'' ''ae6fa20afca2d1f2375f4b71854929b4c'',
    iclass ''CDQ'' ''a0889bc6a5f4970d3a356374bb5f23392'',
    iclass ''CDQE'' ''a7fc62de27b06f2b57f107b638ca44a42'',
    iclass ''CLAC'' ''adf9af0c1005ce6ec93411fb6953eb0f5'',
    iclass ''CLC'' ''a4077232aa6c36a340b5d025d5f255940'',
    iclass ''CLD'' ''a3ffc720385c660e62854b918dafbfc2a'',
    iclass ''CLFLUSH'' ''a0beb3c9172c29b0445f4889db70ff790'',
    iclass ''CLFLUSHOPT'' ''a28fd02982dcc14ec9f2483d2de6cb49a'',
    iclass ''CLGI'' ''a7c7af11a1bac7c20ebb63fc7512859e2'',
    iclass ''CLI'' ''a42e8b9c6103b504c43773cf421c8a0db'',
    iclass ''CLTS'' ''aade4b5b31c43a9f436b5f4de218a71f9'',
    iclass ''CLWB'' ''a52021b27f9b31ee33b2f81e013a9e5a0'',
    iclass ''CMC'' ''a33e718f9eb73b4ce48e613ae1b7c0887'',
    iclass ''CMOVB'' ''a161e8f6ffbcb20e92e988666f59d0d72'',
    iclass ''CMOVBE'' ''a46eccf0da4e04d9156c9b23369d09bbb'',
    iclass ''CMOVL'' ''a7fe2695566a43148659f34de7bedbf76'',
    iclass ''CMOVLE'' ''a4fa1b8f1784a3584119af1e9f8f37b9e'',
    iclass ''CMOVNB'' ''ad3f01ebb3b1b8de866f958b7e2b61e28'',
    iclass ''CMOVNBE'' ''a2be4e0d5c62b8fc08084cac8e2935832'',
    iclass ''CMOVNL'' ''a8b65fe4a22f78ed3a8012fc94989ea96'',
    iclass ''CMOVNLE'' ''a4574460c53e39af33d6b8d14bb5f384c'',
    iclass ''CMOVNO'' ''a0564a522fc57ac657056931158b67262'',
    iclass ''CMOVNP'' ''ab6e3ddc6ea044e45e25061f97ea73f22'',
    iclass ''CMOVNS'' ''a35a00d30805d336766484a23ef995fc1'',
    iclass ''CMOVNZ'' ''adbb36a02d3b3e5740f20ab49e2d7d365'',
    iclass ''CMOVO'' ''ad5b5e35c03c99d2c4b4b68c32da8999f'',
    iclass ''CMOVP'' ''ab034e1a6dd838b692d4faaceae75dc95'',
    iclass ''CMOVS'' ''ad387e3e365b7b69a4a5a1b209dc6e757'',
    iclass ''CMOVZ'' ''af3d1b7072c43068e1cefdd9febd13b3d'',
    iclass ''CMP'' ''a4c2e1085b1ffe9f7fa8c18ea25088aae'',
    iclass ''CMPPD'' ''aa572b2cad5ac0a965aaeda7d48d3063d'',
    iclass ''CMPPS'' ''a25d80d3caf41a2554713f2de7934f06f'',
    iclass ''CMPSB'' ''a4f7ad1394deac81d5215a2a3ca4dbcac'',
    iclass ''CMPSD'' ''a5bbaf94eb06d3a1b3b5e4c9e1a3dc4ff'',
    iclass ''CMPSD_XMM'' ''ad29fcce712727be54d288d375d290f09'',
    iclass ''CMPSQ'' ''aef12880377e7511dfadc6f5a677e219c'',
    iclass ''CMPSS'' ''a3cbe8e81d1016e46353c22ea9e415f95'',
    iclass ''CMPSW'' ''ac0e976ae07363eff85b88bb6b7f4ce70'',
    iclass ''CMPXCHG'' ''ad6052f07f02503085228ed54bf03daaa'',
    iclass ''CMPXCHG16B'' ''aa854a2f4454cd447d78857e06800dda7'',
    iclass ''CMPXCHG8B'' ''a60dace9a4e0233ada185c022d3869567'',
    iclass ''COMISD'' ''a0bde73dc0b49100b455693993e6a9273'',
    iclass ''COMISS'' ''af7d36bf1e3afb446bfe46ef4fe773438'',
    iclass ''CPUID'' ''a6ddfbe5857c9a7361a17078df31cf680'',
    iclass ''CQO'' ''ac06d07d5c5e81d4e4aa5f19fdf5e32c0'',
    iclass ''CRC32'' ''ab12c57fbbc54eb57f861b1e25f317ff8'',
    iclass ''CVTDQ2PD'' ''a743a1f5e41bbec778d1dc5e5b5600033'',
    iclass ''CVTDQ2PS'' ''ae933df2b7a270dc2cde9321e80d7bd97'',
    iclass ''CVTPD2DQ'' ''a6c8653f5e28e9f3cdf18634357e198ef'',
    iclass ''CVTPD2PI'' ''abdf3656f54c943e7f04fc884c7becf34'',
    iclass ''CVTPD2PS'' ''a8d627251a0346078525f918903282e55'',
    iclass ''CVTPI2PD'' ''a09e0b3082802d5ff36e06d432f7ce9a9'',
    iclass ''CVTPI2PS'' ''ac76bc8238db4c12bfc26d5b18cfbc5cf'',
    iclass ''CVTPS2DQ'' ''a42a960fc8aae17a016d7fdddf3a7e508'',
    iclass ''CVTPS2PD'' ''ab29912cb714badd631db60cbcd9bb9fd'',
    iclass ''CVTPS2PI'' ''a69a4ddcfb13b9f94e2fe43fbb2d8e225'',
    iclass ''CVTSD2SI'' ''a6636cc68cf53c96320725b71dfe457c6'',
    iclass ''CVTSD2SS'' ''a5a5471edf84ab192a6a71821a62a7fc7'',
    iclass ''CVTSI2SD'' ''aa62392fd4e8afaf7e7c49216226ab2ac'',
    iclass ''CVTSI2SS'' ''a19c820596b02a1d321de5a38387834bb'',
    iclass ''CVTSS2SD'' ''aaefa4c702a30f86968d89c25c69bbbb8'',
    iclass ''CVTSS2SI'' ''ae4d3eedb5b342104c57d8f279322f40d'',
    iclass ''CVTTPD2DQ'' ''a19c1fd721e745a67ab79c3d5816e63c4'',
    iclass ''CVTTPD2PI'' ''a6e868df5123637104ab2c9828f174217'',
    iclass ''CVTTPS2DQ'' ''a204f04590c445046d2176825370f4d79'',
    iclass ''CVTTPS2PI'' ''ab931cfae84a9f34396ad45ee8f4cc8f1'',
    iclass ''CVTTSD2SI'' ''a80c5da25ac9c03def93f5619dc4345a0'',
    iclass ''CVTTSS2SI'' ''ab7d1ce8e924008f62a398e10906f5044'',
    iclass ''CWD'' ''ad21fa9ed74e5911744857c9bcef12d3d'',
    iclass ''CWDE'' ''a387f37fc7e1d1622153f1235232c71a7'',
    iclass ''DAA'' ''a50c192233dc78f2a0b2e8cf42bbe3dd4'',
    iclass ''DAS'' ''a50afdbabd973a02daec415fa520b8a39'',
    iclass ''DEC'' ''a700bd9284f0294c69f4b5bcee995fe21'',
    iclass ''DIV'' ''ad67aabfdc00720c7dc8d66aeff6949a7'',
    iclass ''DIVPD'' ''addedeef2aee68706189067d6994b23d1'',
    iclass ''DIVPS'' ''a6905049bd77a45690e38cd43527dc5d9'',
    iclass ''DIVSD'' ''a50de28b18f7c607b250f57a3e6bdf501'',
    iclass ''DIVSS'' ''a57e1dfaf2510cd23c4e7e9a2ef25454a'']"

lemma xed_iclass_enum_8h_values_1_closed: "list_all (closed_node scripts) xed_iclass_enum_8h_values_1"
  by (simp only: xed_iclass_enum_8h_values_1_def closed_rules iclass_closed)

definition xed_iclass_enum_8h_values_2 :: "nav_node list" where
  "xed_iclass_enum_8h_values_2 = [
    iclass ''DPPD'' ''a05d26484a18b4d0c26cbc5dcd1b2a026'',
    iclass ''DPPS'' ''aa7f0ea71f29df002edf624f45b50e251'',
    iclass ''EMMS'' ''aceaae51f58e04037e6ec4b2a552ae6da'',
    iclass ''ENCLS'' ''a3871e64ca65c86fc80a5d4c9a76fb69c'',
    iclass ''ENCLU'' ''a0637883d4f96d2ebfb96d2cd49cfb443'',
    iclass ''ENTER'' ''a1917d1c221c5908ac5b44f6b772d13c3'',
    iclass ''EXTRACTPS'' ''a05578a6bfd8e1c053644a0b9e3097a75'',
    iclass ''EXTRQ'' ''a35975191afed5c08265d7cf7d463f3bb'',
    iclass ''F2XM1'' ''a1fb649c0d1e4b3dd349c33e7f035d358'',
    iclass ''FABS'' ''a30d282b9fbf7b480b72a227ed92fd458'',
    iclass ''FADD'' ''a3f07fa453e4632f5a33f3c7c0fa95527'',
    iclass ''FADDP'' ''a10a06a284d1ce1365f01a420204fd6f7'',
    iclass ''FBLD'' ''a861003269f9df63cad302166f1df552b'',
    iclass ''FBSTP'' ''a0c3727f5889ef5d03e7a6b53487c3af4'',
    iclass ''FCHS'' ''a24a901092a3bd8387752e07b9bbfd40f'',
    iclass ''FCMOVB'' ''aa0c94ef5b1d64859256fe39a934704e3'',
    iclass ''FCMOVBE'' ''ae3e634daf499df248655f30024dde25a'',
    iclass ''FCMOVE'' ''aefdf220a99d84a23b9cb30746aa83ba7'',
    iclass ''FCMOVNB'' ''a63cee6b562d5e7e0c5d426119ca2a9bc'',
    iclass ''FCMOVNBE'' ''aace7f00399ccaf255f37be76d46918e0'',
    iclass ''FCMOVNE'' ''aa40ca803ffe1e4ee7971b96622747c51'',
    iclass ''FCMOVNU'' ''adac474fcfca085fa5f2f40f92102901b'',
    iclass ''FCMOVU'' ''a6e3dff477e77978d96488d0a923b1506'',
    iclass ''FCOM'' ''a87bf4806f768ee0af015462bd30bdb9e'',
    iclass ''FCOMI'' ''a2c481e62832492fe4c8e0001fbfade10'',
    iclass ''FCOMIP'' ''a878825ba4547353a275f205410ba0c0e'',
    iclass ''FCOMP'' ''aaa74c00f7ae0f380513f33ef837fb14e'',
    iclass ''FCOMPP'' ''aba6df68987b7f5d71f28575cab60537b'',
    iclass ''FCOS'' ''aeb600066f497c4d97d7ac6d4bae40a77'',
    iclass ''FDECSTP'' ''a3d2bc74c0a0cf76636107d52fddf8267'',
    iclass ''FDISI8087_NOP'' ''a599f4e1f48917e4b2810753e7523b9cd'',
    iclass ''FDIV'' ''a73ccf47ffde65ed407bb20e0b2714475'',
    iclass ''FDIVP'' ''aa325c5b4aaf51788a9835e9e3b3009df'',
    iclass ''FDIVR'' ''adc171185cdb01b4ef75e88edb2def61e'',
    iclass ''FDIVRP'' ''a59a8c2e522081d1eb631616f663c040e'',
    iclass ''FEMMS'' ''a94bbd02ba42fbbaf999c426fbf2524a6'',
    iclass ''FENI8087_NOP'' ''a425a441dc48fd42a8f29ec1050b34ca3'',
    iclass ''FFREE'' ''ac38b978c10d48974f3dd0d292fe0f600'',
    iclass ''FFREEP'' ''a08d73ebd3fd95529f61757d9f7469d00'',
    iclass ''FIADD'' ''acf261af241aa35ed623db6cf7f2d00b8'',
    iclass ''FICOM'' ''a11281cbc4313e14f145d38af70a95623'',
    iclass ''FICOMP'' ''acfdbb7022f74b98b503699d7f7c826a5'',
    iclass ''FIDIV'' ''a02a1863ebd6b90899984e27e7ced4022'',
    iclass ''FIDIVR'' ''abacdefc745a93bcf1e352c6738be35de'',
    iclass ''FILD'' ''abe39d24f80bde2385dfa7bd12d14566a'',
    iclass ''FIMUL'' ''ae70aa4b393e26bbf8e7e8eb4beeb1137'',
    iclass ''FINCSTP'' ''a3fba0d10a5a76b09b1a178dee68e6d43'',
    iclass ''FIST'' ''ad4b37b64dd3969b4dc7bd8b347362c38'',
    iclass ''FISTP'' ''ad9f4c6d36ba9605ced2b7250ffcc7163'',
    iclass ''FISTTP'' ''accacf3687e59d404a2a1c7e4c6df1da7'',
    iclass ''FISUB'' ''a5e8c2a35e058977d89a972ea54ea69f6'',
    iclass ''FISUBR'' ''aec7a572ec6c015306fed33cfb9e64774'',
    iclass ''FLD'' ''a1c26375938632b500a3aa0803fd41340'',
    iclass ''FLD1'' ''a078934e9c9862e85422b34c53e4b9571'',
    iclass ''FLDCW'' ''a2338c659ffc2f52857a7309827553a95'',
    iclass ''FLDENV'' ''ae1d19703de163e6b206470c5ed0a3010'',
    iclass ''FLDL2E'' ''a52dbbc2cd48da5865992d7a63fe8f24d'',
    iclass ''FLDL2T'' ''a4b4818bc811aeb0139da104e9c546331'',
    iclass ''FLDLG2'' ''a85d22eec8ceb6fcacb8f3d62a955b0fc'',
    iclass ''FLDLN2'' ''ab8036d9513f093138c6ad5f151649ed8'',
    iclass ''FLDPI'' ''a08deae51200b39943c34fb6216a3adcb'',
    iclass ''FLDZ'' ''ab9283c19168791aadefbf8186085cec2'',
    iclass ''FMUL'' ''ab6d9cc450ddef5cbf9ab449e3fea441d'',
    iclass ''FMULP'' ''a866807e4045cd8c70419f4ecd7dc166f'',
    iclass ''FNCLEX'' ''a2f3a93bcc3c4a81f3e1608ce0ceb5223'',
    iclass ''FNINIT'' ''aadbf8fdb1c45dc2a9d97f3559da25c8c'',
    iclass ''FNOP'' ''a60365a897d33bfa6b2fae49c485dbfae'',
    iclass ''FNSAVE'' ''a012e9de12186a76b544220bb7fe4a00f'',
    iclass ''FNSTCW'' ''a904a0b541471b161c4533e14d6711f14'',
    iclass ''FNSTENV'' ''a9834d98ac59d110c5cea2eefd790626b'',
    iclass ''FNSTSW'' ''acdf083f3a68e72d0623ab770cb0229e2'',
    iclass ''FPATAN'' ''a22da72268dab10c51b445a7079a73605'',
    iclass ''FPREM'' ''ae477db5c285a0bd4c1520d1152ae9093'',
    iclass ''FPREM1'' ''a64af7ce6ddaf4e88c9c0b6c0c3d3d345'',
    iclass ''FPTAN'' ''a9fc079db81d1e2d89022ad4e9753cda6'',
    iclass ''FRNDINT'' ''a54a8327bf5441ec87447db108c407c59'',
    iclass ''FRSTOR'' ''afe46a3ef81a0760c701ac372b53c0afb'',
    iclass ''FSCALE'' ''a631fa632c418caae15be00ae17d24789'',
    iclass ''FSETPM287_NOP'' ''ade4536b77660e5daebdac4b135a3b925'',
    iclass ''FSIN'' ''a8227bc2cc3039f10f019b306fc6099ce'',
    iclass ''FSINCOS'' ''a310079cca5ca83b7c776a303d606912a'',
    iclass ''FSQRT'' ''ae91e51152beff57a1e61ceb93bef6bbf'',
    iclass ''FST'' ''ab806548bf32efc0deefa18702c28ac8b'',
    iclass ''FSTP'' ''a1834b8aed428fa922f9a7628cbb00123'',
    iclass ''FSTPNCE'' ''af4a71e0fb037e3d1dfe30db045f6e0ae'',
    iclass ''FSUB'' ''a31e5d56d1ead04d2b01604071b5bf4bc'',
    iclass ''FSUBP'' ''ac1ff6ced200d30039371d8793ae6e5aa'',
    iclass ''FSUBR'' ''a7e5c835219836043f5e6f80ce3ad44fe'',
    iclass ''FSUBRP'' ''a47f446d71b1fbd2c07a443c735a5e919'',
    iclass ''FTST'' ''ae388bd4e18c374ff42c7a8364fa1d63e'',
    iclass ''FUCOM'' ''a0787fa994906e5bc40b4a8b843582898'',
    iclass ''FUCOMI'' ''a2015950f79145ff32f7738da2dac2c7d'',
    iclass ''FUCOMIP'' ''a8df6358aa2443ceee19366f01457a77a'',
    iclass ''FUCOMP'' ''a5cf397d7d13eda9478a9be0f2dcc7258'',
    iclass ''FUCOMPP'' ''a87931c33c0a213d079cac53d829a7b32'',
    iclass ''FWAIT'' ''a782173b8c84e4cc7c6b8425efad1d9e3'',
    iclass ''FXAM'' ''a0dceae31d248482d5685c0911ebef453'',
    iclass ''FXCH'' ''a8eef70a8cf21b642a85bc3ec1eb432dc'',
    iclass ''FXRSTOR'' ''a83b44af3b9b88762f4cd16c0d534a05a'',
    iclass ''FXRSTOR64'' ''a885b581f0185ba65fa170737983fe571'',
    iclass ''FXSAVE'' ''a18e82ef51418696386b16221ca7b6679'',
    iclass ''FXSAVE64'' ''a4e606a8889e62d76db889362a504156f'',
    iclass ''FXTRACT'' ''a7d16fbdb07b6702680e1768853e3b69d'',
    iclass ''FYL2X'' ''a96c703dfa8ca6bd677dea51503b31e9d'',
    iclass ''FYL2XP1'' ''abb62bb0782b13de04122747753107663'',
    iclass ''GETSEC'' ''ab1e1fc70b378bc1ed7f861146bf85e46'',
    iclass ''HADDPD'' ''a761731750014f98cd1f4fe55e01c0f4e'',
    iclass ''HADDPS'' ''a344ce9bd647aa79b5f693206b73775bc'',
    iclass ''HLT'' ''aa13ea36301ea6ee0f94160cb4fb30d4c'',
    iclass ''HSUBPD'' ''ab0cc2e1088c64e61b9259b5b7f43a0ff'',
    iclass ''HSUBPS'' ''a0c881903df306f1d0add220147b50335'',
    iclass ''IDIV'' ''ab5b3bd7a13b730ab585f4b7b911c5777'',
    iclass ''IMUL'' ''a5bb42c87b3e33f1c951edcb8e89c6538'',
    iclass ''IN'' ''a1dce6438f702d5584f23dd2f1f6b1b70'',
    iclass ''INC'' ''aee0de3ba0fc575391b19dc21d4f6f510'',
    iclass ''INSB'' ''a1ad6d29cbb3f42931f002bb9f30e93a3'',
    iclass ''INSD'' ''a0c47b4fa4bcf038b8dd831b28e6e790a'',
    iclass ''INSERTPS'' ''a5f2ea886a4a5995daaa9639940c9727f'',
    iclass ''INSERTQ'' ''a2da9da5ad7a41e9c31bfbc83f1306e29'',
    iclass ''INSW'' ''acf2a62fa215ff96e3276225ba428ecf6'',
    iclass ''INT'' ''aa1890e6df319c8ff04ac578597a661f6'',
    iclass ''INT1'' ''a8e86f7a2ae750727e744c69a2ccbdc00'',
    iclass ''INT3'' ''a06e3946f7edd0052c41b34e2b99a67cc'',
    iclass ''INTO'' ''aaec1c10e6329f976d172dc910761efa2'',
    iclass ''INVD'' ''a58da390e454ffd5fc45c530887c63315'',
    iclass ''INVEPT'' ''a8c2e69d11440d589ff5c3e6c9c4dc016'',
    iclass ''INVLPG'' ''a89924eeed7401fe0cda44d87ba976a3d'',
    iclass ''INVLPGA'' ''a4e40d7d3b481f668cd57c50de88d7653'',
    iclass ''INVPCID'' ''aed96ccfafac52202a626af7bca36f282'',
    iclass ''INVVPID'' ''a263829a3bdbff5bb495dc0772a7dfcaa'',
    iclass ''IRET'' ''ae272ac6866a2de191a9a27230b446a15'',
    iclass ''IRETD'' ''ae4bdae83c620c71fcab560c5bf15bb82'',
    iclass ''IRETQ'' ''a282794fa24954ad27c2b33dd5965c1ee'',
    iclass ''JB'' ''a38cb8234acb72fcb9b2063d070801d89'',
    iclass ''JBE'' ''adbed67a3a5333ff6bfe87fe6d1312896'',
    iclass ''JL'' ''abe25772925e1318af10d126b410b23f9'',
    iclass ''JLE'' ''a2d99ee93bbd2d4792a3940f050b9e267'',
    iclass ''JMP'' ''ad175313e652e76af721be5c88b4a2734'',
    iclass ''JMP_FAR'' ''ab6acedacae9caa5519a894ac75749e95'',
    iclass ''JNB'' ''ae4df19f46b85dc9f5b317368f0f066a7'']"

lemma xed_iclass_enum_8h_values_2_closed: "list_all (closed_node scripts) xed_iclass_enum_8h_values_2"
  by (simp only: xed_iclass_enum_8h_values_2_def closed_rules iclass_closed)

definition xed_iclass_enum_8h_values_3 :: "nav_node list" where
  "xed_iclass_enum_8h_values_3 = [
    iclass ''JNBE'' ''abf82f720759b10e95cf675a595b3c8cf'',
    iclass ''JNL'' ''a05be009a6dd892aa448ba37d7169f327'',
    iclass ''JNLE'' ''a01db7fccbbb2052374099c38c8f5adac'',
    iclass ''JNO'' ''a86dad79c7ea95a3d11a6c27795c6314a'',
    iclass ''JNP'' ''a4bdfcff7b9454d083a92942c0cc482ec'',
    iclass ''JNS'' ''a51a09c9a5c75eb9b20a72c9d24eb4bf4'',
    iclass ''JNZ'' ''a27bd216d83012e5ec23e8634b191a88e'',
    iclass ''JO'' ''a0c904a93047b40172e7262d61681dc85'',
    iclass ''JP'' ''a04e3319038956f3d9c61ccd9f7156f5e'',
    iclass ''JRCXZ'' ''a103b8febb6f90f01609c28b4e110e02d'',
    iclass ''JS'' ''ab0d6f80e808e125a40883a4f6379dc36'',
    iclass ''JZ'' ''a85b8754d093925338a7b6eed4aec8f83'',
    iclass ''KADDB'' ''ab71b72286fd98f306256759b2b9a456e'',
    iclass ''KADDD'' ''a03b1a90ed872f9a126b52915bf659a02'',
    iclass ''KADDQ'' ''a7a56f9d5282e59f6cd82971a9b039fee'',
    iclass ''KADDW'' ''ad8bf408778f7a1ee305f83016e10ec95'',
    iclass ''KANDB'' ''a1f3ee84e9083dc3526839e672b38cf1c'',
    iclass ''KANDD'' ''a3b38cb3236ce667f4537f720f43342c0'',
    iclass ''KANDNB'' ''a9cdcb91132fe8d4f3410b20c9b931558'',
    iclass ''KANDND'' ''a2dbea57ca3f15d01d9f85e0caad6948f'',
    iclass ''KANDNQ'' ''a46ab3e2b40374f307231c732a77fa8a1'',
    iclass ''KANDNW'' ''a31d5553451516fad0679aefb0c10e095'',
    iclass ''KANDQ'' ''afa7e5272a75e2cd16753f0e37eb97ab1'',
    iclass ''KANDW'' ''a74eccac1ae83218645844aba2a06165c'',
    iclass ''KMOVB'' ''aed770895ebf9e66fa7811a9557cdb95e'',
    iclass ''KMOVD'' ''a8cc4e30ea1e08c87060443924ace4d39'',
    iclass ''KMOVQ'' ''ab4f47d3ac144de4b8ada6b659c4911b5'',
    iclass ''KMOVW'' ''a23597bf63020369375151ea8e33f9421'',
    iclass ''KNOTB'' ''a37ac36268be86bea998239662f999102'',
    iclass ''KNOTD'' ''a12e40aedd82d1f25d1611e8424e9f2c6'',
    iclass ''KNOTQ'' ''a3691524f8e292e51a5e6c57bcf6a5738'',
    iclass ''KNOTW'' ''a3118f7be5d9b183d187160c46b5f1b74'',
    iclass ''KORB'' ''aaee9c25646df2cbda811636c017fb7b7'',
    iclass ''KORD'' ''a6553317db29f382719ff4a1ebf94ab6c'',
    iclass ''KORQ'' ''a41c70782daae513bc9b35adce7accea4'',
    iclass ''KORTESTB'' ''adbbe55352a65590f8f11ff2c19cddcbc'',
    iclass ''KORTESTD'' ''ad396db4d84ed07903d19edc1f3ed1e5c'',
    iclass ''KORTESTQ'' ''a497ca5e1f875bd08d05c924951b7a385'',
    iclass ''KORTESTW'' ''a93de1da775763c89924e8f778142cc99'',
    iclass ''KORW'' ''a4ee0edcce25af910de6d085edf99f089'',
    iclass ''KSHIFTLB'' ''acf066f093b3761c0b08fc342ff5efb9c'',
    iclass ''KSHIFTLD'' ''a228a9e1e2c0d8413707cc47393f11a55'',
    iclass ''KSHIFTLQ'' ''a459a1e39d185a1d2baa2524149d71a97'',
    iclass ''KSHIFTLW'' ''a9130f525ac21ae5824ada7189b92dc61'',
    iclass ''KSHIFTRB'' ''abc5419ecf82df17f93a17b0fe383123b'',
    iclass ''KSHIFTRD'' ''a50efc44019c7f35420b911913b49c600'',
    iclass ''KSHIFTRQ'' ''a597fc6d9316a6b6d31c8f33b55c44a1d'',
    iclass ''KSHIFTRW'' ''ad64ad1607043ea978f9447c7302b47ce'',
    iclass ''KTESTB'' ''ace0b1615c21f6c2ca6636d500e2599f4'',
    iclass ''KTESTD'' ''afd6093eb19c1c2ae19181680f9a969f8'',
    iclass ''KTESTQ'' ''ae70f619cbca724dc06b6562082741836'',
    iclass ''KTESTW'' ''a386ce4d1f4ede0630ff15c2f7369d4db'',
    iclass ''KUNPCKBW'' ''a9e7244339518003084038a64dbdf6fad'',
    iclass ''KUNPCKDQ'' ''a2e13c1cd95c6870678f1748dad54e78c'',
    iclass ''KUNPCKWD'' ''ac0513085744ac5532e199a8965911e7d'',
    iclass ''KXNORB'' ''aa050c7adec90385356eb48c252ef2dc9'',
    iclass ''KXNORD'' ''a62781b9293c69ad67aed04ed51875735'',
    iclass ''KXNORQ'' ''a9169aa486df55324bfca9a880b250b0f'',
    iclass ''KXNORW'' ''a7a1ced9000b2b9eaa917a808272d50ef'',
    iclass ''KXORB'' ''a7dd9d4f142fb53b46916b9d27782b6f8'',
    iclass ''KXORD'' ''aac7e80f78004736e1fac5a372e9fade3'',
    iclass ''KXORQ'' ''af9ac41ecac67b65d3a57a254fbb63fae'',
    iclass ''KXORW'' ''a20a2510e8732abd8ff1a8cc6cebbd151'',
    iclass ''LAHF'' ''afebdeff164ff0097b51089f3904069dd'',
    iclass ''LAR'' ''a6c69e94a75a2d0220697adc37cc7bdac'',
    iclass ''LDDQU'' ''add06c4e51bbe7bdcd2c23d0ac3c4f5dd'',
    iclass ''LDMXCSR'' ''a1ce106b8a1578f51318875bd9b3d76c7'',
    iclass ''LDS'' ''a7c01789ba69a3fc7ad8c7e1c40ed2a9f'',
    iclass ''LEA'' ''a633749c603da77b2aa26a9b6ad5ed193'',
    iclass ''LEAVE'' ''a81f67ee53b642953ea124f270f312d17'',
    iclass ''LES'' ''a59a90cfe3aefcce3ccb6bebc2019a2d8'',
    iclass ''LFENCE'' ''ac96cd6754bc5beaf6124bce0cb6a9e32'',
    iclass ''LFS'' ''ac7a872995da34375498ea81c2eb75ac1'',
    iclass ''LGDT'' ''aea99704cc003ac31bcc58824cc02ccd5'',
    iclass ''LGS'' ''af52478d033213668d33c5abeee8bf09c'',
    iclass ''LIDT'' ''aa103596547eb50c05947cf5afefde170'',
    iclass ''LLDT'' ''a82b0fa45296b2ff27b54decb74b62b37'',
    iclass ''LLWPCB'' ''af46ea3e88cb3e8bc15d41c8e7e7342fd'',
    iclass ''LMSW'' ''ae776de9944bd13189a5aa7a50ae0ccca'',
    iclass ''LODSB'' ''a03dff14e47aefadaf20d83b8b052c412'',
    iclass ''LODSD'' ''a82e5bfcdadc447319bccc295fcdd58f4'',
    iclass ''LODSQ'' ''a2ee0c3cbbf9558110d55a9153327b834'',
    iclass ''LODSW'' ''a2130b97415813f5cad7afbbdcc2e9af7'',
    iclass ''LOOP'' ''ac55d56c4162dcf4019e27b93270a5bde'',
    iclass ''LOOPE'' ''aa5f02051b8d976f77290ee391450530f'',
    iclass ''LOOPNE'' ''a2199062cb1f914abd4b00a725a11bcf3'',
    iclass ''LSL'' ''a638f7e783605cdfe1a32c0226207025a'',
    iclass ''LSS'' ''ada207e307580745cecaf4dda08edbdfa'',
    iclass ''LTR'' ''ac4d95f75972a360b1cb254b5b7fe1fcd'',
    iclass ''LWPINS'' ''a8c751fffa62dfacc487fdc535f6542ba'',
    iclass ''LWPVAL'' ''af9a63632c6806bec3ff3ac211d6a4c1a'',
    iclass ''LZCNT'' ''a423cd55934b58624659607494cd17058'',
    iclass ''MASKMOVDQU'' ''ad00c59c99a26565d7d04eb7c3be14e60'',
    iclass ''MASKMOVQ'' ''a3408967960c004720aa9ca121e5c5b92'',
    iclass ''MAXPD'' ''a42f9d94c91fb277ef6ec8d85ed49b56b'',
    iclass ''MAXPS'' ''ac5c201d023d41b323d5ea38157fba67a'',
    iclass ''MAXSD'' ''a154a38aa7801fa385e8d443638307057'',
    iclass ''MAXSS'' ''a999d858a50a57e7b334663e2dd897cd3'',
    iclass ''MFENCE'' ''ae60ba9cf0989f636d2da4c4e6d54f491'',
    iclass ''MINPD'' ''a1c4537591ff5a3d7cd4c4e6f66926fd7'',
    iclass ''MINPS'' ''a702030e49d85134c6b112d7eded57cba'',
    iclass ''MINSD'' ''a1b47ac2bf82ec00959a405915df88e94'',
    iclass ''MINSS'' ''a8b1feea3425c6ab1e899e3f72be6120d'',
    iclass ''MONITOR'' ''a0ea5a5553262c3fb4df4f29bb7518550'',
    iclass ''MOV'' ''ac99282955b5405566cfbc680f7232948'',
    iclass ''MOVAPD'' ''a15973bbfea8497c8fcfc3bde7343bafe'',
    iclass ''MOVAPS'' ''a3874f881104222b8b8935e427a78a9cd'',
    iclass ''MOVBE'' ''a10abc9ad1a7c062c834d8d15724a1993'',
    iclass ''MOVD'' ''ab3608cc406aac49295ef8220a0385431'',
    iclass ''MOVDDUP'' ''ab33d139cd3e8d95317439bc4064bef19'',
    iclass ''MOVDQ2Q'' ''a990c18b000e6ec4b67ac4bd06e83c2bb'',
    iclass ''MOVDQA'' ''abb98d00aa7240005cf694e3b158925aa'',
    iclass ''MOVDQU'' ''a0025791b0a07847a98effe1c240db313'',
    iclass ''MOVHLPS'' ''a876d46069af24d93ddc35904d98b0c1d'',
    iclass ''MOVHPD'' ''a6dd29e56abc5d71199d8ed830f05f89b'',
    iclass ''MOVHPS'' ''a33520c0289b5e1bc448542ad08bd6a00'',
    iclass ''MOVLHPS'' ''a66ee4eac61d9c93c478b7ef56484a5b9'',
    iclass ''MOVLPD'' ''a36740f1db5fdd76bd7df61668f789b52'',
    iclass ''MOVLPS'' ''ac2ff10bbb227e7d1fd2c49781503df48'',
    iclass ''MOVMSKPD'' ''aaf8d68fe18129910efb905ab7e6a0b5b'',
    iclass ''MOVMSKPS'' ''aa01448892fdc4c2d27fc2080223001e0'',
    iclass ''MOVNTDQ'' ''afcb943c3af3d4cd805ea02bbe018962b'',
    iclass ''MOVNTDQA'' ''a36766340a16d7ecd55baa07661668aa9'',
    iclass ''MOVNTI'' ''ac2fb77c27fe47b4c1272940d8e247e46'',
    iclass ''MOVNTPD'' ''ae3efe4fa0c48b6b3f270903933e59964'',
    iclass ''MOVNTPS'' ''a3dbcf39774013838888e009b4e075e01'',
    iclass ''MOVNTQ'' ''aa82b1de8112620e2a8b84dc890d0696a'',
    iclass ''MOVNTSD'' ''ae85c58309d97f9cb07c0daf3e25d03eb'',
    iclass ''MOVNTSS'' ''a34af89bb2068814aca21a2b338f29ce5'',
    iclass ''MOVQ'' ''a3cc705743803979f03881c9834cf1b39'',
    iclass ''MOVQ2DQ'' ''ab12b496eac7571b670f671e26f6d39b0'',
    iclass ''MOVSB'' ''af9ef9f547583a3d4169e87ea47d42679'',
    iclass ''MOVSD'' ''a77ce5d1ac91687a24d47a32fd2a9e6aa'',
    iclass ''MOVSD_XMM'' ''a300ee333dd4f62d1df34beeb057259e1'',
    iclass ''MOVSHDUP'' ''ab324e8d6ae83be83a07783734b0c7a0e'',
    iclass ''MOVSLDUP'' ''a79759bcbe6324e71a96de64022dce592'',
    iclass ''MOVSQ'' ''aff2117a22217b7a4adb760864eb7a1d6'',
    iclass ''MOVSS'' ''aac5e32a3b4ce5e33f45a57dc175245f9'',
    iclass ''MOVSW'' ''ab5660fb03cbb97498d5f452a48b9a4e4'',
    iclass ''MOVSX'' ''a70b4266b9b3b815bec79ed0624567a33'']"

lemma xed_iclass_enum_8h_values_3_closed: "list_all (closed_node scripts) xed_iclass_enum_8h_values_3"
  by (simp only: xed_iclass_enum_8h_values_3_def closed_rules iclass_closed)

definition xed_iclass_enum_8h_values_4 :: "nav_node list" where
  "xed_iclass_enum_8h_values_4 = [
    iclass ''MOVSXD'' ''a38beaae2477be61b7ac9f018a79ddf64'',
    iclass ''MOVUPD'' ''a1651f108f1490d38389ae7951f6a44a0'',
    iclass ''MOVUPS'' ''ac5e8a854d3c24999e8fa910cc3820a16'',
    iclass ''MOVZX'' ''ac5df2ea2c1f0422325ea8012d8e5e5de'',
    iclass ''MOV_CR'' ''a4847f18e25eeccea4afed76c916b972c'',
    iclass ''MOV_DR'' ''ab758f2733e917bcf920659f6fcf6f94e'',
    iclass ''MPSADBW'' ''a2ceb5fe20b6696c57e0ef08fc569c036'',
    iclass ''MUL'' ''a8c984e71e18fd63a07149a2f9dfefb76'',
    iclass ''MULPD'' ''a2d4fe845955c906bfb4b253aad2f5b9f'',
    iclass ''MULPS'' ''a0e40698907e72a70f8a74bd1e8833d71'',
    iclass ''MULSD'' ''a94f4bc728dea854879fd32eec963a6f3'',
    iclass ''MULSS'' ''ae5d92c953060c6caba82fa6f868b37d3'',
    iclass ''MULX'' ''aaac4e7f50dc7442a79c7a680e95de6ba'',
    iclass ''MWAIT'' ''acac5356936b658528341da8cc48a9dff'',
    iclass ''NEG'' ''a96cd469060865ad847b3eff2c527d9ba'',
    iclass ''NOP'' ''a73561c9b1c848056bdace9617ce52dbf'',
    iclass ''NOP2'' ''afde7c67d33bbcf3de479b8a39b28df4e'',
    iclass ''NOP3'' ''a09a46e5718f06432707dab9ccfefb777'',
    iclass ''NOP4'' ''a35e836a3d0a2c6622a9f9175e2df88c6'',
    iclass ''NOP5'' ''af352a668d823d2797c463df2fd2ce47b'',
    iclass ''NOP6'' ''a741b0dfd02f56038ef23309f7754ef8a'',
    iclass ''NOP7'' ''a52452b37e3ef3fbf60fbf288b9fd5d56'',
    iclass ''NOP8'' ''acc0d150af367364a2719455e91227e60'',
    iclass ''NOP9'' ''a101948c512d1cbef6abf5d2ec75b12d3'',
    iclass ''NOT'' ''a0bdd3cc35fda6fc2a2044e19759cbfc6'',
    iclass ''OR'' ''afa954987b1a5540461923ec54f6462f8'',
    iclass ''ORPD'' ''aa65e05966fb9075d8cf079a01bac53d9'',
    iclass ''ORPS'' ''a69083ca17b809d6635c2807d217b807a'',
    iclass ''OUT'' ''a9853c9fa53904b1a40eee59c14205001'',
    iclass ''OUTSB'' ''aaec63e1ac79b9fad9ebdf67ab3672f8e'',
    iclass ''OUTSD'' ''a2fd7c838ff5be168a9d9b0a055bb6afb'',
    iclass ''OUTSW'' ''acb33d7410af1206b08ba6ba087e76198'',
    iclass ''PABSB'' ''a6997e664eef7834498b57d2c2c4f04c1'',
    iclass ''PABSD'' ''ad6dd8f642b66e0d89b12836b6a7677cb'',
    iclass ''PABSW'' ''a476cb23c933f7e23c93d172bb2194554'',
    iclass ''PACKSSDW'' ''aef2635ef36364d563ad8bc770b6a8383'',
    iclass ''PACKSSWB'' ''a4ccd5e6fa1f21cbc367e469a66e969c0'',
    iclass ''PACKUSDW'' ''addec707d3d882452c8530982e025950d'',
    iclass ''PACKUSWB'' ''ab9283655939e17cc59af818be1dd5418'',
    iclass ''PADDB'' ''a8b8c8ada3a19dfa32d11a998dca27773'',
    iclass ''PADDD'' ''a3ea7da0b61c67ebfb2859a83f38d4e97'',
    iclass ''PADDQ'' ''acc530c276a652592dc7ce3659218d174'',
    iclass ''PADDSB'' ''ad34ce28ed4a788da7b9e9484ebbab3be'',
    iclass ''PADDSW'' ''ac4b0cd39e59ccd151986058369055f57'',
    iclass ''PADDUSB'' ''a07f19dedbe31a82ebc0457a0917a5714'',
    iclass ''PADDUSW'' ''a880b23f849e469261e6ca0b1cfd5ce28'',
    iclass ''PADDW'' ''adc08b875448924c6c8b8db622df9c1db'',
    iclass ''PALIGNR'' ''a76daece6530d82ebf6336e9811584633'',
    iclass ''PAND'' ''a98d099a1ee9028619e28d87bc3e8e9d6'',
    iclass ''PANDN'' ''a4ee53765fbe8249af5569d4cab1f39ab'',
    iclass ''PAUSE'' ''a2723d5b712c89dd87d0f46d7bbd58f12'',
    iclass ''PAVGB'' ''a012d99876b127439bec6e7fb889ea11a'',
    iclass ''PAVGUSB'' ''a3077dde671a6f3992e634185ca891b29'',
    iclass ''PAVGW'' ''ab22919153ff1db8343f27491bd5ec721'',
    iclass ''PBLENDVB'' ''afc0dd5b893b11a1e68e3ec48402345ba'',
    iclass ''PBLENDW'' ''a4d17935b2518d0db21a5f81e50f8efd2'',
    iclass ''PCLMULQDQ'' ''a9a7ac8b9771e71279c787a7c9a1b2f95'',
    iclass ''PCMPEQB'' ''a13accdec70e2ed0291f353006ab3e12f'',
    iclass ''PCMPEQD'' ''a2aac768c06bcb3c4cb6beecd578f0a6f'',
    iclass ''PCMPEQQ'' ''a46cea88f7de71f2ba925b451d2433833'',
    iclass ''PCMPEQW'' ''a5c0499d8e5851ea81cbf700bf52922c0'',
    iclass ''PCMPESTRI'' ''ac1b7b144c6ddeb81ed8736ef16ed68c5'',
    iclass ''PCMPESTRM'' ''aec3f1642f2cd5094728f56aed8e84a64'',
    iclass ''PCMPGTB'' ''a191df7d6ac1102530adb19e549dd3ea0'',
    iclass ''PCMPGTD'' ''a77535b5e86363f2f19019a6c5307f9a5'',
    iclass ''PCMPGTQ'' ''a7316a6a00f60c4e8b0f59994783f4a6c'',
    iclass ''PCMPGTW'' ''ab20d5629b77640e2ec6ed8d2e78eb3c6'',
    iclass ''PCMPISTRI'' ''a07a2b8946a15be3cedb2c4b95fa8436f'',
    iclass ''PCMPISTRM'' ''ab9665fb4e6fde9f0c7079bd3a4435b1a'',
    iclass ''PCOMMIT'' ''a5f89d566bb0e3c22c92434f748e9f1aa'',
    iclass ''PDEP'' ''a45710c1eabf730f19589b8294521800c'',
    iclass ''PEXT'' ''a9bde3f1492bb3ef57d8c37317a2782c7'',
    iclass ''PEXTRB'' ''a905817236a469d3fe22968388231c815'',
    iclass ''PEXTRD'' ''ad53ba0083e3152abf527907d6850c9a9'',
    iclass ''PEXTRQ'' ''a55d4f29bff61e55b12fc0984b10844ce'',
    iclass ''PEXTRW'' ''a03b2fe111b8ed29e618d3aadd3970a8a'',
    iclass ''PEXTRW_SSE4'' ''a1701c5c502bf7035bb377fabcb952840'',
    iclass ''PF2ID'' ''a89034010d577796d6b2726f0d66fdc15'',
    iclass ''PF2IW'' ''a6bc51edaccaf27adbda04bdcf1c322e6'',
    iclass ''PFACC'' ''a89352ce8df428627f72cb5ea9e259433'',
    iclass ''PFADD'' ''adfbf7cc51403b5578dccb457e4206906'',
    iclass ''PFCMPEQ'' ''a8064b6b990fbd3a64ea227985bff6884'',
    iclass ''PFCMPGE'' ''a03aa681cc1e99750908bfe655568fdee'',
    iclass ''PFCMPGT'' ''a4fcb8f99ea50f4e78b1ef1719439de37'',
    iclass ''PFCPIT1'' ''a1ae126b43cffaa9f2b4d13afb1a7b149'',
    iclass ''PFMAX'' ''a59555d2183a61b700b65b57fce0a2db2'',
    iclass ''PFMIN'' ''a575a0d9494f872d03d3909bd44c48eaf'',
    iclass ''PFMUL'' ''a357d451b9c973943286cf3ca848004ce'',
    iclass ''PFNACC'' ''af953e40f0a4aad427f1d11403b445b37'',
    iclass ''PFPNACC'' ''ac2e7e0bc1fedf68ae65d327350483f75'',
    iclass ''PFRCP'' ''ae27347191b1c03b0eedd20e22f356786'',
    iclass ''PFRCPIT2'' ''ad81213c58fa6b777791380fac2ebe2d9'',
    iclass ''PFRSQIT1'' ''a0727167a9714dc7d0ec7776b9362f3c3'',
    iclass ''PFSQRT'' ''a1cb7a530d2178d2fb6fe83d9920fe7f4'',
    iclass ''PFSUB'' ''af89f228bd3efb97cd6164d9f924d0d96'',
    iclass ''PFSUBR'' ''a8d0c2a03da1e7a6946a654358c313c3f'',
    iclass ''PHADDD'' ''adf132498ec3f07abd15bd4b941eb67e4'',
    iclass ''PHADDSW'' ''a64eabab59a28cd2c756f759803b4f6c8'',
    iclass ''PHADDW'' ''a8499e19c06cfb0f7a28f7557395f7cf6'',
    iclass ''PHMINPOSUW'' ''a0ae6ad0ef7cb13b6d308dc8fe54e30b4'',
    iclass ''PHSUBD'' ''a1231d47cfd43edc74867ce8cbacfe43b'',
    iclass ''PHSUBSW'' ''a908d27a1ea16ecf0760c44750ff0e067'',
    iclass ''PHSUBW'' ''a3bc77a290c1ef93919bcaf7f1e14abd5'',
    iclass ''PI2FD'' ''afd7575c433ebb62d972ab5580381211a'',
    iclass ''PI2FW'' ''a3fbb0e16239bb0dcc81d9e13daeb35a3'',
    iclass ''PINSRB'' ''a634791932202398d5fbb32bb4c0c0fed'',
    iclass ''PINSRD'' ''aaf0e1e911223a40b23d531fadaaae217'',
    iclass ''PINSRQ'' ''a3aea24fbf0ceb42cd82e1b21b7ac6221'',
    iclass ''PINSRW'' ''aedb0dae8b6f7a99f62698985a12a3533'',
    iclass ''PMADDUBSW'' ''aad20dc3aa87986dfcb00acd098fab4a6'',
    iclass ''PMADDWD'' ''ad3a2f9e31a0a822f110426a8bd2d46d6'',
    iclass ''PMAXSB'' ''a18e88376309dfdc81ab869c9a5a11c44'',
    iclass ''PMAXSD'' ''a15f2d1f566fb19a1666e6dfa9aa59259'',
    iclass ''PMAXSW'' ''aa431fe36d9259f4e3ad21dc7da792113'',
    iclass ''PMAXUB'' ''a29f25b5b78e2e8b1734c13f4b750baac'',
    iclass ''PMAXUD'' ''a4762633a001a6262090e7f57af19d514'',
    iclass ''PMAXUW'' ''ac97efa3f2d9cac644d604f1bb60dfc03'',
    iclass ''PMINSB'' ''a4dfa79baf1621741eefc927297caa721'',
    iclass ''PMINSD'' ''a51b80b178285763345101647a7e24d66'',
    iclass ''PMINSW'' ''a15150eb44b8f187332f2d2ea00097289'',
    iclass ''PMINUB'' ''a47d1487bad358c6df17e87baf3c17193'',
    iclass ''PMINUD'' ''ab5171d663465cdef0f9bd182295b69b3'',
    iclass ''PMINUW'' ''af7a759945b86df9d3d1391241e2b05c0'',
    iclass ''PMOVMSKB'' ''a73d1109af242c1616588c2a83ad39867'',
    iclass ''PMOVSXBD'' ''a2656f1bba5532908fba84f9a77156ee7'',
    iclass ''PMOVSXBQ'' ''a2ab46c1b49671264c3447e4ed6d9cb0f'',
    iclass ''PMOVSXBW'' ''acf2e77905027db64f5859ad4d5fe5e7f'',
    iclass ''PMOVSXDQ'' ''a0c5d4a8ea7040a5445356a4eab8a5bde'',
    iclass ''PMOVSXWD'' ''ab57bd9a17688300e74d57d5f4d7898a2'',
    iclass ''PMOVSXWQ'' ''a19240f443262bddbb022bc9573ea708e'',
    iclass ''PMOVZXBD'' ''a3ed065cae56e97ac9234b315eebb185e'',
    iclass ''PMOVZXBQ'' ''ae58581ad8a408d1dc8abbdae8edde139'',
    iclass ''PMOVZXBW'' ''a8a144449a50e7956f771c93c5bf52583'',
    iclass ''PMOVZXDQ'' ''a4433a445a860b79cdc8c5169a80189e9'',
    iclass ''PMOVZXWD'' ''a31f56c72f00f2a3e9d813e4ebd485f6b'',
    iclass ''PMOVZXWQ'' ''a5adb1fb9bd281cc934dd3e766d0a71e6'',
    iclass ''PMULDQ'' ''a93f114517a04ae9efbfd6f9e6235c81d'',
    iclass ''PMULHRSW'' ''a0db06deb56affedbe9040b9655d12dbb'',
    iclass ''PMULHRW'' ''a861d4e2f419bb33a50371b676e549cf3'',
    iclass ''PMULHUW'' ''a762eece9e043c36d66147f1b53b23357'']"

lemma xed_iclass_enum_8h_values_4_closed: "list_all (closed_node scripts) xed_iclass_enum_8h_values_4"
  by (simp only: xed_iclass_enum_8h_values_4_def closed_rules iclass_closed)

definition xed_iclass_enum_8h_values_5 :: "nav_node list" where
  "xed_iclass_enum_8h_values_5 = [
    iclass ''PMULHW'' ''a3b7fcbbc699c4f0eb05c2e1542be7b03'',
    iclass ''PMULLD'' ''accaa22769d162381f5532ac18ce7ae87'',
    iclass ''PMULLW'' ''a6fbb1c848e6b0c67d824cd3b642cdd63'',
    iclass ''PMULUDQ'' ''a8e8ee3769d58d608dd8e2e5b149367b6'',
    iclass ''POP'' ''ac7ab4e21895d44bc047751c2fdf8f340'',
    iclass ''POPA'' ''aa53704af789808a6b075a41f0c055093'',
    iclass ''POPAD'' ''ad85bb313e0a478849c27f552343f649f'',
    iclass ''POPCNT'' ''a3a2b6339bbce08946da17c24cd8171cc'',
    iclass ''POPF'' ''ad6a22255b727f0fd5d292c842f76695a'',
    iclass ''POPFD'' ''aff1006f3daf03f0d0b5688f32d42736b'',
    iclass ''POPFQ'' ''a8a8cc3cc9ea39162dbd7e8721c45f1e4'',
    iclass ''POR'' ''a6e5fa8de739c1fb881854405fcbb03c8'',
    iclass ''PREFETCHNTA'' ''ad9545910eaabebc3f90f5e4a8b1c488a'',
    iclass ''PREFETCHT0'' ''a85719abba1664898b64c3dd9879e93e1'',
    iclass ''PREFETCHT1'' ''a473f0cf15d6089b0e2898685aea41061'',
    iclass ''PREFETCHT2'' ''a5be327ddee9a229434afa5b95ca9301b'',
    iclass ''PREFETCHW'' ''a6e6073b5270c6cd9cff0c3907c7e63b5'',
    iclass ''PREFETCHWT1'' ''a5ab1bdb1005fdfe0f4a6c30c6590ea67'',
    iclass ''PREFETCH_EXCLUSIVE'' ''a624a7524db4bda2e9db9f50d70b52e42'',
    iclass ''PREFETCH_RESERVED'' ''a8fc86a76119ff9afead91a1ff2ed70f5'',
    iclass ''PSADBW'' ''a27eff90986ab8db28e9bdb4c4319f081'',
    iclass ''PSHUFB'' ''a71059e85e3e92eef5e702e1e175ce06d'',
    iclass ''PSHUFD'' ''a6c125f5dd9faf1ce1467fc792921a8cc'',
    iclass ''PSHUFHW'' ''a3188e0b5fb2899344ff17d7e3ef98c44'',
    iclass ''PSHUFLW'' ''a0fba41ebcaae42b1f50e74b00617c420'',
    iclass ''PSHUFW'' ''ae757ea04d97d8497c36d1d16e89d11eb'',
    iclass ''PSIGNB'' ''ac07550ff5fd7408230dbbf88c6eebab3'',
    iclass ''PSIGND'' ''a7b0d40b14ecd472e904498dcba649898'',
    iclass ''PSIGNW'' ''a7c2f284adb191218f4ec5a18b92d6025'',
    iclass ''PSLLD'' ''a65057cb7635cb822461d9373878e1d44'',
    iclass ''PSLLDQ'' ''a4c540b99eb2f147d9a1d66ce6044c8c5'',
    iclass ''PSLLQ'' ''aa0d01e906d2d28fcf1f5dca08bdfc8bc'',
    iclass ''PSLLW'' ''a7321556bb8e8ff18660d2f8ef91e9a10'',
    iclass ''PSRAD'' ''a3e366a4a20ee1d140c52176724246210'',
    iclass ''PSRAW'' ''a67d7043b936bd5c81aef4b84a1fbd855'',
    iclass ''PSRLD'' ''a78bcca86f482e717ea817d68f2cc169e'',
    iclass ''PSRLDQ'' ''a1050e1258c2e1e0c5633931f61573bd8'',
    iclass ''PSRLQ'' ''a80e58e0e9be80bc43511772f873ff3a4'',
    iclass ''PSRLW'' ''aaea20eb4462ccb522df609537a59304f'',
    iclass ''PSUBB'' ''a1ebb832aa11e715348a8468d33d6236e'',
    iclass ''PSUBD'' ''ac49d02f6096f98df2cdfaa3442965493'',
    iclass ''PSUBQ'' ''a7e0a569260b87b0d335c6cfa2c8a40b2'',
    iclass ''PSUBSB'' ''a58fd54a83327a3b2f5eb230e43d8f6ab'',
    iclass ''PSUBSW'' ''a85fc09c7a3abdd31d9f9319c33123b45'',
    iclass ''PSUBUSB'' ''a2adbeaac260a28d90a1a06b58168f631'',
    iclass ''PSUBUSW'' ''ab0b2799be52f81199fa2f1ef75d9e234'',
    iclass ''PSUBW'' ''a7190fb862782b133864e3d506f366888'',
    iclass ''PSWAPD'' ''a03ea4078a9453c6e3aabd091d2097284'',
    iclass ''PTEST'' ''acbe3f3fee477e2a5106f809545ec7aed'',
    iclass ''PUNPCKHBW'' ''af59e31b45938163b79ec732fce30a79b'',
    iclass ''PUNPCKHDQ'' ''a7fcbed6bfc22a7d5589ec02933c4599a'',
    iclass ''PUNPCKHQDQ'' ''adb5d7dd90d07343df645efd4d9aa7796'',
    iclass ''PUNPCKHWD'' ''a5fa0b40df65a13d45dd2903546f6389a'',
    iclass ''PUNPCKLBW'' ''ad7984d5050c681842156d0bca7f826e1'',
    iclass ''PUNPCKLDQ'' ''a3fe30fa00b81e9cd6935dec8cf8006fc'',
    iclass ''PUNPCKLQDQ'' ''a33b68c15be460b0a1f3dcbce9aeffd5d'',
    iclass ''PUNPCKLWD'' ''ad62df41c07927d2ec646233e5ac8c860'',
    iclass ''PUSH'' ''a1218e75e1a9b96c526f4075716ecb781'',
    iclass ''PUSHA'' ''a40d8dddc3c5fb924514390983a54604f'',
    iclass ''PUSHAD'' ''a16a37d7c43bac10d2dc6de21a4d05133'',
    iclass ''PUSHF'' ''a30517d3e75a83ce22e06e458b0212a82'',
    iclass ''PUSHFD'' ''a7d291bb839b296cc6e00d5bf0e0940ab'',
    iclass ''PUSHFQ'' ''a3dcece599f9e68c4c6b8da13bde40454'',
    iclass ''PXOR'' ''a7c4635a3d8b352bf0ac9b2100d368229'',
    iclass ''RCL'' ''a751b04a313477f17fa817a189277c56a'',
    iclass ''RCPPS'' ''ae9b48893be0c4f1a95dee3754aa86155'',
    iclass ''RCPSS'' ''a5d59ec3d95fbbfa9d5d7335a7b3a0df0'',
    iclass ''RCR'' ''a02328a467c98d897b8a62d2d803e9aee'',
    iclass ''RDFSBASE'' ''ae7d506a2a30eca7366842ea1ea19fcc2'',
    iclass ''RDGSBASE'' ''ab9b4e4191850f413875ac743834927ff'',
    iclass ''RDMSR'' ''ae50c38b1a5a2d8da858dd28e72d9ba34'',
    iclass ''RDPMC'' ''aa93c922babb3fe3930dfd9197696920e'',
    iclass ''RDRAND'' ''a3356b43149ac7504a644522dbdb6c138'',
    iclass ''RDSEED'' ''a168ae48ebed2c6f775cf82e5621029ba'',
    iclass ''RDTSC'' ''a3e8c14fde8fbbb676e73d99355db7a32'',
    iclass ''RDTSCP'' ''a2e5f649f6b92e8f3856d076c3000b0cc'',
    iclass ''RET_FAR'' ''acd1e5f85bfbd8ff9ac82b26bce0862fe'',
    iclass ''RET_NEAR'' ''a94b60e5e7317b28fc797d697ec5221c0'',
    iclass ''ROL'' ''a3485f0e201e5958203c2e6bf6b9222d9'',
    iclass ''ROR'' ''a26714d32727c180962f59ac21efc9e18'',
    iclass ''RORX'' ''a9e21b55deedfd85c77bc4df2afe07d18'',
    iclass ''ROUNDPD'' ''ac89575d40a930ed80b80342b8914c233'',
    iclass ''ROUNDPS'' ''ac380c3aa6a180420d7903232abcf5f93'',
    iclass ''ROUNDSD'' ''a94cbbda67b749b23e915c21e9a0a698b'',
    iclass ''ROUNDSS'' ''a26dc0d5fb644eae28cc41f73de9facc3'',
    iclass ''RSM'' ''a670e345f46cfb600e31e6a5c149c0a11'',
    iclass ''RSQRTPS'' ''aa3bd1b3dc742bd03b46df8f895d2e827'',
    iclass ''RSQRTSS'' ''a29684b4e17e8e9444978099e490276b4'',
    iclass ''SAHF'' ''a4d2397dc0bb9abeccb2a209a4385bae6'',
    iclass ''SALC'' ''aeaa930d7e12e7395d586221505f7e8d4'',
    iclass ''SAR'' ''a4a5e1fef67fcfe573db0880485918950'',
    iclass ''SARX'' ''aa0089bdb8bb6f6ed39aaf43b392de4ee'',
    iclass ''SBB'' ''a1700d42ffd3f2e7cf0d760a9a3d1d1bb'',
    iclass ''SCASB'' ''a7c2cf5202eeadb647c03115fa9ccc0b8'',
    iclass ''SCASD'' ''ad23173689c445eec92e2b7037bb79a8f'',
    iclass ''SCASQ'' ''aa033d005fd8b03d6411f5a06f0bd125a'',
    iclass ''SCASW'' ''aea449347df92b961b2596a6b67c4b1cc'',
    iclass ''SETB'' ''a5b737c2f4d3768b90a3e76b14342d104'',
    iclass ''SETBE'' ''a9e15991052ce3c18cea9a663cdaeee7c'',
    iclass ''SETL'' ''a46077944500af464343326eeaa3988a3'',
    iclass ''SETLE'' ''a1c8ee7669689137ed0ddafad8cb453b6'',
    iclass ''SETNB'' ''a2e28601b78e2de9672dcc0a9f646c611'',
    iclass ''SETNBE'' ''ae63e5ac6b2a1f83f88a6e7dacace446c'',
    iclass ''SETNL'' ''af5c12001dcf3784c984c333985947c65'',
    iclass ''SETNLE'' ''a423488d76f80b12fb4cbab1736a30de6'',
    iclass ''SETNO'' ''af09335fef3a56ae2fe98935c88441f13'',
    iclass ''SETNP'' ''a66efa527a3675985c091d73b20c4dbdb'',
    iclass ''SETNS'' ''af70d7ad1b176fe68cdbeef67cbdd03cb'',
    iclass ''SETNZ'' ''a60b5ccf6e7b7e5817a16e669bb0d8117'',
    iclass ''SETO'' ''a4007ea76c3d291e1b8dadee4c9448526'',
    iclass ''SETP'' ''a41350a28679b3cc58db1869291ebd9bb'',
    iclass ''SETS'' ''a87acd5d5505f5e5eaa7d74f4192727e2'',
    iclass ''SETZ'' ''a5a29c64b74b4cd5226e1c41f8e48af65'',
    iclass ''SFENCE'' ''a266e59a36466c5a07184833bb0bfd2cd'',
    iclass ''SGDT'' ''ab34552c9e4cbffcdee8ceac45751a4e0'',
    iclass ''SHA1MSG1'' ''a34c27be5b44efd2b1c5e37bf476860af'',
    iclass ''SHA1MSG2'' ''a5a0b6915afc5443367ef86b32c046b4e'',
    iclass ''SHA1NEXTE'' ''a8d7e3a05f9d00a2e85436700d37228b1'',
    iclass ''SHA1RNDS4'' ''a597cd2aeb30fbd651787d56301a2cdcd'',
    iclass ''SHA256MSG1'' ''a4e8a501b0ad5e29cf47b05afbfb3cad5'',
    iclass ''SHA256MSG2'' ''a69c6958bc1fca48f94ceb00aa5c96ddc'',
    iclass ''SHA256RNDS2'' ''a6572687ff308a43da1db5c9646bc4f51'',
    iclass ''SHL'' ''aa673e2ab0d95dece7ded48409e053714'',
    iclass ''SHLD'' ''a4017e8ebcede0c1b7d40a6ba20108732'',
    iclass ''SHLX'' ''a81bd3a17fd6a074c7ea879ee9a2e82a6'',
    iclass ''SHR'' ''ae8bde774d53adc82506a6c531718235d'',
    iclass ''SHRD'' ''a82f1d7e3dd67fb0c98db2174e643d237'',
    iclass ''SHRX'' ''adc698b4809ec4a4501ac13e2ca8b34f5'',
    iclass ''SHUFPD'' ''aace708c491a769e4c13525f293de7af2'',
    iclass ''SHUFPS'' ''abfc40099ea04240c7d647b815b343b59'',
    iclass ''SIDT'' ''a1018103e90ac7c16a50ac2512d60cbaf'',
    iclass ''SKINIT'' ''aa2f129ab76e3b5c8825b5138c6061a56'',
    iclass ''SLDT'' ''a29cd57c1c1864f5f2a20b2dd1917c8b8'',
    iclass ''SLWPCB'' ''a896b2b642c569dfcb911fb7c226e417b'',
    iclass ''SMSW'' ''a5b96b8150819f5074ca57b1f9e38fa41'',
    iclass ''SQRTPD'' ''aeac8f750cd7b8548961d2f862f8370c3'',
    iclass ''SQRTPS'' ''aecb223bcff5d8be255c5e03420546dfd'',
    iclass ''SQRTSD'' ''a90268b07dc32ea0c64d2c13b1f3ac765'',
    iclass ''SQRTSS'' ''a78061c918b930adaafe1b3ac098a8546'',
    iclass ''STAC'' ''a0e9483be2a8eaad3300a493ce29680e3'']"

lemma xed_iclass_enum_8h_values_5_closed: "list_all (closed_node scripts) xed_iclass_enum_8h_values_5"
  by (simp only: xed_iclass_enum_8h_values_5_def closed_rules iclass_closed)

definition xed_iclass_enum_8h_values_6 :: "nav_node list" where
  "xed_iclass_enum_8h_values_6 = [
    iclass ''STC'' ''ace8b6d231e8fe23377f238bc726e9ac5'',
    iclass ''STD'' ''a9cb92f3c4a8b3f55254729a21fe89c15'',
    iclass ''STGI'' ''aef86230a34c5eb0b9c490f946401ccfd'',
    iclass ''STI'' ''aabdedb8da5924f0f2d9040ba6698f4f0'',
    iclass ''STMXCSR'' ''a520eabd929911647ed1c061c52bca6aa'',
    iclass ''STOSB'' ''ac73af954d6cc3049b590d169f71f3349'',
    iclass ''STOSD'' ''a1d502bb7765cc5d2dcef50a33d9395ec'',
    iclass ''STOSQ'' ''a114c2095a20467f980277d45094ff797'',
    iclass ''STOSW'' ''a12de6ad6f39205ff75e7d86c06f2b695'',
    iclass ''STR'' ''a5231ead4b15a30b6fea4adefdc03e031'',
    iclass ''SUB'' ''af87a6588d88581b15bd8f24a824a17c8'',
    iclass ''SUBPD'' ''abfd5ff6d9becaa77d94c1aeac1494451'',
    iclass ''SUBPS'' ''aa180b085bc0871523ce32e9c9b5488bb'',
    iclass ''SUBSD'' ''a9c95992de6e41795d25aeba748e6ca01'',
    iclass ''SUBSS'' ''aa6f0e8b4c24a905221285d4c026e072e'',
    iclass ''SWAPGS'' ''a52176974b7e650a50d46391d48419055'',
    iclass ''SYSCALL'' ''a6918ff4169cc36a2dcaad5136686bdd6'',
    iclass ''SYSCALL_AMD'' ''a7a7a8fd2858017fb33b120a8062c17b7'',
    iclass ''SYSENTER'' ''ae99cd0f753d54434fd4a83c59f697980'',
    iclass ''SYSEXIT'' ''aba093af444d04fdf67864e9ab708f77a'',
    iclass ''SYSRET'' ''ab4ce77fe0622e4064e5d319d5b486d4c'',
    iclass ''SYSRET_AMD'' ''a98b97cd244e09e2c995ca8cf05669585'',
    iclass ''T1MSKC'' ''abec8fd3470366901c95210ad6a602747'',
    iclass ''TEST'' ''a46a307ea472e1fd79fa1c5035ffc19d0'',
    iclass ''TZCNT'' ''a61546108e9cff1e8c99a644ff4f2b1da'',
    iclass ''TZMSK'' ''a718004623179deaaf3c21af7f197ef5d'',
    iclass ''UCOMISD'' ''a7451ee0d20e8dc6e3d1205ac632a3ab0'',
    iclass ''UCOMISS'' ''a29c70ad78e500e9cfa5527fa5b30d3e3'',
    iclass ''UD2'' ''a07e01536b1fda43dcac668b5ba02bd52'',
    iclass ''UNPCKHPD'' ''a784d450e005496ec68163ec896f57835'',
    iclass ''UNPCKHPS'' ''aaa1180aac5e21abfa242f574dbb91057'',
    iclass ''UNPCKLPD'' ''a44ba2af19101dfd1dfedab0fffbccda9'',
    iclass ''UNPCKLPS'' ''ac37b7e628fb1819aefa20f47054f55b7'',
    iclass ''VADDPD'' ''a478dc3e74e3b530ad57b8ac7854be7e2'',
    iclass ''VADDPS'' ''a1575af67c39000d44bf40b9bf4e53ad7'',
    iclass ''VADDSD'' ''a37740266ff379d548eabbef44f9d7a61'',
    iclass ''VADDSS'' ''a21891bc09a04961847f6c850a6993ef8'',
    iclass ''VADDSUBPD'' ''a5441708ed04543a1c0ebd0a9fefb0c88'',
    iclass ''VADDSUBPS'' ''a1b9027952224ddaa3a686850fbf7b398'',
    iclass ''VAESDEC'' ''a3d04e0b4637127fcd14dc497c112407e'',
    iclass ''VAESDECLAST'' ''a9c2e39c27960eb7bbc80a74c63e3231f'',
    iclass ''VAESENC'' ''ada616a6420043fb2a6f216c0de49efb1'',
    iclass ''VAESENCLAST'' ''a374c7be487f2b45b9fd0b92e1b1c621e'',
    iclass ''VAESIMC'' ''a503a0ecfb09897ca7f78d63b834da15b'',
    iclass ''VAESKEYGENASSIST'' ''add049ca9ebf04a62eed3ebf111ba3238'',
    iclass ''VALIGND'' ''ab394f0cc1a35f43323e9edc09822ac5e'',
    iclass ''VALIGNQ'' ''ae483164037b062acfca35108bab553e9'',
    iclass ''VANDNPD'' ''a335087e755a1e04d2636d53a80ecb03f'',
    iclass ''VANDNPS'' ''a22e9440f8df6926e165eca8c951c8957'',
    iclass ''VANDPD'' ''a87fa69f25b7059b1144c48d08ed97368'',
    iclass ''VANDPS'' ''a9d7eb6834ddce7418b165b82bf38d600'',
    iclass ''VBLENDMPD'' ''aed87d8b386923044c10ff66c7afa3859'',
    iclass ''VBLENDMPS'' ''a15c4b01932f734d3916213e34c7283bf'',
    iclass ''VBLENDPD'' ''aee8615fb3ae1a66e2dd036d02e462e77'',
    iclass ''VBLENDPS'' ''a1366f76323baf1a65308da21c5d3327e'',
    iclass ''VBLENDVPD'' ''a14dc38814e2633b6dd0bd77dbb69fbfb'',
    iclass ''VBLENDVPS'' ''a98decc6058e4c0ab5d33e80f5d0c61d1'',
    iclass ''VBROADCASTF128'' ''aa498178c4b6ee8184c3e96f5667ccc28'',
    iclass ''VBROADCASTF32X2'' ''af3fcfe171e889f235abe03e784d1504f'',
    iclass ''VBROADCASTF32X4'' ''aa34612f4c2866c495d4c3ff90b025590'',
    iclass ''VBROADCASTF32X8'' ''a6e54bea73fcf7cf1c8c65aef5fa55d61'',
    iclass ''VBROADCASTF64X2'' ''a79ab802d25e73c098d11e7677cf54062'',
    iclass ''VBROADCASTF64X4'' ''a79e1b3dd4d49f9679bc1b02b20ad6d40'',
    iclass ''VBROADCASTI128'' ''aa42396e76a24677bf39b633c88046533'',
    iclass ''VBROADCASTI32X2'' ''a575b6c88686e3cedc64b8f98a03d21e9'',
    iclass ''VBROADCASTI32X4'' ''af7d76aede3ee9a9a4d68d612ce8c14d2'',
    iclass ''VBROADCASTI32X8'' ''a0c4f0ab6ffa3b623e02f5d6d3c223fd7'',
    iclass ''VBROADCASTI64X2'' ''a9b5aeb65abc15ce8010ece48499c87d4'',
    iclass ''VBROADCASTI64X4'' ''ac6a2c8f80da48b91483839437a16b493'',
    iclass ''VBROADCASTSD'' ''a2e26faa62e8de9091bcd5d7a1f4cc470'',
    iclass ''VBROADCASTSS'' ''a4f756412377b51e43b631fd141edecbf'',
    iclass ''VCMPPD'' ''aa2cd20c4c0098730fdf28556030f46d8'',
    iclass ''VCMPPS'' ''a17fa26c4913049dab317242b21371c9d'',
    iclass ''VCMPSD'' ''ab2b37c765a394bd0eeb3ba8ae11e17b5'',
    iclass ''VCMPSS'' ''a21e7f32e13b38428e1f2422174839d21'',
    iclass ''VCOMISD'' ''a7b9ff6e92c987f5443e45067f5c98b2f'',
    iclass ''VCOMISS'' ''a34fe227f778b8791932fc6e240b07093'',
    iclass ''VCOMPRESSPD'' ''a2d33d8549e036116c8c176f4a120fd38'',
    iclass ''VCOMPRESSPS'' ''a895de0a455d7a6b77774365f8a9785c4'',
    iclass ''VCVTDQ2PD'' ''a34e416a424fd247ad1bf7eead8ed8c4a'',
    iclass ''VCVTDQ2PS'' ''add3cfaa7dfe731cbe098e0df82abd20b'',
    iclass ''VCVTPD2DQ'' ''ac942179c83dd8e04012d78fd28d4d78b'',
    iclass ''VCVTPD2PS'' ''a50d055f33b7ddd674a59a0226ef72f57'',
    iclass ''VCVTPD2QQ'' ''a7027b03e1af16787c21b5dd76a1a9bdd'',
    iclass ''VCVTPD2UDQ'' ''a21f5ff21415a1973e1bbeea412b79bd2'',
    iclass ''VCVTPD2UQQ'' ''a154a8fb4350efd34a5674f408f92580a'',
    iclass ''VCVTPH2PS'' ''aac4fe1fc71928dd14f856a5f6f306f2e'',
    iclass ''VCVTPS2DQ'' ''a48e9ee615a87ab6e42011d95f2bcbfba'',
    iclass ''VCVTPS2PD'' ''a26eb495454f93e3d9e892f2326d383ab'',
    iclass ''VCVTPS2PH'' ''a97be426637cb1e7ad87bc28f2ba3ca2c'',
    iclass ''VCVTPS2QQ'' ''a3532aede055e329615e96f7c09a65382'',
    iclass ''VCVTPS2UDQ'' ''a5ceeb7b1803c1346071cf4c29e9f5cae'',
    iclass ''VCVTPS2UQQ'' ''adf6579774ea6fd3e5fc1ef4ec4a5208b'',
    iclass ''VCVTQQ2PD'' ''a58fbb2d7d22708e9138ac4954698796d'',
    iclass ''VCVTQQ2PS'' ''a2bc5c0a04bdae69cf3af927fe89a054a'',
    iclass ''VCVTSD2SI'' ''a3cb032c0fd579964cc8f44252b6e5db8'',
    iclass ''VCVTSD2SS'' ''a4f7018499e0c8f6db744fbbd5b295ca3'',
    iclass ''VCVTSD2USI'' ''a815ba7d71f3394e7fd1630c3082a115e'',
    iclass ''VCVTSI2SD'' ''a3b512a886028925a19c062f8530accad'',
    iclass ''VCVTSI2SS'' ''afd6b220f773a70d4439010d7b85604de'',
    iclass ''VCVTSS2SD'' ''a35a2ba17f6edaead67d653e5780a721b'',
    iclass ''VCVTSS2SI'' ''a8bd6bed493cb4c56edc6a18778c4d794'',
    iclass ''VCVTSS2USI'' ''a5b4fbb2ff0e94a520dc4ba858ed5adaf'',
    iclass ''VCVTTPD2DQ'' ''a97d7937ccec8c7910f123ed2813e2366'',
    iclass ''VCVTTPD2QQ'' ''a87f547d39d0513898b475ec83d93e5e4'',
    iclass ''VCVTTPD2UDQ'' ''a74020590241fa11c8f8448fad79f5390'',
    iclass ''VCVTTPD2UQQ'' ''a2dcb2aae78c375413e67623dce26c010'',
    iclass ''VCVTTPS2DQ'' ''a90bb2cdf9b74ac95fb19be1555057a08'',
    iclass ''VCVTTPS2QQ'' ''a60c1c3a8ecf7333acd23e9f66ff74c39'',
    iclass ''VCVTTPS2UDQ'' ''aa3e0e30011eb2aa96ef31b21c44c2e23'',
    iclass ''VCVTTPS2UQQ'' ''a2d0553bf0ed3151d04c187ea515e0871'',
    iclass ''VCVTTSD2SI'' ''add8c8c8d9dd37dd8b7c3a183d6d95a22'',
    iclass ''VCVTTSD2USI'' ''af5def809bb48fa652efd0afadf8fbdf5'',
    iclass ''VCVTTSS2SI'' ''a813302477f1b855b95803f7cf02b4779'',
    iclass ''VCVTTSS2USI'' ''aec66dee1aac30d048621b5fb12f8fd05'',
    iclass ''VCVTUDQ2PD'' ''aabc3a91501610a13b710e45dab945bff'',
    iclass ''VCVTUDQ2PS'' ''ac91a8ef0c21ed950e9ac01d5560998cd'',
    iclass ''VCVTUQQ2PD'' ''a2f67e231191117d59df78a0f6def79ca'',
    iclass ''VCVTUQQ2PS'' ''a4341ba169c8400c3f89bd80be39cc8ba'',
    iclass ''VCVTUSI2SD'' ''a3ea74e7acad1cc01096363b0dda45e84'',
    iclass ''VCVTUSI2SS'' ''af99a73f52db956fb0ee200817431144c'',
    iclass ''VDBPSADBW'' ''aa1de20069585f4581d886e7b78cd761d'',
    iclass ''VDIVPD'' ''a1887f8c0c1fe03041d71c706a244994b'',
    iclass ''VDIVPS'' ''acd8bdc9de111313aa39aae4bb49aa969'',
    iclass ''VDIVSD'' ''a0a64388170b45a0c63e0921a6b126629'',
    iclass ''VDIVSS'' ''ad3fc107392a4bcc8941219b3f0f1e730'',
    iclass ''VDPPD'' ''a76db1ce1f1d8bdf653abcf8b53374b0e'',
    iclass ''VDPPS'' ''a7998e2225d989da7597db243c545b5c8'',
    iclass ''VERR'' ''a975929dba6c5b2119765d2b85c5fbbb8'',
    iclass ''VERW'' ''ade4bb831f9d73a5cc32df07948edc537'',
    iclass ''VEXP2PD'' ''a0b5a62c82c67c71da0c9c6ecb7f4efc0'',
    iclass ''VEXP2PS'' ''a703e923b750d71041699a1e174afc7c7'',
    iclass ''VEXPANDPD'' ''adddab10dee26b6673b01ca248991fe89'',
    iclass ''VEXPANDPS'' ''ab79aefc42fa2ace3f987a3803ef79315'',
    iclass ''VEXTRACTF128'' ''aea44a574eb3315787a68539912033e6f'',
    iclass ''VEXTRACTF32X4'' ''aabc5001405c24899bb2da16294c90c9f'',
    iclass ''VEXTRACTF32X8'' ''a1d4190cc38ea89e7cc3eae3b2092f6d5'',
    iclass ''VEXTRACTF64X2'' ''a48550042af3cc6464edb16082816e3e2'',
    iclass ''VEXTRACTF64X4'' ''a9b30dff6682ba5f49778ba6f5161d2c2'',
    iclass ''VEXTRACTI128'' ''aac2bc7cdc5749dcca0266f5dc21e862e'']"

lemma xed_iclass_enum_8h_values_6_closed: "list_all (closed_node scripts) xed_iclass_enum_8h_values_6"
  by (simp only: xed_iclass_enum_8h_values_6_def closed_rules iclass_closed)

definition xed_iclass_enum_8h_values_7 :: "nav_node list" where
  "xed_iclass_enum_8h_values_7 = [
    iclass ''VEXTRACTI32X4'' ''ada8fd8e050cee21152b7267f8cc9bb26'',
    iclass ''VEXTRACTI32X8'' ''a0b781fd9e63a18828b190bdf43d721bc'',
    iclass ''VEXTRACTI64X2'' ''adca3efc8bc4114dbfd232d9b5b968452'',
    iclass ''VEXTRACTI64X4'' ''ab677f44bcee14b1867485f80881b8a39'',
    iclass ''VEXTRACTPS'' ''ab8e09baa88fe170060e65af6625938c6'',
    iclass ''VFIXUPIMMPD'' ''a67bb1e71bc61655025952022fdc45611'',
    iclass ''VFIXUPIMMPS'' ''a7500502e4e711aa109be1c49316a59a4'',
    iclass ''VFIXUPIMMSD'' ''a16f24c95cafc5c62c1d142ba180a92a8'',
    iclass ''VFIXUPIMMSS'' ''aacb9a39b85850ad8f1fb7fc7a00369f7'',
    iclass ''VFMADD132PD'' ''a81001f41db6c59b6b610b1c668f45278'',
    iclass ''VFMADD132PS'' ''a9e6a59057435e7e62f19e13f87a7a5a0'',
    iclass ''VFMADD132SD'' ''a694e133651bfd7b449218083b78ce188'',
    iclass ''VFMADD132SS'' ''a9ae70daea6571ea73c8cb644c78bcf25'',
    iclass ''VFMADD213PD'' ''a4c69a6a3eb8f4865512c13bc33bc42d8'',
    iclass ''VFMADD213PS'' ''a8186e4c318f4b74ddb48db9212e22256'',
    iclass ''VFMADD213SD'' ''a3e38d70cc294e1dae0b843f30af33c5d'',
    iclass ''VFMADD213SS'' ''a513ab037ab3dcb6213a3c4820804a40c'',
    iclass ''VFMADD231PD'' ''ad1d129422b936f54276e1565b3696cbc'',
    iclass ''VFMADD231PS'' ''a7a679f3f07b1457c0692216755e12f59'',
    iclass ''VFMADD231SD'' ''a4d44889013596f823061d3335f8ed1fb'',
    iclass ''VFMADD231SS'' ''a03d8e3f78c5ac8170f582c822e32d02c'',
    iclass ''VFMADDPD'' ''a90bdfb971f15f5415e86a4716154d217'',
    iclass ''VFMADDPS'' ''a4dd2cfa1e4089c40251611215f312726'',
    iclass ''VFMADDSD'' ''ae1f345d1b2cae70d26d182bf9e8734d0'',
    iclass ''VFMADDSS'' ''a84fda3f2dde71c714ae9b466510989c8'',
    iclass ''VFMADDSUB132PD'' ''acd5fcc9aeb7cb33663978ed7080612cd'',
    iclass ''VFMADDSUB132PS'' ''aee30832b2c9bc7f680ace43b28ad2f8f'',
    iclass ''VFMADDSUB213PD'' ''a56423dca3a5adbb847930adfd7d061b9'',
    iclass ''VFMADDSUB213PS'' ''a74f361845235fc438b117cc9933f216f'',
    iclass ''VFMADDSUB231PD'' ''a074597ab7e13b3a443c1046daa9aca0c'',
    iclass ''VFMADDSUB231PS'' ''aa1346bf9d9cdb10e3d5ec310b64ece71'',
    iclass ''VFMADDSUBPD'' ''a0f22c6c6d24506f20b4e92677c37b49b'',
    iclass ''VFMADDSUBPS'' ''afffcd6612b6512f031ef5b0e762d3cd8'',
    iclass ''VFMSUB132PD'' ''a42c2ba36816a89f608fe679890889266'',
    iclass ''VFMSUB132PS'' ''a266fe2326f8531e584e3660e17be7fa1'',
    iclass ''VFMSUB132SD'' ''a4dff0170a50f8df36aa1d80140a705ee'',
    iclass ''VFMSUB132SS'' ''aab9ac9e3fdd18999030811b9057436b5'',
    iclass ''VFMSUB213PD'' ''aacce6370d166c26caecb4c9f5b7c0ece'',
    iclass ''VFMSUB213PS'' ''a22fe908e04207147e3ebc5f15fdc38f4'',
    iclass ''VFMSUB213SD'' ''af5479603402f7b8d1b5470c8cc3730e1'',
    iclass ''VFMSUB213SS'' ''ad62195705566463c38bc492062064ed5'',
    iclass ''VFMSUB231PD'' ''a495ca8e45c18530cb3a4e29abff6af5b'',
    iclass ''VFMSUB231PS'' ''a02c83fad13b02f8369ff5c089be8ff2b'',
    iclass ''VFMSUB231SD'' ''a865e61ce6b960ee1c01baffb2901a867'',
    iclass ''VFMSUB231SS'' ''afab9d8530f3136bceed93fc627547601'',
    iclass ''VFMSUBADD132PD'' ''a0677a6fb416bca04235a3b3e130c058d'',
    iclass ''VFMSUBADD132PS'' ''ac1d8b09707930bd3928c8adac7ff2de8'',
    iclass ''VFMSUBADD213PD'' ''a3c7737851dee480e0b2bb0292eae633b'',
    iclass ''VFMSUBADD213PS'' ''a4cdbc8e789e1e8aacc768a130df30417'',
    iclass ''VFMSUBADD231PD'' ''acc05367182d1bea7fb193bd6a21029c4'',
    iclass ''VFMSUBADD231PS'' ''a23ad457de1596cf721f9629d661a8ea1'',
    iclass ''VFMSUBADDPD'' ''abf1f9b0ac1a763a852782887c6c2f032'',
    iclass ''VFMSUBADDPS'' ''a127661a96c6b7e269657a43c05c68f5f'',
    iclass ''VFMSUBPD'' ''a4c486824ce61d3e8fd882f175aeb4ec5'',
    iclass ''VFMSUBPS'' ''aa9d9e00fae9fc0cb1a457799ffcef958'',
    iclass ''VFMSUBSD'' ''aa58b7995c17afb1f0b2e181d49009533'',
    iclass ''VFMSUBSS'' ''acfbcd383305a74cd7b1d07b1b4f50eb5'',
    iclass ''VFNMADD132PD'' ''aa93008a14697bb9133ce516286dc6184'',
    iclass ''VFNMADD132PS'' ''ac63923131f00a1c762ee3e3a1d1ed8fb'',
    iclass ''VFNMADD132SD'' ''a3529d6ab0f38468fd65bad0bd63b39a6'',
    iclass ''VFNMADD132SS'' ''a28eaabbd45eb66f8cb91e85450017be9'',
    iclass ''VFNMADD213PD'' ''a91e464e7f503c79efb1eb6fab58b4620'',
    iclass ''VFNMADD213PS'' ''aeeb8568f4b7c5185eb058e1557a6d9c1'',
    iclass ''VFNMADD213SD'' ''ac0189f44e3b58e0a78173d32f1770051'',
    iclass ''VFNMADD213SS'' ''a6dbaa57bde06b13eb13e4563f9521dff'',
    iclass ''VFNMADD231PD'' ''aa8b2fb46b4e562801cb1f58d4da28259'',
    iclass ''VFNMADD231PS'' ''ac10d723e611cd59d9f54beda5797b35a'',
    iclass ''VFNMADD231SD'' ''a530449b094fd54e430d444557b147048'',
    iclass ''VFNMADD231SS'' ''a609b332fd474326b70de38f821dbf7bc'',
    iclass ''VFNMADDPD'' ''aaa19b4413f78d858eb84408fa3a1bf99'',
    iclass ''VFNMADDPS'' ''ad4f7525c0b94d72df432da27023ce0fb'',
    iclass ''VFNMADDSD'' ''a5ae1404643f230b5baf4815772b5e867'',
    iclass ''VFNMADDSS'' ''a567b8575fcd99c08d413df186e73d960'',
    iclass ''VFNMSUB132PD'' ''a88fb72ac3474cd2e5818efb7544ffd0f'',
    iclass ''VFNMSUB132PS'' ''a4da6d15c6f93581456fec93488b79956'',
    iclass ''VFNMSUB132SD'' ''ab135f39758dfae48f3283072e9294777'',
    iclass ''VFNMSUB132SS'' ''aade073aeb3da11fea2372283dbe26078'',
    iclass ''VFNMSUB213PD'' ''aca657fd2ca8a53a1603991e8d2a62714'',
    iclass ''VFNMSUB213PS'' ''a2b823a9f6f5416b9994d3c62a406d501'',
    iclass ''VFNMSUB213SD'' ''a50babfa7613048166e111e44265c4529'',
    iclass ''VFNMSUB213SS'' ''a552b95f6bb34fb26090876d101472b59'',
    iclass ''VFNMSUB231PD'' ''acc0f90e38262ea56b9731255af3bbea4'',
    iclass ''VFNMSUB231PS'' ''a950180dd83061b4de7d6a59032f172b1'',
    iclass ''VFNMSUB231SD'' ''a49857dc3a9b7a652b357240ac7aaad60'',
    iclass ''VFNMSUB231SS'' ''a78220f69de0887d4d13848053079e3e8'',
    iclass ''VFNMSUBPD'' ''a0809aa2bc9d82c282ef00b3867a2d4aa'',
    iclass ''VFNMSUBPS'' ''a9c1010c3df00236da1636f663cbd858d'',
    iclass ''VFNMSUBSD'' ''ad7293dfc58fdd5781bbfcf35f92c332e'',
    iclass ''VFNMSUBSS'' ''ae519f7b487775314fa42fd089705d3d5'',
    iclass ''VFPCLASSPD'' ''a689308d2851bac277c39ef2cdec77d9f'',
    iclass ''VFPCLASSPS'' ''a57b6e61433480a6c40dd9c337cb62a94'',
    iclass ''VFPCLASSSD'' ''a91a4a002ebbf732d07360a71f7323f22'',
    iclass ''VFPCLASSSS'' ''a97da85e52679309b17e424b9673d24f9'',
    iclass ''VFRCZPD'' ''aad59ac426c44c10650a874e939ced5cb'',
    iclass ''VFRCZPS'' ''aabea003abe0c61bdf65802a27dfadedb'',
    iclass ''VFRCZSD'' ''a001c4870a22c56d650d21bb5239f3616'',
    iclass ''VFRCZSS'' ''a9b67b337fa58aba78781ef6e134ccefe'',
    iclass ''VGATHERDPD'' ''a7f9f21d79c37d9fb669435fdb4109b54'',
    iclass ''VGATHERDPS'' ''a5d0de82af04088d2523cf4de65b12157'',
    iclass ''VGATHERPF0DPD'' ''a0af2d33aead1329186c94ca5c72bf87e'',
    iclass ''VGATHERPF0DPS'' ''a40682be1cc700840b1cc9bf7d712d15c'',
    iclass ''VGATHERPF0QPD'' ''a4338f4c87e0cff67524e0a857c3cb128'',
    iclass ''VGATHERPF0QPS'' ''a09d19be8d01cf05e2d4fb947bcc892b5'',
    iclass ''VGATHERPF1DPD'' ''a75bea039f5177bfe9add782ab185755d'',
    iclass ''VGATHERPF1DPS'' ''adb9342b39d7bc5d0a7a1ebfb8ec686d6'',
    iclass ''VGATHERPF1QPD'' ''aa318780c4fcaafd7a24f398dba2e45e5'',
    iclass ''VGATHERPF1QPS'' ''a4dcb6943be531ae946ffc245dc3a6a50'',
    iclass ''VGATHERQPD'' ''af46fff22c2b20cd84d516e0677c715c1'',
    iclass ''VGATHERQPS'' ''a79ac413dc55b58be79fc4c7270baeb8b'',
    iclass ''VGETEXPPD'' ''adc6048b65eaf5ea7d1640a2f799056dd'',
    iclass ''VGETEXPPS'' ''acac21cdb4e40e7a086318948145f2ec9'',
    iclass ''VGETEXPSD'' ''a613c30bdc466879709b5ceda8057cd5d'',
    iclass ''VGETEXPSS'' ''a45f02560aa62827225ef488ef103eed4'',
    iclass ''VGETMANTPD'' ''ae088c068361c2f46ef8d31126b6a9f79'',
    iclass ''VGETMANTPS'' ''aba894d6d3f91f4ae5909efc8ef7fa4d2'',
    iclass ''VGETMANTSD'' ''a45f0b902385415c402520c703dfe49dd'',
    iclass ''VGETMANTSS'' ''a33214c515770c768118317e85b6bd8e9'',
    iclass ''VHADDPD'' ''afd0f22809bb5bc66bd0e77acd08fa5f6'',
    iclass ''VHADDPS'' ''a44c1341304df3d4706eaf35971be57b6'',
    iclass ''VHSUBPD'' ''a4ac6081889f909bc78d3525b85b7f3cf'',
    iclass ''VHSUBPS'' ''a80b39054a0c8668f16b82e1bc4902a30'',
    iclass ''VINSERTF128'' ''a979e9d1e86f3c4786059aa094b9d92eb'',
    iclass ''VINSERTF32X4'' ''a32c89ae751c563d82d900eb29933093f'',
    iclass ''VINSERTF32X8'' ''ae86099bb2ed70c460d94fe85214b8b30'',
    iclass ''VINSERTF64X2'' ''a86431058d41e25f83fd16c269c7e26cf'',
    iclass ''VINSERTF64X4'' ''a0675f552fd982ed2e986d1e99f35e8d2'',
    iclass ''VINSERTI128'' ''a11366433640cb240c7b2bdc207ed1305'',
    iclass ''VINSERTI32X4'' ''ab9839a871d131cfcbad25eaf57bdd6ad'',
    iclass ''VINSERTI32X8'' ''ab574c96a55b6ee642960e0cc22c29ef8'',
    iclass ''VINSERTI64X2'' ''ae4ec01dfd3ea45040c8c5172f7944bdb'',
    iclass ''VINSERTI64X4'' ''a85fc82f30dc3a5c5f921bcf8739afe76'',
    iclass ''VINSERTPS'' ''a938a44c46b3c00febe56308de4245fba'',
    iclass ''VLDDQU'' ''a5490ce81537e7466c9b4207694c7c329'',
    iclass ''VLDMXCSR'' ''aba21c7d9b63e03f4b3528de82244743a'',
    iclass ''VMASKMOVDQU'' ''a2593922d88fc00ca328fb09cbcc25644'',
    iclass ''VMASKMOVPD'' ''a2f913f05c51de7204dd59bb196cf5282'',
    iclass ''VMASKMOVPS'' ''a1de0ebfbc69643779e1c6985cc7af881'',
    iclass ''VMAXPD'' ''aa1d9c859821a4282ef533eee8f94ac54'',
    iclass ''VMAXPS'' ''ae7d7648ab6e66cc8cc97375f6b25881c'',
    iclass ''VMAXSD'' ''a63a7e1fb6404194c7ca7b8b0e2e6ddd0'']"

lemma xed_iclass_enum_8h_values_7_closed: "list_all (closed_node scripts) xed_iclass_enum_8h_values_7"
  by (simp only: xed_iclass_enum_8h_values_7_def closed_rules iclass_closed)

definition xed_iclass_enum_8h_values_8 :: "nav_node list" where
  "xed_iclass_enum_8h_values_8 = [
    iclass ''VMAXSS'' ''a29f629daf1c78a2c0567950a62d54533'',
    iclass ''VMCALL'' ''ad437a60ed5b82587a90d82d2df81aa2f'',
    iclass ''VMCLEAR'' ''a7e45ef4fadcf8cae17312a61dd16c60b'',
    iclass ''VMFUNC'' ''a0651f620a172439f080c9acd897d09cc'',
    iclass ''VMINPD'' ''aa6b751f4ac2a3a81a358773e6d196652'',
    iclass ''VMINPS'' ''a3a0d83486fc0c2a17dbdd33b95934c05'',
    iclass ''VMINSD'' ''ac22631af5d7dd618e1cabd731e673139'',
    iclass ''VMINSS'' ''af3603c1a19847b8ca40d733e39e82f50'',
    iclass ''VMLAUNCH'' ''a4d95cedd8407c7ab7c3271b1dec74ddc'',
    iclass ''VMLOAD'' ''aaaae01d19fdb35b7b667d7303f04a010'',
    iclass ''VMMCALL'' ''ac36ac912642ccbe4d597db1da5d63889'',
    iclass ''VMOVAPD'' ''aa98c89f66ac20b88c15e2ef6046a7113'',
    iclass ''VMOVAPS'' ''a62999d4a3d6dee354ff8124d1fb44413'',
    iclass ''VMOVD'' ''a87f5fb6c45217b7b4b2d88c6edcab3a1'',
    iclass ''VMOVDDUP'' ''a4332aece47f85a566c1bf8b817407490'',
    iclass ''VMOVDQA'' ''a7b4f6af8c44f8c6a0fe7cc07e15ad171'',
    iclass ''VMOVDQA32'' ''afaddbf4172e081ec702b9350d8c6e8c1'',
    iclass ''VMOVDQA64'' ''a7c4afb51347dabd24b85db05a956ed85'',
    iclass ''VMOVDQU'' ''af3b89d3d2b570a53d47d5cd2e26720c6'',
    iclass ''VMOVDQU16'' ''aef8735a2443601ff48085d0c24316935'',
    iclass ''VMOVDQU32'' ''a8441ee3a2e4f440ddbed7ce50c5ab325'',
    iclass ''VMOVDQU64'' ''adc3e00ca0ad4954c9edd171bc670057d'',
    iclass ''VMOVDQU8'' ''a84f05e6c60bdd10e72bd3517cd8afd06'',
    iclass ''VMOVHLPS'' ''a79308ae8f8fceca8e859fb261fe17f3a'',
    iclass ''VMOVHPD'' ''aba7f994e8d44c8ff4f4a6ae56a387223'',
    iclass ''VMOVHPS'' ''acff65654d94e8ae09976ee2e2d0a20c1'',
    iclass ''VMOVLHPS'' ''a759b9ea2469a5e60a2eaf9d15fb6a7e4'',
    iclass ''VMOVLPD'' ''aa685c62b799a15f6d22c250987eae3ab'',
    iclass ''VMOVLPS'' ''afb4610cb7f54a303423e111c00505008'',
    iclass ''VMOVMSKPD'' ''a0ff429eadd1eeca57a0fcb758bcda7b9'',
    iclass ''VMOVMSKPS'' ''ae74060c4dcc38b60dbac90ea90695d0c'',
    iclass ''VMOVNTDQ'' ''a718f61aa53ae16b06323aac35adc9d5f'',
    iclass ''VMOVNTDQA'' ''aa64ac3a4f8dda1c6f99e06f6fab14711'',
    iclass ''VMOVNTPD'' ''aaadd5d8a288da44913ad703e4cffdc4f'',
    iclass ''VMOVNTPS'' ''a54b337205daf5b4dbf1d703928196e33'',
    iclass ''VMOVQ'' ''a7e47de101d99b5c00a4811e21771f7da'',
    iclass ''VMOVSD'' ''af7b94ed6e2e5c034dff58b345b6c687a'',
    iclass ''VMOVSHDUP'' ''a3ab415911ee9002e547d7c5ef8486980'',
    iclass ''VMOVSLDUP'' ''a9e71ecb5752541e71e30b39fc5937ea3'',
    iclass ''VMOVSS'' ''a8a982e72690279a51f3d550a842008a6'',
    iclass ''VMOVUPD'' ''a9175b99f5e19e301e713db318e95a150'',
    iclass ''VMOVUPS'' ''a8fd358d8e96c4eb73fb336e3be69f6d3'',
    iclass ''VMPSADBW'' ''af09e49ac1f4b51932e7fa7b49333a1a7'',
    iclass ''VMPTRLD'' ''a049272ee6f1e776b7efe0d264456cdfd'',
    iclass ''VMPTRST'' ''a065cad190067dc2ced0538a0a4cd22c2'',
    iclass ''VMREAD'' ''a10f1312f7b13f0c2c9c6fbfd33c8abf8'',
    iclass ''VMRESUME'' ''ad1762ffb167e4817ab8bd2389f09038a'',
    iclass ''VMRUN'' ''a54beae02939df1d0a12ca711228d91b2'',
    iclass ''VMSAVE'' ''a52cc969682b15e014a2ba0983547b26e'',
    iclass ''VMULPD'' ''a34e0ce598c2c9b78efd1fda63c851053'',
    iclass ''VMULPS'' ''a9f317b39fb02e01b36069af2ab41371b'',
    iclass ''VMULSD'' ''a13e6de4d8462d14b536988d3361f6af4'',
    iclass ''VMULSS'' ''a51834011422dc98cfc1984a065365c69'',
    iclass ''VMWRITE'' ''a76c84d11707ac26170d88c7b12614f6b'',
    iclass ''VMXOFF'' ''ad3b66acad24a7c9e50557c7412d276a7'',
    iclass ''VMXON'' ''ab5eda3723adbd38e2ad4cf5b2d8fc40b'',
    iclass ''VORPD'' ''ac42eb18e1fab9eae3e6ea3044d45e488'',
    iclass ''VORPS'' ''a57c19ea67003f6daf46524e4bcc5b000'',
    iclass ''VPABSB'' ''a7326d4ef1d18c45220aed6e7b4011e4b'',
    iclass ''VPABSD'' ''af37540212619f2fd87c6fbef80565193'',
    iclass ''VPABSQ'' ''a2113afb7ea677ee34cf71727cc7dbc24'',
    iclass ''VPABSW'' ''a033d543991fbdfe00e43740cf9ae6f0a'',
    iclass ''VPACKSSDW'' ''a920de82c09b0601253da16d8f6659528'',
    iclass ''VPACKSSWB'' ''adc26e34f5a9a5a6a9bee27dbae7df99a'',
    iclass ''VPACKUSDW'' ''a24d41095369db79d0b9b3c69a0bda279'',
    iclass ''VPACKUSWB'' ''adb081a94cf98cdbcdfc57bd98bf137a7'',
    iclass ''VPADDB'' ''a85568f76bd8ffe9445375f3f8cf581f2'',
    iclass ''VPADDD'' ''aa06e57439dc0f98ea762551a77e81e33'',
    iclass ''VPADDQ'' ''a56e8fe04d0d9dd5a5e63a8c929490150'',
    iclass ''VPADDSB'' ''aeeec6c63b0c26ec708cec190cd2b7448'',
    iclass ''VPADDSW'' ''a93c0a13d25112b72c58931ed95b365ea'',
    iclass ''VPADDUSB'' ''a8fae0e5b578c48158111164dc92b3fd9'',
    iclass ''VPADDUSW'' ''a27690cddebe3537b8898eebdb4a22b11'',
    iclass ''VPADDW'' ''aa7acccd3628d8c6228a1cdd815396205'',
    iclass ''VPALIGNR'' ''a90a464799a083babd4ea4832b31d29ea'',
    iclass ''VPAND'' ''a8973a8aa713d0aa16798317039028b7a'',
    iclass ''VPANDD'' ''a0039aeb1895ba07f06dd224012358a86'',
    iclass ''VPANDN'' ''a5a53d11e44c6888d0950b8441e2a222c'',
    iclass ''VPANDND'' ''a56f28ee8b379e7b08a632d4374d2d848'',
    iclass ''VPANDNQ'' ''ae999df05c4619a9fc921b684b038d3a7'',
    iclass ''VPANDQ'' ''a817ba7dbea0c47eb376321215ecd78cf'',
    iclass ''VPAVGB'' ''a7a7f89f5b67eb082e376c4fb83d7fd38'',
    iclass ''VPAVGW'' ''aeeef35c834190e3f2d48e6702125bcde'',
    iclass ''VPBLENDD'' ''ac593a26debe4ced510bbc1be9952e065'',
    iclass ''VPBLENDMB'' ''a900724cde768591a870de294f40516b4'',
    iclass ''VPBLENDMD'' ''a8d0c77d88c75518ff088949d8b5e49aa'',
    iclass ''VPBLENDMQ'' ''a5aabfd022dba92b8412e6ee60eb70621'',
    iclass ''VPBLENDMW'' ''a5c84189aa6671de625993aae211a8e8f'',
    iclass ''VPBLENDVB'' ''aa315f2fa9827e2e5da5952977a532641'',
    iclass ''VPBLENDW'' ''a7a6e9cbcada620294107d279f99d87fa'',
    iclass ''VPBROADCASTB'' ''adb03b1ff5a92c1310cb5a91031e31016'',
    iclass ''VPBROADCASTD'' ''a89cb8fd9209e249c5f50a6d119f5fed5'',
    iclass ''VPBROADCASTMB2Q'' ''a553b2966a21fac44f02f3334c114a590'',
    iclass ''VPBROADCASTMW2D'' ''a6fecac347711b59054f9cff812b8bec4'',
    iclass ''VPBROADCASTQ'' ''ad150bf6a8e34f6200c38611a58a98b13'',
    iclass ''VPBROADCASTW'' ''a7ed6144c6cbcb26e99f838380fb43953'',
    iclass ''VPCLMULQDQ'' ''a4eadcafd604458cb93ffcf55dbc70256'',
    iclass ''VPCMOV'' ''a30c7567116b72457b49f564865e9729e'',
    iclass ''VPCMPB'' ''a9a923740b6739f073ec91f9a8865be11'',
    iclass ''VPCMPD'' ''ae82c323bc054b41b33741b95c713360a'',
    iclass ''VPCMPEQB'' ''a59664b10b7963e0e777e472c61d7bb50'',
    iclass ''VPCMPEQD'' ''ae7d672662749a59ad1b6ac15394600c3'',
    iclass ''VPCMPEQQ'' ''a1172f260bc9945c344a0b17a091a344f'',
    iclass ''VPCMPEQW'' ''a0e2c73391a1be12f229beff77a12063c'',
    iclass ''VPCMPESTRI'' ''a84ca02bc82a3b45ee3883afc794f22b0'',
    iclass ''VPCMPESTRM'' ''ad440601647fa0907765ab3b684b53b26'',
    iclass ''VPCMPGTB'' ''af219697e38ffa16b2136889c48da3809'',
    iclass ''VPCMPGTD'' ''a3c99e1c7d7cab45fc9bcfe4ca663742c'',
    iclass ''VPCMPGTQ'' ''a7e50a265130b983f0368554d854f5088'',
    iclass ''VPCMPGTW'' ''a91a369e56d0b3452c43774d90f172672'',
    iclass ''VPCMPISTRI'' ''a908980b92d8ce0c4dae1cdc644c5f327'',
    iclass ''VPCMPISTRM'' ''a37cab3e84826f077990d44a18559be0a'',
    iclass ''VPCMPQ'' ''ac60a59e9f13cd08d328a5d1245276ef9'',
    iclass ''VPCMPUB'' ''abe225b1179c316e79dcc042a56640603'',
    iclass ''VPCMPUD'' ''a3ba4c09fb1b1d266e511f3d0741a4726'',
    iclass ''VPCMPUQ'' ''a9ca5085c863840aa2d2cd278b39c1ee8'',
    iclass ''VPCMPUW'' ''a9ef0eec649160ef4c7767bd065cc13c9'',
    iclass ''VPCMPW'' ''a34e553de6f4db9bd31bec41dca111213'',
    iclass ''VPCOMB'' ''a769c17ae2d3065c2407287862c7b61ea'',
    iclass ''VPCOMD'' ''adccf1122bf17025fa63d5318efcbdcab'',
    iclass ''VPCOMPRESSD'' ''a828840d33567fac05675bc1f6ee5a732'',
    iclass ''VPCOMPRESSQ'' ''a05886abad2fa80b6a53d95f718300222'',
    iclass ''VPCOMQ'' ''a772846e0604579752201c0202e1e1488'',
    iclass ''VPCOMUB'' ''a44c17299fb855db7a9d989242ae32afe'',
    iclass ''VPCOMUD'' ''a4ee4e9b3ae22ab908afeab549c51fd32'',
    iclass ''VPCOMUQ'' ''a796cb606c703162d10f5a24edfcdea76'',
    iclass ''VPCOMUW'' ''af2a6525c65672bba3a108f6554dc39b7'',
    iclass ''VPCOMW'' ''a8182659bd160c75fee6d3a85958745c8'',
    iclass ''VPCONFLICTD'' ''ab363eb9b34b50bffee680df5e30b4001'',
    iclass ''VPCONFLICTQ'' ''a0123b882aa8cc54daf6671125bd3d58e'',
    iclass ''VPERM2F128'' ''ad0357e7f99801669e23d664009fe56f4'',
    iclass ''VPERM2I128'' ''a02e1b72d4aaed945d26ed88dda5e84be'',
    iclass ''VPERMB'' ''a3e123d472658c1d7d3e9314fd6e44989'',
    iclass ''VPERMD'' ''a05dbda127a4835dfd1315eb0b2bba22f'',
    iclass ''VPERMI2B'' ''abf88bc4d061109e53691075290516b61'',
    iclass ''VPERMI2D'' ''a85ad461f03f88fe5d017187f154d92b8'',
    iclass ''VPERMI2PD'' ''a364f874133705279e8bd0a2413dd8c8a'',
    iclass ''VPERMI2PS'' ''a5fb94202d277c76b35735c7eb7bbe514'',
    iclass ''VPERMI2Q'' ''aef6b43ae463deca6ae0d1cd82481bded'',
    iclass ''VPERMI2W'' ''a58e79aaa8cf3c0a476860c0f0e6016d6'']"

lemma xed_iclass_enum_8h_values_8_closed: "list_all (closed_node scripts) xed_iclass_enum_8h_values_8"
  by (simp only: xed_iclass_enum_8h_values_8_def closed_rules iclass_closed)

definition xed_iclass_enum_8h_values_9 :: "nav_node list" where
  "xed_iclass_enum_8h_values_9 = [
    iclass ''VPERMIL2PD'' ''a0a04eae90c9fb66093cf32846517e9bd'',
    iclass ''VPERMIL2PS'' ''a2eeee86860815fe427aae1b20e58517c'',
    iclass ''VPERMILPD'' ''a9b1355be710d8a5db8d94315ff185582'',
    iclass ''VPERMILPS'' ''a946d1b75e17b0f2cd9e1436b3584193c'',
    iclass ''VPERMPD'' ''a162332ab509b48f9b1f0c93374e72723'',
    iclass ''VPERMPS'' ''a091b90c06127f120bc6e6df7a6a75f43'',
    iclass ''VPERMQ'' ''a18b7f22e614e87e44fbc26875ae8c899'',
    iclass ''VPERMT2B'' ''abfabbbc821d70fe645bbc154918fe4de'',
    iclass ''VPERMT2D'' ''a1b257d141cc7acb0974cd0c6f85e448e'',
    iclass ''VPERMT2PD'' ''adb1e19cc920502932edc965bc72afec6'',
    iclass ''VPERMT2PS'' ''ae4c37cbe49852a1e884d2107e1d9785f'',
    iclass ''VPERMT2Q'' ''aee56cf44af7582d9541a26e0f728ba06'',
    iclass ''VPERMT2W'' ''a129be076becbc9caf7d2d57e417f8bb9'',
    iclass ''VPERMW'' ''af10a897d7946ba9b908c651b4ec5c181'',
    iclass ''VPEXPANDD'' ''a38eb900aaae9c8e6ff99ff1de215b909'',
    iclass ''VPEXPANDQ'' ''a6c400b804b8a6074e9e8317495e1b3cc'',
    iclass ''VPEXTRB'' ''a74a24cb81b00f5e6ffacf4cd6e42a710'',
    iclass ''VPEXTRD'' ''a9dc3423db775cbafd85944d5450cb27c'',
    iclass ''VPEXTRQ'' ''a99be0e0670a6e4aaf5b827b66bf9e5ca'',
    iclass ''VPEXTRW'' ''a042190cbe82b78599bc8a0a53429c121'',
    iclass ''VPGATHERDD'' ''affbdebe436fd5eba812547ac6ea07db5'',
    iclass ''VPGATHERDQ'' ''abc0160b6d682242ed60b742e4231abda'',
    iclass ''VPGATHERQD'' ''aeb2e86bcdb92472f38c23fc126508a6a'',
    iclass ''VPGATHERQQ'' ''af4d231b97157629743ae2f77d3e53cb7'',
    iclass ''VPHADDBD'' ''aa48db44fd7c9417b5988bd3f6b7fe7ee'',
    iclass ''VPHADDBQ'' ''ac398d2de7736de2c7fd94418a2b0d766'',
    iclass ''VPHADDBW'' ''a67316d535a5b1c5e892f33a3865676f8'',
    iclass ''VPHADDD'' ''ad23a801ef5451f90ce1e244ec040d018'',
    iclass ''VPHADDDQ'' ''a9513037c334b08ad3043d15b70c48a54'',
    iclass ''VPHADDSW'' ''a3533b75acb9b3c7f2e6687c8b1b05755'',
    iclass ''VPHADDUBD'' ''a40c6cba7e7e9d5a908a7a0ccdc62ed96'',
    iclass ''VPHADDUBQ'' ''aa9497079830276a79b430048c11127de'',
    iclass ''VPHADDUBW'' ''ab771a917232ab807105574bf4a7529f9'',
    iclass ''VPHADDUDQ'' ''aead006b7c1865b8ac05cc5d7291dc30b'',
    iclass ''VPHADDUWD'' ''a30a13269ff09abc67a8c78788e048eaa'',
    iclass ''VPHADDUWQ'' ''a70694a3c6ff83ab9ba4dd78994176cbe'',
    iclass ''VPHADDW'' ''a039143f25d3b78be715607a7fa458e7b'',
    iclass ''VPHADDWD'' ''a24473b7c0b70b1748b0ace79c11e6a3f'',
    iclass ''VPHADDWQ'' ''a8d75e4c12e647a647f1891ba9ca22ef3'',
    iclass ''VPHMINPOSUW'' ''a9e6e97e4d2ba24464bdf6aba276e81ae'',
    iclass ''VPHSUBBW'' ''a3c3d28d38a6d359c1218ca2bdd523724'',
    iclass ''VPHSUBD'' ''aeb253ba5f4016d2c0d5d68cf6a23a43c'',
    iclass ''VPHSUBDQ'' ''affaf0b02c4067ea838a25c20f8a4b8c4'',
    iclass ''VPHSUBSW'' ''a1d435524c95d3e2d5b75d379508b4c38'',
    iclass ''VPHSUBW'' ''a415cc5409e9bab2590af8949126ef0fe'',
    iclass ''VPHSUBWD'' ''a1b0304b4f975e4be31e9ea706ecabb39'',
    iclass ''VPINSRB'' ''a079e17d05d231dc7c77f249f548065b6'',
    iclass ''VPINSRD'' ''a8f35fa3fed64203ce6c6df9e9e3b5e89'',
    iclass ''VPINSRQ'' ''a7b3bc1bcbc1790bd7140c146731afdb0'',
    iclass ''VPINSRW'' ''afd147caad3de6bf4502579ae0f8e1671'',
    iclass ''VPLZCNTD'' ''ad9b57eb3c9d432f6d77dd082bbf81a91'',
    iclass ''VPLZCNTQ'' ''ac61cf5764d9e8bd9207ec82e6e29476c'',
    iclass ''VPMACSDD'' ''a1a1d431c71317c4b69fac9fde73923a3'',
    iclass ''VPMACSDQH'' ''af1719b2c2c3ba4fe272dc6c30a5ebbe0'',
    iclass ''VPMACSDQL'' ''a79e96d63198406fe749f8e2a4ede7d6f'',
    iclass ''VPMACSSDD'' ''a0f066d6f7285c93535ca183b88effff0'',
    iclass ''VPMACSSDQH'' ''a892c0c3c648c5d399f632c555ea90a03'',
    iclass ''VPMACSSDQL'' ''a3503674718d41471b5704a9509a6a837'',
    iclass ''VPMACSSWD'' ''af66db8c114115e22bb862ef61921b0ab'',
    iclass ''VPMACSSWW'' ''a411686734e06255f882d420d472660c4'',
    iclass ''VPMACSWD'' ''ab691a31ee48f8f5dabde1e8944a3fadb'',
    iclass ''VPMACSWW'' ''ac8a224116beabe1b2f984d4dccfade4f'',
    iclass ''VPMADCSSWD'' ''a2376f59f1d4213d39470d8dd24ab8de0'',
    iclass ''VPMADCSWD'' ''abf1c45a8d1e274d8416407c1b85476bd'',
    iclass ''VPMADD52HUQ'' ''a9dc766fc852de9bae697fa47c6245748'',
    iclass ''VPMADD52LUQ'' ''aeccd297f49474ce4abddc2542ddb3c5e'',
    iclass ''VPMADDUBSW'' ''a287f7b579655710adcb715985bbdc2ce'',
    iclass ''VPMADDWD'' ''a3cc92a80ffd3d482a5a90ee3f8c72027'',
    iclass ''VPMASKMOVD'' ''a9df1dab88407a0f2f97f950dca29f97b'',
    iclass ''VPMASKMOVQ'' ''add7ba60d2a2c01e3d9d739622a939357'',
    iclass ''VPMAXSB'' ''a990c2d85718d864ad7dca0011812b9ba'',
    iclass ''VPMAXSD'' ''a594ca15652f76ea62382ba09f0c6c91c'',
    iclass ''VPMAXSQ'' ''a09102dee7ecafb9cbbf8cdb23f6884d7'',
    iclass ''VPMAXSW'' ''a34a2198c043a67611a73874caa9ff03f'',
    iclass ''VPMAXUB'' ''a27b51522e523ec93b13c609ea21d2286'',
    iclass ''VPMAXUD'' ''a62292dd956b3252c0d8c55d81877d81a'',
    iclass ''VPMAXUQ'' ''aa1a5e17e2f3017090d007f92d2f59789'',
    iclass ''VPMAXUW'' ''a623f2aa64547bafa248697232dfaeceb'',
    iclass ''VPMINSB'' ''a3b7e3f96dd5715c9726d483abfa314fd'',
    iclass ''VPMINSD'' ''ad15e3928a1106cd0032d3712fbf44c62'',
    iclass ''VPMINSQ'' ''a5e88021273825daaee3ceb257479f79e'',
    iclass ''VPMINSW'' ''aab23255af8d668aaa9cf176374249935'',
    iclass ''VPMINUB'' ''ae39bae0ae84cb612b3c6d14325395e4d'',
    iclass ''VPMINUD'' ''afb49ee44bb3257728adad3d4dc5e4161'',
    iclass ''VPMINUQ'' ''a2512bce02b4177a9d8be877d2821a1a5'',
    iclass ''VPMINUW'' ''ab427e1685254555d96a967096091045a'',
    iclass ''VPMOVB2M'' ''a3c307e226ebfbada1fff9e8ba2b61dde'',
    iclass ''VPMOVD2M'' ''afb0c8de177dbb729b42007d127c72ff3'',
    iclass ''VPMOVDB'' ''aa1766e8512d829e0cd5cf10e3b342a9c'',
    iclass ''VPMOVDW'' ''a0a71c79df6073696a6929b049023b3b9'',
    iclass ''VPMOVM2B'' ''a5825a08d408b8e7f39b33b8ffa598ee8'',
    iclass ''VPMOVM2D'' ''ab8bc45b7ca8fbe5c4b110acf26ae694b'',
    iclass ''VPMOVM2Q'' ''af9ac5ef98f78349a533bf55336201829'',
    iclass ''VPMOVM2W'' ''a6ce58f6760a575906b1321618c88c824'',
    iclass ''VPMOVMSKB'' ''a3b49c6f6b1b5690fdd1653421212cf26'',
    iclass ''VPMOVQ2M'' ''a3430eac1e55848a5dcbdce51466c9a45'',
    iclass ''VPMOVQB'' ''a61c2d246c7158a609e2df1f3fa5e773d'',
    iclass ''VPMOVQD'' ''a372d880467f233b9b1ba2603aa1d6cbc'',
    iclass ''VPMOVQW'' ''a67580922f151a2b9a33bbf3e2e97a707'',
    iclass ''VPMOVSDB'' ''a7a0cddaaaff80be31cda5f11134651e0'',
    iclass ''VPMOVSDW'' ''a01b9365f57c96eb72f1863c1b3a420e3'',
    iclass ''VPMOVSQB'' ''a520eca51abc3dc00305970d79b67d7a6'',
    iclass ''VPMOVSQD'' ''a0f4c9fe9c184b74e38207b038c9c7007'',
    iclass ''VPMOVSQW'' ''a79c1fea6c0bb37404feb3668e90d3f4d'',
    iclass ''VPMOVSWB'' ''aed0ed55f4f19c6623e673ea290a05775'',
    iclass ''VPMOVSXBD'' ''ab78d32707f39129158a148f6e45e4112'',
    iclass ''VPMOVSXBQ'' ''a7a2c9bac4d7eef1361ddb9d386d9b41a'',
    iclass ''VPMOVSXBW'' ''a56a54fc65ef8261b58470b91b2ff5606'',
    iclass ''VPMOVSXDQ'' ''a258bb607e1bee0dc1ea82ef1d2a1df39'',
    iclass ''VPMOVSXWD'' ''af04af0929f83f0fda7d46508a4ed665d'',
    iclass ''VPMOVSXWQ'' ''a060fe87d0c1dec8ee6253bf1584aa5cf'',
    iclass ''VPMOVUSDB'' ''a84263a570be015905b93318d6844a04f'',
    iclass ''VPMOVUSDW'' ''a5722cf4a66d2e1e926e12bc6f072456e'',
    iclass ''VPMOVUSQB'' ''a67756d823eb0c0fc24d7c24023c83a70'',
    iclass ''VPMOVUSQD'' ''a960faa51172246177da9cda3fef459d3'',
    iclass ''VPMOVUSQW'' ''a8d16415d1c0e941d4fc42f3fa545d5bd'',
    iclass ''VPMOVUSWB'' ''a849b8d25485bd70101e9901b8f18f87a'',
    iclass ''VPMOVW2M'' ''ac00896c9aabc5f987d500533fcecfcb8'',
    iclass ''VPMOVWB'' ''af8a8dd2842880951bec591abe53ec45e'',
    iclass ''VPMOVZXBD'' ''af688d9f1875b83cc3d86e110aaa587ab'',
    iclass ''VPMOVZXBQ'' ''a12ebf98319289e8fd5b11b26c7959a23'',
    iclass ''VPMOVZXBW'' ''a1f5e535a16c021025fbc681e4c3e0a96'',
    iclass ''VPMOVZXDQ'' ''a895985eb6c2abc1a3d839f5c6cd521a0'',
    iclass ''VPMOVZXWD'' ''a01b93c48904e1b83053f1e108b5fadb6'',
    iclass ''VPMOVZXWQ'' ''afce6409eb64dc12c06c438b624c05c50'',
    iclass ''VPMULDQ'' ''aa0a9a01419ca2d9cff62aae80e5a4a07'',
    iclass ''VPMULHRSW'' ''aa63a77c4ca4d138d84a33f10a280c188'',
    iclass ''VPMULHUW'' ''acaa907bf679376572b57690fea9a1f58'',
    iclass ''VPMULHW'' ''a3a0d0eccc8425b6667adb39665233ce2'',
    iclass ''VPMULLD'' ''af5d4a47b30dad5a24e0233e4e3964ad4'',
    iclass ''VPMULLQ'' ''a1cfad108f49731924e624d7f87fe9418'',
    iclass ''VPMULLW'' ''a32efcc7c1412b604fa6f080fac4e592f'',
    iclass ''VPMULTISHIFTQB'' ''a715bb27c279fb7e025a8ce43d5f27e8e'',
    iclass ''VPMULUDQ'' ''ab48023020e0f48d79b8a09f84a7c614a'',
    iclass ''VPOR'' ''a860aa9e80fcd7b9df48af7bf7d16e784'',
    iclass ''VPORD'' ''a511e3b4dd0f80f613498811f1424052c'',
    iclass ''VPORQ'' ''ad190e6bc5fdd55cd968ff32d79f65392'',
    iclass ''VPPERM'' ''acc93f07a05085f3c156e00f0664154b2'',
    iclass ''VPROLD'' ''aceea379a1b8c053b9f401266f3056bc7'',
    iclass ''VPROLQ'' ''a58ca3c4e69abbd38d3068fccc20fa6fc'']"

lemma xed_iclass_enum_8h_values_9_closed: "list_all (closed_node scripts) xed_iclass_enum_8h_values_9"
  by (simp only: xed_iclass_enum_8h_values_9_def closed_rules iclass_closed)

definition xed_iclass_enum_8h_values_10 :: "nav_node list" where
  "xed_iclass_enum_8h_values_10 = [
    iclass ''VPROLVD'' ''a4c807d469f7f06c434c15f51d09ccf7f'',
    iclass ''VPROLVQ'' ''a7be39045c0065baf1a5c181e8695d0e2'',
    iclass ''VPRORD'' ''ae739e10e6e79ad955a8707c07dd1e82f'',
    iclass ''VPRORQ'' ''ab84af35a387bd1a963e93334a1e8b692'',
    iclass ''VPRORVD'' ''a13cfe0ba7c88a327d7437d0d060ed215'',
    iclass ''VPRORVQ'' ''acbe62f1c94ca028376278de895cec29e'',
    iclass ''VPROTB'' ''aa8f8bb81a8e5f1e62f2baf1c73423a8e'',
    iclass ''VPROTD'' ''ab019be13ecc92ef76cb658dbdd5043c1'',
    iclass ''VPROTQ'' ''a1ea26b86d2fcd26e5b7397cd6940f970'',
    iclass ''VPROTW'' ''a565a98b9e5dec0b22e3023c355778164'',
    iclass ''VPSADBW'' ''a1faf7b60074493c58ee9e85230ed86a3'',
    iclass ''VPSCATTERDD'' ''ae61bb2651ec18a73e6e93e8a1fe09923'',
    iclass ''VPSCATTERDQ'' ''adb746c82ae14c9b5f46abce89492a7c6'',
    iclass ''VPSCATTERQD'' ''a88cc797422351233da6148641d9fdfcb'',
    iclass ''VPSCATTERQQ'' ''a0b8567357acbad8be8830228abe1282f'',
    iclass ''VPSHAB'' ''af3c89d749324ad8595f8f3ae453d25a9'',
    iclass ''VPSHAD'' ''a54fb02af7d4100b5258bda475245aa9d'',
    iclass ''VPSHAQ'' ''ada422e8a1408f38b55273592c78711b6'',
    iclass ''VPSHAW'' ''a617350ab00717258a5f77c24590562fe'',
    iclass ''VPSHLB'' ''aceddbcf64728fa45e92768f2ff6e2e49'',
    iclass ''VPSHLD'' ''af3f5482a0b7ac2f35b565c17a9591eb1'',
    iclass ''VPSHLQ'' ''a83cd9a805100ecb1610bfd7108c69655'',
    iclass ''VPSHLW'' ''a38d0c3c71524a5bdb12c2d442035d7e7'',
    iclass ''VPSHUFB'' ''af9f4eab195c96de1a5fc9887f9c0eb0c'',
    iclass ''VPSHUFD'' ''a19848bfa266ffb0c6717fffa67c48e9a'',
    iclass ''VPSHUFHW'' ''abc9b3ef671a35d0dbe13001ca04f0851'',
    iclass ''VPSHUFLW'' ''a15f4b54b680be528e3cebd886deabfbd'',
    iclass ''VPSIGNB'' ''a4353c0cc57146b115b175bd670958348'',
    iclass ''VPSIGND'' ''ad1709255e228f39e2d628a7ad85336d2'',
    iclass ''VPSIGNW'' ''a3f4b987120ff5736f0f67e9a02593b53'',
    iclass ''VPSLLD'' ''a8cf438483d5473aa28dde25d4db0288e'',
    iclass ''VPSLLDQ'' ''ab6c2ea757f29bf9e51c6f6e696ff8250'',
    iclass ''VPSLLQ'' ''a90765fc8f6bce717226f451c304734f2'',
    iclass ''VPSLLVD'' ''a44da244ccfe696cf6004a94f095b68a8'',
    iclass ''VPSLLVQ'' ''ac3e53ab2142df6e00d705ab48d5b6c5d'',
    iclass ''VPSLLVW'' ''aae7fc163f7906d88c563e690e10152b9'',
    iclass ''VPSLLW'' ''a4b79b8a8f6962aeeee7ba8f45478d972'',
    iclass ''VPSRAD'' ''a69deca8297e8912f5772cb7c1ce303b5'',
    iclass ''VPSRAQ'' ''a81991c22e62fba745898c0371d198713'',
    iclass ''VPSRAVD'' ''a540f0a0fe21cb911af025e62d187b19a'',
    iclass ''VPSRAVQ'' ''a242ae80f14849d3a0fdbe0ef8560162e'',
    iclass ''VPSRAVW'' ''ab7100e789eccfd5b20eac10f9d697153'',
    iclass ''VPSRAW'' ''a5b4c85ef40da5b92233ac6eaf4f4b6f5'',
    iclass ''VPSRLD'' ''a50d05eeea36ae6d5c15c78b0de96103b'',
    iclass ''VPSRLDQ'' ''af6259ee09ce6cc394793017eae15ae67'',
    iclass ''VPSRLQ'' ''a476678c822878dd43e2bdd4ea3b4372e'',
    iclass ''VPSRLVD'' ''a63c0a3362a8ad3db8170bee50500ccf2'',
    iclass ''VPSRLVQ'' ''a1c3da70fbd3b3a5f1ad38c79e8fd5953'',
    iclass ''VPSRLVW'' ''abef5b6091bbe4bb9658ad6e4daf6c7dd'',
    iclass ''VPSRLW'' ''ac2547f1a04e422b4181d16a754714a8f'',
    iclass ''VPSUBB'' ''a0e34c95b0158a99a12db6cb9dcae8126'',
    iclass ''VPSUBD'' ''a48e0c7bf2b84cf96a1d8a083028e807c'',
    iclass ''VPSUBQ'' ''a4cfee1b1418958209dbb502dfe6f09ba'',
    iclass ''VPSUBSB'' ''a4f8906df8f9690bcd63d6131325595d3'',
    iclass ''VPSUBSW'' ''a7bbaa0b6fd157b7bb2518dd9fe9419ad'',
    iclass ''VPSUBUSB'' ''ae4cae0de52a154af76f96762aad45769'',
    iclass ''VPSUBUSW'' ''a83b3db8cbcc3246f11be7bb90fcb713b'',
    iclass ''VPSUBW'' ''aada43a53cdc22bdfee1dad77af1bca8b'',
    iclass ''VPTERNLOGD'' ''adace657af3df73543439669a211a2535'',
    iclass ''VPTERNLOGQ'' ''ab89df1da0cac599c9722dece24478462'',
    iclass ''VPTEST'' ''ae218fc9c383deca46aa8fbf628a2b4a0'',
    iclass ''VPTESTMB'' ''a072b98867111b6783ffb4e77cb5e1aec'',
    iclass ''VPTESTMD'' ''a66ddb5311c26c20b4e4f0a0a3cd4c061'',
    iclass ''VPTESTMQ'' ''a521dc8138637afa4640fd2bbb8e0aaec'',
    iclass ''VPTESTMW'' ''a0df5376b5b536c38a899b3549e1be872'',
    iclass ''VPTESTNMB'' ''a58eb6dee61a6b8957eb514acff9940d0'',
    iclass ''VPTESTNMD'' ''ae550e661a7a175045bc53ee55fd48fdc'',
    iclass ''VPTESTNMQ'' ''ad01283dea67c7e9f16969e7c29595415'',
    iclass ''VPTESTNMW'' ''a4fa0ef72221b20473b5cf8bc0d581d2c'',
    iclass ''VPUNPCKHBW'' ''a211107ca7ab514ea32a9c0d45943d0e6'',
    iclass ''VPUNPCKHDQ'' ''a63120620f2ca766aba5636844a1f0372'',
    iclass ''VPUNPCKHQDQ'' ''aabf725ac6978eff2f287660f94cc44fc'',
    iclass ''VPUNPCKHWD'' ''a1c22252f686ce17ebd870d1cb59f34a5'',
    iclass ''VPUNPCKLBW'' ''aef00defd9dfb2f0997708fc654d79667'',
    iclass ''VPUNPCKLDQ'' ''aaeff0ed684979d45469d3cc05cc46a89'',
    iclass ''VPUNPCKLQDQ'' ''a69db093945f4709e83283beb83358525'',
    iclass ''VPUNPCKLWD'' ''afbd59d79c951b516698640a951237a35'',
    iclass ''VPXOR'' ''ad7fa789233345f7d76586d85d6b08f9f'',
    iclass ''VPXORD'' ''aa9269b862d420a0d6bf49139b097ba58'',
    iclass ''VPXORQ'' ''a8a274ae1c1ddb51e5d1809d128ab8b5f'',
    iclass ''VRANGEPD'' ''a08991b18250eddacc57e807acdf5ec05'',
    iclass ''VRANGEPS'' ''a8b3d4684242e6b27657a1873426a5f59'',
    iclass ''VRANGESD'' ''a05dbed876dda6233000e977b735df91e'',
    iclass ''VRANGESS'' ''a7175eef0ab78e988cff73d81c2d4383c'',
    iclass ''VRCP14PD'' ''a58d288a1f54adf8a3d3ea11ab27f4a3a'',
    iclass ''VRCP14PS'' ''a98f0c1c6c4624526da4275c57d22382b'',
    iclass ''VRCP14SD'' ''ac247c6dd0ed386abc2a4c4e91cba46bf'',
    iclass ''VRCP14SS'' ''a4a0211a8dfe64a109d4211d17256ee91'',
    iclass ''VRCP28PD'' ''adc971ad2b755bff9cea35e7c16c8a73e'',
    iclass ''VRCP28PS'' ''a7768b421a697cb39d70a00a14d292cbe'',
    iclass ''VRCP28SD'' ''a8e9b9eeda644a87f62a3cfc59ce6d41c'',
    iclass ''VRCP28SS'' ''a9eef51d5c9f38ad2dc6c81d46fd359a0'',
    iclass ''VRCPPS'' ''a081bd21ce33be660e6da8a3a6d207459'',
    iclass ''VRCPSS'' ''ad48de39adc08a52dedf465a1250c7acc'',
    iclass ''VREDUCEPD'' ''af1d1c15798f866c1bee181a10dc96dd9'',
    iclass ''VREDUCEPS'' ''a57e0a565b82c49f31037c8e23dfaf3f7'',
    iclass ''VREDUCESD'' ''a7067a842e5d751e801e7b8b79fe8a969'',
    iclass ''VREDUCESS'' ''abbf86cb2cf9cf46385866bc76bfe5a92'',
    iclass ''VRNDSCALEPD'' ''a8b61dbe6894b7121ef47f1695c903626'',
    iclass ''VRNDSCALEPS'' ''a7a820aef3f0b25b1c043693e69cb995c'',
    iclass ''VRNDSCALESD'' ''ab4a9ed8bdfa92eb512be7f6b60818a0c'',
    iclass ''VRNDSCALESS'' ''a93f4b215c1857fa5e730f8cbe24c8b4e'',
    iclass ''VROUNDPD'' ''a3a6838536fad0279b7c3b0a41f69e488'',
    iclass ''VROUNDPS'' ''aea8c0d5031af334d62f74d177e8b94be'',
    iclass ''VROUNDSD'' ''a961e556d760e65e49b515e0698c0a77c'',
    iclass ''VROUNDSS'' ''aebfa556480adbe92ef5e0171d71d6610'',
    iclass ''VRSQRT14PD'' ''a81160511011948c5ff1134fc7f056223'',
    iclass ''VRSQRT14PS'' ''a1317f6e3c9628b256c4cd0d04a2caadf'',
    iclass ''VRSQRT14SD'' ''a207392f3d62b6767036cf3bb99afb445'',
    iclass ''VRSQRT14SS'' ''a96916a6c41a2c121b4465c6f9bcb0817'',
    iclass ''VRSQRT28PD'' ''aa4742f3e298487f198f5746da0307943'',
    iclass ''VRSQRT28PS'' ''a20ea1cbee33f4dd468e309f971865d3e'',
    iclass ''VRSQRT28SD'' ''abe3dddc2c9dd9d2c60cc0fa4b7cbe3ec'',
    iclass ''VRSQRT28SS'' ''a78ed2f68f1f6699275fe9ed20379c6e7'',
    iclass ''VRSQRTPS'' ''a4c146195dad85a63ae853b379c7eb968'',
    iclass ''VRSQRTSS'' ''a1b198e1a691d109b4b8c73b363f1a5f2'',
    iclass ''VSCALEFPD'' ''afa22e728addbfe47cc6aad8e21ef10ba'',
    iclass ''VSCALEFPS'' ''aede98691980bf824f9a2b8ca3aff6b93'',
    iclass ''VSCALEFSD'' ''a979d3029c447867b014f73278ea21101'',
    iclass ''VSCALEFSS'' ''a9201baadba0b345add7437b609de647e'',
    iclass ''VSCATTERDPD'' ''a07046e16be4e0c02f4165496d983dcde'',
    iclass ''VSCATTERDPS'' ''a767efb6ce015a73b11e8502bcc6b0d09'',
    iclass ''VSCATTERPF0DPD'' ''afc12fc2e73995ca4d74cb96dd1e1844a'',
    iclass ''VSCATTERPF0DPS'' ''a924a8288d14e03b570ff4cfcd467c67d'',
    iclass ''VSCATTERPF0QPD'' ''a9c8d5454af83504d336616f3c520d1c2'',
    iclass ''VSCATTERPF0QPS'' ''a575a0029c51a312bae617892a2083605'',
    iclass ''VSCATTERPF1DPD'' ''a5c0c250b27f131cdbc475cd1438c6bc3'',
    iclass ''VSCATTERPF1DPS'' ''a91ccaa0b003d265a84b69c0c3a10d39f'',
    iclass ''VSCATTERPF1QPD'' ''ab86e28a61241b0f343ec28f9fe4f4cce'',
    iclass ''VSCATTERPF1QPS'' ''a3e947f2f32aadd1ab63151ccbe1c686a'',
    iclass ''VSCATTERQPD'' ''aa96d3d870ee6ea7d45bd6dc783170a76'',
    iclass ''VSCATTERQPS'' ''a441f422ba0924915e6a6dd3b746e0c67'',
    iclass ''VSHUFF32X4'' ''ad67eda4e4b2b725afbc9a6fa5fba2cef'',
    iclass ''VSHUFF64X2'' ''a56906048364504017c617a037e516900'',
    iclass ''VSHUFI32X4'' ''a6460415c6020a77d393f7306a88af500'',
    iclass ''VSHUFI64X2'' ''a51b9f74361fbe4d78c107babc01f4f2d'',
    iclass ''VSHUFPD'' ''a1d036bb100f1919d8bcfb4958232b04e'',
    iclass ''VSHUFPS'' ''a0440a9be196674e6c7b472fc06d76ea1'',
    iclass ''VSQRTPD'' ''aad0c1a01f6188e36c50f43e363858ef1'',
    iclass ''VSQRTPS'' ''a35dc5276dd73a9b61fae78c960346f2a'']"

lemma xed_iclass_enum_8h_values_10_closed: "list_all (closed_node scripts) xed_iclass_enum_8h_values_10"
  by (simp only: xed_iclass_enum_8h_values_10_def closed_rules iclass_closed)

definition xed_iclass_enum_8h_values_11 :: "nav_node list" where
  "xed_iclass_enum_8h_values_11 = [
    iclass ''VSQRTSD'' ''ad3afb823d4a8fc7e35fe293c0d9739cb'',
    iclass ''VSQRTSS'' ''a6e2fa515a23e3eaa6dc65cb1ad27cab6'',
    iclass ''VSTMXCSR'' ''ad78737a22ca5671e124eac1d3a9827e5'',
    iclass ''VSUBPD'' ''a59164a313b51d62ced8945f875eee0fc'',
    iclass ''VSUBPS'' ''a504630d0d6e1158065f831350ab0c3b8'',
    iclass ''VSUBSD'' ''ae43c66f8c0547d9db3d71a12fd48f8cc'',
    iclass ''VSUBSS'' ''a9706e9c3bb3a973d4483e929a3a87815'',
    iclass ''VTESTPD'' ''a774cea8d4fff5557e8fd3e1784981e41'',
    iclass ''VTESTPS'' ''aac2e03ea5ea2cd23ec588e504cad84a2'',
    iclass ''VUCOMISD'' ''a88c4034e38a2177f80fe022a4c20c644'',
    iclass ''VUCOMISS'' ''a0b8c82204e8176f7f40cf03d75965896'',
    iclass ''VUNPCKHPD'' ''ac4933e16b2e22bb55a853d2ba54bf26d'',
    iclass ''VUNPCKHPS'' ''ace65b43b807aacb394894bda97b29335'',
    iclass ''VUNPCKLPD'' ''a7a9e4dc3f6fc6f11aee4a15f6dd83905'',
    iclass ''VUNPCKLPS'' ''a5fe335e053e4b8a60213b363a97c9004'',
    iclass ''VXORPD'' ''a6fb20464be363c11b32cc34df49ad002'',
    iclass ''VXORPS'' ''ae1f9b1e25db6a3cf54ef9d78b8f3dc34'',
    iclass ''VZEROALL'' ''ab51df1a0595dd46736a292a2a5aed15a'',
    iclass ''VZEROUPPER'' ''ab3a54437cc07b096cb9a46adcf7e2728'',
    iclass ''WBINVD'' ''ad721c8589ed4a1b65a4bb0d3671ff6db'',
    iclass ''WRFSBASE'' ''a95025510b61b1fcc74a773337de797b8'',
    iclass ''WRGSBASE'' ''a1b4f93ac52ac16065f467bc39ce35c91'',
    iclass ''WRMSR'' ''a1fca5c9e9421d56c0d5240e0936c8fbf'',
    iclass ''XABORT'' ''af6497d8e53db51cd2eec04c27f29b7d9'',
    iclass ''XADD'' ''ae3e1e3e28cf05b7a3712af66e88951c0'',
    iclass ''XBEGIN'' ''a38622cad748db10a30c8e0fac9a5eabc'',
    iclass ''XCHG'' ''a524d81fa27727831fbc899cf2b8da7cb'',
    iclass ''XEND'' ''a59c0c505d23df6bc85c4f53255e06134'',
    iclass ''XGETBV'' ''a367f86d70904a2f67149ab5c7408f6a7'',
    iclass ''XLAT'' ''a01d2f8b212b336d16a17ec2a94ed823c'',
    iclass ''XOR'' ''a5b1ec417086c02b5077d819cc07a4efd'',
    iclass ''XORPD'' ''af22ffb5a9a19d213e10da0f1a31134ed'',
    iclass ''XORPS'' ''a7dc9b5e344e8f60c73bb20c59e890f89'',
    iclass ''XRSTOR'' ''ad55f5caafdd45617805ab9daded86c6e'',
    iclass ''XRSTOR64'' ''aaa404fb84d759582d28f8e93737515bb'',
    iclass ''XRSTORS'' ''ab856bef4284d024a376abd7622aad96b'',
    iclass ''XRSTORS64'' ''a11fc33f262b9e6a74bcfbe85459d5edf'',
    iclass ''XSAVE'' ''a80d03d859352941f110b413f4cd22ca4'',
    iclass ''XSAVE64'' ''a640973c88f6b7819fa35ce1d4e2b9db9'',
    iclass ''XSAVEC'' ''a4d997b67d69307a6a84e54ceb3f62de4'',
    iclass ''XSAVEC64'' ''af32961e8cf294eb287dd47910d879856'',
    iclass ''XSAVEOPT'' ''a33e040a75ba5486fed394decb179f82e'',
    iclass ''XSAVEOPT64'' ''a55dd27ea5fbee1bbd9f28a929dc93628'',
    iclass ''XSAVES'' ''a352e4aea4bc29aceb47640bb4f92c1cc'',
    iclass ''XSAVES64'' ''aec3fd7b2504767460872249d0c9cac8b'',
    iclass ''XSETBV'' ''aee9dd7f5de1365400c02d365641251fb'',
    iclass ''XTEST'' ''a3d3988069c04d8dedf004f16e8816c86'',
    iclass ''LAST'' ''a0c91956601f69e5e2d941ba960af3139'']"

lemma xed_iclass_enum_8h_values_11_closed: "list_all (closed_node scripts) xed_iclass_enum_8h_values_11"
  by (simp only: xed_iclass_enum_8h_values_11_def closed_rules iclass_closed)

definition xed_iclass_enum_8h :: "nav_node list" where
  "xed_iclass_enum_8h = [
    Nav_node ''xed_iclass_enum_t'' (Some ''xed-iclass-enum_8h.html#ad318511ae9cc50f102251b3c91a1ab9f'') (Nodes (xed_iclass_enum_8h_values_1 @ xed_iclass_enum_8h_values_2 @ xed_iclass_enum_8h_values_3 @ xed_iclass_enum_8h_values_4 @ xed_iclass_enum_8h_values_5 @ xed_iclass_enum_8h_values_6 @ xed_iclass_enum_8h_values_7 @ xed_iclass_enum_8h_values_8 @ xed_iclass_enum_8h_values_9 @ xed_iclass_enum_8h_values_10 @ xed_iclass_enum_8h_values_11)),
    Nav_node ''str2xed_iclass_enum_t'' (Some ''group__ENUM.html#gac4b76adf6ede75bbc5754866187fcfa2'') Null,
    Nav_node ''xed_iclass_enum_t2str'' (Some ''group__ENUM.html#ga97f9a6174db43637bf0af371441fde97'') Null,
    Nav_node ''xed_iclass_enum_t_last'' (Some ''group__ENUM.html#ga4b45795087bdf67b8480d2f79bdae42b'') Null]"

lemma xed_iclass_enum_8h_closed: "list_all (closed_node scripts) xed_iclass_enum_8h"
  by (simp only: xed_iclass_enum_8h_def closed_rules xed_iclass_enum_8h_values_1_closed xed_iclass_enum_8h_values_2_closed xed_iclass_enum_8h_values_3_closed xed_iclass_enum_8h_values_4_closed xed_iclass_enum_8h_values_5_closed xed_iclass_enum_8h_values_6_closed xed_iclass_enum_8h_values_7_closed xed_iclass_enum_8h_values_8_closed xed_iclass_enum_8h_values_9_closed xed_iclass_enum_8h_values_10_closed xed_iclass_enum_8h_values_11_closed)

end
