(* ===== verification/Nav_Iformfl.thy ===== *)
theory Nav_Iformfl
  imports Nav_Closed
begin

text \<open>
  xed-iformfl-enum_8h.js: the form of the nodes of this enumeration.
\<close>

text \<open>A node of \<open>xed-iformfl-enum_8h.js\<close>: the names and the links of its nodes start alike.\<close>

definition iformfl :: "string \<Rightarrow> string \<Rightarrow> nav_node" where
  "iformfl name anchor = Nav_node (''XED_IFORMFL_'' @ name)
     (Some (''xed-iformfl-enum_8h.html#a261aba9f055ef9754e8152bf28debe36'' @ anchor)) Null"

lemma iformfl_closed: "closed_node scripts (iformfl name anchor) = True"
  by (simp add: iformfl_def)

end
