(* ===== verification/Nav_Iformfl_1.thy ===== *)
theory Nav_Iformfl_1
  imports Nav_Iformfl
begin

text \<open>
  xed-iformfl-enum_8h.js: the child table of an enumeration of instruction forms or classes.
\<close>

definition xed_iformfl_enum_8h_values_1 :: "nav_node list" where
  "xed_iformfl_enum_8h_values_1 = [
    iformfl ''AAA_FIRST'' ''a57c53daa104c8647ff394d7f19149cc9'',
    iformfl ''AAA_LAST'' ''aaace41dfdb9c7517be2fea88afeec6ed'',
    iformfl ''AAD_FIRST'' ''a9a76efc19b8394f996dedf517ad3b8f2'',
    iformfl ''AAD_LAST'' ''a75a4f8a9ab256e4f88663563057f7f76'',
    iformfl ''AAM_FIRST'' ''a1c1a1c6d826c2ce7a476f224b8e07f68'',
    iformfl ''AAM_LAST'' ''a6f2aa257745f2245ec2435c0e38a4ce1'',
    iformfl ''AAS_FIRST'' ''a39525b25877b4a8d3dc0cd154aa334ba'',
    iformfl ''AAS_LAST'' ''a35c5009d551567f2a62ae188afd70c0c'',
    iformfl ''ADC_FIRST'' ''a587f34f1245720992ad12df7d9708c2e'',
    iformfl ''ADC_LAST'' ''acbed92765928555ccc77053b4cdb5187'',
    iformfl ''ADCX_FIRST'' ''a3f97ef2aff40b11fa1fb0daede190b50'',
    iformfl ''ADCX_LAST'' ''a3f4ada9c929ee3b67acd40308e5bb596'',
    iformfl ''ADD_FIRST'' ''ac87791d5bb079184af40977e4ce5d2b3'',
    iformfl ''ADD_LAST'' ''a8e1957d62f706eb0143c837d67aab751'',
    iformfl ''ADDPD_FIRST'' ''a9bd8e46e1cf502180aa221c6ea330bcf'',
    iformfl ''ADDPD_LAST'' ''a393f54a3b0eb609ba0553eb63f3e99da'',
    iformfl ''ADDPS_FIRST'' ''a0462d4e9cd424f72ff31e43630c45bb2'',
    iformfl ''ADDPS_LAST'' ''a9fc0aa0f2b7e460d89e4cbc55755cb9a'',
    iformfl ''ADDSD_FIRST'' ''af4419a901eeed1b6b84ed7bdcad1d74d'',
    iformfl ''ADDSD_LAST'' ''a6171567415f93ba5dab08c51133ce89b'',
    iformfl ''ADDSS_FIRST'' ''a410bb0180f027955f3b32abbaa9965bf'',
    iformfl ''ADDSS_LAST'' ''aba76a1f2013f8a5ef5ce3186037dec51'',
    iformfl ''ADDSUBPD_FIRST'' ''a52b59c25363cce8165f088b36fe60936'',
    iformfl ''ADDSUBPD_LAST'' ''aa9b132fda10ea26a259a20766397431a'',
    iformfl ''ADDSUBPS_FIRST'' ''a174e1fd5ec8d6df3f8e6f294bf58784a'',
    iformfl ''ADDSUBPS_LAST'' ''a5606ff018b37061709d78b942621a65d'',
    iformfl ''ADOX_FIRST'' ''a77f1b6d577a963aab1967b9c5a5426a1'',
    iformfl ''ADOX_LAST'' ''a72eba96a683a553e53209268147ba14e'',
    iformfl ''AESDEC_FIRST'' ''afb994e10f83e2a2494f075bc0353979a'',
    iformfl ''AESDEC_LAST'' ''a14b721f40ed237322be5f2ed443fd104'',
    iformfl ''AESDECLAST_FIRST'' ''af4501e2c72241b73fe5cb03b58060be6'',
    iformfl ''AESDECLAST_LAST'' ''ac84aad649c6d3f90908928676bbbff51'',
    iformfl ''AESENC_FIRST'' ''a7de9f6012c0837c2649ab938e4f830f3'',
    iformfl ''AESENC_LAST'' ''a6667c6e3f42e955f0430d85b7869a927'',
    iformfl ''AESENCLAST_FIRST'' ''adc2bb9372e34eff69ab6e22c0d544c39'',
    iformfl ''AESENCLAST_LAST'' ''ae94d01258dbea56e550afb8692f6c0a1'',
    iformfl ''AESIMC_FIRST'' ''a21a4d3b2699b4dbaf671f34df8fa6b5b'',
    iformfl ''AESIMC_LAST'' ''a8c917dd26aba9a697946a117d5fc5708'',
    iformfl ''AESKEYGENASSIST_FIRST'' ''aa2d09dbad044d1ea735c49c286b7a224'',
    iformfl ''AESKEYGENASSIST_LAST'' ''a555e881dde0ee84ff8f617a76d91cbe3'',
    iformfl ''AND_FIRST'' ''aac48482854665f15539a4854bff8934e'',
    iformfl ''AND_LAST'' ''ad495f9c22961bf5fa7849f3d0a8c6895'',
    iformfl ''ANDN_FIRST'' ''adec2ae1f5bd16a8893553a2cec2ad8dd'',
    iformfl ''ANDN_LAST'' ''a3e9035e9d9986aec77d9f250e6064a96'',
    iformfl ''ANDNPD_FIRST'' ''af50f6b6368138ddc328d9f61277d5d9d'',
    iformfl ''ANDNPD_LAST'' ''a4b2d5e70a1662cc61d697b8df57a304c'',
    iformfl ''ANDNPS_FIRST'' ''a28b9ee9ce8dcd2610e6a0453e1acda0c'',
    iformfl ''ANDNPS_LAST'' ''a99417cdaa3fc6dc04ce184467a8429ea'',
    iformfl ''ANDPD_FIRST'' ''aa99ed3841f85907e7c19292d1683409e'',
    iformfl ''ANDPD_LAST'' ''a616d8a6a52d4c857995ffea8c221cc76'',
    iformfl ''ANDPS_FIRST'' ''a33819aca7820b3a6ceb648d637321c10'',
    iformfl ''ANDPS_LAST'' ''a8eddb327eb2fd76a0075100b59372003'',
    iformfl ''ARPL_FIRST'' ''ab76823e387123713add37ee72e2d2d98'',
    iformfl ''ARPL_LAST'' ''a97a494f27672f855ced60a27d9d83aff'',
    iformfl ''BEXTR_FIRST'' ''a74b508dfeb32b063d80c2cb021e8075f'',
    iformfl ''BEXTR_LAST'' ''a823f5466f823e79fb9a384f5ceef5b29'',
    iformfl ''BEXTR_XOP_FIRST'' ''ab0a5576d69b46574445011563603d559'',
    iformfl ''BEXTR_XOP_LAST'' ''a7b0b2b70e3e04fbf07b29c25570b4ffe'',
    iformfl ''BLCFILL_FIRST'' ''a5ebca869e59d447ce639667635b397e8'',
    iformfl ''BLCFILL_LAST'' ''adbca3ec175c1b170c82379b6ba3fb197'',
    iformfl ''BLCI_FIRST'' ''a028f6bf0f1e09f710a41875150bf2286'',
    iformfl ''BLCI_LAST'' ''aa4f927204551cf7b9ce041a1a48c6ea1'',
    iformfl ''BLCIC_FIRST'' ''a72385fd815685bd370658448d9c67d02'',
    iformfl ''BLCIC_LAST'' ''ad5d4a2d1a2e466bfd0795678de4e029b'',
    iformfl ''BLCMSK_FIRST'' ''aec197f765097d746ec86f67d2a7ad691'',
    iformfl ''BLCMSK_LAST'' ''a9c8781390ce7cbba2930796986943e32'',
    iformfl ''BLCS_FIRST'' ''a85408f98e7e00afe00350a6c78900f24'',
    iformfl ''BLCS_LAST'' ''a586ef7c645eed453d8e0863c137ccfa8'',
    iformfl ''BLENDPD_FIRST'' ''ad06a071d2bf3bd254f9e23cecb7eac88'',
    iformfl ''BLENDPD_LAST'' ''a82766152e699ce4e796642c055216e34'',
    iformfl ''BLENDPS_FIRST'' ''a056646c11c90ceb2e64c5e2cbfc142a7'',
    iformfl ''BLENDPS_LAST'' ''ae2c72c16d9ec1ca0e037e6118ba1f4c5'',
    iformfl ''BLENDVPD_FIRST'' ''a56ae0590d0b798a7eeb08a5a692b40d7'',
    iformfl ''BLENDVPD_LAST'' ''a7e9b52d5a583157e5e437984d77f1ef6'',
    iformfl ''BLENDVPS_FIRST'' ''af5f3d7794db38891660dd1bc1119a25f'',
    iformfl ''BLENDVPS_LAST'' ''ae22fa6c9562c4316c1dfaae04685f4cc'',
    iformfl ''BLSFILL_FIRST'' ''ac59223f258d4fdb4c8f53e199dc3a6cb'',
    iformfl ''BLSFILL_LAST'' ''a013baa6384fe53ea1ceef6428abfee93'',
    iformfl ''BLSI_FIRST'' ''a43bd1ee80ccf2b163251687c14f098b6'',
    iformfl ''BLSI_LAST'' ''a4968ad35c0001d01d0c8ba5014041ed9'',
    iformfl ''BLSIC_FIRST'' ''a6a9c15567769e02e95e373f6341f5576'',
    iformfl ''BLSIC_LAST'' ''a33876186faa85f1089247424f5807b54'',
    iformfl ''BLSMSK_FIRST'' ''a678f630ac0771638a4a3341ac1d3b65a'',
    iformfl ''BLSMSK_LAST'' ''acb64f07d563dd54e9d6d5526df26befb'',
    iformfl ''BLSR_FIRST'' ''a1c2c85b63d4286afdc3745569b0bb533'',
    iformfl ''BLSR_LAST'' ''a6927f9395d60088c28817a5a961bb363'',
    iformfl ''BNDCL_FIRST'' ''ac3f5408656658b91711faa4040b6f815'',
    iformfl ''BNDCL_LAST'' ''afc719838688f7ecb599bff47c3d542d8'',
    iformfl ''BNDCN_FIRST'' ''a68063cd4459232032e50b9caab913e11'',
    iformfl ''BNDCN_LAST'' ''a79a3b5941d49c4b04fbc2b50900aa413'',
    iformfl ''BNDCU_FIRST'' ''ace38180cf7b844d05e4b914693c13766'',
    iformfl ''BNDCU_LAST'' ''a42aad43c409807c053f67cbc35cc31f8'',
    iformfl ''BNDLDX_FIRST'' ''a5193176a6301c5d6c4bfaa2c822e2b3c'',
    iformfl ''BNDLDX_LAST'' ''a7120d6a7ce448f66f1c2f7f89e5e9a5b'',
    iformfl ''BNDMK_FIRST'' ''a427154aeebc1f4950850151d521392e9'',
    iformfl ''BNDMK_LAST'' ''aad2de44da6af32e19188217794bd997c'',
    iformfl ''BNDMOV_FIRST'' ''a3970a19da28ea006c0ef98fb25349a53'',
    iformfl ''BNDMOV_LAST'' ''a65a748b5786b1536be67001092d4350d'',
    iformfl ''BNDSTX_FIRST'' ''ac107ac7b163953e3c229c55da63190cb'',
    iformfl ''BNDSTX_LAST'' ''a5214acee2ad75f3f1fd0282e268b0f95'',
    iformfl ''BOUND_FIRST'' ''adc503499dfcf2232173c8c183623d4d8'',
    iformfl ''BOUND_LAST'' ''ae647aea752b1a72098162fc3ae2ee57e'',
    iformfl ''BSF_FIRST'' ''a08a341cc51d3b35de7fab219fb3980ad'',
    iformfl ''BSF_LAST'' ''a2710066637fab4a9673ee5e15d9dc4c4'',
    iformfl ''BSR_FIRST'' ''a9af0c1a958fd1627f192fc4788910c49'',
    iformfl ''BSR_LAST'' ''a2c2d9722837e317302ab723c1403bf08'',
    iformfl ''BSWAP_FIRST'' ''a03e6cf68ba4c7a89c343d8e4328470a8'',
    iformfl ''BSWAP_LAST'' ''a8d1ac0a03c9ff266c5c86e523e737126'',
    iformfl ''BT_FIRST'' ''acedb38791d66bf93d093e1f03ea0f017'',
    iformfl ''BT_LAST'' ''a9631ece4738cfb9b2ac09d642352a101'',
    iformfl ''BTC_FIRST'' ''a5a46f4de136ef3c4187fa92a9c6a6fc7'',
    iformfl ''BTC_LAST'' ''aeb4e3e62f54e4ba3aa574cffe63aec4c'',
    iformfl ''BTR_FIRST'' ''ae5e2fb3460b1dcbc6f9526be724836b3'',
    iformfl ''BTR_LAST'' ''a5c0112ca5953f11094843d64d6583991'',
    iformfl ''BTS_FIRST'' ''a39accd22fcec1cddda47eeac4d1d6f69'',
    iformfl ''BTS_LAST'' ''aaad2e295c552eb742b9d10e065d7137b'',
    iformfl ''BZHI_FIRST'' ''a17783dc4ad96476eb85ba76d440d1c17'',
    iformfl ''BZHI_LAST'' ''ad0232aa3964c71c3fa412b47bee73df6'',
    iformfl ''CALL_FAR_FIRST'' ''a4e6b304f793d15cb9e7030d82db1f171'',
    iformfl ''CALL_FAR_LAST'' ''a97e4d7a1bcecabfb01023f4d6e8f93d5'',
    iformfl ''CALL_NEAR_FIRST'' ''ad3aee0f11c08fc3d942544d4a2b20c7b'',
    iformfl ''CALL_NEAR_LAST'' ''a90b194db662421e981f3b97a9aae332d'',
    iformfl ''CBW_FIRST'' ''a79e629bdaf558914a0937adaa60b9d26'',
    iformfl ''CBW_LAST'' ''a5a90f9942c690e43055d28afd6234d20'',
    iformfl ''CDQ_FIRST'' ''a8706a41f5a82e05cf4e487641e75bc27'',
    iformfl ''CDQ_LAST'' ''a4ec8578e68dd45186b844c4daf44c594'',
    iformfl ''CDQE_FIRST'' ''ae3f10e39a2bbe1bffe7b3b4599529fc9'',
    iformfl ''CDQE_LAST'' ''a81ba4a031d05351f3e81872b6ac6e54e'',
    iformfl ''CLAC_FIRST'' ''a39cf16f6a3e013644f4b65924d8cfa69'',
    iformfl ''CLAC_LAST'' ''ac01247bb6d3b4e4b5033d7a12650c1f4'',
    iformfl ''CLC_FIRST'' ''ac7ab65ec1b0a9280fe85e20d5ef58aa2'',
    iformfl ''CLC_LAST'' ''a02a8b6958c13f02c51f7cbca21387949'',
    iformfl ''CLD_FIRST'' ''a671b6edd6e7b013ab1cedc228f78b847'',
    iformfl ''CLD_LAST'' ''af17eebd149ecce5b8e13ac0c6b13ecfe'',
    iformfl ''CLFLUSH_FIRST'' ''a66be513d7d680974bb65465d76f7281f'',
    iformfl ''CLFLUSH_LAST'' ''a050a703a19b027118d2b2b4711c35117'',
    iformfl ''CLFLUSHOPT_FIRST'' ''ad56ad2068021586c8f8c20915f1b07c3'',
    iformfl ''CLFLUSHOPT_LAST'' ''a965bd6b679f67547af6aeabb647178cf'',
    iformfl ''CLGI_FIRST'' ''a4a9d7736fc91a8724e969119c05c67b4'',
    iformfl ''CLGI_LAST'' ''a68000568a9ff467ff86c754fe09612c0'']"

lemma xed_iformfl_enum_8h_values_1_closed: "list_all (closed_node scripts) xed_iformfl_enum_8h_values_1"
  by (simp only: xed_iformfl_enum_8h_values_1_def closed_rules iformfl_closed)

definition xed_iformfl_enum_8h_values_2 :: "nav_node list" where
  "xed_iformfl_enum_8h_values_2 = [
    iformfl ''CLI_FIRST'' ''a5f93b206d4b27255f195b5b32b525da2'',
    iformfl ''CLI_LAST'' ''ab6a09a448807715d8e5a17c56e6b28ab'',
    iformfl ''CLTS_FIRST'' ''a9717af125c4cea9b2d30ac9d5b538767'',
    iformfl ''CLTS_LAST'' ''a072f78efd17bb982be81f807859aa314'',
    iformfl ''CLWB_FIRST'' ''aa8e00b9f2b626bedc0885cd105cca309'',
    iformfl ''CLWB_LAST'' ''ab569e79c7fa663b4b2d11c78e08cd284'',
    iformfl ''CMC_FIRST'' ''a5b82fab055b5692288655dfed8eb56a5'',
    iformfl ''CMC_LAST'' ''ae036a30f6abda1f7ebe55e1c0e7f7afd'',
    iformfl ''CMOVB_FIRST'' ''aecd05f4aedb439e67c8359f2f7fb1384'',
    iformfl ''CMOVB_LAST'' ''ae85a40d08ec94680f44ef2c7a89dc6fa'',
    iformfl ''CMOVBE_FIRST'' ''a7b3ac352b66c79e147508698f925bb31'',
    iformfl ''CMOVBE_LAST'' ''a543e929bb28004e9c32aab6a5cda07f0'',
    iformfl ''CMOVL_FIRST'' ''a7ae6280d2715f6c9b331abe86c0a9400'',
    iformfl ''CMOVL_LAST'' ''af5bf90b063d91391f2059537d6ecd24e'',
    iformfl ''CMOVLE_FIRST'' ''a56c5e2526a56192f8cacea0790c51344'',
    iformfl ''CMOVLE_LAST'' ''abdfad97309eac13405b028ab55a4ea28'',
    iformfl ''CMOVNB_FIRST'' ''a2bcd62e3e28d4f0642388ea45e70d3d2'',
    iformfl ''CMOVNB_LAST'' ''a133cd5401d873c6bbbb16421ec95309c'',
    iformfl ''CMOVNBE_FIRST'' ''afcfaeae2eea2bd2dea58aba8a988050d'',
    iformfl ''CMOVNBE_LAST'' ''a79eb5a435f53c6398afa9f6685ed801f'',
    iformfl ''CMOVNL_FIRST'' ''ad4cbf73e7c352c5ea9b312249f0d5f06'',
    iformfl ''CMOVNL_LAST'' ''ae2f139e63d6206c8e7c4e0ce4c3f5f10'',
    iformfl ''CMOVNLE_FIRST'' ''a42f00d9f50fbd1b8960fad33c5ae2230'',
    iformfl ''CMOVNLE_LAST'' ''a7a025d7836592830a6d088905510a1a3'',
    iformfl ''CMOVNO_FIRST'' ''a7d86aca5c5b72221aaeb824fb3ca4d02'',
    iformfl ''CMOVNO_LAST'' ''a271f986ff19d7113b5ea9bfd3031b817'',
    iformfl ''CMOVNP_FIRST'' ''a111993da1a636c23af8f236fe520dd48'',
    iformfl ''CMOVNP_LAST'' ''a5df2737d9e44ddd8fb4b683cd9b2c870'',
    iformfl ''CMOVNS_FIRST'' ''a5b7840ea916c0df5289704fb60794bcc'',
    iformfl ''CMOVNS_LAST'' ''af12af551022ef935c6900ebe94180f72'',
    iformfl ''CMOVNZ_FIRST'' ''acda13202a3f3654df57466add55e47e1'',
    iformfl ''CMOVNZ_LAST'' ''a07b3e23921b29394fb696fd47ae9a921'',
    iformfl ''CMOVO_FIRST'' ''abf629ffff3a3b563e1039ee3806f97d0'',
    iformfl ''CMOVO_LAST'' ''adf44d9557162c74e55e07216f12f8d3f'',
    iformfl ''CMOVP_FIRST'' ''aa402dcc217453c2d06cbcdffa51f4fdf'',
    iformfl ''CMOVP_LAST'' ''af176d224bd439b0f78e860ffa22d17d6'',
    iformfl ''CMOVS_FIRST'' ''ad54ecd8d92272965bfc81854b9e189e1'',
    iformfl ''CMOVS_LAST'' ''ae3ef6ceebbd9c6ee8a2df343355ce29f'',
    iformfl ''CMOVZ_FIRST'' ''a202448bcf55d830300cd5269d821e354'',
    iformfl ''CMOVZ_LAST'' ''afb0b58efa20a01de52ff3067e8d79a27'',
    iformfl ''CMP_FIRST'' ''a8e79a232e4917beed96654812ef6f2c5'',
    iformfl ''CMP_LAST'' ''a575daa7d42a275b971551b7545e90980'',
    iformfl ''CMPPD_FIRST'' ''a74348ee69b4745b478d9757fd8a1e0d8'',
    iformfl ''CMPPD_LAST'' ''a4a32833324c6628bb6a1ca12f18ae2fe'',
    iformfl ''CMPPS_FIRST'' ''aeccbabef4ad632a406227b068c30cf45'',
    iformfl ''CMPPS_LAST'' ''a400ef9e3ab1d62778c8af0ae004c3d6b'',
    iformfl ''CMPSB_FIRST'' ''a165d8a1c38f6dbe1b6c920cb0397183c'',
    iformfl ''CMPSB_LAST'' ''a767ec668c56c99fb6e7394c61e59ba9f'',
    iformfl ''CMPSD_FIRST'' ''a835049fdbb66f5e1c32c5cc78d3a7f94'',
    iformfl ''CMPSD_LAST'' ''a7ffad904aa5aa48536b6e9fb493cf7ad'',
    iformfl ''CMPSD_XMM_FIRST'' ''a90b0767dd959f5b8c5083ca6867d4371'',
    iformfl ''CMPSD_XMM_LAST'' ''af336db40d030bc43c9c3b184e2ff781f'',
    iformfl ''CMPSQ_FIRST'' ''a0f5e871cbfaee275e12bf21b16beb3f7'',
    iformfl ''CMPSQ_LAST'' ''a88ca7e5c5b717eebbb71326f3aae74c4'',
    iformfl ''CMPSS_FIRST'' ''aef8db0c79a049e4edbad673cd1323e52'',
    iformfl ''CMPSS_LAST'' ''a3114df15507737b5e4830464ec6c3efd'',
    iformfl ''CMPSW_FIRST'' ''a62bdeba6cb25da3a72270be730abea9d'',
    iformfl ''CMPSW_LAST'' ''ae1b65e9e61f942623ff9b317670c0542'',
    iformfl ''CMPXCHG_FIRST'' ''a4ff37704f0b913525e0741b7714dcefd'',
    iformfl ''CMPXCHG_LAST'' ''a4bce63e7914a73e7e411c2151fc53d3c'',
    iformfl ''CMPXCHG16B_FIRST'' ''a0fae5341e3574bd2593e442567cb6d00'',
    iformfl ''CMPXCHG16B_LAST'' ''a65570ebef0401323b4ef41e3b71f5327'',
    iformfl ''CMPXCHG8B_FIRST'' ''a3723a43c2aab2feb189bc99c38472a09'',
    iformfl ''CMPXCHG8B_LAST'' ''aa90dcae1133fb7950cc462dc580dd4d5'',
    iformfl ''COMISD_FIRST'' ''aff8dea2d16c980e300b1fdaf514f35ba'',
    iformfl ''COMISD_LAST'' ''a8bccf3a1993d023c8e1b8cda89b6be30'',
    iformfl ''COMISS_FIRST'' ''a0757916abddfe14f1d624a2f69ed0ffb'',
    iformfl ''COMISS_LAST'' ''a3d39974d11e97e59b7fea1b091e5c7e2'',
    iformfl ''CPUID_FIRST'' ''a55abbc9c414d023cb144f31d78aa49f6'',
    iformfl ''CPUID_LAST'' ''a7f2716f6fa034a5b839e76b275a4429f'',
    iformfl ''CQO_FIRST'' ''a2b076214d53b52a86f929b0c2f4c0b94'',
    iformfl ''CQO_LAST'' ''afc5bcf3d9c50c04df38d40b7f3597c99'',
    iformfl ''CRC32_FIRST'' ''adfead993ac90f4c50745a7e761185bdf'',
    iformfl ''CRC32_LAST'' ''a41164ed2d78e9ac50bcd4a7d6eb1db98'',
    iformfl ''CVTDQ2PD_FIRST'' ''a5ec8ffc58f52e4f3d8ea475bfa399496'',
    iformfl ''CVTDQ2PD_LAST'' ''a8f05641c754035167dadb48290878ee2'',
    iformfl ''CVTDQ2PS_FIRST'' ''a698b0444bc19d7f61b81f61effa69cc3'',
    iformfl ''CVTDQ2PS_LAST'' ''ae2b025cb12a77cafbac7211b06634b42'',
    iformfl ''CVTPD2DQ_FIRST'' ''af888c8cf4b8588ec3e20350893a78a17'',
    iformfl ''CVTPD2DQ_LAST'' ''a2ab4ec44b0f496a4380cfeb2d2f64c78'',
    iformfl ''CVTPD2PI_FIRST'' ''a1459fe3bdba838a53e430edaa17d9f33'',
    iformfl ''CVTPD2PI_LAST'' ''a7482c4c87c2f72861ebefff1900aea95'',
    iformfl ''CVTPD2PS_FIRST'' ''ad1cad23218b6195ec1974c7fbe9b4083'',
    iformfl ''CVTPD2PS_LAST'' ''a169816c246d78fc960926045ff8b6a8f'',
    iformfl ''CVTPI2PD_FIRST'' ''a4ba229a389536a87c84d432b2f76a7d7'',
    iformfl ''CVTPI2PD_LAST'' ''a0d8c74a6ac44848f0290b62a1e2ffe02'',
    iformfl ''CVTPI2PS_FIRST'' ''a8dc2046e2ec21acb807bc155988ebfa3'',
    iformfl ''CVTPI2PS_LAST'' ''a376bb700c8589d2630e913ee97241285'',
    iformfl ''CVTPS2DQ_FIRST'' ''a3432b12bb4109448b041ec93c1edf220'',
    iformfl ''CVTPS2DQ_LAST'' ''af2f0b4f41e2c57d9fe8dc4ea0cc94232'',
    iformfl ''CVTPS2PD_FIRST'' ''ad02a1fd983ba5f42fbd89130bd3dacf4'',
    iformfl ''CVTPS2PD_LAST'' ''aa6d461ab3d626152863952881fc8be2d'',
    iformfl ''CVTPS2PI_FIRST'' ''a261be2c55b5431ff668b7ce5b2202b83'',
    iformfl ''CVTPS2PI_LAST'' ''a75b00d0245a457db8333cff4f5222cda'',
    iformfl ''CVTSD2SI_FIRST'' ''a84ca64401752d6c47008239ac1741f0c'',
    iformfl ''CVTSD2SI_LAST'' ''a8670cd5e9cd47012de266c78e13819a6'',
    iformfl ''CVTSD2SS_FIRST'' ''aaba7ab4b1d336c28ec92ba785208d0fa'',
    iformfl ''CVTSD2SS_LAST'' ''aff39913862ca9618f9b398538068c1bc'',
    iformfl ''CVTSI2SD_FIRST'' ''a0abe71d27c791206781d39a89a2169da'',
    iformfl ''CVTSI2SD_LAST'' ''a57d9b102973fae72496de7b5aaaf7069'',
    iformfl ''CVTSI2SS_FIRST'' ''a6cc1ff329f68278a25e6911f8eee24ed'',
    iformfl ''CVTSI2SS_LAST'' ''a76289280b79066152f07661b0dfec808'',
    iformfl ''CVTSS2SD_FIRST'' ''adfaf4eb6b55ca382ecbe3b8c96c7d985'',
    iformfl ''CVTSS2SD_LAST'' ''ab6acc74eb927953c039c84a4b208840c'',
    iformfl ''CVTSS2SI_FIRST'' ''a9ba9f5a5acd29e12426d539d6219b78a'',
    iformfl ''CVTSS2SI_LAST'' ''a4666a73e68d76abea833f185949593b6'',
    iformfl ''CVTTPD2DQ_FIRST'' ''a2e0900900de95d3dec9100368a693b0f'',
    iformfl ''CVTTPD2DQ_LAST'' ''a52aa4e2310f923c70aa7633423f2e655'',
    iformfl ''CVTTPD2PI_FIRST'' ''aaeeb53041a71ecca17d2c57190b5fa23'',
    iformfl ''CVTTPD2PI_LAST'' ''a0567333efbd85489ec5c50249843322c'',
    iformfl ''CVTTPS2DQ_FIRST'' ''a7600357c3735b10a8fe85066708a3117'',
    iformfl ''CVTTPS2DQ_LAST'' ''a9a98717c952f402e1350d078b55cfce1'',
    iformfl ''CVTTPS2PI_FIRST'' ''ad84b4a8992c2285c135d685542a3d6f9'',
    iformfl ''CVTTPS2PI_LAST'' ''a18ff6877788c9f6ca3141bc25702958e'',
    iformfl ''CVTTSD2SI_FIRST'' ''ae5502c2da5c50791f96f2626a1caaf86'',
    iformfl ''CVTTSD2SI_LAST'' ''a2199e276f5795814de9cba32ef53f0ae'',
    iformfl ''CVTTSS2SI_FIRST'' ''a085dce1027454c48ccccf89c744ac398'',
    iformfl ''CVTTSS2SI_LAST'' ''afa68e057dcf361d846c2cf748ed17c06'',
    iformfl ''CWD_FIRST'' ''aa5f014aa814f72feb01a040165577ca7'',
    iformfl ''CWD_LAST'' ''ab3bf47b0ffeb968aa9b1d06dec135e87'',
    iformfl ''CWDE_FIRST'' ''a9ed0d5626b6ae7548ab146087809cb6f'',
    iformfl ''CWDE_LAST'' ''a78fd12dc1040c90a9133cf96d88b5818'',
    iformfl ''DAA_FIRST'' ''afb31aa691e9ccbf5ed5cace2aa0b3be2'',
    iformfl ''DAA_LAST'' ''a79d4eb2e53bfdb7823d978d478816118'',
    iformfl ''DAS_FIRST'' ''a49ff065593da9c5a46fed447c48a81a7'',
    iformfl ''DAS_LAST'' ''a8356da5455b0be634922f843b149bfae'',
    iformfl ''DEC_FIRST'' ''a2b6840f4fff40fd9bc5da45473afbfd4'',
    iformfl ''DEC_LAST'' ''a71faf7ddd5d168127c8ad52466dfbd87'',
    iformfl ''DIV_FIRST'' ''a1e23f765f62ac2d90f4a5ad4f0744f50'',
    iformfl ''DIV_LAST'' ''a78b9d019b79351911c4b5fc0357d0548'',
    iformfl ''DIVPD_FIRST'' ''ae92d38a8099f8803968b84eb4cf9e135'',
    iformfl ''DIVPD_LAST'' ''a8faa2ae20703d69d8c63d29c93cfb0ee'',
    iformfl ''DIVPS_FIRST'' ''ac9673bb83da0b0345f5f6621446e4c7f'',
    iformfl ''DIVPS_LAST'' ''a5a601735a50e94b4d7c5aa73b8f2b9dd'',
    iformfl ''DIVSD_FIRST'' ''aeb30c3b2e6829f944f38c8d4a50ceee8'',
    iformfl ''DIVSD_LAST'' ''a24efc2ce43230d7932e185c05368647d'',
    iformfl ''DIVSS_FIRST'' ''a901f134edb7dbc6ef46ae00328e0836d'',
    iformfl ''DIVSS_LAST'' ''a687dff14652ccff9505f2033407ec39f'',
    iformfl ''DPPD_FIRST'' ''a4089fa85025865c0e11194e4a3f61ccb'',
    iformfl ''DPPD_LAST'' ''a6fce3061725e2c7851bcdef948f21c9b'']"

lemma xed_iformfl_enum_8h_values_2_closed: "list_all (closed_node scripts) xed_iformfl_enum_8h_values_2"
  by (simp only: xed_iformfl_enum_8h_values_2_def closed_rules iformfl_closed)

definition xed_iformfl_enum_8h_values_3 :: "nav_node list" where
  "xed_iformfl_enum_8h_values_3 = [
    iformfl ''DPPS_FIRST'' ''a94e6f79d0be2767d0b23f28fcb4b41d2'',
    iformfl ''DPPS_LAST'' ''a35c3bed4302d40b84625e6d66496ca06'',
    iformfl ''EMMS_FIRST'' ''a1f253678a3a98597563b2e9d8da00957'',
    iformfl ''EMMS_LAST'' ''a8f95699ae32aa3f6bc9828f4dd0aa035'',
    iformfl ''ENCLS_FIRST'' ''ac278709af271d25c6f33f197ae0788f2'',
    iformfl ''ENCLS_LAST'' ''add8bfabc11a775cbe9d01a43efeeb3a1'',
    iformfl ''ENCLU_FIRST'' ''a17eb3ad53b13651d670e95bd4722603b'',
    iformfl ''ENCLU_LAST'' ''aa8fcf694ff05c5c1013364a1159e9a04'',
    iformfl ''ENTER_FIRST'' ''a3f4773388720e5f607c06516c20e6337'',
    iformfl ''ENTER_LAST'' ''a21fb75a9beffe808b0836e47d711a8a4'',
    iformfl ''EXTRACTPS_FIRST'' ''a12013aecff86c82ac4347315c2f7f5f0'',
    iformfl ''EXTRACTPS_LAST'' ''a9d90a800ba1a27edf75b2e3abadd87f0'',
    iformfl ''EXTRQ_FIRST'' ''a8305b5c1d2ba8a74038e4771b4420f75'',
    iformfl ''EXTRQ_LAST'' ''a7fdb59f2f41f3b82fc01f7498615190b'',
    iformfl ''F2XM1_FIRST'' ''a64b92eb7f354021898431bc74923bed3'',
    iformfl ''F2XM1_LAST'' ''a332a08bff04fe968a49c28b0214bd4ee'',
    iformfl ''FABS_FIRST'' ''af10593ebc9ee92d5299205b528fddb58'',
    iformfl ''FABS_LAST'' ''ae3ef4a1e40dbea714dee25fd8ab554d3'',
    iformfl ''FADD_FIRST'' ''afa280c1a63bf062f2de18f199734622f'',
    iformfl ''FADD_LAST'' ''a49495afeac30b7d23237d4e050f1a073'',
    iformfl ''FADDP_FIRST'' ''ad3fd9bd171bede1939352c5dd4e3af6e'',
    iformfl ''FADDP_LAST'' ''af691acd7c6959bfb00a5dea81c8c34f4'',
    iformfl ''FBLD_FIRST'' ''aa97b6ac3c8480eb3202b24b39800507d'',
    iformfl ''FBLD_LAST'' ''a1d2f7f2ff96d4e206e5e1d8433e43862'',
    iformfl ''FBSTP_FIRST'' ''a344a82fb3c888017ffeed8117010593c'',
    iformfl ''FBSTP_LAST'' ''a581068811a4958685baee53024ebae81'',
    iformfl ''FCHS_FIRST'' ''a89eb47666ed2a4af202854b223e4deff'',
    iformfl ''FCHS_LAST'' ''aad528dd27979a03845a8d5490c02cb71'',
    iformfl ''FCMOVB_FIRST'' ''ac18e062104aaf079087af43eefd496f2'',
    iformfl ''FCMOVB_LAST'' ''ab0914e3e104f147a16739101c5cf7a21'',
    iformfl ''FCMOVBE_FIRST'' ''a9adb3c5441bb062d454176a9567bf94f'',
    iformfl ''FCMOVBE_LAST'' ''a0cae6a1f8ede32443abaa79904b81831'',
    iformfl ''FCMOVE_FIRST'' ''aee2a229d768b2aa3aec269f58071b39d'',
    iformfl ''FCMOVE_LAST'' ''ad2afc10203a797bef9534efb7677e66e'',
    iformfl ''FCMOVNB_FIRST'' ''a590aeda76c60ec700c7cea5c57ebf5f4'',
    iformfl ''FCMOVNB_LAST'' ''a6f5f93bd77060feef9af6a4c0f55e87e'',
    iformfl ''FCMOVNBE_FIRST'' ''a31519325b363b43eecf73fdc44e3ed12'',
    iformfl ''FCMOVNBE_LAST'' ''a6732b39df5bf766d2002d47811526b23'',
    iformfl ''FCMOVNE_FIRST'' ''ab21c176e53934f128ba031ca1bf7d8ef'',
    iformfl ''FCMOVNE_LAST'' ''a8482fd820fd7a5fc7170adfd2e5eb7fd'',
    iformfl ''FCMOVNU_FIRST'' ''a1cf4fac16dc4c08605ee2fe9a5dc3622'',
    iformfl ''FCMOVNU_LAST'' ''a4a9a93e73200e42f18bf1a661513c60f'',
    iformfl ''FCMOVU_FIRST'' ''af6ed0958234171c6362da5f7c0b77281'',
    iformfl ''FCMOVU_LAST'' ''ab7cf86ee51abc4e943edafe286358500'',
    iformfl ''FCOM_FIRST'' ''a4c7923de05cebe65a8d4391c41f11df0'',
    iformfl ''FCOM_LAST'' ''ac41f13ec5c2fc09fc00786f67c050f22'',
    iformfl ''FCOMI_FIRST'' ''a36a0e3b28e43a5c9532b74fd31385b2d'',
    iformfl ''FCOMI_LAST'' ''a39ca8a4a86c3031097b8eb887adaaa2f'',
    iformfl ''FCOMIP_FIRST'' ''a9ff899c574ad1d134469b3d8f1cab720'',
    iformfl ''FCOMIP_LAST'' ''a1e9768fd05ddcc1df9980c116e4f99d5'',
    iformfl ''FCOMP_FIRST'' ''aa5161bec9aa155e6ff2919798e6b3de8'',
    iformfl ''FCOMP_LAST'' ''a61ea24beaa7eed06036a67a322b4eb83'',
    iformfl ''FCOMPP_FIRST'' ''ad5160f260953b6291b9c233d3fd3dc0d'',
    iformfl ''FCOMPP_LAST'' ''aeedcbaae9774b71d058f0dd00d9153c8'',
    iformfl ''FCOS_FIRST'' ''a20a82d5e2111489de9d48ccb2f45aa0f'',
    iformfl ''FCOS_LAST'' ''abb05464cf31e88a6a3409373e303fc63'',
    iformfl ''FDECSTP_FIRST'' ''a9cb86e0ce38f29717ecadaf9ed9e6b33'',
    iformfl ''FDECSTP_LAST'' ''aad4c5d387653408c72d039be6185f3d2'',
    iformfl ''FDISI8087_NOP_FIRST'' ''af58dd7bc09dcb8a61d72926393db1403'',
    iformfl ''FDISI8087_NOP_LAST'' ''ae410b6faa41e10a2f51357ce8da5ba26'',
    iformfl ''FDIV_FIRST'' ''a76b3be09f690e77ac0428b3e8dced691'',
    iformfl ''FDIV_LAST'' ''ac9f9066f49a8ef6aef463a1cc68aa266'',
    iformfl ''FDIVP_FIRST'' ''a3ab1834d898afedc6669424dd1b20dff'',
    iformfl ''FDIVP_LAST'' ''a45db6f0274987479a5170941a47c0a3e'',
    iformfl ''FDIVR_FIRST'' ''add5e3d418c08e6af3e7d071d8602f563'',
    iformfl ''FDIVR_LAST'' ''a1554a4e9ba2addbe44adb36b9953dc87'',
    iformfl ''FDIVRP_FIRST'' ''aacbdf023ce55cc7bdde0b454a5fe4f39'',
    iformfl ''FDIVRP_LAST'' ''a83c14361ae6128a68694a4c367bf0150'',
    iformfl ''FEMMS_FIRST'' ''adfdcc4e5f1861663d2951b95ba0a2aad'',
    iformfl ''FEMMS_LAST'' ''a88977928e7b3b829eb083ef68e107282'',
    iformfl ''FENI8087_NOP_FIRST'' ''a24a319801e36302f9554c6a4b1c27fe8'',
    iformfl ''FENI8087_NOP_LAST'' ''a483e25bf06124a9f5cc52e445c1b344f'',
    iformfl ''FFREE_FIRST'' ''a21adb924f37881d1103cad8bbb2c8a41'',
    iformfl ''FFREE_LAST'' ''a97abf8c86414ae4f723d1898fab471e5'',
    iformfl ''FFREEP_FIRST'' ''a6312d32295c0936d9d5b899f83706480'',
    iformfl ''FFREEP_LAST'' ''ac5b77d95c5c06dadbe79550299011e6b'',
    iformfl ''FIADD_FIRST'' ''ae716b00340f1ffa1ab2415df19ef1490'',
    iformfl ''FIADD_LAST'' ''ad298f77e4f762aae4e72a39a5ec5b9f5'',
    iformfl ''FICOM_FIRST'' ''a6c6010b68f5ad9cbb4ebe75a3db0468b'',
    iformfl ''FICOM_LAST'' ''ac60522351f4e4740f58758b83f099ae2'',
    iformfl ''FICOMP_FIRST'' ''a0d7644ae59c8965ffb8cb294f13dafc1'',
    iformfl ''FICOMP_LAST'' ''a3d15418a5b40a68c4e5345c69eda9e17'',
    iformfl ''FIDIV_FIRST'' ''aa4e649b2ae2c0734345977ff7a0afddf'',
    iformfl ''FIDIV_LAST'' ''a100af59bca4430e725c5ecbf70b2bd2d'',
    iformfl ''FIDIVR_FIRST'' ''a1c75113b552c375b6c3d01559a8ba437'',
    iformfl ''FIDIVR_LAST'' ''abc19fe71359b6611101954b7ed6af374'',
    iformfl ''FILD_FIRST'' ''a050ac402d0c1e6bce050e1af4b12d5a4'',
    iformfl ''FILD_LAST'' ''ac805e6a51a04ad13a24bb26a3dd6baaa'',
    iformfl ''FIMUL_FIRST'' ''ad1a58e40a028a6f3fed9b3e3ce9aad56'',
    iformfl ''FIMUL_LAST'' ''a6c2b0acc81474b9534a61be788c6fdbb'',
    iformfl ''FINCSTP_FIRST'' ''abeea66285aace60321480ac90519c493'',
    iformfl ''FINCSTP_LAST'' ''a83853b205c1ef7323956450f1d796898'',
    iformfl ''FIST_FIRST'' ''af620d5e48c1a40152f3ee96118e40b88'',
    iformfl ''FIST_LAST'' ''a772180196501bd23b4bb27029eb90f67'',
    iformfl ''FISTP_FIRST'' ''a92e599813a3f729221e1d1dde460ec95'',
    iformfl ''FISTP_LAST'' ''a4d91347649642fed28a7f8b1e9c28dba'',
    iformfl ''FISTTP_FIRST'' ''a82c5b47df1dbaefd85124a7cc97223cc'',
    iformfl ''FISTTP_LAST'' ''a434d9b327e2de2f4b5a3c8482f1ca6f6'',
    iformfl ''FISUB_FIRST'' ''adac484c955774417228e38496aecff33'',
    iformfl ''FISUB_LAST'' ''a1987255baa847b557356a7c57ff3f6c1'',
    iformfl ''FISUBR_FIRST'' ''ac8dab9738bd890207dd1507e486378b8'',
    iformfl ''FISUBR_LAST'' ''a919c3cd1d00241439b853eab86aa3a87'',
    iformfl ''FLD_FIRST'' ''ad1baf694ed6cdf21708b6ee236a8a1d7'',
    iformfl ''FLD_LAST'' ''a2fbcd42627b3e77fff14fcecdfd4b8a1'',
    iformfl ''FLD1_FIRST'' ''a17b42c70f4a6b8e94e0533d6e88d698e'',
    iformfl ''FLD1_LAST'' ''a9e2d9609f6a30696838600905d8828c2'',
    iformfl ''FLDCW_FIRST'' ''af2f7c57bb715a8b33f92e89af1695b8d'',
    iformfl ''FLDCW_LAST'' ''a6a5a4702bd9763ded58efe13747ffb13'',
    iformfl ''FLDENV_FIRST'' ''a5b268402eb8daa6162f887a841273df8'',
    iformfl ''FLDENV_LAST'' ''a4c1cfeca735d79c82ad1bd9e01042459'',
    iformfl ''FLDL2E_FIRST'' ''a10cebec4c5670a59202d37c315aa8aab'',
    iformfl ''FLDL2E_LAST'' ''a729e389f8ad9ccfe90b594a2b135c22c'',
    iformfl ''FLDL2T_FIRST'' ''a0bb5c4e56bbe3cee0d36f17acd214da3'',
    iformfl ''FLDL2T_LAST'' ''ab7e661701f193ea1a37b1fe0c94dacc7'',
    iformfl ''FLDLG2_FIRST'' ''a5f2543d6969b87a4a0d13225accc1f59'',
    iformfl ''FLDLG2_LAST'' ''ae5618ef95ce2ef61e05aec41d3e998da'',
    iformfl ''FLDLN2_FIRST'' ''a1f8ea99a673a1a0abc0215bb8a3a4ddf'',
    iformfl ''FLDLN2_LAST'' ''acd64ecf87ee74fd8ed418cd553553628'',
    iformfl ''FLDPI_FIRST'' ''a0fb47a9437463d9e8781087297dc4f52'',
    iformfl ''FLDPI_LAST'' ''a0c8c5d4d1be6b9067593ede167e8935c'',
    iformfl ''FLDZ_FIRST'' ''a910e3b48dcc850436027058c898a561a'',
    iformfl ''FLDZ_LAST'' ''a9cc7dae2d944951272dade42f4cf73ac'',
    iformfl ''FMUL_FIRST'' ''ac6c88e0844db5e81b86dd1bca56f8053'',
    iformfl ''FMUL_LAST'' ''a6b9e27ce4a523276d4c4d4170097d617'',
    iformfl ''FMULP_FIRST'' ''a56c4bb4ab814cd297cbfdc367ad62d21'',
    iformfl ''FMULP_LAST'' ''a370f61b39d08241452f62e69c2163b62'',
    iformfl ''FNCLEX_FIRST'' ''a4bb15c220a43ed9dfb707367f49beb98'',
    iformfl ''FNCLEX_LAST'' ''abb05eb6e1bfe259e86ae9c3aecc6cbb8'',
    iformfl ''FNINIT_FIRST'' ''a967f20f9587e1ab7e5035dc0ed57923a'',
    iformfl ''FNINIT_LAST'' ''abb2b31b78e2c9cc5070e4638444bb8ad'',
    iformfl ''FNOP_FIRST'' ''ad76fe714df11ba2a0e13639e4b265627'',
    iformfl ''FNOP_LAST'' ''a0ee1d227fa500e25f69f793f058cb346'',
    iformfl ''FNSAVE_FIRST'' ''a6c1a88224981f44909e1c97eb7efd78c'',
    iformfl ''FNSAVE_LAST'' ''abde610989380c1ddd91a37c1619284a8'',
    iformfl ''FNSTCW_FIRST'' ''a8b0ff72fb88e1d65cc4b295496abf45a'',
    iformfl ''FNSTCW_LAST'' ''a2478a7eb5ef8fe95d0504b554389d2b9'',
    iformfl ''FNSTENV_FIRST'' ''ab4428de3276ca973167409938d382a0b'',
    iformfl ''FNSTENV_LAST'' ''a5b40a92257ec0e3f2e5229dcba768484'',
    iformfl ''FNSTSW_FIRST'' ''a3e2ad3210d04cb7f7881a215966dc1d2'',
    iformfl ''FNSTSW_LAST'' ''aa11ccd33676449c3271c313f4c642b3c'']"

lemma xed_iformfl_enum_8h_values_3_closed: "list_all (closed_node scripts) xed_iformfl_enum_8h_values_3"
  by (simp only: xed_iformfl_enum_8h_values_3_def closed_rules iformfl_closed)

definition xed_iformfl_enum_8h_values_4 :: "nav_node list" where
  "xed_iformfl_enum_8h_values_4 = [
    iformfl ''FPATAN_FIRST'' ''a08bc0f980a72f94ab7ff98610db237a6'',
    iformfl ''FPATAN_LAST'' ''a27549ee4c1f88f79b97960ec848110f6'',
    iformfl ''FPREM_FIRST'' ''a6609546178a577e5cd5b570b77ebc33c'',
    iformfl ''FPREM_LAST'' ''af37368c0ebb946c64a768a7e82c8ecfe'',
    iformfl ''FPREM1_FIRST'' ''a14146e337b1fc3b87aa4ce0d18a58213'',
    iformfl ''FPREM1_LAST'' ''a409f3245051b52c1c3646d2fefc5c520'',
    iformfl ''FPTAN_FIRST'' ''a616cd76c6b697d97d5f6cea3ee49857f'',
    iformfl ''FPTAN_LAST'' ''a1d9614fa04b4155fd15b8431295a9f81'',
    iformfl ''FRNDINT_FIRST'' ''a2d9c1a2cb5fd9f934dd3b21eb34c9fd7'',
    iformfl ''FRNDINT_LAST'' ''a2a842dffe5d694e20c68f136c799fb82'',
    iformfl ''FRSTOR_FIRST'' ''a1ebb0c518016ce6d123a07b9aa81c02b'',
    iformfl ''FRSTOR_LAST'' ''a20f6c1d948f8460b7b76057dcf731b88'',
    iformfl ''FSCALE_FIRST'' ''a6f2293896612f473d27c7e53f4c3595b'',
    iformfl ''FSCALE_LAST'' ''a0952e5cb3615af22e29546f38178469d'',
    iformfl ''FSETPM287_NOP_FIRST'' ''a957e8b63a134a303d762ef12688e7ff7'',
    iformfl ''FSETPM287_NOP_LAST'' ''ade26f60b3b04945ceb05c5875716cf24'',
    iformfl ''FSIN_FIRST'' ''a1cdb5a67702742dd18cb420a9e8b15d9'',
    iformfl ''FSIN_LAST'' ''a8e446b1a8810c5291b5a13941ebb7566'',
    iformfl ''FSINCOS_FIRST'' ''a3ff8d54fcb3f616ccf3b2b8a70afeeb9'',
    iformfl ''FSINCOS_LAST'' ''af6afa7690eab6be2e464f90c2ad8d339'',
    iformfl ''FSQRT_FIRST'' ''a4d3bb32c8f0d8d7b5bf24b8af19a3717'',
    iformfl ''FSQRT_LAST'' ''ae5f2a333e3d011bd45abfbedf809161f'',
    iformfl ''FST_FIRST'' ''a57fd3f73a90742a17d819c4a9359fb2b'',
    iformfl ''FST_LAST'' ''a18908c678baca85d42782973ea15ab56'',
    iformfl ''FSTP_FIRST'' ''a1923412cc9e92087e26abf8114204c7d'',
    iformfl ''FSTP_LAST'' ''a364bc014583d56d432989df4dc3e060d'',
    iformfl ''FSTPNCE_FIRST'' ''a89e6eb80e43de553a605aa8e160d73e8'',
    iformfl ''FSTPNCE_LAST'' ''a01eb5ede5e254d09e4997d21d63aadf3'',
    iformfl ''FSUB_FIRST'' ''a4e77f2a77b3ff79c5c008cd7c9540e61'',
    iformfl ''FSUB_LAST'' ''acc2a64a6b4bb6411c78d4e41497165b6'',
    iformfl ''FSUBP_FIRST'' ''af7d2d6111d9a4f1f915af65040176303'',
    iformfl ''FSUBP_LAST'' ''aaeed114ed278ea963abf6c0aee5da2bf'',
    iformfl ''FSUBR_FIRST'' ''afcd7aacb3b060af72622026d690ea0a0'',
    iformfl ''FSUBR_LAST'' ''af3d5cbe0ff2366d6fec1dabf6ea83413'',
    iformfl ''FSUBRP_FIRST'' ''ac010b97dab352cc9f239cf165b314182'',
    iformfl ''FSUBRP_LAST'' ''a512be7e419b2546519c290f7d5983711'',
    iformfl ''FTST_FIRST'' ''a36bddf6c270441f02641479c9ec44919'',
    iformfl ''FTST_LAST'' ''a43762e5de4ad38a282744feb2ee6f432'',
    iformfl ''FUCOM_FIRST'' ''a102230dfc140bb0a462c65f147e224c7'',
    iformfl ''FUCOM_LAST'' ''a5426bc7843a3c5add2e7b6f2bddde8ca'',
    iformfl ''FUCOMI_FIRST'' ''a53e160b5e6fa89003f76d470f8075bd0'',
    iformfl ''FUCOMI_LAST'' ''a1ff970f411fed282bbd4fb0526180b13'',
    iformfl ''FUCOMIP_FIRST'' ''a808a3d47ff92da851b11782b6fc905bf'',
    iformfl ''FUCOMIP_LAST'' ''a9a67732a66acfe3162c90862d768f28d'',
    iformfl ''FUCOMP_FIRST'' ''ac5b858a81900371a436cd38cd465509e'',
    iformfl ''FUCOMP_LAST'' ''a0d905b40293face6266905affa0080ae'',
    iformfl ''FUCOMPP_FIRST'' ''a72312a36133ddf6466a1e68075cd4e42'',
    iformfl ''FUCOMPP_LAST'' ''abcb6ebc8a1707afb71e7d1a76b25aaa8'',
    iformfl ''FWAIT_FIRST'' ''a42527aa11b8224501794639895758b31'',
    iformfl ''FWAIT_LAST'' ''a937876b6b33c216a66fe677dc912e2bb'',
    iformfl ''FXAM_FIRST'' ''a7fa1257deee7a3b8041f6ad67fa0138a'',
    iformfl ''FXAM_LAST'' ''a7ee14e25b0b595adc4c5b44f86168b4d'',
    iformfl ''FXCH_FIRST'' ''a03a74abf4f706faa9c2e7564314f9f02'',
    iformfl ''FXCH_LAST'' ''a65020806dce8dc6dea6a3b13278d92ea'',
    iformfl ''FXRSTOR_FIRST'' ''a4598b0089902e9d6cec3f7e1c8c60249'',
    iformfl ''FXRSTOR_LAST'' ''a4f428108ac08069519f2a9e979db90a1'',
    iformfl ''FXRSTOR64_FIRST'' ''a4b462e82ec3840e5b4615fe145ab9d8a'',
    iformfl ''FXRSTOR64_LAST'' ''a80029700c3604e9d43ce80a552dc0b0e'',
    iformfl ''FXSAVE_FIRST'' ''a644e5cab34d6a4b2ac90d1661347bfb4'',
    iformfl ''FXSAVE_LAST'' ''a410dd48aaa0278ab381826e78d96c45c'',
    iformfl ''FXSAVE64_FIRST'' ''ae0b98ec906167120187bb99143a55084'',
    iformfl ''FXSAVE64_LAST'' ''a399704593a775d908b1030965ad0ce6d'',
    iformfl ''FXTRACT_FIRST'' ''a466feec4407b346a0d13ab48de95717d'',
    iformfl ''FXTRACT_LAST'' ''a69396252b8acbaf5a22befb9cb5fdd6d'',
    iformfl ''FYL2X_FIRST'' ''ab451efbe97e19aec8bb094116a09da01'',
    iformfl ''FYL2X_LAST'' ''ae64d3e462686f7e2a17ee3b9959e3673'',
    iformfl ''FYL2XP1_FIRST'' ''ab57bd078ea6b9fc55083c9490801b31b'',
    iformfl ''FYL2XP1_LAST'' ''a6565da792871ef771c2a3ba547c12ec8'',
    iformfl ''GETSEC_FIRST'' ''a6258a863f74fc5a7217d40b495395e07'',
    iformfl ''GETSEC_LAST'' ''ad8af69c1e63a364e49f54e8b8ede9a98'',
    iformfl ''HADDPD_FIRST'' ''acba528baa0daa4f55d90ea3a1d595d17'',
    iformfl ''HADDPD_LAST'' ''a0a9c2d128569f57d4f8f994ab0a999b5'',
    iformfl ''HADDPS_FIRST'' ''a6b430c1c37cefba63e3c6da48feeefc0'',
    iformfl ''HADDPS_LAST'' ''a8f0315055fd0d771e0d5cfb3cb7cf259'',
    iformfl ''HLT_FIRST'' ''a3f2d29fce3a19ec284d32e53bc79aa41'',
    iformfl ''HLT_LAST'' ''ae419ece130a1e05023689b64699d7eea'',
    iformfl ''HSUBPD_FIRST'' ''ab4d04b231cee740d70d04106962f8670'',
    iformfl ''HSUBPD_LAST'' ''af5e46eb699246c06eaa72c471152c765'',
    iformfl ''HSUBPS_FIRST'' ''aa9bcaa96b380bd75d85c5e85b4b71880'',
    iformfl ''HSUBPS_LAST'' ''a1c3b58071315f554ab0f0da8a385d970'',
    iformfl ''IDIV_FIRST'' ''af5b9083b37dc36c4183124716b4f532c'',
    iformfl ''IDIV_LAST'' ''a6e6e0b19bdb5748ef5ef0de7362d9639'',
    iformfl ''IMUL_FIRST'' ''a13d891f13af17608353b3598fdcc36c4'',
    iformfl ''IMUL_LAST'' ''aec4f95b5b63d77aa72ee2683d30dc27c'',
    iformfl ''IN_FIRST'' ''a40991c93525c294d9c2350432ca0d304'',
    iformfl ''IN_LAST'' ''a7fb06b3568687c751d331635d61d401b'',
    iformfl ''INC_FIRST'' ''a94a686c8922ea7f35e4bd97c16f73603'',
    iformfl ''INC_LAST'' ''a31c830655251533f28f720c7d47349ec'',
    iformfl ''INSB_FIRST'' ''af207b40bcd772f85a9b3a20e06504d87'',
    iformfl ''INSB_LAST'' ''a84e858140d54cc6640d254aef1b82afd'',
    iformfl ''INSD_FIRST'' ''a57d2cb6873ce4878f721f169c98d6a0a'',
    iformfl ''INSD_LAST'' ''a9ee879aa331dfd7cfe2d69c8cb5ee836'',
    iformfl ''INSERTPS_FIRST'' ''a8389e988860949f807a923ea29b79c36'',
    iformfl ''INSERTPS_LAST'' ''aedbd55f33407d795ba7af0f38281d980'',
    iformfl ''INSERTQ_FIRST'' ''a8660b9d943de3fa4d1044b3eb6766dd8'',
    iformfl ''INSERTQ_LAST'' ''a6526449f6e092b20332fa1921360d352'',
    iformfl ''INSW_FIRST'' ''ac70263a9dc3a2854469d2827b6f01cb7'',
    iformfl ''INSW_LAST'' ''a44e513fb08a7cd31a2d870670ab2d028'',
    iformfl ''INT_FIRST'' ''a64524af0f1924e18a3262ef8ba54882b'',
    iformfl ''INT_LAST'' ''a6cafd5e33b718e781d5abc0565976402'',
    iformfl ''INT1_FIRST'' ''af5698fc818d94be0bcf33be334484d9a'',
    iformfl ''INT1_LAST'' ''aef11a11411f190810d2753c8781f2232'',
    iformfl ''INT3_FIRST'' ''a99f6682b56f4cfd16cb5dbf5b1f955da'',
    iformfl ''INT3_LAST'' ''aa4dd1a225cecb46298c7fdc0ccd1e453'',
    iformfl ''INTO_FIRST'' ''adda3a840411b132f469feeb714e0dae6'',
    iformfl ''INTO_LAST'' ''acc6325d7e784b8d6632faef3388a8837'',
    iformfl ''INVD_FIRST'' ''a94b47e1085eca644b2ecd570d5114ea7'',
    iformfl ''INVD_LAST'' ''a5d76b192e6292728481c8deab8b89953'',
    iformfl ''INVEPT_FIRST'' ''a3c03558f56ccbff846af4c020f2b3d61'',
    iformfl ''INVEPT_LAST'' ''aef29a0092a0d008f3eaa9933b3b934ab'',
    iformfl ''INVLPG_FIRST'' ''a39b828bf6c7f8ed3c39941d4812dfc26'',
    iformfl ''INVLPG_LAST'' ''a0ac1c9129a171db93493aeda1fc22a94'',
    iformfl ''INVLPGA_FIRST'' ''a3f204e33ac85e19d2c7785ef33a4f7d1'',
    iformfl ''INVLPGA_LAST'' ''ab736b0ba7a9aba293bd450f52c5379cd'',
    iformfl ''INVPCID_FIRST'' ''adf9dc5e21b44cefef7cde5e74690ec40'',
    iformfl ''INVPCID_LAST'' ''a84b6813e202277cfa10e02205b9cba50'',
    iformfl ''INVVPID_FIRST'' ''a30beac5b062a071f66c67f470e35159d'',
    iformfl ''INVVPID_LAST'' ''a7a1e2ae7b79f0d521472c10aabd937d3'',
    iformfl ''IRET_FIRST'' ''ab2d01da691d1f035d51a43b27686d0a6'',
    iformfl ''IRET_LAST'' ''a01a34db805f37bb7151d06691b053b47'',
    iformfl ''IRETD_FIRST'' ''a268b8ffc7a8071a782b798e84c3940b0'',
    iformfl ''IRETD_LAST'' ''a04a26b6f40a9a5a77893713731564ce6'',
    iformfl ''IRETQ_FIRST'' ''a3617670ba4e881154817451560e298ed'',
    iformfl ''IRETQ_LAST'' ''a39abd54ec39ee3249d7c68d61bca279c'',
    iformfl ''JB_FIRST'' ''adf0274cf53c3e8a1b04ad9102fe3e29f'',
    iformfl ''JB_LAST'' ''a74b1169e259d80897b65db472a73c7f2'',
    iformfl ''JBE_FIRST'' ''a7b930de026c7ba51685301a871e41751'',
    iformfl ''JBE_LAST'' ''a47da3763be69c928be4296aceb3b92c1'',
    iformfl ''JL_FIRST'' ''a3dc32069a0dbc5c6843db35e9c5ffca5'',
    iformfl ''JL_LAST'' ''ade61606d295eec8b649257478ca3d1ef'',
    iformfl ''JLE_FIRST'' ''ad95b983859ad0e3417204e2fc114f6fd'',
    iformfl ''JLE_LAST'' ''acd7b71e49a8e23c9b07f75d56dce6b81'',
    iformfl ''JMP_FIRST'' ''ae029652ff2874bac5f5940da2167632a'',
    iformfl ''JMP_LAST'' ''a3ae10daa57b12c828fd54fbc5119553e'',
    iformfl ''JMP_FAR_FIRST'' ''a0e3be24beb7965cde17d33222d1c975c'',
    iformfl ''JMP_FAR_LAST'' ''a55e1605bfdb4b3d939946c64acc00df0'',
    iformfl ''JNB_FIRST'' ''a01ecf4ea317d8a60e8b310b55dfc1e31'',
    iformfl ''JNB_LAST'' ''a56b19b68383c13aa69a3bd1a5be630aa'',
    iformfl ''JNBE_FIRST'' ''a7f022bc7a99862a7e026494703054918'',
    iformfl ''JNBE_LAST'' ''a672cef1ab87e6a7a317b447b5d5674a0'']"

lemma xed_iformfl_enum_8h_values_4_closed: "list_all (closed_node scripts) xed_iformfl_enum_8h_values_4"
  by (simp only: xed_iformfl_enum_8h_values_4_def closed_rules iformfl_closed)

definition xed_iformfl_enum_8h_values_5 :: "nav_node list" where
  "xed_iformfl_enum_8h_values_5 = [
    iformfl ''JNL_FIRST'' ''a2841cfc8eb78fb90ab0b9c9a1a90079c'',
    iformfl ''JNL_LAST'' ''a8f6cc8c4e1727b6204943c3013faa737'',
    iformfl ''JNLE_FIRST'' ''a8c67c17513cfb631b12111f154cfcaf8'',
    iformfl ''JNLE_LAST'' ''a1dc21750a17910ee42d1f2bb93b0064d'',
    iformfl ''JNO_FIRST'' ''a4906c41ce07bfdd7a45ca196d3e64c03'',
    iformfl ''JNO_LAST'' ''a8a0a4920c80d7ac6f6f42e2854805127'',
    iformfl ''JNP_FIRST'' ''ad2618810624a89040080c1868ccce0b6'',
    iformfl ''JNP_LAST'' ''a7f8eaf4c10b25c0d3575b4933c82df7a'',
    iformfl ''JNS_FIRST'' ''a54fad2a80cb636a6ac1a159ad7e74dc0'',
    iformfl ''JNS_LAST'' ''ac39fbcbf898fff030ea2efbd332fcaab'',
    iformfl ''JNZ_FIRST'' ''a610c1a6bbb0b8af40fa161e7ef70b5f6'',
    iformfl ''JNZ_LAST'' ''a2fde88689d2e155c4f67e7950332eb27'',
    iformfl ''JO_FIRST'' ''a630723559734fe596ca7510187f06749'',
    iformfl ''JO_LAST'' ''a679d636d047449d2037c18c4b5506744'',
    iformfl ''JP_FIRST'' ''a0a97562c0f269b5cdc370be03e36dc88'',
    iformfl ''JP_LAST'' ''aa37f07b42b5ec1c5057c75fe39202031'',
    iformfl ''JRCXZ_FIRST'' ''af40993a0542a1777e54cc3d9175637b2'',
    iformfl ''JRCXZ_LAST'' ''a643fa7cbad7200af3ef481de424293be'',
    iformfl ''JS_FIRST'' ''a448e7c98e885ece78621285fbfdb11ca'',
    iformfl ''JS_LAST'' ''a904d8d83d472990c306c7396bd7b7882'',
    iformfl ''JZ_FIRST'' ''a434554840850d8f5b0bb01b81dc68e26'',
    iformfl ''JZ_LAST'' ''a03ffbdee42b44477f9e56f7e34bd53cd'',
    iformfl ''KADDB_FIRST'' ''ace629b01398460c6df237199e483bcaf'',
    iformfl ''KADDB_LAST'' ''a864fb2031d049215bcc7b0195621e9a2'',
    iformfl ''KADDD_FIRST'' ''aed3adc2ca00fe6d19c91a5c2693c1438'',
    iformfl ''KADDD_LAST'' ''afec5ef2218ee8e6f0b293ac79935f3a7'',
    iformfl ''KADDQ_FIRST'' ''a4f5da14c5c74ea563f9854a7c99df5ba'',
    iformfl ''KADDQ_LAST'' ''adf822b3e60d8a734b0e454e84318445a'',
    iformfl ''KADDW_FIRST'' ''aaadce8976fb0ff6644c5744909642fc4'',
    iformfl ''KADDW_LAST'' ''ac8b0acc7cbe4eb5ee83a360877ec6f96'',
    iformfl ''KANDB_FIRST'' ''a531db9d91ba441f7e2aad5dbd2c3e0f3'',
    iformfl ''KANDB_LAST'' ''a647c5d063254f6b77c81058b847c0408'',
    iformfl ''KANDD_FIRST'' ''a7cab0d901359bfdf7c795a1b58d9c165'',
    iformfl ''KANDD_LAST'' ''a21ec42545f739cc2b8ba156385f0d892'',
    iformfl ''KANDNB_FIRST'' ''a40c131f63964c9d4334ccab98b79ad09'',
    iformfl ''KANDNB_LAST'' ''adc924bf3ab28fba4413d27737da0b963'',
    iformfl ''KANDND_FIRST'' ''a7e23a6c917c22d1a2db85b30f33e6e26'',
    iformfl ''KANDND_LAST'' ''a30d397a1d1ae7778c17896b3131ca5e8'',
    iformfl ''KANDNQ_FIRST'' ''ac60c61ebe11d8b8efb85bbec8afc6da4'',
    iformfl ''KANDNQ_LAST'' ''a7aad7627931bc678183a368071940866'',
    iformfl ''KANDNW_FIRST'' ''a2020ac771c28e17ce058ddc74ec36c8d'',
    iformfl ''KANDNW_LAST'' ''a16ea3d526cbb33d4ee81e6a80c19dd9a'',
    iformfl ''KANDQ_FIRST'' ''a1e1a13669248e5c7d9ba109ef403b07b'',
    iformfl ''KANDQ_LAST'' ''a5d6dc77f68922b9bcd4f8c81cf9436de'',
    iformfl ''KANDW_FIRST'' ''af8f55088d836382a5b2b5d8c0ec1de3c'',
    iformfl ''KANDW_LAST'' ''aca7fcad8403cf0e59c85ccf3fd4c4bea'',
    iformfl ''KMOVB_FIRST'' ''aa86a8977cb37984fcd86d30634ca84fa'',
    iformfl ''KMOVB_LAST'' ''a13b8d6d48c31f9ae53328daf5636cbe8'',
    iformfl ''KMOVD_FIRST'' ''ac84937574f503006bdbca723a8de87ed'',
    iformfl ''KMOVD_LAST'' ''a5c705a9aa956f08b3d7dbe18cc94a09d'',
    iformfl ''KMOVQ_FIRST'' ''a858d8a674a0752e0de4a805e87cbcd26'',
    iformfl ''KMOVQ_LAST'' ''affc3e60bbd7f3ee2c92d110b6e0b1247'',
    iformfl ''KMOVW_FIRST'' ''a6600dae3d39ae356fde9c29566ca9316'',
    iformfl ''KMOVW_LAST'' ''a3aae9e89c2a4a31937ad29e81125a9be'',
    iformfl ''KNOTB_FIRST'' ''ac9e90a7a666e99896aae1c5a58e26a4e'',
    iformfl ''KNOTB_LAST'' ''a140af309f7d8b5605ce3093a3aeaaa28'',
    iformfl ''KNOTD_FIRST'' ''abdb0efdc2584d076cf996acbf15d15b7'',
    iformfl ''KNOTD_LAST'' ''ad9c49d340fe8979fc4a6247bb4b1f0e9'',
    iformfl ''KNOTQ_FIRST'' ''aae6e00e7528e8a1e03bca1e0d53063f0'',
    iformfl ''KNOTQ_LAST'' ''a8e79b4d3a5a8c079878cc3a29bf39367'',
    iformfl ''KNOTW_FIRST'' ''a631a476390a6a7948e610b4fd2c4693c'',
    iformfl ''KNOTW_LAST'' ''ae5e1800aa96f057518925ea87bd24283'',
    iformfl ''KORB_FIRST'' ''a10a324f1f21101cc9a2680cee877d6d0'',
    iformfl ''KORB_LAST'' ''a819e7685c557e7e7f6396bb26cb46a6a'',
    iformfl ''KORD_FIRST'' ''ad64b0bbc10f7d620244267608ddab0a1'',
    iformfl ''KORD_LAST'' ''ab25b3ee47f25e7e8e33310f1e9f82f33'',
    iformfl ''KORQ_FIRST'' ''aaed58e18b1d681e0b3a8de974d79819a'',
    iformfl ''KORQ_LAST'' ''a7f8ac310d966ce4195e9287fc9803d8c'',
    iformfl ''KORTESTB_FIRST'' ''a713e8eb61de7f4d9fbd1f5f5a0354f2a'',
    iformfl ''KORTESTB_LAST'' ''a5b0099bbcc368d2394d82d30f9735517'',
    iformfl ''KORTESTD_FIRST'' ''a9434c4793db1fd9a633c702ca4cd85ba'',
    iformfl ''KORTESTD_LAST'' ''aa57a0cc11f847aa39bf0725c6538c54a'',
    iformfl ''KORTESTQ_FIRST'' ''af7169b85f1d7da5e5483a6938dc61420'',
    iformfl ''KORTESTQ_LAST'' ''a9875d73150ba87596b5ddf5560bad75a'',
    iformfl ''KORTESTW_FIRST'' ''aabf210f29150fb1001ed78a7be2da5da'',
    iformfl ''KORTESTW_LAST'' ''ab5bf1260d9d662d3d099a0bd6b1d2aa2'',
    iformfl ''KORW_FIRST'' ''a2673e71e3174c5fa2b75b55b6c45584d'',
    iformfl ''KORW_LAST'' ''a5e56119ed07f0cbd77e5099e21e22205'',
    iformfl ''KSHIFTLB_FIRST'' ''a4674895e46a0b24e8c71eefaaf740d95'',
    iformfl ''KSHIFTLB_LAST'' ''a087efab5f3a9ad968e6d6d3189ecbd7e'',
    iformfl ''KSHIFTLD_FIRST'' ''a4075e5ca0515f47749a85e2eb10cd0e4'',
    iformfl ''KSHIFTLD_LAST'' ''aa3431d68eb8d3143a5fffb4a6c921511'',
    iformfl ''KSHIFTLQ_FIRST'' ''a691148e4d0f7ad14961d470503fb463a'',
    iformfl ''KSHIFTLQ_LAST'' ''ae97e11345ed5d8262ccfa6b1a1c4a521'',
    iformfl ''KSHIFTLW_FIRST'' ''a7e0b7b9360fcdd0f15ef771f16475c62'',
    iformfl ''KSHIFTLW_LAST'' ''a9d356f85de9647a6f1bc17c85d4c8779'',
    iformfl ''KSHIFTRB_FIRST'' ''af896e74f42370250afd63c7d5f70ecc1'',
    iformfl ''KSHIFTRB_LAST'' ''a47a148829a8991c2e530ad20b9e3460c'',
    iformfl ''KSHIFTRD_FIRST'' ''ae881c2b5325c1d53b811a4bf873230f2'',
    iformfl ''KSHIFTRD_LAST'' ''aa50b93280f90932a78aef6ba634beac8'',
    iformfl ''KSHIFTRQ_FIRST'' ''a18e463ea1744d5e7f56bff418c86607b'',
    iformfl ''KSHIFTRQ_LAST'' ''a1bddc12d7934d7daaf9966e32dc32181'',
    iformfl ''KSHIFTRW_FIRST'' ''a90e6d1b078fb69a5df29a9b9019648b8'',
    iformfl ''KSHIFTRW_LAST'' ''a42d62fc1c19ac01a8670c4f9b149c951'',
    iformfl ''KTESTB_FIRST'' ''ad32218f8bf41908d32ea6a0b5e62395c'',
    iformfl ''KTESTB_LAST'' ''a553dc51566bbcc2b7aaf535931887dde'',
    iformfl ''KTESTD_FIRST'' ''a881c5b8801edcda72d18f403342ca418'',
    iformfl ''KTESTD_LAST'' ''a1afa9c69dfffd68ae026301a86c8506a'',
    iformfl ''KTESTQ_FIRST'' ''a8ab5d4d15f37d09197d12a63b0d315a8'',
    iformfl ''KTESTQ_LAST'' ''a32a472039c2813b8b69fcd4fb56ffe18'',
    iformfl ''KTESTW_FIRST'' ''ac147f8f66758d845da1b168fe2fd8769'',
    iformfl ''KTESTW_LAST'' ''ad31e857df1394f1acc5008ba40bb9c38'',
    iformfl ''KUNPCKBW_FIRST'' ''a85c85bb46195f25aa1a43f78e65ee3e9'',
    iformfl ''KUNPCKBW_LAST'' ''a5250a0dd9f1f91291c7292e6cea9dbb4'',
    iformfl ''KUNPCKDQ_FIRST'' ''ae12379a53654e4f0345051a97991dbc0'',
    iformfl ''KUNPCKDQ_LAST'' ''ab00bdb7c462b1060cddd9ae8eb847cc2'',
    iformfl ''KUNPCKWD_FIRST'' ''a56967c4808ad4efb9937752013674ad8'',
    iformfl ''KUNPCKWD_LAST'' ''a37f914d67f31f7c5aa2cb5c25fee2374'',
    iformfl ''KXNORB_FIRST'' ''a0baf7e9bda4cd8944a8a15c4ece52a3b'',
    iformfl ''KXNORB_LAST'' ''a9ab8ef33d7f4a2876c55967f9d6517b2'',
    iformfl ''KXNORD_FIRST'' ''a106ac633615c732ef5f40fb5ffdcbdc2'',
    iformfl ''KXNORD_LAST'' ''adb1d46fdac714889c9d6401c7628e7cd'',
    iformfl ''KXNORQ_FIRST'' ''a44d0718436f20bcc85c0188911e25b52'',
    iformfl ''KXNORQ_LAST'' ''ab317875597eb2c7ec1460b984729e810'',
    iformfl ''KXNORW_FIRST'' ''a4ed3d10c44c9ad5a5bad18b13330d550'',
    iformfl ''KXNORW_LAST'' ''a369c09f19bf55c769e6f391369448141'',
    iformfl ''KXORB_FIRST'' ''a874ee7217665ba0dc4b4e79952fab73d'',
    iformfl ''KXORB_LAST'' ''a615b60212871fd24f155f3de3466d966'',
    iformfl ''KXORD_FIRST'' ''a46928d09940e042cd06dca34b7fbd3f7'',
    iformfl ''KXORD_LAST'' ''a31f59a1486e9751c64d36ca4b4cc2e31'',
    iformfl ''KXORQ_FIRST'' ''a27b893a8ee69e1db734f08f7e9a937d2'',
    iformfl ''KXORQ_LAST'' ''a4296ee206cb5cf1561ea5e9e616ccbf2'',
    iformfl ''KXORW_FIRST'' ''a03a038be9cc8fafc9c1bc836cf53e7c9'',
    iformfl ''KXORW_LAST'' ''adaf9a48683d8c1f8fa297168a6d61dc4'',
    iformfl ''LAHF_FIRST'' ''a2ef01ae7a5f7d649ae232c37303ab15b'',
    iformfl ''LAHF_LAST'' ''a647e4d55f4f9eaea84c1a8e9175b162a'',
    iformfl ''LAR_FIRST'' ''a36ec22acd75784a0d1e153881a0504cd'',
    iformfl ''LAR_LAST'' ''a2ab8995e4813767df6c9fb28b0ea2a16'',
    iformfl ''LDDQU_FIRST'' ''a66b71fc163f532cef14c9736f308b685'',
    iformfl ''LDDQU_LAST'' ''aa8ceeb312ed13b2cf93679810342bb50'',
    iformfl ''LDMXCSR_FIRST'' ''a3536536dcdf9ff8394992e1fd846f1a3'',
    iformfl ''LDMXCSR_LAST'' ''aea6debbf82a24a707e35a3ae6c369572'',
    iformfl ''LDS_FIRST'' ''a3dda0a6928cd09675535a1e9cae34b0e'',
    iformfl ''LDS_LAST'' ''a8603af07066b2ecf75d1add3dac67110'',
    iformfl ''LEA_FIRST'' ''a32d7e525e8e0b23b33f6f72233228b29'',
    iformfl ''LEA_LAST'' ''ab020169458c128b2f4772b4bf9d8fb9c'',
    iformfl ''LEAVE_FIRST'' ''a63f949eadc8a050191d0518d47934b84'',
    iformfl ''LEAVE_LAST'' ''a64af451f8857cd04b19c3dc79ff7c854'',
    iformfl ''LES_FIRST'' ''a0b8e276c4ea34023c7bfdec26c406239'',
    iformfl ''LES_LAST'' ''a04fa4ae381c51bff5988a3c9eba1a0ec'']"

lemma xed_iformfl_enum_8h_values_5_closed: "list_all (closed_node scripts) xed_iformfl_enum_8h_values_5"
  by (simp only: xed_iformfl_enum_8h_values_5_def closed_rules iformfl_closed)

definition xed_iformfl_enum_8h_values_6 :: "nav_node list" where
  "xed_iformfl_enum_8h_values_6 = [
    iformfl ''LFENCE_FIRST'' ''a22e3295f7d0b3404e2f0398754e607f8'',
    iformfl ''LFENCE_LAST'' ''ae9bd80050c7928754d4f16d610a00eab'',
    iformfl ''LFS_FIRST'' ''a27a4b9ee31950c3b5674b80e1b28c911'',
    iformfl ''LFS_LAST'' ''a1f745f444e812b611e301a5a700072d9'',
    iformfl ''LGDT_FIRST'' ''a4f4f0f392ed601924dedd655d4319570'',
    iformfl ''LGDT_LAST'' ''a45e935ccdc6543f466d1b9d0bd697c7f'',
    iformfl ''LGS_FIRST'' ''a930ec986887d924a12a75e93bd84c3b2'',
    iformfl ''LGS_LAST'' ''ae39d9eeb443c86e0e51f5dc20b319146'',
    iformfl ''LIDT_FIRST'' ''a4d921127377e2c20edc38ffb72571348'',
    iformfl ''LIDT_LAST'' ''a37e1bf3536b1cc96d9250f746070921a'',
    iformfl ''LLDT_FIRST'' ''a2d1ca30ff191c843e443b21151ef645c'',
    iformfl ''LLDT_LAST'' ''ac68b903a6b1f9aa3621b18d566d6ecc6'',
    iformfl ''LLWPCB_FIRST'' ''a7df974010e7e81db7a1f9da7fef5b250'',
    iformfl ''LLWPCB_LAST'' ''a6812045306cbc029f5c00ee2ae31d129'',
    iformfl ''LMSW_FIRST'' ''ac5dd246c32732c78cb2989b58e1a5d2f'',
    iformfl ''LMSW_LAST'' ''ad34b0a913163a1fd6b1ba55b20ef9bfd'',
    iformfl ''LODSB_FIRST'' ''a8032de9247451747d6c60cd816050e7d'',
    iformfl ''LODSB_LAST'' ''af92cc9404f53ceb356c52fb18a49787f'',
    iformfl ''LODSD_FIRST'' ''ac214a5545cb42447325540011d50371d'',
    iformfl ''LODSD_LAST'' ''a41f843825193fc073b9256ce0cb61e69'',
    iformfl ''LODSQ_FIRST'' ''adadecafeecb5d1d4481b9d9b7553d7b8'',
    iformfl ''LODSQ_LAST'' ''a851bdd05138a9e7c0c8a2198d390bf5e'',
    iformfl ''LODSW_FIRST'' ''a2554e11917517791b5d6e538c02e136d'',
    iformfl ''LODSW_LAST'' ''a898056165b8b4ff7b1c3fb43ad057b5d'',
    iformfl ''LOOP_FIRST'' ''aaa091bb7deeeda61cd5842a5b2be62d7'',
    iformfl ''LOOP_LAST'' ''a2a25c2541a582dca9ed70ad2c5608b62'',
    iformfl ''LOOPE_FIRST'' ''a79d31beeda9c226ce2f104c391838b5b'',
    iformfl ''LOOPE_LAST'' ''a97fca0ce2f42c145601c731f86ebc49b'',
    iformfl ''LOOPNE_FIRST'' ''ab4f0280513d9d15431651a42ea3c6fa5'',
    iformfl ''LOOPNE_LAST'' ''aa44631c55346b8da88f8a614d5a8b842'',
    iformfl ''LSL_FIRST'' ''abbb8bc3c330c34941ac5b68fff0081dc'',
    iformfl ''LSL_LAST'' ''a996d1af05b4f68890c416426fffa2e5d'',
    iformfl ''LSS_FIRST'' ''a37b5f1bf7b604639dd2b831f3f827623'',
    iformfl ''LSS_LAST'' ''ad96491c8713f2132526236175492ab9b'',
    iformfl ''LTR_FIRST'' ''aa68b576de72cd51cf29e34886528a94c'',
    iformfl ''LTR_LAST'' ''a8b2a60f390d61d1b557f4b50d29da94c'',
    iformfl ''LWPINS_FIRST'' ''a46dbf40befeb632372a7fa13c9a391bc'',
    iformfl ''LWPINS_LAST'' ''a3de97db0438eac34145b0a4cfa6b5975'',
    iformfl ''LWPVAL_FIRST'' ''a74239d2268586c0f8f1a9cff0b7ca3d1'',
    iformfl ''LWPVAL_LAST'' ''ade6f89cfc4eb57a1d0441adedd23fdb7'',
    iformfl ''LZCNT_FIRST'' ''a897c197f1dceebb67860ecbed7433ed7'',
    iformfl ''LZCNT_LAST'' ''a0229c0610cd7c6d2c890aadc7466a216'',
    iformfl ''MASKMOVDQU_FIRST'' ''a0ebcf0f43eed007dd7651c86e8082fd7'',
    iformfl ''MASKMOVDQU_LAST'' ''a3158e3dfaf08f8f3a84e95e18705c6c5'',
    iformfl ''MASKMOVQ_FIRST'' ''a3cc50ad244a463bb761fef8460ee38ee'',
    iformfl ''MASKMOVQ_LAST'' ''aa5ce7fb33b0cba24d21b6419c87e94d9'',
    iformfl ''MAXPD_FIRST'' ''a83cc18309174409581e517b98799f1cf'',
    iformfl ''MAXPD_LAST'' ''acd7d2dfddef0e8fe0cf0d47fac360be2'',
    iformfl ''MAXPS_FIRST'' ''a39932703a1458a667355fd6ee9514175'',
    iformfl ''MAXPS_LAST'' ''afe3d8e6a80492b7df7fe44640bf8500f'',
    iformfl ''MAXSD_FIRST'' ''aa16f0591dc4bf4b8ae0ce49bad750825'',
    iformfl ''MAXSD_LAST'' ''a63236246138d9fe8fe8e5f6885a0afed'',
    iformfl ''MAXSS_FIRST'' ''a9bce0a99e927f4390b8cb36e2e39dbfa'',
    iformfl ''MAXSS_LAST'' ''a54d42b0e56c5ba54fd596b86e3da0fd3'',
    iformfl ''MFENCE_FIRST'' ''a2efe9731fed8f6fcdb4a0cee28bb111d'',
    iformfl ''MFENCE_LAST'' ''a2a425cd2e90f5f6caf28732c3efbaaf2'',
    iformfl ''MINPD_FIRST'' ''a498233d0c7b997c26203411d3cd9008f'',
    iformfl ''MINPD_LAST'' ''a15b35f49ae15dba67b95def064834c50'',
    iformfl ''MINPS_FIRST'' ''a936471b8eb50a14b15039b0ed9f879f2'',
    iformfl ''MINPS_LAST'' ''aa3ef589cdde3bf89865254299526c1b8'',
    iformfl ''MINSD_FIRST'' ''a564f33aeae6a72d8e71c0793896f7efe'',
    iformfl ''MINSD_LAST'' ''a0666c73a6465bc64d6b29d505aa29696'',
    iformfl ''MINSS_FIRST'' ''a8a7a349b6ab23584a5df5bfa11e6e692'',
    iformfl ''MINSS_LAST'' ''ab72e9d05d7c10afd405ae8adaf60c118'',
    iformfl ''MONITOR_FIRST'' ''a43edac40560e8f329394618f124e35e1'',
    iformfl ''MONITOR_LAST'' ''a19070dd9b5c6fcf0a95d128f386c0691'',
    iformfl ''MOV_FIRST'' ''a0493406a62bf7d718217828d1f77a5bc'',
    iformfl ''MOV_LAST'' ''a0d9385c7ef34fc2ceb271bfa25aebc66'',
    iformfl ''MOVAPD_FIRST'' ''a1c66999aa1a7d5256790266bf137d1d3'',
    iformfl ''MOVAPD_LAST'' ''a21879616076c2d463db12e87eee31ed2'',
    iformfl ''MOVAPS_FIRST'' ''a8dfd1749757b4f97c6131314ea362884'',
    iformfl ''MOVAPS_LAST'' ''a4682e6edd48b22bc0d4929e110a3261e'',
    iformfl ''MOVBE_FIRST'' ''ae1bad8bc0fed9a3ba4e8049192cdc6a7'',
    iformfl ''MOVBE_LAST'' ''a3fc07f462eec11a84c3baa2b508761b1'',
    iformfl ''MOVD_FIRST'' ''a8d1eab9ecbdb51655bf484f617250bd5'',
    iformfl ''MOVD_LAST'' ''a0bf622e1f3195bbea726d9c50456c416'',
    iformfl ''MOVDDUP_FIRST'' ''ac3dfef1be97b602015f4d5c456c3fed5'',
    iformfl ''MOVDDUP_LAST'' ''af367ca9fe5e65c6336db6be66c56be14'',
    iformfl ''MOVDQ2Q_FIRST'' ''afa3b4cda3ad084ffced32e2c2c2f1ac8'',
    iformfl ''MOVDQ2Q_LAST'' ''ac1c21771b51e3d13932e2575a1ac70f1'',
    iformfl ''MOVDQA_FIRST'' ''aaabcf9831eaf53a1fe61e7f7d6eb40b4'',
    iformfl ''MOVDQA_LAST'' ''abaed627eed0bba75500f439a7de9d9d5'',
    iformfl ''MOVDQU_FIRST'' ''a8ed08962bd543a6ceeb78f131b6f1ff6'',
    iformfl ''MOVDQU_LAST'' ''a5f8efbfc490073d1d26afa97d212be73'',
    iformfl ''MOVHLPS_FIRST'' ''adc5c9271eee55b2ec4fa9d581b009510'',
    iformfl ''MOVHLPS_LAST'' ''ae783a4bd3285b79444ccb047acf07fd9'',
    iformfl ''MOVHPD_FIRST'' ''aade4493f87addf7198cdf5ad77fb39a7'',
    iformfl ''MOVHPD_LAST'' ''ac08d7fd94c094ccc631d361243e08463'',
    iformfl ''MOVHPS_FIRST'' ''aac61cd2ced7f9b3b46236281e14d73e4'',
    iformfl ''MOVHPS_LAST'' ''ac1d1dceb88408cee61a70545418ed65d'',
    iformfl ''MOVLHPS_FIRST'' ''a477591caab9782583071dc642ede477f'',
    iformfl ''MOVLHPS_LAST'' ''a94f45c4ea65fa2ca263ce1f00b1e09bc'',
    iformfl ''MOVLPD_FIRST'' ''a9317ef5b55a4345389e49aac27e8862f'',
    iformfl ''MOVLPD_LAST'' ''a6f21195ca0c4ea574bedfea1ea26e39b'',
    iformfl ''MOVLPS_FIRST'' ''aef7a65db7fdd3e427f996d028e7e231a'',
    iformfl ''MOVLPS_LAST'' ''ac4a04a1892cbd45f9c5d0c0f76da10e2'',
    iformfl ''MOVMSKPD_FIRST'' ''a29dcb81b002570f3b65c0650c004fc98'',
    iformfl ''MOVMSKPD_LAST'' ''a979bb0a94e551d2e8f0a25c5a77acc7a'',
    iformfl ''MOVMSKPS_FIRST'' ''a0fb6f94de8dadb6528e4958bd15ebbae'',
    iformfl ''MOVMSKPS_LAST'' ''a01f09822b51a1ec10489589d29989075'',
    iformfl ''MOVNTDQ_FIRST'' ''a59aa5b4c83ee286fe808391d90eadf02'',
    iformfl ''MOVNTDQ_LAST'' ''af9dce062f724778ccdf21f8ac5181c62'',
    iformfl ''MOVNTDQA_FIRST'' ''a23f25bdf12656ebb251f424491bbc9d2'',
    iformfl ''MOVNTDQA_LAST'' ''a8cb17e331f1cbdcaf660162428e4c83c'',
    iformfl ''MOVNTI_FIRST'' ''a1dd76926c948d0604c2c503a4e3eb7b1'',
    iformfl ''MOVNTI_LAST'' ''a1971c4efe2b34508091ddebe181333b4'',
    iformfl ''MOVNTPD_FIRST'' ''af2e29b8557d6e2e43209dcd39e9166e9'',
    iformfl ''MOVNTPD_LAST'' ''a120ec3f84409d73b449a98efe97c44bd'',
    iformfl ''MOVNTPS_FIRST'' ''afa7b5de8325ccdd189c778e4b18930d4'',
    iformfl ''MOVNTPS_LAST'' ''ab09b921efe7f87d3248d10e0b182980b'',
    iformfl ''MOVNTQ_FIRST'' ''aa65ea27432c5af2d455690c131516012'',
    iformfl ''MOVNTQ_LAST'' ''a6d39ace94dfc70d99e515f0eb6d24826'',
    iformfl ''MOVNTSD_FIRST'' ''afb49a560b9df1e1ed7510b5d9b24be68'',
    iformfl ''MOVNTSD_LAST'' ''aeb1be0b8b65bdea66bd9e9bfd6007137'',
    iformfl ''MOVNTSS_FIRST'' ''a777aebbfbc48fa1efb06e00a20eaf718'',
    iformfl ''MOVNTSS_LAST'' ''ac616aca6db656432e48b305dfc6e9169'',
    iformfl ''MOVQ_FIRST'' ''a66d2b6ecce1c94e0770af8fda9e27fb6'',
    iformfl ''MOVQ_LAST'' ''adcecb353b229020d2f6497b274db4027'',
    iformfl ''MOVQ2DQ_FIRST'' ''aa1647b04fcdb2f55d42884ee5cb04d0a'',
    iformfl ''MOVQ2DQ_LAST'' ''a7fe66293ba46aba40ef4431fbd540c31'',
    iformfl ''MOVSB_FIRST'' ''a3d577ffb2067c5ea5ebbd348314ee053'',
    iformfl ''MOVSB_LAST'' ''acb0e8e3d0256212310c64aa236217cee'',
    iformfl ''MOVSD_FIRST'' ''a199d62423593d28fc7568d1ded7f5877'',
    iformfl ''MOVSD_LAST'' ''a226172a1bc151486393f5ec7be6108e1'',
    iformfl ''MOVSD_XMM_FIRST'' ''a2f4fa9d0cd6da755ee8a4fe632ca93c4'',
    iformfl ''MOVSD_XMM_LAST'' ''a616337083365d1408845fa743525ea5d'',
    iformfl ''MOVSHDUP_FIRST'' ''a8020e0d790a7f877e37adb1b018d1948'',
    iformfl ''MOVSHDUP_LAST'' ''a71b8962d5d79ffede571891591d04a84'',
    iformfl ''MOVSLDUP_FIRST'' ''a685bd5559acfb85392e08d7a594c064e'',
    iformfl ''MOVSLDUP_LAST'' ''ae14d40b502524a46108501f1ec8dced1'',
    iformfl ''MOVSQ_FIRST'' ''a54381e4c132b340729f11853e5ce4b2e'',
    iformfl ''MOVSQ_LAST'' ''a13b0d9841a2a6468d2a109d94beaeb60'',
    iformfl ''MOVSS_FIRST'' ''ae4b13c900a8e4889377aa5e18d3f64bf'',
    iformfl ''MOVSS_LAST'' ''a442d2baf89932e71380fb3cdd392e40b'',
    iformfl ''MOVSW_FIRST'' ''abb170b64b66dd0cd07eea80c4aa11a10'',
    iformfl ''MOVSW_LAST'' ''aa236a8d8775f4619a2d97b69ae9b595f'',
    iformfl ''MOVSX_FIRST'' ''a7ccb53b8f16916d5d437d7fb5398fecc'',
    iformfl ''MOVSX_LAST'' ''a15bc3f37e1f6ac83cc24cca3ddbcb068'',
    iformfl ''MOVSXD_FIRST'' ''a894af0d3d4ce4e7f5ebef217129dcc8e'',
    iformfl ''MOVSXD_LAST'' ''ad505e2450c3bb1153b82932c86cea2a4'']"

lemma xed_iformfl_enum_8h_values_6_closed: "list_all (closed_node scripts) xed_iformfl_enum_8h_values_6"
  by (simp only: xed_iformfl_enum_8h_values_6_def closed_rules iformfl_closed)

definition xed_iformfl_enum_8h_values_7 :: "nav_node list" where
  "xed_iformfl_enum_8h_values_7 = [
    iformfl ''MOVUPD_FIRST'' ''ab27d0222ae5eb15c7eb7bc50bc95e500'',
    iformfl ''MOVUPD_LAST'' ''a113b3cc9d787cb096ac99f417642415f'',
    iformfl ''MOVUPS_FIRST'' ''a8a3cbe07b77ed61e0c36a77f07020543'',
    iformfl ''MOVUPS_LAST'' ''aad97ed19bec4083eae8cb5c7aebdba17'',
    iformfl ''MOVZX_FIRST'' ''ac259abdd0a9c1a62cc798b6916074aed'',
    iformfl ''MOVZX_LAST'' ''ab5059b7bb2ac8de6b317ae9fbc648f8c'',
    iformfl ''MOV_CR_FIRST'' ''a0f4eb48ac3d31e45965bc39816407a92'',
    iformfl ''MOV_CR_LAST'' ''ad32a42d8f9708d6c0fa70ef5e5d27c8f'',
    iformfl ''MOV_DR_FIRST'' ''a06d11873620660cd5b700faf231e3bf2'',
    iformfl ''MOV_DR_LAST'' ''ad80a3328f69cd10602e3399d8d44d990'',
    iformfl ''MPSADBW_FIRST'' ''a8f0c0d89d0674432094662f2343b8d06'',
    iformfl ''MPSADBW_LAST'' ''ab9e05c0c218ecd37e3179a3cb5d971cc'',
    iformfl ''MUL_FIRST'' ''a9d8c746a8c2999cc2d2be3076fff6fcd'',
    iformfl ''MUL_LAST'' ''a1b5eb8c59ca4a39449740cee0d38bd37'',
    iformfl ''MULPD_FIRST'' ''a8c9e37ce7a210bf7c98e72864fc8aa8b'',
    iformfl ''MULPD_LAST'' ''af01f5b9832fdbbe6f3fc6f53695da314'',
    iformfl ''MULPS_FIRST'' ''ada53f7d95021ae3a5892681ee59a4d92'',
    iformfl ''MULPS_LAST'' ''ae48d9077a548d7ad2e8600c66cdf35c5'',
    iformfl ''MULSD_FIRST'' ''a94f42f10472bc403e66b20d299765f99'',
    iformfl ''MULSD_LAST'' ''a56cac908db9bd3b1406ff47a074ca72e'',
    iformfl ''MULSS_FIRST'' ''a83d3989cb9d7e53fa120815d050c0131'',
    iformfl ''MULSS_LAST'' ''a87dabb159bf1f949af2a1b4349f74191'',
    iformfl ''MULX_FIRST'' ''a5e4a74ed61aeddaac904e0acee270cca'',
    iformfl ''MULX_LAST'' ''a273eb936493dd26d1e771d44f6b60b7b'',
    iformfl ''MWAIT_FIRST'' ''abb6fe600a91ff25adf52ad749539e412'',
    iformfl ''MWAIT_LAST'' ''abe8dfc046292458980590749ee21b2ea'',
    iformfl ''NEG_FIRST'' ''a2154672b4419b2cb87a70a26484e123a'',
    iformfl ''NEG_LAST'' ''adaeb8846999318da4401ad9652f8f330'',
    iformfl ''NOP_FIRST'' ''aae9bd9305ce5871d8eee968e7a7dfb9d'',
    iformfl ''NOP_LAST'' ''a2f8cd9b5f15c256d887c17b293dd4520'',
    iformfl ''NOT_FIRST'' ''af14cf75d798336ade77bb5c47966f924'',
    iformfl ''NOT_LAST'' ''a6ba7946d741818886f43b6153d1fcd03'',
    iformfl ''OR_FIRST'' ''ade405d625ad8f55b919204b0edbd67aa'',
    iformfl ''OR_LAST'' ''a421750d68d8f29737c1aa0b8ad9b410d'',
    iformfl ''ORPD_FIRST'' ''ace47c58022b236a069cb1ce2884a96a1'',
    iformfl ''ORPD_LAST'' ''afac273738c7c25bf49982edfec911fac'',
    iformfl ''ORPS_FIRST'' ''a62f7fde4336c097876a554aeaa099a0d'',
    iformfl ''ORPS_LAST'' ''abaf62ab3e6e26f4a61064ac084924305'',
    iformfl ''OUT_FIRST'' ''accaa44a1c23f6ad85d5b4e4ae10a81ae'',
    iformfl ''OUT_LAST'' ''a54684c0d87bd1d3da31e0c251c455aee'',
    iformfl ''OUTSB_FIRST'' ''af2c304ff244eb69cc72e756d2708749b'',
    iformfl ''OUTSB_LAST'' ''aa396514bc1ee7f3a0d7b89f07a7d8932'',
    iformfl ''OUTSD_FIRST'' ''a2036f765fe96acb2fff2d5266d2e026e'',
    iformfl ''OUTSD_LAST'' ''aee6f437ba18e3cb4c742687120b234b1'',
    iformfl ''OUTSW_FIRST'' ''a5ba6d2fd2020c42b14c5335aaa8150a7'',
    iformfl ''OUTSW_LAST'' ''aa8c9e6a2b09d220b59260ab3a4a83512'',
    iformfl ''PABSB_FIRST'' ''aa3f0cf340abccdb669714447aceb3399'',
    iformfl ''PABSB_LAST'' ''a98104fea572e19368b3ee32ad93c2b7a'',
    iformfl ''PABSD_FIRST'' ''a116968af962cf7629e5ed422ffb5eecd'',
    iformfl ''PABSD_LAST'' ''a528c725195a7ff62f092d2647c798153'',
    iformfl ''PABSW_FIRST'' ''aa7b017baa0198deae2e14280ac14f5fc'',
    iformfl ''PABSW_LAST'' ''a37e97a48675bf5fc7019eaedfac57efb'',
    iformfl ''PACKSSDW_FIRST'' ''ac0dc435b1b35f27a708be60aed11d168'',
    iformfl ''PACKSSDW_LAST'' ''a072456ec956265942d4197e0e556907f'',
    iformfl ''PACKSSWB_FIRST'' ''adbf99ebbdde8450ff5c2d9a08e8e41d7'',
    iformfl ''PACKSSWB_LAST'' ''a6032c45899f24a336367171a23968de1'',
    iformfl ''PACKUSDW_FIRST'' ''a5209031a977ebd364bc8c0134e4e95fe'',
    iformfl ''PACKUSDW_LAST'' ''a3103d51b2529ca78a21a572751f8aba1'',
    iformfl ''PACKUSWB_FIRST'' ''a67a1a4b895ceba4fa2b87472c90caaae'',
    iformfl ''PACKUSWB_LAST'' ''a8dc72ebb5600a371c565ecf6db275dea'',
    iformfl ''PADDB_FIRST'' ''a0b7e9567a6bce6da9b7459e29a271ee3'',
    iformfl ''PADDB_LAST'' ''a0a408b1bd1cea88409af6a144e16afaf'',
    iformfl ''PADDD_FIRST'' ''a3be900925c9f6e09fb367b4e230e6bd0'',
    iformfl ''PADDD_LAST'' ''a9eaf0ac1a9ea6bbf56878fd324138a7c'',
    iformfl ''PADDQ_FIRST'' ''a96c0735ba3cb1a1443d021842ae711ee'',
    iformfl ''PADDQ_LAST'' ''a2b887890f0d6d430d95cdd97272e36ae'',
    iformfl ''PADDSB_FIRST'' ''a2d8a548babd718f9ca36572e6854d397'',
    iformfl ''PADDSB_LAST'' ''a7aa9ba9f61f4303c6e0a13094969cb1f'',
    iformfl ''PADDSW_FIRST'' ''a1c8adcea8349064fa31e369cd3cbb5b3'',
    iformfl ''PADDSW_LAST'' ''a9191e333884718687fad72465b0fc4fb'',
    iformfl ''PADDUSB_FIRST'' ''a92e6499872cb621fa1d67eaf33179c25'',
    iformfl ''PADDUSB_LAST'' ''addec3fddfa1bd4129c9f21fc6ebc3755'',
    iformfl ''PADDUSW_FIRST'' ''aab1373062a4d520a867c726bfc0be1fa'',
    iformfl ''PADDUSW_LAST'' ''a67eaef820b97d2ec3c0073c9e3e0a8be'',
    iformfl ''PADDW_FIRST'' ''a30ea9c664e824b3ae5d00c9e8c60386a'',
    iformfl ''PADDW_LAST'' ''a32a0adf48ffcde5095f955b73016bf47'',
    iformfl ''PALIGNR_FIRST'' ''a36030a13617b620b3329511d1147569e'',
    iformfl ''PALIGNR_LAST'' ''a699b354591149b145c2cffc4d6ec67f3'',
    iformfl ''PAND_FIRST'' ''a584824015fb46c3ea7a839557f5b5d6f'',
    iformfl ''PAND_LAST'' ''ae871f2ef092ef2af2e36777e4258626d'',
    iformfl ''PANDN_FIRST'' ''a8f04d51e5164150e932312804f4d1c4b'',
    iformfl ''PANDN_LAST'' ''a1ebb85430061fd0c64d69785da0f0447'',
    iformfl ''PAUSE_FIRST'' ''ac63054992912f6c1af0f4b863a23ca8a'',
    iformfl ''PAUSE_LAST'' ''a26feaabca5de50a38c6cbf21a1f04afc'',
    iformfl ''PAVGB_FIRST'' ''aad1352b48d18f15d5704cce55005d654'',
    iformfl ''PAVGB_LAST'' ''a7648961e7e06987e63c689d335a03f33'',
    iformfl ''PAVGUSB_FIRST'' ''a73b6d276ffadc2c5876e66458f591e0e'',
    iformfl ''PAVGUSB_LAST'' ''acb4f519d82f0505631cd0c554129ad48'',
    iformfl ''PAVGW_FIRST'' ''a98f265ca36eb7fc559075c912f6f5e32'',
    iformfl ''PAVGW_LAST'' ''a6dea5f0b1672c1ec0b7a0489324dbb83'',
    iformfl ''PBLENDVB_FIRST'' ''a09f1ab2577e5bc77adc10fb64949596b'',
    iformfl ''PBLENDVB_LAST'' ''a0fbfe7a222f8b7dd46a8afec9d1a69a0'',
    iformfl ''PBLENDW_FIRST'' ''aece8a14f5030ab8f58e0ae6c46db55b8'',
    iformfl ''PBLENDW_LAST'' ''ab6f92ce7ecf634bbba7b95101e93ad22'',
    iformfl ''PCLMULQDQ_FIRST'' ''abf9898c0f7e40cfea7a0a01c17fecb1c'',
    iformfl ''PCLMULQDQ_LAST'' ''ab62c6cad74a5f6827af8180cda766606'',
    iformfl ''PCMPEQB_FIRST'' ''aeaec24613a0300c61f5f9f912b8cb915'',
    iformfl ''PCMPEQB_LAST'' ''ad8e8c29cb039860516b844c7c2f2ec61'',
    iformfl ''PCMPEQD_FIRST'' ''ae5c3cc41624541f7b51d45a8ba30692a'',
    iformfl ''PCMPEQD_LAST'' ''a059f0948e66ac40bad3f3571ee6c9fb6'',
    iformfl ''PCMPEQQ_FIRST'' ''a964c9e50de774ce0095c8655a344fefd'',
    iformfl ''PCMPEQQ_LAST'' ''ae4b22aaf475380b6dd5fa29c30dade9e'',
    iformfl ''PCMPEQW_FIRST'' ''a828859f2f8d46243ac6702f0010014cc'',
    iformfl ''PCMPEQW_LAST'' ''a9846b921a4736d78b2d0fe76a0491f28'',
    iformfl ''PCMPESTRI_FIRST'' ''ad4319a8cfa90e88eeff8393bcb5423dc'',
    iformfl ''PCMPESTRI_LAST'' ''a2a149c8cde7d6679c02ebdefea295dc6'',
    iformfl ''PCMPESTRM_FIRST'' ''a7f38b8f794da38942c0465347c3a6925'',
    iformfl ''PCMPESTRM_LAST'' ''a855cc039ea6921587b770b22b0eb85db'',
    iformfl ''PCMPGTB_FIRST'' ''ad34d7a55b8807b5ea6ddbd8ea4d01a74'',
    iformfl ''PCMPGTB_LAST'' ''aebd5d379de6c3b54d9d20e6cb85e00e1'',
    iformfl ''PCMPGTD_FIRST'' ''a7c075bdab6e7be5069e9a31c30397bce'',
    iformfl ''PCMPGTD_LAST'' ''af78dbee92182902da0a4afa18c892c09'',
    iformfl ''PCMPGTQ_FIRST'' ''a0678bdd6bc9d05f69360f935197253d6'',
    iformfl ''PCMPGTQ_LAST'' ''ac8e0672ed1a19e18d373ffbd01dca303'',
    iformfl ''PCMPGTW_FIRST'' ''a32cca833b5eccb3cd0733f5997a17c0c'',
    iformfl ''PCMPGTW_LAST'' ''a182614882823255afe2e64fa43f49c6c'',
    iformfl ''PCMPISTRI_FIRST'' ''ae05a6711df106cfe52bc7c87bc439de0'',
    iformfl ''PCMPISTRI_LAST'' ''a65f6646dbf1f0e66aed244b9d7d1b3dc'',
    iformfl ''PCMPISTRM_FIRST'' ''a6b59121bd17d5e68dafa5b0768903170'',
    iformfl ''PCMPISTRM_LAST'' ''ac0b784fc9fa005c72304ee7080c56498'',
    iformfl ''PCOMMIT_FIRST'' ''a36b524eff115dd2c1f6c2cc544ed541d'',
    iformfl ''PCOMMIT_LAST'' ''a97ecc17dbedc26a7902e620a24bf28b6'',
    iformfl ''PDEP_FIRST'' ''ae6226b328afddbee77ea5b29af4b8b83'',
    iformfl ''PDEP_LAST'' ''a0656010a75a3d6fa2fad854e12ebd407'',
    iformfl ''PEXT_FIRST'' ''a84f740e24d8ae239472f94113aed26e0'',
    iformfl ''PEXT_LAST'' ''a1addbccf02d15072187c62585f44b929'',
    iformfl ''PEXTRB_FIRST'' ''ab74e048bfd4514b94bfb7f27e00224b2'',
    iformfl ''PEXTRB_LAST'' ''ae6b7435af1af4cc160377acb34eed4ea'',
    iformfl ''PEXTRD_FIRST'' ''a64fbf5bb0a7ff68b174ab26f46e540c8'',
    iformfl ''PEXTRD_LAST'' ''a90486c264e33d89a0ddbb3ed393cd3fc'',
    iformfl ''PEXTRQ_FIRST'' ''a65b1470160d5b15db0ece4e14b0bb0e8'',
    iformfl ''PEXTRQ_LAST'' ''abd20ab7f50b2f5984c2fc8e405f5a601'',
    iformfl ''PEXTRW_FIRST'' ''a758b57a4cf60e633d9e2dfbee7bd6c85'',
    iformfl ''PEXTRW_LAST'' ''a5a815d42e2fcdfafa16e5784d20f41bd'',
    iformfl ''PEXTRW_SSE4_FIRST'' ''a1f8639b00ad5ddedb319c8715b82af71'',
    iformfl ''PEXTRW_SSE4_LAST'' ''ae2215e7c7bbd311cadb297fcdc671e5c'',
    iformfl ''PF2ID_FIRST'' ''af0cc627136607b53e79b2112de8ef789'',
    iformfl ''PF2ID_LAST'' ''aa74c05d5863a0319f3efb39388e22277'',
    iformfl ''PF2IW_FIRST'' ''a6d76bdd45fd6f1d25512840a89033de7'',
    iformfl ''PF2IW_LAST'' ''a93e6533b85c4c62349363018f0de520f'']"

lemma xed_iformfl_enum_8h_values_7_closed: "list_all (closed_node scripts) xed_iformfl_enum_8h_values_7"
  by (simp only: xed_iformfl_enum_8h_values_7_def closed_rules iformfl_closed)

definition xed_iformfl_enum_8h_values_8 :: "nav_node list" where
  "xed_iformfl_enum_8h_values_8 = [
    iformfl ''PFACC_FIRST'' ''a441dadd1645e3b7b7158bbcc47bcc87f'',
    iformfl ''PFACC_LAST'' ''a8acc1aa8a7237188b3bbffae4f23eb23'',
    iformfl ''PFADD_FIRST'' ''a9a2b0b8336790cfb8dac5cfd6fc00b62'',
    iformfl ''PFADD_LAST'' ''afffb94da5c6189f936d6b9c53c7a8d32'',
    iformfl ''PFCMPEQ_FIRST'' ''aed6b04193fb36ceed3342acdd481199e'',
    iformfl ''PFCMPEQ_LAST'' ''a0119c289ff37d3e210ee2cc8059cbb82'',
    iformfl ''PFCMPGE_FIRST'' ''a44f948fbc1e6a4381ae99e6681f2cc8f'',
    iformfl ''PFCMPGE_LAST'' ''ad1ce1265368814ddd04d8bd7c3582cd8'',
    iformfl ''PFCMPGT_FIRST'' ''a08713c11f07d5b6e774655734e1378ab'',
    iformfl ''PFCMPGT_LAST'' ''a49bf9aa5816748467bc0743aee81c428'',
    iformfl ''PFCPIT1_FIRST'' ''a76a90f60e0044776226563a86ccd0d27'',
    iformfl ''PFCPIT1_LAST'' ''a94cf0894e58f100774ffe4f8b43659c2'',
    iformfl ''PFMAX_FIRST'' ''a95d7c5255ae182727a733b7decbf48fd'',
    iformfl ''PFMAX_LAST'' ''a56a383ffa578f59926cbd72f64987794'',
    iformfl ''PFMIN_FIRST'' ''a91a2f9547cae57843fdd679ec9f34bb9'',
    iformfl ''PFMIN_LAST'' ''a2674da1905f4a6349b33abcd7c718af6'',
    iformfl ''PFMUL_FIRST'' ''ace2923d66b0beac7da5dcd256c23c796'',
    iformfl ''PFMUL_LAST'' ''a16a57ff1181aa3fce3284e8fc3360e69'',
    iformfl ''PFNACC_FIRST'' ''a1838a72d083a75ea07070bb428ab97ef'',
    iformfl ''PFNACC_LAST'' ''a600954548c105fe12b732db5e660087b'',
    iformfl ''PFPNACC_FIRST'' ''abfcb392487b31460b17038002dde6a1e'',
    iformfl ''PFPNACC_LAST'' ''a0fd4f4cc24c2f729505342ba0c2faeb3'',
    iformfl ''PFRCP_FIRST'' ''a52c442440cd372d0c32df7bad29bb761'',
    iformfl ''PFRCP_LAST'' ''adc03996931ce3f3dd6c3d6c696dc52de'',
    iformfl ''PFRCPIT2_FIRST'' ''a014b1a615aac7af78518fba9e6beb9d3'',
    iformfl ''PFRCPIT2_LAST'' ''acd0434c62bd3db4abb255898594eacd9'',
    iformfl ''PFRSQIT1_FIRST'' ''a75e6ecb0b7ccdf5fdfdb19dd293fd958'',
    iformfl ''PFRSQIT1_LAST'' ''accf742efd626ea13768b469fe5e2feef'',
    iformfl ''PFSQRT_FIRST'' ''a24fe8a03571fbe93eced5922325fec9c'',
    iformfl ''PFSQRT_LAST'' ''aa6696b0f784ceb94855991b406958ed3'',
    iformfl ''PFSUB_FIRST'' ''ae204aa51c4b54ee1d98d35aaed89e350'',
    iformfl ''PFSUB_LAST'' ''a3651346ec1453f6ae8a3a8a6c5275c92'',
    iformfl ''PFSUBR_FIRST'' ''abffca2cfde7801f710d7e22294194c40'',
    iformfl ''PFSUBR_LAST'' ''af4d8afa14a1b87bf3eae30332ca3a410'',
    iformfl ''PHADDD_FIRST'' ''a60bf658a01d0649e0c100d235ddbba6e'',
    iformfl ''PHADDD_LAST'' ''a3d337b8ca95b176013ec0cb02fbcaf8f'',
    iformfl ''PHADDSW_FIRST'' ''a34ccb020cb7357012700c960b630bba4'',
    iformfl ''PHADDSW_LAST'' ''ade261816d88aadb9e215000b23c61de4'',
    iformfl ''PHADDW_FIRST'' ''ae3b2f25ee4924c9b133edfe90106356e'',
    iformfl ''PHADDW_LAST'' ''a4764a7d0fc3bfe2fe09b0683f7f8bb98'',
    iformfl ''PHMINPOSUW_FIRST'' ''adb0654e54aa9498148f993cc8a7aaf1f'',
    iformfl ''PHMINPOSUW_LAST'' ''a62168a609c811e0f506948973f220d9d'',
    iformfl ''PHSUBD_FIRST'' ''a15b559352c7905f9f045097baf56ec23'',
    iformfl ''PHSUBD_LAST'' ''af02019640eb98b67109f1d06bd513334'',
    iformfl ''PHSUBSW_FIRST'' ''a78078e3005227dd53f8a991b5eda5790'',
    iformfl ''PHSUBSW_LAST'' ''a89234a9604f50a7025536b7bbf7ab904'',
    iformfl ''PHSUBW_FIRST'' ''a101626b623e477aefac8923290f8053e'',
    iformfl ''PHSUBW_LAST'' ''af8a0cf0c0c557935259e9f254e314ddc'',
    iformfl ''PI2FD_FIRST'' ''a6cacb8610573cae46556f58167515250'',
    iformfl ''PI2FD_LAST'' ''a9667b20a6bdbf54cc7c1a7c1b1281608'',
    iformfl ''PI2FW_FIRST'' ''acd222b5828c487468ddaaa1b1f513636'',
    iformfl ''PI2FW_LAST'' ''a0830529fecdc23f3a931701d34788b4e'',
    iformfl ''PINSRB_FIRST'' ''a90dbd047d17d78f4d64e041d1c70fa7d'',
    iformfl ''PINSRB_LAST'' ''a56e6f28275992deb69eb592d06f4c1a6'',
    iformfl ''PINSRD_FIRST'' ''ae56ac2f5dfce7c6f87d5824b8f22d288'',
    iformfl ''PINSRD_LAST'' ''a21f284808fe4acaa3a2ebf1562ed40e7'',
    iformfl ''PINSRQ_FIRST'' ''a1f1788e2a4070cc74dfcc8c25603afdf'',
    iformfl ''PINSRQ_LAST'' ''abb5800e732467df7f12087920bc3fb88'',
    iformfl ''PINSRW_FIRST'' ''af52dc3455fe0db3e361f7553e7404e18'',
    iformfl ''PINSRW_LAST'' ''a53be4ec1f881a1a58af7e68b85b290a4'',
    iformfl ''PMADDUBSW_FIRST'' ''a441fb0c7cbfba44d166c74cba1f873ba'',
    iformfl ''PMADDUBSW_LAST'' ''aa0cd4ef3b71b98c326bbe4e52fcc4c28'',
    iformfl ''PMADDWD_FIRST'' ''abfe08a7b175dd53e0bc7aec2a2fb3014'',
    iformfl ''PMADDWD_LAST'' ''a109c137a8541ede954a25fdfbc637e20'',
    iformfl ''PMAXSB_FIRST'' ''a4b1e3b00aa52dfdd69d5beed75514ce3'',
    iformfl ''PMAXSB_LAST'' ''ad695af0dbbed73af07cbbab897d2ceac'',
    iformfl ''PMAXSD_FIRST'' ''a7c497f09c9caa345a5543f02111acc9e'',
    iformfl ''PMAXSD_LAST'' ''a4dadcdc5193a1adcf1d518f25b96281f'',
    iformfl ''PMAXSW_FIRST'' ''a4e34c422224699893ca3986287ce81fd'',
    iformfl ''PMAXSW_LAST'' ''ab2583aec92759a814239c362f0262b42'',
    iformfl ''PMAXUB_FIRST'' ''a97172f6fd2a6e29ce3e7afea00c000ff'',
    iformfl ''PMAXUB_LAST'' ''a58b4a2172a9bd049850c04c571d027a1'',
    iformfl ''PMAXUD_FIRST'' ''a1ee9af1af5705e15752b037f90ab2e97'',
    iformfl ''PMAXUD_LAST'' ''a90e6d4b12c2a2db3301eff67d123a2ea'',
    iformfl ''PMAXUW_FIRST'' ''a66b8dd177a0d7ab0625d20b5dcd117b4'',
    iformfl ''PMAXUW_LAST'' ''ab4d72319a16dd5d61259ed6457b03b7b'',
    iformfl ''PMINSB_FIRST'' ''a6c0ddda9fad190698a963045e586b9d0'',
    iformfl ''PMINSB_LAST'' ''aa7e72a1eef68ce00eb45294af981a5ef'',
    iformfl ''PMINSD_FIRST'' ''a8e99082ada68d99b44be3dd3e23586eb'',
    iformfl ''PMINSD_LAST'' ''ac9f259b993fef3a3f51fbdfbcc818839'',
    iformfl ''PMINSW_FIRST'' ''aac97b1516fb805c1f293373cfa34e6bf'',
    iformfl ''PMINSW_LAST'' ''a17785a1fbbb1f1619ea777cd0a4ecd02'',
    iformfl ''PMINUB_FIRST'' ''aac81215ff1fb4cd0852a669bc2b88b1e'',
    iformfl ''PMINUB_LAST'' ''a05bb95c6e454cfcbd77bfeac749d49d5'',
    iformfl ''PMINUD_FIRST'' ''ad78acdf9337b78dc3ad680b7eacde00d'',
    iformfl ''PMINUD_LAST'' ''ad38853cf269a53d0219ba6dc486a7bfc'',
    iformfl ''PMINUW_FIRST'' ''abe598bfcfa1abb7346342366bd5df51d'',
    iformfl ''PMINUW_LAST'' ''aaff4ae3f4cc3cfc37fcb380981cee4b4'',
    iformfl ''PMOVMSKB_FIRST'' ''a0656c6e0cd1d1d4f4bc60f87b4e63913'',
    iformfl ''PMOVMSKB_LAST'' ''a05d4316aaea2b961cfc7ae8ee538b6b9'',
    iformfl ''PMOVSXBD_FIRST'' ''a5a63bb473959617cbcebc1472f707836'',
    iformfl ''PMOVSXBD_LAST'' ''ab9f6f20a8e804b187a0c72f24aee4577'',
    iformfl ''PMOVSXBQ_FIRST'' ''a019a20dfaf4af13ba714ed05ff0a2ffc'',
    iformfl ''PMOVSXBQ_LAST'' ''a300c3d0060cb9aeb66d00873a25debc2'',
    iformfl ''PMOVSXBW_FIRST'' ''a8206442d9907d904abfb61ecdeaede42'',
    iformfl ''PMOVSXBW_LAST'' ''a6014685a38b682ed0062ca5587857d98'',
    iformfl ''PMOVSXDQ_FIRST'' ''add8e219bcb4e391567d6d912e31517cd'',
    iformfl ''PMOVSXDQ_LAST'' ''a8819e18ee9963d879388d023a80803cf'',
    iformfl ''PMOVSXWD_FIRST'' ''a456c0b722ccef2a2c485486e2ddd21a1'',
    iformfl ''PMOVSXWD_LAST'' ''aa929eab8511ae101f0cfd6c0b7ecf872'',
    iformfl ''PMOVSXWQ_FIRST'' ''a94986dd55cbcd354137dedffaa4c02ad'',
    iformfl ''PMOVSXWQ_LAST'' ''a6fe9ba26dd6deec736b0a5508d4d1601'',
    iformfl ''PMOVZXBD_FIRST'' ''a4b4b0e0b6f2f845da04cf5598755c454'',
    iformfl ''PMOVZXBD_LAST'' ''a4936d922c0e83880a441acc43b81d56c'',
    iformfl ''PMOVZXBQ_FIRST'' ''a75c6ee39fdafeb96e74cfa929a918c89'',
    iformfl ''PMOVZXBQ_LAST'' ''a179d640b9016899523c15ad322f7b025'',
    iformfl ''PMOVZXBW_FIRST'' ''a8d10a37d3514068409aff185b3cfdb46'',
    iformfl ''PMOVZXBW_LAST'' ''a48b4a72ee08a7efc3ea846ec5779b022'',
    iformfl ''PMOVZXDQ_FIRST'' ''a92d12473db090884dd452f97d29898a2'',
    iformfl ''PMOVZXDQ_LAST'' ''af0e56c3178128293a573c19ad11c1cde'',
    iformfl ''PMOVZXWD_FIRST'' ''ae6d14f503b942e1e8f0dd4094c333ea0'',
    iformfl ''PMOVZXWD_LAST'' ''aae0baf4fd7c7da51e706846caf1931db'',
    iformfl ''PMOVZXWQ_FIRST'' ''a14542e9cd335540d99529f1d393d3e53'',
    iformfl ''PMOVZXWQ_LAST'' ''a8cbc39f1c0aafbc8766457b1b886f614'',
    iformfl ''PMULDQ_FIRST'' ''a854dc93b1d169cb620b9135157e27f39'',
    iformfl ''PMULDQ_LAST'' ''a8a2243a0449f8e946551fd2ed87dc830'',
    iformfl ''PMULHRSW_FIRST'' ''afd118323cf9905a65da617b18a6599ed'',
    iformfl ''PMULHRSW_LAST'' ''a432e95032f3378cadb42017be7e0d430'',
    iformfl ''PMULHRW_FIRST'' ''aa790288035b70c283994eb92e70ca4f6'',
    iformfl ''PMULHRW_LAST'' ''a4963b75fd25963e4d66197bad42de5c5'',
    iformfl ''PMULHUW_FIRST'' ''aa671f2e9745cd56cc8c3526e93cab120'',
    iformfl ''PMULHUW_LAST'' ''ae9ee30895a8b3be0e24aed5b1c01cb5d'',
    iformfl ''PMULHW_FIRST'' ''acabe63616ad9796d1a1a1e1258c93254'',
    iformfl ''PMULHW_LAST'' ''ab1b0fc8e9bf259a1fef594416c0c7743'',
    iformfl ''PMULLD_FIRST'' ''aba5f4c183fc3a33bac9a12b881973255'',
    iformfl ''PMULLD_LAST'' ''aba0f6107ac967254e68baeb17f40ec9d'',
    iformfl ''PMULLW_FIRST'' ''ace93fe9d6817f3d92f1d71e2de87142a'',
    iformfl ''PMULLW_LAST'' ''af7dce2e2733674d5c33e367fb2db1f19'',
    iformfl ''PMULUDQ_FIRST'' ''ab1dac7e190e00099bdedcc3dd8695050'',
    iformfl ''PMULUDQ_LAST'' ''aa6295c03f44e3a7892382f2fe8c4f436'',
    iformfl ''POP_FIRST'' ''a32a61fda8ed41da58d8c68dba817fe47'',
    iformfl ''POP_LAST'' ''a050ede359b9679b560101d7611f4c183'',
    iformfl ''POPA_FIRST'' ''a447f0db289574bdca0a41ce7f3bb818f'',
    iformfl ''POPA_LAST'' ''ab74cf726a94eb86f1fc5939353bf939c'',
    iformfl ''POPAD_FIRST'' ''ae4bb84868d395942458ac29a4b96f786'',
    iformfl ''POPAD_LAST'' ''ac6b1561f8704aeac5936a0af82d1c909'',
    iformfl ''POPCNT_FIRST'' ''af4436dd4a37bba2f7bbaf1fd0f884af4'',
    iformfl ''POPCNT_LAST'' ''afb30cf2f0175df1e0c82bf73c174109f'',
    iformfl ''POPF_FIRST'' ''a9e24dfb5561c683b85a303f02b36fc94'',
    iformfl ''POPF_LAST'' ''a7846e1d02cb52f62b213011606e0dd59'']"

lemma xed_iformfl_enum_8h_values_8_closed: "list_all (closed_node scripts) xed_iformfl_enum_8h_values_8"
  by (simp only: xed_iformfl_enum_8h_values_8_def closed_rules iformfl_closed)

definition xed_iformfl_enum_8h_values_9 :: "nav_node list" where
  "xed_iformfl_enum_8h_values_9 = [
    iformfl ''POPFD_FIRST'' ''a899676345405c03289fc8b3ab3ddbd7a'',
    iformfl ''POPFD_LAST'' ''a8a3b490760573e060c6ae6e27978ee20'',
    iformfl ''POPFQ_FIRST'' ''a3a19205e4c8995bc1a361c38bc8c52ed'',
    iformfl ''POPFQ_LAST'' ''a7f05c354f8835e3638d9c6278b923996'',
    iformfl ''POR_FIRST'' ''a36207a80d5e79f4b9cb53ab27b02dfbe'',
    iformfl ''POR_LAST'' ''a5c38160a405ccfa31ae4fa3455599e57'',
    iformfl ''PREFETCHNTA_FIRST'' ''addc0f92d0f878d993e211b6800fd177d'',
    iformfl ''PREFETCHNTA_LAST'' ''a845c6ecbd9bf64f48d836c5465bcd712'',
    iformfl ''PREFETCHT0_FIRST'' ''ac39be72d725acab9b9eea47120dcecc0'',
    iformfl ''PREFETCHT0_LAST'' ''a5698284846031949ec2b0c688e56b7e6'',
    iformfl ''PREFETCHT1_FIRST'' ''a75a46ff8d896d33747a257f5bd44abb8'',
    iformfl ''PREFETCHT1_LAST'' ''a0f6cdd4db9bc96ead3449999943069cd'',
    iformfl ''PREFETCHT2_FIRST'' ''a44ddd978c4f368c3cc762e90ec09f086'',
    iformfl ''PREFETCHT2_LAST'' ''ab0926112df5d68d90aa4c9bc410e08f2'',
    iformfl ''PREFETCHW_FIRST'' ''a9427a6ea3c393cc3853584a41d98d1e5'',
    iformfl ''PREFETCHW_LAST'' ''a568925aaea4fd6b3169e9d99788a1894'',
    iformfl ''PREFETCHWT1_FIRST'' ''a88aade5e6aa7bc08960c753412714880'',
    iformfl ''PREFETCHWT1_LAST'' ''a5582e5bbf13b47a51b5f11df53490c21'',
    iformfl ''PREFETCH_EXCLUSIVE_FIRST'' ''a883392f4c454c9807758e31264af571c'',
    iformfl ''PREFETCH_EXCLUSIVE_LAST'' ''a2ccf48d95a70d25ed7ff11b53b426d33'',
    iformfl ''PREFETCH_RESERVED_FIRST'' ''ad80d55685c0e3363890ed1aaa9c49d45'',
    iformfl ''PREFETCH_RESERVED_LAST'' ''a12b5cbaa842dbc0fc1ebd00ea778dce1'',
    iformfl ''PSADBW_FIRST'' ''a00c6c0d1e868fd061138234abee4a902'',
    iformfl ''PSADBW_LAST'' ''ab546b17b46f2aebf0346f7b29bf6ccba'',
    iformfl ''PSHUFB_FIRST'' ''acad8d58bb8b08c5fd855a9a0d42aeaed'',
    iformfl ''PSHUFB_LAST'' ''a06ee7cbe1f89cb8e284f34321dfa9d44'',
    iformfl ''PSHUFD_FIRST'' ''af6ecd8d14ab91e410fa3834d8f6f736d'',
    iformfl ''PSHUFD_LAST'' ''a4aa33538d8f147b0b25abb698502b9cb'',
    iformfl ''PSHUFHW_FIRST'' ''abbd1990ef41addc9561e29e34733f8e6'',
    iformfl ''PSHUFHW_LAST'' ''a5d2494093f6297c35c4b7f62452500a0'',
    iformfl ''PSHUFLW_FIRST'' ''a7b465e9645dd3dda46c307a51a3f1a9e'',
    iformfl ''PSHUFLW_LAST'' ''afdc163a30158e218b5cb513d3ce8736a'',
    iformfl ''PSHUFW_FIRST'' ''adaf18b47cd8a985bacb0a787276757ee'',
    iformfl ''PSHUFW_LAST'' ''a1c7ddc40e4564c04760dba1852c6ae03'',
    iformfl ''PSIGNB_FIRST'' ''af747f35407a9dac8fff546acc7d89872'',
    iformfl ''PSIGNB_LAST'' ''ac0bf9b9191b6992005df048dae47dd4d'',
    iformfl ''PSIGND_FIRST'' ''a22b862ca589f63237b067e26314a716f'',
    iformfl ''PSIGND_LAST'' ''a4498545215402b9109e13f68aeaefbba'',
    iformfl ''PSIGNW_FIRST'' ''af8d726c4a8564e1b45c94c4082f949b6'',
    iformfl ''PSIGNW_LAST'' ''a738207584b8592347a8b536b2c8c67a4'',
    iformfl ''PSLLD_FIRST'' ''a7b732e4017682169144973debc99cf64'',
    iformfl ''PSLLD_LAST'' ''af00db86fd835ee3ac108fa1c1b3bf751'',
    iformfl ''PSLLDQ_FIRST'' ''a9e7ebe619e9ebfc754dd063f441bed2c'',
    iformfl ''PSLLDQ_LAST'' ''a60673133d644e80683090338815376e0'',
    iformfl ''PSLLQ_FIRST'' ''a1a4254a65e327858d58eb87fe91bdbf9'',
    iformfl ''PSLLQ_LAST'' ''a24e9084e75a891016701bbef3ebb6aa0'',
    iformfl ''PSLLW_FIRST'' ''a95ecb70c0fc706d2d2af5cf0496e6624'',
    iformfl ''PSLLW_LAST'' ''a5b0f19138fdcaae218b4c624b721ec0a'',
    iformfl ''PSRAD_FIRST'' ''a65be65b466546c7984b44f97aa651b17'',
    iformfl ''PSRAD_LAST'' ''ab45cbc2cb669911eda7560e3854ee0e6'',
    iformfl ''PSRAW_FIRST'' ''a92acac92151a4e93742507e5c28f91d6'',
    iformfl ''PSRAW_LAST'' ''a07fb97500d171396f783ade2fbca3941'',
    iformfl ''PSRLD_FIRST'' ''a69668f550c5c4008c90d9148e6909657'',
    iformfl ''PSRLD_LAST'' ''aee22c02e269720083acf0b1049d51e5b'',
    iformfl ''PSRLDQ_FIRST'' ''abaf939a04605010cf7237d6a5c12b307'',
    iformfl ''PSRLDQ_LAST'' ''a1c018a7d60a5cf5776075a05a8df7106'',
    iformfl ''PSRLQ_FIRST'' ''aedf862729e22cbc076b7fa48ea73fa15'',
    iformfl ''PSRLQ_LAST'' ''aad0b149d0ac5e0ad266fb9cbdde0f3b8'',
    iformfl ''PSRLW_FIRST'' ''a6a4429888568f0f2fb04753058fbae1b'',
    iformfl ''PSRLW_LAST'' ''a61c65dcb52e58597e7ac6394c78ef0a0'',
    iformfl ''PSUBB_FIRST'' ''a7f0170c97478684c0f96b16d1603fb37'',
    iformfl ''PSUBB_LAST'' ''ad9d8e4731cb58e1ccada419e264dc59f'',
    iformfl ''PSUBD_FIRST'' ''a5cd59718be3837c33f99c69796b11358'',
    iformfl ''PSUBD_LAST'' ''ad4c15b352f7a7c17ae91a26e89973572'',
    iformfl ''PSUBQ_FIRST'' ''a50a37365facc11f887c0e96c570fc132'',
    iformfl ''PSUBQ_LAST'' ''a94ea44360e552c503cf0dbd28730f6dc'',
    iformfl ''PSUBSB_FIRST'' ''af475fa160fbd1504e6f0b0ad877ffa89'',
    iformfl ''PSUBSB_LAST'' ''af4ffc3b4d45ab80c1f701a6624625efa'',
    iformfl ''PSUBSW_FIRST'' ''ad4d6cf1b4e646949367d738ea1b70600'',
    iformfl ''PSUBSW_LAST'' ''a3d702a51aa1467cefd178009a91c4dc3'',
    iformfl ''PSUBUSB_FIRST'' ''a8fcfb246ed99bd98e491926eb0fba6d0'',
    iformfl ''PSUBUSB_LAST'' ''a8df2dc20600c0fb132dbd726ea0cc513'',
    iformfl ''PSUBUSW_FIRST'' ''a8d06621065f1210e0973a1d17446340b'',
    iformfl ''PSUBUSW_LAST'' ''a695134eb5ee5aebcdc34d2641c0a49de'',
    iformfl ''PSUBW_FIRST'' ''a57bf8b2a56fc1dba370767d474daa62d'',
    iformfl ''PSUBW_LAST'' ''a936a07508f83098400865244ad0eb68a'',
    iformfl ''PSWAPD_FIRST'' ''ad1065d2420d06c76fabd784a05cca4c4'',
    iformfl ''PSWAPD_LAST'' ''a05fb48561e28b97df8d51d664b70d11e'',
    iformfl ''PTEST_FIRST'' ''a27c53c4df6ec1ffa3858e31fd488a15f'',
    iformfl ''PTEST_LAST'' ''a76d28f99d4d73b45c2d562de9ea7c7c6'',
    iformfl ''PUNPCKHBW_FIRST'' ''ac23f03af7e75bc31b5171f9ad6d47e7b'',
    iformfl ''PUNPCKHBW_LAST'' ''a494eb07ae913ccde657d534ef9d0ce42'',
    iformfl ''PUNPCKHDQ_FIRST'' ''a5b288bb7c01bfd47e1446ba92a53bb36'',
    iformfl ''PUNPCKHDQ_LAST'' ''a87cf9853bbede58b41bd6647f1308a55'',
    iformfl ''PUNPCKHQDQ_FIRST'' ''a4f164b6f3d1e220f8ba68f949439aa95'',
    iformfl ''PUNPCKHQDQ_LAST'' ''a092b4b8077c5ead529348f43f918b371'',
    iformfl ''PUNPCKHWD_FIRST'' ''a2ecabefdc4eed90c2ad05b37f11d20c1'',
    iformfl ''PUNPCKHWD_LAST'' ''a697b13e5eb660d8c6356dadc8ca78ab3'',
    iformfl ''PUNPCKLBW_FIRST'' ''a9bf991fe186fc016ca114701b1898eac'',
    iformfl ''PUNPCKLBW_LAST'' ''af852186a8880635d0ce30a8c3af3c39e'',
    iformfl ''PUNPCKLDQ_FIRST'' ''a9c060e2afd771753f4527bb5a56278c2'',
    iformfl ''PUNPCKLDQ_LAST'' ''a768da93ef23dd638726ac1cc9be8fe20'',
    iformfl ''PUNPCKLQDQ_FIRST'' ''acb3daf0ba31ffb057048c6ca50329db0'',
    iformfl ''PUNPCKLQDQ_LAST'' ''ac65d9534991847043b87e2ce7e203dcd'',
    iformfl ''PUNPCKLWD_FIRST'' ''ab8d112120cfc7dd20d82983f18f9501a'',
    iformfl ''PUNPCKLWD_LAST'' ''afb2953026b45c3328860edabc64a2111'',
    iformfl ''PUSH_FIRST'' ''abfce26754587b86f6a9685f0c36816f4'',
    iformfl ''PUSH_LAST'' ''ab72bcd094362a100c022050c8bb200ed'',
    iformfl ''PUSHA_FIRST'' ''a9e1f67af1b5da65469418c499854a5bb'',
    iformfl ''PUSHA_LAST'' ''a1ee6e8c77aa732e52303350ed787b98b'',
    iformfl ''PUSHAD_FIRST'' ''a5260ba2e7d9eea31195f7a76a8080f23'',
    iformfl ''PUSHAD_LAST'' ''a4c802ed333217061e64534b85a8076d0'',
    iformfl ''PUSHF_FIRST'' ''ad697c2b4b33530ecd74d24388ed3ff85'',
    iformfl ''PUSHF_LAST'' ''a3415bd4c727bdf580db397c395631656'',
    iformfl ''PUSHFD_FIRST'' ''aaefd3074ba38f57d879a6607f47d5d72'',
    iformfl ''PUSHFD_LAST'' ''aca52df2634e038e906182930a6b0002d'',
    iformfl ''PUSHFQ_FIRST'' ''a203eaae2244387154646b7ff37a924da'',
    iformfl ''PUSHFQ_LAST'' ''ab5734ffbd39a2c6afd5bcfbd9a8c27e6'',
    iformfl ''PXOR_FIRST'' ''ab43bf856ca542e8f50bb440cc8684eb5'',
    iformfl ''PXOR_LAST'' ''a15379e37ee4d7e888fd74b09ac3f6b5f'',
    iformfl ''RCL_FIRST'' ''a3df907f7eab2499f18799a21a46589f7'',
    iformfl ''RCL_LAST'' ''a3fb66bf36d5476629ea1c3e13d907c9e'',
    iformfl ''RCPPS_FIRST'' ''acf8357fc7b04867b0165af09949fc371'',
    iformfl ''RCPPS_LAST'' ''adff63c33a6aeb09f8c511f4fc7fc51f8'',
    iformfl ''RCPSS_FIRST'' ''a1e5aeae64c543bca583df6b5157d1d49'',
    iformfl ''RCPSS_LAST'' ''a2b40af35f306cfb3bf778cdfa5d3f991'',
    iformfl ''RCR_FIRST'' ''a25b2e26d492372f9b8d72f43251dc604'',
    iformfl ''RCR_LAST'' ''a0e56f1eb4ffa3dc1bb7867d342b9a052'',
    iformfl ''RDFSBASE_FIRST'' ''adf39ea78bc890d204d2669415d4645fa'',
    iformfl ''RDFSBASE_LAST'' ''ac2ab5a971f3fce1e3726143db30c6c3c'',
    iformfl ''RDGSBASE_FIRST'' ''a1aa2488f4801514ca3c17f77f28f438f'',
    iformfl ''RDGSBASE_LAST'' ''aeb951cd8b7d5ce06b525751becacc3fc'',
    iformfl ''RDMSR_FIRST'' ''aa5f7fc8478ae38c8c31c21e39cd76f06'',
    iformfl ''RDMSR_LAST'' ''a785e6b7709d8ee2323ee75f4db2f3ca6'',
    iformfl ''RDPMC_FIRST'' ''a0a187a22ec8690472e6455c9d65e470c'',
    iformfl ''RDPMC_LAST'' ''a07bca92f16afe53d66a764e35610b5e3'',
    iformfl ''RDRAND_FIRST'' ''af875ea6a665b5d32794ca8312d8c490b'',
    iformfl ''RDRAND_LAST'' ''a1e89e6f7f1e03a1acaf95e8bc27ab774'',
    iformfl ''RDSEED_FIRST'' ''ab308b4cadee8a12e9be68fad692b45fb'',
    iformfl ''RDSEED_LAST'' ''a576a67e80b117189c2921b7af19c7bd2'',
    iformfl ''RDTSC_FIRST'' ''aa911c4482dec5950694f8bf483b48191'',
    iformfl ''RDTSC_LAST'' ''a9a8ab39bb2ad9abdf9902ec2b72d8a8b'',
    iformfl ''RDTSCP_FIRST'' ''afd8f475b0161138a4328f2f373660fc7'',
    iformfl ''RDTSCP_LAST'' ''aac6179e135cb90f01614e2fc32b4a59b'',
    iformfl ''RET_FAR_FIRST'' ''a93fa14f7da18f15f1c8167df8638b013'',
    iformfl ''RET_FAR_LAST'' ''ad70ff7f57bd54f3f1565837cc693e832'',
    iformfl ''RET_NEAR_FIRST'' ''a83c74403bc22e3f7ac6e8c3ee9fe6c95'',
    iformfl ''RET_NEAR_LAST'' ''a9947dc5009e32506681ee9cfde837c7d'',
    iformfl ''ROL_FIRST'' ''af20db4a0467441568eb5163fc61624b7'',
    iformfl ''ROL_LAST'' ''a0ca22a7dcdb241cd6d36bda1721d2b04'']"

lemma xed_iformfl_enum_8h_values_9_closed: "list_all (closed_node scripts) xed_iformfl_enum_8h_values_9"
  by (simp only: xed_iformfl_enum_8h_values_9_def closed_rules iformfl_closed)

definition xed_iformfl_enum_8h_values_10 :: "nav_node list" where
  "xed_iformfl_enum_8h_values_10 = [
    iformfl ''ROR_FIRST'' ''a2a7356131af0ca9246f96d4383633223'',
    iformfl ''ROR_LAST'' ''aac827293faba79a4c7bb04bd03c5550d'',
    iformfl ''RORX_FIRST'' ''ae093592594b02397b5f60bfdc59cb015'',
    iformfl ''RORX_LAST'' ''a370aabd8b4c2724462a050810c5ac42c'',
    iformfl ''ROUNDPD_FIRST'' ''aab35e3bd94fe95c3702a46b67f81863d'',
    iformfl ''ROUNDPD_LAST'' ''a1cc6297ce603701611d0ee84857455a7'',
    iformfl ''ROUNDPS_FIRST'' ''add984ee5ad5c597f6bffe3d3f4bee7e1'',
    iformfl ''ROUNDPS_LAST'' ''acac7d659f7b3e7598abdcf204266974c'',
    iformfl ''ROUNDSD_FIRST'' ''a7c4d2065901c1e1b92e5c71535cd4449'',
    iformfl ''ROUNDSD_LAST'' ''acc0afbd14465eb1a92e137c49a7324c6'',
    iformfl ''ROUNDSS_FIRST'' ''acda244002a55ed4d01b17b59892867a5'',
    iformfl ''ROUNDSS_LAST'' ''af24c7dcafd4692ae9b238e97a520a466'',
    iformfl ''RSM_FIRST'' ''a829c7d672e25ab968e9ec3d122fd20da'',
    iformfl ''RSM_LAST'' ''a4548de086cfeb497f502bdfea2e72d75'',
    iformfl ''RSQRTPS_FIRST'' ''af0b55b3fa92ede7966057f0f1bf17d0f'',
    iformfl ''RSQRTPS_LAST'' ''ac95d08179be3bd1e0d8297a4f6e1ae5d'',
    iformfl ''RSQRTSS_FIRST'' ''a425fd59db4c5a1d390ff94d66844a0ad'',
    iformfl ''RSQRTSS_LAST'' ''a64ac2b2f7565c0ed901b0f8b4f400f1d'',
    iformfl ''SAHF_FIRST'' ''aadc9e40b5285f9a762ffdf8be5d1e053'',
    iformfl ''SAHF_LAST'' ''aa3f1c4792b8292d00a3bfa6de385d3b6'',
    iformfl ''SALC_FIRST'' ''a5effefc3bddc00b6bec6564c880e5c2a'',
    iformfl ''SALC_LAST'' ''a82a9fca98004744e4dadd33af66521bd'',
    iformfl ''SAR_FIRST'' ''a6ec29cbcb2bf34c9e0113a3c4d2da946'',
    iformfl ''SAR_LAST'' ''a170a20eeae5105eae6b3d1f7e242fa1c'',
    iformfl ''SARX_FIRST'' ''aeabece72720bd0686bfae82b711e96d7'',
    iformfl ''SARX_LAST'' ''a1ede2bf088ccd480f6c10c7c1ffe3be4'',
    iformfl ''SBB_FIRST'' ''a47a27fba07719477dc2987350474d00a'',
    iformfl ''SBB_LAST'' ''a23b7ce53c09a02077838ce56be621698'',
    iformfl ''SCASB_FIRST'' ''ac44b3a05de4b7391367a14aedf21559f'',
    iformfl ''SCASB_LAST'' ''af5fdaff74feaa010dd45c191f4d97efa'',
    iformfl ''SCASD_FIRST'' ''acf54b51a1197331abdd5c330e058365a'',
    iformfl ''SCASD_LAST'' ''a09f3c2435228ace47aed2e8dabd98ad2'',
    iformfl ''SCASQ_FIRST'' ''aede82b3849cea0ceea8b659444331991'',
    iformfl ''SCASQ_LAST'' ''a975addac543600ad6cf32f5ee9ca64f5'',
    iformfl ''SCASW_FIRST'' ''a64028e2e573acff75f026e447c11bf7d'',
    iformfl ''SCASW_LAST'' ''ad61e65f9fee3dabac9647f86e1aa2a9e'',
    iformfl ''SETB_FIRST'' ''a4a4d70ff850b293459857e641d716ca6'',
    iformfl ''SETB_LAST'' ''aa3d23d3a920ebf14ec7053393da4d2a1'',
    iformfl ''SETBE_FIRST'' ''afd4e4d8bb7d131a306a915f7bf805679'',
    iformfl ''SETBE_LAST'' ''a303da190cb542c3f7e30e57955a02d44'',
    iformfl ''SETL_FIRST'' ''a18164cdf4070a5f39ee86554370808fa'',
    iformfl ''SETL_LAST'' ''a0e6983629b97853e50bb661b90ec6ab1'',
    iformfl ''SETLE_FIRST'' ''a501c207639a80b77d334417da6a343a7'',
    iformfl ''SETLE_LAST'' ''a254c00d5e3bdb28f8e670b370eea8316'',
    iformfl ''SETNB_FIRST'' ''a193c6f171c14c7acf6de48007a6b3c96'',
    iformfl ''SETNB_LAST'' ''a2a68b3832252fa5ca8a8b5f0f4ddd43f'',
    iformfl ''SETNBE_FIRST'' ''a14c77ed4b7d83e3638b05ddcf7b2656c'',
    iformfl ''SETNBE_LAST'' ''a0329d311c571d72be8660fcd10b278dd'',
    iformfl ''SETNL_FIRST'' ''a5cf99c7c68352a4fa7515f3ba1a88ace'',
    iformfl ''SETNL_LAST'' ''a79b127f7fb55700737126296c758eb9e'',
    iformfl ''SETNLE_FIRST'' ''ae84bd2b2f8e6dd45477135c2e13f4740'',
    iformfl ''SETNLE_LAST'' ''aa98a3155ff6974139ac66d3bc776b35f'',
    iformfl ''SETNO_FIRST'' ''a9375f5d9aa997679e30191a80ce204f0'',
    iformfl ''SETNO_LAST'' ''ae61c035d18c4d6cc06d7cbce544ea342'',
    iformfl ''SETNP_FIRST'' ''a637242d814cb7d7cbd5cce2b7b3ef8e5'',
    iformfl ''SETNP_LAST'' ''a2388b53b433689dec0822ff092226876'',
    iformfl ''SETNS_FIRST'' ''adc367b43f67622b2c42d4f842e696232'',
    iformfl ''SETNS_LAST'' ''a70263bec504fc06bcbafd429df6520f6'',
    iformfl ''SETNZ_FIRST'' ''aab6c6df17050f3e18d95356e322b7605'',
    iformfl ''SETNZ_LAST'' ''a3cb764095e46e8e91fcd450045c36d7d'',
    iformfl ''SETO_FIRST'' ''aa4aa1d45e8ac89e3fa12c0469def526e'',
    iformfl ''SETO_LAST'' ''aada72bf9c2c2dae7401cf0eb91f6e55a'',
    iformfl ''SETP_FIRST'' ''a48cc0712bd897216e322109f95e6d810'',
    iformfl ''SETP_LAST'' ''a90964432023f779af583567a14b5ecc6'',
    iformfl ''SETS_FIRST'' ''a981d54e9803fdfbdee982544a714decc'',
    iformfl ''SETS_LAST'' ''aa0c5d37b3da96a93de60d149e8f6a1d1'',
    iformfl ''SETZ_FIRST'' ''ae0e8f9fb2bfefe56afe26faca908a7f9'',
    iformfl ''SETZ_LAST'' ''a96d8025177c68c3f34a80361d54630af'',
    iformfl ''SFENCE_FIRST'' ''ace413beac85e24632b4c48b86496e187'',
    iformfl ''SFENCE_LAST'' ''a68b12e432654ddcd2dd918bd4b427910'',
    iformfl ''SGDT_FIRST'' ''a5aee788f56f902bd648f9bb6d87edcb2'',
    iformfl ''SGDT_LAST'' ''a9f2d4bc38ac10b8efc405d92150c6612'',
    iformfl ''SHA1MSG1_FIRST'' ''ae01e9d093d3677bdd0427800b5078b6d'',
    iformfl ''SHA1MSG1_LAST'' ''af70ca184e6277e7cf9afe41a095aac52'',
    iformfl ''SHA1MSG2_FIRST'' ''a51e0264071af395236b781ccaa4ac7f2'',
    iformfl ''SHA1MSG2_LAST'' ''a419e80bb2c6c014f95df90cc4d4b0235'',
    iformfl ''SHA1NEXTE_FIRST'' ''a6c28886b0a4530b9808f3f5bdbf06d22'',
    iformfl ''SHA1NEXTE_LAST'' ''a47be658c7e853342db317884905482d0'',
    iformfl ''SHA1RNDS4_FIRST'' ''a78f31a7bb6ed8f85bc024b1ba244fc58'',
    iformfl ''SHA1RNDS4_LAST'' ''a60d7406e5b1dba78c257a27818e3b013'',
    iformfl ''SHA256MSG1_FIRST'' ''aeebbe6f22bc0ca6a717e18a85a908ed2'',
    iformfl ''SHA256MSG1_LAST'' ''a8d854fd20a9409d343c16e28d18b68a9'',
    iformfl ''SHA256MSG2_FIRST'' ''a396c98dd4a2874d0486e798b7475ceef'',
    iformfl ''SHA256MSG2_LAST'' ''ae3e5dff9267917953d39e3438776858e'',
    iformfl ''SHA256RNDS2_FIRST'' ''a96d59764315f06a39d3ddec35dcbf846'',
    iformfl ''SHA256RNDS2_LAST'' ''a740b5cdf20576db6948760d8ae0425fa'',
    iformfl ''SHL_FIRST'' ''a84c8652150c5ce675a57f12ec53495c7'',
    iformfl ''SHL_LAST'' ''a00a81180b848fc4a199127065df5022a'',
    iformfl ''SHLD_FIRST'' ''aff782b9fa59d16ccb534c4726d33e022'',
    iformfl ''SHLD_LAST'' ''a8344e90a58ace13706e654381cf93a44'',
    iformfl ''SHLX_FIRST'' ''acf69f320dee862db473e03de34fad779'',
    iformfl ''SHLX_LAST'' ''aa133e328427259c10cc237bbe5c3195d'',
    iformfl ''SHR_FIRST'' ''add188cb52bb2ec7431cd284f374c8899'',
    iformfl ''SHR_LAST'' ''a06eafb1e117ff03e8ed25ff39412bff8'',
    iformfl ''SHRD_FIRST'' ''a590277c021cad1af805b01b23c352b9a'',
    iformfl ''SHRD_LAST'' ''a2bc76fd5015682e2d0a7f83a082900f5'',
    iformfl ''SHRX_FIRST'' ''a2abba55a345d87c7e9a508e8bdaefe4d'',
    iformfl ''SHRX_LAST'' ''af16076d142f390cb0de44b9032f530ee'',
    iformfl ''SHUFPD_FIRST'' ''a7ce168e7f4475f5b74516c7a560c297f'',
    iformfl ''SHUFPD_LAST'' ''ab9054e90fb0e708525e3b45923d89f05'',
    iformfl ''SHUFPS_FIRST'' ''a5849a82428c47278ee897bdd9f44a708'',
    iformfl ''SHUFPS_LAST'' ''ab3e6a758ba349ee45a795b6e9e363130'',
    iformfl ''SIDT_FIRST'' ''ace09aa985988d0dfbb3c7eb7350a72a9'',
    iformfl ''SIDT_LAST'' ''a590094b277b4af5e4bf9dec9db7f2ebb'',
    iformfl ''SKINIT_FIRST'' ''ac26141dc73d796a0541d8286537d8ef0'',
    iformfl ''SKINIT_LAST'' ''accb709ec92d8263781e87e793ee947d2'',
    iformfl ''SLDT_FIRST'' ''a6b04a0a54cfa402ba87881d3fb9488c4'',
    iformfl ''SLDT_LAST'' ''ae49d7228b1ca47fa30bc84eeea7c8ec2'',
    iformfl ''SLWPCB_FIRST'' ''a50eb77bc46dc3c5068a54b97a9909d5c'',
    iformfl ''SLWPCB_LAST'' ''a0c04dec84e5b05dfd363914853cf7a95'',
    iformfl ''SMSW_FIRST'' ''a92423599a2ef2a6064d98dec9790a30b'',
    iformfl ''SMSW_LAST'' ''a8295b43668e7311148dff18a676f3e4e'',
    iformfl ''SQRTPD_FIRST'' ''af6faeb67776b3b2dcf0729dc5ba118c7'',
    iformfl ''SQRTPD_LAST'' ''ad57b81e12077d692ed8117681aff1378'',
    iformfl ''SQRTPS_FIRST'' ''abc32da4531f184729c8584c41bab00fc'',
    iformfl ''SQRTPS_LAST'' ''ad5e959c6af62cbeb28cf426b0b9658bb'',
    iformfl ''SQRTSD_FIRST'' ''a637cf675e6420b2079429122a769b806'',
    iformfl ''SQRTSD_LAST'' ''a8f93e09850e5244fea501d0d18210b71'',
    iformfl ''SQRTSS_FIRST'' ''a896f710fb7d68927ddc4b69b90dadf5f'',
    iformfl ''SQRTSS_LAST'' ''afda6b1973291e85cc33bdfd3418f28fa'',
    iformfl ''STAC_FIRST'' ''a26bb983921abc555a60970e967bb227b'',
    iformfl ''STAC_LAST'' ''aa5ebbcba6e73f655af5d799c6f1302cc'',
    iformfl ''STC_FIRST'' ''acd094f7edbc8f87f2f12b8df1b94e026'',
    iformfl ''STC_LAST'' ''a6b34c52fe5d04ee1d57fe53cac09bcae'',
    iformfl ''STD_FIRST'' ''afafe8c9490220c6b23fae4c213682fe8'',
    iformfl ''STD_LAST'' ''a8fbb41749b458e1c39b544ec71f9551a'',
    iformfl ''STGI_FIRST'' ''af6e7cdbde283005a516d59210992963d'',
    iformfl ''STGI_LAST'' ''a2b37a8100373a0071b34756c531144a3'',
    iformfl ''STI_FIRST'' ''a8e89195ccf6dbedaa506158bb610f833'',
    iformfl ''STI_LAST'' ''ac0b433824f25dcd7fe8b1b64b450290d'',
    iformfl ''STMXCSR_FIRST'' ''ae6d82fce14d6243f6e379366e05327b7'',
    iformfl ''STMXCSR_LAST'' ''a92a277becda02200045f3f9db843a814'',
    iformfl ''STOSB_FIRST'' ''a07589a69e17cf88a4d07bcdd8e1350bf'',
    iformfl ''STOSB_LAST'' ''a1b66e1439f8375d2f8627b7fa30cf524'',
    iformfl ''STOSD_FIRST'' ''a3c9b2f9ed5d9b976f09b5fe41501d991'',
    iformfl ''STOSD_LAST'' ''aced21a19ad48443890c7721dd195cd4b'',
    iformfl ''STOSQ_FIRST'' ''a14660c292753c0bebe3f069a1422177a'',
    iformfl ''STOSQ_LAST'' ''a182c6c521cd07b4529d8e1e27cc0b184'',
    iformfl ''STOSW_FIRST'' ''ac12550acedd52baa8e3d73c07be542ab'',
    iformfl ''STOSW_LAST'' ''a590112fd70542b19beb1ade43a787e0e'']"

lemma xed_iformfl_enum_8h_values_10_closed: "list_all (closed_node scripts) xed_iformfl_enum_8h_values_10"
  by (simp only: xed_iformfl_enum_8h_values_10_def closed_rules iformfl_closed)

definition xed_iformfl_enum_8h_values_11 :: "nav_node list" where
  "xed_iformfl_enum_8h_values_11 = [
    iformfl ''STR_FIRST'' ''a01690c25bca21c00169f3b49a746d287'',
    iformfl ''STR_LAST'' ''a5eb1623966555302e38d25b8a2ef4e11'',
    iformfl ''SUB_FIRST'' ''add169f8db8f8fd48cd91daa91952c7eb'',
    iformfl ''SUB_LAST'' ''aa75e39d9c3aa36d6e9bb91b94610c990'',
    iformfl ''SUBPD_FIRST'' ''a9159feb9dcb47ee6fd6609f946e2c11a'',
    iformfl ''SUBPD_LAST'' ''af898435ce57f373ac66e7a61e7605871'',
    iformfl ''SUBPS_FIRST'' ''a4331dd5dbb7273c94140f20d85bd5094'',
    iformfl ''SUBPS_LAST'' ''a1b33f2dd79dc21263a350e72e358d402'',
    iformfl ''SUBSD_FIRST'' ''ad126652229a3385331d558c5a0b08132'',
    iformfl ''SUBSD_LAST'' ''a3170bac8f59f1c88fe57cdf62d9328ab'',
    iformfl ''SUBSS_FIRST'' ''ad406c681c5b4bf21aaeb50d71613a2b1'',
    iformfl ''SUBSS_LAST'' ''a3a978a42fb485c7b0a6430f16578f809'',
    iformfl ''SWAPGS_FIRST'' ''a9d77e87dd26911827422eab7f16869d5'',
    iformfl ''SWAPGS_LAST'' ''a9e194055f250a8c6d4a0ae98915a5365'',
    iformfl ''SYSCALL_FIRST'' ''a75fafff93658e18fda523bca59fdb2a4'',
    iformfl ''SYSCALL_LAST'' ''a2616977f9ae0ac7e9ae3487fe623d7a5'',
    iformfl ''SYSCALL_AMD_FIRST'' ''a2eef61037b5bd1cd29b8d80d9d85c412'',
    iformfl ''SYSCALL_AMD_LAST'' ''abbd63e0d286de43bce13dd3499da35d1'',
    iformfl ''SYSENTER_FIRST'' ''a2ede5f037908fbaf08366775ffda8aed'',
    iformfl ''SYSENTER_LAST'' ''af88b3abd593ce343230f70e12121bde7'',
    iformfl ''SYSEXIT_FIRST'' ''a8d8343ac4b4cbe6ed334fe66fc5a0d7a'',
    iformfl ''SYSEXIT_LAST'' ''ab72275f6e987dd0014ab24df0800d30f'',
    iformfl ''SYSRET_FIRST'' ''a9558fe3bfdb7b3673bf736b380e6bf72'',
    iformfl ''SYSRET_LAST'' ''a0ac40c917279fd613219bb0beb0e30cd'',
    iformfl ''SYSRET_AMD_FIRST'' ''a0a0ce5bd9807a04aabbc122ea7cc63ca'',
    iformfl ''SYSRET_AMD_LAST'' ''adcbbec32ed6a5c3aae806ce9961b1336'',
    iformfl ''T1MSKC_FIRST'' ''ac1eddb5e7e6840123fa8f92a53fbaaa5'',
    iformfl ''T1MSKC_LAST'' ''a3f05ac72151283cd6184f8a92f8d9bb4'',
    iformfl ''TEST_FIRST'' ''a2e9ec33dbbd58805f7d3d1193b1f4487'',
    iformfl ''TEST_LAST'' ''a3254c7d00db6027dc7ff579882d5dc2e'',
    iformfl ''TZCNT_FIRST'' ''a1613753b18d37cd0e14d35e189b262f3'',
    iformfl ''TZCNT_LAST'' ''acbf95c0cce6563b94e8178aabb61795e'',
    iformfl ''TZMSK_FIRST'' ''aab925cb40c3275d0c4f7e85d7f7e2b6c'',
    iformfl ''TZMSK_LAST'' ''af7f0a7388ed092aaf89b8c3ba0dfeac3'',
    iformfl ''UCOMISD_FIRST'' ''a780a5dd727cd333cc9a30e654d10f00b'',
    iformfl ''UCOMISD_LAST'' ''a0e37a0a8e056679bf09550de9110a4f1'',
    iformfl ''UCOMISS_FIRST'' ''a85cd5232d30e152d0bfdc647e2ef2a17'',
    iformfl ''UCOMISS_LAST'' ''a636568999c39208d2cf136372a3650db'',
    iformfl ''UD2_FIRST'' ''a723d587709ba8ff8e7d68a046fbc6b15'',
    iformfl ''UD2_LAST'' ''a9f460796e36058b76bc45cd4c81d69ac'',
    iformfl ''UNPCKHPD_FIRST'' ''abb2c79dbaaba16156a8b9c46a5765138'',
    iformfl ''UNPCKHPD_LAST'' ''afdeb0d1b52b6c3a499e01737cae93753'',
    iformfl ''UNPCKHPS_FIRST'' ''a2265196ba348897fe67056bdfd493d04'',
    iformfl ''UNPCKHPS_LAST'' ''aaabb29acd833abe2a09c641a0cac3134'',
    iformfl ''UNPCKLPD_FIRST'' ''a0e37946aaeb05faac55280bc194e5805'',
    iformfl ''UNPCKLPD_LAST'' ''a5cf74ac7d39b7674f885e9531af20c71'',
    iformfl ''UNPCKLPS_FIRST'' ''a76c338e94b2e5a74459b206e1fed84d0'',
    iformfl ''UNPCKLPS_LAST'' ''a41855ec4f4af9eb78d6d125a2a7542b1'',
    iformfl ''VADDPD_FIRST'' ''a12efbb32cdead7ae8f8a338de58d6d83'',
    iformfl ''VADDPD_LAST'' ''ac1ef1cc4e6f3f6dc66e6cfb5c8aec3b3'',
    iformfl ''VADDPS_FIRST'' ''af49662317725ff66cb52b1a0f3f1710a'',
    iformfl ''VADDPS_LAST'' ''a2d4d144e5c829029955bc7c1eb2a8fd3'',
    iformfl ''VADDSD_FIRST'' ''a617915fdfe66d381a72676a7787072ea'',
    iformfl ''VADDSD_LAST'' ''a0ff20b9c63c14384f1c054490e20b009'',
    iformfl ''VADDSS_FIRST'' ''adc3b53d46c3e8f1910322a48a5c08903'',
    iformfl ''VADDSS_LAST'' ''a9e11fb4182ed6b225fe99a33f13305de'',
    iformfl ''VADDSUBPD_FIRST'' ''a5251f1bb2bce19410fb0dbe8a6a15c20'',
    iformfl ''VADDSUBPD_LAST'' ''a10dadc8f6b2a0bc47d0e26ecf78cb347'',
    iformfl ''VADDSUBPS_FIRST'' ''a070ddac8ad4edb4eff55c8edd6f5e8e6'',
    iformfl ''VADDSUBPS_LAST'' ''a144983ce61d0cc3e10b27b3836bbc221'',
    iformfl ''VAESDEC_FIRST'' ''afa64896a158ebba3c0ea38745df92296'',
    iformfl ''VAESDEC_LAST'' ''a4756bbf971f01f8fd2005d6bbef03ea1'',
    iformfl ''VAESDECLAST_FIRST'' ''aef85ed97b1dc1be4a5fb296a904f5ac9'',
    iformfl ''VAESDECLAST_LAST'' ''a9eec4f2f1b38a9567345ebff25235f59'',
    iformfl ''VAESENC_FIRST'' ''ad192970e07aaa273d1212e6a2936b64b'',
    iformfl ''VAESENC_LAST'' ''a27b6aea46e8949326eecfb87c15fcce1'',
    iformfl ''VAESENCLAST_FIRST'' ''a2e75ba5e6f53931a53d98ed36a92a8e4'',
    iformfl ''VAESENCLAST_LAST'' ''a6f3a6bd93466ac6390d9c9f30e28543a'',
    iformfl ''VAESIMC_FIRST'' ''a6294a0ec3244356d72f445b1c905e93f'',
    iformfl ''VAESIMC_LAST'' ''a2fbbdc4a2b70b22840abfd8c8c8b0bfe'',
    iformfl ''VAESKEYGENASSIST_FIRST'' ''ac149215d41e316dea80f97a75612092f'',
    iformfl ''VAESKEYGENASSIST_LAST'' ''a57725a6599e336a8115646ed12b69406'',
    iformfl ''VALIGND_FIRST'' ''ac8992b4bb464ee960d9202227831b867'',
    iformfl ''VALIGND_LAST'' ''a91ae142ac793d50ac35c2e74e5d8c0be'',
    iformfl ''VALIGNQ_FIRST'' ''a83f5e0e257d06353eb1792874c966f13'',
    iformfl ''VALIGNQ_LAST'' ''a16aa6fbe44df81c2090d3d5615a79e25'',
    iformfl ''VANDNPD_FIRST'' ''a66f213c808d26ff4300d157a072f860e'',
    iformfl ''VANDNPD_LAST'' ''ab256890e0453996d22c627926b965729'',
    iformfl ''VANDNPS_FIRST'' ''a1f5e1c5ed0a1e3c06608ff3b138c694a'',
    iformfl ''VANDNPS_LAST'' ''aa5ebb3c080b8d44611a1e660ff6b82ea'',
    iformfl ''VANDPD_FIRST'' ''a60177bd5bdf1296ed7e325debf2cb9c5'',
    iformfl ''VANDPD_LAST'' ''a1fa3a83f6a7d0c22fa5bf2a03e3932c7'',
    iformfl ''VANDPS_FIRST'' ''a92355c8a0caf74d26855269d2e9237b4'',
    iformfl ''VANDPS_LAST'' ''ab021c4928d504f063d2d65a510d1f2ae'',
    iformfl ''VBLENDMPD_FIRST'' ''af572885a2673e97bdbb38cf04c51c73a'',
    iformfl ''VBLENDMPD_LAST'' ''a85bb0a6b428349647bd2074e2d539dc8'',
    iformfl ''VBLENDMPS_FIRST'' ''aad73b93319514ca262b274bb40d4df70'',
    iformfl ''VBLENDMPS_LAST'' ''aae508c32a938143ddb81ee0598496fd7'',
    iformfl ''VBLENDPD_FIRST'' ''a54c5c0f9c1b562db40a7ab1517bdd2de'',
    iformfl ''VBLENDPD_LAST'' ''aa8983906f2bf3542526a86e8999623d2'',
    iformfl ''VBLENDPS_FIRST'' ''a1c3c2e2bef19a62b66db1ca38182917c'',
    iformfl ''VBLENDPS_LAST'' ''af577a0faaef56df389a43888b01dbeb1'',
    iformfl ''VBLENDVPD_FIRST'' ''a9806243c80a6e7ede4202943285432d5'',
    iformfl ''VBLENDVPD_LAST'' ''ad6d3e5d70df33ad0c750c92e99d30ec4'',
    iformfl ''VBLENDVPS_FIRST'' ''ace71819ed5d45b76b52b834736fa4a98'',
    iformfl ''VBLENDVPS_LAST'' ''a2a457e98842d3e7cc78723317ef96523'',
    iformfl ''VBROADCASTF128_FIRST'' ''a409faa235e2a82175c512a7c25c81932'',
    iformfl ''VBROADCASTF128_LAST'' ''afd2c50cc4ba559bc844836ff7c5d6bf6'',
    iformfl ''VBROADCASTF32X2_FIRST'' ''aaabf803d3473786c301774404f345a21'',
    iformfl ''VBROADCASTF32X2_LAST'' ''ae4e86629664d8e62bb51d74feaea7f52'',
    iformfl ''VBROADCASTF32X4_FIRST'' ''aac3acacc8f12c098689719663f2c34f4'',
    iformfl ''VBROADCASTF32X4_LAST'' ''aa6e5ff4c9b7ca29a5501712844a97d68'',
    iformfl ''VBROADCASTF32X8_FIRST'' ''a43b6ea2eb6ba97f3d38574e482635528'',
    iformfl ''VBROADCASTF32X8_LAST'' ''aa0081ea71fd516df9b169a277765a914'',
    iformfl ''VBROADCASTF64X2_FIRST'' ''a6d27065e5345171a2e4ea98d541d0e21'',
    iformfl ''VBROADCASTF64X2_LAST'' ''ae55cc68688073ebd615149c9ceb46cc7'',
    iformfl ''VBROADCASTF64X4_FIRST'' ''a3f8cfeb776ac34fab7058cef35a363df'',
    iformfl ''VBROADCASTF64X4_LAST'' ''a44eb697eb34c8a11f62ba565994bcfea'',
    iformfl ''VBROADCASTI128_FIRST'' ''aff544f52b7b43aa73732b46fa3d20dbc'',
    iformfl ''VBROADCASTI128_LAST'' ''a7237e5fe16132a41e4f0036f0efb71f2'',
    iformfl ''VBROADCASTI32X2_FIRST'' ''a103e5fb02be1b61a7aee08aadaf0dedd'',
    iformfl ''VBROADCASTI32X2_LAST'' ''aa96b90b67b0b368f1a8ab08624f402a1'',
    iformfl ''VBROADCASTI32X4_FIRST'' ''a17bb231135f10fff0027d75c8c1b136f'',
    iformfl ''VBROADCASTI32X4_LAST'' ''a3eadd8eece8cd8d0e5b284e3ffdb129b'',
    iformfl ''VBROADCASTI32X8_FIRST'' ''ae12feb8f6a31b83ed1e839bd12b155b0'',
    iformfl ''VBROADCASTI32X8_LAST'' ''aa1d37b17a9e1816c34a0ed99a57608d5'',
    iformfl ''VBROADCASTI64X2_FIRST'' ''a375f40b78ecb811740db58a2dc1667c5'',
    iformfl ''VBROADCASTI64X2_LAST'' ''ac9f6b23c0f1ef35ad7070b4b3e10f950'',
    iformfl ''VBROADCASTI64X4_FIRST'' ''a2237452b2babb6df6f38443be226ae65'',
    iformfl ''VBROADCASTI64X4_LAST'' ''a6cb41c7187fe5b1e4d4f0281220582c7'',
    iformfl ''VBROADCASTSD_FIRST'' ''a9d0a20ca70d7e27d5d6d78755dff21bf'',
    iformfl ''VBROADCASTSD_LAST'' ''a1a2140c69c5c5db58cc1f1684b9e819d'',
    iformfl ''VBROADCASTSS_FIRST'' ''abdc2ab2853b0104a32bdb0fedd9a1736'',
    iformfl ''VBROADCASTSS_LAST'' ''a5ca60b4b4b5b9860f57e5c9250574856'',
    iformfl ''VCMPPD_FIRST'' ''a9b5e9ffafff47a8dbb1bcbfd375515a5'',
    iformfl ''VCMPPD_LAST'' ''aef8c34b19c1f7838270469cc13a30c22'',
    iformfl ''VCMPPS_FIRST'' ''aad5c90cc1d0c8f8e1b8090df57795a9b'',
    iformfl ''VCMPPS_LAST'' ''a6fe9f0b99e14b38420c67181792cc0dc'',
    iformfl ''VCMPSD_FIRST'' ''a38b8532d41218127f5789534e261561e'',
    iformfl ''VCMPSD_LAST'' ''a4542f5b77689ece2b20640c8e2a8ce10'',
    iformfl ''VCMPSS_FIRST'' ''a657752b887e28ecf6a3406173bea2ee0'',
    iformfl ''VCMPSS_LAST'' ''a0a1cd08f1f6a6c3b2e6beae7e10254f8'',
    iformfl ''VCOMISD_FIRST'' ''a192923fb4ab8c9f4f1535ed9f9333f50'',
    iformfl ''VCOMISD_LAST'' ''a1b732a5dfb46a8950364ebea7cdd8db0'',
    iformfl ''VCOMISS_FIRST'' ''a09a145fd1a6dc74fe7471556fa14c532'',
    iformfl ''VCOMISS_LAST'' ''a072c37054f7a2905a0761192fd77876f'',
    iformfl ''VCOMPRESSPD_FIRST'' ''a36f6a5070c4e30253c8278f260fe8fdb'',
    iformfl ''VCOMPRESSPD_LAST'' ''a78820c2ef8599adbea8e7147d188f7bd'',
    iformfl ''VCOMPRESSPS_FIRST'' ''abc612dbb5b691b283106cace6aea34c1'',
    iformfl ''VCOMPRESSPS_LAST'' ''a881a73fbf702d48d0257c8edabaca0e2'']"

lemma xed_iformfl_enum_8h_values_11_closed: "list_all (closed_node scripts) xed_iformfl_enum_8h_values_11"
  by (simp only: xed_iformfl_enum_8h_values_11_def closed_rules iformfl_closed)

end
