(* ===== verification/Nav_Iformfl_2.thy ===== *)
theory Nav_Iformfl_2
  imports Nav_Iformfl
begin

text \<open>
  xed-iformfl-enum_8h.js: the child table of an enumeration of instruction forms or classes.
\<close>

definition xed_iformfl_enum_8h_values_12 :: "nav_node list" where
  "xed_iformfl_enum_8h_values_12 = [
    iformfl ''VCVTDQ2PD_FIRST'' ''a338dd03fc3b04032bd269f99976fcdfc'',
    iformfl ''VCVTDQ2PD_LAST'' ''a462794a3a7d7c9b700bd832451f73141'',
    iformfl ''VCVTDQ2PS_FIRST'' ''a9ce1f80e7f4b6e880625e57b1061504d'',
    iformfl ''VCVTDQ2PS_LAST'' ''a285aa7aae76640cccf9e9b12c30ceffe'',
    iformfl ''VCVTPD2DQ_FIRST'' ''a342f0e7e4597d762afefb940ce087c60'',
    iformfl ''VCVTPD2DQ_LAST'' ''a9433aae7dbf2cc603fa8d529f57753a0'',
    iformfl ''VCVTPD2PS_FIRST'' ''a984fbaae7992c5700d2368085718fb66'',
    iformfl ''VCVTPD2PS_LAST'' ''a6ff6590f29eb02d49f71e8e1de280620'',
    iformfl ''VCVTPD2QQ_FIRST'' ''aa337914a48f137192554a7f0576952d3'',
    iformfl ''VCVTPD2QQ_LAST'' ''aa6a73dca72d85b11fdd63c5d0127095c'',
    iformfl ''VCVTPD2UDQ_FIRST'' ''a23d208417e16cdf73f38b3ada1b94a56'',
    iformfl ''VCVTPD2UDQ_LAST'' ''acd52a46792468e123c1d2313bb09efc7'',
    iformfl ''VCVTPD2UQQ_FIRST'' ''a8a50a12ce5150447cd1270e480a3aa44'',
    iformfl ''VCVTPD2UQQ_LAST'' ''a2220fcecfe756e796259bc27a6742834'',
    iformfl ''VCVTPH2PS_FIRST'' ''a3e7eab500bb559bfd8408701b69de7f9'',
    iformfl ''VCVTPH2PS_LAST'' ''ac512c410bd55335a9bb9087d46c2d086'',
    iformfl ''VCVTPS2DQ_FIRST'' ''a86959b2a1cc852e5dd2f0449703cdd7b'',
    iformfl ''VCVTPS2DQ_LAST'' ''a4c77054a84bb54032c07b43e6453f1cd'',
    iformfl ''VCVTPS2PD_FIRST'' ''ac6688589b62288d550699d0b2cae8829'',
    iformfl ''VCVTPS2PD_LAST'' ''a29fc4328ff455c7d30aeb92a5fa14aa4'',
    iformfl ''VCVTPS2PH_FIRST'' ''adb9be500e65d3cf58faae5844334f135'',
    iformfl ''VCVTPS2PH_LAST'' ''a49693891aaec8baea2859bfd3b8db122'',
    iformfl ''VCVTPS2QQ_FIRST'' ''aed5c06ebdd45950658e471b8a503d9cb'',
    iformfl ''VCVTPS2QQ_LAST'' ''ab17f27a3d4d50405d3b2d1ce8bbe1cbb'',
    iformfl ''VCVTPS2UDQ_FIRST'' ''aa9cda6b94d1356012db78cde006d03c9'',
    iformfl ''VCVTPS2UDQ_LAST'' ''a9e9145f059cb174e0a0c9563a2b49ce2'',
    iformfl ''VCVTPS2UQQ_FIRST'' ''a1e13df7f8ac91afc0b0013fccfde8622'',
    iformfl ''VCVTPS2UQQ_LAST'' ''a2145fbd5460bb71ab7409595ff84d438'',
    iformfl ''VCVTQQ2PD_FIRST'' ''a0ff100466800ebb616ee59f95ea6039b'',
    iformfl ''VCVTQQ2PD_LAST'' ''a984e4591e95c8e46f0d584ad0202294b'',
    iformfl ''VCVTQQ2PS_FIRST'' ''a01e99a7de8fe2cf895bb42e556bbb26c'',
    iformfl ''VCVTQQ2PS_LAST'' ''abdbcdd26536548bd75ff22d7a4eb9170'',
    iformfl ''VCVTSD2SI_FIRST'' ''a01740d1bbcf5d29661ec97c0c0c33bc9'',
    iformfl ''VCVTSD2SI_LAST'' ''a8f3fe30056704beccbaea64bfe474e65'',
    iformfl ''VCVTSD2SS_FIRST'' ''a0e559ed7b1e95301269e83f936572e6e'',
    iformfl ''VCVTSD2SS_LAST'' ''a65b025254a63ff5fa31d60fe5d5304c6'',
    iformfl ''VCVTSD2USI_FIRST'' ''af6b0a44d5d9aa81dc9f324010598e069'',
    iformfl ''VCVTSD2USI_LAST'' ''aab1ffc756cfdf14c62db9f4342785204'',
    iformfl ''VCVTSI2SD_FIRST'' ''aab0b9479151bbc4ea3e3e26041265ff5'',
    iformfl ''VCVTSI2SD_LAST'' ''a32e5fa3948a887bb773c7bf22c589abc'',
    iformfl ''VCVTSI2SS_FIRST'' ''af615cc764500139abf06bea42559c6bf'',
    iformfl ''VCVTSI2SS_LAST'' ''a57defc75ae3f1309b1f807d3df5f43be'',
    iformfl ''VCVTSS2SD_FIRST'' ''a9fa71b5b09eef028db3156dede3fc57b'',
    iformfl ''VCVTSS2SD_LAST'' ''a52507d82ec3b321a8200018d91ad8ca5'',
    iformfl ''VCVTSS2SI_FIRST'' ''a804610a60a1593078e7a634feba8f717'',
    iformfl ''VCVTSS2SI_LAST'' ''aa750e223cd38db236ac2ab802a4cec52'',
    iformfl ''VCVTSS2USI_FIRST'' ''a3cb2a78728f9a2f87c46cdf34611dc11'',
    iformfl ''VCVTSS2USI_LAST'' ''ae525cdc046e5acd219d109ebd13ab5d9'',
    iformfl ''VCVTTPD2DQ_FIRST'' ''a518b584152434a8c3400e1e7748df5d7'',
    iformfl ''VCVTTPD2DQ_LAST'' ''a40a4deb81502566a57caae852ac2db86'',
    iformfl ''VCVTTPD2QQ_FIRST'' ''a46216375d21e479aee632c2e860b3b16'',
    iformfl ''VCVTTPD2QQ_LAST'' ''a5f4b619edcf05282226bd00b8a840d81'',
    iformfl ''VCVTTPD2UDQ_FIRST'' ''a759a68489e75ebd467132fb6e19f7556'',
    iformfl ''VCVTTPD2UDQ_LAST'' ''a1d272eaeb903e9aec5f7ed7a1e47ca7e'',
    iformfl ''VCVTTPD2UQQ_FIRST'' ''a055a0d4ab1f5d209af817257dabc2954'',
    iformfl ''VCVTTPD2UQQ_LAST'' ''af9852db8a43bfa2a89c4ac70478d3f2d'',
    iformfl ''VCVTTPS2DQ_FIRST'' ''a25436201543000caf8cd1da3b91aafcf'',
    iformfl ''VCVTTPS2DQ_LAST'' ''a71221121c6e3887a6b3ddff3279203f2'',
    iformfl ''VCVTTPS2QQ_FIRST'' ''a6dec0b234f003666817c018553356784'',
    iformfl ''VCVTTPS2QQ_LAST'' ''aa2f4a48a6d52910cd0ae6d38c55e0c39'',
    iformfl ''VCVTTPS2UDQ_FIRST'' ''af9011eb15e6498a344f9b8d8301276c5'',
    iformfl ''VCVTTPS2UDQ_LAST'' ''a1ebe8990ded7a41fac43b3282550e439'',
    iformfl ''VCVTTPS2UQQ_FIRST'' ''aa950faa4cdcd15203251fdfca8b08ede'',
    iformfl ''VCVTTPS2UQQ_LAST'' ''a9dfc45c125f57cefcef8fea1b39b7e7b'',
    iformfl ''VCVTTSD2SI_FIRST'' ''a7d81859257e57032f277fbb0e8db0112'',
    iformfl ''VCVTTSD2SI_LAST'' ''a3fc9ce8a6052f81f3fa2aab180fd3c10'',
    iformfl ''VCVTTSD2USI_FIRST'' ''a21a68fb6c9da0ad45d8dfc3beafaf358'',
    iformfl ''VCVTTSD2USI_LAST'' ''a3ff6966bac352a19c39f19146e5a6c35'',
    iformfl ''VCVTTSS2SI_FIRST'' ''a294f846c9a99d1dd7471d2a52b2e11ea'',
    iformfl ''VCVTTSS2SI_LAST'' ''aa5c3c0577b4c4aee70992053dbef635e'',
    iformfl ''VCVTTSS2USI_FIRST'' ''a1fc98524aca74dca001c4572a0f7a9e3'',
    iformfl ''VCVTTSS2USI_LAST'' ''a9c8bdde194b930b95c04ce43ae225e24'',
    iformfl ''VCVTUDQ2PD_FIRST'' ''a6dfe8c025e6405c0e37be3fae9a29fb5'',
    iformfl ''VCVTUDQ2PD_LAST'' ''ae39a20d7d3f3d4daae59f227143bbb54'',
    iformfl ''VCVTUDQ2PS_FIRST'' ''af060e26a11ed48730c2300f9f01c63b7'',
    iformfl ''VCVTUDQ2PS_LAST'' ''a0c7b117f7f1b9a43b2e666a16b96fa3d'',
    iformfl ''VCVTUQQ2PD_FIRST'' ''ab58afc91bc115f8468e5c366f5b0e0c2'',
    iformfl ''VCVTUQQ2PD_LAST'' ''a5c93001a25e0336254dacd56d47f0c71'',
    iformfl ''VCVTUQQ2PS_FIRST'' ''a15ad9527056498ebddf59ed0c18f43e5'',
    iformfl ''VCVTUQQ2PS_LAST'' ''af98137856aba1d53ef979bb8fac63e04'',
    iformfl ''VCVTUSI2SD_FIRST'' ''a3803c102e020c96c4c9566fe57188cd7'',
    iformfl ''VCVTUSI2SD_LAST'' ''abb1eb60335f6c46220f79f329b52e3bb'',
    iformfl ''VCVTUSI2SS_FIRST'' ''aea4bbaf790ec2ebffc323d0c74287cf9'',
    iformfl ''VCVTUSI2SS_LAST'' ''a43293683ecdc68a873b2fcf1b03e09aa'',
    iformfl ''VDBPSADBW_FIRST'' ''a8a771d4e8c63173aa091740c5887c4dd'',
    iformfl ''VDBPSADBW_LAST'' ''a30e4ff26671c87cc34fac48ce9362429'',
    iformfl ''VDIVPD_FIRST'' ''a74123b9766e397e8e2a2f28b3e18f395'',
    iformfl ''VDIVPD_LAST'' ''ae141f1cf03835f656cef7ce7b2d4e8cb'',
    iformfl ''VDIVPS_FIRST'' ''a68c68ae0672f3e177f5c896103b9ca97'',
    iformfl ''VDIVPS_LAST'' ''a6e89a0791c2f98b9ab08c3415588f3a8'',
    iformfl ''VDIVSD_FIRST'' ''a4a2ef412cd38d3f96000c5986692a1e8'',
    iformfl ''VDIVSD_LAST'' ''a8c675585cb6899f503ab01d1a81390c3'',
    iformfl ''VDIVSS_FIRST'' ''ae6d90b9fe9544ffb4a32c38a0f1e4c36'',
    iformfl ''VDIVSS_LAST'' ''acc5ec0093912c05f8f3a1112d7789d4a'',
    iformfl ''VDPPD_FIRST'' ''af07df33d8d9f9731d35c719a6d5aa436'',
    iformfl ''VDPPD_LAST'' ''a36a1dac43ee4006faa4cddaecb3415fd'',
    iformfl ''VDPPS_FIRST'' ''ad0d4ed7959ed945278c7d014a05a2d1b'',
    iformfl ''VDPPS_LAST'' ''afb735e1751f969efaafb6b31b22dc46e'',
    iformfl ''VERR_FIRST'' ''a986d4a4b82070208058dc279ce293576'',
    iformfl ''VERR_LAST'' ''a45dd6509ec65651ca7d8f5704141384a'',
    iformfl ''VERW_FIRST'' ''a7240671dacad5994bf7fe30091a0557d'',
    iformfl ''VERW_LAST'' ''adc7abb691a19f5e771dc7339856df0b6'',
    iformfl ''VEXP2PD_FIRST'' ''a5c853e61c752516d5ad40cdb07804cac'',
    iformfl ''VEXP2PD_LAST'' ''a6b06132a1763ef1a3f88b77a4e08ba3a'',
    iformfl ''VEXP2PS_FIRST'' ''aa53f0c7a73e75be21e4376c7748a2fa0'',
    iformfl ''VEXP2PS_LAST'' ''a24255e858c415468201eefdf982026c9'',
    iformfl ''VEXPANDPD_FIRST'' ''ab7ab34af11d0aa359d2522d309c130ea'',
    iformfl ''VEXPANDPD_LAST'' ''aeb0ef6f3ec4e6baf324b88e6cf2acea5'',
    iformfl ''VEXPANDPS_FIRST'' ''a44097f40313633d4f36ccb3076b5a310'',
    iformfl ''VEXPANDPS_LAST'' ''a3c7f90cdc5a038f7007f1920c0e28720'',
    iformfl ''VEXTRACTF128_FIRST'' ''a8ae37a34bd82eaa6472ec1dcfabb3fbe'',
    iformfl ''VEXTRACTF128_LAST'' ''a92a0cb9223dc0d6f32732788cc0caff9'',
    iformfl ''VEXTRACTF32X4_FIRST'' ''a7b84f3232c734d6482299754f18b62c1'',
    iformfl ''VEXTRACTF32X4_LAST'' ''af52af5132254fcbbd35e33b33d173033'',
    iformfl ''VEXTRACTF32X8_FIRST'' ''aab91341e70207efaa4b0b6c1a90f6848'',
    iformfl ''VEXTRACTF32X8_LAST'' ''a77dbd9d959479f6752a53bbcae8ac187'',
    iformfl ''VEXTRACTF64X2_FIRST'' ''ae48bee95b06ef185f8e03a7a223041de'',
    iformfl ''VEXTRACTF64X2_LAST'' ''a18ecca27c8d89d26099f72fe09503888'',
    iformfl ''VEXTRACTF64X4_FIRST'' ''ae037b0e5944ecb843a33b2eda57ba8ce'',
    iformfl ''VEXTRACTF64X4_LAST'' ''a17bf5178820bc5e1681e5d7615cdf91a'',
    iformfl ''VEXTRACTI128_FIRST'' ''aa35573ae6c7f54010d563dadceb429da'',
    iformfl ''VEXTRACTI128_LAST'' ''a0a650420f364dc1d012a4446c4d1355a'',
    iformfl ''VEXTRACTI32X4_FIRST'' ''acbf98a07e5d0842507ed0391aa32ebec'',
    iformfl ''VEXTRACTI32X4_LAST'' ''a9db686b71018b94a1e22d178f1153231'',
    iformfl ''VEXTRACTI32X8_FIRST'' ''a7ef7bddfa1719de01e6725d7dbc0d223'',
    iformfl ''VEXTRACTI32X8_LAST'' ''a1782177a146c29f2c6ba918c2b3b5d4e'',
    iformfl ''VEXTRACTI64X2_FIRST'' ''aa7a44b4b18f729eb8324858620ee445f'',
    iformfl ''VEXTRACTI64X2_LAST'' ''a43d55c443a35e2bd54dfd0fba09287e9'',
    iformfl ''VEXTRACTI64X4_FIRST'' ''a63d1a95bd132a8e1aa6d518d5de9b38b'',
    iformfl ''VEXTRACTI64X4_LAST'' ''ade42e27189127c7ae0dd40a7d14647ad'',
    iformfl ''VEXTRACTPS_FIRST'' ''ab377cf596912282783444c4f18ada007'',
    iformfl ''VEXTRACTPS_LAST'' ''ad8b7bc66520c0efff34542067c557163'',
    iformfl ''VFIXUPIMMPD_FIRST'' ''a06ff45c7a7dac2d31deda15c58bb2683'',
    iformfl ''VFIXUPIMMPD_LAST'' ''a8600a908d676a4e27ae0e5ca2cf3e9de'',
    iformfl ''VFIXUPIMMPS_FIRST'' ''aec7523dd8fe0d3ac3358a7340fce9761'',
    iformfl ''VFIXUPIMMPS_LAST'' ''ad3d5a89b9255e57b270d3fe9b969c990'',
    iformfl ''VFIXUPIMMSD_FIRST'' ''a6d6d1d7715de1cb2873e11f7e69099a8'',
    iformfl ''VFIXUPIMMSD_LAST'' ''a136ca25222ab59f40275c3ca799aca27'',
    iformfl ''VFIXUPIMMSS_FIRST'' ''ab15e5365c2769eb54a9133b7e92d92f8'',
    iformfl ''VFIXUPIMMSS_LAST'' ''acd8eb43172291fd313e9bcaec58a3424'']"

lemma xed_iformfl_enum_8h_values_12_closed: "list_all (closed_node scripts) xed_iformfl_enum_8h_values_12"
  by (simp only: xed_iformfl_enum_8h_values_12_def closed_rules iformfl_closed)

definition xed_iformfl_enum_8h_values_13 :: "nav_node list" where
  "xed_iformfl_enum_8h_values_13 = [
    iformfl ''VFMADD132PD_FIRST'' ''a1222fb193b3ae367cf7b4188b9fccc8b'',
    iformfl ''VFMADD132PD_LAST'' ''a2f5523fb801c588ea5617b398d58174d'',
    iformfl ''VFMADD132PS_FIRST'' ''a025817e7bc132b7cb2bb78cd5f3f175a'',
    iformfl ''VFMADD132PS_LAST'' ''a69048b1a2efaa678246811f4fd3e3170'',
    iformfl ''VFMADD132SD_FIRST'' ''acbffe1acba6b62b2d3f7692d59d957d4'',
    iformfl ''VFMADD132SD_LAST'' ''a521920b36f9ed473ff7f2d0dee57c772'',
    iformfl ''VFMADD132SS_FIRST'' ''a334969a5426f7d37c04b07b192996084'',
    iformfl ''VFMADD132SS_LAST'' ''a6f7be9f8b647d09815f2b5a728c0bb53'',
    iformfl ''VFMADD213PD_FIRST'' ''abd26e8b756706b7917f8938393c01f79'',
    iformfl ''VFMADD213PD_LAST'' ''a1b6f35dd1b2b7c9a1412713b2c01a600'',
    iformfl ''VFMADD213PS_FIRST'' ''aee2b6e79358a1f854ac8dd35f2a18ae4'',
    iformfl ''VFMADD213PS_LAST'' ''aaa6c3afebd40ba1837c25821af69c93b'',
    iformfl ''VFMADD213SD_FIRST'' ''a72d9d2b91eb953d48ac5e8e1f645f538'',
    iformfl ''VFMADD213SD_LAST'' ''aca9d0dcd618708faac0d3223f2031dce'',
    iformfl ''VFMADD213SS_FIRST'' ''a43c2a024c45bc6f5a5a86ff582309b24'',
    iformfl ''VFMADD213SS_LAST'' ''a48e56ac09cd9f7420fb15ab77abe47e2'',
    iformfl ''VFMADD231PD_FIRST'' ''a0a48afa67bf7f8fc2cc75bd2a6bd4fe4'',
    iformfl ''VFMADD231PD_LAST'' ''acc81d915e3766fb970e1b1668de370e7'',
    iformfl ''VFMADD231PS_FIRST'' ''acd121e566a764208189c7ffefd2855a9'',
    iformfl ''VFMADD231PS_LAST'' ''a7f9db7db7752002dc79d25c477c06f57'',
    iformfl ''VFMADD231SD_FIRST'' ''ac55eef16c0a23fd878cc8aff76d13f10'',
    iformfl ''VFMADD231SD_LAST'' ''a9dc2a157725e54bb783e5771c814f501'',
    iformfl ''VFMADD231SS_FIRST'' ''a9bb6f9229b3570c850563c4c5bc83d6d'',
    iformfl ''VFMADD231SS_LAST'' ''a9a4d0decf7039c60fd0dfdc26afbe485'',
    iformfl ''VFMADDPD_FIRST'' ''a196d5a73f11258035564456562acd8d1'',
    iformfl ''VFMADDPD_LAST'' ''a0cf6d001e0b11ab71ecea763dd7db0ef'',
    iformfl ''VFMADDPS_FIRST'' ''ac77b28667f58e5c6cca5890a18ecac02'',
    iformfl ''VFMADDPS_LAST'' ''a3b02e15822e40dc50dcff9edf2865018'',
    iformfl ''VFMADDSD_FIRST'' ''a02747be08ecb6a93338ecfba43b245d3'',
    iformfl ''VFMADDSD_LAST'' ''a25265acdc36de3e02c46d65622d305b3'',
    iformfl ''VFMADDSS_FIRST'' ''a22146c51cf4bfcd1d54ba96f8598c78a'',
    iformfl ''VFMADDSS_LAST'' ''aa06c2c8e6119ffb0ca91a76bc9875fab'',
    iformfl ''VFMADDSUB132PD_FIRST'' ''a92b7ef0164241091a1a48c02ac09f8b2'',
    iformfl ''VFMADDSUB132PD_LAST'' ''aff8b6bc38b2bd426cf0ba36264b7357b'',
    iformfl ''VFMADDSUB132PS_FIRST'' ''a3404c3eb89548c2f2756c9820922c0a3'',
    iformfl ''VFMADDSUB132PS_LAST'' ''a3e11e6c61b3c4d0fea51aa6b2098c99b'',
    iformfl ''VFMADDSUB213PD_FIRST'' ''a6ad464afa678711f81d5c564f9d5196c'',
    iformfl ''VFMADDSUB213PD_LAST'' ''a56f1b93c499b4e2f46cfbdf87670d63e'',
    iformfl ''VFMADDSUB213PS_FIRST'' ''a78630d748b51de97e3a65397d619ee40'',
    iformfl ''VFMADDSUB213PS_LAST'' ''a603ec07f6f6f0518acf0703131b3860b'',
    iformfl ''VFMADDSUB231PD_FIRST'' ''a88a9c128a7e5dc21f25074c2fb8cb57d'',
    iformfl ''VFMADDSUB231PD_LAST'' ''a222ae24685318ca54606e5e91dae0c58'',
    iformfl ''VFMADDSUB231PS_FIRST'' ''a88bb82a946e53fdd71633e60c2c8546b'',
    iformfl ''VFMADDSUB231PS_LAST'' ''a8f6403ca6119d40d251b093f4cdd900f'',
    iformfl ''VFMADDSUBPD_FIRST'' ''a579d152d166cc1707c51cf6abbd637ba'',
    iformfl ''VFMADDSUBPD_LAST'' ''a9e434589b5ee00771eb3f31d37f1ac86'',
    iformfl ''VFMADDSUBPS_FIRST'' ''a60b79a7239f50f280246a2ea501a7e7e'',
    iformfl ''VFMADDSUBPS_LAST'' ''ac784844c71913f38b53fd3abecac82b4'',
    iformfl ''VFMSUB132PD_FIRST'' ''a5b05378b383b496c21f03981132bf966'',
    iformfl ''VFMSUB132PD_LAST'' ''a912a3c8d8a8cb3d02fc73ae81f653609'',
    iformfl ''VFMSUB132PS_FIRST'' ''ac6b4389a0b28c3d06236a9577347fa52'',
    iformfl ''VFMSUB132PS_LAST'' ''a341b3ae1f144fdee8a4a0ef05f322f55'',
    iformfl ''VFMSUB132SD_FIRST'' ''a41a8881afd05834529e22ce38051cde7'',
    iformfl ''VFMSUB132SD_LAST'' ''ab95d7a8b9fd2923925b34d31578a5a79'',
    iformfl ''VFMSUB132SS_FIRST'' ''a94d83c09c42a698a1af9a05df92cba9d'',
    iformfl ''VFMSUB132SS_LAST'' ''af95bd5b0b86b6855bfa8e6cca2330932'',
    iformfl ''VFMSUB213PD_FIRST'' ''a3bc1bbd641dc4124c5ab628e01071409'',
    iformfl ''VFMSUB213PD_LAST'' ''a03f464e20bc9c742f17fe647b2a2df2c'',
    iformfl ''VFMSUB213PS_FIRST'' ''a33df337d746dda5d63ab65f1a86c494c'',
    iformfl ''VFMSUB213PS_LAST'' ''aa83bde698db518e51765384d307585a1'',
    iformfl ''VFMSUB213SD_FIRST'' ''a2008b91c758632790001ca4b8d444162'',
    iformfl ''VFMSUB213SD_LAST'' ''a2d92f92283e8f1200b07fb3920561293'',
    iformfl ''VFMSUB213SS_FIRST'' ''ae652f96fa67abfd456d6d197ff503bac'',
    iformfl ''VFMSUB213SS_LAST'' ''ae940060b8fc3d366fe38dda0802c4080'',
    iformfl ''VFMSUB231PD_FIRST'' ''ab9c85ec96b566cad64620f3ca05eb3ae'',
    iformfl ''VFMSUB231PD_LAST'' ''ac5a90e73ae33d0a2ababa9eed106607a'',
    iformfl ''VFMSUB231PS_FIRST'' ''a718aedb95eff40b3ea5278d94f97afff'',
    iformfl ''VFMSUB231PS_LAST'' ''a5b303cb05d41f7cb8295ca03fe08598e'',
    iformfl ''VFMSUB231SD_FIRST'' ''a83543858ca7a4a73cc4e5299875285d3'',
    iformfl ''VFMSUB231SD_LAST'' ''a89254b6ec5d4cdb6229e3e3c2ea12e54'',
    iformfl ''VFMSUB231SS_FIRST'' ''a3fc4f8a89ee8918062f3ba2e9bb48a9d'',
    iformfl ''VFMSUB231SS_LAST'' ''a98827cfd9eb8b51f90910b317b99cc7c'',
    iformfl ''VFMSUBADD132PD_FIRST'' ''ac9a032c3337336407de5f70cd3f40519'',
    iformfl ''VFMSUBADD132PD_LAST'' ''a11253f88e881a8424a9fcf6395014d23'',
    iformfl ''VFMSUBADD132PS_FIRST'' ''a0033252faf6fdcc8fa610871dd2495bc'',
    iformfl ''VFMSUBADD132PS_LAST'' ''acbbfc4e98572ac23d2dff9737432a0e6'',
    iformfl ''VFMSUBADD213PD_FIRST'' ''ac0b3eab365edca1f6c06014100b039a3'',
    iformfl ''VFMSUBADD213PD_LAST'' ''aeb6a72eac375919a2a2e925eaac0d30f'',
    iformfl ''VFMSUBADD213PS_FIRST'' ''a8c91796d7a561a51a241babad5dc0bec'',
    iformfl ''VFMSUBADD213PS_LAST'' ''a0d5bb96a7684f51afe4cb40640c7db60'',
    iformfl ''VFMSUBADD231PD_FIRST'' ''adbe5716c805814e7330f919cb036e6b5'',
    iformfl ''VFMSUBADD231PD_LAST'' ''a20aa40f2b5be9241f8b8a67f77f159b3'',
    iformfl ''VFMSUBADD231PS_FIRST'' ''a909446bd5e63a14617b4bb941c6a9167'',
    iformfl ''VFMSUBADD231PS_LAST'' ''acbf8c5623fe87a37c748d94c5fecdda7'',
    iformfl ''VFMSUBADDPD_FIRST'' ''a8505aeb8b9749b645b6a1f8e89797066'',
    iformfl ''VFMSUBADDPD_LAST'' ''a45fad6c6d8d83cfbff1ebc1d5717ac3f'',
    iformfl ''VFMSUBADDPS_FIRST'' ''aa8e4d5d4a42576b86ff0206a893a0977'',
    iformfl ''VFMSUBADDPS_LAST'' ''ab54cdc2b71c1d5304482a6ae7a4b648b'',
    iformfl ''VFMSUBPD_FIRST'' ''a6bb24fc62631940a943af02106552408'',
    iformfl ''VFMSUBPD_LAST'' ''abb93ecf0d01021bacdceb2d170d2d753'',
    iformfl ''VFMSUBPS_FIRST'' ''afbc8538c2002179fcf385f71647abaae'',
    iformfl ''VFMSUBPS_LAST'' ''ab8bd3059049c3b4fcb3c40c65c4f8b3e'',
    iformfl ''VFMSUBSD_FIRST'' ''a84bda61a6d4db4b7aa64562dd46d16e6'',
    iformfl ''VFMSUBSD_LAST'' ''a2964aca59f290a8f1768346a8c483fe1'',
    iformfl ''VFMSUBSS_FIRST'' ''a0c9d062fc0e626062ba6a61cf40f65f9'',
    iformfl ''VFMSUBSS_LAST'' ''af75b6f728a6892dd9da057177479b604'',
    iformfl ''VFNMADD132PD_FIRST'' ''a04d76a5f148e8b9e1d63479ddc557a2e'',
    iformfl ''VFNMADD132PD_LAST'' ''a20384b871589a497ca9f36a03af93787'',
    iformfl ''VFNMADD132PS_FIRST'' ''a19e0e2d7ad7c1425231d6fa183ab7d15'',
    iformfl ''VFNMADD132PS_LAST'' ''ab31e9aeed793e684c2e1f18d33f8da55'',
    iformfl ''VFNMADD132SD_FIRST'' ''a3fec09059b17c57928dd6ff5bcfbe227'',
    iformfl ''VFNMADD132SD_LAST'' ''a06b7560a6ac23eeec46bf3e2784301fa'',
    iformfl ''VFNMADD132SS_FIRST'' ''ae111b85724c7795c366763ac703e7f8e'',
    iformfl ''VFNMADD132SS_LAST'' ''a6330dc4f9ab41d5ce1e69cac8c3060da'',
    iformfl ''VFNMADD213PD_FIRST'' ''afd70bab30d78df6058f5050a3df1cd27'',
    iformfl ''VFNMADD213PD_LAST'' ''abb077df6158d72a0f449a3e663b7ca01'',
    iformfl ''VFNMADD213PS_FIRST'' ''a65779f810bc2c8c1ea015ca3beedbb37'',
    iformfl ''VFNMADD213PS_LAST'' ''a506f7c4d71d150fd45b6e8eb392f1f9c'',
    iformfl ''VFNMADD213SD_FIRST'' ''a557f3551d94f51f2c0f5fabcde5626d1'',
    iformfl ''VFNMADD213SD_LAST'' ''a196f404265e2e7f9478d548fbd247810'',
    iformfl ''VFNMADD213SS_FIRST'' ''ac6c0cc4bb084ffa2b15d5c9551687efc'',
    iformfl ''VFNMADD213SS_LAST'' ''a5a6bc295f3b5ac2d76dca690e2f555cc'',
    iformfl ''VFNMADD231PD_FIRST'' ''aa998227c19ceaaa3580830d89b000406'',
    iformfl ''VFNMADD231PD_LAST'' ''aa0d0892a5efabaa4242e431c0b3a882d'',
    iformfl ''VFNMADD231PS_FIRST'' ''aeab88649688099f14bcce6586e12b174'',
    iformfl ''VFNMADD231PS_LAST'' ''a3eaf23c735989e064ec085810e9002ed'',
    iformfl ''VFNMADD231SD_FIRST'' ''a690cc3db244299836fa93ffe2d244e7e'',
    iformfl ''VFNMADD231SD_LAST'' ''a32539cfb775cfbe613bc47ff30bf9ccd'',
    iformfl ''VFNMADD231SS_FIRST'' ''a17cabb797c7e005042038d8b34f59221'',
    iformfl ''VFNMADD231SS_LAST'' ''a9bf977bbf57ee4a00489a7759e1c0bf6'',
    iformfl ''VFNMADDPD_FIRST'' ''a0e46f1d166f2d90db9484a94a6a92119'',
    iformfl ''VFNMADDPD_LAST'' ''af25a11f0a1fd5ad1a9472ddb877f4007'',
    iformfl ''VFNMADDPS_FIRST'' ''a00c9e7aa2b1598836ab3e0cd512d2692'',
    iformfl ''VFNMADDPS_LAST'' ''a81b9dc2de226a2653e417ff8a9036430'',
    iformfl ''VFNMADDSD_FIRST'' ''a7046f3a7ce9fd9581444ce3aaad18a18'',
    iformfl ''VFNMADDSD_LAST'' ''ad024d9e63212806dfb7e2a43c2919f64'',
    iformfl ''VFNMADDSS_FIRST'' ''a97fea6f32cf070705d0db809fba77d8d'',
    iformfl ''VFNMADDSS_LAST'' ''ae2d254b4c467ac2014caa329b3695ffe'',
    iformfl ''VFNMSUB132PD_FIRST'' ''a0982b429952953208b46b86cc199129f'',
    iformfl ''VFNMSUB132PD_LAST'' ''ace38ba15b5f1af70c84868e72307dc65'',
    iformfl ''VFNMSUB132PS_FIRST'' ''a98911fdb438dd8729ad3a3106b757cd1'',
    iformfl ''VFNMSUB132PS_LAST'' ''adc77c39a42816e05369a239c7323da89'',
    iformfl ''VFNMSUB132SD_FIRST'' ''a723a00469605da2d136f25268b2c78a4'',
    iformfl ''VFNMSUB132SD_LAST'' ''a92eec3598f0a6840bafaf3c9ab78f629'',
    iformfl ''VFNMSUB132SS_FIRST'' ''a463899604048e0227344dddfe93e23ab'',
    iformfl ''VFNMSUB132SS_LAST'' ''af8a7e5ba0045e685a190f2961bb6a09c'',
    iformfl ''VFNMSUB213PD_FIRST'' ''a5cfaf1ed6894dda41bc7c0170ccb006b'',
    iformfl ''VFNMSUB213PD_LAST'' ''a2fa46efa8dcae6fe263aa1a0ea97a9b2'',
    iformfl ''VFNMSUB213PS_FIRST'' ''a5ea67254ecd663f0845d236f4ab096e6'',
    iformfl ''VFNMSUB213PS_LAST'' ''a97e1055750e1d7bafc2d97fb8ab2c9c2'']"

lemma xed_iformfl_enum_8h_values_13_closed: "list_all (closed_node scripts) xed_iformfl_enum_8h_values_13"
  by (simp only: xed_iformfl_enum_8h_values_13_def closed_rules iformfl_closed)

definition xed_iformfl_enum_8h_values_14 :: "nav_node list" where
  "xed_iformfl_enum_8h_values_14 = [
    iformfl ''VFNMSUB213SD_FIRST'' ''afa95c8751a7bcc2e29173d0ac1677221'',
    iformfl ''VFNMSUB213SD_LAST'' ''ab2851b447ce982be4ef7263e3a96a722'',
    iformfl ''VFNMSUB213SS_FIRST'' ''a0fbc5073e24a798a2f5fea2228590fd1'',
    iformfl ''VFNMSUB213SS_LAST'' ''abd1a9ed36e481f843323cba98a74eb1a'',
    iformfl ''VFNMSUB231PD_FIRST'' ''a93b818f3184cf1f2c665c489eab87ddf'',
    iformfl ''VFNMSUB231PD_LAST'' ''a5e290bb9214171bb5da1fa694365127d'',
    iformfl ''VFNMSUB231PS_FIRST'' ''a78d27b786ae6d2a72e52660520b7a0ba'',
    iformfl ''VFNMSUB231PS_LAST'' ''a49e092865cd2a39a5d094cf69f1d6b22'',
    iformfl ''VFNMSUB231SD_FIRST'' ''a5bb9fec9331da0a14e25c05f414e0140'',
    iformfl ''VFNMSUB231SD_LAST'' ''a74e31bbbc011282c3587b03c990ddfb2'',
    iformfl ''VFNMSUB231SS_FIRST'' ''a3b8760e4fec0617f8bf561ec9064c52d'',
    iformfl ''VFNMSUB231SS_LAST'' ''a57d9edf3fd2b8553d13374982d31aa04'',
    iformfl ''VFNMSUBPD_FIRST'' ''a9624eca05a6f4153a3d97fbea8112a07'',
    iformfl ''VFNMSUBPD_LAST'' ''a24ca1ba0b96ed47304186c7496d66643'',
    iformfl ''VFNMSUBPS_FIRST'' ''adde31a22332cb2ec046f7aadc7cdc39a'',
    iformfl ''VFNMSUBPS_LAST'' ''ab4f246bfb5f78021ee70645c224e9c90'',
    iformfl ''VFNMSUBSD_FIRST'' ''a9f20b42348c54e4c4221f352bfee0911'',
    iformfl ''VFNMSUBSD_LAST'' ''a4c186ef19f9301062fe7ca53a386bf20'',
    iformfl ''VFNMSUBSS_FIRST'' ''a5a2f8e1c65fa74d1523185fb73b12ac7'',
    iformfl ''VFNMSUBSS_LAST'' ''afd3349395f9dd42769be6dc5c96edd22'',
    iformfl ''VFPCLASSPD_FIRST'' ''adfffa7e358621de32c335dd1a9d74de3'',
    iformfl ''VFPCLASSPD_LAST'' ''a5cdde8157b16804469204dadc3c0edf8'',
    iformfl ''VFPCLASSPS_FIRST'' ''a16a423aa4d78653c5d884e76c3d595cd'',
    iformfl ''VFPCLASSPS_LAST'' ''ad38f736a4ef7f7a5262a10f5951dd9ce'',
    iformfl ''VFPCLASSSD_FIRST'' ''aeb3c48a47e6655f3558dea0cb5b6163a'',
    iformfl ''VFPCLASSSD_LAST'' ''ae212e18d0bb66a1881f9359fa3e5f64c'',
    iformfl ''VFPCLASSSS_FIRST'' ''a7f93e66f8ec1f4adb0dbbd81f9e48598'',
    iformfl ''VFPCLASSSS_LAST'' ''a020bee15b860538d2638ad0f7f08b4cf'',
    iformfl ''VFRCZPD_FIRST'' ''aaa62da0f598e7364bf345e25087a59a7'',
    iformfl ''VFRCZPD_LAST'' ''a5e7a43afeb4393ecb75dc06df6101b81'',
    iformfl ''VFRCZPS_FIRST'' ''afc0d2a35526138026831927fc67bfea2'',
    iformfl ''VFRCZPS_LAST'' ''a6c6a1a5ae1e4f7de67a568b05b862e49'',
    iformfl ''VFRCZSD_FIRST'' ''a485e4db6fbefc2de97be4305a8a84ff3'',
    iformfl ''VFRCZSD_LAST'' ''ad487822f989492031027fae3f7d7ceca'',
    iformfl ''VFRCZSS_FIRST'' ''a5dca5396ae46dff33d451dc497c9c011'',
    iformfl ''VFRCZSS_LAST'' ''a83a2639a133b5dff8ed797e8fce46776'',
    iformfl ''VGATHERDPD_FIRST'' ''aaca02d5cea916b454bb68476fe885102'',
    iformfl ''VGATHERDPD_LAST'' ''a5ae8625a3e7df4f500c0eae281165453'',
    iformfl ''VGATHERDPS_FIRST'' ''af7bb79f3768ae9f4f1497373ff725567'',
    iformfl ''VGATHERDPS_LAST'' ''a9efb5107d7ad4b74372bf78572495d3f'',
    iformfl ''VGATHERPF0DPD_FIRST'' ''a6bc8496c569787a96c88a3b747944f23'',
    iformfl ''VGATHERPF0DPD_LAST'' ''a719846948be4247aa2a4ca2c60d3cc27'',
    iformfl ''VGATHERPF0DPS_FIRST'' ''aa36f69f8adc350ea1184ef214c09d204'',
    iformfl ''VGATHERPF0DPS_LAST'' ''a20bb2d196507b5b9558ba707f826bb24'',
    iformfl ''VGATHERPF0QPD_FIRST'' ''ae34239160400a4607d191045a8713f6c'',
    iformfl ''VGATHERPF0QPD_LAST'' ''a19f9dac71094f59c4fa422cbdb95e168'',
    iformfl ''VGATHERPF0QPS_FIRST'' ''a51dc1cb2326dc27a029a5ee699fdec0d'',
    iformfl ''VGATHERPF0QPS_LAST'' ''a16dfd9d9ceb3d1dfa7627c7410cc2150'',
    iformfl ''VGATHERPF1DPD_FIRST'' ''af0dc99f7dcca0ca9774e2dcbd50dcfc7'',
    iformfl ''VGATHERPF1DPD_LAST'' ''a6a62948474ee6b18dfdda8c1ac04ed68'',
    iformfl ''VGATHERPF1DPS_FIRST'' ''a921c4179ff1c14744728f79929f4bf36'',
    iformfl ''VGATHERPF1DPS_LAST'' ''a72dffceca45ef61b6fdbbb3c5822241a'',
    iformfl ''VGATHERPF1QPD_FIRST'' ''aaa17b148de6fc62ce0366a59a02f78d8'',
    iformfl ''VGATHERPF1QPD_LAST'' ''af762c00fe872943a050a11e9b9d97639'',
    iformfl ''VGATHERPF1QPS_FIRST'' ''adc8d467f29ea544d96714f0b00b5edca'',
    iformfl ''VGATHERPF1QPS_LAST'' ''a86613c16ffa02164039ba2e3b086fb5d'',
    iformfl ''VGATHERQPD_FIRST'' ''ad18a78d2562505fb8ce1da7d6ba411c4'',
    iformfl ''VGATHERQPD_LAST'' ''a52b8d1749c4fa0299b54422d98fb0a39'',
    iformfl ''VGATHERQPS_FIRST'' ''af71f1f380e3debf532bfc57e657990fc'',
    iformfl ''VGATHERQPS_LAST'' ''ae3dcce942a07277f20ad4cd4e41d51d9'',
    iformfl ''VGETEXPPD_FIRST'' ''a4bc29ba269be40d88d54e54bdd830666'',
    iformfl ''VGETEXPPD_LAST'' ''af1e4cc91f638622d4d8344c37787ba9c'',
    iformfl ''VGETEXPPS_FIRST'' ''a91294346fbc1ab48099e289cc571995f'',
    iformfl ''VGETEXPPS_LAST'' ''a52c62b830e25accb6bd7fbeba8ce208d'',
    iformfl ''VGETEXPSD_FIRST'' ''a0ea6b59040008691e5b184c7a37ee2dd'',
    iformfl ''VGETEXPSD_LAST'' ''a8819534a3030c38aa6c19e10b2aa7e81'',
    iformfl ''VGETEXPSS_FIRST'' ''a36296eb6ae283fbeefaa7720f2196be9'',
    iformfl ''VGETEXPSS_LAST'' ''a1065411792b4a4c3ceb03381424f4bef'',
    iformfl ''VGETMANTPD_FIRST'' ''a83f3681b00c988cf193af461a2574d84'',
    iformfl ''VGETMANTPD_LAST'' ''a3353bc2db476bfb329e41ca16b90453f'',
    iformfl ''VGETMANTPS_FIRST'' ''a42b7457b4e13a3c6b13c454d52111262'',
    iformfl ''VGETMANTPS_LAST'' ''a3d63cc74209b0c8582e0e329b09423eb'',
    iformfl ''VGETMANTSD_FIRST'' ''a4d0185f3eab89e21d302f48c3c5f11ce'',
    iformfl ''VGETMANTSD_LAST'' ''af661806652046933de4da38613e13f27'',
    iformfl ''VGETMANTSS_FIRST'' ''a1e3c6d096d7715c1a152b47ccb2911c0'',
    iformfl ''VGETMANTSS_LAST'' ''adcbb206a8e03eba2cb7969a05066a96d'',
    iformfl ''VHADDPD_FIRST'' ''a1f9e31dd6f035fed9907a6381c343393'',
    iformfl ''VHADDPD_LAST'' ''a85aee1dd965bacf29106895cfaccaff0'',
    iformfl ''VHADDPS_FIRST'' ''aeb57135c5c75b8ee9a52f381648c3b9b'',
    iformfl ''VHADDPS_LAST'' ''a395931f58658625e13e103401b7217a7'',
    iformfl ''VHSUBPD_FIRST'' ''a2ca2f1ff3232a6802388c6aa58967839'',
    iformfl ''VHSUBPD_LAST'' ''afbccd1b6d028e19554428a525ffb68cb'',
    iformfl ''VHSUBPS_FIRST'' ''a9ae89421c672d494061a38530c60b737'',
    iformfl ''VHSUBPS_LAST'' ''a1b9ee1fc53b7d4a3064ac456200f51d9'',
    iformfl ''VINSERTF128_FIRST'' ''a7e60f387096570fcfaedd69fc8281a9b'',
    iformfl ''VINSERTF128_LAST'' ''adc2af96070d084e484d695013190adde'',
    iformfl ''VINSERTF32X4_FIRST'' ''a62969bfd4428d96cdc0f278246e9c43a'',
    iformfl ''VINSERTF32X4_LAST'' ''a3228fa8b62d606a03133e136b571209a'',
    iformfl ''VINSERTF32X8_FIRST'' ''a3c24e817bc69c04c2653fc185cc72799'',
    iformfl ''VINSERTF32X8_LAST'' ''a819c77665e8a768542e4b3356ea4140e'',
    iformfl ''VINSERTF64X2_FIRST'' ''a4de4c84593f7c8a0a411836dee92d714'',
    iformfl ''VINSERTF64X2_LAST'' ''ab3040b9a677308ad3a2e9b87bb98ff8e'',
    iformfl ''VINSERTF64X4_FIRST'' ''ae98039b095f33714a35fbbb711822a07'',
    iformfl ''VINSERTF64X4_LAST'' ''a0a90e7fefeb8753c36566c37da290786'',
    iformfl ''VINSERTI128_FIRST'' ''a53c4fbda15df520c8181489881722725'',
    iformfl ''VINSERTI128_LAST'' ''a3b180536f320f57b0e27d1dec0773786'',
    iformfl ''VINSERTI32X4_FIRST'' ''ab8ceca111e4fabfb98beb61035587ac5'',
    iformfl ''VINSERTI32X4_LAST'' ''ad089f6a4cf4a7c275047d8d880ff4688'',
    iformfl ''VINSERTI32X8_FIRST'' ''a4e783a3c7f0ee24a61e6e216b7c43c8f'',
    iformfl ''VINSERTI32X8_LAST'' ''a170f1786f1c4dbcbca2579322c3c9a2a'',
    iformfl ''VINSERTI64X2_FIRST'' ''aeff110cac84b69b07a27a31c94b2b94e'',
    iformfl ''VINSERTI64X2_LAST'' ''af305cf60960a88f39f05832ff0176016'',
    iformfl ''VINSERTI64X4_FIRST'' ''a30e4e245ee03b38320226d84f4188b09'',
    iformfl ''VINSERTI64X4_LAST'' ''a7d6c14f0327a22ec121cfd5066dd0f95'',
    iformfl ''VINSERTPS_FIRST'' ''aaa6d0e50b44f86cd5a31af1abb492a24'',
    iformfl ''VINSERTPS_LAST'' ''a9d38a9ca9a1f939c5e9a79f077b71cda'',
    iformfl ''VLDDQU_FIRST'' ''ab77e51e0bb1e04f133b027f7e1f76f52'',
    iformfl ''VLDDQU_LAST'' ''a65f35a4234f85e3ab59fe408b0c5e002'',
    iformfl ''VLDMXCSR_FIRST'' ''acca9ce2fd9ce0dd478619a996fbddbe5'',
    iformfl ''VLDMXCSR_LAST'' ''ad6185233cc09a05205c1c160fec01271'',
    iformfl ''VMASKMOVDQU_FIRST'' ''a7f2d8dabcfad0493f13a7c988e2193c3'',
    iformfl ''VMASKMOVDQU_LAST'' ''a60959034eca7b4a17f25f87a7bf52a73'',
    iformfl ''VMASKMOVPD_FIRST'' ''a494aa90c5cbdbc48bd6c34f520c8ab27'',
    iformfl ''VMASKMOVPD_LAST'' ''acda9bfc2df7a77eaafa8c0eb5b4f3b5e'',
    iformfl ''VMASKMOVPS_FIRST'' ''adf709902d66392167077b2c349b18567'',
    iformfl ''VMASKMOVPS_LAST'' ''adb0e15767c5ab59568e2e3f62f732576'',
    iformfl ''VMAXPD_FIRST'' ''abd435fd011c60c3ef71b2d3c6ffa537c'',
    iformfl ''VMAXPD_LAST'' ''aeaa12feb662fa9baa1b48e2d6da0ad75'',
    iformfl ''VMAXPS_FIRST'' ''ae07402feb74bb110a62a232e39d5ac9c'',
    iformfl ''VMAXPS_LAST'' ''a2853bbce5f94ce0870ae91545eccb99d'',
    iformfl ''VMAXSD_FIRST'' ''a46257d6832d4141fd7978efae3c268a2'',
    iformfl ''VMAXSD_LAST'' ''ac1c0d12ea6d5b40144c5bfcfd3f2a4f1'',
    iformfl ''VMAXSS_FIRST'' ''a050a98fbf97df166d638e185e39a8545'',
    iformfl ''VMAXSS_LAST'' ''aeeedbfd692f9c5ce7a91356c51441b4a'',
    iformfl ''VMCALL_FIRST'' ''a375ff7f3a79dcf03536e7b0fef496b6b'',
    iformfl ''VMCALL_LAST'' ''a0ac17de3bc9274e8999ac4e938d96817'',
    iformfl ''VMCLEAR_FIRST'' ''a09280bbfee135d0dfd86da299467bd6a'',
    iformfl ''VMCLEAR_LAST'' ''a91b8a4796ee78adca5111474fa6bf26d'',
    iformfl ''VMFUNC_FIRST'' ''a1915af6b31b145b5fd2c61e603eaccf5'',
    iformfl ''VMFUNC_LAST'' ''a932b3c9a6c5708aa591b8971f78d8c19'',
    iformfl ''VMINPD_FIRST'' ''ac94942f4472cfd75fba7cf73deeec396'',
    iformfl ''VMINPD_LAST'' ''a5e11087ef68b793fea0e5130b4dc7b46'',
    iformfl ''VMINPS_FIRST'' ''a93ff95e88f6d8a015028554fc60540a8'',
    iformfl ''VMINPS_LAST'' ''ab572618a29c3086c8ab30d6b3c4127c6'',
    iformfl ''VMINSD_FIRST'' ''a2cc6b80113bacf4e5ee018d1bffdc5c3'',
    iformfl ''VMINSD_LAST'' ''aefe9c8d9642fa579ee98da784b3ae293'',
    iformfl ''VMINSS_FIRST'' ''a36064b44715a997c5c623c722469c976'',
    iformfl ''VMINSS_LAST'' ''af7de5e4ca98538b82d0a6241f5b32631'',
    iformfl ''VMLAUNCH_FIRST'' ''a2f8f2430f05d97149582fe3dae24e072'',
    iformfl ''VMLAUNCH_LAST'' ''a412c23311bb3bd889bf620a8e060a12d'']"

lemma xed_iformfl_enum_8h_values_14_closed: "list_all (closed_node scripts) xed_iformfl_enum_8h_values_14"
  by (simp only: xed_iformfl_enum_8h_values_14_def closed_rules iformfl_closed)

definition xed_iformfl_enum_8h_values_15 :: "nav_node list" where
  "xed_iformfl_enum_8h_values_15 = [
    iformfl ''VMLOAD_FIRST'' ''a63617f6d4d9cddbf94ac4e6e74e9eaec'',
    iformfl ''VMLOAD_LAST'' ''a4b9b5f5d1812075fc1136fc2ca25fd96'',
    iformfl ''VMMCALL_FIRST'' ''a897b278ca5c6d5a92522fb8d7e11c5d5'',
    iformfl ''VMMCALL_LAST'' ''a842572d6e7285d919418d67642e601cf'',
    iformfl ''VMOVAPD_FIRST'' ''a4cde6043a8779c172bb41659620afcd5'',
    iformfl ''VMOVAPD_LAST'' ''ab6ea3652f39e93199dd0c2be67a3723b'',
    iformfl ''VMOVAPS_FIRST'' ''a963775e49cc5b087d097b26576a6ca9a'',
    iformfl ''VMOVAPS_LAST'' ''a16e0a54e1b13495713a3562b0fca42b0'',
    iformfl ''VMOVD_FIRST'' ''af52644eebd08e5a1c262f33eccff592c'',
    iformfl ''VMOVD_LAST'' ''a833a038adc88db6aa0c92aee51447a73'',
    iformfl ''VMOVDDUP_FIRST'' ''afbf7ba91177d6ab5fe6323f09d823fac'',
    iformfl ''VMOVDDUP_LAST'' ''a0961bcef0dd878776427b3ec1080aa9b'',
    iformfl ''VMOVDQA_FIRST'' ''ad0e9be54187cb7c2a52338e3dd87f05e'',
    iformfl ''VMOVDQA_LAST'' ''a09b946c2cf67454f861d0acde9334cef'',
    iformfl ''VMOVDQA32_FIRST'' ''a27e0f8fac13b69f0d1bc0a2f56465caf'',
    iformfl ''VMOVDQA32_LAST'' ''a7427607768bec10b6c1c60ab5c9f0929'',
    iformfl ''VMOVDQA64_FIRST'' ''a0c27e2de11cc7d65adb32fc2e631bc92'',
    iformfl ''VMOVDQA64_LAST'' ''ad06ab671cb87fc772c46cead3e585927'',
    iformfl ''VMOVDQU_FIRST'' ''afbec5c73bf70abbbbad4d923c11be4d7'',
    iformfl ''VMOVDQU_LAST'' ''ae2dc31ea13a4e9c216a9b0439b6003bd'',
    iformfl ''VMOVDQU16_FIRST'' ''aa05f9d8ce602223034b91931bd713856'',
    iformfl ''VMOVDQU16_LAST'' ''ae0f6d31dae23e1d6bd0b9559ff79b7a2'',
    iformfl ''VMOVDQU32_FIRST'' ''a42c3d31f45f7b0a3f8ca9a3f2955e3ff'',
    iformfl ''VMOVDQU32_LAST'' ''ac7617ac62c844ad9f5edd5429deb612d'',
    iformfl ''VMOVDQU64_FIRST'' ''a55a90b665849ab0288a8ffbe9aca0ef3'',
    iformfl ''VMOVDQU64_LAST'' ''a2eca59b6c1619c08c723824c9b53a882'',
    iformfl ''VMOVDQU8_FIRST'' ''a27f15e11ef5f94dae8283fa13cbcf0ad'',
    iformfl ''VMOVDQU8_LAST'' ''acbea3c837a28faf6481f99cc470fb8b1'',
    iformfl ''VMOVHLPS_FIRST'' ''a849b0839f3433c9029a50a827b1400ba'',
    iformfl ''VMOVHLPS_LAST'' ''abe436f908100d9747878cdc2c16dbec1'',
    iformfl ''VMOVHPD_FIRST'' ''a4866ddb62915750f624e10e4c2e26d17'',
    iformfl ''VMOVHPD_LAST'' ''a314f2e9f96bc7d8298513519e8269d56'',
    iformfl ''VMOVHPS_FIRST'' ''ada90f9bd4c7a485d735a534c480f7f47'',
    iformfl ''VMOVHPS_LAST'' ''acd8d907b25562d8fb79643193b3f923a'',
    iformfl ''VMOVLHPS_FIRST'' ''af9afca26916c1ccc93152d680740e31b'',
    iformfl ''VMOVLHPS_LAST'' ''a6a3edc285421464c339556636ba82a0e'',
    iformfl ''VMOVLPD_FIRST'' ''ad312cc98588cc17166df52402e094ac0'',
    iformfl ''VMOVLPD_LAST'' ''aeac8db688c6bc178b2ed3ce1b32c9fff'',
    iformfl ''VMOVLPS_FIRST'' ''aa3ea683291d8b4817bcc5435a5286f46'',
    iformfl ''VMOVLPS_LAST'' ''a7f98763de050c62d82c81ceaaff55e05'',
    iformfl ''VMOVMSKPD_FIRST'' ''a6bb06f3eac381bb96798bdfe04241328'',
    iformfl ''VMOVMSKPD_LAST'' ''a12d7fbbaf8412883de3617748e7c5ee7'',
    iformfl ''VMOVMSKPS_FIRST'' ''a3a262c9ac2c540f9a98c0f7fcaa9aa16'',
    iformfl ''VMOVMSKPS_LAST'' ''a1e803e86a41dac74f6b0af82e6c86fca'',
    iformfl ''VMOVNTDQ_FIRST'' ''ae5000aebc837e3858b04dd1c4c1df749'',
    iformfl ''VMOVNTDQ_LAST'' ''a4164a5a58a1e13321d666e9d8c6ffafd'',
    iformfl ''VMOVNTDQA_FIRST'' ''a1ef72c0c5138b7c1682744799f7cb047'',
    iformfl ''VMOVNTDQA_LAST'' ''acc98dfbfb1ca21381174d770536725a9'',
    iformfl ''VMOVNTPD_FIRST'' ''ab3fcc7a5d271943784ec29b123fad439'',
    iformfl ''VMOVNTPD_LAST'' ''aced9560fd6e65f1c70b211b67f4dd565'',
    iformfl ''VMOVNTPS_FIRST'' ''a073bc8ef487ee1a1f9967cff28607e93'',
    iformfl ''VMOVNTPS_LAST'' ''a7e9f5fe32addb937f4731426fc315dbb'',
    iformfl ''VMOVQ_FIRST'' ''a4721372c4334b9e911af7e9a9ea00f26'',
    iformfl ''VMOVQ_LAST'' ''a464748dda1e422a4938e143a2dd0c141'',
    iformfl ''VMOVSD_FIRST'' ''a33c5d85db2016c49b1280e29a1f61a3f'',
    iformfl ''VMOVSD_LAST'' ''a0ea51d7c63dbb20d3811d161aaf31da8'',
    iformfl ''VMOVSHDUP_FIRST'' ''a1674125ae7f1ab31d9011f6eb6a989fa'',
    iformfl ''VMOVSHDUP_LAST'' ''a30ee7da69ffbd6aa3248d850d5f95a80'',
    iformfl ''VMOVSLDUP_FIRST'' ''aae34a0683023096c0ff1bd6fe863b92d'',
    iformfl ''VMOVSLDUP_LAST'' ''a5f700f3932eaf63d63b74a5e4f97e638'',
    iformfl ''VMOVSS_FIRST'' ''af959f945eb1b59b8de72d916c66dc5d7'',
    iformfl ''VMOVSS_LAST'' ''a7da30945186170b4ec3b9452fac2a857'',
    iformfl ''VMOVUPD_FIRST'' ''aea55fa384cd75e639e707180eb615f6c'',
    iformfl ''VMOVUPD_LAST'' ''a56b3bcb35594448b6e3637e7b6d74e17'',
    iformfl ''VMOVUPS_FIRST'' ''ac90c9b1b83994a0c93c79aa7a7c2e578'',
    iformfl ''VMOVUPS_LAST'' ''a27e745639e488a838ef1b4b448cae412'',
    iformfl ''VMPSADBW_FIRST'' ''a6f90799aafc76e581a85e668bd61fa53'',
    iformfl ''VMPSADBW_LAST'' ''ad8be68e7f42ccaf579356688956ff464'',
    iformfl ''VMPTRLD_FIRST'' ''a0e3d062a08369e8f8d90a5aa1d999c21'',
    iformfl ''VMPTRLD_LAST'' ''a917e6913ad666d90533d924fb817a644'',
    iformfl ''VMPTRST_FIRST'' ''a46aac482a9a256587c27b26734aa264d'',
    iformfl ''VMPTRST_LAST'' ''aeb7a52435afcb3dda67057ee42d4477c'',
    iformfl ''VMREAD_FIRST'' ''a0ba10843fe404cf0e23ea950a016523b'',
    iformfl ''VMREAD_LAST'' ''aad13bebf53d38b30a558beaadbef92ab'',
    iformfl ''VMRESUME_FIRST'' ''a876c6ee8eb540afbb7916c5be1f8515e'',
    iformfl ''VMRESUME_LAST'' ''a15a1803bf9ccca11760a34725d6b52cc'',
    iformfl ''VMRUN_FIRST'' ''a26ef8652c604bc68c50df0cc5d59e130'',
    iformfl ''VMRUN_LAST'' ''aca13d9e52adf2cefcbd1f4f589a41ac3'',
    iformfl ''VMSAVE_FIRST'' ''a098defb5c64d3b629e308c885aed32b8'',
    iformfl ''VMSAVE_LAST'' ''a50810589191742ac22efd2c24cd086d8'',
    iformfl ''VMULPD_FIRST'' ''ac79ead04322f885eb64a6ed5daa3984c'',
    iformfl ''VMULPD_LAST'' ''a730a8cf772b3e37ec98e8676bea7a32e'',
    iformfl ''VMULPS_FIRST'' ''a51feefb785a12e5b1235aa41adb6dbf1'',
    iformfl ''VMULPS_LAST'' ''af10cef7e30314c4bf926dbe67174f007'',
    iformfl ''VMULSD_FIRST'' ''a2079552d55db4c623acc897c6f45dbf0'',
    iformfl ''VMULSD_LAST'' ''aa20bb40606fde866706edc59f2e01635'',
    iformfl ''VMULSS_FIRST'' ''a15595101174cf5e0af9bb3b2d195f3b8'',
    iformfl ''VMULSS_LAST'' ''a13b55bee628c877d8a8fe81c9dcd9d07'',
    iformfl ''VMWRITE_FIRST'' ''a7aadff46382a739fe27a3198720d8970'',
    iformfl ''VMWRITE_LAST'' ''a949037ef6084e3f2b630b4545c9162b6'',
    iformfl ''VMXOFF_FIRST'' ''af35ea57b2d7942d11a2a59b553b8919b'',
    iformfl ''VMXOFF_LAST'' ''ae931edaa355eda4f9acac9101e3e9541'',
    iformfl ''VMXON_FIRST'' ''a82d5e2d51e5e67e1084cf85b389d56cb'',
    iformfl ''VMXON_LAST'' ''adb8e121cbc166a2e3dfb94a36724c7a8'',
    iformfl ''VORPD_FIRST'' ''af7946f10cd0d6502f47409c514044cb6'',
    iformfl ''VORPD_LAST'' ''a29aeda09b2b2f76120cb10a255e59bfc'',
    iformfl ''VORPS_FIRST'' ''ae790688113f774566d16119a2691f829'',
    iformfl ''VORPS_LAST'' ''a77535832db5c4b4265f64c7c909a7a5a'',
    iformfl ''VPABSB_FIRST'' ''ae970a1ebe124f6d252a5c9640a7ede5a'',
    iformfl ''VPABSB_LAST'' ''a81cf861b1cd6750fea82f4ba391b6e82'',
    iformfl ''VPABSD_FIRST'' ''ae88457a89afa7d43b1eb15af814d8294'',
    iformfl ''VPABSD_LAST'' ''aa1930f2cf43dca2912994c67472b1451'',
    iformfl ''VPABSQ_FIRST'' ''a96e8341929f5a3dcd9737a0c8776eaf4'',
    iformfl ''VPABSQ_LAST'' ''ad396f24a17913388a26e7515ee62109f'',
    iformfl ''VPABSW_FIRST'' ''ae9ca2b12b29069260a1273c77bc759fe'',
    iformfl ''VPABSW_LAST'' ''ab30ed70ec6c72afd10a47002fd778fbe'',
    iformfl ''VPACKSSDW_FIRST'' ''a447cc2365046a2e595fe46bccde13ebe'',
    iformfl ''VPACKSSDW_LAST'' ''a7bd3b0ffa125d61adeea7831b776b195'',
    iformfl ''VPACKSSWB_FIRST'' ''a513fd34f35aa02896de07384b3346704'',
    iformfl ''VPACKSSWB_LAST'' ''a3a7b36c848782e04bfddb86bbe569954'',
    iformfl ''VPACKUSDW_FIRST'' ''a947036d6d2df6f8d92e67782559542fe'',
    iformfl ''VPACKUSDW_LAST'' ''aeccb13a03d876494706e7fe33131eeae'',
    iformfl ''VPACKUSWB_FIRST'' ''a79c4ff2ae8c1608a2cedf5ce38cc6a6b'',
    iformfl ''VPACKUSWB_LAST'' ''adce197f34ed78fd3ead792fd3a621216'',
    iformfl ''VPADDB_FIRST'' ''a39789866bf05cd9ba439504c3e597367'',
    iformfl ''VPADDB_LAST'' ''a697382cd49f7204d9db55cf3c3d651b0'',
    iformfl ''VPADDD_FIRST'' ''aaf34bbb412acfb48881da1f6694d29c4'',
    iformfl ''VPADDD_LAST'' ''a71b2120b8ef082b4be2ef298164f20a8'',
    iformfl ''VPADDQ_FIRST'' ''a96bb974c5150af8613beef535447776a'',
    iformfl ''VPADDQ_LAST'' ''a844b9fb0951589e3a1985430359effad'',
    iformfl ''VPADDSB_FIRST'' ''a46a95472a21b59546a51e902e58d5560'',
    iformfl ''VPADDSB_LAST'' ''a6e8e0502a11612018b0b80cad9566a90'',
    iformfl ''VPADDSW_FIRST'' ''a62707756c26463e28dbc6057b2f3fd1d'',
    iformfl ''VPADDSW_LAST'' ''a9f3a0e39ab3327adfea8c7e765327287'',
    iformfl ''VPADDUSB_FIRST'' ''abc0c21ac1a5dcc796bf32cf57436b2ae'',
    iformfl ''VPADDUSB_LAST'' ''a474406cdeba464b56ac36c09bd10e1c7'',
    iformfl ''VPADDUSW_FIRST'' ''afa301eddd422493ce7f633cb43dd9af0'',
    iformfl ''VPADDUSW_LAST'' ''ab1c90126c9feba82871b5ee1628510ef'',
    iformfl ''VPADDW_FIRST'' ''a69ad23ba7820d2b7f7acc01ad451a479'',
    iformfl ''VPADDW_LAST'' ''a6f117a28d4c8704ad5f455d168ece1a0'',
    iformfl ''VPALIGNR_FIRST'' ''aaf0fa22aa0d24f902d13be2edbd6bf2b'',
    iformfl ''VPALIGNR_LAST'' ''a5d7f4fb9edad5574e587bfcff7a814fa'',
    iformfl ''VPAND_FIRST'' ''af542498dde13d40729a695ce89c6cabf'',
    iformfl ''VPAND_LAST'' ''a74fbd35ce43d27564df40ddd1a1f34c2'',
    iformfl ''VPANDD_FIRST'' ''ad958948143a400403dd4b3a75d726776'',
    iformfl ''VPANDD_LAST'' ''a6b4f08b21e8e942ae813386ee76a0f79'',
    iformfl ''VPANDN_FIRST'' ''ad555ab8de476a21ae4a56b73a849911c'',
    iformfl ''VPANDN_LAST'' ''ac821c284ccb683c0aa4293e4be4fca91'',
    iformfl ''VPANDND_FIRST'' ''a9045024e59fc41e2673e374d7d109e81'',
    iformfl ''VPANDND_LAST'' ''aae6472ed7853dbc1e04719243460055b'']"

lemma xed_iformfl_enum_8h_values_15_closed: "list_all (closed_node scripts) xed_iformfl_enum_8h_values_15"
  by (simp only: xed_iformfl_enum_8h_values_15_def closed_rules iformfl_closed)

definition xed_iformfl_enum_8h_values_16 :: "nav_node list" where
  "xed_iformfl_enum_8h_values_16 = [
    iformfl ''VPANDNQ_FIRST'' ''a8816ee5ed200bff72cc553a4637305c9'',
    iformfl ''VPANDNQ_LAST'' ''a0710638352b13c4bf0a21a8375b34bc4'',
    iformfl ''VPANDQ_FIRST'' ''ac46e1bfef3e5e138de28fb81ba01fa5d'',
    iformfl ''VPANDQ_LAST'' ''a35c7bec4d6eafbc5eace20f61ea39bc6'',
    iformfl ''VPAVGB_FIRST'' ''a25e40849151b90d6bfe960acdbbad2ec'',
    iformfl ''VPAVGB_LAST'' ''a1b93df4dcd2077be0b3d26267b35374a'',
    iformfl ''VPAVGW_FIRST'' ''ab653e0cadd06e4b5a7882013f2567cfa'',
    iformfl ''VPAVGW_LAST'' ''ad8e47eb9730fdd8bf3261417c028d953'',
    iformfl ''VPBLENDD_FIRST'' ''a151f9f56e2ec991942ed626a05e4a598'',
    iformfl ''VPBLENDD_LAST'' ''aa84600b9d3b7c850ef5e05c7287707e2'',
    iformfl ''VPBLENDMB_FIRST'' ''ae31937405cf551b9967e570d10b6115e'',
    iformfl ''VPBLENDMB_LAST'' ''a814024deda185fb7a68403130f33df7e'',
    iformfl ''VPBLENDMD_FIRST'' ''ac44e54de5d3c30ff61224e7777febda4'',
    iformfl ''VPBLENDMD_LAST'' ''a01e0c8a936e8aa41242e67a7c55be01b'',
    iformfl ''VPBLENDMQ_FIRST'' ''a92a804b271f887192be58af26d338c27'',
    iformfl ''VPBLENDMQ_LAST'' ''a52c3fee5bb0c0d4727e7ce01359c368e'',
    iformfl ''VPBLENDMW_FIRST'' ''aec63526e79747e146e28d5ba8e5b86f6'',
    iformfl ''VPBLENDMW_LAST'' ''aaf81a6ed843866adf933b89fbd264944'',
    iformfl ''VPBLENDVB_FIRST'' ''afb63b94764281b45731275793ff267a3'',
    iformfl ''VPBLENDVB_LAST'' ''a97cee5e93c063d97a0f9c9e373da08b5'',
    iformfl ''VPBLENDW_FIRST'' ''ac84b9090aba185728016baf3286d3d43'',
    iformfl ''VPBLENDW_LAST'' ''aba7913b5afd78d859e081e61cc8d8fab'',
    iformfl ''VPBROADCASTB_FIRST'' ''a76396769e147eae92de16a5bc9c25017'',
    iformfl ''VPBROADCASTB_LAST'' ''ad32a3b247c5a83084feb3377c0b7c724'',
    iformfl ''VPBROADCASTD_FIRST'' ''abad7086ab458a3719de88e43d277667b'',
    iformfl ''VPBROADCASTD_LAST'' ''af7028bafebe0dfd6cfb56be4293a98d0'',
    iformfl ''VPBROADCASTMB2Q_FIRST'' ''a9441fea40b4ee4372c0a026d3001d71d'',
    iformfl ''VPBROADCASTMB2Q_LAST'' ''ad81be6bfbdac843645edfaadf7c60e5b'',
    iformfl ''VPBROADCASTMW2D_FIRST'' ''a47062a70c031986340e6547cb004d35e'',
    iformfl ''VPBROADCASTMW2D_LAST'' ''a604496858aef2d455e43477b8b13eab1'',
    iformfl ''VPBROADCASTQ_FIRST'' ''a513fdc8b1bfd59ee58e7036bc76122ec'',
    iformfl ''VPBROADCASTQ_LAST'' ''a258b0b2dcb79a54bec7797d0becbf03c'',
    iformfl ''VPBROADCASTW_FIRST'' ''a4b8449efcf28c4e0a110d1af807173ee'',
    iformfl ''VPBROADCASTW_LAST'' ''a45f1a1f217885b71d5a6563583361e78'',
    iformfl ''VPCLMULQDQ_FIRST'' ''a80f2e6ebfae953a5f0a3873743f10e88'',
    iformfl ''VPCLMULQDQ_LAST'' ''a7f079c989a700f8595ff79cd479fbf7a'',
    iformfl ''VPCMOV_FIRST'' ''a0b03da2132d306fc0503e05114bdf9bd'',
    iformfl ''VPCMOV_LAST'' ''a74febc466d77e39daadf8ac94e5470be'',
    iformfl ''VPCMPB_FIRST'' ''a7a99fad07bc61cf407cdcfc67a662931'',
    iformfl ''VPCMPB_LAST'' ''ae4a21ee89197efbbbfe7957f70e744ce'',
    iformfl ''VPCMPD_FIRST'' ''aae9c2f69b2cc47c1ca9aa4bcbccd915d'',
    iformfl ''VPCMPD_LAST'' ''a4c940ce14a57a713346e1306df0f691b'',
    iformfl ''VPCMPEQB_FIRST'' ''a476ee7e4e042f3a7744f753ca0a0f163'',
    iformfl ''VPCMPEQB_LAST'' ''ab51302761d2e37c85c40c69df76ef7d1'',
    iformfl ''VPCMPEQD_FIRST'' ''ad65f118cd0ffca1e9ddcda0ec05dddea'',
    iformfl ''VPCMPEQD_LAST'' ''a52950215c2e4e47e6a172205093bc9fe'',
    iformfl ''VPCMPEQQ_FIRST'' ''a02362897833b3ef71b6771922cceebe5'',
    iformfl ''VPCMPEQQ_LAST'' ''ab6db40a6ea762b47ed8677c1f64f8992'',
    iformfl ''VPCMPEQW_FIRST'' ''a96b56220b9072bd01b53938e5e770d16'',
    iformfl ''VPCMPEQW_LAST'' ''a76930ae4060ad676a975bfc7c22fc7fc'',
    iformfl ''VPCMPESTRI_FIRST'' ''a820f72127ba25ab7c0473ff555180a4e'',
    iformfl ''VPCMPESTRI_LAST'' ''ab3521d854323959acb553839ceb84f96'',
    iformfl ''VPCMPESTRM_FIRST'' ''a877bdc27755edfc94b6a9ce24c3cf01d'',
    iformfl ''VPCMPESTRM_LAST'' ''aab5ae4de1cb028eb0fee4c806bc4acb3'',
    iformfl ''VPCMPGTB_FIRST'' ''aa8903bc14a2402b73a712f228a7d8698'',
    iformfl ''VPCMPGTB_LAST'' ''a9a4e776dcea6904ddc47afc0212aa1ff'',
    iformfl ''VPCMPGTD_FIRST'' ''abde5fee9554c408d1d20ab3c95ca7d22'',
    iformfl ''VPCMPGTD_LAST'' ''a10caf095fd32ee72239bb5b6d64fa9fa'',
    iformfl ''VPCMPGTQ_FIRST'' ''af20ca61f884d22dea5e2ddd8821d3c33'',
    iformfl ''VPCMPGTQ_LAST'' ''a862b583676af50114854e8c95c37104a'',
    iformfl ''VPCMPGTW_FIRST'' ''a8974fa7c2acbbf709da4038703d744d6'',
    iformfl ''VPCMPGTW_LAST'' ''a40fdc384c21bbacd4c4bc43db79ebfe9'',
    iformfl ''VPCMPISTRI_FIRST'' ''a7420febaf27749c87fc64d9726eca18e'',
    iformfl ''VPCMPISTRI_LAST'' ''af945f064ab128bee6dd9831f1d9fb31a'',
    iformfl ''VPCMPISTRM_FIRST'' ''a82b5586bc74bff6b19d6cc85b8484cd4'',
    iformfl ''VPCMPISTRM_LAST'' ''a7f99b902556398d314252845973c204a'',
    iformfl ''VPCMPQ_FIRST'' ''afcef337053eaa4886126d56ebefbdbb3'',
    iformfl ''VPCMPQ_LAST'' ''a039fb352efcff5c133150d0b74b66262'',
    iformfl ''VPCMPUB_FIRST'' ''aa097b8229d08b10b039b879925547751'',
    iformfl ''VPCMPUB_LAST'' ''ad966a7518da8c7835b5886225e5f37e2'',
    iformfl ''VPCMPUD_FIRST'' ''a1f52e1dfb963661f2175d345e7f4a730'',
    iformfl ''VPCMPUD_LAST'' ''aa470c21422af16fa1cea64d728419b2e'',
    iformfl ''VPCMPUQ_FIRST'' ''a59cb073ae4515ba9413ae8510a322e89'',
    iformfl ''VPCMPUQ_LAST'' ''a0d2209f99d8dedd41b9c4642b7eb2d34'',
    iformfl ''VPCMPUW_FIRST'' ''abbf652435765d24ee98465a17ef9b8e5'',
    iformfl ''VPCMPUW_LAST'' ''ab1bbefafd2fe30043906c59d6ca8068b'',
    iformfl ''VPCMPW_FIRST'' ''a76d0a3879c4fbd72d2dd2bf2f135c46d'',
    iformfl ''VPCMPW_LAST'' ''a0758e5ab4b63eba63a94203659b9fdb8'',
    iformfl ''VPCOMB_FIRST'' ''ab77a8ce57d0be845a9b5a7024fff54e6'',
    iformfl ''VPCOMB_LAST'' ''a278ee5d1efad9389378bf61f630bce7a'',
    iformfl ''VPCOMD_FIRST'' ''ac9bdc5e39b81bcf3eb0fca9cd5a01848'',
    iformfl ''VPCOMD_LAST'' ''afb0cf720b5307af49ae68897ece792d0'',
    iformfl ''VPCOMPRESSD_FIRST'' ''aa8f51f50cbffaf74f9e56f93968324d4'',
    iformfl ''VPCOMPRESSD_LAST'' ''a1e5bd54e43b174545d84153deb04132e'',
    iformfl ''VPCOMPRESSQ_FIRST'' ''a5cc2cbcd4cc248f814a6e46e1fe85814'',
    iformfl ''VPCOMPRESSQ_LAST'' ''a95b704001e1b8e8c8bad56bd4fdac785'',
    iformfl ''VPCOMQ_FIRST'' ''a5ac78192af907c94844ca335f4b8616b'',
    iformfl ''VPCOMQ_LAST'' ''a86aac95d55ed2b91e28237d7f79edd31'',
    iformfl ''VPCOMUB_FIRST'' ''acb570d529e77abe8cd7615cd41339460'',
    iformfl ''VPCOMUB_LAST'' ''a65585e49dd0e6c3f507021efc8853959'',
    iformfl ''VPCOMUD_FIRST'' ''a0a55fac6f86a7950b84060d36b64407e'',
    iformfl ''VPCOMUD_LAST'' ''a2c85148d03be1c6aa3c6fd85e62dce17'',
    iformfl ''VPCOMUQ_FIRST'' ''a7da07297d0b6436bd5cf213cdb21b004'',
    iformfl ''VPCOMUQ_LAST'' ''ac994217f8547040b016e685c27f49463'',
    iformfl ''VPCOMUW_FIRST'' ''ad963244dadab9e406d6c182c7016fbff'',
    iformfl ''VPCOMUW_LAST'' ''a848fb53c01e9effde9d85ccf636a907f'',
    iformfl ''VPCOMW_FIRST'' ''a5c6f859a9ba2561a6ffda0c9304d603c'',
    iformfl ''VPCOMW_LAST'' ''a2934a0df997a49c96daa7a010afd3408'',
    iformfl ''VPCONFLICTD_FIRST'' ''a9aab09d5084f8dcdca0480c2c8e6395e'',
    iformfl ''VPCONFLICTD_LAST'' ''ab75daa4cb5fa465a90a964145d45ec85'',
    iformfl ''VPCONFLICTQ_FIRST'' ''a4689c7d61469bf40dae0fa0e5cd9d87f'',
    iformfl ''VPCONFLICTQ_LAST'' ''a4fac500b4ceb172c26d05ca48b1114dc'',
    iformfl ''VPERM2F128_FIRST'' ''a6e68e76aa70c4136ce9dd964841b78df'',
    iformfl ''VPERM2F128_LAST'' ''a50fa2f9b212d0cfc7f5899514c3f9789'',
    iformfl ''VPERM2I128_FIRST'' ''af3b837df8a5351153e2832d3ca64a62c'',
    iformfl ''VPERM2I128_LAST'' ''ae103316b60eca38bdb68a1eeb19b86ce'',
    iformfl ''VPERMB_FIRST'' ''a0b04d379b6156db660368b7acc6db903'',
    iformfl ''VPERMB_LAST'' ''ad1bd60b48eeed0bf3cc79db3f65a17c2'',
    iformfl ''VPERMD_FIRST'' ''a29d2cdb28b49732f745c6234c30a6877'',
    iformfl ''VPERMD_LAST'' ''a2f5e68842c66abbcb06cf034db6db065'',
    iformfl ''VPERMI2B_FIRST'' ''ac984858f6428a243355a35df0b7f6a14'',
    iformfl ''VPERMI2B_LAST'' ''ada3a934e33b55e7345a90cdda011cd54'',
    iformfl ''VPERMI2D_FIRST'' ''a53cce8438c9f412198fb5bb8f2202685'',
    iformfl ''VPERMI2D_LAST'' ''ac29476b9f7ffd82016cade8e320d0be5'',
    iformfl ''VPERMI2PD_FIRST'' ''a5cfb952939585ccbf19e0380848eafdd'',
    iformfl ''VPERMI2PD_LAST'' ''a5e0b9e31c2b60df671aa296dce4085ca'',
    iformfl ''VPERMI2PS_FIRST'' ''af7a266c94b3d87d7fc8b9203da66a88a'',
    iformfl ''VPERMI2PS_LAST'' ''a7b2453dbbde2031cfcb11cb98331a2c5'',
    iformfl ''VPERMI2Q_FIRST'' ''a57d1148b585881fe875695c2bb3897f2'',
    iformfl ''VPERMI2Q_LAST'' ''aebba670b6d9e0844d3d5524bfdc8b851'',
    iformfl ''VPERMI2W_FIRST'' ''a833d7bc0f57ff2ad5db9c3f171abded0'',
    iformfl ''VPERMI2W_LAST'' ''a879a43656f2b14ac3b585732691149df'',
    iformfl ''VPERMIL2PD_FIRST'' ''afcd80cff00217120e18991c1d537ba62'',
    iformfl ''VPERMIL2PD_LAST'' ''af9be4815b17f3347ee183f0dd98c5ec2'',
    iformfl ''VPERMIL2PS_FIRST'' ''a588ffff4998ced2d51210146ed8c9862'',
    iformfl ''VPERMIL2PS_LAST'' ''ae73e9bf60c67c1a6c6a88eeb14282d8f'',
    iformfl ''VPERMILPD_FIRST'' ''a9b0e1de108c40093d192a3dcac22ad73'',
    iformfl ''VPERMILPD_LAST'' ''a0806a52907fe1a2205715d781f64a8b6'',
    iformfl ''VPERMILPS_FIRST'' ''a1ff515b36bb3b1d578c44ffc350ef955'',
    iformfl ''VPERMILPS_LAST'' ''ad576b86d35505ea19aa4ef0e8771f00c'',
    iformfl ''VPERMPD_FIRST'' ''a2ae3537889c0da9748c5c8fff7268846'',
    iformfl ''VPERMPD_LAST'' ''a467bd7211cc588637e5712b78c206ab3'',
    iformfl ''VPERMPS_FIRST'' ''a83dc2dd1adf1ecb719644c00ede9e6e8'',
    iformfl ''VPERMPS_LAST'' ''a0627efe7290bb1851430bb26d8b675e6'',
    iformfl ''VPERMQ_FIRST'' ''ae2bfc45287bfbd98a7ec1af3666dd34a'',
    iformfl ''VPERMQ_LAST'' ''a374bc510d1ff81f6184db0d2a3ed7d54'',
    iformfl ''VPERMT2B_FIRST'' ''ab80e0a700abad0bdc85c5dd40f5298cd'',
    iformfl ''VPERMT2B_LAST'' ''a0ce831d8cd3c75c1cd0d6504a0fa112e'',
    iformfl ''VPERMT2D_FIRST'' ''ab1b21cb4327c3c06b4f838b2a8f4c880'',
    iformfl ''VPERMT2D_LAST'' ''a701193c6490a8be0f440469108b32713'']"

lemma xed_iformfl_enum_8h_values_16_closed: "list_all (closed_node scripts) xed_iformfl_enum_8h_values_16"
  by (simp only: xed_iformfl_enum_8h_values_16_def closed_rules iformfl_closed)

definition xed_iformfl_enum_8h_values_17 :: "nav_node list" where
  "xed_iformfl_enum_8h_values_17 = [
    iformfl ''VPERMT2PD_FIRST'' ''a278bb927a0385eb9306419ca3a5a68ab'',
    iformfl ''VPERMT2PD_LAST'' ''adea9413d76b34223cfcadd4e01e1b0b1'',
    iformfl ''VPERMT2PS_FIRST'' ''ae384b72afd772e9510fb5c4ea38d70bd'',
    iformfl ''VPERMT2PS_LAST'' ''aaee29c85850ef9b70babf7f851c86e05'',
    iformfl ''VPERMT2Q_FIRST'' ''ac597dc80f9a9f6aef066f411179939bf'',
    iformfl ''VPERMT2Q_LAST'' ''a73993d9fe694cedda80dcb37a60211d9'',
    iformfl ''VPERMT2W_FIRST'' ''a834471e487d643741244c61c98e44e6b'',
    iformfl ''VPERMT2W_LAST'' ''aec463623b2ada3dd4af19abf1d2be2ea'',
    iformfl ''VPERMW_FIRST'' ''a69b38d8d2090debebff4a902bc81bf25'',
    iformfl ''VPERMW_LAST'' ''a35d3ad35805cfc478061bc8a545ab67a'',
    iformfl ''VPEXPANDD_FIRST'' ''a3e41ecedd06303d9cb707277727df732'',
    iformfl ''VPEXPANDD_LAST'' ''a63d9ad9dfb4e6b33f469340a197d0b90'',
    iformfl ''VPEXPANDQ_FIRST'' ''a72504aecbaf0ec70dae5846fc80699b1'',
    iformfl ''VPEXPANDQ_LAST'' ''a59d4bb66e34b7597c29a44ec5ea90272'',
    iformfl ''VPEXTRB_FIRST'' ''a0ea2e4c465bec025092fc1ac0b43d1c6'',
    iformfl ''VPEXTRB_LAST'' ''a5ba6dd56fcfff9cb4fe83398ca713359'',
    iformfl ''VPEXTRD_FIRST'' ''a568e0f8d7997a90aacc39c08e046caa9'',
    iformfl ''VPEXTRD_LAST'' ''aaacef33bda2f54a9d76d0ebcce132e2f'',
    iformfl ''VPEXTRQ_FIRST'' ''aed4c43a978b37ed2296c1887c0a41bf2'',
    iformfl ''VPEXTRQ_LAST'' ''a59085cfc775e818172d08996d6d68d00'',
    iformfl ''VPEXTRW_FIRST'' ''aede82de34fa370c1fad58bd855f19469'',
    iformfl ''VPEXTRW_LAST'' ''a0f5525689228bcf227b98bc39239a76c'',
    iformfl ''VPGATHERDD_FIRST'' ''a5ca8ddb4297f7c831be2eec5180763cc'',
    iformfl ''VPGATHERDD_LAST'' ''abd2f95bfde6c1920fb6a11e756c267f4'',
    iformfl ''VPGATHERDQ_FIRST'' ''abae90b5740b010785bec32a6ff2740c8'',
    iformfl ''VPGATHERDQ_LAST'' ''aefeb62871e0d6bd722e5a4b3547828cc'',
    iformfl ''VPGATHERQD_FIRST'' ''a4bf8f203bb2c734ca2f8bcce12665b33'',
    iformfl ''VPGATHERQD_LAST'' ''a72b7752d5ea2bdb5c00d8d5fd14835bd'',
    iformfl ''VPGATHERQQ_FIRST'' ''a4f7f495a4941967aaaa0596ec7402a23'',
    iformfl ''VPGATHERQQ_LAST'' ''adf7e915c1fe906638541f3e9fa0dce46'',
    iformfl ''VPHADDBD_FIRST'' ''a72963e592ebe4ec85999ff383fc81b78'',
    iformfl ''VPHADDBD_LAST'' ''a0b450c3fb1d2f4670e44ecdec1557675'',
    iformfl ''VPHADDBQ_FIRST'' ''a59dab469afd6299952a13d27ed7cf0f9'',
    iformfl ''VPHADDBQ_LAST'' ''a321e5dac76d80be6d68985675b470aec'',
    iformfl ''VPHADDBW_FIRST'' ''aac38c3f57376f1bb56882bd5c0ee0357'',
    iformfl ''VPHADDBW_LAST'' ''a9cbea966b8316a9fdc65639ea17bba18'',
    iformfl ''VPHADDD_FIRST'' ''a5844d66699196ab3c0621bfc73cc0444'',
    iformfl ''VPHADDD_LAST'' ''ab38f0e22f332792bc8ced8c01aae6f8a'',
    iformfl ''VPHADDDQ_FIRST'' ''a5ed55e65c648a0d9a99abdc697497abe'',
    iformfl ''VPHADDDQ_LAST'' ''a943917dfece0134923b323ed79e1ef92'',
    iformfl ''VPHADDSW_FIRST'' ''a1f9fe85d44237eb25567a5a244824d1c'',
    iformfl ''VPHADDSW_LAST'' ''ad8b326c1f23926190941c1a6cbf465d5'',
    iformfl ''VPHADDUBD_FIRST'' ''a8df44afa1cd6f1963c5fb97b65d1edcc'',
    iformfl ''VPHADDUBD_LAST'' ''a4c9790453b2dda26b8e04621506a5e3e'',
    iformfl ''VPHADDUBQ_FIRST'' ''a912c8944104e7f529b8bea1dc058bf11'',
    iformfl ''VPHADDUBQ_LAST'' ''a11295a4c4225ba61b949a43f2bbe7d0f'',
    iformfl ''VPHADDUBW_FIRST'' ''ad125ee13365696a2a281b35ce1a94dd6'',
    iformfl ''VPHADDUBW_LAST'' ''ade693286fb74bc6cb92d50a8b34443ae'',
    iformfl ''VPHADDUDQ_FIRST'' ''a00dbe865a07a7394ad835d9d38551ea9'',
    iformfl ''VPHADDUDQ_LAST'' ''a18cf945e2fccb20735b3896872c13d7b'',
    iformfl ''VPHADDUWD_FIRST'' ''ac4f48ab76db843884e2449ee386a7ff1'',
    iformfl ''VPHADDUWD_LAST'' ''a1bcba190d73ff1283c253ddc54ac98ae'',
    iformfl ''VPHADDUWQ_FIRST'' ''aef4730fe9f01db8911343196d334d912'',
    iformfl ''VPHADDUWQ_LAST'' ''a095465568a7207bac764859274cdada8'',
    iformfl ''VPHADDW_FIRST'' ''a18c93d9670cc900ad4533d184f5bee83'',
    iformfl ''VPHADDW_LAST'' ''a9a695f4fb6049f1c46e967a38de6daee'',
    iformfl ''VPHADDWD_FIRST'' ''ae96723eee4300d321dd55b9412c3f1e1'',
    iformfl ''VPHADDWD_LAST'' ''a747387c5fbaf950571719753da1f980f'',
    iformfl ''VPHADDWQ_FIRST'' ''a5c7473891eb263a1fa3cf8a746a759db'',
    iformfl ''VPHADDWQ_LAST'' ''a45db47619f315e8222921af4b5187782'',
    iformfl ''VPHMINPOSUW_FIRST'' ''a7f1d90d0296db893aaf09aa89b1c5dd0'',
    iformfl ''VPHMINPOSUW_LAST'' ''a9342715daa18af712be2c8b73bb77ea5'',
    iformfl ''VPHSUBBW_FIRST'' ''a68a10e0ea03d46b6e6664029edf05ee9'',
    iformfl ''VPHSUBBW_LAST'' ''ab1ce4af750d0003af683b19888a29b9a'',
    iformfl ''VPHSUBD_FIRST'' ''a6edcc309bd3189e3f995276178027579'',
    iformfl ''VPHSUBD_LAST'' ''a8e5639ee700dcdc3e1a3a11a18a787e9'',
    iformfl ''VPHSUBDQ_FIRST'' ''ae595280cdc932e7002304c8adda86bff'',
    iformfl ''VPHSUBDQ_LAST'' ''af89fcea287fdbfb929e425ef85f2703e'',
    iformfl ''VPHSUBSW_FIRST'' ''ac7e9d15f09cdbf0460d5d41da7adad55'',
    iformfl ''VPHSUBSW_LAST'' ''a09d459ab9daaa57936efa2e33d5d114c'',
    iformfl ''VPHSUBW_FIRST'' ''a4bc745802bd2ca078baf2ca6a797f11b'',
    iformfl ''VPHSUBW_LAST'' ''a37a9ab114cdd68d29528667f15bb48f1'',
    iformfl ''VPHSUBWD_FIRST'' ''a3859cb95f9470bde8c9ba50ad7633ecf'',
    iformfl ''VPHSUBWD_LAST'' ''a87b488d86bf6b720bfba1bfd8a09b242'',
    iformfl ''VPINSRB_FIRST'' ''a8cb3fe734f59513abb2bc692d936bc6f'',
    iformfl ''VPINSRB_LAST'' ''adc15593a9391561cb89cea836ef76b07'',
    iformfl ''VPINSRD_FIRST'' ''a44d1425338dab8cfeb596dea93a69c12'',
    iformfl ''VPINSRD_LAST'' ''a5a6b2ac3e39114d284552347c82bf2bb'',
    iformfl ''VPINSRQ_FIRST'' ''af02e931db1598fd232394ee23cf62390'',
    iformfl ''VPINSRQ_LAST'' ''a0d3e7d6262e0db7015336d2a6285c3c8'',
    iformfl ''VPINSRW_FIRST'' ''a4aacb9b7f215ddb65336970c50b87ce7'',
    iformfl ''VPINSRW_LAST'' ''a27768fa9e787281b6f6fec6e130487ec'',
    iformfl ''VPLZCNTD_FIRST'' ''ab57a579b0ccc096f9fe3e1e3e0af2dce'',
    iformfl ''VPLZCNTD_LAST'' ''aef6a04bff9c46b6436d5796f7c6db10c'',
    iformfl ''VPLZCNTQ_FIRST'' ''aaa7e28aeccd1305368bffb3caddf291b'',
    iformfl ''VPLZCNTQ_LAST'' ''a37d2acfc6a090579daba22a5b842bf8f'',
    iformfl ''VPMACSDD_FIRST'' ''aa932a100a7c2b2ad9b6c02b6b7beb849'',
    iformfl ''VPMACSDD_LAST'' ''a479a37db30e354265d27b130b347209c'',
    iformfl ''VPMACSDQH_FIRST'' ''af585426bf1c2fc5a4dd268b773568d8b'',
    iformfl ''VPMACSDQH_LAST'' ''a2bf550c41e09d0278291f0caf6d2c37b'',
    iformfl ''VPMACSDQL_FIRST'' ''a9bceb66ca46fc72984c5f122432fa74c'',
    iformfl ''VPMACSDQL_LAST'' ''a9b1bd7cb4b620fbab2f02d16556555f2'',
    iformfl ''VPMACSSDD_FIRST'' ''ac298072b66cee4dfae0bb650963f394e'',
    iformfl ''VPMACSSDD_LAST'' ''ac4109049a03e1cefe731d0112a274674'',
    iformfl ''VPMACSSDQH_FIRST'' ''aa7d2b87af5377c746f8e3b5b886d5da6'',
    iformfl ''VPMACSSDQH_LAST'' ''a89cf111248414ffe05754f768d6e191f'',
    iformfl ''VPMACSSDQL_FIRST'' ''a99b939598879914e9eedd5da374dce39'',
    iformfl ''VPMACSSDQL_LAST'' ''a5887bad50d79db6ef32bfd7b39b12ab9'',
    iformfl ''VPMACSSWD_FIRST'' ''aab1afc73e5e821237b3b2f092324c99c'',
    iformfl ''VPMACSSWD_LAST'' ''a86b16baaadf3ab25d7d44ccc5b25d404'',
    iformfl ''VPMACSSWW_FIRST'' ''ab0b4509194c00af56f9badea02e3596f'',
    iformfl ''VPMACSSWW_LAST'' ''aa51803799d492ac40a7b02ea125379a4'',
    iformfl ''VPMACSWD_FIRST'' ''a83c05ae8193602abd459fead6463614a'',
    iformfl ''VPMACSWD_LAST'' ''a2fb0880fd5d90d41cf924048223d80cb'',
    iformfl ''VPMACSWW_FIRST'' ''a715328b6cad33a1818b1f2cbc732963f'',
    iformfl ''VPMACSWW_LAST'' ''a63e0b98f81368baa1166ca6477627d85'',
    iformfl ''VPMADCSSWD_FIRST'' ''a7522e4c0a416ff386f365aa8d477f185'',
    iformfl ''VPMADCSSWD_LAST'' ''ad70975c13778fd6dd200a0297ef461e3'',
    iformfl ''VPMADCSWD_FIRST'' ''af1ffe97d448ffdf9d3ab071da98f57a9'',
    iformfl ''VPMADCSWD_LAST'' ''a8dee02186b50f3800db37f241084d64f'',
    iformfl ''VPMADD52HUQ_FIRST'' ''a6a2a3f63b6d9dd6b2d93266e7550df16'',
    iformfl ''VPMADD52HUQ_LAST'' ''a4eafdc7cb14e28ec808e426a243f90d4'',
    iformfl ''VPMADD52LUQ_FIRST'' ''a111aead5a6bde19edd449512ffc0e348'',
    iformfl ''VPMADD52LUQ_LAST'' ''ad7b5eec900bb29db940d40c61ec788ef'',
    iformfl ''VPMADDUBSW_FIRST'' ''a8ec40ab702d8c8be43e9f3d5ec2ce8ba'',
    iformfl ''VPMADDUBSW_LAST'' ''a8c3a6e552cc7915fce52b108b854238f'',
    iformfl ''VPMADDWD_FIRST'' ''a6f32cb680e0662015fb2aa0f95c4f0d9'',
    iformfl ''VPMADDWD_LAST'' ''aab5180f36092b7e233e9f9060156efdb'',
    iformfl ''VPMASKMOVD_FIRST'' ''a1366b9f881adcd296e9fb2b33d97fcc1'',
    iformfl ''VPMASKMOVD_LAST'' ''accfa5767932f60f027869d7ea1d30ff7'',
    iformfl ''VPMASKMOVQ_FIRST'' ''a247a428317819a15b9fcef3d8ab66cfb'',
    iformfl ''VPMASKMOVQ_LAST'' ''a2944aba8d16333951faf734d718560d9'',
    iformfl ''VPMAXSB_FIRST'' ''a65c75e41c291bab8db46958c6b31e7e0'',
    iformfl ''VPMAXSB_LAST'' ''a2637617407d5c900dec7aa633e053264'',
    iformfl ''VPMAXSD_FIRST'' ''a5ad5ad47e21d228aae22914ed58cca0f'',
    iformfl ''VPMAXSD_LAST'' ''a777a229529381eeee9676b100b37c579'',
    iformfl ''VPMAXSQ_FIRST'' ''a1e47c0b4d91151641258c8a33c9877f5'',
    iformfl ''VPMAXSQ_LAST'' ''a6a18db3be67098ac75e664f7b55a182c'',
    iformfl ''VPMAXSW_FIRST'' ''a875691ae187fc3744d2f816c9c20ef0d'',
    iformfl ''VPMAXSW_LAST'' ''adc0bd6ff3c649984bd6c5bc8f4c9b49b'',
    iformfl ''VPMAXUB_FIRST'' ''aa7af61cc49d47ae88671c901a9b8601b'',
    iformfl ''VPMAXUB_LAST'' ''a6ee588e89a478db46d917a8a2c8272c8'',
    iformfl ''VPMAXUD_FIRST'' ''a4c9d60413ff276081ac0ed3484e2d336'',
    iformfl ''VPMAXUD_LAST'' ''a3b13006245a99024327a7dc2d2464e6e'',
    iformfl ''VPMAXUQ_FIRST'' ''a81438713ca07a0136de99ce5c9a3b3ca'',
    iformfl ''VPMAXUQ_LAST'' ''a07ed2e15b729a6ef9a740b45aeabb8a3'',
    iformfl ''VPMAXUW_FIRST'' ''aff126054425c320e34168110558f3c03'',
    iformfl ''VPMAXUW_LAST'' ''a6e07c972e1875669ca68270b912fd6c7'',
    iformfl ''VPMINSB_FIRST'' ''a6ff7034ad4367e69d329ded03e1c01a3'',
    iformfl ''VPMINSB_LAST'' ''a7033fa9902dc51773f639f65ac022e2a'']"

lemma xed_iformfl_enum_8h_values_17_closed: "list_all (closed_node scripts) xed_iformfl_enum_8h_values_17"
  by (simp only: xed_iformfl_enum_8h_values_17_def closed_rules iformfl_closed)

definition xed_iformfl_enum_8h_values_18 :: "nav_node list" where
  "xed_iformfl_enum_8h_values_18 = [
    iformfl ''VPMINSD_FIRST'' ''ae1b9c30985c93f4dc8d00f7075943d00'',
    iformfl ''VPMINSD_LAST'' ''a3749d6c51d5e51fe0b90a1b84dfe7e83'',
    iformfl ''VPMINSQ_FIRST'' ''ac7a329261c1aa86f893c0fe1ab8dea2a'',
    iformfl ''VPMINSQ_LAST'' ''aa64ce75a4b7c02f18742191236354b5f'',
    iformfl ''VPMINSW_FIRST'' ''a79609e19d364d18021289883cff7421e'',
    iformfl ''VPMINSW_LAST'' ''a054a1dec399d0001268487cbdb352efb'',
    iformfl ''VPMINUB_FIRST'' ''a801aed002252cf35c6bd8149f0411e6a'',
    iformfl ''VPMINUB_LAST'' ''a254be46c0a2ee800a92ff15d0ed6f2e6'',
    iformfl ''VPMINUD_FIRST'' ''ab152a93144d0c3bca18749a4b720037b'',
    iformfl ''VPMINUD_LAST'' ''a25b1420ac24d3b6090a1d36799aa2ee5'',
    iformfl ''VPMINUQ_FIRST'' ''a745c13d84b2c8c2ac4112186a03fa7e2'',
    iformfl ''VPMINUQ_LAST'' ''a9544fe21d5c581c977c6957b2da797d2'',
    iformfl ''VPMINUW_FIRST'' ''ae35ea4be0cb4195299c71e7ccef6a214'',
    iformfl ''VPMINUW_LAST'' ''ab11aacf30a10ba68a9007ee33497adea'',
    iformfl ''VPMOVB2M_FIRST'' ''ad358aecea72ffbc1d8eb57c70adac6d1'',
    iformfl ''VPMOVB2M_LAST'' ''a28332c1e1499656f1c622d61afabc58c'',
    iformfl ''VPMOVD2M_FIRST'' ''af116e7205d5c07bd3fc93d29f327b230'',
    iformfl ''VPMOVD2M_LAST'' ''a8c46762908502c6edaec6ce68773d230'',
    iformfl ''VPMOVDB_FIRST'' ''a13c3692e2e384492ca5b399a903c7d95'',
    iformfl ''VPMOVDB_LAST'' ''a8332cbbea2fb325e08f1d51d864f2d88'',
    iformfl ''VPMOVDW_FIRST'' ''a253bf9da404c60c186406dab13c5053d'',
    iformfl ''VPMOVDW_LAST'' ''aa831235379eeca488a298d08f4b3dee6'',
    iformfl ''VPMOVM2B_FIRST'' ''a5f12f01f9cfec22ae5027acf8d22f166'',
    iformfl ''VPMOVM2B_LAST'' ''a5709e0108c51854e65bc62d2a9ad9a0b'',
    iformfl ''VPMOVM2D_FIRST'' ''a386f3394edb29d84361d881198110585'',
    iformfl ''VPMOVM2D_LAST'' ''a3ff2bb688000be3c2ca27cf9fa40fe0f'',
    iformfl ''VPMOVM2Q_FIRST'' ''af83b71cce21210b4546e9b289f5ea14b'',
    iformfl ''VPMOVM2Q_LAST'' ''a0a3f833fcf539eafd7ef9ed9f51ed8fc'',
    iformfl ''VPMOVM2W_FIRST'' ''a6d81cce904c5a1d5a9309a9ac4e8cbf5'',
    iformfl ''VPMOVM2W_LAST'' ''ab82728b6657eb54bba0d5da51bfafc10'',
    iformfl ''VPMOVMSKB_FIRST'' ''a1b7791de9c534fcd3d1bd781f5b24c7f'',
    iformfl ''VPMOVMSKB_LAST'' ''ab346beebe52bb2c3b66cfb147a6e6fbf'',
    iformfl ''VPMOVQ2M_FIRST'' ''a46dd63b47f415d77a29c69b9497de94f'',
    iformfl ''VPMOVQ2M_LAST'' ''ab4368a0983cf0d0fd0ac1b972247fb09'',
    iformfl ''VPMOVQB_FIRST'' ''a20d35fd6dfb824dc9b68b77c078bc7ce'',
    iformfl ''VPMOVQB_LAST'' ''a5965eeba8b7b5b84dbceccb1a96bad97'',
    iformfl ''VPMOVQD_FIRST'' ''a0dd33968ddedb35412a794794fc78e2e'',
    iformfl ''VPMOVQD_LAST'' ''af1fb33b551f44dccd110bf106ad584bf'',
    iformfl ''VPMOVQW_FIRST'' ''a26670bee624c2ecbc7368fc8b1575766'',
    iformfl ''VPMOVQW_LAST'' ''a4d8fba8dfb22841152b581d4c5fe22cc'',
    iformfl ''VPMOVSDB_FIRST'' ''a15d12bcf6fe1ccadccf196e640c2fe05'',
    iformfl ''VPMOVSDB_LAST'' ''ac8b1d76250ba85c16c3f88220b611bac'',
    iformfl ''VPMOVSDW_FIRST'' ''ae0821808f3494161f2ef1bfa9cec60cc'',
    iformfl ''VPMOVSDW_LAST'' ''a848240f32c329b85ee1a35bc846fd845'',
    iformfl ''VPMOVSQB_FIRST'' ''a5adc46ae735718b2b63e73b37936e33f'',
    iformfl ''VPMOVSQB_LAST'' ''af502192f111301c0dba84ad29949cafa'',
    iformfl ''VPMOVSQD_FIRST'' ''ad92608f22fa9b82b199bd060381d214b'',
    iformfl ''VPMOVSQD_LAST'' ''a4a81b3d4d7529664d5e1bb20bac88d7d'',
    iformfl ''VPMOVSQW_FIRST'' ''ab6a2ee39ee913f356e91ea54a878a079'',
    iformfl ''VPMOVSQW_LAST'' ''a58143e88f1fd50b463ebbebcd90e1340'',
    iformfl ''VPMOVSWB_FIRST'' ''af19527b2eed46c11d0298763a5131fb9'',
    iformfl ''VPMOVSWB_LAST'' ''ad10d8e255e5220da097967aa640ffff8'',
    iformfl ''VPMOVSXBD_FIRST'' ''a7f30111ced54c9e6b6fa449a2bfc6ed4'',
    iformfl ''VPMOVSXBD_LAST'' ''a3376189d380a1bc093de646d3db89f03'',
    iformfl ''VPMOVSXBQ_FIRST'' ''afb371f44c293dad71d62818de958e84b'',
    iformfl ''VPMOVSXBQ_LAST'' ''a5989f7118095ab442e758128ec0063bb'',
    iformfl ''VPMOVSXBW_FIRST'' ''a254800144ddb5bffad8b013ac74bd475'',
    iformfl ''VPMOVSXBW_LAST'' ''a1caf1dace857406a130095e5a08e2eab'',
    iformfl ''VPMOVSXDQ_FIRST'' ''ad7d116798f278d585172aaa0d028e09e'',
    iformfl ''VPMOVSXDQ_LAST'' ''ad91de78c28a041b42dcae2c08a2ae250'',
    iformfl ''VPMOVSXWD_FIRST'' ''a833fc2a73796fe7303cd21c14106b5ed'',
    iformfl ''VPMOVSXWD_LAST'' ''a7394fa6af53e199733a114e8c5ddddeb'',
    iformfl ''VPMOVSXWQ_FIRST'' ''a6b81d8a1651bfb67b6111a36286a03e0'',
    iformfl ''VPMOVSXWQ_LAST'' ''af8a8166c78946a5bae9202495a19712d'',
    iformfl ''VPMOVUSDB_FIRST'' ''a61a33cd3e163bc209f75c708c542bbd0'',
    iformfl ''VPMOVUSDB_LAST'' ''ab3604aa26641e12022378e95417d1156'',
    iformfl ''VPMOVUSDW_FIRST'' ''af5842dabd5f1379665ed6c3e8e611daf'',
    iformfl ''VPMOVUSDW_LAST'' ''a3c4d39084d98aa199998dc276a6c34ca'',
    iformfl ''VPMOVUSQB_FIRST'' ''a6a2644a59fe31f62f328a0f9e146055c'',
    iformfl ''VPMOVUSQB_LAST'' ''a3a6c8abbbddf5adc3cc17655b2eddd6f'',
    iformfl ''VPMOVUSQD_FIRST'' ''a06897460ea1500c979553c19adc293cc'',
    iformfl ''VPMOVUSQD_LAST'' ''a7f474e70bf5fec34d27cd74f96b9047e'',
    iformfl ''VPMOVUSQW_FIRST'' ''a67bd5fd46f66e406712ff8d2133c3f34'',
    iformfl ''VPMOVUSQW_LAST'' ''a18a78358eafa6957a3f66544d8cf3fb4'',
    iformfl ''VPMOVUSWB_FIRST'' ''a9168c10c1fd0ed35d6ebe4f2e77ca671'',
    iformfl ''VPMOVUSWB_LAST'' ''a7a3e346aa4bee169e8cd8512030b4694'',
    iformfl ''VPMOVW2M_FIRST'' ''abd8c232089577a91f81594c7163b6953'',
    iformfl ''VPMOVW2M_LAST'' ''a89c15beef4b2a80552b001aad23159f4'',
    iformfl ''VPMOVWB_FIRST'' ''a2623ea17d6f69b94efa502258a2b857c'',
    iformfl ''VPMOVWB_LAST'' ''a243689aab1c6c88aed37e558f03659ee'',
    iformfl ''VPMOVZXBD_FIRST'' ''a0c42b10bdac00a6752b2c33e7bf4fab1'',
    iformfl ''VPMOVZXBD_LAST'' ''a2f633a13a1e87355f5760872e7e7d781'',
    iformfl ''VPMOVZXBQ_FIRST'' ''acca8c60ffd7399c20b4c65116db2ce81'',
    iformfl ''VPMOVZXBQ_LAST'' ''a900515d3c6fd5a5e72cbbe4245b7b00a'',
    iformfl ''VPMOVZXBW_FIRST'' ''ac32a3dd68b8545802a76712856dd1a36'',
    iformfl ''VPMOVZXBW_LAST'' ''a6aceae9a57f4bcc0f31b7108586f6004'',
    iformfl ''VPMOVZXDQ_FIRST'' ''aa8140549985f950df842699d99ff08e9'',
    iformfl ''VPMOVZXDQ_LAST'' ''ad41ac60ade8cd6dcdca4489da93eda83'',
    iformfl ''VPMOVZXWD_FIRST'' ''aa42fc3963c30e38e7a00d1ae2b937e97'',
    iformfl ''VPMOVZXWD_LAST'' ''a6292188d38bfee593b2d384911ca9026'',
    iformfl ''VPMOVZXWQ_FIRST'' ''a2d46d72caa30872b978a2aa16c751ff0'',
    iformfl ''VPMOVZXWQ_LAST'' ''a3bb0760458ac163cc649379f4d67fbc8'',
    iformfl ''VPMULDQ_FIRST'' ''a5d92e7bac3d507e303dc5c8bd3e7b1d8'',
    iformfl ''VPMULDQ_LAST'' ''a528e49ccacfe49e2fb5b4a7b96e90ccf'',
    iformfl ''VPMULHRSW_FIRST'' ''a9534469a509f1ca3689e0b3f1d9dad3a'',
    iformfl ''VPMULHRSW_LAST'' ''a2fa4d132febf422571d922e9961fd3ef'',
    iformfl ''VPMULHUW_FIRST'' ''a721a648614285da63c9f12190d00c020'',
    iformfl ''VPMULHUW_LAST'' ''a23687a135aa91a6d58cecc3ae40a26a2'',
    iformfl ''VPMULHW_FIRST'' ''a2104bad8bf2df6cab9e08a1c2c825363'',
    iformfl ''VPMULHW_LAST'' ''ab6e9adfaafb5fc3463b71f9dc896ae5f'',
    iformfl ''VPMULLD_FIRST'' ''a463cd249ce52aaa0e3072bac8ce93567'',
    iformfl ''VPMULLD_LAST'' ''a666eada08b37bc2e4020247ba32a24df'',
    iformfl ''VPMULLQ_FIRST'' ''ad75efbc41e7a93f1a018484d9f5deccd'',
    iformfl ''VPMULLQ_LAST'' ''ad86a31dc619393a48a570beb57670778'',
    iformfl ''VPMULLW_FIRST'' ''aec59632272bddc4795b6eef1655feb70'',
    iformfl ''VPMULLW_LAST'' ''ac76e478f92a693740f81b591008e8a46'',
    iformfl ''VPMULTISHIFTQB_FIRST'' ''aa5a85598e2f5dc69cee88a92b4969143'',
    iformfl ''VPMULTISHIFTQB_LAST'' ''a97623e22aa073b15b0057995a311d68c'',
    iformfl ''VPMULUDQ_FIRST'' ''ad86c80be1f229a2c8726e32e95eb80b5'',
    iformfl ''VPMULUDQ_LAST'' ''a5faec83e892ae56c144a9b3d42f6d9f1'',
    iformfl ''VPOR_FIRST'' ''a3435d249ce61d83d226f8c1dd5361423'',
    iformfl ''VPOR_LAST'' ''ac6fdcf5a9a781b294b29899c547dbf69'',
    iformfl ''VPORD_FIRST'' ''ae5ee7e64dbe6c79255ac66b594029da3'',
    iformfl ''VPORD_LAST'' ''a1ee1b941a54c55e14c0d4354cd8ad8c9'',
    iformfl ''VPORQ_FIRST'' ''a11ae887d42a6218277c32d373e87745b'',
    iformfl ''VPORQ_LAST'' ''ae3ded4d847cfe282d95f77f4d4f76455'',
    iformfl ''VPPERM_FIRST'' ''a7e16c234ddda1c96722d9ce226fd97b9'',
    iformfl ''VPPERM_LAST'' ''a31ceab37d94416ea318f9b956dd5b0be'',
    iformfl ''VPROLD_FIRST'' ''ac436704d7be938b555e533688d98e309'',
    iformfl ''VPROLD_LAST'' ''a01b35659111dd78c2818981dc62d1f0a'',
    iformfl ''VPROLQ_FIRST'' ''ae2b7d5d44f6665e16dc82a26a414f4b6'',
    iformfl ''VPROLQ_LAST'' ''ab32981d7feab12d43ca0b2904f274a8d'',
    iformfl ''VPROLVD_FIRST'' ''a6e4090a8b809071d2e12c8ea7205200f'',
    iformfl ''VPROLVD_LAST'' ''ab493668d2e7957b59ea1fc6f1ee49f2e'',
    iformfl ''VPROLVQ_FIRST'' ''afe148bfbe36b507e0363af1382ddcb8e'',
    iformfl ''VPROLVQ_LAST'' ''ab09fb189f1af3d6ae70d9ead5244444b'',
    iformfl ''VPRORD_FIRST'' ''a1df443d57edd6a19d300feded4131dc8'',
    iformfl ''VPRORD_LAST'' ''a45845e5ac74d88fe4d8b3404bafbd16e'',
    iformfl ''VPRORQ_FIRST'' ''a3bd90ac2d5a451564fced1dc76d1ae95'',
    iformfl ''VPRORQ_LAST'' ''af958521975b121e9172753e27b52803f'',
    iformfl ''VPRORVD_FIRST'' ''a56d50c4094b2c71e21e0025cc45165a2'',
    iformfl ''VPRORVD_LAST'' ''a238507f0497f8f8443c432307a200414'',
    iformfl ''VPRORVQ_FIRST'' ''a94d595f7a7645181143b8346e4fabad1'',
    iformfl ''VPRORVQ_LAST'' ''a8f006be61d1b8d21b05355ce0ddf61b2'',
    iformfl ''VPROTB_FIRST'' ''a8291b5f5a65744d733e83f62a4c6ec34'',
    iformfl ''VPROTB_LAST'' ''a72a257a68ebde8d290b58648fade78f1'',
    iformfl ''VPROTD_FIRST'' ''ad1766377f7f1d3cd6f6cc9ddde9adb40'',
    iformfl ''VPROTD_LAST'' ''ad93f7f4e6c2fc613aa06fd2220068d2e'',
    iformfl ''VPROTQ_FIRST'' ''a05eb48dd8eeedd03a3c5a8a2dff068b7'',
    iformfl ''VPROTQ_LAST'' ''a1ee3fcc0ce4ec35eae2289494893f385'']"

lemma xed_iformfl_enum_8h_values_18_closed: "list_all (closed_node scripts) xed_iformfl_enum_8h_values_18"
  by (simp only: xed_iformfl_enum_8h_values_18_def closed_rules iformfl_closed)

definition xed_iformfl_enum_8h_values_19 :: "nav_node list" where
  "xed_iformfl_enum_8h_values_19 = [
    iformfl ''VPROTW_FIRST'' ''a82d283517c3514bd86a893ce6c6c9804'',
    iformfl ''VPROTW_LAST'' ''af645765e07c9b9dd0200594210def151'',
    iformfl ''VPSADBW_FIRST'' ''a82204efaa6aaea725e6eb0d7a0095f87'',
    iformfl ''VPSADBW_LAST'' ''aa787ba85ea111e413308b46f013d7ff4'',
    iformfl ''VPSCATTERDD_FIRST'' ''a03a2b6195b7ccb82f4e31e75a20b8bc0'',
    iformfl ''VPSCATTERDD_LAST'' ''afa80ce9d4dfa79d2c82be45c2585ea34'',
    iformfl ''VPSCATTERDQ_FIRST'' ''aab5f3df97d87f41173c3b85c735d1d8d'',
    iformfl ''VPSCATTERDQ_LAST'' ''a6ff1a3c2de9a9c496baf540c231122eb'',
    iformfl ''VPSCATTERQD_FIRST'' ''a7d46d93a61d6fb123d2194bd5d4ba4dd'',
    iformfl ''VPSCATTERQD_LAST'' ''a54f5ac46282b958f8ce0ba07be271c49'',
    iformfl ''VPSCATTERQQ_FIRST'' ''a0152e008bba91016127b3cb2df59f041'',
    iformfl ''VPSCATTERQQ_LAST'' ''a4b446ec4f1c1c8f8f893922a9e77ae53'',
    iformfl ''VPSHAB_FIRST'' ''ac0abc671be71e4737b7d42ec2d513522'',
    iformfl ''VPSHAB_LAST'' ''a8e593e3404e9a55d7741f4c02550b238'',
    iformfl ''VPSHAD_FIRST'' ''adba3d12fd7f16963c00c0511ff05c9c2'',
    iformfl ''VPSHAD_LAST'' ''ad2e78f42e7f9ca270b394703628e1acb'',
    iformfl ''VPSHAQ_FIRST'' ''a2735ad5102d1f8ee19d5f6194af36caf'',
    iformfl ''VPSHAQ_LAST'' ''a31eb59800837a72d374c4c0925acd808'',
    iformfl ''VPSHAW_FIRST'' ''ae8723e8552321d2190e5973efcdc173f'',
    iformfl ''VPSHAW_LAST'' ''a3f7e52731b93a02a51e6ec347f5e54f2'',
    iformfl ''VPSHLB_FIRST'' ''a3789b181c77f7f0d25373c0677e5c180'',
    iformfl ''VPSHLB_LAST'' ''ab485b048aa4c19e37bf7aec87feba0f5'',
    iformfl ''VPSHLD_FIRST'' ''a388022148957bab877718b5eacb0d1d6'',
    iformfl ''VPSHLD_LAST'' ''aead306eab222f553a8fd944d9cb4c382'',
    iformfl ''VPSHLQ_FIRST'' ''a23aee1da283077c66dfde0e04592bf1d'',
    iformfl ''VPSHLQ_LAST'' ''a7d23ca59a000620498b62782ebeccc04'',
    iformfl ''VPSHLW_FIRST'' ''a0679d100c4acd3166a9d818606a213bf'',
    iformfl ''VPSHLW_LAST'' ''a2b38ffb16c8887a2ca5f852c82963f67'',
    iformfl ''VPSHUFB_FIRST'' ''af1e05836f9345213381d8a3cb0085464'',
    iformfl ''VPSHUFB_LAST'' ''a9a278d527bd9c5419993a41cdc5e8d4b'',
    iformfl ''VPSHUFD_FIRST'' ''ac6aaeece9860678f6fe5165bf430a6ef'',
    iformfl ''VPSHUFD_LAST'' ''a1b62be27d35302ea8cd9a96fb4d0f589'',
    iformfl ''VPSHUFHW_FIRST'' ''ad1e02f38fc37d8d8ba7ec4ac735f42c8'',
    iformfl ''VPSHUFHW_LAST'' ''aa413140dde59c8a5a2578fb37ca39ad6'',
    iformfl ''VPSHUFLW_FIRST'' ''ac64e786764e686e5c84db591f8f57915'',
    iformfl ''VPSHUFLW_LAST'' ''af087f20c9807286b62376c6d7fcee424'',
    iformfl ''VPSIGNB_FIRST'' ''adf09b5b3918008ba5845907d6285ec20'',
    iformfl ''VPSIGNB_LAST'' ''a8207047a19e15ce1dcc74173d81d5d22'',
    iformfl ''VPSIGND_FIRST'' ''a04ca35a900e1ce40c3d643ad0f6640e6'',
    iformfl ''VPSIGND_LAST'' ''ad560d8faf4d50bdb721c2731fc0ef60a'',
    iformfl ''VPSIGNW_FIRST'' ''a1cb4fd285c76d168712a3ea0b9d87da6'',
    iformfl ''VPSIGNW_LAST'' ''af288798e9f862610d1e9171bba5be0a1'',
    iformfl ''VPSLLD_FIRST'' ''afe3c6262db912d2786713bb80cf906d8'',
    iformfl ''VPSLLD_LAST'' ''afb9c8d29325ba85820f7bab03f0ab87f'',
    iformfl ''VPSLLDQ_FIRST'' ''a2ab162caab817850701eaf49346a7034'',
    iformfl ''VPSLLDQ_LAST'' ''afa2e22c4674881820429ced651bba33e'',
    iformfl ''VPSLLQ_FIRST'' ''a16cdc2dc196eb4a72d91335403f3fc54'',
    iformfl ''VPSLLQ_LAST'' ''ab2735f01e17e9db67a5304b317fed4cd'',
    iformfl ''VPSLLVD_FIRST'' ''a0e00121b3d50690f3b5a39a23ac88261'',
    iformfl ''VPSLLVD_LAST'' ''a8a799ef9f6a91898851daedd952b0123'',
    iformfl ''VPSLLVQ_FIRST'' ''abcfb1362523543b76c22d70f0a58f265'',
    iformfl ''VPSLLVQ_LAST'' ''a839c6abbb385469dc751ed5de13abfef'',
    iformfl ''VPSLLVW_FIRST'' ''ad4637860b67f35d10845da35150a71f2'',
    iformfl ''VPSLLVW_LAST'' ''a1bc15c7f9f8283aab6b61626cf23fb3c'',
    iformfl ''VPSLLW_FIRST'' ''a5fc1f2fe666e88a58a143f679edb205c'',
    iformfl ''VPSLLW_LAST'' ''aa1746cbe076244ea63f41a053daee97b'',
    iformfl ''VPSRAD_FIRST'' ''ab5d4b90c91a0b3572f99b8eb00a58a9d'',
    iformfl ''VPSRAD_LAST'' ''aab6939625fca61f747f5e9d369a72eee'',
    iformfl ''VPSRAQ_FIRST'' ''a2fd897f3a62e69d103d0e4f83cf60ad0'',
    iformfl ''VPSRAQ_LAST'' ''a5d032c9b07ef01c3ed96afcbaac3e963'',
    iformfl ''VPSRAVD_FIRST'' ''a2d244928a11634c1af838bdde571c26d'',
    iformfl ''VPSRAVD_LAST'' ''aa925e4b30df72ded83c2ee398eb9ea63'',
    iformfl ''VPSRAVQ_FIRST'' ''a0c117dc6dad28fce681e085dc0ff61ba'',
    iformfl ''VPSRAVQ_LAST'' ''aa6e41aa9214bcc26bee6d35f21a91679'',
    iformfl ''VPSRAVW_FIRST'' ''a7a5feacb91a3babec04477845be7bfd5'',
    iformfl ''VPSRAVW_LAST'' ''a88fe76d69669623cbe2129eba9ac9264'',
    iformfl ''VPSRAW_FIRST'' ''aa8ed1a06b954f285cd55f128a949a5db'',
    iformfl ''VPSRAW_LAST'' ''a4688c58edcb3d03282994af5edeb83fb'',
    iformfl ''VPSRLD_FIRST'' ''a589fe485af97d24afc5207c5c5d52673'',
    iformfl ''VPSRLD_LAST'' ''af51099f1aee52c9b67fcd196ffaf7847'',
    iformfl ''VPSRLDQ_FIRST'' ''aea4833164e9597a0186ebcebc6e15d2f'',
    iformfl ''VPSRLDQ_LAST'' ''aa7a5723d930647b94b00fabdf5703074'',
    iformfl ''VPSRLQ_FIRST'' ''a5018c38df241c01159dcdf98643feaab'',
    iformfl ''VPSRLQ_LAST'' ''a14dea84b2ddb1ae8006b34878e761a15'',
    iformfl ''VPSRLVD_FIRST'' ''a4f55508b3f7fa816c8efea3faf4193fe'',
    iformfl ''VPSRLVD_LAST'' ''a56437e7e0b4f5ed68976bf560f4295ef'',
    iformfl ''VPSRLVQ_FIRST'' ''a2167f12f5d96485ccdb1132daaf3a25b'',
    iformfl ''VPSRLVQ_LAST'' ''a10e48b7c44c6e7b7a283911115e285fa'',
    iformfl ''VPSRLVW_FIRST'' ''a92f378f42b06941c45ce9c11078b182c'',
    iformfl ''VPSRLVW_LAST'' ''ad1d928882c6b7abf876ebb609ca22089'',
    iformfl ''VPSRLW_FIRST'' ''a0f99320fc1c21f2e569a4f8a3eec095f'',
    iformfl ''VPSRLW_LAST'' ''adbd02ea3039d9655d93005cd52db918a'',
    iformfl ''VPSUBB_FIRST'' ''afdc682d52d54b5293c165c22c9d6a133'',
    iformfl ''VPSUBB_LAST'' ''aa55db3a42fcf41c09bc8df13d999e8bb'',
    iformfl ''VPSUBD_FIRST'' ''aa643659f746320aaa8d1bd4ccad25944'',
    iformfl ''VPSUBD_LAST'' ''a69612e30a5b62b3ba2c8ea8fd6de3139'',
    iformfl ''VPSUBQ_FIRST'' ''a2ba647d9f7b992823535da5ea2df4e57'',
    iformfl ''VPSUBQ_LAST'' ''a076b207336599207c99d65003d4f481d'',
    iformfl ''VPSUBSB_FIRST'' ''a6026819be2c700fbafb354d9552dc4cc'',
    iformfl ''VPSUBSB_LAST'' ''afdce66b1506fdbbc6b8e10bc529ec548'',
    iformfl ''VPSUBSW_FIRST'' ''a0510c95d2302b1f4f08f02e6b0f1d6fa'',
    iformfl ''VPSUBSW_LAST'' ''acbdd572f33ae929f8fc7447630829e1c'',
    iformfl ''VPSUBUSB_FIRST'' ''a95aa1626848bc9e58b9de54982d80c22'',
    iformfl ''VPSUBUSB_LAST'' ''a565d09a27c552b32bcd0cf028e838ab2'',
    iformfl ''VPSUBUSW_FIRST'' ''a9508ee36b92114f5c7d6878a9e71ec41'',
    iformfl ''VPSUBUSW_LAST'' ''a47092c34af138aae8cc1930a1ade2e1e'',
    iformfl ''VPSUBW_FIRST'' ''a175f9844ff5f273728b3dc6e355ee8ce'',
    iformfl ''VPSUBW_LAST'' ''a31ae6ca10fa9471ba27e713c3f60d520'',
    iformfl ''VPTERNLOGD_FIRST'' ''a5837c41a29ed7eb17ddf1587326be049'',
    iformfl ''VPTERNLOGD_LAST'' ''a30096a849bd6451b91f1491011094060'',
    iformfl ''VPTERNLOGQ_FIRST'' ''a9290dcd4497ce5156896192803229a87'',
    iformfl ''VPTERNLOGQ_LAST'' ''a9847ee2ae09de994293922544a4ee826'',
    iformfl ''VPTEST_FIRST'' ''a04484ee5418702021c60bef4e0f66924'',
    iformfl ''VPTEST_LAST'' ''ae101409ac4923bc1024ace46cda78ceb'',
    iformfl ''VPTESTMB_FIRST'' ''a7477d755c9d69e643ce5155f97779a1f'',
    iformfl ''VPTESTMB_LAST'' ''a2233e3e17b61ead0d02a56ec360a83d8'',
    iformfl ''VPTESTMD_FIRST'' ''acb572e3862dbff13140f9d840e68b04b'',
    iformfl ''VPTESTMD_LAST'' ''a4da94175f162061d4275d694d810379e'',
    iformfl ''VPTESTMQ_FIRST'' ''aaf46a8694c3c62c929b56655cdab5cae'',
    iformfl ''VPTESTMQ_LAST'' ''a1c509349aba69b92d3e733818c17fd0d'',
    iformfl ''VPTESTMW_FIRST'' ''a32ed11a6c5d27365409c0e64a3935982'',
    iformfl ''VPTESTMW_LAST'' ''a1a2c5b2ece8587f6675823324f45c305'',
    iformfl ''VPTESTNMB_FIRST'' ''a2edf1be503270448f3a21c1309d8d211'',
    iformfl ''VPTESTNMB_LAST'' ''ae80a93481a2c88a9bcc9c84efdc318be'',
    iformfl ''VPTESTNMD_FIRST'' ''aca6b09a7d3cacbf3acfa815822fd4a05'',
    iformfl ''VPTESTNMD_LAST'' ''ab8bd06c27fd390b7ef6f8d8240e301aa'',
    iformfl ''VPTESTNMQ_FIRST'' ''a317fd11d5a5c7eb6a7d8b6a78964b8bf'',
    iformfl ''VPTESTNMQ_LAST'' ''a10c2fde9eab9071810764e690cf78dfd'',
    iformfl ''VPTESTNMW_FIRST'' ''af98281009084558a197acc636b203fc3'',
    iformfl ''VPTESTNMW_LAST'' ''adb2da7b04b11f93c27ff9434a1b8aded'',
    iformfl ''VPUNPCKHBW_FIRST'' ''a103ad3ec7b0562e7daf6604adf2b2f52'',
    iformfl ''VPUNPCKHBW_LAST'' ''aa0628ee6cb29a76ebb15ddab120df78a'',
    iformfl ''VPUNPCKHDQ_FIRST'' ''a0c4318c70e123066ba6ab62665806a82'',
    iformfl ''VPUNPCKHDQ_LAST'' ''ad182cf72f8ebcea7885a23627f2c7e0a'',
    iformfl ''VPUNPCKHQDQ_FIRST'' ''a44a0ecaf9a7dbc1bad1e7d91ef6d27e4'',
    iformfl ''VPUNPCKHQDQ_LAST'' ''a6c0d69a95a5f1c5910927c1d1951cc8e'',
    iformfl ''VPUNPCKHWD_FIRST'' ''a1e2554853281c447b11205422f86a7fa'',
    iformfl ''VPUNPCKHWD_LAST'' ''a06c12c831856527289879c3863171516'',
    iformfl ''VPUNPCKLBW_FIRST'' ''a47080fa3c878876d3eecbf22c11bb667'',
    iformfl ''VPUNPCKLBW_LAST'' ''a5831852df21e8267d48f8f6429a019d3'',
    iformfl ''VPUNPCKLDQ_FIRST'' ''a1ae7e8fd09841586414c96b87f1d99d6'',
    iformfl ''VPUNPCKLDQ_LAST'' ''affe1191e1475645a293452785ccd87bd'',
    iformfl ''VPUNPCKLQDQ_FIRST'' ''a827624ba0ded7229e3fa8aa08e329783'',
    iformfl ''VPUNPCKLQDQ_LAST'' ''a188adaba1fc281588ec1636a53083acf'',
    iformfl ''VPUNPCKLWD_FIRST'' ''a6cdedfd27d3bf3a0eeca5fe8bddf7993'',
    iformfl ''VPUNPCKLWD_LAST'' ''a62e5ebfc168494e3cc36af349e2688e6'',
    iformfl ''VPXOR_FIRST'' ''ab86bf03e72c7d37264c5f0f909e06499'',
    iformfl ''VPXOR_LAST'' ''a1e13b82ef2e9ab8687ef66a59b09cb45'',
    iformfl ''VPXORD_FIRST'' ''a021b6c2e75019f42deedc0d24af44d66'',
    iformfl ''VPXORD_LAST'' ''a8e82b9c7d92877bd4d87203e32e48889'']"

lemma xed_iformfl_enum_8h_values_19_closed: "list_all (closed_node scripts) xed_iformfl_enum_8h_values_19"
  by (simp only: xed_iformfl_enum_8h_values_19_def closed_rules iformfl_closed)

definition xed_iformfl_enum_8h_values_20 :: "nav_node list" where
  "xed_iformfl_enum_8h_values_20 = [
    iformfl ''VPXORQ_FIRST'' ''a28657dd0c0afa810de10dd03b4329a39'',
    iformfl ''VPXORQ_LAST'' ''a4f414a538b0b1d5bd279eb879e85fb69'',
    iformfl ''VRANGEPD_FIRST'' ''a5892996713a6b8dba2a4010bb008db57'',
    iformfl ''VRANGEPD_LAST'' ''a9ceb7121d8800dc6c5fff1d72b944d49'',
    iformfl ''VRANGEPS_FIRST'' ''a43f7fd8a0f8b26938897fb68afe87b60'',
    iformfl ''VRANGEPS_LAST'' ''a9ef87961ae686917d27e51e8a14b8fc4'',
    iformfl ''VRANGESD_FIRST'' ''af0dc7c0a766a3273e9c6320ee8893220'',
    iformfl ''VRANGESD_LAST'' ''a8700e4954903661ac2410612b2085f2b'',
    iformfl ''VRANGESS_FIRST'' ''aac5eca0f6136a305403d45709b84e970'',
    iformfl ''VRANGESS_LAST'' ''a073eeb485937e72b1802ab986540e401'',
    iformfl ''VRCP14PD_FIRST'' ''aa401442490d4033acdb886c4800c4a82'',
    iformfl ''VRCP14PD_LAST'' ''a9fde6df6445e5b410807dbb664d6fd72'',
    iformfl ''VRCP14PS_FIRST'' ''aa5dff312f0c9aa99d92a980488b827bb'',
    iformfl ''VRCP14PS_LAST'' ''a288bafe7952499cab8442c2dc2a80e47'',
    iformfl ''VRCP14SD_FIRST'' ''a9dd50555b86c406e8c23ca28908ebace'',
    iformfl ''VRCP14SD_LAST'' ''adbc342b661d739fce5869633df465070'',
    iformfl ''VRCP14SS_FIRST'' ''a18bfb557b8578ac8d0fedffb9c83bc65'',
    iformfl ''VRCP14SS_LAST'' ''ad27cc67270dec0c535a942c5fc896aa6'',
    iformfl ''VRCP28PD_FIRST'' ''a282c04bf10b9f2e7135cff3d880fc070'',
    iformfl ''VRCP28PD_LAST'' ''a0af6e966b0b7fa89f76e6645dfd1e2cf'',
    iformfl ''VRCP28PS_FIRST'' ''aabb683f04791dffe379b67e736efc0cc'',
    iformfl ''VRCP28PS_LAST'' ''af0a3c4b7fdcbeca1651676dd8c6e90ed'',
    iformfl ''VRCP28SD_FIRST'' ''abaf978ca67d782a3f0d6a4d7607a0098'',
    iformfl ''VRCP28SD_LAST'' ''acb63e54aa313fb44683e777fa6aeba71'',
    iformfl ''VRCP28SS_FIRST'' ''a18f26fe1c6581d3ede8dbb5ad143076f'',
    iformfl ''VRCP28SS_LAST'' ''a750694d139c67ecc87f84d1ae9f22a45'',
    iformfl ''VRCPPS_FIRST'' ''aad56ddde74b88a52548634e30338ad17'',
    iformfl ''VRCPPS_LAST'' ''af450329d07d50cc7dbd5214f35f6bb3c'',
    iformfl ''VRCPSS_FIRST'' ''a9da86f2d39f668c5d21605b03091ef5b'',
    iformfl ''VRCPSS_LAST'' ''ae3b6a643115b852675cf1c086a9e93bd'',
    iformfl ''VREDUCEPD_FIRST'' ''ae7756ce8f532225223428af6edbdcb02'',
    iformfl ''VREDUCEPD_LAST'' ''aac7edae422e739893cbadfc0605f1689'',
    iformfl ''VREDUCEPS_FIRST'' ''ad3815c56dbcf36b1ceba30b8176f501d'',
    iformfl ''VREDUCEPS_LAST'' ''a799d1d4d215bf24d70bf602ac8708839'',
    iformfl ''VREDUCESD_FIRST'' ''a66c29d58a89d800cb2ebdda5bd9392ba'',
    iformfl ''VREDUCESD_LAST'' ''acce8f5655dfc30b08cdbc9c91c17eca4'',
    iformfl ''VREDUCESS_FIRST'' ''a0c8988ac5d67793dac6b345b2efe32f0'',
    iformfl ''VREDUCESS_LAST'' ''a84fbe33b4aef021a5ad24aaf85a9bc69'',
    iformfl ''VRNDSCALEPD_FIRST'' ''a3e5f105b1b7b7b7de23f16415b173e06'',
    iformfl ''VRNDSCALEPD_LAST'' ''a19536cfbdaac2837c36bd2d5bbf1bd33'',
    iformfl ''VRNDSCALEPS_FIRST'' ''a219bde7fe57f3f7c69f85f5c25ab5d7a'',
    iformfl ''VRNDSCALEPS_LAST'' ''a3a6b98ed2b0f42ae2b03c00fe1b1e265'',
    iformfl ''VRNDSCALESD_FIRST'' ''a7d7f8b16f9a3943bfe23840d2ddf985c'',
    iformfl ''VRNDSCALESD_LAST'' ''a2c94c0305dd95a4fd100b1713c668dc3'',
    iformfl ''VRNDSCALESS_FIRST'' ''af881088483829a41dbe49ef7a07dea58'',
    iformfl ''VRNDSCALESS_LAST'' ''abe3d17f16cb5147d1b253329c7d0dd6f'',
    iformfl ''VROUNDPD_FIRST'' ''a6b1d671ce10a0a5f7205dab4658af40b'',
    iformfl ''VROUNDPD_LAST'' ''afdc8f7e8c3f4b2cf7cc3779a64b12c85'',
    iformfl ''VROUNDPS_FIRST'' ''a86ee9a3b90af9ceadc1b7dee775eff41'',
    iformfl ''VROUNDPS_LAST'' ''aa18b285a80c49ae10be0cfd20c57e019'',
    iformfl ''VROUNDSD_FIRST'' ''ac46849d3e35f41cac1371fb3dfc75de1'',
    iformfl ''VROUNDSD_LAST'' ''af4eeb2bb3d5bc2d7ead67ce76efce3e9'',
    iformfl ''VROUNDSS_FIRST'' ''ae8ecac5402c27c0bd0d9cdc853ccb4ae'',
    iformfl ''VROUNDSS_LAST'' ''a8a33c8abd3f08bee9bcecd61b7fd92fa'',
    iformfl ''VRSQRT14PD_FIRST'' ''a34b59b38b23652d9a91537f7aec14318'',
    iformfl ''VRSQRT14PD_LAST'' ''a27674a75b9ad8c7123a0c3a2cbc0d642'',
    iformfl ''VRSQRT14PS_FIRST'' ''a10143a90cc244c37ece2ae518358ffce'',
    iformfl ''VRSQRT14PS_LAST'' ''a974b27dcb327d48e4ecbf84982d7196b'',
    iformfl ''VRSQRT14SD_FIRST'' ''abe1ae5cc404f260a351fdfa6717790ea'',
    iformfl ''VRSQRT14SD_LAST'' ''a24991be99db26a86391c55b3d1eacb95'',
    iformfl ''VRSQRT14SS_FIRST'' ''a9857de62c1efd068fb6f68cfc3a14635'',
    iformfl ''VRSQRT14SS_LAST'' ''ae4a34d416c1293edb3abfc75d7d42531'',
    iformfl ''VRSQRT28PD_FIRST'' ''ac13aa66e63436b1a7078392c121c5b04'',
    iformfl ''VRSQRT28PD_LAST'' ''a600ee05aadfc2d5bf25b799a73a4d04b'',
    iformfl ''VRSQRT28PS_FIRST'' ''a2b87b27506fec07703da7584d9fe37bd'',
    iformfl ''VRSQRT28PS_LAST'' ''ad2a84120fee29bc8fe364ee93135708b'',
    iformfl ''VRSQRT28SD_FIRST'' ''ab08faf625708372ca973ef628f4ed568'',
    iformfl ''VRSQRT28SD_LAST'' ''aaf25e20a3ef0d39c90217632b5c97fb7'',
    iformfl ''VRSQRT28SS_FIRST'' ''a104fe81aece7518719b52177cec37a9d'',
    iformfl ''VRSQRT28SS_LAST'' ''a214606da8fa67908689038b3f02ab344'',
    iformfl ''VRSQRTPS_FIRST'' ''a71944d34336f7a2685e2bcb31ce9c6df'',
    iformfl ''VRSQRTPS_LAST'' ''a74f7d83e570cddefee1cec7bb69cb6e3'',
    iformfl ''VRSQRTSS_FIRST'' ''a041c570a6a8b2fa3f1f18e622a6cdabf'',
    iformfl ''VRSQRTSS_LAST'' ''a493348ac98f308b1d8d199cbd1ce027a'',
    iformfl ''VSCALEFPD_FIRST'' ''a1bf9c0c65d88b9890a0b99a199bc9b7f'',
    iformfl ''VSCALEFPD_LAST'' ''a7f83717f55f56483ad0b214298ae2df0'',
    iformfl ''VSCALEFPS_FIRST'' ''a84849012f35a29b65aa9dc9e08600ee9'',
    iformfl ''VSCALEFPS_LAST'' ''a0fe7990f7f02501208eda83cc5c90fe3'',
    iformfl ''VSCALEFSD_FIRST'' ''ab910cd16ed9219a4d777207ac4eac07e'',
    iformfl ''VSCALEFSD_LAST'' ''a0fc17c08214714016764deaf1b79eab4'',
    iformfl ''VSCALEFSS_FIRST'' ''a474726e57c2f09672a143b14317b04fb'',
    iformfl ''VSCALEFSS_LAST'' ''a8a52e32609e9d42fea5aa661fe23c4b9'',
    iformfl ''VSCATTERDPD_FIRST'' ''aaa3ac9dc5a1b123ae71142df2a776a58'',
    iformfl ''VSCATTERDPD_LAST'' ''abf0ea74ba3adf12cccc3fe84b85d3e77'',
    iformfl ''VSCATTERDPS_FIRST'' ''a8429cc87beb1e500d095c879dff7e02f'',
    iformfl ''VSCATTERDPS_LAST'' ''ad3b232f176ab79f1bb65b7d5ea31f472'',
    iformfl ''VSCATTERPF0DPD_FIRST'' ''aa5b22f4e0b844203b41b3a0806b6d5f4'',
    iformfl ''VSCATTERPF0DPD_LAST'' ''a84d1a5884834cc0e0be15e5d95b7fcb1'',
    iformfl ''VSCATTERPF0DPS_FIRST'' ''a4b281f4fa1955533b3ab0ea6c3218a69'',
    iformfl ''VSCATTERPF0DPS_LAST'' ''a62fa88949e8307014877ecaa0d055490'',
    iformfl ''VSCATTERPF0QPD_FIRST'' ''a2dfcc2d6c95635d62c3ff5a5a915e8b9'',
    iformfl ''VSCATTERPF0QPD_LAST'' ''a09c898d99ca9601ac08ab4aff9fab360'',
    iformfl ''VSCATTERPF0QPS_FIRST'' ''a71b999e8915e0f74aa39ef478b95cf69'',
    iformfl ''VSCATTERPF0QPS_LAST'' ''a49372cb8f03a7786be7d4408e7fdf2c5'',
    iformfl ''VSCATTERPF1DPD_FIRST'' ''ad80b099b40e963466157a7504738511d'',
    iformfl ''VSCATTERPF1DPD_LAST'' ''ab400c657abcbeb24a4868287e6be3fdf'',
    iformfl ''VSCATTERPF1DPS_FIRST'' ''a2d8f1bb108ed2d4a8a9d18f9382512af'',
    iformfl ''VSCATTERPF1DPS_LAST'' ''a65dc63762daade2624a4e6d882ba56ca'',
    iformfl ''VSCATTERPF1QPD_FIRST'' ''a0e043c9d47fc30da349d6a82a21c18ed'',
    iformfl ''VSCATTERPF1QPD_LAST'' ''a1d0df18e9622205e1a698961c4fe91fd'',
    iformfl ''VSCATTERPF1QPS_FIRST'' ''ac1d8046bcbd0b9c8d92c7eedcef96a58'',
    iformfl ''VSCATTERPF1QPS_LAST'' ''a4fd018c3cc8feb425d4d5e4f2f2ba155'',
    iformfl ''VSCATTERQPD_FIRST'' ''aadf59a5e4852fe6a93c25580bc677e9d'',
    iformfl ''VSCATTERQPD_LAST'' ''a9982611dccaae12b0a3c5243d18acb6b'',
    iformfl ''VSCATTERQPS_FIRST'' ''a6e65d2fcdca4db00c8cdd053c0052893'',
    iformfl ''VSCATTERQPS_LAST'' ''a12607ab253922f833de2889c9132de47'',
    iformfl ''VSHUFF32X4_FIRST'' ''a609823091421a0889302ad2f5fcb4dab'',
    iformfl ''VSHUFF32X4_LAST'' ''a631e3671deb789c1572a4cb5c00a6713'',
    iformfl ''VSHUFF64X2_FIRST'' ''a90ca6ac485d9567c06ffb5333cf3ac11'',
    iformfl ''VSHUFF64X2_LAST'' ''a24e2c6ac26c8d773384a738010f7c891'',
    iformfl ''VSHUFI32X4_FIRST'' ''a52663527e4c6f0b73e650c9d96b7baa8'',
    iformfl ''VSHUFI32X4_LAST'' ''a332f0d626f33537d980d353bc936bc84'',
    iformfl ''VSHUFI64X2_FIRST'' ''a40870d3818c68b119f7dd0be235c40a7'',
    iformfl ''VSHUFI64X2_LAST'' ''a1bc5fb3562646a9134787d8b84f9ac8a'',
    iformfl ''VSHUFPD_FIRST'' ''a92b0145334ac339cbdceba9a4d32a673'',
    iformfl ''VSHUFPD_LAST'' ''a37855d1c64aec98493d2854cfea9f478'',
    iformfl ''VSHUFPS_FIRST'' ''a3e8c6ae80788005a3adde8cdbf64b3ae'',
    iformfl ''VSHUFPS_LAST'' ''a4cfa92d2efc73b656b75630586497baf'',
    iformfl ''VSQRTPD_FIRST'' ''ab91b64413ebae4ac4643e7541bc1f3eb'',
    iformfl ''VSQRTPD_LAST'' ''af09727eee92d3313cea1d425857e187e'',
    iformfl ''VSQRTPS_FIRST'' ''a1d6ce01563da85e3f5bd259ceca02b0c'',
    iformfl ''VSQRTPS_LAST'' ''a44bc6637477cdb7bc3bcf6c6fe8787bf'',
    iformfl ''VSQRTSD_FIRST'' ''a32f3cfd880e81a1ca968b1c2b4d90c71'',
    iformfl ''VSQRTSD_LAST'' ''af7dccdfb83b2b2d3aeedaabb90bf02a1'',
    iformfl ''VSQRTSS_FIRST'' ''aab0ec8695243a8e9ba943b49bf199815'',
    iformfl ''VSQRTSS_LAST'' ''af22f59d7612a0f55a537a3d1232d3650'',
    iformfl ''VSTMXCSR_FIRST'' ''adeb2bc2313a0618c3f77d3ffa1acc9f9'',
    iformfl ''VSTMXCSR_LAST'' ''a675ef5e0dcf78c8766a220896b74c54c'',
    iformfl ''VSUBPD_FIRST'' ''a3fe671c797c8f2e66c4de9468a81e3cd'',
    iformfl ''VSUBPD_LAST'' ''ad877a558ecb892c539865b16f3c1fb4c'',
    iformfl ''VSUBPS_FIRST'' ''a435d97d7bbd6b0bbc2d0b75a26d90ec5'',
    iformfl ''VSUBPS_LAST'' ''a73ea0fb61951bea72378b1ed9d1a1656'',
    iformfl ''VSUBSD_FIRST'' ''a9991f41ce0c8038fb950cc2acb050a87'',
    iformfl ''VSUBSD_LAST'' ''a4fe9ec75fbe2af7ff7135ad8bb6a5150'',
    iformfl ''VSUBSS_FIRST'' ''a7b7c54b2cb80582383cfc32c8e54e6e4'',
    iformfl ''VSUBSS_LAST'' ''a0ac7f2d1a21ad93b409d806ca0ad14c7'',
    iformfl ''VTESTPD_FIRST'' ''a92900377db98d9ae79742b23d1205fcc'',
    iformfl ''VTESTPD_LAST'' ''a7b4358574a4a780292d68fde0bac3b04'',
    iformfl ''VTESTPS_FIRST'' ''a699ab237deb8ed8913b71ed0c50a13ed'',
    iformfl ''VTESTPS_LAST'' ''a0e4251a523076413aa4343f0f46cbeda'']"

lemma xed_iformfl_enum_8h_values_20_closed: "list_all (closed_node scripts) xed_iformfl_enum_8h_values_20"
  by (simp only: xed_iformfl_enum_8h_values_20_def closed_rules iformfl_closed)

definition xed_iformfl_enum_8h_values_21 :: "nav_node list" where
  "xed_iformfl_enum_8h_values_21 = [
    iformfl ''VUCOMISD_FIRST'' ''ac3478b92b81f9fc414d41a5c0011b9e3'',
    iformfl ''VUCOMISD_LAST'' ''a02fdb61f3f91238765a6ba3203257df6'',
    iformfl ''VUCOMISS_FIRST'' ''acc7b3fe582c1e82f9eeed19b6909a6fa'',
    iformfl ''VUCOMISS_LAST'' ''a37b5f3d06973f27b7c85a4a0d66fc02b'',
    iformfl ''VUNPCKHPD_FIRST'' ''a0e32646ef9fe9ea386aa9840fe5e1a1a'',
    iformfl ''VUNPCKHPD_LAST'' ''aafa5950978044d0f97129bf349941495'',
    iformfl ''VUNPCKHPS_FIRST'' ''a1fb33ef8f7f87b8cc4bdc41da78ab1a9'',
    iformfl ''VUNPCKHPS_LAST'' ''a905e642077d79f0b8620b528ac8f2833'',
    iformfl ''VUNPCKLPD_FIRST'' ''ad846ac19e67341dd41501a8d662d45e2'',
    iformfl ''VUNPCKLPD_LAST'' ''afd1754cb86cb1497ffb59e581e2d6557'',
    iformfl ''VUNPCKLPS_FIRST'' ''a398fe4a8c8089399f2ba54bd1e47f346'',
    iformfl ''VUNPCKLPS_LAST'' ''a547a8b6dfa248c8154af5eb1d8a7b21a'',
    iformfl ''VXORPD_FIRST'' ''abbcf9759cd332fb2cfc22a64f4ae8c9e'',
    iformfl ''VXORPD_LAST'' ''a81a05b2d10ec3160e0d92fad9bc128c3'',
    iformfl ''VXORPS_FIRST'' ''aaa72c42382f43725b9a51cb059db63d2'',
    iformfl ''VXORPS_LAST'' ''abeb43ac893df842c73b4a397663b818e'',
    iformfl ''VZEROALL_FIRST'' ''a72cde5ed618d500450b256f0d1b0a666'',
    iformfl ''VZEROALL_LAST'' ''a0de84224936d0d13a2a91b20847fa316'',
    iformfl ''VZEROUPPER_FIRST'' ''a2445468e1e449521a8f197412b2090d6'',
    iformfl ''VZEROUPPER_LAST'' ''a7ea7920264cb02fc819b37bc11c07e8b'',
    iformfl ''WBINVD_FIRST'' ''adb6b1e0b8a575a2e1cbeaa1303fe639c'',
    iformfl ''WBINVD_LAST'' ''afb67a5972177613691f2459d12b7e31f'',
    iformfl ''WRFSBASE_FIRST'' ''af7151c093b9892ea8ea12f8fffde270f'',
    iformfl ''WRFSBASE_LAST'' ''a4088e9a3b55a272b62f7184d4ab220a5'',
    iformfl ''WRGSBASE_FIRST'' ''acf80b85bd1af833222b0a57c6766cb97'',
    iformfl ''WRGSBASE_LAST'' ''a7cefb0c8f92c85b77dec64c4b31c8e96'',
    iformfl ''WRMSR_FIRST'' ''a27be6bd365cafe2f874147f0a66ef6ba'',
    iformfl ''WRMSR_LAST'' ''a9d6d70cdf50b967201c1b4146de9495e'',
    iformfl ''XABORT_FIRST'' ''a5d1f8d2a7510146a921962b84fecefe6'',
    iformfl ''XABORT_LAST'' ''a4799f26b42108cc3b47c8b7a29407bcd'',
    iformfl ''XADD_FIRST'' ''a23956b7329b30bd6975f85a32bb03ecf'',
    iformfl ''XADD_LAST'' ''aa44ef87e3cd9ffb5a5ca204060730f5b'',
    iformfl ''XBEGIN_FIRST'' ''aebd102eb2eb9985be9612ccc6e5ed4ec'',
    iformfl ''XBEGIN_LAST'' ''a831568ffc58a9132a92b96f172826ece'',
    iformfl ''XCHG_FIRST'' ''a21adaebb670f2e1ad53f55932ed6050a'',
    iformfl ''XCHG_LAST'' ''a681db19f67c0958f09dc9b607818d24d'',
    iformfl ''XEND_FIRST'' ''ae3a34034618fd597b9d62cb98b98f98d'',
    iformfl ''XEND_LAST'' ''a59eb07bdbe9a44392eb4d3dc88c6f004'',
    iformfl ''XGETBV_FIRST'' ''a73013e1079dc8f378d1567717d6fcdf2'',
    iformfl ''XGETBV_LAST'' ''af16db20869e5082b4c2ad5c530ba0427'',
    iformfl ''XLAT_FIRST'' ''a45545fbab0977fa5b61b65677f1331f7'',
    iformfl ''XLAT_LAST'' ''a5287f5621561d4ce4e995522c33cd821'',
    iformfl ''XOR_FIRST'' ''a8b1420f196004797f798cb81f63611bf'',
    iformfl ''XOR_LAST'' ''a8e5c3cf71b180c9ec72b6d5a4a161eb2'',
    iformfl ''XORPD_FIRST'' ''a20ce1ac05daf68d2cfb8d515767669aa'',
    iformfl ''XORPD_LAST'' ''a9e1c58e1c3130df5c24274df937248b8'',
    iformfl ''XORPS_FIRST'' ''aa9afef635012677302855a68ae0c0a8b'',
    iformfl ''XORPS_LAST'' ''a4af1938cfd2d8bf9c2bf4aac2fe68b88'',
    iformfl ''XRSTOR_FIRST'' ''a321296b45ebb7a7faf0edcf0136cb186'',
    iformfl ''XRSTOR_LAST'' ''a570d7a76b6058ef798946639ef7fb45b'',
    iformfl ''XRSTOR64_FIRST'' ''a48bb48aca6359bda41c3f32a8ffae5e1'',
    iformfl ''XRSTOR64_LAST'' ''ac91fb3c925ba6371e452e2a068f4ea67'',
    iformfl ''XRSTORS_FIRST'' ''a9783fe906bbf41bc448ca6cdf5fe5c30'',
    iformfl ''XRSTORS_LAST'' ''af7ad44e43b4f95a2feb7ddf670207ab0'',
    iformfl ''XRSTORS64_FIRST'' ''afa94bd6a541e0f7791d7c9ad407f8159'',
    iformfl ''XRSTORS64_LAST'' ''a704fc3c19e20c74d5095e6f2146f0f3a'',
    iformfl ''XSAVE_FIRST'' ''aa8dbe7db1fe477494bcbb312b09fe64f'',
    iformfl ''XSAVE_LAST'' ''ab2215d183715cf470daa3a29b17aa7e2'',
    iformfl ''XSAVE64_FIRST'' ''ac1b02fcfc6126d4dae75e1074856f709'',
    iformfl ''XSAVE64_LAST'' ''ac5f1c157c3c927828786af9a7e38774d'',
    iformfl ''XSAVEC_FIRST'' ''a5d3781ee138e0110000f433dc0766ad4'',
    iformfl ''XSAVEC_LAST'' ''af1f3bc4df00235a2a152db881d4cb4f8'',
    iformfl ''XSAVEC64_FIRST'' ''a6db7a06b296a93d2dabe7b2f16e11e74'',
    iformfl ''XSAVEC64_LAST'' ''ad5fb52b38cc64f64930d3a5720252fe5'',
    iformfl ''XSAVEOPT_FIRST'' ''afec2598be86058b2ca63967626a4cd91'',
    iformfl ''XSAVEOPT_LAST'' ''a2dda0437676c4b7bce3d3acc70e38055'',
    iformfl ''XSAVEOPT64_FIRST'' ''a79ef176e2c7ab8d0d243c338e81f48ac'',
    iformfl ''XSAVEOPT64_LAST'' ''aa4ed85f298f2ab6aa48006c0bf9164c7'',
    iformfl ''XSAVES_FIRST'' ''a8fa6f3302c31dfda105f4d5502568c5b'',
    iformfl ''XSAVES_LAST'' ''a5ef7426e20d98e1d9b7baf58cc606a4f'',
    iformfl ''XSAVES64_FIRST'' ''a113a62945c471bcc70b450d7af5aae75'',
    iformfl ''XSAVES64_LAST'' ''a14eeb27cb2da6439fee27a28ca03574f'',
    iformfl ''XSETBV_FIRST'' ''a6c078456b633268f2f46c3892ef43c4e'',
    iformfl ''XSETBV_LAST'' ''af6f491b2809b1e70976ee118dd8ddf22'',
    iformfl ''XTEST_FIRST'' ''ad87f55274623fcddbeeeffa7cc4e1948'',
    iformfl ''XTEST_LAST'' ''aab6b2ed072648ca091da7bc3dc50ca50'',
    iformfl ''LAST'' ''a35d252aaac30ea76d97a243c429a1f6a'']"

lemma xed_iformfl_enum_8h_values_21_closed: "list_all (closed_node scripts) xed_iformfl_enum_8h_values_21"
  by (simp only: xed_iformfl_enum_8h_values_21_def closed_rules iformfl_closed)

end
