(* ===== verification/Nav_Iformfl_Table.thy ===== *)
theory Nav_Iformfl_Table
  imports Nav_Iformfl_1 Nav_Iformfl_2
begin

text \<open>
  xed-iformfl-enum_8h.js: the child table of an enumeration of instruction forms or classes.
\<close>

definition xed_iformfl_enum_8h :: "nav_node list" where
  "xed_iformfl_enum_8h = [
    Nav_node ''xed_iformfl_enum_t'' (Some ''xed-iformfl-enum_8h.html#a261aba9f055ef9754e8152bf28debe36'') (Nodes (xed_iformfl_enum_8h_values_1 @ xed_iformfl_enum_8h_values_2 @ xed_iformfl_enum_8h_values_3 @ xed_iformfl_enum_8h_values_4 @ xed_iformfl_enum_8h_values_5 @ xed_iformfl_enum_8h_values_6 @ xed_iformfl_enum_8h_values_7 @ xed_iformfl_enum_8h_values_8 @ xed_iformfl_enum_8h_values_9 @ xed_iformfl_enum_8h_values_10 @ xed_iformfl_enum_8h_values_11 @ xed_iformfl_enum_8h_values_12 @ xed_iformfl_enum_8h_values_13 @ xed_iformfl_enum_8h_values_14 @ xed_iformfl_enum_8h_values_15 @ xed_iformfl_enum_8h_values_16 @ xed_iformfl_enum_8h_values_17 @ xed_iformfl_enum_8h_values_18 @ xed_iformfl_enum_8h_values_19 @ xed_iformfl_enum_8h_values_20 @ xed_iformfl_enum_8h_values_21)),
    Nav_node ''xed_iformfl_enum_t_last'' (Some ''group__ENUM.html#gae36c8b2534426cc39fe01b2c135613e4'') Null]"

lemma xed_iformfl_enum_8h_closed: "list_all (closed_node scripts) xed_iformfl_enum_8h"
  by (simp only: xed_iformfl_enum_8h_def closed_rules xed_iformfl_enum_8h_values_1_closed xed_iformfl_enum_8h_values_2_closed xed_iformfl_enum_8h_values_3_closed xed_iformfl_enum_8h_values_4_closed xed_iformfl_enum_8h_values_5_closed xed_iformfl_enum_8h_values_6_closed xed_iformfl_enum_8h_values_7_closed xed_iformfl_enum_8h_values_8_closed xed_iformfl_enum_8h_values_9_closed xed_iformfl_enum_8h_values_10_closed xed_iformfl_enum_8h_values_11_closed xed_iformfl_enum_8h_values_12_closed xed_iformfl_enum_8h_values_13_closed xed_iformfl_enum_8h_values_14_closed xed_iformfl_enum_8h_values_15_closed xed_iformfl_enum_8h_values_16_closed xed_iformfl_enum_8h_values_17_closed xed_iformfl_enum_8h_values_18_closed xed_iformfl_enum_8h_values_19_closed xed_iformfl_enum_8h_values_20_closed xed_iformfl_enum_8h_values_21_closed)

end
