(* ===== verification/Nav_Iform.thy ===== *)
theory Nav_Iform
  imports Nav_Closed
begin

text \<open>
  xed-iform-enum_8h.js: the form of the nodes of this enumeration.
\<close>

text \<open>A node of \<open>xed-iform-enum_8h.js\<close>: the names and the links of its nodes start alike.\<close>

definition iform :: "string \<Rightarrow> string \<Rightarrow> nav_node" where
  "iform name anchor = Nav_node (''XED_IFORM_'' @ name)
     (Some (''xed-iform-enum_8h.html#af48986d6e090a75f7ab50e6d4a182e21'' @ anchor)) Null"

lemma iform_closed: "closed_node scripts (iform name anchor) = True"
  by (simp add: iform_def)

end
