(* ===== verification/Nav_Iform_1.thy ===== *)
theory Nav_Iform_1
  imports Nav_Iform
begin

text \<open>
  xed-iform-enum_8h.js: the child table of an enumeration of instruction forms or classes.
\<close>

definition xed_iform_enum_8h_values_1 :: "nav_node list" where
  "xed_iform_enum_8h_values_1 = [
    iform ''INVALID'' ''ab74be2d94d1c8c6909e9db1658e576cd'',
    iform ''AAA'' ''a91241139a6edb727ad27e28562d6da61'',
    iform ''AAD_IMMb'' ''ac049fcfe3e40474b955d71d1625670fa'',
    iform ''AAM_IMMb'' ''a9623ebc4a8a4aa0bf8afdce7f6fe8e59'',
    iform ''AAS'' ''a688bc3433f1c0627859f1bc8f0a161ff'',
    iform ''ADC_AL_IMMb'' ''af6f615b07e64042003322483b03246f0'',
    iform ''ADC_GPR8_GPR8_10'' ''ac5f8ae0a064e21aec72db6caf88d852b'',
    iform ''ADC_GPR8_GPR8_12'' ''ad0281042e7a135fad9ab0b117d1c81e8'',
    iform ''ADC_GPR8_IMMb_80r2'' ''adb6c988a118634953df5348a2035328c'',
    iform ''ADC_GPR8_IMMb_82r2'' ''a1d4f8e9dbfbe99e2e74f5f7f8f585f08'',
    iform ''ADC_GPR8_MEMb'' ''ac7af9a4aaa50a3c13ab3c4d18591b833'',
    iform ''ADC_GPRv_GPRv_11'' ''ade684736fe4aac87df3b9ff815866ebd'',
    iform ''ADC_GPRv_GPRv_13'' ''a3eb0f282ebfb7f0fb09695e0435eaa0d'',
    iform ''ADC_GPRv_IMMb'' ''a28354d450b77ebcee21760bcfbe65e52'',
    iform ''ADC_GPRv_IMMz'' ''a9de1b40bf8d6970c0459ff512229faba'',
    iform ''ADC_GPRv_MEMv'' ''a8b65e1129c82823b24ae20394b977d8f'',
    iform ''ADC_MEMb_GPR8'' ''a7ccbe81f7235a61f61e087615efac4a8'',
    iform ''ADC_MEMb_IMMb_80r2'' ''a01f1c4781650035cbab12482e71533aa'',
    iform ''ADC_MEMb_IMMb_82r2'' ''a3a5a5a82ec80f9bc15a9273567ae9924'',
    iform ''ADC_MEMv_GPRv'' ''ae3ed68c51f691a211982d0e135630eaf'',
    iform ''ADC_MEMv_IMMb'' ''a77493480ab4e26d9ea2eca125e044236'',
    iform ''ADC_MEMv_IMMz'' ''abd0e60afa32b626b9c26577848f1e24f'',
    iform ''ADC_OrAX_IMMz'' ''ac8ef55ecee792de9d48e9ebb03048086'',
    iform ''ADCX_GPR32d_GPR32d'' ''a460b5c20e2631cd9e58df91cb73526ce'',
    iform ''ADCX_GPR32d_MEMd'' ''ada3dddd48e4f55540262c23f797ea2e5'',
    iform ''ADCX_GPR64q_GPR64q'' ''a70f5c8815baff31a1a5cc0b6fa056611'',
    iform ''ADCX_GPR64q_MEMq'' ''a20a912b6b2519a9feaecf161a031b0d1'',
    iform ''ADD_AL_IMMb'' ''a57a65d4b273a16137f2d6bf13471bf69'',
    iform ''ADD_GPR8_GPR8_00'' ''a87b1b4e9039238f6cf2f4b6e2f58e386'',
    iform ''ADD_GPR8_GPR8_02'' ''af99c3dd6649764c86dd958db322977e3'',
    iform ''ADD_GPR8_IMMb_80r0'' ''a2c26ac50e02cf3289c4b73d60ea4f804'',
    iform ''ADD_GPR8_IMMb_82r0'' ''accb8ef1aed64bd02a2218d33c6a1393a'',
    iform ''ADD_GPR8_MEMb'' ''a413d1321de8479a2c927442d5b5cbe4b'',
    iform ''ADD_GPRv_GPRv_01'' ''a76975bed01bccd15f53ced5f9aa3ed02'',
    iform ''ADD_GPRv_GPRv_03'' ''a64fbae3b845301e1f18c64c52450ea11'',
    iform ''ADD_GPRv_IMMb'' ''af3e057de5d40d980c25ea41e5c91fa4c'',
    iform ''ADD_GPRv_IMMz'' ''ab7a3fa179485671ad7bcf4f882c86636'',
    iform ''ADD_GPRv_MEMv'' ''af0fbdba1f885489f2050827f819ee814'',
    iform ''ADD_MEMb_GPR8'' ''a4bf87a31dfd16ee8d275aee1fb9abeae'',
    iform ''ADD_MEMb_IMMb_80r0'' ''a05b295a5f67cb363385bb2f8c0d41e1c'',
    iform ''ADD_MEMb_IMMb_82r0'' ''a8e8986d75fbad3c7c5560d3f2a76e250'',
    iform ''ADD_MEMv_GPRv'' ''ab6db681ceb64a6069bb6ffaeab98f232'',
    iform ''ADD_MEMv_IMMb'' ''a5eeab0f23732d5bad803c39fe065e9f9'',
    iform ''ADD_MEMv_IMMz'' ''a5d93cf834c75e9281782ee2fd8453949'',
    iform ''ADD_OrAX_IMMz'' ''adab7e94cb1860aba52d3459cd01bec2e'',
    iform ''ADDPD_XMMpd_MEMpd'' ''abb0506e40945e5fd99e66d8b80917de8'',
    iform ''ADDPD_XMMpd_XMMpd'' ''a26efa60da6e2b0a689feb7b26ff812cb'',
    iform ''ADDPS_XMMps_MEMps'' ''abcd79cee1516ce48964557c949250be7'',
    iform ''ADDPS_XMMps_XMMps'' ''a107b04e1cc22ab91363c35d0e335dd96'',
    iform ''ADDSD_XMMsd_MEMsd'' ''a3bbab65cc4178c3229d89b532835fbf1'',
    iform ''ADDSD_XMMsd_XMMsd'' ''af3f5a22f6986d9a1931fb48459e13c86'',
    iform ''ADDSS_XMMss_MEMss'' ''aadcc80ec705ec55094e44d5bb1417730'',
    iform ''ADDSS_XMMss_XMMss'' ''af6f29b871f8976f3addce6bd9af65e4b'',
    iform ''ADDSUBPD_XMMpd_MEMpd'' ''a01d1b9ab4bdfcd1c85cb9d4125816c90'',
    iform ''ADDSUBPD_XMMpd_XMMpd'' ''a0b130689cf508e85c261eff0530da749'',
    iform ''ADDSUBPS_XMMps_MEMps'' ''acb374e18ae091dc2a0176f112660e8cb'',
    iform ''ADDSUBPS_XMMps_XMMps'' ''a14b32f9377895c245dcb0d3daa57ce45'',
    iform ''ADOX_GPR32d_GPR32d'' ''a80ee88de5562c7d25ae8cfe98df17a09'',
    iform ''ADOX_GPR32d_MEMd'' ''a599f64b71007fe70a90ca58035b2261d'',
    iform ''ADOX_GPR64q_GPR64q'' ''a510e0d86cda41348db81fc79ab1d8823'',
    iform ''ADOX_GPR64q_MEMq'' ''a635ebd313e3d2f8a48b77023f212c506'',
    iform ''AESDEC_XMMdq_MEMdq'' ''aff0feefafdf01e891d7880d889af3821'',
    iform ''AESDEC_XMMdq_XMMdq'' ''a198b9cea93b86f1104753e3f86801232'',
    iform ''AESDECLAST_XMMdq_MEMdq'' ''aa3e553fdc4f16a0b5ffb5509414050fe'',
    iform ''AESDECLAST_XMMdq_XMMdq'' ''aba4bf4e6eac3f35b7052f9e45433d653'',
    iform ''AESENC_XMMdq_MEMdq'' ''a1b04b8bcfbd5df786d551191d8f4f315'',
    iform ''AESENC_XMMdq_XMMdq'' ''aec983f723840914ea014a57698c789b3'',
    iform ''AESENCLAST_XMMdq_MEMdq'' ''aba1edc6de3359ff27dfc686785685c3c'',
    iform ''AESENCLAST_XMMdq_XMMdq'' ''aea1242f300fe3fb1bf4fc2d070d9ebf3'',
    iform ''AESIMC_XMMdq_MEMdq'' ''abc51198aec6565f42f590e8bbfeb291e'',
    iform ''AESIMC_XMMdq_XMMdq'' ''a3b4077455b7112026aa3792e5a2525d5'',
    iform ''AESKEYGENASSIST_XMMdq_MEMdq_IMMb'' ''ac2426a23707bfd87692d76fa5448417a'',
    iform ''AESKEYGENASSIST_XMMdq_XMMdq_IMMb'' ''afae55c001b17cf57009972df8459dfc3'',
    iform ''AND_AL_IMMb'' ''a9a000b9e0dbdabe8ec6bbffd043c0341'',
    iform ''AND_GPR8_GPR8_20'' ''a63ca85b0b1c600f8be70018852d76833'',
    iform ''AND_GPR8_GPR8_22'' ''ac341bbcdd95c4adfef0ca85261e016e6'',
    iform ''AND_GPR8_IMMb_80r4'' ''acdc6f75054fee3ccf88c80952982672e'',
    iform ''AND_GPR8_IMMb_82r4'' ''ad90923b897e7db397693d6da430c7e7a'',
    iform ''AND_GPR8_MEMb'' ''a67f15b37267bca973298503e2ec9fbf8'',
    iform ''AND_GPRv_GPRv_21'' ''a0f02bd7831566e18d047733a67108924'',
    iform ''AND_GPRv_GPRv_23'' ''a43cf744e2e8d191479f7bf8e46958ec3'',
    iform ''AND_GPRv_IMMb'' ''a21e73b5b54110e48cdf2a515d973dc57'',
    iform ''AND_GPRv_IMMz'' ''a2c951d1540fddbc216bcbd9b6fe3e980'',
    iform ''AND_GPRv_MEMv'' ''ac399aa13132fc0037314b5a43d575aa3'',
    iform ''AND_MEMb_GPR8'' ''a05799dbb090640a64db9b3f5cf061e8f'',
    iform ''AND_MEMb_IMMb_80r4'' ''a058278115cbc7050862781f61bfd2bdd'',
    iform ''AND_MEMb_IMMb_82r4'' ''a3a22d3086c34e59a2e6589c17f08681d'',
    iform ''AND_MEMv_GPRv'' ''a091414e053c3023abf171e06df8f0d47'',
    iform ''AND_MEMv_IMMb'' ''af2eb2ed9104a313796c6a8c59e0c4f2c'',
    iform ''AND_MEMv_IMMz'' ''aec0967929fd22a4a58e1294f4a2fe2b9'',
    iform ''AND_OrAX_IMMz'' ''a762771834564ea6e1b781a01cb04a297'',
    iform ''ANDN_VGPR32d_VGPR32d_MEMd'' ''a18ecdc656d1f38761ea3d61842c46189'',
    iform ''ANDN_VGPR32d_VGPR32d_VGPR32d'' ''ab4804cd8c2aa7ef313ee7775b82bdf48'',
    iform ''ANDN_VGPR64q_VGPR64q_MEMq'' ''a10ffef296846c6efc227f8296088890a'',
    iform ''ANDN_VGPR64q_VGPR64q_VGPR64q'' ''a7e878cef1707ab89d1d59c187a8f5ed4'',
    iform ''ANDNPD_XMMpd_MEMpd'' ''a8f242da85012ca3496a5b626112e99d4'',
    iform ''ANDNPD_XMMpd_XMMpd'' ''a9d7f6e38b1653cc4a93d92914d8e3915'',
    iform ''ANDNPS_XMMps_MEMps'' ''a2d2d69571dc45ab19bb122409242320d'',
    iform ''ANDNPS_XMMps_XMMps'' ''a0f5e99b21f19733865b2a57bece0c7a5'',
    iform ''ANDPD_XMMpd_MEMpd'' ''aba73c1a5209ccb4d2f16526cd19fa696'',
    iform ''ANDPD_XMMpd_XMMpd'' ''ad7222c6208a871cc04ae21595f825f0b'',
    iform ''ANDPS_XMMps_MEMps'' ''ae1e03a1e92a8f62668a792260162eec9'',
    iform ''ANDPS_XMMps_XMMps'' ''ae96ab671a0ccd99f83bec2732e30dbf0'',
    iform ''ARPL_GPR16_GPR16'' ''aafe7c035a2fbfe0400783ca8e298ca92'',
    iform ''ARPL_MEMw_GPR16'' ''a017e120bdd0854a900a4c9ff7687e8c1'',
    iform ''BEXTR_VGPR32d_MEMd_VGPR32d'' ''a97df8494eeb651b0a7a4d75d6f9e618e'',
    iform ''BEXTR_VGPR32d_VGPR32d_VGPR32d'' ''a0dc4060b7e9c235931d2df21836db259'',
    iform ''BEXTR_VGPR64q_MEMq_VGPR64q'' ''a9fcc24f98e439d6d7f1c835170b4bed7'',
    iform ''BEXTR_VGPR64q_VGPR64q_VGPR64q'' ''ab239b3b23efc40ecb3551912ecf78bd0'',
    iform ''BEXTR_XOP_GPRyy_GPRyy_IMMd'' ''ac74256a3e85175bbf75f6a70fd9050c7'',
    iform ''BEXTR_XOP_GPRyy_MEMy_IMMd'' ''aef279877d7fecad78fb008d31d17d11b'',
    iform ''BLCFILL_GPRyy_GPRvy'' ''aa1b87c5ee857a1192091bcb349933296'',
    iform ''BLCFILL_GPRyy_MEMy'' ''ad0628e6894825f53e4ebbfb13e89b363'',
    iform ''BLCI_GPRyy_GPRvy'' ''aa289d8ab9dd694a764966d82ef4137c8'',
    iform ''BLCI_GPRyy_MEMy'' ''abad79dc19a71c9c9f7a63e5d7157a8f7'',
    iform ''BLCIC_GPRyy_GPRvy'' ''adc1acbcdd75ad061a83ecb34598d314c'',
    iform ''BLCIC_GPRyy_MEMy'' ''a75708075de198df743c6c15e0dbeaeab'',
    iform ''BLCMSK_GPRyy_GPRvy'' ''adc64ec3349ef0dabaa2acb6ead61c8b0'',
    iform ''BLCMSK_GPRyy_MEMy'' ''a6a43b495698f4aedcbf6fdf18f168e81'',
    iform ''BLCS_GPRyy_GPRvy'' ''a37ff649d9a58f30be0a85e5cd5f2169a'',
    iform ''BLCS_GPRyy_MEMy'' ''a4866551a1cae3cb8ec0e3c822938e2d3'',
    iform ''BLENDPD_XMMdq_MEMdq_IMMb'' ''ac231d2fa4ed1203253bacdd0a31e7789'',
    iform ''BLENDPD_XMMdq_XMMdq_IMMb'' ''aedec6d5fe3a8d6f0ec1109de76b20278'',
    iform ''BLENDPS_XMMdq_MEMdq_IMMb'' ''a0be6d092a8e464730851a089a97d1ed0'',
    iform ''BLENDPS_XMMdq_XMMdq_IMMb'' ''a7402d36af1ac51eff19f6e7ff57d65e6'',
    iform ''BLENDVPD_XMMdq_MEMdq'' ''a665670472387582af18fcb1e53c67a5a'',
    iform ''BLENDVPD_XMMdq_XMMdq'' ''a1676564afb021f7c269422e885c2b4a8'',
    iform ''BLENDVPS_XMMdq_MEMdq'' ''a84352d2a3a2a7851938c5d9537f34bc2'',
    iform ''BLENDVPS_XMMdq_XMMdq'' ''abb7c53d6a7a41d4cfb8483bb111cdd28'',
    iform ''BLSFILL_GPRyy_GPRvy'' ''ae2a0ca6aa9ac6843139cdd178ba8d2f2'',
    iform ''BLSFILL_GPRyy_MEMy'' ''ad654ac41ea80b9cafa804c9e5c02f5b4'',
    iform ''BLSI_VGPR32d_MEMd'' ''a9cd520f0a8e16667a481352070e1b828'',
    iform ''BLSI_VGPR32d_VGPR32d'' ''aed88bc91d7cf5f1def41381c69db8299'',
    iform ''BLSI_VGPR64q_MEMq'' ''a1b37524a68b0d8600cbc13fbfb3f0888'',
    iform ''BLSI_VGPR64q_VGPR64q'' ''a5623e3217475eabd571815b2246b8947'',
    iform ''BLSIC_GPRyy_GPRvy'' ''a092c23e4bf0f356a19e13deca3c4cbc7'',
    iform ''BLSIC_GPRyy_MEMy'' ''adbc0c590d02cee69d5ffe390ee822528'',
    iform ''BLSMSK_VGPR32d_MEMd'' ''a43531946a9feabbec707fd7b135ee2c4'',
    iform ''BLSMSK_VGPR32d_VGPR32d'' ''ae47247d9e6ecc086a94e8382f451207e'',
    iform ''BLSMSK_VGPR64q_MEMq'' ''a525339bb3c4d0c954cb06408f57d96b8'']"

lemma xed_iform_enum_8h_values_1_closed: "list_all (closed_node scripts) xed_iform_enum_8h_values_1"
  by (simp only: xed_iform_enum_8h_values_1_def closed_rules iform_closed)

definition xed_iform_enum_8h_values_2 :: "nav_node list" where
  "xed_iform_enum_8h_values_2 = [
    iform ''BLSMSK_VGPR64q_VGPR64q'' ''afd900ff9177626af57d59c1671107a69'',
    iform ''BLSR_VGPR32d_MEMd'' ''a00a7239d68e01695d00f60bf49209a3f'',
    iform ''BLSR_VGPR32d_VGPR32d'' ''a8d4f83a39f7a5fcde9de4c6b35fe3683'',
    iform ''BLSR_VGPR64q_MEMq'' ''a05da0aad751a5d7563eb63aca349f8e5'',
    iform ''BLSR_VGPR64q_VGPR64q'' ''a6da07a435da0fe5cec126fa7d0c1bcb3'',
    iform ''BNDCL_BND_AGEN'' ''aee245b9ead5e2f8d15fb466c1aac0d2c'',
    iform ''BNDCL_BND_GPR32'' ''a2d3179a3a837054e1b4fe9d44b8a7284'',
    iform ''BNDCL_BND_GPR64'' ''a9a01436c623b7b1c2b6da4432d5bbb97'',
    iform ''BNDCN_BND_AGEN'' ''a171092b6facbbdf8dc055baa62c1964d'',
    iform ''BNDCN_BND_GPR32'' ''a1069e6f92a6e87d9284a54db4d797165'',
    iform ''BNDCN_BND_GPR64'' ''ac8d5cbac37937f073e7a8307c689232b'',
    iform ''BNDCU_BND_AGEN'' ''a7200bd8445130157c47f6749569de0ef'',
    iform ''BNDCU_BND_GPR32'' ''a2154ab7e5875ab7e2a85d285c6ced4d8'',
    iform ''BNDCU_BND_GPR64'' ''a2a3931d94d2467930c83288992b6115f'',
    iform ''BNDLDX_BND_MEMbnd32'' ''abb11f4b02e7624d9b5a5e0c012bfd67f'',
    iform ''BNDLDX_BND_MEMbnd64'' ''a38357063b913808cec5d573a02a37070'',
    iform ''BNDMK_BND_AGEN'' ''a8abef23ec0d964ee5e7f05f6d102d56e'',
    iform ''BNDMOV_BND_BND'' ''a05578da4fa6ae2a911d99369aca4306f'',
    iform ''BNDMOV_BND_MEMdq'' ''a3de6c3ac7017532ce7238b7adad049e8'',
    iform ''BNDMOV_BND_MEMq'' ''a13c48229c655b36ed5a5066f2782858e'',
    iform ''BNDMOV_MEMdq_BND'' ''a91aa381b29de68b82db396a1033cc5fa'',
    iform ''BNDMOV_MEMq_BND'' ''a679be8727ceeeab8bfe05b34024c1250'',
    iform ''BNDSTX_MEMbnd32_BND'' ''a3948a09df8bc8c091cce92d9ad1fcb58'',
    iform ''BNDSTX_MEMbnd64_BND'' ''a23cc2e102efa5ac3c715ba960f430066'',
    iform ''BOUND_GPRv_MEMa16'' ''ab194212f833310389f68fc7697066d30'',
    iform ''BOUND_GPRv_MEMa32'' ''abecede7c15f0b02dc6e58af6395d8e11'',
    iform ''BSF_GPRv_GPRv'' ''a8a177758176d532a5df69deffb538e96'',
    iform ''BSF_GPRv_MEMv'' ''aa357da90460089503ddf1b6b3a587dda'',
    iform ''BSR_GPRv_GPRv'' ''a5acc9a6d2def52fd3cd79a8fb4f07e87'',
    iform ''BSR_GPRv_MEMv'' ''a17421b1f6e0ae913d0e216a30ef6b7dc'',
    iform ''BSWAP_GPRv'' ''a224ceb6598fe6ccd1dfdab200ae3e859'',
    iform ''BT_GPRv_GPRv'' ''a6e7e84726e9f11c28fbdb9e3cfa8d9d8'',
    iform ''BT_GPRv_IMMb'' ''ab31c8986e879c2b4a44d273a995cdfa7'',
    iform ''BT_MEMv_GPRv'' ''af1fdb0abe6b8172c9161d14c44f1cc78'',
    iform ''BT_MEMv_IMMb'' ''abc9fe66ebcfe38b864d2b3166eecabc1'',
    iform ''BTC_GPRv_GPRv'' ''a8ef64a14e16b2eaf02fc6aa7032e9f81'',
    iform ''BTC_GPRv_IMMb'' ''a79132e5a1af23626e813b03692fafd34'',
    iform ''BTC_MEMv_GPRv'' ''a75c29ea1aae8a6080903e278681fd2cb'',
    iform ''BTC_MEMv_IMMb'' ''a7c029b562ab7ed92a491ff24e15d1515'',
    iform ''BTR_GPRv_GPRv'' ''a53690ec556006b87b6fc1d11cfba6350'',
    iform ''BTR_GPRv_IMMb'' ''ac2b051dbeef6e0c5c1005e84f69c2ed0'',
    iform ''BTR_MEMv_GPRv'' ''a95b26b683147b977c8b8318121ba1667'',
    iform ''BTR_MEMv_IMMb'' ''a433c81d848edcdcfbed8e0b1b64a4efc'',
    iform ''BTS_GPRv_GPRv'' ''a8568df36d2e30f55be24c58c1a3d1d15'',
    iform ''BTS_GPRv_IMMb'' ''ad1d112cf66527c1ff0658b2d144c4b12'',
    iform ''BTS_MEMv_GPRv'' ''afbdd70b0d2b9f31fa1f1e228754dca59'',
    iform ''BTS_MEMv_IMMb'' ''a0f3a1829d53fea8b046f73d2a57de023'',
    iform ''BZHI_VGPR32d_MEMd_VGPR32d'' ''a70312a338e7d2af88e4cb42cb7f74aab'',
    iform ''BZHI_VGPR32d_VGPR32d_VGPR32d'' ''a17d6e59c5c1a4f9446d3204faf44e832'',
    iform ''BZHI_VGPR64q_MEMq_VGPR64q'' ''ad6b42ef567f3c768ac0b17cc9959b79a'',
    iform ''BZHI_VGPR64q_VGPR64q_VGPR64q'' ''aa1c1829f19804ddb58aa646e93907238'',
    iform ''CALL_FAR_MEMp2'' ''a66e63695ea6780d3011f376f7f989650'',
    iform ''CALL_FAR_PTRp_IMMw'' ''a5d10488c084274527cc9e626b3754b02'',
    iform ''CALL_NEAR_GPRv'' ''ab12b473dd247355da89a12b8734d5bb9'',
    iform ''CALL_NEAR_MEMv'' ''a7e7a047a6f8d5169df36b74e233a9f6b'',
    iform ''CALL_NEAR_RELBRd'' ''ad1cd51a7ce50dc2448de9701639713f8'',
    iform ''CALL_NEAR_RELBRz'' ''a306a78e3e0d607268f6ae5120ae9622d'',
    iform ''CBW'' ''aaf1063d56faffb4d4ff9c3b1b6c705d6'',
    iform ''CDQ'' ''a8825bd274f66486c38223e2b49d6f30f'',
    iform ''CDQE'' ''a5f493b2330139d5ee14c2de0f826a532'',
    iform ''CLAC'' ''a5865625d84177d7591b5441115cafccc'',
    iform ''CLC'' ''a474c9ac52388e12d3e128497aacdf937'',
    iform ''CLD'' ''af4642d14c3d363996dba1f3774f9f6da'',
    iform ''CLFLUSH_MEMmprefetch'' ''a2e0b7c41fb550e28b0b77697f87ee127'',
    iform ''CLFLUSHOPT_MEMmprefetch'' ''a21f233d48dc80edbcebfa2c287925fe5'',
    iform ''CLGI'' ''a447831eb0277dff3abe5ff6e2e237de6'',
    iform ''CLI'' ''af27692d4b5ad0e0abddaa2670f463e7c'',
    iform ''CLTS'' ''ac8b53215d2b1a4105c228d5b82c7f299'',
    iform ''CLWB_MEMmprefetch'' ''ac35e156690a5e7e998b3b9e9611a643d'',
    iform ''CMC'' ''aef9c081908f3ce85f5367d324f0e2510'',
    iform ''CMOVB_GPRv_GPRv'' ''a342b205c430c5fdc1976ca214709803d'',
    iform ''CMOVB_GPRv_MEMv'' ''ac37feb00f6fde407eb6d9ac95160ca22'',
    iform ''CMOVBE_GPRv_GPRv'' ''a8c16a79ae32d83a451fb70a5d19cd656'',
    iform ''CMOVBE_GPRv_MEMv'' ''aaa13ca12d4f3e561ae818a9311cb3c42'',
    iform ''CMOVL_GPRv_GPRv'' ''a6e0de525051f87fe585451fc4413dd21'',
    iform ''CMOVL_GPRv_MEMv'' ''a95a22929ac245f301ebd3b28720ddbb8'',
    iform ''CMOVLE_GPRv_GPRv'' ''a3d434e999c24542904f2158a309a47c5'',
    iform ''CMOVLE_GPRv_MEMv'' ''a43d6b54d9e4362ba1c812d97dda61080'',
    iform ''CMOVNB_GPRv_GPRv'' ''a828a5879381f2851ba15677788e16877'',
    iform ''CMOVNB_GPRv_MEMv'' ''aab0b8a7039f4786d841fdf786b4af001'',
    iform ''CMOVNBE_GPRv_GPRv'' ''ade323e9af23325aed22a802768e19245'',
    iform ''CMOVNBE_GPRv_MEMv'' ''a2ab2c375c186923af61a82d8cc320acc'',
    iform ''CMOVNL_GPRv_GPRv'' ''a22bdb5695462f59ce0aa6df5088e7dab'',
    iform ''CMOVNL_GPRv_MEMv'' ''a3a41c666f8828173fd92dea527f778cb'',
    iform ''CMOVNLE_GPRv_GPRv'' ''ab30c0be9ea8d91b83ae056b0519487de'',
    iform ''CMOVNLE_GPRv_MEMv'' ''ad42669d6649a1dc3a34df26524cf5cb2'',
    iform ''CMOVNO_GPRv_GPRv'' ''ab4e03bbabe4ac7fab577832a0ffbcd02'',
    iform ''CMOVNO_GPRv_MEMv'' ''ac28ee6696c0592eec01d70550e7c189b'',
    iform ''CMOVNP_GPRv_GPRv'' ''a2f041941753d6ace49386054eccee8ff'',
    iform ''CMOVNP_GPRv_MEMv'' ''ab546b3474c43665d11720088af87554a'',
    iform ''CMOVNS_GPRv_GPRv'' ''a8aa8031b1e85bcb41eaf346dfcdd0f75'',
    iform ''CMOVNS_GPRv_MEMv'' ''a833933e8c90aa365e1bcbcb869c4347b'',
    iform ''CMOVNZ_GPRv_GPRv'' ''a6c7f01326ff1eaff38095020ae848c40'',
    iform ''CMOVNZ_GPRv_MEMv'' ''a484dec46728827180d77a1ebe6420e15'',
    iform ''CMOVO_GPRv_GPRv'' ''aa1fba59d406c70954411dcf5fff0bb42'',
    iform ''CMOVO_GPRv_MEMv'' ''af02cc30688afc98434133b9f9bdcfafb'',
    iform ''CMOVP_GPRv_GPRv'' ''a4af8d904978031d8be841f41ef3ef64a'',
    iform ''CMOVP_GPRv_MEMv'' ''ae163d40b55343046c6d139424bd6616a'',
    iform ''CMOVS_GPRv_GPRv'' ''a1025c3a39f1c6b312b9066bd5d2b1f21'',
    iform ''CMOVS_GPRv_MEMv'' ''af2a8c61b7f2575007bfa4864b297689f'',
    iform ''CMOVZ_GPRv_GPRv'' ''a3ace6c34b997e81cda3d2bd00541aca8'',
    iform ''CMOVZ_GPRv_MEMv'' ''a5ecb20a93c92814a231b61957de3b5bc'',
    iform ''CMP_AL_IMMb'' ''a67e799d964748fd528cc880b2667edfb'',
    iform ''CMP_GPR8_GPR8_38'' ''a2b99bee72af777047481b1d4982de973'',
    iform ''CMP_GPR8_GPR8_3A'' ''a411842e19e65a12571a012ce81afd4ce'',
    iform ''CMP_GPR8_IMMb_80r7'' ''abbf04b3f92fd6a0df36557554dc28f7b'',
    iform ''CMP_GPR8_IMMb_82r7'' ''aeffd60d1d8d6cebf661d255de59273e9'',
    iform ''CMP_GPR8_MEMb'' ''aa39c06255320de19c1190aa59144a9ac'',
    iform ''CMP_GPRv_GPRv_39'' ''aad1a1aa69687129a7c5e8db093746dda'',
    iform ''CMP_GPRv_GPRv_3B'' ''abfdf822a55b0239b0e06541ecc637671'',
    iform ''CMP_GPRv_IMMb'' ''ae135be7f97f276f51987686e5d232daf'',
    iform ''CMP_GPRv_IMMz'' ''ac8164b837de0b1de83894b822bee526a'',
    iform ''CMP_GPRv_MEMv'' ''a7d22c4dc3c6c2b999dd975d6ace6d547'',
    iform ''CMP_MEMb_GPR8'' ''aebbb0f785281df381fe2bc0c8de4cafa'',
    iform ''CMP_MEMb_IMMb_80r7'' ''a1d3303929e5cb4af4ab7f8a1800bfe2c'',
    iform ''CMP_MEMb_IMMb_82r7'' ''a2392fba1c96df70b873c2754f74f725f'',
    iform ''CMP_MEMv_GPRv'' ''a404804fdd9e470c9a6fdcd5d8865c8a1'',
    iform ''CMP_MEMv_IMMb'' ''a4b5962ec2bceea98e33251d0437f2eb9'',
    iform ''CMP_MEMv_IMMz'' ''a075d3435cf041c1e41f23c5557b4fa56'',
    iform ''CMP_OrAX_IMMz'' ''a43a776dbbee7e9d722e545ed4a9878af'',
    iform ''CMPPD_XMMpd_MEMpd_IMMb'' ''a6de0b9184afc7853515bcb06aa208205'',
    iform ''CMPPD_XMMpd_XMMpd_IMMb'' ''a56fdf39fad70322a8be22a41a1fa0002'',
    iform ''CMPPS_XMMps_MEMps_IMMb'' ''ae351fec8965f3dba4815d48eebac655e'',
    iform ''CMPPS_XMMps_XMMps_IMMb'' ''a0ccca4fd2bdf1fda14494cd8d296aa17'',
    iform ''CMPSB'' ''a1934bc67eb7629547715084384281d66'',
    iform ''CMPSD'' ''ac76a892f7d817fa702acde7ed2673799'',
    iform ''CMPSD_XMM_XMMsd_MEMsd_IMMb'' ''aafe2a7718cda43121aae5ce3a553b845'',
    iform ''CMPSD_XMM_XMMsd_XMMsd_IMMb'' ''a6e31db6f10bfb285ef7b0cdafe5301eb'',
    iform ''CMPSQ'' ''a661bfc7605e12a1e42527a40dd0b0c5c'',
    iform ''CMPSS_XMMss_MEMss_IMMb'' ''a111684447747223d06ab9772de04e538'',
    iform ''CMPSS_XMMss_XMMss_IMMb'' ''addb2d5d5a9707cbc4013cec02a9a1c92'',
    iform ''CMPSW'' ''aa379b9d199a3bec59260fc344ede956f'',
    iform ''CMPXCHG_GPR8_GPR8'' ''a6a92e271b9d72488f7436831f531b0ed'',
    iform ''CMPXCHG_GPRv_GPRv'' ''a6759a8c73f782664fadce0ad3d9b5926'',
    iform ''CMPXCHG_MEMb_GPR8'' ''a54b1742743c08c0bba6b38cebc3d843b'',
    iform ''CMPXCHG_MEMv_GPRv'' ''a42f26b8e8b1776e15288ba7945e358e3'',
    iform ''CMPXCHG16B_MEMdq'' ''ac7501fc8d057c2df58d6f08e972d38cf'',
    iform ''CMPXCHG8B_MEMq'' ''ad2c3772bc0b42ce9dc532fb580e5e56e'',
    iform ''COMISD_XMMsd_MEMsd'' ''aa158466cfce13067ce182d6360fc90ed'',
    iform ''COMISD_XMMsd_XMMsd'' ''ae2228448ebbcb45c1ec36f25fdcccfa3'']"

lemma xed_iform_enum_8h_values_2_closed: "list_all (closed_node scripts) xed_iform_enum_8h_values_2"
  by (simp only: xed_iform_enum_8h_values_2_def closed_rules iform_closed)

definition xed_iform_enum_8h_values_3 :: "nav_node list" where
  "xed_iform_enum_8h_values_3 = [
    iform ''COMISS_XMMss_MEMss'' ''ac53a8e3625f3f88f1e0a4b48f1000467'',
    iform ''COMISS_XMMss_XMMss'' ''a4623e204470eda2cdc1b1574fb4cf031'',
    iform ''CPUID'' ''a75695acbb4662403c5a1fbf2fb463786'',
    iform ''CQO'' ''a44948815e0afa7f0821664ac14721793'',
    iform ''CRC32_GPRyy_GPR8b'' ''a01dba7631a21fb65643676eb80147323'',
    iform ''CRC32_GPRyy_GPRv'' ''ab0092820a0dea342755151d2a9b367bc'',
    iform ''CRC32_GPRyy_MEMb'' ''acdf4e55ab88c603ea2f94aeced6fcd9c'',
    iform ''CRC32_GPRyy_MEMv'' ''ad1dde4e8fba0cfb855cfe9de34843e74'',
    iform ''CVTDQ2PD_XMMpd_MEMq'' ''a620ff4d19e9586000398a318d002cf5d'',
    iform ''CVTDQ2PD_XMMpd_XMMq'' ''a6760676caeef49c7ac30e2b93ff11f9c'',
    iform ''CVTDQ2PS_XMMps_MEMdq'' ''a64d1bec8d93e25c1060af3c33634ca2b'',
    iform ''CVTDQ2PS_XMMps_XMMdq'' ''a6b0360adb8effd97ed1db8cd66e6aaea'',
    iform ''CVTPD2DQ_XMMdq_MEMpd'' ''a27ceaab4bb27b4b46d05551d396ac887'',
    iform ''CVTPD2DQ_XMMdq_XMMpd'' ''af849bcd92ad9b4bad3b960aaa2b5c723'',
    iform ''CVTPD2PI_MMXq_MEMpd'' ''ae6f34d15ee6160f268c62d40646d615c'',
    iform ''CVTPD2PI_MMXq_XMMpd'' ''a5a02d2477701264a4c06c32256abec81'',
    iform ''CVTPD2PS_XMMps_MEMpd'' ''aeb42331ec7eef98e41a6419d59c71fb6'',
    iform ''CVTPD2PS_XMMps_XMMpd'' ''a7aab1f35845da16896fba5cc8847bdd4'',
    iform ''CVTPI2PD_XMMpd_MEMq'' ''a223203db7ab4895c65655ad63a158904'',
    iform ''CVTPI2PD_XMMpd_MMXq'' ''a7bcabeca7406253b2dfb428c116fa899'',
    iform ''CVTPI2PS_XMMq_MEMq'' ''a1ecccb1d67ed80d785478a710676c748'',
    iform ''CVTPI2PS_XMMq_MMXq'' ''a7d2d9709890b002277e5fd9d53767a64'',
    iform ''CVTPS2DQ_XMMdq_MEMps'' ''a36911069b12b58ccecc8986a7114343f'',
    iform ''CVTPS2DQ_XMMdq_XMMps'' ''ac1103d100aaf90333bbb461ccc95476b'',
    iform ''CVTPS2PD_XMMpd_MEMq'' ''ab2118499760ac9a754dfb215a35e6e3f'',
    iform ''CVTPS2PD_XMMpd_XMMq'' ''a48efc653a7f6b5c0b54a56e2eeac855d'',
    iform ''CVTPS2PI_MMXq_MEMq'' ''a9586a5f33b1c8704b8e4644a2123f0a4'',
    iform ''CVTPS2PI_MMXq_XMMq'' ''abe2069726351d32eb618a24ca6d29350'',
    iform ''CVTSD2SI_GPR32d_MEMsd'' ''a005e26f6ef716d5ff331a108506e366a'',
    iform ''CVTSD2SI_GPR32d_XMMsd'' ''a90046e7242d8c84b3cc013837ab533b9'',
    iform ''CVTSD2SI_GPR64q_MEMsd'' ''a86b0e9e32a01310f116108cc5ec09f74'',
    iform ''CVTSD2SI_GPR64q_XMMsd'' ''a8c549d990b7f2c248d1694744fac2e52'',
    iform ''CVTSD2SS_XMMss_MEMsd'' ''aba05a0ea0c3a1fb4f269f606c7e71ee8'',
    iform ''CVTSD2SS_XMMss_XMMsd'' ''a83ccc5f0dee2903c6f2599effdb226bd'',
    iform ''CVTSI2SD_XMMsd_GPR32d'' ''a407d772479a0277d4666a967878bc916'',
    iform ''CVTSI2SD_XMMsd_GPR64q'' ''a4ad828f3da8135959f1d775fa6ea5ff4'',
    iform ''CVTSI2SD_XMMsd_MEMd'' ''a148b7dc00ba3cd5e7508cc16ce9d1e02'',
    iform ''CVTSI2SD_XMMsd_MEMq'' ''a2cd596d9b96daa977b681d6ad0d7ac11'',
    iform ''CVTSI2SS_XMMss_GPR32d'' ''a877898a24ecfe43e941824c95d868226'',
    iform ''CVTSI2SS_XMMss_GPR64q'' ''a63c33a2cd39bb12bb0f813c20f9758e5'',
    iform ''CVTSI2SS_XMMss_MEMd'' ''acc0ced36e5cac5fad3f017b3ad2be594'',
    iform ''CVTSI2SS_XMMss_MEMq'' ''ae0cd6c6207ca3f9541ddeb4a28dccf6c'',
    iform ''CVTSS2SD_XMMsd_MEMss'' ''a13d01786f6942d6cbc916a614e20b900'',
    iform ''CVTSS2SD_XMMsd_XMMss'' ''a30e465dbe39dccf83896477931170f3c'',
    iform ''CVTSS2SI_GPR32d_MEMss'' ''a5666a84d2bbf929ce8ce00da458fde47'',
    iform ''CVTSS2SI_GPR32d_XMMss'' ''a25fc2858625d4db64be82db16dc8d170'',
    iform ''CVTSS2SI_GPR64q_MEMss'' ''ac95e52d8cdeb94510e3a5be7a2ee36b6'',
    iform ''CVTSS2SI_GPR64q_XMMss'' ''acf0140593d6fb8a5d8fffad7dcbdccac'',
    iform ''CVTTPD2DQ_XMMdq_MEMpd'' ''a23fae96e457fe37f80f1792729e3409b'',
    iform ''CVTTPD2DQ_XMMdq_XMMpd'' ''a2965b62ad65a65203cf97630712167e5'',
    iform ''CVTTPD2PI_MMXq_MEMpd'' ''ac8e18253f7aa4082146989ebcf86ea02'',
    iform ''CVTTPD2PI_MMXq_XMMpd'' ''a13a52cf1a9e256f82e6da60ccddc947e'',
    iform ''CVTTPS2DQ_XMMdq_MEMps'' ''aba134f638b4457cabd1bf2b8ebb5eae2'',
    iform ''CVTTPS2DQ_XMMdq_XMMps'' ''a08b2e9345d53f60e278334ed0035ad5d'',
    iform ''CVTTPS2PI_MMXq_MEMq'' ''a502b63afdf5eede41323641215a014e2'',
    iform ''CVTTPS2PI_MMXq_XMMq'' ''a2530121691484d0c458085c78ce1b798'',
    iform ''CVTTSD2SI_GPR32d_MEMsd'' ''ad11f13b0b78f6f8a9ca55ecf2ebd4ae2'',
    iform ''CVTTSD2SI_GPR32d_XMMsd'' ''a471a48e309722769da3b907ea40fb3bd'',
    iform ''CVTTSD2SI_GPR64q_MEMsd'' ''ad587061f742163809ed247296f06cc0c'',
    iform ''CVTTSD2SI_GPR64q_XMMsd'' ''a05922caa91101969cd1a6b9b6e320593'',
    iform ''CVTTSS2SI_GPR32d_MEMss'' ''a31cc537bf2cddb2b5f1b247a1fdf6809'',
    iform ''CVTTSS2SI_GPR32d_XMMss'' ''af34b4385bdc0132a88173b71f8b15982'',
    iform ''CVTTSS2SI_GPR64q_MEMss'' ''ae98b7fc027eb8c430bc25d92c5c31e6f'',
    iform ''CVTTSS2SI_GPR64q_XMMss'' ''a149520e0279c50f7d2a0250636c34cf2'',
    iform ''CWD'' ''a143ad9312fb334b0306f5ce00fb8fb2b'',
    iform ''CWDE'' ''a21e8e496ad915a1b262b32b0954eb9d0'',
    iform ''DAA'' ''a5285c347b964588de337d44833177c08'',
    iform ''DAS'' ''ad04b68fe0b635aa302ba8f4edb9990b7'',
    iform ''DEC_GPR8'' ''ae8ee79a92965420bffdd044bb4a2aa92'',
    iform ''DEC_GPRv_48'' ''a487216e7f71b06ebdfa6439980e0e259'',
    iform ''DEC_GPRv_FFr1'' ''a452317a503d047e1970b4db51cf23333'',
    iform ''DEC_MEMb'' ''af556a5ae53fc68601b129093b98fa9c6'',
    iform ''DEC_MEMv'' ''a0889213418f15718624f9708eca7feb3'',
    iform ''DIV_GPR8'' ''ac52fe7851f9e1f88e91254e544be5c77'',
    iform ''DIV_GPRv'' ''a89a1555225b9b8458703ea54c3f9234d'',
    iform ''DIV_MEMb'' ''aa1c9add4e5ba886e87041ff9c031ee47'',
    iform ''DIV_MEMv'' ''a04e8053f72b5aac387c39b512472cae8'',
    iform ''DIVPD_XMMpd_MEMpd'' ''a07ba881d72a4a6f53781730dbb1fb69c'',
    iform ''DIVPD_XMMpd_XMMpd'' ''a71e25002f4b6a04c0801eff15ec12111'',
    iform ''DIVPS_XMMps_MEMps'' ''a4250b88fd152195ce3909547a1d6a119'',
    iform ''DIVPS_XMMps_XMMps'' ''a6a1dec77aa1d8c2a89b250884be356b2'',
    iform ''DIVSD_XMMsd_MEMsd'' ''ab0f1d5dbcd1ada0762fa67449f0abaa8'',
    iform ''DIVSD_XMMsd_XMMsd'' ''a770f9f6b3ac15e399357a1cdd45e4e2a'',
    iform ''DIVSS_XMMss_MEMss'' ''a2358dca38ac216c664d537411a39f1ac'',
    iform ''DIVSS_XMMss_XMMss'' ''a719879256915847451da49f38b2c8af2'',
    iform ''DPPD_XMMdq_MEMdq_IMMb'' ''abbe425a486a1a3961c91e9d4d614be9d'',
    iform ''DPPD_XMMdq_XMMdq_IMMb'' ''aae4dba9102369477cec9e8adb02ff3f1'',
    iform ''DPPS_XMMdq_MEMdq_IMMb'' ''a365f5c52753d55d1ea92c48819fab4eb'',
    iform ''DPPS_XMMdq_XMMdq_IMMb'' ''a0022f73076e8214c22898d89cfe6d280'',
    iform ''EMMS'' ''a54e4af7a389a72695f4606664140347b'',
    iform ''ENCLS_EAX_RBX_RCX_RDX'' ''a9e5a383764c5d757897ca6197900ee5a'',
    iform ''ENCLU_EAX_RBX_RCX_RDX'' ''a288d15566c3b5438faecda53787c94e4'',
    iform ''ENTER_IMMw_IMMb'' ''a4f44b524420cce334a64aeab331c0ac4'',
    iform ''EXTRACTPS_GPR32d_XMMdq_IMMb'' ''a888de284c0b27759cbdd0be871ed572a'',
    iform ''EXTRACTPS_MEMd_XMMps_IMMb'' ''aa6e55ebddacba43f78e30db49079d754'',
    iform ''EXTRQ_XMMq_IMMb_IMMb'' ''a0454e54c5a3ee6be8d8faa41e931228f'',
    iform ''EXTRQ_XMMq_XMMdq'' ''a6b65835eb4a3b39b65609d896c3d81ae'',
    iform ''F2XM1_ST0'' ''a1e58e1492f33260f0d508d9e51a3e32d'',
    iform ''FABS_ST0'' ''a9b147f00cbd8da1f57fea46e5bf38a8e'',
    iform ''FADD_ST0_MEMm64real'' ''a8dcfd10a5cdcddaefd50afc183ebaa7b'',
    iform ''FADD_ST0_MEMmem32real'' ''a6a2c9ec353d84c15e65fa849c557ba8b'',
    iform ''FADD_ST0_X87'' ''a9d6566fd743362861ae9a7a41f542c37'',
    iform ''FADD_X87_ST0'' ''a4b938803b1279c86b8ae7cc6d3507601'',
    iform ''FADDP_X87_ST0'' ''ae0d02d8a44b9ebd241421e50772f81f5'',
    iform ''FBLD_ST0_MEMmem80dec'' ''a58cc9ee2b132d34655872ccad97c469d'',
    iform ''FBSTP_MEMmem80dec_ST0'' ''a1d5df4cd2d2f7b781a81d666cdb91d60'',
    iform ''FCHS_ST0'' ''a38b1162da05ce05a280bec85499aa9ef'',
    iform ''FCMOVB_ST0_X87'' ''a8681729978e746c8069e3687144c8520'',
    iform ''FCMOVBE_ST0_X87'' ''a7b69ea6533341aef85e3fb85574b306a'',
    iform ''FCMOVE_ST0_X87'' ''a31192ecfd173e62d0ac629fa88a94fa4'',
    iform ''FCMOVNB_ST0_X87'' ''a7d9f1fb0d598b46a2025004c4f5476b5'',
    iform ''FCMOVNBE_ST0_X87'' ''a4c0ef31b991ba0f77ad65cdc7963c304'',
    iform ''FCMOVNE_ST0_X87'' ''a04f24c0fe06086751ee06f360642a694'',
    iform ''FCMOVNU_ST0_X87'' ''a6a5c9bab021823442cb1d3ca040a2372'',
    iform ''FCMOVU_ST0_X87'' ''a855e99ab0f96dd568d004106c6cb0dcf'',
    iform ''FCOM_ST0_MEMm64real'' ''a029146c5467b94ef1a81981e5b0d0888'',
    iform ''FCOM_ST0_MEMmem32real'' ''a7e75c0c6565a1d578781e6c167c984cb'',
    iform ''FCOM_ST0_X87'' ''a4dafe17ffd3268999c3ace251b7756c7'',
    iform ''FCOM_ST0_X87_DCD0'' ''aae1fc80d25eff44332290d4dc27daa0e'',
    iform ''FCOMI_ST0_X87'' ''a0b17bd91194d151b7b8690c524c15a6f'',
    iform ''FCOMIP_ST0_X87'' ''aa340d91b173e55f4e95b50ab9100f115'',
    iform ''FCOMP_ST0_MEMm64real'' ''a238cdde9c5dff0e23e96ec0d061496c2'',
    iform ''FCOMP_ST0_MEMmem32real'' ''a26a92a62705305d6451aee28fb997797'',
    iform ''FCOMP_ST0_X87'' ''a0989d7e64ad20481d9a9142685e5f7e4'',
    iform ''FCOMP_ST0_X87_DCD1'' ''a47dd8cb2ac27e018ec0e339aac969d38'',
    iform ''FCOMP_ST0_X87_DED0'' ''a570c1cef60233228b4f46642eae0501c'',
    iform ''FCOMPP_ST0_ST1'' ''a108258a3cb876fcb122a5b8b52b55740'',
    iform ''FCOS_ST0'' ''a3ba400a47ea5ab7da8d598e14c15a9ea'',
    iform ''FDECSTP'' ''a49b56244d7dccad35d02a8f74d28e94c'',
    iform ''FDISI8087_NOP'' ''a102914cdbb265d8096c3b3da8da26741'',
    iform ''FDIV_ST0_MEMm64real'' ''af77424221c32e658ddb1d6897b10ed9b'',
    iform ''FDIV_ST0_MEMmem32real'' ''a4daa7fca4130fc5054dfb3420285f5c7'',
    iform ''FDIV_ST0_X87'' ''a2f029dd9c971b84c0b82bda5e1c905c3'',
    iform ''FDIV_X87_ST0'' ''a02fefd008d15784ed9d2203c87fe32ff'',
    iform ''FDIVP_X87_ST0'' ''af89b527beb22437b8b5b2f64a8edae1f'',
    iform ''FDIVR_ST0_MEMm64real'' ''ae2f169abc0ca0415586f78b0e9c15ce7'',
    iform ''FDIVR_ST0_MEMmem32real'' ''a6c171a5a000383930036bcc90b0ee856'',
    iform ''FDIVR_ST0_X87'' ''a469211e3e134053b0cf5e23a091b60f3'',
    iform ''FDIVR_X87_ST0'' ''ad4340a4f3c2424f0ebbc695443c4d1e1'',
    iform ''FDIVRP_X87_ST0'' ''a9433678b21b36d9dc56c2c9f7a1788c1'']"

lemma xed_iform_enum_8h_values_3_closed: "list_all (closed_node scripts) xed_iform_enum_8h_values_3"
  by (simp only: xed_iform_enum_8h_values_3_def closed_rules iform_closed)

definition xed_iform_enum_8h_values_4 :: "nav_node list" where
  "xed_iform_enum_8h_values_4 = [
    iform ''FEMMS'' ''a04b353bd49c39e5e1fcab79d819534be'',
    iform ''FENI8087_NOP'' ''a39183a0358b951b239566a52b062641c'',
    iform ''FFREE_X87'' ''ae247815653287f343aa9a4127da9bbb2'',
    iform ''FFREEP_X87'' ''a940854d20e1aa03c641d4006290666b0'',
    iform ''FIADD_ST0_MEMmem16int'' ''a671a22b536f83518a8d1408568f9daec'',
    iform ''FIADD_ST0_MEMmem32int'' ''aa71647c75e07cfcade6c411ba6b97a88'',
    iform ''FICOM_ST0_MEMmem16int'' ''a2a6d25d569a385e87480a99b759f223b'',
    iform ''FICOM_ST0_MEMmem32int'' ''ac18774993f0919c17e2ecaea4ccf6ad3'',
    iform ''FICOMP_ST0_MEMmem16int'' ''a57a73faa726f952669bf03d525a75b54'',
    iform ''FICOMP_ST0_MEMmem32int'' ''a4686ac6a99962ac699a2f878bc8c9581'',
    iform ''FIDIV_ST0_MEMmem16int'' ''a7a0b24128805981e8fde0b1dd76f5d28'',
    iform ''FIDIV_ST0_MEMmem32int'' ''a80125eecfa3f50ede1491bf6e3afe5b2'',
    iform ''FIDIVR_ST0_MEMmem16int'' ''a585779024cd5d8c6c62b302994d26677'',
    iform ''FIDIVR_ST0_MEMmem32int'' ''aab7d40ff59f381edaad17a8d425f7f30'',
    iform ''FILD_ST0_MEMm64int'' ''a33c48c2bfc9e9eb6b63e1bcb8ad44b36'',
    iform ''FILD_ST0_MEMmem16int'' ''abde090b4cd4bcc828b0bea01cbda3332'',
    iform ''FILD_ST0_MEMmem32int'' ''a61eb7eb024d9d28e012a76b5a281e926'',
    iform ''FIMUL_ST0_MEMmem16int'' ''a29ab56e5f74e49d7e08723f5f7df3839'',
    iform ''FIMUL_ST0_MEMmem32int'' ''a49dc4ac419ec8053b322a92d43533b48'',
    iform ''FINCSTP'' ''a0c3d706c382f1a45197d72863d482cf2'',
    iform ''FIST_MEMmem16int_ST0'' ''a01ea5f690dbb2bd6d94ab54b68860841'',
    iform ''FIST_MEMmem32int_ST0'' ''ab1febfc2e19fa396ca066d461881c0a2'',
    iform ''FISTP_MEMm64int_ST0'' ''a0e120b6197235349ac9605ffb58fa160'',
    iform ''FISTP_MEMmem16int_ST0'' ''a2ee624662c50f7d9738106f5064bcfe3'',
    iform ''FISTP_MEMmem32int_ST0'' ''a8b3cdb4f337a873165dd1e787fc34f3a'',
    iform ''FISTTP_MEMm64int_ST0'' ''a17f7a7cab0bca9ce356962775ebc0a2f'',
    iform ''FISTTP_MEMmem16int_ST0'' ''ae00578d4b1d0dade79951c24bf3376b3'',
    iform ''FISTTP_MEMmem32int_ST0'' ''a727de2bd25a0ca44efa9bec8f185590a'',
    iform ''FISUB_ST0_MEMmem16int'' ''a4009736350f378e326d26de2b0635b30'',
    iform ''FISUB_ST0_MEMmem32int'' ''a70ba94537e6b768474bd2b8a65b24915'',
    iform ''FISUBR_ST0_MEMmem16int'' ''a23968819f4d48e7c9c900581ba6582a3'',
    iform ''FISUBR_ST0_MEMmem32int'' ''a723e88dcd761bd9fdf0eb0831cd426d5'',
    iform ''FLD_ST0_MEMm64real'' ''a56a21d4cba4a1ecb6474213b4ad560c9'',
    iform ''FLD_ST0_MEMmem32real'' ''a9cbb7c03404da23de6dcfdc7401d328a'',
    iform ''FLD_ST0_MEMmem80real'' ''a4d59bf0cfb7ddff793719a56c2ebc1be'',
    iform ''FLD_ST0_X87'' ''a5bd97ba556a46d217f78cb42ea0c3914'',
    iform ''FLD1_ST0'' ''ad689011a99aa37e9e3be83c036496d2f'',
    iform ''FLDCW_MEMmem16'' ''a9ea269154d1ba25f03eb367c4324e733'',
    iform ''FLDENV_MEMmem14'' ''a067a8c48a32924592e67746a172e8494'',
    iform ''FLDENV_MEMmem28'' ''a77261ec3c7b9c6317e6427d617f13c74'',
    iform ''FLDL2E_ST0'' ''a9a1a17de38ad06df43f71087f400d9a8'',
    iform ''FLDL2T_ST0'' ''a1eadeba6e4274dfeb1950ed2e4ac3e3f'',
    iform ''FLDLG2_ST0'' ''aa2c35e2df09b0f138f93bd525ab8ef17'',
    iform ''FLDLN2_ST0'' ''a1c16666f40da11f80c016279e59deb45'',
    iform ''FLDPI_ST0'' ''a2ab949347b50f875d6d75fed0c6404d9'',
    iform ''FLDZ_ST0'' ''af1c25dc72cb0a70268f5afb5be196d30'',
    iform ''FMUL_ST0_MEMm64real'' ''a27a88ac5034743f4de650cf86f7abcc3'',
    iform ''FMUL_ST0_MEMmem32real'' ''aa84b035c96c1c0b17afa9ef6e8793862'',
    iform ''FMUL_ST0_X87'' ''aa617233736b98a17ab73c66d8e722f85'',
    iform ''FMUL_X87_ST0'' ''a94c1cd993b6bc762faaf1450a7ba19ae'',
    iform ''FMULP_X87_ST0'' ''a9d831c07daea1a27969459c0e78982c2'',
    iform ''FNCLEX'' ''af00b07ce0b8fa4fc2b0ab491e297844f'',
    iform ''FNINIT'' ''a14fc9fa4658e69915949286761b910ee'',
    iform ''FNOP'' ''a3ce5fac8d14bce592eb6a26067447a85'',
    iform ''FNSAVE_MEMmem108'' ''a2b03e1cd548e84ca80cf932706382bf7'',
    iform ''FNSAVE_MEMmem94'' ''a28aa59d43b3d74b7bb0c3761cf54ab85'',
    iform ''FNSTCW_MEMmem16'' ''a1d094d773b0fab455b4a33d04f85f856'',
    iform ''FNSTENV_MEMmem14'' ''a86d9a1fb9fe1365b141f1e4dbf2cde11'',
    iform ''FNSTENV_MEMmem28'' ''ad1d8670e3eb6c199a51dca70f0d4b100'',
    iform ''FNSTSW_AX'' ''aa75f9f1206d6415a091f57eedcfd3c4c'',
    iform ''FNSTSW_MEMmem16'' ''aa482c6e23d929e4cca1eda260ba2d4ba'',
    iform ''FPATAN_ST0_ST1'' ''acd277462d42083c11dd56358345aafe4'',
    iform ''FPREM_ST0_ST1'' ''a1da8aa686549bf264e8479f5c613d19c'',
    iform ''FPREM1_ST0_ST1'' ''a1facbb208898971267db21164ad11a33'',
    iform ''FPTAN_ST0_ST1'' ''a835ac9f1737df959ca5b70484e656eae'',
    iform ''FRNDINT_ST0'' ''a6d2d7ebc03d017db95cf29a013b076cc'',
    iform ''FRSTOR_MEMmem108'' ''afb929d82511ff2e8fab012d6e1797748'',
    iform ''FRSTOR_MEMmem94'' ''aad521e3b65d1150a2a4fe8a060b0640e'',
    iform ''FSCALE_ST0_ST1'' ''a223137a4f7d2488014383dd35f402a7d'',
    iform ''FSETPM287_NOP'' ''af398acc002644d5f94d09d1a06067da6'',
    iform ''FSIN_ST0'' ''ad97913e0752e771ab64d2877acd293a2'',
    iform ''FSINCOS_ST0_ST1'' ''a2429df78a3f121214ed984041ead5519'',
    iform ''FSQRT_ST0'' ''ada35bff34374b861bbfe0fd8822c9ede'',
    iform ''FST_MEMm64real_ST0'' ''acf1e55bb045d1cb9052e18eb59d01381'',
    iform ''FST_MEMmem32real_ST0'' ''a907d5f9bd8db6a4b9f64178c24e63a37'',
    iform ''FST_X87_ST0'' ''a3109a9bbc6c175d36b17431b547b28f8'',
    iform ''FSTP_MEMm64real_ST0'' ''a97c8810e6d20a83eed9542e46615f1d7'',
    iform ''FSTP_MEMmem32real_ST0'' ''ac2fa565cbf12f58687e7a5956864d851'',
    iform ''FSTP_MEMmem80real_ST0'' ''a2dfcfe56632abf7e14b67d8245ec42f8'',
    iform ''FSTP_X87_ST0'' ''ad776c0f6b5e904ddbd7bf0d9c22ab4c1'',
    iform ''FSTP_X87_ST0_DFD0'' ''acbfcc213f0ac1b4a5eaaaaa2f1d9af9f'',
    iform ''FSTP_X87_ST0_DFD1'' ''a93394ac24446677740d71f0df6e3e97d'',
    iform ''FSTPNCE_X87_ST0'' ''ab75eabba03075dc5987d6be454007778'',
    iform ''FSUB_ST0_MEMm64real'' ''a4d37c0ecbddc30e021c1dbb5310f592d'',
    iform ''FSUB_ST0_MEMmem32real'' ''a37ea39f6d1787a702812fe22885afb6b'',
    iform ''FSUB_ST0_X87'' ''a44203e0149739e1d554b62358ef58467'',
    iform ''FSUB_X87_ST0'' ''a23fe784a18ad7841e3c268ca7fe994f7'',
    iform ''FSUBP_X87_ST0'' ''a929bb96cbed09f95610a94e0a1d8cf44'',
    iform ''FSUBR_ST0_MEMm64real'' ''a2f104078c6bf78f8c4de9e372cdde5a7'',
    iform ''FSUBR_ST0_MEMmem32real'' ''a49de38678e2ea572995aaaa9cd80fce1'',
    iform ''FSUBR_ST0_X87'' ''af00c6b742a49a3c41984da5aa329295d'',
    iform ''FSUBR_X87_ST0'' ''a347e432b4276f790609a55f18280dd21'',
    iform ''FSUBRP_X87_ST0'' ''a9d07f42acb784465214042e59e5eb648'',
    iform ''FTST_ST0'' ''a846eb2d84ec6097e1b78365dbbf98fe1'',
    iform ''FUCOM_ST0_X87'' ''ab38d6a23289e29d32fce8369ea0fdad8'',
    iform ''FUCOMI_ST0_X87'' ''aab7427daa6b65c05d031ce8e554a14f5'',
    iform ''FUCOMIP_ST0_X87'' ''a1e528cf5bc5dddb47add6497241f7665'',
    iform ''FUCOMP_ST0_X87'' ''aeaab8a1b9ddb99fc81f17a6c85074ba1'',
    iform ''FUCOMPP_ST0_ST1'' ''aefe2d45dee4708dbeda219fd184c46f4'',
    iform ''FWAIT'' ''a47a168ccb039e14810033532823e691d'',
    iform ''FXAM_ST0'' ''a01c6955cd29dde1a64d60ffbf4ad5d29'',
    iform ''FXCH_ST0_X87'' ''a185f486ea66badbffdaf1e1e02e87a0c'',
    iform ''FXCH_ST0_X87_DDC1'' ''ad4b797c8b8ea93f13499948a80dd8a40'',
    iform ''FXCH_ST0_X87_DFC1'' ''ac1dbe0cb35139cc73116a108f373cbaf'',
    iform ''FXRSTOR_MEMmfpxenv'' ''a7518b6845cda8150537967df6caa2136'',
    iform ''FXRSTOR64_MEMmfpxenv'' ''a8084b1b41cd7afe84cc3bbc135a56021'',
    iform ''FXSAVE_MEMmfpxenv'' ''af271132c20f9652825dde6db1eab29e2'',
    iform ''FXSAVE64_MEMmfpxenv'' ''aa4001c5f5de623e6511630ef0e0c02e0'',
    iform ''FXTRACT_ST0_ST1'' ''aa8b05f6e74cc157a93c35532f2162fa3'',
    iform ''FYL2X_ST0_ST1'' ''a5ac236c17513002ccb81cbffdb7a9b8d'',
    iform ''FYL2XP1_ST0_ST1'' ''a06a1a3e001f4ea878353af77e2ce129c'',
    iform ''GETSEC'' ''a159194cf7156f52480d6eaeb0cdb5c54'',
    iform ''HADDPD_XMMpd_MEMpd'' ''ae81f7b54a1e481155ed428b855782b4f'',
    iform ''HADDPD_XMMpd_XMMpd'' ''a9f5b65c96b6d40abcca7e5f64a32205a'',
    iform ''HADDPS_XMMps_MEMps'' ''a0e1acb82b9c55531f2927d3e752cc4c7'',
    iform ''HADDPS_XMMps_XMMps'' ''ac7ecc89f4a21d147755a83d0ec750044'',
    iform ''HLT'' ''a60d72811c3fa47c3df57e6335f7aaf43'',
    iform ''HSUBPD_XMMpd_MEMpd'' ''a248108f916960b42404f93412617cdaf'',
    iform ''HSUBPD_XMMpd_XMMpd'' ''a718eca5f8de5c40765939726e76bab1a'',
    iform ''HSUBPS_XMMps_MEMps'' ''a67b62e6785568beb19f9818a274d79e3'',
    iform ''HSUBPS_XMMps_XMMps'' ''ac7f867bf73178861c0582be280e2a467'',
    iform ''IDIV_GPR8'' ''aff7a3118ae82ec310f0034424dde1bc6'',
    iform ''IDIV_GPRv'' ''aa0f7043bbc6a408e4afbb9e5edfa48d0'',
    iform ''IDIV_MEMb'' ''afeaed92a9bc75c96e1e851486e1f838c'',
    iform ''IDIV_MEMv'' ''ac78b6c32a819c5a38908b9bd54f2d3d1'',
    iform ''IMUL_GPR8'' ''a1cc49fd212186f9f81d59ed4a54f2888'',
    iform ''IMUL_GPRv'' ''a058e170e64664bc273bba4c2759808ed'',
    iform ''IMUL_GPRv_GPRv'' ''a9d7b009ace43f03ad7c22a4fcfff9e1f'',
    iform ''IMUL_GPRv_GPRv_IMMb'' ''a3486d6c0b254c44c62535abe12c4d5bb'',
    iform ''IMUL_GPRv_GPRv_IMMz'' ''aaed51164d733dfaf089f58374dcf69b3'',
    iform ''IMUL_GPRv_MEMv'' ''a70a9bd10920eff59fc363af6f5b87140'',
    iform ''IMUL_GPRv_MEMv_IMMb'' ''aece3080f58784a010de69bc7affef777'',
    iform ''IMUL_GPRv_MEMv_IMMz'' ''a6bf62fb5e2eb8a8de3b891d4943e4f4c'',
    iform ''IMUL_MEMb'' ''ad9a23fbffc502172da4aad7306ba17a9'',
    iform ''IMUL_MEMv'' ''a36d3840c91ceeb05ef56eaf78ef40ada'',
    iform ''IN_AL_DX'' ''abd2e1275ff0494fd74ee835ef3057756'',
    iform ''IN_AL_IMMb'' ''ae4dc17ae9052ce082c583af832ca6bda'',
    iform ''IN_OeAX_DX'' ''adb1103fd946e8afd7cb5fbe8cd913855'',
    iform ''IN_OeAX_IMMb'' ''a4806f25475ce01ce3a033bfac0d3b61b'',
    iform ''INC_GPR8'' ''a07c154b7b7207b010cf1f5a745353374'']"

lemma xed_iform_enum_8h_values_4_closed: "list_all (closed_node scripts) xed_iform_enum_8h_values_4"
  by (simp only: xed_iform_enum_8h_values_4_def closed_rules iform_closed)

definition xed_iform_enum_8h_values_5 :: "nav_node list" where
  "xed_iform_enum_8h_values_5 = [
    iform ''INC_GPRv_40'' ''a6508e40c7c453fce7fb3e8d207d813f2'',
    iform ''INC_GPRv_FFr0'' ''a050214f3c0166653d0fbf2111d449eb6'',
    iform ''INC_MEMb'' ''a7e3ec9d35676e047d94a2a096c3d6231'',
    iform ''INC_MEMv'' ''ad4018303d4d570d9617467c05c86cc0b'',
    iform ''INSB'' ''a8558820da789babb56ea291915208c22'',
    iform ''INSD'' ''aed80862a0942ef148db1c8e382553e06'',
    iform ''INSERTPS_XMMps_MEMd_IMMb'' ''a5d167718c517c7940ee505bee529a26b'',
    iform ''INSERTPS_XMMps_XMMps_IMMb'' ''a963be7aecac3d0ab176bfbba7a466ee1'',
    iform ''INSERTQ_XMMq_XMMdq'' ''a7c82ee8715922b51d09b460c8f0656e7'',
    iform ''INSERTQ_XMMq_XMMq_IMMb_IMMb'' ''af373960bbeb049a37a16b4c308649401'',
    iform ''INSW'' ''a44ea842399abba282ece4e992be27340'',
    iform ''INT_IMMb'' ''a3d023835a2d4664590573fdec21818ce'',
    iform ''INT1'' ''a874be285ee61049d15bc024739a0ba46'',
    iform ''INT3'' ''ad5bfb88b1b79392fe84b37c675a19e4f'',
    iform ''INTO'' ''a7df0659674a2b5acc9d3873c7da17a6e'',
    iform ''INVD'' ''a7fd68ce198d037850993c942531d1c41'',
    iform ''INVEPT_GPR32_MEMdq'' ''ad62876a4d46837fedd6df78aa3268eb6'',
    iform ''INVEPT_GPR64_MEMdq'' ''ae157bf66842df237cf71a40413322c40'',
    iform ''INVLPG_MEMb'' ''a5e3985492d3cde92e83c146d89e09b6c'',
    iform ''INVLPGA_OrAX_ECX'' ''a104a6053708a7b7c9a7f0f58a9a863a3'',
    iform ''INVPCID_GPR32_MEMdq'' ''a5a9bce1045bc460e371c22cf95e441f3'',
    iform ''INVPCID_GPR64_MEMdq'' ''abda3e4752c7e0b1ae5479ac3d7916fcb'',
    iform ''INVVPID_GPR32_MEMdq'' ''a408aec09dad6f7d4814038cfd56b61ea'',
    iform ''INVVPID_GPR64_MEMdq'' ''ab24721db42618d83c9a542fbf6c95601'',
    iform ''IRET'' ''a9ed30f411cb8dde60a70477a6e644619'',
    iform ''IRETD'' ''a92840747185d168f60ed2c7dd903d182'',
    iform ''IRETQ'' ''a9b50829a5c6d15d60b411eec8c5f12ed'',
    iform ''JB_RELBRb'' ''ac863d3f115e1b60f2a8c48acf957b7f3'',
    iform ''JB_RELBRd'' ''a3509c2f23438ba1d9ef83fcb3eb8270c'',
    iform ''JB_RELBRz'' ''a3b5db42d58281c64ad79c9995e7d3aff'',
    iform ''JBE_RELBRb'' ''a2423fb42a9a7b8424ed19aec247b63c5'',
    iform ''JBE_RELBRd'' ''a090c95aa22e611d719f560ad61fa12cb'',
    iform ''JBE_RELBRz'' ''a8727c9bca46b59b8f640a07516f2fb77'',
    iform ''JL_RELBRb'' ''ae6a2648e9a597e59f3d6c9df0c81bb99'',
    iform ''JL_RELBRd'' ''ac938dffdfa75d9d614b99083dddbdac9'',
    iform ''JL_RELBRz'' ''aad16f030401aad940e215d0abeec6216'',
    iform ''JLE_RELBRb'' ''a2530e199f8f8c992dcb93d50268902ce'',
    iform ''JLE_RELBRd'' ''aee1bcaacc12b12690ee32d0477c89a20'',
    iform ''JLE_RELBRz'' ''aeea05eb980e495712c2649e59717f0d1'',
    iform ''JMP_GPRv'' ''a14e1e7b924858caa7c565d94a241cea6'',
    iform ''JMP_MEMv'' ''a61dfa35557371cdbe49147c18fb65b0c'',
    iform ''JMP_RELBRb'' ''a5bc0ffd121109c432b2d59cfda851462'',
    iform ''JMP_RELBRd'' ''a0e183b896976db2473790e2a048c4c60'',
    iform ''JMP_RELBRz'' ''a920ba1cdcb7e2fe15d5ba61f771c7c9e'',
    iform ''JMP_FAR_MEMp2'' ''a281534171efd8d396939e885b4e22aa3'',
    iform ''JMP_FAR_PTRp_IMMw'' ''a3c5257d22432b25148022b9e676bbb54'',
    iform ''JNB_RELBRb'' ''a355375f77a26d9400660954f3ee007ff'',
    iform ''JNB_RELBRd'' ''a0d58d4239ecd5d56c80dcddee7532029'',
    iform ''JNB_RELBRz'' ''a03b0257c32ab59bc7e64afb5ae9caec9'',
    iform ''JNBE_RELBRb'' ''aa7b7d0fb66d1a171e3e09f62b25543ce'',
    iform ''JNBE_RELBRd'' ''a8d3c213829604033455fc11d037c09fb'',
    iform ''JNBE_RELBRz'' ''a1b96d859dae59e21f2b056d70eae4c74'',
    iform ''JNL_RELBRb'' ''aeee2dfed775abe9ecc641418d7ba5bf2'',
    iform ''JNL_RELBRd'' ''a9d71ee2757df6dbfe2837e01381754dc'',
    iform ''JNL_RELBRz'' ''a165284f1857ed790f3329e016c3b488f'',
    iform ''JNLE_RELBRb'' ''a2315c01105394d0df89764a6c32ce18e'',
    iform ''JNLE_RELBRd'' ''ae5471aadf198e5ff329e8e17e117c41c'',
    iform ''JNLE_RELBRz'' ''a0aa7d5be01673ebadd777f9c6a4865c8'',
    iform ''JNO_RELBRb'' ''a177848acc5aa091ee52e69744716ebf3'',
    iform ''JNO_RELBRd'' ''a3fd4a9b527c55c6f8a52226c5ac178d6'',
    iform ''JNO_RELBRz'' ''a96c6937c63f0d40f88e4038aee64469b'',
    iform ''JNP_RELBRb'' ''af30210568753ae3231c3b6de3468fe92'',
    iform ''JNP_RELBRd'' ''ab2910eb490e841ac97e6eaf1350d96c8'',
    iform ''JNP_RELBRz'' ''afa2621302017da99e9ab21cc61fc2361'',
    iform ''JNS_RELBRb'' ''a9adb9a3b945c8264c6883d6dae2118fa'',
    iform ''JNS_RELBRd'' ''a17e1f5ccb4cde92aa436b23d318bbbfb'',
    iform ''JNS_RELBRz'' ''a24175ca6ef9944f78a05088d82cc2b97'',
    iform ''JNZ_RELBRb'' ''abe48394352336f38e4607e5052f93ce1'',
    iform ''JNZ_RELBRd'' ''ad7b2a5a7ee3dd8f2acc426bd1a69d108'',
    iform ''JNZ_RELBRz'' ''ac24201f2e88038e04b83aa97440e0d87'',
    iform ''JO_RELBRb'' ''a5b53d7b83bbf3dfc5bd93a0f24cb04f8'',
    iform ''JO_RELBRd'' ''a62941655960b5dc4364d8e6fb9fcb3a9'',
    iform ''JO_RELBRz'' ''a037d800d198d824b91cbf4a2e11ad1c1'',
    iform ''JP_RELBRb'' ''a58def319565b9260318a9931dbb71133'',
    iform ''JP_RELBRd'' ''a65505f8a28b6d631d9eedcc33646aea0'',
    iform ''JP_RELBRz'' ''ade0ce5fa80374e849fe4b6270fc6bd6a'',
    iform ''JRCXZ_RELBRb'' ''aed9f131a21d174191ecf7b1ebec9353b'',
    iform ''JS_RELBRb'' ''a6b833d9c3e4e5d4a30866553200073cd'',
    iform ''JS_RELBRd'' ''a24792deaf498f8e8bdadcae9bd23f4fb'',
    iform ''JS_RELBRz'' ''ae5e25ced3d10296a3558e10184cd4ff8'',
    iform ''JZ_RELBRb'' ''af494caea533b7dfffd77a45eb803d68a'',
    iform ''JZ_RELBRd'' ''ad77b15e6b9d8a8399d0f6aa72a6f53d3'',
    iform ''JZ_RELBRz'' ''a1ac9cb3a30077ba555f0fcdd3454c85d'',
    iform ''KADDB_MASKmskw_MASKmskw_MASKmskw_AVX512'' ''a496cf734af2c686ccc5252243d12dd7f'',
    iform ''KADDD_MASKmskw_MASKmskw_MASKmskw_AVX512'' ''a8046b07ddd0da67a516ec9cee6e006de'',
    iform ''KADDQ_MASKmskw_MASKmskw_MASKmskw_AVX512'' ''a6b62252fa0816742e64df6c6f792d535'',
    iform ''KADDW_MASKmskw_MASKmskw_MASKmskw_AVX512'' ''acd612dd7b3b83a59207add5531a72b24'',
    iform ''KANDB_MASKmskw_MASKmskw_MASKmskw_AVX512'' ''a652b8e0006f090546bb17571581c8871'',
    iform ''KANDD_MASKmskw_MASKmskw_MASKmskw_AVX512'' ''acadd255b92798ff75d1ce9849053cc3b'',
    iform ''KANDNB_MASKmskw_MASKmskw_MASKmskw_AVX512'' ''a1e91cb2ee237913dc2e0d88cf6e180e3'',
    iform ''KANDND_MASKmskw_MASKmskw_MASKmskw_AVX512'' ''a55fc96486c5b84fd64eb1ae7d996ab7e'',
    iform ''KANDNQ_MASKmskw_MASKmskw_MASKmskw_AVX512'' ''a203e65875ae9d35afde2b4b5b1c66a17'',
    iform ''KANDNW_MASKmskw_MASKmskw_MASKmskw_AVX512'' ''a41dc52678483eccb45106d777770b4cb'',
    iform ''KANDQ_MASKmskw_MASKmskw_MASKmskw_AVX512'' ''a0db5ca58c5d08dff0b465859b63d179d'',
    iform ''KANDW_MASKmskw_MASKmskw_MASKmskw_AVX512'' ''a5c7f5d862043bdab4e48f701e767ca86'',
    iform ''KMOVB_GPR32u32_MASKmskw_AVX512'' ''ad6858e832a90877e6d6bfa7ef88fac30'',
    iform ''KMOVB_MASKmskw_GPR32u32_AVX512'' ''aa17194bc253d54bb55b1a8be756fd5ab'',
    iform ''KMOVB_MASKmskw_MASKu8_AVX512'' ''a596d5393c7535779b59ac22259fdb409'',
    iform ''KMOVB_MASKmskw_MEMu8_AVX512'' ''aa42391aec2abf47c4713226e99994901'',
    iform ''KMOVB_MEMu8_MASKmskw_AVX512'' ''a7d6fdba4061b0bb1bdf98e7c348191a5'',
    iform ''KMOVD_GPR32u32_MASKmskw_AVX512'' ''ac7827cd9e8937b91887713e9b2800105'',
    iform ''KMOVD_MASKmskw_GPR32u32_AVX512'' ''a6d1ee5ac0514d97a919568a7208d8137'',
    iform ''KMOVD_MASKmskw_MASKu32_AVX512'' ''adf1fb39d34b36cc6bd1f99f15a72b465'',
    iform ''KMOVD_MASKmskw_MEMu32_AVX512'' ''a214174f89bd830556e04315fa874e234'',
    iform ''KMOVD_MEMu32_MASKmskw_AVX512'' ''a9c2f64efaca71dd805e9e86fcc96206f'',
    iform ''KMOVQ_GPR64u64_MASKmskw_AVX512'' ''a8235fbc6bc8289ba0c3e28ec7cadec2b'',
    iform ''KMOVQ_MASKmskw_GPR64u64_AVX512'' ''ad135faa1413cc2561f52e945b67586d5'',
    iform ''KMOVQ_MASKmskw_MASKu64_AVX512'' ''a0319326987ed4a96bc20b3b2b91a12ef'',
    iform ''KMOVQ_MASKmskw_MEMu64_AVX512'' ''a1ef89db97b30676ef5bc62d3f178f494'',
    iform ''KMOVQ_MEMu64_MASKmskw_AVX512'' ''a8259c2477815d57dd00f7965a8656b2b'',
    iform ''KMOVW_GPR32u32_MASKmskw_AVX512'' ''af57626cdb20cc8b3cbb1dec2bf1ff2e4'',
    iform ''KMOVW_MASKmskw_GPR32u32_AVX512'' ''a42fb3a3d736ad4ce73221117e84d55ea'',
    iform ''KMOVW_MASKmskw_MASKu16_AVX512'' ''a9568d8d590030de21a9db3aced0d14bb'',
    iform ''KMOVW_MASKmskw_MEMu16_AVX512'' ''a490e2afc46efcbc7a63be208f68bde7f'',
    iform ''KMOVW_MEMu16_MASKmskw_AVX512'' ''a026fe21fa9885ae7b27c3aade98c0620'',
    iform ''KNOTB_MASKmskw_MASKmskw_AVX512'' ''af7495cb2b2d8a4d0177b8bee91396dba'',
    iform ''KNOTD_MASKmskw_MASKmskw_AVX512'' ''a5c9d5e482c4f3782d9d5d39c5c5938ec'',
    iform ''KNOTQ_MASKmskw_MASKmskw_AVX512'' ''a7fc0f1eed31410d2100f2f96b4db0cf9'',
    iform ''KNOTW_MASKmskw_MASKmskw_AVX512'' ''ac15316821954ae9ebd15ce28374fdaea'',
    iform ''KORB_MASKmskw_MASKmskw_MASKmskw_AVX512'' ''ab3c20f6d5b842398954aaf9377220927'',
    iform ''KORD_MASKmskw_MASKmskw_MASKmskw_AVX512'' ''af474749a020bd035a8b16caec88a9974'',
    iform ''KORQ_MASKmskw_MASKmskw_MASKmskw_AVX512'' ''a877615f2b2719c1786c74d7926e201c6'',
    iform ''KORTESTB_MASKmskw_MASKmskw_AVX512'' ''af168685b0c13a36743b51b87b3877728'',
    iform ''KORTESTD_MASKmskw_MASKmskw_AVX512'' ''aaa59bb45b8c62c4278c0ce9e3629a3d0'',
    iform ''KORTESTQ_MASKmskw_MASKmskw_AVX512'' ''af7b71d01c610cb80f59d657379b25ea9'',
    iform ''KORTESTW_MASKmskw_MASKmskw_AVX512'' ''ab7ac143b69dfbfc90c0262f6f6d021bd'',
    iform ''KORW_MASKmskw_MASKmskw_MASKmskw_AVX512'' ''af598b3c24a91f8ed53e255889bc2440b'',
    iform ''KSHIFTLB_MASKmskw_MASKmskw_IMM8_AVX512'' ''a83c9e92973f99484a43a362c7e5e5630'',
    iform ''KSHIFTLD_MASKmskw_MASKmskw_IMM8_AVX512'' ''a6801c1d69288ad1abdd2b3004e11cc0e'',
    iform ''KSHIFTLQ_MASKmskw_MASKmskw_IMM8_AVX512'' ''aba379c1d17bcce15805b0a1d8a1b353a'',
    iform ''KSHIFTLW_MASKmskw_MASKmskw_IMM8_AVX512'' ''aa9b385e1b41dbc176bd6c4dfbd3b2fe8'',
    iform ''KSHIFTRB_MASKmskw_MASKmskw_IMM8_AVX512'' ''a6bf95163539bc375e5758e5fb4f2e4b9'',
    iform ''KSHIFTRD_MASKmskw_MASKmskw_IMM8_AVX512'' ''ad07e4acaeb46adeec185048c0854e70f'',
    iform ''KSHIFTRQ_MASKmskw_MASKmskw_IMM8_AVX512'' ''a618ba269bffbc711fa5cf2ae5d86bb97'',
    iform ''KSHIFTRW_MASKmskw_MASKmskw_IMM8_AVX512'' ''ad0161c7c0840f98091ba64394febc98f'',
    iform ''KTESTB_MASKmskw_MASKmskw_AVX512'' ''aab3a6a9bc6f442d5f257545ab36aa93b'',
    iform ''KTESTD_MASKmskw_MASKmskw_AVX512'' ''a723fa8be4eae9c8ae1760912cdca14b0'',
    iform ''KTESTQ_MASKmskw_MASKmskw_AVX512'' ''a0452f8f21fbb43af856f883c36444534'',
    iform ''KTESTW_MASKmskw_MASKmskw_AVX512'' ''aa1c5ff680ba035c57c047a1e6ca23a59'',
    iform ''KUNPCKBW_MASKmskw_MASKmskw_MASKmskw_AVX512'' ''ae2c0630b6ce21f7e3ffb18b9b2e7b319'']"

lemma xed_iform_enum_8h_values_5_closed: "list_all (closed_node scripts) xed_iform_enum_8h_values_5"
  by (simp only: xed_iform_enum_8h_values_5_def closed_rules iform_closed)

definition xed_iform_enum_8h_values_6 :: "nav_node list" where
  "xed_iform_enum_8h_values_6 = [
    iform ''KUNPCKDQ_MASKmskw_MASKmskw_MASKmskw_AVX512'' ''ad828a9a6ee81ae98744ed274622f2587'',
    iform ''KUNPCKWD_MASKmskw_MASKmskw_MASKmskw_AVX512'' ''a1f9d9dcb2b6a960faf2a2cf4f82f9e29'',
    iform ''KXNORB_MASKmskw_MASKmskw_MASKmskw_AVX512'' ''a5f27b12f7d988647c012e618084994cb'',
    iform ''KXNORD_MASKmskw_MASKmskw_MASKmskw_AVX512'' ''a0c4737f9e52ef2df6c9da267e8b411e7'',
    iform ''KXNORQ_MASKmskw_MASKmskw_MASKmskw_AVX512'' ''a1eb4be6baf754e6538c534f2d3063c29'',
    iform ''KXNORW_MASKmskw_MASKmskw_MASKmskw_AVX512'' ''aa0f1f833e6c0668d81d93671d106d752'',
    iform ''KXORB_MASKmskw_MASKmskw_MASKmskw_AVX512'' ''a3472d9f7e74520f91241f76353739048'',
    iform ''KXORD_MASKmskw_MASKmskw_MASKmskw_AVX512'' ''a975a3b846bad9095949980d46c741a4c'',
    iform ''KXORQ_MASKmskw_MASKmskw_MASKmskw_AVX512'' ''a5990566758f732fe906423cd9373585d'',
    iform ''KXORW_MASKmskw_MASKmskw_MASKmskw_AVX512'' ''a6631e3e39c70b0d2ce41b560c34450b6'',
    iform ''LAHF'' ''aa5eba7ee757535e355495572f8f419a0'',
    iform ''LAR_GPRv_GPRv'' ''af4129aeedd246648153ae68ec52b459d'',
    iform ''LAR_GPRv_MEMw'' ''a67cabedaa564ea23402a2ae765c282ea'',
    iform ''LDDQU_XMMpd_MEMdq'' ''a88b3d5fa0ca0e37e95fe72df26bce3b7'',
    iform ''LDMXCSR_MEMd'' ''ad19bc121d0f749474db75d0b1ff3f406'',
    iform ''LDS_GPRz_MEMp'' ''a4cf462c0f53496a62dcc210d01180280'',
    iform ''LEA_GPRv_AGEN'' ''a34b0d1bc80822c99959e6bf23d4c4ba0'',
    iform ''LEAVE'' ''ad0cda6cd8a49c1d0ac95f6391cbfe3fa'',
    iform ''LES_GPRz_MEMp'' ''a99ec00377bad9b9b2dbbc5c42cfc3d23'',
    iform ''LFENCE'' ''a0ad0df8783acaa6e92183704e5e0d68e'',
    iform ''LFS_GPRv_MEMp2'' ''ae9f1eda611ff15f9af661d3609b041df'',
    iform ''LGDT_MEMs'' ''a035df5a3f7b6cb27ea267775a3014a10'',
    iform ''LGDT_MEMs64'' ''ad7a2288f34773b82eef8e9cd62de6262'',
    iform ''LGS_GPRv_MEMp2'' ''aef515deccabe607131cd87239e95a421'',
    iform ''LIDT_MEMs'' ''ad17e6cd31278e82c8e84e20f54a47333'',
    iform ''LIDT_MEMs64'' ''a87689db66ff5c611af1514099b7e078a'',
    iform ''LLDT_GPR16'' ''aa1800b5794214a42eae5281497060dc0'',
    iform ''LLDT_MEMw'' ''ae4e470d5db1d96e8ff4d604af2e7a555'',
    iform ''LLWPCB_GPRyy'' ''ad91dd92c57a761b2af5322f7808b5b66'',
    iform ''LMSW_GPR16'' ''a80c0bc483bf49917d5cee80ee460b934'',
    iform ''LMSW_MEMw'' ''a94dd40fdaff875b2dc235851f8e360a9'',
    iform ''LODSB'' ''a766ccda92b44ee98a63b580430c2db32'',
    iform ''LODSD'' ''aa6373f7e6d9ae5358a7b64137ae61cb1'',
    iform ''LODSQ'' ''a2e0bf45540dca085ee924a6a322b8a8c'',
    iform ''LODSW'' ''a660ffaa3677b6d5c7ac1549ad876a471'',
    iform ''LOOP_RELBRb'' ''a43c666de1f57f37b348ff5dcec414633'',
    iform ''LOOPE_RELBRb'' ''afdb377d43ed36ce90df6024f52348b28'',
    iform ''LOOPNE_RELBRb'' ''ab5063e4638b18ca824667e0e7fc55a87'',
    iform ''LSL_GPRv_GPRz'' ''aa1b087d764f3dfddb327ef850cfc1f43'',
    iform ''LSL_GPRv_MEMw'' ''a74a27690b09e63fd28b822484fd68bfc'',
    iform ''LSS_GPRv_MEMp2'' ''aa8511fd3068cd9338f36b8601994a9b0'',
    iform ''LTR_GPR16'' ''a685e00ff92066162444f3d06d231169a'',
    iform ''LTR_MEMw'' ''aa4fcf03b48d531d58878cb23298b9205'',
    iform ''LWPINS_GPRyy_GPRvd_IMMd'' ''a8f10abe62f16da674a28080abdad6769'',
    iform ''LWPINS_GPRyy_MEMd_IMMd'' ''a71054745c8e6397476e68e7b7f36b84e'',
    iform ''LWPVAL_GPRyy_GPRvd_IMMd'' ''a20dfe638879e6aeaba4819066e0055e3'',
    iform ''LWPVAL_GPRyy_MEMd_IMMd'' ''a7952c679d84f7ceae34d8fda621407ca'',
    iform ''LZCNT_GPRv_GPRv'' ''a5f6da73e82475c00c63efc85662d4e01'',
    iform ''LZCNT_GPRv_MEMv'' ''a1c17074680d3801bf32bbaa6a44a8c22'',
    iform ''MASKMOVDQU_XMMdq_XMMdq'' ''ae93490631cbd0f257887c40eefbe4e35'',
    iform ''MASKMOVQ_MMXq_MMXq'' ''a4abe6cd4424e4167c1fda0dd97938f53'',
    iform ''MAXPD_XMMpd_MEMpd'' ''a21129574b76b156550002dde7dc21cbd'',
    iform ''MAXPD_XMMpd_XMMpd'' ''ad5e8218382977530ca7e54748223ef28'',
    iform ''MAXPS_XMMps_MEMps'' ''aa0d8695f9a35fe209bac5deb182b4f51'',
    iform ''MAXPS_XMMps_XMMps'' ''ab0333eb970fb6ca9c4fe6501dabc3200'',
    iform ''MAXSD_XMMsd_MEMsd'' ''aa45442d7009edf0549635428a96681e5'',
    iform ''MAXSD_XMMsd_XMMsd'' ''a7f660f93455065256e4bf94c0c5321ce'',
    iform ''MAXSS_XMMss_MEMss'' ''a0712b2d45b0c73b914319619e2fba5aa'',
    iform ''MAXSS_XMMss_XMMss'' ''a95720562900f9a688b1d90929cc6a759'',
    iform ''MFENCE'' ''a9a0a3c88992ad6d62d44eba03c19dc5c'',
    iform ''MINPD_XMMpd_MEMpd'' ''a633e1f2ce35de7e64a03835b46bdbc9c'',
    iform ''MINPD_XMMpd_XMMpd'' ''a83de596b2da7dba874cbbc4210bbecc9'',
    iform ''MINPS_XMMps_MEMps'' ''a8a0c102fbbc91de0dd50a359db1a29d1'',
    iform ''MINPS_XMMps_XMMps'' ''a177bd2aee30dcf0fcdba5bbef7640b3e'',
    iform ''MINSD_XMMsd_MEMsd'' ''aac85b5570a41b82744b7f360b2954264'',
    iform ''MINSD_XMMsd_XMMsd'' ''ad86901fe97833d0547b6f96bad46f9e2'',
    iform ''MINSS_XMMss_MEMss'' ''a7959c5dd6a8ad5afa263ec4a0bee8f78'',
    iform ''MINSS_XMMss_XMMss'' ''a990ea0f06b8c21b6d8ebba17724b355b'',
    iform ''MONITOR'' ''a4e4a083c0cd795b603528d4039ede51c'',
    iform ''MOV_AL_MEMb'' ''a7609156c8b38ca6fe3a6809e4ab5db57'',
    iform ''MOV_GPR8_GPR8_88'' ''acbc4daec91f1780dff70b5cca272a043'',
    iform ''MOV_GPR8_GPR8_8A'' ''a3c36f26d80bc72556ac2c0d6dbd494d4'',
    iform ''MOV_GPR8_IMMb_C6r0'' ''af17451787cffdc3785a2f2eefc1e171d'',
    iform ''MOV_GPR8_IMMb_D0'' ''a359fa9f3a0637ee523d90f69ff134efe'',
    iform ''MOV_GPR8_MEMb'' ''af172340715f7085080d268ca0152f278'',
    iform ''MOV_GPRv_GPRv_89'' ''a43a5f5f13e32b9989120c26143fe4f86'',
    iform ''MOV_GPRv_GPRv_8B'' ''a80ac1baa1b65f197a8561715dfe57ef8'',
    iform ''MOV_GPRv_IMMv'' ''a85931015d796753f48ee74b31b1b7efc'',
    iform ''MOV_GPRv_IMMz'' ''aeb8ebc5ae111ae7b728c2a21cd343c5f'',
    iform ''MOV_GPRv_MEMv'' ''ad074f4f3951dbb3e82309115bbec0bd7'',
    iform ''MOV_GPRv_SEG'' ''af86ead9546d194d10cc16e636abb8880'',
    iform ''MOV_MEMb_AL'' ''a029f11f3978c887c946f091763bc704b'',
    iform ''MOV_MEMb_GPR8'' ''a4f8029c7b379875832d36c452ca24e40'',
    iform ''MOV_MEMb_IMMb'' ''a3ca4c5de86f7dd3052835ed3d0044684'',
    iform ''MOV_MEMv_GPRv'' ''a57f3ef586b41f63db1c6ac62b59770b9'',
    iform ''MOV_MEMv_IMMz'' ''a9fe5551d420e8aacaeda332ae6464fb4'',
    iform ''MOV_MEMv_OrAX'' ''a809e0fb8305ed5ca596f4210ee794fbf'',
    iform ''MOV_MEMw_SEG'' ''a903245d32fb89a605935bda4ac6bfd75'',
    iform ''MOV_OrAX_MEMv'' ''ad407b5d20ce6cee4dc79d22176c472f4'',
    iform ''MOV_SEG_GPR16'' ''adab7d0a6acd3202e4566778ded36b5b9'',
    iform ''MOV_SEG_MEMw'' ''ad9efb469585e2429b0983084c4fc1c04'',
    iform ''MOVAPD_MEMpd_XMMpd'' ''a16c4af2f37065b12e32591801daf9097'',
    iform ''MOVAPD_XMMpd_MEMpd'' ''aa679fd5226b33ffa359a30ac392d22fc'',
    iform ''MOVAPD_XMMpd_XMMpd_0F28'' ''add00aeb7a6af16df95f9ebb8c24f12c6'',
    iform ''MOVAPD_XMMpd_XMMpd_0F29'' ''a2ce4a81b33b2292050d034435095e8e5'',
    iform ''MOVAPS_MEMps_XMMps'' ''a861319ab2c7db4a6bbbf098efb430206'',
    iform ''MOVAPS_XMMps_MEMps'' ''aedd25a4257254ccf4aff3fef8accc995'',
    iform ''MOVAPS_XMMps_XMMps_0F28'' ''a79869941873076c9b983514035304fc4'',
    iform ''MOVAPS_XMMps_XMMps_0F29'' ''aaf432c6e52dfdef27d08ea7068dd1ef5'',
    iform ''MOVBE_GPRv_MEMv'' ''a3018084d9ad63e85a3986cf251c5ea23'',
    iform ''MOVBE_MEMv_GPRv'' ''a686dd9be2380b2a6d203f8d3e43af1b0'',
    iform ''MOVD_GPR32_MMXd'' ''ac4fcdbfd9a45ad04f2c27aef16875fe0'',
    iform ''MOVD_GPR32_XMMd'' ''a66fcedd5e4c2cdcbc95eebded4c6de0a'',
    iform ''MOVD_MEMd_MMXd'' ''a6b6d8390565dbb0485688e6d473ee5b1'',
    iform ''MOVD_MEMd_XMMd'' ''a14cd5a019602c682625b283d56c15f71'',
    iform ''MOVD_MMXq_GPR32'' ''abe22d1bea1446023493d276c4349424e'',
    iform ''MOVD_MMXq_MEMd'' ''ae78c6e387c7ce6209c0b8dee0b5cf1f4'',
    iform ''MOVD_XMMdq_GPR32'' ''a60be593f84a0c6df333b1a58802b4cc9'',
    iform ''MOVD_XMMdq_MEMd'' ''a27ba879c4f10d389458fd771be87352a'',
    iform ''MOVDDUP_XMMdq_MEMq'' ''a0ba575589f780dd895709af38c3cc89f'',
    iform ''MOVDDUP_XMMdq_XMMq'' ''aec602d46e2f076bd07796e24f7fc6c47'',
    iform ''MOVDQ2Q_MMXq_XMMq'' ''a9da73a0b715b3d7c9fa95aaa2600e1ae'',
    iform ''MOVDQA_MEMdq_XMMdq'' ''a49b7485265be449cd56e61b81902e801'',
    iform ''MOVDQA_XMMdq_MEMdq'' ''a18cb41cc3a01b92e8d1e9bd18baa1e59'',
    iform ''MOVDQA_XMMdq_XMMdq_0F6F'' ''a2870cd7b2ab0f783e44887a67ae3d3ad'',
    iform ''MOVDQA_XMMdq_XMMdq_0F7F'' ''ac9c058c1b571f8ecd69c83e9bd0d0c9e'',
    iform ''MOVDQU_MEMdq_XMMdq'' ''a57e3017e3d608561d21fda030842cb6f'',
    iform ''MOVDQU_XMMdq_MEMdq'' ''ac3d3d598b44dd50cbd1a587ecabee055'',
    iform ''MOVDQU_XMMdq_XMMdq_0F6F'' ''adc77d0f512fdcf0e002e360c127ebff9'',
    iform ''MOVDQU_XMMdq_XMMdq_0F7F'' ''a1e14971a39689d91534878a9a2e9176d'',
    iform ''MOVHLPS_XMMq_XMMq'' ''a06f63cd262f0509ea1f48d96f4dd64e1'',
    iform ''MOVHPD_MEMq_XMMsd'' ''a3536e52b7de084f1a955352e27485cf4'',
    iform ''MOVHPD_XMMsd_MEMq'' ''aef1a35869f7ae0ae37370aeb918bfaf3'',
    iform ''MOVHPS_MEMq_XMMps'' ''af0f603c142f7f9114f4ff1a017b08f82'',
    iform ''MOVHPS_XMMq_MEMq'' ''a9dbdddc7a2900518294c909b82d58969'',
    iform ''MOVLHPS_XMMq_XMMq'' ''a78c59903cca910d58b7e6cb80a4d4e76'',
    iform ''MOVLPD_MEMq_XMMsd'' ''af168be5b0bb2a4fa43bcd0241bbd3235'',
    iform ''MOVLPD_XMMsd_MEMq'' ''aeeaa455b55e90a9283202e6c8a5abf67'',
    iform ''MOVLPS_MEMq_XMMps'' ''a7b4c5696d85f785fc9ab0c71962aab14'',
    iform ''MOVLPS_XMMq_MEMq'' ''abe7d6b0e3cdb92f42d4e8554d12dd11f'',
    iform ''MOVMSKPD_GPR32_XMMpd'' ''a69656c2add6ecc1cacdaefc996e486f3'',
    iform ''MOVMSKPS_GPR32_XMMps'' ''a1973bbb64eb34664ae37fe6d0f35e087'',
    iform ''MOVNTDQ_MEMdq_XMMdq'' ''a387b62a43100af99ad330b701d1358a2'',
    iform ''MOVNTDQA_XMMdq_MEMdq'' ''a623d1802d416d1309be8250418664be3'',
    iform ''MOVNTI_MEMd_GPR32'' ''a7101c7b46b7e632fb323205ea224e65d'',
    iform ''MOVNTI_MEMq_GPR64'' ''ad33532d61d3c82374b255d64bbe7562e'',
    iform ''MOVNTPD_MEMdq_XMMpd'' ''a66bd75f02e1fc51cd44fb01ccdc60051'',
    iform ''MOVNTPS_MEMdq_XMMps'' ''ab8d355afe1f66a1f589c6291943c649d'',
    iform ''MOVNTQ_MEMq_MMXq'' ''aa2934adf0316d5d9219b7a2dc6f9c77e'',
    iform ''MOVNTSD_MEMq_XMMq'' ''a46f3cbd622f445fee9a2d57567cc2337'']"

lemma xed_iform_enum_8h_values_6_closed: "list_all (closed_node scripts) xed_iform_enum_8h_values_6"
  by (simp only: xed_iform_enum_8h_values_6_def closed_rules iform_closed)

definition xed_iform_enum_8h_values_7 :: "nav_node list" where
  "xed_iform_enum_8h_values_7 = [
    iform ''MOVNTSS_MEMd_XMMd'' ''a7d5f2231b2283517c817cd661bb7ed10'',
    iform ''MOVQ_GPR64_MMXq'' ''a621fca3fdef9a426ea631ec36d16cac2'',
    iform ''MOVQ_GPR64_XMMq'' ''a4c70bbf31a0744206138e09e08417225'',
    iform ''MOVQ_MEMq_MMXq_0F7E'' ''a8a337f92e71292cfd9bfc65f3ee339b2'',
    iform ''MOVQ_MEMq_MMXq_0F7F'' ''aed4424b90c3580c45ba7f867a5af7b77'',
    iform ''MOVQ_MEMq_XMMq_0F7E'' ''a5f97718b1a677826cfb72ceebbfbd658'',
    iform ''MOVQ_MEMq_XMMq_0FD6'' ''a5c644a118af409146c6893fbee902c35'',
    iform ''MOVQ_MMXq_GPR64'' ''a910db44de3546f2b80c75180d964583b'',
    iform ''MOVQ_MMXq_MEMq_0F6E'' ''a19c567551ee1b7a0f17cba4590df7d9a'',
    iform ''MOVQ_MMXq_MEMq_0F6F'' ''a181078591f26a3aec8bc8965b5ef866f'',
    iform ''MOVQ_MMXq_MMXq_0F6F'' ''ac70554bd2426f95fa21df68c45af5b93'',
    iform ''MOVQ_MMXq_MMXq_0F7F'' ''ad38559aefc2a24b0e5dce152e74293b6'',
    iform ''MOVQ_XMMdq_GPR64'' ''a37ab7b558b439e2e17c2e42d28a4167d'',
    iform ''MOVQ_XMMdq_MEMq_0F6E'' ''abcddf6fc889428aa629017f225736bfe'',
    iform ''MOVQ_XMMdq_MEMq_0F7E'' ''a7a120fc311f01d87ad7086b25fd03a4d'',
    iform ''MOVQ_XMMdq_XMMq_0F7E'' ''a87e97750f32d7245e488a0284c5aeea8'',
    iform ''MOVQ_XMMdq_XMMq_0FD6'' ''a9e6643d2bf9f25a03027834c321c613a'',
    iform ''MOVQ2DQ_XMMdq_MMXq'' ''a53469f804829715f24154a7ece8a4230'',
    iform ''MOVSB'' ''a5136c70ad59d8c5e4db6ea9ef5faa242'',
    iform ''MOVSD'' ''a18c509726c0a941e04ad08ed3aad4786'',
    iform ''MOVSD_XMM_MEMsd_XMMsd'' ''a5575eba8fc6c897ab5e225ea48160a26'',
    iform ''MOVSD_XMM_XMMdq_MEMsd'' ''a43559127e5ff020ae9fb5e7c862cb764'',
    iform ''MOVSD_XMM_XMMsd_XMMsd_0F10'' ''ac7202292a002c89bbf44df5d8de83296'',
    iform ''MOVSD_XMM_XMMsd_XMMsd_0F11'' ''a2530b14493d934b89603f74837cf4a56'',
    iform ''MOVSHDUP_XMMps_MEMps'' ''a2cf8045481bd4bc242bb6461179d8769'',
    iform ''MOVSHDUP_XMMps_XMMps'' ''ace2c727c5b7465290d021cbcf713c87f'',
    iform ''MOVSLDUP_XMMps_MEMps'' ''a5de041ad815a92a794c46186a31bd7ea'',
    iform ''MOVSLDUP_XMMps_XMMps'' ''a582b8a012bd7b890554ae66202718a55'',
    iform ''MOVSQ'' ''a0aed4e4d9fde5153b0950ea1de60a0ce'',
    iform ''MOVSS_MEMss_XMMss'' ''a47b397640b703f805640e709a46c9016'',
    iform ''MOVSS_XMMdq_MEMss'' ''a7ae74d3017e95b7668eb8b1d075e4289'',
    iform ''MOVSS_XMMss_XMMss_0F10'' ''a39a8c48c94067803ec05c18fe9804816'',
    iform ''MOVSS_XMMss_XMMss_0F11'' ''a74b293aaac71d99a4d6f0b0c78e0b8a1'',
    iform ''MOVSW'' ''ac5b907a6c3ced0d3ec6734a9ad856491'',
    iform ''MOVSX_GPRv_GPR16'' ''ac8b3420b157178864b3e0d7604a3726a'',
    iform ''MOVSX_GPRv_GPR8'' ''abe2c07a1089e03a1fc7bdb8c3870f912'',
    iform ''MOVSX_GPRv_MEMb'' ''af47135385fc20e83b57a8bac902f8201'',
    iform ''MOVSX_GPRv_MEMw'' ''a900e65f9f5e8102a36c119aafcefa0e5'',
    iform ''MOVSXD_GPRv_GPR32'' ''a04966e59111cab24e6ee3fcb358fc1d2'',
    iform ''MOVSXD_GPRv_MEMd'' ''a18c21d57ae13aa8db3967c87004b92d6'',
    iform ''MOVUPD_MEMpd_XMMpd'' ''a7ba367920e07a8fddb64791c5c2ce435'',
    iform ''MOVUPD_XMMpd_MEMpd'' ''af3ba1176ae024b66f1f05cff3a2b9852'',
    iform ''MOVUPD_XMMpd_XMMpd_0F10'' ''a0610da012b6db0ba62ebdb11ae037bf5'',
    iform ''MOVUPD_XMMpd_XMMpd_0F11'' ''aa89f00c243e4eae77339e9ddaae0830c'',
    iform ''MOVUPS_MEMps_XMMps'' ''a38b8158c41e0feb51d18124d3f2f345e'',
    iform ''MOVUPS_XMMps_MEMps'' ''a8b5e45fbe64ed235f3dc6d64cd693a92'',
    iform ''MOVUPS_XMMps_XMMps_0F10'' ''a4e410b72af35fce5241e542911482716'',
    iform ''MOVUPS_XMMps_XMMps_0F11'' ''ad0bcc605f71b09311ca40174c6669d86'',
    iform ''MOVZX_GPRv_GPR16'' ''a4f66745c68c249ae720ba2272d7c1107'',
    iform ''MOVZX_GPRv_GPR8'' ''a24cf9087474573a92ff4a6ec06659063'',
    iform ''MOVZX_GPRv_MEMb'' ''ad2d71f5b0a32b4d7c3ccad19c06575fd'',
    iform ''MOVZX_GPRv_MEMw'' ''a07057fdcfaa06f904ae53507e993f9f3'',
    iform ''MOV_CR_CR_GPR32'' ''a8188e37b1f09e88455f72b4a0f8a791a'',
    iform ''MOV_CR_CR_GPR64'' ''aa60aa54f167f826787c345d244aead8e'',
    iform ''MOV_CR_GPR32_CR'' ''a08bf47e00960654fdc9cdb5ce195537d'',
    iform ''MOV_CR_GPR64_CR'' ''a0042e3b02a84e84ed0c884c9469ff6f1'',
    iform ''MOV_DR_DR_GPR32'' ''aff312e59bcc322da46cea4a5277417be'',
    iform ''MOV_DR_DR_GPR64'' ''a79f33fc5556826e6d6fa9f298946acd4'',
    iform ''MOV_DR_GPR32_DR'' ''a5721eb318c3295c3735a7fd7f23e6c8e'',
    iform ''MOV_DR_GPR64_DR'' ''a6c902c21affca18a8872172e27845a4a'',
    iform ''MPSADBW_XMMdq_MEMdq_IMMb'' ''a5db529e1ce0075be1ac6144b2d9da4c2'',
    iform ''MPSADBW_XMMdq_XMMdq_IMMb'' ''a5a957b5433a4ee459223dcbe683a4838'',
    iform ''MUL_GPR8'' ''af6425c60a73cdce3289882782ebd9f58'',
    iform ''MUL_GPRv'' ''acbc3fdac6f944751671745111d4b8b9a'',
    iform ''MUL_MEMb'' ''ae3e625af596453cd2023b4d7a6aad5ce'',
    iform ''MUL_MEMv'' ''affa9384ed46f00be713c9deeb5aee657'',
    iform ''MULPD_XMMpd_MEMpd'' ''a59f823b4fa451cb34d2ab4fa502e5560'',
    iform ''MULPD_XMMpd_XMMpd'' ''a2cf303016973ad6e53d159edbb5be817'',
    iform ''MULPS_XMMps_MEMps'' ''a89b3595ecfcc6201672b8de312f3a112'',
    iform ''MULPS_XMMps_XMMps'' ''aadd8e63a46476e024ce01ad032b6a1dc'',
    iform ''MULSD_XMMsd_MEMsd'' ''ad5ced21c9d17bcede99b123bb46570d3'',
    iform ''MULSD_XMMsd_XMMsd'' ''a47ab943d15d5b50ddb4cf2ff6fdaa917'',
    iform ''MULSS_XMMss_MEMss'' ''a200aeb9a06542114234435409ef940b1'',
    iform ''MULSS_XMMss_XMMss'' ''ae9c6872c040f8542dc11bbea71e809fb'',
    iform ''MULX_VGPR32d_VGPR32d_MEMd'' ''a51dc9f4c0b50cb9d68f9d5ef1a13919a'',
    iform ''MULX_VGPR32d_VGPR32d_VGPR32d'' ''a04df02d42df6a166532d64ee62e3efc7'',
    iform ''MULX_VGPR64q_VGPR64q_MEMq'' ''adc58b2b0a66efee6f3ef16774f7cd399'',
    iform ''MULX_VGPR64q_VGPR64q_VGPR64q'' ''aeff982438a195ca5ece48fd28ca4c652'',
    iform ''MWAIT'' ''a0989779a900fdf8f0101bbcfd81a089f'',
    iform ''NEG_GPR8'' ''ac9288be176b162bb515b04ae29bf9280'',
    iform ''NEG_GPRv'' ''acd9b3c1bb2c17d3200930eac76f14085'',
    iform ''NEG_MEMb'' ''ad6e0ab9f73da000447681e3e472da9bc'',
    iform ''NEG_MEMv'' ''a26ad4fee79f795a120fa4c7788d7f922'',
    iform ''NOP_90'' ''aaaf1955ddaefe7a7d514869ed8c54558'',
    iform ''NOP_GPRv_0F18r0'' ''ada90ff1aa8941eaaefb86ba5b4d682d3'',
    iform ''NOP_GPRv_0F18r1'' ''a30091af043254874071465ea4ebfe9c4'',
    iform ''NOP_GPRv_0F18r2'' ''aa339b1dee780006d3eb9ed2c83420d27'',
    iform ''NOP_GPRv_0F18r3'' ''a01a7d6377f45e71dcc401e911d58a8fa'',
    iform ''NOP_GPRv_0F18r4'' ''ae19fe6323e962225519e4ba2156d1db1'',
    iform ''NOP_GPRv_0F18r5'' ''af40a616b1d33fd99bdcf2bd2b852f6a4'',
    iform ''NOP_GPRv_0F18r6'' ''a3369d41b568ccd71541e725c491c0981'',
    iform ''NOP_GPRv_0F18r7'' ''a3752c28e4a1621ce6e4eab11641ba552'',
    iform ''NOP_GPRv_GPRv_0F0D'' ''af2c58721ec7d117810944a703f5b3807'',
    iform ''NOP_GPRv_GPRv_0F19'' ''abbd7284b28f8a59d1a5a865dd961c045'',
    iform ''NOP_GPRv_GPRv_0F1A'' ''a3de17383e54d1b62cd9b038f2542cfad'',
    iform ''NOP_GPRv_GPRv_0F1B'' ''ad7c73d73fc92d23fd2eb5d60f7031d01'',
    iform ''NOP_GPRv_GPRv_0F1C'' ''a9a27a9f9bfb15e89cf133ac5286f5482'',
    iform ''NOP_GPRv_GPRv_0F1D'' ''a4ac0132ea491c6d2f93752e8e5db0d52'',
    iform ''NOP_GPRv_GPRv_0F1E'' ''a0cb641bdc74867a7c97b86f7e32982ee'',
    iform ''NOP_GPRv_GPRv_0F1F'' ''ad77feb2bc09ccb46d1e09927b7152e4e'',
    iform ''NOP_GPRv_MEM_0F1B'' ''af7016528fcb8068d06c68092a5e9d4fc'',
    iform ''NOP_GPRv_MEMv_0F1A'' ''a01ffef65471c63a73e8fa3befd36660f'',
    iform ''NOP_MEMv_0F18r4'' ''ac06827a479e83690faa03e672943cb18'',
    iform ''NOP_MEMv_0F18r5'' ''a58f0c818522c49836e60ea7340665bb7'',
    iform ''NOP_MEMv_0F18r6'' ''acb507f59aaf59110a614eb66db76f427'',
    iform ''NOP_MEMv_0F18r7'' ''a7fe13950d8d807e09a947f9fb9d63aa8'',
    iform ''NOP_MEMv_GPRv_0F19'' ''a3297b47c3cc7531b262a45684fd9c0cb'',
    iform ''NOP_MEMv_GPRv_0F1C'' ''acb384b73b6222ee0ecbd8783ab169647'',
    iform ''NOP_MEMv_GPRv_0F1D'' ''aa2bea4bacdc41318fc9e30137ae56fda'',
    iform ''NOP_MEMv_GPRv_0F1E'' ''a0103f4994d5512c111f97502d09c74a0'',
    iform ''NOP_MEMv_GPRv_0F1F'' ''a761e886d32774cf9339c3dc961e980e6'',
    iform ''NOT_GPR8'' ''a987467e7807aa6c962c94e11ae38ce0b'',
    iform ''NOT_GPRv'' ''aadde584651b101d866df59d7d198a8f1'',
    iform ''NOT_MEMb'' ''aa9a786971c43c810f616d59554966adc'',
    iform ''NOT_MEMv'' ''a75666c8a9751de9863be433e3d2ecc12'',
    iform ''OR_AL_IMMb'' ''a68368de506bea41a63108fcc591135af'',
    iform ''OR_GPR8_GPR8_08'' ''a5a34ec05464d4b546caa84d66be0de1a'',
    iform ''OR_GPR8_GPR8_0A'' ''a4734365afd5316565d36038728cf72c5'',
    iform ''OR_GPR8_IMMb_80r1'' ''abd4a9252356c6183e828b65bf67ecbf2'',
    iform ''OR_GPR8_IMMb_82r1'' ''a2ce4668eff3ee39b412cbeb1f2c77ff0'',
    iform ''OR_GPR8_MEMb'' ''af61d71bce4ef0a5eb75235a4a317cf53'',
    iform ''OR_GPRv_GPRv_09'' ''a00353bed364d284877337f852b0c4f8d'',
    iform ''OR_GPRv_GPRv_0B'' ''ad37ceac7412569e5e44e27fd658153f9'',
    iform ''OR_GPRv_IMMb'' ''ad9142f92f7e0b77c73a34c03df740b86'',
    iform ''OR_GPRv_IMMz'' ''a51bdac1eb1e8df2d194d4e7b2c3e9418'',
    iform ''OR_GPRv_MEMv'' ''aa64f165fcc67c89ec3d7deee856b0c19'',
    iform ''OR_MEMb_GPR8'' ''ac39fa80c64f5a09e2f7661a86d3e8eb3'',
    iform ''OR_MEMb_IMMb_80r1'' ''afd9e1f31e7a149391494ef7b68b58fe9'',
    iform ''OR_MEMb_IMMb_82r1'' ''a82e915b1f3f2c8eba86d7e7d3c69a538'',
    iform ''OR_MEMv_GPRv'' ''ad4f330bdbb43ab944d2c0ec2ff9b96ac'',
    iform ''OR_MEMv_IMMb'' ''aabad73beb32560606a3461ab79323746'',
    iform ''OR_MEMv_IMMz'' ''a9bae7e7dcf84b1a9d1062ffb4545a098'',
    iform ''OR_OrAX_IMMz'' ''a03e74b89609461ab4fe8b7370eac10f9'',
    iform ''ORPD_XMMpd_MEMpd'' ''af5674953e923f8136f8deeebfc2de395'',
    iform ''ORPD_XMMpd_XMMpd'' ''aa4b2a41eaa5f374d9ab473edd48b19ad'',
    iform ''ORPS_XMMps_MEMps'' ''a0862f5b18e7ec2e9c23f01875adc2e3b'',
    iform ''ORPS_XMMps_XMMps'' ''ab1b1a2a62bd9b701ed7d3a79b127bd76'',
    iform ''OUT_DX_AL'' ''a14721cd51d69e71f673525f2048b16f4'',
    iform ''OUT_DX_OeAX'' ''aa0376fa68b8d50fc50260e6f5fc64e2b'',
    iform ''OUT_IMMb_AL'' ''a88d5b93bd3b06397ef752f90111c1dd3'']"

lemma xed_iform_enum_8h_values_7_closed: "list_all (closed_node scripts) xed_iform_enum_8h_values_7"
  by (simp only: xed_iform_enum_8h_values_7_def closed_rules iform_closed)

definition xed_iform_enum_8h_values_8 :: "nav_node list" where
  "xed_iform_enum_8h_values_8 = [
    iform ''OUT_IMMb_OeAX'' ''ab0727d846ad675ac60000b4a3a004e2c'',
    iform ''OUTSB'' ''ac26933948a3f87393c7f14c10b148fb5'',
    iform ''OUTSD'' ''af50d05be1c42a6caf26c40901f94af36'',
    iform ''OUTSW'' ''aa63b1ca214760c1401c4e0bde45740d0'',
    iform ''PABSB_MMXq_MEMq'' ''ad282d9f0a4bcc0123d72df60b7418be9'',
    iform ''PABSB_MMXq_MMXq'' ''a9235f628a09cde9a74247195d6b462e0'',
    iform ''PABSB_XMMdq_MEMdq'' ''a4b4ee24bea699ffe2e387bdb4085aaba'',
    iform ''PABSB_XMMdq_XMMdq'' ''a8a2482b0e5ba405c2ae54f497bcc200a'',
    iform ''PABSD_MMXq_MEMq'' ''a41b5ebf58dc64e5ff1d02e67aa403243'',
    iform ''PABSD_MMXq_MMXq'' ''a176e0a92a5a923a17ded9ef3bc6fa1fc'',
    iform ''PABSD_XMMdq_MEMdq'' ''a8141c1383533039964550d58acb32f4a'',
    iform ''PABSD_XMMdq_XMMdq'' ''afa40eecc67540ee110fd609a514bef66'',
    iform ''PABSW_MMXq_MEMq'' ''a35367c9689660724dcf5b80b137b4733'',
    iform ''PABSW_MMXq_MMXq'' ''a2b02c23b95153cc849b8c6c79fc9b3d6'',
    iform ''PABSW_XMMdq_MEMdq'' ''aef8b88b1e82d01a6ea294174d0e12ce1'',
    iform ''PABSW_XMMdq_XMMdq'' ''ab483614fdd7ca28c7070f9ba49bbb99f'',
    iform ''PACKSSDW_MMXq_MEMq'' ''a3c226dfb373d43482dca5fc1bbbdc684'',
    iform ''PACKSSDW_MMXq_MMXq'' ''a0d1eb90836bdea2b5a487fd38c975640'',
    iform ''PACKSSDW_XMMdq_MEMdq'' ''ab453729f70c459e0ca4e3b17b580cbb7'',
    iform ''PACKSSDW_XMMdq_XMMdq'' ''a03ea33d7711e32632a863ed8097c87a8'',
    iform ''PACKSSWB_MMXq_MEMq'' ''aacb8622ef539b4ab221978e41ad49720'',
    iform ''PACKSSWB_MMXq_MMXq'' ''a3fa7f1ecbc2b8dd30b1a88f78cc5cc0f'',
    iform ''PACKSSWB_XMMdq_MEMdq'' ''a13ea5dfd48655a04eec6aa04ac3401a6'',
    iform ''PACKSSWB_XMMdq_XMMdq'' ''a7bc6c5bdc530e20978b0f3193d794bbc'',
    iform ''PACKUSDW_XMMdq_MEMdq'' ''a11236602778886863f263fac85e59d19'',
    iform ''PACKUSDW_XMMdq_XMMdq'' ''a50e0f9d177d43717d2f6df3ed9074e1d'',
    iform ''PACKUSWB_MMXq_MEMq'' ''a51848b9a5a64bc64e632d7bcf9c5dd1b'',
    iform ''PACKUSWB_MMXq_MMXq'' ''a31936490156b81f2d939f56f529325d4'',
    iform ''PACKUSWB_XMMdq_MEMdq'' ''a0ff5c2662d041f89606d1d0e4bcdfb4e'',
    iform ''PACKUSWB_XMMdq_XMMdq'' ''a7eef4e61f4cb2e475213d6f015fae8bb'',
    iform ''PADDB_MMXq_MEMq'' ''a8dca5522d3e24e6913fa2c82a747a826'',
    iform ''PADDB_MMXq_MMXq'' ''a04562ce192085011b881dabd8904d1ea'',
    iform ''PADDB_XMMdq_MEMdq'' ''a4f977ef2ae3f865216ef61c1e234f93c'',
    iform ''PADDB_XMMdq_XMMdq'' ''a73c825c1d8fc35fbecde088e466d2775'',
    iform ''PADDD_MMXq_MEMq'' ''a86c4354b77cd36614a6a62029f54d03b'',
    iform ''PADDD_MMXq_MMXq'' ''aa35ed7cce723791df32cc75e177e20f8'',
    iform ''PADDD_XMMdq_MEMdq'' ''a7f5f35d6f83f662e074830ebae92b4dc'',
    iform ''PADDD_XMMdq_XMMdq'' ''af285af482cc3abb7c8961252eb34fceb'',
    iform ''PADDQ_MMXq_MEMq'' ''a6bd6f23c888f1d56521c23095245d678'',
    iform ''PADDQ_MMXq_MMXq'' ''a47434fd6e1aefbfaa6904f887fbd4b57'',
    iform ''PADDQ_XMMdq_MEMdq'' ''a799985ba7af7053d4af1bd22630aadcc'',
    iform ''PADDQ_XMMdq_XMMdq'' ''a6a1708f0dbab066be399b62991d62f7a'',
    iform ''PADDSB_MMXq_MEMq'' ''a0a61331858c87b91b20fe99c01d89448'',
    iform ''PADDSB_MMXq_MMXq'' ''a3981a39d8da4c65d42d5c5380dd5365f'',
    iform ''PADDSB_XMMdq_MEMdq'' ''a754403bebd04288b2615c347b090da3e'',
    iform ''PADDSB_XMMdq_XMMdq'' ''ad46bc3d7ee082c90c243ab08eb783f81'',
    iform ''PADDSW_MMXq_MEMq'' ''a969194c0728669af466bda0ceb49ac4c'',
    iform ''PADDSW_MMXq_MMXq'' ''ac51d7572dce1a98eacd1ebccc17d09df'',
    iform ''PADDSW_XMMdq_MEMdq'' ''a5317c0e2785f4cb705743d574c4b42d9'',
    iform ''PADDSW_XMMdq_XMMdq'' ''ad99d5289b34db114bf14b6f3cacc5c39'',
    iform ''PADDUSB_MMXq_MEMq'' ''af95913d996008259a5818120a36af7c4'',
    iform ''PADDUSB_MMXq_MMXq'' ''ac2cbc81338acbe00fe9d417b857dd953'',
    iform ''PADDUSB_XMMdq_MEMdq'' ''a66affbfdfa37baf25a22b4bc9978a47b'',
    iform ''PADDUSB_XMMdq_XMMdq'' ''a7f9c624c72187678231f9e0d4b4224b5'',
    iform ''PADDUSW_MMXq_MEMq'' ''aa9d89e67ba9ee30e01f4fc08042df765'',
    iform ''PADDUSW_MMXq_MMXq'' ''ab17c194513cb3233b6ef1143d3634aeb'',
    iform ''PADDUSW_XMMdq_MEMdq'' ''ac4f77976c45a6d4d035f56368fefb056'',
    iform ''PADDUSW_XMMdq_XMMdq'' ''a3dab23279b8ce3387cca80b2fb0baba5'',
    iform ''PADDW_MMXq_MEMq'' ''a4e8a5c5eed6af4ed04b7767593070289'',
    iform ''PADDW_MMXq_MMXq'' ''abc563c803f68b9d3aee8ae2a9ca380c6'',
    iform ''PADDW_XMMdq_MEMdq'' ''a19c6bffea0e162e547f5535d965d6b35'',
    iform ''PADDW_XMMdq_XMMdq'' ''a15324a8a550c976ffc794fb0b685a667'',
    iform ''PALIGNR_MMXq_MEMq_IMMb'' ''aa2fbfa72e18ccee5bbea227342b9474b'',
    iform ''PALIGNR_MMXq_MMXq_IMMb'' ''ab75fa241518b208264c3942f3c65eedb'',
    iform ''PALIGNR_XMMdq_MEMdq_IMMb'' ''aacfc396fc6845fce3d9d30e4d8ce1153'',
    iform ''PALIGNR_XMMdq_XMMdq_IMMb'' ''ac048fc65d3199d8e33f8657d2011ff26'',
    iform ''PAND_MMXq_MEMq'' ''a9a2f73a5af48c3c3576cebe18dcb07a3'',
    iform ''PAND_MMXq_MMXq'' ''a448b4dc9058403a9e611d4c6833801e5'',
    iform ''PAND_XMMdq_MEMdq'' ''a776c08e853001832a65bceb55923738f'',
    iform ''PAND_XMMdq_XMMdq'' ''ac8c050d13adb6233deb306d9c835c84a'',
    iform ''PANDN_MMXq_MEMq'' ''ae8d91c1da700d0709f9a0d24694133d9'',
    iform ''PANDN_MMXq_MMXq'' ''a402ada47858cdedd210ba34628d57842'',
    iform ''PANDN_XMMdq_MEMdq'' ''afd77a48ef08098d890fbf6c165b5a88a'',
    iform ''PANDN_XMMdq_XMMdq'' ''a7ca1d473f6884058d66e6beca99119f4'',
    iform ''PAUSE'' ''aab779d692791b57e3ca63d7e191c9d5b'',
    iform ''PAVGB_MMXq_MEMq'' ''ad3041fc9228f435b258b313e69855d06'',
    iform ''PAVGB_MMXq_MMXq'' ''a350de5e8731253177c6825967977ebdc'',
    iform ''PAVGB_XMMdq_MEMdq'' ''aa19e0634ae92d3f70ed55a8ef8c53a03'',
    iform ''PAVGB_XMMdq_XMMdq'' ''a4fe977f52b629c677996b72c5d59fbb0'',
    iform ''PAVGUSB_MMXq_MEMq'' ''a032500ae8f49ff23366835871299cea5'',
    iform ''PAVGUSB_MMXq_MMXq'' ''af77eb283fee322bb110b3f5d43d82ef7'',
    iform ''PAVGW_MMXq_MEMq'' ''afc06e2b0ea73856590b73819a9eb5820'',
    iform ''PAVGW_MMXq_MMXq'' ''a2e7476955cbea89b1c4d8de7ab88235b'',
    iform ''PAVGW_XMMdq_MEMdq'' ''a28c3a4f8f58221f038b78ef2ca2a0f86'',
    iform ''PAVGW_XMMdq_XMMdq'' ''ac4c1e9152ad1ff70c0ffe24f80332caf'',
    iform ''PBLENDVB_XMMdq_MEMdq'' ''a77a941fef84271df58616723289f5ba9'',
    iform ''PBLENDVB_XMMdq_XMMdq'' ''a2c71a2b74f94693ad65738101fe64518'',
    iform ''PBLENDW_XMMdq_MEMdq_IMMb'' ''a744e5fe4505dea53e40fc2d22145c132'',
    iform ''PBLENDW_XMMdq_XMMdq_IMMb'' ''a666ed18789ab35fe682f8be5406f4d62'',
    iform ''PCLMULQDQ_XMMdq_MEMdq_IMMb'' ''af893348a80c790149ed3a91583d43e8f'',
    iform ''PCLMULQDQ_XMMdq_XMMdq_IMMb'' ''a09fd626294ea720ec75d2fb0e91692a3'',
    iform ''PCMPEQB_MMXq_MEMq'' ''a49593a78701a8d7cd097211939ace352'',
    iform ''PCMPEQB_MMXq_MMXq'' ''a299b52fc7850843eba916d82dd56681b'',
    iform ''PCMPEQB_XMMdq_MEMdq'' ''a913ebd49b2aeb7604a5df6ac9ecca7fa'',
    iform ''PCMPEQB_XMMdq_XMMdq'' ''ada78cbd4a61bc5da7ba380cae6e9db55'',
    iform ''PCMPEQD_MMXq_MEMq'' ''a4a2402b13ebeefd6c805774b2ae782b2'',
    iform ''PCMPEQD_MMXq_MMXq'' ''aecfe9bf0f539b95391950952c25767b3'',
    iform ''PCMPEQD_XMMdq_MEMdq'' ''ab52a1ef8cb86e7bd34a0db85ec86c472'',
    iform ''PCMPEQD_XMMdq_XMMdq'' ''a1fc7ae09f8352c9387c64195b03bdf2f'',
    iform ''PCMPEQQ_XMMdq_MEMdq'' ''a6660bc273540bf0367efad5283f53359'',
    iform ''PCMPEQQ_XMMdq_XMMdq'' ''a8f0121200ff97d8ddfdb5b22f7115e96'',
    iform ''PCMPEQW_MMXq_MEMq'' ''aa4eccdda9ef3fe13af4e1d4173a7a453'',
    iform ''PCMPEQW_MMXq_MMXq'' ''a141dd0a5c6a463f02f07ac494cfbf694'',
    iform ''PCMPEQW_XMMdq_MEMdq'' ''aab76e1136bb03aae50fc22f6e6f53c88'',
    iform ''PCMPEQW_XMMdq_XMMdq'' ''adabbc3afade510600c3de5608bd1c0a7'',
    iform ''PCMPESTRI_XMMdq_MEMdq_IMMb'' ''a1783e7065650bcb673d57368ef852944'',
    iform ''PCMPESTRI_XMMdq_XMMdq_IMMb'' ''a79790b809caad1d4529878a8eadec0aa'',
    iform ''PCMPESTRM_XMMdq_MEMdq_IMMb'' ''a511aeb95c5cd55d8006fe624c283bf50'',
    iform ''PCMPESTRM_XMMdq_XMMdq_IMMb'' ''a7444cc7e9c4f812a72580548f86df8b7'',
    iform ''PCMPGTB_MMXq_MEMq'' ''a879edf14ad0f605bda9c141430f3f480'',
    iform ''PCMPGTB_MMXq_MMXq'' ''a076736995ecda45d8ff76dfa69866ed9'',
    iform ''PCMPGTB_XMMdq_MEMdq'' ''a10a2e833dfd9e640099a7d495b85d89a'',
    iform ''PCMPGTB_XMMdq_XMMdq'' ''a53b50cc90259a6ea055a2b02012216a9'',
    iform ''PCMPGTD_MMXq_MEMq'' ''a0e64536b18c748bc2446a5903013f782'',
    iform ''PCMPGTD_MMXq_MMXq'' ''a1b1dbd7b261439358ddc9a74a01ece84'',
    iform ''PCMPGTD_XMMdq_MEMdq'' ''a686c373893ca213465933c71fa06cc4f'',
    iform ''PCMPGTD_XMMdq_XMMdq'' ''a0e71d2a50684ec32c6ea705a19e5b06f'',
    iform ''PCMPGTQ_XMMdq_MEMdq'' ''a4662bd12392b16a43964f403e306fc48'',
    iform ''PCMPGTQ_XMMdq_XMMdq'' ''af2ff283f40553bf08cb96e3e5915da08'',
    iform ''PCMPGTW_MMXq_MEMq'' ''a1f4f4e088e0057dbdc8856d43eda15f8'',
    iform ''PCMPGTW_MMXq_MMXq'' ''a1bf9c189517930c5e578f9efc04ad588'',
    iform ''PCMPGTW_XMMdq_MEMdq'' ''a155e34db0a4cce7fb45d1875338b7f2d'',
    iform ''PCMPGTW_XMMdq_XMMdq'' ''adfe58216d6d50bd1ab0bc5cb7a955296'',
    iform ''PCMPISTRI_XMMdq_MEMdq_IMMb'' ''ab33fc14794c9ca295ee71a83098fdc85'',
    iform ''PCMPISTRI_XMMdq_XMMdq_IMMb'' ''af362e27794ecbdb5c2dbd49e76b79dce'',
    iform ''PCMPISTRM_XMMdq_MEMdq_IMMb'' ''a47c201e595ac4ba15fba6e13a8de1180'',
    iform ''PCMPISTRM_XMMdq_XMMdq_IMMb'' ''a4bc09a5c765500a325292b8d0c09c502'',
    iform ''PCOMMIT'' ''a787ab382e198f3efe917d4d69508cd41'',
    iform ''PDEP_VGPR32d_VGPR32d_MEMd'' ''a3200011adc1e7babce91e753a7c5a04b'',
    iform ''PDEP_VGPR32d_VGPR32d_VGPR32d'' ''ab2b5a0c2fbf5854524c93d0c9d1be13c'',
    iform ''PDEP_VGPR64q_VGPR64q_MEMq'' ''aa7ef73719b4828b2cb4b480723f085f3'',
    iform ''PDEP_VGPR64q_VGPR64q_VGPR64q'' ''a9d71d4ccf125b0ae394422580710fb66'',
    iform ''PEXT_VGPR32d_VGPR32d_MEMd'' ''a751230575bfa468074e6dd4a6010cfcf'',
    iform ''PEXT_VGPR32d_VGPR32d_VGPR32d'' ''a4fbef2af8167afc1dbadf739909efd59'',
    iform ''PEXT_VGPR64q_VGPR64q_MEMq'' ''a6444b6b4fe6984a73d9aebaa2ec7f33e'',
    iform ''PEXT_VGPR64q_VGPR64q_VGPR64q'' ''aa07e3130eca1cc93119007c2b5a87777'',
    iform ''PEXTRB_GPR32d_XMMdq_IMMb'' ''a361564009754c36a4d252ca4fcfd6404'',
    iform ''PEXTRB_MEMb_XMMdq_IMMb'' ''a38ad07a68f67429f4417a3800267467f'',
    iform ''PEXTRD_GPR32d_XMMdq_IMMb'' ''a9ee949841beed519ce82a21f1ec23ba3'',
    iform ''PEXTRD_MEMd_XMMdq_IMMb'' ''a3174c1f67e2ece6935657153686a6f49'']"

lemma xed_iform_enum_8h_values_8_closed: "list_all (closed_node scripts) xed_iform_enum_8h_values_8"
  by (simp only: xed_iform_enum_8h_values_8_def closed_rules iform_closed)

definition xed_iform_enum_8h_values_9 :: "nav_node list" where
  "xed_iform_enum_8h_values_9 = [
    iform ''PEXTRQ_GPR64q_XMMdq_IMMb'' ''ae92e8ccf7d0a1b6343c2a598f040d495'',
    iform ''PEXTRQ_MEMq_XMMdq_IMMb'' ''a221106257a906708b54b4a26ff7cf4e2'',
    iform ''PEXTRW_GPR32_MMXq_IMMb'' ''a783f7b5ac88e2e18692ee6dfee4624bd'',
    iform ''PEXTRW_GPR32_XMMdq_IMMb'' ''af4a1d9ea3292523616a445006fbdea2d'',
    iform ''PEXTRW_SSE4_GPR32_XMMdq_IMMb'' ''a2182f9bc0c177cfb9f800dbd5bc2dba0'',
    iform ''PEXTRW_SSE4_MEMw_XMMdq_IMMb'' ''a6fdb231a7b74127a19753f77a050fa5e'',
    iform ''PF2ID_MMXq_MEMq'' ''ad104ea7bfb4305d8fad048de78e817ad'',
    iform ''PF2ID_MMXq_MMXq'' ''a055455a6f2f67d7ffa4062024d9fdab3'',
    iform ''PF2IW_MMXq_MEMq'' ''a074d0632dfe7a7f1587e1695c61a5a7e'',
    iform ''PF2IW_MMXq_MMXq'' ''a90567b5a185a1fccfd4c7c9deef41e45'',
    iform ''PFACC_MMXq_MEMq'' ''aa1f70a1a2eae431667e8ee02fb82c857'',
    iform ''PFACC_MMXq_MMXq'' ''abf81b8c9924de38c51c5dde5b6848ca1'',
    iform ''PFADD_MMXq_MEMq'' ''aa3d9a51c39e6e2bbadb2bbc6715377b5'',
    iform ''PFADD_MMXq_MMXq'' ''a84e58df1dfa2bdca462729588a324705'',
    iform ''PFCMPEQ_MMXq_MEMq'' ''ab44cfbbcac5ff9847694068aa1bba0d3'',
    iform ''PFCMPEQ_MMXq_MMXq'' ''a2fd5af63ad8e36b6dce3a0b1a2a3967b'',
    iform ''PFCMPGE_MMXq_MEMq'' ''aac1beadfec92503c10b136792036d9a1'',
    iform ''PFCMPGE_MMXq_MMXq'' ''aee64c913274a8bea743a4f5d630bdd8b'',
    iform ''PFCMPGT_MMXq_MEMq'' ''a5c8624387d4b22c5378491be444b67f9'',
    iform ''PFCMPGT_MMXq_MMXq'' ''abcc589ef017c23cc5a7a7d8eaac5ccaf'',
    iform ''PFCPIT1_MMXq_MEMq'' ''a9512416a08be8145e6652d0a21c8f6e0'',
    iform ''PFCPIT1_MMXq_MMXq'' ''adda05da118e1650a2ce43d9895c9a0f0'',
    iform ''PFMAX_MMXq_MEMq'' ''a03414eeaf5853c70a9ffceeba97dcfed'',
    iform ''PFMAX_MMXq_MMXq'' ''af2e5fa26a9e65fc3b48232ad70d247a1'',
    iform ''PFMIN_MMXq_MEMq'' ''aca46b7bf2fa880b9148955c970cd4e48'',
    iform ''PFMIN_MMXq_MMXq'' ''a18bf32e40898afd04e45de2acc25fe6a'',
    iform ''PFMUL_MMXq_MEMq'' ''af2db882eb480920f497875dcdea3f513'',
    iform ''PFMUL_MMXq_MMXq'' ''a452ce64548df3e764a9d52da1db57848'',
    iform ''PFNACC_MMXq_MEMq'' ''ab7e3f9dafd5a84b898532e03ef28935d'',
    iform ''PFNACC_MMXq_MMXq'' ''a842973093a4aa65bc0013eb0e250fd08'',
    iform ''PFPNACC_MMXq_MEMq'' ''aeab11d7df18906d88a93a92dba42198f'',
    iform ''PFPNACC_MMXq_MMXq'' ''aa14dcfafe2d4a1f569b8dbac64c4775a'',
    iform ''PFRCP_MMXq_MEMq'' ''ac44ac0fe081f5053d8fbd90189412c14'',
    iform ''PFRCP_MMXq_MMXq'' ''ab790f7a03075ac3d58a4beb52d444993'',
    iform ''PFRCPIT2_MMXq_MEMq'' ''ac219b3f2af711968c47ccd9d9b2b792c'',
    iform ''PFRCPIT2_MMXq_MMXq'' ''a3e8175aa177b9ebd7f17c3dc873457f6'',
    iform ''PFRSQIT1_MMXq_MEMq'' ''ae0e47aa5532dc4fd8814e213b22c992e'',
    iform ''PFRSQIT1_MMXq_MMXq'' ''acba0fd1598ba70185652ba4e989d82f8'',
    iform ''PFSQRT_MMXq_MEMq'' ''a063fb40cf1cd256586033816cbf32d4e'',
    iform ''PFSQRT_MMXq_MMXq'' ''ab6e7c21ffd0e649bd65814a592e0875e'',
    iform ''PFSUB_MMXq_MEMq'' ''a2c14fa2ee190d8e06e552b72adca3f2e'',
    iform ''PFSUB_MMXq_MMXq'' ''a75cc05713d2828477658154f818d6c10'',
    iform ''PFSUBR_MMXq_MEMq'' ''a946d1d8b3c40f8108af83ba83eda81e6'',
    iform ''PFSUBR_MMXq_MMXq'' ''a8b8494dc1cbfa51e9bdeb3701b0e5645'',
    iform ''PHADDD_MMXq_MEMq'' ''a0664e01955644089b340f8dda1dddde0'',
    iform ''PHADDD_MMXq_MMXq'' ''a735b934badc7f03eb7d751e611fc6d1d'',
    iform ''PHADDD_XMMdq_MEMdq'' ''a95fa31abcddf9e2ba241cf06a1b6ee26'',
    iform ''PHADDD_XMMdq_XMMdq'' ''a35a057107179c9579a57d253e201b992'',
    iform ''PHADDSW_MMXq_MEMq'' ''a623771c3e1316cf7d5264166be293035'',
    iform ''PHADDSW_MMXq_MMXq'' ''a33116dffe22515d6f60b49bf56b133ab'',
    iform ''PHADDSW_XMMdq_MEMdq'' ''af99ff75811837baa39a448458dc0de65'',
    iform ''PHADDSW_XMMdq_XMMdq'' ''afff8f701f2e65e447de216aa4d6f0697'',
    iform ''PHADDW_MMXq_MEMq'' ''a419b35f7efd8c751ff86fbf5a6ed5ab9'',
    iform ''PHADDW_MMXq_MMXq'' ''a4b6f783dceaafc4b29f5432beb70baf4'',
    iform ''PHADDW_XMMdq_MEMdq'' ''ae36e1d60295500f0ab9ec1ef7629f191'',
    iform ''PHADDW_XMMdq_XMMdq'' ''a57c1e6abfb80dada9a055df6b9a3e86b'',
    iform ''PHMINPOSUW_XMMdq_MEMdq'' ''af404812627242047752e28e3bafd20ec'',
    iform ''PHMINPOSUW_XMMdq_XMMdq'' ''a5c61523c81f17724f22fbce355e9a8d2'',
    iform ''PHSUBD_MMXq_MEMq'' ''a3a5c23cc478f2001fbdce7a9e328eb69'',
    iform ''PHSUBD_MMXq_MMXq'' ''a6517eb4d3ad2b5d8ab48d2c428bd57f2'',
    iform ''PHSUBD_XMMdq_MEMdq'' ''ab349e692cb9a1dd3c667ba77a22d78d6'',
    iform ''PHSUBD_XMMdq_XMMdq'' ''ae8d2abf32485916d96f62bcfb59bcf51'',
    iform ''PHSUBSW_MMXq_MEMq'' ''a347aea05005c8f347c1083a61524a38d'',
    iform ''PHSUBSW_MMXq_MMXq'' ''a3603d1b42ff29bbf75a24b1779deccb8'',
    iform ''PHSUBSW_XMMdq_MEMdq'' ''a8fb01a0033bac518e87d8724a004cd34'',
    iform ''PHSUBSW_XMMdq_XMMdq'' ''a47f23b9e4edb3c50a34788842af0864d'',
    iform ''PHSUBW_MMXq_MEMq'' ''a0461915c292bdb58df7c688279e72b50'',
    iform ''PHSUBW_MMXq_MMXq'' ''a0b526b793ff2837e2803c47ee88e4a3f'',
    iform ''PHSUBW_XMMdq_MEMdq'' ''a03a7b9f79125998cd01609aec3b04bab'',
    iform ''PHSUBW_XMMdq_XMMdq'' ''ac4b0348fe6547c28524b4a90d3c614cc'',
    iform ''PI2FD_MMXq_MEMq'' ''aa753069c1c125f2e26030a555b65136f'',
    iform ''PI2FD_MMXq_MMXq'' ''a0c10e069840e1342bdf7247e56c616ef'',
    iform ''PI2FW_MMXq_MEMq'' ''aae1c33fd15aa6f1adb5624d6daf8b214'',
    iform ''PI2FW_MMXq_MMXq'' ''a094a491e3b1647c3c3e4620f42090de0'',
    iform ''PINSRB_XMMdq_GPR32d_IMMb'' ''a86fac25347fdb2705bb7c761ba5e80cf'',
    iform ''PINSRB_XMMdq_MEMb_IMMb'' ''a6aa3eff6dd9a551977c3b7fb47c7abea'',
    iform ''PINSRD_XMMdq_GPR32d_IMMb'' ''a25200cdc565e1879f0ae682007a3fbdd'',
    iform ''PINSRD_XMMdq_MEMd_IMMb'' ''ae3b86ec1b188b0181b90b4e85ee98160'',
    iform ''PINSRQ_XMMdq_GPR64q_IMMb'' ''a672a86804200d10950af7fa89c597ad6'',
    iform ''PINSRQ_XMMdq_MEMq_IMMb'' ''a06623d6e647916046aad9aa39e479b46'',
    iform ''PINSRW_MMXq_GPR32_IMMb'' ''a90bc43d514ddf8440490dc9ba6459fac'',
    iform ''PINSRW_MMXq_MEMw_IMMb'' ''a14eed7fa4b127731aabd4047357e96c8'',
    iform ''PINSRW_XMMdq_GPR32_IMMb'' ''a25c365da05f7b6b9d863f60f242dcf67'',
    iform ''PINSRW_XMMdq_MEMw_IMMb'' ''a85fd3777c0a223a4d69018d7ccc6ffbc'',
    iform ''PMADDUBSW_MMXq_MEMq'' ''ab11403ab859fb845c5c9d65a0f3e05e7'',
    iform ''PMADDUBSW_MMXq_MMXq'' ''ab7bc987d25eb17914d5b1a795ffceef5'',
    iform ''PMADDUBSW_XMMdq_MEMdq'' ''a728d57d630143614961001f30133961b'',
    iform ''PMADDUBSW_XMMdq_XMMdq'' ''a7deec83aefceeb1b3c88de8fbb4a2014'',
    iform ''PMADDWD_MMXq_MEMq'' ''a0a2d3f0ec26395961866ebce41c1f266'',
    iform ''PMADDWD_MMXq_MMXq'' ''a93ca81e55411e3d0dc0cdf81d7d69615'',
    iform ''PMADDWD_XMMdq_MEMdq'' ''ae5deaabd500edacfb15160b233f0b9eb'',
    iform ''PMADDWD_XMMdq_XMMdq'' ''a872cf5a4b52061a4dc2acfe2024acf8c'',
    iform ''PMAXSB_XMMdq_MEMdq'' ''adc52a7c337f678f8109c4ec44ac0bf37'',
    iform ''PMAXSB_XMMdq_XMMdq'' ''a546a495e87e5f0f9c61240e73bc1bb8e'',
    iform ''PMAXSD_XMMdq_MEMdq'' ''afb4c9bfd7bfd023177d17825e055e467'',
    iform ''PMAXSD_XMMdq_XMMdq'' ''aeab17fb80c2b53c50f89e0d70a0ced5c'',
    iform ''PMAXSW_MMXq_MEMq'' ''a14a2452ba8b8ae0a182ea597d303780f'',
    iform ''PMAXSW_MMXq_MMXq'' ''a7169c1d5f3533bedad1d58ea3c689939'',
    iform ''PMAXSW_XMMdq_MEMdq'' ''a7c523c44fb96dfd70f1a3e4027e68a38'',
    iform ''PMAXSW_XMMdq_XMMdq'' ''a53eb8da7e40bc3329050a7390846d401'',
    iform ''PMAXUB_MMXq_MEMq'' ''a1a52fd4a2d5474155e9a0862bf515e8d'',
    iform ''PMAXUB_MMXq_MMXq'' ''aa6c8e6b8b8c75e79ea02d7d8387d2318'',
    iform ''PMAXUB_XMMdq_MEMdq'' ''a3302c747c6a726fad2d6a7496662113f'',
    iform ''PMAXUB_XMMdq_XMMdq'' ''a8d7a8011c4735f7cb9968af77dcc2a23'',
    iform ''PMAXUD_XMMdq_MEMdq'' ''a9ba6b271f94ea6c2a0147aa9aa814466'',
    iform ''PMAXUD_XMMdq_XMMdq'' ''a53f75fe80781192d3bdbe4eea9b9280c'',
    iform ''PMAXUW_XMMdq_MEMdq'' ''a06f9ea5b096d669d8999c5dd2c613854'',
    iform ''PMAXUW_XMMdq_XMMdq'' ''a402ca110d3df3eedd16982f1f3bbdab2'',
    iform ''PMINSB_XMMdq_MEMdq'' ''a0f431afc981950e1f09109a264e78143'',
    iform ''PMINSB_XMMdq_XMMdq'' ''a3723f7dc6d6f63d6f0d5550f05a4e395'',
    iform ''PMINSD_XMMdq_MEMdq'' ''a0541f331492929a06782b9fd9bba5bc6'',
    iform ''PMINSD_XMMdq_XMMdq'' ''a27f138032c00284117b506ff5671c135'',
    iform ''PMINSW_MMXq_MEMq'' ''ac4db1e9cb652c4893201311ad109272c'',
    iform ''PMINSW_MMXq_MMXq'' ''af1aa85d6bc3387b5ad307458acaa9a9f'',
    iform ''PMINSW_XMMdq_MEMdq'' ''a02459451ea60b7939371a8d2e30e814f'',
    iform ''PMINSW_XMMdq_XMMdq'' ''ae33f2fc5f325fccedf508218bc73e76e'',
    iform ''PMINUB_MMXq_MEMq'' ''aabcff5c2c9418c79ec3dd59dcc23d9ec'',
    iform ''PMINUB_MMXq_MMXq'' ''aefc836eeed30a127eb45355ccba6b57f'',
    iform ''PMINUB_XMMdq_MEMdq'' ''a7583b3eb78447de87735478ba12a3d1a'',
    iform ''PMINUB_XMMdq_XMMdq'' ''a952e9af10f31ea854a83dcca98876c12'',
    iform ''PMINUD_XMMdq_MEMdq'' ''a7b88ddd4101103eb37d0cb402a21ba3f'',
    iform ''PMINUD_XMMdq_XMMdq'' ''a6ab470ac75fe8ef922eea34a2bdbeb98'',
    iform ''PMINUW_XMMdq_MEMdq'' ''a89bb9b3f0fe4febf1ea5e2ca376a37d2'',
    iform ''PMINUW_XMMdq_XMMdq'' ''a67226d4ad27d726614353a8386b4ea7c'',
    iform ''PMOVMSKB_GPR32_MMXq'' ''a745381c0d62906ff0086b0532193d92d'',
    iform ''PMOVMSKB_GPR32_XMMdq'' ''a1ce22007594906e431cda9d27bf13159'',
    iform ''PMOVSXBD_XMMdq_MEMd'' ''a6f64910b053624938db76299c1eeb8ad'',
    iform ''PMOVSXBD_XMMdq_XMMd'' ''a82b51d44a1fcd91d498a5c1b4a047d41'',
    iform ''PMOVSXBQ_XMMdq_MEMw'' ''a028a85d2a0ffe400e7e09c0ecddbd2d6'',
    iform ''PMOVSXBQ_XMMdq_XMMw'' ''a9164bcc4784a50eb1284896e9f34a8df'',
    iform ''PMOVSXBW_XMMdq_MEMq'' ''ac067039b670d38ce7ea2f57f7d577a7b'',
    iform ''PMOVSXBW_XMMdq_XMMq'' ''a5096190ddf06aebed4353119b029939a'',
    iform ''PMOVSXDQ_XMMdq_MEMq'' ''add63e0150f13ecd239377dc95b2ba4eb'',
    iform ''PMOVSXDQ_XMMdq_XMMq'' ''a97a81212214bfbebb80ed6e03f093b07'',
    iform ''PMOVSXWD_XMMdq_MEMq'' ''add51dedf7c867c686834094ffa5ba7f4'',
    iform ''PMOVSXWD_XMMdq_XMMq'' ''afba3ccbb6b41c749aead1229781120b3'',
    iform ''PMOVSXWQ_XMMdq_MEMd'' ''a6134cf8e40ac1e57f2d334b72f7ca283'',
    iform ''PMOVSXWQ_XMMdq_XMMd'' ''a2bf6afb6e82b272c4aef8c6e640c6d5f'',
    iform ''PMOVZXBD_XMMdq_MEMd'' ''a4b0d1fe3273a302b5e39027b0aab903c'',
    iform ''PMOVZXBD_XMMdq_XMMd'' ''a86032d7113bd0e04ca04e28d4b3d324e'']"

lemma xed_iform_enum_8h_values_9_closed: "list_all (closed_node scripts) xed_iform_enum_8h_values_9"
  by (simp only: xed_iform_enum_8h_values_9_def closed_rules iform_closed)

definition xed_iform_enum_8h_values_10 :: "nav_node list" where
  "xed_iform_enum_8h_values_10 = [
    iform ''PMOVZXBQ_XMMdq_MEMw'' ''a434c415759fbcc3c28a6ba1b20d5e10a'',
    iform ''PMOVZXBQ_XMMdq_XMMw'' ''a93feb2a7d80341aa5b0e4bcce29622b3'',
    iform ''PMOVZXBW_XMMdq_MEMq'' ''a01aa0df6a34fb307bdc94f39e4dfb61c'',
    iform ''PMOVZXBW_XMMdq_XMMq'' ''aeadaee660018c33829fb0568d32e0a15'',
    iform ''PMOVZXDQ_XMMdq_MEMq'' ''a1a163c632a175b392991b672fe815d11'',
    iform ''PMOVZXDQ_XMMdq_XMMq'' ''ae4d897814b341fdcac9bf043c18c2bbf'',
    iform ''PMOVZXWD_XMMdq_MEMq'' ''abca057cc5427e1fe968ec1ee62c648d1'',
    iform ''PMOVZXWD_XMMdq_XMMq'' ''a80cb5499ec65e61082b07dec646c706f'',
    iform ''PMOVZXWQ_XMMdq_MEMd'' ''a11cd27834e161eb10d41bf164e9278c6'',
    iform ''PMOVZXWQ_XMMdq_XMMd'' ''ae45eca32beff98e20982248a0c69cf56'',
    iform ''PMULDQ_XMMdq_MEMdq'' ''a529b4ea6e94da3826563a5fe534039d2'',
    iform ''PMULDQ_XMMdq_XMMdq'' ''a8ea8db0e6862d2910ff7680fcf9bc5a9'',
    iform ''PMULHRSW_MMXq_MEMq'' ''a4d321348b10a445f0e617298b6a5fc62'',
    iform ''PMULHRSW_MMXq_MMXq'' ''a28493461288558682f90f755039b735d'',
    iform ''PMULHRSW_XMMdq_MEMdq'' ''a70c82f345827d5ebd9fb9abf71eb68c0'',
    iform ''PMULHRSW_XMMdq_XMMdq'' ''a80368bc7bd2a3485910eb46289fed586'',
    iform ''PMULHRW_MMXq_MEMq'' ''a8bd0e38488c0258255594b61b99a096b'',
    iform ''PMULHRW_MMXq_MMXq'' ''ac1509638c8dc4de63d31bbdc802819a3'',
    iform ''PMULHUW_MMXq_MEMq'' ''a3826b89864633d914b8aaacc647cf8d6'',
    iform ''PMULHUW_MMXq_MMXq'' ''a8159c0404bc0dc4162597ec032d01527'',
    iform ''PMULHUW_XMMdq_MEMdq'' ''ac2fd073caa2a75e27f339a350d1f81fd'',
    iform ''PMULHUW_XMMdq_XMMdq'' ''ac40b88239ce70dd50456973792152792'',
    iform ''PMULHW_MMXq_MEMq'' ''a213db720d918caf355462ee5e056a34d'',
    iform ''PMULHW_MMXq_MMXq'' ''a62606e46d7dd18a9a03afef48fdfa4e7'',
    iform ''PMULHW_XMMdq_MEMdq'' ''a67bfa740ea7fa7c218a90a6460174f2b'',
    iform ''PMULHW_XMMdq_XMMdq'' ''a0134a17c9fa100fa5347cd32b93ea40d'',
    iform ''PMULLD_XMMdq_MEMdq'' ''a1ac7448c00ccc51fc004fbbeae98cac9'',
    iform ''PMULLD_XMMdq_XMMdq'' ''a0362b507b7a22a0e66c13042bbcd2ae7'',
    iform ''PMULLW_MMXq_MEMq'' ''a565abb6e56dec5b400c5ca9cff458c26'',
    iform ''PMULLW_MMXq_MMXq'' ''a5080304fc66f02cdb40d470643491d0c'',
    iform ''PMULLW_XMMdq_MEMdq'' ''a91f6c141dd2a054fac3380ec1d13f524'',
    iform ''PMULLW_XMMdq_XMMdq'' ''a50cee9fb949d168106c21e3cf32dc7cf'',
    iform ''PMULUDQ_MMXq_MEMq'' ''a8314b43dbe3e770bf787efe15a520fb1'',
    iform ''PMULUDQ_MMXq_MMXq'' ''a68ba4676ab24345fef3e5277b61e6508'',
    iform ''PMULUDQ_XMMdq_MEMdq'' ''a12bcb322ac9dc254ca488fe70f9d7cb6'',
    iform ''PMULUDQ_XMMdq_XMMdq'' ''a6bd8b3aa7a07da8ad1453f51b5b80284'',
    iform ''POP_DS'' ''a0c73bdca40e4499cd321cb2f9109e247'',
    iform ''POP_ES'' ''a6f171357a5a61baa2136dd668a6f6f15'',
    iform ''POP_FS'' ''af03af974d48b284fcd475be59db759b8'',
    iform ''POP_GPRv_51'' ''a11f75aacdbb348b04f6c4646d9ce8478'',
    iform ''POP_GPRv_8F'' ''a411aa4597eab86d3e959a56bd7b84f09'',
    iform ''POP_GS'' ''a6e794f4893649e8d8e5997bff1105a19'',
    iform ''POP_MEMv'' ''aae57391c9a80283209fd4afd538f6599'',
    iform ''POP_SS'' ''a7c5ab76fee2fe0a1abb280cdf37a05ed'',
    iform ''POPA'' ''a518c4c358313e862c6c41461034bf832'',
    iform ''POPAD'' ''a7161067ea6eb7261532c98a246726f6d'',
    iform ''POPCNT_GPRv_GPRv'' ''a9dbe3a1580f600c3eeb3aa4f792fe9dc'',
    iform ''POPCNT_GPRv_MEMv'' ''ad0ccfc7dd5a0c1fcf922f217f221f22c'',
    iform ''POPF'' ''a56a02c12b2788c5b69ff25e6ef538130'',
    iform ''POPFD'' ''a1640e04bb8f2b5e2f9a90e1cc0ee332b'',
    iform ''POPFQ'' ''afbfa7b7c97cd967878ee9b951f07a8df'',
    iform ''POR_MMXq_MEMq'' ''ab3fd91c9e22467445a0cbceefce1dd55'',
    iform ''POR_MMXq_MMXq'' ''ae5aae326b9751d4868f0b8ede35ac2e2'',
    iform ''POR_XMMdq_MEMdq'' ''a7bdfb336efb25e9b949df631be1a2eab'',
    iform ''POR_XMMdq_XMMdq'' ''a704eff1a0e0d5e154d9f2b6d5976b343'',
    iform ''PREFETCHNTA_MEMmprefetch'' ''ac428dce653e8bd812842df65dd869a16'',
    iform ''PREFETCHT0_MEMmprefetch'' ''a3c26036a983b593cfcd0efedb1798e82'',
    iform ''PREFETCHT1_MEMmprefetch'' ''a8e9cec77305f183c7f7a00e7974805fa'',
    iform ''PREFETCHT2_MEMmprefetch'' ''a2bef84b37cd7d400c44fbe101462b327'',
    iform ''PREFETCHW_0F0Dr1'' ''adacaf21f42e28907237f22c4dad023e1'',
    iform ''PREFETCHW_0F0Dr3'' ''abe0fcfbb653894bd1c3da34e5bc12e9e'',
    iform ''PREFETCHWT1_MEMu8'' ''acfc3ac35c87f82c2af89c4274ee098ba'',
    iform ''PREFETCH_EXCLUSIVE_MEMmprefetch'' ''a9a698f96a0a143d2730a4c5c2d3086a2'',
    iform ''PREFETCH_RESERVED_0F0Dr4'' ''af220501e98b1224e27d9ae6d09ed2ff2'',
    iform ''PREFETCH_RESERVED_0F0Dr5'' ''a368bab5df473c632f9dcec51503f6450'',
    iform ''PREFETCH_RESERVED_0F0Dr6'' ''aaad8b8cb0ac107e7188ed92ef9d2f5ac'',
    iform ''PREFETCH_RESERVED_0F0Dr7'' ''ac1b3ed6415ea5926bfdb47410bc10d2e'',
    iform ''PSADBW_MMXq_MEMq'' ''a850a3bdfc0d25b38cea9a05397ec823b'',
    iform ''PSADBW_MMXq_MMXq'' ''aee83789e1649cc17e9419fbf701e6da7'',
    iform ''PSADBW_XMMdq_MEMdq'' ''a2b3ccd979ba551a142aaed6883442b65'',
    iform ''PSADBW_XMMdq_XMMdq'' ''a8dfbfbdb7dc331f4e58e9827662f3e67'',
    iform ''PSHUFB_MMXq_MEMq'' ''a045b78e66879816d4f9fee4252bfe621'',
    iform ''PSHUFB_MMXq_MMXq'' ''a10d6bf2ed6e20efcd44e7df9fe349dcb'',
    iform ''PSHUFB_XMMdq_MEMdq'' ''a9577935f6b2a997ca36776c3d6208f10'',
    iform ''PSHUFB_XMMdq_XMMdq'' ''ad276320ee4829e90cd8690cc44c891dc'',
    iform ''PSHUFD_XMMdq_MEMdq_IMMb'' ''a5c06d3a2f67611e77bdb5ff0c9b2eb28'',
    iform ''PSHUFD_XMMdq_XMMdq_IMMb'' ''af2e7ea740b65dc851948cd5ea638e012'',
    iform ''PSHUFHW_XMMdq_MEMdq_IMMb'' ''acedcebab1224fad5daacfb415061bd89'',
    iform ''PSHUFHW_XMMdq_XMMdq_IMMb'' ''a2106da828b7c7820f07da9c19bf97a95'',
    iform ''PSHUFLW_XMMdq_MEMdq_IMMb'' ''a5df5a9c569cc6f96cdc66cdf989f1d43'',
    iform ''PSHUFLW_XMMdq_XMMdq_IMMb'' ''a0a00322296025d1ca8db0102ea5d118e'',
    iform ''PSHUFW_MMXq_MEMq_IMMb'' ''a2963d8c8d4587c44759b6fad75cc9d91'',
    iform ''PSHUFW_MMXq_MMXq_IMMb'' ''a3052c3725560fc1bec87aa56ffdadb6d'',
    iform ''PSIGNB_MMXq_MEMq'' ''ac011f9088a8133887e5c2a78716b7207'',
    iform ''PSIGNB_MMXq_MMXq'' ''ad9b97593fe9e80d6484deaf9dc06d2da'',
    iform ''PSIGNB_XMMdq_MEMdq'' ''a511caffc15db188f72866b9121e6a714'',
    iform ''PSIGNB_XMMdq_XMMdq'' ''a3530c43fc9434bf9ee09eee149d4e247'',
    iform ''PSIGND_MMXq_MEMq'' ''ae72c42ffe909e0374634cf6dd32d43cb'',
    iform ''PSIGND_MMXq_MMXq'' ''a16e8c4814f7ab2179550581e805d80d4'',
    iform ''PSIGND_XMMdq_MEMdq'' ''ad68a47dc55252989b1acd3979f7af22f'',
    iform ''PSIGND_XMMdq_XMMdq'' ''ad4aa38a4de2d361b4efae7a882a3cc90'',
    iform ''PSIGNW_MMXq_MEMq'' ''af61b6da4b1277d0cc65606e85e6098b6'',
    iform ''PSIGNW_MMXq_MMXq'' ''a0a7f937487d5261730cbdd71786d6892'',
    iform ''PSIGNW_XMMdq_MEMdq'' ''a0f118b5fba69f2bd0f9a76ed02b0cc73'',
    iform ''PSIGNW_XMMdq_XMMdq'' ''afb390453af032a517d6cdc71f9b522ee'',
    iform ''PSLLD_MMXq_IMMb'' ''ab36d3acc79677667aa48230457f2d8b8'',
    iform ''PSLLD_MMXq_MEMq'' ''aa5ba54901b712b86bb1096cd28a189d4'',
    iform ''PSLLD_MMXq_MMXq'' ''aca20bc9ffd5959a389e2ce1987a4c761'',
    iform ''PSLLD_XMMdq_IMMb'' ''a2fc0ed9a1bf27bc21138284bd2ed44a8'',
    iform ''PSLLD_XMMdq_MEMdq'' ''a011abac9b46698a32ceee109446cfdeb'',
    iform ''PSLLD_XMMdq_XMMdq'' ''a2bb1719043cbd413ac80aef126dcf1d4'',
    iform ''PSLLDQ_XMMdq_IMMb'' ''a8dcb8af88077696a5fbbf1437e412a78'',
    iform ''PSLLQ_MMXq_IMMb'' ''a1203e74fb9086bfeb89c74c87b44fd3b'',
    iform ''PSLLQ_MMXq_MEMq'' ''ab8377d580abd9d60f2f700a1bd5a9358'',
    iform ''PSLLQ_MMXq_MMXq'' ''a9fff2e5b06bb690b4c657907457f23d9'',
    iform ''PSLLQ_XMMdq_IMMb'' ''a2c815c90fa851be25a847bfd30bb78af'',
    iform ''PSLLQ_XMMdq_MEMdq'' ''ab95d99acbe3b91645949858eb850c62c'',
    iform ''PSLLQ_XMMdq_XMMdq'' ''ae69b3da6f719b10c0a7ad0aaf5a30c8e'',
    iform ''PSLLW_MMXq_IMMb'' ''a51dfbabe6cd5d18e6a6599de98d2de7f'',
    iform ''PSLLW_MMXq_MEMq'' ''a98e37b248f1291cbf19fdc0c59e9edab'',
    iform ''PSLLW_MMXq_MMXq'' ''aba716e85933982002061025bde46f4b2'',
    iform ''PSLLW_XMMdq_IMMb'' ''ae977cec2ab50e033daaa4ab3928c2879'',
    iform ''PSLLW_XMMdq_MEMdq'' ''acb2281bea751cabce98df2b4898e5208'',
    iform ''PSLLW_XMMdq_XMMdq'' ''a76cd33c79b06baf2d5f3aab78d2ec303'',
    iform ''PSRAD_MMXq_IMMb'' ''a6fbae130eee0fa56a7484059170ee089'',
    iform ''PSRAD_MMXq_MEMq'' ''a20a2703ad9224869f8f7df376c3e5e85'',
    iform ''PSRAD_MMXq_MMXq'' ''afea59008fc07430a3da77a8d576b62e4'',
    iform ''PSRAD_XMMdq_IMMb'' ''ae445f528915ccc43e2b54ffcd925ad08'',
    iform ''PSRAD_XMMdq_MEMdq'' ''a1038421ec6bf2e1e4d3045e62059d766'',
    iform ''PSRAD_XMMdq_XMMdq'' ''a955d15f4f03116a909342a10c7d6ed7f'',
    iform ''PSRAW_MMXq_IMMb'' ''af26fb6da9ef0341a1d867e16de533ef9'',
    iform ''PSRAW_MMXq_MEMq'' ''ab0a98f53848ea17eb29630cba69406c6'',
    iform ''PSRAW_MMXq_MMXq'' ''a72c5573341afd5ebe12a52bdfaaa830e'',
    iform ''PSRAW_XMMdq_IMMb'' ''af5b93369010c24dc937380ba0f638eec'',
    iform ''PSRAW_XMMdq_MEMdq'' ''a692e5e8cfaec59da618f70eaecaeee79'',
    iform ''PSRAW_XMMdq_XMMdq'' ''af77be5b6d59adb6d03a31c8735a5181b'',
    iform ''PSRLD_MMXq_IMMb'' ''ae57afdd3b3c28050bfc1c3130cd758ef'',
    iform ''PSRLD_MMXq_MEMq'' ''a1982b347d23fd6c30e8b4bfaf96ddb90'',
    iform ''PSRLD_MMXq_MMXq'' ''a07b5dfa8bb047cefe8869ec1470db20b'',
    iform ''PSRLD_XMMdq_IMMb'' ''ab41e12a3d33cd98a095ddae8507c02e0'',
    iform ''PSRLD_XMMdq_MEMdq'' ''a0cd2a52d8d6808b14571c91a2589b941'',
    iform ''PSRLD_XMMdq_XMMdq'' ''adf290f0233082ae6659145e8348d0978'',
    iform ''PSRLDQ_XMMdq_IMMb'' ''a8cbfcd0c984eae1e87da8606a96dbf0d'',
    iform ''PSRLQ_MMXq_IMMb'' ''ae600614bef2cbbd1fc89afd44203da6b'',
    iform ''PSRLQ_MMXq_MEMq'' ''acef80b6afaa80b4dcf5baaef6fc4f2a6'',
    iform ''PSRLQ_MMXq_MMXq'' ''aec6600332e48f974943fbd6fd330239f'',
    iform ''PSRLQ_XMMdq_IMMb'' ''ac890fb4f2990a5c763a694d1df4dbb02'',
    iform ''PSRLQ_XMMdq_MEMdq'' ''a396af372342ea2255f3566165dd07a21'',
    iform ''PSRLQ_XMMdq_XMMdq'' ''a2f7f83267aa7b89293087f4b27ffae64'',
    iform ''PSRLW_MMXq_IMMb'' ''a17cc4ecb2a4633a4653a585133ae8df6'']"

lemma xed_iform_enum_8h_values_10_closed: "list_all (closed_node scripts) xed_iform_enum_8h_values_10"
  by (simp only: xed_iform_enum_8h_values_10_def closed_rules iform_closed)

definition xed_iform_enum_8h_values_11 :: "nav_node list" where
  "xed_iform_enum_8h_values_11 = [
    iform ''PSRLW_MMXq_MEMq'' ''a201cf507843c2beb2043bc29f93f59f8'',
    iform ''PSRLW_MMXq_MMXq'' ''a7df040eabbbd2b35c096f3414c9edefd'',
    iform ''PSRLW_XMMdq_IMMb'' ''a1b40c2c1bb2363fa14dabecc08882798'',
    iform ''PSRLW_XMMdq_MEMdq'' ''a5f184b5b919170a414dcec8d3f4703bf'',
    iform ''PSRLW_XMMdq_XMMdq'' ''adf5e71c616772c560cbb7d11e2ae7f68'',
    iform ''PSUBB_MMXq_MEMq'' ''a821e53107947cb1ace705f8c2632c19b'',
    iform ''PSUBB_MMXq_MMXq'' ''ac3e249dd01d2fe5260a6bdf4b2b135a2'',
    iform ''PSUBB_XMMdq_MEMdq'' ''a087a8617fbee6a2190116a00908d4385'',
    iform ''PSUBB_XMMdq_XMMdq'' ''a675a24a186d3821400e9c9a93465825c'',
    iform ''PSUBD_MMXq_MEMq'' ''a717ad6897669c25bdd6a22f4563978e6'',
    iform ''PSUBD_MMXq_MMXq'' ''a9ff03d35ff77a332d35b244d63370ca1'',
    iform ''PSUBD_XMMdq_MEMdq'' ''acf5966243e3f818e91832dc2c798fcc8'',
    iform ''PSUBD_XMMdq_XMMdq'' ''a8b7eba6dd0c0fb452f546272f924e66a'',
    iform ''PSUBQ_MMXq_MEMq'' ''a1acbfe62105a9a384831e2106e242419'',
    iform ''PSUBQ_MMXq_MMXq'' ''a99b6ff2ea4de49ae8602b02be4be22a0'',
    iform ''PSUBQ_XMMdq_MEMdq'' ''aaed5659ad5044d6a76574e5c94fe13a1'',
    iform ''PSUBQ_XMMdq_XMMdq'' ''a58552b95764af4f76a385c30b916d4b6'',
    iform ''PSUBSB_MMXq_MEMq'' ''a224757e616ca9420dfd6581bd8a314f0'',
    iform ''PSUBSB_MMXq_MMXq'' ''a249a8c199c3150ef24b539417878213e'',
    iform ''PSUBSB_XMMdq_MEMdq'' ''a3adcff4a71383ad01ee4b1cf679e3253'',
    iform ''PSUBSB_XMMdq_XMMdq'' ''a7fce59d839cc6ac2842637f177651beb'',
    iform ''PSUBSW_MMXq_MEMq'' ''a65501d98020594780725adb7512b2f95'',
    iform ''PSUBSW_MMXq_MMXq'' ''a1d4f09b90e785f8210eadd6b3c0beff7'',
    iform ''PSUBSW_XMMdq_MEMdq'' ''ae000cf26db42f8846e23b9d2fd242b70'',
    iform ''PSUBSW_XMMdq_XMMdq'' ''a502ae7073ded30efb146ae9fd904d917'',
    iform ''PSUBUSB_MMXq_MEMq'' ''a0288565083660ba09d51afb02fdcc7fa'',
    iform ''PSUBUSB_MMXq_MMXq'' ''a7028c445b249532514c6885926e5c926'',
    iform ''PSUBUSB_XMMdq_MEMdq'' ''a38e7f9ed3c82516a76890f3fb3367248'',
    iform ''PSUBUSB_XMMdq_XMMdq'' ''afcd8327a5a04821d13ae9a6fd169cc1f'',
    iform ''PSUBUSW_MMXq_MEMq'' ''a4b89ac600192b902c3f28cec75af8ca8'',
    iform ''PSUBUSW_MMXq_MMXq'' ''adcf149cf109d71b373879c09e2d9790a'',
    iform ''PSUBUSW_XMMdq_MEMdq'' ''ae2fa711f09d1b1d6160d672303334c22'',
    iform ''PSUBUSW_XMMdq_XMMdq'' ''aeefa0f92c23aa5ace09e3f90ac019ffc'',
    iform ''PSUBW_MMXq_MEMq'' ''abc6931f87e1bb389b6eb606973a3c52a'',
    iform ''PSUBW_MMXq_MMXq'' ''a71e5a1656cf5ebda383a666ba9d9e4cf'',
    iform ''PSUBW_XMMdq_MEMdq'' ''ab831403b23b2c484de31fbb9a8aedfd5'',
    iform ''PSUBW_XMMdq_XMMdq'' ''a4d98fd2de715ddf18f5c24053799ff00'',
    iform ''PSWAPD_MMXq_MEMq'' ''a8d4e8969aa579b780021b811442ec0cc'',
    iform ''PSWAPD_MMXq_MMXq'' ''aa380184a13ad8a2bd5938b0ee5727eba'',
    iform ''PTEST_XMMdq_MEMdq'' ''a13079340e9b38757dac59212a0c10124'',
    iform ''PTEST_XMMdq_XMMdq'' ''ae2c35b34dad8993c3ead3b9eddc8b5e2'',
    iform ''PUNPCKHBW_MMXq_MEMq'' ''a7cf778728fa2043d9c973aed0efd1f27'',
    iform ''PUNPCKHBW_MMXq_MMXd'' ''ab2d455a9213dd31735a6dea8a0aa78a5'',
    iform ''PUNPCKHBW_XMMdq_MEMdq'' ''a61a254c9ea142e6d7ffb69ce4494f04e'',
    iform ''PUNPCKHBW_XMMdq_XMMq'' ''ae1dcfe401c793a02bc5b8b1f6c1d8222'',
    iform ''PUNPCKHDQ_MMXq_MEMq'' ''acb745c590834abee9b4e45f9b145e8bf'',
    iform ''PUNPCKHDQ_MMXq_MMXd'' ''ab9d28e2bbcdd7dcd1470c65774ad6639'',
    iform ''PUNPCKHDQ_XMMdq_MEMdq'' ''a1fa38b69084ee355f0af80cf4fcc337b'',
    iform ''PUNPCKHDQ_XMMdq_XMMq'' ''a89691b99c415461bc6543151a51c1a51'',
    iform ''PUNPCKHQDQ_XMMdq_MEMdq'' ''a042f94488863001439909805d5408027'',
    iform ''PUNPCKHQDQ_XMMdq_XMMq'' ''af7ce9fea77a07d1ad1193caa8463f4be'',
    iform ''PUNPCKHWD_MMXq_MEMq'' ''aea9ecb47d0484d416f9ca9d634255c07'',
    iform ''PUNPCKHWD_MMXq_MMXd'' ''a86e600662382d6308fa293b47678a82a'',
    iform ''PUNPCKHWD_XMMdq_MEMdq'' ''a6576cd010967a550fba2743e8accc837'',
    iform ''PUNPCKHWD_XMMdq_XMMq'' ''a92f5acde91102211a055dbdffbe79844'',
    iform ''PUNPCKLBW_MMXq_MEMd'' ''abfddf68c20b1aff1c4d9e0c752ea2cb7'',
    iform ''PUNPCKLBW_MMXq_MMXd'' ''a9f303869dd3cdf6d8fa868a431e0308b'',
    iform ''PUNPCKLBW_XMMdq_MEMdq'' ''a3c8552d32e0a1fac934f420d1eebe9b4'',
    iform ''PUNPCKLBW_XMMdq_XMMq'' ''aea9aaedcbcfef0c5e5f72e80ed28e664'',
    iform ''PUNPCKLDQ_MMXq_MEMd'' ''aadee65c96a8e77a61aceef8a23d99835'',
    iform ''PUNPCKLDQ_MMXq_MMXd'' ''aaac71edd3beb36dae6d0bb6a2cc80b25'',
    iform ''PUNPCKLDQ_XMMdq_MEMdq'' ''a43a174f0a56b5d1d20e3a9e1dbc4e4b3'',
    iform ''PUNPCKLDQ_XMMdq_XMMq'' ''a5cfca3d40c338ad230934448fbe2a998'',
    iform ''PUNPCKLQDQ_XMMdq_MEMdq'' ''ac01df51717266867c40ef6acbae93ebe'',
    iform ''PUNPCKLQDQ_XMMdq_XMMq'' ''a3d27e2832deb3b65848ab43b2eee916a'',
    iform ''PUNPCKLWD_MMXq_MEMd'' ''aae9b397b4fff68edc5e4590eccafbb6a'',
    iform ''PUNPCKLWD_MMXq_MMXd'' ''a31f4bd355a720789ce4665967763ce68'',
    iform ''PUNPCKLWD_XMMdq_MEMdq'' ''a397570ba476076d4982772a406c2b7f5'',
    iform ''PUNPCKLWD_XMMdq_XMMq'' ''a1b3c4898981948f72ab1ef4c2fff9a8c'',
    iform ''PUSH_CS'' ''a9d2f7d1e6b6963e7efb8f3d7d9abde2e'',
    iform ''PUSH_DS'' ''a588d381ab4ce45a28c99652e0c0cd452'',
    iform ''PUSH_ES'' ''a766d69963361bab04920a55827a022fb'',
    iform ''PUSH_FS'' ''a1dd7b81ee6de9e4df5ff8c63c4408234'',
    iform ''PUSH_GPRv_50'' ''a35d8eaa2c275b20112772b4a054874b1'',
    iform ''PUSH_GPRv_FFr6'' ''aaf28053d05e3002bafe6e0b1bf07f75b'',
    iform ''PUSH_GS'' ''a6174296d42a45afa1ade70f6ac4ea32c'',
    iform ''PUSH_IMMb'' ''adba8de9544ac7f2a19f95ef631dd7c75'',
    iform ''PUSH_IMMz'' ''acb4b797febb78a3ce321b898bb490e60'',
    iform ''PUSH_MEMv'' ''ac6e566180acce74203d3fa3eabbdaaf5'',
    iform ''PUSH_SS'' ''a33715c8ec9c9de8d526f00745a13b67a'',
    iform ''PUSHA'' ''a1eb4398985b0950d7c1bda558e23d1ae'',
    iform ''PUSHAD'' ''a027488abca1120e53735fbe8a5a73f27'',
    iform ''PUSHF'' ''a999307ff2134c3c8a72c9cb283f6a03a'',
    iform ''PUSHFD'' ''ad251da2ce1ed739e4b82afe0641be0d7'',
    iform ''PUSHFQ'' ''aa054e2b957726e0a41e314a951923c30'',
    iform ''PXOR_MMXq_MEMq'' ''a731a69e3c4189a62cc26999c6a6a142c'',
    iform ''PXOR_MMXq_MMXq'' ''a468aef036fdfecf669ff5a36204b2b63'',
    iform ''PXOR_XMMdq_MEMdq'' ''a6015f2bafe784dd031060617c2baeb36'',
    iform ''PXOR_XMMdq_XMMdq'' ''a1b6add9ef73eae8d65981a2f89135509'',
    iform ''RCL_GPR8_CL'' ''a4356e54c51f5c7cad7d8ae5c333d382d'',
    iform ''RCL_GPR8_IMMb'' ''aa69120622bbe9a1dd8d0bc884930a8e2'',
    iform ''RCL_GPR8_ONE'' ''a734b3cc0db32cd18cffb9df1dd2d35e7'',
    iform ''RCL_GPRv_CL'' ''a2a9ec6accd4b63343daa7d95d52d43f3'',
    iform ''RCL_GPRv_IMMb'' ''a9c04bc3095088d94e7a8a8127ce44f7d'',
    iform ''RCL_GPRv_ONE'' ''a2e16581b69595c5758749ad49bc04bd6'',
    iform ''RCL_MEMb_CL'' ''a984455323f6752317d46b5de25fc81c6'',
    iform ''RCL_MEMb_IMMb'' ''a7a8ca215bddd73bf355c01c1ed83cd00'',
    iform ''RCL_MEMb_ONE'' ''a9bd015d3c69b6ba4d1ed7165bc1136a9'',
    iform ''RCL_MEMv_CL'' ''abb011408c19d7a4c626f6bca086c3169'',
    iform ''RCL_MEMv_IMMb'' ''ac890cfec68f4cc3b691e191a8f413e68'',
    iform ''RCL_MEMv_ONE'' ''afd2873d0ce48098e47e23d4ee515c3ff'',
    iform ''RCPPS_XMMps_MEMps'' ''a1629071cc9eceb7e317a960d7fbedd20'',
    iform ''RCPPS_XMMps_XMMps'' ''a971bae25e7a5b4699e9c5e452c0085b1'',
    iform ''RCPSS_XMMss_MEMss'' ''af38854c8ffe8a58f05dc3b87a9614f3f'',
    iform ''RCPSS_XMMss_XMMss'' ''ae69a7b079700408c1b82a8ca29c155e6'',
    iform ''RCR_GPR8_CL'' ''a67fc1eba65cc26dbc71576c48a96525d'',
    iform ''RCR_GPR8_IMMb'' ''a96d94d7dfd7867667e10fb7b2772f2b1'',
    iform ''RCR_GPR8_ONE'' ''ae380f0ce6a57cda76f997e8136d70b78'',
    iform ''RCR_GPRv_CL'' ''a12a2086ffe2c0f080e5c71100495899e'',
    iform ''RCR_GPRv_IMMb'' ''a0eedaf59489b575e35fbf7276a3955a3'',
    iform ''RCR_GPRv_ONE'' ''a2dfbdd5b555d39fa805f85c6f78db2f5'',
    iform ''RCR_MEMb_CL'' ''a3d32c05ab6097b508c143485e3d7e384'',
    iform ''RCR_MEMb_IMMb'' ''acee8c3b55ba5c6065fe4f7229bee79a7'',
    iform ''RCR_MEMb_ONE'' ''ac7733490741c5503aecffcc2d14df1d9'',
    iform ''RCR_MEMv_CL'' ''adbc3d2690dcc30a239701019ee0b88ab'',
    iform ''RCR_MEMv_IMMb'' ''a79f4293d98648456929349a97d8be34e'',
    iform ''RCR_MEMv_ONE'' ''a03940b8fd6e821928e591547ca221824'',
    iform ''RDFSBASE_GPRy'' ''a0f1fb94e23b522188d3652af78d34892'',
    iform ''RDGSBASE_GPRy'' ''a16f2ef2c489d0e503e2081e333d8023b'',
    iform ''RDMSR'' ''acde8ffa7d2341c214ebe06e0cf20dd46'',
    iform ''RDPMC'' ''abcddbd802abe03d8b1fcb92cfa94c330'',
    iform ''RDRAND_GPRv'' ''a32b7a3cb37f4e49552b6901135009c38'',
    iform ''RDSEED_GPRv'' ''a45299859a7e7c4991de2b1a9e6eb3d1e'',
    iform ''RDTSC'' ''adab5b576dfff616be0b5f79ebf675374'',
    iform ''RDTSCP'' ''a34145168b192f0c4d4cde4e39f02b9cf'',
    iform ''RET_FAR'' ''ae1bc37542e17726c93bc217799b07f65'',
    iform ''RET_FAR_IMMw'' ''ae25f72b6cf93c1d7538c4f541605afb8'',
    iform ''RET_NEAR'' ''a755c807037f0bdb0af95a292dae76d6f'',
    iform ''RET_NEAR_IMMw'' ''aff49151b7f6300803be791d0e4f39d85'',
    iform ''ROL_GPR8_CL'' ''a61f92393258b2d205eefcd78530384ee'',
    iform ''ROL_GPR8_IMMb'' ''abf557189121ba2a1fff87c6a28e2e803'',
    iform ''ROL_GPR8_ONE'' ''aaebdf851786e4bcd816cc4748cbf4d91'',
    iform ''ROL_GPRv_CL'' ''a4e358a27f3bb2fc39b1d06234f9e7392'',
    iform ''ROL_GPRv_IMMb'' ''ab7796bbc27aea18b0a0a90ab60dd4cd0'',
    iform ''ROL_GPRv_ONE'' ''a2c9b524428523217862e10da1204554d'',
    iform ''ROL_MEMb_CL'' ''aa7ff18c2fc210d51d552d5b5658a39ce'',
    iform ''ROL_MEMb_IMMb'' ''ab6168321fdcd5f19b738f431652fdb65'',
    iform ''ROL_MEMb_ONE'' ''afd9c35dab0abb743a2209e6dffe509e5'',
    iform ''ROL_MEMv_CL'' ''aefa7ad70a2a61fcbee358ca52ce481bf'',
    iform ''ROL_MEMv_IMMb'' ''a3d464390a78bb9c9143fb8dae89dbcf1'']"

lemma xed_iform_enum_8h_values_11_closed: "list_all (closed_node scripts) xed_iform_enum_8h_values_11"
  by (simp only: xed_iform_enum_8h_values_11_def closed_rules iform_closed)

end
