(* ===== verification/Nav_Iform_2.thy ===== *)
theory Nav_Iform_2
  imports Nav_Iform
begin

text \<open>
  xed-iform-enum_8h.js: the child table of an enumeration of instruction forms or classes.
\<close>

definition xed_iform_enum_8h_values_12 :: "nav_node list" where
  "xed_iform_enum_8h_values_12 = [
    iform ''ROL_MEMv_ONE'' ''a225c24a90da1dd6f75bc966d626fed89'',
    iform ''ROR_GPR8_CL'' ''ae09a9d22343d731948874711254e8217'',
    iform ''ROR_GPR8_IMMb'' ''afe46c6c6929e9b3af9bb8990b54e12a9'',
    iform ''ROR_GPR8_ONE'' ''a132bc6e2aa6c7c96ad91004fe0105f02'',
    iform ''ROR_GPRv_CL'' ''ab39dce84b73f04800d4e009728903f0f'',
    iform ''ROR_GPRv_IMMb'' ''a986f5f9ca78568dcaed2987bbaf70ca3'',
    iform ''ROR_GPRv_ONE'' ''a5ab24975b2a604493b6272154fe4f54d'',
    iform ''ROR_MEMb_CL'' ''a1241f563275df8da143fb259d62d4985'',
    iform ''ROR_MEMb_IMMb'' ''a472b21d6a1b28b6fdd99825ba539821d'',
    iform ''ROR_MEMb_ONE'' ''a090c5e804e31f4848510916aab0a49f3'',
    iform ''ROR_MEMv_CL'' ''a141e72f9293cd20a9724c6b0c7faf235'',
    iform ''ROR_MEMv_IMMb'' ''ae9542a02a230ac81eed1654c899bf983'',
    iform ''ROR_MEMv_ONE'' ''aa07e7f488de5f1092a9ec68f4199ad78'',
    iform ''RORX_VGPR32d_MEMd_IMMb'' ''a846cd4893de800fcf5257b77c06cd9b4'',
    iform ''RORX_VGPR32d_VGPR32d_IMMb'' ''a592ae2b825c5edadb5539406b22eded8'',
    iform ''RORX_VGPR64q_MEMq_IMMb'' ''a85de6888a42012145cbfbca56c556952'',
    iform ''RORX_VGPR64q_VGPR64q_IMMb'' ''ab9ebc8e47bc8c442400fe8882ed0a984'',
    iform ''ROUNDPD_XMMpd_MEMpd_IMMb'' ''a8824eddf32eaea95a93b88577abf634f'',
    iform ''ROUNDPD_XMMpd_XMMpd_IMMb'' ''a057b89cdd13bdbcbc79f936fcdf3dab6'',
    iform ''ROUNDPS_XMMps_MEMps_IMMb'' ''a1a0c898f2578d71ccce01c555c4ee3a5'',
    iform ''ROUNDPS_XMMps_XMMps_IMMb'' ''ae0b19c6fa98ad0183f9fa0c55852f9da'',
    iform ''ROUNDSD_XMMq_MEMq_IMMb'' ''a3e2c7f6c35022f1663d92a13d1c7bee1'',
    iform ''ROUNDSD_XMMq_XMMq_IMMb'' ''a2580f802fae0cff2dc84002467a1855c'',
    iform ''ROUNDSS_XMMd_MEMd_IMMb'' ''acc1a55dabf9be5bfd0f43f8999587bc0'',
    iform ''ROUNDSS_XMMd_XMMd_IMMb'' ''aea72e61cc6a483d62f8423678ab2e07a'',
    iform ''RSM'' ''a7baddcc29715e880c0657c62bb78fce7'',
    iform ''RSQRTPS_XMMps_MEMps'' ''a0a0f8d89cca8ef8712c8de4dc0d48973'',
    iform ''RSQRTPS_XMMps_XMMps'' ''a4c6b5aa6aa47f8ce7635ca74fd0a9e21'',
    iform ''RSQRTSS_XMMss_MEMss'' ''afc97c6f5aa3dfbd4731d9ce8bf4e2abd'',
    iform ''RSQRTSS_XMMss_XMMss'' ''a5f4e5913fbb2ceab0b984ee5a81d7f24'',
    iform ''SAHF'' ''ae8d68b0052e6335787f61ee09f84b435'',
    iform ''SALC'' ''a42bca030e185592b0ef21fdbe406a62a'',
    iform ''SAR_GPR8_CL'' ''acfba8cac2077a52aa61560bd941dc6fc'',
    iform ''SAR_GPR8_IMMb'' ''a99bf2a0cbec46b0444963c8e7c708cca'',
    iform ''SAR_GPR8_ONE'' ''a6a6954a58fc22858031e5ca481ff9ea4'',
    iform ''SAR_GPRv_CL'' ''acdd1b9660fd03ba548543a558b4cc0de'',
    iform ''SAR_GPRv_IMMb'' ''a75f8f5732ed18a13df480e461f007a67'',
    iform ''SAR_GPRv_ONE'' ''a386da94560dec6bcfca93c72c8985fc8'',
    iform ''SAR_MEMb_CL'' ''a6cc23c516d86704ff4f83f4ec58465e1'',
    iform ''SAR_MEMb_IMMb'' ''a3f29406e15094c24c30b48fd5ac3eb8e'',
    iform ''SAR_MEMb_ONE'' ''ab831fce77a2532a39349d7e184a3e18b'',
    iform ''SAR_MEMv_CL'' ''ac7d63ccc2e26174f2804607597ac8562'',
    iform ''SAR_MEMv_IMMb'' ''aced7ee3e9e11287d2c30a948b0a82286'',
    iform ''SAR_MEMv_ONE'' ''a242ebf0b74e3ea00ea34c40e37565612'',
    iform ''SARX_VGPR32d_MEMd_VGPR32d'' ''a40160de7d5e8e04413ebbfcd4b9a38dc'',
    iform ''SARX_VGPR32d_VGPR32d_VGPR32d'' ''a070d2e500c9538cc31f368a24c7d8ca1'',
    iform ''SARX_VGPR64q_MEMq_VGPR64q'' ''ab819e08bae1e494c0b237275a40674f3'',
    iform ''SARX_VGPR64q_VGPR64q_VGPR64q'' ''a67b418715e653e77d075fa03ffaf550c'',
    iform ''SBB_AL_IMMb'' ''a8c1c591fc06baff62d6265b34e48a5dc'',
    iform ''SBB_GPR8_GPR8_18'' ''ad31887443ee16d2ee27036e16df68e0f'',
    iform ''SBB_GPR8_GPR8_1A'' ''a06b805d01947ccef79dce64b356dfba6'',
    iform ''SBB_GPR8_IMMb_80r3'' ''ad49e30121ebc9df6093e05ec6b12a597'',
    iform ''SBB_GPR8_IMMb_82r3'' ''a19b182d489bb1c1fa42852dcc5c6f9c3'',
    iform ''SBB_GPR8_MEMb'' ''a848edafb1e437202dd6c885ea54a0c03'',
    iform ''SBB_GPRv_GPRv_19'' ''aece83260487a88acd13493cf63b620f3'',
    iform ''SBB_GPRv_GPRv_1B'' ''a982b242430a3d86b48a78865653b799d'',
    iform ''SBB_GPRv_IMMb'' ''af9776940372c023de675fc6c43dbdc6d'',
    iform ''SBB_GPRv_IMMz'' ''ace548bd0019fe4e4681313ea4506e5e7'',
    iform ''SBB_GPRv_MEMv'' ''aaf581b0861b1bf2bdc3a7d1c316596ad'',
    iform ''SBB_MEMb_GPR8'' ''a0d9cd18f205b9b6d4556eee5af88e783'',
    iform ''SBB_MEMb_IMMb_80r3'' ''a1a149d7facd92fdbdfabff59b5ed06e2'',
    iform ''SBB_MEMb_IMMb_82r3'' ''ae377078cca77a4fc7f11186b672afb36'',
    iform ''SBB_MEMv_GPRv'' ''a41ef62be56a75fb5cfe98f2aba3e2b46'',
    iform ''SBB_MEMv_IMMb'' ''a724c4faca752489baa7c8c0e43f17855'',
    iform ''SBB_MEMv_IMMz'' ''aa4ec2f8a65b10e359513c061e8df4a76'',
    iform ''SBB_OrAX_IMMz'' ''a240b388f7cc4e885307d30aae86f7e6d'',
    iform ''SCASB'' ''a17f9408434a3657024068b893a29fe03'',
    iform ''SCASD'' ''a47f21c405bce2f0a387031c054f50d2d'',
    iform ''SCASQ'' ''acab53f5296b720a8d3a1b3d601acf2d3'',
    iform ''SCASW'' ''a48f55a20ca1f62abac9270e602918681'',
    iform ''SETB_GPR8'' ''ac66e7bb6a35f466c1799f7542c8a5085'',
    iform ''SETB_MEMb'' ''ae7765083ad05035fcafef2e00c31188c'',
    iform ''SETBE_GPR8'' ''a7815d97f797bed97c5a47ba3423b38ef'',
    iform ''SETBE_MEMb'' ''a09f14bf28635d51126458f2a6f6af66b'',
    iform ''SETL_GPR8'' ''a4eeb06d5402f940d4e0c80d564f288f9'',
    iform ''SETL_MEMb'' ''afacf4977b452fe87da33ffff3dfaf17c'',
    iform ''SETLE_GPR8'' ''a18b2d546216ad5ca93fe17bd5d9c27ef'',
    iform ''SETLE_MEMb'' ''a7c68a19df1cfe6c612e363ca4cf451a3'',
    iform ''SETNB_GPR8'' ''a0a396f70930e1ba91d121708355c9f73'',
    iform ''SETNB_MEMb'' ''a011163028ba9d7de2e2222676a983217'',
    iform ''SETNBE_GPR8'' ''ace0308ea93fc75bf8738558c2b278157'',
    iform ''SETNBE_MEMb'' ''a41e60cf4ea0e9284f59ac7ef9671d64b'',
    iform ''SETNL_GPR8'' ''a1628f2f6c1cad505969c55f8f7b5bfd7'',
    iform ''SETNL_MEMb'' ''ae172878f5758dcd757dec8eb7d1a254c'',
    iform ''SETNLE_GPR8'' ''aa83970201b7f738f1f9839e6556b7c49'',
    iform ''SETNLE_MEMb'' ''a0c5b7566994398c5ad752acce5c6c554'',
    iform ''SETNO_GPR8'' ''a5550190fc72d402ff9b02f4c8f31aca2'',
    iform ''SETNO_MEMb'' ''aa3cd0622a6e1ec057c2647709cd6f003'',
    iform ''SETNP_GPR8'' ''ac3c945e7b8510e50223ad27a1f33cf28'',
    iform ''SETNP_MEMb'' ''ac2863193e29d9a064985966dc1bebcf8'',
    iform ''SETNS_GPR8'' ''a63ebc8f17077edac056df531bfd5030a'',
    iform ''SETNS_MEMb'' ''aa5881562d57cf9ee88cfc62bbb83ad81'',
    iform ''SETNZ_GPR8'' ''a7ccc8477309601f853d0bd4068b9c53a'',
    iform ''SETNZ_MEMb'' ''a87ddc9f2ec19443c925a6c55ee761f2d'',
    iform ''SETO_GPR8'' ''a3875e9f01982a69430d1b5deeeb5af41'',
    iform ''SETO_MEMb'' ''a6ffdcbf4ddb1772f45acbb4f6368fb2f'',
    iform ''SETP_GPR8'' ''a6c18d4d39871ac7c2f30b3467425f6e0'',
    iform ''SETP_MEMb'' ''ad8a2263cf2e7fd50ae3165d9af9d73f1'',
    iform ''SETS_GPR8'' ''abb059a15b5ebca6c3f5ea15670269cd4'',
    iform ''SETS_MEMb'' ''a89cf7a15ee5854aeffb6f30d43d3490d'',
    iform ''SETZ_GPR8'' ''a073b09a561555b918d1d71b229c7f4f3'',
    iform ''SETZ_MEMb'' ''a29f8cd9994ea3cbc8db82badd432cd87'',
    iform ''SFENCE'' ''ac40eda6d7b47a267b16a3a6c5d6e95e5'',
    iform ''SGDT_MEMs'' ''a7c4e9fb2cce19cd0c0872e1064c75ab0'',
    iform ''SGDT_MEMs64'' ''af626e902723fd1b1b5a3d8e2aa6da2b6'',
    iform ''SHA1MSG1_XMMi32_MEMi32_SHA'' ''a60e4c48fd39fe23c9f5020556aca004f'',
    iform ''SHA1MSG1_XMMi32_XMMi32_SHA'' ''a1ec306df3c26b4425e0b7179bc46c7aa'',
    iform ''SHA1MSG2_XMMi32_MEMi32_SHA'' ''af8c3b89aa7ed50e2757d4d3ecb67c1f1'',
    iform ''SHA1MSG2_XMMi32_XMMi32_SHA'' ''abbd97d393dbf3aeeee6b7d543ac7ec01'',
    iform ''SHA1NEXTE_XMMi32_MEMi32_SHA'' ''aa6117a6ab8c74d1c53fe115918ef6ce6'',
    iform ''SHA1NEXTE_XMMi32_XMMi32_SHA'' ''acc3d485ad939eefd07287d4e17cb0633'',
    iform ''SHA1RNDS4_XMMi32_MEMi32_IMM8_SHA'' ''ac9f014d553327a62246bc28d06fe476a'',
    iform ''SHA1RNDS4_XMMi32_XMMi32_IMM8_SHA'' ''a138742e0c14b5a7446d2737e759be74d'',
    iform ''SHA256MSG1_XMMi32_MEMi32_SHA'' ''a3ffd918bb99763613a7e32cf4e64eb5a'',
    iform ''SHA256MSG1_XMMi32_XMMi32_SHA'' ''aa620b0cda68dde73afa0611e1a3b6c96'',
    iform ''SHA256MSG2_XMMi32_MEMi32_SHA'' ''a0ae56fcd81f28add27a97dad287f2194'',
    iform ''SHA256MSG2_XMMi32_XMMi32_SHA'' ''a7cce1c6fde99d34a792663c7f8a0ffff'',
    iform ''SHA256RNDS2_XMMi32_MEMi32_SHA'' ''abb7d300666c73d79432f129053a0f718'',
    iform ''SHA256RNDS2_XMMi32_XMMi32_SHA'' ''a6cb5c90618c69e52942289cbb461db2d'',
    iform ''SHL_GPR8_CL_D2r4'' ''ab40d7dcb572085ecdb467929087aefee'',
    iform ''SHL_GPR8_CL_D2r6'' ''adaa9ca07a78f50ed3ca084f30290e9c5'',
    iform ''SHL_GPR8_IMMb_C0r4'' ''a680d848cfe68e066b4a328b18ab7793d'',
    iform ''SHL_GPR8_IMMb_C0r6'' ''a39fe12a449fd1aa90b2f52c59f665bab'',
    iform ''SHL_GPR8_ONE_D0r4'' ''aa8f77e700bb59cd2b6969d53e5ac8d2c'',
    iform ''SHL_GPR8_ONE_D0r6'' ''a7f3f74e61df3eb951a324b3de669b788'',
    iform ''SHL_GPRv_CL_D3r4'' ''a549f5d2b975a1a09053feb3fc3f0793c'',
    iform ''SHL_GPRv_CL_D3r6'' ''a792948fdbf0fb9f718d9f525a66eebc2'',
    iform ''SHL_GPRv_IMMb_C1r4'' ''a8bf889c9417f36a4ecaa6f8ceb4f7dec'',
    iform ''SHL_GPRv_IMMb_C1r6'' ''a73176630e40f3649b6fa19d2663dc3ea'',
    iform ''SHL_GPRv_ONE_D1r4'' ''a3525b11a46cc7efd5fef8fed460ec025'',
    iform ''SHL_GPRv_ONE_D1r6'' ''af084e2f8795b946404c339197e1a73f6'',
    iform ''SHL_MEMb_CL_D2r4'' ''ad311e7afe1637d18a9c2c041bf309acc'',
    iform ''SHL_MEMb_CL_D2r6'' ''add8ce067cb7a5d45c378346662874255'',
    iform ''SHL_MEMb_IMMb_C0r4'' ''ab6c25782e825db6c158071ce66a8d28f'',
    iform ''SHL_MEMb_IMMb_C0r6'' ''acfa75b67d37987123ec47815104eb1a3'',
    iform ''SHL_MEMb_ONE_D0r4'' ''a2760081049e0ccb46a62d51c7925c2d7'',
    iform ''SHL_MEMb_ONE_D0r6'' ''a8f2ea0ebef7759de252fc989413bc4a6'',
    iform ''SHL_MEMv_CL_D3r4'' ''aec2043bd11812dac74d9b50589e45d82'',
    iform ''SHL_MEMv_CL_D3r6'' ''a965d2bbd8080bbcf75b995ef5ad05385'',
    iform ''SHL_MEMv_IMMb_C1r4'' ''a32b6bae44e625b7a6d12ab0802ec2656'']"

lemma xed_iform_enum_8h_values_12_closed: "list_all (closed_node scripts) xed_iform_enum_8h_values_12"
  by (simp only: xed_iform_enum_8h_values_12_def closed_rules iform_closed)

definition xed_iform_enum_8h_values_13 :: "nav_node list" where
  "xed_iform_enum_8h_values_13 = [
    iform ''SHL_MEMv_IMMb_C1r6'' ''a2c51bb7a1231d414cf7738f29ecd0355'',
    iform ''SHL_MEMv_ONE_D1r4'' ''ae29ef7518d43454a7e9439a572d76f95'',
    iform ''SHL_MEMv_ONE_D1r6'' ''a6c1deac950d4a4fa6d4a78e3817378c8'',
    iform ''SHLD_GPRv_GPRv_CL'' ''a51b1aceedd5ff03fec5b71255c3314f6'',
    iform ''SHLD_GPRv_GPRv_IMMb'' ''a715869e9a07821a11004bd123c3c4e9c'',
    iform ''SHLD_MEMv_GPRv_CL'' ''a74fbea217d9a1e5f561053a76c8b733b'',
    iform ''SHLD_MEMv_GPRv_IMMb'' ''aa138781f1fa0c5bb05118999f9b723ef'',
    iform ''SHLX_VGPR32d_MEMd_VGPR32d'' ''a1eaf45c94c2691b6ed0cb89d7884f63e'',
    iform ''SHLX_VGPR32d_VGPR32d_VGPR32d'' ''a77a9ebfd1da01a048c4d123a124423d1'',
    iform ''SHLX_VGPR64q_MEMq_VGPR64q'' ''a1ec8d83c6d78b8c5fdb70c64673b1d7a'',
    iform ''SHLX_VGPR64q_VGPR64q_VGPR64q'' ''a0476bd6e9b564510c15198ef9b1e9404'',
    iform ''SHR_GPR8_CL'' ''a9ea684796594ace2d064fc1fbbd19455'',
    iform ''SHR_GPR8_IMMb'' ''aba58f010b4797d9fd53b0b4994dbeec0'',
    iform ''SHR_GPR8_ONE'' ''a13d88d140a87713c5cfe9408873548b8'',
    iform ''SHR_GPRv_CL'' ''a7e7b58914c9e0981d5cd41d22fb73190'',
    iform ''SHR_GPRv_IMMb'' ''a24c92c687f783fe993661e47355f6735'',
    iform ''SHR_GPRv_ONE'' ''a7c44834f88316cb170f92bdc7022fa82'',
    iform ''SHR_MEMb_CL'' ''a8b40830055e4e750329b27edc81ea390'',
    iform ''SHR_MEMb_IMMb'' ''a7a9164f31aeeb7f97b8e798b642621d1'',
    iform ''SHR_MEMb_ONE'' ''ae7d195b0e9cc90b55d1bcd5ee2d0c072'',
    iform ''SHR_MEMv_CL'' ''a68fc41711bf2e2127bdc252939eae58e'',
    iform ''SHR_MEMv_IMMb'' ''afda043daab3802defc5f41decb2b4e67'',
    iform ''SHR_MEMv_ONE'' ''a0dea2da1b9e5e31dc225f56ccecff5cf'',
    iform ''SHRD_GPRv_GPRv_CL'' ''a3909048219ce9b7e65690cd5bc62a9d5'',
    iform ''SHRD_GPRv_GPRv_IMMb'' ''aa317ef72dd6cf1c4ea6506123e8cdda4'',
    iform ''SHRD_MEMv_GPRv_CL'' ''a46c9d2adc60e1465eee57245cddf4911'',
    iform ''SHRD_MEMv_GPRv_IMMb'' ''a5e771f9bf7d50f57f7605173a03174c3'',
    iform ''SHRX_VGPR32d_MEMd_VGPR32d'' ''a569e5907d3048e5cd7a37509f1d56324'',
    iform ''SHRX_VGPR32d_VGPR32d_VGPR32d'' ''a3d1bdad819b3441c1d321efebe3279c6'',
    iform ''SHRX_VGPR64q_MEMq_VGPR64q'' ''a889e6eec174232da321e4b413d684992'',
    iform ''SHRX_VGPR64q_VGPR64q_VGPR64q'' ''acd39114f4fc597752adde566ff700d34'',
    iform ''SHUFPD_XMMpd_MEMpd_IMMb'' ''a90da93edd79e09bd24829014dd86963a'',
    iform ''SHUFPD_XMMpd_XMMpd_IMMb'' ''af89920a74cffbfebac47ff66d6a7f915'',
    iform ''SHUFPS_XMMps_MEMps_IMMb'' ''a842ebabebb11be324ed69e3cddffa6a2'',
    iform ''SHUFPS_XMMps_XMMps_IMMb'' ''a57e1dc2998643795831df97bd9f6c01d'',
    iform ''SIDT_MEMs'' ''a2df7fa14670078e33fe0c825237ff849'',
    iform ''SIDT_MEMs64'' ''a021f15b08846b7db89c88536fed14792'',
    iform ''SKINIT_EAX'' ''a1614a7f383fc33cf205debffa20030ed'',
    iform ''SLDT_GPRv'' ''aea95510b43e2e5a3bf2bcfdf23530d79'',
    iform ''SLDT_MEMw'' ''aceeeab8c38c5ea5a6f869fbc7cd15344'',
    iform ''SLWPCB_GPRyy'' ''af3030bd1c38df97b3020e1599b40d43f'',
    iform ''SMSW_GPRv'' ''a2ce0e7696185b83226dc3481f5b33cb2'',
    iform ''SMSW_MEMw'' ''a77bec99a37917cd998de0d5f7e001940'',
    iform ''SQRTPD_XMMpd_MEMpd'' ''ac12c05236056e72459478d2c0c10212e'',
    iform ''SQRTPD_XMMpd_XMMpd'' ''af3128664438c3e382fae74a82e19e436'',
    iform ''SQRTPS_XMMps_MEMps'' ''a60f0fac18efa79cf116c0a648f2b4353'',
    iform ''SQRTPS_XMMps_XMMps'' ''a1b9d9541f322f21bc1c5739d180dc409'',
    iform ''SQRTSD_XMMsd_MEMsd'' ''ab5eb8a449a8f65cc17c6b0643becb313'',
    iform ''SQRTSD_XMMsd_XMMsd'' ''a91df94155893da11aae719a080b25582'',
    iform ''SQRTSS_XMMss_MEMss'' ''ae0c907efb4447a45e99991d4100b3d82'',
    iform ''SQRTSS_XMMss_XMMss'' ''a1a5f553ae8ac0840cbfdb1660aea1a29'',
    iform ''STAC'' ''adbd67f32dc379b02e38bb4e9b0c85865'',
    iform ''STC'' ''a8e7c8a42105316455928a761cd324d95'',
    iform ''STD'' ''a85136647ed410000d79d45c54d355dab'',
    iform ''STGI'' ''ac2c226e77b668fb8dcb84ef94a49c733'',
    iform ''STI'' ''af9dc94322adfbb549b132e79c3cd24e4'',
    iform ''STMXCSR_MEMd'' ''a750205a3527781eed163ee70275bcc6b'',
    iform ''STOSB'' ''a2be88bb84cfe05cae13f0edcf0bc3474'',
    iform ''STOSD'' ''abd07234493a3f2651493a9bd0213e84a'',
    iform ''STOSQ'' ''a4ffef309c53ce7d71c0049d3e6a180be'',
    iform ''STOSW'' ''a4675bfeccae2823d6eff5608e4550539'',
    iform ''STR_GPRv'' ''a7cc0603a0260d6a60abecc022929efa9'',
    iform ''STR_MEMw'' ''ae596842654dd711cbddf8c429d867150'',
    iform ''SUB_AL_IMMb'' ''aa4662d14e4f53a21d1b9b74d55f39864'',
    iform ''SUB_GPR8_GPR8_28'' ''ac530eb0f8449b92cfc016bdee96a55e6'',
    iform ''SUB_GPR8_GPR8_2A'' ''ae33325e9d4de0c62a3a071865ba6a2c5'',
    iform ''SUB_GPR8_IMMb_80r5'' ''a215dd64e39a49c3f76eeb180bcff4ffe'',
    iform ''SUB_GPR8_IMMb_82r5'' ''a11556dbed35292dc4a0d25b087c30d6f'',
    iform ''SUB_GPR8_MEMb'' ''aec61f0da03a6b3d0e42a58af3505ea28'',
    iform ''SUB_GPRv_GPRv_29'' ''a0dbde502fadb53ba9f11382b13a24edd'',
    iform ''SUB_GPRv_GPRv_2B'' ''ab09e7c46169c521636e8fe530a6b22c1'',
    iform ''SUB_GPRv_IMMb'' ''a4ed7bc930c40619896e2c4ac79cd6285'',
    iform ''SUB_GPRv_IMMz'' ''ac9f997f18d8e2ae203e9997034e1041c'',
    iform ''SUB_GPRv_MEMv'' ''a7d0927a97201f00051bfd6ec8051fac9'',
    iform ''SUB_MEMb_GPR8'' ''a9a154de67c0a751e3f01bd2d845943ad'',
    iform ''SUB_MEMb_IMMb_80r5'' ''a2fe4cdeb3eeeb049c5b832d2fce86a12'',
    iform ''SUB_MEMb_IMMb_82r5'' ''af9021dc31fcf01defff5d95ec856a741'',
    iform ''SUB_MEMv_GPRv'' ''ae48f4459311013cfa77364932a1614b3'',
    iform ''SUB_MEMv_IMMb'' ''abd3278b655968f02e60c9e7b7fda1abd'',
    iform ''SUB_MEMv_IMMz'' ''ae44ec803d967f7f65e5de3ed2a29e88b'',
    iform ''SUB_OrAX_IMMz'' ''a1d8eafd2500bbfefb5b36d36ce5c9699'',
    iform ''SUBPD_XMMpd_MEMpd'' ''a4a7c3b9e0be9a45738b163741ca9c69c'',
    iform ''SUBPD_XMMpd_XMMpd'' ''a280d37f05093709b189e2ae52d51082f'',
    iform ''SUBPS_XMMps_MEMps'' ''a1f97ed655b8b83d041ef2bfc90375780'',
    iform ''SUBPS_XMMps_XMMps'' ''ae0477627ee0f7b301205832abde46a02'',
    iform ''SUBSD_XMMsd_MEMsd'' ''a1065bc212124f1a8d9f6e844d11c3323'',
    iform ''SUBSD_XMMsd_XMMsd'' ''ac752913e138628039409d4728e0829f3'',
    iform ''SUBSS_XMMss_MEMss'' ''a63d9fcf3cfecc251cb11ec1d18489b96'',
    iform ''SUBSS_XMMss_XMMss'' ''afc2d25df9f5b2b694bc02b31abe95ba4'',
    iform ''SWAPGS'' ''a3d52a8cedbbc650412d4dc2903bdc649'',
    iform ''SYSCALL'' ''a94c2884ce49d6219cfc57625220e2bbb'',
    iform ''SYSCALL_AMD'' ''aff414bf2b088ef5492ad6d40e597f8a9'',
    iform ''SYSENTER'' ''ae8af083381780fe6b581d507af5fe9b9'',
    iform ''SYSEXIT'' ''a9069b2a894704dcdad3d0a2556301925'',
    iform ''SYSRET'' ''a12907dbf38c8b534de1306e6d84e6866'',
    iform ''SYSRET_AMD'' ''a3f2aaa9696d73e4b0720f0ab9468b90e'',
    iform ''T1MSKC_GPRyy_GPRvy'' ''ada328b56f85a288e00d7cdc447871e55'',
    iform ''T1MSKC_GPRyy_MEMy'' ''a6bd8cf018a769c7b2e6c7674bc59161b'',
    iform ''TEST_AL_IMMb'' ''a11d8150f653edfb3b5df5edf5631414b'',
    iform ''TEST_GPR8_GPR8'' ''a8fc9cbc6baf23328a89ba9df06087b1e'',
    iform ''TEST_GPR8_IMMb_F6r0'' ''ad32e9209013725bba54f08ffe56e95ba'',
    iform ''TEST_GPR8_IMMb_F6r1'' ''aedcb63a14f8076d345a8532605c62908'',
    iform ''TEST_GPRv_GPRv'' ''a3b92e314d435bc4849399c0c0498cde0'',
    iform ''TEST_GPRv_IMMz_F7r0'' ''a016dfc819d1ff6d66c1ae5f97380d71e'',
    iform ''TEST_GPRv_IMMz_F7r1'' ''a169c29d261cd047f83e3f5229295e7ac'',
    iform ''TEST_MEMb_GPR8'' ''a081f26c108937eef811976ec518bb343'',
    iform ''TEST_MEMb_IMMb_F6r0'' ''a1f627e93f71d564b03d7349fb5419edb'',
    iform ''TEST_MEMb_IMMb_F6r1'' ''a959f4a189c05bc332b52f33163770c24'',
    iform ''TEST_MEMv_GPRv'' ''a3341e6be7787366ba5549162a72fe50f'',
    iform ''TEST_MEMv_IMMz_F7r0'' ''a5d946208f849bb4aefa55053b197bd30'',
    iform ''TEST_MEMv_IMMz_F7r1'' ''a7af0052ec20900ae017bc3f8633d0f5b'',
    iform ''TEST_OrAX_IMMz'' ''a5fde4da21b4feddc2f2e402998aaf790'',
    iform ''TZCNT_GPRv_GPRv'' ''a68318a732740b5e58f11ea5798800dd9'',
    iform ''TZCNT_GPRv_MEMv'' ''ad1dc843d6d76f1eddce2f72a7f76955f'',
    iform ''TZMSK_GPRyy_GPRvy'' ''a17fa0a4705765a5dc32b02004b0e2a6b'',
    iform ''TZMSK_GPRyy_MEMy'' ''a03b07a4ea13c1e01da8bb8e91713806f'',
    iform ''UCOMISD_XMMsd_MEMsd'' ''a2ec802a4946c98b7bbdad5c13a94d747'',
    iform ''UCOMISD_XMMsd_XMMsd'' ''a753ad30e709369d08dd5b6f9740b01c6'',
    iform ''UCOMISS_XMMss_MEMss'' ''a2c30ccdb27b49817650b3efb2282ccce'',
    iform ''UCOMISS_XMMss_XMMss'' ''ae4673b42e6500708deae7106af3792a8'',
    iform ''UD2'' ''a77c3da0824ffb35ff08f202459ef3429'',
    iform ''UNPCKHPD_XMMpd_MEMdq'' ''a01a4d17e6809e3357243b829c620d31b'',
    iform ''UNPCKHPD_XMMpd_XMMq'' ''a97ef3d734eb81dada49208e1dbeb4609'',
    iform ''UNPCKHPS_XMMps_MEMdq'' ''ac82a129bfef56bb96f90a927145d2685'',
    iform ''UNPCKHPS_XMMps_XMMdq'' ''a181e111a2dfba2a7ef98652fb48889e8'',
    iform ''UNPCKLPD_XMMpd_MEMdq'' ''ae4a9df2cace554fc635b9061c2974c3a'',
    iform ''UNPCKLPD_XMMpd_XMMq'' ''a69223a3708eb6d54d2a0cb6e7a29426c'',
    iform ''UNPCKLPS_XMMps_MEMdq'' ''a5b8c46fc1e534a78f315923d71854d08'',
    iform ''UNPCKLPS_XMMps_XMMq'' ''afbfbdcb2e688f1e29de1a90c49fc7def'',
    iform ''VADDPD_XMMdq_XMMdq_MEMdq'' ''a6943f0504531962f4b41b672e9d2e57b'',
    iform ''VADDPD_XMMdq_XMMdq_XMMdq'' ''aaa87f8b2f6c57a63a53005e45fcdcdbd'',
    iform ''VADDPD_XMMf64_MASKmskw_XMMf64_MEMf64_AVX512'' ''a1577dc466c9431d8dee68cdb9ffcafb5'',
    iform ''VADDPD_XMMf64_MASKmskw_XMMf64_XMMf64_AVX512'' ''a76f58b257516cd16cc613d9f6e0d112d'',
    iform ''VADDPD_YMMf64_MASKmskw_YMMf64_MEMf64_AVX512'' ''a9fa3b8359a02228de1b529931e964adb'',
    iform ''VADDPD_YMMf64_MASKmskw_YMMf64_YMMf64_AVX512'' ''a187daebd47346b648322b9686989c8b5'',
    iform ''VADDPD_YMMqq_YMMqq_MEMqq'' ''a951d83aad744b0412a8722b6756f16c5'',
    iform ''VADDPD_YMMqq_YMMqq_YMMqq'' ''abe2a23759f6103dd90b42e3fe1e2ae7b'',
    iform ''VADDPD_ZMMf64_MASKmskw_ZMMf64_MEMf64_AVX512'' ''a386deb6c6cd4053abfb8660472ac9efd'',
    iform ''VADDPD_ZMMf64_MASKmskw_ZMMf64_ZMMf64_AVX512'' ''ac1d4c67d9e623ab335e8ef290844694f'',
    iform ''VADDPS_XMMdq_XMMdq_MEMdq'' ''a9fb8175c64865b86def4f42a404c882b'']"

lemma xed_iform_enum_8h_values_13_closed: "list_all (closed_node scripts) xed_iform_enum_8h_values_13"
  by (simp only: xed_iform_enum_8h_values_13_def closed_rules iform_closed)

definition xed_iform_enum_8h_values_14 :: "nav_node list" where
  "xed_iform_enum_8h_values_14 = [
    iform ''VADDPS_XMMdq_XMMdq_XMMdq'' ''a72b9056d788ec2856d4673f6a6718edf'',
    iform ''VADDPS_XMMf32_MASKmskw_XMMf32_MEMf32_AVX512'' ''adc12a1a9fad6f6bcc362bcc7bc75e68b'',
    iform ''VADDPS_XMMf32_MASKmskw_XMMf32_XMMf32_AVX512'' ''ab50df446e793fcb203aaa6c5caa87286'',
    iform ''VADDPS_YMMf32_MASKmskw_YMMf32_MEMf32_AVX512'' ''a6807759c6385b7d897f4ea012fbcc94f'',
    iform ''VADDPS_YMMf32_MASKmskw_YMMf32_YMMf32_AVX512'' ''a3830a6312cb06675cc110da83c5324ad'',
    iform ''VADDPS_YMMqq_YMMqq_MEMqq'' ''ae188108b9ec23712d56e355724ed026d'',
    iform ''VADDPS_YMMqq_YMMqq_YMMqq'' ''a4c8ee9d6d1062124ffcb932ce2d3e6f6'',
    iform ''VADDPS_ZMMf32_MASKmskw_ZMMf32_MEMf32_AVX512'' ''ab4864558d133cbc898589cb0b9167ec2'',
    iform ''VADDPS_ZMMf32_MASKmskw_ZMMf32_ZMMf32_AVX512'' ''af2af639233f1df72770e7a50758466c9'',
    iform ''VADDSD_XMMdq_XMMdq_MEMq'' ''a61581f28ca6a2b5712157c106bec045b'',
    iform ''VADDSD_XMMdq_XMMdq_XMMq'' ''a50d0ea1c7193e4116431e6cc424ed8bf'',
    iform ''VADDSD_XMMf64_MASKmskw_XMMf64_MEMf64_AVX512'' ''a49045a69916c1c9bdd96582c8efc5445'',
    iform ''VADDSD_XMMf64_MASKmskw_XMMf64_XMMf64_AVX512'' ''a7b8ae4d5c468a5c2ae4211a8725f6feb'',
    iform ''VADDSS_XMMdq_XMMdq_MEMd'' ''a236b3714c08eb3023600434c7370f5ff'',
    iform ''VADDSS_XMMdq_XMMdq_XMMd'' ''a4e7b8cd1ab80152926a6a3578ebbf042'',
    iform ''VADDSS_XMMf32_MASKmskw_XMMf32_MEMf32_AVX512'' ''ad32a80a46bcf2594729fe1e13e266ca9'',
    iform ''VADDSS_XMMf32_MASKmskw_XMMf32_XMMf32_AVX512'' ''a88cbaf98c9fa4869b3fb31c7daf4d25a'',
    iform ''VADDSUBPD_XMMdq_XMMdq_MEMdq'' ''aeb172f62c625551404cf5cd1dab3f247'',
    iform ''VADDSUBPD_XMMdq_XMMdq_XMMdq'' ''af2317b615fedd5ae9232542dae9f8d85'',
    iform ''VADDSUBPD_YMMqq_YMMqq_MEMqq'' ''ae6fb3f1bfa35e65d2205e3c649fdf65b'',
    iform ''VADDSUBPD_YMMqq_YMMqq_YMMqq'' ''ac2fd2e9eef580cd10e386c651de3aa94'',
    iform ''VADDSUBPS_XMMdq_XMMdq_MEMdq'' ''a2876d1e41a3bc61028fef6a7f5f7ab4b'',
    iform ''VADDSUBPS_XMMdq_XMMdq_XMMdq'' ''a70acc285ecf35fce887260846da3b9df'',
    iform ''VADDSUBPS_YMMqq_YMMqq_MEMqq'' ''a435a11025df7bbaaa531ba8431b8b8a7'',
    iform ''VADDSUBPS_YMMqq_YMMqq_YMMqq'' ''a8217b6d2a4d93695946f0cf9aa2fd7c8'',
    iform ''VAESDEC_XMMdq_XMMdq_MEMdq'' ''a08133255201fd81b03aef17fca985ac4'',
    iform ''VAESDEC_XMMdq_XMMdq_XMMdq'' ''a0e0652b6b3f4c57f640f9f14a1178ce8'',
    iform ''VAESDECLAST_XMMdq_XMMdq_MEMdq'' ''a1ef8d055bdc922aa190b00b50f37da4c'',
    iform ''VAESDECLAST_XMMdq_XMMdq_XMMdq'' ''a1268c56ccfd2908ec31254e184eacc2b'',
    iform ''VAESENC_XMMdq_XMMdq_MEMdq'' ''a8febadfb7109fc9d574ec507f9e92746'',
    iform ''VAESENC_XMMdq_XMMdq_XMMdq'' ''ab6b5111d32680fc6810159f4ce1b3c7a'',
    iform ''VAESENCLAST_XMMdq_XMMdq_MEMdq'' ''a08b9e30b569c6e405e92f4752cfb7b37'',
    iform ''VAESENCLAST_XMMdq_XMMdq_XMMdq'' ''a13da1ca51bb0abad7c816802c01a5ef2'',
    iform ''VAESIMC_XMMdq_MEMdq'' ''a423f96270cb902739bb4abfbe9010c2d'',
    iform ''VAESIMC_XMMdq_XMMdq'' ''a0d1377925951b9a0d0ac4403e97d4732'',
    iform ''VAESKEYGENASSIST_XMMdq_MEMdq_IMMb'' ''a33f52aa6906d2052cbe936585f456797'',
    iform ''VAESKEYGENASSIST_XMMdq_XMMdq_IMMb'' ''a472237ce01357a6c224ae77e1fa2e0fd'',
    iform ''VALIGND_XMMu32_MASKmskw_XMMu32_MEMu32_IMM8_AVX512'' ''a20546ec56fe5b93c86e089818043e939'',
    iform ''VALIGND_XMMu32_MASKmskw_XMMu32_XMMu32_IMM8_AVX512'' ''aba246eac09fc0f78da4fa4b4801af992'',
    iform ''VALIGND_YMMu32_MASKmskw_YMMu32_MEMu32_IMM8_AVX512'' ''a9d655f20fe727fec4680c7b0ab9d2885'',
    iform ''VALIGND_YMMu32_MASKmskw_YMMu32_YMMu32_IMM8_AVX512'' ''a244c0a3f222357b707cb6e8e34ef57f6'',
    iform ''VALIGND_ZMMu32_MASKmskw_ZMMu32_MEMu32_IMM8_AVX512'' ''a5b48eb2c4ff9a474dfe07b0030366711'',
    iform ''VALIGND_ZMMu32_MASKmskw_ZMMu32_ZMMu32_IMM8_AVX512'' ''a0a57602bee3e015bd5000d517796d9f6'',
    iform ''VALIGNQ_XMMu64_MASKmskw_XMMu64_MEMu64_IMM8_AVX512'' ''a0a15f99f8abef2d1188521349285b5f6'',
    iform ''VALIGNQ_XMMu64_MASKmskw_XMMu64_XMMu64_IMM8_AVX512'' ''ad0dfd7834158d55a3016b945122ddfbd'',
    iform ''VALIGNQ_YMMu64_MASKmskw_YMMu64_MEMu64_IMM8_AVX512'' ''ad04adf88943f8a87e4585ba11ed297b9'',
    iform ''VALIGNQ_YMMu64_MASKmskw_YMMu64_YMMu64_IMM8_AVX512'' ''a369491b30d5cccca3bacd6a1904671c2'',
    iform ''VALIGNQ_ZMMu64_MASKmskw_ZMMu64_MEMu64_IMM8_AVX512'' ''ac89990b478c81b76426fc2e0db4e5a06'',
    iform ''VALIGNQ_ZMMu64_MASKmskw_ZMMu64_ZMMu64_IMM8_AVX512'' ''ad565c6e85f1ad330e76a62388fd56a65'',
    iform ''VANDNPD_XMMdq_XMMdq_MEMdq'' ''affe3120e419a2d43b1e714e845fc9fff'',
    iform ''VANDNPD_XMMdq_XMMdq_XMMdq'' ''a6f2296116eee4c904540cb081e83c25a'',
    iform ''VANDNPD_XMMf64_MASKmskw_XMMf64_MEMf64_AVX512'' ''aa68a340fd42179ffcf4949b4741ec40c'',
    iform ''VANDNPD_XMMf64_MASKmskw_XMMf64_XMMf64_AVX512'' ''ac5bcc76e9c5c3190608db053c1e1422a'',
    iform ''VANDNPD_YMMf64_MASKmskw_YMMf64_MEMf64_AVX512'' ''a14a06cfcd3f882c56e89403a3ee93d66'',
    iform ''VANDNPD_YMMf64_MASKmskw_YMMf64_YMMf64_AVX512'' ''af9cbbf6551099f777ccf86525c8af54c'',
    iform ''VANDNPD_YMMqq_YMMqq_MEMqq'' ''a67bd947c719c9818e70dd7b7cd8360fa'',
    iform ''VANDNPD_YMMqq_YMMqq_YMMqq'' ''a3d894d0202ff3f97dccd6c271346d0ec'',
    iform ''VANDNPD_ZMMf64_MASKmskw_ZMMf64_MEMf64_AVX512'' ''a144b85210ac23380d8cc0bb9594b5353'',
    iform ''VANDNPD_ZMMf64_MASKmskw_ZMMf64_ZMMf64_AVX512'' ''a788f7f29e1bd5a6eeea7bf636209854b'',
    iform ''VANDNPS_XMMdq_XMMdq_MEMdq'' ''ac541568157a42610a3a1b2059d590154'',
    iform ''VANDNPS_XMMdq_XMMdq_XMMdq'' ''ad4eb651f291bf5ad605dc2078accd3df'',
    iform ''VANDNPS_XMMf32_MASKmskw_XMMf32_MEMf32_AVX512'' ''a5a5193a4f4b0ef7111fd7e956879ffb0'',
    iform ''VANDNPS_XMMf32_MASKmskw_XMMf32_XMMf32_AVX512'' ''a4c57e6d109f71d9e27320cecdb84abf4'',
    iform ''VANDNPS_YMMf32_MASKmskw_YMMf32_MEMf32_AVX512'' ''a6eacce705044224d29312b139bc95141'',
    iform ''VANDNPS_YMMf32_MASKmskw_YMMf32_YMMf32_AVX512'' ''ae3229b4e658bad53fa46784dcd6a969d'',
    iform ''VANDNPS_YMMqq_YMMqq_MEMqq'' ''a81bf850aedbf0db1144cd1455e713077'',
    iform ''VANDNPS_YMMqq_YMMqq_YMMqq'' ''af91f94b29c3990ad3fab83ef1bcd3e28'',
    iform ''VANDNPS_ZMMf32_MASKmskw_ZMMf32_MEMf32_AVX512'' ''ac997af20f89048e7ca514e702f71c611'',
    iform ''VANDNPS_ZMMf32_MASKmskw_ZMMf32_ZMMf32_AVX512'' ''aa5da4d20c6cef0a98b6a755f74746d6d'',
    iform ''VANDPD_XMMdq_XMMdq_MEMdq'' ''ae792e5dd23b5f5230313e5ca3f288ee8'',
    iform ''VANDPD_XMMdq_XMMdq_XMMdq'' ''ae245e2e2299169efc757495ec9777a88'',
    iform ''VANDPD_XMMf64_MASKmskw_XMMf64_MEMf64_AVX512'' ''af65b1d0407b0a67833feca8d1fa3458b'',
    iform ''VANDPD_XMMf64_MASKmskw_XMMf64_XMMf64_AVX512'' ''a5f56dd6b8ce5ecf558a8ce07c805ca04'',
    iform ''VANDPD_YMMf64_MASKmskw_YMMf64_MEMf64_AVX512'' ''acbfb3c65af1419af9e338c69f0cdb3e0'',
    iform ''VANDPD_YMMf64_MASKmskw_YMMf64_YMMf64_AVX512'' ''accf8f74a8e6584a65c1369896fd2f168'',
    iform ''VANDPD_YMMqq_YMMqq_MEMqq'' ''af0ae3c02128912703f1d119a956e7f7c'',
    iform ''VANDPD_YMMqq_YMMqq_YMMqq'' ''a3ba8775e6108e0c6644deeb0f1937afa'',
    iform ''VANDPD_ZMMf64_MASKmskw_ZMMf64_MEMf64_AVX512'' ''aff2691af8d0582a8f279f8dc8558c266'',
    iform ''VANDPD_ZMMf64_MASKmskw_ZMMf64_ZMMf64_AVX512'' ''a5bd0bcd134752c6b67081e7efbe823ed'',
    iform ''VANDPS_XMMdq_XMMdq_MEMdq'' ''aa82c2b542d8ebb8a86dc7b7c59bbebde'',
    iform ''VANDPS_XMMdq_XMMdq_XMMdq'' ''a8ad4b65a45177cc6a74854633d61e076'',
    iform ''VANDPS_XMMf32_MASKmskw_XMMf32_MEMf32_AVX512'' ''abcbd523100fc388fdbf67303a44d030c'',
    iform ''VANDPS_XMMf32_MASKmskw_XMMf32_XMMf32_AVX512'' ''a7f131a7bf44f02cc36930bde33c3d254'',
    iform ''VANDPS_YMMf32_MASKmskw_YMMf32_MEMf32_AVX512'' ''a7fa4c2af0ab734aafa8a0160f2437c24'',
    iform ''VANDPS_YMMf32_MASKmskw_YMMf32_YMMf32_AVX512'' ''a6a295245607975d9a49d34473638783a'',
    iform ''VANDPS_YMMqq_YMMqq_MEMqq'' ''af4a813bc4c687b669117ff06400ec6e7'',
    iform ''VANDPS_YMMqq_YMMqq_YMMqq'' ''a8e193ca3b9781cea66ec6313d742bd07'',
    iform ''VANDPS_ZMMf32_MASKmskw_ZMMf32_MEMf32_AVX512'' ''afbc3c236ba47c21a06151295d94613fb'',
    iform ''VANDPS_ZMMf32_MASKmskw_ZMMf32_ZMMf32_AVX512'' ''a440e26bac321d7538159c7ae7eaf229c'',
    iform ''VBLENDMPD_XMMf64_MASKmskw_XMMf64_MEMf64_AVX512'' ''a7fb53775c658eed291d70c823b8983d6'',
    iform ''VBLENDMPD_XMMf64_MASKmskw_XMMf64_XMMf64_AVX512'' ''a45b72e723873b0761d28d20bced73af6'',
    iform ''VBLENDMPD_YMMf64_MASKmskw_YMMf64_MEMf64_AVX512'' ''a6e446bcf0719d3a557cad748c5db66a0'',
    iform ''VBLENDMPD_YMMf64_MASKmskw_YMMf64_YMMf64_AVX512'' ''ab499b3fe5ed47511b3518b05ccd1874e'',
    iform ''VBLENDMPD_ZMMf64_MASKmskw_ZMMf64_MEMf64_AVX512'' ''a381f80b82cb3dc9f6982e7bd777e1d34'',
    iform ''VBLENDMPD_ZMMf64_MASKmskw_ZMMf64_ZMMf64_AVX512'' ''ae148827a4187aa8980d7f213ac5cd758'',
    iform ''VBLENDMPS_XMMf32_MASKmskw_XMMf32_MEMf32_AVX512'' ''a3685a76588f954ef18bf1741f9d58694'',
    iform ''VBLENDMPS_XMMf32_MASKmskw_XMMf32_XMMf32_AVX512'' ''ae1f7250ee89ccb14ae6accacb4ae8c28'',
    iform ''VBLENDMPS_YMMf32_MASKmskw_YMMf32_MEMf32_AVX512'' ''a90f46ec5389e0c5b7deec35c5cc40b77'',
    iform ''VBLENDMPS_YMMf32_MASKmskw_YMMf32_YMMf32_AVX512'' ''a19d0e14cbfc3338dc2ab01716ec2d29a'',
    iform ''VBLENDMPS_ZMMf32_MASKmskw_ZMMf32_MEMf32_AVX512'' ''a250e3e187f4a126ddb21602810077464'',
    iform ''VBLENDMPS_ZMMf32_MASKmskw_ZMMf32_ZMMf32_AVX512'' ''a505c3bab666ca2648cdd766fc87ade7c'',
    iform ''VBLENDPD_XMMdq_XMMdq_MEMdq_IMMb'' ''aa3eb683db9f4e7294fabe381a67ee19b'',
    iform ''VBLENDPD_XMMdq_XMMdq_XMMdq_IMMb'' ''afd32548e307e20d78553e9af11f73c4e'',
    iform ''VBLENDPD_YMMqq_YMMqq_MEMqq_IMMb'' ''a178b31ff60f96a8341c082cfe84a6692'',
    iform ''VBLENDPD_YMMqq_YMMqq_YMMqq_IMMb'' ''a66f4b1689e7b16f1b604015040af835b'',
    iform ''VBLENDPS_XMMdq_XMMdq_MEMdq_IMMb'' ''a6cd727d30626e75cf81de806ae0bf004'',
    iform ''VBLENDPS_XMMdq_XMMdq_XMMdq_IMMb'' ''a9c7fa3cba9eca8ca731cfcc34fe7a2df'',
    iform ''VBLENDPS_YMMqq_YMMqq_MEMqq_IMMb'' ''ab18589a209b4216efd9ca282c718a27c'',
    iform ''VBLENDPS_YMMqq_YMMqq_YMMqq_IMMb'' ''af85896ce6006dea0cdc3fe3403b4f0de'',
    iform ''VBLENDVPD_XMMdq_XMMdq_MEMdq_XMMdq'' ''a63978a7f338f8f3474c00b7ff10c8654'',
    iform ''VBLENDVPD_XMMdq_XMMdq_XMMdq_XMMdq'' ''a03b181d47a932ce684abc775197605a5'',
    iform ''VBLENDVPD_YMMqq_YMMqq_MEMqq_YMMqq'' ''a256c60de9b7151762216b711b0eb102b'',
    iform ''VBLENDVPD_YMMqq_YMMqq_YMMqq_YMMqq'' ''affac5554cf2ffbfc27e5536c3420f92e'',
    iform ''VBLENDVPS_XMMdq_XMMdq_MEMdq_XMMdq'' ''a81f5ef303405abfb6f6fa6a86dc896c7'',
    iform ''VBLENDVPS_XMMdq_XMMdq_XMMdq_XMMdq'' ''a011eb77eb0b020c55d4c0d5122fcdea4'',
    iform ''VBLENDVPS_YMMqq_YMMqq_MEMqq_YMMqq'' ''a723a06fdfceeebe32d9795f63e816cb0'',
    iform ''VBLENDVPS_YMMqq_YMMqq_YMMqq_YMMqq'' ''a76a476c43865af587b69931117abccf7'',
    iform ''VBROADCASTF128_YMMqq_MEMdq'' ''a12a0c3a43d953681b2c77732aa782568'',
    iform ''VBROADCASTF32X2_YMMf32_MASKmskw_MEMf32_AVX512'' ''a36555641278a3d1eb63357a0a237a6fe'',
    iform ''VBROADCASTF32X2_YMMf32_MASKmskw_XMMf32_AVX512'' ''ae11f62baf2b302e202bf5636da473c33'',
    iform ''VBROADCASTF32X2_ZMMf32_MASKmskw_MEMf32_AVX512'' ''a4b3ebc6b7a7d3ccaa2b41f29144a1d54'',
    iform ''VBROADCASTF32X2_ZMMf32_MASKmskw_XMMf32_AVX512'' ''ab1c2543cac3e5cefb592901438e22218'',
    iform ''VBROADCASTF32X4_YMMf32_MASKmskw_MEMf32_AVX512'' ''af1c7c7c8a35088458cc31ab9eb0c527d'',
    iform ''VBROADCASTF32X4_ZMMf32_MASKmskw_MEMf32_AVX512'' ''a3587d830dc264e6a58d9a0d1be8fd4d1'',
    iform ''VBROADCASTF32X8_ZMMf32_MASKmskw_MEMf32_AVX512'' ''a4d9dbd12c41defda292d23f3c6cabb68'',
    iform ''VBROADCASTF64X2_YMMf64_MASKmskw_MEMf64_AVX512'' ''a21d9a9bfe746a139dadd12f43d86471c'',
    iform ''VBROADCASTF64X2_ZMMf64_MASKmskw_MEMf64_AVX512'' ''a2d8f49920d48b3ee5f6fb48731c7b31b'',
    iform ''VBROADCASTF64X4_ZMMf64_MASKmskw_MEMf64_AVX512'' ''a8747c5a43dce84ee7ac7c3751e44ffe3'',
    iform ''VBROADCASTI128_YMMqq_MEMdq'' ''a144ab30be43316c0501047a9645c1979'',
    iform ''VBROADCASTI32X2_XMMu32_MASKmskw_MEMu32_AVX512'' ''abdc87219bd7ad3a678c00d8aa3582a99'',
    iform ''VBROADCASTI32X2_XMMu32_MASKmskw_XMMu32_AVX512'' ''adee9910bfe93fe2ac3a7291580c7934c'',
    iform ''VBROADCASTI32X2_YMMu32_MASKmskw_MEMu32_AVX512'' ''a964dd847dbbd9e8a0628ac7488927136'',
    iform ''VBROADCASTI32X2_YMMu32_MASKmskw_XMMu32_AVX512'' ''a4089f0eaf12eda07d2bd7ecff69322c0'',
    iform ''VBROADCASTI32X2_ZMMu32_MASKmskw_MEMu32_AVX512'' ''a2dfb46cd00d9534a345cb37ebf56488a'',
    iform ''VBROADCASTI32X2_ZMMu32_MASKmskw_XMMu32_AVX512'' ''aea899ec6a85129f9c80df99f39386a42'',
    iform ''VBROADCASTI32X4_YMMu32_MASKmskw_MEMu32_AVX512'' ''ac6c8bfd02bba63a54fa297dc4612f600'',
    iform ''VBROADCASTI32X4_ZMMu32_MASKmskw_MEMu32_AVX512'' ''ae839aa018390b7472cd0f559c1d9666e'',
    iform ''VBROADCASTI32X8_ZMMu32_MASKmskw_MEMu32_AVX512'' ''acfa8a1230b124fb23b181597cb62a47d'',
    iform ''VBROADCASTI64X2_YMMu64_MASKmskw_MEMu64_AVX512'' ''a5f54ed66ea82615e6784f5f1e751353c'',
    iform ''VBROADCASTI64X2_ZMMu64_MASKmskw_MEMu64_AVX512'' ''a18ffb012c6f6372c52aa5b04bf56c0b7'']"

lemma xed_iform_enum_8h_values_14_closed: "list_all (closed_node scripts) xed_iform_enum_8h_values_14"
  by (simp only: xed_iform_enum_8h_values_14_def closed_rules iform_closed)

definition xed_iform_enum_8h_values_15 :: "nav_node list" where
  "xed_iform_enum_8h_values_15 = [
    iform ''VBROADCASTI64X4_ZMMu64_MASKmskw_MEMu64_AVX512'' ''a76e1521870741057c45ad947143e8eda'',
    iform ''VBROADCASTSD_YMMf64_MASKmskw_MEMf64_AVX512'' ''a8f341837d39caf9d4a57eab4f3afa6b5'',
    iform ''VBROADCASTSD_YMMf64_MASKmskw_XMMf64_AVX512'' ''a7d3d961e3df8a5fdda67d2a843f2de5b'',
    iform ''VBROADCASTSD_YMMqq_MEMq'' ''accb24b7adc3755bf853eb8bf1bd6a869'',
    iform ''VBROADCASTSD_YMMqq_XMMdq'' ''a877feb69187ad021b407bdebfe8578ff'',
    iform ''VBROADCASTSD_ZMMf64_MASKmskw_MEMf64_AVX512'' ''ab84111b907250bfcc72585eb90f99a63'',
    iform ''VBROADCASTSD_ZMMf64_MASKmskw_XMMf64_AVX512'' ''a55747e5243bf6549f860b14050ef3f86'',
    iform ''VBROADCASTSS_XMMdq_MEMd'' ''a2bddd03600fc25799e98805f2413efd6'',
    iform ''VBROADCASTSS_XMMdq_XMMdq'' ''a1824b8875119f31cf1422e23a2fef366'',
    iform ''VBROADCASTSS_XMMf32_MASKmskw_MEMf32_AVX512'' ''a1e650f1a10275d552317351a802e3644'',
    iform ''VBROADCASTSS_XMMf32_MASKmskw_XMMf32_AVX512'' ''afcad1a152b6a2c2d9ae5d47d5d56cc19'',
    iform ''VBROADCASTSS_YMMf32_MASKmskw_MEMf32_AVX512'' ''ad5373d705aabd3b6003614950274ec93'',
    iform ''VBROADCASTSS_YMMf32_MASKmskw_XMMf32_AVX512'' ''a36d5334c08528de21f9b79606ebdf891'',
    iform ''VBROADCASTSS_YMMqq_MEMd'' ''a5602fa301dbcadc94e52de235b37f44b'',
    iform ''VBROADCASTSS_YMMqq_XMMdq'' ''a55935ba29664a16cf76b24eaecbdd817'',
    iform ''VBROADCASTSS_ZMMf32_MASKmskw_MEMf32_AVX512'' ''ad15fd23ca54ba60a647e36e892ec46bb'',
    iform ''VBROADCASTSS_ZMMf32_MASKmskw_XMMf32_AVX512'' ''aff13215ec3bad48167cbaa85a4cd4b43'',
    iform ''VCMPPD_MASKmskw_MASKmskw_XMMf64_MEMf64_IMM8_AVX512'' ''a3b73d252e52a3702046c164a4463552e'',
    iform ''VCMPPD_MASKmskw_MASKmskw_XMMf64_XMMf64_IMM8_AVX512'' ''af8d37bf2d4354f4e3bd7f4c169ece366'',
    iform ''VCMPPD_MASKmskw_MASKmskw_YMMf64_MEMf64_IMM8_AVX512'' ''aabef5b3a48c7eaa99c4f6ac3b55bbe05'',
    iform ''VCMPPD_MASKmskw_MASKmskw_YMMf64_YMMf64_IMM8_AVX512'' ''ac7d7b496626f1f32b9349088801e5928'',
    iform ''VCMPPD_MASKmskw_MASKmskw_ZMMf64_MEMf64_IMM8_AVX512'' ''a05c253ee1d61f65b222fe6f2e0e92cce'',
    iform ''VCMPPD_MASKmskw_MASKmskw_ZMMf64_ZMMf64_IMM8_AVX512'' ''a2de2ecec441fa482feaa1ff34889e477'',
    iform ''VCMPPD_XMMdq_XMMdq_MEMdq_IMMb'' ''abfee9854ca67436067a9c4056039459c'',
    iform ''VCMPPD_XMMdq_XMMdq_XMMdq_IMMb'' ''a9b56c3f883b2d8cf8d8a92514564b494'',
    iform ''VCMPPD_YMMqq_YMMqq_MEMqq_IMMb'' ''aa4c0864d7ca5c15a2ef86e62d00c6904'',
    iform ''VCMPPD_YMMqq_YMMqq_YMMqq_IMMb'' ''a7f4f60215396775a8ca3275d0e8e66b9'',
    iform ''VCMPPS_MASKmskw_MASKmskw_XMMf32_MEMf32_IMM8_AVX512'' ''ac5b7f7fe28f95adc73e2f427067ec423'',
    iform ''VCMPPS_MASKmskw_MASKmskw_XMMf32_XMMf32_IMM8_AVX512'' ''a3aeb6a644f50ffa3d59a822ec13def5d'',
    iform ''VCMPPS_MASKmskw_MASKmskw_YMMf32_MEMf32_IMM8_AVX512'' ''ae5d3fff9968a98d2968e51974522a77f'',
    iform ''VCMPPS_MASKmskw_MASKmskw_YMMf32_YMMf32_IMM8_AVX512'' ''ac3592782c103cd8e2a5e5d8042fce2eb'',
    iform ''VCMPPS_MASKmskw_MASKmskw_ZMMf32_MEMf32_IMM8_AVX512'' ''a203798b95e2befc685301bd8f0db053a'',
    iform ''VCMPPS_MASKmskw_MASKmskw_ZMMf32_ZMMf32_IMM8_AVX512'' ''a2490854bc677977e2acba5c8b7efd684'',
    iform ''VCMPPS_XMMdq_XMMdq_MEMdq_IMMb'' ''a0567cf46c96a493118dcaf3bd3768296'',
    iform ''VCMPPS_XMMdq_XMMdq_XMMdq_IMMb'' ''a1099303a9b22e6fc5b123efdc8ca4ec3'',
    iform ''VCMPPS_YMMqq_YMMqq_MEMqq_IMMb'' ''a8f2dd13d053757396015d075562f184a'',
    iform ''VCMPPS_YMMqq_YMMqq_YMMqq_IMMb'' ''abcf3cb09ce3a34afb7254f9e1732bed2'',
    iform ''VCMPSD_MASKmskw_MASKmskw_XMMf64_MEMf64_IMM8_AVX512'' ''adf8a630bb54d60ebd3883447fc93a103'',
    iform ''VCMPSD_MASKmskw_MASKmskw_XMMf64_XMMf64_IMM8_AVX512'' ''a5b795d66e0039a3d4c5f229ddeb0536d'',
    iform ''VCMPSD_XMMdq_XMMdq_MEMq_IMMb'' ''abf6a52e550d397a06e1915ce545a8a5e'',
    iform ''VCMPSD_XMMdq_XMMdq_XMMq_IMMb'' ''a2d597656ec5cea85258dfe703ec90682'',
    iform ''VCMPSS_MASKmskw_MASKmskw_XMMf32_MEMf32_IMM8_AVX512'' ''afdda74aae45af31a70c2c861cfc6bdd4'',
    iform ''VCMPSS_MASKmskw_MASKmskw_XMMf32_XMMf32_IMM8_AVX512'' ''a85d778cc407586420a971e3c42c3e940'',
    iform ''VCMPSS_XMMdq_XMMdq_MEMd_IMMb'' ''abb47d0cd4a763bfbedef675840d28e7a'',
    iform ''VCMPSS_XMMdq_XMMdq_XMMd_IMMb'' ''aa626b9b8661c484ad2b8d37313e26df1'',
    iform ''VCOMISD_XMMf64_MEMf64_AVX512'' ''acf71515fb24829ef359d6b154e243f2d'',
    iform ''VCOMISD_XMMf64_XMMf64_AVX512'' ''af957123f186f0c00d1c66984a7b732c7'',
    iform ''VCOMISD_XMMq_MEMq'' ''a5f942169cc1f9bca9069e8660b8fe6d0'',
    iform ''VCOMISD_XMMq_XMMq'' ''a51da4cebf49f8ab196dc0c136b2924fe'',
    iform ''VCOMISS_XMMd_MEMd'' ''a46ee785a7f92e15ecac12809091230a5'',
    iform ''VCOMISS_XMMd_XMMd'' ''a8899fbe0d23ac75dfa095af2d7c736ae'',
    iform ''VCOMISS_XMMf32_MEMf32_AVX512'' ''ae8b10e771c91fe3980669a6ef4f610b1'',
    iform ''VCOMISS_XMMf32_XMMf32_AVX512'' ''a9dfc5dcb11da8d58f6681b9d77cc086b'',
    iform ''VCOMPRESSPD_MEMf64_MASKmskw_XMMf64_AVX512'' ''a1fcd952d8ca7abba7efdd42319bb718f'',
    iform ''VCOMPRESSPD_MEMf64_MASKmskw_YMMf64_AVX512'' ''a3946e69af61a08cedc2ae3d59b37aab3'',
    iform ''VCOMPRESSPD_MEMf64_MASKmskw_ZMMf64_AVX512'' ''ad03cc175a49982a233a20db68a877b0a'',
    iform ''VCOMPRESSPD_XMMf64_MASKmskw_XMMf64_AVX512'' ''a64b4d12ff23e42220297ef9516883d6e'',
    iform ''VCOMPRESSPD_YMMf64_MASKmskw_YMMf64_AVX512'' ''aec2c76bd317eee5f5555c1043dbd4460'',
    iform ''VCOMPRESSPD_ZMMf64_MASKmskw_ZMMf64_AVX512'' ''a693f4b398986fd6484f521a32297baf8'',
    iform ''VCOMPRESSPS_MEMf32_MASKmskw_XMMf32_AVX512'' ''afb236bc40a5d5ae96756b1a040f93866'',
    iform ''VCOMPRESSPS_MEMf32_MASKmskw_YMMf32_AVX512'' ''ad42610ba47e3f9e8599e05dfa31674bb'',
    iform ''VCOMPRESSPS_MEMf32_MASKmskw_ZMMf32_AVX512'' ''a0a1d5fb7d3803ef90e9a033f179f3303'',
    iform ''VCOMPRESSPS_XMMf32_MASKmskw_XMMf32_AVX512'' ''a1d930b8db661ee106d505b8d1207dc3b'',
    iform ''VCOMPRESSPS_YMMf32_MASKmskw_YMMf32_AVX512'' ''aa6f5ebf4ac5382c6d8a32432f17e7f7a'',
    iform ''VCOMPRESSPS_ZMMf32_MASKmskw_ZMMf32_AVX512'' ''a55b666bf92116263917b22a7d82ad353'',
    iform ''VCVTDQ2PD_XMMdq_MEMq'' ''a189dc1d18eea43b9c61bf2a1d166cbf3'',
    iform ''VCVTDQ2PD_XMMdq_XMMq'' ''aea0cdd77132e01dcb0e7bda9ef62d89d'',
    iform ''VCVTDQ2PD_XMMf64_MASKmskw_MEMi32_AVX512'' ''a4ba9e8cc9e349b1a7c97be6d05704245'',
    iform ''VCVTDQ2PD_XMMf64_MASKmskw_XMMi32_AVX512'' ''ae2089299d81f83cc8910d2b2c941ed01'',
    iform ''VCVTDQ2PD_YMMf64_MASKmskw_MEMi32_AVX512'' ''a54b76564880ee2e89359e52e0170338c'',
    iform ''VCVTDQ2PD_YMMf64_MASKmskw_XMMi32_AVX512'' ''a451a0a05a9bcc19da831f70daf35243e'',
    iform ''VCVTDQ2PD_YMMqq_MEMdq'' ''a75030e3b9434dfb066709b8773672a55'',
    iform ''VCVTDQ2PD_YMMqq_XMMdq'' ''a234eb804e0b70cbb4b2c9614d10553a3'',
    iform ''VCVTDQ2PD_ZMMf64_MASKmskw_MEMi32_AVX512'' ''aad623b031cd67099c71aa6e142b42446'',
    iform ''VCVTDQ2PD_ZMMf64_MASKmskw_YMMi32_AVX512'' ''a0c22b1b11f0658f4d216e375d2fd9fc3'',
    iform ''VCVTDQ2PS_XMMdq_MEMdq'' ''a50c1ce4f6d1e531d6d0ef7de797c802c'',
    iform ''VCVTDQ2PS_XMMdq_XMMdq'' ''a713eba72ecd3237cfba6efab375e9267'',
    iform ''VCVTDQ2PS_XMMf32_MASKmskw_MEMi32_AVX512'' ''ac3d1fcd25bbcf330354682bd6c84e683'',
    iform ''VCVTDQ2PS_XMMf32_MASKmskw_XMMi32_AVX512'' ''a62569fa1b8a859af0a196fe1c2611442'',
    iform ''VCVTDQ2PS_YMMf32_MASKmskw_MEMi32_AVX512'' ''ad889a3a5a136cb7cc6b642b48a852211'',
    iform ''VCVTDQ2PS_YMMf32_MASKmskw_YMMi32_AVX512'' ''a0fb31cce251ee8aadae073c81a1fbed2'',
    iform ''VCVTDQ2PS_YMMqq_MEMqq'' ''a2292ff27a28d357afde953e98c430972'',
    iform ''VCVTDQ2PS_YMMqq_YMMqq'' ''a67a6e0ee065cac94ae4737da9a2a8b3e'',
    iform ''VCVTDQ2PS_ZMMf32_MASKmskw_MEMi32_AVX512'' ''a433cbf2cb9c8d0bd08bee63ace0b94db'',
    iform ''VCVTDQ2PS_ZMMf32_MASKmskw_ZMMi32_AVX512'' ''a7f1276e35abc198776b1d9a23b770afc'',
    iform ''VCVTPD2DQ_XMMdq_MEMdq'' ''a0bb333b2128600ae7c95dc42d486b131'',
    iform ''VCVTPD2DQ_XMMdq_MEMqq'' ''a16895fd5097e93f33de6856bd5173037'',
    iform ''VCVTPD2DQ_XMMdq_XMMdq'' ''a4b66cd413de57ebb72d1c52f5aa533a4'',
    iform ''VCVTPD2DQ_XMMdq_YMMqq'' ''aff478ed11433595d5afe4fa0324e5ff3'',
    iform ''VCVTPD2DQ_XMMi32_MASKmskw_MEMf64_AVX512_VL128'' ''a2db8313fb017b6f23b4e4d69f636fb15'',
    iform ''VCVTPD2DQ_XMMi32_MASKmskw_MEMf64_AVX512_VL256'' ''aab8e0bc5d9c135c501da1a98a8d49f81'',
    iform ''VCVTPD2DQ_XMMi32_MASKmskw_XMMf64_AVX512_VL128'' ''a2548a2d69ce2a647181d8769f52745ae'',
    iform ''VCVTPD2DQ_XMMi32_MASKmskw_YMMf64_AVX512_VL256'' ''a9ebd82c9fa5de8c05fe39ad95cf114ee'',
    iform ''VCVTPD2DQ_YMMi32_MASKmskw_MEMf64_AVX512_VL512'' ''af819aa554d0a78c613baca6e4575c2c8'',
    iform ''VCVTPD2DQ_YMMi32_MASKmskw_ZMMf64_AVX512_VL512'' ''a5b72badd2c9aeed7f2448a2842ef9f26'',
    iform ''VCVTPD2PS_XMMdq_MEMdq'' ''a9c6b676c2914481a62f6d01d24a5a351'',
    iform ''VCVTPD2PS_XMMdq_MEMqq'' ''ae379e596684435ecf20ca79675e48609'',
    iform ''VCVTPD2PS_XMMdq_XMMdq'' ''a5ef7e91591bc4193f852711aac0807ee'',
    iform ''VCVTPD2PS_XMMdq_YMMqq'' ''a3941ea7ea421c5efef7e718226765f5a'',
    iform ''VCVTPD2PS_XMMf32_MASKmskw_MEMf64_AVX512_VL128'' ''a21c425782fe34416ba7389eb4cdb98ef'',
    iform ''VCVTPD2PS_XMMf32_MASKmskw_MEMf64_AVX512_VL256'' ''a5c88971fdac5445dcebd2df0d6b78bf2'',
    iform ''VCVTPD2PS_XMMf32_MASKmskw_XMMf64_AVX512_VL128'' ''ac131ca79c1f997ea5aa286ca57607e5c'',
    iform ''VCVTPD2PS_XMMf32_MASKmskw_YMMf64_AVX512_VL256'' ''a7a8bed5587a3e98a4b8e030f08e791e9'',
    iform ''VCVTPD2PS_YMMf32_MASKmskw_MEMf64_AVX512_VL512'' ''a3fb132ca76bcc8597bf499caca811b3d'',
    iform ''VCVTPD2PS_YMMf32_MASKmskw_ZMMf64_AVX512_VL512'' ''a5a9dd93dd371c2b3592eab90a8d0e450'',
    iform ''VCVTPD2QQ_XMMi64_MASKmskw_MEMf64_AVX512'' ''ad5b1bf11ac0170182b283236080a8b94'',
    iform ''VCVTPD2QQ_XMMi64_MASKmskw_XMMf64_AVX512'' ''a7ad2ccce784df934af75f9b1159bd4b5'',
    iform ''VCVTPD2QQ_YMMi64_MASKmskw_MEMf64_AVX512'' ''a076423dffb59d16e809d1e2de0faa8f0'',
    iform ''VCVTPD2QQ_YMMi64_MASKmskw_YMMf64_AVX512'' ''ae6fe8c5663b0caead14bf44fa848ee71'',
    iform ''VCVTPD2QQ_ZMMi64_MASKmskw_MEMf64_AVX512'' ''a7eb4599c6fb4904be7a5b02d5b572486'',
    iform ''VCVTPD2QQ_ZMMi64_MASKmskw_ZMMf64_AVX512'' ''a4c008ecb8fd1b866a40d6580c0d04908'',
    iform ''VCVTPD2UDQ_XMMu32_MASKmskw_MEMf64_AVX512_VL128'' ''a3115677bc821776d4b4ce0b47b4e43ff'',
    iform ''VCVTPD2UDQ_XMMu32_MASKmskw_MEMf64_AVX512_VL256'' ''a60a6fb607b7458952969fa3cf26ed9b5'',
    iform ''VCVTPD2UDQ_XMMu32_MASKmskw_XMMf64_AVX512_VL128'' ''aa3a883c7872b03dbf7d12173776682a0'',
    iform ''VCVTPD2UDQ_XMMu32_MASKmskw_YMMf64_AVX512_VL256'' ''a36167b77ab2d9895899427af73cf5d86'',
    iform ''VCVTPD2UDQ_YMMu32_MASKmskw_MEMf64_AVX512_VL512'' ''af4df028f3e0bd913dc33c7e5ea6e7b95'',
    iform ''VCVTPD2UDQ_YMMu32_MASKmskw_ZMMf64_AVX512_VL512'' ''affe506b92abf03b32a3baf137f18cdf4'',
    iform ''VCVTPD2UQQ_XMMu64_MASKmskw_MEMf64_AVX512'' ''a35655f700fea4f57cf1ae7ba24241dbb'',
    iform ''VCVTPD2UQQ_XMMu64_MASKmskw_XMMf64_AVX512'' ''a306b20e6c44824e1e76dcd567009660d'',
    iform ''VCVTPD2UQQ_YMMu64_MASKmskw_MEMf64_AVX512'' ''a0d832a45891cd79617f908b715f2520c'',
    iform ''VCVTPD2UQQ_YMMu64_MASKmskw_YMMf64_AVX512'' ''aa3d4ce5a8ee1f2d2c8e53a7312545be7'',
    iform ''VCVTPD2UQQ_ZMMu64_MASKmskw_MEMf64_AVX512'' ''aa952f41fea26a7ba47343b4f40c91deb'',
    iform ''VCVTPD2UQQ_ZMMu64_MASKmskw_ZMMf64_AVX512'' ''af35e8c07ae1786f6810207048d372ab8'',
    iform ''VCVTPH2PS_XMMdq_MEMq'' ''abadfea8b4e28ad3d69b2e33600624d73'',
    iform ''VCVTPH2PS_XMMdq_XMMq'' ''acd8fd9e21f0ad4bd3eec45220f1593f0'',
    iform ''VCVTPH2PS_XMMf32_MASKmskw_MEMf16_AVX512'' ''a5d3423d3cf28651a99ada8e0bbe9e03f'',
    iform ''VCVTPH2PS_XMMf32_MASKmskw_XMMf16_AVX512'' ''a13de52e524a0f07f4614caa30563e176'',
    iform ''VCVTPH2PS_YMMf32_MASKmskw_MEMf16_AVX512'' ''aa4acefba24468dec2637a7df3f6409cf'',
    iform ''VCVTPH2PS_YMMf32_MASKmskw_XMMf16_AVX512'' ''a4f318b3c06c1985c2c0acd5bf4b5b617'',
    iform ''VCVTPH2PS_YMMqq_MEMdq'' ''a139acd45d88f2e2b445f5ac4327cae70'',
    iform ''VCVTPH2PS_YMMqq_XMMdq'' ''a0fab4c511d2493d06f2cd3c34c94eb13'',
    iform ''VCVTPH2PS_ZMMf32_MASKmskw_MEMf16_AVX512'' ''a29744ee124f5a491fc3240bf6a8c39f4'',
    iform ''VCVTPH2PS_ZMMf32_MASKmskw_YMMf16_AVX512'' ''a27fd0795fbf0b215376ab38629e96175'',
    iform ''VCVTPS2DQ_XMMdq_MEMdq'' ''ab32bbb0a02b5c2a614e94b56a863aff7'',
    iform ''VCVTPS2DQ_XMMdq_XMMdq'' ''a49606ff41f15ecec3a2f490a4c7530f2'',
    iform ''VCVTPS2DQ_XMMi32_MASKmskw_MEMf32_AVX512'' ''a8036ef7b2682c95e471b3c77cc0f8750'',
    iform ''VCVTPS2DQ_XMMi32_MASKmskw_XMMf32_AVX512'' ''a8f69e8592c0f63a270e038c2d4599c98'',
    iform ''VCVTPS2DQ_YMMi32_MASKmskw_MEMf32_AVX512'' ''aa7198d5d10fadc7e4b6687040bc9c302'',
    iform ''VCVTPS2DQ_YMMi32_MASKmskw_YMMf32_AVX512'' ''a210511ff58f6aee9ab2d2963e28698ab'',
    iform ''VCVTPS2DQ_YMMqq_MEMqq'' ''afa32a58f555b73fb055088f51bb2748a'']"

lemma xed_iform_enum_8h_values_15_closed: "list_all (closed_node scripts) xed_iform_enum_8h_values_15"
  by (simp only: xed_iform_enum_8h_values_15_def closed_rules iform_closed)

definition xed_iform_enum_8h_values_16 :: "nav_node list" where
  "xed_iform_enum_8h_values_16 = [
    iform ''VCVTPS2DQ_YMMqq_YMMqq'' ''a00279e0e73ace67206b37f4ecaa84a25'',
    iform ''VCVTPS2DQ_ZMMi32_MASKmskw_MEMf32_AVX512'' ''a44ea263429a457ebc654c35197834fff'',
    iform ''VCVTPS2DQ_ZMMi32_MASKmskw_ZMMf32_AVX512'' ''a08a213e018ab3dc9c1b6fbc8f1e16fd8'',
    iform ''VCVTPS2PD_XMMdq_MEMq'' ''afabd85bf30ff6e19d879ce3b85de0461'',
    iform ''VCVTPS2PD_XMMdq_XMMq'' ''a418ca5c8607d8cce3cc9db9054b1f100'',
    iform ''VCVTPS2PD_XMMf64_MASKmskw_MEMf32_AVX512'' ''a4d3b70e03fdce345c3d9884667bcdc4d'',
    iform ''VCVTPS2PD_XMMf64_MASKmskw_XMMf32_AVX512'' ''a06603ab21c9c6d299b4e336cedad8b2d'',
    iform ''VCVTPS2PD_YMMf64_MASKmskw_MEMf32_AVX512'' ''a024a239058c3f79fad132c2e8c6a2f22'',
    iform ''VCVTPS2PD_YMMf64_MASKmskw_XMMf32_AVX512'' ''a55a34235e33459ae1feed035f60f0a2a'',
    iform ''VCVTPS2PD_YMMqq_MEMdq'' ''a1e8e5138453b19f2f87fc0d384045ad5'',
    iform ''VCVTPS2PD_YMMqq_XMMdq'' ''a2279196e556ab1aa8a2bfca074c792b1'',
    iform ''VCVTPS2PD_ZMMf64_MASKmskw_MEMf32_AVX512'' ''af99841c76d01858296eed39eb63fa713'',
    iform ''VCVTPS2PD_ZMMf64_MASKmskw_YMMf32_AVX512'' ''a2f282ff2b82f498fb51762efe4acba4c'',
    iform ''VCVTPS2PH_MEMdq_YMMqq_IMMb'' ''abc5b990760d606b9df218314a299ca4a'',
    iform ''VCVTPS2PH_MEMf16_MASKmskw_XMMf32_IMM8_AVX512'' ''a6d1a12bca66f7ff023af6189691982c1'',
    iform ''VCVTPS2PH_MEMf16_MASKmskw_YMMf32_IMM8_AVX512'' ''aa05546a9e8463098f60f31938f0c1112'',
    iform ''VCVTPS2PH_MEMf16_MASKmskw_ZMMf32_IMM8_AVX512'' ''a17a1d92a497fd47addb6f07d2babdcdd'',
    iform ''VCVTPS2PH_MEMq_XMMdq_IMMb'' ''a2046d46b8b89ca05aab21cec1aec965f'',
    iform ''VCVTPS2PH_XMMdq_YMMqq_IMMb'' ''a48ca96b91f5af42de1b4664fd42f98c2'',
    iform ''VCVTPS2PH_XMMf16_MASKmskw_XMMf32_IMM8_AVX512'' ''abcaeb28f08eb48d65d103c1f4a3f4b4d'',
    iform ''VCVTPS2PH_XMMf16_MASKmskw_YMMf32_IMM8_AVX512'' ''ab4ccff2788d4bcaae3bc79ff2ae91d60'',
    iform ''VCVTPS2PH_XMMq_XMMdq_IMMb'' ''a1896bcb2cdd473b4fb4455596fe9d54a'',
    iform ''VCVTPS2PH_YMMf16_MASKmskw_ZMMf32_IMM8_AVX512'' ''ad640b2ece802e0e13c512ccfd16c2fe1'',
    iform ''VCVTPS2QQ_XMMi64_MASKmskw_MEMf32_AVX512'' ''a761b79e9089cf51a6c4e9da6f6b5caf6'',
    iform ''VCVTPS2QQ_XMMi64_MASKmskw_XMMf32_AVX512'' ''a7ce491df14cdb34863ecf6548dc961b8'',
    iform ''VCVTPS2QQ_YMMi64_MASKmskw_MEMf32_AVX512'' ''a77a08565efa478c8cf32852bcba3bcee'',
    iform ''VCVTPS2QQ_YMMi64_MASKmskw_XMMf32_AVX512'' ''a48ec9416922ddb5651f1ff829ed85382'',
    iform ''VCVTPS2QQ_ZMMi64_MASKmskw_MEMf32_AVX512'' ''afd1f36950b59f471468c90f82f501ef3'',
    iform ''VCVTPS2QQ_ZMMi64_MASKmskw_YMMf32_AVX512'' ''af3f687b51bba599fc0bfa0d6590b6fcf'',
    iform ''VCVTPS2UDQ_XMMu32_MASKmskw_MEMf32_AVX512'' ''af0c697646db8c389525678bfd105bddf'',
    iform ''VCVTPS2UDQ_XMMu32_MASKmskw_XMMf32_AVX512'' ''a11cbc2eaa06b1e5f25cc996f2d29c0ce'',
    iform ''VCVTPS2UDQ_YMMu32_MASKmskw_MEMf32_AVX512'' ''aeba501d22d855ab1ff100d33b4bea5be'',
    iform ''VCVTPS2UDQ_YMMu32_MASKmskw_YMMf32_AVX512'' ''a09a0ef13d25ad09f0387a17c44a8f4d5'',
    iform ''VCVTPS2UDQ_ZMMu32_MASKmskw_MEMf32_AVX512'' ''a320b291cd9686cf36ff3e2eb853d2759'',
    iform ''VCVTPS2UDQ_ZMMu32_MASKmskw_ZMMf32_AVX512'' ''a91469354667dd8cd191287182fbb22f6'',
    iform ''VCVTPS2UQQ_XMMu64_MASKmskw_MEMf32_AVX512'' ''a33d9566e44a3b5b34b8403a8dad4df0b'',
    iform ''VCVTPS2UQQ_XMMu64_MASKmskw_XMMf32_AVX512'' ''af6994733ae1f565c552aa8410ae79830'',
    iform ''VCVTPS2UQQ_YMMu64_MASKmskw_MEMf32_AVX512'' ''a674e6ce62c6024cbf3d85bd8a8ae6e22'',
    iform ''VCVTPS2UQQ_YMMu64_MASKmskw_XMMf32_AVX512'' ''a6cc46a86135a5cd4149393f21c3e5b8b'',
    iform ''VCVTPS2UQQ_ZMMu64_MASKmskw_MEMf32_AVX512'' ''a213a3041741d38aac02f6f3effb87bd7'',
    iform ''VCVTPS2UQQ_ZMMu64_MASKmskw_YMMf32_AVX512'' ''acb1bc29f29d4e59253a427c91e13ca68'',
    iform ''VCVTQQ2PD_XMMi64_MASKmskw_MEMf64_AVX512'' ''a601cc13efd9dece26cd27b046370f5fe'',
    iform ''VCVTQQ2PD_XMMi64_MASKmskw_XMMf64_AVX512'' ''a6e33deccf26b2768e711c55f998acdef'',
    iform ''VCVTQQ2PD_YMMi64_MASKmskw_MEMf64_AVX512'' ''a33b9688d82312f3c8d78114f5fea54fe'',
    iform ''VCVTQQ2PD_YMMi64_MASKmskw_YMMf64_AVX512'' ''a372aac13a63a138b3225b82041e10ad5'',
    iform ''VCVTQQ2PD_ZMMi64_MASKmskw_MEMf64_AVX512'' ''ac738cea69a1f679ae88f6c404a30d492'',
    iform ''VCVTQQ2PD_ZMMi64_MASKmskw_ZMMf64_AVX512'' ''ab511ef42573b3968b80c836f23267a8d'',
    iform ''VCVTQQ2PS_XMMf32_MASKmskw_MEMu64_AVX512_VL128'' ''a309570560733d89f04869097989f1564'',
    iform ''VCVTQQ2PS_XMMf32_MASKmskw_MEMu64_AVX512_VL256'' ''a904bb9c67ffdeafbc4af0364dd865eed'',
    iform ''VCVTQQ2PS_XMMf32_MASKmskw_XMMu64_AVX512_VL128'' ''a213a198ad8cabd312d733746791ee9ad'',
    iform ''VCVTQQ2PS_XMMf32_MASKmskw_YMMu64_AVX512_VL256'' ''a2a4b0b0ca00cee927047f8672a470d98'',
    iform ''VCVTQQ2PS_YMMf32_MASKmskw_MEMu64_AVX512_VL512'' ''ac2494cf1ef15e3628927c6a004439ea6'',
    iform ''VCVTQQ2PS_YMMf32_MASKmskw_ZMMu64_AVX512_VL512'' ''ae8b80d3ba52f99adbd147827e3b1f293'',
    iform ''VCVTSD2SI_GPR32d_MEMq'' ''ae9d09c0d4e8a01df8215975625156925'',
    iform ''VCVTSD2SI_GPR32d_XMMq'' ''a2d73c3169ae8ddca67c07c6bbce90dbf'',
    iform ''VCVTSD2SI_GPR32i32_MEMf64_AVX512'' ''aa94c2fb74369f2b19ebb60b8a6dae9b7'',
    iform ''VCVTSD2SI_GPR32i32_XMMf64_AVX512'' ''a10a23fc312f1054c509b6368233b8fdc'',
    iform ''VCVTSD2SI_GPR64i64_MEMf64_AVX512'' ''a1e5a581fc56948ed5d82e41f667ba333'',
    iform ''VCVTSD2SI_GPR64i64_XMMf64_AVX512'' ''aae5bf1045b1bad3958b7ad21057c80dd'',
    iform ''VCVTSD2SI_GPR64q_MEMq'' ''af7fd0f53da204f33f42e52cd00dc983e'',
    iform ''VCVTSD2SI_GPR64q_XMMq'' ''a70d117ba39ec7490380e084f62b9a5e0'',
    iform ''VCVTSD2SS_XMMdq_XMMdq_MEMq'' ''a76cfac745cb5563f89b07d99fa814ab1'',
    iform ''VCVTSD2SS_XMMdq_XMMdq_XMMq'' ''a0f20bcce1450a2a1653664cbffd9fd4d'',
    iform ''VCVTSD2SS_XMMf32_MASKmskw_XMMf64_MEMf64_AVX512'' ''a8bbc7c13b1c0e03b34a7838b38dec5d9'',
    iform ''VCVTSD2SS_XMMf32_MASKmskw_XMMf64_XMMf64_AVX512'' ''a3390cb6cd3d77a88fd62d7c1b70d5491'',
    iform ''VCVTSD2USI_GPR32u32_MEMf64_AVX512'' ''ab4877ca1c67cfc764b26297d615c7808'',
    iform ''VCVTSD2USI_GPR32u32_XMMf64_AVX512'' ''ad84503d0742ba129cfca4e4dd5ad5025'',
    iform ''VCVTSD2USI_GPR64u64_MEMf64_AVX512'' ''aa8222706b0f705f85f44b9a100351566'',
    iform ''VCVTSD2USI_GPR64u64_XMMf64_AVX512'' ''a5327472a969f88bf83b0aeea565c1df6'',
    iform ''VCVTSI2SD_XMMdq_XMMdq_GPR32d'' ''a96210b5a5487cc70860cb6401a6b888f'',
    iform ''VCVTSI2SD_XMMdq_XMMdq_GPR64q'' ''aa2acf814a1ff0904b648e6d1235f044f'',
    iform ''VCVTSI2SD_XMMdq_XMMdq_MEMd'' ''aa5499084c34bfbe484c285cf940e66a7'',
    iform ''VCVTSI2SD_XMMdq_XMMdq_MEMq'' ''aa69908ef95bcf1ed73cc90fa2c6704f8'',
    iform ''VCVTSI2SD_XMMf64_XMMf64_GPR32i32_AVX512'' ''a391a1ff374b931b0c88a6098a9011692'',
    iform ''VCVTSI2SD_XMMf64_XMMf64_GPR64i64_AVX512'' ''ae16db4c2f6f484af8bb24b7042b67da7'',
    iform ''VCVTSI2SD_XMMf64_XMMf64_MEMi32_AVX512'' ''ac8be139321776c809970aa0ea53eb7ab'',
    iform ''VCVTSI2SD_XMMf64_XMMf64_MEMi64_AVX512'' ''a55c7db7feeba8d3c7fcb335a4ea2edf8'',
    iform ''VCVTSI2SS_XMMdq_XMMdq_GPR32d'' ''aa18a734d4eec353255ff8a6c78d517cc'',
    iform ''VCVTSI2SS_XMMdq_XMMdq_GPR64q'' ''a7be2f012f1504fea50eac986729d64ca'',
    iform ''VCVTSI2SS_XMMdq_XMMdq_MEMd'' ''acb9dc4c26b39b034bd77c693554a1d4a'',
    iform ''VCVTSI2SS_XMMdq_XMMdq_MEMq'' ''a69399421bb58114a6cc54d033921c242'',
    iform ''VCVTSI2SS_XMMf32_XMMf32_GPR32i32_AVX512'' ''a6fd32e4d677f3dd940fb0f5b8cef5a17'',
    iform ''VCVTSI2SS_XMMf32_XMMf32_GPR64i64_AVX512'' ''aa43be0afc7f8982014005af7d523b3fa'',
    iform ''VCVTSI2SS_XMMf32_XMMf32_MEMi32_AVX512'' ''a231ee2edf20061c2cbd1bbd39fe55746'',
    iform ''VCVTSI2SS_XMMf32_XMMf32_MEMi64_AVX512'' ''ac68b5d0c918207bec0acdbd5bf6ffe71'',
    iform ''VCVTSS2SD_XMMdq_XMMdq_MEMd'' ''a7565d1fc34e9343f78268dd882235d00'',
    iform ''VCVTSS2SD_XMMdq_XMMdq_XMMd'' ''a921ef1ae593366036eb09f26118eba64'',
    iform ''VCVTSS2SD_XMMf64_MASKmskw_XMMf32_MEMf32_AVX512'' ''a9bb1fe50bc4ef88bd4aeb1a75358bbe1'',
    iform ''VCVTSS2SD_XMMf64_MASKmskw_XMMf32_XMMf32_AVX512'' ''a32e6514809766ebf1afb1f6b3825dc50'',
    iform ''VCVTSS2SI_GPR32d_MEMd'' ''ad33f9a72ba02269532d7ed0e4334a925'',
    iform ''VCVTSS2SI_GPR32d_XMMd'' ''a672afeaf798e61c208a915b2f85afdc2'',
    iform ''VCVTSS2SI_GPR32i32_MEMf32_AVX512'' ''a0ae35864ea13f52b6b65b1c2fc01d348'',
    iform ''VCVTSS2SI_GPR32i32_XMMf32_AVX512'' ''a9888a8f1d67f95611a806dbc13a76f32'',
    iform ''VCVTSS2SI_GPR64i64_MEMf32_AVX512'' ''a679a0735eed01565c437444098597fa8'',
    iform ''VCVTSS2SI_GPR64i64_XMMf32_AVX512'' ''a872c35c503085b13a7feadd227fd14e6'',
    iform ''VCVTSS2SI_GPR64q_MEMd'' ''a27dd234f5d2b83f0b67eca12fc84d0fb'',
    iform ''VCVTSS2SI_GPR64q_XMMd'' ''a61bb62857074b2d2313a9e2a810748db'',
    iform ''VCVTSS2USI_GPR32u32_MEMf32_AVX512'' ''a0a457f09772d0f57986a9c97a543aae4'',
    iform ''VCVTSS2USI_GPR32u32_XMMf32_AVX512'' ''a491ce7f649251d94680a0d612cb741be'',
    iform ''VCVTSS2USI_GPR64u64_MEMf32_AVX512'' ''a6555be197a3ae5b8d8aae6708c361073'',
    iform ''VCVTSS2USI_GPR64u64_XMMf32_AVX512'' ''afc52ead14da5f84de95874282dd31f21'',
    iform ''VCVTTPD2DQ_XMMdq_MEMdq'' ''a9d525f08886661ad1478757979461ce5'',
    iform ''VCVTTPD2DQ_XMMdq_MEMqq'' ''ad4881f5e62f93585eba6df639611f4ce'',
    iform ''VCVTTPD2DQ_XMMdq_XMMdq'' ''abe584ce4170563808ac34857a2f1b9b5'',
    iform ''VCVTTPD2DQ_XMMdq_YMMqq'' ''af15c6068c1a7a651770be4a322756c9b'',
    iform ''VCVTTPD2DQ_XMMi32_MASKmskw_MEMf64_AVX512_VL128'' ''ad59d94dd17c3edcf2e306dfa4191a97a'',
    iform ''VCVTTPD2DQ_XMMi32_MASKmskw_MEMf64_AVX512_VL256'' ''a27b8025d7a4cac1a8b560a62dce3db70'',
    iform ''VCVTTPD2DQ_XMMi32_MASKmskw_XMMf64_AVX512_VL128'' ''a37dca147699207d3c7a0c191535cc0bd'',
    iform ''VCVTTPD2DQ_XMMi32_MASKmskw_YMMf64_AVX512_VL256'' ''a061e3df0340a8b1501a9385f913b1c72'',
    iform ''VCVTTPD2DQ_YMMi32_MASKmskw_MEMf64_AVX512_VL512'' ''a93294882fd9676ad736f846a7badeb9e'',
    iform ''VCVTTPD2DQ_YMMi32_MASKmskw_ZMMf64_AVX512_VL512'' ''ab5ec721135f834a6e0fbdbbcfa0816e3'',
    iform ''VCVTTPD2QQ_XMMi64_MASKmskw_MEMf64_AVX512'' ''a1d6c52913925a83d4a250497d22dca41'',
    iform ''VCVTTPD2QQ_XMMi64_MASKmskw_XMMf64_AVX512'' ''a387535f6ca1702dacef2c47872e0029f'',
    iform ''VCVTTPD2QQ_YMMi64_MASKmskw_MEMf64_AVX512'' ''a2a5a4ed32ac50c824f066c9a3bfd075b'',
    iform ''VCVTTPD2QQ_YMMi64_MASKmskw_YMMf64_AVX512'' ''a4bf43331e320ceacfc2eafc447251c8a'',
    iform ''VCVTTPD2QQ_ZMMi64_MASKmskw_MEMf64_AVX512'' ''a6dd6da5d4701ee688650c619c60c64e8'',
    iform ''VCVTTPD2QQ_ZMMi64_MASKmskw_ZMMf64_AVX512'' ''a3eaa8086ac47239ccb7696f13ac68e97'',
    iform ''VCVTTPD2UDQ_XMMu32_MASKmskw_MEMf64_AVX512_VL128'' ''a3ffefbd030e41acd3bf2f5c5a3b416cb'',
    iform ''VCVTTPD2UDQ_XMMu32_MASKmskw_MEMf64_AVX512_VL256'' ''abc9010bdd54db3fe9539afd4dbedcbd2'',
    iform ''VCVTTPD2UDQ_XMMu32_MASKmskw_XMMf64_AVX512_VL128'' ''ad265b16fb755097b6fc897e6bfc4c78d'',
    iform ''VCVTTPD2UDQ_XMMu32_MASKmskw_YMMf64_AVX512_VL256'' ''a8ada5f035a7f8d06022bf33f8eeb9455'',
    iform ''VCVTTPD2UDQ_YMMu32_MASKmskw_MEMf64_AVX512_VL512'' ''ae60f174d9605aa1e94d5902618fb432c'',
    iform ''VCVTTPD2UDQ_YMMu32_MASKmskw_ZMMf64_AVX512_VL512'' ''a12d5903030a4601f421753b89b2897ec'',
    iform ''VCVTTPD2UQQ_XMMu64_MASKmskw_MEMf64_AVX512'' ''a9ce004183288d8e2eed5f241aeed3c52'',
    iform ''VCVTTPD2UQQ_XMMu64_MASKmskw_XMMf64_AVX512'' ''aa29af88c86adbc930e3705ab556da30d'',
    iform ''VCVTTPD2UQQ_YMMu64_MASKmskw_MEMf64_AVX512'' ''a55c55f6305a4ba8a58da3928ba67c5f8'',
    iform ''VCVTTPD2UQQ_YMMu64_MASKmskw_YMMf64_AVX512'' ''a0e49f2af585422345afb2470b3edd488'',
    iform ''VCVTTPD2UQQ_ZMMu64_MASKmskw_MEMf64_AVX512'' ''a1de65e2a66c261966486cfe0ff9a155d'',
    iform ''VCVTTPD2UQQ_ZMMu64_MASKmskw_ZMMf64_AVX512'' ''a5badc494f43180147a48e3ade3e305e8'',
    iform ''VCVTTPS2DQ_XMMdq_MEMdq'' ''adde265d137632e0cf8c544ad71cbd371'',
    iform ''VCVTTPS2DQ_XMMdq_XMMdq'' ''ab2dfce10eb57402fb8b2f260dc1fb8da'',
    iform ''VCVTTPS2DQ_XMMi32_MASKmskw_MEMf32_AVX512'' ''a48bde8da62eac6d0569dff1acda4a439'',
    iform ''VCVTTPS2DQ_XMMi32_MASKmskw_XMMf32_AVX512'' ''a1f6fa290fa2425dc024416461f5e9214'',
    iform ''VCVTTPS2DQ_YMMi32_MASKmskw_MEMf32_AVX512'' ''ad2e3b6e3674deb005996de674f2c0a88'',
    iform ''VCVTTPS2DQ_YMMi32_MASKmskw_YMMf32_AVX512'' ''a52342fb39aaa5f4bb1c95d4c08c4e66e'',
    iform ''VCVTTPS2DQ_YMMqq_MEMqq'' ''a23c5128255e9b2f9e5f8ba72ebbb76a8'',
    iform ''VCVTTPS2DQ_YMMqq_YMMqq'' ''ae9c85a081af01607253fcbedccb4b19e'',
    iform ''VCVTTPS2DQ_ZMMi32_MASKmskw_MEMf32_AVX512'' ''a2a11f4fb097e46bdcce9e88b7100c842'',
    iform ''VCVTTPS2DQ_ZMMi32_MASKmskw_ZMMf32_AVX512'' ''ae8a0818c954e8e19532b98678b76ee3b'',
    iform ''VCVTTPS2QQ_XMMi64_MASKmskw_MEMf32_AVX512'' ''ab57e9beab1e05b74b96179099e27ee50'']"

lemma xed_iform_enum_8h_values_16_closed: "list_all (closed_node scripts) xed_iform_enum_8h_values_16"
  by (simp only: xed_iform_enum_8h_values_16_def closed_rules iform_closed)

definition xed_iform_enum_8h_values_17 :: "nav_node list" where
  "xed_iform_enum_8h_values_17 = [
    iform ''VCVTTPS2QQ_XMMi64_MASKmskw_XMMf32_AVX512'' ''af4f8ee0fdb31393c32807a75cc0ece49'',
    iform ''VCVTTPS2QQ_YMMi64_MASKmskw_MEMf32_AVX512'' ''a872130fdb16885c454d002760e8b920d'',
    iform ''VCVTTPS2QQ_YMMi64_MASKmskw_XMMf32_AVX512'' ''aa4f5c1dfd925a8edbf33bbcda9466049'',
    iform ''VCVTTPS2QQ_ZMMi64_MASKmskw_MEMf32_AVX512'' ''a3d4e7cc16a0ec768dfda639395a00ccc'',
    iform ''VCVTTPS2QQ_ZMMi64_MASKmskw_YMMf32_AVX512'' ''ae8bd62d7ad9cf171a073e1aad154ee36'',
    iform ''VCVTTPS2UDQ_XMMu32_MASKmskw_MEMf32_AVX512'' ''acf49d952cb6597e6191dafc5f18026e2'',
    iform ''VCVTTPS2UDQ_XMMu32_MASKmskw_XMMf32_AVX512'' ''a975336d5a0f9d7f5c7b03d0f8b3a8865'',
    iform ''VCVTTPS2UDQ_YMMu32_MASKmskw_MEMf32_AVX512'' ''a9a200e9b823153cf7521e00b5c11a6cd'',
    iform ''VCVTTPS2UDQ_YMMu32_MASKmskw_YMMf32_AVX512'' ''a89be1143ae10b209ad82b83826dc8c96'',
    iform ''VCVTTPS2UDQ_ZMMu32_MASKmskw_MEMf32_AVX512'' ''a8a55909bdae64be52193e5325a839aca'',
    iform ''VCVTTPS2UDQ_ZMMu32_MASKmskw_ZMMf32_AVX512'' ''ac4e9d7da620e752f502c813b7125fda3'',
    iform ''VCVTTPS2UQQ_XMMu64_MASKmskw_MEMf32_AVX512'' ''a4c031b2458264fa6d776937d1395a061'',
    iform ''VCVTTPS2UQQ_XMMu64_MASKmskw_XMMf32_AVX512'' ''a8c8f2ec730e06c2f8b34448c4c137146'',
    iform ''VCVTTPS2UQQ_YMMu64_MASKmskw_MEMf32_AVX512'' ''a5498a689b13604faa642a60614985cb6'',
    iform ''VCVTTPS2UQQ_YMMu64_MASKmskw_XMMf32_AVX512'' ''a7e8b57fb3c1c2a913fea818740426c1f'',
    iform ''VCVTTPS2UQQ_ZMMu64_MASKmskw_MEMf32_AVX512'' ''a4a5de0d38bce52d6628bb7ec9f91b4a6'',
    iform ''VCVTTPS2UQQ_ZMMu64_MASKmskw_YMMf32_AVX512'' ''ae6263d3bd1e51e6e590a02300bae4407'',
    iform ''VCVTTSD2SI_GPR32d_MEMq'' ''a5a81541a453c6c85b6da3991cac8cc96'',
    iform ''VCVTTSD2SI_GPR32d_XMMq'' ''a8bfe1d4cedb4a0f5fb65a75d01b2ea14'',
    iform ''VCVTTSD2SI_GPR32i32_MEMf64_AVX512'' ''a625c92bfa111661b3282e422050053d1'',
    iform ''VCVTTSD2SI_GPR32i32_XMMf64_AVX512'' ''ae4c0a9a89fe474e77cba609726018b57'',
    iform ''VCVTTSD2SI_GPR64i64_MEMf64_AVX512'' ''a65690930aab4a7ac3db815c0a9f58357'',
    iform ''VCVTTSD2SI_GPR64i64_XMMf64_AVX512'' ''a5698f6ed5d19071720e0e0a8e938ab1a'',
    iform ''VCVTTSD2SI_GPR64q_MEMq'' ''aab6045c4c25cedeb663190badd556146'',
    iform ''VCVTTSD2SI_GPR64q_XMMq'' ''a400b21d2cebd63fab61e38c28bc222ff'',
    iform ''VCVTTSD2USI_GPR32u32_MEMf64_AVX512'' ''a40914e320dfb80de29c77266ec0c180d'',
    iform ''VCVTTSD2USI_GPR32u32_XMMf64_AVX512'' ''a06436e3d6558d6afa06eaea8ed7ed1c4'',
    iform ''VCVTTSD2USI_GPR64u64_MEMf64_AVX512'' ''a83548b2f428824b8fd83a175f630020c'',
    iform ''VCVTTSD2USI_GPR64u64_XMMf64_AVX512'' ''aac626a4f88b8af3105d6826d4353c668'',
    iform ''VCVTTSS2SI_GPR32d_MEMd'' ''a93e028c7d7557b3e550384f22a00a47c'',
    iform ''VCVTTSS2SI_GPR32d_XMMd'' ''a91b3fe046d0a03fef1656c02d8ee10df'',
    iform ''VCVTTSS2SI_GPR32i32_MEMf32_AVX512'' ''a3d334350c81af67338e61e012712e11e'',
    iform ''VCVTTSS2SI_GPR32i32_XMMf32_AVX512'' ''a470bcfcd22e61bf7b911f9b1c3f47cb2'',
    iform ''VCVTTSS2SI_GPR64i64_MEMf32_AVX512'' ''afcf9a101377db396ab1a187cd28af2ed'',
    iform ''VCVTTSS2SI_GPR64i64_XMMf32_AVX512'' ''a165b844601ae9d8be9ae7084b7dfb00d'',
    iform ''VCVTTSS2SI_GPR64q_MEMd'' ''a6c632defb332ad9787f550932d94cfa3'',
    iform ''VCVTTSS2SI_GPR64q_XMMd'' ''a401f694a364c852c178fc1eaccac2bb8'',
    iform ''VCVTTSS2USI_GPR32u32_MEMf32_AVX512'' ''a0f8cd48b8fe588a3ec5f783a1df9c2d3'',
    iform ''VCVTTSS2USI_GPR32u32_XMMf32_AVX512'' ''a5c98d56eba1a03d1a55dce29c68ed6c7'',
    iform ''VCVTTSS2USI_GPR64u64_MEMf32_AVX512'' ''a3ff6d83bd74424ef90153680436b9f31'',
    iform ''VCVTTSS2USI_GPR64u64_XMMf32_AVX512'' ''a00b50087f9ffc73badf070cdeba3d491'',
    iform ''VCVTUDQ2PD_XMMf64_MASKmskw_MEMu32_AVX512'' ''a4e8540d2fda49b41b35e3da646951707'',
    iform ''VCVTUDQ2PD_XMMf64_MASKmskw_XMMu32_AVX512'' ''ab4d0375dc8e535d8d0edacd9bd343dc7'',
    iform ''VCVTUDQ2PD_YMMf64_MASKmskw_MEMu32_AVX512'' ''ade66fef594abc8dc01a08dfa77ddd51e'',
    iform ''VCVTUDQ2PD_YMMf64_MASKmskw_XMMu32_AVX512'' ''a866ad0d20e124babd82f94338ce7bff8'',
    iform ''VCVTUDQ2PD_ZMMf64_MASKmskw_MEMu32_AVX512'' ''a9e0404f234f92490347c5e22bab812cb'',
    iform ''VCVTUDQ2PD_ZMMf64_MASKmskw_YMMu32_AVX512'' ''ac5ed7ee30304e01039119a7a372c8dbf'',
    iform ''VCVTUDQ2PS_XMMf32_MASKmskw_MEMu32_AVX512'' ''a05c30f319c7a2df8f097664b7a65918b'',
    iform ''VCVTUDQ2PS_XMMf32_MASKmskw_XMMu32_AVX512'' ''ad6926fbbabb81a152fc9187309fb1b00'',
    iform ''VCVTUDQ2PS_YMMf32_MASKmskw_MEMu32_AVX512'' ''a7c1bfe3dab7827161ac91a15971ac650'',
    iform ''VCVTUDQ2PS_YMMf32_MASKmskw_YMMu32_AVX512'' ''a8a5214d3ba05112f6cd2e0c4a7019fc1'',
    iform ''VCVTUDQ2PS_ZMMf32_MASKmskw_MEMu32_AVX512'' ''a66c683d1147ba8d3bfbba48879e76328'',
    iform ''VCVTUDQ2PS_ZMMf32_MASKmskw_ZMMu32_AVX512'' ''adc191bbc8e18a9a9ca55119b97a7b868'',
    iform ''VCVTUQQ2PD_XMMf64_MASKmskw_MEMu64_AVX512'' ''aa555d3a049581b36834f5e772d8409e8'',
    iform ''VCVTUQQ2PD_XMMf64_MASKmskw_XMMu64_AVX512'' ''a82b2bd0dd40a0eead4b1edcf00350165'',
    iform ''VCVTUQQ2PD_YMMf64_MASKmskw_MEMu64_AVX512'' ''af08e139f9c0a2c51acffc70e49918aa2'',
    iform ''VCVTUQQ2PD_YMMf64_MASKmskw_YMMu64_AVX512'' ''a583eb12df4103cc38d52ef87f70305b4'',
    iform ''VCVTUQQ2PD_ZMMf64_MASKmskw_MEMu64_AVX512'' ''ad4b63dfdd3648c7d6759df6e9c8f4ba5'',
    iform ''VCVTUQQ2PD_ZMMf64_MASKmskw_ZMMu64_AVX512'' ''ad29862c216c6f5eade329601a6d5c9cb'',
    iform ''VCVTUQQ2PS_XMMf32_MASKmskw_MEMu64_AVX512_VL128'' ''a571877462dada09bd662d8ce92364e10'',
    iform ''VCVTUQQ2PS_XMMf32_MASKmskw_MEMu64_AVX512_VL256'' ''a8f7bc4ce184fe294a189eb9e6595e2d1'',
    iform ''VCVTUQQ2PS_XMMf32_MASKmskw_XMMu64_AVX512_VL128'' ''a39e14b7ef045ae7116bbe3f26a88452c'',
    iform ''VCVTUQQ2PS_XMMf32_MASKmskw_YMMu64_AVX512_VL256'' ''aa4122e8883b913093ee003121d2d2ea3'',
    iform ''VCVTUQQ2PS_YMMf32_MASKmskw_MEMu64_AVX512_VL512'' ''a640a338596cbe3cd9e4187f710b3ea78'',
    iform ''VCVTUQQ2PS_YMMf32_MASKmskw_ZMMu64_AVX512_VL512'' ''a454e53bb6db89e78bc35d262c5ee4a89'',
    iform ''VCVTUSI2SD_XMMf64_XMMf64_GPR32u32_AVX512'' ''ab38a1212d8ae1d907b04ddf595b3508c'',
    iform ''VCVTUSI2SD_XMMf64_XMMf64_GPR64u64_AVX512'' ''a1f601708b082bdea0e06b135b4d99f16'',
    iform ''VCVTUSI2SD_XMMf64_XMMf64_MEMu32_AVX512'' ''af1fd3c6540f919e7c5c871ac3ef4f9a5'',
    iform ''VCVTUSI2SD_XMMf64_XMMf64_MEMu64_AVX512'' ''a1c173524d65dbe8ffcd4f1b30ff39912'',
    iform ''VCVTUSI2SS_XMMf32_XMMf32_GPR32u32_AVX512'' ''a125a3fe259cb30d06e9017bc1a1bac5c'',
    iform ''VCVTUSI2SS_XMMf32_XMMf32_GPR64u64_AVX512'' ''a72e000ff48cd1cb3748daf2b92b09b9d'',
    iform ''VCVTUSI2SS_XMMf32_XMMf32_MEMu32_AVX512'' ''a8e39976316157d8af3b41aedc5ca686d'',
    iform ''VCVTUSI2SS_XMMf32_XMMf32_MEMu64_AVX512'' ''a8c242e8a21e2c8d1bdddbcf88c27e814'',
    iform ''VDBPSADBW_XMMu16_MASKmskw_XMMu8_MEMu8_IMM8_AVX512'' ''abad4596a00505c2edf3ed72eac186217'',
    iform ''VDBPSADBW_XMMu16_MASKmskw_XMMu8_XMMu8_IMM8_AVX512'' ''ab8ff6e16087d784f188989b1eff7e699'',
    iform ''VDBPSADBW_YMMu16_MASKmskw_YMMu8_MEMu8_IMM8_AVX512'' ''af6ce60169cefcbd45ee3b532753023cf'',
    iform ''VDBPSADBW_YMMu16_MASKmskw_YMMu8_YMMu8_IMM8_AVX512'' ''a3f9db30f82ea3b823ab45434ceaa4d65'',
    iform ''VDBPSADBW_ZMMu16_MASKmskw_ZMMu8_MEMu8_IMM8_AVX512'' ''af15c9263d52ab7288d2987bdce270d30'',
    iform ''VDBPSADBW_ZMMu16_MASKmskw_ZMMu8_ZMMu8_IMM8_AVX512'' ''a523c61a6edd568d5d2efc429cec71e5f'',
    iform ''VDIVPD_XMMdq_XMMdq_MEMdq'' ''adfc9e27b247d6e31db9507bd04dddb9f'',
    iform ''VDIVPD_XMMdq_XMMdq_XMMdq'' ''a947bae51ee724c9b65d792573544a580'',
    iform ''VDIVPD_XMMf64_MASKmskw_XMMf64_MEMf64_AVX512'' ''a715e3219beae90032978c99c19331423'',
    iform ''VDIVPD_XMMf64_MASKmskw_XMMf64_XMMf64_AVX512'' ''ae00ab3c2e84ff2c29934fcf51e07b524'',
    iform ''VDIVPD_YMMf64_MASKmskw_YMMf64_MEMf64_AVX512'' ''a48dcfc0d36a1e01da35c9f5b85bee20e'',
    iform ''VDIVPD_YMMf64_MASKmskw_YMMf64_YMMf64_AVX512'' ''a09332280b0f295934f5e3267b2e1c3c4'',
    iform ''VDIVPD_YMMqq_YMMqq_MEMqq'' ''a03b48a4f7ea03c5fea07457fb0446c01'',
    iform ''VDIVPD_YMMqq_YMMqq_YMMqq'' ''a6269c9dc047486078e201e09a840f888'',
    iform ''VDIVPD_ZMMf64_MASKmskw_ZMMf64_MEMf64_AVX512'' ''a90a78f15998e6cdfd26f5cab0ed74a0b'',
    iform ''VDIVPD_ZMMf64_MASKmskw_ZMMf64_ZMMf64_AVX512'' ''a7fb1b23d5b0ac48b904f42d8182e071f'',
    iform ''VDIVPS_XMMdq_XMMdq_MEMdq'' ''a13528546905b3079ecda89cfb17bbd03'',
    iform ''VDIVPS_XMMdq_XMMdq_XMMdq'' ''ab61e9fea827e971f246a58fb83904731'',
    iform ''VDIVPS_XMMf32_MASKmskw_XMMf32_MEMf32_AVX512'' ''a889eb1377d221b58f4ebc44c12c695c5'',
    iform ''VDIVPS_XMMf32_MASKmskw_XMMf32_XMMf32_AVX512'' ''a1f1b5c04abb773371fec361369096be3'',
    iform ''VDIVPS_YMMf32_MASKmskw_YMMf32_MEMf32_AVX512'' ''a9b10cd8a29ffaec191b3e8ed9468f87b'',
    iform ''VDIVPS_YMMf32_MASKmskw_YMMf32_YMMf32_AVX512'' ''a537b97b92fc53befa57489857e36ddd8'',
    iform ''VDIVPS_YMMqq_YMMqq_MEMqq'' ''aa3e21bbdc5478874717364de6457c352'',
    iform ''VDIVPS_YMMqq_YMMqq_YMMqq'' ''ac708fdcf7a8774794c984b829472a6f0'',
    iform ''VDIVPS_ZMMf32_MASKmskw_ZMMf32_MEMf32_AVX512'' ''a1e77f6b8b86b3f1d24aa9bee4eddce5d'',
    iform ''VDIVPS_ZMMf32_MASKmskw_ZMMf32_ZMMf32_AVX512'' ''ad61b605450b6c369dd4d68dc3d8f5076'',
    iform ''VDIVSD_XMMdq_XMMdq_MEMq'' ''a6e903ab3836047b161472fa54a3ca582'',
    iform ''VDIVSD_XMMdq_XMMdq_XMMq'' ''a757fbb86e998bfcbf2e27e9af78ac9d4'',
    iform ''VDIVSD_XMMf64_MASKmskw_XMMf64_MEMf64_AVX512'' ''a35a197dd92e883fc07eece93431bcb8e'',
    iform ''VDIVSD_XMMf64_MASKmskw_XMMf64_XMMf64_AVX512'' ''ae279d044bfb0d4401c5923fac1e4610f'',
    iform ''VDIVSS_XMMdq_XMMdq_MEMd'' ''a69b25eb21f95efccacae04cef10eeea1'',
    iform ''VDIVSS_XMMdq_XMMdq_XMMd'' ''a0eaf9916eebf8ecf6e1891744fda9daf'',
    iform ''VDIVSS_XMMf32_MASKmskw_XMMf32_MEMf32_AVX512'' ''ae89778c0fcaa1fbfd7943db86eefc10c'',
    iform ''VDIVSS_XMMf32_MASKmskw_XMMf32_XMMf32_AVX512'' ''a2fa2ceed8a831cce915049850f53f399'',
    iform ''VDPPD_XMMdq_XMMdq_MEMdq_IMMb'' ''ae31576e85387e7f062435fec9517b0c6'',
    iform ''VDPPD_XMMdq_XMMdq_XMMdq_IMMb'' ''a9e5a00c31636f087f4a1c4f3d852842b'',
    iform ''VDPPS_XMMdq_XMMdq_MEMdq_IMMb'' ''ae10ab388417f5225f6e4730043d7d7b3'',
    iform ''VDPPS_XMMdq_XMMdq_XMMdq_IMMb'' ''a693aba527deaeac79abb0fd5d4732453'',
    iform ''VDPPS_YMMqq_YMMqq_MEMqq_IMMb'' ''ae9f17ec07c4f1bcc062c347bc4397025'',
    iform ''VDPPS_YMMqq_YMMqq_YMMqq_IMMb'' ''a6ae4eed7ec05e4de3ced82c474f8dc5e'',
    iform ''VERR_GPR16'' ''a942619eac260fa45396e7723e33c4ece'',
    iform ''VERR_MEMw'' ''a834fed58f4d01bf4e0232d1832fdfc96'',
    iform ''VERW_GPR16'' ''a51e5d949e507dfb5428b7446ac136039'',
    iform ''VERW_MEMw'' ''a06c7b4e150eec2a74ce5f8bc66daef97'',
    iform ''VEXP2PD_ZMMf64_MASKmskw_MEMf64_AVX512ER'' ''a38019bb91dba6ffbd481907220b4b7a2'',
    iform ''VEXP2PD_ZMMf64_MASKmskw_ZMMf64_AVX512ER'' ''aeb6246c203c7a57ea720d475ad78ca2a'',
    iform ''VEXP2PS_ZMMf32_MASKmskw_MEMf32_AVX512ER'' ''a6e3bff2f23b4987169064b363e23c0e2'',
    iform ''VEXP2PS_ZMMf32_MASKmskw_ZMMf32_AVX512ER'' ''a1b3b80c972d953fa223d69e686fb2688'',
    iform ''VEXPANDPD_XMMf64_MASKmskw_MEMf64_AVX512'' ''a29b51f9e230ee156b967e705f550d837'',
    iform ''VEXPANDPD_XMMf64_MASKmskw_XMMf64_AVX512'' ''a1211040cfb51eb824d3f1487066db881'',
    iform ''VEXPANDPD_YMMf64_MASKmskw_MEMf64_AVX512'' ''ae3bf3ae0ca6bf6426a8850f76691a63d'',
    iform ''VEXPANDPD_YMMf64_MASKmskw_YMMf64_AVX512'' ''aa60c9b90a8b2e906317e297dadcdd973'',
    iform ''VEXPANDPD_ZMMf64_MASKmskw_MEMf64_AVX512'' ''aa21a2ac3f634b1c8f6ed9071ac2834b5'',
    iform ''VEXPANDPD_ZMMf64_MASKmskw_ZMMf64_AVX512'' ''a71c662e9bc910e571e96f77ee7c9e4eb'',
    iform ''VEXPANDPS_XMMf32_MASKmskw_MEMf32_AVX512'' ''a945f059af276cf55dff4c2dc4e165c84'',
    iform ''VEXPANDPS_XMMf32_MASKmskw_XMMf32_AVX512'' ''a1eb61a2a3c6d7dcc718088cddc1d1e18'',
    iform ''VEXPANDPS_YMMf32_MASKmskw_MEMf32_AVX512'' ''aa97c294378e288344e6a93ce21afaef0'',
    iform ''VEXPANDPS_YMMf32_MASKmskw_YMMf32_AVX512'' ''a7303dd88c2d44936c6e2137894419e9d'',
    iform ''VEXPANDPS_ZMMf32_MASKmskw_MEMf32_AVX512'' ''a6c07f0f02c20b33b7e68848b91f5fb04'',
    iform ''VEXPANDPS_ZMMf32_MASKmskw_ZMMf32_AVX512'' ''a0207bd13ca9ad2f2e0c654476e69d223'',
    iform ''VEXTRACTF128_MEMdq_YMMdq_IMMb'' ''a50915cd1abd25fc6faea2d53f8a84b30'',
    iform ''VEXTRACTF128_XMMdq_YMMdq_IMMb'' ''a8eb1c4ea5d8313e263e5fd567641ecc8'',
    iform ''VEXTRACTF32X4_MEMf32_MASKmskw_YMMf32_IMM8_AVX512'' ''a93b2511a3c4b007e9b19a5e4ebcddbf4'',
    iform ''VEXTRACTF32X4_MEMf32_MASKmskw_ZMMf32_IMM8_AVX512'' ''a2d281781141a907964980c453bc9fe74'',
    iform ''VEXTRACTF32X4_XMMf32_MASKmskw_YMMf32_IMM8_AVX512'' ''abbb2668f5022bf12a7c9922e6dd1ceb2'',
    iform ''VEXTRACTF32X4_XMMf32_MASKmskw_ZMMf32_IMM8_AVX512'' ''adfc1e8d7185bdcc56e48510bda7ea795'',
    iform ''VEXTRACTF32X8_MEMf32_MASKmskw_ZMMf32_IMM8_AVX512'' ''a77b2b83d85f0245494630d5f3b8922b3'']"

lemma xed_iform_enum_8h_values_17_closed: "list_all (closed_node scripts) xed_iform_enum_8h_values_17"
  by (simp only: xed_iform_enum_8h_values_17_def closed_rules iform_closed)

definition xed_iform_enum_8h_values_18 :: "nav_node list" where
  "xed_iform_enum_8h_values_18 = [
    iform ''VEXTRACTF32X8_YMMf32_MASKmskw_ZMMf32_IMM8_AVX512'' ''afa552cabf9f787fe17fe14d71f10f8b7'',
    iform ''VEXTRACTF64X2_MEMf64_MASKmskw_YMMf64_IMM8_AVX512'' ''a9c478f42885eac8fd61f08b3afc149fd'',
    iform ''VEXTRACTF64X2_MEMf64_MASKmskw_ZMMf64_IMM8_AVX512'' ''a78a7766be68042047da7555236ca5e9e'',
    iform ''VEXTRACTF64X2_XMMf64_MASKmskw_YMMf64_IMM8_AVX512'' ''ae379bc59ddacd440af20b83e5d85a162'',
    iform ''VEXTRACTF64X2_XMMf64_MASKmskw_ZMMf64_IMM8_AVX512'' ''a42ba2498c4cb04668cc037c180f9e53b'',
    iform ''VEXTRACTF64X4_MEMf64_MASKmskw_ZMMf64_IMM8_AVX512'' ''a6f766daf27d5b7d0a6af6180c2d25db0'',
    iform ''VEXTRACTF64X4_YMMf64_MASKmskw_ZMMf64_IMM8_AVX512'' ''a14d3c2ec225518341ad96487f82c0c04'',
    iform ''VEXTRACTI128_MEMdq_YMMqq_IMMb'' ''a8568d9e9ddde0294e6696ab205d25682'',
    iform ''VEXTRACTI128_XMMdq_YMMqq_IMMb'' ''a80c6eed6f87486e0844960920d16743e'',
    iform ''VEXTRACTI32X4_MEMu32_MASKmskw_YMMu32_IMM8_AVX512'' ''a2f998f25e43e2c3e75faec171b40dc10'',
    iform ''VEXTRACTI32X4_MEMu32_MASKmskw_ZMMu32_IMM8_AVX512'' ''a26e8a89e6673134185831ea87a648eb5'',
    iform ''VEXTRACTI32X4_XMMu32_MASKmskw_YMMu32_IMM8_AVX512'' ''a9ccbe488fff78de0f835a72635546f42'',
    iform ''VEXTRACTI32X4_XMMu32_MASKmskw_ZMMu32_IMM8_AVX512'' ''a751abdb347b27b1f6faf6d682b881b11'',
    iform ''VEXTRACTI32X8_MEMu32_MASKmskw_ZMMu32_IMM8_AVX512'' ''a07e77f469bca36c78639b11b489478c3'',
    iform ''VEXTRACTI32X8_YMMu32_MASKmskw_ZMMu32_IMM8_AVX512'' ''a47d99bcb1bdfd76684e5226b1c9ef333'',
    iform ''VEXTRACTI64X2_MEMu64_MASKmskw_YMMu64_IMM8_AVX512'' ''a140045820368d3370839626798b8a2b3'',
    iform ''VEXTRACTI64X2_MEMu64_MASKmskw_ZMMu64_IMM8_AVX512'' ''a9d6ce752bb680546cd5bdf73fa665516'',
    iform ''VEXTRACTI64X2_XMMu64_MASKmskw_YMMu64_IMM8_AVX512'' ''a80f603262213115e4676738fb7a2e6ff'',
    iform ''VEXTRACTI64X2_XMMu64_MASKmskw_ZMMu64_IMM8_AVX512'' ''a6508234bb09e377a6d05994b5099326e'',
    iform ''VEXTRACTI64X4_MEMu64_MASKmskw_ZMMu64_IMM8_AVX512'' ''a5915cf502dac1f37375fcd140fdc2418'',
    iform ''VEXTRACTI64X4_YMMu64_MASKmskw_ZMMu64_IMM8_AVX512'' ''a1cb7675a48882f4e2cc94c560f7aefdb'',
    iform ''VEXTRACTPS_GPR32_XMMdq_IMMb'' ''ae1bab9c35dc39bea10ba7a07c102c11f'',
    iform ''VEXTRACTPS_GPR32f32_XMMf32_IMM8_AVX512'' ''a8bf9ae7d54439201fdbbfb4cc0edf741'',
    iform ''VEXTRACTPS_MEMd_XMMdq_IMMb'' ''a5cb9c49495cf2d0b625cbf6e9914a0f4'',
    iform ''VEXTRACTPS_MEMf32_XMMf32_IMM8_AVX512'' ''acde76037d13c69357948635bdf061477'',
    iform ''VFIXUPIMMPD_XMMf64_MASKmskw_XMMf64_MEMf64_IMM8_AVX512'' ''aa16ff66df3a7cfcf9fb2a44cb507bf19'',
    iform ''VFIXUPIMMPD_XMMf64_MASKmskw_XMMf64_XMMf64_IMM8_AVX512'' ''a2576fede658adbe03081871da2d14d73'',
    iform ''VFIXUPIMMPD_YMMf64_MASKmskw_YMMf64_MEMf64_IMM8_AVX512'' ''aa71526b3195375450d49a6962fe09443'',
    iform ''VFIXUPIMMPD_YMMf64_MASKmskw_YMMf64_YMMf64_IMM8_AVX512'' ''a9b67f9eaa1748786e54a7c08fae020b6'',
    iform ''VFIXUPIMMPD_ZMMf64_MASKmskw_ZMMf64_MEMf64_IMM8_AVX512'' ''a11fda2789600df7de7d957132a1a4156'',
    iform ''VFIXUPIMMPD_ZMMf64_MASKmskw_ZMMf64_ZMMf64_IMM8_AVX512'' ''a2ca1185fa9e0e75a0dc7335ae2e3934d'',
    iform ''VFIXUPIMMPS_XMMf32_MASKmskw_XMMf32_MEMf32_IMM8_AVX512'' ''a800854c1c49a55d166151d6f51fa8c3c'',
    iform ''VFIXUPIMMPS_XMMf32_MASKmskw_XMMf32_XMMf32_IMM8_AVX512'' ''aaf8880246b35b51c7054b50b935a8ae2'',
    iform ''VFIXUPIMMPS_YMMf32_MASKmskw_YMMf32_MEMf32_IMM8_AVX512'' ''ad6fb97bef7b0a658278d05768663bdd8'',
    iform ''VFIXUPIMMPS_YMMf32_MASKmskw_YMMf32_YMMf32_IMM8_AVX512'' ''a067df63e2220c96400a049824183fd44'',
    iform ''VFIXUPIMMPS_ZMMf32_MASKmskw_ZMMf32_MEMf32_IMM8_AVX512'' ''a7028ab75f9c67c50bfc6550c5340c862'',
    iform ''VFIXUPIMMPS_ZMMf32_MASKmskw_ZMMf32_ZMMf32_IMM8_AVX512'' ''af0e467fe7cf5a7e0291a3dda94051ede'',
    iform ''VFIXUPIMMSD_XMMf64_MASKmskw_XMMf64_MEMf64_IMM8_AVX512'' ''a8aca92bab6d28fde803aa7f3342a11ab'',
    iform ''VFIXUPIMMSD_XMMf64_MASKmskw_XMMf64_XMMf64_IMM8_AVX512'' ''ae868ed62601dfe0a1e42850af21c6fb3'',
    iform ''VFIXUPIMMSS_XMMf32_MASKmskw_XMMf32_MEMf32_IMM8_AVX512'' ''aae437bd0f186c344795212b883460705'',
    iform ''VFIXUPIMMSS_XMMf32_MASKmskw_XMMf32_XMMf32_IMM8_AVX512'' ''a15a3e8f2f5733956077a9cf80662f88c'',
    iform ''VFMADD132PD_XMMdq_XMMdq_MEMdq'' ''a0e7a05140a8a3f5a2ae6fea08abb5327'',
    iform ''VFMADD132PD_XMMdq_XMMdq_XMMdq'' ''ad3c40f30c210e3e0c18858fda12b37c6'',
    iform ''VFMADD132PD_XMMf64_MASKmskw_XMMf64_MEMf64_AVX512'' ''a2537ae91dc097cd4ff83790f61d9b6f6'',
    iform ''VFMADD132PD_XMMf64_MASKmskw_XMMf64_XMMf64_AVX512'' ''a4812753c6d84ddf7b9cd47cbc7f3e9f1'',
    iform ''VFMADD132PD_YMMf64_MASKmskw_YMMf64_MEMf64_AVX512'' ''a2f3f8c9e12db2cab93aa014c793622e2'',
    iform ''VFMADD132PD_YMMf64_MASKmskw_YMMf64_YMMf64_AVX512'' ''af7280336e72aac420a9428b9798c9d68'',
    iform ''VFMADD132PD_YMMqq_YMMqq_MEMqq'' ''ae6925252049b1f5e272c10da32737556'',
    iform ''VFMADD132PD_YMMqq_YMMqq_YMMqq'' ''a6c1aa9bf6b121031b7e6fd5219bbbc02'',
    iform ''VFMADD132PD_ZMMf64_MASKmskw_ZMMf64_MEMf64_AVX512'' ''a6dd08f3efb7f1e7b88eddc20b8d58928'',
    iform ''VFMADD132PD_ZMMf64_MASKmskw_ZMMf64_ZMMf64_AVX512'' ''a043497c42434e0b88e20499c83a3fe99'',
    iform ''VFMADD132PS_XMMdq_XMMdq_MEMdq'' ''a76bc2aea282b13aa5c991681af0bc16e'',
    iform ''VFMADD132PS_XMMdq_XMMdq_XMMdq'' ''ac363f3084563cbf3836b147f06c79f18'',
    iform ''VFMADD132PS_XMMf32_MASKmskw_XMMf32_MEMf32_AVX512'' ''a5fb3a03f4c77a0cd74d52563faf0442d'',
    iform ''VFMADD132PS_XMMf32_MASKmskw_XMMf32_XMMf32_AVX512'' ''a13e878c7d97d9b30eba29b1b6bd2ad0f'',
    iform ''VFMADD132PS_YMMf32_MASKmskw_YMMf32_MEMf32_AVX512'' ''ada4aec257f38fba9511c306f1cd4b25b'',
    iform ''VFMADD132PS_YMMf32_MASKmskw_YMMf32_YMMf32_AVX512'' ''a427bef15f23ad0408d60b1f0c398a1bc'',
    iform ''VFMADD132PS_YMMqq_YMMqq_MEMqq'' ''a03ab6b56c938fd9c9d88ed4fc268166c'',
    iform ''VFMADD132PS_YMMqq_YMMqq_YMMqq'' ''a7ccc56cf75b60e4ad287d80d6baf9d34'',
    iform ''VFMADD132PS_ZMMf32_MASKmskw_ZMMf32_MEMf32_AVX512'' ''a0268e3969129f450839ed6f24544cf72'',
    iform ''VFMADD132PS_ZMMf32_MASKmskw_ZMMf32_ZMMf32_AVX512'' ''a2c464e12c06bb283d42795ef96967d0a'',
    iform ''VFMADD132SD_XMMdq_XMMq_MEMq'' ''afe8970117235b3217530e70bff09b53d'',
    iform ''VFMADD132SD_XMMdq_XMMq_XMMq'' ''ab1e9f7245a05f908d9a9bf123c1272e9'',
    iform ''VFMADD132SD_XMMf64_MASKmskw_XMMf64_MEMf64_AVX512'' ''a47e68bbeff14732990484d4599ef7a01'',
    iform ''VFMADD132SD_XMMf64_MASKmskw_XMMf64_XMMf64_AVX512'' ''ac0de9b954be574e25cb81c95b5cf6f2c'',
    iform ''VFMADD132SS_XMMdq_XMMd_MEMd'' ''aec02356fb2294f28413e1f85d886ff6b'',
    iform ''VFMADD132SS_XMMdq_XMMd_XMMd'' ''ac3078a8fd2b9edf7a79e8db6402221c0'',
    iform ''VFMADD132SS_XMMf32_MASKmskw_XMMf32_MEMf32_AVX512'' ''a397e100e3bd254e6e06cadcb39d4bddc'',
    iform ''VFMADD132SS_XMMf32_MASKmskw_XMMf32_XMMf32_AVX512'' ''ac28490bf5e713796103640b138cef407'',
    iform ''VFMADD213PD_XMMdq_XMMdq_MEMdq'' ''ac843b75c5176ac0cac18119faed59985'',
    iform ''VFMADD213PD_XMMdq_XMMdq_XMMdq'' ''a00f495397828f122f26946346959a4d3'',
    iform ''VFMADD213PD_XMMf64_MASKmskw_XMMf64_MEMf64_AVX512'' ''a21dc5a72c26f64c2f530f4754950acd0'',
    iform ''VFMADD213PD_XMMf64_MASKmskw_XMMf64_XMMf64_AVX512'' ''af1bd9ef754670040c0717f9b42baa9d5'',
    iform ''VFMADD213PD_YMMf64_MASKmskw_YMMf64_MEMf64_AVX512'' ''a6aff5e33f5d05dfae56b18753207a62c'',
    iform ''VFMADD213PD_YMMf64_MASKmskw_YMMf64_YMMf64_AVX512'' ''add4b2eb15133ee1ce2474d3b3ab34aac'',
    iform ''VFMADD213PD_YMMqq_YMMqq_MEMqq'' ''a0dd2cb4ab1f5860eb9391eda58b3251d'',
    iform ''VFMADD213PD_YMMqq_YMMqq_YMMqq'' ''ae256c6ed2dbe16760bdd13c991b7473c'',
    iform ''VFMADD213PD_ZMMf64_MASKmskw_ZMMf64_MEMf64_AVX512'' ''ab4e59ed9d8394152639c54843d05bf6a'',
    iform ''VFMADD213PD_ZMMf64_MASKmskw_ZMMf64_ZMMf64_AVX512'' ''a737d99fbbce82c6cc9986f6825d91312'',
    iform ''VFMADD213PS_XMMdq_XMMdq_MEMdq'' ''ad6b09f17342de904adcbcec797697508'',
    iform ''VFMADD213PS_XMMdq_XMMdq_XMMdq'' ''adb9c387185b432436f3911cc3c4de19a'',
    iform ''VFMADD213PS_XMMf32_MASKmskw_XMMf32_MEMf32_AVX512'' ''a035c95d7348d9ef9808cee985aa64ac0'',
    iform ''VFMADD213PS_XMMf32_MASKmskw_XMMf32_XMMf32_AVX512'' ''a58c7d00afc06e9ae3a83c91dd43f33e6'',
    iform ''VFMADD213PS_YMMf32_MASKmskw_YMMf32_MEMf32_AVX512'' ''a0786ddf5e33b485fe7b0bede51fe3b31'',
    iform ''VFMADD213PS_YMMf32_MASKmskw_YMMf32_YMMf32_AVX512'' ''a91a1ff5bd8024013a77c3b273664bb7d'',
    iform ''VFMADD213PS_YMMqq_YMMqq_MEMqq'' ''a60847fb34321ffab26f73d33ff09ad1b'',
    iform ''VFMADD213PS_YMMqq_YMMqq_YMMqq'' ''a2f9886e53af8f332d71770265a785ee0'',
    iform ''VFMADD213PS_ZMMf32_MASKmskw_ZMMf32_MEMf32_AVX512'' ''aba33b326a343ad09382a6ab91fd49c26'',
    iform ''VFMADD213PS_ZMMf32_MASKmskw_ZMMf32_ZMMf32_AVX512'' ''af655049f36090c94e3fed294fac1c516'',
    iform ''VFMADD213SD_XMMdq_XMMq_MEMq'' ''ac71546b4fd171c54abf31ac6fe5db005'',
    iform ''VFMADD213SD_XMMdq_XMMq_XMMq'' ''a08f76efcb880511277df30244db9495f'',
    iform ''VFMADD213SD_XMMf64_MASKmskw_XMMf64_MEMf64_AVX512'' ''af255ec1eac29dd465a7bc1b99d43cc74'',
    iform ''VFMADD213SD_XMMf64_MASKmskw_XMMf64_XMMf64_AVX512'' ''a29184c73b607ab826421b6c1852fa544'',
    iform ''VFMADD213SS_XMMdq_XMMd_MEMd'' ''a597387c6dc7910fb0e2231068367c739'',
    iform ''VFMADD213SS_XMMdq_XMMd_XMMd'' ''a87d25f710674508e2f3ec774b8037f9d'',
    iform ''VFMADD213SS_XMMf32_MASKmskw_XMMf32_MEMf32_AVX512'' ''ad318ab901d2720e1c2bab33d3900f0ab'',
    iform ''VFMADD213SS_XMMf32_MASKmskw_XMMf32_XMMf32_AVX512'' ''a70be879faed25f7e726783ae273572f0'',
    iform ''VFMADD231PD_XMMdq_XMMdq_MEMdq'' ''a00ecc5508d2e11c3c9f475dd74a3f7dc'',
    iform ''VFMADD231PD_XMMdq_XMMdq_XMMdq'' ''ae8a6625e984dd96d1ecca82ccd7e82ec'',
    iform ''VFMADD231PD_XMMf64_MASKmskw_XMMf64_MEMf64_AVX512'' ''a6dac092a8a14ac9040a937ceba2f9415'',
    iform ''VFMADD231PD_XMMf64_MASKmskw_XMMf64_XMMf64_AVX512'' ''ab5921b5cdd2c9b2f47d4b0361e1b3f5b'',
    iform ''VFMADD231PD_YMMf64_MASKmskw_YMMf64_MEMf64_AVX512'' ''a3e4d0f7d354f4fc797ed045f79098289'',
    iform ''VFMADD231PD_YMMf64_MASKmskw_YMMf64_YMMf64_AVX512'' ''ad84773a090c765ab3777e837303739d9'',
    iform ''VFMADD231PD_YMMqq_YMMqq_MEMqq'' ''ad527934e2af39c6664eb13e8a8b28d97'',
    iform ''VFMADD231PD_YMMqq_YMMqq_YMMqq'' ''ae1b333ad447045edb5a75467147b3d2b'',
    iform ''VFMADD231PD_ZMMf64_MASKmskw_ZMMf64_MEMf64_AVX512'' ''a37d492261a3bbfc037404e20f3ae95f5'',
    iform ''VFMADD231PD_ZMMf64_MASKmskw_ZMMf64_ZMMf64_AVX512'' ''aadbc2e4cdcbe28d12c0f8e74f5cce334'',
    iform ''VFMADD231PS_XMMdq_XMMdq_MEMdq'' ''a7cd16dbe7b8fb5d27b9d6855be16d4cf'',
    iform ''VFMADD231PS_XMMdq_XMMdq_XMMdq'' ''ad3933091546bc45b8a2070d765747d13'',
    iform ''VFMADD231PS_XMMf32_MASKmskw_XMMf32_MEMf32_AVX512'' ''ade3f956e843a2e70e10ce43ca4410f38'',
    iform ''VFMADD231PS_XMMf32_MASKmskw_XMMf32_XMMf32_AVX512'' ''a6ad42c6b0a842681e7a06ef851b90e34'',
    iform ''VFMADD231PS_YMMf32_MASKmskw_YMMf32_MEMf32_AVX512'' ''aafb613a3017122d8ee8cee68a86b3d94'',
    iform ''VFMADD231PS_YMMf32_MASKmskw_YMMf32_YMMf32_AVX512'' ''aa2f210b289eb86ca6e25c98eaf73682a'',
    iform ''VFMADD231PS_YMMqq_YMMqq_MEMqq'' ''a2db9167b8f2b61ba38c2a94f44cbcd1e'',
    iform ''VFMADD231PS_YMMqq_YMMqq_YMMqq'' ''ac827ab5ffc4390e0883f14f4387458e1'',
    iform ''VFMADD231PS_ZMMf32_MASKmskw_ZMMf32_MEMf32_AVX512'' ''a29c13d2eef9e1f05819ec05ec5b73e5f'',
    iform ''VFMADD231PS_ZMMf32_MASKmskw_ZMMf32_ZMMf32_AVX512'' ''a4ba5f84408ec5a1e0eaff0cf7b793023'',
    iform ''VFMADD231SD_XMMdq_XMMq_MEMq'' ''a21dbeac9b42f965142fa16b251acb924'',
    iform ''VFMADD231SD_XMMdq_XMMq_XMMq'' ''a8cc1cd615e516931ee8ed22750edfbd6'',
    iform ''VFMADD231SD_XMMf64_MASKmskw_XMMf64_MEMf64_AVX512'' ''af1ca40bc854342f5e3946eebbf489434'',
    iform ''VFMADD231SD_XMMf64_MASKmskw_XMMf64_XMMf64_AVX512'' ''adb79e72d0c3e3253a91a13e7696e6edf'',
    iform ''VFMADD231SS_XMMdq_XMMd_MEMd'' ''a78bf49653ac885d352dd465ef27b4086'',
    iform ''VFMADD231SS_XMMdq_XMMd_XMMd'' ''aafa7a8ef05f3793a939550c6a570f444'',
    iform ''VFMADD231SS_XMMf32_MASKmskw_XMMf32_MEMf32_AVX512'' ''a6bca51dcb327c47ce296b5be3aea78ad'',
    iform ''VFMADD231SS_XMMf32_MASKmskw_XMMf32_XMMf32_AVX512'' ''a7e9ce928683a48ed7dd04cb3bf17e2cc'',
    iform ''VFMADDPD_XMMdq_XMMdq_MEMdq_XMMdq'' ''a384f82fb90962f5c1f49c11d5b50782d'',
    iform ''VFMADDPD_XMMdq_XMMdq_XMMdq_MEMdq'' ''a4c9573014721228a461bb55feeb45bbb'',
    iform ''VFMADDPD_XMMdq_XMMdq_XMMdq_XMMdq'' ''aa1cc84a248d01180f221b23e7f97c09e'',
    iform ''VFMADDPD_YMMqq_YMMqq_MEMqq_YMMqq'' ''a213b5fa185c940294344506289e33b02'',
    iform ''VFMADDPD_YMMqq_YMMqq_YMMqq_MEMqq'' ''aa69492b98d5f6953e3731f3a415dd952'',
    iform ''VFMADDPD_YMMqq_YMMqq_YMMqq_YMMqq'' ''aa16554915d51439b8128b8109a2d4ef6'',
    iform ''VFMADDPS_XMMdq_XMMdq_MEMdq_XMMdq'' ''ac2e94a4d3a7ad860df1a3395927e77cc'',
    iform ''VFMADDPS_XMMdq_XMMdq_XMMdq_MEMdq'' ''a5fdbd02e3b7d93db16ab379573ae9495'',
    iform ''VFMADDPS_XMMdq_XMMdq_XMMdq_XMMdq'' ''a4df77c97d9d82e92944ccfb23941e83b'',
    iform ''VFMADDPS_YMMqq_YMMqq_MEMqq_YMMqq'' ''ad8798b599476b0ca581189dd8535e07f'',
    iform ''VFMADDPS_YMMqq_YMMqq_YMMqq_MEMqq'' ''a78ffdcaea55bd215393724d559cb32be'',
    iform ''VFMADDPS_YMMqq_YMMqq_YMMqq_YMMqq'' ''aab106b2ea4660033b7d472abec56e7b1'',
    iform ''VFMADDSD_XMMdq_XMMdq_MEMq_XMMdq'' ''abc3db0918143cdb4d76f34c6a99bc784'',
    iform ''VFMADDSD_XMMdq_XMMdq_XMMdq_MEMq'' ''ad4a7d47359ffc1357ac9f5932d0dc145'',
    iform ''VFMADDSD_XMMdq_XMMdq_XMMdq_XMMq'' ''a3bae2d64ec2bbcbd6dde626cc59fd6c5'']"

lemma xed_iform_enum_8h_values_18_closed: "list_all (closed_node scripts) xed_iform_enum_8h_values_18"
  by (simp only: xed_iform_enum_8h_values_18_def closed_rules iform_closed)

definition xed_iform_enum_8h_values_19 :: "nav_node list" where
  "xed_iform_enum_8h_values_19 = [
    iform ''VFMADDSD_XMMdq_XMMdq_XMMq_XMMdq'' ''aebce7476db32511e0631d3115405b0b6'',
    iform ''VFMADDSS_XMMdq_XMMdq_MEMd_XMMdq'' ''aa0abf0d07ce7ca32ddf053763973967b'',
    iform ''VFMADDSS_XMMdq_XMMdq_XMMd_XMMdq'' ''a7aa4ce84033a55eb6a1dd18924bdc24f'',
    iform ''VFMADDSS_XMMdq_XMMdq_XMMdq_MEMd'' ''a69556b21aa17a8e25e58c0b07a577a5b'',
    iform ''VFMADDSS_XMMdq_XMMdq_XMMdq_XMMd'' ''afbb559a50025da82234b810c49f950f4'',
    iform ''VFMADDSUB132PD_XMMdq_XMMdq_MEMdq'' ''a87af783482d3f67b384d44a267c04140'',
    iform ''VFMADDSUB132PD_XMMdq_XMMdq_XMMdq'' ''a99d36a3d3e4ea5dffc00f437d60ef2c9'',
    iform ''VFMADDSUB132PD_XMMf64_MASKmskw_XMMf64_MEMf64_AVX512'' ''a25f2f68a4b2b0e1d2b86e1e367f5d3d9'',
    iform ''VFMADDSUB132PD_XMMf64_MASKmskw_XMMf64_XMMf64_AVX512'' ''a2eebe8cd9ca0750a2db51225d6db2692'',
    iform ''VFMADDSUB132PD_YMMf64_MASKmskw_YMMf64_MEMf64_AVX512'' ''a3a6e64c88c2d39f544e7f4ac37960eeb'',
    iform ''VFMADDSUB132PD_YMMf64_MASKmskw_YMMf64_YMMf64_AVX512'' ''acfc758fcfa62c923bc6dd644b471026b'',
    iform ''VFMADDSUB132PD_YMMqq_YMMqq_MEMqq'' ''a6cf0ca55b7bf38e25ce509940192493f'',
    iform ''VFMADDSUB132PD_YMMqq_YMMqq_YMMqq'' ''a87a7d1f32fb1752b16964ba0e4b773ab'',
    iform ''VFMADDSUB132PD_ZMMf64_MASKmskw_ZMMf64_MEMf64_AVX512'' ''a0954a6bea48e1deba926a4f776146e5f'',
    iform ''VFMADDSUB132PD_ZMMf64_MASKmskw_ZMMf64_ZMMf64_AVX512'' ''ac684283da43cc3ba8b9834b521e87458'',
    iform ''VFMADDSUB132PS_XMMdq_XMMdq_MEMdq'' ''aba9d330e31b99a54d339dcd671496528'',
    iform ''VFMADDSUB132PS_XMMdq_XMMdq_XMMdq'' ''ac09a2bdc088bead871f5ef0fc67f8f4b'',
    iform ''VFMADDSUB132PS_XMMf32_MASKmskw_XMMf32_MEMf32_AVX512'' ''ad341a40a3c032f5b5245700db86c57a9'',
    iform ''VFMADDSUB132PS_XMMf32_MASKmskw_XMMf32_XMMf32_AVX512'' ''adcf37d75911c1c598bd22eae01c854ad'',
    iform ''VFMADDSUB132PS_YMMf32_MASKmskw_YMMf32_MEMf32_AVX512'' ''a4a165a856cb5c3d83f2ead97a677a8dc'',
    iform ''VFMADDSUB132PS_YMMf32_MASKmskw_YMMf32_YMMf32_AVX512'' ''a0194a2b6b6683c6fb6cb2a505693fae5'',
    iform ''VFMADDSUB132PS_YMMqq_YMMqq_MEMqq'' ''a2554faff2c7ed3d155d8d8a8edbfe43b'',
    iform ''VFMADDSUB132PS_YMMqq_YMMqq_YMMqq'' ''a5d3779a2ae0e06e2c177abd59d481c19'',
    iform ''VFMADDSUB132PS_ZMMf32_MASKmskw_ZMMf32_MEMf32_AVX512'' ''ac5d4e4c6476e27f25063a0a7cb27398b'',
    iform ''VFMADDSUB132PS_ZMMf32_MASKmskw_ZMMf32_ZMMf32_AVX512'' ''a54eb0d31cd7823a65fea37f31ff19a1b'',
    iform ''VFMADDSUB213PD_XMMdq_XMMdq_MEMdq'' ''ad7c3b2e35bca1436daa02871a636df78'',
    iform ''VFMADDSUB213PD_XMMdq_XMMdq_XMMdq'' ''a33a4f86729ba52d370216d849aba9a20'',
    iform ''VFMADDSUB213PD_XMMf64_MASKmskw_XMMf64_MEMf64_AVX512'' ''a1c7e6c4d4a5556cb793065b521c84902'',
    iform ''VFMADDSUB213PD_XMMf64_MASKmskw_XMMf64_XMMf64_AVX512'' ''a62c0691706e9ffe541bc7ad3dba81bf9'',
    iform ''VFMADDSUB213PD_YMMf64_MASKmskw_YMMf64_MEMf64_AVX512'' ''a8301e3754675a5f4f3ebaed8383d7811'',
    iform ''VFMADDSUB213PD_YMMf64_MASKmskw_YMMf64_YMMf64_AVX512'' ''a15d2e4f9a96c253d94abfe27066f7eb8'',
    iform ''VFMADDSUB213PD_YMMqq_YMMqq_MEMqq'' ''afca3448c45f56aca6b4f3eab11947595'',
    iform ''VFMADDSUB213PD_YMMqq_YMMqq_YMMqq'' ''a948e310714d8f57a5b5cb93c06e759d6'',
    iform ''VFMADDSUB213PD_ZMMf64_MASKmskw_ZMMf64_MEMf64_AVX512'' ''a40676fcff77dee47082e3e34cf035177'',
    iform ''VFMADDSUB213PD_ZMMf64_MASKmskw_ZMMf64_ZMMf64_AVX512'' ''a6a13580949cbe043cf0634b2ebd27a44'',
    iform ''VFMADDSUB213PS_XMMdq_XMMdq_MEMdq'' ''ac4ed10542a89041067173f1006be39b2'',
    iform ''VFMADDSUB213PS_XMMdq_XMMdq_XMMdq'' ''a4d0d2ceaa11f496e938a70be8b47c045'',
    iform ''VFMADDSUB213PS_XMMf32_MASKmskw_XMMf32_MEMf32_AVX512'' ''a2c0f97f35d876e72c0d3935ff5a04e16'',
    iform ''VFMADDSUB213PS_XMMf32_MASKmskw_XMMf32_XMMf32_AVX512'' ''acfaf4a75e94536619169bde98a5e5c37'',
    iform ''VFMADDSUB213PS_YMMf32_MASKmskw_YMMf32_MEMf32_AVX512'' ''a24aa6e3f78c56650eca3de6ea7317d03'',
    iform ''VFMADDSUB213PS_YMMf32_MASKmskw_YMMf32_YMMf32_AVX512'' ''ad2d4d6d23d668fc1ce4574a70d3b7038'',
    iform ''VFMADDSUB213PS_YMMqq_YMMqq_MEMqq'' ''a3dcb01f65eeeb5e1ea9a5b1252fbf3c3'',
    iform ''VFMADDSUB213PS_YMMqq_YMMqq_YMMqq'' ''a63ff33bfa39d9f30abba3549af3b3d7b'',
    iform ''VFMADDSUB213PS_ZMMf32_MASKmskw_ZMMf32_MEMf32_AVX512'' ''ac117d84f78befbed29658afd846f347e'',
    iform ''VFMADDSUB213PS_ZMMf32_MASKmskw_ZMMf32_ZMMf32_AVX512'' ''a932fcb5fd401e5987afd9fba704c5fbd'',
    iform ''VFMADDSUB231PD_XMMdq_XMMdq_MEMdq'' ''a155d201c9704720a953f50e785653ccf'',
    iform ''VFMADDSUB231PD_XMMdq_XMMdq_XMMdq'' ''a12c54633e86161a12751e46bb2be5e74'',
    iform ''VFMADDSUB231PD_XMMf64_MASKmskw_XMMf64_MEMf64_AVX512'' ''a91c10c029aa5070370962346b1f966ac'',
    iform ''VFMADDSUB231PD_XMMf64_MASKmskw_XMMf64_XMMf64_AVX512'' ''a73c611ba7ea89cdd5a699369fed1d7f6'',
    iform ''VFMADDSUB231PD_YMMf64_MASKmskw_YMMf64_MEMf64_AVX512'' ''adc069088ca12e25c3c2adf0080b5cd40'',
    iform ''VFMADDSUB231PD_YMMf64_MASKmskw_YMMf64_YMMf64_AVX512'' ''a94ae457049e3b28a41750e39b97a019c'',
    iform ''VFMADDSUB231PD_YMMqq_YMMqq_MEMqq'' ''acf37ab628f0373cf1133237081960365'',
    iform ''VFMADDSUB231PD_YMMqq_YMMqq_YMMqq'' ''acce6fd1ce614d2ee7eb052c070bdeeaf'',
    iform ''VFMADDSUB231PD_ZMMf64_MASKmskw_ZMMf64_MEMf64_AVX512'' ''acfb965c9e8e44e9866ed0ecbcc07e032'',
    iform ''VFMADDSUB231PD_ZMMf64_MASKmskw_ZMMf64_ZMMf64_AVX512'' ''a283502b933eb7a0f90b86a3050de7cab'',
    iform ''VFMADDSUB231PS_XMMdq_XMMdq_MEMdq'' ''ad9a1141b5a4567b853022df4bbd450a8'',
    iform ''VFMADDSUB231PS_XMMdq_XMMdq_XMMdq'' ''aa18f230b1fe436b3af3df321bf895175'',
    iform ''VFMADDSUB231PS_XMMf32_MASKmskw_XMMf32_MEMf32_AVX512'' ''aaddf47a55c088fddfaa3e4d3a7079618'',
    iform ''VFMADDSUB231PS_XMMf32_MASKmskw_XMMf32_XMMf32_AVX512'' ''a93ab4e7921785882793a7644ac2ee4a5'',
    iform ''VFMADDSUB231PS_YMMf32_MASKmskw_YMMf32_MEMf32_AVX512'' ''ae897b64d9e1ea94f3e910b66971378d9'',
    iform ''VFMADDSUB231PS_YMMf32_MASKmskw_YMMf32_YMMf32_AVX512'' ''aa3a09009144d9f690ed48e2b13ac6cb9'',
    iform ''VFMADDSUB231PS_YMMqq_YMMqq_MEMqq'' ''a2c1090ad5b2c7c0f5dd739ee4366a2fd'',
    iform ''VFMADDSUB231PS_YMMqq_YMMqq_YMMqq'' ''a3a0fbf6a6c2c04470ff23530d4590313'',
    iform ''VFMADDSUB231PS_ZMMf32_MASKmskw_ZMMf32_MEMf32_AVX512'' ''a226e7abdb8a0bdf86ed6151f63e6f8ba'',
    iform ''VFMADDSUB231PS_ZMMf32_MASKmskw_ZMMf32_ZMMf32_AVX512'' ''a1570e7a2cb9ee765204055514326d98b'',
    iform ''VFMADDSUBPD_XMMdq_XMMdq_MEMdq_XMMdq'' ''aaba986d93c1346e4acb08eedfbe82dc5'',
    iform ''VFMADDSUBPD_XMMdq_XMMdq_XMMdq_MEMdq'' ''ad8e77808ef4458566a76507bbfcb846e'',
    iform ''VFMADDSUBPD_XMMdq_XMMdq_XMMdq_XMMdq'' ''acec7db5920dfb66cf9a84507ebe0f893'',
    iform ''VFMADDSUBPD_YMMqq_YMMqq_MEMqq_YMMqq'' ''ae476bdc9c0826a284eb9f409694d72cb'',
    iform ''VFMADDSUBPD_YMMqq_YMMqq_YMMqq_MEMqq'' ''a7666f0df502e385e61cb75d06d34344c'',
    iform ''VFMADDSUBPD_YMMqq_YMMqq_YMMqq_YMMqq'' ''adefe5719be6f01564c3546e115b1c2f4'',
    iform ''VFMADDSUBPS_XMMdq_XMMdq_MEMdq_XMMdq'' ''a41a54cfb0ae9550606af3549a1ea2114'',
    iform ''VFMADDSUBPS_XMMdq_XMMdq_XMMdq_MEMdq'' ''af97259d7297c1477cf4a9a2f83460124'',
    iform ''VFMADDSUBPS_XMMdq_XMMdq_XMMdq_XMMdq'' ''ac82d16c82bfa766cae38fe115f1abd9f'',
    iform ''VFMADDSUBPS_YMMqq_YMMqq_MEMqq_YMMqq'' ''aa64d9409f26f5c369fe1dc76b224efa7'',
    iform ''VFMADDSUBPS_YMMqq_YMMqq_YMMqq_MEMqq'' ''a974f091d78547015f26ae6aca42c9695'',
    iform ''VFMADDSUBPS_YMMqq_YMMqq_YMMqq_YMMqq'' ''a576d0603d131cb1c035d56e92805fec9'',
    iform ''VFMSUB132PD_XMMdq_XMMdq_MEMdq'' ''a068f5a32e46fddf29b78dce92efd8808'',
    iform ''VFMSUB132PD_XMMdq_XMMdq_XMMdq'' ''a0ed72ed8d0d6026edd85a23237fa44f6'',
    iform ''VFMSUB132PD_XMMf64_MASKmskw_XMMf64_MEMf64_AVX512'' ''a53ad7cbfdd9f146de6ca9f957b018fa7'',
    iform ''VFMSUB132PD_XMMf64_MASKmskw_XMMf64_XMMf64_AVX512'' ''a26b4924885d693e3715139e48b18adac'',
    iform ''VFMSUB132PD_YMMf64_MASKmskw_YMMf64_MEMf64_AVX512'' ''a7dbcd347192d849e97d71d0d59ca8adc'',
    iform ''VFMSUB132PD_YMMf64_MASKmskw_YMMf64_YMMf64_AVX512'' ''a4f8c432e9631c07cfef16d1349a16737'',
    iform ''VFMSUB132PD_YMMqq_YMMqq_MEMqq'' ''a83892ef342c2d3cc803d924587fbaa07'',
    iform ''VFMSUB132PD_YMMqq_YMMqq_YMMqq'' ''acc6df0686baa24956ba17d9e5db53c74'',
    iform ''VFMSUB132PD_ZMMf64_MASKmskw_ZMMf64_MEMf64_AVX512'' ''a8dd0c37b7b93a7f8fa4494fef2eb6096'',
    iform ''VFMSUB132PD_ZMMf64_MASKmskw_ZMMf64_ZMMf64_AVX512'' ''ad99838976a2bb8b5f345791dcbf9a212'',
    iform ''VFMSUB132PS_XMMdq_XMMdq_MEMdq'' ''a40f7a2f7aa3d4967de96ca5023dfb36d'',
    iform ''VFMSUB132PS_XMMdq_XMMdq_XMMdq'' ''ac5a38a767cbef21b63af2d3e1ba1dd75'',
    iform ''VFMSUB132PS_XMMf32_MASKmskw_XMMf32_MEMf32_AVX512'' ''a8762b3120afe8040c7d4f377861dd56c'',
    iform ''VFMSUB132PS_XMMf32_MASKmskw_XMMf32_XMMf32_AVX512'' ''a3b77685bb1f83164d6f315e155c402ff'',
    iform ''VFMSUB132PS_YMMf32_MASKmskw_YMMf32_MEMf32_AVX512'' ''a77b2e5fb971c7cf89ed5e0afff28eacd'',
    iform ''VFMSUB132PS_YMMf32_MASKmskw_YMMf32_YMMf32_AVX512'' ''a78f8a2f3e6c31f0e7671d2559d5eec89'',
    iform ''VFMSUB132PS_YMMqq_YMMqq_MEMqq'' ''af43cc8b2576d148115ca5e024c8714ac'',
    iform ''VFMSUB132PS_YMMqq_YMMqq_YMMqq'' ''a5aa5cf721e95da91fe2f5d846d6c72b9'',
    iform ''VFMSUB132PS_ZMMf32_MASKmskw_ZMMf32_MEMf32_AVX512'' ''a4528cbee4eacbe27a0c1f2322509f17a'',
    iform ''VFMSUB132PS_ZMMf32_MASKmskw_ZMMf32_ZMMf32_AVX512'' ''af54ee8e010d34e4e354c0aa52f1aa4a5'',
    iform ''VFMSUB132SD_XMMdq_XMMq_MEMq'' ''a82dff32516217a73840b57ef360c24d9'',
    iform ''VFMSUB132SD_XMMdq_XMMq_XMMq'' ''aaea96a94f7e227235aa03d199a039dcd'',
    iform ''VFMSUB132SD_XMMf64_MASKmskw_XMMf64_MEMf64_AVX512'' ''ab5669b4e92ab43b22a1e5888409a2969'',
    iform ''VFMSUB132SD_XMMf64_MASKmskw_XMMf64_XMMf64_AVX512'' ''ad6aeaba3b4f17141ba4cd66c0bef5c7b'',
    iform ''VFMSUB132SS_XMMdq_XMMd_MEMd'' ''aaf57ab90f8ad1183d39f6b881a656096'',
    iform ''VFMSUB132SS_XMMdq_XMMd_XMMd'' ''ad2c83d5ad4054b5a247658255de9a727'',
    iform ''VFMSUB132SS_XMMf32_MASKmskw_XMMf32_MEMf32_AVX512'' ''a7eb063c52b0139c35a1227a39f30322f'',
    iform ''VFMSUB132SS_XMMf32_MASKmskw_XMMf32_XMMf32_AVX512'' ''a2d8ad4eab02fcc86500a9d249d01f90b'',
    iform ''VFMSUB213PD_XMMdq_XMMdq_MEMdq'' ''a2784751945302a85e9eae8b76fa5e3d6'',
    iform ''VFMSUB213PD_XMMdq_XMMdq_XMMdq'' ''ad84e980a159fa664bc3da9f792cf1a0a'',
    iform ''VFMSUB213PD_XMMf64_MASKmskw_XMMf64_MEMf64_AVX512'' ''aed0b8a69416388fd1fa44f761d21a705'',
    iform ''VFMSUB213PD_XMMf64_MASKmskw_XMMf64_XMMf64_AVX512'' ''ae382993b26109e3b9e8be46a64df9fcd'',
    iform ''VFMSUB213PD_YMMf64_MASKmskw_YMMf64_MEMf64_AVX512'' ''acebcda34773f301f2a74c93d731084b3'',
    iform ''VFMSUB213PD_YMMf64_MASKmskw_YMMf64_YMMf64_AVX512'' ''acff5449d4e32fec359dc9e6a716c0f58'',
    iform ''VFMSUB213PD_YMMqq_YMMqq_MEMqq'' ''a81f8d2a1180c05d8f8ec91e0bbb751c1'',
    iform ''VFMSUB213PD_YMMqq_YMMqq_YMMqq'' ''a83420236679d27340463a2d4cf85d53e'',
    iform ''VFMSUB213PD_ZMMf64_MASKmskw_ZMMf64_MEMf64_AVX512'' ''accbcc573e2a3978c892e6c71de29cf78'',
    iform ''VFMSUB213PD_ZMMf64_MASKmskw_ZMMf64_ZMMf64_AVX512'' ''a008856f00e81e7dcf6948ccaf21fd825'',
    iform ''VFMSUB213PS_XMMdq_XMMdq_MEMdq'' ''ac1280769095298ecf6ce16a706ecf7ae'',
    iform ''VFMSUB213PS_XMMdq_XMMdq_XMMdq'' ''aec1442ade44403041701c1b3f9d30a99'',
    iform ''VFMSUB213PS_XMMf32_MASKmskw_XMMf32_MEMf32_AVX512'' ''a93abf220d14e5b3138967eabc330511f'',
    iform ''VFMSUB213PS_XMMf32_MASKmskw_XMMf32_XMMf32_AVX512'' ''ac383bdbe8aff507fcb739d93cb681397'',
    iform ''VFMSUB213PS_YMMf32_MASKmskw_YMMf32_MEMf32_AVX512'' ''a5a0cbc63814055ec345da33b94cbe332'',
    iform ''VFMSUB213PS_YMMf32_MASKmskw_YMMf32_YMMf32_AVX512'' ''a813a5c4e4c56523bc066f676c1e04455'',
    iform ''VFMSUB213PS_YMMqq_YMMqq_MEMqq'' ''a71329b850344b47e1cd744a65896e2b2'',
    iform ''VFMSUB213PS_YMMqq_YMMqq_YMMqq'' ''ac0bc935802edf877d99301a9f8126e77'',
    iform ''VFMSUB213PS_ZMMf32_MASKmskw_ZMMf32_MEMf32_AVX512'' ''a1e242e85017aa21d90c093a35636a10d'',
    iform ''VFMSUB213PS_ZMMf32_MASKmskw_ZMMf32_ZMMf32_AVX512'' ''a20a3209ad27bdeb7b96937c7041d5e65'',
    iform ''VFMSUB213SD_XMMdq_XMMq_MEMq'' ''ab983d3d6c3238131a373ebfc6b7f7b16'',
    iform ''VFMSUB213SD_XMMdq_XMMq_XMMq'' ''a9658f23de3d3f6000d77807c28bdf523'',
    iform ''VFMSUB213SD_XMMf64_MASKmskw_XMMf64_MEMf64_AVX512'' ''a72b082b1853d0e31c48a845aefe3bb37'',
    iform ''VFMSUB213SD_XMMf64_MASKmskw_XMMf64_XMMf64_AVX512'' ''a2b004ec7d37bea21f942477495725cc8'',
    iform ''VFMSUB213SS_XMMdq_XMMd_MEMd'' ''ae04dda8263105f3522a1febf08ef3420'',
    iform ''VFMSUB213SS_XMMdq_XMMd_XMMd'' ''a515e0206a143ad0c169315f3caad240c'',
    iform ''VFMSUB213SS_XMMf32_MASKmskw_XMMf32_MEMf32_AVX512'' ''af8d849905317bf700e21f6356b5f762b'',
    iform ''VFMSUB213SS_XMMf32_MASKmskw_XMMf32_XMMf32_AVX512'' ''a7e4a7806babc0851c56cfe7663e9199f'',
    iform ''VFMSUB231PD_XMMdq_XMMdq_MEMdq'' ''a7d4c446756fc72f0eee1f1080f7a2eef'',
    iform ''VFMSUB231PD_XMMdq_XMMdq_XMMdq'' ''ae79419ca6e0b4e62e3172b1d4f0b1d70'',
    iform ''VFMSUB231PD_XMMf64_MASKmskw_XMMf64_MEMf64_AVX512'' ''a34d069395616751b18ef94183cc83d97'',
    iform ''VFMSUB231PD_XMMf64_MASKmskw_XMMf64_XMMf64_AVX512'' ''ad078c94fff0eb1fdc8b97418337ed7a5'',
    iform ''VFMSUB231PD_YMMf64_MASKmskw_YMMf64_MEMf64_AVX512'' ''a9be5b89698b0874ae45351b5e767c9ab'',
    iform ''VFMSUB231PD_YMMf64_MASKmskw_YMMf64_YMMf64_AVX512'' ''a63df8e26c6fe76bf4a1dc122122391bf'',
    iform ''VFMSUB231PD_YMMqq_YMMqq_MEMqq'' ''a52e88f1e61ca5fd415e4493ec0afa58e'']"

lemma xed_iform_enum_8h_values_19_closed: "list_all (closed_node scripts) xed_iform_enum_8h_values_19"
  by (simp only: xed_iform_enum_8h_values_19_def closed_rules iform_closed)

definition xed_iform_enum_8h_values_20 :: "nav_node list" where
  "xed_iform_enum_8h_values_20 = [
    iform ''VFMSUB231PD_YMMqq_YMMqq_YMMqq'' ''a6d655e0c434c1d803640c7a0afe336fb'',
    iform ''VFMSUB231PD_ZMMf64_MASKmskw_ZMMf64_MEMf64_AVX512'' ''af8d41f3c753079dc2ecec0cae2e46fdc'',
    iform ''VFMSUB231PD_ZMMf64_MASKmskw_ZMMf64_ZMMf64_AVX512'' ''ac1887c97383d5221b692573993121d82'',
    iform ''VFMSUB231PS_XMMdq_XMMdq_MEMdq'' ''a3d6fed5a25e97289dee0dabd9f59424c'',
    iform ''VFMSUB231PS_XMMdq_XMMdq_XMMdq'' ''a4fd3231ca621d8574092df1f5b07d918'',
    iform ''VFMSUB231PS_XMMf32_MASKmskw_XMMf32_MEMf32_AVX512'' ''a357e734b8125c1484f33206e40bf0f11'',
    iform ''VFMSUB231PS_XMMf32_MASKmskw_XMMf32_XMMf32_AVX512'' ''af9794a3d241ca70157b8dbcbfe74add9'',
    iform ''VFMSUB231PS_YMMf32_MASKmskw_YMMf32_MEMf32_AVX512'' ''aee74c20930bea8f35685e4782112638f'',
    iform ''VFMSUB231PS_YMMf32_MASKmskw_YMMf32_YMMf32_AVX512'' ''ae5e0a6b97e649cdaf68fb4bcc69f733f'',
    iform ''VFMSUB231PS_YMMqq_YMMqq_MEMqq'' ''aaef41cc8ea09b77caa85305fc75ef2e9'',
    iform ''VFMSUB231PS_YMMqq_YMMqq_YMMqq'' ''a5e4b87b57b26e5e68746ba73278cbb1c'',
    iform ''VFMSUB231PS_ZMMf32_MASKmskw_ZMMf32_MEMf32_AVX512'' ''a2fa35fae62df8d5b201e531691e989a0'',
    iform ''VFMSUB231PS_ZMMf32_MASKmskw_ZMMf32_ZMMf32_AVX512'' ''ae68321636214b78b060c4f7086438522'',
    iform ''VFMSUB231SD_XMMdq_XMMq_MEMq'' ''ab24e6a8b347e653401f101f4ad30c97a'',
    iform ''VFMSUB231SD_XMMdq_XMMq_XMMq'' ''a51c293ffc50be460ff803969c617bfc0'',
    iform ''VFMSUB231SD_XMMf64_MASKmskw_XMMf64_MEMf64_AVX512'' ''a49d158b6837fa41724d8b85cc3b160ae'',
    iform ''VFMSUB231SD_XMMf64_MASKmskw_XMMf64_XMMf64_AVX512'' ''a083c95a5c05973402208fc977723cfad'',
    iform ''VFMSUB231SS_XMMdq_XMMd_MEMd'' ''a6b46dcd20d37824a51982b240e3a2f7b'',
    iform ''VFMSUB231SS_XMMdq_XMMd_XMMd'' ''abc45c0b35ed0a676ab0b656095376d24'',
    iform ''VFMSUB231SS_XMMf32_MASKmskw_XMMf32_MEMf32_AVX512'' ''a44985c7c644799e8bfd2a649f825d29a'',
    iform ''VFMSUB231SS_XMMf32_MASKmskw_XMMf32_XMMf32_AVX512'' ''a30a994d131086dcaa147a033917ea109'',
    iform ''VFMSUBADD132PD_XMMdq_XMMdq_MEMdq'' ''adec8ea77d9367f2f9a651badc9837a4e'',
    iform ''VFMSUBADD132PD_XMMdq_XMMdq_XMMdq'' ''a00e1250cf69331354eaf64f718c1347d'',
    iform ''VFMSUBADD132PD_XMMf64_MASKmskw_XMMf64_MEMf64_AVX512'' ''afdcae2fbec582fa3300e3d6e24aa3353'',
    iform ''VFMSUBADD132PD_XMMf64_MASKmskw_XMMf64_XMMf64_AVX512'' ''a7225c63bfa0c8dd0e42419539118ef78'',
    iform ''VFMSUBADD132PD_YMMf64_MASKmskw_YMMf64_MEMf64_AVX512'' ''ac91888d615f46449550852fa1ee7a885'',
    iform ''VFMSUBADD132PD_YMMf64_MASKmskw_YMMf64_YMMf64_AVX512'' ''afdfa3e3b18143231c1fdc7204973b13e'',
    iform ''VFMSUBADD132PD_YMMqq_YMMqq_MEMqq'' ''a488f5a52d0c1ae5049c5cef8272042ca'',
    iform ''VFMSUBADD132PD_YMMqq_YMMqq_YMMqq'' ''a048696485485c5e0dd8152203d1d8320'',
    iform ''VFMSUBADD132PD_ZMMf64_MASKmskw_ZMMf64_MEMf64_AVX512'' ''a07ff1ae891b164153311b0218df51b88'',
    iform ''VFMSUBADD132PD_ZMMf64_MASKmskw_ZMMf64_ZMMf64_AVX512'' ''acf944741c2ed7e6e9c651eb2dd33ecd6'',
    iform ''VFMSUBADD132PS_XMMdq_XMMdq_MEMdq'' ''a8e5c59ac9b4f0d21927d55374fe15e5f'',
    iform ''VFMSUBADD132PS_XMMdq_XMMdq_XMMdq'' ''a8772a3a9cf40404834ef4548a06ead9f'',
    iform ''VFMSUBADD132PS_XMMf32_MASKmskw_XMMf32_MEMf32_AVX512'' ''af2aa3cf6d366eb87d9498d94ba6f9123'',
    iform ''VFMSUBADD132PS_XMMf32_MASKmskw_XMMf32_XMMf32_AVX512'' ''a1ab8faee3b0fd6bdef1d30949f761933'',
    iform ''VFMSUBADD132PS_YMMf32_MASKmskw_YMMf32_MEMf32_AVX512'' ''a2a1876828722631bf6855daf50e071e2'',
    iform ''VFMSUBADD132PS_YMMf32_MASKmskw_YMMf32_YMMf32_AVX512'' ''ae55f69ca58781667b735ee23c3645f1e'',
    iform ''VFMSUBADD132PS_YMMqq_YMMqq_MEMqq'' ''a3ba60bd56a7df1288009f8ee6b05f35e'',
    iform ''VFMSUBADD132PS_YMMqq_YMMqq_YMMqq'' ''aef7490caf3de057f4acf73a57bbf8d03'',
    iform ''VFMSUBADD132PS_ZMMf32_MASKmskw_ZMMf32_MEMf32_AVX512'' ''a3675a10c8b0fe4d143b24e20c0e269a2'',
    iform ''VFMSUBADD132PS_ZMMf32_MASKmskw_ZMMf32_ZMMf32_AVX512'' ''afbafe8b423235c947cd8d83fef1e94d8'',
    iform ''VFMSUBADD213PD_XMMdq_XMMdq_MEMdq'' ''ae031f255b626c72eb0efb9e77297607c'',
    iform ''VFMSUBADD213PD_XMMdq_XMMdq_XMMdq'' ''aa0be7e68ea509072b0af02ff4e8afa4e'',
    iform ''VFMSUBADD213PD_XMMf64_MASKmskw_XMMf64_MEMf64_AVX512'' ''a60592c322be406c59c79987e63b638b4'',
    iform ''VFMSUBADD213PD_XMMf64_MASKmskw_XMMf64_XMMf64_AVX512'' ''a6f4d16253bde929cb042e029bba62936'',
    iform ''VFMSUBADD213PD_YMMf64_MASKmskw_YMMf64_MEMf64_AVX512'' ''a85bdefb66e431f3306150b706f3e182b'',
    iform ''VFMSUBADD213PD_YMMf64_MASKmskw_YMMf64_YMMf64_AVX512'' ''a90291e2153d4ba1cebff93bce9df3ca3'',
    iform ''VFMSUBADD213PD_YMMqq_YMMqq_MEMqq'' ''a34f20d9081d682b2d6100a47b881c50d'',
    iform ''VFMSUBADD213PD_YMMqq_YMMqq_YMMqq'' ''a370f36d7cc62a42317bc4026de574427'',
    iform ''VFMSUBADD213PD_ZMMf64_MASKmskw_ZMMf64_MEMf64_AVX512'' ''adf132c9d7550ce2f963f306535a49a70'',
    iform ''VFMSUBADD213PD_ZMMf64_MASKmskw_ZMMf64_ZMMf64_AVX512'' ''a9770a4f381eae05dd79848461b58a6f6'',
    iform ''VFMSUBADD213PS_XMMdq_XMMdq_MEMdq'' ''a3bbaab460e69eb19bdd93c2eb7d1f4a9'',
    iform ''VFMSUBADD213PS_XMMdq_XMMdq_XMMdq'' ''abdc19955ccdc8d796b29feb947df5066'',
    iform ''VFMSUBADD213PS_XMMf32_MASKmskw_XMMf32_MEMf32_AVX512'' ''ae9a9c24c5b9f79944714b4f5143ecc31'',
    iform ''VFMSUBADD213PS_XMMf32_MASKmskw_XMMf32_XMMf32_AVX512'' ''a1ba225adecb2972dbd251131fdb48932'',
    iform ''VFMSUBADD213PS_YMMf32_MASKmskw_YMMf32_MEMf32_AVX512'' ''ae54556824f55603ad15c674740299c62'',
    iform ''VFMSUBADD213PS_YMMf32_MASKmskw_YMMf32_YMMf32_AVX512'' ''aaabaa53a2bca5b3999da25ec54080c25'',
    iform ''VFMSUBADD213PS_YMMqq_YMMqq_MEMqq'' ''ac4ec4dc13e1185bc3e8335ba02c90b08'',
    iform ''VFMSUBADD213PS_YMMqq_YMMqq_YMMqq'' ''aaf55bf50b31a392c5cfcf0ed86808608'',
    iform ''VFMSUBADD213PS_ZMMf32_MASKmskw_ZMMf32_MEMf32_AVX512'' ''aa6787be3a09aca677bc5f54ec51a7a90'',
    iform ''VFMSUBADD213PS_ZMMf32_MASKmskw_ZMMf32_ZMMf32_AVX512'' ''a7c9c1cc6260b2a254db396be7a596d73'',
    iform ''VFMSUBADD231PD_XMMdq_XMMdq_MEMdq'' ''ae6b6981760a78578fdfe19482ae1fc5b'',
    iform ''VFMSUBADD231PD_XMMdq_XMMdq_XMMdq'' ''a4c76cf7838c4cf3aaf152af419e8a484'',
    iform ''VFMSUBADD231PD_XMMf64_MASKmskw_XMMf64_MEMf64_AVX512'' ''a1b49a69e8fc2b6144dccb842f47a2202'',
    iform ''VFMSUBADD231PD_XMMf64_MASKmskw_XMMf64_XMMf64_AVX512'' ''aa31f587d450d2f89230abd0630c929f7'',
    iform ''VFMSUBADD231PD_YMMf64_MASKmskw_YMMf64_MEMf64_AVX512'' ''afe7e3542095a9c6d1f434bb6b432221a'',
    iform ''VFMSUBADD231PD_YMMf64_MASKmskw_YMMf64_YMMf64_AVX512'' ''a847a7cc632283ad01e743dc7713d4b95'',
    iform ''VFMSUBADD231PD_YMMqq_YMMqq_MEMqq'' ''a838781f206bcc155db3f50750dd4983f'',
    iform ''VFMSUBADD231PD_YMMqq_YMMqq_YMMqq'' ''aa2ddfe246b98d53ec6865b29aaf7c801'',
    iform ''VFMSUBADD231PD_ZMMf64_MASKmskw_ZMMf64_MEMf64_AVX512'' ''a7b56cadbda97b897bdd2787ad642f233'',
    iform ''VFMSUBADD231PD_ZMMf64_MASKmskw_ZMMf64_ZMMf64_AVX512'' ''af99e0c1b63d862d372430a17bf1977cf'',
    iform ''VFMSUBADD231PS_XMMdq_XMMdq_MEMdq'' ''af338b3224f7fb3a7966d488f5ba44ba4'',
    iform ''VFMSUBADD231PS_XMMdq_XMMdq_XMMdq'' ''aee18a28226f8f0c52250505bdedfbedf'',
    iform ''VFMSUBADD231PS_XMMf32_MASKmskw_XMMf32_MEMf32_AVX512'' ''acc157dbc401a3f7d646ecd48f045e286'',
    iform ''VFMSUBADD231PS_XMMf32_MASKmskw_XMMf32_XMMf32_AVX512'' ''a0a6899acf7023ae41f6153d2b9d09567'',
    iform ''VFMSUBADD231PS_YMMf32_MASKmskw_YMMf32_MEMf32_AVX512'' ''aa0eb9998061da2df7f3c3fbaa7e1dde8'',
    iform ''VFMSUBADD231PS_YMMf32_MASKmskw_YMMf32_YMMf32_AVX512'' ''a9473b0fd1753bb23108a44e7888f0ea1'',
    iform ''VFMSUBADD231PS_YMMqq_YMMqq_MEMqq'' ''a19c7eac101a2711e6da43588a1393c96'',
    iform ''VFMSUBADD231PS_YMMqq_YMMqq_YMMqq'' ''a7a803182fbfef7567ca03d2f15b592d8'',
    iform ''VFMSUBADD231PS_ZMMf32_MASKmskw_ZMMf32_MEMf32_AVX512'' ''aa18f2ba62885411a89946f35207c25b7'',
    iform ''VFMSUBADD231PS_ZMMf32_MASKmskw_ZMMf32_ZMMf32_AVX512'' ''a26a78b9488645636f3b8d760d7f174fa'',
    iform ''VFMSUBADDPD_XMMdq_XMMdq_MEMdq_XMMdq'' ''a86f41afb4b35f579c8c2e0f8f13c82de'',
    iform ''VFMSUBADDPD_XMMdq_XMMdq_XMMdq_MEMdq'' ''aa293c10687eac17fe30539c9c71f7a30'',
    iform ''VFMSUBADDPD_XMMdq_XMMdq_XMMdq_XMMdq'' ''aa7ae87bde56ffe00c5643f90ff0f6178'',
    iform ''VFMSUBADDPD_YMMqq_YMMqq_MEMqq_YMMqq'' ''aa0682d8e45a03a7b302a43ae82c95394'',
    iform ''VFMSUBADDPD_YMMqq_YMMqq_YMMqq_MEMqq'' ''a7db188a78662e7d2ed839b493346a48b'',
    iform ''VFMSUBADDPD_YMMqq_YMMqq_YMMqq_YMMqq'' ''aa797010c17d74cfddb4d24eb361e6b37'',
    iform ''VFMSUBADDPS_XMMdq_XMMdq_MEMdq_XMMdq'' ''a577de2bb0de0b482f2ffbc0aa8817c6a'',
    iform ''VFMSUBADDPS_XMMdq_XMMdq_XMMdq_MEMdq'' ''a561717c067aec6dc282630a3b30a0bdc'',
    iform ''VFMSUBADDPS_XMMdq_XMMdq_XMMdq_XMMdq'' ''afe045507e8bcd13935f68ca71535c751'',
    iform ''VFMSUBADDPS_YMMqq_YMMqq_MEMqq_YMMqq'' ''a7d9089cd53d6b066eb96db9bbc88c412'',
    iform ''VFMSUBADDPS_YMMqq_YMMqq_YMMqq_MEMqq'' ''a4e068112f64ec0797526ef39b5bb2446'',
    iform ''VFMSUBADDPS_YMMqq_YMMqq_YMMqq_YMMqq'' ''a2756bbbdad0146229b02a3ccfe10d6dd'',
    iform ''VFMSUBPD_XMMdq_XMMdq_MEMdq_XMMdq'' ''a77a9bc3a95cae18c6c380e4b8e80d0f9'',
    iform ''VFMSUBPD_XMMdq_XMMdq_XMMdq_MEMdq'' ''aa75d233a0c57fba631cae1f699aac8d2'',
    iform ''VFMSUBPD_XMMdq_XMMdq_XMMdq_XMMdq'' ''af6ccd311dff6d6ce181d12c78b38ad25'',
    iform ''VFMSUBPD_YMMqq_YMMqq_MEMqq_YMMqq'' ''a8b400ad204c8bf7b6bd70371455be07a'',
    iform ''VFMSUBPD_YMMqq_YMMqq_YMMqq_MEMqq'' ''aa677bc03803c9285ff062ae734f05f6d'',
    iform ''VFMSUBPD_YMMqq_YMMqq_YMMqq_YMMqq'' ''a659e2d21bb218a9fd0719f2c95e2bbda'',
    iform ''VFMSUBPS_XMMdq_XMMdq_MEMdq_XMMdq'' ''a0051a807d42fd98472b8599987c945de'',
    iform ''VFMSUBPS_XMMdq_XMMdq_XMMdq_MEMdq'' ''afb85a25218da582931843348d63fd5e7'',
    iform ''VFMSUBPS_XMMdq_XMMdq_XMMdq_XMMdq'' ''a816d730eaa43f6272cbc9b3a2ea0f616'',
    iform ''VFMSUBPS_YMMqq_YMMqq_MEMqq_YMMqq'' ''a0ff5f8c2d56b35a5a2aea0f118640436'',
    iform ''VFMSUBPS_YMMqq_YMMqq_YMMqq_MEMqq'' ''afa6d32694787201aebd6a110defbc723'',
    iform ''VFMSUBPS_YMMqq_YMMqq_YMMqq_YMMqq'' ''a264e648baf4e2b55ca7cb5bc8556f1a3'',
    iform ''VFMSUBSD_XMMdq_XMMdq_MEMq_XMMdq'' ''a3a08debf985a347488fc24bb8d49d184'',
    iform ''VFMSUBSD_XMMdq_XMMdq_XMMdq_MEMq'' ''ad30005013cdf3c1b1e02b1af485b5705'',
    iform ''VFMSUBSD_XMMdq_XMMdq_XMMdq_XMMq'' ''a111c38a3b3553a68f9ce6cc85d6d838d'',
    iform ''VFMSUBSD_XMMdq_XMMdq_XMMq_XMMdq'' ''af1b099a675cac057e5e8760c27c3f7aa'',
    iform ''VFMSUBSS_XMMdq_XMMdq_MEMd_XMMdq'' ''a04b78c7d8837734ad324d3b79b072e83'',
    iform ''VFMSUBSS_XMMdq_XMMdq_XMMd_XMMdq'' ''ac2eec295b426c949151c33484a5db93b'',
    iform ''VFMSUBSS_XMMdq_XMMdq_XMMdq_MEMd'' ''ab813f5fe106cefdb42ccfbb6f02e67a8'',
    iform ''VFMSUBSS_XMMdq_XMMdq_XMMdq_XMMd'' ''a4d8e6d538f9701b8a01b5696f9e54dfc'',
    iform ''VFNMADD132PD_XMMdq_XMMdq_MEMdq'' ''ae60d4254eb76d4ad7616918c312207da'',
    iform ''VFNMADD132PD_XMMdq_XMMdq_XMMdq'' ''a64f300b0b950b968a8cd03e0d11e82e0'',
    iform ''VFNMADD132PD_XMMf64_MASKmskw_XMMf64_MEMf64_AVX512'' ''ab4fd4c6a963743cdd8afea3dca9924dd'',
    iform ''VFNMADD132PD_XMMf64_MASKmskw_XMMf64_XMMf64_AVX512'' ''aaa705e8792d262694537a3ca11608a2d'',
    iform ''VFNMADD132PD_YMMf64_MASKmskw_YMMf64_MEMf64_AVX512'' ''af399ee9252fc5e7e0d35b9af4824f281'',
    iform ''VFNMADD132PD_YMMf64_MASKmskw_YMMf64_YMMf64_AVX512'' ''a375140b401a2200a636876f31bf6bd90'',
    iform ''VFNMADD132PD_YMMqq_YMMqq_MEMqq'' ''a83893d538bbb5d442f50001c5eacdd07'',
    iform ''VFNMADD132PD_YMMqq_YMMqq_YMMqq'' ''a3689ceebc4cbd8a2376324929d556081'',
    iform ''VFNMADD132PD_ZMMf64_MASKmskw_ZMMf64_MEMf64_AVX512'' ''a0ba5e09821e5fc2bf8e0d2455dff004f'',
    iform ''VFNMADD132PD_ZMMf64_MASKmskw_ZMMf64_ZMMf64_AVX512'' ''a86cbc60b7bb238b0738f2e533958bc35'',
    iform ''VFNMADD132PS_XMMdq_XMMdq_MEMdq'' ''a6289222454116a8d703de1742eec4406'',
    iform ''VFNMADD132PS_XMMdq_XMMdq_XMMdq'' ''a7d59cd8b8867ebe4c12236be1b8779ef'',
    iform ''VFNMADD132PS_XMMf32_MASKmskw_XMMf32_MEMf32_AVX512'' ''a8fc93c89dbea0da975140647a4c88f72'',
    iform ''VFNMADD132PS_XMMf32_MASKmskw_XMMf32_XMMf32_AVX512'' ''ac2a285c71bed5a5f4ede3cc89ee75f8f'',
    iform ''VFNMADD132PS_YMMf32_MASKmskw_YMMf32_MEMf32_AVX512'' ''ae3b186c4bad759f5c171add0312e2ced'',
    iform ''VFNMADD132PS_YMMf32_MASKmskw_YMMf32_YMMf32_AVX512'' ''a0b5f5d9399101509b2f9990e7f69329f'',
    iform ''VFNMADD132PS_YMMqq_YMMqq_MEMqq'' ''a3313a07f26659f2c21b95c8cb3a580d4'',
    iform ''VFNMADD132PS_YMMqq_YMMqq_YMMqq'' ''af4a81a34e9ee75653dc7a38ccd516245'',
    iform ''VFNMADD132PS_ZMMf32_MASKmskw_ZMMf32_MEMf32_AVX512'' ''a8525e157ac4578988abc2a6a4168ac54'',
    iform ''VFNMADD132PS_ZMMf32_MASKmskw_ZMMf32_ZMMf32_AVX512'' ''afa784ba5504fac5c98176434159b161a'',
    iform ''VFNMADD132SD_XMMdq_XMMq_MEMq'' ''a619f6a7f59d0ca4e2c94c861e9487e8b'',
    iform ''VFNMADD132SD_XMMdq_XMMq_XMMq'' ''a0e28818e53899ffe283c988e239b5f73'',
    iform ''VFNMADD132SD_XMMf64_MASKmskw_XMMf64_MEMf64_AVX512'' ''af1b251b1fd021359e28424315171011f'',
    iform ''VFNMADD132SD_XMMf64_MASKmskw_XMMf64_XMMf64_AVX512'' ''a4be98e15fe6b088c37e202cada547589'',
    iform ''VFNMADD132SS_XMMdq_XMMd_MEMd'' ''a21cbc3eb5fbb83e1801c2687e5a0381c'',
    iform ''VFNMADD132SS_XMMdq_XMMd_XMMd'' ''ae269d47de478388350e1c93cc0ac3f0d'',
    iform ''VFNMADD132SS_XMMf32_MASKmskw_XMMf32_MEMf32_AVX512'' ''a069849cef921beba2a66690ed922e389'']"

lemma xed_iform_enum_8h_values_20_closed: "list_all (closed_node scripts) xed_iform_enum_8h_values_20"
  by (simp only: xed_iform_enum_8h_values_20_def closed_rules iform_closed)

definition xed_iform_enum_8h_values_21 :: "nav_node list" where
  "xed_iform_enum_8h_values_21 = [
    iform ''VFNMADD132SS_XMMf32_MASKmskw_XMMf32_XMMf32_AVX512'' ''a200bff5085dcfaef4585dc9777a349b9'',
    iform ''VFNMADD213PD_XMMdq_XMMdq_MEMdq'' ''a21f8caa163d807094054fd68fd0f3ecd'',
    iform ''VFNMADD213PD_XMMdq_XMMdq_XMMdq'' ''abc498a88d4b7535ada8d8c134b764a1f'',
    iform ''VFNMADD213PD_XMMf64_MASKmskw_XMMf64_MEMf64_AVX512'' ''a222716d7d431a6e35f3f0c3319369bd3'',
    iform ''VFNMADD213PD_XMMf64_MASKmskw_XMMf64_XMMf64_AVX512'' ''a7613b176d5dfdbb79ffc072dcadfc920'',
    iform ''VFNMADD213PD_YMMf64_MASKmskw_YMMf64_MEMf64_AVX512'' ''a80c4c2c29896497fea5894c2b038da99'',
    iform ''VFNMADD213PD_YMMf64_MASKmskw_YMMf64_YMMf64_AVX512'' ''a950690e90ffcfbc88a2c172fecb72ab7'',
    iform ''VFNMADD213PD_YMMqq_YMMqq_MEMqq'' ''a4361069e3d560e6932c169ff5d454533'',
    iform ''VFNMADD213PD_YMMqq_YMMqq_YMMqq'' ''a15da2f48bb2450d24a392ba3cc99dadb'',
    iform ''VFNMADD213PD_ZMMf64_MASKmskw_ZMMf64_MEMf64_AVX512'' ''aa4e1c3085e7fe6c36b35d1322769d900'',
    iform ''VFNMADD213PD_ZMMf64_MASKmskw_ZMMf64_ZMMf64_AVX512'' ''af14199bbf631311a75caa338bfe56b0c'',
    iform ''VFNMADD213PS_XMMdq_XMMdq_MEMdq'' ''aab039ccc1a8b7dbcc77b8d8b75a643ab'',
    iform ''VFNMADD213PS_XMMdq_XMMdq_XMMdq'' ''aac2847c5ccaac6de51bea81de41f2a78'',
    iform ''VFNMADD213PS_XMMf32_MASKmskw_XMMf32_MEMf32_AVX512'' ''a5238dfc787050e627261b527298c8062'',
    iform ''VFNMADD213PS_XMMf32_MASKmskw_XMMf32_XMMf32_AVX512'' ''a4e7d3d519424f07868daf48b89560ebb'',
    iform ''VFNMADD213PS_YMMf32_MASKmskw_YMMf32_MEMf32_AVX512'' ''a405c06bf7bb9e42a9f1a6d9f9f2f162f'',
    iform ''VFNMADD213PS_YMMf32_MASKmskw_YMMf32_YMMf32_AVX512'' ''a970e7eb27371c3d30e53fb6f568c8fe9'',
    iform ''VFNMADD213PS_YMMqq_YMMqq_MEMqq'' ''a5ab3ab0223148399b1fbee7013f6790b'',
    iform ''VFNMADD213PS_YMMqq_YMMqq_YMMqq'' ''a15aaa81b2a3cd12803f5066ea92db10e'',
    iform ''VFNMADD213PS_ZMMf32_MASKmskw_ZMMf32_MEMf32_AVX512'' ''a83bb7e882e5edae98178a55de2d30727'',
    iform ''VFNMADD213PS_ZMMf32_MASKmskw_ZMMf32_ZMMf32_AVX512'' ''a383484740d91d329b89c60921c3b930b'',
    iform ''VFNMADD213SD_XMMdq_XMMq_MEMq'' ''a473cb9cfbfcf599f82d21be4ed56906f'',
    iform ''VFNMADD213SD_XMMdq_XMMq_XMMq'' ''ad790e2da97a31ba9466342f0ae293821'',
    iform ''VFNMADD213SD_XMMf64_MASKmskw_XMMf64_MEMf64_AVX512'' ''af5c068f5ca53f75188835dca33f5a9a7'',
    iform ''VFNMADD213SD_XMMf64_MASKmskw_XMMf64_XMMf64_AVX512'' ''a5a71fe796139ff26ab80e27f5aee2fa3'',
    iform ''VFNMADD213SS_XMMdq_XMMd_MEMd'' ''a6ff4dd2d21f61083425aeb8e68340fe3'',
    iform ''VFNMADD213SS_XMMdq_XMMd_XMMd'' ''a40855635c9f168881ac8d52345bd0b34'',
    iform ''VFNMADD213SS_XMMf32_MASKmskw_XMMf32_MEMf32_AVX512'' ''a897253239267d170ab8f6fe23ebaa97e'',
    iform ''VFNMADD213SS_XMMf32_MASKmskw_XMMf32_XMMf32_AVX512'' ''ae18ae4436810b0301c0e75d06af30944'',
    iform ''VFNMADD231PD_XMMdq_XMMdq_MEMdq'' ''a3fb3d98ed1db0b89474f8b60865c1b4e'',
    iform ''VFNMADD231PD_XMMdq_XMMdq_XMMdq'' ''a146243b23e83b81e4a574e507261dcbe'',
    iform ''VFNMADD231PD_XMMf64_MASKmskw_XMMf64_MEMf64_AVX512'' ''a30ea8507ed191f79654fd82929f7e8a1'',
    iform ''VFNMADD231PD_XMMf64_MASKmskw_XMMf64_XMMf64_AVX512'' ''a26ed08c4062724b26abc9e3cc9cc65a9'',
    iform ''VFNMADD231PD_YMMf64_MASKmskw_YMMf64_MEMf64_AVX512'' ''a9e960dfede177bcaec03fa89e4b80f06'',
    iform ''VFNMADD231PD_YMMf64_MASKmskw_YMMf64_YMMf64_AVX512'' ''a8c3929ef163bb586eec548817380ccc7'',
    iform ''VFNMADD231PD_YMMqq_YMMqq_MEMqq'' ''a10c763de713c3a0e775f7ac4caaf404c'',
    iform ''VFNMADD231PD_YMMqq_YMMqq_YMMqq'' ''a1b26d9fbfe12ab4b8f4deef6c667a521'',
    iform ''VFNMADD231PD_ZMMf64_MASKmskw_ZMMf64_MEMf64_AVX512'' ''a5f7c560ea7f2a692db708ff08bf505b4'',
    iform ''VFNMADD231PD_ZMMf64_MASKmskw_ZMMf64_ZMMf64_AVX512'' ''a46a78b87f06ee1b9a5cbcdfef068cea3'',
    iform ''VFNMADD231PS_XMMdq_XMMdq_MEMdq'' ''a317263e04dab210efbab9e5e6366d0d6'',
    iform ''VFNMADD231PS_XMMdq_XMMdq_XMMdq'' ''a8523cad3f0178b4f4a3f6093bc58325f'',
    iform ''VFNMADD231PS_XMMf32_MASKmskw_XMMf32_MEMf32_AVX512'' ''a83d9af34dfaafd8a27b70a47b38e0cbc'',
    iform ''VFNMADD231PS_XMMf32_MASKmskw_XMMf32_XMMf32_AVX512'' ''a70e87180b8d192790e022d8b5a60fe03'',
    iform ''VFNMADD231PS_YMMf32_MASKmskw_YMMf32_MEMf32_AVX512'' ''ab1cd13ba4d20f5ac1102aae4d7d6bfd5'',
    iform ''VFNMADD231PS_YMMf32_MASKmskw_YMMf32_YMMf32_AVX512'' ''af0fa0a0caebe3c0bdfeed734c890a413'',
    iform ''VFNMADD231PS_YMMqq_YMMqq_MEMqq'' ''a3ab96ec26eb7f5598d1b8b44fbe1b625'',
    iform ''VFNMADD231PS_YMMqq_YMMqq_YMMqq'' ''a645dd41394ad51c35559430f55adda43'',
    iform ''VFNMADD231PS_ZMMf32_MASKmskw_ZMMf32_MEMf32_AVX512'' ''a3b83ac9f6ffc0210fefb99ca5dab4550'',
    iform ''VFNMADD231PS_ZMMf32_MASKmskw_ZMMf32_ZMMf32_AVX512'' ''a3199d74bf209d972ab16f1f705dd6fcf'',
    iform ''VFNMADD231SD_XMMdq_XMMq_MEMq'' ''a6f1cf4bc9731c571869c725324a2027f'',
    iform ''VFNMADD231SD_XMMdq_XMMq_XMMq'' ''ab63ebb1416a58d19b948caa5d27ab2df'',
    iform ''VFNMADD231SD_XMMf64_MASKmskw_XMMf64_MEMf64_AVX512'' ''a73dd0e0b3cfe902e6b660defcee1676c'',
    iform ''VFNMADD231SD_XMMf64_MASKmskw_XMMf64_XMMf64_AVX512'' ''ad3aeb138fa3f7a623578c7c0bbd3798c'',
    iform ''VFNMADD231SS_XMMdq_XMMd_MEMd'' ''aef50035ee07a00787e158b846a119caa'',
    iform ''VFNMADD231SS_XMMdq_XMMd_XMMd'' ''a77a8eb302e7a32feb85380e62050f4b1'',
    iform ''VFNMADD231SS_XMMf32_MASKmskw_XMMf32_MEMf32_AVX512'' ''a1def2a1175c67b7c111c44538207ad0f'',
    iform ''VFNMADD231SS_XMMf32_MASKmskw_XMMf32_XMMf32_AVX512'' ''a9263e929285be4ca8ebf1d6b084e24e2'',
    iform ''VFNMADDPD_XMMdq_XMMdq_MEMdq_XMMdq'' ''a49f392711eb266bbb48bfd86e33a7e5e'',
    iform ''VFNMADDPD_XMMdq_XMMdq_XMMdq_MEMdq'' ''a44a3c053db469ffc5e734d991fe07fea'',
    iform ''VFNMADDPD_XMMdq_XMMdq_XMMdq_XMMdq'' ''af71d28491b81fcb6a15377dba58118e9'',
    iform ''VFNMADDPD_YMMqq_YMMqq_MEMqq_YMMqq'' ''aff129eaa17b0d40e002f36ca74cb5efe'',
    iform ''VFNMADDPD_YMMqq_YMMqq_YMMqq_MEMqq'' ''a1584d57b426882a4f18422bda39d4d18'',
    iform ''VFNMADDPD_YMMqq_YMMqq_YMMqq_YMMqq'' ''ae12cd5949ec424ca9f3ae8e169b5047f'',
    iform ''VFNMADDPS_XMMdq_XMMdq_MEMdq_XMMdq'' ''a51912e829b13f79094df9a69f30f0236'',
    iform ''VFNMADDPS_XMMdq_XMMdq_XMMdq_MEMdq'' ''a49ed561c62742d15c6e2dc2474803e12'',
    iform ''VFNMADDPS_XMMdq_XMMdq_XMMdq_XMMdq'' ''a6f535ca12f0562a42495f82cb84ca14f'',
    iform ''VFNMADDPS_YMMqq_YMMqq_MEMqq_YMMqq'' ''a3999fc903d8923364ebc016482ddcc52'',
    iform ''VFNMADDPS_YMMqq_YMMqq_YMMqq_MEMqq'' ''af399be2fffb270a2bd49dd44a8d9b521'',
    iform ''VFNMADDPS_YMMqq_YMMqq_YMMqq_YMMqq'' ''a5e25c6dfaf4d8631a371fd2b136c344d'',
    iform ''VFNMADDSD_XMMdq_XMMdq_MEMq_XMMdq'' ''a2507397b47ce0970e178d9b77a2ec7e5'',
    iform ''VFNMADDSD_XMMdq_XMMdq_XMMdq_MEMq'' ''a23f88650b0a175ed1058919c2f2f6bef'',
    iform ''VFNMADDSD_XMMdq_XMMdq_XMMdq_XMMq'' ''abf4cb79a06cc0675218ecc3657e6be47'',
    iform ''VFNMADDSD_XMMdq_XMMdq_XMMq_XMMdq'' ''ab987ff81706f350c3c6897cde3dd758e'',
    iform ''VFNMADDSS_XMMdq_XMMdq_MEMd_XMMdq'' ''a45425bed8599f795543c4d9318a520c5'',
    iform ''VFNMADDSS_XMMdq_XMMdq_XMMd_XMMdq'' ''acd5e57e96a16a33120760d210eec94e2'',
    iform ''VFNMADDSS_XMMdq_XMMdq_XMMdq_MEMd'' ''a6d46882f61a7fde1ca9c8f693cfa1128'',
    iform ''VFNMADDSS_XMMdq_XMMdq_XMMdq_XMMd'' ''a258dd8480d08284ec483293e45ef8204'',
    iform ''VFNMSUB132PD_XMMdq_XMMdq_MEMdq'' ''a27af730d0db240905937e948a062b9bf'',
    iform ''VFNMSUB132PD_XMMdq_XMMdq_XMMdq'' ''a0d1af86a0dd977addd7edc85efe071f8'',
    iform ''VFNMSUB132PD_XMMf64_MASKmskw_XMMf64_MEMf64_AVX512'' ''a370f94923a61394e9be6e7500f7793df'',
    iform ''VFNMSUB132PD_XMMf64_MASKmskw_XMMf64_XMMf64_AVX512'' ''a5bf2b862a83e9e23d8cd1d9f49ee5fd6'',
    iform ''VFNMSUB132PD_YMMf64_MASKmskw_YMMf64_MEMf64_AVX512'' ''ad97ab11c98f59c00afde032c1aec9419'',
    iform ''VFNMSUB132PD_YMMf64_MASKmskw_YMMf64_YMMf64_AVX512'' ''a9ad13c66a37b515a9fc6373b42a04f59'',
    iform ''VFNMSUB132PD_YMMqq_YMMqq_MEMqq'' ''a8e9d4e10377dab937ff15e8ea3fa9ea8'',
    iform ''VFNMSUB132PD_YMMqq_YMMqq_YMMqq'' ''a412ce1544a3f76917b608f8c98c81826'',
    iform ''VFNMSUB132PD_ZMMf64_MASKmskw_ZMMf64_MEMf64_AVX512'' ''a544b206eb9e61336ba0da19a8b58ef31'',
    iform ''VFNMSUB132PD_ZMMf64_MASKmskw_ZMMf64_ZMMf64_AVX512'' ''a255da0ef1991484b0b671e41b9de9f69'',
    iform ''VFNMSUB132PS_XMMdq_XMMdq_MEMdq'' ''a613dd66f34947f2dc9e9cce3199c8773'',
    iform ''VFNMSUB132PS_XMMdq_XMMdq_XMMdq'' ''aaa70b39ad6c668abcec980642878d3cd'',
    iform ''VFNMSUB132PS_XMMf32_MASKmskw_XMMf32_MEMf32_AVX512'' ''a29de86e59c772820d07f96e9c6b0bf64'',
    iform ''VFNMSUB132PS_XMMf32_MASKmskw_XMMf32_XMMf32_AVX512'' ''ab16777014af2b734de9e88b4487566a5'',
    iform ''VFNMSUB132PS_YMMf32_MASKmskw_YMMf32_MEMf32_AVX512'' ''a08f6de98f7019d309501e0854b389603'',
    iform ''VFNMSUB132PS_YMMf32_MASKmskw_YMMf32_YMMf32_AVX512'' ''a20d93ecb77d378d7fda1ab3dc5858e0b'',
    iform ''VFNMSUB132PS_YMMqq_YMMqq_MEMqq'' ''a37fb37bb41c2a2f8b81ace56f05857a5'',
    iform ''VFNMSUB132PS_YMMqq_YMMqq_YMMqq'' ''a8170cc28688d989f60eb503cba844a2c'',
    iform ''VFNMSUB132PS_ZMMf32_MASKmskw_ZMMf32_MEMf32_AVX512'' ''a25591f860b0cf546ea5fb9307e6d5670'',
    iform ''VFNMSUB132PS_ZMMf32_MASKmskw_ZMMf32_ZMMf32_AVX512'' ''aa0a81c71f668d0f0809807816b6fee0d'',
    iform ''VFNMSUB132SD_XMMdq_XMMq_MEMq'' ''ae72f1c80f801abf40d479f98e9fd4529'',
    iform ''VFNMSUB132SD_XMMdq_XMMq_XMMq'' ''ad41e745b86489e96d9a3620c6f611e94'',
    iform ''VFNMSUB132SD_XMMf64_MASKmskw_XMMf64_MEMf64_AVX512'' ''ab659054bf0e1e4c81c4aad55404d27b4'',
    iform ''VFNMSUB132SD_XMMf64_MASKmskw_XMMf64_XMMf64_AVX512'' ''a10534894724f36d608b14f6e0bacd0cb'',
    iform ''VFNMSUB132SS_XMMdq_XMMd_MEMd'' ''a954ddcd2ac040f7175de6187fdb4c89c'',
    iform ''VFNMSUB132SS_XMMdq_XMMd_XMMd'' ''acef90c3f518d86393b61fba9ad38b8c3'',
    iform ''VFNMSUB132SS_XMMf32_MASKmskw_XMMf32_MEMf32_AVX512'' ''a9780cda5be26249db57a04e6cddd9743'',
    iform ''VFNMSUB132SS_XMMf32_MASKmskw_XMMf32_XMMf32_AVX512'' ''af2faa594cf67c4c437fb2aaef844a717'',
    iform ''VFNMSUB213PD_XMMdq_XMMdq_MEMdq'' ''a60c01be3a9ed61be72c743f51a04fae0'',
    iform ''VFNMSUB213PD_XMMdq_XMMdq_XMMdq'' ''a79b7cf000c1abba500be533ec2945059'',
    iform ''VFNMSUB213PD_XMMf64_MASKmskw_XMMf64_MEMf64_AVX512'' ''aecbef3ddd6b5041e4db120127a1cae07'',
    iform ''VFNMSUB213PD_XMMf64_MASKmskw_XMMf64_XMMf64_AVX512'' ''aab4839457217d09d50b2c3f4f1a6260a'',
    iform ''VFNMSUB213PD_YMMf64_MASKmskw_YMMf64_MEMf64_AVX512'' ''a13dcefe8b2cd0cad1abd58135e27f514'',
    iform ''VFNMSUB213PD_YMMf64_MASKmskw_YMMf64_YMMf64_AVX512'' ''a00f16863388d653e05ec46c105f2f982'',
    iform ''VFNMSUB213PD_YMMqq_YMMqq_MEMqq'' ''a8620085304e6d63a12a5abb70d8713b3'',
    iform ''VFNMSUB213PD_YMMqq_YMMqq_YMMqq'' ''ab0c282c86b4725555e296abaf1ef3965'',
    iform ''VFNMSUB213PD_ZMMf64_MASKmskw_ZMMf64_MEMf64_AVX512'' ''a947812e9aaa3f75e902dae5ed69499c4'',
    iform ''VFNMSUB213PD_ZMMf64_MASKmskw_ZMMf64_ZMMf64_AVX512'' ''a41310bb2c8b5562494d200b3316a0749'',
    iform ''VFNMSUB213PS_XMMdq_XMMdq_MEMdq'' ''ab0c39c272a9241329941ab16865866d6'',
    iform ''VFNMSUB213PS_XMMdq_XMMdq_XMMdq'' ''a8edfe94a9fb323c7848e7b529ca2a53a'',
    iform ''VFNMSUB213PS_XMMf32_MASKmskw_XMMf32_MEMf32_AVX512'' ''a448f6bbddfa3b592a1b729b4c76c094b'',
    iform ''VFNMSUB213PS_XMMf32_MASKmskw_XMMf32_XMMf32_AVX512'' ''aec628f208aa165f50c0cf19620a26140'',
    iform ''VFNMSUB213PS_YMMf32_MASKmskw_YMMf32_MEMf32_AVX512'' ''a06d8cd62080b4b960423c979bf8a360a'',
    iform ''VFNMSUB213PS_YMMf32_MASKmskw_YMMf32_YMMf32_AVX512'' ''ad5d69482636ad074337f7dbf6b8c14ff'',
    iform ''VFNMSUB213PS_YMMqq_YMMqq_MEMqq'' ''ac10dd1e26d76b5d765a949d7db13e1ca'',
    iform ''VFNMSUB213PS_YMMqq_YMMqq_YMMqq'' ''a989a30df1da756eea2813d5a6cd9926d'',
    iform ''VFNMSUB213PS_ZMMf32_MASKmskw_ZMMf32_MEMf32_AVX512'' ''aa44a15b615b3dbe85c9cb7456f46a6d9'',
    iform ''VFNMSUB213PS_ZMMf32_MASKmskw_ZMMf32_ZMMf32_AVX512'' ''acc20da17e46e2d4eaa38ab46aa9585e3'',
    iform ''VFNMSUB213SD_XMMdq_XMMq_MEMq'' ''aea46f1704f7e75686da6cf200f168eb3'',
    iform ''VFNMSUB213SD_XMMdq_XMMq_XMMq'' ''ac792e78615b3fdcf320bcddb81135562'',
    iform ''VFNMSUB213SD_XMMf64_MASKmskw_XMMf64_MEMf64_AVX512'' ''ac93d6d5ae242205413f836812b495979'',
    iform ''VFNMSUB213SD_XMMf64_MASKmskw_XMMf64_XMMf64_AVX512'' ''a5df6d86ce76d4049e35bc11a70b227e0'',
    iform ''VFNMSUB213SS_XMMdq_XMMd_MEMd'' ''af6517e40512478675a16c65ca7d250fc'',
    iform ''VFNMSUB213SS_XMMdq_XMMd_XMMd'' ''a643f089f77c831815212dd23b7be0b22'',
    iform ''VFNMSUB213SS_XMMf32_MASKmskw_XMMf32_MEMf32_AVX512'' ''a31f66dea7dbb99fa9b8355f58af72594'',
    iform ''VFNMSUB213SS_XMMf32_MASKmskw_XMMf32_XMMf32_AVX512'' ''a4be937ba4b6aadd9c484f41e6fa93628'',
    iform ''VFNMSUB231PD_XMMdq_XMMdq_MEMdq'' ''a63fe883195e795917162c73da01d13ad'',
    iform ''VFNMSUB231PD_XMMdq_XMMdq_XMMdq'' ''a516613dd9c61a5db7e490c17673c6a8e'',
    iform ''VFNMSUB231PD_XMMf64_MASKmskw_XMMf64_MEMf64_AVX512'' ''a83d0d0e35eff955c21910e3363c21dcb'',
    iform ''VFNMSUB231PD_XMMf64_MASKmskw_XMMf64_XMMf64_AVX512'' ''a24352f8d4e85601b1d082a7e3006b146'',
    iform ''VFNMSUB231PD_YMMf64_MASKmskw_YMMf64_MEMf64_AVX512'' ''ab65690811794d0a3bbf1e2986939859a'',
    iform ''VFNMSUB231PD_YMMf64_MASKmskw_YMMf64_YMMf64_AVX512'' ''a1352aed3734e5d008ac3bb784a54a1fc'',
    iform ''VFNMSUB231PD_YMMqq_YMMqq_MEMqq'' ''a004ba230eb03dcad8b2d54a70b11af99'']"

lemma xed_iform_enum_8h_values_21_closed: "list_all (closed_node scripts) xed_iform_enum_8h_values_21"
  by (simp only: xed_iform_enum_8h_values_21_def closed_rules iform_closed)

definition xed_iform_enum_8h_values_22 :: "nav_node list" where
  "xed_iform_enum_8h_values_22 = [
    iform ''VFNMSUB231PD_YMMqq_YMMqq_YMMqq'' ''a8332ee08823782b8a31aed9b7d9f352a'',
    iform ''VFNMSUB231PD_ZMMf64_MASKmskw_ZMMf64_MEMf64_AVX512'' ''ac1cf3fbdc8f45c90b8b2dc78cfa8bc4d'',
    iform ''VFNMSUB231PD_ZMMf64_MASKmskw_ZMMf64_ZMMf64_AVX512'' ''ac74125f431e40717e3d5c274fbe9bd0c'',
    iform ''VFNMSUB231PS_XMMdq_XMMdq_MEMdq'' ''aaaa3911899c113f9f6497fb6aac9439d'',
    iform ''VFNMSUB231PS_XMMdq_XMMdq_XMMdq'' ''a5d591c0cc084268f25dd385dbcf7c914'',
    iform ''VFNMSUB231PS_XMMf32_MASKmskw_XMMf32_MEMf32_AVX512'' ''aa6f7767703530dc1efc12869ba71ebf1'',
    iform ''VFNMSUB231PS_XMMf32_MASKmskw_XMMf32_XMMf32_AVX512'' ''a8a8d5ec5ab3c22a19063f49bb58d5c7e'',
    iform ''VFNMSUB231PS_YMMf32_MASKmskw_YMMf32_MEMf32_AVX512'' ''a48b2f999cdc3fcc6f56de0e3ea6b24dc'',
    iform ''VFNMSUB231PS_YMMf32_MASKmskw_YMMf32_YMMf32_AVX512'' ''a601b0a175b0cf43a1bc9625a554f94d3'',
    iform ''VFNMSUB231PS_YMMqq_YMMqq_MEMqq'' ''a523a942845688192981a9140776945de'',
    iform ''VFNMSUB231PS_YMMqq_YMMqq_YMMqq'' ''a146ba007265e841924ee0025b6c4c7e7'',
    iform ''VFNMSUB231PS_ZMMf32_MASKmskw_ZMMf32_MEMf32_AVX512'' ''a816788c7c4701d0fcbae0e18afe2b952'',
    iform ''VFNMSUB231PS_ZMMf32_MASKmskw_ZMMf32_ZMMf32_AVX512'' ''a970ebb53a5b555b18250344322fd149c'',
    iform ''VFNMSUB231SD_XMMdq_XMMq_MEMq'' ''a5e190f2639d050c1ce2a5bf17766f98f'',
    iform ''VFNMSUB231SD_XMMdq_XMMq_XMMq'' ''addfaa3511f7ac49fac7fe857abbe3b96'',
    iform ''VFNMSUB231SD_XMMf64_MASKmskw_XMMf64_MEMf64_AVX512'' ''ae184c37a89f842b6617e471f6179273c'',
    iform ''VFNMSUB231SD_XMMf64_MASKmskw_XMMf64_XMMf64_AVX512'' ''af20ad0d26463411a9e74e3252a09ea1f'',
    iform ''VFNMSUB231SS_XMMdq_XMMd_MEMd'' ''ab472b5e5b69bb44d1190d66fd5afab60'',
    iform ''VFNMSUB231SS_XMMdq_XMMd_XMMd'' ''ae7da6be9f95b621f04ad38130a3ea66a'',
    iform ''VFNMSUB231SS_XMMf32_MASKmskw_XMMf32_MEMf32_AVX512'' ''a2d75372b34a3916dfa15c9db0fd761f7'',
    iform ''VFNMSUB231SS_XMMf32_MASKmskw_XMMf32_XMMf32_AVX512'' ''a956b831c3261dc735d0ae54b3548fd10'',
    iform ''VFNMSUBPD_XMMdq_XMMdq_MEMdq_XMMdq'' ''a873c093f2d548860d2e43a111ab7e71a'',
    iform ''VFNMSUBPD_XMMdq_XMMdq_XMMdq_MEMdq'' ''ab80a46f0bb5ebbec14486a1d6a5c430f'',
    iform ''VFNMSUBPD_XMMdq_XMMdq_XMMdq_XMMdq'' ''a211bc42f3ff04f971f267ad27ee157cc'',
    iform ''VFNMSUBPD_YMMqq_YMMqq_MEMqq_YMMqq'' ''aa454197e2af52b415b808eeacb857bf7'',
    iform ''VFNMSUBPD_YMMqq_YMMqq_YMMqq_MEMqq'' ''a6de8d37341c5acc5ac1dc0904fef3a60'',
    iform ''VFNMSUBPD_YMMqq_YMMqq_YMMqq_YMMqq'' ''a77dd0fd064e0fc2f12f91da2e8321909'',
    iform ''VFNMSUBPS_XMMdq_XMMdq_MEMdq_XMMdq'' ''a9a276155d6eabcaff12bef289fe521ec'',
    iform ''VFNMSUBPS_XMMdq_XMMdq_XMMdq_MEMdq'' ''a6b66ca650a467576d048a5c9f452862f'',
    iform ''VFNMSUBPS_XMMdq_XMMdq_XMMdq_XMMdq'' ''a2e9348794d59b27a9c4c3323a26d2ac2'',
    iform ''VFNMSUBPS_YMMqq_YMMqq_MEMqq_YMMqq'' ''a2d61af5c49628d175924e4171ace4066'',
    iform ''VFNMSUBPS_YMMqq_YMMqq_YMMqq_MEMqq'' ''a2c7fb0ec1ff3f7ea456f435ba4c303d9'',
    iform ''VFNMSUBPS_YMMqq_YMMqq_YMMqq_YMMqq'' ''ab93a994bc97d4ebbd0cbd9ee44eb9e4a'',
    iform ''VFNMSUBSD_XMMdq_XMMdq_MEMq_XMMdq'' ''a25b356c6e6ec109ed7852de0b3cd55a2'',
    iform ''VFNMSUBSD_XMMdq_XMMdq_XMMdq_MEMq'' ''a359177fd79f8b33f59a8f1e1f11ff312'',
    iform ''VFNMSUBSD_XMMdq_XMMdq_XMMdq_XMMq'' ''a9673cc4269dd35d7866f78442d1dc1ad'',
    iform ''VFNMSUBSD_XMMdq_XMMdq_XMMq_XMMdq'' ''ade9560c0bdab7bf6d1d9810572ac7838'',
    iform ''VFNMSUBSS_XMMdq_XMMdq_MEMd_XMMdq'' ''a9b9f9fa5ce0f58fd213a1dc9e909d71a'',
    iform ''VFNMSUBSS_XMMdq_XMMdq_XMMd_XMMdq'' ''a22bf612b60f97d7f673e3ea516891499'',
    iform ''VFNMSUBSS_XMMdq_XMMdq_XMMdq_MEMd'' ''a720089a10ee22c33dcaae39aaec70eeb'',
    iform ''VFNMSUBSS_XMMdq_XMMdq_XMMdq_XMMd'' ''af00cebaa2430b5b3391489f175cca07e'',
    iform ''VFPCLASSPD_MASKmskw_MASKmskw_MEMf64_IMM8_AVX512'' ''a63cdd27751b52af240bc9d67136b1dbc'',
    iform ''VFPCLASSPD_MASKmskw_MASKmskw_XMMf64_IMM8_AVX512'' ''aaf1f2d844cc36567b1fd5546ffeb86b2'',
    iform ''VFPCLASSPD_MASKmskw_MASKmskw_YMMf64_IMM8_AVX512'' ''ab158badff0d76c054c487c86f18697dd'',
    iform ''VFPCLASSPD_MASKmskw_MASKmskw_ZMMf64_IMM8_AVX512'' ''a19222cb6a24c7d6e1224962a1b662575'',
    iform ''VFPCLASSPS_MASKmskw_MASKmskw_MEMf32_IMM8_AVX512'' ''a0f689ac4574dd70fa2bd94ccbe824d8d'',
    iform ''VFPCLASSPS_MASKmskw_MASKmskw_XMMf32_IMM8_AVX512'' ''a61dc729adbc8422ffd15445a58bf3483'',
    iform ''VFPCLASSPS_MASKmskw_MASKmskw_YMMf32_IMM8_AVX512'' ''a8d4f77453dcd2ae824579156546801df'',
    iform ''VFPCLASSPS_MASKmskw_MASKmskw_ZMMf32_IMM8_AVX512'' ''ac34b1ba2c51b39530e66b7be71873630'',
    iform ''VFPCLASSSD_MASKmskw_MASKmskw_MEMf64_IMM8_AVX512'' ''af1a5a6a9de0e736fa0228a7ed72ef1eb'',
    iform ''VFPCLASSSD_MASKmskw_MASKmskw_XMMf64_IMM8_AVX512'' ''aec402435ce32ece37d1010920b646744'',
    iform ''VFPCLASSSS_MASKmskw_MASKmskw_MEMf32_IMM8_AVX512'' ''afeeca5f404c3ad986ba3a78acf8d0230'',
    iform ''VFPCLASSSS_MASKmskw_MASKmskw_XMMf32_IMM8_AVX512'' ''a678742689489b83f4157a246cb21f223'',
    iform ''VFRCZPD_XMMdq_MEMdq'' ''a6e68a7b98f1ab95f6d010f480afb0aa4'',
    iform ''VFRCZPD_XMMdq_XMMdq'' ''ada40550243a18dab877dcc87e8d8311a'',
    iform ''VFRCZPD_YMMqq_MEMqq'' ''af3242fcf66dbc25aa63d94bb2ab2e560'',
    iform ''VFRCZPD_YMMqq_YMMqq'' ''a22694ab3077397573e78e85763fa4840'',
    iform ''VFRCZPS_XMMdq_MEMdq'' ''a240f740510c712d9caa1cbf0ffeb96ae'',
    iform ''VFRCZPS_XMMdq_XMMdq'' ''a00b3a8a7335da4c806573efb78589ef2'',
    iform ''VFRCZPS_YMMqq_MEMqq'' ''a374e3784b0352d42587980b372a0e466'',
    iform ''VFRCZPS_YMMqq_YMMqq'' ''a8156df5927442bbdbc60b04cf7553dc0'',
    iform ''VFRCZSD_XMMdq_MEMq'' ''a1b1e797ecc55ae4614ec45994628dec2'',
    iform ''VFRCZSD_XMMdq_XMMq'' ''addda7a5edd7018574e35e3e8c7f582f8'',
    iform ''VFRCZSS_XMMdq_MEMd'' ''ac9c1a46910b4172fc4a00790c7c0ae85'',
    iform ''VFRCZSS_XMMdq_XMMd'' ''a1428dd7b567c8a8e445edeb4e6fc7c8d'',
    iform ''VGATHERDPD_XMMf64_MASKmskw_MEMf64_AVX512_VL128'' ''ad89f2ba27114a58ffd8e54c5b63c970d'',
    iform ''VGATHERDPD_XMMf64_MEMdq_XMMi64_VL128'' ''a9a87c989cec9fed29408e0fdfa62924c'',
    iform ''VGATHERDPD_YMMf64_MASKmskw_MEMf64_AVX512_VL256'' ''acd7f0dc0f40dd81a61818c4715626e3c'',
    iform ''VGATHERDPD_YMMf64_MEMqq_YMMi64_VL256'' ''a6c005056df5700ed3ffb9a2fb2ed302e'',
    iform ''VGATHERDPD_ZMMf64_MASKmskw_MEMf64_AVX512_VL512'' ''adeec87c03cd6a9337b3157795474147e'',
    iform ''VGATHERDPS_XMMf32_MASKmskw_MEMf32_AVX512_VL128'' ''adc0867a8aa961c638d3cadee6296d4d9'',
    iform ''VGATHERDPS_XMMf32_MEMdq_XMMi32_VL128'' ''a572cf8db7d0b1cf7885a240795e979c1'',
    iform ''VGATHERDPS_YMMf32_MASKmskw_MEMf32_AVX512_VL256'' ''aad239e3a9a70cb22d4f310c59d102179'',
    iform ''VGATHERDPS_YMMf32_MEMqq_YMMi32_VL256'' ''a1c95ef715f3e3a7dc48a016e73e9e82f'',
    iform ''VGATHERDPS_ZMMf32_MASKmskw_MEMf32_AVX512_VL512'' ''ab1c87f9f3eb63f8ad2295e052b82465b'',
    iform ''VGATHERPF0DPD_MEMf64_MASKmskw_AVX512PF'' ''a9ef9b5781f6a7f474f93a242b20742cc'',
    iform ''VGATHERPF0DPS_MEMf32_MASKmskw_AVX512PF'' ''a47b55f26c69c960880ffd569f9ec581b'',
    iform ''VGATHERPF0QPD_MEMf64_MASKmskw_AVX512PF'' ''a6d4d1a1c5a92649c473935f418dc2674'',
    iform ''VGATHERPF0QPS_MEMf32_MASKmskw_AVX512PF'' ''a6ddbafebefd5e3ffe387d9e2bd3a089c'',
    iform ''VGATHERPF1DPD_MEMf64_MASKmskw_AVX512PF'' ''a42a41215e645930a92f4044b23ca822f'',
    iform ''VGATHERPF1DPS_MEMf32_MASKmskw_AVX512PF'' ''af04f663c235661646d9722b2df39ba22'',
    iform ''VGATHERPF1QPD_MEMf64_MASKmskw_AVX512PF'' ''a8294c51428848aa7c6a35008570f4307'',
    iform ''VGATHERPF1QPS_MEMf32_MASKmskw_AVX512PF'' ''acb7528d804b88ab843a96842584b08bd'',
    iform ''VGATHERQPD_XMMf64_MASKmskw_MEMf64_AVX512_VL128'' ''aa626247a7a8b907c4e3fbedcfbc761c3'',
    iform ''VGATHERQPD_XMMf64_MEMdq_XMMi64_VL128'' ''a83ba98dbd3aae19790edd68969152b9c'',
    iform ''VGATHERQPD_YMMf64_MASKmskw_MEMf64_AVX512_VL256'' ''a96eaff4851d095f9cf3d8632c579d7a0'',
    iform ''VGATHERQPD_YMMf64_MEMqq_YMMi64_VL256'' ''abaffb943ae2d6cfe6ca74f493b65f9eb'',
    iform ''VGATHERQPD_ZMMf64_MASKmskw_MEMf64_AVX512_VL512'' ''a6cf65024a654a952afcd4c940e8dc3e6'',
    iform ''VGATHERQPS_XMMf32_MASKmskw_MEMf32_AVX512_VL128'' ''a8a934920f65dd0e20042f914b8eb63d0'',
    iform ''VGATHERQPS_XMMf32_MASKmskw_MEMf32_AVX512_VL256'' ''a9b4b00778144e74a293c7fbdfd7767c9'',
    iform ''VGATHERQPS_XMMf32_MEMdq_XMMi32_VL256'' ''adcfbbd451a8ef5258639ea39888d5531'',
    iform ''VGATHERQPS_XMMf32_MEMq_XMMi32_VL128'' ''aaebb17d0736dabe8c3b2bbcaee13f654'',
    iform ''VGATHERQPS_YMMf32_MASKmskw_MEMf32_AVX512_VL512'' ''a8a6ee675091d2c2c27ccd38f6680053d'',
    iform ''VGETEXPPD_XMMf64_MASKmskw_MEMf64_AVX512'' ''a81656898f1e6e7633bbab0428235bb60'',
    iform ''VGETEXPPD_XMMf64_MASKmskw_XMMf64_AVX512'' ''a4a979186e93c000f32e4bb6c7cc6af4c'',
    iform ''VGETEXPPD_YMMf64_MASKmskw_MEMf64_AVX512'' ''a16f390afe250959e5dda417c4f29f17d'',
    iform ''VGETEXPPD_YMMf64_MASKmskw_YMMf64_AVX512'' ''a058afa766078f3a7861232e57bbfc8c6'',
    iform ''VGETEXPPD_ZMMf64_MASKmskw_MEMf64_AVX512'' ''a1ca1d48b8bd5c1cf8bf84c3aeb74110e'',
    iform ''VGETEXPPD_ZMMf64_MASKmskw_ZMMf64_AVX512'' ''a9c53df21f281479d80d2ad9ecb11607e'',
    iform ''VGETEXPPS_XMMf32_MASKmskw_MEMf32_AVX512'' ''aac7f2f3206720a80e30be7bcdea0f37d'',
    iform ''VGETEXPPS_XMMf32_MASKmskw_XMMf32_AVX512'' ''a3dc4fd482f3cf0902813239724305c48'',
    iform ''VGETEXPPS_YMMf32_MASKmskw_MEMf32_AVX512'' ''a6e3fe7a20d2dac51295aa9b2382147f4'',
    iform ''VGETEXPPS_YMMf32_MASKmskw_YMMf32_AVX512'' ''ae7df76f55ab6437ed0d6bd894fad5ad5'',
    iform ''VGETEXPPS_ZMMf32_MASKmskw_MEMf32_AVX512'' ''aeec2ffb9346a09b40e6947a9fa4f6adf'',
    iform ''VGETEXPPS_ZMMf32_MASKmskw_ZMMf32_AVX512'' ''a7b22f51dfb5e2872f2df3d3c2b6225da'',
    iform ''VGETEXPSD_XMMf64_MASKmskw_XMMf64_MEMf64_AVX512'' ''a4d0acedbaab86ab85047f25d265246cb'',
    iform ''VGETEXPSD_XMMf64_MASKmskw_XMMf64_XMMf64_AVX512'' ''ac8d825b0217c93596678a52d4cc70b40'',
    iform ''VGETEXPSS_XMMf32_MASKmskw_XMMf32_MEMf32_AVX512'' ''a25d9b981f74f05fccbec5d21fcb3e24d'',
    iform ''VGETEXPSS_XMMf32_MASKmskw_XMMf32_XMMf32_AVX512'' ''af5d5f7e16528763ba3a7d91e5d5a4db9'',
    iform ''VGETMANTPD_XMMf64_MASKmskw_MEMf64_IMM8_AVX512'' ''a295801386a25c06ed3495a0e7e09cc1d'',
    iform ''VGETMANTPD_XMMf64_MASKmskw_XMMf64_IMM8_AVX512'' ''ada69b278bd60c2edf8cf4a00db53c3cd'',
    iform ''VGETMANTPD_YMMf64_MASKmskw_MEMf64_IMM8_AVX512'' ''a344301eb85efb4735590d37000e28ccd'',
    iform ''VGETMANTPD_YMMf64_MASKmskw_YMMf64_IMM8_AVX512'' ''a5aa1f79753dcf4cff2644881d746b7a7'',
    iform ''VGETMANTPD_ZMMf64_MASKmskw_MEMf64_IMM8_AVX512'' ''ae39aa95017e65e0553a8f899a82f410b'',
    iform ''VGETMANTPD_ZMMf64_MASKmskw_ZMMf64_IMM8_AVX512'' ''a68d3348476cb95dabc810be34f40f1ba'',
    iform ''VGETMANTPS_XMMf32_MASKmskw_MEMf32_IMM8_AVX512'' ''a8f9417953232f62610641cbf4b1c1283'',
    iform ''VGETMANTPS_XMMf32_MASKmskw_XMMf32_IMM8_AVX512'' ''aec05920e41981ec884103ddcc875aafb'',
    iform ''VGETMANTPS_YMMf32_MASKmskw_MEMf32_IMM8_AVX512'' ''a362a5cde4d84a61f711389286035f9f2'',
    iform ''VGETMANTPS_YMMf32_MASKmskw_YMMf32_IMM8_AVX512'' ''a2081efc84463e0b123090fb3fc9895cb'',
    iform ''VGETMANTPS_ZMMf32_MASKmskw_MEMf32_IMM8_AVX512'' ''a860207a2623be0ddc88bd7de301be259'',
    iform ''VGETMANTPS_ZMMf32_MASKmskw_ZMMf32_IMM8_AVX512'' ''a95bc2a6695eeae859883f27af4dba668'',
    iform ''VGETMANTSD_XMMf64_MASKmskw_XMMf64_MEMf64_IMM8_AVX512'' ''a9361a1f2c770b84f478cba55f164e84a'',
    iform ''VGETMANTSD_XMMf64_MASKmskw_XMMf64_XMMf64_IMM8_AVX512'' ''af9ea94e259307750a12779b693d1f799'',
    iform ''VGETMANTSS_XMMf32_MASKmskw_XMMf32_MEMf32_IMM8_AVX512'' ''afedd219a11e079c514bfaaba7cf3f684'',
    iform ''VGETMANTSS_XMMf32_MASKmskw_XMMf32_XMMf32_IMM8_AVX512'' ''af3e598a2356f743b873d902d6340d4bb'',
    iform ''VHADDPD_XMMdq_XMMdq_MEMdq'' ''a2fa7994e116fabbb75b0706da6918aa3'',
    iform ''VHADDPD_XMMdq_XMMdq_XMMdq'' ''a69511508e528e61626972003501c5092'',
    iform ''VHADDPD_YMMqq_YMMqq_MEMqq'' ''a29975b3198f8e9cc234fc0680c309372'',
    iform ''VHADDPD_YMMqq_YMMqq_YMMqq'' ''a56008eb322e506918e16718556d8eefa'',
    iform ''VHADDPS_XMMdq_XMMdq_MEMdq'' ''a23b01b0d965506f1dc16fc882e399c65'',
    iform ''VHADDPS_XMMdq_XMMdq_XMMdq'' ''a568f79c74314bedbd358109f770ee5c5'',
    iform ''VHADDPS_YMMqq_YMMqq_MEMqq'' ''aee12c1e8b1c4c286d60e1234eabac23b'',
    iform ''VHADDPS_YMMqq_YMMqq_YMMqq'' ''ae569096a3124d49d5bef611512740433'',
    iform ''VHSUBPD_XMMdq_XMMdq_MEMdq'' ''aed474a5d90c18a8eac7148c8bd2689dd'',
    iform ''VHSUBPD_XMMdq_XMMdq_XMMdq'' ''ac38530aeef276f4e916d93fedfc70379'',
    iform ''VHSUBPD_YMMqq_YMMqq_MEMqq'' ''a1a388cebcebe8a8cbb9c573a008eef9a'',
    iform ''VHSUBPD_YMMqq_YMMqq_YMMqq'' ''aef822f1b5ef9f9327ff8aef5dcdcbba6'',
    iform ''VHSUBPS_XMMdq_XMMdq_MEMdq'' ''a421d392f32b4bfbaffbffc526605f8e8'',
    iform ''VHSUBPS_XMMdq_XMMdq_XMMdq'' ''adb4910892eebbb0dda675fae17aaf579'',
    iform ''VHSUBPS_YMMqq_YMMqq_MEMqq'' ''aa85ad85bb95b13d6a90dc9f382098017'']"

lemma xed_iform_enum_8h_values_22_closed: "list_all (closed_node scripts) xed_iform_enum_8h_values_22"
  by (simp only: xed_iform_enum_8h_values_22_def closed_rules iform_closed)

end
