(* ===== verification/Nav_Iform_3.thy ===== *)
theory Nav_Iform_3
  imports Nav_Iform
begin

text \<open>
  xed-iform-enum_8h.js: the child table of an enumeration of instruction forms or classes.
\<close>

definition xed_iform_enum_8h_values_23 :: "nav_node list" where
  "xed_iform_enum_8h_values_23 = [
    iform ''VHSUBPS_YMMqq_YMMqq_YMMqq'' ''ad4c2118aabb31e653e430178db1ffbb4'',
    iform ''VINSERTF128_YMMqq_YMMqq_MEMdq_IMMb'' ''a63156da96085358f060faa25b36605ee'',
    iform ''VINSERTF128_YMMqq_YMMqq_XMMdq_IMMb'' ''a392c8ed1d8d0fc5dfcff7a79fbd8cce1'',
    iform ''VINSERTF32X4_YMMf32_MASKmskw_YMMf32_MEMf32_IMM8_AVX512'' ''a4a2d99e751b87af24528a1bc385b1aa1'',
    iform ''VINSERTF32X4_YMMf32_MASKmskw_YMMf32_XMMf32_IMM8_AVX512'' ''a78367d6d7e070e64b8f337e0a3460264'',
    iform ''VINSERTF32X4_ZMMf32_MASKmskw_ZMMf32_MEMf32_IMM8_AVX512'' ''a89159d8e059a0c43506375be29c464d3'',
    iform ''VINSERTF32X4_ZMMf32_MASKmskw_ZMMf32_XMMf32_IMM8_AVX512'' ''aa46eb64ce419936d85e3c4f61f1be69a'',
    iform ''VINSERTF32X8_ZMMf32_MASKmskw_ZMMf32_MEMf32_IMM8_AVX512'' ''a3503915626a1f9660e87cb66a31f5cb3'',
    iform ''VINSERTF32X8_ZMMf32_MASKmskw_ZMMf32_YMMf32_IMM8_AVX512'' ''a2c2bdc30d974869c8194e6210f59b54e'',
    iform ''VINSERTF64X2_YMMf64_MASKmskw_YMMf64_MEMf64_IMM8_AVX512'' ''ab78d749297a41d91b73ac3779aa2eaa3'',
    iform ''VINSERTF64X2_YMMf64_MASKmskw_YMMf64_XMMf64_IMM8_AVX512'' ''adf54a0953af8f17278f050c737240ad6'',
    iform ''VINSERTF64X2_ZMMf64_MASKmskw_ZMMf64_MEMf64_IMM8_AVX512'' ''a5a35182b3e450228395d5dc5d3fd1bb9'',
    iform ''VINSERTF64X2_ZMMf64_MASKmskw_ZMMf64_XMMf64_IMM8_AVX512'' ''ada51635ef8b0d1f344575b5ff759cd94'',
    iform ''VINSERTF64X4_ZMMf64_MASKmskw_ZMMf64_MEMf64_IMM8_AVX512'' ''a9670132f5eeced566bfaa16467ffee3e'',
    iform ''VINSERTF64X4_ZMMf64_MASKmskw_ZMMf64_YMMf64_IMM8_AVX512'' ''a39678069c25277b4bab3d04c33fac965'',
    iform ''VINSERTI128_YMMqq_YMMqq_MEMdq_IMMb'' ''a344cca03d909636f380e0f1742181c3a'',
    iform ''VINSERTI128_YMMqq_YMMqq_XMMdq_IMMb'' ''aa7044e7d7812f9410ed0595a8bdc04f8'',
    iform ''VINSERTI32X4_YMMu32_MASKmskw_YMMu32_MEMu32_IMM8_AVX512'' ''a4a087b16756d64eb658ccc4d789d859a'',
    iform ''VINSERTI32X4_YMMu32_MASKmskw_YMMu32_XMMu32_IMM8_AVX512'' ''a4a9724e952f5d6a364f8ca10a0e3084d'',
    iform ''VINSERTI32X4_ZMMu32_MASKmskw_ZMMu32_MEMu32_IMM8_AVX512'' ''aca0f2f5206132a6a8cdb0925eea61749'',
    iform ''VINSERTI32X4_ZMMu32_MASKmskw_ZMMu32_XMMu32_IMM8_AVX512'' ''a9f2797bd050ae3cc6091dc26b3f38ea4'',
    iform ''VINSERTI32X8_ZMMu32_MASKmskw_ZMMu32_MEMu32_IMM8_AVX512'' ''a2a1826ebe24f80ce9d3bd9f6217949a3'',
    iform ''VINSERTI32X8_ZMMu32_MASKmskw_ZMMu32_YMMu32_IMM8_AVX512'' ''ab0e29413ca2019da8ef7892fd6c610e5'',
    iform ''VINSERTI64X2_YMMu64_MASKmskw_YMMu64_MEMu64_IMM8_AVX512'' ''ae1572ec0c7915d828e24df7a72ee3bbf'',
    iform ''VINSERTI64X2_YMMu64_MASKmskw_YMMu64_XMMu64_IMM8_AVX512'' ''a60c10158b61bf1f42c5f8a45c91e1afe'',
    iform ''VINSERTI64X2_ZMMu64_MASKmskw_ZMMu64_MEMu64_IMM8_AVX512'' ''ab9d55405fc2fa81a2af167e2cd8147e3'',
    iform ''VINSERTI64X2_ZMMu64_MASKmskw_ZMMu64_XMMu64_IMM8_AVX512'' ''aabbf13497d1ef34d8bc61d56e69d9cb3'',
    iform ''VINSERTI64X4_ZMMu64_MASKmskw_ZMMu64_MEMu64_IMM8_AVX512'' ''a5d0003eef13fdb6267afe3338b1b0536'',
    iform ''VINSERTI64X4_ZMMu64_MASKmskw_ZMMu64_YMMu64_IMM8_AVX512'' ''a936dcc5bf817943d4d21a9142907c7e9'',
    iform ''VINSERTPS_XMMdq_XMMdq_MEMd_IMMb'' ''a7e4c3820f689c397e187cf781324273d'',
    iform ''VINSERTPS_XMMdq_XMMdq_XMMdq_IMMb'' ''a216dfd5a4b67407d6ce37e4f11f56560'',
    iform ''VINSERTPS_XMMf32_XMMf32_MEMf32_IMM8_AVX512'' ''a82b2ee1f12b7791ef1d0b5352daff43e'',
    iform ''VINSERTPS_XMMf32_XMMf32_XMMf32_IMM8_AVX512'' ''aff505af04706d1c86008762523e26b4d'',
    iform ''VLDDQU_XMMdq_MEMdq'' ''a23ef896b2e8df82636f532bddadebcef'',
    iform ''VLDDQU_YMMqq_MEMqq'' ''ad02c8bdec80d86c0d4fb2ea6f8c6cf13'',
    iform ''VLDMXCSR_MEMd'' ''a83843c52274555bfdf5bf0870731b050'',
    iform ''VMASKMOVDQU_XMMdq_XMMdq'' ''a1f54110a09b8388778f7acd75b6a7901'',
    iform ''VMASKMOVPD_MEMdq_XMMdq_XMMdq'' ''a672fbec3cffda63ff871c67892cd9099'',
    iform ''VMASKMOVPD_MEMqq_YMMqq_YMMqq'' ''a673076b9d3658fe0b9501d93d0ab20d4'',
    iform ''VMASKMOVPD_XMMdq_XMMdq_MEMdq'' ''a20bd72e6289ed291734dbd758b755a9c'',
    iform ''VMASKMOVPD_YMMqq_YMMqq_MEMqq'' ''ab8751a57007c48852cb5641ec9d18d03'',
    iform ''VMASKMOVPS_MEMdq_XMMdq_XMMdq'' ''aa61a1f679630e904080ef3003b8ce05a'',
    iform ''VMASKMOVPS_MEMqq_YMMqq_YMMqq'' ''a4c3d81bbcafdff44336226627a9e0ce7'',
    iform ''VMASKMOVPS_XMMdq_XMMdq_MEMdq'' ''acc70cfccbcdb70411f49c67339ebea72'',
    iform ''VMASKMOVPS_YMMqq_YMMqq_MEMqq'' ''a3aab4fc092d60c5df9ce8186e7f622d9'',
    iform ''VMAXPD_XMMdq_XMMdq_MEMdq'' ''a7c9545fce9fce5d37388df76d35a55ac'',
    iform ''VMAXPD_XMMdq_XMMdq_XMMdq'' ''a997726ad9f76629614181174089b0ea2'',
    iform ''VMAXPD_XMMf64_MASKmskw_XMMf64_MEMf64_AVX512'' ''a1aa81f195188dfffa378f1eeddaabb6d'',
    iform ''VMAXPD_XMMf64_MASKmskw_XMMf64_XMMf64_AVX512'' ''a10598c3deb4ddf7b67d132804ab9b410'',
    iform ''VMAXPD_YMMf64_MASKmskw_YMMf64_MEMf64_AVX512'' ''a06c3646a1cd2b439700a3a78d8a60fc0'',
    iform ''VMAXPD_YMMf64_MASKmskw_YMMf64_YMMf64_AVX512'' ''a927d13c40313545f35a575ffcd3ef43d'',
    iform ''VMAXPD_YMMqq_YMMqq_MEMqq'' ''afd45bdf96bce48d5fd7eb99c8dfe36d0'',
    iform ''VMAXPD_YMMqq_YMMqq_YMMqq'' ''a186af673043e5aabd8b7ae917e15e91a'',
    iform ''VMAXPD_ZMMf64_MASKmskw_ZMMf64_MEMf64_AVX512'' ''a3e95b85dd49659965e13379173a1edb0'',
    iform ''VMAXPD_ZMMf64_MASKmskw_ZMMf64_ZMMf64_AVX512'' ''ad56dca16a0c30d3393c35f3818b54d2a'',
    iform ''VMAXPS_XMMdq_XMMdq_MEMdq'' ''a9bff2da36305cf449081a8a52b45d8ea'',
    iform ''VMAXPS_XMMdq_XMMdq_XMMdq'' ''a7f759907a7567868ecff9bae3d88b38c'',
    iform ''VMAXPS_XMMf32_MASKmskw_XMMf32_MEMf32_AVX512'' ''a41f215a4a5110c95f0e05523c09930f3'',
    iform ''VMAXPS_XMMf32_MASKmskw_XMMf32_XMMf32_AVX512'' ''a3c78ee173d121f37dbef79797803b990'',
    iform ''VMAXPS_YMMf32_MASKmskw_YMMf32_MEMf32_AVX512'' ''a4ed105563540e62c73705a4f1c0e09b9'',
    iform ''VMAXPS_YMMf32_MASKmskw_YMMf32_YMMf32_AVX512'' ''a99a5bea4f084be83b20281bd726ae143'',
    iform ''VMAXPS_YMMqq_YMMqq_MEMqq'' ''af6a58d51fa3b1e9703f044961558a643'',
    iform ''VMAXPS_YMMqq_YMMqq_YMMqq'' ''a978c5b367f31b525ad829736b259c5c0'',
    iform ''VMAXPS_ZMMf32_MASKmskw_ZMMf32_MEMf32_AVX512'' ''a1aa22e052cef84a1363ab86b2eab99d9'',
    iform ''VMAXPS_ZMMf32_MASKmskw_ZMMf32_ZMMf32_AVX512'' ''a033ca5a022a848adcd2c21eb0a18f8af'',
    iform ''VMAXSD_XMMdq_XMMdq_MEMq'' ''a79752288fabc058dabe2ceccbb2e8a48'',
    iform ''VMAXSD_XMMdq_XMMdq_XMMq'' ''a5a8c284408bf047014582ae5fe9017a3'',
    iform ''VMAXSD_XMMf64_MASKmskw_XMMf64_MEMf64_AVX512'' ''a2c5d1fdc6848a6d5fa2c509520f402fc'',
    iform ''VMAXSD_XMMf64_MASKmskw_XMMf64_XMMf64_AVX512'' ''a75a14182c2ea95d6242f93636ffc636e'',
    iform ''VMAXSS_XMMdq_XMMdq_MEMd'' ''a6124427296eed0d730ee95c7f9f85d35'',
    iform ''VMAXSS_XMMdq_XMMdq_XMMd'' ''aab359c344dc8a33f579df2511b93affa'',
    iform ''VMAXSS_XMMf32_MASKmskw_XMMf32_MEMf32_AVX512'' ''a0619e7c274f53e726473c98d1b646022'',
    iform ''VMAXSS_XMMf32_MASKmskw_XMMf32_XMMf32_AVX512'' ''ae96a6788b6c5e951f2efb20e1e34cc4e'',
    iform ''VMCALL'' ''a8b9ef41da83a9fc94d5059f5bfa81101'',
    iform ''VMCLEAR_MEMq'' ''a43cd2c58ec7b7824d79ad8ea4f41d9c7'',
    iform ''VMFUNC'' ''a58633930dfdc669800f670480405ef21'',
    iform ''VMINPD_XMMdq_XMMdq_MEMdq'' ''af4965dffe57d98089a87c562086d244e'',
    iform ''VMINPD_XMMdq_XMMdq_XMMdq'' ''a03e4164a0236adeeccb2ad5c9ce5d4a4'',
    iform ''VMINPD_XMMf64_MASKmskw_XMMf64_MEMf64_AVX512'' ''a2ab30e892a715746c04a2e99f7cfa21e'',
    iform ''VMINPD_XMMf64_MASKmskw_XMMf64_XMMf64_AVX512'' ''a1cdc6f3b6b5d19007c048f3e697cb5dc'',
    iform ''VMINPD_YMMf64_MASKmskw_YMMf64_MEMf64_AVX512'' ''a3617f090acf2620b962cf9300e920df1'',
    iform ''VMINPD_YMMf64_MASKmskw_YMMf64_YMMf64_AVX512'' ''a0c3a9659aeabdcd06166b202cee35d11'',
    iform ''VMINPD_YMMqq_YMMqq_MEMqq'' ''a1fb8590f472714774c5a795d6ba21d46'',
    iform ''VMINPD_YMMqq_YMMqq_YMMqq'' ''a8b2c16346ab8518be2b40e1a32c9cab1'',
    iform ''VMINPD_ZMMf64_MASKmskw_ZMMf64_MEMf64_AVX512'' ''abd8acbd549eb7fdcef8208e251be617e'',
    iform ''VMINPD_ZMMf64_MASKmskw_ZMMf64_ZMMf64_AVX512'' ''a1aa4aac51f5870cddc2ba0422522603f'',
    iform ''VMINPS_XMMdq_XMMdq_MEMdq'' ''a910bb65ef368a35be39f56dafa496f78'',
    iform ''VMINPS_XMMdq_XMMdq_XMMdq'' ''a30604587532bebdd064fddb2ab072514'',
    iform ''VMINPS_XMMf32_MASKmskw_XMMf32_MEMf32_AVX512'' ''aa66d8f34a0de556fe4f650c2dcb47d6c'',
    iform ''VMINPS_XMMf32_MASKmskw_XMMf32_XMMf32_AVX512'' ''a04aa79ed345105c7375082d151b6a4bf'',
    iform ''VMINPS_YMMf32_MASKmskw_YMMf32_MEMf32_AVX512'' ''ae3507afb93c1bd21efd68a68915e2b09'',
    iform ''VMINPS_YMMf32_MASKmskw_YMMf32_YMMf32_AVX512'' ''a4edc2aa56b463739e7a4dab041623b64'',
    iform ''VMINPS_YMMqq_YMMqq_MEMqq'' ''af3d8ea1b1450539e27f507af51918d09'',
    iform ''VMINPS_YMMqq_YMMqq_YMMqq'' ''a630e55e008f0225469ec3c82704af641'',
    iform ''VMINPS_ZMMf32_MASKmskw_ZMMf32_MEMf32_AVX512'' ''a2071090df3f6ade3b4cc51fb0ac6b613'',
    iform ''VMINPS_ZMMf32_MASKmskw_ZMMf32_ZMMf32_AVX512'' ''a5ccada2125949b00dd3dc361c955a502'',
    iform ''VMINSD_XMMdq_XMMdq_MEMq'' ''ac914aa129c0b34ba1539090c82f35e30'',
    iform ''VMINSD_XMMdq_XMMdq_XMMq'' ''a975ba5a96e08c43064ad47cdc86989bf'',
    iform ''VMINSD_XMMf64_MASKmskw_XMMf64_MEMf64_AVX512'' ''a892117d26065beaa3d004a190fc01138'',
    iform ''VMINSD_XMMf64_MASKmskw_XMMf64_XMMf64_AVX512'' ''a752985a85574458ed0681aa515dfa7e4'',
    iform ''VMINSS_XMMdq_XMMdq_MEMd'' ''a9b6dfd06a4fac17c51c677e90b7a9915'',
    iform ''VMINSS_XMMdq_XMMdq_XMMd'' ''a7232ff7dc59bb7a09c9b569e166e33cc'',
    iform ''VMINSS_XMMf32_MASKmskw_XMMf32_MEMf32_AVX512'' ''ad483a54ba9074347fd78580894cf8b1c'',
    iform ''VMINSS_XMMf32_MASKmskw_XMMf32_XMMf32_AVX512'' ''a6dd7424744e8a4b1f4a1cf661c740491'',
    iform ''VMLAUNCH'' ''a1c88e8385a04cba281d92efa7f0738ec'',
    iform ''VMLOAD_OrAX'' ''a0ed75c1464029308a97d6ffcf94f5f27'',
    iform ''VMMCALL'' ''a5af033346d1555f83494ee709b06cc2d'',
    iform ''VMOVAPD_MEMdq_XMMdq'' ''acfbf9bc27cde45b7c6718db358fb3dbf'',
    iform ''VMOVAPD_MEMf64_MASKmskw_XMMf64_AVX512'' ''a584092419440be954951ee4c5ef2a892'',
    iform ''VMOVAPD_MEMf64_MASKmskw_YMMf64_AVX512'' ''a0bcdceb0b3d3b01c1da42290e8ad53b4'',
    iform ''VMOVAPD_MEMf64_MASKmskw_ZMMf64_AVX512'' ''a2297858f0333451879c722677129fdb8'',
    iform ''VMOVAPD_MEMqq_YMMqq'' ''a0513d7f8fcd32fc1dbfe5303d1b373b7'',
    iform ''VMOVAPD_XMMdq_MEMdq'' ''adb9197aaeb5471ac575714437300bd3b'',
    iform ''VMOVAPD_XMMdq_XMMdq_28'' ''a5c12cceee775262c3ec89b0f6f827474'',
    iform ''VMOVAPD_XMMdq_XMMdq_29'' ''aee61d7ec927f11a94fac9d7b3c2f6456'',
    iform ''VMOVAPD_XMMf64_MASKmskw_MEMf64_AVX512'' ''ad58562dfa112e8f9c2164b48b959a36d'',
    iform ''VMOVAPD_XMMf64_MASKmskw_XMMf64_AVX512'' ''af5c03aff3ae021e0c417b8a18f30dcc2'',
    iform ''VMOVAPD_YMMf64_MASKmskw_MEMf64_AVX512'' ''a88c0232f67ea06235ec7482f0c256722'',
    iform ''VMOVAPD_YMMf64_MASKmskw_YMMf64_AVX512'' ''a7d7342217ec005625d48c4df8bbb1682'',
    iform ''VMOVAPD_YMMqq_MEMqq'' ''a05664537ad19104c6ea40b63cbaa3f99'',
    iform ''VMOVAPD_YMMqq_YMMqq_28'' ''a4d8831c07cf3dc60cb30aecbf562ae1a'',
    iform ''VMOVAPD_YMMqq_YMMqq_29'' ''ad4f6763699e01fb35976da82e830e7ac'',
    iform ''VMOVAPD_ZMMf64_MASKmskw_MEMf64_AVX512'' ''a5b68ed28ebfdac6ca4d2364be667b0cd'',
    iform ''VMOVAPD_ZMMf64_MASKmskw_ZMMf64_AVX512'' ''a0f75e2a11f14dfab1a1b3ba2ba1af790'',
    iform ''VMOVAPS_MEMdq_XMMdq'' ''a540087ee7c3306d148752f1e7cbb47a2'',
    iform ''VMOVAPS_MEMf32_MASKmskw_XMMf32_AVX512'' ''a9695de15a4d972412acc46371ded365f'',
    iform ''VMOVAPS_MEMf32_MASKmskw_YMMf32_AVX512'' ''a76434c1a75b7d8ca663cd90fb077cbfa'',
    iform ''VMOVAPS_MEMf32_MASKmskw_ZMMf32_AVX512'' ''aee19ca377ad296f0eae0f4bd1657f04c'',
    iform ''VMOVAPS_MEMqq_YMMqq'' ''a97536fb39047446aaaf46ab77663d5d4'',
    iform ''VMOVAPS_XMMdq_MEMdq'' ''acd23402ccc2775c14ca674dbd5d492b9'',
    iform ''VMOVAPS_XMMdq_XMMdq_28'' ''a21660171df102a1aae344caa42d67043'',
    iform ''VMOVAPS_XMMdq_XMMdq_29'' ''a18e36f2899be5fad61c671b97baec447'',
    iform ''VMOVAPS_XMMf32_MASKmskw_MEMf32_AVX512'' ''ac37e351e31ec9cedefaaf5bdad366770'',
    iform ''VMOVAPS_XMMf32_MASKmskw_XMMf32_AVX512'' ''a55580a74c89ea2527bc46e9cd02982aa'',
    iform ''VMOVAPS_YMMf32_MASKmskw_MEMf32_AVX512'' ''ad7e5ffe6d8e649d25ae93ee87b46b8e8'',
    iform ''VMOVAPS_YMMf32_MASKmskw_YMMf32_AVX512'' ''a5e2d53947db930b892bc8504dfcc48e5'',
    iform ''VMOVAPS_YMMqq_MEMqq'' ''a90f07831075212b205ce321b7c17d8ac'',
    iform ''VMOVAPS_YMMqq_YMMqq_28'' ''a5fa6cf70b2faeed9dd7fbac2d046f79c'',
    iform ''VMOVAPS_YMMqq_YMMqq_29'' ''a676d55795d2de4f290befcc36aef0407'',
    iform ''VMOVAPS_ZMMf32_MASKmskw_MEMf32_AVX512'' ''afc4beda8faa50b2ced6dfcc9810585ec'']"

lemma xed_iform_enum_8h_values_23_closed: "list_all (closed_node scripts) xed_iform_enum_8h_values_23"
  by (simp only: xed_iform_enum_8h_values_23_def closed_rules iform_closed)

definition xed_iform_enum_8h_values_24 :: "nav_node list" where
  "xed_iform_enum_8h_values_24 = [
    iform ''VMOVAPS_ZMMf32_MASKmskw_ZMMf32_AVX512'' ''a74281a76008e47a5cdcce386d8212493'',
    iform ''VMOVD_GPR32d_XMMd'' ''a33913703059353a5b57d8d6f5dd09002'',
    iform ''VMOVD_GPR32u32_XMMu32_AVX512'' ''a4d07c104804e01a7d91a5619a7e8cd5d'',
    iform ''VMOVD_MEMd_XMMd'' ''a4105ca679ecadc1bcf1f1a6b8a5fe5f7'',
    iform ''VMOVD_MEMu32_XMMu32_AVX512'' ''a30143c596d7ed67ce4c11d85f9e486cf'',
    iform ''VMOVD_XMMdq_GPR32d'' ''a5943b496936d578efda7a2a4b2500689'',
    iform ''VMOVD_XMMdq_MEMd'' ''aa21f36198079ff5fd6f962833693f279'',
    iform ''VMOVD_XMMu32_GPR32u32_AVX512'' ''a2ab662df0f5c64510e5a4d4061be7ce7'',
    iform ''VMOVD_XMMu32_MEMu32_AVX512'' ''af68ea007318c47177fd52b205a6307bb'',
    iform ''VMOVDDUP_XMMdq_MEMq'' ''a7cf19cf4af8bd6728018400adb5a52ce'',
    iform ''VMOVDDUP_XMMdq_XMMdq'' ''ab8533a1bacf3c4f4bd6068e8a58318a1'',
    iform ''VMOVDDUP_XMMf64_MASKmskw_MEMf64_AVX512'' ''a30f23068e8368a26781bf8676b9b70ea'',
    iform ''VMOVDDUP_XMMf64_MASKmskw_XMMf64_AVX512'' ''a45ce848ef5219848377e083e6ab3d3d9'',
    iform ''VMOVDDUP_YMMf64_MASKmskw_MEMf64_AVX512'' ''af83cf4ce7bd0106d4ef197746dbbdbd1'',
    iform ''VMOVDDUP_YMMf64_MASKmskw_YMMf64_AVX512'' ''a6dd93a630ff312b240263eec9d328cad'',
    iform ''VMOVDDUP_YMMqq_MEMqq'' ''ae5a20f7e922e26047edd0051f22c4bc1'',
    iform ''VMOVDDUP_YMMqq_YMMqq'' ''a76bf8a69aacc02b4db20e95509065d99'',
    iform ''VMOVDDUP_ZMMf64_MASKmskw_MEMf64_AVX512'' ''a06d807f4f0c777d8c9cc1c51a3f209f5'',
    iform ''VMOVDDUP_ZMMf64_MASKmskw_ZMMf64_AVX512'' ''af23cc8db9f934fb6038b7ae1d6562445'',
    iform ''VMOVDQA_MEMdq_XMMdq'' ''a4f6c35b2b5868684398cce2d9be839e4'',
    iform ''VMOVDQA_MEMqq_YMMqq'' ''a133ecbe0d28b69abe309eb45d9d518d7'',
    iform ''VMOVDQA_XMMdq_MEMdq'' ''a1c9508e671683a1536cb046ab8349b45'',
    iform ''VMOVDQA_XMMdq_XMMdq_6F'' ''a371f67cf71bb06b9d8e968a5fadfc2b5'',
    iform ''VMOVDQA_XMMdq_XMMdq_7F'' ''a3ec5cbb09f1d835f25384e8724a8a581'',
    iform ''VMOVDQA_YMMqq_MEMqq'' ''a7ab58f84ad7d4cf3f51e4eb04ae4aab0'',
    iform ''VMOVDQA_YMMqq_YMMqq_6F'' ''a45eceed175061bd95d1e315a9341592d'',
    iform ''VMOVDQA_YMMqq_YMMqq_7F'' ''acf2893a087a498ccd068990d1c45eaf9'',
    iform ''VMOVDQA32_MEMu32_MASKmskw_XMMu32_AVX512'' ''a2de911d38a8bc9a0837a0dc67ca2d7b2'',
    iform ''VMOVDQA32_MEMu32_MASKmskw_YMMu32_AVX512'' ''a6f59ce2003b44719d4c1f40ea1155e9d'',
    iform ''VMOVDQA32_MEMu32_MASKmskw_ZMMu32_AVX512'' ''a00a3bed317efdfe4d3f6650f2693470d'',
    iform ''VMOVDQA32_XMMu32_MASKmskw_MEMu32_AVX512'' ''a9801ad1345f0f843fbc05c64603980bc'',
    iform ''VMOVDQA32_XMMu32_MASKmskw_XMMu32_AVX512'' ''aff19bc5d5151418c3797278862551275'',
    iform ''VMOVDQA32_YMMu32_MASKmskw_MEMu32_AVX512'' ''ae7f3ad8429b931c55ffd3d6a9d1aec68'',
    iform ''VMOVDQA32_YMMu32_MASKmskw_YMMu32_AVX512'' ''a51a5b6ade662a0631735ad80215e90d2'',
    iform ''VMOVDQA32_ZMMu32_MASKmskw_MEMu32_AVX512'' ''a7ce69da73c96b1dbca13af5a50191aeb'',
    iform ''VMOVDQA32_ZMMu32_MASKmskw_ZMMu32_AVX512'' ''a0c7a2a9a94b3d53897cfeb8f21189a2f'',
    iform ''VMOVDQA64_MEMu64_MASKmskw_XMMu64_AVX512'' ''ac750481b8a2ab8add705490873abf92e'',
    iform ''VMOVDQA64_MEMu64_MASKmskw_YMMu64_AVX512'' ''a059ec9a60c46dcbe87c90974f9bccc87'',
    iform ''VMOVDQA64_MEMu64_MASKmskw_ZMMu64_AVX512'' ''adfe6117571435d7ca32e848cca782727'',
    iform ''VMOVDQA64_XMMu64_MASKmskw_MEMu64_AVX512'' ''a756889dec48da8de23f8c86a9dedd141'',
    iform ''VMOVDQA64_XMMu64_MASKmskw_XMMu64_AVX512'' ''ac96a28e0248915ee0971728afb2ba9fe'',
    iform ''VMOVDQA64_YMMu64_MASKmskw_MEMu64_AVX512'' ''a58c8de0cc077b264b1170d2cdb2f18a1'',
    iform ''VMOVDQA64_YMMu64_MASKmskw_YMMu64_AVX512'' ''a395b8857dc93831624a7fc293c947fe1'',
    iform ''VMOVDQA64_ZMMu64_MASKmskw_MEMu64_AVX512'' ''ae1e88bedc16626db6c1003d2cdeeb4f3'',
    iform ''VMOVDQA64_ZMMu64_MASKmskw_ZMMu64_AVX512'' ''a6a46392bec44a53bd6dc56823f6a91df'',
    iform ''VMOVDQU_MEMdq_XMMdq'' ''afaa0e6e47233d823fa9d68c616448f49'',
    iform ''VMOVDQU_MEMqq_YMMqq'' ''ab70646755db1c944abd82ee8d9c63801'',
    iform ''VMOVDQU_XMMdq_MEMdq'' ''a00d7f3c8091b93356d7f1a0bd3950b80'',
    iform ''VMOVDQU_XMMdq_XMMdq_6F'' ''abe020ca44be7e0e3473cf66eae0945dd'',
    iform ''VMOVDQU_XMMdq_XMMdq_7F'' ''adb13c4d43117237eba3819b4ec58b55e'',
    iform ''VMOVDQU_YMMqq_MEMqq'' ''a0f4933e0706e8e202faa1e6e6dad0e1d'',
    iform ''VMOVDQU_YMMqq_YMMqq_6F'' ''aa1bbd2a15e6451754a4858fa166aad6f'',
    iform ''VMOVDQU_YMMqq_YMMqq_7F'' ''a09f5a3e5833e58b025f54f17a5a4998a'',
    iform ''VMOVDQU16_MEMu16_MASKmskw_XMMu16_AVX512'' ''a27ce23372e8d096bb2224e757bce8a0d'',
    iform ''VMOVDQU16_MEMu16_MASKmskw_YMMu16_AVX512'' ''a5995452f2b4dfae37f62b5aac222dbce'',
    iform ''VMOVDQU16_MEMu16_MASKmskw_ZMMu16_AVX512'' ''aba115e8431c1b396b35ff6df2a223443'',
    iform ''VMOVDQU16_XMMu16_MASKmskw_MEMu16_AVX512'' ''ab6626dd4f1342b57c87a74ab8cc073ed'',
    iform ''VMOVDQU16_XMMu16_MASKmskw_XMMu16_AVX512'' ''a7ca54a242b327b314abaef277d238853'',
    iform ''VMOVDQU16_YMMu16_MASKmskw_MEMu16_AVX512'' ''a8c2a333ded5cc1b6500de1f4f9e9712d'',
    iform ''VMOVDQU16_YMMu16_MASKmskw_YMMu16_AVX512'' ''acae3abcac1c24545d32546d29be2e9f1'',
    iform ''VMOVDQU16_ZMMu16_MASKmskw_MEMu16_AVX512'' ''aeef417d541ae6c0aa2dc4a53915e9365'',
    iform ''VMOVDQU16_ZMMu16_MASKmskw_ZMMu16_AVX512'' ''ac59d883f96ea08903c4ba7378be68830'',
    iform ''VMOVDQU32_MEMu32_MASKmskw_XMMu32_AVX512'' ''a12a25d9c9f7baaf3acad3316c3fe7fd0'',
    iform ''VMOVDQU32_MEMu32_MASKmskw_YMMu32_AVX512'' ''ab1683ad9ec62b3e2818b10ed3ad6b77f'',
    iform ''VMOVDQU32_MEMu32_MASKmskw_ZMMu32_AVX512'' ''a2f10c2e05e009f9f963a24a11c024a00'',
    iform ''VMOVDQU32_XMMu32_MASKmskw_MEMu32_AVX512'' ''afc9c1fb2f28a884d5ccc4c5079113ff8'',
    iform ''VMOVDQU32_XMMu32_MASKmskw_XMMu32_AVX512'' ''a70b37f57dfb1e132285d3b8524e89b03'',
    iform ''VMOVDQU32_YMMu32_MASKmskw_MEMu32_AVX512'' ''a50efd06079cf9728f7eb7eca19dd6c36'',
    iform ''VMOVDQU32_YMMu32_MASKmskw_YMMu32_AVX512'' ''ac76e096c0068b831a33e1747e98511f1'',
    iform ''VMOVDQU32_ZMMu32_MASKmskw_MEMu32_AVX512'' ''a688acf3310146f325b0461ef00ce2944'',
    iform ''VMOVDQU32_ZMMu32_MASKmskw_ZMMu32_AVX512'' ''a745f85c0a8db6735f6e4d00b97c146a5'',
    iform ''VMOVDQU64_MEMu64_MASKmskw_XMMu64_AVX512'' ''ae38f3c21a9b65bf2834923a5dfe48b82'',
    iform ''VMOVDQU64_MEMu64_MASKmskw_YMMu64_AVX512'' ''a11ac1894982c4915511eb4f57324fae4'',
    iform ''VMOVDQU64_MEMu64_MASKmskw_ZMMu64_AVX512'' ''a9ee57ba65b48c88dcb145bad3eb99ec1'',
    iform ''VMOVDQU64_XMMu64_MASKmskw_MEMu64_AVX512'' ''ac6a7ee913dde45820ad7a23bd3e306d3'',
    iform ''VMOVDQU64_XMMu64_MASKmskw_XMMu64_AVX512'' ''a12eb693051f0c99666574d59c6ec6934'',
    iform ''VMOVDQU64_YMMu64_MASKmskw_MEMu64_AVX512'' ''a0ad2115a6a37dbd0ecc007e5f1c3ee07'',
    iform ''VMOVDQU64_YMMu64_MASKmskw_YMMu64_AVX512'' ''ad14469bf32f64bb201523751f31fa5be'',
    iform ''VMOVDQU64_ZMMu64_MASKmskw_MEMu64_AVX512'' ''a41c2e32217e5d26e36e76dd443e096aa'',
    iform ''VMOVDQU64_ZMMu64_MASKmskw_ZMMu64_AVX512'' ''a1e1a356486a8d4cbe4e256c604417954'',
    iform ''VMOVDQU8_MEMu8_MASKmskw_XMMu8_AVX512'' ''a4301796dd127db2f1108986ae9cfebb7'',
    iform ''VMOVDQU8_MEMu8_MASKmskw_YMMu8_AVX512'' ''a625d0c5ad47ac979ff8daa35c4baeae8'',
    iform ''VMOVDQU8_MEMu8_MASKmskw_ZMMu8_AVX512'' ''a39f021361acd75dc719eff78a6162abc'',
    iform ''VMOVDQU8_XMMu8_MASKmskw_MEMu8_AVX512'' ''af1b82c473b97494b634c293d095bf000'',
    iform ''VMOVDQU8_XMMu8_MASKmskw_XMMu8_AVX512'' ''a1323959c1134de413611663a957dccbf'',
    iform ''VMOVDQU8_YMMu8_MASKmskw_MEMu8_AVX512'' ''ad8ba894f1fb609bf073049212854c5ed'',
    iform ''VMOVDQU8_YMMu8_MASKmskw_YMMu8_AVX512'' ''aed950ea62abf7b7445f9b9bd106f5176'',
    iform ''VMOVDQU8_ZMMu8_MASKmskw_MEMu8_AVX512'' ''a6de0eca9c8d1e16c4b39acbe95ebafba'',
    iform ''VMOVDQU8_ZMMu8_MASKmskw_ZMMu8_AVX512'' ''a441592f386cec10ccb7a8059ea744d07'',
    iform ''VMOVHLPS_XMMdq_XMMdq_XMMdq'' ''a50743da59745291546cda63850e4a18a'',
    iform ''VMOVHLPS_XMMf32_XMMf32_XMMf32_AVX512'' ''a8844872e8b75a43803e989f373c3945b'',
    iform ''VMOVHPD_MEMf64_XMMf64_AVX512'' ''abc209e2e323e23881156021db15978d1'',
    iform ''VMOVHPD_MEMq_XMMdq'' ''a7a5aa825bfc6613ece0252e263f01374'',
    iform ''VMOVHPD_XMMdq_XMMq_MEMq'' ''a91f938631af37ec19cb06781de60c820'',
    iform ''VMOVHPD_XMMf64_XMMf64_MEMf64_AVX512'' ''a9671c6337c27ddd786682021574df892'',
    iform ''VMOVHPS_MEMf32_XMMf32_AVX512'' ''af14161cec80ec1b318c12523cbebf0ce'',
    iform ''VMOVHPS_MEMq_XMMdq'' ''a217450c29cfe1d03915be1ed311f8866'',
    iform ''VMOVHPS_XMMdq_XMMq_MEMq'' ''aaa6f35997db218e119080250d4dd24aa'',
    iform ''VMOVHPS_XMMf32_XMMf32_MEMf32_AVX512'' ''a90547d68fe5c1f421817155250ab9081'',
    iform ''VMOVLHPS_XMMdq_XMMq_XMMq'' ''a852bfd82345eb37f66aa1a30d799cf45'',
    iform ''VMOVLHPS_XMMf32_XMMf32_XMMf32_AVX512'' ''a94b345582e9285309bce300969c4ca4d'',
    iform ''VMOVLPD_MEMf64_XMMf64_AVX512'' ''a23790d17b215825a9b034b4b7a3248c1'',
    iform ''VMOVLPD_MEMq_XMMq'' ''a2d5be63758854779ecf874f91ebd47af'',
    iform ''VMOVLPD_XMMdq_XMMdq_MEMq'' ''ac6bca80dc6a3f535f4ba276b9437d0d2'',
    iform ''VMOVLPD_XMMf64_XMMf64_MEMf64_AVX512'' ''a673edf6cda2e167f74c86802bf6debed'',
    iform ''VMOVLPS_MEMf32_XMMf32_AVX512'' ''a037d6da086a4d67e4021fc5c305faa74'',
    iform ''VMOVLPS_MEMq_XMMq'' ''a1153b40599daa93ee29d145a30a4c516'',
    iform ''VMOVLPS_XMMdq_XMMdq_MEMq'' ''a5f3355b33188142c271f0353c14c2442'',
    iform ''VMOVLPS_XMMf32_XMMf32_MEMf32_AVX512'' ''a444b92ed821e3a652615f83a39d4a4ed'',
    iform ''VMOVMSKPD_GPR32d_XMMdq'' ''ad249b72dabca93cec614d1b60480d06f'',
    iform ''VMOVMSKPD_GPR32d_YMMqq'' ''a607def1775826119f45e7858fff41b70'',
    iform ''VMOVMSKPS_GPR32d_XMMdq'' ''acc3d8c1b5e7121341c68ade625f54ce1'',
    iform ''VMOVMSKPS_GPR32d_YMMqq'' ''acd82d46827c7c6bf25f798f0cdcf3d51'',
    iform ''VMOVNTDQ_MEMdq_XMMdq'' ''a6b327b9aa20e861a51ca2fb5165edc75'',
    iform ''VMOVNTDQ_MEMqq_YMMqq'' ''a8fd8fd345d630e348b64983d6f49e4d3'',
    iform ''VMOVNTDQ_MEMu32_XMMu32_AVX512'' ''aac67462a2ca006642e6281a418e4f730'',
    iform ''VMOVNTDQ_MEMu32_YMMu32_AVX512'' ''a614b49d39cea98d387d38b91d3c71498'',
    iform ''VMOVNTDQ_MEMu32_ZMMu32_AVX512'' ''ac9d3f69efff9062f2c7f07667de5b801'',
    iform ''VMOVNTDQA_XMMdq_MEMdq'' ''a638ff813fe89bea55168e005ea96d50b'',
    iform ''VMOVNTDQA_XMMu32_MEMu32_AVX512'' ''a9a55ab52dd7dfeb87e9e27f58b365358'',
    iform ''VMOVNTDQA_YMMqq_MEMqq'' ''a2dae3117ddccedd5570ed03de36fd287'',
    iform ''VMOVNTDQA_YMMu32_MEMu32_AVX512'' ''a904bd3668e898c8dbce2b81b5a73c79b'',
    iform ''VMOVNTDQA_ZMMu32_MEMu32_AVX512'' ''ac0394a154d62430b5a610acd6328ee55'',
    iform ''VMOVNTPD_MEMdq_XMMdq'' ''a08bd7a189e4b40ab38555239bea8e9da'',
    iform ''VMOVNTPD_MEMf64_XMMf64_AVX512'' ''a8f957e10745fc0e1a85c06ed97e7de2a'',
    iform ''VMOVNTPD_MEMf64_YMMf64_AVX512'' ''a0c65d397d1d5338b7849ac5b223df668'',
    iform ''VMOVNTPD_MEMf64_ZMMf64_AVX512'' ''ab2a24f2f16a798b776a9c2900a232ebf'',
    iform ''VMOVNTPD_MEMqq_YMMqq'' ''a8711021c46d1086237298a4cd1d8e280'',
    iform ''VMOVNTPS_MEMdq_XMMdq'' ''a2fd2e22f5b44888b95d26803b53e0e02'',
    iform ''VMOVNTPS_MEMf32_XMMf32_AVX512'' ''a979f6dfa02adc48645fc13e379383b7f'',
    iform ''VMOVNTPS_MEMf32_YMMf32_AVX512'' ''a3bc533de1ca39d6f8f8b1b4f77d0acc0'',
    iform ''VMOVNTPS_MEMf32_ZMMf32_AVX512'' ''aabec1edb194bec34117bb0e7462526be'',
    iform ''VMOVNTPS_MEMqq_YMMqq'' ''a4cbf20746ee233d8a1ba1edc2db64eec'',
    iform ''VMOVQ_GPR64q_XMMq'' ''aba5de29dd8c028b5d8cc1f5ceaa34d35'',
    iform ''VMOVQ_GPR64u64_XMMu64_AVX512'' ''a7107013c748bead43ec345dcd80789ea'',
    iform ''VMOVQ_MEMq_XMMq_7E'' ''a5a16901a2be2a7da51f7757f485c9e04'',
    iform ''VMOVQ_MEMq_XMMq_D6'' ''a66e84f11db2870dc123c4e1d1cc7fe5e'',
    iform ''VMOVQ_MEMu64_XMMu64_AVX512'' ''a174b8dc53d17fee3e877640d2608eb81'',
    iform ''VMOVQ_XMMdq_GPR64q'' ''ab4eca9dfa8b0a8b1f18f3db5a828beb9'',
    iform ''VMOVQ_XMMdq_MEMq_6E'' ''a052b540cf4cdf70f1d501e9b8f4160a7'']"

lemma xed_iform_enum_8h_values_24_closed: "list_all (closed_node scripts) xed_iform_enum_8h_values_24"
  by (simp only: xed_iform_enum_8h_values_24_def closed_rules iform_closed)

definition xed_iform_enum_8h_values_25 :: "nav_node list" where
  "xed_iform_enum_8h_values_25 = [
    iform ''VMOVQ_XMMdq_MEMq_7E'' ''ad75e2fd88f17418e60bf4fcea50072d0'',
    iform ''VMOVQ_XMMdq_XMMq_7E'' ''aa7f3d02c9049bbdf6ef746a58027e4f7'',
    iform ''VMOVQ_XMMdq_XMMq_D6'' ''ab638f54095a858808cda3cc70eded45a'',
    iform ''VMOVQ_XMMu64_GPR64u64_AVX512'' ''a089a4a2abd6ec41d9370d5ed9ab0a0e9'',
    iform ''VMOVQ_XMMu64_MEMu64_AVX512'' ''a1034a86702ac747c1f9870d3eabc7f51'',
    iform ''VMOVQ_XMMu64_XMMu64_AVX512'' ''a128a76e181fbee59e9d657b2fc13f041'',
    iform ''VMOVSD_MEMf64_MASKmskw_XMMf64_AVX512'' ''a6ebcce3d998b1c13cedd9de14e454902'',
    iform ''VMOVSD_MEMq_XMMq'' ''ab8e79df50aab711046a93e2a628f6e7b'',
    iform ''VMOVSD_XMMdq_MEMq'' ''ac6eb6d0a388268dde2ac34fa3004de79'',
    iform ''VMOVSD_XMMdq_XMMdq_XMMq_10'' ''a62c0c7f2795f040c118523b41f01f94f'',
    iform ''VMOVSD_XMMdq_XMMdq_XMMq_11'' ''ab9e6d63325a88d19ba9344a74b55c075'',
    iform ''VMOVSD_XMMf64_MASKmskw_MEMf64_AVX512'' ''a49d278d61aa4520425ef3bf8bc84db3d'',
    iform ''VMOVSD_XMMf64_MASKmskw_XMMf64_XMMf64_AVX512'' ''acb6a31b47fe2bd70a450c702819e9365'',
    iform ''VMOVSHDUP_XMMdq_MEMdq'' ''a4550e9b0c32d43fbb1fd8af932037116'',
    iform ''VMOVSHDUP_XMMdq_XMMdq'' ''ad19d303a97500371c4b1eade1070e8dd'',
    iform ''VMOVSHDUP_XMMf32_MASKmskw_MEMf32_AVX512'' ''a66ed9a78dd2c79cc66ae248bea43c029'',
    iform ''VMOVSHDUP_XMMf32_MASKmskw_XMMf32_AVX512'' ''ab99b8cba83810e3a111c1e06eb07a99f'',
    iform ''VMOVSHDUP_YMMf32_MASKmskw_MEMf32_AVX512'' ''a069e3e411d8e642771960eb4214f5cfa'',
    iform ''VMOVSHDUP_YMMf32_MASKmskw_YMMf32_AVX512'' ''ad814d16590943fb8e939a119b9bba61d'',
    iform ''VMOVSHDUP_YMMqq_MEMqq'' ''a557ca4eeaf4f292665d2d07a94640df0'',
    iform ''VMOVSHDUP_YMMqq_YMMqq'' ''a93b10235dff32db91d5b8d62f3e10f0e'',
    iform ''VMOVSHDUP_ZMMf32_MASKmskw_MEMf32_AVX512'' ''a7552ca495e54d1060ead3a9cab286884'',
    iform ''VMOVSHDUP_ZMMf32_MASKmskw_ZMMf32_AVX512'' ''a0640b488b8a30a99a9281fb5be72f1d7'',
    iform ''VMOVSLDUP_XMMdq_MEMdq'' ''acadae6474515a790cce2623beb7001d0'',
    iform ''VMOVSLDUP_XMMdq_XMMdq'' ''a0db696b1b65886762c7aacf88aebe2b6'',
    iform ''VMOVSLDUP_XMMf32_MASKmskw_MEMf32_AVX512'' ''a018db3b70a730cd68d65d712258b05b7'',
    iform ''VMOVSLDUP_XMMf32_MASKmskw_XMMf32_AVX512'' ''a2bce832e985602795e039bcccccfe29e'',
    iform ''VMOVSLDUP_YMMf32_MASKmskw_MEMf32_AVX512'' ''a4d21baea6753fc380465b7400d9155c4'',
    iform ''VMOVSLDUP_YMMf32_MASKmskw_YMMf32_AVX512'' ''a2c80acbcffbc735e4e224b7a2a1a551d'',
    iform ''VMOVSLDUP_YMMqq_MEMqq'' ''a2054777334fe67f7f170d0c1b28f0cbb'',
    iform ''VMOVSLDUP_YMMqq_YMMqq'' ''a7c89ab8d1d205913fd3c7e3922c07b07'',
    iform ''VMOVSLDUP_ZMMf32_MASKmskw_MEMf32_AVX512'' ''a423a8d7d3479c203d01c01bc0e3b575a'',
    iform ''VMOVSLDUP_ZMMf32_MASKmskw_ZMMf32_AVX512'' ''aa46a4d50e999c97f29dfa6cd7dae00ab'',
    iform ''VMOVSS_MEMd_XMMd'' ''a576baad0f861513a920d05ad9ad96b86'',
    iform ''VMOVSS_MEMf32_MASKmskw_XMMf32_AVX512'' ''a07cf8a6ee85b45400e8373e02e5992fe'',
    iform ''VMOVSS_XMMdq_MEMd'' ''a13a17a52a6817c89a471ac48bdbd670a'',
    iform ''VMOVSS_XMMdq_XMMdq_XMMd_10'' ''adcb698a5ff1b6aec1187d4dcbf273a27'',
    iform ''VMOVSS_XMMdq_XMMdq_XMMd_11'' ''a9b748047f71ee36c69e59f7d84a74c19'',
    iform ''VMOVSS_XMMf32_MASKmskw_MEMf32_AVX512'' ''aaeeab8e4d1453e916d76665b8043aeb2'',
    iform ''VMOVSS_XMMf32_MASKmskw_XMMf32_XMMf32_AVX512'' ''a0abc4797a44d1e0f1749d8eb9559535e'',
    iform ''VMOVUPD_MEMdq_XMMdq'' ''afaae9967dadc92fbbee800e7b347c483'',
    iform ''VMOVUPD_MEMf64_MASKmskw_XMMf64_AVX512'' ''aaa54f589659f1317a068817e9475b268'',
    iform ''VMOVUPD_MEMf64_MASKmskw_YMMf64_AVX512'' ''a8eb68ca46d378107f7c57bcf940c746f'',
    iform ''VMOVUPD_MEMf64_MASKmskw_ZMMf64_AVX512'' ''a68cff502d15a88f48974018fee98e441'',
    iform ''VMOVUPD_MEMqq_YMMqq'' ''a9b642684f17025fb01ae16d4df03933f'',
    iform ''VMOVUPD_XMMdq_MEMdq'' ''a392934cb5c07f416d2aa149aa1e62b3c'',
    iform ''VMOVUPD_XMMdq_XMMdq_10'' ''a76e3ba9b2bd1bb6ce096afa6308e800d'',
    iform ''VMOVUPD_XMMdq_XMMdq_11'' ''ab5f192921522defe07ca77462fa63d0a'',
    iform ''VMOVUPD_XMMf64_MASKmskw_MEMf64_AVX512'' ''ab81755f34314ee1dda950448845a694c'',
    iform ''VMOVUPD_XMMf64_MASKmskw_XMMf64_AVX512'' ''a128ac4ef7250a5c12bd8ac9d1ddadce8'',
    iform ''VMOVUPD_YMMf64_MASKmskw_MEMf64_AVX512'' ''aa288c3ceb5313f5b48708ffb290a1407'',
    iform ''VMOVUPD_YMMf64_MASKmskw_YMMf64_AVX512'' ''abf168141cc585b0933ab723084fcca27'',
    iform ''VMOVUPD_YMMqq_MEMqq'' ''a0441f786f7175351b2025df7a5e4d782'',
    iform ''VMOVUPD_YMMqq_YMMqq_10'' ''ad52c2a9c84b03584be10071e83b6d227'',
    iform ''VMOVUPD_YMMqq_YMMqq_11'' ''a63b54042c8ff26e5202d8930f7fe4d4c'',
    iform ''VMOVUPD_ZMMf64_MASKmskw_MEMf64_AVX512'' ''a54aaad5a92924d2d1e0c7d1583bcca2c'',
    iform ''VMOVUPD_ZMMf64_MASKmskw_ZMMf64_AVX512'' ''aacf0b85969a45be45915eca62f4aa7d5'',
    iform ''VMOVUPS_MEMdq_XMMdq'' ''ab2f15405ac06776184ce81fc687d46df'',
    iform ''VMOVUPS_MEMf32_MASKmskw_XMMf32_AVX512'' ''a3799ba5d8138e553bb46501dad02eda5'',
    iform ''VMOVUPS_MEMf32_MASKmskw_YMMf32_AVX512'' ''a9e6769879047eba0b97092110ebc066a'',
    iform ''VMOVUPS_MEMf32_MASKmskw_ZMMf32_AVX512'' ''aa3babe17a635b8eef23a05b320938fe4'',
    iform ''VMOVUPS_MEMqq_YMMqq'' ''a1e2213a7cc98b76e577bd85bc1c8e656'',
    iform ''VMOVUPS_XMMdq_MEMdq'' ''a76d958ce67f727b388da25acb6b1f7e5'',
    iform ''VMOVUPS_XMMdq_XMMdq_10'' ''a6b6673fee2c8a0cda734789be8c18d6d'',
    iform ''VMOVUPS_XMMdq_XMMdq_11'' ''a38f531c819853bc27727c3d04925f24c'',
    iform ''VMOVUPS_XMMf32_MASKmskw_MEMf32_AVX512'' ''ab153583b79d02d5d42c1fc8b0e5698d5'',
    iform ''VMOVUPS_XMMf32_MASKmskw_XMMf32_AVX512'' ''a42ad62b60d3a783bf438c9a1c613f343'',
    iform ''VMOVUPS_YMMf32_MASKmskw_MEMf32_AVX512'' ''aaf225eafa8bd637fe751313fb4aba8b5'',
    iform ''VMOVUPS_YMMf32_MASKmskw_YMMf32_AVX512'' ''a092682879605304fd720c06d01ecd275'',
    iform ''VMOVUPS_YMMqq_MEMqq'' ''a20197639d1bfeb1778cd97db2d97a58e'',
    iform ''VMOVUPS_YMMqq_YMMqq_10'' ''a420f256bdb1f5d904d0641d959cef0c0'',
    iform ''VMOVUPS_YMMqq_YMMqq_11'' ''a5ac74e4b627caa942696d5021137b2e9'',
    iform ''VMOVUPS_ZMMf32_MASKmskw_MEMf32_AVX512'' ''ab2bd8c8699344bf22379d384db5f4958'',
    iform ''VMOVUPS_ZMMf32_MASKmskw_ZMMf32_AVX512'' ''a072f53d83717e44a3f52d309489e0908'',
    iform ''VMPSADBW_XMMdq_XMMdq_MEMdq_IMMb'' ''a4644cba21b06208ae8ec1123437aafa5'',
    iform ''VMPSADBW_XMMdq_XMMdq_XMMdq_IMMb'' ''a0ad2445747149711f25d33ed39550352'',
    iform ''VMPSADBW_YMMqq_YMMqq_MEMqq_IMMb'' ''a25c2b0ace49a68e70eb217c3c3547dde'',
    iform ''VMPSADBW_YMMqq_YMMqq_YMMqq_IMMb'' ''a3b5d33481d171052c0f0a64107b2189d'',
    iform ''VMPTRLD_MEMq'' ''a6a9164aea46b17b650bf01e3310373e4'',
    iform ''VMPTRST_MEMq'' ''a319df39ca2bff19bf27fbd1dfbc3c340'',
    iform ''VMREAD_GPR32_GPR32'' ''ad99a8bff047cb04676339ebf402f688a'',
    iform ''VMREAD_GPR64_GPR64'' ''ad0719f03a3fa36ff9a8214dbb3060c6b'',
    iform ''VMREAD_MEMd_GPR32'' ''a26a0041ffccd58c568f0b28f30240dda'',
    iform ''VMREAD_MEMq_GPR64'' ''a920d628e0cdee0bc6bfc16da35711ca6'',
    iform ''VMRESUME'' ''a3df3d81e7a245e981b0646361a90100b'',
    iform ''VMRUN_OrAX'' ''a5bdef919c6d065f1b747f55f648bafd0'',
    iform ''VMSAVE'' ''a567b7baa1b267d5ac33ac7cca81273fc'',
    iform ''VMULPD_XMMdq_XMMdq_MEMdq'' ''ab1fbdd08f445754bb168fa27650e2a00'',
    iform ''VMULPD_XMMdq_XMMdq_XMMdq'' ''a84192b8e90e8720cec4b0beafc4ceca8'',
    iform ''VMULPD_XMMf64_MASKmskw_XMMf64_MEMf64_AVX512'' ''ad37c908d3c72f50248eac1a8fedef757'',
    iform ''VMULPD_XMMf64_MASKmskw_XMMf64_XMMf64_AVX512'' ''a42824f91f75db235f99ca0a6efbe7e18'',
    iform ''VMULPD_YMMf64_MASKmskw_YMMf64_MEMf64_AVX512'' ''a03f78af2db19d45ff667f8bcb894f127'',
    iform ''VMULPD_YMMf64_MASKmskw_YMMf64_YMMf64_AVX512'' ''a4ca4a605198214092cfccbb7d94fe127'',
    iform ''VMULPD_YMMqq_YMMqq_MEMqq'' ''abfc3ed4e06b1d9b6db3b162b601777e3'',
    iform ''VMULPD_YMMqq_YMMqq_YMMqq'' ''a4672ae454d93860216031457c931a78f'',
    iform ''VMULPD_ZMMf64_MASKmskw_ZMMf64_MEMf64_AVX512'' ''acc423e97e7e7f75045aa39e1ff2eb47e'',
    iform ''VMULPD_ZMMf64_MASKmskw_ZMMf64_ZMMf64_AVX512'' ''a6f139169dc0a411e47e139a6b7f4d23f'',
    iform ''VMULPS_XMMdq_XMMdq_MEMdq'' ''ae823c1f15fd8fbe1b408d93d3f083b5b'',
    iform ''VMULPS_XMMdq_XMMdq_XMMdq'' ''a660acabb7e1e2687885edf93e92017fc'',
    iform ''VMULPS_XMMf32_MASKmskw_XMMf32_MEMf32_AVX512'' ''a63450c9ed3ce60b551be3d7967fdcc8a'',
    iform ''VMULPS_XMMf32_MASKmskw_XMMf32_XMMf32_AVX512'' ''a0152cc738bd1837dc3de8c1c3079fbe6'',
    iform ''VMULPS_YMMf32_MASKmskw_YMMf32_MEMf32_AVX512'' ''a23fdc69fb8f02495b6fa7cd8d94fd34f'',
    iform ''VMULPS_YMMf32_MASKmskw_YMMf32_YMMf32_AVX512'' ''a4a3ec42fea5e304fa7abca204d9bd8e4'',
    iform ''VMULPS_YMMqq_YMMqq_MEMqq'' ''a1e212dbe9970f103398144cc30a5c42b'',
    iform ''VMULPS_YMMqq_YMMqq_YMMqq'' ''a91a46d254d6e70e9fc22752c8b6b004f'',
    iform ''VMULPS_ZMMf32_MASKmskw_ZMMf32_MEMf32_AVX512'' ''a88799dbb0eb7c4a9209005443ab58f0a'',
    iform ''VMULPS_ZMMf32_MASKmskw_ZMMf32_ZMMf32_AVX512'' ''a5aa466364e46fd49873fe16b58cddf9a'',
    iform ''VMULSD_XMMdq_XMMdq_MEMq'' ''afb3220ee2f32ee4641cd9aa796857c1f'',
    iform ''VMULSD_XMMdq_XMMdq_XMMq'' ''aea71f0b8118f0b567f39e5e7096c147f'',
    iform ''VMULSD_XMMf64_MASKmskw_XMMf64_MEMf64_AVX512'' ''a7c87d30e74cdbede597b7a48f9fa590e'',
    iform ''VMULSD_XMMf64_MASKmskw_XMMf64_XMMf64_AVX512'' ''a8b060128695f4902639c15333c3d084f'',
    iform ''VMULSS_XMMdq_XMMdq_MEMd'' ''a618025efd28d9450659262393a9cdc12'',
    iform ''VMULSS_XMMdq_XMMdq_XMMd'' ''abb4f4c41cc7101211d45184e41341cc8'',
    iform ''VMULSS_XMMf32_MASKmskw_XMMf32_MEMf32_AVX512'' ''a3ba5234f0771feb4d2861313e9aa15bc'',
    iform ''VMULSS_XMMf32_MASKmskw_XMMf32_XMMf32_AVX512'' ''af8eece1e3312742fde8cfe375f61c185'',
    iform ''VMWRITE_GPR32_GPR32'' ''a30f204d0ce6c54cf44b64fd476da76c2'',
    iform ''VMWRITE_GPR32_MEMd'' ''ab7765533456ed03a5e0ab6bc78228458'',
    iform ''VMWRITE_GPR64_GPR64'' ''a39212e4ac3690abe1792bb4c6894ad14'',
    iform ''VMWRITE_GPR64_MEMq'' ''a2839d5131edaa1e2dc21337a2b33c5cf'',
    iform ''VMXOFF'' ''a52cc4d6d7ee15f02d3e3146ccc660720'',
    iform ''VMXON_MEMq'' ''a2724321e47658323506a1f132efd98f6'',
    iform ''VORPD_XMMdq_XMMdq_MEMdq'' ''adfb76aff24328661485c6fd6cfa87adf'',
    iform ''VORPD_XMMdq_XMMdq_XMMdq'' ''a5b9edcb2a3865bf5d9122f7c3c221125'',
    iform ''VORPD_XMMf64_MASKmskw_XMMf64_MEMf64_AVX512'' ''ac0c7f9c38be546e73c309fa7098997cb'',
    iform ''VORPD_XMMf64_MASKmskw_XMMf64_XMMf64_AVX512'' ''a7bfefe953f5e69a13200596341a1ec5d'',
    iform ''VORPD_YMMf64_MASKmskw_YMMf64_MEMf64_AVX512'' ''afc432bc77667097db5d65b54875b7ef4'',
    iform ''VORPD_YMMf64_MASKmskw_YMMf64_YMMf64_AVX512'' ''a3fbdf7f638e7328b84ffa80072d8412f'',
    iform ''VORPD_YMMqq_YMMqq_MEMqq'' ''afc3a6bd2b5dccfb69d82ad857e0ca72c'',
    iform ''VORPD_YMMqq_YMMqq_YMMqq'' ''a5569d5758d346d2d4702d56bfc2a7135'',
    iform ''VORPD_ZMMf64_MASKmskw_ZMMf64_MEMf64_AVX512'' ''a1f2e6a459026ddebd811333d4fe52a85'',
    iform ''VORPD_ZMMf64_MASKmskw_ZMMf64_ZMMf64_AVX512'' ''a801db30d7b79b39b54521a17215f4c8f'',
    iform ''VORPS_XMMdq_XMMdq_MEMdq'' ''ae8d89baa836f68b11efec4ba856bba5b'',
    iform ''VORPS_XMMdq_XMMdq_XMMdq'' ''afd99b2ae4ccd075ea17e53b0b1238507'',
    iform ''VORPS_XMMf32_MASKmskw_XMMf32_MEMf32_AVX512'' ''aba25a4c8d8f05dde175b06a446a5d37c'',
    iform ''VORPS_XMMf32_MASKmskw_XMMf32_XMMf32_AVX512'' ''aa82266c6a4fde63b433d299bab87ddaa'',
    iform ''VORPS_YMMf32_MASKmskw_YMMf32_MEMf32_AVX512'' ''a876de2514cb0d0680dcc87da47ce6e46'',
    iform ''VORPS_YMMf32_MASKmskw_YMMf32_YMMf32_AVX512'' ''acebe28cd468d5748d93a604c7738deb3'',
    iform ''VORPS_YMMqq_YMMqq_MEMqq'' ''ae449385f2b7707b92f15440e91d2a924'',
    iform ''VORPS_YMMqq_YMMqq_YMMqq'' ''ab6a753d1b79c0138f6398db5a93f18cb'',
    iform ''VORPS_ZMMf32_MASKmskw_ZMMf32_MEMf32_AVX512'' ''a1b9bce689e2492b1260f94c9fc818fb8'']"

lemma xed_iform_enum_8h_values_25_closed: "list_all (closed_node scripts) xed_iform_enum_8h_values_25"
  by (simp only: xed_iform_enum_8h_values_25_def closed_rules iform_closed)

definition xed_iform_enum_8h_values_26 :: "nav_node list" where
  "xed_iform_enum_8h_values_26 = [
    iform ''VORPS_ZMMf32_MASKmskw_ZMMf32_ZMMf32_AVX512'' ''add25dcbd7d12102b0b3bb4109a24cf5c'',
    iform ''VPABSB_XMMdq_MEMdq'' ''a6b037b53f9c61441a722ee7f139e065f'',
    iform ''VPABSB_XMMdq_XMMdq'' ''a63d0d3f0e43fa1596321923354e01811'',
    iform ''VPABSB_XMMi8_MASKmskw_MEMi8_AVX512'' ''aae04d9c56eef7d5fa2613b5d49892541'',
    iform ''VPABSB_XMMi8_MASKmskw_XMMi8_AVX512'' ''a3250acd51074437e3ff8332916e9785e'',
    iform ''VPABSB_YMMi8_MASKmskw_MEMi8_AVX512'' ''a475ad0dfdfaad94648744c3f1d945bf7'',
    iform ''VPABSB_YMMi8_MASKmskw_YMMi8_AVX512'' ''a4b2c50ca353932cca6c078099c2d8c9c'',
    iform ''VPABSB_YMMqq_MEMqq'' ''a924935b7334dbb6ec02732d885c33302'',
    iform ''VPABSB_YMMqq_YMMqq'' ''a3c0e6784ab732200dc4558ca7e3b52c6'',
    iform ''VPABSB_ZMMi8_MASKmskw_MEMi8_AVX512'' ''acd1180a15a0d42fbdc313f06df8448ee'',
    iform ''VPABSB_ZMMi8_MASKmskw_ZMMi8_AVX512'' ''a7a07193f7075bf6d3d106cf4a7aeb9ba'',
    iform ''VPABSD_XMMdq_MEMdq'' ''a572f116907100a4ff727da442d8b3ed8'',
    iform ''VPABSD_XMMdq_XMMdq'' ''a0d81232464d4e29847ca6c7c5a1af71e'',
    iform ''VPABSD_XMMi32_MASKmskw_MEMi32_AVX512'' ''af9894f372b823c1370a941267fc797e6'',
    iform ''VPABSD_XMMi32_MASKmskw_XMMi32_AVX512'' ''a1ca6c72aa11b34f7b6330632834ee9af'',
    iform ''VPABSD_YMMi32_MASKmskw_MEMi32_AVX512'' ''a336431dd83a959d361f11073513cbeca'',
    iform ''VPABSD_YMMi32_MASKmskw_YMMi32_AVX512'' ''a26a9389f0162df4db52c184ac4bad804'',
    iform ''VPABSD_YMMqq_MEMqq'' ''ae3490b421a736b9a6bcf63b1e95d51a1'',
    iform ''VPABSD_YMMqq_YMMqq'' ''a526fbaf3dfd32058fc53bc3dabd20999'',
    iform ''VPABSD_ZMMi32_MASKmskw_MEMi32_AVX512'' ''aaeb70e67faac7dde1448270f48a680c7'',
    iform ''VPABSD_ZMMi32_MASKmskw_ZMMi32_AVX512'' ''a90cbb394122e4c6e77dc5459aa3f5391'',
    iform ''VPABSQ_XMMi64_MASKmskw_MEMi64_AVX512'' ''ab6492cf41b7848a919c224965bc2f1b6'',
    iform ''VPABSQ_XMMi64_MASKmskw_XMMi64_AVX512'' ''a404bea301be276e9f493f076438238cb'',
    iform ''VPABSQ_YMMi64_MASKmskw_MEMi64_AVX512'' ''acb5949935f28eb6c6da7930441e3004d'',
    iform ''VPABSQ_YMMi64_MASKmskw_YMMi64_AVX512'' ''a2626ef7a00933759785fd08f0c51c630'',
    iform ''VPABSQ_ZMMi64_MASKmskw_MEMi64_AVX512'' ''a2e955614a38de5cfac41704d023c54f5'',
    iform ''VPABSQ_ZMMi64_MASKmskw_ZMMi64_AVX512'' ''af203b045baa4e80040c56d7763ca6c26'',
    iform ''VPABSW_XMMdq_MEMdq'' ''aefa464a34f92891314ef540fe1a2cf75'',
    iform ''VPABSW_XMMdq_XMMdq'' ''a31a535842e6c46e8c7f919bd466fca64'',
    iform ''VPABSW_XMMi16_MASKmskw_MEMi16_AVX512'' ''a4393b805f29abb7ab1dd6755cce57594'',
    iform ''VPABSW_XMMi16_MASKmskw_XMMi16_AVX512'' ''a2840264e3943c9893a536029fac69c41'',
    iform ''VPABSW_YMMi16_MASKmskw_MEMi16_AVX512'' ''a5fdfc9def13406b65fc176b534fa93b7'',
    iform ''VPABSW_YMMi16_MASKmskw_YMMi16_AVX512'' ''af5b9f28008a57168f139cb4123b54cc6'',
    iform ''VPABSW_YMMqq_MEMqq'' ''a4dd073eea77b40884ddec059d2fb4323'',
    iform ''VPABSW_YMMqq_YMMqq'' ''a7bd68d52730277335afde028193e884c'',
    iform ''VPABSW_ZMMi16_MASKmskw_MEMi16_AVX512'' ''ab77d496caeacee2d8709715e1fc0312f'',
    iform ''VPABSW_ZMMi16_MASKmskw_ZMMi16_AVX512'' ''a90db365713c76444e48181c15a564643'',
    iform ''VPACKSSDW_XMMdq_XMMdq_MEMdq'' ''aa6f50f28a576db129edba4529ab2ee04'',
    iform ''VPACKSSDW_XMMdq_XMMdq_XMMdq'' ''a9dbd5e02b751f144ab1c855a54d48674'',
    iform ''VPACKSSDW_XMMi16_MASKmskw_XMMi32_MEMi32_AVX512'' ''a8d944d026e167a557a7506ea48fe8cbc'',
    iform ''VPACKSSDW_XMMi16_MASKmskw_XMMi32_XMMi32_AVX512'' ''aee4ee5c423a46ca97a2f9ba73b9773a0'',
    iform ''VPACKSSDW_YMMi16_MASKmskw_YMMi32_MEMi32_AVX512'' ''a9017b299089ea3bc1610bebdf77061c2'',
    iform ''VPACKSSDW_YMMi16_MASKmskw_YMMi32_YMMi32_AVX512'' ''a28906cd5f4b18b00e907e3c637efc6b2'',
    iform ''VPACKSSDW_YMMqq_YMMqq_MEMqq'' ''a091af192b2bd2c41132c57b7bfd88cc2'',
    iform ''VPACKSSDW_YMMqq_YMMqq_YMMqq'' ''a86b5fd1c11d39dde413880c05bbf9c96'',
    iform ''VPACKSSDW_ZMMi16_MASKmskw_ZMMi32_MEMi32_AVX512'' ''a40e17ea881e55a1d2694d882abc6a3d5'',
    iform ''VPACKSSDW_ZMMi16_MASKmskw_ZMMi32_ZMMi32_AVX512'' ''a3a7c593b92c6ee74293e7edd5e468ecc'',
    iform ''VPACKSSWB_XMMdq_XMMdq_MEMdq'' ''aae319a2297023564bc4cd5d053134270'',
    iform ''VPACKSSWB_XMMdq_XMMdq_XMMdq'' ''a31f34562a8bcb20dd05b51771d8d78e9'',
    iform ''VPACKSSWB_XMMi8_MASKmskw_XMMi16_MEMi16_AVX512'' ''ac78edba4adb232448823c3a6b57e148c'',
    iform ''VPACKSSWB_XMMi8_MASKmskw_XMMi16_XMMi16_AVX512'' ''a5c865e4ec1b54a8d9348fa4c8b954e30'',
    iform ''VPACKSSWB_YMMi8_MASKmskw_YMMi16_MEMi16_AVX512'' ''aa63d9596237b6222abaeb58301d8bf41'',
    iform ''VPACKSSWB_YMMi8_MASKmskw_YMMi16_YMMi16_AVX512'' ''a2e1f5d780ef424016a49b7546d99ed23'',
    iform ''VPACKSSWB_YMMqq_YMMqq_MEMqq'' ''aae79885766f37ec289b9ebf74967dbcb'',
    iform ''VPACKSSWB_YMMqq_YMMqq_YMMqq'' ''a0f940556217b2c6482e3daa652a57603'',
    iform ''VPACKSSWB_ZMMi8_MASKmskw_ZMMi16_MEMi16_AVX512'' ''a567e4bcc456458a27313b05994374da7'',
    iform ''VPACKSSWB_ZMMi8_MASKmskw_ZMMi16_ZMMi16_AVX512'' ''a0156732bee51510eb6a333c346c91711'',
    iform ''VPACKUSDW_XMMdq_XMMdq_MEMdq'' ''a63701d5eba6d10465573821a7264c347'',
    iform ''VPACKUSDW_XMMdq_XMMdq_XMMdq'' ''a8f8fe00464e3bab3b580e53717df35c3'',
    iform ''VPACKUSDW_XMMu16_MASKmskw_XMMu32_MEMu32_AVX512'' ''a1988d7afa8fa3891be0e4eecc91b90eb'',
    iform ''VPACKUSDW_XMMu16_MASKmskw_XMMu32_XMMu32_AVX512'' ''ac4aff01121af81f38d7912ef81c8281a'',
    iform ''VPACKUSDW_YMMqq_YMMqq_MEMqq'' ''a02fd4c7877b67ef4e72401aac33c717a'',
    iform ''VPACKUSDW_YMMqq_YMMqq_YMMqq'' ''ae4a571459800b6b3969ebbc358dde98e'',
    iform ''VPACKUSDW_YMMu16_MASKmskw_YMMu32_MEMu32_AVX512'' ''a7260abcf0f5964f3565f8255af2d6a63'',
    iform ''VPACKUSDW_YMMu16_MASKmskw_YMMu32_YMMu32_AVX512'' ''ace8e3ffbacde39899a51ec6a6c76d79c'',
    iform ''VPACKUSDW_ZMMu16_MASKmskw_ZMMu32_MEMu32_AVX512'' ''adef84673d7fbef9a1c378b009abb21c3'',
    iform ''VPACKUSDW_ZMMu16_MASKmskw_ZMMu32_ZMMu32_AVX512'' ''ae95174303a5fa224126013f0171ef238'',
    iform ''VPACKUSWB_XMMdq_XMMdq_MEMdq'' ''a3ff581a96545dcb601b2103db2655d43'',
    iform ''VPACKUSWB_XMMdq_XMMdq_XMMdq'' ''a962992b86d886152fa1f86392d4a62cb'',
    iform ''VPACKUSWB_XMMu8_MASKmskw_XMMu16_MEMu16_AVX512'' ''a31404676243826effac654a9989cbe1c'',
    iform ''VPACKUSWB_XMMu8_MASKmskw_XMMu16_XMMu16_AVX512'' ''a67be1721bdffc15d61b0e2765449c771'',
    iform ''VPACKUSWB_YMMqq_YMMqq_MEMqq'' ''af625f9d7882e499ee942f4c61388d118'',
    iform ''VPACKUSWB_YMMqq_YMMqq_YMMqq'' ''ad9dfb8658be76f28f26e9de878b5ed81'',
    iform ''VPACKUSWB_YMMu8_MASKmskw_YMMu16_MEMu16_AVX512'' ''afc736f8e6167bd21b97594a3aaa7b09a'',
    iform ''VPACKUSWB_YMMu8_MASKmskw_YMMu16_YMMu16_AVX512'' ''ab308c29348f2e785f4d7aeb963a0559c'',
    iform ''VPACKUSWB_ZMMu8_MASKmskw_ZMMu16_MEMu16_AVX512'' ''a8adf01f1a2adb169a2c6824d4c5afcec'',
    iform ''VPACKUSWB_ZMMu8_MASKmskw_ZMMu16_ZMMu16_AVX512'' ''a98025a8770dbab825fd65c884ae059f4'',
    iform ''VPADDB_XMMdq_XMMdq_MEMdq'' ''afee63d2f03a8d1b5f800d3a5e5024148'',
    iform ''VPADDB_XMMdq_XMMdq_XMMdq'' ''a097edc8cf254c5a2cf060df8ce7a9276'',
    iform ''VPADDB_XMMu8_MASKmskw_XMMu8_MEMu8_AVX512'' ''ac6a4c4690bcc99242efa378b46d3b0bf'',
    iform ''VPADDB_XMMu8_MASKmskw_XMMu8_XMMu8_AVX512'' ''a51241a83e3e0358f30ff1eb21c7b9b21'',
    iform ''VPADDB_YMMqq_YMMqq_MEMqq'' ''ad2f7772efd096b5d87fc2cfdaf544f46'',
    iform ''VPADDB_YMMqq_YMMqq_YMMqq'' ''a262052a052cd2b3ae89765a005576b4c'',
    iform ''VPADDB_YMMu8_MASKmskw_YMMu8_MEMu8_AVX512'' ''a5c4c0b4463c4417f96049f2aad71df82'',
    iform ''VPADDB_YMMu8_MASKmskw_YMMu8_YMMu8_AVX512'' ''ac572eb4ba0e771608505f413a2f13ee4'',
    iform ''VPADDB_ZMMu8_MASKmskw_ZMMu8_MEMu8_AVX512'' ''a73f29e9de8691754fa68ec97e35d8bc7'',
    iform ''VPADDB_ZMMu8_MASKmskw_ZMMu8_ZMMu8_AVX512'' ''a977b756f5293df64ea59a8dbfaa8bbed'',
    iform ''VPADDD_XMMdq_XMMdq_MEMdq'' ''af3eead70bd2e67f53eebe8b202abf66a'',
    iform ''VPADDD_XMMdq_XMMdq_XMMdq'' ''aca54f4d14a78a75d7f76692c2ff5ea86'',
    iform ''VPADDD_XMMu32_MASKmskw_XMMu32_MEMu32_AVX512'' ''a07c0bab20ac411f2c82af4f3f43fb82c'',
    iform ''VPADDD_XMMu32_MASKmskw_XMMu32_XMMu32_AVX512'' ''aa96b06d08f687e33d1eb080a5feaaef3'',
    iform ''VPADDD_YMMqq_YMMqq_MEMqq'' ''ab2c06e9e571514966ade3c389a46d3e9'',
    iform ''VPADDD_YMMqq_YMMqq_YMMqq'' ''ab063e968a40e2a0eb814e278295dce22'',
    iform ''VPADDD_YMMu32_MASKmskw_YMMu32_MEMu32_AVX512'' ''a83cb97a47cea0b60ceeb6423c8f1f4aa'',
    iform ''VPADDD_YMMu32_MASKmskw_YMMu32_YMMu32_AVX512'' ''ab445a86f1f779f08afbe2bfa131db5a2'',
    iform ''VPADDD_ZMMu32_MASKmskw_ZMMu32_MEMu32_AVX512'' ''a6678f47ef366c1ade91dfbdbffe87e51'',
    iform ''VPADDD_ZMMu32_MASKmskw_ZMMu32_ZMMu32_AVX512'' ''ae0feafbf75f6764c1a0b1746eed82f68'',
    iform ''VPADDQ_XMMdq_XMMdq_MEMdq'' ''a2a16e62e1f32b369f1e3fa4e5e1619c8'',
    iform ''VPADDQ_XMMdq_XMMdq_XMMdq'' ''a259906179c2c1f382bd56e2f8f11deb8'',
    iform ''VPADDQ_XMMu64_MASKmskw_XMMu64_MEMu64_AVX512'' ''a7ac2044f7723408f511d2f67a9ab5122'',
    iform ''VPADDQ_XMMu64_MASKmskw_XMMu64_XMMu64_AVX512'' ''ab281545d075c7730582fc94235be19f8'',
    iform ''VPADDQ_YMMqq_YMMqq_MEMqq'' ''a35a552bcfe803069bd0b4e7562e48772'',
    iform ''VPADDQ_YMMqq_YMMqq_YMMqq'' ''a5ec8ce6c029937e7d811a51d6bbc5fd1'',
    iform ''VPADDQ_YMMu64_MASKmskw_YMMu64_MEMu64_AVX512'' ''ad0b0b449ae39e72d5fd0cc9adca27235'',
    iform ''VPADDQ_YMMu64_MASKmskw_YMMu64_YMMu64_AVX512'' ''a9a6f9b35498963c8f9a88baf1fa5d17d'',
    iform ''VPADDQ_ZMMu64_MASKmskw_ZMMu64_MEMu64_AVX512'' ''ae1b0fb151edb83671cb38fda9d81bdf6'',
    iform ''VPADDQ_ZMMu64_MASKmskw_ZMMu64_ZMMu64_AVX512'' ''a01466a50b22f474a894cb30b0aa9c90e'',
    iform ''VPADDSB_XMMdq_XMMdq_MEMdq'' ''ab50313afbf3cf336df400dd78344996a'',
    iform ''VPADDSB_XMMdq_XMMdq_XMMdq'' ''ace09718d675ba7772d61e8cdefc797b6'',
    iform ''VPADDSB_XMMi8_MASKmskw_XMMi8_MEMi8_AVX512'' ''a15173d5ce893848636539eef86094dd3'',
    iform ''VPADDSB_XMMi8_MASKmskw_XMMi8_XMMi8_AVX512'' ''ace92b63b3da442f761f93227a4bc3564'',
    iform ''VPADDSB_YMMi8_MASKmskw_YMMi8_MEMi8_AVX512'' ''a2d64be8aa7e286742007051140caf7af'',
    iform ''VPADDSB_YMMi8_MASKmskw_YMMi8_YMMi8_AVX512'' ''a3ce73413a37b10475508fba7c91aa143'',
    iform ''VPADDSB_YMMqq_YMMqq_MEMqq'' ''add27a77b0346e6eda694d01384cb7c05'',
    iform ''VPADDSB_YMMqq_YMMqq_YMMqq'' ''a74ef5f79aedcc8193490ac755deb1da6'',
    iform ''VPADDSB_ZMMi8_MASKmskw_ZMMi8_MEMi8_AVX512'' ''a2025b04b45eeec66149ae1a42579f9b9'',
    iform ''VPADDSB_ZMMi8_MASKmskw_ZMMi8_ZMMi8_AVX512'' ''adc5c0447509868e5fa1e522f5055b5eb'',
    iform ''VPADDSW_XMMdq_XMMdq_MEMdq'' ''a6d7326091ff4fbc0e66af474486954ed'',
    iform ''VPADDSW_XMMdq_XMMdq_XMMdq'' ''a6bb78ba843954e1e4352efa239add21e'',
    iform ''VPADDSW_XMMi16_MASKmskw_XMMi16_MEMi16_AVX512'' ''ad6eeb47d19ad5e318145c89b8ba276de'',
    iform ''VPADDSW_XMMi16_MASKmskw_XMMi16_XMMi16_AVX512'' ''a0d83d9fc1cfbc0732dccf6e6ffe5f4dd'',
    iform ''VPADDSW_YMMi16_MASKmskw_YMMi16_MEMi16_AVX512'' ''ac236dee300e0abd6a21e7d0005cc1456'',
    iform ''VPADDSW_YMMi16_MASKmskw_YMMi16_YMMi16_AVX512'' ''ab9d3feca9787184859510dc421e9e136'',
    iform ''VPADDSW_YMMqq_YMMqq_MEMqq'' ''ad5b420d71a02f7b56622d04a06f9e86f'',
    iform ''VPADDSW_YMMqq_YMMqq_YMMqq'' ''a7df62ebd120f316d08bf3d25fdc26906'',
    iform ''VPADDSW_ZMMi16_MASKmskw_ZMMi16_MEMi16_AVX512'' ''a02cd51baeb2ce59f74b26e1248d257f2'',
    iform ''VPADDSW_ZMMi16_MASKmskw_ZMMi16_ZMMi16_AVX512'' ''a1c2933693e80ed932001e417f9ddb0d9'',
    iform ''VPADDUSB_XMMdq_XMMdq_MEMdq'' ''a63c35bfb869b813a7cd8fa606b9b0dba'',
    iform ''VPADDUSB_XMMdq_XMMdq_XMMdq'' ''a8ad4170370062b109c05c8ac4a92a936'',
    iform ''VPADDUSB_XMMu8_MASKmskw_XMMu8_MEMu8_AVX512'' ''a0b6a639e7bfe56d3452c13eedb14c956'',
    iform ''VPADDUSB_XMMu8_MASKmskw_XMMu8_XMMu8_AVX512'' ''a339aa40febc8172054c872508f2dd0c0'',
    iform ''VPADDUSB_YMMqq_YMMqq_MEMqq'' ''a47e4c6d6dcf44be82b9691c8af1ac363'',
    iform ''VPADDUSB_YMMqq_YMMqq_YMMqq'' ''ac92e7c2aab47712db346937910f77f45'',
    iform ''VPADDUSB_YMMu8_MASKmskw_YMMu8_MEMu8_AVX512'' ''a3fe547588121a300b3d03f355efa9530'',
    iform ''VPADDUSB_YMMu8_MASKmskw_YMMu8_YMMu8_AVX512'' ''a1d37d6879498dd36ed123f0ffb792512'',
    iform ''VPADDUSB_ZMMu8_MASKmskw_ZMMu8_MEMu8_AVX512'' ''a4d70b8eeaa56bec71343bcc4b29e3f46'',
    iform ''VPADDUSB_ZMMu8_MASKmskw_ZMMu8_ZMMu8_AVX512'' ''ad9cf434a3d941e9eb3357d10859735c4'',
    iform ''VPADDUSW_XMMdq_XMMdq_MEMdq'' ''ace1514daee7c1ebde5acba47422cca02'',
    iform ''VPADDUSW_XMMdq_XMMdq_XMMdq'' ''a2f0007ea8f96860921d6b9430f87a24a'',
    iform ''VPADDUSW_XMMu16_MASKmskw_XMMu16_MEMu16_AVX512'' ''a1adb7d96454507feced9ee53808f4854'']"

lemma xed_iform_enum_8h_values_26_closed: "list_all (closed_node scripts) xed_iform_enum_8h_values_26"
  by (simp only: xed_iform_enum_8h_values_26_def closed_rules iform_closed)

definition xed_iform_enum_8h_values_27 :: "nav_node list" where
  "xed_iform_enum_8h_values_27 = [
    iform ''VPADDUSW_XMMu16_MASKmskw_XMMu16_XMMu16_AVX512'' ''a7176a6e410549ccdd2a2ef8d165a8183'',
    iform ''VPADDUSW_YMMqq_YMMqq_MEMqq'' ''aa8ded9c2e090d02d65c623fa6819abd3'',
    iform ''VPADDUSW_YMMqq_YMMqq_YMMqq'' ''a1563f800d676e354825541cdbeea3117'',
    iform ''VPADDUSW_YMMu16_MASKmskw_YMMu16_MEMu16_AVX512'' ''a3d6a52cd0ae191c625742f3b6e8682c9'',
    iform ''VPADDUSW_YMMu16_MASKmskw_YMMu16_YMMu16_AVX512'' ''a57fe67236e9c9e7d0360018edd7afc8b'',
    iform ''VPADDUSW_ZMMu16_MASKmskw_ZMMu16_MEMu16_AVX512'' ''aa93d1730541029f81088b15b4738f65d'',
    iform ''VPADDUSW_ZMMu16_MASKmskw_ZMMu16_ZMMu16_AVX512'' ''a8e8e73b434f33f0c2652851768d553d5'',
    iform ''VPADDW_XMMdq_XMMdq_MEMdq'' ''a4ad176033eb9e8b0639bc47ba6cf6e71'',
    iform ''VPADDW_XMMdq_XMMdq_XMMdq'' ''a809c4ec1ea86ee38a90c5cb2852b9061'',
    iform ''VPADDW_XMMu16_MASKmskw_XMMu16_MEMu16_AVX512'' ''a3cedb15d6d7c242d3b4999fdff5a19b2'',
    iform ''VPADDW_XMMu16_MASKmskw_XMMu16_XMMu16_AVX512'' ''a43cceec8224404f29e5216299561d15a'',
    iform ''VPADDW_YMMqq_YMMqq_MEMqq'' ''ab9e97928470cc88a857253fc0e855e52'',
    iform ''VPADDW_YMMqq_YMMqq_YMMqq'' ''a5c9d77d152df139fcb4df0b78656dd8b'',
    iform ''VPADDW_YMMu16_MASKmskw_YMMu16_MEMu16_AVX512'' ''a4e95089cf64bf1e278aea7267ffd898a'',
    iform ''VPADDW_YMMu16_MASKmskw_YMMu16_YMMu16_AVX512'' ''a933afb316a5f9d8cc1fe8a3f62b2fa28'',
    iform ''VPADDW_ZMMu16_MASKmskw_ZMMu16_MEMu16_AVX512'' ''a50a280dfcc125ce861ac36d6aaa81dc1'',
    iform ''VPADDW_ZMMu16_MASKmskw_ZMMu16_ZMMu16_AVX512'' ''ac96865b64383e19d013eae0df20b5165'',
    iform ''VPALIGNR_XMMdq_XMMdq_MEMdq_IMMb'' ''a56f0e185912d197c9a573f42eb321120'',
    iform ''VPALIGNR_XMMdq_XMMdq_XMMdq_IMMb'' ''a124ff8172586fd383ccf54bca98d4e70'',
    iform ''VPALIGNR_XMMu8_MASKmskw_XMMu8_MEMu8_IMM8_AVX512'' ''aa6bcb782e49b92b325c3eb583cb38552'',
    iform ''VPALIGNR_XMMu8_MASKmskw_XMMu8_XMMu8_IMM8_AVX512'' ''a0b8414c47a627f018b725dc09d0f007b'',
    iform ''VPALIGNR_YMMqq_YMMqq_MEMqq_IMMb'' ''a52dda68e5561967d6a07605dbc8a9b20'',
    iform ''VPALIGNR_YMMqq_YMMqq_YMMqq_IMMb'' ''ac11c7dbd6ee1f7df2a38cd14fbc8ab06'',
    iform ''VPALIGNR_YMMu8_MASKmskw_YMMu8_MEMu8_IMM8_AVX512'' ''a4a7dfc86b9252c7abb35b0f14e0600d3'',
    iform ''VPALIGNR_YMMu8_MASKmskw_YMMu8_YMMu8_IMM8_AVX512'' ''abc4814cc79055c93790af7f18ad0ad0e'',
    iform ''VPALIGNR_ZMMu8_MASKmskw_ZMMu8_MEMu8_IMM8_AVX512'' ''aa1a0e3a07b3bde1702b627f862799766'',
    iform ''VPALIGNR_ZMMu8_MASKmskw_ZMMu8_ZMMu8_IMM8_AVX512'' ''a4f26e2fc8bdf5d902b4a20f29ca051c9'',
    iform ''VPAND_XMMdq_XMMdq_MEMdq'' ''aac8e49726c35b48a01808e069a34ffbc'',
    iform ''VPAND_XMMdq_XMMdq_XMMdq'' ''ae4bb41e28e6b2ce1419df3c57cf89e49'',
    iform ''VPAND_YMMqq_YMMqq_MEMqq'' ''a74c6e09c45dc2a39a621cda4ee8caeca'',
    iform ''VPAND_YMMqq_YMMqq_YMMqq'' ''a3ba3cc9e8df3059ab378ab519551d2e5'',
    iform ''VPANDD_XMMu32_MASKmskw_XMMu32_MEMu32_AVX512'' ''a7c01d3a6a4bbb48bedc5dfaf85f7e203'',
    iform ''VPANDD_XMMu32_MASKmskw_XMMu32_XMMu32_AVX512'' ''ad9d602f3e308a15b51f64e85aff3b099'',
    iform ''VPANDD_YMMu32_MASKmskw_YMMu32_MEMu32_AVX512'' ''a865a28a0580be0af6b9d6086add61826'',
    iform ''VPANDD_YMMu32_MASKmskw_YMMu32_YMMu32_AVX512'' ''a0e562bf8eaba5d390f6a2812ca854f18'',
    iform ''VPANDD_ZMMu32_MASKmskw_ZMMu32_MEMu32_AVX512'' ''adcdd3f3f41c96d60166d4f8a8c5c59cd'',
    iform ''VPANDD_ZMMu32_MASKmskw_ZMMu32_ZMMu32_AVX512'' ''aed94690b74e79e19917ad3c61846fe17'',
    iform ''VPANDN_XMMdq_XMMdq_MEMdq'' ''aaa0d304b759a469420adc884ba37d281'',
    iform ''VPANDN_XMMdq_XMMdq_XMMdq'' ''ac5c70c933523e1195dda9009e96b0773'',
    iform ''VPANDN_YMMqq_YMMqq_MEMqq'' ''acb29ef4003e1e36c455ef02331d98efa'',
    iform ''VPANDN_YMMqq_YMMqq_YMMqq'' ''aa1bf1f50ef4c1208e63f7ef5b1fdd6a1'',
    iform ''VPANDND_XMMu32_MASKmskw_XMMu32_MEMu32_AVX512'' ''a5bb920def055a202491387c474b43dfe'',
    iform ''VPANDND_XMMu32_MASKmskw_XMMu32_XMMu32_AVX512'' ''a19fa6ef1c93eb6fca30df43f61fe7ac2'',
    iform ''VPANDND_YMMu32_MASKmskw_YMMu32_MEMu32_AVX512'' ''a6b09b08a9af748398900e55ca5ea5da2'',
    iform ''VPANDND_YMMu32_MASKmskw_YMMu32_YMMu32_AVX512'' ''ac70df6fc34b9ba66d474d1f06aa1614c'',
    iform ''VPANDND_ZMMu32_MASKmskw_ZMMu32_MEMu32_AVX512'' ''a4650a7c49a041484a1fd9b3f1975fac3'',
    iform ''VPANDND_ZMMu32_MASKmskw_ZMMu32_ZMMu32_AVX512'' ''a21b702126b458dde7effe09015686142'',
    iform ''VPANDNQ_XMMu64_MASKmskw_XMMu64_MEMu64_AVX512'' ''ab5632fc805c8f1719d72d39816f5cf5b'',
    iform ''VPANDNQ_XMMu64_MASKmskw_XMMu64_XMMu64_AVX512'' ''a92dc89d62f5c65f621a6dee9b1771a12'',
    iform ''VPANDNQ_YMMu64_MASKmskw_YMMu64_MEMu64_AVX512'' ''aa94125ba84e95d2d7690a108f8df8009'',
    iform ''VPANDNQ_YMMu64_MASKmskw_YMMu64_YMMu64_AVX512'' ''a87da140e8a1ca9866bce69a6b87a1c5b'',
    iform ''VPANDNQ_ZMMu64_MASKmskw_ZMMu64_MEMu64_AVX512'' ''a104f20a88fef4b6ee9d679e51f04d199'',
    iform ''VPANDNQ_ZMMu64_MASKmskw_ZMMu64_ZMMu64_AVX512'' ''a01863d76bd60c97731cc8cb299b92da6'',
    iform ''VPANDQ_XMMu64_MASKmskw_XMMu64_MEMu64_AVX512'' ''a8088b8e1b4f83c82239a22c1d3ce04ef'',
    iform ''VPANDQ_XMMu64_MASKmskw_XMMu64_XMMu64_AVX512'' ''afec45f435da1c4e82193f2f7948591fd'',
    iform ''VPANDQ_YMMu64_MASKmskw_YMMu64_MEMu64_AVX512'' ''ae5e7062f3028f1c211b2239868f2fbc3'',
    iform ''VPANDQ_YMMu64_MASKmskw_YMMu64_YMMu64_AVX512'' ''ac7a6270f4a76660298be129f3484a6a4'',
    iform ''VPANDQ_ZMMu64_MASKmskw_ZMMu64_MEMu64_AVX512'' ''a3d1c5941671d83f55549e1342667c79d'',
    iform ''VPANDQ_ZMMu64_MASKmskw_ZMMu64_ZMMu64_AVX512'' ''a90cfd0fa973ed565822ad506626db745'',
    iform ''VPAVGB_XMMdq_XMMdq_MEMdq'' ''a42605f18e6a5ba0feae45e0026cfcd32'',
    iform ''VPAVGB_XMMdq_XMMdq_XMMdq'' ''a13c3bc9b45410a3c4496b00c464de1de'',
    iform ''VPAVGB_XMMu8_MASKmskw_XMMu8_MEMu8_AVX512'' ''a294644ae5516f1af6b4fa868a71e74ab'',
    iform ''VPAVGB_XMMu8_MASKmskw_XMMu8_XMMu8_AVX512'' ''a74f50b030d9d36040e9c6e6cbd4723fa'',
    iform ''VPAVGB_YMMqq_YMMqq_MEMqq'' ''aee8f0c0080cfc5684c0fd3d1debaa9b6'',
    iform ''VPAVGB_YMMqq_YMMqq_YMMqq'' ''a10dfc0b61ac00c934ecbeb9ffc004d2e'',
    iform ''VPAVGB_YMMu8_MASKmskw_YMMu8_MEMu8_AVX512'' ''ac5a849302682b9a4861067dd8de75293'',
    iform ''VPAVGB_YMMu8_MASKmskw_YMMu8_YMMu8_AVX512'' ''a5ce74410749faa6c3295abdc391d4f27'',
    iform ''VPAVGB_ZMMu8_MASKmskw_ZMMu8_MEMu8_AVX512'' ''a83a7d05e00d57ae4aa9e5381505dc56f'',
    iform ''VPAVGB_ZMMu8_MASKmskw_ZMMu8_ZMMu8_AVX512'' ''a520fb66e17110b6a1b855779c7537575'',
    iform ''VPAVGW_XMMdq_XMMdq_MEMdq'' ''a7a0ed87c1e588bc0e9954f49921b46a8'',
    iform ''VPAVGW_XMMdq_XMMdq_XMMdq'' ''aaf267a48bc916f235a061d8df0894ccf'',
    iform ''VPAVGW_XMMu16_MASKmskw_XMMu16_MEMu16_AVX512'' ''a75f5dee1aeaab56d5e9aeb638c14a1bc'',
    iform ''VPAVGW_XMMu16_MASKmskw_XMMu16_XMMu16_AVX512'' ''a9f62eea40628b417ffcccac4e876c66d'',
    iform ''VPAVGW_YMMqq_YMMqq_MEMqq'' ''ae84783f0086d65b624fd87372ff83f34'',
    iform ''VPAVGW_YMMqq_YMMqq_YMMqq'' ''a48c8d5de4ad85ec451befe9c8697b5d6'',
    iform ''VPAVGW_YMMu16_MASKmskw_YMMu16_MEMu16_AVX512'' ''a1a13ffa9069f0917d1730faaf8451d22'',
    iform ''VPAVGW_YMMu16_MASKmskw_YMMu16_YMMu16_AVX512'' ''adb4c896720b35e5d9e0f7bbcb547edc7'',
    iform ''VPAVGW_ZMMu16_MASKmskw_ZMMu16_MEMu16_AVX512'' ''adf2d657f84dcf06eb4d2dfcdf6a3f29a'',
    iform ''VPAVGW_ZMMu16_MASKmskw_ZMMu16_ZMMu16_AVX512'' ''a945acacba3d222c2d414587d5e88d619'',
    iform ''VPBLENDD_XMMdq_XMMdq_MEMdq_IMMb'' ''a2a39478a19b238799ae8e455def79272'',
    iform ''VPBLENDD_XMMdq_XMMdq_XMMdq_IMMb'' ''afefd686c01a99aff5e5378286833d75e'',
    iform ''VPBLENDD_YMMqq_YMMqq_MEMqq_IMMb'' ''a302dea4c0b8494b387aeb7be5cd6c969'',
    iform ''VPBLENDD_YMMqq_YMMqq_YMMqq_IMMb'' ''a7009a0777972eb9db40a4b03af9b2b30'',
    iform ''VPBLENDMB_XMMu8_MASKmskw_XMMu8_MEMu8_AVX512'' ''ac0931e430540ca7e80b09b4b4a0bb6f4'',
    iform ''VPBLENDMB_XMMu8_MASKmskw_XMMu8_XMMu8_AVX512'' ''ad1bee73164fd7bb1d47e270ee07029e7'',
    iform ''VPBLENDMB_YMMu8_MASKmskw_YMMu8_MEMu8_AVX512'' ''a73aebc317c46b593aa95f7bcaa7a5b68'',
    iform ''VPBLENDMB_YMMu8_MASKmskw_YMMu8_YMMu8_AVX512'' ''a80b63f04623606da6ee46b88406ae001'',
    iform ''VPBLENDMB_ZMMu8_MASKmskw_ZMMu8_MEMu8_AVX512'' ''a0110710d64441429eb3568dd737113cb'',
    iform ''VPBLENDMB_ZMMu8_MASKmskw_ZMMu8_ZMMu8_AVX512'' ''a8db80172154d052a75ea33c7d5b5761c'',
    iform ''VPBLENDMD_XMMu32_MASKmskw_XMMu32_MEMu32_AVX512'' ''a10357be9263ce43132be9860aca454d2'',
    iform ''VPBLENDMD_XMMu32_MASKmskw_XMMu32_XMMu32_AVX512'' ''ab7facdeb738f8fccf2f732a94d1b64c5'',
    iform ''VPBLENDMD_YMMu32_MASKmskw_YMMu32_MEMu32_AVX512'' ''a73647aa1b70ff6e894cad01a844303c3'',
    iform ''VPBLENDMD_YMMu32_MASKmskw_YMMu32_YMMu32_AVX512'' ''aa9df4f7ed0371185d5f3a85f98df936c'',
    iform ''VPBLENDMD_ZMMu32_MASKmskw_ZMMu32_MEMu32_AVX512'' ''a5747d0cbc232e6e5509f5700ad6ebf58'',
    iform ''VPBLENDMD_ZMMu32_MASKmskw_ZMMu32_ZMMu32_AVX512'' ''a15662c0d46db506aa8f94b1b00d9921c'',
    iform ''VPBLENDMQ_XMMu64_MASKmskw_XMMu64_MEMu64_AVX512'' ''aebb0ab24c0d5b9a0f2342e68334027e6'',
    iform ''VPBLENDMQ_XMMu64_MASKmskw_XMMu64_XMMu64_AVX512'' ''acb158fea03fe696c511bfa433fecf6ca'',
    iform ''VPBLENDMQ_YMMu64_MASKmskw_YMMu64_MEMu64_AVX512'' ''a36e7379bfb0faaa29149e82c217e633d'',
    iform ''VPBLENDMQ_YMMu64_MASKmskw_YMMu64_YMMu64_AVX512'' ''ac569de8d9238baaf709cb0141d47d9e0'',
    iform ''VPBLENDMQ_ZMMu64_MASKmskw_ZMMu64_MEMu64_AVX512'' ''a0bb0f426879e3feedd3b7d94b2293fb6'',
    iform ''VPBLENDMQ_ZMMu64_MASKmskw_ZMMu64_ZMMu64_AVX512'' ''a6006ae3c28920733b419401f9af5e829'',
    iform ''VPBLENDMW_XMMu16_MASKmskw_XMMu16_MEMu16_AVX512'' ''ae587ba53a550b457a1ecd0a0ab084d99'',
    iform ''VPBLENDMW_XMMu16_MASKmskw_XMMu16_XMMu16_AVX512'' ''a87380cb6cad23a5f01db707ee87c14b5'',
    iform ''VPBLENDMW_YMMu16_MASKmskw_YMMu16_MEMu16_AVX512'' ''a48f1eb63f2680cb6e866cf587ea31390'',
    iform ''VPBLENDMW_YMMu16_MASKmskw_YMMu16_YMMu16_AVX512'' ''a935af129071c7671e4a3988f409780cc'',
    iform ''VPBLENDMW_ZMMu16_MASKmskw_ZMMu16_MEMu16_AVX512'' ''a6796756da9826b30e813d058ce3c6654'',
    iform ''VPBLENDMW_ZMMu16_MASKmskw_ZMMu16_ZMMu16_AVX512'' ''af2dccad22b7382c4676382a635679dfc'',
    iform ''VPBLENDVB_XMMdq_XMMdq_MEMdq_XMMdq'' ''a6f0ef6afb69ecefda3bee875c75dbb23'',
    iform ''VPBLENDVB_XMMdq_XMMdq_XMMdq_XMMdq'' ''aca0033bc7810891d925a80751c138286'',
    iform ''VPBLENDVB_YMMqq_YMMqq_MEMqq_YMMqq'' ''a91d099653c4ed418f48769b9aedee1e4'',
    iform ''VPBLENDVB_YMMqq_YMMqq_YMMqq_YMMqq'' ''a94e8d150e6184593b2bba56ee6237018'',
    iform ''VPBLENDW_XMMdq_XMMdq_MEMdq_IMMb'' ''aaaf9c2efc414267c50c6eeae71a75a38'',
    iform ''VPBLENDW_XMMdq_XMMdq_XMMdq_IMMb'' ''adfd53f39f801be43cd60f3dbf08dc4be'',
    iform ''VPBLENDW_YMMqq_YMMqq_MEMqq_IMMb'' ''a1db7c24710b7e3b753a9f6e77375d61d'',
    iform ''VPBLENDW_YMMqq_YMMqq_YMMqq_IMMb'' ''a0ea68a6e36f21fafe5e1a16bb74496df'',
    iform ''VPBROADCASTB_XMMdq_MEMb'' ''a048db3f0bfc29aa064a344d62782bb82'',
    iform ''VPBROADCASTB_XMMdq_XMMb'' ''a013450e84aacb424d30b3f82e384f082'',
    iform ''VPBROADCASTB_XMMu8_MASKmskw_GPR32u8_AVX512'' ''ad208446ea9dab34a2e943fcdb39fddc6'',
    iform ''VPBROADCASTB_XMMu8_MASKmskw_MEMu8_AVX512'' ''a12235faa8a0e75172b3d0634e3edcb15'',
    iform ''VPBROADCASTB_XMMu8_MASKmskw_XMMu8_AVX512'' ''a323dcebe272493ff44cce2bda8ed26f1'',
    iform ''VPBROADCASTB_YMMqq_MEMb'' ''a8999481d223403200e1431a78893a72d'',
    iform ''VPBROADCASTB_YMMqq_XMMb'' ''a273de288d5873b625a2a27c59eee8732'',
    iform ''VPBROADCASTB_YMMu8_MASKmskw_GPR32u8_AVX512'' ''a45d54b14b2f95fb673de44ef6f30ad4c'',
    iform ''VPBROADCASTB_YMMu8_MASKmskw_MEMu8_AVX512'' ''a2c4c9f8816807f8d816594fbf680d032'',
    iform ''VPBROADCASTB_YMMu8_MASKmskw_XMMu8_AVX512'' ''a583ed02249010b31c52e8579073103f8'',
    iform ''VPBROADCASTB_ZMMu8_MASKmskw_GPR32u8_AVX512'' ''a51b59789797a1fb407a0bcc59a1713ee'',
    iform ''VPBROADCASTB_ZMMu8_MASKmskw_MEMu8_AVX512'' ''a6106eff70b45a9d4eb1ccfa8812c8fe7'',
    iform ''VPBROADCASTB_ZMMu8_MASKmskw_XMMu8_AVX512'' ''af8bd01a3103a1d5b576650a5994f8fa2'',
    iform ''VPBROADCASTD_XMMdq_MEMd'' ''a4cc14ccd255fc07dab3577a99bd53017'',
    iform ''VPBROADCASTD_XMMdq_XMMd'' ''a5643058e857a164e1e8e50f1d85c7629'',
    iform ''VPBROADCASTD_XMMu32_MASKmskw_GPR32u32_AVX512'' ''ae8359c2d502f519d174ae98995ac0d54'',
    iform ''VPBROADCASTD_XMMu32_MASKmskw_MEMu32_AVX512'' ''af1cc6b4b2f7f97d66aed5f2a0091ab95'',
    iform ''VPBROADCASTD_XMMu32_MASKmskw_XMMu32_AVX512'' ''a0fa2505ff7062349733dac7e57532707'',
    iform ''VPBROADCASTD_YMMqq_MEMd'' ''a55436b13a693fba410d652d567e5b3a7'',
    iform ''VPBROADCASTD_YMMqq_XMMd'' ''ae447436e17692299478b0b77d18f78b9'',
    iform ''VPBROADCASTD_YMMu32_MASKmskw_GPR32u32_AVX512'' ''a98f0fb933eef5f9567e2aa8bfdf431fa'',
    iform ''VPBROADCASTD_YMMu32_MASKmskw_MEMu32_AVX512'' ''a172a49d214078b613e0b1e0872cfd258'',
    iform ''VPBROADCASTD_YMMu32_MASKmskw_XMMu32_AVX512'' ''a53acb2382386cf9bae56a782377f6fe8'',
    iform ''VPBROADCASTD_ZMMu32_MASKmskw_GPR32u32_AVX512'' ''a9448516435083fa49548b028fedd5a37'',
    iform ''VPBROADCASTD_ZMMu32_MASKmskw_MEMu32_AVX512'' ''ab956f342ee4feed0a74f1d5db156a2cc'']"

lemma xed_iform_enum_8h_values_27_closed: "list_all (closed_node scripts) xed_iform_enum_8h_values_27"
  by (simp only: xed_iform_enum_8h_values_27_def closed_rules iform_closed)

definition xed_iform_enum_8h_values_28 :: "nav_node list" where
  "xed_iform_enum_8h_values_28 = [
    iform ''VPBROADCASTD_ZMMu32_MASKmskw_XMMu32_AVX512'' ''a9de6b0b3cd5e41df93df5f20087a6d86'',
    iform ''VPBROADCASTMB2Q_XMMu64_MASKu64_AVX512'' ''a1deac1efe3fae772781dd736408af367'',
    iform ''VPBROADCASTMB2Q_YMMu64_MASKu64_AVX512'' ''ad8098cfd70e55eace4a3c14b3a28f904'',
    iform ''VPBROADCASTMB2Q_ZMMu64_MASKu64_AVX512CD'' ''a6f8c884aac5b9ba7ea38aca7e04ce050'',
    iform ''VPBROADCASTMW2D_XMMu32_MASKu32_AVX512'' ''a68aa6a1eda4b4c2e226855b30dab8ea7'',
    iform ''VPBROADCASTMW2D_YMMu32_MASKu32_AVX512'' ''ac5730b1106f60cc0a156a09e2ce860b3'',
    iform ''VPBROADCASTMW2D_ZMMu32_MASKu32_AVX512CD'' ''a1b136efc847a40647fece2028abbc4b4'',
    iform ''VPBROADCASTQ_XMMdq_MEMq'' ''a3e55d48a78e34d917b02b6e42df42ab7'',
    iform ''VPBROADCASTQ_XMMdq_XMMq'' ''a5b0e4aec3d0b4feab869c5a5c81b49bd'',
    iform ''VPBROADCASTQ_XMMu64_MASKmskw_GPR64u64_AVX512'' ''a47ebac2cdcbb54defa6fc78a895c061c'',
    iform ''VPBROADCASTQ_XMMu64_MASKmskw_MEMu64_AVX512'' ''abb89745d151ce0a7f9c1a55b0f48e671'',
    iform ''VPBROADCASTQ_XMMu64_MASKmskw_XMMu64_AVX512'' ''a3971491d3c77496a95e2540dc9c3c4f8'',
    iform ''VPBROADCASTQ_YMMqq_MEMq'' ''a2299ef29d82da2fd1e1da2c133d91872'',
    iform ''VPBROADCASTQ_YMMqq_XMMq'' ''a3034fd12aed55a87cf2906668a0648df'',
    iform ''VPBROADCASTQ_YMMu64_MASKmskw_GPR64u64_AVX512'' ''ad95f6efc83dfa10640663d29d94f64c9'',
    iform ''VPBROADCASTQ_YMMu64_MASKmskw_MEMu64_AVX512'' ''aaaf1269fbdf3d03464e382052b910684'',
    iform ''VPBROADCASTQ_YMMu64_MASKmskw_XMMu64_AVX512'' ''afc26255a879516283e7504eba16dbecf'',
    iform ''VPBROADCASTQ_ZMMu64_MASKmskw_GPR64u64_AVX512'' ''adb1c96497f002ab875c7d81b2dd9c32f'',
    iform ''VPBROADCASTQ_ZMMu64_MASKmskw_MEMu64_AVX512'' ''aeff93a64d858509c91cb74ff12c8cdfc'',
    iform ''VPBROADCASTQ_ZMMu64_MASKmskw_XMMu64_AVX512'' ''aa056c6aae3da8f739523fb40e73ae713'',
    iform ''VPBROADCASTW_XMMdq_MEMw'' ''a7a409967e91e749b4ae3d31566de3a1f'',
    iform ''VPBROADCASTW_XMMdq_XMMw'' ''a005ed789627ca82a25e8e38ccb3764a7'',
    iform ''VPBROADCASTW_XMMu16_MASKmskw_GPR32u16_AVX512'' ''aff263b5ce553088c3973b396107b1012'',
    iform ''VPBROADCASTW_XMMu16_MASKmskw_MEMu16_AVX512'' ''ae5f25c66c9a8eaf8541f44333a56e94b'',
    iform ''VPBROADCASTW_XMMu16_MASKmskw_XMMu16_AVX512'' ''aa4e7c02ffb568ec054b5a7be1af5b1b2'',
    iform ''VPBROADCASTW_YMMqq_MEMw'' ''a91daa03cc7086e6f78cc4050b44402cd'',
    iform ''VPBROADCASTW_YMMqq_XMMw'' ''a68759fd25bdbf58216a6694430a0583a'',
    iform ''VPBROADCASTW_YMMu16_MASKmskw_GPR32u16_AVX512'' ''a381103aab22bbd357899d1a47a30d6e2'',
    iform ''VPBROADCASTW_YMMu16_MASKmskw_MEMu16_AVX512'' ''a2867d61d137556e5cd8ddb7bc9d6ac96'',
    iform ''VPBROADCASTW_YMMu16_MASKmskw_XMMu16_AVX512'' ''a131a6151eb1fb5e287be03c81a3028be'',
    iform ''VPBROADCASTW_ZMMu16_MASKmskw_GPR32u16_AVX512'' ''af5e24ff95e07d51ab7f3a60dcf34f734'',
    iform ''VPBROADCASTW_ZMMu16_MASKmskw_MEMu16_AVX512'' ''ad37b2044c89a612ae64631f9bc2c13e9'',
    iform ''VPBROADCASTW_ZMMu16_MASKmskw_XMMu16_AVX512'' ''a5863023ae7e4a2f8b4c65de60b785959'',
    iform ''VPCLMULQDQ_XMMdq_XMMdq_MEMdq_IMMb'' ''a3a631a1756622796034e39ba3de74da9'',
    iform ''VPCLMULQDQ_XMMdq_XMMdq_XMMdq_IMMb'' ''a4a5a6162e6ae010dfb5948f6a542b280'',
    iform ''VPCMOV_XMMdq_XMMdq_MEMdq_XMMdq'' ''ac054d2beab38555c5af3b35c7dc12a60'',
    iform ''VPCMOV_XMMdq_XMMdq_XMMdq_MEMdq'' ''a4748f4fbf87d7841a7d3f7316110723e'',
    iform ''VPCMOV_XMMdq_XMMdq_XMMdq_XMMdq'' ''af8d021639d7770727fbaced8b598448e'',
    iform ''VPCMOV_YMMqq_YMMqq_MEMqq_YMMqq'' ''ad56e1619503d95d995ee3ca12025316c'',
    iform ''VPCMOV_YMMqq_YMMqq_YMMqq_MEMqq'' ''a4f6885b3c817527bf1d493460b834fd4'',
    iform ''VPCMOV_YMMqq_YMMqq_YMMqq_YMMqq'' ''ae5315a7874b357541543161cd97bfc3b'',
    iform ''VPCMPB_MASKmskw_MASKmskw_XMMi8_MEMi8_IMM8_AVX512'' ''acab6f11791f6ffcdd04e98024dd210de'',
    iform ''VPCMPB_MASKmskw_MASKmskw_XMMi8_XMMi8_IMM8_AVX512'' ''a517014e267ce6c07f6fa2673fa9c8cae'',
    iform ''VPCMPB_MASKmskw_MASKmskw_YMMi8_MEMi8_IMM8_AVX512'' ''ae50f017b0c2bd9df7b5f74b26b94ea51'',
    iform ''VPCMPB_MASKmskw_MASKmskw_YMMi8_YMMi8_IMM8_AVX512'' ''a6c3cd14317e7b3e58d1b906e10935eea'',
    iform ''VPCMPB_MASKmskw_MASKmskw_ZMMi8_MEMi8_IMM8_AVX512'' ''aede13885c8393d7bd1a0b21f1f8135e2'',
    iform ''VPCMPB_MASKmskw_MASKmskw_ZMMi8_ZMMi8_IMM8_AVX512'' ''a736e48b96bdd4fa104c7668f66685f2f'',
    iform ''VPCMPD_MASKmskw_MASKmskw_XMMi32_MEMi32_IMM8_AVX512'' ''a63a66b45ec144b21e58ea54d93cdc999'',
    iform ''VPCMPD_MASKmskw_MASKmskw_XMMi32_XMMi32_IMM8_AVX512'' ''a6995060e8e61a670dd4493631a0b1ae1'',
    iform ''VPCMPD_MASKmskw_MASKmskw_YMMi32_MEMi32_IMM8_AVX512'' ''a04522c77e57b6094adafba98d6ef9e94'',
    iform ''VPCMPD_MASKmskw_MASKmskw_YMMi32_YMMi32_IMM8_AVX512'' ''a7ecd3358676fa68860aae1f05062b8de'',
    iform ''VPCMPD_MASKmskw_MASKmskw_ZMMi32_MEMi32_IMM8_AVX512'' ''a2c6a482fa5dadc46c2ac9a05c9cd01a5'',
    iform ''VPCMPD_MASKmskw_MASKmskw_ZMMi32_ZMMi32_IMM8_AVX512'' ''afd34e910816d82fee38f8d9390a581e8'',
    iform ''VPCMPEQB_MASKmskw_MASKmskw_XMMu8_MEMu8_AVX512'' ''af83133ab22d78bc36451bf075fbe36e8'',
    iform ''VPCMPEQB_MASKmskw_MASKmskw_XMMu8_XMMu8_AVX512'' ''afdd6878d247c66c7c883bc889968fc8a'',
    iform ''VPCMPEQB_MASKmskw_MASKmskw_YMMu8_MEMu8_AVX512'' ''a676a66a781dc80f24bb20c8273a96af6'',
    iform ''VPCMPEQB_MASKmskw_MASKmskw_YMMu8_YMMu8_AVX512'' ''aa753460d68b884b96efebec8e77d04ae'',
    iform ''VPCMPEQB_MASKmskw_MASKmskw_ZMMu8_MEMu8_AVX512'' ''aca7fda2a172145a5651b0ce307325789'',
    iform ''VPCMPEQB_MASKmskw_MASKmskw_ZMMu8_ZMMu8_AVX512'' ''a138570e2f8ae61419b9c372146d545e4'',
    iform ''VPCMPEQB_XMMdq_XMMdq_MEMdq'' ''a4220aea9847a71409acb5d559eb2efca'',
    iform ''VPCMPEQB_XMMdq_XMMdq_XMMdq'' ''af3f3fa3fdf4f5fceb610c539a4c5fbfc'',
    iform ''VPCMPEQB_YMMqq_YMMqq_MEMqq'' ''a9064a9011635cd5c66938c261236b298'',
    iform ''VPCMPEQB_YMMqq_YMMqq_YMMqq'' ''a514fcb2b45eaa51bf96b137e2cb6a219'',
    iform ''VPCMPEQD_MASKmskw_MASKmskw_XMMu32_MEMu32_AVX512'' ''a2f8feb4d93fb1f2d2b8e072627069af3'',
    iform ''VPCMPEQD_MASKmskw_MASKmskw_XMMu32_XMMu32_AVX512'' ''a3785e5c780e2f6ed701f727c0033db98'',
    iform ''VPCMPEQD_MASKmskw_MASKmskw_YMMu32_MEMu32_AVX512'' ''ac0303b5a77e341bc56d36c89b119226c'',
    iform ''VPCMPEQD_MASKmskw_MASKmskw_YMMu32_YMMu32_AVX512'' ''ae692fc9d15c41ab98d65646467ff8e14'',
    iform ''VPCMPEQD_MASKmskw_MASKmskw_ZMMu32_MEMu32_AVX512'' ''abe9930e68868f5b40a068b0d1b8819a7'',
    iform ''VPCMPEQD_MASKmskw_MASKmskw_ZMMu32_ZMMu32_AVX512'' ''aea791c10ec2d3e244d440faa77cd5336'',
    iform ''VPCMPEQD_XMMdq_XMMdq_MEMdq'' ''a8a9cbe19b9b926a4528af1234ec04b03'',
    iform ''VPCMPEQD_XMMdq_XMMdq_XMMdq'' ''a0f4a22e5becd00a45bd974fcb58dcaa4'',
    iform ''VPCMPEQD_YMMqq_YMMqq_MEMqq'' ''a934e74cf4d8e7989759e536be481baa8'',
    iform ''VPCMPEQD_YMMqq_YMMqq_YMMqq'' ''a3ac2969a878e38c9ecefb755386be961'',
    iform ''VPCMPEQQ_MASKmskw_MASKmskw_XMMu64_MEMu64_AVX512'' ''ab3a488cf71c0b8a21f015e0ec3e9806b'',
    iform ''VPCMPEQQ_MASKmskw_MASKmskw_XMMu64_XMMu64_AVX512'' ''ad549854f1c742a95b1f3d43a810fe82a'',
    iform ''VPCMPEQQ_MASKmskw_MASKmskw_YMMu64_MEMu64_AVX512'' ''ada2f3b8196f2b3feb1e72c3bb2bf36f4'',
    iform ''VPCMPEQQ_MASKmskw_MASKmskw_YMMu64_YMMu64_AVX512'' ''abc4070dbc49b5fdaa6022b231fd72771'',
    iform ''VPCMPEQQ_MASKmskw_MASKmskw_ZMMu64_MEMu64_AVX512'' ''a6ab01df666d7ac487ec4df17389826c7'',
    iform ''VPCMPEQQ_MASKmskw_MASKmskw_ZMMu64_ZMMu64_AVX512'' ''a936a0f1dfef4f097c7205be3f242588d'',
    iform ''VPCMPEQQ_XMMdq_XMMdq_MEMdq'' ''a45537b5a285eead8f1f06df88cff670d'',
    iform ''VPCMPEQQ_XMMdq_XMMdq_XMMdq'' ''aaaca6c2b8fd497282576eb2281cde3fa'',
    iform ''VPCMPEQQ_YMMqq_YMMqq_MEMqq'' ''aefbbe2c01b0f3ca38145cbe0786917fd'',
    iform ''VPCMPEQQ_YMMqq_YMMqq_YMMqq'' ''ae28d9e9a0673c2178c1c7d51ed284564'',
    iform ''VPCMPEQW_MASKmskw_MASKmskw_XMMu16_MEMu16_AVX512'' ''a131ceb0c484beeae91b7353a3d5a7b89'',
    iform ''VPCMPEQW_MASKmskw_MASKmskw_XMMu16_XMMu16_AVX512'' ''a75a29c37244727a79dc6dfcd59cc740b'',
    iform ''VPCMPEQW_MASKmskw_MASKmskw_YMMu16_MEMu16_AVX512'' ''af0148a0e63378b167963d8f3df8a18f9'',
    iform ''VPCMPEQW_MASKmskw_MASKmskw_YMMu16_YMMu16_AVX512'' ''a759acb573606efd22ae254c26f865673'',
    iform ''VPCMPEQW_MASKmskw_MASKmskw_ZMMu16_MEMu16_AVX512'' ''a7c904e37ca131412e411fb244095aa1d'',
    iform ''VPCMPEQW_MASKmskw_MASKmskw_ZMMu16_ZMMu16_AVX512'' ''a7be93b34c0e8dd5d45e9efe2655eae7c'',
    iform ''VPCMPEQW_XMMdq_XMMdq_MEMdq'' ''aa78a21257602c802de7843bdebf80fc5'',
    iform ''VPCMPEQW_XMMdq_XMMdq_XMMdq'' ''a43db1aeb7d01e7f9f58fdb98105efd06'',
    iform ''VPCMPEQW_YMMqq_YMMqq_MEMqq'' ''a6db857e96ef3933a46b065a30921467b'',
    iform ''VPCMPEQW_YMMqq_YMMqq_YMMqq'' ''af3dd0856af0c42559d198e3ff170a0ad'',
    iform ''VPCMPESTRI_XMMdq_MEMdq_IMMb'' ''a208ac0943a77943c95493989a0842ae7'',
    iform ''VPCMPESTRI_XMMdq_XMMdq_IMMb'' ''a34febe2853bab31ca02d6abf8e0e769c'',
    iform ''VPCMPESTRM_XMMdq_MEMdq_IMMb'' ''a886b470ba9243a75fe04cf408136eba6'',
    iform ''VPCMPESTRM_XMMdq_XMMdq_IMMb'' ''ab19c3a85c1667ca8eee216643a0c1a99'',
    iform ''VPCMPGTB_MASKmskw_MASKmskw_XMMu8_MEMu8_AVX512'' ''a68ca0bdc8c6c7ab6b0f7651689d068d1'',
    iform ''VPCMPGTB_MASKmskw_MASKmskw_XMMu8_XMMu8_AVX512'' ''ac3fb35ba4708b9d8b3263fff3d254dda'',
    iform ''VPCMPGTB_MASKmskw_MASKmskw_YMMu8_MEMu8_AVX512'' ''a71661acd1bea589d31e4af1be139ff10'',
    iform ''VPCMPGTB_MASKmskw_MASKmskw_YMMu8_YMMu8_AVX512'' ''a72515f8e8021c034d2ad7d34d3063a04'',
    iform ''VPCMPGTB_MASKmskw_MASKmskw_ZMMu8_MEMu8_AVX512'' ''aaf07483d16d41c97cfbe34dcd337cfa0'',
    iform ''VPCMPGTB_MASKmskw_MASKmskw_ZMMu8_ZMMu8_AVX512'' ''a5593c9c0c0bd9b40c4075f576acb6c35'',
    iform ''VPCMPGTB_XMMdq_XMMdq_MEMdq'' ''aa29ab5751edaa0bff2bf1fc497abc9a3'',
    iform ''VPCMPGTB_XMMdq_XMMdq_XMMdq'' ''a2f1f1385f58a1d8b145e5319ae4c6c0b'',
    iform ''VPCMPGTB_YMMqq_YMMqq_MEMqq'' ''af3fd20ad794d7e7844f817461e1a5283'',
    iform ''VPCMPGTB_YMMqq_YMMqq_YMMqq'' ''af7e16558340272f4710a9effcf6e6583'',
    iform ''VPCMPGTD_MASKmskw_MASKmskw_XMMi32_MEMi32_AVX512'' ''a0bcfd633f9b4546dacf0e3ddea3b02a0'',
    iform ''VPCMPGTD_MASKmskw_MASKmskw_XMMi32_XMMi32_AVX512'' ''a3a474fd3adf9308baa1c556b7d4ec99c'',
    iform ''VPCMPGTD_MASKmskw_MASKmskw_YMMi32_MEMi32_AVX512'' ''a1726f968bfb83b5bc17d5b2408dfcc99'',
    iform ''VPCMPGTD_MASKmskw_MASKmskw_YMMi32_YMMi32_AVX512'' ''a582432ee8e576c18d1caeda42e224df9'',
    iform ''VPCMPGTD_MASKmskw_MASKmskw_ZMMi32_MEMi32_AVX512'' ''aa5f4c4f6a8286dc6fe30e2535b815b20'',
    iform ''VPCMPGTD_MASKmskw_MASKmskw_ZMMi32_ZMMi32_AVX512'' ''a1dee34543f674197e66b8065e63e7cfe'',
    iform ''VPCMPGTD_XMMdq_XMMdq_MEMdq'' ''a7586ad8b5d0370b34960dd8cf5931ece'',
    iform ''VPCMPGTD_XMMdq_XMMdq_XMMdq'' ''aaa0d74e173422a6de5b80e4bfb314dff'',
    iform ''VPCMPGTD_YMMqq_YMMqq_MEMqq'' ''ae1365e3279eb661b2f056d8b24f5446d'',
    iform ''VPCMPGTD_YMMqq_YMMqq_YMMqq'' ''a0155db57e3bfb8c30ea7f8e1096d9c27'',
    iform ''VPCMPGTQ_MASKmskw_MASKmskw_XMMi64_MEMi64_AVX512'' ''ade31f3c4032327b10f6769416bdb3116'',
    iform ''VPCMPGTQ_MASKmskw_MASKmskw_XMMi64_XMMi64_AVX512'' ''a23604f166c5007ddfa242fd99724f797'',
    iform ''VPCMPGTQ_MASKmskw_MASKmskw_YMMi64_MEMi64_AVX512'' ''a45c94e50d01dc8e43698c6b7f3833e42'',
    iform ''VPCMPGTQ_MASKmskw_MASKmskw_YMMi64_YMMi64_AVX512'' ''a494c1a604830d86c0f8e013e5bd40360'',
    iform ''VPCMPGTQ_MASKmskw_MASKmskw_ZMMi64_MEMi64_AVX512'' ''ae46a84d38efaeb68c2dc306dd18e6e10'',
    iform ''VPCMPGTQ_MASKmskw_MASKmskw_ZMMi64_ZMMi64_AVX512'' ''ad5a3c3d09c7fbbca849535da1551ec90'',
    iform ''VPCMPGTQ_XMMdq_XMMdq_MEMdq'' ''a30bfc71cfd7d848015dedda1fb0625c4'',
    iform ''VPCMPGTQ_XMMdq_XMMdq_XMMdq'' ''aa21bed3880cf78017936b769d484f039'',
    iform ''VPCMPGTQ_YMMqq_YMMqq_MEMqq'' ''a8d126ea498ddc92abf727a4fb858c577'',
    iform ''VPCMPGTQ_YMMqq_YMMqq_YMMqq'' ''a5349a7cb47633895d85fcdb7468e6433'',
    iform ''VPCMPGTW_MASKmskw_MASKmskw_XMMu16_MEMu16_AVX512'' ''a4a57464f8b19debe74c03ec612d41238'',
    iform ''VPCMPGTW_MASKmskw_MASKmskw_XMMu16_XMMu16_AVX512'' ''acf02ea4aeb45781aed2f71392e9eef2d'',
    iform ''VPCMPGTW_MASKmskw_MASKmskw_YMMu16_MEMu16_AVX512'' ''adb501c35ebe3514a07890048e3eeb408'',
    iform ''VPCMPGTW_MASKmskw_MASKmskw_YMMu16_YMMu16_AVX512'' ''a2a504f488b1e33dfdcaba2d39a43c758'',
    iform ''VPCMPGTW_MASKmskw_MASKmskw_ZMMu16_MEMu16_AVX512'' ''a851a2837e53c4ec58b3d96cfb8f6fb34'',
    iform ''VPCMPGTW_MASKmskw_MASKmskw_ZMMu16_ZMMu16_AVX512'' ''aa25c51e0d9b3998d682cdb1a08376319'',
    iform ''VPCMPGTW_XMMdq_XMMdq_MEMdq'' ''a770184b6c551bbdb86e04c4b30a2fc47'',
    iform ''VPCMPGTW_XMMdq_XMMdq_XMMdq'' ''a270cb78ac975317787498bb3fe5ea9b0'',
    iform ''VPCMPGTW_YMMqq_YMMqq_MEMqq'' ''acd11759835cd203ad0d1f7d8a627bac9'',
    iform ''VPCMPGTW_YMMqq_YMMqq_YMMqq'' ''a44e8b6860c1d27af386e28129836842d'',
    iform ''VPCMPISTRI_XMMdq_MEMdq_IMMb'' ''a08bab46e413d19931e5514ed9c7c2356'',
    iform ''VPCMPISTRI_XMMdq_XMMdq_IMMb'' ''a30a929ebb7442d0b24f86721ea4cc12d'',
    iform ''VPCMPISTRM_XMMdq_MEMdq_IMMb'' ''ad31b5a2a87c8c154d504227d244ae34c'']"

lemma xed_iform_enum_8h_values_28_closed: "list_all (closed_node scripts) xed_iform_enum_8h_values_28"
  by (simp only: xed_iform_enum_8h_values_28_def closed_rules iform_closed)

definition xed_iform_enum_8h_values_29 :: "nav_node list" where
  "xed_iform_enum_8h_values_29 = [
    iform ''VPCMPISTRM_XMMdq_XMMdq_IMMb'' ''a4c1de507bc7dfba49da853add5d1b2f1'',
    iform ''VPCMPQ_MASKmskw_MASKmskw_XMMi64_MEMi64_IMM8_AVX512'' ''a1890732a69fa7d6bea10749d706bd980'',
    iform ''VPCMPQ_MASKmskw_MASKmskw_XMMi64_XMMi64_IMM8_AVX512'' ''a8d53badc604586d88fd9d2581e023f3a'',
    iform ''VPCMPQ_MASKmskw_MASKmskw_YMMi64_MEMi64_IMM8_AVX512'' ''abfc284b9d970beacb8f24a59278962d3'',
    iform ''VPCMPQ_MASKmskw_MASKmskw_YMMi64_YMMi64_IMM8_AVX512'' ''a5cd510fa01fb56c7079ce23065a27e8f'',
    iform ''VPCMPQ_MASKmskw_MASKmskw_ZMMi64_MEMi64_IMM8_AVX512'' ''aa3736c40ecebee384140e4560c967eeb'',
    iform ''VPCMPQ_MASKmskw_MASKmskw_ZMMi64_ZMMi64_IMM8_AVX512'' ''a5b71309c9313a63faeac18a9bc613688'',
    iform ''VPCMPUB_MASKmskw_MASKmskw_XMMu8_MEMu8_IMM8_AVX512'' ''aaffe820f56689d6a6d8e5d791171c87c'',
    iform ''VPCMPUB_MASKmskw_MASKmskw_XMMu8_XMMu8_IMM8_AVX512'' ''af0d529d5b9d99b37cd81b490d7a42576'',
    iform ''VPCMPUB_MASKmskw_MASKmskw_YMMu8_MEMu8_IMM8_AVX512'' ''a6c68c727a7b1946eddb9a50b123eeb1b'',
    iform ''VPCMPUB_MASKmskw_MASKmskw_YMMu8_YMMu8_IMM8_AVX512'' ''a8f5b3d79e1d337e92e6b4c1e7a4c808f'',
    iform ''VPCMPUB_MASKmskw_MASKmskw_ZMMu8_MEMu8_IMM8_AVX512'' ''a141f0b1ad15580c38b4fbee69736b545'',
    iform ''VPCMPUB_MASKmskw_MASKmskw_ZMMu8_ZMMu8_IMM8_AVX512'' ''a99bee6dcee2c301e316cd2fe71592b66'',
    iform ''VPCMPUD_MASKmskw_MASKmskw_XMMu32_MEMu32_IMM8_AVX512'' ''ac8ff839179fde72441e34e330c2e8e26'',
    iform ''VPCMPUD_MASKmskw_MASKmskw_XMMu32_XMMu32_IMM8_AVX512'' ''a88f7e35a6922ca9cdfc7ba4b46b6a048'',
    iform ''VPCMPUD_MASKmskw_MASKmskw_YMMu32_MEMu32_IMM8_AVX512'' ''a95d043e91c93eddf87cd88dd1f36f066'',
    iform ''VPCMPUD_MASKmskw_MASKmskw_YMMu32_YMMu32_IMM8_AVX512'' ''abae6495499990272f3615aa359854b24'',
    iform ''VPCMPUD_MASKmskw_MASKmskw_ZMMu32_MEMu32_IMM8_AVX512'' ''a45b09850c63aa9e1ed98d1bea6339ca8'',
    iform ''VPCMPUD_MASKmskw_MASKmskw_ZMMu32_ZMMu32_IMM8_AVX512'' ''a8d8812a2777af058e03b553b9b80172a'',
    iform ''VPCMPUQ_MASKmskw_MASKmskw_XMMu64_MEMu64_IMM8_AVX512'' ''adc252fafe84509d2781320efc6301875'',
    iform ''VPCMPUQ_MASKmskw_MASKmskw_XMMu64_XMMu64_IMM8_AVX512'' ''ae3c5e49813a0b033a9249aa9697ade86'',
    iform ''VPCMPUQ_MASKmskw_MASKmskw_YMMu64_MEMu64_IMM8_AVX512'' ''a59650df0461b406ce7ab76984ea99ff2'',
    iform ''VPCMPUQ_MASKmskw_MASKmskw_YMMu64_YMMu64_IMM8_AVX512'' ''a4258822fc131a943784b8db59915e5d0'',
    iform ''VPCMPUQ_MASKmskw_MASKmskw_ZMMu64_MEMu64_IMM8_AVX512'' ''aa6834c3137155adec8d351f856275c67'',
    iform ''VPCMPUQ_MASKmskw_MASKmskw_ZMMu64_ZMMu64_IMM8_AVX512'' ''aebd384edb973f5cc6776e18930573c7f'',
    iform ''VPCMPUW_MASKmskw_MASKmskw_XMMu16_MEMu16_IMM8_AVX512'' ''a4059254323bd3bbfa995bba3af118fcf'',
    iform ''VPCMPUW_MASKmskw_MASKmskw_XMMu16_XMMu16_IMM8_AVX512'' ''a59f5fc64714b2b2d697f66f767333d2b'',
    iform ''VPCMPUW_MASKmskw_MASKmskw_YMMu16_MEMu16_IMM8_AVX512'' ''a30ed52f04d8369ad63bf3d9f0a04d91e'',
    iform ''VPCMPUW_MASKmskw_MASKmskw_YMMu16_YMMu16_IMM8_AVX512'' ''aa581d01a78d757f22357cbd0be7780a8'',
    iform ''VPCMPUW_MASKmskw_MASKmskw_ZMMu16_MEMu16_IMM8_AVX512'' ''afab12be35a4d77bf3bc7086c57c7f9fd'',
    iform ''VPCMPUW_MASKmskw_MASKmskw_ZMMu16_ZMMu16_IMM8_AVX512'' ''a3a437fb2edb58ac23ed7cfb5205cada8'',
    iform ''VPCMPW_MASKmskw_MASKmskw_XMMi16_MEMi16_IMM8_AVX512'' ''adabdf4f45e5522c0bc318a4ed553ad8d'',
    iform ''VPCMPW_MASKmskw_MASKmskw_XMMi16_XMMi16_IMM8_AVX512'' ''ae69ce66b8e9415644b7d910a2e7a430c'',
    iform ''VPCMPW_MASKmskw_MASKmskw_YMMi16_MEMi16_IMM8_AVX512'' ''ad88aaefa1a97c39a1d543a7a6d4505f5'',
    iform ''VPCMPW_MASKmskw_MASKmskw_YMMi16_YMMi16_IMM8_AVX512'' ''a131965040071df7f4a934c754bbf0099'',
    iform ''VPCMPW_MASKmskw_MASKmskw_ZMMi16_MEMi16_IMM8_AVX512'' ''a83a04e07b50ab3d3b1f74e907573886b'',
    iform ''VPCMPW_MASKmskw_MASKmskw_ZMMi16_ZMMi16_IMM8_AVX512'' ''ad5b4a99dfd0cd3b709bb485ed8382a80'',
    iform ''VPCOMB_XMMdq_XMMdq_MEMdq_IMMb'' ''aa60da406fcb38161ff31e210eb3333f1'',
    iform ''VPCOMB_XMMdq_XMMdq_XMMdq_IMMb'' ''a56a21d7dd49376abc8b75285d81e8d3e'',
    iform ''VPCOMD_XMMdq_XMMdq_MEMdq_IMMb'' ''a16ec3261340c97b2dcad02db54c9b1b0'',
    iform ''VPCOMD_XMMdq_XMMdq_XMMdq_IMMb'' ''a635f373095d56b75e9194c74d9dd6287'',
    iform ''VPCOMPRESSD_MEMu32_MASKmskw_XMMu32_AVX512'' ''aa5be5887490e4779a3d06a8f1ce1af8d'',
    iform ''VPCOMPRESSD_MEMu32_MASKmskw_YMMu32_AVX512'' ''a44f89e50db50c94d77ffac7d3efb7c9d'',
    iform ''VPCOMPRESSD_MEMu32_MASKmskw_ZMMu32_AVX512'' ''a93760706ea2dcadef0c699624121b21f'',
    iform ''VPCOMPRESSD_XMMu32_MASKmskw_XMMu32_AVX512'' ''a6e89ccbff901ad992608e023094b6304'',
    iform ''VPCOMPRESSD_YMMu32_MASKmskw_YMMu32_AVX512'' ''a8521c94bef12f8b49cfd697adbbe118c'',
    iform ''VPCOMPRESSD_ZMMu32_MASKmskw_ZMMu32_AVX512'' ''ac0528466724122439adc5e7cf6d2e80a'',
    iform ''VPCOMPRESSQ_MEMu64_MASKmskw_XMMu64_AVX512'' ''a6c3910e9e86dedb9461ac623f14c6977'',
    iform ''VPCOMPRESSQ_MEMu64_MASKmskw_YMMu64_AVX512'' ''a02c18c08a6534f0f23aa51ae17ebd119'',
    iform ''VPCOMPRESSQ_MEMu64_MASKmskw_ZMMu64_AVX512'' ''ab73483d9241f2842b652d37260326c74'',
    iform ''VPCOMPRESSQ_XMMu64_MASKmskw_XMMu64_AVX512'' ''ad41a55ab5cc3dc13b0330a386927eabc'',
    iform ''VPCOMPRESSQ_YMMu64_MASKmskw_YMMu64_AVX512'' ''ab5b4f574274c99555b910d471dfc6f29'',
    iform ''VPCOMPRESSQ_ZMMu64_MASKmskw_ZMMu64_AVX512'' ''a1f4fc8e8fc44837fc4dadf5b7333d3ef'',
    iform ''VPCOMQ_XMMdq_XMMdq_MEMdq_IMMb'' ''aecb97b07709eaef0c5bc5b8cbc532cf7'',
    iform ''VPCOMQ_XMMdq_XMMdq_XMMdq_IMMb'' ''a3b5cd15449473251ad4bc0b049c7647e'',
    iform ''VPCOMUB_XMMdq_XMMdq_MEMdq_IMMb'' ''a506474e5de117d082d35a2a7c11bcc13'',
    iform ''VPCOMUB_XMMdq_XMMdq_XMMdq_IMMb'' ''a5ec9807b784630f5a5c0e03817238c7e'',
    iform ''VPCOMUD_XMMdq_XMMdq_MEMdq_IMMb'' ''a1429df203303e5857854c9e660a08c4b'',
    iform ''VPCOMUD_XMMdq_XMMdq_XMMdq_IMMb'' ''a86963f08fb9fce6c5dea43cfc60d943a'',
    iform ''VPCOMUQ_XMMdq_XMMdq_MEMdq_IMMb'' ''a42d0431ef9641c24a72f9869039c831d'',
    iform ''VPCOMUQ_XMMdq_XMMdq_XMMdq_IMMb'' ''af4179bb5d41c516c625c52cd30bbf36e'',
    iform ''VPCOMUW_XMMdq_XMMdq_MEMdq_IMMb'' ''a20b3c1f3c8d8d5f4c23f1c247894b4e3'',
    iform ''VPCOMUW_XMMdq_XMMdq_XMMdq_IMMb'' ''ad620420464f2630c8712f2b951e1b189'',
    iform ''VPCOMW_XMMdq_XMMdq_MEMdq_IMMb'' ''a86308a7a7cfc203b050b34f51355d399'',
    iform ''VPCOMW_XMMdq_XMMdq_XMMdq_IMMb'' ''af0c89695feed92bc9a0c643070e664d4'',
    iform ''VPCONFLICTD_XMMu32_MASKmskw_MEMu32_AVX512'' ''ae237951beaef7a379e26b0aac65f79fe'',
    iform ''VPCONFLICTD_XMMu32_MASKmskw_XMMu32_AVX512'' ''a3f085259c396d2b810aff64cb6bf809f'',
    iform ''VPCONFLICTD_YMMu32_MASKmskw_MEMu32_AVX512'' ''a1c432d66339157f8c167b6c45c1d45c3'',
    iform ''VPCONFLICTD_YMMu32_MASKmskw_YMMu32_AVX512'' ''a3feb50f0a87b316ede3941db6e59320f'',
    iform ''VPCONFLICTD_ZMMu32_MASKmskw_MEMu32_AVX512CD'' ''a2b759820e3062ea669e292a5488b58d1'',
    iform ''VPCONFLICTD_ZMMu32_MASKmskw_ZMMu32_AVX512CD'' ''a3f6248cab466ae7071539fdd7d56f300'',
    iform ''VPCONFLICTQ_XMMu64_MASKmskw_MEMu64_AVX512'' ''ae94e05fcf3500c4545954dbe19babba7'',
    iform ''VPCONFLICTQ_XMMu64_MASKmskw_XMMu64_AVX512'' ''a6b52ab69cfe9de1cd5277c1a76166b1d'',
    iform ''VPCONFLICTQ_YMMu64_MASKmskw_MEMu64_AVX512'' ''a7dd83ca8c72149158c38dc16c8d79371'',
    iform ''VPCONFLICTQ_YMMu64_MASKmskw_YMMu64_AVX512'' ''a4a0c2202f55d6faa7a144f4ae5c87d86'',
    iform ''VPCONFLICTQ_ZMMu64_MASKmskw_MEMu64_AVX512CD'' ''a0db75fecdf1910f915bcb50fd5e3fd59'',
    iform ''VPCONFLICTQ_ZMMu64_MASKmskw_ZMMu64_AVX512CD'' ''a402409197f900c08351dfd945e6436cc'',
    iform ''VPERM2F128_YMMqq_YMMqq_MEMqq_IMMb'' ''a236c28548a515a8d452d50381d8d3002'',
    iform ''VPERM2F128_YMMqq_YMMqq_YMMqq_IMMb'' ''ae4bd7fda2bad6aec248a6ee50dae25f9'',
    iform ''VPERM2I128_YMMqq_YMMqq_MEMqq_IMMb'' ''aa30dd0c94170369158b1f1aa118a4b20'',
    iform ''VPERM2I128_YMMqq_YMMqq_YMMqq_IMMb'' ''a174def5d3cec7b21928a489607941eb0'',
    iform ''VPERMB_XMMu8_MASKmskw_XMMu8_MEMu8_AVX512'' ''ab3310279bcd081961d95a55f4899bece'',
    iform ''VPERMB_XMMu8_MASKmskw_XMMu8_XMMu8_AVX512'' ''a2b65393d19f8f04773016ae216110975'',
    iform ''VPERMB_YMMu8_MASKmskw_YMMu8_MEMu8_AVX512'' ''a7f0e2b65bc4569db6f9f8564f71bfc11'',
    iform ''VPERMB_YMMu8_MASKmskw_YMMu8_YMMu8_AVX512'' ''ae86b7276764b53fb7cb5396f6f208590'',
    iform ''VPERMB_ZMMu8_MASKmskw_ZMMu8_MEMu8_AVX512'' ''a5a58635471c2acec614c86226ba6817f'',
    iform ''VPERMB_ZMMu8_MASKmskw_ZMMu8_ZMMu8_AVX512'' ''a35d5ebf93e146144ea77cc69fa0d3705'',
    iform ''VPERMD_YMMqq_YMMqq_MEMqq'' ''a75ebf6198ec73a8d389112f803eba7cd'',
    iform ''VPERMD_YMMqq_YMMqq_YMMqq'' ''a0d4daf98c0e7d4efca383efc08b5a50f'',
    iform ''VPERMD_YMMu32_MASKmskw_YMMu32_MEMu32_AVX512'' ''ae662f63ccb2251ac8cea01bc2194a8a6'',
    iform ''VPERMD_YMMu32_MASKmskw_YMMu32_YMMu32_AVX512'' ''a66ec1ac051fabb5cb80d92c6cfe9681a'',
    iform ''VPERMD_ZMMu32_MASKmskw_ZMMu32_MEMu32_AVX512'' ''a94ac21825d4e4b49ff63ff4af93f773d'',
    iform ''VPERMD_ZMMu32_MASKmskw_ZMMu32_ZMMu32_AVX512'' ''aabbfe26619e7e240644fb19dbfe7bd23'',
    iform ''VPERMI2B_XMMu8_MASKmskw_XMMu8_MEMu8_AVX512'' ''a33642895933b08952fb22912c2ce3438'',
    iform ''VPERMI2B_XMMu8_MASKmskw_XMMu8_XMMu8_AVX512'' ''af422dbdcc049521cae0394e46003467f'',
    iform ''VPERMI2B_YMMu8_MASKmskw_YMMu8_MEMu8_AVX512'' ''add8236d99cc2ca0d1eac52b1a6aef966'',
    iform ''VPERMI2B_YMMu8_MASKmskw_YMMu8_YMMu8_AVX512'' ''aea51bc387131100c20951cda0595b88e'',
    iform ''VPERMI2B_ZMMu8_MASKmskw_ZMMu8_MEMu8_AVX512'' ''abb7f19027fa202ea70230788969985ac'',
    iform ''VPERMI2B_ZMMu8_MASKmskw_ZMMu8_ZMMu8_AVX512'' ''a57d0515cfca2a4696904fd02706d95a6'',
    iform ''VPERMI2D_XMMu32_MASKmskw_XMMu32_MEMu32_AVX512'' ''ad2eb1beff0113fa83a0d72a7450aa10e'',
    iform ''VPERMI2D_XMMu32_MASKmskw_XMMu32_XMMu32_AVX512'' ''aa7e7f3c0e6d49c503dd9e8ceef2a2c18'',
    iform ''VPERMI2D_YMMu32_MASKmskw_YMMu32_MEMu32_AVX512'' ''a48ebbe732e6afc5475ec3c88b1554286'',
    iform ''VPERMI2D_YMMu32_MASKmskw_YMMu32_YMMu32_AVX512'' ''ab65cc96835a59ea0072e1027fde4f27a'',
    iform ''VPERMI2D_ZMMu32_MASKmskw_ZMMu32_MEMu32_AVX512'' ''a48c505355393d36e03615e030391cf43'',
    iform ''VPERMI2D_ZMMu32_MASKmskw_ZMMu32_ZMMu32_AVX512'' ''a31fcec9a5252f414d43d0d67b32cec2b'',
    iform ''VPERMI2PD_XMMf64_MASKmskw_XMMf64_MEMf64_AVX512'' ''a5ddac9c92fe2c87f189e90c79e81e505'',
    iform ''VPERMI2PD_XMMf64_MASKmskw_XMMf64_XMMf64_AVX512'' ''acaef8993282029a5ff1a6f5b4aa601b3'',
    iform ''VPERMI2PD_YMMf64_MASKmskw_YMMf64_MEMf64_AVX512'' ''ac97c9903b9348a451dfe6bae47c077f8'',
    iform ''VPERMI2PD_YMMf64_MASKmskw_YMMf64_YMMf64_AVX512'' ''a9c181568c2f178d0f0e83db117358d6e'',
    iform ''VPERMI2PD_ZMMf64_MASKmskw_ZMMf64_MEMf64_AVX512'' ''ab36d3323efac3e49ce17080981628930'',
    iform ''VPERMI2PD_ZMMf64_MASKmskw_ZMMf64_ZMMf64_AVX512'' ''af19ce3233441839fd247ce8e1aa40932'',
    iform ''VPERMI2PS_XMMf32_MASKmskw_XMMf32_MEMf32_AVX512'' ''a67832df36370d0a4d1847fe6e2d0adad'',
    iform ''VPERMI2PS_XMMf32_MASKmskw_XMMf32_XMMf32_AVX512'' ''a45324d03b6111fde49245624f8d833e9'',
    iform ''VPERMI2PS_YMMf32_MASKmskw_YMMf32_MEMf32_AVX512'' ''a59b449ba2b27c9e5bfa8c1a1df5a239f'',
    iform ''VPERMI2PS_YMMf32_MASKmskw_YMMf32_YMMf32_AVX512'' ''a2b122beaa5911a5532245b078363471d'',
    iform ''VPERMI2PS_ZMMf32_MASKmskw_ZMMf32_MEMf32_AVX512'' ''ae828c2115d332e25ba2bc24249e63cd3'',
    iform ''VPERMI2PS_ZMMf32_MASKmskw_ZMMf32_ZMMf32_AVX512'' ''a31bd4131a3c8a7ff612a7bdcd83caed8'',
    iform ''VPERMI2Q_XMMu64_MASKmskw_XMMu64_MEMu64_AVX512'' ''ab0466b0f3a9f2765ba797bb786caa1fd'',
    iform ''VPERMI2Q_XMMu64_MASKmskw_XMMu64_XMMu64_AVX512'' ''aa9f6afbca06d81227d7ebf93d383cd4a'',
    iform ''VPERMI2Q_YMMu64_MASKmskw_YMMu64_MEMu64_AVX512'' ''a062d75707916736db30ab694340492ee'',
    iform ''VPERMI2Q_YMMu64_MASKmskw_YMMu64_YMMu64_AVX512'' ''ab2db418eb06894131295b2aa6a2701c1'',
    iform ''VPERMI2Q_ZMMu64_MASKmskw_ZMMu64_MEMu64_AVX512'' ''a87eff4173c4fb58119c5624fb48d4026'',
    iform ''VPERMI2Q_ZMMu64_MASKmskw_ZMMu64_ZMMu64_AVX512'' ''a2c79d5fe82c5501207598e65bd1d0df6'',
    iform ''VPERMI2W_XMMu16_MASKmskw_XMMu16_MEMu16_AVX512'' ''a7d9e7762df1a5e6232c9b2bd63916fdc'',
    iform ''VPERMI2W_XMMu16_MASKmskw_XMMu16_XMMu16_AVX512'' ''a6dcd077621d2f9b275b4dbb98af7462d'',
    iform ''VPERMI2W_YMMu16_MASKmskw_YMMu16_MEMu16_AVX512'' ''a575540c693140e48fe11c79bcf68e78b'',
    iform ''VPERMI2W_YMMu16_MASKmskw_YMMu16_YMMu16_AVX512'' ''ae1ef791bc07c0556cc69b920df460503'',
    iform ''VPERMI2W_ZMMu16_MASKmskw_ZMMu16_MEMu16_AVX512'' ''aa81fdf0c79d2649f210715d6ce24e74b'',
    iform ''VPERMI2W_ZMMu16_MASKmskw_ZMMu16_ZMMu16_AVX512'' ''ae36165c31dff8b1cc73c0b49000a31cd'',
    iform ''VPERMIL2PD_XMMdq_XMMdq_MEMdq_XMMdq_IMMb'' ''afd1a15c95b843a1472e68d04f677251b'',
    iform ''VPERMIL2PD_XMMdq_XMMdq_XMMdq_MEMdq_IMMb'' ''a9b60784de1a3daac19e843eaeb6c815a'',
    iform ''VPERMIL2PD_XMMdq_XMMdq_XMMdq_XMMdq_IMMb'' ''a0dc9403ab7558fab2f45aae71f6ec68a'',
    iform ''VPERMIL2PD_YMMqq_YMMqq_MEMqq_YMMqq_IMMb'' ''acf168eb655a2bf60a86c78ec134d7c41'',
    iform ''VPERMIL2PD_YMMqq_YMMqq_YMMqq_MEMqq_IMMb'' ''ad5565a9a5225f277ffffa62f8c6febcc'',
    iform ''VPERMIL2PD_YMMqq_YMMqq_YMMqq_YMMqq_IMMb'' ''a2f92d92a77f26655d938fd202fac02b8'',
    iform ''VPERMIL2PS_XMMdq_XMMdq_MEMdq_XMMdq_IMMb'' ''ac67187e62cc32a123115503a1f67cb1e'',
    iform ''VPERMIL2PS_XMMdq_XMMdq_XMMdq_MEMdq_IMMb'' ''a3e7b1b2fa91d4b930c8d7a5bad37b18a'',
    iform ''VPERMIL2PS_XMMdq_XMMdq_XMMdq_XMMdq_IMMb'' ''a85bf52d407f7f0ab08617a7dc6997d19'',
    iform ''VPERMIL2PS_YMMqq_YMMqq_MEMqq_YMMqq_IMMb'' ''adf65161841809a87204e303d4bb91974'',
    iform ''VPERMIL2PS_YMMqq_YMMqq_YMMqq_MEMqq_IMMb'' ''a1302133876fd1d244fb78839119b8fe5'']"

lemma xed_iform_enum_8h_values_29_closed: "list_all (closed_node scripts) xed_iform_enum_8h_values_29"
  by (simp only: xed_iform_enum_8h_values_29_def closed_rules iform_closed)

definition xed_iform_enum_8h_values_30 :: "nav_node list" where
  "xed_iform_enum_8h_values_30 = [
    iform ''VPERMIL2PS_YMMqq_YMMqq_YMMqq_YMMqq_IMMb'' ''a9cdff58b383c8766b3204d2fee8c4267'',
    iform ''VPERMILPD_XMMdq_MEMdq_IMMb'' ''a6eaf7d02854833f0f2637b9996b536e2'',
    iform ''VPERMILPD_XMMdq_XMMdq_IMMb'' ''a647dbb76ca4cedaaf3f5f67b7f4a87e7'',
    iform ''VPERMILPD_XMMdq_XMMdq_MEMdq'' ''a49ea8aeba77233d9273effa06b604d3a'',
    iform ''VPERMILPD_XMMdq_XMMdq_XMMdq'' ''a59c0aa9aede220c563e5975d341aa5ac'',
    iform ''VPERMILPD_XMMf64_MASKmskw_MEMf64_IMM8_AVX512'' ''ac47e4bbfe083f0b2efa1fa718eb2c108'',
    iform ''VPERMILPD_XMMf64_MASKmskw_XMMf64_IMM8_AVX512'' ''afae583c8cc9f07116769f0e7216a716f'',
    iform ''VPERMILPD_XMMf64_MASKmskw_XMMf64_MEMf64_AVX512'' ''aa30e11cf262186212c9606a2a626caa3'',
    iform ''VPERMILPD_XMMf64_MASKmskw_XMMf64_XMMf64_AVX512'' ''aad589a5105038e11f112bd6c0fee7f76'',
    iform ''VPERMILPD_YMMf64_MASKmskw_MEMf64_IMM8_AVX512'' ''a484ad4ddbc37bc6bfab694403789ce2d'',
    iform ''VPERMILPD_YMMf64_MASKmskw_YMMf64_IMM8_AVX512'' ''abbcfccfe6c2856c3724a9cbfbddcbf18'',
    iform ''VPERMILPD_YMMf64_MASKmskw_YMMf64_MEMf64_AVX512'' ''ab883f1d2f41024ace7fc7b87c73958e6'',
    iform ''VPERMILPD_YMMf64_MASKmskw_YMMf64_YMMf64_AVX512'' ''a7e3fab68e143da4b438033b263add167'',
    iform ''VPERMILPD_YMMqq_MEMqq_IMMb'' ''a2dc69a2a3a094e9d0e482784ea3a0d30'',
    iform ''VPERMILPD_YMMqq_YMMqq_IMMb'' ''a6c5a149273efe1032cd1dd339008204b'',
    iform ''VPERMILPD_YMMqq_YMMqq_MEMqq'' ''aa24868246136c74efaeaf555153f1619'',
    iform ''VPERMILPD_YMMqq_YMMqq_YMMqq'' ''ad58d1baf5cb92c6c2bee45c91594918a'',
    iform ''VPERMILPD_ZMMf64_MASKmskw_MEMf64_IMM8_AVX512'' ''a8f23bab8965c1e2e1f78f829302b4cc5'',
    iform ''VPERMILPD_ZMMf64_MASKmskw_ZMMf64_IMM8_AVX512'' ''af8f4167874f731380ce90fa3cdbbe6f9'',
    iform ''VPERMILPD_ZMMf64_MASKmskw_ZMMf64_MEMf64_AVX512'' ''a41a9a20698b5bf627c52deeb36045883'',
    iform ''VPERMILPD_ZMMf64_MASKmskw_ZMMf64_ZMMf64_AVX512'' ''ae33c8c6d1f7efecc0a24477a264968d7'',
    iform ''VPERMILPS_XMMdq_MEMdq_IMMb'' ''a67442dd801cb9bb76ee4438f52226f7d'',
    iform ''VPERMILPS_XMMdq_XMMdq_IMMb'' ''aa26f3f0a407b4dfc90525e8ccc6469fd'',
    iform ''VPERMILPS_XMMdq_XMMdq_MEMdq'' ''a0d482109cae5a3cf28d4c75f3480eb19'',
    iform ''VPERMILPS_XMMdq_XMMdq_XMMdq'' ''a687f64c72d20bc99596ad139c76a8a8e'',
    iform ''VPERMILPS_XMMf32_MASKmskw_MEMf32_IMM8_AVX512'' ''adb6d7eb6fb67c4a05a951d7c68d6f38a'',
    iform ''VPERMILPS_XMMf32_MASKmskw_XMMf32_IMM8_AVX512'' ''a5e9d1934de7a11746af523c479f45e5b'',
    iform ''VPERMILPS_XMMf32_MASKmskw_XMMf32_MEMf32_AVX512'' ''a75c12d448918ff8155221e373ccfb147'',
    iform ''VPERMILPS_XMMf32_MASKmskw_XMMf32_XMMf32_AVX512'' ''a10c5e9d83eab3fe46a88274fa6c32ec4'',
    iform ''VPERMILPS_YMMf32_MASKmskw_MEMf32_IMM8_AVX512'' ''a1ac148fbf0267121bbdda2febd531510'',
    iform ''VPERMILPS_YMMf32_MASKmskw_YMMf32_IMM8_AVX512'' ''a88104f1e32191ad7df84251e10a75512'',
    iform ''VPERMILPS_YMMf32_MASKmskw_YMMf32_MEMf32_AVX512'' ''a0d14d1971d58b0a9ab79bd7532c848a6'',
    iform ''VPERMILPS_YMMf32_MASKmskw_YMMf32_YMMf32_AVX512'' ''a6b758c63c1c569436666dfda80c983c0'',
    iform ''VPERMILPS_YMMqq_MEMqq_IMMb'' ''af3a5da13925f4978a791b677780d451e'',
    iform ''VPERMILPS_YMMqq_YMMqq_IMMb'' ''a5ebe762a2907023d71ce60c647015bad'',
    iform ''VPERMILPS_YMMqq_YMMqq_MEMqq'' ''a2f1565f5272f5eb853d813330bce5376'',
    iform ''VPERMILPS_YMMqq_YMMqq_YMMqq'' ''a77667387cd1e19ef6406abeb8d11433f'',
    iform ''VPERMILPS_ZMMf32_MASKmskw_MEMf32_IMM8_AVX512'' ''a3e873a889217a4d8d553b6049d8f37d3'',
    iform ''VPERMILPS_ZMMf32_MASKmskw_ZMMf32_IMM8_AVX512'' ''ad20b5a0efad8d79bb10198af49c1b45d'',
    iform ''VPERMILPS_ZMMf32_MASKmskw_ZMMf32_MEMf32_AVX512'' ''a3ef8372dca8fe510b9ed4aea2527b892'',
    iform ''VPERMILPS_ZMMf32_MASKmskw_ZMMf32_ZMMf32_AVX512'' ''ac893ddd926caeec3024bb8492f9bf439'',
    iform ''VPERMPD_YMMf64_MASKmskw_MEMf64_IMM8_AVX512'' ''ab38197ca928a5438f46be029006376ef'',
    iform ''VPERMPD_YMMf64_MASKmskw_YMMf64_IMM8_AVX512'' ''a3da6e57fc221c92e62bce59f0e2605c1'',
    iform ''VPERMPD_YMMf64_MASKmskw_YMMf64_MEMf64_AVX512'' ''a890d858a66ff55d021e65a50e2685fde'',
    iform ''VPERMPD_YMMf64_MASKmskw_YMMf64_YMMf64_AVX512'' ''a74d202b88ac54acd6f1f8705844af73d'',
    iform ''VPERMPD_YMMqq_MEMqq_IMMb'' ''ab88f01adf95c88ff4c13b21ee7a5d2fc'',
    iform ''VPERMPD_YMMqq_YMMqq_IMMb'' ''a825c32d7af10f6388943265853834ffa'',
    iform ''VPERMPD_ZMMf64_MASKmskw_MEMf64_IMM8_AVX512'' ''a10e0aaa7a702417f0085fa33f05d396b'',
    iform ''VPERMPD_ZMMf64_MASKmskw_ZMMf64_IMM8_AVX512'' ''a607934e53ef0d7173d8f453c13b93625'',
    iform ''VPERMPD_ZMMf64_MASKmskw_ZMMf64_MEMf64_AVX512'' ''a97d94a55a3ac2c283b7441aa0cdcd3c7'',
    iform ''VPERMPD_ZMMf64_MASKmskw_ZMMf64_ZMMf64_AVX512'' ''a9a8733afd31cae145633dd2f09699187'',
    iform ''VPERMPS_YMMf32_MASKmskw_YMMf32_MEMf32_AVX512'' ''a12362af4fc4e186186c7d3856c9d940a'',
    iform ''VPERMPS_YMMf32_MASKmskw_YMMf32_YMMf32_AVX512'' ''ad0ab87e8ab0dafa314ac7444e3cbeebf'',
    iform ''VPERMPS_YMMqq_YMMqq_MEMqq'' ''aea0c79a6baa69f9cf2ece368c232dc99'',
    iform ''VPERMPS_YMMqq_YMMqq_YMMqq'' ''af769c9611bc51b75172ddbe5649aecb6'',
    iform ''VPERMPS_ZMMf32_MASKmskw_ZMMf32_MEMf32_AVX512'' ''a7067f305e0fd8c9814ac712921bcdbcf'',
    iform ''VPERMPS_ZMMf32_MASKmskw_ZMMf32_ZMMf32_AVX512'' ''ac22ad8522ceed5fc43ac8245b9e279db'',
    iform ''VPERMQ_YMMqq_MEMqq_IMMb'' ''ae2b1cce64168b366fe904238bb4a0fc4'',
    iform ''VPERMQ_YMMqq_YMMqq_IMMb'' ''a1befef8c5bc990a279ea51b092666a7d'',
    iform ''VPERMQ_YMMu64_MASKmskw_MEMu64_IMM8_AVX512'' ''a9d9ed71330bdc357aafe8a96d8a99b96'',
    iform ''VPERMQ_YMMu64_MASKmskw_YMMu64_IMM8_AVX512'' ''ae44517b8c56852b956e5aaae00b55f52'',
    iform ''VPERMQ_YMMu64_MASKmskw_YMMu64_MEMu64_AVX512'' ''a4beea56ecaa84c7a607197919978f2e5'',
    iform ''VPERMQ_YMMu64_MASKmskw_YMMu64_YMMu64_AVX512'' ''a59e245cc65221c9c5e7b302485d13252'',
    iform ''VPERMQ_ZMMu64_MASKmskw_MEMu64_IMM8_AVX512'' ''a8a20116212b611768169054535af8ca7'',
    iform ''VPERMQ_ZMMu64_MASKmskw_ZMMu64_IMM8_AVX512'' ''adeecdefc6cd008cb0a860aebd5d9be7f'',
    iform ''VPERMQ_ZMMu64_MASKmskw_ZMMu64_MEMu64_AVX512'' ''ad4918ca27a04c9a93cbd949be6c5e791'',
    iform ''VPERMQ_ZMMu64_MASKmskw_ZMMu64_ZMMu64_AVX512'' ''adcb68ec4966541c3af2180e5b7ecae05'',
    iform ''VPERMT2B_XMMu8_MASKmskw_XMMu8_MEMu8_AVX512'' ''a094d9a3fead74998ffc5dfe1cd335a08'',
    iform ''VPERMT2B_XMMu8_MASKmskw_XMMu8_XMMu8_AVX512'' ''a1867bc2f3422e5ee8326b3e50bc1afd5'',
    iform ''VPERMT2B_YMMu8_MASKmskw_YMMu8_MEMu8_AVX512'' ''a2a86991aa95acc996baa6a2b0880705f'',
    iform ''VPERMT2B_YMMu8_MASKmskw_YMMu8_YMMu8_AVX512'' ''ab5da59be2c9d7c4b0622fa7e8eb389b3'',
    iform ''VPERMT2B_ZMMu8_MASKmskw_ZMMu8_MEMu8_AVX512'' ''af00e3dd3fac0372ecf56e181f2519556'',
    iform ''VPERMT2B_ZMMu8_MASKmskw_ZMMu8_ZMMu8_AVX512'' ''a080548dcdb184ea3f6b3f77d43b046da'',
    iform ''VPERMT2D_XMMu32_MASKmskw_XMMu32_MEMu32_AVX512'' ''a49970e6f54a388974816def86d8ac375'',
    iform ''VPERMT2D_XMMu32_MASKmskw_XMMu32_XMMu32_AVX512'' ''a293e3ae12a9357860120e37a8a033817'',
    iform ''VPERMT2D_YMMu32_MASKmskw_YMMu32_MEMu32_AVX512'' ''af488e038c83e67587b697996eccfbcb3'',
    iform ''VPERMT2D_YMMu32_MASKmskw_YMMu32_YMMu32_AVX512'' ''a55470b91bfa8fd2aed1df67cf66d59b4'',
    iform ''VPERMT2D_ZMMu32_MASKmskw_ZMMu32_MEMu32_AVX512'' ''abc2097630f61d71117a34b35f4cd432e'',
    iform ''VPERMT2D_ZMMu32_MASKmskw_ZMMu32_ZMMu32_AVX512'' ''a966cb59a297eafb94f5ebf44e311a00a'',
    iform ''VPERMT2PD_XMMf64_MASKmskw_XMMf64_MEMf64_AVX512'' ''a0d2c008e9782302290f24cf367fd4362'',
    iform ''VPERMT2PD_XMMf64_MASKmskw_XMMf64_XMMf64_AVX512'' ''aeeb9d04506c405d3dd78197f78916b69'',
    iform ''VPERMT2PD_YMMf64_MASKmskw_YMMf64_MEMf64_AVX512'' ''a2925ac131ce3e8f42daf539ec4a41433'',
    iform ''VPERMT2PD_YMMf64_MASKmskw_YMMf64_YMMf64_AVX512'' ''a20f456ced1eba17269f919ceb891a9ef'',
    iform ''VPERMT2PD_ZMMf64_MASKmskw_ZMMf64_MEMf64_AVX512'' ''ae60451f59aafb856da7844938dafbbb8'',
    iform ''VPERMT2PD_ZMMf64_MASKmskw_ZMMf64_ZMMf64_AVX512'' ''a2658665c77babd9771905ce0942a4017'',
    iform ''VPERMT2PS_XMMf32_MASKmskw_XMMf32_MEMf32_AVX512'' ''a1b02976e88168e6a3a8e809395690eba'',
    iform ''VPERMT2PS_XMMf32_MASKmskw_XMMf32_XMMf32_AVX512'' ''a7a334e395b11f3fab8c3d8485097ee76'',
    iform ''VPERMT2PS_YMMf32_MASKmskw_YMMf32_MEMf32_AVX512'' ''a7982e26e871f1960b12917c46b46aa34'',
    iform ''VPERMT2PS_YMMf32_MASKmskw_YMMf32_YMMf32_AVX512'' ''ae7162fa0d865d044533db419e39a8187'',
    iform ''VPERMT2PS_ZMMf32_MASKmskw_ZMMf32_MEMf32_AVX512'' ''a311d06705f9403171c41060338a5fcc5'',
    iform ''VPERMT2PS_ZMMf32_MASKmskw_ZMMf32_ZMMf32_AVX512'' ''a0b20cc77a8aecfdd1ed18faf13679488'',
    iform ''VPERMT2Q_XMMu64_MASKmskw_XMMu64_MEMu64_AVX512'' ''a06426fb9ef34c9c08e0b66f9d571f311'',
    iform ''VPERMT2Q_XMMu64_MASKmskw_XMMu64_XMMu64_AVX512'' ''a357ceb5e7753b673ecf7d07565fd3a24'',
    iform ''VPERMT2Q_YMMu64_MASKmskw_YMMu64_MEMu64_AVX512'' ''a06cc425e181bceeb4e96c50989eff6ce'',
    iform ''VPERMT2Q_YMMu64_MASKmskw_YMMu64_YMMu64_AVX512'' ''a89f4a368b38667f324987c6b24693a06'',
    iform ''VPERMT2Q_ZMMu64_MASKmskw_ZMMu64_MEMu64_AVX512'' ''a9a90046a0fa0ae7a87ab251d4c8f7105'',
    iform ''VPERMT2Q_ZMMu64_MASKmskw_ZMMu64_ZMMu64_AVX512'' ''ac263ef48b2f17e6245b4b3bc17dac0c3'',
    iform ''VPERMT2W_XMMu16_MASKmskw_XMMu16_MEMu16_AVX512'' ''a53f03700c393735243727b5273b9ef90'',
    iform ''VPERMT2W_XMMu16_MASKmskw_XMMu16_XMMu16_AVX512'' ''a44061bb70f304bac96669fdc5e60911e'',
    iform ''VPERMT2W_YMMu16_MASKmskw_YMMu16_MEMu16_AVX512'' ''a5f57778e96905d4ffd73999ee8d1f8ab'',
    iform ''VPERMT2W_YMMu16_MASKmskw_YMMu16_YMMu16_AVX512'' ''a75786c1ad01b6b671696de28f78aaffa'',
    iform ''VPERMT2W_ZMMu16_MASKmskw_ZMMu16_MEMu16_AVX512'' ''ad03c2a0d0b46c0292af524eba355e070'',
    iform ''VPERMT2W_ZMMu16_MASKmskw_ZMMu16_ZMMu16_AVX512'' ''ae4d46dffd02d56bfce99067597ed61d2'',
    iform ''VPERMW_XMMu16_MASKmskw_XMMu16_MEMu16_AVX512'' ''aa87f61c17a80e620315ebe86708ca03f'',
    iform ''VPERMW_XMMu16_MASKmskw_XMMu16_XMMu16_AVX512'' ''a77e4ba8cd6d9275848114892f5de6084'',
    iform ''VPERMW_YMMu16_MASKmskw_YMMu16_MEMu16_AVX512'' ''af537297f08c456738708b38747bfed2d'',
    iform ''VPERMW_YMMu16_MASKmskw_YMMu16_YMMu16_AVX512'' ''ae6b9030e5ae3847aa9a8aaf2d538398a'',
    iform ''VPERMW_ZMMu16_MASKmskw_ZMMu16_MEMu16_AVX512'' ''a0eb89a0e03dd2e35af323885f8650550'',
    iform ''VPERMW_ZMMu16_MASKmskw_ZMMu16_ZMMu16_AVX512'' ''ac447bd25bae1d0c4a5ee69540973ab3a'',
    iform ''VPEXPANDD_XMMu32_MASKmskw_MEMu32_AVX512'' ''a42e2328f624148b2b33595bad6d12d42'',
    iform ''VPEXPANDD_XMMu32_MASKmskw_XMMu32_AVX512'' ''a5842c6618ef3846ad54fd1e8802c2b2c'',
    iform ''VPEXPANDD_YMMu32_MASKmskw_MEMu32_AVX512'' ''a423708884b11ee60a9ff7ae1264a2150'',
    iform ''VPEXPANDD_YMMu32_MASKmskw_YMMu32_AVX512'' ''af53e832d74cb00a1f3c5ee25de13fd83'',
    iform ''VPEXPANDD_ZMMu32_MASKmskw_MEMu32_AVX512'' ''a0e4cab5eb72731a8c071790961dc4823'',
    iform ''VPEXPANDD_ZMMu32_MASKmskw_ZMMu32_AVX512'' ''a169055ebd4eefeb6c1a0b49e5641db02'',
    iform ''VPEXPANDQ_XMMu64_MASKmskw_MEMu64_AVX512'' ''aeae640900327878b57fac293c7f3894b'',
    iform ''VPEXPANDQ_XMMu64_MASKmskw_XMMu64_AVX512'' ''a3c59ef8d87afcd897aee8ace11a7549f'',
    iform ''VPEXPANDQ_YMMu64_MASKmskw_MEMu64_AVX512'' ''a5e5aadb1787b82a6507508ee0bd55f67'',
    iform ''VPEXPANDQ_YMMu64_MASKmskw_YMMu64_AVX512'' ''aef2e9645d388f61d4f65d7b0e8cf8ba1'',
    iform ''VPEXPANDQ_ZMMu64_MASKmskw_MEMu64_AVX512'' ''af20df58bcea84e228195a283e03186a5'',
    iform ''VPEXPANDQ_ZMMu64_MASKmskw_ZMMu64_AVX512'' ''a41f4754645c3f2166e3789086af9adc3'',
    iform ''VPEXTRB_GPR32d_XMMdq_IMMb'' ''a890bab41d2d472165d959454918ebdfc'',
    iform ''VPEXTRB_GPR32u8_XMMu8_IMM8_AVX512'' ''adaedf83851a01bc1d26629987f74d69a'',
    iform ''VPEXTRB_MEMb_XMMdq_IMMb'' ''aed915a29a49ab56b92b8c02e44c669a2'',
    iform ''VPEXTRB_MEMu8_XMMu8_IMM8_AVX512'' ''a4a980f83eb1575d8c6c9acc475ee2d84'',
    iform ''VPEXTRD_GPR32d_XMMdq_IMMb'' ''aecc77e8cd9f79697c6a5019394ab9d72'',
    iform ''VPEXTRD_GPR32u32_XMMu32_IMM8_AVX512'' ''a93f06526fc3b1329456bf700f077a2ff'',
    iform ''VPEXTRD_MEMd_XMMdq_IMMb'' ''a84af8f4742bd3647e3dc8932374eaa0f'',
    iform ''VPEXTRD_MEMu32_XMMu32_IMM8_AVX512'' ''a576d60e9ba63d08600b4b55033701ded'',
    iform ''VPEXTRQ_GPR64q_XMMdq_IMMb'' ''aeab5094aa90ea55fc9b9e2127dbf3d37'',
    iform ''VPEXTRQ_GPR64u64_XMMu64_IMM8_AVX512'' ''a69cddde6c3b77e8713a912eed1b44e7d'',
    iform ''VPEXTRQ_MEMq_XMMdq_IMMb'' ''adae82d605823297c36f6e7c7a9b00be6'',
    iform ''VPEXTRQ_MEMu64_XMMu64_IMM8_AVX512'' ''aa52301939d0a678fdd63154e3ce9b8cc'',
    iform ''VPEXTRW_GPR32d_XMMdq_IMMb_15'' ''a724908ff1b21f7f0101701e8f539af78'',
    iform ''VPEXTRW_GPR32d_XMMdq_IMMb_C5'' ''a4402409b785043a4c01f33256d212a22'',
    iform ''VPEXTRW_GPR32u16_XMMu16_IMM8_AVX512'' ''ad6fc89e06d4a7908f3c1f0761d38077b'',
    iform ''VPEXTRW_MEMu16_XMMu16_IMM8_AVX512'' ''a04e7ec62d0f4faa9ec2c69860b448bf0'',
    iform ''VPEXTRW_MEMw_XMMdq_IMMb'' ''a570c2126430e4e8018729c3afe4bb301'',
    iform ''VPGATHERDD_XMMu32_MASKmskw_MEMu32_AVX512_VL128'' ''a7b2cece48babda3d67464836cefad2b8'',
    iform ''VPGATHERDD_XMMu32_MEMdq_XMMi32_VL128'' ''aaa1b063feb3350a2ebab139221ae44f5'']"

lemma xed_iform_enum_8h_values_30_closed: "list_all (closed_node scripts) xed_iform_enum_8h_values_30"
  by (simp only: xed_iform_enum_8h_values_30_def closed_rules iform_closed)

definition xed_iform_enum_8h_values_31 :: "nav_node list" where
  "xed_iform_enum_8h_values_31 = [
    iform ''VPGATHERDD_YMMu32_MASKmskw_MEMu32_AVX512_VL256'' ''ac63ab88410e4ceb88baf0ea6108e2dac'',
    iform ''VPGATHERDD_YMMu32_MEMqq_YMMi32_VL256'' ''a6240b5508483a287e30aa4c2af98f68d'',
    iform ''VPGATHERDD_ZMMu32_MASKmskw_MEMu32_AVX512_VL512'' ''a821588c538c985beaa3776ee282e0abf'',
    iform ''VPGATHERDQ_XMMu64_MASKmskw_MEMu64_AVX512_VL128'' ''aef2cf5c0ea95194ef8f8f93de069c0ed'',
    iform ''VPGATHERDQ_XMMu64_MEMdq_XMMi64_VL128'' ''a083a756fb1292a780ad745ec33e9d668'',
    iform ''VPGATHERDQ_YMMu64_MASKmskw_MEMu64_AVX512_VL256'' ''ad666b79fdd1f438a3043bee59c31b308'',
    iform ''VPGATHERDQ_YMMu64_MEMqq_YMMi64_VL256'' ''a0659e315573b7940e92965f487d89437'',
    iform ''VPGATHERDQ_ZMMu64_MASKmskw_MEMu64_AVX512_VL512'' ''ab652c95055a6f4fcb8cf403b21d0eca6'',
    iform ''VPGATHERQD_XMMu32_MASKmskw_MEMu32_AVX512_VL128'' ''a6c39493487bfca8db45263abadf5920a'',
    iform ''VPGATHERQD_XMMu32_MASKmskw_MEMu32_AVX512_VL256'' ''af90fb4ab9977cbcc175ce8276ad544df'',
    iform ''VPGATHERQD_XMMu32_MEMdq_XMMi32_VL256'' ''a8949c3e89c41e8913b396b63d3bd7253'',
    iform ''VPGATHERQD_XMMu32_MEMq_XMMi32_VL128'' ''ae77dd5cac363f36ef1b7381a7cc38a32'',
    iform ''VPGATHERQD_YMMu32_MASKmskw_MEMu32_AVX512_VL512'' ''a7c496b0ddf773f35075d6b6500c8df57'',
    iform ''VPGATHERQQ_XMMu64_MASKmskw_MEMu64_AVX512_VL128'' ''aa0b5905392c1395c17e7b39629b3ea06'',
    iform ''VPGATHERQQ_XMMu64_MEMdq_XMMi64_VL128'' ''a8a61319490ec2404e700541b29c1e85c'',
    iform ''VPGATHERQQ_YMMu64_MASKmskw_MEMu64_AVX512_VL256'' ''a5e1e0be8323c7f8492383bb142977104'',
    iform ''VPGATHERQQ_YMMu64_MEMqq_YMMi64_VL256'' ''a2d9246ea30ce8e664e2632011119d74b'',
    iform ''VPGATHERQQ_ZMMu64_MASKmskw_MEMu64_AVX512_VL512'' ''ad2cb19e8fa924c2ce4ba68293659bd41'',
    iform ''VPHADDBD_XMMdq_MEMdq'' ''a401bec7fd5e30ec21c5ca3876d7aa096'',
    iform ''VPHADDBD_XMMdq_XMMdq'' ''a9d29ffc16ade5926eb21c96d5cc14092'',
    iform ''VPHADDBQ_XMMdq_MEMdq'' ''ad614c33ad786c8b96c17d74316aaa2b9'',
    iform ''VPHADDBQ_XMMdq_XMMdq'' ''aa467b74acec925bb845b96142f66c69b'',
    iform ''VPHADDBW_XMMdq_MEMdq'' ''ab42acb2d210c6cb99d75ec7c1117a201'',
    iform ''VPHADDBW_XMMdq_XMMdq'' ''a421fd7eb92c4db05267e761407d93b9b'',
    iform ''VPHADDD_XMMdq_XMMdq_MEMdq'' ''a6e33b9a86b04b4db98679783ac634fbb'',
    iform ''VPHADDD_XMMdq_XMMdq_XMMdq'' ''a8c2fb9a4c06208b58731aca6b81b90d1'',
    iform ''VPHADDD_YMMqq_YMMqq_MEMqq'' ''af83d9e2340a38773ad990669b712dd37'',
    iform ''VPHADDD_YMMqq_YMMqq_YMMqq'' ''acf1739ce6b538033be8268778c984a20'',
    iform ''VPHADDDQ_XMMdq_MEMdq'' ''a72f5122c6df154d2fbaeb02a4367e60b'',
    iform ''VPHADDDQ_XMMdq_XMMdq'' ''adc336d20b820450a553b3ffe64562b11'',
    iform ''VPHADDSW_XMMdq_XMMdq_MEMdq'' ''a09e7cb6246d22e5f7a8f6dabb50a0779'',
    iform ''VPHADDSW_XMMdq_XMMdq_XMMdq'' ''a0cb722627d5f1151529290ceb1154ffb'',
    iform ''VPHADDSW_YMMqq_YMMqq_MEMqq'' ''a465a8302c733edba890145d60c2d1c63'',
    iform ''VPHADDSW_YMMqq_YMMqq_YMMqq'' ''a0754f7789e95b4c56a84267b519f9039'',
    iform ''VPHADDUBD_XMMdq_MEMdq'' ''a50951f2e78e37ac87f073215ed6a61ee'',
    iform ''VPHADDUBD_XMMdq_XMMdq'' ''a8718e1d3b59b6a385adb7ee41a00f45f'',
    iform ''VPHADDUBQ_XMMdq_MEMdq'' ''a697156c730c9588c48dbdbacc9b18709'',
    iform ''VPHADDUBQ_XMMdq_XMMdq'' ''ae8ba255a2d651412bdae4d72c100fcfe'',
    iform ''VPHADDUBW_XMMdq_MEMdq'' ''a449ef36b35a16e9cd023409dc8086650'',
    iform ''VPHADDUBW_XMMdq_XMMdq'' ''a80431cee561600bf3503c22b403df1d2'',
    iform ''VPHADDUDQ_XMMdq_MEMdq'' ''a078ae037550edbcdb951098b057396f7'',
    iform ''VPHADDUDQ_XMMdq_XMMdq'' ''a8b2724c664971605425dc0cb9d46eb00'',
    iform ''VPHADDUWD_XMMdq_MEMdq'' ''a771329a3067c664d035ff70eccb29890'',
    iform ''VPHADDUWD_XMMdq_XMMdq'' ''a1ce47cc5f3b564a4cb2b2e15a7b8a2cc'',
    iform ''VPHADDUWQ_XMMdq_MEMdq'' ''a2d2a2b84a0d741de6ddd0647c2b35aa8'',
    iform ''VPHADDUWQ_XMMdq_XMMdq'' ''afc3a389b16630d6b95c6887350d166e2'',
    iform ''VPHADDW_XMMdq_XMMdq_MEMdq'' ''a66976741523cf19a6f0bf75b8b437fbf'',
    iform ''VPHADDW_XMMdq_XMMdq_XMMdq'' ''aabc69a8c9bcbc067732998e965fcf01f'',
    iform ''VPHADDW_YMMqq_YMMqq_MEMqq'' ''a95661531db46046fdcfc61112d6c8f6e'',
    iform ''VPHADDW_YMMqq_YMMqq_YMMqq'' ''a207eaadbd2f8303e5712c327b7ff5e8f'',
    iform ''VPHADDWD_XMMdq_MEMdq'' ''a023fbffbdb99d609caacbfca48d93da6'',
    iform ''VPHADDWD_XMMdq_XMMdq'' ''acc68576d7bcd6d9f1e41fba99501c5be'',
    iform ''VPHADDWQ_XMMdq_MEMdq'' ''a30bfb2c05bc49c3b49c703a41c709b63'',
    iform ''VPHADDWQ_XMMdq_XMMdq'' ''a7eb38f13f34e0f5c747db1365cc55735'',
    iform ''VPHMINPOSUW_XMMdq_MEMdq'' ''a962770a730b29275353ce66bf16f4065'',
    iform ''VPHMINPOSUW_XMMdq_XMMdq'' ''acc59c99300fc61e6515cb211d8b19555'',
    iform ''VPHMINPOSUW_YMMqq_MEMqq'' ''a6240ce00ce52411de59e784bc7dd9ca0'',
    iform ''VPHMINPOSUW_YMMqq_YMMqq'' ''a918d19d89505ac8bd2f557fca59020db'',
    iform ''VPHSUBBW_XMMdq_MEMdq'' ''a11d8856bf7995fcb6f7d764842016dc3'',
    iform ''VPHSUBBW_XMMdq_XMMdq'' ''a05b8f6e8bb72a864a148232ced7eccc9'',
    iform ''VPHSUBD_XMMdq_XMMdq_MEMdq'' ''aa190d93fd8f56d13ee05656216df526a'',
    iform ''VPHSUBD_XMMdq_XMMdq_XMMdq'' ''aa70d1b358c2c4d5a462417593e07f198'',
    iform ''VPHSUBD_YMMqq_YMMqq_MEMqq'' ''a30a6713cbef563a7d87794f3507ee9b8'',
    iform ''VPHSUBD_YMMqq_YMMqq_YMMqq'' ''abb37f321e4fc5ec689470a6456c01b9b'',
    iform ''VPHSUBDQ_XMMdq_MEMdq'' ''a3ab74ca7b6c6ad76d8cb44b7801561ad'',
    iform ''VPHSUBDQ_XMMdq_XMMdq'' ''aaa1080e06dd13b125df91e73c5923f6b'',
    iform ''VPHSUBSW_XMMdq_XMMdq_MEMdq'' ''ae9cea392eea5e320cc4590bca5ca9651'',
    iform ''VPHSUBSW_XMMdq_XMMdq_XMMdq'' ''a41421781c33b899394041f2afbd1198c'',
    iform ''VPHSUBSW_YMMqq_YMMqq_MEMqq'' ''aebbb2d9df4ffa1bbbcb393dbb0005f17'',
    iform ''VPHSUBSW_YMMqq_YMMqq_YMMqq'' ''a59ba3df2aae540429dbab6ecaed18bad'',
    iform ''VPHSUBW_XMMdq_XMMdq_MEMdq'' ''acf28a7eeab12b90c5e057b12fd84fca2'',
    iform ''VPHSUBW_XMMdq_XMMdq_XMMdq'' ''ac9e8de66631f5dafd77bd030bd023c74'',
    iform ''VPHSUBW_YMMqq_YMMqq_MEMqq'' ''acbb2935f9d508a781696a95f21b25384'',
    iform ''VPHSUBW_YMMqq_YMMqq_YMMqq'' ''a3f66ee6a1e1a2361fef6806c96dae233'',
    iform ''VPHSUBWD_XMMdq_MEMdq'' ''a75b0e54358df2e2e964473ec6e08eec8'',
    iform ''VPHSUBWD_XMMdq_XMMdq'' ''a4db2838d843ca4eaab06faf9dde78fc2'',
    iform ''VPINSRB_XMMdq_XMMdq_GPR32d_IMMb'' ''a09db356d0e218f68ca5238c1d1bed20a'',
    iform ''VPINSRB_XMMdq_XMMdq_MEMb_IMMb'' ''a65fb01f874489ae40003286d6d863b4a'',
    iform ''VPINSRB_XMMu8_XMMu8_GPR32u8_IMM8_AVX512'' ''aeb4ebc7294402f8c10c9b3d49f6a9821'',
    iform ''VPINSRB_XMMu8_XMMu8_MEMu8_IMM8_AVX512'' ''a72d69a6e507a4fb399d10af090517c48'',
    iform ''VPINSRD_XMMdq_XMMdq_GPR32d_IMMb'' ''a98178c7f06520432ea185ba617a26df0'',
    iform ''VPINSRD_XMMdq_XMMdq_MEMd_IMMb'' ''a79c5822ecc618f01ca169d42e765cbac'',
    iform ''VPINSRD_XMMu32_XMMu32_GPR32u32_IMM8_AVX512'' ''a745bf28c02f428eca13b9ee7e1345883'',
    iform ''VPINSRD_XMMu32_XMMu32_MEMu32_IMM8_AVX512'' ''ab33bfc392f552eb34969bee5b97e9ce5'',
    iform ''VPINSRQ_XMMdq_XMMdq_GPR64q_IMMb'' ''a2daf028ae1e6fa726bdcbffef75cc1cf'',
    iform ''VPINSRQ_XMMdq_XMMdq_MEMq_IMMb'' ''a74bbc7fbee49181d51c97f4d00603977'',
    iform ''VPINSRQ_XMMu64_XMMu64_GPR64u64_IMM8_AVX512'' ''a636291e9f0c9fcc1a8ebd050450d6acc'',
    iform ''VPINSRQ_XMMu64_XMMu64_MEMu64_IMM8_AVX512'' ''a8bf8a856e9cc1aa0829632a04a8673ae'',
    iform ''VPINSRW_XMMdq_XMMdq_GPR32d_IMMb'' ''a8eadba94e0dded994db3e6d97fa48339'',
    iform ''VPINSRW_XMMdq_XMMdq_MEMw_IMMb'' ''a046a3c69e33206e2aed38a1ca35dca55'',
    iform ''VPINSRW_XMMu16_XMMu16_GPR32u16_IMM8_AVX512'' ''a22d35f243231c6bf9093bf7a3c5b9fa2'',
    iform ''VPINSRW_XMMu16_XMMu16_MEMu16_IMM8_AVX512'' ''a1f3823c46134a670f350429a41ef345c'',
    iform ''VPLZCNTD_XMMu32_MASKmskw_MEMu32_AVX512'' ''a53f01c58cd6e503b04d7f5957a7abc7a'',
    iform ''VPLZCNTD_XMMu32_MASKmskw_XMMu32_AVX512'' ''ab6fddbbedcc85e0b995d4ec4617d072b'',
    iform ''VPLZCNTD_YMMu32_MASKmskw_MEMu32_AVX512'' ''a922882f5e6a064fbe632cb1d6901c3d3'',
    iform ''VPLZCNTD_YMMu32_MASKmskw_YMMu32_AVX512'' ''af085789f0f363fdd3b5a0860776a3da9'',
    iform ''VPLZCNTD_ZMMu32_MASKmskw_MEMu32_AVX512CD'' ''ab93d7950385fc7498294cd855a7fe276'',
    iform ''VPLZCNTD_ZMMu32_MASKmskw_ZMMu32_AVX512CD'' ''a147bf4f3a34ad0b25a14c3037050ff96'',
    iform ''VPLZCNTQ_XMMu64_MASKmskw_MEMu64_AVX512'' ''a4e69ac786faadaab89ba5097d42b4c83'',
    iform ''VPLZCNTQ_XMMu64_MASKmskw_XMMu64_AVX512'' ''abf3d942039fd580a193d20fe6fb508a0'',
    iform ''VPLZCNTQ_YMMu64_MASKmskw_MEMu64_AVX512'' ''aea8293f086325d184e5216ef5b16ada8'',
    iform ''VPLZCNTQ_YMMu64_MASKmskw_YMMu64_AVX512'' ''afda2c5868daef0ff1a9dd2c73b16786f'',
    iform ''VPLZCNTQ_ZMMu64_MASKmskw_MEMu64_AVX512CD'' ''a403b634006f0a355009f309ff3cc3c2a'',
    iform ''VPLZCNTQ_ZMMu64_MASKmskw_ZMMu64_AVX512CD'' ''a31819b41659eed91a5090b7d447796b3'',
    iform ''VPMACSDD_XMMdq_XMMdq_MEMdq_XMMdq'' ''a9719341dc726d5fdb52495d9987799f6'',
    iform ''VPMACSDD_XMMdq_XMMdq_XMMdq_XMMdq'' ''a33f9106a0b7c95d6fe05b39881acceb9'',
    iform ''VPMACSDQH_XMMdq_XMMdq_MEMdq_XMMdq'' ''a6b30c9b22ff700cfa4609a559d03972a'',
    iform ''VPMACSDQH_XMMdq_XMMdq_XMMdq_XMMdq'' ''a1ccad2b7cd16c0e2e57b884b0a9ff955'',
    iform ''VPMACSDQL_XMMdq_XMMdq_MEMdq_XMMdq'' ''ae2c08255e01462825f6a3e235b7039be'',
    iform ''VPMACSDQL_XMMdq_XMMdq_XMMdq_XMMdq'' ''a0e5869daa0cd819475554ace0ff8af52'',
    iform ''VPMACSSDD_XMMdq_XMMdq_MEMdq_XMMdq'' ''a104fafa41cff57fb8c2b60e1e555ce55'',
    iform ''VPMACSSDD_XMMdq_XMMdq_XMMdq_XMMdq'' ''a37ecea484813cf3f25df204e2e8c680f'',
    iform ''VPMACSSDQH_XMMdq_XMMdq_MEMdq_XMMdq'' ''a42b9b09b2ef874d296219550212bfd1e'',
    iform ''VPMACSSDQH_XMMdq_XMMdq_XMMdq_XMMdq'' ''a5bad2251152df4e743e85771a791b878'',
    iform ''VPMACSSDQL_XMMdq_XMMdq_MEMdq_XMMdq'' ''afecfeaea3bd497b6c7ce316744066c15'',
    iform ''VPMACSSDQL_XMMdq_XMMdq_XMMdq_XMMdq'' ''a16adf9aab56dabc74a2a232ac30fed33'',
    iform ''VPMACSSWD_XMMdq_XMMdq_MEMdq_XMMdq'' ''a58c343250a9056c4e2d8ab6d49831eae'',
    iform ''VPMACSSWD_XMMdq_XMMdq_XMMdq_XMMdq'' ''a8d31b0077a406894b51d5aaa1c6d4343'',
    iform ''VPMACSSWW_XMMdq_XMMdq_MEMdq_XMMdq'' ''aaec23c53441bb1d08e85d42d471b7da5'',
    iform ''VPMACSSWW_XMMdq_XMMdq_XMMdq_XMMdq'' ''aeb695eedc68ba78bd99782432aed9a38'',
    iform ''VPMACSWD_XMMdq_XMMdq_MEMdq_XMMdq'' ''af5b865209a9cf58e5f8f3eadedb27a70'',
    iform ''VPMACSWD_XMMdq_XMMdq_XMMdq_XMMdq'' ''afc55f3efbff50b2153c96128a6485821'',
    iform ''VPMACSWW_XMMdq_XMMdq_MEMdq_XMMdq'' ''ac3871f9a2d6929602908f1397db6ea78'',
    iform ''VPMACSWW_XMMdq_XMMdq_XMMdq_XMMdq'' ''a7d0ab65bc345809076d3a961731ba418'',
    iform ''VPMADCSSWD_XMMdq_XMMdq_MEMdq_XMMdq'' ''a1394aed235a4c201a086fc119c359f97'',
    iform ''VPMADCSSWD_XMMdq_XMMdq_XMMdq_XMMdq'' ''a5102fb891d7eb9d3138800f87c9b4ca1'',
    iform ''VPMADCSWD_XMMdq_XMMdq_MEMdq_XMMdq'' ''a377544b03f2cbe04ad7757527b1def2f'',
    iform ''VPMADCSWD_XMMdq_XMMdq_XMMdq_XMMdq'' ''a5b418fbc67adc749d06db51ccf2e0782'',
    iform ''VPMADD52HUQ_XMMu64_MASKmskw_XMMu64_MEMu64_AVX512'' ''a37014135295b2e26e191fb401f17e7cd'',
    iform ''VPMADD52HUQ_XMMu64_MASKmskw_XMMu64_XMMu64_AVX512'' ''a44baf33e3fd5afb2da2557e1133fe4a0'',
    iform ''VPMADD52HUQ_YMMu64_MASKmskw_YMMu64_MEMu64_AVX512'' ''a4b4e56c2a703a720e8e2439106a9d386'',
    iform ''VPMADD52HUQ_YMMu64_MASKmskw_YMMu64_YMMu64_AVX512'' ''a0d5e11564004b7d4ab22e99b97dd6a38'',
    iform ''VPMADD52HUQ_ZMMu64_MASKmskw_ZMMu64_MEMu64_AVX512'' ''ab34cfec64355636902ba41df49e8f76e'',
    iform ''VPMADD52HUQ_ZMMu64_MASKmskw_ZMMu64_ZMMu64_AVX512'' ''aad391e95ea4ee151dee6c40bd770822a'',
    iform ''VPMADD52LUQ_XMMu64_MASKmskw_XMMu64_MEMu64_AVX512'' ''affee1788311c75ef9c8d9eaf810eafa2'',
    iform ''VPMADD52LUQ_XMMu64_MASKmskw_XMMu64_XMMu64_AVX512'' ''a812932cae02a7bde301ab7ac6e1583d4'',
    iform ''VPMADD52LUQ_YMMu64_MASKmskw_YMMu64_MEMu64_AVX512'' ''aa42225819a122e7415596c01e050e053'',
    iform ''VPMADD52LUQ_YMMu64_MASKmskw_YMMu64_YMMu64_AVX512'' ''adb892859603339b82fbac615518837b1'',
    iform ''VPMADD52LUQ_ZMMu64_MASKmskw_ZMMu64_MEMu64_AVX512'' ''ab02a37560db650b15c8955905758c52a'',
    iform ''VPMADD52LUQ_ZMMu64_MASKmskw_ZMMu64_ZMMu64_AVX512'' ''a35521bd6ae3b62808bff8019c3a2c2d9'']"

lemma xed_iform_enum_8h_values_31_closed: "list_all (closed_node scripts) xed_iform_enum_8h_values_31"
  by (simp only: xed_iform_enum_8h_values_31_def closed_rules iform_closed)

definition xed_iform_enum_8h_values_32 :: "nav_node list" where
  "xed_iform_enum_8h_values_32 = [
    iform ''VPMADDUBSW_XMMdq_XMMdq_MEMdq'' ''a3d07204853d1ee7bcd48d0e423229c0f'',
    iform ''VPMADDUBSW_XMMdq_XMMdq_XMMdq'' ''a0c4c12201cab103cd84dac8764a83a6b'',
    iform ''VPMADDUBSW_XMMi16_MASKmskw_XMMi16_MEMi16_AVX512'' ''a447462d650fcb84ff6d0a1d2e3a9ad0f'',
    iform ''VPMADDUBSW_XMMi16_MASKmskw_XMMi16_XMMi16_AVX512'' ''a3dee4126c22e7e9efcb4bc067c1dda84'',
    iform ''VPMADDUBSW_YMMi16_MASKmskw_YMMi16_MEMi16_AVX512'' ''a018d16cf53fdc65e72c1e5f7ec8d4e54'',
    iform ''VPMADDUBSW_YMMi16_MASKmskw_YMMi16_YMMi16_AVX512'' ''a872938280fdd6065bafba29da34f7377'',
    iform ''VPMADDUBSW_YMMqq_YMMqq_MEMqq'' ''a604aba4dc47bf2e73cc03d2a635d7b34'',
    iform ''VPMADDUBSW_YMMqq_YMMqq_YMMqq'' ''a47a3993d8f18762cacf0ad0018a241ea'',
    iform ''VPMADDUBSW_ZMMi16_MASKmskw_ZMMi16_MEMi16_AVX512'' ''a9aa279943e72a42ca78ec44ab3b2ed7e'',
    iform ''VPMADDUBSW_ZMMi16_MASKmskw_ZMMi16_ZMMi16_AVX512'' ''a50bef10615b11b7997fb8eccb6b5ebc0'',
    iform ''VPMADDWD_XMMdq_XMMdq_MEMdq'' ''ab2970a029f6433bf7b14559d4f096251'',
    iform ''VPMADDWD_XMMdq_XMMdq_XMMdq'' ''a0f4cac9cab1ef35ec46f41e9253362a8'',
    iform ''VPMADDWD_XMMi32_MASKmskw_XMMi16_MEMi16_AVX512'' ''a15c071f07ae9c4df38b841617b2e3d01'',
    iform ''VPMADDWD_XMMi32_MASKmskw_XMMi16_XMMi16_AVX512'' ''a17ad88f79cd56f214022f5612deca68c'',
    iform ''VPMADDWD_YMMi32_MASKmskw_YMMi16_MEMi16_AVX512'' ''ab7ad9cf87808ea5ceed286b4289d6057'',
    iform ''VPMADDWD_YMMi32_MASKmskw_YMMi16_YMMi16_AVX512'' ''a86c35ba4a9b82fab686e7f80e85d68d8'',
    iform ''VPMADDWD_YMMqq_YMMqq_MEMqq'' ''a62d0f7bf2178b053523b3cb426bca4e8'',
    iform ''VPMADDWD_YMMqq_YMMqq_YMMqq'' ''ad0e2c6a7d9fb9bcc0a6a4d4947ba4cae'',
    iform ''VPMADDWD_ZMMi32_MASKmskw_ZMMi16_MEMi16_AVX512'' ''a26afba3c7ea24cceec8b222b500e8e70'',
    iform ''VPMADDWD_ZMMi32_MASKmskw_ZMMi16_ZMMi16_AVX512'' ''afdcdb953d6fce7d4a3d1a8baf7b5dfb5'',
    iform ''VPMASKMOVD_MEMdq_XMMdq_XMMdq'' ''a57a890d01d364eee0df748416a17c39d'',
    iform ''VPMASKMOVD_MEMqq_YMMqq_YMMqq'' ''a5f920e1cbf8a17de71ce7ee3df296b8e'',
    iform ''VPMASKMOVD_XMMdq_XMMdq_MEMdq'' ''a30c0f58a3979ad9735fb02d5f7722cd0'',
    iform ''VPMASKMOVD_YMMqq_YMMqq_MEMqq'' ''a211539388d0787c988f7736db3c8f3df'',
    iform ''VPMASKMOVQ_MEMdq_XMMdq_XMMdq'' ''a1774c918a57e022d5523f95bc3f1ea1b'',
    iform ''VPMASKMOVQ_MEMqq_YMMqq_YMMqq'' ''aa4b5c8e6d6999e2641d81e3aea8b3c9a'',
    iform ''VPMASKMOVQ_XMMdq_XMMdq_MEMdq'' ''a5f5da1c270afd6c23ac7449a0b382c4c'',
    iform ''VPMASKMOVQ_YMMqq_YMMqq_MEMqq'' ''ad476d393b3168eab26fa70cdd25320ac'',
    iform ''VPMAXSB_XMMdq_XMMdq_MEMdq'' ''abc3c178914bf65e7a54d4ea4fda8b1e8'',
    iform ''VPMAXSB_XMMdq_XMMdq_XMMdq'' ''ab618517161ca470dbb293be028242724'',
    iform ''VPMAXSB_XMMi8_MASKmskw_XMMi8_MEMi8_AVX512'' ''a8ce2862eea32d4a12dae02d87a1adb4e'',
    iform ''VPMAXSB_XMMi8_MASKmskw_XMMi8_XMMi8_AVX512'' ''a709804d52e017ea8e100cb9d691dffe4'',
    iform ''VPMAXSB_YMMi8_MASKmskw_YMMi8_MEMi8_AVX512'' ''a3dc9bd3293f2bea03a57e7793aeb164f'',
    iform ''VPMAXSB_YMMi8_MASKmskw_YMMi8_YMMi8_AVX512'' ''aa25b42cc484a5aaf840175345f49353b'',
    iform ''VPMAXSB_YMMqq_YMMqq_MEMqq'' ''aaaf5b110f28d5753f20c5a02e820ac91'',
    iform ''VPMAXSB_YMMqq_YMMqq_YMMqq'' ''ae7486f489c71336ba8a06cfd48e39d67'',
    iform ''VPMAXSB_ZMMi8_MASKmskw_ZMMi8_MEMi8_AVX512'' ''aa1f8ca0fc1d93086551f8b87df755833'',
    iform ''VPMAXSB_ZMMi8_MASKmskw_ZMMi8_ZMMi8_AVX512'' ''a677903cff21d0cf7ee22a610f0ca25d3'',
    iform ''VPMAXSD_XMMdq_XMMdq_MEMdq'' ''ae72fa0888067fd38abc4a3468bbbd02f'',
    iform ''VPMAXSD_XMMdq_XMMdq_XMMdq'' ''a85db59ae546f52f74102a664002ee46c'',
    iform ''VPMAXSD_XMMi32_MASKmskw_XMMi32_MEMi32_AVX512'' ''afe6c4f2771f07dd49b875d2f43aa98d7'',
    iform ''VPMAXSD_XMMi32_MASKmskw_XMMi32_XMMi32_AVX512'' ''a5d14de055508c8a7f8920f1109db1163'',
    iform ''VPMAXSD_YMMi32_MASKmskw_YMMi32_MEMi32_AVX512'' ''a96086ce84e1210bbbc4d1fa86d11d714'',
    iform ''VPMAXSD_YMMi32_MASKmskw_YMMi32_YMMi32_AVX512'' ''a9117e02a6de29d2100a27d71e1b5e9b0'',
    iform ''VPMAXSD_YMMqq_YMMqq_MEMqq'' ''a98916c170998d3852ca56bf4c2efc8dd'',
    iform ''VPMAXSD_YMMqq_YMMqq_YMMqq'' ''a681efb4100d8558675aa29397e158a15'',
    iform ''VPMAXSD_ZMMi32_MASKmskw_ZMMi32_MEMi32_AVX512'' ''a2c57bc06dc1f470a8336fc89d66270a3'',
    iform ''VPMAXSD_ZMMi32_MASKmskw_ZMMi32_ZMMi32_AVX512'' ''a2f0336031f41d2214903aa945a3cf750'',
    iform ''VPMAXSQ_XMMi64_MASKmskw_XMMi64_MEMi64_AVX512'' ''a9fbf59c9dd3443b21b9db4111ba37f21'',
    iform ''VPMAXSQ_XMMi64_MASKmskw_XMMi64_XMMi64_AVX512'' ''a6fc843006022933d2236ed638e9c364b'',
    iform ''VPMAXSQ_YMMi64_MASKmskw_YMMi64_MEMi64_AVX512'' ''ac26aeb977cc963d4135d31253b9043c2'',
    iform ''VPMAXSQ_YMMi64_MASKmskw_YMMi64_YMMi64_AVX512'' ''ac3d8da2db001e7c4782b2d2b53e2b113'',
    iform ''VPMAXSQ_ZMMi64_MASKmskw_ZMMi64_MEMi64_AVX512'' ''ac17607a2215efe4ba495d5eeb449e0d8'',
    iform ''VPMAXSQ_ZMMi64_MASKmskw_ZMMi64_ZMMi64_AVX512'' ''a0dcadacf3f4f19d9e7b2a1d23219dc47'',
    iform ''VPMAXSW_XMMdq_XMMdq_MEMdq'' ''a3474c904406fb7826c6f6d3ec728e622'',
    iform ''VPMAXSW_XMMdq_XMMdq_XMMdq'' ''ace12774923d0408f093dcb5b7a25c26e'',
    iform ''VPMAXSW_XMMi16_MASKmskw_XMMi16_MEMi16_AVX512'' ''a87d3eaebde837f111dd4ea2c1e8827eb'',
    iform ''VPMAXSW_XMMi16_MASKmskw_XMMi16_XMMi16_AVX512'' ''a2e42efa8a6def068adf08f460b6ff2eb'',
    iform ''VPMAXSW_YMMi16_MASKmskw_YMMi16_MEMi16_AVX512'' ''a9963207b4d90aaad29531cfe9b1d8845'',
    iform ''VPMAXSW_YMMi16_MASKmskw_YMMi16_YMMi16_AVX512'' ''a2ef5201d8a7723394e858ad52da46eba'',
    iform ''VPMAXSW_YMMqq_YMMqq_MEMqq'' ''ad54fe2c2657037bd83037de2dee0daf3'',
    iform ''VPMAXSW_YMMqq_YMMqq_YMMqq'' ''a3bbc225b028859e4d0f11920ea8c8eb6'',
    iform ''VPMAXSW_ZMMi16_MASKmskw_ZMMi16_MEMi16_AVX512'' ''a9385f17cdabd1ab70bf8b6ce5d36c8a6'',
    iform ''VPMAXSW_ZMMi16_MASKmskw_ZMMi16_ZMMi16_AVX512'' ''a5546bfcc869275e05ed3965d9b7637cf'',
    iform ''VPMAXUB_XMMdq_XMMdq_MEMdq'' ''a74eac837d24a1cba415fbbfefba75e85'',
    iform ''VPMAXUB_XMMdq_XMMdq_XMMdq'' ''aedb8408b14ecf6c1950c47be3217e906'',
    iform ''VPMAXUB_XMMu8_MASKmskw_XMMu8_MEMu8_AVX512'' ''ac0977f558429a8aeb3bb7e5aae2efa8c'',
    iform ''VPMAXUB_XMMu8_MASKmskw_XMMu8_XMMu8_AVX512'' ''a2d96bed407c8c5632d26458cc0df5de8'',
    iform ''VPMAXUB_YMMqq_YMMqq_MEMqq'' ''ad64ea4632973bfe58e115ccb75c3ecd1'',
    iform ''VPMAXUB_YMMqq_YMMqq_YMMqq'' ''ac4f558768618d5210843a83b7ed2b2d3'',
    iform ''VPMAXUB_YMMu8_MASKmskw_YMMu8_MEMu8_AVX512'' ''a4f360a24f8fb11bd17944a71dbdb4702'',
    iform ''VPMAXUB_YMMu8_MASKmskw_YMMu8_YMMu8_AVX512'' ''adf0a3f94f9920fd11df31bd1161785d6'',
    iform ''VPMAXUB_ZMMu8_MASKmskw_ZMMu8_MEMu8_AVX512'' ''a996e2208ab1bf48aee2cc6a89c7b7229'',
    iform ''VPMAXUB_ZMMu8_MASKmskw_ZMMu8_ZMMu8_AVX512'' ''a6fdef750b835e330f4a67ea0a79b364a'',
    iform ''VPMAXUD_XMMdq_XMMdq_MEMdq'' ''a994750ef64cdb34408db5dd26b3a0d1c'',
    iform ''VPMAXUD_XMMdq_XMMdq_XMMdq'' ''a81ac14a44e89ac11bca09f5f6c39916d'',
    iform ''VPMAXUD_XMMu32_MASKmskw_XMMu32_MEMu32_AVX512'' ''af931c5d738df05556d317118f72c9b76'',
    iform ''VPMAXUD_XMMu32_MASKmskw_XMMu32_XMMu32_AVX512'' ''ad8317ca0522077f4d10dae6bf2cd9e2b'',
    iform ''VPMAXUD_YMMqq_YMMqq_MEMqq'' ''aaade4783ec1da38521ad73e778626819'',
    iform ''VPMAXUD_YMMqq_YMMqq_YMMqq'' ''a2e81fc1956d794d9abd701f36f8dd7db'',
    iform ''VPMAXUD_YMMu32_MASKmskw_YMMu32_MEMu32_AVX512'' ''afe2a7e4172b6221da9db988b6ac40dec'',
    iform ''VPMAXUD_YMMu32_MASKmskw_YMMu32_YMMu32_AVX512'' ''a13466bc6748f9fc806faee55b87f99a5'',
    iform ''VPMAXUD_ZMMu32_MASKmskw_ZMMu32_MEMu32_AVX512'' ''ae6708ac11824e3031d096b165eeb9912'',
    iform ''VPMAXUD_ZMMu32_MASKmskw_ZMMu32_ZMMu32_AVX512'' ''a421301518dc963c21a8a6227c97b126d'',
    iform ''VPMAXUQ_XMMu64_MASKmskw_XMMu64_MEMu64_AVX512'' ''a874c71a5ceb09f0e4bf22dfb3322ab59'',
    iform ''VPMAXUQ_XMMu64_MASKmskw_XMMu64_XMMu64_AVX512'' ''afc3968050c83e1801dadbc0eb5d8bf78'',
    iform ''VPMAXUQ_YMMu64_MASKmskw_YMMu64_MEMu64_AVX512'' ''a143c97100efacf82d80455a652894178'',
    iform ''VPMAXUQ_YMMu64_MASKmskw_YMMu64_YMMu64_AVX512'' ''aa5eb8634fa0eda99c35da3e3108d8d1b'',
    iform ''VPMAXUQ_ZMMu64_MASKmskw_ZMMu64_MEMu64_AVX512'' ''af3ca89df5ea4ecbf394aadac479cc2a6'',
    iform ''VPMAXUQ_ZMMu64_MASKmskw_ZMMu64_ZMMu64_AVX512'' ''aeef80e310a09baace1e996b0b09f3619'',
    iform ''VPMAXUW_XMMdq_XMMdq_MEMdq'' ''a3d661b6da190662148b2b9e79405f51f'',
    iform ''VPMAXUW_XMMdq_XMMdq_XMMdq'' ''abf57cc3a091949d3eb0bbaac281185d0'',
    iform ''VPMAXUW_XMMu16_MASKmskw_XMMu16_MEMu16_AVX512'' ''a913aa69fd91488ae2b04480897c4ed9e'',
    iform ''VPMAXUW_XMMu16_MASKmskw_XMMu16_XMMu16_AVX512'' ''acaecd68073588daad43deff8ed7bc549'',
    iform ''VPMAXUW_YMMqq_YMMqq_MEMqq'' ''a42420b5b65889c54cc8b6dd7d8c76f04'',
    iform ''VPMAXUW_YMMqq_YMMqq_YMMqq'' ''a171ad6f13d89d98e6a0533ff5b28610d'',
    iform ''VPMAXUW_YMMu16_MASKmskw_YMMu16_MEMu16_AVX512'' ''a336881fdb02040803acefe1f8241077e'',
    iform ''VPMAXUW_YMMu16_MASKmskw_YMMu16_YMMu16_AVX512'' ''a20fcd77a088238705f76544284c365d8'',
    iform ''VPMAXUW_ZMMu16_MASKmskw_ZMMu16_MEMu16_AVX512'' ''ae7d86a2e65333545ff08e10234256a91'',
    iform ''VPMAXUW_ZMMu16_MASKmskw_ZMMu16_ZMMu16_AVX512'' ''a5e637f9ea158973162b4033939ae8f6b'',
    iform ''VPMINSB_XMMdq_XMMdq_MEMdq'' ''a7373ecd69678a8bda5e27b0e79bb0192'',
    iform ''VPMINSB_XMMdq_XMMdq_XMMdq'' ''a2baabfb15e030ce0103ab2b92ace9b11'',
    iform ''VPMINSB_XMMi8_MASKmskw_XMMi8_MEMi8_AVX512'' ''a4d5f6188d44cde2849327dbde3ea3226'',
    iform ''VPMINSB_XMMi8_MASKmskw_XMMi8_XMMi8_AVX512'' ''a061fe892ed1810cd3b83d9277775a8e2'',
    iform ''VPMINSB_YMMi8_MASKmskw_YMMi8_MEMi8_AVX512'' ''a431d2a9de9f6db6a406d8f476d6a1ad1'',
    iform ''VPMINSB_YMMi8_MASKmskw_YMMi8_YMMi8_AVX512'' ''afffd9e30cce13ec87f32904e8077e0f3'',
    iform ''VPMINSB_YMMqq_YMMqq_MEMqq'' ''a016e3610a1c91edc972d633e93b621a9'',
    iform ''VPMINSB_YMMqq_YMMqq_YMMqq'' ''a2fb6be0f8516f2a57c0d2f38589f1c34'',
    iform ''VPMINSB_ZMMi8_MASKmskw_ZMMi8_MEMi8_AVX512'' ''a43f80c5762fa9252b5b4caf34e7a340d'',
    iform ''VPMINSB_ZMMi8_MASKmskw_ZMMi8_ZMMi8_AVX512'' ''a5409af496e5bc0f33331ccfff46c2205'',
    iform ''VPMINSD_XMMdq_XMMdq_MEMdq'' ''a0725b329fa8f83b2f6196a99831e9f65'',
    iform ''VPMINSD_XMMdq_XMMdq_XMMdq'' ''ab61092072f0d56c321cb6380a374cb43'',
    iform ''VPMINSD_XMMi32_MASKmskw_XMMi32_MEMi32_AVX512'' ''ac096ecbc2e8706603a5664e5b6027820'',
    iform ''VPMINSD_XMMi32_MASKmskw_XMMi32_XMMi32_AVX512'' ''a54917bd947f194adf2846af7f58e9b06'',
    iform ''VPMINSD_YMMi32_MASKmskw_YMMi32_MEMi32_AVX512'' ''a57bbbe0b905409b8512175f3a7a40197'',
    iform ''VPMINSD_YMMi32_MASKmskw_YMMi32_YMMi32_AVX512'' ''ae34980467269c92a658bece02245dc97'',
    iform ''VPMINSD_YMMqq_YMMqq_MEMqq'' ''ac0cadce19dfd6cbf83954b3739c83108'',
    iform ''VPMINSD_YMMqq_YMMqq_YMMqq'' ''a82412001bc3958b30113eb140c5a553c'',
    iform ''VPMINSD_ZMMi32_MASKmskw_ZMMi32_MEMi32_AVX512'' ''ab89b738a27eac9e22df5f035b7de429b'',
    iform ''VPMINSD_ZMMi32_MASKmskw_ZMMi32_ZMMi32_AVX512'' ''a45d34299823f94e6c7b17eb0dbcf5adb'',
    iform ''VPMINSQ_XMMi64_MASKmskw_XMMi64_MEMi64_AVX512'' ''aa32e73841f71f7d4a202f513cfa3ce39'',
    iform ''VPMINSQ_XMMi64_MASKmskw_XMMi64_XMMi64_AVX512'' ''aa8509c0de440ee8e6ee7db34002425a3'',
    iform ''VPMINSQ_YMMi64_MASKmskw_YMMi64_MEMi64_AVX512'' ''a4eff72da3e50ab5d88e183a280b70300'',
    iform ''VPMINSQ_YMMi64_MASKmskw_YMMi64_YMMi64_AVX512'' ''ad16f05239e173d24eefbe87b0a2e4821'',
    iform ''VPMINSQ_ZMMi64_MASKmskw_ZMMi64_MEMi64_AVX512'' ''af4079b4ee1f4873896219a997de2d709'',
    iform ''VPMINSQ_ZMMi64_MASKmskw_ZMMi64_ZMMi64_AVX512'' ''a051caf800991a3159f3ac595f790dc43'',
    iform ''VPMINSW_XMMdq_XMMdq_MEMdq'' ''a95d1ed39301610f2820918f6396cc3cd'',
    iform ''VPMINSW_XMMdq_XMMdq_XMMdq'' ''a915ee38c6a2970f819dd69b416b83ff3'',
    iform ''VPMINSW_XMMi16_MASKmskw_XMMi16_MEMi16_AVX512'' ''a1e517b04f9674bc303db3b58464adb4a'',
    iform ''VPMINSW_XMMi16_MASKmskw_XMMi16_XMMi16_AVX512'' ''ad6cf6368b8450ce31d07876e64f1e4f0'',
    iform ''VPMINSW_YMMi16_MASKmskw_YMMi16_MEMi16_AVX512'' ''a0faa0b533d156d41544485f262b79c35'',
    iform ''VPMINSW_YMMi16_MASKmskw_YMMi16_YMMi16_AVX512'' ''adcf77ed402014b0872446bd8d4c7331e'',
    iform ''VPMINSW_YMMqq_YMMqq_MEMqq'' ''a76beb2298283f8f39f00f6a2a1073732'',
    iform ''VPMINSW_YMMqq_YMMqq_YMMqq'' ''af0488786b6947526db161cb31828ca0d'',
    iform ''VPMINSW_ZMMi16_MASKmskw_ZMMi16_MEMi16_AVX512'' ''a1c3efe1ac2599bcb56d1a622a2531904'',
    iform ''VPMINSW_ZMMi16_MASKmskw_ZMMi16_ZMMi16_AVX512'' ''abb4440cf555dc48deec52b146a69c28e'',
    iform ''VPMINUB_XMMdq_XMMdq_MEMdq'' ''a06c8d7eac0b7e7c4f4ba9894774c5bf6'',
    iform ''VPMINUB_XMMdq_XMMdq_XMMdq'' ''ad7c21f0ba8735214201f5782c6c8b348'',
    iform ''VPMINUB_XMMu8_MASKmskw_XMMu8_MEMu8_AVX512'' ''ae696280019f14a87ad74f2eff5dda221'',
    iform ''VPMINUB_XMMu8_MASKmskw_XMMu8_XMMu8_AVX512'' ''af3a8c639c6e34ca61ec619d75aa009db'']"

lemma xed_iform_enum_8h_values_32_closed: "list_all (closed_node scripts) xed_iform_enum_8h_values_32"
  by (simp only: xed_iform_enum_8h_values_32_def closed_rules iform_closed)

definition xed_iform_enum_8h_values_33 :: "nav_node list" where
  "xed_iform_enum_8h_values_33 = [
    iform ''VPMINUB_YMMqq_YMMqq_MEMqq'' ''a3f80d4aa49ba5d1b5a3a71a7203c6d8f'',
    iform ''VPMINUB_YMMqq_YMMqq_YMMqq'' ''a1ee55305cb1fa90617b1b0303f875ab9'',
    iform ''VPMINUB_YMMu8_MASKmskw_YMMu8_MEMu8_AVX512'' ''a44c1e76e7610e6afb16d7428b475e2a4'',
    iform ''VPMINUB_YMMu8_MASKmskw_YMMu8_YMMu8_AVX512'' ''ab28541c79fd98050c9c65a4ce31433d0'',
    iform ''VPMINUB_ZMMu8_MASKmskw_ZMMu8_MEMu8_AVX512'' ''a20aa931192502e863db7ddfd8e9cbb8b'',
    iform ''VPMINUB_ZMMu8_MASKmskw_ZMMu8_ZMMu8_AVX512'' ''ae17a9c72364998015e02eebc39c14254'',
    iform ''VPMINUD_XMMdq_XMMdq_MEMdq'' ''aa1d1f9cf43785adcdfaca06f64273e63'',
    iform ''VPMINUD_XMMdq_XMMdq_XMMdq'' ''aa4e39ea660798d45a1770528764668c2'',
    iform ''VPMINUD_XMMu32_MASKmskw_XMMu32_MEMu32_AVX512'' ''a876ec40ab5bd92f483a4df32d0700f58'',
    iform ''VPMINUD_XMMu32_MASKmskw_XMMu32_XMMu32_AVX512'' ''a8113e3532c73b2fe14b6e5c24f63aa9d'',
    iform ''VPMINUD_YMMqq_YMMqq_MEMqq'' ''ad323b9af007c17daa0478d5601949d7d'',
    iform ''VPMINUD_YMMqq_YMMqq_YMMqq'' ''aa961f6f08589ae6898d314d61e13ffd6'',
    iform ''VPMINUD_YMMu32_MASKmskw_YMMu32_MEMu32_AVX512'' ''ac8e7cb1da4e86e9fa5cefd18a6ccd028'',
    iform ''VPMINUD_YMMu32_MASKmskw_YMMu32_YMMu32_AVX512'' ''aa5dece18b501aed65415dc93875c7884'',
    iform ''VPMINUD_ZMMu32_MASKmskw_ZMMu32_MEMu32_AVX512'' ''a77cd4f9414dbdd5decfe5570084bf06d'',
    iform ''VPMINUD_ZMMu32_MASKmskw_ZMMu32_ZMMu32_AVX512'' ''ab1e6168cfebcf7482c715799e0808081'',
    iform ''VPMINUQ_XMMu64_MASKmskw_XMMu64_MEMu64_AVX512'' ''ab966084caee2cd8426cf2cfb8bb5f5ba'',
    iform ''VPMINUQ_XMMu64_MASKmskw_XMMu64_XMMu64_AVX512'' ''a74d10f238b373d08ae79affa559225bd'',
    iform ''VPMINUQ_YMMu64_MASKmskw_YMMu64_MEMu64_AVX512'' ''aa0b9127b5220a1bce76f9cae19dfaed0'',
    iform ''VPMINUQ_YMMu64_MASKmskw_YMMu64_YMMu64_AVX512'' ''a6ca32403d45bd80c4eb4652309ef1571'',
    iform ''VPMINUQ_ZMMu64_MASKmskw_ZMMu64_MEMu64_AVX512'' ''ac4ea18d4544b06f6c4b0eb819545df87'',
    iform ''VPMINUQ_ZMMu64_MASKmskw_ZMMu64_ZMMu64_AVX512'' ''abda412ddd060553b60a91458313ab253'',
    iform ''VPMINUW_XMMdq_XMMdq_MEMdq'' ''a9a18e329d34dc2bafe60fe029c30a1f7'',
    iform ''VPMINUW_XMMdq_XMMdq_XMMdq'' ''ad5a1df97156c40fa890fe358ad47b092'',
    iform ''VPMINUW_XMMu16_MASKmskw_XMMu16_MEMu16_AVX512'' ''a84e3f8eef4991abeb3ce80c7f971264c'',
    iform ''VPMINUW_XMMu16_MASKmskw_XMMu16_XMMu16_AVX512'' ''a8d7aed8c5b0e463e38e81857e0d138d6'',
    iform ''VPMINUW_YMMqq_YMMqq_MEMqq'' ''ae3aea9780ef7818c9a3805aef9280bdd'',
    iform ''VPMINUW_YMMqq_YMMqq_YMMqq'' ''a0271c5c90fbbdd4609af4cb38b1796f6'',
    iform ''VPMINUW_YMMu16_MASKmskw_YMMu16_MEMu16_AVX512'' ''a202ac401fa78294cf8c69e31a17500cb'',
    iform ''VPMINUW_YMMu16_MASKmskw_YMMu16_YMMu16_AVX512'' ''ac14fbc87c5d80734322d4133cf674335'',
    iform ''VPMINUW_ZMMu16_MASKmskw_ZMMu16_MEMu16_AVX512'' ''a6ca29db87cb2956cab788610cad19058'',
    iform ''VPMINUW_ZMMu16_MASKmskw_ZMMu16_ZMMu16_AVX512'' ''aaff6bbcdc604ca6ead1133225648a6ee'',
    iform ''VPMOVB2M_MASKmskw_XMMu8_AVX512'' ''aa4a36ce65623237a36c843aa8f39b19f'',
    iform ''VPMOVB2M_MASKmskw_YMMu8_AVX512'' ''a70f6c9a7bb609d26507a8c52bb9bbd1b'',
    iform ''VPMOVB2M_MASKmskw_ZMMu8_AVX512'' ''a4f8042b48973df199ee06bd58f824cec'',
    iform ''VPMOVD2M_MASKmskw_XMMu32_AVX512'' ''a40d8722b9f2b7bd1704608bca3c02446'',
    iform ''VPMOVD2M_MASKmskw_YMMu32_AVX512'' ''a48802a5bb943b2ad97b1e782c3ee1da6'',
    iform ''VPMOVD2M_MASKmskw_ZMMu32_AVX512'' ''ae29adf7c103374fb79a716dff14c9ae4'',
    iform ''VPMOVDB_MEMu8_MASKmskw_XMMu32_AVX512'' ''a94c62e01172049f36b3f56c66d22d379'',
    iform ''VPMOVDB_MEMu8_MASKmskw_YMMu32_AVX512'' ''a2c923335097c897cf7ca7b2db7edef3f'',
    iform ''VPMOVDB_MEMu8_MASKmskw_ZMMu32_AVX512'' ''a2132728132c2b5dfd41b01f2b9939bcb'',
    iform ''VPMOVDB_XMMu8_MASKmskw_XMMu32_AVX512'' ''a525e50ab7838a4d503d95a32cc68194b'',
    iform ''VPMOVDB_XMMu8_MASKmskw_YMMu32_AVX512'' ''a88bcaf81de8c3e5a5ceb792b61203a90'',
    iform ''VPMOVDB_XMMu8_MASKmskw_ZMMu32_AVX512'' ''ae690e048f573e9997df7b0ea0d61042c'',
    iform ''VPMOVDW_MEMu16_MASKmskw_XMMu32_AVX512'' ''a284dfb39158ba2200e396312ecefdcc1'',
    iform ''VPMOVDW_MEMu16_MASKmskw_YMMu32_AVX512'' ''a0d6f50dc14e5c226c42b008c9f52d566'',
    iform ''VPMOVDW_MEMu16_MASKmskw_ZMMu32_AVX512'' ''a30d975d62917d356c8b2228147198381'',
    iform ''VPMOVDW_XMMu16_MASKmskw_XMMu32_AVX512'' ''a1040e6355f18adc36b2c1f9aa5270067'',
    iform ''VPMOVDW_XMMu16_MASKmskw_YMMu32_AVX512'' ''a23d1b9d2df32c76119a057bcf414c040'',
    iform ''VPMOVDW_YMMu16_MASKmskw_ZMMu32_AVX512'' ''a830b313d933990885dca15d2a9689abd'',
    iform ''VPMOVM2B_XMMu8_MASKmskw_AVX512'' ''a3352c06f4fdf54fad70e01ab4dfc3368'',
    iform ''VPMOVM2B_YMMu8_MASKmskw_AVX512'' ''acd239836ef403b40e0b2e2f1d4cc9422'',
    iform ''VPMOVM2B_ZMMu8_MASKmskw_AVX512'' ''a90ee575ca1ba8d73150dfa9aa6f88819'',
    iform ''VPMOVM2D_XMMu32_MASKmskw_AVX512'' ''a7a9680c5a6df2a71e207141f3b47cb41'',
    iform ''VPMOVM2D_YMMu32_MASKmskw_AVX512'' ''a98b0b10e73ee81dfd9768e587e52bd57'',
    iform ''VPMOVM2D_ZMMu32_MASKmskw_AVX512'' ''a0d247bf2877229accfacad1855a0fcab'',
    iform ''VPMOVM2Q_XMMu64_MASKmskw_AVX512'' ''a9bc2f4fafdfcfad938fd0a5188c03e7a'',
    iform ''VPMOVM2Q_YMMu64_MASKmskw_AVX512'' ''af5aa27c720446dfa13987b5beb5085d2'',
    iform ''VPMOVM2Q_ZMMu64_MASKmskw_AVX512'' ''ace26548db06a1550e34a8bc31f7d1221'',
    iform ''VPMOVM2W_XMMu16_MASKmskw_AVX512'' ''ad2e9136e1654a0ff9e4575058a3b74c6'',
    iform ''VPMOVM2W_YMMu16_MASKmskw_AVX512'' ''a3a53f1101383aed0ab7c6e4db044e0e5'',
    iform ''VPMOVM2W_ZMMu16_MASKmskw_AVX512'' ''aaaca391f129e86d4eea537fab7f62962'',
    iform ''VPMOVMSKB_GPR32d_XMMdq'' ''abdc5094c09b7a8fad36d518bbf62187f'',
    iform ''VPMOVMSKB_GPR32d_YMMqq'' ''ab03e39461db8fafcb7f64b983d673350'',
    iform ''VPMOVQ2M_MASKmskw_XMMu64_AVX512'' ''a8c34743da602bdf74d8d529d668b077e'',
    iform ''VPMOVQ2M_MASKmskw_YMMu64_AVX512'' ''a7defed76a70b062ac237610e476bcefc'',
    iform ''VPMOVQ2M_MASKmskw_ZMMu64_AVX512'' ''aabe4054c8f403548691d774257880ffd'',
    iform ''VPMOVQB_MEMu8_MASKmskw_XMMu64_AVX512'' ''a1d308b4af0b9cad0b9cf380b0dd17747'',
    iform ''VPMOVQB_MEMu8_MASKmskw_YMMu64_AVX512'' ''abbf9147dc931dccd1cb6d5548878b6d0'',
    iform ''VPMOVQB_MEMu8_MASKmskw_ZMMu64_AVX512'' ''a30f5e8db4860167d75d5d3072a287d11'',
    iform ''VPMOVQB_XMMu8_MASKmskw_XMMu64_AVX512'' ''abd6f6b174bb22c351d87c9a969b00afa'',
    iform ''VPMOVQB_XMMu8_MASKmskw_YMMu64_AVX512'' ''ac72234fe17f37bf37c82e2c0134d5928'',
    iform ''VPMOVQB_XMMu8_MASKmskw_ZMMu64_AVX512'' ''aa19dd23e372485672a81a2e34950e9ca'',
    iform ''VPMOVQD_MEMu32_MASKmskw_XMMu64_AVX512'' ''a7d41f7e755009d6d054e4d2d52fbea0b'',
    iform ''VPMOVQD_MEMu32_MASKmskw_YMMu64_AVX512'' ''a2ebf8722b32e290c4dd975c976b39c12'',
    iform ''VPMOVQD_MEMu32_MASKmskw_ZMMu64_AVX512'' ''aee0485f20a1beee226a8f55809e9fd29'',
    iform ''VPMOVQD_XMMu32_MASKmskw_XMMu64_AVX512'' ''a5c47819a4f0b4274937cdd7717f0bc70'',
    iform ''VPMOVQD_XMMu32_MASKmskw_YMMu64_AVX512'' ''a0d783c960cde6a089910bb50accef365'',
    iform ''VPMOVQD_YMMu32_MASKmskw_ZMMu64_AVX512'' ''a172df1cfe513060abd4af3283400cd89'',
    iform ''VPMOVQW_MEMu16_MASKmskw_XMMu64_AVX512'' ''ae637092802daa240cc44b8b093664dec'',
    iform ''VPMOVQW_MEMu16_MASKmskw_YMMu64_AVX512'' ''a9e4788c79e6e4459710c33044119f2bd'',
    iform ''VPMOVQW_MEMu16_MASKmskw_ZMMu64_AVX512'' ''a0450e669c88a8b6f96c616f64eeb7cdc'',
    iform ''VPMOVQW_XMMu16_MASKmskw_XMMu64_AVX512'' ''a3ba8043c8d28fe5fe69248b3ef8b9a94'',
    iform ''VPMOVQW_XMMu16_MASKmskw_YMMu64_AVX512'' ''a2ed1394446db76c1a66b1021d2c65ee0'',
    iform ''VPMOVQW_XMMu16_MASKmskw_ZMMu64_AVX512'' ''a36292c43b49141203203baaabca66934'',
    iform ''VPMOVSDB_MEMi8_MASKmskw_XMMi32_AVX512'' ''a10eb285f96758fe913eba2abd33afbce'',
    iform ''VPMOVSDB_MEMi8_MASKmskw_YMMi32_AVX512'' ''ac837e48bee8cc13f0d5a8c0d293ed28c'',
    iform ''VPMOVSDB_MEMi8_MASKmskw_ZMMi32_AVX512'' ''adc2ae8a32a98dfffe3111d88eb20bf22'',
    iform ''VPMOVSDB_XMMi8_MASKmskw_XMMi32_AVX512'' ''a937c071d48ba8e73e0e969b28c869114'',
    iform ''VPMOVSDB_XMMi8_MASKmskw_YMMi32_AVX512'' ''a5519c842c4af4b519e4ba1e1a24875a4'',
    iform ''VPMOVSDB_XMMi8_MASKmskw_ZMMi32_AVX512'' ''ad9239e1b233ebd99686847e328bb17be'',
    iform ''VPMOVSDW_MEMi16_MASKmskw_XMMi32_AVX512'' ''a5bd8b36c6cfb61ab4c6867f91a538a93'',
    iform ''VPMOVSDW_MEMi16_MASKmskw_YMMi32_AVX512'' ''a0969ec73024bafe558a46f315330a846'',
    iform ''VPMOVSDW_MEMi16_MASKmskw_ZMMi32_AVX512'' ''a3cc84adfdb99c7311adbc824e8041071'',
    iform ''VPMOVSDW_XMMi16_MASKmskw_XMMi32_AVX512'' ''a7d19fb9fc1df6955d7c6f9f702bae3f1'',
    iform ''VPMOVSDW_XMMi16_MASKmskw_YMMi32_AVX512'' ''a0ddc7b9a63b7e5d18a59455eb46486c8'',
    iform ''VPMOVSDW_YMMi16_MASKmskw_ZMMi32_AVX512'' ''addc3be8e308c40e0fbf9cf65a11e7fd2'',
    iform ''VPMOVSQB_MEMi8_MASKmskw_XMMi64_AVX512'' ''aa9636aa6437c3f55b352eec720bb85c4'',
    iform ''VPMOVSQB_MEMi8_MASKmskw_YMMi64_AVX512'' ''ab0904ac60e92ac377fdb5566382caa5e'',
    iform ''VPMOVSQB_MEMi8_MASKmskw_ZMMi64_AVX512'' ''a74ac0e09045498a9a35e8687718afbc5'',
    iform ''VPMOVSQB_XMMi8_MASKmskw_XMMi64_AVX512'' ''a52fc442283e66d91927645fa9b997cff'',
    iform ''VPMOVSQB_XMMi8_MASKmskw_YMMi64_AVX512'' ''a861ad7d529804eb77c1fdf989a70ae70'',
    iform ''VPMOVSQB_XMMi8_MASKmskw_ZMMi64_AVX512'' ''a66826abc5724bc416cfff4f0c8e59185'',
    iform ''VPMOVSQD_MEMi32_MASKmskw_XMMi64_AVX512'' ''a194de83d2d54884ead101c72d7c1b8dd'',
    iform ''VPMOVSQD_MEMi32_MASKmskw_YMMi64_AVX512'' ''a9b069a6b0c593880553318d810edd342'',
    iform ''VPMOVSQD_MEMi32_MASKmskw_ZMMi64_AVX512'' ''a0b2df622ae27ba95474e7abb1cfbe689'',
    iform ''VPMOVSQD_XMMi32_MASKmskw_XMMi64_AVX512'' ''a095939189374fb0bb258044d02a15111'',
    iform ''VPMOVSQD_XMMi32_MASKmskw_YMMi64_AVX512'' ''a7c1381c9602e8b081b6d1264d73a7532'',
    iform ''VPMOVSQD_YMMi32_MASKmskw_ZMMi64_AVX512'' ''a4e3c3c6d2d4b64ecbdc2a3b5cf677fd2'',
    iform ''VPMOVSQW_MEMi16_MASKmskw_XMMi64_AVX512'' ''a58faa94e15cf46033686fb2ee93d1703'',
    iform ''VPMOVSQW_MEMi16_MASKmskw_YMMi64_AVX512'' ''af6e76e0c6f534e91cebf5f2a96db6809'',
    iform ''VPMOVSQW_MEMi16_MASKmskw_ZMMi64_AVX512'' ''a37b7a20c4b224c247f6a127d96c44fce'',
    iform ''VPMOVSQW_XMMi16_MASKmskw_XMMi64_AVX512'' ''a4e3898fb8ad7149676868c4c59be4616'',
    iform ''VPMOVSQW_XMMi16_MASKmskw_YMMi64_AVX512'' ''a89264ee6f98c77e28adf7a0db7bc0f31'',
    iform ''VPMOVSQW_XMMi16_MASKmskw_ZMMi64_AVX512'' ''a8edc79aa790f210acacb75b18cdf6021'',
    iform ''VPMOVSWB_MEMi8_MASKmskw_XMMi16_AVX512'' ''a800734f3b3edb3348b94a48de0bc6b39'',
    iform ''VPMOVSWB_MEMi8_MASKmskw_YMMi16_AVX512'' ''af0c4923de320c9ab2248d58dc30369a6'',
    iform ''VPMOVSWB_MEMi8_MASKmskw_ZMMi16_AVX512'' ''a059bd7e92a49584d9dc8ee99d3126d76'',
    iform ''VPMOVSWB_XMMi8_MASKmskw_XMMi16_AVX512'' ''a181ee813d8e0471c9a2eea608f9cdbbe'',
    iform ''VPMOVSWB_XMMi8_MASKmskw_YMMi16_AVX512'' ''ad4953b6c0e661f54c9dfbe0ffc1b161f'',
    iform ''VPMOVSWB_YMMi8_MASKmskw_ZMMi16_AVX512'' ''a9e1761ead9e9e0370395e3cb4adb529f'',
    iform ''VPMOVSXBD_XMMdq_MEMd'' ''a6d34089c3610ffd91c9034634f2d7547'',
    iform ''VPMOVSXBD_XMMdq_XMMd'' ''a572c10f3361477e82816eed20dee864a'',
    iform ''VPMOVSXBD_XMMi32_MASKmskw_MEMi8_AVX512'' ''ab71862862fcd8db64deccd21dc6c1317'',
    iform ''VPMOVSXBD_XMMi32_MASKmskw_XMMi8_AVX512'' ''a9615d55793016da233ecc1c6aa193866'',
    iform ''VPMOVSXBD_YMMi32_MASKmskw_MEMi8_AVX512'' ''a545793f6a40e91b02dd1c4e310518887'',
    iform ''VPMOVSXBD_YMMi32_MASKmskw_XMMi8_AVX512'' ''a20804a6ba63b304508d30fd8397522db'',
    iform ''VPMOVSXBD_YMMqq_MEMq'' ''a6e62904ddb15477bcfc04152adac38dd'',
    iform ''VPMOVSXBD_YMMqq_XMMq'' ''a2afa73add4ce1608e3d1a043c8f860fa'',
    iform ''VPMOVSXBD_ZMMi32_MASKmskw_MEMi8_AVX512'' ''abfded96b2c9644ce9bddd69c33e50eb0'',
    iform ''VPMOVSXBD_ZMMi32_MASKmskw_XMMi8_AVX512'' ''a9f009b5b716b320b3ccc312b6b107431'',
    iform ''VPMOVSXBQ_XMMdq_MEMw'' ''a101b9fc7cfaf0f45cf475ec8c8ff61a3'',
    iform ''VPMOVSXBQ_XMMdq_XMMw'' ''a8d1062f738a88df0e74281df9d5214b1'',
    iform ''VPMOVSXBQ_XMMi64_MASKmskw_MEMi8_AVX512'' ''a63cab782362f3df1cb6ef72361b9a662'',
    iform ''VPMOVSXBQ_XMMi64_MASKmskw_XMMi8_AVX512'' ''a94d74df01f151037cfad74cf45abcffd'',
    iform ''VPMOVSXBQ_YMMi64_MASKmskw_MEMi8_AVX512'' ''a1238e2e76d6fe8a2039797bd5d5cc434'',
    iform ''VPMOVSXBQ_YMMi64_MASKmskw_XMMi8_AVX512'' ''a5c6e84006db03c3fe884d9409c0e6fc6'',
    iform ''VPMOVSXBQ_YMMqq_MEMd'' ''a979e45295bb7f52c43d0693e53c2369c'',
    iform ''VPMOVSXBQ_YMMqq_XMMd'' ''abf8d4ed4dc53635dd25801113790a8b5'',
    iform ''VPMOVSXBQ_ZMMi64_MASKmskw_MEMi8_AVX512'' ''aa06855b62d04e86c2549bf6b18e1e44b'']"

lemma xed_iform_enum_8h_values_33_closed: "list_all (closed_node scripts) xed_iform_enum_8h_values_33"
  by (simp only: xed_iform_enum_8h_values_33_def closed_rules iform_closed)

end
