(* ===== verification/Nav_Iform_4.thy ===== *)
theory Nav_Iform_4
  imports Nav_Iform
begin

text \<open>
  xed-iform-enum_8h.js: the child table of an enumeration of instruction forms or classes.
\<close>

definition xed_iform_enum_8h_values_34 :: "nav_node list" where
  "xed_iform_enum_8h_values_34 = [
    iform ''VPMOVSXBQ_ZMMi64_MASKmskw_XMMi8_AVX512'' ''a179decc101395fe46bb2d7d56b39af69'',
    iform ''VPMOVSXBW_XMMdq_MEMq'' ''a84a074b298bfbbe97497e6a4ca976ce8'',
    iform ''VPMOVSXBW_XMMdq_XMMq'' ''a51340bf2e4a2afb2e162ef32d48a91af'',
    iform ''VPMOVSXBW_XMMi16_MASKmskw_MEMi8_AVX512'' ''acecb5b67b4d77899bdf1d2e2d89d65b9'',
    iform ''VPMOVSXBW_XMMi16_MASKmskw_XMMi8_AVX512'' ''a5fca7a25b1bea4b0e1ff3babb1fbf632'',
    iform ''VPMOVSXBW_YMMi16_MASKmskw_MEMi8_AVX512'' ''a7957ac5e228dc65e106b9b05d55d68d9'',
    iform ''VPMOVSXBW_YMMi16_MASKmskw_XMMi8_AVX512'' ''aca2064771678caf9469356e7a6ed7beb'',
    iform ''VPMOVSXBW_YMMqq_MEMdq'' ''a05f0867150931b94889e29226613d5da'',
    iform ''VPMOVSXBW_YMMqq_XMMdq'' ''ac900bf30c313b2da42127f5d3d2c47f1'',
    iform ''VPMOVSXBW_ZMMi16_MASKmskw_MEMi8_AVX512'' ''af1e4bbb907f6bef9e8a1a1185a5fc928'',
    iform ''VPMOVSXBW_ZMMi16_MASKmskw_YMMi8_AVX512'' ''aa833d7774e51415b2a6f7fc68c867491'',
    iform ''VPMOVSXDQ_XMMdq_MEMq'' ''a3626227b8535a5d7d82267d4317abb0f'',
    iform ''VPMOVSXDQ_XMMdq_XMMq'' ''aee3a8f594661cc4304e74a0538f87aab'',
    iform ''VPMOVSXDQ_XMMi64_MASKmskw_MEMi32_AVX512'' ''ada13dd766fe96d36d1e38c049addc818'',
    iform ''VPMOVSXDQ_XMMi64_MASKmskw_XMMi32_AVX512'' ''ab5ed1edbdb5853713b1d8e6287f8ed9f'',
    iform ''VPMOVSXDQ_YMMi64_MASKmskw_MEMi32_AVX512'' ''a6fe4c50e197f06835ed3f13309b0c8ee'',
    iform ''VPMOVSXDQ_YMMi64_MASKmskw_XMMi32_AVX512'' ''a5916b29af7c131dd0479637bbca7b7b6'',
    iform ''VPMOVSXDQ_YMMqq_MEMdq'' ''a362a5b3be6c76ae0bd70e48209dc574d'',
    iform ''VPMOVSXDQ_YMMqq_XMMdq'' ''a1af05e24e1ea47980801483713954a68'',
    iform ''VPMOVSXDQ_ZMMi64_MASKmskw_MEMi32_AVX512'' ''ae578039c47a1a72636a1ed32413767c2'',
    iform ''VPMOVSXDQ_ZMMi64_MASKmskw_YMMi32_AVX512'' ''add5340eb12888c23c62f04e205bfef24'',
    iform ''VPMOVSXWD_XMMdq_MEMq'' ''ae771f25ca36e39a8ab47bda4cbd90235'',
    iform ''VPMOVSXWD_XMMdq_XMMq'' ''ae8d111fd254ccecdb9752e9299bab85b'',
    iform ''VPMOVSXWD_XMMi32_MASKmskw_MEMi16_AVX512'' ''a964a4c6e61518933732f2f3e7411729d'',
    iform ''VPMOVSXWD_XMMi32_MASKmskw_XMMi16_AVX512'' ''a76dc96767606e387fa6e3cd2e8692842'',
    iform ''VPMOVSXWD_YMMi32_MASKmskw_MEMi16_AVX512'' ''afbe74fb7bf7c837667da588e4b3ed73c'',
    iform ''VPMOVSXWD_YMMi32_MASKmskw_XMMi16_AVX512'' ''a4c81e78968bf784d0d073fcd211f275a'',
    iform ''VPMOVSXWD_YMMqq_MEMdq'' ''acad6abdbacf48fb5f1659a402cee337d'',
    iform ''VPMOVSXWD_YMMqq_XMMdq'' ''aa94e40ac32b833c49ccef59935493777'',
    iform ''VPMOVSXWD_ZMMi32_MASKmskw_MEMi16_AVX512'' ''aabda375a27725f7c5c83e8fb594b0f19'',
    iform ''VPMOVSXWD_ZMMi32_MASKmskw_YMMi16_AVX512'' ''a9dd43d9793a3ecdcbfc9998cd58d9b39'',
    iform ''VPMOVSXWQ_XMMdq_MEMd'' ''a1e023dac6fb9acdd9e59a192f231b78d'',
    iform ''VPMOVSXWQ_XMMdq_XMMd'' ''aaf64f4104cd62358ca59e0b6d39661b5'',
    iform ''VPMOVSXWQ_XMMi64_MASKmskw_MEMi16_AVX512'' ''ac6f310eaa6d85b9da6474226e36f1262'',
    iform ''VPMOVSXWQ_XMMi64_MASKmskw_XMMi16_AVX512'' ''a445e0f63ecace1ed31766423b0ffb94c'',
    iform ''VPMOVSXWQ_YMMi64_MASKmskw_MEMi16_AVX512'' ''a779415475cbb91869a4da905ede33a1c'',
    iform ''VPMOVSXWQ_YMMi64_MASKmskw_XMMi16_AVX512'' ''aaf2bef01864f1449f21aa770fa85268d'',
    iform ''VPMOVSXWQ_YMMqq_MEMq'' ''a77181d3a8b81007c3da694b8359fa26f'',
    iform ''VPMOVSXWQ_YMMqq_XMMq'' ''a0bd71f4993717fb64af7fd497234fa8a'',
    iform ''VPMOVSXWQ_ZMMi64_MASKmskw_MEMi16_AVX512'' ''a6c4b8e86bf6941f10da638fc2b2a39c4'',
    iform ''VPMOVSXWQ_ZMMi64_MASKmskw_XMMi16_AVX512'' ''ab60a04598f561d09749bdafd973e9956'',
    iform ''VPMOVUSDB_MEMu8_MASKmskw_XMMu32_AVX512'' ''acae29cb67a9db61355077c521db2d156'',
    iform ''VPMOVUSDB_MEMu8_MASKmskw_YMMu32_AVX512'' ''a5f08163a54b93c45d7556366aee85365'',
    iform ''VPMOVUSDB_MEMu8_MASKmskw_ZMMu32_AVX512'' ''a33e85b609b027da66fc9f6d1745e525f'',
    iform ''VPMOVUSDB_XMMu8_MASKmskw_XMMu32_AVX512'' ''af1fafbd3f30a959cf48cffcdee2bf1b9'',
    iform ''VPMOVUSDB_XMMu8_MASKmskw_YMMu32_AVX512'' ''aa1802edae79f07d9cae57ef2ff807bac'',
    iform ''VPMOVUSDB_XMMu8_MASKmskw_ZMMu32_AVX512'' ''a6a78fde33b3a43470b73d4f4f2191d01'',
    iform ''VPMOVUSDW_MEMu16_MASKmskw_XMMu32_AVX512'' ''a91bc98429b5f48eeaab038c6d797e0e9'',
    iform ''VPMOVUSDW_MEMu16_MASKmskw_YMMu32_AVX512'' ''a5773a96f6d8d5509e6b6cd801cff71e3'',
    iform ''VPMOVUSDW_MEMu16_MASKmskw_ZMMu32_AVX512'' ''aa7f1b4cb96c25f8d1e838710ffe0281e'',
    iform ''VPMOVUSDW_XMMu16_MASKmskw_XMMu32_AVX512'' ''ac2ed0c8527417325ba9e453336125bc3'',
    iform ''VPMOVUSDW_XMMu16_MASKmskw_YMMu32_AVX512'' ''a680c4744fda7268dc110acebe3268775'',
    iform ''VPMOVUSDW_YMMu16_MASKmskw_ZMMu32_AVX512'' ''a62244dd3f23b2d9af8eb04d0f33e6169'',
    iform ''VPMOVUSQB_MEMu8_MASKmskw_XMMu64_AVX512'' ''a421143cfef1e558c3bb1c4cdd0863db9'',
    iform ''VPMOVUSQB_MEMu8_MASKmskw_YMMu64_AVX512'' ''a4a5c2c1ec5c4fb59c8dfcffa147beafb'',
    iform ''VPMOVUSQB_MEMu8_MASKmskw_ZMMu64_AVX512'' ''abf97e5b404d3063249e210b425641789'',
    iform ''VPMOVUSQB_XMMu8_MASKmskw_XMMu64_AVX512'' ''a367d7777f9636e1f21ccdc8e7f644a69'',
    iform ''VPMOVUSQB_XMMu8_MASKmskw_YMMu64_AVX512'' ''abed3103ee8fdbe7c676dc50db4403ad1'',
    iform ''VPMOVUSQB_XMMu8_MASKmskw_ZMMu64_AVX512'' ''a6eb25bcfee695bad985c3b668754cf22'',
    iform ''VPMOVUSQD_MEMu32_MASKmskw_XMMu64_AVX512'' ''ab1e43bd677de445ead5c9a2f361b29b6'',
    iform ''VPMOVUSQD_MEMu32_MASKmskw_YMMu64_AVX512'' ''aa8174e915fdfe56d0c9ef46ec95899ce'',
    iform ''VPMOVUSQD_MEMu32_MASKmskw_ZMMu64_AVX512'' ''af4c9f64e35f45be99440dc1af8609497'',
    iform ''VPMOVUSQD_XMMu32_MASKmskw_XMMu64_AVX512'' ''a059c54a3c418719744c68c2c309925c0'',
    iform ''VPMOVUSQD_XMMu32_MASKmskw_YMMu64_AVX512'' ''a987c2c7eae4d66aec9dbfc26398f3377'',
    iform ''VPMOVUSQD_YMMu32_MASKmskw_ZMMu64_AVX512'' ''ac9d6a76eea333288bf9acae75dd68caa'',
    iform ''VPMOVUSQW_MEMu16_MASKmskw_XMMu64_AVX512'' ''a40b551328def91d7aa8705454eba53da'',
    iform ''VPMOVUSQW_MEMu16_MASKmskw_YMMu64_AVX512'' ''a2c498be2741b4d32bd13fa9e8fa119a0'',
    iform ''VPMOVUSQW_MEMu16_MASKmskw_ZMMu64_AVX512'' ''abd6d32e91fc4b3ab54ef9a260dfec8b7'',
    iform ''VPMOVUSQW_XMMu16_MASKmskw_XMMu64_AVX512'' ''a610bf97c885b4791c6e63b7c8f7b8f52'',
    iform ''VPMOVUSQW_XMMu16_MASKmskw_YMMu64_AVX512'' ''adc5ca0a2f5f865a5355b648c42e3deb5'',
    iform ''VPMOVUSQW_XMMu16_MASKmskw_ZMMu64_AVX512'' ''a15ac81f02a1dc510a039ce384d1a7638'',
    iform ''VPMOVUSWB_MEMu8_MASKmskw_XMMu16_AVX512'' ''a16ccc3c78bf55ef5f0d0aacbae97e8c3'',
    iform ''VPMOVUSWB_MEMu8_MASKmskw_YMMu16_AVX512'' ''aeda495585f169428eaa3030d34aa1b6c'',
    iform ''VPMOVUSWB_MEMu8_MASKmskw_ZMMu16_AVX512'' ''a48dde5613d0c69aae46b6a4828b3d2ee'',
    iform ''VPMOVUSWB_XMMu8_MASKmskw_XMMu16_AVX512'' ''a843d104053a599fdb3ef6d009f68aaee'',
    iform ''VPMOVUSWB_XMMu8_MASKmskw_YMMu16_AVX512'' ''ad23b3331ea75fd7c6f5ad9bbfc472c1a'',
    iform ''VPMOVUSWB_YMMu8_MASKmskw_ZMMu16_AVX512'' ''a2bc9a423434925a8bb145683558d7b73'',
    iform ''VPMOVW2M_MASKmskw_XMMu16_AVX512'' ''a16eecb3d2a37f3ae5541b39553512aea'',
    iform ''VPMOVW2M_MASKmskw_YMMu16_AVX512'' ''a057736b5c07de7834005a9ae1589d1e8'',
    iform ''VPMOVW2M_MASKmskw_ZMMu16_AVX512'' ''afaed11d4cfe06adbcce5af21cd5eb241'',
    iform ''VPMOVWB_MEMu8_MASKmskw_XMMu16_AVX512'' ''a05f7e9a2c234358eae25c4fac49ec16a'',
    iform ''VPMOVWB_MEMu8_MASKmskw_YMMu16_AVX512'' ''a2f8ab59121b7e0b892a25a5908f633f3'',
    iform ''VPMOVWB_MEMu8_MASKmskw_ZMMu16_AVX512'' ''a2a5d000dd9edd2f7df15a39a72e779b6'',
    iform ''VPMOVWB_XMMu8_MASKmskw_XMMu16_AVX512'' ''a352c4d546e6f1fa945783e3b1921106b'',
    iform ''VPMOVWB_XMMu8_MASKmskw_YMMu16_AVX512'' ''af8f6a6ae583cb9b2370b30c712ddad86'',
    iform ''VPMOVWB_YMMu8_MASKmskw_ZMMu16_AVX512'' ''aadac56340557a3243cd0552b2c02a2b3'',
    iform ''VPMOVZXBD_XMMdq_MEMd'' ''a15ad3104b5c84a7e75f4b5d26b44d49e'',
    iform ''VPMOVZXBD_XMMdq_XMMd'' ''a3b99cfa4dbd538de7f315ecb4c60e2ef'',
    iform ''VPMOVZXBD_XMMi32_MASKmskw_MEMi8_AVX512'' ''af76715734591180691a8246cf8f9b028'',
    iform ''VPMOVZXBD_XMMi32_MASKmskw_XMMi8_AVX512'' ''a323fdae462db1b0a71b67d7a31aeb956'',
    iform ''VPMOVZXBD_YMMi32_MASKmskw_MEMi8_AVX512'' ''a3e0c17a2fde29284239a514d94efbcf0'',
    iform ''VPMOVZXBD_YMMi32_MASKmskw_XMMi8_AVX512'' ''a2f178f895c2036716bc51e986e07a3f7'',
    iform ''VPMOVZXBD_YMMqq_MEMq'' ''a38a08af465b8fc8f1bb7ff8b02d2c529'',
    iform ''VPMOVZXBD_YMMqq_XMMq'' ''a786978d120538ec2554b90f691dcce50'',
    iform ''VPMOVZXBD_ZMMi32_MASKmskw_MEMi8_AVX512'' ''a4b979b38e00a7761cd04a55b6ba53354'',
    iform ''VPMOVZXBD_ZMMi32_MASKmskw_XMMi8_AVX512'' ''a7e0ab7e5d7a60e560b7d8c990a13b9a7'',
    iform ''VPMOVZXBQ_XMMdq_MEMw'' ''ab0232c4c60bb570ebbaa5a61b3dd61ca'',
    iform ''VPMOVZXBQ_XMMdq_XMMw'' ''ac3a8fb78f480f2b363f45fc3ae84f12c'',
    iform ''VPMOVZXBQ_XMMi64_MASKmskw_MEMi8_AVX512'' ''ac2379096216d9d9ff2583eabf5e35dec'',
    iform ''VPMOVZXBQ_XMMi64_MASKmskw_XMMi8_AVX512'' ''add97b3035822c2109331d4a5c5ecbb72'',
    iform ''VPMOVZXBQ_YMMi64_MASKmskw_MEMi8_AVX512'' ''a72ce2f0a65ed640b5176584c33c42638'',
    iform ''VPMOVZXBQ_YMMi64_MASKmskw_XMMi8_AVX512'' ''aafc90ff1b70a1da91bfcbe6a13fa179a'',
    iform ''VPMOVZXBQ_YMMqq_MEMd'' ''acd15d67ccfe79c4b15ead5fe9461fe72'',
    iform ''VPMOVZXBQ_YMMqq_XMMd'' ''a32bac352f5127d4377e11180fe13287d'',
    iform ''VPMOVZXBQ_ZMMi64_MASKmskw_MEMi8_AVX512'' ''a3094394a61e7a37877fe5b7038b8072a'',
    iform ''VPMOVZXBQ_ZMMi64_MASKmskw_XMMi8_AVX512'' ''a5324ee6752e0c775fec7afd250983c37'',
    iform ''VPMOVZXBW_XMMdq_MEMq'' ''ac146ad0a7f2952cc79b723abfeb33f31'',
    iform ''VPMOVZXBW_XMMdq_XMMq'' ''a2ac04809b014dac839da33d637991ccf'',
    iform ''VPMOVZXBW_XMMi16_MASKmskw_MEMi8_AVX512'' ''a59cabe1def4503bf639ffe76036d6e30'',
    iform ''VPMOVZXBW_XMMi16_MASKmskw_XMMi8_AVX512'' ''a7542829d37548e264372192d8e75838e'',
    iform ''VPMOVZXBW_YMMi16_MASKmskw_MEMi8_AVX512'' ''a0ee618a90a3f0fc70583963f88adf3c3'',
    iform ''VPMOVZXBW_YMMi16_MASKmskw_XMMi8_AVX512'' ''aa3105db43598dd16fcb087e7d1d774b0'',
    iform ''VPMOVZXBW_YMMqq_MEMdq'' ''a5d02ceee0361c8aa13ba83b7c7403590'',
    iform ''VPMOVZXBW_YMMqq_XMMdq'' ''ad253f23b62f55dda9bbf15dbe1f39924'',
    iform ''VPMOVZXBW_ZMMi16_MASKmskw_MEMi8_AVX512'' ''a1cebd7c03cf9efd60eea9d71e55ca7d1'',
    iform ''VPMOVZXBW_ZMMi16_MASKmskw_YMMi8_AVX512'' ''a35b1666d8140717f9ff808b9f97b3a3c'',
    iform ''VPMOVZXDQ_XMMdq_MEMq'' ''a3426698c2884d9a56d4a67efaf2818d3'',
    iform ''VPMOVZXDQ_XMMdq_XMMq'' ''a675ed02118052762ea7c0dc8413589ba'',
    iform ''VPMOVZXDQ_XMMi64_MASKmskw_MEMi32_AVX512'' ''aedaabfe033a978a2fcf20c5b22a585d4'',
    iform ''VPMOVZXDQ_XMMi64_MASKmskw_XMMi32_AVX512'' ''afdc18665eecc377fb54ce72c78ea12a6'',
    iform ''VPMOVZXDQ_YMMi64_MASKmskw_MEMi32_AVX512'' ''a3ae492f58b48ca7f65962d7f12b97305'',
    iform ''VPMOVZXDQ_YMMi64_MASKmskw_XMMi32_AVX512'' ''a588aa14fe2457ad8c719b2d1824e7f2f'',
    iform ''VPMOVZXDQ_YMMqq_MEMdq'' ''a2e8a098ad96fd90c5d4c7316d2e3862f'',
    iform ''VPMOVZXDQ_YMMqq_XMMdq'' ''a6e31f378f73058dcaa21193149bcd7c3'',
    iform ''VPMOVZXDQ_ZMMi64_MASKmskw_MEMi32_AVX512'' ''ad6619b55ff34aaa562fe0c4efcbca3ee'',
    iform ''VPMOVZXDQ_ZMMi64_MASKmskw_YMMi32_AVX512'' ''a318f26e3f3f705f325c3c333f5963d48'',
    iform ''VPMOVZXWD_XMMdq_MEMq'' ''ad9606a0572b16e888713f630c284dc58'',
    iform ''VPMOVZXWD_XMMdq_XMMq'' ''ac5ca969a1ca0b5e26847af96fda94c14'',
    iform ''VPMOVZXWD_XMMi32_MASKmskw_MEMi16_AVX512'' ''acc9a61cf8f823f91a6f7453112be4521'',
    iform ''VPMOVZXWD_XMMi32_MASKmskw_XMMi16_AVX512'' ''abc957caeb74676b4c566bdac6fcfac4e'',
    iform ''VPMOVZXWD_YMMi32_MASKmskw_MEMi16_AVX512'' ''a447b3f5177ce02e29e5e56f4937f6989'',
    iform ''VPMOVZXWD_YMMi32_MASKmskw_XMMi16_AVX512'' ''a8dcb5857f00c52bf409ca0d304a55ddb'',
    iform ''VPMOVZXWD_YMMqq_MEMdq'' ''a28606deec86880fc736f696939670706'',
    iform ''VPMOVZXWD_YMMqq_XMMdq'' ''a6becac83c6b1fba0a2bfe29373f20234'',
    iform ''VPMOVZXWD_ZMMi32_MASKmskw_MEMi16_AVX512'' ''a47dae1ddf5f480f55d81490103cc2e14'',
    iform ''VPMOVZXWD_ZMMi32_MASKmskw_YMMi16_AVX512'' ''a9e30da7efef470c17fbcd71ecc33d820'',
    iform ''VPMOVZXWQ_XMMdq_MEMd'' ''ae611eeb9a8f12cc15d5d7d3eebe56733'',
    iform ''VPMOVZXWQ_XMMdq_XMMd'' ''a30a16908791af7e5828dfcbef3cec61f'',
    iform ''VPMOVZXWQ_XMMi64_MASKmskw_MEMi16_AVX512'' ''a5c9781266b871ad2ac1314b1cbd680d0'',
    iform ''VPMOVZXWQ_XMMi64_MASKmskw_XMMi16_AVX512'' ''aaba14505c9516a13c23caad3c7ca1bcf'']"

lemma xed_iform_enum_8h_values_34_closed: "list_all (closed_node scripts) xed_iform_enum_8h_values_34"
  by (simp only: xed_iform_enum_8h_values_34_def closed_rules iform_closed)

definition xed_iform_enum_8h_values_35 :: "nav_node list" where
  "xed_iform_enum_8h_values_35 = [
    iform ''VPMOVZXWQ_YMMi64_MASKmskw_MEMi16_AVX512'' ''a0a6248e57bcb0e92a6a08c2a20d05114'',
    iform ''VPMOVZXWQ_YMMi64_MASKmskw_XMMi16_AVX512'' ''a660ec8cded94b12040d18314bf0f00df'',
    iform ''VPMOVZXWQ_YMMqq_MEMq'' ''accbb31b86b163c06930af81204b5ba41'',
    iform ''VPMOVZXWQ_YMMqq_XMMq'' ''a35cf8ae915f6b47d02711411a3abda3b'',
    iform ''VPMOVZXWQ_ZMMi64_MASKmskw_MEMi16_AVX512'' ''a05e71faf490257d72886486fdebd0f3e'',
    iform ''VPMOVZXWQ_ZMMi64_MASKmskw_XMMi16_AVX512'' ''ab916b2c888ca0c8a3f20689f25c3f7b1'',
    iform ''VPMULDQ_XMMdq_XMMdq_MEMdq'' ''a3806748b86fbab87108cadba9004eb3e'',
    iform ''VPMULDQ_XMMdq_XMMdq_XMMdq'' ''a47b18705a358515f6c8e9d1c9cf1b848'',
    iform ''VPMULDQ_XMMi64_MASKmskw_XMMi32_MEMi32_AVX512'' ''a553ddd35bc76fa987751fc067b55d970'',
    iform ''VPMULDQ_XMMi64_MASKmskw_XMMi32_XMMi32_AVX512'' ''ad4e4abcad85b205f27e04d90cee4157b'',
    iform ''VPMULDQ_YMMi64_MASKmskw_YMMi32_MEMi32_AVX512'' ''aa34835fe752c7f9a6fe005cc6883fa3c'',
    iform ''VPMULDQ_YMMi64_MASKmskw_YMMi32_YMMi32_AVX512'' ''a38ee575d9df59a163d74e80365b14e48'',
    iform ''VPMULDQ_YMMqq_YMMqq_MEMqq'' ''a5aafaabf26e1fabd42e10fe450c9bbb8'',
    iform ''VPMULDQ_YMMqq_YMMqq_YMMqq'' ''adb8343abead0c732cdca39fe482b9743'',
    iform ''VPMULDQ_ZMMi64_MASKmskw_ZMMi32_MEMi32_AVX512'' ''ae8ec32faa50e9505ffd85790c2251693'',
    iform ''VPMULDQ_ZMMi64_MASKmskw_ZMMi32_ZMMi32_AVX512'' ''aa6ab2cf478a1200105ddde1f3803c42c'',
    iform ''VPMULHRSW_XMMdq_XMMdq_MEMdq'' ''a0ef1050ac01c296283fa778e6c976b2b'',
    iform ''VPMULHRSW_XMMdq_XMMdq_XMMdq'' ''a0b1609d44f0ebc375db519a3935208d0'',
    iform ''VPMULHRSW_XMMi16_MASKmskw_XMMi16_MEMi16_AVX512'' ''a8ef5f6ad3d1b96593b166b1b1e41c505'',
    iform ''VPMULHRSW_XMMi16_MASKmskw_XMMi16_XMMi16_AVX512'' ''a05b2ee1c2a4898dabac338b2861ad8d4'',
    iform ''VPMULHRSW_YMMi16_MASKmskw_YMMi16_MEMi16_AVX512'' ''aeabe1400bd2abe7287832ba163549e31'',
    iform ''VPMULHRSW_YMMi16_MASKmskw_YMMi16_YMMi16_AVX512'' ''a2fc16087509fd854e2638479c989e59f'',
    iform ''VPMULHRSW_YMMqq_YMMqq_MEMqq'' ''aa9ada00bfe7ada1f01391cf75b649425'',
    iform ''VPMULHRSW_YMMqq_YMMqq_YMMqq'' ''a9d210c7666ee8bf8be224f3c9cab0688'',
    iform ''VPMULHRSW_ZMMi16_MASKmskw_ZMMi16_MEMi16_AVX512'' ''a0225f4f111a5b4aefeb6bfe8366fd9d9'',
    iform ''VPMULHRSW_ZMMi16_MASKmskw_ZMMi16_ZMMi16_AVX512'' ''a1ecced0c2d4eba69ad2a7b0f0f4651d7'',
    iform ''VPMULHUW_XMMdq_XMMdq_MEMdq'' ''ac2d3c0a9d078e998556892caec805634'',
    iform ''VPMULHUW_XMMdq_XMMdq_XMMdq'' ''a7781fe19a12be5de464c1e49dbde72b0'',
    iform ''VPMULHUW_XMMu16_MASKmskw_XMMu16_MEMu16_AVX512'' ''a148cc1a29811c3557d889fc9c6c88df8'',
    iform ''VPMULHUW_XMMu16_MASKmskw_XMMu16_XMMu16_AVX512'' ''a9578a71c0f5ca3833023814f91e6ad61'',
    iform ''VPMULHUW_YMMqq_YMMqq_MEMqq'' ''a4622afa34adfca84498216788844e50b'',
    iform ''VPMULHUW_YMMqq_YMMqq_YMMqq'' ''aaccbede76629778e047d7614c0acda82'',
    iform ''VPMULHUW_YMMu16_MASKmskw_YMMu16_MEMu16_AVX512'' ''a4755cdb14fbb051ce43f89fc32a71d60'',
    iform ''VPMULHUW_YMMu16_MASKmskw_YMMu16_YMMu16_AVX512'' ''af6d0e2c1067c2b3c276791912075eda8'',
    iform ''VPMULHUW_ZMMu16_MASKmskw_ZMMu16_MEMu16_AVX512'' ''a80eeb9441845667216a329fe63e5d01f'',
    iform ''VPMULHUW_ZMMu16_MASKmskw_ZMMu16_ZMMu16_AVX512'' ''a0c4d796f590b57814ac44c9c2f7c2c60'',
    iform ''VPMULHW_XMMdq_XMMdq_MEMdq'' ''aae4255b459a763ddd4ed0f41c50432e0'',
    iform ''VPMULHW_XMMdq_XMMdq_XMMdq'' ''ac6d31ebfe07a82d6acf92974d282d0f7'',
    iform ''VPMULHW_XMMu16_MASKmskw_XMMu16_MEMu16_AVX512'' ''a27c7d641294216b6318af1d695d62b0a'',
    iform ''VPMULHW_XMMu16_MASKmskw_XMMu16_XMMu16_AVX512'' ''a90f63c33fcbe36880edc9374f619ed9a'',
    iform ''VPMULHW_YMMqq_YMMqq_MEMqq'' ''a1677fd8c42b08d74a980740d9827b783'',
    iform ''VPMULHW_YMMqq_YMMqq_YMMqq'' ''aed6340a8ede60ec5ec7601f266abd595'',
    iform ''VPMULHW_YMMu16_MASKmskw_YMMu16_MEMu16_AVX512'' ''ada252d3b07b6043809a0a9c9fa22fa2a'',
    iform ''VPMULHW_YMMu16_MASKmskw_YMMu16_YMMu16_AVX512'' ''ac477d46ace4116927cd483016359bcfc'',
    iform ''VPMULHW_ZMMu16_MASKmskw_ZMMu16_MEMu16_AVX512'' ''a4a579dfdd29d16799af8f42f4020d81c'',
    iform ''VPMULHW_ZMMu16_MASKmskw_ZMMu16_ZMMu16_AVX512'' ''a5ab7fc8c6774574331d21d30b23f4ddb'',
    iform ''VPMULLD_XMMdq_XMMdq_MEMdq'' ''af93e6f04da24fd893a8fdff28694e629'',
    iform ''VPMULLD_XMMdq_XMMdq_XMMdq'' ''a03119c06b0de18a69db9a079f51f47fc'',
    iform ''VPMULLD_XMMu32_MASKmskw_XMMu32_MEMu32_AVX512'' ''ab73a91e163581fca4ebf063a8d8d5ce8'',
    iform ''VPMULLD_XMMu32_MASKmskw_XMMu32_XMMu32_AVX512'' ''af2f3fc05773f4b531e0381689bc4892b'',
    iform ''VPMULLD_YMMqq_YMMqq_MEMqq'' ''ae4fd560a29454d03b3dc89bd8c612220'',
    iform ''VPMULLD_YMMqq_YMMqq_YMMqq'' ''a9d68dc66e24efebe4d6366f0369b0743'',
    iform ''VPMULLD_YMMu32_MASKmskw_YMMu32_MEMu32_AVX512'' ''a0f1354488547d703146cea49916876f5'',
    iform ''VPMULLD_YMMu32_MASKmskw_YMMu32_YMMu32_AVX512'' ''a1bce72a698b2184fcf47b60298e0dbc3'',
    iform ''VPMULLD_ZMMu32_MASKmskw_ZMMu32_MEMu32_AVX512'' ''a62b803d96adf2596fb4fc62a7b109da2'',
    iform ''VPMULLD_ZMMu32_MASKmskw_ZMMu32_ZMMu32_AVX512'' ''a6c597b378c71e3a104bffcadbd8c8495'',
    iform ''VPMULLQ_XMMu64_MASKmskw_XMMu64_MEMu64_AVX512'' ''a9b29c9fc03c947bc76d101449b3afc3e'',
    iform ''VPMULLQ_XMMu64_MASKmskw_XMMu64_XMMu64_AVX512'' ''a15d29548ea37f5543547233c5d6f3fee'',
    iform ''VPMULLQ_YMMu64_MASKmskw_YMMu64_MEMu64_AVX512'' ''a14be62ee0fa84edc5ed11bac7b24efb2'',
    iform ''VPMULLQ_YMMu64_MASKmskw_YMMu64_YMMu64_AVX512'' ''ae2e84f866c10c9973ecbd1fb4ca10d91'',
    iform ''VPMULLQ_ZMMu64_MASKmskw_ZMMu64_MEMu64_AVX512'' ''a95396e70194ff0b062de703a072b610b'',
    iform ''VPMULLQ_ZMMu64_MASKmskw_ZMMu64_ZMMu64_AVX512'' ''af9240353162ee75444eb0fc317636688'',
    iform ''VPMULLW_XMMdq_XMMdq_MEMdq'' ''a68378cb598c5739affa97d5d9ff2fb80'',
    iform ''VPMULLW_XMMdq_XMMdq_XMMdq'' ''ac3e5acb295a6856a54a8ae74ae453fa0'',
    iform ''VPMULLW_XMMu16_MASKmskw_XMMu16_MEMu16_AVX512'' ''abf2f58848cd12137cb31697dc8c79795'',
    iform ''VPMULLW_XMMu16_MASKmskw_XMMu16_XMMu16_AVX512'' ''a3168d66709c2e01dab1da6b2c281d2c0'',
    iform ''VPMULLW_YMMqq_YMMqq_MEMqq'' ''ad11e626e49a9836215bd0848d0d81996'',
    iform ''VPMULLW_YMMqq_YMMqq_YMMqq'' ''a3629a12790157343784156ce9eeb60c6'',
    iform ''VPMULLW_YMMu16_MASKmskw_YMMu16_MEMu16_AVX512'' ''a7762bc50215a36bd2a58de88f2063d5e'',
    iform ''VPMULLW_YMMu16_MASKmskw_YMMu16_YMMu16_AVX512'' ''a153adb4bea6bae473482dc57880cfbd2'',
    iform ''VPMULLW_ZMMu16_MASKmskw_ZMMu16_MEMu16_AVX512'' ''ab419a042d64639a37fe5c010b80fc57d'',
    iform ''VPMULLW_ZMMu16_MASKmskw_ZMMu16_ZMMu16_AVX512'' ''ab889789e4d3e70f95143f8793ac61b3d'',
    iform ''VPMULTISHIFTQB_XMMu8_MASKmskw_XMMu8_MEMu64_AVX512'' ''aaaf7a5639ee5e33f3d94a30dc1200802'',
    iform ''VPMULTISHIFTQB_XMMu8_MASKmskw_XMMu8_XMMu64_AVX512'' ''a4e0437caff55bc1d99a56a86aaf95893'',
    iform ''VPMULTISHIFTQB_YMMu8_MASKmskw_YMMu8_MEMu64_AVX512'' ''ad33aa67466bf536bf5b6cdd5b144c79c'',
    iform ''VPMULTISHIFTQB_YMMu8_MASKmskw_YMMu8_YMMu64_AVX512'' ''a836bc937ed5475e4ea2da1fdd7a85dcf'',
    iform ''VPMULTISHIFTQB_ZMMu8_MASKmskw_ZMMu8_MEMu64_AVX512'' ''a23f0844817227c5a60ae621d07c11b1f'',
    iform ''VPMULTISHIFTQB_ZMMu8_MASKmskw_ZMMu8_ZMMu64_AVX512'' ''a70ce6a4d6d993551befed4839ab3fdc5'',
    iform ''VPMULUDQ_XMMdq_XMMdq_MEMdq'' ''a4c1f5ae5869355b5c2814e36ad2d7510'',
    iform ''VPMULUDQ_XMMdq_XMMdq_XMMdq'' ''a874009d477ac4acd7fcf9ee081eeb0de'',
    iform ''VPMULUDQ_XMMu64_MASKmskw_XMMu32_MEMu32_AVX512'' ''a821b3495271f84bfe651c633eb5bad62'',
    iform ''VPMULUDQ_XMMu64_MASKmskw_XMMu32_XMMu32_AVX512'' ''a8f70b920fcdbe6e6fdcd415bff1555fa'',
    iform ''VPMULUDQ_YMMqq_YMMqq_MEMqq'' ''afa772fcf41fc092c7a5817e3caa99380'',
    iform ''VPMULUDQ_YMMqq_YMMqq_YMMqq'' ''a823aa822b396b9a2a114a38d918c25e6'',
    iform ''VPMULUDQ_YMMu64_MASKmskw_YMMu32_MEMu32_AVX512'' ''a61eb7ac37b7ed8fd20e05e627ed1abc3'',
    iform ''VPMULUDQ_YMMu64_MASKmskw_YMMu32_YMMu32_AVX512'' ''a43d210eb9fd5b1ca4a5ba6232f435106'',
    iform ''VPMULUDQ_ZMMu64_MASKmskw_ZMMu32_MEMu32_AVX512'' ''aea4c8dfb1835498f291b164d8afa632e'',
    iform ''VPMULUDQ_ZMMu64_MASKmskw_ZMMu32_ZMMu32_AVX512'' ''af6e15b9b9c09e17fa99b22efd5011708'',
    iform ''VPOR_XMMdq_XMMdq_MEMdq'' ''ad02f2c8f6144abf9c3015d7ff424ca1e'',
    iform ''VPOR_XMMdq_XMMdq_XMMdq'' ''a2820e2857f009550cb7aef9f7b62d516'',
    iform ''VPOR_YMMqq_YMMqq_MEMqq'' ''a7286a45ba7a4452eb07796e2db31f234'',
    iform ''VPOR_YMMqq_YMMqq_YMMqq'' ''a851065590ab0b77c180c2d07a8ab9691'',
    iform ''VPORD_XMMu32_MASKmskw_XMMu32_MEMu32_AVX512'' ''acd1d584a1439e20f72381671673e2191'',
    iform ''VPORD_XMMu32_MASKmskw_XMMu32_XMMu32_AVX512'' ''aaa545e38e20bc9ec2439f1e2fdfea90d'',
    iform ''VPORD_YMMu32_MASKmskw_YMMu32_MEMu32_AVX512'' ''aefd39ee16a138b9d43d07218a83a5615'',
    iform ''VPORD_YMMu32_MASKmskw_YMMu32_YMMu32_AVX512'' ''a978bf3dc50511551a2a062458332b451'',
    iform ''VPORD_ZMMu32_MASKmskw_ZMMu32_MEMu32_AVX512'' ''ad9b8ca7448619f04368f43323002a27f'',
    iform ''VPORD_ZMMu32_MASKmskw_ZMMu32_ZMMu32_AVX512'' ''a728d452adef6194b3a29d05f794449d2'',
    iform ''VPORQ_XMMu64_MASKmskw_XMMu64_MEMu64_AVX512'' ''af88ec13fbd5aa28405dda2edc5237904'',
    iform ''VPORQ_XMMu64_MASKmskw_XMMu64_XMMu64_AVX512'' ''a6520c5cd9c2488a36f13b851698e602f'',
    iform ''VPORQ_YMMu64_MASKmskw_YMMu64_MEMu64_AVX512'' ''a8cb63f6dd10852723b8a9bc243e7e1be'',
    iform ''VPORQ_YMMu64_MASKmskw_YMMu64_YMMu64_AVX512'' ''a47680eda3fd3fa59b05ae55c4f498272'',
    iform ''VPORQ_ZMMu64_MASKmskw_ZMMu64_MEMu64_AVX512'' ''a27e003dbb57487672c5290b92288ff8f'',
    iform ''VPORQ_ZMMu64_MASKmskw_ZMMu64_ZMMu64_AVX512'' ''a65975dec463ac52e53d90d470be7d632'',
    iform ''VPPERM_XMMdq_XMMdq_MEMdq_XMMdq'' ''a9d3a15c1b12899685130abe4ce6f4f2a'',
    iform ''VPPERM_XMMdq_XMMdq_XMMdq_MEMdq'' ''a4e67d6a8bb446351e68900478b9d176b'',
    iform ''VPPERM_XMMdq_XMMdq_XMMdq_XMMdq'' ''a82bc766f353d329548603265b928e774'',
    iform ''VPROLD_XMMu32_MASKmskw_MEMu32_IMM8_AVX512'' ''a18969f52752a5dd2c5293869445b9eff'',
    iform ''VPROLD_XMMu32_MASKmskw_XMMu32_IMM8_AVX512'' ''ac35b7e97715fcf71f77087818adb9558'',
    iform ''VPROLD_YMMu32_MASKmskw_MEMu32_IMM8_AVX512'' ''a8335f57628f1b3627b7cf7bf2e214536'',
    iform ''VPROLD_YMMu32_MASKmskw_YMMu32_IMM8_AVX512'' ''a6217ce4fbd0338e6349ed181a350f2ba'',
    iform ''VPROLD_ZMMu32_MASKmskw_MEMu32_IMM8_AVX512'' ''ac5b57b0930019dabfe760a3219abc8c1'',
    iform ''VPROLD_ZMMu32_MASKmskw_ZMMu32_IMM8_AVX512'' ''a54471f9a0771805a469229f9d5995da7'',
    iform ''VPROLQ_XMMu64_MASKmskw_MEMu64_IMM8_AVX512'' ''a72eb9f1c816ebf21275b74d5247224bd'',
    iform ''VPROLQ_XMMu64_MASKmskw_XMMu64_IMM8_AVX512'' ''a1c59883719d4e1f20d1f97dfbbb7766e'',
    iform ''VPROLQ_YMMu64_MASKmskw_MEMu64_IMM8_AVX512'' ''ae0d34a7671b5442d6b67182f210509af'',
    iform ''VPROLQ_YMMu64_MASKmskw_YMMu64_IMM8_AVX512'' ''a1e89bc8cdf48b4ecac640d5d086e2e74'',
    iform ''VPROLQ_ZMMu64_MASKmskw_MEMu64_IMM8_AVX512'' ''a92868f6dac6b71219209b2efcaad7bcb'',
    iform ''VPROLQ_ZMMu64_MASKmskw_ZMMu64_IMM8_AVX512'' ''a484c54b325869256317416007218500a'',
    iform ''VPROLVD_XMMu32_MASKmskw_XMMu32_MEMu32_AVX512'' ''a8c7e682b74f213c5e34da71526a20f4b'',
    iform ''VPROLVD_XMMu32_MASKmskw_XMMu32_XMMu32_AVX512'' ''a14d1e88882dbfbcaac88e83d6407cc1d'',
    iform ''VPROLVD_YMMu32_MASKmskw_YMMu32_MEMu32_AVX512'' ''a3380c45fc14285ea3a93ea8dbe21862a'',
    iform ''VPROLVD_YMMu32_MASKmskw_YMMu32_YMMu32_AVX512'' ''af2a3a2d4844dc6b4ca8129d743f27a54'',
    iform ''VPROLVD_ZMMu32_MASKmskw_ZMMu32_MEMu32_AVX512'' ''a59380f8256707f9cd37faa528b14b536'',
    iform ''VPROLVD_ZMMu32_MASKmskw_ZMMu32_ZMMu32_AVX512'' ''a9c46c3d7ae76406fb11c56739c85ee22'',
    iform ''VPROLVQ_XMMu64_MASKmskw_XMMu64_MEMu64_AVX512'' ''ad4b097ae6832176413619eb049cf9cf5'',
    iform ''VPROLVQ_XMMu64_MASKmskw_XMMu64_XMMu64_AVX512'' ''a1d13fe2168a3ceceed55b7bb12ca18d2'',
    iform ''VPROLVQ_YMMu64_MASKmskw_YMMu64_MEMu64_AVX512'' ''a7d797b49c43566d965f2746c9e044077'',
    iform ''VPROLVQ_YMMu64_MASKmskw_YMMu64_YMMu64_AVX512'' ''af61d133ede097896f010d48cfa5afa54'',
    iform ''VPROLVQ_ZMMu64_MASKmskw_ZMMu64_MEMu64_AVX512'' ''a8d59c9f6aaa3416ac6f594607e9f82aa'',
    iform ''VPROLVQ_ZMMu64_MASKmskw_ZMMu64_ZMMu64_AVX512'' ''af82557090c56a188e287d66a134cdaab'',
    iform ''VPRORD_XMMu32_MASKmskw_MEMu32_IMM8_AVX512'' ''acb624270c4bc7a6ed4c9d3444a8697e4'',
    iform ''VPRORD_XMMu32_MASKmskw_XMMu32_IMM8_AVX512'' ''a208600fa966c44bcf45106fdc3f496e7'',
    iform ''VPRORD_YMMu32_MASKmskw_MEMu32_IMM8_AVX512'' ''afd180f0eec05257081ac5fad0012f984'',
    iform ''VPRORD_YMMu32_MASKmskw_YMMu32_IMM8_AVX512'' ''aafa002ece2935f680c6466a8453f6950'',
    iform ''VPRORD_ZMMu32_MASKmskw_MEMu32_IMM8_AVX512'' ''a162dd4e6286dc97d307b2789f536eb96'',
    iform ''VPRORD_ZMMu32_MASKmskw_ZMMu32_IMM8_AVX512'' ''a80e58cf68b22ce656dcb0389c03a8c89'',
    iform ''VPRORQ_XMMu64_MASKmskw_MEMu64_IMM8_AVX512'' ''a989778ab3a935ece58945aec88534932'',
    iform ''VPRORQ_XMMu64_MASKmskw_XMMu64_IMM8_AVX512'' ''aee4a3066e3230505ce8316165ff3f76e'',
    iform ''VPRORQ_YMMu64_MASKmskw_MEMu64_IMM8_AVX512'' ''a1ba0da7d50ea313e381e9b36e9073ab2'']"

lemma xed_iform_enum_8h_values_35_closed: "list_all (closed_node scripts) xed_iform_enum_8h_values_35"
  by (simp only: xed_iform_enum_8h_values_35_def closed_rules iform_closed)

definition xed_iform_enum_8h_values_36 :: "nav_node list" where
  "xed_iform_enum_8h_values_36 = [
    iform ''VPRORQ_YMMu64_MASKmskw_YMMu64_IMM8_AVX512'' ''a376334ac4b6930354fa822ac7773dc3b'',
    iform ''VPRORQ_ZMMu64_MASKmskw_MEMu64_IMM8_AVX512'' ''a6c8dccfb4fb3d0ccb819cfd39abb8a28'',
    iform ''VPRORQ_ZMMu64_MASKmskw_ZMMu64_IMM8_AVX512'' ''aeb8d0fc2e25c9fa69737e8a231625089'',
    iform ''VPRORVD_XMMu32_MASKmskw_XMMu32_MEMu32_AVX512'' ''ad700742727f5ba78c827373d2af3a006'',
    iform ''VPRORVD_XMMu32_MASKmskw_XMMu32_XMMu32_AVX512'' ''ae588783c6469170267ae68522101e41e'',
    iform ''VPRORVD_YMMu32_MASKmskw_YMMu32_MEMu32_AVX512'' ''a69c11ccb8eae3f647019453e30752e9c'',
    iform ''VPRORVD_YMMu32_MASKmskw_YMMu32_YMMu32_AVX512'' ''a2a6772c67efe0d34fabbf8a04082dbab'',
    iform ''VPRORVD_ZMMu32_MASKmskw_ZMMu32_MEMu32_AVX512'' ''a77d20b315f0942d89459b2a22c9483fb'',
    iform ''VPRORVD_ZMMu32_MASKmskw_ZMMu32_ZMMu32_AVX512'' ''a0604f69e1ae104781d0154becee27957'',
    iform ''VPRORVQ_XMMu64_MASKmskw_XMMu64_MEMu64_AVX512'' ''a9c2934757395822d141fd0de6fe4beee'',
    iform ''VPRORVQ_XMMu64_MASKmskw_XMMu64_XMMu64_AVX512'' ''ad3764eed9f0e226e49e2665f982fa9a1'',
    iform ''VPRORVQ_YMMu64_MASKmskw_YMMu64_MEMu64_AVX512'' ''a0fd9ac0f0b889ca4640dacf502baf58c'',
    iform ''VPRORVQ_YMMu64_MASKmskw_YMMu64_YMMu64_AVX512'' ''abb015846fbc09dd27337054f5b8a410e'',
    iform ''VPRORVQ_ZMMu64_MASKmskw_ZMMu64_MEMu64_AVX512'' ''a73b4d0f574680a782edb24779aa0d644'',
    iform ''VPRORVQ_ZMMu64_MASKmskw_ZMMu64_ZMMu64_AVX512'' ''ade570f466eb8ee62c9ef66f82fe4b974'',
    iform ''VPROTB_XMMdq_MEMdq_IMMb'' ''a399a78488a43aaf4d789a7a30f7017ae'',
    iform ''VPROTB_XMMdq_MEMdq_XMMdq'' ''a20c07937c9ce8a28246512e394c2543a'',
    iform ''VPROTB_XMMdq_XMMdq_IMMb'' ''a1731dc9f3f2eb30508549b7c2537af51'',
    iform ''VPROTB_XMMdq_XMMdq_MEMdq'' ''a44ca54fe210796643c9c00535ea7b028'',
    iform ''VPROTB_XMMdq_XMMdq_XMMdq'' ''a4cfa6ed903277710d5cfa7b28e75ea65'',
    iform ''VPROTD_XMMdq_MEMdq_IMMb'' ''ae3b9a23456e97a3c99855829f49fc22d'',
    iform ''VPROTD_XMMdq_MEMdq_XMMdq'' ''af82cc590ae0adf53d57e36871c91ba79'',
    iform ''VPROTD_XMMdq_XMMdq_IMMb'' ''add211928d64070b6d537c249f81c6293'',
    iform ''VPROTD_XMMdq_XMMdq_MEMdq'' ''a0928646eaf3a0d5371524e60ce78f45d'',
    iform ''VPROTD_XMMdq_XMMdq_XMMdq'' ''a6fc979593e0ac07b914459eb44ab2d79'',
    iform ''VPROTQ_XMMdq_MEMdq_IMMb'' ''a10333e6f74a87f914824e1404dec5d1b'',
    iform ''VPROTQ_XMMdq_MEMdq_XMMdq'' ''a27ff58ce14b4de738a3dbf4ce574c65b'',
    iform ''VPROTQ_XMMdq_XMMdq_IMMb'' ''aa8ed707452c11f5039967a94ba723ae4'',
    iform ''VPROTQ_XMMdq_XMMdq_MEMdq'' ''a90ac7cd163b9b9b70eac3057b547f6cb'',
    iform ''VPROTQ_XMMdq_XMMdq_XMMdq'' ''a0fbb0af8322a3039a2c33e308acea8a3'',
    iform ''VPROTW_XMMdq_MEMdq_IMMb'' ''a2bbb6128eab817b68a29b7ab6a6f40e2'',
    iform ''VPROTW_XMMdq_MEMdq_XMMdq'' ''afcb3403e56615ee84beab8f431e3c666'',
    iform ''VPROTW_XMMdq_XMMdq_IMMb'' ''a9f91c8bf155304808b8059b5b81f39b6'',
    iform ''VPROTW_XMMdq_XMMdq_MEMdq'' ''acf79d4a9320d3e11a93aa91edc28d001'',
    iform ''VPROTW_XMMdq_XMMdq_XMMdq'' ''a1e8b868a4c8cf3b63bfd8975839ea2db'',
    iform ''VPSADBW_XMMdq_XMMdq_MEMdq'' ''a4bab518c8872fcbbb8129e33d149ead1'',
    iform ''VPSADBW_XMMdq_XMMdq_XMMdq'' ''a1744bb01322b472b619b9a8e2c70dc87'',
    iform ''VPSADBW_XMMu16_XMMu8_MEMu8_AVX512'' ''a5c6e14bd866b52f07e16042862058539'',
    iform ''VPSADBW_XMMu16_XMMu8_XMMu8_AVX512'' ''a2b46c56324d559050dc53d7ac28134b3'',
    iform ''VPSADBW_YMMqq_YMMqq_MEMqq'' ''a8a6cd262fc3a97ee09e0caef6f2745b2'',
    iform ''VPSADBW_YMMqq_YMMqq_YMMqq'' ''ac83872d79ad2108ef12971f518664ed9'',
    iform ''VPSADBW_YMMu16_YMMu8_MEMu8_AVX512'' ''af6037d67c91b0ec357fe530b1c4b6978'',
    iform ''VPSADBW_YMMu16_YMMu8_YMMu8_AVX512'' ''a08f68c63a49c66c538649f8a070c99d3'',
    iform ''VPSADBW_ZMMu16_ZMMu8_MEMu8_AVX512'' ''ac018b566efaa08e055413cb19879fbe3'',
    iform ''VPSADBW_ZMMu16_ZMMu8_ZMMu8_AVX512'' ''a4babfa9cfc8534faf5d88e465f7d7bb5'',
    iform ''VPSCATTERDD_MEMu32_MASKmskw_XMMu32_AVX512_VL128'' ''a547197e0ed15dd14c869952b1c0943cc'',
    iform ''VPSCATTERDD_MEMu32_MASKmskw_YMMu32_AVX512_VL256'' ''aa7710c7ef8f29b78a32add91a9095420'',
    iform ''VPSCATTERDD_MEMu32_MASKmskw_ZMMu32_AVX512_VL512'' ''a2016e85999f0331366076ef54b8be6c1'',
    iform ''VPSCATTERDQ_MEMu64_MASKmskw_XMMu64_AVX512_VL128'' ''ab4c98ab572627c0b1d52c80da06fcbd1'',
    iform ''VPSCATTERDQ_MEMu64_MASKmskw_YMMu64_AVX512_VL256'' ''ac430825d8b1c3ba93fdd322475bf95cb'',
    iform ''VPSCATTERDQ_MEMu64_MASKmskw_ZMMu64_AVX512_VL512'' ''a4ca29db58ef5f423a6b357983b0a7a72'',
    iform ''VPSCATTERQD_MEMu32_MASKmskw_XMMu32_AVX512_VL128'' ''a99e93514bc0ec555474a9a5c913003cd'',
    iform ''VPSCATTERQD_MEMu32_MASKmskw_XMMu32_AVX512_VL256'' ''a0aacfd951467ac734b3f87ef986fe872'',
    iform ''VPSCATTERQD_MEMu32_MASKmskw_YMMu32_AVX512_VL512'' ''af0475290e0784fcb6313496b7a7ac72f'',
    iform ''VPSCATTERQQ_MEMu64_MASKmskw_XMMu64_AVX512_VL128'' ''a6899978b28c47541acd6965a12c27323'',
    iform ''VPSCATTERQQ_MEMu64_MASKmskw_YMMu64_AVX512_VL256'' ''ae26cb395726a71c7421821247cafc36e'',
    iform ''VPSCATTERQQ_MEMu64_MASKmskw_ZMMu64_AVX512_VL512'' ''a01811f6c4c5ddb162e54dda2e4f30530'',
    iform ''VPSHAB_XMMdq_MEMdq_XMMdq'' ''afd76081bcb386a5da04817416953cc28'',
    iform ''VPSHAB_XMMdq_XMMdq_MEMdq'' ''ae31216fb9aac86f9ec67a6294d4551d1'',
    iform ''VPSHAB_XMMdq_XMMdq_XMMdq'' ''af007e2ce8eec387f7e56da341acaa24a'',
    iform ''VPSHAD_XMMdq_MEMdq_XMMdq'' ''ab5a83c5e9e8d8ef17404aa79c95e721b'',
    iform ''VPSHAD_XMMdq_XMMdq_MEMdq'' ''af043e3026e749fd2dc9c5701181c8f98'',
    iform ''VPSHAD_XMMdq_XMMdq_XMMdq'' ''ae62588ed553de82dbeef16456a346851'',
    iform ''VPSHAQ_XMMdq_MEMdq_XMMdq'' ''aa88bd99ad5ad7a71e6b6fa23a879aff9'',
    iform ''VPSHAQ_XMMdq_XMMdq_MEMdq'' ''a2fc71657a4d50e455a9f8898282655c9'',
    iform ''VPSHAQ_XMMdq_XMMdq_XMMdq'' ''a499898fb14bcbfbe45f7f3591f287c63'',
    iform ''VPSHAW_XMMdq_MEMdq_XMMdq'' ''a23ff32fb5b2c14069f2063b23b2819eb'',
    iform ''VPSHAW_XMMdq_XMMdq_MEMdq'' ''a2e9440082c97ff7d3818852d9c3fa553'',
    iform ''VPSHAW_XMMdq_XMMdq_XMMdq'' ''af16fcdc0acd8d335258354f11f6f4c8f'',
    iform ''VPSHLB_XMMdq_MEMdq_XMMdq'' ''a5fba8e7dfa85dbf6efe7c51d9ee30d92'',
    iform ''VPSHLB_XMMdq_XMMdq_MEMdq'' ''a2a865f91864160b28cce8d19c64b6365'',
    iform ''VPSHLB_XMMdq_XMMdq_XMMdq'' ''a3caddbc9ed31a2fedfe8a2bf408e1d10'',
    iform ''VPSHLD_XMMdq_MEMdq_XMMdq'' ''afb00e9aa0ec18dad5da8f6ba212d3fec'',
    iform ''VPSHLD_XMMdq_XMMdq_MEMdq'' ''a0198b888eef5798b104fcee4d200aae8'',
    iform ''VPSHLD_XMMdq_XMMdq_XMMdq'' ''a4bd2e60dcf8e3ea41c7ee001b2237176'',
    iform ''VPSHLQ_XMMdq_MEMdq_XMMdq'' ''af04fa06c7bda2ffea7a245e223f25669'',
    iform ''VPSHLQ_XMMdq_XMMdq_MEMdq'' ''a87b1706eba4f9b62e82e182c7fa3f7e6'',
    iform ''VPSHLQ_XMMdq_XMMdq_XMMdq'' ''a6b772ec4332ea8e775aec289faf96ba9'',
    iform ''VPSHLW_XMMdq_MEMdq_XMMdq'' ''af94f721a08baab40286ae73428806790'',
    iform ''VPSHLW_XMMdq_XMMdq_MEMdq'' ''a0ef2a82d50e605ea0b16f80d8c74dd55'',
    iform ''VPSHLW_XMMdq_XMMdq_XMMdq'' ''a04c8c88cd7eb05fce26edcdbba0fb320'',
    iform ''VPSHUFB_XMMdq_XMMdq_MEMdq'' ''a44bc56b67e5ff843d6ac6f30c9c5a183'',
    iform ''VPSHUFB_XMMdq_XMMdq_XMMdq'' ''a35a31a0dddcae592763d37c51464237c'',
    iform ''VPSHUFB_XMMu8_MASKmskw_XMMu8_MEMu8_AVX512'' ''a8e9ff7b82e5d1eab4711f6fe25b4992c'',
    iform ''VPSHUFB_XMMu8_MASKmskw_XMMu8_XMMu8_AVX512'' ''a0956cee4ea00ce85ea6f9723394972f9'',
    iform ''VPSHUFB_YMMqq_YMMqq_MEMqq'' ''acaa5ceb178d6850aa881bdf7f9d08f0c'',
    iform ''VPSHUFB_YMMqq_YMMqq_YMMqq'' ''a4d98291e0d3e6f2cb4b5c61f284d3e12'',
    iform ''VPSHUFB_YMMu8_MASKmskw_YMMu8_MEMu8_AVX512'' ''aa9752228132e9bd6acecc6bdafd9d4fb'',
    iform ''VPSHUFB_YMMu8_MASKmskw_YMMu8_YMMu8_AVX512'' ''a31a6dd7cd08990659c3611087797bb09'',
    iform ''VPSHUFB_ZMMu8_MASKmskw_ZMMu8_MEMu8_AVX512'' ''aa236a89440148589d5d104cbb8697a26'',
    iform ''VPSHUFB_ZMMu8_MASKmskw_ZMMu8_ZMMu8_AVX512'' ''a5033c2b471838c4a7506e667d26749f1'',
    iform ''VPSHUFD_XMMdq_MEMdq_IMMb'' ''af89e64e3d5f6fd6ce101d7a48c1a9667'',
    iform ''VPSHUFD_XMMdq_XMMdq_IMMb'' ''adebb37fbfa392318c15448bef78c9dff'',
    iform ''VPSHUFD_XMMu32_MASKmskw_MEMu32_IMM8_AVX512'' ''a3d74d2a349fe0388a92849b1a613c5a5'',
    iform ''VPSHUFD_XMMu32_MASKmskw_XMMu32_IMM8_AVX512'' ''af870ab9515cdfb59f380630a95d83537'',
    iform ''VPSHUFD_YMMqq_MEMqq_IMMb'' ''a7bad1e05ff0f935a212f57c80a04a4b5'',
    iform ''VPSHUFD_YMMqq_YMMqq_IMMb'' ''ada9ff82f46fe4732ff60a8e5d6accd4b'',
    iform ''VPSHUFD_YMMu32_MASKmskw_MEMu32_IMM8_AVX512'' ''a5846938145cacf0b7ece59b4b6efbb70'',
    iform ''VPSHUFD_YMMu32_MASKmskw_YMMu32_IMM8_AVX512'' ''a742dee53d91b0daeca9577c0b7baea7f'',
    iform ''VPSHUFD_ZMMu32_MASKmskw_MEMu32_IMM8_AVX512'' ''a007ff00eba24f5350ab95859a6819c98'',
    iform ''VPSHUFD_ZMMu32_MASKmskw_ZMMu32_IMM8_AVX512'' ''a6c337a22e2e07b4b16dd2953e46dfd46'',
    iform ''VPSHUFHW_XMMdq_MEMdq_IMMb'' ''a8474b07e234a63cfe3a95535f7e383b4'',
    iform ''VPSHUFHW_XMMdq_XMMdq_IMMb'' ''a59ddfde8ffe4d4b479798c4a85d7ae22'',
    iform ''VPSHUFHW_XMMu16_MASKmskw_MEMu16_IMM8_AVX512'' ''a7f9e7737c59045e1d49f3f511ddbfe88'',
    iform ''VPSHUFHW_XMMu16_MASKmskw_XMMu16_IMM8_AVX512'' ''a70e8612286b87529e6644bf656c066ae'',
    iform ''VPSHUFHW_YMMqq_MEMqq_IMMb'' ''a505902a10cc95cc01918c78e913d729f'',
    iform ''VPSHUFHW_YMMqq_YMMqq_IMMb'' ''a89edb6e5076813a0841de08a3c6d25f8'',
    iform ''VPSHUFHW_YMMu16_MASKmskw_MEMu16_IMM8_AVX512'' ''a7e0038f90079b8d4e36199f077d8c197'',
    iform ''VPSHUFHW_YMMu16_MASKmskw_YMMu16_IMM8_AVX512'' ''ae68491c22b4cfda62a18d47b21618065'',
    iform ''VPSHUFHW_ZMMu16_MASKmskw_MEMu16_IMM8_AVX512'' ''a81a47d600052eb4438bae8351841afdc'',
    iform ''VPSHUFHW_ZMMu16_MASKmskw_ZMMu16_IMM8_AVX512'' ''a71b8ebe51618e9b2b8b148f3ecb9b4d9'',
    iform ''VPSHUFLW_XMMdq_MEMdq_IMMb'' ''a3c5e6671a6c9478cddb65a142ed914ad'',
    iform ''VPSHUFLW_XMMdq_XMMdq_IMMb'' ''a1209ec35e7248abce9d0dd13c303e1a3'',
    iform ''VPSHUFLW_XMMu16_MASKmskw_MEMu16_IMM8_AVX512'' ''a67c0021163d377e579c1e41a05cd14da'',
    iform ''VPSHUFLW_XMMu16_MASKmskw_XMMu16_IMM8_AVX512'' ''a9faa847b8308f2b05547b69640390141'',
    iform ''VPSHUFLW_YMMqq_MEMqq_IMMb'' ''aa52c57ed07f60851e21e1916c1b9ac55'',
    iform ''VPSHUFLW_YMMqq_YMMqq_IMMb'' ''a88c659e0ddfd3cf99ba502091e1b2afd'',
    iform ''VPSHUFLW_YMMu16_MASKmskw_MEMu16_IMM8_AVX512'' ''a8556b637317749a81b51e63659844b05'',
    iform ''VPSHUFLW_YMMu16_MASKmskw_YMMu16_IMM8_AVX512'' ''a5139ce89aff5f9d462e1835f655ee48b'',
    iform ''VPSHUFLW_ZMMu16_MASKmskw_MEMu16_IMM8_AVX512'' ''ade171dc6e561deaa89c88de3bbe25f0c'',
    iform ''VPSHUFLW_ZMMu16_MASKmskw_ZMMu16_IMM8_AVX512'' ''ad668612fe77966049dd1331d8c4a304b'',
    iform ''VPSIGNB_XMMdq_XMMdq_MEMdq'' ''ae79d026ff9dcb38310ec8d3a023f13d2'',
    iform ''VPSIGNB_XMMdq_XMMdq_XMMdq'' ''aa07222a5daf1dd479f311397f3e5c2f6'',
    iform ''VPSIGNB_YMMqq_YMMqq_MEMqq'' ''a4d927f19c66c45eb76d728847dafee0a'',
    iform ''VPSIGNB_YMMqq_YMMqq_YMMqq'' ''aba8a7e1d9a42f9cfbf5d74a1d9f8be4f'',
    iform ''VPSIGND_XMMdq_XMMdq_MEMdq'' ''a5f7a297095de71b620fdedb0445904aa'',
    iform ''VPSIGND_XMMdq_XMMdq_XMMdq'' ''abe516abbe4513f20f1a0d7b0179e7927'',
    iform ''VPSIGND_YMMqq_YMMqq_MEMqq'' ''a36fa739d972b62e0806739b19511b46a'',
    iform ''VPSIGND_YMMqq_YMMqq_YMMqq'' ''affc851af514e6e438cd5249fbe0cce0f'',
    iform ''VPSIGNW_XMMdq_XMMdq_MEMdq'' ''ac821e4c479c0301992ee332563b83c5f'',
    iform ''VPSIGNW_XMMdq_XMMdq_XMMdq'' ''ab9bc5f09a42d9e83efb176fd265041bb'',
    iform ''VPSIGNW_YMMqq_YMMqq_MEMqq'' ''a54662a2649ed94c763b915dd361f70c0'',
    iform ''VPSIGNW_YMMqq_YMMqq_YMMqq'' ''a310b73c053924d8b05316fc111f64826'',
    iform ''VPSLLD_XMMdq_XMMdq_IMMb'' ''a74eb53b2f675e0a1dabec656fed8f839'',
    iform ''VPSLLD_XMMdq_XMMdq_MEMdq'' ''a46a769b6ed460f198fdf328e833b6a4f'',
    iform ''VPSLLD_XMMdq_XMMdq_XMMdq'' ''afeb907ed6e79e1b954ed758b5299973d'',
    iform ''VPSLLD_XMMu32_MASKmskw_MEMu32_IMM8_AVX512'' ''a30086fc77dae560b059ec3728a7e2512'',
    iform ''VPSLLD_XMMu32_MASKmskw_XMMu32_IMM8_AVX512'' ''ae6872927f603d560db30389d3901fd4f'',
    iform ''VPSLLD_XMMu32_MASKmskw_XMMu32_MEMu32_AVX512'' ''a29b640ca887b811048b242ba80c9d54e'',
    iform ''VPSLLD_XMMu32_MASKmskw_XMMu32_XMMu32_AVX512'' ''a2de1c8f63cda3e32b3c28d6a642e225f'']"

lemma xed_iform_enum_8h_values_36_closed: "list_all (closed_node scripts) xed_iform_enum_8h_values_36"
  by (simp only: xed_iform_enum_8h_values_36_def closed_rules iform_closed)

definition xed_iform_enum_8h_values_37 :: "nav_node list" where
  "xed_iform_enum_8h_values_37 = [
    iform ''VPSLLD_YMMqq_YMMqq_IMMb'' ''ad164e69e3a3c3d302ce8051cdf83358d'',
    iform ''VPSLLD_YMMqq_YMMqq_MEMdq'' ''a2b6d8c1c4f40de8fb58ec8d03efd8805'',
    iform ''VPSLLD_YMMqq_YMMqq_XMMq'' ''a6b286d19fbc6abe1d761bb2ed1b8c97f'',
    iform ''VPSLLD_YMMu32_MASKmskw_MEMu32_IMM8_AVX512'' ''a58482d9959cf3e63ce01d6832e8813be'',
    iform ''VPSLLD_YMMu32_MASKmskw_YMMu32_IMM8_AVX512'' ''a0b6acc96210f16b66a92b93f0ab088c5'',
    iform ''VPSLLD_YMMu32_MASKmskw_YMMu32_MEMu32_AVX512'' ''a76c044393621a97ff39d1735ba67b58b'',
    iform ''VPSLLD_YMMu32_MASKmskw_YMMu32_XMMu32_AVX512'' ''a408f6b85ff32838361c5ef797b7d73b2'',
    iform ''VPSLLD_ZMMu32_MASKmskw_MEMu32_IMM8_AVX512'' ''a76ea150a5c9e3171c50c6e161edcfa29'',
    iform ''VPSLLD_ZMMu32_MASKmskw_ZMMu32_IMM8_AVX512'' ''af9ffc75f4b542ffe06c7519bcc9b5060'',
    iform ''VPSLLD_ZMMu32_MASKmskw_ZMMu32_MEMu32_AVX512'' ''aeb3fca0920bbaba85722a81fad86ffc5'',
    iform ''VPSLLD_ZMMu32_MASKmskw_ZMMu32_XMMu32_AVX512'' ''a4064eaf8e59c0af9f3bd2101ed1d9518'',
    iform ''VPSLLDQ_XMMdq_XMMdq_IMMb'' ''a59d5a0002d4a62d0400f86d4f8c989b1'',
    iform ''VPSLLDQ_XMMu8_MEMu8_IMM8_AVX512'' ''a8a72381ef719185d82516c0c92b4149f'',
    iform ''VPSLLDQ_XMMu8_XMMu8_IMM8_AVX512'' ''a3e36ef0cd16cdcc697a217743061f2fd'',
    iform ''VPSLLDQ_YMMqq_YMMqq_IMMb'' ''aa87d634befec3f633df2b64e0c9e194b'',
    iform ''VPSLLDQ_YMMu8_MEMu8_IMM8_AVX512'' ''ab6c0553b4e349459a5ecac89ac4822bd'',
    iform ''VPSLLDQ_YMMu8_YMMu8_IMM8_AVX512'' ''a29fd6431ed37cd71c01a90f0f8b5430d'',
    iform ''VPSLLDQ_ZMMu8_MEMu8_IMM8_AVX512'' ''a36967052dac2fbdd35d0c39c9b95a2c9'',
    iform ''VPSLLDQ_ZMMu8_ZMMu8_IMM8_AVX512'' ''a3881d3cafe464a40478661845294582b'',
    iform ''VPSLLQ_XMMdq_XMMdq_IMMb'' ''ab55d4e5e73eefbd4598a7508dfec04a8'',
    iform ''VPSLLQ_XMMdq_XMMdq_MEMdq'' ''a5584e73dd9ac3b73dd2a0b2525d747e9'',
    iform ''VPSLLQ_XMMdq_XMMdq_XMMdq'' ''a24f370a4fcfffb8f0681fc317f9fb74a'',
    iform ''VPSLLQ_XMMu64_MASKmskw_MEMu64_IMM8_AVX512'' ''a350dfa576093245261d5e9d805e183ff'',
    iform ''VPSLLQ_XMMu64_MASKmskw_XMMu64_IMM8_AVX512'' ''ad8dd28de56fadaa7ce35617b38f9e776'',
    iform ''VPSLLQ_XMMu64_MASKmskw_XMMu64_MEMu64_AVX512'' ''a10612490d101a64e56c9ef68bb5345eb'',
    iform ''VPSLLQ_XMMu64_MASKmskw_XMMu64_XMMu64_AVX512'' ''a1cfff52ff85425c82f7f7e9078003a75'',
    iform ''VPSLLQ_YMMqq_YMMqq_IMMb'' ''ad1386b150dd9276631bf097dd2365558'',
    iform ''VPSLLQ_YMMqq_YMMqq_MEMdq'' ''ae0b7aacd29c00395d4132ac19d98fb41'',
    iform ''VPSLLQ_YMMqq_YMMqq_XMMq'' ''a75618fce4c90548d16dc4ea63c7e6c1e'',
    iform ''VPSLLQ_YMMu64_MASKmskw_MEMu64_IMM8_AVX512'' ''a550bdfd5a127c06607843e53cb4be2fb'',
    iform ''VPSLLQ_YMMu64_MASKmskw_YMMu64_IMM8_AVX512'' ''afe2ebfd87fc2c6a5b0889d99cb70c816'',
    iform ''VPSLLQ_YMMu64_MASKmskw_YMMu64_MEMu64_AVX512'' ''acf3627cdaf8922194c05b2c900b50a9a'',
    iform ''VPSLLQ_YMMu64_MASKmskw_YMMu64_XMMu64_AVX512'' ''a6f080887ef16441ddd6a8b82903723e3'',
    iform ''VPSLLQ_ZMMu64_MASKmskw_MEMu64_IMM8_AVX512'' ''a9db5c5e9d511595614f7e2bc7d38d85d'',
    iform ''VPSLLQ_ZMMu64_MASKmskw_ZMMu64_IMM8_AVX512'' ''a719f794443b30f4d19499b9ceadadb31'',
    iform ''VPSLLQ_ZMMu64_MASKmskw_ZMMu64_MEMu64_AVX512'' ''a9261a9e56b3a5c20b1e22f43d12f474a'',
    iform ''VPSLLQ_ZMMu64_MASKmskw_ZMMu64_XMMu64_AVX512'' ''ab8ffe488623756e17560c189f86f0525'',
    iform ''VPSLLVD_XMMdq_XMMdq_MEMdq'' ''a4ac8a6ab41dc5f1517c9722732d8d7a1'',
    iform ''VPSLLVD_XMMdq_XMMdq_XMMdq'' ''a5e97edd966b3ada4cffff72d844dabf7'',
    iform ''VPSLLVD_XMMu32_MASKmskw_XMMu32_MEMu32_AVX512'' ''aa3fa12ad415a47db3da95a83853d6b1d'',
    iform ''VPSLLVD_XMMu32_MASKmskw_XMMu32_XMMu32_AVX512'' ''a80e984fe77e3eb5a294b2290bc9150c5'',
    iform ''VPSLLVD_YMMqq_YMMqq_MEMqq'' ''a1542d2b4ff6a3c2853bbbfd5ed6aedec'',
    iform ''VPSLLVD_YMMqq_YMMqq_YMMqq'' ''aa4c5ba3ec0f28c58f8799a0583e45b12'',
    iform ''VPSLLVD_YMMu32_MASKmskw_YMMu32_MEMu32_AVX512'' ''ab741b7351845f662fc8cc33d219c52e6'',
    iform ''VPSLLVD_YMMu32_MASKmskw_YMMu32_YMMu32_AVX512'' ''a54f24281b6dbde166010111a9866a67b'',
    iform ''VPSLLVD_ZMMu32_MASKmskw_ZMMu32_MEMu32_AVX512'' ''a02d1bf36375e3093c6c39fb36552fa72'',
    iform ''VPSLLVD_ZMMu32_MASKmskw_ZMMu32_ZMMu32_AVX512'' ''a1d027a2b14b4f11a6474ffc3a0056dd4'',
    iform ''VPSLLVQ_XMMdq_XMMdq_MEMdq'' ''a63652bf80c89ed8357ef72002546d21d'',
    iform ''VPSLLVQ_XMMdq_XMMdq_XMMdq'' ''ada627201157efd693a71d323878ebbac'',
    iform ''VPSLLVQ_XMMu64_MASKmskw_XMMu64_MEMu64_AVX512'' ''a7aa6d0128ac84035094d791b3d2ad15e'',
    iform ''VPSLLVQ_XMMu64_MASKmskw_XMMu64_XMMu64_AVX512'' ''a0aac63a236407a15a121dcce3f97cdc9'',
    iform ''VPSLLVQ_YMMqq_YMMqq_MEMqq'' ''a1dcc08ef8efb61e51834a488fab2cca1'',
    iform ''VPSLLVQ_YMMqq_YMMqq_YMMqq'' ''a7d2bd433d8fc1650007bd585129fc860'',
    iform ''VPSLLVQ_YMMu64_MASKmskw_YMMu64_MEMu64_AVX512'' ''a062bf3b42349a06024813f99d0744d48'',
    iform ''VPSLLVQ_YMMu64_MASKmskw_YMMu64_YMMu64_AVX512'' ''a245c76711a59e902b922368d16ed3728'',
    iform ''VPSLLVQ_ZMMu64_MASKmskw_ZMMu64_MEMu64_AVX512'' ''a43a8868f94689fea5c4a2c8ace03a650'',
    iform ''VPSLLVQ_ZMMu64_MASKmskw_ZMMu64_ZMMu64_AVX512'' ''a060f6a38343da4275c27b8336d115cdb'',
    iform ''VPSLLVW_XMMu16_MASKmskw_XMMu16_MEMu16_AVX512'' ''ae39218d160cda09a126ec914cd47f1f7'',
    iform ''VPSLLVW_XMMu16_MASKmskw_XMMu16_XMMu16_AVX512'' ''abe4c9b4f2f27665f83cb81e41c367da1'',
    iform ''VPSLLVW_YMMu16_MASKmskw_YMMu16_MEMu16_AVX512'' ''a37dc0de8860869db0fb0afb6cdf347a9'',
    iform ''VPSLLVW_YMMu16_MASKmskw_YMMu16_YMMu16_AVX512'' ''a857dc2de80b2e65784569dc5a74e784d'',
    iform ''VPSLLVW_ZMMu16_MASKmskw_ZMMu16_MEMu16_AVX512'' ''a45c5a0db7d88164ede5261d909cb2c25'',
    iform ''VPSLLVW_ZMMu16_MASKmskw_ZMMu16_ZMMu16_AVX512'' ''a65aad1a28e235b66107d3b769e3e5e65'',
    iform ''VPSLLW_XMMdq_XMMdq_IMMb'' ''a36919a36df55a9ee188c6320fd04e3e2'',
    iform ''VPSLLW_XMMdq_XMMdq_MEMdq'' ''aa0d562b02cf94d1cfbfe5cab2f381cfa'',
    iform ''VPSLLW_XMMdq_XMMdq_XMMdq'' ''a053beba8de7ec1a36bf69680fff0cbab'',
    iform ''VPSLLW_XMMu16_MASKmskw_MEMu16_IMM8_AVX512'' ''aa4ee238253162bb59c73b9b3f35c1918'',
    iform ''VPSLLW_XMMu16_MASKmskw_XMMu16_IMM8_AVX512'' ''a771a6865fb9b956d756d58b81974e871'',
    iform ''VPSLLW_XMMu16_MASKmskw_XMMu16_MEMu16_AVX512'' ''a776ceca4e482e489fe7a14d2c6b8b36c'',
    iform ''VPSLLW_XMMu16_MASKmskw_XMMu16_XMMu16_AVX512'' ''a414c6216802b5d5ae05e2cc3ae5e02a5'',
    iform ''VPSLLW_YMMqq_YMMqq_IMMb'' ''adaf07202628da7d368d164e3f94cf5a1'',
    iform ''VPSLLW_YMMqq_YMMqq_MEMdq'' ''aafd509c957567a6b236d8416985801e8'',
    iform ''VPSLLW_YMMqq_YMMqq_XMMq'' ''a70f82133b7ae051d181f516651da25f1'',
    iform ''VPSLLW_YMMu16_MASKmskw_MEMu16_IMM8_AVX512'' ''a5a8b6c90edcd797a8611a9becb3c3592'',
    iform ''VPSLLW_YMMu16_MASKmskw_YMMu16_IMM8_AVX512'' ''aa0fd3ff7f7fb051ec68ec0333da87274'',
    iform ''VPSLLW_YMMu16_MASKmskw_YMMu16_MEMu16_AVX512'' ''ae3793f3887bb6cfdffec956110fbba83'',
    iform ''VPSLLW_YMMu16_MASKmskw_YMMu16_XMMu16_AVX512'' ''a6cc27e46c3be0ccfe512a4e9cb51606a'',
    iform ''VPSLLW_ZMMu16_MASKmskw_MEMu16_IMM8_AVX512'' ''a46ede8be6592b6a1ee1da9f5e60b3cc3'',
    iform ''VPSLLW_ZMMu16_MASKmskw_ZMMu16_IMM8_AVX512'' ''ad2d042146ee892c0924737881af323b6'',
    iform ''VPSLLW_ZMMu16_MASKmskw_ZMMu16_MEMu16_AVX512'' ''a4971c04ef04f1e095ba657b7494f357f'',
    iform ''VPSLLW_ZMMu16_MASKmskw_ZMMu16_XMMu16_AVX512'' ''a5715b3e1848dbe16733c0aa66b0e6479'',
    iform ''VPSRAD_XMMdq_XMMdq_IMMb'' ''a41e0772b0af9900693dc64d5195f707f'',
    iform ''VPSRAD_XMMdq_XMMdq_MEMdq'' ''a3447cd943ada0322c6a874f1564ea3e7'',
    iform ''VPSRAD_XMMdq_XMMdq_XMMdq'' ''a4ec8108b1f3a8509fd5aafa84d0d8b92'',
    iform ''VPSRAD_XMMu32_MASKmskw_MEMu32_IMM8_AVX512'' ''af38e0b3197bc886623b44edc308c656e'',
    iform ''VPSRAD_XMMu32_MASKmskw_XMMu32_IMM8_AVX512'' ''af24642160ef712d389d97def0cae6a74'',
    iform ''VPSRAD_XMMu32_MASKmskw_XMMu32_MEMu32_AVX512'' ''acb637c99ae845a5fe58b66d29b5c4509'',
    iform ''VPSRAD_XMMu32_MASKmskw_XMMu32_XMMu32_AVX512'' ''aa89eedb3fdefaa74aebebe494dcffcf7'',
    iform ''VPSRAD_YMMqq_YMMqq_IMMb'' ''a2a48d9097136a8debb2ff02516884dc4'',
    iform ''VPSRAD_YMMqq_YMMqq_MEMdq'' ''ab54f998fa354ae8aacfc1f1052cbe2ac'',
    iform ''VPSRAD_YMMqq_YMMqq_XMMq'' ''a92d18dabfa08e2ca9a48dd92e7bc9e65'',
    iform ''VPSRAD_YMMu32_MASKmskw_MEMu32_IMM8_AVX512'' ''a4d3eed461834a65c7cc215ecf572d415'',
    iform ''VPSRAD_YMMu32_MASKmskw_YMMu32_IMM8_AVX512'' ''ae0c8c6c842fdae8613eef401a778182d'',
    iform ''VPSRAD_YMMu32_MASKmskw_YMMu32_MEMu32_AVX512'' ''a2de898cb0a7dc225bb23f4fc9cc5002e'',
    iform ''VPSRAD_YMMu32_MASKmskw_YMMu32_XMMu32_AVX512'' ''ab554c294dcf54b1f3848af9751db09ad'',
    iform ''VPSRAD_ZMMu32_MASKmskw_MEMu32_IMM8_AVX512'' ''a14fb4bfdd3614e11f9dba10399aaaaac'',
    iform ''VPSRAD_ZMMu32_MASKmskw_ZMMu32_IMM8_AVX512'' ''ab7281643797d23a69707c942f25d3b0b'',
    iform ''VPSRAD_ZMMu32_MASKmskw_ZMMu32_MEMu32_AVX512'' ''a1db70797013b86a39063c3679549501d'',
    iform ''VPSRAD_ZMMu32_MASKmskw_ZMMu32_XMMu32_AVX512'' ''a00d0d859a13a12e91c63ed56c5409608'',
    iform ''VPSRAQ_XMMu64_MASKmskw_MEMu64_IMM8_AVX512'' ''aa3d6b6a452794738fd4990c57c27332b'',
    iform ''VPSRAQ_XMMu64_MASKmskw_XMMu64_IMM8_AVX512'' ''a28a937125d925166fbc30cd6018b13cb'',
    iform ''VPSRAQ_XMMu64_MASKmskw_XMMu64_MEMu64_AVX512'' ''aa252acd037ad77d9bdd1b8496085a0f0'',
    iform ''VPSRAQ_XMMu64_MASKmskw_XMMu64_XMMu64_AVX512'' ''a46ec1f92c1610d7a410fcae6ac4584cc'',
    iform ''VPSRAQ_YMMu64_MASKmskw_MEMu64_IMM8_AVX512'' ''a954919ad346a71bcfaceb49ce667cb4e'',
    iform ''VPSRAQ_YMMu64_MASKmskw_YMMu64_IMM8_AVX512'' ''a77d2820dc10ea8be24aa366afe8fd4ea'',
    iform ''VPSRAQ_YMMu64_MASKmskw_YMMu64_MEMu64_AVX512'' ''a0e9c3f9931a25d75923169bd0be621a7'',
    iform ''VPSRAQ_YMMu64_MASKmskw_YMMu64_XMMu64_AVX512'' ''a1519648ecfd198b700e4dd7afc306ea2'',
    iform ''VPSRAQ_ZMMu64_MASKmskw_MEMu64_IMM8_AVX512'' ''a869fd7d54d938d8a3fb62bea88278f8f'',
    iform ''VPSRAQ_ZMMu64_MASKmskw_ZMMu64_IMM8_AVX512'' ''a646634a5b59134124e83873a1ba138f0'',
    iform ''VPSRAQ_ZMMu64_MASKmskw_ZMMu64_MEMu64_AVX512'' ''af430f42dfe828e67724fd7197a48d678'',
    iform ''VPSRAQ_ZMMu64_MASKmskw_ZMMu64_XMMu64_AVX512'' ''a54316439ae933ba2b55f9a603b359aff'',
    iform ''VPSRAVD_XMMdq_XMMdq_MEMdq'' ''a56ef42399e4eea6117cc473aa2d0b529'',
    iform ''VPSRAVD_XMMdq_XMMdq_XMMdq'' ''ae5acce325219c17e712488edf34f1322'',
    iform ''VPSRAVD_XMMu32_MASKmskw_XMMu32_MEMu32_AVX512'' ''ab27792f2d1bf623b908babba9c4e6970'',
    iform ''VPSRAVD_XMMu32_MASKmskw_XMMu32_XMMu32_AVX512'' ''ada637d0b96eec3d17cee10d37d78f45a'',
    iform ''VPSRAVD_YMMqq_YMMqq_MEMqq'' ''a2e345730978b19b7a5dbd5118458b463'',
    iform ''VPSRAVD_YMMqq_YMMqq_YMMqq'' ''a342e21c75fbba0d1a6e45afd1c6fc264'',
    iform ''VPSRAVD_YMMu32_MASKmskw_YMMu32_MEMu32_AVX512'' ''ac79867fafc4b145a5ec35578ca9801e6'',
    iform ''VPSRAVD_YMMu32_MASKmskw_YMMu32_YMMu32_AVX512'' ''a106b59631e9faf577158a779c25e3f38'',
    iform ''VPSRAVD_ZMMu32_MASKmskw_ZMMu32_MEMu32_AVX512'' ''aa38b125c61d4ab5aa34aafc6d86596f1'',
    iform ''VPSRAVD_ZMMu32_MASKmskw_ZMMu32_ZMMu32_AVX512'' ''a1ba7164874b862c08845365e6db85d85'',
    iform ''VPSRAVQ_XMMu64_MASKmskw_XMMu64_MEMu64_AVX512'' ''a26b0b4ab842ae2a6931f9637927e9666'',
    iform ''VPSRAVQ_XMMu64_MASKmskw_XMMu64_XMMu64_AVX512'' ''a5f23fdecdeadaf7cea756586af323f8c'',
    iform ''VPSRAVQ_YMMu64_MASKmskw_YMMu64_MEMu64_AVX512'' ''acc5bbd1b475d72c9b56d1f44cfb8eab4'',
    iform ''VPSRAVQ_YMMu64_MASKmskw_YMMu64_YMMu64_AVX512'' ''aba91e0ff3d1f9d9d6d7f1179031b2eb2'',
    iform ''VPSRAVQ_ZMMu64_MASKmskw_ZMMu64_MEMu64_AVX512'' ''ac294596ec115a96d0a8fa6380d90f630'',
    iform ''VPSRAVQ_ZMMu64_MASKmskw_ZMMu64_ZMMu64_AVX512'' ''a265c612ca43d01a9043de0f8e82b82aa'',
    iform ''VPSRAVW_XMMu16_MASKmskw_XMMu16_MEMu16_AVX512'' ''a7feb246bd672fc8ce3f843e2dbb0ef51'',
    iform ''VPSRAVW_XMMu16_MASKmskw_XMMu16_XMMu16_AVX512'' ''ad57399fc859d5bb681fb1f198da2b188'',
    iform ''VPSRAVW_YMMu16_MASKmskw_YMMu16_MEMu16_AVX512'' ''a298160a9c7b1f50cd9bf585908ff2827'',
    iform ''VPSRAVW_YMMu16_MASKmskw_YMMu16_YMMu16_AVX512'' ''a655f525d678d8ab92cba9908112c156c'',
    iform ''VPSRAVW_ZMMu16_MASKmskw_ZMMu16_MEMu16_AVX512'' ''a12d04f180ecb26d020648475e92b66ae'',
    iform ''VPSRAVW_ZMMu16_MASKmskw_ZMMu16_ZMMu16_AVX512'' ''aaa62dbfcd13f225a571f41e34c944994'',
    iform ''VPSRAW_XMMdq_XMMdq_IMMb'' ''a5601e0938292df415d63d9a38a864cef'',
    iform ''VPSRAW_XMMdq_XMMdq_MEMdq'' ''a012ca3e718a95071370050a7a6a94737'',
    iform ''VPSRAW_XMMdq_XMMdq_XMMdq'' ''a40fde12f84674e3b23b38a198270efd5'',
    iform ''VPSRAW_XMMu16_MASKmskw_MEMu16_IMM8_AVX512'' ''ad37c1343034d07cd2456b78da9a004e6'',
    iform ''VPSRAW_XMMu16_MASKmskw_XMMu16_IMM8_AVX512'' ''ad9e8c4d47657452add7ada44b6f11523'',
    iform ''VPSRAW_XMMu16_MASKmskw_XMMu16_MEMu16_AVX512'' ''a9d6b3e73991495d7ddcc02a268a9f950'',
    iform ''VPSRAW_XMMu16_MASKmskw_XMMu16_XMMu16_AVX512'' ''a2bff6a06faea8d58d21d86bf3d610423'']"

lemma xed_iform_enum_8h_values_37_closed: "list_all (closed_node scripts) xed_iform_enum_8h_values_37"
  by (simp only: xed_iform_enum_8h_values_37_def closed_rules iform_closed)

definition xed_iform_enum_8h_values_38 :: "nav_node list" where
  "xed_iform_enum_8h_values_38 = [
    iform ''VPSRAW_YMMqq_YMMqq_IMMb'' ''a1b629c739266ddddf3fe81e5a1366e73'',
    iform ''VPSRAW_YMMqq_YMMqq_MEMdq'' ''ad794cde1ae209062b7e4e17095c653e5'',
    iform ''VPSRAW_YMMqq_YMMqq_XMMq'' ''a1b2a50b9958f28da772703120634b6fd'',
    iform ''VPSRAW_YMMu16_MASKmskw_MEMu16_IMM8_AVX512'' ''a78e6aa01aec2dcbac065e902551e182d'',
    iform ''VPSRAW_YMMu16_MASKmskw_YMMu16_IMM8_AVX512'' ''a539122d8541ac098a06778442448ca40'',
    iform ''VPSRAW_YMMu16_MASKmskw_YMMu16_MEMu16_AVX512'' ''aacccefb9f3727f69093a65907fdd451e'',
    iform ''VPSRAW_YMMu16_MASKmskw_YMMu16_XMMu16_AVX512'' ''a5f919893cef0882d015f71705704088a'',
    iform ''VPSRAW_ZMMu16_MASKmskw_MEMu16_IMM8_AVX512'' ''af6fc18c809ea4f33c863ed8976f85b31'',
    iform ''VPSRAW_ZMMu16_MASKmskw_ZMMu16_IMM8_AVX512'' ''a4af0787909264d4f484f4c6974b4f5f1'',
    iform ''VPSRAW_ZMMu16_MASKmskw_ZMMu16_MEMu16_AVX512'' ''a070b855110da7370047ccd02b3621104'',
    iform ''VPSRAW_ZMMu16_MASKmskw_ZMMu16_XMMu16_AVX512'' ''a20cf34dada6217ee3c1bb7513f40faa0'',
    iform ''VPSRLD_XMMdq_XMMdq_IMMb'' ''a52bbfb128811679b906578bc81a46d98'',
    iform ''VPSRLD_XMMdq_XMMdq_MEMdq'' ''a674fa9c2584da80bc813d23f82770c0e'',
    iform ''VPSRLD_XMMdq_XMMdq_XMMdq'' ''aa32a7d0d2dba4822cbda4ffcdc2fdf26'',
    iform ''VPSRLD_XMMu32_MASKmskw_MEMu32_IMM8_AVX512'' ''af079d47770f2e58311e390fbb441d009'',
    iform ''VPSRLD_XMMu32_MASKmskw_XMMu32_IMM8_AVX512'' ''a55313a4dfc3a4d6ef0ebc3206880b47b'',
    iform ''VPSRLD_XMMu32_MASKmskw_XMMu32_MEMu32_AVX512'' ''a1b71c43dafede71c5d170fe6134fff03'',
    iform ''VPSRLD_XMMu32_MASKmskw_XMMu32_XMMu32_AVX512'' ''af2b26292bbc5f081033acd3ba6b3dcce'',
    iform ''VPSRLD_YMMqq_YMMqq_IMMb'' ''a41984bd21c4ede01930e24044d2cff1a'',
    iform ''VPSRLD_YMMqq_YMMqq_MEMdq'' ''a0957b5235c3707b834c2e79bdc6502c3'',
    iform ''VPSRLD_YMMqq_YMMqq_XMMq'' ''aee039410e4936200f087d95aeeb9e62a'',
    iform ''VPSRLD_YMMu32_MASKmskw_MEMu32_IMM8_AVX512'' ''a7ef75ccd5c7433df96f89d0accc80bda'',
    iform ''VPSRLD_YMMu32_MASKmskw_YMMu32_IMM8_AVX512'' ''a706614a7bdb5e569c9c70a5c7d31f656'',
    iform ''VPSRLD_YMMu32_MASKmskw_YMMu32_MEMu32_AVX512'' ''ac5e760705cdfbd0087f6ae3c1a77f138'',
    iform ''VPSRLD_YMMu32_MASKmskw_YMMu32_XMMu32_AVX512'' ''af4eeed5fc501199f8b3b317769cedca3'',
    iform ''VPSRLD_ZMMu32_MASKmskw_MEMu32_IMM8_AVX512'' ''ab3507e07d6e28ffff220222a20919263'',
    iform ''VPSRLD_ZMMu32_MASKmskw_ZMMu32_IMM8_AVX512'' ''a5503a9e9121493e1d0764065cb13ca4b'',
    iform ''VPSRLD_ZMMu32_MASKmskw_ZMMu32_MEMu32_AVX512'' ''aa83dc79b95e15c44437a6a3a7464c239'',
    iform ''VPSRLD_ZMMu32_MASKmskw_ZMMu32_XMMu32_AVX512'' ''aa116ccdc181a1b80320a73e92e705db9'',
    iform ''VPSRLDQ_XMMdq_XMMdq_IMMb'' ''a93f08d9442eb1830c1a64fa403a95334'',
    iform ''VPSRLDQ_XMMu8_MEMu8_IMM8_AVX512'' ''a67486bae4b5f98dc333162355779a341'',
    iform ''VPSRLDQ_XMMu8_XMMu8_IMM8_AVX512'' ''ae68859712629a51a89d69ece4f313700'',
    iform ''VPSRLDQ_YMMqq_YMMqq_IMMb'' ''aeec90bb7bc9deb59524be4bc92d36ad1'',
    iform ''VPSRLDQ_YMMu8_MEMu8_IMM8_AVX512'' ''aaca6aea8061072d69cc1229a911f1232'',
    iform ''VPSRLDQ_YMMu8_YMMu8_IMM8_AVX512'' ''a25765e208f80878d16ab0edfa7628df8'',
    iform ''VPSRLDQ_ZMMu8_MEMu8_IMM8_AVX512'' ''a678b99ae41cdc01bce5fe4a398b45073'',
    iform ''VPSRLDQ_ZMMu8_ZMMu8_IMM8_AVX512'' ''aff713c6f1cc1eef511b68d2091f261f2'',
    iform ''VPSRLQ_XMMdq_XMMdq_IMMb'' ''a22c5517c05b0f4987821a9df6a60072a'',
    iform ''VPSRLQ_XMMdq_XMMdq_MEMdq'' ''a7308963e92111a3382d2b204c39af787'',
    iform ''VPSRLQ_XMMdq_XMMdq_XMMdq'' ''a9ad35353b144dd172661fbdc19554297'',
    iform ''VPSRLQ_XMMu64_MASKmskw_MEMu64_IMM8_AVX512'' ''ae53740823045f06311750bef1f47e5af'',
    iform ''VPSRLQ_XMMu64_MASKmskw_XMMu64_IMM8_AVX512'' ''a5068f8737de5761f44f7617e6fda5719'',
    iform ''VPSRLQ_XMMu64_MASKmskw_XMMu64_MEMu64_AVX512'' ''a693a44c611fab7273ff54589d0dbb1de'',
    iform ''VPSRLQ_XMMu64_MASKmskw_XMMu64_XMMu64_AVX512'' ''a21b0a11d66c2403d8e48d0d0909aa4e3'',
    iform ''VPSRLQ_YMMqq_YMMqq_IMMb'' ''a843e33c3956f34405785a9266f94ec10'',
    iform ''VPSRLQ_YMMqq_YMMqq_MEMdq'' ''add0e893c80fd34a983e0b37aa0162046'',
    iform ''VPSRLQ_YMMqq_YMMqq_XMMq'' ''ae3d92df39660556d7ae5d7b250ffb553'',
    iform ''VPSRLQ_YMMu64_MASKmskw_MEMu64_IMM8_AVX512'' ''a711bd929d7674d4a3d74cb95baf4ab1b'',
    iform ''VPSRLQ_YMMu64_MASKmskw_YMMu64_IMM8_AVX512'' ''a08192259c5ccec7d4c7ef916a8b3ac1f'',
    iform ''VPSRLQ_YMMu64_MASKmskw_YMMu64_MEMu64_AVX512'' ''a36405db10549c9b8a6dbd5c88ce77cc2'',
    iform ''VPSRLQ_YMMu64_MASKmskw_YMMu64_XMMu64_AVX512'' ''adcf9707dc21c4cde13d61768a8a8dda7'',
    iform ''VPSRLQ_ZMMu64_MASKmskw_MEMu64_IMM8_AVX512'' ''afae52edd43e509159eeda02b6bf2d099'',
    iform ''VPSRLQ_ZMMu64_MASKmskw_ZMMu64_IMM8_AVX512'' ''aab77e9033cd90e5d584123f5f9701dc8'',
    iform ''VPSRLQ_ZMMu64_MASKmskw_ZMMu64_MEMu64_AVX512'' ''a88b6d4c3dafa0970bb4dbcfc7e0b8e02'',
    iform ''VPSRLQ_ZMMu64_MASKmskw_ZMMu64_XMMu64_AVX512'' ''a4a49db2ef4f30f4ba7a1660fee84848a'',
    iform ''VPSRLVD_XMMdq_XMMdq_MEMdq'' ''a03ffe2a7eb94e38edd5366808bad4746'',
    iform ''VPSRLVD_XMMdq_XMMdq_XMMdq'' ''a8ee07691cc4122a449ee4cdc8d066e5c'',
    iform ''VPSRLVD_XMMu32_MASKmskw_XMMu32_MEMu32_AVX512'' ''ac423b1412e0eec09e20070404a68834e'',
    iform ''VPSRLVD_XMMu32_MASKmskw_XMMu32_XMMu32_AVX512'' ''a6199eef03d8a149f7515f6e06daf3a3f'',
    iform ''VPSRLVD_YMMqq_YMMqq_MEMqq'' ''a0f593454bb921a528784ef7df2ccddb4'',
    iform ''VPSRLVD_YMMqq_YMMqq_YMMqq'' ''a9b8e632c7feb8104641ea3ae1a379f04'',
    iform ''VPSRLVD_YMMu32_MASKmskw_YMMu32_MEMu32_AVX512'' ''a266e9fa17267996e6a7b9657b37a5897'',
    iform ''VPSRLVD_YMMu32_MASKmskw_YMMu32_YMMu32_AVX512'' ''a77c38a84993baa412ae1c77af29a96e3'',
    iform ''VPSRLVD_ZMMu32_MASKmskw_ZMMu32_MEMu32_AVX512'' ''a3c038a92fd3c598731fd14d5d49f5051'',
    iform ''VPSRLVD_ZMMu32_MASKmskw_ZMMu32_ZMMu32_AVX512'' ''a7bbb762dad3361c57bf08ca44ab6fd5e'',
    iform ''VPSRLVQ_XMMdq_XMMdq_MEMdq'' ''a903b05398c84efb41729abbab74807f6'',
    iform ''VPSRLVQ_XMMdq_XMMdq_XMMdq'' ''a0347fc31afa5cb7eede45d1ac24acfed'',
    iform ''VPSRLVQ_XMMu64_MASKmskw_XMMu64_MEMu64_AVX512'' ''ae166a395ba4f2b1dfde8fd616bb389fc'',
    iform ''VPSRLVQ_XMMu64_MASKmskw_XMMu64_XMMu64_AVX512'' ''a51b8bfba022cb6d66eee23b5c7a02464'',
    iform ''VPSRLVQ_YMMqq_YMMqq_MEMqq'' ''a6df765398e8d26823f2e845a4117b638'',
    iform ''VPSRLVQ_YMMqq_YMMqq_YMMqq'' ''aba01009b5a6f45a0572c9d0e04201706'',
    iform ''VPSRLVQ_YMMu64_MASKmskw_YMMu64_MEMu64_AVX512'' ''a335b8dbf20b3707c30386d1303a7ee3f'',
    iform ''VPSRLVQ_YMMu64_MASKmskw_YMMu64_YMMu64_AVX512'' ''a3ac98bf633f46ed6d87c7c8189944611'',
    iform ''VPSRLVQ_ZMMu64_MASKmskw_ZMMu64_MEMu64_AVX512'' ''ac1e9e05dbd6da9b70edfe3eed36aaf9e'',
    iform ''VPSRLVQ_ZMMu64_MASKmskw_ZMMu64_ZMMu64_AVX512'' ''a525bacbaad906e9702617a5180f6001a'',
    iform ''VPSRLVW_XMMu16_MASKmskw_XMMu16_MEMu16_AVX512'' ''a6522f7ad2bdfd6009c1e9f9b26560dbd'',
    iform ''VPSRLVW_XMMu16_MASKmskw_XMMu16_XMMu16_AVX512'' ''a9c1896c2560759979e798c5bfcac757f'',
    iform ''VPSRLVW_YMMu16_MASKmskw_YMMu16_MEMu16_AVX512'' ''a5de808d44cdd1d7a01538c722dff4d8d'',
    iform ''VPSRLVW_YMMu16_MASKmskw_YMMu16_YMMu16_AVX512'' ''a3a9bf6d41f26fefa62d2105a9f11c636'',
    iform ''VPSRLVW_ZMMu16_MASKmskw_ZMMu16_MEMu16_AVX512'' ''a02b20be85bcf676b1d9e457b7d30645d'',
    iform ''VPSRLVW_ZMMu16_MASKmskw_ZMMu16_ZMMu16_AVX512'' ''ac89335b3225e3c106e6c3fac60186827'',
    iform ''VPSRLW_XMMdq_XMMdq_IMMb'' ''a270486c6d2b4e74c088cdfc152103eff'',
    iform ''VPSRLW_XMMdq_XMMdq_MEMdq'' ''ab6ba4ee62fff59cceaa4c2d5562723e6'',
    iform ''VPSRLW_XMMdq_XMMdq_XMMdq'' ''a9fcecbd8d03096066862b67bc6a593c4'',
    iform ''VPSRLW_XMMu16_MASKmskw_MEMu16_IMM8_AVX512'' ''a27b388946fe3694d60b52b97cad48cd9'',
    iform ''VPSRLW_XMMu16_MASKmskw_XMMu16_IMM8_AVX512'' ''a95b886f0f2fabfd7c61473c4e8eb36f5'',
    iform ''VPSRLW_XMMu16_MASKmskw_XMMu16_MEMu16_AVX512'' ''a7ce4564118cf00081687de971fdc8df2'',
    iform ''VPSRLW_XMMu16_MASKmskw_XMMu16_XMMu16_AVX512'' ''a08e71dfa4d21a62cca641a001a432139'',
    iform ''VPSRLW_YMMqq_YMMqq_IMMb'' ''a5eccc1155ad8779aae0e76d0d76b2b82'',
    iform ''VPSRLW_YMMqq_YMMqq_MEMdq'' ''a0c1a346f36795882878d804080bd7ae9'',
    iform ''VPSRLW_YMMqq_YMMqq_XMMq'' ''a1f125f866dc4153730e68bd5b14d01c6'',
    iform ''VPSRLW_YMMu16_MASKmskw_MEMu16_IMM8_AVX512'' ''a0e0196e78240a5b0883fa5aee112f7c6'',
    iform ''VPSRLW_YMMu16_MASKmskw_YMMu16_IMM8_AVX512'' ''a26fb66d900d0497c4ac727cb71c729e7'',
    iform ''VPSRLW_YMMu16_MASKmskw_YMMu16_MEMu16_AVX512'' ''a0cdf6771ce3c049fc3f8c4d94d84ed8a'',
    iform ''VPSRLW_YMMu16_MASKmskw_YMMu16_XMMu16_AVX512'' ''a9ded5be256f8244deb5e37d4e982f9e1'',
    iform ''VPSRLW_ZMMu16_MASKmskw_MEMu16_IMM8_AVX512'' ''ac2bbfa291286d8430f7e4ede00c7803b'',
    iform ''VPSRLW_ZMMu16_MASKmskw_ZMMu16_IMM8_AVX512'' ''a2a4404fa82472689606604e1a4d3ca1c'',
    iform ''VPSRLW_ZMMu16_MASKmskw_ZMMu16_MEMu16_AVX512'' ''aee018ed52c63721336458110a00be779'',
    iform ''VPSRLW_ZMMu16_MASKmskw_ZMMu16_XMMu16_AVX512'' ''ac6bf09f3a32dde6b683b2526bd189a84'',
    iform ''VPSUBB_XMMdq_XMMdq_MEMdq'' ''a56824d6dcbbc478a86430fb731a5fc03'',
    iform ''VPSUBB_XMMdq_XMMdq_XMMdq'' ''a9a510139d21242e2bebcc35802ffa290'',
    iform ''VPSUBB_XMMu8_MASKmskw_XMMu8_MEMu8_AVX512'' ''a228564e227deaec65c0b21876fbf2371'',
    iform ''VPSUBB_XMMu8_MASKmskw_XMMu8_XMMu8_AVX512'' ''a48c0650dc6a1e981165ce0aab0c270ed'',
    iform ''VPSUBB_YMMqq_YMMqq_MEMqq'' ''aa63f16c5e51fe4e633815aeb7a6c35fe'',
    iform ''VPSUBB_YMMqq_YMMqq_YMMqq'' ''a661d985389e6f83e57f7e48eef1cb204'',
    iform ''VPSUBB_YMMu8_MASKmskw_YMMu8_MEMu8_AVX512'' ''a862ae6bdc21d75f9eee1d02cfffdae9e'',
    iform ''VPSUBB_YMMu8_MASKmskw_YMMu8_YMMu8_AVX512'' ''a1d122da055dbaae028f2fe6ce9ec39b0'',
    iform ''VPSUBB_ZMMu8_MASKmskw_ZMMu8_MEMu8_AVX512'' ''a838b396b45c95a6e2d2afd374b5a1627'',
    iform ''VPSUBB_ZMMu8_MASKmskw_ZMMu8_ZMMu8_AVX512'' ''a176cf4430c5b8e80b361032703435769'',
    iform ''VPSUBD_XMMdq_XMMdq_MEMdq'' ''a16f57a6a57d79d86d1333bfc3d8ba46d'',
    iform ''VPSUBD_XMMdq_XMMdq_XMMdq'' ''a5e88c3061493da58b2a49960c72183a9'',
    iform ''VPSUBD_XMMu32_MASKmskw_XMMu32_MEMu32_AVX512'' ''a1b4d6339a1d69b072acac4920e03f323'',
    iform ''VPSUBD_XMMu32_MASKmskw_XMMu32_XMMu32_AVX512'' ''a381447f85f6c1de655111a411cd3d12c'',
    iform ''VPSUBD_YMMqq_YMMqq_MEMqq'' ''a78d5d5dbfb2776690b2ca95440a26bbd'',
    iform ''VPSUBD_YMMqq_YMMqq_YMMqq'' ''a289e94d435172769b7b13a3680d0403e'',
    iform ''VPSUBD_YMMu32_MASKmskw_YMMu32_MEMu32_AVX512'' ''a920658728b878c056bcd26806beac165'',
    iform ''VPSUBD_YMMu32_MASKmskw_YMMu32_YMMu32_AVX512'' ''aa22a8702cabfaf27b91cf043b67fab53'',
    iform ''VPSUBD_ZMMu32_MASKmskw_ZMMu32_MEMu32_AVX512'' ''a801e255468978dcad569c1d5b76bf42d'',
    iform ''VPSUBD_ZMMu32_MASKmskw_ZMMu32_ZMMu32_AVX512'' ''ae085d04b0457136ea5f61fd75a0a6871'',
    iform ''VPSUBQ_XMMdq_XMMdq_MEMdq'' ''acc53c105bff2b65d2308634338973090'',
    iform ''VPSUBQ_XMMdq_XMMdq_XMMdq'' ''adbb16340298344a4af3b09b15b6b9b7e'',
    iform ''VPSUBQ_XMMu64_MASKmskw_XMMu64_MEMu64_AVX512'' ''a3269c2ae504eef3719dbc502189c3718'',
    iform ''VPSUBQ_XMMu64_MASKmskw_XMMu64_XMMu64_AVX512'' ''a9ef21a1ea0eccb43ce8b1b356191e1c5'',
    iform ''VPSUBQ_YMMqq_YMMqq_MEMqq'' ''a2ff6cfbb2c3df908994bcd76efa8141e'',
    iform ''VPSUBQ_YMMqq_YMMqq_YMMqq'' ''a95779533fa17579aac20f9bc1574bf0b'',
    iform ''VPSUBQ_YMMu64_MASKmskw_YMMu64_MEMu64_AVX512'' ''a14681d41a42fe02fe40ef478f4296083'',
    iform ''VPSUBQ_YMMu64_MASKmskw_YMMu64_YMMu64_AVX512'' ''ab5d21feddf1a62b4ecc26b8758421816'',
    iform ''VPSUBQ_ZMMu64_MASKmskw_ZMMu64_MEMu64_AVX512'' ''a80de904c3f526cf521d3fa920d98bbb8'',
    iform ''VPSUBQ_ZMMu64_MASKmskw_ZMMu64_ZMMu64_AVX512'' ''a0473d165d0b71eaa5b76a066cd5e2e9f'',
    iform ''VPSUBSB_XMMdq_XMMdq_MEMdq'' ''ade35abfa2b09ad98185275334554dc2a'',
    iform ''VPSUBSB_XMMdq_XMMdq_XMMdq'' ''a7bcbeecf4c1b2554bc14a6acbff4d078'',
    iform ''VPSUBSB_XMMi8_MASKmskw_XMMi8_MEMi8_AVX512'' ''a1beaecb650a3f0bb88368467a352dc26'',
    iform ''VPSUBSB_XMMi8_MASKmskw_XMMi8_XMMi8_AVX512'' ''a957f7abd71d0248eafa814cfa8df8c94'',
    iform ''VPSUBSB_YMMi8_MASKmskw_YMMi8_MEMi8_AVX512'' ''aa2df6f5e99f24430d37952cf0fe249c6'',
    iform ''VPSUBSB_YMMi8_MASKmskw_YMMi8_YMMi8_AVX512'' ''aa491a65720cfe17789566bcebef95b7b'',
    iform ''VPSUBSB_YMMqq_YMMqq_MEMqq'' ''aaf602b90667a30e104ca6a8a80ab7a7a'',
    iform ''VPSUBSB_YMMqq_YMMqq_YMMqq'' ''aaf4cf7e80b832c2ab65c9bc84a0856a9'',
    iform ''VPSUBSB_ZMMi8_MASKmskw_ZMMi8_MEMi8_AVX512'' ''a3e0d8b8706717f8c87f9d5886080896e'',
    iform ''VPSUBSB_ZMMi8_MASKmskw_ZMMi8_ZMMi8_AVX512'' ''a779d0839c720a0204488e5426f0452e4'',
    iform ''VPSUBSW_XMMdq_XMMdq_MEMdq'' ''afe428bf4cf08029dbee0db5ff1d2ec11'']"

lemma xed_iform_enum_8h_values_38_closed: "list_all (closed_node scripts) xed_iform_enum_8h_values_38"
  by (simp only: xed_iform_enum_8h_values_38_def closed_rules iform_closed)

definition xed_iform_enum_8h_values_39 :: "nav_node list" where
  "xed_iform_enum_8h_values_39 = [
    iform ''VPSUBSW_XMMdq_XMMdq_XMMdq'' ''a4a7d7681084311be950bdee59c620f96'',
    iform ''VPSUBSW_XMMi16_MASKmskw_XMMi16_MEMi16_AVX512'' ''a8c193a65fd35b9aad7699691f0f4cf4e'',
    iform ''VPSUBSW_XMMi16_MASKmskw_XMMi16_XMMi16_AVX512'' ''af1d740b0b3f0a196f6f24e771e65bcc5'',
    iform ''VPSUBSW_YMMi16_MASKmskw_YMMi16_MEMi16_AVX512'' ''aac9e748449647a75f55ead0f779b00ee'',
    iform ''VPSUBSW_YMMi16_MASKmskw_YMMi16_YMMi16_AVX512'' ''ae75962c79ca289621c1b13ab72666bfb'',
    iform ''VPSUBSW_YMMqq_YMMqq_MEMqq'' ''a4128c4fd255ff2b49c2921174cf9f91b'',
    iform ''VPSUBSW_YMMqq_YMMqq_YMMqq'' ''aaed8ee8530780b222b80795f1d3baf82'',
    iform ''VPSUBSW_ZMMi16_MASKmskw_ZMMi16_MEMi16_AVX512'' ''afa88ba12d93636b5802f8bf28500233e'',
    iform ''VPSUBSW_ZMMi16_MASKmskw_ZMMi16_ZMMi16_AVX512'' ''ae4059b26cdc7d4d97f5457927b0e8446'',
    iform ''VPSUBUSB_XMMdq_XMMdq_MEMdq'' ''a9fb422ee58cd932255f8792baa28d219'',
    iform ''VPSUBUSB_XMMdq_XMMdq_XMMdq'' ''abdc8ecd3b07c1619ef313304fa0b4f64'',
    iform ''VPSUBUSB_XMMu8_MASKmskw_XMMu8_MEMu8_AVX512'' ''aba1d117ef278c4e1939af3aeccb1685f'',
    iform ''VPSUBUSB_XMMu8_MASKmskw_XMMu8_XMMu8_AVX512'' ''ac0f583b8b2378d0d01375cbf70918ca2'',
    iform ''VPSUBUSB_YMMqq_YMMqq_MEMqq'' ''ab986f622c683270e1d09d096d513f329'',
    iform ''VPSUBUSB_YMMqq_YMMqq_YMMqq'' ''acf0b5cffc4e8b06f6bc632bce45b4cf3'',
    iform ''VPSUBUSB_YMMu8_MASKmskw_YMMu8_MEMu8_AVX512'' ''a4741c2bc4ef359dfdc944e8e18aa5192'',
    iform ''VPSUBUSB_YMMu8_MASKmskw_YMMu8_YMMu8_AVX512'' ''ab8c54bc1de86e905da765cdbced53594'',
    iform ''VPSUBUSB_ZMMu8_MASKmskw_ZMMu8_MEMu8_AVX512'' ''a4fc7f317614924fd7d2c51af3bff2812'',
    iform ''VPSUBUSB_ZMMu8_MASKmskw_ZMMu8_ZMMu8_AVX512'' ''a37baae7e7df8b2dfa45102c3911cd4ef'',
    iform ''VPSUBUSW_XMMdq_XMMdq_MEMdq'' ''a62f7bbcb7035f21599699adbfc9671ac'',
    iform ''VPSUBUSW_XMMdq_XMMdq_XMMdq'' ''ae2fcbe48724fe5ef65d81c9d9cf868f6'',
    iform ''VPSUBUSW_XMMu16_MASKmskw_XMMu16_MEMu16_AVX512'' ''a96f5d009f608bf4f1dbf3dbe156a497b'',
    iform ''VPSUBUSW_XMMu16_MASKmskw_XMMu16_XMMu16_AVX512'' ''a0a787aae949f8b2791236d9e6602c2f3'',
    iform ''VPSUBUSW_YMMqq_YMMqq_MEMqq'' ''a85afd7193aad8b0ba24b35de6584ca43'',
    iform ''VPSUBUSW_YMMqq_YMMqq_YMMqq'' ''a8b6ea0b0903630bc71f25bf554f181e5'',
    iform ''VPSUBUSW_YMMu16_MASKmskw_YMMu16_MEMu16_AVX512'' ''a71f6405a9d19719528c0c13bf8e9dfe7'',
    iform ''VPSUBUSW_YMMu16_MASKmskw_YMMu16_YMMu16_AVX512'' ''a5742afe3125be810cc39419e655974de'',
    iform ''VPSUBUSW_ZMMu16_MASKmskw_ZMMu16_MEMu16_AVX512'' ''ab81899685ffd7be99d4a6614c77e8760'',
    iform ''VPSUBUSW_ZMMu16_MASKmskw_ZMMu16_ZMMu16_AVX512'' ''a0c83e22b5bbc51af0b68e5061da5c62a'',
    iform ''VPSUBW_XMMdq_XMMdq_MEMdq'' ''afe82afabffba42ec1d8659ab09e23e41'',
    iform ''VPSUBW_XMMdq_XMMdq_XMMdq'' ''a6618799305e25f1bb88f89f8a369417e'',
    iform ''VPSUBW_XMMu16_MASKmskw_XMMu16_MEMu16_AVX512'' ''a09e3a3a3d95f5153e9d599fef1481e53'',
    iform ''VPSUBW_XMMu16_MASKmskw_XMMu16_XMMu16_AVX512'' ''a69a8e945b134b0f9e60909c52ad8cda0'',
    iform ''VPSUBW_YMMqq_YMMqq_MEMqq'' ''a77c6f7e59e77fdaffe77644ff5ddd76a'',
    iform ''VPSUBW_YMMqq_YMMqq_YMMqq'' ''aa719bbcdcc9e241e560b2e2326f9f3e1'',
    iform ''VPSUBW_YMMu16_MASKmskw_YMMu16_MEMu16_AVX512'' ''a9451d4450060c4887ae052043d8f163d'',
    iform ''VPSUBW_YMMu16_MASKmskw_YMMu16_YMMu16_AVX512'' ''aeaba6a63128add7bf08c9d1c56cf4994'',
    iform ''VPSUBW_ZMMu16_MASKmskw_ZMMu16_MEMu16_AVX512'' ''abac771660d2653754ac7ba86f783ae66'',
    iform ''VPSUBW_ZMMu16_MASKmskw_ZMMu16_ZMMu16_AVX512'' ''a3cfd9d95e12aacf25cc44e577eacfacc'',
    iform ''VPTERNLOGD_XMMu32_MASKmskw_XMMu32_MEMu32_IMM8_AVX512'' ''ab3bd1fc14cfc3b1c821d46ea7f21f2be'',
    iform ''VPTERNLOGD_XMMu32_MASKmskw_XMMu32_XMMu32_IMM8_AVX512'' ''a145a213f4a0e031c6f05b48314d974ec'',
    iform ''VPTERNLOGD_YMMu32_MASKmskw_YMMu32_MEMu32_IMM8_AVX512'' ''a0bddac93dfed0d54b3d10c3eb9f5ff8f'',
    iform ''VPTERNLOGD_YMMu32_MASKmskw_YMMu32_YMMu32_IMM8_AVX512'' ''aca83f7b1f0e097c85f996df6b019a444'',
    iform ''VPTERNLOGD_ZMMu32_MASKmskw_ZMMu32_MEMu32_IMM8_AVX512'' ''ae5978ebb70101f87954575207ab2d04d'',
    iform ''VPTERNLOGD_ZMMu32_MASKmskw_ZMMu32_ZMMu32_IMM8_AVX512'' ''ae9d38a23b1191b7c118afdd69454eb84'',
    iform ''VPTERNLOGQ_XMMu64_MASKmskw_XMMu64_MEMu64_IMM8_AVX512'' ''a1e9c69d1369afc01564a668b1f34fa42'',
    iform ''VPTERNLOGQ_XMMu64_MASKmskw_XMMu64_XMMu64_IMM8_AVX512'' ''a3a06091be0a3837b4c2e3a4dd721e6a4'',
    iform ''VPTERNLOGQ_YMMu64_MASKmskw_YMMu64_MEMu64_IMM8_AVX512'' ''a5b929af6c07297ebe8ea09e8fd6c9a20'',
    iform ''VPTERNLOGQ_YMMu64_MASKmskw_YMMu64_YMMu64_IMM8_AVX512'' ''ae03eb0f9fdd1e0ddf0ba0cc2f5338a89'',
    iform ''VPTERNLOGQ_ZMMu64_MASKmskw_ZMMu64_MEMu64_IMM8_AVX512'' ''a3a794a3e9df7c63be70a679ca9deb0bb'',
    iform ''VPTERNLOGQ_ZMMu64_MASKmskw_ZMMu64_ZMMu64_IMM8_AVX512'' ''aa43e6f5a3f5fcf0714c043e21e8c6646'',
    iform ''VPTEST_XMMdq_MEMdq'' ''ae64341029183274f2f4ef9c79b2e1451'',
    iform ''VPTEST_XMMdq_XMMdq'' ''aabf1867d7290a7449c53735dff5940d8'',
    iform ''VPTEST_YMMqq_MEMqq'' ''ab675704eace508d35672a65d0a55fa32'',
    iform ''VPTEST_YMMqq_YMMqq'' ''a9fae7ba39cefabcfd68c00989df59497'',
    iform ''VPTESTMB_MASKmskw_MASKmskw_XMMu8_MEMu8_AVX512'' ''a89121a1bc822af60bf97de747834be1c'',
    iform ''VPTESTMB_MASKmskw_MASKmskw_XMMu8_XMMu8_AVX512'' ''a635c272b3e8945963f2e4133e5c8ee21'',
    iform ''VPTESTMB_MASKmskw_MASKmskw_YMMu8_MEMu8_AVX512'' ''ae8355cb6499532fad6f8b0108396e389'',
    iform ''VPTESTMB_MASKmskw_MASKmskw_YMMu8_YMMu8_AVX512'' ''a0e707a5ceba6764fdced4e96251cbc12'',
    iform ''VPTESTMB_MASKmskw_MASKmskw_ZMMu8_MEMu8_AVX512'' ''a7454f359b2c4d8fa5cf5aedc30a203a9'',
    iform ''VPTESTMB_MASKmskw_MASKmskw_ZMMu8_ZMMu8_AVX512'' ''ab839001877746108cd7bafdb7fc2479e'',
    iform ''VPTESTMD_MASKmskw_MASKmskw_XMMu32_MEMu32_AVX512'' ''a22e9e146aff2553123713acf8c61a772'',
    iform ''VPTESTMD_MASKmskw_MASKmskw_XMMu32_XMMu32_AVX512'' ''af99544e43e3977b808c602aa16967b80'',
    iform ''VPTESTMD_MASKmskw_MASKmskw_YMMu32_MEMu32_AVX512'' ''aade2b2f8f9d9125c9b982b44fed3fbc0'',
    iform ''VPTESTMD_MASKmskw_MASKmskw_YMMu32_YMMu32_AVX512'' ''a2c8c1d724321b8a715c1c1205bf7daf1'',
    iform ''VPTESTMD_MASKmskw_MASKmskw_ZMMu32_MEMu32_AVX512'' ''a48c3e817b3a44b568e3ab5b6e857fed8'',
    iform ''VPTESTMD_MASKmskw_MASKmskw_ZMMu32_ZMMu32_AVX512'' ''a8bd6fe1a0cec6d9d96bb5b3696dd72eb'',
    iform ''VPTESTMQ_MASKmskw_MASKmskw_XMMu64_MEMu64_AVX512'' ''a4f515655516bdde29be04fa5e9cb710f'',
    iform ''VPTESTMQ_MASKmskw_MASKmskw_XMMu64_XMMu64_AVX512'' ''a4134dc268d1193931374c0dcc9951027'',
    iform ''VPTESTMQ_MASKmskw_MASKmskw_YMMu64_MEMu64_AVX512'' ''a9b02354ef307ae4b67309483df9db569'',
    iform ''VPTESTMQ_MASKmskw_MASKmskw_YMMu64_YMMu64_AVX512'' ''a528faa0d4118750ad22a4cdca85e2118'',
    iform ''VPTESTMQ_MASKmskw_MASKmskw_ZMMu64_MEMu64_AVX512'' ''a81d870481bc73ed76fda8d64ece3b827'',
    iform ''VPTESTMQ_MASKmskw_MASKmskw_ZMMu64_ZMMu64_AVX512'' ''a27746a9ba8277e679e7df5d5e883b448'',
    iform ''VPTESTMW_MASKmskw_MASKmskw_XMMu16_MEMu16_AVX512'' ''ad5b1250aee72d8f1a34f59f3fccbdf20'',
    iform ''VPTESTMW_MASKmskw_MASKmskw_XMMu16_XMMu16_AVX512'' ''a2d2f1c8165a22c73f8943f7b93976a91'',
    iform ''VPTESTMW_MASKmskw_MASKmskw_YMMu16_MEMu16_AVX512'' ''a6ce8831c2594cfd6b1550b5df31401fa'',
    iform ''VPTESTMW_MASKmskw_MASKmskw_YMMu16_YMMu16_AVX512'' ''a7d3fd36d2247b36733eff9473ec75614'',
    iform ''VPTESTMW_MASKmskw_MASKmskw_ZMMu16_MEMu16_AVX512'' ''a2baa3312dbdc1e184355c0904f4b9138'',
    iform ''VPTESTMW_MASKmskw_MASKmskw_ZMMu16_ZMMu16_AVX512'' ''ada52e9b069149171a030f09983e29c78'',
    iform ''VPTESTNMB_MASKmskw_MASKmskw_XMMu8_MEMu8_AVX512'' ''aa21a663b41fbd04b009937bfda39bb4c'',
    iform ''VPTESTNMB_MASKmskw_MASKmskw_XMMu8_XMMu8_AVX512'' ''a7f68b86192a04631dca709d75544a772'',
    iform ''VPTESTNMB_MASKmskw_MASKmskw_YMMu8_MEMu8_AVX512'' ''a135a5d2b75d5903ba1ac42872b9e52f5'',
    iform ''VPTESTNMB_MASKmskw_MASKmskw_YMMu8_YMMu8_AVX512'' ''a7b4fe2b0303c07c4acd69a7377cdf6ee'',
    iform ''VPTESTNMB_MASKmskw_MASKmskw_ZMMu8_MEMu8_AVX512'' ''aed2a1bff21ae8299635380f7d1afe9df'',
    iform ''VPTESTNMB_MASKmskw_MASKmskw_ZMMu8_ZMMu8_AVX512'' ''a5cd02b5c3f4c0f446f3e78dbff301f39'',
    iform ''VPTESTNMD_MASKmskw_MASKmskw_XMMu32_MEMu32_AVX512'' ''aee08c91df8fc49ed50b057c9fa1cb83a'',
    iform ''VPTESTNMD_MASKmskw_MASKmskw_XMMu32_XMMu32_AVX512'' ''a2cd6d9f73c30d43d430f4d7c74a05ec4'',
    iform ''VPTESTNMD_MASKmskw_MASKmskw_YMMu32_MEMu32_AVX512'' ''a6fc6e27f6f5a47bae965167339b7939b'',
    iform ''VPTESTNMD_MASKmskw_MASKmskw_YMMu32_YMMu32_AVX512'' ''a6ae525ee1c3293b9c0425216dc13bc3d'',
    iform ''VPTESTNMD_MASKmskw_MASKmskw_ZMMu32_MEMu32_AVX512'' ''a35463c4bfb967f648bd3c1e377992f49'',
    iform ''VPTESTNMD_MASKmskw_MASKmskw_ZMMu32_ZMMu32_AVX512'' ''a82fac46adb1a853c3363b571a7b7aacb'',
    iform ''VPTESTNMQ_MASKmskw_MASKmskw_XMMu64_MEMu64_AVX512'' ''ac8c0d5850bc8b5bf4cb73efa5a65033d'',
    iform ''VPTESTNMQ_MASKmskw_MASKmskw_XMMu64_XMMu64_AVX512'' ''a56c1d9cf9757b1a04f6204e4fa85f4f6'',
    iform ''VPTESTNMQ_MASKmskw_MASKmskw_YMMu64_MEMu64_AVX512'' ''a055a7316f8967c7642dd3e55eedb1c1a'',
    iform ''VPTESTNMQ_MASKmskw_MASKmskw_YMMu64_YMMu64_AVX512'' ''a4f93b6251e7f21407ee98dbcb3851320'',
    iform ''VPTESTNMQ_MASKmskw_MASKmskw_ZMMu64_MEMu64_AVX512'' ''ac3b17c3bdc0eb890944c040cc85ff6a6'',
    iform ''VPTESTNMQ_MASKmskw_MASKmskw_ZMMu64_ZMMu64_AVX512'' ''a733033bfaf4e334e576060be6024e1af'',
    iform ''VPTESTNMW_MASKmskw_MASKmskw_XMMu16_MEMu16_AVX512'' ''ab26a40de52305079247889341e918623'',
    iform ''VPTESTNMW_MASKmskw_MASKmskw_XMMu16_XMMu16_AVX512'' ''ac9adb3d230db7412712fc3f311407ed3'',
    iform ''VPTESTNMW_MASKmskw_MASKmskw_YMMu16_MEMu16_AVX512'' ''a079de1afbb7c4850c781fb8d61b00272'',
    iform ''VPTESTNMW_MASKmskw_MASKmskw_YMMu16_YMMu16_AVX512'' ''a8474f5fd69faff436f3d2c461952eb22'',
    iform ''VPTESTNMW_MASKmskw_MASKmskw_ZMMu16_MEMu16_AVX512'' ''a4cef2e38d61a43545b5f865d907b4a17'',
    iform ''VPTESTNMW_MASKmskw_MASKmskw_ZMMu16_ZMMu16_AVX512'' ''af8574edae74e34126289d95bb55cf4bd'',
    iform ''VPUNPCKHBW_XMMdq_XMMdq_MEMdq'' ''a3276a48417002a669fae090140736850'',
    iform ''VPUNPCKHBW_XMMdq_XMMdq_XMMdq'' ''abda15cbbc1a25b9128c39bfcf0331dac'',
    iform ''VPUNPCKHBW_XMMu8_MASKmskw_XMMu8_MEMu8_AVX512'' ''a3775695fcf978f0dd006e0ad3fff2187'',
    iform ''VPUNPCKHBW_XMMu8_MASKmskw_XMMu8_XMMu8_AVX512'' ''a3f011e05556df59779629c9a190becda'',
    iform ''VPUNPCKHBW_YMMqq_YMMqq_MEMqq'' ''a417895c9dc9371104cccad56228fcb9e'',
    iform ''VPUNPCKHBW_YMMqq_YMMqq_YMMqq'' ''ad11fa4fcc79e47a68a5e46ccc4872f87'',
    iform ''VPUNPCKHBW_YMMu8_MASKmskw_YMMu8_MEMu8_AVX512'' ''ac9395910db5c959578a95b39fe3b0d44'',
    iform ''VPUNPCKHBW_YMMu8_MASKmskw_YMMu8_YMMu8_AVX512'' ''ab3446bbc00ad8dfc7506692c62b74a56'',
    iform ''VPUNPCKHBW_ZMMu8_MASKmskw_ZMMu8_MEMu8_AVX512'' ''a5d6c17f42a2f80f2c12d3d9bc7470f77'',
    iform ''VPUNPCKHBW_ZMMu8_MASKmskw_ZMMu8_ZMMu8_AVX512'' ''a949ec1b0b3b73f36b2a240dbca3e99a8'',
    iform ''VPUNPCKHDQ_XMMdq_XMMdq_MEMdq'' ''aa1f97e94d6cfb1c3a97defc38f6fd627'',
    iform ''VPUNPCKHDQ_XMMdq_XMMdq_XMMdq'' ''ab3d76169013ce8be50bb3694055d3b99'',
    iform ''VPUNPCKHDQ_XMMu32_MASKmskw_XMMu32_MEMu32_AVX512'' ''a7c93e1f066491b8de231f9189d1c7c7b'',
    iform ''VPUNPCKHDQ_XMMu32_MASKmskw_XMMu32_XMMu32_AVX512'' ''a89cf0badded0206a605d024d2989556b'',
    iform ''VPUNPCKHDQ_YMMqq_YMMqq_MEMqq'' ''a2e32f04790264cf85cab743086654651'',
    iform ''VPUNPCKHDQ_YMMqq_YMMqq_YMMqq'' ''a42e0fa0f2f54e53ce73bc89b29bc25f1'',
    iform ''VPUNPCKHDQ_YMMu32_MASKmskw_YMMu32_MEMu32_AVX512'' ''a03e4bb94133346693744b35e2fca3539'',
    iform ''VPUNPCKHDQ_YMMu32_MASKmskw_YMMu32_YMMu32_AVX512'' ''a7b73d311cdbb0a4ff38f65baf98f2335'',
    iform ''VPUNPCKHDQ_ZMMu32_MASKmskw_ZMMu32_MEMu32_AVX512'' ''a993e988fc0c0dc6bdd32902255ce687b'',
    iform ''VPUNPCKHDQ_ZMMu32_MASKmskw_ZMMu32_ZMMu32_AVX512'' ''acb651ad661bd20864ffad28812224e3e'',
    iform ''VPUNPCKHQDQ_XMMdq_XMMdq_MEMdq'' ''a0903d9457cd38defcc49e0b041ef8a74'',
    iform ''VPUNPCKHQDQ_XMMdq_XMMdq_XMMdq'' ''aa08d2bace92430df940bdda0bd0ceceb'',
    iform ''VPUNPCKHQDQ_XMMu64_MASKmskw_XMMu64_MEMu64_AVX512'' ''af93f1b35fdf41ab5ebf06e606b36dcda'',
    iform ''VPUNPCKHQDQ_XMMu64_MASKmskw_XMMu64_XMMu64_AVX512'' ''ae1704a6e3faf6ecbd968616263f2d6b7'',
    iform ''VPUNPCKHQDQ_YMMqq_YMMqq_MEMqq'' ''ae290d14935041ba2447a151f30104ad9'',
    iform ''VPUNPCKHQDQ_YMMqq_YMMqq_YMMqq'' ''acdd8437bc193aefcb691f8a9f9ee88e2'',
    iform ''VPUNPCKHQDQ_YMMu64_MASKmskw_YMMu64_MEMu64_AVX512'' ''a96e2660e951faf2c879b88f618f80c76'',
    iform ''VPUNPCKHQDQ_YMMu64_MASKmskw_YMMu64_YMMu64_AVX512'' ''a6d1632c5b46b21d197eb0d55b4d45706'',
    iform ''VPUNPCKHQDQ_ZMMu64_MASKmskw_ZMMu64_MEMu64_AVX512'' ''ad3f4db73f44b13bd09d184e2a05d0162'',
    iform ''VPUNPCKHQDQ_ZMMu64_MASKmskw_ZMMu64_ZMMu64_AVX512'' ''a605a65cdeabfe94628f24b1b9cd685b9'',
    iform ''VPUNPCKHWD_XMMdq_XMMdq_MEMdq'' ''a42bd58b2203ee317f6296819f91b34b8'',
    iform ''VPUNPCKHWD_XMMdq_XMMdq_XMMdq'' ''af7777d7f08c00a1d8c4355a42fdbaf09'',
    iform ''VPUNPCKHWD_XMMu16_MASKmskw_XMMu16_MEMu16_AVX512'' ''a6be31de1d5c743ab3eee2739142279e4'',
    iform ''VPUNPCKHWD_XMMu16_MASKmskw_XMMu16_XMMu16_AVX512'' ''a01a59193600e19295bc344328b4b0e77'',
    iform ''VPUNPCKHWD_YMMqq_YMMqq_MEMqq'' ''a8cca69aa25000a3ee114e79bb282934f'',
    iform ''VPUNPCKHWD_YMMqq_YMMqq_YMMqq'' ''a0aca92352e438f823ae3a15f717af3d1'',
    iform ''VPUNPCKHWD_YMMu16_MASKmskw_YMMu16_MEMu16_AVX512'' ''a017205a6b51479118448e1f6aaf514aa'']"

lemma xed_iform_enum_8h_values_39_closed: "list_all (closed_node scripts) xed_iform_enum_8h_values_39"
  by (simp only: xed_iform_enum_8h_values_39_def closed_rules iform_closed)

definition xed_iform_enum_8h_values_40 :: "nav_node list" where
  "xed_iform_enum_8h_values_40 = [
    iform ''VPUNPCKHWD_YMMu16_MASKmskw_YMMu16_YMMu16_AVX512'' ''ae650f1c5aa59b13951b2d26372e229f2'',
    iform ''VPUNPCKHWD_ZMMu16_MASKmskw_ZMMu16_MEMu16_AVX512'' ''a437da5494ffb57354df46d314b004888'',
    iform ''VPUNPCKHWD_ZMMu16_MASKmskw_ZMMu16_ZMMu16_AVX512'' ''a776d50d54d58e98cc6116dea0ea17591'',
    iform ''VPUNPCKLBW_XMMdq_XMMdq_MEMdq'' ''a7b1dc0a62ed669b14217d70bf632201e'',
    iform ''VPUNPCKLBW_XMMdq_XMMdq_XMMdq'' ''a727484401e6e894edb470c1790117a5b'',
    iform ''VPUNPCKLBW_XMMu8_MASKmskw_XMMu8_MEMu8_AVX512'' ''a7986fb5dbebd42d109324fca920328f2'',
    iform ''VPUNPCKLBW_XMMu8_MASKmskw_XMMu8_XMMu8_AVX512'' ''a809744c6ef603dc937158f2bdb14f80d'',
    iform ''VPUNPCKLBW_YMMqq_YMMqq_MEMqq'' ''a4ed966e0d957807c215922bec0b2d4f5'',
    iform ''VPUNPCKLBW_YMMqq_YMMqq_YMMqq'' ''a2c336bb528079234bb97a9d4947330cd'',
    iform ''VPUNPCKLBW_YMMu8_MASKmskw_YMMu8_MEMu8_AVX512'' ''a9edf5c7aac8d7f07519baef29102d696'',
    iform ''VPUNPCKLBW_YMMu8_MASKmskw_YMMu8_YMMu8_AVX512'' ''a7caf37b5c1719007247a4c2fa8278158'',
    iform ''VPUNPCKLBW_ZMMu8_MASKmskw_ZMMu8_MEMu8_AVX512'' ''a061cd6175c4f5971de078a4ae1e18884'',
    iform ''VPUNPCKLBW_ZMMu8_MASKmskw_ZMMu8_ZMMu8_AVX512'' ''aa5cdb80a2285104c41d75bc6b60db90c'',
    iform ''VPUNPCKLDQ_XMMdq_XMMdq_MEMdq'' ''a8053cfd20c5b81763b9d7a684644d10e'',
    iform ''VPUNPCKLDQ_XMMdq_XMMdq_XMMdq'' ''a9590841b4e873f19f1253187b1147d7c'',
    iform ''VPUNPCKLDQ_XMMu32_MASKmskw_XMMu32_MEMu32_AVX512'' ''adddb2b05f0821286515b8dc89dd5e644'',
    iform ''VPUNPCKLDQ_XMMu32_MASKmskw_XMMu32_XMMu32_AVX512'' ''af27d2738a374ca648bfac57e302766f9'',
    iform ''VPUNPCKLDQ_YMMqq_YMMqq_MEMqq'' ''ae1c56204bf498c9c240351c18b2507b0'',
    iform ''VPUNPCKLDQ_YMMqq_YMMqq_YMMqq'' ''a7dfcbf34d2c1e64e2a645b195a6d9509'',
    iform ''VPUNPCKLDQ_YMMu32_MASKmskw_YMMu32_MEMu32_AVX512'' ''af73c34d147433a8ee51acc0702adf693'',
    iform ''VPUNPCKLDQ_YMMu32_MASKmskw_YMMu32_YMMu32_AVX512'' ''a8fbb827b6ba57c5653db23e264baf168'',
    iform ''VPUNPCKLDQ_ZMMu32_MASKmskw_ZMMu32_MEMu32_AVX512'' ''aad7fa2069e21fe80dd8138d5322fb423'',
    iform ''VPUNPCKLDQ_ZMMu32_MASKmskw_ZMMu32_ZMMu32_AVX512'' ''a869f975445526cdd18ec2ec3b94b8dc4'',
    iform ''VPUNPCKLQDQ_XMMdq_XMMdq_MEMdq'' ''a7a4ce9ffc2320287aa2e0b115d740242'',
    iform ''VPUNPCKLQDQ_XMMdq_XMMdq_XMMdq'' ''a92fde08605089cec76d9afca154ca97d'',
    iform ''VPUNPCKLQDQ_XMMu64_MASKmskw_XMMu64_MEMu64_AVX512'' ''af7fe605b474d3a8eda7242a809c54a01'',
    iform ''VPUNPCKLQDQ_XMMu64_MASKmskw_XMMu64_XMMu64_AVX512'' ''acfd3b785c77f4fe60c41d358268a68d7'',
    iform ''VPUNPCKLQDQ_YMMqq_YMMqq_MEMqq'' ''a53eddf18fd71b0625b0b070637a14736'',
    iform ''VPUNPCKLQDQ_YMMqq_YMMqq_YMMqq'' ''abb75a1614d03a4d040c42e8da3fdbaaf'',
    iform ''VPUNPCKLQDQ_YMMu64_MASKmskw_YMMu64_MEMu64_AVX512'' ''a82744904618013b9e09bf79867e537b3'',
    iform ''VPUNPCKLQDQ_YMMu64_MASKmskw_YMMu64_YMMu64_AVX512'' ''a3c895b0e85728feddfa96fb5492f1734'',
    iform ''VPUNPCKLQDQ_ZMMu64_MASKmskw_ZMMu64_MEMu64_AVX512'' ''ae1e0a5e2e29d2b43f5d735ed1019872e'',
    iform ''VPUNPCKLQDQ_ZMMu64_MASKmskw_ZMMu64_ZMMu64_AVX512'' ''afa73f6c3f5b66c06c776e75b01b084d4'',
    iform ''VPUNPCKLWD_XMMdq_XMMdq_MEMdq'' ''a2f6dee5002251bea53c77d164ec705db'',
    iform ''VPUNPCKLWD_XMMdq_XMMdq_XMMdq'' ''a1ac985c15703b87cae086ba4828573d3'',
    iform ''VPUNPCKLWD_XMMu16_MASKmskw_XMMu16_MEMu16_AVX512'' ''aca1380a1247f245b4c69a1a626ae75d3'',
    iform ''VPUNPCKLWD_XMMu16_MASKmskw_XMMu16_XMMu16_AVX512'' ''a626b1046e0a2964075c39e4866c2baa5'',
    iform ''VPUNPCKLWD_YMMqq_YMMqq_MEMqq'' ''a9b2326a54f4c62bd12eb6c9affa7bd6c'',
    iform ''VPUNPCKLWD_YMMqq_YMMqq_YMMqq'' ''a88589d86e024b4f2ef745f7517431493'',
    iform ''VPUNPCKLWD_YMMu16_MASKmskw_YMMu16_MEMu16_AVX512'' ''ab19e6f9a914bf98bfb9fc9bf9633f82b'',
    iform ''VPUNPCKLWD_YMMu16_MASKmskw_YMMu16_YMMu16_AVX512'' ''a08e039d84fb2042d507f1a9cacc7a403'',
    iform ''VPUNPCKLWD_ZMMu16_MASKmskw_ZMMu16_MEMu16_AVX512'' ''ac9aa1ea38ab4b0c3f00abe5a4e1a74d0'',
    iform ''VPUNPCKLWD_ZMMu16_MASKmskw_ZMMu16_ZMMu16_AVX512'' ''a08c2a3a9cb55dbc3f10e3c6ad8b664bb'',
    iform ''VPXOR_XMMdq_XMMdq_MEMdq'' ''aba82dddd85da4447f5b64f52d05930fe'',
    iform ''VPXOR_XMMdq_XMMdq_XMMdq'' ''a3694df5c7f1aa1eef0a17d60546d842e'',
    iform ''VPXOR_YMMqq_YMMqq_MEMqq'' ''a6dc349ca8b11c4f3189fe4a6aed22846'',
    iform ''VPXOR_YMMqq_YMMqq_YMMqq'' ''ae6166b955d3247c2bad01c2667cd366c'',
    iform ''VPXORD_XMMu32_MASKmskw_XMMu32_MEMu32_AVX512'' ''a073ffd10ca3b4d81810bfd8fe0c9dce4'',
    iform ''VPXORD_XMMu32_MASKmskw_XMMu32_XMMu32_AVX512'' ''a2839d196157e6a467bdee4540bc51411'',
    iform ''VPXORD_YMMu32_MASKmskw_YMMu32_MEMu32_AVX512'' ''aeedaf40797dbf8478f0a5671f4279c0b'',
    iform ''VPXORD_YMMu32_MASKmskw_YMMu32_YMMu32_AVX512'' ''ad4465fad41436883b80c2713d46a8434'',
    iform ''VPXORD_ZMMu32_MASKmskw_ZMMu32_MEMu32_AVX512'' ''af96f129d915b16eb5e88c298a2a83596'',
    iform ''VPXORD_ZMMu32_MASKmskw_ZMMu32_ZMMu32_AVX512'' ''a773a3d3e3d967ff5d8d7ca027e910f7e'',
    iform ''VPXORQ_XMMu64_MASKmskw_XMMu64_MEMu64_AVX512'' ''a9791584d45cf3641a1b3ba6373131ece'',
    iform ''VPXORQ_XMMu64_MASKmskw_XMMu64_XMMu64_AVX512'' ''ac17f85541ff67e98e26d12bb6342ff58'',
    iform ''VPXORQ_YMMu64_MASKmskw_YMMu64_MEMu64_AVX512'' ''a0c30bb73bb6434b5c7edd6a7d479d226'',
    iform ''VPXORQ_YMMu64_MASKmskw_YMMu64_YMMu64_AVX512'' ''af521a27bbd988be3a6f8623dafd546c0'',
    iform ''VPXORQ_ZMMu64_MASKmskw_ZMMu64_MEMu64_AVX512'' ''a6ab6462ea8ccfdeb9ba8fc97df6b2cf8'',
    iform ''VPXORQ_ZMMu64_MASKmskw_ZMMu64_ZMMu64_AVX512'' ''a9c98f9300e61b853b4ec6e5f38987062'',
    iform ''VRANGEPD_XMMf64_MASKmskw_XMMf64_MEMf64_IMM8_AVX512'' ''a673e23cb60d391eab8c1ec666b3dc2fd'',
    iform ''VRANGEPD_XMMf64_MASKmskw_XMMf64_XMMf64_IMM8_AVX512'' ''a8a7d606bfb83b32095dff502587a13be'',
    iform ''VRANGEPD_YMMf64_MASKmskw_YMMf64_MEMf64_IMM8_AVX512'' ''ac078dc1a222c5860004cce56b1ab6704'',
    iform ''VRANGEPD_YMMf64_MASKmskw_YMMf64_YMMf64_IMM8_AVX512'' ''a76a25ec190ab3eeecbf7dca78ffb03b8'',
    iform ''VRANGEPD_ZMMf64_MASKmskw_ZMMf64_MEMf64_IMM8_AVX512'' ''a69affd11c71d589c3718698d3b6847fc'',
    iform ''VRANGEPD_ZMMf64_MASKmskw_ZMMf64_ZMMf64_IMM8_AVX512'' ''a6fd337b433504050ad4959ab0e264514'',
    iform ''VRANGEPS_XMMf32_MASKmskw_XMMf32_MEMf32_IMM8_AVX512'' ''a36d76d9ad35b4bf0a7caeb460e83053b'',
    iform ''VRANGEPS_XMMf32_MASKmskw_XMMf32_XMMf32_IMM8_AVX512'' ''aeb35adbcdd44dbefd3ae0743acb74439'',
    iform ''VRANGEPS_YMMf32_MASKmskw_YMMf32_MEMf32_IMM8_AVX512'' ''a3f1103b43905af4c6adfedac6ed627fe'',
    iform ''VRANGEPS_YMMf32_MASKmskw_YMMf32_YMMf32_IMM8_AVX512'' ''a67878fd7a8f4893dc41d6519358a277d'',
    iform ''VRANGEPS_ZMMf32_MASKmskw_ZMMf32_MEMf32_IMM8_AVX512'' ''a869f700347719a8c0f49b22a0a0e3875'',
    iform ''VRANGEPS_ZMMf32_MASKmskw_ZMMf32_ZMMf32_IMM8_AVX512'' ''a3b163d8332551cdc3c6f1a6c0ce5ac15'',
    iform ''VRANGESD_XMMf64_MASKmskw_XMMf64_MEMf64_IMM8_AVX512'' ''acf7ff5fb868d8a9f0d71e4b15fd0d112'',
    iform ''VRANGESD_XMMf64_MASKmskw_XMMf64_XMMf64_IMM8_AVX512'' ''a36bcf7d4f87a62d0b1294db86b5ae87d'',
    iform ''VRANGESS_XMMf32_MASKmskw_XMMf32_MEMf32_IMM8_AVX512'' ''acb95f0896c63d92a4626309f71f249cf'',
    iform ''VRANGESS_XMMf32_MASKmskw_XMMf32_XMMf32_IMM8_AVX512'' ''a7fd8d2ea7df8fe2dcaa8fd652cf1e07f'',
    iform ''VRCP14PD_XMMf64_MASKmskw_MEMf64_AVX512'' ''a5b5e0008363bff9e21ba5f59e1572caf'',
    iform ''VRCP14PD_XMMf64_MASKmskw_XMMf64_AVX512'' ''a29752b48cda3b8dcb21a6a61fe667acd'',
    iform ''VRCP14PD_YMMf64_MASKmskw_MEMf64_AVX512'' ''a2e50519f0394eaada52fdd4d2531a626'',
    iform ''VRCP14PD_YMMf64_MASKmskw_YMMf64_AVX512'' ''aac7ffeb91922156bcd83befbf4a1ad8a'',
    iform ''VRCP14PD_ZMMf64_MASKmskw_MEMf64_AVX512'' ''ab360081a049a5e931192a8b938f07c29'',
    iform ''VRCP14PD_ZMMf64_MASKmskw_ZMMf64_AVX512'' ''a12a40206e4886eddf9848c5ab109b6f0'',
    iform ''VRCP14PS_XMMf32_MASKmskw_MEMf32_AVX512'' ''aacbfaf2d3cd2874b7d019fda1ec5ba1d'',
    iform ''VRCP14PS_XMMf32_MASKmskw_XMMf32_AVX512'' ''aa160d8dc0d86c2a9736c5981a39c6a06'',
    iform ''VRCP14PS_YMMf32_MASKmskw_MEMf32_AVX512'' ''aa01d36ab6e315d86d4942aa60d3ff191'',
    iform ''VRCP14PS_YMMf32_MASKmskw_YMMf32_AVX512'' ''a40045d69a77a29541b82131d4e77ba88'',
    iform ''VRCP14PS_ZMMf32_MASKmskw_MEMf32_AVX512'' ''aa2869ebb7650eb26c0ecd861bb64baf5'',
    iform ''VRCP14PS_ZMMf32_MASKmskw_ZMMf32_AVX512'' ''a7e487c5059e142f473936f67a7788010'',
    iform ''VRCP14SD_XMMf64_MASKmskw_XMMf64_MEMf64_AVX512'' ''acd014ae508ed752dc30739cbfdec9e4b'',
    iform ''VRCP14SD_XMMf64_MASKmskw_XMMf64_XMMf64_AVX512'' ''a096854855e050553eadd749490c87ec0'',
    iform ''VRCP14SS_XMMf32_MASKmskw_XMMf32_MEMf32_AVX512'' ''a346abc9982d7346533dce6fbe396d0bf'',
    iform ''VRCP14SS_XMMf32_MASKmskw_XMMf32_XMMf32_AVX512'' ''a1db118e5b085f7b5bbbf3240510cbe20'',
    iform ''VRCP28PD_ZMMf64_MASKmskw_MEMf64_AVX512ER'' ''ac3d4e06781cf4ee9360c76f8bcc29952'',
    iform ''VRCP28PD_ZMMf64_MASKmskw_ZMMf64_AVX512ER'' ''a13c4f3a5e8dc101764c3a17450b233e7'',
    iform ''VRCP28PS_ZMMf32_MASKmskw_MEMf32_AVX512ER'' ''a5847900f4e15ce730925af28bb104128'',
    iform ''VRCP28PS_ZMMf32_MASKmskw_ZMMf32_AVX512ER'' ''a73a8167e785d06e623cc01a247058e1b'',
    iform ''VRCP28SD_XMMf64_MASKmskw_XMMf64_MEMf64_AVX512ER'' ''a30e664797753551d95f3e8305eef7e3b'',
    iform ''VRCP28SD_XMMf64_MASKmskw_XMMf64_XMMf64_AVX512ER'' ''a237cbb95e72eac31883144bdb2c8ada1'',
    iform ''VRCP28SS_XMMf32_MASKmskw_XMMf32_MEMf32_AVX512ER'' ''a3cd1323bbbdfe7fd3ff61a9a203fb870'',
    iform ''VRCP28SS_XMMf32_MASKmskw_XMMf32_XMMf32_AVX512ER'' ''a8bcc7ed12fe39ac2057506c92f99ce8a'',
    iform ''VRCPPS_XMMdq_MEMdq'' ''a755db9ad2963abf3cb471e693ad5b0c9'',
    iform ''VRCPPS_XMMdq_XMMdq'' ''a051e188e8d22b2602d51c88138323db7'',
    iform ''VRCPPS_YMMqq_MEMqq'' ''a152663c974f5cdcf335edfbaf315f50c'',
    iform ''VRCPPS_YMMqq_YMMqq'' ''a33c921bd618807e847a47839878eebd4'',
    iform ''VRCPSS_XMMdq_XMMdq_MEMd'' ''a944ef78446bfe10fe3ea2e4dd128e34f'',
    iform ''VRCPSS_XMMdq_XMMdq_XMMd'' ''a1d1c2b0c76a0de8cc5d183e9466876bb'',
    iform ''VREDUCEPD_XMMf64_MASKmskw_MEMf64_IMM8_AVX512'' ''aebafbacc45b51d6ad7b3f5f0c81c6371'',
    iform ''VREDUCEPD_XMMf64_MASKmskw_XMMf64_IMM8_AVX512'' ''a982585f2b1637a7599ec8f6665ca500c'',
    iform ''VREDUCEPD_YMMf64_MASKmskw_MEMf64_IMM8_AVX512'' ''ab4e4a263cd5fba4f29f4bf387c384c39'',
    iform ''VREDUCEPD_YMMf64_MASKmskw_YMMf64_IMM8_AVX512'' ''a2c9433162903a9b8bf64c2b626b70d84'',
    iform ''VREDUCEPD_ZMMf64_MASKmskw_MEMf64_IMM8_AVX512'' ''ae09cd4afa5415b3c89f0eaad10395b1b'',
    iform ''VREDUCEPD_ZMMf64_MASKmskw_ZMMf64_IMM8_AVX512'' ''aa535e98c25f040d2aec0c72acfe52bfc'',
    iform ''VREDUCEPS_XMMf32_MASKmskw_MEMf32_IMM8_AVX512'' ''a1c1037e3381eeec244e59840572143e3'',
    iform ''VREDUCEPS_XMMf32_MASKmskw_XMMf32_IMM8_AVX512'' ''a36fdd245b81ec767fb4692ef3010c25e'',
    iform ''VREDUCEPS_YMMf32_MASKmskw_MEMf32_IMM8_AVX512'' ''a165edca8d1625d2fc7354c12d10a3ab7'',
    iform ''VREDUCEPS_YMMf32_MASKmskw_YMMf32_IMM8_AVX512'' ''a0a2a4730b0d8a5f7848b61d9959538aa'',
    iform ''VREDUCEPS_ZMMf32_MASKmskw_MEMf32_IMM8_AVX512'' ''a5b95c94f0c48d23376a2eeda4dc892c5'',
    iform ''VREDUCEPS_ZMMf32_MASKmskw_ZMMf32_IMM8_AVX512'' ''a636b918f5e3045a0c7ae20fafa5fcf13'',
    iform ''VREDUCESD_XMMf64_MASKmskw_XMMf64_MEMf64_IMM8_AVX512'' ''adedae24010bd5635211298f0e765572f'',
    iform ''VREDUCESD_XMMf64_MASKmskw_XMMf64_XMMf64_IMM8_AVX512'' ''aeed3d8360e34252c3568109a277d2249'',
    iform ''VREDUCESS_XMMf32_MASKmskw_XMMf32_MEMf32_IMM8_AVX512'' ''a2c8218b3d0af5c4c9257689d8702d05f'',
    iform ''VREDUCESS_XMMf32_MASKmskw_XMMf32_XMMf32_IMM8_AVX512'' ''a2f76c647430721814b0ff2a490f063fb'',
    iform ''VRNDSCALEPD_XMMf64_MASKmskw_MEMf64_IMM8_AVX512'' ''af048fb75c8ea86ed8c3e6cc2760c1cd9'',
    iform ''VRNDSCALEPD_XMMf64_MASKmskw_XMMf64_IMM8_AVX512'' ''ad4dad08b1a5854ceb0b4130c34b3909e'',
    iform ''VRNDSCALEPD_YMMf64_MASKmskw_MEMf64_IMM8_AVX512'' ''adc9875ba0680aa558b7e2f91fcc4ac2c'',
    iform ''VRNDSCALEPD_YMMf64_MASKmskw_YMMf64_IMM8_AVX512'' ''a45ea1c441ca5e7ed74d8bd6a9bfda8a6'',
    iform ''VRNDSCALEPD_ZMMf64_MASKmskw_MEMf64_IMM8_AVX512'' ''a782b4e2df4e68067e5c26dfa0f3b0054'',
    iform ''VRNDSCALEPD_ZMMf64_MASKmskw_ZMMf64_IMM8_AVX512'' ''a6ebe183d6c50920fc1d640f06ee46ee7'',
    iform ''VRNDSCALEPS_XMMf32_MASKmskw_MEMf32_IMM8_AVX512'' ''a594ef4a315a43f2224f746cb6fb1db97'',
    iform ''VRNDSCALEPS_XMMf32_MASKmskw_XMMf32_IMM8_AVX512'' ''acd8819d6f0d154170a9b0f5ef89814bb'',
    iform ''VRNDSCALEPS_YMMf32_MASKmskw_MEMf32_IMM8_AVX512'' ''ac488e01b0393110028bab82a5fd42c06'',
    iform ''VRNDSCALEPS_YMMf32_MASKmskw_YMMf32_IMM8_AVX512'' ''a8186758825331aee59aa0b556b258ff6'',
    iform ''VRNDSCALEPS_ZMMf32_MASKmskw_MEMf32_IMM8_AVX512'' ''abcf2df4ad5052638a416a7062dd6994d'',
    iform ''VRNDSCALEPS_ZMMf32_MASKmskw_ZMMf32_IMM8_AVX512'' ''a1f5725db3db9303faf296d6f295ae3a5'',
    iform ''VRNDSCALESD_XMMf64_MASKmskw_XMMf64_MEMf64_IMM8_AVX512'' ''a6566ff38f2590e1525414ab2a9a6e680'',
    iform ''VRNDSCALESD_XMMf64_MASKmskw_XMMf64_XMMf64_IMM8_AVX512'' ''ae279571431b742b017a41eb797ab7a63'',
    iform ''VRNDSCALESS_XMMf32_MASKmskw_XMMf32_MEMf32_IMM8_AVX512'' ''a2dec5bb715446ca9fae1ae3b46856739'',
    iform ''VRNDSCALESS_XMMf32_MASKmskw_XMMf32_XMMf32_IMM8_AVX512'' ''a3cc72eaeee8ca0d1f3fa6c5028e17476'',
    iform ''VROUNDPD_XMMdq_MEMdq_IMMb'' ''a14175daa7c184b71449eb48e8bc182f2'',
    iform ''VROUNDPD_XMMdq_XMMdq_IMMb'' ''a46a86af7bffe0fa24a00ee990de0395a'',
    iform ''VROUNDPD_YMMqq_MEMqq_IMMb'' ''a763c6ecfa2e5aadbcfbf665141cc05a8'']"

lemma xed_iform_enum_8h_values_40_closed: "list_all (closed_node scripts) xed_iform_enum_8h_values_40"
  by (simp only: xed_iform_enum_8h_values_40_def closed_rules iform_closed)

definition xed_iform_enum_8h_values_41 :: "nav_node list" where
  "xed_iform_enum_8h_values_41 = [
    iform ''VROUNDPD_YMMqq_YMMqq_IMMb'' ''a79bc9ecef2db1c244b67fdcee8d6ce8e'',
    iform ''VROUNDPS_XMMdq_MEMdq_IMMb'' ''a8f0a6a9c8316f38e3df209c5e1e2480f'',
    iform ''VROUNDPS_XMMdq_XMMdq_IMMb'' ''a35c3a43ce121852d478e823ca90f0840'',
    iform ''VROUNDPS_YMMqq_MEMqq_IMMb'' ''a8bb80790c267ba89b0d87e8b2f606666'',
    iform ''VROUNDPS_YMMqq_YMMqq_IMMb'' ''a1d6c91955b0da42747855488cbfce39a'',
    iform ''VROUNDSD_XMMdq_XMMdq_MEMq_IMMb'' ''abed12248e035dcdacc6958f276481d34'',
    iform ''VROUNDSD_XMMdq_XMMdq_XMMq_IMMb'' ''aaae9b09f18ef07153bd1196ffe7122a4'',
    iform ''VROUNDSS_XMMdq_XMMdq_MEMd_IMMb'' ''aec5a738b1759fd46deceeb303db7f12e'',
    iform ''VROUNDSS_XMMdq_XMMdq_XMMd_IMMb'' ''a1ea111b3c85386666bf09e948ed16487'',
    iform ''VRSQRT14PD_XMMf64_MASKmskw_MEMf64_AVX512'' ''abf5d9d9816fd1a13f0990b0501f838b7'',
    iform ''VRSQRT14PD_XMMf64_MASKmskw_XMMf64_AVX512'' ''a888842d0ee323ad122df3def9c76cec5'',
    iform ''VRSQRT14PD_YMMf64_MASKmskw_MEMf64_AVX512'' ''a033637af368a3bb5a68c37efc54d1af0'',
    iform ''VRSQRT14PD_YMMf64_MASKmskw_YMMf64_AVX512'' ''ac29808a694bfdd24396128a51683adaa'',
    iform ''VRSQRT14PD_ZMMf64_MASKmskw_MEMf64_AVX512'' ''a6d4faabd85c0c0f490301c68388c596d'',
    iform ''VRSQRT14PD_ZMMf64_MASKmskw_ZMMf64_AVX512'' ''a159d64e35aa088730a914439c0bea520'',
    iform ''VRSQRT14PS_XMMf32_MASKmskw_MEMf32_AVX512'' ''ab74c24d71d8616039b00913617a21518'',
    iform ''VRSQRT14PS_XMMf32_MASKmskw_XMMf32_AVX512'' ''a49d71c8810b86d7292818dbe33cae6ef'',
    iform ''VRSQRT14PS_YMMf32_MASKmskw_MEMf32_AVX512'' ''a103615bd8134272b76b7477c239c1fb4'',
    iform ''VRSQRT14PS_YMMf32_MASKmskw_YMMf32_AVX512'' ''abbc47480e7ffeb037b682a7482133b69'',
    iform ''VRSQRT14PS_ZMMf32_MASKmskw_MEMf32_AVX512'' ''a01bc82bc083037663745a0345d5d719a'',
    iform ''VRSQRT14PS_ZMMf32_MASKmskw_ZMMf32_AVX512'' ''a26dfdaa7093e7fd31defd20f699a14db'',
    iform ''VRSQRT14SD_XMMf64_MASKmskw_XMMf64_MEMf64_AVX512'' ''a1d5ed7b74dadb3146d84e7ea8786d052'',
    iform ''VRSQRT14SD_XMMf64_MASKmskw_XMMf64_XMMf64_AVX512'' ''acd8b6653434f7b320d034e17433d3b1c'',
    iform ''VRSQRT14SS_XMMf32_MASKmskw_XMMf32_MEMf32_AVX512'' ''a47e4d0bf8a5043223c1632cd0a6dc51f'',
    iform ''VRSQRT14SS_XMMf32_MASKmskw_XMMf32_XMMf32_AVX512'' ''a8b32d3caf2d050b1fe4c5ac7fce7e6c3'',
    iform ''VRSQRT28PD_ZMMf64_MASKmskw_MEMf64_AVX512ER'' ''ade77fc1aca1070528b15e8d2babe9089'',
    iform ''VRSQRT28PD_ZMMf64_MASKmskw_ZMMf64_AVX512ER'' ''a3943519352820326f29d3f7371fa239d'',
    iform ''VRSQRT28PS_ZMMf32_MASKmskw_MEMf32_AVX512ER'' ''a709e7c0b6bda4d124eba6f9836d948f3'',
    iform ''VRSQRT28PS_ZMMf32_MASKmskw_ZMMf32_AVX512ER'' ''aa9b89679a141736f66f5ed7b92f6bb78'',
    iform ''VRSQRT28SD_XMMf64_MASKmskw_XMMf64_MEMf64_AVX512ER'' ''a9081d7286e13d7a197d576f1182ec1d3'',
    iform ''VRSQRT28SD_XMMf64_MASKmskw_XMMf64_XMMf64_AVX512ER'' ''aa4894251ad5a722d601e1a872a2287eb'',
    iform ''VRSQRT28SS_XMMf32_MASKmskw_XMMf32_MEMf32_AVX512ER'' ''a036ebfaaf1852f994c71a673b462107d'',
    iform ''VRSQRT28SS_XMMf32_MASKmskw_XMMf32_XMMf32_AVX512ER'' ''a6b873cd3c5c2a1d9512f641470676add'',
    iform ''VRSQRTPS_XMMdq_MEMdq'' ''a9043dfc0921a8c0b0901d82748db37f8'',
    iform ''VRSQRTPS_XMMdq_XMMdq'' ''a6e212c6e804117ab981ee0b92d360a8f'',
    iform ''VRSQRTPS_YMMqq_MEMqq'' ''afbf910ce2c9ea47bacfc0251a173ed61'',
    iform ''VRSQRTPS_YMMqq_YMMqq'' ''a3a3af19e60234427dea069efe28d949a'',
    iform ''VRSQRTSS_XMMdq_XMMdq_MEMd'' ''aeb70d18cfb14c7b4ab2f4fa69b1302a6'',
    iform ''VRSQRTSS_XMMdq_XMMdq_XMMd'' ''ab16988f838b3e6aadf9570f6c21d84bc'',
    iform ''VSCALEFPD_XMMf64_MASKmskw_XMMf64_MEMf64_AVX512'' ''afc1ae016ce9d9ba2e1b7680ab9684c29'',
    iform ''VSCALEFPD_XMMf64_MASKmskw_XMMf64_XMMf64_AVX512'' ''a2e5ac8fde3102c0ab406dd7d0e20289b'',
    iform ''VSCALEFPD_YMMf64_MASKmskw_YMMf64_MEMf64_AVX512'' ''a2f99d7abca24dd96af5ba23e08bc6ff2'',
    iform ''VSCALEFPD_YMMf64_MASKmskw_YMMf64_YMMf64_AVX512'' ''acd02005a247e03022920955c7f5539e7'',
    iform ''VSCALEFPD_ZMMf64_MASKmskw_ZMMf64_MEMf64_AVX512'' ''a1da402eac18e9370a7d1643d3c2a0372'',
    iform ''VSCALEFPD_ZMMf64_MASKmskw_ZMMf64_ZMMf64_AVX512'' ''a57e48728b6243ab7e5557b9e363c40d2'',
    iform ''VSCALEFPS_XMMf32_MASKmskw_XMMf32_MEMf32_AVX512'' ''a97c90362767306c764774a18f829c61f'',
    iform ''VSCALEFPS_XMMf32_MASKmskw_XMMf32_XMMf32_AVX512'' ''affa0f3b32333eabe98e8428c98614bcd'',
    iform ''VSCALEFPS_YMMf32_MASKmskw_YMMf32_MEMf32_AVX512'' ''ac0ad48bad6cb05039a8954cd96ff5758'',
    iform ''VSCALEFPS_YMMf32_MASKmskw_YMMf32_YMMf32_AVX512'' ''ab06227a7f0f98dde0e3e57b9864169e4'',
    iform ''VSCALEFPS_ZMMf32_MASKmskw_ZMMf32_MEMf32_AVX512'' ''a55ffbf672a3793a6a2d188608712e0bf'',
    iform ''VSCALEFPS_ZMMf32_MASKmskw_ZMMf32_ZMMf32_AVX512'' ''a377665b7f590bb0af660778f234cb5d9'',
    iform ''VSCALEFSD_XMMf64_MASKmskw_XMMf64_MEMf64_AVX512'' ''ac50c9a2a5b55e5ccb12f572ce94b8b1e'',
    iform ''VSCALEFSD_XMMf64_MASKmskw_XMMf64_XMMf64_AVX512'' ''af27a0c2a02d592d6f7bf4ce65e9f2c60'',
    iform ''VSCALEFSS_XMMf32_MASKmskw_XMMf32_MEMf32_AVX512'' ''a71b915830c644c639358687902a8c88f'',
    iform ''VSCALEFSS_XMMf32_MASKmskw_XMMf32_XMMf32_AVX512'' ''a65d604c27d69a8c77d73d8e66a9ad8c0'',
    iform ''VSCATTERDPD_MEMf64_MASKmskw_XMMf64_AVX512_VL128'' ''a9f1d4f3a5240084d216e32405f459e41'',
    iform ''VSCATTERDPD_MEMf64_MASKmskw_YMMf64_AVX512_VL256'' ''a2e0354899d17fb72a914cfb6bd697fb4'',
    iform ''VSCATTERDPD_MEMf64_MASKmskw_ZMMf64_AVX512_VL512'' ''a3f4c4f107e467a9710209f64b313792d'',
    iform ''VSCATTERDPS_MEMf32_MASKmskw_XMMf32_AVX512_VL128'' ''afd19fba2113d163d883dc866d05678fa'',
    iform ''VSCATTERDPS_MEMf32_MASKmskw_YMMf32_AVX512_VL256'' ''a47c0bec056a1e66a91d817c0c81f7862'',
    iform ''VSCATTERDPS_MEMf32_MASKmskw_ZMMf32_AVX512_VL512'' ''a9b5643656a114c3b641de42e0d53c5c1'',
    iform ''VSCATTERPF0DPD_MEMf64_MASKmskw_AVX512PF'' ''a2c6ca1764d49badb56a2b985eb997c8e'',
    iform ''VSCATTERPF0DPS_MEMf32_MASKmskw_AVX512PF'' ''a1948b4e94d547bf33e3c4f508ea3071c'',
    iform ''VSCATTERPF0QPD_MEMf64_MASKmskw_AVX512PF'' ''aa8260abd1fa2be1fd5bb9faee762e5ed'',
    iform ''VSCATTERPF0QPS_MEMf32_MASKmskw_AVX512PF'' ''a3022c86d83e4d8bbfc3cf5036896adff'',
    iform ''VSCATTERPF1DPD_MEMf64_MASKmskw_AVX512PF'' ''a620da29de9aa3e7638c66666d864aec2'',
    iform ''VSCATTERPF1DPS_MEMf32_MASKmskw_AVX512PF'' ''a68df5d6e6b9376ea9997452c8bbeec05'',
    iform ''VSCATTERPF1QPD_MEMf64_MASKmskw_AVX512PF'' ''abdd93eed6f2ac828d887d1926e480a96'',
    iform ''VSCATTERPF1QPS_MEMf32_MASKmskw_AVX512PF'' ''ad0e1887b8cb585be3281a9ab69baaaa7'',
    iform ''VSCATTERQPD_MEMf64_MASKmskw_XMMf64_AVX512_VL128'' ''a841b67febcef04683e6c793156051471'',
    iform ''VSCATTERQPD_MEMf64_MASKmskw_YMMf64_AVX512_VL256'' ''a97f590a69928d240bf55019877635bc4'',
    iform ''VSCATTERQPD_MEMf64_MASKmskw_ZMMf64_AVX512_VL512'' ''a38916fbad6e2f2c5809b39069a4683c8'',
    iform ''VSCATTERQPS_MEMf32_MASKmskw_XMMf32_AVX512_VL128'' ''a19a810af6cbbf7e037a2ebe4b8a37276'',
    iform ''VSCATTERQPS_MEMf32_MASKmskw_XMMf32_AVX512_VL256'' ''a7d085d4cad72473f755a7b97764de862'',
    iform ''VSCATTERQPS_MEMf32_MASKmskw_YMMf32_AVX512_VL512'' ''a2a48ca079a4d8b0232c1727b0617b034'',
    iform ''VSHUFF32X4_YMMf32_MASKmskw_YMMf32_MEMf32_IMM8_AVX512'' ''a57a5d705cfafa7803eebf6c5e1ee35b1'',
    iform ''VSHUFF32X4_YMMf32_MASKmskw_YMMf32_YMMf32_IMM8_AVX512'' ''af67a77fb02f5788ad341f1f917973ba9'',
    iform ''VSHUFF32X4_ZMMf32_MASKmskw_ZMMf32_MEMf32_IMM8_AVX512'' ''a79cedfaf9d62fd8e77411b3f096d81cb'',
    iform ''VSHUFF32X4_ZMMf32_MASKmskw_ZMMf32_ZMMf32_IMM8_AVX512'' ''ad238713a1b88d936a31ab3eb689ec22c'',
    iform ''VSHUFF64X2_YMMf64_MASKmskw_YMMf64_MEMf64_IMM8_AVX512'' ''ac81ec2ed9a08c9ffe1d6eb3894e17b3b'',
    iform ''VSHUFF64X2_YMMf64_MASKmskw_YMMf64_YMMf64_IMM8_AVX512'' ''affc94ab811e0459d43b11c9a459a0da0'',
    iform ''VSHUFF64X2_ZMMf64_MASKmskw_ZMMf64_MEMf64_IMM8_AVX512'' ''a33c1d78c554e6936ae6b4ef534ec3bb3'',
    iform ''VSHUFF64X2_ZMMf64_MASKmskw_ZMMf64_ZMMf64_IMM8_AVX512'' ''a5454802f315186cc25741d86e0d6165b'',
    iform ''VSHUFI32X4_YMMu32_MASKmskw_YMMu32_MEMu32_IMM8_AVX512'' ''ae23f758a8551b41dda125a4541bfa8e3'',
    iform ''VSHUFI32X4_YMMu32_MASKmskw_YMMu32_YMMu32_IMM8_AVX512'' ''a226997663ec1a5623602001c50a694b4'',
    iform ''VSHUFI32X4_ZMMu32_MASKmskw_ZMMu32_MEMu32_IMM8_AVX512'' ''a54a32537925d193afac14bc677a15a48'',
    iform ''VSHUFI32X4_ZMMu32_MASKmskw_ZMMu32_ZMMu32_IMM8_AVX512'' ''aeacd04e935eb524579d25e7d4a29bd49'',
    iform ''VSHUFI64X2_YMMu64_MASKmskw_YMMu64_MEMu64_IMM8_AVX512'' ''abb71ac5bc45bed8dc8bb8dbb342079ab'',
    iform ''VSHUFI64X2_YMMu64_MASKmskw_YMMu64_YMMu64_IMM8_AVX512'' ''a97e5cd70c1145080fb84d934402358b1'',
    iform ''VSHUFI64X2_ZMMu64_MASKmskw_ZMMu64_MEMu64_IMM8_AVX512'' ''afde027a141089aba7109cbd018ee9ce2'',
    iform ''VSHUFI64X2_ZMMu64_MASKmskw_ZMMu64_ZMMu64_IMM8_AVX512'' ''ae590c9cf56e31c908046999ab7d10046'',
    iform ''VSHUFPD_XMMdq_XMMdq_MEMdq_IMMb'' ''adbf847bece8162ab6fa73bad6768a3f7'',
    iform ''VSHUFPD_XMMdq_XMMdq_XMMdq_IMMb'' ''a5007b674dc07686b5242c96ba4abdfc1'',
    iform ''VSHUFPD_XMMf64_MASKmskw_XMMf64_MEMf64_IMM8_AVX512'' ''a546e589ab55997af8168459019a25f20'',
    iform ''VSHUFPD_XMMf64_MASKmskw_XMMf64_XMMf64_IMM8_AVX512'' ''a987c0031d7b765dc22d5cb19bae0c966'',
    iform ''VSHUFPD_YMMf64_MASKmskw_YMMf64_MEMf64_IMM8_AVX512'' ''a50bf06e430f6acba05dba365191c9365'',
    iform ''VSHUFPD_YMMf64_MASKmskw_YMMf64_YMMf64_IMM8_AVX512'' ''abece1ac2c2a95a718162921635bc6989'',
    iform ''VSHUFPD_YMMqq_YMMqq_MEMqq_IMMb'' ''a8bc80d67153ef83e90d8f81d7aae40b8'',
    iform ''VSHUFPD_YMMqq_YMMqq_YMMqq_IMMb'' ''a2698db2724309e4bab4caeea3f74f3d9'',
    iform ''VSHUFPD_ZMMf64_MASKmskw_ZMMf64_MEMf64_IMM8_AVX512'' ''a53150e665be94cfd86e5f23d92365276'',
    iform ''VSHUFPD_ZMMf64_MASKmskw_ZMMf64_ZMMf64_IMM8_AVX512'' ''ade19fe93fbc0c21b4c230fde9f245a52'',
    iform ''VSHUFPS_XMMdq_XMMdq_MEMdq_IMMb'' ''aaa817b437a96089743a1977a6de2632d'',
    iform ''VSHUFPS_XMMdq_XMMdq_XMMdq_IMMb'' ''a8eb83330e68cfb7ac66d02b2142fa710'',
    iform ''VSHUFPS_XMMf32_MASKmskw_XMMf32_MEMf32_IMM8_AVX512'' ''a7b7b23c7e6f5fcb197d5d7fe7ebe47e7'',
    iform ''VSHUFPS_XMMf32_MASKmskw_XMMf32_XMMf32_IMM8_AVX512'' ''a2c69d30b76d08156809deac79e9f84d5'',
    iform ''VSHUFPS_YMMf32_MASKmskw_YMMf32_MEMf32_IMM8_AVX512'' ''ac821acfa37fcc8352d4bb0d83d5a3e00'',
    iform ''VSHUFPS_YMMf32_MASKmskw_YMMf32_YMMf32_IMM8_AVX512'' ''a1de373cd3f054b08386d4331485c4008'',
    iform ''VSHUFPS_YMMqq_YMMqq_MEMqq_IMMb'' ''a32819d465cd933c958fbe5d215c2115c'',
    iform ''VSHUFPS_YMMqq_YMMqq_YMMqq_IMMb'' ''a4dcd5f1a8b7bee84cea44ddd4f9d3faa'',
    iform ''VSHUFPS_ZMMf32_MASKmskw_ZMMf32_MEMf32_IMM8_AVX512'' ''ace0729ba82e43caf134fa19c33482b4d'',
    iform ''VSHUFPS_ZMMf32_MASKmskw_ZMMf32_ZMMf32_IMM8_AVX512'' ''ab7592759c4aa9c19e3a53cad2cff6ecd'',
    iform ''VSQRTPD_XMMdq_MEMdq'' ''af839d4123d6c70eb26bd43698765ec2c'',
    iform ''VSQRTPD_XMMdq_XMMdq'' ''ae2d3acc8f47aee5b566b3c43f84ff368'',
    iform ''VSQRTPD_XMMf64_MASKmskw_MEMf64_AVX512'' ''a5a79485afccec88e59dcf92cfbeafe99'',
    iform ''VSQRTPD_XMMf64_MASKmskw_XMMf64_AVX512'' ''a70a6b4c1ccaacff3750edbd14151628d'',
    iform ''VSQRTPD_YMMf64_MASKmskw_MEMf64_AVX512'' ''a07c568801d25bc38161903d113fc870b'',
    iform ''VSQRTPD_YMMf64_MASKmskw_YMMf64_AVX512'' ''acfc64cacd77b62b5ab76b3d25f1753aa'',
    iform ''VSQRTPD_YMMqq_MEMqq'' ''a86632e683c59a0fd57b668e431554f80'',
    iform ''VSQRTPD_YMMqq_YMMqq'' ''a5f0abbc1233ecea0f478c231fda4f0dd'',
    iform ''VSQRTPD_ZMMf64_MASKmskw_MEMf64_AVX512'' ''a1ec266a18dff8819ecb4cd21de0f6128'',
    iform ''VSQRTPD_ZMMf64_MASKmskw_ZMMf64_AVX512'' ''a6880036159b83d1cde92bf0e7219209c'',
    iform ''VSQRTPS_XMMdq_MEMdq'' ''aa3c9142ca7ee7b358ad9602819652d40'',
    iform ''VSQRTPS_XMMdq_XMMdq'' ''a82dfaa80fac3227c96508b85791d6dcd'',
    iform ''VSQRTPS_XMMf32_MASKmskw_MEMf32_AVX512'' ''ae8051f147635ab14e8c0aae1a2bb6908'',
    iform ''VSQRTPS_XMMf32_MASKmskw_XMMf32_AVX512'' ''ae82919033205c50de7b2d0449080dd56'',
    iform ''VSQRTPS_YMMf32_MASKmskw_MEMf32_AVX512'' ''ac3d2f72e5e948d1c03ba881e1d514456'',
    iform ''VSQRTPS_YMMf32_MASKmskw_YMMf32_AVX512'' ''aaa157f627ff12191e8f4eee657e17e36'',
    iform ''VSQRTPS_YMMqq_MEMqq'' ''a85f0a7f0bbf1051e93aa54eb07c44411'',
    iform ''VSQRTPS_YMMqq_YMMqq'' ''a79353b737eac494ae351373bc8333220'',
    iform ''VSQRTPS_ZMMf32_MASKmskw_MEMf32_AVX512'' ''ad68becadd13151a59850648ac1dc8a71'',
    iform ''VSQRTPS_ZMMf32_MASKmskw_ZMMf32_AVX512'' ''a79feb5f30c2495336537b0bf9118e81c'',
    iform ''VSQRTSD_XMMdq_XMMdq_MEMq'' ''ac7c80f41f1e9cef5f65b811a2c830bec'',
    iform ''VSQRTSD_XMMdq_XMMdq_XMMq'' ''acb4e8793cc893780b3d4701ca8781827'',
    iform ''VSQRTSD_XMMf64_MASKmskw_XMMf64_MEMf64_AVX512'' ''aca355393e505b6d1e009569d4d700041'',
    iform ''VSQRTSD_XMMf64_MASKmskw_XMMf64_XMMf64_AVX512'' ''a931a6de2acd568fb3c54f2bb64293881'',
    iform ''VSQRTSS_XMMdq_XMMdq_MEMd'' ''a4096311b663df48fd8463c2603bf41c7'',
    iform ''VSQRTSS_XMMdq_XMMdq_XMMd'' ''a8c1fbf263e051da5857c069d0fa0ffcd'',
    iform ''VSQRTSS_XMMf32_MASKmskw_XMMf32_MEMf32_AVX512'' ''ab6ffe6893acbce7ed573f640f13e3b41'',
    iform ''VSQRTSS_XMMf32_MASKmskw_XMMf32_XMMf32_AVX512'' ''af1c3a5129eaf8de885859e2c69e1053d'',
    iform ''VSTMXCSR_MEMd'' ''a5672fe6465b0b7165b670c5a446e36bf'']"

lemma xed_iform_enum_8h_values_41_closed: "list_all (closed_node scripts) xed_iform_enum_8h_values_41"
  by (simp only: xed_iform_enum_8h_values_41_def closed_rules iform_closed)

definition xed_iform_enum_8h_values_42 :: "nav_node list" where
  "xed_iform_enum_8h_values_42 = [
    iform ''VSUBPD_XMMdq_XMMdq_MEMdq'' ''a62eb6420b50cf5abddd69bbfe8e309f4'',
    iform ''VSUBPD_XMMdq_XMMdq_XMMdq'' ''acb1604c940b8192511490b33306da098'',
    iform ''VSUBPD_XMMf64_MASKmskw_XMMf64_MEMf64_AVX512'' ''a441abcc441c2ea76f8b085bde47a0d85'',
    iform ''VSUBPD_XMMf64_MASKmskw_XMMf64_XMMf64_AVX512'' ''a3a1fb13908a6e0b90030485a028b47a2'',
    iform ''VSUBPD_YMMf64_MASKmskw_YMMf64_MEMf64_AVX512'' ''aec667a7d6a24d3ecd27cae8c5ab2dd8e'',
    iform ''VSUBPD_YMMf64_MASKmskw_YMMf64_YMMf64_AVX512'' ''ae805ba3dfd227fb170f9ccad5c9639fa'',
    iform ''VSUBPD_YMMqq_YMMqq_MEMqq'' ''a6a4d35ea5468b2edf9b461aecaaaca6b'',
    iform ''VSUBPD_YMMqq_YMMqq_YMMqq'' ''a2ee6287d2e040e4e942c61d5c70860f2'',
    iform ''VSUBPD_ZMMf64_MASKmskw_ZMMf64_MEMf64_AVX512'' ''a336aee9fbd743eaea5b9123d4c00ef60'',
    iform ''VSUBPD_ZMMf64_MASKmskw_ZMMf64_ZMMf64_AVX512'' ''a8c4388f17a33a17c50ee6bdb53930dec'',
    iform ''VSUBPS_XMMdq_XMMdq_MEMdq'' ''abc1e9800e017bf4cd90adc7d27f49c09'',
    iform ''VSUBPS_XMMdq_XMMdq_XMMdq'' ''a0f90ed2843bceca45b5328047f5e3368'',
    iform ''VSUBPS_XMMf32_MASKmskw_XMMf32_MEMf32_AVX512'' ''a67cb239e9f18d81873b95a416d8cfc8e'',
    iform ''VSUBPS_XMMf32_MASKmskw_XMMf32_XMMf32_AVX512'' ''aa64babd72884f7645c82c426e0970e69'',
    iform ''VSUBPS_YMMf32_MASKmskw_YMMf32_MEMf32_AVX512'' ''aa182f4ad9ce21fc1935222f1d89e3099'',
    iform ''VSUBPS_YMMf32_MASKmskw_YMMf32_YMMf32_AVX512'' ''ad192ffec24ba146ec6fd6f0fe6129f55'',
    iform ''VSUBPS_YMMqq_YMMqq_MEMqq'' ''a1970f671d3801e47ab711edc8410ae28'',
    iform ''VSUBPS_YMMqq_YMMqq_YMMqq'' ''ad671692ed4c2c37dc1e3c4c0512e60d1'',
    iform ''VSUBPS_ZMMf32_MASKmskw_ZMMf32_MEMf32_AVX512'' ''ada6000ce3873f1a0bafd0c3f5d3a79a0'',
    iform ''VSUBPS_ZMMf32_MASKmskw_ZMMf32_ZMMf32_AVX512'' ''aee01a7521b356d6b9a486f05da15fb4c'',
    iform ''VSUBSD_XMMdq_XMMdq_MEMq'' ''aa1f4452485c540ec068fb3b1cbedbbf0'',
    iform ''VSUBSD_XMMdq_XMMdq_XMMq'' ''adf8eb3bdfab8ca7023958954e941bebe'',
    iform ''VSUBSD_XMMf64_MASKmskw_XMMf64_MEMf64_AVX512'' ''a80fbebe605337d6bffd164f79e59253e'',
    iform ''VSUBSD_XMMf64_MASKmskw_XMMf64_XMMf64_AVX512'' ''a7f489e2127318a8e6502046a7fbf2b2a'',
    iform ''VSUBSS_XMMdq_XMMdq_MEMd'' ''a7a36091ca0bd3fdd583557902a4c7876'',
    iform ''VSUBSS_XMMdq_XMMdq_XMMd'' ''aee3e4e27b56bb3c3f364072fff5bf340'',
    iform ''VSUBSS_XMMf32_MASKmskw_XMMf32_MEMf32_AVX512'' ''a198b62bdf275f5e2783ca274d3bed724'',
    iform ''VSUBSS_XMMf32_MASKmskw_XMMf32_XMMf32_AVX512'' ''a3698a43033879c54ceca1abfd14c9b1d'',
    iform ''VTESTPD_XMMdq_MEMdq'' ''ab5a8efccf34934e3c02bd66efe069901'',
    iform ''VTESTPD_XMMdq_XMMdq'' ''af3a5f511a1ca7913c7d9a73cee30bee6'',
    iform ''VTESTPD_YMMqq_MEMqq'' ''a2b6adca5b88d422f3b7b341da364f580'',
    iform ''VTESTPD_YMMqq_YMMqq'' ''a47add036d337c5f5c58dcfacdacb316b'',
    iform ''VTESTPS_XMMdq_MEMdq'' ''a291db70181644a1fb275880b7d06b44f'',
    iform ''VTESTPS_XMMdq_XMMdq'' ''a56413452c06c2fa747c207505d1a9f4b'',
    iform ''VTESTPS_YMMqq_MEMqq'' ''ade0a27ecde67104f9f7c540113b9e0b7'',
    iform ''VTESTPS_YMMqq_YMMqq'' ''a7a9fd65eb32b402be2778e7f5fd01c3d'',
    iform ''VUCOMISD_XMMdq_MEMq'' ''a93123f24ed88a31361b783dc49aea380'',
    iform ''VUCOMISD_XMMdq_XMMq'' ''ae644a618d7aa7a4ba4b6884e760aef8e'',
    iform ''VUCOMISD_XMMf64_MEMf64_AVX512'' ''ad5603d34f5cfa152513bc3c9a9697a77'',
    iform ''VUCOMISD_XMMf64_XMMf64_AVX512'' ''a89731e413334356736327a4dbdb60bdf'',
    iform ''VUCOMISS_XMMdq_MEMd'' ''a9939b39edaaa979e016c4fc65657ea34'',
    iform ''VUCOMISS_XMMdq_XMMd'' ''aed8d0176dc000befef3b7e7e12534edb'',
    iform ''VUCOMISS_XMMf32_MEMf32_AVX512'' ''a26d57bf61f920435524c5e18ae8fc2b8'',
    iform ''VUCOMISS_XMMf32_XMMf32_AVX512'' ''a3e2b665614053edbb70e036341c0ea4c'',
    iform ''VUNPCKHPD_XMMdq_XMMdq_MEMdq'' ''a3581133a657a4a7d3baa7859c29f4d2f'',
    iform ''VUNPCKHPD_XMMdq_XMMdq_XMMdq'' ''a4593fcf1b06dc487a57df69e6f14a161'',
    iform ''VUNPCKHPD_XMMf64_MASKmskw_XMMf64_MEMf64_AVX512'' ''a21568438073d4f914505211f6961fcf8'',
    iform ''VUNPCKHPD_XMMf64_MASKmskw_XMMf64_XMMf64_AVX512'' ''a22d5b539bdeff4c6e4138d3da94558ba'',
    iform ''VUNPCKHPD_YMMf64_MASKmskw_YMMf64_MEMf64_AVX512'' ''a749f95d6eb4ef121de33a2b90237e26a'',
    iform ''VUNPCKHPD_YMMf64_MASKmskw_YMMf64_YMMf64_AVX512'' ''ae5c9d8f4caebfbbe83aa7ac3c7b74da4'',
    iform ''VUNPCKHPD_YMMqq_YMMqq_MEMqq'' ''a9e88782c3b68a5886bac36ac5af8bdcb'',
    iform ''VUNPCKHPD_YMMqq_YMMqq_YMMqq'' ''ab1af68cb285ffd15cd909177d0c647fc'',
    iform ''VUNPCKHPD_ZMMf64_MASKmskw_ZMMf64_MEMf64_AVX512'' ''a1d74374837c603e06374d074b3e0a319'',
    iform ''VUNPCKHPD_ZMMf64_MASKmskw_ZMMf64_ZMMf64_AVX512'' ''af84d8d0aafaf819692b1a1ce39a30766'',
    iform ''VUNPCKHPS_XMMdq_XMMdq_MEMdq'' ''aa9075706a0e394feb5996355da1a2415'',
    iform ''VUNPCKHPS_XMMdq_XMMdq_XMMdq'' ''ac628fdaf1a86f0eece9d909963344c5c'',
    iform ''VUNPCKHPS_XMMf32_MASKmskw_XMMf32_MEMf32_AVX512'' ''aec1a2c913fc3b937be5a36315da422b2'',
    iform ''VUNPCKHPS_XMMf32_MASKmskw_XMMf32_XMMf32_AVX512'' ''a25c34c67947a7d2cca4835e49233f650'',
    iform ''VUNPCKHPS_YMMf32_MASKmskw_YMMf32_MEMf32_AVX512'' ''ab4a45577e9b706da8b28668e57a25443'',
    iform ''VUNPCKHPS_YMMf32_MASKmskw_YMMf32_YMMf32_AVX512'' ''a53af6f1cc2a55f216ca597b24a06bba6'',
    iform ''VUNPCKHPS_YMMqq_YMMqq_MEMqq'' ''ace833c93d387b078b969b8b5a00aa82b'',
    iform ''VUNPCKHPS_YMMqq_YMMqq_YMMqq'' ''ae7df7b52a5329b2f33448f88dd0bf56c'',
    iform ''VUNPCKHPS_ZMMf32_MASKmskw_ZMMf32_MEMf32_AVX512'' ''a10507e87d4d538dd18d5ca311f61fb35'',
    iform ''VUNPCKHPS_ZMMf32_MASKmskw_ZMMf32_ZMMf32_AVX512'' ''a386951871a2e41281f43a4c943308d2b'',
    iform ''VUNPCKLPD_XMMdq_XMMdq_MEMdq'' ''a16b9e3f1d65b03ce65dd279f2a324579'',
    iform ''VUNPCKLPD_XMMdq_XMMdq_XMMdq'' ''a9ba07a4ed44d9aefef129a255cf718d3'',
    iform ''VUNPCKLPD_XMMf64_MASKmskw_XMMf64_MEMf64_AVX512'' ''a7078195620e339db56e43040b82695d8'',
    iform ''VUNPCKLPD_XMMf64_MASKmskw_XMMf64_XMMf64_AVX512'' ''a1db8063cefb654424c56ef1dd5de6e14'',
    iform ''VUNPCKLPD_YMMf64_MASKmskw_YMMf64_MEMf64_AVX512'' ''a70b27786ffad457041fea5d52165562e'',
    iform ''VUNPCKLPD_YMMf64_MASKmskw_YMMf64_YMMf64_AVX512'' ''a2f905dcc6a643c3bc9a7cf8f694876fe'',
    iform ''VUNPCKLPD_YMMqq_YMMqq_MEMqq'' ''a712e0c515ea46920a3840b3bd9f3955c'',
    iform ''VUNPCKLPD_YMMqq_YMMqq_YMMqq'' ''a1813558567fd7d5f4c2397e290be1d38'',
    iform ''VUNPCKLPD_ZMMf64_MASKmskw_ZMMf64_MEMf64_AVX512'' ''ae005ee24d83ff226f91b67169b19b71d'',
    iform ''VUNPCKLPD_ZMMf64_MASKmskw_ZMMf64_ZMMf64_AVX512'' ''aad52995b9a08da14271e7de24aed8258'',
    iform ''VUNPCKLPS_XMMdq_XMMdq_MEMdq'' ''a5f077f561d2c4933c8f7a83e185f674f'',
    iform ''VUNPCKLPS_XMMdq_XMMdq_XMMdq'' ''a814ca3c1a859b84e5f9d8008e7703524'',
    iform ''VUNPCKLPS_XMMf32_MASKmskw_XMMf32_MEMf32_AVX512'' ''aabf139eab68c8dc8e0f52a51754a30d9'',
    iform ''VUNPCKLPS_XMMf32_MASKmskw_XMMf32_XMMf32_AVX512'' ''a7c11f885ab7f3acafb877b201b866d29'',
    iform ''VUNPCKLPS_YMMf32_MASKmskw_YMMf32_MEMf32_AVX512'' ''a30986789e170ffc58f99362ced81a8c5'',
    iform ''VUNPCKLPS_YMMf32_MASKmskw_YMMf32_YMMf32_AVX512'' ''ae3e1342a0a5121de1b8ba2777712327d'',
    iform ''VUNPCKLPS_YMMqq_YMMqq_MEMqq'' ''a434e69f03bc3267893c5627272eff959'',
    iform ''VUNPCKLPS_YMMqq_YMMqq_YMMqq'' ''a0e51f4dedabe3465531327e8983479ba'',
    iform ''VUNPCKLPS_ZMMf32_MASKmskw_ZMMf32_MEMf32_AVX512'' ''a1e31c8042e8d3069c073efbaef16bf47'',
    iform ''VUNPCKLPS_ZMMf32_MASKmskw_ZMMf32_ZMMf32_AVX512'' ''ae41ac011f5311b6b130ee694a36d41f2'',
    iform ''VXORPD_XMMdq_XMMdq_MEMdq'' ''a5ecd5c4244e200641843a875b6ef5e34'',
    iform ''VXORPD_XMMdq_XMMdq_XMMdq'' ''ae82768c55aeb106a0ba0aa50dbd92c27'',
    iform ''VXORPD_XMMf64_MASKmskw_XMMf64_MEMf64_AVX512'' ''a0c65f9d7074f52a2a09313222b1a793e'',
    iform ''VXORPD_XMMf64_MASKmskw_XMMf64_XMMf64_AVX512'' ''acef092e8395575713842bd594ffe1359'',
    iform ''VXORPD_YMMf64_MASKmskw_YMMf64_MEMf64_AVX512'' ''a8449d52d33195afb6e6f2f26756c480a'',
    iform ''VXORPD_YMMf64_MASKmskw_YMMf64_YMMf64_AVX512'' ''a20d2025d0e61a8fea53fbca9022975e1'',
    iform ''VXORPD_YMMqq_YMMqq_MEMqq'' ''af3735eef076ed846ca57a58cd1885b71'',
    iform ''VXORPD_YMMqq_YMMqq_YMMqq'' ''ace68f4ddc233af1e40193d0873f538b8'',
    iform ''VXORPD_ZMMf64_MASKmskw_ZMMf64_MEMf64_AVX512'' ''acf2d30c66c5350b8d404220a6d13bd51'',
    iform ''VXORPD_ZMMf64_MASKmskw_ZMMf64_ZMMf64_AVX512'' ''a3bb0500e97fd2eb2aeb4c59fdade7966'',
    iform ''VXORPS_XMMdq_XMMdq_MEMdq'' ''a46361b2b92f800fe64d06433adeb1002'',
    iform ''VXORPS_XMMdq_XMMdq_XMMdq'' ''a49a6392394a91ee69e1bdf87a494fcdf'',
    iform ''VXORPS_XMMf32_MASKmskw_XMMf32_MEMf32_AVX512'' ''a7a065a930e329eb2bf0188ee42ceb23e'',
    iform ''VXORPS_XMMf32_MASKmskw_XMMf32_XMMf32_AVX512'' ''a2c8f03f68a532802fc253a0ffbd61d9b'',
    iform ''VXORPS_YMMf32_MASKmskw_YMMf32_MEMf32_AVX512'' ''adaba9159e536bbb98c25d67c3f223efb'',
    iform ''VXORPS_YMMf32_MASKmskw_YMMf32_YMMf32_AVX512'' ''a91d91f1c3f60132e31056353626eb7b6'',
    iform ''VXORPS_YMMqq_YMMqq_MEMqq'' ''ae9bd7be839aab649fff9a584d7062c53'',
    iform ''VXORPS_YMMqq_YMMqq_YMMqq'' ''ac03423f0cef1f4c665ee5d412c2dcd27'',
    iform ''VXORPS_ZMMf32_MASKmskw_ZMMf32_MEMf32_AVX512'' ''a880199146cfcd02b06aee4610d9efda5'',
    iform ''VXORPS_ZMMf32_MASKmskw_ZMMf32_ZMMf32_AVX512'' ''a51884a91b07bc092ccadeb4f6dfdb021'',
    iform ''VZEROALL'' ''ac2af6b6321a8e1880e7874e45f134a1a'',
    iform ''VZEROUPPER'' ''a1d5ca77e4eeeda190cacda3fa24aa86f'',
    iform ''WBINVD'' ''ab10f5d9e08f580d2d1e5b2f2ec55d1dd'',
    iform ''WRFSBASE_GPRy'' ''a8e19acf9d1c66c91f478783cdf3f6261'',
    iform ''WRGSBASE_GPRy'' ''abe7d91c91b46478b7248a8982eb38ca1'',
    iform ''WRMSR'' ''a55d2101e332cb64285c4afa138919706'',
    iform ''XABORT_IMMb'' ''aae5fad8fe7517f46b3dc7d04802c1784'',
    iform ''XADD_GPR8_GPR8'' ''a72f46d39b3aec6931af42ef2ed209fcd'',
    iform ''XADD_GPRv_GPRv'' ''a5501e069a0c9e23ae1b4865567451384'',
    iform ''XADD_MEMb_GPR8'' ''a042ef921a6408119d2b873092ae5930b'',
    iform ''XADD_MEMv_GPRv'' ''a7a9b9cbcac933631aec6aa50c4dc0603'',
    iform ''XBEGIN_RELBRz'' ''a58b2f67fd33765e4a8325f5b93dc7922'',
    iform ''XCHG_GPR8_GPR8'' ''a809450e7ba109a50746c019a88673bca'',
    iform ''XCHG_GPRv_GPRv'' ''af724a55537c06df268fb0908bcbec7fe'',
    iform ''XCHG_GPRv_OrAX'' ''a7b195d8ad3b33906a82929c542239c4c'',
    iform ''XCHG_MEMb_GPR8'' ''a61b120a6bc77899d127dc0bd5ffb201a'',
    iform ''XCHG_MEMv_GPRv'' ''adfbeab3e130dc003b4d48e1dae05c263'',
    iform ''XEND'' ''a6f3877076db3f059f8f6c0884500389a'',
    iform ''XGETBV'' ''a8171fb9f65e4d67076c67717b022dfaf'',
    iform ''XLAT'' ''aa1b3cc8bad7f92f449dc1a29f366c1f0'',
    iform ''XOR_AL_IMMb'' ''a71bb0caf3b14f91148532dfabae0bfb5'',
    iform ''XOR_GPR8_GPR8_30'' ''aa74298c3a598ae8a59bc53969768c468'',
    iform ''XOR_GPR8_GPR8_32'' ''ae97cf9f535e1610b548ca055fe33d65f'',
    iform ''XOR_GPR8_IMMb_80r6'' ''afc0eb52452f1076b52d954f2e9da650d'',
    iform ''XOR_GPR8_IMMb_82r6'' ''a92980b59ede77e47a639adae7246c28a'',
    iform ''XOR_GPR8_MEMb'' ''a3862fc3b31c7635de044bf6451b6063c'',
    iform ''XOR_GPRv_GPRv_31'' ''aac454c800cb3384c6263200b0a4f4618'',
    iform ''XOR_GPRv_GPRv_33'' ''a613a8add36b887604642339b4441edf9'',
    iform ''XOR_GPRv_IMMb'' ''a61a502682e9e29cb329b9679df36422c'',
    iform ''XOR_GPRv_IMMz'' ''aa4bcbfad826883a355eda196773947c0'',
    iform ''XOR_GPRv_MEMv'' ''a6a78b959bd104ed3bcc06d2afc1666e6'',
    iform ''XOR_MEMb_GPR8'' ''abcce54e20f1cfe5b082d232c73778ff8'',
    iform ''XOR_MEMb_IMMb_80r6'' ''acd50daad9c6d78c9eed9b601a57a0238'',
    iform ''XOR_MEMb_IMMb_82r6'' ''a0bccc411ad4082cd71df0a3cbef4d841'',
    iform ''XOR_MEMv_GPRv'' ''a3a6d031aafe375dbf7add74d70c1bebe'',
    iform ''XOR_MEMv_IMMb'' ''a1bfa0ca54d2591971c140652b0cff7c6'']"

lemma xed_iform_enum_8h_values_42_closed: "list_all (closed_node scripts) xed_iform_enum_8h_values_42"
  by (simp only: xed_iform_enum_8h_values_42_def closed_rules iform_closed)

definition xed_iform_enum_8h_values_43 :: "nav_node list" where
  "xed_iform_enum_8h_values_43 = [
    iform ''XOR_MEMv_IMMz'' ''af5d80c992871e520067e0ddd9d8fa133'',
    iform ''XOR_OrAX_IMMz'' ''af36666c0d67600158728cf3b0bedca61'',
    iform ''XORPD_XMMpd_MEMpd'' ''abcf7c9e66b9aa8f2ed189ac172146d17'',
    iform ''XORPD_XMMpd_XMMpd'' ''aa73415e5567b6a9e454c9f347a723e91'',
    iform ''XORPS_XMMps_MEMps'' ''af3ba9cb891a838d088be887b25971de6'',
    iform ''XORPS_XMMps_XMMps'' ''a6ee7e5523be15c3e685e85293fdbfa88'',
    iform ''XRSTOR_MEMmxsave'' ''a0ba285e368dd53b9e8532bf6987a7256'',
    iform ''XRSTOR64_MEMmxsave'' ''ab62f2cac51c0bb3961edecf5c61855c9'',
    iform ''XRSTORS_MEMmxsave'' ''a19dfba0ff1a3a2e780db143688af8f2a'',
    iform ''XRSTORS64_MEMmxsave'' ''a50c6475db62d480fa332164300d8a14e'',
    iform ''XSAVE_MEMmxsave'' ''a6b9ba5f1bf21bbe2dfe9610f9b6b307c'',
    iform ''XSAVE64_MEMmxsave'' ''a04ef539af40572b7f50d0b3d44745105'',
    iform ''XSAVEC_MEMmxsave'' ''a54d78c7ac943ac6aba992b69b4e5c5b0'',
    iform ''XSAVEC64_MEMmxsave'' ''aed8082ece8c25b5d353eb55e57ab8166'',
    iform ''XSAVEOPT_MEMmxsave'' ''aadc0f026cb65b27d9999179fb8478d52'',
    iform ''XSAVEOPT64_MEMmxsave'' ''ab39b3d0338a1ade7d022a3ce58989304'',
    iform ''XSAVES_MEMmxsave'' ''aa513136c06fe6a55f66b27a27324c33a'',
    iform ''XSAVES64_MEMmxsave'' ''aed3b707ff76f1738f654aecb5866184d'',
    iform ''XSETBV'' ''ab1b9698240dbdd0936021171a296fef2'',
    iform ''XTEST'' ''a87e78523b17cd077a7f16649c910a260'',
    iform ''LAST'' ''ac0d1ec56a20369528caeb2d9bf635dd6'']"

lemma xed_iform_enum_8h_values_43_closed: "list_all (closed_node scripts) xed_iform_enum_8h_values_43"
  by (simp only: xed_iform_enum_8h_values_43_def closed_rules iform_closed)

end
