(* ===== verification/Nav_Iform_Table.thy ===== *)
theory Nav_Iform_Table
  imports Nav_Iform_1 Nav_Iform_2 Nav_Iform_3 Nav_Iform_4
begin

text \<open>
  xed-iform-enum_8h.js: the child table of an enumeration of instruction forms or classes.
\<close>

definition xed_iform_enum_8h :: "nav_node list" where
  "xed_iform_enum_8h = [
    Nav_node ''xed_iform_enum_t'' (Some ''xed-iform-enum_8h.html#af48986d6e090a75f7ab50e6d4a182e21'') (Nodes (xed_iform_enum_8h_values_1 @ xed_iform_enum_8h_values_2 @ xed_iform_enum_8h_values_3 @ xed_iform_enum_8h_values_4 @ xed_iform_enum_8h_values_5 @ xed_iform_enum_8h_values_6 @ xed_iform_enum_8h_values_7 @ xed_iform_enum_8h_values_8 @ xed_iform_enum_8h_values_9 @ xed_iform_enum_8h_values_10 @ xed_iform_enum_8h_values_11 @ xed_iform_enum_8h_values_12 @ xed_iform_enum_8h_values_13 @ xed_iform_enum_8h_values_14 @ xed_iform_enum_8h_values_15 @ xed_iform_enum_8h_values_16 @ xed_iform_enum_8h_values_17 @ xed_iform_enum_8h_values_18 @ xed_iform_enum_8h_values_19 @ xed_iform_enum_8h_values_20 @ xed_iform_enum_8h_values_21 @ xed_iform_enum_8h_values_22 @ xed_iform_enum_8h_values_23 @ xed_iform_enum_8h_values_24 @ xed_iform_enum_8h_values_25 @ xed_iform_enum_8h_values_26 @ xed_iform_enum_8h_values_27 @ xed_iform_enum_8h_values_28 @ xed_iform_enum_8h_values_29 @ xed_iform_enum_8h_values_30 @ xed_iform_enum_8h_values_31 @ xed_iform_enum_8h_values_32 @ xed_iform_enum_8h_values_33 @ xed_iform_enum_8h_values_34 @ xed_iform_enum_8h_values_35 @ xed_iform_enum_8h_values_36 @ xed_iform_enum_8h_values_37 @ xed_iform_enum_8h_values_38 @ xed_iform_enum_8h_values_39 @ xed_iform_enum_8h_values_40 @ xed_iform_enum_8h_values_41 @ xed_iform_enum_8h_values_42 @ xed_iform_enum_8h_values_43)),
    Nav_node ''str2xed_iform_enum_t'' (Some ''group__ENUM.html#gaaa33ff1896c1ecbda8cbf5875edd8563'') Null,
    Nav_node ''xed_iform_enum_t2str'' (Some ''group__ENUM.html#gaa5982ee859cf508d10f1fe5c7e0d2f61'') Null,
    Nav_node ''xed_iform_enum_t_last'' (Some ''group__ENUM.html#ga13215687a9806aba452c6c35caaf52dd'') Null]"

lemma xed_iform_enum_8h_closed: "list_all (closed_node scripts) xed_iform_enum_8h"
  by (simp only: xed_iform_enum_8h_def closed_rules xed_iform_enum_8h_values_1_closed xed_iform_enum_8h_values_2_closed xed_iform_enum_8h_values_3_closed xed_iform_enum_8h_values_4_closed xed_iform_enum_8h_values_5_closed xed_iform_enum_8h_values_6_closed xed_iform_enum_8h_values_7_closed xed_iform_enum_8h_values_8_closed xed_iform_enum_8h_values_9_closed xed_iform_enum_8h_values_10_closed xed_iform_enum_8h_values_11_closed xed_iform_enum_8h_values_12_closed xed_iform_enum_8h_values_13_closed xed_iform_enum_8h_values_14_closed xed_iform_enum_8h_values_15_closed xed_iform_enum_8h_values_16_closed xed_iform_enum_8h_values_17_closed xed_iform_enum_8h_values_18_closed xed_iform_enum_8h_values_19_closed xed_iform_enum_8h_values_20_closed xed_iform_enum_8h_values_21_closed xed_iform_enum_8h_values_22_closed xed_iform_enum_8h_values_23_closed xed_iform_enum_8h_values_24_closed xed_iform_enum_8h_values_25_closed xed_iform_enum_8h_values_26_closed xed_iform_enum_8h_values_27_closed xed_iform_enum_8h_values_28_closed xed_iform_enum_8h_values_29_closed xed_iform_enum_8h_values_30_closed xed_iform_enum_8h_values_31_closed xed_iform_enum_8h_values_32_closed xed_iform_enum_8h_values_33_closed xed_iform_enum_8h_values_34_closed xed_iform_enum_8h_values_35_closed xed_iform_enum_8h_values_36_closed xed_iform_enum_8h_values_37_closed xed_iform_enum_8h_values_38_closed xed_iform_enum_8h_values_39_closed xed_iform_enum_8h_values_40_closed xed_iform_enum_8h_values_41_closed xed_iform_enum_8h_values_42_closed xed_iform_enum_8h_values_43_closed)

end
