(* ===== verification/Nav_Manual.thy ===== *)
theory Nav_Manual
  imports Nav_Scripts Nav_Tables_4 Nav_Tables_5 Nav_Tables_6 Nav_Tables_7 Nav_Iclass_1 Nav_Iformfl_Table Nav_Iform_Table
begin

text \<open>
  All scripts of the navigation tree, those that the transcribed index files lead to and the
  others, and that the tree is complete: every script that a node names is one of them.
\<close>

definition more_scripts :: "(string \<times> nav_node list) list" where
  "more_scripts = [
    (''group__ENC'', group__ENC),
    (''group__ENCHL'', group__ENCHL),
    (''group__ENUM'', group__ENUM),
    (''group__ISASET'', group__ISASET),
    (''group__OPERANDS'', group__OPERANDS),
    (''group__REGINTFC'', group__REGINTFC),
    (''structxed__attributes__t'', structxed__attributes__t),
    (''structxed__convert__table__t'', structxed__convert__table__t),
    (''structxed__decoded__inst__s'', structxed__decoded__inst__s),
    (''structxed__enc__displacement__t'', structxed__enc__displacement__t),
    (''structxed__flag__enum__s'', structxed__flag__enum__s),
    (''structxed__format__options__t'', structxed__format__options__t),
    (''structxed__iform__info__s'', structxed__iform__info__s),
    (''structxed__inst__s'', structxed__inst__s),
    (''structxed__operand__s'', structxed__operand__s),
    (''structxed__print__info__t'', structxed__print__info__t),
    (''structxed__simple__flag__s'', structxed__simple__flag__s),
    (''structxed__state__s'', structxed__state__s),
    (''unionxed__flag__set__s'', unionxed__flag__set__s),
    (''xed_chip_enum_8h'', xed_chip_enum_8h),
    (''xed_common_defs_8h'', xed_common_defs_8h),
    (''xed_common_hdrs_8h'', xed_common_hdrs_8h),
    (''xed_convert_table_init_8h'', xed_convert_table_init_8h),
    (''xed_decoded_inst_8h'', xed_decoded_inst_8h),
    (''xed_disas_8h'', xed_disas_8h),
    (''xed_encode_8h'', xed_encode_8h),
    (''xed_encoder_gen_defs_8h'', xed_encoder_gen_defs_8h),
    (''xed_encoder_hl_8h'', xed_encoder_hl_8h),
    (''xed_encoder_iforms_8h'', xed_encoder_iforms_8h),
    (''xed_error_enum_8h'', xed_error_enum_8h),
    (''xed_exception_enum_8h'', xed_exception_enum_8h),
    (''xed_extension_enum_8h'', xed_extension_enum_8h),
    (''xed_flag_action_enum_8h'', xed_flag_action_enum_8h),
    (''xed_flag_enum_8h'', xed_flag_enum_8h),
    (''xed_flags_8h'', xed_flags_8h),
    (''xed_format_options_8h'', xed_format_options_8h),
    (''xed_gen_table_defs_8h'', xed_gen_table_defs_8h),
    (''xed_get_time_8h'', xed_get_time_8h),
    (''xed_iclass_enum_8h'', xed_iclass_enum_8h),
    (''xed_iform_enum_8h'', xed_iform_enum_8h),
    (''xed_iform_map_8h'', xed_iform_map_8h),
    (''xed_iformfl_enum_8h'', xed_iformfl_enum_8h),
    (''xed_immdis_8h'', xed_immdis_8h),
    (''xed_immed_8h'', xed_immed_8h),
    (''xed_init_8h'', xed_init_8h),
    (''xed_init_pointer_names_8h'', xed_init_pointer_names_8h),
    (''xed_isa_set_8h'', xed_isa_set_8h),
    (''xed_isa_set_enum_8h'', xed_isa_set_enum_8h),
    (''xed_machine_mode_enum_8h'', xed_machine_mode_enum_8h),
    (''xed_nonterminal_enum_8h'', xed_nonterminal_enum_8h),
    (''xed_operand_accessors_8h'', xed_operand_accessors_8h),
    (''xed_operand_action_enum_8h'', xed_operand_action_enum_8h),
    (''xed_operand_values_interface_8h'', xed_operand_values_interface_8h),
    (''xed_portability_8h'', xed_portability_8h),
    (''xed_print_info_8h'', xed_print_info_8h),
    (''xed_reg_class_8h'', xed_reg_class_8h),
    (''xed_reg_class_enum_8h'', xed_reg_class_enum_8h),
    (''xed_reg_enum_8h'', xed_reg_enum_8h),
    (''xed_reg_role_enum_8h'', xed_reg_role_enum_8h),
    (''xed_state_8h'', xed_state_8h),
    (''xed_syntax_enum_8h'', xed_syntax_enum_8h),
    (''xed_types_8h'', xed_types_8h),
    (''xed_util_8h'', xed_util_8h),
    (''xed_version_8h'', xed_version_8h)]"

definition manual_scripts :: "string \<Rightarrow> nav_node list option" where
  "manual_scripts = script_table (map_of more_scripts)"

text \<open>The names of the scripts.\<close>

definition known_names :: "string list" where
  "known_names = [
    ''functions_dup'',
    ''functions_vars'',
    ''globals_dup'',
    ''globals_eval'',
    ''globals_func'',
    ''modules'',
    ''group__AGEN'',
    ''files'',
    ''xed_agen_8h'',
    ''group__DEC'',
    ''xed_inst_8h'',
    ''xed_decoded_inst_api_8h'',
    ''xed_ild_8h'',
    ''xed_decode_8h'',
    ''annotated'',
    ''structxed__encoder__iforms__s'',
    ''structxed__encoder__instruction__t'',
    ''structxed__encoder__operand__t'',
    ''group__FLAGS'',
    ''group__PRINT'',
    ''group__IFORM'',
    ''structxed__immdis__s'',
    ''structxed__memop__t'',
    ''structxed__operand__storage__s'',
    ''group__INIT'',
    ''unionxed__encoder__prefixes__t'',
    ''unionxed__immdis__values__t'',
    ''unionxed__union16__t'',
    ''unionxed__union32__t'',
    ''unionxed__union64__t'',
    ''xed_address_width_enum_8h'',
    ''xed_attribute_enum_8h'',
    ''xed_build_defines_8h'',
    ''xed_category_enum_8h'',
    ''xed_operand_action_8h'',
    ''xed_operand_convert_enum_8h'',
    ''xed_operand_ctype_enum_8h'',
    ''xed_operand_ctype_map_8h'',
    ''xed_operand_element_type_enum_8h'',
    ''xed_operand_element_xtype_enum_8h'',
    ''xed_operand_enum_8h'',
    ''xed_operand_storage_8h'',
    ''xed_operand_type_enum_8h'',
    ''xed_operand_visibility_enum_8h'',
    ''xed_operand_width_enum_8h'',
    ''group__ENC'',
    ''group__ENCHL'',
    ''group__ENUM'',
    ''group__ISASET'',
    ''group__OPERANDS'',
    ''group__REGINTFC'',
    ''structxed__attributes__t'',
    ''structxed__convert__table__t'',
    ''structxed__decoded__inst__s'',
    ''structxed__enc__displacement__t'',
    ''structxed__flag__enum__s'',
    ''structxed__format__options__t'',
    ''structxed__iform__info__s'',
    ''structxed__inst__s'',
    ''structxed__operand__s'',
    ''structxed__print__info__t'',
    ''structxed__simple__flag__s'',
    ''structxed__state__s'',
    ''unionxed__flag__set__s'',
    ''xed_chip_enum_8h'',
    ''xed_common_defs_8h'',
    ''xed_common_hdrs_8h'',
    ''xed_convert_table_init_8h'',
    ''xed_decoded_inst_8h'',
    ''xed_disas_8h'',
    ''xed_encode_8h'',
    ''xed_encoder_gen_defs_8h'',
    ''xed_encoder_hl_8h'',
    ''xed_encoder_iforms_8h'',
    ''xed_error_enum_8h'',
    ''xed_exception_enum_8h'',
    ''xed_extension_enum_8h'',
    ''xed_flag_action_enum_8h'',
    ''xed_flag_enum_8h'',
    ''xed_flags_8h'',
    ''xed_format_options_8h'',
    ''xed_gen_table_defs_8h'',
    ''xed_get_time_8h'',
    ''xed_iclass_enum_8h'',
    ''xed_iform_enum_8h'',
    ''xed_iform_map_8h'',
    ''xed_iformfl_enum_8h'',
    ''xed_immdis_8h'',
    ''xed_immed_8h'',
    ''xed_init_8h'',
    ''xed_init_pointer_names_8h'',
    ''xed_isa_set_8h'',
    ''xed_isa_set_enum_8h'',
    ''xed_machine_mode_enum_8h'',
    ''xed_nonterminal_enum_8h'',
    ''xed_operand_accessors_8h'',
    ''xed_operand_action_enum_8h'',
    ''xed_operand_values_interface_8h'',
    ''xed_portability_8h'',
    ''xed_print_info_8h'',
    ''xed_reg_class_8h'',
    ''xed_reg_class_enum_8h'',
    ''xed_reg_enum_8h'',
    ''xed_reg_role_enum_8h'',
    ''xed_state_8h'',
    ''xed_syntax_enum_8h'',
    ''xed_types_8h'',
    ''xed_util_8h'',
    ''xed_version_8h'']"

lemma known_names_all: "map fst script_list @ map fst more_scripts = known_names"
  by (simp only: script_list_def more_scripts_def known_names_def list.map fst_conv append.simps)

lemma getData_known:
  assumes "dashes_to_underscores (stripPath s) \<in> set known_names"
  shows "getData manual_scripts s \<noteq> None"
proof
  let ?n = "dashes_to_underscores (stripPath s)"
  assume "getData manual_scripts s = None"
  then have "map_of script_list ?n = None" "map_of more_scripts ?n = None"
    by (simp_all add: getData_def manual_scripts_def script_table_def split: option.splits)
  then have "?n \<notin> set (map fst script_list @ map fst more_scripts)"
    by (simp add: map_of_eq_None_iff)
  then show False using assms unfolding known_names_all by blast
qed

lemma scripts_known:
  "getData manual_scripts ''functions_dup'' \<noteq> None"
  "getData manual_scripts ''functions_vars'' \<noteq> None"
  "getData manual_scripts ''globals_dup'' \<noteq> None"
  "getData manual_scripts ''globals_eval'' \<noteq> None"
  "getData manual_scripts ''globals_func'' \<noteq> None"
  "getData manual_scripts ''modules'' \<noteq> None"
  "getData manual_scripts ''group__AGEN'' \<noteq> None"
  "getData manual_scripts ''files'' \<noteq> None"
  "getData manual_scripts ''xed-agen_8h'' \<noteq> None"
  "getData manual_scripts ''group__DEC'' \<noteq> None"
  "getData manual_scripts ''xed-inst_8h'' \<noteq> None"
  "getData manual_scripts ''xed-decoded-inst-api_8h'' \<noteq> None"
  "getData manual_scripts ''xed-ild_8h'' \<noteq> None"
  "getData manual_scripts ''xed-decode_8h'' \<noteq> None"
  "getData manual_scripts ''annotated'' \<noteq> None"
  "getData manual_scripts ''structxed__encoder__iforms__s'' \<noteq> None"
  "getData manual_scripts ''structxed__encoder__instruction__t'' \<noteq> None"
  "getData manual_scripts ''structxed__encoder__operand__t'' \<noteq> None"
  "getData manual_scripts ''group__FLAGS'' \<noteq> None"
  "getData manual_scripts ''group__PRINT'' \<noteq> None"
  "getData manual_scripts ''group__IFORM'' \<noteq> None"
  "getData manual_scripts ''structxed__immdis__s'' \<noteq> None"
  "getData manual_scripts ''structxed__memop__t'' \<noteq> None"
  "getData manual_scripts ''structxed__operand__storage__s'' \<noteq> None"
  "getData manual_scripts ''group__INIT'' \<noteq> None"
  "getData manual_scripts ''unionxed__encoder__prefixes__t'' \<noteq> None"
  "getData manual_scripts ''unionxed__immdis__values__t'' \<noteq> None"
  "getData manual_scripts ''unionxed__union16__t'' \<noteq> None"
  "getData manual_scripts ''unionxed__union32__t'' \<noteq> None"
  "getData manual_scripts ''unionxed__union64__t'' \<noteq> None"
  "getData manual_scripts ''xed-address-width-enum_8h'' \<noteq> None"
  "getData manual_scripts ''xed-attribute-enum_8h'' \<noteq> None"
  "getData manual_scripts ''xed-build-defines_8h'' \<noteq> None"
  "getData manual_scripts ''xed-category-enum_8h'' \<noteq> None"
  "getData manual_scripts ''xed-operand-action_8h'' \<noteq> None"
  "getData manual_scripts ''xed-operand-convert-enum_8h'' \<noteq> None"
  "getData manual_scripts ''xed-operand-ctype-enum_8h'' \<noteq> None"
  "getData manual_scripts ''xed-operand-ctype-map_8h'' \<noteq> None"
  "getData manual_scripts ''xed-operand-element-type-enum_8h'' \<noteq> None"
  "getData manual_scripts ''xed-operand-element-xtype-enum_8h'' \<noteq> None"
  "getData manual_scripts ''xed-operand-enum_8h'' \<noteq> None"
  "getData manual_scripts ''xed-operand-storage_8h'' \<noteq> None"
  "getData manual_scripts ''xed-operand-type-enum_8h'' \<noteq> None"
  "getData manual_scripts ''xed-operand-visibility-enum_8h'' \<noteq> None"
  "getData manual_scripts ''xed-operand-width-enum_8h'' \<noteq> None"
  "getData manual_scripts ''group__ENC'' \<noteq> None"
  "getData manual_scripts ''group__ENCHL'' \<noteq> None"
  "getData manual_scripts ''group__ENUM'' \<noteq> None"
  "getData manual_scripts ''group__ISASET'' \<noteq> None"
  "getData manual_scripts ''group__OPERANDS'' \<noteq> None"
  "getData manual_scripts ''group__REGINTFC'' \<noteq> None"
  "getData manual_scripts ''structxed__attributes__t'' \<noteq> None"
  "getData manual_scripts ''structxed__convert__table__t'' \<noteq> None"
  "getData manual_scripts ''structxed__decoded__inst__s'' \<noteq> None"
  "getData manual_scripts ''structxed__enc__displacement__t'' \<noteq> None"
  "getData manual_scripts ''structxed__flag__enum__s'' \<noteq> None"
  "getData manual_scripts ''structxed__format__options__t'' \<noteq> None"
  "getData manual_scripts ''structxed__iform__info__s'' \<noteq> None"
  "getData manual_scripts ''structxed__inst__s'' \<noteq> None"
  "getData manual_scripts ''structxed__operand__s'' \<noteq> None"
  "getData manual_scripts ''structxed__print__info__t'' \<noteq> None"
  "getData manual_scripts ''structxed__simple__flag__s'' \<noteq> None"
  "getData manual_scripts ''structxed__state__s'' \<noteq> None"
  "getData manual_scripts ''unionxed__flag__set__s'' \<noteq> None"
  "getData manual_scripts ''xed-chip-enum_8h'' \<noteq> None"
  "getData manual_scripts ''xed-common-defs_8h'' \<noteq> None"
  "getData manual_scripts ''xed-common-hdrs_8h'' \<noteq> None"
  "getData manual_scripts ''xed-convert-table-init_8h'' \<noteq> None"
  "getData manual_scripts ''xed-decoded-inst_8h'' \<noteq> None"
  "getData manual_scripts ''xed-disas_8h'' \<noteq> None"
  "getData manual_scripts ''xed-encode_8h'' \<noteq> None"
  "getData manual_scripts ''xed-encoder-gen-defs_8h'' \<noteq> None"
  "getData manual_scripts ''xed-encoder-hl_8h'' \<noteq> None"
  "getData manual_scripts ''xed-encoder-iforms_8h'' \<noteq> None"
  "getData manual_scripts ''xed-error-enum_8h'' \<noteq> None"
  "getData manual_scripts ''xed-exception-enum_8h'' \<noteq> None"
  "getData manual_scripts ''xed-extension-enum_8h'' \<noteq> None"
  "getData manual_scripts ''xed-flag-action-enum_8h'' \<noteq> None"
  "getData manual_scripts ''xed-flag-enum_8h'' \<noteq> None"
  "getData manual_scripts ''xed-flags_8h'' \<noteq> None"
  "getData manual_scripts ''xed-format-options_8h'' \<noteq> None"
  "getData manual_scripts ''xed-gen-table-defs_8h'' \<noteq> None"
  "getData manual_scripts ''xed-get-time_8h'' \<noteq> None"
  "getData manual_scripts ''xed-iclass-enum_8h'' \<noteq> None"
  "getData manual_scripts ''xed-iform-enum_8h'' \<noteq> None"
  "getData manual_scripts ''xed-iform-map_8h'' \<noteq> None"
  "getData manual_scripts ''xed-iformfl-enum_8h'' \<noteq> None"
  "getData manual_scripts ''xed-immdis_8h'' \<noteq> None"
  "getData manual_scripts ''xed-immed_8h'' \<noteq> None"
  "getData manual_scripts ''xed-init_8h'' \<noteq> None"
  "getData manual_scripts ''xed-init-pointer-names_8h'' \<noteq> None"
  "getData manual_scripts ''xed-isa-set_8h'' \<noteq> None"
  "getData manual_scripts ''xed-isa-set-enum_8h'' \<noteq> None"
  "getData manual_scripts ''xed-machine-mode-enum_8h'' \<noteq> None"
  "getData manual_scripts ''xed-nonterminal-enum_8h'' \<noteq> None"
  "getData manual_scripts ''xed-operand-accessors_8h'' \<noteq> None"
  "getData manual_scripts ''xed-operand-action-enum_8h'' \<noteq> None"
  "getData manual_scripts ''xed-operand-values-interface_8h'' \<noteq> None"
  "getData manual_scripts ''xed-portability_8h'' \<noteq> None"
  "getData manual_scripts ''xed-print-info_8h'' \<noteq> None"
  "getData manual_scripts ''xed-reg-class_8h'' \<noteq> None"
  "getData manual_scripts ''xed-reg-class-enum_8h'' \<noteq> None"
  "getData manual_scripts ''xed-reg-enum_8h'' \<noteq> None"
  "getData manual_scripts ''xed-reg-role-enum_8h'' \<noteq> None"
  "getData manual_scripts ''xed-state_8h'' \<noteq> None"
  "getData manual_scripts ''xed-syntax-enum_8h'' \<noteq> None"
  "getData manual_scripts ''xed-types_8h'' \<noteq> None"
  "getData manual_scripts ''xed-util_8h'' \<noteq> None"
  "getData manual_scripts ''xed-version_8h'' \<noteq> None"
  by (rule getData_known, simp only: stripPath_def, simp add: dashes_to_underscores_def, unfold known_names_def,
      (rule list.set_intros(1) | rule list.set_intros(2))+)+

section \<open>Every script is there\<close>

lemma functions_dup_closed: "list_all (closed_node scripts) functions_dup"
  by (simp only: functions_dup_def closed_rules)

lemma functions_vars_closed: "list_all (closed_node scripts) functions_vars"
  by (simp only: functions_vars_def closed_rules)

lemma globals_dup_closed: "list_all (closed_node scripts) globals_dup"
  by (simp only: globals_dup_def closed_rules)

lemma globals_eval_closed: "list_all (closed_node scripts) globals_eval"
  by (simp only: globals_eval_def closed_rules)

lemma globals_func_closed: "list_all (closed_node scripts) globals_func"
  by (simp only: globals_func_def closed_rules)

lemma group__AGEN_closed: "list_all (closed_node scripts) group__AGEN"
  by (simp only: group__AGEN_def closed_rules)

lemma xed_agen_8h_closed: "list_all (closed_node scripts) xed_agen_8h"
  by (simp only: xed_agen_8h_def closed_rules)

lemma group__DEC_1_closed: "list_all (closed_node scripts) group__DEC_1"
  by (simp only: group__DEC_1_def closed_rules)

lemma group__DEC_2_closed: "list_all (closed_node scripts) group__DEC_2"
  by (simp only: group__DEC_2_def closed_rules)

lemma group__DEC_closed: "list_all (closed_node scripts) group__DEC"
  by (simp only: group__DEC_def closed_rules group__DEC_1_closed group__DEC_2_closed)

lemma xed_inst_8h_closed: "list_all (closed_node scripts) xed_inst_8h"
  by (simp only: xed_inst_8h_def closed_rules)

lemma xed_decoded_inst_api_8h_closed: "list_all (closed_node scripts) xed_decoded_inst_api_8h"
  by (simp only: xed_decoded_inst_api_8h_def closed_rules)

lemma xed_ild_8h_closed: "list_all (closed_node scripts) xed_ild_8h"
  by (simp only: xed_ild_8h_def closed_rules)

lemma xed_decode_8h_closed: "list_all (closed_node scripts) xed_decode_8h"
  by (simp only: xed_decode_8h_def closed_rules)

lemma structxed__encoder__iforms__s_closed: "list_all (closed_node scripts) structxed__encoder__iforms__s"
  by (simp only: structxed__encoder__iforms__s_def closed_rules)

lemma structxed__encoder__instruction__t_closed: "list_all (closed_node scripts) structxed__encoder__instruction__t"
  by (simp only: structxed__encoder__instruction__t_def closed_rules)

lemma structxed__encoder__operand__t_closed: "list_all (closed_node scripts) structxed__encoder__operand__t"
  by (simp only: structxed__encoder__operand__t_def closed_rules)

lemma group__FLAGS_closed: "list_all (closed_node scripts) group__FLAGS"
  by (simp only: group__FLAGS_def closed_rules)

lemma group__PRINT_closed: "list_all (closed_node scripts) group__PRINT"
  by (simp only: group__PRINT_def closed_rules)

lemma group__IFORM_closed: "list_all (closed_node scripts) group__IFORM"
  by (simp only: group__IFORM_def closed_rules)

lemma structxed__immdis__s_closed: "list_all (closed_node scripts) structxed__immdis__s"
  by (simp only: structxed__immdis__s_def closed_rules)

lemma structxed__memop__t_closed: "list_all (closed_node scripts) structxed__memop__t"
  by (simp only: structxed__memop__t_def closed_rules)

lemma structxed__operand__storage__s_closed: "list_all (closed_node scripts) structxed__operand__storage__s"
  by (simp only: structxed__operand__storage__s_def closed_rules)

lemma group__INIT_closed: "list_all (closed_node scripts) group__INIT"
  by (simp only: group__INIT_def closed_rules)

lemma unionxed__encoder__prefixes__t_closed: "list_all (closed_node scripts) unionxed__encoder__prefixes__t"
  by (simp only: unionxed__encoder__prefixes__t_def closed_rules)

lemma unionxed__immdis__values__t_closed: "list_all (closed_node scripts) unionxed__immdis__values__t"
  by (simp only: unionxed__immdis__values__t_def closed_rules)

lemma unionxed__union16__t_closed: "list_all (closed_node scripts) unionxed__union16__t"
  by (simp only: unionxed__union16__t_def closed_rules)

lemma unionxed__union32__t_closed: "list_all (closed_node scripts) unionxed__union32__t"
  by (simp only: unionxed__union32__t_def closed_rules)

lemma unionxed__union64__t_closed: "list_all (closed_node scripts) unionxed__union64__t"
  by (simp only: unionxed__union64__t_def closed_rules)

lemma xed_address_width_enum_8h_closed: "list_all (closed_node scripts) xed_address_width_enum_8h"
  by (simp only: xed_address_width_enum_8h_def closed_rules)

lemma xed_attribute_enum_8h_closed: "list_all (closed_node scripts) xed_attribute_enum_8h"
  by (simp only: xed_attribute_enum_8h_def closed_rules)

lemma xed_build_defines_8h_closed: "list_all (closed_node scripts) xed_build_defines_8h"
  by (simp only: xed_build_defines_8h_def closed_rules)

lemma xed_category_enum_8h_closed: "list_all (closed_node scripts) xed_category_enum_8h"
  by (simp only: xed_category_enum_8h_def closed_rules)

lemma xed_operand_action_8h_closed: "list_all (closed_node scripts) xed_operand_action_8h"
  by (simp only: xed_operand_action_8h_def closed_rules)

lemma xed_operand_convert_enum_8h_closed: "list_all (closed_node scripts) xed_operand_convert_enum_8h"
  by (simp only: xed_operand_convert_enum_8h_def closed_rules)

lemma xed_operand_ctype_enum_8h_closed: "list_all (closed_node scripts) xed_operand_ctype_enum_8h"
  by (simp only: xed_operand_ctype_enum_8h_def closed_rules)

lemma xed_operand_ctype_map_8h_closed: "list_all (closed_node scripts) xed_operand_ctype_map_8h"
  by (simp only: xed_operand_ctype_map_8h_def closed_rules)

lemma xed_operand_element_type_enum_8h_closed: "list_all (closed_node scripts) xed_operand_element_type_enum_8h"
  by (simp only: xed_operand_element_type_enum_8h_def closed_rules)

lemma xed_operand_element_xtype_enum_8h_closed: "list_all (closed_node scripts) xed_operand_element_xtype_enum_8h"
  by (simp only: xed_operand_element_xtype_enum_8h_def closed_rules)

lemma xed_operand_enum_8h_closed: "list_all (closed_node scripts) xed_operand_enum_8h"
  by (simp only: xed_operand_enum_8h_def closed_rules)

lemma xed_operand_type_enum_8h_closed: "list_all (closed_node scripts) xed_operand_type_enum_8h"
  by (simp only: xed_operand_type_enum_8h_def closed_rules)

lemma xed_operand_visibility_enum_8h_closed: "list_all (closed_node scripts) xed_operand_visibility_enum_8h"
  by (simp only: xed_operand_visibility_enum_8h_def closed_rules)

lemma xed_operand_width_enum_8h_closed: "list_all (closed_node scripts) xed_operand_width_enum_8h"
  by (simp only: xed_operand_width_enum_8h_def closed_rules)

lemma NAVTREE_closed: "list_all (closed_node manual_scripts) NAVTREE"
  by (simp only: NAVTREE_def closed_rules scripts_known)

lemma xed_convert_table_init_8h_closed: "list_all (closed_node manual_scripts) xed_convert_table_init_8h"
  by (simp only: xed_convert_table_init_8h_def closed_rules scripts_known)

lemma files_closed: "list_all (closed_node manual_scripts) files"
  by (simp only: files_def closed_rules scripts_known)

lemma modules_closed: "list_all (closed_node manual_scripts) modules"
  by (simp only: modules_def closed_rules scripts_known)

lemma xed_encoder_iforms_8h_closed: "list_all (closed_node manual_scripts) xed_encoder_iforms_8h"
  by (simp only: xed_encoder_iforms_8h_def closed_rules scripts_known)

lemma xed_encoder_hl_8h_closed: "list_all (closed_node manual_scripts) xed_encoder_hl_8h"
  by (simp only: xed_encoder_hl_8h_def closed_rules scripts_known)

lemma annotated_closed: "list_all (closed_node manual_scripts) annotated"
  by (simp only: annotated_def closed_rules scripts_known)

lemma xed_operand_storage_8h_closed: "list_all (closed_node manual_scripts) xed_operand_storage_8h"
  by (simp only: xed_operand_storage_8h_def closed_rules scripts_known)

lemma xed_immdis_8h_closed: "list_all (closed_node manual_scripts) xed_immdis_8h"
  by (simp only: xed_immdis_8h_def closed_rules scripts_known)

lemma xed_types_8h_closed: "list_all (closed_node manual_scripts) xed_types_8h"
  by (simp only: xed_types_8h_def closed_rules scripts_known)

lemmas tables_closed =
  functions_dup_closed
  functions_vars_closed
  globals_dup_closed
  globals_eval_closed
  globals_func_closed
  modules_closed
  group__AGEN_closed
  files_closed
  xed_agen_8h_closed
  group__DEC_closed
  xed_inst_8h_closed
  xed_decoded_inst_api_8h_closed
  xed_ild_8h_closed
  xed_decode_8h_closed
  annotated_closed
  structxed__encoder__iforms__s_closed
  structxed__encoder__instruction__t_closed
  structxed__encoder__operand__t_closed
  group__FLAGS_closed
  group__PRINT_closed
  group__IFORM_closed
  structxed__immdis__s_closed
  structxed__memop__t_closed
  structxed__operand__storage__s_closed
  group__INIT_closed
  unionxed__encoder__prefixes__t_closed
  unionxed__immdis__values__t_closed
  unionxed__union16__t_closed
  unionxed__union32__t_closed
  unionxed__union64__t_closed
  xed_address_width_enum_8h_closed
  xed_attribute_enum_8h_closed
  xed_build_defines_8h_closed
  xed_category_enum_8h_closed
  xed_operand_action_8h_closed
  xed_operand_convert_enum_8h_closed
  xed_operand_ctype_enum_8h_closed
  xed_operand_ctype_map_8h_closed
  xed_operand_element_type_enum_8h_closed
  xed_operand_element_xtype_enum_8h_closed
  xed_operand_enum_8h_closed
  xed_operand_storage_8h_closed
  xed_operand_type_enum_8h_closed
  xed_operand_visibility_enum_8h_closed
  xed_operand_width_enum_8h_closed
  group__ENC_closed
  group__ENCHL_closed
  group__ENUM_closed
  group__ISASET_closed
  group__OPERANDS_closed
  group__REGINTFC_closed
  structxed__attributes__t_closed
  structxed__convert__table__t_closed
  structxed__decoded__inst__s_closed
  structxed__enc__displacement__t_closed
  structxed__flag__enum__s_closed
  structxed__format__options__t_closed
  structxed__iform__info__s_closed
  structxed__inst__s_closed
  structxed__operand__s_closed
  structxed__print__info__t_closed
  structxed__simple__flag__s_closed
  structxed__state__s_closed
  unionxed__flag__set__s_closed
  xed_chip_enum_8h_closed
  xed_common_defs_8h_closed
  xed_common_hdrs_8h_closed
  xed_convert_table_init_8h_closed
  xed_decoded_inst_8h_closed
  xed_disas_8h_closed
  xed_encode_8h_closed
  xed_encoder_gen_defs_8h_closed
  xed_encoder_hl_8h_closed
  xed_encoder_iforms_8h_closed
  xed_error_enum_8h_closed
  xed_exception_enum_8h_closed
  xed_extension_enum_8h_closed
  xed_flag_action_enum_8h_closed
  xed_flag_enum_8h_closed
  xed_flags_8h_closed
  xed_format_options_8h_closed
  xed_gen_table_defs_8h_closed
  xed_get_time_8h_closed
  xed_iclass_enum_8h_closed
  xed_iform_enum_8h_closed
  xed_iform_map_8h_closed
  xed_iformfl_enum_8h_closed
  xed_immdis_8h_closed
  xed_immed_8h_closed
  xed_init_8h_closed
  xed_init_pointer_names_8h_closed
  xed_isa_set_8h_closed
  xed_isa_set_enum_8h_closed
  xed_machine_mode_enum_8h_closed
  xed_nonterminal_enum_8h_closed
  xed_operand_accessors_8h_closed
  xed_operand_action_enum_8h_closed
  xed_operand_values_interface_8h_closed
  xed_portability_8h_closed
  xed_print_info_8h_closed
  xed_reg_class_8h_closed
  xed_reg_class_enum_8h_closed
  xed_reg_enum_8h_closed
  xed_reg_role_enum_8h_closed
  xed_state_8h_closed
  xed_syntax_enum_8h_closed
  xed_types_8h_closed
  xed_util_8h_closed
  xed_version_8h_closed

lemma manual_script_closed:
  assumes "manual_scripts name = Some ns"
  shows "list_all (closed_node manual_scripts) ns"
proof -
  have "(name, ns) \<in> set script_list \<or> (name, ns) \<in> set more_scripts"
    using assms by (auto simp: manual_scripts_def script_table_def split: option.splits dest: map_of_SomeD)
  moreover have "list_all (\<lambda>(name, ns). list_all (closed_node manual_scripts) ns) script_list"
    by (simp only: script_list_def list.pred_inject case_prod_conv tables_closed simp_thms)
  moreover have "list_all (\<lambda>(name, ns). list_all (closed_node manual_scripts) ns) more_scripts"
    by (simp only: more_scripts_def list.pred_inject case_prod_conv tables_closed simp_thms)
  ultimately show ?thesis by (auto simp: list_all_iff)
qed

lemma closed_children:
  assumes "closed_node manual_scripts n" and "children_of manual_scripts (nav_children n) = Some ms"
  shows "list_all (closed_node manual_scripts) ms"
proof (cases "nav_children n")
  case Null
  with assms(2) show ?thesis by (simp add: children_of_def)
next
  case (Script s)
  with assms(2) have "getData manual_scripts s = Some ms"
    by (simp add: children_of_def split: if_splits)
  then show ?thesis by (simp add: getData_def manual_script_closed)
next
  case (Nodes ns)
  then show ?thesis using assms by (cases n) (simp add: children_of_def)
qed

lemma closed_at:
  assumes "list_all (closed_node manual_scripts) ns" and "node_at manual_scripts ns p = Some n"
  shows "closed_node manual_scripts n"
  using assms
proof (induction manual_scripts ns p rule: node_at.induct)
  case (2 ns i)
  then show ?case by (auto simp: list_all_length node_at.simps split: if_splits)
next
  case (3 ns i j p)
  then show ?case
    using closed_children [of "ns ! i"]
    by (auto simp: node_at.simps list_all_length split: if_splits option.splits)
qed (simp add: node_at.simps)

text \<open>Every node of the navigation tree can be opened.\<close>

lemma manual_complete:
  assumes "node_at manual_scripts NAVTREE p = Some n"
  shows "script_loads manual_scripts (nav_children n)"
  using closed_at [OF NAVTREE_closed assms]
  by (cases n) (auto simp: script_loads_def split: nav_data.split)

end
