(* ===== verification/Nav_Pages.thy ===== *)
theory Nav_Pages
  imports Nav_Goto Nav_Keys Nav_Manual
begin

text \<open>
  The properties of the navigation tree: what the page of a url selects, what stays true of the
  tree through all events of the page, and what happens to an anchor that no index file names.
\<close>

section \<open>The entry of a page\<close>

lemma entry_leads:
  assumes "entry_ok scripts (url, q)"
  obtains n link where "node_at scripts NAVTREE (0 # q) = Some n" "nav_link n = Some link"
    "link = url \<or> source_page url link"
  using assms by (auto simp: entry_ok_def split: option.splits)

lemma page_entry:
  assumes table: "index_table k = Some index" and url: "url \<in> fst ` set index"
    and root: "root @ hashUrl fragment = url \<or> (hashValue fragment = [] \<and> root = url)"
    and no_hash: "CHR ''#'' \<notin> set root"
  obtains q where "breadcrumbs_of index root (hashUrl fragment) = 0 # q" and "(url, q) \<in> set index"
    and "in_file k (root @ hashUrl fragment)" and "\<not> is_line_anchor (hashUrl fragment)"
proof -
  obtain q where q: "last_value index url = Some q" "(url, q) \<in> set index"
    using last_value_key [OF url] .
  note entry = index_table_keys [OF table q(2)]
  show thesis
  proof (cases "root @ hashUrl fragment = url")
    case True
    have "plain_url (hashUrl fragment)"
      using entry(3) plain_append [OF no_hash, of "hashUrl fragment"] unfolding True [symmetric] by blast
    then show ?thesis
      using that [of q] q True entry(1) line_anchor_not_plain by (auto simp: breadcrumbs_of_def)
  next
    case False
    then have hash: "hashUrl fragment = ''#''" and root: "root = url"
      using root by (auto simp: hashUrl_def)
    have "root @ ''#'' \<notin> fst ` set index"
      using index_table_keys(3) [OF table] plain_not_hash [OF no_hash] by auto
    then have "breadcrumbs_of index root (hashUrl fragment) = 0 # q"
      using q(1) root by (simp add: breadcrumbs_of_def hash last_value_None)
    moreover have "in_file k (root @ hashUrl fragment)"
      using in_file_hash [OF _ no_hash] entry(1) by (simp add: hash root)
    moreover have "\<not> is_line_anchor (hashUrl fragment)"
      by (simp add: hash is_line_anchor_def)
    ultimately show ?thesis using that q(2) by blast
  qed
qed

lemma link_not_caret:
  assumes "\<not> starts_with url ''^''" and "root @ hashUrl fragment = url \<or> (hashValue fragment = [] \<and> root = url)"
  shows "\<not> starts_with (root @ hashUrl fragment) ''^''"
  using assms by (cases root) (auto simp: hashUrl_def starts_with_def)

text \<open>A page at a url that a transcribed index file names, from any tree that shows the data.\<close>

lemma navTo_selects_node:
  assumes table: "index_table k = Some index" "url \<in> fst ` set index"
    and root: "root @ hashUrl fragment = url \<or> (hashValue fragment = [] \<and> root = url)"
    and page: "CHR ''#'' \<notin> set root" "stripPath (pathName pg) = stripPath root"
    and loads: "indices k = Some index"
    and tree: "holds pg manual_scripts (Nodes NAVTREE) tree"
  shows "\<exists>tree' p n link v.
    navTo pg manual_scripts indices [] root (hashUrl fragment) tree = (tree', Select p) \<and>
    node_at manual_scripts NAVTREE p = Some n \<and> nav_link n = Some link \<and>
    (link = url \<or> source_page url link) \<and>
    tree_at tree' p = Some v \<and> represents pg manual_scripts n v \<and> open_down tree' p \<and>
    (if has_item pg (hashUrl fragment) tree' then items_selected pg (hashUrl fragment) tree'
     else selected (node_info v)) \<and>
    (link = root @ hashUrl fragment \<longrightarrow> selected (node_info v))"
proof -
  obtain q where q: "breadcrumbs_of index root (hashUrl fragment) = 0 # q" "(url, q) \<in> set index"
    and in_index: "in_file k (root @ hashUrl fragment)" "\<not> is_line_anchor (hashUrl fragment)"
    using page_entry [OF table root page(1)] .
  note entry = index_table_keys(1-3) [OF table(1) q(2)]
    index_table_keys(4) [where rest = "map_of more_scripts", OF table(1) q(2), folded manual_scripts_def]
  obtain n link where n: "node_at manual_scripts NAVTREE (0 # q) = Some n" "nav_link n = Some link"
    and link: "link = url \<or> source_page url link"
    using entry_leads [OF entry(4)] .
  have its_class: "\<forall>d. item_of pg n d \<longrightarrow> ends_with (a_class d) (link_of_page pg (hashUrl fragment))"
    if "link = root @ hashUrl fragment"
  proof (intro allI impI)
    fix d assume "item_of pg n d"
    then show "ends_with (a_class d) (link_of_page pg (hashUrl fragment))"
      using class_of_page [OF page(1) _ page(2)] n(2) that link_not_caret [OF entry(2) root] by blast
  qed
  have hash: "hashUrl fragment \<noteq> []"
    by (simp add: hashUrl_def)
  have "navTo pg manual_scripts indices [] root (hashUrl fragment) tree =
      gotoNode pg manual_scripts index root (hashUrl fragment) tree"
    using in_index loads by (rule navTo_target)
  then show ?thesis
    using gotoNode_selects [OF tree q(1) n(1) manual_complete [OF n(1)]] n link its_class hash
    by metis
qed

section \<open>The properties\<close>

text \<open>
  C35. When a page has loaded whose url a transcribed index file names, after any events and with
  the button on, the tree shows a node for this url (or for the file whose source it shows) and
  every node above it is open. What is selected: when the tree has items whose class ends in the
  page and anchor, all of these; else that node. When the link of the node is the url with the
  anchor, it is selected in either case. Every script of the tree is there, so nothing is asked
  of them but that they load.
\<close>

theorem page_selects_its_node:
  assumes table: "index_table k = Some index" "url \<in> fst ` set index"
    and url: "toroot pg @ hashUrl fragment = url \<or> (hashValue fragment = [] \<and> toroot pg = url)"
    and page: "CHR ''#'' \<notin> set (toroot pg)" "stripPath (pathName pg) = stripPath (toroot pg)"
    and loads: "indices k = Some index"
    and before: "s = nav_run pg manual_scripts indices supported es (initNavTree pg supported stored)" "synced s"
    and after: "s' = nav_step pg manual_scripts indices supported (Loaded fragment) s"
  shows "\<exists>p n link v.
    node_at manual_scripts NAVTREE p = Some n \<and> nav_link n = Some link \<and>
    (link = url \<or> source_page url link) \<and>
    tree_at (nav_tree s') p = Some v \<and> represents pg manual_scripts n v \<and> open_down (nav_tree s') p \<and>
    (if has_item pg (hashUrl fragment) (nav_tree s') then items_selected pg (hashUrl fragment) (nav_tree s')
     else selected (node_info v)) \<and>
    (link = toroot pg @ hashUrl fragment \<longrightarrow> selected (node_info v))"
proof -
  have ok: "nav_ok pg manual_scripts supported s"
    unfolding before(1) by (rule nav_ok_run) (rule nav_ok_init)
  then have tree: "holds pg manual_scripts (Nodes NAVTREE) (nav_tree s)"
    and no_link: "cachedLink supported s = []"
    using before(2) by (simp_all add: nav_ok_def)
  have "nav_tree s' =
      fst (navTo pg manual_scripts indices [] (toroot pg) (hashUrl fragment) (nav_tree s))"
    by (simp add: after nav_step_def go_to_def no_link)
  then show ?thesis
    using navTo_selects_node [where root = "toroot pg" and pg = pg and indices = indices,
      OF table url page loads tree]
    by fastforce
qed

text \<open>An example: a page of the last of these files, from a fresh tree.\<close>

definition demo_page :: nav_page where
  "demo_page = \<lparr>relpath = [], pathName = ''/html/xed-operand-convert-enum_8h.html'',
                toroot = ''xed-operand-convert-enum_8h.html''\<rparr>"

lemma demo_url: "''xed-operand-convert-enum_8h.html'' \<in> fst ` set NAVTREEINDEX51"
proof -
  have "(''xed-operand-convert-enum_8h.html'', [3,0,45]) \<in> set navtreeindex51_1"
    unfolding navtreeindex51_1_def by (rule list.set_intros(1) | rule list.set_intros(2))+
  then have "(''xed-operand-convert-enum_8h.html'', [3,0,45]) \<in> set NAVTREEINDEX51"
    by (simp only: NAVTREEINDEX51_def set_append UnI1)
  from imageI [OF this, of fst] show ?thesis by (simp only: fst_conv)
qed

definition demo_loaded :: nav_state where
  "demo_loaded = nav_step demo_page manual_scripts index_table True (Loaded [])
     (nav_run demo_page manual_scripts index_table True [] (initNavTree demo_page True []))"

theorem page_selects_its_node_witness:
  "\<exists>p n link v.
    node_at manual_scripts NAVTREE p = Some n \<and> nav_link n = Some link \<and>
    (link = ''xed-operand-convert-enum_8h.html'' \<or> source_page ''xed-operand-convert-enum_8h.html'' link) \<and>
    tree_at (nav_tree demo_loaded) p = Some v \<and> represents demo_page manual_scripts n v \<and>
    open_down (nav_tree demo_loaded) p \<and>
    (if has_item demo_page (hashUrl []) (nav_tree demo_loaded)
     then items_selected demo_page (hashUrl []) (nav_tree demo_loaded) else selected (node_info v)) \<and>
    (link = toroot demo_page @ hashUrl [] \<longrightarrow> selected (node_info v))"
proof (rule page_selects_its_node)
  show "index_table 51 = Some NAVTREEINDEX51" "index_table 51 = Some NAVTREEINDEX51"
    by (simp_all add: index_table_def)
  show "''xed-operand-convert-enum_8h.html'' \<in> fst ` set NAVTREEINDEX51"
    by (rule demo_url)
  show "demo_loaded = nav_step demo_page manual_scripts index_table True (Loaded [])
     (nav_run demo_page manual_scripts index_table True [] (initNavTree demo_page True []))"
    by (rule demo_loaded_def)
  show "synced (nav_run demo_page manual_scripts index_table True [] (initNavTree demo_page True []))"
    by (simp add: nav_run_def initNavTree_def cachedLink_def sync_defs Let_def)
qed (simp_all add: demo_page_def stripPath_def hashValue_def keep_words_def)

text \<open>
  C36. Through every sequence of events of the page, whatever loads and fails to load, the tree
  shows the data: each node has the label and the link of its node of the data, and below it
  either nothing yet or the nodes of its children in order. A stored link is used only while the
  button is off, and the picture of the button tells whether it is.
\<close>

theorem tree_shows_the_data:
  "nav_ok pg scripts supported
     (nav_run pg scripts indices supported es (initNavTree pg supported stored))"
  by (rule nav_ok_run) (rule nav_ok_init)

text \<open>
  C37. The loop over the first urls of the index files stops at the one file whose range the url
  lies in; and before the first when the url lies below all of them.
\<close>

theorem index_file_of_url:
  "(index_loop url NAVTREEINDEX = Suc k \<longleftrightarrow> in_file k url) \<and>
   (index_loop url NAVTREEINDEX = 0 \<longleftrightarrow> \<not> string_le (NAVTREEINDEX ! 0) url)"
proof
  have "0 < length NAVTREEINDEX" by (simp add: first_urls)
  then show "index_loop url NAVTREEINDEX = 0 \<longleftrightarrow> \<not> string_le (NAVTREEINDEX ! 0) url"
    using index_loop_between [OF NAVTREEINDEX_ascending, of 0 url] by auto
qed (rule index_loop_in_file)

text \<open>
  C38. A page whose url lies in the range of an index file that names neither this url nor the
  page goes to the root of the manual: the test for a missing path never succeeds. What is
  selected is all items of the tree whose class ends in the page and anchor, and when the tree
  has none the root. The example is structxed__encoder__iforms__s.html at its anchor pub-attribs,
  which a link at its head leads to: the page itself is named by the file before, and the root of
  the manual is selected.
\<close>

theorem unnamed_anchor_selects_root:
  assumes "in_file k (root @ hash)" and "\<not> is_line_anchor hash" and "indices k = Some index"
    and "root @ hash \<notin> fst ` set index" and "root \<notin> fst ` set index"
    and tree: "holds pg scripts (Nodes NAVTREE) tree"
  shows "\<exists>tree' v. navTo pg scripts indices [] root hash tree = (tree', Select [0]) \<and>
    tree_at tree' [0] = Some v \<and> represents pg scripts (NAVTREE ! 0) v \<and>
    (if has_item pg hash tree' then items_selected pg hash tree' else selected (node_info v))"
proof -
  have crumbs: "breadcrumbs_of index root hash = [0]"
    using assms(4,5) by (simp add: breadcrumbs_of_def last_value_None)
  have top: "node_at scripts NAVTREE [0] = Some (NAVTREE ! 0)"
    and loads: "script_loads scripts (nav_children (NAVTREE ! 0))"
    by (simp_all add: NAVTREE_def node_at.simps script_loads_def)
  show ?thesis
    using gotoNode_selects [OF tree crumbs top loads]
      navTo_target [where k = k and root = root and hash = hash and indices = indices, OF assms(1-3)]
    by auto
qed

definition demo_iforms :: nav_page where
  "demo_iforms = \<lparr>relpath = [], pathName = ''/html/structxed__encoder__iforms__s.html'',
                  toroot = ''structxed__encoder__iforms__s.html''\<rparr>"

lemma fields_parts:
  "list_all (\<lambda>e. fst e \<noteq> ''structxed__encoder__iforms__s.html#pub-attribs'' \<and>
      fst e \<noteq> ''structxed__encoder__iforms__s.html'') navtreeindex4_1"
  "list_all (\<lambda>e. fst e \<noteq> ''structxed__encoder__iforms__s.html#pub-attribs'' \<and>
      fst e \<noteq> ''structxed__encoder__iforms__s.html'') navtreeindex4_2"
  unfolding navtreeindex4_1_def navtreeindex4_2_def by (simp_all cong: blocked_strings)

lemma fields_not_named:
  "''structxed__encoder__iforms__s.html#pub-attribs'' \<notin> fst ` set NAVTREEINDEX4"
  "''structxed__encoder__iforms__s.html'' \<notin> fst ` set NAVTREEINDEX4"
  using fields_parts by (auto simp: NAVTREEINDEX4_def list_all_iff)

lemma iforms_crumbs:
  "breadcrumbs_of NAVTREEINDEX4 ''structxed__encoder__iforms__s.html'' ''#pub-attribs'' = [0]"
  using fields_not_named by (simp add: breadcrumbs_of_def last_value_None)

lemma iforms_no_item:
  "\<not> has_item demo_iforms ''#pub-attribs'' (fst (gotoNode demo_iforms (\<lambda>_. None) NAVTREEINDEX4
      ''structxed__encoder__iforms__s.html'' ''#pub-attribs'' (root_node demo_iforms)))"
  unfolding gotoNode_def iforms_crumbs by code_simp

theorem unnamed_anchor_selects_root_witness:
  "\<exists>tree' v. navTo demo_iforms (\<lambda>_. None) index_table [] ''structxed__encoder__iforms__s.html''
      ''#pub-attribs'' (root_node demo_iforms) = (tree', Select [0]) \<and>
    tree_at tree' [0] = Some v \<and> represents demo_iforms (\<lambda>_. None) (NAVTREE ! 0) v \<and>
    selected (node_info v)"
proof -
  let ?root = "''structxed__encoder__iforms__s.html''" and ?hash = "''#pub-attribs''"
  have range: "in_file 4 (?root @ ?hash)"
    by (simp add: in_file_def first_urls)
  have anchor: "\<not> is_line_anchor ''#pub-attribs''" by (simp add: is_line_anchor_def)
  have table: "index_table 4 = Some NAVTREEINDEX4" by (simp add: index_table_def)
  have unnamed: "?root @ ?hash \<notin> fst ` set NAVTREEINDEX4"
    using fields_not_named(1) by simp
  note selects = unnamed_anchor_selects_root [where k = 4 and root = ?root and hash = ?hash and
      indices = index_table and index = NAVTREEINDEX4 and scripts = "\<lambda>_. None" and pg = demo_iforms and
      tree = "root_node demo_iforms", OF range anchor table unnamed fields_not_named(2) root_node_holds]
  note target = navTo_target [where k = 4 and root = ?root and hash = ?hash and indices = index_table and
      index = NAVTREEINDEX4 and scripts = "\<lambda>_. None" and pg = demo_iforms and
      tree = "root_node demo_iforms", OF range anchor table]
  show ?thesis
    using selects iforms_no_item unfolding target by (metis fst_conv)
qed

end
