(* ===== verification/Nav_Document.thy ===== *)
theory Nav_Document
  imports Nav_Page
begin

text \<open>
  navtree.js, what touches the document and not the tree of nodes: the path of the page, the test
  for the local storage, the script elements that are put into the head, and the item of a node
  that is taken out of its list while its children are made.
\<close>

section \<open>The path of the page\<close>

text \<open>\<open>replace(/[^-A-Za-z0-9+&@#/%?=~_|!:,.;\(\)]/g, '')\<close>.\<close>

definition is_path_char :: "char \<Rightarrow> bool" where
  "is_path_char c \<longleftrightarrow> is_word c \<or> c \<in> set ''-+&@#/%?=~|!:,.;()''"

definition cleaned_pathName :: "string \<Rightarrow> string" where
  "cleaned_pathName pathname = filter is_path_char pathname"

text \<open>A path that is cleaned has nothing that ends an attribute or a selector.\<close>

lemma cleaned_pathName_safe:
  "set (cleaned_pathName s) \<inter> set ''<> $*[]{}^'' = {}" "CHR 0x22 \<notin> set (cleaned_pathName s)"
  by (auto simp: cleaned_pathName_def is_path_char_def is_word_def)

lemma cleaned_pathName_again: "cleaned_pathName (cleaned_pathName s) = cleaned_pathName s"
  by (simp add: cleaned_pathName_def)

section \<open>The local storage\<close>

text \<open>
  What the browser says when asked for the storage: it may throw, not know the property, hold null
  in it, or an object with or without \<open>getItem\<close>.
\<close>

datatype storage = Throws | Absent | Null_storage | Storage (has_getItem: bool)

definition localStorageSupported :: "storage \<Rightarrow> bool" where
  "localStorageSupported st =
     (case st of Throws \<Rightarrow> False | Absent \<Rightarrow> False | Null_storage \<Rightarrow> False | Storage b \<Rightarrow> b)"

section \<open>Scripts\<close>

record script_element =
  script_id :: string
  script_type :: string
  script_src :: string

text \<open>A script is asked for by an element at the end of the head.\<close>

definition getScript :: "string \<Rightarrow> script_element list \<Rightarrow> script_element list" where
  "getScript scriptName head =
     head @ [\<lparr>script_id = scriptName, script_type = ''text/javascript'', script_src = scriptName @ ''.js''\<rparr>]"

text \<open>
  The file asked for and the variable read when it has come belong together: the script of the
  variable with dashes for underscores, below the root of the manual.
\<close>

lemma getScript_variable:
  assumes "CHR ''/'' \<notin> set varName"
  shows "script_src (last (getScript (relpath pg @ varName) head)) = relpath pg @ varName @ ''.js''"
    and "getData scripts varName = scripts (dashes_to_underscores varName)"
proof -
  have "takeWhile (\<lambda>c. c \<noteq> CHR ''/'') (rev varName) = rev varName"
    using assms by (auto simp: takeWhile_eq_all_conv)
  then show "getData scripts varName = scripts (dashes_to_underscores varName)"
    by (simp only: getData_def stripPath_def rev_rev_ident)
qed (simp add: getScript_def)

section \<open>An item taken out of its list\<close>

text \<open>
  \<open>removeToInsertLater\<close>: the items of the list without this one, and the item that followed it,
  which the function that is returned keeps. An item is always among those of its parent.
\<close>

fun removeToInsertLater :: "'a \<Rightarrow> 'a list \<Rightarrow> 'a list \<times> 'a option" where
  "removeToInsertLater x [] = ([], None)"
| "removeToInsertLater x (y # ys) =
     (if x = y then (ys, (case ys of [] \<Rightarrow> None | z # _ \<Rightarrow> Some z))
      else (let (zs, next) = removeToInsertLater x ys in (y # zs, next)))"

text \<open>\<open>insertBefore\<close> throws, here None, when the item that followed is no longer there.\<close>

fun insertBefore :: "'a \<Rightarrow> 'a \<Rightarrow> 'a list \<Rightarrow> 'a list option" where
  "insertBefore x next [] = None"
| "insertBefore x next (y # ys) =
     (if y = next then Some (x # y # ys) else map_option ((#) y) (insertBefore x next ys))"

definition insertFunction :: "'a \<Rightarrow> 'a option \<Rightarrow> 'a list \<Rightarrow> 'a list option" where
  "insertFunction x nextSibling xs =
     (case nextSibling of None \<Rightarrow> Some (xs @ [x]) | Some n \<Rightarrow> insertBefore x n xs)"

lemma insertBefore_next: "insertBefore x n xs = Some ys \<Longrightarrow> n \<in> set ys"
  by (induction xs arbitrary: ys) (auto split: if_splits)

text \<open>Taken out and put back, the item stands where it stood, so the list of items is as before.\<close>

lemma insert_after_remove:
  assumes "distinct xs" and "x \<in> set xs" and "removeToInsertLater x xs = (ys, next)"
  shows "insertFunction x next ys = Some xs"
  using assms
proof (induction xs arbitrary: ys)
  case (Cons y xs)
  show ?case
  proof (cases "x = y")
    case True
    with Cons.prems show ?thesis
      by (auto simp: insertFunction_def split: list.splits)
  next
    case False
    with Cons.prems obtain zs where zs: "removeToInsertLater x xs = (zs, next)" "ys = y # zs"
      by (auto split: prod.splits)
    have IH: "insertFunction x next zs = Some xs"
      using Cons False zs by simp
    have "next \<noteq> Some y"
    proof
      assume "next = Some y"
      with IH have "y \<in> set xs"
        by (auto simp: insertFunction_def dest: insertBefore_next)
      with Cons.prems(1) show False by simp
    qed
    with IH zs(2) show ?thesis
      by (auto simp: insertFunction_def split: option.splits)
  qed
qed simp

end
