(* ===== verification/Panel_Width.thy ===== *)
theory Panel_Width
  imports Numerals
begin

text \<open>
  resize.js: the panel beside a page of the manual keeps its width in a cookie, which is read
  back when the next page is opened. The sizes that the browser lays out (the outer width of the
  panel, the heights of head, foot and window) are arguments.
\<close>

section \<open>The cookies of the page\<close>

text \<open>
  The cookies of the document by name, in the order in which they were first set. Reading
  \<open>document.cookie\<close> gives them all in one string; assigning to it sets the one that the string
  names before its first semicolon. Cookies that have expired are not in it.
\<close>

type_synonym cookie_jar = "(string \<times> string) list"

fun cookie_text :: "cookie_jar \<Rightarrow> string" where
  "cookie_text [] = []"
| "cookie_text [(n, v)] = n @ ''='' @ v"
| "cookie_text ((n, v) # cs) = n @ ''='' @ v @ ''; '' @ cookie_text cs"

definition trim :: "string \<Rightarrow> string" where
  "trim s = rev (dropWhile (\<lambda>c. c = CHR '' '') (rev (dropWhile (\<lambda>c. c = CHR '' '') s)))"

fun put_cookie :: "string \<Rightarrow> string \<Rightarrow> cookie_jar \<Rightarrow> cookie_jar" where
  "put_cookie n v [] = [(n, v)]"
| "put_cookie n v ((m, w) # cs) = (if m = n then (n, v) # cs else (m, w) # put_cookie n v cs)"

definition set_cookie :: "string \<Rightarrow> cookie_jar \<Rightarrow> cookie_jar" where
  "set_cookie text jar =
     (let pair = takeWhile (\<lambda>c. c \<noteq> CHR '';'') text;
          name = takeWhile (\<lambda>c. c \<noteq> CHR ''='') pair
      in if name = pair then put_cookie [] (trim pair) jar
         else put_cookie (trim name) (trim (drop (Suc (length name)) pair)) jar)"

section \<open>Reading and writing a cookie\<close>

text \<open>\<open>indexOf\<close>, from the start.\<close>

fun text_index :: "string \<Rightarrow> string \<Rightarrow> nat option" where
  "text_index pat [] = (if pat = [] then Some 0 else None)"
| "text_index pat (c # s) =
     (if take (length pat) (c # s) = pat then Some 0 else map_option Suc (text_index pat s))"

definition cookie_key :: "string \<Rightarrow> string" where
  "cookie_key cookie = ''doxygen'' @ ''_'' @ cookie"

text \<open>\<open>None\<close> is the 0 that the code returns when it finds no cookie.\<close>

definition readCookie :: "string \<Rightarrow> cookie_jar \<Rightarrow> string option" where
  "readCookie cookie jar =
     (let myCookie = cookie_key cookie @ ''=''; text = cookie_text jar
      in if text = [] then None
         else map_option (\<lambda>index. takeWhile (\<lambda>c. c \<noteq> CHR '';'') (drop (index + length myCookie) text))
                (text_index myCookie text))"

text \<open>
  Nothing is written when the value is undefined. An expiration that is not given is ten years
  from now: \<open>now\<close> is the time in milliseconds, and \<open>toGMTString\<close> writes such a time.
\<close>

definition default_expiration :: "int \<Rightarrow> int" where
  "default_expiration now = now + 10 * 365 * 24 * 60 * 60 * 1000"

definition writeCookie ::
    "(int \<Rightarrow> string) \<Rightarrow> int \<Rightarrow> string \<Rightarrow> string option \<Rightarrow> string option \<Rightarrow> cookie_jar \<Rightarrow> cookie_jar" where
  "writeCookie toGMTString now cookie val expiration jar =
     (case val of
        None \<Rightarrow> jar
      | Some v \<Rightarrow>
          (let expiration = (case expiration of None \<Rightarrow> toGMTString (default_expiration now) | Some e \<Rightarrow> e)
           in set_cookie (cookie_key cookie @ ''='' @ v @ ''; expires='' @ expiration @ ''; path=/'') jar))"

section \<open>The panel\<close>

text \<open>
  The sizes that the code sets, in pixels, \<open>None\<close> for a number that is \<open>NaN\<close>; the width of the
  panel is set to the text of the cookie with its unit, empty while it is not set.
\<close>

record panel =
  content_margin :: "int option"
  content_height :: "int option"
  navtree_height :: "int option"
  sidenav_height :: "int option"
  sidenav_top :: "int option"
  sidenav_width :: string
  location_href :: string
  cookies :: cookie_jar

text \<open>\<open>parseInt\<close>: blanks, a sign, the prefix of base 16, and the digits that follow.\<close>

definition parse_digits :: "string \<Rightarrow> int option" where
  "parse_digits s =
     (let (base, s) = (if take 2 s \<in> {''0x'', ''0X''} then (16, drop 2 s) else (10, s));
          ds = takeWhile (is_digit base) s
      in if ds = [] then None else Some (number_of base ds))"

definition parse_int :: "string \<Rightarrow> int option" where
  "parse_int s =
     (case dropWhile (\<lambda>c. (of_char c :: nat) \<in> {9, 10, 11, 12, 13, 32, 160}) s of
        c # t \<Rightarrow> if c = CHR ''-'' then map_option uminus (parse_digits t)
                 else if c = CHR ''+'' then parse_digits t else parse_digits (c # t)
      | [] \<Rightarrow> None)"

definition resizeWidth :: "(int \<Rightarrow> string) \<Rightarrow> int \<Rightarrow> nat \<Rightarrow> panel \<Rightarrow> panel" where
  "resizeWidth toGMTString now sidenavWidth p =
     p\<lparr>content_margin := Some (int sidenavWidth),
       cookies := writeCookie toGMTString now ''width'' (Some (digits 10 sidenavWidth)) None (cookies p)\<rparr>"

definition restoreWidth :: "string \<Rightarrow> panel \<Rightarrow> panel" where
  "restoreWidth navWidth p =
     p\<lparr>content_margin := map_option (\<lambda>n. n + 6) (parse_int navWidth),
       sidenav_width := navWidth @ ''px''\<rparr>"

definition resizeHeight :: "int \<Rightarrow> int \<Rightarrow> int \<Rightarrow> panel \<Rightarrow> panel" where
  "resizeHeight window headerHeight footerHeight p =
     (let windowHeight = window - headerHeight - footerHeight
      in p\<lparr>content_height := Some windowHeight, navtree_height := Some windowHeight,
           sidenav_height := Some windowHeight, sidenav_top := Some headerHeight\<rparr>)"

text \<open>
  At the end the anchor of the page is set to itself, so that the browser goes to it again now
  that the panel has its size. \<open>set_hash\<close> is the assignment to \<open>window.location.hash\<close>.
\<close>

definition set_hash :: "string \<Rightarrow> string \<Rightarrow> string" where
  "set_hash hash url = takeWhile (\<lambda>c. c \<noteq> CHR ''#'') url @ hash"

definition reset_anchor :: "panel \<Rightarrow> panel" where
  "reset_anchor p =
     (case text_index ''#'' (location_href p) of
        None \<Rightarrow> p
      | Some i \<Rightarrow> p\<lparr>location_href := set_hash (drop i (location_href p)) (location_href p)\<rparr>)"

definition initResizable :: "(int \<Rightarrow> string) \<Rightarrow> int \<Rightarrow> nat \<Rightarrow> int \<Rightarrow> int \<Rightarrow> int \<Rightarrow> panel \<Rightarrow> panel" where
  "initResizable toGMTString now sidenavWidth window headerHeight footerHeight p =
     reset_anchor (resizeHeight window headerHeight footerHeight
       (case readCookie ''width'' (cookies p) of
          Some (c # cs) \<Rightarrow> restoreWidth (c # cs) p
        | _ \<Rightarrow> resizeWidth toGMTString now sidenavWidth p))"

lemma text_index_hash: "text_index ''#'' s = Some i \<Longrightarrow> takeWhile (\<lambda>c. c \<noteq> CHR ''#'') s @ drop i s = s"
  by (induction s arbitrary: i) (auto split: if_splits)

lemma reset_anchor_same [simp]: "reset_anchor p = p"
  by (cases p) (simp add: reset_anchor_def set_hash_def text_index_hash split: option.split)

text \<open>
  A touch that moves is stopped on the devices that would scroll the page, unless it is on an
  element that scrolls by itself: the values of its style from the target of the touch upwards,
  \<open>None\<close> where asking for it throws, as it does at the document.
\<close>

definition is_ios :: "string \<Rightarrow> bool" where
  "is_ios device \<longleftrightarrow> text_index ''iphone'' device \<noteq> None \<or> text_index ''ipod'' device \<noteq> None \<or>
     text_index ''ipad'' device \<noteq> None"

fun scrolls_itself :: "string option list \<Rightarrow> bool" where
  "scrolls_itself [] = False"
| "scrolls_itself (None # styles) = False"
| "scrolls_itself (Some style # styles) = (style = ''touch'' \<or> scrolls_itself styles)"

definition touch_prevented :: "string \<Rightarrow> string option list \<Rightarrow> bool" where
  "touch_prevented device styles \<longleftrightarrow> is_ios device \<and> \<not> scrolls_itself styles"

lemma scrolls_itself_iff:
  "scrolls_itself styles \<longleftrightarrow> Some ''touch'' \<in> set (takeWhile (\<lambda>s. s \<noteq> None) styles)"
  by (induction styles rule: scrolls_itself.induct) auto

section \<open>Finding a cookie\<close>

lemma text_index_separated:
  assumes "x \<notin> set pat" and "pat \<noteq> []"
  shows "text_index pat (s @ x # t) =
    (case text_index pat s of Some i \<Rightarrow> Some i | None \<Rightarrow> map_option (\<lambda>i. i + Suc (length s)) (text_index pat t))"
proof (induction s)
  case Nil
  then show ?case using assms by (cases pat) (auto simp: option.map_comp comp_def)
next
  case (Cons c s)
  have "take (length pat) (c # s @ x # t) = pat \<longleftrightarrow> take (length pat) (c # s) = pat"
  proof (cases "length pat \<le> length (c # s)")
    case True
    then show ?thesis by (simp add: take_Cons split: nat.split)
  next
    case False
    then have "take (length pat) ((c # s) @ x # t) = (c # s) @ x # take (length pat - length (c # s) - 1) t"
      using False by (subst take_append) (cases "length pat - length (c # s)"; simp)
    then have "x \<in> set (take (length pat) (c # s @ x # t))"
      by simp
    moreover have "take (length pat) (c # s) \<noteq> pat"
    proof
      assume "take (length pat) (c # s) = pat"
      then have "length (take (length pat) (c # s)) = length pat" by simp
      with False show False by simp
    qed
    ultimately show ?thesis using assms(1) by metis
  qed
  then show ?case
    using Cons by (auto simp: option.map_comp comp_def split: option.split)
qed

lemma text_index_prefix: "text_index pat (pat @ s) = Some 0"
proof (cases pat)
  case Nil
  then show ?thesis by (cases s) simp_all
next
  case (Cons c cs)
  then show ?thesis by simp
qed

text \<open>A text between separators: a pattern without semicolon that does not start with a blank.\<close>

lemma text_index_next:
  assumes "CHR '';'' \<notin> set pat" and "pat \<noteq> []" and "hd pat \<noteq> CHR '' ''" and "text_index pat s = None"
  shows "text_index pat (s @ ''; '' @ t) = map_option (\<lambda>i. i + length s + 2) (text_index pat t)"
proof -
  have "text_index pat (CHR '' '' # t) = map_option Suc (text_index pat t)"
    using assms(2,3) by (cases pat) auto
  then show ?thesis
    using text_index_separated [OF assms(1,2), of s "CHR '' '' # t"] assms(4)
    by (simp add: option.map_comp comp_def)
qed

lemma put_cookie_cons: "put_cookie n v cs \<noteq> []"
  by (induction cs) (auto split: if_splits)

lemma cookie_text_cons: "cs \<noteq> [] \<Longrightarrow> cookie_text ((n, v) # cs) = (n @ ''='' @ v) @ ''; '' @ cookie_text cs"
  by (cases cs) simp_all

lemma drop_length_append: "drop (length a + n) (a @ b) = drop n b"
  by simp

text \<open>The first cookie of a name, when no other one before it has the key in its text.\<close>

lemma text_index_cookie:
  assumes key: "CHR '';'' \<notin> set pat" "hd pat \<noteq> CHR '' ''" "pat = n @ ''=''"
    and others: "\<forall>(m, w) \<in> set cs. m \<noteq> n \<longrightarrow> text_index pat (m @ ''='' @ w) = None"
  shows "\<exists>i rest. text_index pat (cookie_text (put_cookie n v cs)) = Some i \<and>
    drop (i + length pat) (cookie_text (put_cookie n v cs)) = v @ rest \<and> (rest = [] \<or> hd rest = CHR '';'')"
  using others
proof (induction cs)
  case Nil
  show ?case using text_index_prefix [of pat v] key(3) by (intro exI [of _ 0]) simp
next
  case (Cons c cs)
  obtain m w where c: "c = (m, w)" by (cases c)
  show ?case
  proof (cases "m = n")
    case True
    show ?thesis
    proof (cases "cs = []")
      case True
      then show ?thesis using text_index_prefix [of pat v] key(3) \<open>m = n\<close> c by (intro exI [of _ 0]) simp
    next
      case False
      then show ?thesis
        using text_index_prefix [of pat "v @ ''; '' @ cookie_text cs"] key(3) \<open>m = n\<close> c
        by (intro exI [of _ 0]) (simp add: cookie_text_cons)
    qed
  next
    case False
    then have none: "text_index pat (m @ ''='' @ w) = None" using Cons.prems c by auto
    obtain i rest where i: "text_index pat (cookie_text (put_cookie n v cs)) = Some i"
      and rest: "drop (i + length pat) (cookie_text (put_cookie n v cs)) = v @ rest" "rest = [] \<or> hd rest = CHR '';''"
      using Cons by auto
    have whole: "cookie_text (put_cookie n v (c # cs)) = (m @ ''='' @ w) @ ''; '' @ cookie_text (put_cookie n v cs)"
      using False put_cookie_cons by (simp add: c cookie_text_cons)
    have pat: "pat \<noteq> []" using key(3) by simp
    have "text_index pat (cookie_text (put_cookie n v (c # cs))) = Some (i + length (m @ ''='' @ w) + 2)"
      unfolding whole text_index_next [OF key(1) pat key(2) none] i by simp
    moreover have "drop (i + length (m @ ''='' @ w) + 2 + length pat) (cookie_text (put_cookie n v (c # cs))) = v @ rest"
    proof -
      have "drop (length ((m @ ''='' @ w) @ ''; '') + (i + length pat))
          (((m @ ''='' @ w) @ ''; '') @ cookie_text (put_cookie n v cs)) = v @ rest"
        unfolding drop_length_append by (rule rest(1))
      moreover have "length ((m @ ''='' @ w) @ ''; '') + (i + length pat) = i + length (m @ ''='' @ w) + 2 + length pat"
        by simp
      ultimately show ?thesis unfolding whole by (simp only: append_assoc)
    qed
    ultimately show ?thesis using rest(2) by blast
  qed
qed

text \<open>What an assignment sets.\<close>

definition plain_value :: "string \<Rightarrow> bool" where
  "plain_value v \<longleftrightarrow> CHR '';'' \<notin> set v \<and> trim v = v"

lemma trim_plain: "trim (CHR ''d'' # s @ [x]) = CHR ''d'' # s @ [x]" if "x \<noteq> CHR '' ''" for x s
  using that by (simp add: trim_def)

lemma takeWhile_upto: "x \<notin> set s \<Longrightarrow> takeWhile (\<lambda>c. c \<noteq> x) (s @ x # t) = s"
  by (induction s) auto

lemma written_cookie:
  assumes "plain_value v" and key: "CHR '';'' \<notin> set cookie" "CHR ''='' \<notin> set cookie" "trim (cookie_key cookie) = cookie_key cookie"
  shows "writeCookie toGMTString now cookie (Some v) expiration jar = put_cookie (cookie_key cookie) v jar"
proof -
  define e where "e = (case expiration of None \<Rightarrow> toGMTString (default_expiration now) | Some e \<Rightarrow> e)"
  let ?text = "cookie_key cookie @ ''='' @ v @ ''; expires='' @ e @ ''; path=/''"
  have plain: "CHR '';'' \<notin> set (cookie_key cookie @ ''='' @ v)"
    using assms by (auto simp: plain_value_def cookie_key_def)
  have pair: "takeWhile (\<lambda>c. c \<noteq> CHR '';'') ?text = cookie_key cookie @ ''='' @ v"
    using takeWhile_upto [OF plain, of "'' expires='' @ e @ ''; path=/''"] by simp
  have name: "takeWhile (\<lambda>c. c \<noteq> CHR ''='') (cookie_key cookie @ ''='' @ v) = cookie_key cookie"
    using takeWhile_upto [of "CHR ''=''" "cookie_key cookie" v] key(2) by (simp add: cookie_key_def)
  have split: "set_cookie ?text jar = put_cookie (trim (cookie_key cookie)) (trim v) jar"
    unfolding set_cookie_def Let_def pair name by simp
  show ?thesis
    unfolding writeCookie_def option.case Let_def e_def [symmetric] split using assms(1) key(3) by (simp add: plain_value_def)
qed

theorem cookie_read_back:
  assumes "plain_value v" and key: "CHR '';'' \<notin> set cookie" "CHR ''='' \<notin> set cookie" "trim (cookie_key cookie) = cookie_key cookie"
    and others: "\<forall>(m, w) \<in> set jar. m \<noteq> cookie_key cookie \<longrightarrow> text_index (cookie_key cookie @ ''='') (m @ ''='' @ w) = None"
  shows "readCookie cookie (writeCookie toGMTString now cookie (Some v) expiration jar) = Some v"
proof -
  let ?pat = "cookie_key cookie @ ''=''" and ?text = "cookie_text (put_cookie (cookie_key cookie) v jar)"
  have "CHR '';'' \<notin> set ?pat" "hd ?pat \<noteq> CHR '' ''"
    using key(1) by (simp_all add: cookie_key_def)
  then obtain i rest where i: "text_index ?pat ?text = Some i"
    and rest: "drop (i + length ?pat) ?text = v @ rest" "rest = [] \<or> hd rest = CHR '';''"
    using text_index_cookie [OF _ _ refl others, of v] by blast
  have "takeWhile (\<lambda>c. c \<noteq> CHR '';'') (v @ rest) = v"
    using rest(2) assms(1) takeWhile_upto [of "CHR '';''" v "tl rest"]
    by (cases rest) (auto simp: plain_value_def)
  moreover have "?text \<noteq> []" using i by (cases ?text) (auto simp: cookie_key_def)
  ultimately show ?thesis
    by (simp add: written_cookie [OF assms(1) key] readCookie_def Let_def i rest(1) del: length_append)
qed

section \<open>The width of the panel\<close>

lemma digits_plain: "plain_value (digits 10 n)"
proof -
  have digit: "c \<noteq> CHR '';'' \<and> c \<noteq> CHR '' ''" if "c \<in> set (digits 10 n)" for c
  proof -
    have "is_digit 10 c"
      using digits_are_digits [of 10 n] that by (simp add: list_all_iff)
    then show ?thesis by (auto simp: is_digit_def digit_value_def)
  qed
  have kept: "dropWhile (\<lambda>c. c = CHR '' '') s = s" if "\<forall>c\<in>set s. c \<noteq> CHR '' ''" for s
    using that by (cases s) simp_all
  have "trim (digits 10 n) = digits 10 n"
    using kept [of "digits 10 n"] kept [of "rev (digits 10 n)"] digit by (simp add: trim_def)
  then show ?thesis
    using digit by (auto simp: plain_value_def)
qed

text \<open>The name of no other cookie and no value holds the key of the width.\<close>

definition only_width :: "cookie_jar \<Rightarrow> bool" where
  "only_width jar \<longleftrightarrow>
     list_all (\<lambda>(m, w). m = ''doxygen_width'' \<or> text_index ''doxygen_width='' (m @ ''='' @ w) = None) jar"

text \<open>
  A setting that a page keeps in a store, written at some time: what is written is read back, and
  the store stays one that keeps it. So the last value written is read.
\<close>

locale kept_setting =
  fixes put :: "int \<Rightarrow> string \<Rightarrow> 's \<Rightarrow> 's" and get :: "'s \<Rightarrow> string option" and keeps :: "'s \<Rightarrow> bool"
  assumes put_get: "keeps s \<Longrightarrow> plain_value v \<Longrightarrow> get (put now v s) = Some v"
    and put_keeps: "keeps s \<Longrightarrow> plain_value v \<Longrightarrow> keeps (put now v s)"
begin

abbreviation puts :: "(int \<times> string) list \<Rightarrow> 's \<Rightarrow> 's" where
  "puts \<equiv> fold (\<lambda>(now, v). put now v)"

lemma puts_keep: "keeps s \<Longrightarrow> list_all (\<lambda>(_, v). plain_value v) vs \<Longrightarrow> keeps (puts vs s)"
  by (induction vs arbitrary: s) (auto simp: put_keeps)

lemma last_put:
  "keeps s \<Longrightarrow> list_all (\<lambda>(_, v). plain_value v) vs \<Longrightarrow> vs \<noteq> [] \<Longrightarrow> get (puts vs s) = Some (snd (last vs))"
  by (cases vs rule: rev_cases) (auto simp: puts_keep put_get)

end

lemma only_width_put: "only_width jar \<Longrightarrow> only_width (put_cookie ''doxygen_width'' v jar)"
  by (induction jar) (auto simp: only_width_def)

lemma width_key: "cookie_key ''width'' = ''doxygen_width''" "trim ''doxygen_width'' = ''doxygen_width''"
  by (simp_all add: cookie_key_def trim_def)

interpretation width: kept_setting
  "\<lambda>now v. writeCookie toGMTString now ''width'' (Some v) None" "readCookie ''width''" only_width
  for toGMTString
proof
  fix s v now assume s: "only_width s" and v: "plain_value v"
  show "readCookie ''width'' (writeCookie toGMTString now ''width'' (Some v) None s) = Some v"
  proof (rule cookie_read_back [OF v])
    show "\<forall>(m, w)\<in>set s. m \<noteq> cookie_key ''width'' \<longrightarrow> text_index (cookie_key ''width'' @ ''='') (m @ ''='' @ w) = None"
      using s by (auto simp: only_width_def width_key list_all_iff)
  qed (simp_all add: width_key)
  have "writeCookie toGMTString now ''width'' (Some v) None s = put_cookie (cookie_key ''width'') v s"
    by (rule written_cookie [OF v]) (simp_all add: width_key)
  then show "only_width (writeCookie toGMTString now ''width'' (Some v) None s)"
    using only_width_put [OF s] by (simp add: width_key)
qed

text \<open>The resizes, each with its time and the width it leaves.\<close>

lemma resizes_cookies:
  "cookies (fold (\<lambda>(now, w). resizeWidth toGMTString now w) ws p) =
     fold (\<lambda>(now, v). writeCookie toGMTString now ''width'' (Some v) None)
       (map (\<lambda>(now, w). (now, digits 10 w)) ws) (cookies p)"
  by (induction ws arbitrary: p) (auto simp: resizeWidth_def)

lemma width_read_back:
  assumes "only_width (cookies p)" and "ws \<noteq> []"
  shows "readCookie ''width'' (cookies (fold (\<lambda>(now, w). resizeWidth toGMTString now w) ws p)) =
    Some (digits 10 (snd (last ws)))"
proof -
  have "list_all (\<lambda>(_, v). plain_value v) (map (\<lambda>(now, w). (now, digits 10 w)) ws)"
    by (auto simp: list_all_iff digits_plain)
  then show ?thesis
    using width.last_put [OF assms(1)] assms(2)
    by (simp add: resizes_cookies last_map split: prod.split)
qed

lemma parse_digits_plain:
  assumes "s \<noteq> []" and "list_all (is_digit 10) s"
  shows "parse_int s = Some (number_of 10 s)"
proof -
  obtain c t where s: "s = c # t" using assms(1) by (cases s) auto
  have digits: "takeWhile (is_digit 10) s = s"
    using assms(2) by (simp add: list_all_iff)
  have c: "48 \<le> (of_char c :: nat) \<and> (of_char c :: nat) \<le> 57"
    using assms(2) by (auto simp: s is_digit_def digit_value_def Let_def split: if_splits)
  have x: "take 2 s \<notin> {''0x'', ''0X''}"
  proof
    assume "take 2 s \<in> {''0x'', ''0X''}"
    then have "CHR ''x'' \<in> set s \<or> CHR ''X'' \<in> set s"
      by (metis insertE in_set_takeD list.set_intros singletonD)
    then have "is_digit 10 (CHR ''x'') \<or> is_digit 10 (CHR ''X'')"
      using assms(2) by (auto simp: list_all_iff)
    then show False by (simp add: is_digit_def digit_value_def)
  qed
  have "parse_digits s = Some (number_of 10 s)"
    unfolding parse_digits_def using x assms(1) by (simp add: digits Let_def)
  moreover have "(of_char c :: nat) \<notin> {9, 10, 11, 12, 13, 32, 160}" "c \<noteq> CHR ''-''" "c \<noteq> CHR ''+''"
    using c by auto
  ultimately show ?thesis by (simp add: parse_int_def s)
qed

lemma parse_written: "parse_int (digits 10 n) = Some (int n)"
  using parse_digits_plain [OF digits_not_empty digits_are_digits] number_of_digits [of 10 n] by simp

text \<open>
  C39. The width survives: a page that finds the cookies that some resizes left, at whatever times,
  restores the panel to the last width \<open>w\<close> and the margin of the contents to \<open>w + 6\<close>, and leaves
  the cookie as it is, when no other cookie holds the text of its key.
\<close>

theorem width_restored:
  assumes "only_width (cookies p)" and "ws \<noteq> []"
    and "cookies q = cookies (fold (\<lambda>(now, w). resizeWidth toGMTString now w) ws p)"
    and "q' = initResizable toGMTString now' w' window header footer q"
  shows "sidenav_width q' = digits 10 (snd (last ws)) @ ''px'' \<and>
    content_margin q' = Some (int (snd (last ws)) + 6) \<and>
    readCookie ''width'' (cookies q') = Some (digits 10 (snd (last ws)))"
proof -
  let ?w = "snd (last ws)"
  have read: "readCookie ''width'' (cookies q) = Some (digits 10 ?w)"
    using width_read_back [OF assms(1,2)] assms(3) by simp
  obtain c cs where digits: "digits 10 ?w = c # cs"
    using digits_not_empty [of 10 ?w] by (cases "digits 10 ?w") auto
  have "q' = resizeHeight window header footer (restoreWidth (digits 10 ?w) q)"
    by (simp add: assms(4) initResizable_def read digits)
  then show ?thesis
    by (simp add: resizeHeight_def restoreWidth_def parse_written Let_def read)
qed

definition demo_panel :: panel where
  "demo_panel = \<lparr>content_margin = None, content_height = None, navtree_height = None,
     sidenav_height = None, sidenav_top = None, sidenav_width = [], location_href = ''files.html#top'',
     cookies = [(''lang'', ''en''), (''doxygen_width'', ''250'')]\<rparr>"

definition demo_date :: "int \<Rightarrow> string" where
  "demo_date ms = ''Thu, 01 Jan 2026 00:00:00 GMT''"

definition demo_resized :: panel where
  "demo_resized = fold (\<lambda>(now, w). resizeWidth demo_date now w) [(0, 270), (50, 300)] demo_panel"

theorem width_restored_witness:
  "sidenav_width (initResizable demo_date 99 250 800 60 20 demo_resized) = digits 10 300 @ ''px'' \<and>
   content_margin (initResizable demo_date 99 250 800 60 20 demo_resized) = Some 306 \<and>
   readCookie ''width'' (cookies (initResizable demo_date 99 250 800 60 20 demo_resized)) = Some (digits 10 300)"
proof -
  have "only_width (cookies demo_panel)" by (simp add: demo_panel_def only_width_def)
  moreover have "[(0 :: int, 270 :: nat), (50, 300)] \<noteq> []" by simp
  moreover have "cookies demo_resized =
      cookies (fold (\<lambda>(now, w). resizeWidth demo_date now w) [(0, 270), (50, 300)] demo_panel)"
    by (simp only: demo_resized_def)
  ultimately show ?thesis
    using width_restored [of demo_panel "[(0, 270), (50, 300)]" demo_resized demo_date
        "initResizable demo_date 99 250 800 60 20 demo_resized" 99 250 800 60 20] by simp
qed

text \<open>
  The key of a cookie is sought in the whole text, so a cookie whose name ends in the key is read
  in its place.
\<close>

theorem longer_name_is_read:
  "readCookie ''width'' [(''my_doxygen_width'', ''12''), (''doxygen_width'', ''250'')] = Some ''12''"
  by (simp add: readCookie_def cookie_key_def)

end
