(* ===== verification/Directory.thy ===== *)
theory Directory
  imports Numerals Page_Events
begin

text \<open>
  dynsections.js: the directory table of the manual, whose rows open and close like folders, and
  the sections and groups of inherited members that are shown or hidden.
\<close>

section \<open>The rows\<close>

text \<open>
  A row: its identifier, the class of its folder icon and the text of its arrow if it has them,
  whether it is visible, and whether it has the class of the even rows.
\<close>

datatype folder_icon = Iconfopen | Iconfclosed

record dir_row =
  row_id :: string
  folder_icon :: "folder_icon option"
  arrow :: "string option"
  visible :: bool
  even_row :: bool

definition down_arrow :: string where "down_arrow = ''&#9660;''"
definition right_arrow :: string where "right_arrow = ''&#9658;''"

text \<open>Among the visible rows, every other one is even, from the first.\<close>

fun stripes :: "nat \<Rightarrow> dir_row list \<Rightarrow> dir_row list" where
  "stripes n [] = []"
| "stripes n (r # rs) =
     (if visible r then r\<lparr>even_row := even n\<rparr> # stripes (Suc n) rs
      else r\<lparr>even_row := False\<rparr> # stripes n rs)"

definition updateStripes :: "dir_row list \<Rightarrow> dir_row list" where
  "updateStripes rows = stripes 0 rows"

section \<open>Showing the rows down to a level\<close>

text \<open>\<open>id.split('_').length-1\<close>\<close>

definition underscores :: "string \<Rightarrow> nat" where
  "underscores s = length (filter (\<lambda>c. c = CHR ''_'') s)"

definition set_icon :: "folder_icon \<Rightarrow> dir_row \<Rightarrow> dir_row" where
  "set_icon i r = r\<lparr>folder_icon := map_option (\<lambda>_. i) (folder_icon r)\<rparr>"

definition set_arrow :: "string \<Rightarrow> dir_row \<Rightarrow> dir_row" where
  "set_arrow a r = r\<lparr>arrow := map_option (\<lambda>_. a) (arrow r)\<rparr>"

definition level_row :: "nat \<Rightarrow> dir_row \<Rightarrow> dir_row" where
  "level_row level r =
     (let l = underscores (row_id r) in
      if l < level + 1 then (set_arrow down_arrow (set_icon Iconfopen r))\<lparr>visible := True\<rparr>
      else if l = level + 1 then (set_arrow right_arrow (set_icon Iconfclosed r))\<lparr>visible := True\<rparr>
      else r\<lparr>visible := False\<rparr>)"

definition toggleLevel :: "nat \<Rightarrow> dir_row list \<Rightarrow> dir_row list" where
  "toggleLevel level rows = updateStripes (map (level_row level) rows)"

section \<open>Opening and closing a folder\<close>

definition lower_char :: "char \<Rightarrow> char" where
  "lower_char c = (let n = of_char c :: nat in if 65 \<le> n \<and> n \<le> 90 then char_of (n + 32) else c)"

text \<open>\<open>RegExp('^row_'+id+'\\d+_$', "i")\<close>; the identifiers have no special characters.\<close>

definition matches_child :: "string \<Rightarrow> string \<Rightarrow> bool" where
  "matches_child fid s \<longleftrightarrow>
     (let start = ''row_'' @ fid; n = length start; rest = drop n s in
      map lower_char (take n s) = map lower_char start \<and>
      rest \<noteq> [] \<and> last rest = CHR ''_'' \<and> butlast rest \<noteq> [] \<and> list_all (is_digit 10) (butlast rest))"

text \<open>The icon changes only if it has the class that is replaced.\<close>

definition replace_icon :: "folder_icon \<Rightarrow> folder_icon \<Rightarrow> dir_row \<Rightarrow> dir_row" where
  "replace_icon i j r = (if folder_icon r = Some i then r\<lparr>folder_icon := Some j\<rparr> else r)"

definition below_row :: "string \<Rightarrow> dir_row \<Rightarrow> bool" where
  "below_row fid r \<longleftrightarrow> take (length (''row_'' @ fid)) (row_id r) = ''row_'' @ fid"

definition hide_below :: "string \<Rightarrow> dir_row \<Rightarrow> dir_row" where
  "hide_below fid r = (if below_row fid r then r\<lparr>visible := False\<rparr> else r)"

definition show_child :: "string \<Rightarrow> dir_row \<Rightarrow> dir_row" where
  "show_child fid r =
     (if matches_child fid (row_id r)
      then (set_arrow right_arrow (replace_icon Iconfopen Iconfclosed r))\<lparr>visible := True\<rparr>
      else r)"

fun row_number :: "string \<Rightarrow> dir_row list \<Rightarrow> nat option" where
  "row_number s [] = None"
| "row_number s (r # rs) = (if row_id r = s then Some 0 else map_option Suc (row_number s rs))"

definition first_visible :: "dir_row list \<Rightarrow> bool" where
  "first_visible rows = (case rows of [] \<Rightarrow> False | r # _ \<Rightarrow> visible r)"

definition toggleFolder :: "string \<Rightarrow> dir_row list \<Rightarrow> dir_row list" where
  "toggleFolder fid rows =
     (case row_number (''row_'' @ fid) rows of
        None \<Rightarrow> updateStripes rows
      | Some k \<Rightarrow>
          (let currentRow = rows ! k; after = drop (Suc k) rows;
               childRows = filter (\<lambda>r. matches_child fid (row_id r)) after
           in updateStripes
                (if first_visible childRows
                 then take k rows @
                      set_arrow right_arrow (replace_icon Iconfopen Iconfclosed currentRow) #
                      map (hide_below fid) after
                 else take k rows @
                      set_arrow down_arrow (replace_icon Iconfclosed Iconfopen currentRow) #
                      map (show_child fid) after)))"

section \<open>Sections and inherited members\<close>

text \<open>
  A section: whether its contents and its summary are visible, whether its head has the class of
  closed sections, and the image of its trigger.
\<close>

record dyn_section =
  content_visible :: bool
  summary_visible :: bool
  head_closed :: bool
  trigger_src :: string

definition cut_end :: "nat \<Rightarrow> string \<Rightarrow> string" where
  "cut_end n s = take (length s - n) s"

definition toggleVisibility :: "dyn_section \<Rightarrow> dyn_section" where
  "toggleVisibility s =
     (if content_visible s
      then s\<lparr>content_visible := False, summary_visible := True, head_closed := True,
             trigger_src := cut_end 8 (trigger_src s) @ ''closed.png''\<rparr>
      else s\<lparr>content_visible := True, summary_visible := False, head_closed := False,
             trigger_src := cut_end 10 (trigger_src s) @ ''open.png''\<rparr>)"

text \<open>The rows of a group of inherited members, by whether they are shown, and the image of its head.\<close>

definition toggleInherit :: "bool list \<times> string \<Rightarrow> bool list \<times> string" where
  "toggleInherit = (\<lambda>(rows, src).
     (if rows \<noteq> [] \<and> hd rows
      then (map (\<lambda>_. False) rows, cut_end 8 src @ ''closed.png'')
      else (map (\<lambda>_. True) rows, cut_end 10 src @ ''open.png'')))"

text \<open>
  The element whose contents are the tooltip of a link: what follows the last slash, with an
  underscore for each character that an identifier cannot have.
\<close>

definition tooltip_id :: "string \<Rightarrow> string" where
  "tooltip_id href =
     map (\<lambda>c. let n = of_char c :: nat in
            if 48 \<le> n \<and> n \<le> 57 \<or> 65 \<le> n \<and> n \<le> 90 \<or> n = 95 \<or> 97 \<le> n \<and> n \<le> 122 then c else CHR ''_'')
       (rev (takeWhile (\<lambda>c. c \<noteq> CHR ''/'') (rev href)))"

lemma tooltip_id_of_page: "CHR ''/'' \<notin> set s \<Longrightarrow> tooltip_id (p @ ''/'' @ s) = tooltip_id s"
proof -
  assume "CHR ''/'' \<notin> set s"
  then have "takeWhile (\<lambda>c. c \<noteq> CHR ''/'') (rev s @ t) = rev s @ takeWhile (\<lambda>c. c \<noteq> CHR ''/'') t" for t
    by (intro takeWhile_append2) auto
  from this [of "CHR ''/'' # rev p"] this [of "[]"]
  have "takeWhile (\<lambda>c. c \<noteq> CHR ''/'') (rev (p @ ''/'' @ s)) = takeWhile (\<lambda>c. c \<noteq> CHR ''/'') (rev s)"
    by (simp only: rev_append append_assoc rev.simps append.simps takeWhile.simps append_Nil2 simp_thms if_False)
  then show ?thesis
    by (simp only: tooltip_id_def)
qed

section \<open>The paths of the rows\<close>

text \<open>The identifier of a row is its path: the numbers of the folders on the way, and its own.\<close>

definition path_text :: "nat list \<Rightarrow> string" where
  "path_text p = concat (map (\<lambda>n. digits 10 n @ ''_'') p)"

lemma path_text_simps [simp]:
  "path_text [] = []" "path_text (n # p) = digits 10 n @ CHR ''_'' # path_text p"
  "path_text (p @ q) = path_text p @ path_text q"
  by (simp_all add: path_text_def)

lemma digit_chars:
  assumes "c \<in> set (digits 10 n)"
  shows "is_digit 10 c" "c \<noteq> CHR ''_''" "lower_char c = c"
proof -
  show digit: "is_digit 10 c"
    using digits_are_digits [of 10 n] assms by (simp add: list_all_iff)
  then show "c \<noteq> CHR ''_''" by (auto simp: is_digit_def digit_value_def)
  show "lower_char c = c"
    using digit by (auto simp: is_digit_def digit_value_def lower_char_def Let_def split: if_splits)
qed

lemma path_text_lower: "map lower_char (path_text p) = path_text p"
proof -
  have "map lower_char (digits 10 n) = digits 10 n" for n
    by (rule map_idI) (rule digit_chars(3))
  moreover have "lower_char CHR ''_'' = CHR ''_''" by (simp add: lower_char_def)
  ultimately show ?thesis by (induction p) simp_all
qed

lemma underscores_path: "underscores (path_text p) = length p"
proof (induction p)
  case (Cons n p)
  have "filter (\<lambda>c. c = CHR ''_'') (digits 10 n) = []"
    using digit_chars(2) [of _ n] by (auto simp: filter_empty_conv)
  then show ?case using Cons by (simp add: underscores_def)
qed (simp add: underscores_def)

lemma split_at_first:
  assumes "x \<notin> set a" and "x \<notin> set b" and "a @ x # s = b @ x # t"
  shows "a = b \<and> s = t"
  using assms
proof (induction a arbitrary: b)
  case Nil
  then show ?case by (cases b) auto
next
  case (Cons y a)
  then show ?case by (cases b) auto
qed

lemma path_text_append_eq:
  "path_text q = path_text p @ s \<Longrightarrow> \<exists>r. q = p @ r \<and> path_text r = s"
proof (induction p arbitrary: q)
  case (Cons n p)
  then obtain m q' where q: "q = m # q'" by (cases q) auto
  have "digits 10 m = digits 10 n \<and> path_text q' = path_text p @ s"
    using Cons.prems digit_chars(2) unfolding q path_text_simps by (intro split_at_first [of "CHR ''_''"]) auto
  then show ?case
    using Cons.IH [of q'] digits_inject [of 10 m n] by (auto simp: q)
qed simp

lemma last_path_text: "p \<noteq> [] \<Longrightarrow> path_text p \<noteq> [] \<and> last (path_text p) = CHR ''_''"
proof (induction p)
  case (Cons n p)
  then show ?case by (cases p) simp_all
qed simp

text \<open>What the two patterns of \<open>toggleFolder\<close> match.\<close>

lemma below_path:
  assumes "row_id r = ''row_'' @ path_text q"
  shows "below_row (path_text p) r \<longleftrightarrow> (\<exists>s. q = p @ s)"
proof
  assume "below_row (path_text p) r"
  then have "path_text q = path_text p @ drop (length (path_text p)) (path_text q)"
    using assms by (simp add: below_row_def) (metis append_take_drop_id)
  then show "\<exists>s. q = p @ s" using path_text_append_eq by blast
qed (auto simp: below_row_def assms)

lemma child_path: "matches_child (path_text p) (''row_'' @ path_text q) \<longleftrightarrow> (\<exists>n. q = p @ [n])"
proof
  let ?rest = "drop (length (path_text p)) (path_text q)"
  assume match: "matches_child (path_text p) (''row_'' @ path_text q)"
  have "map lower_char (take (length (path_text p)) (path_text q)) = map lower_char (path_text p)"
    using match by (simp add: matches_child_def Let_def)
  then have "take (length (path_text p)) (path_text q) = path_text p"
    using path_text_lower [of q] path_text_lower [of p] by (simp flip: take_map)
  then have "path_text q = path_text p @ ?rest" by (metis append_take_drop_id)
  then obtain s where q: "q = p @ s" and s: "path_text s = ?rest"
    using path_text_append_eq by blast
  have rest: "?rest \<noteq> []" "last ?rest = CHR ''_''" "list_all (is_digit 10) (butlast ?rest)"
    using match by (simp_all add: matches_child_def Let_def)
  have "underscores (butlast ?rest) = 0"
    using rest(3) by (auto simp: underscores_def filter_empty_conv list_all_iff is_digit_def digit_value_def)
  moreover have "underscores ?rest = underscores (butlast ?rest) + underscores [last ?rest]"
    using rest(1) unfolding underscores_def
    by (metis append_butlast_last_id filter_append length_append)
  ultimately have "length s = 1"
    using underscores_path [of s] rest(2) s by (simp add: underscores_def)
  then show "\<exists>n. q = p @ [n]" using q by (cases s) auto
next
  assume "\<exists>n. q = p @ [n]"
  then obtain n where "q = p @ [n]" by blast
  then show "matches_child (path_text p) (''row_'' @ path_text q)"
    using digits_not_empty [of 10 n] digits_are_digits [of 10 n]
    by (simp add: matches_child_def Let_def butlast_append)
qed

section \<open>What the rows show\<close>

definition row_view :: "dir_row \<Rightarrow> string \<times> folder_icon option \<times> string option \<times> bool" where
  "row_view r = (row_id r, folder_icon r, arrow r, visible r)"

lemma stripes_view: "map row_view (stripes n rows) = map row_view rows"
  by (induction n rows rule: stripes.induct) (simp_all add: row_view_def)

text \<open>
  The table \<open>rows\<close> has the folders \<open>ps\<close>: every row after the row of its folder, which has an icon.
\<close>

definition dir_rows :: "dir_row list \<Rightarrow> nat list list \<Rightarrow> bool" where
  "dir_rows rows ps \<longleftrightarrow>
     length rows = length ps \<and> distinct ps \<and>
     (\<forall>i < length ps. row_id (rows ! i) = ''row_'' @ path_text (ps ! i) \<and> ps ! i \<noteq> [] \<and>
       (tl (ps ! i) \<noteq> [] \<longrightarrow>
         (\<exists>j < i. ps ! j = butlast (ps ! i) \<and> folder_icon (rows ! j) \<noteq> None)))"

definition shown_open :: "dir_row \<Rightarrow> bool" where
  "shown_open r \<longleftrightarrow> visible r \<and> folder_icon r = Some Iconfopen"

text \<open>A row is visible when it is at the top, or its folder is visible and open.\<close>

definition dir_shown :: "dir_row list \<Rightarrow> nat list list \<Rightarrow> bool" where
  "dir_shown rows ps \<longleftrightarrow>
     (\<forall>i < length ps. tl (ps ! i) = [] \<longrightarrow> visible (rows ! i)) \<and>
     (\<forall>i < length ps. \<forall>j < length ps. \<forall>n. ps ! i = ps ! j @ [n] \<longrightarrow>
        (visible (rows ! i) \<longleftrightarrow> shown_open (rows ! j)))"

lemma dir_rows_cong:
  assumes "dir_rows rows ps" and "length rows' = length rows"
    and same: "\<And>i. i < length ps \<Longrightarrow> row_id (rows' ! i) = row_id (rows ! i)"
    "\<And>i. i < length ps \<Longrightarrow> folder_icon (rows ! i) \<noteq> None \<Longrightarrow> folder_icon (rows' ! i) \<noteq> None"
  shows "dir_rows rows' ps"
  unfolding dir_rows_def
proof (intro conjI allI impI)
  show "length rows' = length ps" "distinct ps" using assms(1,2) by (simp_all add: dir_rows_def)
  fix i assume i: "i < length ps"
  show "row_id (rows' ! i) = ''row_'' @ path_text (ps ! i)" "ps ! i \<noteq> []"
    using assms(1) same(1) i by (simp_all add: dir_rows_def)
  assume "tl (ps ! i) \<noteq> []"
  then obtain j where j: "j < i" "ps ! j = butlast (ps ! i)" "folder_icon (rows ! j) \<noteq> None"
    using assms(1) i unfolding dir_rows_def by blast
  then show "\<exists>j<i. ps ! j = butlast (ps ! i) \<and> folder_icon (rows' ! j) \<noteq> None"
    using same(2) [of j] i by auto
qed

lemma dir_shown_cong:
  assumes "\<And>i. i < length ps \<Longrightarrow> visible (rows' ! i) = visible (rows ! i) \<and> folder_icon (rows' ! i) = folder_icon (rows ! i)"
  shows "dir_shown rows' ps = dir_shown rows ps"
  unfolding dir_shown_def shown_open_def using assms by simp

lemma row_view_nth:
  assumes "map row_view rows = map row_view rows'" and "i < length rows"
  shows "row_id (rows ! i) = row_id (rows' ! i)" "folder_icon (rows ! i) = folder_icon (rows' ! i)"
    "visible (rows ! i) = visible (rows' ! i)"
proof -
  have "length rows = length rows'" using assms(1) by (metis length_map)
  then have "row_view (rows ! i) = row_view (rows' ! i)"
    using assms by (metis nth_map)
  then show "row_id (rows ! i) = row_id (rows' ! i)" "folder_icon (rows ! i) = folder_icon (rows' ! i)"
    "visible (rows ! i) = visible (rows' ! i)"
    by (simp_all add: row_view_def)
qed

lemma updateStripes_keeps:
  assumes "dir_rows rows ps" and "dir_shown rows ps"
  shows "dir_rows (updateStripes rows) ps \<and> dir_shown (updateStripes rows) ps"
proof -
  have view: "map row_view (updateStripes rows) = map row_view rows"
    by (simp add: updateStripes_def stripes_view)
  then have len: "length (updateStripes rows) = length rows" by (metis length_map)
  have "length rows = length ps" using assms(1) by (simp add: dir_rows_def)
  then have same: "row_id (updateStripes rows ! i) = row_id (rows ! i)"
    "folder_icon (updateStripes rows ! i) = folder_icon (rows ! i)"
    "visible (updateStripes rows ! i) = visible (rows ! i)" if "i < length ps" for i
    using row_view_nth [OF view, of i] that len by simp_all
  show ?thesis
    using dir_rows_cong [OF assms(1) len same(1)] dir_shown_cong [of ps "updateStripes rows" rows] same assms(2) by simp
qed

text \<open>The folder of a row has an icon, and stands before it.\<close>

lemma parent_row:
  assumes "dir_rows rows ps" and "i < length ps" "j < length ps" "ps ! i = ps ! j @ [n]"
  shows "folder_icon (rows ! j) \<noteq> None" and "j < i" and "ps ! j \<noteq> []"
proof -
  show nonempty: "ps ! j \<noteq> []" using assms(1,3) by (simp add: dir_rows_def)
  then have "tl (ps ! i) \<noteq> []" using assms(4) by simp
  then obtain j' where j': "j' < i" "ps ! j' = butlast (ps ! i)" "folder_icon (rows ! j') \<noteq> None"
    using assms(1,2) unfolding dir_rows_def by blast
  then have "j' = j"
    using assms unfolding dir_rows_def by (simp add: nth_eq_iff_index_eq)
  then show "folder_icon (rows ! j) \<noteq> None" "j < i" using j' by simp_all
qed

lemma toggleLevel_keeps:
  assumes rows: "dir_rows rows ps" and level: "1 \<le> level"
  shows "dir_rows (toggleLevel level rows) ps \<and> dir_shown (toggleLevel level rows) ps"
proof -
  let ?rows = "map (level_row level) rows"
  have len: "length rows = length ps" using rows by (simp add: dir_rows_def)
  have nth: "?rows ! i = level_row level (rows ! i)" if "i < length ps" for i
    using that len by simp
  have ids: "underscores (row_id (rows ! i)) = Suc (length (ps ! i))" if "i < length ps" for i
    using rows that underscores_path [of "ps ! i"] by (simp add: dir_rows_def underscores_def)
  have visible: "visible (level_row level (rows ! i)) \<longleftrightarrow> length (ps ! i) \<le> level" if "i < length ps" for i
    using ids [OF that] by (auto simp: level_row_def Let_def)
  have opened: "folder_icon (level_row level (rows ! i)) = Some Iconfopen \<longleftrightarrow> length (ps ! i) < level"
    if "i < length ps" "length (ps ! i) \<le> level" "folder_icon (rows ! i) \<noteq> None" for i
    using ids [OF that(1)] that by (auto simp: level_row_def set_icon_def set_arrow_def Let_def)
  have "dir_rows ?rows ps"
  proof (rule dir_rows_cong [OF rows])
    fix i assume i: "i < length ps"
    show "row_id (?rows ! i) = row_id (rows ! i)"
      using nth [OF i] by (simp add: level_row_def set_icon_def set_arrow_def Let_def)
    show "folder_icon (rows ! i) \<noteq> None \<Longrightarrow> folder_icon (?rows ! i) \<noteq> None"
      using nth [OF i] by (auto simp: level_row_def set_icon_def set_arrow_def Let_def)
  qed simp
  moreover have "dir_shown ?rows ps"
    unfolding dir_shown_def
  proof (intro conjI allI impI)
    fix i assume i: "i < length ps"
    show "visible (?rows ! i)" if "tl (ps ! i) = []"
      using visible [OF i] level that unfolding nth [OF i] by (cases "ps ! i") simp_all
    fix j n assume j: "j < length ps" and child: "ps ! i = ps ! j @ [n]"
    have "length (ps ! i) = Suc (length (ps ! j))" using child by simp
    then show "visible (?rows ! i) \<longleftrightarrow> shown_open (?rows ! j)"
      using visible [OF i] visible [OF j] opened [OF j] parent_row(1) [OF rows i j child]
      unfolding shown_open_def nth [OF i] nth [OF j] by auto
  qed
  ultimately show ?thesis
    unfolding toggleLevel_def by (rule updateStripes_keeps)
qed

section \<open>Clicking a folder\<close>

lemma path_text_inject: "path_text p = path_text q \<Longrightarrow> p = q"
proof -
  assume "path_text p = path_text q"
  then obtain r where "p = q @ r" "path_text r = []"
    using path_text_append_eq [of p q "[]"] by auto
  then show ?thesis by (cases r) auto
qed

lemma row_number_first:
  "k < length rows \<Longrightarrow> row_id (rows ! k) = s \<Longrightarrow> \<forall>i < k. row_id (rows ! i) \<noteq> s \<Longrightarrow> row_number s rows = Some k"
proof (induction rows arbitrary: k)
  case (Cons r rows)
  show ?case
  proof (cases k)
    case (Suc j)
    have "row_id r \<noteq> s" using Cons.prems(3) Suc by auto
    moreover have "\<forall>i < j. row_id (rows ! i) \<noteq> s" using Cons.prems(3) Suc by fastforce
    ultimately show ?thesis using Cons.IH [of j] Cons.prems Suc by simp
  qed (use Cons.prems in simp)
qed simp

lemma row_number_path:
  assumes "dir_rows rows ps" and "k < length ps"
  shows "row_number (''row_'' @ path_text (ps ! k)) rows = Some k"
proof (rule row_number_first)
  show "\<forall>i<k. row_id (rows ! i) \<noteq> ''row_'' @ path_text (ps ! k)"
  proof (intro allI impI notI)
    fix i assume i: "i < k" and same: "row_id (rows ! i) = ''row_'' @ path_text (ps ! k)"
    have "row_id (rows ! i) = ''row_'' @ path_text (ps ! i)"
      using assms i by (simp add: dir_rows_def)
    then have "ps ! i = ps ! k" using same path_text_inject by simp
    then show False using assms i by (simp add: dir_rows_def nth_eq_iff_index_eq)
  qed
qed (use assms in \<open>simp_all add: dir_rows_def\<close>)

definition under :: "nat list list \<Rightarrow> nat \<Rightarrow> nat \<Rightarrow> bool" where
  "under ps k i \<longleftrightarrow> (\<exists>s. s \<noteq> [] \<and> ps ! i = ps ! k @ s)"

text \<open>The folder of a row under \<open>k\<close> is \<open>k\<close> or under \<open>k\<close>; and rows under \<open>k\<close> follow it.\<close>

lemma under_parent:
  assumes "dir_rows rows ps" and "i < length ps" "k < length ps" "under ps k i"
  obtains j n where "j < length ps" "ps ! i = ps ! j @ [n]" "j = k \<or> under ps k j" 
proof -
  obtain s where s: "s \<noteq> []" "ps ! i = ps ! k @ s" using assms(4) by (auto simp: under_def)
  have "ps ! k \<noteq> []" using assms(1,3) by (simp add: dir_rows_def)
  then have "tl (ps ! i) \<noteq> []" using s by simp
  then obtain j where j: "j < i" "ps ! j = butlast (ps ! i)"
    using assms(1,2) unfolding dir_rows_def by blast
  have j_k: "ps ! j = ps ! k @ butlast s" using j(2) s by (simp add: butlast_append)
  have "ps ! i = ps ! j @ [last s]" using s j_k by simp
  moreover have "j = k \<or> under ps k j"
  proof (cases "butlast s = []")
    case True
    then show ?thesis using j_k assms j(1) by (simp add: dir_rows_def nth_eq_iff_index_eq)
  next
    case False
    then show ?thesis using j_k by (auto simp: under_def)
  qed
  ultimately show thesis using that [of j "last s"] j(1) assms(2) by linarith
qed

lemma under_induct:
  assumes "dir_rows rows ps" and "k < length ps"
    and step: "\<And>i j n. i < length ps \<Longrightarrow> j < length ps \<Longrightarrow> ps ! i = ps ! j @ [n] \<Longrightarrow> j = k \<or> (under ps k j \<and> P j) \<Longrightarrow> P i"
  shows "i < length ps \<Longrightarrow> under ps k i \<Longrightarrow> P i"
proof (induction "length (ps ! i)" arbitrary: i rule: less_induct)
  case less
  obtain j n where j: "j < length ps" "ps ! i = ps ! j @ [n]" "j = k \<or> under ps k j"
    using under_parent [OF assms(1) less.prems(1) assms(2) less.prems(2)] .
  then have "j = k \<or> (under ps k j \<and> P j)" using less.hyps by auto
  then show ?case using step less.prems(1) j by blast
qed

lemma under_after:
  assumes "dir_rows rows ps" and "k < length ps" and "i < length ps" and "under ps k i"
  shows "k < i"
proof (rule under_induct [where P = "\<lambda>i. k < i", OF assms(1,2) _ assms(3,4)])
  fix i j n assume "i < length ps" "j < length ps" "ps ! i = ps ! j @ [n]" "j = k \<or> (under ps k j \<and> k < j)"
  then show "k < i" using parent_row(2) [OF assms(1)] by fastforce
qed

lemma nth_around:
  assumes "i < length rows" and "k < length rows"
  shows "(take k rows @ c # map f (drop (Suc k) rows)) ! i =
    (if i < k then rows ! i else if i = k then c else f (rows ! i))"
proof -
  consider "i < k" | "i = k" | d where "i = Suc (k + d)"
    using less_imp_Suc_add by (metis nat_neq_iff add.commute)
  then show ?thesis using assms by cases (simp_all add: nth_append)
qed

text \<open>What a click changes, closing a folder or opening one.\<close>

definition closed_icon :: "bool \<Rightarrow> folder_icon option \<Rightarrow> folder_icon option" where
  "closed_icon b i = (if b \<and> i = Some Iconfopen then Some Iconfclosed else i)"

definition opened_icon :: "bool \<Rightarrow> folder_icon option \<Rightarrow> folder_icon option" where
  "opened_icon b i = (if b \<and> i = Some Iconfclosed then Some Iconfopen else i)"

definition child_of :: "nat list list \<Rightarrow> nat \<Rightarrow> nat \<Rightarrow> bool" where
  "child_of ps k i \<longleftrightarrow> (\<exists>n. ps ! i = ps ! k @ [n])"

lemma child_under: "child_of ps k i \<Longrightarrow> under ps k i"
  by (auto simp: child_of_def under_def)

lemma under_step: "under ps k j \<Longrightarrow> child_of ps j i \<Longrightarrow> under ps k i"
  by (auto simp: child_of_def under_def)

lemma top_not_under: "dir_rows rows ps \<Longrightarrow> k < length ps \<Longrightarrow> tl (ps ! i) = [] \<Longrightarrow> \<not> under ps k i"
  by (cases "ps ! k") (auto simp: under_def dir_rows_def)

text \<open>A row that is not under \<open>k\<close> does not have a folder that is.\<close>

lemma under_child:
  assumes "dir_rows rows ps" "i < length ps" "j < length ps" "k < length ps" "child_of ps j i" "under ps k i"
  shows "j = k \<or> under ps k j"
proof -
  obtain j' n where j': "j' < length ps" "ps ! i = ps ! j' @ [n]" "j' = k \<or> under ps k j'"
    using under_parent [OF assms(1,2,4,6)] .
  then have "ps ! j' = ps ! j" using assms(5) by (auto simp: child_of_def)
  then have "j' = j" using j'(1) assms(1,3) by (simp add: dir_rows_def nth_eq_iff_index_eq)
  then show ?thesis using j'(3) by simp
qed

lemma dir_shown_child:
  "dir_shown rows ps \<longleftrightarrow>
     (\<forall>i < length ps. tl (ps ! i) = [] \<longrightarrow> visible (rows ! i)) \<and>
     (\<forall>i < length ps. \<forall>j < length ps. child_of ps j i \<longrightarrow> (visible (rows ! i) \<longleftrightarrow> shown_open (rows ! j)))"
  by (auto simp: dir_shown_def child_of_def)

lemma closing_shows:
  assumes rows: "dir_rows rows ps" and shown: "dir_shown rows ps" and k: "k < length ps"
    and vis: "\<And>i. i < length ps \<Longrightarrow> visible (rows' ! i) \<longleftrightarrow> visible (rows ! i) \<and> \<not> under ps k i"
    and icon: "\<And>i. i < length ps \<Longrightarrow> folder_icon (rows' ! i) = closed_icon (i = k) (folder_icon (rows ! i))"
  shows "dir_shown rows' ps"
  unfolding dir_shown_child
proof (intro conjI allI impI)
  fix i assume i: "i < length ps"
  show "visible (rows' ! i)" if "tl (ps ! i) = []"
    using vis [OF i] shown top_not_under [OF rows k that] i that by (simp add: dir_shown_def)
  fix j assume j: "j < length ps" and child: "child_of ps j i"
  have before: "visible (rows ! i) \<longleftrightarrow> shown_open (rows ! j)"
    using shown i j child by (simp add: dir_shown_child)
  have not_self: "\<not> under ps k k" by (simp add: under_def)
  show "visible (rows' ! i) \<longleftrightarrow> shown_open (rows' ! j)"
  proof (cases "j = k \<or> under ps k j")
    case True
    then have "under ps k i" using child child_under under_step by blast
    then show ?thesis
      using True vis [OF i] vis [OF j] icon [OF j] by (auto simp: shown_open_def closed_icon_def)
  next
    case False
    then have "\<not> under ps k i" using under_child [OF rows i j k child] by blast
    then show ?thesis
      using False before vis [OF i] vis [OF j] icon [OF j] by (simp add: shown_open_def closed_icon_def)
  qed
qed

lemma hidden_under:
  assumes rows: "dir_rows rows ps" and shown: "dir_shown rows ps" and k: "k < length ps"
    and closed: "\<And>i. i < length ps \<Longrightarrow> child_of ps k i \<Longrightarrow> \<not> visible (rows ! i)"
    and i: "i < length ps" "under ps k i"
  shows "\<not> visible (rows ! i)"
proof (rule under_induct [where P = "\<lambda>i. \<not> visible (rows ! i)", OF rows k _ i])
  fix i j n
  assume i: "i < length ps" and j: "j < length ps" "ps ! i = ps ! j @ [n]" and
    below: "j = k \<or> (under ps k j \<and> \<not> visible (rows ! j))"
  have child: "child_of ps j i" using j(2) by (auto simp: child_of_def)
  then have "visible (rows ! i) \<longleftrightarrow> shown_open (rows ! j)"
    using shown i j(1) by (simp add: dir_shown_child)
  then show "\<not> visible (rows ! i)"
    using below closed [OF i] child by (auto simp: shown_open_def)
qed

lemma opening_shows:
  assumes rows: "dir_rows rows ps" and shown: "dir_shown rows ps" and k: "k < length ps" "visible (rows ! k)"
    and closed: "\<And>i. i < length ps \<Longrightarrow> child_of ps k i \<Longrightarrow> \<not> visible (rows ! i)"
    and vis: "\<And>i. i < length ps \<Longrightarrow> visible (rows' ! i) \<longleftrightarrow> visible (rows ! i) \<or> child_of ps k i"
    and icon: "\<And>i. i < length ps \<Longrightarrow> folder_icon (rows' ! i) =
      closed_icon (child_of ps k i) (opened_icon (i = k) (folder_icon (rows ! i)))"
  shows "dir_shown rows' ps"
  unfolding dir_shown_child
proof (intro conjI allI impI)
  fix i assume i: "i < length ps"
  show "visible (rows' ! i)" if "tl (ps ! i) = []"
    using vis [OF i] shown i that by (simp add: dir_shown_def)
  fix j assume j: "j < length ps" and child: "child_of ps j i"
  have before: "visible (rows ! i) \<longleftrightarrow> shown_open (rows ! j)"
    using shown i j child by (simp add: dir_shown_child)
  have not_self: "\<not> child_of ps k k" by (simp add: child_of_def)
  have one_parent: "child_of ps k i \<Longrightarrow> j = k"
    using child rows j k(1) by (auto simp: child_of_def dir_rows_def nth_eq_iff_index_eq)
  show "visible (rows' ! i) \<longleftrightarrow> shown_open (rows' ! j)"
  proof (cases "j = k")
    case True
    have "folder_icon (rows ! k) \<noteq> None"
      using parent_row(1) [OF rows i j] child True by (auto simp: child_of_def)
    then obtain x where "folder_icon (rows ! k) = Some x" by auto
    then have "folder_icon (rows' ! k) = Some Iconfopen"
      using icon [OF k(1)] not_self by (cases x) (simp_all add: opened_icon_def closed_icon_def)
    then show ?thesis
      using True child vis [OF i] vis [OF k(1)] k(2) by (simp add: shown_open_def)
  next
    case False
    then have i_kept: "visible (rows' ! i) = visible (rows ! i)" using vis [OF i] one_parent by blast
    show ?thesis
    proof (cases "child_of ps k j")
      case True
      have "under ps k i" using child_under [OF True] child under_step by blast
      then have "\<not> visible (rows ! i)" using hidden_under [OF rows shown k(1) closed i] by blast
      moreover have "folder_icon (rows' ! j) \<noteq> Some Iconfopen"
        using icon [OF j] True False by (simp add: closed_icon_def opened_icon_def)
      ultimately show ?thesis using i_kept by (simp add: shown_open_def)
    next
      case no: False
      then show ?thesis
        using i_kept before vis [OF j] icon [OF j] False by (simp add: shown_open_def closed_icon_def opened_icon_def)
    qed
  qed
qed

lemma child_after: "dir_rows rows ps \<Longrightarrow> k < length ps \<Longrightarrow> i < length ps \<Longrightarrow> child_of ps k i \<Longrightarrow> k < i"
  using under_after child_under by blast

lemma matches_child_of:
  assumes "dir_rows rows ps" and "i < length ps"
  shows "matches_child (path_text (ps ! k)) (row_id (rows ! i)) \<longleftrightarrow> child_of ps k i"
proof -
  have "row_id (rows ! i) = ''row_'' @ path_text (ps ! i)" using assms by (simp add: dir_rows_def)
  then show ?thesis by (simp only: child_path child_of_def)
qed

text \<open>The children that the click looks at: they are all visible or none is.\<close>

lemma no_child_visible:
  assumes rows: "dir_rows rows ps" and shown: "dir_shown rows ps" and k: "k < length ps"
    and first: "\<not> first_visible (filter (\<lambda>r. matches_child (path_text (ps ! k)) (row_id r)) (drop (Suc k) rows))"
      (is "\<not> first_visible ?children")
    and i: "i < length ps" and child: "child_of ps k i"
  shows "\<not> visible (rows ! i)"
proof -
  have ids: "row_id (rows ! i) = ''row_'' @ path_text (ps ! i)" if "i < length ps" for i
    using rows that by (simp add: dir_rows_def)
  have len: "length rows = length ps" using rows by (simp add: dir_rows_def)
  have "k < i" using child_after [OF rows k i child] .
  then obtain d where d: "i = Suc k + d" using less_iff_Suc_add by auto
  then have "rows ! i \<in> set (drop (Suc k) rows)"
    using nth_mem [of d "drop (Suc k) rows"] i len by simp
  then have "rows ! i \<in> set ?children"
    using child matches_child_of [OF rows i] by simp
  then obtain r rs where children: "?children = r # rs"
    by (cases ?children) auto
  then have "r \<in> set (drop (Suc k) rows)" and r_child: "matches_child (path_text (ps ! k)) (row_id r)"
    by (auto simp: filter_eq_Cons_iff)
  then obtain j where j: "j < length ps" "rows ! j = r"
    using len by (metis in_set_conv_nth in_set_dropD)
  then have "child_of ps k j"
    using r_child matches_child_of [OF rows j(1)] j(2) by simp
  then have "visible r \<longleftrightarrow> shown_open (rows ! k)"
    using shown j k by (auto simp: dir_shown_child)
  moreover have "visible (rows ! i) \<longleftrightarrow> shown_open (rows ! k)"
    using shown i k child by (auto simp: dir_shown_child)
  ultimately show ?thesis using first children by (simp add: first_visible_def)
qed

lemma toggleFolder_keeps:
  assumes rows: "dir_rows rows ps" and shown: "dir_shown rows ps" and k: "k < length ps" "visible (rows ! k)"
  shows "dir_rows (toggleFolder (path_text (ps ! k)) rows) ps \<and> dir_shown (toggleFolder (path_text (ps ! k)) rows) ps"
proof -
  let ?fid = "path_text (ps ! k)"
  let ?children = "filter (\<lambda>r. matches_child ?fid (row_id r)) (drop (Suc k) rows)"
  have len: "length rows = length ps" using rows by (simp add: dir_rows_def)
  have ids: "row_id (rows ! i) = ''row_'' @ path_text (ps ! i)" if "i < length ps" for i
    using rows that by (simp add: dir_rows_def)
  define hid where "hid = take k rows @
    set_arrow right_arrow (replace_icon Iconfopen Iconfclosed (rows ! k)) # map (hide_below ?fid) (drop (Suc k) rows)"
  define opn where "opn = take k rows @
    set_arrow down_arrow (replace_icon Iconfclosed Iconfopen (rows ! k)) # map (show_child ?fid) (drop (Suc k) rows)"
  have toggled: "toggleFolder ?fid rows = updateStripes (if first_visible ?children then hid else opn)"
    unfolding toggleFolder_def row_number_path [OF rows k(1)] option.case Let_def hid_def opn_def ..
  have below: "below_row ?fid (rows ! i) \<longleftrightarrow> under ps k i" if "i < length ps" "k < i" for i
  proof -
    have "ps ! i \<noteq> ps ! k"
      using rows that k(1) by (simp add: dir_rows_def nth_eq_iff_index_eq)
    then show ?thesis
      unfolding below_path [OF ids [OF that(1)]] under_def by auto
  qed
  have child: "matches_child ?fid (row_id (rows ! i)) \<longleftrightarrow> child_of ps k i" if "i < length ps" for i
    using that by (rule matches_child_of [OF rows])
  have hid_nth: "hid ! i = (if i < k then rows ! i else if i = k
      then set_arrow right_arrow (replace_icon Iconfopen Iconfclosed (rows ! k)) else hide_below ?fid (rows ! i))"
    if "i < length ps" for i
    unfolding hid_def using that k(1) len by (simp only: nth_around)
  have opn_nth: "opn ! i = (if i < k then rows ! i else if i = k
      then set_arrow down_arrow (replace_icon Iconfclosed Iconfopen (rows ! k)) else show_child ?fid (rows ! i))"
    if "i < length ps" for i
    unfolding opn_def using that k(1) len by (simp only: nth_around)
  have not_before: "\<not> under ps k i" if "i < length ps" "i \<le> k" for i
    using under_after [OF rows k(1) that(1)] that(2) by auto
  have hid_ok: "dir_rows hid ps \<and> dir_shown hid ps"
  proof (intro conjI dir_rows_cong [OF rows] closing_shows [OF rows shown k(1)])
    fix i assume i: "i < length ps"
    show "row_id (hid ! i) = row_id (rows ! i)"
      using hid_nth [OF i] by (simp add: set_arrow_def replace_icon_def hide_below_def)
    show "visible (hid ! i) \<longleftrightarrow> visible (rows ! i) \<and> \<not> under ps k i"
      using hid_nth [OF i] below [OF i] not_before [OF i] k(2)
      by (auto simp: set_arrow_def replace_icon_def hide_below_def)
    show "folder_icon (hid ! i) = closed_icon (i = k) (folder_icon (rows ! i))"
      using hid_nth [OF i] by (auto simp: set_arrow_def replace_icon_def hide_below_def closed_icon_def)
    then show "folder_icon (rows ! i) \<noteq> None \<Longrightarrow> folder_icon (hid ! i) \<noteq> None"
      by (auto simp: closed_icon_def)
  qed (use len k(1) in \<open>simp add: hid_def\<close>)
  have opn_ok: "dir_rows opn ps \<and> dir_shown opn ps" if "\<not> first_visible ?children"
  proof (intro conjI dir_rows_cong [OF rows] opening_shows [OF rows shown k no_child_visible [OF rows shown k(1) that]])
    fix i assume i: "i < length ps"
    have before: "i \<le> k \<Longrightarrow> \<not> child_of ps k i"
      using not_before [OF i] child_under by blast
    show "row_id (opn ! i) = row_id (rows ! i)"
      using opn_nth [OF i] by (simp add: set_arrow_def replace_icon_def show_child_def)
    show "visible (opn ! i) \<longleftrightarrow> visible (rows ! i) \<or> child_of ps k i"
      using opn_nth [OF i] child [OF i] before by (auto simp: set_arrow_def replace_icon_def show_child_def)
    show "folder_icon (opn ! i) = closed_icon (child_of ps k i) (opened_icon (i = k) (folder_icon (rows ! i)))"
      using opn_nth [OF i] child [OF i] before
      by (auto simp: set_arrow_def replace_icon_def show_child_def closed_icon_def opened_icon_def)
    then show "folder_icon (rows ! i) \<noteq> None \<Longrightarrow> folder_icon (opn ! i) \<noteq> None"
      by (auto simp: closed_icon_def opened_icon_def)
  qed (use len k(1) in \<open>simp_all add: opn_def\<close>)
  show ?thesis
    unfolding toggled using hid_ok opn_ok updateStripes_keeps by (cases "first_visible ?children") auto
qed

section \<open>The table in use\<close>

text \<open>The rows are shown down to a level, the top one at least, or a visible folder is clicked.\<close>

inductive dir_step :: "nat list list \<Rightarrow> dir_row list \<Rightarrow> dir_row list \<Rightarrow> bool" for ps where
  shows_level: "1 \<le> level \<Longrightarrow> dir_step ps rows (toggleLevel level rows)"
| clicks_folder: "k < length ps \<Longrightarrow> visible (rows ! k) \<Longrightarrow>
    dir_step ps rows (toggleFolder (path_text (ps ! k)) rows)"

lemma dir_step_keeps:
  "dir_step ps rows rows' \<Longrightarrow> dir_rows rows ps \<Longrightarrow> dir_shown rows ps \<Longrightarrow> dir_rows rows' ps \<and> dir_shown rows' ps"
  by (induction rule: dir_step.induct) (simp_all add: toggleLevel_keeps toggleFolder_keeps)

interpretation dir: kept_by_steps "dir_step ps" "\<lambda>rows. dir_rows rows ps \<and> dir_shown rows ps" for ps
  by unfold_locales (use dir_step_keeps in blast)

lemma top_or_parent:
  assumes "dir_rows rows ps" and "i < length ps"
  obtains "tl (ps ! i) = []" | j where "j < length ps" "child_of ps j i"
proof (cases "tl (ps ! i) = []")
  case True
  then show ?thesis using that(1) by blast
next
  case False
  then obtain j where j: "j < i" "ps ! j = butlast (ps ! i)"
    using assms unfolding dir_rows_def by blast
  then have "ps ! i = ps ! j @ [last (ps ! i)]" using False by (cases "ps ! i") simp_all
  then show ?thesis using that(2) [of j] j(1) assms(2) by (auto simp: child_of_def)
qed

lemma visible_under:
  assumes rows: "dir_rows rows ps" and shown: "dir_shown rows ps"
  shows "i < length ps \<Longrightarrow>
    visible (rows ! i) \<longleftrightarrow> (\<forall>j < length ps. under ps j i \<longrightarrow> folder_icon (rows ! j) = Some Iconfopen)"
proof (induction "length (ps ! i)" arbitrary: i rule: less_induct)
  case less
  show ?case
    using rows less.prems
  proof (cases rule: top_or_parent)
    case 1
    then have "\<not> under ps j i" if "j < length ps" for j
      using top_not_under [OF rows that] by blast
    then show ?thesis using 1 shown less.prems by (auto simp: dir_shown_def)
  next
    case (2 k)
    have "length (ps ! k) < length (ps ! i)" using 2(2) by (auto simp: child_of_def)
    then have above: "visible (rows ! k) \<longleftrightarrow>
        (\<forall>j < length ps. under ps j k \<longrightarrow> folder_icon (rows ! j) = Some Iconfopen)"
      using less.hyps 2(1) by blast
    have "visible (rows ! i) \<longleftrightarrow> visible (rows ! k) \<and> folder_icon (rows ! k) = Some Iconfopen"
      using shown less.prems 2 by (simp add: dir_shown_child shown_open_def)
    moreover have "under ps j i \<longleftrightarrow> j = k \<or> under ps j k" if "j < length ps" for j
      using under_child [OF rows less.prems 2(1) that 2(2)] child_under [OF 2(2)] under_step 2(2) by blast
    ultimately show ?thesis using above 2(1) by blast
  qed
qed

text \<open>
  C40. In a directory table, whatever folders are clicked and levels are shown, a row is visible
  exactly when all folders above it are open.
\<close>

theorem visible_when_folders_open:
  assumes "(dir_step ps)\<^sup>*\<^sup>* rows rows'" and "dir_rows rows ps" and "dir_shown rows ps" and "i < length ps"
  shows "visible (rows' ! i) \<longleftrightarrow>
    (\<forall>j < length ps. under ps j i \<longrightarrow> folder_icon (rows' ! j) = Some Iconfopen)"
  using dir.steps_keep [OF assms(1)] assms(2,3) visible_under [OF _ _ assms(4)] by blast

definition demo_rows :: "dir_row list" where
  "demo_rows = [
     \<lparr>row_id = ''row_0_'', folder_icon = Some Iconfopen, arrow = Some down_arrow, visible = True, even_row = True\<rparr>,
     \<lparr>row_id = ''row_0_0_'', folder_icon = None, arrow = None, visible = True, even_row = False\<rparr>]"

lemma demo_ids: "''row_0_'' = ''row_'' @ path_text [0]" "''row_0_0_'' = ''row_'' @ path_text [0, 0]"
  by code_simp+

lemma demo_rows_ok: "dir_rows demo_rows [[0], [0, 0]]" "dir_shown demo_rows [[0], [0, 0]]"
  by (simp_all add: dir_rows_def dir_shown_def demo_rows_def demo_ids All_less_Suc shown_open_def eval_nat_numeral
      del: path_text_simps)

theorem visible_when_folders_open_witness:
  "visible (toggleFolder (path_text [0]) demo_rows ! 1) \<longleftrightarrow>
    (\<forall>j < length [[0], [0, 0 :: nat]]. under [[0], [0, 0]] j 1 \<longrightarrow>
      folder_icon (toggleFolder (path_text [0]) demo_rows ! j) = Some Iconfopen)"
proof (rule visible_when_folders_open [OF _ demo_rows_ok])
  have "dir_step [[0], [0, 0]] demo_rows (toggleFolder (path_text ([[0], [0, 0]] ! 0)) demo_rows)"
    by (rule clicks_folder) (simp_all add: demo_rows_def)
  then show "(dir_step [[0], [0, 0]])\<^sup>*\<^sup>* demo_rows (toggleFolder (path_text [0]) demo_rows)"
    by simp
qed simp

text \<open>A section that is toggled twice is as before, when its parts agree from the start.\<close>

lemma toggleVisibility_twice:
  assumes "summary_visible s = (\<not> content_visible s)" "head_closed s = (\<not> content_visible s)"
    and "trigger_src s = base @ (if content_visible s then ''open.png'' else ''closed.png'')"
  shows "toggleVisibility (toggleVisibility s) = s"
  using assms by (cases s) (auto simp: toggleVisibility_def cut_end_def split: if_splits)

end
