(* ===== verification/Spec2Isabelle.thy ===== *)
theory Spec2Isabelle
  imports Departures Refinement Liveness State_Types Recorder Search_Claims Search_Menu Nav_Pages
    Nav_Document Panel_Width Directory
begin

text \<open>
  The repository holds a trace-driven simulator of the caches of a multiprocessor, and beside it
  the Pin kit with which the traces are recorded, whose reference manual comes with scripts of its
  own. This development models both: the simulator (C++, \<open>src/418Cache/418Cache\<close>) and the scripts of
  the manual (JavaScript, \<open>pin/extras/xed-ia32/doc/ref-manual/html\<close>; the copies under
  \<open>xed-intel64\<close> are the same bytes).

  The simulator. A trace is read into a list of jobs, one access of one processor each. The
  controller hands out one job at a time; the cache of its processor looks the line up and serves
  it, or puts a request on the bus; the bus broadcasts the request to the other caches, collects
  their answers, and after the time of the transfer lets the cache store the line. The protocol is
  MSI, MESI or MOESI.
  \<^item> \<open>Constants\<close> (CacheConstants): the parameters, the clock as a 64-bit word. \<open>1 << 36\<close> on an
    \<open>int\<close> is undefined in C++, so the result of such a shift is an argument of the configuration.
  \<^item> \<open>Jobs\<close> (CacheJob, BusRequest, CacheStats), \<open>Cache_Set\<close> (CacheLine, CacheSet: lookup by tag,
    replacement), \<open>Cache\<close> and \<open>Snoop\<close> (Cache: processor side and bus side), \<open>Bus\<close>
    (AtomicBusManager), \<open>Controller\<close> (the main loop), \<open>Trace_Format\<close> (the reading loop of main, and
    the lines of a trace), \<open>Recorder\<close> (pinatrace.cpp: its main, the instrumentation of a routine and
    the calls it inserts, which the threads of the traced program make in any order under the lock;
    what Pin says of instructions, threads and routines is an argument). A record stands for a
    class, a function for a member function; an index outside a vector, a null pointer, an empty
    queue or an unset index is a value of the error side of a sum (\<open>Sim_Prelude\<close>).
  \<^item> \<open>Cache_Facts\<close>, \<open>Protocol\<close>, \<open>Bus_Side\<close>: what each operation does to the view of a cache, which is
    the map from the tags of a set to their states; the handlers follow the tables of the protocols.
  \<^item> \<open>Atomic\<close>, \<open>Machine\<close>: the abstract machine, in which a job is one atomic step. \<open>Activity\<close> and
    \<open>Progress\<close> show that the loop implements it and ends; \<open>Coherence\<close> has the locale of the coherence
    invariants and its interpretations on the protocols; \<open>Refinement\<close> the run as a function when no
    line is replaced, and the counting; \<open>State_Types\<close> which line states a protocol can have;
    \<open>Liveness\<close> that every job is served, in its turn and in bounded time; \<open>Departures\<close> where the
    simulator is not what it means to be.
  The loop runs on fuel. \<open>run_bound\<close>, the number of jobs times the longest service of one plus two,
  is enough (C1), and more fuel changes nothing. \<open>trace_ok\<close> asks that jobs are for processors that
  exist and that this bound fits the clock.

  The search of the manual (search/search.js and its tables).
  \<^item> \<open>Search_Text\<close> (convertToId and the tables of sections), \<open>Search_Box\<close> (the SearchBox object, its
    timers and menu), \<open>Search_Page\<close> and \<open>Search_Keys\<close> (createResults, the SearchResults object, the
    keys), over a small document model. The case tables of Unicode are a parameter.
  \<^item> \<open>Search_Document\<close>, \<open>Search_Children\<close>, \<open>Search_Results\<close>, \<open>Search_Found\<close>, \<open>Search_Query\<close>: what a
    query shows on a page of results; \<open>Search_Rows\<close>, \<open>Search_Tables_1\<close> to \<open>Search_Tables_3\<close>,
    \<open>Search_Pages\<close>: the rows of the index, the pages of each section, and the check that each row is
    found under its name;
    \<open>Search_Behaviour\<close>, \<open>Search_Menu\<close>, \<open>Search_Claims\<close>: the properties.

  The navigation tree (navtree.js, its child tables and index files).
  \<^item> \<open>Nav_Data\<close> (the root table), \<open>Nav_Tables_1\<close> to \<open>Nav_Tables_7\<close> (the child tables), the theories
    \<open>Nav_Iclass\<close>, \<open>Nav_Iformfl\<close> and \<open>Nav_Iform\<close> with their parts (the child tables of the three large
    enumerations), and \<open>Nav_Index_0\<close>, \<open>_4\<close>, \<open>_5\<close>, \<open>_51\<close> (index files, each entry checked to lead to its
    node). \<open>Nav_Scripts\<close> gives a script by its name and leaves what is not in it to a function \<open>rest\<close>;
    \<open>Nav_Closed\<close> and \<open>Nav_Manual\<close> give that function the remaining child tables, and show that no
    table names a script that the manual does not have.
  \<^item> \<open>Nav_Tree\<close> and \<open>Nav_Page\<close>: the nodes, their loading, opening and selection, the choice of the
    index file, the stored link, and one step for each handler. A script that has not loaded is the
    value None, and a function that waits for one runs when it is there. \<open>Nav_Document\<close>: the
    loading of a script, the filling of the tree outside the page, the name of the stored link.
  \<^item> \<open>Nav_Show\<close>, \<open>Nav_Events\<close>: the tree shows the data and the button its state, through every
    event; \<open>Nav_Select\<close>, \<open>Nav_Goto\<close>, \<open>Nav_Keys\<close>, \<open>Nav_Pages\<close>: what the page of a url selects.

  \<open>Panel_Width\<close> (resize.js) has the cookie of the panel's width, \<open>Directory\<close> (dynsections.js) the
  folders of the directory tables, and \<open>Page_Events\<close> what it is to be kept through all events.

  The properties. C1 to C11, C13 to C15 and C24 stand below: the simulation ends, without an error of
  the model, and does what the abstract machine does; coherence; counting; the operations of the
  caches, sets and bus; the trace file. C12 is in \<open>State_Types\<close>, C16 in \<open>Liveness\<close>, C17 to C20 and
  C22 in \<open>Departures\<close>, C21 and C23 in \<open>Recorder\<close>, C25 in \<open>Search_Claims\<close>, C26 to C30 in
  \<open>Search_Behaviour\<close>, C31 to C34 in \<open>Search_Menu\<close>, C35 to C38 in \<open>Nav_Pages\<close>, C39 in
  \<open>Panel_Width\<close>, C40 in \<open>Directory\<close>.

  Not modelled: the output of the simulator and its command line; the Pin kit, its headers and
  examples, and the programs to be traced, which the simulator never calls; trace scripts; jQuery,
  of which the scripts use what is written out at their place. Of the manual, the pages of the
  search index of all names and of enumerators for names that start with an x, and the index files
  1 to 3, 6 to 50 and 52 on: tens of thousands of rows. Of the former C25 assumes the form that is
  checked of all others; of the latter nothing is assumed. Of the tree, the animations, the place
  of the sync button, and the time that passes while a script loads: it is there at once or never,
  and no event comes between the request and the callback. Of the dynamic sections, the plugin that
  draws the tooltips.
\<close>

section \<open>The simulation as a whole\<close>

text \<open>
  C1: the simulation of any trace whose jobs are for processors of the machine, and whose
  \<open>run_bound\<close> fits the 64-bit clock (both are \<open>trace_ok\<close>), ends after at most \<open>run_bound\<close> cycles
  with every job handed out and every cache idle, and without any of the errors that the model
  has: an index outside a vector, a null pointer, an empty queue, an eviction index that is not
  set. Two things that C++ leaves undefined are no errors of the model, whatever the trace: the
  shift of an \<open>int\<close> beyond its width, whose result is an argument of the configuration, and the
  reading of the constants through the pointer that CacheSet keeps to a dead parameter.
\<close>

theorem simulation_ends:
  assumes "wf_constants k" and "trace_ok k jobs" and "run_bound k jobs \<le> int fuel"
  shows "\<exists>s. simulate k fuel jobs = Some (Inr s) \<and> outstandingRequests s = [] \<and>
           noJobs (caches s) \<and> uint (cycles s) \<le> run_bound k jobs"
proof -
  obtain s where s: "simulate k fuel jobs = Some (Inr s)" "sim_inv k jobs s" "\<not> more_work s"
    by (rule simulate_returns [OF assms])
  obtain m where "implements k s m" "m_clock m + work_left k m \<le> run_bound k jobs"
    using s(2) by (rule sim_invE)
  moreover have "0 \<le> work_left k m"
    using service_bound_pos [OF assms(1)] phase_work_nonneg by (simp add: work_left_def)
  ultimately show ?thesis
    using s(1,3) by (auto simp: more_work_def implements_def)
qed

definition demo_jobs :: "cache_job list" where
  "demo_jobs = [CacheJob CHR ''R'' 0x40 0, CacheJob CHR ''W'' 0x40 1, CacheJob CHR ''R'' 0x1080 0]"

lemma demo_trace_ok: "trace_ok (configured p shl) demo_jobs"
  by (simp add: trace_ok_def demo_jobs_def run_bound_def service_bound_def CacheJob_def)

lemma demo_run_bound: "run_bound (configured p shl) demo_jobs = 3018"
  by (simp add: demo_jobs_def run_bound_def service_bound_def)

theorem simulation_ends_witness:
  "\<exists>s. simulate (configured MESI x86_shl_one) 3018 demo_jobs = Some (Inr s) \<and>
     outstandingRequests s = [] \<and> noJobs (caches s) \<and>
     uint (cycles s) \<le> run_bound (configured MESI x86_shl_one) demo_jobs"
  by (rule simulation_ends [OF wf_configured demo_trace_ok]) (simp only: demo_run_bound)

text \<open>
  C2: when every set has room for the lines of the trace, the simulation computes the abstract
  run: every cache holds the lines, in the states, that executing the jobs one by one on the
  protocol tables gives, and the statistics and the clock are those of that execution.
\<close>

theorem simulation_refines_run:
  assumes "wf_constants k" and "trace_ok k jobs" and "lines_fit k (lines_of k jobs)"
    and "run_bound k jobs \<le> int fuel"
  shows "\<exists>s. simulate k fuel jobs = Some (Inr s) \<and>
           ((map cache_view (caches s), stats s), uint (cycles s)) = abs_run k jobs"
  by (rule simulate_refines [OF assms]) blast

lemma demo_lines_fit: "lines_fit (configured p x86_shl_one) (lines_of (configured p x86_shl_one) demo_jobs)"
  by (cases p; code_simp)

theorem simulation_refines_run_witness:
  "\<exists>s. simulate (configured MSI x86_shl_one) 3018 demo_jobs = Some (Inr s) \<and>
     ((map cache_view (caches s), stats s), uint (cycles s))
       = abs_run (configured MSI x86_shl_one) demo_jobs"
  by (rule simulation_refines_run [OF wf_configured demo_trace_ok demo_lines_fit])
    (simp only: demo_run_bound)

section \<open>Coherence\<close>

definition demo_lines :: "protocol_kind \<Rightarrow> line_state option list" where
  "demo_lines p = map (\<lambda>v. v (1, 0)) (fst (fst (abs_run (configured p x86_shl_one) demo_jobs)))"

lemma demo_lines_each:
  "demo_lines MSI = [Some invalid, Some modified, None, None, None, None, None, None]"
  "demo_lines MESI = [Some invalid, Some modified, None, None, None, None, None, None]"
  "demo_lines MOESI = [Some invalid, Some modified, None, None, None, None, None, None]"
  by code_simp+

lemma demo_lines_all:
  "demo_lines p = [Some invalid, Some modified, None, None, None, None, None, None]"
  by (cases p) (simp_all only: demo_lines_each)

text \<open>A state that the loop goes through, with the line of address 0x40 modified in cache 1.\<close>

lemma demo_reached:
  obtains s where "reached (configured p x86_shl_one) demo_jobs s" and "length (caches s) = 8"
    and "cache_view (caches s ! 0) (1, 0) = Some invalid"
    and "cache_view (caches s ! 1) (1, 0) = Some modified"
proof -
  let ?k = "configured p x86_shl_one"
  have "run_bound ?k demo_jobs \<le> int 3018" by (simp only: demo_run_bound)
  from simulate_refines [OF wf_configured demo_trace_ok demo_lines_fit this]
  obtain s where s: "reached ?k demo_jobs s"
    "((map cache_view (caches s), stats s), uint (cycles s)) = abs_run ?k demo_jobs" .
  have "demo_lines p = map (\<lambda>v. v (1, 0)) (map cache_view (caches s))"
    unfolding demo_lines_def by (simp only: fst_conv flip: s(2))
  then have views: "map (\<lambda>c. cache_view c (1, 0)) (caches s) =
      [Some invalid, Some modified, None, None, None, None, None, None]"
    by (simp add: demo_lines_all comp_def)
  show thesis
  proof (rule that [OF s(1)])
    show len: "length (caches s) = 8"
      using arg_cong [OF views, of length] by simp
    show "cache_view (caches s ! 0) (1, 0) = Some invalid"
      using arg_cong [OF views, of "\<lambda>l. l ! 0"] len by simp
    show "cache_view (caches s ! 1) (1, 0) = Some modified"
      using arg_cong [OF views, of "\<lambda>l. l ! 1"] len by simp
  qed
qed

text \<open>
  C3: under MSI, at every iteration of the main loop, a line that is modified in one cache is
  absent from or invalid in every other cache.
\<close>

theorem msi_single_writer:
  assumes "wf_constants k" and "trace_ok k jobs" and "protocol k = MSI" and "reached k jobs s"
    and "p < length (caches s)" and "q < length (caches s)" and "p \<noteq> q"
    and "cache_view (caches s ! p) x = Some modified"
  shows "cache_view (caches s ! q) x = None \<or> cache_view (caches s ! q) x = Some invalid"
proof (cases "cache_view (caches s ! q) x")
  case (Some st)
  have "MSI_agree modified st"
    by (rule msi.reached_agree [OF assms(4,1,2,3) _ assms(5-7,8) Some]) simp
  with Some show ?thesis by (simp add: MSI_agree_def)
qed simp

theorem msi_single_writer_witness:
  "\<exists>s. reached (configured MSI x86_shl_one) demo_jobs s \<and>
     cache_view (caches s ! 1) (1, 0) = Some modified \<and>
     (cache_view (caches s ! 0) (1, 0) = None \<or> cache_view (caches s ! 0) (1, 0) = Some invalid)"
proof -
  obtain s where s: "reached (configured MSI x86_shl_one) demo_jobs s" "length (caches s) = 8"
    "cache_view (caches s ! 1) (1, 0) = Some modified"
    by (rule demo_reached)
  from msi_single_writer [OF wf_configured demo_trace_ok _ s(1), of 1 0 "(1, 0)"] s show ?thesis
    by auto
qed

text \<open>
  C4: under MESI the same holds of modified and exclusive lines, provided no two lines of the
  trace have the same tag in different sets.
\<close>

theorem mesi_single_owner:
  assumes "wf_constants k" and "trace_ok k jobs" and "protocol k = MESI" and "reached k jobs s"
    and "tags_separate (set (lines_of k jobs))"
    and "p < length (caches s)" and "q < length (caches s)" and "p \<noteq> q"
    and "cache_view (caches s ! p) x = Some st" and "st = modified \<or> st = exclusive"
  shows "cache_view (caches s ! q) x = None \<or> cache_view (caches s ! q) x = Some invalid"
proof (cases "cache_view (caches s ! q) x")
  case (Some st')
  have "MESI_agree st st'"
    by (rule mesi.reached_agree [OF assms(4,1,2,3) _ assms(6-8,9) Some]) (simp add: assms(5))
  with Some assms(10) show ?thesis by (auto simp: MESI_agree_def)
qed simp

lemma demo_tags: "tags_separate (set (lines_of (configured p x86_shl_one) demo_jobs))"
  by (cases p; code_simp)

theorem mesi_single_owner_witness:
  "\<exists>s. reached (configured MESI x86_shl_one) demo_jobs s \<and>
     cache_view (caches s ! 1) (1, 0) = Some modified \<and>
     (cache_view (caches s ! 0) (1, 0) = None \<or> cache_view (caches s ! 0) (1, 0) = Some invalid)"
proof -
  obtain s where s: "reached (configured MESI x86_shl_one) demo_jobs s" "length (caches s) = 8"
    "cache_view (caches s ! 1) (1, 0) = Some modified"
    by (rule demo_reached)
  from mesi_single_owner [OF wf_configured demo_trace_ok _ s(1) demo_tags, of 1 0 "(1, 0)" modified] s
  show ?thesis by auto
qed

text \<open>
  C5: under MOESI, at every iteration, at most one cache holds a line as modified, exclusive or
  owned.
\<close>

theorem moesi_single_owner:
  assumes "wf_constants k" and "trace_ok k jobs" and "protocol k = MOESI" and "reached k jobs s"
    and "p < length (caches s)" and "q < length (caches s)"
    and "cache_view (caches s ! p) x = Some st" and "st \<in> {modified, exclusive, owned}"
    and "cache_view (caches s ! q) x = Some st'" and "st' \<in> {modified, exclusive, owned}"
  shows "p = q"
proof (rule ccontr)
  assume "p \<noteq> q"
  have "owner_agree MOESI st st'"
    by (rule owner.reached_agree [OF assms(4,1,2,3) _ assms(5,6) \<open>p \<noteq> q\<close> assms(7,9)]) simp
  with assms(8,10) show False by (auto simp: owner_agree_def is_owner_def)
qed

theorem moesi_single_owner_witness:
  "\<exists>s. reached (configured MOESI x86_shl_one) demo_jobs s \<and>
     cache_view (caches s ! 1) (1, 0) = Some modified \<and>
     (\<forall>q < 8. \<forall>st \<in> {modified, exclusive, owned}. cache_view (caches s ! q) (1, 0) = Some st \<longrightarrow> 1 = q)"
proof -
  obtain s where s: "reached (configured MOESI x86_shl_one) demo_jobs s" "length (caches s) = 8"
    "cache_view (caches s ! 1) (1, 0) = Some modified"
    by (rule demo_reached)
  from moesi_single_owner [OF wf_configured demo_trace_ok _ s(1), of 1 _ "(1, 0)" modified] s
  show ?thesis by auto
qed

section \<open>Safety of the loop\<close>

text \<open>
  C6: no iteration of the main loop runs into an error of the model: no index outside a vector,
  no null pointer, no empty queue, no uninitialised eviction index.
\<close>

theorem loop_never_fails:
  assumes "wf_constants k" and "trace_ok k jobs" and "reached k jobs s" and "more_work s"
  shows "\<exists>s'. main_step k s = Inr s'"
  using sim_inv_step [OF reached_inv [OF assms(3,1,2)] assms(4)] by blast

lemma demo_more_work: "more_work (initial_sim k demo_jobs)"
  by (simp add: more_work_def initial_sim_def demo_jobs_def)

theorem loop_never_fails_witness:
  "\<exists>s'. main_step (configured MOESI x86_shl_one) (initial_sim (configured MOESI x86_shl_one) demo_jobs) = Inr s'"
  by (rule loop_never_fails [OF wf_configured demo_trace_ok reached.first demo_more_work])

text \<open>
  C7: at most one cache is busy at any iteration, and the bus is in use exactly when a cache
  waits for its request to be served.
\<close>

theorem one_job_at_a_time:
  assumes "wf_constants k" and "trace_ok k jobs" and "reached k jobs s"
  shows "length (filter busy (caches s)) \<le> 1 \<and>
         (inUse (bus s) \<longleftrightarrow> (\<exists>c \<in> set (caches s). busRequestBeingServiced c))"
proof -
  obtain ph where ph: "in_phase k s ph"
    by (rule reached_in_phase [OF assms(3,1,2)])
  have only: "length (filter busy cs) \<le> 1" if "quiet_but p cs" for p cs
  proof -
    have "\<forall>i < length cs. busy (cs ! i) \<longrightarrow> i = p"
      using that by (auto simp: quiet_but_def quiet_def)
    then have "{i. i < length cs \<and> busy (cs ! i)} \<subseteq> {p}" by auto
    then have "card {i. i < length cs \<and> busy (cs ! i)} \<le> card {p}"
      by (intro card_mono) simp_all
    then show ?thesis by (simp add: length_filter_conv_card)
  qed
  have others: "\<not> busRequestBeingServiced c" if "quiet_but p cs" "c \<in> set cs" "c \<noteq> cs ! p" for p cs c
    using that by (auto simp: quiet_but_def quiet_def in_set_conv_nth)
  show ?thesis
  proof (cases ph)
    case Idle
    with ph have "\<forall>c \<in> set (caches s). quiet c" "\<not> inUse (bus s)"
      by (simp_all add: in_phase_def)
    then show ?thesis
      using only [OF quiet_but_all] by (auto simp: quiet_def)
  next
    case (Local p e)
    with ph have "quiet_but p (caches s)" "working (caches s ! p) False" "\<not> inUse (bus s)"
      by (simp_all add: in_phase_def)
    then show ?thesis
      using only others by (fastforce simp: working_def)
  next
    case (On_bus p job sh e)
    with ph have "quiet_but p (caches s)" "working (caches s ! p) True" "inUse (bus s)"
      "p < length (caches s)"
      by (simp_all add: in_phase_def)
    then show ?thesis
      using only nth_mem by (auto simp: working_def)
  qed
qed

theorem one_job_at_a_time_witness:
  "length (filter busy (caches (initial_sim (configured MSI x86_shl_one) demo_jobs))) \<le> 1 \<and>
   (inUse (bus (initial_sim (configured MSI x86_shl_one) demo_jobs)) \<longleftrightarrow>
      (\<exists>c \<in> set (caches (initial_sim (configured MSI x86_shl_one) demo_jobs)). busRequestBeingServiced c))"
  by (rule one_job_at_a_time [OF wf_configured demo_trace_ok reached.first])

section \<open>Statistics\<close>

text \<open>
  C8: every read and write of the trace is counted exactly once, as a hit or as a miss,
  whatever lines are replaced.
\<close>

theorem accesses_counted_once:
  assumes "wf_constants k" and "trace_ok k jobs" and "simulate k fuel jobs = Some (Inr s)"
  shows "numHit (stats s) + numMiss (stats s) = of_nat (length (filter (\<lambda>j. isRead j \<or> isWrite j) jobs))"
  using final_counts(1) [OF assms] by (simp add: accesses_def is_access_def [abs_def])

lemma demo_simulates:
  obtains s where "simulate (configured p x86_shl_one) 3018 demo_jobs = Some (Inr s)"
proof -
  have "run_bound (configured p x86_shl_one) demo_jobs \<le> int 3018" by (simp only: demo_run_bound)
  from simulate_returns [OF wf_configured demo_trace_ok this] that show thesis by blast
qed

theorem accesses_counted_once_witness:
  "\<exists>s. simulate (configured MESI x86_shl_one) 3018 demo_jobs = Some (Inr s) \<and>
     numHit (stats s) + numMiss (stats s) = 3"
proof -
  obtain s where s: "simulate (configured MESI x86_shl_one) 3018 demo_jobs = Some (Inr s)"
    by (rule demo_simulates)
  have "filter (\<lambda>j. isRead j \<or> isWrite j) demo_jobs = demo_jobs" "length demo_jobs = 3"
    by (simp_all add: demo_jobs_def isRead_def isWrite_def CacheJob_def)
  with accesses_counted_once [OF wf_configured demo_trace_ok s] s show ?thesis by auto
qed

text \<open>
  C9: under MSI and MESI a request goes to the bus exactly when the access is a miss.
\<close>

theorem bus_requests_are_misses:
  assumes "wf_constants k" and "trace_ok k jobs" and "protocol k \<noteq> MOESI"
    and "simulate k fuel jobs = Some (Inr s)"
  shows "numBusRequests (stats s) = numMiss (stats s)"
  by (rule final_counts(2) [OF assms(1,2,4,3)])

theorem bus_requests_are_misses_witness:
  "\<exists>s. simulate (configured MSI x86_shl_one) 3018 demo_jobs = Some (Inr s) \<and>
     numBusRequests (stats s) = numMiss (stats s)"
proof -
  obtain s where s: "simulate (configured MSI x86_shl_one) 3018 demo_jobs = Some (Inr s)"
    by (rule demo_simulates)
  from bus_requests_are_misses [OF wf_configured demo_trace_ok _ s] s show ?thesis by auto
qed

section \<open>The processor side of a cache\<close>

text \<open>
  C10: every request of a processor, in every protocol, does what the table of the protocol says
  for the states in which the tag of the line is found: it is served locally and counted as a
  hit, silently upgraded, or sent to the bus as a miss, with the message and the cost of the
  table; it keeps the cache well formed and never fails.
\<close>

theorem dispatch_follows_table:
  assumes "wf_cache k now c" and "wf_constants k"
  shows "\<exists>d st'. dispatch_job k now job (c, st) = Inr (d, st') \<and> wf_cache k now d \<and>
    request_served k now job (job_action k job (cache_view c)) (c, st) (d, st')"
  using dispatch_job_spec [OF assms, of job st]
  by (force simp: request_served_def after_request_def Let_def)

lemma new_cache_wf: "wf_cache (configured p shl) now (new_cache (configured p shl) i queued)"
  by (simp add: wf_cache_def new_cache_def wf_set_def used_by_def tags_of_def empty_set_of_lines_def)

theorem dispatch_follows_table_witness:
  "\<exists>d st'. dispatch_job (configured MESI x86_shl_one) 1 (CacheJob CHR ''W'' 0x40 0)
             (new_cache (configured MESI x86_shl_one) 0 [], CacheStats) = Inr (d, st') \<and>
     wf_cache (configured MESI x86_shl_one) 1 d \<and>
     request_served (configured MESI x86_shl_one) 1 (CacheJob CHR ''W'' 0x40 0)
       (job_action (configured MESI x86_shl_one) (CacheJob CHR ''W'' 0x40 0)
          (cache_view (new_cache (configured MESI x86_shl_one) 0 [])))
       (new_cache (configured MESI x86_shl_one) 0 [], CacheStats) (d, st')"
  by (rule dispatch_follows_table [OF new_cache_wf wf_configured])



text \<open>
  Decoding gives every address a set of the cache, on any target.
\<close>

theorem decoded_set_in_range:
  assumes "wf_constants k"
  shows "0 \<le> fst (decode_address k a) \<and> fst (decode_address k a) < numSets k"
  by (rule decode_set_range [OF assms])

theorem decoded_set_in_range_witness:
  "0 \<le> fst (decode_address (configured MESI x86_shl_one) 0x106074800) \<and>
   fst (decode_address (configured MESI x86_shl_one) 0x106074800) < numSets (configured MESI x86_shl_one)"
  by (rule decoded_set_in_range [OF wf_configured])

text \<open>
  C13: eviction from a set takes the first of the least recently used lines, and only it.
\<close>

theorem evicts_least_recently_used:
  assumes "wf_set k s" and "used_by now s" and "now < ULLONG_MAX" and "allLines s \<noteq> []"
  shows "\<exists>s' i. evictLRULine s = Inr s' \<and> i < length (allLines s) \<and>
           (\<forall>l \<in> set (allLines s). lastUsedCycle (allLines s ! i) \<le> lastUsedCycle l) \<and>
           (\<forall>j < i. lastUsedCycle (allLines s ! i) < lastUsedCycle (allLines s ! j)) \<and>
           tags_of s' = erase_at i (tags_of s) \<and>
           line_at s' = (line_at s)(myTag (allLines s ! i) := None)"
proof -
  have "used_before_max s" by (rule used_before_max [OF assms(2-4)])
  then obtain s' n where s': "evictLRULine s = Inr s'" and n: "lru_position s = Some n"
    "\<forall>l \<in> set (allLines s). lastUsedCycle (allLines s ! n) \<le> lastUsedCycle l"
    "\<forall>j < n. lastUsedCycle (allLines s ! n) < lastUsedCycle (allLines s ! j)"
    using evictLRULine_ok by (metis lru_position_SomeE)
  have "distinct (tags_of s)" using assms(1) by (simp add: wf_set_def)
  from evictLRULine_effect [OF this s'] n s' show ?thesis
    by (metis option.inject)
qed

definition demo_set :: cache_set where
  "demo_set = \<lparr>allLines =
     [(CacheLine 0 0 7)\<lparr>lastUsedCycle := 5\<rparr>, (CacheLine 0 0 8)\<lparr>lastUsedCycle := 3\<rparr>,
      (CacheLine 0 0 9)\<lparr>lastUsedCycle := 3\<rparr>]\<rparr>"

lemma demo_set_ok:
  "wf_set (configured MSI shl) demo_set" "used_by 6 demo_set" "6 < ULLONG_MAX" "allLines demo_set \<noteq> []"
  by (simp_all add: demo_set_def wf_set_def used_by_def tags_of_def CacheLine_def ULLONG_MAX_def)

theorem evicts_least_recently_used_witness:
  "\<exists>s' i. evictLRULine demo_set = Inr s' \<and> i < length (allLines demo_set) \<and>
     tags_of s' = erase_at i (tags_of demo_set)"
  using evicts_least_recently_used [OF demo_set_ok] by blast

section \<open>The bus side\<close>



text \<open>
  C15: when the bus is done with a request, the requester holds the line in the state of the
  protocol, is no longer busy, and has lost at most one line, the one its set replaced.
\<close>

theorem request_completed:
  assumes "wf_cache k now c" and "wf_constants k" and "now < ULLONG_MAX"
    and "currentJob c = Some job" and "decode_address k (address job) = x"
  shows "\<exists>d v st'. busJobDone k now sh (c, st) = Inr (d, st') \<and> wf_cache k now d \<and>
    \<not> busy d \<and> \<not> haveBusRequest d \<and> \<not> busRequestBeingServiced d \<and>
    room_for k (cache_view c) x v \<and>
    cache_view d = v(x \<mapsto> fill_state k job sh (old_state (cache_view c) x))"
proof -
  obtain d v where d: "busJobDone k now sh (c, st) =
        Inr (d, fill_stats k job sh (old_state (cache_view c) x)
                  (if write_back_needed k c x then count_evict st else st))"
    "wf_cache k now d" "room_made k c x v"
    "cache_view d = v(x \<mapsto> fill_state k job sh (old_state (cache_view c) x))"
    "d = (finished c)\<lparr>localCache := localCache d\<rparr>"
    by (rule busJobDone_spec [OF assms, of sh st])
  have "\<not> busy d \<and> \<not> haveBusRequest d \<and> \<not> busRequestBeingServiced d"
    by (subst d(5), subst d(5), subst d(5)) (simp add: finished_def)
  with d room_made_room_for [OF assms(1,2,5) d(3)] show ?thesis by blast
qed

theorem request_completed_witness:
  "\<exists>d v st'. busJobDone (configured MESI x86_shl_one) 1 False
       ((new_cache (configured MESI x86_shl_one) 0 [])\<lparr>currentJob := Some (CacheJob CHR ''R'' 0x40 0)\<rparr>,
        CacheStats) = Inr (d, st') \<and> wf_cache (configured MESI x86_shl_one) 1 d \<and> \<not> busy d \<and>
     cache_view d = v((1, 0) \<mapsto> exclusive)"
proof -
  have x: "decode_address (configured MESI x86_shl_one) (address (CacheJob CHR ''R'' 0x40 0)) = (1, 0)"
    by code_simp
  have "fill_state (configured MESI x86_shl_one) (CacheJob CHR ''R'' 0x40 0) False s = exclusive" for s
    by (simp add: fill_state_def isWrite_def isRead_def CacheJob_def)
  moreover have "wf_cache (configured MESI x86_shl_one) 1
      ((new_cache (configured MESI x86_shl_one) 0 [])\<lparr>currentJob := Some (CacheJob CHR ''R'' 0x40 0)\<rparr>)"
    using new_cache_wf by (simp only: wf_cache_fields)
  moreover have "(1 :: u64) < ULLONG_MAX" by code_simp
  ultimately show ?thesis
    using request_completed [OF _ wf_configured _ _ x, of 1
      "(new_cache (configured MESI x86_shl_one) 0 [])\<lparr>currentJob := Some (CacheJob CHR ''R'' 0x40 0)\<rparr>"
      False CacheStats] by (auto simp del: configured_simps)
qed

text \<open>
  Of the caches with a request, the bus serves the one with the lowest number.
\<close>

theorem bus_serves_lowest_processor:
  assumes "length cs = nat (numProcessors k)"
  shows "next_request cs (processors k) =
           Inr (map_option int (find_index haveBusRequest cs))"
proof -
  have "find_index (haveBusRequest \<circ> (!) cs) [0..<length cs] = find_index (haveBusRequest \<circ> id) cs"
    by (rule find_index_cong_map) (simp add: map_nth)
  moreover have "map_option (\<lambda>n. int ([0..<length cs] ! n)) (find_index haveBusRequest cs) =
      map_option int (find_index haveBusRequest cs)"
    using find_index_SomeD [of haveBusRequest cs] by (cases "find_index haveBusRequest cs") auto
  ultimately show ?thesis
    using next_request_first [of "[0..<length cs]" cs] assms
    by (simp add: processors_def comp_def)
qed

theorem bus_serves_lowest_processor_witness:
  "next_request (map (\<lambda>i. (new_cache (configured MSI x86_shl_one) i [])\<lparr>haveBusRequest := 2 \<le> i\<rparr>)
       (processors (configured MSI x86_shl_one)))
     (processors (configured MSI x86_shl_one)) = Inr (Some 2)"
proof -
  let ?k = "configured MSI x86_shl_one"
  let ?cs = "map (\<lambda>i. (new_cache ?k i [])\<lparr>haveBusRequest := 2 \<le> i\<rparr>) (processors ?k)"
  have "find_index haveBusRequest ?cs = Some 2"
    by (simp add: processors_def upt_rec numeral_2_eq_2)
  moreover have "length ?cs = nat (numProcessors ?k)"
    by (simp add: processors_def)
  ultimately show ?thesis
    using bus_serves_lowest_processor [of ?cs ?k] by simp
qed

section \<open>Traces\<close>

text \<open>
  The controller reads back what the pin tool records: each recorded access is one job,
  in order, for the processor that is the thread modulo the number of processors. The null
  address, which is printed otherwise, is left out.
\<close>

theorem trace_round_trip:
  assumes "0 < numProcessors k" and "numProcessors k < 2 ^ 32"
    and "list_all (\<lambda>(w, a, t). a \<noteq> 0 \<and> t < 2 ^ 31) accs"
  shows "read_trace k (record_all accs) =
    Some (map (\<lambda>(w, a, t). CacheJob (if w then CHR ''W'' else CHR ''R'') a (int t mod numProcessors k)) accs)"
  unfolding read_trace_def read_lines_recorded [OF assms] recorded_job_def ..

theorem trace_round_trip_witness:
  "read_trace (configured MSI x86_shl_one) (record_all [(False, 0x106074800, 0), (True, 0x7fff5ed9b8f0, 336)]) =
     Some [CacheJob CHR ''R'' 0x106074800 0, CacheJob CHR ''W'' 0x7fff5ed9b8f0 0]"
proof -
  have "0 < numProcessors (configured MSI x86_shl_one)" "numProcessors (configured MSI x86_shl_one) < 2 ^ 32"
    "list_all (\<lambda>(w, a, t). a \<noteq> 0 \<and> t < 2 ^ 31) [(False, 0x106074800 :: u64, 0 :: nat), (True, 0x7fff5ed9b8f0, 336)]"
    by simp_all
  from trace_round_trip [OF this] show ?thesis by simp
qed

text \<open>
  C24: from the text of a trace file to the end of the simulation. Whatever the lines say (a
  comment, a blank line, a number that is missing), as long as no number on them overflows its
  type and the clock has room for so many lines: each line is read to one job, for a processor
  of the machine, and the simulation of these jobs ends without a modelled error.
\<close>

theorem any_trace_file_runs:
  assumes "wf_constants k" and "list_all line_fits (getlines file)"
    and "int (length (getlines file)) * (service_bound k + 2) + 2 < 2 ^ 64"
  shows "\<exists>jobs s. read_trace k file = Some jobs \<and> length jobs = length (getlines file) \<and>
    list_all (\<lambda>job. 0 \<le> threadId job \<and> threadId job < numProcessors k) jobs \<and>
    simulate k (nat (run_bound k jobs)) jobs = Some (Inr s) \<and> outstandingRequests s = []"
proof -
  have n: "0 < numProcessors k" "numProcessors k < 2 ^ 32"
    using assms(1) by (simp_all add: wf_constants_def)
  obtain jobs where jobs: "read_trace k file = Some jobs"
    using read_lines_None_iff assms(2) unfolding read_trace_def by blast
  then have len: "length jobs = length (getlines file)"
    unfolding read_trace_def by (rule read_lines_length)
  have processors: "list_all (\<lambda>job. 0 \<le> threadId job \<and> threadId job < numProcessors k) jobs"
    using read_lines_processors [OF n] jobs by (simp add: read_trace_def)
  then have "trace_ok k jobs"
    using assms(3) len by (simp add: trace_ok_def run_bound_def)
  then obtain s where "simulate k (nat (run_bound k jobs)) jobs = Some (Inr s)" "\<not> more_work s"
    by (rule simulate_returns [OF assms(1), where fuel = "nat (run_bound k jobs)"]) (simp, blast)
  with jobs len processors show ?thesis by (auto simp: more_work_def)
qed

definition comment_trace :: string where
  "comment_trace = ''R 0x40 0'' @ [newline] @ ''//From invalid to exclusive'' @ [newline] @ [newline]"

theorem any_trace_file_runs_witness:
  "\<exists>s. read_trace (configured MESI x86_shl_one) comment_trace =
       Some [CacheJob CHR ''R'' 0x40 0, CacheJob CHR ''/'' 0x40 0, CacheJob CHR ''/'' 0x40 0] \<and>
     simulate (configured MESI x86_shl_one)
       (nat (run_bound (configured MESI x86_shl_one)
          [CacheJob CHR ''R'' 0x40 0, CacheJob CHR ''/'' 0x40 0, CacheJob CHR ''/'' 0x40 0]))
       [CacheJob CHR ''R'' 0x40 0, CacheJob CHR ''/'' 0x40 0, CacheJob CHR ''/'' 0x40 0]
       = Some (Inr s) \<and> outstandingRequests s = []"
proof -
  have jobs: "read_trace (configured MESI x86_shl_one) comment_trace =
      Some [CacheJob CHR ''R'' 0x40 0, CacheJob CHR ''/'' 0x40 0, CacheJob CHR ''/'' 0x40 0]"
    by code_simp
  have fits: "list_all line_fits (getlines comment_trace)" by code_simp
  have len: "length (getlines comment_trace) = 3" by code_simp
  have "int (length (getlines comment_trace)) * (service_bound (configured MESI x86_shl_one) + 2) + 2 < 2 ^ 64"
    by (simp add: len service_bound_def)
  from any_trace_file_runs [OF wf_configured fits this] show ?thesis
    unfolding jobs by auto
qed

end
